(* ===== verification/Prelude.thy ===== *)
theory Prelude
  imports Main "HOL-Library.Word"
begin

text \<open>
  Shared vocabulary of the development.

  \<^item> the machine integers of the sources: \<open>u8\<close>, \<open>u32\<close>, \<open>u64\<close> (the C and the Go side use the
    same widths) and the byte strings of the Go side;
  \<^item> fallible results: \<open>'e + 'a\<close>, \<open>Inl\<close> the error, \<open>Inr\<close> the value;
  \<^item> \<open>named_theorems\<close> collections that carry the component proofs;
  \<^item> generic lemmas on words, lists, association lists and rounding up to a multiple.
\<close>

section \<open>Types\<close>

type_synonym u8 = "8 word"
type_synonym u16 = "16 word"
type_synonym u32 = "32 word"
type_synonym u64 = "64 word"

text \<open>A Go string is a sequence of bytes; \<open>char\<close> of HOL is exactly a byte.\<close>

type_synonym gostring = "char list"

named_theorems word_nat \<open>transfer of word operations to natural numbers\<close>
named_theorems layout \<open>facts on C structure layout\<close>
named_theorems bpf_laws \<open>what the BPF map helpers promise\<close>

section \<open>Words and natural numbers\<close>

lemma unat_u64_lt [word_nat]: "unat (x :: u64) < 18446744073709551616"
  using unsigned_less [where ?'a = nat and w = x] by simp

lemma unat_u32_lt [word_nat]: "unat (x :: u32) < 4294967296"
  using unsigned_less [where ?'a = nat and w = x] by simp

lemma unat_u8_lt [word_nat]: "unat (x :: u8) < 256"
  using unsigned_less [where ?'a = nat and w = x] by simp

lemma word_of_nat_unat [simp]: "word_of_nat (unat w) = (w :: 'a::len word)"
  by simp

lemma u64_le_nat [word_nat]: "(x :: u64) \<le> y \<longleftrightarrow> unat x \<le> unat y"
  by (rule word_le_nat_alt)

lemma u64_less_nat [word_nat]: "(x :: u64) < y \<longleftrightarrow> unat x < unat y"
  by (rule word_less_nat_alt)

lemma unat_sub_u64 [word_nat]:
  "unat (x - y :: u64) =
     (if unat y \<le> unat x then unat x - unat y
      else 18446744073709551616 + unat x - unat y)"
proof (cases "y \<le> x")
  case True
  then show ?thesis by (simp add: unat_sub word_le_nat_alt)
next
  case False
  then have lt: "unat x < unat y" by (simp add: word_le_nat_alt)
  have "unat (x - y) = unat x + 2 ^ 64 - unat y"
    using False by (simp add: unat_sub_if' word_le_nat_alt)
  with lt show ?thesis by simp
qed

lemma unat_minus_1_u64: "unat (- 1 :: u64) = 18446744073709551615"
  by (simp add: unsigned_minus_1_eq_mask mask_eq_exp_minus_1)

lemma unat_add_u64 [word_nat]:
  "unat (x + y :: u64) = (unat x + unat y) mod 18446744073709551616"
  by (simp add: unat_word_ariths)

lemma unat_mult_u64 [word_nat]:
  "unat (x * y :: u64) = (unat x * unat y) mod 18446744073709551616"
  by (simp add: unat_word_ariths)

lemma unat_div_u64 [word_nat]: "unat (x div y :: u64) = unat x div unat y"
  by (rule unat_div)

lemma unat_ucast_u64 [word_nat]: "unat (ucast (d :: u32) :: u64) = unat d"
proof -
  have "unat d < 2 ^ 64" using unat_u32_lt [of d] by simp
  then show ?thesis by (simp add: unsigned_ucast_eq take_bit_nat_eq_self)
qed

lemma unat_take_bit: "unat (take_bit n (w :: 'a::len word)) = unat w mod 2 ^ n"
  by (subst unsigned_take_bit_eq) (rule take_bit_eq_mod)

lemma sub_u64_elapsed:
  assumes "t1 = t0 + of_nat d" and "d < 18446744073709551616"
  shows "unat (t1 - t0 :: u64) = d"
  using assms by (simp add: unat_of_nat)

section \<open>Rounding up to a multiple\<close>

definition align_up :: "nat \<Rightarrow> nat \<Rightarrow> nat" where
  "align_up n a = (n + a - 1) div a * a"

lemma align_up_1 [simp]: "align_up n 1 = n" "align_up n (Suc 0) = n"
  by (simp_all add: align_up_def)

lemma align_up_dvd [layout]: "a dvd align_up n a"
  by (simp add: align_up_def)

lemma align_up_ge [layout]:
  assumes "0 < a"
  shows "n \<le> align_up n a"
proof -
  have "(n + a - 1) mod a < a" using assms by simp
  moreover have "(n + a - 1) div a * a + (n + a - 1) mod a = n + a - 1" by simp
  ultimately show ?thesis unfolding align_up_def by linarith
qed

lemma align_up_lt [layout]:
  assumes "0 < a"
  shows "align_up n a < n + a"
proof -
  have "(n + a - 1) div a * a \<le> n + a - 1" by simp
  then show ?thesis using assms unfolding align_up_def by linarith
qed

lemma align_up_id: "0 < a \<Longrightarrow> a dvd n \<Longrightarrow> align_up n a = n"
  by (auto simp: align_up_def dvd_def div_nat_eqI)

section \<open>Powers of two\<close>

definition pow2 :: "nat \<Rightarrow> bool" where
  "pow2 n \<longleftrightarrow> (\<exists>k. n = 2 ^ k)"

lemma pow2_pos: "pow2 n \<Longrightarrow> 0 < n"
  by (auto simp: pow2_def)

lemma pow2_small [simp]: "pow2 1" "pow2 (Suc 0)" "pow2 2" "pow2 4" "pow2 8"
proof -
  show "pow2 1" "pow2 (Suc 0)" unfolding pow2_def by (rule exI [of _ 0], simp)+
  show "pow2 2" unfolding pow2_def by (rule exI [of _ 1], simp)
  show "pow2 4" unfolding pow2_def by (rule exI [of _ 2], simp)
  show "pow2 8" unfolding pow2_def by (rule exI [of _ 3], simp)
qed

lemma pow2_max: "pow2 a \<Longrightarrow> pow2 b \<Longrightarrow> pow2 (max a b)"
  by (simp add: max_def)

lemma pow2_le_dvd: "pow2 a \<Longrightarrow> pow2 b \<Longrightarrow> a \<le> b \<Longrightarrow> a dvd b"
  by (auto simp: pow2_def le_imp_power_dvd)

end
