(* ===== verification/BpfMaps.thy ===== *)
theory BpfMaps
  imports Prelude "HOL-Library.AList"
begin

text \<open>
  The two kinds of BPF map the program declares, as interfaces. The kernel that implements
  them is not part of the repository: a client is written against the operations, and what
  it relies on is stated as the laws of the locales \<open>bpf_hash\<close> (a \<open>BPF_MAP_TYPE_HASH\<close> used
  with \<open>BPF_ANY\<close>) and \<open>bpf_array\<close> (a \<open>BPF_MAP_TYPE_ARRAY\<close> of 64-bit values).

  The second half gives a reference instance of both, sized by the declarations of
  \<open>src/internal/ebpf/block_latency.c\<close>, and shows that it obeys the laws.
\<close>

section \<open>Hash maps with a bounded number of entries\<close>

text \<open>An update of \<open>k\<close> has room when it replaces an entry or one is free.\<close>

definition has_room :: "nat \<Rightarrow> ('k \<rightharpoonup> 'v) \<Rightarrow> 'k \<Rightarrow> bool" where
  "has_room cap m k \<longleftrightarrow> k \<in> dom m \<or> card (dom m) < cap"

text \<open>
  \<open>bpf_map_update_elem\<close> with \<open>BPF_ANY\<close> creates or replaces an entry and returns 0; when the
  map holds \<open>max_entries\<close> other keys it returns a negative error and changes nothing.
  \<open>bpf_map_delete_elem\<close> removes the entry, or returns a negative error when there is none.
\<close>

locale bpf_hash =
  fixes lookup :: "'h \<Rightarrow> 'k \<Rightarrow> 'v option"
    and update :: "'h \<Rightarrow> 'k \<Rightarrow> 'v \<Rightarrow> int \<times> 'h"
    and delete :: "'h \<Rightarrow> 'k \<Rightarrow> int \<times> 'h"
    and invar :: "'h \<Rightarrow> bool"
    and max_entries :: nat
  assumes finite_keys: "invar m \<Longrightarrow> finite (dom (lookup m))"
    and bounded: "invar m \<Longrightarrow> card (dom (lookup m)) \<le> max_entries"
    and update_room: "invar m \<Longrightarrow> has_room max_entries (lookup m) k \<Longrightarrow>
      fst (update m k v) = 0 \<and> lookup (snd (update m k v)) = (lookup m)(k \<mapsto> v)"
    and update_full: "invar m \<Longrightarrow> \<not> has_room max_entries (lookup m) k \<Longrightarrow>
      fst (update m k v) < 0 \<and> lookup (snd (update m k v)) = lookup m"
    and delete_entry: "invar m \<Longrightarrow> lookup (snd (delete m k)) = (lookup m)(k := None)"
    and delete_code: "invar m \<Longrightarrow> fst (delete m k) = 0 \<longleftrightarrow> k \<in> dom (lookup m)"
    and invar_update: "invar m \<Longrightarrow> invar (snd (update m k v))"
    and invar_delete: "invar m \<Longrightarrow> invar (snd (delete m k))"
begin

lemma lookup_update:
  "invar m \<Longrightarrow> lookup (snd (update m k v)) =
     (if has_room max_entries (lookup m) k then (lookup m)(k \<mapsto> v) else lookup m)"
  using update_room [of m k v] update_full [of m k v] by auto

lemma lookup_update_other:
  "invar m \<Longrightarrow> k' \<noteq> k \<Longrightarrow> lookup (snd (update m k v)) k' = lookup m k'"
  by (simp add: lookup_update)

lemma update_then_lookup:
  "invar m \<Longrightarrow> fst (update m k v) = 0 \<Longrightarrow> lookup (snd (update m k v)) k = Some v"
  using update_room [of m k v] update_full [of m k v] by fastforce

lemma delete_makes_room:
  assumes "invar m" and "k \<in> dom (lookup m)"
  shows "has_room max_entries (lookup (snd (delete m k))) k'"
proof -
  have "card (dom (lookup m) - {k}) < card (dom (lookup m))"
    using assms by (intro psubset_card_mono finite_keys) auto
  then show ?thesis using bounded [OF assms(1)] assms
    by (auto simp: has_room_def delete_entry)
qed

end

section \<open>Arrays of 64-bit values\<close>

text \<open>
  An array map has the keys \<open>0 ..< size\<close> and no others; they always exist and can be
  overwritten but not removed.
\<close>

locale bpf_array =
  fixes lookup :: "'a \<Rightarrow> u32 \<Rightarrow> u64 option"
    and update :: "'a \<Rightarrow> u32 \<Rightarrow> u64 \<Rightarrow> int \<times> 'a"
    and invar :: "'a \<Rightarrow> bool"
    and size :: nat
  assumes lookup_some: "invar a \<Longrightarrow> lookup a i \<noteq> None \<longleftrightarrow> unat i < size"
    and update_in: "invar a \<Longrightarrow> unat i < size \<Longrightarrow>
      fst (update a i v) = 0 \<and> lookup (snd (update a i v)) = (lookup a)(i \<mapsto> v)"
    and update_out: "invar a \<Longrightarrow> \<not> unat i < size \<Longrightarrow>
      fst (update a i v) < 0 \<and> lookup (snd (update a i v)) = lookup a"
    and invar_array_update: "invar a \<Longrightarrow> invar (snd (update a i v))"
begin

lemma lookup_inside: "invar a \<Longrightarrow> unat i < size \<Longrightarrow> \<exists>v. lookup a i = Some v"
  using lookup_some [of a i] by auto

lemma lookup_after_update:
  "invar a \<Longrightarrow> lookup a i \<noteq> None \<Longrightarrow> lookup (snd (update a i v)) = (lookup a)(i \<mapsto> v)"
  using lookup_some [of a i] update_in [of a i v] by auto

end

section \<open>The reference instance\<close>

text \<open>
  \<open>E2BIG\<close>, \<open>ENOENT\<close> are the error numbers the helpers return. A hash map is an association
  list with distinct keys, an array map the list of its values.
\<close>

definition E2BIG :: int where "E2BIG = 7"
definition ENOENT :: int where "ENOENT = 2"

definition hash_update :: "nat \<Rightarrow> ('k \<times> 'v) list \<Rightarrow> 'k \<Rightarrow> 'v \<Rightarrow> int \<times> ('k \<times> 'v) list" where
  "hash_update cap m k v =
     (if map_of m k \<noteq> None \<or> length m < cap then (0, AList.update k v m) else (- E2BIG, m))"

definition hash_delete :: "('k \<times> 'v) list \<Rightarrow> 'k \<Rightarrow> int \<times> ('k \<times> 'v) list" where
  "hash_delete m k =
     (if map_of m k \<noteq> None then (0, AList.delete k m) else (- ENOENT, m))"

definition hash_invar :: "nat \<Rightarrow> ('k \<times> 'v) list \<Rightarrow> bool" where
  "hash_invar cap m \<longleftrightarrow> distinct (map fst m) \<and> length m \<le> cap"

definition array_lookup :: "u64 list \<Rightarrow> u32 \<Rightarrow> u64 option" where
  "array_lookup a i = (if unat i < length a then Some (a ! unat i) else None)"

definition array_update :: "u64 list \<Rightarrow> u32 \<Rightarrow> u64 \<Rightarrow> int \<times> u64 list" where
  "array_update a i v =
     (if unat i < length a then (0, a[unat i := v]) else (- E2BIG, a))"

definition array_invar :: "nat \<Rightarrow> u64 list \<Rightarrow> bool" where
  "array_invar n a \<longleftrightarrow> length a = n"

lemma card_dom_alist: "distinct (map fst m) \<Longrightarrow> card (dom (map_of m)) = length m"
  using distinct_card [of "map fst m"] by (simp add: dom_map_of_conv_image_fst)

lemma length_alist_update:
  "length (AList.update k v m) = (if k \<in> fst ` set m then length m else Suc (length m))"
  by (induction m) auto

lemma has_room_alist:
  "distinct (map fst m) \<Longrightarrow>
     has_room cap (map_of m) k \<longleftrightarrow> map_of m k \<noteq> None \<or> length m < cap"
  unfolding has_room_def by (subst card_dom_alist) auto

lemma hash_invar_update: "hash_invar cap m \<Longrightarrow> hash_invar cap (snd (hash_update cap m k v))"
  by (auto simp: hash_invar_def hash_update_def length_alist_update
      map_of_eq_None_iff intro: distinct_update split: if_splits)

lemma hash_invar_delete: "hash_invar cap m \<Longrightarrow> hash_invar cap (snd (hash_delete m k))"
  by (auto simp: hash_invar_def hash_delete_def intro: distinct_delete
      order_trans [OF length_delete_le])

text \<open>The reference instance obeys the laws, whatever its size.\<close>

interpretation hash_map: bpf_hash map_of "hash_update cap" hash_delete "hash_invar cap" cap
  for cap
proof unfold_locales
  fix m :: "('a \<times> 'b) list" and k v
  assume inv: "hash_invar cap m"
  then have d: "distinct (map fst m)" by (simp add: hash_invar_def)
  show "finite (dom (map_of m))" by (rule finite_dom_map_of)
  show "card (dom (map_of m)) \<le> cap" using inv by (simp add: hash_invar_def card_dom_alist)
  show "fst (hash_update cap m k v) = 0 \<and>
      map_of (snd (hash_update cap m k v)) = (map_of m)(k \<mapsto> v)"
    if "has_room cap (map_of m) k"
    using that d by (simp add: has_room_alist hash_update_def update_conv')
  show "fst (hash_update cap m k v) < 0 \<and> map_of (snd (hash_update cap m k v)) = map_of m"
    if "\<not> has_room cap (map_of m) k"
    using that d by (simp add: has_room_alist hash_update_def E2BIG_def)
  show "map_of (snd (hash_delete m k)) = (map_of m)(k := None)"
    by (auto simp: hash_delete_def delete_conv')
  show "fst (hash_delete m k) = 0 \<longleftrightarrow> k \<in> dom (map_of m)"
    by (auto simp: hash_delete_def ENOENT_def)
  show "hash_invar cap (snd (hash_update cap m k v))" using inv by (rule hash_invar_update)
  show "hash_invar cap (snd (hash_delete m k))" using inv by (rule hash_invar_delete)
qed

interpretation array_map: bpf_array array_lookup array_update "array_invar n" n
  for n
  by unfold_locales
    (auto simp: array_invar_def array_lookup_def array_update_def E2BIG_def fun_eq_iff
      nth_list_update dest: unsigned_word_eqI)

end
