(* ===== verification/CLayout.thy ===== *)
theory CLayout
  imports Prelude
begin

text \<open>
  The memory layout of C object types on the BPF target (64-bit, natural alignment), as the
  compiler applies it to the type definitions of \<open>src/internal/ebpf/vmlinux.h\<close>, and the reads
  of a structure member from raw memory that \<open>ctx->dev\<close> and \<open>ctx->sector\<close> compile to.

  \<open>ctype\<close> is the grammar of the member types that occur in the tracepoint contexts;
  \<open>align_of\<close>, \<open>size_of\<close> and \<open>offsets\<close> are \<open>_Alignof\<close>, \<open>sizeof\<close> and \<open>offsetof\<close>. The lemmas show
  that the members of every structure are aligned, lie inside it and never overlap.
\<close>

section \<open>C object types\<close>

text \<open>\<open>CStruct n p fs\<close>: structure tag, \<open>__attribute__((packed))\<close>, members in order.\<close>

datatype ctype =
    CInt nat bool
  | CBool
  | CPtr string
  | CEnum string
  | CArray ctype nat
  | CStruct string bool "(string \<times> ctype) list"

type_synonym cfields = "(string \<times> ctype) list"

fun align_of :: "ctype \<Rightarrow> nat" and fields_align :: "cfields \<Rightarrow> nat" where
  "align_of (CInt n s) = n"
| "align_of CBool = 1"
| "align_of (CPtr t) = 8"
| "align_of (CEnum t) = 4"
| "align_of (CArray t n) = align_of t"
| "align_of (CStruct nm packed fs) = (if packed then 1 else fields_align fs)"
| "fields_align [] = 1"
| "fields_align ((f, t) # fs) = max (align_of t) (fields_align fs)"

definition member_align :: "bool \<Rightarrow> ctype \<Rightarrow> nat" where
  "member_align packed t = (if packed then 1 else align_of t)"

text \<open>\<open>fields_end packed n fs\<close> is the end of the last member when \<open>fs\<close> are placed from \<open>n\<close> on.\<close>

fun size_of :: "ctype \<Rightarrow> nat" and fields_end :: "bool \<Rightarrow> nat \<Rightarrow> cfields \<Rightarrow> nat" where
  "size_of (CInt n s) = n"
| "size_of CBool = 1"
| "size_of (CPtr t) = 8"
| "size_of (CEnum t) = 4"
| "size_of (CArray t n) = n * size_of t"
| "size_of (CStruct nm packed fs) =
     align_up (fields_end packed 0 fs) (align_of (CStruct nm packed fs))"
| "fields_end packed n [] = n"
| "fields_end packed n ((f, t) # fs) =
     fields_end packed (align_up n (member_align packed t) + size_of t) fs"

fun place :: "bool \<Rightarrow> nat \<Rightarrow> cfields \<Rightarrow> (string \<times> nat \<times> ctype) list" where
  "place packed n [] = []"
| "place packed n ((f, t) # fs) =
     (let off = align_up n (member_align packed t)
      in (f, off, t) # place packed (off + size_of t) fs)"

fun offsets :: "ctype \<Rightarrow> (string \<times> nat \<times> ctype) list" where
  "offsets (CStruct nm packed fs) = place packed 0 fs"
| "offsets _ = []"

definition offset_of :: "ctype \<Rightarrow> string \<Rightarrow> nat option" where
  "offset_of t f = map_option fst (map_of (offsets t) f)"

fun members :: "ctype \<Rightarrow> cfields" where
  "members (CStruct nm packed fs) = fs"
| "members _ = []"

fun struct_tag :: "ctype \<Rightarrow> string" where
  "struct_tag (CStruct nm packed fs) = nm"
| "struct_tag _ = []"

text \<open>
  Well-formed types: integers have 1, 2, 4 or 8 bytes, and the member names of a structure
  are distinct. Every structure of \<open>vmlinux.h\<close> that is modelled is well formed.
\<close>

fun wf_ctype :: "ctype \<Rightarrow> bool" and wf_fields :: "cfields \<Rightarrow> bool" where
  "wf_ctype (CInt n s) \<longleftrightarrow> n \<in> {1, 2, 4, 8}"
| "wf_ctype CBool \<longleftrightarrow> True"
| "wf_ctype (CPtr t) \<longleftrightarrow> True"
| "wf_ctype (CEnum t) \<longleftrightarrow> True"
| "wf_ctype (CArray t n) \<longleftrightarrow> wf_ctype t"
| "wf_ctype (CStruct nm packed fs) \<longleftrightarrow> distinct (map fst fs) \<and> wf_fields fs"
| "wf_fields [] \<longleftrightarrow> True"
| "wf_fields ((f, t) # fs) \<longleftrightarrow> wf_ctype t \<and> wf_fields fs"

section \<open>Alignment\<close>

lemma align_pow2:
  "wf_ctype t \<Longrightarrow> pow2 (align_of t)"
  "wf_fields fs \<Longrightarrow> pow2 (fields_align fs)"
  by (induction t and fs rule: align_of_fields_align.induct) (auto intro: pow2_max)

lemma member_align_pow2: "wf_ctype t \<Longrightarrow> pow2 (member_align p t)"
  by (simp add: member_align_def align_pow2)

lemma align_pos: "wf_ctype t \<Longrightarrow> 0 < align_of t" "wf_fields fs \<Longrightarrow> 0 < fields_align fs"
  "wf_ctype t \<Longrightarrow> 0 < member_align p t"
  by (simp_all add: align_pow2 member_align_pow2 pow2_pos)

lemma fields_align_ge: "(f, t) \<in> set fs \<Longrightarrow> align_of t \<le> fields_align fs"
  by (induction fs) (auto simp: le_max_iff_disj)

lemma wf_fields_member: "wf_fields fs \<Longrightarrow> (f, t) \<in> set fs \<Longrightarrow> wf_ctype t"
  by (induction fs) auto

lemma align_dvd_fields:
  assumes "wf_fields fs" and "(f, t) \<in> set fs"
  shows "align_of t dvd fields_align fs"
  using assms by (intro pow2_le_dvd align_pow2 fields_align_ge) (auto intro: wf_fields_member)

section \<open>Placement of the members\<close>

lemma place_map: "map (\<lambda>(f, off, t). (f, t)) (place p n fs) = fs"
  by (induction p n fs rule: place.induct) (auto simp: Let_def)

lemma place_names: "map fst (place p n fs) = map fst fs"
  by (induction p n fs rule: place.induct) (auto simp: Let_def)

lemma length_place [simp]: "length (place p n fs) = length fs"
  by (induction p n fs rule: place.induct) (auto simp: Let_def)

lemma fields_end_ge: "wf_fields fs \<Longrightarrow> n \<le> fields_end p n fs"
proof (induction p n fs rule: place.induct)
  case (2 p n f t fs)
  then have "n \<le> align_up n (member_align p t)" by (intro align_up_ge align_pos) auto
  also have "\<dots> \<le> align_up n (member_align p t) + size_of t" by simp
  also have "\<dots> \<le> fields_end p (align_up n (member_align p t) + size_of t) fs"
    using 2 by (simp add: Let_def)
  finally show ?case by simp
qed simp

lemma place_start:
  "wf_fields fs \<Longrightarrow> (f, off, t) \<in> set (place p n fs) \<Longrightarrow> n \<le> off"
proof (induction p n fs rule: place.induct)
  case (2 p n g u fs)
  have ge: "n \<le> align_up n (member_align p u)"
    using 2 by (intro align_up_ge align_pos) auto
  have "align_up n (member_align p u) + size_of u \<le> off"
    if "(f, off, t) \<in> set (place p (align_up n (member_align p u) + size_of u) fs)"
    using 2 that by (simp add: Let_def)
  with 2 ge show ?case by (fastforce simp: Let_def)
qed simp

lemma place_end:
  "wf_fields fs \<Longrightarrow> (f, off, t) \<in> set (place p n fs) \<Longrightarrow> off + size_of t \<le> fields_end p n fs"
proof (induction p n fs rule: place.induct)
  case (2 p n g u fs)
  then show ?case by (auto simp: Let_def fields_end_ge)
qed simp

lemma place_aligned:
  "(f, off, t) \<in> set (place p n fs) \<Longrightarrow> member_align p t dvd off"
  by (induction p n fs rule: place.induct) (auto simp: Let_def align_up_dvd)

lemma place_sorted:
  assumes "wf_fields fs"
  shows "sorted_wrt (\<lambda>(f, o1, t1) (g, o2, t2). o1 + size_of t1 \<le> o2) (place p n fs)"
  using assms
proof (induction p n fs rule: place.induct)
  case (2 p n f t fs)
  then show ?case by (auto simp: Let_def dest: place_start)
qed simp

lemma place_disjoint:
  assumes "wf_fields fs" and "distinct (map fst fs)"
    and "(f, o1, t1) \<in> set (place p n fs)" and "(g, o2, t2) \<in> set (place p n fs)" and "f \<noteq> g"
  shows "o1 + size_of t1 \<le> o2 \<or> o2 + size_of t2 \<le> o1"
  using assms
proof (induction p n fs rule: place.induct)
  case (2 p n h t fs)
  then show ?case by (auto simp: Let_def dest: place_start)
qed simp

lemma place_distinct: "distinct (map fst fs) \<Longrightarrow> distinct (map fst (place p n fs))"
  by (simp add: place_names)

section \<open>The layout of a whole structure\<close>

lemma size_of_struct_multiple: "align_of (CStruct nm p fs) dvd size_of (CStruct nm p fs)"
  by (simp only: size_of.simps align_up_dvd)

lemma struct_members_inside:
  assumes "wf_ctype (CStruct nm p fs)" and "(f, off, t) \<in> set (offsets (CStruct nm p fs))"
  shows "off + size_of t \<le> size_of (CStruct nm p fs)"
proof -
  have "off + size_of t \<le> fields_end p 0 fs"
    using assms by (auto intro: place_end)
  also have "\<dots> \<le> size_of (CStruct nm p fs)"
    using align_up_ge [OF align_pos(1) [OF assms(1)], of "fields_end p 0 fs"] by simp
  finally show ?thesis .
qed

lemma offset_of_member:
  "offset_of T f = Some off \<Longrightarrow> \<exists>t. (f, off, t) \<in> set (offsets T)"
  by (auto simp: offset_of_def dest: map_of_SomeD)

section \<open>Raw memory\<close>

datatype endian = LittleEndian | BigEndian

type_synonym mem = "u8 list"

text \<open>The unsigned value of a byte sequence in little-endian order, and its inverse.\<close>

fun le_val :: "u8 list \<Rightarrow> nat" where
  "le_val [] = 0"
| "le_val (b # bs) = unat b + 256 * le_val bs"

fun le_bytes :: "nat \<Rightarrow> nat \<Rightarrow> u8 list" where
  "le_bytes 0 v = []"
| "le_bytes (Suc n) v = word_of_nat (v mod 256) # le_bytes n (v div 256)"

fun bytes_val :: "endian \<Rightarrow> u8 list \<Rightarrow> nat" where
  "bytes_val LittleEndian bs = le_val bs"
| "bytes_val BigEndian bs = le_val (rev bs)"

fun val_bytes :: "endian \<Rightarrow> nat \<Rightarrow> nat \<Rightarrow> u8 list" where
  "val_bytes LittleEndian n v = le_bytes n v"
| "val_bytes BigEndian n v = rev (le_bytes n v)"

lemma length_le_bytes [simp]: "length (le_bytes n v) = n"
  by (induction n v rule: le_bytes.induct) auto

lemma length_val_bytes [simp]: "length (val_bytes e n v) = n"
  by (cases e) auto

lemma le_val_bytes: "v < 256 ^ n \<Longrightarrow> le_val (le_bytes n v) = v"
proof (induction n v rule: le_bytes.induct)
  case (2 n v)
  then have "v div 256 < 256 ^ n" by (simp add: less_mult_imp_div_less mult.commute)
  with 2 show ?case by (simp add: unat_of_nat)
qed simp

lemma bytes_val_bytes: "v < 256 ^ n \<Longrightarrow> bytes_val e (val_bytes e n v) = v"
  by (cases e) (auto simp: le_val_bytes)

text \<open>A load of \<open>n\<close> bytes at offset \<open>off\<close>; outside the object there is no value.\<close>

definition load :: "endian \<Rightarrow> mem \<Rightarrow> nat \<Rightarrow> nat \<Rightarrow> nat option" where
  "load e m off n =
     (if off + n \<le> length m then Some (bytes_val e (take n (drop off m))) else None)"

text \<open>A store of the bytes \<open>bs\<close> at offset \<open>off\<close>.\<close>

definition store :: "mem \<Rightarrow> nat \<Rightarrow> u8 list \<Rightarrow> mem" where
  "store m off bs = take off m @ bs @ drop (off + length bs) m"

lemma length_store: "off + length bs \<le> length m \<Longrightarrow> length (store m off bs) = length m"
  by (simp add: store_def)

lemma load_store_same:
  assumes "off + n \<le> length m" and "v < 256 ^ n"
  shows "load e (store m off (val_bytes e n v)) off n = Some v"
  using assms by (simp add: load_def store_def bytes_val_bytes)

lemma take_drop_store_other:
  assumes "off + length bs \<le> length m" and "o2 + n \<le> length m"
    and "off + length bs \<le> o2 \<or> o2 + n \<le> off"
  shows "take n (drop o2 (store m off bs)) = take n (drop o2 m)"
proof (rule nth_equalityI)
  show "length (take n (drop o2 (store m off bs))) = length (take n (drop o2 m))"
    using assms(1) by (simp add: length_store)
next
  fix i assume "i < length (take n (drop o2 (store m off bs)))"
  then have "i < n" "o2 + i < length m" using assms(2) by auto
  then show "take n (drop o2 (store m off bs)) ! i = take n (drop o2 m) ! i"
    using assms by (auto simp: store_def nth_append length_store)
qed

lemma load_store_other:
  assumes "off + length bs \<le> length m" and "o2 + n \<le> length m"
    and "off + length bs \<le> o2 \<or> o2 + n \<le> off"
  shows "load e (store m off bs) o2 n = load e m o2 n"
  using take_drop_store_other [OF assms] assms by (simp add: load_def length_store)

text \<open>Reading and writing an integer member of a structure object.\<close>

definition read_member :: "endian \<Rightarrow> ctype \<Rightarrow> mem \<Rightarrow> string \<Rightarrow> nat option" where
  "read_member e T m f =
     (case map_of (offsets T) f of
        None \<Rightarrow> None
      | Some (off, t) \<Rightarrow> load e m off (size_of t))"

definition write_member :: "endian \<Rightarrow> ctype \<Rightarrow> string \<Rightarrow> nat \<Rightarrow> mem \<Rightarrow> mem" where
  "write_member e T f v m =
     (case map_of (offsets T) f of
        None \<Rightarrow> m
      | Some (off, t) \<Rightarrow> store m off (val_bytes e (size_of t) v))"

end
