(* ===== verification/VmlinuxTypes.thy ===== *)
theory VmlinuxTypes
  imports CLayout
begin

text \<open>
  The typedefs, enumerations and nested structures of \<^verbatim>\<open>src/internal/ebpf/vmlinux.h\<close>
  that the tracepoint context structures are built from: one definition per C declaration,
  named after it with the prefix \<open>c_\<close> (typedefs), \<open>enum_\<close> (enumerations) and
  \<open>struct_\<close> (structures other than \<open>trace_entry\<close>).
\<close>

section \<open>The arithmetic types of the BPF target\<close>

abbreviation c_char :: ctype where
  "c_char \<equiv> CInt 1 True"

abbreviation c_signed_char :: ctype where
  "c_signed_char \<equiv> CInt 1 True"

abbreviation c_unsigned_char :: ctype where
  "c_unsigned_char \<equiv> CInt 1 False"

abbreviation c_short_int :: ctype where
  "c_short_int \<equiv> CInt 2 True"

abbreviation c_short_unsigned_int :: ctype where
  "c_short_unsigned_int \<equiv> CInt 2 False"

abbreviation c_int :: ctype where
  "c_int \<equiv> CInt 4 True"

abbreviation c_unsigned_int :: ctype where
  "c_unsigned_int \<equiv> CInt 4 False"

abbreviation c_long_int :: ctype where
  "c_long_int \<equiv> CInt 8 True"

abbreviation c_long_unsigned_int :: ctype where
  "c_long_unsigned_int \<equiv> CInt 8 False"

abbreviation c_long_long_int :: ctype where
  "c_long_long_int \<equiv> CInt 8 True"

abbreviation c_long_long_unsigned_int :: ctype where
  "c_long_long_unsigned_int \<equiv> CInt 8 False"

section \<open>Typedefs\<close>

definition c___u64 :: ctype where
  "c___u64 = c_long_long_unsigned_int"

definition c_u64 :: ctype where
  "c_u64 = c___u64"

definition c___u32 :: ctype where
  "c___u32 = c_unsigned_int"

definition c_u32 :: ctype where
  "c_u32 = c___u32"

definition c___u8 :: ctype where
  "c___u8 = c_unsigned_char"

definition c_u8 :: ctype where
  "c_u8 = c___u8"

definition c___s64 :: ctype where
  "c___s64 = c_long_long_int"

definition c_s64 :: ctype where
  "c_s64 = c___s64"

definition c_bool :: ctype where
  "c_bool = CBool"

definition c___kernel_ulong_t :: ctype where
  "c___kernel_ulong_t = c_long_unsigned_int"

definition c_ino_t :: ctype where
  "c_ino_t = c___kernel_ulong_t"

definition c___kernel_dev_t :: ctype where
  "c___kernel_dev_t = c_u32"

definition c_dev_t :: ctype where
  "c_dev_t = c___kernel_dev_t"

definition c_sector_t :: ctype where
  "c_sector_t = c_u64"

definition c___kernel_size_t :: ctype where
  "c___kernel_size_t = c___kernel_ulong_t"

definition c_size_t :: ctype where
  "c_size_t = c___kernel_size_t"

definition c___u16 :: ctype where
  "c___u16 = c_short_unsigned_int"

definition c_u16 :: ctype where
  "c_u16 = c___u16"

definition c___s32 :: ctype where
  "c___s32 = c_int"

definition c_s32 :: ctype where
  "c_s32 = c___s32"

definition c_time64_t :: ctype where
  "c_time64_t = c___s64"

definition c_vm_flags_t :: ctype where
  "c_vm_flags_t = c_long_unsigned_int"

definition c_gfp_t :: ctype where
  "c_gfp_t = c_unsigned_int"

definition c_ktime_t :: ctype where
  "c_ktime_t = c_s64"

definition c_ext4_lblk_t :: ctype where
  "c_ext4_lblk_t = c___u32"

definition c_ext4_fsblk_t :: ctype where
  "c_ext4_fsblk_t = c_long_long_unsigned_int"

definition c___kernel_loff_t :: ctype where
  "c___kernel_loff_t = c_long_long_int"

definition c_loff_t :: ctype where
  "c_loff_t = c___kernel_loff_t"

definition c_tid_t :: ctype where
  "c_tid_t = c_unsigned_int"

definition c___kernel_uid32_t :: ctype where
  "c___kernel_uid32_t = c_unsigned_int"

definition c_uid_t :: ctype where
  "c_uid_t = c___kernel_uid32_t"

definition c___kernel_gid32_t :: ctype where
  "c___kernel_gid32_t = c_unsigned_int"

definition c_gid_t :: ctype where
  "c_gid_t = c___kernel_gid32_t"

definition c_guid_t :: ctype where
  "c_guid_t = CStruct ''guid_t'' False [
     (''b'', CArray c___u8 16)]"

definition c_errseq_t :: ctype where
  "c_errseq_t = c_u32"

definition c_fl_owner_t :: ctype where
  "c_fl_owner_t = CPtr ''void''"

definition c_uint64_t :: ctype where
  "c_uint64_t = c_u64"

definition c_uint32_t :: ctype where
  "c_uint32_t = c_u32"

definition c_int32_t :: ctype where
  "c_int32_t = c_s32"

definition c___kernel_clockid_t :: ctype where
  "c___kernel_clockid_t = c_int"

definition c_clockid_t :: ctype where
  "c_clockid_t = c___kernel_clockid_t"

definition c_blkcnt_t :: ctype where
  "c_blkcnt_t = c_u64"

definition c___s16 :: ctype where
  "c___s16 = c_short_int"

definition c_initcall_t :: ctype where
  "c_initcall_t = CPtr ''int (*)(void)''"

definition c___kernel_long_t :: ctype where
  "c___kernel_long_t = c_long_int"

definition c___kernel_ssize_t :: ctype where
  "c___kernel_ssize_t = c___kernel_long_t"

definition c_ssize_t :: ctype where
  "c_ssize_t = c___kernel_ssize_t"

definition c___kernel_pid_t :: ctype where
  "c___kernel_pid_t = c_int"

definition c_pid_t :: ctype where
  "c_pid_t = c___kernel_pid_t"

definition c_blk_opf_t :: ctype where
  "c_blk_opf_t = c___u32"

definition c___s8 :: ctype where
  "c___s8 = c_signed_char"

definition c_s8 :: ctype where
  "c_s8 = c___s8"

definition c_dma_addr_t :: ctype where
  "c_dma_addr_t = c_u64"

definition c_xen_mc_callback_fn_t :: ctype where
  "c_xen_mc_callback_fn_t = CPtr ''void (*)(void *)''"

definition c_pteval_t :: ctype where
  "c_pteval_t = c_long_unsigned_int"

definition c_p4dval_t :: ctype where
  "c_p4dval_t = c_long_unsigned_int"

definition c_pmdval_t :: ctype where
  "c_pmdval_t = c_long_unsigned_int"

definition c_pudval_t :: ctype where
  "c_pudval_t = c_long_unsigned_int"

section \<open>Nested structures\<close>

definition trace_entry :: ctype where
  "trace_entry = CStruct ''trace_entry'' False [
     (''type'', c_short_unsigned_int),
     (''flags'', c_unsigned_char),
     (''preempt_count'', c_unsigned_char),
     (''pid'', c_int)]"

definition struct_cper_mem_err_compact :: ctype where
  "struct_cper_mem_err_compact = CStruct ''cper_mem_err_compact'' True [
     (''validation_bits'', c_u64),
     (''node'', c_u16),
     (''card'', c_u16),
     (''module'', c_u16),
     (''bank'', c_u16),
     (''device'', c_u16),
     (''row'', c_u16),
     (''column'', c_u16),
     (''bit_pos'', c_u16),
     (''requestor_id'', c_u64),
     (''responder_id'', c_u64),
     (''target_id'', c_u64),
     (''rank'', c_u16),
     (''mem_array_handle'', c_u16),
     (''mem_dev_handle'', c_u16),
     (''extended'', c_u8)]"

text \<open>
  What a context type must satisfy to be usable by a tracepoint program: a well-formed
  structure whose first member is the common header \<open>trace_entry\<close> at offset 0 and whose
  last member is the zero-length array \<open>__data\<close> that the dynamic data follows.
\<close>

fun unpacked_struct :: "ctype \<Rightarrow> bool" where
  "unpacked_struct (CStruct nm packed fs) \<longleftrightarrow> \<not> packed"
| "unpacked_struct _ \<longleftrightarrow> False"

definition event_ok :: "ctype \<Rightarrow> bool" where
  "event_ok T \<longleftrightarrow> unpacked_struct T \<and> wf_ctype T \<and>
     (case offsets T of
        [] \<Rightarrow> False
      | (f, off, t) # rest \<Rightarrow>
          f = ''ent'' \<and> off = 0 \<and> t = trace_entry \<and> rest \<noteq> [] \<and>
          fst (last rest) = ''__data'' \<and> snd (snd (last rest)) = CArray c_char 0)"

section \<open>Enumerations used as member types\<close>

text \<open>
  An enumeration is its list of enumerators with their values. An enumeration has the size
  of \<open>int\<close> or \<open>unsigned int\<close>, four bytes, exactly when its values fit there.
\<close>

type_synonym cenum = "(string \<times> int) list"

definition enum_fits_32 :: "cenum \<Rightarrow> bool" where
  "enum_fits_32 en \<longleftrightarrow>
     list_all (\<lambda>(n, v). - 2147483648 \<le> v \<and> v < 2147483648) en \<or>
     list_all (\<lambda>(n, v). 0 \<le> v \<and> v < 4294967296) en"

definition enum_dev_pm_qos_req_type :: cenum where
  "enum_dev_pm_qos_req_type = [(''DEV_PM_QOS_RESUME_LATENCY'', 1),
     (''DEV_PM_QOS_LATENCY_TOLERANCE'', 2),
     (''DEV_PM_QOS_MIN_FREQUENCY'', 3),
     (''DEV_PM_QOS_MAX_FREQUENCY'', 4),
     (''DEV_PM_QOS_FLAGS'', 5)]"

definition enum_dma_data_direction :: cenum where
  "enum_dma_data_direction = [(''DMA_BIDIRECTIONAL'', 0),
     (''DMA_TO_DEVICE'', 1),
     (''DMA_FROM_DEVICE'', 2),
     (''DMA_NONE'', 3)]"

definition enum_error_detector :: cenum where
  "enum_error_detector = [(''ERROR_DETECTOR_KFENCE'', 0),
     (''ERROR_DETECTOR_KASAN'', 1),
     (''ERROR_DETECTOR_WARN'', 2)]"

definition enum_fuse_opcode :: cenum where
  "enum_fuse_opcode = [(''FUSE_LOOKUP'', 1),
     (''FUSE_FORGET'', 2),
     (''FUSE_GETATTR'', 3),
     (''FUSE_SETATTR'', 4),
     (''FUSE_READLINK'', 5),
     (''FUSE_SYMLINK'', 6),
     (''FUSE_MKNOD'', 8),
     (''FUSE_MKDIR'', 9),
     (''FUSE_UNLINK'', 10),
     (''FUSE_RMDIR'', 11),
     (''FUSE_RENAME'', 12),
     (''FUSE_LINK'', 13),
     (''FUSE_OPEN'', 14),
     (''FUSE_READ'', 15),
     (''FUSE_WRITE'', 16),
     (''FUSE_STATFS'', 17),
     (''FUSE_RELEASE'', 18),
     (''FUSE_FSYNC'', 20),
     (''FUSE_SETXATTR'', 21),
     (''FUSE_GETXATTR'', 22),
     (''FUSE_LISTXATTR'', 23),
     (''FUSE_REMOVEXATTR'', 24),
     (''FUSE_FLUSH'', 25),
     (''FUSE_INIT'', 26),
     (''FUSE_OPENDIR'', 27),
     (''FUSE_READDIR'', 28),
     (''FUSE_RELEASEDIR'', 29),
     (''FUSE_FSYNCDIR'', 30),
     (''FUSE_GETLK'', 31),
     (''FUSE_SETLK'', 32),
     (''FUSE_SETLKW'', 33),
     (''FUSE_ACCESS'', 34),
     (''FUSE_CREATE'', 35),
     (''FUSE_INTERRUPT'', 36),
     (''FUSE_BMAP'', 37),
     (''FUSE_DESTROY'', 38),
     (''FUSE_IOCTL'', 39),
     (''FUSE_POLL'', 40),
     (''FUSE_NOTIFY_REPLY'', 41),
     (''FUSE_BATCH_FORGET'', 42),
     (''FUSE_FALLOCATE'', 43),
     (''FUSE_READDIRPLUS'', 44),
     (''FUSE_RENAME2'', 45),
     (''FUSE_LSEEK'', 46),
     (''FUSE_COPY_FILE_RANGE'', 47),
     (''FUSE_SETUPMAPPING'', 48),
     (''FUSE_REMOVEMAPPING'', 49),
     (''FUSE_SYNCFS'', 50),
     (''FUSE_TMPFILE'', 51),
     (''FUSE_STATX'', 52),
     (''FUSE_COPY_FILE_RANGE_64'', 53),
     (''CUSE_INIT'', 4096),
     (''CUSE_INIT_BSWAP_RESERVED'', 1048576),
     (''FUSE_INIT_BSWAP_RESERVED'', 436207616)]"

definition enum_hrtimer_mode :: cenum where
  "enum_hrtimer_mode = [(''HRTIMER_MODE_ABS'', 0),
     (''HRTIMER_MODE_REL'', 1),
     (''HRTIMER_MODE_PINNED'', 2),
     (''HRTIMER_MODE_SOFT'', 4),
     (''HRTIMER_MODE_HARD'', 8),
     (''HRTIMER_MODE_ABS_PINNED'', 2),
     (''HRTIMER_MODE_REL_PINNED'', 3),
     (''HRTIMER_MODE_ABS_SOFT'', 4),
     (''HRTIMER_MODE_REL_SOFT'', 5),
     (''HRTIMER_MODE_ABS_PINNED_SOFT'', 6),
     (''HRTIMER_MODE_REL_PINNED_SOFT'', 7),
     (''HRTIMER_MODE_ABS_HARD'', 8),
     (''HRTIMER_MODE_REL_HARD'', 9),
     (''HRTIMER_MODE_ABS_PINNED_HARD'', 10),
     (''HRTIMER_MODE_REL_PINNED_HARD'', 11)]"

definition enum_i2c_slave_event :: cenum where
  "enum_i2c_slave_event = [(''I2C_SLAVE_READ_REQUESTED'', 0),
     (''I2C_SLAVE_WRITE_REQUESTED'', 1),
     (''I2C_SLAVE_READ_PROCESSED'', 2),
     (''I2C_SLAVE_WRITE_RECEIVED'', 3),
     (''I2C_SLAVE_STOP'', 4)]"

definition enum_lru_list :: cenum where
  "enum_lru_list = [(''LRU_INACTIVE_ANON'', 0),
     (''LRU_ACTIVE_ANON'', 1),
     (''LRU_INACTIVE_FILE'', 2),
     (''LRU_ACTIVE_FILE'', 3),
     (''LRU_UNEVICTABLE'', 4),
     (''NR_LRU_LISTS'', 5)]"

definition enum_migrate_mode :: cenum where
  "enum_migrate_mode = [(''MIGRATE_ASYNC'', 0),
     (''MIGRATE_SYNC_LIGHT'', 1),
     (''MIGRATE_SYNC'', 2)]"

definition enum_numa_vmaskip_reason :: cenum where
  "enum_numa_vmaskip_reason = [(''NUMAB_SKIP_UNSUITABLE'', 0),
     (''NUMAB_SKIP_SHARED_RO'', 1),
     (''NUMAB_SKIP_INACCESSIBLE'', 2),
     (''NUMAB_SKIP_SCAN_DELAY'', 3),
     (''NUMAB_SKIP_PID_INACTIVE'', 4),
     (''NUMAB_SKIP_IGNORE_PID'', 5),
     (''NUMAB_SKIP_SEQ_COMPLETED'', 6)]"

definition enum_pm_qos_req_action :: cenum where
  "enum_pm_qos_req_action = [(''PM_QOS_ADD_REQ'', 0),
     (''PM_QOS_UPDATE_REQ'', 1),
     (''PM_QOS_REMOVE_REQ'', 2)]"

definition enum_pwm_polarity :: cenum where
  "enum_pwm_polarity = [(''PWM_POLARITY_NORMAL'', 0),
     (''PWM_POLARITY_INVERSED'', 1)]"

definition enum_sk_rst_reason :: cenum where
  "enum_sk_rst_reason = [(''SK_RST_REASON_NOT_SPECIFIED'', 0),
     (''SK_RST_REASON_NO_SOCKET'', 1),
     (''SK_RST_REASON_TCP_INVALID_ACK_SEQUENCE'', 2),
     (''SK_RST_REASON_TCP_RFC7323_PAWS'', 3),
     (''SK_RST_REASON_TCP_TOO_OLD_ACK'', 4),
     (''SK_RST_REASON_TCP_ACK_UNSENT_DATA'', 5),
     (''SK_RST_REASON_TCP_FLAGS'', 6),
     (''SK_RST_REASON_TCP_OLD_ACK'', 7),
     (''SK_RST_REASON_TCP_ABORT_ON_DATA'', 8),
     (''SK_RST_REASON_TCP_TIMEWAIT_SOCKET'', 9),
     (''SK_RST_REASON_INVALID_SYN'', 10),
     (''SK_RST_REASON_TCP_ABORT_ON_CLOSE'', 11),
     (''SK_RST_REASON_TCP_ABORT_ON_LINGER'', 12),
     (''SK_RST_REASON_TCP_ABORT_ON_MEMORY'', 13),
     (''SK_RST_REASON_TCP_STATE'', 14),
     (''SK_RST_REASON_TCP_KEEPALIVE_TIMEOUT'', 15),
     (''SK_RST_REASON_TCP_DISCONNECT_WITH_DATA'', 16),
     (''SK_RST_REASON_MPTCP_RST_EUNSPEC'', 17),
     (''SK_RST_REASON_MPTCP_RST_EMPTCP'', 18),
     (''SK_RST_REASON_MPTCP_RST_ERESOURCE'', 19),
     (''SK_RST_REASON_MPTCP_RST_EPROHIBIT'', 20),
     (''SK_RST_REASON_MPTCP_RST_EWQ2BIG'', 21),
     (''SK_RST_REASON_MPTCP_RST_EBADPERF'', 22),
     (''SK_RST_REASON_MPTCP_RST_EMIDDLEBOX'', 23),
     (''SK_RST_REASON_ERROR'', 24),
     (''SK_RST_REASON_MAX'', 25)]"

definition enum_skb_drop_reason :: cenum where
  "enum_skb_drop_reason = [(''SKB_NOT_DROPPED_YET'', 0),
     (''SKB_CONSUMED'', 1),
     (''SKB_DROP_REASON_NOT_SPECIFIED'', 2),
     (''SKB_DROP_REASON_NO_SOCKET'', 3),
     (''SKB_DROP_REASON_SOCKET_CLOSE'', 4),
     (''SKB_DROP_REASON_SOCKET_FILTER'', 5),
     (''SKB_DROP_REASON_SOCKET_RCVBUFF'', 6),
     (''SKB_DROP_REASON_UNIX_DISCONNECT'', 7),
     (''SKB_DROP_REASON_UNIX_SKIP_OOB'', 8),
     (''SKB_DROP_REASON_PKT_TOO_SMALL'', 9),
     (''SKB_DROP_REASON_TCP_CSUM'', 10),
     (''SKB_DROP_REASON_UDP_CSUM'', 11),
     (''SKB_DROP_REASON_NETFILTER_DROP'', 12),
     (''SKB_DROP_REASON_OTHERHOST'', 13),
     (''SKB_DROP_REASON_IP_CSUM'', 14),
     (''SKB_DROP_REASON_IP_INHDR'', 15),
     (''SKB_DROP_REASON_IP_RPFILTER'', 16),
     (''SKB_DROP_REASON_UNICAST_IN_L2_MULTICAST'', 17),
     (''SKB_DROP_REASON_XFRM_POLICY'', 18),
     (''SKB_DROP_REASON_IP_NOPROTO'', 19),
     (''SKB_DROP_REASON_PROTO_MEM'', 20),
     (''SKB_DROP_REASON_TCP_AUTH_HDR'', 21),
     (''SKB_DROP_REASON_TCP_MD5NOTFOUND'', 22),
     (''SKB_DROP_REASON_TCP_MD5UNEXPECTED'', 23),
     (''SKB_DROP_REASON_TCP_MD5FAILURE'', 24),
     (''SKB_DROP_REASON_TCP_AONOTFOUND'', 25),
     (''SKB_DROP_REASON_TCP_AOUNEXPECTED'', 26),
     (''SKB_DROP_REASON_TCP_AOKEYNOTFOUND'', 27),
     (''SKB_DROP_REASON_TCP_AOFAILURE'', 28),
     (''SKB_DROP_REASON_SOCKET_BACKLOG'', 29),
     (''SKB_DROP_REASON_TCP_FLAGS'', 30),
     (''SKB_DROP_REASON_TCP_ABORT_ON_DATA'', 31),
     (''SKB_DROP_REASON_TCP_ZEROWINDOW'', 32),
     (''SKB_DROP_REASON_TCP_OLD_DATA'', 33),
     (''SKB_DROP_REASON_TCP_OVERWINDOW'', 34),
     (''SKB_DROP_REASON_TCP_OFOMERGE'', 35),
     (''SKB_DROP_REASON_TCP_RFC7323_PAWS'', 36),
     (''SKB_DROP_REASON_TCP_RFC7323_PAWS_ACK'', 37),
     (''SKB_DROP_REASON_TCP_RFC7323_TW_PAWS'', 38),
     (''SKB_DROP_REASON_TCP_RFC7323_TSECR'', 39),
     (''SKB_DROP_REASON_TCP_LISTEN_OVERFLOW'', 40),
     (''SKB_DROP_REASON_TCP_OLD_SEQUENCE'', 41),
     (''SKB_DROP_REASON_TCP_INVALID_SEQUENCE'', 42),
     (''SKB_DROP_REASON_TCP_INVALID_END_SEQUENCE'', 43),
     (''SKB_DROP_REASON_TCP_INVALID_ACK_SEQUENCE'', 44),
     (''SKB_DROP_REASON_TCP_RESET'', 45),
     (''SKB_DROP_REASON_TCP_INVALID_SYN'', 46),
     (''SKB_DROP_REASON_TCP_CLOSE'', 47),
     (''SKB_DROP_REASON_TCP_FASTOPEN'', 48),
     (''SKB_DROP_REASON_TCP_OLD_ACK'', 49),
     (''SKB_DROP_REASON_TCP_TOO_OLD_ACK'', 50),
     (''SKB_DROP_REASON_TCP_ACK_UNSENT_DATA'', 51),
     (''SKB_DROP_REASON_TCP_OFO_QUEUE_PRUNE'', 52),
     (''SKB_DROP_REASON_TCP_OFO_DROP'', 53),
     (''SKB_DROP_REASON_IP_OUTNOROUTES'', 54),
     (''SKB_DROP_REASON_BPF_CGROUP_EGRESS'', 55),
     (''SKB_DROP_REASON_IPV6DISABLED'', 56),
     (''SKB_DROP_REASON_NEIGH_CREATEFAIL'', 57),
     (''SKB_DROP_REASON_NEIGH_FAILED'', 58),
     (''SKB_DROP_REASON_NEIGH_QUEUEFULL'', 59),
     (''SKB_DROP_REASON_NEIGH_DEAD'', 60),
     (''SKB_DROP_REASON_NEIGH_HH_FILLFAIL'', 61),
     (''SKB_DROP_REASON_TC_EGRESS'', 62),
     (''SKB_DROP_REASON_SECURITY_HOOK'', 63),
     (''SKB_DROP_REASON_QDISC_DROP'', 64),
     (''SKB_DROP_REASON_QDISC_BURST_DROP'', 65),
     (''SKB_DROP_REASON_QDISC_OVERLIMIT'', 66),
     (''SKB_DROP_REASON_QDISC_CONGESTED'', 67),
     (''SKB_DROP_REASON_CAKE_FLOOD'', 68),
     (''SKB_DROP_REASON_FQ_BAND_LIMIT'', 69),
     (''SKB_DROP_REASON_FQ_HORIZON_LIMIT'', 70),
     (''SKB_DROP_REASON_FQ_FLOW_LIMIT'', 71),
     (''SKB_DROP_REASON_CPU_BACKLOG'', 72),
     (''SKB_DROP_REASON_XDP'', 73),
     (''SKB_DROP_REASON_TC_INGRESS'', 74),
     (''SKB_DROP_REASON_UNHANDLED_PROTO'', 75),
     (''SKB_DROP_REASON_SKB_CSUM'', 76),
     (''SKB_DROP_REASON_SKB_GSO_SEG'', 77),
     (''SKB_DROP_REASON_SKB_UCOPY_FAULT'', 78),
     (''SKB_DROP_REASON_DEV_HDR'', 79),
     (''SKB_DROP_REASON_DEV_READY'', 80),
     (''SKB_DROP_REASON_FULL_RING'', 81),
     (''SKB_DROP_REASON_NOMEM'', 82),
     (''SKB_DROP_REASON_HDR_TRUNC'', 83),
     (''SKB_DROP_REASON_TAP_FILTER'', 84),
     (''SKB_DROP_REASON_TAP_TXFILTER'', 85),
     (''SKB_DROP_REASON_ICMP_CSUM'', 86),
     (''SKB_DROP_REASON_INVALID_PROTO'', 87),
     (''SKB_DROP_REASON_IP_INADDRERRORS'', 88),
     (''SKB_DROP_REASON_IP_INNOROUTES'', 89),
     (''SKB_DROP_REASON_IP_LOCAL_SOURCE'', 90),
     (''SKB_DROP_REASON_IP_INVALID_SOURCE'', 91),
     (''SKB_DROP_REASON_IP_LOCALNET'', 92),
     (''SKB_DROP_REASON_IP_INVALID_DEST'', 93),
     (''SKB_DROP_REASON_PKT_TOO_BIG'', 94),
     (''SKB_DROP_REASON_DUP_FRAG'', 95),
     (''SKB_DROP_REASON_FRAG_REASM_TIMEOUT'', 96),
     (''SKB_DROP_REASON_FRAG_TOO_FAR'', 97),
     (''SKB_DROP_REASON_TCP_MINTTL'', 98),
     (''SKB_DROP_REASON_IPV6_BAD_EXTHDR'', 99),
     (''SKB_DROP_REASON_IPV6_NDISC_FRAG'', 100),
     (''SKB_DROP_REASON_IPV6_NDISC_HOP_LIMIT'', 101),
     (''SKB_DROP_REASON_IPV6_NDISC_BAD_CODE'', 102),
     (''SKB_DROP_REASON_IPV6_NDISC_BAD_OPTIONS'', 103),
     (''SKB_DROP_REASON_IPV6_NDISC_NS_OTHERHOST'', 104),
     (''SKB_DROP_REASON_QUEUE_PURGE'', 105),
     (''SKB_DROP_REASON_TC_COOKIE_ERROR'', 106),
     (''SKB_DROP_REASON_PACKET_SOCK_ERROR'', 107),
     (''SKB_DROP_REASON_TC_CHAIN_NOTFOUND'', 108),
     (''SKB_DROP_REASON_TC_RECLASSIFY_LOOP'', 109),
     (''SKB_DROP_REASON_VXLAN_INVALID_HDR'', 110),
     (''SKB_DROP_REASON_VXLAN_VNI_NOT_FOUND'', 111),
     (''SKB_DROP_REASON_MAC_INVALID_SOURCE'', 112),
     (''SKB_DROP_REASON_VXLAN_ENTRY_EXISTS'', 113),
     (''SKB_DROP_REASON_NO_TX_TARGET'', 114),
     (''SKB_DROP_REASON_IP_TUNNEL_ECN'', 115),
     (''SKB_DROP_REASON_TUNNEL_TXINFO'', 116),
     (''SKB_DROP_REASON_LOCAL_MAC'', 117),
     (''SKB_DROP_REASON_ARP_PVLAN_DISABLE'', 118),
     (''SKB_DROP_REASON_MAC_IEEE_MAC_CONTROL'', 119),
     (''SKB_DROP_REASON_BRIDGE_INGRESS_STP_STATE'', 120),
     (''SKB_DROP_REASON_CAN_RX_INVALID_FRAME'', 121),
     (''SKB_DROP_REASON_CANFD_RX_INVALID_FRAME'', 122),
     (''SKB_DROP_REASON_CANXL_RX_INVALID_FRAME'', 123),
     (''SKB_DROP_REASON_PFMEMALLOC'', 124),
     (''SKB_DROP_REASON_DUALPI2_STEP_DROP'', 125),
     (''SKB_DROP_REASON_PSP_INPUT'', 126),
     (''SKB_DROP_REASON_PSP_OUTPUT'', 127),
     (''SKB_DROP_REASON_MAX'', 128),
     (''SKB_DROP_REASON_SUBSYS_MASK'', 4294901760)]"

definition enum_thermal_trip_type :: cenum where
  "enum_thermal_trip_type = [(''THERMAL_TRIP_ACTIVE'', 0),
     (''THERMAL_TRIP_PASSIVE'', 1),
     (''THERMAL_TRIP_HOT'', 2),
     (''THERMAL_TRIP_CRITICAL'', 3)]"

definition enum_usb_device_speed :: cenum where
  "enum_usb_device_speed = [(''USB_SPEED_UNKNOWN'', 0),
     (''USB_SPEED_LOW'', 1),
     (''USB_SPEED_FULL'', 2),
     (''USB_SPEED_HIGH'', 3),
     (''USB_SPEED_WIRELESS'', 4),
     (''USB_SPEED_SUPER'', 5),
     (''USB_SPEED_SUPER_PLUS'', 6)]"

definition enum_usb_device_state :: cenum where
  "enum_usb_device_state = [(''USB_STATE_NOTATTACHED'', 0),
     (''USB_STATE_ATTACHED'', 1),
     (''USB_STATE_POWERED'', 2),
     (''USB_STATE_RECONNECTING'', 3),
     (''USB_STATE_UNAUTHENTICATED'', 4),
     (''USB_STATE_DEFAULT'', 5),
     (''USB_STATE_ADDRESS'', 6),
     (''USB_STATE_CONFIGURED'', 7),
     (''USB_STATE_SUSPENDED'', 8)]"

definition enum_xen_lazy_mode :: cenum where
  "enum_xen_lazy_mode = [(''XEN_LAZY_NONE'', 0),
     (''XEN_LAZY_MMU'', 1),
     (''XEN_LAZY_CPU'', 2)]"

definition enum_xen_mc_extend_args :: cenum where
  "enum_xen_mc_extend_args = [(''XEN_MC_XE_OK'', 0),
     (''XEN_MC_XE_BAD_OP'', 1),
     (''XEN_MC_XE_NO_SPACE'', 2)]"

definition enum_xen_mc_flush_reason :: cenum where
  "enum_xen_mc_flush_reason = [(''XEN_MC_FL_NONE'', 0),
     (''XEN_MC_FL_BATCH'', 1),
     (''XEN_MC_FL_ARGS'', 2),
     (''XEN_MC_FL_CALLBACK'', 3)]"

definition enum_zone_type :: cenum where
  "enum_zone_type = [(''ZONE_DMA'', 0),
     (''ZONE_DMA32'', 1),
     (''ZONE_NORMAL'', 2),
     (''ZONE_MOVABLE'', 3),
     (''ZONE_DEVICE'', 4),
     (''__MAX_NR_ZONES'', 5)]"

definition member_enums :: "(string \<times> cenum) list" where
  "member_enums = [
     (''dev_pm_qos_req_type'', enum_dev_pm_qos_req_type),
     (''dma_data_direction'', enum_dma_data_direction),
     (''error_detector'', enum_error_detector),
     (''fuse_opcode'', enum_fuse_opcode),
     (''hrtimer_mode'', enum_hrtimer_mode),
     (''i2c_slave_event'', enum_i2c_slave_event),
     (''lru_list'', enum_lru_list),
     (''migrate_mode'', enum_migrate_mode),
     (''numa_vmaskip_reason'', enum_numa_vmaskip_reason),
     (''pm_qos_req_action'', enum_pm_qos_req_action),
     (''pwm_polarity'', enum_pwm_polarity),
     (''sk_rst_reason'', enum_sk_rst_reason),
     (''skb_drop_reason'', enum_skb_drop_reason),
     (''thermal_trip_type'', enum_thermal_trip_type),
     (''usb_device_speed'', enum_usb_device_speed),
     (''usb_device_state'', enum_usb_device_state),
     (''xen_lazy_mode'', enum_xen_lazy_mode),
     (''xen_mc_extend_args'', enum_xen_mc_extend_args),
     (''xen_mc_flush_reason'', enum_xen_mc_flush_reason),
     (''zone_type'', enum_zone_type)]"

end
