(* ===== verification/BlockLatency.thy ===== *)
theory BlockLatency
  imports BpfMaps VmlinuxTypes "HOL-Library.Log_Nat"
begin

text \<open>
  The BPF program \<open>src/internal/ebpf/block_latency.c\<close>: the packing of the request key, the
  histogram bucket of a latency and the two tracepoint handlers, over the map operations of
  \<open>BpfMaps\<close>. The kernel helpers are the parameter \<open>bpf_helpers\<close>; the timestamp a handler gets
  from \<open>bpf_ktime_get_ns\<close> is its argument.
\<close>

section \<open>Constants, keys and buckets\<close>

definition HIST_BUCKETS :: u32 where
  "HIST_BUCKETS = 24"

definition pack_key :: "u32 \<Rightarrow> u64 \<Rightarrow> u64" where
  "pack_key dev sector = or (push_bit 32 (ucast dev)) (and sector 0xFFFFFFFF)"

definition bucket_for :: "u64 \<Rightarrow> u32" where
  "bucket_for latency_us =
     (let bucket = 0;
          val = latency_us;
          bucket = (if val \<ge> 1 then 1 else bucket);
          bucket = (if val \<ge> 2 then 2 else bucket);
          bucket = (if val \<ge> 4 then 3 else bucket);
          bucket = (if val \<ge> 8 then 4 else bucket);
          bucket = (if val \<ge> 16 then 5 else bucket);
          bucket = (if val \<ge> 32 then 6 else bucket);
          bucket = (if val \<ge> 64 then 7 else bucket);
          bucket = (if val \<ge> 128 then 8 else bucket);
          bucket = (if val \<ge> 256 then 9 else bucket);
          bucket = (if val \<ge> 512 then 10 else bucket);
          bucket = (if val \<ge> 1024 then 11 else bucket);
          bucket = (if val \<ge> 2048 then 12 else bucket);
          bucket = (if val \<ge> 4096 then 13 else bucket);
          bucket = (if val \<ge> 8192 then 14 else bucket);
          bucket = (if val \<ge> 16384 then 15 else bucket);
          bucket = (if val \<ge> 32768 then 16 else bucket);
          bucket = (if val \<ge> 65536 then 17 else bucket);
          bucket = (if val \<ge> 131072 then 18 else bucket);
          bucket = (if val \<ge> 262144 then 19 else bucket);
          bucket = (if val \<ge> 524288 then 20 else bucket);
          bucket = (if val \<ge> 1048576 then 21 else bucket);
          bucket = (if val \<ge> 2097152 then 22 else bucket);
          bucket = (if val \<ge> 4194304 then 23 else bucket)
      in if bucket < HIST_BUCKETS then bucket else HIST_BUCKETS - 1)"

section \<open>Tracepoint contexts\<close>

text \<open>The two members of the context that the handlers read.\<close>

record rq_ctx =
  dev :: u32
  sector :: u64

text \<open>\<open>ctx->dev\<close> and \<open>ctx->sector\<close> as loads from the raw context of structure type \<open>T\<close>.\<close>

definition ctx_decode :: "endian \<Rightarrow> ctype \<Rightarrow> mem \<Rightarrow> rq_ctx option" where
  "ctx_decode e T ctx =
     (case (read_member e T ctx ''dev'', read_member e T ctx ''sector'') of
        (Some d, Some s) \<Rightarrow> Some \<lparr>dev = word_of_nat d, sector = word_of_nat s\<rparr>
      | _ \<Rightarrow> None)"

section \<open>Maps and handlers\<close>

record ('h, 'a) bpf_helpers =
  start_lookup :: "'h \<Rightarrow> u64 \<Rightarrow> u64 option"
  start_update :: "'h \<Rightarrow> u64 \<Rightarrow> u64 \<Rightarrow> int \<times> 'h"
  start_delete :: "'h \<Rightarrow> u64 \<Rightarrow> int \<times> 'h"
  hist_lookup :: "'a \<Rightarrow> u32 \<Rightarrow> u64 option"
  hist_update :: "'a \<Rightarrow> u32 \<Rightarrow> u64 \<Rightarrow> int \<times> 'a"

record ('h, 'a) bpf_maps =
  start_times :: 'h
  io_latency_hist :: 'a

text \<open>
  \<open>__sync_fetch_and_add(count, n)\<close> through the pointer that the lookup of bucket \<open>i\<close>
  returned: one atomic read, addition and write of that array element.
\<close>

definition sync_fetch_and_add :: "('h, 'a) bpf_helpers \<Rightarrow> 'a \<Rightarrow> u32 \<Rightarrow> u64 \<Rightarrow> 'a" where
  "sync_fetch_and_add H a i n =
     (case hist_lookup H a i of
        None \<Rightarrow> a
      | Some count \<Rightarrow> snd (hist_update H a i (count + n)))"

definition trace_rq_issue ::
  "('h, 'a) bpf_helpers \<Rightarrow> u64 \<Rightarrow> rq_ctx \<Rightarrow> ('h, 'a) bpf_maps \<Rightarrow> int \<times> ('h, 'a) bpf_maps" where
  "trace_rq_issue H ktime ctx s =
     (let ts = ktime;
          key = pack_key (dev ctx) (sector ctx);
          (r, h) = start_update H (start_times s) key ts
      in (0, s\<lparr>start_times := h\<rparr>))"

definition trace_rq_complete ::
  "('h, 'a) bpf_helpers \<Rightarrow> u64 \<Rightarrow> rq_ctx \<Rightarrow> ('h, 'a) bpf_maps \<Rightarrow> int \<times> ('h, 'a) bpf_maps" where
  "trace_rq_complete H ktime ctx s =
     (let key = pack_key (dev ctx) (sector ctx)
      in case start_lookup H (start_times s) key of
           None \<Rightarrow> (0, s)
         | Some start \<Rightarrow>
             (let delta_ns = ktime - start;
                  (r, h) = start_delete H (start_times s) key;
                  s = s\<lparr>start_times := h\<rparr>;
                  delta_us = delta_ns div 1000;
                  bucket = bucket_for delta_us
              in case hist_lookup H (io_latency_hist s) bucket of
                   None \<Rightarrow> (0, s)
                 | Some count \<Rightarrow>
                     (0, s\<lparr>io_latency_hist :=
                          sync_fetch_and_add H (io_latency_hist s) bucket 1\<rparr>)))"

text \<open>The maps as the program declares them, on the reference instance, zero-initialised.\<close>

definition start_times_max_entries :: nat where
  "start_times_max_entries = 10240"

definition io_latency_hist_max_entries :: nat where
  "io_latency_hist_max_entries = unat HIST_BUCKETS"

definition kernel_helpers :: "((u64 \<times> u64) list, u64 list) bpf_helpers" where
  "kernel_helpers =
     \<lparr>start_lookup = map_of,
      start_update = hash_update start_times_max_entries,
      start_delete = hash_delete,
      hist_lookup = array_lookup,
      hist_update = array_update\<rparr>"

definition initial_maps :: "((u64 \<times> u64) list, u64 list) bpf_maps" where
  "initial_maps =
     \<lparr>start_times = [], io_latency_hist = replicate io_latency_hist_max_entries 0\<rparr>"

section \<open>Keys\<close>

lemma sector_mask: "(0xFFFFFFFF :: u64) = mask 32"
  by (simp add: mask_eq_exp_minus_1)

lemma pack_key_take_bit: "pack_key d s = or (push_bit 32 (ucast d)) (take_bit 32 s)"
  unfolding pack_key_def sector_mask by (simp only: take_bit_eq_mask)

lemma bit_pack_key:
  "bit (pack_key d s) n \<longleftrightarrow> (if n < 32 then bit s n else n < 64 \<and> bit d (n - 32))"
  by (auto simp: pack_key_take_bit bit_or_iff bit_take_bit_iff bit_push_bit_iff bit_ucast_iff
      dest: bit_imp_le_length)

lemma pack_key_dev: "drop_bit 32 (pack_key d s) = ucast d"
  by (rule bit_eqI) (auto simp: bit_drop_bit_eq bit_pack_key bit_ucast_iff
      dest: bit_imp_le_length)

lemma pack_key_sector: "take_bit 32 (pack_key d s) = take_bit 32 s"
  by (rule bit_eqI) (auto simp: bit_take_bit_iff bit_pack_key)

lemma pack_key_eq_iff:
  "pack_key d s = pack_key d' s' \<longleftrightarrow> d = d' \<and> unat s mod 2 ^ 32 = unat s' mod 2 ^ 32"
proof
  assume eq: "pack_key d s = pack_key d' s'"
  have "(ucast d :: u64) = ucast d'" using pack_key_dev [of d s] pack_key_dev [of d' s'] eq by simp
  then have "unat (ucast d :: u64) = unat (ucast d' :: u64)" by simp
  then have "d = d'" by (intro unsigned_word_eqI) (simp add: unat_ucast_u64)
  moreover have "take_bit 32 s = take_bit 32 s'"
    using pack_key_sector [of d s] pack_key_sector [of d' s'] eq by simp
  then have "unat s mod 2 ^ 32 = unat s' mod 2 ^ 32" by (metis unat_take_bit)
  ultimately show "d = d' \<and> unat s mod 2 ^ 32 = unat s' mod 2 ^ 32"
    by simp
next
  assume eq: "d = d' \<and> unat s mod 2 ^ 32 = unat s' mod 2 ^ 32"
  then have "unat (take_bit 32 s) = unat (take_bit 32 s')"
    by (simp only: unat_take_bit)
  then have "take_bit 32 s = take_bit 32 s'" by (rule unsigned_word_eqI)
  with eq show "pack_key d s = pack_key d' s'" by (simp add: pack_key_take_bit)
qed

section \<open>Buckets\<close>

lemma floorlog_interval: "2 ^ k \<le> n \<Longrightarrow> n < 2 ^ Suc k \<Longrightarrow> floorlog 2 n = Suc k"
  by (metis Suc_leI floorlog_ge_SucI floorlog_leI le_antisym le0 one_less_numeral_iff
      semiring_norm(76))

lemma floorlog_0 [simp]: "floorlog b 0 = 0"
  by (simp add: floorlog_def)

lemma bucket_for_cases:
  fixes us :: u64
  obtains "unat us = 0"
    | k where "k < 22" "2 ^ k \<le> unat us" "unat us < 2 ^ Suc k"
    | "2 ^ 22 \<le> unat us"
proof -
  define L where "L = floorlog 2 (unat us)"
  show ?thesis
  proof (cases "unat us = 0 \<or> 2 ^ 22 \<le> unat us")
    case False
    then have n: "0 < unat us" "unat us < 2 ^ 22" by auto
    then have "L \<noteq> 0" by (simp add: L_def floorlog_eq_zero_iff)
    then obtain k where k: "L = Suc k" by (cases L) auto
    have "L \<le> 22" using n by (simp add: L_def floorlog_le_iff)
    moreover have "2 ^ (L - 1) \<le> unat us \<and> unat us < 2 ^ L"
      unfolding L_def using n by (intro floorlog_bounds) auto
    ultimately show ?thesis using that(2) [of k] k by simp
  qed (use that in auto)
qed

lemma bucket_for_floorlog: "unat (bucket_for us) = min (floorlog 2 (unat us)) 23"
proof (cases us rule: bucket_for_cases)
  case 1
  then have "us = 0" by (simp add: unat_eq_0)
  then show ?thesis by (simp add: bucket_for_def HIST_BUCKETS_def floorlog_eq_zero_iff)
next
  case (2 k)
  then have log: "floorlog 2 (unat us) = Suc k" by (intro floorlog_interval)
  from 2(1) have "k = 0 \<or> k = 1 \<or> k = 2 \<or> k = 3 \<or> k = 4 \<or> k = 5 \<or> k = 6 \<or> k = 7
     \<or> k = 8 \<or> k = 9 \<or> k = 10 \<or> k = 11 \<or> k = 12 \<or> k = 13 \<or> k = 14 \<or> k = 15
     \<or> k = 16 \<or> k = 17 \<or> k = 18 \<or> k = 19 \<or> k = 20 \<or> k = 21"
    by arith
  then have "unat (bucket_for us) = Suc k"
    using 2(2,3)
    by (elim disjE) (simp_all add: bucket_for_def HIST_BUCKETS_def word_le_nat_alt Let_def)
  then show ?thesis using log 2 by simp
next
  case 3
  then have "23 \<le> floorlog 2 (unat us)" using floorlog_ge_SucI [of 2 22] by simp
  moreover have "bucket_for us = 23"
    using 3 by (simp add: bucket_for_def HIST_BUCKETS_def word_le_nat_alt Let_def)
  ultimately show ?thesis by simp
qed

end
