(* ===== verification/LatencyMonitor.thy ===== *)
theory LatencyMonitor
  imports BlockLatency
begin

text \<open>
  What the two handlers of \<open>src/internal/ebpf/block_latency.c\<close> do to the maps, event by event.
  \<open>latency_maps\<close> is the interface they rely on (a bounded hash map and an array with all the
  buckets). The abstract monitor keeps the pending start times and the list of latency
  samples; the handlers on any maps that obey the laws refine it: the histogram is the count
  of the samples per bucket.
\<close>

section \<open>Events and runs\<close>

definition rq_key :: "rq_ctx \<Rightarrow> u64" where
  "rq_key c = pack_key (dev c) (sector c)"

text \<open>An event is a tracepoint firing at a kernel time.\<close>

datatype rq_event = Issue u64 rq_ctx | Complete u64 rq_ctx

fun handle :: "('h, 'a) bpf_helpers \<Rightarrow> rq_event \<Rightarrow> ('h, 'a) bpf_maps \<Rightarrow> ('h, 'a) bpf_maps" where
  "handle H (Issue t c) s = snd (trace_rq_issue H t c s)"
| "handle H (Complete t c) s = snd (trace_rq_complete H t c s)"

definition run_events ::
  "('h, 'a) bpf_helpers \<Rightarrow> rq_event list \<Rightarrow> ('h, 'a) bpf_maps \<Rightarrow> ('h, 'a) bpf_maps" where
  "run_events H es s = fold (handle H) es s"

fun event_key :: "rq_event \<Rightarrow> u64" where
  "event_key (Issue t c) = rq_key c"
| "event_key (Complete t c) = rq_key c"

section \<open>The abstract monitor\<close>

record monitor =
  pending :: "u64 \<rightharpoonup> u64"
  samples :: "u64 list"

definition empty_monitor :: monitor where
  "empty_monitor = \<lparr>pending = Map.empty, samples = []\<rparr>"

definition latency_us :: "u64 \<Rightarrow> u64 \<Rightarrow> u64" where
  "latency_us t0 t1 = (t1 - t0) div 1000"

fun monitor_step :: "nat \<Rightarrow> rq_event \<Rightarrow> monitor \<Rightarrow> monitor" where
  "monitor_step cap (Issue t c) m =
     (if has_room cap (pending m) (rq_key c)
      then m\<lparr>pending := (pending m)(rq_key c \<mapsto> t)\<rparr> else m)"
| "monitor_step cap (Complete t c) m =
     (case pending m (rq_key c) of
        None \<Rightarrow> m
      | Some t0 \<Rightarrow> m\<lparr>pending := (pending m)(rq_key c := None),
                     samples := latency_us t0 t # samples m\<rparr>)"

definition monitor_run :: "nat \<Rightarrow> rq_event list \<Rightarrow> monitor \<Rightarrow> monitor" where
  "monitor_run cap es m = fold (monitor_step cap) es m"

definition bucket_count :: "u32 \<Rightarrow> u64 list \<Rightarrow> nat" where
  "bucket_count i us = length (filter (\<lambda>u. bucket_for u = i) us)"

lemma bucket_count_simps [simp]:
  "bucket_count i [] = 0"
  "bucket_count i (u # us) = (if bucket_for u = i then Suc (bucket_count i us)
                              else bucket_count i us)"
  by (simp_all add: bucket_count_def)

lemma bucket_for_lt: "unat (bucket_for us) < 24"
  by (simp add: bucket_for_floorlog)

lemma latency_us_elapsed:
  assumes "d < 2 ^ 64"
  shows "unat (latency_us t0 (t0 + word_of_nat d)) = d div 1000"
  using assms sub_u64_elapsed [of "t0 + word_of_nat d" t0 d]
  by (simp add: latency_us_def unat_div_u64)

section \<open>The interface and its client\<close>

locale latency_maps =
  start: bpf_hash "start_lookup H" "start_update H" "start_delete H" hinv cap +
  hist: bpf_array "hist_lookup H" "hist_update H" ainv size
  for H :: "('h, 'a) bpf_helpers" and hinv cap ainv size +
  assumes all_buckets: "24 \<le> size"
begin

lemma handlers_return_0:
  "fst (trace_rq_issue H t c s) = 0" "fst (trace_rq_complete H t c s) = 0"
  by (auto simp: trace_rq_issue_def trace_rq_complete_def Let_def split: prod.split option.split)

lemma issue_maps:
  "snd (trace_rq_issue H t c s) =
     s\<lparr>start_times := snd (start_update H (start_times s) (rq_key c) t)\<rparr>"
  by (simp add: trace_rq_issue_def rq_key_def Let_def split: prod.split)

lemma fetch_and_add_lookup:
  assumes "ainv a" and "hist_lookup H a i = Some v"
  shows "hist_lookup H (sync_fetch_and_add H a i n) = (hist_lookup H a)(i \<mapsto> v + n)"
  using assms hist.lookup_after_update [of a i] by (simp add: sync_fetch_and_add_def)

lemma fetch_and_add_invar: "ainv a \<Longrightarrow> ainv (sync_fetch_and_add H a i n)"
  by (auto simp: sync_fetch_and_add_def intro: hist.invar_array_update split: option.split)

lemma bucket_present:
  assumes "ainv a"
  shows "\<exists>v. hist_lookup H a (bucket_for us) = Some v"
  using bucket_for_lt [of us] all_buckets by (intro hist.lookup_inside assms) linarith

lemma complete_unmatched:
  "start_lookup H (start_times s) (rq_key c) = None \<Longrightarrow> trace_rq_complete H t c s = (0, s)"
  by (simp add: trace_rq_complete_def rq_key_def)

lemma complete_matched:
  assumes "ainv (io_latency_hist s)"
    and "start_lookup H (start_times s) (rq_key c) = Some t0"
  shows "snd (trace_rq_complete H t c s) =
    s\<lparr>start_times := snd (start_delete H (start_times s) (rq_key c)),
      io_latency_hist :=
        sync_fetch_and_add H (io_latency_hist s) (bucket_for (latency_us t0 t)) 1\<rparr>"
proof -
  obtain v where "hist_lookup H (io_latency_hist s) (bucket_for (latency_us t0 t)) = Some v"
    using bucket_present [OF assms(1)] by blast
  then show ?thesis using assms(2)
    by (simp add: trace_rq_complete_def rq_key_def latency_us_def Let_def split: prod.split)
qed

lemma handle_invar:
  assumes "hinv (start_times s)" and "ainv (io_latency_hist s)"
  shows "hinv (start_times (handle H e s)) \<and> ainv (io_latency_hist (handle H e s))"
proof (cases e)
  case (Issue t c)
  then show ?thesis using assms by (simp add: issue_maps start.invar_update)
next
  case (Complete t c)
  then show ?thesis using assms complete_matched [OF assms(2)]
    by (cases "start_lookup H (start_times s) (rq_key c)")
      (auto simp: complete_unmatched start.invar_delete fetch_and_add_invar)
qed

end

section \<open>Refinement\<close>

text \<open>
  The maps represent the monitor \<open>m\<close> when the hash map holds exactly the pending start
  times and every bucket is its starting value \<open>h0\<close> plus the samples that fell into it.
\<close>

definition represents ::
  "('h, 'a) bpf_helpers \<Rightarrow> (u32 \<Rightarrow> u64) \<Rightarrow> ('h, 'a) bpf_maps \<Rightarrow> monitor \<Rightarrow> bool" where
  "represents H h0 s m \<longleftrightarrow>
     start_lookup H (start_times s) = pending m \<and>
     (\<forall>i. unat i < 24 \<longrightarrow>
        hist_lookup H (io_latency_hist s) i = Some (h0 i + word_of_nat (bucket_count i (samples m))))"

context latency_maps
begin

lemma handle_refines:
  assumes inv: "hinv (start_times s)" "ainv (io_latency_hist s)" and rep: "represents H h0 s m"
  shows "represents H h0 (handle H e s) (monitor_step cap e m)"
proof (cases e)
  case (Issue t c)
  then show ?thesis using assms by (auto simp: represents_def issue_maps start.lookup_update)
next
  case (Complete t c)
  show ?thesis
  proof (cases "pending m (rq_key c)")
    case None
    then show ?thesis using Complete rep by (simp add: represents_def complete_unmatched)
  next
    case (Some t0)
    let ?i = "bucket_for (latency_us t0 t)"
    have look: "start_lookup H (start_times s) (rq_key c) = Some t0"
      using Some rep by (simp add: represents_def)
    have "hist_lookup H (io_latency_hist s) ?i =
        Some (h0 ?i + word_of_nat (bucket_count ?i (samples m)))"
      using rep bucket_for_lt by (simp add: represents_def)
    from fetch_and_add_lookup [OF inv(2) this] show ?thesis
      using Complete Some rep inv
      by (auto simp: represents_def complete_matched [OF inv(2) look] start.delete_entry)
  qed
qed

lemma run_refines:
  assumes "hinv (start_times s)" "ainv (io_latency_hist s)" "represents H h0 s m"
  shows "represents H h0 (run_events H es s) (monitor_run cap es m)"
  using assms
proof (induction es arbitrary: s m)
  case (Cons e es)
  show ?case
    using Cons.IH [of "handle H e s" "monitor_step cap e m"] Cons.prems
      handle_invar [OF Cons.prems(1,2)] handle_refines [OF Cons.prems]
    by (simp add: run_events_def monitor_run_def)
qed (simp add: run_events_def monitor_run_def)

lemma run_invar:
  assumes "hinv (start_times s)" "ainv (io_latency_hist s)"
  shows "hinv (start_times (run_events H es s)) \<and> ainv (io_latency_hist (run_events H es s))"
  using assms
proof (induction es arbitrary: s)
  case (Cons e es)
  then show ?case using handle_invar [OF Cons.prems] by (simp add: run_events_def)
qed (simp add: run_events_def)

lemma unrelated_event_keeps_start:
  assumes "hinv (start_times s)" "ainv (io_latency_hist s)" "event_key e \<noteq> k"
  shows "start_lookup H (start_times (handle H e s)) k = start_lookup H (start_times s) k"
proof (cases e)
  case (Issue t c)
  then show ?thesis using assms by (simp add: issue_maps start.lookup_update_other)
next
  case (Complete t c)
  then show ?thesis using assms complete_matched [OF assms(2)]
    by (cases "start_lookup H (start_times s) (rq_key c)")
      (auto simp: complete_unmatched start.delete_entry)
qed

lemma unrelated_run_keeps_start:
  assumes "hinv (start_times s)" "ainv (io_latency_hist s)" "\<forall>e \<in> set es. event_key e \<noteq> k"
  shows "start_lookup H (start_times (run_events H es s)) k = start_lookup H (start_times s) k"
  using assms
proof (induction es arbitrary: s)
  case (Cons e es)
  then show ?case
    using handle_invar [OF Cons.prems(1,2)] unrelated_event_keeps_start [OF Cons.prems(1,2), of e k]
    by (simp add: run_events_def)
qed (simp add: run_events_def)

end

section \<open>The declared maps\<close>

interpretation kernel_maps: latency_maps kernel_helpers
  "hash_invar start_times_max_entries" start_times_max_entries
  "array_invar io_latency_hist_max_entries" io_latency_hist_max_entries
  unfolding kernel_helpers_def
  by (intro latency_maps.intro latency_maps_axioms.intro)
    (simp_all add: hash_map.bpf_hash_axioms array_map.bpf_array_axioms
      io_latency_hist_max_entries_def HIST_BUCKETS_def)

lemma initial_invar:
  "hash_invar start_times_max_entries (start_times initial_maps)"
  "array_invar io_latency_hist_max_entries (io_latency_hist initial_maps)"
  by (simp_all add: initial_maps_def hash_invar_def array_invar_def)

lemma initial_represents: "represents kernel_helpers (\<lambda>_. 0) initial_maps empty_monitor"
  by (auto simp: represents_def initial_maps_def empty_monitor_def kernel_helpers_def
      array_lookup_def io_latency_hist_max_entries_def HIST_BUCKETS_def)

lemmas kernel_run_refines =
  kernel_maps.run_refines [OF initial_invar initial_represents]

lemma kernel_hist_entry:
  assumes "unat i < 24"
  shows "io_latency_hist (run_events kernel_helpers es initial_maps) ! unat i =
    word_of_nat (bucket_count i (samples (monitor_run start_times_max_entries es empty_monitor)))"
  using kernel_run_refines [of es] assms
  by (auto simp: represents_def kernel_helpers_def array_lookup_def split: if_splits)

lemma bucket_count_sum: "(\<Sum>i<24. bucket_count (word_of_nat i) us) = length us"
proof (induction us)
  case (Cons u us)
  have eq: "bucket_for u = word_of_nat i \<longleftrightarrow> i = unat (bucket_for u)" if "i < 24" for i
    using that bucket_for_lt [of u] by (auto simp: unat_of_nat)
  have "(\<Sum>i<24. bucket_count (word_of_nat i) (u # us)) =
      (\<Sum>i<24. (if i = unat (bucket_for u) then 1 else 0) + bucket_count (word_of_nat i) us)"
    by (rule sum.cong) (auto simp: eq)
  then show ?case using Cons bucket_for_lt [of u] by (simp add: sum.distrib)
qed simp

section \<open>A matched completion\<close>

text \<open>
  An issue while the start map has room, events on other keys, and a completion on the same key
  (of the same request, or of one that shares its key).
\<close>

lemma matched_completion:
  assumes maps: "latency_maps H hinv cap ainv n"
    and inv: "hinv (start_times s)" "ainv (io_latency_hist s)"
    and room: "has_room cap (start_lookup H (start_times s)) (rq_key c)"
    and quiet: "\<forall>e \<in> set es. event_key e \<noteq> rq_key c"
    and s1: "s1 = run_events H (Issue t0 c # es) s"
    and key: "rq_key c' = rq_key c"
    and s2: "s2 = handle H (Complete (t0 + word_of_nat d) c') s1"
    and d: "d < 2 ^ 64"
    and b: "b = bucket_for (word_of_nat (d div 1000))"
  shows "\<exists>v. hist_lookup H (io_latency_hist s1) b = Some v \<and>
    hist_lookup H (io_latency_hist s2) = (hist_lookup H (io_latency_hist s1))(b \<mapsto> v + 1) \<and>
    start_lookup H (start_times s2) (rq_key c) = None"
proof -
  note L = latency_maps.issue_maps [OF maps] latency_maps.complete_matched [OF maps]
    latency_maps.handle_invar [OF maps] latency_maps.run_invar [OF maps]
  have inv0: "hinv (start_times (handle H (Issue t0 c) s))"
    "ainv (io_latency_hist (handle H (Issue t0 c) s))"
    using L(3) [OF inv, of "Issue t0 c"] by auto
  have s1': "s1 = run_events H es (handle H (Issue t0 c) s)"
    by (simp add: s1 run_events_def)
  have inv1: "hinv (start_times s1)" "ainv (io_latency_hist s1)"
    using L(4) [OF inv0, of es] by (auto simp: s1')
  have "start_lookup H (start_times (handle H (Issue t0 c) s)) (rq_key c) = Some t0"
    using maps inv room bpf_hash.update_room
    by (fastforce simp: L(1) dest: latency_maps.axioms(1))
  then have look: "start_lookup H (start_times s1) (rq_key c) = Some t0"
    using latency_maps.unrelated_run_keeps_start [OF maps inv0 quiet] by (simp add: s1')
  have "unat (latency_us t0 (t0 + word_of_nat d)) = unat (word_of_nat (d div 1000) :: u64)"
    using d by (subst latency_us_elapsed) (simp_all add: unat_of_nat order_le_less_trans [OF div_le_dividend])
  then have "latency_us t0 (t0 + word_of_nat d) = word_of_nat (d div 1000)"
    by (rule unsigned_word_eqI)
  then have s2': "s2 = s1\<lparr>start_times := snd (start_delete H (start_times s1) (rq_key c)),
      io_latency_hist := sync_fetch_and_add H (io_latency_hist s1) b 1\<rparr>"
    using L(2) [OF inv1(2), of c' t0] look by (simp add: s2 b key)
  obtain v where v: "hist_lookup H (io_latency_hist s1) b = Some v"
    using latency_maps.bucket_present [OF maps inv1(2)] b by blast
  show ?thesis
    using latency_maps.fetch_and_add_lookup [OF maps inv1(2) v, of 1] v
      bpf_hash.delete_entry [OF latency_maps.axioms(1) [OF maps] inv1(1), of "rq_key c"]
    by (simp add: s2')
qed

section \<open>Properties\<close>

text \<open>
  C10. \<open>bucket_for\<close> computes the bit length of the latency in microseconds, capped at the
  last bucket 23; so bucket 0 holds latencies below 1 us, bucket \<open>i\<close> with \<open>0 < i < 23\<close> holds
  exactly \<open>[2^(i-1), 2^i)\<close> us, and the 23 comparisons of the C code agree with \<open>floorlog\<close>
  on all 64-bit values.
\<close>

theorem bucket_for_is_capped_bit_length:
  "unat (bucket_for us) = min (floorlog 2 (unat us)) 23"
  by (rule bucket_for_floorlog)

text \<open>
  C31. Two requests share a key exactly when they are on the same device and their start
  sectors agree modulo \<open>2^32\<close>.
\<close>

theorem pack_key_collision:
  "pack_key d s = pack_key d' s' \<longleftrightarrow> d = d' \<and> unat s mod 2 ^ 32 = unat s' mod 2 ^ 32"
  by (rule pack_key_eq_iff)

text \<open>
  C1. On any maps that obey the laws, every run of the two handlers refines the abstract
  monitor: the hash map is the table of pending start times and each histogram bucket is its
  starting value plus the number of samples that fall into it.
\<close>

theorem handlers_refine_monitor:
  assumes "latency_maps H hinv cap ainv n"
    and "hinv (start_times s)" and "ainv (io_latency_hist s)"
    and "represents H h0 s m"
  shows "represents H h0 (run_events H es s) (monitor_run cap es m)"
  using assms by (rule latency_maps.run_refines)

theorem handlers_refine_monitor_witness:
  "represents kernel_helpers (\<lambda>_. 0)
     (run_events kernel_helpers [Issue 5000 \<lparr>dev = 1, sector = 7\<rparr>] initial_maps)
     (monitor_run start_times_max_entries [Issue 5000 \<lparr>dev = 1, sector = 7\<rparr>] empty_monitor)"
  by (rule handlers_refine_monitor
      [OF kernel_maps.latency_maps_axioms initial_invar initial_represents])

text \<open>
  With the maps of the program, starting empty: after any events the histogram has 24
  buckets, every bucket is the number of samples in its range (modulo \<open>2^64\<close>), the buckets
  add up to the number of matched completions, and no more than 10240 requests are pending.
\<close>

lemma histogram_counts_samples:
  "let s = run_events kernel_helpers es initial_maps;
       us = samples (monitor_run start_times_max_entries es empty_monitor)
   in io_latency_hist s = map (\<lambda>i. word_of_nat (bucket_count (word_of_nat i) us)) [0..<24] \<and>
      (\<Sum>i<24. bucket_count (word_of_nat i) us) = length us \<and>
      length (start_times s) \<le> 10240"
proof -
  let ?s = "run_events kernel_helpers es initial_maps"
  have inv: "length (start_times ?s) \<le> 10240" "length (io_latency_hist ?s) = 24"
    using kernel_maps.run_invar [OF initial_invar, of es]
    by (auto simp: array_invar_def hash_invar_def io_latency_hist_max_entries_def
        HIST_BUCKETS_def start_times_max_entries_def)
  have "io_latency_hist ?s ! i =
      word_of_nat (bucket_count (word_of_nat i)
        (samples (monitor_run start_times_max_entries es empty_monitor)))" if "i < 24" for i
    using kernel_hist_entry [of "word_of_nat i" es] that by (simp add: unat_of_nat)
  with inv show ?thesis
    by (auto simp: Let_def bucket_count_sum intro!: nth_equalityI)
qed

text \<open>
  C4. A request that is issued while the start map has room and completed later, with no
  event on its key in between, is measured exactly once and exactly: the completion adds one
  to the bucket of the elapsed microseconds (even when the clock wraps), changes no other
  bucket and removes the pending entry.
\<close>

theorem request_latency_recorded:
  assumes maps: "latency_maps H hinv cap ainv n"
    and inv: "hinv (start_times s)" "ainv (io_latency_hist s)"
    and room: "has_room cap (start_lookup H (start_times s)) (rq_key c)"
    and quiet: "\<forall>e \<in> set es. event_key e \<noteq> rq_key c"
    and s1: "s1 = run_events H (Issue t0 c # es) s"
    and s2: "s2 = handle H (Complete (t0 + word_of_nat d) c) s1"
    and d: "d < 2 ^ 64"
    and b: "b = bucket_for (word_of_nat (d div 1000))"
  shows "\<exists>v. hist_lookup H (io_latency_hist s1) b = Some v \<and>
    hist_lookup H (io_latency_hist s2) = (hist_lookup H (io_latency_hist s1))(b \<mapsto> v + 1) \<and>
    start_lookup H (start_times s2) (rq_key c) = None"
  by (rule matched_completion [OF assms(1-6) refl assms(7-9)])

definition sample_rq :: rq_ctx where
  "sample_rq = \<lparr>dev = 8388608, sector = 2048\<rparr>"

theorem request_latency_recorded_witness:
  "\<exists>v. hist_lookup kernel_helpers (io_latency_hist
        (run_events kernel_helpers [Issue 5000 sample_rq] initial_maps)) 6 = Some v \<and>
    hist_lookup kernel_helpers (io_latency_hist (handle kernel_helpers
        (Complete (5000 + word_of_nat 42000) sample_rq)
        (run_events kernel_helpers [Issue 5000 sample_rq] initial_maps))) =
      (hist_lookup kernel_helpers (io_latency_hist
        (run_events kernel_helpers [Issue 5000 sample_rq] initial_maps)))(6 \<mapsto> v + 1) \<and>
    start_lookup kernel_helpers (start_times (handle kernel_helpers
        (Complete (5000 + word_of_nat 42000) sample_rq)
        (run_events kernel_helpers [Issue 5000 sample_rq] initial_maps))) (rq_key sample_rq) = None"
proof -
  have room: "has_room start_times_max_entries
      (start_lookup kernel_helpers (start_times initial_maps)) (rq_key sample_rq)"
    by (simp add: has_room_def start_times_max_entries_def kernel_helpers_def initial_maps_def)
  have b: "6 = bucket_for (word_of_nat (42000 div 1000))"
    by (simp add: bucket_for_def HIST_BUCKETS_def)
  show ?thesis
    by (rule request_latency_recorded [OF kernel_maps.latency_maps_axioms initial_invar room
        _ refl refl _ b]) simp_all
qed

text \<open>
  A completion without a pending start time changes nothing: requests issued before the
  program was attached, dropped by a full start map, or already completed add no sample.
\<close>

lemma unmatched_completion_ignored:
  assumes "start_lookup H (start_times s) (pack_key (dev c) (sector c)) = None"
  shows "trace_rq_complete H t c s = (0, s)"
  using assms by (simp add: trace_rq_complete_def)

text \<open>
  C32. Aliasing records a wrong latency, not only a missed one. Let two requests of one device
  have different sectors that agree modulo \<open>2^32\<close>, and the second be issued while the first is
  pending, with no other event on their key. Then the completion of the first counts the time
  since the issue of the second, and the completion of the second counts nothing, whatever maps
  hold the data and whatever else happens in between.
\<close>

theorem aliased_requests_mismeasured:
  assumes maps: "latency_maps H hinv cap ainv n"
    and inv: "hinv (start_times s)" "ainv (io_latency_hist s)"
    and room: "has_room cap (start_lookup H (start_times s)) (rq_key x)"
    and shared: "dev x = dev y" "sector x \<noteq> sector y"
      "unat (sector x) mod 2 ^ 32 = unat (sector y) mod 2 ^ 32"
    and quiet: "\<forall>e \<in> set (es @ es'). event_key e \<noteq> rq_key x"
    and s1: "s1 = run_events H (Issue t0 x # es @ Issue t1 y # es') s"
    and s2: "s2 = handle H (Complete (t1 + word_of_nat d) x) s1"
    and d: "d < 2 ^ 64"
    and b: "b = bucket_for (word_of_nat (d div 1000))"
  shows "\<exists>v. hist_lookup H (io_latency_hist s1) b = Some v \<and>
    hist_lookup H (io_latency_hist s2) = (hist_lookup H (io_latency_hist s1))(b \<mapsto> v + 1) \<and>
    handle H (Complete t2 y) s2 = s2"
proof -
  let ?s0 = "run_events H (Issue t0 x # es) s"
  have key: "rq_key x = rq_key y" using shared by (simp add: rq_key_def pack_key_eq_iff)
  have inv1: "hinv (start_times (handle H (Issue t0 x) s))"
    "ainv (io_latency_hist (handle H (Issue t0 x) s))"
    using latency_maps.handle_invar [OF maps inv, of "Issue t0 x"] by simp_all
  have inv0: "hinv (start_times ?s0)" "ainv (io_latency_hist ?s0)"
    using latency_maps.run_invar [OF maps inv] by auto
  have "start_lookup H (start_times (handle H (Issue t0 x) s)) (rq_key x) = Some t0"
    using maps inv room bpf_hash.update_room
    by (fastforce simp: latency_maps.issue_maps [OF maps] dest: latency_maps.axioms(1))
  then have "start_lookup H (start_times ?s0) (rq_key x) = Some t0"
    using latency_maps.unrelated_run_keeps_start [OF maps inv1, of es "rq_key x"] quiet
    by (simp add: run_events_def)
  then have room0: "has_room cap (start_lookup H (start_times ?s0)) (rq_key y)"
    by (auto simp: has_room_def key)
  have s1': "s1 = run_events H (Issue t1 y # es') ?s0" by (simp add: s1 run_events_def)
  have "\<forall>e \<in> set es'. event_key e \<noteq> rq_key y" using quiet key by auto
  from matched_completion [OF maps inv0 room0 this s1' key s2 d b]
  obtain v where v: "hist_lookup H (io_latency_hist s1) b = Some v"
    "hist_lookup H (io_latency_hist s2) = (hist_lookup H (io_latency_hist s1))(b \<mapsto> v + 1)"
    "start_lookup H (start_times s2) (rq_key y) = None" by blast
  from v(3) have "handle H (Complete t2 y) s2 = s2"
    by (simp add: latency_maps.complete_unmatched [OF maps])
  with v show ?thesis by blast
qed

text \<open>
  On the maps of the program: of two requests that take 150 and 80 us, one sample of 50 us is
  recorded.
\<close>

theorem aliased_requests_mismeasured_witness:
  "let x = \<lparr>dev = 8388608, sector = 2048\<rparr>; y = \<lparr>dev = 8388608, sector = 4294969344\<rparr>;
       s1 = run_events kernel_helpers [Issue 0 x, Issue 100000 y] initial_maps;
       s2 = handle kernel_helpers (Complete (100000 + word_of_nat 50000) x) s1
   in \<exists>v. hist_lookup kernel_helpers (io_latency_hist s2) =
        (hist_lookup kernel_helpers (io_latency_hist s1))(6 \<mapsto> v + 1) \<and>
      handle kernel_helpers (Complete 180000 y) s2 = s2"
proof -
  let ?x = "\<lparr>dev = 8388608, sector = 2048\<rparr> :: rq_ctx"
  let ?y = "\<lparr>dev = 8388608, sector = 4294969344\<rparr> :: rq_ctx"
  have room: "has_room start_times_max_entries
      (start_lookup kernel_helpers (start_times initial_maps)) (rq_key ?x)"
    by (simp add: has_room_def start_times_max_entries_def kernel_helpers_def initial_maps_def)
  have b: "6 = bucket_for (word_of_nat (50000 div 1000))"
    by (simp add: bucket_for_def HIST_BUCKETS_def)
  have s1: "run_events kernel_helpers [Issue 0 ?x, Issue 100000 ?y] initial_maps =
      run_events kernel_helpers (Issue 0 ?x # [] @ Issue 100000 ?y # []) initial_maps" by simp
  show ?thesis
    using aliased_requests_mismeasured [OF kernel_maps.latency_maps_axioms initial_invar room
        _ _ _ _ s1 refl _ b, of 180000]
    by (simp add: Let_def) blast
qed

end
