(* ===== verification/GoStrings.thy ===== *)
theory GoStrings
  imports Prelude "HOL-Library.Char_ord"
begin

text \<open>
  What the Go sources use of the standard library's text functions, on byte strings:
  \<open>strings.HasPrefix\<close>, \<open>Contains\<close>, \<open>IndexByte\<close>, \<open>Fields\<close>, \<open>TrimSpace\<close>, \<open>TrimSuffix\<close>,
  \<open>Repeat\<close>; \<open>strconv.ParseUint\<close> in base 10 with 64 bits; the \<open>%d\<close> and padding verbs of \<open>fmt\<close>;
  and \<open>bufio.Scanner\<close> with the default line splitting.

  The lemmas show that \<open>parse_uint\<close> accepts exactly the non-empty digit strings whose value
  fits 64 bits and returns that value, that it inverts \<open>%d\<close>, and what \<open>fields\<close> splits.
\<close>

section \<open>Searching\<close>

definition has_prefix :: "gostring \<Rightarrow> gostring \<Rightarrow> bool" where
  "has_prefix s p \<longleftrightarrow> take (length p) s = p"

definition has_suffix :: "gostring \<Rightarrow> gostring \<Rightarrow> bool" where
  "has_suffix s p \<longleftrightarrow> length p \<le> length s \<and> drop (length s - length p) s = p"

fun contains :: "gostring \<Rightarrow> gostring \<Rightarrow> bool" where
  "contains [] sub \<longleftrightarrow> sub = []"
| "contains (c # cs) sub \<longleftrightarrow> has_prefix (c # cs) sub \<or> contains cs sub"

text \<open>\<open>strings.IndexByte\<close>; the result -1 is \<open>None\<close>.\<close>

fun index_byte :: "gostring \<Rightarrow> char \<Rightarrow> nat option" where
  "index_byte [] c = None"
| "index_byte (d # ds) c = (if d = c then Some 0 else map_option Suc (index_byte ds c))"

definition trim_suffix :: "gostring \<Rightarrow> gostring \<Rightarrow> gostring" where
  "trim_suffix s suf = (if has_suffix s suf then take (length s - length suf) s else s)"

definition repeat_string :: "gostring \<Rightarrow> nat \<Rightarrow> gostring" where
  "repeat_string s n = concat (replicate n s)"

lemma has_prefix_append [simp]: "has_prefix (p @ s) p"
  by (simp add: has_prefix_def)

lemma has_prefix_iff: "has_prefix s p \<longleftrightarrow> (\<exists>t. s = p @ t)"
  by (metis append_take_drop_id has_prefix_append has_prefix_def)

lemma has_suffix_append [simp]: "has_suffix (s @ p) p"
  by (simp add: has_suffix_def)

lemma trim_suffix_append [simp]: "trim_suffix (s @ suf) suf = s"
  by (simp add: trim_suffix_def)

lemma index_byte_append: "c \<notin> set p \<Longrightarrow> index_byte (p @ c # s) c = Some (length p)"
  by (induction p) auto

lemma index_byte_None: "index_byte s c = None \<longleftrightarrow> c \<notin> set s"
  by (induction s) auto

lemma index_byte_split:
  "index_byte s c = Some i \<Longrightarrow> s = take i s @ c # drop (Suc i) s \<and> c \<notin> set (take i s)"
  by (induction s arbitrary: i) (auto split: if_splits)

section \<open>White space\<close>

text \<open>
  The UTF-8 encodings of the runes for which \<open>unicode.IsSpace\<close> holds. A first byte of an
  encoding never occurs inside the encoding of another rune, and an invalid byte is decoded
  alone, so looking for these encodings byte by byte finds the same runes as decoding.
\<close>

definition white_space :: "gostring list" where
  "white_space =
    [[CHR 0x09], [CHR 0x0A], [CHR 0x0B], [CHR 0x0C], [CHR 0x0D], [CHR 0x20],
     [CHR 0xC2, CHR 0x85], [CHR 0xC2, CHR 0xA0], [CHR 0xE1, CHR 0x9A, CHR 0x80],
     [CHR 0xE2, CHR 0x80, CHR 0x80], [CHR 0xE2, CHR 0x80, CHR 0x81],
     [CHR 0xE2, CHR 0x80, CHR 0x82], [CHR 0xE2, CHR 0x80, CHR 0x83],
     [CHR 0xE2, CHR 0x80, CHR 0x84], [CHR 0xE2, CHR 0x80, CHR 0x85],
     [CHR 0xE2, CHR 0x80, CHR 0x86], [CHR 0xE2, CHR 0x80, CHR 0x87],
     [CHR 0xE2, CHR 0x80, CHR 0x88], [CHR 0xE2, CHR 0x80, CHR 0x89],
     [CHR 0xE2, CHR 0x80, CHR 0x8A], [CHR 0xE2, CHR 0x80, CHR 0xA8],
     [CHR 0xE2, CHR 0x80, CHR 0xA9], [CHR 0xE2, CHR 0x80, CHR 0xAF],
     [CHR 0xE2, CHR 0x81, CHR 0x9F], [CHR 0xE3, CHR 0x80, CHR 0x80]]"

text \<open>Length of the white space rune at the front of a string, 0 if there is none.\<close>

definition ws_len :: "gostring \<Rightarrow> nat" where
  "ws_len s = (case find (has_prefix s) white_space of None \<Rightarrow> 0 | Some w \<Rightarrow> length w)"

definition rev_ws_len :: "gostring \<Rightarrow> nat" where
  "rev_ws_len s =
     (case find (\<lambda>w. has_prefix s (rev w)) white_space of None \<Rightarrow> 0 | Some w \<Rightarrow> length w)"

text \<open>\<open>split_ws skip cur s\<close>: the fields of \<open>s\<close>; \<open>cur\<close> is the field being read, reversed.\<close>

fun split_ws :: "nat \<Rightarrow> gostring \<Rightarrow> gostring \<Rightarrow> gostring list" where
  "split_ws skip cur [] = (if cur = [] then [] else [rev cur])"
| "split_ws (Suc k) cur (c # cs) = split_ws k cur cs"
| "split_ws 0 cur (c # cs) =
     (case ws_len (c # cs) of
        0 \<Rightarrow> split_ws 0 (c # cur) cs
      | Suc k \<Rightarrow> (if cur = [] then split_ws k [] cs else rev cur # split_ws k [] cs))"

definition string_fields :: "gostring \<Rightarrow> gostring list" where
  "string_fields s = split_ws 0 [] s"

fun trim_left :: "(gostring \<Rightarrow> nat) \<Rightarrow> gostring \<Rightarrow> gostring" where
  "trim_left len [] = []"
| "trim_left len (c # cs) =
     (case len (c # cs) of 0 \<Rightarrow> c # cs | Suc k \<Rightarrow> trim_left len (drop k cs))"

definition trim_space :: "gostring \<Rightarrow> gostring" where
  "trim_space s = rev (trim_left rev_ws_len (rev (trim_left ws_len s)))"

section \<open>Decimal numbers\<close>

definition is_digit :: "char \<Rightarrow> bool" where
  "is_digit c \<longleftrightarrow> CHR ''0'' \<le> c \<and> c \<le> CHR ''9''"

definition digit_val :: "char \<Rightarrow> nat" where
  "digit_val c = of_char c - 48"

text \<open>The value of a digit string, without bounds.\<close>

definition dec_val :: "gostring \<Rightarrow> nat" where
  "dec_val s = foldl (\<lambda>n c. 10 * n + digit_val c) 0 s"

text \<open>The \<open>%d\<close> verb on a non-negative number.\<close>

fun itoa :: "nat \<Rightarrow> gostring" where
  "itoa n = (if n < 10 then [char_of (48 + n)] else itoa (n div 10) @ [char_of (48 + n mod 10)])"

declare itoa.simps [simp del]

datatype num_error = ErrSyntax | ErrRange

definition uint_cutoff :: u64 where
  "uint_cutoff = 1844674407370955162"

fun parse_digits :: "u64 \<Rightarrow> gostring \<Rightarrow> num_error + u64" where
  "parse_digits n [] = Inr n"
| "parse_digits n (c # cs) =
     (if \<not> is_digit c then Inl ErrSyntax
      else if n \<ge> uint_cutoff then Inl ErrRange
      else (let n = n * 10; n1 = n + word_of_nat (digit_val c)
            in if n1 < n then Inl ErrRange else parse_digits n1 cs))"

definition parse_uint :: "gostring \<Rightarrow> num_error + u64" where
  "parse_uint s = (if s = [] then Inl ErrSyntax else parse_digits 0 s)"

section \<open>Padding\<close>

text \<open>Number of runes of a valid UTF-8 string: its bytes that do not continue a rune.\<close>

definition rune_count :: "gostring \<Rightarrow> nat" where
  "rune_count s = length (filter (\<lambda>c. (of_char c :: nat) div 64 \<noteq> 2) s)"

definition pad_left :: "nat \<Rightarrow> gostring \<Rightarrow> gostring" where
  "pad_left n s = replicate (n - rune_count s) (CHR '' '') @ s"

definition pad_right :: "nat \<Rightarrow> gostring \<Rightarrow> gostring" where
  "pad_right n s = s @ replicate (n - rune_count s) (CHR '' '')"

section \<open>Reading lines\<close>

text \<open>
  An \<open>io.Reader\<close> as the bytes it delivers and the error that ends them (\<open>None\<close> for EOF), the
  error coming in a read of its own as \<open>os.File\<close> reports it. \<open>bufio.Scanner\<close> gives the lines
  without their end (a trailing carriage return is dropped), the last one also when it is
  not terminated, and stops with \<open>ErrTooLong\<close> at a line that does not fit its buffer of
  64 KiB together with its end.
\<close>

record 'e reader =
  content :: gostring
  read_error :: "'e option"

datatype 'e scan_error = ErrTooLong | ReadError 'e

definition max_scan_token :: nat where
  "max_scan_token = 65536"

fun split_lines :: "gostring \<Rightarrow> gostring \<Rightarrow> gostring list" where
  "split_lines cur [] = (if cur = [] then [] else [rev cur])"
| "split_lines cur (c # cs) =
     (if c = CHR 0x0A then rev cur # split_lines [] cs else split_lines (c # cur) cs)"

definition drop_cr :: "gostring \<Rightarrow> gostring" where
  "drop_cr s = (if s \<noteq> [] \<and> last s = CHR 0x0D then butlast s else s)"

fun scan_tokens :: "'e option \<Rightarrow> gostring list \<Rightarrow> gostring list \<times> 'e scan_error option" where
  "scan_tokens err [] = ([], map_option ReadError err)"
| "scan_tokens err (l # ls) =
     (if length l \<ge> max_scan_token then ([], Some ErrTooLong)
      else (let (ts, e) = scan_tokens err ls in (drop_cr l # ts, e)))"

definition scan_lines :: "'e reader \<Rightarrow> gostring list \<times> 'e scan_error option" where
  "scan_lines r = scan_tokens (read_error r) (split_lines [] (content r))"

section \<open>Errors of the collectors\<close>

text \<open>
  What a collector returns besides its value: the file could not be opened, the scanner
  stopped, or a number in a line (the text given) did not parse.
\<close>

datatype 'e stats_error =
    OpenError gostring 'e
  | ScanFailed "'e scan_error"
  | ParseError gostring num_error
  | StatfsError gostring 'e

text \<open>Running the parser of a collector on a file opened by name.\<close>

type_synonym 'e open_file = "gostring \<Rightarrow> 'e + 'e reader"

text \<open>The result of a line loop, unless the scanner reported an error.\<close>

definition finish_scan :: "'e scan_error option \<Rightarrow> 'e stats_error + 'a \<Rightarrow> 'e stats_error + 'a" where
  "finish_scan err res =
     (case res of
        Inl e \<Rightarrow> Inl e
      | Inr x \<Rightarrow> (case err of Some e \<Rightarrow> Inl (ScanFailed e) | None \<Rightarrow> Inr x))"

lemma finish_scan_None [simp]: "finish_scan None res = res"
  by (simp add: finish_scan_def split: sum.split)

section \<open>Facts on numbers\<close>

lemma is_digit_of_char: "is_digit c \<longleftrightarrow> 48 \<le> (of_char c :: nat) \<and> (of_char c :: nat) \<le> 57"
proof -
  have "CHR ''0'' \<le> c \<longleftrightarrow> (of_char CHR ''0'' :: nat) \<le> of_char c"
    "c \<le> CHR ''9'' \<longleftrightarrow> (of_char c :: nat) \<le> of_char CHR ''9''"
    by (simp_all only: less_eq_char_def)
  then show ?thesis by (simp add: is_digit_def)
qed

lemma digit_val_lt: "is_digit c \<Longrightarrow> digit_val c < 10"
  by (auto simp: is_digit_of_char digit_val_def)

lemma digit_char: "n < 10 \<Longrightarrow> is_digit (char_of (48 + n :: nat)) \<and> digit_val (char_of (48 + n :: nat)) = n"
  by (simp add: is_digit_of_char digit_val_def)

lemma dec_val_append: "dec_val (s @ [c]) = 10 * dec_val s + digit_val c"
  by (simp add: dec_val_def)

lemma foldl_dec_ge: "n \<le> foldl (\<lambda>n c. 10 * n + digit_val c) n s"
proof (induction s arbitrary: n)
  case (Cons c s)
  show ?case using Cons [of "10 * n + digit_val c"] by simp
qed simp

lemma itoa_digits: "itoa n \<noteq> [] \<and> list_all is_digit (itoa n) \<and> dec_val (itoa n) = n"
proof (induction n rule: itoa.induct)
  case (1 n)
  show ?case
  proof (cases "n < 10")
    case True
    then show ?thesis using digit_char [of n]
      by (subst (1 2 3) itoa.simps) (simp add: dec_val_def)
  next
    case False
    then show ?thesis using 1 digit_char [of "n mod 10"]
      by (subst (1 2 3) itoa.simps) (simp add: dec_val_append)
  qed
qed

lemma parse_digits_Inr:
  "parse_digits n s = Inr v \<longleftrightarrow>
     list_all is_digit s \<and> foldl (\<lambda>n c. 10 * n + digit_val c) (unat n) s < 2 ^ 64 \<and>
     unat v = foldl (\<lambda>n c. 10 * n + digit_val c) (unat n) s"
proof (induction s arbitrary: n)
  case Nil
  show ?case using unat_u64_lt [of n] by (auto simp: word_unat_eq_iff)
next
  case (Cons c s)
  show ?case
  proof (cases "is_digit c")
    case True
    let ?m = "10 * unat n + digit_val c"
    note d = digit_val_lt [OF True]
    show ?thesis
    proof (cases "?m < 2 ^ 64")
      case fits: True
      have n: "unat n < 1844674407370955162" using fits by simp
      have m10: "unat (n * 10) = 10 * unat n" using fits by (simp add: unat_mult_u64)
      have m: "unat (n * 10 + word_of_nat (digit_val c)) = ?m"
        using fits d by (simp add: unat_add_u64 m10 unat_of_nat)
      have "parse_digits n (c # s) = parse_digits (n * 10 + word_of_nat (digit_val c)) s"
        using True n m m10 by (simp add: uint_cutoff_def u64_le_nat u64_less_nat Let_def)
      then show ?thesis using Cons True m by simp
    next
      case False
      have "2 ^ 64 \<le> foldl (\<lambda>n c. 10 * n + digit_val c) ?m s"
        using False foldl_dec_ge [of ?m s] by linarith
      moreover have "parse_digits n (c # s) = Inl ErrRange"
      proof (cases "unat n < 1844674407370955162")
        case n: True
        have m10: "unat (n * 10) = 10 * unat n" using n by (simp add: unat_mult_u64)
        have "(10 * unat n + digit_val c) mod 2 ^ 64 = 10 * unat n + digit_val c - 2 ^ 64"
          using n d False by (subst le_mod_geq) simp_all
        then have "unat (n * 10 + word_of_nat (digit_val c)) < unat (n * 10)"
          using n d False by (simp add: unat_add_u64 m10 unat_of_nat)
        then show ?thesis using True by (simp add: u64_less_nat Let_def)
      qed (use True in \<open>simp add: uint_cutoff_def u64_le_nat\<close>)
      ultimately show ?thesis by simp
    qed
  qed simp
qed

lemma parse_uint_Inr:
  "parse_uint s = Inr v \<longleftrightarrow>
     s \<noteq> [] \<and> list_all is_digit s \<and> dec_val s < 2 ^ 64 \<and> unat v = dec_val s"
  by (simp add: parse_uint_def parse_digits_Inr dec_val_def)

lemma parse_uint_itoa: "parse_uint (itoa (unat v)) = Inr v"
  using itoa_digits [of "unat v"] unat_u64_lt [of v] by (simp add: parse_uint_Inr)

lemma parse_uint_total:
  "parse_uint s = Inl e \<Longrightarrow> \<not> (s \<noteq> [] \<and> list_all is_digit s \<and> dec_val s < 2 ^ 64)"
proof
  assume e: "parse_uint s = Inl e" and ok: "s \<noteq> [] \<and> list_all is_digit s \<and> dec_val s < 2 ^ 64"
  from ok have "parse_uint s = Inr (word_of_nat (dec_val s))"
    by (simp add: parse_uint_Inr unat_of_nat)
  with e show False by simp
qed

lemma parse_uint_Inr_iff:
  "(\<exists>v. parse_uint s = Inr v) \<longleftrightarrow> s \<noteq> [] \<and> list_all is_digit s \<and> dec_val s < 2 ^ 64"
  using parse_uint_Inr parse_uint_total by (metis sum.exhaust_sel)

section \<open>Facts on fields\<close>

text \<open>A byte that neither is white space nor starts the encoding of a white space rune.\<close>

definition plain :: "char \<Rightarrow> bool" where
  "plain c \<longleftrightarrow> c \<notin> hd ` set white_space"

definition plain_word :: "gostring \<Rightarrow> bool" where
  "plain_word w \<longleftrightarrow> w \<noteq> [] \<and> list_all plain w"

lemma white_space_nonempty: "w \<in> set white_space \<Longrightarrow> w \<noteq> []"
  by (auto simp: white_space_def)

lemma ws_len_plain: "plain c \<Longrightarrow> ws_len (c # cs) = 0"
proof -
  assume p: "plain c"
  have "\<not> has_prefix (c # cs) w" if "w \<in> set white_space" for w
  proof
    assume "has_prefix (c # cs) w"
    then have "hd w = c" using white_space_nonempty [OF that]
      by (cases w) (auto simp: has_prefix_def)
    then show False using p that by (auto simp: plain_def)
  qed
  then have "find (has_prefix (c # cs)) white_space = None" by (auto simp: find_None_iff)
  then show ?thesis by (simp add: ws_len_def)
qed

lemma ws_len_space: "ws_len (CHR '' '' # cs) = 1"
  by (simp add: ws_len_def white_space_def has_prefix_def)

lemma plain_digit: "is_digit c \<Longrightarrow> plain c"
proof -
  assume d: "is_digit c"
  have "list_all (\<lambda>w. \<not> is_digit (hd w)) white_space" by code_simp
  then show ?thesis using d by (auto simp: plain_def list_all_iff)
qed

lemma plain_word_itoa: "plain_word (itoa n)"
  using itoa_digits [of n] by (auto simp: plain_word_def list_all_iff intro: plain_digit)

lemma split_ws_word:
  "list_all plain w \<Longrightarrow> split_ws 0 cur (w @ s) = split_ws 0 (rev w @ cur) s"
  by (induction w arbitrary: cur) (auto simp: ws_len_plain)

lemma split_ws_space: "split_ws 0 cur (CHR '' '' # s) =
    (if cur = [] then string_fields s else rev cur # string_fields s)"
  by (simp add: ws_len_space string_fields_def)

lemma fields_Nil [simp]: "string_fields [] = []"
  by (simp add: string_fields_def)

lemma fields_space [simp]: "string_fields (CHR '' '' # s) = string_fields s"
  unfolding string_fields_def [of "CHR '' '' # s"] by (simp only: split_ws_space simp_thms if_True)

lemma fields_spaces [simp]: "string_fields (replicate n (CHR '' '') @ s) = string_fields s"
  by (induction n) auto

lemma fields_word_space:
  "plain_word w \<Longrightarrow> string_fields (w @ CHR '' '' # s) = w # string_fields s"
  unfolding string_fields_def [of "w @ CHR '' '' # s"]
  by (simp add: plain_word_def split_ws_word split_ws_space del: split_ws.simps)

lemma fields_word: "plain_word w \<Longrightarrow> string_fields w = [w]"
  using split_ws_word [of w "[]" "[]"] by (simp add: string_fields_def plain_word_def)

text \<open>Words printed in columns: \<open>ws\<close> with any number of extra blanks before each of them.\<close>

fun columns :: "(nat \<times> gostring) list \<Rightarrow> gostring" where
  "columns [] = []"
| "columns [(n, w)] = replicate n (CHR '' '') @ w"
| "columns ((n, w) # x # ws) = replicate n (CHR '' '') @ w @ CHR '' '' # columns (x # ws)"

lemma fields_columns:
  "list_all (\<lambda>(n, w). plain_word w) ws \<Longrightarrow> string_fields (columns ws) = map snd ws"
  by (induction ws rule: columns.induct) (auto simp: fields_word fields_word_space)

lemma split_ws_nonempty: "f \<in> set (split_ws k cur s) \<Longrightarrow> f \<noteq> []"
  by (induction k cur s rule: split_ws.induct) (auto split: nat.splits if_splits)

lemma fields_nonempty: "f \<in> set (string_fields s) \<Longrightarrow> f \<noteq> []"
  by (simp add: string_fields_def split_ws_nonempty)

section \<open>Facts on trimming\<close>

lemma trim_left_plain: "plain c \<Longrightarrow> trim_left ws_len (c # cs) = c # cs"
  by (simp add: ws_len_plain)

lemma trim_left_spaces [simp]:
  "trim_left ws_len (replicate n (CHR '' '') @ s) = trim_left ws_len s"
  by (induction n) (auto simp: ws_len_space)

text \<open>A byte that does not end the encoding of a white space rune.\<close>

definition plain_end :: "char \<Rightarrow> bool" where
  "plain_end c \<longleftrightarrow> c \<notin> last ` set white_space"

lemma rev_ws_len_plain: "plain_end c \<Longrightarrow> rev_ws_len (c # cs) = 0"
proof -
  assume p: "plain_end c"
  have "\<not> has_prefix (c # cs) (rev w)" if "w \<in> set white_space" for w
  proof
    assume "has_prefix (c # cs) (rev w)"
    then have "last w = c" using white_space_nonempty [OF that]
      by (cases w rule: rev_cases) (auto simp: has_prefix_def)
    then show False using p that by (auto simp: plain_end_def)
  qed
  then have "find (\<lambda>w. has_prefix (c # cs) (rev w)) white_space = None"
    by (auto simp: find_None_iff)
  then show ?thesis by (simp add: rev_ws_len_def)
qed

lemma plain_end_digit: "is_digit c \<Longrightarrow> plain_end c"
proof -
  assume d: "is_digit c"
  have "list_all (\<lambda>w. \<not> is_digit (last w)) white_space" by code_simp
  then show ?thesis using d by (auto simp: plain_end_def list_all_iff)
qed

lemma trim_space_core:
  assumes "s \<noteq> []" and "plain (hd s)" and "plain_end (last s)"
  shows "trim_space (replicate n (CHR '' '') @ s) = s"
proof -
  have "trim_left ws_len (replicate n (CHR '' '') @ s) = s"
    using assms by (cases s) (simp_all add: ws_len_plain)
  moreover have "trim_left rev_ws_len (rev s) = rev s"
    using assms by (cases s rule: rev_cases) (simp_all add: rev_ws_len_plain)
  ultimately show ?thesis by (simp add: trim_space_def)
qed

lemma itoa_ends: "plain (hd (itoa n))" "plain_end (last (itoa n))"
proof -
  have "itoa n \<noteq> []" "list_all is_digit (itoa n)" using itoa_digits [of n] by auto
  then have "is_digit (hd (itoa n))" "is_digit (last (itoa n))"
    by (simp_all add: list_all_iff)
  then show "plain (hd (itoa n))" "plain_end (last (itoa n))"
    by (simp_all add: plain_digit plain_end_digit)
qed

lemma trim_space_itoa: "trim_space (replicate k (CHR '' '') @ itoa n) = itoa n"
  using itoa_digits [of n] by (intro trim_space_core itoa_ends) auto

section \<open>Facts on lines\<close>

lemma split_lines_append:
  "CHR 0x0A \<notin> set l \<Longrightarrow> split_lines cur (l @ CHR 0x0A # s) = (rev cur @ l) # split_lines [] s"
  by (induction l arbitrary: cur) auto

text \<open>A text of lines, each ended by a newline.\<close>

definition unlines :: "gostring list \<Rightarrow> gostring" where
  "unlines ls = concat (map (\<lambda>l. l @ [CHR 0x0A]) ls)"

lemma split_lines_unlines:
  "list_all (\<lambda>l. CHR 0x0A \<notin> set l) ls \<Longrightarrow> split_lines [] (unlines ls) = ls"
  by (induction ls) (auto simp: unlines_def split_lines_append)

text \<open>A line that the scanner delivers unchanged.\<close>

definition clean_line :: "gostring \<Rightarrow> bool" where
  "clean_line l \<longleftrightarrow> CHR 0x0A \<notin> set l \<and> CHR 0x0D \<notin> set l \<and> length l < max_scan_token"

lemma scan_tokens_clean:
  "list_all clean_line ls \<Longrightarrow> scan_tokens err ls = (ls, map_option ReadError err)"
  by (induction ls) (auto simp: clean_line_def drop_cr_def dest: last_in_set)

lemma scan_lines_unlines:
  assumes "list_all clean_line ls"
  shows "scan_lines \<lparr>content = unlines ls, read_error = err\<rparr> = (ls, map_option ReadError err)"
proof -
  have "list_all (\<lambda>l. CHR 0x0A \<notin> set l) ls"
    using assms by (auto simp: list_all_iff clean_line_def)
  then show ?thesis using scan_tokens_clean [OF assms]
    by (simp add: scan_lines_def split_lines_unlines)
qed

end
