(* ===== verification/GoFloat.thy ===== *)
theory GoFloat
  imports GoStrings Complex_Main "HOL-Library.Log_Nat"
begin

text \<open>
  The \<open>float64\<close> of the Go sources: IEEE 754 binary64 with round to nearest, ties to even.
  A finite value is the rational number it denotes; \<open>Fin 0\<close> stands for both zeros, since no
  operation of the sources tells them apart. Every arithmetic result is the exact result
  rounded by \<open>round64\<close> (normal and subnormal range) and overflows to an infinity.

  The lemmas: rounding is monotone, odd, and exact on integers below \<open>2^53\<close> scaled by a power
  of two. They carry the bounds on percentages and bar widths of the components.
\<close>

declare of_nat_unat [simp del]

section \<open>Rounding\<close>

definition round_half_even :: "rat \<Rightarrow> int" where
  "round_half_even q =
     (let f = \<lfloor>q\<rfloor>; r = q - of_int f
      in if r < 1 / 2 then f else if r > 1 / 2 then f + 1
         else if even f then f else f + 1)"

text \<open>The exponent of the leading binary digit of a positive rational number.\<close>

definition ilog2 :: "rat \<Rightarrow> int" where
  "ilog2 q =
     (let (n, d) = quotient_of q; k = bitlen n - bitlen d
      in if q < 2 powi k then k - 1 else k)"

text \<open>The exponent of the spacing of binary64 numbers around \<open>q\<close>.\<close>

definition quantum :: "rat \<Rightarrow> int" where
  "quantum q = max (ilog2 \<bar>q\<bar>) (- 1022) - 52"

definition round64 :: "rat \<Rightarrow> rat" where
  "round64 q =
     (if q = 0 then 0
      else of_int (round_half_even (q / 2 powi quantum q)) * 2 powi quantum q)"

datatype f64 = NaN | Inf bool | Fin rat

text \<open>\<open>Inf True\<close> is minus infinity.\<close>

definition fl :: "rat \<Rightarrow> f64" where
  "fl q = (let r = round64 q in if \<bar>r\<bar> < 2 ^ 1024 then Fin r else Inf (r < 0))"

section \<open>Operations\<close>

definition f_of_u64 :: "u64 \<Rightarrow> f64" where
  "f_of_u64 u = fl (of_nat (unat u))"

fun f_sub :: "f64 \<Rightarrow> f64 \<Rightarrow> f64" where
  "f_sub (Fin a) (Fin b) = fl (a - b)"
| "f_sub (Inf s) (Fin b) = Inf s"
| "f_sub (Fin a) (Inf t) = Inf (\<not> t)"
| "f_sub (Inf s) (Inf t) = (if s = t then NaN else Inf s)"
| "f_sub _ _ = NaN"

fun f_mul :: "f64 \<Rightarrow> f64 \<Rightarrow> f64" where
  "f_mul (Fin a) (Fin b) = fl (a * b)"
| "f_mul (Inf s) (Fin b) = (if b = 0 then NaN else Inf (s \<noteq> (b < 0)))"
| "f_mul (Fin a) (Inf t) = (if a = 0 then NaN else Inf (t \<noteq> (a < 0)))"
| "f_mul (Inf s) (Inf t) = Inf (s \<noteq> t)"
| "f_mul _ _ = NaN"

fun f_div :: "f64 \<Rightarrow> f64 \<Rightarrow> f64" where
  "f_div (Fin a) (Fin b) =
     (if b = 0 then (if a = 0 then NaN else Inf (a < 0)) else fl (a / b))"
| "f_div (Inf s) (Fin b) = Inf (s \<noteq> (b < 0))"
| "f_div (Fin a) (Inf t) = Fin 0"
| "f_div _ _ = NaN"

fun f_less :: "f64 \<Rightarrow> f64 \<Rightarrow> bool" where
  "f_less (Fin a) (Fin b) \<longleftrightarrow> a < b"
| "f_less (Inf s) (Fin b) \<longleftrightarrow> s"
| "f_less (Fin a) (Inf t) \<longleftrightarrow> \<not> t"
| "f_less (Inf s) (Inf t) \<longleftrightarrow> s \<and> \<not> t"
| "f_less _ _ \<longleftrightarrow> False"

definition f_le :: "f64 \<Rightarrow> f64 \<Rightarrow> bool" where
  "f_le a b \<longleftrightarrow> f_less a b \<or> (a = b \<and> a \<noteq> NaN)"

text \<open>Conversion to an integer type truncates; outside the integers there is no value.\<close>

fun f_trunc :: "f64 \<Rightarrow> int option" where
  "f_trunc (Fin q) = Some (if q < 0 then - \<lfloor>- q\<rfloor> else \<lfloor>q\<rfloor>)"
| "f_trunc _ = None"

text \<open>The \<open>%.1f\<close> verb: the exact value, rounded to one decimal with ties to even.\<close>

definition format_1 :: "rat \<Rightarrow> gostring" where
  "format_1 q =
     (let t = nat (round_half_even (\<bar>q\<bar> * 10))
      in (if q < 0 then ''-'' else '''') @ itoa (t div 10) @ ''.'' @ itoa (t mod 10))"

fun f_format_1 :: "f64 \<Rightarrow> gostring" where
  "f_format_1 (Fin q) = format_1 q"
| "f_format_1 (Inf s) = (if s then ''-Inf'' else ''+Inf'')"
| "f_format_1 NaN = ''NaN''"

section \<open>Rounding to an integer\<close>

lemma round_half_even_cases:
  "round_half_even q = \<lfloor>q\<rfloor> \<and> q - of_int \<lfloor>q\<rfloor> \<le> 1 / 2 \<or>
   round_half_even q = \<lfloor>q\<rfloor> + 1 \<and> 1 / 2 \<le> q - of_int \<lfloor>q\<rfloor>"
  by (auto simp: round_half_even_def Let_def)

lemma round_half_even_of_int [simp]: "round_half_even (of_int k) = k"
  by (simp add: round_half_even_def)

lemma round_half_even_mono:
  assumes "p \<le> q"
  shows "round_half_even p \<le> round_half_even q"
proof (cases "\<lfloor>p\<rfloor> = \<lfloor>q\<rfloor>")
  case True
  then show ?thesis using assms by (auto simp: round_half_even_def Let_def)
next
  case False
  then have "\<lfloor>p\<rfloor> + 1 \<le> \<lfloor>q\<rfloor>" using floor_mono [OF assms] by linarith
  then show ?thesis using round_half_even_cases [of p] round_half_even_cases [of q] by linarith
qed

lemma round_half_even_uminus: "round_half_even (- q) = - round_half_even q"
proof (cases "q = of_int \<lfloor>q\<rfloor>")
  case True
  then show ?thesis by (metis of_int_minus round_half_even_of_int)
next
  case False
  have "of_int \<lfloor>q\<rfloor> < q" "q < of_int \<lfloor>q\<rfloor> + 1"
    using False of_int_floor_le [of q] floor_correct [of q] by linarith+
  then have "\<lfloor>- q\<rfloor> = - \<lfloor>q\<rfloor> - 1" by (simp add: floor_eq_iff)
  then show ?thesis by (auto simp: round_half_even_def Let_def)
qed

lemma round_half_even_near: "\<bar>of_int (round_half_even q) - q\<bar> \<le> 1 / 2"
  using round_half_even_cases [of q] floor_correct [of q] by (auto simp: abs_le_iff)

section \<open>Binary exponents\<close>

lemma powi2_pos [simp]: "(0 :: rat) < 2 powi k"
  by (simp add: zero_less_power_int)

lemma powi2_mono: "j \<le> k \<Longrightarrow> (2 :: rat) powi j \<le> 2 powi k"
  by (simp add: power_int_increasing)

lemma powi2_less_iff: "(2 :: rat) powi j < 2 powi k \<longleftrightarrow> j < k"
  using powi2_mono [of k j] power_int_strict_increasing [of j k "2 :: rat"]
  by (metis not_le one_less_numeral_iff order_less_irrefl order_less_le_trans semiring_norm(76))

lemma powi2_add: "(2 :: rat) powi (j + k) = 2 powi j * 2 powi k"
  by (simp add: power_int_add)

lemma powi2_diff: "(2 :: rat) powi (j - k) = 2 powi j / 2 powi k"
  by (simp add: power_int_diff)

lemma powi2_int: "0 \<le> k \<Longrightarrow> (2 :: rat) powi k = of_int (2 ^ nat k)"
  by (simp add: power_int_nonneg_exp)

lemma bitlen_rat_bounds:
  assumes "0 < n"
  shows "2 powi (bitlen n - 1) \<le> (of_int n :: rat)" "(of_int n :: rat) < 2 powi bitlen n"
proof -
  have "1 \<le> bitlen n" using assms by (simp add: bitlen_alt_def)
  then have "(2 :: rat) powi (bitlen n - 1) = of_int (2 ^ nat (bitlen n - 1))"
    "(2 :: rat) powi bitlen n = of_int (2 ^ nat (bitlen n))"
    by (simp_all add: powi2_int)
  then show "2 powi (bitlen n - 1) \<le> (of_int n :: rat)" "(of_int n :: rat) < 2 powi bitlen n"
    using bitlen_bounds [OF assms] by (simp_all only: of_int_le_iff of_int_less_iff)
qed

lemma ilog2_bounds:
  assumes "0 < q"
  shows "2 powi ilog2 q \<le> q" and "q < 2 powi (ilog2 q + 1)"
proof -
  obtain n d where nd: "quotient_of q = (n, d)" by fastforce
  then have q: "q = of_int n / of_int d" and d: "0 < d"
    by (simp_all add: quotient_of_div quotient_of_denom_pos)
  then have n: "0 < n" using assms by (simp add: zero_less_divide_iff)
  let ?k = "bitlen n - bitlen d"
  note bn = bitlen_rat_bounds [OF n] and bd = bitlen_rat_bounds [OF d]
  have pos: "(0 :: rat) < of_int d" using d by simp
  have lo: "2 powi (?k - 1) \<le> q"
  proof -
    have "(2 :: rat) powi (?k - 1) = 2 powi (bitlen n - 1) / 2 powi bitlen d"
      by (simp add: powi2_diff [symmetric] algebra_simps)
    also have "\<dots> \<le> of_int n / of_int d"
      using bn(1) bd(2) pos n by (intro frac_le) auto
    finally show ?thesis by (simp add: q)
  qed
  have hi: "q < 2 powi (?k + 1)"
  proof -
    have "of_int n / of_int d < (2 :: rat) powi bitlen n / 2 powi (bitlen d - 1)"
      using bn(2) bd(1) pos n by (intro frac_less) auto
    also have "\<dots> = 2 powi (?k + 1)" by (simp add: powi2_diff [symmetric] algebra_simps)
    finally show ?thesis by (simp add: q)
  qed
  show "2 powi ilog2 q \<le> q" "q < 2 powi (ilog2 q + 1)"
    using lo hi by (auto simp: ilog2_def nd Let_def)
qed

lemma ilog2_le: "0 < q \<Longrightarrow> q < 2 powi (k + 1) \<Longrightarrow> ilog2 q \<le> k"
  using ilog2_bounds(1) [of q] powi2_less_iff [of "ilog2 q" "k + 1"] by auto

lemma ilog2_mono: "0 < p \<Longrightarrow> p \<le> q \<Longrightarrow> ilog2 p \<le> ilog2 q"
  using ilog2_bounds(2) [of q] by (intro ilog2_le) auto

section \<open>Rounding to binary64\<close>

lemma quantum_uminus [simp]: "quantum (- q) = quantum q"
  by (simp add: quantum_def)

lemma round64_0 [simp]: "round64 0 = 0"
  by (simp add: round64_def)

lemma round64_uminus: "round64 (- q) = - round64 q"
  by (simp add: round64_def round_half_even_uminus)

text \<open>A multiple of the spacing is exact.\<close>

lemma round64_multiple:
  assumes "q = of_int m * 2 powi e" and "quantum q \<le> e"
  shows "round64 q = q"
proof -
  let ?k = "quantum q"
  have "q / 2 powi ?k = of_int m * 2 powi (e - ?k)"
    using assms(1) by (simp add: powi2_diff)
  also have "\<dots> = of_int (m * 2 ^ nat (e - ?k))"
    using assms(2) by (simp add: powi2_int)
  finally have "round_half_even (q / 2 powi ?k) = m * 2 ^ nat (e - ?k)"
    by (simp only: round_half_even_of_int)
  then have "round64 q = of_int (m * 2 ^ nat (e - ?k)) * 2 powi ?k" if "q \<noteq> 0"
    using that by (simp add: round64_def)
  also have "of_int (m * 2 ^ nat (e - ?k)) * 2 powi ?k =
      of_int m * (2 powi (e - ?k) * (2 :: rat) powi ?k)"
    using assms(2) by (simp add: powi2_int)
  also have "\<dots> = q" using assms(1) by (simp add: powi2_add [symmetric])
  finally show ?thesis by (cases "q = 0") auto
qed

lemma round64_exact:
  assumes "\<bar>m\<bar> < 2 ^ 53" and "- 1074 \<le> e"
  shows "round64 (of_int m * 2 powi e) = of_int m * 2 powi e"
proof (cases "m = 0")
  case False
  let ?q = "of_int m * 2 powi e :: rat"
  have "\<bar>?q\<bar> = of_int \<bar>m\<bar> * 2 powi e" by (simp add: abs_mult)
  moreover have "of_int \<bar>m\<bar> < (of_int (2 ^ 53) :: rat)"
    using assms(1) by (simp only: of_int_less_iff)
  then have "of_int \<bar>m\<bar> < (2 :: rat) powi 53" by simp
  ultimately have "\<bar>?q\<bar> < 2 powi 53 * 2 powi e" by simp
  then have "\<bar>?q\<bar> < 2 powi ((52 + e) + 1)" by (simp only: powi2_add [symmetric]) (simp add: add.commute)
  then have "ilog2 \<bar>?q\<bar> \<le> 52 + e" using False by (intro ilog2_le) auto
  then have "quantum ?q \<le> e" using assms(2) by (simp add: quantum_def)
  then show ?thesis by (intro round64_multiple) auto
qed simp

lemma round64_pow2: "- 1074 \<le> e \<Longrightarrow> round64 (2 powi e) = 2 powi e"
  using round64_exact [of 1 e] by simp

lemma round64_exact_le:
  assumes "\<bar>m\<bar> \<le> 2 ^ 53" and "- 1074 \<le> e"
  shows "round64 (of_int m * 2 powi e) = of_int m * 2 powi e"
proof (cases "\<bar>m\<bar> < 2 ^ 53")
  case True
  then show ?thesis using assms(2) by (rule round64_exact)
next
  case False
  then have m: "m = 2 ^ 53 \<or> m = - (2 ^ 53)" using assms(1) by linarith
  have "(2 ^ 53 :: rat) * 2 powi e = 2 powi (53 + e)" by (simp add: powi2_add)
  moreover have "round64 (2 powi (53 + e)) = 2 powi (53 + e)"
    using assms(2) by (intro round64_pow2) simp
  ultimately have "round64 (2 ^ 53 * 2 powi e) = 2 ^ 53 * 2 powi e" by simp
  then show ?thesis using m round64_uminus [of "2 ^ 53 * 2 powi e"] by auto
qed

lemma round64_significand: "\<bar>round_half_even (q / 2 powi quantum q)\<bar> \<le> 2 ^ 53"
proof (cases "q = 0")
  case True
  then show ?thesis using round_half_even_of_int [of 0] by simp
next
  case False
  let ?x = "q / 2 powi quantum q"
  have "\<bar>q\<bar> < 2 powi (ilog2 \<bar>q\<bar> + 1)" using False by (intro ilog2_bounds(2)) simp
  also have "\<dots> \<le> 2 powi (53 + quantum q)" by (intro powi2_mono) (simp add: quantum_def)
  also have "\<dots> = 2 ^ 53 * 2 powi quantum q" by (simp add: powi2_add)
  finally have "\<bar>?x\<bar> \<le> 2 ^ 53" by (simp add: abs_divide pos_divide_le_eq)
  then have le: "?x \<le> 2 ^ 53" "- ?x \<le> 2 ^ 53" by (rule abs_le_D1, rule abs_le_D2)
  then have "of_int (- (2 ^ 53)) \<le> ?x" using minus_le_iff [of ?x "2 ^ 53"] by simp
  moreover have "?x \<le> of_int (2 ^ 53)" using le(1) by simp
  ultimately have "- (2 ^ 53) \<le> round_half_even ?x" "round_half_even ?x \<le> 2 ^ 53"
    using round_half_even_mono round_half_even_of_int by metis+
  then show ?thesis by (simp add: abs_le_iff)
qed

text \<open>Rounding is idempotent: a rounded value is a binary64 number.\<close>

lemma round64_idem [simp]: "round64 (round64 q) = round64 q"
proof (cases "q = 0")
  case False
  have "- 1074 \<le> quantum q" by (simp add: quantum_def)
  then show ?thesis using False round64_exact_le [OF round64_significand, of "quantum q" q]
    by (simp add: round64_def [of q])
qed simp

lemma round64_of_int: "\<bar>m\<bar> < 2 ^ 53 \<Longrightarrow> round64 (of_int m) = of_int m"
  using round64_exact [of m 0] by simp

lemma round64_of_nat: "n < 2 ^ 53 \<Longrightarrow> round64 (of_nat n) = of_nat n"
  using round64_of_int [of "int n"] by simp

lemma round64_numeral: "numeral n < (2 ^ 53 :: nat) \<Longrightarrow> round64 (numeral n) = numeral n"
  using round64_of_nat [of "numeral n"] by simp

lemma round64_1 [simp]: "round64 1 = 1"
  using round64_of_int [of 1] by simp

lemma round64_mono_pos:
  assumes p: "0 < p" and pq: "p \<le> q"
  shows "round64 p \<le> round64 q"
proof -
  have q: "0 < q" using assms by linarith
  have log: "ilog2 p \<le> ilog2 q" using assms by (rule ilog2_mono)
  let ?e = "quantum p" and ?f = "quantum q"
  have ef: "?e \<le> ?f" using log p q by (simp add: quantum_def)
  show ?thesis
  proof (cases "?e = ?f")
    case True
    have "round_half_even (p / 2 powi ?f) \<le> round_half_even (q / 2 powi ?f)"
      using pq by (intro round_half_even_mono divide_right_mono) auto
    then show ?thesis using p q True by (simp add: round64_def mult_right_mono)
  next
    case False
    let ?B = "2 powi ilog2 q :: rat"
    have lq: "ilog2 p < ilog2 q" "- 1022 < ilog2 q" "?f = ilog2 q - 52"
      using False ef p q by (auto simp: quantum_def max_def split: if_splits)
    have pB: "p \<le> ?B"
      using ilog2_bounds(2) [OF p] powi2_mono [of "ilog2 p + 1" "ilog2 q"] lq by simp
    have Bq: "?B \<le> q" by (rule ilog2_bounds(1) [OF q])
    have eB: "?e \<le> ilog2 q" using ef lq by simp
    have Be: "?B / 2 powi k = of_int (2 ^ nat (ilog2 q - k))" if "k \<le> ilog2 q" for k
      using that by (simp add: powi2_diff [symmetric] powi2_int)
    have bound: "round_half_even (?B / 2 powi k) = 2 ^ nat (ilog2 q - k)" if "k \<le> ilog2 q" for k
      using that by (simp only: Be round_half_even_of_int)
    have unscale: "of_int (2 ^ nat (ilog2 q - k)) * 2 powi k = ?B" if "k \<le> ilog2 q" for k
      using that powi2_int [of "ilog2 q - k"] powi2_add [of "ilog2 q - k" k] by simp
    have "round64 p \<le> of_int (round_half_even (?B / 2 powi ?e)) * 2 powi ?e"
      using p pB by (auto simp: round64_def intro!: mult_right_mono round_half_even_mono divide_right_mono)
    also have "\<dots> = ?B" using eB by (simp only: bound unscale)
    also have "\<dots> = of_int (round_half_even (?B / 2 powi ?f)) * 2 powi ?f"
      using bound [of ?f] unscale [of ?f] lq by simp
    also have "\<dots> \<le> round64 q"
      using q Bq by (auto simp: round64_def intro!: mult_right_mono round_half_even_mono divide_right_mono)
    finally show ?thesis .
  qed
qed

lemma round64_nonneg:
  assumes "0 \<le> q"
  shows "0 \<le> round64 q"
proof -
  have "round_half_even 0 \<le> round_half_even (q / 2 powi quantum q)"
    using assms by (intro round_half_even_mono) simp
  then have "0 \<le> round_half_even (q / 2 powi quantum q)"
    using round_half_even_of_int [of 0] by simp
  then show ?thesis by (simp add: round64_def)
qed

lemma round64_mono:
  assumes "p \<le> q"
  shows "round64 p \<le> round64 q"
proof -
  consider "0 < p" | "p \<le> 0" "0 \<le> q" | "q < 0" by linarith
  then show ?thesis
  proof cases
    case 1
    then show ?thesis using assms by (rule round64_mono_pos)
  next
    case 2
    then show ?thesis
      using round64_nonneg [of q] round64_nonneg [of "- p"] by (simp add: round64_uminus)
  next
    case 3
    then show ?thesis
      using round64_mono_pos [of "- q" "- p"] assms by (simp add: round64_uminus)
  qed
qed

lemma round64_le_int: "q \<le> of_int m \<Longrightarrow> \<bar>m\<bar> < 2 ^ 53 \<Longrightarrow> round64 q \<le> of_int m"
  using round64_mono [of q "of_int m"] by (simp add: round64_of_int)

lemma round64_ge_int: "of_int m \<le> q \<Longrightarrow> \<bar>m\<bar> < 2 ^ 53 \<Longrightarrow> of_int m \<le> round64 q"
  using round64_mono [of "of_int m" q] by (simp add: round64_of_int)

lemma round64_le_pow2: "q \<le> 2 powi e \<Longrightarrow> - 1074 \<le> e \<Longrightarrow> round64 q \<le> 2 powi e"
  using round64_mono [of q "2 powi e"] by (simp add: round64_pow2)

lemma fl_Fin: "\<bar>q\<bar> \<le> 2 ^ 1000 \<Longrightarrow> fl q = Fin (round64 q)"
proof -
  assume q: "\<bar>q\<bar> \<le> 2 ^ 1000"
  have "\<bar>round64 q\<bar> = round64 \<bar>q\<bar>"
    using round64_nonneg [of q] round64_nonneg [of "- q"]
    by (cases "0 \<le> q") (auto simp: round64_uminus abs_if)
  also have "\<dots> \<le> 2 powi 1000" using q by (intro round64_le_pow2) auto
  also have "\<dots> < (2 :: rat) powi 1024" by (simp add: powi2_less_iff)
  finally show ?thesis by (simp add: fl_def)
qed

lemma fl_code [code]:
  "fl q = (let r = round64 q in if r = 0 \<or> ilog2 \<bar>r\<bar> < 1024 then Fin r else Inf (r < 0))"
proof -
  have "\<bar>r\<bar> < 2 ^ 1024 \<longleftrightarrow> ilog2 \<bar>r\<bar> < 1024" if "r \<noteq> 0" for r :: rat
  proof
    assume "\<bar>r\<bar> < 2 ^ 1024"
    then have "\<bar>r\<bar> < 2 powi (1023 + 1)" by simp
    then show "ilog2 \<bar>r\<bar> < 1024" using ilog2_le [of "\<bar>r\<bar>" 1023] that by simp
  next
    assume "ilog2 \<bar>r\<bar> < 1024"
    then have "\<bar>r\<bar> < 2 powi 1024"
      using ilog2_bounds(2) [of "\<bar>r\<bar>"] powi2_mono [of "ilog2 \<bar>r\<bar> + 1" 1024] that by simp
    then show "\<bar>r\<bar> < 2 ^ 1024" by simp
  qed
  then show ?thesis by (cases "round64 q = 0") (auto simp: fl_def Let_def)
qed

text \<open>Unsigned 64-bit values: exact up to \<open>2^53\<close>, monotone and at most \<open>2^64\<close> beyond.\<close>

lemma of_nat_le_pow64:
  assumes "n < 2 ^ 64"
  shows "of_nat n \<le> (2 ^ 64 :: rat)"
proof -
  have "of_nat n \<le> (of_nat (2 ^ 64) :: rat)" using assms by (simp only: of_nat_le_iff)
  then show ?thesis by simp
qed

lemma fl_of_nat: "n < 2 ^ 64 \<Longrightarrow> fl (of_nat n) = Fin (round64 (of_nat n))"
  using of_nat_le_pow64 [of n] by (intro fl_Fin) auto

lemma f_of_u64_Fin: "f_of_u64 u = Fin (round64 (of_nat (unat u)))"
  unfolding f_of_u64_def by (rule fl_of_nat) (use unat_u64_lt [of u] in simp)

lemma round64_of_nat_le_pow64:
  assumes "n < 2 ^ 64"
  shows "round64 (of_nat n) \<le> 2 ^ 64"
proof -
  have "round64 (of_nat n) \<le> 2 powi 64"
    using of_nat_le_pow64 [OF assms] by (intro round64_le_pow2) simp_all
  then show ?thesis by simp
qed

section \<open>Percentages\<close>

lemma f_of_u64_zero_iff: "f_le (f_of_u64 d) (Fin 0) \<longleftrightarrow> d = 0"
proof (cases "d = 0")
  case False
  then have "1 \<le> unat d" by (simp add: unat_gt_0 Suc_le_eq)
  then have "of_int 1 \<le> (of_nat (unat d) :: rat)" by simp
  then have "1 \<le> round64 (of_nat (unat d))"
    using round64_ge_int [of 1 "of_nat (unat d)"] by simp
  then show ?thesis using False by (auto simp: f_le_def f_of_u64_Fin)
qed (simp add: f_le_def f_of_u64_Fin)

text \<open>A ratio of at most 1 scaled to an integer width stays within the width.\<close>

lemma scaled_ratio_eq:
  assumes "0 \<le> b" and "b \<le> t" and "0 < t" and "\<bar>w\<bar> < 2 ^ 53" and "0 \<le> w"
  shows "f_mul (f_div (Fin b) (Fin t)) (Fin (of_int w)) = Fin (round64 (round64 (b / t) * of_int w)) \<and>
    0 \<le> round64 (round64 (b / t) * of_int w) \<and> round64 (round64 (b / t) * of_int w) \<le> of_int w"
proof -
  let ?r = "round64 (b / t)" and ?w = "of_int w :: rat"
  have q: "0 \<le> b / t" "b / t \<le> 1" using assms by simp_all
  have r: "0 \<le> ?r" "?r \<le> 1"
    using round64_nonneg [OF q(1)] round64_mono [OF q(2)] by simp_all
  have "fl (b / t) = Fin ?r"
  proof (rule fl_Fin)
    have "\<bar>b / t\<bar> = b / t" using q(1) by (rule abs_of_nonneg)
    then have "\<bar>b / t\<bar> \<le> 1" using q(2) by linarith
    also have "(1 :: rat) \<le> 2 ^ 1000" by simp
    finally show "\<bar>b / t\<bar> \<le> 2 ^ 1000" .
  qed
  then have d: "f_div (Fin b) (Fin t) = Fin ?r" using assms by simp
  have w0: "0 \<le> ?w" using assms by simp
  have le: "?r * ?w \<le> ?w" using mult_right_mono [OF r(2) w0] by simp
  then have "round64 (?r * ?w) \<le> ?w" using assms(4) by (rule round64_le_int)
  moreover have "0 \<le> round64 (?r * ?w)" using r w0 by (intro round64_nonneg) simp
  moreover have "fl (?r * ?w) = Fin (round64 (?r * ?w))"
  proof (rule fl_Fin)
    have "\<bar>?r * ?w\<bar> = ?r * ?w" using r w0 by (intro abs_of_nonneg) simp
    also have "\<dots> \<le> of_int (2 ^ 53)" using le assms(4,5) by (intro order_trans [OF le]) (simp only: of_int_le_iff)
    also have "\<dots> \<le> (2 :: rat) ^ 1000" by simp
    finally show "\<bar>?r * ?w\<bar> \<le> 2 ^ 1000" .
  qed
  ultimately show ?thesis unfolding d by simp
qed

text \<open>The error of one rounding is at most half the spacing.\<close>

lemma round64_error:
  assumes "\<bar>q\<bar> < 2 powi (k + 1)" and "- 1022 \<le> k"
  shows "\<bar>round64 q - q\<bar> \<le> 2 powi (k - 53)"
proof (cases "q = 0")
  case False
  let ?e = "quantum q"
  have "ilog2 \<bar>q\<bar> \<le> k" using assms(1) False by (intro ilog2_le) simp_all
  then have e: "?e \<le> k - 52" using assms(2) by (simp add: quantum_def)
  have "round64 q - q = (of_int (round_half_even (q / 2 powi ?e)) - q / 2 powi ?e) * 2 powi ?e"
    using False by (simp add: round64_def left_diff_distrib)
  then have "\<bar>round64 q - q\<bar> = \<bar>of_int (round_half_even (q / 2 powi ?e)) - q / 2 powi ?e\<bar> * 2 powi ?e"
    by (simp add: abs_mult)
  also have "\<dots> \<le> 1 / 2 * 2 powi ?e" by (intro mult_right_mono round_half_even_near) simp
  also have "\<dots> \<le> 1 / 2 * 2 powi (k - 52)" using powi2_mono [OF e] by simp
  also have "\<dots> = 2 powi (k - 53)" using powi2_add [of "k - 53" 1] by simp
  finally show ?thesis .
qed simp

text \<open>A percentage of two integers that binary64 holds exactly: two roundings.\<close>

lemma percentage_accurate:
  assumes "b \<le> t" and "0 < t" and "t < 2 ^ 53"
  shows "\<exists>x. f_mul (f_div (Fin (of_nat b)) (Fin (of_nat t))) (Fin 100) = Fin x \<and>
    0 \<le> x \<and> x \<le> 100 \<and> \<bar>x - 100 * of_nat b / of_nat t\<bar> \<le> 1 / 2 ^ 45"
proof -
  let ?q = "of_nat b / of_nat t :: rat"
  let ?r = "round64 ?q"
  let ?x = "round64 (?r * 100)"
  have q: "0 \<le> ?q" "?q \<le> 1" using assms by (auto simp: divide_le_eq)
  have eq: "f_mul (f_div (Fin (of_nat b)) (Fin (of_nat t))) (Fin 100) = Fin ?x" "0 \<le> ?x" "?x \<le> 100"
    using scaled_ratio_eq [of "of_nat b" "of_nat t" 100] assms by simp_all
  have r: "0 \<le> ?r" "?r \<le> 1" using q round64_mono [OF q(2)] by (auto intro: round64_nonneg)
  have "\<bar>?r - ?q\<bar> \<le> 2 powi (0 - 53)" using q by (intro round64_error) auto
  moreover have "\<bar>?x - ?r * 100\<bar> \<le> 2 powi (6 - 53)" using r by (intro round64_error) auto
  moreover have "?x - 100 * ?q = (?x - ?r * 100) + 100 * (?r - ?q)" by (simp add: algebra_simps)
  then have "\<bar>?x - 100 * ?q\<bar> \<le> \<bar>?x - ?r * 100\<bar> + \<bar>100 * (?r - ?q)\<bar>"
    by (metis abs_triangle_ineq)
  moreover have "\<bar>100 * (?r - ?q)\<bar> = 100 * \<bar>?r - ?q\<bar>" by (simp only: abs_mult abs_numeral)
  ultimately have "\<bar>?x - 100 * ?q\<bar> \<le> 2 powi (6 - 53) + 100 * 2 powi (0 - 53)" by linarith
  also have "\<dots> \<le> (1 / 2 ^ 45 :: rat)" by (simp add: power_int_minus field_simps)
  finally show ?thesis using eq by auto
qed

lemma percentage_bounds:
  assumes "0 \<le> b" and "b \<le> t" and "0 < t"
  shows "\<exists>x. f_mul (f_div (Fin b) (Fin t)) (Fin 100) = Fin x \<and> 0 \<le> x \<and> x \<le> 100"
  using scaled_ratio_eq [OF assms, of 100] by simp

lemma f_of_u64_pos: "(u :: u64) \<noteq> 0 \<Longrightarrow> 0 < round64 (of_nat (unat u))"
  using f_of_u64_zero_iff [of u] by (auto simp: f_of_u64_Fin f_le_def)

lemma u64_ratio_scaled_eq:
  assumes "b \<le> t" and "t \<noteq> 0" and "\<bar>w\<bar> < 2 ^ 53" and "0 \<le> w"
  defines "x \<equiv> round64 (round64 (round64 (of_nat (unat b)) / round64 (of_nat (unat t))) * of_int w)"
  shows "f_mul (f_div (f_of_u64 b) (f_of_u64 t)) (Fin (of_int w)) = Fin x \<and> 0 \<le> x \<and> x \<le> of_int w"
  unfolding f_of_u64_Fin x_def
  using assms(1-4) f_of_u64_pos [OF assms(2)]
  by (intro scaled_ratio_eq round64_mono round64_nonneg) (auto simp: u64_le_nat)

lemma u64_ratio_percent_bounds:
  assumes "b \<le> t" and "t \<noteq> 0"
  shows "\<exists>x. f_mul (f_div (f_of_u64 b) (f_of_u64 t)) (Fin 100) = Fin x \<and> 0 \<le> x \<and> x \<le> 100"
  using u64_ratio_scaled_eq [OF assms, of 100] by simp

end
