(* ===== verification/Terminal.thy ===== *)
theory Terminal
  imports GoFloat
begin

text \<open>
  What the two renderers (\<open>RenderASCII\<close> of \<open>src/internal/ebpf/loader.go\<close> and the functions of
  \<open>src/cmd/sysmon/main.go\<close>) share: the UTF-8 encodings of the symbols they print, the
  conversions of a \<open>float64\<close> to an integer type, \<open>strings.Repeat\<close> with its panic on a negative
  count, and the row of filled and empty cells both bars are made of.
\<close>

section \<open>Symbols\<close>

definition micro :: gostring where "micro = [CHR 0xC2, CHR 0xB5]"
definition en_dash :: gostring where "en_dash = [CHR 0xE2, CHR 0x80, CHR 0x93]"
definition em_dash :: gostring where "em_dash = [CHR 0xE2, CHR 0x80, CHR 0x94]"
definition full_block :: gostring where "full_block = [CHR 0xE2, CHR 0x96, CHR 0x88]"
definition light_line :: gostring where "light_line = [CHR 0xE2, CHR 0x94, CHR 0x80]"
definition arrow_down :: gostring where "arrow_down = [CHR 0xE2, CHR 0x86, CHR 0x93]"
definition arrow_up :: gostring where "arrow_up = [CHR 0xE2, CHR 0x86, CHR 0x91]"
definition newline :: gostring where "newline = [CHR 0x0A]"
definition escape :: gostring where "escape = [CHR 0x1B]"

section \<open>Conversions\<close>

text \<open>
  \<open>int(f)\<close> and \<open>uint64(f)\<close> of Go: the truncated value where it fits. For other values the
  language leaves the result to the implementation, which is the parameter \<open>oor\<close>.
\<close>

definition go_int :: "(f64 \<Rightarrow> int) \<Rightarrow> f64 \<Rightarrow> int" where
  "go_int oor x =
     (case f_trunc x of
        None \<Rightarrow> oor x
      | Some i \<Rightarrow> if - (2 ^ 63) \<le> i \<and> i < 2 ^ 63 then i else oor x)"

definition go_uint64 :: "(f64 \<Rightarrow> u64) \<Rightarrow> f64 \<Rightarrow> u64" where
  "go_uint64 oor x =
     (case f_trunc x of
        None \<Rightarrow> oor x
      | Some i \<Rightarrow> if 0 \<le> i \<and> i < 2 ^ 64 then word_of_int i else oor x)"

text \<open>\<open>strings.Repeat\<close>: \<open>None\<close> is the panic on a negative count.\<close>

definition go_repeat :: "gostring \<Rightarrow> int \<Rightarrow> gostring option" where
  "go_repeat s n = (if n < 0 then None else Some (repeat_string s (nat n)))"

definition cells :: "int \<Rightarrow> int \<Rightarrow> gostring option" where
  "cells width filled =
     (case (go_repeat full_block filled, go_repeat light_line (width - filled)) of
        (Some a, Some b) \<Rightarrow> Some (a @ b)
      | _ \<Rightarrow> None)"

section \<open>Facts\<close>

lemma go_int_Fin: "0 \<le> x \<Longrightarrow> x < 2 ^ 63 \<Longrightarrow> go_int oor (Fin x) = \<lfloor>x\<rfloor>"
proof -
  assume x: "0 \<le> x" "x < 2 ^ 63"
  have "\<lfloor>x\<rfloor> < 2 ^ 63" using x by (simp add: floor_less_iff)
  moreover have "0 \<le> \<lfloor>x\<rfloor>" using x by simp
  ultimately show ?thesis using x by (simp add: go_int_def)
qed

lemma go_int_le:
  assumes "0 \<le> x" and "x \<le> of_int n" and "n < 2 ^ 63"
  shows "0 \<le> go_int oor (Fin x) \<and> go_int oor (Fin x) \<le> n"
proof -
  have "of_int n < (of_int (2 ^ 63) :: rat)" using assms(3) by (simp only: of_int_less_iff)
  then have "x < 2 ^ 63" using assms(2) by simp
  then have "go_int oor (Fin x) = \<lfloor>x\<rfloor>" using assms(1) by (intro go_int_Fin)
  then show ?thesis using assms floor_mono [OF assms(2)] by simp
qed

text \<open>The width of a text on the terminal: its number of runes.\<close>

lemma rune_count_append [simp]: "rune_count (s @ t) = rune_count s + rune_count t"
  by (simp add: rune_count_def)

lemma rune_count_repeat: "rune_count (repeat_string s n) = n * rune_count s"
  by (induction n) (simp_all add: repeat_string_def rune_count_def)

lemma rune_count_blocks [simp]: "rune_count full_block = 1" "rune_count light_line = 1"
  by (simp_all add: rune_count_def full_block_def light_line_def)

lemma cells_Some:
  "0 \<le> filled \<Longrightarrow> filled \<le> width \<Longrightarrow>
     cells width filled =
       Some (repeat_string full_block (nat filled) @ repeat_string light_line (nat (width - filled)))"
  by (simp add: cells_def go_repeat_def)

lemma cells_panic: "filled < 0 \<or> width < filled \<Longrightarrow> cells width filled = None"
  by (auto simp: cells_def go_repeat_def split: option.split)

lemma cells_width:
  assumes "0 \<le> filled" and "filled \<le> width" and "cells width filled = Some row"
  shows "rune_count row = nat width"
  using assms by (auto simp: cells_Some rune_count_repeat)

end
