(* ===== verification/Loader.thy ===== *)
theory Loader
  imports LatencyMonitor Terminal
begin

text \<open>
  The user-space side of the latency histogram, \<open>src/internal/ebpf/loader.go\<close>, with the
  clean-up functions of the generated \<open>src/internal/ebpf/blocklatency_bpfel.go\<close> and the
  stand-in \<open>src/internal/ebpf/stub.go\<close> of a build without eBPF.

  The kernel and the library \<open>cilium/ebpf\<close> are the parameter \<open>bpf_api\<close> over a world \<open>'w\<close>.
  What the loader relies on is stated as two locales: \<open>bpf_runtime\<close> for the handles that
  loading, attaching and closing create and release, and \<open>histogram_map\<close> for the element
  accesses of the histogram. A world built on the map model of the BPF program obeys both.
\<close>

declare of_nat_unat [simp del]

section \<open>Errors and the library\<close>

text \<open>An error of the library, or one wrapped by \<open>fmt.Errorf("...: %w", err)\<close>.\<close>

datatype 'e go_error = Sys 'e | Errorf gostring "'e go_error"

datatype bpf_handle =
    TraceRqComplete | TraceRqIssue | IoLatencyHist | StartTimes
  | TracepointLink gostring gostring

record ('w, 'e) bpf_api =
  os_stat :: "gostring \<Rightarrow> 'w \<Rightarrow> 'e option"
  load_spec :: "'w \<Rightarrow> 'e option"
  load_and_assign :: "'w \<Rightarrow> 'e option \<times> 'w"
  link_tracepoint :: "gostring \<Rightarrow> gostring \<Rightarrow> bpf_handle \<Rightarrow> 'w \<Rightarrow> ('e + bpf_handle) \<times> 'w"
  close_handle :: "bpf_handle \<Rightarrow> 'w \<Rightarrow> 'e option \<times> 'w"
  map_lookup :: "bpf_handle \<Rightarrow> u32 \<Rightarrow> 'w \<Rightarrow> 'e + u64"
  map_put :: "bpf_handle \<Rightarrow> u32 \<Rightarrow> u64 \<Rightarrow> 'w \<Rightarrow> 'e option \<times> 'w"
  error_text :: "'e \<Rightarrow> gostring"
  key_not_exist :: gostring

section \<open>Loaded objects\<close>

text \<open>\<open>_BlockLatencyClose\<close>: the closers in order, up to the first that fails.\<close>

fun BlockLatencyClose :: "('w \<Rightarrow> 'e option \<times> 'w) list \<Rightarrow> 'w \<Rightarrow> 'e option \<times> 'w" where
  "BlockLatencyClose [] w = (None, w)"
| "BlockLatencyClose (closer # closers) w =
     (case closer w of
        (Some err, w) \<Rightarrow> (Some err, w)
      | (None, w) \<Rightarrow> BlockLatencyClose closers w)"

definition blockLatencyPrograms_Close :: "('w, 'e) bpf_api \<Rightarrow> 'w \<Rightarrow> 'e option \<times> 'w" where
  "blockLatencyPrograms_Close A =
     BlockLatencyClose [close_handle A TraceRqComplete, close_handle A TraceRqIssue]"

definition blockLatencyMaps_Close :: "('w, 'e) bpf_api \<Rightarrow> 'w \<Rightarrow> 'e option \<times> 'w" where
  "blockLatencyMaps_Close A =
     BlockLatencyClose [close_handle A IoLatencyHist, close_handle A StartTimes]"

definition blockLatencyObjects_Close :: "('w, 'e) bpf_api \<Rightarrow> 'w \<Rightarrow> 'e option \<times> 'w" where
  "blockLatencyObjects_Close A =
     BlockLatencyClose [blockLatencyPrograms_Close A, blockLatencyMaps_Close A]"

definition loadBlockLatency :: "('w, 'e) bpf_api \<Rightarrow> 'w \<Rightarrow> 'e go_error option" where
  "loadBlockLatency A w =
     map_option (\<lambda>err. Errorf ''can't load blockLatency: '' (Sys err)) (load_spec A w)"

definition loadBlockLatencyObjects :: "('w, 'e) bpf_api \<Rightarrow> 'w \<Rightarrow> 'e go_error option \<times> 'w" where
  "loadBlockLatencyObjects A w =
     (case loadBlockLatency A w of
        Some err \<Rightarrow> (Some err, w)
      | None \<Rightarrow> (let (err, w) = load_and_assign A w in (map_option Sys err, w)))"

section \<open>The collector\<close>

text \<open>The objects of a collector are the four handles; what varies are its links.\<close>

record Collector =
  links :: "bpf_handle list"

fun close_links :: "('w, 'e) bpf_api \<Rightarrow> bpf_handle list \<Rightarrow> 'w \<Rightarrow> 'w" where
  "close_links A [] w = w"
| "close_links A (l # ls) w = close_links A ls (snd (close_handle A l w))"

definition NewCollector :: "('w, 'e) bpf_api \<Rightarrow> 'w \<Rightarrow> ('e go_error + Collector) \<times> 'w" where
  "NewCollector A w =
     (case os_stat A ''/sys/kernel/btf/vmlinux'' w of
        Some err \<Rightarrow>
          (Inl (Errorf (''BTF not available at /sys/kernel/btf/vmlinux '' @ em_dash @
             '' requires Linux 5.8+ with CONFIG_DEBUG_INFO_BTF=y: '') (Sys err)), w)
      | None \<Rightarrow>
          (let c = \<lparr>links = []\<rparr>
           in case loadBlockLatencyObjects A w of
                (Some err, w) \<Rightarrow> (Inl (Errorf ''loading BPF objects: '' err), w)
              | (None, w) \<Rightarrow>
                  (case link_tracepoint A ''block'' ''block_rq_issue'' TraceRqIssue w of
                     (Inl err, w) \<Rightarrow>
                       (let w = snd (blockLatencyObjects_Close A w)
                        in (Inl (Errorf ''attaching block_rq_issue tracepoint: '' (Sys err)), w))
                   | (Inr issueLink, w) \<Rightarrow>
                       (let c = c\<lparr>links := links c @ [issueLink]\<rparr>
                        in case link_tracepoint A ''block'' ''block_rq_complete''
                                TraceRqComplete w of
                             (Inl err, w) \<Rightarrow>
                               (let w = close_links A (links c) w;
                                    w = snd (blockLatencyObjects_Close A w)
                                in (Inl (Errorf ''attaching block_rq_complete tracepoint: ''
                                      (Sys err)), w))
                           | (Inr completeLink, w) \<Rightarrow>
                               (let c = c\<lparr>links := links c @ [completeLink]\<rparr> in (Inr c, w))))))"

definition Collector_Close :: "('w, 'e) bpf_api \<Rightarrow> Collector \<Rightarrow> 'w \<Rightarrow> 'w" where
  "Collector_Close A c w =
     (let w = close_links A (links c) w in snd (blockLatencyObjects_Close A w))"

section \<open>Reading and resetting the histogram\<close>

definition histBuckets :: u32 where
  "histBuckets = 24"

record LatencyBucket =
  Label :: gostring
  Count :: u64

definition bucketLabel :: "u32 \<Rightarrow> gostring" where
  "bucketLabel i =
     (if i = 0 then ''<1 '' @ micro @ ''s''
      else (let lo = push_bit (unat (i - 1)) (1 :: u64);
                hi = push_bit 1 lo
            in itoa (unat lo) @ en_dash @ itoa (unat hi) @ '' '' @ micro @ ''s''))"

definition isNotFound :: "('w, 'e) bpf_api \<Rightarrow> 'e option \<Rightarrow> bool" where
  "isNotFound A err =
     (case err of None \<Rightarrow> False | Some e \<Rightarrow> contains (error_text A e) (key_not_exist A))"

function read_buckets ::
  "('w, 'e) bpf_api \<Rightarrow> 'w \<Rightarrow> u32 \<Rightarrow> LatencyBucket list \<Rightarrow> 'e go_error + LatencyBucket list" where
  "read_buckets A w i buckets =
     (if i < histBuckets then
        (case map_lookup A IoLatencyHist i w of
           Inr count \<Rightarrow>
             read_buckets A w (i + 1) (buckets[unat i := \<lparr>Label = bucketLabel i, Count = count\<rparr>])
         | Inl err \<Rightarrow>
             if \<not> isNotFound A (Some err)
             then Inl (Errorf (''reading histogram bucket '' @ itoa (unat i) @ '': '') (Sys err))
             else read_buckets A w (i + 1) (buckets[unat i := \<lparr>Label = bucketLabel i, Count = 0\<rparr>]))
      else Inr buckets)"
  by auto

function reset_buckets :: "('w, 'e) bpf_api \<Rightarrow> u32 \<Rightarrow> 'w \<Rightarrow> 'e go_error option \<times> 'w" where
  "reset_buckets A i w =
     (if i < histBuckets then
        (case map_put A IoLatencyHist i 0 w of
           (Some err, w) \<Rightarrow>
             (Some (Errorf (''resetting histogram bucket '' @ itoa (unat i) @ '': '') (Sys err)), w)
         | (None, w) \<Rightarrow> reset_buckets A (i + 1) w)
      else (None, w))"
  by auto

lemma unat_Suc_below: "i < histBuckets \<Longrightarrow> unat (i + 1) = Suc (unat i)"
proof -
  assume "i < histBuckets"
  then have "unat i < 24" by (simp add: histBuckets_def word_less_nat_alt)
  then show ?thesis by (simp add: unat_word_ariths)
qed

termination read_buckets
  by (relation "measure (\<lambda>(A, w, i, bs). 24 - unat i)")
    (auto simp: unat_Suc_below word_less_nat_alt histBuckets_def)

termination reset_buckets
  by (relation "measure (\<lambda>(A, i, w). 24 - unat i)")
    (auto simp: unat_Suc_below word_less_nat_alt histBuckets_def)

declare read_buckets.simps [simp del] reset_buckets.simps [simp del]

definition ReadHistogram :: "('w, 'e) bpf_api \<Rightarrow> Collector \<Rightarrow> 'w \<Rightarrow> 'e go_error + LatencyBucket list" where
  "ReadHistogram A c w =
     (let buckets = replicate (unat histBuckets) \<lparr>Label = '''', Count = 0\<rparr>
      in read_buckets A w 0 buckets)"

definition ResetHistogram :: "('w, 'e) bpf_api \<Rightarrow> Collector \<Rightarrow> 'w \<Rightarrow> 'e go_error option \<times> 'w" where
  "ResetHistogram A c w = reset_buckets A 0 w"

section \<open>Rendering\<close>

definition hist_bar_cells :: "(f64 \<Rightarrow> int) \<Rightarrow> u64 \<Rightarrow> u64 \<Rightarrow> int" where
  "hist_bar_cells oor count maxCount =
     go_int oor (f_mul (f_div (f_of_u64 count) (f_of_u64 maxCount)) (Fin 30))"

text \<open>One row of the histogram; \<open>None\<close> is the panic of \<open>strings.Repeat\<close>.\<close>

definition render_bucket :: "(f64 \<Rightarrow> int) \<Rightarrow> u64 \<Rightarrow> u64 \<Rightarrow> LatencyBucket \<Rightarrow> gostring option" where
  "render_bucket oor maxCount tot b =
     (let filled = hist_bar_cells oor (Count b) maxCount;
          pct = f_mul (f_div (f_of_u64 (Count b)) (f_of_u64 tot)) (Fin 100)
      in case cells 30 filled of
           None \<Rightarrow> None
         | Some row \<Rightarrow>
             Some (''  '' @ pad_right 12 (Label b) @ '' ['' @ row @ ''] '' @
               pad_left 6 (itoa (unat (Count b))) @ ''  ('' @ pad_left 4 (f_format_1 pct) @ ''%)'' @
               newline))"

fun render_buckets :: "(f64 \<Rightarrow> int) \<Rightarrow> u64 \<Rightarrow> u64 \<Rightarrow> LatencyBucket list \<Rightarrow> gostring \<Rightarrow> gostring option" where
  "render_buckets oor maxCount tot [] sb = Some sb"
| "render_buckets oor maxCount tot (b # bs) sb =
     (if Count b = 0 then render_buckets oor maxCount tot bs sb
      else (case render_bucket oor maxCount tot b of
              None \<Rightarrow> None
            | Some row \<Rightarrow> render_buckets oor maxCount tot bs (sb @ row)))"

definition bucket_totals :: "LatencyBucket list \<Rightarrow> u64 \<times> u64" where
  "bucket_totals buckets =
     fold (\<lambda>b (tot, maxCount).
       (tot + Count b, if Count b > maxCount then Count b else maxCount)) buckets (0, 0)"

definition RenderASCII :: "(f64 \<Rightarrow> int) \<Rightarrow> LatencyBucket list \<Rightarrow> gostring option" where
  "RenderASCII oor buckets =
     (let (tot, maxCount) = bucket_totals buckets
      in if tot = 0 then Some (''  (no I/O recorded yet)'' @ newline)
         else render_buckets oor maxCount tot buckets '''')"

section \<open>The stub\<close>

text \<open>A build without eBPF: no state, and errors that carry only a text.\<close>

definition stub_NewCollector :: "gostring + unit" where
  "stub_NewCollector =
     Inl (''eBPF support not compiled in '' @ em_dash @
       '' rebuild with: go build -tags ebpf ./cmd/sysmon'' @ newline @
       ''  Also requires: Linux 5.8+, root/CAP_BPF, and running `go generate '' @
       ''./internal/ebpf/...` first'')"

definition stub_ReadHistogram :: "unit \<Rightarrow> gostring + LatencyBucket list" where
  "stub_ReadHistogram c = Inl ''eBPF support not compiled in''"

definition stub_ResetHistogram :: "unit \<Rightarrow> gostring option" where
  "stub_ResetHistogram c = None"

definition stub_Close :: "unit \<Rightarrow> unit" where
  "stub_Close c = ()"

definition stub_RenderASCII :: "LatencyBucket list \<Rightarrow> gostring" where
  "stub_RenderASCII bs =
     ''  (eBPF not compiled in '' @ em_dash @ '' rebuild with -tags ebpf)'' @ newline"

end
