(* ===== verification/HistogramAccess.thy ===== *)
theory HistogramAccess
  imports Loader
begin

text \<open>
  Reading, resetting and rendering the histogram from user space
  (\<open>ReadHistogram\<close>, \<open>ResetHistogram\<close>, \<open>bucketLabel\<close> and \<open>RenderASCII\<close> of
  \<open>src/internal/ebpf/loader.go\<close>). \<open>histogram_map\<close> states what the element accesses of the
  library return; the world \<open>world\<close> puts them on the maps of the BPF program, so that the
  figures the loader reads are the samples the handlers took.
\<close>

section \<open>The interface\<close>

text \<open>
  \<open>hist w\<close> is the array in the kernel. A lookup of a present element returns it, of an absent
  one an error whose text is that of \<open>ErrKeyNotExist\<close>; an update of a present element succeeds.
\<close>

locale histogram_map =
  fixes A :: "('w, 'e) bpf_api" and hist :: "'w \<Rightarrow> u32 \<Rightarrow> u64 option"
  assumes lookup_present: "hist w i = Some v \<Longrightarrow> map_lookup A IoLatencyHist i w = Inr v"
    and lookup_absent: "hist w i = None \<Longrightarrow>
      \<exists>e. map_lookup A IoLatencyHist i w = Inl e \<and> contains (error_text A e) (key_not_exist A)"
    and put_present: "hist w i \<noteq> None \<Longrightarrow>
      fst (map_put A IoLatencyHist i v w) = None \<and>
      hist (snd (map_put A IoLatencyHist i v w)) = (hist w)(i \<mapsto> v)"

text \<open>The entry of bucket \<open>k\<close> when the array is \<open>h\<close>; an absent element counts as 0.\<close>

definition bucket_entry :: "(u32 \<Rightarrow> u64 option) \<Rightarrow> nat \<Rightarrow> LatencyBucket" where
  "bucket_entry h k =
     \<lparr>Label = bucketLabel (word_of_nat k),
      Count = (case h (word_of_nat k) of None \<Rightarrow> 0 | Some v \<Rightarrow> v)\<rparr>"

lemma below_histBuckets: "i < histBuckets \<longleftrightarrow> unat i < 24"
  by (simp add: histBuckets_def word_less_nat_alt)

text \<open>What every update of a bucket keeps, resetting keeps.\<close>

lemma reset_buckets_rule:
  assumes "P w" and "\<And>i w. P w \<Longrightarrow> P (snd (map_put A IoLatencyHist i 0 w))"
  shows "P (snd (reset_buckets A i w))"
  using assms
proof (induction A i w rule: reset_buckets.induct)
  case (1 A i w)
  obtain r w' where put: "map_put A IoLatencyHist i 0 w = (r, w')" by (rule prod.exhaust)
  then have "P w'" using 1(2) 1(3) [of w i] by simp
  then show ?case
    using 1(1) [OF _ put [symmetric]] 1(2,3) put
    by (subst reset_buckets.simps) (cases r; simp)
qed

context histogram_map
begin

lemma read_step:
  assumes "i < histBuckets"
  shows "read_buckets A w i bs =
    read_buckets A w (i + 1) (bs[unat i := bucket_entry (hist w) (unat i)])"
proof (cases "hist w i")
  case None
  then obtain e where "map_lookup A IoLatencyHist i w = Inl e"
    "contains (error_text A e) (key_not_exist A)" using lookup_absent by blast
  then show ?thesis using assms None
    by (subst read_buckets.simps) (simp add: isNotFound_def bucket_entry_def word_of_nat_unat)
next
  case (Some v)
  then show ?thesis using assms lookup_present [OF Some]
    by (subst read_buckets.simps) (simp add: bucket_entry_def word_of_nat_unat)
qed

lemma read_from:
  assumes "unat i \<le> 24" and "length bs = 24"
  shows "read_buckets A w i bs =
    Inr (take (unat i) bs @ map (bucket_entry (hist w)) [unat i..<24])"
  using assms
proof (induction "24 - unat i" arbitrary: i bs)
  case 0
  then show ?case by (subst read_buckets.simps) (simp add: below_histBuckets)
next
  case (Suc n)
  then have i: "i < histBuckets" "unat i < 24" by (simp_all add: below_histBuckets)
  then have n: "n = 24 - unat (i + 1)" "unat (i + 1) \<le> 24"
    using Suc.hyps(2) unat_Suc_below [OF i(1)] by simp_all
  show ?case
    using Suc.hyps(1) [OF n] Suc.prems i unat_Suc_below [OF i(1)]
    by (simp add: read_step upt_conv_Cons take_Suc_conv_app_nth)
qed

lemma read_all: "ReadHistogram A c w = Inr (map (bucket_entry (hist w)) [0..<24])"
  by (simp add: ReadHistogram_def histBuckets_def read_from)

lemma reset_from:
  assumes "\<forall>k. unat i \<le> unat k \<longrightarrow> k < histBuckets \<longrightarrow> hist w k \<noteq> None"
  shows "fst (reset_buckets A i w) = None \<and>
    hist (snd (reset_buckets A i w)) =
      (\<lambda>k. if unat i \<le> unat k \<and> k < histBuckets then Some 0 else hist w k)"
  using assms
proof (induction "24 - unat i" arbitrary: i w)
  case 0
  then show ?case
    by (subst (1 2) reset_buckets.simps) (auto simp: below_histBuckets fun_eq_iff)
next
  case (Suc n)
  then have i: "i < histBuckets" by (simp add: below_histBuckets)
  obtain w' where w': "map_put A IoLatencyHist i 0 w = (None, w')" "hist w' = (hist w)(i \<mapsto> 0)"
    using put_present [of w i 0] Suc.prems i by (cases "map_put A IoLatencyHist i 0 w") auto
  have step: "reset_buckets A i w = reset_buckets A (i + 1) w'"
    using i w' by (subst reset_buckets.simps) simp
  have "n = 24 - unat (i + 1)" using Suc.hyps(2) unat_Suc_below [OF i] by simp
  from Suc.hyps(1) [OF this, of w'] have IH: "fst (reset_buckets A (i + 1) w') = None \<and>
      hist (snd (reset_buckets A (i + 1) w')) =
        (\<lambda>k. if unat (i + 1) \<le> unat k \<and> k < histBuckets then Some 0 else hist w' k)"
    using Suc.prems w' unat_Suc_below [OF i] by (auto simp: below_histBuckets)
  have "unat i \<le> unat k \<longleftrightarrow> k = i \<or> unat (i + 1) \<le> unat k" for k
    using unat_Suc_below [OF i] by (auto simp: le_less Suc_le_eq word_unat_eq_iff)
  then show ?case using IH i w' unfolding step by (auto simp: fun_eq_iff)
qed

lemma reset_all:
  assumes "\<forall>k. k < histBuckets \<longrightarrow> hist w k \<noteq> None"
  shows "fst (ResetHistogram A c w) = None \<and>
    hist (snd (ResetHistogram A c w)) = (\<lambda>k. if k < histBuckets then Some 0 else hist w k)"
  using reset_from [of 0 w] assms by (simp add: ResetHistogram_def)

lemma read_after_reset:
  assumes "\<forall>k. k < histBuckets \<longrightarrow> hist w k \<noteq> None"
  shows "ReadHistogram A c (snd (ResetHistogram A c w)) =
    Inr (map (\<lambda>k. \<lparr>Label = bucketLabel (word_of_nat k), Count = 0\<rparr>) [0..<24])"
  using reset_all [OF assms]
  by (simp add: read_all bucket_entry_def below_histBuckets unat_of_nat)

end

section \<open>A world on the maps of the program\<close>

text \<open>
  The state of the kernel: the maps of the BPF program, the open handles, and the handles the
  kernel refuses to create. Errors are error numbers.
\<close>

record world =
  kmaps :: "((u64 \<times> u64) list, u64 list) bpf_maps"
  opened :: "bpf_handle list"
  refused :: "bpf_handle list"

definition EPERM :: int where "EPERM = 1"
definition EBADF :: int where "EBADF = 9"
definition EINVAL :: int where "EINVAL = 22"

definition object_handles :: "bpf_handle list" where
  "object_handles = [TraceRqComplete, TraceRqIssue, IoLatencyHist, StartTimes]"

text \<open>
  The histogram is the only map with keys of 32 bits: an access to any other handle with such a
  key fails.
\<close>

definition kernel_api :: "(world, int) bpf_api" where
  "kernel_api =
     \<lparr>os_stat = (\<lambda>_ _. None),
      load_spec = (\<lambda>_. None),
      load_and_assign = (\<lambda>w.
        if list_ex (\<lambda>h. h \<in> set (refused w)) object_handles then (Some EPERM, w)
        else (None, w\<lparr>opened := object_handles @ opened w\<rparr>)),
      link_tracepoint = (\<lambda>g n prog w.
        let l = TracepointLink g n
        in if l \<in> set (refused w) \<or> l \<in> set (opened w) then (Inl EPERM, w)
           else (Inr l, w\<lparr>opened := l # opened w\<rparr>)),
      close_handle = (\<lambda>h w.
        if h \<in> set (opened w) then (None, w\<lparr>opened := removeAll h (opened w)\<rparr>)
        else (Some EBADF, w)),
      map_lookup = (\<lambda>m i w.
        if m \<noteq> IoLatencyHist then Inl EINVAL
        else case hist_lookup kernel_helpers (io_latency_hist (kmaps w)) i of
          None \<Rightarrow> Inl ENOENT | Some v \<Rightarrow> Inr v),
      map_put = (\<lambda>m i v w.
        if m \<noteq> IoLatencyHist then (Some EINVAL, w)
        else let (r, a) = hist_update kernel_helpers (io_latency_hist (kmaps w)) i v
          in if r < 0 then (Some (- r), w)
             else (None, w\<lparr>kmaps := (kmaps w)\<lparr>io_latency_hist := a\<rparr>\<rparr>)),
      error_text = (\<lambda>e. if e = ENOENT then ''key does not exist'' else ''operation failed''),
      key_not_exist = ''key does not exist''\<rparr>"

lemma contains_refl: "contains s s"
  by (cases s) (simp_all add: has_prefix_def)

interpretation kernel_hist: histogram_map kernel_api
  "\<lambda>w. hist_lookup kernel_helpers (io_latency_hist (kmaps w))"
proof unfold_locales
  fix w i v
  show "hist_lookup kernel_helpers (io_latency_hist (kmaps w)) i = Some v \<Longrightarrow>
      map_lookup kernel_api IoLatencyHist i w = Inr v"
    by (simp add: kernel_api_def)
  show "\<exists>e. map_lookup kernel_api IoLatencyHist i w = Inl e \<and>
      contains (error_text kernel_api e) (key_not_exist kernel_api)"
    if "hist_lookup kernel_helpers (io_latency_hist (kmaps w)) i = None"
    using that by (simp add: kernel_api_def ENOENT_def contains_refl)
  show "fst (map_put kernel_api IoLatencyHist i v w) = None \<and>
      hist_lookup kernel_helpers (io_latency_hist (kmaps (snd (map_put kernel_api IoLatencyHist i v w))))
      = (hist_lookup kernel_helpers (io_latency_hist (kmaps w)))(i \<mapsto> v)"
    if "hist_lookup kernel_helpers (io_latency_hist (kmaps w)) i \<noteq> None"
    using that array_map.update_in [of "length (io_latency_hist (kmaps w))" _ i v]
    by (simp add: kernel_api_def kernel_helpers_def array_invar_def array_lookup_def
        array_update_def split: if_splits)
qed

section \<open>Facts on labels\<close>

definition range_label :: "nat \<Rightarrow> nat \<Rightarrow> gostring" where
  "range_label lo hi = itoa lo @ en_dash @ itoa hi @ '' '' @ micro @ ''s''"

lemma unat_pow2_u64:
  assumes "k < 64"
  shows "unat (2 ^ k :: u64) = 2 ^ k"
proof -
  have "(2 :: nat) ^ k < 2 ^ 64" using assms by (intro power_strict_increasing) simp_all
  moreover have "(2 ^ k :: u64) = word_of_nat (2 ^ k)" by simp
  ultimately show ?thesis by (simp only: unat_of_nat) simp
qed

lemma bucketLabel_range:
  assumes "k < 23"
  shows "bucketLabel (word_of_nat (Suc k)) = range_label (2 ^ k) (2 ^ Suc k)"
proof -
  have i: "unat (word_of_nat (Suc k) :: u32) = Suc k"
    using assms by (subst unat_of_nat) simp
  then have nz: "(word_of_nat (Suc k) :: u32) \<noteq> 0" by (metis Zero_not_Suc unsigned_0)
  have "unat (word_of_nat (Suc k) - 1 :: u32) = k"
    using i assms by (simp add: unat_of_nat)
  then show ?thesis using nz assms
    by (simp add: bucketLabel_def range_label_def push_bit_eq_mult unat_pow2_u64
        flip: power_Suc power_Suc2)
qed

text \<open>The label of a latency's bucket: below 1 us, an interval around it, or the last one.\<close>

lemma bucketLabel_of:
  "bucketLabel (bucket_for us) =
     (if unat us = 0 then ''<1 '' @ micro @ ''s''
      else (let k = min (floorlog 2 (unat us) - 1) 22 in range_label (2 ^ k) (2 ^ Suc k)))"
proof (cases "unat us = 0")
  case True
  then have "unat (bucket_for us) = 0" by (simp add: bucket_for_floorlog)
  then have "bucket_for us = 0" by (simp add: unat_eq_0)
  then show ?thesis using True by (simp add: bucketLabel_def)
next
  case False
  let ?k = "min (floorlog 2 (unat us) - 1) 22"
  have "floorlog 2 (unat us) \<noteq> 0" using False by (simp add: floorlog_eq_zero_iff)
  then have "unat (bucket_for us) = Suc ?k" by (simp add: bucket_for_floorlog min_def) arith
  then have "bucket_for us = word_of_nat (Suc ?k)" by (metis word_of_nat_unat)
  then show ?thesis using False bucketLabel_range [of ?k] by (simp add: Let_def)
qed

section \<open>Facts on rendering\<close>

lemma bucket_totals_append:
  "bucket_totals (bs @ [b]) =
     (fst (bucket_totals bs) + Count b,
      if Count b > snd (bucket_totals bs) then Count b else snd (bucket_totals bs))"
  by (simp add: bucket_totals_def split: prod.split)

lemma bucket_totals_Nil: "bucket_totals [] = (0, 0)"
  by (simp add: bucket_totals_def)

lemma bucket_totals_sum: "fst (bucket_totals bs) = sum_list (map Count bs)"
  by (induction bs rule: rev_induct) (simp_all add: bucket_totals_append bucket_totals_Nil)

lemma bucket_totals_max: "b \<in> set bs \<Longrightarrow> Count b \<le> snd (bucket_totals bs)"
  by (induction bs rule: rev_induct) (auto simp: bucket_totals_append)

definition scaled_cells :: "u64 \<Rightarrow> u64 \<Rightarrow> rat" where
  "scaled_cells count maxCount =
     round64 (round64 (round64 (of_nat (unat count)) / round64 (of_nat (unat maxCount))) * 30)"

lemma hist_bar_floor:
  assumes "count \<le> maxCount" and "maxCount \<noteq> 0"
  shows "hist_bar_cells oor count maxCount = \<lfloor>scaled_cells count maxCount\<rfloor>"
    and "0 \<le> scaled_cells count maxCount" and "scaled_cells count maxCount \<le> 30"
proof -
  show x: "0 \<le> scaled_cells count maxCount" "scaled_cells count maxCount \<le> 30"
    using u64_ratio_scaled_eq [OF assms, of 30] by (simp_all add: scaled_cells_def)
  then show "hist_bar_cells oor count maxCount = \<lfloor>scaled_cells count maxCount\<rfloor>"
    using u64_ratio_scaled_eq [OF assms, of 30]
    by (simp add: hist_bar_cells_def go_int_Fin flip: scaled_cells_def)
qed

lemma hist_bar_range:
  assumes "count \<le> maxCount" and "maxCount \<noteq> 0"
  shows "0 \<le> hist_bar_cells oor count maxCount \<and> hist_bar_cells oor count maxCount \<le> 30"
  using hist_bar_floor [OF assms] floor_mono [of "scaled_cells count maxCount" 30] by simp

lemma hist_bar_mono:
  assumes "a \<le> b" and "b \<le> m" and "m \<noteq> 0"
  shows "hist_bar_cells oor a m \<le> hist_bar_cells oor b m"
proof -
  have "scaled_cells a m \<le> scaled_cells b m"
    unfolding scaled_cells_def using assms f_of_u64_pos [of m]
    by (intro round64_mono mult_right_mono divide_right_mono)
      (auto simp: u64_le_nat intro: order_less_imp_le)
  then show ?thesis
    using assms by (simp add: hist_bar_floor floor_mono)
qed

lemma hist_bar_full: "maxCount \<noteq> 0 \<Longrightarrow> hist_bar_cells oor maxCount maxCount = 30"
  using f_of_u64_pos [of maxCount]
  by (simp add: hist_bar_cells_def f_of_u64_Fin fl_Fin round64_numeral go_int_Fin)

text \<open>One row as a text: \<open>n\<close> full cells of 30, and the columns after them.\<close>

definition histogram_row :: "u64 \<Rightarrow> u64 \<Rightarrow> LatencyBucket \<Rightarrow> gostring" where
  "histogram_row maxCount tot b =
     (let n = nat (hist_bar_cells (\<lambda>_. 0) (Count b) maxCount)
      in ''  '' @ pad_right 12 (Label b) @ '' ['' @ repeat_string full_block n @
         repeat_string light_line (30 - n) @ ''] '' @ pad_left 6 (itoa (unat (Count b))) @ ''  ('' @
         pad_left 4 (f_format_1 (f_mul (f_div (f_of_u64 (Count b)) (f_of_u64 tot)) (Fin 100))) @
         ''%)'' @ newline)"

lemma hist_bar_oor:
  "count \<le> maxCount \<Longrightarrow> maxCount \<noteq> 0 \<Longrightarrow>
     hist_bar_cells oor count maxCount = hist_bar_cells oor' count maxCount"
  by (simp add: hist_bar_floor)

lemma render_bucket_row:
  assumes "Count b \<le> maxCount" and "maxCount \<noteq> 0"
  shows "render_bucket oor maxCount tot b = Some (histogram_row maxCount tot b)"
  using hist_bar_range [OF assms, of oor] hist_bar_oor [OF assms, of oor "\<lambda>_. 0"]
  by (simp add: render_bucket_def histogram_row_def Let_def cells_Some nat_diff_distrib')

lemma render_buckets_rows:
  "\<forall>b \<in> set bs. Count b \<le> maxCount \<Longrightarrow>
     render_buckets oor maxCount tot bs sb =
       Some (sb @ concat (map (histogram_row maxCount tot) (filter (\<lambda>b. Count b \<noteq> 0) bs)))"
proof (induction bs arbitrary: sb)
  case (Cons b bs)
  have "maxCount \<noteq> 0" if "Count b \<noteq> 0" using that Cons.prems by auto
  then show ?case using Cons by (auto simp: render_bucket_row)
qed simp

section \<open>Facts on intervals\<close>

lemma run_events_hist:
  "i < histBuckets \<Longrightarrow>
     hist_lookup kernel_helpers (io_latency_hist (run_events kernel_helpers es initial_maps)) i \<noteq> None"
  using kernel_run_refines [of es] by (auto simp: represents_def below_histBuckets)

lemma represents_entries:
  "represents kernel_helpers (\<lambda>_. 0) s m \<Longrightarrow>
     map (bucket_entry (hist_lookup kernel_helpers (io_latency_hist s))) [0..<24] =
     map (\<lambda>i. \<lparr>Label = bucketLabel (word_of_nat i),
               Count = word_of_nat (bucket_count (word_of_nat i) (samples m))\<rparr>) [0..<24]"
  by (simp add: represents_def bucket_entry_def unat_of_nat)

text \<open>Resetting changes no pending request and empties every bucket.\<close>

lemma put_keeps_rest:
  "start_times (kmaps (snd (map_put kernel_api h i v w))) = start_times (kmaps w)"
  "length (io_latency_hist (kmaps (snd (map_put kernel_api h i v w)))) =
     length (io_latency_hist (kmaps w))"
  by (auto simp: kernel_api_def kernel_helpers_def array_update_def split: prod.split)

lemma reset_keeps_rest:
  "start_times (kmaps (snd (reset_buckets kernel_api i w))) = start_times (kmaps w) \<and>
   length (io_latency_hist (kmaps (snd (reset_buckets kernel_api i w)))) =
     length (io_latency_hist (kmaps w))"
  by (rule reset_buckets_rule) (simp_all add: put_keeps_rest)

lemma reset_represents:
  assumes "represents kernel_helpers h0 (kmaps w) m"
  shows "represents kernel_helpers (\<lambda>_. 0) (kmaps (snd (ResetHistogram kernel_api c w)))
    (m\<lparr>samples := []\<rparr>)"
  using kernel_hist.reset_all [of w c] reset_keeps_rest [of 0 w] assms
  by (simp add: represents_def below_histBuckets ResetHistogram_def kernel_helpers_def)

lemma read_counts:
  "ReadHistogram kernel_api c (w\<lparr>kmaps := run_events kernel_helpers es initial_maps\<rparr>) =
     Inr (map (\<lambda>i. \<lparr>Label = bucketLabel (word_of_nat i),
                    Count = word_of_nat (bucket_count (word_of_nat i)
                      (samples (monitor_run start_times_max_entries es empty_monitor)))\<rparr>) [0..<24])"
  by (simp add: kernel_hist.read_all represents_entries [OF kernel_run_refines])

text \<open>
  Resetting starts a new interval: it succeeds, keeps the pending requests, and a histogram
  read after further events counts exactly the samples these events completed.
\<close>

lemma reset_starts_interval:
  "let m = monitor_run start_times_max_entries es1 empty_monitor;
       (err, w') = ResetHistogram kernel_api c
         (w\<lparr>kmaps := run_events kernel_helpers es1 initial_maps\<rparr>)
   in err = None \<and>
      ReadHistogram kernel_api c (w'\<lparr>kmaps := run_events kernel_helpers es2 (kmaps w')\<rparr>) =
        Inr (map (\<lambda>i. \<lparr>Label = bucketLabel (word_of_nat i),
                       Count = word_of_nat (bucket_count (word_of_nat i)
                         (samples (monitor_run start_times_max_entries es2 (m\<lparr>samples := []\<rparr>))))\<rparr>)
                [0..<24])"
proof -
  let ?s = "run_events kernel_helpers es1 initial_maps"
  let ?w = "w\<lparr>kmaps := ?s\<rparr>"
  let ?w' = "snd (ResetHistogram kernel_api c ?w)"
  have ok: "fst (ResetHistogram kernel_api c ?w) = None"
    using kernel_hist.reset_all [of ?w c] by (simp add: run_events_hist)
  have inv: "hash_invar start_times_max_entries (start_times (kmaps ?w'))"
    "array_invar io_latency_hist_max_entries (io_latency_hist (kmaps ?w'))"
    using kernel_maps.run_invar [OF initial_invar, of es1] reset_keeps_rest [of 0 ?w]
    by (simp_all add: ResetHistogram_def array_invar_def)
  have "represents kernel_helpers (\<lambda>_. 0) (kmaps ?w')
      ((monitor_run start_times_max_entries es1 empty_monitor)\<lparr>samples := []\<rparr>)"
    by (rule reset_represents [where ?h0.0 = "\<lambda>_. 0"]) (simp add: kernel_run_refines)
  note counts = represents_entries [OF kernel_maps.run_refines [OF inv this, of es2]]
  obtain err w' where "ResetHistogram kernel_api c ?w = (err, w')" by (rule prod.exhaust)
  with counts ok show ?thesis by (simp add: kernel_hist.read_all Let_def del: map_eq_conv)
qed

section \<open>Properties\<close>

text \<open>
  C16. The label of the bucket a latency is counted in names an interval that contains the
  latency, up to \<open>2^23\<close> us (8.4 s); everything longer is counted in the last bucket, whose label
  names the bounded interval of 4194304 to 8388608 us all the same.
\<close>

theorem bucket_label_interval:
  "if unat us = 0 then bucketLabel (bucket_for us) = ''<1 '' @ micro @ ''s''
   else if unat us < 2 ^ 23
   then \<exists>k. bucketLabel (bucket_for us) = range_label (2 ^ k) (2 ^ Suc k) \<and>
          2 ^ k \<le> unat us \<and> unat us < 2 ^ Suc k
   else bucketLabel (bucket_for us) = range_label 4194304 8388608"
proof -
  let ?L = "floorlog 2 (unat us)"
  have "\<exists>k. bucketLabel (bucket_for us) = range_label (2 ^ k) (2 ^ Suc k) \<and>
      2 ^ k \<le> unat us \<and> unat us < 2 ^ Suc k" if "unat us \<noteq> 0" "unat us < 2 ^ 23"
  proof -
    have L: "2 ^ (?L - 1) \<le> unat us" "unat us < 2 ^ ?L" "?L \<noteq> 0" "?L \<le> 23"
      using that floorlog_bounds [of "unat us" 2]
      by (simp_all add: floorlog_eq_zero_iff floorlog_le_iff)
    then obtain k where k: "?L = Suc k" "k \<le> 22" by (cases "?L") auto
    then show ?thesis using L that(1)
      by (intro exI [of _ k]) (simp add: bucketLabel_of Let_def)
  qed
  moreover have "bucketLabel (bucket_for us) = range_label 4194304 8388608" if "\<not> unat us < 2 ^ 23"
  proof -
    have "Suc 23 \<le> ?L" using that by (intro floorlog_ge_SucI) simp_all
    then have "min (?L - 1) 22 = 22" by simp
    then show ?thesis using that by (simp add: bucketLabel_of)
  qed
  ultimately show ?thesis by (simp add: bucketLabel_of)
qed

text \<open>
  C9. \<open>ReadHistogram\<close> reports what the BPF program measured: after any events it returns the 24
  labelled buckets with, in each, the number of latency samples of its range.
\<close>

theorem ReadHistogram_counts_samples:
  "ReadHistogram kernel_api c (w\<lparr>kmaps := run_events kernel_helpers es initial_maps\<rparr>) =
     Inr (map (\<lambda>i. \<lparr>Label = bucketLabel (word_of_nat i),
                    Count = word_of_nat (bucket_count (word_of_nat i)
                      (samples (monitor_run start_times_max_entries es empty_monitor)))\<rparr>) [0..<24])"
  by (rule read_counts)

text \<open>
  C17. \<open>RenderASCII\<close> never panics: it prints one row per non-empty bucket, in order, whatever
  the counts, or the placeholder when the counts add up to 0. The sample output in
  \<open>src/blog-post.md\<close> has rows for empty buckets, too; the code prints none, as its comment says.
\<close>

theorem RenderASCII_rows:
  "RenderASCII oor bs =
     (if sum_list (map Count bs) = 0 then Some (''  (no I/O recorded yet)'' @ newline)
      else Some (concat (map (histogram_row (snd (bucket_totals bs)) (sum_list (map Count bs)))
             (filter (\<lambda>b. Count b \<noteq> 0) bs))))"
proof -
  obtain tot mx where t: "bucket_totals bs = (tot, mx)" by (rule prod.exhaust)
  have "tot = sum_list (map Count bs)" using bucket_totals_sum [of bs] t by simp
  moreover have "\<forall>b \<in> set bs. Count b \<le> mx" using bucket_totals_max [of _ bs] t by simp
  ultimately show ?thesis using render_buckets_rows [of bs mx oor tot] t by (simp add: RenderASCII_def)
qed

text \<open>
  C18. The bars are to scale: between 0 and 30 cells for every count up to the largest, never
  shorter for a larger count, and exactly 30 for the largest.
\<close>

theorem hist_bar_scale:
  assumes "a \<le> b" and "b \<le> m" and "m \<noteq> 0"
  shows "0 \<le> hist_bar_cells oor a m \<and> hist_bar_cells oor a m \<le> hist_bar_cells oor b m \<and>
    hist_bar_cells oor b m \<le> 30 \<and> hist_bar_cells oor m m = 30"
  using hist_bar_mono [OF assms] hist_bar_range [of a m] hist_bar_range [of b m] assms
    order_trans [OF assms(1,2)]
  by (auto simp: hist_bar_full)

theorem hist_bar_scale_witness:
  "0 \<le> hist_bar_cells (\<lambda>_. 0) 3 9 \<and> hist_bar_cells (\<lambda>_. 0) 3 9 \<le> hist_bar_cells (\<lambda>_. 0) 6 9 \<and>
   hist_bar_cells (\<lambda>_. 0) 6 9 \<le> 30 \<and> hist_bar_cells (\<lambda>_. 0) 9 9 = 30"
  by (rule hist_bar_scale) simp_all

end
