(* ===== verification/Concurrent.thy ===== *)
theory Concurrent
  imports HistogramAccess
begin

text \<open>
  The handlers of \<open>src/internal/ebpf/block_latency.c\<close> on several CPUs, interleaved with each
  other and with the reading and resetting of \<open>src/internal/ebpf/loader.go\<close> one helper or
  system call at a time. A handler keeps its local variables in its program counter; the maps
  are shared. The ghost counters \<open>added\<close>, \<open>reported\<close> and \<open>late\<close> account for every sample.
\<close>

section \<open>States\<close>

text \<open>
  Where a handler stands: before it runs, after \<open>bpf_ktime_get_ns\<close> in the issue handler, and in
  the completion handler after the lookup (with the value it found), after the elapsed time is
  computed, after the deletion, and after the lookup of the bucket.
\<close>

datatype handler_pc =
    Idle
  | Stamped rq_ctx u64
  | Found rq_ctx u64
  | Elapsed rq_ctx u64
  | Removed u64
  | Counting u32

datatype user_pc = Waiting | Reading u32 | Resetting u32

record ('h, 'a) cstate =
  shared :: "('h, 'a) bpf_maps"
  cpus :: "nat \<Rightarrow> handler_pc"
  user :: user_pc
  added :: "u32 \<Rightarrow> u64"
  reported :: "u32 \<Rightarrow> u64"
  late :: "u32 \<Rightarrow> u64"

text \<open>Bucket \<open>i\<close> has been read in this round and not been reset yet.\<close>

fun in_window :: "user_pc \<Rightarrow> u32 \<Rightarrow> bool" where
  "in_window Waiting i \<longleftrightarrow> False"
| "in_window (Reading j) i \<longleftrightarrow> i < j"
| "in_window (Resetting j) i \<longleftrightarrow> j \<le> i"

section \<open>Steps\<close>

text \<open>Who takes a step: the handler on a CPU, or the display.\<close>

datatype agent = CPU nat | Display

text \<open>
  The value read through the pointer to the start time is the one found unless another CPU
  replaced or removed the entry in between; then it can be any value.
\<close>

inductive cstep ::
  "('h, 'a) bpf_helpers \<Rightarrow> agent \<Rightarrow> ('h, 'a) cstate \<Rightarrow> ('h, 'a) cstate \<Rightarrow> bool"
  for H :: "('h, 'a) bpf_helpers" where
  issue_time: "cpus s c = Idle \<Longrightarrow>
     cstep H (CPU c) s (s\<lparr>cpus := (cpus s)(c := Stamped ctx ts)\<rparr>)"
| issue_update: "cpus s c = Stamped ctx ts \<Longrightarrow>
     start_update H (start_times (shared s)) (pack_key (dev ctx) (sector ctx)) ts = (r, h) \<Longrightarrow>
     cstep H (CPU c) s (s\<lparr>cpus := (cpus s)(c := Idle), shared := (shared s)\<lparr>start_times := h\<rparr>\<rparr>)"
| complete_lookup: "cpus s c = Idle \<Longrightarrow>
     start_lookup H (start_times (shared s)) (pack_key (dev ctx) (sector ctx)) = Some v \<Longrightarrow>
     cstep H (CPU c) s (s\<lparr>cpus := (cpus s)(c := Found ctx v)\<rparr>)"
| complete_missing: "cpus s c = Idle \<Longrightarrow>
     start_lookup H (start_times (shared s)) (pack_key (dev ctx) (sector (ctx :: rq_ctx))) = None \<Longrightarrow>
     cstep H (CPU c) s s"
| complete_elapsed: "cpus s c = Found ctx v \<Longrightarrow>
     (start_lookup H (start_times (shared s)) (pack_key (dev ctx) (sector ctx)) = Some v \<longrightarrow>
        start = v) \<Longrightarrow>
     cstep H (CPU c) s (s\<lparr>cpus := (cpus s)(c := Elapsed ctx (ktime - start))\<rparr>)"
| complete_delete: "cpus s c = Elapsed ctx delta_ns \<Longrightarrow>
     start_delete H (start_times (shared s)) (pack_key (dev ctx) (sector ctx)) = (r, h) \<Longrightarrow>
     cstep H (CPU c) s (s\<lparr>cpus := (cpus s)(c := Removed delta_ns), shared := (shared s)\<lparr>start_times := h\<rparr>\<rparr>)"
| complete_bucket: "cpus s c = Removed delta_ns \<Longrightarrow> bucket = bucket_for (delta_ns div 1000) \<Longrightarrow>
     hist_lookup H (io_latency_hist (shared s)) bucket \<noteq> None \<Longrightarrow>
     cstep H (CPU c) s (s\<lparr>cpus := (cpus s)(c := Counting bucket)\<rparr>)"
| complete_nobucket: "cpus s c = Removed delta_ns \<Longrightarrow>
     hist_lookup H (io_latency_hist (shared s)) (bucket_for (delta_ns div 1000)) = None \<Longrightarrow>
     cstep H (CPU c) s (s\<lparr>cpus := (cpus s)(c := Idle)\<rparr>)"
| complete_add: "cpus s c = Counting bucket \<Longrightarrow>
     cstep H (CPU c) s (s\<lparr>cpus := (cpus s)(c := Idle),
       shared := (shared s)\<lparr>io_latency_hist :=
         sync_fetch_and_add H (io_latency_hist (shared s)) bucket 1\<rparr>,
       added := (added s)(bucket := added s bucket + 1),
       late := (late s)(bucket := late s bucket + (if in_window (user s) bucket then 1 else 0))\<rparr>)"
| user_tick: "user s = Waiting \<Longrightarrow> cstep H Display s (s\<lparr>user := Reading 0\<rparr>)"
| user_read: "user s = Reading i \<Longrightarrow> i < histBuckets \<Longrightarrow>
     hist_lookup H (io_latency_hist (shared s)) i = Some count \<Longrightarrow>
     cstep H Display s (s\<lparr>user := Reading (i + 1), reported := (reported s)(i := reported s i + count)\<rparr>)"
| user_read_end: "user s = Reading i \<Longrightarrow> \<not> i < histBuckets \<Longrightarrow> cstep H Display s (s\<lparr>user := Resetting 0\<rparr>)"
| user_reset: "user s = Resetting i \<Longrightarrow> i < histBuckets \<Longrightarrow>
     hist_update H (io_latency_hist (shared s)) i 0 = (r, a) \<Longrightarrow>
     cstep H Display s (s\<lparr>user := Resetting (i + 1), shared := (shared s)\<lparr>io_latency_hist := a\<rparr>\<rparr>)"
| user_reset_end: "user s = Resetting i \<Longrightarrow> \<not> i < histBuckets \<Longrightarrow> cstep H Display s (s\<lparr>user := Waiting\<rparr>)"

inductive_cases cstepE: "cstep H a s s'"

definition cinit :: "('h, 'a) bpf_maps \<Rightarrow> ('h, 'a) cstate" where
  "cinit m = \<lparr>shared = m, cpus = (\<lambda>_. Idle), user = Waiting, added = (\<lambda>_. 0),
     reported = (\<lambda>_. 0), late = (\<lambda>_. 0)\<rparr>"

inductive reachable ::
  "('h, 'a) bpf_helpers \<Rightarrow> ('h, 'a) cstate \<Rightarrow> ('h, 'a) cstate \<Rightarrow> bool"
  for H :: "('h, 'a) bpf_helpers" and s0 :: "('h, 'a) cstate" where
  start: "reachable H s0 s0"
| step: "reachable H s0 s \<Longrightarrow> cstep H a s s' \<Longrightarrow> reachable H s0 s'"

lemma reachable_trans: "reachable H t u \<Longrightarrow> reachable H s t \<Longrightarrow> reachable H s u"
  by (induction rule: reachable.induct) (auto intro: reachable.intros)

section \<open>The accounting invariant\<close>

definition user_index_ok :: "user_pc \<Rightarrow> bool" where
  "user_index_ok u =
     (case u of Waiting \<Rightarrow> True | Reading i \<Rightarrow> unat i \<le> 24 | Resetting i \<Rightarrow> unat i \<le> 24)"

text \<open>
  Every sample added to a bucket is in a report, was added between the reading and the
  resetting of the bucket, or is still in the histogram.
\<close>

definition accounted :: "('h, 'a) bpf_helpers \<Rightarrow> ('h, 'a) cstate \<Rightarrow> bool" where
  "accounted H s \<longleftrightarrow>
     (\<forall>i. i < histBuckets \<longrightarrow>
        (\<exists>v. hist_lookup H (io_latency_hist (shared s)) i = Some v \<and>
           added s i = reported s i + late s i + (if in_window (user s) i then 0 else v)))"

definition pcs_ok :: "('h, 'a) cstate \<Rightarrow> bool" where
  "pcs_ok s \<longleftrightarrow> user_index_ok (user s) \<and> (\<forall>c b. cpus s c = Counting b \<longrightarrow> b < histBuckets)"

lemma bucket_below: "bucket_for us < histBuckets"
  using bucket_for_lt [of us] by (simp add: below_histBuckets)

context latency_maps
begin

lemma cstep_pcs: "cstep H a s s' \<Longrightarrow> pcs_ok s \<Longrightarrow> pcs_ok s'"
  by (induction rule: cstep.induct)
    (auto simp: pcs_ok_def user_index_ok_def bucket_for_lt below_histBuckets unat_Suc_below)

lemma cstep_invar:
  assumes "cstep H a s s'"
    and "hinv (start_times (shared s)) \<and> ainv (io_latency_hist (shared s))"
  shows "hinv (start_times (shared s')) \<and> ainv (io_latency_hist (shared s'))"
  using assms
  by (induction rule: cstep.induct)
    (auto simp: fetch_and_add_invar dest: start.invar_update start.invar_delete
      hist.invar_array_update intro: sndI [THEN subst])

lemma bucket_array:
  assumes "ainv a" and "i < histBuckets"
  shows "hist_lookup H a i \<noteq> None"
  using hist.lookup_some [OF assms(1), of i] assms(2) all_buckets by (simp add: below_histBuckets)

text \<open>How the array and the window of each bucket change in the steps that touch them.\<close>

lemma add_accounted:
  assumes inv: "ainv (io_latency_hist (shared s))" and b: "b < histBuckets"
    and acc: "accounted H s"
  shows "accounted H (s\<lparr>cpus := p,
       shared := (shared s)\<lparr>io_latency_hist :=
         sync_fetch_and_add H (io_latency_hist (shared s)) b 1\<rparr>,
       added := (added s)(b := added s b + 1),
       late := (late s)(b := late s b + (if in_window (user s) b then 1 else 0))\<rparr>)"
proof -
  obtain v where v: "hist_lookup H (io_latency_hist (shared s)) b = Some v"
    using bucket_array [OF inv b] by blast
  show ?thesis using acc fetch_and_add_lookup [OF inv v, of 1] v
    by (auto simp: accounted_def)
qed

lemma read_accounted:
  assumes "user s = Reading i" and "i < histBuckets" and "accounted H s"
    and "hist_lookup H (io_latency_hist (shared s)) i = Some count"
  shows "accounted H (s\<lparr>user := Reading (i + 1), reported := (reported s)(i := reported s i + count)\<rparr>)"
proof -
  have "k < i + 1 \<longleftrightarrow> k < i \<or> k = i" for k
    using unat_Suc_below [OF assms(2)] by (auto simp: word_less_nat_alt less_Suc_eq word_unat_eq_iff)
  then show ?thesis using assms by (auto simp: accounted_def algebra_simps)
qed

lemma reset_accounted:
  assumes "user s = Resetting i" and "i < histBuckets" and "accounted H s"
    and "ainv (io_latency_hist (shared s))"
    and "hist_update H (io_latency_hist (shared s)) i 0 = (r, a)"
  shows "accounted H (s\<lparr>user := Resetting (i + 1), shared := (shared s)\<lparr>io_latency_hist := a\<rparr>\<rparr>)"
proof -
  have "i + 1 \<le> k \<longleftrightarrow> i \<le> k \<and> k \<noteq> i" for k
    using unat_Suc_below [OF assms(2)]
    by (auto simp: word_le_nat_alt Suc_le_eq le_less word_unat_eq_iff)
  moreover have "hist_lookup H a = (hist_lookup H (io_latency_hist (shared s)))(i \<mapsto> 0)"
    using hist.lookup_after_update [OF assms(4) bucket_array [OF assms(4,2)], of 0] assms(5) by simp
  ultimately show ?thesis using assms by (auto simp: accounted_def)
qed

lemma cstep_accounted:
  assumes "cstep H a s s'" and "accounted H s" and "pcs_ok s"
    and "ainv (io_latency_hist (shared s))"
  shows "accounted H s'"
  using assms
proof (induction rule: cstep.induct)
  case (complete_add s c bucket)
  then show ?case by (intro add_accounted) (auto simp: pcs_ok_def)
next
  case (user_read s i count)
  then show ?case by (intro read_accounted)
next
  case (user_reset s i r a)
  then show ?case by (intro reset_accounted)
next
  case (user_read_end s i)
  then show ?case
    by (auto simp: accounted_def pcs_ok_def user_index_ok_def below_histBuckets word_less_nat_alt)
next
  case (user_reset_end s i)
  then show ?case
    by (auto simp: accounted_def below_histBuckets word_le_nat_alt)
next
  case (user_tick s)
  then show ?case by (auto simp: accounted_def)
qed (auto simp: accounted_def)

lemma reachable_invariant:
  assumes "reachable H (cinit m) s" and "hinv (start_times m)" and "ainv (io_latency_hist m)"
    and "\<And>i. i < histBuckets \<Longrightarrow> hist_lookup H (io_latency_hist m) i = Some 0"
  shows "hinv (start_times (shared s)) \<and> ainv (io_latency_hist (shared s)) \<and> pcs_ok s \<and>
    accounted H s"
  using assms
proof (induction rule: reachable.induct)
  case start
  then show ?case
    by (auto simp: cinit_def pcs_ok_def user_index_ok_def accounted_def)
next
  case (step s s')
  then show ?case using cstep_invar cstep_pcs cstep_accounted by meson
qed

end

section \<open>Progress\<close>

text \<open>Own steps a handler still has to take, and the order of its positions by them.\<close>

fun remaining :: "handler_pc \<Rightarrow> nat" where
  "remaining Idle = 0"
| "remaining (Stamped ctx ts) = 1"
| "remaining (Found ctx v) = 4"
| "remaining (Elapsed ctx d) = 3"
| "remaining (Removed d) = 2"
| "remaining (Counting b) = 1"

lemma remaining_le: "remaining p \<le> 4"
  by (cases p) simp_all

instantiation handler_pc :: preorder
begin

definition less_eq_handler_pc :: "handler_pc \<Rightarrow> handler_pc \<Rightarrow> bool" where
  "less_eq_handler_pc p q \<longleftrightarrow> remaining p \<le> remaining q"

definition less_handler_pc :: "handler_pc \<Rightarrow> handler_pc \<Rightarrow> bool" where
  "less_handler_pc p q \<longleftrightarrow> remaining p < remaining q"

instance
  by standard (auto simp: less_eq_handler_pc_def less_handler_pc_def)

end

lemmas pc_order = less_eq_handler_pc_def less_handler_pc_def

text \<open>A step of its own brings a handler closer to its end; no step of another moves it.\<close>

lemma cstep_own_decreases:
  "cstep H (CPU c) s s' \<Longrightarrow> cpus s c \<noteq> Idle \<Longrightarrow> cpus s' c < cpus s c"
  by (elim cstepE) (auto simp: pc_order)

lemma cstep_other_keeps: "cstep H a s s' \<Longrightarrow> a \<noteq> CPU c \<Longrightarrow> cpus s' c = cpus s c"
  by (elim cstepE) auto

lemma cstep_enabled:
  assumes "cpus s c \<noteq> Idle"
  shows "\<exists>s'. cstep H (CPU c) s s'"
proof (cases "cpus s c")
  case (Stamped ctx ts)
  obtain r h where "start_update H (start_times (shared s)) (pack_key (dev ctx) (sector ctx)) ts = (r, h)"
    by (rule prod.exhaust)
  from issue_update [OF Stamped this] show ?thesis by blast
next
  case (Found ctx v)
  from complete_elapsed [OF Found, of H v] show ?thesis by blast
next
  case (Elapsed ctx d)
  obtain r h where "start_delete H (start_times (shared s)) (pack_key (dev ctx) (sector ctx)) = (r, h)"
    by (rule prod.exhaust)
  from complete_delete [OF Elapsed this] show ?thesis by blast
next
  case (Removed d)
  show ?thesis
  proof (cases "hist_lookup H (io_latency_hist (shared s)) (bucket_for (d div 1000))")
    case None
    from complete_nobucket [OF Removed this] show ?thesis by blast
  next
    case (Some v)
    then have "hist_lookup H (io_latency_hist (shared s)) (bucket_for (d div 1000)) \<noteq> None" by simp
    from complete_bucket [OF Removed refl this] show ?thesis by blast
  qed
next
  case (Counting b)
  from complete_add [OF Counting, of H] show ?thesis by blast
qed (use assms in simp)

text \<open>
  The first \<open>n\<close> steps of a run in which the handler on CPU \<open>c\<close> is under way throughout: each own
  step is paid for by the measure.
\<close>

lemma own_steps_bound:
  assumes "\<And>i. i < n \<Longrightarrow> cstep H (a i) (r i) (r (Suc i)) \<and> cpus (r i) c \<noteq> Idle"
  shows "card {i. i < n \<and> a i = CPU c} + remaining (cpus (r n) c) \<le> remaining (cpus (r 0) c)"
  using assms
proof (induction n)
  case (Suc n)
  let ?A = "{i. i < n \<and> a i = CPU c}"
  have IH: "card ?A + remaining (cpus (r n) c) \<le> remaining (cpus (r 0) c)"
    using Suc by simp
  have n: "cstep H (a n) (r n) (r (Suc n))" "cpus (r n) c \<noteq> Idle" using Suc.prems by simp_all
  show ?case
  proof (cases "a n = CPU c")
    case True
    then have "{i. i < Suc n \<and> a i = CPU c} = insert n ?A" by (auto simp: less_Suc_eq)
    moreover have "remaining (cpus (r (Suc n)) c) < remaining (cpus (r n) c)"
      using cstep_own_decreases [of H c "r n" "r (Suc n)"] n True by (simp add: pc_order)
    ultimately show ?thesis using IH by simp
  next
    case False
    then have "{i. i < Suc n \<and> a i = CPU c} = ?A" by (auto simp: less_Suc_eq)
    then show ?thesis using IH cstep_other_keeps [OF n(1) False] by simp
  qed
qed simp

section \<open>Undisturbed runs\<close>

text \<open>A handler that is not interleaved with anything does what its sequential model does.\<close>

lemma issue_path:
  assumes "cpus s c = Idle"
  shows "reachable H s (s\<lparr>shared := handle H (Issue t ctx) (shared s)\<rparr>)"
proof -
  obtain r h where u: "start_update H (start_times (shared s)) (pack_key (dev ctx) (sector ctx)) t = (r, h)"
    by (rule prod.exhaust)
  let ?s1 = "s\<lparr>cpus := (cpus s)(c := Stamped ctx t)\<rparr>"
  have "cstep H (CPU c) s ?s1" using assms by (rule issue_time)
  moreover have "cstep H (CPU c) ?s1 (?s1\<lparr>cpus := (cpus ?s1)(c := Idle), shared := (shared ?s1)\<lparr>start_times := h\<rparr>\<rparr>)"
    by (rule issue_update) (use u in auto)
  moreover have "?s1\<lparr>cpus := (cpus ?s1)(c := Idle), shared := (shared ?s1)\<lparr>start_times := h\<rparr>\<rparr> =
      s\<lparr>shared := handle H (Issue t ctx) (shared s)\<rparr>"
    using assms u by (simp add: trace_rq_issue_def Let_def fun_upd_idem)
  ultimately show ?thesis by (metis reachable.intros)
qed

lemma complete_path:
  assumes idle: "cpus s c = Idle"
    and look: "start_lookup H (start_times (shared s)) (pack_key (dev ctx) (sector ctx)) = Some t0"
    and b: "b = bucket_for (latency_us t0 t)"
    and present: "hist_lookup H (io_latency_hist (shared s)) b \<noteq> None"
  shows "reachable H s (s\<lparr>shared := handle H (Complete t ctx) (shared s),
    added := (added s)(b := added s b + 1),
    late := (late s)(b := late s b + (if in_window (user s) b then 1 else 0))\<rparr>)"
proof -
  obtain r h where d: "start_delete H (start_times (shared s)) (pack_key (dev ctx) (sector ctx)) = (r, h)"
    by (rule prod.exhaust)
  let ?s1 = "s\<lparr>cpus := (cpus s)(c := Found ctx t0)\<rparr>"
  let ?s2 = "s\<lparr>cpus := (cpus s)(c := Elapsed ctx (t - t0))\<rparr>"
  let ?s3 = "s\<lparr>cpus := (cpus s)(c := Removed (t - t0)), shared := (shared s)\<lparr>start_times := h\<rparr>\<rparr>"
  let ?s4 = "?s3\<lparr>cpus := (cpus s)(c := Counting b)\<rparr>"
  have "cstep H (CPU c) s ?s1" using idle look by (rule complete_lookup)
  moreover have "cstep H (CPU c) ?s1 ?s2"
    using complete_elapsed [of ?s1 c ctx t0 H t0 t] by simp
  moreover have "cstep H (CPU c) ?s2 ?s3"
    using complete_delete [of ?s2 c ctx "t - t0" H r h] d by simp
  moreover have "cstep H (CPU c) ?s3 ?s4"
    using complete_bucket [of ?s3 c "t - t0" b H] b present by (simp add: latency_us_def)
  moreover have "cstep H (CPU c) ?s4 (s\<lparr>shared := handle H (Complete t ctx) (shared s),
    added := (added s)(b := added s b + 1),
    late := (late s)(b := late s b + (if in_window (user s) b then 1 else 0))\<rparr>)"
    using complete_add [of ?s4 c b H] idle look d present b
    by (auto simp: trace_rq_complete_def Let_def latency_us_def fun_upd_idem)
  ultimately show ?thesis by (meson reachable.intros)
qed

lemma handle_path:
  assumes "cpus s c = Idle"
  shows "\<exists>s'. reachable H s s' \<and> shared s' = handle H e (shared s) \<and> cpus s' = cpus s \<and>
    user s' = user s"
proof (cases e)
  case (Issue t ctx)
  then show ?thesis using issue_path [OF assms, of H t ctx] by fastforce
next
  case (Complete t ctx)
  let ?k = "pack_key (dev ctx) (sector ctx)"
  show ?thesis
  proof (cases "start_lookup H (start_times (shared s)) ?k")
    case None
    then show ?thesis using Complete
      by (intro exI [of _ s]) (simp add: trace_rq_complete_def reachable.start)
  next
    case (Some t0)
    let ?b = "bucket_for (latency_us t0 t)"
    show ?thesis
    proof (cases "hist_lookup H (io_latency_hist (shared s)) ?b")
      case present: (Some v)
      then show ?thesis using complete_path [OF assms Some refl] Complete by fastforce
    next
      case None
      obtain r h where d: "start_delete H (start_times (shared s)) ?k = (r, h)"
        by (rule prod.exhaust)
      let ?s1 = "s\<lparr>cpus := (cpus s)(c := Found ctx t0)\<rparr>"
      let ?s2 = "s\<lparr>cpus := (cpus s)(c := Elapsed ctx (t - t0))\<rparr>"
      let ?s3 = "s\<lparr>cpus := (cpus s)(c := Removed (t - t0)), shared := (shared s)\<lparr>start_times := h\<rparr>\<rparr>"
      let ?s4 = "?s3\<lparr>cpus := cpus s\<rparr>"
      have "cstep H (CPU c) s ?s1" using assms Some by (rule complete_lookup)
      moreover have "cstep H (CPU c) ?s1 ?s2"
        using complete_elapsed [of ?s1 c ctx t0 H t0 t] by simp
      moreover have "cstep H (CPU c) ?s2 ?s3"
        using complete_delete [of ?s2 c ctx "t - t0" H r h] d by simp
      moreover have "cstep H (CPU c) ?s3 ?s4"
        using complete_nobucket [of ?s3 c "t - t0" H] assms None
        by (simp add: latency_us_def fun_upd_idem)
      ultimately have "reachable H s ?s4" by (meson reachable.intros)
      moreover have "shared ?s4 = handle H e (shared s)"
        using Complete Some None d by (simp add: trace_rq_complete_def latency_us_def Let_def)
      ultimately show ?thesis by (intro exI [of _ ?s4]) simp
    qed
  qed
qed

section \<open>A round of the display\<close>

context latency_maps
begin

text \<open>Reading the remaining buckets reports what they hold, resetting them leaves 0.\<close>

lemma read_path:
  assumes "user s = Reading i" and "unat i \<le> 24" and "ainv (io_latency_hist (shared s))"
  shows "\<exists>s'. reachable H s s' \<and> user s' = Resetting 0 \<and> shared s' = shared s \<and> cpus s' = cpus s \<and>
    added s' = added s \<and> late s' = late s \<and>
    (\<forall>k. \<not> (i \<le> k \<and> k < histBuckets) \<longrightarrow> reported s' k = reported s k) \<and>
    (\<forall>k v. i \<le> k \<longrightarrow> k < histBuckets \<longrightarrow>
       hist_lookup H (io_latency_hist (shared s)) k = Some v \<longrightarrow> reported s' k = reported s k + v)"
  using assms
proof (induction "24 - unat i" arbitrary: i s)
  case 0
  then have "\<not> i < histBuckets" by (simp add: below_histBuckets)
  then have "cstep H Display s (s\<lparr>user := Resetting 0\<rparr>)" using 0 by (intro user_read_end)
  then have "reachable H s (s\<lparr>user := Resetting 0\<rparr>)" by (rule step [OF start])
  moreover have "\<not> (i \<le> k \<and> k < histBuckets)" for k
    using \<open>\<not> i < histBuckets\<close> by (meson order_le_less_trans)
  ultimately show ?case by (intro exI [of _ "s\<lparr>user := Resetting 0\<rparr>"]) auto
next
  case (Suc n)
  then have i: "i < histBuckets" by (simp add: below_histBuckets)
  obtain v where v: "hist_lookup H (io_latency_hist (shared s)) i = Some v"
    using bucket_array [OF Suc.prems(3) i] by blast
  let ?s1 = "s\<lparr>user := Reading (i + 1), reported := (reported s)(i := reported s i + v)\<rparr>"
  have s1: "reachable H s ?s1"
    using user_read [OF Suc.prems(1) i v] by (rule step [OF start])
  have "n = 24 - unat (i + 1)" "unat (i + 1) \<le> 24"
    using Suc.hyps(2) unat_Suc_below [OF i] by simp_all
  from Suc.hyps(1) [OF this(1) _ this(2), of ?s1] Suc.prems(3)
  obtain s' where s': "reachable H ?s1 s'" "user s' = Resetting 0" "shared s' = shared s"
    "cpus s' = cpus s" "added s' = added s" "late s' = late s"
    "\<forall>k. \<not> (i + 1 \<le> k \<and> k < histBuckets) \<longrightarrow> reported s' k = reported ?s1 k"
    "\<forall>k v. i + 1 \<le> k \<longrightarrow> k < histBuckets \<longrightarrow>
       hist_lookup H (io_latency_hist (shared s)) k = Some v \<longrightarrow> reported s' k = reported ?s1 k + v"
    by auto
  have le: "i \<le> k \<longleftrightarrow> k = i \<or> i + 1 \<le> k" "\<not> i + 1 \<le> i" for k
    using unat_Suc_below [OF i]
    by (auto simp: word_le_nat_alt Suc_le_eq le_less word_unat_eq_iff)
  have "reachable H s s'" using s'(1) s1 by (rule reachable_trans)
  then show ?case using s' v i by (intro exI [of _ s']) (auto simp: le)
qed

lemma reset_path:
  assumes "user s = Resetting i" and "unat i \<le> 24" and "ainv (io_latency_hist (shared s))"
  shows "\<exists>s'. reachable H s s' \<and> user s' = Waiting \<and> cpus s' = cpus s \<and>
    added s' = added s \<and> late s' = late s \<and> reported s' = reported s \<and>
    start_times (shared s') = start_times (shared s) \<and>
    (\<forall>k. i \<le> k \<longrightarrow> k < histBuckets \<longrightarrow>
       hist_lookup H (io_latency_hist (shared s')) k = Some 0) \<and>
    (\<forall>k. k < i \<longrightarrow> hist_lookup H (io_latency_hist (shared s')) k =
       hist_lookup H (io_latency_hist (shared s)) k)"
  using assms
proof (induction "24 - unat i" arbitrary: i s)
  case 0
  then have "\<not> i < histBuckets" by (simp add: below_histBuckets)
  then have "cstep H Display s (s\<lparr>user := Waiting\<rparr>)" using 0 by (intro user_reset_end)
  then have "reachable H s (s\<lparr>user := Waiting\<rparr>)" by (rule step [OF start])
  moreover have "\<not> (i \<le> k \<and> k < histBuckets)" for k
    using \<open>\<not> i < histBuckets\<close> by (meson order_le_less_trans)
  ultimately show ?case by (intro exI [of _ "s\<lparr>user := Waiting\<rparr>"]) auto
next
  case (Suc n)
  then have i: "i < histBuckets" by (simp add: below_histBuckets)
  obtain r a where u: "hist_update H (io_latency_hist (shared s)) i 0 = (r, a)"
    by (rule prod.exhaust)
  have a: "hist_lookup H a = (hist_lookup H (io_latency_hist (shared s)))(i \<mapsto> 0)" "ainv a"
    using hist.lookup_after_update [OF Suc.prems(3) bucket_array [OF Suc.prems(3) i], of 0]
      hist.invar_array_update [OF Suc.prems(3), of i 0] u by simp_all
  let ?s1 = "s\<lparr>user := Resetting (i + 1), shared := (shared s)\<lparr>io_latency_hist := a\<rparr>\<rparr>"
  have s1: "reachable H s ?s1"
    using user_reset [OF Suc.prems(1) i u] by (rule step [OF start])
  have "n = 24 - unat (i + 1)" "unat (i + 1) \<le> 24"
    using Suc.hyps(2) unat_Suc_below [OF i] by simp_all
  from Suc.hyps(1) [OF this(1) _ this(2), of ?s1] a
  obtain s' where s': "reachable H ?s1 s'" "user s' = Waiting" "cpus s' = cpus s"
    "added s' = added s" "late s' = late s" "reported s' = reported s"
    "start_times (shared s') = start_times (shared s)"
    "\<forall>k. i + 1 \<le> k \<longrightarrow> k < histBuckets \<longrightarrow>
       hist_lookup H (io_latency_hist (shared s')) k = Some 0"
    "\<forall>k. k < i + 1 \<longrightarrow> hist_lookup H (io_latency_hist (shared s')) k = hist_lookup H a k"
    by auto
  have le: "i \<le> k \<longleftrightarrow> k = i \<or> i + 1 \<le> k" "k < i + 1 \<longleftrightarrow> k = i \<or> k < i" for k
    using unat_Suc_below [OF i]
    by (auto simp: word_le_nat_alt word_less_nat_alt Suc_le_eq le_less less_Suc_eq word_unat_eq_iff)
  have "reachable H s s'" using s'(1) s1 by (rule reachable_trans)
  then show ?case using s' a by (intro exI [of _ s']) (auto simp: le)
qed

end

section \<open>A sample that no report shows\<close>

lemma initial_hist: "k < histBuckets \<Longrightarrow> hist_lookup kernel_helpers (io_latency_hist initial_maps) k = Some 0"
  by (simp add: kernel_helpers_def array_lookup_def initial_maps_def below_histBuckets
      io_latency_hist_max_entries_def HIST_BUCKETS_def)

lemmas kernel_reachable_invariant =
  kernel_maps.reachable_invariant [OF _ initial_invar initial_hist]

text \<open>
  A request completes after 42 us, between the reading of its bucket 6 and the reset; the next
  round finds the bucket empty.
\<close>

lemma late_sample:
  "\<exists>s. reachable kernel_helpers (cinit initial_maps) s \<and> user s = Waiting \<and>
     added s 6 = 1 \<and> late s 6 = 1 \<and> reported s = (\<lambda>_. 0) \<and>
     (\<forall>k. k < histBuckets \<longrightarrow>
        hist_lookup kernel_helpers (io_latency_hist (shared s)) k = Some 0)"
proof -
  let ?H = kernel_helpers and ?k = "pack_key (dev sample_rq) (sector sample_rq)"
  let ?m1 = "handle ?H (Issue 5000 sample_rq) initial_maps"
  let ?s1 = "(cinit initial_maps)\<lparr>shared := ?m1\<rparr>"
  let ?s2 = "?s1\<lparr>user := Reading 0\<rparr>"
  have r1: "reachable ?H (cinit initial_maps) ?s1"
    using issue_path [of "cinit initial_maps" 0 ?H 5000 sample_rq] by (simp add: cinit_def)
  have "cstep ?H Display ?s1 ?s2" by (rule user_tick) (simp add: cinit_def)
  with r1 have r2: "reachable ?H (cinit initial_maps) ?s2" by (rule step)
  have h1: "io_latency_hist ?m1 = io_latency_hist initial_maps"
    by (simp add: trace_rq_issue_def Let_def split: prod.split)
  have look: "start_lookup ?H (start_times ?m1) ?k = Some 5000"
    by (simp add: trace_rq_issue_def Let_def kernel_helpers_def hash_update_def initial_maps_def
        start_times_max_entries_def)
  have inv: "array_invar io_latency_hist_max_entries (io_latency_hist (shared ?s2))"
    using initial_invar(2) h1 by simp
  obtain s3 where s3: "reachable ?H ?s2 s3" "user s3 = Resetting 0" "shared s3 = ?m1"
    "cpus s3 = cpus ?s2" "added s3 = added ?s2" "late s3 = late ?s2"
    "\<forall>k. \<not> (0 \<le> k \<and> k < histBuckets) \<longrightarrow> reported s3 k = reported ?s2 k"
    "\<forall>k v. 0 \<le> k \<longrightarrow> k < histBuckets \<longrightarrow>
       hist_lookup ?H (io_latency_hist (shared ?s2)) k = Some v \<longrightarrow> reported s3 k = reported ?s2 k + v"
    using kernel_maps.read_path [of ?s2 0, OF _ _ inv] by auto
  have "reported s3 k = 0" for k
    using s3(7,8) h1 initial_hist by (cases "k < histBuckets") (auto simp: cinit_def)
  then have rep: "reported s3 = (\<lambda>_. 0)" by auto
  let ?s4 = "s3\<lparr>shared := handle ?H (Complete 47000 sample_rq) (shared s3),
    added := (added s3)(6 := added s3 6 + 1), late := (late s3)(6 := late s3 6 + 1)\<rparr>"
  have b: "6 = bucket_for (latency_us 5000 47000)"
    by (simp add: latency_us_def bucket_for_def HIST_BUCKETS_def)
  have "reachable ?H s3 ?s4"
    using complete_path [of s3 0 ?H sample_rq 5000 6 47000] s3(2,3,4) look b h1
      initial_hist [of 6]
    by (simp add: cinit_def histBuckets_def)
  moreover have "reachable ?H (cinit initial_maps) s3" using s3(1) r2 by (rule reachable_trans)
  ultimately have r4: "reachable ?H (cinit initial_maps) ?s4" by (rule reachable_trans)
  have "array_invar io_latency_hist_max_entries (io_latency_hist (shared ?s4))"
    using kernel_reachable_invariant [OF r4] by blast
  then obtain s5 where s5: "reachable ?H ?s4 s5" "user s5 = Waiting" "added s5 = added ?s4"
    "late s5 = late ?s4" "reported s5 = reported ?s4"
    "\<forall>k. 0 \<le> k \<longrightarrow> k < histBuckets \<longrightarrow>
       hist_lookup ?H (io_latency_hist (shared s5)) k = Some 0"
    using kernel_maps.reset_path [of ?s4 0] s3(2) by auto
  have "reachable ?H (cinit initial_maps) s5" using s5(1) r4 by (rule reachable_trans)
  then show ?thesis using s5 s3(5,6) rep by (auto simp: cinit_def)
qed

section \<open>Properties\<close>

text \<open>
  C3. However the handlers of all CPUs and the reading and resetting of the display
  interleave, no increment is lost among the CPUs and every sample is accounted for: what was
  added to a bucket is what reports showed, plus what was added between the reading and the
  resetting of the bucket, plus what the histogram still holds. Both maps keep their bounds.
\<close>

theorem every_sample_accounted:
  assumes "reachable kernel_helpers (cinit initial_maps) s" and "i < histBuckets"
  shows "(\<exists>v. hist_lookup kernel_helpers (io_latency_hist (shared s)) i = Some v \<and>
      added s i = reported s i + late s i + (if in_window (user s) i then 0 else v)) \<and>
    length (start_times (shared s)) \<le> 10240 \<and> length (io_latency_hist (shared s)) = 24"
  using kernel_reachable_invariant [OF assms(1)] assms(2)
  by (simp add: accounted_def hash_invar_def array_invar_def start_times_max_entries_def
      io_latency_hist_max_entries_def HIST_BUCKETS_def)

theorem every_sample_accounted_witness:
  "\<exists>s v. reachable kernel_helpers (cinit initial_maps) s \<and> added s 6 = 1 \<and>
     added s 6 = reported s 6 + late s 6 + v"
proof -
  obtain s where s: "reachable kernel_helpers (cinit initial_maps) s" "user s = Waiting"
    "added s 6 = 1" using late_sample by blast
  have "6 < histBuckets" by (simp add: histBuckets_def)
  from every_sample_accounted [OF s(1) this] s(2)
  obtain v where "added s 6 = reported s 6 + late s 6 + v" by auto
  with s show ?thesis by blast
qed

text \<open>
  C20. The accounting is not vacuous: a completion between the reading and the resetting of
  its bucket is erased unseen. In a reachable state with the display idle one sample was added,
  no report ever showed one, and every bucket is 0.
\<close>

theorem sample_lost_between_read_and_reset:
  "\<exists>s. reachable kernel_helpers (cinit initial_maps) s \<and> user s = Waiting \<and>
     added s 6 = 1 \<and> late s 6 = 1 \<and> reported s = (\<lambda>_. 0) \<and>
     io_latency_hist (shared s) = replicate 24 0"
proof -
  obtain s where s: "reachable kernel_helpers (cinit initial_maps) s" "user s = Waiting"
    "added s 6 = 1" "late s 6 = 1" "reported s = (\<lambda>_. 0)"
    and hist: "\<And>k. k < histBuckets \<Longrightarrow>
      hist_lookup kernel_helpers (io_latency_hist (shared s)) k = Some 0"
    using late_sample by blast
  have len: "length (io_latency_hist (shared s)) = 24"
    using kernel_reachable_invariant [OF s(1)]
    by (simp add: array_invar_def io_latency_hist_max_entries_def HIST_BUCKETS_def)
  have "io_latency_hist (shared s) ! i = 0" if "i < 24" for i
    using hist [of "word_of_nat i"] that len
    by (simp add: below_histBuckets unat_of_nat kernel_helpers_def array_lookup_def)
  then have "io_latency_hist (shared s) = replicate 24 0" using len by (simp add: list_eq_iff_nth_eq)
  with s show ?thesis by blast
qed

text \<open>
  The step model contains the sequential one: on any maps every sequence of events,
  handled one at a time, is a run of it that ends in exactly the maps the sequential handlers
  compute.
\<close>

lemma sequential_runs_reachable:
  "\<exists>s. reachable H (cinit m) s \<and> shared s = run_events H es m \<and> cpus s = (\<lambda>_. Idle) \<and>
     user s = Waiting"
proof (induction es rule: rev_induct)
  case Nil
  show ?case by (intro exI [of _ "cinit m"]) (simp add: reachable.start cinit_def run_events_def)
next
  case (snoc e es)
  then obtain s where s: "reachable H (cinit m) s" "shared s = run_events H es m"
    "cpus s = (\<lambda>_. Idle)" "user s = Waiting" by blast
  then obtain s' where "reachable H s s'" "shared s' = handle H e (shared s)" "cpus s' = cpus s"
    "user s' = user s" using handle_path [of s 0 H e] by auto
  then show ?case using s reachable_trans [of H s s' "cinit m"]
    by (intro exI [of _ s']) (simp add: run_events_def)
qed

text \<open>
  C24. The handlers are wait-free: in any run, however the other CPUs and the display interleave
  with it, a handler under way takes no more than four steps of its own before it is done, and
  as long as it is not done it can take one. No loop and no lock makes it wait for the others.
\<close>

theorem handlers_wait_free:
  assumes "\<forall>i<n. cstep H (a i) (r i) (r (Suc i)) \<and> cpus (r i) c \<noteq> Idle"
  shows "card {i. i < n \<and> a i = CPU c} \<le> 4 \<and>
    (cpus (r n) c \<noteq> Idle \<longrightarrow> (\<exists>s'. cstep H (CPU c) (r n) s'))"
  using own_steps_bound [of n H a r c] remaining_le [of "cpus (r 0) c"] cstep_enabled [of "r n" c H]
    assms by auto

text \<open>CPU 0 about to add to bucket 6, while the display starts a round.\<close>

theorem handlers_wait_free_witness:
  "let s = (cinit initial_maps)\<lparr>cpus := (\<lambda>_. Idle)(0 := Counting 6)\<rparr>;
       s' = s\<lparr>user := Reading 0\<rparr>
   in cstep kernel_helpers Display s s' \<and> (\<exists>s''. cstep kernel_helpers (CPU 0) s' s'')"
proof -
  let ?s = "(cinit initial_maps)\<lparr>cpus := (\<lambda>_. Idle)(0 := Counting 6)\<rparr>"
  let ?r = "\<lambda>i. if i = 0 then ?s else ?s\<lparr>user := Reading 0\<rparr>"
  have step: "cstep kernel_helpers Display ?s (?s\<lparr>user := Reading 0\<rparr>)"
    by (rule user_tick) (simp add: cinit_def)
  then have "\<forall>i<1. cstep kernel_helpers Display (?r i) (?r (Suc i)) \<and> cpus (?r i) 0 \<noteq> Idle" by simp
  from handlers_wait_free [OF this] step show ?thesis by (simp add: Let_def)
qed

end
