(* ===== verification/Linearizable.thy ===== *)
theory Linearizable
  imports Concurrent
begin

text \<open>
  The interleaved handlers of \<open>Concurrent\<close> against the abstract monitor of \<open>LatencyMonitor\<close>.
  As long as no two handlers work on the same request key at the same time (the block layer
  issues and completes a request once), every interleaving takes effect as if the handlers had
  run one after the other, in the order of their commit points: the update of the issue
  handler and the deletion of the completion handler. What is measured does not depend on the
  schedule.
\<close>

section \<open>Commit points\<close>

text \<open>The key a handler works on while it depends on the start map.\<close>

fun pc_key :: "handler_pc \<Rightarrow> u64 option" where
  "pc_key (Stamped ctx ts) = Some (rq_key ctx)"
| "pc_key (Found ctx v) = Some (rq_key ctx)"
| "pc_key (Elapsed ctx d) = Some (rq_key ctx)"
| "pc_key _ = None"

definition exclusive :: "('h, 'a) cstate \<Rightarrow> bool" where
  "exclusive s \<longleftrightarrow>
     (\<forall>c d k. pc_key (cpus s c) = Some k \<longrightarrow> pc_key (cpus s d) = Some k \<longrightarrow> c = d)"

text \<open>A step of a CPU that takes effect on the start map.\<close>

fun commits :: "handler_pc \<Rightarrow> handler_pc \<Rightarrow> bool" where
  "commits (Stamped ctx ts) Idle \<longleftrightarrow> True"
| "commits (Elapsed ctx d) (Removed e) \<longleftrightarrow> True"
| "commits _ _ \<longleftrightarrow> False"

text \<open>
  Runs without two handlers on one key, with the events they commit, oldest first. The time of
  a completion is the one its handler read: the start time it found plus the elapsed time.
\<close>

inductive committed ::
  "('h, 'a) bpf_helpers \<Rightarrow> ('h, 'a) cstate \<Rightarrow> rq_event list \<Rightarrow> ('h, 'a) cstate \<Rightarrow> bool"
  for H :: "('h, 'a) bpf_helpers" and s0 :: "('h, 'a) cstate" where
  none: "committed H s0 [] s0"
| quiet: "committed H s0 es s \<Longrightarrow> cstep H a s s' \<Longrightarrow> exclusive s' \<Longrightarrow>
     (\<forall>c. \<not> commits (cpus s c) (cpus s' c)) \<Longrightarrow> committed H s0 es s'"
| issue: "committed H s0 es s \<Longrightarrow> cstep H a s s' \<Longrightarrow> exclusive s' \<Longrightarrow>
     cpus s c = Stamped ctx ts \<Longrightarrow> cpus s' c = Idle \<Longrightarrow>
     committed H s0 (es @ [Issue ts ctx]) s'"
| complete: "committed H s0 es s \<Longrightarrow> cstep H a s s' \<Longrightarrow> exclusive s' \<Longrightarrow>
     cpus s c = Elapsed ctx d \<Longrightarrow> cpus s' c = Removed d \<Longrightarrow>
     start_lookup H (start_times (shared s)) (rq_key ctx) = Some v \<Longrightarrow>
     committed H s0 (es @ [Complete (v + d) ctx]) s'"

section \<open>Samples on their way\<close>

text \<open>The bucket a handler is about to increment, once its completion has committed.\<close>

fun counts_to :: "handler_pc \<Rightarrow> u32 option" where
  "counts_to (Removed d) = Some (bucket_for (d div 1000))"
| "counts_to (Counting b) = Some b"
| "counts_to _ = None"

definition on_the_way :: "(nat \<Rightarrow> handler_pc) \<Rightarrow> u32 \<Rightarrow> nat set" where
  "on_the_way p i = {c. counts_to (p c) = Some i}"

definition active :: "(nat \<Rightarrow> handler_pc) \<Rightarrow> nat set" where
  "active p = {c. p c \<noteq> Idle}"

lemma active_upd: "finite (active p) \<Longrightarrow> finite (active (p(c := q)))"
  by (rule finite_subset [of _ "insert c (active p)"]) (auto simp: active_def)

lemma on_the_way_finite: "finite (active p) \<Longrightarrow> finite (on_the_way p i)"
  by (rule finite_subset [of _ "active p"]) (auto simp: on_the_way_def active_def)

lemma on_the_way_upd:
  "on_the_way (p(c := q)) i =
     (if counts_to q = Some i then insert c (on_the_way p i) else on_the_way p i - {c})"
  by (auto simp: on_the_way_def)

lemma on_the_way_same:
  "counts_to q = counts_to (p c) \<Longrightarrow> on_the_way (p(c := q)) i = on_the_way p i"
  by (auto simp: on_the_way_def)

section \<open>The relation to the monitor\<close>

text \<open>
  The start map is the monitor's table of pending requests, the samples of the monitor are
  those added and those on their way, and a handler past its lookup has the start time of
  the entry that is still there.
\<close>

definition pc_agrees :: "(u64 \<rightharpoonup> u64) \<Rightarrow> handler_pc \<Rightarrow> bool" where
  "pc_agrees pend p \<longleftrightarrow>
     (case p of
        Found ctx v \<Rightarrow> pend (rq_key ctx) = Some v
      | Elapsed ctx d \<Rightarrow> pend (rq_key ctx) \<noteq> None
      | _ \<Rightarrow> True)"

definition linearized :: "('h, 'a) bpf_helpers \<Rightarrow> ('h, 'a) cstate \<Rightarrow> monitor \<Rightarrow> bool" where
  "linearized H s m \<longleftrightarrow>
     finite (active (cpus s)) \<and>
     start_lookup H (start_times (shared s)) = pending m \<and>
     (\<forall>c. pc_agrees (pending m) (cpus s c)) \<and>
     (\<forall>i. added s i + word_of_nat (card (on_the_way (cpus s) i)) =
        word_of_nat (bucket_count i (samples m)))"

lemma pc_agrees_upd:
  "pc_agrees pend p \<Longrightarrow> pc_key p \<noteq> Some k \<Longrightarrow> pc_agrees (pend(k := x)) p"
  by (cases p) (auto simp: pc_agrees_def)

lemma exclusiveD: "exclusive s \<Longrightarrow> pc_key (cpus s c) = Some k \<Longrightarrow> d \<noteq> c \<Longrightarrow> pc_key (cpus s d) \<noteq> Some k"
  by (auto simp: exclusive_def)

text \<open>A step of one CPU that neither commits nor counts.\<close>

lemma linearized_cpu:
  assumes "linearized H s m" and "counts_to q = counts_to (cpus s c)" and "pc_agrees (pending m) q"
  shows "linearized H (s\<lparr>cpus := (cpus s)(c := q)\<rparr>) m"
  using assms by (auto simp: linearized_def active_upd on_the_way_same)

context latency_maps
begin

lemma linearized_issue:
  assumes "linearized H s m" and "exclusive s" and "hinv (start_times (shared s))"
    and "cpus s c = Stamped ctx ts"
    and "start_update H (start_times (shared s)) (rq_key ctx) ts = (r, h)"
  shows "linearized H (s\<lparr>cpus := (cpus s)(c := Idle), shared := (shared s)\<lparr>start_times := h\<rparr>\<rparr>)
    (monitor_step cap (Issue ts ctx) m)"
proof -
  have h: "start_lookup H h =
      (if has_room cap (pending m) (rq_key ctx) then (pending m)(rq_key ctx \<mapsto> ts) else pending m)"
    using start.lookup_update [OF assms(3), of "rq_key ctx" ts] assms(1,5)
    by (simp add: linearized_def)
  have other: "pc_key (cpus s d) \<noteq> Some (rq_key ctx)" if "d \<noteq> c" for d
    using exclusiveD [OF assms(2) _ that] assms(4) by simp
  have "pc_agrees (pending (monitor_step cap (Issue ts ctx) m)) (((cpus s)(c := Idle)) d)" for d
    using assms(1) other [of d] by (auto simp: linearized_def pc_agrees_upd pc_agrees_def [of _ Idle])
  then show ?thesis
    using assms(1,4) h by (auto simp: linearized_def active_upd on_the_way_same)
qed

lemma linearized_complete:
  assumes lin: "linearized H s m" and "exclusive s" and "hinv (start_times (shared s))"
    and pc: "cpus s c = Elapsed ctx d"
    and v: "start_lookup H (start_times (shared s)) (rq_key ctx) = Some v"
    and del: "start_delete H (start_times (shared s)) (rq_key ctx) = (r, h)"
  shows "linearized H (s\<lparr>cpus := (cpus s)(c := Removed d), shared := (shared s)\<lparr>start_times := h\<rparr>\<rparr>)
    (monitor_step cap (Complete (v + d) ctx) m)"
proof -
  let ?b = "bucket_for (d div 1000)" and ?m = "monitor_step cap (Complete (v + d) ctx) m"
  have m: "?m = m\<lparr>pending := (pending m)(rq_key ctx := None), samples := d div 1000 # samples m\<rparr>"
    using lin v by (simp add: linearized_def latency_us_def)
  have h: "start_lookup H h = (pending m)(rq_key ctx := None)"
    using start.delete_entry [OF assms(3), of "rq_key ctx"] del lin by (simp add: linearized_def)
  have "pc_key (cpus s e) \<noteq> Some (rq_key ctx)" if "e \<noteq> c" for e
    using exclusiveD [OF assms(2) _ that] pc by simp
  then have pcs: "pc_agrees (pending ?m) (((cpus s)(c := Removed d)) e)" for e
    using lin unfolding m
    by (auto simp: linearized_def pc_agrees_upd pc_agrees_def [of _ "Removed _"])
  have fin: "finite (on_the_way (cpus s) i)" for i
    using lin by (simp add: linearized_def on_the_way_finite)
  moreover have "c \<notin> on_the_way (cpus s) i" for i using pc by (simp add: on_the_way_def)
  ultimately have "card (on_the_way ((cpus s)(c := Removed d)) i) =
      card (on_the_way (cpus s) i) + (if ?b = i then 1 else 0)" for i
    by (simp add: on_the_way_upd)
  then show ?thesis
    using lin h pcs [unfolded m] unfolding m
    by (simp add: linearized_def active_upd add.assoc [symmetric])
qed

lemma linearized_add:
  assumes lin: "linearized H s m" and pc: "cpus s c = Counting b"
  shows "linearized H (s\<lparr>cpus := (cpus s)(c := Idle),
       shared := (shared s)\<lparr>io_latency_hist := a\<rparr>,
       added := (added s)(b := added s b + 1), late := l\<rparr>) m"
proof -
  have fin: "finite (on_the_way (cpus s) i)" for i
    using lin by (simp add: linearized_def on_the_way_finite)
  have "card (on_the_way ((cpus s)(c := Idle)) i) + (if i = b then 1 else 0) =
      card (on_the_way (cpus s) i)" for i
  proof (cases "i = b")
    case True
    then have "c \<in> on_the_way (cpus s) i" using pc by (simp add: on_the_way_def)
    then show ?thesis using fin [of i] True card_Suc_Diff1 [of "on_the_way (cpus s) i" c]
      by (simp add: on_the_way_upd)
  next
    case False
    then have "c \<notin> on_the_way (cpus s) i" using pc by (simp add: on_the_way_def)
    then show ?thesis using False by (simp add: on_the_way_upd)
  qed
  note step = this [symmetric]
  have "((added s)(b := added s b + 1)) i + word_of_nat (card (on_the_way ((cpus s)(c := Idle)) i)) =
      added s i + word_of_nat (card (on_the_way (cpus s) i))" for i
    unfolding step [of i] by simp
  then show ?thesis
    using lin by (simp add: linearized_def active_upd pc_agrees_def [of _ Idle] del: fun_upd_apply)
      (simp add: pc_agrees_def [of _ Idle])
qed

lemma step_quiet:
  assumes "cstep H a s s'" and "linearized H s m" and "ainv (io_latency_hist (shared s))"
    and "\<forall>c. \<not> commits (cpus s c) (cpus s' c)"
  shows "linearized H s' m"
  using assms
proof (induction rule: cstep.induct)
  case (issue_time s c ctx ts)
  then show ?case by (intro linearized_cpu) (auto simp: pc_agrees_def)
next
  case (issue_update s c ctx ts r h)
  then show ?case by (auto dest: spec [of _ c])
next
  case (complete_lookup s c ctx v)
  then show ?case by (intro linearized_cpu) (auto simp: pc_agrees_def linearized_def rq_key_def)
next
  case (complete_missing s c ctx)
  then show ?case by simp
next
  case (complete_elapsed s c ctx v start ktime)
  then have "pc_agrees (pending m) (Found ctx v)" by (metis linearized_def)
  with complete_elapsed show ?case by (intro linearized_cpu) (auto simp: pc_agrees_def)
next
  case (complete_delete s c ctx d r h)
  then show ?case by (auto dest: spec [of _ c])
next
  case (complete_bucket s c d b)
  then show ?case by (intro linearized_cpu) (auto simp: pc_agrees_def)
next
  case (complete_nobucket s c d)
  then show ?case using bucket_present [of "io_latency_hist (shared s)" "d div 1000"] by simp
next
  case (complete_add s c b)
  then show ?case by (intro linearized_add)
qed (auto simp: linearized_def)

lemma step_issue:
  assumes "cstep H a s s'" and "linearized H s m" and "exclusive s"
    and "hinv (start_times (shared s))"
    and "cpus s c = Stamped ctx ts" and "cpus s' c = Idle"
  shows "linearized H s' (monitor_step cap (Issue ts ctx) m)"
  using assms(1)
proof (cases rule: cstep.cases)
  case (issue_update c' ctx' ts' r h)
  then have "c' = c" using assms(5,6) by (auto split: if_splits)
  then have eq: "ctx' = ctx" "ts' = ts" using issue_update assms(5) by auto
  show ?thesis
    unfolding issue_update(2) using issue_update eq \<open>c' = c\<close> assms(2-5)
    by (intro linearized_issue) (auto simp: rq_key_def)
qed (use assms(5,6) in \<open>auto split: if_splits\<close>)

lemma step_complete:
  assumes "cstep H a s s'" and "linearized H s m" and "exclusive s"
    and "hinv (start_times (shared s))"
    and "cpus s c = Elapsed ctx d" and "cpus s' c = Removed d"
    and "start_lookup H (start_times (shared s)) (rq_key ctx) = Some v"
  shows "linearized H s' (monitor_step cap (Complete (v + d) ctx) m)"
  using assms(1)
proof (cases rule: cstep.cases)
  case (complete_delete c' ctx' d' r h)
  then have "c' = c" using assms(5,6) by (auto split: if_splits)
  then have eq: "ctx' = ctx" "d' = d" using complete_delete assms(5) by auto
  show ?thesis
    unfolding complete_delete(2) eq \<open>c' = c\<close> using complete_delete(4) eq assms(2-7)
    by (intro linearized_complete) (simp_all add: rq_key_def)
qed (use assms(5,6) in \<open>auto split: if_splits\<close>)

end

section \<open>Runs\<close>

lemma committed_reachable: "committed H s0 es s \<Longrightarrow> reachable H s0 s"
  by (induction rule: committed.induct) (auto intro: reachable.intros)

lemma committed_exclusive: "committed H s0 es s \<Longrightarrow> exclusive s0 \<Longrightarrow> exclusive s"
  by (induction rule: committed.induct) auto

lemma cinit_exclusive: "exclusive (cinit m)"
  by (simp add: exclusive_def cinit_def)

lemma monitor_run_snoc: "monitor_run cap (es @ [e]) m = monitor_step cap e (monitor_run cap es m)"
  by (simp add: monitor_run_def)

context latency_maps
begin

text \<open>The maps the run starts from: nothing pending, all buckets 0.\<close>

definition empty_maps :: "('h, 'a) bpf_maps \<Rightarrow> bool" where
  "empty_maps m \<longleftrightarrow> hinv (start_times m) \<and> ainv (io_latency_hist m) \<and>
     start_lookup H (start_times m) = Map.empty \<and>
     (\<forall>i. i < histBuckets \<longrightarrow> hist_lookup H (io_latency_hist m) i = Some 0)"

lemma committed_invar:
  assumes "committed H (cinit m) es s" and "empty_maps m"
  shows "hinv (start_times (shared s)) \<and> ainv (io_latency_hist (shared s)) \<and> accounted H s"
  using reachable_invariant [OF committed_reachable [OF assms(1)]] assms(2)
  by (simp add: empty_maps_def)

lemma committed_linearized:
  assumes "committed H (cinit m) es s" and "empty_maps m"
  shows "linearized H s (monitor_run cap es empty_monitor)"
  using assms(1)
proof (induction rule: committed.induct)
  case none
  show ?case using assms(2)
    by (simp add: linearized_def empty_maps_def cinit_def monitor_run_def empty_monitor_def
        active_def on_the_way_def pc_agrees_def)
next
  case (quiet es s s')
  then show ?case using step_quiet committed_invar [OF quiet(1) assms(2)] by blast
next
  case (issue es s s' c ctx ts)
  then show ?case
    using step_issue committed_invar [OF issue(1) assms(2)]
      committed_exclusive [OF issue(1) cinit_exclusive]
    by (simp add: monitor_run_snoc del: monitor_step.simps)
next
  case (complete es s s' c ctx d v)
  then show ?case
    using step_complete committed_invar [OF complete(1) assms(2)]
      committed_exclusive [OF complete(1) cinit_exclusive]
    by (simp add: monitor_run_snoc del: monitor_step.simps)
qed

lemma committed_extends:
  assumes com: "committed H (cinit m) es s" and "empty_maps m" and step: "cstep H a s s'"
    and "exclusive s'"
  shows "\<exists>es'. committed H (cinit m) (es @ es') s'"
proof (cases "\<exists>c. commits (cpus s c) (cpus s' c)")
  case False
  then show ?thesis using committed.quiet [OF com step assms(4)] by (metis append_Nil2)
next
  case True
  then obtain c where c: "commits (cpus s c) (cpus s' c)" by blast
  have agrees: "pc_agrees (start_lookup H (start_times (shared s))) (cpus s c)"
    using committed_linearized [OF com assms(2)] by (simp add: linearized_def)
  from c consider (i) ctx ts where "cpus s c = Stamped ctx ts" "cpus s' c = Idle"
    | (r) ctx d e where "cpus s c = Elapsed ctx d" "cpus s' c = Removed e"
    by (auto elim: commits.elims)
  then show ?thesis
  proof cases
    case i
    then show ?thesis using committed.issue [OF com step assms(4)] by blast
  next
    case r
    then have "e = d" using step by (elim cstepE) (auto split: if_splits)
    moreover obtain v where "start_lookup H (start_times (shared s)) (rq_key ctx) = Some v"
      using agrees r by (auto simp: pc_agrees_def)
    ultimately show ?thesis using r committed.complete [OF com step assms(4)] by blast
  qed
qed

end

lemma kernel_empty_maps: "kernel_maps.empty_maps initial_maps"
  using initial_invar initial_hist
  by (simp add: kernel_maps.empty_maps_def) (simp add: kernel_helpers_def initial_maps_def)

section \<open>Properties\<close>

text \<open>
  C5. The handlers are linearizable: in every interleaved run in which no two handlers work on
  one key at a time, the start map is the table the abstract monitor reaches with the committed
  events one after the other, and its samples of each bucket are those the reports showed, those
  erased between reading and resetting, those still in the histogram and those of handlers past
  their deletion. Every further step within this condition extends the committed events.
\<close>

theorem handlers_linearizable:
  assumes "committed kernel_helpers (cinit initial_maps) es s" and "i < histBuckets"
  defines "m \<equiv> monitor_run start_times_max_entries es empty_monitor"
  shows "start_lookup kernel_helpers (start_times (shared s)) = pending m \<and>
    (\<exists>v. hist_lookup kernel_helpers (io_latency_hist (shared s)) i = Some v \<and>
       word_of_nat (bucket_count i (samples m)) =
         reported s i + late s i + (if in_window (user s) i then 0 else v) +
         word_of_nat (card (on_the_way (cpus s) i))) \<and>
    (\<forall>a s'. cstep kernel_helpers a s s' \<longrightarrow> exclusive s' \<longrightarrow>
       (\<exists>es'. committed kernel_helpers (cinit initial_maps) (es @ es') s'))"
proof -
  have lin: "linearized kernel_helpers s m"
    unfolding m_def by (rule kernel_maps.committed_linearized [OF assms(1) kernel_empty_maps])
  obtain v where "hist_lookup kernel_helpers (io_latency_hist (shared s)) i = Some v"
    "added s i = reported s i + late s i + (if in_window (user s) i then 0 else v)"
    using kernel_maps.committed_invar [OF assms(1) kernel_empty_maps] assms(2)
    by (auto simp: accounted_def)
  moreover have "added s i + word_of_nat (card (on_the_way (cpus s) i)) =
      word_of_nat (bucket_count i (samples m))"
    using lin by (simp add: linearized_def)
  ultimately show ?thesis
    using lin kernel_maps.committed_extends [OF assms(1) kernel_empty_maps]
    by (auto simp: linearized_def)
qed

theorem handlers_linearizable_witness:
  "\<exists>s. committed kernel_helpers (cinit initial_maps) [Issue 5000 sample_rq] s \<and>
     start_lookup kernel_helpers (start_times (shared s)) =
       pending (monitor_run start_times_max_entries [Issue 5000 sample_rq] empty_monitor)"
proof -
  let ?H = kernel_helpers and ?s0 = "cinit initial_maps"
  let ?s1 = "?s0\<lparr>cpus := (cpus ?s0)(0 := Stamped sample_rq 5000)\<rparr>"
  obtain r h where u: "start_update ?H (start_times (shared ?s1))
      (pack_key (dev sample_rq) (sector sample_rq)) 5000 = (r, h)" by (rule prod.exhaust)
  let ?s2 = "?s1\<lparr>cpus := (cpus ?s1)(0 := Idle), shared := (shared ?s1)\<lparr>start_times := h\<rparr>\<rparr>"
  have "cstep ?H (CPU 0) ?s0 ?s1" by (rule issue_time) (simp add: cinit_def)
  moreover have "exclusive ?s1" by (simp add: exclusive_def cinit_def)
  moreover have "\<forall>c. \<not> commits (cpus ?s0 c) (cpus ?s1 c)" by (simp add: cinit_def)
  ultimately have c1: "committed ?H ?s0 [] ?s1" by (rule committed.quiet [OF committed.none])
  have "cstep ?H (CPU 0) ?s1 ?s2" by (rule issue_update [OF _ u]) simp
  moreover have "exclusive ?s2" by (simp add: exclusive_def cinit_def)
  ultimately have c2: "committed ?H ?s0 ([] @ [Issue 5000 sample_rq]) ?s2"
    by (rule committed.issue [OF c1, where c = 0]) simp_all
  have "0 < histBuckets" by (simp add: histBuckets_def)
  with handlers_linearizable [OF c2] have "start_lookup ?H (start_times (shared ?s2)) =
      pending (monitor_run start_times_max_entries ([] @ [Issue 5000 sample_rq]) empty_monitor)"
    by blast
  with c2 show ?thesis by (intro exI [of _ ?s2]) simp
qed

end
