(* ===== verification/CpuStats.thy ===== *)
theory CpuStats
  imports GoFloat
begin

text \<open>
  The CPU collector, \<open>src/internal/stats/cpu.go\<close>: the jiffy counters of one line of
  \<open>/proc/stat\<close> as the record \<open>CPUTimes\<close>, the parser \<open>ParseCPUTimes\<close> and the busy percentages
  \<open>CPUPercent\<close> of two samples. The counters are 64-bit words, so their differences wrap; the
  percentages are binary64 values.
\<close>

section \<open>Counters\<close>

record CPUTimes =
  Name :: gostring
  User :: u64
  Nice :: u64
  System :: u64
  Idle :: u64
  IOWait :: u64
  IRQ :: u64
  SoftIRQ :: u64
  Steal :: u64
  Guest :: u64
  GuestNice :: u64

definition CPUTimes_named :: "gostring \<Rightarrow> CPUTimes" where
  "CPUTimes_named n = \<lparr>Name = n, User = 0, Nice = 0, System = 0, Idle = 0, IOWait = 0, IRQ = 0,
     SoftIRQ = 0, Steal = 0, Guest = 0, GuestNice = 0\<rparr>"

definition Total :: "CPUTimes \<Rightarrow> u64" where
  "Total c = User c + Nice c + System c + Idle c + IOWait c + IRQ c + SoftIRQ c + Steal c"

definition IdleTotal :: "CPUTimes \<Rightarrow> u64" where
  "IdleTotal c = Idle c + IOWait c"

section \<open>Parsing /proc/stat\<close>

fun parse_vals :: "gostring list \<Rightarrow> 'e stats_error + u64 list" where
  "parse_vals [] = Inr []"
| "parse_vals (fld # flds) =
     (case parse_uint fld of
        Inl err \<Rightarrow> Inl (ParseError fld err)
      | Inr v \<Rightarrow> (case parse_vals flds of Inl err \<Rightarrow> Inl err | Inr vs \<Rightarrow> Inr (v # vs)))"

text \<open>\<open>*assign[i] = v\<close> for the table of pointers to the ten counters.\<close>

definition assign :: "nat \<Rightarrow> u64 \<Rightarrow> CPUTimes \<Rightarrow> CPUTimes" where
  "assign i v ct =
     (if i = 0 then ct\<lparr>User := v\<rparr> else if i = 1 then ct\<lparr>Nice := v\<rparr>
      else if i = 2 then ct\<lparr>System := v\<rparr> else if i = 3 then ct\<lparr>Idle := v\<rparr>
      else if i = 4 then ct\<lparr>IOWait := v\<rparr> else if i = 5 then ct\<lparr>IRQ := v\<rparr>
      else if i = 6 then ct\<lparr>SoftIRQ := v\<rparr> else if i = 7 then ct\<lparr>Steal := v\<rparr>
      else if i = 8 then ct\<lparr>Guest := v\<rparr> else if i = 9 then ct\<lparr>GuestNice := v\<rparr> else ct)"

fun assign_vals :: "nat \<Rightarrow> u64 list \<Rightarrow> CPUTimes \<Rightarrow> CPUTimes" where
  "assign_vals i [] ct = ct"
| "assign_vals i (v # vs) ct = (if i \<ge> 10 then ct else assign_vals (Suc i) vs (assign i v ct))"

text \<open>The body of the scan loop: skip the line, fail, or append an entry.\<close>

definition parse_cpu_line :: "gostring \<Rightarrow> 'e stats_error + CPUTimes option" where
  "parse_cpu_line line =
     (if \<not> has_prefix line ''cpu'' then Inr None
      else (let fields = string_fields line
            in if length fields < 8 then Inr None
               else (case parse_vals (tl fields) of
                       Inl err \<Rightarrow> Inl err
                     | Inr vals \<Rightarrow> Inr (Some (assign_vals 0 vals (CPUTimes_named (hd fields)))))))"

fun parse_cpu_lines :: "gostring list \<Rightarrow> CPUTimes list \<Rightarrow> 'e stats_error + CPUTimes list" where
  "parse_cpu_lines [] result = Inr result"
| "parse_cpu_lines (line # lines) result =
     (case parse_cpu_line line of
        Inl err \<Rightarrow> Inl err
      | Inr None \<Rightarrow> parse_cpu_lines lines result
      | Inr (Some ct) \<Rightarrow> parse_cpu_lines lines (result @ [ct]))"

definition ParseCPUTimes :: "'e reader \<Rightarrow> 'e stats_error + CPUTimes list" where
  "ParseCPUTimes r = (let (lines, err) = scan_lines r in finish_scan err (parse_cpu_lines lines []))"

definition ReadCPUTimes :: "'e open_file \<Rightarrow> 'e stats_error + CPUTimes list" where
  "ReadCPUTimes opn =
     (case opn ''/proc/stat'' of
        Inl err \<Rightarrow> Inl (OpenError ''/proc/stat'' err)
      | Inr f \<Rightarrow> ParseCPUTimes f)"

section \<open>Percentages\<close>

definition prev_by_name :: "CPUTimes list \<Rightarrow> gostring \<rightharpoonup> CPUTimes" where
  "prev_by_name prev = fold (\<lambda>p m. m(Name p \<mapsto> p)) prev Map.empty"

definition cpu_percent :: "CPUTimes \<Rightarrow> CPUTimes \<Rightarrow> f64" where
  "cpu_percent p c =
     (let totalDelta = f_of_u64 (Total c - Total p);
          idleDelta = f_of_u64 (IdleTotal c - IdleTotal p)
      in if f_le totalDelta (Fin 0) then Fin 0
         else (let busy = f_sub totalDelta idleDelta
               in f_mul (f_div busy totalDelta) (Fin 100)))"

definition CPUPercent :: "CPUTimes list \<Rightarrow> CPUTimes list \<Rightarrow> gostring \<rightharpoonup> f64" where
  "CPUPercent prev cur =
     fold (\<lambda>c result. case prev_by_name prev (Name c) of
                        None \<Rightarrow> result
                      | Some p \<Rightarrow> result(Name c \<mapsto> cpu_percent p c)) cur Map.empty"

section \<open>Facts on percentages\<close>

lemma prev_by_name_append:
  "prev_by_name (ps @ [p]) = (prev_by_name ps)(Name p \<mapsto> p)"
  by (simp add: prev_by_name_def)

lemma prev_by_name_Nil [simp]: "prev_by_name [] = Map.empty"
  by (simp add: prev_by_name_def)

lemma prev_by_name_dom: "dom (prev_by_name ps) = Name ` set ps"
  by (induction ps rule: rev_induct) (simp_all add: prev_by_name_append del: fun_upd_apply)

lemma prev_by_name_Some: "prev_by_name ps n = Some p \<Longrightarrow> p \<in> set ps \<and> Name p = n"
  by (induction ps rule: rev_induct) (auto simp: prev_by_name_append split: if_splits)

lemma CPUPercent_append:
  "CPUPercent prev (cs @ [c]) =
     (case prev_by_name prev (Name c) of
        None \<Rightarrow> CPUPercent prev cs
      | Some p \<Rightarrow> (CPUPercent prev cs)(Name c \<mapsto> cpu_percent p c))"
  by (auto simp: CPUPercent_def split: option.split)

lemma CPUPercent_Nil [simp]: "CPUPercent prev [] = Map.empty"
  by (simp add: CPUPercent_def)

lemma CPUPercent_eq:
  "CPUPercent prev cur n =
     (case (prev_by_name prev n, prev_by_name cur n) of
        (Some p, Some c) \<Rightarrow> Some (cpu_percent p c) | _ \<Rightarrow> None)"
proof (induction cur rule: rev_induct)
  case Nil
  then show ?case by (simp split: option.split)
next
  case (snoc c cs)
  then show ?case
    by (auto simp: CPUPercent_append prev_by_name_append split: option.splits)
qed

lemma cpu_percent_bounds:
  assumes "IdleTotal c - IdleTotal p \<le> Total c - Total p"
  shows "\<exists>x. cpu_percent p c = Fin x \<and> 0 \<le> x \<and> x \<le> 100"
proof (cases "Total c - Total p = 0")
  case True
  then show ?thesis by (simp add: cpu_percent_def f_of_u64_zero_iff)
next
  case False
  let ?T = "round64 (of_nat (unat (Total c - Total p)))"
  let ?I = "round64 (of_nat (unat (IdleTotal c - IdleTotal p)))"
  have IT: "?I \<le> ?T" using assms by (intro round64_mono) (simp add: u64_le_nat)
  have I0: "0 \<le> ?I" by (intro round64_nonneg) simp
  have T0: "0 < ?T"
    using False f_of_u64_zero_iff [of "Total c - Total p"] by (simp add: f_of_u64_Fin f_le_def)
  have T64: "?T \<le> 2 ^ 64"
    by (intro round64_of_nat_le_pow64) (use unat_u64_lt [of "Total c - Total p"] in simp)
  have TT: "round64 ?T = ?T" by simp
  have sub: "f_sub (Fin ?T) (Fin ?I) = Fin (round64 (?T - ?I))"
    using IT I0 T64 by (simp add: fl_Fin)
  have "0 \<le> round64 (?T - ?I)" using IT by (intro round64_nonneg) simp
  moreover have "round64 (?T - ?I) \<le> round64 ?T" using I0 by (intro round64_mono) simp
  ultimately show ?thesis
    using percentage_bounds [of "round64 (?T - ?I)" ?T] T0 False TT sub
    by (simp add: cpu_percent_def f_of_u64_zero_iff f_of_u64_Fin Let_def)
qed

section \<open>Facts on the parser\<close>

definition cpu_values :: "CPUTimes \<Rightarrow> u64 list" where
  "cpu_values c = [User c, Nice c, System c, Idle c, IOWait c, IRQ c, SoftIRQ c, Steal c,
     Guest c, GuestNice c]"

text \<open>The line the kernel prints for \<open>c\<close>, with \<open>ns\<close> extra blanks before the columns.\<close>

definition cpu_line :: "nat list \<Rightarrow> CPUTimes \<Rightarrow> gostring" where
  "cpu_line ns c = columns (zip (0 # ns) (Name c # map (itoa \<circ> unat) (cpu_values c)))"

definition cpu_named :: "CPUTimes \<Rightarrow> bool" where
  "cpu_named c \<longleftrightarrow> plain_word (Name c) \<and> has_prefix (Name c) ''cpu''"

lemma parse_vals_itoa: "parse_vals (map (itoa \<circ> unat) vs) = Inr vs"
  by (induction vs) (auto simp: parse_uint_itoa)

lemma assign_cpu_values: "assign_vals 0 (cpu_values c) (CPUTimes_named (Name c)) = c"
  by (simp add: cpu_values_def CPUTimes_named_def assign_def)

lemma fields_cpu_line:
  assumes "cpu_named c" and "length ns = 10"
  shows "string_fields (cpu_line ns c) = Name c # map (itoa \<circ> unat) (cpu_values c)"
proof -
  have "list_all (\<lambda>(n, w). plain_word w)
      (zip (0 # ns) (Name c # map (itoa \<circ> unat) (cpu_values c)))"
    using assms by (auto simp: cpu_named_def list_all_iff plain_word_itoa dest!: set_zip_rightD)
  moreover have "length (0 # ns) = length (Name c # map (itoa \<circ> unat) (cpu_values c))"
    using assms by (simp add: cpu_values_def)
  ultimately show ?thesis unfolding cpu_line_def
    by (subst fields_columns) (simp_all add: map_snd_zip)
qed

lemma cpu_line_prefix:
  assumes "cpu_named c" and "length ns = 10"
  shows "has_prefix (cpu_line ns c) ''cpu''"
proof -
  obtain n ns' where ns: "ns = n # ns'" using assms(2) by (cases ns) auto
  have "\<exists>s. cpu_line ns c = Name c @ s"
    unfolding cpu_line_def ns cpu_values_def by simp
  then show ?thesis using assms(1) by (auto simp: cpu_named_def has_prefix_iff)
qed

lemma parse_cpu_line_line:
  assumes "cpu_named c" and "length ns = 10"
  shows "parse_cpu_line (cpu_line ns c) = Inr (Some c)"
  using fields_cpu_line [OF assms] cpu_line_prefix [OF assms]
  by (simp add: parse_cpu_line_def parse_vals_itoa assign_cpu_values Let_def)
    (simp add: cpu_values_def)

text \<open>A \<open>/proc/stat\<close>: CPU lines among other lines.\<close>

type_synonym stat_item = "(nat list \<times> CPUTimes) + gostring"

fun stat_line :: "stat_item \<Rightarrow> gostring" where
  "stat_line (Inl (ns, c)) = cpu_line ns c"
| "stat_line (Inr l) = l"

fun stat_item_ok :: "stat_item \<Rightarrow> bool" where
  "stat_item_ok (Inl (ns, c)) \<longleftrightarrow> cpu_named c \<and> length ns = 10"
| "stat_item_ok (Inr l) \<longleftrightarrow> \<not> has_prefix l ''cpu''"

fun stat_cpus :: "stat_item list \<Rightarrow> CPUTimes list" where
  "stat_cpus [] = []"
| "stat_cpus (Inl (ns, c) # items) = c # stat_cpus items"
| "stat_cpus (Inr l # items) = stat_cpus items"

lemma parse_cpu_lines_items:
  "list_all stat_item_ok items \<Longrightarrow>
     parse_cpu_lines (map stat_line items) acc = Inr (acc @ stat_cpus items)"
proof (induction items arbitrary: acc rule: stat_cpus.induct)
  case (2 ns c items)
  then show ?case by (simp add: parse_cpu_line_line)
next
  case (3 l items)
  then show ?case by (simp add: parse_cpu_line_def)
qed simp

text \<open>The aggregate lines of the two \<open>/proc/stat\<close> fixtures.\<close>

definition stat_a :: CPUTimes where
  "stat_a = \<lparr>Name = ''cpu'', User = 1000, Nice = 50, System = 300, Idle = 8000, IOWait = 100,
     IRQ = 20, SoftIRQ = 10, Steal = 0, Guest = 0, GuestNice = 0\<rparr>"

definition stat_b :: CPUTimes where
  "stat_b = \<lparr>Name = ''cpu'', User = 1200, Nice = 50, System = 400, Idle = 8200, IOWait = 100,
     IRQ = 30, SoftIRQ = 15, Steal = 0, Guest = 0, GuestNice = 0\<rparr>"

section \<open>Time spent\<close>

text \<open>
  The time of a CPU in jiffies, as numbers: busy in one of six ways, or idle. Guest time is
  contained in user time.
\<close>

definition busy_jiffies :: "CPUTimes \<Rightarrow> nat" where
  "busy_jiffies c =
     unat (User c) + unat (Nice c) + unat (System c) + unat (IRQ c) + unat (SoftIRQ c) + unat (Steal c)"

definition idle_jiffies :: "CPUTimes \<Rightarrow> nat" where
  "idle_jiffies c = unat (Idle c) + unat (IOWait c)"

text \<open>The sum of the counters fits in 64 bits.\<close>

definition jiffies_fit :: "CPUTimes \<Rightarrow> bool" where
  "jiffies_fit c \<longleftrightarrow> busy_jiffies c + idle_jiffies c < 2 ^ 64"

lemma jiffies_fit_totals:
  assumes "jiffies_fit c"
  shows "unat (Total c) = busy_jiffies c + idle_jiffies c" "unat (IdleTotal c) = idle_jiffies c"
  using assms
  by (simp_all add: jiffies_fit_def busy_jiffies_def idle_jiffies_def Total_def IdleTotal_def
      unat_add_u64 mod_simps)

lemma cpu_percent_unless_equal:
  "cpu_percent p c =
     (if Total c = Total p then Fin 0
      else f_mul (f_div (f_sub (f_of_u64 (Total c - Total p)) (f_of_u64 (IdleTotal c - IdleTotal p)))
        (f_of_u64 (Total c - Total p))) (Fin 100))"
  by (simp add: cpu_percent_def f_of_u64_zero_iff Let_def)

lemma cpu_percent_grown:
  assumes fit: "jiffies_fit p" "jiffies_fit c"
    and grown: "busy_jiffies c = busy_jiffies p + b" "idle_jiffies c = idle_jiffies p + i"
  shows "cpu_percent p c =
    (if b + i = 0 then Fin 0
     else f_mul (f_div (f_sub (fl (of_nat (b + i))) (fl (of_nat i))) (fl (of_nat (b + i)))) (Fin 100))"
proof -
  note totals = jiffies_fit_totals [OF fit(1)] jiffies_fit_totals [OF fit(2)]
  have d: "unat (Total c - Total p) = b + i" "unat (IdleTotal c - IdleTotal p) = i"
    using totals grown by (simp_all add: unat_sub_u64)
  have "Total c = Total p \<longleftrightarrow> b + i = 0" using d(1) by (metis right_minus_eq unat_0_iff)
  then show ?thesis by (simp only: cpu_percent_unless_equal f_of_u64_def d)
qed

lemma cpu_percent_grown_range:
  assumes fit: "jiffies_fit p" "jiffies_fit c"
    and grown: "busy_jiffies c = busy_jiffies p + b" "idle_jiffies c = idle_jiffies p + i"
  shows "\<exists>x. cpu_percent p c = Fin x \<and> 0 \<le> x \<and> x \<le> 100 \<and>
    (b + i = 0 \<longrightarrow> x = 0) \<and>
    (0 < b + i \<and> b + i < 2 ^ 53 \<longrightarrow> \<bar>x - 100 * of_nat b / of_nat (b + i)\<bar> \<le> 1 / 2 ^ 45)"
proof (cases "0 < b + i \<and> b + i < 2 ^ 53")
  case True
  have "f_sub (fl (of_nat (b + i))) (fl (of_nat i)) = Fin (of_nat b)" "fl (of_nat (b + i)) = Fin (of_nat (b + i))"
    using True round64_of_nat [of b] round64_of_nat [of i] round64_of_nat [of "b + i"]
      fl_of_nat [of b] fl_of_nat [of i] fl_of_nat [of "b + i"] by simp_all
  then show ?thesis using percentage_accurate [of b "b + i"] True
    by (auto simp: cpu_percent_grown [OF assms])
next
  case False
  have "IdleTotal c - IdleTotal p \<le> Total c - Total p"
    using jiffies_fit_totals [OF fit(1)] jiffies_fit_totals [OF fit(2)] grown
    by (simp add: u64_le_nat unat_sub_u64)
  from cpu_percent_bounds [OF this] False show ?thesis
    by (cases "b + i = 0") (auto simp: cpu_percent_grown [OF assms])
qed

text \<open>Idle counters that go backwards: the difference wraps to almost \<open>2^64\<close>.\<close>

lemma wrapped_percentage:
  assumes t: "0 < t" "t < 2 ^ 32" and w: "2 ^ 63 \<le> w" "w < 2 ^ 64"
  shows "\<exists>x. f_mul (f_div (f_sub (fl (of_nat t)) (fl (of_nat w))) (fl (of_nat t))) (Fin 100) = Fin x \<and>
    x < - (10 ^ 11)"
proof -
  define W where "W = round64 (of_nat w)"
  define B where "B = round64 (of_nat t - W)"
  define R where "R = round64 (B / of_nat t)"
  define X where "X = round64 (R * 100)"
  have pow: "round64 (- (2 ^ k)) = - (2 ^ k)" for k :: nat
    using round64_pow2 [of "int k"] by (simp add: round64_uminus)
  have t': "1 \<le> (of_nat t :: rat)" "of_nat t \<le> (2 ^ 32 :: rat)"
    using t of_nat_mono [of t "2 ^ 32", where 'a = rat] by (simp_all add: Suc_le_eq)
  have W: "2 ^ 63 \<le> W" "W \<le> 2 ^ 64"
  proof -
    have "(2 :: rat) ^ 63 \<le> of_nat w" using of_nat_mono [OF w(1), where 'a = rat] by simp
    from round64_mono [OF this] show "2 ^ 63 \<le> W" using round64_pow2 [of 63] by (simp add: W_def)
  qed (use round64_of_nat_le_pow64 [OF w(2)] in \<open>simp add: W_def\<close>)
  have "of_nat t - W \<le> - (2 ^ 62)" "- (2 ^ 64) \<le> of_nat t - W" using t' W by simp_all
  from round64_mono [OF this(1)] round64_mono [OF this(2)]
  have B: "B \<le> - (2 ^ 62)" "- (2 ^ 64) \<le> B" unfolding pow B_def .
  have "B / of_nat t \<le> - (2 ^ 30)" "- (2 ^ 64) \<le> B / of_nat t"
    using B t' by (simp_all add: divide_le_eq le_divide_eq mult_mono)
  from round64_mono [OF this(1)] round64_mono [OF this(2)]
  have R: "R \<le> - (2 ^ 30)" "- (2 ^ 64) \<le> R" unfolding pow R_def .
  have "round64 (of_int (- (100 * 2 ^ 30))) = of_int (- (100 * 2 ^ 30))" by (rule round64_of_int) simp
  then have X: "X \<le> - (100 * 2 ^ 30)"
    using round64_mono [of "R * 100" "of_int (- (100 * 2 ^ 30))"] R(1) by (simp add: X_def)
  have big: "\<bar>q\<bar> \<le> 2 ^ 1000" if "- (2 ^ 80) \<le> q" "q \<le> 2 ^ 80" for q :: rat
  proof -
    have "\<bar>q\<bar> \<le> 2 ^ 80" using that by (simp add: abs_le_iff)
    also have "(2 :: rat) ^ 80 \<le> 2 ^ 1000" by (intro power_increasing) simp_all
    finally show ?thesis .
  qed
  have "fl (of_nat t) = Fin (of_nat t)" "fl (of_nat w) = Fin W"
    using fl_of_nat [of t] fl_of_nat [OF w(2)] round64_of_nat [of t] t by (simp_all add: W_def)
  moreover have "fl (of_nat t - W) = Fin B" unfolding B_def using t' W by (intro fl_Fin big) simp_all
  moreover have "fl (B / of_nat t) = Fin R" unfolding R_def
    using \<open>B / of_nat t \<le> - (2 ^ 30)\<close> \<open>- (2 ^ 64) \<le> B / of_nat t\<close> by (intro fl_Fin big) simp_all
  moreover have "fl (R * 100) = Fin X" unfolding X_def using R by (intro fl_Fin big) simp_all
  ultimately have "f_mul (f_div (f_sub (fl (of_nat t)) (fl (of_nat w))) (fl (of_nat t))) (Fin 100) = Fin X"
    using t(1) by simp
  then show ?thesis using X by auto
qed

lemma cpu_percent_wrapped:
  assumes fit: "jiffies_fit p" "jiffies_fit c"
    and lost: "idle_jiffies p = idle_jiffies c + d" "0 < d" "d \<le> 2 ^ 63"
    and total: "busy_jiffies c + idle_jiffies c = busy_jiffies p + idle_jiffies p + t" "0 < t" "t < 2 ^ 32"
  shows "\<exists>x. cpu_percent p c = Fin x \<and> x < - (10 ^ 11)"
proof -
  note totals = jiffies_fit_totals [OF fit(1)] jiffies_fit_totals [OF fit(2)]
  have d: "unat (Total c - Total p) = t" "unat (IdleTotal c - IdleTotal p) = 2 ^ 64 - d"
    using totals lost total by (simp_all add: unat_sub_u64)
  have "Total c \<noteq> Total p" using d(1) total(2) by auto
  moreover have "2 ^ 63 \<le> 2 ^ 64 - d" "2 ^ 64 - d < 2 ^ 64" using lost(2,3) by simp_all
  ultimately show ?thesis
    using wrapped_percentage [OF total(2,3), of "2 ^ 64 - d"]
    by (simp only: cpu_percent_unless_equal f_of_u64_def d if_False)
qed

section \<open>Properties\<close>

text \<open>
  C11. When the counters of a CPU have grown by \<open>b\<close> busy and \<open>i\<close> idle jiffies between two samples
  (user, nice, system, interrupt, soft interrupt and stolen time against idle and \<open>iowait\<close>), the
  busy percentage is a finite number between 0 and 100, in floating-point arithmetic with all
  its roundings; it is 0 when no time has passed, and within \<open>2^-45\<close> of \<open>100 b / (b + i)\<close> when
  fewer than \<open>2^53\<close> jiffies have.
\<close>

theorem cpu_percent_in_range:
  assumes "prev_by_name prev n = Some p" and "prev_by_name cur n = Some c"
    and "jiffies_fit p" and "jiffies_fit c"
    and "busy_jiffies c = busy_jiffies p + b" and "idle_jiffies c = idle_jiffies p + i"
  shows "\<exists>x. CPUPercent prev cur n = Some (Fin x) \<and> 0 \<le> x \<and> x \<le> 100 \<and>
    (b + i = 0 \<longrightarrow> x = 0) \<and>
    (0 < b + i \<and> b + i < 2 ^ 53 \<longrightarrow> \<bar>x - 100 * of_nat b / of_nat (b + i)\<bar> \<le> 1 / 2 ^ 45)"
  using cpu_percent_grown_range [OF assms(3-6)] assms(1,2) by (auto simp: CPUPercent_eq)

theorem cpu_percent_in_range_witness:
  "\<exists>x. CPUPercent [stat_a] [stat_b] ''cpu'' = Some (Fin x) \<and> 0 \<le> x \<and> x \<le> 100 \<and>
     \<bar>x - 31500 / 515\<bar> \<le> 1 / 2 ^ 45"
proof -
  have names: "prev_by_name [stat_a] ''cpu'' = Some stat_a"
    "prev_by_name [stat_b] ''cpu'' = Some stat_b"
    by (simp_all add: prev_by_name_def stat_a_def stat_b_def)
  have fit: "jiffies_fit stat_a" "jiffies_fit stat_b"
    by (simp_all add: jiffies_fit_def busy_jiffies_def idle_jiffies_def stat_a_def stat_b_def)
  have "busy_jiffies stat_b = busy_jiffies stat_a + 315" "idle_jiffies stat_b = idle_jiffies stat_a + 200"
    by (simp_all add: busy_jiffies_def idle_jiffies_def stat_a_def stat_b_def)
  from cpu_percent_in_range [OF names fit this] show ?thesis by simp
qed

text \<open>
  \<open>CPUPercent\<close> reports exactly the CPUs that occur in both samples, and 0 for every CPU
  when the two samples are identical.
\<close>

lemma cpu_percent_keys:
  "dom (CPUPercent prev cur) = Name ` set prev \<inter> Name ` set cur \<and>
   CPUPercent ts ts n = (if n \<in> Name ` set ts then Some (Fin 0) else None)"
proof
  show "dom (CPUPercent prev cur) = Name ` set prev \<inter> Name ` set cur"
    unfolding prev_by_name_dom [symmetric]
    by (auto simp: CPUPercent_eq dom_def split: option.splits)
  have "cpu_percent p p = Fin 0" for p by (simp add: cpu_percent_def f_of_u64_zero_iff)
  moreover have "prev_by_name ts n = None \<longleftrightarrow> n \<notin> Name ` set ts"
    by (simp only: prev_by_name_dom [symmetric] domIff not_not)
  ultimately show "CPUPercent ts ts n = (if n \<in> Name ` set ts then Some (Fin 0) else None)"
    by (auto simp: CPUPercent_eq split: option.splits)
qed



text \<open>
  C15. Parsing inverts printing: from a \<open>/proc/stat\<close> whose CPU lines show the ten counters of
  some entries, between lines that do not start with \<open>cpu\<close>, \<open>ParseCPUTimes\<close> returns exactly
  these entries in order, whatever the number of blanks between the columns.
\<close>

theorem ParseCPUTimes_roundtrip:
  assumes "list_all stat_item_ok items" and "list_all clean_line (map stat_line items)"
  shows "ParseCPUTimes \<lparr>content = unlines (map stat_line items), read_error = None\<rparr> =
    Inr (stat_cpus items)"
  using parse_cpu_lines_items [OF assms(1), of "[]"]
  by (simp add: ParseCPUTimes_def scan_lines_unlines [OF assms(2)])

theorem ParseCPUTimes_roundtrip_witness:
  "let items = [Inl ([1, 0, 0, 0, 0, 0, 0, 0, 0, 0], stat_a), Inr ''ctxt 987654'', Inr []]
   in ParseCPUTimes \<lparr>content = unlines (map stat_line items), read_error = None\<rparr> = Inr [stat_a]"
proof -
  let ?items = "[Inl ([1, 0, 0, 0, 0, 0, 0, 0, 0, 0], stat_a), Inr ''ctxt 987654'', Inr []]"
  have ok: "list_all stat_item_ok ?items"
    by (simp add: cpu_named_def stat_a_def has_prefix_def plain_word_def plain_def white_space_def)
  have "list_all clean_line (map stat_line ?items)"
    by (simp add: cpu_line_def cpu_values_def stat_a_def itoa.simps clean_line_def
        max_scan_token_def char_of_def)
  from ParseCPUTimes_roundtrip [OF ok this] show ?thesis by simp
qed

end
