(* ===== verification/MemStats.thy ===== *)
theory MemStats
  imports GoFloat
begin

text \<open>
  The memory collector, \<open>src/internal/stats/mem.go\<close>: the record \<open>MemInfo\<close>, the derived
  figures and the parser \<open>ParseMemInfo\<close> with its fall-back for kernels without
  \<open>MemAvailable\<close>. \<open>targets\<close> of the code, a map from key to a pointer into the record, is the
  function \<open>mem_set\<close> that updates the field of a key.
\<close>

section \<open>The record and its figures\<close>

record MemInfo =
  TotalKB :: u64
  FreeKB :: u64
  AvailableKB :: u64
  BuffersKB :: u64
  CachedKB :: u64
  SwapTotalKB :: u64
  SwapFreeKB :: u64

definition MemInfo_zero :: MemInfo where
  "MemInfo_zero = \<lparr>TotalKB = 0, FreeKB = 0, AvailableKB = 0, BuffersKB = 0, CachedKB = 0,
     SwapTotalKB = 0, SwapFreeKB = 0\<rparr>"

definition UsedKB :: "MemInfo \<Rightarrow> u64" where
  "UsedKB m = (if AvailableKB m > TotalKB m then 0 else TotalKB m - AvailableKB m)"

definition mem_UsedPercent :: "MemInfo \<Rightarrow> f64" where
  "mem_UsedPercent m =
     (if TotalKB m = 0 then Fin 0
      else f_mul (f_div (f_of_u64 (UsedKB m)) (f_of_u64 (TotalKB m))) (Fin 100))"

definition SwapUsedKB :: "MemInfo \<Rightarrow> u64" where
  "SwapUsedKB m = (if SwapFreeKB m > SwapTotalKB m then 0 else SwapTotalKB m - SwapFreeKB m)"

section \<open>Parsing /proc/meminfo\<close>

definition mem_set :: "gostring \<Rightarrow> (u64 \<Rightarrow> MemInfo \<Rightarrow> MemInfo) option" where
  "mem_set key =
     (if key = ''MemTotal'' then Some (\<lambda>v m. m\<lparr>TotalKB := v\<rparr>)
      else if key = ''MemFree'' then Some (\<lambda>v m. m\<lparr>FreeKB := v\<rparr>)
      else if key = ''MemAvailable'' then Some (\<lambda>v m. m\<lparr>AvailableKB := v\<rparr>)
      else if key = ''Buffers'' then Some (\<lambda>v m. m\<lparr>BuffersKB := v\<rparr>)
      else if key = ''Cached'' then Some (\<lambda>v m. m\<lparr>CachedKB := v\<rparr>)
      else if key = ''SwapTotal'' then Some (\<lambda>v m. m\<lparr>SwapTotalKB := v\<rparr>)
      else if key = ''SwapFree'' then Some (\<lambda>v m. m\<lparr>SwapFreeKB := v\<rparr>)
      else None)"

text \<open>The number of a line: what follows the colon, without blanks and the unit.\<close>

definition mem_value :: "gostring \<Rightarrow> num_error + u64" where
  "mem_value rest =
     (let valuePart = trim_space rest;
          valuePart = trim_suffix valuePart '' kB'';
          valuePart = trim_space valuePart
      in parse_uint valuePart)"

definition parse_mem_line :: "gostring \<Rightarrow> MemInfo \<Rightarrow> 'e stats_error + MemInfo" where
  "parse_mem_line line mi =
     (case index_byte line (CHR '':'') of
        None \<Rightarrow> Inr mi
      | Some colon \<Rightarrow>
          (case mem_set (take colon line) of
             None \<Rightarrow> Inr mi
           | Some target \<Rightarrow>
               (case mem_value (drop (colon + 1) line) of
                  Inl err \<Rightarrow> Inl (ParseError line err)
                | Inr v \<Rightarrow> Inr (target v mi))))"

fun parse_mem_lines :: "gostring list \<Rightarrow> MemInfo \<Rightarrow> 'e stats_error + MemInfo" where
  "parse_mem_lines [] mi = Inr mi"
| "parse_mem_lines (line # lines) mi =
     (case parse_mem_line line mi of Inl err \<Rightarrow> Inl err | Inr mi \<Rightarrow> parse_mem_lines lines mi)"

text \<open>Kernels before 3.14 do not report \<open>MemAvailable\<close>.\<close>

definition mem_fallback :: "MemInfo \<Rightarrow> MemInfo" where
  "mem_fallback mi =
     (if AvailableKB mi = 0 then mi\<lparr>AvailableKB := FreeKB mi + BuffersKB mi + CachedKB mi\<rparr> else mi)"

definition ParseMemInfo :: "'e reader \<Rightarrow> 'e stats_error + MemInfo" where
  "ParseMemInfo r =
     (let (lines, err) = scan_lines r
      in case finish_scan err (parse_mem_lines lines MemInfo_zero) of
           Inl e \<Rightarrow> Inl e
         | Inr mi \<Rightarrow> Inr (mem_fallback mi))"

definition ReadMemInfo :: "'e open_file \<Rightarrow> 'e stats_error + MemInfo" where
  "ReadMemInfo opn =
     (case opn ''/proc/meminfo'' of
        Inl err \<Rightarrow> Inl (OpenError ''/proc/meminfo'' err)
      | Inr f \<Rightarrow> ParseMemInfo f)"

section \<open>Facts\<close>

lemma mem_value_kB:
  "mem_value (replicate k (CHR '' '') @ itoa (unat v) @ '' kB'') = Inr v"
proof -
  have "plain_end (CHR ''B'')" by (simp add: plain_end_def white_space_def)
  then have "trim_space (replicate k (CHR '' '') @ itoa (unat v) @ '' kB'') = itoa (unat v) @ '' kB''"
    using itoa_digits [of "unat v"] by (intro trim_space_core) (auto simp: itoa_ends)
  moreover have "trim_space (itoa (unat v)) = itoa (unat v)"
    using trim_space_itoa [of 0] by simp
  ultimately show ?thesis by (simp add: mem_value_def Let_def parse_uint_itoa)
qed

text \<open>A line as the kernel prints it: key, colon, blanks, number, unit.\<close>

type_synonym mem_item = "gostring \<times> nat \<times> u64"

definition mem_line :: "mem_item \<Rightarrow> gostring" where
  "mem_line = (\<lambda>(k, n, v). k @ '':'' @ replicate n (CHR '' '') @ itoa (unat v) @ '' kB'')"

definition mem_apply :: "mem_item \<Rightarrow> MemInfo \<Rightarrow> MemInfo" where
  "mem_apply = (\<lambda>(k, n, v) m. case mem_set k of None \<Rightarrow> m | Some f \<Rightarrow> f v m)"

lemma parse_mem_line_line:
  assumes "CHR '':'' \<notin> set k"
  shows "parse_mem_line (mem_line (k, n, v)) m = Inr (mem_apply (k, n, v) m)"
  using index_byte_append [OF assms] mem_value_kB [of n v]
  by (simp add: parse_mem_line_def mem_line_def mem_apply_def split: option.split)

lemma parse_mem_lines_items:
  "list_all (\<lambda>(k, n, v). CHR '':'' \<notin> set k) items \<Longrightarrow>
     parse_mem_lines (map mem_line items) m = Inr (fold mem_apply items m)"
  by (induction items arbitrary: m) (auto simp: parse_mem_line_line)

lemma parse_mem_lines_append:
  "parse_mem_lines (xs @ ys) m =
     (case parse_mem_lines xs m of Inl e \<Rightarrow> Inl e | Inr m' \<Rightarrow> parse_mem_lines ys m')"
  by (induction xs arbitrary: m) (auto split: sum.split)

lemma UsedKB_le: "UsedKB m \<le> TotalKB m"
  by (auto simp: UsedKB_def u64_le_nat u64_less_nat unat_sub_u64)

lemma SwapUsedKB_le: "SwapUsedKB m \<le> SwapTotalKB m"
  by (auto simp: SwapUsedKB_def u64_le_nat u64_less_nat unat_sub_u64)

section \<open>Properties\<close>

text \<open>
  C30. The used figures never wrap: they are the differences of the totals and the available
  (or free swap) memory, and 0 where the latter is larger; the percentage is a finite number
  between 0 and 100.
\<close>

theorem mem_used_bounds:
  "unat (UsedKB m) = unat (TotalKB m) - unat (AvailableKB m) \<and>
   unat (SwapUsedKB m) = unat (SwapTotalKB m) - unat (SwapFreeKB m) \<and>
   (\<exists>x. mem_UsedPercent m = Fin x \<and> 0 \<le> x \<and> x \<le> 100)"
  using u64_ratio_percent_bounds [OF UsedKB_le, of m]
  by (auto simp: UsedKB_def SwapUsedKB_def mem_UsedPercent_def u64_less_nat unat_sub_u64)

text \<open>What a file says of a key: the number on the last line that has it, 0 if there is none.\<close>

fun value_in :: "gostring \<Rightarrow> mem_item list \<Rightarrow> u64" where
  "value_in key [] = 0"
| "value_in key ((k, n, v) # items) =
     (if k = key \<and> key \<notin> fst ` set items then v else value_in key items)"

lemma value_in_absent: "key \<notin> fst ` set items \<Longrightarrow> value_in key items = 0"
  by (induction items) auto

lemma value_in_snoc: "value_in key (items @ [(k, n, v)]) = (if k = key then v else value_in key items)"
  by (induction items) (auto simp: value_in_absent)

lemma fold_mem_apply:
  "fold mem_apply items MemInfo_zero =
     \<lparr>TotalKB = value_in ''MemTotal'' items, FreeKB = value_in ''MemFree'' items,
      AvailableKB = value_in ''MemAvailable'' items, BuffersKB = value_in ''Buffers'' items,
      CachedKB = value_in ''Cached'' items, SwapTotalKB = value_in ''SwapTotal'' items,
      SwapFreeKB = value_in ''SwapFree'' items\<rparr>"
proof (induction items rule: rev_induct)
  case (snoc item items)
  obtain k n v where "item = (k, n, v)" by (rule prod_cases3)
  with snoc show ?case by (simp add: value_in_snoc mem_apply_def mem_set_def)
qed (simp add: MemInfo_zero_def)

text \<open>
  C26. From a \<open>/proc/meminfo\<close> of \<open>key: value kB\<close> lines in any order, known or unknown keys,
  \<open>ParseMemInfo\<close> returns the values of \<open>MemTotal\<close>, \<open>MemFree\<close>, \<open>MemAvailable\<close>, \<open>Buffers\<close>,
  \<open>Cached\<close>, \<open>SwapTotal\<close> and \<open>SwapFree\<close> (the last one where a key repeats, 0 where it is missing),
  with the sum of free memory, buffers and cache as the available memory where none is given.
\<close>

theorem ParseMemInfo_lines:
  assumes "list_all (\<lambda>(k, n, v). CHR '':'' \<notin> set k) items"
    and "list_all clean_line (map mem_line items)"
  shows "ParseMemInfo \<lparr>content = unlines (map mem_line items), read_error = None\<rparr> =
    Inr \<lparr>TotalKB = value_in ''MemTotal'' items,
         FreeKB = value_in ''MemFree'' items,
         AvailableKB =
           (if value_in ''MemAvailable'' items \<noteq> 0 then value_in ''MemAvailable'' items
            else value_in ''MemFree'' items + value_in ''Buffers'' items + value_in ''Cached'' items),
         BuffersKB = value_in ''Buffers'' items,
         CachedKB = value_in ''Cached'' items,
         SwapTotalKB = value_in ''SwapTotal'' items,
         SwapFreeKB = value_in ''SwapFree'' items\<rparr>"
  by (simp add: ParseMemInfo_def scan_lines_unlines [OF assms(2)]
      parse_mem_lines_items [OF assms(1)] fold_mem_apply mem_fallback_def)

definition old_kernel_meminfo :: "mem_item list" where
  "old_kernel_meminfo =
     [(''MemTotal'', 8, 8192000), (''MemFree'', 9, 1000000), (''Buffers'', 10, 200000),
      (''Cached'', 11, 2000000), (''SwapTotal'', 7, 2048000), (''SwapFree'', 8, 2048000)]"

theorem ParseMemInfo_lines_witness:
  "ParseMemInfo \<lparr>content = unlines (map mem_line old_kernel_meminfo), read_error = None\<rparr> =
     Inr \<lparr>TotalKB = 8192000, FreeKB = 1000000, AvailableKB = 3200000, BuffersKB = 200000,
          CachedKB = 2000000, SwapTotalKB = 2048000, SwapFreeKB = 2048000\<rparr>"
proof -
  have keys: "list_all (\<lambda>(k, n, v). CHR '':'' \<notin> set k) old_kernel_meminfo"
    by (simp add: old_kernel_meminfo_def)
  have "list_all clean_line (map mem_line old_kernel_meminfo)"
    by (simp add: old_kernel_meminfo_def mem_line_def clean_line_def itoa.simps char_of_def
        max_scan_token_def)
  from ParseMemInfo_lines [OF keys this] show ?thesis
    by (simp add: old_kernel_meminfo_def)
qed

text \<open>
  A malformed number on a line with a known key is never dropped silently: parsing stops
  with an error that names the line.
\<close>

lemma ParseMemInfo_malformed:
  fixes before :: "gostring list"
  assumes "(parse_mem_lines before MemInfo_zero :: 'e stats_error + MemInfo) = Inr mi"
    and "index_byte line (CHR '':'') = Some i" and "mem_set (take i line) \<noteq> None"
    and "mem_value (drop (i + 1) line) = Inl err"
  shows "(parse_mem_lines (before @ line # after) MemInfo_zero :: 'e stats_error + MemInfo) =
    Inl (ParseError line err)"
  using assms by (auto simp: parse_mem_lines_append parse_mem_line_def)

lemma ParseMemInfo_malformed_witness:
  "parse_mem_lines ([] @ ''MemTotal: not_a_number kB'' # []) MemInfo_zero =
     Inl (ParseError ''MemTotal: not_a_number kB'' ErrSyntax)"
  by (rule ParseMemInfo_malformed [where i = 8])
    (simp_all add: mem_set_def mem_value_def trim_space_def trim_suffix_def has_suffix_def
      ws_len_def rev_ws_len_def white_space_def has_prefix_def parse_uint_def is_digit_of_char)

text \<open>
  The fall-back is keyed on the value, not on the presence of the line: a kernel that
  does report \<open>MemAvailable: 0 kB\<close> is shown \<open>MemFree + Buffers + Cached\<close> as available.
\<close>

lemma mem_fallback_overrides_zero:
  "let m = fold mem_apply [(''MemTotal'', 1, 8192000), (''MemFree'', 1, 1000000),
             (''MemAvailable'', 1, 0), (''Cached'', 1, 2000000)] MemInfo_zero
   in AvailableKB m = 0 \<and> AvailableKB (mem_fallback m) = 3000000"
  by (simp add: mem_apply_def mem_set_def MemInfo_zero_def mem_fallback_def Let_def)

end
