(* ===== verification/DiskStats.thy ===== *)
theory DiskStats
  imports GoFloat "HOL-Library.More_List"
begin

text \<open>
  The disk collectors, \<open>src/internal/stats/disk.go\<close>: the I/O counters of \<open>/proc/diskstats\<close>
  (\<open>ParseDiskIO\<close> with the device filter \<open>isWholeDisk\<close>) and the capacity of a file system
  (\<open>ReadDiskUsage\<close> on the result of the \<open>statfs\<close> system call, which is a parameter).
\<close>

section \<open>I/O counters\<close>

record DiskIO =
  Device :: gostring
  ReadSectors :: u64
  WriteSectors :: u64
  ReadOps :: u64
  WriteOps :: u64

definition ReadBytes :: "DiskIO \<Rightarrow> u64" where
  "ReadBytes d = ReadSectors d * 512"

definition WriteBytes :: "DiskIO \<Rightarrow> u64" where
  "WriteBytes d = WriteSectors d * 512"

definition isWholeDisk :: "gostring \<Rightarrow> bool" where
  "isWholeDisk name =
     (if has_prefix name ''loop'' \<or> has_prefix name ''ram'' \<or> has_prefix name ''dm-'' \<or>
         has_prefix name ''sr''
      then False
      else if has_prefix name ''nvme'' then \<not> contains name ''p''
      else if has_prefix name ''sd'' \<or> has_prefix name ''vd'' \<or> has_prefix name ''xvd''
      then (let last_byte = last name
            in last_byte < CHR ''0'' \<or> last_byte > CHR ''9'')
      else True)"

text \<open>The body of the scan loop; \<open>None\<close> is \<open>continue\<close>.\<close>

definition parse_disk_line :: "gostring \<Rightarrow> DiskIO option" where
  "parse_disk_line line =
     (let fields = string_fields line
      in if length fields < 14 then None
         else (let name = fields ! 2
               in if \<not> isWholeDisk name then None
                  else (case (parse_uint (fields ! 3), parse_uint (fields ! 5),
                              parse_uint (fields ! 7), parse_uint (fields ! 9)) of
                          (Inr readOps, Inr readSectors, Inr writeOps, Inr writeSectors) \<Rightarrow>
                            Some \<lparr>Device = name, ReadSectors = readSectors,
                              WriteSectors = writeSectors, ReadOps = readOps,
                              WriteOps = writeOps\<rparr>
                        | _ \<Rightarrow> None)))"

fun parse_disk_lines :: "gostring list \<Rightarrow> DiskIO list \<Rightarrow> DiskIO list" where
  "parse_disk_lines [] result = result"
| "parse_disk_lines (line # lines) result =
     (case parse_disk_line line of
        None \<Rightarrow> parse_disk_lines lines result
      | Some d \<Rightarrow> parse_disk_lines lines (result @ [d]))"

definition ParseDiskIO :: "'e reader \<Rightarrow> 'e stats_error + DiskIO list" where
  "ParseDiskIO r =
     (let (lines, err) = scan_lines r in finish_scan err (Inr (parse_disk_lines lines [])))"

definition ReadDiskIO :: "'e open_file \<Rightarrow> 'e stats_error + DiskIO list" where
  "ReadDiskIO opn =
     (case opn ''/proc/diskstats'' of
        Inl err \<Rightarrow> Inl (OpenError ''/proc/diskstats'' err)
      | Inr f \<Rightarrow> ParseDiskIO f)"

section \<open>Capacity\<close>

record DiskUsage =
  Path :: gostring
  TotalBytes :: u64
  FreeBytes :: u64

definition UsedBytes :: "DiskUsage \<Rightarrow> u64" where
  "UsedBytes d = (if FreeBytes d > TotalBytes d then 0 else TotalBytes d - FreeBytes d)"

definition disk_UsedPercent :: "DiskUsage \<Rightarrow> f64" where
  "disk_UsedPercent d =
     (if TotalBytes d = 0 then Fin 0
      else f_mul (f_div (f_of_u64 (UsedBytes d)) (f_of_u64 (TotalBytes d))) (Fin 100))"

text \<open>The members of \<open>syscall.Statfs_t\<close> that are used; \<open>Bsize\<close> is signed and is converted.\<close>

record Statfs_t =
  Bsize :: "64 word"
  Blocks :: u64
  Bavail :: u64

definition ReadDiskUsage ::
  "(gostring \<Rightarrow> 'e + Statfs_t) \<Rightarrow> gostring \<Rightarrow> 'e stats_error + DiskUsage" where
  "ReadDiskUsage statfs path =
     (case statfs path of
        Inl err \<Rightarrow> Inl (StatfsError path err)
      | Inr stat \<Rightarrow>
          (let blockSize = Bsize stat
           in Inr \<lparr>Path = path, TotalBytes = Blocks stat * blockSize,
                   FreeBytes = Bavail stat * blockSize\<rparr>))"

section \<open>Facts\<close>

lemma parse_disk_lines_eq:
  "parse_disk_lines lines acc = acc @ List.map_filter parse_disk_line lines"
  by (induction lines arbitrary: acc) (auto simp: List.map_filter_simps split: option.split)

lemma parse_disk_line_whole: "parse_disk_line line = Some d \<Longrightarrow> isWholeDisk (Device d)"
  by (auto simp: parse_disk_line_def Let_def split: if_splits sum.splits)

lemma UsedBytes_le: "UsedBytes d \<le> TotalBytes d"
  by (auto simp: UsedBytes_def u64_le_nat u64_less_nat unat_sub_u64)

lemma isWholeDisk_lettered:
  assumes "has_prefix d ''sd'' \<or> has_prefix d ''vd'' \<or> has_prefix d ''xvd''"
  shows "isWholeDisk d \<longleftrightarrow> \<not> is_digit (last d)"
proof -
  obtain t where "d = ''sd'' @ t \<or> d = ''vd'' @ t \<or> d = ''xvd'' @ t"
    using assms by (auto simp: has_prefix_iff)
  then have "isWholeDisk d \<longleftrightarrow> last d < CHR ''0'' \<or> last d > CHR ''9''"
    by (elim disjE) (simp_all only: isWholeDisk_def Let_def, simp_all add: has_prefix_def)
  then show ?thesis by (auto simp: is_digit_def)
qed

lemma isWholeDisk_nvme:
  assumes "has_prefix n ''nvme''"
  shows "isWholeDisk n \<longleftrightarrow> CHR ''p'' \<notin> set n"
proof -
  have p: "contains s ''p'' \<longleftrightarrow> CHR ''p'' \<in> set s" for s
    by (induction s) (auto simp: has_prefix_def)
  obtain t where "n = ''nvme'' @ t" using assms by (auto simp: has_prefix_iff)
  then have "isWholeDisk n \<longleftrightarrow> \<not> contains n ''p''"
    by (simp only: isWholeDisk_def) (simp add: has_prefix_def)
  then show ?thesis by (simp only: p)
qed

text \<open>A line of \<open>/proc/diskstats\<close> for \<open>d\<close>; \<open>xs\<close> are the columns the parser ignores.\<close>

definition disk_columns :: "DiskIO \<Rightarrow> nat list \<Rightarrow> gostring list" where
  "disk_columns d xs =
     [itoa (xs ! 0), itoa (xs ! 1), Device d, itoa (unat (ReadOps d)), itoa (xs ! 2),
      itoa (unat (ReadSectors d)), itoa (xs ! 3), itoa (unat (WriteOps d)), itoa (xs ! 4),
      itoa (unat (WriteSectors d)), itoa (xs ! 5)] @ map itoa (drop 6 xs)"

definition disk_line :: "nat list \<Rightarrow> nat list \<Rightarrow> DiskIO \<Rightarrow> gostring" where
  "disk_line ns xs d = columns (zip ns (disk_columns d xs))"

lemma parse_disk_line_line:
  assumes "plain_word (Device d)" and "9 \<le> length xs" and "length ns = 5 + length xs"
  shows "parse_disk_line (disk_line ns xs d) = (if isWholeDisk (Device d) then Some d else None)"
proof -
  have len: "length ns = length (disk_columns d xs)"
    using assms by (simp add: disk_columns_def)
  have "list_all (\<lambda>(n, w). plain_word w) (zip ns (disk_columns d xs))"
    using assms(1) by (auto simp: list_all_iff disk_columns_def plain_word_itoa dest!: set_zip_rightD)
  then have f: "string_fields (disk_line ns xs d) = disk_columns d xs"
    unfolding disk_line_def using len by (subst fields_columns) (simp_all add: map_snd_zip)
  have l: "\<not> length (disk_columns d xs) < 14" using assms(2) by (simp add: disk_columns_def)
  have "disk_columns d xs ! 2 = Device d" "disk_columns d xs ! 3 = itoa (unat (ReadOps d))"
    "disk_columns d xs ! 5 = itoa (unat (ReadSectors d))"
    "disk_columns d xs ! 7 = itoa (unat (WriteOps d))"
    "disk_columns d xs ! 9 = itoa (unat (WriteSectors d))"
    by (simp_all add: disk_columns_def)
  then show ?thesis using l by (simp add: parse_disk_line_def f Let_def parse_uint_itoa)
qed

section \<open>Names of block devices\<close>

text \<open>
  The names the kernel gives: disks of the SCSI, virtio and Xen drivers by letters, their
  partitions with a number behind, NVMe disks by controller and name space, their partitions
  with a number behind \<open>p\<close>, and numbered loop, RAM, mapped and optical devices.
\<close>

datatype lettered = SD | VD | XVD

datatype numbered = LoopDev | RamDev | MappedDev | OpticalDev

datatype block_device =
    Disk lettered gostring
  | Partition lettered gostring nat
  | NvmeDisk nat nat
  | NvmePartition nat nat nat
  | Numbered numbered nat

fun lettered_name :: "lettered \<Rightarrow> gostring" where
  "lettered_name SD = ''sd''"
| "lettered_name VD = ''vd''"
| "lettered_name XVD = ''xvd''"

fun numbered_name :: "numbered \<Rightarrow> gostring" where
  "numbered_name LoopDev = ''loop''"
| "numbered_name RamDev = ''ram''"
| "numbered_name MappedDev = ''dm-''"
| "numbered_name OpticalDev = ''sr''"

fun device_name :: "block_device \<Rightarrow> gostring" where
  "device_name (Disk d ls) = lettered_name d @ ls"
| "device_name (Partition d ls n) = lettered_name d @ ls @ itoa n"
| "device_name (NvmeDisk c n) = ''nvme'' @ itoa c @ ''n'' @ itoa n"
| "device_name (NvmePartition c n p) = ''nvme'' @ itoa c @ ''n'' @ itoa n @ ''p'' @ itoa p"
| "device_name (Numbered d n) = numbered_name d @ itoa n"

definition lower_case :: "char \<Rightarrow> bool" where
  "lower_case c \<longleftrightarrow> CHR ''a'' \<le> c \<and> c \<le> CHR ''z''"

fun device_ok :: "block_device \<Rightarrow> bool" where
  "device_ok (Disk d ls) \<longleftrightarrow> ls \<noteq> [] \<and> list_all lower_case ls"
| "device_ok (Partition d ls n) \<longleftrightarrow> ls \<noteq> [] \<and> list_all lower_case ls"
| "device_ok _ \<longleftrightarrow> True"

fun whole_disk :: "block_device \<Rightarrow> bool" where
  "whole_disk (Disk d ls) \<longleftrightarrow> True"
| "whole_disk (NvmeDisk c n) \<longleftrightarrow> True"
| "whole_disk _ \<longleftrightarrow> False"

lemma lettered_prefix:
  "has_prefix (lettered_name d @ s) ''sd'' \<or> has_prefix (lettered_name d @ s) ''vd'' \<or>
   has_prefix (lettered_name d @ s) ''xvd''"
  by (cases d) (simp_all add: has_prefix_def)

lemma lower_case_not_digit: "lower_case c \<Longrightarrow> \<not> is_digit c"
  by (auto simp: lower_case_def is_digit_def less_eq_char_def)

lemma last_itoa: "is_digit (last (s @ itoa n))"
  using itoa_digits [of n] by (auto simp: list_all_iff)

lemma itoa_no_letter: "\<not> is_digit c \<Longrightarrow> c \<notin> set (itoa n)"
  using itoa_digits [of n] by (auto simp: list_all_iff)

lemma isWholeDisk_device:
  assumes "device_ok d"
  shows "isWholeDisk (device_name d) \<longleftrightarrow> whole_disk d"
proof (cases d)
  case (Disk l ls)
  then have "lower_case (last ls)" using assms by (auto simp: list_all_iff)
  then show ?thesis using Disk assms isWholeDisk_lettered [OF lettered_prefix, of l ls]
    by (auto dest: lower_case_not_digit)
next
  case (Partition l ls n)
  then show ?thesis
    using isWholeDisk_lettered [OF lettered_prefix, of l "ls @ itoa n"]
      last_itoa [of "lettered_name l @ ls" n] by simp
next
  case (NvmeDisk c n)
  have "has_prefix (device_name d) ''nvme''" using NvmeDisk by (simp add: has_prefix_def)
  from isWholeDisk_nvme [OF this] show ?thesis
    using NvmeDisk itoa_no_letter [of "CHR ''p''"] by (simp add: is_digit_def)
next
  case (NvmePartition c n p)
  have "has_prefix (device_name d) ''nvme''" using NvmePartition by (simp add: has_prefix_def)
  from isWholeDisk_nvme [OF this] show ?thesis using NvmePartition by simp
next
  case (Numbered l n)
  then show ?thesis by (cases l) (simp_all add: isWholeDisk_def has_prefix_def)
qed

lemma plain_device_name:
  assumes "device_ok d"
  shows "plain_word (device_name d)"
proof -
  have letters: "list_all plain ''abcdefghijklmnopqrstuvwxyz-''" by code_simp
  have lower: "plain c" if "lower_case c" for c
  proof -
    have "of_char c \<in> {97..122 :: nat}" using that by (auto simp: lower_case_def less_eq_char_def)
    then have "char_of (of_char c :: nat) \<in> char_of ` set [97..<123 :: nat]"
      by (intro imageI) (unfold set_upt, auto)
    then have "c \<in> set (map char_of [97..<123 :: nat])" by simp
    moreover have "list_all plain (map char_of [97..<123 :: nat])" by code_simp
    ultimately show ?thesis by (auto simp: list_all_iff)
  qed
  have l: "list_all plain (lettered_name l)" "lettered_name l \<noteq> []" for l
    using letters by (cases l; simp)+
  have n: "list_all plain (numbered_name l)" for l using letters by (cases l; simp)
  have i: "list_all plain (itoa n)" "itoa n \<noteq> []" for n
    using plain_word_itoa [of n] by (auto simp: plain_word_def)
  show ?thesis using assms letters l n i lower
    by (cases d) (auto simp: plain_word_def list_all_iff)
qed

text \<open>
  A line of the file: blanks, the columns that are ignored, the device, and the operations and
  sectors read and written.
\<close>

type_synonym disk_item = "nat list \<times> nat list \<times> block_device \<times> DiskIO"

fun disk_item_ok :: "disk_item \<Rightarrow> bool" where
  "disk_item_ok (ns, xs, b, d) \<longleftrightarrow>
     device_ok b \<and> Device d = device_name b \<and> 9 \<le> length xs \<and> length ns = 5 + length xs"

fun disk_item_line :: "disk_item \<Rightarrow> gostring" where
  "disk_item_line (ns, xs, b, d) = disk_line ns xs d"

lemma parse_disk_items:
  "list_all disk_item_ok items \<Longrightarrow>
     List.map_filter parse_disk_line (map disk_item_line items) =
     [d. (ns, xs, b, d) \<leftarrow> items, whole_disk b]"
proof (induction items)
  case (Cons item items)
  obtain ns xs b d where "item = (ns, xs, b, d)" by (rule prod_cases4)
  then show ?case using Cons plain_device_name [of b]
    by (simp add: List.map_filter_simps parse_disk_line_line isWholeDisk_device)
qed (simp add: List.map_filter_simps)

section \<open>Properties\<close>

text \<open>
  The contents of \<open>/proc/diskstats\<close> never make \<open>ParseDiskIO\<close> fail: malformed lines are
  skipped one by one, only the scanner can report an error, and every device returned passes
  the whole-disk filter.
\<close>

lemma ParseDiskIO_total:
  "ParseDiskIO r =
     (case snd (scan_lines r) of
        Some e \<Rightarrow> Inl (ScanFailed e)
      | None \<Rightarrow> Inr (List.map_filter parse_disk_line (fst (scan_lines r)))) \<and>
   list_all (\<lambda>d. isWholeDisk (Device d)) (List.map_filter parse_disk_line lines)"
proof
  show "list_all (\<lambda>d. isWholeDisk (Device d)) (List.map_filter parse_disk_line lines)"
    by (auto simp: list_all_iff List.map_filter_def parse_disk_line_whole)
qed (simp add: ParseDiskIO_def finish_scan_def parse_disk_lines_eq split: prod.split option.split)

text \<open>
  C28. From a \<open>/proc/diskstats\<close> with a line for each of some devices, \<open>ParseDiskIO\<close> returns the
  counters of exactly the whole disks, in order: partitions, loop, RAM, mapped and optical
  devices are left out, whatever their numbers and letters. Columns 4, 6, 8 and 10 are the
  operations and sectors read and written; the other columns, any further ones and the number of
  blanks do not matter.
\<close>

theorem ParseDiskIO_whole_disks:
  assumes "list_all disk_item_ok items" and "list_all clean_line (map disk_item_line items)"
  shows "ParseDiskIO \<lparr>content = unlines (map disk_item_line items), read_error = None\<rparr> =
    Inr [d. (ns, xs, b, d) \<leftarrow> items, whole_disk b]"
  by (simp add: ParseDiskIO_def scan_lines_unlines [OF assms(2)] parse_disk_lines_eq
      parse_disk_items [OF assms(1)])

text \<open>
  A well-formed line of 14 or more columns is read back exactly when its device is a
  whole disk: columns 4, 6, 8 and 10 are the operations and sectors read and written.
\<close>

lemma parse_disk_line_roundtrip:
  assumes "plain_word (Device d)" and "9 \<le> length xs" and "length ns = 5 + length xs"
  shows "parse_disk_line (disk_line ns xs d) = (if isWholeDisk (Device d) then Some d else None)"
  using assms by (rule parse_disk_line_line)

definition sample_disk :: DiskIO where
  "sample_disk = \<lparr>Device = ''sda'', ReadSectors = 50000, WriteSectors = 20000, ReadOps = 1000,
     WriteOps = 500\<rparr>"

lemma parse_disk_line_roundtrip_witness:
  "parse_disk_line (disk_line [3, 7, 0, 0, 0, 0, 0, 0, 0, 0, 0, 0, 0, 0]
     [8, 0, 200, 3000, 100, 2000, 0, 4000, 5000] sample_disk) = Some sample_disk"
  by (subst parse_disk_line_roundtrip)
    (simp_all add: sample_disk_def plain_word_def plain_def white_space_def isWholeDisk_def
      has_prefix_def)

text \<open>A disk and its first partition.\<close>

theorem ParseDiskIO_whole_disks_witness:
  "let ns = [3, 7, 0, 0, 0, 0, 0, 0, 0, 0, 0, 0, 0, 0]; xs = [8, 0, 0, 0, 0, 0, 0, 0, 0];
       items = [(ns, xs, Disk SD ''a'', sample_disk),
                (ns, xs, Partition SD ''a'' 1, sample_disk\<lparr>Device := ''sda1''\<rparr>)]
   in ParseDiskIO \<lparr>content = unlines (map disk_item_line items), read_error = None\<rparr> =
        Inr [sample_disk]"
proof -
  define ns where "ns = [3, 7, 0, 0, 0, 0, 0, 0, 0, 0, 0, 0, 0, 0 :: nat]"
  define xs where "xs = [8, 0, 0, 0, 0, 0, 0, 0, 0 :: nat]"
  define items where "items = [(ns, xs, Disk SD ''a'', sample_disk),
    (ns, xs, Partition SD ''a'' 1, sample_disk\<lparr>Device := ''sda1''\<rparr>)]"
  have a: "list_all disk_item_ok items"
    by (simp add: items_def ns_def xs_def sample_disk_def lower_case_def itoa.simps char_of_def
        less_eq_char_def bit_Suc_0_iff)
  have b: "list_all clean_line (map disk_item_line items)"
    unfolding items_def ns_def xs_def sample_disk_def
    by (simp add: disk_line_def disk_columns_def clean_line_def itoa.simps char_of_def
        max_scan_token_def)
  from ParseDiskIO_whole_disks [OF a b]
  have "ParseDiskIO \<lparr>content = unlines (map disk_item_line items), read_error = None\<rparr> =
      Inr [sample_disk]"
    by (simp add: items_def)
  then show ?thesis unfolding Let_def items_def ns_def xs_def .
qed

text \<open>
  For the SCSI, virtio and Xen families a disk name ending in a letter is a whole disk and
  every name that extends it by a partition number is not; an NVMe name without a \<open>p\<close> is a
  whole disk and its partitions are not.
\<close>

lemma isWholeDisk_families:
  assumes "has_prefix d ''sd'' \<or> has_prefix d ''vd'' \<or> has_prefix d ''xvd''"
    and "\<not> is_digit (last d)"
    and "has_prefix n ''nvme''" and "CHR ''p'' \<notin> set n"
  shows "isWholeDisk d \<and> \<not> isWholeDisk (d @ itoa k) \<and>
    isWholeDisk n \<and> \<not> isWholeDisk (n @ ''p'' @ itoa k)"
proof -
  have "has_prefix (d @ itoa k) ''sd'' \<or> has_prefix (d @ itoa k) ''vd'' \<or>
      has_prefix (d @ itoa k) ''xvd''"
    using assms(1) by (auto simp: has_prefix_iff)
  moreover have "is_digit (last (d @ itoa k))"
    using itoa_digits [of k] by (simp add: list_all_iff)
  moreover have "has_prefix (n @ ''p'' @ itoa k) ''nvme''"
    using assms(3) by (auto simp: has_prefix_iff)
  ultimately show ?thesis
    using assms by (simp add: isWholeDisk_lettered isWholeDisk_nvme)
qed

text \<open>
  Outside these families the filter lets everything through: partitions of MMC cards, of
  the \<open>hd\<close> and of the \<open>nbd\<close> disks, compressed RAM disks and software RAID nodes all pass as
  whole disks, so their I/O is counted besides that of their parent devices.
\<close>

lemma isWholeDisk_passes_partitions:
  "isWholeDisk ''mmcblk0'' \<and> isWholeDisk ''mmcblk0p1'' \<and> isWholeDisk ''hda1'' \<and>
   isWholeDisk ''nbd0p1'' \<and> isWholeDisk ''zram0'' \<and> isWholeDisk ''md0''"
  by (simp add: isWholeDisk_def has_prefix_def)

text \<open>
  C34. The capacity figures: the byte counts are the block counts times the block size
  whenever these products fit 64 bits, used space is what is not available (0 if the
  available space exceeds the total), and the percentage is finite and between 0 and 100.
\<close>

theorem disk_usage_figures:
  assumes "statfs path = Inr st"
    and "unat (Blocks st) * unat (Bsize st) < 2 ^ 64"
    and "unat (Bavail st) * unat (Bsize st) < 2 ^ 64"
    and "ReadDiskUsage statfs path = Inr d"
  shows "unat (TotalBytes d) = unat (Blocks st) * unat (Bsize st) \<and>
    unat (UsedBytes d) = unat (Blocks st) * unat (Bsize st) - unat (Bavail st) * unat (Bsize st) \<and>
    (\<exists>x. disk_UsedPercent d = Fin x \<and> 0 \<le> x \<and> x \<le> 100)"
proof -
  have d: "TotalBytes d = Blocks st * Bsize st" "FreeBytes d = Bavail st * Bsize st"
    using assms(1,4) by (auto simp: ReadDiskUsage_def Let_def)
  have nat: "unat (TotalBytes d) = unat (Blocks st) * unat (Bsize st)"
    "unat (FreeBytes d) = unat (Bavail st) * unat (Bsize st)"
    using assms(2,3) by (simp_all add: d unat_mult_u64)
  show ?thesis
    using u64_ratio_percent_bounds [OF UsedBytes_le, of d] nat
    by (auto simp: UsedBytes_def disk_UsedPercent_def u64_less_nat unat_sub_u64)
qed

theorem disk_usage_figures_witness:
  "\<exists>d. ReadDiskUsage (\<lambda>_. Inr \<lparr>Bsize = 4096, Blocks = 1000, Bavail = 400\<rparr> :: unit + Statfs_t)
       ''/'' = Inr d \<and> unat (UsedBytes d) = 2457600"
proof -
  let ?f = "\<lambda>_. Inr \<lparr>Bsize = 4096, Blocks = 1000, Bavail = 400\<rparr> :: unit + Statfs_t"
  obtain d where d: "ReadDiskUsage ?f ''/'' = Inr d" by (simp add: ReadDiskUsage_def)
  have "unat (UsedBytes d) = 2457600"
    using disk_usage_figures [OF refl _ _ d] by simp
  with d show ?thesis by blast
qed

end
