(* ===== verification/NetStats.thy ===== *)
theory NetStats
  imports GoFloat
begin

text \<open>
  The network collector, \<open>src/internal/stats/net.go\<close>: the counters of \<open>/proc/net/dev\<close>
  (\<open>ParseNetIO\<close>) and the rates between two samples (\<open>ComputeNetThroughput\<close>), with the guard
  that reports 0 for a counter that went backwards. The elapsed seconds are a binary64 value.
\<close>

section \<open>Counters\<close>

record NetIO =
  Interface :: gostring
  RxBytes :: u64
  RxPackets :: u64
  TxBytes :: u64
  TxPackets :: u64

text \<open>The body of the scan loop after the two header lines; \<open>None\<close> is \<open>continue\<close>.\<close>

definition parse_net_line :: "gostring \<Rightarrow> NetIO option" where
  "parse_net_line line =
     (case index_byte line (CHR '':'') of
        None \<Rightarrow> None
      | Some colon \<Rightarrow>
          (let iface = trim_space (take colon line);
               fields = string_fields (drop (colon + 1) line)
           in if length fields < 10 then None
              else (case (parse_uint (fields ! 0), parse_uint (fields ! 1),
                          parse_uint (fields ! 8), parse_uint (fields ! 9)) of
                      (Inr rxBytes, Inr rxPackets, Inr txBytes, Inr txPackets) \<Rightarrow>
                        Some \<lparr>Interface = iface, RxBytes = rxBytes, RxPackets = rxPackets,
                          TxBytes = txBytes, TxPackets = txPackets\<rparr>
                    | _ \<Rightarrow> None)))"

fun parse_net_lines :: "nat \<Rightarrow> gostring list \<Rightarrow> NetIO list \<Rightarrow> NetIO list" where
  "parse_net_lines lineNum [] result = result"
| "parse_net_lines lineNum (line # lines) result =
     (let lineNum = lineNum + 1
      in if lineNum \<le> 2 then parse_net_lines lineNum lines result
         else (case parse_net_line line of
                 None \<Rightarrow> parse_net_lines lineNum lines result
               | Some n \<Rightarrow> parse_net_lines lineNum lines (result @ [n])))"

definition ParseNetIO :: "'e reader \<Rightarrow> 'e stats_error + NetIO list" where
  "ParseNetIO r =
     (let (lines, err) = scan_lines r in finish_scan err (Inr (parse_net_lines 0 lines [])))"

definition ReadNetIO :: "'e open_file \<Rightarrow> 'e stats_error + NetIO list" where
  "ReadNetIO opn =
     (case opn ''/proc/net/dev'' of
        Inl err \<Rightarrow> Inl (OpenError ''/proc/net/dev'' err)
      | Inr f \<Rightarrow> ParseNetIO f)"

section \<open>Rates\<close>

record NetThroughput =
  RxBps :: f64
  TxBps :: f64

definition net_prev_by_name :: "NetIO list \<Rightarrow> gostring \<rightharpoonup> NetIO" where
  "net_prev_by_name prev = fold (\<lambda>p m. m(Interface p \<mapsto> p)) prev Map.empty"

text \<open>The difference of two readings of a counter, 0 if it went backwards.\<close>

definition counter_delta :: "u64 \<Rightarrow> u64 \<Rightarrow> u64" where
  "counter_delta p c = (if c \<ge> p then c - p else 0)"

definition net_rate :: "f64 \<Rightarrow> NetIO \<Rightarrow> NetIO \<Rightarrow> NetThroughput" where
  "net_rate elapsedSeconds p c =
     \<lparr>RxBps = f_div (f_of_u64 (counter_delta (RxBytes p) (RxBytes c))) elapsedSeconds,
      TxBps = f_div (f_of_u64 (counter_delta (TxBytes p) (TxBytes c))) elapsedSeconds\<rparr>"

definition ComputeNetThroughput ::
  "NetIO list \<Rightarrow> NetIO list \<Rightarrow> f64 \<Rightarrow> gostring \<rightharpoonup> NetThroughput" where
  "ComputeNetThroughput prev cur elapsedSeconds =
     (if f_le elapsedSeconds (Fin 0) then Map.empty
      else fold (\<lambda>c result. case net_prev_by_name prev (Interface c) of
                              None \<Rightarrow> result
                            | Some p \<Rightarrow> result(Interface c \<mapsto> net_rate elapsedSeconds p c))
             cur Map.empty)"

section \<open>Facts\<close>

lemma net_prev_by_name_append:
  "net_prev_by_name (ps @ [p]) = (net_prev_by_name ps)(Interface p \<mapsto> p)"
  by (simp add: net_prev_by_name_def)

lemma net_prev_by_name_Nil [simp]: "net_prev_by_name [] = Map.empty"
  by (simp add: net_prev_by_name_def)

lemma net_prev_by_name_dom: "dom (net_prev_by_name ps) = Interface ` set ps"
  by (induction ps rule: rev_induct) (simp_all add: net_prev_by_name_append del: fun_upd_apply)

lemma net_throughput_eq:
  "ComputeNetThroughput prev cur s n =
     (if f_le s (Fin 0) then None
      else case (net_prev_by_name prev n, net_prev_by_name cur n) of
             (Some p, Some c) \<Rightarrow> Some (net_rate s p c) | _ \<Rightarrow> None)"
proof (induction cur rule: rev_induct)
  case Nil
  then show ?case by (simp add: ComputeNetThroughput_def split: option.split)
next
  case (snoc c cs)
  then show ?case
    by (auto simp: ComputeNetThroughput_def net_prev_by_name_append split: option.splits)
qed

lemma counter_delta_nat: "unat (counter_delta p c) = unat c - unat p"
  by (auto simp: counter_delta_def u64_le_nat unat_sub_u64)

text \<open>A rate is finite, not negative and, for at least a second, at most \<open>2^64\<close>.\<close>

lemma rate_bounds:
  assumes "1 \<le> s"
  shows "\<exists>x. f_div (f_of_u64 d) (Fin s) = Fin x \<and> 0 \<le> x \<and> x \<le> 2 ^ 64"
proof -
  let ?d = "round64 (of_nat (unat d))"
  have d: "0 \<le> ?d" "?d \<le> 2 ^ 64"
    by (rule round64_nonneg, simp, rule round64_of_nat_le_pow64) (use unat_u64_lt [of d] in simp)
  have "?d / s \<le> ?d / 1" using assms d by (intro divide_left_mono) auto
  then have q: "0 \<le> ?d / s" "?d / s \<le> 2 ^ 64" using d assms by auto
  have "\<bar>?d / s\<bar> \<le> 2 ^ 64" using q by (simp only: abs_of_nonneg)
  also have "(2 :: rat) ^ 64 \<le> 2 ^ 1000" by simp
  finally have "fl (?d / s) = Fin (round64 (?d / s))" by (rule fl_Fin)
  moreover have "0 \<le> round64 (?d / s)" using q(1) by (rule round64_nonneg)
  moreover have "round64 (?d / s) \<le> 2 powi 64" using q by (intro round64_le_pow2) simp_all
  ultimately show ?thesis using assms by (auto simp: f_of_u64_Fin)
qed

lemma parse_net_lines_eq:
  "2 \<le> n \<Longrightarrow> parse_net_lines n lines acc = acc @ List.map_filter parse_net_line lines"
  by (induction lines arbitrary: n acc) (auto simp: List.map_filter_simps Let_def split: option.split)

text \<open>
  A line of \<open>/proc/net/dev\<close>: blanks, name, colon and 16 columns, of which \<open>xs\<close> are the twelve
  the parser ignores; \<open>ns\<close> are the extra blanks.
\<close>

definition net_columns :: "NetIO \<Rightarrow> nat list \<Rightarrow> gostring list" where
  "net_columns c xs =
     [itoa (unat (RxBytes c)), itoa (unat (RxPackets c))] @ map itoa (take 6 xs) @
     [itoa (unat (TxBytes c)), itoa (unat (TxPackets c))] @ map itoa (drop 6 xs)"

definition net_line :: "nat \<Rightarrow> nat list \<Rightarrow> nat list \<Rightarrow> NetIO \<Rightarrow> gostring" where
  "net_line k ns xs c =
     replicate k (CHR '' '') @ Interface c @ '':'' @ columns (zip ns (net_columns c xs))"

definition iface_ok :: "gostring \<Rightarrow> bool" where
  "iface_ok n \<longleftrightarrow> n \<noteq> [] \<and> plain (hd n) \<and> plain_end (last n) \<and> CHR '':'' \<notin> set n"

lemma parse_net_line_line:
  assumes n: "iface_ok (Interface c)" and x: "length xs = 12" and b: "length ns = 16"
  shows "parse_net_line (net_line k ns xs c) = Some c"
proof -
  let ?cols = "columns (zip ns (net_columns c xs))"
  let ?pre = "replicate k (CHR '' '') @ Interface c"
  have line: "net_line k ns xs c = ?pre @ CHR '':'' # ?cols" by (simp add: net_line_def)
  have colon: "index_byte (net_line k ns xs c) (CHR '':'') = Some (length ?pre)"
    unfolding line using n by (intro index_byte_append) (auto simp: iface_ok_def)
  have name: "trim_space (take (length ?pre) (net_line k ns xs c)) = Interface c"
    unfolding line using n by (simp add: iface_ok_def trim_space_core)
  have len: "length ns = length (net_columns c xs)" using x b by (simp add: net_columns_def)
  have "list_all (\<lambda>(n, w). plain_word w) (zip ns (net_columns c xs))"
    by (auto simp: list_all_iff net_columns_def plain_word_itoa dest!: set_zip_rightD)
  then have f: "string_fields (drop (length ?pre + 1) (net_line k ns xs c)) = net_columns c xs"
    unfolding line using len by (simp add: fields_columns map_snd_zip)
  have "net_columns c xs ! 0 = itoa (unat (RxBytes c))"
    "net_columns c xs ! 1 = itoa (unat (RxPackets c))"
    "net_columns c xs ! 8 = itoa (unat (TxBytes c))"
    "net_columns c xs ! 9 = itoa (unat (TxPackets c))" "\<not> length (net_columns c xs) < 10"
    using x by (simp_all add: net_columns_def nth_append)
  then show ?thesis
    unfolding parse_net_line_def colon option.case Let_def name f by (simp add: parse_uint_itoa)
qed

section \<open>Properties\<close>

text \<open>The last entry of a sample for an interface.\<close>

definition latest :: "gostring \<Rightarrow> NetIO list \<Rightarrow> NetIO option" where
  "latest n xs = (case filter (\<lambda>x. Interface x = n) xs of [] \<Rightarrow> None | ys \<Rightarrow> Some (last ys))"

lemma net_prev_by_name_latest: "net_prev_by_name xs n = latest n xs"
  by (induction xs rule: rev_induct)
    (auto simp: net_prev_by_name_append latest_def split: list.splits)


definition eth0_at :: "u64 \<Rightarrow> u64 \<Rightarrow> NetIO" where
  "eth0_at rx tx = \<lparr>Interface = ''eth0'', RxBytes = rx, RxPackets = 0, TxBytes = tx,
     TxPackets = 0\<rparr>"


text \<open>
  A counter reset or wrap never produces a spurious rate: the counted difference is the
  truncated one, so a reading below the previous one gives 0, and without elapsed time
  the result is empty.
\<close>

lemma net_counter_guard:
  "unat (counter_delta p c) = unat c - unat p \<and>
   ComputeNetThroughput prev cur (Fin 0) = Map.empty \<and>
   ComputeNetThroughput [eth0_at 9999 9999] [eth0_at 100 100] (Fin 1) ''eth0'' =
     Some \<lparr>RxBps = Fin 0, TxBps = Fin 0\<rparr>"
proof (intro conjI)
  show "ComputeNetThroughput prev cur (Fin 0) = Map.empty"
    by (simp add: ComputeNetThroughput_def f_le_def)
  have n: "net_prev_by_name [eth0_at a b] ''eth0'' = Some (eth0_at a b)" for a b
    by (simp add: net_prev_by_name_def eth0_at_def)
  show "ComputeNetThroughput [eth0_at 9999 9999] [eth0_at 100 100] (Fin 1) ''eth0'' =
     Some \<lparr>RxBps = Fin 0, TxBps = Fin 0\<rparr>"
    by (simp add: net_throughput_eq n f_le_def)
      (simp add: net_rate_def eth0_at_def counter_delta_def f_of_u64_Fin fl_Fin)
qed (rule counter_delta_nat)

text \<open>
  C27. Parsing inverts printing: after any two header lines, \<open>ParseNetIO\<close> returns exactly the
  interfaces printed, with their four counters, in order.
\<close>

theorem ParseNetIO_roundtrip:
  assumes "list_all (\<lambda>(k, ns, xs, c). iface_ok (Interface c) \<and> length xs = 12 \<and> length ns = 16) items"
    and "list_all clean_line ([h1, h2] @ map (\<lambda>(k, ns, xs, c). net_line k ns xs c) items)"
  shows "ParseNetIO \<lparr>content = unlines ([h1, h2] @ map (\<lambda>(k, ns, xs, c). net_line k ns xs c) items),
      read_error = None\<rparr> = Inr (map (\<lambda>(k, ns, xs, c). c) items)"
proof -
  have "List.map_filter parse_net_line (map (\<lambda>(k, ns, xs, c). net_line k ns xs c) items) =
      map (\<lambda>(k, ns, xs, c). c) items"
    using assms(1)
    by (induction items) (auto simp: List.map_filter_simps parse_net_line_line)
  then show ?thesis
    by (simp add: ParseNetIO_def scan_lines_unlines [OF assms(2), simplified] parse_net_lines_eq
        Let_def)
qed

theorem ParseNetIO_roundtrip_witness:
  "ParseNetIO \<lparr>content = unlines ([''Inter-'', '' face''] @
       map (\<lambda>(k, ns, xs, c). net_line k ns xs c)
         [(2, [3, 2, 1, 0, 0, 0, 0, 0, 3, 2, 1, 0, 0, 0, 0, 0], [0, 0, 0, 0, 0, 0, 0, 0, 0, 0, 0, 0],
           eth0_at 5000000 2000000)]),
     read_error = None\<rparr> = Inr [eth0_at 5000000 2000000]"
proof -
  let ?ns = "[3, 2, 1, 0, 0, 0, 0, 0, 3, 2, 1, 0, 0, 0, 0, 0] :: nat list"
  let ?xs = "[0, 0, 0, 0, 0, 0, 0, 0, 0, 0, 0, 0] :: nat list"
  have "iface_ok (Interface (eth0_at 5000000 2000000))" by code_simp
  then have ok: "list_all (\<lambda>(k, ns, xs, c). iface_ok (Interface c) \<and> length xs = 12 \<and> length ns = 16)
      [(2 :: nat, ?ns, ?xs, eth0_at 5000000 2000000)]" by simp
  have digits: "itoa 5000000 = ''5000000''" "itoa 2000000 = ''2000000''" "itoa 0 = ''0''"
    by (simp_all add: itoa.simps char_of_def bit_0)
  have blanks: "replicate 2 b = [b, b]" "replicate 3 b = [b, b, b]" for b :: char
    by (simp_all add: numeral_eq_Suc)
  have line: "net_line 2 ?ns ?xs (eth0_at 5000000 2000000) = ''  eth0:   5000000   0  0 0 0 0 0 0'' @
      ''    2000000   0  0 0 0 0 0 0''"
    by (simp add: net_line_def net_columns_def eth0_at_def digits blanks)
  have "clean_line (net_line 2 ?ns ?xs (eth0_at 5000000 2000000))"
    unfolding line by (simp add: clean_line_def max_scan_token_def)
  then have "list_all clean_line ([''Inter-'', '' face''] @
      map (\<lambda>(k, ns, xs, c). net_line k ns xs c) [(2, ?ns, ?xs, eth0_at 5000000 2000000)])"
    by (simp add: clean_line_def max_scan_token_def)
  from ParseNetIO_roundtrip [OF ok this] show ?thesis by simp
qed

end
