(* ===== verification/Render.thy ===== *)
theory Render
  imports CpuStats MemStats DiskStats NetStats HistogramAccess "HOL-Library.Monad_Syntax"
    "HOL-Library.Multiset"
begin

text \<open>
  The display of \<open>src/cmd/sysmon/main.go\<close>: the percentage bar, the byte figures and \<open>render\<close>,
  which puts one screen together. \<open>None\<close> is a panic (a negative count of \<open>strings.Repeat\<close>, an
  index out of range). The order in which \<open>range\<close> visits the map of network rates is the
  parameter \<open>order\<close>, the implementation-defined conversions are \<open>oor\<close> and \<open>oor64\<close>.
\<close>

declare of_nat_unat [simp del]

section \<open>Figures\<close>

definition bar :: "(f64 \<Rightarrow> int) \<Rightarrow> f64 \<Rightarrow> gostring option" where
  "bar oor pct =
     (let pct = (if f_less pct (Fin 0) then Fin 0 else pct);
          pct = (if f_less (Fin 100) pct then Fin 100 else pct);
          filled = go_int oor (f_mul (f_div pct (Fin 100)) (Fin 20))
      in do {
        row \<leftarrow> cells 20 filled;
        Some (''['' @ row @ ''] '' @ pad_left 5 (f_format_1 pct) @ ''%'')
      })"

text \<open>The loop of \<open>humanBytes\<close>: the divisor and the number of its prefix.\<close>

function human_loop :: "u64 \<Rightarrow> u64 \<Rightarrow> nat \<Rightarrow> u64 \<times> nat" where
  "human_loop n dvs ex =
     (if n \<ge> 1024 then human_loop (n div 1024) (dvs * 1024) (ex + 1) else (dvs, ex))"
  by auto

termination
  by (relation "measure (\<lambda>(n, dvs, ex). unat n)") (auto simp: u64_le_nat unat_div_u64)

declare human_loop.simps [simp del]

definition humanBytes :: "u64 \<Rightarrow> gostring option" where
  "humanBytes b =
     (if b < 1024 then Some (itoa (unat b) @ '' B'')
      else (let (dvs, ex) = human_loop (b div 1024) 1024 0
            in if ex < length ''KMGTPE''
               then Some (f_format_1 (f_div (f_of_u64 b) (f_of_u64 dvs)) @ '' '' @
                      [''KMGTPE'' ! ex] @ ''iB'')
               else None))"

definition humanKB :: "u64 \<Rightarrow> gostring option" where
  "humanKB kb = humanBytes (kb * 1024)"

section \<open>The screen\<close>

definition clearDown :: gostring where "clearDown = escape @ ''[J''"
definition cursorHome :: gostring where "cursorHome = escape @ ''[H''"
definition hideCursor :: gostring where "hideCursor = escape @ ''[?25l''"
definition showCursor :: gostring where "showCursor = escape @ ''[?25h''"

definition render_header :: gostring where
  "render_header =
     cursorHome @ clearDown @
     ''sysmon '' @ em_dash @ '' live system monitor  (Ctrl+C to quit)'' @ newline @
     repeat_string light_line 50 @ newline @ newline"

definition render_cpu :: "(f64 \<Rightarrow> int) \<Rightarrow> (gostring \<rightharpoonup> f64) \<Rightarrow> gostring option" where
  "render_cpu oor cpuPct =
     (case cpuPct ''cpu'' of
        None \<Rightarrow> Some ''''
      | Some pct \<Rightarrow> do { row \<leftarrow> bar oor pct; Some (''CPU    '' @ row @ newline) })"

definition render_mem :: "(f64 \<Rightarrow> int) \<Rightarrow> MemInfo \<Rightarrow> gostring option" where
  "render_mem oor mem = do {
     row \<leftarrow> bar oor (mem_UsedPercent mem);
     used \<leftarrow> humanKB (UsedKB mem);
     tot \<leftarrow> humanKB (TotalKB mem);
     Some (''Memory '' @ row @ ''  ('' @ used @ '' / '' @ tot @ '')'' @ newline)
   }"

definition swap_pct :: "MemInfo \<Rightarrow> f64" where
  "swap_pct mem =
     f_mul (f_div (f_of_u64 (SwapUsedKB mem)) (f_of_u64 (SwapTotalKB mem))) (Fin 100)"

definition render_swap :: "(f64 \<Rightarrow> int) \<Rightarrow> MemInfo \<Rightarrow> gostring option" where
  "render_swap oor mem =
     (if SwapTotalKB mem > 0 then do {
        row \<leftarrow> bar oor (swap_pct mem);
        used \<leftarrow> humanKB (SwapUsedKB mem);
        tot \<leftarrow> humanKB (SwapTotalKB mem);
        Some (''Swap   '' @ row @ ''  ('' @ used @ '' / '' @ tot @ '')'' @ newline)
      } else Some '''')"

definition render_disk :: "(f64 \<Rightarrow> int) \<Rightarrow> DiskUsage \<Rightarrow> gostring option" where
  "render_disk oor disk = do {
     row \<leftarrow> bar oor (disk_UsedPercent disk);
     used \<leftarrow> humanBytes (UsedBytes disk);
     tot \<leftarrow> humanBytes (TotalBytes disk);
     Some (''Disk   '' @ row @ ''  ('' @ used @ '' / '' @ tot @ '') ['' @ Path disk @ '']'' @ newline)
   }"

definition render_iface :: "(f64 \<Rightarrow> u64) \<Rightarrow> gostring \<Rightarrow> NetThroughput \<Rightarrow> gostring option" where
  "render_iface oor64 iface rate = do {
     rx \<leftarrow> humanBytes (go_uint64 oor64 (RxBps rate));
     tx \<leftarrow> humanBytes (go_uint64 oor64 (TxBps rate));
     Some (''  '' @ pad_right 10 iface @ '' '' @ arrow_down @ '' '' @ pad_right 14 (rx @ ''/s'') @
       '' '' @ arrow_up @ '' '' @ tx @ ''/s'' @ newline)
   }"

fun render_net ::
  "(f64 \<Rightarrow> u64) \<Rightarrow> (gostring \<rightharpoonup> NetThroughput) \<Rightarrow> gostring list \<Rightarrow> gostring \<Rightarrow> gostring option" where
  "render_net oor64 net [] b = Some b"
| "render_net oor64 net (iface # order) b =
     (if iface = ''lo'' then render_net oor64 net order b
      else (case net iface of
              None \<Rightarrow> render_net oor64 net order b
            | Some rate \<Rightarrow>
                (case render_iface oor64 iface rate of
                   None \<Rightarrow> None
                 | Some row \<Rightarrow> render_net oor64 net order (b @ row))))"

definition render_latency :: "(f64 \<Rightarrow> int) \<Rightarrow> LatencyBucket list \<Rightarrow> gostring option" where
  "render_latency oor latencyBuckets =
     (if length latencyBuckets > 0 then do {
        hist \<leftarrow> RenderASCII oor latencyBuckets;
        Some (newline @ ''Block I/O Latency (this interval, via eBPF):'' @ newline @ hist)
      } else Some '''')"

definition render ::
  "(f64 \<Rightarrow> int) \<Rightarrow> (f64 \<Rightarrow> u64) \<Rightarrow> gostring list \<Rightarrow> (gostring \<rightharpoonup> f64) \<Rightarrow> MemInfo \<Rightarrow> DiskUsage \<Rightarrow>
     (gostring \<rightharpoonup> NetThroughput) \<Rightarrow> LatencyBucket list \<Rightarrow> gostring option" where
  "render oor oor64 order cpuPct mem disk net latencyBuckets = do {
     cpu \<leftarrow> render_cpu oor cpuPct;
     memory \<leftarrow> render_mem oor mem;
     swap \<leftarrow> render_swap oor mem;
     disk \<leftarrow> render_disk oor disk;
     rows \<leftarrow> render_net oor64 net order (newline @ ''Network:'' @ newline);
     latency \<leftarrow> render_latency oor latencyBuckets;
     Some (render_header @ cpu @ memory @ swap @ disk @ rows @ latency)
   }"

section \<open>Facts on byte figures\<close>

lemma human_loop_prefix:
  assumes "1024 ^ k \<le> unat n" and "unat n < 1024 ^ Suc k"
  shows "human_loop n dvs ex = (dvs * 1024 ^ k, ex + k)"
  using assms
proof (induction k arbitrary: n dvs ex)
  case 0
  then show ?case by (subst human_loop.simps) (simp add: u64_le_nat)
next
  case (Suc k)
  have "(1024 :: nat) \<le> 1024 ^ Suc k" by simp
  then have "1024 \<le> unat n" using Suc.prems(1) by (rule order_trans)
  then have "n \<ge> 1024" by (simp add: u64_le_nat)
  then have "human_loop n dvs ex = human_loop (n div 1024) (dvs * 1024) (ex + 1)"
    by (subst human_loop.simps) simp
  moreover have "1024 ^ k \<le> unat (n div 1024)" "unat (n div 1024) < 1024 ^ Suc k"
    using Suc.prems by (simp_all add: unat_div_u64 less_eq_div_iff_mult_less_eq div_less_iff_less_mult
        mult.commute)
  ultimately show ?case using Suc.IH [of "n div 1024"] by (simp add: mult.assoc)
qed

lemma human_prefix_exists:
  assumes "1 \<le> n" and "n < 2 ^ 54"
  obtains k where "k \<le> 5" "1024 ^ k \<le> n" "n < (1024 :: nat) ^ Suc k"
proof -
  define k where "k = (LEAST k. n < (1024 :: nat) ^ Suc k)"
  have exi: "n < (1024 :: nat) ^ Suc 5" using assms by simp
  then have k: "n < 1024 ^ Suc k" "k \<le> 5" unfolding k_def by (rule LeastI, rule Least_le)
  have "1024 ^ k \<le> n"
  proof (cases k)
    case (Suc j)
    then have "\<not> n < 1024 ^ Suc j" using not_less_Least [of j "\<lambda>k. n < (1024 :: nat) ^ Suc k"]
      by (simp add: k_def)
    then show ?thesis using Suc by simp
  qed (use assms in simp)
  then show ?thesis using that k by blast
qed

lemma humanBytes_prefixed:
  assumes "k \<le> 5" and "1024 ^ Suc k \<le> unat b" and "unat b < 1024 ^ Suc (Suc k)"
  shows "humanBytes b =
    Some (f_format_1 (f_div (f_of_u64 b) (f_of_u64 (1024 ^ Suc k))) @ '' '' @ [''KMGTPE'' ! k] @ ''iB'')"
proof -
  have "(1024 :: nat) \<le> 1024 ^ Suc k" by simp
  then have "1024 \<le> unat b" using assms(2) by (rule order_trans)
  then have "\<not> b < 1024" by (simp add: u64_less_nat)
  moreover have "human_loop (b div 1024) 1024 0 = (1024 * 1024 ^ k, 0 + k)"
    using assms by (intro human_loop_prefix)
      (simp_all add: unat_div_u64 less_eq_div_iff_mult_less_eq div_less_iff_less_mult mult.commute)
  ultimately show ?thesis using assms(1) by (simp add: humanBytes_def)
qed

lemma prefix_of:
  assumes "\<not> unat (b :: u64) < 1024"
  obtains k where "k \<le> 5" "1024 ^ Suc k \<le> unat b" "unat b < 1024 ^ Suc (Suc k)"
proof -
  have "1 \<le> unat b div 1024" "unat b div 1024 < 2 ^ 54"
    using assms unat_u64_lt [of b]
    by (simp_all add: less_eq_div_iff_mult_less_eq div_less_iff_less_mult)
  then obtain k where "k \<le> 5" "1024 ^ k \<le> unat b div 1024" "unat b div 1024 < 1024 ^ Suc k"
    by (rule human_prefix_exists)
  then show ?thesis using that [of k]
    by (simp add: less_eq_div_iff_mult_less_eq div_less_iff_less_mult mult.commute)
qed

lemma humanBytes_total: "\<exists>s. humanBytes b = Some s"
proof (cases "unat b < 1024")
  case False
  then show ?thesis by (rule prefix_of) (use humanBytes_prefixed in blast)
qed (simp add: humanBytes_def u64_less_nat)

text \<open>Just below a power of 1024 the rounded quotient is the power itself.\<close>

lemma humanBytes_rounds_up: "humanBytes 1048575 = Some ''1024.0 KiB''"
proof -
  have "round64 (of_int 1048575 * 2 powi - 10) = of_int 1048575 * 2 powi - 10"
    by (rule round64_exact) simp_all
  then have q: "round64 (1048575 / 1024) = 1048575 / 1024" by (simp add: power_int_minus field_simps)
  have "fl (1048575 / 1024) = Fin (1048575 / 1024)" by (simp add: fl_Fin q)
  moreover have "\<lfloor>5242875 / 512 :: rat\<rfloor> = 10239" by (simp add: floor_eq_iff)
  then have "round_half_even (1048575 / 1024 * 10) = 10240"
    by (simp add: round_half_even_def Let_def)
  ultimately show ?thesis
    using humanBytes_prefixed [of 0 1048575]
    by (simp add: f_of_u64_Fin round64_numeral format_1_def itoa.simps char_of_def bit_0)
qed

section \<open>Facts on the bar\<close>

definition clamp :: "f64 \<Rightarrow> rat" where
  "clamp pct =
     (case pct of Fin q \<Rightarrow> max 0 (min 100 q) | Inf s \<Rightarrow> (if s then 0 else 100) | NaN \<Rightarrow> 0)"

definition bar_row :: "nat \<Rightarrow> f64 \<Rightarrow> gostring" where
  "bar_row n pct =
     ''['' @ repeat_string full_block n @ repeat_string light_line (20 - n) @ ''] '' @
     pad_left 5 (f_format_1 pct) @ ''%''"

text \<open>The number of filled cells of a percentage between 0 and 100.\<close>

definition filled_cells :: "rat \<Rightarrow> nat" where
  "filled_cells q = nat \<lfloor>round64 (round64 (q / 100) * 20)\<rfloor>"

lemma scaled_20:
  assumes "0 \<le> q" and "q \<le> 100"
  shows "f_mul (f_div (Fin q) (Fin 100)) (Fin 20) = Fin (round64 (round64 (q / 100) * 20))"
    and "0 \<le> round64 (round64 (q / 100) * 20)" and "round64 (round64 (q / 100) * 20) \<le> 20"
  using scaled_ratio_eq [of q 100 20] assms by simp_all

lemma filled_cells_le: "0 \<le> q \<Longrightarrow> q \<le> 100 \<Longrightarrow> filled_cells q \<le> 20"
  using scaled_20 [of q] floor_mono [of "round64 (round64 (q / 100) * 20)" 20]
  by (simp add: filled_cells_def nat_le_iff)

lemma filled_cells_mono: "0 \<le> p \<Longrightarrow> p \<le> q \<Longrightarrow> q \<le> 100 \<Longrightarrow> filled_cells p \<le> filled_cells q"
  unfolding filled_cells_def
  by (intro nat_mono floor_mono round64_mono mult_right_mono divide_right_mono) simp_all

lemma clamp_range: "0 \<le> clamp pct \<and> clamp pct \<le> 100"
  by (simp add: clamp_def split: f64.split)

lemma bar_eq:
  assumes "pct \<noteq> NaN"
  shows "bar oor pct = Some (bar_row (filled_cells (clamp pct)) (Fin (clamp pct)))"
proof -
  let ?q = "clamp pct"
  have clamped: "(if f_less (Fin 100) p then Fin 100 else p) = Fin ?q"
    if "p = (if f_less pct (Fin 0) then Fin 0 else pct)" for p
    using assms that by (cases pct) (auto simp: clamp_def)
  have q: "0 \<le> ?q" "?q \<le> 100" using clamp_range by simp_all
  have "go_int oor (Fin (round64 (round64 (?q / 100) * 20))) = int (filled_cells ?q)"
    using scaled_20 [OF q] by (subst go_int_Fin) (simp_all add: filled_cells_def)
  moreover have "cells 20 (int (filled_cells ?q)) = Some (repeat_string full_block (filled_cells ?q) @
      repeat_string light_line (20 - filled_cells ?q))"
    using filled_cells_le [OF q] by (subst cells_Some) (simp_all add: nat_diff_distrib')
  ultimately show ?thesis
    using clamped [OF refl] scaled_20(1) [OF q] by (simp add: bar_def bar_row_def Let_def)
qed

lemma bar_NaN: "\<not> (0 \<le> oor NaN \<and> oor NaN \<le> 20) \<Longrightarrow> bar oor NaN = None"
  by (auto simp: bar_def go_int_def cells_def go_repeat_def split: option.split)

section \<open>No percentage is a NaN\<close>

lemma f_mul_Fin_not_NaN: "x \<noteq> NaN \<Longrightarrow> c \<noteq> 0 \<Longrightarrow> f_mul x (Fin c) \<noteq> NaN"
  by (cases x) (simp_all add: fl_def Let_def)

lemma fl_not_NaN: "fl q \<noteq> NaN"
  by (simp add: fl_def Let_def)

lemma f_div_Fin_not_NaN: "x \<noteq> NaN \<Longrightarrow> c \<noteq> 0 \<Longrightarrow> f_div x (Fin c) \<noteq> NaN"
  by (cases x) (simp_all add: fl_not_NaN)

lemma ratio_percent_not_NaN:
  "t \<noteq> 0 \<Longrightarrow> f_mul (f_div (f_of_u64 b) (f_of_u64 t)) (Fin 100) \<noteq> NaN"
  using f_of_u64_pos [of t] unfolding f_of_u64_Fin
  by (intro f_mul_Fin_not_NaN f_div_Fin_not_NaN) auto

lemma mem_percent_not_NaN: "mem_UsedPercent m \<noteq> NaN"
  by (simp add: mem_UsedPercent_def ratio_percent_not_NaN)

lemma disk_percent_not_NaN: "disk_UsedPercent d \<noteq> NaN"
  by (simp add: disk_UsedPercent_def ratio_percent_not_NaN)

lemma swap_percent_not_NaN: "0 < SwapTotalKB m \<Longrightarrow> swap_pct m \<noteq> NaN"
  by (auto simp: swap_pct_def ratio_percent_not_NaN)

lemma cpu_percent_not_NaN: "cpu_percent p c \<noteq> NaN"
proof (cases "Total c - Total p = 0")
  case False
  then have T: "0 < round64 (of_nat (unat (Total c - Total p)))" by (rule f_of_u64_pos)
  have "f_div (f_sub (f_of_u64 (Total c - Total p)) (f_of_u64 (IdleTotal c - IdleTotal p)))
      (f_of_u64 (Total c - Total p)) \<noteq> NaN"
    unfolding f_of_u64_Fin using T by (intro f_div_Fin_not_NaN) (simp_all add: fl_not_NaN)
  from f_mul_Fin_not_NaN [OF this, of 100] show ?thesis by (simp add: cpu_percent_def Let_def)
qed (simp add: cpu_percent_def f_of_u64_zero_iff)

lemma CPUPercent_not_NaN: "CPUPercent prev cur n \<noteq> Some NaN"
  using cpu_percent_not_NaN by (auto simp: CPUPercent_eq split: option.splits)

section \<open>Facts on the screen\<close>

lemma humanKB_total: "\<exists>s. humanKB kb = Some s"
  by (simp add: humanKB_def humanBytes_total)

lemma render_iface_total: "\<exists>s. render_iface oor64 n r = Some s"
  using humanBytes_total [of "go_uint64 oor64 (RxBps r)"] humanBytes_total [of "go_uint64 oor64 (TxBps r)"]
  by (auto simp: render_iface_def)

text \<open>The row of an interface, and the interfaces that get one.\<close>

definition iface_row :: "(f64 \<Rightarrow> u64) \<Rightarrow> (gostring \<rightharpoonup> NetThroughput) \<Rightarrow> gostring \<Rightarrow> gostring" where
  "iface_row oor64 net n =
     (case net n of None \<Rightarrow> ''''
      | Some r \<Rightarrow> (case render_iface oor64 n r of None \<Rightarrow> '''' | Some row \<Rightarrow> row))"

definition shown :: "(gostring \<rightharpoonup> NetThroughput) \<Rightarrow> gostring \<Rightarrow> bool" where
  "shown net n \<longleftrightarrow> n \<noteq> ''lo'' \<and> net n \<noteq> None"

lemma render_net_rows:
  "render_net oor64 net order b =
     Some (b @ concat (map (iface_row oor64 net) (filter (shown net) order)))"
proof (induction order arbitrary: b)
  case (Cons n order)
  show ?case
  proof (cases "net n")
    case (Some r)
    obtain row where "render_iface oor64 n r = Some row" using render_iface_total by blast
    then show ?thesis using Cons Some by (simp add: iface_row_def shown_def)
  qed (use Cons in \<open>simp add: shown_def\<close>)
qed simp

lemma render_cpu_total: "cpuPct ''cpu'' \<noteq> Some NaN \<Longrightarrow> \<exists>s. render_cpu oor cpuPct = Some s"
  by (cases "cpuPct ''cpu''") (auto simp: render_cpu_def bar_eq)

lemma render_mem_total: "\<exists>s. render_mem oor mem = Some s"
  using humanKB_total [of "UsedKB mem"] humanKB_total [of "TotalKB mem"]
  by (auto simp: render_mem_def bar_eq mem_percent_not_NaN)

lemma render_swap_total: "\<exists>s. render_swap oor mem = Some s"
  using humanKB_total [of "SwapUsedKB mem"] humanKB_total [of "SwapTotalKB mem"]
  by (auto simp: render_swap_def bar_eq swap_percent_not_NaN)

lemma render_disk_total: "\<exists>s. render_disk oor disk = Some s"
  using humanBytes_total [of "UsedBytes disk"] humanBytes_total [of "TotalBytes disk"]
  by (auto simp: render_disk_def bar_eq disk_percent_not_NaN)

lemma render_latency_total: "\<exists>s. render_latency oor bs = Some s"
proof -
  have "\<exists>s. RenderASCII oor bs = Some s"
    using bucket_totals_max [of _ bs]
    by (cases "bucket_totals bs") (simp add: RenderASCII_def render_buckets_rows)
  then show ?thesis by (auto simp: render_latency_def)
qed

lemma render_parts_Some:
  "\<exists>screen. render oor oor64 order (CPUPercent prev cur) mem disk net bs = Some screen"
proof -
  obtain c where "render_cpu oor (CPUPercent prev cur) = Some c"
    using render_cpu_total [of "CPUPercent prev cur" oor] CPUPercent_not_NaN [of prev cur "''cpu''"]
    by blast
  moreover obtain m where "render_mem oor mem = Some m" using render_mem_total by blast
  moreover obtain s where "render_swap oor mem = Some s" using render_swap_total by blast
  moreover obtain d where "render_disk oor disk = Some d" using render_disk_total by blast
  moreover obtain l where "render_latency oor bs = Some l" using render_latency_total by blast
  ultimately show ?thesis by (simp add: render_def render_net_rows)
qed

section \<open>Properties\<close>

text \<open>
  The bar is always 20 cells: every percentage that is a number, an infinity included, is
  clamped to 0..100 and fills between 0 and 20 cells, more for more; only a NaN escapes both
  comparisons, and \<open>strings.Repeat\<close> then panics unless the platform converts it to 0..20.
\<close>

lemma bar_shape:
  "(if pct = NaN then (0 \<le> oor NaN \<and> oor NaN \<le> 20) \<or> bar oor pct = None
    else bar oor pct = Some (bar_row (filled_cells (clamp pct)) (Fin (clamp pct)))) \<and>
   filled_cells (clamp pct) \<le> 20 \<and>
   filled_cells (clamp pct) \<le> filled_cells (max (clamp pct) (clamp pct'))"
proof -
  have "filled_cells (clamp pct) \<le> filled_cells (max (clamp pct) (clamp pct'))"
    using clamp_range [of pct] clamp_range [of pct'] by (intro filled_cells_mono) simp_all
  moreover have "(0 \<le> oor NaN \<and> oor NaN \<le> 20) \<or> bar oor NaN = None"
    using bar_NaN by (cases "0 \<le> oor NaN \<and> oor NaN \<le> 20") auto
  ultimately show ?thesis
    using filled_cells_le clamp_range [of pct] by (simp add: bar_eq)
qed

text \<open>
  C19. \<open>humanBytes\<close> never indexes outside its prefixes: below 1024 it prints the byte count, and
  any other 64-bit count \<open>b\<close> lies in \<open>[1024^(k+1), 1024^(k+2))\<close> for one of the six prefixes and
  is printed as the quotient by \<open>1024^(k+1)\<close> with that prefix.
\<close>

theorem humanBytes_prefix:
  "if unat b < 1024 then humanBytes b = Some (itoa (unat b) @ '' B'')
   else \<exists>k \<le> 5. 1024 ^ Suc k \<le> unat b \<and> unat b < 1024 ^ Suc (Suc k) \<and>
     humanBytes b = Some (f_format_1 (f_div (f_of_u64 b) (f_of_u64 (1024 ^ Suc k))) @ '' '' @
       [''KMGTPE'' ! k] @ ''iB'')"
proof (cases "unat b < 1024")
  case True
  then show ?thesis by (simp add: humanBytes_def u64_less_nat)
next
  case False
  then obtain k where "k \<le> 5" "1024 ^ Suc k \<le> unat b" "unat b < 1024 ^ Suc (Suc k)"
    by (rule prefix_of)
  then show ?thesis using False humanBytes_prefixed by auto
qed

text \<open>
  C12. A screen is always printed: with the percentages \<open>CPUPercent\<close> computes and any other
  figures, \<open>render\<close> does not panic, whatever the platform does with conversions out of range.
\<close>

theorem render_total:
  "\<exists>screen. render oor oor64 order (CPUPercent prev cur) mem disk net bs = Some screen"
  by (rule render_parts_Some)

text \<open>
  Every interface with a rate except \<open>lo\<close> gets exactly one row, whatever the order the map
  is visited in; two visits print the same rows but possibly in another order.
\<close>

lemma network_rows_complete:
  assumes "distinct order" and "set order = dom net"
    and "distinct order'" and "set order' = dom net"
  shows "\<exists>names names'. set names = dom net - {''lo''} \<and> distinct names \<and> mset names' = mset names \<and>
    render_net oor64 net order b = Some (b @ concat (map (iface_row oor64 net) names)) \<and>
    render_net oor64 net order' b = Some (b @ concat (map (iface_row oor64 net) names'))"
proof (intro exI conjI)
  show "set (filter (shown net) order) = dom net - {''lo''}"
    using assms(2) by (auto simp: shown_def)
  show "distinct (filter (shown net) order)" using assms(1) by simp
  have "mset order' = mset order" using assms set_eq_iff_mset_eq_distinct [of order' order] by simp
  then show "mset (filter (shown net) order') = mset (filter (shown net) order)" by simp
qed (rule render_net_rows)+

text \<open>Two interfaces and the loopback, in two orders.\<close>

definition idle_rates :: "gostring \<rightharpoonup> NetThroughput" where
  "idle_rates =
     (\<lambda>n. if n \<in> {''lo'', ''eth0'', ''wlan0''} then Some \<lparr>RxBps = Fin 0, TxBps = Fin 0\<rparr> else None)"

lemma network_rows_complete_witness:
  "\<exists>names names'. set names = {''eth0'', ''wlan0''} \<and> distinct names \<and> mset names' = mset names \<and>
     render_net (\<lambda>_. 0) idle_rates [''eth0'', ''lo'', ''wlan0''] [] =
       Some ([] @ concat (map (iface_row (\<lambda>_. 0) idle_rates) names)) \<and>
     render_net (\<lambda>_. 0) idle_rates [''wlan0'', ''lo'', ''eth0''] [] =
       Some ([] @ concat (map (iface_row (\<lambda>_. 0) idle_rates) names'))"
proof -
  have d: "dom idle_rates = {''lo'', ''eth0'', ''wlan0''}"
    by (auto simp: idle_rates_def split: if_splits)
  then have "dom idle_rates - {''lo''} = {''eth0'', ''wlan0''}" by auto
  then show ?thesis
    using network_rows_complete [of "[''eth0'', ''lo'', ''wlan0'']" idle_rates
        "[''wlan0'', ''lo'', ''eth0'']" "\<lambda>_. 0" "[]"] d
    by (simp add: insert_commute)
qed

end
