(* ===== verification/CollectorLifecycle.thy ===== *)
theory CollectorLifecycle
  imports HistogramAccess
begin

text \<open>
  The life of a collector (\<open>NewCollector\<close> and \<open>Close\<close> of \<open>src/internal/ebpf/loader.go\<close>): which
  kernel handles are held afterwards. \<open>bpf_runtime\<close> states what loading, attaching and closing
  do to the handles of the process; the world of \<open>HistogramAccess\<close> provides it.
\<close>

section \<open>The interface\<close>

text \<open>
  \<open>held w\<close> are the open handles. Loading and attaching create handles or fail without any; a
  successful close releases its handle, a failing one touches no other handle.
\<close>

locale bpf_runtime =
  fixes A :: "('w, 'e) bpf_api" and held :: "'w \<Rightarrow> bpf_handle set"
  assumes load_ok: "fst (load_and_assign A w) = None \<Longrightarrow>
      held (snd (load_and_assign A w)) = held w \<union> set object_handles"
    and load_err: "fst (load_and_assign A w) = Some e \<Longrightarrow> held (snd (load_and_assign A w)) = held w"
    and attach_ok: "fst (link_tracepoint A g n p w) = Inr l \<Longrightarrow>
      l = TracepointLink g n \<and> held (snd (link_tracepoint A g n p w)) = insert l (held w)"
    and attach_err: "fst (link_tracepoint A g n p w) = Inl e \<Longrightarrow>
      held (snd (link_tracepoint A g n p w)) = held w"
    and close_ok: "fst (close_handle A h w) = None \<Longrightarrow>
      held (snd (close_handle A h w)) = held w - {h}"
    and close_err: "fst (close_handle A h w) = Some e \<Longrightarrow>
      held w - {h} \<subseteq> held (snd (close_handle A h w)) \<and> held (snd (close_handle A h w)) \<subseteq> held w"
begin

lemma close_shrinks: "held (snd (close_handle A h w)) \<subseteq> held w"
  using close_ok [of h w] close_err [of h w] by (cases "fst (close_handle A h w)") auto

lemma close_links_shrinks: "held (close_links A ls w) \<subseteq> held w"
proof (induction ls arbitrary: w)
  case (Cons l ls)
  show ?case using Cons.IH [of "snd (close_handle A l w)"] close_shrinks [of l w] by simp
qed simp

lemma load_objects:
  "loadBlockLatencyObjects A w = (err, w') \<Longrightarrow>
     held w' = (if err = None then held w \<union> set object_handles else held w)"
  using load_ok [of w] load_err [of w]
  by (cases "load_and_assign A w")
    (auto simp: loadBlockLatencyObjects_def split: option.splits)

end

text \<open>Closing a handle that is held succeeds.\<close>

locale reliable_runtime = bpf_runtime +
  assumes close_held: "h \<in> held w \<Longrightarrow> fst (close_handle A h w) = None"
begin

lemma close_releases: "h \<in> held w \<Longrightarrow>
    fst (close_handle A h w) = None \<and> held (snd (close_handle A h w)) = held w - {h}"
  using close_held close_ok by blast

lemma close_links_releases:
  "set ls \<subseteq> held w \<Longrightarrow> distinct ls \<Longrightarrow> held (close_links A ls w) = held w - set ls"
proof (induction ls arbitrary: w)
  case (Cons l ls)
  have "held (snd (close_handle A l w)) = held w - {l}" using Cons.prems close_releases by simp
  then show ?case using Cons by auto
qed simp

lemma close_sequence:
  "set hs \<subseteq> held w \<Longrightarrow> distinct hs \<Longrightarrow>
     \<exists>w'. BlockLatencyClose (map (close_handle A) hs) w = (None, w') \<and> held w' = held w - set hs"
proof (induction hs arbitrary: w)
  case (Cons h hs)
  obtain w1 where w1: "close_handle A h w = (None, w1)" "held w1 = held w - {h}"
    using close_releases [of h w] Cons.prems by (cases "close_handle A h w") auto
  then obtain w' where "BlockLatencyClose (map (close_handle A) hs) w1 = (None, w')"
    "held w' = held w1 - set hs"
    using Cons.IH [of w1] Cons.prems by auto
  then show ?case using w1 by auto
qed simp

lemma objects_close:
  assumes "set object_handles \<subseteq> held w"
  shows "\<exists>w'. blockLatencyObjects_Close A w = (None, w') \<and> held w' = held w - set object_handles"
proof -
  have h: "TraceRqComplete \<in> held w" "TraceRqIssue \<in> held w" "IoLatencyHist \<in> held w"
    "StartTimes \<in> held w"
    using assms by (simp_all add: object_handles_def)
  obtain w1 where w1: "blockLatencyPrograms_Close A w = (None, w1)"
    "held w1 = held w - {TraceRqComplete, TraceRqIssue}"
    using close_sequence [of "[TraceRqComplete, TraceRqIssue]" w] h
    by (auto simp: blockLatencyPrograms_Close_def)
  obtain w2 where w2: "blockLatencyMaps_Close A w1 = (None, w2)"
    "held w2 = held w1 - {IoLatencyHist, StartTimes}"
    using close_sequence [of "[IoLatencyHist, StartTimes]" w1] h w1
    by (auto simp: blockLatencyMaps_Close_def)
  show ?thesis using w1 w2 by (auto simp: blockLatencyObjects_Close_def object_handles_def)
qed

end

section \<open>The world provides it\<close>

interpretation kernel_handles: reliable_runtime kernel_api "\<lambda>w. set (opened w)"
  by unfold_locales (auto simp: kernel_api_def Let_def split: if_splits)

section \<open>The handles of a collector\<close>

definition collector_links :: "bpf_handle list" where
  "collector_links =
     [TracepointLink ''block'' ''block_rq_issue'', TracepointLink ''block'' ''block_rq_complete'']"

definition collector_handles :: "bpf_handle set" where
  "collector_handles = set object_handles \<union> set collector_links"

context reliable_runtime
begin

lemma attach_cases:
  "(\<exists>e w'. link_tracepoint A g n p w = (Inl e, w') \<and> held w' = held w) \<or>
   (\<exists>w'. link_tracepoint A g n p w = (Inr (TracepointLink g n), w') \<and>
      held w' = insert (TracepointLink g n) (held w))"
  using attach_ok [of g n p w] attach_err [of g n p w]
  by (cases "link_tracepoint A g n p w"; cases "fst (link_tracepoint A g n p w)") auto

text \<open>The second attachment and the clean-up after it.\<close>

lemma release_objects:
  "set object_handles \<subseteq> held w \<Longrightarrow>
     held (snd (blockLatencyObjects_Close A w)) = held w - set object_handles"
  using objects_close [of w] by auto

lemma new_collector_cases:
  assumes fresh: "held w \<inter> collector_handles = {}" and new: "NewCollector A w = (r, w')"
  shows "case r of Inl e \<Rightarrow> held w' = held w
    | Inr c \<Rightarrow> held w' = held w \<union> collector_handles \<and> links c = collector_links"
proof (cases "os_stat A ''/sys/kernel/btf/vmlinux'' w")
  case (Some e)
  then show ?thesis using new by (auto simp: NewCollector_def)
next
  case stat: None
  obtain err w1 where l: "loadBlockLatencyObjects A w = (err, w1)" by (rule prod.exhaust)
  show ?thesis
  proof (cases err)
    case (Some e)
    then show ?thesis using new stat l load_objects [OF l] by (auto simp: NewCollector_def)
  next
    case None
    note l = l [unfolded None]
    have w1: "held w1 = held w \<union> set object_handles" using load_objects [OF l] by simp
    let ?i = "TracepointLink ''block'' ''block_rq_issue''"
    from attach_cases [of "''block''" "''block_rq_issue''" TraceRqIssue w1] show ?thesis
    proof (elim disjE exE conjE)
      fix e w2
      assume "link_tracepoint A ''block'' ''block_rq_issue'' TraceRqIssue w1 = (Inl e, w2)"
        "held w2 = held w1"
      then show ?thesis using new stat l w1 fresh
        by (auto simp: NewCollector_def release_objects collector_handles_def)
    next
      fix w2
      assume a1: "link_tracepoint A ''block'' ''block_rq_issue'' TraceRqIssue w1 = (Inr ?i, w2)"
        and w2: "held w2 = insert ?i (held w1)"
      from attach_cases [of "''block''" "''block_rq_complete''" TraceRqComplete w2] show ?thesis
      proof (elim disjE exE conjE)
        fix e w3
        assume a2: "link_tracepoint A ''block'' ''block_rq_complete'' TraceRqComplete w2 = (Inl e, w3)"
          and w3: "held w3 = held w2"
        have "held (close_links A [?i] w3) = held w3 - {?i}"
          using w3 w2 close_links_releases [of "[?i]" w3] by simp
        then have "held (close_links A [?i] w3) = held w \<union> set object_handles"
          using w1 w2 w3 fresh
          by (auto simp: collector_handles_def collector_links_def object_handles_def)
        then show ?thesis using new stat l a1 a2 fresh
          by (auto simp: NewCollector_def release_objects collector_handles_def)
      next
        fix w3
        assume "link_tracepoint A ''block'' ''block_rq_complete'' TraceRqComplete w2 =
            (Inr (TracepointLink ''block'' ''block_rq_complete''), w3)"
          "held w3 = insert (TracepointLink ''block'' ''block_rq_complete'') (held w2)"
        then show ?thesis using new stat l a1 w1 w2
          by (auto simp: NewCollector_def collector_handles_def collector_links_def)
      qed
    qed
  qed
qed

lemma collector_close:
  assumes "collector_handles \<subseteq> held w" and "links c = collector_links"
  shows "held (Collector_Close A c w) = held w - collector_handles"
proof -
  have "set collector_links \<subseteq> held w" using assms(1) by (simp add: collector_handles_def)
  then have "held (close_links A (links c) w) = held w - set collector_links"
    using assms(2) by (subst close_links_releases) (simp_all add: collector_links_def)
  moreover have "set object_handles \<subseteq> held (close_links A (links c) w)"
    using calculation assms(1)
    by (auto simp: collector_handles_def collector_links_def object_handles_def)
  ultimately show ?thesis
    by (auto simp: Collector_Close_def Let_def release_objects collector_handles_def)
qed

end

section \<open>Properties\<close>

text \<open>
  C8. \<open>NewCollector\<close> is all or nothing: on every error path (no BTF, loading refused, the first
  or the second attachment refused) the process holds exactly the handles it held before; on
  success it holds the two programs, the two maps and the two links besides, and \<open>Close\<close>
  releases exactly these.
\<close>

theorem NewCollector_all_or_nothing:
  assumes "reliable_runtime A held" and "held w \<inter> collector_handles = {}"
  shows "case NewCollector A w of
      (Inl e, w') \<Rightarrow> held w' = held w
    | (Inr c, w') \<Rightarrow> held w' = held w \<union> collector_handles \<and>
        held (Collector_Close A c w') = held w"
proof -
  obtain r w' where r: "NewCollector A w = (r, w')" by (rule prod.exhaust)
  note cases = reliable_runtime.new_collector_cases [OF assms r]
  show ?thesis
  proof (cases r)
    case (Inl e)
    then show ?thesis using cases r by simp
  next
    case (Inr c)
    then show ?thesis
      using cases r assms(2) reliable_runtime.collector_close [OF assms(1), of w' c]
      by (auto split: sum.split)
  qed
qed

theorem NewCollector_all_or_nothing_witness:
  "opened (snd (NewCollector kernel_api
      \<lparr>kmaps = initial_maps, opened = [],
       refused = [TracepointLink ''block'' ''block_rq_complete'']\<rparr>)) = []"
proof -
  let ?w = "\<lparr>kmaps = initial_maps, opened = [],
    refused = [TracepointLink ''block'' ''block_rq_complete'']\<rparr>"
  have "fst (NewCollector kernel_api ?w) = Inl (Errorf ''attaching block_rq_complete tracepoint: '' (Sys EPERM))"
    by code_simp
  then obtain e w' where n: "NewCollector kernel_api ?w = (Inl e, w')"
    by (cases "NewCollector kernel_api ?w") auto
  show ?thesis
    using NewCollector_all_or_nothing [OF kernel_handles.reliable_runtime_axioms, of ?w] n by simp
qed

end
