(* ===== verification/SysmonRun.thy ===== *)
theory SysmonRun
  imports Render CollectorLifecycle
begin

text \<open>
  The program, \<open>run\<close> of \<open>src/cmd/sysmon/main.go\<close>: start-up, one tick of the loop, the signal
  handler and the deferred clean-up, as a state machine over the collectors, the loader and the
  display. What the system delivers at start-up and at each tick (the files of \<open>/proc\<close>, the
  result of \<open>statfs\<close>, the clock and the order in which the map of rates is visited) is a value
  of \<open>sources\<close>.
\<close>

section \<open>Sources and outputs\<close>

record 'e sources =
  open_proc :: "'e open_file"
  statfs_call :: "gostring \<Rightarrow> 'e + Statfs_t"
  clock :: int
  net_order :: "gostring list"

datatype stream = Stdout | Stderr

type_synonym writes = "(stream \<times> gostring) list"

text \<open>Errors that \<open>run\<close> returns: of the latency collector, or of one of the four collectors.\<close>

datatype stats_source = FromCPU | FromMem | FromDisk | FromNet

datatype 'e run_error = CollectorFailed "'e go_error" | StatsFailed stats_source "'e stats_error"

fun f_add :: "f64 \<Rightarrow> f64 \<Rightarrow> f64" where
  "f_add (Fin a) (Fin b) = fl (a + b)"
| "f_add (Inf s) (Fin b) = Inf s"
| "f_add (Fin a) (Inf t) = Inf t"
| "f_add (Inf s) (Inf t) = (if s = t then Inf s else NaN)"
| "f_add _ _ = NaN"

text \<open>\<open>Time.Sub\<close> on two clock readings in nanoseconds: a \<open>Duration\<close> of 64 bits, saturating.\<close>

definition time_sub :: "int \<Rightarrow> int \<Rightarrow> int" where
  "time_sub t u = max (- (2 ^ 63)) (min (2 ^ 63 - 1) (t - u))"

text \<open>\<open>Duration.Seconds\<close>: whole seconds plus the fraction, on a difference of nanoseconds.\<close>

definition duration_seconds :: "int \<Rightarrow> f64" where
  "duration_seconds d =
     (let sec = sgn d * (\<bar>d\<bar> div 1000000000);
          nsec = d - sec * 1000000000
      in f_add (fl (of_int sec)) (f_div (fl (of_int nsec)) (Fin 1000000000)))"

section \<open>The program\<close>

record 'w loop =
  lworld :: 'w
  lwrites :: writes
  bpfCol :: "Collector option"
  prevCPU :: "CPUTimes list"
  prevNet :: "NetIO list"
  lastSample :: int

datatype 'e exit_status =
    Returned "'e run_error" | NewTickerPanic | RenderPanic | SignalExit

datatype ('w, 'e) proc = Running "'w loop" | Ended "'e exit_status" 'w writes

text \<open>The deferred calls, in their order: closing the collector and showing the cursor.\<close>

definition leave ::
  "('w, 'e) bpf_api \<Rightarrow> Collector option \<Rightarrow> 'e exit_status \<Rightarrow> 'w \<Rightarrow> writes \<Rightarrow> ('w, 'e) proc" where
  "leave A col st w out =
     (let w = (case col of None \<Rightarrow> w | Some c \<Rightarrow> Collector_Close A c w)
      in Ended st w (out @ [(Stdout, showCursor)]))"

definition attached_message :: gostring where
  "attached_message =
     ''eBPF: attached to block_rq_issue and block_rq_complete tracepoints'' @ newline"

text \<open>What happens once the collector is there: the first samples and the ticker.\<close>

definition sampling_body ::
  "int \<Rightarrow> 'e sources \<Rightarrow> 'e exit_status + CPUTimes list \<times> NetIO list \<times> int" where
  "sampling_body interval os =
     (case ReadCPUTimes (open_proc os) of
        Inl err \<Rightarrow> Inl (Returned (StatsFailed FromCPU err))
      | Inr cpu \<Rightarrow>
          (case ReadNetIO (open_proc os) of
             Inl err \<Rightarrow> Inl (Returned (StatsFailed FromNet err))
           | Inr net \<Rightarrow>
               if interval \<le> 0 then Inl NewTickerPanic else Inr (cpu, net, clock os)))"

definition run_sampling ::
  "('w, 'e) bpf_api \<Rightarrow> int \<Rightarrow> 'e sources \<Rightarrow> Collector option \<Rightarrow> 'w \<Rightarrow> writes \<Rightarrow> ('w, 'e) proc" where
  "run_sampling A interval os col w out =
     (case sampling_body interval os of
        Inl st \<Rightarrow> leave A col st w out
      | Inr (cpu, net, now) \<Rightarrow>
          Running \<lparr>lworld = w, lwrites = out, bpfCol = col, prevCPU = cpu,
                   prevNet = net, lastSample = now\<rparr>)"

definition run_start ::
  "('w, 'e) bpf_api \<Rightarrow> int \<Rightarrow> bool \<Rightarrow> 'e sources \<Rightarrow> 'w \<Rightarrow> ('w, 'e) proc" where
  "run_start A interval useEBPF os w =
     (let out = [(Stdout, hideCursor)]
      in if useEBPF
         then (case NewCollector A w of
                 (Inl err, w) \<Rightarrow> leave A None (Returned (CollectorFailed err)) w out
               | (Inr c, w) \<Rightarrow>
                   run_sampling A interval os (Some c) w (out @ [(Stderr, attached_message)]))
         else run_sampling A interval os None w out)"

text \<open>Reading the histogram of the interval; both errors are ignored.\<close>

definition read_and_reset ::
  "('w, 'e) bpf_api \<Rightarrow> Collector option \<Rightarrow> 'w \<Rightarrow> LatencyBucket list \<times> 'w" where
  "read_and_reset A col w =
     (case col of
        None \<Rightarrow> ([], w)
      | Some c \<Rightarrow>
          (let latencyBuckets = (case ReadHistogram A c w of Inl err \<Rightarrow> [] | Inr bs \<Rightarrow> bs)
           in (latencyBuckets, snd (ResetHistogram A c w))))"

text \<open>The body of the loop: the reason to return, with the world then, or the next state.\<close>

definition tick_body ::
  "('w, 'e) bpf_api \<Rightarrow> (f64 \<Rightarrow> int) \<Rightarrow> (f64 \<Rightarrow> u64) \<Rightarrow> gostring \<Rightarrow> 'e sources \<Rightarrow> 'w loop \<Rightarrow>
     'e exit_status \<times> 'w + 'w loop" where
  "tick_body A oor oor64 mountPath os l =
     (let fail = (\<lambda>src err. Inl (Returned (StatsFailed src err), lworld l))
      in case ReadCPUTimes (open_proc os) of
           Inl err \<Rightarrow> fail FromCPU err
         | Inr curCPU \<Rightarrow>
        (case ReadMemInfo (open_proc os) of
           Inl err \<Rightarrow> fail FromMem err
         | Inr mem \<Rightarrow>
        (case ReadDiskUsage (statfs_call os) mountPath of
           Inl err \<Rightarrow> fail FromDisk err
         | Inr diskUsage \<Rightarrow>
        (case ReadNetIO (open_proc os) of
           Inl err \<Rightarrow> fail FromNet err
         | Inr curNet \<Rightarrow>
        (let now = clock os;
             elapsed = duration_seconds (time_sub now (lastSample l));
             cpuPct = CPUPercent (prevCPU l) curCPU;
             netRates = ComputeNetThroughput (prevNet l) curNet elapsed;
             (latencyBuckets, w) = read_and_reset A (bpfCol l) (lworld l)
         in case render oor oor64 (net_order os) cpuPct mem diskUsage netRates latencyBuckets of
              None \<Rightarrow> Inl (RenderPanic, w)
            | Some screen \<Rightarrow>
                Inr (l\<lparr>lworld := w, lwrites := lwrites l @ [(Stdout, screen)],
                  prevCPU := curCPU, prevNet := curNet, lastSample := now\<rparr>))))))"

definition run_tick ::
  "('w, 'e) bpf_api \<Rightarrow> (f64 \<Rightarrow> int) \<Rightarrow> (f64 \<Rightarrow> u64) \<Rightarrow> gostring \<Rightarrow> 'e sources \<Rightarrow> 'w loop \<Rightarrow>
     ('w, 'e) proc" where
  "run_tick A oor oor64 mountPath os l =
     (case tick_body A oor oor64 mountPath os l of
        Inl (st, w) \<Rightarrow> leave A (bpfCol l) st w (lwrites l)
      | Inr l \<Rightarrow> Running l)"

text \<open>The loop: a tick with whatever the system delivers, or an interrupt, which exits at once.\<close>

inductive proc_step ::
  "('w, 'e) bpf_api \<Rightarrow> (f64 \<Rightarrow> int) \<Rightarrow> (f64 \<Rightarrow> u64) \<Rightarrow> gostring \<Rightarrow> ('w, 'e) proc \<Rightarrow> ('w, 'e) proc \<Rightarrow> bool"
  for A oor oor64 mountPath where
  tick: "proc_step A oor oor64 mountPath (Running l) (run_tick A oor oor64 mountPath os l)"
| signal: "proc_step A oor oor64 mountPath (Running l)
     (Ended SignalExit (lworld l) (lwrites l @ [(Stdout, showCursor)]))"

inductive_cases proc_step_RunningE: "proc_step A oor oor64 mountPath (Running l) p"

inductive_simps proc_step_Ended [simp]: "proc_step A oor oor64 mountPath (Ended st w out) p"

inductive proc_reach ::
  "('w, 'e) bpf_api \<Rightarrow> (f64 \<Rightarrow> int) \<Rightarrow> (f64 \<Rightarrow> u64) \<Rightarrow> gostring \<Rightarrow> ('w, 'e) proc \<Rightarrow> ('w, 'e) proc \<Rightarrow> bool"
  for A oor oor64 mountPath p0 where
  here: "proc_reach A oor oor64 mountPath p0 p0"
| more: "proc_reach A oor oor64 mountPath p0 p \<Longrightarrow> proc_step A oor oor64 mountPath p p' \<Longrightarrow>
     proc_reach A oor oor64 mountPath p0 p'"

section \<open>The cursor\<close>

text \<open>Whether the terminal shows the cursor after the writes; other writes leave it as it is.\<close>

fun cursor_shown :: "bool \<Rightarrow> writes \<Rightarrow> bool" where
  "cursor_shown b [] \<longleftrightarrow> b"
| "cursor_shown b ((st, t) # out) \<longleftrightarrow>
     cursor_shown (if t = hideCursor then False else if t = showCursor then True else b) out"

lemma cursor_shown_append:
  "cursor_shown b (out @ [(st, t)]) \<longleftrightarrow>
     (if t = hideCursor then False else if t = showCursor then True else cursor_shown b out)"
  by (induction b out rule: cursor_shown.induct) auto

lemma cursor_texts: "hideCursor \<noteq> showCursor" "showCursor \<noteq> hideCursor" "attached_message \<noteq> hideCursor"
  "attached_message \<noteq> showCursor"
  by (simp_all add: hideCursor_def showCursor_def attached_message_def escape_def)

lemma screen_is_no_cursor_text:
  assumes "render oor oor64 order cpuPct mem disk net bs = Some screen"
  shows "screen \<noteq> hideCursor \<and> screen \<noteq> showCursor"
proof -
  have "take 3 screen = cursorHome"
    using assms by (auto simp: render_def render_header_def cursorHome_def escape_def bind_eq_Some_conv)
  then show ?thesis
    by (auto simp: hideCursor_def showCursor_def cursorHome_def escape_def)
qed

text \<open>The body of the loop fails in a collector, or prints one screen.\<close>

lemma tick_body_cases:
  "(\<exists>src err. tick_body A oor oor64 mountPath os l = Inl (Returned (StatsFailed src err), lworld l)) \<or>
   (\<exists>cpu net screen. tick_body A oor oor64 mountPath os l =
      Inr (l\<lparr>lworld := snd (read_and_reset A (bpfCol l) (lworld l)),
        lwrites := lwrites l @ [(Stdout, screen)],
        prevCPU := cpu, prevNet := net, lastSample := clock os\<rparr>) \<and>
      screen \<noteq> hideCursor \<and> screen \<noteq> showCursor)"
proof (cases "ReadCPUTimes (open_proc os)"; cases "ReadMemInfo (open_proc os)";
    cases "ReadDiskUsage (statfs_call os) mountPath"; cases "ReadNetIO (open_proc os)")
  fix cpu mem disk net
  assume reads: "ReadCPUTimes (open_proc os) = Inr cpu" "ReadMemInfo (open_proc os) = Inr mem"
    "ReadDiskUsage (statfs_call os) mountPath = Inr disk" "ReadNetIO (open_proc os) = Inr net"
  obtain screen where screen: "render oor oor64 (net_order os) (CPUPercent (prevCPU l) cpu) mem disk
      (ComputeNetThroughput (prevNet l) net (duration_seconds (time_sub (clock os) (lastSample l))))
      (fst (read_and_reset A (bpfCol l) (lworld l))) = Some screen"
    using render_parts_Some by blast
  then have "tick_body A oor oor64 mountPath os l =
      Inr (l\<lparr>lworld := snd (read_and_reset A (bpfCol l) (lworld l)),
        lwrites := lwrites l @ [(Stdout, screen)],
        prevCPU := cpu, prevNet := net, lastSample := clock os\<rparr>)"
    using reads by (cases "read_and_reset A (bpfCol l) (lworld l)") (simp add: tick_body_def Let_def)
  then show ?thesis using screen_is_no_cursor_text [OF screen] by blast
qed (simp_all add: tick_body_def)

section \<open>The life of a run\<close>

text \<open>Updating an element of a map opens and closes no handle.\<close>

locale collector_runtime = reliable_runtime +
  assumes put_held: "held (snd (map_put A h i v w)) = held w"
begin

text \<open>The handles of the process when the collector is \<open>col\<close> and it started with those of \<open>w0\<close>.\<close>

definition col_held :: "'a \<Rightarrow> Collector option \<Rightarrow> 'a \<Rightarrow> bool" where
  "col_held w0 col w \<longleftrightarrow>
     (case col of
        None \<Rightarrow> held w = held w0
      | Some c \<Rightarrow> held w = held w0 \<union> collector_handles \<and> links c = collector_links)"

definition proc_ok :: "'a \<Rightarrow> ('a, 'b) proc \<Rightarrow> bool" where
  "proc_ok w0 p \<longleftrightarrow>
     (case p of
        Running l \<Rightarrow> \<not> cursor_shown True (lwrites l) \<and> col_held w0 (bpfCol l) (lworld l)
      | Ended st w out \<Rightarrow> cursor_shown True out \<and> st \<noteq> RenderPanic \<and>
          (st = SignalExit \<or> held w = held w0))"

lemma reset_held: "held (snd (reset_buckets A i w)) = held w"
  by (rule reset_buckets_rule) (simp_all add: put_held)

lemma read_and_reset_held: "held (snd (read_and_reset A col w)) = held w"
  by (auto simp: read_and_reset_def ResetHistogram_def reset_held Let_def split: option.splits)

lemma leave_ok:
  assumes "held w0 \<inter> collector_handles = {}" and "col_held w0 col w" and "st \<noteq> RenderPanic"
  shows "proc_ok w0 (leave A col st w out)"
proof (cases col)
  case None
  then show ?thesis using assms
    by (simp add: leave_def proc_ok_def col_held_def cursor_shown_append cursor_texts)
next
  case (Some c)
  then have "held (Collector_Close A c w) = held w - collector_handles"
    using assms(2) by (intro collector_close) (auto simp: col_held_def)
  then show ?thesis using assms Some cursor_texts
    by (auto simp: leave_def proc_ok_def col_held_def cursor_shown_append)
qed

lemma sampling_ok:
  assumes "held w0 \<inter> collector_handles = {}" and "col_held w0 col w"
    and "\<not> cursor_shown True out"
  shows "proc_ok w0 (run_sampling A interval os col w out)"
  using assms leave_ok [OF assms(1,2)]
  by (auto simp: run_sampling_def sampling_body_def proc_ok_def [of w0 "Running _"] split: sum.split)

lemma start_ok:
  assumes fresh: "held w0 \<inter> collector_handles = {}"
  shows "proc_ok w0 (run_start A interval useEBPF os w0)"
proof -
  have hidden: "\<not> cursor_shown True [(Stdout, hideCursor)]"
    "\<not> cursor_shown True [(Stdout, hideCursor), (Stderr, attached_message)]"
    by (simp_all add: cursor_texts)
  obtain r w where n: "NewCollector A w0 = (r, w)" by (rule prod.exhaust)
  note cases = new_collector_cases [OF fresh n]
  have none: "col_held w0 None w0" by (simp add: col_held_def)
  show ?thesis
  proof (cases r)
    case (Inl err)
    then have "col_held w0 None w" using cases by (simp add: col_held_def)
    then show ?thesis
      using n Inl leave_ok [OF fresh] sampling_ok [OF fresh none hidden(1)]
      by (simp add: run_start_def Let_def)
  next
    case (Inr c)
    then have "col_held w0 (Some c) w" using cases by (simp add: col_held_def)
    then show ?thesis
      using n Inr sampling_ok [OF fresh _ hidden(2)] sampling_ok [OF fresh none hidden(1)]
      by (simp add: run_start_def Let_def)
  qed
qed

lemma tick_body_next:
  assumes "tick_body A oor oor64 mountPath os l = Inr l'"
  shows "held (lworld l') = held (lworld l) \<and> bpfCol l' = bpfCol l \<and>
    (\<exists>screen. lwrites l' = lwrites l @ [(Stdout, screen)] \<and> screen \<noteq> hideCursor \<and> screen \<noteq> showCursor)"
proof -
  obtain screen cpu net where "l' = l\<lparr>lworld := snd (read_and_reset A (bpfCol l) (lworld l)),
      lwrites := lwrites l @ [(Stdout, screen)],
      prevCPU := cpu, prevNet := net, lastSample := clock os\<rparr>"
    "screen \<noteq> hideCursor \<and> screen \<noteq> showCursor"
    using assms tick_body_cases [of A oor oor64 mountPath os l] by auto
  then show ?thesis by (simp add: read_and_reset_held)
qed

lemma tick_ok:
  assumes fresh: "held w0 \<inter> collector_handles = {}" and ok: "proc_ok w0 (Running l)"
  shows "proc_ok w0 (run_tick A oor oor64 mountPath os l)"
proof (cases "tick_body A oor oor64 mountPath os l")
  case (Inl r)
  then obtain st w where r: "tick_body A oor oor64 mountPath os l = Inl (st, w)" by (cases r) auto
  from tick_body_cases [of A oor oor64 mountPath os l] ok show ?thesis
    by (auto simp: run_tick_def r proc_ok_def [of w0 "Running _"] intro!: leave_ok [OF fresh])
next
  case (Inr l')
  from tick_body_next [OF this] ok show ?thesis
    by (auto simp: run_tick_def Inr proc_ok_def col_held_def cursor_shown_append split: option.splits)
qed

lemma reach_ok:
  assumes "held w0 \<inter> collector_handles = {}"
    and "proc_reach A oor oor64 mountPath (run_start A interval useEBPF os w0) p"
  shows "proc_ok w0 p"
  using assms(2)
proof (induction rule: proc_reach.induct)
  case here
  show ?case by (rule start_ok [OF assms(1)])
next
  case (more p p')
  show ?case
  proof (cases p)
    case (Running l)
    with more.hyps(2) show ?thesis
      using tick_ok [OF assms(1)] more.IH cursor_texts
      by (auto elim!: proc_step_RunningE simp: proc_ok_def [of w0 "Ended SignalExit _ _"] cursor_shown_append)
  next
    case (Ended st w out)
    with more.hyps(2) show ?thesis by simp
  qed
qed

end

interpretation kernel_run: collector_runtime kernel_api "\<lambda>w. set (opened w)"
  by unfold_locales (auto simp: kernel_api_def split: prod.split)

section \<open>Properties\<close>

text \<open>
  However a run ends, by an error at start-up or in any later tick, by the panic of the
  ticker or by a signal, the cursor is visible again; no run ends by a panic while rendering;
  and except after a signal, which exits at once, the process holds exactly the kernel handles
  it held before the run, with or without the latency collector.
\<close>

lemma run_cleans_up:
  assumes "collector_runtime A held" and "held w0 \<inter> collector_handles = {}"
    and "proc_reach A oor oor64 mountPath (run_start A interval useEBPF os w0) (Ended st w out)"
  shows "cursor_shown True out \<and> st \<noteq> RenderPanic \<and> (st = SignalExit \<or> held w = held w0)"
  using collector_runtime.reach_ok [OF assms]
    collector_runtime.proc_ok_def [OF assms(1), of w0 "Ended st w out"] by simp

text \<open>A run with the collector in a system whose \<open>/proc/stat\<close> cannot be opened.\<close>

definition no_proc :: "int sources" where
  "no_proc = \<lparr>open_proc = (\<lambda>_. Inl ENOENT), statfs_call = (\<lambda>_. Inl ENOENT), clock = 0, net_order = []\<rparr>"

definition fresh_world :: world where
  "fresh_world = \<lparr>kmaps = initial_maps, opened = [], refused = []\<rparr>"

text \<open>
  C13. A tick continues exactly when the four collectors succeed, and then prints one screen
  computed from this sample and the previous one, with the elapsed time between the two, and
  keeps this sample for the next tick.
\<close>

theorem tick_outcome:
  "(run_tick A oor oor64 mountPath os l = Running l' \<longleftrightarrow>
     (\<exists>cpu mem disk net screen.
        ReadCPUTimes (open_proc os) = Inr cpu \<and> ReadMemInfo (open_proc os) = Inr mem \<and>
        ReadDiskUsage (statfs_call os) mountPath = Inr disk \<and> ReadNetIO (open_proc os) = Inr net \<and>
        render oor oor64 (net_order os) (CPUPercent (prevCPU l) cpu) mem disk
          (ComputeNetThroughput (prevNet l) net (duration_seconds (time_sub (clock os) (lastSample l))))
          (fst (read_and_reset A (bpfCol l) (lworld l))) = Some screen \<and>
        l' = l\<lparr>lworld := snd (read_and_reset A (bpfCol l) (lworld l)),
               lwrites := lwrites l @ [(Stdout, screen)],
               prevCPU := cpu, prevNet := net, lastSample := clock os\<rparr>)) \<and>
   ((\<exists>l'. run_tick A oor oor64 mountPath os l = Running l') \<longleftrightarrow>
      \<not> isl (ReadCPUTimes (open_proc os)) \<and> \<not> isl (ReadMemInfo (open_proc os)) \<and>
      \<not> isl (ReadDiskUsage (statfs_call os) mountPath) \<and> \<not> isl (ReadNetIO (open_proc os)))"
proof (cases "ReadCPUTimes (open_proc os)"; cases "ReadMemInfo (open_proc os)";
    cases "ReadDiskUsage (statfs_call os) mountPath"; cases "ReadNetIO (open_proc os)")
  fix cpu mem disk net
  assume reads: "ReadCPUTimes (open_proc os) = Inr cpu" "ReadMemInfo (open_proc os) = Inr mem"
    "ReadDiskUsage (statfs_call os) mountPath = Inr disk" "ReadNetIO (open_proc os) = Inr net"
  obtain screen where screen: "render oor oor64 (net_order os) (CPUPercent (prevCPU l) cpu) mem disk
      (ComputeNetThroughput (prevNet l) net (duration_seconds (time_sub (clock os) (lastSample l))))
      (fst (read_and_reset A (bpfCol l) (lworld l))) = Some screen"
    using render_parts_Some by blast
  show ?thesis using reads screen
    by (cases "read_and_reset A (bpfCol l) (lworld l)") (auto simp: run_tick_def tick_body_def Let_def)
qed (simp_all add: run_tick_def tick_body_def leave_def Let_def)

text \<open>
  The \<open>-interval\<close> flag is not checked: with an interval of zero or less the run gets as far
  as creating the ticker and panics there, whenever the first samples can be read.
\<close>

lemma nonpositive_interval_panics:
  assumes "interval \<le> 0" and "ReadCPUTimes (open_proc os) = Inr cpu"
    and "ReadNetIO (open_proc os) = Inr net"
  shows "run_start A interval False os w =
    Ended NewTickerPanic w [(Stdout, hideCursor), (Stdout, showCursor)]"
  using assms by (simp add: run_start_def run_sampling_def sampling_body_def leave_def)

text \<open>A system whose files are all empty: the first samples can be read.\<close>

definition empty_proc :: "int sources" where
  "empty_proc = \<lparr>open_proc = (\<lambda>_. Inr \<lparr>content = [], read_error = None\<rparr>),
     statfs_call = (\<lambda>_. Inl ENOENT), clock = 0, net_order = []\<rparr>"

lemma empty_proc_samples:
  "ReadCPUTimes (open_proc empty_proc) = Inr []" "ReadNetIO (open_proc empty_proc) = Inr []"
  by (simp_all add: empty_proc_def ReadCPUTimes_def ReadNetIO_def ParseCPUTimes_def ParseNetIO_def
      scan_lines_def finish_scan_def)

end
