(* ===== verification/Sessions.thy ===== *)
theory Sessions
  imports SysmonRun
begin

text \<open>
  Kernel and display together over any number of refreshes: between two ticks of \<open>run\<close>
  (\<open>src/cmd/sysmon/main.go\<close>) the handlers of \<open>src/internal/ebpf/block_latency.c\<close> fire on raw
  contexts and update the maps; the tick reads and resets the histogram through
  \<open>src/internal/ebpf/loader.go\<close> and prints a screen. The locale \<open>displayed_maps\<close> joins the
  interface of the handlers (\<open>latency_maps\<close>) and that of the loader (\<open>histogram_map\<close>) on one
  world; it is interpreted on the typed maps and on the maps as bytes.
\<close>

declare of_nat_unat [simp del]

section \<open>What a screen shows\<close>

text \<open>The buckets of the samples \<open>us\<close>, as the loader labels them.\<close>

definition histogram_of :: "u64 list \<Rightarrow> LatencyBucket list" where
  "histogram_of us =
     map (\<lambda>i. \<lparr>Label = bucketLabel (word_of_nat i),
               Count = word_of_nat (bucket_count (word_of_nat i) us)\<rparr>) [0..<24]"

text \<open>The screen ends with the latency section of the samples \<open>us\<close>.\<close>

definition shows_samples :: "(f64 \<Rightarrow> int) \<Rightarrow> u64 list \<Rightarrow> gostring \<Rightarrow> bool" where
  "shows_samples oor us screen \<longleftrightarrow>
     (case render_latency oor (histogram_of us) of
        None \<Rightarrow> False
      | Some latency \<Rightarrow> has_suffix screen latency)"

lemma render_ends_with_latency:
  assumes "render oor oor64 order cpuPct mem disk net (histogram_of us) = Some screen"
  shows "shows_samples oor us screen"
proof -
  obtain front latency where "render_latency oor (histogram_of us) = Some latency"
    "screen = front @ latency"
    using assms by (auto simp: render_def bind_eq_Some_conv append_assoc [symmetric] simp del: append_assoc)
  then show ?thesis by (simp add: shows_samples_def)
qed

text \<open>The samples completed in each of the intervals between the ticks.\<close>

fun interval_samples :: "nat \<Rightarrow> rq_event list list \<Rightarrow> monitor \<Rightarrow> u64 list list" where
  "interval_samples cap [] m = []"
| "interval_samples cap (es # ess) m =
     (let m = monitor_run cap es (m\<lparr>samples := []\<rparr>)
      in samples m # interval_samples cap ess m)"

lemma length_interval_samples [simp]: "length (interval_samples cap ess m) = length ess"
  by (induction ess arbitrary: m) (simp_all add: Let_def)

lemma empty_monitor_samples [simp]: "empty_monitor\<lparr>samples := []\<rparr> = empty_monitor"
  by (simp add: empty_monitor_def)

lemma monitor_run_append: "monitor_run cap (es @ fs) m = monitor_run cap fs (monitor_run cap es m)"
  by (simp add: monitor_run_def)

text \<open>The samples already taken have no influence on the next ones.\<close>

lemma monitor_step_samples:
  "monitor_step cap e (m\<lparr>samples := us\<rparr>) =
     (monitor_step cap e (m\<lparr>samples := []\<rparr>))
       \<lparr>samples := samples (monitor_step cap e (m\<lparr>samples := []\<rparr>)) @ us\<rparr>"
  by (cases e) (auto split: option.split)

lemma monitor_run_samples:
  "monitor_run cap es (m\<lparr>samples := us\<rparr>) =
     (monitor_run cap es (m\<lparr>samples := []\<rparr>))
       \<lparr>samples := samples (monitor_run cap es (m\<lparr>samples := []\<rparr>)) @ us\<rparr>"
proof (induction es arbitrary: m us)
  case Nil
  then show ?case by (simp add: monitor_run_def)
next
  case (Cons e es)
  let ?n = "monitor_step cap e (m\<lparr>samples := []\<rparr>)"
  have run: "monitor_run cap (e # es) n = monitor_run cap es (monitor_step cap e n)" for n
    by (simp add: monitor_run_def)
  show ?case
    using Cons.IH [where m = ?n and us = "samples ?n @ us"] Cons.IH [where m = ?n and us = "samples ?n"]
    by (simp add: run monitor_step_samples [where m = m and us = us])
qed

text \<open>Nothing is shown twice or lost between the ticks of a sequential run.\<close>

lemma interval_samples_concat:
  "concat (rev (interval_samples cap ess m)) =
     samples (monitor_run cap (concat ess) (m\<lparr>samples := []\<rparr>))"
proof (induction ess arbitrary: m)
  case Nil
  then show ?case by (simp add: monitor_run_def)
next
  case (Cons es ess)
  let ?m = "monitor_run cap es (m\<lparr>samples := []\<rparr>)"
  show ?case
    using Cons.IH [of ?m] monitor_run_samples [where m = ?m and us = "samples ?m"]
    by (simp add: monitor_run_append Let_def)
qed

section \<open>A session\<close>

text \<open>
  \<open>session\<close> runs the loop of the program: before each tick the kernel does \<open>fire k\<close> to the
  world, and the tick runs on what the system delivers then.
\<close>

fun session ::
  "('w, 'e) bpf_api \<Rightarrow> (f64 \<Rightarrow> int) \<Rightarrow> (f64 \<Rightarrow> u64) \<Rightarrow> gostring \<Rightarrow> ('k \<Rightarrow> 'w \<Rightarrow> 'w) \<Rightarrow>
     ('k \<times> 'e sources) list \<Rightarrow> 'w loop \<Rightarrow> ('w, 'e) proc" where
  "session A oor oor64 mountPath fire [] l = Running l"
| "session A oor oor64 mountPath fire ((k, os) # ticks) l =
     (case run_tick A oor oor64 mountPath os (l\<lparr>lworld := fire k (lworld l)\<rparr>) of
        Running l \<Rightarrow> session A oor oor64 mountPath fire ticks l
      | Ended st w out \<Rightarrow> Ended st w out)"

text \<open>The four collectors succeed on what the system delivers.\<close>

definition sources_ok :: "gostring \<Rightarrow> 'e sources \<Rightarrow> bool" where
  "sources_ok mountPath os \<longleftrightarrow>
     \<not> isl (ReadCPUTimes (open_proc os)) \<and> \<not> isl (ReadMemInfo (open_proc os)) \<and>
     \<not> isl (ReadDiskUsage (statfs_call os) mountPath) \<and> \<not> isl (ReadNetIO (open_proc os))"

lemma tick_prints:
  assumes "sources_ok mountPath os" and "read_and_reset A (bpfCol l) (lworld l) = (histogram_of us, w)"
  shows "\<exists>l' screen. run_tick A oor oor64 mountPath os l = Running l' \<and> lworld l' = w \<and>
    bpfCol l' = bpfCol l \<and> lwrites l' = lwrites l @ [(Stdout, screen)] \<and> shows_samples oor us screen"
proof -
  obtain cpu mem disk net where reads: "ReadCPUTimes (open_proc os) = Inr cpu"
    "ReadMemInfo (open_proc os) = Inr mem" "ReadDiskUsage (statfs_call os) mountPath = Inr disk"
    "ReadNetIO (open_proc os) = Inr net"
    using assms(1) by (cases "ReadCPUTimes (open_proc os)"; cases "ReadMemInfo (open_proc os)";
        cases "ReadDiskUsage (statfs_call os) mountPath"; cases "ReadNetIO (open_proc os)")
      (simp_all add: sources_ok_def)
  obtain screen where screen: "render oor oor64 (net_order os) (CPUPercent (prevCPU l) cpu) mem disk
      (ComputeNetThroughput (prevNet l) net (duration_seconds (time_sub (clock os) (lastSample l))))
      (histogram_of us) = Some screen"
    using render_parts_Some by blast
  from render_ends_with_latency [OF this] show ?thesis
    using reads screen assms(2) by (simp add: run_tick_def tick_body_def Let_def)
qed

section \<open>Kernel and loader on one world\<close>

text \<open>
  \<open>maps w\<close> are the maps in the world \<open>w\<close>. A map update of the loader changes one element of
  the histogram and leaves the start times alone.
\<close>

locale displayed_maps =
  latency_maps H hinv cap ainv size + histogram_map A "\<lambda>w. hist_lookup H (io_latency_hist (maps w))"
  for H :: "('h, 'a) bpf_helpers" and hinv cap ainv size
    and A :: "('w, 'e) bpf_api" and maps :: "'w \<Rightarrow> ('h, 'a) bpf_maps" +
  fixes set_maps :: "('h, 'a) bpf_maps \<Rightarrow> 'w \<Rightarrow> 'w"
  assumes maps_set: "maps (set_maps s w) = s"
    and put_starts: "start_times (maps (snd (map_put A IoLatencyHist i v w))) = start_times (maps w)"
    and put_invar: "ainv (io_latency_hist (maps w)) \<Longrightarrow>
      ainv (io_latency_hist (maps (snd (map_put A IoLatencyHist i v w))))"
begin

definition maps_ok :: "monitor \<Rightarrow> 'w \<Rightarrow> bool" where
  "maps_ok m w \<longleftrightarrow> hinv (start_times (maps w)) \<and> ainv (io_latency_hist (maps w)) \<and>
     represents H (\<lambda>_. 0) (maps w) m"

definition fire_maps :: "rq_event list \<Rightarrow> 'w \<Rightarrow> 'w" where
  "fire_maps es w = set_maps (run_events H es (maps w)) w"

lemma fire_ok: "maps_ok m w \<Longrightarrow> maps_ok (monitor_run cap es m) (fire_maps es w)"
  using run_refines run_invar by (auto simp: maps_ok_def fire_maps_def maps_set)

lemma reset_rest:
  "start_times (maps (snd (reset_buckets A i w))) = start_times (maps w) \<and>
   (ainv (io_latency_hist (maps w)) \<longrightarrow> ainv (io_latency_hist (maps (snd (reset_buckets A i w)))))"
  by (rule reset_buckets_rule) (simp_all add: put_starts put_invar)

lemma read_and_reset_interval:
  assumes "maps_ok m w"
  shows "\<exists>w'. read_and_reset A (Some c) w = (histogram_of (samples m), w') \<and>
    maps_ok (m\<lparr>samples := []\<rparr>) w'"
proof (intro exI conjI)
  have rep: "represents H (\<lambda>_. 0) (maps w) m" using assms by (simp add: maps_ok_def)
  then have "ReadHistogram A c w = Inr (histogram_of (samples m))"
    by (simp add: read_all histogram_of_def represents_def bucket_entry_def unat_of_nat)
  then show "read_and_reset A (Some c) w = (histogram_of (samples m), snd (ResetHistogram A c w))"
    by (simp add: read_and_reset_def)
  have "\<forall>k. k < histBuckets \<longrightarrow> hist_lookup H (io_latency_hist (maps w)) k \<noteq> None"
    using rep by (simp add: represents_def below_histBuckets)
  from reset_all [OF this, of c] show "maps_ok (m\<lparr>samples := []\<rparr>) (snd (ResetHistogram A c w))"
    using assms reset_rest [of 0 w]
    by (simp add: maps_ok_def represents_def below_histBuckets ResetHistogram_def)
qed

text \<open>Every screen shows exactly the samples of its interval.\<close>

lemma session_shows:
  assumes "maps_ok (m\<lparr>samples := []\<rparr>) (lworld l)" and "bpfCol l = Some c"
    and "\<And>k w. k \<in> fst ` set ticks \<Longrightarrow> fire k w = fire_maps (evs k) w"
    and "\<And>os. os \<in> snd ` set ticks \<Longrightarrow> sources_ok mountPath os"
  shows "\<exists>l' screens. session A oor oor64 mountPath fire ticks l = Running l' \<and>
    lwrites l' = lwrites l @ map (Pair Stdout) screens \<and>
    list_all2 (shows_samples oor) (interval_samples cap (map (evs \<circ> fst) ticks) m) screens"
  using assms
proof (induction ticks arbitrary: l m)
  case Nil
  then show ?case by simp
next
  case (Cons tick ticks)
  obtain k os where tick: "tick = (k, os)" by (rule prod.exhaust)
  let ?m = "monitor_run cap (evs k) (m\<lparr>samples := []\<rparr>)"
  let ?l = "l\<lparr>lworld := fire k (lworld l)\<rparr>"
  have "maps_ok ?m (lworld ?l)"
    using fire_ok [OF Cons.prems(1)] Cons.prems(3) [of k] by (simp add: tick)
  then obtain w' where w': "read_and_reset A (Some c) (lworld ?l) = (histogram_of (samples ?m), w')"
    "maps_ok (?m\<lparr>samples := []\<rparr>) w'"
    using read_and_reset_interval by blast
  obtain l' screen where l': "run_tick A oor oor64 mountPath os ?l = Running l'" "lworld l' = w'"
    "bpfCol l' = Some c" "lwrites l' = lwrites l @ [(Stdout, screen)]"
    "shows_samples oor (samples ?m) screen"
    using tick_prints [of mountPath os A ?l "samples ?m" w' oor oor64] w'(1) Cons.prems(2)
      Cons.prems(4) [of os] by (auto simp: tick)
  have "\<exists>l'' screens. session A oor oor64 mountPath fire ticks l' = Running l'' \<and>
      lwrites l'' = lwrites l' @ map (Pair Stdout) screens \<and>
      list_all2 (shows_samples oor) (interval_samples cap (map (evs \<circ> fst) ticks) ?m) screens"
  proof (rule Cons.IH)
    show "maps_ok (?m\<lparr>samples := []\<rparr>) (lworld l')" using w'(2) l'(2) by simp
    show "bpfCol l' = Some c" by (rule l'(3))
  qed (use Cons.prems(3,4) in auto)
  then obtain l'' screens where "session A oor oor64 mountPath fire ticks l' = Running l''"
    "lwrites l'' = lwrites l @ map (Pair Stdout) (screen # screens)"
    "list_all2 (shows_samples oor) (interval_samples cap (map (evs \<circ> fst) (tick # ticks)) m)
      (screen # screens)"
    using l' by (auto simp: tick Let_def)
  then show ?case using l'(1) by (intro exI [of _ l''] exI [of _ "screen # screens"]) (simp add: tick o_def)
qed

end

section \<open>The typed maps\<close>

interpretation kernel_display: displayed_maps kernel_helpers
  "hash_invar start_times_max_entries" start_times_max_entries
  "array_invar io_latency_hist_max_entries" io_latency_hist_max_entries
  kernel_api kmaps "\<lambda>s w. w\<lparr>kmaps := s\<rparr>"
  by unfold_locales (simp_all add: put_keeps_rest array_invar_def)

lemma kernel_display_start:
  "kmaps w = initial_maps \<Longrightarrow> kernel_display.maps_ok empty_monitor w"
  using initial_invar initial_represents
  by (simp add: kernel_display.maps_ok_def empty_monitor_def)

end
