(* ===== verification/VmlinuxTrace1.thy ===== *)
theory VmlinuxTrace1
  imports VmlinuxTypes
begin

text \<open>
  Tracepoint context structures of \<^verbatim>\<open>src/internal/ebpf/vmlinux.h\<close>, lines 144904 to 145891:
  \<^verbatim>\<open>trace_event_raw_ack_update_msk\<close> to
  \<^verbatim>\<open>trace_event_raw_dma_alloc_class\<close>, one definition per structure, members in order.
\<close>

definition trace_event_raw_ack_update_msk :: ctype where
  "trace_event_raw_ack_update_msk = CStruct ''trace_event_raw_ack_update_msk'' False [
     (''ent'', trace_entry),
     (''data_ack'', c_u64),
     (''old_snd_una'', c_u64),
     (''new_snd_una'', c_u64),
     (''new_wnd_end'', c_u64),
     (''msk_wnd_end'', c_u64),
     (''__data'', CArray c_char 0)]"

definition trace_event_raw_aer_event :: ctype where
  "trace_event_raw_aer_event = CStruct ''trace_event_raw_aer_event'' False [
     (''ent'', trace_entry),
     (''__data_loc_dev_name'', c_u32),
     (''status'', c_u32),
     (''severity'', c_u8),
     (''tlp_header_valid'', c_u8),
     (''tlp_header'', CArray c_u32 14),
     (''__data_loc_bus_type'', c_u32),
     (''__data'', CArray c_char 0)]"

definition trace_event_raw_alarm_class :: ctype where
  "trace_event_raw_alarm_class = CStruct ''trace_event_raw_alarm_class'' False [
     (''ent'', trace_entry),
     (''alarm'', CPtr ''void''),
     (''alarm_type'', c_unsigned_char),
     (''expires'', c_s64),
     (''now'', c_s64),
     (''__data'', CArray c_char 0)]"

definition trace_event_raw_alarmtimer_suspend :: ctype where
  "trace_event_raw_alarmtimer_suspend = CStruct ''trace_event_raw_alarmtimer_suspend'' False [
     (''ent'', trace_entry),
     (''expires'', c_s64),
     (''alarm_type'', c_unsigned_char),
     (''__data'', CArray c_char 0)]"

definition trace_event_raw_alloc_vmap_area :: ctype where
  "trace_event_raw_alloc_vmap_area = CStruct ''trace_event_raw_alloc_vmap_area'' False [
     (''ent'', trace_entry),
     (''addr'', c_long_unsigned_int),
     (''size'', c_long_unsigned_int),
     (''align'', c_long_unsigned_int),
     (''vstart'', c_long_unsigned_int),
     (''vend'', c_long_unsigned_int),
     (''failed'', c_int),
     (''__data'', CArray c_char 0)]"

definition trace_event_raw_amd_pstate_epp_perf :: ctype where
  "trace_event_raw_amd_pstate_epp_perf = CStruct ''trace_event_raw_amd_pstate_epp_perf'' False [
     (''ent'', trace_entry),
     (''cpu_id'', c_unsigned_int),
     (''highest_perf'', c_u8),
     (''epp'', c_u8),
     (''min_perf'', c_u8),
     (''max_perf'', c_u8),
     (''boost'', c_bool),
     (''changed'', c_bool),
     (''__data'', CArray c_char 0)]"

definition trace_event_raw_amd_pstate_perf :: ctype where
  "trace_event_raw_amd_pstate_perf = CStruct ''trace_event_raw_amd_pstate_perf'' False [
     (''ent'', trace_entry),
     (''min_perf'', c_u8),
     (''target_perf'', c_u8),
     (''capacity'', c_u8),
     (''freq'', c_long_long_unsigned_int),
     (''mperf'', c_long_long_unsigned_int),
     (''aperf'', c_long_long_unsigned_int),
     (''tsc'', c_long_long_unsigned_int),
     (''cpu_id'', c_unsigned_int),
     (''fast_switch'', c_bool),
     (''__data'', CArray c_char 0)]"

definition trace_event_raw_arm_event :: ctype where
  "trace_event_raw_arm_event = CStruct ''trace_event_raw_arm_event'' False [
     (''ent'', trace_entry),
     (''mpidr'', c_u64),
     (''midr'', c_u64),
     (''running_state'', c_u32),
     (''psci_state'', c_u32),
     (''affinity'', c_u8),
     (''pei_len'', c_u32),
     (''__data_loc_pei_buf'', c_u32),
     (''ctx_len'', c_u32),
     (''__data_loc_ctx_buf'', c_u32),
     (''oem_len'', c_u32),
     (''__data_loc_oem_buf'', c_u32),
     (''sev'', c_u8),
     (''cpu'', c_int),
     (''__data'', CArray c_char 0)]"

definition trace_event_raw_ata_bmdma_status :: ctype where
  "trace_event_raw_ata_bmdma_status = CStruct ''trace_event_raw_ata_bmdma_status'' False [
     (''ent'', trace_entry),
     (''ata_port'', c_unsigned_int),
     (''tag'', c_unsigned_int),
     (''host_stat'', c_unsigned_char),
     (''__data'', CArray c_char 0)]"

definition trace_event_raw_ata_eh_action_template :: ctype where
  "trace_event_raw_ata_eh_action_template = CStruct ''trace_event_raw_ata_eh_action_template'' False [
     (''ent'', trace_entry),
     (''ata_port'', c_unsigned_int),
     (''ata_dev'', c_unsigned_int),
     (''eh_action'', c_unsigned_int),
     (''__data'', CArray c_char 0)]"

definition trace_event_raw_ata_eh_link_autopsy :: ctype where
  "trace_event_raw_ata_eh_link_autopsy = CStruct ''trace_event_raw_ata_eh_link_autopsy'' False [
     (''ent'', trace_entry),
     (''ata_port'', c_unsigned_int),
     (''ata_dev'', c_unsigned_int),
     (''eh_action'', c_unsigned_int),
     (''eh_err_mask'', c_unsigned_int),
     (''__data'', CArray c_char 0)]"

definition trace_event_raw_ata_eh_link_autopsy_qc :: ctype where
  "trace_event_raw_ata_eh_link_autopsy_qc = CStruct ''trace_event_raw_ata_eh_link_autopsy_qc'' False [
     (''ent'', trace_entry),
     (''ata_port'', c_unsigned_int),
     (''ata_dev'', c_unsigned_int),
     (''tag'', c_unsigned_int),
     (''qc_flags'', c_unsigned_int),
     (''eh_err_mask'', c_unsigned_int),
     (''__data'', CArray c_char 0)]"

definition trace_event_raw_ata_exec_command_template :: ctype where
  "trace_event_raw_ata_exec_command_template = CStruct ''trace_event_raw_ata_exec_command_template'' False [
     (''ent'', trace_entry),
     (''ata_port'', c_unsigned_int),
     (''tag'', c_unsigned_int),
     (''cmd'', c_unsigned_char),
     (''feature'', c_unsigned_char),
     (''hob_nsect'', c_unsigned_char),
     (''proto'', c_unsigned_char),
     (''__data'', CArray c_char 0)]"

definition trace_event_raw_ata_link_reset_begin_template :: ctype where
  "trace_event_raw_ata_link_reset_begin_template = CStruct ''trace_event_raw_ata_link_reset_begin_template'' False [
     (''ent'', trace_entry),
     (''ata_port'', c_unsigned_int),
     (''class'', CArray c_unsigned_int 2),
     (''deadline'', c_long_unsigned_int),
     (''__data'', CArray c_char 0)]"

definition trace_event_raw_ata_link_reset_end_template :: ctype where
  "trace_event_raw_ata_link_reset_end_template = CStruct ''trace_event_raw_ata_link_reset_end_template'' False [
     (''ent'', trace_entry),
     (''ata_port'', c_unsigned_int),
     (''class'', CArray c_unsigned_int 2),
     (''rc'', c_int),
     (''__data'', CArray c_char 0)]"

definition trace_event_raw_ata_port_eh_begin_template :: ctype where
  "trace_event_raw_ata_port_eh_begin_template = CStruct ''trace_event_raw_ata_port_eh_begin_template'' False [
     (''ent'', trace_entry),
     (''ata_port'', c_unsigned_int),
     (''__data'', CArray c_char 0)]"

definition trace_event_raw_ata_qc_complete_template :: ctype where
  "trace_event_raw_ata_qc_complete_template = CStruct ''trace_event_raw_ata_qc_complete_template'' False [
     (''ent'', trace_entry),
     (''ata_port'', c_unsigned_int),
     (''ata_dev'', c_unsigned_int),
     (''tag'', c_unsigned_int),
     (''status'', c_unsigned_char),
     (''dev'', c_unsigned_char),
     (''lbal'', c_unsigned_char),
     (''lbam'', c_unsigned_char),
     (''lbah'', c_unsigned_char),
     (''nsect'', c_unsigned_char),
     (''error'', c_unsigned_char),
     (''hob_lbal'', c_unsigned_char),
     (''hob_lbam'', c_unsigned_char),
     (''hob_lbah'', c_unsigned_char),
     (''hob_nsect'', c_unsigned_char),
     (''hob_feature'', c_unsigned_char),
     (''ctl'', c_unsigned_char),
     (''flags'', c_long_unsigned_int),
     (''__data'', CArray c_char 0)]"

definition trace_event_raw_ata_qc_issue_template :: ctype where
  "trace_event_raw_ata_qc_issue_template = CStruct ''trace_event_raw_ata_qc_issue_template'' False [
     (''ent'', trace_entry),
     (''ata_port'', c_unsigned_int),
     (''ata_dev'', c_unsigned_int),
     (''tag'', c_unsigned_int),
     (''cmd'', c_unsigned_char),
     (''dev'', c_unsigned_char),
     (''lbal'', c_unsigned_char),
     (''lbam'', c_unsigned_char),
     (''lbah'', c_unsigned_char),
     (''nsect'', c_unsigned_char),
     (''feature'', c_unsigned_char),
     (''hob_lbal'', c_unsigned_char),
     (''hob_lbam'', c_unsigned_char),
     (''hob_lbah'', c_unsigned_char),
     (''hob_nsect'', c_unsigned_char),
     (''hob_feature'', c_unsigned_char),
     (''ctl'', c_unsigned_char),
     (''proto'', c_unsigned_char),
     (''flags'', c_long_unsigned_int),
     (''__data'', CArray c_char 0)]"

definition trace_event_raw_ata_sff_hsm_template :: ctype where
  "trace_event_raw_ata_sff_hsm_template = CStruct ''trace_event_raw_ata_sff_hsm_template'' False [
     (''ent'', trace_entry),
     (''ata_port'', c_unsigned_int),
     (''ata_dev'', c_unsigned_int),
     (''tag'', c_unsigned_int),
     (''qc_flags'', c_unsigned_int),
     (''protocol'', c_unsigned_int),
     (''hsm_state'', c_unsigned_int),
     (''dev_state'', c_unsigned_char),
     (''__data'', CArray c_char 0)]"

definition trace_event_raw_ata_sff_template :: ctype where
  "trace_event_raw_ata_sff_template = CStruct ''trace_event_raw_ata_sff_template'' False [
     (''ent'', trace_entry),
     (''ata_port'', c_unsigned_int),
     (''hsm_state'', c_unsigned_char),
     (''__data'', CArray c_char 0)]"

definition trace_event_raw_ata_tf_load :: ctype where
  "trace_event_raw_ata_tf_load = CStruct ''trace_event_raw_ata_tf_load'' False [
     (''ent'', trace_entry),
     (''ata_port'', c_unsigned_int),
     (''cmd'', c_unsigned_char),
     (''dev'', c_unsigned_char),
     (''lbal'', c_unsigned_char),
     (''lbam'', c_unsigned_char),
     (''lbah'', c_unsigned_char),
     (''nsect'', c_unsigned_char),
     (''feature'', c_unsigned_char),
     (''hob_lbal'', c_unsigned_char),
     (''hob_lbam'', c_unsigned_char),
     (''hob_lbah'', c_unsigned_char),
     (''hob_nsect'', c_unsigned_char),
     (''hob_feature'', c_unsigned_char),
     (''proto'', c_unsigned_char),
     (''__data'', CArray c_char 0)]"

definition trace_event_raw_ata_transfer_data_template :: ctype where
  "trace_event_raw_ata_transfer_data_template = CStruct ''trace_event_raw_ata_transfer_data_template'' False [
     (''ent'', trace_entry),
     (''ata_port'', c_unsigned_int),
     (''ata_dev'', c_unsigned_int),
     (''tag'', c_unsigned_int),
     (''flags'', c_unsigned_int),
     (''offset'', c_unsigned_int),
     (''bytes'', c_unsigned_int),
     (''__data'', CArray c_char 0)]"

definition trace_event_raw_balance_dirty_pages :: ctype where
  "trace_event_raw_balance_dirty_pages = CStruct ''trace_event_raw_balance_dirty_pages'' False [
     (''ent'', trace_entry),
     (''bdi'', CArray c_char 32),
     (''limit'', c_long_unsigned_int),
     (''setpoint'', c_long_unsigned_int),
     (''dirty'', c_long_unsigned_int),
     (''wb_setpoint'', c_long_unsigned_int),
     (''wb_dirty'', c_long_unsigned_int),
     (''dirty_ratelimit'', c_long_unsigned_int),
     (''task_ratelimit'', c_long_unsigned_int),
     (''dirtied'', c_unsigned_int),
     (''dirtied_pause'', c_unsigned_int),
     (''paused'', c_long_unsigned_int),
     (''pause'', c_long_int),
     (''period'', c_long_unsigned_int),
     (''think'', c_long_int),
     (''cgroup_ino'', c_ino_t),
     (''__data'', CArray c_char 0)]"

definition trace_event_raw_bdi_dirty_ratelimit :: ctype where
  "trace_event_raw_bdi_dirty_ratelimit = CStruct ''trace_event_raw_bdi_dirty_ratelimit'' False [
     (''ent'', trace_entry),
     (''bdi'', CArray c_char 32),
     (''write_bw'', c_long_unsigned_int),
     (''avg_write_bw'', c_long_unsigned_int),
     (''dirty_rate'', c_long_unsigned_int),
     (''dirty_ratelimit'', c_long_unsigned_int),
     (''task_ratelimit'', c_long_unsigned_int),
     (''balanced_dirty_ratelimit'', c_long_unsigned_int),
     (''cgroup_ino'', c_ino_t),
     (''__data'', CArray c_char 0)]"

definition trace_event_raw_blkdev_zone_mgmt :: ctype where
  "trace_event_raw_blkdev_zone_mgmt = CStruct ''trace_event_raw_blkdev_zone_mgmt'' False [
     (''ent'', trace_entry),
     (''dev'', c_dev_t),
     (''sector'', c_sector_t),
     (''nr_sectors'', c_sector_t),
     (''rwbs'', CArray c_char 10),
     (''__data'', CArray c_char 0)]"

definition trace_event_raw_block_bio :: ctype where
  "trace_event_raw_block_bio = CStruct ''trace_event_raw_block_bio'' False [
     (''ent'', trace_entry),
     (''dev'', c_dev_t),
     (''sector'', c_sector_t),
     (''nr_sector'', c_unsigned_int),
     (''rwbs'', CArray c_char 10),
     (''comm'', CArray c_char 16),
     (''__data'', CArray c_char 0)]"

definition trace_event_raw_block_bio_complete :: ctype where
  "trace_event_raw_block_bio_complete = CStruct ''trace_event_raw_block_bio_complete'' False [
     (''ent'', trace_entry),
     (''dev'', c_dev_t),
     (''sector'', c_sector_t),
     (''nr_sector'', c_unsigned_int),
     (''error'', c_int),
     (''rwbs'', CArray c_char 10),
     (''__data'', CArray c_char 0)]"

definition trace_event_raw_block_bio_remap :: ctype where
  "trace_event_raw_block_bio_remap = CStruct ''trace_event_raw_block_bio_remap'' False [
     (''ent'', trace_entry),
     (''dev'', c_dev_t),
     (''sector'', c_sector_t),
     (''nr_sector'', c_unsigned_int),
     (''old_dev'', c_dev_t),
     (''old_sector'', c_sector_t),
     (''rwbs'', CArray c_char 10),
     (''__data'', CArray c_char 0)]"

definition trace_event_raw_block_buffer :: ctype where
  "trace_event_raw_block_buffer = CStruct ''trace_event_raw_block_buffer'' False [
     (''ent'', trace_entry),
     (''dev'', c_dev_t),
     (''sector'', c_sector_t),
     (''size'', c_size_t),
     (''__data'', CArray c_char 0)]"

definition trace_event_raw_block_plug :: ctype where
  "trace_event_raw_block_plug = CStruct ''trace_event_raw_block_plug'' False [
     (''ent'', trace_entry),
     (''comm'', CArray c_char 16),
     (''__data'', CArray c_char 0)]"

definition trace_event_raw_block_rq :: ctype where
  "trace_event_raw_block_rq = CStruct ''trace_event_raw_block_rq'' False [
     (''ent'', trace_entry),
     (''dev'', c_dev_t),
     (''sector'', c_sector_t),
     (''nr_sector'', c_unsigned_int),
     (''bytes'', c_unsigned_int),
     (''ioprio'', c_short_unsigned_int),
     (''rwbs'', CArray c_char 10),
     (''comm'', CArray c_char 16),
     (''__data_loc_cmd'', c_u32),
     (''__data'', CArray c_char 0)]"

definition trace_event_raw_block_rq_completion :: ctype where
  "trace_event_raw_block_rq_completion = CStruct ''trace_event_raw_block_rq_completion'' False [
     (''ent'', trace_entry),
     (''dev'', c_dev_t),
     (''sector'', c_sector_t),
     (''nr_sector'', c_unsigned_int),
     (''error'', c_int),
     (''ioprio'', c_short_unsigned_int),
     (''rwbs'', CArray c_char 10),
     (''__data_loc_cmd'', c_u32),
     (''__data'', CArray c_char 0)]"

definition trace_event_raw_block_rq_remap :: ctype where
  "trace_event_raw_block_rq_remap = CStruct ''trace_event_raw_block_rq_remap'' False [
     (''ent'', trace_entry),
     (''dev'', c_dev_t),
     (''sector'', c_sector_t),
     (''nr_sector'', c_unsigned_int),
     (''old_dev'', c_dev_t),
     (''old_sector'', c_sector_t),
     (''nr_bios'', c_unsigned_int),
     (''rwbs'', CArray c_char 10),
     (''__data'', CArray c_char 0)]"

definition trace_event_raw_block_rq_requeue :: ctype where
  "trace_event_raw_block_rq_requeue = CStruct ''trace_event_raw_block_rq_requeue'' False [
     (''ent'', trace_entry),
     (''dev'', c_dev_t),
     (''sector'', c_sector_t),
     (''nr_sector'', c_unsigned_int),
     (''ioprio'', c_short_unsigned_int),
     (''rwbs'', CArray c_char 10),
     (''__data_loc_cmd'', c_u32),
     (''__data'', CArray c_char 0)]"

definition trace_event_raw_block_split :: ctype where
  "trace_event_raw_block_split = CStruct ''trace_event_raw_block_split'' False [
     (''ent'', trace_entry),
     (''dev'', c_dev_t),
     (''sector'', c_sector_t),
     (''new_sector'', c_sector_t),
     (''rwbs'', CArray c_char 10),
     (''comm'', CArray c_char 16),
     (''__data'', CArray c_char 0)]"

definition trace_event_raw_block_unplug :: ctype where
  "trace_event_raw_block_unplug = CStruct ''trace_event_raw_block_unplug'' False [
     (''ent'', trace_entry),
     (''nr_rq'', c_int),
     (''comm'', CArray c_char 16),
     (''__data'', CArray c_char 0)]"

definition trace_event_raw_block_zwplug :: ctype where
  "trace_event_raw_block_zwplug = CStruct ''trace_event_raw_block_zwplug'' False [
     (''ent'', trace_entry),
     (''dev'', c_dev_t),
     (''zno'', c_unsigned_int),
     (''sector'', c_sector_t),
     (''nr_sectors'', c_unsigned_int),
     (''__data'', CArray c_char 0)]"

definition trace_event_raw_bpf_test_finish :: ctype where
  "trace_event_raw_bpf_test_finish = CStruct ''trace_event_raw_bpf_test_finish'' False [
     (''ent'', trace_entry),
     (''err'', c_int),
     (''__data'', CArray c_char 0)]"

definition trace_event_raw_bpf_trace_printk :: ctype where
  "trace_event_raw_bpf_trace_printk = CStruct ''trace_event_raw_bpf_trace_printk'' False [
     (''ent'', trace_entry),
     (''__data_loc_bpf_string'', c_u32),
     (''__data'', CArray c_char 0)]"

definition trace_event_raw_bpf_trigger_tp :: ctype where
  "trace_event_raw_bpf_trigger_tp = CStruct ''trace_event_raw_bpf_trigger_tp'' False [
     (''ent'', trace_entry),
     (''nonce'', c_int),
     (''__data'', CArray c_char 0)]"

definition trace_event_raw_bpf_xdp_link_attach_failed :: ctype where
  "trace_event_raw_bpf_xdp_link_attach_failed = CStruct ''trace_event_raw_bpf_xdp_link_attach_failed'' False [
     (''ent'', trace_entry),
     (''__data_loc_msg'', c_u32),
     (''__data'', CArray c_char 0)]"

definition trace_event_raw_br_fdb_add :: ctype where
  "trace_event_raw_br_fdb_add = CStruct ''trace_event_raw_br_fdb_add'' False [
     (''ent'', trace_entry),
     (''ndm_flags'', c_u8),
     (''__data_loc_dev'', c_u32),
     (''addr'', CArray c_unsigned_char 6),
     (''vid'', c_u16),
     (''nlh_flags'', c_u16),
     (''__data'', CArray c_char 0)]"

definition trace_event_raw_br_fdb_external_learn_add :: ctype where
  "trace_event_raw_br_fdb_external_learn_add = CStruct ''trace_event_raw_br_fdb_external_learn_add'' False [
     (''ent'', trace_entry),
     (''__data_loc_br_dev'', c_u32),
     (''__data_loc_dev'', c_u32),
     (''addr'', CArray c_unsigned_char 6),
     (''vid'', c_u16),
     (''__data'', CArray c_char 0)]"

definition trace_event_raw_br_fdb_update :: ctype where
  "trace_event_raw_br_fdb_update = CStruct ''trace_event_raw_br_fdb_update'' False [
     (''ent'', trace_entry),
     (''__data_loc_br_dev'', c_u32),
     (''__data_loc_dev'', c_u32),
     (''addr'', CArray c_unsigned_char 6),
     (''vid'', c_u16),
     (''flags'', c_long_unsigned_int),
     (''__data'', CArray c_char 0)]"

definition trace_event_raw_br_mdb_full :: ctype where
  "trace_event_raw_br_mdb_full = CStruct ''trace_event_raw_br_mdb_full'' False [
     (''ent'', trace_entry),
     (''__data_loc_dev'', c_u32),
     (''af'', c_int),
     (''vid'', c_u16),
     (''src'', CArray c___u8 16),
     (''grp'', CArray c___u8 16),
     (''grpmac'', CArray c___u8 6),
     (''__data'', CArray c_char 0)]"

definition trace_event_raw_cache_tag_flush :: ctype where
  "trace_event_raw_cache_tag_flush = CStruct ''trace_event_raw_cache_tag_flush'' False [
     (''ent'', trace_entry),
     (''__data_loc_iommu'', c_u32),
     (''__data_loc_dev'', c_u32),
     (''type'', c_u16),
     (''domain_id'', c_u16),
     (''pasid'', c_u32),
     (''start'', c_long_unsigned_int),
     (''end'', c_long_unsigned_int),
     (''addr'', c_long_unsigned_int),
     (''pages'', c_long_unsigned_int),
     (''mask'', c_long_unsigned_int),
     (''__data'', CArray c_char 0)]"

definition trace_event_raw_cache_tag_log :: ctype where
  "trace_event_raw_cache_tag_log = CStruct ''trace_event_raw_cache_tag_log'' False [
     (''ent'', trace_entry),
     (''__data_loc_iommu'', c_u32),
     (''__data_loc_dev'', c_u32),
     (''type'', c_u16),
     (''domain_id'', c_u16),
     (''pasid'', c_u32),
     (''users'', c_u32),
     (''__data'', CArray c_char 0)]"

definition trace_event_raw_cap_capable :: ctype where
  "trace_event_raw_cap_capable = CStruct ''trace_event_raw_cap_capable'' False [
     (''ent'', trace_entry),
     (''cred'', CPtr ''const struct cred''),
     (''target_ns'', CPtr ''struct user_namespace''),
     (''capable_ns'', CPtr ''const struct user_namespace''),
     (''cap'', c_int),
     (''ret'', c_int),
     (''__data'', CArray c_char 0)]"

definition trace_event_raw_cdev_update :: ctype where
  "trace_event_raw_cdev_update = CStruct ''trace_event_raw_cdev_update'' False [
     (''ent'', trace_entry),
     (''__data_loc_type'', c_u32),
     (''target'', c_long_unsigned_int),
     (''__data'', CArray c_char 0)]"

definition trace_event_raw_cgroup :: ctype where
  "trace_event_raw_cgroup = CStruct ''trace_event_raw_cgroup'' False [
     (''ent'', trace_entry),
     (''root'', c_int),
     (''level'', c_int),
     (''id'', c_u64),
     (''__data_loc_path'', c_u32),
     (''__data'', CArray c_char 0)]"

definition trace_event_raw_cgroup_event :: ctype where
  "trace_event_raw_cgroup_event = CStruct ''trace_event_raw_cgroup_event'' False [
     (''ent'', trace_entry),
     (''root'', c_int),
     (''level'', c_int),
     (''id'', c_u64),
     (''__data_loc_path'', c_u32),
     (''val'', c_int),
     (''__data'', CArray c_char 0)]"

definition trace_event_raw_cgroup_migrate :: ctype where
  "trace_event_raw_cgroup_migrate = CStruct ''trace_event_raw_cgroup_migrate'' False [
     (''ent'', trace_entry),
     (''dst_root'', c_int),
     (''dst_level'', c_int),
     (''dst_id'', c_u64),
     (''pid'', c_int),
     (''__data_loc_dst_path'', c_u32),
     (''__data_loc_comm'', c_u32),
     (''__data'', CArray c_char 0)]"

definition trace_event_raw_cgroup_root :: ctype where
  "trace_event_raw_cgroup_root = CStruct ''trace_event_raw_cgroup_root'' False [
     (''ent'', trace_entry),
     (''root'', c_int),
     (''ss_mask'', c_u32),
     (''__data_loc_name'', c_u32),
     (''__data'', CArray c_char 0)]"

definition trace_event_raw_cgroup_rstat :: ctype where
  "trace_event_raw_cgroup_rstat = CStruct ''trace_event_raw_cgroup_rstat'' False [
     (''ent'', trace_entry),
     (''root'', c_int),
     (''level'', c_int),
     (''id'', c_u64),
     (''cpu'', c_int),
     (''contended'', c_bool),
     (''__data'', CArray c_char 0)]"

definition trace_event_raw_clk :: ctype where
  "trace_event_raw_clk = CStruct ''trace_event_raw_clk'' False [
     (''ent'', trace_entry),
     (''__data_loc_name'', c_u32),
     (''__data'', CArray c_char 0)]"

definition trace_event_raw_clk_duty_cycle :: ctype where
  "trace_event_raw_clk_duty_cycle = CStruct ''trace_event_raw_clk_duty_cycle'' False [
     (''ent'', trace_entry),
     (''__data_loc_name'', c_u32),
     (''num'', c_unsigned_int),
     (''den'', c_unsigned_int),
     (''__data'', CArray c_char 0)]"

definition trace_event_raw_clk_parent :: ctype where
  "trace_event_raw_clk_parent = CStruct ''trace_event_raw_clk_parent'' False [
     (''ent'', trace_entry),
     (''__data_loc_name'', c_u32),
     (''__data_loc_pname'', c_u32),
     (''__data'', CArray c_char 0)]"

definition trace_event_raw_clk_phase :: ctype where
  "trace_event_raw_clk_phase = CStruct ''trace_event_raw_clk_phase'' False [
     (''ent'', trace_entry),
     (''__data_loc_name'', c_u32),
     (''phase'', c_int),
     (''__data'', CArray c_char 0)]"

definition trace_event_raw_clk_rate :: ctype where
  "trace_event_raw_clk_rate = CStruct ''trace_event_raw_clk_rate'' False [
     (''ent'', trace_entry),
     (''__data_loc_name'', c_u32),
     (''rate'', c_long_unsigned_int),
     (''__data'', CArray c_char 0)]"

definition trace_event_raw_clk_rate_range :: ctype where
  "trace_event_raw_clk_rate_range = CStruct ''trace_event_raw_clk_rate_range'' False [
     (''ent'', trace_entry),
     (''__data_loc_name'', c_u32),
     (''min'', c_long_unsigned_int),
     (''max'', c_long_unsigned_int),
     (''__data'', CArray c_char 0)]"

definition trace_event_raw_clk_rate_request :: ctype where
  "trace_event_raw_clk_rate_request = CStruct ''trace_event_raw_clk_rate_request'' False [
     (''ent'', trace_entry),
     (''__data_loc_name'', c_u32),
     (''__data_loc_pname'', c_u32),
     (''min'', c_long_unsigned_int),
     (''max'', c_long_unsigned_int),
     (''prate'', c_long_unsigned_int),
     (''__data'', CArray c_char 0)]"

definition trace_event_raw_cma_alloc_busy_retry :: ctype where
  "trace_event_raw_cma_alloc_busy_retry = CStruct ''trace_event_raw_cma_alloc_busy_retry'' False [
     (''ent'', trace_entry),
     (''__data_loc_name'', c_u32),
     (''pfn'', c_long_unsigned_int),
     (''page'', CPtr ''const struct page''),
     (''count'', c_long_unsigned_int),
     (''align'', c_unsigned_int),
     (''__data'', CArray c_char 0)]"

definition trace_event_raw_cma_alloc_finish :: ctype where
  "trace_event_raw_cma_alloc_finish = CStruct ''trace_event_raw_cma_alloc_finish'' False [
     (''ent'', trace_entry),
     (''__data_loc_name'', c_u32),
     (''pfn'', c_long_unsigned_int),
     (''page'', CPtr ''const struct page''),
     (''count'', c_long_unsigned_int),
     (''align'', c_unsigned_int),
     (''errorno'', c_int),
     (''__data'', CArray c_char 0)]"

definition trace_event_raw_cma_alloc_start :: ctype where
  "trace_event_raw_cma_alloc_start = CStruct ''trace_event_raw_cma_alloc_start'' False [
     (''ent'', trace_entry),
     (''__data_loc_name'', c_u32),
     (''request_count'', c_long_unsigned_int),
     (''available_count'', c_long_unsigned_int),
     (''total_count'', c_long_unsigned_int),
     (''align'', c_unsigned_int),
     (''__data'', CArray c_char 0)]"

definition trace_event_raw_cma_release :: ctype where
  "trace_event_raw_cma_release = CStruct ''trace_event_raw_cma_release'' False [
     (''ent'', trace_entry),
     (''__data_loc_name'', c_u32),
     (''pfn'', c_long_unsigned_int),
     (''page'', CPtr ''const struct page''),
     (''count'', c_long_unsigned_int),
     (''__data'', CArray c_char 0)]"

definition trace_event_raw_compact_retry :: ctype where
  "trace_event_raw_compact_retry = CStruct ''trace_event_raw_compact_retry'' False [
     (''ent'', trace_entry),
     (''order'', c_int),
     (''priority'', c_int),
     (''result'', c_int),
     (''retries'', c_int),
     (''max_retries'', c_int),
     (''ret'', c_bool),
     (''__data'', CArray c_char 0)]"

definition trace_event_raw_console :: ctype where
  "trace_event_raw_console = CStruct ''trace_event_raw_console'' False [
     (''ent'', trace_entry),
     (''__data_loc_msg'', c_u32),
     (''__data'', CArray c_char 0)]"

definition trace_event_raw_consume_skb :: ctype where
  "trace_event_raw_consume_skb = CStruct ''trace_event_raw_consume_skb'' False [
     (''ent'', trace_entry),
     (''skbaddr'', CPtr ''void''),
     (''location'', CPtr ''void''),
     (''__data'', CArray c_char 0)]"

definition trace_event_raw_contention_begin :: ctype where
  "trace_event_raw_contention_begin = CStruct ''trace_event_raw_contention_begin'' False [
     (''ent'', trace_entry),
     (''lock_addr'', CPtr ''void''),
     (''flags'', c_unsigned_int),
     (''__data'', CArray c_char 0)]"

definition trace_event_raw_contention_end :: ctype where
  "trace_event_raw_contention_end = CStruct ''trace_event_raw_contention_end'' False [
     (''ent'', trace_entry),
     (''lock_addr'', CPtr ''void''),
     (''ret'', c_int),
     (''__data'', CArray c_char 0)]"

definition trace_event_raw_context_tracking_user :: ctype where
  "trace_event_raw_context_tracking_user = CStruct ''trace_event_raw_context_tracking_user'' False [
     (''ent'', trace_entry),
     (''dummy'', c_int),
     (''__data'', CArray c_char 0)]"

definition trace_event_raw_cpu :: ctype where
  "trace_event_raw_cpu = CStruct ''trace_event_raw_cpu'' False [
     (''ent'', trace_entry),
     (''state'', c_u32),
     (''cpu_id'', c_u32),
     (''__data'', CArray c_char 0)]"

definition trace_event_raw_cpu_frequency_limits :: ctype where
  "trace_event_raw_cpu_frequency_limits = CStruct ''trace_event_raw_cpu_frequency_limits'' False [
     (''ent'', trace_entry),
     (''min_freq'', c_u32),
     (''max_freq'', c_u32),
     (''cpu_id'', c_u32),
     (''__data'', CArray c_char 0)]"

definition trace_event_raw_cpu_idle_miss :: ctype where
  "trace_event_raw_cpu_idle_miss = CStruct ''trace_event_raw_cpu_idle_miss'' False [
     (''ent'', trace_entry),
     (''cpu_id'', c_u32),
     (''state'', c_u32),
     (''below'', c_bool),
     (''__data'', CArray c_char 0)]"

definition trace_event_raw_cpu_latency_qos_request :: ctype where
  "trace_event_raw_cpu_latency_qos_request = CStruct ''trace_event_raw_cpu_latency_qos_request'' False [
     (''ent'', trace_entry),
     (''value'', c_s32),
     (''__data'', CArray c_char 0)]"

definition trace_event_raw_cpuhp_enter :: ctype where
  "trace_event_raw_cpuhp_enter = CStruct ''trace_event_raw_cpuhp_enter'' False [
     (''ent'', trace_entry),
     (''cpu'', c_unsigned_int),
     (''target'', c_int),
     (''idx'', c_int),
     (''fun'', CPtr ''void''),
     (''__data'', CArray c_char 0)]"

definition trace_event_raw_cpuhp_exit :: ctype where
  "trace_event_raw_cpuhp_exit = CStruct ''trace_event_raw_cpuhp_exit'' False [
     (''ent'', trace_entry),
     (''cpu'', c_unsigned_int),
     (''state'', c_int),
     (''idx'', c_int),
     (''ret'', c_int),
     (''__data'', CArray c_char 0)]"

definition trace_event_raw_cpuhp_multi_enter :: ctype where
  "trace_event_raw_cpuhp_multi_enter = CStruct ''trace_event_raw_cpuhp_multi_enter'' False [
     (''ent'', trace_entry),
     (''cpu'', c_unsigned_int),
     (''target'', c_int),
     (''idx'', c_int),
     (''fun'', CPtr ''void''),
     (''__data'', CArray c_char 0)]"

definition trace_event_raw_csd_function :: ctype where
  "trace_event_raw_csd_function = CStruct ''trace_event_raw_csd_function'' False [
     (''ent'', trace_entry),
     (''func'', CPtr ''void''),
     (''csd'', CPtr ''void''),
     (''__data'', CArray c_char 0)]"

definition trace_event_raw_csd_queue_cpu :: ctype where
  "trace_event_raw_csd_queue_cpu = CStruct ''trace_event_raw_csd_queue_cpu'' False [
     (''ent'', trace_entry),
     (''cpu'', c_unsigned_int),
     (''callsite'', CPtr ''void''),
     (''func'', CPtr ''void''),
     (''csd'', CPtr ''void''),
     (''__data'', CArray c_char 0)]"

definition trace_event_raw_ctime :: ctype where
  "trace_event_raw_ctime = CStruct ''trace_event_raw_ctime'' False [
     (''ent'', trace_entry),
     (''dev'', c_dev_t),
     (''ino'', c_ino_t),
     (''ctime_s'', c_time64_t),
     (''ctime_ns'', c_u32),
     (''gen'', c_u32),
     (''__data'', CArray c_char 0)]"

definition trace_event_raw_ctime_ns_xchg :: ctype where
  "trace_event_raw_ctime_ns_xchg = CStruct ''trace_event_raw_ctime_ns_xchg'' False [
     (''ent'', trace_entry),
     (''dev'', c_dev_t),
     (''ino'', c_ino_t),
     (''gen'', c_u32),
     (''old'', c_u32),
     (''new'', c_u32),
     (''cur'', c_u32),
     (''__data'', CArray c_char 0)]"

definition trace_event_raw_dax_pmd_fault_class :: ctype where
  "trace_event_raw_dax_pmd_fault_class = CStruct ''trace_event_raw_dax_pmd_fault_class'' False [
     (''ent'', trace_entry),
     (''ino'', c_long_unsigned_int),
     (''vm_start'', c_long_unsigned_int),
     (''vm_end'', c_long_unsigned_int),
     (''vm_flags'', c_vm_flags_t),
     (''address'', c_long_unsigned_int),
     (''pgoff'', c_long_unsigned_int),
     (''max_pgoff'', c_long_unsigned_int),
     (''dev'', c_dev_t),
     (''flags'', c_unsigned_int),
     (''result'', c_int),
     (''__data'', CArray c_char 0)]"

definition trace_event_raw_dax_pmd_load_hole_class :: ctype where
  "trace_event_raw_dax_pmd_load_hole_class = CStruct ''trace_event_raw_dax_pmd_load_hole_class'' False [
     (''ent'', trace_entry),
     (''ino'', c_long_unsigned_int),
     (''vm_flags'', c_vm_flags_t),
     (''address'', c_long_unsigned_int),
     (''zero_folio'', CPtr ''struct folio''),
     (''radix_entry'', CPtr ''void''),
     (''dev'', c_dev_t),
     (''__data'', CArray c_char 0)]"

definition trace_event_raw_dax_pte_fault_class :: ctype where
  "trace_event_raw_dax_pte_fault_class = CStruct ''trace_event_raw_dax_pte_fault_class'' False [
     (''ent'', trace_entry),
     (''ino'', c_long_unsigned_int),
     (''vm_flags'', c_vm_flags_t),
     (''address'', c_long_unsigned_int),
     (''pgoff'', c_long_unsigned_int),
     (''dev'', c_dev_t),
     (''flags'', c_unsigned_int),
     (''result'', c_int),
     (''__data'', CArray c_char 0)]"

definition trace_event_raw_dax_writeback_one :: ctype where
  "trace_event_raw_dax_writeback_one = CStruct ''trace_event_raw_dax_writeback_one'' False [
     (''ent'', trace_entry),
     (''ino'', c_long_unsigned_int),
     (''pgoff'', c_long_unsigned_int),
     (''pglen'', c_long_unsigned_int),
     (''dev'', c_dev_t),
     (''__data'', CArray c_char 0)]"

definition trace_event_raw_dax_writeback_range_class :: ctype where
  "trace_event_raw_dax_writeback_range_class = CStruct ''trace_event_raw_dax_writeback_range_class'' False [
     (''ent'', trace_entry),
     (''ino'', c_long_unsigned_int),
     (''start_index'', c_long_unsigned_int),
     (''end_index'', c_long_unsigned_int),
     (''dev'', c_dev_t),
     (''__data'', CArray c_char 0)]"

definition trace_event_raw_dev_pm_qos_request :: ctype where
  "trace_event_raw_dev_pm_qos_request = CStruct ''trace_event_raw_dev_pm_qos_request'' False [
     (''ent'', trace_entry),
     (''__data_loc_name'', c_u32),
     (''type'', CEnum ''dev_pm_qos_req_type''),
     (''new_value'', c_s32),
     (''__data'', CArray c_char 0)]"

definition trace_event_raw_devfreq_frequency :: ctype where
  "trace_event_raw_devfreq_frequency = CStruct ''trace_event_raw_devfreq_frequency'' False [
     (''ent'', trace_entry),
     (''__data_loc_dev_name'', c_u32),
     (''freq'', c_long_unsigned_int),
     (''prev_freq'', c_long_unsigned_int),
     (''busy_time'', c_long_unsigned_int),
     (''total_time'', c_long_unsigned_int),
     (''__data'', CArray c_char 0)]"

definition trace_event_raw_devfreq_monitor :: ctype where
  "trace_event_raw_devfreq_monitor = CStruct ''trace_event_raw_devfreq_monitor'' False [
     (''ent'', trace_entry),
     (''freq'', c_long_unsigned_int),
     (''busy_time'', c_long_unsigned_int),
     (''total_time'', c_long_unsigned_int),
     (''polling_ms'', c_unsigned_int),
     (''__data_loc_dev_name'', c_u32),
     (''__data'', CArray c_char 0)]"

definition trace_event_raw_device_pm_callback_end :: ctype where
  "trace_event_raw_device_pm_callback_end = CStruct ''trace_event_raw_device_pm_callback_end'' False [
     (''ent'', trace_entry),
     (''__data_loc_device'', c_u32),
     (''__data_loc_driver'', c_u32),
     (''error'', c_int),
     (''__data'', CArray c_char 0)]"

definition trace_event_raw_device_pm_callback_start :: ctype where
  "trace_event_raw_device_pm_callback_start = CStruct ''trace_event_raw_device_pm_callback_start'' False [
     (''ent'', trace_entry),
     (''__data_loc_device'', c_u32),
     (''__data_loc_driver'', c_u32),
     (''__data_loc_parent'', c_u32),
     (''__data_loc_pm_ops'', c_u32),
     (''event'', c_int),
     (''__data'', CArray c_char 0)]"

definition trace_event_raw_devlink_health_recover_aborted :: ctype where
  "trace_event_raw_devlink_health_recover_aborted = CStruct ''trace_event_raw_devlink_health_recover_aborted'' False [
     (''ent'', trace_entry),
     (''__data_loc_bus_name'', c_u32),
     (''__data_loc_dev_name'', c_u32),
     (''__data_loc_driver_name'', c_u32),
     (''__data_loc_reporter_name'', c_u32),
     (''health_state'', c_bool),
     (''time_since_last_recover'', c_u64),
     (''__data'', CArray c_char 0)]"

definition trace_event_raw_devlink_health_report :: ctype where
  "trace_event_raw_devlink_health_report = CStruct ''trace_event_raw_devlink_health_report'' False [
     (''ent'', trace_entry),
     (''__data_loc_bus_name'', c_u32),
     (''__data_loc_dev_name'', c_u32),
     (''__data_loc_driver_name'', c_u32),
     (''__data_loc_reporter_name'', c_u32),
     (''__data_loc_msg'', c_u32),
     (''__data'', CArray c_char 0)]"

definition trace_event_raw_devlink_health_reporter_state_update :: ctype where
  "trace_event_raw_devlink_health_reporter_state_update = CStruct ''trace_event_raw_devlink_health_reporter_state_update'' False [
     (''ent'', trace_entry),
     (''__data_loc_bus_name'', c_u32),
     (''__data_loc_dev_name'', c_u32),
     (''__data_loc_driver_name'', c_u32),
     (''__data_loc_reporter_name'', c_u32),
     (''new_state'', c_u8),
     (''__data'', CArray c_char 0)]"

definition trace_event_raw_devlink_hwerr :: ctype where
  "trace_event_raw_devlink_hwerr = CStruct ''trace_event_raw_devlink_hwerr'' False [
     (''ent'', trace_entry),
     (''__data_loc_bus_name'', c_u32),
     (''__data_loc_dev_name'', c_u32),
     (''__data_loc_driver_name'', c_u32),
     (''err'', c_int),
     (''__data_loc_msg'', c_u32),
     (''__data'', CArray c_char 0)]"

definition trace_event_raw_devlink_hwmsg :: ctype where
  "trace_event_raw_devlink_hwmsg = CStruct ''trace_event_raw_devlink_hwmsg'' False [
     (''ent'', trace_entry),
     (''__data_loc_bus_name'', c_u32),
     (''__data_loc_dev_name'', c_u32),
     (''__data_loc_driver_name'', c_u32),
     (''incoming'', c_bool),
     (''type'', c_long_unsigned_int),
     (''__data_loc_buf'', c_u32),
     (''len'', c_size_t),
     (''__data'', CArray c_char 0)]"

definition trace_event_raw_devlink_trap_report :: ctype where
  "trace_event_raw_devlink_trap_report = CStruct ''trace_event_raw_devlink_trap_report'' False [
     (''ent'', trace_entry),
     (''__data_loc_bus_name'', c_u32),
     (''__data_loc_dev_name'', c_u32),
     (''__data_loc_driver_name'', c_u32),
     (''__data_loc_trap_name'', c_u32),
     (''__data_loc_trap_group_name'', c_u32),
     (''input_dev_name'', CArray c_char 16),
     (''__data'', CArray c_char 0)]"

definition trace_event_raw_devres :: ctype where
  "trace_event_raw_devres = CStruct ''trace_event_raw_devres'' False [
     (''ent'', trace_entry),
     (''__data_loc_devname'', c_u32),
     (''dev'', CPtr ''struct device''),
     (''op'', CPtr ''const char''),
     (''node'', CPtr ''void''),
     (''__data_loc_name'', c_u32),
     (''size'', c_size_t),
     (''__data'', CArray c_char 0)]"

definition trace_event_raw_dma_alloc_class :: ctype where
  "trace_event_raw_dma_alloc_class = CStruct ''trace_event_raw_dma_alloc_class'' False [
     (''ent'', trace_entry),
     (''__data_loc_device'', c_u32),
     (''virt_addr'', CPtr ''void''),
     (''dma_addr'', c_u64),
     (''size'', c_size_t),
     (''flags'', c_gfp_t),
     (''dir'', CEnum ''dma_data_direction''),
     (''attrs'', c_long_unsigned_int),
     (''__data'', CArray c_char 0)]"

definition trace_events_1 :: "ctype list" where
  "trace_events_1 = [
     trace_event_raw_ack_update_msk,
     trace_event_raw_aer_event,
     trace_event_raw_alarm_class,
     trace_event_raw_alarmtimer_suspend,
     trace_event_raw_alloc_vmap_area,
     trace_event_raw_amd_pstate_epp_perf,
     trace_event_raw_amd_pstate_perf,
     trace_event_raw_arm_event,
     trace_event_raw_ata_bmdma_status,
     trace_event_raw_ata_eh_action_template,
     trace_event_raw_ata_eh_link_autopsy,
     trace_event_raw_ata_eh_link_autopsy_qc,
     trace_event_raw_ata_exec_command_template,
     trace_event_raw_ata_link_reset_begin_template,
     trace_event_raw_ata_link_reset_end_template,
     trace_event_raw_ata_port_eh_begin_template,
     trace_event_raw_ata_qc_complete_template,
     trace_event_raw_ata_qc_issue_template,
     trace_event_raw_ata_sff_hsm_template,
     trace_event_raw_ata_sff_template,
     trace_event_raw_ata_tf_load,
     trace_event_raw_ata_transfer_data_template,
     trace_event_raw_balance_dirty_pages,
     trace_event_raw_bdi_dirty_ratelimit,
     trace_event_raw_blkdev_zone_mgmt,
     trace_event_raw_block_bio,
     trace_event_raw_block_bio_complete,
     trace_event_raw_block_bio_remap,
     trace_event_raw_block_buffer,
     trace_event_raw_block_plug,
     trace_event_raw_block_rq,
     trace_event_raw_block_rq_completion,
     trace_event_raw_block_rq_remap,
     trace_event_raw_block_rq_requeue,
     trace_event_raw_block_split,
     trace_event_raw_block_unplug,
     trace_event_raw_block_zwplug,
     trace_event_raw_bpf_test_finish,
     trace_event_raw_bpf_trace_printk,
     trace_event_raw_bpf_trigger_tp,
     trace_event_raw_bpf_xdp_link_attach_failed,
     trace_event_raw_br_fdb_add,
     trace_event_raw_br_fdb_external_learn_add,
     trace_event_raw_br_fdb_update,
     trace_event_raw_br_mdb_full,
     trace_event_raw_cache_tag_flush,
     trace_event_raw_cache_tag_log,
     trace_event_raw_cap_capable,
     trace_event_raw_cdev_update,
     trace_event_raw_cgroup,
     trace_event_raw_cgroup_event,
     trace_event_raw_cgroup_migrate,
     trace_event_raw_cgroup_root,
     trace_event_raw_cgroup_rstat,
     trace_event_raw_clk,
     trace_event_raw_clk_duty_cycle,
     trace_event_raw_clk_parent,
     trace_event_raw_clk_phase,
     trace_event_raw_clk_rate,
     trace_event_raw_clk_rate_range,
     trace_event_raw_clk_rate_request,
     trace_event_raw_cma_alloc_busy_retry,
     trace_event_raw_cma_alloc_finish,
     trace_event_raw_cma_alloc_start,
     trace_event_raw_cma_release,
     trace_event_raw_compact_retry,
     trace_event_raw_console,
     trace_event_raw_consume_skb,
     trace_event_raw_contention_begin,
     trace_event_raw_contention_end,
     trace_event_raw_context_tracking_user,
     trace_event_raw_cpu,
     trace_event_raw_cpu_frequency_limits,
     trace_event_raw_cpu_idle_miss,
     trace_event_raw_cpu_latency_qos_request,
     trace_event_raw_cpuhp_enter,
     trace_event_raw_cpuhp_exit,
     trace_event_raw_cpuhp_multi_enter,
     trace_event_raw_csd_function,
     trace_event_raw_csd_queue_cpu,
     trace_event_raw_ctime,
     trace_event_raw_ctime_ns_xchg,
     trace_event_raw_dax_pmd_fault_class,
     trace_event_raw_dax_pmd_load_hole_class,
     trace_event_raw_dax_pte_fault_class,
     trace_event_raw_dax_writeback_one,
     trace_event_raw_dax_writeback_range_class,
     trace_event_raw_dev_pm_qos_request,
     trace_event_raw_devfreq_frequency,
     trace_event_raw_devfreq_monitor,
     trace_event_raw_device_pm_callback_end,
     trace_event_raw_device_pm_callback_start,
     trace_event_raw_devlink_health_recover_aborted,
     trace_event_raw_devlink_health_report,
     trace_event_raw_devlink_health_reporter_state_update,
     trace_event_raw_devlink_hwerr,
     trace_event_raw_devlink_hwmsg,
     trace_event_raw_devlink_trap_report,
     trace_event_raw_devres,
     trace_event_raw_dma_alloc_class]"

lemma trace_events_1_ok: "list_all event_ok trace_events_1"
  by code_simp

lemma length_trace_events_1: "length trace_events_1 = 100"
  by (simp add: trace_events_1_def)

end
