(* ===== verification/VmlinuxTrace2.thy ===== *)
theory VmlinuxTrace2
  imports VmlinuxTypes
begin

text \<open>
  Tracepoint context structures of \<^verbatim>\<open>src/internal/ebpf/vmlinux.h\<close>, lines 145893 to 146890:
  \<^verbatim>\<open>trace_event_raw_dma_alloc_sgt\<close> to
  \<^verbatim>\<open>trace_event_raw_ext4_mballoc_prealloc\<close>, one definition per structure, members in order.
\<close>

definition trace_event_raw_dma_alloc_sgt :: ctype where
  "trace_event_raw_dma_alloc_sgt = CStruct ''trace_event_raw_dma_alloc_sgt'' False [
     (''ent'', trace_entry),
     (''__data_loc_device'', c_u32),
     (''__data_loc_phys_addrs'', c_u32),
     (''dma_addr'', c_u64),
     (''size'', c_size_t),
     (''dir'', CEnum ''dma_data_direction''),
     (''flags'', c_gfp_t),
     (''attrs'', c_long_unsigned_int),
     (''__data'', CArray c_char 0)]"

definition trace_event_raw_dma_buf :: ctype where
  "trace_event_raw_dma_buf = CStruct ''trace_event_raw_dma_buf'' False [
     (''ent'', trace_entry),
     (''__data_loc_exp_name'', c_u32),
     (''size'', c_size_t),
     (''ino'', c_ino_t),
     (''__data'', CArray c_char 0)]"

definition trace_event_raw_dma_buf_attach_dev :: ctype where
  "trace_event_raw_dma_buf_attach_dev = CStruct ''trace_event_raw_dma_buf_attach_dev'' False [
     (''ent'', trace_entry),
     (''__data_loc_dev_name'', c_u32),
     (''__data_loc_exp_name'', c_u32),
     (''size'', c_size_t),
     (''ino'', c_ino_t),
     (''attach'', CPtr ''struct dma_buf_attachment''),
     (''is_dynamic'', c_bool),
     (''__data'', CArray c_char 0)]"

definition trace_event_raw_dma_buf_fd :: ctype where
  "trace_event_raw_dma_buf_fd = CStruct ''trace_event_raw_dma_buf_fd'' False [
     (''ent'', trace_entry),
     (''__data_loc_exp_name'', c_u32),
     (''size'', c_size_t),
     (''ino'', c_ino_t),
     (''fd'', c_int),
     (''__data'', CArray c_char 0)]"

definition trace_event_raw_dma_fence :: ctype where
  "trace_event_raw_dma_fence = CStruct ''trace_event_raw_dma_fence'' False [
     (''ent'', trace_entry),
     (''__data_loc_driver'', c_u32),
     (''__data_loc_timeline'', c_u32),
     (''context'', c_unsigned_int),
     (''seqno'', c_unsigned_int),
     (''__data'', CArray c_char 0)]"

definition trace_event_raw_dma_fence_unsignaled :: ctype where
  "trace_event_raw_dma_fence_unsignaled = CStruct ''trace_event_raw_dma_fence_unsignaled'' False [
     (''ent'', trace_entry),
     (''__data_loc_driver'', c_u32),
     (''__data_loc_timeline'', c_u32),
     (''context'', c_unsigned_int),
     (''seqno'', c_unsigned_int),
     (''__data'', CArray c_char 0)]"

definition trace_event_raw_dma_free_class :: ctype where
  "trace_event_raw_dma_free_class = CStruct ''trace_event_raw_dma_free_class'' False [
     (''ent'', trace_entry),
     (''__data_loc_device'', c_u32),
     (''virt_addr'', CPtr ''void''),
     (''dma_addr'', c_u64),
     (''size'', c_size_t),
     (''dir'', CEnum ''dma_data_direction''),
     (''attrs'', c_long_unsigned_int),
     (''__data'', CArray c_char 0)]"

definition trace_event_raw_dma_free_sgt :: ctype where
  "trace_event_raw_dma_free_sgt = CStruct ''trace_event_raw_dma_free_sgt'' False [
     (''ent'', trace_entry),
     (''__data_loc_device'', c_u32),
     (''__data_loc_phys_addrs'', c_u32),
     (''dma_addr'', c_u64),
     (''size'', c_size_t),
     (''dir'', CEnum ''dma_data_direction''),
     (''__data'', CArray c_char 0)]"

definition trace_event_raw_dma_map :: ctype where
  "trace_event_raw_dma_map = CStruct ''trace_event_raw_dma_map'' False [
     (''ent'', trace_entry),
     (''__data_loc_device'', c_u32),
     (''phys_addr'', c_u64),
     (''dma_addr'', c_u64),
     (''size'', c_size_t),
     (''dir'', CEnum ''dma_data_direction''),
     (''attrs'', c_long_unsigned_int),
     (''__data'', CArray c_char 0)]"

definition trace_event_raw_dma_map_sg :: ctype where
  "trace_event_raw_dma_map_sg = CStruct ''trace_event_raw_dma_map_sg'' False [
     (''ent'', trace_entry),
     (''__data_loc_device'', c_u32),
     (''full_nents'', c_int),
     (''full_ents'', c_int),
     (''truncated'', c_bool),
     (''__data_loc_phys_addrs'', c_u32),
     (''__data_loc_dma_addrs'', c_u32),
     (''__data_loc_lengths'', c_u32),
     (''dir'', CEnum ''dma_data_direction''),
     (''attrs'', c_long_unsigned_int),
     (''__data'', CArray c_char 0)]"

definition trace_event_raw_dma_map_sg_err :: ctype where
  "trace_event_raw_dma_map_sg_err = CStruct ''trace_event_raw_dma_map_sg_err'' False [
     (''ent'', trace_entry),
     (''__data_loc_device'', c_u32),
     (''__data_loc_phys_addrs'', c_u32),
     (''err'', c_int),
     (''dir'', CEnum ''dma_data_direction''),
     (''attrs'', c_long_unsigned_int),
     (''__data'', CArray c_char 0)]"

definition trace_event_raw_dma_sync_sg :: ctype where
  "trace_event_raw_dma_sync_sg = CStruct ''trace_event_raw_dma_sync_sg'' False [
     (''ent'', trace_entry),
     (''__data_loc_device'', c_u32),
     (''__data_loc_dma_addrs'', c_u32),
     (''__data_loc_lengths'', c_u32),
     (''dir'', CEnum ''dma_data_direction''),
     (''__data'', CArray c_char 0)]"

definition trace_event_raw_dma_sync_single :: ctype where
  "trace_event_raw_dma_sync_single = CStruct ''trace_event_raw_dma_sync_single'' False [
     (''ent'', trace_entry),
     (''__data_loc_device'', c_u32),
     (''dma_addr'', c_u64),
     (''size'', c_size_t),
     (''dir'', CEnum ''dma_data_direction''),
     (''__data'', CArray c_char 0)]"

definition trace_event_raw_dma_unmap :: ctype where
  "trace_event_raw_dma_unmap = CStruct ''trace_event_raw_dma_unmap'' False [
     (''ent'', trace_entry),
     (''__data_loc_device'', c_u32),
     (''addr'', c_u64),
     (''size'', c_size_t),
     (''dir'', CEnum ''dma_data_direction''),
     (''attrs'', c_long_unsigned_int),
     (''__data'', CArray c_char 0)]"

definition trace_event_raw_dma_unmap_sg :: ctype where
  "trace_event_raw_dma_unmap_sg = CStruct ''trace_event_raw_dma_unmap_sg'' False [
     (''ent'', trace_entry),
     (''__data_loc_device'', c_u32),
     (''__data_loc_addrs'', c_u32),
     (''dir'', CEnum ''dma_data_direction''),
     (''attrs'', c_long_unsigned_int),
     (''__data'', CArray c_char 0)]"

definition trace_event_raw_dql_stall_detected :: ctype where
  "trace_event_raw_dql_stall_detected = CStruct ''trace_event_raw_dql_stall_detected'' False [
     (''ent'', trace_entry),
     (''thrs'', c_short_unsigned_int),
     (''len'', c_unsigned_int),
     (''last_reap'', c_long_unsigned_int),
     (''hist_head'', c_long_unsigned_int),
     (''now'', c_long_unsigned_int),
     (''hist'', CArray c_long_unsigned_int 4),
     (''__data'', CArray c_char 0)]"

definition trace_event_raw_drm_vblank_event :: ctype where
  "trace_event_raw_drm_vblank_event = CStruct ''trace_event_raw_drm_vblank_event'' False [
     (''ent'', trace_entry),
     (''crtc'', c_int),
     (''seq'', c_unsigned_int),
     (''time'', c_ktime_t),
     (''high_prec'', c_bool),
     (''__data'', CArray c_char 0)]"

definition trace_event_raw_drm_vblank_event_delivered :: ctype where
  "trace_event_raw_drm_vblank_event_delivered = CStruct ''trace_event_raw_drm_vblank_event_delivered'' False [
     (''ent'', trace_entry),
     (''file'', CPtr ''struct drm_file''),
     (''crtc'', c_int),
     (''seq'', c_unsigned_int),
     (''__data'', CArray c_char 0)]"

definition trace_event_raw_drm_vblank_event_queued :: ctype where
  "trace_event_raw_drm_vblank_event_queued = CStruct ''trace_event_raw_drm_vblank_event_queued'' False [
     (''ent'', trace_entry),
     (''file'', CPtr ''struct drm_file''),
     (''crtc'', c_int),
     (''seq'', c_unsigned_int),
     (''__data'', CArray c_char 0)]"

definition trace_event_raw_emulate_vsyscall :: ctype where
  "trace_event_raw_emulate_vsyscall = CStruct ''trace_event_raw_emulate_vsyscall'' False [
     (''ent'', trace_entry),
     (''nr'', c_int),
     (''__data'', CArray c_char 0)]"

definition trace_event_raw_error_da_monitor_id :: ctype where
  "trace_event_raw_error_da_monitor_id = CStruct ''trace_event_raw_error_da_monitor_id'' False [
     (''ent'', trace_entry),
     (''id'', c_int),
     (''__data_loc_state'', c_u32),
     (''__data_loc_event'', c_u32),
     (''__data'', CArray c_char 0)]"

definition trace_event_raw_error_report_template :: ctype where
  "trace_event_raw_error_report_template = CStruct ''trace_event_raw_error_report_template'' False [
     (''ent'', trace_entry),
     (''error_detector'', CEnum ''error_detector''),
     (''id'', c_long_unsigned_int),
     (''__data'', CArray c_char 0)]"

definition trace_event_raw_event_da_monitor_id :: ctype where
  "trace_event_raw_event_da_monitor_id = CStruct ''trace_event_raw_event_da_monitor_id'' False [
     (''ent'', trace_entry),
     (''id'', c_int),
     (''__data_loc_state'', c_u32),
     (''__data_loc_event'', c_u32),
     (''__data_loc_next_state'', c_u32),
     (''final_state'', c_bool),
     (''__data'', CArray c_char 0)]"

definition trace_event_raw_exceptions :: ctype where
  "trace_event_raw_exceptions = CStruct ''trace_event_raw_exceptions'' False [
     (''ent'', trace_entry),
     (''address'', c_long_unsigned_int),
     (''ip'', c_long_unsigned_int),
     (''error_code'', c_long_unsigned_int),
     (''__data'', CArray c_char 0)]"

definition trace_event_raw_exit_mmap :: ctype where
  "trace_event_raw_exit_mmap = CStruct ''trace_event_raw_exit_mmap'' False [
     (''ent'', trace_entry),
     (''mm'', CPtr ''struct mm_struct''),
     (''mt'', CPtr ''struct maple_tree''),
     (''__data'', CArray c_char 0)]"

definition trace_event_raw_ext4__bitmap_load :: ctype where
  "trace_event_raw_ext4__bitmap_load = CStruct ''trace_event_raw_ext4__bitmap_load'' False [
     (''ent'', trace_entry),
     (''dev'', c_dev_t),
     (''group'', c___u32),
     (''__data'', CArray c_char 0)]"

definition trace_event_raw_ext4__es_extent :: ctype where
  "trace_event_raw_ext4__es_extent = CStruct ''trace_event_raw_ext4__es_extent'' False [
     (''ent'', trace_entry),
     (''dev'', c_dev_t),
     (''ino'', c_ino_t),
     (''lblk'', c_ext4_lblk_t),
     (''len'', c_ext4_lblk_t),
     (''pblk'', c_ext4_fsblk_t),
     (''status'', c_char),
     (''seq'', c_u64),
     (''__data'', CArray c_char 0)]"

definition trace_event_raw_ext4__es_shrink_enter :: ctype where
  "trace_event_raw_ext4__es_shrink_enter = CStruct ''trace_event_raw_ext4__es_shrink_enter'' False [
     (''ent'', trace_entry),
     (''dev'', c_dev_t),
     (''nr_to_scan'', c_int),
     (''cache_cnt'', c_int),
     (''__data'', CArray c_char 0)]"

definition trace_event_raw_ext4__fallocate_mode :: ctype where
  "trace_event_raw_ext4__fallocate_mode = CStruct ''trace_event_raw_ext4__fallocate_mode'' False [
     (''ent'', trace_entry),
     (''dev'', c_dev_t),
     (''ino'', c_ino_t),
     (''offset'', c_loff_t),
     (''len'', c_loff_t),
     (''mode'', c_int),
     (''__data'', CArray c_char 0)]"

definition trace_event_raw_ext4__folio_op :: ctype where
  "trace_event_raw_ext4__folio_op = CStruct ''trace_event_raw_ext4__folio_op'' False [
     (''ent'', trace_entry),
     (''dev'', c_dev_t),
     (''ino'', c_ino_t),
     (''index'', c_long_unsigned_int),
     (''__data'', CArray c_char 0)]"

definition trace_event_raw_ext4__map_blocks_enter :: ctype where
  "trace_event_raw_ext4__map_blocks_enter = CStruct ''trace_event_raw_ext4__map_blocks_enter'' False [
     (''ent'', trace_entry),
     (''dev'', c_dev_t),
     (''ino'', c_ino_t),
     (''lblk'', c_ext4_lblk_t),
     (''len'', c_unsigned_int),
     (''flags'', c_unsigned_int),
     (''__data'', CArray c_char 0)]"

definition trace_event_raw_ext4__map_blocks_exit :: ctype where
  "trace_event_raw_ext4__map_blocks_exit = CStruct ''trace_event_raw_ext4__map_blocks_exit'' False [
     (''ent'', trace_entry),
     (''dev'', c_dev_t),
     (''ino'', c_ino_t),
     (''flags'', c_unsigned_int),
     (''pblk'', c_ext4_fsblk_t),
     (''lblk'', c_ext4_lblk_t),
     (''len'', c_unsigned_int),
     (''mflags'', c_unsigned_int),
     (''ret'', c_int),
     (''__data'', CArray c_char 0)]"

definition trace_event_raw_ext4__mb_new_pa :: ctype where
  "trace_event_raw_ext4__mb_new_pa = CStruct ''trace_event_raw_ext4__mb_new_pa'' False [
     (''ent'', trace_entry),
     (''dev'', c_dev_t),
     (''ino'', c_ino_t),
     (''pa_pstart'', c___u64),
     (''pa_lstart'', c___u64),
     (''pa_len'', c___u32),
     (''__data'', CArray c_char 0)]"

definition trace_event_raw_ext4__mballoc :: ctype where
  "trace_event_raw_ext4__mballoc = CStruct ''trace_event_raw_ext4__mballoc'' False [
     (''ent'', trace_entry),
     (''dev'', c_dev_t),
     (''ino'', c_ino_t),
     (''result_start'', c_int),
     (''result_group'', c___u32),
     (''result_len'', c_int),
     (''__data'', CArray c_char 0)]"

definition trace_event_raw_ext4__trim :: ctype where
  "trace_event_raw_ext4__trim = CStruct ''trace_event_raw_ext4__trim'' False [
     (''ent'', trace_entry),
     (''dev_major'', c_int),
     (''dev_minor'', c_int),
     (''group'', c___u32),
     (''start'', c_int),
     (''len'', c_int),
     (''__data'', CArray c_char 0)]"

definition trace_event_raw_ext4__truncate :: ctype where
  "trace_event_raw_ext4__truncate = CStruct ''trace_event_raw_ext4__truncate'' False [
     (''ent'', trace_entry),
     (''dev'', c_dev_t),
     (''ino'', c_ino_t),
     (''blocks'', c___u64),
     (''__data'', CArray c_char 0)]"

definition trace_event_raw_ext4__write_begin :: ctype where
  "trace_event_raw_ext4__write_begin = CStruct ''trace_event_raw_ext4__write_begin'' False [
     (''ent'', trace_entry),
     (''dev'', c_dev_t),
     (''ino'', c_ino_t),
     (''pos'', c_loff_t),
     (''len'', c_unsigned_int),
     (''__data'', CArray c_char 0)]"

definition trace_event_raw_ext4__write_end :: ctype where
  "trace_event_raw_ext4__write_end = CStruct ''trace_event_raw_ext4__write_end'' False [
     (''ent'', trace_entry),
     (''dev'', c_dev_t),
     (''ino'', c_ino_t),
     (''pos'', c_loff_t),
     (''len'', c_unsigned_int),
     (''copied'', c_unsigned_int),
     (''__data'', CArray c_char 0)]"

definition trace_event_raw_ext4_alloc_da_blocks :: ctype where
  "trace_event_raw_ext4_alloc_da_blocks = CStruct ''trace_event_raw_ext4_alloc_da_blocks'' False [
     (''ent'', trace_entry),
     (''dev'', c_dev_t),
     (''ino'', c_ino_t),
     (''data_blocks'', c_unsigned_int),
     (''__data'', CArray c_char 0)]"

definition trace_event_raw_ext4_allocate_blocks :: ctype where
  "trace_event_raw_ext4_allocate_blocks = CStruct ''trace_event_raw_ext4_allocate_blocks'' False [
     (''ent'', trace_entry),
     (''dev'', c_dev_t),
     (''ino'', c_ino_t),
     (''block'', c___u64),
     (''len'', c_unsigned_int),
     (''logical'', c___u32),
     (''lleft'', c___u32),
     (''lright'', c___u32),
     (''goal'', c___u64),
     (''pleft'', c___u64),
     (''pright'', c___u64),
     (''flags'', c_unsigned_int),
     (''__data'', CArray c_char 0)]"

definition trace_event_raw_ext4_allocate_inode :: ctype where
  "trace_event_raw_ext4_allocate_inode = CStruct ''trace_event_raw_ext4_allocate_inode'' False [
     (''ent'', trace_entry),
     (''dev'', c_dev_t),
     (''ino'', c_ino_t),
     (''dir'', c_ino_t),
     (''mode'', c___u16),
     (''__data'', CArray c_char 0)]"

definition trace_event_raw_ext4_begin_ordered_truncate :: ctype where
  "trace_event_raw_ext4_begin_ordered_truncate = CStruct ''trace_event_raw_ext4_begin_ordered_truncate'' False [
     (''ent'', trace_entry),
     (''dev'', c_dev_t),
     (''ino'', c_ino_t),
     (''new_size'', c_loff_t),
     (''__data'', CArray c_char 0)]"

definition trace_event_raw_ext4_collapse_range :: ctype where
  "trace_event_raw_ext4_collapse_range = CStruct ''trace_event_raw_ext4_collapse_range'' False [
     (''ent'', trace_entry),
     (''dev'', c_dev_t),
     (''ino'', c_ino_t),
     (''offset'', c_loff_t),
     (''len'', c_loff_t),
     (''__data'', CArray c_char 0)]"

definition trace_event_raw_ext4_da_release_space :: ctype where
  "trace_event_raw_ext4_da_release_space = CStruct ''trace_event_raw_ext4_da_release_space'' False [
     (''ent'', trace_entry),
     (''dev'', c_dev_t),
     (''ino'', c_ino_t),
     (''i_blocks'', c___u64),
     (''freed_blocks'', c_int),
     (''reserved_data_blocks'', c_int),
     (''mode'', c___u16),
     (''__data'', CArray c_char 0)]"

definition trace_event_raw_ext4_da_reserve_space :: ctype where
  "trace_event_raw_ext4_da_reserve_space = CStruct ''trace_event_raw_ext4_da_reserve_space'' False [
     (''ent'', trace_entry),
     (''dev'', c_dev_t),
     (''ino'', c_ino_t),
     (''i_blocks'', c___u64),
     (''reserve_blocks'', c_int),
     (''reserved_data_blocks'', c_int),
     (''mode'', c___u16),
     (''__data'', CArray c_char 0)]"

definition trace_event_raw_ext4_da_update_reserve_space :: ctype where
  "trace_event_raw_ext4_da_update_reserve_space = CStruct ''trace_event_raw_ext4_da_update_reserve_space'' False [
     (''ent'', trace_entry),
     (''dev'', c_dev_t),
     (''ino'', c_ino_t),
     (''i_blocks'', c___u64),
     (''used_blocks'', c_int),
     (''reserved_data_blocks'', c_int),
     (''quota_claim'', c_int),
     (''mode'', c___u16),
     (''__data'', CArray c_char 0)]"

definition trace_event_raw_ext4_da_write_folios_end :: ctype where
  "trace_event_raw_ext4_da_write_folios_end = CStruct ''trace_event_raw_ext4_da_write_folios_end'' False [
     (''ent'', trace_entry),
     (''dev'', c_dev_t),
     (''ino'', c_ino_t),
     (''start_pos'', c_loff_t),
     (''next_pos'', c_loff_t),
     (''nr_to_write'', c_long_int),
     (''ret'', c_int),
     (''__data'', CArray c_char 0)]"

definition trace_event_raw_ext4_da_write_folios_start :: ctype where
  "trace_event_raw_ext4_da_write_folios_start = CStruct ''trace_event_raw_ext4_da_write_folios_start'' False [
     (''ent'', trace_entry),
     (''dev'', c_dev_t),
     (''ino'', c_ino_t),
     (''start_pos'', c_loff_t),
     (''next_pos'', c_loff_t),
     (''nr_to_write'', c_long_int),
     (''sync_mode'', c_int),
     (''__data'', CArray c_char 0)]"

definition trace_event_raw_ext4_da_write_pages_extent :: ctype where
  "trace_event_raw_ext4_da_write_pages_extent = CStruct ''trace_event_raw_ext4_da_write_pages_extent'' False [
     (''ent'', trace_entry),
     (''dev'', c_dev_t),
     (''ino'', c_ino_t),
     (''lblk'', c___u64),
     (''len'', c___u32),
     (''flags'', c___u32),
     (''__data'', CArray c_char 0)]"

definition trace_event_raw_ext4_discard_blocks :: ctype where
  "trace_event_raw_ext4_discard_blocks = CStruct ''trace_event_raw_ext4_discard_blocks'' False [
     (''ent'', trace_entry),
     (''dev'', c_dev_t),
     (''blk'', c___u64),
     (''count'', c___u64),
     (''__data'', CArray c_char 0)]"

definition trace_event_raw_ext4_discard_preallocations :: ctype where
  "trace_event_raw_ext4_discard_preallocations = CStruct ''trace_event_raw_ext4_discard_preallocations'' False [
     (''ent'', trace_entry),
     (''dev'', c_dev_t),
     (''ino'', c_ino_t),
     (''len'', c_unsigned_int),
     (''__data'', CArray c_char 0)]"

definition trace_event_raw_ext4_drop_inode :: ctype where
  "trace_event_raw_ext4_drop_inode = CStruct ''trace_event_raw_ext4_drop_inode'' False [
     (''ent'', trace_entry),
     (''dev'', c_dev_t),
     (''ino'', c_ino_t),
     (''drop'', c_int),
     (''__data'', CArray c_char 0)]"

definition trace_event_raw_ext4_error :: ctype where
  "trace_event_raw_ext4_error = CStruct ''trace_event_raw_ext4_error'' False [
     (''ent'', trace_entry),
     (''dev'', c_dev_t),
     (''function'', CPtr ''const char''),
     (''line'', c_unsigned_int),
     (''__data'', CArray c_char 0)]"

definition trace_event_raw_ext4_es_find_extent_range_enter :: ctype where
  "trace_event_raw_ext4_es_find_extent_range_enter = CStruct ''trace_event_raw_ext4_es_find_extent_range_enter'' False [
     (''ent'', trace_entry),
     (''dev'', c_dev_t),
     (''ino'', c_ino_t),
     (''lblk'', c_ext4_lblk_t),
     (''__data'', CArray c_char 0)]"

definition trace_event_raw_ext4_es_find_extent_range_exit :: ctype where
  "trace_event_raw_ext4_es_find_extent_range_exit = CStruct ''trace_event_raw_ext4_es_find_extent_range_exit'' False [
     (''ent'', trace_entry),
     (''dev'', c_dev_t),
     (''ino'', c_ino_t),
     (''lblk'', c_ext4_lblk_t),
     (''len'', c_ext4_lblk_t),
     (''pblk'', c_ext4_fsblk_t),
     (''status'', c_char),
     (''__data'', CArray c_char 0)]"

definition trace_event_raw_ext4_es_insert_delayed_extent :: ctype where
  "trace_event_raw_ext4_es_insert_delayed_extent = CStruct ''trace_event_raw_ext4_es_insert_delayed_extent'' False [
     (''ent'', trace_entry),
     (''dev'', c_dev_t),
     (''ino'', c_ino_t),
     (''lblk'', c_ext4_lblk_t),
     (''len'', c_ext4_lblk_t),
     (''pblk'', c_ext4_fsblk_t),
     (''status'', c_char),
     (''lclu_allocated'', c_bool),
     (''end_allocated'', c_bool),
     (''seq'', c_u64),
     (''__data'', CArray c_char 0)]"

definition trace_event_raw_ext4_es_lookup_extent_enter :: ctype where
  "trace_event_raw_ext4_es_lookup_extent_enter = CStruct ''trace_event_raw_ext4_es_lookup_extent_enter'' False [
     (''ent'', trace_entry),
     (''dev'', c_dev_t),
     (''ino'', c_ino_t),
     (''lblk'', c_ext4_lblk_t),
     (''__data'', CArray c_char 0)]"

definition trace_event_raw_ext4_es_lookup_extent_exit :: ctype where
  "trace_event_raw_ext4_es_lookup_extent_exit = CStruct ''trace_event_raw_ext4_es_lookup_extent_exit'' False [
     (''ent'', trace_entry),
     (''dev'', c_dev_t),
     (''ino'', c_ino_t),
     (''lblk'', c_ext4_lblk_t),
     (''len'', c_ext4_lblk_t),
     (''pblk'', c_ext4_fsblk_t),
     (''status'', c_char),
     (''found'', c_int),
     (''__data'', CArray c_char 0)]"

definition trace_event_raw_ext4_es_remove_extent :: ctype where
  "trace_event_raw_ext4_es_remove_extent = CStruct ''trace_event_raw_ext4_es_remove_extent'' False [
     (''ent'', trace_entry),
     (''dev'', c_dev_t),
     (''ino'', c_ino_t),
     (''lblk'', c_loff_t),
     (''len'', c_loff_t),
     (''seq'', c_u64),
     (''__data'', CArray c_char 0)]"

definition trace_event_raw_ext4_es_shrink :: ctype where
  "trace_event_raw_ext4_es_shrink = CStruct ''trace_event_raw_ext4_es_shrink'' False [
     (''ent'', trace_entry),
     (''dev'', c_dev_t),
     (''nr_shrunk'', c_int),
     (''scan_time'', c_long_long_unsigned_int),
     (''nr_skipped'', c_int),
     (''retried'', c_int),
     (''__data'', CArray c_char 0)]"

definition trace_event_raw_ext4_es_shrink_scan_exit :: ctype where
  "trace_event_raw_ext4_es_shrink_scan_exit = CStruct ''trace_event_raw_ext4_es_shrink_scan_exit'' False [
     (''ent'', trace_entry),
     (''dev'', c_dev_t),
     (''nr_shrunk'', c_int),
     (''cache_cnt'', c_int),
     (''__data'', CArray c_char 0)]"

definition trace_event_raw_ext4_evict_inode :: ctype where
  "trace_event_raw_ext4_evict_inode = CStruct ''trace_event_raw_ext4_evict_inode'' False [
     (''ent'', trace_entry),
     (''dev'', c_dev_t),
     (''ino'', c_ino_t),
     (''nlink'', c_int),
     (''__data'', CArray c_char 0)]"

definition trace_event_raw_ext4_ext_convert_to_initialized_enter :: ctype where
  "trace_event_raw_ext4_ext_convert_to_initialized_enter = CStruct ''trace_event_raw_ext4_ext_convert_to_initialized_enter'' False [
     (''ent'', trace_entry),
     (''dev'', c_dev_t),
     (''ino'', c_ino_t),
     (''m_lblk'', c_ext4_lblk_t),
     (''m_len'', c_unsigned_int),
     (''u_lblk'', c_ext4_lblk_t),
     (''u_len'', c_unsigned_int),
     (''u_pblk'', c_ext4_fsblk_t),
     (''__data'', CArray c_char 0)]"

definition trace_event_raw_ext4_ext_convert_to_initialized_fastpath :: ctype where
  "trace_event_raw_ext4_ext_convert_to_initialized_fastpath = CStruct ''trace_event_raw_ext4_ext_convert_to_initialized_fastpath'' False [
     (''ent'', trace_entry),
     (''dev'', c_dev_t),
     (''ino'', c_ino_t),
     (''m_lblk'', c_ext4_lblk_t),
     (''m_len'', c_unsigned_int),
     (''u_lblk'', c_ext4_lblk_t),
     (''u_len'', c_unsigned_int),
     (''u_pblk'', c_ext4_fsblk_t),
     (''i_lblk'', c_ext4_lblk_t),
     (''i_len'', c_unsigned_int),
     (''i_pblk'', c_ext4_fsblk_t),
     (''__data'', CArray c_char 0)]"

definition trace_event_raw_ext4_ext_handle_unwritten_extents :: ctype where
  "trace_event_raw_ext4_ext_handle_unwritten_extents = CStruct ''trace_event_raw_ext4_ext_handle_unwritten_extents'' False [
     (''ent'', trace_entry),
     (''dev'', c_dev_t),
     (''ino'', c_ino_t),
     (''flags'', c_int),
     (''lblk'', c_ext4_lblk_t),
     (''pblk'', c_ext4_fsblk_t),
     (''len'', c_unsigned_int),
     (''allocated'', c_unsigned_int),
     (''newblk'', c_ext4_fsblk_t),
     (''__data'', CArray c_char 0)]"

definition trace_event_raw_ext4_ext_load_extent :: ctype where
  "trace_event_raw_ext4_ext_load_extent = CStruct ''trace_event_raw_ext4_ext_load_extent'' False [
     (''ent'', trace_entry),
     (''dev'', c_dev_t),
     (''ino'', c_ino_t),
     (''pblk'', c_ext4_fsblk_t),
     (''lblk'', c_ext4_lblk_t),
     (''__data'', CArray c_char 0)]"

definition trace_event_raw_ext4_ext_remove_space :: ctype where
  "trace_event_raw_ext4_ext_remove_space = CStruct ''trace_event_raw_ext4_ext_remove_space'' False [
     (''ent'', trace_entry),
     (''dev'', c_dev_t),
     (''ino'', c_ino_t),
     (''start'', c_ext4_lblk_t),
     (''end'', c_ext4_lblk_t),
     (''depth'', c_int),
     (''__data'', CArray c_char 0)]"

definition trace_event_raw_ext4_ext_remove_space_done :: ctype where
  "trace_event_raw_ext4_ext_remove_space_done = CStruct ''trace_event_raw_ext4_ext_remove_space_done'' False [
     (''ent'', trace_entry),
     (''dev'', c_dev_t),
     (''ino'', c_ino_t),
     (''start'', c_ext4_lblk_t),
     (''end'', c_ext4_lblk_t),
     (''depth'', c_int),
     (''pc_pclu'', c_ext4_fsblk_t),
     (''pc_lblk'', c_ext4_lblk_t),
     (''pc_state'', c_int),
     (''eh_entries'', c_short_unsigned_int),
     (''__data'', CArray c_char 0)]"

definition trace_event_raw_ext4_ext_rm_idx :: ctype where
  "trace_event_raw_ext4_ext_rm_idx = CStruct ''trace_event_raw_ext4_ext_rm_idx'' False [
     (''ent'', trace_entry),
     (''dev'', c_dev_t),
     (''ino'', c_ino_t),
     (''pblk'', c_ext4_fsblk_t),
     (''__data'', CArray c_char 0)]"

definition trace_event_raw_ext4_ext_rm_leaf :: ctype where
  "trace_event_raw_ext4_ext_rm_leaf = CStruct ''trace_event_raw_ext4_ext_rm_leaf'' False [
     (''ent'', trace_entry),
     (''dev'', c_dev_t),
     (''ino'', c_ino_t),
     (''start'', c_ext4_lblk_t),
     (''ee_lblk'', c_ext4_lblk_t),
     (''ee_pblk'', c_ext4_fsblk_t),
     (''ee_len'', c_short_int),
     (''pc_pclu'', c_ext4_fsblk_t),
     (''pc_lblk'', c_ext4_lblk_t),
     (''pc_state'', c_int),
     (''__data'', CArray c_char 0)]"

definition trace_event_raw_ext4_ext_show_extent :: ctype where
  "trace_event_raw_ext4_ext_show_extent = CStruct ''trace_event_raw_ext4_ext_show_extent'' False [
     (''ent'', trace_entry),
     (''dev'', c_dev_t),
     (''ino'', c_ino_t),
     (''pblk'', c_ext4_fsblk_t),
     (''lblk'', c_ext4_lblk_t),
     (''len'', c_short_unsigned_int),
     (''__data'', CArray c_char 0)]"

definition trace_event_raw_ext4_fallocate_exit :: ctype where
  "trace_event_raw_ext4_fallocate_exit = CStruct ''trace_event_raw_ext4_fallocate_exit'' False [
     (''ent'', trace_entry),
     (''dev'', c_dev_t),
     (''ino'', c_ino_t),
     (''pos'', c_loff_t),
     (''blocks'', c_unsigned_int),
     (''ret'', c_int),
     (''__data'', CArray c_char 0)]"

definition trace_event_raw_ext4_fc_cleanup :: ctype where
  "trace_event_raw_ext4_fc_cleanup = CStruct ''trace_event_raw_ext4_fc_cleanup'' False [
     (''ent'', trace_entry),
     (''dev'', c_dev_t),
     (''j_fc_off'', c_int),
     (''full'', c_int),
     (''tid'', c_tid_t),
     (''__data'', CArray c_char 0)]"

definition trace_event_raw_ext4_fc_commit_start :: ctype where
  "trace_event_raw_ext4_fc_commit_start = CStruct ''trace_event_raw_ext4_fc_commit_start'' False [
     (''ent'', trace_entry),
     (''dev'', c_dev_t),
     (''tid'', c_tid_t),
     (''__data'', CArray c_char 0)]"

definition trace_event_raw_ext4_fc_commit_stop :: ctype where
  "trace_event_raw_ext4_fc_commit_stop = CStruct ''trace_event_raw_ext4_fc_commit_stop'' False [
     (''ent'', trace_entry),
     (''dev'', c_dev_t),
     (''nblks'', c_int),
     (''reason'', c_int),
     (''num_fc'', c_int),
     (''num_fc_ineligible'', c_int),
     (''nblks_agg'', c_int),
     (''tid'', c_tid_t),
     (''__data'', CArray c_char 0)]"

definition trace_event_raw_ext4_fc_replay :: ctype where
  "trace_event_raw_ext4_fc_replay = CStruct ''trace_event_raw_ext4_fc_replay'' False [
     (''ent'', trace_entry),
     (''dev'', c_dev_t),
     (''tag'', c_int),
     (''ino'', c_int),
     (''priv1'', c_int),
     (''priv2'', c_int),
     (''__data'', CArray c_char 0)]"

definition trace_event_raw_ext4_fc_replay_scan :: ctype where
  "trace_event_raw_ext4_fc_replay_scan = CStruct ''trace_event_raw_ext4_fc_replay_scan'' False [
     (''ent'', trace_entry),
     (''dev'', c_dev_t),
     (''error'', c_int),
     (''off'', c_int),
     (''__data'', CArray c_char 0)]"

definition trace_event_raw_ext4_fc_stats :: ctype where
  "trace_event_raw_ext4_fc_stats = CStruct ''trace_event_raw_ext4_fc_stats'' False [
     (''ent'', trace_entry),
     (''dev'', c_dev_t),
     (''fc_ineligible_rc'', CArray c_unsigned_int 13),
     (''fc_commits'', c_long_unsigned_int),
     (''fc_ineligible_commits'', c_long_unsigned_int),
     (''fc_numblks'', c_long_unsigned_int),
     (''__data'', CArray c_char 0)]"

definition trace_event_raw_ext4_fc_track_dentry :: ctype where
  "trace_event_raw_ext4_fc_track_dentry = CStruct ''trace_event_raw_ext4_fc_track_dentry'' False [
     (''ent'', trace_entry),
     (''dev'', c_dev_t),
     (''t_tid'', c_tid_t),
     (''i_ino'', c_ino_t),
     (''i_sync_tid'', c_tid_t),
     (''error'', c_int),
     (''__data'', CArray c_char 0)]"

definition trace_event_raw_ext4_fc_track_inode :: ctype where
  "trace_event_raw_ext4_fc_track_inode = CStruct ''trace_event_raw_ext4_fc_track_inode'' False [
     (''ent'', trace_entry),
     (''dev'', c_dev_t),
     (''t_tid'', c_tid_t),
     (''i_ino'', c_ino_t),
     (''i_sync_tid'', c_tid_t),
     (''error'', c_int),
     (''__data'', CArray c_char 0)]"

definition trace_event_raw_ext4_fc_track_range :: ctype where
  "trace_event_raw_ext4_fc_track_range = CStruct ''trace_event_raw_ext4_fc_track_range'' False [
     (''ent'', trace_entry),
     (''dev'', c_dev_t),
     (''t_tid'', c_tid_t),
     (''i_ino'', c_ino_t),
     (''i_sync_tid'', c_tid_t),
     (''start'', c_long_int),
     (''end'', c_long_int),
     (''error'', c_int),
     (''__data'', CArray c_char 0)]"

definition trace_event_raw_ext4_forget :: ctype where
  "trace_event_raw_ext4_forget = CStruct ''trace_event_raw_ext4_forget'' False [
     (''ent'', trace_entry),
     (''dev'', c_dev_t),
     (''ino'', c_ino_t),
     (''block'', c___u64),
     (''is_metadata'', c_int),
     (''mode'', c___u16),
     (''__data'', CArray c_char 0)]"

definition trace_event_raw_ext4_free_blocks :: ctype where
  "trace_event_raw_ext4_free_blocks = CStruct ''trace_event_raw_ext4_free_blocks'' False [
     (''ent'', trace_entry),
     (''dev'', c_dev_t),
     (''ino'', c_ino_t),
     (''block'', c___u64),
     (''count'', c_long_unsigned_int),
     (''flags'', c_int),
     (''mode'', c___u16),
     (''__data'', CArray c_char 0)]"

definition trace_event_raw_ext4_free_inode :: ctype where
  "trace_event_raw_ext4_free_inode = CStruct ''trace_event_raw_ext4_free_inode'' False [
     (''ent'', trace_entry),
     (''dev'', c_dev_t),
     (''ino'', c_ino_t),
     (''uid'', c_uid_t),
     (''gid'', c_gid_t),
     (''blocks'', c___u64),
     (''mode'', c___u16),
     (''__data'', CArray c_char 0)]"

definition trace_event_raw_ext4_fsmap_class :: ctype where
  "trace_event_raw_ext4_fsmap_class = CStruct ''trace_event_raw_ext4_fsmap_class'' False [
     (''ent'', trace_entry),
     (''dev'', c_dev_t),
     (''keydev'', c_dev_t),
     (''agno'', c_u32),
     (''bno'', c_u64),
     (''len'', c_u64),
     (''owner'', c_u64),
     (''__data'', CArray c_char 0)]"

definition trace_event_raw_ext4_get_implied_cluster_alloc_exit :: ctype where
  "trace_event_raw_ext4_get_implied_cluster_alloc_exit = CStruct ''trace_event_raw_ext4_get_implied_cluster_alloc_exit'' False [
     (''ent'', trace_entry),
     (''dev'', c_dev_t),
     (''flags'', c_unsigned_int),
     (''lblk'', c_ext4_lblk_t),
     (''pblk'', c_ext4_fsblk_t),
     (''len'', c_unsigned_int),
     (''ret'', c_int),
     (''__data'', CArray c_char 0)]"

definition trace_event_raw_ext4_getfsmap_class :: ctype where
  "trace_event_raw_ext4_getfsmap_class = CStruct ''trace_event_raw_ext4_getfsmap_class'' False [
     (''ent'', trace_entry),
     (''dev'', c_dev_t),
     (''keydev'', c_dev_t),
     (''block'', c_u64),
     (''len'', c_u64),
     (''owner'', c_u64),
     (''flags'', c_u64),
     (''__data'', CArray c_char 0)]"

definition trace_event_raw_ext4_insert_range :: ctype where
  "trace_event_raw_ext4_insert_range = CStruct ''trace_event_raw_ext4_insert_range'' False [
     (''ent'', trace_entry),
     (''dev'', c_dev_t),
     (''ino'', c_ino_t),
     (''offset'', c_loff_t),
     (''len'', c_loff_t),
     (''__data'', CArray c_char 0)]"

definition trace_event_raw_ext4_invalidate_folio_op :: ctype where
  "trace_event_raw_ext4_invalidate_folio_op = CStruct ''trace_event_raw_ext4_invalidate_folio_op'' False [
     (''ent'', trace_entry),
     (''dev'', c_dev_t),
     (''ino'', c_ino_t),
     (''index'', c_long_unsigned_int),
     (''offset'', c_size_t),
     (''length'', c_size_t),
     (''__data'', CArray c_char 0)]"

definition trace_event_raw_ext4_journal_start_inode :: ctype where
  "trace_event_raw_ext4_journal_start_inode = CStruct ''trace_event_raw_ext4_journal_start_inode'' False [
     (''ent'', trace_entry),
     (''ino'', c_long_unsigned_int),
     (''dev'', c_dev_t),
     (''ip'', c_long_unsigned_int),
     (''blocks'', c_int),
     (''rsv_blocks'', c_int),
     (''revoke_creds'', c_int),
     (''type'', c_int),
     (''__data'', CArray c_char 0)]"

definition trace_event_raw_ext4_journal_start_reserved :: ctype where
  "trace_event_raw_ext4_journal_start_reserved = CStruct ''trace_event_raw_ext4_journal_start_reserved'' False [
     (''ent'', trace_entry),
     (''dev'', c_dev_t),
     (''ip'', c_long_unsigned_int),
     (''blocks'', c_int),
     (''__data'', CArray c_char 0)]"

definition trace_event_raw_ext4_journal_start_sb :: ctype where
  "trace_event_raw_ext4_journal_start_sb = CStruct ''trace_event_raw_ext4_journal_start_sb'' False [
     (''ent'', trace_entry),
     (''dev'', c_dev_t),
     (''ip'', c_long_unsigned_int),
     (''blocks'', c_int),
     (''rsv_blocks'', c_int),
     (''revoke_creds'', c_int),
     (''type'', c_int),
     (''__data'', CArray c_char 0)]"

definition trace_event_raw_ext4_lazy_itable_init :: ctype where
  "trace_event_raw_ext4_lazy_itable_init = CStruct ''trace_event_raw_ext4_lazy_itable_init'' False [
     (''ent'', trace_entry),
     (''dev'', c_dev_t),
     (''group'', c___u32),
     (''__data'', CArray c_char 0)]"

definition trace_event_raw_ext4_load_inode :: ctype where
  "trace_event_raw_ext4_load_inode = CStruct ''trace_event_raw_ext4_load_inode'' False [
     (''ent'', trace_entry),
     (''dev'', c_dev_t),
     (''ino'', c_ino_t),
     (''__data'', CArray c_char 0)]"

definition trace_event_raw_ext4_mark_inode_dirty :: ctype where
  "trace_event_raw_ext4_mark_inode_dirty = CStruct ''trace_event_raw_ext4_mark_inode_dirty'' False [
     (''ent'', trace_entry),
     (''dev'', c_dev_t),
     (''ino'', c_ino_t),
     (''ip'', c_long_unsigned_int),
     (''__data'', CArray c_char 0)]"

definition trace_event_raw_ext4_mb_discard_preallocations :: ctype where
  "trace_event_raw_ext4_mb_discard_preallocations = CStruct ''trace_event_raw_ext4_mb_discard_preallocations'' False [
     (''ent'', trace_entry),
     (''dev'', c_dev_t),
     (''needed'', c_int),
     (''__data'', CArray c_char 0)]"

definition trace_event_raw_ext4_mb_release_group_pa :: ctype where
  "trace_event_raw_ext4_mb_release_group_pa = CStruct ''trace_event_raw_ext4_mb_release_group_pa'' False [
     (''ent'', trace_entry),
     (''dev'', c_dev_t),
     (''pa_pstart'', c___u64),
     (''pa_len'', c___u32),
     (''__data'', CArray c_char 0)]"

definition trace_event_raw_ext4_mb_release_inode_pa :: ctype where
  "trace_event_raw_ext4_mb_release_inode_pa = CStruct ''trace_event_raw_ext4_mb_release_inode_pa'' False [
     (''ent'', trace_entry),
     (''dev'', c_dev_t),
     (''ino'', c_ino_t),
     (''block'', c___u64),
     (''count'', c___u32),
     (''__data'', CArray c_char 0)]"

definition trace_event_raw_ext4_mballoc_alloc :: ctype where
  "trace_event_raw_ext4_mballoc_alloc = CStruct ''trace_event_raw_ext4_mballoc_alloc'' False [
     (''ent'', trace_entry),
     (''dev'', c_dev_t),
     (''ino'', c_ino_t),
     (''orig_logical'', c___u32),
     (''orig_start'', c_int),
     (''orig_group'', c___u32),
     (''orig_len'', c_int),
     (''goal_logical'', c___u32),
     (''goal_start'', c_int),
     (''goal_group'', c___u32),
     (''goal_len'', c_int),
     (''result_logical'', c___u32),
     (''result_start'', c_int),
     (''result_group'', c___u32),
     (''result_len'', c_int),
     (''found'', c___u16),
     (''groups'', c___u16),
     (''buddy'', c___u16),
     (''flags'', c___u16),
     (''tail'', c___u16),
     (''cr'', c___u8),
     (''__data'', CArray c_char 0)]"

definition trace_event_raw_ext4_mballoc_prealloc :: ctype where
  "trace_event_raw_ext4_mballoc_prealloc = CStruct ''trace_event_raw_ext4_mballoc_prealloc'' False [
     (''ent'', trace_entry),
     (''dev'', c_dev_t),
     (''ino'', c_ino_t),
     (''orig_logical'', c___u32),
     (''orig_start'', c_int),
     (''orig_group'', c___u32),
     (''orig_len'', c_int),
     (''result_logical'', c___u32),
     (''result_start'', c_int),
     (''result_group'', c___u32),
     (''result_len'', c_int),
     (''__data'', CArray c_char 0)]"

definition trace_events_2 :: "ctype list" where
  "trace_events_2 = [
     trace_event_raw_dma_alloc_sgt,
     trace_event_raw_dma_buf,
     trace_event_raw_dma_buf_attach_dev,
     trace_event_raw_dma_buf_fd,
     trace_event_raw_dma_fence,
     trace_event_raw_dma_fence_unsignaled,
     trace_event_raw_dma_free_class,
     trace_event_raw_dma_free_sgt,
     trace_event_raw_dma_map,
     trace_event_raw_dma_map_sg,
     trace_event_raw_dma_map_sg_err,
     trace_event_raw_dma_sync_sg,
     trace_event_raw_dma_sync_single,
     trace_event_raw_dma_unmap,
     trace_event_raw_dma_unmap_sg,
     trace_event_raw_dql_stall_detected,
     trace_event_raw_drm_vblank_event,
     trace_event_raw_drm_vblank_event_delivered,
     trace_event_raw_drm_vblank_event_queued,
     trace_event_raw_emulate_vsyscall,
     trace_event_raw_error_da_monitor_id,
     trace_event_raw_error_report_template,
     trace_event_raw_event_da_monitor_id,
     trace_event_raw_exceptions,
     trace_event_raw_exit_mmap,
     trace_event_raw_ext4__bitmap_load,
     trace_event_raw_ext4__es_extent,
     trace_event_raw_ext4__es_shrink_enter,
     trace_event_raw_ext4__fallocate_mode,
     trace_event_raw_ext4__folio_op,
     trace_event_raw_ext4__map_blocks_enter,
     trace_event_raw_ext4__map_blocks_exit,
     trace_event_raw_ext4__mb_new_pa,
     trace_event_raw_ext4__mballoc,
     trace_event_raw_ext4__trim,
     trace_event_raw_ext4__truncate,
     trace_event_raw_ext4__write_begin,
     trace_event_raw_ext4__write_end,
     trace_event_raw_ext4_alloc_da_blocks,
     trace_event_raw_ext4_allocate_blocks,
     trace_event_raw_ext4_allocate_inode,
     trace_event_raw_ext4_begin_ordered_truncate,
     trace_event_raw_ext4_collapse_range,
     trace_event_raw_ext4_da_release_space,
     trace_event_raw_ext4_da_reserve_space,
     trace_event_raw_ext4_da_update_reserve_space,
     trace_event_raw_ext4_da_write_folios_end,
     trace_event_raw_ext4_da_write_folios_start,
     trace_event_raw_ext4_da_write_pages_extent,
     trace_event_raw_ext4_discard_blocks,
     trace_event_raw_ext4_discard_preallocations,
     trace_event_raw_ext4_drop_inode,
     trace_event_raw_ext4_error,
     trace_event_raw_ext4_es_find_extent_range_enter,
     trace_event_raw_ext4_es_find_extent_range_exit,
     trace_event_raw_ext4_es_insert_delayed_extent,
     trace_event_raw_ext4_es_lookup_extent_enter,
     trace_event_raw_ext4_es_lookup_extent_exit,
     trace_event_raw_ext4_es_remove_extent,
     trace_event_raw_ext4_es_shrink,
     trace_event_raw_ext4_es_shrink_scan_exit,
     trace_event_raw_ext4_evict_inode,
     trace_event_raw_ext4_ext_convert_to_initialized_enter,
     trace_event_raw_ext4_ext_convert_to_initialized_fastpath,
     trace_event_raw_ext4_ext_handle_unwritten_extents,
     trace_event_raw_ext4_ext_load_extent,
     trace_event_raw_ext4_ext_remove_space,
     trace_event_raw_ext4_ext_remove_space_done,
     trace_event_raw_ext4_ext_rm_idx,
     trace_event_raw_ext4_ext_rm_leaf,
     trace_event_raw_ext4_ext_show_extent,
     trace_event_raw_ext4_fallocate_exit,
     trace_event_raw_ext4_fc_cleanup,
     trace_event_raw_ext4_fc_commit_start,
     trace_event_raw_ext4_fc_commit_stop,
     trace_event_raw_ext4_fc_replay,
     trace_event_raw_ext4_fc_replay_scan,
     trace_event_raw_ext4_fc_stats,
     trace_event_raw_ext4_fc_track_dentry,
     trace_event_raw_ext4_fc_track_inode,
     trace_event_raw_ext4_fc_track_range,
     trace_event_raw_ext4_forget,
     trace_event_raw_ext4_free_blocks,
     trace_event_raw_ext4_free_inode,
     trace_event_raw_ext4_fsmap_class,
     trace_event_raw_ext4_get_implied_cluster_alloc_exit,
     trace_event_raw_ext4_getfsmap_class,
     trace_event_raw_ext4_insert_range,
     trace_event_raw_ext4_invalidate_folio_op,
     trace_event_raw_ext4_journal_start_inode,
     trace_event_raw_ext4_journal_start_reserved,
     trace_event_raw_ext4_journal_start_sb,
     trace_event_raw_ext4_lazy_itable_init,
     trace_event_raw_ext4_load_inode,
     trace_event_raw_ext4_mark_inode_dirty,
     trace_event_raw_ext4_mb_discard_preallocations,
     trace_event_raw_ext4_mb_release_group_pa,
     trace_event_raw_ext4_mb_release_inode_pa,
     trace_event_raw_ext4_mballoc_alloc,
     trace_event_raw_ext4_mballoc_prealloc]"

lemma trace_events_2_ok: "list_all event_ok trace_events_2"
  by code_simp

lemma length_trace_events_2: "length trace_events_2 = 100"
  by (simp add: trace_events_2_def)

end
