(* ===== verification/VmlinuxTrace3.thy ===== *)
theory VmlinuxTrace3
  imports VmlinuxTypes
begin

text \<open>
  Tracepoint context structures of \<^verbatim>\<open>src/internal/ebpf/vmlinux.h\<close>, lines 146892 to 147925:
  \<^verbatim>\<open>trace_event_raw_ext4_move_extent_enter\<close> to
  \<^verbatim>\<open>trace_event_raw_iomap_add_to_ioend\<close>, one definition per structure, members in order.
\<close>

definition trace_event_raw_ext4_move_extent_enter :: ctype where
  "trace_event_raw_ext4_move_extent_enter = CStruct ''trace_event_raw_ext4_move_extent_enter'' False [
     (''ent'', trace_entry),
     (''dev'', c_dev_t),
     (''orig_ino'', c_ino_t),
     (''orig_lblk'', c_ext4_lblk_t),
     (''orig_flags'', c_unsigned_int),
     (''donor_ino'', c_ino_t),
     (''donor_lblk'', c_ext4_lblk_t),
     (''len'', c_unsigned_int),
     (''__data'', CArray c_char 0)]"

definition trace_event_raw_ext4_move_extent_exit :: ctype where
  "trace_event_raw_ext4_move_extent_exit = CStruct ''trace_event_raw_ext4_move_extent_exit'' False [
     (''ent'', trace_entry),
     (''dev'', c_dev_t),
     (''orig_ino'', c_ino_t),
     (''orig_lblk'', c_ext4_lblk_t),
     (''donor_ino'', c_ino_t),
     (''donor_lblk'', c_ext4_lblk_t),
     (''m_len'', c_unsigned_int),
     (''move_len'', c_u64),
     (''move_type'', c_int),
     (''ret'', c_int),
     (''__data'', CArray c_char 0)]"

definition trace_event_raw_ext4_nfs_commit_metadata :: ctype where
  "trace_event_raw_ext4_nfs_commit_metadata = CStruct ''trace_event_raw_ext4_nfs_commit_metadata'' False [
     (''ent'', trace_entry),
     (''dev'', c_dev_t),
     (''ino'', c_ino_t),
     (''__data'', CArray c_char 0)]"

definition trace_event_raw_ext4_other_inode_update_time :: ctype where
  "trace_event_raw_ext4_other_inode_update_time = CStruct ''trace_event_raw_ext4_other_inode_update_time'' False [
     (''ent'', trace_entry),
     (''dev'', c_dev_t),
     (''ino'', c_ino_t),
     (''orig_ino'', c_ino_t),
     (''uid'', c_uid_t),
     (''gid'', c_gid_t),
     (''mode'', c___u16),
     (''__data'', CArray c_char 0)]"

definition trace_event_raw_ext4_prefetch_bitmaps :: ctype where
  "trace_event_raw_ext4_prefetch_bitmaps = CStruct ''trace_event_raw_ext4_prefetch_bitmaps'' False [
     (''ent'', trace_entry),
     (''dev'', c_dev_t),
     (''group'', c___u32),
     (''next'', c___u32),
     (''ios'', c___u32),
     (''__data'', CArray c_char 0)]"

definition trace_event_raw_ext4_read_block_bitmap_load :: ctype where
  "trace_event_raw_ext4_read_block_bitmap_load = CStruct ''trace_event_raw_ext4_read_block_bitmap_load'' False [
     (''ent'', trace_entry),
     (''dev'', c_dev_t),
     (''group'', c___u32),
     (''prefetch'', c_bool),
     (''__data'', CArray c_char 0)]"

definition trace_event_raw_ext4_remove_blocks :: ctype where
  "trace_event_raw_ext4_remove_blocks = CStruct ''trace_event_raw_ext4_remove_blocks'' False [
     (''ent'', trace_entry),
     (''dev'', c_dev_t),
     (''ino'', c_ino_t),
     (''from'', c_ext4_lblk_t),
     (''to'', c_ext4_lblk_t),
     (''ee_pblk'', c_ext4_fsblk_t),
     (''ee_lblk'', c_ext4_lblk_t),
     (''ee_len'', c_short_unsigned_int),
     (''pc_pclu'', c_ext4_fsblk_t),
     (''pc_lblk'', c_ext4_lblk_t),
     (''pc_state'', c_int),
     (''__data'', CArray c_char 0)]"

definition trace_event_raw_ext4_request_blocks :: ctype where
  "trace_event_raw_ext4_request_blocks = CStruct ''trace_event_raw_ext4_request_blocks'' False [
     (''ent'', trace_entry),
     (''dev'', c_dev_t),
     (''ino'', c_ino_t),
     (''len'', c_unsigned_int),
     (''logical'', c___u32),
     (''lleft'', c___u32),
     (''lright'', c___u32),
     (''goal'', c___u64),
     (''pleft'', c___u64),
     (''pright'', c___u64),
     (''flags'', c_unsigned_int),
     (''__data'', CArray c_char 0)]"

definition trace_event_raw_ext4_request_inode :: ctype where
  "trace_event_raw_ext4_request_inode = CStruct ''trace_event_raw_ext4_request_inode'' False [
     (''ent'', trace_entry),
     (''dev'', c_dev_t),
     (''dir'', c_ino_t),
     (''mode'', c___u16),
     (''__data'', CArray c_char 0)]"

definition trace_event_raw_ext4_shutdown :: ctype where
  "trace_event_raw_ext4_shutdown = CStruct ''trace_event_raw_ext4_shutdown'' False [
     (''ent'', trace_entry),
     (''dev'', c_dev_t),
     (''flags'', c_unsigned_int),
     (''__data'', CArray c_char 0)]"

definition trace_event_raw_ext4_sync_file_enter :: ctype where
  "trace_event_raw_ext4_sync_file_enter = CStruct ''trace_event_raw_ext4_sync_file_enter'' False [
     (''ent'', trace_entry),
     (''dev'', c_dev_t),
     (''ino'', c_ino_t),
     (''parent'', c_ino_t),
     (''datasync'', c_int),
     (''__data'', CArray c_char 0)]"

definition trace_event_raw_ext4_sync_file_exit :: ctype where
  "trace_event_raw_ext4_sync_file_exit = CStruct ''trace_event_raw_ext4_sync_file_exit'' False [
     (''ent'', trace_entry),
     (''dev'', c_dev_t),
     (''ino'', c_ino_t),
     (''ret'', c_int),
     (''__data'', CArray c_char 0)]"

definition trace_event_raw_ext4_sync_fs :: ctype where
  "trace_event_raw_ext4_sync_fs = CStruct ''trace_event_raw_ext4_sync_fs'' False [
     (''ent'', trace_entry),
     (''dev'', c_dev_t),
     (''wait'', c_int),
     (''__data'', CArray c_char 0)]"

definition trace_event_raw_ext4_unlink_enter :: ctype where
  "trace_event_raw_ext4_unlink_enter = CStruct ''trace_event_raw_ext4_unlink_enter'' False [
     (''ent'', trace_entry),
     (''dev'', c_dev_t),
     (''ino'', c_ino_t),
     (''parent'', c_ino_t),
     (''size'', c_loff_t),
     (''__data'', CArray c_char 0)]"

definition trace_event_raw_ext4_unlink_exit :: ctype where
  "trace_event_raw_ext4_unlink_exit = CStruct ''trace_event_raw_ext4_unlink_exit'' False [
     (''ent'', trace_entry),
     (''dev'', c_dev_t),
     (''ino'', c_ino_t),
     (''ret'', c_int),
     (''__data'', CArray c_char 0)]"

definition trace_event_raw_ext4_update_sb :: ctype where
  "trace_event_raw_ext4_update_sb = CStruct ''trace_event_raw_ext4_update_sb'' False [
     (''ent'', trace_entry),
     (''dev'', c_dev_t),
     (''fsblk'', c_ext4_fsblk_t),
     (''flags'', c_unsigned_int),
     (''__data'', CArray c_char 0)]"

definition trace_event_raw_ext4_writepages :: ctype where
  "trace_event_raw_ext4_writepages = CStruct ''trace_event_raw_ext4_writepages'' False [
     (''ent'', trace_entry),
     (''dev'', c_dev_t),
     (''ino'', c_ino_t),
     (''nr_to_write'', c_long_int),
     (''pages_skipped'', c_long_int),
     (''range_start'', c_loff_t),
     (''range_end'', c_loff_t),
     (''writeback_index'', c_long_unsigned_int),
     (''sync_mode'', c_int),
     (''for_kupdate'', c_char),
     (''range_cyclic'', c_char),
     (''__data'', CArray c_char 0)]"

definition trace_event_raw_ext4_writepages_result :: ctype where
  "trace_event_raw_ext4_writepages_result = CStruct ''trace_event_raw_ext4_writepages_result'' False [
     (''ent'', trace_entry),
     (''dev'', c_dev_t),
     (''ino'', c_ino_t),
     (''ret'', c_int),
     (''pages_written'', c_int),
     (''pages_skipped'', c_long_int),
     (''writeback_index'', c_long_unsigned_int),
     (''sync_mode'', c_int),
     (''__data'', CArray c_char 0)]"

definition trace_event_raw_extlog_mem_event :: ctype where
  "trace_event_raw_extlog_mem_event = CStruct ''trace_event_raw_extlog_mem_event'' False [
     (''ent'', trace_entry),
     (''err_seq'', c_u32),
     (''etype'', c_u8),
     (''sev'', c_u8),
     (''pa'', c_u64),
     (''pa_mask_lsb'', c_u8),
     (''fru_id'', c_guid_t),
     (''__data_loc_fru_text'', c_u32),
     (''data'', struct_cper_mem_err_compact),
     (''__data'', CArray c_char 0)]"

definition trace_event_raw_fdb_delete :: ctype where
  "trace_event_raw_fdb_delete = CStruct ''trace_event_raw_fdb_delete'' False [
     (''ent'', trace_entry),
     (''__data_loc_br_dev'', c_u32),
     (''__data_loc_dev'', c_u32),
     (''addr'', CArray c_unsigned_char 6),
     (''vid'', c_u16),
     (''__data'', CArray c_char 0)]"

definition trace_event_raw_fib6_table_lookup :: ctype where
  "trace_event_raw_fib6_table_lookup = CStruct ''trace_event_raw_fib6_table_lookup'' False [
     (''ent'', trace_entry),
     (''tb_id'', c_u32),
     (''err'', c_int),
     (''oif'', c_int),
     (''iif'', c_int),
     (''flowlabel'', c_u32),
     (''tos'', c___u8),
     (''scope'', c___u8),
     (''flags'', c___u8),
     (''src'', CArray c___u8 16),
     (''dst'', CArray c___u8 16),
     (''sport'', c_u16),
     (''dport'', c_u16),
     (''proto'', c_u8),
     (''rt_type'', c_u8),
     (''name'', CArray c_char 16),
     (''gw'', CArray c___u8 16),
     (''__data'', CArray c_char 0)]"

definition trace_event_raw_fib_table_lookup :: ctype where
  "trace_event_raw_fib_table_lookup = CStruct ''trace_event_raw_fib_table_lookup'' False [
     (''ent'', trace_entry),
     (''tb_id'', c_u32),
     (''err'', c_int),
     (''oif'', c_int),
     (''iif'', c_int),
     (''proto'', c_u8),
     (''tos'', c___u8),
     (''scope'', c___u8),
     (''flags'', c___u8),
     (''src'', CArray c___u8 4),
     (''dst'', CArray c___u8 4),
     (''gw4'', CArray c___u8 4),
     (''gw6'', CArray c___u8 16),
     (''sport'', c_u16),
     (''dport'', c_u16),
     (''name'', CArray c_char 16),
     (''__data'', CArray c_char 0)]"

definition trace_event_raw_file_check_and_advance_wb_err :: ctype where
  "trace_event_raw_file_check_and_advance_wb_err = CStruct ''trace_event_raw_file_check_and_advance_wb_err'' False [
     (''ent'', trace_entry),
     (''file'', CPtr ''struct file''),
     (''i_ino'', c_long_unsigned_int),
     (''s_dev'', c_dev_t),
     (''old'', c_errseq_t),
     (''new'', c_errseq_t),
     (''__data'', CArray c_char 0)]"

definition trace_event_raw_filelock_lease :: ctype where
  "trace_event_raw_filelock_lease = CStruct ''trace_event_raw_filelock_lease'' False [
     (''ent'', trace_entry),
     (''fl'', CPtr ''struct file_lease''),
     (''i_ino'', c_long_unsigned_int),
     (''s_dev'', c_dev_t),
     (''blocker'', CPtr ''struct file_lock_core''),
     (''owner'', c_fl_owner_t),
     (''flags'', c_unsigned_int),
     (''type'', c_unsigned_char),
     (''break_time'', c_long_unsigned_int),
     (''downgrade_time'', c_long_unsigned_int),
     (''__data'', CArray c_char 0)]"

definition trace_event_raw_filelock_lock :: ctype where
  "trace_event_raw_filelock_lock = CStruct ''trace_event_raw_filelock_lock'' False [
     (''ent'', trace_entry),
     (''fl'', CPtr ''struct file_lock''),
     (''i_ino'', c_long_unsigned_int),
     (''s_dev'', c_dev_t),
     (''blocker'', CPtr ''struct file_lock_core''),
     (''owner'', c_fl_owner_t),
     (''pid'', c_unsigned_int),
     (''flags'', c_unsigned_int),
     (''type'', c_unsigned_char),
     (''fl_start'', c_loff_t),
     (''fl_end'', c_loff_t),
     (''ret'', c_int),
     (''__data'', CArray c_char 0)]"

definition trace_event_raw_filemap_set_wb_err :: ctype where
  "trace_event_raw_filemap_set_wb_err = CStruct ''trace_event_raw_filemap_set_wb_err'' False [
     (''ent'', trace_entry),
     (''i_ino'', c_long_unsigned_int),
     (''s_dev'', c_dev_t),
     (''errseq'', c_errseq_t),
     (''__data'', CArray c_char 0)]"

definition trace_event_raw_fill_mg_cmtime :: ctype where
  "trace_event_raw_fill_mg_cmtime = CStruct ''trace_event_raw_fill_mg_cmtime'' False [
     (''ent'', trace_entry),
     (''dev'', c_dev_t),
     (''ino'', c_ino_t),
     (''ctime_s'', c_time64_t),
     (''mtime_s'', c_time64_t),
     (''ctime_ns'', c_u32),
     (''mtime_ns'', c_u32),
     (''gen'', c_u32),
     (''__data'', CArray c_char 0)]"

definition trace_event_raw_finish_task_reaping :: ctype where
  "trace_event_raw_finish_task_reaping = CStruct ''trace_event_raw_finish_task_reaping'' False [
     (''ent'', trace_entry),
     (''pid'', c_int),
     (''__data'', CArray c_char 0)]"

definition trace_event_raw_flush_foreign :: ctype where
  "trace_event_raw_flush_foreign = CStruct ''trace_event_raw_flush_foreign'' False [
     (''ent'', trace_entry),
     (''name'', CArray c_char 32),
     (''cgroup_ino'', c_ino_t),
     (''frn_bdi_id'', c_unsigned_int),
     (''frn_memcg_id'', c_unsigned_int),
     (''__data'', CArray c_char 0)]"

definition trace_event_raw_free_vmap_area_noflush :: ctype where
  "trace_event_raw_free_vmap_area_noflush = CStruct ''trace_event_raw_free_vmap_area_noflush'' False [
     (''ent'', trace_entry),
     (''va_start'', c_long_unsigned_int),
     (''nr_lazy'', c_long_unsigned_int),
     (''nr_lazy_max'', c_long_unsigned_int),
     (''__data'', CArray c_char 0)]"

definition trace_event_raw_fsverity_enable :: ctype where
  "trace_event_raw_fsverity_enable = CStruct ''trace_event_raw_fsverity_enable'' False [
     (''ent'', trace_entry),
     (''ino'', c_ino_t),
     (''data_size'', c_u64),
     (''tree_size'', c_u64),
     (''merkle_block'', c_unsigned_int),
     (''num_levels'', c_unsigned_int),
     (''__data'', CArray c_char 0)]"

definition trace_event_raw_fsverity_merkle_hit :: ctype where
  "trace_event_raw_fsverity_merkle_hit = CStruct ''trace_event_raw_fsverity_merkle_hit'' False [
     (''ent'', trace_entry),
     (''ino'', c_ino_t),
     (''data_pos'', c_u64),
     (''hblock_idx'', c_long_unsigned_int),
     (''level'', c_unsigned_int),
     (''hidx'', c_unsigned_int),
     (''__data'', CArray c_char 0)]"

definition trace_event_raw_fsverity_tree_done :: ctype where
  "trace_event_raw_fsverity_tree_done = CStruct ''trace_event_raw_fsverity_tree_done'' False [
     (''ent'', trace_entry),
     (''ino'', c_ino_t),
     (''data_size'', c_u64),
     (''tree_size'', c_u64),
     (''merkle_block'', c_unsigned_int),
     (''levels'', c_unsigned_int),
     (''__data_loc_root_hash'', c_u32),
     (''__data_loc_file_digest'', c_u32),
     (''__data'', CArray c_char 0)]"

definition trace_event_raw_fsverity_verify_data_block :: ctype where
  "trace_event_raw_fsverity_verify_data_block = CStruct ''trace_event_raw_fsverity_verify_data_block'' False [
     (''ent'', trace_entry),
     (''ino'', c_ino_t),
     (''data_pos'', c_u64),
     (''merkle_block'', c_unsigned_int),
     (''__data'', CArray c_char 0)]"

definition trace_event_raw_fsverity_verify_merkle_block :: ctype where
  "trace_event_raw_fsverity_verify_merkle_block = CStruct ''trace_event_raw_fsverity_verify_merkle_block'' False [
     (''ent'', trace_entry),
     (''ino'', c_ino_t),
     (''hblock_idx'', c_long_unsigned_int),
     (''level'', c_unsigned_int),
     (''hidx'', c_unsigned_int),
     (''__data'', CArray c_char 0)]"

definition trace_event_raw_fuse_request_end :: ctype where
  "trace_event_raw_fuse_request_end = CStruct ''trace_event_raw_fuse_request_end'' False [
     (''ent'', trace_entry),
     (''connection'', c_dev_t),
     (''unique'', c_uint64_t),
     (''len'', c_uint32_t),
     (''error'', c_int32_t),
     (''__data'', CArray c_char 0)]"

definition trace_event_raw_fuse_request_send :: ctype where
  "trace_event_raw_fuse_request_send = CStruct ''trace_event_raw_fuse_request_send'' False [
     (''ent'', trace_entry),
     (''connection'', c_dev_t),
     (''unique'', c_uint64_t),
     (''opcode'', CEnum ''fuse_opcode''),
     (''len'', c_uint32_t),
     (''__data'', CArray c_char 0)]"

definition trace_event_raw_generic_add_lease :: ctype where
  "trace_event_raw_generic_add_lease = CStruct ''trace_event_raw_generic_add_lease'' False [
     (''ent'', trace_entry),
     (''i_ino'', c_long_unsigned_int),
     (''wcount'', c_int),
     (''rcount'', c_int),
     (''icount'', c_int),
     (''s_dev'', c_dev_t),
     (''owner'', c_fl_owner_t),
     (''flags'', c_unsigned_int),
     (''type'', c_unsigned_char),
     (''__data'', CArray c_char 0)]"

definition trace_event_raw_global_dirty_state :: ctype where
  "trace_event_raw_global_dirty_state = CStruct ''trace_event_raw_global_dirty_state'' False [
     (''ent'', trace_entry),
     (''nr_dirty'', c_long_unsigned_int),
     (''nr_writeback'', c_long_unsigned_int),
     (''background_thresh'', c_long_unsigned_int),
     (''dirty_thresh'', c_long_unsigned_int),
     (''dirty_limit'', c_long_unsigned_int),
     (''nr_dirtied'', c_long_unsigned_int),
     (''nr_written'', c_long_unsigned_int),
     (''__data'', CArray c_char 0)]"

definition trace_event_raw_gpio_direction :: ctype where
  "trace_event_raw_gpio_direction = CStruct ''trace_event_raw_gpio_direction'' False [
     (''ent'', trace_entry),
     (''gpio'', c_unsigned_int),
     (''in'', c_int),
     (''err'', c_int),
     (''__data'', CArray c_char 0)]"

definition trace_event_raw_gpio_value :: ctype where
  "trace_event_raw_gpio_value = CStruct ''trace_event_raw_gpio_value'' False [
     (''ent'', trace_entry),
     (''gpio'', c_unsigned_int),
     (''get'', c_int),
     (''value'', c_int),
     (''__data'', CArray c_char 0)]"

definition trace_event_raw_guest_halt_poll_ns :: ctype where
  "trace_event_raw_guest_halt_poll_ns = CStruct ''trace_event_raw_guest_halt_poll_ns'' False [
     (''ent'', trace_entry),
     (''grow'', c_bool),
     (''new'', c_unsigned_int),
     (''old'', c_unsigned_int),
     (''__data'', CArray c_char 0)]"

definition trace_event_raw_handshake_alert_class :: ctype where
  "trace_event_raw_handshake_alert_class = CStruct ''trace_event_raw_handshake_alert_class'' False [
     (''ent'', trace_entry),
     (''saddr'', CArray c___u8 28),
     (''daddr'', CArray c___u8 28),
     (''netns_ino'', c_unsigned_int),
     (''level'', c_long_unsigned_int),
     (''description'', c_long_unsigned_int),
     (''__data'', CArray c_char 0)]"

definition trace_event_raw_handshake_complete :: ctype where
  "trace_event_raw_handshake_complete = CStruct ''trace_event_raw_handshake_complete'' False [
     (''ent'', trace_entry),
     (''req'', CPtr ''const void''),
     (''sk'', CPtr ''const void''),
     (''status'', c_int),
     (''netns_ino'', c_unsigned_int),
     (''__data'', CArray c_char 0)]"

definition trace_event_raw_handshake_error_class :: ctype where
  "trace_event_raw_handshake_error_class = CStruct ''trace_event_raw_handshake_error_class'' False [
     (''ent'', trace_entry),
     (''req'', CPtr ''const void''),
     (''sk'', CPtr ''const void''),
     (''err'', c_int),
     (''netns_ino'', c_unsigned_int),
     (''__data'', CArray c_char 0)]"

definition trace_event_raw_handshake_event_class :: ctype where
  "trace_event_raw_handshake_event_class = CStruct ''trace_event_raw_handshake_event_class'' False [
     (''ent'', trace_entry),
     (''req'', CPtr ''const void''),
     (''sk'', CPtr ''const void''),
     (''netns_ino'', c_unsigned_int),
     (''__data'', CArray c_char 0)]"

definition trace_event_raw_handshake_fd_class :: ctype where
  "trace_event_raw_handshake_fd_class = CStruct ''trace_event_raw_handshake_fd_class'' False [
     (''ent'', trace_entry),
     (''req'', CPtr ''const void''),
     (''sk'', CPtr ''const void''),
     (''fd'', c_int),
     (''netns_ino'', c_unsigned_int),
     (''__data'', CArray c_char 0)]"

definition trace_event_raw_hrtimer_class :: ctype where
  "trace_event_raw_hrtimer_class = CStruct ''trace_event_raw_hrtimer_class'' False [
     (''ent'', trace_entry),
     (''hrtimer'', CPtr ''void''),
     (''__data'', CArray c_char 0)]"

definition trace_event_raw_hrtimer_expire_entry :: ctype where
  "trace_event_raw_hrtimer_expire_entry = CStruct ''trace_event_raw_hrtimer_expire_entry'' False [
     (''ent'', trace_entry),
     (''hrtimer'', CPtr ''void''),
     (''now'', c_s64),
     (''function'', CPtr ''void''),
     (''__data'', CArray c_char 0)]"

definition trace_event_raw_hrtimer_setup :: ctype where
  "trace_event_raw_hrtimer_setup = CStruct ''trace_event_raw_hrtimer_setup'' False [
     (''ent'', trace_entry),
     (''hrtimer'', CPtr ''void''),
     (''clockid'', c_clockid_t),
     (''mode'', CEnum ''hrtimer_mode''),
     (''__data'', CArray c_char 0)]"

definition trace_event_raw_hrtimer_start :: ctype where
  "trace_event_raw_hrtimer_start = CStruct ''trace_event_raw_hrtimer_start'' False [
     (''ent'', trace_entry),
     (''hrtimer'', CPtr ''void''),
     (''function'', CPtr ''void''),
     (''expires'', c_s64),
     (''softexpires'', c_s64),
     (''mode'', CEnum ''hrtimer_mode''),
     (''__data'', CArray c_char 0)]"

definition trace_event_raw_hugetlbfs__inode :: ctype where
  "trace_event_raw_hugetlbfs__inode = CStruct ''trace_event_raw_hugetlbfs__inode'' False [
     (''ent'', trace_entry),
     (''dev'', c_dev_t),
     (''ino'', c_ino_t),
     (''mode'', c___u16),
     (''size'', c_loff_t),
     (''nlink'', c_unsigned_int),
     (''seals'', c_unsigned_int),
     (''blocks'', c_blkcnt_t),
     (''__data'', CArray c_char 0)]"

definition trace_event_raw_hugetlbfs_alloc_inode :: ctype where
  "trace_event_raw_hugetlbfs_alloc_inode = CStruct ''trace_event_raw_hugetlbfs_alloc_inode'' False [
     (''ent'', trace_entry),
     (''dev'', c_dev_t),
     (''ino'', c_ino_t),
     (''dir'', c_ino_t),
     (''mode'', c___u16),
     (''__data'', CArray c_char 0)]"

definition trace_event_raw_hugetlbfs_fallocate :: ctype where
  "trace_event_raw_hugetlbfs_fallocate = CStruct ''trace_event_raw_hugetlbfs_fallocate'' False [
     (''ent'', trace_entry),
     (''dev'', c_dev_t),
     (''ino'', c_ino_t),
     (''mode'', c_int),
     (''offset'', c_loff_t),
     (''len'', c_loff_t),
     (''size'', c_loff_t),
     (''ret'', c_int),
     (''__data'', CArray c_char 0)]"

definition trace_event_raw_hugetlbfs_setattr :: ctype where
  "trace_event_raw_hugetlbfs_setattr = CStruct ''trace_event_raw_hugetlbfs_setattr'' False [
     (''ent'', trace_entry),
     (''dev'', c_dev_t),
     (''ino'', c_ino_t),
     (''d_len'', c_unsigned_int),
     (''__data_loc_d_name'', c_u32),
     (''ia_valid'', c_unsigned_int),
     (''ia_mode'', c_unsigned_int),
     (''old_size'', c_loff_t),
     (''ia_size'', c_loff_t),
     (''__data'', CArray c_char 0)]"

definition trace_event_raw_hwmon_attr_class :: ctype where
  "trace_event_raw_hwmon_attr_class = CStruct ''trace_event_raw_hwmon_attr_class'' False [
     (''ent'', trace_entry),
     (''index'', c_int),
     (''__data_loc_attr_name'', c_u32),
     (''val'', c_long_long_int),
     (''__data'', CArray c_char 0)]"

definition trace_event_raw_hwmon_attr_show_string :: ctype where
  "trace_event_raw_hwmon_attr_show_string = CStruct ''trace_event_raw_hwmon_attr_show_string'' False [
     (''ent'', trace_entry),
     (''index'', c_int),
     (''__data_loc_attr_name'', c_u32),
     (''__data_loc_label'', c_u32),
     (''__data'', CArray c_char 0)]"

definition trace_event_raw_hyperv_mmu_flush_tlb_multi :: ctype where
  "trace_event_raw_hyperv_mmu_flush_tlb_multi = CStruct ''trace_event_raw_hyperv_mmu_flush_tlb_multi'' False [
     (''ent'', trace_entry),
     (''ncpus'', c_unsigned_int),
     (''mm'', CPtr ''struct mm_struct''),
     (''addr'', c_long_unsigned_int),
     (''end'', c_long_unsigned_int),
     (''__data'', CArray c_char 0)]"

definition trace_event_raw_hyperv_nested_flush_guest_mapping :: ctype where
  "trace_event_raw_hyperv_nested_flush_guest_mapping = CStruct ''trace_event_raw_hyperv_nested_flush_guest_mapping'' False [
     (''ent'', trace_entry),
     (''as'', c_u64),
     (''ret'', c_int),
     (''__data'', CArray c_char 0)]"

definition trace_event_raw_hyperv_nested_flush_guest_mapping_range :: ctype where
  "trace_event_raw_hyperv_nested_flush_guest_mapping_range = CStruct ''trace_event_raw_hyperv_nested_flush_guest_mapping_range'' False [
     (''ent'', trace_entry),
     (''as'', c_u64),
     (''ret'', c_int),
     (''__data'', CArray c_char 0)]"

definition trace_event_raw_hyperv_send_ipi_mask :: ctype where
  "trace_event_raw_hyperv_send_ipi_mask = CStruct ''trace_event_raw_hyperv_send_ipi_mask'' False [
     (''ent'', trace_entry),
     (''ncpus'', c_unsigned_int),
     (''vector'', c_int),
     (''__data'', CArray c_char 0)]"

definition trace_event_raw_hyperv_send_ipi_one :: ctype where
  "trace_event_raw_hyperv_send_ipi_one = CStruct ''trace_event_raw_hyperv_send_ipi_one'' False [
     (''ent'', trace_entry),
     (''cpu'', c_int),
     (''vector'', c_int),
     (''__data'', CArray c_char 0)]"

definition trace_event_raw_i2c_read :: ctype where
  "trace_event_raw_i2c_read = CStruct ''trace_event_raw_i2c_read'' False [
     (''ent'', trace_entry),
     (''adapter_nr'', c_int),
     (''msg_nr'', c___u16),
     (''addr'', c___u16),
     (''flags'', c___u16),
     (''len'', c___u16),
     (''__data'', CArray c_char 0)]"

definition trace_event_raw_i2c_reply :: ctype where
  "trace_event_raw_i2c_reply = CStruct ''trace_event_raw_i2c_reply'' False [
     (''ent'', trace_entry),
     (''adapter_nr'', c_int),
     (''msg_nr'', c___u16),
     (''addr'', c___u16),
     (''flags'', c___u16),
     (''len'', c___u16),
     (''__data_loc_buf'', c_u32),
     (''__data'', CArray c_char 0)]"

definition trace_event_raw_i2c_result :: ctype where
  "trace_event_raw_i2c_result = CStruct ''trace_event_raw_i2c_result'' False [
     (''ent'', trace_entry),
     (''adapter_nr'', c_int),
     (''nr_msgs'', c___u16),
     (''ret'', c___s16),
     (''__data'', CArray c_char 0)]"

definition trace_event_raw_i2c_slave :: ctype where
  "trace_event_raw_i2c_slave = CStruct ''trace_event_raw_i2c_slave'' False [
     (''ent'', trace_entry),
     (''adapter_nr'', c_int),
     (''ret'', c_int),
     (''addr'', c___u16),
     (''len'', c___u16),
     (''event'', CEnum ''i2c_slave_event''),
     (''buf'', CArray c___u8 1),
     (''__data'', CArray c_char 0)]"

definition trace_event_raw_i2c_write :: ctype where
  "trace_event_raw_i2c_write = CStruct ''trace_event_raw_i2c_write'' False [
     (''ent'', trace_entry),
     (''adapter_nr'', c_int),
     (''msg_nr'', c___u16),
     (''addr'', c___u16),
     (''flags'', c___u16),
     (''len'', c___u16),
     (''__data_loc_buf'', c_u32),
     (''__data'', CArray c_char 0)]"

definition trace_event_raw_icc_set_bw :: ctype where
  "trace_event_raw_icc_set_bw = CStruct ''trace_event_raw_icc_set_bw'' False [
     (''ent'', trace_entry),
     (''__data_loc_path_name'', c_u32),
     (''__data_loc_dev'', c_u32),
     (''__data_loc_node_name'', c_u32),
     (''avg_bw'', c_u32),
     (''peak_bw'', c_u32),
     (''node_avg_bw'', c_u32),
     (''node_peak_bw'', c_u32),
     (''__data'', CArray c_char 0)]"

definition trace_event_raw_icc_set_bw_end :: ctype where
  "trace_event_raw_icc_set_bw_end = CStruct ''trace_event_raw_icc_set_bw_end'' False [
     (''ent'', trace_entry),
     (''__data_loc_path_name'', c_u32),
     (''__data_loc_dev'', c_u32),
     (''ret'', c_int),
     (''__data'', CArray c_char 0)]"

definition trace_event_raw_icmp_send :: ctype where
  "trace_event_raw_icmp_send = CStruct ''trace_event_raw_icmp_send'' False [
     (''ent'', trace_entry),
     (''skbaddr'', CPtr ''const void''),
     (''type'', c_int),
     (''code'', c_int),
     (''saddr'', CArray c___u8 4),
     (''daddr'', CArray c___u8 4),
     (''sport'', c___u16),
     (''dport'', c___u16),
     (''ulen'', c_short_unsigned_int),
     (''__data'', CArray c_char 0)]"

definition trace_event_raw_inet_sk_error_report :: ctype where
  "trace_event_raw_inet_sk_error_report = CStruct ''trace_event_raw_inet_sk_error_report'' False [
     (''ent'', trace_entry),
     (''error'', c_int),
     (''sport'', c___u16),
     (''dport'', c___u16),
     (''family'', c___u16),
     (''protocol'', c___u16),
     (''saddr'', CArray c___u8 4),
     (''daddr'', CArray c___u8 4),
     (''saddr_v6'', CArray c___u8 16),
     (''daddr_v6'', CArray c___u8 16),
     (''__data'', CArray c_char 0)]"

definition trace_event_raw_inet_sock_set_state :: ctype where
  "trace_event_raw_inet_sock_set_state = CStruct ''trace_event_raw_inet_sock_set_state'' False [
     (''ent'', trace_entry),
     (''skaddr'', CPtr ''const void''),
     (''oldstate'', c_int),
     (''newstate'', c_int),
     (''sport'', c___u16),
     (''dport'', c___u16),
     (''family'', c___u16),
     (''protocol'', c___u16),
     (''saddr'', CArray c___u8 4),
     (''daddr'', CArray c___u8 4),
     (''saddr_v6'', CArray c___u8 16),
     (''daddr_v6'', CArray c___u8 16),
     (''__data'', CArray c_char 0)]"

definition trace_event_raw_initcall_finish :: ctype where
  "trace_event_raw_initcall_finish = CStruct ''trace_event_raw_initcall_finish'' False [
     (''ent'', trace_entry),
     (''func'', c_initcall_t),
     (''ret'', c_int),
     (''__data'', CArray c_char 0)]"

definition trace_event_raw_initcall_level :: ctype where
  "trace_event_raw_initcall_level = CStruct ''trace_event_raw_initcall_level'' False [
     (''ent'', trace_entry),
     (''__data_loc_level'', c_u32),
     (''__data'', CArray c_char 0)]"

definition trace_event_raw_initcall_start :: ctype where
  "trace_event_raw_initcall_start = CStruct ''trace_event_raw_initcall_start'' False [
     (''ent'', trace_entry),
     (''func'', c_initcall_t),
     (''__data'', CArray c_char 0)]"

definition trace_event_raw_inode_foreign_history :: ctype where
  "trace_event_raw_inode_foreign_history = CStruct ''trace_event_raw_inode_foreign_history'' False [
     (''ent'', trace_entry),
     (''name'', CArray c_char 32),
     (''ino'', c_ino_t),
     (''cgroup_ino'', c_ino_t),
     (''history'', c_unsigned_int),
     (''__data'', CArray c_char 0)]"

definition trace_event_raw_inode_switch_wbs :: ctype where
  "trace_event_raw_inode_switch_wbs = CStruct ''trace_event_raw_inode_switch_wbs'' False [
     (''ent'', trace_entry),
     (''name'', CArray c_char 32),
     (''ino'', c_ino_t),
     (''old_cgroup_ino'', c_ino_t),
     (''new_cgroup_ino'', c_ino_t),
     (''__data'', CArray c_char 0)]"

definition trace_event_raw_inode_switch_wbs_queue :: ctype where
  "trace_event_raw_inode_switch_wbs_queue = CStruct ''trace_event_raw_inode_switch_wbs_queue'' False [
     (''ent'', trace_entry),
     (''name'', CArray c_char 32),
     (''old_cgroup_ino'', c_ino_t),
     (''new_cgroup_ino'', c_ino_t),
     (''count'', c_unsigned_int),
     (''__data'', CArray c_char 0)]"

definition trace_event_raw_io_uring_complete :: ctype where
  "trace_event_raw_io_uring_complete = CStruct ''trace_event_raw_io_uring_complete'' False [
     (''ent'', trace_entry),
     (''ctx'', CPtr ''void''),
     (''req'', CPtr ''void''),
     (''user_data'', c_u64),
     (''res'', c_int),
     (''cflags'', c_unsigned_int),
     (''extra1'', c_u64),
     (''extra2'', c_u64),
     (''__data'', CArray c_char 0)]"

definition trace_event_raw_io_uring_cqe_overflow :: ctype where
  "trace_event_raw_io_uring_cqe_overflow = CStruct ''trace_event_raw_io_uring_cqe_overflow'' False [
     (''ent'', trace_entry),
     (''ctx'', CPtr ''void''),
     (''user_data'', c_long_long_unsigned_int),
     (''res'', c_s32),
     (''cflags'', c_u32),
     (''ocqe'', CPtr ''void''),
     (''__data'', CArray c_char 0)]"

definition trace_event_raw_io_uring_cqring_wait :: ctype where
  "trace_event_raw_io_uring_cqring_wait = CStruct ''trace_event_raw_io_uring_cqring_wait'' False [
     (''ent'', trace_entry),
     (''ctx'', CPtr ''void''),
     (''min_events'', c_int),
     (''__data'', CArray c_char 0)]"

definition trace_event_raw_io_uring_create :: ctype where
  "trace_event_raw_io_uring_create = CStruct ''trace_event_raw_io_uring_create'' False [
     (''ent'', trace_entry),
     (''fd'', c_int),
     (''ctx'', CPtr ''void''),
     (''sq_entries'', c_u32),
     (''cq_entries'', c_u32),
     (''flags'', c_u32),
     (''__data'', CArray c_char 0)]"

definition trace_event_raw_io_uring_defer :: ctype where
  "trace_event_raw_io_uring_defer = CStruct ''trace_event_raw_io_uring_defer'' False [
     (''ent'', trace_entry),
     (''ctx'', CPtr ''void''),
     (''req'', CPtr ''void''),
     (''data'', c_long_long_unsigned_int),
     (''opcode'', c_u8),
     (''__data_loc_op_str'', c_u32),
     (''__data'', CArray c_char 0)]"

definition trace_event_raw_io_uring_fail_link :: ctype where
  "trace_event_raw_io_uring_fail_link = CStruct ''trace_event_raw_io_uring_fail_link'' False [
     (''ent'', trace_entry),
     (''ctx'', CPtr ''void''),
     (''req'', CPtr ''void''),
     (''user_data'', c_long_long_unsigned_int),
     (''opcode'', c_u8),
     (''link'', CPtr ''void''),
     (''__data_loc_op_str'', c_u32),
     (''__data'', CArray c_char 0)]"

definition trace_event_raw_io_uring_file_get :: ctype where
  "trace_event_raw_io_uring_file_get = CStruct ''trace_event_raw_io_uring_file_get'' False [
     (''ent'', trace_entry),
     (''ctx'', CPtr ''void''),
     (''req'', CPtr ''void''),
     (''user_data'', c_u64),
     (''fd'', c_int),
     (''__data'', CArray c_char 0)]"

definition trace_event_raw_io_uring_link :: ctype where
  "trace_event_raw_io_uring_link = CStruct ''trace_event_raw_io_uring_link'' False [
     (''ent'', trace_entry),
     (''ctx'', CPtr ''void''),
     (''req'', CPtr ''void''),
     (''target_req'', CPtr ''void''),
     (''__data'', CArray c_char 0)]"

definition trace_event_raw_io_uring_local_work_run :: ctype where
  "trace_event_raw_io_uring_local_work_run = CStruct ''trace_event_raw_io_uring_local_work_run'' False [
     (''ent'', trace_entry),
     (''ctx'', CPtr ''void''),
     (''count'', c_int),
     (''loops'', c_unsigned_int),
     (''__data'', CArray c_char 0)]"

definition trace_event_raw_io_uring_poll_arm :: ctype where
  "trace_event_raw_io_uring_poll_arm = CStruct ''trace_event_raw_io_uring_poll_arm'' False [
     (''ent'', trace_entry),
     (''ctx'', CPtr ''void''),
     (''req'', CPtr ''void''),
     (''user_data'', c_long_long_unsigned_int),
     (''opcode'', c_u8),
     (''mask'', c_int),
     (''events'', c_int),
     (''__data_loc_op_str'', c_u32),
     (''__data'', CArray c_char 0)]"

definition trace_event_raw_io_uring_queue_async_work :: ctype where
  "trace_event_raw_io_uring_queue_async_work = CStruct ''trace_event_raw_io_uring_queue_async_work'' False [
     (''ent'', trace_entry),
     (''ctx'', CPtr ''void''),
     (''req'', CPtr ''void''),
     (''user_data'', c_u64),
     (''opcode'', c_u8),
     (''flags'', c_long_long_unsigned_int),
     (''work'', CPtr ''struct io_wq_work''),
     (''hashed'', c_bool),
     (''__data_loc_op_str'', c_u32),
     (''__data'', CArray c_char 0)]"

definition trace_event_raw_io_uring_register :: ctype where
  "trace_event_raw_io_uring_register = CStruct ''trace_event_raw_io_uring_register'' False [
     (''ent'', trace_entry),
     (''ctx'', CPtr ''void''),
     (''opcode'', c_unsigned_int),
     (''nr_files'', c_unsigned_int),
     (''nr_bufs'', c_unsigned_int),
     (''ret'', c_long_int),
     (''__data'', CArray c_char 0)]"

definition trace_event_raw_io_uring_req_failed :: ctype where
  "trace_event_raw_io_uring_req_failed = CStruct ''trace_event_raw_io_uring_req_failed'' False [
     (''ent'', trace_entry),
     (''ctx'', CPtr ''void''),
     (''req'', CPtr ''void''),
     (''user_data'', c_long_long_unsigned_int),
     (''opcode'', c_u8),
     (''flags'', c_u8),
     (''ioprio'', c_u8),
     (''off'', c_u64),
     (''addr'', c_u64),
     (''len'', c_u32),
     (''op_flags'', c_u32),
     (''buf_index'', c_u16),
     (''personality'', c_u16),
     (''file_index'', c_u32),
     (''pad1'', c_u64),
     (''addr3'', c_u64),
     (''error'', c_int),
     (''__data_loc_op_str'', c_u32),
     (''__data'', CArray c_char 0)]"

definition trace_event_raw_io_uring_short_write :: ctype where
  "trace_event_raw_io_uring_short_write = CStruct ''trace_event_raw_io_uring_short_write'' False [
     (''ent'', trace_entry),
     (''ctx'', CPtr ''void''),
     (''fpos'', c_u64),
     (''wanted'', c_u64),
     (''got'', c_u64),
     (''__data'', CArray c_char 0)]"

definition trace_event_raw_io_uring_submit_req :: ctype where
  "trace_event_raw_io_uring_submit_req = CStruct ''trace_event_raw_io_uring_submit_req'' False [
     (''ent'', trace_entry),
     (''ctx'', CPtr ''void''),
     (''req'', CPtr ''void''),
     (''user_data'', c_long_long_unsigned_int),
     (''opcode'', c_u8),
     (''flags'', c_long_long_unsigned_int),
     (''sq_thread'', c_bool),
     (''__data_loc_op_str'', c_u32),
     (''__data'', CArray c_char 0)]"

definition trace_event_raw_io_uring_task_add :: ctype where
  "trace_event_raw_io_uring_task_add = CStruct ''trace_event_raw_io_uring_task_add'' False [
     (''ent'', trace_entry),
     (''ctx'', CPtr ''void''),
     (''req'', CPtr ''void''),
     (''user_data'', c_long_long_unsigned_int),
     (''opcode'', c_u8),
     (''mask'', c_int),
     (''__data_loc_op_str'', c_u32),
     (''__data'', CArray c_char 0)]"

definition trace_event_raw_io_uring_task_work_run :: ctype where
  "trace_event_raw_io_uring_task_work_run = CStruct ''trace_event_raw_io_uring_task_work_run'' False [
     (''ent'', trace_entry),
     (''tctx'', CPtr ''void''),
     (''count'', c_unsigned_int),
     (''__data'', CArray c_char 0)]"

definition trace_event_raw_iocg_inuse_update :: ctype where
  "trace_event_raw_iocg_inuse_update = CStruct ''trace_event_raw_iocg_inuse_update'' False [
     (''ent'', trace_entry),
     (''__data_loc_devname'', c_u32),
     (''__data_loc_cgroup'', c_u32),
     (''now'', c_u64),
     (''old_inuse'', c_u32),
     (''new_inuse'', c_u32),
     (''old_hweight_inuse'', c_u64),
     (''new_hweight_inuse'', c_u64),
     (''__data'', CArray c_char 0)]"

definition trace_event_raw_iocost_ioc_vrate_adj :: ctype where
  "trace_event_raw_iocost_ioc_vrate_adj = CStruct ''trace_event_raw_iocost_ioc_vrate_adj'' False [
     (''ent'', trace_entry),
     (''__data_loc_devname'', c_u32),
     (''old_vrate'', c_u64),
     (''new_vrate'', c_u64),
     (''busy_level'', c_int),
     (''read_missed_ppm'', c_u32),
     (''write_missed_ppm'', c_u32),
     (''rq_wait_pct'', c_u32),
     (''nr_lagging'', c_int),
     (''nr_shortages'', c_int),
     (''__data'', CArray c_char 0)]"

definition trace_event_raw_iocost_iocg_forgive_debt :: ctype where
  "trace_event_raw_iocost_iocg_forgive_debt = CStruct ''trace_event_raw_iocost_iocg_forgive_debt'' False [
     (''ent'', trace_entry),
     (''__data_loc_devname'', c_u32),
     (''__data_loc_cgroup'', c_u32),
     (''now'', c_u64),
     (''vnow'', c_u64),
     (''usage_pct'', c_u32),
     (''old_debt'', c_u64),
     (''new_debt'', c_u64),
     (''old_delay'', c_u64),
     (''new_delay'', c_u64),
     (''__data'', CArray c_char 0)]"

definition trace_event_raw_iocost_iocg_state :: ctype where
  "trace_event_raw_iocost_iocg_state = CStruct ''trace_event_raw_iocost_iocg_state'' False [
     (''ent'', trace_entry),
     (''__data_loc_devname'', c_u32),
     (''__data_loc_cgroup'', c_u32),
     (''now'', c_u64),
     (''vnow'', c_u64),
     (''vrate'', c_u64),
     (''last_period'', c_u64),
     (''cur_period'', c_u64),
     (''vtime'', c_u64),
     (''weight'', c_u32),
     (''inuse'', c_u32),
     (''hweight_active'', c_u64),
     (''hweight_inuse'', c_u64),
     (''__data'', CArray c_char 0)]"

definition trace_event_raw_iomap_add_to_ioend :: ctype where
  "trace_event_raw_iomap_add_to_ioend = CStruct ''trace_event_raw_iomap_add_to_ioend'' False [
     (''ent'', trace_entry),
     (''dev'', c_dev_t),
     (''ino'', c_u64),
     (''pos'', c_u64),
     (''dirty_len'', c_u64),
     (''addr'', c_u64),
     (''offset'', c_loff_t),
     (''length'', c_u64),
     (''type'', c_u16),
     (''flags'', c_u16),
     (''bdev'', c_dev_t),
     (''__data'', CArray c_char 0)]"

definition trace_events_3 :: "ctype list" where
  "trace_events_3 = [
     trace_event_raw_ext4_move_extent_enter,
     trace_event_raw_ext4_move_extent_exit,
     trace_event_raw_ext4_nfs_commit_metadata,
     trace_event_raw_ext4_other_inode_update_time,
     trace_event_raw_ext4_prefetch_bitmaps,
     trace_event_raw_ext4_read_block_bitmap_load,
     trace_event_raw_ext4_remove_blocks,
     trace_event_raw_ext4_request_blocks,
     trace_event_raw_ext4_request_inode,
     trace_event_raw_ext4_shutdown,
     trace_event_raw_ext4_sync_file_enter,
     trace_event_raw_ext4_sync_file_exit,
     trace_event_raw_ext4_sync_fs,
     trace_event_raw_ext4_unlink_enter,
     trace_event_raw_ext4_unlink_exit,
     trace_event_raw_ext4_update_sb,
     trace_event_raw_ext4_writepages,
     trace_event_raw_ext4_writepages_result,
     trace_event_raw_extlog_mem_event,
     trace_event_raw_fdb_delete,
     trace_event_raw_fib6_table_lookup,
     trace_event_raw_fib_table_lookup,
     trace_event_raw_file_check_and_advance_wb_err,
     trace_event_raw_filelock_lease,
     trace_event_raw_filelock_lock,
     trace_event_raw_filemap_set_wb_err,
     trace_event_raw_fill_mg_cmtime,
     trace_event_raw_finish_task_reaping,
     trace_event_raw_flush_foreign,
     trace_event_raw_free_vmap_area_noflush,
     trace_event_raw_fsverity_enable,
     trace_event_raw_fsverity_merkle_hit,
     trace_event_raw_fsverity_tree_done,
     trace_event_raw_fsverity_verify_data_block,
     trace_event_raw_fsverity_verify_merkle_block,
     trace_event_raw_fuse_request_end,
     trace_event_raw_fuse_request_send,
     trace_event_raw_generic_add_lease,
     trace_event_raw_global_dirty_state,
     trace_event_raw_gpio_direction,
     trace_event_raw_gpio_value,
     trace_event_raw_guest_halt_poll_ns,
     trace_event_raw_handshake_alert_class,
     trace_event_raw_handshake_complete,
     trace_event_raw_handshake_error_class,
     trace_event_raw_handshake_event_class,
     trace_event_raw_handshake_fd_class,
     trace_event_raw_hrtimer_class,
     trace_event_raw_hrtimer_expire_entry,
     trace_event_raw_hrtimer_setup,
     trace_event_raw_hrtimer_start,
     trace_event_raw_hugetlbfs__inode,
     trace_event_raw_hugetlbfs_alloc_inode,
     trace_event_raw_hugetlbfs_fallocate,
     trace_event_raw_hugetlbfs_setattr,
     trace_event_raw_hwmon_attr_class,
     trace_event_raw_hwmon_attr_show_string,
     trace_event_raw_hyperv_mmu_flush_tlb_multi,
     trace_event_raw_hyperv_nested_flush_guest_mapping,
     trace_event_raw_hyperv_nested_flush_guest_mapping_range,
     trace_event_raw_hyperv_send_ipi_mask,
     trace_event_raw_hyperv_send_ipi_one,
     trace_event_raw_i2c_read,
     trace_event_raw_i2c_reply,
     trace_event_raw_i2c_result,
     trace_event_raw_i2c_slave,
     trace_event_raw_i2c_write,
     trace_event_raw_icc_set_bw,
     trace_event_raw_icc_set_bw_end,
     trace_event_raw_icmp_send,
     trace_event_raw_inet_sk_error_report,
     trace_event_raw_inet_sock_set_state,
     trace_event_raw_initcall_finish,
     trace_event_raw_initcall_level,
     trace_event_raw_initcall_start,
     trace_event_raw_inode_foreign_history,
     trace_event_raw_inode_switch_wbs,
     trace_event_raw_inode_switch_wbs_queue,
     trace_event_raw_io_uring_complete,
     trace_event_raw_io_uring_cqe_overflow,
     trace_event_raw_io_uring_cqring_wait,
     trace_event_raw_io_uring_create,
     trace_event_raw_io_uring_defer,
     trace_event_raw_io_uring_fail_link,
     trace_event_raw_io_uring_file_get,
     trace_event_raw_io_uring_link,
     trace_event_raw_io_uring_local_work_run,
     trace_event_raw_io_uring_poll_arm,
     trace_event_raw_io_uring_queue_async_work,
     trace_event_raw_io_uring_register,
     trace_event_raw_io_uring_req_failed,
     trace_event_raw_io_uring_short_write,
     trace_event_raw_io_uring_submit_req,
     trace_event_raw_io_uring_task_add,
     trace_event_raw_io_uring_task_work_run,
     trace_event_raw_iocg_inuse_update,
     trace_event_raw_iocost_ioc_vrate_adj,
     trace_event_raw_iocost_iocg_forgive_debt,
     trace_event_raw_iocost_iocg_state,
     trace_event_raw_iomap_add_to_ioend]"

lemma trace_events_3_ok: "list_all event_ok trace_events_3"
  by code_simp

lemma length_trace_events_3: "length trace_events_3 = 100"
  by (simp add: trace_events_3_def)

end
