(* ===== verification/VmlinuxTrace4.thy ===== *)
theory VmlinuxTrace4
  imports VmlinuxTypes
begin

text \<open>
  Tracepoint context structures of \<^verbatim>\<open>src/internal/ebpf/vmlinux.h\<close>, lines 147927 to 148886:
  \<^verbatim>\<open>trace_event_raw_iomap_class\<close> to
  \<^verbatim>\<open>trace_event_raw_mm_vmscan_direct_reclaim_begin_template\<close>, one definition per structure, members in order.
\<close>

definition trace_event_raw_iomap_class :: ctype where
  "trace_event_raw_iomap_class = CStruct ''trace_event_raw_iomap_class'' False [
     (''ent'', trace_entry),
     (''dev'', c_dev_t),
     (''ino'', c_u64),
     (''addr'', c_u64),
     (''offset'', c_loff_t),
     (''length'', c_u64),
     (''type'', c_u16),
     (''flags'', c_u16),
     (''bdev'', c_dev_t),
     (''__data'', CArray c_char 0)]"

definition trace_event_raw_iomap_dio_complete :: ctype where
  "trace_event_raw_iomap_dio_complete = CStruct ''trace_event_raw_iomap_dio_complete'' False [
     (''ent'', trace_entry),
     (''dev'', c_dev_t),
     (''ino'', c_ino_t),
     (''isize'', c_loff_t),
     (''pos'', c_loff_t),
     (''ki_flags'', c_int),
     (''aio'', c_bool),
     (''error'', c_int),
     (''ret'', c_ssize_t),
     (''__data'', CArray c_char 0)]"

definition trace_event_raw_iomap_dio_rw_begin :: ctype where
  "trace_event_raw_iomap_dio_rw_begin = CStruct ''trace_event_raw_iomap_dio_rw_begin'' False [
     (''ent'', trace_entry),
     (''dev'', c_dev_t),
     (''ino'', c_ino_t),
     (''isize'', c_loff_t),
     (''pos'', c_loff_t),
     (''count'', c_size_t),
     (''done_before'', c_size_t),
     (''ki_flags'', c_int),
     (''dio_flags'', c_unsigned_int),
     (''aio'', c_bool),
     (''__data'', CArray c_char 0)]"

definition trace_event_raw_iomap_iter :: ctype where
  "trace_event_raw_iomap_iter = CStruct ''trace_event_raw_iomap_iter'' False [
     (''ent'', trace_entry),
     (''dev'', c_dev_t),
     (''ino'', c_u64),
     (''pos'', c_loff_t),
     (''length'', c_u64),
     (''status'', c_int),
     (''flags'', c_unsigned_int),
     (''ops'', CPtr ''const void''),
     (''caller'', c_long_unsigned_int),
     (''__data'', CArray c_char 0)]"

definition trace_event_raw_iomap_range_class :: ctype where
  "trace_event_raw_iomap_range_class = CStruct ''trace_event_raw_iomap_range_class'' False [
     (''ent'', trace_entry),
     (''dev'', c_dev_t),
     (''ino'', c_u64),
     (''size'', c_loff_t),
     (''offset'', c_loff_t),
     (''length'', c_u64),
     (''__data'', CArray c_char 0)]"

definition trace_event_raw_iomap_readpage_class :: ctype where
  "trace_event_raw_iomap_readpage_class = CStruct ''trace_event_raw_iomap_readpage_class'' False [
     (''ent'', trace_entry),
     (''dev'', c_dev_t),
     (''ino'', c_u64),
     (''nr_pages'', c_int),
     (''__data'', CArray c_char 0)]"

definition trace_event_raw_iommu_device_event :: ctype where
  "trace_event_raw_iommu_device_event = CStruct ''trace_event_raw_iommu_device_event'' False [
     (''ent'', trace_entry),
     (''__data_loc_device'', c_u32),
     (''__data'', CArray c_char 0)]"

definition trace_event_raw_iommu_error :: ctype where
  "trace_event_raw_iommu_error = CStruct ''trace_event_raw_iommu_error'' False [
     (''ent'', trace_entry),
     (''__data_loc_device'', c_u32),
     (''__data_loc_driver'', c_u32),
     (''iova'', c_u64),
     (''flags'', c_int),
     (''__data'', CArray c_char 0)]"

definition trace_event_raw_iommu_group_event :: ctype where
  "trace_event_raw_iommu_group_event = CStruct ''trace_event_raw_iommu_group_event'' False [
     (''ent'', trace_entry),
     (''gid'', c_int),
     (''__data_loc_device'', c_u32),
     (''__data'', CArray c_char 0)]"

definition trace_event_raw_ipi_send_cpu :: ctype where
  "trace_event_raw_ipi_send_cpu = CStruct ''trace_event_raw_ipi_send_cpu'' False [
     (''ent'', trace_entry),
     (''cpu'', c_unsigned_int),
     (''callsite'', CPtr ''void''),
     (''callback'', CPtr ''void''),
     (''__data'', CArray c_char 0)]"

definition trace_event_raw_ipi_send_cpumask :: ctype where
  "trace_event_raw_ipi_send_cpumask = CStruct ''trace_event_raw_ipi_send_cpumask'' False [
     (''ent'', trace_entry),
     (''__data_loc_cpumask'', c_u32),
     (''callsite'', CPtr ''void''),
     (''callback'', CPtr ''void''),
     (''__data'', CArray c_char 0)]"

definition trace_event_raw_irq_handler_entry :: ctype where
  "trace_event_raw_irq_handler_entry = CStruct ''trace_event_raw_irq_handler_entry'' False [
     (''ent'', trace_entry),
     (''irq'', c_int),
     (''__data_loc_name'', c_u32),
     (''__data'', CArray c_char 0)]"

definition trace_event_raw_irq_handler_exit :: ctype where
  "trace_event_raw_irq_handler_exit = CStruct ''trace_event_raw_irq_handler_exit'' False [
     (''ent'', trace_entry),
     (''irq'', c_int),
     (''ret'', c_int),
     (''__data'', CArray c_char 0)]"

definition trace_event_raw_irq_matrix_cpu :: ctype where
  "trace_event_raw_irq_matrix_cpu = CStruct ''trace_event_raw_irq_matrix_cpu'' False [
     (''ent'', trace_entry),
     (''bit'', c_int),
     (''cpu'', c_unsigned_int),
     (''online'', c_bool),
     (''available'', c_unsigned_int),
     (''allocated'', c_unsigned_int),
     (''managed'', c_unsigned_int),
     (''online_maps'', c_unsigned_int),
     (''global_available'', c_unsigned_int),
     (''global_reserved'', c_unsigned_int),
     (''total_allocated'', c_unsigned_int),
     (''__data'', CArray c_char 0)]"

definition trace_event_raw_irq_matrix_global :: ctype where
  "trace_event_raw_irq_matrix_global = CStruct ''trace_event_raw_irq_matrix_global'' False [
     (''ent'', trace_entry),
     (''online_maps'', c_unsigned_int),
     (''global_available'', c_unsigned_int),
     (''global_reserved'', c_unsigned_int),
     (''total_allocated'', c_unsigned_int),
     (''__data'', CArray c_char 0)]"

definition trace_event_raw_irq_matrix_global_update :: ctype where
  "trace_event_raw_irq_matrix_global_update = CStruct ''trace_event_raw_irq_matrix_global_update'' False [
     (''ent'', trace_entry),
     (''bit'', c_int),
     (''online_maps'', c_unsigned_int),
     (''global_available'', c_unsigned_int),
     (''global_reserved'', c_unsigned_int),
     (''total_allocated'', c_unsigned_int),
     (''__data'', CArray c_char 0)]"

definition trace_event_raw_irq_noise :: ctype where
  "trace_event_raw_irq_noise = CStruct ''trace_event_raw_irq_noise'' False [
     (''ent'', trace_entry),
     (''start'', c_u64),
     (''duration'', c_u64),
     (''__data_loc_desc'', c_u32),
     (''vector'', c_int),
     (''__data'', CArray c_char 0)]"

definition trace_event_raw_itimer_expire :: ctype where
  "trace_event_raw_itimer_expire = CStruct ''trace_event_raw_itimer_expire'' False [
     (''ent'', trace_entry),
     (''which'', c_int),
     (''pid'', c_pid_t),
     (''now'', c_long_long_unsigned_int),
     (''__data'', CArray c_char 0)]"

definition trace_event_raw_itimer_state :: ctype where
  "trace_event_raw_itimer_state = CStruct ''trace_event_raw_itimer_state'' False [
     (''ent'', trace_entry),
     (''which'', c_int),
     (''expires'', c_long_long_unsigned_int),
     (''value_sec'', c_long_int),
     (''value_nsec'', c_long_int),
     (''interval_sec'', c_long_int),
     (''interval_nsec'', c_long_int),
     (''__data'', CArray c_char 0)]"

definition trace_event_raw_jbd2_checkpoint :: ctype where
  "trace_event_raw_jbd2_checkpoint = CStruct ''trace_event_raw_jbd2_checkpoint'' False [
     (''ent'', trace_entry),
     (''dev'', c_dev_t),
     (''result'', c_int),
     (''__data'', CArray c_char 0)]"

definition trace_event_raw_jbd2_checkpoint_stats :: ctype where
  "trace_event_raw_jbd2_checkpoint_stats = CStruct ''trace_event_raw_jbd2_checkpoint_stats'' False [
     (''ent'', trace_entry),
     (''dev'', c_dev_t),
     (''tid'', c_tid_t),
     (''chp_time'', c_long_unsigned_int),
     (''forced_to_close'', c___u32),
     (''written'', c___u32),
     (''dropped'', c___u32),
     (''__data'', CArray c_char 0)]"

definition trace_event_raw_jbd2_commit :: ctype where
  "trace_event_raw_jbd2_commit = CStruct ''trace_event_raw_jbd2_commit'' False [
     (''ent'', trace_entry),
     (''dev'', c_dev_t),
     (''sync_commit'', c_char),
     (''transaction'', c_tid_t),
     (''__data'', CArray c_char 0)]"

definition trace_event_raw_jbd2_end_commit :: ctype where
  "trace_event_raw_jbd2_end_commit = CStruct ''trace_event_raw_jbd2_end_commit'' False [
     (''ent'', trace_entry),
     (''dev'', c_dev_t),
     (''sync_commit'', c_char),
     (''transaction'', c_tid_t),
     (''head'', c_tid_t),
     (''__data'', CArray c_char 0)]"

definition trace_event_raw_jbd2_handle_extend :: ctype where
  "trace_event_raw_jbd2_handle_extend = CStruct ''trace_event_raw_jbd2_handle_extend'' False [
     (''ent'', trace_entry),
     (''dev'', c_dev_t),
     (''tid'', c_tid_t),
     (''type'', c_unsigned_int),
     (''line_no'', c_unsigned_int),
     (''buffer_credits'', c_int),
     (''requested_blocks'', c_int),
     (''__data'', CArray c_char 0)]"

definition trace_event_raw_jbd2_handle_start_class :: ctype where
  "trace_event_raw_jbd2_handle_start_class = CStruct ''trace_event_raw_jbd2_handle_start_class'' False [
     (''ent'', trace_entry),
     (''dev'', c_dev_t),
     (''tid'', c_tid_t),
     (''type'', c_unsigned_int),
     (''line_no'', c_unsigned_int),
     (''requested_blocks'', c_int),
     (''__data'', CArray c_char 0)]"

definition trace_event_raw_jbd2_handle_stats :: ctype where
  "trace_event_raw_jbd2_handle_stats = CStruct ''trace_event_raw_jbd2_handle_stats'' False [
     (''ent'', trace_entry),
     (''dev'', c_dev_t),
     (''tid'', c_tid_t),
     (''type'', c_unsigned_int),
     (''line_no'', c_unsigned_int),
     (''interval'', c_int),
     (''sync'', c_int),
     (''requested_blocks'', c_int),
     (''dirtied_blocks'', c_int),
     (''__data'', CArray c_char 0)]"

definition trace_event_raw_jbd2_journal_shrink :: ctype where
  "trace_event_raw_jbd2_journal_shrink = CStruct ''trace_event_raw_jbd2_journal_shrink'' False [
     (''ent'', trace_entry),
     (''dev'', c_dev_t),
     (''nr_to_scan'', c_long_unsigned_int),
     (''count'', c_long_unsigned_int),
     (''__data'', CArray c_char 0)]"

definition trace_event_raw_jbd2_lock_buffer_stall :: ctype where
  "trace_event_raw_jbd2_lock_buffer_stall = CStruct ''trace_event_raw_jbd2_lock_buffer_stall'' False [
     (''ent'', trace_entry),
     (''dev'', c_dev_t),
     (''stall_ms'', c_long_unsigned_int),
     (''__data'', CArray c_char 0)]"

definition trace_event_raw_jbd2_run_stats :: ctype where
  "trace_event_raw_jbd2_run_stats = CStruct ''trace_event_raw_jbd2_run_stats'' False [
     (''ent'', trace_entry),
     (''dev'', c_dev_t),
     (''tid'', c_tid_t),
     (''wait'', c_long_unsigned_int),
     (''request_delay'', c_long_unsigned_int),
     (''running'', c_long_unsigned_int),
     (''locked'', c_long_unsigned_int),
     (''flushing'', c_long_unsigned_int),
     (''logging'', c_long_unsigned_int),
     (''handle_count'', c___u32),
     (''blocks'', c___u32),
     (''blocks_logged'', c___u32),
     (''__data'', CArray c_char 0)]"

definition trace_event_raw_jbd2_shrink_checkpoint_list :: ctype where
  "trace_event_raw_jbd2_shrink_checkpoint_list = CStruct ''trace_event_raw_jbd2_shrink_checkpoint_list'' False [
     (''ent'', trace_entry),
     (''dev'', c_dev_t),
     (''first_tid'', c_tid_t),
     (''tid'', c_tid_t),
     (''last_tid'', c_tid_t),
     (''nr_freed'', c_long_unsigned_int),
     (''next_tid'', c_tid_t),
     (''__data'', CArray c_char 0)]"

definition trace_event_raw_jbd2_shrink_scan_exit :: ctype where
  "trace_event_raw_jbd2_shrink_scan_exit = CStruct ''trace_event_raw_jbd2_shrink_scan_exit'' False [
     (''ent'', trace_entry),
     (''dev'', c_dev_t),
     (''nr_to_scan'', c_long_unsigned_int),
     (''nr_shrunk'', c_long_unsigned_int),
     (''count'', c_long_unsigned_int),
     (''__data'', CArray c_char 0)]"

definition trace_event_raw_jbd2_submit_inode_data :: ctype where
  "trace_event_raw_jbd2_submit_inode_data = CStruct ''trace_event_raw_jbd2_submit_inode_data'' False [
     (''ent'', trace_entry),
     (''dev'', c_dev_t),
     (''ino'', c_ino_t),
     (''__data'', CArray c_char 0)]"

definition trace_event_raw_jbd2_update_log_tail :: ctype where
  "trace_event_raw_jbd2_update_log_tail = CStruct ''trace_event_raw_jbd2_update_log_tail'' False [
     (''ent'', trace_entry),
     (''dev'', c_dev_t),
     (''tail_sequence'', c_tid_t),
     (''first_tid'', c_tid_t),
     (''block_nr'', c_long_unsigned_int),
     (''freed'', c_long_unsigned_int),
     (''__data'', CArray c_char 0)]"

definition trace_event_raw_jbd2_write_superblock :: ctype where
  "trace_event_raw_jbd2_write_superblock = CStruct ''trace_event_raw_jbd2_write_superblock'' False [
     (''ent'', trace_entry),
     (''dev'', c_dev_t),
     (''write_flags'', c_blk_opf_t),
     (''__data'', CArray c_char 0)]"

definition trace_event_raw_kcompactd_wake_template :: ctype where
  "trace_event_raw_kcompactd_wake_template = CStruct ''trace_event_raw_kcompactd_wake_template'' False [
     (''ent'', trace_entry),
     (''nid'', c_int),
     (''order'', c_int),
     (''highest_zoneidx'', CEnum ''zone_type''),
     (''__data'', CArray c_char 0)]"

definition trace_event_raw_kfree :: ctype where
  "trace_event_raw_kfree = CStruct ''trace_event_raw_kfree'' False [
     (''ent'', trace_entry),
     (''call_site'', c_long_unsigned_int),
     (''ptr'', CPtr ''const void''),
     (''__data'', CArray c_char 0)]"

definition trace_event_raw_kfree_skb :: ctype where
  "trace_event_raw_kfree_skb = CStruct ''trace_event_raw_kfree_skb'' False [
     (''ent'', trace_entry),
     (''skbaddr'', CPtr ''void''),
     (''location'', CPtr ''void''),
     (''rx_sk'', CPtr ''void''),
     (''protocol'', c_short_unsigned_int),
     (''reason'', CEnum ''skb_drop_reason''),
     (''__data'', CArray c_char 0)]"

definition trace_event_raw_kmalloc :: ctype where
  "trace_event_raw_kmalloc = CStruct ''trace_event_raw_kmalloc'' False [
     (''ent'', trace_entry),
     (''call_site'', c_long_unsigned_int),
     (''ptr'', CPtr ''const void''),
     (''bytes_req'', c_size_t),
     (''bytes_alloc'', c_size_t),
     (''gfp_flags'', c_long_unsigned_int),
     (''node'', c_int),
     (''__data'', CArray c_char 0)]"

definition trace_event_raw_kmem_cache_alloc :: ctype where
  "trace_event_raw_kmem_cache_alloc = CStruct ''trace_event_raw_kmem_cache_alloc'' False [
     (''ent'', trace_entry),
     (''call_site'', c_long_unsigned_int),
     (''ptr'', CPtr ''const void''),
     (''__data_loc_name'', c_u32),
     (''bytes_req'', c_size_t),
     (''bytes_alloc'', c_size_t),
     (''gfp_flags'', c_long_unsigned_int),
     (''node'', c_int),
     (''accounted'', c_bool),
     (''__data'', CArray c_char 0)]"

definition trace_event_raw_kmem_cache_free :: ctype where
  "trace_event_raw_kmem_cache_free = CStruct ''trace_event_raw_kmem_cache_free'' False [
     (''ent'', trace_entry),
     (''call_site'', c_long_unsigned_int),
     (''ptr'', CPtr ''const void''),
     (''__data_loc_name'', c_u32),
     (''__data'', CArray c_char 0)]"

definition trace_event_raw_ksm_advisor :: ctype where
  "trace_event_raw_ksm_advisor = CStruct ''trace_event_raw_ksm_advisor'' False [
     (''ent'', trace_entry),
     (''scan_time'', c_s64),
     (''pages_to_scan'', c_long_unsigned_int),
     (''cpu_percent'', c_unsigned_int),
     (''__data'', CArray c_char 0)]"

definition trace_event_raw_ksm_enter_exit_template :: ctype where
  "trace_event_raw_ksm_enter_exit_template = CStruct ''trace_event_raw_ksm_enter_exit_template'' False [
     (''ent'', trace_entry),
     (''mm'', CPtr ''void''),
     (''__data'', CArray c_char 0)]"

definition trace_event_raw_ksm_merge_one_page :: ctype where
  "trace_event_raw_ksm_merge_one_page = CStruct ''trace_event_raw_ksm_merge_one_page'' False [
     (''ent'', trace_entry),
     (''pfn'', c_long_unsigned_int),
     (''rmap_item'', CPtr ''void''),
     (''mm'', CPtr ''void''),
     (''err'', c_int),
     (''__data'', CArray c_char 0)]"

definition trace_event_raw_ksm_merge_with_ksm_page :: ctype where
  "trace_event_raw_ksm_merge_with_ksm_page = CStruct ''trace_event_raw_ksm_merge_with_ksm_page'' False [
     (''ent'', trace_entry),
     (''ksm_page'', CPtr ''void''),
     (''pfn'', c_long_unsigned_int),
     (''rmap_item'', CPtr ''void''),
     (''mm'', CPtr ''void''),
     (''err'', c_int),
     (''__data'', CArray c_char 0)]"

definition trace_event_raw_ksm_remove_ksm_page :: ctype where
  "trace_event_raw_ksm_remove_ksm_page = CStruct ''trace_event_raw_ksm_remove_ksm_page'' False [
     (''ent'', trace_entry),
     (''pfn'', c_long_unsigned_int),
     (''__data'', CArray c_char 0)]"

definition trace_event_raw_ksm_remove_rmap_item :: ctype where
  "trace_event_raw_ksm_remove_rmap_item = CStruct ''trace_event_raw_ksm_remove_rmap_item'' False [
     (''ent'', trace_entry),
     (''pfn'', c_long_unsigned_int),
     (''rmap_item'', CPtr ''void''),
     (''mm'', CPtr ''void''),
     (''__data'', CArray c_char 0)]"

definition trace_event_raw_ksm_scan_template :: ctype where
  "trace_event_raw_ksm_scan_template = CStruct ''trace_event_raw_ksm_scan_template'' False [
     (''ent'', trace_entry),
     (''seq'', c_int),
     (''rmap_entries'', c_u32),
     (''__data'', CArray c_char 0)]"

definition trace_event_raw_leases_conflict :: ctype where
  "trace_event_raw_leases_conflict = CStruct ''trace_event_raw_leases_conflict'' False [
     (''ent'', trace_entry),
     (''lease'', CPtr ''void''),
     (''breaker'', CPtr ''void''),
     (''l_fl_flags'', c_unsigned_int),
     (''b_fl_flags'', c_unsigned_int),
     (''l_fl_type'', c_unsigned_char),
     (''b_fl_type'', c_unsigned_char),
     (''conflict'', c_bool),
     (''__data'', CArray c_char 0)]"

definition trace_event_raw_locks_get_lock_context :: ctype where
  "trace_event_raw_locks_get_lock_context = CStruct ''trace_event_raw_locks_get_lock_context'' False [
     (''ent'', trace_entry),
     (''i_ino'', c_long_unsigned_int),
     (''s_dev'', c_dev_t),
     (''type'', c_unsigned_char),
     (''ctx'', CPtr ''struct file_lock_context''),
     (''__data'', CArray c_char 0)]"

definition trace_event_raw_ma_op :: ctype where
  "trace_event_raw_ma_op = CStruct ''trace_event_raw_ma_op'' False [
     (''ent'', trace_entry),
     (''fn'', CPtr ''const char''),
     (''min'', c_long_unsigned_int),
     (''max'', c_long_unsigned_int),
     (''index'', c_long_unsigned_int),
     (''last'', c_long_unsigned_int),
     (''node'', CPtr ''void''),
     (''__data'', CArray c_char 0)]"

definition trace_event_raw_ma_read :: ctype where
  "trace_event_raw_ma_read = CStruct ''trace_event_raw_ma_read'' False [
     (''ent'', trace_entry),
     (''fn'', CPtr ''const char''),
     (''min'', c_long_unsigned_int),
     (''max'', c_long_unsigned_int),
     (''index'', c_long_unsigned_int),
     (''last'', c_long_unsigned_int),
     (''node'', CPtr ''void''),
     (''__data'', CArray c_char 0)]"

definition trace_event_raw_ma_write :: ctype where
  "trace_event_raw_ma_write = CStruct ''trace_event_raw_ma_write'' False [
     (''ent'', trace_entry),
     (''fn'', CPtr ''const char''),
     (''min'', c_long_unsigned_int),
     (''max'', c_long_unsigned_int),
     (''index'', c_long_unsigned_int),
     (''last'', c_long_unsigned_int),
     (''piv'', c_long_unsigned_int),
     (''val'', CPtr ''void''),
     (''node'', CPtr ''void''),
     (''__data'', CArray c_char 0)]"

definition trace_event_raw_map :: ctype where
  "trace_event_raw_map = CStruct ''trace_event_raw_map'' False [
     (''ent'', trace_entry),
     (''iova'', c_u64),
     (''paddr'', c_u64),
     (''size'', c_size_t),
     (''__data'', CArray c_char 0)]"

definition trace_event_raw_mark_victim :: ctype where
  "trace_event_raw_mark_victim = CStruct ''trace_event_raw_mark_victim'' False [
     (''ent'', trace_entry),
     (''pid'', c_int),
     (''__data_loc_comm'', c_u32),
     (''total_vm'', c_long_unsigned_int),
     (''anon_rss'', c_long_unsigned_int),
     (''file_rss'', c_long_unsigned_int),
     (''shmem_rss'', c_long_unsigned_int),
     (''uid'', c_uid_t),
     (''pgtables'', c_long_unsigned_int),
     (''oom_score_adj'', c_short_int),
     (''__data'', CArray c_char 0)]"

definition trace_event_raw_mc_event :: ctype where
  "trace_event_raw_mc_event = CStruct ''trace_event_raw_mc_event'' False [
     (''ent'', trace_entry),
     (''error_type'', c_unsigned_int),
     (''__data_loc_msg'', c_u32),
     (''__data_loc_label'', c_u32),
     (''error_count'', c_u16),
     (''mc_index'', c_u8),
     (''top_layer'', c_s8),
     (''middle_layer'', c_s8),
     (''lower_layer'', c_s8),
     (''address'', c_long_int),
     (''grain_bits'', c_u8),
     (''syndrome'', c_long_int),
     (''__data_loc_driver_detail'', c_u32),
     (''__data'', CArray c_char 0)]"

definition trace_event_raw_mce_record :: ctype where
  "trace_event_raw_mce_record = CStruct ''trace_event_raw_mce_record'' False [
     (''ent'', trace_entry),
     (''mcgcap'', c_u64),
     (''mcgstatus'', c_u64),
     (''status'', c_u64),
     (''addr'', c_u64),
     (''misc'', c_u64),
     (''synd'', c_u64),
     (''ipid'', c_u64),
     (''ip'', c_u64),
     (''tsc'', c_u64),
     (''ppin'', c_u64),
     (''walltime'', c_u64),
     (''cpu'', c_u32),
     (''cpuid'', c_u32),
     (''apicid'', c_u32),
     (''socketid'', c_u32),
     (''cs'', c_u8),
     (''bank'', c_u8),
     (''cpuvendor'', c_u8),
     (''microcode'', c_u32),
     (''__data_loc_v_data'', c_u32),
     (''__data'', CArray c_char 0)]"

definition trace_event_raw_mctp_key_acquire :: ctype where
  "trace_event_raw_mctp_key_acquire = CStruct ''trace_event_raw_mctp_key_acquire'' False [
     (''ent'', trace_entry),
     (''paddr'', c___u8),
     (''laddr'', c___u8),
     (''tag'', c___u8),
     (''__data'', CArray c_char 0)]"

definition trace_event_raw_mctp_key_release :: ctype where
  "trace_event_raw_mctp_key_release = CStruct ''trace_event_raw_mctp_key_release'' False [
     (''ent'', trace_entry),
     (''paddr'', c___u8),
     (''laddr'', c___u8),
     (''tag'', c___u8),
     (''reason'', c_int),
     (''__data'', CArray c_char 0)]"

definition trace_event_raw_mdio_access :: ctype where
  "trace_event_raw_mdio_access = CStruct ''trace_event_raw_mdio_access'' False [
     (''ent'', trace_entry),
     (''busid'', CArray c_char 61),
     (''read'', c_char),
     (''addr'', c_u8),
     (''val'', c_u16),
     (''regnum'', c_unsigned_int),
     (''__data'', CArray c_char 0)]"

definition trace_event_raw_mem_connect :: ctype where
  "trace_event_raw_mem_connect = CStruct ''trace_event_raw_mem_connect'' False [
     (''ent'', trace_entry),
     (''xa'', CPtr ''const struct xdp_mem_allocator''),
     (''mem_id'', c_u32),
     (''mem_type'', c_u32),
     (''allocator'', CPtr ''const void''),
     (''rxq'', CPtr ''const struct xdp_rxq_info''),
     (''ifindex'', c_int),
     (''__data'', CArray c_char 0)]"

definition trace_event_raw_mem_disconnect :: ctype where
  "trace_event_raw_mem_disconnect = CStruct ''trace_event_raw_mem_disconnect'' False [
     (''ent'', trace_entry),
     (''xa'', CPtr ''const struct xdp_mem_allocator''),
     (''mem_id'', c_u32),
     (''mem_type'', c_u32),
     (''allocator'', CPtr ''const void''),
     (''__data'', CArray c_char 0)]"

definition trace_event_raw_memcg_flush_stats :: ctype where
  "trace_event_raw_memcg_flush_stats = CStruct ''trace_event_raw_memcg_flush_stats'' False [
     (''ent'', trace_entry),
     (''id'', c_u64),
     (''stats_updates'', c_s64),
     (''force'', c_bool),
     (''needs_flush'', c_bool),
     (''__data'', CArray c_char 0)]"

definition trace_event_raw_memcg_rstat_events :: ctype where
  "trace_event_raw_memcg_rstat_events = CStruct ''trace_event_raw_memcg_rstat_events'' False [
     (''ent'', trace_entry),
     (''id'', c_u64),
     (''item'', c_int),
     (''val'', c_long_unsigned_int),
     (''__data'', CArray c_char 0)]"

definition trace_event_raw_memcg_rstat_stats :: ctype where
  "trace_event_raw_memcg_rstat_stats = CStruct ''trace_event_raw_memcg_rstat_stats'' False [
     (''ent'', trace_entry),
     (''id'', c_u64),
     (''item'', c_int),
     (''val'', c_int),
     (''__data'', CArray c_char 0)]"

definition trace_event_raw_memory_failure_event :: ctype where
  "trace_event_raw_memory_failure_event = CStruct ''trace_event_raw_memory_failure_event'' False [
     (''ent'', trace_entry),
     (''pfn'', c_long_unsigned_int),
     (''type'', c_int),
     (''result'', c_int),
     (''__data'', CArray c_char 0)]"

definition trace_event_raw_migration_pmd :: ctype where
  "trace_event_raw_migration_pmd = CStruct ''trace_event_raw_migration_pmd'' False [
     (''ent'', trace_entry),
     (''addr'', c_long_unsigned_int),
     (''pmd'', c_long_unsigned_int),
     (''__data'', CArray c_char 0)]"

definition trace_event_raw_migration_pte :: ctype where
  "trace_event_raw_migration_pte = CStruct ''trace_event_raw_migration_pte'' False [
     (''ent'', trace_entry),
     (''addr'', c_long_unsigned_int),
     (''pte'', c_long_unsigned_int),
     (''order'', c_int),
     (''__data'', CArray c_char 0)]"

definition trace_event_raw_mm_calculate_totalreserve_pages :: ctype where
  "trace_event_raw_mm_calculate_totalreserve_pages = CStruct ''trace_event_raw_mm_calculate_totalreserve_pages'' False [
     (''ent'', trace_entry),
     (''totalreserve_pages'', c_long_unsigned_int),
     (''__data'', CArray c_char 0)]"

definition trace_event_raw_mm_collapse_huge_page :: ctype where
  "trace_event_raw_mm_collapse_huge_page = CStruct ''trace_event_raw_mm_collapse_huge_page'' False [
     (''ent'', trace_entry),
     (''mm'', CPtr ''struct mm_struct''),
     (''isolated'', c_int),
     (''status'', c_int),
     (''__data'', CArray c_char 0)]"

definition trace_event_raw_mm_collapse_huge_page_isolate :: ctype where
  "trace_event_raw_mm_collapse_huge_page_isolate = CStruct ''trace_event_raw_mm_collapse_huge_page_isolate'' False [
     (''ent'', trace_entry),
     (''pfn'', c_long_unsigned_int),
     (''none_or_zero'', c_int),
     (''referenced'', c_int),
     (''status'', c_int),
     (''__data'', CArray c_char 0)]"

definition trace_event_raw_mm_collapse_huge_page_swapin :: ctype where
  "trace_event_raw_mm_collapse_huge_page_swapin = CStruct ''trace_event_raw_mm_collapse_huge_page_swapin'' False [
     (''ent'', trace_entry),
     (''mm'', CPtr ''struct mm_struct''),
     (''swapped_in'', c_int),
     (''referenced'', c_int),
     (''ret'', c_int),
     (''__data'', CArray c_char 0)]"

definition trace_event_raw_mm_compaction_begin :: ctype where
  "trace_event_raw_mm_compaction_begin = CStruct ''trace_event_raw_mm_compaction_begin'' False [
     (''ent'', trace_entry),
     (''zone_start'', c_long_unsigned_int),
     (''migrate_pfn'', c_long_unsigned_int),
     (''free_pfn'', c_long_unsigned_int),
     (''zone_end'', c_long_unsigned_int),
     (''sync'', c_bool),
     (''__data'', CArray c_char 0)]"

definition trace_event_raw_mm_compaction_defer_template :: ctype where
  "trace_event_raw_mm_compaction_defer_template = CStruct ''trace_event_raw_mm_compaction_defer_template'' False [
     (''ent'', trace_entry),
     (''nid'', c_int),
     (''idx'', CEnum ''zone_type''),
     (''order'', c_int),
     (''considered'', c_unsigned_int),
     (''defer_shift'', c_unsigned_int),
     (''order_failed'', c_int),
     (''__data'', CArray c_char 0)]"

definition trace_event_raw_mm_compaction_end :: ctype where
  "trace_event_raw_mm_compaction_end = CStruct ''trace_event_raw_mm_compaction_end'' False [
     (''ent'', trace_entry),
     (''zone_start'', c_long_unsigned_int),
     (''migrate_pfn'', c_long_unsigned_int),
     (''free_pfn'', c_long_unsigned_int),
     (''zone_end'', c_long_unsigned_int),
     (''sync'', c_bool),
     (''status'', c_int),
     (''__data'', CArray c_char 0)]"

definition trace_event_raw_mm_compaction_isolate_template :: ctype where
  "trace_event_raw_mm_compaction_isolate_template = CStruct ''trace_event_raw_mm_compaction_isolate_template'' False [
     (''ent'', trace_entry),
     (''start_pfn'', c_long_unsigned_int),
     (''end_pfn'', c_long_unsigned_int),
     (''nr_scanned'', c_long_unsigned_int),
     (''nr_taken'', c_long_unsigned_int),
     (''__data'', CArray c_char 0)]"

definition trace_event_raw_mm_compaction_kcompactd_sleep :: ctype where
  "trace_event_raw_mm_compaction_kcompactd_sleep = CStruct ''trace_event_raw_mm_compaction_kcompactd_sleep'' False [
     (''ent'', trace_entry),
     (''nid'', c_int),
     (''__data'', CArray c_char 0)]"

definition trace_event_raw_mm_compaction_migratepages :: ctype where
  "trace_event_raw_mm_compaction_migratepages = CStruct ''trace_event_raw_mm_compaction_migratepages'' False [
     (''ent'', trace_entry),
     (''nr_migrated'', c_long_unsigned_int),
     (''nr_failed'', c_long_unsigned_int),
     (''__data'', CArray c_char 0)]"

definition trace_event_raw_mm_compaction_suitable_template :: ctype where
  "trace_event_raw_mm_compaction_suitable_template = CStruct ''trace_event_raw_mm_compaction_suitable_template'' False [
     (''ent'', trace_entry),
     (''nid'', c_int),
     (''idx'', CEnum ''zone_type''),
     (''order'', c_int),
     (''ret'', c_int),
     (''__data'', CArray c_char 0)]"

definition trace_event_raw_mm_compaction_try_to_compact_pages :: ctype where
  "trace_event_raw_mm_compaction_try_to_compact_pages = CStruct ''trace_event_raw_mm_compaction_try_to_compact_pages'' False [
     (''ent'', trace_entry),
     (''order'', c_int),
     (''gfp_mask'', c_long_unsigned_int),
     (''prio'', c_int),
     (''__data'', CArray c_char 0)]"

definition trace_event_raw_mm_filemap_fault :: ctype where
  "trace_event_raw_mm_filemap_fault = CStruct ''trace_event_raw_mm_filemap_fault'' False [
     (''ent'', trace_entry),
     (''i_ino'', c_long_unsigned_int),
     (''s_dev'', c_dev_t),
     (''index'', c_long_unsigned_int),
     (''__data'', CArray c_char 0)]"

definition trace_event_raw_mm_filemap_op_page_cache :: ctype where
  "trace_event_raw_mm_filemap_op_page_cache = CStruct ''trace_event_raw_mm_filemap_op_page_cache'' False [
     (''ent'', trace_entry),
     (''pfn'', c_long_unsigned_int),
     (''i_ino'', c_long_unsigned_int),
     (''index'', c_long_unsigned_int),
     (''s_dev'', c_dev_t),
     (''order'', c_unsigned_char),
     (''__data'', CArray c_char 0)]"

definition trace_event_raw_mm_filemap_op_page_cache_range :: ctype where
  "trace_event_raw_mm_filemap_op_page_cache_range = CStruct ''trace_event_raw_mm_filemap_op_page_cache_range'' False [
     (''ent'', trace_entry),
     (''i_ino'', c_long_unsigned_int),
     (''s_dev'', c_dev_t),
     (''index'', c_long_unsigned_int),
     (''last_index'', c_long_unsigned_int),
     (''__data'', CArray c_char 0)]"

definition trace_event_raw_mm_khugepaged_collapse_file :: ctype where
  "trace_event_raw_mm_khugepaged_collapse_file = CStruct ''trace_event_raw_mm_khugepaged_collapse_file'' False [
     (''ent'', trace_entry),
     (''mm'', CPtr ''struct mm_struct''),
     (''hpfn'', c_long_unsigned_int),
     (''index'', c_long_unsigned_int),
     (''addr'', c_long_unsigned_int),
     (''is_shmem'', c_bool),
     (''__data_loc_filename'', c_u32),
     (''nr'', c_int),
     (''result'', c_int),
     (''__data'', CArray c_char 0)]"

definition trace_event_raw_mm_khugepaged_scan_file :: ctype where
  "trace_event_raw_mm_khugepaged_scan_file = CStruct ''trace_event_raw_mm_khugepaged_scan_file'' False [
     (''ent'', trace_entry),
     (''mm'', CPtr ''struct mm_struct''),
     (''pfn'', c_long_unsigned_int),
     (''__data_loc_filename'', c_u32),
     (''present'', c_int),
     (''swap'', c_int),
     (''result'', c_int),
     (''__data'', CArray c_char 0)]"

definition trace_event_raw_mm_khugepaged_scan_pmd :: ctype where
  "trace_event_raw_mm_khugepaged_scan_pmd = CStruct ''trace_event_raw_mm_khugepaged_scan_pmd'' False [
     (''ent'', trace_entry),
     (''mm'', CPtr ''struct mm_struct''),
     (''pfn'', c_long_unsigned_int),
     (''referenced'', c_int),
     (''none_or_zero'', c_int),
     (''status'', c_int),
     (''unmapped'', c_int),
     (''__data'', CArray c_char 0)]"

definition trace_event_raw_mm_lru_activate :: ctype where
  "trace_event_raw_mm_lru_activate = CStruct ''trace_event_raw_mm_lru_activate'' False [
     (''ent'', trace_entry),
     (''folio'', CPtr ''struct folio''),
     (''pfn'', c_long_unsigned_int),
     (''__data'', CArray c_char 0)]"

definition trace_event_raw_mm_lru_insertion :: ctype where
  "trace_event_raw_mm_lru_insertion = CStruct ''trace_event_raw_mm_lru_insertion'' False [
     (''ent'', trace_entry),
     (''folio'', CPtr ''struct folio''),
     (''pfn'', c_long_unsigned_int),
     (''lru'', CEnum ''lru_list''),
     (''flags'', c_long_unsigned_int),
     (''__data'', CArray c_char 0)]"

definition trace_event_raw_mm_migrate_pages :: ctype where
  "trace_event_raw_mm_migrate_pages = CStruct ''trace_event_raw_mm_migrate_pages'' False [
     (''ent'', trace_entry),
     (''succeeded'', c_long_unsigned_int),
     (''failed'', c_long_unsigned_int),
     (''thp_succeeded'', c_long_unsigned_int),
     (''thp_failed'', c_long_unsigned_int),
     (''thp_split'', c_long_unsigned_int),
     (''large_folio_split'', c_long_unsigned_int),
     (''mode'', CEnum ''migrate_mode''),
     (''reason'', c_int),
     (''__data'', CArray c_char 0)]"

definition trace_event_raw_mm_migrate_pages_start :: ctype where
  "trace_event_raw_mm_migrate_pages_start = CStruct ''trace_event_raw_mm_migrate_pages_start'' False [
     (''ent'', trace_entry),
     (''mode'', CEnum ''migrate_mode''),
     (''reason'', c_int),
     (''__data'', CArray c_char 0)]"

definition trace_event_raw_mm_page :: ctype where
  "trace_event_raw_mm_page = CStruct ''trace_event_raw_mm_page'' False [
     (''ent'', trace_entry),
     (''pfn'', c_long_unsigned_int),
     (''order'', c_unsigned_int),
     (''migratetype'', c_int),
     (''percpu_refill'', c_int),
     (''__data'', CArray c_char 0)]"

definition trace_event_raw_mm_page_alloc :: ctype where
  "trace_event_raw_mm_page_alloc = CStruct ''trace_event_raw_mm_page_alloc'' False [
     (''ent'', trace_entry),
     (''pfn'', c_long_unsigned_int),
     (''order'', c_unsigned_int),
     (''gfp_flags'', c_long_unsigned_int),
     (''migratetype'', c_int),
     (''__data'', CArray c_char 0)]"

definition trace_event_raw_mm_page_alloc_extfrag :: ctype where
  "trace_event_raw_mm_page_alloc_extfrag = CStruct ''trace_event_raw_mm_page_alloc_extfrag'' False [
     (''ent'', trace_entry),
     (''pfn'', c_long_unsigned_int),
     (''alloc_order'', c_int),
     (''fallback_order'', c_int),
     (''alloc_migratetype'', c_int),
     (''fallback_migratetype'', c_int),
     (''change_ownership'', c_int),
     (''__data'', CArray c_char 0)]"

definition trace_event_raw_mm_page_free :: ctype where
  "trace_event_raw_mm_page_free = CStruct ''trace_event_raw_mm_page_free'' False [
     (''ent'', trace_entry),
     (''pfn'', c_long_unsigned_int),
     (''order'', c_unsigned_int),
     (''__data'', CArray c_char 0)]"

definition trace_event_raw_mm_page_free_batched :: ctype where
  "trace_event_raw_mm_page_free_batched = CStruct ''trace_event_raw_mm_page_free_batched'' False [
     (''ent'', trace_entry),
     (''pfn'', c_long_unsigned_int),
     (''__data'', CArray c_char 0)]"

definition trace_event_raw_mm_page_pcpu_drain :: ctype where
  "trace_event_raw_mm_page_pcpu_drain = CStruct ''trace_event_raw_mm_page_pcpu_drain'' False [
     (''ent'', trace_entry),
     (''pfn'', c_long_unsigned_int),
     (''order'', c_unsigned_int),
     (''migratetype'', c_int),
     (''__data'', CArray c_char 0)]"

definition trace_event_raw_mm_setup_per_zone_lowmem_reserve :: ctype where
  "trace_event_raw_mm_setup_per_zone_lowmem_reserve = CStruct ''trace_event_raw_mm_setup_per_zone_lowmem_reserve'' False [
     (''ent'', trace_entry),
     (''node_id'', c_int),
     (''__data_loc_name'', c_u32),
     (''__data_loc_upper_name'', c_u32),
     (''lowmem_reserve'', c_long_int),
     (''__data'', CArray c_char 0)]"

definition trace_event_raw_mm_setup_per_zone_wmarks :: ctype where
  "trace_event_raw_mm_setup_per_zone_wmarks = CStruct ''trace_event_raw_mm_setup_per_zone_wmarks'' False [
     (''ent'', trace_entry),
     (''node_id'', c_int),
     (''__data_loc_name'', c_u32),
     (''watermark_min'', c_long_unsigned_int),
     (''watermark_low'', c_long_unsigned_int),
     (''watermark_high'', c_long_unsigned_int),
     (''watermark_promo'', c_long_unsigned_int),
     (''__data'', CArray c_char 0)]"

definition trace_event_raw_mm_shrink_slab_end :: ctype where
  "trace_event_raw_mm_shrink_slab_end = CStruct ''trace_event_raw_mm_shrink_slab_end'' False [
     (''ent'', trace_entry),
     (''shr'', CPtr ''struct shrinker''),
     (''nid'', c_int),
     (''shrink'', CPtr ''void''),
     (''unused_scan'', c_long_int),
     (''new_scan'', c_long_int),
     (''retval'', c_int),
     (''total_scan'', c_long_int),
     (''__data'', CArray c_char 0)]"

definition trace_event_raw_mm_shrink_slab_start :: ctype where
  "trace_event_raw_mm_shrink_slab_start = CStruct ''trace_event_raw_mm_shrink_slab_start'' False [
     (''ent'', trace_entry),
     (''shr'', CPtr ''struct shrinker''),
     (''shrink'', CPtr ''void''),
     (''nid'', c_int),
     (''nr_objects_to_shrink'', c_long_int),
     (''gfp_flags'', c_long_unsigned_int),
     (''cache_items'', c_long_unsigned_int),
     (''delta'', c_long_long_unsigned_int),
     (''total_scan'', c_long_unsigned_int),
     (''priority'', c_int),
     (''__data'', CArray c_char 0)]"

definition trace_event_raw_mm_vmscan_direct_reclaim_begin_template :: ctype where
  "trace_event_raw_mm_vmscan_direct_reclaim_begin_template = CStruct ''trace_event_raw_mm_vmscan_direct_reclaim_begin_template'' False [
     (''ent'', trace_entry),
     (''order'', c_int),
     (''gfp_flags'', c_long_unsigned_int),
     (''__data'', CArray c_char 0)]"

definition trace_events_4 :: "ctype list" where
  "trace_events_4 = [
     trace_event_raw_iomap_class,
     trace_event_raw_iomap_dio_complete,
     trace_event_raw_iomap_dio_rw_begin,
     trace_event_raw_iomap_iter,
     trace_event_raw_iomap_range_class,
     trace_event_raw_iomap_readpage_class,
     trace_event_raw_iommu_device_event,
     trace_event_raw_iommu_error,
     trace_event_raw_iommu_group_event,
     trace_event_raw_ipi_send_cpu,
     trace_event_raw_ipi_send_cpumask,
     trace_event_raw_irq_handler_entry,
     trace_event_raw_irq_handler_exit,
     trace_event_raw_irq_matrix_cpu,
     trace_event_raw_irq_matrix_global,
     trace_event_raw_irq_matrix_global_update,
     trace_event_raw_irq_noise,
     trace_event_raw_itimer_expire,
     trace_event_raw_itimer_state,
     trace_event_raw_jbd2_checkpoint,
     trace_event_raw_jbd2_checkpoint_stats,
     trace_event_raw_jbd2_commit,
     trace_event_raw_jbd2_end_commit,
     trace_event_raw_jbd2_handle_extend,
     trace_event_raw_jbd2_handle_start_class,
     trace_event_raw_jbd2_handle_stats,
     trace_event_raw_jbd2_journal_shrink,
     trace_event_raw_jbd2_lock_buffer_stall,
     trace_event_raw_jbd2_run_stats,
     trace_event_raw_jbd2_shrink_checkpoint_list,
     trace_event_raw_jbd2_shrink_scan_exit,
     trace_event_raw_jbd2_submit_inode_data,
     trace_event_raw_jbd2_update_log_tail,
     trace_event_raw_jbd2_write_superblock,
     trace_event_raw_kcompactd_wake_template,
     trace_event_raw_kfree,
     trace_event_raw_kfree_skb,
     trace_event_raw_kmalloc,
     trace_event_raw_kmem_cache_alloc,
     trace_event_raw_kmem_cache_free,
     trace_event_raw_ksm_advisor,
     trace_event_raw_ksm_enter_exit_template,
     trace_event_raw_ksm_merge_one_page,
     trace_event_raw_ksm_merge_with_ksm_page,
     trace_event_raw_ksm_remove_ksm_page,
     trace_event_raw_ksm_remove_rmap_item,
     trace_event_raw_ksm_scan_template,
     trace_event_raw_leases_conflict,
     trace_event_raw_locks_get_lock_context,
     trace_event_raw_ma_op,
     trace_event_raw_ma_read,
     trace_event_raw_ma_write,
     trace_event_raw_map,
     trace_event_raw_mark_victim,
     trace_event_raw_mc_event,
     trace_event_raw_mce_record,
     trace_event_raw_mctp_key_acquire,
     trace_event_raw_mctp_key_release,
     trace_event_raw_mdio_access,
     trace_event_raw_mem_connect,
     trace_event_raw_mem_disconnect,
     trace_event_raw_memcg_flush_stats,
     trace_event_raw_memcg_rstat_events,
     trace_event_raw_memcg_rstat_stats,
     trace_event_raw_memory_failure_event,
     trace_event_raw_migration_pmd,
     trace_event_raw_migration_pte,
     trace_event_raw_mm_calculate_totalreserve_pages,
     trace_event_raw_mm_collapse_huge_page,
     trace_event_raw_mm_collapse_huge_page_isolate,
     trace_event_raw_mm_collapse_huge_page_swapin,
     trace_event_raw_mm_compaction_begin,
     trace_event_raw_mm_compaction_defer_template,
     trace_event_raw_mm_compaction_end,
     trace_event_raw_mm_compaction_isolate_template,
     trace_event_raw_mm_compaction_kcompactd_sleep,
     trace_event_raw_mm_compaction_migratepages,
     trace_event_raw_mm_compaction_suitable_template,
     trace_event_raw_mm_compaction_try_to_compact_pages,
     trace_event_raw_mm_filemap_fault,
     trace_event_raw_mm_filemap_op_page_cache,
     trace_event_raw_mm_filemap_op_page_cache_range,
     trace_event_raw_mm_khugepaged_collapse_file,
     trace_event_raw_mm_khugepaged_scan_file,
     trace_event_raw_mm_khugepaged_scan_pmd,
     trace_event_raw_mm_lru_activate,
     trace_event_raw_mm_lru_insertion,
     trace_event_raw_mm_migrate_pages,
     trace_event_raw_mm_migrate_pages_start,
     trace_event_raw_mm_page,
     trace_event_raw_mm_page_alloc,
     trace_event_raw_mm_page_alloc_extfrag,
     trace_event_raw_mm_page_free,
     trace_event_raw_mm_page_free_batched,
     trace_event_raw_mm_page_pcpu_drain,
     trace_event_raw_mm_setup_per_zone_lowmem_reserve,
     trace_event_raw_mm_setup_per_zone_wmarks,
     trace_event_raw_mm_shrink_slab_end,
     trace_event_raw_mm_shrink_slab_start,
     trace_event_raw_mm_vmscan_direct_reclaim_begin_template]"

lemma trace_events_4_ok: "list_all event_ok trace_events_4"
  by code_simp

lemma length_trace_events_4: "length trace_events_4 = 100"
  by (simp add: trace_events_4_def)

end
