(* ===== verification/VmlinuxTrace5.thy ===== *)
theory VmlinuxTrace5
  imports VmlinuxTypes
begin

text \<open>
  Tracepoint context structures of \<^verbatim>\<open>src/internal/ebpf/vmlinux.h\<close>, lines 148888 to 149904:
  \<^verbatim>\<open>trace_event_raw_mm_vmscan_direct_reclaim_end_template\<close> to
  \<^verbatim>\<open>trace_event_raw_rtc_timer_class\<close>, one definition per structure, members in order.
\<close>

definition trace_event_raw_mm_vmscan_direct_reclaim_end_template :: ctype where
  "trace_event_raw_mm_vmscan_direct_reclaim_end_template = CStruct ''trace_event_raw_mm_vmscan_direct_reclaim_end_template'' False [
     (''ent'', trace_entry),
     (''nr_reclaimed'', c_long_unsigned_int),
     (''__data'', CArray c_char 0)]"

definition trace_event_raw_mm_vmscan_kswapd_clear_hopeless :: ctype where
  "trace_event_raw_mm_vmscan_kswapd_clear_hopeless = CStruct ''trace_event_raw_mm_vmscan_kswapd_clear_hopeless'' False [
     (''ent'', trace_entry),
     (''nid'', c_int),
     (''reason'', c_int),
     (''__data'', CArray c_char 0)]"

definition trace_event_raw_mm_vmscan_kswapd_reclaim_fail :: ctype where
  "trace_event_raw_mm_vmscan_kswapd_reclaim_fail = CStruct ''trace_event_raw_mm_vmscan_kswapd_reclaim_fail'' False [
     (''ent'', trace_entry),
     (''nid'', c_int),
     (''failures'', c_int),
     (''__data'', CArray c_char 0)]"

definition trace_event_raw_mm_vmscan_kswapd_sleep :: ctype where
  "trace_event_raw_mm_vmscan_kswapd_sleep = CStruct ''trace_event_raw_mm_vmscan_kswapd_sleep'' False [
     (''ent'', trace_entry),
     (''nid'', c_int),
     (''__data'', CArray c_char 0)]"

definition trace_event_raw_mm_vmscan_kswapd_wake :: ctype where
  "trace_event_raw_mm_vmscan_kswapd_wake = CStruct ''trace_event_raw_mm_vmscan_kswapd_wake'' False [
     (''ent'', trace_entry),
     (''nid'', c_int),
     (''zid'', c_int),
     (''order'', c_int),
     (''__data'', CArray c_char 0)]"

definition trace_event_raw_mm_vmscan_lru_isolate :: ctype where
  "trace_event_raw_mm_vmscan_lru_isolate = CStruct ''trace_event_raw_mm_vmscan_lru_isolate'' False [
     (''ent'', trace_entry),
     (''highest_zoneidx'', c_int),
     (''order'', c_int),
     (''nr_requested'', c_long_unsigned_int),
     (''nr_scanned'', c_long_unsigned_int),
     (''nr_skipped'', c_long_unsigned_int),
     (''nr_taken'', c_long_unsigned_int),
     (''lru'', c_int),
     (''__data'', CArray c_char 0)]"

definition trace_event_raw_mm_vmscan_lru_shrink_active :: ctype where
  "trace_event_raw_mm_vmscan_lru_shrink_active = CStruct ''trace_event_raw_mm_vmscan_lru_shrink_active'' False [
     (''ent'', trace_entry),
     (''nid'', c_int),
     (''nr_taken'', c_long_unsigned_int),
     (''nr_active'', c_long_unsigned_int),
     (''nr_deactivated'', c_long_unsigned_int),
     (''nr_referenced'', c_long_unsigned_int),
     (''priority'', c_int),
     (''reclaim_flags'', c_int),
     (''__data'', CArray c_char 0)]"

definition trace_event_raw_mm_vmscan_lru_shrink_inactive :: ctype where
  "trace_event_raw_mm_vmscan_lru_shrink_inactive = CStruct ''trace_event_raw_mm_vmscan_lru_shrink_inactive'' False [
     (''ent'', trace_entry),
     (''nid'', c_int),
     (''nr_scanned'', c_long_unsigned_int),
     (''nr_reclaimed'', c_long_unsigned_int),
     (''nr_dirty'', c_long_unsigned_int),
     (''nr_writeback'', c_long_unsigned_int),
     (''nr_congested'', c_long_unsigned_int),
     (''nr_immediate'', c_long_unsigned_int),
     (''nr_activate0'', c_unsigned_int),
     (''nr_activate1'', c_unsigned_int),
     (''nr_ref_keep'', c_long_unsigned_int),
     (''nr_unmap_fail'', c_long_unsigned_int),
     (''priority'', c_int),
     (''reclaim_flags'', c_int),
     (''__data'', CArray c_char 0)]"

definition trace_event_raw_mm_vmscan_node_reclaim_begin :: ctype where
  "trace_event_raw_mm_vmscan_node_reclaim_begin = CStruct ''trace_event_raw_mm_vmscan_node_reclaim_begin'' False [
     (''ent'', trace_entry),
     (''nid'', c_int),
     (''order'', c_int),
     (''gfp_flags'', c_long_unsigned_int),
     (''__data'', CArray c_char 0)]"

definition trace_event_raw_mm_vmscan_reclaim_pages :: ctype where
  "trace_event_raw_mm_vmscan_reclaim_pages = CStruct ''trace_event_raw_mm_vmscan_reclaim_pages'' False [
     (''ent'', trace_entry),
     (''nid'', c_int),
     (''nr_scanned'', c_long_unsigned_int),
     (''nr_reclaimed'', c_long_unsigned_int),
     (''nr_dirty'', c_long_unsigned_int),
     (''nr_writeback'', c_long_unsigned_int),
     (''nr_congested'', c_long_unsigned_int),
     (''nr_immediate'', c_long_unsigned_int),
     (''nr_activate0'', c_unsigned_int),
     (''nr_activate1'', c_unsigned_int),
     (''nr_ref_keep'', c_long_unsigned_int),
     (''nr_unmap_fail'', c_long_unsigned_int),
     (''__data'', CArray c_char 0)]"

definition trace_event_raw_mm_vmscan_throttled :: ctype where
  "trace_event_raw_mm_vmscan_throttled = CStruct ''trace_event_raw_mm_vmscan_throttled'' False [
     (''ent'', trace_entry),
     (''nid'', c_int),
     (''usec_timeout'', c_int),
     (''usec_delayed'', c_int),
     (''reason'', c_int),
     (''__data'', CArray c_char 0)]"

definition trace_event_raw_mm_vmscan_wakeup_kswapd :: ctype where
  "trace_event_raw_mm_vmscan_wakeup_kswapd = CStruct ''trace_event_raw_mm_vmscan_wakeup_kswapd'' False [
     (''ent'', trace_entry),
     (''nid'', c_int),
     (''zid'', c_int),
     (''order'', c_int),
     (''gfp_flags'', c_long_unsigned_int),
     (''__data'', CArray c_char 0)]"

definition trace_event_raw_mm_vmscan_write_folio :: ctype where
  "trace_event_raw_mm_vmscan_write_folio = CStruct ''trace_event_raw_mm_vmscan_write_folio'' False [
     (''ent'', trace_entry),
     (''pfn'', c_long_unsigned_int),
     (''reclaim_flags'', c_int),
     (''__data'', CArray c_char 0)]"

definition trace_event_raw_mmap_lock :: ctype where
  "trace_event_raw_mmap_lock = CStruct ''trace_event_raw_mmap_lock'' False [
     (''ent'', trace_entry),
     (''mm'', CPtr ''struct mm_struct''),
     (''memcg_id'', c_u64),
     (''write'', c_bool),
     (''__data'', CArray c_char 0)]"

definition trace_event_raw_mmap_lock_acquire_returned :: ctype where
  "trace_event_raw_mmap_lock_acquire_returned = CStruct ''trace_event_raw_mmap_lock_acquire_returned'' False [
     (''ent'', trace_entry),
     (''mm'', CPtr ''struct mm_struct''),
     (''memcg_id'', c_u64),
     (''write'', c_bool),
     (''success'', c_bool),
     (''__data'', CArray c_char 0)]"

definition trace_event_raw_mmc_request_done :: ctype where
  "trace_event_raw_mmc_request_done = CStruct ''trace_event_raw_mmc_request_done'' False [
     (''ent'', trace_entry),
     (''cmd_opcode'', c_u32),
     (''cmd_err'', c_int),
     (''cmd_resp'', CArray c_u32 4),
     (''cmd_retries'', c_unsigned_int),
     (''stop_opcode'', c_u32),
     (''stop_err'', c_int),
     (''stop_resp'', CArray c_u32 4),
     (''stop_retries'', c_unsigned_int),
     (''sbc_opcode'', c_u32),
     (''sbc_err'', c_int),
     (''sbc_resp'', CArray c_u32 4),
     (''sbc_retries'', c_unsigned_int),
     (''bytes_xfered'', c_unsigned_int),
     (''data_err'', c_int),
     (''tag'', c_int),
     (''can_retune'', c_unsigned_int),
     (''doing_retune'', c_unsigned_int),
     (''retune_now'', c_unsigned_int),
     (''need_retune'', c_int),
     (''hold_retune'', c_int),
     (''retune_period'', c_unsigned_int),
     (''mrq'', CPtr ''struct mmc_request''),
     (''__data_loc_name'', c_u32),
     (''__data'', CArray c_char 0)]"

definition trace_event_raw_mmc_request_start :: ctype where
  "trace_event_raw_mmc_request_start = CStruct ''trace_event_raw_mmc_request_start'' False [
     (''ent'', trace_entry),
     (''cmd_opcode'', c_u32),
     (''cmd_arg'', c_u32),
     (''cmd_flags'', c_unsigned_int),
     (''cmd_retries'', c_unsigned_int),
     (''stop_opcode'', c_u32),
     (''stop_arg'', c_u32),
     (''stop_flags'', c_unsigned_int),
     (''stop_retries'', c_unsigned_int),
     (''sbc_opcode'', c_u32),
     (''sbc_arg'', c_u32),
     (''sbc_flags'', c_unsigned_int),
     (''sbc_retries'', c_unsigned_int),
     (''blocks'', c_unsigned_int),
     (''blk_addr'', c_unsigned_int),
     (''blksz'', c_unsigned_int),
     (''data_flags'', c_unsigned_int),
     (''tag'', c_int),
     (''can_retune'', c_unsigned_int),
     (''doing_retune'', c_unsigned_int),
     (''retune_now'', c_unsigned_int),
     (''need_retune'', c_int),
     (''hold_retune'', c_int),
     (''retune_period'', c_unsigned_int),
     (''mrq'', CPtr ''struct mmc_request''),
     (''__data_loc_name'', c_u32),
     (''__data'', CArray c_char 0)]"

definition trace_event_raw_module_free :: ctype where
  "trace_event_raw_module_free = CStruct ''trace_event_raw_module_free'' False [
     (''ent'', trace_entry),
     (''__data_loc_name'', c_u32),
     (''__data'', CArray c_char 0)]"

definition trace_event_raw_module_load :: ctype where
  "trace_event_raw_module_load = CStruct ''trace_event_raw_module_load'' False [
     (''ent'', trace_entry),
     (''taints'', c_unsigned_int),
     (''__data_loc_name'', c_u32),
     (''__data'', CArray c_char 0)]"

definition trace_event_raw_module_refcnt :: ctype where
  "trace_event_raw_module_refcnt = CStruct ''trace_event_raw_module_refcnt'' False [
     (''ent'', trace_entry),
     (''ip'', c_long_unsigned_int),
     (''refcnt'', c_int),
     (''__data_loc_name'', c_u32),
     (''__data'', CArray c_char 0)]"

definition trace_event_raw_module_request :: ctype where
  "trace_event_raw_module_request = CStruct ''trace_event_raw_module_request'' False [
     (''ent'', trace_entry),
     (''ip'', c_long_unsigned_int),
     (''wait'', c_bool),
     (''__data_loc_name'', c_u32),
     (''__data'', CArray c_char 0)]"

definition trace_event_raw_mon_llc_occupancy_limbo :: ctype where
  "trace_event_raw_mon_llc_occupancy_limbo = CStruct ''trace_event_raw_mon_llc_occupancy_limbo'' False [
     (''ent'', trace_entry),
     (''ctrl_hw_id'', c_u32),
     (''mon_hw_id'', c_u32),
     (''domain_id'', c_int),
     (''llc_occupancy_bytes'', c_u64),
     (''__data'', CArray c_char 0)]"

definition trace_event_raw_mptcp_dump_mpext :: ctype where
  "trace_event_raw_mptcp_dump_mpext = CStruct ''trace_event_raw_mptcp_dump_mpext'' False [
     (''ent'', trace_entry),
     (''data_ack'', c_u64),
     (''data_seq'', c_u64),
     (''subflow_seq'', c_u32),
     (''data_len'', c_u16),
     (''csum'', c_u16),
     (''use_map'', c_u8),
     (''dsn64'', c_u8),
     (''data_fin'', c_u8),
     (''use_ack'', c_u8),
     (''ack64'', c_u8),
     (''mpc_map'', c_u8),
     (''frozen'', c_u8),
     (''reset_transient'', c_u8),
     (''reset_reason'', c_u8),
     (''csum_reqd'', c_u8),
     (''infinite_map'', c_u8),
     (''__data'', CArray c_char 0)]"

definition trace_event_raw_mptcp_rcvbuf_grow :: ctype where
  "trace_event_raw_mptcp_rcvbuf_grow = CStruct ''trace_event_raw_mptcp_rcvbuf_grow'' False [
     (''ent'', trace_entry),
     (''time'', c_int),
     (''rtt_us'', c___u32),
     (''copied'', c___u32),
     (''inq'', c___u32),
     (''space'', c___u32),
     (''ooo_space'', c___u32),
     (''rcvbuf'', c___u32),
     (''rcv_wnd'', c___u32),
     (''scaling_ratio'', c___u8),
     (''sport'', c___u16),
     (''dport'', c___u16),
     (''family'', c___u16),
     (''saddr'', CArray c___u8 4),
     (''daddr'', CArray c___u8 4),
     (''saddr_v6'', CArray c___u8 16),
     (''daddr_v6'', CArray c___u8 16),
     (''skaddr'', CPtr ''const void''),
     (''__data'', CArray c_char 0)]"

definition trace_event_raw_mptcp_subflow_get_send :: ctype where
  "trace_event_raw_mptcp_subflow_get_send = CStruct ''trace_event_raw_mptcp_subflow_get_send'' False [
     (''ent'', trace_entry),
     (''active'', c_bool),
     (''free'', c_bool),
     (''snd_wnd'', c_u32),
     (''pace'', c_u32),
     (''backup'', c_u8),
     (''ratio'', c_u64),
     (''__data'', CArray c_char 0)]"

definition trace_event_raw_msr_trace_class :: ctype where
  "trace_event_raw_msr_trace_class = CStruct ''trace_event_raw_msr_trace_class'' False [
     (''ent'', trace_entry),
     (''msr'', c_unsigned_int),
     (''val'', c_u64),
     (''failed'', c_int),
     (''__data'', CArray c_char 0)]"

definition trace_event_raw_napi_poll :: ctype where
  "trace_event_raw_napi_poll = CStruct ''trace_event_raw_napi_poll'' False [
     (''ent'', trace_entry),
     (''napi'', CPtr ''struct napi_struct''),
     (''__data_loc_dev_name'', c_u32),
     (''work'', c_int),
     (''budget'', c_int),
     (''__data'', CArray c_char 0)]"

definition trace_event_raw_neigh__update :: ctype where
  "trace_event_raw_neigh__update = CStruct ''trace_event_raw_neigh__update'' False [
     (''ent'', trace_entry),
     (''family'', c_u32),
     (''__data_loc_dev'', c_u32),
     (''lladdr'', CArray c_u8 32),
     (''lladdr_len'', c_u8),
     (''flags'', c_u8),
     (''nud_state'', c_u8),
     (''type'', c_u8),
     (''dead'', c_u8),
     (''refcnt'', c_int),
     (''primary_key4'', CArray c___u8 4),
     (''primary_key6'', CArray c___u8 16),
     (''confirmed'', c_long_unsigned_int),
     (''updated'', c_long_unsigned_int),
     (''used'', c_long_unsigned_int),
     (''err'', c_u32),
     (''__data'', CArray c_char 0)]"

definition trace_event_raw_neigh_create :: ctype where
  "trace_event_raw_neigh_create = CStruct ''trace_event_raw_neigh_create'' False [
     (''ent'', trace_entry),
     (''family'', c_u32),
     (''__data_loc_dev'', c_u32),
     (''entries'', c_int),
     (''created'', c_u8),
     (''gc_exempt'', c_u8),
     (''primary_key4'', CArray c_u8 4),
     (''primary_key6'', CArray c_u8 16),
     (''__data'', CArray c_char 0)]"

definition trace_event_raw_neigh_update :: ctype where
  "trace_event_raw_neigh_update = CStruct ''trace_event_raw_neigh_update'' False [
     (''ent'', trace_entry),
     (''family'', c_u32),
     (''__data_loc_dev'', c_u32),
     (''lladdr'', CArray c_u8 32),
     (''lladdr_len'', c_u8),
     (''flags'', c_u8),
     (''nud_state'', c_u8),
     (''type'', c_u8),
     (''dead'', c_u8),
     (''refcnt'', c_int),
     (''primary_key4'', CArray c___u8 4),
     (''primary_key6'', CArray c___u8 16),
     (''confirmed'', c_long_unsigned_int),
     (''updated'', c_long_unsigned_int),
     (''used'', c_long_unsigned_int),
     (''new_lladdr'', CArray c_u8 32),
     (''new_state'', c_u8),
     (''update_flags'', c_u32),
     (''pid'', c_u32),
     (''__data'', CArray c_char 0)]"

definition trace_event_raw_net_dev_rx_exit_template :: ctype where
  "trace_event_raw_net_dev_rx_exit_template = CStruct ''trace_event_raw_net_dev_rx_exit_template'' False [
     (''ent'', trace_entry),
     (''ret'', c_int),
     (''__data'', CArray c_char 0)]"

definition trace_event_raw_net_dev_rx_verbose_template :: ctype where
  "trace_event_raw_net_dev_rx_verbose_template = CStruct ''trace_event_raw_net_dev_rx_verbose_template'' False [
     (''ent'', trace_entry),
     (''__data_loc_name'', c_u32),
     (''napi_id'', c_unsigned_int),
     (''queue_mapping'', c_u16),
     (''skbaddr'', CPtr ''const void''),
     (''vlan_tagged'', c_bool),
     (''vlan_proto'', c_u16),
     (''vlan_tci'', c_u16),
     (''protocol'', c_u16),
     (''ip_summed'', c_u8),
     (''hash'', c_u32),
     (''l4_hash'', c_bool),
     (''len'', c_unsigned_int),
     (''data_len'', c_unsigned_int),
     (''truesize'', c_unsigned_int),
     (''mac_header_valid'', c_bool),
     (''mac_header'', c_int),
     (''nr_frags'', c_unsigned_char),
     (''gso_size'', c_u16),
     (''gso_type'', c_u16),
     (''net_cookie'', c_u64),
     (''__data'', CArray c_char 0)]"

definition trace_event_raw_net_dev_start_xmit :: ctype where
  "trace_event_raw_net_dev_start_xmit = CStruct ''trace_event_raw_net_dev_start_xmit'' False [
     (''ent'', trace_entry),
     (''__data_loc_name'', c_u32),
     (''queue_mapping'', c_u16),
     (''skbaddr'', CPtr ''const void''),
     (''vlan_tagged'', c_bool),
     (''vlan_proto'', c_u16),
     (''vlan_tci'', c_u16),
     (''protocol'', c_u16),
     (''ip_summed'', c_u8),
     (''len'', c_unsigned_int),
     (''data_len'', c_unsigned_int),
     (''network_offset'', c_int),
     (''transport_offset_valid'', c_bool),
     (''transport_offset'', c_int),
     (''tx_flags'', c_u8),
     (''gso_size'', c_u16),
     (''gso_segs'', c_u16),
     (''gso_type'', c_u16),
     (''net_cookie'', c_u64),
     (''__data'', CArray c_char 0)]"

definition trace_event_raw_net_dev_template :: ctype where
  "trace_event_raw_net_dev_template = CStruct ''trace_event_raw_net_dev_template'' False [
     (''ent'', trace_entry),
     (''skbaddr'', CPtr ''void''),
     (''len'', c_unsigned_int),
     (''__data_loc_name'', c_u32),
     (''net_cookie'', c_u64),
     (''__data'', CArray c_char 0)]"

definition trace_event_raw_net_dev_xmit :: ctype where
  "trace_event_raw_net_dev_xmit = CStruct ''trace_event_raw_net_dev_xmit'' False [
     (''ent'', trace_entry),
     (''skbaddr'', CPtr ''void''),
     (''len'', c_unsigned_int),
     (''rc'', c_int),
     (''__data_loc_name'', c_u32),
     (''net_cookie'', c_u64),
     (''__data'', CArray c_char 0)]"

definition trace_event_raw_net_dev_xmit_timeout :: ctype where
  "trace_event_raw_net_dev_xmit_timeout = CStruct ''trace_event_raw_net_dev_xmit_timeout'' False [
     (''ent'', trace_entry),
     (''__data_loc_name'', c_u32),
     (''__data_loc_driver'', c_u32),
     (''queue_index'', c_int),
     (''net_cookie'', c_u64),
     (''__data'', CArray c_char 0)]"

definition trace_event_raw_netlink_extack :: ctype where
  "trace_event_raw_netlink_extack = CStruct ''trace_event_raw_netlink_extack'' False [
     (''ent'', trace_entry),
     (''__data_loc_msg'', c_u32),
     (''__data'', CArray c_char 0)]"

definition trace_event_raw_nmi_handler :: ctype where
  "trace_event_raw_nmi_handler = CStruct ''trace_event_raw_nmi_handler'' False [
     (''ent'', trace_entry),
     (''handler'', CPtr ''void''),
     (''delta_ns'', c_s64),
     (''handled'', c_int),
     (''__data'', CArray c_char 0)]"

definition trace_event_raw_nmi_noise :: ctype where
  "trace_event_raw_nmi_noise = CStruct ''trace_event_raw_nmi_noise'' False [
     (''ent'', trace_entry),
     (''start'', c_u64),
     (''duration'', c_u64),
     (''__data'', CArray c_char 0)]"

definition trace_event_raw_non_standard_event :: ctype where
  "trace_event_raw_non_standard_event = CStruct ''trace_event_raw_non_standard_event'' False [
     (''ent'', trace_entry),
     (''sec_type'', CArray c_char 16),
     (''fru_id'', CArray c_char 16),
     (''__data_loc_fru_text'', c_u32),
     (''sev'', c_u8),
     (''len'', c_u32),
     (''__data_loc_buf'', c_u32),
     (''__data'', CArray c_char 0)]"

definition trace_event_raw_notifier_info :: ctype where
  "trace_event_raw_notifier_info = CStruct ''trace_event_raw_notifier_info'' False [
     (''ent'', trace_entry),
     (''cb'', CPtr ''void''),
     (''__data'', CArray c_char 0)]"

definition trace_event_raw_oom_score_adj_update :: ctype where
  "trace_event_raw_oom_score_adj_update = CStruct ''trace_event_raw_oom_score_adj_update'' False [
     (''ent'', trace_entry),
     (''pid'', c_pid_t),
     (''comm'', CArray c_char 16),
     (''oom_score_adj'', c_short_int),
     (''__data'', CArray c_char 0)]"

definition trace_event_raw_osnoise_sample :: ctype where
  "trace_event_raw_osnoise_sample = CStruct ''trace_event_raw_osnoise_sample'' False [
     (''ent'', trace_entry),
     (''runtime'', c_u64),
     (''noise'', c_u64),
     (''max_sample'', c_u64),
     (''hw_count'', c_int),
     (''irq_count'', c_int),
     (''nmi_count'', c_int),
     (''softirq_count'', c_int),
     (''thread_count'', c_int),
     (''__data'', CArray c_char 0)]"

definition trace_event_raw_page_cache_ra_op :: ctype where
  "trace_event_raw_page_cache_ra_op = CStruct ''trace_event_raw_page_cache_ra_op'' False [
     (''ent'', trace_entry),
     (''i_ino'', c_long_unsigned_int),
     (''s_dev'', c_dev_t),
     (''index'', c_long_unsigned_int),
     (''order'', c_unsigned_int),
     (''size'', c_unsigned_int),
     (''async_size'', c_unsigned_int),
     (''ra_pages'', c_unsigned_int),
     (''mmap_miss'', c_unsigned_int),
     (''prev_pos'', c_loff_t),
     (''req_count'', c_long_unsigned_int),
     (''__data'', CArray c_char 0)]"

definition trace_event_raw_page_cache_ra_order :: ctype where
  "trace_event_raw_page_cache_ra_order = CStruct ''trace_event_raw_page_cache_ra_order'' False [
     (''ent'', trace_entry),
     (''i_ino'', c_long_unsigned_int),
     (''s_dev'', c_dev_t),
     (''index'', c_long_unsigned_int),
     (''order'', c_unsigned_int),
     (''size'', c_unsigned_int),
     (''async_size'', c_unsigned_int),
     (''ra_pages'', c_unsigned_int),
     (''__data'', CArray c_char 0)]"

definition trace_event_raw_page_cache_ra_unbounded :: ctype where
  "trace_event_raw_page_cache_ra_unbounded = CStruct ''trace_event_raw_page_cache_ra_unbounded'' False [
     (''ent'', trace_entry),
     (''i_ino'', c_long_unsigned_int),
     (''s_dev'', c_dev_t),
     (''index'', c_long_unsigned_int),
     (''nr_to_read'', c_long_unsigned_int),
     (''lookahead_size'', c_long_unsigned_int),
     (''__data'', CArray c_char 0)]"

definition trace_event_raw_page_pool_release :: ctype where
  "trace_event_raw_page_pool_release = CStruct ''trace_event_raw_page_pool_release'' False [
     (''ent'', trace_entry),
     (''pool'', CPtr ''const struct page_pool''),
     (''inflight'', c_s32),
     (''hold'', c_u32),
     (''release'', c_u32),
     (''cnt'', c_u64),
     (''__data'', CArray c_char 0)]"

definition trace_event_raw_page_pool_state_hold :: ctype where
  "trace_event_raw_page_pool_state_hold = CStruct ''trace_event_raw_page_pool_state_hold'' False [
     (''ent'', trace_entry),
     (''pool'', CPtr ''const struct page_pool''),
     (''netmem'', c_long_unsigned_int),
     (''hold'', c_u32),
     (''pfn'', c_long_unsigned_int),
     (''__data'', CArray c_char 0)]"

definition trace_event_raw_page_pool_state_release :: ctype where
  "trace_event_raw_page_pool_state_release = CStruct ''trace_event_raw_page_pool_state_release'' False [
     (''ent'', trace_entry),
     (''pool'', CPtr ''const struct page_pool''),
     (''netmem'', c_long_unsigned_int),
     (''release'', c_u32),
     (''pfn'', c_long_unsigned_int),
     (''__data'', CArray c_char 0)]"

definition trace_event_raw_page_pool_update_nid :: ctype where
  "trace_event_raw_page_pool_update_nid = CStruct ''trace_event_raw_page_pool_update_nid'' False [
     (''ent'', trace_entry),
     (''pool'', CPtr ''const struct page_pool''),
     (''pool_nid'', c_int),
     (''new_nid'', c_int),
     (''__data'', CArray c_char 0)]"

definition trace_event_raw_pci_hp_event :: ctype where
  "trace_event_raw_pci_hp_event = CStruct ''trace_event_raw_pci_hp_event'' False [
     (''ent'', trace_entry),
     (''__data_loc_port_name'', c_u32),
     (''__data_loc_slot'', c_u32),
     (''event'', c_int),
     (''__data'', CArray c_char 0)]"

definition trace_event_raw_pcie_link_event :: ctype where
  "trace_event_raw_pcie_link_event = CStruct ''trace_event_raw_pcie_link_event'' False [
     (''ent'', trace_entry),
     (''__data_loc_port_name'', c_u32),
     (''type'', c_unsigned_int),
     (''reason'', c_unsigned_int),
     (''cur_bus_speed'', c_unsigned_int),
     (''max_bus_speed'', c_unsigned_int),
     (''width'', c_unsigned_int),
     (''flit_mode'', c_unsigned_int),
     (''link_status'', c_unsigned_int),
     (''__data'', CArray c_char 0)]"

definition trace_event_raw_percpu_alloc_percpu :: ctype where
  "trace_event_raw_percpu_alloc_percpu = CStruct ''trace_event_raw_percpu_alloc_percpu'' False [
     (''ent'', trace_entry),
     (''call_site'', c_long_unsigned_int),
     (''reserved'', c_bool),
     (''is_atomic'', c_bool),
     (''size'', c_size_t),
     (''align'', c_size_t),
     (''base_addr'', CPtr ''void''),
     (''off'', c_int),
     (''ptr'', CPtr ''void''),
     (''bytes_alloc'', c_size_t),
     (''gfp_flags'', c_long_unsigned_int),
     (''__data'', CArray c_char 0)]"

definition trace_event_raw_percpu_alloc_percpu_fail :: ctype where
  "trace_event_raw_percpu_alloc_percpu_fail = CStruct ''trace_event_raw_percpu_alloc_percpu_fail'' False [
     (''ent'', trace_entry),
     (''reserved'', c_bool),
     (''is_atomic'', c_bool),
     (''size'', c_size_t),
     (''align'', c_size_t),
     (''__data'', CArray c_char 0)]"

definition trace_event_raw_percpu_create_chunk :: ctype where
  "trace_event_raw_percpu_create_chunk = CStruct ''trace_event_raw_percpu_create_chunk'' False [
     (''ent'', trace_entry),
     (''base_addr'', CPtr ''void''),
     (''__data'', CArray c_char 0)]"

definition trace_event_raw_percpu_destroy_chunk :: ctype where
  "trace_event_raw_percpu_destroy_chunk = CStruct ''trace_event_raw_percpu_destroy_chunk'' False [
     (''ent'', trace_entry),
     (''base_addr'', CPtr ''void''),
     (''__data'', CArray c_char 0)]"

definition trace_event_raw_percpu_free_percpu :: ctype where
  "trace_event_raw_percpu_free_percpu = CStruct ''trace_event_raw_percpu_free_percpu'' False [
     (''ent'', trace_entry),
     (''base_addr'', CPtr ''void''),
     (''off'', c_int),
     (''ptr'', CPtr ''void''),
     (''__data'', CArray c_char 0)]"

definition trace_event_raw_pm_qos_update :: ctype where
  "trace_event_raw_pm_qos_update = CStruct ''trace_event_raw_pm_qos_update'' False [
     (''ent'', trace_entry),
     (''action'', CEnum ''pm_qos_req_action''),
     (''prev_value'', c_int),
     (''curr_value'', c_int),
     (''__data'', CArray c_char 0)]"

definition trace_event_raw_prq_report :: ctype where
  "trace_event_raw_prq_report = CStruct ''trace_event_raw_prq_report'' False [
     (''ent'', trace_entry),
     (''dw0'', c_u64),
     (''dw1'', c_u64),
     (''dw2'', c_u64),
     (''dw3'', c_u64),
     (''seq'', c_long_unsigned_int),
     (''__data_loc_iommu'', c_u32),
     (''__data_loc_dev'', c_u32),
     (''__data_loc_buff'', c_u32),
     (''__data'', CArray c_char 0)]"

definition trace_event_raw_pseudo_lock_l2 :: ctype where
  "trace_event_raw_pseudo_lock_l2 = CStruct ''trace_event_raw_pseudo_lock_l2'' False [
     (''ent'', trace_entry),
     (''l2_hits'', c_u64),
     (''l2_miss'', c_u64),
     (''__data'', CArray c_char 0)]"

definition trace_event_raw_pseudo_lock_l3 :: ctype where
  "trace_event_raw_pseudo_lock_l3 = CStruct ''trace_event_raw_pseudo_lock_l3'' False [
     (''ent'', trace_entry),
     (''l3_hits'', c_u64),
     (''l3_miss'', c_u64),
     (''__data'', CArray c_char 0)]"

definition trace_event_raw_pseudo_lock_mem_latency :: ctype where
  "trace_event_raw_pseudo_lock_mem_latency = CStruct ''trace_event_raw_pseudo_lock_mem_latency'' False [
     (''ent'', trace_entry),
     (''latency'', c_u32),
     (''__data'', CArray c_char 0)]"

definition trace_event_raw_pstate_sample :: ctype where
  "trace_event_raw_pstate_sample = CStruct ''trace_event_raw_pstate_sample'' False [
     (''ent'', trace_entry),
     (''core_busy'', c_u32),
     (''scaled_busy'', c_u32),
     (''from'', c_u32),
     (''to'', c_u32),
     (''mperf'', c_u64),
     (''aperf'', c_u64),
     (''tsc'', c_u64),
     (''freq'', c_u32),
     (''io_boost'', c_u32),
     (''__data'', CArray c_char 0)]"

definition trace_event_raw_purge_vmap_area_lazy :: ctype where
  "trace_event_raw_purge_vmap_area_lazy = CStruct ''trace_event_raw_purge_vmap_area_lazy'' False [
     (''ent'', trace_entry),
     (''start'', c_long_unsigned_int),
     (''end'', c_long_unsigned_int),
     (''npurged'', c_unsigned_int),
     (''__data'', CArray c_char 0)]"

definition trace_event_raw_pwm :: ctype where
  "trace_event_raw_pwm = CStruct ''trace_event_raw_pwm'' False [
     (''ent'', trace_entry),
     (''chipid'', c_unsigned_int),
     (''hwpwm'', c_unsigned_int),
     (''period'', c_u64),
     (''duty_cycle'', c_u64),
     (''polarity'', CEnum ''pwm_polarity''),
     (''enabled'', c_bool),
     (''err'', c_int),
     (''__data'', CArray c_char 0)]"

definition trace_event_raw_pwm_read_waveform :: ctype where
  "trace_event_raw_pwm_read_waveform = CStruct ''trace_event_raw_pwm_read_waveform'' False [
     (''ent'', trace_entry),
     (''chipid'', c_unsigned_int),
     (''hwpwm'', c_unsigned_int),
     (''wfhw'', CPtr ''void''),
     (''err'', c_int),
     (''__data'', CArray c_char 0)]"

definition trace_event_raw_pwm_round_waveform_fromhw :: ctype where
  "trace_event_raw_pwm_round_waveform_fromhw = CStruct ''trace_event_raw_pwm_round_waveform_fromhw'' False [
     (''ent'', trace_entry),
     (''chipid'', c_unsigned_int),
     (''hwpwm'', c_unsigned_int),
     (''wfhw'', CPtr ''const void''),
     (''wf_period_length_ns'', c_u64),
     (''wf_duty_length_ns'', c_u64),
     (''wf_duty_offset_ns'', c_u64),
     (''err'', c_int),
     (''__data'', CArray c_char 0)]"

definition trace_event_raw_pwm_round_waveform_tohw :: ctype where
  "trace_event_raw_pwm_round_waveform_tohw = CStruct ''trace_event_raw_pwm_round_waveform_tohw'' False [
     (''ent'', trace_entry),
     (''chipid'', c_unsigned_int),
     (''hwpwm'', c_unsigned_int),
     (''wf_period_length_ns'', c_u64),
     (''wf_duty_length_ns'', c_u64),
     (''wf_duty_offset_ns'', c_u64),
     (''wfhw'', CPtr ''void''),
     (''err'', c_int),
     (''__data'', CArray c_char 0)]"

definition trace_event_raw_pwm_write_waveform :: ctype where
  "trace_event_raw_pwm_write_waveform = CStruct ''trace_event_raw_pwm_write_waveform'' False [
     (''ent'', trace_entry),
     (''chipid'', c_unsigned_int),
     (''hwpwm'', c_unsigned_int),
     (''wfhw'', CPtr ''const void''),
     (''err'', c_int),
     (''__data'', CArray c_char 0)]"

definition trace_event_raw_qdisc_create :: ctype where
  "trace_event_raw_qdisc_create = CStruct ''trace_event_raw_qdisc_create'' False [
     (''ent'', trace_entry),
     (''__data_loc_dev'', c_u32),
     (''__data_loc_kind'', c_u32),
     (''parent'', c_u32),
     (''__data'', CArray c_char 0)]"

definition trace_event_raw_qdisc_dequeue :: ctype where
  "trace_event_raw_qdisc_dequeue = CStruct ''trace_event_raw_qdisc_dequeue'' False [
     (''ent'', trace_entry),
     (''qdisc'', CPtr ''struct Qdisc''),
     (''txq'', CPtr ''const struct netdev_queue''),
     (''packets'', c_int),
     (''skbaddr'', CPtr ''void''),
     (''ifindex'', c_int),
     (''handle'', c_u32),
     (''parent'', c_u32),
     (''txq_state'', c_long_unsigned_int),
     (''__data'', CArray c_char 0)]"

definition trace_event_raw_qdisc_destroy :: ctype where
  "trace_event_raw_qdisc_destroy = CStruct ''trace_event_raw_qdisc_destroy'' False [
     (''ent'', trace_entry),
     (''__data_loc_dev'', c_u32),
     (''__data_loc_kind'', c_u32),
     (''parent'', c_u32),
     (''handle'', c_u32),
     (''__data'', CArray c_char 0)]"

definition trace_event_raw_qdisc_enqueue :: ctype where
  "trace_event_raw_qdisc_enqueue = CStruct ''trace_event_raw_qdisc_enqueue'' False [
     (''ent'', trace_entry),
     (''qdisc'', CPtr ''struct Qdisc''),
     (''txq'', CPtr ''const struct netdev_queue''),
     (''skbaddr'', CPtr ''void''),
     (''ifindex'', c_int),
     (''handle'', c_u32),
     (''parent'', c_u32),
     (''__data'', CArray c_char 0)]"

definition trace_event_raw_qdisc_reset :: ctype where
  "trace_event_raw_qdisc_reset = CStruct ''trace_event_raw_qdisc_reset'' False [
     (''ent'', trace_entry),
     (''__data_loc_dev'', c_u32),
     (''__data_loc_kind'', c_u32),
     (''parent'', c_u32),
     (''handle'', c_u32),
     (''__data'', CArray c_char 0)]"

definition trace_event_raw_qi_submit :: ctype where
  "trace_event_raw_qi_submit = CStruct ''trace_event_raw_qi_submit'' False [
     (''ent'', trace_entry),
     (''qw0'', c_u64),
     (''qw1'', c_u64),
     (''qw2'', c_u64),
     (''qw3'', c_u64),
     (''__data_loc_iommu'', c_u32),
     (''__data'', CArray c_char 0)]"

definition trace_event_raw_rcu_stall_warning :: ctype where
  "trace_event_raw_rcu_stall_warning = CStruct ''trace_event_raw_rcu_stall_warning'' False [
     (''ent'', trace_entry),
     (''rcuname'', CPtr ''const char''),
     (''msg'', CPtr ''const char''),
     (''__data'', CArray c_char 0)]"

definition trace_event_raw_rcu_utilization :: ctype where
  "trace_event_raw_rcu_utilization = CStruct ''trace_event_raw_rcu_utilization'' False [
     (''ent'', trace_entry),
     (''s'', CPtr ''const char''),
     (''__data'', CArray c_char 0)]"

definition trace_event_raw_reclaim_retry_zone :: ctype where
  "trace_event_raw_reclaim_retry_zone = CStruct ''trace_event_raw_reclaim_retry_zone'' False [
     (''ent'', trace_entry),
     (''node'', c_int),
     (''zone_idx'', c_int),
     (''order'', c_int),
     (''reclaimable'', c_long_unsigned_int),
     (''available'', c_long_unsigned_int),
     (''min_wmark'', c_long_unsigned_int),
     (''no_progress_loops'', c_int),
     (''wmark_check'', c_bool),
     (''__data'', CArray c_char 0)]"

definition trace_event_raw_regcache_drop_region :: ctype where
  "trace_event_raw_regcache_drop_region = CStruct ''trace_event_raw_regcache_drop_region'' False [
     (''ent'', trace_entry),
     (''__data_loc_name'', c_u32),
     (''from'', c_unsigned_int),
     (''to'', c_unsigned_int),
     (''__data'', CArray c_char 0)]"

definition trace_event_raw_regcache_sync :: ctype where
  "trace_event_raw_regcache_sync = CStruct ''trace_event_raw_regcache_sync'' False [
     (''ent'', trace_entry),
     (''__data_loc_name'', c_u32),
     (''__data_loc_status'', c_u32),
     (''__data_loc_type'', c_u32),
     (''__data'', CArray c_char 0)]"

definition trace_event_raw_regmap_async :: ctype where
  "trace_event_raw_regmap_async = CStruct ''trace_event_raw_regmap_async'' False [
     (''ent'', trace_entry),
     (''__data_loc_name'', c_u32),
     (''__data'', CArray c_char 0)]"

definition trace_event_raw_regmap_block :: ctype where
  "trace_event_raw_regmap_block = CStruct ''trace_event_raw_regmap_block'' False [
     (''ent'', trace_entry),
     (''__data_loc_name'', c_u32),
     (''reg'', c_unsigned_int),
     (''count'', c_int),
     (''__data'', CArray c_char 0)]"

definition trace_event_raw_regmap_bool :: ctype where
  "trace_event_raw_regmap_bool = CStruct ''trace_event_raw_regmap_bool'' False [
     (''ent'', trace_entry),
     (''__data_loc_name'', c_u32),
     (''flag'', c_int),
     (''__data'', CArray c_char 0)]"

definition trace_event_raw_regmap_bulk :: ctype where
  "trace_event_raw_regmap_bulk = CStruct ''trace_event_raw_regmap_bulk'' False [
     (''ent'', trace_entry),
     (''__data_loc_name'', c_u32),
     (''reg'', c_unsigned_int),
     (''__data_loc_buf'', c_u32),
     (''val_len'', c_int),
     (''__data'', CArray c_char 0)]"

definition trace_event_raw_regmap_reg :: ctype where
  "trace_event_raw_regmap_reg = CStruct ''trace_event_raw_regmap_reg'' False [
     (''ent'', trace_entry),
     (''__data_loc_name'', c_u32),
     (''reg'', c_unsigned_int),
     (''val'', c_unsigned_int),
     (''__data'', CArray c_char 0)]"

definition trace_event_raw_regulator_basic :: ctype where
  "trace_event_raw_regulator_basic = CStruct ''trace_event_raw_regulator_basic'' False [
     (''ent'', trace_entry),
     (''__data_loc_name'', c_u32),
     (''__data'', CArray c_char 0)]"

definition trace_event_raw_regulator_range :: ctype where
  "trace_event_raw_regulator_range = CStruct ''trace_event_raw_regulator_range'' False [
     (''ent'', trace_entry),
     (''__data_loc_name'', c_u32),
     (''min'', c_int),
     (''max'', c_int),
     (''__data'', CArray c_char 0)]"

definition trace_event_raw_regulator_value :: ctype where
  "trace_event_raw_regulator_value = CStruct ''trace_event_raw_regulator_value'' False [
     (''ent'', trace_entry),
     (''__data_loc_name'', c_u32),
     (''val'', c_unsigned_int),
     (''__data'', CArray c_char 0)]"

definition trace_event_raw_rpm_internal :: ctype where
  "trace_event_raw_rpm_internal = CStruct ''trace_event_raw_rpm_internal'' False [
     (''ent'', trace_entry),
     (''__data_loc_name'', c_u32),
     (''flags'', c_int),
     (''usage_count'', c_int),
     (''disable_depth'', c_int),
     (''runtime_auto'', c_int),
     (''request_pending'', c_int),
     (''irq_safe'', c_int),
     (''child_count'', c_int),
     (''__data'', CArray c_char 0)]"

definition trace_event_raw_rpm_return_int :: ctype where
  "trace_event_raw_rpm_return_int = CStruct ''trace_event_raw_rpm_return_int'' False [
     (''ent'', trace_entry),
     (''__data_loc_name'', c_u32),
     (''ip'', c_long_unsigned_int),
     (''ret'', c_int),
     (''__data'', CArray c_char 0)]"

definition trace_event_raw_rpm_status :: ctype where
  "trace_event_raw_rpm_status = CStruct ''trace_event_raw_rpm_status'' False [
     (''ent'', trace_entry),
     (''__data_loc_name'', c_u32),
     (''status'', c_int),
     (''__data'', CArray c_char 0)]"

definition trace_event_raw_rseq_ip_fixup :: ctype where
  "trace_event_raw_rseq_ip_fixup = CStruct ''trace_event_raw_rseq_ip_fixup'' False [
     (''ent'', trace_entry),
     (''regs_ip'', c_long_unsigned_int),
     (''start_ip'', c_long_unsigned_int),
     (''post_commit_offset'', c_long_unsigned_int),
     (''abort_ip'', c_long_unsigned_int),
     (''__data'', CArray c_char 0)]"

definition trace_event_raw_rseq_update :: ctype where
  "trace_event_raw_rseq_update = CStruct ''trace_event_raw_rseq_update'' False [
     (''ent'', trace_entry),
     (''cpu_id'', c_s32),
     (''node_id'', c_s32),
     (''mm_cid'', c_s32),
     (''__data'', CArray c_char 0)]"

definition trace_event_raw_rss_stat :: ctype where
  "trace_event_raw_rss_stat = CStruct ''trace_event_raw_rss_stat'' False [
     (''ent'', trace_entry),
     (''mm_id'', c_unsigned_int),
     (''curr'', c_unsigned_int),
     (''member'', c_int),
     (''size'', c_long_int),
     (''__data'', CArray c_char 0)]"

definition trace_event_raw_rtc_alarm_irq_enable :: ctype where
  "trace_event_raw_rtc_alarm_irq_enable = CStruct ''trace_event_raw_rtc_alarm_irq_enable'' False [
     (''ent'', trace_entry),
     (''enabled'', c_unsigned_int),
     (''err'', c_int),
     (''__data'', CArray c_char 0)]"

definition trace_event_raw_rtc_irq_set_freq :: ctype where
  "trace_event_raw_rtc_irq_set_freq = CStruct ''trace_event_raw_rtc_irq_set_freq'' False [
     (''ent'', trace_entry),
     (''freq'', c_int),
     (''err'', c_int),
     (''__data'', CArray c_char 0)]"

definition trace_event_raw_rtc_irq_set_state :: ctype where
  "trace_event_raw_rtc_irq_set_state = CStruct ''trace_event_raw_rtc_irq_set_state'' False [
     (''ent'', trace_entry),
     (''enabled'', c_int),
     (''err'', c_int),
     (''__data'', CArray c_char 0)]"

definition trace_event_raw_rtc_offset_class :: ctype where
  "trace_event_raw_rtc_offset_class = CStruct ''trace_event_raw_rtc_offset_class'' False [
     (''ent'', trace_entry),
     (''offset'', c_long_int),
     (''err'', c_int),
     (''__data'', CArray c_char 0)]"

definition trace_event_raw_rtc_time_alarm_class :: ctype where
  "trace_event_raw_rtc_time_alarm_class = CStruct ''trace_event_raw_rtc_time_alarm_class'' False [
     (''ent'', trace_entry),
     (''secs'', c_time64_t),
     (''err'', c_int),
     (''__data'', CArray c_char 0)]"

definition trace_event_raw_rtc_timer_class :: ctype where
  "trace_event_raw_rtc_timer_class = CStruct ''trace_event_raw_rtc_timer_class'' False [
     (''ent'', trace_entry),
     (''timer'', CPtr ''struct rtc_timer''),
     (''expires'', c_ktime_t),
     (''period'', c_ktime_t),
     (''__data'', CArray c_char 0)]"

definition trace_events_5 :: "ctype list" where
  "trace_events_5 = [
     trace_event_raw_mm_vmscan_direct_reclaim_end_template,
     trace_event_raw_mm_vmscan_kswapd_clear_hopeless,
     trace_event_raw_mm_vmscan_kswapd_reclaim_fail,
     trace_event_raw_mm_vmscan_kswapd_sleep,
     trace_event_raw_mm_vmscan_kswapd_wake,
     trace_event_raw_mm_vmscan_lru_isolate,
     trace_event_raw_mm_vmscan_lru_shrink_active,
     trace_event_raw_mm_vmscan_lru_shrink_inactive,
     trace_event_raw_mm_vmscan_node_reclaim_begin,
     trace_event_raw_mm_vmscan_reclaim_pages,
     trace_event_raw_mm_vmscan_throttled,
     trace_event_raw_mm_vmscan_wakeup_kswapd,
     trace_event_raw_mm_vmscan_write_folio,
     trace_event_raw_mmap_lock,
     trace_event_raw_mmap_lock_acquire_returned,
     trace_event_raw_mmc_request_done,
     trace_event_raw_mmc_request_start,
     trace_event_raw_module_free,
     trace_event_raw_module_load,
     trace_event_raw_module_refcnt,
     trace_event_raw_module_request,
     trace_event_raw_mon_llc_occupancy_limbo,
     trace_event_raw_mptcp_dump_mpext,
     trace_event_raw_mptcp_rcvbuf_grow,
     trace_event_raw_mptcp_subflow_get_send,
     trace_event_raw_msr_trace_class,
     trace_event_raw_napi_poll,
     trace_event_raw_neigh__update,
     trace_event_raw_neigh_create,
     trace_event_raw_neigh_update,
     trace_event_raw_net_dev_rx_exit_template,
     trace_event_raw_net_dev_rx_verbose_template,
     trace_event_raw_net_dev_start_xmit,
     trace_event_raw_net_dev_template,
     trace_event_raw_net_dev_xmit,
     trace_event_raw_net_dev_xmit_timeout,
     trace_event_raw_netlink_extack,
     trace_event_raw_nmi_handler,
     trace_event_raw_nmi_noise,
     trace_event_raw_non_standard_event,
     trace_event_raw_notifier_info,
     trace_event_raw_oom_score_adj_update,
     trace_event_raw_osnoise_sample,
     trace_event_raw_page_cache_ra_op,
     trace_event_raw_page_cache_ra_order,
     trace_event_raw_page_cache_ra_unbounded,
     trace_event_raw_page_pool_release,
     trace_event_raw_page_pool_state_hold,
     trace_event_raw_page_pool_state_release,
     trace_event_raw_page_pool_update_nid,
     trace_event_raw_pci_hp_event,
     trace_event_raw_pcie_link_event,
     trace_event_raw_percpu_alloc_percpu,
     trace_event_raw_percpu_alloc_percpu_fail,
     trace_event_raw_percpu_create_chunk,
     trace_event_raw_percpu_destroy_chunk,
     trace_event_raw_percpu_free_percpu,
     trace_event_raw_pm_qos_update,
     trace_event_raw_prq_report,
     trace_event_raw_pseudo_lock_l2,
     trace_event_raw_pseudo_lock_l3,
     trace_event_raw_pseudo_lock_mem_latency,
     trace_event_raw_pstate_sample,
     trace_event_raw_purge_vmap_area_lazy,
     trace_event_raw_pwm,
     trace_event_raw_pwm_read_waveform,
     trace_event_raw_pwm_round_waveform_fromhw,
     trace_event_raw_pwm_round_waveform_tohw,
     trace_event_raw_pwm_write_waveform,
     trace_event_raw_qdisc_create,
     trace_event_raw_qdisc_dequeue,
     trace_event_raw_qdisc_destroy,
     trace_event_raw_qdisc_enqueue,
     trace_event_raw_qdisc_reset,
     trace_event_raw_qi_submit,
     trace_event_raw_rcu_stall_warning,
     trace_event_raw_rcu_utilization,
     trace_event_raw_reclaim_retry_zone,
     trace_event_raw_regcache_drop_region,
     trace_event_raw_regcache_sync,
     trace_event_raw_regmap_async,
     trace_event_raw_regmap_block,
     trace_event_raw_regmap_bool,
     trace_event_raw_regmap_bulk,
     trace_event_raw_regmap_reg,
     trace_event_raw_regulator_basic,
     trace_event_raw_regulator_range,
     trace_event_raw_regulator_value,
     trace_event_raw_rpm_internal,
     trace_event_raw_rpm_return_int,
     trace_event_raw_rpm_status,
     trace_event_raw_rseq_ip_fixup,
     trace_event_raw_rseq_update,
     trace_event_raw_rss_stat,
     trace_event_raw_rtc_alarm_irq_enable,
     trace_event_raw_rtc_irq_set_freq,
     trace_event_raw_rtc_irq_set_state,
     trace_event_raw_rtc_offset_class,
     trace_event_raw_rtc_time_alarm_class,
     trace_event_raw_rtc_timer_class]"

lemma trace_events_5_ok: "list_all event_ok trace_events_5"
  by code_simp

lemma length_trace_events_5: "length trace_events_5 = 100"
  by (simp add: trace_events_5_def)

end
