(* ===== verification/VmlinuxTrace6.thy ===== *)
theory VmlinuxTrace6
  imports VmlinuxTypes
begin

text \<open>
  Tracepoint context structures of \<^verbatim>\<open>src/internal/ebpf/vmlinux.h\<close>, lines 149906 to 150926:
  \<^verbatim>\<open>trace_event_raw_rv_retries_error\<close> to
  \<^verbatim>\<open>trace_event_raw_tmigr_connect_cpu_parent\<close>, one definition per structure, members in order.
\<close>

definition trace_event_raw_rv_retries_error :: ctype where
  "trace_event_raw_rv_retries_error = CStruct ''trace_event_raw_rv_retries_error'' False [
     (''ent'', trace_entry),
     (''__data_loc_name'', c_u32),
     (''__data_loc_event'', c_u32),
     (''__data'', CArray c_char 0)]"

definition trace_event_raw_sample_threshold :: ctype where
  "trace_event_raw_sample_threshold = CStruct ''trace_event_raw_sample_threshold'' False [
     (''ent'', trace_entry),
     (''start'', c_u64),
     (''duration'', c_u64),
     (''interference'', c_u64),
     (''__data'', CArray c_char 0)]"

definition trace_event_raw_sched_ext_bypass_lb :: ctype where
  "trace_event_raw_sched_ext_bypass_lb = CStruct ''trace_event_raw_sched_ext_bypass_lb'' False [
     (''ent'', trace_entry),
     (''node'', c___u32),
     (''nr_cpus'', c___u32),
     (''nr_tasks'', c___u32),
     (''nr_balanced'', c___u32),
     (''before_min'', c___u32),
     (''before_max'', c___u32),
     (''after_min'', c___u32),
     (''after_max'', c___u32),
     (''__data'', CArray c_char 0)]"

definition trace_event_raw_sched_ext_dump :: ctype where
  "trace_event_raw_sched_ext_dump = CStruct ''trace_event_raw_sched_ext_dump'' False [
     (''ent'', trace_entry),
     (''__data_loc_line'', c_u32),
     (''__data'', CArray c_char 0)]"

definition trace_event_raw_sched_ext_event :: ctype where
  "trace_event_raw_sched_ext_event = CStruct ''trace_event_raw_sched_ext_event'' False [
     (''ent'', trace_entry),
     (''__data_loc_name'', c_u32),
     (''delta'', c___s64),
     (''__data'', CArray c_char 0)]"

definition trace_event_raw_sched_kthread_stop :: ctype where
  "trace_event_raw_sched_kthread_stop = CStruct ''trace_event_raw_sched_kthread_stop'' False [
     (''ent'', trace_entry),
     (''__data_loc_comm'', c_u32),
     (''pid'', c_pid_t),
     (''__data'', CArray c_char 0)]"

definition trace_event_raw_sched_kthread_stop_ret :: ctype where
  "trace_event_raw_sched_kthread_stop_ret = CStruct ''trace_event_raw_sched_kthread_stop_ret'' False [
     (''ent'', trace_entry),
     (''ret'', c_int),
     (''__data'', CArray c_char 0)]"

definition trace_event_raw_sched_kthread_work_execute_end :: ctype where
  "trace_event_raw_sched_kthread_work_execute_end = CStruct ''trace_event_raw_sched_kthread_work_execute_end'' False [
     (''ent'', trace_entry),
     (''work'', CPtr ''void''),
     (''function'', CPtr ''void''),
     (''__data'', CArray c_char 0)]"

definition trace_event_raw_sched_kthread_work_execute_start :: ctype where
  "trace_event_raw_sched_kthread_work_execute_start = CStruct ''trace_event_raw_sched_kthread_work_execute_start'' False [
     (''ent'', trace_entry),
     (''work'', CPtr ''void''),
     (''function'', CPtr ''void''),
     (''__data'', CArray c_char 0)]"

definition trace_event_raw_sched_kthread_work_queue_work :: ctype where
  "trace_event_raw_sched_kthread_work_queue_work = CStruct ''trace_event_raw_sched_kthread_work_queue_work'' False [
     (''ent'', trace_entry),
     (''work'', CPtr ''void''),
     (''function'', CPtr ''void''),
     (''worker'', CPtr ''void''),
     (''__data'', CArray c_char 0)]"

definition trace_event_raw_sched_migrate_task :: ctype where
  "trace_event_raw_sched_migrate_task = CStruct ''trace_event_raw_sched_migrate_task'' False [
     (''ent'', trace_entry),
     (''__data_loc_comm'', c_u32),
     (''pid'', c_pid_t),
     (''prio'', c_int),
     (''orig_cpu'', c_int),
     (''dest_cpu'', c_int),
     (''__data'', CArray c_char 0)]"

definition trace_event_raw_sched_move_numa :: ctype where
  "trace_event_raw_sched_move_numa = CStruct ''trace_event_raw_sched_move_numa'' False [
     (''ent'', trace_entry),
     (''pid'', c_pid_t),
     (''tgid'', c_pid_t),
     (''ngid'', c_pid_t),
     (''src_cpu'', c_int),
     (''src_nid'', c_int),
     (''dst_cpu'', c_int),
     (''dst_nid'', c_int),
     (''__data'', CArray c_char 0)]"

definition trace_event_raw_sched_numa_pair_template :: ctype where
  "trace_event_raw_sched_numa_pair_template = CStruct ''trace_event_raw_sched_numa_pair_template'' False [
     (''ent'', trace_entry),
     (''src_pid'', c_pid_t),
     (''src_tgid'', c_pid_t),
     (''src_ngid'', c_pid_t),
     (''src_cpu'', c_int),
     (''src_nid'', c_int),
     (''dst_pid'', c_pid_t),
     (''dst_tgid'', c_pid_t),
     (''dst_ngid'', c_pid_t),
     (''dst_cpu'', c_int),
     (''dst_nid'', c_int),
     (''__data'', CArray c_char 0)]"

definition trace_event_raw_sched_pi_setprio :: ctype where
  "trace_event_raw_sched_pi_setprio = CStruct ''trace_event_raw_sched_pi_setprio'' False [
     (''ent'', trace_entry),
     (''__data_loc_comm'', c_u32),
     (''pid'', c_pid_t),
     (''oldprio'', c_int),
     (''newprio'', c_int),
     (''__data'', CArray c_char 0)]"

definition trace_event_raw_sched_prepare_exec :: ctype where
  "trace_event_raw_sched_prepare_exec = CStruct ''trace_event_raw_sched_prepare_exec'' False [
     (''ent'', trace_entry),
     (''__data_loc_interp'', c_u32),
     (''__data_loc_filename'', c_u32),
     (''pid'', c_pid_t),
     (''__data_loc_comm'', c_u32),
     (''__data'', CArray c_char 0)]"

definition trace_event_raw_sched_process_exec :: ctype where
  "trace_event_raw_sched_process_exec = CStruct ''trace_event_raw_sched_process_exec'' False [
     (''ent'', trace_entry),
     (''__data_loc_filename'', c_u32),
     (''pid'', c_pid_t),
     (''old_pid'', c_pid_t),
     (''__data'', CArray c_char 0)]"

definition trace_event_raw_sched_process_exit :: ctype where
  "trace_event_raw_sched_process_exit = CStruct ''trace_event_raw_sched_process_exit'' False [
     (''ent'', trace_entry),
     (''comm'', CArray c_char 16),
     (''pid'', c_pid_t),
     (''prio'', c_int),
     (''group_dead'', c_bool),
     (''__data'', CArray c_char 0)]"

definition trace_event_raw_sched_process_fork :: ctype where
  "trace_event_raw_sched_process_fork = CStruct ''trace_event_raw_sched_process_fork'' False [
     (''ent'', trace_entry),
     (''__data_loc_parent_comm'', c_u32),
     (''parent_pid'', c_pid_t),
     (''__data_loc_child_comm'', c_u32),
     (''child_pid'', c_pid_t),
     (''__data'', CArray c_char 0)]"

definition trace_event_raw_sched_process_hang :: ctype where
  "trace_event_raw_sched_process_hang = CStruct ''trace_event_raw_sched_process_hang'' False [
     (''ent'', trace_entry),
     (''__data_loc_comm'', c_u32),
     (''pid'', c_pid_t),
     (''__data'', CArray c_char 0)]"

definition trace_event_raw_sched_process_template :: ctype where
  "trace_event_raw_sched_process_template = CStruct ''trace_event_raw_sched_process_template'' False [
     (''ent'', trace_entry),
     (''__data_loc_comm'', c_u32),
     (''pid'', c_pid_t),
     (''prio'', c_int),
     (''__data'', CArray c_char 0)]"

definition trace_event_raw_sched_process_wait :: ctype where
  "trace_event_raw_sched_process_wait = CStruct ''trace_event_raw_sched_process_wait'' False [
     (''ent'', trace_entry),
     (''__data_loc_comm'', c_u32),
     (''pid'', c_pid_t),
     (''prio'', c_int),
     (''__data'', CArray c_char 0)]"

definition trace_event_raw_sched_skip_cpuset_numa :: ctype where
  "trace_event_raw_sched_skip_cpuset_numa = CStruct ''trace_event_raw_sched_skip_cpuset_numa'' False [
     (''ent'', trace_entry),
     (''comm'', CArray c_char 16),
     (''pid'', c_pid_t),
     (''tgid'', c_pid_t),
     (''ngid'', c_pid_t),
     (''mem_allowed'', CArray c_long_unsigned_int 16),
     (''__data'', CArray c_char 0)]"

definition trace_event_raw_sched_skip_vma_numa :: ctype where
  "trace_event_raw_sched_skip_vma_numa = CStruct ''trace_event_raw_sched_skip_vma_numa'' False [
     (''ent'', trace_entry),
     (''numa_scan_offset'', c_long_unsigned_int),
     (''vm_start'', c_long_unsigned_int),
     (''vm_end'', c_long_unsigned_int),
     (''reason'', CEnum ''numa_vmaskip_reason''),
     (''__data'', CArray c_char 0)]"

definition trace_event_raw_sched_stat_runtime :: ctype where
  "trace_event_raw_sched_stat_runtime = CStruct ''trace_event_raw_sched_stat_runtime'' False [
     (''ent'', trace_entry),
     (''__data_loc_comm'', c_u32),
     (''pid'', c_pid_t),
     (''runtime'', c_u64),
     (''__data'', CArray c_char 0)]"

definition trace_event_raw_sched_stat_template :: ctype where
  "trace_event_raw_sched_stat_template = CStruct ''trace_event_raw_sched_stat_template'' False [
     (''ent'', trace_entry),
     (''__data_loc_comm'', c_u32),
     (''pid'', c_pid_t),
     (''delay'', c_u64),
     (''__data'', CArray c_char 0)]"

definition trace_event_raw_sched_switch :: ctype where
  "trace_event_raw_sched_switch = CStruct ''trace_event_raw_sched_switch'' False [
     (''ent'', trace_entry),
     (''prev_comm'', CArray c_char 16),
     (''prev_pid'', c_pid_t),
     (''prev_prio'', c_int),
     (''prev_state'', c_long_int),
     (''next_comm'', CArray c_char 16),
     (''next_pid'', c_pid_t),
     (''next_prio'', c_int),
     (''__data'', CArray c_char 0)]"

definition trace_event_raw_sched_wake_idle_without_ipi :: ctype where
  "trace_event_raw_sched_wake_idle_without_ipi = CStruct ''trace_event_raw_sched_wake_idle_without_ipi'' False [
     (''ent'', trace_entry),
     (''cpu'', c_int),
     (''__data'', CArray c_char 0)]"

definition trace_event_raw_sched_wakeup_template :: ctype where
  "trace_event_raw_sched_wakeup_template = CStruct ''trace_event_raw_sched_wakeup_template'' False [
     (''ent'', trace_entry),
     (''comm'', CArray c_char 16),
     (''pid'', c_pid_t),
     (''prio'', c_int),
     (''target_cpu'', c_int),
     (''__data'', CArray c_char 0)]"

definition trace_event_raw_scsi_cmd_done_timeout_template :: ctype where
  "trace_event_raw_scsi_cmd_done_timeout_template = CStruct ''trace_event_raw_scsi_cmd_done_timeout_template'' False [
     (''ent'', trace_entry),
     (''host_no'', c_unsigned_int),
     (''channel'', c_unsigned_int),
     (''id'', c_unsigned_int),
     (''lun'', c_unsigned_int),
     (''result'', c_int),
     (''opcode'', c_unsigned_int),
     (''cmd_len'', c_unsigned_int),
     (''driver_tag'', c_int),
     (''scheduler_tag'', c_int),
     (''data_sglen'', c_unsigned_int),
     (''prot_sglen'', c_unsigned_int),
     (''prot_op'', c_unsigned_char),
     (''__data_loc_cmnd'', c_u32),
     (''sense_key'', c_u8),
     (''asc'', c_u8),
     (''ascq'', c_u8),
     (''__data'', CArray c_char 0)]"

definition trace_event_raw_scsi_dispatch_cmd_error :: ctype where
  "trace_event_raw_scsi_dispatch_cmd_error = CStruct ''trace_event_raw_scsi_dispatch_cmd_error'' False [
     (''ent'', trace_entry),
     (''host_no'', c_unsigned_int),
     (''channel'', c_unsigned_int),
     (''id'', c_unsigned_int),
     (''lun'', c_unsigned_int),
     (''rtn'', c_int),
     (''opcode'', c_unsigned_int),
     (''cmd_len'', c_unsigned_int),
     (''driver_tag'', c_int),
     (''scheduler_tag'', c_int),
     (''data_sglen'', c_unsigned_int),
     (''prot_sglen'', c_unsigned_int),
     (''prot_op'', c_unsigned_char),
     (''__data_loc_cmnd'', c_u32),
     (''__data'', CArray c_char 0)]"

definition trace_event_raw_scsi_dispatch_cmd_start :: ctype where
  "trace_event_raw_scsi_dispatch_cmd_start = CStruct ''trace_event_raw_scsi_dispatch_cmd_start'' False [
     (''ent'', trace_entry),
     (''host_no'', c_unsigned_int),
     (''channel'', c_unsigned_int),
     (''id'', c_unsigned_int),
     (''lun'', c_unsigned_int),
     (''opcode'', c_unsigned_int),
     (''cmd_len'', c_unsigned_int),
     (''driver_tag'', c_int),
     (''scheduler_tag'', c_int),
     (''data_sglen'', c_unsigned_int),
     (''prot_sglen'', c_unsigned_int),
     (''prot_op'', c_unsigned_char),
     (''__data_loc_cmnd'', c_u32),
     (''__data'', CArray c_char 0)]"

definition trace_event_raw_scsi_eh_wakeup :: ctype where
  "trace_event_raw_scsi_eh_wakeup = CStruct ''trace_event_raw_scsi_eh_wakeup'' False [
     (''ent'', trace_entry),
     (''host_no'', c_unsigned_int),
     (''__data'', CArray c_char 0)]"

definition trace_event_raw_scsi_prepare_zone_append :: ctype where
  "trace_event_raw_scsi_prepare_zone_append = CStruct ''trace_event_raw_scsi_prepare_zone_append'' False [
     (''ent'', trace_entry),
     (''host_no'', c_unsigned_int),
     (''channel'', c_unsigned_int),
     (''id'', c_unsigned_int),
     (''lun'', c_unsigned_int),
     (''lba'', c_sector_t),
     (''wp_offset'', c_unsigned_int),
     (''__data'', CArray c_char 0)]"

definition trace_event_raw_scsi_zone_wp_update :: ctype where
  "trace_event_raw_scsi_zone_wp_update = CStruct ''trace_event_raw_scsi_zone_wp_update'' False [
     (''ent'', trace_entry),
     (''host_no'', c_unsigned_int),
     (''channel'', c_unsigned_int),
     (''id'', c_unsigned_int),
     (''lun'', c_unsigned_int),
     (''rq_sector'', c_sector_t),
     (''wp_offset'', c_unsigned_int),
     (''good_bytes'', c_unsigned_int),
     (''__data'', CArray c_char 0)]"

definition trace_event_raw_selinux_audited :: ctype where
  "trace_event_raw_selinux_audited = CStruct ''trace_event_raw_selinux_audited'' False [
     (''ent'', trace_entry),
     (''requested'', c_u32),
     (''denied'', c_u32),
     (''audited'', c_u32),
     (''result'', c_int),
     (''__data_loc_scontext'', c_u32),
     (''__data_loc_tcontext'', c_u32),
     (''__data_loc_tclass'', c_u32),
     (''__data'', CArray c_char 0)]"

definition trace_event_raw_signal_deliver :: ctype where
  "trace_event_raw_signal_deliver = CStruct ''trace_event_raw_signal_deliver'' False [
     (''ent'', trace_entry),
     (''sig'', c_int),
     (''errno'', c_int),
     (''code'', c_int),
     (''sa_handler'', c_long_unsigned_int),
     (''sa_flags'', c_long_unsigned_int),
     (''__data'', CArray c_char 0)]"

definition trace_event_raw_signal_generate :: ctype where
  "trace_event_raw_signal_generate = CStruct ''trace_event_raw_signal_generate'' False [
     (''ent'', trace_entry),
     (''sig'', c_int),
     (''errno'', c_int),
     (''code'', c_int),
     (''comm'', CArray c_char 16),
     (''pid'', c_pid_t),
     (''group'', c_int),
     (''result'', c_int),
     (''__data'', CArray c_char 0)]"

definition trace_event_raw_sk_data_ready :: ctype where
  "trace_event_raw_sk_data_ready = CStruct ''trace_event_raw_sk_data_ready'' False [
     (''ent'', trace_entry),
     (''skaddr'', CPtr ''const void''),
     (''family'', c___u16),
     (''protocol'', c___u16),
     (''ip'', c_long_unsigned_int),
     (''__data'', CArray c_char 0)]"

definition trace_event_raw_skb_copy_datagram_iovec :: ctype where
  "trace_event_raw_skb_copy_datagram_iovec = CStruct ''trace_event_raw_skb_copy_datagram_iovec'' False [
     (''ent'', trace_entry),
     (''skbaddr'', CPtr ''const void''),
     (''len'', c_int),
     (''__data'', CArray c_char 0)]"

definition trace_event_raw_skip_task_reaping :: ctype where
  "trace_event_raw_skip_task_reaping = CStruct ''trace_event_raw_skip_task_reaping'' False [
     (''ent'', trace_entry),
     (''pid'', c_int),
     (''__data'', CArray c_char 0)]"

definition trace_event_raw_smbus_read :: ctype where
  "trace_event_raw_smbus_read = CStruct ''trace_event_raw_smbus_read'' False [
     (''ent'', trace_entry),
     (''adapter_nr'', c_int),
     (''flags'', c___u16),
     (''addr'', c___u16),
     (''command'', c___u8),
     (''protocol'', c___u32),
     (''buf'', CArray c___u8 34),
     (''__data'', CArray c_char 0)]"

definition trace_event_raw_smbus_reply :: ctype where
  "trace_event_raw_smbus_reply = CStruct ''trace_event_raw_smbus_reply'' False [
     (''ent'', trace_entry),
     (''adapter_nr'', c_int),
     (''addr'', c___u16),
     (''flags'', c___u16),
     (''command'', c___u8),
     (''len'', c___u8),
     (''protocol'', c___u32),
     (''buf'', CArray c___u8 34),
     (''__data'', CArray c_char 0)]"

definition trace_event_raw_smbus_result :: ctype where
  "trace_event_raw_smbus_result = CStruct ''trace_event_raw_smbus_result'' False [
     (''ent'', trace_entry),
     (''adapter_nr'', c_int),
     (''addr'', c___u16),
     (''flags'', c___u16),
     (''read_write'', c___u8),
     (''command'', c___u8),
     (''res'', c___s16),
     (''protocol'', c___u32),
     (''__data'', CArray c_char 0)]"

definition trace_event_raw_smbus_write :: ctype where
  "trace_event_raw_smbus_write = CStruct ''trace_event_raw_smbus_write'' False [
     (''ent'', trace_entry),
     (''adapter_nr'', c_int),
     (''addr'', c___u16),
     (''flags'', c___u16),
     (''command'', c___u8),
     (''len'', c___u8),
     (''protocol'', c___u32),
     (''buf'', CArray c___u8 34),
     (''__data'', CArray c_char 0)]"

definition trace_event_raw_sock_exceed_buf_limit :: ctype where
  "trace_event_raw_sock_exceed_buf_limit = CStruct ''trace_event_raw_sock_exceed_buf_limit'' False [
     (''ent'', trace_entry),
     (''name'', CArray c_char 32),
     (''sysctl_mem'', CArray c_long_int 3),
     (''allocated'', c_long_int),
     (''sysctl_rmem'', c_int),
     (''rmem_alloc'', c_int),
     (''sysctl_wmem'', c_int),
     (''wmem_alloc'', c_int),
     (''wmem_queued'', c_int),
     (''kind'', c_int),
     (''__data'', CArray c_char 0)]"

definition trace_event_raw_sock_msg_length :: ctype where
  "trace_event_raw_sock_msg_length = CStruct ''trace_event_raw_sock_msg_length'' False [
     (''ent'', trace_entry),
     (''sk'', CPtr ''void''),
     (''family'', c___u16),
     (''protocol'', c___u16),
     (''ret'', c_int),
     (''flags'', c_int),
     (''__data'', CArray c_char 0)]"

definition trace_event_raw_sock_rcvqueue_full :: ctype where
  "trace_event_raw_sock_rcvqueue_full = CStruct ''trace_event_raw_sock_rcvqueue_full'' False [
     (''ent'', trace_entry),
     (''rmem_alloc'', c_int),
     (''truesize'', c_unsigned_int),
     (''sk_rcvbuf'', c_int),
     (''__data'', CArray c_char 0)]"

definition trace_event_raw_softirq :: ctype where
  "trace_event_raw_softirq = CStruct ''trace_event_raw_softirq'' False [
     (''ent'', trace_entry),
     (''vec'', c_unsigned_int),
     (''__data'', CArray c_char 0)]"

definition trace_event_raw_softirq_noise :: ctype where
  "trace_event_raw_softirq_noise = CStruct ''trace_event_raw_softirq_noise'' False [
     (''ent'', trace_entry),
     (''start'', c_u64),
     (''duration'', c_u64),
     (''vector'', c_int),
     (''__data'', CArray c_char 0)]"

definition trace_event_raw_spi_controller :: ctype where
  "trace_event_raw_spi_controller = CStruct ''trace_event_raw_spi_controller'' False [
     (''ent'', trace_entry),
     (''bus_num'', c_int),
     (''__data'', CArray c_char 0)]"

definition trace_event_raw_spi_mem_start_op :: ctype where
  "trace_event_raw_spi_mem_start_op = CStruct ''trace_event_raw_spi_mem_start_op'' False [
     (''ent'', trace_entry),
     (''__data_loc_name'', c_u32),
     (''__data_loc_op'', c_u32),
     (''__data_loc_data'', c_u32),
     (''data_len'', c_u32),
     (''max_freq'', c_u32),
     (''cmd_buswidth'', c_u8),
     (''cmd_dtr'', c_bool),
     (''addr_buswidth'', c_u8),
     (''addr_dtr'', c_bool),
     (''dummy_nbytes'', c_u8),
     (''data_buswidth'', c_u8),
     (''data_dtr'', c_bool),
     (''__data'', CArray c_char 0)]"

definition trace_event_raw_spi_mem_stop_op :: ctype where
  "trace_event_raw_spi_mem_stop_op = CStruct ''trace_event_raw_spi_mem_stop_op'' False [
     (''ent'', trace_entry),
     (''__data_loc_name'', c_u32),
     (''__data_loc_data'', c_u32),
     (''data_len'', c_u32),
     (''__data'', CArray c_char 0)]"

definition trace_event_raw_spi_message :: ctype where
  "trace_event_raw_spi_message = CStruct ''trace_event_raw_spi_message'' False [
     (''ent'', trace_entry),
     (''bus_num'', c_int),
     (''chip_select'', c_int),
     (''msg'', CPtr ''struct spi_message''),
     (''__data'', CArray c_char 0)]"

definition trace_event_raw_spi_message_done :: ctype where
  "trace_event_raw_spi_message_done = CStruct ''trace_event_raw_spi_message_done'' False [
     (''ent'', trace_entry),
     (''bus_num'', c_int),
     (''chip_select'', c_int),
     (''msg'', CPtr ''struct spi_message''),
     (''frame'', c_unsigned_int),
     (''actual'', c_unsigned_int),
     (''__data'', CArray c_char 0)]"

definition trace_event_raw_spi_set_cs :: ctype where
  "trace_event_raw_spi_set_cs = CStruct ''trace_event_raw_spi_set_cs'' False [
     (''ent'', trace_entry),
     (''bus_num'', c_int),
     (''chip_select'', c_int),
     (''mode'', c_long_unsigned_int),
     (''enable'', c_bool),
     (''__data'', CArray c_char 0)]"

definition trace_event_raw_spi_setup :: ctype where
  "trace_event_raw_spi_setup = CStruct ''trace_event_raw_spi_setup'' False [
     (''ent'', trace_entry),
     (''bus_num'', c_int),
     (''chip_select'', c_int),
     (''mode'', c_long_unsigned_int),
     (''bits_per_word'', c_unsigned_int),
     (''max_speed_hz'', c_unsigned_int),
     (''status'', c_int),
     (''__data'', CArray c_char 0)]"

definition trace_event_raw_spi_transfer :: ctype where
  "trace_event_raw_spi_transfer = CStruct ''trace_event_raw_spi_transfer'' False [
     (''ent'', trace_entry),
     (''bus_num'', c_int),
     (''chip_select'', c_int),
     (''xfer'', CPtr ''struct spi_transfer''),
     (''len'', c_int),
     (''__data_loc_rx_buf'', c_u32),
     (''__data_loc_tx_buf'', c_u32),
     (''__data'', CArray c_char 0)]"

definition trace_event_raw_start_task_reaping :: ctype where
  "trace_event_raw_start_task_reaping = CStruct ''trace_event_raw_start_task_reaping'' False [
     (''ent'', trace_entry),
     (''pid'', c_int),
     (''__data'', CArray c_char 0)]"

definition trace_event_raw_subflow_check_data_avail :: ctype where
  "trace_event_raw_subflow_check_data_avail = CStruct ''trace_event_raw_subflow_check_data_avail'' False [
     (''ent'', trace_entry),
     (''status'', c_u8),
     (''skb'', CPtr ''const void''),
     (''__data'', CArray c_char 0)]"

definition trace_event_raw_suspend_resume :: ctype where
  "trace_event_raw_suspend_resume = CStruct ''trace_event_raw_suspend_resume'' False [
     (''ent'', trace_entry),
     (''action'', CPtr ''const char''),
     (''val'', c_int),
     (''start'', c_bool),
     (''__data'', CArray c_char 0)]"

definition trace_event_raw_swiotlb_bounced :: ctype where
  "trace_event_raw_swiotlb_bounced = CStruct ''trace_event_raw_swiotlb_bounced'' False [
     (''ent'', trace_entry),
     (''__data_loc_dev_name'', c_u32),
     (''dma_mask'', c_u64),
     (''dev_addr'', c_dma_addr_t),
     (''size'', c_size_t),
     (''force'', c_bool),
     (''__data'', CArray c_char 0)]"

definition trace_event_raw_sync_timeline :: ctype where
  "trace_event_raw_sync_timeline = CStruct ''trace_event_raw_sync_timeline'' False [
     (''ent'', trace_entry),
     (''__data_loc_name'', c_u32),
     (''value'', c_u32),
     (''__data'', CArray c_char 0)]"

definition trace_event_raw_sys_enter :: ctype where
  "trace_event_raw_sys_enter = CStruct ''trace_event_raw_sys_enter'' False [
     (''ent'', trace_entry),
     (''id'', c_long_int),
     (''args'', CArray c_long_unsigned_int 6),
     (''__data'', CArray c_char 0)]"

definition trace_event_raw_sys_exit :: ctype where
  "trace_event_raw_sys_exit = CStruct ''trace_event_raw_sys_exit'' False [
     (''ent'', trace_entry),
     (''id'', c_long_int),
     (''ret'', c_long_int),
     (''__data'', CArray c_char 0)]"

definition trace_event_raw_task_newtask :: ctype where
  "trace_event_raw_task_newtask = CStruct ''trace_event_raw_task_newtask'' False [
     (''ent'', trace_entry),
     (''pid'', c_pid_t),
     (''comm'', CArray c_char 16),
     (''clone_flags'', c_u64),
     (''oom_score_adj'', c_short_int),
     (''__data'', CArray c_char 0)]"

definition trace_event_raw_task_prctl_unknown :: ctype where
  "trace_event_raw_task_prctl_unknown = CStruct ''trace_event_raw_task_prctl_unknown'' False [
     (''ent'', trace_entry),
     (''option'', c_int),
     (''arg2'', c_long_unsigned_int),
     (''arg3'', c_long_unsigned_int),
     (''arg4'', c_long_unsigned_int),
     (''arg5'', c_long_unsigned_int),
     (''__data'', CArray c_char 0)]"

definition trace_event_raw_task_rename :: ctype where
  "trace_event_raw_task_rename = CStruct ''trace_event_raw_task_rename'' False [
     (''ent'', trace_entry),
     (''pid'', c_pid_t),
     (''oldcomm'', CArray c_char 16),
     (''newcomm'', CArray c_char 16),
     (''oom_score_adj'', c_short_int),
     (''__data'', CArray c_char 0)]"

definition trace_event_raw_tasklet :: ctype where
  "trace_event_raw_tasklet = CStruct ''trace_event_raw_tasklet'' False [
     (''ent'', trace_entry),
     (''tasklet'', CPtr ''void''),
     (''func'', CPtr ''void''),
     (''__data'', CArray c_char 0)]"

definition trace_event_raw_tcp_ao_event :: ctype where
  "trace_event_raw_tcp_ao_event = CStruct ''trace_event_raw_tcp_ao_event'' False [
     (''ent'', trace_entry),
     (''net_cookie'', c___u64),
     (''skbaddr'', CPtr ''const void''),
     (''skaddr'', CPtr ''const void''),
     (''state'', c_int),
     (''saddr'', CArray c___u8 28),
     (''daddr'', CArray c___u8 28),
     (''l3index'', c_int),
     (''sport'', c___u16),
     (''dport'', c___u16),
     (''family'', c___u16),
     (''fin'', c_bool),
     (''syn'', c_bool),
     (''rst'', c_bool),
     (''psh'', c_bool),
     (''ack'', c_bool),
     (''keyid'', c___u8),
     (''rnext'', c___u8),
     (''maclen'', c___u8),
     (''__data'', CArray c_char 0)]"

definition trace_event_raw_tcp_ao_event_sk :: ctype where
  "trace_event_raw_tcp_ao_event_sk = CStruct ''trace_event_raw_tcp_ao_event_sk'' False [
     (''ent'', trace_entry),
     (''net_cookie'', c___u64),
     (''skaddr'', CPtr ''const void''),
     (''state'', c_int),
     (''saddr'', CArray c___u8 28),
     (''daddr'', CArray c___u8 28),
     (''sport'', c___u16),
     (''dport'', c___u16),
     (''family'', c___u16),
     (''keyid'', c___u8),
     (''rnext'', c___u8),
     (''__data'', CArray c_char 0)]"

definition trace_event_raw_tcp_ao_event_sne :: ctype where
  "trace_event_raw_tcp_ao_event_sne = CStruct ''trace_event_raw_tcp_ao_event_sne'' False [
     (''ent'', trace_entry),
     (''net_cookie'', c___u64),
     (''skaddr'', CPtr ''const void''),
     (''state'', c_int),
     (''saddr'', CArray c___u8 28),
     (''daddr'', CArray c___u8 28),
     (''sport'', c___u16),
     (''dport'', c___u16),
     (''family'', c___u16),
     (''new_sne'', c___u32),
     (''__data'', CArray c_char 0)]"

definition trace_event_raw_tcp_cong_state_set :: ctype where
  "trace_event_raw_tcp_cong_state_set = CStruct ''trace_event_raw_tcp_cong_state_set'' False [
     (''ent'', trace_entry),
     (''skaddr'', CPtr ''const void''),
     (''sport'', c___u16),
     (''dport'', c___u16),
     (''family'', c___u16),
     (''saddr'', CArray c___u8 4),
     (''daddr'', CArray c___u8 4),
     (''saddr_v6'', CArray c___u8 16),
     (''daddr_v6'', CArray c___u8 16),
     (''cong_state'', c___u8),
     (''__data'', CArray c_char 0)]"

definition trace_event_raw_tcp_event_sk :: ctype where
  "trace_event_raw_tcp_event_sk = CStruct ''trace_event_raw_tcp_event_sk'' False [
     (''ent'', trace_entry),
     (''skaddr'', CPtr ''const void''),
     (''sport'', c___u16),
     (''dport'', c___u16),
     (''family'', c___u16),
     (''saddr'', CArray c___u8 4),
     (''daddr'', CArray c___u8 4),
     (''saddr_v6'', CArray c___u8 16),
     (''daddr_v6'', CArray c___u8 16),
     (''sock_cookie'', c___u64),
     (''__data'', CArray c_char 0)]"

definition trace_event_raw_tcp_event_skb :: ctype where
  "trace_event_raw_tcp_event_skb = CStruct ''trace_event_raw_tcp_event_skb'' False [
     (''ent'', trace_entry),
     (''skbaddr'', CPtr ''const void''),
     (''saddr'', CArray c___u8 28),
     (''daddr'', CArray c___u8 28),
     (''__data'', CArray c_char 0)]"

definition trace_event_raw_tcp_hash_event :: ctype where
  "trace_event_raw_tcp_hash_event = CStruct ''trace_event_raw_tcp_hash_event'' False [
     (''ent'', trace_entry),
     (''net_cookie'', c___u64),
     (''skbaddr'', CPtr ''const void''),
     (''skaddr'', CPtr ''const void''),
     (''state'', c_int),
     (''saddr'', CArray c___u8 28),
     (''daddr'', CArray c___u8 28),
     (''l3index'', c_int),
     (''sport'', c___u16),
     (''dport'', c___u16),
     (''family'', c___u16),
     (''fin'', c_bool),
     (''syn'', c_bool),
     (''rst'', c_bool),
     (''psh'', c_bool),
     (''ack'', c_bool),
     (''__data'', CArray c_char 0)]"

definition trace_event_raw_tcp_probe :: ctype where
  "trace_event_raw_tcp_probe = CStruct ''trace_event_raw_tcp_probe'' False [
     (''ent'', trace_entry),
     (''saddr'', CArray c___u8 28),
     (''daddr'', CArray c___u8 28),
     (''sport'', c___u16),
     (''dport'', c___u16),
     (''family'', c___u16),
     (''mark'', c___u32),
     (''data_len'', c___u16),
     (''snd_nxt'', c___u32),
     (''snd_una'', c___u32),
     (''snd_cwnd'', c___u32),
     (''ssthresh'', c___u32),
     (''snd_wnd'', c___u32),
     (''srtt'', c___u32),
     (''rcv_wnd'', c___u32),
     (''sock_cookie'', c___u64),
     (''skbaddr'', CPtr ''const void''),
     (''skaddr'', CPtr ''const void''),
     (''__data'', CArray c_char 0)]"

definition trace_event_raw_tcp_rcvbuf_grow :: ctype where
  "trace_event_raw_tcp_rcvbuf_grow = CStruct ''trace_event_raw_tcp_rcvbuf_grow'' False [
     (''ent'', trace_entry),
     (''time'', c_int),
     (''rtt_us'', c___u32),
     (''copied'', c___u32),
     (''inq'', c___u32),
     (''space'', c___u32),
     (''ooo_space'', c___u32),
     (''rcvbuf'', c___u32),
     (''rcv_ssthresh'', c___u32),
     (''window_clamp'', c___u32),
     (''rcv_wnd'', c___u32),
     (''scaling_ratio'', c___u8),
     (''sport'', c___u16),
     (''dport'', c___u16),
     (''family'', c___u16),
     (''saddr'', CArray c___u8 4),
     (''daddr'', CArray c___u8 4),
     (''saddr_v6'', CArray c___u8 16),
     (''daddr_v6'', CArray c___u8 16),
     (''skaddr'', CPtr ''const void''),
     (''sock_cookie'', c___u64),
     (''__data'', CArray c_char 0)]"

definition trace_event_raw_tcp_retransmit_skb :: ctype where
  "trace_event_raw_tcp_retransmit_skb = CStruct ''trace_event_raw_tcp_retransmit_skb'' False [
     (''ent'', trace_entry),
     (''skbaddr'', CPtr ''const void''),
     (''skaddr'', CPtr ''const void''),
     (''state'', c_int),
     (''sport'', c___u16),
     (''dport'', c___u16),
     (''family'', c___u16),
     (''saddr'', CArray c___u8 4),
     (''daddr'', CArray c___u8 4),
     (''saddr_v6'', CArray c___u8 16),
     (''daddr_v6'', CArray c___u8 16),
     (''err'', c_int),
     (''__data'', CArray c_char 0)]"

definition trace_event_raw_tcp_retransmit_synack :: ctype where
  "trace_event_raw_tcp_retransmit_synack = CStruct ''trace_event_raw_tcp_retransmit_synack'' False [
     (''ent'', trace_entry),
     (''skaddr'', CPtr ''const void''),
     (''req'', CPtr ''const void''),
     (''sport'', c___u16),
     (''dport'', c___u16),
     (''family'', c___u16),
     (''saddr'', CArray c___u8 4),
     (''daddr'', CArray c___u8 4),
     (''saddr_v6'', CArray c___u8 16),
     (''daddr_v6'', CArray c___u8 16),
     (''__data'', CArray c_char 0)]"

definition trace_event_raw_tcp_send_reset :: ctype where
  "trace_event_raw_tcp_send_reset = CStruct ''trace_event_raw_tcp_send_reset'' False [
     (''ent'', trace_entry),
     (''skbaddr'', CPtr ''const void''),
     (''skaddr'', CPtr ''const void''),
     (''state'', c_int),
     (''reason'', CEnum ''sk_rst_reason''),
     (''saddr'', CArray c___u8 28),
     (''daddr'', CArray c___u8 28),
     (''__data'', CArray c_char 0)]"

definition trace_event_raw_tcp_sendmsg_locked :: ctype where
  "trace_event_raw_tcp_sendmsg_locked = CStruct ''trace_event_raw_tcp_sendmsg_locked'' False [
     (''ent'', trace_entry),
     (''skb_addr'', CPtr ''const void''),
     (''skb_len'', c_int),
     (''msg_left'', c_int),
     (''size_goal'', c_int),
     (''__data'', CArray c_char 0)]"

definition trace_event_raw_test_pages_isolated :: ctype where
  "trace_event_raw_test_pages_isolated = CStruct ''trace_event_raw_test_pages_isolated'' False [
     (''ent'', trace_entry),
     (''start_pfn'', c_long_unsigned_int),
     (''end_pfn'', c_long_unsigned_int),
     (''fin_pfn'', c_long_unsigned_int),
     (''__data'', CArray c_char 0)]"

definition trace_event_raw_thermal_power_actor :: ctype where
  "trace_event_raw_thermal_power_actor = CStruct ''trace_event_raw_thermal_power_actor'' False [
     (''ent'', trace_entry),
     (''tz_id'', c_int),
     (''actor_id'', c_int),
     (''req_power'', c_u32),
     (''granted_power'', c_u32),
     (''__data'', CArray c_char 0)]"

definition trace_event_raw_thermal_power_allocator :: ctype where
  "trace_event_raw_thermal_power_allocator = CStruct ''trace_event_raw_thermal_power_allocator'' False [
     (''ent'', trace_entry),
     (''tz_id'', c_int),
     (''total_req_power'', c_u32),
     (''total_granted_power'', c_u32),
     (''num_actors'', c_size_t),
     (''power_range'', c_u32),
     (''max_allocatable_power'', c_u32),
     (''current_temp'', c_int),
     (''delta_temp'', c_s32),
     (''__data'', CArray c_char 0)]"

definition trace_event_raw_thermal_power_allocator_pid :: ctype where
  "trace_event_raw_thermal_power_allocator_pid = CStruct ''trace_event_raw_thermal_power_allocator_pid'' False [
     (''ent'', trace_entry),
     (''tz_id'', c_int),
     (''err'', c_s32),
     (''err_integral'', c_s32),
     (''p'', c_s64),
     (''i'', c_s64),
     (''d'', c_s64),
     (''output'', c_s32),
     (''__data'', CArray c_char 0)]"

definition trace_event_raw_thermal_power_devfreq_get_power :: ctype where
  "trace_event_raw_thermal_power_devfreq_get_power = CStruct ''trace_event_raw_thermal_power_devfreq_get_power'' False [
     (''ent'', trace_entry),
     (''__data_loc_type'', c_u32),
     (''freq'', c_long_unsigned_int),
     (''busy_time'', c_u32),
     (''total_time'', c_u32),
     (''power'', c_u32),
     (''__data'', CArray c_char 0)]"

definition trace_event_raw_thermal_power_devfreq_limit :: ctype where
  "trace_event_raw_thermal_power_devfreq_limit = CStruct ''trace_event_raw_thermal_power_devfreq_limit'' False [
     (''ent'', trace_entry),
     (''__data_loc_type'', c_u32),
     (''freq'', c_unsigned_int),
     (''cdev_state'', c_long_unsigned_int),
     (''power'', c_u32),
     (''__data'', CArray c_char 0)]"

definition trace_event_raw_thermal_temperature :: ctype where
  "trace_event_raw_thermal_temperature = CStruct ''trace_event_raw_thermal_temperature'' False [
     (''ent'', trace_entry),
     (''__data_loc_thermal_zone'', c_u32),
     (''id'', c_int),
     (''temp_prev'', c_int),
     (''temp'', c_int),
     (''__data'', CArray c_char 0)]"

definition trace_event_raw_thermal_zone_trip :: ctype where
  "trace_event_raw_thermal_zone_trip = CStruct ''trace_event_raw_thermal_zone_trip'' False [
     (''ent'', trace_entry),
     (''__data_loc_thermal_zone'', c_u32),
     (''id'', c_int),
     (''trip'', c_int),
     (''trip_type'', CEnum ''thermal_trip_type''),
     (''__data'', CArray c_char 0)]"

definition trace_event_raw_thread_noise :: ctype where
  "trace_event_raw_thread_noise = CStruct ''trace_event_raw_thread_noise'' False [
     (''ent'', trace_entry),
     (''comm'', CArray c_char 16),
     (''start'', c_u64),
     (''duration'', c_u64),
     (''pid'', c_pid_t),
     (''__data'', CArray c_char 0)]"

definition trace_event_raw_tick_stop :: ctype where
  "trace_event_raw_tick_stop = CStruct ''trace_event_raw_tick_stop'' False [
     (''ent'', trace_entry),
     (''success'', c_int),
     (''dependency'', c_int),
     (''__data'', CArray c_char 0)]"

definition trace_event_raw_timer_base_idle :: ctype where
  "trace_event_raw_timer_base_idle = CStruct ''trace_event_raw_timer_base_idle'' False [
     (''ent'', trace_entry),
     (''is_idle'', c_bool),
     (''cpu'', c_unsigned_int),
     (''__data'', CArray c_char 0)]"

definition trace_event_raw_timer_class :: ctype where
  "trace_event_raw_timer_class = CStruct ''trace_event_raw_timer_class'' False [
     (''ent'', trace_entry),
     (''timer'', CPtr ''void''),
     (''__data'', CArray c_char 0)]"

definition trace_event_raw_timer_expire_entry :: ctype where
  "trace_event_raw_timer_expire_entry = CStruct ''trace_event_raw_timer_expire_entry'' False [
     (''ent'', trace_entry),
     (''timer'', CPtr ''void''),
     (''now'', c_long_unsigned_int),
     (''function'', CPtr ''void''),
     (''baseclk'', c_long_unsigned_int),
     (''__data'', CArray c_char 0)]"

definition trace_event_raw_timer_start :: ctype where
  "trace_event_raw_timer_start = CStruct ''trace_event_raw_timer_start'' False [
     (''ent'', trace_entry),
     (''timer'', CPtr ''void''),
     (''function'', CPtr ''void''),
     (''expires'', c_long_unsigned_int),
     (''bucket_expiry'', c_long_unsigned_int),
     (''now'', c_long_unsigned_int),
     (''flags'', c_unsigned_int),
     (''__data'', CArray c_char 0)]"

definition trace_event_raw_timerlat_sample :: ctype where
  "trace_event_raw_timerlat_sample = CStruct ''trace_event_raw_timerlat_sample'' False [
     (''ent'', trace_entry),
     (''timer_latency'', c_u64),
     (''seqnum'', c_unsigned_int),
     (''context'', c_int),
     (''__data'', CArray c_char 0)]"

definition trace_event_raw_tlb_flush :: ctype where
  "trace_event_raw_tlb_flush = CStruct ''trace_event_raw_tlb_flush'' False [
     (''ent'', trace_entry),
     (''reason'', c_int),
     (''pages'', c_long_unsigned_int),
     (''__data'', CArray c_char 0)]"

definition trace_event_raw_tls_contenttype :: ctype where
  "trace_event_raw_tls_contenttype = CStruct ''trace_event_raw_tls_contenttype'' False [
     (''ent'', trace_entry),
     (''saddr'', CArray c___u8 28),
     (''daddr'', CArray c___u8 28),
     (''netns_ino'', c_unsigned_int),
     (''type'', c_long_unsigned_int),
     (''__data'', CArray c_char 0)]"

definition trace_event_raw_tmigr_connect_child_parent :: ctype where
  "trace_event_raw_tmigr_connect_child_parent = CStruct ''trace_event_raw_tmigr_connect_child_parent'' False [
     (''ent'', trace_entry),
     (''child'', CPtr ''void''),
     (''parent'', CPtr ''void''),
     (''lvl'', c_unsigned_int),
     (''numa_node'', c_unsigned_int),
     (''num_children'', c_unsigned_int),
     (''groupmask'', c_u32),
     (''__data'', CArray c_char 0)]"

definition trace_event_raw_tmigr_connect_cpu_parent :: ctype where
  "trace_event_raw_tmigr_connect_cpu_parent = CStruct ''trace_event_raw_tmigr_connect_cpu_parent'' False [
     (''ent'', trace_entry),
     (''parent'', CPtr ''void''),
     (''cpu'', c_unsigned_int),
     (''lvl'', c_unsigned_int),
     (''numa_node'', c_unsigned_int),
     (''num_children'', c_unsigned_int),
     (''groupmask'', c_u32),
     (''__data'', CArray c_char 0)]"

definition trace_events_6 :: "ctype list" where
  "trace_events_6 = [
     trace_event_raw_rv_retries_error,
     trace_event_raw_sample_threshold,
     trace_event_raw_sched_ext_bypass_lb,
     trace_event_raw_sched_ext_dump,
     trace_event_raw_sched_ext_event,
     trace_event_raw_sched_kthread_stop,
     trace_event_raw_sched_kthread_stop_ret,
     trace_event_raw_sched_kthread_work_execute_end,
     trace_event_raw_sched_kthread_work_execute_start,
     trace_event_raw_sched_kthread_work_queue_work,
     trace_event_raw_sched_migrate_task,
     trace_event_raw_sched_move_numa,
     trace_event_raw_sched_numa_pair_template,
     trace_event_raw_sched_pi_setprio,
     trace_event_raw_sched_prepare_exec,
     trace_event_raw_sched_process_exec,
     trace_event_raw_sched_process_exit,
     trace_event_raw_sched_process_fork,
     trace_event_raw_sched_process_hang,
     trace_event_raw_sched_process_template,
     trace_event_raw_sched_process_wait,
     trace_event_raw_sched_skip_cpuset_numa,
     trace_event_raw_sched_skip_vma_numa,
     trace_event_raw_sched_stat_runtime,
     trace_event_raw_sched_stat_template,
     trace_event_raw_sched_switch,
     trace_event_raw_sched_wake_idle_without_ipi,
     trace_event_raw_sched_wakeup_template,
     trace_event_raw_scsi_cmd_done_timeout_template,
     trace_event_raw_scsi_dispatch_cmd_error,
     trace_event_raw_scsi_dispatch_cmd_start,
     trace_event_raw_scsi_eh_wakeup,
     trace_event_raw_scsi_prepare_zone_append,
     trace_event_raw_scsi_zone_wp_update,
     trace_event_raw_selinux_audited,
     trace_event_raw_signal_deliver,
     trace_event_raw_signal_generate,
     trace_event_raw_sk_data_ready,
     trace_event_raw_skb_copy_datagram_iovec,
     trace_event_raw_skip_task_reaping,
     trace_event_raw_smbus_read,
     trace_event_raw_smbus_reply,
     trace_event_raw_smbus_result,
     trace_event_raw_smbus_write,
     trace_event_raw_sock_exceed_buf_limit,
     trace_event_raw_sock_msg_length,
     trace_event_raw_sock_rcvqueue_full,
     trace_event_raw_softirq,
     trace_event_raw_softirq_noise,
     trace_event_raw_spi_controller,
     trace_event_raw_spi_mem_start_op,
     trace_event_raw_spi_mem_stop_op,
     trace_event_raw_spi_message,
     trace_event_raw_spi_message_done,
     trace_event_raw_spi_set_cs,
     trace_event_raw_spi_setup,
     trace_event_raw_spi_transfer,
     trace_event_raw_start_task_reaping,
     trace_event_raw_subflow_check_data_avail,
     trace_event_raw_suspend_resume,
     trace_event_raw_swiotlb_bounced,
     trace_event_raw_sync_timeline,
     trace_event_raw_sys_enter,
     trace_event_raw_sys_exit,
     trace_event_raw_task_newtask,
     trace_event_raw_task_prctl_unknown,
     trace_event_raw_task_rename,
     trace_event_raw_tasklet,
     trace_event_raw_tcp_ao_event,
     trace_event_raw_tcp_ao_event_sk,
     trace_event_raw_tcp_ao_event_sne,
     trace_event_raw_tcp_cong_state_set,
     trace_event_raw_tcp_event_sk,
     trace_event_raw_tcp_event_skb,
     trace_event_raw_tcp_hash_event,
     trace_event_raw_tcp_probe,
     trace_event_raw_tcp_rcvbuf_grow,
     trace_event_raw_tcp_retransmit_skb,
     trace_event_raw_tcp_retransmit_synack,
     trace_event_raw_tcp_send_reset,
     trace_event_raw_tcp_sendmsg_locked,
     trace_event_raw_test_pages_isolated,
     trace_event_raw_thermal_power_actor,
     trace_event_raw_thermal_power_allocator,
     trace_event_raw_thermal_power_allocator_pid,
     trace_event_raw_thermal_power_devfreq_get_power,
     trace_event_raw_thermal_power_devfreq_limit,
     trace_event_raw_thermal_temperature,
     trace_event_raw_thermal_zone_trip,
     trace_event_raw_thread_noise,
     trace_event_raw_tick_stop,
     trace_event_raw_timer_base_idle,
     trace_event_raw_timer_class,
     trace_event_raw_timer_expire_entry,
     trace_event_raw_timer_start,
     trace_event_raw_timerlat_sample,
     trace_event_raw_tlb_flush,
     trace_event_raw_tls_contenttype,
     trace_event_raw_tmigr_connect_child_parent,
     trace_event_raw_tmigr_connect_cpu_parent]"

lemma trace_events_6_ok: "list_all event_ok trace_events_6"
  by code_simp

lemma length_trace_events_6: "length trace_events_6 = 100"
  by (simp add: trace_events_6_def)

end
