(* ===== verification/VmlinuxTrace7.thy ===== *)
theory VmlinuxTrace7
  imports VmlinuxTypes
begin

text \<open>
  Tracepoint context structures of \<^verbatim>\<open>src/internal/ebpf/vmlinux.h\<close>, lines 150928 to 151751:
  \<^verbatim>\<open>trace_event_raw_tmigr_cpugroup\<close> to
  \<^verbatim>\<open>trace_event_raw_xhci_log_virt_dev\<close>, one definition per structure, members in order.
\<close>

definition trace_event_raw_tmigr_cpugroup :: ctype where
  "trace_event_raw_tmigr_cpugroup = CStruct ''trace_event_raw_tmigr_cpugroup'' False [
     (''ent'', trace_entry),
     (''wakeup'', c_u64),
     (''parent'', CPtr ''void''),
     (''cpu'', c_unsigned_int),
     (''__data'', CArray c_char 0)]"

definition trace_event_raw_tmigr_group_and_cpu :: ctype where
  "trace_event_raw_tmigr_group_and_cpu = CStruct ''trace_event_raw_tmigr_group_and_cpu'' False [
     (''ent'', trace_entry),
     (''group'', CPtr ''void''),
     (''parent'', CPtr ''void''),
     (''lvl'', c_unsigned_int),
     (''numa_node'', c_unsigned_int),
     (''childmask'', c_u32),
     (''active'', c_u8),
     (''migrator'', c_u8),
     (''__data'', CArray c_char 0)]"

definition trace_event_raw_tmigr_group_set :: ctype where
  "trace_event_raw_tmigr_group_set = CStruct ''trace_event_raw_tmigr_group_set'' False [
     (''ent'', trace_entry),
     (''group'', CPtr ''void''),
     (''lvl'', c_unsigned_int),
     (''numa_node'', c_unsigned_int),
     (''__data'', CArray c_char 0)]"

definition trace_event_raw_tmigr_handle_remote :: ctype where
  "trace_event_raw_tmigr_handle_remote = CStruct ''trace_event_raw_tmigr_handle_remote'' False [
     (''ent'', trace_entry),
     (''group'', CPtr ''void''),
     (''lvl'', c_unsigned_int),
     (''__data'', CArray c_char 0)]"

definition trace_event_raw_tmigr_idle :: ctype where
  "trace_event_raw_tmigr_idle = CStruct ''trace_event_raw_tmigr_idle'' False [
     (''ent'', trace_entry),
     (''nextevt'', c_u64),
     (''wakeup'', c_u64),
     (''parent'', CPtr ''void''),
     (''cpu'', c_unsigned_int),
     (''__data'', CArray c_char 0)]"

definition trace_event_raw_tmigr_update_events :: ctype where
  "trace_event_raw_tmigr_update_events = CStruct ''trace_event_raw_tmigr_update_events'' False [
     (''ent'', trace_entry),
     (''child'', CPtr ''void''),
     (''group'', CPtr ''void''),
     (''nextevt'', c_u64),
     (''group_next_expiry'', c_u64),
     (''child_evt_expiry'', c_u64),
     (''group_lvl'', c_unsigned_int),
     (''child_evtcpu'', c_unsigned_int),
     (''child_active'', c_u8),
     (''group_active'', c_u8),
     (''__data'', CArray c_char 0)]"

definition trace_event_raw_track_foreign_dirty :: ctype where
  "trace_event_raw_track_foreign_dirty = CStruct ''trace_event_raw_track_foreign_dirty'' False [
     (''ent'', trace_entry),
     (''name'', CArray c_char 32),
     (''bdi_id'', c_u64),
     (''ino'', c_ino_t),
     (''memcg_id'', c_unsigned_int),
     (''cgroup_ino'', c_ino_t),
     (''page_cgroup_ino'', c_ino_t),
     (''__data'', CArray c_char 0)]"

definition trace_event_raw_tsm_mr_read :: ctype where
  "trace_event_raw_tsm_mr_read = CStruct ''trace_event_raw_tsm_mr_read'' False [
     (''ent'', trace_entry),
     (''__data_loc_mr'', c_u32),
     (''__data_loc_hash'', c_u32),
     (''__data_loc_d'', c_u32),
     (''__data'', CArray c_char 0)]"

definition trace_event_raw_tsm_mr_refresh :: ctype where
  "trace_event_raw_tsm_mr_refresh = CStruct ''trace_event_raw_tsm_mr_refresh'' False [
     (''ent'', trace_entry),
     (''__data_loc_mr'', c_u32),
     (''rc'', c_int),
     (''__data'', CArray c_char 0)]"

definition trace_event_raw_tsm_mr_write :: ctype where
  "trace_event_raw_tsm_mr_write = CStruct ''trace_event_raw_tsm_mr_write'' False [
     (''ent'', trace_entry),
     (''__data_loc_mr'', c_u32),
     (''__data_loc_hash'', c_u32),
     (''__data_loc_d'', c_u32),
     (''__data'', CArray c_char 0)]"

definition trace_event_raw_udp_fail_queue_rcv_skb :: ctype where
  "trace_event_raw_udp_fail_queue_rcv_skb = CStruct ''trace_event_raw_udp_fail_queue_rcv_skb'' False [
     (''ent'', trace_entry),
     (''rc'', c_int),
     (''sport'', c___u16),
     (''dport'', c___u16),
     (''family'', c___u16),
     (''saddr'', CArray c___u8 28),
     (''daddr'', CArray c___u8 28),
     (''__data'', CArray c_char 0)]"

definition trace_event_raw_unmap :: ctype where
  "trace_event_raw_unmap = CStruct ''trace_event_raw_unmap'' False [
     (''ent'', trace_entry),
     (''iova'', c_u64),
     (''size'', c_size_t),
     (''unmapped_size'', c_size_t),
     (''__data'', CArray c_char 0)]"

definition trace_event_raw_usb_core_log_usb_device :: ctype where
  "trace_event_raw_usb_core_log_usb_device = CStruct ''trace_event_raw_usb_core_log_usb_device'' False [
     (''ent'', trace_entry),
     (''__data_loc_name'', c_u32),
     (''speed'', CEnum ''usb_device_speed''),
     (''state'', CEnum ''usb_device_state''),
     (''bus_mA'', c_short_unsigned_int),
     (''authorized'', c_unsigned_int),
     (''__data'', CArray c_char 0)]"

definition trace_event_raw_vector_activate :: ctype where
  "trace_event_raw_vector_activate = CStruct ''trace_event_raw_vector_activate'' False [
     (''ent'', trace_entry),
     (''irq'', c_unsigned_int),
     (''is_managed'', c_bool),
     (''can_reserve'', c_bool),
     (''reserve'', c_bool),
     (''__data'', CArray c_char 0)]"

definition trace_event_raw_vector_alloc :: ctype where
  "trace_event_raw_vector_alloc = CStruct ''trace_event_raw_vector_alloc'' False [
     (''ent'', trace_entry),
     (''irq'', c_unsigned_int),
     (''vector'', c_unsigned_int),
     (''reserved'', c_bool),
     (''ret'', c_int),
     (''__data'', CArray c_char 0)]"

definition trace_event_raw_vector_alloc_managed :: ctype where
  "trace_event_raw_vector_alloc_managed = CStruct ''trace_event_raw_vector_alloc_managed'' False [
     (''ent'', trace_entry),
     (''irq'', c_unsigned_int),
     (''vector'', c_unsigned_int),
     (''ret'', c_int),
     (''__data'', CArray c_char 0)]"

definition trace_event_raw_vector_config :: ctype where
  "trace_event_raw_vector_config = CStruct ''trace_event_raw_vector_config'' False [
     (''ent'', trace_entry),
     (''irq'', c_unsigned_int),
     (''vector'', c_unsigned_int),
     (''cpu'', c_unsigned_int),
     (''apicdest'', c_unsigned_int),
     (''__data'', CArray c_char 0)]"

definition trace_event_raw_vector_free_moved :: ctype where
  "trace_event_raw_vector_free_moved = CStruct ''trace_event_raw_vector_free_moved'' False [
     (''ent'', trace_entry),
     (''irq'', c_unsigned_int),
     (''cpu'', c_unsigned_int),
     (''vector'', c_unsigned_int),
     (''is_managed'', c_bool),
     (''__data'', CArray c_char 0)]"

definition trace_event_raw_vector_mod :: ctype where
  "trace_event_raw_vector_mod = CStruct ''trace_event_raw_vector_mod'' False [
     (''ent'', trace_entry),
     (''irq'', c_unsigned_int),
     (''vector'', c_unsigned_int),
     (''cpu'', c_unsigned_int),
     (''prev_vector'', c_unsigned_int),
     (''prev_cpu'', c_unsigned_int),
     (''__data'', CArray c_char 0)]"

definition trace_event_raw_vector_reserve :: ctype where
  "trace_event_raw_vector_reserve = CStruct ''trace_event_raw_vector_reserve'' False [
     (''ent'', trace_entry),
     (''irq'', c_unsigned_int),
     (''ret'', c_int),
     (''__data'', CArray c_char 0)]"

definition trace_event_raw_vector_setup :: ctype where
  "trace_event_raw_vector_setup = CStruct ''trace_event_raw_vector_setup'' False [
     (''ent'', trace_entry),
     (''irq'', c_unsigned_int),
     (''is_legacy'', c_bool),
     (''ret'', c_int),
     (''__data'', CArray c_char 0)]"

definition trace_event_raw_vector_teardown :: ctype where
  "trace_event_raw_vector_teardown = CStruct ''trace_event_raw_vector_teardown'' False [
     (''ent'', trace_entry),
     (''irq'', c_unsigned_int),
     (''is_managed'', c_bool),
     (''has_reserved'', c_bool),
     (''__data'', CArray c_char 0)]"

definition trace_event_raw_vm_unmapped_area :: ctype where
  "trace_event_raw_vm_unmapped_area = CStruct ''trace_event_raw_vm_unmapped_area'' False [
     (''ent'', trace_entry),
     (''addr'', c_long_unsigned_int),
     (''total_vm'', c_long_unsigned_int),
     (''flags'', c_long_unsigned_int),
     (''length'', c_long_unsigned_int),
     (''low_limit'', c_long_unsigned_int),
     (''high_limit'', c_long_unsigned_int),
     (''align_mask'', c_long_unsigned_int),
     (''align_offset'', c_long_unsigned_int),
     (''__data'', CArray c_char 0)]"

definition trace_event_raw_wake_reaper :: ctype where
  "trace_event_raw_wake_reaper = CStruct ''trace_event_raw_wake_reaper'' False [
     (''ent'', trace_entry),
     (''pid'', c_int),
     (''__data'', CArray c_char 0)]"

definition trace_event_raw_wakeup_source :: ctype where
  "trace_event_raw_wakeup_source = CStruct ''trace_event_raw_wakeup_source'' False [
     (''ent'', trace_entry),
     (''__data_loc_name'', c_u32),
     (''state'', c_u64),
     (''__data'', CArray c_char 0)]"

definition trace_event_raw_watchdog_set_timeout :: ctype where
  "trace_event_raw_watchdog_set_timeout = CStruct ''trace_event_raw_watchdog_set_timeout'' False [
     (''ent'', trace_entry),
     (''id'', c_int),
     (''timeout'', c_unsigned_int),
     (''err'', c_int),
     (''__data'', CArray c_char 0)]"

definition trace_event_raw_watchdog_template :: ctype where
  "trace_event_raw_watchdog_template = CStruct ''trace_event_raw_watchdog_template'' False [
     (''ent'', trace_entry),
     (''id'', c_int),
     (''err'', c_int),
     (''__data'', CArray c_char 0)]"

definition trace_event_raw_wbc_class :: ctype where
  "trace_event_raw_wbc_class = CStruct ''trace_event_raw_wbc_class'' False [
     (''ent'', trace_entry),
     (''name'', CArray c_char 32),
     (''nr_to_write'', c_long_int),
     (''pages_skipped'', c_long_int),
     (''sync_mode'', c_int),
     (''for_kupdate'', c_int),
     (''for_background'', c_int),
     (''range_cyclic'', c_int),
     (''range_start'', c_long_int),
     (''range_end'', c_long_int),
     (''cgroup_ino'', c_ino_t),
     (''__data'', CArray c_char 0)]"

definition trace_event_raw_wbt_lat :: ctype where
  "trace_event_raw_wbt_lat = CStruct ''trace_event_raw_wbt_lat'' False [
     (''ent'', trace_entry),
     (''name'', CArray c_char 32),
     (''lat'', c_long_unsigned_int),
     (''__data'', CArray c_char 0)]"

definition trace_event_raw_wbt_stat :: ctype where
  "trace_event_raw_wbt_stat = CStruct ''trace_event_raw_wbt_stat'' False [
     (''ent'', trace_entry),
     (''name'', CArray c_char 32),
     (''rmean'', c_s64),
     (''rmin'', c_u64),
     (''rmax'', c_u64),
     (''rnr_samples'', c_s64),
     (''rtime'', c_s64),
     (''wmean'', c_s64),
     (''wmin'', c_u64),
     (''wmax'', c_u64),
     (''wnr_samples'', c_s64),
     (''wtime'', c_s64),
     (''__data'', CArray c_char 0)]"

definition trace_event_raw_wbt_step :: ctype where
  "trace_event_raw_wbt_step = CStruct ''trace_event_raw_wbt_step'' False [
     (''ent'', trace_entry),
     (''name'', CArray c_char 32),
     (''msg'', CPtr ''const char''),
     (''step'', c_int),
     (''window'', c_long_unsigned_int),
     (''bg'', c_unsigned_int),
     (''normal'', c_unsigned_int),
     (''max'', c_unsigned_int),
     (''__data'', CArray c_char 0)]"

definition trace_event_raw_wbt_timer :: ctype where
  "trace_event_raw_wbt_timer = CStruct ''trace_event_raw_wbt_timer'' False [
     (''ent'', trace_entry),
     (''name'', CArray c_char 32),
     (''status'', c_unsigned_int),
     (''step'', c_int),
     (''inflight'', c_unsigned_int),
     (''__data'', CArray c_char 0)]"

definition trace_event_raw_workqueue_activate_work :: ctype where
  "trace_event_raw_workqueue_activate_work = CStruct ''trace_event_raw_workqueue_activate_work'' False [
     (''ent'', trace_entry),
     (''work'', CPtr ''void''),
     (''function'', CPtr ''void''),
     (''__data'', CArray c_char 0)]"

definition trace_event_raw_workqueue_execute_end :: ctype where
  "trace_event_raw_workqueue_execute_end = CStruct ''trace_event_raw_workqueue_execute_end'' False [
     (''ent'', trace_entry),
     (''work'', CPtr ''void''),
     (''function'', CPtr ''void''),
     (''__data'', CArray c_char 0)]"

definition trace_event_raw_workqueue_execute_start :: ctype where
  "trace_event_raw_workqueue_execute_start = CStruct ''trace_event_raw_workqueue_execute_start'' False [
     (''ent'', trace_entry),
     (''work'', CPtr ''void''),
     (''function'', CPtr ''void''),
     (''__data'', CArray c_char 0)]"

definition trace_event_raw_workqueue_queue_work :: ctype where
  "trace_event_raw_workqueue_queue_work = CStruct ''trace_event_raw_workqueue_queue_work'' False [
     (''ent'', trace_entry),
     (''work'', CPtr ''void''),
     (''function'', CPtr ''void''),
     (''__data_loc_workqueue'', c_u32),
     (''req_cpu'', c_int),
     (''cpu'', c_int),
     (''__data'', CArray c_char 0)]"

definition trace_event_raw_writeback_bdi_register :: ctype where
  "trace_event_raw_writeback_bdi_register = CStruct ''trace_event_raw_writeback_bdi_register'' False [
     (''ent'', trace_entry),
     (''name'', CArray c_char 32),
     (''__data'', CArray c_char 0)]"

definition trace_event_raw_writeback_class :: ctype where
  "trace_event_raw_writeback_class = CStruct ''trace_event_raw_writeback_class'' False [
     (''ent'', trace_entry),
     (''name'', CArray c_char 32),
     (''cgroup_ino'', c_ino_t),
     (''__data'', CArray c_char 0)]"

definition trace_event_raw_writeback_dirty_inode_template :: ctype where
  "trace_event_raw_writeback_dirty_inode_template = CStruct ''trace_event_raw_writeback_dirty_inode_template'' False [
     (''ent'', trace_entry),
     (''name'', CArray c_char 32),
     (''ino'', c_ino_t),
     (''state'', c_long_unsigned_int),
     (''flags'', c_long_unsigned_int),
     (''__data'', CArray c_char 0)]"

definition trace_event_raw_writeback_folio_template :: ctype where
  "trace_event_raw_writeback_folio_template = CStruct ''trace_event_raw_writeback_folio_template'' False [
     (''ent'', trace_entry),
     (''name'', CArray c_char 32),
     (''ino'', c_ino_t),
     (''index'', c_long_unsigned_int),
     (''__data'', CArray c_char 0)]"

definition trace_event_raw_writeback_inode_template :: ctype where
  "trace_event_raw_writeback_inode_template = CStruct ''trace_event_raw_writeback_inode_template'' False [
     (''ent'', trace_entry),
     (''dev'', c_dev_t),
     (''ino'', c_ino_t),
     (''state'', c_long_unsigned_int),
     (''mode'', c___u16),
     (''dirtied_when'', c_long_unsigned_int),
     (''__data'', CArray c_char 0)]"

definition trace_event_raw_writeback_pages_written :: ctype where
  "trace_event_raw_writeback_pages_written = CStruct ''trace_event_raw_writeback_pages_written'' False [
     (''ent'', trace_entry),
     (''pages'', c_long_int),
     (''__data'', CArray c_char 0)]"

definition trace_event_raw_writeback_queue_io :: ctype where
  "trace_event_raw_writeback_queue_io = CStruct ''trace_event_raw_writeback_queue_io'' False [
     (''ent'', trace_entry),
     (''name'', CArray c_char 32),
     (''older'', c_long_unsigned_int),
     (''age'', c_long_int),
     (''moved'', c_int),
     (''reason'', c_int),
     (''cgroup_ino'', c_ino_t),
     (''__data'', CArray c_char 0)]"

definition trace_event_raw_writeback_sb_inodes_requeue :: ctype where
  "trace_event_raw_writeback_sb_inodes_requeue = CStruct ''trace_event_raw_writeback_sb_inodes_requeue'' False [
     (''ent'', trace_entry),
     (''name'', CArray c_char 32),
     (''ino'', c_ino_t),
     (''state'', c_long_unsigned_int),
     (''dirtied_when'', c_long_unsigned_int),
     (''cgroup_ino'', c_ino_t),
     (''__data'', CArray c_char 0)]"

definition trace_event_raw_writeback_single_inode_template :: ctype where
  "trace_event_raw_writeback_single_inode_template = CStruct ''trace_event_raw_writeback_single_inode_template'' False [
     (''ent'', trace_entry),
     (''name'', CArray c_char 32),
     (''ino'', c_ino_t),
     (''state'', c_long_unsigned_int),
     (''dirtied_when'', c_long_unsigned_int),
     (''writeback_index'', c_long_unsigned_int),
     (''nr_to_write'', c_long_int),
     (''wrote'', c_long_unsigned_int),
     (''cgroup_ino'', c_ino_t),
     (''__data'', CArray c_char 0)]"

definition trace_event_raw_writeback_work_class :: ctype where
  "trace_event_raw_writeback_work_class = CStruct ''trace_event_raw_writeback_work_class'' False [
     (''ent'', trace_entry),
     (''name'', CArray c_char 32),
     (''nr_pages'', c_long_int),
     (''sb_dev'', c_dev_t),
     (''sync_mode'', c_int),
     (''for_kupdate'', c_int),
     (''range_cyclic'', c_int),
     (''for_background'', c_int),
     (''reason'', c_int),
     (''cgroup_ino'', c_ino_t),
     (''__data'', CArray c_char 0)]"

definition trace_event_raw_writeback_write_inode_template :: ctype where
  "trace_event_raw_writeback_write_inode_template = CStruct ''trace_event_raw_writeback_write_inode_template'' False [
     (''ent'', trace_entry),
     (''name'', CArray c_char 32),
     (''ino'', c_ino_t),
     (''sync_mode'', c_int),
     (''cgroup_ino'', c_ino_t),
     (''__data'', CArray c_char 0)]"

definition trace_event_raw_x86_fpu :: ctype where
  "trace_event_raw_x86_fpu = CStruct ''trace_event_raw_x86_fpu'' False [
     (''ent'', trace_entry),
     (''fpu'', CPtr ''struct fpu''),
     (''load_fpu'', c_bool),
     (''xfeatures'', c_u64),
     (''xcomp_bv'', c_u64),
     (''__data'', CArray c_char 0)]"

definition trace_event_raw_x86_irq_vector :: ctype where
  "trace_event_raw_x86_irq_vector = CStruct ''trace_event_raw_x86_irq_vector'' False [
     (''ent'', trace_entry),
     (''vector'', c_int),
     (''__data'', CArray c_char 0)]"

definition trace_event_raw_xdp_bulk_tx :: ctype where
  "trace_event_raw_xdp_bulk_tx = CStruct ''trace_event_raw_xdp_bulk_tx'' False [
     (''ent'', trace_entry),
     (''ifindex'', c_int),
     (''act'', c_u32),
     (''drops'', c_int),
     (''sent'', c_int),
     (''err'', c_int),
     (''__data'', CArray c_char 0)]"

definition trace_event_raw_xdp_cpumap_enqueue :: ctype where
  "trace_event_raw_xdp_cpumap_enqueue = CStruct ''trace_event_raw_xdp_cpumap_enqueue'' False [
     (''ent'', trace_entry),
     (''map_id'', c_int),
     (''act'', c_u32),
     (''cpu'', c_int),
     (''drops'', c_unsigned_int),
     (''processed'', c_unsigned_int),
     (''to_cpu'', c_int),
     (''__data'', CArray c_char 0)]"

definition trace_event_raw_xdp_cpumap_kthread :: ctype where
  "trace_event_raw_xdp_cpumap_kthread = CStruct ''trace_event_raw_xdp_cpumap_kthread'' False [
     (''ent'', trace_entry),
     (''map_id'', c_int),
     (''act'', c_u32),
     (''cpu'', c_int),
     (''drops'', c_unsigned_int),
     (''processed'', c_unsigned_int),
     (''sched'', c_int),
     (''xdp_pass'', c_unsigned_int),
     (''xdp_drop'', c_unsigned_int),
     (''xdp_redirect'', c_unsigned_int),
     (''__data'', CArray c_char 0)]"

definition trace_event_raw_xdp_devmap_xmit :: ctype where
  "trace_event_raw_xdp_devmap_xmit = CStruct ''trace_event_raw_xdp_devmap_xmit'' False [
     (''ent'', trace_entry),
     (''from_ifindex'', c_int),
     (''act'', c_u32),
     (''to_ifindex'', c_int),
     (''drops'', c_int),
     (''sent'', c_int),
     (''err'', c_int),
     (''__data'', CArray c_char 0)]"

definition trace_event_raw_xdp_exception :: ctype where
  "trace_event_raw_xdp_exception = CStruct ''trace_event_raw_xdp_exception'' False [
     (''ent'', trace_entry),
     (''prog_id'', c_int),
     (''act'', c_u32),
     (''ifindex'', c_int),
     (''__data'', CArray c_char 0)]"

definition trace_event_raw_xdp_redirect_template :: ctype where
  "trace_event_raw_xdp_redirect_template = CStruct ''trace_event_raw_xdp_redirect_template'' False [
     (''ent'', trace_entry),
     (''prog_id'', c_int),
     (''act'', c_u32),
     (''ifindex'', c_int),
     (''err'', c_int),
     (''to_ifindex'', c_int),
     (''map_id'', c_u32),
     (''map_index'', c_int),
     (''__data'', CArray c_char 0)]"

definition trace_event_raw_xen_cpu_load_idt :: ctype where
  "trace_event_raw_xen_cpu_load_idt = CStruct ''trace_event_raw_xen_cpu_load_idt'' False [
     (''ent'', trace_entry),
     (''addr'', c_long_unsigned_int),
     (''__data'', CArray c_char 0)]"

definition trace_event_raw_xen_cpu_set_ldt :: ctype where
  "trace_event_raw_xen_cpu_set_ldt = CStruct ''trace_event_raw_xen_cpu_set_ldt'' False [
     (''ent'', trace_entry),
     (''addr'', CPtr ''const void''),
     (''entries'', c_unsigned_int),
     (''__data'', CArray c_char 0)]"

definition trace_event_raw_xen_cpu_write_gdt_entry :: ctype where
  "trace_event_raw_xen_cpu_write_gdt_entry = CStruct ''trace_event_raw_xen_cpu_write_gdt_entry'' False [
     (''ent'', trace_entry),
     (''desc'', c_u64),
     (''dt'', CPtr ''struct desc_struct''),
     (''entrynum'', c_int),
     (''type'', c_int),
     (''__data'', CArray c_char 0)]"

definition trace_event_raw_xen_cpu_write_idt_entry :: ctype where
  "trace_event_raw_xen_cpu_write_idt_entry = CStruct ''trace_event_raw_xen_cpu_write_idt_entry'' False [
     (''ent'', trace_entry),
     (''dt'', CPtr ''gate_desc''),
     (''entrynum'', c_int),
     (''__data'', CArray c_char 0)]"

definition trace_event_raw_xen_cpu_write_ldt_entry :: ctype where
  "trace_event_raw_xen_cpu_write_ldt_entry = CStruct ''trace_event_raw_xen_cpu_write_ldt_entry'' False [
     (''ent'', trace_entry),
     (''dt'', CPtr ''struct desc_struct''),
     (''entrynum'', c_int),
     (''desc'', c_u64),
     (''__data'', CArray c_char 0)]"

definition trace_event_raw_xen_mc__batch :: ctype where
  "trace_event_raw_xen_mc__batch = CStruct ''trace_event_raw_xen_mc__batch'' False [
     (''ent'', trace_entry),
     (''mode'', CEnum ''xen_lazy_mode''),
     (''__data'', CArray c_char 0)]"

definition trace_event_raw_xen_mc_callback :: ctype where
  "trace_event_raw_xen_mc_callback = CStruct ''trace_event_raw_xen_mc_callback'' False [
     (''ent'', trace_entry),
     (''fn'', c_xen_mc_callback_fn_t),
     (''data'', CPtr ''void''),
     (''__data'', CArray c_char 0)]"

definition trace_event_raw_xen_mc_entry :: ctype where
  "trace_event_raw_xen_mc_entry = CStruct ''trace_event_raw_xen_mc_entry'' False [
     (''ent'', trace_entry),
     (''op'', c_unsigned_int),
     (''nargs'', c_unsigned_int),
     (''args'', CArray c_long_unsigned_int 6),
     (''__data'', CArray c_char 0)]"

definition trace_event_raw_xen_mc_entry_alloc :: ctype where
  "trace_event_raw_xen_mc_entry_alloc = CStruct ''trace_event_raw_xen_mc_entry_alloc'' False [
     (''ent'', trace_entry),
     (''args'', c_size_t),
     (''__data'', CArray c_char 0)]"

definition trace_event_raw_xen_mc_extend_args :: ctype where
  "trace_event_raw_xen_mc_extend_args = CStruct ''trace_event_raw_xen_mc_extend_args'' False [
     (''ent'', trace_entry),
     (''op'', c_unsigned_int),
     (''args'', c_size_t),
     (''res'', CEnum ''xen_mc_extend_args''),
     (''__data'', CArray c_char 0)]"

definition trace_event_raw_xen_mc_flush :: ctype where
  "trace_event_raw_xen_mc_flush = CStruct ''trace_event_raw_xen_mc_flush'' False [
     (''ent'', trace_entry),
     (''mcidx'', c_unsigned_int),
     (''argidx'', c_unsigned_int),
     (''cbidx'', c_unsigned_int),
     (''__data'', CArray c_char 0)]"

definition trace_event_raw_xen_mc_flush_reason :: ctype where
  "trace_event_raw_xen_mc_flush_reason = CStruct ''trace_event_raw_xen_mc_flush_reason'' False [
     (''ent'', trace_entry),
     (''reason'', CEnum ''xen_mc_flush_reason''),
     (''__data'', CArray c_char 0)]"

definition trace_event_raw_xen_mmu__set_pte :: ctype where
  "trace_event_raw_xen_mmu__set_pte = CStruct ''trace_event_raw_xen_mmu__set_pte'' False [
     (''ent'', trace_entry),
     (''ptep'', CPtr ''pte_t''),
     (''pteval'', c_pteval_t),
     (''__data'', CArray c_char 0)]"

definition trace_event_raw_xen_mmu_alloc_ptpage :: ctype where
  "trace_event_raw_xen_mmu_alloc_ptpage = CStruct ''trace_event_raw_xen_mmu_alloc_ptpage'' False [
     (''ent'', trace_entry),
     (''mm'', CPtr ''struct mm_struct''),
     (''pfn'', c_long_unsigned_int),
     (''level'', c_unsigned_int),
     (''pinned'', c_bool),
     (''__data'', CArray c_char 0)]"

definition trace_event_raw_xen_mmu_flush_tlb_multi :: ctype where
  "trace_event_raw_xen_mmu_flush_tlb_multi = CStruct ''trace_event_raw_xen_mmu_flush_tlb_multi'' False [
     (''ent'', trace_entry),
     (''ncpus'', c_unsigned_int),
     (''mm'', CPtr ''struct mm_struct''),
     (''addr'', c_long_unsigned_int),
     (''end'', c_long_unsigned_int),
     (''__data'', CArray c_char 0)]"

definition trace_event_raw_xen_mmu_flush_tlb_one_user :: ctype where
  "trace_event_raw_xen_mmu_flush_tlb_one_user = CStruct ''trace_event_raw_xen_mmu_flush_tlb_one_user'' False [
     (''ent'', trace_entry),
     (''addr'', c_long_unsigned_int),
     (''__data'', CArray c_char 0)]"

definition trace_event_raw_xen_mmu_pgd :: ctype where
  "trace_event_raw_xen_mmu_pgd = CStruct ''trace_event_raw_xen_mmu_pgd'' False [
     (''ent'', trace_entry),
     (''mm'', CPtr ''struct mm_struct''),
     (''pgd'', CPtr ''pgd_t''),
     (''__data'', CArray c_char 0)]"

definition trace_event_raw_xen_mmu_ptep_modify_prot :: ctype where
  "trace_event_raw_xen_mmu_ptep_modify_prot = CStruct ''trace_event_raw_xen_mmu_ptep_modify_prot'' False [
     (''ent'', trace_entry),
     (''mm'', CPtr ''struct mm_struct''),
     (''addr'', c_long_unsigned_int),
     (''ptep'', CPtr ''pte_t''),
     (''pteval'', c_pteval_t),
     (''__data'', CArray c_char 0)]"

definition trace_event_raw_xen_mmu_release_ptpage :: ctype where
  "trace_event_raw_xen_mmu_release_ptpage = CStruct ''trace_event_raw_xen_mmu_release_ptpage'' False [
     (''ent'', trace_entry),
     (''pfn'', c_long_unsigned_int),
     (''level'', c_unsigned_int),
     (''pinned'', c_bool),
     (''__data'', CArray c_char 0)]"

definition trace_event_raw_xen_mmu_set_p4d :: ctype where
  "trace_event_raw_xen_mmu_set_p4d = CStruct ''trace_event_raw_xen_mmu_set_p4d'' False [
     (''ent'', trace_entry),
     (''p4dp'', CPtr ''p4d_t''),
     (''user_p4dp'', CPtr ''p4d_t''),
     (''p4dval'', c_p4dval_t),
     (''__data'', CArray c_char 0)]"

definition trace_event_raw_xen_mmu_set_pmd :: ctype where
  "trace_event_raw_xen_mmu_set_pmd = CStruct ''trace_event_raw_xen_mmu_set_pmd'' False [
     (''ent'', trace_entry),
     (''pmdp'', CPtr ''pmd_t''),
     (''pmdval'', c_pmdval_t),
     (''__data'', CArray c_char 0)]"

definition trace_event_raw_xen_mmu_set_pud :: ctype where
  "trace_event_raw_xen_mmu_set_pud = CStruct ''trace_event_raw_xen_mmu_set_pud'' False [
     (''ent'', trace_entry),
     (''pudp'', CPtr ''pud_t''),
     (''pudval'', c_pudval_t),
     (''__data'', CArray c_char 0)]"

definition trace_event_raw_xen_mmu_write_cr3 :: ctype where
  "trace_event_raw_xen_mmu_write_cr3 = CStruct ''trace_event_raw_xen_mmu_write_cr3'' False [
     (''ent'', trace_entry),
     (''kernel'', c_bool),
     (''cr3'', c_long_unsigned_int),
     (''__data'', CArray c_char 0)]"

definition trace_event_raw_xhci_dbc_log_request :: ctype where
  "trace_event_raw_xhci_dbc_log_request = CStruct ''trace_event_raw_xhci_dbc_log_request'' False [
     (''ent'', trace_entry),
     (''req'', CPtr ''struct dbc_request''),
     (''dir'', c_bool),
     (''actual'', c_unsigned_int),
     (''length'', c_unsigned_int),
     (''status'', c_int),
     (''__data'', CArray c_char 0)]"

definition trace_event_raw_xhci_log_ctrl_ctx :: ctype where
  "trace_event_raw_xhci_log_ctrl_ctx = CStruct ''trace_event_raw_xhci_log_ctrl_ctx'' False [
     (''ent'', trace_entry),
     (''drop'', c_u32),
     (''add'', c_u32),
     (''__data'', CArray c_char 0)]"

definition trace_event_raw_xhci_log_ctx :: ctype where
  "trace_event_raw_xhci_log_ctx = CStruct ''trace_event_raw_xhci_log_ctx'' False [
     (''ent'', trace_entry),
     (''ctx_64'', c_int),
     (''ctx_type'', c_unsigned_int),
     (''ctx_dma'', c_dma_addr_t),
     (''ctx_va'', CPtr ''u8''),
     (''__data'', CArray c_char 0)]"

definition trace_event_raw_xhci_log_doorbell :: ctype where
  "trace_event_raw_xhci_log_doorbell = CStruct ''trace_event_raw_xhci_log_doorbell'' False [
     (''ent'', trace_entry),
     (''slot'', c_u32),
     (''doorbell'', c_u32),
     (''__data'', CArray c_char 0)]"

definition trace_event_raw_xhci_log_ep_ctx :: ctype where
  "trace_event_raw_xhci_log_ep_ctx = CStruct ''trace_event_raw_xhci_log_ep_ctx'' False [
     (''ent'', trace_entry),
     (''info'', c_u32),
     (''info2'', c_u32),
     (''deq'', c_u64),
     (''tx_info'', c_u32),
     (''__data'', CArray c_char 0)]"

definition trace_event_raw_xhci_log_free_virt_dev :: ctype where
  "trace_event_raw_xhci_log_free_virt_dev = CStruct ''trace_event_raw_xhci_log_free_virt_dev'' False [
     (''ent'', trace_entry),
     (''vdev'', CPtr ''void''),
     (''out_ctx'', c_long_long_unsigned_int),
     (''in_ctx'', c_long_long_unsigned_int),
     (''slot_id'', c_int),
     (''current_mel'', c_u16),
     (''__data'', CArray c_char 0)]"

definition trace_event_raw_xhci_log_msg :: ctype where
  "trace_event_raw_xhci_log_msg = CStruct ''trace_event_raw_xhci_log_msg'' False [
     (''ent'', trace_entry),
     (''__data_loc_msg'', c_u32),
     (''__data'', CArray c_char 0)]"

definition trace_event_raw_xhci_log_portsc :: ctype where
  "trace_event_raw_xhci_log_portsc = CStruct ''trace_event_raw_xhci_log_portsc'' False [
     (''ent'', trace_entry),
     (''busnum'', c_u32),
     (''portnum'', c_u32),
     (''portsc'', c_u32),
     (''__data'', CArray c_char 0)]"

definition trace_event_raw_xhci_log_ring :: ctype where
  "trace_event_raw_xhci_log_ring = CStruct ''trace_event_raw_xhci_log_ring'' False [
     (''ent'', trace_entry),
     (''type'', c_u32),
     (''ring'', CPtr ''void''),
     (''enq'', c_dma_addr_t),
     (''deq'', c_dma_addr_t),
     (''num_segs'', c_unsigned_int),
     (''stream_id'', c_unsigned_int),
     (''cycle_state'', c_unsigned_int),
     (''bounce_buf_len'', c_unsigned_int),
     (''__data'', CArray c_char 0)]"

definition trace_event_raw_xhci_log_slot_ctx :: ctype where
  "trace_event_raw_xhci_log_slot_ctx = CStruct ''trace_event_raw_xhci_log_slot_ctx'' False [
     (''ent'', trace_entry),
     (''info'', c_u32),
     (''info2'', c_u32),
     (''tt_info'', c_u32),
     (''state'', c_u32),
     (''__data'', CArray c_char 0)]"

definition trace_event_raw_xhci_log_stream_ctx :: ctype where
  "trace_event_raw_xhci_log_stream_ctx = CStruct ''trace_event_raw_xhci_log_stream_ctx'' False [
     (''ent'', trace_entry),
     (''stream_id'', c_unsigned_int),
     (''stream_ring'', c_u64),
     (''ctx_array_dma'', c_dma_addr_t),
     (''__data'', CArray c_char 0)]"

definition trace_event_raw_xhci_log_trb :: ctype where
  "trace_event_raw_xhci_log_trb = CStruct ''trace_event_raw_xhci_log_trb'' False [
     (''ent'', trace_entry),
     (''dma'', c_dma_addr_t),
     (''type'', c_u32),
     (''field0'', c_u32),
     (''field1'', c_u32),
     (''field2'', c_u32),
     (''field3'', c_u32),
     (''__data'', CArray c_char 0)]"

definition trace_event_raw_xhci_log_urb :: ctype where
  "trace_event_raw_xhci_log_urb = CStruct ''trace_event_raw_xhci_log_urb'' False [
     (''ent'', trace_entry),
     (''__data_loc_devname'', c_u32),
     (''urb'', CPtr ''void''),
     (''pipe'', c_unsigned_int),
     (''stream'', c_unsigned_int),
     (''status'', c_int),
     (''flags'', c_unsigned_int),
     (''num_mapped_sgs'', c_int),
     (''num_sgs'', c_int),
     (''length'', c_int),
     (''actual'', c_int),
     (''epnum'', c_int),
     (''dir_in'', c_int),
     (''type'', c_int),
     (''slot_id'', c_int),
     (''__data'', CArray c_char 0)]"

definition trace_event_raw_xhci_log_virt_dev :: ctype where
  "trace_event_raw_xhci_log_virt_dev = CStruct ''trace_event_raw_xhci_log_virt_dev'' False [
     (''ent'', trace_entry),
     (''vdev'', CPtr ''void''),
     (''out_ctx'', c_long_long_unsigned_int),
     (''in_ctx'', c_long_long_unsigned_int),
     (''devnum'', c_int),
     (''state'', c_int),
     (''speed'', c_int),
     (''portnum'', c_u8),
     (''level'', c_u8),
     (''slot_id'', c_int),
     (''__data'', CArray c_char 0)]"

definition trace_events_7 :: "ctype list" where
  "trace_events_7 = [
     trace_event_raw_tmigr_cpugroup,
     trace_event_raw_tmigr_group_and_cpu,
     trace_event_raw_tmigr_group_set,
     trace_event_raw_tmigr_handle_remote,
     trace_event_raw_tmigr_idle,
     trace_event_raw_tmigr_update_events,
     trace_event_raw_track_foreign_dirty,
     trace_event_raw_tsm_mr_read,
     trace_event_raw_tsm_mr_refresh,
     trace_event_raw_tsm_mr_write,
     trace_event_raw_udp_fail_queue_rcv_skb,
     trace_event_raw_unmap,
     trace_event_raw_usb_core_log_usb_device,
     trace_event_raw_vector_activate,
     trace_event_raw_vector_alloc,
     trace_event_raw_vector_alloc_managed,
     trace_event_raw_vector_config,
     trace_event_raw_vector_free_moved,
     trace_event_raw_vector_mod,
     trace_event_raw_vector_reserve,
     trace_event_raw_vector_setup,
     trace_event_raw_vector_teardown,
     trace_event_raw_vm_unmapped_area,
     trace_event_raw_wake_reaper,
     trace_event_raw_wakeup_source,
     trace_event_raw_watchdog_set_timeout,
     trace_event_raw_watchdog_template,
     trace_event_raw_wbc_class,
     trace_event_raw_wbt_lat,
     trace_event_raw_wbt_stat,
     trace_event_raw_wbt_step,
     trace_event_raw_wbt_timer,
     trace_event_raw_workqueue_activate_work,
     trace_event_raw_workqueue_execute_end,
     trace_event_raw_workqueue_execute_start,
     trace_event_raw_workqueue_queue_work,
     trace_event_raw_writeback_bdi_register,
     trace_event_raw_writeback_class,
     trace_event_raw_writeback_dirty_inode_template,
     trace_event_raw_writeback_folio_template,
     trace_event_raw_writeback_inode_template,
     trace_event_raw_writeback_pages_written,
     trace_event_raw_writeback_queue_io,
     trace_event_raw_writeback_sb_inodes_requeue,
     trace_event_raw_writeback_single_inode_template,
     trace_event_raw_writeback_work_class,
     trace_event_raw_writeback_write_inode_template,
     trace_event_raw_x86_fpu,
     trace_event_raw_x86_irq_vector,
     trace_event_raw_xdp_bulk_tx,
     trace_event_raw_xdp_cpumap_enqueue,
     trace_event_raw_xdp_cpumap_kthread,
     trace_event_raw_xdp_devmap_xmit,
     trace_event_raw_xdp_exception,
     trace_event_raw_xdp_redirect_template,
     trace_event_raw_xen_cpu_load_idt,
     trace_event_raw_xen_cpu_set_ldt,
     trace_event_raw_xen_cpu_write_gdt_entry,
     trace_event_raw_xen_cpu_write_idt_entry,
     trace_event_raw_xen_cpu_write_ldt_entry,
     trace_event_raw_xen_mc__batch,
     trace_event_raw_xen_mc_callback,
     trace_event_raw_xen_mc_entry,
     trace_event_raw_xen_mc_entry_alloc,
     trace_event_raw_xen_mc_extend_args,
     trace_event_raw_xen_mc_flush,
     trace_event_raw_xen_mc_flush_reason,
     trace_event_raw_xen_mmu__set_pte,
     trace_event_raw_xen_mmu_alloc_ptpage,
     trace_event_raw_xen_mmu_flush_tlb_multi,
     trace_event_raw_xen_mmu_flush_tlb_one_user,
     trace_event_raw_xen_mmu_pgd,
     trace_event_raw_xen_mmu_ptep_modify_prot,
     trace_event_raw_xen_mmu_release_ptpage,
     trace_event_raw_xen_mmu_set_p4d,
     trace_event_raw_xen_mmu_set_pmd,
     trace_event_raw_xen_mmu_set_pud,
     trace_event_raw_xen_mmu_write_cr3,
     trace_event_raw_xhci_dbc_log_request,
     trace_event_raw_xhci_log_ctrl_ctx,
     trace_event_raw_xhci_log_ctx,
     trace_event_raw_xhci_log_doorbell,
     trace_event_raw_xhci_log_ep_ctx,
     trace_event_raw_xhci_log_free_virt_dev,
     trace_event_raw_xhci_log_msg,
     trace_event_raw_xhci_log_portsc,
     trace_event_raw_xhci_log_ring,
     trace_event_raw_xhci_log_slot_ctx,
     trace_event_raw_xhci_log_stream_ctx,
     trace_event_raw_xhci_log_trb,
     trace_event_raw_xhci_log_urb,
     trace_event_raw_xhci_log_virt_dev]"

lemma trace_events_7_ok: "list_all event_ok trace_events_7"
  by code_simp

lemma length_trace_events_7: "length trace_events_7 = 92"
  by (simp add: trace_events_7_def)

end
