(* ===== verification/VmlinuxEvents.thy ===== *)
theory VmlinuxEvents
  imports VmlinuxTrace1 VmlinuxTrace2 VmlinuxTrace3 VmlinuxTrace4 VmlinuxTrace5
    VmlinuxTrace6 VmlinuxTrace7 LatencyMonitor
begin

text \<open>
  All the tracepoint context structures of \<open>src/internal/ebpf/vmlinux.h\<close> together, and the
  two that the handlers of \<open>src/internal/ebpf/block_latency.c\<close> are called with: where their
  \<open>dev\<close> and \<open>sector\<close> members lie, what the loads \<open>ctx->dev\<close> and \<open>ctx->sector\<close> read from the
  raw context on little- and big-endian targets, and the handlers on raw contexts.
\<close>

section \<open>The catalogue of contexts\<close>

definition tracepoint_contexts :: "ctype list" where
  "tracepoint_contexts =
     trace_events_1 @ trace_events_2 @ trace_events_3 @ trace_events_4 @ trace_events_5 @
     trace_events_6 @ trace_events_7"

lemma tracepoint_contexts_ok: "list_all event_ok tracepoint_contexts"
  by (simp add: tracepoint_contexts_def trace_events_1_ok trace_events_2_ok trace_events_3_ok
      trace_events_4_ok trace_events_5_ok trace_events_6_ok trace_events_7_ok)

text \<open>
  A structure is laid out soundly when its members are in order without overlap, each
  member is aligned for its type and ends inside the structure, and the size is a multiple
  of the alignment of the structure.
\<close>

definition sound_layout :: "ctype \<Rightarrow> bool" where
  "sound_layout T \<longleftrightarrow>
     sorted_wrt (\<lambda>(f, o1, t1) (g, o2, t2). o1 + size_of t1 \<le> o2) (offsets T) \<and>
     list_all (\<lambda>(f, off, t). align_of t dvd off \<and> off + size_of t \<le> size_of T) (offsets T) \<and>
     align_of T dvd size_of T"

lemma wf_sound_layout:
  assumes "wf_ctype (CStruct nm False fs)"
  shows "sound_layout (CStruct nm False fs)"
proof -
  have "align_of t dvd off \<and> off + size_of t \<le> size_of (CStruct nm False fs)"
    if "(f, off, t) \<in> set (offsets (CStruct nm False fs))" for f off t
    using that place_aligned [of f off t False 0 fs] struct_members_inside [OF assms that]
    by (simp add: member_align_def)
  moreover have "sorted_wrt (\<lambda>(f, o1, t1) (g, o2, t2). o1 + size_of t1 \<le> o2)
      (offsets (CStruct nm False fs))"
    using assms place_sorted by simp
  ultimately show ?thesis
    unfolding sound_layout_def list_all_iff using size_of_struct_multiple by blast
qed

lemma event_ok_sound: "event_ok T \<Longrightarrow> sound_layout T"
  by (cases T) (auto simp: event_ok_def simp del: wf_ctype.simps intro: wf_sound_layout)

section \<open>The contexts of the two handlers\<close>

lemma block_rq_dev_offset:
  "map_of (offsets trace_event_raw_block_rq) ''dev'' = Some (8, CInt 4 False)"
  "map_of (offsets trace_event_raw_block_rq_completion) ''dev'' = Some (8, CInt 4 False)"
  by code_simp+

lemma block_rq_sector_offset:
  "map_of (offsets trace_event_raw_block_rq) ''sector'' = Some (16, CInt 8 False)"
  "map_of (offsets trace_event_raw_block_rq_completion) ''sector'' = Some (16, CInt 8 False)"
  by code_simp+

lemmas block_rq_offsets = block_rq_dev_offset block_rq_sector_offset

definition trace_rq_issue_raw ::
  "('h, 'a) bpf_helpers \<Rightarrow> endian \<Rightarrow> u64 \<Rightarrow> mem \<Rightarrow> ('h, 'a) bpf_maps \<Rightarrow>
     (int \<times> ('h, 'a) bpf_maps) option" where
  "trace_rq_issue_raw H e ktime ctx s =
     map_option (\<lambda>c. trace_rq_issue H ktime c s) (ctx_decode e trace_event_raw_block_rq ctx)"

definition trace_rq_complete_raw ::
  "('h, 'a) bpf_helpers \<Rightarrow> endian \<Rightarrow> u64 \<Rightarrow> mem \<Rightarrow> ('h, 'a) bpf_maps \<Rightarrow>
     (int \<times> ('h, 'a) bpf_maps) option" where
  "trace_rq_complete_raw H e ktime ctx s =
     map_option (\<lambda>c. trace_rq_complete H ktime c s)
       (ctx_decode e trace_event_raw_block_rq_completion ctx)"

lemma ctx_decode_eq:
  "ctx_decode e trace_event_raw_block_rq m = ctx_decode e trace_event_raw_block_rq_completion m"
  by (simp add: ctx_decode_def read_member_def block_rq_offsets)

text \<open>The kernel side: filling in the two members of a context.\<close>

definition ctx_encode :: "endian \<Rightarrow> ctype \<Rightarrow> rq_ctx \<Rightarrow> mem \<Rightarrow> mem" where
  "ctx_encode e T c m =
     write_member e T ''sector'' (unat (sector c)) (write_member e T ''dev'' (unat (dev c)) m)"

text \<open>
  The two members survive in every well-formed structure that has them, wherever the layout
  puts them.
\<close>

lemma ctx_members_at:
  assumes wf: "wf_ctype (CStruct nm p fs)"
    and fs: "(''dev'', CInt 4 False) \<in> set fs" "(''sector'', CInt 8 False) \<in> set fs"
  shows "\<exists>od os. map_of (offsets (CStruct nm p fs)) ''dev'' = Some (od, CInt 4 False) \<and>
    map_of (offsets (CStruct nm p fs)) ''sector'' = Some (os, CInt 8 False) \<and>
    (od + 4 \<le> os \<or> os + 8 \<le> od) \<and>
    od + 4 \<le> size_of (CStruct nm p fs) \<and> os + 8 \<le> size_of (CStruct nm p fs)"
proof -
  let ?T = "CStruct nm p fs"
  have placed: "\<exists>off. (f, off, t) \<in> set (offsets ?T)" if "(f, t) \<in> set fs" for f t
  proof -
    have "(f, t) \<in> set (map (\<lambda>(f, off, t). (f, t)) (place p 0 fs))"
      using that by (simp only: place_map)
    then show ?thesis by auto
  qed
  have d: "distinct (map fst (offsets ?T))" using wf by (simp add: place_distinct)
  obtain od os where at: "(''dev'', od, CInt 4 False) \<in> set (offsets ?T)"
    "(''sector'', os, CInt 8 False) \<in> set (offsets ?T)"
    using placed fs by blast
  have "od + 4 \<le> os \<or> os + 8 \<le> od"
    using place_disjoint [of fs "''dev''" od "CInt 4 False" p 0 "''sector''" os "CInt 8 False"] wf at
    by simp
  moreover have "od + 4 \<le> size_of ?T" "os + 8 \<le> size_of ?T"
    using struct_members_inside [OF wf at(1)] struct_members_inside [OF wf at(2)] by simp_all
  ultimately show ?thesis using d at by (metis map_of_is_SomeI)
qed

lemma ctx_decode_encode_layout:
  assumes "wf_ctype (CStruct nm p fs)"
    and "(''dev'', CInt 4 False) \<in> set fs" "(''sector'', CInt 8 False) \<in> set fs"
    and "size_of (CStruct nm p fs) \<le> length m"
  shows "ctx_decode e (CStruct nm p fs) (ctx_encode e (CStruct nm p fs) c m) = Some c"
proof -
  obtain od os where dev_at: "map_of (offsets (CStruct nm p fs)) ''dev'' = Some (od, CInt 4 False)"
    and sector_at: "map_of (offsets (CStruct nm p fs)) ''sector'' = Some (os, CInt 8 False)"
    and apart: "od + 4 \<le> os \<or> os + 8 \<le> od"
    and len: "od + 4 \<le> length m" "os + 8 \<le> length m"
    using ctx_members_at [OF assms(1-3)] assms(4) by fastforce
  let ?m = "store m od (val_bytes e 4 (unat (dev c)))"
  have d: "load e ?m od 4 = Some (unat (dev c))"
    using len unat_u32_lt [of "dev c"] by (intro load_store_same) auto
  have s: "load e (store ?m os (val_bytes e 8 (unat (sector c)))) os 8 = Some (unat (sector c))"
    using len unat_u64_lt [of "sector c"] by (intro load_store_same) (auto simp: length_store)
  have "load e (store ?m os (val_bytes e 8 (unat (sector c)))) od 4 = load e ?m od 4"
    using len apart by (intro load_store_other) (auto simp: length_store)
  then show ?thesis
    by (simp add: ctx_decode_def ctx_encode_def read_member_def write_member_def dev_at sector_at
        s d del: offsets.simps)
qed

section \<open>Properties\<close>

text \<open>
  Every one of the 692 tracepoint context structures of \<open>vmlinux.h\<close> starts with the
  common header \<open>trace_entry\<close> at offset 0 and is laid out soundly: its members are aligned,
  inside the structure and pairwise disjoint.
\<close>

lemma every_context_sound:
  "length tracepoint_contexts = 692 \<and>
   list_all (\<lambda>T. event_ok T \<and> sound_layout T) tracepoint_contexts"
proof
  show "length tracepoint_contexts = 692"
    by (simp add: tracepoint_contexts_def length_trace_events_1 length_trace_events_2
        length_trace_events_3 length_trace_events_4 length_trace_events_5
        length_trace_events_6 length_trace_events_7)
  show "list_all (\<lambda>T. event_ok T \<and> sound_layout T) tracepoint_contexts"
    using tracepoint_contexts_ok
    by (auto simp: list_all_iff intro: event_ok_sound)
qed

text \<open>
  The issue and the completion handler read the same bytes: \<open>dev\<close> is the 32-bit value at
  offset 8 and \<open>sector\<close> the 64-bit value at offset 16 of both context types, so on equal raw
  contexts both handlers use the same key, on either byte order.
\<close>

lemma handlers_agree_on_context:
  "offset_of trace_event_raw_block_rq ''dev'' = Some 8 \<and>
   offset_of trace_event_raw_block_rq_completion ''dev'' = Some 8 \<and>
   offset_of trace_event_raw_block_rq ''sector'' = Some 16 \<and>
   offset_of trace_event_raw_block_rq_completion ''sector'' = Some 16 \<and>
   ctx_decode e trace_event_raw_block_rq m = ctx_decode e trace_event_raw_block_rq_completion m"
  by (simp add: offset_of_def block_rq_offsets ctx_decode_eq)

text \<open>
  A kernel other than the one \<open>vmlinux.h\<close> was generated from: another first member, \<open>sector\<close>
  before \<open>dev\<close>, and members the program does not know.
\<close>

definition relocated_rq :: ctype where
  "relocated_rq = CStruct ''trace_event_raw_block_rq'' False
     [(''ent'', CArray (CInt 1 False) 12), (''sector'', CInt 8 False), (''flags'', CInt 2 False),
      (''dev'', CInt 4 False), (''nr_sector'', CInt 4 False)]"

text \<open>
  C25. Relocation: \<open>vmlinux.h\<close> marks its structures \<open>preserve_access_index\<close>, so the program's
  member accesses are relocated to the layout of the running kernel. In every well-formed
  structure type that has a 32-bit \<open>dev\<close> and a 64-bit \<open>sector\<close> (packed or not, in any order,
  among any other members, on either byte order), the handlers decode exactly the device and
  the sector the kernel stored, whatever else the context holds. The witness shows a
  reordered layout, where the members are at other offsets, and the two types of
  \<open>vmlinux.h\<close>.
\<close>

theorem ctx_decode_encode:
  assumes "wf_ctype (CStruct nm p fs)"
    and "(''dev'', CInt 4 False) \<in> set fs" and "(''sector'', CInt 8 False) \<in> set fs"
    and "size_of (CStruct nm p fs) \<le> length m"
  shows "ctx_decode e (CStruct nm p fs) (ctx_encode e (CStruct nm p fs) c m) = Some c"
  using assms by (rule ctx_decode_encode_layout)

theorem ctx_decode_encode_witness:
  "offset_of relocated_rq ''sector'' = Some 16 \<and> offset_of relocated_rq ''dev'' = Some 28 \<and>
   ctx_decode BigEndian relocated_rq
     (ctx_encode BigEndian relocated_rq sample_rq (replicate 40 255)) = Some sample_rq \<and>
   ctx_decode LittleEndian trace_event_raw_block_rq
     (ctx_encode LittleEndian trace_event_raw_block_rq sample_rq (replicate 64 255)) = Some sample_rq"
proof (intro conjI)
  show "offset_of relocated_rq ''sector'' = Some 16" "offset_of relocated_rq ''dev'' = Some 28"
    by code_simp+
  show "ctx_decode BigEndian relocated_rq
      (ctx_encode BigEndian relocated_rq sample_rq (replicate 40 255)) = Some sample_rq"
    unfolding relocated_rq_def by (rule ctx_decode_encode) (simp_all, code_simp)
  show "ctx_decode LittleEndian trace_event_raw_block_rq
      (ctx_encode LittleEndian trace_event_raw_block_rq sample_rq (replicate 64 255)) = Some sample_rq"
    unfolding trace_event_raw_block_rq_def
    by (rule ctx_decode_encode)
      (simp_all add: c_dev_t_def c___kernel_dev_t_def c_sector_t_def c_u64_def c___u64_def c_u32_def
        c___u32_def trace_entry_def member_align_def align_up_def)
qed

end
