(* ===== verification/EnumDecl.thy ===== *)
theory EnumDecl
  imports VmlinuxTypes
begin

text \<open>
  Enumerations of \<open>src/internal/ebpf/vmlinux.h\<close> with the size the compiler gives them: one
  byte under \<^verbatim>\<open>__attribute__((mode(byte)))\<close>, else four when the enumerators all fit \<open>int\<close> or
  all fit \<open>unsigned int\<close>, else eight.
\<close>

section \<open>Declarations and sizes\<close>

text \<open>\<open>EnumDecl byte es\<close>: whether the mode is \<open>byte\<close>, and the enumerators in order.\<close>

datatype cenum_decl = EnumDecl bool cenum

fun enumerators :: "cenum_decl \<Rightarrow> cenum" where
  "enumerators (EnumDecl byte es) = es"

text \<open>The value of an enumerator, as a constant of the C program.\<close>

definition enumerator :: "cenum_decl \<Rightarrow> string \<Rightarrow> int option" where
  "enumerator d n = map_of (enumerators d) n"

fun enum_bytes :: "cenum_decl \<Rightarrow> nat" where
  "enum_bytes (EnumDecl byte es) = (if byte then 1 else if enum_fits_32 es then 4 else 8)"

text \<open>The enumerators are values of a type of that size.\<close>

definition fits_bytes :: "nat \<Rightarrow> cenum \<Rightarrow> bool" where
  "fits_bytes n es \<longleftrightarrow>
     list_all (\<lambda>(k, v). - (2 ^ (8 * n - 1)) \<le> v \<and> v < 2 ^ (8 * n - 1)) es \<or>
     list_all (\<lambda>(k, v). 0 \<le> v \<and> v < 2 ^ (8 * n)) es"

fun enum_decl_ok :: "cenum_decl \<Rightarrow> bool" where
  "enum_decl_ok (EnumDecl byte es) \<longleftrightarrow> es \<noteq> [] \<and> fits_bytes (enum_bytes (EnumDecl byte es)) es"

definition enum4 :: "cenum_decl \<Rightarrow> bool" where
  "enum4 d \<longleftrightarrow> enum_decl_ok d \<and> enum_bytes d = 4"

section \<open>Introduction rules for the tables\<close>

definition ints :: "cenum \<Rightarrow> bool" where
  "ints es \<longleftrightarrow> list_all (\<lambda>(k, v). - 2147483648 \<le> v \<and> v < 2147483648) es"

definition uints :: "cenum \<Rightarrow> bool" where
  "uints es \<longleftrightarrow> list_all (\<lambda>(k, v). 0 \<le> v \<and> v < 4294967296) es"

lemma ints_Nil: "ints []"
  by (simp add: ints_def)

lemma ints_Cons: "- 2147483648 \<le> v \<Longrightarrow> v < 2147483648 \<Longrightarrow> ints es \<Longrightarrow> ints ((k, v) # es)"
  by (simp add: ints_def)

lemma uints_Nil: "uints []"
  by (simp add: uints_def)

lemma uints_Cons: "0 \<le> v \<Longrightarrow> v < 4294967296 \<Longrightarrow> uints es \<Longrightarrow> uints ((k, v) # es)"
  by (simp add: uints_def)

lemma enum4_ints: "ints (e # es) \<Longrightarrow> enum4 (EnumDecl False (e # es))"
  by (simp add: enum4_def ints_def fits_bytes_def enum_fits_32_def)

lemma enum4_uints: "uints (e # es) \<Longrightarrow> enum4 (EnumDecl False (e # es))"
  by (simp add: enum4_def uints_def fits_bytes_def enum_fits_32_def)

lemma enum4_Nil: "list_all enum4 []"
  by simp

lemma enum4_Cons: "enum4 d \<Longrightarrow> list_all enum4 ds \<Longrightarrow> list_all enum4 (d # ds)"
  by simp

lemmas enum_int_intros = enum4_ints ints_Cons ints_Nil
lemmas enum_uint_intros = enum4_uints uints_Cons uints_Nil
lemmas enum_list_intros = enum4_Cons enum4_Nil

end
