(* ===== verification/VmlinuxEnum9.thy ===== *)
theory VmlinuxEnum9
  imports EnumDecl
begin

text \<open>
  The enumerations of four bytes of \<^verbatim>\<open>src/internal/ebpf/vmlinux.h\<close> between lines 13447 and
  15066, one definition per enumeration, enumerators in order. An enumeration without a tag is
  named after the line it starts on.
\<close>

definition enumdecl_bpf_func_id :: cenum_decl where
  "enumdecl_bpf_func_id = EnumDecl False [
     (''BPF_FUNC_unspec'', 0), (''BPF_FUNC_map_lookup_elem'', 1),
     (''BPF_FUNC_map_update_elem'', 2), (''BPF_FUNC_map_delete_elem'', 3),
     (''BPF_FUNC_probe_read'', 4), (''BPF_FUNC_ktime_get_ns'', 5),
     (''BPF_FUNC_trace_printk'', 6), (''BPF_FUNC_get_prandom_u32'', 7),
     (''BPF_FUNC_get_smp_processor_id'', 8), (''BPF_FUNC_skb_store_bytes'', 9),
     (''BPF_FUNC_l3_csum_replace'', 10), (''BPF_FUNC_l4_csum_replace'', 11),
     (''BPF_FUNC_tail_call'', 12), (''BPF_FUNC_clone_redirect'', 13),
     (''BPF_FUNC_get_current_pid_tgid'', 14), (''BPF_FUNC_get_current_uid_gid'', 15),
     (''BPF_FUNC_get_current_comm'', 16), (''BPF_FUNC_get_cgroup_classid'', 17),
     (''BPF_FUNC_skb_vlan_push'', 18), (''BPF_FUNC_skb_vlan_pop'', 19),
     (''BPF_FUNC_skb_get_tunnel_key'', 20), (''BPF_FUNC_skb_set_tunnel_key'', 21),
     (''BPF_FUNC_perf_event_read'', 22), (''BPF_FUNC_redirect'', 23),
     (''BPF_FUNC_get_route_realm'', 24), (''BPF_FUNC_perf_event_output'', 25),
     (''BPF_FUNC_skb_load_bytes'', 26), (''BPF_FUNC_get_stackid'', 27),
     (''BPF_FUNC_csum_diff'', 28), (''BPF_FUNC_skb_get_tunnel_opt'', 29),
     (''BPF_FUNC_skb_set_tunnel_opt'', 30), (''BPF_FUNC_skb_change_proto'', 31),
     (''BPF_FUNC_skb_change_type'', 32), (''BPF_FUNC_skb_under_cgroup'', 33),
     (''BPF_FUNC_get_hash_recalc'', 34), (''BPF_FUNC_get_current_task'', 35),
     (''BPF_FUNC_probe_write_user'', 36), (''BPF_FUNC_current_task_under_cgroup'', 37),
     (''BPF_FUNC_skb_change_tail'', 38), (''BPF_FUNC_skb_pull_data'', 39),
     (''BPF_FUNC_csum_update'', 40), (''BPF_FUNC_set_hash_invalid'', 41),
     (''BPF_FUNC_get_numa_node_id'', 42), (''BPF_FUNC_skb_change_head'', 43),
     (''BPF_FUNC_xdp_adjust_head'', 44), (''BPF_FUNC_probe_read_str'', 45),
     (''BPF_FUNC_get_socket_cookie'', 46), (''BPF_FUNC_get_socket_uid'', 47),
     (''BPF_FUNC_set_hash'', 48), (''BPF_FUNC_setsockopt'', 49),
     (''BPF_FUNC_skb_adjust_room'', 50), (''BPF_FUNC_redirect_map'', 51),
     (''BPF_FUNC_sk_redirect_map'', 52), (''BPF_FUNC_sock_map_update'', 53),
     (''BPF_FUNC_xdp_adjust_meta'', 54), (''BPF_FUNC_perf_event_read_value'', 55),
     (''BPF_FUNC_perf_prog_read_value'', 56), (''BPF_FUNC_getsockopt'', 57),
     (''BPF_FUNC_override_return'', 58), (''BPF_FUNC_sock_ops_cb_flags_set'', 59),
     (''BPF_FUNC_msg_redirect_map'', 60), (''BPF_FUNC_msg_apply_bytes'', 61),
     (''BPF_FUNC_msg_cork_bytes'', 62), (''BPF_FUNC_msg_pull_data'', 63),
     (''BPF_FUNC_bind'', 64), (''BPF_FUNC_xdp_adjust_tail'', 65),
     (''BPF_FUNC_skb_get_xfrm_state'', 66), (''BPF_FUNC_get_stack'', 67),
     (''BPF_FUNC_skb_load_bytes_relative'', 68), (''BPF_FUNC_fib_lookup'', 69),
     (''BPF_FUNC_sock_hash_update'', 70), (''BPF_FUNC_msg_redirect_hash'', 71),
     (''BPF_FUNC_sk_redirect_hash'', 72), (''BPF_FUNC_lwt_push_encap'', 73),
     (''BPF_FUNC_lwt_seg6_store_bytes'', 74), (''BPF_FUNC_lwt_seg6_adjust_srh'', 75),
     (''BPF_FUNC_lwt_seg6_action'', 76), (''BPF_FUNC_rc_repeat'', 77),
     (''BPF_FUNC_rc_keydown'', 78), (''BPF_FUNC_skb_cgroup_id'', 79),
     (''BPF_FUNC_get_current_cgroup_id'', 80), (''BPF_FUNC_get_local_storage'', 81),
     (''BPF_FUNC_sk_select_reuseport'', 82), (''BPF_FUNC_skb_ancestor_cgroup_id'', 83),
     (''BPF_FUNC_sk_lookup_tcp'', 84), (''BPF_FUNC_sk_lookup_udp'', 85),
     (''BPF_FUNC_sk_release'', 86), (''BPF_FUNC_map_push_elem'', 87),
     (''BPF_FUNC_map_pop_elem'', 88), (''BPF_FUNC_map_peek_elem'', 89),
     (''BPF_FUNC_msg_push_data'', 90), (''BPF_FUNC_msg_pop_data'', 91),
     (''BPF_FUNC_rc_pointer_rel'', 92), (''BPF_FUNC_spin_lock'', 93),
     (''BPF_FUNC_spin_unlock'', 94), (''BPF_FUNC_sk_fullsock'', 95), (''BPF_FUNC_tcp_sock'', 96),
     (''BPF_FUNC_skb_ecn_set_ce'', 97), (''BPF_FUNC_get_listener_sock'', 98),
     (''BPF_FUNC_skc_lookup_tcp'', 99), (''BPF_FUNC_tcp_check_syncookie'', 100),
     (''BPF_FUNC_sysctl_get_name'', 101), (''BPF_FUNC_sysctl_get_current_value'', 102),
     (''BPF_FUNC_sysctl_get_new_value'', 103), (''BPF_FUNC_sysctl_set_new_value'', 104),
     (''BPF_FUNC_strtol'', 105), (''BPF_FUNC_strtoul'', 106), (''BPF_FUNC_sk_storage_get'', 107),
     (''BPF_FUNC_sk_storage_delete'', 108), (''BPF_FUNC_send_signal'', 109),
     (''BPF_FUNC_tcp_gen_syncookie'', 110), (''BPF_FUNC_skb_output'', 111),
     (''BPF_FUNC_probe_read_user'', 112), (''BPF_FUNC_probe_read_kernel'', 113),
     (''BPF_FUNC_probe_read_user_str'', 114), (''BPF_FUNC_probe_read_kernel_str'', 115),
     (''BPF_FUNC_tcp_send_ack'', 116), (''BPF_FUNC_send_signal_thread'', 117),
     (''BPF_FUNC_jiffies64'', 118), (''BPF_FUNC_read_branch_records'', 119),
     (''BPF_FUNC_get_ns_current_pid_tgid'', 120), (''BPF_FUNC_xdp_output'', 121),
     (''BPF_FUNC_get_netns_cookie'', 122), (''BPF_FUNC_get_current_ancestor_cgroup_id'', 123),
     (''BPF_FUNC_sk_assign'', 124), (''BPF_FUNC_ktime_get_boot_ns'', 125),
     (''BPF_FUNC_seq_printf'', 126), (''BPF_FUNC_seq_write'', 127),
     (''BPF_FUNC_sk_cgroup_id'', 128), (''BPF_FUNC_sk_ancestor_cgroup_id'', 129),
     (''BPF_FUNC_ringbuf_output'', 130), (''BPF_FUNC_ringbuf_reserve'', 131),
     (''BPF_FUNC_ringbuf_submit'', 132), (''BPF_FUNC_ringbuf_discard'', 133),
     (''BPF_FUNC_ringbuf_query'', 134), (''BPF_FUNC_csum_level'', 135),
     (''BPF_FUNC_skc_to_tcp6_sock'', 136), (''BPF_FUNC_skc_to_tcp_sock'', 137),
     (''BPF_FUNC_skc_to_tcp_timewait_sock'', 138), (''BPF_FUNC_skc_to_tcp_request_sock'', 139),
     (''BPF_FUNC_skc_to_udp6_sock'', 140), (''BPF_FUNC_get_task_stack'', 141),
     (''BPF_FUNC_load_hdr_opt'', 142), (''BPF_FUNC_store_hdr_opt'', 143),
     (''BPF_FUNC_reserve_hdr_opt'', 144), (''BPF_FUNC_inode_storage_get'', 145),
     (''BPF_FUNC_inode_storage_delete'', 146), (''BPF_FUNC_d_path'', 147),
     (''BPF_FUNC_copy_from_user'', 148), (''BPF_FUNC_snprintf_btf'', 149),
     (''BPF_FUNC_seq_printf_btf'', 150), (''BPF_FUNC_skb_cgroup_classid'', 151),
     (''BPF_FUNC_redirect_neigh'', 152), (''BPF_FUNC_per_cpu_ptr'', 153),
     (''BPF_FUNC_this_cpu_ptr'', 154), (''BPF_FUNC_redirect_peer'', 155),
     (''BPF_FUNC_task_storage_get'', 156), (''BPF_FUNC_task_storage_delete'', 157),
     (''BPF_FUNC_get_current_task_btf'', 158), (''BPF_FUNC_bprm_opts_set'', 159),
     (''BPF_FUNC_ktime_get_coarse_ns'', 160), (''BPF_FUNC_ima_inode_hash'', 161),
     (''BPF_FUNC_sock_from_file'', 162), (''BPF_FUNC_check_mtu'', 163),
     (''BPF_FUNC_for_each_map_elem'', 164), (''BPF_FUNC_snprintf'', 165),
     (''BPF_FUNC_sys_bpf'', 166), (''BPF_FUNC_btf_find_by_name_kind'', 167),
     (''BPF_FUNC_sys_close'', 168), (''BPF_FUNC_timer_init'', 169),
     (''BPF_FUNC_timer_set_callback'', 170), (''BPF_FUNC_timer_start'', 171),
     (''BPF_FUNC_timer_cancel'', 172), (''BPF_FUNC_get_func_ip'', 173),
     (''BPF_FUNC_get_attach_cookie'', 174), (''BPF_FUNC_task_pt_regs'', 175),
     (''BPF_FUNC_get_branch_snapshot'', 176), (''BPF_FUNC_trace_vprintk'', 177),
     (''BPF_FUNC_skc_to_unix_sock'', 178), (''BPF_FUNC_kallsyms_lookup_name'', 179),
     (''BPF_FUNC_find_vma'', 180), (''BPF_FUNC_loop'', 181), (''BPF_FUNC_strncmp'', 182),
     (''BPF_FUNC_get_func_arg'', 183), (''BPF_FUNC_get_func_ret'', 184),
     (''BPF_FUNC_get_func_arg_cnt'', 185), (''BPF_FUNC_get_retval'', 186),
     (''BPF_FUNC_set_retval'', 187), (''BPF_FUNC_xdp_get_buff_len'', 188),
     (''BPF_FUNC_xdp_load_bytes'', 189), (''BPF_FUNC_xdp_store_bytes'', 190),
     (''BPF_FUNC_copy_from_user_task'', 191), (''BPF_FUNC_skb_set_tstamp'', 192),
     (''BPF_FUNC_ima_file_hash'', 193), (''BPF_FUNC_kptr_xchg'', 194),
     (''BPF_FUNC_map_lookup_percpu_elem'', 195), (''BPF_FUNC_skc_to_mptcp_sock'', 196),
     (''BPF_FUNC_dynptr_from_mem'', 197), (''BPF_FUNC_ringbuf_reserve_dynptr'', 198),
     (''BPF_FUNC_ringbuf_submit_dynptr'', 199), (''BPF_FUNC_ringbuf_discard_dynptr'', 200),
     (''BPF_FUNC_dynptr_read'', 201), (''BPF_FUNC_dynptr_write'', 202),
     (''BPF_FUNC_dynptr_data'', 203), (''BPF_FUNC_tcp_raw_gen_syncookie_ipv4'', 204),
     (''BPF_FUNC_tcp_raw_gen_syncookie_ipv6'', 205),
     (''BPF_FUNC_tcp_raw_check_syncookie_ipv4'', 206),
     (''BPF_FUNC_tcp_raw_check_syncookie_ipv6'', 207), (''BPF_FUNC_ktime_get_tai_ns'', 208),
     (''BPF_FUNC_user_ringbuf_drain'', 209), (''BPF_FUNC_cgrp_storage_get'', 210),
     (''BPF_FUNC_cgrp_storage_delete'', 211), (''__BPF_FUNC_MAX_ID'', 212)]"

definition enumdecl_bpf_hdr_start_off :: cenum_decl where
  "enumdecl_bpf_hdr_start_off = EnumDecl False [
     (''BPF_HDR_START_MAC'', 0), (''BPF_HDR_START_NET'', 1)]"

definition enumdecl_bpf_iter_feature :: cenum_decl where
  "enumdecl_bpf_iter_feature = EnumDecl False [
     (''BPF_ITER_RESCHED'', 1)]"

definition enumdecl_bpf_iter_state :: cenum_decl where
  "enumdecl_bpf_iter_state = EnumDecl False [
     (''BPF_ITER_STATE_INVALID'', 0), (''BPF_ITER_STATE_ACTIVE'', 1),
     (''BPF_ITER_STATE_DRAINED'', 2)]"

definition enumdecl_bpf_iter_task_type :: cenum_decl where
  "enumdecl_bpf_iter_task_type = EnumDecl False [
     (''BPF_TASK_ITER_ALL'', 0), (''BPF_TASK_ITER_TID'', 1), (''BPF_TASK_ITER_TGID'', 2)]"

definition enumdecl_bpf_jit_poke_reason :: cenum_decl where
  "enumdecl_bpf_jit_poke_reason = EnumDecl False [
     (''BPF_POKE_REASON_TAIL_CALL'', 0)]"

definition enumdecl_bpf_kfunc_flags :: cenum_decl where
  "enumdecl_bpf_kfunc_flags = EnumDecl False [
     (''BPF_F_PAD_ZEROS'', 1)]"

definition enumdecl_bpf_link_type :: cenum_decl where
  "enumdecl_bpf_link_type = EnumDecl False [
     (''BPF_LINK_TYPE_UNSPEC'', 0), (''BPF_LINK_TYPE_RAW_TRACEPOINT'', 1),
     (''BPF_LINK_TYPE_TRACING'', 2), (''BPF_LINK_TYPE_CGROUP'', 3), (''BPF_LINK_TYPE_ITER'', 4),
     (''BPF_LINK_TYPE_NETNS'', 5), (''BPF_LINK_TYPE_XDP'', 6), (''BPF_LINK_TYPE_PERF_EVENT'', 7),
     (''BPF_LINK_TYPE_KPROBE_MULTI'', 8), (''BPF_LINK_TYPE_STRUCT_OPS'', 9),
     (''BPF_LINK_TYPE_NETFILTER'', 10), (''BPF_LINK_TYPE_TCX'', 11),
     (''BPF_LINK_TYPE_UPROBE_MULTI'', 12), (''BPF_LINK_TYPE_NETKIT'', 13),
     (''BPF_LINK_TYPE_SOCKMAP'', 14), (''__MAX_BPF_LINK_TYPE'', 15)]"

definition enumdecl_bpf_lru_list_type :: cenum_decl where
  "enumdecl_bpf_lru_list_type = EnumDecl False [
     (''BPF_LRU_LIST_T_ACTIVE'', 0), (''BPF_LRU_LIST_T_INACTIVE'', 1),
     (''BPF_LRU_LIST_T_FREE'', 2), (''BPF_LRU_LOCAL_LIST_T_FREE'', 3),
     (''BPF_LRU_LOCAL_LIST_T_PENDING'', 4)]"

definition enumdecl_bpf_lwt_encap_mode :: cenum_decl where
  "enumdecl_bpf_lwt_encap_mode = EnumDecl False [
     (''BPF_LWT_ENCAP_SEG6'', 0), (''BPF_LWT_ENCAP_SEG6_INLINE'', 1), (''BPF_LWT_ENCAP_IP'', 2)]"

definition enumdecl_bpf_map_type :: cenum_decl where
  "enumdecl_bpf_map_type = EnumDecl False [
     (''BPF_MAP_TYPE_UNSPEC'', 0), (''BPF_MAP_TYPE_HASH'', 1), (''BPF_MAP_TYPE_ARRAY'', 2),
     (''BPF_MAP_TYPE_PROG_ARRAY'', 3), (''BPF_MAP_TYPE_PERF_EVENT_ARRAY'', 4),
     (''BPF_MAP_TYPE_PERCPU_HASH'', 5), (''BPF_MAP_TYPE_PERCPU_ARRAY'', 6),
     (''BPF_MAP_TYPE_STACK_TRACE'', 7), (''BPF_MAP_TYPE_CGROUP_ARRAY'', 8),
     (''BPF_MAP_TYPE_LRU_HASH'', 9), (''BPF_MAP_TYPE_LRU_PERCPU_HASH'', 10),
     (''BPF_MAP_TYPE_LPM_TRIE'', 11), (''BPF_MAP_TYPE_ARRAY_OF_MAPS'', 12),
     (''BPF_MAP_TYPE_HASH_OF_MAPS'', 13), (''BPF_MAP_TYPE_DEVMAP'', 14),
     (''BPF_MAP_TYPE_SOCKMAP'', 15), (''BPF_MAP_TYPE_CPUMAP'', 16),
     (''BPF_MAP_TYPE_XSKMAP'', 17), (''BPF_MAP_TYPE_SOCKHASH'', 18),
     (''BPF_MAP_TYPE_CGROUP_STORAGE_DEPRECATED'', 19), (''BPF_MAP_TYPE_CGROUP_STORAGE'', 19),
     (''BPF_MAP_TYPE_REUSEPORT_SOCKARRAY'', 20),
     (''BPF_MAP_TYPE_PERCPU_CGROUP_STORAGE_DEPRECATED'', 21),
     (''BPF_MAP_TYPE_PERCPU_CGROUP_STORAGE'', 21), (''BPF_MAP_TYPE_QUEUE'', 22),
     (''BPF_MAP_TYPE_STACK'', 23), (''BPF_MAP_TYPE_SK_STORAGE'', 24),
     (''BPF_MAP_TYPE_DEVMAP_HASH'', 25), (''BPF_MAP_TYPE_STRUCT_OPS'', 26),
     (''BPF_MAP_TYPE_RINGBUF'', 27), (''BPF_MAP_TYPE_INODE_STORAGE'', 28),
     (''BPF_MAP_TYPE_TASK_STORAGE'', 29), (''BPF_MAP_TYPE_BLOOM_FILTER'', 30),
     (''BPF_MAP_TYPE_USER_RINGBUF'', 31), (''BPF_MAP_TYPE_CGRP_STORAGE'', 32),
     (''BPF_MAP_TYPE_ARENA'', 33), (''BPF_MAP_TYPE_INSN_ARRAY'', 34),
     (''__MAX_BPF_MAP_TYPE'', 35)]"

definition enumdecl_bpf_netdev_command :: cenum_decl where
  "enumdecl_bpf_netdev_command = EnumDecl False [
     (''XDP_SETUP_PROG'', 0), (''XDP_SETUP_PROG_HW'', 1), (''BPF_OFFLOAD_MAP_ALLOC'', 2),
     (''BPF_OFFLOAD_MAP_FREE'', 3), (''XDP_SETUP_XSK_POOL'', 4)]"

definition enumdecl_bpf_perf_event_type :: cenum_decl where
  "enumdecl_bpf_perf_event_type = EnumDecl False [
     (''BPF_PERF_EVENT_UNSPEC'', 0), (''BPF_PERF_EVENT_UPROBE'', 1),
     (''BPF_PERF_EVENT_URETPROBE'', 2), (''BPF_PERF_EVENT_KPROBE'', 3),
     (''BPF_PERF_EVENT_KRETPROBE'', 4), (''BPF_PERF_EVENT_TRACEPOINT'', 5),
     (''BPF_PERF_EVENT_EVENT'', 6)]"

definition enumdecl_bpf_prog_type :: cenum_decl where
  "enumdecl_bpf_prog_type = EnumDecl False [
     (''BPF_PROG_TYPE_UNSPEC'', 0), (''BPF_PROG_TYPE_SOCKET_FILTER'', 1),
     (''BPF_PROG_TYPE_KPROBE'', 2), (''BPF_PROG_TYPE_SCHED_CLS'', 3),
     (''BPF_PROG_TYPE_SCHED_ACT'', 4), (''BPF_PROG_TYPE_TRACEPOINT'', 5),
     (''BPF_PROG_TYPE_XDP'', 6), (''BPF_PROG_TYPE_PERF_EVENT'', 7),
     (''BPF_PROG_TYPE_CGROUP_SKB'', 8), (''BPF_PROG_TYPE_CGROUP_SOCK'', 9),
     (''BPF_PROG_TYPE_LWT_IN'', 10), (''BPF_PROG_TYPE_LWT_OUT'', 11),
     (''BPF_PROG_TYPE_LWT_XMIT'', 12), (''BPF_PROG_TYPE_SOCK_OPS'', 13),
     (''BPF_PROG_TYPE_SK_SKB'', 14), (''BPF_PROG_TYPE_CGROUP_DEVICE'', 15),
     (''BPF_PROG_TYPE_SK_MSG'', 16), (''BPF_PROG_TYPE_RAW_TRACEPOINT'', 17),
     (''BPF_PROG_TYPE_CGROUP_SOCK_ADDR'', 18), (''BPF_PROG_TYPE_LWT_SEG6LOCAL'', 19),
     (''BPF_PROG_TYPE_LIRC_MODE2'', 20), (''BPF_PROG_TYPE_SK_REUSEPORT'', 21),
     (''BPF_PROG_TYPE_FLOW_DISSECTOR'', 22), (''BPF_PROG_TYPE_CGROUP_SYSCTL'', 23),
     (''BPF_PROG_TYPE_RAW_TRACEPOINT_WRITABLE'', 24), (''BPF_PROG_TYPE_CGROUP_SOCKOPT'', 25),
     (''BPF_PROG_TYPE_TRACING'', 26), (''BPF_PROG_TYPE_STRUCT_OPS'', 27),
     (''BPF_PROG_TYPE_EXT'', 28), (''BPF_PROG_TYPE_LSM'', 29), (''BPF_PROG_TYPE_SK_LOOKUP'', 30),
     (''BPF_PROG_TYPE_SYSCALL'', 31), (''BPF_PROG_TYPE_NETFILTER'', 32),
     (''__MAX_BPF_PROG_TYPE'', 33)]"

definition enumdecl_bpf_reg_type :: cenum_decl where
  "enumdecl_bpf_reg_type = EnumDecl False [
     (''NOT_INIT'', 0), (''SCALAR_VALUE'', 1), (''PTR_TO_CTX'', 2), (''CONST_PTR_TO_MAP'', 3),
     (''PTR_TO_MAP_VALUE'', 4), (''PTR_TO_MAP_KEY'', 5), (''PTR_TO_STACK'', 6),
     (''PTR_TO_PACKET_META'', 7), (''PTR_TO_PACKET'', 8), (''PTR_TO_PACKET_END'', 9),
     (''PTR_TO_FLOW_KEYS'', 10), (''PTR_TO_SOCKET'', 11), (''PTR_TO_SOCK_COMMON'', 12),
     (''PTR_TO_TCP_SOCK'', 13), (''PTR_TO_TP_BUFFER'', 14), (''PTR_TO_XDP_SOCK'', 15),
     (''PTR_TO_BTF_ID'', 16), (''PTR_TO_MEM'', 17), (''PTR_TO_ARENA'', 18), (''PTR_TO_BUF'', 19),
     (''PTR_TO_FUNC'', 20), (''PTR_TO_INSN'', 21), (''CONST_PTR_TO_DYNPTR'', 22),
     (''__BPF_REG_TYPE_MAX'', 23), (''PTR_TO_MAP_VALUE_OR_NULL'', 260),
     (''PTR_TO_SOCKET_OR_NULL'', 267), (''PTR_TO_SOCK_COMMON_OR_NULL'', 268),
     (''PTR_TO_TCP_SOCK_OR_NULL'', 269), (''PTR_TO_BTF_ID_OR_NULL'', 272),
     (''__BPF_REG_TYPE_LIMIT'', 536870911)]"

definition enumdecl_bpf_ret_code :: cenum_decl where
  "enumdecl_bpf_ret_code = EnumDecl False [
     (''BPF_OK'', 0), (''BPF_DROP'', 2), (''BPF_REDIRECT'', 7), (''BPF_LWT_REROUTE'', 128),
     (''BPF_FLOW_DISSECTOR_CONTINUE'', 129)]"

definition enumdecl_bpf_return_type :: cenum_decl where
  "enumdecl_bpf_return_type = EnumDecl False [
     (''RET_INTEGER'', 0), (''RET_VOID'', 1), (''RET_PTR_TO_MAP_VALUE'', 2),
     (''RET_PTR_TO_SOCKET'', 3), (''RET_PTR_TO_TCP_SOCK'', 4), (''RET_PTR_TO_SOCK_COMMON'', 5),
     (''RET_PTR_TO_MEM'', 6), (''RET_PTR_TO_MEM_OR_BTF_ID'', 7), (''RET_PTR_TO_BTF_ID'', 8),
     (''__BPF_RET_TYPE_MAX'', 9), (''RET_PTR_TO_MAP_VALUE_OR_NULL'', 258),
     (''RET_PTR_TO_SOCKET_OR_NULL'', 259), (''RET_PTR_TO_TCP_SOCK_OR_NULL'', 260),
     (''RET_PTR_TO_SOCK_COMMON_OR_NULL'', 261), (''RET_PTR_TO_RINGBUF_MEM_OR_NULL'', 1286),
     (''RET_PTR_TO_DYNPTR_MEM_OR_NULL'', 262), (''RET_PTR_TO_BTF_ID_OR_NULL'', 264),
     (''RET_PTR_TO_BTF_ID_TRUSTED'', 1048584), (''__BPF_RET_TYPE_LIMIT'', 536870911)]"

definition enumdecl_bpf_stack_build_id_status :: cenum_decl where
  "enumdecl_bpf_stack_build_id_status = EnumDecl False [
     (''BPF_STACK_BUILD_ID_EMPTY'', 0), (''BPF_STACK_BUILD_ID_VALID'', 1),
     (''BPF_STACK_BUILD_ID_IP'', 2)]"

definition enumdecl_bpf_stack_slot_type :: cenum_decl where
  "enumdecl_bpf_stack_slot_type = EnumDecl False [
     (''STACK_INVALID'', 0), (''STACK_SPILL'', 1), (''STACK_MISC'', 2), (''STACK_ZERO'', 3),
     (''STACK_DYNPTR'', 4), (''STACK_ITER'', 5), (''STACK_IRQ_FLAG'', 6)]"

definition enumdecl_bpf_stats_type :: cenum_decl where
  "enumdecl_bpf_stats_type = EnumDecl False [
     (''BPF_STATS_RUN_TIME'', 0)]"

definition enumdecl_bpf_stream_id :: cenum_decl where
  "enumdecl_bpf_stream_id = EnumDecl False [
     (''BPF_STDOUT'', 1), (''BPF_STDERR'', 2)]"

definition enumdecl_bpf_struct_ops_state :: cenum_decl where
  "enumdecl_bpf_struct_ops_state = EnumDecl False [
     (''BPF_STRUCT_OPS_STATE_INIT'', 0), (''BPF_STRUCT_OPS_STATE_INUSE'', 1),
     (''BPF_STRUCT_OPS_STATE_TOBEFREE'', 2), (''BPF_STRUCT_OPS_STATE_READY'', 3)]"

definition enumdecl_bpf_struct_walk_result :: cenum_decl where
  "enumdecl_bpf_struct_walk_result = EnumDecl False [
     (''WALK_SCALAR'', 0), (''WALK_PTR'', 1), (''WALK_PTR_UNTRUSTED'', 2), (''WALK_STRUCT'', 3)]"

definition enumdecl_bpf_task_fd_type :: cenum_decl where
  "enumdecl_bpf_task_fd_type = EnumDecl False [
     (''BPF_FD_TYPE_RAW_TRACEPOINT'', 0), (''BPF_FD_TYPE_TRACEPOINT'', 1),
     (''BPF_FD_TYPE_KPROBE'', 2), (''BPF_FD_TYPE_KRETPROBE'', 3), (''BPF_FD_TYPE_UPROBE'', 4),
     (''BPF_FD_TYPE_URETPROBE'', 5)]"

definition enumdecl_bpf_task_vma_iter_find_op :: cenum_decl where
  "enumdecl_bpf_task_vma_iter_find_op = EnumDecl False [
     (''task_vma_iter_first_vma'', 0), (''task_vma_iter_next_vma'', 1),
     (''task_vma_iter_find_vma'', 2)]"

definition enumdecl_bpf_task_work_state :: cenum_decl where
  "enumdecl_bpf_task_work_state = EnumDecl False [
     (''BPF_TW_STANDBY'', 0), (''BPF_TW_PENDING'', 1), (''BPF_TW_SCHEDULING'', 2),
     (''BPF_TW_SCHEDULED'', 3), (''BPF_TW_RUNNING'', 4), (''BPF_TW_FREED'', 5)]"

definition enumdecl_bpf_text_poke_type :: cenum_decl where
  "enumdecl_bpf_text_poke_type = EnumDecl False [
     (''BPF_MOD_NOP'', 0), (''BPF_MOD_CALL'', 1), (''BPF_MOD_JUMP'', 2)]"

definition enumdecl_bpf_tramp_prog_type :: cenum_decl where
  "enumdecl_bpf_tramp_prog_type = EnumDecl False [
     (''BPF_TRAMP_FENTRY'', 0), (''BPF_TRAMP_FEXIT'', 1), (''BPF_TRAMP_MODIFY_RETURN'', 2),
     (''BPF_TRAMP_MAX'', 3), (''BPF_TRAMP_REPLACE'', 4), (''BPF_TRAMP_FSESSION'', 5)]"

definition enumdecl_bpf_type :: cenum_decl where
  "enumdecl_bpf_type = EnumDecl False [
     (''BPF_TYPE_UNSPEC'', 0), (''BPF_TYPE_PROG'', 1), (''BPF_TYPE_MAP'', 2),
     (''BPF_TYPE_LINK'', 3)]"

definition enumdecl_bpf_type_flag :: cenum_decl where
  "enumdecl_bpf_type_flag = EnumDecl False [
     (''PTR_MAYBE_NULL'', 256), (''MEM_RDONLY'', 512), (''MEM_RINGBUF'', 1024),
     (''MEM_USER'', 2048), (''MEM_PERCPU'', 4096), (''OBJ_RELEASE'', 8192),
     (''PTR_UNTRUSTED'', 16384), (''MEM_UNINIT'', 32768), (''DYNPTR_TYPE_LOCAL'', 65536),
     (''DYNPTR_TYPE_RINGBUF'', 131072), (''MEM_FIXED_SIZE'', 262144), (''MEM_ALLOC'', 524288),
     (''PTR_TRUSTED'', 1048576), (''MEM_RCU'', 2097152), (''NON_OWN_REF'', 4194304),
     (''DYNPTR_TYPE_SKB'', 8388608), (''DYNPTR_TYPE_XDP'', 16777216),
     (''MEM_ALIGNED'', 33554432), (''MEM_WRITE'', 67108864),
     (''DYNPTR_TYPE_SKB_META'', 134217728), (''DYNPTR_TYPE_FILE'', 268435456),
     (''__BPF_TYPE_FLAG_MAX'', 268435457), (''__BPF_TYPE_LAST_FLAG'', 268435456)]"

definition enumdecl_bpf_xdp_mode :: cenum_decl where
  "enumdecl_bpf_xdp_mode = EnumDecl False [
     (''XDP_MODE_SKB'', 0), (''XDP_MODE_DRV'', 1), (''XDP_MODE_HW'', 2), (''__MAX_XDP_MODE'', 3)]"

definition enumdecl_btf_arg_tag :: cenum_decl where
  "enumdecl_btf_arg_tag = EnumDecl False [
     (''ARG_TAG_CTX'', 1), (''ARG_TAG_NONNULL'', 2), (''ARG_TAG_TRUSTED'', 4),
     (''ARG_TAG_UNTRUSTED'', 8), (''ARG_TAG_NULLABLE'', 16), (''ARG_TAG_ARENA'', 32)]"

definition enumdecl_btf_field_iter_kind :: cenum_decl where
  "enumdecl_btf_field_iter_kind = EnumDecl False [
     (''BTF_FIELD_ITER_IDS'', 0), (''BTF_FIELD_ITER_STRS'', 1)]"

definition enumdecl_btf_field_type :: cenum_decl where
  "enumdecl_btf_field_type = EnumDecl False [
     (''BPF_SPIN_LOCK'', 1), (''BPF_TIMER'', 2), (''BPF_KPTR_UNREF'', 4), (''BPF_KPTR_REF'', 8),
     (''BPF_KPTR_PERCPU'', 16), (''BPF_KPTR'', 28), (''BPF_LIST_HEAD'', 32),
     (''BPF_LIST_NODE'', 64), (''BPF_RB_ROOT'', 128), (''BPF_RB_NODE'', 256),
     (''BPF_GRAPH_NODE'', 320), (''BPF_GRAPH_ROOT'', 160), (''BPF_REFCOUNT'', 512),
     (''BPF_WORKQUEUE'', 1024), (''BPF_UPTR'', 2048), (''BPF_RES_SPIN_LOCK'', 4096),
     (''BPF_TASK_WORK'', 8192)]"

definition enumdecl_btf_func_linkage :: cenum_decl where
  "enumdecl_btf_func_linkage = EnumDecl False [
     (''BTF_FUNC_STATIC'', 0), (''BTF_FUNC_GLOBAL'', 1), (''BTF_FUNC_EXTERN'', 2)]"

definition enumdecl_btf_kfunc_hook :: cenum_decl where
  "enumdecl_btf_kfunc_hook = EnumDecl False [
     (''BTF_KFUNC_HOOK_COMMON'', 0), (''BTF_KFUNC_HOOK_XDP'', 1), (''BTF_KFUNC_HOOK_TC'', 2),
     (''BTF_KFUNC_HOOK_STRUCT_OPS'', 3), (''BTF_KFUNC_HOOK_TRACING'', 4),
     (''BTF_KFUNC_HOOK_SYSCALL'', 5), (''BTF_KFUNC_HOOK_FMODRET'', 6),
     (''BTF_KFUNC_HOOK_CGROUP'', 7), (''BTF_KFUNC_HOOK_SCHED_ACT'', 8),
     (''BTF_KFUNC_HOOK_SK_SKB'', 9), (''BTF_KFUNC_HOOK_SOCKET_FILTER'', 10),
     (''BTF_KFUNC_HOOK_LWT'', 11), (''BTF_KFUNC_HOOK_NETFILTER'', 12),
     (''BTF_KFUNC_HOOK_KPROBE'', 13), (''BTF_KFUNC_HOOK_MAX'', 14)]"

definition enumdecl_bug_trap_type :: cenum_decl where
  "enumdecl_bug_trap_type = EnumDecl False [
     (''BUG_TRAP_TYPE_NONE'', 0), (''BUG_TRAP_TYPE_WARN'', 1), (''BUG_TRAP_TYPE_BUG'', 2)]"

definition enumdecl_bus_notifier_event :: cenum_decl where
  "enumdecl_bus_notifier_event = EnumDecl False [
     (''BUS_NOTIFY_ADD_DEVICE'', 0), (''BUS_NOTIFY_DEL_DEVICE'', 1),
     (''BUS_NOTIFY_REMOVED_DEVICE'', 2), (''BUS_NOTIFY_BIND_DRIVER'', 3),
     (''BUS_NOTIFY_BOUND_DRIVER'', 4), (''BUS_NOTIFY_UNBIND_DRIVER'', 5),
     (''BUS_NOTIFY_UNBOUND_DRIVER'', 6), (''BUS_NOTIFY_DRIVER_NOT_BOUND'', 7)]"

definition enumdecl_cache_indexing :: cenum_decl where
  "enumdecl_cache_indexing = EnumDecl False [
     (''NODE_CACHE_DIRECT_MAP'', 0), (''NODE_CACHE_INDEXED'', 1), (''NODE_CACHE_OTHER'', 2)]"

definition enumdecl_cache_mode :: cenum_decl where
  "enumdecl_cache_mode = EnumDecl False [
     (''NODE_CACHE_ADDR_MODE_RESERVED'', 0), (''NODE_CACHE_ADDR_MODE_EXTENDED_LINEAR'', 1)]"

definition enumdecl_cache_tag_type :: cenum_decl where
  "enumdecl_cache_tag_type = EnumDecl False [
     (''CACHE_TAG_IOTLB'', 0), (''CACHE_TAG_DEVTLB'', 1), (''CACHE_TAG_NESTING_IOTLB'', 2),
     (''CACHE_TAG_NESTING_DEVTLB'', 3)]"

definition enumdecl_cache_type :: cenum_decl where
  "enumdecl_cache_type = EnumDecl False [
     (''CACHE_TYPE_NOCACHE'', 0), (''CACHE_TYPE_INST'', 1), (''CACHE_TYPE_DATA'', 2),
     (''CACHE_TYPE_SEPARATE'', 3), (''CACHE_TYPE_UNIFIED'', 4)]"

definition enumdecl_cache_write_policy :: cenum_decl where
  "enumdecl_cache_write_policy = EnumDecl False [
     (''NODE_CACHE_WRITE_BACK'', 0), (''NODE_CACHE_WRITE_THROUGH'', 1),
     (''NODE_CACHE_WRITE_OTHER'', 2)]"

definition enumdecl_cc_attr :: cenum_decl where
  "enumdecl_cc_attr = EnumDecl False [
     (''CC_ATTR_MEM_ENCRYPT'', 0), (''CC_ATTR_HOST_MEM_ENCRYPT'', 1),
     (''CC_ATTR_GUEST_MEM_ENCRYPT'', 2), (''CC_ATTR_GUEST_STATE_ENCRYPT'', 3),
     (''CC_ATTR_GUEST_UNROLL_STRING_IO'', 4), (''CC_ATTR_GUEST_SEV_SNP'', 5),
     (''CC_ATTR_GUEST_SNP_SECURE_TSC'', 6), (''CC_ATTR_HOST_SEV_SNP'', 7),
     (''CC_ATTR_SNP_SECURE_AVIC'', 8)]"

definition enumdecl_cc_vendor :: cenum_decl where
  "enumdecl_cc_vendor = EnumDecl False [
     (''CC_VENDOR_NONE'', 0), (''CC_VENDOR_AMD'', 1), (''CC_VENDOR_INTEL'', 2)]"

definition enumdecl_cdrom_print_option :: cenum_decl where
  "enumdecl_cdrom_print_option = EnumDecl False [
     (''CTL_NAME'', 0), (''CTL_SPEED'', 1), (''CTL_SLOTS'', 2), (''CTL_CAPABILITY'', 3)]"

definition enumdecl_cee_attrs :: cenum_decl where
  "enumdecl_cee_attrs = EnumDecl False [
     (''DCB_ATTR_CEE_UNSPEC'', 0), (''DCB_ATTR_CEE_PEER_PG'', 1), (''DCB_ATTR_CEE_PEER_PFC'', 2),
     (''DCB_ATTR_CEE_PEER_APP_TABLE'', 3), (''DCB_ATTR_CEE_TX_PG'', 4),
     (''DCB_ATTR_CEE_RX_PG'', 5), (''DCB_ATTR_CEE_PFC'', 6), (''DCB_ATTR_CEE_APP_TABLE'', 7),
     (''DCB_ATTR_CEE_FEAT'', 8), (''__DCB_ATTR_CEE_MAX'', 9)]"

definition enumdecl_cfg80211_signal_type :: cenum_decl where
  "enumdecl_cfg80211_signal_type = EnumDecl False [
     (''CFG80211_SIGNAL_TYPE_NONE'', 0), (''CFG80211_SIGNAL_TYPE_MBM'', 1),
     (''CFG80211_SIGNAL_TYPE_UNSPEC'', 2)]"

definition enumdecl_cfi_mode :: cenum_decl where
  "enumdecl_cfi_mode = EnumDecl False [
     (''CFI_AUTO'', 0), (''CFI_OFF'', 1), (''CFI_KCFI'', 2), (''CFI_FINEIBT'', 3)]"

definition enumdecl_cgroup1_param :: cenum_decl where
  "enumdecl_cgroup1_param = EnumDecl False [
     (''Opt_all'', 0), (''Opt_clone_children'', 1), (''Opt_cpuset_v2_mode'', 2),
     (''Opt_name'', 3), (''Opt_none'', 4), (''Opt_noprefix'', 5), (''Opt_release_agent'', 6),
     (''Opt_xattr'', 7), (''Opt_favordynmods'', 8), (''Opt_nofavordynmods'', 9)]"

definition enumdecl_cgroup2_param :: cenum_decl where
  "enumdecl_cgroup2_param = EnumDecl False [
     (''Opt_nsdelegate'', 0), (''Opt_favordynmods___2'', 1), (''Opt_memory_localevents'', 2),
     (''Opt_memory_recursiveprot'', 3), (''Opt_memory_hugetlb_accounting'', 4),
     (''Opt_pids_localevents'', 5), (''nr__cgroup2_params'', 6)]"

definition enumdecl_cgroup_attach_lock_mode :: cenum_decl where
  "enumdecl_cgroup_attach_lock_mode = EnumDecl False [
     (''CGRP_ATTACH_LOCK_GLOBAL'', 0), (''CGRP_ATTACH_LOCK_NONE'', 1),
     (''CGRP_ATTACH_LOCK_PER_THREADGROUP'', 2)]"

definition enumdecl_cgroup_bpf_attach_type :: cenum_decl where
  "enumdecl_cgroup_bpf_attach_type = EnumDecl False [
     (''CGROUP_BPF_ATTACH_TYPE_INVALID'', - 1), (''CGROUP_INET_INGRESS'', 0),
     (''CGROUP_INET_EGRESS'', 1), (''CGROUP_INET_SOCK_CREATE'', 2), (''CGROUP_SOCK_OPS'', 3),
     (''CGROUP_DEVICE'', 4), (''CGROUP_INET4_BIND'', 5), (''CGROUP_INET6_BIND'', 6),
     (''CGROUP_INET4_CONNECT'', 7), (''CGROUP_INET6_CONNECT'', 8), (''CGROUP_UNIX_CONNECT'', 9),
     (''CGROUP_INET4_POST_BIND'', 10), (''CGROUP_INET6_POST_BIND'', 11),
     (''CGROUP_UDP4_SENDMSG'', 12), (''CGROUP_UDP6_SENDMSG'', 13), (''CGROUP_UNIX_SENDMSG'', 14),
     (''CGROUP_SYSCTL'', 15), (''CGROUP_UDP4_RECVMSG'', 16), (''CGROUP_UDP6_RECVMSG'', 17),
     (''CGROUP_UNIX_RECVMSG'', 18), (''CGROUP_GETSOCKOPT'', 19), (''CGROUP_SETSOCKOPT'', 20),
     (''CGROUP_INET4_GETPEERNAME'', 21), (''CGROUP_INET6_GETPEERNAME'', 22),
     (''CGROUP_UNIX_GETPEERNAME'', 23), (''CGROUP_INET4_GETSOCKNAME'', 24),
     (''CGROUP_INET6_GETSOCKNAME'', 25), (''CGROUP_UNIX_GETSOCKNAME'', 26),
     (''CGROUP_INET_SOCK_RELEASE'', 27), (''CGROUP_LSM_START'', 28), (''CGROUP_LSM_END'', 37),
     (''MAX_CGROUP_BPF_ATTACH_TYPE'', 38)]"

definition enumdecl_cgroup_filetype :: cenum_decl where
  "enumdecl_cgroup_filetype = EnumDecl False [
     (''CGROUP_FILE_PROCS'', 0), (''CGROUP_FILE_TASKS'', 1)]"

definition enumdecl_cgroup_lifetime_events :: cenum_decl where
  "enumdecl_cgroup_lifetime_events = EnumDecl False [
     (''CGROUP_LIFETIME_ONLINE'', 0), (''CGROUP_LIFETIME_OFFLINE'', 1)]"

definition enumdecl_cgroup_opt_features :: cenum_decl where
  "enumdecl_cgroup_opt_features = EnumDecl False [
     (''OPT_FEATURE_PRESSURE'', 0), (''OPT_FEATURE_COUNT'', 1)]"

definition enumdecl_cgroup_subsys_id :: cenum_decl where
  "enumdecl_cgroup_subsys_id = EnumDecl False [
     (''cpuset_cgrp_id'', 0), (''cpu_cgrp_id'', 1), (''cpuacct_cgrp_id'', 2),
     (''io_cgrp_id'', 3), (''memory_cgrp_id'', 4), (''devices_cgrp_id'', 5),
     (''freezer_cgrp_id'', 6), (''net_cls_cgrp_id'', 7), (''perf_event_cgrp_id'', 8),
     (''net_prio_cgrp_id'', 9), (''hugetlb_cgrp_id'', 10), (''pids_cgrp_id'', 11),
     (''rdma_cgrp_id'', 12), (''misc_cgrp_id'', 13), (''dmem_cgrp_id'', 14),
     (''CGROUP_SUBSYS_COUNT'', 15)]"

definition enumdecl_chacha20poly1305_lengths :: cenum_decl where
  "enumdecl_chacha20poly1305_lengths = EnumDecl False [
     (''XCHACHA20POLY1305_NONCE_SIZE'', 24), (''CHACHA20POLY1305_KEY_SIZE'', 32),
     (''CHACHA20POLY1305_AUTHTAG_SIZE'', 16)]"

definition enumdecl_chacha_constants :: cenum_decl where
  "enumdecl_chacha_constants = EnumDecl False [
     (''CHACHA_CONSTANT_EXPA'', 1634760805), (''CHACHA_CONSTANT_ND_3'', 857760878),
     (''CHACHA_CONSTANT_2_BY'', 2036477234), (''CHACHA_CONSTANT_TE_K'', 1797285236)]"

definition enumdecl_chipset_type :: cenum_decl where
  "enumdecl_chipset_type = EnumDecl False [
     (''NOT_SUPPORTED'', 0), (''SUPPORTED'', 1)]"

definition enumdecl_class_map_type :: cenum_decl where
  "enumdecl_class_map_type = EnumDecl False [
     (''DD_CLASS_TYPE_DISJOINT_BITS'', 0), (''DD_CLASS_TYPE_LEVEL_NUM'', 1),
     (''DD_CLASS_TYPE_DISJOINT_NAMES'', 2), (''DD_CLASS_TYPE_LEVEL_NAMES'', 3)]"

definition enumdecl_class_stat_type :: cenum_decl where
  "enumdecl_class_stat_type = EnumDecl False [
     (''ZS_OBJS_ALLOCATED'', 12), (''ZS_OBJS_INUSE'', 13), (''NR_CLASS_STAT_TYPES'', 14)]"

definition enumdecl_cleanup_prefix_rt_t :: cenum_decl where
  "enumdecl_cleanup_prefix_rt_t = EnumDecl False [
     (''CLEANUP_PREFIX_RT_NOP'', 0), (''CLEANUP_PREFIX_RT_DEL'', 1),
     (''CLEANUP_PREFIX_RT_EXPIRE'', 2)]"

definition enumdecl_clear_refs_types :: cenum_decl where
  "enumdecl_clear_refs_types = EnumDecl False [
     (''CLEAR_REFS_ALL'', 1), (''CLEAR_REFS_ANON'', 2), (''CLEAR_REFS_MAPPED'', 3),
     (''CLEAR_REFS_SOFT_DIRTY'', 4), (''CLEAR_REFS_MM_HIWATER_RSS'', 5), (''CLEAR_REFS_LAST'', 6)]"

definition enumdecl_clock_event_state :: cenum_decl where
  "enumdecl_clock_event_state = EnumDecl False [
     (''CLOCK_EVT_STATE_DETACHED'', 0), (''CLOCK_EVT_STATE_SHUTDOWN'', 1),
     (''CLOCK_EVT_STATE_PERIODIC'', 2), (''CLOCK_EVT_STATE_ONESHOT'', 3),
     (''CLOCK_EVT_STATE_ONESHOT_STOPPED'', 4)]"

definition enumdecl_clocksource_ids :: cenum_decl where
  "enumdecl_clocksource_ids = EnumDecl False [
     (''CSID_GENERIC'', 0), (''CSID_ARM_ARCH_COUNTER'', 1), (''CSID_S390_TOD'', 2),
     (''CSID_X86_TSC_EARLY'', 3), (''CSID_X86_TSC'', 4), (''CSID_X86_KVM_CLK'', 5),
     (''CSID_X86_ART'', 6), (''CSID_MAX'', 7)]"

definition enumdecl_closure_state :: cenum_decl where
  "enumdecl_closure_state = EnumDecl False [
     (''CLOSURE_BITS_START'', 67108864), (''CLOSURE_DESTRUCTOR'', 67108864),
     (''CLOSURE_WAITING'', 268435456), (''CLOSURE_RUNNING'', 1073741824)]"

definition enumdecl_cm_batt_temp :: cenum_decl where
  "enumdecl_cm_batt_temp = EnumDecl False [
     (''CM_BATT_OK'', 0), (''CM_BATT_OVERHEAT'', 1), (''CM_BATT_COLD'', 2)]"

definition enumdecl_cma_flags :: cenum_decl where
  "enumdecl_cma_flags = EnumDecl False [
     (''CMA_RESERVE_PAGES_ON_ERROR'', 0), (''CMA_ZONES_VALID'', 1), (''CMA_ZONES_INVALID'', 2),
     (''CMA_ACTIVATED'', 3)]"

definition enumdecl_cmd_type :: cenum_decl where
  "enumdecl_cmd_type = EnumDecl False [
     (''CMD_ADDR'', 1), (''CMD_LISTEN'', 2), (''CMD_OPT'', 4)]"

definition enumdecl_cmis_cdb_fw_write_mechanism :: cenum_decl where
  "enumdecl_cmis_cdb_fw_write_mechanism = EnumDecl False [
     (''CMIS_CDB_FW_WRITE_MECHANISM_NONE'', 0), (''CMIS_CDB_FW_WRITE_MECHANISM_LPL'', 1),
     (''CMIS_CDB_FW_WRITE_MECHANISM_EPL'', 16), (''CMIS_CDB_FW_WRITE_MECHANISM_BOTH'', 17)]"

definition enumdecl_compact_priority :: cenum_decl where
  "enumdecl_compact_priority = EnumDecl False [
     (''COMPACT_PRIO_SYNC_FULL'', 0), (''MIN_COMPACT_PRIORITY'', 0),
     (''COMPACT_PRIO_SYNC_LIGHT'', 1), (''MIN_COMPACT_COSTLY_PRIORITY'', 1),
     (''DEF_COMPACT_PRIORITY'', 1), (''COMPACT_PRIO_ASYNC'', 2), (''INIT_COMPACT_PRIORITY'', 2)]"

definition enumdecl_compact_result :: cenum_decl where
  "enumdecl_compact_result = EnumDecl False [
     (''COMPACT_NOT_SUITABLE_ZONE'', 0), (''COMPACT_SKIPPED'', 1), (''COMPACT_DEFERRED'', 2),
     (''COMPACT_NO_SUITABLE_PAGE'', 3), (''COMPACT_CONTINUE'', 4), (''COMPACT_COMPLETE'', 5),
     (''COMPACT_PARTIAL_SKIPPED'', 6), (''COMPACT_CONTENDED'', 7), (''COMPACT_SUCCESS'', 8)]"

definition enumdecl_con_flush_mode :: cenum_decl where
  "enumdecl_con_flush_mode = EnumDecl False [
     (''CONSOLE_FLUSH_PENDING'', 0), (''CONSOLE_REPLAY_ALL'', 1)]"

definition enumdecl_con_msg_format_flags :: cenum_decl where
  "enumdecl_con_msg_format_flags = EnumDecl False [
     (''MSG_FORMAT_DEFAULT'', 0), (''MSG_FORMAT_SYSLOG'', 1)]"

definition enumdecl_con_scroll :: cenum_decl where
  "enumdecl_con_scroll = EnumDecl False [
     (''SM_UP'', 0), (''SM_DOWN'', 1)]"

definition enumdecl_cons_flags :: cenum_decl where
  "enumdecl_cons_flags = EnumDecl False [
     (''CON_PRINTBUFFER'', 1), (''CON_CONSDEV'', 2), (''CON_ENABLED'', 4), (''CON_BOOT'', 8),
     (''CON_ANYTIME'', 16), (''CON_BRL'', 32), (''CON_EXTENDED'', 64), (''CON_SUSPENDED'', 128),
     (''CON_NBCON'', 256), (''CON_NBCON_ATOMIC_UNSAFE'', 512)]"

definition enumdecl_context :: cenum_decl where
  "enumdecl_context = EnumDecl False [
     (''IN_KERNEL'', 1), (''IN_USER'', 2), (''IN_KERNEL_RECOV'', 3)]"

definition enumdecl_coredump_mark :: cenum_decl where
  "enumdecl_coredump_mark = EnumDecl False [
     (''COREDUMP_MARK_REQACK'', 0), (''COREDUMP_MARK_MINSIZE'', 1),
     (''COREDUMP_MARK_MAXSIZE'', 2), (''COREDUMP_MARK_UNSUPPORTED'', 3),
     (''COREDUMP_MARK_CONFLICTING'', 4), (''__COREDUMP_MARK_MAX'', 2147483648)]"

lemma enumdecl_coredump_mark_4: "enum4 enumdecl_coredump_mark"
  by (unfold enumdecl_coredump_mark_def) (intro enum_uint_intros; simp)

definition enumdecl_coredump_type_t :: cenum_decl where
  "enumdecl_coredump_type_t = EnumDecl False [
     (''COREDUMP_FILE'', 1), (''COREDUMP_PIPE'', 2), (''COREDUMP_SOCK'', 3),
     (''COREDUMP_SOCK_REQ'', 4)]"

definition enumdecl_cp_error_code :: cenum_decl where
  "enumdecl_cp_error_code = EnumDecl False [
     (''CP_EC'', 32767), (''CP_RET'', 1), (''CP_IRET'', 2), (''CP_ENDBR'', 3),
     (''CP_RSTRORSSP'', 4), (''CP_SETSSBSY'', 5), (''CP_ENCL'', 32768)]"

definition enumdecl_cpa_warn :: cenum_decl where
  "enumdecl_cpa_warn = EnumDecl False [
     (''CPA_CONFLICT'', 0), (''CPA_PROTECT'', 1), (''CPA_DETECT'', 2)]"

definition enumdecl_cpio_fields :: cenum_decl where
  "enumdecl_cpio_fields = EnumDecl False [
     (''C_MAGIC'', 0), (''C_INO'', 1), (''C_MODE'', 2), (''C_UID'', 3), (''C_GID'', 4),
     (''C_NLINK'', 5), (''C_MTIME'', 6), (''C_FILESIZE'', 7), (''C_MAJ'', 8), (''C_MIN'', 9),
     (''C_RMAJ'', 10), (''C_RMIN'', 11), (''C_NAMESIZE'', 12), (''C_CHKSUM'', 13),
     (''C_NFIELDS'', 14)]"

definition enumdecl_cppc_regs :: cenum_decl where
  "enumdecl_cppc_regs = EnumDecl False [
     (''HIGHEST_PERF'', 0), (''NOMINAL_PERF'', 1), (''LOW_NON_LINEAR_PERF'', 2),
     (''LOWEST_PERF'', 3), (''GUARANTEED_PERF'', 4), (''DESIRED_PERF'', 5), (''MIN_PERF'', 6),
     (''MAX_PERF'', 7), (''PERF_REDUC_TOLERANCE'', 8), (''TIME_WINDOW'', 9),
     (''CTR_WRAP_TIME'', 10), (''REFERENCE_CTR'', 11), (''DELIVERED_CTR'', 12),
     (''PERF_LIMITED'', 13), (''ENABLE'', 14), (''AUTO_SEL_ENABLE'', 15),
     (''AUTO_ACT_WINDOW'', 16), (''ENERGY_PERF'', 17), (''REFERENCE_PERF'', 18),
     (''LOWEST_FREQ'', 19), (''NOMINAL_FREQ'', 20)]"

definition enumdecl_cpu_attack_vectors :: cenum_decl where
  "enumdecl_cpu_attack_vectors = EnumDecl False [
     (''CPU_MITIGATE_USER_KERNEL'', 0), (''CPU_MITIGATE_USER_USER'', 1),
     (''CPU_MITIGATE_GUEST_HOST'', 2), (''CPU_MITIGATE_GUEST_GUEST'', 3),
     (''NR_CPU_ATTACK_VECTORS'', 4)]"

definition enumdecl_cpu_idle_type :: cenum_decl where
  "enumdecl_cpu_idle_type = EnumDecl False [
     (''__CPU_NOT_IDLE'', 0), (''CPU_IDLE'', 1), (''CPU_NEWLY_IDLE'', 2),
     (''CPU_MAX_IDLE_TYPES'', 3)]"

definition enumdecl_cpu_led_event :: cenum_decl where
  "enumdecl_cpu_led_event = EnumDecl False [
     (''CPU_LED_IDLE_START'', 0), (''CPU_LED_IDLE_END'', 1), (''CPU_LED_START'', 2),
     (''CPU_LED_STOP'', 3), (''CPU_LED_HALTED'', 4)]"

definition enumdecl_cpu_mitigations :: cenum_decl where
  "enumdecl_cpu_mitigations = EnumDecl False [
     (''CPU_MITIGATIONS_OFF'', 0), (''CPU_MITIGATIONS_AUTO'', 1),
     (''CPU_MITIGATIONS_AUTO_NOSMT'', 2)]"

definition enumdecl_cpu_usage_stat :: cenum_decl where
  "enumdecl_cpu_usage_stat = EnumDecl False [
     (''CPUTIME_USER'', 0), (''CPUTIME_NICE'', 1), (''CPUTIME_SYSTEM'', 2),
     (''CPUTIME_SOFTIRQ'', 3), (''CPUTIME_IRQ'', 4), (''CPUTIME_IDLE'', 5),
     (''CPUTIME_IOWAIT'', 6), (''CPUTIME_STEAL'', 7), (''CPUTIME_GUEST'', 8),
     (''CPUTIME_GUEST_NICE'', 9), (''CPUTIME_FORCEIDLE'', 10), (''NR_STATS'', 11)]"

definition enumdecl_cpuacct_stat_index :: cenum_decl where
  "enumdecl_cpuacct_stat_index = EnumDecl False [
     (''CPUACCT_STAT_USER'', 0), (''CPUACCT_STAT_SYSTEM'', 1), (''CPUACCT_STAT_NSTATS'', 2)]"

definition enumdecl_cpufreq_table_sorting :: cenum_decl where
  "enumdecl_cpufreq_table_sorting = EnumDecl False [
     (''CPUFREQ_TABLE_UNSORTED'', 0), (''CPUFREQ_TABLE_SORTED_ASCENDING'', 1),
     (''CPUFREQ_TABLE_SORTED_DESCENDING'', 2)]"

definition enumdecl_cpuhp_smt_control :: cenum_decl where
  "enumdecl_cpuhp_smt_control = EnumDecl False [
     (''CPU_SMT_ENABLED'', 0), (''CPU_SMT_DISABLED'', 1), (''CPU_SMT_FORCE_DISABLED'', 2),
     (''CPU_SMT_NOT_SUPPORTED'', 3), (''CPU_SMT_NOT_IMPLEMENTED'', 4)]"

definition enumdecl_cpuhp_state :: cenum_decl where
  "enumdecl_cpuhp_state = EnumDecl False [
     (''CPUHP_INVALID'', - 1), (''CPUHP_OFFLINE'', 0), (''CPUHP_CREATE_THREADS'', 1),
     (''CPUHP_PERF_X86_PREPARE'', 2), (''CPUHP_PERF_X86_AMD_UNCORE_PREP'', 3),
     (''CPUHP_PERF_POWER'', 4), (''CPUHP_PERF_SUPERH'', 5), (''CPUHP_X86_HPET_DEAD'', 6),
     (''CPUHP_X86_MCE_DEAD'', 7), (''CPUHP_VIRT_NET_DEAD'', 8), (''CPUHP_IBMVNIC_DEAD'', 9),
     (''CPUHP_SLUB_DEAD'', 10), (''CPUHP_DEBUG_OBJ_DEAD'', 11),
     (''CPUHP_MM_WRITEBACK_DEAD'', 12), (''CPUHP_MM_VMSTAT_DEAD'', 13),
     (''CPUHP_SOFTIRQ_DEAD'', 14), (''CPUHP_NET_MVNETA_DEAD'', 15), (''CPUHP_CPUIDLE_DEAD'', 16),
     (''CPUHP_ARM64_FPSIMD_DEAD'', 17), (''CPUHP_ARM_OMAP_WAKE_DEAD'', 18),
     (''CPUHP_IRQ_POLL_DEAD'', 19), (''CPUHP_BLOCK_SOFTIRQ_DEAD'', 20), (''CPUHP_BIO_DEAD'', 21),
     (''CPUHP_ACPI_CPUDRV_DEAD'', 22), (''CPUHP_S390_PFAULT_DEAD'', 23),
     (''CPUHP_BLK_MQ_DEAD'', 24), (''CPUHP_FS_BUFF_DEAD'', 25), (''CPUHP_PRINTK_DEAD'', 26),
     (''CPUHP_MM_MEMCQ_DEAD'', 27), (''CPUHP_PERCPU_CNT_DEAD'', 28), (''CPUHP_RADIX_DEAD'', 29),
     (''CPUHP_PAGE_ALLOC'', 30), (''CPUHP_NET_DEV_DEAD'', 31), (''CPUHP_IOMMU_IOVA_DEAD'', 32),
     (''CPUHP_AP_ARM_CACHE_B15_RAC_DEAD'', 33), (''CPUHP_PADATA_DEAD'', 34),
     (''CPUHP_AP_DTPM_CPU_DEAD'', 35), (''CPUHP_RANDOM_PREPARE'', 36),
     (''CPUHP_WORKQUEUE_PREP'', 37), (''CPUHP_POWER_NUMA_PREPARE'', 38),
     (''CPUHP_HRTIMERS_PREPARE'', 39), (''CPUHP_X2APIC_PREPARE'', 40),
     (''CPUHP_SMPCFD_PREPARE'', 41), (''CPUHP_RELAY_PREPARE'', 42),
     (''CPUHP_MD_RAID5_PREPARE'', 43), (''CPUHP_RCUTREE_PREP'', 44),
     (''CPUHP_CPUIDLE_COUPLED_PREPARE'', 45), (''CPUHP_POWERPC_PMAC_PREPARE'', 46),
     (''CPUHP_POWERPC_MMU_CTX_PREPARE'', 47), (''CPUHP_XEN_PREPARE'', 48),
     (''CPUHP_XEN_EVTCHN_PREPARE'', 49), (''CPUHP_ARM_SHMOBILE_SCU_PREPARE'', 50),
     (''CPUHP_SH_SH3X_PREPARE'', 51), (''CPUHP_TOPOLOGY_PREPARE'', 52),
     (''CPUHP_NET_IUCV_PREPARE'', 53), (''CPUHP_ARM_BL_PREPARE'', 54),
     (''CPUHP_TRACE_RB_PREPARE'', 55), (''CPUHP_MM_ZSWP_POOL_PREPARE'', 56),
     (''CPUHP_KVM_PPC_BOOK3S_PREPARE'', 57), (''CPUHP_ZCOMP_PREPARE'', 58),
     (''CPUHP_TIMERS_PREPARE'', 59), (''CPUHP_TMIGR_PREPARE'', 60),
     (''CPUHP_MIPS_SOC_PREPARE'', 61), (''CPUHP_BP_PREPARE_DYN'', 62),
     (''CPUHP_BP_PREPARE_DYN_END'', 82), (''CPUHP_BP_KICK_AP'', 83), (''CPUHP_BRINGUP_CPU'', 84),
     (''CPUHP_AP_IDLE_DEAD'', 85), (''CPUHP_AP_OFFLINE'', 86),
     (''CPUHP_AP_CACHECTRL_STARTING'', 87), (''CPUHP_AP_SCHED_STARTING'', 88),
     (''CPUHP_AP_RCUTREE_DYING'', 89), (''CPUHP_AP_CPU_PM_STARTING'', 90),
     (''CPUHP_AP_IRQ_GIC_STARTING'', 91), (''CPUHP_AP_IRQ_HIP04_STARTING'', 92),
     (''CPUHP_AP_IRQ_APPLE_AIC_STARTING'', 93), (''CPUHP_AP_IRQ_ARMADA_XP_STARTING'', 94),
     (''CPUHP_AP_IRQ_BCM2836_STARTING'', 95), (''CPUHP_AP_IRQ_MIPS_GIC_STARTING'', 96),
     (''CPUHP_AP_IRQ_EIOINTC_STARTING'', 97), (''CPUHP_AP_IRQ_AVECINTC_STARTING'', 98),
     (''CPUHP_AP_IRQ_SIFIVE_PLIC_STARTING'', 99), (''CPUHP_AP_IRQ_ACLINT_SSWI_STARTING'', 100),
     (''CPUHP_AP_IRQ_RISCV_IMSIC_STARTING'', 101),
     (''CPUHP_AP_IRQ_RISCV_SBI_IPI_STARTING'', 102), (''CPUHP_AP_ARM_MVEBU_COHERENCY'', 103),
     (''CPUHP_AP_PERF_X86_AMD_UNCORE_STARTING'', 104), (''CPUHP_AP_PERF_X86_STARTING'', 105),
     (''CPUHP_AP_PERF_X86_AMD_IBS_STARTING'', 106), (''CPUHP_AP_PERF_XTENSA_STARTING'', 107),
     (''CPUHP_AP_ARM_VFP_STARTING'', 108), (''CPUHP_AP_ARM64_DEBUG_MONITORS_STARTING'', 109),
     (''CPUHP_AP_PERF_ARM_HW_BREAKPOINT_STARTING'', 110),
     (''CPUHP_AP_PERF_ARM_ACPI_STARTING'', 111), (''CPUHP_AP_PERF_ARM_STARTING'', 112),
     (''CPUHP_AP_PERF_RISCV_STARTING'', 113), (''CPUHP_AP_ARM_L2X0_STARTING'', 114),
     (''CPUHP_AP_EXYNOS4_MCT_TIMER_STARTING'', 115), (''CPUHP_AP_ARM_ARCH_TIMER_STARTING'', 116),
     (''CPUHP_AP_ARM_ARCH_TIMER_EVTSTRM_STARTING'', 117),
     (''CPUHP_AP_ARM_GLOBAL_TIMER_STARTING'', 118), (''CPUHP_AP_JCORE_TIMER_STARTING'', 119),
     (''CPUHP_AP_ARM_TWD_STARTING'', 120), (''CPUHP_AP_QCOM_TIMER_STARTING'', 121),
     (''CPUHP_AP_TEGRA_TIMER_STARTING'', 122), (''CPUHP_AP_ARMADA_TIMER_STARTING'', 123),
     (''CPUHP_AP_LOONGARCH_ARCH_TIMER_STARTING'', 124),
     (''CPUHP_AP_MIPS_GIC_TIMER_STARTING'', 125), (''CPUHP_AP_ARC_TIMER_STARTING'', 126),
     (''CPUHP_AP_REALTEK_TIMER_STARTING'', 127), (''CPUHP_AP_RISCV_TIMER_STARTING'', 128),
     (''CPUHP_AP_CLINT_TIMER_STARTING'', 129), (''CPUHP_AP_CSKY_TIMER_STARTING'', 130),
     (''CPUHP_AP_TI_GP_TIMER_STARTING'', 131), (''CPUHP_AP_HYPERV_TIMER_STARTING'', 132),
     (''CPUHP_AP_DUMMY_TIMER_STARTING'', 133), (''CPUHP_AP_ARM_XEN_STARTING'', 134),
     (''CPUHP_AP_ARM_XEN_RUNSTATE_STARTING'', 135), (''CPUHP_AP_ARM_CORESIGHT_STARTING'', 136),
     (''CPUHP_AP_ARM_CORESIGHT_CTI_STARTING'', 137), (''CPUHP_AP_ARM64_ISNDEP_STARTING'', 138),
     (''CPUHP_AP_SMPCFD_DYING'', 139), (''CPUHP_AP_HRTIMERS_DYING'', 140),
     (''CPUHP_AP_TICK_DYING'', 141), (''CPUHP_AP_X86_TBOOT_DYING'', 142),
     (''CPUHP_AP_ARM_CACHE_B15_RAC_DYING'', 143), (''CPUHP_AP_ONLINE'', 144),
     (''CPUHP_TEARDOWN_CPU'', 145), (''CPUHP_AP_ONLINE_IDLE'', 146),
     (''CPUHP_AP_HYPERV_ONLINE'', 147), (''CPUHP_AP_KVM_ONLINE'', 148),
     (''CPUHP_AP_SCHED_WAIT_EMPTY'', 149), (''CPUHP_AP_SMPBOOT_THREADS'', 150),
     (''CPUHP_AP_IRQ_AFFINITY_ONLINE'', 151), (''CPUHP_AP_BLK_MQ_ONLINE'', 152),
     (''CPUHP_AP_ARM_MVEBU_SYNC_CLOCKS'', 153), (''CPUHP_AP_X86_INTEL_EPB_ONLINE'', 154),
     (''CPUHP_AP_PERF_ONLINE'', 155), (''CPUHP_AP_PERF_X86_ONLINE'', 156),
     (''CPUHP_AP_PERF_X86_UNCORE_ONLINE'', 157), (''CPUHP_AP_PERF_X86_AMD_UNCORE_ONLINE'', 158),
     (''CPUHP_AP_PERF_X86_AMD_POWER_ONLINE'', 159), (''CPUHP_AP_PERF_S390_CF_ONLINE'', 160),
     (''CPUHP_AP_PERF_S390_SF_ONLINE'', 161), (''CPUHP_AP_PERF_ARM_CCI_ONLINE'', 162),
     (''CPUHP_AP_PERF_ARM_CCN_ONLINE'', 163), (''CPUHP_AP_PERF_ARM_HISI_CPA_ONLINE'', 164),
     (''CPUHP_AP_PERF_ARM_HISI_DDRC_ONLINE'', 165), (''CPUHP_AP_PERF_ARM_HISI_HHA_ONLINE'', 166),
     (''CPUHP_AP_PERF_ARM_HISI_L3_ONLINE'', 167), (''CPUHP_AP_PERF_ARM_HISI_PA_ONLINE'', 168),
     (''CPUHP_AP_PERF_ARM_HISI_SLLC_ONLINE'', 169),
     (''CPUHP_AP_PERF_ARM_HISI_PCIE_PMU_ONLINE'', 170),
     (''CPUHP_AP_PERF_ARM_HNS3_PMU_ONLINE'', 171), (''CPUHP_AP_PERF_ARM_L2X0_ONLINE'', 172),
     (''CPUHP_AP_PERF_ARM_QCOM_L2_ONLINE'', 173), (''CPUHP_AP_PERF_ARM_QCOM_L3_ONLINE'', 174),
     (''CPUHP_AP_PERF_ARM_APM_XGENE_ONLINE'', 175),
     (''CPUHP_AP_PERF_ARM_CAVIUM_TX2_UNCORE_ONLINE'', 176),
     (''CPUHP_AP_PERF_ARM_MARVELL_CN10K_DDR_ONLINE'', 177),
     (''CPUHP_AP_PERF_ARM_MRVL_PEM_ONLINE'', 178),
     (''CPUHP_AP_PERF_POWERPC_NEST_IMC_ONLINE'', 179),
     (''CPUHP_AP_PERF_POWERPC_CORE_IMC_ONLINE'', 180),
     (''CPUHP_AP_PERF_POWERPC_THREAD_IMC_ONLINE'', 181),
     (''CPUHP_AP_PERF_POWERPC_TRACE_IMC_ONLINE'', 182),
     (''CPUHP_AP_PERF_POWERPC_HV_24x7_ONLINE'', 183),
     (''CPUHP_AP_PERF_POWERPC_HV_GPCI_ONLINE'', 184), (''CPUHP_AP_PERF_CSKY_ONLINE'', 185),
     (''CPUHP_AP_TMIGR_ONLINE'', 186), (''CPUHP_AP_WATCHDOG_ONLINE'', 187),
     (''CPUHP_AP_WORKQUEUE_ONLINE'', 188), (''CPUHP_AP_RANDOM_ONLINE'', 189),
     (''CPUHP_AP_RCUTREE_ONLINE'', 190), (''CPUHP_AP_KTHREADS_ONLINE'', 191),
     (''CPUHP_AP_BASE_CACHEINFO_ONLINE'', 192), (''CPUHP_AP_ONLINE_DYN'', 193),
     (''CPUHP_AP_ONLINE_DYN_END'', 233), (''CPUHP_AP_X86_HPET_ONLINE'', 234),
     (''CPUHP_AP_X86_KVM_CLK_ONLINE'', 235), (''CPUHP_AP_ACTIVE'', 236), (''CPUHP_ONLINE'', 237)]"

definition enumdecl_cpuhp_sync_state :: cenum_decl where
  "enumdecl_cpuhp_sync_state = EnumDecl False [
     (''SYNC_STATE_DEAD'', 0), (''SYNC_STATE_KICKED'', 1), (''SYNC_STATE_SHOULD_DIE'', 2),
     (''SYNC_STATE_ALIVE'', 3), (''SYNC_STATE_SHOULD_ONLINE'', 4), (''SYNC_STATE_ONLINE'', 5)]"

definition enumdecl_cpuid_leafs :: cenum_decl where
  "enumdecl_cpuid_leafs = EnumDecl False [
     (''CPUID_1_EDX'', 0), (''CPUID_8000_0001_EDX'', 1), (''CPUID_8086_0001_EDX'', 2),
     (''CPUID_LNX_1'', 3), (''CPUID_1_ECX'', 4), (''CPUID_C000_0001_EDX'', 5),
     (''CPUID_8000_0001_ECX'', 6), (''CPUID_LNX_2'', 7), (''CPUID_LNX_3'', 8),
     (''CPUID_7_0_EBX'', 9), (''CPUID_D_1_EAX'', 10), (''CPUID_LNX_4'', 11),
     (''CPUID_7_1_EAX'', 12), (''CPUID_8000_0008_EBX'', 13), (''CPUID_6_EAX'', 14),
     (''CPUID_8000_000A_EDX'', 15), (''CPUID_7_ECX'', 16), (''CPUID_LNX_6'', 17),
     (''CPUID_7_EDX'', 18), (''CPUID_8000_001F_EAX'', 19), (''CPUID_8000_0021_EAX'', 20),
     (''CPUID_LNX_5'', 21), (''NR_CPUID_WORDS'', 22)]"

definition enumdecl_cpuid_regs_idx :: cenum_decl where
  "enumdecl_cpuid_regs_idx = EnumDecl False [
     (''CPUID_EAX'', 0), (''CPUID_EBX'', 1), (''CPUID_ECX'', 2), (''CPUID_EDX'', 3)]"

definition enumdecl_crb_cancel :: cenum_decl where
  "enumdecl_crb_cancel = EnumDecl False [
     (''CRB_CANCEL_INVOKE'', 1)]"

definition enumdecl_crb_ctrl_req :: cenum_decl where
  "enumdecl_crb_ctrl_req = EnumDecl False [
     (''CRB_CTRL_REQ_CMD_READY'', 1), (''CRB_CTRL_REQ_GO_IDLE'', 2)]"

definition enumdecl_crb_ctrl_sts :: cenum_decl where
  "enumdecl_crb_ctrl_sts = EnumDecl False [
     (''CRB_CTRL_STS_ERROR'', 1), (''CRB_CTRL_STS_TPM_IDLE'', 2)]"

definition enumdecl_crb_defaults :: cenum_decl where
  "enumdecl_crb_defaults = EnumDecl False [
     (''CRB_ACPI_START_REVISION_ID'', 1), (''CRB_ACPI_START_INDEX'', 1)]"

definition enumdecl_crb_loc_ctrl :: cenum_decl where
  "enumdecl_crb_loc_ctrl = EnumDecl False [
     (''CRB_LOC_CTRL_REQUEST_ACCESS'', 1), (''CRB_LOC_CTRL_RELINQUISH'', 2)]"

definition enumdecl_crb_loc_state :: cenum_decl where
  "enumdecl_crb_loc_state = EnumDecl False [
     (''CRB_LOC_STATE_LOC_ASSIGNED'', 2), (''CRB_LOC_STATE_TPM_REG_VALID_STS'', 128)]"

definition enumdecl_crb_start :: cenum_decl where
  "enumdecl_crb_start = EnumDecl False [
     (''CRB_START_INVOKE'', 1)]"

definition enumdecl_crb_status :: cenum_decl where
  "enumdecl_crb_status = EnumDecl False [
     (''CRB_DRV_STS_COMPLETE'', 1)]"

definition enumdecl_criteria :: cenum_decl where
  "enumdecl_criteria = EnumDecl False [
     (''CR_POWER2_ALIGNED'', 0), (''CR_GOAL_LEN_FAST'', 1), (''CR_BEST_AVAIL_LEN'', 2),
     (''CR_GOAL_LEN_SLOW'', 3), (''CR_ANY_FREE'', 4), (''EXT4_MB_NUM_CRS'', 5)]"

definition enumdecl_crypto_attr_type_t :: cenum_decl where
  "enumdecl_crypto_attr_type_t = EnumDecl False [
     (''CRYPTOCFGA_UNSPEC'', 0), (''CRYPTOCFGA_PRIORITY_VAL'', 1),
     (''CRYPTOCFGA_REPORT_LARVAL'', 2), (''CRYPTOCFGA_REPORT_HASH'', 3),
     (''CRYPTOCFGA_REPORT_BLKCIPHER'', 4), (''CRYPTOCFGA_REPORT_AEAD'', 5),
     (''CRYPTOCFGA_REPORT_COMPRESS'', 6), (''CRYPTOCFGA_REPORT_RNG'', 7),
     (''CRYPTOCFGA_REPORT_CIPHER'', 8), (''CRYPTOCFGA_REPORT_AKCIPHER'', 9),
     (''CRYPTOCFGA_REPORT_KPP'', 10), (''CRYPTOCFGA_REPORT_ACOMP'', 11),
     (''CRYPTOCFGA_STAT_LARVAL'', 12), (''CRYPTOCFGA_STAT_HASH'', 13),
     (''CRYPTOCFGA_STAT_BLKCIPHER'', 14), (''CRYPTOCFGA_STAT_AEAD'', 15),
     (''CRYPTOCFGA_STAT_COMPRESS'', 16), (''CRYPTOCFGA_STAT_RNG'', 17),
     (''CRYPTOCFGA_STAT_CIPHER'', 18), (''CRYPTOCFGA_STAT_AKCIPHER'', 19),
     (''CRYPTOCFGA_STAT_KPP'', 20), (''CRYPTOCFGA_STAT_ACOMP'', 21),
     (''CRYPTOCFGA_REPORT_SIG'', 22), (''__CRYPTOCFGA_MAX'', 23)]"

definition enumdecl_css_task_iter_flags :: cenum_decl where
  "enumdecl_css_task_iter_flags = EnumDecl False [
     (''CSS_TASK_ITER_PROCS'', 1), (''CSS_TASK_ITER_THREADED'', 2),
     (''CSS_TASK_ITER_SKIPPED'', 65536)]"

definition enumdecl_ctrl_offsets :: cenum_decl where
  "enumdecl_ctrl_offsets = EnumDecl False [
     (''BASE_OFFSET'', 0), (''SLOT_AVAIL1'', 4), (''SLOT_AVAIL2'', 8), (''SLOT_CONFIG'', 12),
     (''SEC_BUS_CONFIG'', 16), (''MSI_CTRL'', 18), (''PROG_INTERFACE'', 19), (''CMD'', 20),
     (''CMD_STATUS'', 22), (''INTR_LOC'', 24), (''SERR_LOC'', 28), (''SERR_INTR_ENABLE'', 32),
     (''SLOT1'', 36)]"

definition enumdecl_ctrl_register :: cenum_decl where
  "enumdecl_ctrl_register = EnumDecl False [
     (''CTRL_IN'', 0), (''CTRL_OUT'', 1)]"

definition enumdecl_ctx_state :: cenum_decl where
  "enumdecl_ctx_state = EnumDecl False [
     (''CT_STATE_DISABLED'', - 1), (''CT_STATE_KERNEL'', 0), (''CT_STATE_IDLE'', 1),
     (''CT_STATE_USER'', 2), (''CT_STATE_GUEST'', 3), (''CT_STATE_MAX'', 4)]"

definition enumdecl_cxl_event_type :: cenum_decl where
  "enumdecl_cxl_event_type = EnumDecl False [
     (''CXL_CPER_EVENT_GENERIC'', 0), (''CXL_CPER_EVENT_GEN_MEDIA'', 1),
     (''CXL_CPER_EVENT_DRAM'', 2), (''CXL_CPER_EVENT_MEM_MODULE'', 3),
     (''CXL_CPER_EVENT_MEM_SPARING'', 4)]"

definition enumdecl_d_real_type :: cenum_decl where
  "enumdecl_d_real_type = EnumDecl False [
     (''D_REAL_DATA'', 0), (''D_REAL_METADATA'', 1)]"

definition enumdecl_d_walk_ret :: cenum_decl where
  "enumdecl_d_walk_ret = EnumDecl False [
     (''D_WALK_CONTINUE'', 0), (''D_WALK_QUIT'', 1), (''D_WALK_NORETRY'', 2),
     (''D_WALK_SKIP'', 3)]"

definition enumdecl_da9052_chip_id :: cenum_decl where
  "enumdecl_da9052_chip_id = EnumDecl False [
     (''DA9052'', 0), (''DA9053_AA'', 1), (''DA9053_BA'', 2), (''DA9053_BB'', 3),
     (''DA9053_BC'', 4)]"

definition enumdecl_da9063_irqs :: cenum_decl where
  "enumdecl_da9063_irqs = EnumDecl False [
     (''DA9063_IRQ_ONKEY'', 0), (''DA9063_IRQ_ALARM'', 1), (''DA9063_IRQ_TICK'', 2),
     (''DA9063_IRQ_ADC_RDY'', 3), (''DA9063_IRQ_SEQ_RDY'', 4), (''DA9063_IRQ_WAKE'', 5),
     (''DA9063_IRQ_TEMP'', 6), (''DA9063_IRQ_COMP_1V2'', 7), (''DA9063_IRQ_LDO_LIM'', 8),
     (''DA9063_IRQ_REG_UVOV'', 9), (''DA9063_IRQ_DVC_RDY'', 10), (''DA9063_IRQ_VDD_MON'', 11),
     (''DA9063_IRQ_WARN'', 12), (''DA9063_IRQ_GPI0'', 13), (''DA9063_IRQ_GPI1'', 14),
     (''DA9063_IRQ_GPI2'', 15), (''DA9063_IRQ_GPI3'', 16), (''DA9063_IRQ_GPI4'', 17),
     (''DA9063_IRQ_GPI5'', 18), (''DA9063_IRQ_GPI6'', 19), (''DA9063_IRQ_GPI7'', 20),
     (''DA9063_IRQ_GPI8'', 21), (''DA9063_IRQ_GPI9'', 22), (''DA9063_IRQ_GPI10'', 23),
     (''DA9063_IRQ_GPI11'', 24), (''DA9063_IRQ_GPI12'', 25), (''DA9063_IRQ_GPI13'', 26),
     (''DA9063_IRQ_GPI14'', 27), (''DA9063_IRQ_GPI15'', 28)]"

definition enumdecl_da9063_page_sel_buf_fmt :: cenum_decl where
  "enumdecl_da9063_page_sel_buf_fmt = EnumDecl False [
     (''DA9063_PAGE_SEL_BUF_PAGE_REG'', 0), (''DA9063_PAGE_SEL_BUF_PAGE_VAL'', 1),
     (''DA9063_PAGE_SEL_BUF_SIZE'', 2)]"

definition enumdecl_da9063_page_sel_msgs :: cenum_decl where
  "enumdecl_da9063_page_sel_msgs = EnumDecl False [
     (''DA9063_PAGE_SEL_MSG'', 0), (''DA9063_PAGE_SEL_CNT'', 1)]"

definition enumdecl_da9063_paged_read_msgs :: cenum_decl where
  "enumdecl_da9063_paged_read_msgs = EnumDecl False [
     (''DA9063_PAGED_READ_MSG_REG_SEL'', 0), (''DA9063_PAGED_READ_MSG_DATA'', 1),
     (''DA9063_PAGED_READ_MSG_CNT'', 2)]"

definition enumdecl_da9063_type :: cenum_decl where
  "enumdecl_da9063_type = EnumDecl False [
     (''PMIC_TYPE_DA9063'', 0), (''PMIC_TYPE_DA9063L'', 1)]"

definition enumdecl_da9063_variant_codes :: cenum_decl where
  "enumdecl_da9063_variant_codes = EnumDecl False [
     (''PMIC_DA9063_AD'', 3), (''PMIC_DA9063_BB'', 5), (''PMIC_DA9063_CA'', 6),
     (''PMIC_DA9063_DA'', 7), (''PMIC_DA9063_EA'', 8)]"

definition enumdecl_data_formats :: cenum_decl where
  "enumdecl_data_formats = EnumDecl False [
     (''DATA_FMT_DIGEST'', 0), (''DATA_FMT_DIGEST_WITH_ALGO'', 1),
     (''DATA_FMT_DIGEST_WITH_TYPE_AND_ALGO'', 2), (''DATA_FMT_STRING'', 3),
     (''DATA_FMT_HEX'', 4), (''DATA_FMT_UINT'', 5)]"

definition enumdecl_data_source :: cenum_decl where
  "enumdecl_data_source = EnumDecl False [
     (''CM_BATTERY_PRESENT'', 0), (''CM_NO_BATTERY'', 1), (''CM_FUEL_GAUGE'', 2),
     (''CM_CHARGER_STAT'', 3)]"

definition enumdecl_dax_access_mode :: cenum_decl where
  "enumdecl_dax_access_mode = EnumDecl False [
     (''DAX_ACCESS'', 0), (''DAX_RECOVERY_WRITE'', 1)]"

definition enumdecl_dax_device_flags :: cenum_decl where
  "enumdecl_dax_device_flags = EnumDecl False [
     (''DAXDEV_ALIVE'', 0), (''DAXDEV_WRITE_CACHE'', 1), (''DAXDEV_SYNC'', 2),
     (''DAXDEV_NOCACHE'', 3), (''DAXDEV_NOMC'', 4)]"

definition enumdecl_dax_driver_type :: cenum_decl where
  "enumdecl_dax_driver_type = EnumDecl False [
     (''DAXDRV_KMEM_TYPE'', 0), (''DAXDRV_DEVICE_TYPE'', 1)]"

definition enumdecl_dax_wake_mode :: cenum_decl where
  "enumdecl_dax_wake_mode = EnumDecl False [
     (''WAKE_ALL'', 0), (''WAKE_NEXT'', 1)]"

definition enumdecl_dbc_state :: cenum_decl where
  "enumdecl_dbc_state = EnumDecl False [
     (''DS_DISABLED'', 0), (''DS_INITIALIZED'', 1), (''DS_ENABLED'', 2), (''DS_CONNECTED'', 3),
     (''DS_CONFIGURED'', 4), (''DS_MAX'', 5)]"

definition enumdecl_dbgfs_get_mode :: cenum_decl where
  "enumdecl_dbgfs_get_mode = EnumDecl False [
     (''DBGFS_GET_ALREADY'', 0), (''DBGFS_GET_REGULAR'', 1), (''DBGFS_GET_SHORT'', 2)]"

definition enumdecl_dcb_general_attr_values :: cenum_decl where
  "enumdecl_dcb_general_attr_values = EnumDecl False [
     (''DCB_ATTR_VALUE_UNDEFINED'', 255)]"

definition enumdecl_dcbevent_notif_type :: cenum_decl where
  "enumdecl_dcbevent_notif_type = EnumDecl False [
     (''DCB_APP_EVENT'', 1)]"

definition enumdecl_dcbnl_app_attrs :: cenum_decl where
  "enumdecl_dcbnl_app_attrs = EnumDecl False [
     (''DCB_APP_ATTR_UNDEFINED'', 0), (''DCB_APP_ATTR_IDTYPE'', 1), (''DCB_APP_ATTR_ID'', 2),
     (''DCB_APP_ATTR_PRIORITY'', 3), (''__DCB_APP_ATTR_ENUM_MAX'', 4), (''DCB_APP_ATTR_MAX'', 3)]"

definition enumdecl_dcbnl_attrs :: cenum_decl where
  "enumdecl_dcbnl_attrs = EnumDecl False [
     (''DCB_ATTR_UNDEFINED'', 0), (''DCB_ATTR_IFNAME'', 1), (''DCB_ATTR_STATE'', 2),
     (''DCB_ATTR_PFC_STATE'', 3), (''DCB_ATTR_PFC_CFG'', 4), (''DCB_ATTR_NUM_TC'', 5),
     (''DCB_ATTR_PG_CFG'', 6), (''DCB_ATTR_SET_ALL'', 7), (''DCB_ATTR_PERM_HWADDR'', 8),
     (''DCB_ATTR_CAP'', 9), (''DCB_ATTR_NUMTCS'', 10), (''DCB_ATTR_BCN'', 11),
     (''DCB_ATTR_APP'', 12), (''DCB_ATTR_IEEE'', 13), (''DCB_ATTR_DCBX'', 14),
     (''DCB_ATTR_FEATCFG'', 15), (''DCB_ATTR_CEE'', 16), (''__DCB_ATTR_ENUM_MAX'', 17),
     (''DCB_ATTR_MAX'', 16)]"

definition enum_decls_9 :: "cenum_decl list" where
  "enum_decls_9 = [
     enumdecl_bpf_func_id, enumdecl_bpf_hdr_start_off, enumdecl_bpf_iter_feature,
     enumdecl_bpf_iter_state, enumdecl_bpf_iter_task_type, enumdecl_bpf_jit_poke_reason,
     enumdecl_bpf_kfunc_flags, enumdecl_bpf_link_type, enumdecl_bpf_lru_list_type,
     enumdecl_bpf_lwt_encap_mode, enumdecl_bpf_map_type, enumdecl_bpf_netdev_command,
     enumdecl_bpf_perf_event_type, enumdecl_bpf_prog_type, enumdecl_bpf_reg_type,
     enumdecl_bpf_ret_code, enumdecl_bpf_return_type, enumdecl_bpf_stack_build_id_status,
     enumdecl_bpf_stack_slot_type, enumdecl_bpf_stats_type, enumdecl_bpf_stream_id,
     enumdecl_bpf_struct_ops_state, enumdecl_bpf_struct_walk_result, enumdecl_bpf_task_fd_type,
     enumdecl_bpf_task_vma_iter_find_op, enumdecl_bpf_task_work_state,
     enumdecl_bpf_text_poke_type, enumdecl_bpf_tramp_prog_type, enumdecl_bpf_type,
     enumdecl_bpf_type_flag, enumdecl_bpf_xdp_mode, enumdecl_btf_arg_tag,
     enumdecl_btf_field_iter_kind, enumdecl_btf_field_type, enumdecl_btf_func_linkage,
     enumdecl_btf_kfunc_hook, enumdecl_bug_trap_type, enumdecl_bus_notifier_event,
     enumdecl_cache_indexing, enumdecl_cache_mode, enumdecl_cache_tag_type, enumdecl_cache_type,
     enumdecl_cache_write_policy, enumdecl_cc_attr, enumdecl_cc_vendor,
     enumdecl_cdrom_print_option, enumdecl_cee_attrs, enumdecl_cfg80211_signal_type,
     enumdecl_cfi_mode, enumdecl_cgroup1_param, enumdecl_cgroup2_param,
     enumdecl_cgroup_attach_lock_mode, enumdecl_cgroup_bpf_attach_type, enumdecl_cgroup_filetype,
     enumdecl_cgroup_lifetime_events, enumdecl_cgroup_opt_features, enumdecl_cgroup_subsys_id,
     enumdecl_chacha20poly1305_lengths, enumdecl_chacha_constants, enumdecl_chipset_type,
     enumdecl_class_map_type, enumdecl_class_stat_type, enumdecl_cleanup_prefix_rt_t,
     enumdecl_clear_refs_types, enumdecl_clock_event_state, enumdecl_clocksource_ids,
     enumdecl_closure_state, enumdecl_cm_batt_temp, enumdecl_cma_flags, enumdecl_cmd_type,
     enumdecl_cmis_cdb_fw_write_mechanism, enumdecl_compact_priority, enumdecl_compact_result,
     enumdecl_con_flush_mode, enumdecl_con_msg_format_flags, enumdecl_con_scroll,
     enumdecl_cons_flags, enumdecl_context, enumdecl_coredump_mark, enumdecl_coredump_type_t,
     enumdecl_cp_error_code, enumdecl_cpa_warn, enumdecl_cpio_fields, enumdecl_cppc_regs,
     enumdecl_cpu_attack_vectors, enumdecl_cpu_idle_type, enumdecl_cpu_led_event,
     enumdecl_cpu_mitigations, enumdecl_cpu_usage_stat, enumdecl_cpuacct_stat_index,
     enumdecl_cpufreq_table_sorting, enumdecl_cpuhp_smt_control, enumdecl_cpuhp_state,
     enumdecl_cpuhp_sync_state, enumdecl_cpuid_leafs, enumdecl_cpuid_regs_idx,
     enumdecl_crb_cancel, enumdecl_crb_ctrl_req, enumdecl_crb_ctrl_sts, enumdecl_crb_defaults,
     enumdecl_crb_loc_ctrl, enumdecl_crb_loc_state, enumdecl_crb_start, enumdecl_crb_status,
     enumdecl_criteria, enumdecl_crypto_attr_type_t, enumdecl_css_task_iter_flags,
     enumdecl_ctrl_offsets, enumdecl_ctrl_register, enumdecl_ctx_state, enumdecl_cxl_event_type,
     enumdecl_d_real_type, enumdecl_d_walk_ret, enumdecl_da9052_chip_id, enumdecl_da9063_irqs,
     enumdecl_da9063_page_sel_buf_fmt, enumdecl_da9063_page_sel_msgs,
     enumdecl_da9063_paged_read_msgs, enumdecl_da9063_type, enumdecl_da9063_variant_codes,
     enumdecl_data_formats, enumdecl_data_source, enumdecl_dax_access_mode,
     enumdecl_dax_device_flags, enumdecl_dax_driver_type, enumdecl_dax_wake_mode,
     enumdecl_dbc_state, enumdecl_dbgfs_get_mode, enumdecl_dcb_general_attr_values,
     enumdecl_dcbevent_notif_type, enumdecl_dcbnl_app_attrs, enumdecl_dcbnl_attrs]"

lemma enum_decls_9_4: "list_all enum4 enum_decls_9"
  by (unfold enum_decls_9_def
     enumdecl_bpf_func_id_def enumdecl_bpf_hdr_start_off_def enumdecl_bpf_iter_feature_def
     enumdecl_bpf_iter_state_def enumdecl_bpf_iter_task_type_def
     enumdecl_bpf_jit_poke_reason_def enumdecl_bpf_kfunc_flags_def enumdecl_bpf_link_type_def
     enumdecl_bpf_lru_list_type_def enumdecl_bpf_lwt_encap_mode_def enumdecl_bpf_map_type_def
     enumdecl_bpf_netdev_command_def enumdecl_bpf_perf_event_type_def
     enumdecl_bpf_prog_type_def enumdecl_bpf_reg_type_def enumdecl_bpf_ret_code_def
     enumdecl_bpf_return_type_def enumdecl_bpf_stack_build_id_status_def
     enumdecl_bpf_stack_slot_type_def enumdecl_bpf_stats_type_def enumdecl_bpf_stream_id_def
     enumdecl_bpf_struct_ops_state_def enumdecl_bpf_struct_walk_result_def
     enumdecl_bpf_task_fd_type_def enumdecl_bpf_task_vma_iter_find_op_def
     enumdecl_bpf_task_work_state_def enumdecl_bpf_text_poke_type_def
     enumdecl_bpf_tramp_prog_type_def enumdecl_bpf_type_def enumdecl_bpf_type_flag_def
     enumdecl_bpf_xdp_mode_def enumdecl_btf_arg_tag_def enumdecl_btf_field_iter_kind_def
     enumdecl_btf_field_type_def enumdecl_btf_func_linkage_def enumdecl_btf_kfunc_hook_def
     enumdecl_bug_trap_type_def enumdecl_bus_notifier_event_def enumdecl_cache_indexing_def
     enumdecl_cache_mode_def enumdecl_cache_tag_type_def enumdecl_cache_type_def
     enumdecl_cache_write_policy_def enumdecl_cc_attr_def enumdecl_cc_vendor_def
     enumdecl_cdrom_print_option_def enumdecl_cee_attrs_def enumdecl_cfg80211_signal_type_def
     enumdecl_cfi_mode_def enumdecl_cgroup1_param_def enumdecl_cgroup2_param_def
     enumdecl_cgroup_attach_lock_mode_def enumdecl_cgroup_bpf_attach_type_def
     enumdecl_cgroup_filetype_def enumdecl_cgroup_lifetime_events_def
     enumdecl_cgroup_opt_features_def enumdecl_cgroup_subsys_id_def
     enumdecl_chacha20poly1305_lengths_def enumdecl_chacha_constants_def
     enumdecl_chipset_type_def enumdecl_class_map_type_def enumdecl_class_stat_type_def
     enumdecl_cleanup_prefix_rt_t_def enumdecl_clear_refs_types_def
     enumdecl_clock_event_state_def enumdecl_clocksource_ids_def enumdecl_closure_state_def
     enumdecl_cm_batt_temp_def enumdecl_cma_flags_def enumdecl_cmd_type_def
     enumdecl_cmis_cdb_fw_write_mechanism_def enumdecl_compact_priority_def
     enumdecl_compact_result_def enumdecl_con_flush_mode_def enumdecl_con_msg_format_flags_def
     enumdecl_con_scroll_def enumdecl_cons_flags_def enumdecl_context_def
     enumdecl_coredump_type_t_def enumdecl_cp_error_code_def enumdecl_cpa_warn_def
     enumdecl_cpio_fields_def enumdecl_cppc_regs_def enumdecl_cpu_attack_vectors_def
     enumdecl_cpu_idle_type_def enumdecl_cpu_led_event_def enumdecl_cpu_mitigations_def
     enumdecl_cpu_usage_stat_def enumdecl_cpuacct_stat_index_def
     enumdecl_cpufreq_table_sorting_def enumdecl_cpuhp_smt_control_def
     enumdecl_cpuhp_state_def enumdecl_cpuhp_sync_state_def enumdecl_cpuid_leafs_def
     enumdecl_cpuid_regs_idx_def enumdecl_crb_cancel_def enumdecl_crb_ctrl_req_def
     enumdecl_crb_ctrl_sts_def enumdecl_crb_defaults_def enumdecl_crb_loc_ctrl_def
     enumdecl_crb_loc_state_def enumdecl_crb_start_def enumdecl_crb_status_def
     enumdecl_criteria_def enumdecl_crypto_attr_type_t_def enumdecl_css_task_iter_flags_def
     enumdecl_ctrl_offsets_def enumdecl_ctrl_register_def enumdecl_ctx_state_def
     enumdecl_cxl_event_type_def enumdecl_d_real_type_def enumdecl_d_walk_ret_def
     enumdecl_da9052_chip_id_def enumdecl_da9063_irqs_def enumdecl_da9063_page_sel_buf_fmt_def
     enumdecl_da9063_page_sel_msgs_def enumdecl_da9063_paged_read_msgs_def
     enumdecl_da9063_type_def enumdecl_da9063_variant_codes_def enumdecl_data_formats_def
     enumdecl_data_source_def enumdecl_dax_access_mode_def enumdecl_dax_device_flags_def
     enumdecl_dax_driver_type_def enumdecl_dax_wake_mode_def enumdecl_dbc_state_def
     enumdecl_dbgfs_get_mode_def enumdecl_dcb_general_attr_values_def
     enumdecl_dcbevent_notif_type_def enumdecl_dcbnl_app_attrs_def enumdecl_dcbnl_attrs_def)
    (intro enum_list_intros enum_int_intros enumdecl_coredump_mark_4; simp)

lemma length_enum_decls_9: "length enum_decls_9 = 132"
  by (simp add: enum_decls_9_def)

end
