(* ===== verification/BpfObject.thy ===== *)
theory BpfObject
  imports VmlinuxEvents VmlinuxEnum9
begin

text \<open>
  What \<open>src/internal/ebpf/block_latency.c\<close> declares besides code: the two maps of the section
  \<open>.maps\<close> with their kinds, sizes and the C types of their keys and values, the two programs
  with their sections and the structure types of their contexts, and the licence. The kinds
  are enumerators of \<open>enum bpf_map_type\<close> of \<open>src/internal/ebpf/vmlinux.h\<close>.
\<close>

section \<open>Declarations\<close>

record map_decl =
  map_type :: "int option"
  map_max_entries :: nat
  map_key :: ctype
  map_value :: ctype

definition start_times_decl :: map_decl where
  "start_times_decl =
     \<lparr>map_type = enumerator enumdecl_bpf_map_type ''BPF_MAP_TYPE_HASH'',
      map_max_entries = 10240,
      map_key = c_u64,
      map_value = c_u64\<rparr>"

definition io_latency_hist_decl :: map_decl where
  "io_latency_hist_decl =
     \<lparr>map_type = enumerator enumdecl_bpf_map_type ''BPF_MAP_TYPE_ARRAY'',
      map_max_entries = unat HIST_BUCKETS,
      map_key = c_u32,
      map_value = c_u64\<rparr>"

record prog_decl =
  prog_section :: string
  prog_context :: ctype

definition trace_rq_issue_decl :: prog_decl where
  "trace_rq_issue_decl =
     \<lparr>prog_section = ''tracepoint/block/block_rq_issue'',
      prog_context = trace_event_raw_block_rq\<rparr>"

definition trace_rq_complete_decl :: prog_decl where
  "trace_rq_complete_decl =
     \<lparr>prog_section = ''tracepoint/block/block_rq_complete'',
      prog_context = trace_event_raw_block_rq_completion\<rparr>"

definition LICENSE :: string where
  "LICENSE = ''GPL''"

text \<open>The object file: maps and programs by symbol, in the order of the source.\<close>

record bpf_object =
  obj_maps :: "(string \<times> map_decl) list"
  obj_programs :: "(string \<times> prog_decl) list"
  obj_license :: string

definition block_latency_obj :: bpf_object where
  "block_latency_obj =
     \<lparr>obj_maps = [(''start_times'', start_times_decl), (''io_latency_hist'', io_latency_hist_decl)],
      obj_programs = [(''trace_rq_issue'', trace_rq_issue_decl),
        (''trace_rq_complete'', trace_rq_complete_decl)],
      obj_license = LICENSE\<rparr>"

section \<open>Sizes\<close>

lemma c_word_sizes [simp]: "size_of c_u64 = 8" "size_of c_u32 = 4"
  by (simp_all add: c_u64_def c___u64_def c_u32_def c___u32_def)

lemma decl_entries:
  "map_max_entries start_times_decl = start_times_max_entries"
  "map_max_entries io_latency_hist_decl = io_latency_hist_max_entries"
  by (simp_all add: start_times_decl_def io_latency_hist_decl_def start_times_max_entries_def
      io_latency_hist_max_entries_def)

lemma decl_sizes:
  "size_of (map_key start_times_decl) = 8" "size_of (map_value start_times_decl) = 8"
  "size_of (map_key io_latency_hist_decl) = 4" "size_of (map_value io_latency_hist_decl) = 8"
  by (simp_all add: start_times_decl_def io_latency_hist_decl_def)

lemma map_kinds:
  "enumerator enumdecl_bpf_map_type ''BPF_MAP_TYPE_HASH'' = Some 1"
  "enumerator enumdecl_bpf_map_type ''BPF_MAP_TYPE_ARRAY'' = Some 2"
  by code_simp+

text \<open>The context types of the programs are tracepoint contexts.\<close>

lemma program_contexts_sound:
  "event_ok (prog_context trace_rq_issue_decl)" "event_ok (prog_context trace_rq_complete_decl)"
  unfolding trace_rq_issue_decl_def trace_rq_complete_decl_def by code_simp+

end
