(* ===== verification/ByteMaps.thy ===== *)
theory ByteMaps
  imports BpfObject
begin

text \<open>
  The maps of \<open>src/internal/ebpf/block_latency.c\<close> as the kernel keeps them: keys and values are
  byte sequences of the declared sizes, in the byte order of the target. The typed maps of
  \<open>BpfMaps\<close> are views of them through encodings; \<open>encoded_hash\<close> and \<open>encoded_array\<close> show once
  and for all that a view through an injective encoding obeys the same laws, so everything
  proved over those laws holds for the bytes.
\<close>

section \<open>Views through an encoding\<close>

locale encoded_hash = raw: bpf_hash lookup update delete invar max_entries
  for lookup :: "'h \<Rightarrow> 'b \<Rightarrow> 'c option" and update delete invar max_entries +
  fixes enc :: "'k \<Rightarrow> 'b" and venc :: "'v \<Rightarrow> 'c" and vdec :: "'c \<Rightarrow> 'v"
  assumes enc_inj: "inj enc" and vdec_venc: "vdec (venc v) = v"
begin

definition view_lookup :: "'h \<Rightarrow> 'k \<Rightarrow> 'v option" where
  "view_lookup m k = map_option vdec (lookup m (enc k))"

definition view_invar :: "'h \<Rightarrow> bool" where
  "view_invar m \<longleftrightarrow> invar m \<and> dom (lookup m) \<subseteq> range enc"

lemma dom_view: "dom (view_lookup m) = enc -` dom (lookup m)"
  by (auto simp: view_lookup_def)

lemma card_view: "view_invar m \<Longrightarrow> card (dom (view_lookup m)) = card (dom (lookup m))"
  unfolding dom_view by (rule card_vimage_inj [OF enc_inj]) (simp add: view_invar_def)

lemma has_room_view:
  "view_invar m \<Longrightarrow> has_room n (view_lookup m) k \<longleftrightarrow> has_room n (lookup m) (enc k)"
  by (simp add: has_room_def card_view) (simp add: dom_view)

lemma view_update:
  "lookup m' = (lookup m)(enc k \<mapsto> venc v) \<Longrightarrow> view_lookup m' = (view_lookup m)(k \<mapsto> v)"
  using enc_inj by (auto simp: view_lookup_def fun_eq_iff vdec_venc inj_eq)

lemma view_delete:
  "lookup m' = (lookup m)(enc k := None) \<Longrightarrow> view_lookup m' = (view_lookup m)(k := None)"
  using enc_inj by (auto simp: view_lookup_def fun_eq_iff inj_eq)

sublocale view: bpf_hash view_lookup "\<lambda>m k v. update m (enc k) (venc v)" "\<lambda>m k. delete m (enc k)"
  view_invar max_entries
proof unfold_locales
  fix m k v
  assume inv: "view_invar m"
  then have i: "invar m" and sub: "dom (lookup m) \<subseteq> range enc" by (simp_all add: view_invar_def)
  show "finite (dom (view_lookup m))"
    unfolding dom_view using raw.finite_keys [OF i] enc_inj by (rule finite_vimageI)
  show "card (dom (view_lookup m)) \<le> max_entries"
    using raw.bounded [OF i] by (simp add: card_view [OF inv])
  show "fst (update m (enc k) (venc v)) = 0 \<and>
      view_lookup (snd (update m (enc k) (venc v))) = (view_lookup m)(k \<mapsto> v)"
    if "has_room max_entries (view_lookup m) k"
    using raw.update_room [OF i, of "enc k" "venc v"] that
    by (simp add: has_room_view [OF inv] view_update)
  show "fst (update m (enc k) (venc v)) < 0 \<and>
      view_lookup (snd (update m (enc k) (venc v))) = view_lookup m"
    if "\<not> has_room max_entries (view_lookup m) k"
    using raw.update_full [OF i, of "enc k" "venc v"] that
    by (simp add: has_room_view [OF inv] view_lookup_def fun_eq_iff)
  show "view_lookup (snd (delete m (enc k))) = (view_lookup m)(k := None)"
    using raw.delete_entry [OF i] by (rule view_delete)
  show "fst (delete m (enc k)) = 0 \<longleftrightarrow> k \<in> dom (view_lookup m)"
    using raw.delete_code [OF i, of "enc k"] by (simp add: dom_view)
  show "view_invar (snd (update m (enc k) (venc v)))"
    using raw.invar_update [OF i] raw.lookup_update [OF i, of "enc k" "venc v"] sub
    by (auto simp: view_invar_def)
  show "view_invar (snd (delete m (enc k)))"
    using raw.invar_delete [OF i] raw.delete_entry [OF i, of "enc k"] sub
    by (auto simp: view_invar_def)
qed

end

section \<open>Encodings of the target\<close>

lemma le_bytes_val: "le_bytes (length bs) (le_val bs) = bs"
proof (induction bs)
  case (Cons b bs)
  have "(unat b + 256 * le_val bs) mod 256 = unat b" "(unat b + 256 * le_val bs) div 256 = le_val bs"
    using unat_u8_lt [of b] by simp_all
  then show ?case using Cons by simp
qed simp

lemma val_bytes_val: "length bs = n \<Longrightarrow> val_bytes e n (bytes_val e bs) = bs"
  by (cases e) (use le_bytes_val [of bs] le_bytes_val [of "rev bs"] in auto)

definition enc64 :: "endian \<Rightarrow> u64 \<Rightarrow> u8 list" where
  "enc64 e w = val_bytes e 8 (unat w)"

definition dec64 :: "endian \<Rightarrow> u8 list \<Rightarrow> u64" where
  "dec64 e bs = word_of_nat (bytes_val e bs)"

definition enc32 :: "endian \<Rightarrow> u32 \<Rightarrow> u8 list" where
  "enc32 e w = val_bytes e 4 (unat w)"

lemma dec64_enc64 [simp]: "dec64 e (enc64 e w) = w"
  using unat_u64_lt [of w] by (simp add: enc64_def dec64_def bytes_val_bytes)

lemma bytes_val_enc32 [simp]: "bytes_val e (enc32 e w) = unat w"
  using unat_u32_lt [of w] by (simp add: enc32_def bytes_val_bytes)

lemma length_enc64 [simp]: "length (enc64 e w) = 8"
  by (simp add: enc64_def)

lemma enc64_inj: "inj (enc64 e)"
  by (rule injI) (metis dec64_enc64)

lemma enc64_range: "length bs = 8 \<Longrightarrow> bs \<in> range (enc64 e)"
proof -
  assume len: "length bs = 8"
  have "le_val cs < 256 ^ length cs" for cs
  proof (induction cs)
    case (Cons c cs)
    then show ?case using unat_u8_lt [of c] by simp
  qed simp
  then have "bytes_val e bs < 256 ^ 8" using len by (cases e) (metis bytes_val.simps(1), metis bytes_val.simps(2) length_rev)
  then have "unat (word_of_nat (bytes_val e bs) :: u64) = bytes_val e bs" by (simp add: unat_of_nat)
  then have "enc64 e (dec64 e bs) = bs" using val_bytes_val [OF len] by (simp add: enc64_def dec64_def)
  then show ?thesis by (metis rangeI)
qed


section \<open>The maps as bytes\<close>

text \<open>
  A hash map is an association list from key bytes to value bytes. An array map is the list of
  its values; the kernel reads the index out of the four key bytes.
\<close>

definition raw_array_lookup :: "endian \<Rightarrow> u8 list list \<Rightarrow> u8 list \<Rightarrow> u8 list option" where
  "raw_array_lookup e a ib =
     (let i = bytes_val e ib in if i < length a then Some (a ! i) else None)"

definition raw_array_update ::
  "endian \<Rightarrow> u8 list list \<Rightarrow> u8 list \<Rightarrow> u8 list \<Rightarrow> int \<times> u8 list list" where
  "raw_array_update e a ib vb =
     (let i = bytes_val e ib in if i < length a then (0, a[i := vb]) else (- E2BIG, a))"

text \<open>
  The calls of the program on these maps: it passes the addresses of its \<open>u64\<close> and \<open>u32\<close>
  variables, so the helpers see their bytes, and it reads \<open>*start\<close> and \<open>*count\<close> out of the
  value bytes.
\<close>

definition byte_helpers :: "endian \<Rightarrow> ((u8 list \<times> u8 list) list, u8 list list) bpf_helpers" where
  "byte_helpers e =
     \<lparr>start_lookup = (\<lambda>m k. map_option (dec64 e) (map_of m (enc64 e k))),
      start_update = (\<lambda>m k v. hash_update start_times_max_entries m (enc64 e k) (enc64 e v)),
      start_delete = (\<lambda>m k. hash_delete m (enc64 e k)),
      hist_lookup = (\<lambda>a i. map_option (dec64 e) (raw_array_lookup e a (enc32 e i))),
      hist_update = (\<lambda>a i v. raw_array_update e a (enc32 e i) (enc64 e v))\<rparr>"

definition byte_initial :: "((u8 list \<times> u8 list) list, u8 list list) bpf_maps" where
  "byte_initial =
     \<lparr>start_times = [],
      io_latency_hist = replicate io_latency_hist_max_entries (replicate 8 0)\<rparr>"

interpretation byte_hash: encoded_hash map_of "hash_update cap" hash_delete "hash_invar cap" cap
  "enc64 e" "enc64 e" "dec64 e"
  for cap e
  by (intro encoded_hash.intro encoded_hash_axioms.intro hash_map.bpf_hash_axioms)
    (simp_all add: enc64_inj)

interpretation byte_array: bpf_array
  "\<lambda>a i. map_option (dec64 e) (raw_array_lookup e a (enc32 e i))"
  "\<lambda>a i v. raw_array_update e a (enc32 e i) (enc64 e v)"
  "\<lambda>a. length a = n" n
  for e n
  by unfold_locales
    (auto simp: raw_array_lookup_def raw_array_update_def E2BIG_def Let_def fun_eq_iff
      nth_list_update dest: unsigned_word_eqI)

text \<open>So the handlers on the byte maps obey the same laws, whatever the byte order.\<close>

interpretation byte_maps: latency_maps "byte_helpers e"
  "byte_hash.view_invar start_times_max_entries e" start_times_max_entries
  "\<lambda>a. length a = io_latency_hist_max_entries" io_latency_hist_max_entries
  for e
  unfolding byte_helpers_def
  using byte_hash.view.bpf_hash_axioms [of e start_times_max_entries]
    byte_array.bpf_array_axioms [of e io_latency_hist_max_entries]
  by (intro latency_maps.intro latency_maps_axioms.intro)
    (simp_all add: byte_hash.view_lookup_def [abs_def] io_latency_hist_max_entries_def
      HIST_BUCKETS_def)


section \<open>The bytes follow the typed run\<close>

text \<open>The bytes that represent typed maps.\<close>

definition map_bytes ::
  "endian \<Rightarrow> ((u64 \<times> u64) list, u64 list) bpf_maps \<Rightarrow> ((u8 list \<times> u8 list) list, u8 list list) bpf_maps"
  where
  "map_bytes e s =
     \<lparr>start_times = map (\<lambda>(k, v). (enc64 e k, enc64 e v)) (start_times s),
      io_latency_hist = map (enc64 e) (io_latency_hist s)\<rparr>"

abbreviation entry_bytes :: "endian \<Rightarrow> (u64 \<times> u64) list \<Rightarrow> (u8 list \<times> u8 list) list" where
  "entry_bytes e m \<equiv> map (\<lambda>(k, v). (enc64 e k, enc64 e v)) m"

lemma enc64_eq [simp]: "enc64 e v = enc64 e w \<longleftrightarrow> v = w"
  using enc64_inj [of e] by (simp add: inj_eq)

lemma map_of_bytes: "map_of (entry_bytes e m) (enc64 e k) = map_option (enc64 e) (map_of m k)"
  by (induction m) auto

lemma update_bytes:
  "AList.update (enc64 e k) (enc64 e v) (entry_bytes e m) = entry_bytes e (AList.update k v m)"
  by (induction m) auto

lemma delete_bytes: "AList.delete (enc64 e k) (entry_bytes e m) = entry_bytes e (AList.delete k m)"
  by (induction m) auto

lemma hash_update_bytes:
  "hash_update cap (entry_bytes e m) (enc64 e k) (enc64 e v) =
     map_prod id (entry_bytes e) (hash_update cap m k v)"
  by (simp add: hash_update_def map_of_bytes update_bytes)

lemma hash_delete_bytes:
  "hash_delete (entry_bytes e m) (enc64 e k) = map_prod id (entry_bytes e) (hash_delete m k)"
  by (simp add: hash_delete_def map_of_bytes delete_bytes)

lemma start_lookup_bytes:
  "start_lookup (byte_helpers e) (entry_bytes e m) k = start_lookup kernel_helpers m k"
  by (simp add: byte_helpers_def kernel_helpers_def map_of_bytes option.map_comp o_def option.map_ident)

lemma hist_lookup_bytes:
  "hist_lookup (byte_helpers e) (map (enc64 e) a) i = hist_lookup kernel_helpers a i"
  by (simp add: byte_helpers_def kernel_helpers_def raw_array_lookup_def array_lookup_def Let_def)

lemma hist_update_bytes:
  "hist_update (byte_helpers e) (map (enc64 e) a) i v =
     map_prod id (map (enc64 e)) (hist_update kernel_helpers a i v)"
  by (simp add: byte_helpers_def kernel_helpers_def raw_array_update_def array_update_def Let_def
      map_update)

lemmas helper_bytes = start_lookup_bytes hist_lookup_bytes hist_update_bytes

lemma start_update_bytes:
  "start_update (byte_helpers e) (entry_bytes e m) k v =
     map_prod id (entry_bytes e) (start_update kernel_helpers m k v)"
  by (simp add: byte_helpers_def kernel_helpers_def hash_update_bytes)

lemma start_delete_bytes:
  "start_delete (byte_helpers e) (entry_bytes e m) k =
     map_prod id (entry_bytes e) (start_delete kernel_helpers m k)"
  by (simp add: byte_helpers_def kernel_helpers_def hash_delete_bytes)

lemma fetch_and_add_bytes:
  "sync_fetch_and_add (byte_helpers e) (map (enc64 e) a) i n =
     map (enc64 e) (sync_fetch_and_add kernel_helpers a i n)"
  by (simp add: sync_fetch_and_add_def helper_bytes split: option.split)

lemma handle_bytes:
  "handle (byte_helpers e) ev (map_bytes e s) = map_bytes e (handle kernel_helpers ev s)"
  by (cases ev) (auto simp: trace_rq_issue_def trace_rq_complete_def map_bytes_def Let_def
      helper_bytes start_update_bytes start_delete_bytes fetch_and_add_bytes
      split: prod.split option.split)

lemma run_bytes:
  "run_events (byte_helpers e) es (map_bytes e s) = map_bytes e (run_events kernel_helpers es s)"
  by (induction es arbitrary: s) (simp_all add: run_events_def handle_bytes)

lemma val_bytes_0: "val_bytes e n 0 = replicate n 0"
proof -
  have "le_bytes n 0 = replicate n 0" by (induction n) simp_all
  then show ?thesis by (cases e) simp_all
qed

lemma map_bytes_initial: "map_bytes e initial_maps = byte_initial"
  by (simp add: map_bytes_def initial_maps_def byte_initial_def enc64_def val_bytes_0)

section \<open>Properties\<close>

text \<open>
  The maps as bytes: on a target of either byte order, running the handlers on the byte
  maps from zeroed memory gives exactly the bytes of the typed run, so all proved of the typed
  maps holds of what the kernel stores. Every key and value stored in \<open>start_times\<close> and every
  value of \<open>io_latency_hist\<close> has the size of the C type its declaration names, the maps never
  exceed the declared numbers of entries, and decoding the histogram bytes (what the loader
  does with what it reads) gives back the counts.
\<close>

lemma byte_maps_typed:
  "let b = run_events (byte_helpers e) es byte_initial;
       s = run_events kernel_helpers es initial_maps
   in b = map_bytes e s \<and>
      length ` fst ` set (start_times b) \<subseteq> {size_of (map_key start_times_decl)} \<and>
      length ` snd ` set (start_times b) \<subseteq> {size_of (map_value start_times_decl)} \<and>
      length ` set (io_latency_hist b) \<subseteq> {size_of (map_value io_latency_hist_decl)} \<and>
      length (start_times b) \<le> map_max_entries start_times_decl \<and>
      length (io_latency_hist b) = map_max_entries io_latency_hist_decl \<and>
      map (dec64 e) (io_latency_hist b) = io_latency_hist s"
proof -
  have "run_events (byte_helpers e) es byte_initial =
      map_bytes e (run_events kernel_helpers es initial_maps)"
    using run_bytes [of e es initial_maps] by (simp add: map_bytes_initial)
  moreover have "length (start_times (run_events kernel_helpers es initial_maps))
      \<le> start_times_max_entries"
    "length (io_latency_hist (run_events kernel_helpers es initial_maps))
      = io_latency_hist_max_entries"
    using kernel_maps.run_invar [OF initial_invar, of es]
    by (simp_all add: hash_invar_def array_invar_def)
  ultimately show ?thesis
    by (auto simp: Let_def map_bytes_def o_def decl_sizes decl_entries)
qed

end
