(* ===== verification/RawSessions.thy ===== *)
theory RawSessions
  imports Sessions ByteMaps
begin

text \<open>
  The same chain from the bytes up: the tracepoints hand the handlers of
  \<open>src/internal/ebpf/block_latency.c\<close> raw contexts in the layout of the running kernel, the maps
  hold the bytes of keys and values in the byte order of the target, and the loader decodes the
  bytes it reads. \<open>byte_api\<close> puts the library operations of \<open>kernel_api\<close> on such maps.
\<close>

declare of_nat_unat [simp del]

section \<open>Raw events\<close>

datatype raw_event = RawIssue u64 mem | RawComplete u64 mem

text \<open>The handlers on raw contexts whose types are \<open>T1\<close> and \<open>T2\<close> in the running kernel.\<close>

fun raw_handle ::
  "('h, 'a) bpf_helpers \<Rightarrow> endian \<Rightarrow> ctype \<Rightarrow> ctype \<Rightarrow> raw_event \<Rightarrow> ('h, 'a) bpf_maps \<Rightarrow>
     ('h, 'a) bpf_maps" where
  "raw_handle H e T1 T2 (RawIssue t ctx) s =
     (case ctx_decode e T1 ctx of None \<Rightarrow> s | Some c \<Rightarrow> snd (trace_rq_issue H t c s))"
| "raw_handle H e T1 T2 (RawComplete t ctx) s =
     (case ctx_decode e T2 ctx of None \<Rightarrow> s | Some c \<Rightarrow> snd (trace_rq_complete H t c s))"

text \<open>
  What the kernel hands over for an event: the device and the sector stored in a context that
  holds \<open>m\<close> otherwise, long enough for its type.
\<close>

fun raw_event_of :: "endian \<Rightarrow> ctype \<Rightarrow> ctype \<Rightarrow> mem \<times> rq_event \<Rightarrow> raw_event" where
  "raw_event_of e T1 T2 (m, Issue t c) = RawIssue t (ctx_encode e T1 c m)"
| "raw_event_of e T1 T2 (m, Complete t c) = RawComplete t (ctx_encode e T2 c m)"

fun context_fits :: "ctype \<Rightarrow> ctype \<Rightarrow> mem \<times> rq_event \<Rightarrow> bool" where
  "context_fits T1 T2 (m, Issue t c) \<longleftrightarrow> size_of T1 \<le> length m"
| "context_fits T1 T2 (m, Complete t c) \<longleftrightarrow> size_of T2 \<le> length m"

text \<open>A type the program can be relocated to: it has the two members, of their types.\<close>

fun request_context :: "ctype \<Rightarrow> bool" where
  "request_context (CStruct nm p fs) \<longleftrightarrow> wf_ctype (CStruct nm p fs) \<and>
     (''dev'', CInt 4 False) \<in> set fs \<and> (''sector'', CInt 8 False) \<in> set fs"
| "request_context _ \<longleftrightarrow> False"

lemma request_context_decode:
  "request_context T \<Longrightarrow> size_of T \<le> length m \<Longrightarrow> ctx_decode e T (ctx_encode e T c m) = Some c"
  by (cases T rule: request_context.cases)
    (simp_all only: request_context.simps ctx_decode_encode_layout)

lemma raw_handle_event:
  assumes "request_context T1" and "request_context T2" and "context_fits T1 T2 (m, ev)"
  shows "raw_handle H e T1 T2 (raw_event_of e T1 T2 (m, ev)) s = handle H ev s"
  using assms by (cases ev) (simp_all add: request_context_decode)

section \<open>The library on byte maps\<close>

type_synonym byte_maps = "((u8 list \<times> u8 list) list, u8 list list) bpf_maps"

definition byte_api :: "endian \<Rightarrow> (world \<times> byte_maps, int) bpf_api" where
  "byte_api e =
     \<lparr>os_stat = (\<lambda>p (w, b). os_stat kernel_api p w),
      load_spec = (\<lambda>(w, b). load_spec kernel_api w),
      load_and_assign = (\<lambda>(w, b). let (r, w) = load_and_assign kernel_api w in (r, (w, b))),
      link_tracepoint = (\<lambda>g n prog (w, b).
        let (r, w) = link_tracepoint kernel_api g n prog w in (r, (w, b))),
      close_handle = (\<lambda>h (w, b). let (r, w) = close_handle kernel_api h w in (r, (w, b))),
      map_lookup = (\<lambda>m i (w, b).
        if m \<noteq> IoLatencyHist then Inl EINVAL
        else case hist_lookup (byte_helpers e) (io_latency_hist b) i of
          None \<Rightarrow> Inl ENOENT | Some v \<Rightarrow> Inr v),
      map_put = (\<lambda>m i v (w, b).
        if m \<noteq> IoLatencyHist then (Some EINVAL, (w, b))
        else let (r, a) = hist_update (byte_helpers e) (io_latency_hist b) i v
          in if r < 0 then (Some (- r), (w, b)) else (None, (w, b\<lparr>io_latency_hist := a\<rparr>))),
      error_text = error_text kernel_api,
      key_not_exist = key_not_exist kernel_api\<rparr>"

lemma byte_hist_update:
  assumes "hist_lookup (byte_helpers e) a i \<noteq> None"
  shows "fst (hist_update (byte_helpers e) a i v) = 0 \<and>
    hist_lookup (byte_helpers e) (snd (hist_update (byte_helpers e) a i v)) =
      (hist_lookup (byte_helpers e) a)(i \<mapsto> v)"
proof -
  have "unat i < length a"
    using assms byte_array.lookup_some [of a "length a" e i] by (simp add: byte_helpers_def)
  then show ?thesis
    using byte_array.update_in [of a "length a" i e v] by (simp add: byte_helpers_def)
qed

interpretation byte_display: displayed_maps "byte_helpers e"
  "byte_hash.view_invar start_times_max_entries e" start_times_max_entries
  "\<lambda>a. length a = io_latency_hist_max_entries" io_latency_hist_max_entries
  "byte_api e" snd "\<lambda>s w. (fst w, s)"
  for e
proof unfold_locales
  fix w :: "world \<times> byte_maps" and i v
  show "hist_lookup (byte_helpers e) (io_latency_hist (snd w)) i = Some v \<Longrightarrow>
      map_lookup (byte_api e) IoLatencyHist i w = Inr v"
    by (simp add: byte_api_def split_beta)
  show "\<exists>err. map_lookup (byte_api e) IoLatencyHist i w = Inl err \<and>
      contains (error_text (byte_api e) err) (key_not_exist (byte_api e))"
    if "hist_lookup (byte_helpers e) (io_latency_hist (snd w)) i = None"
    using that by (simp add: byte_api_def kernel_api_def contains_refl split_beta)
  show "fst (map_put (byte_api e) IoLatencyHist i v w) = None \<and>
      hist_lookup (byte_helpers e) (io_latency_hist (snd (snd (map_put (byte_api e) IoLatencyHist i v w))))
      = (hist_lookup (byte_helpers e) (io_latency_hist (snd w)))(i \<mapsto> v)"
    if "hist_lookup (byte_helpers e) (io_latency_hist (snd w)) i \<noteq> None"
    using byte_hist_update [OF that, of v] by (simp add: byte_api_def split_beta)
qed (auto simp: byte_api_def byte_helpers_def raw_array_update_def Let_def split: prod.split)

lemma represents_bytes:
  "represents kernel_helpers h0 s m \<Longrightarrow> represents (byte_helpers e) h0 (map_bytes e s) m"
  by (simp add: represents_def map_bytes_def start_lookup_bytes hist_lookup_bytes fun_eq_iff)

lemma byte_display_start:
  "snd w = byte_initial \<Longrightarrow> byte_display.maps_ok e empty_monitor w"
  using represents_bytes [OF initial_represents, of e]
  by (simp add: byte_display.maps_ok_def map_bytes_initial)
    (simp add: byte_initial_def byte_hash.view_invar_def hash_invar_def)

text \<open>The kernel between two ticks: raw events on the byte maps.\<close>

definition fire_raw ::
  "endian \<Rightarrow> ctype \<Rightarrow> ctype \<Rightarrow> (mem \<times> rq_event) list \<Rightarrow> world \<times> byte_maps \<Rightarrow> world \<times> byte_maps" where
  "fire_raw e T1 T2 evs w =
     (fst w, fold (\<lambda>ev. raw_handle (byte_helpers e) e T1 T2 (raw_event_of e T1 T2 ev)) evs (snd w))"

lemma fire_raw_maps:
  assumes "request_context T1" and "request_context T2" and "list_all (context_fits T1 T2) evs"
  shows "fire_raw e T1 T2 evs w = byte_display.fire_maps e (map snd evs) w"
proof -
  have "fold (\<lambda>ev. raw_handle (byte_helpers e) e T1 T2 (raw_event_of e T1 T2 ev)) evs s =
      run_events (byte_helpers e) (map snd evs) s" for s
    using assms(3)
  proof (induction evs arbitrary: s)
    case (Cons ev evs)
    then show ?case using raw_handle_event [OF assms(1,2), of "fst ev" "snd ev" "byte_helpers e" e]
      by (simp add: run_events_def)
  qed (simp add: run_events_def)
  then show ?thesis by (simp add: fire_raw_def byte_display.fire_maps_def)
qed

section \<open>A session on a big-endian target\<close>

text \<open>A request issued before the first tick, completed after it.\<close>

definition quiet_proc :: "int sources" where
  "quiet_proc = \<lparr>open_proc = (\<lambda>_. Inr \<lparr>content = [], read_error = None\<rparr>),
     statfs_call = (\<lambda>_. Inr \<lparr>Bsize = 4096, Blocks = 1000, Bavail = 400\<rparr>), clock = 0, net_order = []\<rparr>"

definition raw_ticks :: "((mem \<times> rq_event) list \<times> int sources) list" where
  "raw_ticks =
     [([(replicate 40 255, Issue 5000 sample_rq)], quiet_proc),
      ([(replicate 64 7, Complete 47000 sample_rq)], quiet_proc)]"

definition raw_loop :: "(world \<times> byte_maps) loop" where
  "raw_loop = \<lparr>lworld = (fresh_world, byte_initial), lwrites = [],
     bpfCol = Some \<lparr>links = []\<rparr>, prevCPU = [], prevNet = [], lastSample = 0\<rparr>"

lemma block_rq_contexts:
  "request_context relocated_rq" "size_of relocated_rq = 40"
  "request_context trace_event_raw_block_rq_completion"
  "size_of trace_event_raw_block_rq_completion \<le> 64"
  by code_simp+

end
