(* ===== verification/Bindings.thy ===== *)
theory Bindings
  imports BpfObject CollectorLifecycle
begin

text \<open>
  How the Go side is tied to the BPF object: the symbol tags of the generated
  \<open>src/internal/ebpf/blocklatency_bpfel.go\<close> and \<open>src/internal/ebpf/blocklatency_bpfeb.go\<close> (the two
  declare the same types and functions and differ in the build constraint and the embedded
  object), the tracepoints \<open>NewCollector\<close> attaches the programs to, and the build constraints
  of the package.
\<close>

declare of_nat_unat [simp del]

section \<open>The tags of the bindings\<close>

text \<open>
  A structure field of the bindings is named by the handle it becomes, with the symbol of its
  tag; \<open>LoadAndAssign\<close> resolves the symbol in the object.
\<close>

type_synonym tagged_fields = "(bpf_handle \<times> gostring) list"

definition blockLatencyProgramSpecs :: tagged_fields where
  "blockLatencyProgramSpecs =
     [(TraceRqComplete, ''trace_rq_complete''), (TraceRqIssue, ''trace_rq_issue'')]"

definition blockLatencyMapSpecs :: tagged_fields where
  "blockLatencyMapSpecs =
     [(IoLatencyHist, ''io_latency_hist''), (StartTimes, ''start_times'')]"

definition blockLatencyMaps :: tagged_fields where
  "blockLatencyMaps =
     [(IoLatencyHist, ''io_latency_hist''), (StartTimes, ''start_times'')]"

definition blockLatencyPrograms :: tagged_fields where
  "blockLatencyPrograms =
     [(TraceRqComplete, ''trace_rq_complete''), (TraceRqIssue, ''trace_rq_issue'')]"

definition blockLatencyObjects :: tagged_fields where
  "blockLatencyObjects = blockLatencyPrograms @ blockLatencyMaps"

definition blockLatencySpecs :: tagged_fields where
  "blockLatencySpecs = blockLatencyProgramSpecs @ blockLatencyMapSpecs"

text \<open>The declaration in the object that a program or map handle stands for.\<close>

definition handle_program :: "bpf_handle \<Rightarrow> prog_decl option" where
  "handle_program h =
     Option.bind (map_of blockLatencyPrograms h) (map_of (obj_programs block_latency_obj))"

definition handle_map :: "bpf_handle \<Rightarrow> map_decl option" where
  "handle_map h = Option.bind (map_of blockLatencyMaps h) (map_of (obj_maps block_latency_obj))"

lemma handle_decls [simp]:
  "handle_program TraceRqIssue = Some trace_rq_issue_decl"
  "handle_program TraceRqComplete = Some trace_rq_complete_decl"
  "handle_map IoLatencyHist = Some io_latency_hist_decl"
  "handle_map StartTimes = Some start_times_decl"
  by (simp_all add: handle_program_def handle_map_def blockLatencyPrograms_def
      blockLatencyMaps_def block_latency_obj_def)

section \<open>The attachments of a new collector\<close>

text \<open>The same interface with a log of the calls of \<open>link.Tracepoint\<close> in the order made.\<close>

type_synonym attachment = "gostring \<times> gostring \<times> bpf_handle"

definition logged :: "('w, 'e) bpf_api \<Rightarrow> ('w \<times> attachment list, 'e) bpf_api" where
  "logged A =
     \<lparr>os_stat = (\<lambda>p (w, l). os_stat A p w),
      load_spec = (\<lambda>(w, l). load_spec A w),
      load_and_assign = (\<lambda>(w, l). let (r, w) = load_and_assign A w in (r, w, l)),
      link_tracepoint = (\<lambda>g n h (w, l).
        let (r, w) = link_tracepoint A g n h w in (r, w, l @ [(g, n, h)])),
      close_handle = (\<lambda>h (w, l). let (r, w) = close_handle A h w in (r, w, l)),
      map_lookup = (\<lambda>h i (w, l). map_lookup A h i w),
      map_put = (\<lambda>h i v (w, l). let (r, w) = map_put A h i v w in (r, w, l)),
      error_text = error_text A,
      key_not_exist = key_not_exist A\<rparr>"

text \<open>A section names the tracepoint a program is for: \<open>tracepoint/<group>/<event>\<close>.\<close>

definition tracepoint_section :: "attachment \<Rightarrow> string" where
  "tracepoint_section a = (case a of (g, n, h) \<Rightarrow> ''tracepoint/'' @ g @ ''/'' @ n)"

definition attached_program :: "attachment \<Rightarrow> prog_decl option" where
  "attached_program a = (case a of (g, n, h) \<Rightarrow> handle_program h)"

lemma logged_load:
  "loadBlockLatencyObjects (logged A) (w, l) =
     (case loadBlockLatencyObjects A w of (r, w) \<Rightarrow> (r, w, l))"
  by (simp add: loadBlockLatencyObjects_def loadBlockLatency_def logged_def
      split: option.split prod.split)

lemma logged_new_collector:
  assumes "NewCollector (logged A) (w, []) = (Inr c, w', l)"
  shows "l = [(''block'', ''block_rq_issue'', TraceRqIssue),
      (''block'', ''block_rq_complete'', TraceRqComplete)] \<and> NewCollector A w = (Inr c, w')"
proof -
  have sel: "os_stat (logged A) p (u, k) = os_stat A p u"
    "link_tracepoint (logged A) g n h (u, k) =
       (case link_tracepoint A g n h u of (r, u) \<Rightarrow> (r, u, k @ [(g, n, h)]))" for p u k g n h
    by (simp_all add: logged_def)
  show ?thesis using assms
    by (auto simp: NewCollector_def sel logged_load Let_def
        split: option.splits prod.splits sum.splits)
qed

section \<open>Build constraints\<close>

record build =
  goos :: gostring
  goarch :: gostring
  ebpf_tag :: bool

definition builds_loader :: "build \<Rightarrow> bool" where
  "builds_loader b \<longleftrightarrow> goos b = ''linux'' \<and> ebpf_tag b"

definition builds_stub :: "build \<Rightarrow> bool" where
  "builds_stub b \<longleftrightarrow> \<not> ebpf_tag b \<or> \<not> goos b = ''linux''"

definition builds_bpfel :: "build \<Rightarrow> bool" where
  "builds_bpfel b \<longleftrightarrow>
     goarch b \<in> {''386'', ''amd64'', ''arm'', ''arm64'', ''loong64'', ''mips64le'', ''mipsle'',
       ''ppc64le'', ''riscv64''} \<and> ebpf_tag b"

definition builds_bpfeb :: "build \<Rightarrow> bool" where
  "builds_bpfeb b \<longleftrightarrow>
     goarch b \<in> {''mips'', ''mips64'', ''ppc64'', ''s390x''} \<and> ebpf_tag b"

text \<open>The byte order of the embedded object.\<close>

definition embedded_object :: "build \<Rightarrow> endian option" where
  "embedded_object b =
     (if builds_bpfel b then Some LittleEndian
      else if builds_bpfeb b then Some BigEndian else None)"

text \<open>The architectures of the Go toolchain for Linux.\<close>

definition linux_archs :: "gostring list" where
  "linux_archs = [''386'', ''amd64'', ''arm'', ''arm64'', ''loong64'', ''mips'', ''mips64'',
     ''mips64le'', ''mipsle'', ''ppc64'', ''ppc64le'', ''riscv64'', ''s390x'']"

section \<open>Properties\<close>

text \<open>
  C22. The bindings fit the object: every tag of the programs and maps resolves to a distinct
  declaration of the right kind in \<open>block_latency.c\<close> and none is left over, the specification
  types carry the same tags as the object types, the maps are the hash and the array the model
  gives them, with the model's numbers of entries, and the C types of the keys and values have
  the widths of the Go and C values the program passes (\<open>uint32\<close> index, \<open>uint64\<close> count,
  \<open>u64\<close> key and time).
\<close>

theorem bindings_fit_object:
  "map fst blockLatencyObjects = object_handles \<and>
   map snd blockLatencyPrograms = rev (map fst (obj_programs block_latency_obj)) \<and>
   map snd blockLatencyMaps = rev (map fst (obj_maps block_latency_obj)) \<and>
   distinct (map snd blockLatencyObjects) \<and> blockLatencySpecs = blockLatencyObjects \<and>
   map_option map_type (handle_map StartTimes) = Some (Some 1) \<and>
   map_option map_type (handle_map IoLatencyHist) = Some (Some 2) \<and>
   map_option map_max_entries (handle_map StartTimes) = Some start_times_max_entries \<and>
   map_option map_max_entries (handle_map IoLatencyHist) = Some (unat histBuckets) \<and>
   map_option (\<lambda>d. (8 * size_of (map_key d), 8 * size_of (map_value d))) (handle_map StartTimes)
     = Some (LENGTH(64), LENGTH(64)) \<and>
   map_option (\<lambda>d. (8 * size_of (map_key d), 8 * size_of (map_value d))) (handle_map IoLatencyHist)
     = Some (LENGTH(32), LENGTH(64))"
  by (simp add: decl_sizes decl_entries blockLatencyObjects_def blockLatencySpecs_def
      blockLatencyPrograms_def blockLatencyMaps_def blockLatencyProgramSpecs_def
      blockLatencyMapSpecs_def object_handles_def block_latency_obj_def)
    (simp add: start_times_decl_def io_latency_hist_decl_def map_kinds HIST_BUCKETS_def
      io_latency_hist_max_entries_def
      histBuckets_def)

text \<open>
  C21. A collector that \<open>NewCollector\<close> returns has attached every program of the object exactly
  once, in the order of the source, each to the tracepoint that its section names, so every
  handler runs on the event whose context type it was compiled for.
\<close>

theorem NewCollector_attaches_sections:
  assumes "NewCollector (logged A) (w, []) = (Inr c, w', calls)"
  shows "map attached_program calls = map (Some \<circ> snd) (obj_programs block_latency_obj) \<and>
    map tracepoint_section calls = map (prog_section \<circ> snd) (obj_programs block_latency_obj)"
  using logged_new_collector [OF assms]
  by (simp add: block_latency_obj_def attached_program_def tracepoint_section_def
      trace_rq_issue_decl_def trace_rq_complete_decl_def)

theorem NewCollector_attaches_sections_witness:
  "map tracepoint_section (snd (snd (NewCollector (logged kernel_api)
     (\<lparr>kmaps = initial_maps, opened = [], refused = []\<rparr>, [])))) =
   [''tracepoint/block/block_rq_issue'', ''tracepoint/block/block_rq_complete'']"
proof -
  let ?w = "(\<lparr>kmaps = initial_maps, opened = [], refused = []\<rparr>, []) :: world \<times> attachment list"
  have "isl (fst (NewCollector (logged kernel_api) ?w)) = False" by code_simp
  then obtain c w' l where n: "NewCollector (logged kernel_api) ?w = (Inr c, w', l)"
    by (cases "NewCollector (logged kernel_api) ?w"; cases "fst (NewCollector (logged kernel_api) ?w)")
      auto
  show ?thesis
    using NewCollector_attaches_sections [OF n]
    by (simp add: n block_latency_obj_def trace_rq_issue_decl_def trace_rq_complete_decl_def)
qed

text \<open>
  The build constraints select one implementation: whatever the operating system,
  architecture and tags, exactly one of the loader and the stub is compiled, never both
  bindings, and on every Linux architecture a build with the \<open>ebpf\<close> tag embeds exactly one
  object while one without it embeds none.
\<close>

lemma build_selects_one:
  "builds_loader b \<noteq> builds_stub b \<and> \<not> (builds_bpfel b \<and> builds_bpfeb b) \<and>
   list_all (\<lambda>a. embedded_object \<lparr>goos = ''linux'', goarch = a, ebpf_tag = True\<rparr> \<noteq> None \<and>
       builds_loader \<lparr>goos = ''linux'', goarch = a, ebpf_tag = True\<rparr> \<and>
       embedded_object \<lparr>goos = ''linux'', goarch = a, ebpf_tag = False\<rparr> = None) linux_archs"
proof -
  have "list_all (\<lambda>a. embedded_object \<lparr>goos = ''linux'', goarch = a, ebpf_tag = True\<rparr> \<noteq> None \<and>
       builds_loader \<lparr>goos = ''linux'', goarch = a, ebpf_tag = True\<rparr> \<and>
       embedded_object \<lparr>goos = ''linux'', goarch = a, ebpf_tag = False\<rparr> = None) linux_archs"
    by code_simp
  then show ?thesis
    by (auto simp: builds_loader_def builds_stub_def builds_bpfel_def builds_bpfeb_def)
qed

end
