(* ===== verification/Loops.thy ===== *)
theory Loops
  imports Render "HOL-Library.While_Combinator"
begin

text \<open>
  The data-dependent loop of \<open>src/cmd/sysmon/main.go\<close>, the one of \<open>humanBytes\<close>, as a \<open>while\<close>
  over its three variables. \<open>while_option\<close> is \<open>None\<close> for a loop that does not end, so that it
  ends, after how many rounds, and that the recursive definition in \<open>Render\<close> is this loop are
  statements about its value.
\<close>

declare of_nat_unat [simp del]

section \<open>The loop as a while\<close>

type_synonym human_state = "u64 \<times> u64 \<times> nat"

definition human_cond :: "human_state \<Rightarrow> bool" where
  "human_cond st = (case st of (n, dvs, ex) \<Rightarrow> n \<ge> 1024)"

definition human_body :: "human_state \<Rightarrow> human_state" where
  "human_body st = (case st of (n, dvs, ex) \<Rightarrow> (n div 1024, dvs * 1024, ex + 1))"

definition human_while :: "u64 \<Rightarrow> human_state option" where
  "human_while b = while_option human_cond human_body (b div 1024, 1024, 0)"

text \<open>The measure: \<open>n\<close> gets smaller in every round.\<close>

lemma human_body_smaller: "human_cond st \<Longrightarrow> unat (fst (human_body st)) < unat (fst st)"
  by (auto simp: human_cond_def human_body_def u64_le_nat unat_div_u64 split: prod.splits)

lemma human_while_returns: "\<exists>st. human_while b = Some st"
proof -
  have "\<exists>st. while_option human_cond human_body s0 = Some st" for s0
    using measure_while_option_Some [of "\<lambda>_. True" human_cond human_body "\<lambda>st. unat (fst st)" s0]
      human_body_smaller by blast
  then show ?thesis by (simp only: human_while_def)
qed

text \<open>The recursion computes what the loop leaves in \<open>div\<close> and \<open>exp\<close>.\<close>

lemma human_loop_while:
  "map_option snd (while_option human_cond human_body (n, dvs, ex)) = Some (human_loop n dvs ex)"
proof (induction n dvs ex rule: human_loop.induct)
  case (1 n dvs ex)
  show ?case
  proof (cases "n \<ge> 1024")
    case True
    then have "while_option human_cond human_body (n, dvs, ex) =
        while_option human_cond human_body (n div 1024, dvs * 1024, ex + 1)"
      by (subst while_option_unfold) (simp add: human_cond_def human_body_def)
    then show ?thesis using 1 True by (subst human_loop.simps) simp
  next
    case False
    then show ?thesis
      by (subst while_option_unfold, subst human_loop.simps) (simp add: human_cond_def)
  qed
qed

text \<open>Every round multiplies the divisor, without overflow as long as it stays below the count.\<close>

definition human_inv :: "u64 \<Rightarrow> human_state \<Rightarrow> bool" where
  "human_inv b st =
     (case st of (n, dvs, ex) \<Rightarrow>
        unat n = unat b div 1024 ^ Suc ex \<and> unat dvs = 1024 ^ Suc ex \<and> ex \<le> 5)"

lemma human_body_inv: "human_inv b st \<Longrightarrow> human_cond st \<Longrightarrow> human_inv b (human_body st)"
proof -
  assume inv: "human_inv b st" and cond: "human_cond st"
  obtain n dvs ex where st: "st = (n, dvs, ex)" by (rule prod_cases3)
  have n: "unat n = unat b div 1024 ^ Suc ex" and d: "unat dvs = 1024 ^ Suc ex" and e: "ex \<le> 5"
    using inv by (simp_all add: st human_inv_def)
  have big: "1024 \<le> unat b div 1024 ^ Suc ex" using cond n by (simp add: st human_cond_def u64_le_nat)
  have "ex \<noteq> 5"
  proof
    assume "ex = 5"
    then have "1024 \<le> unat b div 1152921504606846976" using big by simp
    then show False using unat_u64_lt [of b] by (simp add: less_eq_div_iff_mult_less_eq)
  qed
  then have e4: "ex \<le> 4" using e by simp
  have "(1024 :: nat) ^ Suc ex \<le> 1024 ^ Suc 4" using e4 by (intro power_increasing) simp_all
  then have "unat (dvs * 1024) = 1024 ^ Suc (Suc ex)" using d by (simp add: unat_mult_u64)
  moreover have "unat (n div 1024) = unat b div 1024 ^ Suc (Suc ex)"
    using n by (simp add: unat_div_u64 div_mult2_eq [symmetric] mult.commute)
  ultimately show ?thesis using e4 by (simp add: st human_inv_def human_body_def)
qed

lemma human_while_inv:
  assumes "human_while b = Some st"
  shows "human_inv b st \<and> \<not> human_cond st"
proof
  show "human_inv b st"
  proof (rule while_option_rule [where P = "human_inv b"])
    show "human_inv b (human_body s)" if "human_inv b s" "human_cond s" for s
      using that by (rule human_body_inv)
    show "while_option human_cond human_body (b div 1024, 1024, 0) = Some st"
      using assms by (simp only: human_while_def)
    show "human_inv b (b div 1024, 1024, 0)" by (simp add: human_inv_def unat_div_u64)
  qed
  show "\<not> human_cond st"
    by (rule while_option_stop [OF assms [unfolded human_while_def]])
qed

section \<open>Properties\<close>

text \<open>
  C23. The loop of \<open>humanBytes\<close> returns for every byte count, after at most five rounds (\<open>exp\<close>
  counts them), which keeps the index into the six prefixes in range: it ends with \<open>n\<close> below
  1024, the divisor is \<open>1024^(exp+1)\<close> exactly (the 64-bit product never wraps) and \<open>n\<close> is the
  count divided by it. The recursive definition used elsewhere computes the same pair.
\<close>

theorem human_loop_terminates:
  "\<exists>n dvs ex. human_while b = Some (n, dvs, ex) \<and> (dvs, ex) = human_loop (b div 1024) 1024 0 \<and>
     ex \<le> 5 \<and> n < 1024 \<and> unat dvs = 1024 ^ Suc ex \<and> unat n = unat b div 1024 ^ Suc ex"
proof -
  obtain n dvs ex where w: "human_while b = Some (n, dvs, ex)"
    using human_while_returns [of b] by auto
  moreover have "human_loop (b div 1024) 1024 0 = (dvs, ex)"
    using human_loop_while [of "b div 1024" 1024 0] w by (simp add: human_while_def)
  ultimately show ?thesis
    using human_while_inv [OF w] by (auto simp: human_inv_def human_cond_def)
qed

end
