(* ===== verification/SysmonMain.thy ===== *)
theory SysmonMain
  imports SysmonRun
begin

text \<open>
  The process of \<open>src/cmd/sysmon/main.go\<close>: \<open>main\<close>, the statements of \<open>run\<close> one call after the
  other, the goroutine that waits for a signal, and the exit codes. \<open>SysmonRun\<close> treats a run as
  start-up and ticks that a signal can only end in between; here the goroutine takes its steps
  between any two calls of \<open>run\<close>, also within a tick, a signal can come before its handler is
  installed, and the kernel runs the tracepoint handlers at any time.
\<close>

declare of_nat_unat [simp del]

section \<open>Flags and exit codes\<close>

record flags =
  flag_interval :: int
  flag_path :: gostring
  flag_ebpf :: bool

definition default_flags :: flags where
  "default_flags = \<lparr>flag_interval = 2 * 1000000000, flag_path = ''/'', flag_ebpf = False\<rparr>"

text \<open>
  A process exits with a code or is killed by a signal. \<open>run\<close> asks to be notified of an interrupt
  and of a termination request. SIGQUIT makes the Go runtime dump the stacks and exit with 2;
  the others here end the process without a word, SIGPIPE at a write to a closed terminal.
\<close>

datatype signal = SIGINT | SIGTERM | SIGHUP | SIGPIPE | SIGKILL

datatype exit_code = Code nat | Killed signal

definition notified :: "signal \<Rightarrow> bool" where
  "notified sig \<longleftrightarrow> sig = SIGINT \<or> sig = SIGTERM"

text \<open>
  \<open>main\<close> prints the error of \<open>run\<close> and exits with 1; a panic that reaches the top prints its
  value and exits with 2. The text of errors and panics is the parameter \<open>report\<close>.
\<close>

fun status_code :: "'e exit_status \<Rightarrow> nat" where
  "status_code (Returned err) = 1"
| "status_code NewTickerPanic = 2"
| "status_code RenderPanic = 2"
| "status_code SignalExit = 0"

fun last_words :: "('e exit_status \<Rightarrow> gostring) \<Rightarrow> 'e exit_status \<Rightarrow> writes" where
  "last_words report (Returned err) = [(Stderr, ''sysmon: '' @ report (Returned err) @ newline)]"
| "last_words report NewTickerPanic = [(Stderr, ''panic: '' @ report NewTickerPanic @ newline)]"
| "last_words report RenderPanic = [(Stderr, ''panic: '' @ report RenderPanic @ newline)]"
| "last_words report SignalExit = []"

section \<open>The state of the process\<close>

text \<open>
  The calls of a tick after \<open>ReadCPUTimes\<close>, each with what the calls before it returned: the
  three other collectors, reading the histogram, resetting it, and rendering.
\<close>

datatype tick_stage =
    MemNext "CPUTimes list"
  | DiskNext "CPUTimes list" MemInfo
  | NetNext "CPUTimes list" MemInfo DiskUsage
  | HistogramNext "CPUTimes list" MemInfo DiskUsage "NetIO list"
  | ResetNext "CPUTimes list" MemInfo DiskUsage "NetIO list" int "LatencyBucket list"
  | RenderNext "CPUTimes list" MemInfo DiskUsage "NetIO list" int "LatencyBucket list"

text \<open>The main goroutine: which call of \<open>run\<close> comes next; \<open>Looping\<close> waits for the ticker.\<close>

datatype ('w, 'e) stage =
    HideCursor
  | Notify
  | OpenCollector
  | FirstCPU "Collector option"
  | FirstNet "Collector option" "CPUTimes list"
  | StartTicker "Collector option" "CPUTimes list" "NetIO list"
  | Looping "'w loop"
  | InTick "'w loop" tick_stage
  | CloseCollector "Collector option" "'e exit_status"
  | RestoreCursor "'e exit_status"
  | ExitMain "'e exit_status"

text \<open>The goroutine of the handler: \<open><-sigCh\<close>, then \<open>fmt.Print(showCursor)\<close>, then \<open>os.Exit(0)\<close>.\<close>

datatype handler = NotInstalled | Waiting | Received | Restored

record ('w, 'e) sysmon =
  main :: "('w, 'e) stage"
  handler :: handler
  kernel :: 'w
  printed :: writes

datatype ('w, 'e) process = Live "('w, 'e) sysmon" | Exited exit_code 'w writes

definition sysmon_init :: "'w \<Rightarrow> ('w, 'e) sysmon" where
  "sysmon_init w = \<lparr>main = HideCursor, handler = NotInstalled, kernel = w, printed = []\<rparr>"

section \<open>Steps\<close>

record platform =
  conv_int :: "f64 \<Rightarrow> int"
  conv_u64 :: "f64 \<Rightarrow> u64"

text \<open>What a call of a tick leads to: leaving \<open>run\<close>, the next call, or the screen of the tick.\<close>

datatype 'e tick_result =
    Leave "'e exit_status"
  | Call tick_stage
  | Screen gostring "CPUTimes list" "NetIO list" int

fun tick_call ::
  "('w, 'e) bpf_api \<Rightarrow> platform \<Rightarrow> gostring \<Rightarrow> 'e sources \<Rightarrow> 'w loop \<Rightarrow> tick_stage \<Rightarrow> 'w \<Rightarrow>
     'e tick_result \<times> 'w" where
  "tick_call A P mountPath os l (MemNext curCPU) w =
     (case ReadMemInfo (open_proc os) of
        Inl err \<Rightarrow> (Leave (Returned (StatsFailed FromMem err)), w)
      | Inr mem \<Rightarrow> (Call (DiskNext curCPU mem), w))"
| "tick_call A P mountPath os l (DiskNext curCPU mem) w =
     (case ReadDiskUsage (statfs_call os) mountPath of
        Inl err \<Rightarrow> (Leave (Returned (StatsFailed FromDisk err)), w)
      | Inr diskUsage \<Rightarrow> (Call (NetNext curCPU mem diskUsage), w))"
| "tick_call A P mountPath os l (NetNext curCPU mem diskUsage) w =
     (case ReadNetIO (open_proc os) of
        Inl err \<Rightarrow> (Leave (Returned (StatsFailed FromNet err)), w)
      | Inr curNet \<Rightarrow> (Call (HistogramNext curCPU mem diskUsage curNet), w))"
| "tick_call A P mountPath os l (HistogramNext curCPU mem diskUsage curNet) w =
     (let latencyBuckets =
        (case bpfCol l of
           None \<Rightarrow> []
         | Some c \<Rightarrow> (case ReadHistogram A c w of Inl err \<Rightarrow> [] | Inr bs \<Rightarrow> bs))
      in (Call (ResetNext curCPU mem diskUsage curNet (clock os) latencyBuckets), w))"
| "tick_call A P mountPath os l (ResetNext curCPU mem diskUsage curNet now latencyBuckets) w =
     (Call (RenderNext curCPU mem diskUsage curNet now latencyBuckets),
      case bpfCol l of None \<Rightarrow> w | Some c \<Rightarrow> snd (ResetHistogram A c w))"
| "tick_call A P mountPath os l (RenderNext curCPU mem diskUsage curNet now latencyBuckets) w =
     (let elapsed = duration_seconds (time_sub now (lastSample l));
          cpuPct = CPUPercent (prevCPU l) curCPU;
          netRates = ComputeNetThroughput (prevNet l) curNet elapsed
      in case render (conv_int P) (conv_u64 P) (net_order os) cpuPct mem diskUsage netRates
                latencyBuckets of
           None \<Rightarrow> (Leave RenderPanic, w)
         | Some screen \<Rightarrow> (Screen screen curCPU curNet now, w))"

definition main_step ::
  "('w, 'e) bpf_api \<Rightarrow> platform \<Rightarrow> ('e exit_status \<Rightarrow> gostring) \<Rightarrow> flags \<Rightarrow> 'e sources \<Rightarrow>
     ('w, 'e) sysmon \<Rightarrow> ('w, 'e) process" where
  "main_step A P report F os s =
     (case main s of
        HideCursor \<Rightarrow> Live (s\<lparr>main := Notify, printed := printed s @ [(Stdout, hideCursor)]\<rparr>)
      | Notify \<Rightarrow> Live (s\<lparr>main := OpenCollector, handler := Waiting\<rparr>)
      | OpenCollector \<Rightarrow>
          if flag_ebpf F
          then (case NewCollector A (kernel s) of
                  (Inl err, w) \<Rightarrow>
                    Live (s\<lparr>main := CloseCollector None (Returned (CollectorFailed err)), kernel := w\<rparr>)
                | (Inr c, w) \<Rightarrow>
                    Live (s\<lparr>main := FirstCPU (Some c), kernel := w,
                            printed := printed s @ [(Stderr, attached_message)]\<rparr>))
          else Live (s\<lparr>main := FirstCPU None\<rparr>)
      | FirstCPU col \<Rightarrow>
          (case ReadCPUTimes (open_proc os) of
             Inl err \<Rightarrow> Live (s\<lparr>main := CloseCollector col (Returned (StatsFailed FromCPU err))\<rparr>)
           | Inr cpu \<Rightarrow> Live (s\<lparr>main := FirstNet col cpu\<rparr>))
      | FirstNet col cpu \<Rightarrow>
          (case ReadNetIO (open_proc os) of
             Inl err \<Rightarrow> Live (s\<lparr>main := CloseCollector col (Returned (StatsFailed FromNet err))\<rparr>)
           | Inr net \<Rightarrow> Live (s\<lparr>main := StartTicker col cpu net\<rparr>))
      | StartTicker col cpu net \<Rightarrow>
          if flag_interval F \<le> 0 then Live (s\<lparr>main := CloseCollector col NewTickerPanic\<rparr>)
          else Live (s\<lparr>main := Looping \<lparr>lworld = kernel s, lwrites = printed s, bpfCol = col,
                 prevCPU = cpu, prevNet = net, lastSample = clock os\<rparr>\<rparr>)
      | Looping l \<Rightarrow>
          (case ReadCPUTimes (open_proc os) of
             Inl err \<Rightarrow>
               Live (s\<lparr>main := CloseCollector (bpfCol l) (Returned (StatsFailed FromCPU err))\<rparr>)
           | Inr curCPU \<Rightarrow> Live (s\<lparr>main := InTick l (MemNext curCPU)\<rparr>))
      | InTick l t \<Rightarrow>
          (case tick_call A P (flag_path F) os l t (kernel s) of
             (Leave st, w) \<Rightarrow> Live (s\<lparr>main := CloseCollector (bpfCol l) st, kernel := w\<rparr>)
           | (Call t, w) \<Rightarrow> Live (s\<lparr>main := InTick l t, kernel := w\<rparr>)
           | (Screen screen curCPU curNet now, w) \<Rightarrow>
               (let out = printed s @ [(Stdout, screen)]
                in Live (s\<lparr>main := Looping (l\<lparr>lworld := w, lwrites := out, prevCPU := curCPU,
                             prevNet := curNet, lastSample := now\<rparr>),
                           kernel := w, printed := out\<rparr>)))
      | CloseCollector col st \<Rightarrow>
          Live (s\<lparr>main := RestoreCursor st,
            kernel := (case col of None \<Rightarrow> kernel s | Some c \<Rightarrow> Collector_Close A c (kernel s))\<rparr>)
      | RestoreCursor st \<Rightarrow>
          Live (s\<lparr>main := ExitMain st, printed := printed s @ [(Stdout, showCursor)]\<rparr>)
      | ExitMain st \<Rightarrow> Exited (Code (status_code st)) (kernel s) (printed s @ last_words report st))"

text \<open>
  The process: a step of \<open>main\<close>, a change of the kernel that the process has no part in (the
  relation \<open>K\<close>), the arrival of a signal that \<open>run\<close> asks to be notified of, and the steps of the
  goroutine. Before the handler is installed such a signal kills the process.
\<close>

inductive process_step ::
  "('w, 'e) bpf_api \<Rightarrow> ('w \<Rightarrow> 'w \<Rightarrow> bool) \<Rightarrow> platform \<Rightarrow> ('e exit_status \<Rightarrow> gostring) \<Rightarrow> flags \<Rightarrow>
     ('w, 'e) process \<Rightarrow> ('w, 'e) process \<Rightarrow> bool"
  for A K P report F where
  main: "process_step A K P report F (Live s) (main_step A P report F os s)"
| event: "K (kernel s) w \<Longrightarrow> process_step A K P report F (Live s) (Live (s\<lparr>kernel := w\<rparr>))"
| killed: "notified sig \<Longrightarrow> handler s = NotInstalled \<Longrightarrow>
    process_step A K P report F (Live s) (Exited (Killed sig) (kernel s) (printed s))"
| deliver: "handler s = Waiting \<Longrightarrow>
    process_step A K P report F (Live s) (Live (s\<lparr>handler := Received\<rparr>))"
| restore: "handler s = Received \<Longrightarrow>
    process_step A K P report F (Live s)
      (Live (s\<lparr>handler := Restored, printed := printed s @ [(Stdout, showCursor)]\<rparr>))"
| exit: "handler s = Restored \<Longrightarrow>
    process_step A K P report F (Live s) (Exited (Code 0) (kernel s) (printed s))"

inductive_cases process_step_LiveE: "process_step A K P report F (Live s) p"

inductive_simps process_step_Exited [simp]: "process_step A K P report F (Exited c w out) p"

inductive process_reach ::
  "('w, 'e) bpf_api \<Rightarrow> ('w \<Rightarrow> 'w \<Rightarrow> bool) \<Rightarrow> platform \<Rightarrow> ('e exit_status \<Rightarrow> gostring) \<Rightarrow> flags \<Rightarrow> 'w \<Rightarrow>
     ('w, 'e) process \<Rightarrow> bool"
  for A K P report F w0 where
  start: "process_reach A K P report F w0 (Live (sysmon_init w0))"
| step: "process_reach A K P report F w0 p \<Longrightarrow> process_step A K P report F p p' \<Longrightarrow>
    process_reach A K P report F w0 p'"

text \<open>
  The signals that \<open>run\<close> does not ask for end the process at any time, whatever it is doing; the
  text of the stack dump is arbitrary.
\<close>

inductive other_signal :: "('w, 'e) process \<Rightarrow> ('w, 'e) process \<Rightarrow> bool" where
  killed_by: "\<not> notified sig \<Longrightarrow>
    other_signal (Live s) (Exited (Killed sig) (kernel s) (printed s))"
| dumped: "other_signal (Live s)
    (Exited (Code 2) (kernel s) (printed s @ [(Stderr, ''SIGQUIT: quit'' @ newline @ dump)]))"

inductive_cases other_signalE: "other_signal p (Exited c w out)"

text \<open>Every way the process can end: by its own steps, or by a signal it does not handle.\<close>

definition process_ends ::
  "('w, 'e) bpf_api \<Rightarrow> ('w \<Rightarrow> 'w \<Rightarrow> bool) \<Rightarrow> platform \<Rightarrow> ('e exit_status \<Rightarrow> gostring) \<Rightarrow> flags \<Rightarrow> 'w \<Rightarrow>
     exit_code \<Rightarrow> 'w \<Rightarrow> writes \<Rightarrow> bool" where
  "process_ends A K P report F w0 c w out \<longleftrightarrow>
     process_reach A K P report F w0 (Exited c w out) \<or>
     (\<exists>s. process_reach A K P report F w0 (Live s) \<and> other_signal (Live s) (Exited c w out))"

section \<open>The invariant\<close>

lemma last_words_cursor: "cursor_shown True out \<Longrightarrow> cursor_shown True (out @ last_words report st)"
  by (cases st) (simp_all add: cursor_shown_append hideCursor_def escape_def)

text \<open>Reasons to leave that \<open>run\<close> can have.\<close>

definition possible_status :: "flags \<Rightarrow> 'e exit_status \<Rightarrow> bool" where
  "possible_status F st \<longleftrightarrow>
     (case st of Returned err \<Rightarrow> True | NewTickerPanic \<Rightarrow> flag_interval F \<le> 0 | _ \<Rightarrow> False)"

lemma possible_Returned [simp]: "possible_status F (Returned err)"
  by (simp add: possible_status_def)

text \<open>Nothing but the notice of the tracepoints has gone to standard error.\<close>

definition no_errors :: "writes \<Rightarrow> bool" where
  "no_errors out \<longleftrightarrow> list_all (\<lambda>(st, t). st = Stderr \<longrightarrow> t = attached_message) out"

lemma no_errors_simps [simp]:
  "no_errors []" "no_errors (out @ out') \<longleftrightarrow> no_errors out \<and> no_errors out'"
  "no_errors ((st, t) # out) \<longleftrightarrow> (st = Stderr \<longrightarrow> t = attached_message) \<and> no_errors out"
  by (auto simp: no_errors_def)

text \<open>The last thing on standard error, after whatever was written before.\<close>

definition ends_with :: "gostring \<Rightarrow> writes \<Rightarrow> bool" where
  "ends_with t out \<longleftrightarrow> out \<noteq> [] \<and> last out = (Stderr, t)"

lemma ends_with_snoc [simp]: "ends_with t (out @ [(Stderr, t')]) \<longleftrightarrow> t' = t"
  by (auto simp: ends_with_def)

context collector_runtime
begin

fun stage_ok :: "flags \<Rightarrow> 'a \<Rightarrow> ('a, 'b) sysmon \<Rightarrow> ('a, 'b) stage \<Rightarrow> bool" where
  "stage_ok F w0 s HideCursor \<longleftrightarrow>
     handler s = NotInstalled \<and> held (kernel s) = held w0 \<and> printed s = []"
| "stage_ok F w0 s Notify \<longleftrightarrow>
     handler s = NotInstalled \<and> held (kernel s) = held w0 \<and> printed s = [(Stdout, hideCursor)]"
| "stage_ok F w0 s OpenCollector \<longleftrightarrow> handler s \<noteq> NotInstalled \<and> held (kernel s) = held w0"
| "stage_ok F w0 s (FirstCPU col) \<longleftrightarrow> handler s \<noteq> NotInstalled \<and> col_held w0 col (kernel s)"
| "stage_ok F w0 s (FirstNet col cpu) \<longleftrightarrow> handler s \<noteq> NotInstalled \<and> col_held w0 col (kernel s)"
| "stage_ok F w0 s (StartTicker col cpu net) \<longleftrightarrow>
     handler s \<noteq> NotInstalled \<and> col_held w0 col (kernel s)"
| "stage_ok F w0 s (InTick l t) \<longleftrightarrow> handler s \<noteq> NotInstalled \<and> col_held w0 (bpfCol l) (kernel s)"
| "stage_ok F w0 s (Looping l) \<longleftrightarrow> handler s \<noteq> NotInstalled \<and> col_held w0 (bpfCol l) (kernel s)"
| "stage_ok F w0 s (CloseCollector col st) \<longleftrightarrow>
     handler s \<noteq> NotInstalled \<and> col_held w0 col (kernel s) \<and> possible_status F st"
| "stage_ok F w0 s (RestoreCursor st) \<longleftrightarrow>
     handler s \<noteq> NotInstalled \<and> held (kernel s) = held w0 \<and> possible_status F st"
| "stage_ok F w0 s (ExitMain st) \<longleftrightarrow>
     handler s \<noteq> NotInstalled \<and> held (kernel s) = held w0 \<and> possible_status F st \<and>
     cursor_shown True (printed s)"

definition live_ok :: "flags \<Rightarrow> 'a \<Rightarrow> ('a, 'b) sysmon \<Rightarrow> bool" where
  "live_ok F w0 s \<longleftrightarrow> stage_ok F w0 s (main s) \<and> no_errors (printed s) \<and>
     (handler s = Restored \<longrightarrow> cursor_shown True (printed s))"

text \<open>What is known of every way the process ends by its own steps.\<close>

definition exit_ok ::
  "('b exit_status \<Rightarrow> gostring) \<Rightarrow> flags \<Rightarrow> 'a \<Rightarrow> exit_code \<Rightarrow> 'a \<Rightarrow> writes \<Rightarrow> bool" where
  "exit_ok report F w0 c w out \<longleftrightarrow>
     (case c of
        Killed sig \<Rightarrow> notified sig \<and> held w = held w0 \<and> out \<in> {[], [(Stdout, hideCursor)]}
      | Code n \<Rightarrow> cursor_shown True out \<and>
          (n = 0 \<and> no_errors out \<and> held w \<subseteq> held w0 \<union> collector_handles \<or>
           n = 1 \<and> (\<exists>err. ends_with (''sysmon: '' @ report (Returned err) @ newline) out) \<and>
             held w = held w0 \<or>
           n = 2 \<and> flag_interval F \<le> 0 \<and>
             ends_with (''panic: '' @ report NewTickerPanic @ newline) out \<and> held w = held w0))"

fun process_ok :: "('b exit_status \<Rightarrow> gostring) \<Rightarrow> flags \<Rightarrow> 'a \<Rightarrow> ('a, 'b) process \<Rightarrow> bool" where
  "process_ok report F w0 (Live s) \<longleftrightarrow> live_ok F w0 s"
| "process_ok report F w0 (Exited c w out) \<longleftrightarrow> exit_ok report F w0 c w out"

lemma col_held_bound: "col_held w0 col w \<Longrightarrow> held w \<subseteq> held w0 \<union> collector_handles"
  by (auto simp: col_held_def split: option.splits)

lemma live_bound: "live_ok F w0 s \<Longrightarrow> held (kernel s) \<subseteq> held w0 \<union> collector_handles"
  by (cases "main s") (auto simp: live_ok_def dest: col_held_bound)

lemma close_returns:
  assumes "held w0 \<inter> collector_handles = {}" and "col_held w0 col w"
  shows "held (case col of None \<Rightarrow> w | Some c \<Rightarrow> Collector_Close A c w) = held w0"
proof (cases col)
  case (Some c)
  then have "held (Collector_Close A c w) = held w - collector_handles"
    using assms(2) by (intro collector_close) (auto simp: col_held_def)
  then show ?thesis using assms Some by (auto simp: col_held_def)
qed (use assms(2) in \<open>simp add: col_held_def\<close>)

lemma open_ok:
  assumes fresh: "held w0 \<inter> collector_handles = {}" and ok: "live_ok F w0 s"
    and at: "main s = OpenCollector"
  shows "process_ok report F w0 (main_step A P report F os s)"
proof -
  have k: "held (kernel s) = held w0" using ok at by (simp add: live_ok_def)
  obtain r w where n: "NewCollector A (kernel s) = (r, w)" by (rule prod.exhaust)
  have "held (kernel s) \<inter> collector_handles = {}" using fresh k by simp
  from new_collector_cases [OF this n] show ?thesis
    using ok at k n cursor_texts
    by (cases r) (auto simp: main_step_def live_ok_def col_held_def possible_status_def
        cursor_shown_append)
qed

text \<open>A call of a tick keeps the handles; it leaves with an error only, and prints one screen.\<close>

lemma tick_call_ok:
  assumes "tick_call A P mountPath os l t w = (r, w')"
  shows "held w' = held w \<and>
    (case r of
       Leave st \<Rightarrow> \<exists>err. st = Returned err
     | Call t \<Rightarrow> True
     | Screen screen _ _ _ \<Rightarrow> screen \<noteq> hideCursor \<and> screen \<noteq> showCursor)"
proof (cases t)
  case (RenderNext cpu mem disk net now bs)
  obtain screen where screen: "render (conv_int P) (conv_u64 P) (net_order os)
      (CPUPercent (prevCPU l) cpu) mem disk
      (ComputeNetThroughput (prevNet l) net (duration_seconds (time_sub now (lastSample l)))) bs = Some screen"
    using render_parts_Some by blast
  then show ?thesis using assms RenderNext screen_is_no_cursor_text [OF screen]
    by (auto simp: Let_def)
qed (use assms in \<open>auto simp: ResetHistogram_def reset_held Let_def split: sum.splits option.splits\<close>)

lemma col_held_cong: "held w' = held w \<Longrightarrow> col_held w0 col w' = col_held w0 col w"
  by (simp add: col_held_def split: option.split)

lemma in_tick_ok:
  assumes ok: "live_ok F w0 s" and at: "main s = InTick l t"
  shows "process_ok report F w0 (main_step A P report F os s)"
proof -
  obtain r w where r: "tick_call A P (flag_path F) os l t (kernel s) = (r, w)" by (rule prod.exhaust)
  note call = tick_call_ok [OF r]
  then have "col_held w0 (bpfCol l) w"
    using ok at col_held_cong [of w "kernel s"] by (simp add: live_ok_def)
  with call ok at r show ?thesis
    by (cases r) (auto simp: main_step_def live_ok_def cursor_shown_append Let_def)
qed

text \<open>What the kernel does of its own leaves the state good, as long as it touches no handle.\<close>

lemma kernel_ok:
  assumes "live_ok F w0 s" and "held w = held (kernel s)"
  shows "live_ok F w0 (s\<lparr>kernel := w\<rparr>)"
  using assms by (cases "main s") (simp_all add: live_ok_def col_held_cong [OF assms(2)])

lemma main_step_ok:
  assumes fresh: "held w0 \<inter> collector_handles = {}" and ok: "live_ok F w0 s"
  shows "process_ok report F w0 (main_step A P report F os s)"
proof (cases "main s")
  case OpenCollector
  then show ?thesis using assms by (intro open_ok)
next
  case (InTick l t)
  then show ?thesis using assms by (intro in_tick_ok)
next
  case (StartTicker col cpu net)
  then show ?thesis using ok by (simp add: main_step_def live_ok_def possible_status_def)
next
  case (CloseCollector col st)
  then show ?thesis using ok close_returns [OF fresh, of col "kernel s"]
    by (auto simp: main_step_def live_ok_def)
next
  case (ExitMain st)
  then show ?thesis using ok last_words_cursor [of "printed s" report st]
    by (cases st) (auto simp: main_step_def live_ok_def exit_ok_def possible_status_def)
qed (use ok cursor_texts in \<open>auto simp: main_step_def live_ok_def cursor_shown_append split: sum.split\<close>)

lemma step_ok:
  assumes fresh: "held w0 \<inter> collector_handles = {}" and ok: "process_ok report F w0 p"
    and keeps: "\<And>w w'. K w w' \<Longrightarrow> held w' = held w"
    and step: "process_step A K P report F p p'"
  shows "process_ok report F w0 p'"
proof (cases p)
  case (Live s)
  then have live: "live_ok F w0 s" using ok by simp
  have same: "stage_ok F w0 (s\<lparr>handler := h, printed := out\<rparr>) (main s)"
    if "handler s \<noteq> NotInstalled" "h \<noteq> NotInstalled" "cursor_shown True (printed s) \<longrightarrow> cursor_shown True out"
    for h out
    using live that by (cases "main s") (auto simp: live_ok_def)
  from step [unfolded Live] show ?thesis
  proof (rule process_step_LiveE)
    fix os
    assume "p' = main_step A P report F os s"
    then show ?thesis using main_step_ok [OF fresh live] by simp
  next
    fix w
    assume "p' = Live (s\<lparr>kernel := w\<rparr>)" "K (kernel s) w"
    then show ?thesis using kernel_ok [OF live keeps] by simp
  next
    fix sig
    assume "p' = Exited (Killed sig) (kernel s) (printed s)" "notified sig" "handler s = NotInstalled"
    then show ?thesis using live by (cases "main s") (auto simp: live_ok_def exit_ok_def)
  next
    assume "p' = Live (s\<lparr>handler := Received\<rparr>)" "handler s = Waiting"
    then show ?thesis using same [of Received "printed s"] live by (simp add: live_ok_def)
  next
    assume "p' = Live (s\<lparr>handler := Restored, printed := printed s @ [(Stdout, showCursor)]\<rparr>)"
      "handler s = Received"
    then show ?thesis using same [of Restored "printed s @ [(Stdout, showCursor)]"] live
      by (simp add: live_ok_def cursor_shown_append cursor_texts)
  next
    assume "p' = Exited (Code 0) (kernel s) (printed s)" "handler s = Restored"
    then show ?thesis using live live_bound [OF live] by (simp add: live_ok_def exit_ok_def)
  qed
next
  case (Exited c w out)
  with step show ?thesis by simp
qed

lemma process_reach_ok:
  assumes "held w0 \<inter> collector_handles = {}" and "\<And>w w'. K w w' \<Longrightarrow> held w' = held w"
    and "process_reach A K P report F w0 p"
  shows "process_ok report F w0 p"
  using assms(3)
proof (induction rule: process_reach.induct)
  case start
  show ?case by (simp add: live_ok_def sysmon_init_def)
next
  case (step p p')
  then show ?case using step_ok [OF assms(1) _ assms(2)] by blast
qed

end

section \<open>The run as a process\<close>

text \<open>
  The states of \<open>SysmonRun\<close> in the process: a running loop is at its tick with the handler
  waiting, an ended run has exited after its last words.
\<close>

fun in_process ::
  "('e exit_status \<Rightarrow> gostring) \<Rightarrow> ('w, 'e) proc \<Rightarrow> ('w, 'e) process" where
  "in_process report (Running l) =
     Live \<lparr>main = Looping l, handler = Waiting, kernel = lworld l, printed = lwrites l\<rparr>"
| "in_process report (Ended st w out) =
     Exited (Code (status_code st)) w (out @ last_words report st)"

definition run_flags :: "int \<Rightarrow> gostring \<Rightarrow> bool \<Rightarrow> flags" where
  "run_flags interval path useEBPF =
     \<lparr>flag_interval = interval, flag_path = path, flag_ebpf = useEBPF\<rparr>"

lemma reach_main:
  "process_reach A K P report F w0 (Live s) \<Longrightarrow> process_reach A K P report F w0 (main_step A P report F os s)"
  by (blast intro: process_reach.step process_step.main)

lemma record_of:
  "handler s = Waiting \<Longrightarrow>
     s\<lparr>main := m\<rparr> = \<lparr>main = m, handler = Waiting, kernel = kernel s, printed = printed s\<rparr>"
  by simp

lemma reach_leave:
  assumes "process_reach A K P report F w0 (Live s)" and "main s = CloseCollector col st"
  shows "process_reach A K P report F w0 (in_process report (leave A col st (kernel s) (printed s)))"
proof -
  let ?w = "case col of None \<Rightarrow> kernel s | Some c \<Rightarrow> Collector_Close A c (kernel s)"
  have "process_reach A K P report F w0 (Live (s\<lparr>main := RestoreCursor st, kernel := ?w\<rparr>))"
    using reach_main [OF assms(1)] assms(2) by (simp add: main_step_def)
  from reach_main [OF this]
  have "process_reach A K P report F w0
      (Live (s\<lparr>kernel := ?w, main := ExitMain st, printed := printed s @ [(Stdout, showCursor)]\<rparr>))"
    by (simp add: main_step_def)
  from reach_main [OF this] show ?thesis by (simp add: main_step_def leave_def Let_def)
qed

lemma reach_sampling:
  assumes "process_reach A K P report F w0 (Live s)" and "main s = FirstCPU col"
    and "handler s = Waiting"
  shows "process_reach A K P report F w0
    (in_process report (run_sampling A (flag_interval F) os col (kernel s) (printed s)))"
proof (cases "ReadCPUTimes (open_proc os)")
  case (Inl err)
  from reach_main [OF assms(1), of os] assms(2) Inl
  have "process_reach A K P report F w0
      (Live (s\<lparr>main := CloseCollector col (Returned (StatsFailed FromCPU err))\<rparr>))"
    by (simp add: main_step_def)
  from reach_leave [OF this] show ?thesis by (simp add: run_sampling_def sampling_body_def Inl)
next
  case cpu: (Inr cpu)
  from reach_main [OF assms(1), of os] assms(2) cpu
  have net: "process_reach A K P report F w0 (Live (s\<lparr>main := FirstNet col cpu\<rparr>))"
    by (simp add: main_step_def)
  show ?thesis
  proof (cases "ReadNetIO (open_proc os)")
    case (Inl err)
    from reach_main [OF net, of os] Inl
    have "process_reach A K P report F w0
        (Live (s\<lparr>main := CloseCollector col (Returned (StatsFailed FromNet err))\<rparr>))"
      by (simp add: main_step_def)
    from reach_leave [OF this] show ?thesis by (simp add: run_sampling_def sampling_body_def cpu Inl)
  next
    case (Inr net')
    from reach_main [OF net, of os] Inr
    have start: "process_reach A K P report F w0 (Live (s\<lparr>main := StartTicker col cpu net'\<rparr>))"
      by (simp add: main_step_def)
    show ?thesis
    proof (cases "flag_interval F \<le> 0")
      case True
      with reach_main [OF start, of os]
      have "process_reach A K P report F w0 (Live (s\<lparr>main := CloseCollector col NewTickerPanic\<rparr>))"
        by (simp add: main_step_def)
      from reach_leave [OF this] True show ?thesis
        by (simp add: run_sampling_def sampling_body_def cpu Inr)
    next
      case False
      then show ?thesis using reach_main [OF start, of os] record_of [OF assms(3)]
        by (simp add: main_step_def run_sampling_def sampling_body_def cpu Inr)
    qed
  qed
qed

lemma reach_start:
  assumes "F = run_flags interval path useEBPF"
  shows "process_reach A K P report F w0 (in_process report (run_start A interval useEBPF os w0))"
proof -
  let ?s = "\<lparr>main = OpenCollector, handler = Waiting, kernel = w0, printed = [(Stdout, hideCursor)]\<rparr>"
  have "process_reach A K P report F w0
      (Live \<lparr>main = Notify, handler = NotInstalled, kernel = w0, printed = [(Stdout, hideCursor)]\<rparr>)"
    using reach_main [OF process_reach.start] by (simp add: main_step_def sysmon_init_def)
  from reach_main [OF this] have s: "process_reach A K P report F w0 (Live ?s)"
    by (simp add: main_step_def)
  show ?thesis
  proof (cases useEBPF)
    case False
    have "process_reach A K P report F w0 (Live (?s\<lparr>main := FirstCPU None\<rparr>))"
      using reach_main [OF s] assms False by (simp add: main_step_def run_flags_def)
    from reach_sampling [OF this] show ?thesis using assms False
      by (simp add: run_start_def run_flags_def)
  next
    case True
    obtain r w where n: "NewCollector A w0 = (r, w)" by (rule prod.exhaust)
    show ?thesis
    proof (cases r)
      case (Inl err)
      have "process_reach A K P report F w0
          (Live (?s\<lparr>main := CloseCollector None (Returned (CollectorFailed err)), kernel := w\<rparr>))"
        using reach_main [OF s] assms True n Inl by (simp add: main_step_def run_flags_def)
      from reach_leave [OF this] show ?thesis using True n Inl
        by (simp add: run_start_def)
    next
      case (Inr c)
      have "process_reach A K P report F w0
          (Live (?s\<lparr>main := FirstCPU (Some c), kernel := w,
             printed := printed ?s @ [(Stderr, attached_message)]\<rparr>))"
        using reach_main [OF s] assms True n Inr by (simp add: main_step_def run_flags_def)
      from reach_sampling [OF this] show ?thesis using assms True n Inr
        by (simp add: run_start_def run_flags_def)
    qed
  qed
qed

text \<open>The calls of a tick one after the other, on what the system delivers for all of them.\<close>

definition in_tick :: "'w loop \<Rightarrow> tick_stage \<Rightarrow> 'w \<Rightarrow> ('w, 'e) process" where
  "in_tick l t w = Live \<lparr>main = InTick l t, handler = Waiting, kernel = w, printed = lwrites l\<rparr>"

lemma reach_call:
  assumes "process_reach A K P report F w0 (in_tick l t w)"
    and "tick_call A P (flag_path F) os l t w = (r, w')"
  shows "process_reach A K P report F w0
    (case r of
       Leave st \<Rightarrow> in_process report (leave A (bpfCol l) st w' (lwrites l))
     | Call t \<Rightarrow> in_tick l t w'
     | Screen screen cpu net now \<Rightarrow>
         in_process report (Running (l\<lparr>lworld := w', lwrites := lwrites l @ [(Stdout, screen)],
           prevCPU := cpu, prevNet := net, lastSample := now\<rparr>)))"
proof (cases r)
  case (Leave st)
  have "process_reach A K P report F w0 (Live \<lparr>main = CloseCollector (bpfCol l) st,
      handler = Waiting, kernel = w', printed = lwrites l\<rparr>)"
    using reach_main [OF assms(1) [unfolded in_tick_def], of os] assms(2) Leave
    by (simp add: main_step_def)
  from reach_leave [OF this] Leave show ?thesis by simp
qed (use reach_main [OF assms(1) [unfolded in_tick_def], of os] assms(2) in
      \<open>simp_all add: main_step_def in_tick_def Let_def\<close>)

text \<open>From the histogram on, no call fails but rendering.\<close>

lemma reach_histogram:
  fixes A :: "('w, 'e) bpf_api" and os :: "'e sources"
  assumes "process_reach A K P report F w0 (in_tick l (HistogramNext cpu mem disk net) w)"
  shows "process_reach A K P report F w0 (in_process report
    (let (bs, w) = read_and_reset A (bpfCol l) w
     in case render (conv_int P) (conv_u64 P) (net_order os) (CPUPercent (prevCPU l) cpu) mem disk
          (ComputeNetThroughput (prevNet l) net (duration_seconds (time_sub (clock os) (lastSample l)))) bs of
        None \<Rightarrow> leave A (bpfCol l) RenderPanic w (lwrites l)
      | Some screen \<Rightarrow> Running (l\<lparr>lworld := w, lwrites := lwrites l @ [(Stdout, screen)],
          prevCPU := cpu, prevNet := net, lastSample := clock os\<rparr>)))"
proof -
  define bs where "bs = fst (read_and_reset A (bpfCol l) w)"
  define w' where "w' = snd (read_and_reset A (bpfCol l) w)"
  have hist: "tick_call A P (flag_path F) os l (HistogramNext cpu mem disk net) w =
      (Call (ResetNext cpu mem disk net (clock os) bs), w)"
    by (simp add: bs_def read_and_reset_def Let_def split: option.split)
  have reset: "tick_call A P (flag_path F) os l (ResetNext cpu mem disk net (clock os) bs) w =
      (Call (RenderNext cpu mem disk net (clock os) bs), w')"
    by (simp add: w'_def read_and_reset_def Let_def split: option.split)
  have rr: "read_and_reset A (bpfCol l) w = (bs, w')" by (simp add: bs_def w'_def)
  from reach_call [OF assms hist]
  have "process_reach A K P report F w0 (in_tick l (ResetNext cpu mem disk net (clock os) bs) w)"
    by simp
  from reach_call [OF this reset]
  have "process_reach A K P report F w0 (in_tick l (RenderNext cpu mem disk net (clock os) bs) w')"
    by simp
  note draw = reach_call [OF this surjective_pairing, of os]
  show ?thesis
    using draw by (cases "render (conv_int P) (conv_u64 P) (net_order os) (CPUPercent (prevCPU l) cpu)
      mem disk (ComputeNetThroughput (prevNet l) net (duration_seconds (time_sub (clock os) (lastSample l)))) bs")
      (simp_all add: rr Let_def)
qed

lemma reach_tick:
  assumes F: "F = run_flags interval path useEBPF" and P: "P = \<lparr>conv_int = oor, conv_u64 = oor64\<rparr>"
    and r: "process_reach A K P report F w0 (in_process report (Running l))"
  shows "process_reach A K P report F w0 (in_process report (run_tick A oor oor64 path os l))"
proof (cases "ReadCPUTimes (open_proc os)")
  case (Inl err)
  have "process_reach A K P report F w0 (Live \<lparr>main = CloseCollector (bpfCol l)
      (Returned (StatsFailed FromCPU err)), handler = Waiting, kernel = lworld l, printed = lwrites l\<rparr>)"
    using reach_main [OF r [simplified], of os] Inl by (simp add: main_step_def)
  from reach_leave [OF this] Inl show ?thesis by (simp add: run_tick_def tick_body_def)
next
  case cpu: (Inr cpu)
  have path: "flag_path F = path" by (simp add: F run_flags_def)
  have "process_reach A K P report F w0 (in_tick l (MemNext cpu) (lworld l))"
    using reach_main [OF r [simplified], of os] cpu by (simp add: main_step_def in_tick_def)
  note mem = reach_call [OF this surjective_pairing, of os]
  show ?thesis
  proof (cases "ReadMemInfo (open_proc os)")
    case (Inl err)
    then show ?thesis using mem by (simp add: run_tick_def tick_body_def cpu)
  next
    case m: (Inr m)
    with mem have "process_reach A K P report F w0 (in_tick l (DiskNext cpu m) (lworld l))" by simp
    note disk = reach_call [OF this surjective_pairing, of os]
    show ?thesis
    proof (cases "ReadDiskUsage (statfs_call os) path")
      case (Inl err)
      then show ?thesis using disk by (simp add: run_tick_def tick_body_def cpu m path)
    next
      case d: (Inr d)
      with disk have "process_reach A K P report F w0 (in_tick l (NetNext cpu m d) (lworld l))"
        by (simp add: path)
      note net = reach_call [OF this surjective_pairing, of os]
      show ?thesis
      proof (cases "ReadNetIO (open_proc os)")
        case (Inl err)
        then show ?thesis using net by (simp add: run_tick_def tick_body_def cpu m d)
      next
        case (Inr n)
        with net have "process_reach A K P report F w0 (in_tick l (HistogramNext cpu m d n) (lworld l))"
          by simp
        from reach_histogram [OF this, of os] Inr show ?thesis
          by (simp add: run_tick_def tick_body_def cpu m d P Let_def split: prod.splits option.splits)
      qed
    qed
  qed
qed

lemma reach_signal:
  assumes "process_reach A K P report F w0 (Live s)" and "handler s = Waiting"
  shows "process_reach A K P report F w0
    (Exited (Code 0) (kernel s) (printed s @ [(Stdout, showCursor)]))"
proof -
  have "process_reach A K P report F w0 (Live (s\<lparr>handler := Received\<rparr>))"
    using assms by (blast intro: process_reach.step process_step.deliver)
  then have "process_reach A K P report F w0
      (Live (s\<lparr>handler := Restored, printed := printed s @ [(Stdout, showCursor)]\<rparr>))"
    using process_step.restore [of "s\<lparr>handler := Received\<rparr>" A K P report F]
    by (fastforce intro: process_reach.step)
  then show ?thesis
    using process_step.exit [of "s\<lparr>handler := Restored, printed := printed s @ [(Stdout, showCursor)]\<rparr>"
        A K P report F]
    by (fastforce intro: process_reach.step)
qed

lemma run_in_process:
  assumes F: "F = run_flags interval path useEBPF" and P: "P = \<lparr>conv_int = oor, conv_u64 = oor64\<rparr>"
    and "proc_reach A oor oor64 path (run_start A interval useEBPF os w0) p"
  shows "process_reach A K P report F w0 (in_process report p)"
  using assms(3)
proof (induction rule: proc_reach.induct)
  case here
  show ?case by (rule reach_start [OF F])
next
  case (more p p')
  from more.hyps(2) more.IH show ?case
  proof (cases rule: proc_step.cases)
    case (tick l os)
    have "process_reach A K P report F w0 (in_process report (Running l))"
      using more.IH tick by simp
    from reach_tick [OF F P this] show ?thesis using tick by simp
  next
    case (signal l)
    then show ?thesis using reach_signal [of A K P report F w0 "\<lparr>main = Looping l, handler = Waiting,
        kernel = lworld l, printed = lwrites l\<rparr>"] more.IH by simp
  qed
qed

section \<open>Properties\<close>


text \<open>The handlers of the BPF program at work on the maps of the reference instance.\<close>

definition handlers_fire :: "world \<Rightarrow> world \<Rightarrow> bool" where
  "handlers_fire w w' \<longleftrightarrow> (\<exists>ev. w' = w\<lparr>kmaps := handle kernel_helpers ev (kmaps w)\<rparr>)"


text \<open>
  A hang-up is not among the signals that \<open>run\<close> asks for: at any time it leaves the cursor as it
  is, hidden.
\<close>

lemma hangup_keeps_cursor:
  assumes "process_reach A K P report F w0 (Live s)"
  shows "process_ends A K P report F w0 (Killed SIGHUP) (kernel s) (printed s)"
  using assms other_signal.killed_by [of SIGHUP s] by (auto simp: process_ends_def notified_def)

text \<open>
  C35. \<open>run\<close> hides the cursor before it installs the signal handler: a signal that arrives
  between the two kills the process with the cursor hidden.
\<close>

theorem early_signal_hides_cursor:
  "process_reach A K P report F w0 (Exited (Killed SIGINT) w0 [(Stdout, hideCursor)]) \<and>
   process_reach A K P report F w0 (Exited (Killed SIGTERM) w0 [(Stdout, hideCursor)]) \<and>
   \<not> cursor_shown True [(Stdout, hideCursor)]"
proof -
  have r: "process_reach A K P report F w0
      (Live \<lparr>main = Notify, handler = NotInstalled, kernel = w0, printed = [(Stdout, hideCursor)]\<rparr>)"
    using reach_main [OF process_reach.start] by (simp add: main_step_def sysmon_init_def)
  have "process_reach A K P report F w0 (Exited (Killed sig) w0 [(Stdout, hideCursor)])"
    if "notified sig" for sig
    using process_reach.step [OF r process_step.killed [of sig]] that by simp
  then show ?thesis by (simp add: notified_def cursor_texts)
qed

text \<open>
  The run of start-up and ticks is a behaviour of the process: whatever state it reaches,
  the process can reach, with the same kernel state and the same output; a run that ends with
  an error or a panic is a process that prints it and exits with 1 or 2, one that ends with a
  signal exits with 0.
\<close>

lemma run_refines_process:
  assumes "proc_reach A oor oor64 path (run_start A interval useEBPF os w0) p"
  shows "process_reach A K \<lparr>conv_int = oor, conv_u64 = oor64\<rparr> report (run_flags interval path useEBPF) w0
    (in_process report p)"
  using assms by (rule run_in_process [OF refl refl])

lemma run_refines_process_witness:
  "process_reach kernel_api handlers_fire \<lparr>conv_int = (\<lambda>_. 0), conv_u64 = (\<lambda>_. 0)\<rparr> (\<lambda>_. ''no stat'')
     (run_flags 1 ''/'' False) fresh_world
     (Exited (Code 1) fresh_world
       [(Stdout, hideCursor), (Stdout, showCursor), (Stderr, ''sysmon: no stat'' @ newline)])"
proof -
  have e: "run_start kernel_api 1 False no_proc fresh_world =
      Ended (Returned (StatsFailed FromCPU (OpenError ''/proc/stat'' ENOENT))) fresh_world
        [(Stdout, hideCursor), (Stdout, showCursor)]"
    by (simp add: run_start_def run_sampling_def sampling_body_def ReadCPUTimes_def no_proc_def leave_def)
  show ?thesis
    using run_refines_process [of kernel_api "\<lambda>_. 0" "\<lambda>_. 0" "''/''" 1 False no_proc fresh_world
        "run_start kernel_api 1 False no_proc fresh_world" handlers_fire "\<lambda>_. ''no stat''",
        OF proc_reach.here]
    by (simp add: e)
qed

end
