(* ===== verification/Messages.thy ===== *)
theory Messages
  imports SysmonMain
begin

text \<open>
  The text of the errors that \<open>run\<close> returns and \<open>main\<close> prints (\<open>src/cmd/sysmon/main.go\<close>): the
  chains of \<open>fmt.Errorf\<close> of the collectors under \<open>src/internal/stats/\<close> and of the loader, with
  what they use of the standard library: the \<open>%q\<close> verb, \<open>strconv.NumError\<close> and the errors of
  \<open>bufio\<close>. The text of a system error is a parameter, and so is which runes beyond ASCII
  \<open>unicode.IsPrint\<close> accepts.
\<close>

declare of_nat_unat [simp del]

section \<open>Runes\<close>

abbreviation byte :: "char \<Rightarrow> nat" where
  "byte c \<equiv> of_char c"

definition continues :: "nat \<Rightarrow> bool" where
  "continues b \<longleftrightarrow> 128 \<le> b \<and> b \<le> 191"

text \<open>The second bytes that UTF-8 allows after the first byte of three or of four.\<close>

definition second_of_3 :: "nat \<Rightarrow> nat \<Rightarrow> bool" where
  "second_of_3 b0 b1 \<longleftrightarrow>
     (if b0 = 224 then 160 else 128) \<le> b1 \<and> b1 \<le> (if b0 = 237 then 159 else 191)"

definition second_of_4 :: "nat \<Rightarrow> nat \<Rightarrow> bool" where
  "second_of_4 b0 b1 \<longleftrightarrow>
     (if b0 = 240 then 144 else 128) \<le> b1 \<and> b1 \<le> (if b0 = 244 then 143 else 191)"

text \<open>
  \<open>utf8.DecodeRuneInString\<close>: the rune at the front of a string and the number of its bytes;
  \<open>None\<close> at a byte that starts no valid encoding.
\<close>

fun decode_rune :: "nat list \<Rightarrow> (nat \<times> nat) option" where
  "decode_rune [] = None"
| "decode_rune (b0 # bs) =
     (if b0 < 128 then Some (b0, 1)
      else case bs of
        b1 # bs1 \<Rightarrow>
          if 194 \<le> b0 \<and> b0 \<le> 223 \<and> continues b1
          then Some ((b0 - 192) * 64 + (b1 - 128), 2)
          else (case bs1 of
            b2 # bs2 \<Rightarrow>
              if 224 \<le> b0 \<and> b0 \<le> 239 \<and> second_of_3 b0 b1 \<and> continues b2
              then Some (((b0 - 224) * 64 + (b1 - 128)) * 64 + (b2 - 128), 3)
              else (case bs2 of
                b3 # _ \<Rightarrow>
                  if 240 \<le> b0 \<and> b0 \<le> 244 \<and> second_of_4 b0 b1 \<and> continues b2 \<and> continues b3
                  then Some ((((b0 - 240) * 64 + (b1 - 128)) * 64 + (b2 - 128)) * 64 + (b3 - 128), 4)
                  else None
              | [] \<Rightarrow> None)
          | [] \<Rightarrow> None)
      | [] \<Rightarrow> None)"

section \<open>Quoting\<close>

definition hex_digit :: "nat \<Rightarrow> char" where
  "hex_digit n = ''0123456789abcdef'' ! (n mod 16)"

text \<open>The last \<open>k\<close> hexadecimal digits of \<open>n\<close>.\<close>

fun hex_digits :: "nat \<Rightarrow> nat \<Rightarrow> gostring" where
  "hex_digits 0 n = []"
| "hex_digits (Suc k) n = hex_digits k (n div 16) @ [hex_digit n]"

definition backslash :: gostring where "backslash = [CHR 0x5C]"
definition double_quote :: gostring where "double_quote = [CHR 0x22]"

text \<open>\<open>appendEscapedRune\<close>: the rune \<open>r\<close> whose bytes are \<open>bs\<close>, between double quotes.\<close>

definition escape_rune :: "(nat \<Rightarrow> bool) \<Rightarrow> nat \<Rightarrow> gostring \<Rightarrow> gostring" where
  "escape_rune isPrint r bs =
     (if r = 0x22 \<or> r = 0x5C then backslash @ bs
      else if (if r < 128 then 0x20 \<le> r \<and> r \<le> 0x7E else isPrint r) then bs
      else if r = 0x07 then backslash @ ''a''
      else if r = 0x08 then backslash @ ''b''
      else if r = 0x0C then backslash @ ''f''
      else if r = 0x0A then backslash @ ''n''
      else if r = 0x0D then backslash @ ''r''
      else if r = 0x09 then backslash @ ''t''
      else if r = 0x0B then backslash @ ''v''
      else if r < 0x20 \<or> r = 0x7F then backslash @ ''x'' @ hex_digits 2 r
      else if r < 0x10000 then backslash @ ''u'' @ hex_digits 4 r
      else backslash @ ''U'' @ hex_digits 8 r)"

text \<open>\<open>quote_from p k s\<close>: the quoted text of \<open>s\<close> without its first \<open>k\<close> bytes.\<close>

fun quote_from :: "(nat \<Rightarrow> bool) \<Rightarrow> nat \<Rightarrow> gostring \<Rightarrow> gostring" where
  "quote_from isPrint k [] = []"
| "quote_from isPrint (Suc k) (c # cs) = quote_from isPrint k cs"
| "quote_from isPrint 0 (c # cs) =
     (case decode_rune (map byte (take 4 (c # cs))) of
        None \<Rightarrow> backslash @ ''x'' @ hex_digits 2 (byte c) @ quote_from isPrint 0 cs
      | Some (r, n) \<Rightarrow> escape_rune isPrint r (take n (c # cs)) @ quote_from isPrint (n - 1) cs)"

text \<open>\<open>strconv.Quote\<close>, and the \<open>%q\<close> verb on a string.\<close>

definition go_quote :: "(nat \<Rightarrow> bool) \<Rightarrow> gostring \<Rightarrow> gostring" where
  "go_quote isPrint s = double_quote @ quote_from isPrint 0 s @ double_quote"

section \<open>Error texts\<close>

fun num_error_text :: "num_error \<Rightarrow> gostring" where
  "num_error_text ErrSyntax = ''invalid syntax''"
| "num_error_text ErrRange = ''value out of range''"

text \<open>\<open>NumError.Error\<close> for \<open>ParseUint\<close> of the text \<open>num\<close>.\<close>

definition parse_uint_error :: "(nat \<Rightarrow> bool) \<Rightarrow> gostring \<Rightarrow> num_error \<Rightarrow> gostring" where
  "parse_uint_error isPrint num err =
     ''strconv.ParseUint: parsing '' @ go_quote isPrint num @ '': '' @ num_error_text err"

fun scan_error_text :: "('e \<Rightarrow> gostring) \<Rightarrow> 'e scan_error \<Rightarrow> gostring" where
  "scan_error_text txt ErrTooLong = ''bufio.Scanner: token too long''"
| "scan_error_text txt (ReadError e) = txt e"

fun proc_path :: "stats_source \<Rightarrow> gostring" where
  "proc_path FromCPU = ''/proc/stat''"
| "proc_path FromMem = ''/proc/meminfo''"
| "proc_path FromDisk = ''/proc/diskstats''"
| "proc_path FromNet = ''/proc/net/dev''"

text \<open>The text that \<open>ParseUint\<close> was given for a line of \<open>/proc/meminfo\<close>.\<close>

definition mem_value_part :: "gostring \<Rightarrow> gostring" where
  "mem_value_part line =
     (case index_byte line (CHR '':'') of
        None \<Rightarrow> []
      | Some colon \<Rightarrow> trim_space (trim_suffix (trim_space (drop (colon + 1) line)) '' kB''))"

text \<open>
  The text of a collector's error. A number that does not parse is a field of \<open>/proc/stat\<close> or
  the value of a line of \<open>/proc/meminfo\<close>; the other two skip such lines.
\<close>

fun stats_error_text ::
  "(nat \<Rightarrow> bool) \<Rightarrow> ('e \<Rightarrow> gostring) \<Rightarrow> stats_source \<Rightarrow> 'e stats_error \<Rightarrow> gostring" where
  "stats_error_text isPrint txt src (OpenError path e) = ''opening '' @ path @ '': '' @ txt e"
| "stats_error_text isPrint txt src (ScanFailed e) =
     ''scanning '' @ proc_path src @ '': '' @ scan_error_text txt e"
| "stats_error_text isPrint txt src (ParseError s err) =
     (if src = FromMem
      then ''parsing /proc/meminfo line '' @ go_quote isPrint s @ '': '' @
        parse_uint_error isPrint (mem_value_part s) err
      else ''parsing /proc/stat field '' @ go_quote isPrint s @ '': '' @
        parse_uint_error isPrint s err)"
| "stats_error_text isPrint txt src (StatfsError path e) =
     ''statfs '' @ go_quote isPrint path @ '': '' @ txt e"

fun go_error_text :: "('e \<Rightarrow> gostring) \<Rightarrow> 'e go_error \<Rightarrow> gostring" where
  "go_error_text txt (Sys e) = txt e"
| "go_error_text txt (Errorf s err) = s @ go_error_text txt err"

fun run_error_text :: "(nat \<Rightarrow> bool) \<Rightarrow> ('e \<Rightarrow> gostring) \<Rightarrow> 'e run_error \<Rightarrow> gostring" where
  "run_error_text isPrint txt (CollectorFailed err) =
     ''eBPF collector: '' @ go_error_text txt err @ newline @
     ''(tip: run as root, and ensure kernel 5.8+ with BTF)''"
| "run_error_text isPrint txt (StatsFailed src err) = stats_error_text isPrint txt src err"

text \<open>The parameter \<open>report\<close> of the process, with \<open>panicText\<close> for the value of a panic.\<close>

fun report_of ::
  "(nat \<Rightarrow> bool) \<Rightarrow> ('e \<Rightarrow> gostring) \<Rightarrow> ('e exit_status \<Rightarrow> gostring) \<Rightarrow> 'e exit_status \<Rightarrow> gostring" where
  "report_of isPrint txt panicText (Returned err) = run_error_text isPrint txt err"
| "report_of isPrint txt panicText st = panicText st"

section \<open>Facts on quoting\<close>

text \<open>A byte that a terminal prints: no control character.\<close>

definition printing :: "char \<Rightarrow> bool" where
  "printing c \<longleftrightarrow> 0x20 \<le> byte c \<and> byte c \<noteq> 0x7F"

lemma hex_digit_printing: "printing (hex_digit n)"
proof -
  have "list_all printing ''0123456789abcdef''" by (simp add: printing_def)
  then show ?thesis by (simp add: hex_digit_def list_all_length)
qed

lemma hex_digits_printing: "list_all printing (hex_digits k n)"
  by (induction k n rule: hex_digits.induct) (simp_all add: hex_digit_printing)

text \<open>The bytes of a rune beyond ASCII are all at least 128.\<close>

lemma decode_rune_bytes:
  assumes "decode_rune bs = Some (r, n)"
  shows "(r < 128 \<and> n = 1 \<and> hd bs = r) \<or>
    (128 \<le> r \<and> 0 < n \<and> list_all (\<lambda>b. 128 \<le> b) (take n bs))"
proof (cases bs)
  case (Cons b0 bs1)
  have shift: "128 \<le> x * 64 + y" if "2 \<le> x" for x y :: nat using that by simp
  consider "b0 < 128" "r = b0" "n = 1"
    | b1 rest where "bs1 = b1 # rest" "128 \<le> b0" "194 \<le> b0" "continues b1" "n = 2"
        "r = (b0 - 192) * 64 + (b1 - 128)"
    | b1 b2 rest where "bs1 = b1 # b2 # rest" "128 \<le> b0" "224 \<le> b0" "second_of_3 b0 b1"
        "continues b2" "n = 3" "r = ((b0 - 224) * 64 + (b1 - 128)) * 64 + (b2 - 128)"
    | b1 b2 b3 rest where "bs1 = b1 # b2 # b3 # rest" "128 \<le> b0" "240 \<le> b0" "second_of_4 b0 b1"
        "continues b2" "continues b3" "n = 4"
        "r = (((b0 - 240) * 64 + (b1 - 128)) * 64 + (b2 - 128)) * 64 + (b3 - 128)"
    using assms by (auto simp: Cons not_less split: if_splits list.splits)
  then show ?thesis
  proof cases
    case 2
    then have "128 \<le> r" unfolding 2(6) using shift [of "b0 - 192" "b1 - 128"] by linarith
    then show ?thesis using 2 by (simp add: Cons continues_def)
  next
    case 3
    have "128 \<le> b1" "b0 = 224 \<longrightarrow> 160 \<le> b1" using 3 by (auto simp: second_of_3_def split: if_splits)
    then have "2 \<le> (b0 - 224) * 64 + (b1 - 128)" using 3(3) by (cases "b0 = 224") auto
    then have "128 \<le> r" unfolding 3(7) by (rule shift)
    then show ?thesis using 3(1,2,5,6) \<open>128 \<le> b1\<close> by (simp add: Cons continues_def)
  next
    case 4
    have "128 \<le> b1" "b0 = 240 \<longrightarrow> 144 \<le> b1" using 4 by (auto simp: second_of_4_def split: if_splits)
    then have "2 \<le> (b0 - 240) * 64 + (b1 - 128)" using 4(3) by (cases "b0 = 240") auto
    then have "128 \<le> ((b0 - 240) * 64 + (b1 - 128)) * 64 + (b2 - 128)" by (rule shift)
    then have "2 \<le> ((b0 - 240) * 64 + (b1 - 128)) * 64 + (b2 - 128)" by (rule order_trans [rotated]) simp
    then have "128 \<le> r" unfolding 4(8) by (rule shift)
    then show ?thesis using 4(1,2,5,6,7) \<open>128 \<le> b1\<close> by (simp add: Cons continues_def)
  qed (simp_all add: Cons continues_def)
qed (use assms in simp)

lemma escape_rune_printing:
  assumes "decode_rune (map byte bs) = Some (r, n)" and "bs \<noteq> []"
  shows "list_all printing (escape_rune isPrint r (take n bs))"
proof (cases "r < 128")
  case True
  then have "n = 1" "byte (hd bs) = r"
    using decode_rune_bytes [OF assms(1)] assms(2) by (auto simp: hd_map)
  then have bs: "take n bs = [hd bs]" "byte (hd bs) = r" using assms(2) by (cases bs; simp)+
  show ?thesis unfolding bs(1)
    using True bs(2) hex_digits_printing by (auto simp: escape_rune_def backslash_def printing_def)
next
  case False
  then have "list_all (\<lambda>b. 128 \<le> b) (map byte (take n bs))"
    using decode_rune_bytes [OF assms(1)] by (simp add: take_map)
  then have "list_all printing (take n bs)"
    by (auto simp: list_all_iff printing_def)
  then show ?thesis
    using False hex_digits_printing by (auto simp: escape_rune_def backslash_def) (simp_all add: printing_def)
qed

lemma quote_from_printing: "list_all printing (quote_from isPrint k s)"
proof (induction isPrint k s rule: quote_from.induct)
  case (3 isPrint c cs)
  have x: "printing (CHR 0x5C)" "printing (CHR ''x'')" by (simp_all add: printing_def)
  show ?case
  proof (cases "decode_rune (map byte (take 4 (c # cs)))")
    case None
    then show ?thesis using 3 x hex_digits_printing by (simp add: backslash_def)
  next
    case (Some rn)
    obtain r n where rn: "rn = (r, n)" by (rule prod.exhaust)
    have n: "n \<le> 4" using Some rn by (auto split: if_splits list.splits)
    then have "take n (take 4 (c # cs)) = take n (c # cs)"
      by (simp only: take_take min.absorb1)
    then show ?thesis
      using 3(2) [OF Some rn [symmetric]] escape_rune_printing [of "take 4 (c # cs)" r n isPrint] Some rn
      by (simp del: take_Suc_Cons decode_rune.simps)
  qed
qed simp_all

lemma go_quote_printing: "list_all printing (go_quote isPrint s)"
  using quote_from_printing by (simp add: go_quote_def double_quote_def) (simp add: printing_def)

text \<open>A text without quotes, backslashes, control characters and bytes beyond ASCII.\<close>

definition unquoted :: "char \<Rightarrow> bool" where
  "unquoted c \<longleftrightarrow> 0x20 \<le> byte c \<and> byte c \<le> 0x7E \<and> byte c \<noteq> 0x22 \<and> byte c \<noteq> 0x5C"

lemma quote_from_unquoted: "list_all unquoted s \<Longrightarrow> quote_from isPrint 0 s = s"
  by (induction s) (simp_all add: unquoted_def escape_rune_def)

lemma go_quote_unquoted: "list_all unquoted s \<Longrightarrow> go_quote isPrint s = double_quote @ s @ double_quote"
  by (simp add: go_quote_def quote_from_unquoted)

section \<open>The end of a process\<close>

text \<open>The steps of \<open>main\<close> with nothing in between, on what the system delivers at each.\<close>

fun main_steps ::
  "('w, 'e) bpf_api \<Rightarrow> platform \<Rightarrow> ('e exit_status \<Rightarrow> gostring) \<Rightarrow> flags \<Rightarrow> 'e sources list \<Rightarrow>
     ('w, 'e) process \<Rightarrow> ('w, 'e) process" where
  "main_steps A P report F [] p = p"
| "main_steps A P report F (os # oss) (Live s) = main_steps A P report F oss (main_step A P report F os s)"
| "main_steps A P report F (os # oss) (Exited c w out) = Exited c w out"

text \<open>A tick that fails reading \<open>/proc/meminfo\<close> ends the process with the error printed.\<close>

lemma failed_meminfo_exits:
  assumes "main s = Looping l" and "ReadCPUTimes (open_proc os) = Inr cpu"
    and "ReadMemInfo (open_proc os1) = Inl err"
  shows "main_steps A P report F [os, os1, os2, os3, os4] (Live s) =
    Exited (Code 1)
      (case bpfCol l of None \<Rightarrow> kernel s | Some c \<Rightarrow> Collector_Close A c (kernel s))
      (printed s @ [(Stdout, showCursor),
         (Stderr, ''sysmon: '' @ report (Returned (StatsFailed FromMem err)) @ newline)])"
  using assms by (cases "bpfCol l") (simp_all add: main_step_def)

text \<open>The whole process when the kernel has no BTF: nothing is opened, and the tip is printed.\<close>

lemma missing_btf_reported:
  assumes "flag_ebpf F" and "os_stat A ''/sys/kernel/btf/vmlinux'' w = Some e"
  shows "main_steps A P (report_of isPrint txt panicText) F (replicate 6 os) (Live (sysmon_init w)) =
    Exited (Code 1) w [(Stdout, hideCursor), (Stdout, showCursor),
      (Stderr, ''sysmon: eBPF collector: BTF not available at /sys/kernel/btf/vmlinux '' @ em_dash @
         '' requires Linux 5.8+ with CONFIG_DEBUG_INFO_BTF=y: '' @ txt e @ newline @
         ''(tip: run as root, and ensure kernel 5.8+ with BTF)'' @ newline)]"
  using assms by (simp add: main_step_def sysmon_init_def NewCollector_def numeral_eq_Suc)

lemma malformed_meminfo_text:
  assumes "open_proc os ''/proc/meminfo'' = Inr f"
    and "fst (scan_lines f) = before @ line # after"
    and "parse_mem_lines before MemInfo_zero = (Inr mi :: 'e stats_error + MemInfo)"
    and "index_byte line (CHR '':'') = Some i" and "mem_set (take i line) \<noteq> None"
    and "parse_uint (mem_value_part line) = Inl err"
  shows "ReadMemInfo (open_proc os) = (Inl (ParseError line err) :: 'e stats_error + MemInfo)"
proof -
  obtain t where t: "mem_set (take i line) = Some t" using assms(5) by auto
  have "mem_value (drop (i + 1) line) = Inl err"
    using assms(4,6) by (simp add: mem_value_part_def mem_value_def Let_def)
  then have "parse_mem_line line mi = (Inl (ParseError line err) :: 'e stats_error + MemInfo)"
    using assms(4) t by (simp add: parse_mem_line_def)
  then have "parse_mem_lines (before @ line # after) MemInfo_zero =
      (Inl (ParseError line err) :: 'e stats_error + MemInfo)"
    using assms(3) by (simp add: parse_mem_lines_append)
  then show ?thesis using assms(1,2)
    by (cases "scan_lines f") (simp add: ReadMemInfo_def ParseMemInfo_def finish_scan_def)
qed

section \<open>Properties\<close>

text \<open>
  C14. A malformed number in a line of \<open>/proc/meminfo\<close> that the program reads ends it at the
  next tick: \<open>main\<close> closes the collector, restores the cursor, prints the chain of errors with
  the offending line and number to standard error and exits with 1. Whatever bytes the line
  holds, what is quoted contains no control character; a line of ordinary characters appears as
  it is.
\<close>

theorem malformed_line_reported:
  fixes s :: "('w, 'e) sysmon" and os os1 :: "'e sources"
  assumes "main s = Looping l"
    and "ReadCPUTimes (open_proc os) = Inr cpu"
    and "open_proc os1 ''/proc/meminfo'' = Inr f"
    and "fst (scan_lines f) = before @ line # after"
    and "parse_mem_lines before MemInfo_zero = (Inr mi :: 'e stats_error + MemInfo)"
    and "index_byte line (CHR '':'') = Some i" and "mem_set (take i line) \<noteq> None"
    and "parse_uint (mem_value_part line) = Inl err"
  shows "main_steps A P (report_of isPrint txt panicText) F [os, os1, os2, os3, os4] (Live s) =
      Exited (Code 1)
        (case bpfCol l of None \<Rightarrow> kernel s | Some c \<Rightarrow> Collector_Close A c (kernel s))
        (printed s @ [(Stdout, showCursor),
           (Stderr, ''sysmon: parsing /proc/meminfo line '' @ go_quote isPrint line @
              '': strconv.ParseUint: parsing '' @ go_quote isPrint (mem_value_part line) @
              '': '' @ num_error_text err @ newline)]) \<and>
    list_all printing (go_quote isPrint line) \<and>
    list_all printing (go_quote isPrint (mem_value_part line)) \<and>
    (list_all unquoted line \<longrightarrow> go_quote isPrint line = double_quote @ line @ double_quote)"
proof -
  have "ReadMemInfo (open_proc os1) = Inl (ParseError line err)"
    by (rule malformed_meminfo_text [OF assms(3-8)])
  from failed_meminfo_exits [OF assms(1,2) this] show ?thesis
    by (simp add: parse_uint_error_def go_quote_printing go_quote_unquoted del: main_steps.simps)
qed

text \<open>The malformed file of the unit tests, after a \<open>/proc/stat\<close> without CPU lines.\<close>

definition malformed_sources :: "int sources" where
  "malformed_sources =
     \<lparr>open_proc = (\<lambda>path. Inr \<lparr>content =
        if path = ''/proc/meminfo'' then unlines [''MemTotal: not_a_number kB''] else [],
        read_error = None\<rparr>),
      statfs_call = (\<lambda>_. Inl ENOENT), clock = 0, net_order = []\<rparr>"

definition looping :: "(world, int) sysmon" where
  "looping = \<lparr>main = Looping \<lparr>lworld = fresh_world, lwrites = [], bpfCol = None, prevCPU = [],
     prevNet = [], lastSample = 0\<rparr>, handler = Waiting, kernel = fresh_world, printed = []\<rparr>"

theorem malformed_line_reported_witness:
  "main_steps kernel_api \<lparr>conv_int = \<lambda>_. 0, conv_u64 = \<lambda>_. 0\<rparr> (report_of (\<lambda>_. False) (\<lambda>_. []) (\<lambda>_. [])) default_flags
     (replicate 5 malformed_sources) (Live looping) =
   Exited (Code 1) fresh_world [(Stdout, showCursor),
     (Stderr, ''sysmon: parsing /proc/meminfo line '' @ double_quote @
        ''MemTotal: not_a_number kB'' @ double_quote @ '': strconv.ParseUint: parsing '' @
        double_quote @ ''not_a_number'' @ double_quote @ '': invalid syntax'' @ newline)]"
proof -
  let ?line = "''MemTotal: not_a_number kB''" and ?num = "''not_a_number''"
  let ?open = "open_proc malformed_sources"
  have empty_file: "scan_lines \<lparr>content = [], read_error = None :: int option\<rparr> = ([], None)"
    by (simp add: scan_lines_def)
  have cpu: "ReadCPUTimes ?open = (Inr [] :: int stats_error + _)"
    by (simp add: ReadCPUTimes_def malformed_sources_def ParseCPUTimes_def
        empty_file finish_scan_def)
  have meminfo: "?open ''/proc/meminfo'' = Inr \<lparr>content = unlines [?line], read_error = None\<rparr>"
    by (simp add: malformed_sources_def)
  have lines: "fst (scan_lines \<lparr>content = unlines [?line], read_error = None :: int option\<rparr>) =
      [] @ ?line # []"
    by (subst scan_lines_unlines) (simp_all add: clean_line_def max_scan_token_def)
  have key: "index_byte ?line (CHR '':'') = Some 8" "mem_set (take 8 ?line) \<noteq> None"
    by (simp_all add: mem_set_def)
  have part: "mem_value_part ?line = ?num" by code_simp
  have num: "parse_uint (mem_value_part ?line) = Inl ErrSyntax" unfolding part by code_simp
  have quoted: "go_quote (\<lambda>_. False) ?num = double_quote @ ?num @ double_quote"
    "list_all unquoted ?line"
    by (simp_all add: go_quote_unquoted unquoted_def)
  have looping: "main looping = Looping \<lparr>lworld = fresh_world, lwrites = [], bpfCol = None,
      prevCPU = [], prevNet = [], lastSample = 0\<rparr>"
    by (simp add: looping_def)
  have steps: "replicate 5 malformed_sources = [malformed_sources, malformed_sources,
      malformed_sources, malformed_sources, malformed_sources]"
    by (simp add: numeral_eq_Suc)
  have parsed: "parse_mem_lines [] MemInfo_zero = (Inr MemInfo_zero :: int stats_error + MemInfo)"
    by simp
  show ?thesis
    using malformed_line_reported [OF looping cpu meminfo lines parsed key num,
        of kernel_api _ "\<lambda>_. False" "\<lambda>_. []" "\<lambda>_. []" default_flags] quoted
    unfolding steps part by (simp add: looping_def del: main_steps.simps)
qed

end
