(* ===== verification/Shutdown.thy ===== *)
theory Shutdown
  imports SysmonMain
begin

text \<open>
  The end of the process of \<open>src/cmd/sysmon/main.go\<close> after a signal. The goroutine of the
  handler shares the process with \<open>main\<close> and the kernel; on every schedule that does not
  starve it the process exits, whatever call of \<open>run\<close> the signal came in between.
\<close>

declare of_nat_unat [simp del]

section \<open>Schedules\<close>

fun exited :: "('w, 'e) process \<Rightarrow> bool" where
  "exited (Live s) \<longleftrightarrow> False"
| "exited (Exited c w out) \<longleftrightarrow> True"

text \<open>The next step of the goroutine, once a signal has come.\<close>

fun goroutine :: "('w, 'e) process \<Rightarrow> ('w, 'e) process option" where
  "goroutine (Live s) =
     (case handler s of
        Received \<Rightarrow>
          Some (Live (s\<lparr>handler := Restored, printed := printed s @ [(Stdout, showCursor)]\<rparr>))
      | Restored \<Rightarrow> Some (Exited (Code 0) (kernel s) (printed s))
      | _ \<Rightarrow> None)"
| "goroutine (Exited c w out) = None"

lemma goroutine_steps: "goroutine p = Some p' \<Longrightarrow> process_step A K P report F p p'"
  by (cases p) (auto split: handler.splits intro: process_step.restore process_step.exit)

text \<open>
  A schedule: infinitely many states from the start of the process, each the last one or a step
  after the one before it. It is fair if the goroutine is not kept waiting for ever.
\<close>

definition schedule ::
  "('w, 'e) bpf_api \<Rightarrow> ('w \<Rightarrow> 'w \<Rightarrow> bool) \<Rightarrow> platform \<Rightarrow> ('e exit_status \<Rightarrow> gostring) \<Rightarrow> flags \<Rightarrow> 'w \<Rightarrow>
     (nat \<Rightarrow> ('w, 'e) process) \<Rightarrow> bool" where
  "schedule A K P report F w0 r \<longleftrightarrow>
     r 0 = Live (sysmon_init w0) \<and>
     (\<forall>i. if exited (r i) then r (Suc i) = r i else process_step A K P report F (r i) (r (Suc i)))"

definition fair :: "(nat \<Rightarrow> ('w, 'e) process) \<Rightarrow> bool" where
  "fair r \<longleftrightarrow>
     (\<forall>i. goroutine (r i) \<noteq> None \<longrightarrow> (\<exists>j\<ge>i. exited (r j) \<or> goroutine (r j) = Some (r (Suc j))))"

section \<open>The goroutine cannot be taken back\<close>

definition starting :: "('w, 'e) stage \<Rightarrow> bool" where
  "starting m \<longleftrightarrow> m = HideCursor \<or> m = Notify"

lemma main_step_next:
  assumes "main_step A P report F os s = Live s'"
  shows "(starting (main s) \<longrightarrow> main s = HideCursor \<and> handler s' = handler s \<or> handler s' = Waiting) \<and>
    (\<not> starting (main s) \<longrightarrow> handler s' = handler s \<and> \<not> starting (main s'))"
proof (cases "main s")
  case (InTick l t)
  obtain r w where "tick_call A P (flag_path F) os l t (kernel s) = (r, w)" by (rule prod.exhaust)
  then show ?thesis using assms InTick
    by (cases r) (auto simp: main_step_def starting_def Let_def)
qed (use assms in \<open>auto simp: main_step_def starting_def split: sum.splits prod.splits if_splits\<close>)

lemma main_step_exit: "main_step A P report F os s = Exited c w out \<Longrightarrow> \<exists>n. c = Code n"
  by (cases "main s")
    (auto simp: main_step_def Let_def split: sum.splits prod.splits if_splits tick_result.splits)

text \<open>Before the handler is installed no signal is received.\<close>

lemma starting_uninstalled:
  "process_reach A K P report F w0 p \<Longrightarrow> p = Live s \<Longrightarrow> starting (main s) \<Longrightarrow> handler s = NotInstalled"
proof (induction arbitrary: s rule: process_reach.induct)
  case start
  then show ?case by (auto simp: sysmon_init_def)
next
  case (step p p')
  from step.hyps(2) step.prems(1) show ?case
  proof (cases rule: process_step.cases)
    case (main s0 os)
    then have m: "main_step A P report F os s0 = Live s" using step.prems(1) by simp
    then have st: "starting (main s0)" using main_step_next [OF m] step.prems(2) by blast
    then have "handler s0 = NotInstalled" using step.IH main by simp
    moreover have "main s0 = HideCursor" using m st step.prems(2)
      by (auto simp: starting_def main_step_def)
    ultimately show ?thesis using m by (auto simp: main_step_def)
  qed (use step.IH step.prems in \<open>auto simp: starting_def\<close>)
qed

text \<open>The states after a signal has been received, and those after the cursor is restored.\<close>

fun ending :: "handler set \<Rightarrow> ('w, 'e) process \<Rightarrow> bool" where
  "ending H (Live s) \<longleftrightarrow> handler s \<in> H \<and> \<not> starting (main s)"
| "ending H (Exited c w out) \<longleftrightarrow> (\<exists>n. c = Code n)"

lemma ending_step:
  assumes "process_step A K P report F p p'" and "ending H p"
    and "Restored \<in> H" and "H \<subseteq> {Received, Restored}"
  shows "ending H p'"
  using assms(1)
proof (cases rule: process_step.cases)
  case (main s os)
  show ?thesis
  proof (cases "main_step A P report F os s")
    case (Live s')
    from main_step_next [OF this] assms(2) main Live show ?thesis by simp
  next
    case (Exited c w out)
    from main_step_exit [OF this] main Exited show ?thesis by simp
  qed
qed (use assms(2-4) in auto)

lemma ending_stays:
  assumes "schedule A K P report F w0 r" and "ending H (r i)" and "i \<le> j"
    and "Restored \<in> H" and "H \<subseteq> {Received, Restored}"
  shows "ending H (r j)"
  using assms(3)
proof (induction j rule: dec_induct)
  case (step j)
  have succ: "if exited (r j) then r (Suc j) = r j else process_step A K P report F (r j) (r (Suc j))"
    using assms(1) by (simp add: schedule_def)
  show ?case
  proof (cases "exited (r j)")
    case False
    with succ have "process_step A K P report F (r j) (r (Suc j))" by simp
    then show ?thesis by (rule ending_step [OF _ step.IH assms(4,5)])
  qed (use succ step.IH in simp)
qed (rule assms(2))

lemma goroutine_ready:
  "ending H p \<Longrightarrow> H \<subseteq> {Received, Restored} \<Longrightarrow> \<not> exited p \<Longrightarrow> goroutine p \<noteq> None"
  by (cases p) (auto split: handler.split)

lemma goroutine_last: "goroutine p = Some p' \<Longrightarrow> ending {Restored} p \<Longrightarrow> exited p'"
  by (cases p) auto

lemma goroutine_first:
  "goroutine p = Some p' \<Longrightarrow> ending {Received, Restored} p \<Longrightarrow> exited p' \<or> ending {Restored} p'"
  by (cases p) auto

lemma ending_exits:
  assumes sched: "schedule A K P report F w0 r" and fair: "fair r"
    and "ending {Received, Restored} (r i)"
  shows "\<exists>j\<ge>i. exited (r j)"
proof -
  have restored: "\<exists>j\<ge>i. exited (r j)" if e: "ending {Restored} (r i)" for i
  proof (cases "exited (r i)")
    case False
    obtain j where j: "i \<le> j" "exited (r j) \<or> goroutine (r j) = Some (r (Suc j))"
      using fair goroutine_ready [OF e _ False] by (auto simp: fair_def)
    have "ending {Restored} (r j)" by (rule ending_stays [OF sched e j(1)]) simp_all
    then have "exited (r j) \<or> exited (r (Suc j))"
      using j(2) goroutine_last by blast
    then show ?thesis using j(1) le_SucI by blast
  qed auto
  show ?thesis
  proof (cases "exited (r i)")
    case False
    obtain j where j: "i \<le> j" "exited (r j) \<or> goroutine (r j) = Some (r (Suc j))"
      using fair goroutine_ready [OF assms(3) _ False] by (auto simp: fair_def)
    have "ending {Received, Restored} (r j)" by (rule ending_stays [OF sched assms(3) j(1)]) simp_all
    then have "exited (r j) \<or> exited (r (Suc j)) \<or> ending {Restored} (r (Suc j))"
      using j(2) goroutine_first by blast
    then show ?thesis using j(1) restored [of "Suc j"] le_SucI order_trans by blast
  qed auto
qed

lemma schedule_reach: "schedule A K P report F w0 r \<Longrightarrow> process_reach A K P report F w0 (r i)"
proof (induction i)
  case 0
  then show ?case by (simp add: schedule_def process_reach.start)
next
  case (Suc i)
  then have "process_reach A K P report F w0 (r i)" by simp
  with Suc.prems show ?case
    by (cases "exited (r i)") (auto simp: schedule_def intro: process_reach.step)
qed

section \<open>Properties\<close>

text \<open>
  C7. A signal ends the program: on every fair schedule of \<open>main\<close>, the goroutine and the kernel,
  once an interrupt or a termination request is received, the process exits, with a code and the
  cursor visible, wherever \<open>run\<close> was and whatever it and the kernel do meanwhile (no signal of
  another kind comes, which would end the process at once).
\<close>

theorem signal_ends_process:
  assumes "collector_runtime A held" and "held w0 \<inter> collector_handles = {}"
    and "\<And>w w'. K w w' \<Longrightarrow> held w' = held w"
    and "schedule A K P report F w0 r" and "fair r"
    and "r i = Live s" and "handler s = Received"
  shows "\<exists>j n w out. i < j \<and> r j = Exited (Code n) w out \<and> cursor_shown True out"
proof -
  have "\<not> starting (main s)"
    using starting_uninstalled [OF schedule_reach [OF assms(4), of i] assms(6)] assms(7) by auto
  then have e: "ending {Received, Restored} (r i)" using assms(6,7) by simp
  obtain j where j: "i \<le> j" "exited (r j)" using ending_exits [OF assms(4,5) e] by blast
  have "ending {Received, Restored} (r j)" by (rule ending_stays [OF assms(4) e j(1)]) simp_all
  then obtain n w out where x: "r j = Exited (Code n) w out" using j(2) by (cases "r j") auto
  have "collector_runtime.process_ok held report F w0 (r j)"
    by (rule collector_runtime.process_reach_ok [OF assms(1-3) schedule_reach [OF assms(4)]])
  then have "cursor_shown True out"
    by (simp add: x collector_runtime.process_ok.simps [OF assms(1)]
        collector_runtime.exit_ok_def [OF assms(1)])
  moreover have "i \<noteq> j" using x assms(6) by auto
  ultimately have "i < j \<and> r j = Exited (Code n) w out \<and> cursor_shown True out"
    using j(1) x by simp
  then show ?thesis by blast
qed

text \<open>A signal as soon as the handler is installed.\<close>

definition interrupted :: "nat \<Rightarrow> (world, int) process" where
  "interrupted i =
     (let s = \<lparr>main = OpenCollector, handler = Waiting, kernel = fresh_world,
                printed = [(Stdout, hideCursor)]\<rparr>
      in if i = 0 then Live (sysmon_init fresh_world)
         else if i = 1 then Live (s\<lparr>main := Notify, handler := NotInstalled\<rparr>)
         else if i = 2 then Live s
         else if i = 3 then Live (s\<lparr>handler := Received\<rparr>)
         else if i = 4 then Live (s\<lparr>handler := Restored, printed := printed s @ [(Stdout, showCursor)]\<rparr>)
         else Exited (Code 0) fresh_world [(Stdout, hideCursor), (Stdout, showCursor)])"

theorem signal_ends_process_witness:
  "\<exists>j n w out. 3 < j \<and> interrupted j = Exited (Code n) w out \<and> cursor_shown True out"
proof -
  let ?P = "\<lparr>conv_int = (\<lambda>_. 0), conv_u64 = (\<lambda>_. 0)\<rparr>"
  have keeps: "set (opened w') = set (opened w)" if "handlers_fire w w'" for w w'
    using that by (auto simp: handlers_fire_def)
  have step: "process_step kernel_api handlers_fire ?P (\<lambda>_. []) default_flags
      (interrupted i) (interrupted (Suc i))" if "i < 5" for i
  proof -
    from that consider "i = 0" | "i = 1" | "i = 2" | "i = 3" | "i = 4" by linarith
    then show ?thesis
    proof cases
      case 1
      then show ?thesis
        using process_step.main [of kernel_api handlers_fire ?P "\<lambda>_. []" default_flags
            "sysmon_init fresh_world" empty_proc]
        by (simp add: interrupted_def main_step_def sysmon_init_def)
    next
      case 2
      then show ?thesis
        using process_step.main [of kernel_api handlers_fire ?P "\<lambda>_. []" default_flags
            "\<lparr>main = Notify, handler = NotInstalled, kernel = fresh_world,
              printed = [(Stdout, hideCursor)]\<rparr>" empty_proc]
        by (simp add: interrupted_def main_step_def)
    next
      case 3
      then show ?thesis
        using process_step.deliver [of "\<lparr>main = OpenCollector, handler = Waiting,
            kernel = fresh_world, printed = [(Stdout, hideCursor)]\<rparr>"]
        by (simp add: interrupted_def)
    qed (simp_all add: interrupted_def goroutine_steps)
  qed
  have ends: "exited (interrupted i) \<longleftrightarrow> 5 \<le> i" for i
    by (auto simp: interrupted_def Let_def)
  have last: "interrupted (Suc i) = interrupted i" if "5 \<le> i" for i
    using that by (simp add: interrupted_def)
  have sched: "schedule kernel_api handlers_fire ?P (\<lambda>_. []) default_flags fresh_world interrupted"
    using step last by (simp add: schedule_def ends not_le) (simp add: interrupted_def)
  have fair: "fair interrupted"
    unfolding fair_def using ends le_Suc_ex nat_le_linear by blast
  have at: "interrupted 3 = Live \<lparr>main = OpenCollector, handler = Received, kernel = fresh_world,
      printed = [(Stdout, hideCursor)]\<rparr>"
    by (simp add: interrupted_def)
  show ?thesis
    by (rule signal_ends_process [OF kernel_run.collector_runtime_axioms _ keeps sched fair at])
      (simp_all add: fresh_world_def)
qed

end
