(* ===== verification/VmlinuxEnum1.thy ===== *)
theory VmlinuxEnum1
  imports EnumDecl
begin

text \<open>
  The enumerations of four bytes of \<^verbatim>\<open>src/internal/ebpf/vmlinux.h\<close> between lines 24 and
  1653, one definition per enumeration, enumerators in order. An enumeration without a tag is
  named after the line it starts on.
\<close>

definition enumdecl_line_24 :: cenum_decl where
  "enumdecl_line_24 = EnumDecl False [
     (''ACOMP_WALK_SLEEP'', 1), (''ACOMP_WALK_SRC_LINEAR'', 2), (''ACOMP_WALK_DST_LINEAR'', 4)]"

definition enumdecl_line_30 :: cenum_decl where
  "enumdecl_line_30 = EnumDecl False [
     (''ACPI_BATTERY_ALARM_PRESENT'', 0), (''ACPI_BATTERY_XINFO_PRESENT'', 1),
     (''ACPI_BATTERY_QUIRK_PERCENTAGE_CAPACITY'', 2), (''ACPI_BATTERY_QUIRK_THINKPAD_MAH'', 3),
     (''ACPI_BATTERY_QUIRK_DEGRADED_FULL_CHARGE'', 4)]"

definition enumdecl_line_38 :: cenum_decl where
  "enumdecl_line_38 = EnumDecl False [
     (''ACPI_BUTTON_LID_INIT_IGNORE'', 0), (''ACPI_BUTTON_LID_INIT_OPEN'', 1),
     (''ACPI_BUTTON_LID_INIT_METHOD'', 2), (''ACPI_BUTTON_LID_INIT_DISABLED'', 3)]"

definition enumdecl_line_45 :: cenum_decl where
  "enumdecl_line_45 = EnumDecl False [
     (''ACPI_GENL_ATTR_UNSPEC'', 0), (''ACPI_GENL_ATTR_EVENT'', 1), (''__ACPI_GENL_ATTR_MAX'', 2)]"

definition enumdecl_line_51 :: cenum_decl where
  "enumdecl_line_51 = EnumDecl False [
     (''ACPI_GENL_CMD_UNSPEC'', 0), (''ACPI_GENL_CMD_EVENT'', 1), (''__ACPI_GENL_CMD_MAX'', 2)]"

definition enumdecl_line_57 :: cenum_decl where
  "enumdecl_line_57 = EnumDecl False [
     (''ACPI_REFCLASS_LOCAL'', 0), (''ACPI_REFCLASS_ARG'', 1), (''ACPI_REFCLASS_REFOF'', 2),
     (''ACPI_REFCLASS_INDEX'', 3), (''ACPI_REFCLASS_TABLE'', 4), (''ACPI_REFCLASS_NAME'', 5),
     (''ACPI_REFCLASS_DEBUG'', 6), (''ACPI_REFCLASS_MAX'', 6)]"

definition enumdecl_line_68 :: cenum_decl where
  "enumdecl_line_68 = EnumDecl False [
     (''ACPI_RSC_INITGET'', 0), (''ACPI_RSC_INITSET'', 1), (''ACPI_RSC_FLAGINIT'', 2),
     (''ACPI_RSC_1BITFLAG'', 3), (''ACPI_RSC_2BITFLAG'', 4), (''ACPI_RSC_3BITFLAG'', 5),
     (''ACPI_RSC_6BITFLAG'', 6), (''ACPI_RSC_ADDRESS'', 7), (''ACPI_RSC_BITMASK'', 8),
     (''ACPI_RSC_BITMASK16'', 9), (''ACPI_RSC_COUNT'', 10), (''ACPI_RSC_COUNT16'', 11),
     (''ACPI_RSC_COUNT_GPIO_PIN'', 12), (''ACPI_RSC_COUNT_GPIO_RES'', 13),
     (''ACPI_RSC_COUNT_GPIO_VEN'', 14), (''ACPI_RSC_COUNT_SERIAL_RES'', 15),
     (''ACPI_RSC_COUNT_SERIAL_VEN'', 16), (''ACPI_RSC_DATA8'', 17), (''ACPI_RSC_EXIT_EQ'', 18),
     (''ACPI_RSC_EXIT_LE'', 19), (''ACPI_RSC_EXIT_NE'', 20), (''ACPI_RSC_LENGTH'', 21),
     (''ACPI_RSC_MOVE_GPIO_PIN'', 22), (''ACPI_RSC_MOVE_GPIO_RES'', 23),
     (''ACPI_RSC_MOVE_SERIAL_RES'', 24), (''ACPI_RSC_MOVE_SERIAL_VEN'', 25),
     (''ACPI_RSC_MOVE8'', 26), (''ACPI_RSC_MOVE16'', 27), (''ACPI_RSC_MOVE32'', 28),
     (''ACPI_RSC_MOVE64'', 29), (''ACPI_RSC_SET8'', 30), (''ACPI_RSC_SOURCE'', 31),
     (''ACPI_RSC_SOURCEX'', 32)]"

definition enumdecl_line_104 :: cenum_decl where
  "enumdecl_line_104 = EnumDecl False [
     (''ACPI_RSD_TITLE'', 0), (''ACPI_RSD_1BITFLAG'', 1), (''ACPI_RSD_2BITFLAG'', 2),
     (''ACPI_RSD_3BITFLAG'', 3), (''ACPI_RSD_6BITFLAG'', 4), (''ACPI_RSD_ADDRESS'', 5),
     (''ACPI_RSD_DWORDLIST'', 6), (''ACPI_RSD_LITERAL'', 7), (''ACPI_RSD_LONGLIST'', 8),
     (''ACPI_RSD_SHORTLIST'', 9), (''ACPI_RSD_SHORTLISTX'', 10), (''ACPI_RSD_SOURCE'', 11),
     (''ACPI_RSD_STRING'', 12), (''ACPI_RSD_UINT8'', 13), (''ACPI_RSD_UINT16'', 14),
     (''ACPI_RSD_UINT32'', 15), (''ACPI_RSD_UINT64'', 16), (''ACPI_RSD_WORDLIST'', 17),
     (''ACPI_RSD_LABEL'', 18), (''ACPI_RSD_SOURCE_LABEL'', 19)]"

definition enumdecl_line_127 :: cenum_decl where
  "enumdecl_line_127 = EnumDecl False [
     (''ACTION_FAIL'', 0), (''ACTION_REPREP'', 1), (''ACTION_DELAYED_REPREP'', 2),
     (''ACTION_RETRY'', 3), (''ACTION_DELAYED_RETRY'', 4)]"

definition enumdecl_line_135 :: cenum_decl where
  "enumdecl_line_135 = EnumDecl False [
     (''AFFINITY'', 0), (''AFFINITY_LIST'', 1), (''EFFECTIVE'', 2), (''EFFECTIVE_LIST'', 3)]"

definition enumdecl_line_152 :: cenum_decl where
  "enumdecl_line_152 = EnumDecl False [
     (''AML_FIELD_ACCESS_ANY'', 0), (''AML_FIELD_ACCESS_BYTE'', 1),
     (''AML_FIELD_ACCESS_WORD'', 2), (''AML_FIELD_ACCESS_DWORD'', 3),
     (''AML_FIELD_ACCESS_QWORD'', 4), (''AML_FIELD_ACCESS_BUFFER'', 5)]"

definition enumdecl_line_161 :: cenum_decl where
  "enumdecl_line_161 = EnumDecl False [
     (''AML_FIELD_ATTRIB_QUICK'', 2), (''AML_FIELD_ATTRIB_SEND_RECEIVE'', 4),
     (''AML_FIELD_ATTRIB_BYTE'', 6), (''AML_FIELD_ATTRIB_WORD'', 8),
     (''AML_FIELD_ATTRIB_BLOCK'', 10), (''AML_FIELD_ATTRIB_BYTES'', 11),
     (''AML_FIELD_ATTRIB_PROCESS_CALL'', 12), (''AML_FIELD_ATTRIB_BLOCK_PROCESS_CALL'', 13),
     (''AML_FIELD_ATTRIB_RAW_BYTES'', 14), (''AML_FIELD_ATTRIB_RAW_PROCESS_BYTES'', 15)]"

definition enumdecl_line_174 :: cenum_decl where
  "enumdecl_line_174 = EnumDecl False [
     (''AML_FIELD_UPDATE_PRESERVE'', 0), (''AML_FIELD_UPDATE_WRITE_AS_ONES'', 32),
     (''AML_FIELD_UPDATE_WRITE_AS_ZEROS'', 64)]"

definition enumdecl_line_180 :: cenum_decl where
  "enumdecl_line_180 = EnumDecl False [
     (''ARCH_LBR_BR_TYPE_JCC'', 0), (''ARCH_LBR_BR_TYPE_NEAR_IND_JMP'', 1),
     (''ARCH_LBR_BR_TYPE_NEAR_REL_JMP'', 2), (''ARCH_LBR_BR_TYPE_NEAR_IND_CALL'', 3),
     (''ARCH_LBR_BR_TYPE_NEAR_REL_CALL'', 4), (''ARCH_LBR_BR_TYPE_NEAR_RET'', 5),
     (''ARCH_LBR_BR_TYPE_KNOWN_MAX'', 5), (''ARCH_LBR_BR_TYPE_MAP_MAX'', 16)]"

definition enumdecl_line_191 :: cenum_decl where
  "enumdecl_line_191 = EnumDecl False [
     (''ARCH_UPROBE_FLAG_CAN_OPTIMIZE'', 0), (''ARCH_UPROBE_FLAG_OPTIMIZE_FAIL'', 1)]"

definition enumdecl_line_196 :: cenum_decl where
  "enumdecl_line_196 = EnumDecl False [
     (''AS3711_REGULATOR'', 0), (''AS3711_BACKLIGHT'', 1)]"

definition enumdecl_line_201 :: cenum_decl where
  "enumdecl_line_201 = EnumDecl False [
     (''ASCII_NULL'', 0), (''ASCII_BELL'', 7), (''ASCII_BACKSPACE'', 8),
     (''ASCII_IGNORE_FIRST'', 8), (''ASCII_HTAB'', 9), (''ASCII_LINEFEED'', 10),
     (''ASCII_VTAB'', 11), (''ASCII_FORMFEED'', 12), (''ASCII_CAR_RET'', 13),
     (''ASCII_IGNORE_LAST'', 13), (''ASCII_SHIFTOUT'', 14), (''ASCII_SHIFTIN'', 15),
     (''ASCII_CANCEL'', 24), (''ASCII_SUBSTITUTE'', 26), (''ASCII_ESCAPE'', 27),
     (''ASCII_CSI_IGNORE_FIRST'', 32), (''ASCII_CSI_IGNORE_LAST'', 63), (''ASCII_DEL'', 127),
     (''ASCII_EXT_CSI'', 155)]"

definition enumdecl_line_223 :: cenum_decl where
  "enumdecl_line_223 = EnumDecl False [
     (''ASSUME_PERFECT'', 255), (''ASSUME_VALID_DTB'', 1), (''ASSUME_VALID_INPUT'', 2),
     (''ASSUME_LATEST'', 4), (''ASSUME_NO_ROLLBACK'', 8), (''ASSUME_LIBFDT_ORDER'', 16),
     (''ASSUME_LIBFDT_FLAWLESS'', 32)]"

definition enumdecl_line_233 :: cenum_decl where
  "enumdecl_line_233 = EnumDecl False [
     (''ATA_EH_SPDN_NCQ_OFF'', 1), (''ATA_EH_SPDN_SPEED_DOWN'', 2),
     (''ATA_EH_SPDN_FALLBACK_TO_PIO'', 4), (''ATA_EH_SPDN_KEEP_ERRORS'', 8),
     (''ATA_EFLAG_IS_IO'', 1), (''ATA_EFLAG_DUBIOUS_XFER'', 2),
     (''ATA_EFLAG_OLD_ER'', - 2147483648), (''ATA_ECAT_NONE'', 0), (''ATA_ECAT_ATA_BUS'', 1),
     (''ATA_ECAT_TOUT_HSM'', 2), (''ATA_ECAT_UNK_DEV'', 3), (''ATA_ECAT_DUBIOUS_NONE'', 4),
     (''ATA_ECAT_DUBIOUS_ATA_BUS'', 5), (''ATA_ECAT_DUBIOUS_TOUT_HSM'', 6),
     (''ATA_ECAT_DUBIOUS_UNK_DEV'', 7), (''ATA_ECAT_NR'', 8), (''ATA_EH_CMD_DFL_TIMEOUT'', 5000),
     (''ATA_EH_RESET_COOL_DOWN'', 5000), (''ATA_EH_PRERESET_TIMEOUT'', 10000),
     (''ATA_EH_FASTDRAIN_INTERVAL'', 3000), (''ATA_EH_UA_TRIES'', 5),
     (''ATA_EH_PROBE_TRIAL_INTERVAL'', 60000), (''ATA_EH_PROBE_TRIALS'', 2)]"

definition enumdecl_line_259 :: cenum_decl where
  "enumdecl_line_259 = EnumDecl False [
     (''ATA_GEN_CLASS_MATCH'', 1), (''ATA_GEN_FORCE_DMA'', 2), (''ATA_GEN_INTEL_IDER'', 4)]"

definition enumdecl_line_265 :: cenum_decl where
  "enumdecl_line_265 = EnumDecl False [
     (''ATA_MAX_DEVICES'', 2), (''ATA_MAX_PRD'', 256), (''ATA_SECT_SIZE'', 512),
     (''ATA_MAX_SECTORS'', 256), (''ATA_MAX_SECTORS_LBA48'', 65535),
     (''ATA_MAX_SECTORS_TAPE'', 65535), (''ATA_MAX_TRIM_RNUM'', 64), (''ATA_ID_WORDS'', 256),
     (''ATA_ID_CONFIG'', 0), (''ATA_ID_CYLS'', 1), (''ATA_ID_HEADS'', 3),
     (''ATA_ID_SECTORS'', 6), (''ATA_ID_SERNO'', 10), (''ATA_ID_BUF_SIZE'', 21),
     (''ATA_ID_FW_REV'', 23), (''ATA_ID_PROD'', 27), (''ATA_ID_MAX_MULTSECT'', 47),
     (''ATA_ID_DWORD_IO'', 48), (''ATA_ID_TRUSTED'', 48), (''ATA_ID_CAPABILITY'', 49),
     (''ATA_ID_OLD_PIO_MODES'', 51), (''ATA_ID_OLD_DMA_MODES'', 52),
     (''ATA_ID_FIELD_VALID'', 53), (''ATA_ID_CUR_CYLS'', 54), (''ATA_ID_CUR_HEADS'', 55),
     (''ATA_ID_CUR_SECTORS'', 56), (''ATA_ID_MULTSECT'', 59), (''ATA_ID_LBA_CAPACITY'', 60),
     (''ATA_ID_SWDMA_MODES'', 62), (''ATA_ID_MWDMA_MODES'', 63), (''ATA_ID_PIO_MODES'', 64),
     (''ATA_ID_EIDE_DMA_MIN'', 65), (''ATA_ID_EIDE_DMA_TIME'', 66), (''ATA_ID_EIDE_PIO'', 67),
     (''ATA_ID_EIDE_PIO_IORDY'', 68), (''ATA_ID_ADDITIONAL_SUPP'', 69),
     (''ATA_ID_QUEUE_DEPTH'', 75), (''ATA_ID_SATA_CAPABILITY'', 76),
     (''ATA_ID_SATA_CAPABILITY_2'', 77), (''ATA_ID_FEATURE_SUPP'', 78),
     (''ATA_ID_MAJOR_VER'', 80), (''ATA_ID_COMMAND_SET_1'', 82), (''ATA_ID_COMMAND_SET_2'', 83),
     (''ATA_ID_CFSSE'', 84), (''ATA_ID_CFS_ENABLE_1'', 85), (''ATA_ID_CFS_ENABLE_2'', 86),
     (''ATA_ID_CSF_DEFAULT'', 87), (''ATA_ID_UDMA_MODES'', 88), (''ATA_ID_HW_CONFIG'', 93),
     (''ATA_ID_SPG'', 98), (''ATA_ID_LBA_CAPACITY_2'', 100), (''ATA_ID_SECTOR_SIZE'', 106),
     (''ATA_ID_WWN'', 108), (''ATA_ID_LOGICAL_SECTOR_SIZE'', 117),
     (''ATA_ID_COMMAND_SET_3'', 119), (''ATA_ID_COMMAND_SET_4'', 120),
     (''ATA_ID_LAST_LUN'', 126), (''ATA_ID_DLF'', 128), (''ATA_ID_CSFO'', 129),
     (''ATA_ID_CFA_POWER'', 160), (''ATA_ID_CFA_KEY_MGMT'', 162), (''ATA_ID_CFA_MODES'', 163),
     (''ATA_ID_DATA_SET_MGMT'', 169), (''ATA_ID_SCT_CMD_XPORT'', 206),
     (''ATA_ID_ROT_SPEED'', 217), (''ATA_ID_PIO4'', 2), (''ATA_ID_SERNO_LEN'', 20),
     (''ATA_ID_FW_REV_LEN'', 8), (''ATA_ID_PROD_LEN'', 40), (''ATA_ID_WWN_LEN'', 8),
     (''ATA_PCI_CTL_OFS'', 2), (''ATA_PIO0'', 1), (''ATA_PIO1'', 3), (''ATA_PIO2'', 7),
     (''ATA_PIO3'', 15), (''ATA_PIO4'', 31), (''ATA_PIO5'', 63), (''ATA_PIO6'', 127),
     (''ATA_PIO4_ONLY'', 16), (''ATA_SWDMA0'', 1), (''ATA_SWDMA1'', 3), (''ATA_SWDMA2'', 7),
     (''ATA_SWDMA2_ONLY'', 4), (''ATA_MWDMA0'', 1), (''ATA_MWDMA1'', 3), (''ATA_MWDMA2'', 7),
     (''ATA_MWDMA3'', 15), (''ATA_MWDMA4'', 31), (''ATA_MWDMA12_ONLY'', 6),
     (''ATA_MWDMA2_ONLY'', 4), (''ATA_UDMA0'', 1), (''ATA_UDMA1'', 3), (''ATA_UDMA2'', 7),
     (''ATA_UDMA3'', 15), (''ATA_UDMA4'', 31), (''ATA_UDMA5'', 63), (''ATA_UDMA6'', 127),
     (''ATA_UDMA7'', 255), (''ATA_UDMA24_ONLY'', 20), (''ATA_UDMA_MASK_40C'', 7),
     (''ATA_PRD_SZ'', 8), (''ATA_PRD_TBL_SZ'', 2048), (''ATA_PRD_EOT'', - 2147483648),
     (''ATA_DMA_TABLE_OFS'', 4), (''ATA_DMA_STATUS'', 2), (''ATA_DMA_CMD'', 0),
     (''ATA_DMA_WR'', 8), (''ATA_DMA_START'', 1), (''ATA_DMA_INTR'', 4), (''ATA_DMA_ERR'', 2),
     (''ATA_DMA_ACTIVE'', 1), (''ATA_HOB'', 128), (''ATA_NIEN'', 2), (''ATA_LBA'', 64),
     (''ATA_DEV1'', 16), (''ATA_DEVICE_OBS'', 160), (''ATA_DEVCTL_OBS'', 8), (''ATA_BUSY'', 128),
     (''ATA_DRDY'', 64), (''ATA_DF'', 32), (''ATA_DSC'', 16), (''ATA_DRQ'', 8),
     (''ATA_CORR'', 4), (''ATA_SENSE'', 2), (''ATA_ERR'', 1), (''ATA_SRST'', 4),
     (''ATA_ICRC'', 128), (''ATA_BBK'', 128), (''ATA_UNC'', 64), (''ATA_MC'', 32),
     (''ATA_IDNF'', 16), (''ATA_MCR'', 8), (''ATA_ABORTED'', 4), (''ATA_TRK0NF'', 2),
     (''ATA_AMNF'', 1), (''ATAPI_LFS'', 240), (''ATAPI_EOM'', 2), (''ATAPI_ILI'', 1),
     (''ATAPI_IO'', 2), (''ATAPI_COD'', 1), (''ATA_REG_DATA'', 0), (''ATA_REG_ERR'', 1),
     (''ATA_REG_NSECT'', 2), (''ATA_REG_LBAL'', 3), (''ATA_REG_LBAM'', 4), (''ATA_REG_LBAH'', 5),
     (''ATA_REG_DEVICE'', 6), (''ATA_REG_STATUS'', 7), (''ATA_REG_FEATURE'', 1),
     (''ATA_REG_CMD'', 7), (''ATA_REG_BYTEL'', 4), (''ATA_REG_BYTEH'', 5),
     (''ATA_REG_DEVSEL'', 6), (''ATA_REG_IRQ'', 2), (''ATA_CMD_DEV_RESET'', 8),
     (''ATA_CMD_CHK_POWER'', 229), (''ATA_CMD_STANDBY'', 226), (''ATA_CMD_IDLE'', 227),
     (''ATA_CMD_EDD'', 144), (''ATA_CMD_DOWNLOAD_MICRO'', 146),
     (''ATA_CMD_DOWNLOAD_MICRO_DMA'', 147), (''ATA_CMD_NOP'', 0), (''ATA_CMD_FLUSH'', 231),
     (''ATA_CMD_FLUSH_EXT'', 234), (''ATA_CMD_ID_ATA'', 236), (''ATA_CMD_ID_ATAPI'', 161),
     (''ATA_CMD_SERVICE'', 162), (''ATA_CMD_READ'', 200), (''ATA_CMD_READ_EXT'', 37),
     (''ATA_CMD_READ_QUEUED'', 38), (''ATA_CMD_READ_STREAM_EXT'', 43),
     (''ATA_CMD_READ_STREAM_DMA_EXT'', 42), (''ATA_CMD_WRITE'', 202),
     (''ATA_CMD_WRITE_EXT'', 53), (''ATA_CMD_WRITE_QUEUED'', 54),
     (''ATA_CMD_WRITE_STREAM_EXT'', 59), (''ATA_CMD_WRITE_STREAM_DMA_EXT'', 58),
     (''ATA_CMD_WRITE_FUA_EXT'', 61), (''ATA_CMD_WRITE_QUEUED_FUA_EXT'', 62),
     (''ATA_CMD_FPDMA_READ'', 96), (''ATA_CMD_FPDMA_WRITE'', 97), (''ATA_CMD_NCQ_NON_DATA'', 99),
     (''ATA_CMD_FPDMA_SEND'', 100), (''ATA_CMD_FPDMA_RECV'', 101), (''ATA_CMD_PIO_READ'', 32),
     (''ATA_CMD_PIO_READ_EXT'', 36), (''ATA_CMD_PIO_WRITE'', 48),
     (''ATA_CMD_PIO_WRITE_EXT'', 52), (''ATA_CMD_READ_MULTI'', 196),
     (''ATA_CMD_READ_MULTI_EXT'', 41), (''ATA_CMD_WRITE_MULTI'', 197),
     (''ATA_CMD_WRITE_MULTI_EXT'', 57), (''ATA_CMD_WRITE_MULTI_FUA_EXT'', 206),
     (''ATA_CMD_SET_FEATURES'', 239), (''ATA_CMD_SET_MULTI'', 198), (''ATA_CMD_PACKET'', 160),
     (''ATA_CMD_VERIFY'', 64), (''ATA_CMD_VERIFY_EXT'', 66), (''ATA_CMD_WRITE_UNCORR_EXT'', 69),
     (''ATA_CMD_STANDBYNOW1'', 224), (''ATA_CMD_IDLEIMMEDIATE'', 225), (''ATA_CMD_SLEEP'', 230),
     (''ATA_CMD_INIT_DEV_PARAMS'', 145), (''ATA_CMD_READ_NATIVE_MAX'', 248),
     (''ATA_CMD_READ_NATIVE_MAX_EXT'', 39), (''ATA_CMD_SET_MAX'', 249),
     (''ATA_CMD_SET_MAX_EXT'', 55), (''ATA_CMD_READ_LOG_EXT'', 47),
     (''ATA_CMD_WRITE_LOG_EXT'', 63), (''ATA_CMD_READ_LOG_DMA_EXT'', 71),
     (''ATA_CMD_WRITE_LOG_DMA_EXT'', 87), (''ATA_CMD_TRUSTED_NONDATA'', 91),
     (''ATA_CMD_TRUSTED_RCV'', 92), (''ATA_CMD_TRUSTED_RCV_DMA'', 93),
     (''ATA_CMD_TRUSTED_SND'', 94), (''ATA_CMD_TRUSTED_SND_DMA'', 95),
     (''ATA_CMD_PMP_READ'', 228), (''ATA_CMD_PMP_READ_DMA'', 233), (''ATA_CMD_PMP_WRITE'', 232),
     (''ATA_CMD_PMP_WRITE_DMA'', 235), (''ATA_CMD_CONF_OVERLAY'', 177),
     (''ATA_CMD_SEC_SET_PASS'', 241), (''ATA_CMD_SEC_UNLOCK'', 242),
     (''ATA_CMD_SEC_ERASE_PREP'', 243), (''ATA_CMD_SEC_ERASE_UNIT'', 244),
     (''ATA_CMD_SEC_FREEZE_LOCK'', 245), (''ATA_CMD_SEC_DISABLE_PASS'', 246),
     (''ATA_CMD_CONFIG_STREAM'', 81), (''ATA_CMD_SMART'', 176), (''ATA_CMD_MEDIA_LOCK'', 222),
     (''ATA_CMD_MEDIA_UNLOCK'', 223), (''ATA_CMD_DSM'', 6), (''ATA_CMD_CHK_MED_CRD_TYP'', 209),
     (''ATA_CMD_CFA_REQ_EXT_ERR'', 3), (''ATA_CMD_CFA_WRITE_NE'', 56),
     (''ATA_CMD_CFA_TRANS_SECT'', 135), (''ATA_CMD_CFA_ERASE'', 192),
     (''ATA_CMD_CFA_WRITE_MULT_NE'', 205), (''ATA_CMD_REQ_SENSE_DATA'', 11),
     (''ATA_CMD_SANITIZE_DEVICE'', 180), (''ATA_CMD_ZAC_MGMT_IN'', 74),
     (''ATA_CMD_ZAC_MGMT_OUT'', 159), (''ATA_CMD_RESTORE'', 16),
     (''ATA_SUBCMD_FPDMA_RECV_RD_LOG_DMA_EXT'', 1), (''ATA_SUBCMD_FPDMA_RECV_ZAC_MGMT_IN'', 2),
     (''ATA_SUBCMD_FPDMA_SEND_DSM'', 0), (''ATA_SUBCMD_FPDMA_SEND_WR_LOG_DMA_EXT'', 2),
     (''ATA_SUBCMD_NCQ_NON_DATA_ABORT_QUEUE'', 0), (''ATA_SUBCMD_NCQ_NON_DATA_SET_FEATURES'', 5),
     (''ATA_SUBCMD_NCQ_NON_DATA_ZERO_EXT'', 6), (''ATA_SUBCMD_NCQ_NON_DATA_ZAC_MGMT_OUT'', 7),
     (''ATA_SUBCMD_ZAC_MGMT_IN_REPORT_ZONES'', 0), (''ATA_SUBCMD_ZAC_MGMT_OUT_CLOSE_ZONE'', 1),
     (''ATA_SUBCMD_ZAC_MGMT_OUT_FINISH_ZONE'', 2), (''ATA_SUBCMD_ZAC_MGMT_OUT_OPEN_ZONE'', 3),
     (''ATA_SUBCMD_ZAC_MGMT_OUT_RESET_WRITE_POINTER'', 4), (''ATA_LOG_DIRECTORY'', 0),
     (''ATA_LOG_SATA_NCQ'', 16), (''ATA_LOG_NCQ_NON_DATA'', 18), (''ATA_LOG_NCQ_SEND_RECV'', 19),
     (''ATA_LOG_CDL'', 24), (''ATA_LOG_CDL_SIZE'', 512), (''ATA_LOG_IDENTIFY_DEVICE'', 48),
     (''ATA_LOG_SENSE_NCQ'', 15), (''ATA_LOG_SENSE_NCQ_SIZE'', 1024),
     (''ATA_LOG_CONCURRENT_POSITIONING_RANGES'', 71), (''ATA_LOG_SUPPORTED_CAPABILITIES'', 3),
     (''ATA_LOG_CURRENT_SETTINGS'', 4), (''ATA_LOG_SECURITY'', 6),
     (''ATA_LOG_SATA_SETTINGS'', 8), (''ATA_LOG_ZONED_INFORMATION'', 9),
     (''ATA_LOG_DEVSLP_OFFSET'', 48), (''ATA_LOG_DEVSLP_SIZE'', 8), (''ATA_LOG_DEVSLP_MDAT'', 0),
     (''ATA_LOG_DEVSLP_MDAT_MASK'', 31), (''ATA_LOG_DEVSLP_DETO'', 1),
     (''ATA_LOG_DEVSLP_VALID'', 7), (''ATA_LOG_DEVSLP_VALID_MASK'', 128),
     (''ATA_LOG_NCQ_PRIO_OFFSET'', 9), (''ATA_LOG_NCQ_SEND_RECV_SUBCMDS_OFFSET'', 0),
     (''ATA_LOG_NCQ_SEND_RECV_SUBCMDS_DSM'', 1), (''ATA_LOG_NCQ_SEND_RECV_DSM_OFFSET'', 4),
     (''ATA_LOG_NCQ_SEND_RECV_DSM_TRIM'', 1), (''ATA_LOG_NCQ_SEND_RECV_RD_LOG_OFFSET'', 8),
     (''ATA_LOG_NCQ_SEND_RECV_RD_LOG_SUPPORTED'', 1),
     (''ATA_LOG_NCQ_SEND_RECV_WR_LOG_OFFSET'', 12),
     (''ATA_LOG_NCQ_SEND_RECV_WR_LOG_SUPPORTED'', 1),
     (''ATA_LOG_NCQ_SEND_RECV_ZAC_MGMT_OFFSET'', 16),
     (''ATA_LOG_NCQ_SEND_RECV_ZAC_MGMT_OUT_SUPPORTED'', 1),
     (''ATA_LOG_NCQ_SEND_RECV_ZAC_MGMT_IN_SUPPORTED'', 2), (''ATA_LOG_NCQ_SEND_RECV_SIZE'', 20),
     (''ATA_LOG_NCQ_NON_DATA_SUBCMDS_OFFSET'', 0), (''ATA_LOG_NCQ_NON_DATA_ABORT_OFFSET'', 0),
     (''ATA_LOG_NCQ_NON_DATA_ABORT_NCQ'', 1), (''ATA_LOG_NCQ_NON_DATA_ABORT_ALL'', 2),
     (''ATA_LOG_NCQ_NON_DATA_ABORT_STREAMING'', 4),
     (''ATA_LOG_NCQ_NON_DATA_ABORT_NON_STREAMING'', 8),
     (''ATA_LOG_NCQ_NON_DATA_ABORT_SELECTED'', 16),
     (''ATA_LOG_NCQ_NON_DATA_ZAC_MGMT_OFFSET'', 28), (''ATA_LOG_NCQ_NON_DATA_ZAC_MGMT_OUT'', 1),
     (''ATA_LOG_NCQ_NON_DATA_SIZE'', 64), (''ATA_CMD_READ_LONG'', 34),
     (''ATA_CMD_READ_LONG_ONCE'', 35), (''ATA_CMD_WRITE_LONG'', 50),
     (''ATA_CMD_WRITE_LONG_ONCE'', 51), (''SETFEATURES_XFER'', 3), (''XFER_UDMA_7'', 71),
     (''XFER_UDMA_6'', 70), (''XFER_UDMA_5'', 69), (''XFER_UDMA_4'', 68), (''XFER_UDMA_3'', 67),
     (''XFER_UDMA_2'', 66), (''XFER_UDMA_1'', 65), (''XFER_UDMA_0'', 64),
     (''XFER_MW_DMA_4'', 36), (''XFER_MW_DMA_3'', 35), (''XFER_MW_DMA_2'', 34),
     (''XFER_MW_DMA_1'', 33), (''XFER_MW_DMA_0'', 32), (''XFER_SW_DMA_2'', 18),
     (''XFER_SW_DMA_1'', 17), (''XFER_SW_DMA_0'', 16), (''XFER_PIO_6'', 14),
     (''XFER_PIO_5'', 13), (''XFER_PIO_4'', 12), (''XFER_PIO_3'', 11), (''XFER_PIO_2'', 10),
     (''XFER_PIO_1'', 9), (''XFER_PIO_0'', 8), (''XFER_PIO_SLOW'', 0),
     (''SETFEATURES_WC_ON'', 2), (''SETFEATURES_WC_OFF'', 130), (''SETFEATURES_RA_ON'', 170),
     (''SETFEATURES_RA_OFF'', 85), (''SETFEATURES_AAM_ON'', 66), (''SETFEATURES_AAM_OFF'', 194),
     (''SETFEATURES_SPINUP'', 7), (''SETFEATURES_SPINUP_TIMEOUT'', 30000),
     (''SETFEATURES_SATA_ENABLE'', 16), (''SETFEATURES_SATA_DISABLE'', 144),
     (''SETFEATURES_CDL'', 13), (''SATA_FPDMA_OFFSET'', 1), (''SATA_FPDMA_AA'', 2),
     (''SATA_DIPM'', 3), (''SATA_FPDMA_IN_ORDER'', 4), (''SATA_AN'', 5), (''SATA_SSP'', 6),
     (''SATA_DEVSLP'', 9), (''SETFEATURE_SENSE_DATA'', 195),
     (''SETFEATURE_SENSE_DATA_SUCC_NCQ'', 196), (''ATA_SET_MAX_ADDR'', 0),
     (''ATA_SET_MAX_PASSWD'', 1), (''ATA_SET_MAX_LOCK'', 2), (''ATA_SET_MAX_UNLOCK'', 3),
     (''ATA_SET_MAX_FREEZE_LOCK'', 4), (''ATA_SET_MAX_PASSWD_DMA'', 5),
     (''ATA_SET_MAX_UNLOCK_DMA'', 6), (''ATA_DCO_RESTORE'', 192), (''ATA_DCO_FREEZE_LOCK'', 193),
     (''ATA_DCO_IDENTIFY'', 194), (''ATA_DCO_SET'', 195), (''ATA_SMART_ENABLE'', 216),
     (''ATA_SMART_READ_VALUES'', 208), (''ATA_SMART_READ_THRESHOLDS'', 209),
     (''ATA_DSM_TRIM'', 1), (''ATA_SMART_LBAM_PASS'', 79), (''ATA_SMART_LBAH_PASS'', 194),
     (''ATAPI_PKT_DMA'', 1), (''ATAPI_DMADIR'', 4), (''ATAPI_CDB_LEN'', 16),
     (''SATA_PMP_MAX_PORTS'', 15), (''SATA_PMP_CTRL_PORT'', 15), (''SATA_PMP_GSCR_DWORDS'', 128),
     (''SATA_PMP_GSCR_PROD_ID'', 0), (''SATA_PMP_GSCR_REV'', 1),
     (''SATA_PMP_GSCR_PORT_INFO'', 2), (''SATA_PMP_GSCR_ERROR'', 32),
     (''SATA_PMP_GSCR_ERROR_EN'', 33), (''SATA_PMP_GSCR_FEAT'', 64),
     (''SATA_PMP_GSCR_FEAT_EN'', 96), (''SATA_PMP_PSCR_STATUS'', 0),
     (''SATA_PMP_PSCR_ERROR'', 1), (''SATA_PMP_PSCR_CONTROL'', 2), (''SATA_PMP_FEAT_BIST'', 1),
     (''SATA_PMP_FEAT_PMREQ'', 2), (''SATA_PMP_FEAT_DYNSSC'', 4), (''SATA_PMP_FEAT_NOTIFY'', 8),
     (''ATA_CBL_NONE'', 0), (''ATA_CBL_PATA40'', 1), (''ATA_CBL_PATA80'', 2),
     (''ATA_CBL_PATA40_SHORT'', 3), (''ATA_CBL_PATA_UNK'', 4), (''ATA_CBL_PATA_IGN'', 5),
     (''ATA_CBL_SATA'', 6), (''SCR_STATUS'', 0), (''SCR_ERROR'', 1), (''SCR_CONTROL'', 2),
     (''SCR_ACTIVE'', 3), (''SCR_NOTIFICATION'', 4), (''SERR_DATA_RECOVERED'', 1),
     (''SERR_COMM_RECOVERED'', 2), (''SERR_DATA'', 256), (''SERR_PERSISTENT'', 512),
     (''SERR_PROTOCOL'', 1024), (''SERR_INTERNAL'', 2048), (''SERR_PHYRDY_CHG'', 65536),
     (''SERR_PHY_INT_ERR'', 131072), (''SERR_COMM_WAKE'', 262144), (''SERR_10B_8B_ERR'', 524288),
     (''SERR_DISPARITY'', 1048576), (''SERR_CRC'', 2097152), (''SERR_HANDSHAKE'', 4194304),
     (''SERR_LINK_SEQ_ERR'', 8388608), (''SERR_TRANS_ST_ERROR'', 16777216),
     (''SERR_UNRECOG_FIS'', 33554432), (''SERR_DEV_XCHG'', 67108864)]"

definition enumdecl_line_684 :: cenum_decl where
  "enumdecl_line_684 = EnumDecl False [
     (''ATA_QUIRK_DIAGNOSTIC'', 1), (''ATA_QUIRK_NODMA'', 2), (''ATA_QUIRK_NONCQ'', 4),
     (''ATA_QUIRK_BROKEN_HPA'', 8), (''ATA_QUIRK_DISABLE'', 16), (''ATA_QUIRK_HPA_SIZE'', 32),
     (''ATA_QUIRK_IVB'', 64), (''ATA_QUIRK_STUCK_ERR'', 128), (''ATA_QUIRK_BRIDGE_OK'', 256),
     (''ATA_QUIRK_ATAPI_MOD16_DMA'', 512), (''ATA_QUIRK_FIRMWARE_WARN'', 1024),
     (''ATA_QUIRK_1_5_GBPS'', 2048), (''ATA_QUIRK_NOSETXFER'', 4096),
     (''ATA_QUIRK_BROKEN_FPDMA_AA'', 8192), (''ATA_QUIRK_DUMP_ID'', 16384),
     (''ATA_QUIRK_MAX_SEC_LBA48'', 32768), (''ATA_QUIRK_ATAPI_DMADIR'', 65536),
     (''ATA_QUIRK_NO_NCQ_TRIM'', 131072), (''ATA_QUIRK_NOLPM'', 262144),
     (''ATA_QUIRK_WD_BROKEN_LPM'', 524288), (''ATA_QUIRK_ZERO_AFTER_TRIM'', 1048576),
     (''ATA_QUIRK_NO_DMA_LOG'', 2097152), (''ATA_QUIRK_NOTRIM'', 4194304),
     (''ATA_QUIRK_MAX_SEC'', 8388608), (''ATA_QUIRK_MAX_TRIM_128M'', 16777216),
     (''ATA_QUIRK_NO_NCQ_ON_ATI'', 33554432), (''ATA_QUIRK_NO_LPM_ON_ATI'', 67108864),
     (''ATA_QUIRK_NO_ID_DEV_LOG'', 134217728), (''ATA_QUIRK_NO_LOG_DIR'', 268435456),
     (''ATA_QUIRK_NO_FUA'', 536870912)]"

definition enumdecl_line_717 :: cenum_decl where
  "enumdecl_line_717 = EnumDecl False [
     (''ATA_READID_POSTRESET'', 1), (''ATA_DNXFER_PIO'', 0), (''ATA_DNXFER_DMA'', 1),
     (''ATA_DNXFER_40C'', 2), (''ATA_DNXFER_FORCE_PIO'', 3), (''ATA_DNXFER_FORCE_PIO0'', 4),
     (''ATA_DNXFER_QUIET'', - 2147483648)]"

definition enumdecl_line_727 :: cenum_decl where
  "enumdecl_line_727 = EnumDecl False [
     (''AT_PKT_END'', - 1), (''BEYOND_PKT_END'', - 2)]"

definition enumdecl_line_732 :: cenum_decl where
  "enumdecl_line_732 = EnumDecl False [
     (''AUTOP_INVALID'', 0), (''AUTOP_HDD'', 1), (''AUTOP_SSD_QD1'', 2), (''AUTOP_SSD_DFL'', 3),
     (''AUTOP_SSD_FAST'', 4)]"

definition enumdecl_line_740 :: cenum_decl where
  "enumdecl_line_740 = EnumDecl False [
     (''AX25_VALUES_IPDEFMODE'', 0), (''AX25_VALUES_AXDEFMODE'', 1),
     (''AX25_VALUES_BACKOFF'', 2), (''AX25_VALUES_CONMODE'', 3), (''AX25_VALUES_WINDOW'', 4),
     (''AX25_VALUES_EWINDOW'', 5), (''AX25_VALUES_T1'', 6), (''AX25_VALUES_T2'', 7),
     (''AX25_VALUES_T3'', 8), (''AX25_VALUES_IDLE'', 9), (''AX25_VALUES_N2'', 10),
     (''AX25_VALUES_PACLEN'', 11), (''AX25_VALUES_PROTOCOL'', 12),
     (''AX25_VALUES_DS_TIMEOUT'', 13), (''AX25_MAX_VALUES'', 14)]"

definition enumdecl_line_758 :: cenum_decl where
  "enumdecl_line_758 = EnumDecl False [
     (''Audit_equal'', 0), (''Audit_not_equal'', 1), (''Audit_bitmask'', 2),
     (''Audit_bittest'', 3), (''Audit_lt'', 4), (''Audit_gt'', 5), (''Audit_le'', 6),
     (''Audit_ge'', 7), (''Audit_bad'', 8)]"

definition enumdecl_line_770 :: cenum_decl where
  "enumdecl_line_770 = EnumDecl False [
     (''BAD_STACK'', - 1), (''NOT_STACK'', 0), (''GOOD_FRAME'', 1), (''GOOD_STACK'', 2)]"

definition enumdecl_line_777 :: cenum_decl where
  "enumdecl_line_777 = EnumDecl False [
     (''BDX_PCI_UNCORE_HA'', 0), (''BDX_PCI_UNCORE_IMC'', 1), (''BDX_PCI_UNCORE_IRP'', 2),
     (''BDX_PCI_UNCORE_QPI'', 3), (''BDX_PCI_UNCORE_R2PCIE'', 4), (''BDX_PCI_UNCORE_R3QPI'', 5)]"

definition enumdecl_line_786 :: cenum_decl where
  "enumdecl_line_786 = EnumDecl False [
     (''BIAS'', 2147483648)]"

lemma enumdecl_line_786_4: "enum4 enumdecl_line_786"
  by (unfold enumdecl_line_786_def) (intro enum_uint_intros; simp)

definition enumdecl_line_790 :: cenum_decl where
  "enumdecl_line_790 = EnumDecl False [
     (''BIOSET_NEED_BVECS'', 1), (''BIOSET_NEED_RESCUER'', 2), (''BIOSET_PERCPU_CACHE'', 4)]"

definition enumdecl_line_796 :: cenum_decl where
  "enumdecl_line_796 = EnumDecl False [
     (''BIOS_FREQ_BASE_PLATFORM'', 0), (''BIOS_FREQ_BASE_INTERVAL_TIMER'', 1),
     (''BIOS_FREQ_BASE_REALTIME_CLOCK'', 2)]"

definition enumdecl_line_802 :: cenum_decl where
  "enumdecl_line_802 = EnumDecl False [
     (''BIOS_STATUS_MORE_PASSES'', 1), (''BIOS_STATUS_SUCCESS'', 0),
     (''BIOS_STATUS_UNIMPLEMENTED'', - 38), (''BIOS_STATUS_EINVAL'', - 22),
     (''BIOS_STATUS_UNAVAIL'', - 16), (''BIOS_STATUS_ABORT'', - 4)]"

definition enumdecl_line_811 :: cenum_decl where
  "enumdecl_line_811 = EnumDecl False [
     (''BIO_PAGE_PINNED'', 0), (''BIO_CLONED'', 1), (''BIO_QUIET'', 2), (''BIO_CHAIN'', 3),
     (''BIO_REFFED'', 4), (''BIO_BPS_THROTTLED'', 5), (''BIO_TRACE_COMPLETION'', 6),
     (''BIO_CGROUP_ACCT'', 7), (''BIO_QOS_THROTTLED'', 8), (''BIO_TG_BPS_THROTTLED'', 8),
     (''BIO_QOS_MERGED'', 9), (''BIO_REMAPPED'', 10), (''BIO_ZONE_WRITE_PLUGGING'', 11),
     (''BIO_EMULATES_ZONE_APPEND'', 12), (''BIO_FLAG_LAST'', 13)]"

definition enumdecl_line_829 :: cenum_decl where
  "enumdecl_line_829 = EnumDecl False [
     (''BLK_MQ_F_TAG_QUEUE_SHARED'', 2), (''BLK_MQ_F_STACKING'', 4),
     (''BLK_MQ_F_TAG_HCTX_SHARED'', 8), (''BLK_MQ_F_BLOCKING'', 16), (''BLK_MQ_F_TAG_RR'', 32),
     (''BLK_MQ_F_NO_SCHED_BY_DEFAULT'', 64), (''BLK_MQ_F_MAX'', 128)]"

definition enumdecl_line_839 :: cenum_decl where
  "enumdecl_line_839 = EnumDecl False [
     (''BLK_MQ_NO_TAG'', 4294967295), (''BLK_MQ_TAG_MIN'', 1), (''BLK_MQ_TAG_MAX'', 4294967294)]"

lemma enumdecl_line_839_4: "enum4 enumdecl_line_839"
  by (unfold enumdecl_line_839_def) (intro enum_uint_intros; simp)

definition enumdecl_line_845 :: cenum_decl where
  "enumdecl_line_845 = EnumDecl False [
     (''BLK_MQ_REQ_NOWAIT'', 1), (''BLK_MQ_REQ_RESERVED'', 2), (''BLK_MQ_REQ_PM'', 4)]"

definition enumdecl_line_851 :: cenum_decl where
  "enumdecl_line_851 = EnumDecl False [
     (''BLK_MQ_S_STOPPED'', 0), (''BLK_MQ_S_TAG_ACTIVE'', 1), (''BLK_MQ_S_SCHED_RESTART'', 2),
     (''BLK_MQ_S_INACTIVE'', 3), (''BLK_MQ_S_MAX'', 4)]"

definition enumdecl_line_859 :: cenum_decl where
  "enumdecl_line_859 = EnumDecl False [
     (''BLK_MQ_UNIQUE_TAG_BITS'', 16), (''BLK_MQ_UNIQUE_TAG_MASK'', 65535)]"

definition enumdecl_line_864 :: cenum_decl where
  "enumdecl_line_864 = EnumDecl False [
     (''BLOCK_BITMAP'', 0), (''INODE_BITMAP'', 1), (''INODE_TABLE'', 2),
     (''GROUP_TABLE_COUNT'', 3)]"

definition enumdecl_line_871 :: cenum_decl where
  "enumdecl_line_871 = EnumDecl False [
     (''BPF_ADJ_ROOM_ENCAP_L2_MASK'', 255), (''BPF_ADJ_ROOM_ENCAP_L2_SHIFT'', 56)]"

definition enumdecl_line_876 :: cenum_decl where
  "enumdecl_line_876 = EnumDecl False [
     (''BPF_ANY'', 0), (''BPF_NOEXIST'', 1), (''BPF_EXIST'', 2), (''BPF_F_LOCK'', 4),
     (''BPF_F_CPU'', 8), (''BPF_F_ALL_CPUS'', 16)]"

definition enumdecl_line_885 :: cenum_decl where
  "enumdecl_line_885 = EnumDecl False [
     (''BPF_CSUM_LEVEL_QUERY'', 0), (''BPF_CSUM_LEVEL_INC'', 1), (''BPF_CSUM_LEVEL_DEC'', 2),
     (''BPF_CSUM_LEVEL_RESET'', 3)]"

definition enumdecl_line_892 :: cenum_decl where
  "enumdecl_line_892 = EnumDecl False [
     (''BPF_FIB_LKUP_RET_SUCCESS'', 0), (''BPF_FIB_LKUP_RET_BLACKHOLE'', 1),
     (''BPF_FIB_LKUP_RET_UNREACHABLE'', 2), (''BPF_FIB_LKUP_RET_PROHIBIT'', 3),
     (''BPF_FIB_LKUP_RET_NOT_FWDED'', 4), (''BPF_FIB_LKUP_RET_FWD_DISABLED'', 5),
     (''BPF_FIB_LKUP_RET_UNSUPP_LWT'', 6), (''BPF_FIB_LKUP_RET_NO_NEIGH'', 7),
     (''BPF_FIB_LKUP_RET_FRAG_NEEDED'', 8), (''BPF_FIB_LKUP_RET_NO_SRC_ADDR'', 9)]"

definition enumdecl_line_905 :: cenum_decl where
  "enumdecl_line_905 = EnumDecl False [
     (''BPF_FIB_LOOKUP_DIRECT'', 1), (''BPF_FIB_LOOKUP_OUTPUT'', 2),
     (''BPF_FIB_LOOKUP_SKIP_NEIGH'', 4), (''BPF_FIB_LOOKUP_TBID'', 8),
     (''BPF_FIB_LOOKUP_SRC'', 16), (''BPF_FIB_LOOKUP_MARK'', 32)]"

definition enumdecl_line_914 :: cenum_decl where
  "enumdecl_line_914 = EnumDecl False [
     (''BPF_FLOW_DISSECTOR_F_PARSE_1ST_FRAG'', 1),
     (''BPF_FLOW_DISSECTOR_F_STOP_AT_FLOW_LABEL'', 2),
     (''BPF_FLOW_DISSECTOR_F_STOP_AT_ENCAP'', 4)]"

definition enumdecl_line_920 :: cenum_decl where
  "enumdecl_line_920 = EnumDecl False [
     (''BPF_F_ADJ_ROOM_FIXED_GSO'', 1), (''BPF_F_ADJ_ROOM_ENCAP_L3_IPV4'', 2),
     (''BPF_F_ADJ_ROOM_ENCAP_L3_IPV6'', 4), (''BPF_F_ADJ_ROOM_ENCAP_L4_GRE'', 8),
     (''BPF_F_ADJ_ROOM_ENCAP_L4_UDP'', 16), (''BPF_F_ADJ_ROOM_NO_CSUM_RESET'', 32),
     (''BPF_F_ADJ_ROOM_ENCAP_L2_ETH'', 64), (''BPF_F_ADJ_ROOM_DECAP_L3_IPV4'', 128),
     (''BPF_F_ADJ_ROOM_DECAP_L3_IPV6'', 256)]"

definition enumdecl_line_932 :: cenum_decl where
  "enumdecl_line_932 = EnumDecl False [
     (''BPF_F_BPRM_SECUREEXEC'', 1)]"

definition enumdecl_line_936 :: cenum_decl where
  "enumdecl_line_936 = EnumDecl False [
     (''BPF_F_CURRENT_NETNS'', - 1)]"

definition enumdecl_line_940 :: cenum_decl where
  "enumdecl_line_940 = EnumDecl False [
     (''BPF_F_GET_BRANCH_RECORDS_SIZE'', 1)]"

definition enumdecl_line_944 :: cenum_decl where
  "enumdecl_line_944 = EnumDecl False [
     (''BPF_F_HDR_FIELD_MASK'', 15)]"

definition enumdecl_line_954 :: cenum_decl where
  "enumdecl_line_954 = EnumDecl False [
     (''BPF_F_INGRESS'', 1), (''BPF_F_BROADCAST'', 8), (''BPF_F_EXCLUDE_INGRESS'', 16)]"

definition enumdecl_line_960 :: cenum_decl where
  "enumdecl_line_960 = EnumDecl False [
     (''BPF_F_KPROBE_MULTI_RETURN'', 1)]"

definition enumdecl_line_964 :: cenum_decl where
  "enumdecl_line_964 = EnumDecl False [
     (''BPF_F_NEIGH'', 65536), (''BPF_F_PEER'', 131072), (''BPF_F_NEXTHOP'', 262144)]"

definition enumdecl_line_970 :: cenum_decl where
  "enumdecl_line_970 = EnumDecl False [
     (''BPF_F_NO_PREALLOC'', 1), (''BPF_F_NO_COMMON_LRU'', 2), (''BPF_F_NUMA_NODE'', 4),
     (''BPF_F_RDONLY'', 8), (''BPF_F_WRONLY'', 16), (''BPF_F_STACK_BUILD_ID'', 32),
     (''BPF_F_ZERO_SEED'', 64), (''BPF_F_RDONLY_PROG'', 128), (''BPF_F_WRONLY_PROG'', 256),
     (''BPF_F_CLONE'', 512), (''BPF_F_MMAPABLE'', 1024), (''BPF_F_PRESERVE_ELEMS'', 2048),
     (''BPF_F_INNER_MAP'', 4096), (''BPF_F_LINK'', 8192), (''BPF_F_PATH_FD'', 16384),
     (''BPF_F_VTYPE_BTF_OBJ_FD'', 32768), (''BPF_F_TOKEN_FD'', 65536),
     (''BPF_F_SEGV_ON_FAULT'', 131072), (''BPF_F_NO_USER_CONV'', 262144),
     (''BPF_F_RB_OVERWRITE'', 524288)]"

definition enumdecl_line_993 :: cenum_decl where
  "enumdecl_line_993 = EnumDecl False [
     (''BPF_F_PSEUDO_HDR'', 16), (''BPF_F_MARK_MANGLED_0'', 32), (''BPF_F_MARK_ENFORCE'', 64),
     (''BPF_F_IPV6'', 128)]"

definition enumdecl_line_1000 :: cenum_decl where
  "enumdecl_line_1000 = EnumDecl False [
     (''BPF_F_RECOMPUTE_CSUM'', 1), (''BPF_F_INVALIDATE_HASH'', 2)]"

definition enumdecl_line_1005 :: cenum_decl where
  "enumdecl_line_1005 = EnumDecl False [
     (''BPF_F_SKIP_FIELD_MASK'', 255), (''BPF_F_USER_STACK'', 256),
     (''BPF_F_FAST_STACK_CMP'', 512), (''BPF_F_REUSE_STACKID'', 1024),
     (''BPF_F_USER_BUILD_ID'', 2048)]"

definition enumdecl_line_1013 :: cenum_decl where
  "enumdecl_line_1013 = EnumDecl False [
     (''BPF_F_SYSCTL_BASE_NAME'', 1)]"

definition enumdecl_line_1017 :: cenum_decl where
  "enumdecl_line_1017 = EnumDecl False [
     (''BPF_F_TIMER_ABS'', 1), (''BPF_F_TIMER_CPU_PIN'', 2)]"

definition enumdecl_line_1022 :: cenum_decl where
  "enumdecl_line_1022 = EnumDecl False [
     (''BPF_F_TUNINFO_FLAGS'', 16)]"

definition enumdecl_line_1026 :: cenum_decl where
  "enumdecl_line_1026 = EnumDecl False [
     (''BPF_F_TUNINFO_IPV6'', 1)]"

definition enumdecl_line_1030 :: cenum_decl where
  "enumdecl_line_1030 = EnumDecl False [
     (''BPF_F_UPROBE_MULTI_RETURN'', 1)]"

definition enumdecl_line_1034 :: cenum_decl where
  "enumdecl_line_1034 = EnumDecl False [
     (''BPF_F_ZERO_CSUM_TX'', 2), (''BPF_F_DONT_FRAGMENT'', 4), (''BPF_F_SEQ_NUMBER'', 8),
     (''BPF_F_NO_TUNNEL_KEY'', 16)]"

definition enumdecl_line_1041 :: cenum_decl where
  "enumdecl_line_1041 = EnumDecl False [
     (''BPF_LOAD_HDR_OPT_TCP_SYN'', 1)]"

definition enumdecl_line_1045 :: cenum_decl where
  "enumdecl_line_1045 = EnumDecl False [
     (''BPF_LOCAL_STORAGE_GET_F_CREATE'', 1), (''BPF_SK_STORAGE_GET_F_CREATE'', 1)]"

definition enumdecl_line_1050 :: cenum_decl where
  "enumdecl_line_1050 = EnumDecl False [
     (''BPF_MAX_LOOPS'', 8388608), (''BPF_MAX_TIMED_LOOPS'', 65535)]"

definition enumdecl_line_1055 :: cenum_decl where
  "enumdecl_line_1055 = EnumDecl False [
     (''BPF_MAX_TRAMP_LINKS'', 38)]"

definition enumdecl_line_1059 :: cenum_decl where
  "enumdecl_line_1059 = EnumDecl False [
     (''BPF_RB_AVAIL_DATA'', 0), (''BPF_RB_RING_SIZE'', 1), (''BPF_RB_CONS_POS'', 2),
     (''BPF_RB_PROD_POS'', 3), (''BPF_RB_OVERWRITE_POS'', 4)]"

definition enumdecl_line_1067 :: cenum_decl where
  "enumdecl_line_1067 = EnumDecl False [
     (''BPF_RB_NO_WAKEUP'', 1), (''BPF_RB_FORCE_WAKEUP'', 2)]"

definition enumdecl_line_1072 :: cenum_decl where
  "enumdecl_line_1072 = EnumDecl False [
     (''BPF_REG_0'', 0), (''BPF_REG_1'', 1), (''BPF_REG_2'', 2), (''BPF_REG_3'', 3),
     (''BPF_REG_4'', 4), (''BPF_REG_5'', 5), (''BPF_REG_6'', 6), (''BPF_REG_7'', 7),
     (''BPF_REG_8'', 8), (''BPF_REG_9'', 9), (''BPF_REG_10'', 10), (''__MAX_BPF_REG'', 11)]"

definition enumdecl_line_1087 :: cenum_decl where
  "enumdecl_line_1087 = EnumDecl False [
     (''BPF_RINGBUF_BUSY_BIT'', 2147483648), (''BPF_RINGBUF_DISCARD_BIT'', 1073741824),
     (''BPF_RINGBUF_HDR_SZ'', 8)]"

lemma enumdecl_line_1087_4: "enum4 enumdecl_line_1087"
  by (unfold enumdecl_line_1087_def) (intro enum_uint_intros; simp)

definition enumdecl_line_1093 :: cenum_decl where
  "enumdecl_line_1093 = EnumDecl False [
     (''BPF_SKB_TSTAMP_UNSPEC'', 0), (''BPF_SKB_TSTAMP_DELIVERY_MONO'', 1),
     (''BPF_SKB_CLOCK_REALTIME'', 0), (''BPF_SKB_CLOCK_MONOTONIC'', 1),
     (''BPF_SKB_CLOCK_TAI'', 2)]"

definition enumdecl_line_1101 :: cenum_decl where
  "enumdecl_line_1101 = EnumDecl False [
     (''BPF_SK_LOOKUP_F_REPLACE'', 1), (''BPF_SK_LOOKUP_F_NO_REUSEPORT'', 2)]"

definition enumdecl_line_1106 :: cenum_decl where
  "enumdecl_line_1106 = EnumDecl False [
     (''BPF_SOCK_OPS_RTO_CB_FLAG'', 1), (''BPF_SOCK_OPS_RETRANS_CB_FLAG'', 2),
     (''BPF_SOCK_OPS_STATE_CB_FLAG'', 4), (''BPF_SOCK_OPS_RTT_CB_FLAG'', 8),
     (''BPF_SOCK_OPS_PARSE_ALL_HDR_OPT_CB_FLAG'', 16),
     (''BPF_SOCK_OPS_PARSE_UNKNOWN_HDR_OPT_CB_FLAG'', 32),
     (''BPF_SOCK_OPS_WRITE_HDR_OPT_CB_FLAG'', 64), (''BPF_SOCK_OPS_ALL_CB_FLAGS'', 127)]"

definition enumdecl_line_1117 :: cenum_decl where
  "enumdecl_line_1117 = EnumDecl False [
     (''BPF_SOCK_OPS_VOID'', 0), (''BPF_SOCK_OPS_TIMEOUT_INIT'', 1),
     (''BPF_SOCK_OPS_RWND_INIT'', 2), (''BPF_SOCK_OPS_TCP_CONNECT_CB'', 3),
     (''BPF_SOCK_OPS_ACTIVE_ESTABLISHED_CB'', 4), (''BPF_SOCK_OPS_PASSIVE_ESTABLISHED_CB'', 5),
     (''BPF_SOCK_OPS_NEEDS_ECN'', 6), (''BPF_SOCK_OPS_BASE_RTT'', 7),
     (''BPF_SOCK_OPS_RTO_CB'', 8), (''BPF_SOCK_OPS_RETRANS_CB'', 9),
     (''BPF_SOCK_OPS_STATE_CB'', 10), (''BPF_SOCK_OPS_TCP_LISTEN_CB'', 11),
     (''BPF_SOCK_OPS_RTT_CB'', 12), (''BPF_SOCK_OPS_PARSE_HDR_OPT_CB'', 13),
     (''BPF_SOCK_OPS_HDR_OPT_LEN_CB'', 14), (''BPF_SOCK_OPS_WRITE_HDR_OPT_CB'', 15),
     (''BPF_SOCK_OPS_TSTAMP_SCHED_CB'', 16), (''BPF_SOCK_OPS_TSTAMP_SND_SW_CB'', 17),
     (''BPF_SOCK_OPS_TSTAMP_SND_HW_CB'', 18), (''BPF_SOCK_OPS_TSTAMP_ACK_CB'', 19),
     (''BPF_SOCK_OPS_TSTAMP_SENDMSG_CB'', 20)]"

definition enumdecl_line_1141 :: cenum_decl where
  "enumdecl_line_1141 = EnumDecl False [
     (''BPF_STREAM_MAX_CAPACITY'', 100000)]"

definition enumdecl_line_1145 :: cenum_decl where
  "enumdecl_line_1145 = EnumDecl False [
     (''BPF_TASK_ITER_ALL_PROCS'', 0), (''BPF_TASK_ITER_ALL_THREADS'', 1),
     (''BPF_TASK_ITER_PROC_THREADS'', 2)]"

definition enumdecl_line_1151 :: cenum_decl where
  "enumdecl_line_1151 = EnumDecl False [
     (''BPF_TCP_ESTABLISHED'', 1), (''BPF_TCP_SYN_SENT'', 2), (''BPF_TCP_SYN_RECV'', 3),
     (''BPF_TCP_FIN_WAIT1'', 4), (''BPF_TCP_FIN_WAIT2'', 5), (''BPF_TCP_TIME_WAIT'', 6),
     (''BPF_TCP_CLOSE'', 7), (''BPF_TCP_CLOSE_WAIT'', 8), (''BPF_TCP_LAST_ACK'', 9),
     (''BPF_TCP_LISTEN'', 10), (''BPF_TCP_CLOSING'', 11), (''BPF_TCP_NEW_SYN_RECV'', 12),
     (''BPF_TCP_BOUND_INACTIVE'', 13), (''BPF_TCP_MAX_STATES'', 14)]"

definition enumdecl_line_1168 :: cenum_decl where
  "enumdecl_line_1168 = EnumDecl False [
     (''BPF_WRITE_HDR_TCP_CURRENT_MSS'', 1), (''BPF_WRITE_HDR_TCP_SYNACK_COOKIE'', 2)]"

definition enumdecl_line_1173 :: cenum_decl where
  "enumdecl_line_1173 = EnumDecl False [
     (''BPF_XFRM_STATE_OPTS_SZ'', 36)]"

definition enumdecl_line_1177 :: cenum_decl where
  "enumdecl_line_1177 = EnumDecl False [
     (''BR_MCAST_DIR_RX'', 0), (''BR_MCAST_DIR_TX'', 1), (''BR_MCAST_DIR_SIZE'', 2)]"

definition enumdecl_line_1183 :: cenum_decl where
  "enumdecl_line_1183 = EnumDecl False [
     (''BTF_FIELDS_MAX'', 11)]"

definition enumdecl_line_1187 :: cenum_decl where
  "enumdecl_line_1187 = EnumDecl False [
     (''BTF_FIELD_IGNORE'', 0), (''BTF_FIELD_FOUND'', 1)]"

definition enumdecl_line_1192 :: cenum_decl where
  "enumdecl_line_1192 = EnumDecl False [
     (''BTF_F_COMPACT'', 1), (''BTF_F_NONAME'', 2), (''BTF_F_PTR_RAW'', 4), (''BTF_F_ZERO'', 8)]"

definition enumdecl_line_1199 :: cenum_decl where
  "enumdecl_line_1199 = EnumDecl False [
     (''BTF_KFUNC_SET_MAX_CNT'', 256), (''BTF_DTOR_KFUNC_MAX_CNT'', 256),
     (''BTF_KFUNC_FILTER_MAX_CNT'', 16)]"

definition enumdecl_line_1205 :: cenum_decl where
  "enumdecl_line_1205 = EnumDecl False [
     (''BTF_KIND_UNKN'', 0), (''BTF_KIND_INT'', 1), (''BTF_KIND_PTR'', 2),
     (''BTF_KIND_ARRAY'', 3), (''BTF_KIND_STRUCT'', 4), (''BTF_KIND_UNION'', 5),
     (''BTF_KIND_ENUM'', 6), (''BTF_KIND_FWD'', 7), (''BTF_KIND_TYPEDEF'', 8),
     (''BTF_KIND_VOLATILE'', 9), (''BTF_KIND_CONST'', 10), (''BTF_KIND_RESTRICT'', 11),
     (''BTF_KIND_FUNC'', 12), (''BTF_KIND_FUNC_PROTO'', 13), (''BTF_KIND_VAR'', 14),
     (''BTF_KIND_DATASEC'', 15), (''BTF_KIND_FLOAT'', 16), (''BTF_KIND_DECL_TAG'', 17),
     (''BTF_KIND_TYPE_TAG'', 18), (''BTF_KIND_ENUM64'', 19), (''NR_BTF_KINDS'', 20),
     (''BTF_KIND_MAX'', 19)]"

definition enumdecl_line_1230 :: cenum_decl where
  "enumdecl_line_1230 = EnumDecl False [
     (''BTF_MODULE_F_LIVE'', 1)]"

definition enumdecl_line_1234 :: cenum_decl where
  "enumdecl_line_1234 = EnumDecl False [
     (''BTF_SOCK_TYPE_INET'', 0), (''BTF_SOCK_TYPE_INET_CONN'', 1),
     (''BTF_SOCK_TYPE_INET_REQ'', 2), (''BTF_SOCK_TYPE_INET_TW'', 3), (''BTF_SOCK_TYPE_REQ'', 4),
     (''BTF_SOCK_TYPE_SOCK'', 5), (''BTF_SOCK_TYPE_SOCK_COMMON'', 6), (''BTF_SOCK_TYPE_TCP'', 7),
     (''BTF_SOCK_TYPE_TCP_REQ'', 8), (''BTF_SOCK_TYPE_TCP_TW'', 9), (''BTF_SOCK_TYPE_TCP6'', 10),
     (''BTF_SOCK_TYPE_UDP'', 11), (''BTF_SOCK_TYPE_UDP6'', 12), (''BTF_SOCK_TYPE_UNIX'', 13),
     (''BTF_SOCK_TYPE_MPTCP'', 14), (''BTF_SOCK_TYPE_SOCKET'', 15), (''MAX_BTF_SOCK_TYPE'', 16)]"

definition enumdecl_line_1254 :: cenum_decl where
  "enumdecl_line_1254 = EnumDecl False [
     (''BTF_TRACING_TYPE_TASK'', 0), (''BTF_TRACING_TYPE_FILE'', 1),
     (''BTF_TRACING_TYPE_VMA'', 2), (''MAX_BTF_TRACING_TYPE'', 3)]"

definition enumdecl_line_1261 :: cenum_decl where
  "enumdecl_line_1261 = EnumDecl False [
     (''BTF_VAR_STATIC'', 0), (''BTF_VAR_GLOBAL_ALLOCATED'', 1), (''BTF_VAR_GLOBAL_EXTERN'', 2)]"

definition enumdecl_line_1267 :: cenum_decl where
  "enumdecl_line_1267 = EnumDecl False [
     (''BTS_STATE_STOPPED'', 0), (''BTS_STATE_INACTIVE'', 1), (''BTS_STATE_ACTIVE'', 2)]"

definition enumdecl_line_1273 :: cenum_decl where
  "enumdecl_line_1273 = EnumDecl False [
     (''Blktrace_setup'', 1), (''Blktrace_running'', 2), (''Blktrace_stopped'', 3)]"

definition enumdecl_line_1279 :: cenum_decl where
  "enumdecl_line_1279 = EnumDecl False [
     (''C1E_PROMOTION_PRESERVE'', 0), (''C1E_PROMOTION_ENABLE'', 1),
     (''C1E_PROMOTION_DISABLE'', 2)]"

definition enumdecl_line_1285 :: cenum_decl where
  "enumdecl_line_1285 = EnumDecl False [
     (''CACHE_RH_CNT'', 14)]"

definition enumdecl_line_1289 :: cenum_decl where
  "enumdecl_line_1289 = EnumDecl False [
     (''CACHE_WH_CNT'', 15)]"

definition enumdecl_line_1293 :: cenum_decl where
  "enumdecl_line_1293 = EnumDecl False [
     (''CFTYPE_ONLY_ON_ROOT'', 1), (''CFTYPE_NOT_ON_ROOT'', 2), (''CFTYPE_NS_DELEGATABLE'', 4),
     (''CFTYPE_NO_PREFIX'', 8), (''CFTYPE_WORLD_WRITABLE'', 16), (''CFTYPE_DEBUG'', 32),
     (''__CFTYPE_ONLY_ON_DFL'', 65536), (''__CFTYPE_NOT_ON_DFL'', 131072),
     (''__CFTYPE_ADDED'', 262144)]"

definition enumdecl_line_1305 :: cenum_decl where
  "enumdecl_line_1305 = EnumDecl False [
     (''CGROUPSTATS_CMD_ATTR_UNSPEC'', 0), (''CGROUPSTATS_CMD_ATTR_FD'', 1),
     (''__CGROUPSTATS_CMD_ATTR_MAX'', 2)]"

definition enumdecl_line_1311 :: cenum_decl where
  "enumdecl_line_1311 = EnumDecl False [
     (''CGROUPSTATS_CMD_UNSPEC'', 3), (''CGROUPSTATS_CMD_GET'', 4), (''CGROUPSTATS_CMD_NEW'', 5),
     (''__CGROUPSTATS_CMD_MAX'', 6)]"

definition enumdecl_line_1318 :: cenum_decl where
  "enumdecl_line_1318 = EnumDecl False [
     (''CGROUPSTATS_TYPE_UNSPEC'', 0), (''CGROUPSTATS_TYPE_CGROUP_STATS'', 1),
     (''__CGROUPSTATS_TYPE_MAX'', 2)]"

definition enumdecl_line_1324 :: cenum_decl where
  "enumdecl_line_1324 = EnumDecl False [
     (''CGRP_NOTIFY_ON_RELEASE'', 0), (''CGRP_CPUSET_CLONE_CHILDREN'', 1), (''CGRP_FREEZE'', 2),
     (''CGRP_FROZEN'', 3)]"

definition enumdecl_line_1331 :: cenum_decl where
  "enumdecl_line_1331 = EnumDecl False [
     (''CGRP_ROOT_NOPREFIX'', 2), (''CGRP_ROOT_XATTR'', 4), (''CGRP_ROOT_NS_DELEGATE'', 8),
     (''CGRP_ROOT_FAVOR_DYNMODS'', 16), (''CGRP_ROOT_CPUSET_V2_MODE'', 65536),
     (''CGRP_ROOT_MEMORY_LOCAL_EVENTS'', 131072), (''CGRP_ROOT_MEMORY_RECURSIVE_PROT'', 262144),
     (''CGRP_ROOT_MEMORY_HUGETLB_ACCOUNTING'', 524288),
     (''CGRP_ROOT_PIDS_LOCAL_EVENTS'', 1048576)]"

definition enumdecl_line_1343 :: cenum_decl where
  "enumdecl_line_1343 = EnumDecl False [
     (''CHIP_INVALID'', 0), (''CHIP_PM8606'', 1), (''CHIP_PM8607'', 2), (''CHIP_MAX'', 3)]"

definition enumdecl_line_1350 :: cenum_decl where
  "enumdecl_line_1350 = EnumDecl False [
     (''CHT_WC_PWRSRC_IRQ'', 0), (''CHT_WC_THRM_IRQ'', 1), (''CHT_WC_BCU_IRQ'', 2),
     (''CHT_WC_ADC_IRQ'', 3), (''CHT_WC_EXT_CHGR_IRQ'', 4), (''CHT_WC_GPIO_IRQ'', 5),
     (''CHT_WC_CRIT_IRQ'', 7)]"

definition enumdecl_line_1360 :: cenum_decl where
  "enumdecl_line_1360 = EnumDecl False [
     (''CLKCTL'', 2), (''SYNCCTL'', 3), (''HSYNCPOS'', 4), (''PWRMNGMT'', 5), (''DACOP'', 6),
     (''PALETCTL'', 7), (''SYSCLKCTL'', 8), (''PIXFMT'', 10), (''BPP8'', 11), (''BPP16'', 12),
     (''BPP24'', 13), (''BPP32'', 14), (''PIXCTL1'', 16), (''PIXCTL2'', 17), (''SYSCLKN'', 21),
     (''SYSCLKM'', 22), (''SYSCLKP'', 23), (''SYSCLKC'', 24), (''PIXM0'', 32), (''PIXN0'', 33),
     (''PIXP0'', 34), (''PIXC0'', 35), (''CURSCTL'', 48), (''CURSXLO'', 49), (''CURSXHI'', 50),
     (''CURSYLO'', 51), (''CURSYHI'', 52), (''CURSHOTX'', 53), (''CURSHOTY'', 54),
     (''CURSACCTL'', 55), (''CURSACATTR'', 56), (''CURS1R'', 64), (''CURS1G'', 65),
     (''CURS1B'', 66), (''CURS2R'', 67), (''CURS2G'', 68), (''CURS2B'', 69), (''CURS3R'', 70),
     (''CURS3G'', 71), (''CURS3B'', 72), (''BORDR'', 96), (''BORDG'', 97), (''BORDB'', 98),
     (''MISCTL1'', 112), (''MISCTL2'', 113), (''MISCTL3'', 114), (''KEYCTL'', 120)]"

definition enumdecl_line_1410 :: cenum_decl where
  "enumdecl_line_1410 = EnumDecl False [
     (''CMIS_MODULE_LOW_PWR'', 1), (''CMIS_MODULE_READY'', 3)]"

definition enumdecl_line_1415 :: cenum_decl where
  "enumdecl_line_1415 = EnumDecl False [
     (''COREDUMP_ACK_SIZE_VER0'', 16)]"

definition enumdecl_line_1419 :: cenum_decl where
  "enumdecl_line_1419 = EnumDecl False [
     (''COREDUMP_KERNEL'', 1), (''COREDUMP_USERSPACE'', 2), (''COREDUMP_REJECT'', 4),
     (''COREDUMP_WAIT'', 8)]"

definition enumdecl_line_1426 :: cenum_decl where
  "enumdecl_line_1426 = EnumDecl False [
     (''COST_CTRL'', 0), (''COST_MODEL'', 1), (''NR_COST_CTRL_PARAMS'', 2)]"

definition enumdecl_line_1432 :: cenum_decl where
  "enumdecl_line_1432 = EnumDecl False [
     (''CPER_SEV_RECOVERABLE'', 0), (''CPER_SEV_FATAL'', 1), (''CPER_SEV_CORRECTED'', 2),
     (''CPER_SEV_INFORMATIONAL'', 3)]"

definition enumdecl_line_1439 :: cenum_decl where
  "enumdecl_line_1439 = EnumDecl False [
     (''CPU_BANIAS'', 0), (''CPU_DOTHAN_A1'', 1), (''CPU_DOTHAN_A2'', 2), (''CPU_DOTHAN_B0'', 3),
     (''CPU_MP4HT_D0'', 4), (''CPU_MP4HT_E0'', 5)]"

definition enumdecl_line_1448 :: cenum_decl where
  "enumdecl_line_1448 = EnumDecl False [
     (''CRI_RES_UTIL'', 5)]"

definition enumdecl_line_1452 :: cenum_decl where
  "enumdecl_line_1452 = EnumDecl False [
     (''CRNG_EMPTY'', 0), (''CRNG_EARLY'', 1), (''CRNG_READY'', 2)]"

definition enumdecl_line_1458 :: cenum_decl where
  "enumdecl_line_1458 = EnumDecl False [
     (''CRNG_RESEED_START_INTERVAL'', 1000), (''CRNG_RESEED_INTERVAL'', 60000)]"

definition enumdecl_line_1463 :: cenum_decl where
  "enumdecl_line_1463 = EnumDecl False [
     (''CRYPTOA_UNSPEC'', 0), (''CRYPTOA_ALG'', 1), (''CRYPTOA_TYPE'', 2), (''__CRYPTOA_MAX'', 3)]"

definition enumdecl_line_1470 :: cenum_decl where
  "enumdecl_line_1470 = EnumDecl False [
     (''CRYPTO_KPP_SECRET_TYPE_UNKNOWN'', 0), (''CRYPTO_KPP_SECRET_TYPE_DH'', 1),
     (''CRYPTO_KPP_SECRET_TYPE_ECDH'', 2)]"

definition enumdecl_line_1476 :: cenum_decl where
  "enumdecl_line_1476 = EnumDecl False [
     (''CRYPTO_MSG_ALG_REQUEST'', 0), (''CRYPTO_MSG_ALG_REGISTER'', 1),
     (''CRYPTO_MSG_ALG_LOADED'', 2)]"

definition enumdecl_line_1482 :: cenum_decl where
  "enumdecl_line_1482 = EnumDecl False [
     (''CSD_FLAG_LOCK'', 1), (''IRQ_WORK_PENDING'', 1), (''IRQ_WORK_BUSY'', 2),
     (''IRQ_WORK_LAZY'', 4), (''IRQ_WORK_HARD_IRQ'', 8), (''IRQ_WORK_CLAIMED'', 3),
     (''CSD_TYPE_ASYNC'', 0), (''CSD_TYPE_SYNC'', 16), (''CSD_TYPE_IRQ_WORK'', 32),
     (''CSD_TYPE_TTWU'', 48), (''CSD_FLAG_TYPE_MASK'', 240)]"

definition enumdecl_line_1496 :: cenum_decl where
  "enumdecl_line_1496 = EnumDecl False [
     (''CSI_DEC_hl_CURSOR_KEYS'', 1), (''CSI_DEC_hl_132_COLUMNS'', 3),
     (''CSI_DEC_hl_REVERSE_VIDEO'', 5), (''CSI_DEC_hl_ORIGIN_MODE'', 6),
     (''CSI_DEC_hl_AUTOWRAP'', 7), (''CSI_DEC_hl_AUTOREPEAT'', 8), (''CSI_DEC_hl_MOUSE_X10'', 9),
     (''CSI_DEC_hl_SHOW_CURSOR'', 25), (''CSI_DEC_hl_MOUSE_VT200'', 1000),
     (''CSI_DEC_hl_ALT_SCREEN'', 1049), (''CSI_DEC_hl_BRACKETED_PASTE'', 2004)]"

definition enumdecl_line_1510 :: cenum_decl where
  "enumdecl_line_1510 = EnumDecl False [
     (''CSI_K_CURSOR_TO_LINEEND'', 0), (''CSI_K_LINESTART_TO_CURSOR'', 1), (''CSI_K_LINE'', 2)]"

definition enumdecl_line_1516 :: cenum_decl where
  "enumdecl_line_1516 = EnumDecl False [
     (''CSI_hl_DISPLAY_CTRL'', 3), (''CSI_hl_INSERT'', 4), (''CSI_hl_AUTO_NL'', 20)]"

definition enumdecl_line_1522 :: cenum_decl where
  "enumdecl_line_1522 = EnumDecl False [
     (''CSI_m_DEFAULT'', 0), (''CSI_m_BOLD'', 1), (''CSI_m_HALF_BRIGHT'', 2),
     (''CSI_m_ITALIC'', 3), (''CSI_m_UNDERLINE'', 4), (''CSI_m_BLINK'', 5),
     (''CSI_m_REVERSE'', 7), (''CSI_m_PRI_FONT'', 10), (''CSI_m_ALT_FONT1'', 11),
     (''CSI_m_ALT_FONT2'', 12), (''CSI_m_DOUBLE_UNDERLINE'', 21),
     (''CSI_m_NORMAL_INTENSITY'', 22), (''CSI_m_NO_ITALIC'', 23), (''CSI_m_NO_UNDERLINE'', 24),
     (''CSI_m_NO_BLINK'', 25), (''CSI_m_NO_REVERSE'', 27), (''CSI_m_FG_COLOR_BEG'', 30),
     (''CSI_m_FG_COLOR_END'', 37), (''CSI_m_FG_COLOR'', 38), (''CSI_m_DEFAULT_FG_COLOR'', 39),
     (''CSI_m_BG_COLOR_BEG'', 40), (''CSI_m_BG_COLOR_END'', 47), (''CSI_m_BG_COLOR'', 48),
     (''CSI_m_DEFAULT_BG_COLOR'', 49), (''CSI_m_BRIGHT_FG_COLOR_BEG'', 90),
     (''CSI_m_BRIGHT_FG_COLOR_END'', 97), (''CSI_m_BRIGHT_FG_COLOR_OFF'', 60),
     (''CSI_m_BRIGHT_BG_COLOR_BEG'', 100), (''CSI_m_BRIGHT_BG_COLOR_END'', 107),
     (''CSI_m_BRIGHT_BG_COLOR_OFF'', 60)]"

definition enumdecl_line_1555 :: cenum_decl where
  "enumdecl_line_1555 = EnumDecl False [
     (''CSS_NO_REF'', 1), (''CSS_ONLINE'', 2), (''CSS_RELEASED'', 4), (''CSS_VISIBLE'', 8),
     (''CSS_DYING'', 16)]"

definition enumdecl_line_1563 :: cenum_decl where
  "enumdecl_line_1563 = EnumDecl False [
     (''CTL_RES_CNT'', 1)]"

definition enumdecl_line_1567 :: cenum_decl where
  "enumdecl_line_1567 = EnumDecl False [
     (''CTL_RES_TM'', 2)]"

definition enumdecl_line_1571 :: cenum_decl where
  "enumdecl_line_1571 = EnumDecl False [
     (''CTRL_ATTR_MCAST_GRP_UNSPEC'', 0), (''CTRL_ATTR_MCAST_GRP_NAME'', 1),
     (''CTRL_ATTR_MCAST_GRP_ID'', 2), (''__CTRL_ATTR_MCAST_GRP_MAX'', 3)]"

definition enumdecl_line_1578 :: cenum_decl where
  "enumdecl_line_1578 = EnumDecl False [
     (''CTRL_ATTR_OP_UNSPEC'', 0), (''CTRL_ATTR_OP_ID'', 1), (''CTRL_ATTR_OP_FLAGS'', 2),
     (''__CTRL_ATTR_OP_MAX'', 3)]"

definition enumdecl_line_1585 :: cenum_decl where
  "enumdecl_line_1585 = EnumDecl False [
     (''CTRL_ATTR_POLICY_UNSPEC'', 0), (''CTRL_ATTR_POLICY_DO'', 1),
     (''CTRL_ATTR_POLICY_DUMP'', 2), (''__CTRL_ATTR_POLICY_DUMP_MAX'', 3),
     (''CTRL_ATTR_POLICY_DUMP_MAX'', 2)]"

definition enumdecl_line_1593 :: cenum_decl where
  "enumdecl_line_1593 = EnumDecl False [
     (''CTRL_ATTR_UNSPEC'', 0), (''CTRL_ATTR_FAMILY_ID'', 1), (''CTRL_ATTR_FAMILY_NAME'', 2),
     (''CTRL_ATTR_VERSION'', 3), (''CTRL_ATTR_HDRSIZE'', 4), (''CTRL_ATTR_MAXATTR'', 5),
     (''CTRL_ATTR_OPS'', 6), (''CTRL_ATTR_MCAST_GROUPS'', 7), (''CTRL_ATTR_POLICY'', 8),
     (''CTRL_ATTR_OP_POLICY'', 9), (''CTRL_ATTR_OP'', 10), (''__CTRL_ATTR_MAX'', 11)]"

definition enumdecl_line_1608 :: cenum_decl where
  "enumdecl_line_1608 = EnumDecl False [
     (''CTRL_CMD_UNSPEC'', 0), (''CTRL_CMD_NEWFAMILY'', 1), (''CTRL_CMD_DELFAMILY'', 2),
     (''CTRL_CMD_GETFAMILY'', 3), (''CTRL_CMD_NEWOPS'', 4), (''CTRL_CMD_DELOPS'', 5),
     (''CTRL_CMD_GETOPS'', 6), (''CTRL_CMD_NEWMCAST_GRP'', 7), (''CTRL_CMD_DELMCAST_GRP'', 8),
     (''CTRL_CMD_GETMCAST_GRP'', 9), (''CTRL_CMD_GETPOLICY'', 10), (''__CTRL_CMD_MAX'', 11)]"

definition enumdecl_line_1623 :: cenum_decl where
  "enumdecl_line_1623 = EnumDecl False [
     (''DA9063_DEV_ID_REG'', 0), (''DA9063_VAR_ID_REG'', 1), (''DA9063_CHIP_ID_REGS'', 2)]"

definition enumdecl_line_1629 :: cenum_decl where
  "enumdecl_line_1629 = EnumDecl False [
     (''DAD_PROCESS'', 0), (''DAD_BEGIN'', 1), (''DAD_ABORT'', 2)]"

definition enumdecl_line_1635 :: cenum_decl where
  "enumdecl_line_1635 = EnumDecl False [
     (''DD_DIR_COUNT'', 2)]"

definition enumdecl_line_1639 :: cenum_decl where
  "enumdecl_line_1639 = EnumDecl False [
     (''DD_PRIO_COUNT'', 3)]"

definition enumdecl_line_1643 :: cenum_decl where
  "enumdecl_line_1643 = EnumDecl False [
     (''DELL_INSPIRON_7375'', 0), (''DELL_LATITUDE_5495'', 1), (''LENOVO_IDEAPAD_330S_15ARR'', 2)]"

definition enumdecl_line_1649 :: cenum_decl where
  "enumdecl_line_1649 = EnumDecl False [
     (''DESC_TSS'', 9), (''DESC_LDT'', 2), (''DESCTYPE_S'', 16)]"

definition enum_decls_1 :: "cenum_decl list" where
  "enum_decls_1 = [
     enumdecl_line_24, enumdecl_line_30, enumdecl_line_38, enumdecl_line_45, enumdecl_line_51,
     enumdecl_line_57, enumdecl_line_68, enumdecl_line_104, enumdecl_line_127, enumdecl_line_135,
     enumdecl_line_152, enumdecl_line_161, enumdecl_line_174, enumdecl_line_180,
     enumdecl_line_191, enumdecl_line_196, enumdecl_line_201, enumdecl_line_223,
     enumdecl_line_233, enumdecl_line_259, enumdecl_line_265, enumdecl_line_684,
     enumdecl_line_717, enumdecl_line_727, enumdecl_line_732, enumdecl_line_740,
     enumdecl_line_758, enumdecl_line_770, enumdecl_line_777, enumdecl_line_786,
     enumdecl_line_790, enumdecl_line_796, enumdecl_line_802, enumdecl_line_811,
     enumdecl_line_829, enumdecl_line_839, enumdecl_line_845, enumdecl_line_851,
     enumdecl_line_859, enumdecl_line_864, enumdecl_line_871, enumdecl_line_876,
     enumdecl_line_885, enumdecl_line_892, enumdecl_line_905, enumdecl_line_914,
     enumdecl_line_920, enumdecl_line_932, enumdecl_line_936, enumdecl_line_940,
     enumdecl_line_944, enumdecl_line_954, enumdecl_line_960, enumdecl_line_964,
     enumdecl_line_970, enumdecl_line_993, enumdecl_line_1000, enumdecl_line_1005,
     enumdecl_line_1013, enumdecl_line_1017, enumdecl_line_1022, enumdecl_line_1026,
     enumdecl_line_1030, enumdecl_line_1034, enumdecl_line_1041, enumdecl_line_1045,
     enumdecl_line_1050, enumdecl_line_1055, enumdecl_line_1059, enumdecl_line_1067,
     enumdecl_line_1072, enumdecl_line_1087, enumdecl_line_1093, enumdecl_line_1101,
     enumdecl_line_1106, enumdecl_line_1117, enumdecl_line_1141, enumdecl_line_1145,
     enumdecl_line_1151, enumdecl_line_1168, enumdecl_line_1173, enumdecl_line_1177,
     enumdecl_line_1183, enumdecl_line_1187, enumdecl_line_1192, enumdecl_line_1199,
     enumdecl_line_1205, enumdecl_line_1230, enumdecl_line_1234, enumdecl_line_1254,
     enumdecl_line_1261, enumdecl_line_1267, enumdecl_line_1273, enumdecl_line_1279,
     enumdecl_line_1285, enumdecl_line_1289, enumdecl_line_1293, enumdecl_line_1305,
     enumdecl_line_1311, enumdecl_line_1318, enumdecl_line_1324, enumdecl_line_1331,
     enumdecl_line_1343, enumdecl_line_1350, enumdecl_line_1360, enumdecl_line_1410,
     enumdecl_line_1415, enumdecl_line_1419, enumdecl_line_1426, enumdecl_line_1432,
     enumdecl_line_1439, enumdecl_line_1448, enumdecl_line_1452, enumdecl_line_1458,
     enumdecl_line_1463, enumdecl_line_1470, enumdecl_line_1476, enumdecl_line_1482,
     enumdecl_line_1496, enumdecl_line_1510, enumdecl_line_1516, enumdecl_line_1522,
     enumdecl_line_1555, enumdecl_line_1563, enumdecl_line_1567, enumdecl_line_1571,
     enumdecl_line_1578, enumdecl_line_1585, enumdecl_line_1593, enumdecl_line_1608,
     enumdecl_line_1623, enumdecl_line_1629, enumdecl_line_1635, enumdecl_line_1639,
     enumdecl_line_1643, enumdecl_line_1649]"

lemma enum_decls_1_4: "list_all enum4 enum_decls_1"
  by (unfold enum_decls_1_def
     enumdecl_line_24_def enumdecl_line_30_def enumdecl_line_38_def enumdecl_line_45_def
     enumdecl_line_51_def enumdecl_line_57_def enumdecl_line_68_def enumdecl_line_104_def
     enumdecl_line_127_def enumdecl_line_135_def enumdecl_line_152_def enumdecl_line_161_def
     enumdecl_line_174_def enumdecl_line_180_def enumdecl_line_191_def enumdecl_line_196_def
     enumdecl_line_201_def enumdecl_line_223_def enumdecl_line_233_def enumdecl_line_259_def
     enumdecl_line_265_def enumdecl_line_684_def enumdecl_line_717_def enumdecl_line_727_def
     enumdecl_line_732_def enumdecl_line_740_def enumdecl_line_758_def enumdecl_line_770_def
     enumdecl_line_777_def enumdecl_line_790_def enumdecl_line_796_def enumdecl_line_802_def
     enumdecl_line_811_def enumdecl_line_829_def enumdecl_line_845_def enumdecl_line_851_def
     enumdecl_line_859_def enumdecl_line_864_def enumdecl_line_871_def enumdecl_line_876_def
     enumdecl_line_885_def enumdecl_line_892_def enumdecl_line_905_def enumdecl_line_914_def
     enumdecl_line_920_def enumdecl_line_932_def enumdecl_line_936_def enumdecl_line_940_def
     enumdecl_line_944_def enumdecl_line_954_def enumdecl_line_960_def enumdecl_line_964_def
     enumdecl_line_970_def enumdecl_line_993_def enumdecl_line_1000_def
     enumdecl_line_1005_def enumdecl_line_1013_def enumdecl_line_1017_def
     enumdecl_line_1022_def enumdecl_line_1026_def enumdecl_line_1030_def
     enumdecl_line_1034_def enumdecl_line_1041_def enumdecl_line_1045_def
     enumdecl_line_1050_def enumdecl_line_1055_def enumdecl_line_1059_def
     enumdecl_line_1067_def enumdecl_line_1072_def enumdecl_line_1093_def
     enumdecl_line_1101_def enumdecl_line_1106_def enumdecl_line_1117_def
     enumdecl_line_1141_def enumdecl_line_1145_def enumdecl_line_1151_def
     enumdecl_line_1168_def enumdecl_line_1173_def enumdecl_line_1177_def
     enumdecl_line_1183_def enumdecl_line_1187_def enumdecl_line_1192_def
     enumdecl_line_1199_def enumdecl_line_1205_def enumdecl_line_1230_def
     enumdecl_line_1234_def enumdecl_line_1254_def enumdecl_line_1261_def
     enumdecl_line_1267_def enumdecl_line_1273_def enumdecl_line_1279_def
     enumdecl_line_1285_def enumdecl_line_1289_def enumdecl_line_1293_def
     enumdecl_line_1305_def enumdecl_line_1311_def enumdecl_line_1318_def
     enumdecl_line_1324_def enumdecl_line_1331_def enumdecl_line_1343_def
     enumdecl_line_1350_def enumdecl_line_1360_def enumdecl_line_1410_def
     enumdecl_line_1415_def enumdecl_line_1419_def enumdecl_line_1426_def
     enumdecl_line_1432_def enumdecl_line_1439_def enumdecl_line_1448_def
     enumdecl_line_1452_def enumdecl_line_1458_def enumdecl_line_1463_def
     enumdecl_line_1470_def enumdecl_line_1476_def enumdecl_line_1482_def
     enumdecl_line_1496_def enumdecl_line_1510_def enumdecl_line_1516_def
     enumdecl_line_1522_def enumdecl_line_1555_def enumdecl_line_1563_def
     enumdecl_line_1567_def enumdecl_line_1571_def enumdecl_line_1578_def
     enumdecl_line_1585_def enumdecl_line_1593_def enumdecl_line_1608_def
     enumdecl_line_1623_def enumdecl_line_1629_def enumdecl_line_1635_def
     enumdecl_line_1639_def enumdecl_line_1643_def enumdecl_line_1649_def)
    (intro enum_list_intros enum_int_intros enumdecl_line_786_4 enumdecl_line_839_4 enumdecl_line_1087_4; simp)

lemma length_enum_decls_1: "length enum_decls_1 = 136"
  by (simp add: enum_decls_1_def)

end
