(* ===== verification/VmlinuxEnum2.thy ===== *)
theory VmlinuxEnum2
  imports EnumDecl
begin

text \<open>
  The enumerations of four bytes of \<^verbatim>\<open>src/internal/ebpf/vmlinux.h\<close> between lines 1655 and
  3302, one definition per enumeration, enumerators in order. An enumeration without a tag is
  named after the line it starts on.
\<close>

definition enumdecl_line_1655 :: cenum_decl where
  "enumdecl_line_1655 = EnumDecl False [
     (''DEVCONF_FORWARDING'', 0), (''DEVCONF_HOPLIMIT'', 1), (''DEVCONF_MTU6'', 2),
     (''DEVCONF_ACCEPT_RA'', 3), (''DEVCONF_ACCEPT_REDIRECTS'', 4), (''DEVCONF_AUTOCONF'', 5),
     (''DEVCONF_DAD_TRANSMITS'', 6), (''DEVCONF_RTR_SOLICITS'', 7),
     (''DEVCONF_RTR_SOLICIT_INTERVAL'', 8), (''DEVCONF_RTR_SOLICIT_DELAY'', 9),
     (''DEVCONF_USE_TEMPADDR'', 10), (''DEVCONF_TEMP_VALID_LFT'', 11),
     (''DEVCONF_TEMP_PREFERED_LFT'', 12), (''DEVCONF_REGEN_MAX_RETRY'', 13),
     (''DEVCONF_MAX_DESYNC_FACTOR'', 14), (''DEVCONF_MAX_ADDRESSES'', 15),
     (''DEVCONF_FORCE_MLD_VERSION'', 16), (''DEVCONF_ACCEPT_RA_DEFRTR'', 17),
     (''DEVCONF_ACCEPT_RA_PINFO'', 18), (''DEVCONF_ACCEPT_RA_RTR_PREF'', 19),
     (''DEVCONF_RTR_PROBE_INTERVAL'', 20), (''DEVCONF_ACCEPT_RA_RT_INFO_MAX_PLEN'', 21),
     (''DEVCONF_PROXY_NDP'', 22), (''DEVCONF_OPTIMISTIC_DAD'', 23),
     (''DEVCONF_ACCEPT_SOURCE_ROUTE'', 24), (''DEVCONF_MC_FORWARDING'', 25),
     (''DEVCONF_DISABLE_IPV6'', 26), (''DEVCONF_ACCEPT_DAD'', 27), (''DEVCONF_FORCE_TLLAO'', 28),
     (''DEVCONF_NDISC_NOTIFY'', 29), (''DEVCONF_MLDV1_UNSOLICITED_REPORT_INTERVAL'', 30),
     (''DEVCONF_MLDV2_UNSOLICITED_REPORT_INTERVAL'', 31), (''DEVCONF_SUPPRESS_FRAG_NDISC'', 32),
     (''DEVCONF_ACCEPT_RA_FROM_LOCAL'', 33), (''DEVCONF_USE_OPTIMISTIC'', 34),
     (''DEVCONF_ACCEPT_RA_MTU'', 35), (''DEVCONF_STABLE_SECRET'', 36),
     (''DEVCONF_USE_OIF_ADDRS_ONLY'', 37), (''DEVCONF_ACCEPT_RA_MIN_HOP_LIMIT'', 38),
     (''DEVCONF_IGNORE_ROUTES_WITH_LINKDOWN'', 39),
     (''DEVCONF_DROP_UNICAST_IN_L2_MULTICAST'', 40), (''DEVCONF_DROP_UNSOLICITED_NA'', 41),
     (''DEVCONF_KEEP_ADDR_ON_DOWN'', 42), (''DEVCONF_RTR_SOLICIT_MAX_INTERVAL'', 43),
     (''DEVCONF_SEG6_ENABLED'', 44), (''DEVCONF_SEG6_REQUIRE_HMAC'', 45),
     (''DEVCONF_ENHANCED_DAD'', 46), (''DEVCONF_ADDR_GEN_MODE'', 47),
     (''DEVCONF_DISABLE_POLICY'', 48), (''DEVCONF_ACCEPT_RA_RT_INFO_MIN_PLEN'', 49),
     (''DEVCONF_NDISC_TCLASS'', 50), (''DEVCONF_RPL_SEG_ENABLED'', 51),
     (''DEVCONF_RA_DEFRTR_METRIC'', 52), (''DEVCONF_IOAM6_ENABLED'', 53),
     (''DEVCONF_IOAM6_ID'', 54), (''DEVCONF_IOAM6_ID_WIDE'', 55),
     (''DEVCONF_NDISC_EVICT_NOCARRIER'', 56), (''DEVCONF_ACCEPT_UNTRACKED_NA'', 57),
     (''DEVCONF_ACCEPT_RA_MIN_LFT'', 58), (''DEVCONF_FORCE_FORWARDING'', 59),
     (''DEVCONF_MAX'', 60)]"

definition enumdecl_line_1719 :: cenum_decl where
  "enumdecl_line_1719 = EnumDecl False [
     (''DEVLINK_ATTR_STATS_RX_PACKETS'', 0), (''DEVLINK_ATTR_STATS_RX_BYTES'', 1),
     (''DEVLINK_ATTR_STATS_RX_DROPPED'', 2), (''__DEVLINK_ATTR_STATS_MAX'', 3),
     (''DEVLINK_ATTR_STATS_MAX'', 2)]"

definition enumdecl_line_1727 :: cenum_decl where
  "enumdecl_line_1727 = EnumDecl False [
     (''DEVLINK_ATTR_TRAP_METADATA_TYPE_IN_PORT'', 0),
     (''DEVLINK_ATTR_TRAP_METADATA_TYPE_FA_COOKIE'', 1)]"

definition enumdecl_line_1732 :: cenum_decl where
  "enumdecl_line_1732 = EnumDecl False [
     (''DEV_ENERGYMODEL_A_PERF_DOMAIN_PAD'', 1),
     (''DEV_ENERGYMODEL_A_PERF_DOMAIN_PERF_DOMAIN_ID'', 2),
     (''DEV_ENERGYMODEL_A_PERF_DOMAIN_FLAGS'', 3), (''DEV_ENERGYMODEL_A_PERF_DOMAIN_CPUS'', 4),
     (''__DEV_ENERGYMODEL_A_PERF_DOMAIN_MAX'', 5), (''DEV_ENERGYMODEL_A_PERF_DOMAIN_MAX'', 4)]"

definition enumdecl_line_1741 :: cenum_decl where
  "enumdecl_line_1741 = EnumDecl False [
     (''DEV_ENERGYMODEL_A_PERF_STATE_PAD'', 1),
     (''DEV_ENERGYMODEL_A_PERF_STATE_PERFORMANCE'', 2),
     (''DEV_ENERGYMODEL_A_PERF_STATE_FREQUENCY'', 3),
     (''DEV_ENERGYMODEL_A_PERF_STATE_POWER'', 4), (''DEV_ENERGYMODEL_A_PERF_STATE_COST'', 5),
     (''DEV_ENERGYMODEL_A_PERF_STATE_FLAGS'', 6), (''__DEV_ENERGYMODEL_A_PERF_STATE_MAX'', 7),
     (''DEV_ENERGYMODEL_A_PERF_STATE_MAX'', 6)]"

definition enumdecl_line_1752 :: cenum_decl where
  "enumdecl_line_1752 = EnumDecl False [
     (''DEV_ENERGYMODEL_A_PERF_TABLE_PERF_DOMAIN_ID'', 1),
     (''DEV_ENERGYMODEL_A_PERF_TABLE_PERF_STATE'', 2),
     (''__DEV_ENERGYMODEL_A_PERF_TABLE_MAX'', 3), (''DEV_ENERGYMODEL_A_PERF_TABLE_MAX'', 2)]"

definition enumdecl_line_1759 :: cenum_decl where
  "enumdecl_line_1759 = EnumDecl False [
     (''DEV_ENERGYMODEL_CMD_GET_PERF_DOMAINS'', 1), (''DEV_ENERGYMODEL_CMD_GET_PERF_TABLE'', 2),
     (''DEV_ENERGYMODEL_CMD_PERF_DOMAIN_CREATED'', 3),
     (''DEV_ENERGYMODEL_CMD_PERF_DOMAIN_UPDATED'', 4),
     (''DEV_ENERGYMODEL_CMD_PERF_DOMAIN_DELETED'', 5), (''__DEV_ENERGYMODEL_CMD_MAX'', 6),
     (''DEV_ENERGYMODEL_CMD_MAX'', 5)]"

definition enumdecl_line_1769 :: cenum_decl where
  "enumdecl_line_1769 = EnumDecl False [
     (''DEV_ENERGYMODEL_NLGRP_EVENT'', 0)]"

definition enumdecl_line_1773 :: cenum_decl where
  "enumdecl_line_1773 = EnumDecl False [
     (''DIO_LOCKING'', 1), (''DIO_SKIP_HOLES'', 2)]"

definition enumdecl_line_1778 :: cenum_decl where
  "enumdecl_line_1778 = EnumDecl False [
     (''DIO_SHOULD_DIRTY'', 1), (''DIO_IS_SYNC'', 2)]"

definition enumdecl_line_1783 :: cenum_decl where
  "enumdecl_line_1783 = EnumDecl False [
     (''DIR_OFFSET_FIRST'', 2), (''DIR_OFFSET_EOD'', 2147483647)]"

definition enumdecl_line_1788 :: cenum_decl where
  "enumdecl_line_1788 = EnumDecl False [
     (''DIR_OFFSET_MIN'', 3), (''DIR_OFFSET_MAX'', 2147483646)]"

definition enumdecl_line_1793 :: cenum_decl where
  "enumdecl_line_1793 = EnumDecl False [
     (''DISCOVERED'', 16), (''EXPLORED'', 32), (''FALLTHROUGH'', 1), (''BRANCH'', 2)]"

definition enumdecl_line_1800 :: cenum_decl where
  "enumdecl_line_1800 = EnumDecl False [
     (''DISK_EVENT_FLAG_POLL'', 1), (''DISK_EVENT_FLAG_UEVENT'', 2),
     (''DISK_EVENT_FLAG_BLOCK_ON_EXCL_WRITE'', 4)]"

definition enumdecl_line_1806 :: cenum_decl where
  "enumdecl_line_1806 = EnumDecl False [
     (''DISK_EVENT_MEDIA_CHANGE'', 1), (''DISK_EVENT_EJECT_REQUEST'', 2)]"

definition enumdecl_line_1811 :: cenum_decl where
  "enumdecl_line_1811 = EnumDecl False [
     (''DMA_TYPE_TX'', 0), (''DMA_TYPE_RX'', 1), (''DMA_TYPE_MCPY'', 2)]"

definition enumdecl_line_1817 :: cenum_decl where
  "enumdecl_line_1817 = EnumDecl False [
     (''DM_IO_ACCOUNTED'', 0), (''DM_IO_WAS_SPLIT'', 1), (''DM_IO_BLK_STAT'', 2)]"

definition enumdecl_line_1823 :: cenum_decl where
  "enumdecl_line_1823 = EnumDecl False [
     (''DM_TIO_INSIDE_DM_IO'', 0), (''DM_TIO_IS_DUPLICATE_BIO'', 1)]"

definition enumdecl_line_1828 :: cenum_decl where
  "enumdecl_line_1828 = EnumDecl False [
     (''DM_VERSION_CMD'', 0), (''DM_REMOVE_ALL_CMD'', 1), (''DM_LIST_DEVICES_CMD'', 2),
     (''DM_DEV_CREATE_CMD'', 3), (''DM_DEV_REMOVE_CMD'', 4), (''DM_DEV_RENAME_CMD'', 5),
     (''DM_DEV_SUSPEND_CMD'', 6), (''DM_DEV_STATUS_CMD'', 7), (''DM_DEV_WAIT_CMD'', 8),
     (''DM_TABLE_LOAD_CMD'', 9), (''DM_TABLE_CLEAR_CMD'', 10), (''DM_TABLE_DEPS_CMD'', 11),
     (''DM_TABLE_STATUS_CMD'', 12), (''DM_LIST_VERSIONS_CMD'', 13), (''DM_TARGET_MSG_CMD'', 14),
     (''DM_DEV_SET_GEOMETRY_CMD'', 15), (''DM_DEV_ARM_POLL_CMD'', 16),
     (''DM_GET_TARGET_VERSION_CMD'', 17), (''DM_MPATH_PROBE_PATHS_CMD'', 18)]"

definition enumdecl_line_1850 :: cenum_decl where
  "enumdecl_line_1850 = EnumDecl False [
     (''DONE_EXPLORING'', 0), (''KEEP_EXPLORING'', 1)]"

definition enumdecl_line_1855 :: cenum_decl where
  "enumdecl_line_1855 = EnumDecl False [
     (''DPLL_NLGRP_MONITOR'', 0)]"

definition enumdecl_line_1859 :: cenum_decl where
  "enumdecl_line_1859 = EnumDecl False [
     (''DQF_INFO_DIRTY_B'', 17)]"

definition enumdecl_line_1863 :: cenum_decl where
  "enumdecl_line_1863 = EnumDecl False [
     (''DQF_ROOT_SQUASH_B'', 0), (''DQF_SYS_FILE_B'', 16), (''DQF_PRIVATE'', 17)]"

definition enumdecl_line_1869 :: cenum_decl where
  "enumdecl_line_1869 = EnumDecl False [
     (''DQST_LOOKUPS'', 0), (''DQST_DROPS'', 1), (''DQST_READS'', 2), (''DQST_WRITES'', 3),
     (''DQST_CACHE_HITS'', 4), (''DQST_ALLOC_DQUOTS'', 5), (''DQST_FREE_DQUOTS'', 6),
     (''DQST_SYNCS'', 7), (''_DQST_DQSTAT_LAST'', 8)]"

definition enumdecl_line_1881 :: cenum_decl where
  "enumdecl_line_1881 = EnumDecl False [
     (''DUMP_PREFIX_NONE'', 0), (''DUMP_PREFIX_ADDRESS'', 1), (''DUMP_PREFIX_OFFSET'', 2)]"

definition enumdecl_line_1887 :: cenum_decl where
  "enumdecl_line_1887 = EnumDecl False [
     (''EC_FLAGS_QUERY_ENABLED'', 0), (''EC_FLAGS_EVENT_HANDLER_INSTALLED'', 1),
     (''EC_FLAGS_EC_HANDLER_INSTALLED'', 2), (''EC_FLAGS_EC_REG_CALLED'', 3),
     (''EC_FLAGS_QUERY_METHODS_INSTALLED'', 4), (''EC_FLAGS_STARTED'', 5),
     (''EC_FLAGS_STOPPED'', 6), (''EC_FLAGS_EVENTS_MASKED'', 7)]"

definition enumdecl_line_1898 :: cenum_decl where
  "enumdecl_line_1898 = EnumDecl False [
     (''EI_ETYPE_NULL'', 0), (''EI_ETYPE_ERRNO'', 1), (''EI_ETYPE_ERRNO_NULL'', 2),
     (''EI_ETYPE_TRUE'', 3)]"

definition enumdecl_line_1905 :: cenum_decl where
  "enumdecl_line_1905 = EnumDecl False [
     (''EMULATE'', 0), (''XONLY'', 1), (''NONE'', 2)]"

definition enumdecl_line_1911 :: cenum_decl where
  "enumdecl_line_1911 = EnumDecl False [
     (''EPecma'', 0), (''EPdec'', 1), (''EPeq'', 2), (''EPgt'', 3), (''EPlt'', 4)]"

definition enumdecl_line_1919 :: cenum_decl where
  "enumdecl_line_1919 = EnumDecl False [
     (''ERASE'', 0), (''WERASE'', 1), (''KILL'', 2)]"

definition enumdecl_line_1925 :: cenum_decl where
  "enumdecl_line_1925 = EnumDecl False [
     (''ES_WRITTEN_B'', 0), (''ES_UNWRITTEN_B'', 1), (''ES_DELAYED_B'', 2), (''ES_HOLE_B'', 3),
     (''ES_REFERENCED_B'', 4), (''ES_FLAGS'', 5)]"

definition enumdecl_line_1934 :: cenum_decl where
  "enumdecl_line_1934 = EnumDecl False [
     (''ETHTOOL_A_BITSET_BITS_UNSPEC'', 0), (''ETHTOOL_A_BITSET_BITS_BIT'', 1),
     (''__ETHTOOL_A_BITSET_BITS_CNT'', 2), (''ETHTOOL_A_BITSET_BITS_MAX'', 1)]"

definition enumdecl_line_1941 :: cenum_decl where
  "enumdecl_line_1941 = EnumDecl False [
     (''ETHTOOL_A_BITSET_BIT_UNSPEC'', 0), (''ETHTOOL_A_BITSET_BIT_INDEX'', 1),
     (''ETHTOOL_A_BITSET_BIT_NAME'', 2), (''ETHTOOL_A_BITSET_BIT_VALUE'', 3),
     (''__ETHTOOL_A_BITSET_BIT_CNT'', 4), (''ETHTOOL_A_BITSET_BIT_MAX'', 3)]"

definition enumdecl_line_1950 :: cenum_decl where
  "enumdecl_line_1950 = EnumDecl False [
     (''ETHTOOL_A_BITSET_UNSPEC'', 0), (''ETHTOOL_A_BITSET_NOMASK'', 1),
     (''ETHTOOL_A_BITSET_SIZE'', 2), (''ETHTOOL_A_BITSET_BITS'', 3),
     (''ETHTOOL_A_BITSET_VALUE'', 4), (''ETHTOOL_A_BITSET_MASK'', 5),
     (''__ETHTOOL_A_BITSET_CNT'', 6), (''ETHTOOL_A_BITSET_MAX'', 5)]"

definition enumdecl_line_1961 :: cenum_decl where
  "enumdecl_line_1961 = EnumDecl False [
     (''ETHTOOL_A_C33_PSE_PW_LIMIT_UNSPEC'', 0), (''ETHTOOL_A_C33_PSE_PW_LIMIT_MIN'', 1),
     (''ETHTOOL_A_C33_PSE_PW_LIMIT_MAX'', 2), (''__ETHTOOL_A_C33_PSE_PW_LIMIT_CNT'', 3),
     (''__ETHTOOL_A_C33_PSE_PW_LIMIT_MAX'', 2)]"

definition enumdecl_line_1969 :: cenum_decl where
  "enumdecl_line_1969 = EnumDecl False [
     (''ETHTOOL_A_CABLE_AMPLITUDE_UNSPEC'', 0), (''ETHTOOL_A_CABLE_AMPLITUDE_PAIR'', 1),
     (''ETHTOOL_A_CABLE_AMPLITUDE_mV'', 2), (''__ETHTOOL_A_CABLE_AMPLITUDE_CNT'', 3),
     (''ETHTOOL_A_CABLE_AMPLITUDE_MAX'', 2)]"

definition enumdecl_line_1977 :: cenum_decl where
  "enumdecl_line_1977 = EnumDecl False [
     (''ETHTOOL_A_CABLE_FAULT_LENGTH_UNSPEC'', 0), (''ETHTOOL_A_CABLE_FAULT_LENGTH_PAIR'', 1),
     (''ETHTOOL_A_CABLE_FAULT_LENGTH_CM'', 2), (''ETHTOOL_A_CABLE_FAULT_LENGTH_SRC'', 3),
     (''__ETHTOOL_A_CABLE_FAULT_LENGTH_CNT'', 4), (''ETHTOOL_A_CABLE_FAULT_LENGTH_MAX'', 3)]"

definition enumdecl_line_1986 :: cenum_decl where
  "enumdecl_line_1986 = EnumDecl False [
     (''ETHTOOL_A_CABLE_INF_SRC_UNSPEC'', 0), (''ETHTOOL_A_CABLE_INF_SRC_TDR'', 1),
     (''ETHTOOL_A_CABLE_INF_SRC_ALCD'', 2)]"

definition enumdecl_line_1992 :: cenum_decl where
  "enumdecl_line_1992 = EnumDecl False [
     (''ETHTOOL_A_CABLE_NEST_UNSPEC'', 0), (''ETHTOOL_A_CABLE_NEST_RESULT'', 1),
     (''ETHTOOL_A_CABLE_NEST_FAULT_LENGTH'', 2), (''__ETHTOOL_A_CABLE_NEST_CNT'', 3),
     (''ETHTOOL_A_CABLE_NEST_MAX'', 2)]"

definition enumdecl_line_2000 :: cenum_decl where
  "enumdecl_line_2000 = EnumDecl False [
     (''ETHTOOL_A_CABLE_PAIR_A'', 0), (''ETHTOOL_A_CABLE_PAIR_B'', 1),
     (''ETHTOOL_A_CABLE_PAIR_C'', 2), (''ETHTOOL_A_CABLE_PAIR_D'', 3)]"

definition enumdecl_line_2007 :: cenum_decl where
  "enumdecl_line_2007 = EnumDecl False [
     (''ETHTOOL_A_CABLE_PULSE_UNSPEC'', 0), (''ETHTOOL_A_CABLE_PULSE_mV'', 1),
     (''__ETHTOOL_A_CABLE_PULSE_CNT'', 2), (''ETHTOOL_A_CABLE_PULSE_MAX'', 1)]"

definition enumdecl_line_2014 :: cenum_decl where
  "enumdecl_line_2014 = EnumDecl False [
     (''ETHTOOL_A_CABLE_RESULT_CODE_UNSPEC'', 0), (''ETHTOOL_A_CABLE_RESULT_CODE_OK'', 1),
     (''ETHTOOL_A_CABLE_RESULT_CODE_OPEN'', 2), (''ETHTOOL_A_CABLE_RESULT_CODE_SAME_SHORT'', 3),
     (''ETHTOOL_A_CABLE_RESULT_CODE_CROSS_SHORT'', 4),
     (''ETHTOOL_A_CABLE_RESULT_CODE_IMPEDANCE_MISMATCH'', 5),
     (''ETHTOOL_A_CABLE_RESULT_CODE_NOISE'', 6),
     (''ETHTOOL_A_CABLE_RESULT_CODE_RESOLUTION_NOT_POSSIBLE'', 7)]"

definition enumdecl_line_2025 :: cenum_decl where
  "enumdecl_line_2025 = EnumDecl False [
     (''ETHTOOL_A_CABLE_RESULT_UNSPEC'', 0), (''ETHTOOL_A_CABLE_RESULT_PAIR'', 1),
     (''ETHTOOL_A_CABLE_RESULT_CODE'', 2), (''ETHTOOL_A_CABLE_RESULT_SRC'', 3),
     (''__ETHTOOL_A_CABLE_RESULT_CNT'', 4), (''ETHTOOL_A_CABLE_RESULT_MAX'', 3)]"

definition enumdecl_line_2034 :: cenum_decl where
  "enumdecl_line_2034 = EnumDecl False [
     (''ETHTOOL_A_CABLE_STEP_UNSPEC'', 0), (''ETHTOOL_A_CABLE_STEP_FIRST_DISTANCE'', 1),
     (''ETHTOOL_A_CABLE_STEP_LAST_DISTANCE'', 2), (''ETHTOOL_A_CABLE_STEP_STEP_DISTANCE'', 3),
     (''__ETHTOOL_A_CABLE_STEP_CNT'', 4), (''ETHTOOL_A_CABLE_STEP_MAX'', 3)]"

definition enumdecl_line_2043 :: cenum_decl where
  "enumdecl_line_2043 = EnumDecl False [
     (''ETHTOOL_A_CABLE_TDR_NEST_UNSPEC'', 0), (''ETHTOOL_A_CABLE_TDR_NEST_STEP'', 1),
     (''ETHTOOL_A_CABLE_TDR_NEST_AMPLITUDE'', 2), (''ETHTOOL_A_CABLE_TDR_NEST_PULSE'', 3),
     (''__ETHTOOL_A_CABLE_TDR_NEST_CNT'', 4), (''ETHTOOL_A_CABLE_TDR_NEST_MAX'', 3)]"

definition enumdecl_line_2052 :: cenum_decl where
  "enumdecl_line_2052 = EnumDecl False [
     (''ETHTOOL_A_CABLE_TEST_NTF_STATUS_UNSPEC'', 0),
     (''ETHTOOL_A_CABLE_TEST_NTF_STATUS_STARTED'', 1),
     (''ETHTOOL_A_CABLE_TEST_NTF_STATUS_COMPLETED'', 2)]"

definition enumdecl_line_2058 :: cenum_decl where
  "enumdecl_line_2058 = EnumDecl False [
     (''ETHTOOL_A_CABLE_TEST_NTF_UNSPEC'', 0), (''ETHTOOL_A_CABLE_TEST_NTF_HEADER'', 1),
     (''ETHTOOL_A_CABLE_TEST_NTF_STATUS'', 2), (''ETHTOOL_A_CABLE_TEST_NTF_NEST'', 3),
     (''__ETHTOOL_A_CABLE_TEST_NTF_CNT'', 4), (''ETHTOOL_A_CABLE_TEST_NTF_MAX'', 3)]"

definition enumdecl_line_2067 :: cenum_decl where
  "enumdecl_line_2067 = EnumDecl False [
     (''ETHTOOL_A_CABLE_TEST_TDR_CFG_UNSPEC'', 0), (''ETHTOOL_A_CABLE_TEST_TDR_CFG_FIRST'', 1),
     (''ETHTOOL_A_CABLE_TEST_TDR_CFG_LAST'', 2), (''ETHTOOL_A_CABLE_TEST_TDR_CFG_STEP'', 3),
     (''ETHTOOL_A_CABLE_TEST_TDR_CFG_PAIR'', 4), (''__ETHTOOL_A_CABLE_TEST_TDR_CFG_CNT'', 5),
     (''ETHTOOL_A_CABLE_TEST_TDR_CFG_MAX'', 4)]"

definition enumdecl_line_2077 :: cenum_decl where
  "enumdecl_line_2077 = EnumDecl False [
     (''ETHTOOL_A_CABLE_TEST_TDR_UNSPEC'', 0), (''ETHTOOL_A_CABLE_TEST_TDR_HEADER'', 1),
     (''ETHTOOL_A_CABLE_TEST_TDR_CFG'', 2), (''__ETHTOOL_A_CABLE_TEST_TDR_CNT'', 3),
     (''ETHTOOL_A_CABLE_TEST_TDR_MAX'', 2)]"

definition enumdecl_line_2085 :: cenum_decl where
  "enumdecl_line_2085 = EnumDecl False [
     (''ETHTOOL_A_CABLE_TEST_UNSPEC'', 0), (''ETHTOOL_A_CABLE_TEST_HEADER'', 1),
     (''__ETHTOOL_A_CABLE_TEST_CNT'', 2), (''ETHTOOL_A_CABLE_TEST_MAX'', 1)]"

definition enumdecl_line_2092 :: cenum_decl where
  "enumdecl_line_2092 = EnumDecl False [
     (''ETHTOOL_A_CHANNELS_UNSPEC'', 0), (''ETHTOOL_A_CHANNELS_HEADER'', 1),
     (''ETHTOOL_A_CHANNELS_RX_MAX'', 2), (''ETHTOOL_A_CHANNELS_TX_MAX'', 3),
     (''ETHTOOL_A_CHANNELS_OTHER_MAX'', 4), (''ETHTOOL_A_CHANNELS_COMBINED_MAX'', 5),
     (''ETHTOOL_A_CHANNELS_RX_COUNT'', 6), (''ETHTOOL_A_CHANNELS_TX_COUNT'', 7),
     (''ETHTOOL_A_CHANNELS_OTHER_COUNT'', 8), (''ETHTOOL_A_CHANNELS_COMBINED_COUNT'', 9),
     (''__ETHTOOL_A_CHANNELS_CNT'', 10), (''ETHTOOL_A_CHANNELS_MAX'', 9)]"

definition enumdecl_line_2107 :: cenum_decl where
  "enumdecl_line_2107 = EnumDecl False [
     (''ETHTOOL_A_COALESCE_UNSPEC'', 0), (''ETHTOOL_A_COALESCE_HEADER'', 1),
     (''ETHTOOL_A_COALESCE_RX_USECS'', 2), (''ETHTOOL_A_COALESCE_RX_MAX_FRAMES'', 3),
     (''ETHTOOL_A_COALESCE_RX_USECS_IRQ'', 4), (''ETHTOOL_A_COALESCE_RX_MAX_FRAMES_IRQ'', 5),
     (''ETHTOOL_A_COALESCE_TX_USECS'', 6), (''ETHTOOL_A_COALESCE_TX_MAX_FRAMES'', 7),
     (''ETHTOOL_A_COALESCE_TX_USECS_IRQ'', 8), (''ETHTOOL_A_COALESCE_TX_MAX_FRAMES_IRQ'', 9),
     (''ETHTOOL_A_COALESCE_STATS_BLOCK_USECS'', 10),
     (''ETHTOOL_A_COALESCE_USE_ADAPTIVE_RX'', 11), (''ETHTOOL_A_COALESCE_USE_ADAPTIVE_TX'', 12),
     (''ETHTOOL_A_COALESCE_PKT_RATE_LOW'', 13), (''ETHTOOL_A_COALESCE_RX_USECS_LOW'', 14),
     (''ETHTOOL_A_COALESCE_RX_MAX_FRAMES_LOW'', 15), (''ETHTOOL_A_COALESCE_TX_USECS_LOW'', 16),
     (''ETHTOOL_A_COALESCE_TX_MAX_FRAMES_LOW'', 17), (''ETHTOOL_A_COALESCE_PKT_RATE_HIGH'', 18),
     (''ETHTOOL_A_COALESCE_RX_USECS_HIGH'', 19), (''ETHTOOL_A_COALESCE_RX_MAX_FRAMES_HIGH'', 20),
     (''ETHTOOL_A_COALESCE_TX_USECS_HIGH'', 21), (''ETHTOOL_A_COALESCE_TX_MAX_FRAMES_HIGH'', 22),
     (''ETHTOOL_A_COALESCE_RATE_SAMPLE_INTERVAL'', 23),
     (''ETHTOOL_A_COALESCE_USE_CQE_MODE_TX'', 24), (''ETHTOOL_A_COALESCE_USE_CQE_MODE_RX'', 25),
     (''ETHTOOL_A_COALESCE_TX_AGGR_MAX_BYTES'', 26),
     (''ETHTOOL_A_COALESCE_TX_AGGR_MAX_FRAMES'', 27),
     (''ETHTOOL_A_COALESCE_TX_AGGR_TIME_USECS'', 28), (''ETHTOOL_A_COALESCE_RX_PROFILE'', 29),
     (''ETHTOOL_A_COALESCE_TX_PROFILE'', 30), (''__ETHTOOL_A_COALESCE_CNT'', 31),
     (''ETHTOOL_A_COALESCE_MAX'', 30)]"

definition enumdecl_line_2143 :: cenum_decl where
  "enumdecl_line_2143 = EnumDecl False [
     (''ETHTOOL_A_DEBUG_UNSPEC'', 0), (''ETHTOOL_A_DEBUG_HEADER'', 1),
     (''ETHTOOL_A_DEBUG_MSGMASK'', 2), (''__ETHTOOL_A_DEBUG_CNT'', 3),
     (''ETHTOOL_A_DEBUG_MAX'', 2)]"

definition enumdecl_line_2151 :: cenum_decl where
  "enumdecl_line_2151 = EnumDecl False [
     (''ETHTOOL_A_EEE_UNSPEC'', 0), (''ETHTOOL_A_EEE_HEADER'', 1),
     (''ETHTOOL_A_EEE_MODES_OURS'', 2), (''ETHTOOL_A_EEE_MODES_PEER'', 3),
     (''ETHTOOL_A_EEE_ACTIVE'', 4), (''ETHTOOL_A_EEE_ENABLED'', 5),
     (''ETHTOOL_A_EEE_TX_LPI_ENABLED'', 6), (''ETHTOOL_A_EEE_TX_LPI_TIMER'', 7),
     (''__ETHTOOL_A_EEE_CNT'', 8), (''ETHTOOL_A_EEE_MAX'', 7)]"

definition enumdecl_line_2164 :: cenum_decl where
  "enumdecl_line_2164 = EnumDecl False [
     (''ETHTOOL_A_FEATURES_UNSPEC'', 0), (''ETHTOOL_A_FEATURES_HEADER'', 1),
     (''ETHTOOL_A_FEATURES_HW'', 2), (''ETHTOOL_A_FEATURES_WANTED'', 3),
     (''ETHTOOL_A_FEATURES_ACTIVE'', 4), (''ETHTOOL_A_FEATURES_NOCHANGE'', 5),
     (''__ETHTOOL_A_FEATURES_CNT'', 6), (''ETHTOOL_A_FEATURES_MAX'', 5)]"

definition enumdecl_line_2175 :: cenum_decl where
  "enumdecl_line_2175 = EnumDecl False [
     (''ETHTOOL_A_FEC_HIST_PAD'', 1), (''ETHTOOL_A_FEC_HIST_BIN_LOW'', 2),
     (''ETHTOOL_A_FEC_HIST_BIN_HIGH'', 3), (''ETHTOOL_A_FEC_HIST_BIN_VAL'', 4),
     (''ETHTOOL_A_FEC_HIST_BIN_VAL_PER_LANE'', 5), (''__ETHTOOL_A_FEC_HIST_CNT'', 6),
     (''ETHTOOL_A_FEC_HIST_MAX'', 5)]"

definition enumdecl_line_2185 :: cenum_decl where
  "enumdecl_line_2185 = EnumDecl False [
     (''ETHTOOL_A_FEC_STAT_UNSPEC'', 0), (''ETHTOOL_A_FEC_STAT_PAD'', 1),
     (''ETHTOOL_A_FEC_STAT_CORRECTED'', 2), (''ETHTOOL_A_FEC_STAT_UNCORR'', 3),
     (''ETHTOOL_A_FEC_STAT_CORR_BITS'', 4), (''ETHTOOL_A_FEC_STAT_HIST'', 5),
     (''__ETHTOOL_A_FEC_STAT_CNT'', 6), (''ETHTOOL_A_FEC_STAT_MAX'', 5)]"

definition enumdecl_line_2196 :: cenum_decl where
  "enumdecl_line_2196 = EnumDecl False [
     (''ETHTOOL_A_FEC_UNSPEC'', 0), (''ETHTOOL_A_FEC_HEADER'', 1), (''ETHTOOL_A_FEC_MODES'', 2),
     (''ETHTOOL_A_FEC_AUTO'', 3), (''ETHTOOL_A_FEC_ACTIVE'', 4), (''ETHTOOL_A_FEC_STATS'', 5),
     (''__ETHTOOL_A_FEC_CNT'', 6), (''ETHTOOL_A_FEC_MAX'', 5)]"

definition enumdecl_line_2207 :: cenum_decl where
  "enumdecl_line_2207 = EnumDecl False [
     (''ETHTOOL_A_FLOW_ETHER'', 1), (''ETHTOOL_A_FLOW_IP4'', 2), (''ETHTOOL_A_FLOW_IP6'', 3),
     (''ETHTOOL_A_FLOW_TCP4'', 4), (''ETHTOOL_A_FLOW_TCP6'', 5), (''ETHTOOL_A_FLOW_UDP4'', 6),
     (''ETHTOOL_A_FLOW_UDP6'', 7), (''ETHTOOL_A_FLOW_SCTP4'', 8), (''ETHTOOL_A_FLOW_SCTP6'', 9),
     (''ETHTOOL_A_FLOW_AH4'', 10), (''ETHTOOL_A_FLOW_AH6'', 11), (''ETHTOOL_A_FLOW_ESP4'', 12),
     (''ETHTOOL_A_FLOW_ESP6'', 13), (''ETHTOOL_A_FLOW_AH_ESP4'', 14),
     (''ETHTOOL_A_FLOW_AH_ESP6'', 15), (''ETHTOOL_A_FLOW_GTPU4'', 16),
     (''ETHTOOL_A_FLOW_GTPU6'', 17), (''ETHTOOL_A_FLOW_GTPC4'', 18),
     (''ETHTOOL_A_FLOW_GTPC6'', 19), (''ETHTOOL_A_FLOW_GTPC_TEID4'', 20),
     (''ETHTOOL_A_FLOW_GTPC_TEID6'', 21), (''ETHTOOL_A_FLOW_GTPU_EH4'', 22),
     (''ETHTOOL_A_FLOW_GTPU_EH6'', 23), (''ETHTOOL_A_FLOW_GTPU_UL4'', 24),
     (''ETHTOOL_A_FLOW_GTPU_UL6'', 25), (''ETHTOOL_A_FLOW_GTPU_DL4'', 26),
     (''ETHTOOL_A_FLOW_GTPU_DL6'', 27), (''__ETHTOOL_A_FLOW_CNT'', 28),
     (''ETHTOOL_A_FLOW_MAX'', 27)]"

definition enumdecl_line_2239 :: cenum_decl where
  "enumdecl_line_2239 = EnumDecl False [
     (''ETHTOOL_A_HEADER_UNSPEC'', 0), (''ETHTOOL_A_HEADER_DEV_INDEX'', 1),
     (''ETHTOOL_A_HEADER_DEV_NAME'', 2), (''ETHTOOL_A_HEADER_FLAGS'', 3),
     (''ETHTOOL_A_HEADER_PHY_INDEX'', 4), (''__ETHTOOL_A_HEADER_CNT'', 5),
     (''ETHTOOL_A_HEADER_MAX'', 4)]"

definition enumdecl_line_2249 :: cenum_decl where
  "enumdecl_line_2249 = EnumDecl False [
     (''ETHTOOL_A_IRQ_MODERATION_UNSPEC'', 0), (''ETHTOOL_A_IRQ_MODERATION_USEC'', 1),
     (''ETHTOOL_A_IRQ_MODERATION_PKTS'', 2), (''ETHTOOL_A_IRQ_MODERATION_COMPS'', 3),
     (''__ETHTOOL_A_IRQ_MODERATION_CNT'', 4), (''ETHTOOL_A_IRQ_MODERATION_MAX'', 3)]"

definition enumdecl_line_2258 :: cenum_decl where
  "enumdecl_line_2258 = EnumDecl False [
     (''ETHTOOL_A_LINKINFO_UNSPEC'', 0), (''ETHTOOL_A_LINKINFO_HEADER'', 1),
     (''ETHTOOL_A_LINKINFO_PORT'', 2), (''ETHTOOL_A_LINKINFO_PHYADDR'', 3),
     (''ETHTOOL_A_LINKINFO_TP_MDIX'', 4), (''ETHTOOL_A_LINKINFO_TP_MDIX_CTRL'', 5),
     (''ETHTOOL_A_LINKINFO_TRANSCEIVER'', 6), (''__ETHTOOL_A_LINKINFO_CNT'', 7),
     (''ETHTOOL_A_LINKINFO_MAX'', 6)]"

definition enumdecl_line_2270 :: cenum_decl where
  "enumdecl_line_2270 = EnumDecl False [
     (''ETHTOOL_A_LINKMODES_UNSPEC'', 0), (''ETHTOOL_A_LINKMODES_HEADER'', 1),
     (''ETHTOOL_A_LINKMODES_AUTONEG'', 2), (''ETHTOOL_A_LINKMODES_OURS'', 3),
     (''ETHTOOL_A_LINKMODES_PEER'', 4), (''ETHTOOL_A_LINKMODES_SPEED'', 5),
     (''ETHTOOL_A_LINKMODES_DUPLEX'', 6), (''ETHTOOL_A_LINKMODES_MASTER_SLAVE_CFG'', 7),
     (''ETHTOOL_A_LINKMODES_MASTER_SLAVE_STATE'', 8), (''ETHTOOL_A_LINKMODES_LANES'', 9),
     (''ETHTOOL_A_LINKMODES_RATE_MATCHING'', 10), (''__ETHTOOL_A_LINKMODES_CNT'', 11),
     (''ETHTOOL_A_LINKMODES_MAX'', 10)]"

definition enumdecl_line_2286 :: cenum_decl where
  "enumdecl_line_2286 = EnumDecl False [
     (''ETHTOOL_A_LINKSTATE_UNSPEC'', 0), (''ETHTOOL_A_LINKSTATE_HEADER'', 1),
     (''ETHTOOL_A_LINKSTATE_LINK'', 2), (''ETHTOOL_A_LINKSTATE_SQI'', 3),
     (''ETHTOOL_A_LINKSTATE_SQI_MAX'', 4), (''ETHTOOL_A_LINKSTATE_EXT_STATE'', 5),
     (''ETHTOOL_A_LINKSTATE_EXT_SUBSTATE'', 6), (''ETHTOOL_A_LINKSTATE_EXT_DOWN_CNT'', 7),
     (''__ETHTOOL_A_LINKSTATE_CNT'', 8), (''ETHTOOL_A_LINKSTATE_MAX'', 7)]"

definition enumdecl_line_2299 :: cenum_decl where
  "enumdecl_line_2299 = EnumDecl False [
     (''ETHTOOL_A_MM_STAT_UNSPEC'', 0), (''ETHTOOL_A_MM_STAT_PAD'', 1),
     (''ETHTOOL_A_MM_STAT_REASSEMBLY_ERRORS'', 2), (''ETHTOOL_A_MM_STAT_SMD_ERRORS'', 3),
     (''ETHTOOL_A_MM_STAT_REASSEMBLY_OK'', 4), (''ETHTOOL_A_MM_STAT_RX_FRAG_COUNT'', 5),
     (''ETHTOOL_A_MM_STAT_TX_FRAG_COUNT'', 6), (''ETHTOOL_A_MM_STAT_HOLD_COUNT'', 7),
     (''__ETHTOOL_A_MM_STAT_CNT'', 8), (''ETHTOOL_A_MM_STAT_MAX'', 7)]"

definition enumdecl_line_2312 :: cenum_decl where
  "enumdecl_line_2312 = EnumDecl False [
     (''ETHTOOL_A_MM_UNSPEC'', 0), (''ETHTOOL_A_MM_HEADER'', 1),
     (''ETHTOOL_A_MM_PMAC_ENABLED'', 2), (''ETHTOOL_A_MM_TX_ENABLED'', 3),
     (''ETHTOOL_A_MM_TX_ACTIVE'', 4), (''ETHTOOL_A_MM_TX_MIN_FRAG_SIZE'', 5),
     (''ETHTOOL_A_MM_RX_MIN_FRAG_SIZE'', 6), (''ETHTOOL_A_MM_VERIFY_ENABLED'', 7),
     (''ETHTOOL_A_MM_VERIFY_STATUS'', 8), (''ETHTOOL_A_MM_VERIFY_TIME'', 9),
     (''ETHTOOL_A_MM_MAX_VERIFY_TIME'', 10), (''ETHTOOL_A_MM_STATS'', 11),
     (''__ETHTOOL_A_MM_CNT'', 12), (''ETHTOOL_A_MM_MAX'', 11)]"

definition enumdecl_line_2329 :: cenum_decl where
  "enumdecl_line_2329 = EnumDecl False [
     (''ETHTOOL_A_MODULE_EEPROM_UNSPEC'', 0), (''ETHTOOL_A_MODULE_EEPROM_HEADER'', 1),
     (''ETHTOOL_A_MODULE_EEPROM_OFFSET'', 2), (''ETHTOOL_A_MODULE_EEPROM_LENGTH'', 3),
     (''ETHTOOL_A_MODULE_EEPROM_PAGE'', 4), (''ETHTOOL_A_MODULE_EEPROM_BANK'', 5),
     (''ETHTOOL_A_MODULE_EEPROM_I2C_ADDRESS'', 6), (''ETHTOOL_A_MODULE_EEPROM_DATA'', 7),
     (''__ETHTOOL_A_MODULE_EEPROM_CNT'', 8), (''ETHTOOL_A_MODULE_EEPROM_MAX'', 7)]"

definition enumdecl_line_2342 :: cenum_decl where
  "enumdecl_line_2342 = EnumDecl False [
     (''ETHTOOL_A_MODULE_FW_FLASH_UNSPEC'', 0), (''ETHTOOL_A_MODULE_FW_FLASH_HEADER'', 1),
     (''ETHTOOL_A_MODULE_FW_FLASH_FILE_NAME'', 2), (''ETHTOOL_A_MODULE_FW_FLASH_PASSWORD'', 3),
     (''ETHTOOL_A_MODULE_FW_FLASH_STATUS'', 4), (''ETHTOOL_A_MODULE_FW_FLASH_STATUS_MSG'', 5),
     (''ETHTOOL_A_MODULE_FW_FLASH_DONE'', 6), (''ETHTOOL_A_MODULE_FW_FLASH_TOTAL'', 7),
     (''__ETHTOOL_A_MODULE_FW_FLASH_CNT'', 8), (''ETHTOOL_A_MODULE_FW_FLASH_MAX'', 7)]"

definition enumdecl_line_2355 :: cenum_decl where
  "enumdecl_line_2355 = EnumDecl False [
     (''ETHTOOL_A_MODULE_UNSPEC'', 0), (''ETHTOOL_A_MODULE_HEADER'', 1),
     (''ETHTOOL_A_MODULE_POWER_MODE_POLICY'', 2), (''ETHTOOL_A_MODULE_POWER_MODE'', 3),
     (''__ETHTOOL_A_MODULE_CNT'', 4), (''ETHTOOL_A_MODULE_MAX'', 3)]"

definition enumdecl_line_2364 :: cenum_decl where
  "enumdecl_line_2364 = EnumDecl False [
     (''ETHTOOL_A_MSE_CAPABILITIES_MAX_AVERAGE_MSE'', 1),
     (''ETHTOOL_A_MSE_CAPABILITIES_MAX_PEAK_MSE'', 2),
     (''ETHTOOL_A_MSE_CAPABILITIES_REFRESH_RATE_PS'', 3),
     (''ETHTOOL_A_MSE_CAPABILITIES_NUM_SYMBOLS'', 4), (''__ETHTOOL_A_MSE_CAPABILITIES_CNT'', 5),
     (''ETHTOOL_A_MSE_CAPABILITIES_MAX'', 4)]"

definition enumdecl_line_2373 :: cenum_decl where
  "enumdecl_line_2373 = EnumDecl False [
     (''ETHTOOL_A_MSE_HEADER'', 1), (''ETHTOOL_A_MSE_CAPABILITIES'', 2),
     (''ETHTOOL_A_MSE_CHANNEL_A'', 3), (''ETHTOOL_A_MSE_CHANNEL_B'', 4),
     (''ETHTOOL_A_MSE_CHANNEL_C'', 5), (''ETHTOOL_A_MSE_CHANNEL_D'', 6),
     (''ETHTOOL_A_MSE_WORST_CHANNEL'', 7), (''ETHTOOL_A_MSE_LINK'', 8),
     (''__ETHTOOL_A_MSE_CNT'', 9), (''ETHTOOL_A_MSE_MAX'', 8)]"

definition enumdecl_line_2386 :: cenum_decl where
  "enumdecl_line_2386 = EnumDecl False [
     (''ETHTOOL_A_MSE_SNAPSHOT_AVERAGE_MSE'', 1), (''ETHTOOL_A_MSE_SNAPSHOT_PEAK_MSE'', 2),
     (''ETHTOOL_A_MSE_SNAPSHOT_WORST_PEAK_MSE'', 3), (''__ETHTOOL_A_MSE_SNAPSHOT_CNT'', 4),
     (''ETHTOOL_A_MSE_SNAPSHOT_MAX'', 3)]"

definition enumdecl_line_2394 :: cenum_decl where
  "enumdecl_line_2394 = EnumDecl False [
     (''ETHTOOL_A_PAUSE_STAT_UNSPEC'', 0), (''ETHTOOL_A_PAUSE_STAT_PAD'', 1),
     (''ETHTOOL_A_PAUSE_STAT_TX_FRAMES'', 2), (''ETHTOOL_A_PAUSE_STAT_RX_FRAMES'', 3),
     (''__ETHTOOL_A_PAUSE_STAT_CNT'', 4), (''ETHTOOL_A_PAUSE_STAT_MAX'', 3)]"

definition enumdecl_line_2403 :: cenum_decl where
  "enumdecl_line_2403 = EnumDecl False [
     (''ETHTOOL_A_PAUSE_UNSPEC'', 0), (''ETHTOOL_A_PAUSE_HEADER'', 1),
     (''ETHTOOL_A_PAUSE_AUTONEG'', 2), (''ETHTOOL_A_PAUSE_RX'', 3), (''ETHTOOL_A_PAUSE_TX'', 4),
     (''ETHTOOL_A_PAUSE_STATS'', 5), (''ETHTOOL_A_PAUSE_STATS_SRC'', 6),
     (''__ETHTOOL_A_PAUSE_CNT'', 7), (''ETHTOOL_A_PAUSE_MAX'', 6)]"

definition enumdecl_line_2415 :: cenum_decl where
  "enumdecl_line_2415 = EnumDecl False [
     (''ETHTOOL_A_PHC_VCLOCKS_UNSPEC'', 0), (''ETHTOOL_A_PHC_VCLOCKS_HEADER'', 1),
     (''ETHTOOL_A_PHC_VCLOCKS_NUM'', 2), (''ETHTOOL_A_PHC_VCLOCKS_INDEX'', 3),
     (''__ETHTOOL_A_PHC_VCLOCKS_CNT'', 4), (''ETHTOOL_A_PHC_VCLOCKS_MAX'', 3)]"

definition enumdecl_line_2424 :: cenum_decl where
  "enumdecl_line_2424 = EnumDecl False [
     (''ETHTOOL_A_PHY_UNSPEC'', 0), (''ETHTOOL_A_PHY_HEADER'', 1), (''ETHTOOL_A_PHY_INDEX'', 2),
     (''ETHTOOL_A_PHY_DRVNAME'', 3), (''ETHTOOL_A_PHY_NAME'', 4),
     (''ETHTOOL_A_PHY_UPSTREAM_TYPE'', 5), (''ETHTOOL_A_PHY_UPSTREAM_INDEX'', 6),
     (''ETHTOOL_A_PHY_UPSTREAM_SFP_NAME'', 7), (''ETHTOOL_A_PHY_DOWNSTREAM_SFP_NAME'', 8),
     (''__ETHTOOL_A_PHY_CNT'', 9), (''ETHTOOL_A_PHY_MAX'', 8)]"

definition enumdecl_line_2438 :: cenum_decl where
  "enumdecl_line_2438 = EnumDecl False [
     (''ETHTOOL_A_PLCA_UNSPEC'', 0), (''ETHTOOL_A_PLCA_HEADER'', 1),
     (''ETHTOOL_A_PLCA_VERSION'', 2), (''ETHTOOL_A_PLCA_ENABLED'', 3),
     (''ETHTOOL_A_PLCA_STATUS'', 4), (''ETHTOOL_A_PLCA_NODE_CNT'', 5),
     (''ETHTOOL_A_PLCA_NODE_ID'', 6), (''ETHTOOL_A_PLCA_TO_TMR'', 7),
     (''ETHTOOL_A_PLCA_BURST_CNT'', 8), (''ETHTOOL_A_PLCA_BURST_TMR'', 9),
     (''__ETHTOOL_A_PLCA_CNT'', 10), (''ETHTOOL_A_PLCA_MAX'', 9)]"

definition enumdecl_line_2453 :: cenum_decl where
  "enumdecl_line_2453 = EnumDecl False [
     (''ETHTOOL_A_PRIVFLAGS_UNSPEC'', 0), (''ETHTOOL_A_PRIVFLAGS_HEADER'', 1),
     (''ETHTOOL_A_PRIVFLAGS_FLAGS'', 2), (''__ETHTOOL_A_PRIVFLAGS_CNT'', 3),
     (''ETHTOOL_A_PRIVFLAGS_MAX'', 2)]"

definition enumdecl_line_2461 :: cenum_decl where
  "enumdecl_line_2461 = EnumDecl False [
     (''ETHTOOL_A_PROFILE_UNSPEC'', 0), (''ETHTOOL_A_PROFILE_IRQ_MODERATION'', 1),
     (''__ETHTOOL_A_PROFILE_CNT'', 2), (''ETHTOOL_A_PROFILE_MAX'', 1)]"

definition enumdecl_line_2468 :: cenum_decl where
  "enumdecl_line_2468 = EnumDecl False [
     (''ETHTOOL_A_PSE_NTF_HEADER'', 1), (''ETHTOOL_A_PSE_NTF_EVENTS'', 2),
     (''__ETHTOOL_A_PSE_NTF_CNT'', 3), (''ETHTOOL_A_PSE_NTF_MAX'', 2)]"

definition enumdecl_line_2475 :: cenum_decl where
  "enumdecl_line_2475 = EnumDecl False [
     (''ETHTOOL_A_PSE_UNSPEC'', 0), (''ETHTOOL_A_PSE_HEADER'', 1),
     (''ETHTOOL_A_PODL_PSE_ADMIN_STATE'', 2), (''ETHTOOL_A_PODL_PSE_ADMIN_CONTROL'', 3),
     (''ETHTOOL_A_PODL_PSE_PW_D_STATUS'', 4), (''ETHTOOL_A_C33_PSE_ADMIN_STATE'', 5),
     (''ETHTOOL_A_C33_PSE_ADMIN_CONTROL'', 6), (''ETHTOOL_A_C33_PSE_PW_D_STATUS'', 7),
     (''ETHTOOL_A_C33_PSE_PW_CLASS'', 8), (''ETHTOOL_A_C33_PSE_ACTUAL_PW'', 9),
     (''ETHTOOL_A_C33_PSE_EXT_STATE'', 10), (''ETHTOOL_A_C33_PSE_EXT_SUBSTATE'', 11),
     (''ETHTOOL_A_C33_PSE_AVAIL_PW_LIMIT'', 12), (''ETHTOOL_A_C33_PSE_PW_LIMIT_RANGES'', 13),
     (''ETHTOOL_A_PSE_PW_D_ID'', 14), (''ETHTOOL_A_PSE_PRIO_MAX'', 15),
     (''ETHTOOL_A_PSE_PRIO'', 16), (''__ETHTOOL_A_PSE_CNT'', 17), (''ETHTOOL_A_PSE_MAX'', 16)]"

definition enumdecl_line_2497 :: cenum_decl where
  "enumdecl_line_2497 = EnumDecl False [
     (''ETHTOOL_A_RINGS_UNSPEC'', 0), (''ETHTOOL_A_RINGS_HEADER'', 1),
     (''ETHTOOL_A_RINGS_RX_MAX'', 2), (''ETHTOOL_A_RINGS_RX_MINI_MAX'', 3),
     (''ETHTOOL_A_RINGS_RX_JUMBO_MAX'', 4), (''ETHTOOL_A_RINGS_TX_MAX'', 5),
     (''ETHTOOL_A_RINGS_RX'', 6), (''ETHTOOL_A_RINGS_RX_MINI'', 7),
     (''ETHTOOL_A_RINGS_RX_JUMBO'', 8), (''ETHTOOL_A_RINGS_TX'', 9),
     (''ETHTOOL_A_RINGS_RX_BUF_LEN'', 10), (''ETHTOOL_A_RINGS_TCP_DATA_SPLIT'', 11),
     (''ETHTOOL_A_RINGS_CQE_SIZE'', 12), (''ETHTOOL_A_RINGS_TX_PUSH'', 13),
     (''ETHTOOL_A_RINGS_RX_PUSH'', 14), (''ETHTOOL_A_RINGS_TX_PUSH_BUF_LEN'', 15),
     (''ETHTOOL_A_RINGS_TX_PUSH_BUF_LEN_MAX'', 16), (''ETHTOOL_A_RINGS_HDS_THRESH'', 17),
     (''ETHTOOL_A_RINGS_HDS_THRESH_MAX'', 18), (''__ETHTOOL_A_RINGS_CNT'', 19),
     (''ETHTOOL_A_RINGS_MAX'', 18)]"

definition enumdecl_line_2521 :: cenum_decl where
  "enumdecl_line_2521 = EnumDecl False [
     (''ETHTOOL_A_RSS_UNSPEC'', 0), (''ETHTOOL_A_RSS_HEADER'', 1),
     (''ETHTOOL_A_RSS_CONTEXT'', 2), (''ETHTOOL_A_RSS_HFUNC'', 3), (''ETHTOOL_A_RSS_INDIR'', 4),
     (''ETHTOOL_A_RSS_HKEY'', 5), (''ETHTOOL_A_RSS_INPUT_XFRM'', 6),
     (''ETHTOOL_A_RSS_START_CONTEXT'', 7), (''ETHTOOL_A_RSS_FLOW_HASH'', 8),
     (''__ETHTOOL_A_RSS_CNT'', 9), (''ETHTOOL_A_RSS_MAX'', 8)]"

definition enumdecl_line_2535 :: cenum_decl where
  "enumdecl_line_2535 = EnumDecl False [
     (''ETHTOOL_A_STATS_ETH_CTRL_3_TX'', 0), (''ETHTOOL_A_STATS_ETH_CTRL_4_RX'', 1),
     (''ETHTOOL_A_STATS_ETH_CTRL_5_RX_UNSUP'', 2), (''__ETHTOOL_A_STATS_ETH_CTRL_CNT'', 3),
     (''ETHTOOL_A_STATS_ETH_CTRL_MAX'', 2)]"

definition enumdecl_line_2543 :: cenum_decl where
  "enumdecl_line_2543 = EnumDecl False [
     (''ETHTOOL_A_STATS_ETH_MAC_2_TX_PKT'', 0), (''ETHTOOL_A_STATS_ETH_MAC_3_SINGLE_COL'', 1),
     (''ETHTOOL_A_STATS_ETH_MAC_4_MULTI_COL'', 2), (''ETHTOOL_A_STATS_ETH_MAC_5_RX_PKT'', 3),
     (''ETHTOOL_A_STATS_ETH_MAC_6_FCS_ERR'', 4), (''ETHTOOL_A_STATS_ETH_MAC_7_ALIGN_ERR'', 5),
     (''ETHTOOL_A_STATS_ETH_MAC_8_TX_BYTES'', 6), (''ETHTOOL_A_STATS_ETH_MAC_9_TX_DEFER'', 7),
     (''ETHTOOL_A_STATS_ETH_MAC_10_LATE_COL'', 8), (''ETHTOOL_A_STATS_ETH_MAC_11_XS_COL'', 9),
     (''ETHTOOL_A_STATS_ETH_MAC_12_TX_INT_ERR'', 10),
     (''ETHTOOL_A_STATS_ETH_MAC_13_CS_ERR'', 11), (''ETHTOOL_A_STATS_ETH_MAC_14_RX_BYTES'', 12),
     (''ETHTOOL_A_STATS_ETH_MAC_15_RX_INT_ERR'', 13),
     (''ETHTOOL_A_STATS_ETH_MAC_18_TX_MCAST'', 14),
     (''ETHTOOL_A_STATS_ETH_MAC_19_TX_BCAST'', 15),
     (''ETHTOOL_A_STATS_ETH_MAC_20_XS_DEFER'', 16),
     (''ETHTOOL_A_STATS_ETH_MAC_21_RX_MCAST'', 17),
     (''ETHTOOL_A_STATS_ETH_MAC_22_RX_BCAST'', 18),
     (''ETHTOOL_A_STATS_ETH_MAC_23_IR_LEN_ERR'', 19),
     (''ETHTOOL_A_STATS_ETH_MAC_24_OOR_LEN'', 20),
     (''ETHTOOL_A_STATS_ETH_MAC_25_TOO_LONG_ERR'', 21), (''__ETHTOOL_A_STATS_ETH_MAC_CNT'', 22),
     (''ETHTOOL_A_STATS_ETH_MAC_MAX'', 21)]"

definition enumdecl_line_2570 :: cenum_decl where
  "enumdecl_line_2570 = EnumDecl False [
     (''ETHTOOL_A_STATS_ETH_PHY_5_SYM_ERR'', 0), (''__ETHTOOL_A_STATS_ETH_PHY_CNT'', 1),
     (''ETHTOOL_A_STATS_ETH_PHY_MAX'', 0)]"

definition enumdecl_line_2576 :: cenum_decl where
  "enumdecl_line_2576 = EnumDecl False [
     (''ETHTOOL_A_STATS_GRP_UNSPEC'', 0), (''ETHTOOL_A_STATS_GRP_PAD'', 1),
     (''ETHTOOL_A_STATS_GRP_ID'', 2), (''ETHTOOL_A_STATS_GRP_SS_ID'', 3),
     (''ETHTOOL_A_STATS_GRP_STAT'', 4), (''ETHTOOL_A_STATS_GRP_HIST_RX'', 5),
     (''ETHTOOL_A_STATS_GRP_HIST_TX'', 6), (''ETHTOOL_A_STATS_GRP_HIST_BKT_LOW'', 7),
     (''ETHTOOL_A_STATS_GRP_HIST_BKT_HI'', 8), (''ETHTOOL_A_STATS_GRP_HIST_VAL'', 9),
     (''__ETHTOOL_A_STATS_GRP_CNT'', 10), (''ETHTOOL_A_STATS_GRP_MAX'', 9)]"

definition enumdecl_line_2591 :: cenum_decl where
  "enumdecl_line_2591 = EnumDecl False [
     (''ETHTOOL_A_STATS_PHY_RX_PKTS'', 0), (''ETHTOOL_A_STATS_PHY_RX_BYTES'', 1),
     (''ETHTOOL_A_STATS_PHY_RX_ERRORS'', 2), (''ETHTOOL_A_STATS_PHY_TX_PKTS'', 3),
     (''ETHTOOL_A_STATS_PHY_TX_BYTES'', 4), (''ETHTOOL_A_STATS_PHY_TX_ERRORS'', 5),
     (''__ETHTOOL_A_STATS_PHY_CNT'', 6), (''ETHTOOL_A_STATS_PHY_MAX'', 5)]"

definition enumdecl_line_2602 :: cenum_decl where
  "enumdecl_line_2602 = EnumDecl False [
     (''ETHTOOL_A_STATS_RMON_UNDERSIZE'', 0), (''ETHTOOL_A_STATS_RMON_OVERSIZE'', 1),
     (''ETHTOOL_A_STATS_RMON_FRAG'', 2), (''ETHTOOL_A_STATS_RMON_JABBER'', 3),
     (''__ETHTOOL_A_STATS_RMON_CNT'', 4), (''ETHTOOL_A_STATS_RMON_MAX'', 3)]"

definition enumdecl_line_2611 :: cenum_decl where
  "enumdecl_line_2611 = EnumDecl False [
     (''ETHTOOL_A_STATS_UNSPEC'', 0), (''ETHTOOL_A_STATS_PAD'', 1),
     (''ETHTOOL_A_STATS_HEADER'', 2), (''ETHTOOL_A_STATS_GROUPS'', 3),
     (''ETHTOOL_A_STATS_GRP'', 4), (''ETHTOOL_A_STATS_SRC'', 5), (''__ETHTOOL_A_STATS_CNT'', 6),
     (''ETHTOOL_A_STATS_MAX'', 5)]"

definition enumdecl_line_2622 :: cenum_decl where
  "enumdecl_line_2622 = EnumDecl False [
     (''ETHTOOL_A_STRINGSETS_UNSPEC'', 0), (''ETHTOOL_A_STRINGSETS_STRINGSET'', 1),
     (''__ETHTOOL_A_STRINGSETS_CNT'', 2), (''ETHTOOL_A_STRINGSETS_MAX'', 1)]"

definition enumdecl_line_2629 :: cenum_decl where
  "enumdecl_line_2629 = EnumDecl False [
     (''ETHTOOL_A_STRINGSET_UNSPEC'', 0), (''ETHTOOL_A_STRINGSET_ID'', 1),
     (''ETHTOOL_A_STRINGSET_COUNT'', 2), (''ETHTOOL_A_STRINGSET_STRINGS'', 3),
     (''__ETHTOOL_A_STRINGSET_CNT'', 4), (''ETHTOOL_A_STRINGSET_MAX'', 3)]"

definition enumdecl_line_2638 :: cenum_decl where
  "enumdecl_line_2638 = EnumDecl False [
     (''ETHTOOL_A_STRINGS_UNSPEC'', 0), (''ETHTOOL_A_STRINGS_STRING'', 1),
     (''__ETHTOOL_A_STRINGS_CNT'', 2), (''ETHTOOL_A_STRINGS_MAX'', 1)]"

definition enumdecl_line_2645 :: cenum_decl where
  "enumdecl_line_2645 = EnumDecl False [
     (''ETHTOOL_A_STRING_UNSPEC'', 0), (''ETHTOOL_A_STRING_INDEX'', 1),
     (''ETHTOOL_A_STRING_VALUE'', 2), (''__ETHTOOL_A_STRING_CNT'', 3),
     (''ETHTOOL_A_STRING_MAX'', 2)]"

definition enumdecl_line_2653 :: cenum_decl where
  "enumdecl_line_2653 = EnumDecl False [
     (''ETHTOOL_A_STRSET_UNSPEC'', 0), (''ETHTOOL_A_STRSET_HEADER'', 1),
     (''ETHTOOL_A_STRSET_STRINGSETS'', 2), (''ETHTOOL_A_STRSET_COUNTS_ONLY'', 3),
     (''__ETHTOOL_A_STRSET_CNT'', 4), (''ETHTOOL_A_STRSET_MAX'', 3)]"

definition enumdecl_line_2662 :: cenum_decl where
  "enumdecl_line_2662 = EnumDecl False [
     (''ETHTOOL_A_TSCONFIG_UNSPEC'', 0), (''ETHTOOL_A_TSCONFIG_HEADER'', 1),
     (''ETHTOOL_A_TSCONFIG_HWTSTAMP_PROVIDER'', 2), (''ETHTOOL_A_TSCONFIG_TX_TYPES'', 3),
     (''ETHTOOL_A_TSCONFIG_RX_FILTERS'', 4), (''ETHTOOL_A_TSCONFIG_HWTSTAMP_FLAGS'', 5),
     (''__ETHTOOL_A_TSCONFIG_CNT'', 6), (''ETHTOOL_A_TSCONFIG_MAX'', 5)]"

definition enumdecl_line_2673 :: cenum_decl where
  "enumdecl_line_2673 = EnumDecl False [
     (''ETHTOOL_A_TSINFO_UNSPEC'', 0), (''ETHTOOL_A_TSINFO_HEADER'', 1),
     (''ETHTOOL_A_TSINFO_TIMESTAMPING'', 2), (''ETHTOOL_A_TSINFO_TX_TYPES'', 3),
     (''ETHTOOL_A_TSINFO_RX_FILTERS'', 4), (''ETHTOOL_A_TSINFO_PHC_INDEX'', 5),
     (''ETHTOOL_A_TSINFO_STATS'', 6), (''ETHTOOL_A_TSINFO_HWTSTAMP_PROVIDER'', 7),
     (''ETHTOOL_A_TSINFO_HWTSTAMP_SOURCE'', 8), (''ETHTOOL_A_TSINFO_HWTSTAMP_PHYINDEX'', 9),
     (''__ETHTOOL_A_TSINFO_CNT'', 10), (''ETHTOOL_A_TSINFO_MAX'', 9)]"

definition enumdecl_line_2688 :: cenum_decl where
  "enumdecl_line_2688 = EnumDecl False [
     (''ETHTOOL_A_TS_HWTSTAMP_PROVIDER_UNSPEC'', 0),
     (''ETHTOOL_A_TS_HWTSTAMP_PROVIDER_INDEX'', 1),
     (''ETHTOOL_A_TS_HWTSTAMP_PROVIDER_QUALIFIER'', 2),
     (''__ETHTOOL_A_TS_HWTSTAMP_PROVIDER_CNT'', 3), (''ETHTOOL_A_TS_HWTSTAMP_PROVIDER_MAX'', 2)]"

definition enumdecl_line_2696 :: cenum_decl where
  "enumdecl_line_2696 = EnumDecl False [
     (''ETHTOOL_A_TS_STAT_UNSPEC'', 0), (''ETHTOOL_A_TS_STAT_TX_PKTS'', 1),
     (''ETHTOOL_A_TS_STAT_TX_LOST'', 2), (''ETHTOOL_A_TS_STAT_TX_ERR'', 3),
     (''ETHTOOL_A_TS_STAT_TX_ONESTEP_PKTS_UNCONFIRMED'', 4), (''__ETHTOOL_A_TS_STAT_CNT'', 5),
     (''ETHTOOL_A_TS_STAT_MAX'', 4)]"

definition enumdecl_line_2706 :: cenum_decl where
  "enumdecl_line_2706 = EnumDecl False [
     (''ETHTOOL_A_TUNNEL_INFO_UNSPEC'', 0), (''ETHTOOL_A_TUNNEL_INFO_HEADER'', 1),
     (''ETHTOOL_A_TUNNEL_INFO_UDP_PORTS'', 2), (''__ETHTOOL_A_TUNNEL_INFO_CNT'', 3),
     (''ETHTOOL_A_TUNNEL_INFO_MAX'', 2)]"

definition enumdecl_line_2714 :: cenum_decl where
  "enumdecl_line_2714 = EnumDecl False [
     (''ETHTOOL_A_TUNNEL_UDP_ENTRY_UNSPEC'', 0), (''ETHTOOL_A_TUNNEL_UDP_ENTRY_PORT'', 1),
     (''ETHTOOL_A_TUNNEL_UDP_ENTRY_TYPE'', 2), (''__ETHTOOL_A_TUNNEL_UDP_ENTRY_CNT'', 3),
     (''ETHTOOL_A_TUNNEL_UDP_ENTRY_MAX'', 2)]"

definition enumdecl_line_2722 :: cenum_decl where
  "enumdecl_line_2722 = EnumDecl False [
     (''ETHTOOL_A_TUNNEL_UDP_TABLE_UNSPEC'', 0), (''ETHTOOL_A_TUNNEL_UDP_TABLE_SIZE'', 1),
     (''ETHTOOL_A_TUNNEL_UDP_TABLE_TYPES'', 2), (''ETHTOOL_A_TUNNEL_UDP_TABLE_ENTRY'', 3),
     (''__ETHTOOL_A_TUNNEL_UDP_TABLE_CNT'', 4), (''ETHTOOL_A_TUNNEL_UDP_TABLE_MAX'', 3)]"

definition enumdecl_line_2731 :: cenum_decl where
  "enumdecl_line_2731 = EnumDecl False [
     (''ETHTOOL_A_TUNNEL_UDP_UNSPEC'', 0), (''ETHTOOL_A_TUNNEL_UDP_TABLE'', 1),
     (''__ETHTOOL_A_TUNNEL_UDP_CNT'', 2), (''ETHTOOL_A_TUNNEL_UDP_MAX'', 1)]"

definition enumdecl_line_2738 :: cenum_decl where
  "enumdecl_line_2738 = EnumDecl False [
     (''ETHTOOL_A_WOL_UNSPEC'', 0), (''ETHTOOL_A_WOL_HEADER'', 1), (''ETHTOOL_A_WOL_MODES'', 2),
     (''ETHTOOL_A_WOL_SOPASS'', 3), (''__ETHTOOL_A_WOL_CNT'', 4), (''ETHTOOL_A_WOL_MAX'', 3)]"

definition enumdecl_line_2747 :: cenum_decl where
  "enumdecl_line_2747 = EnumDecl False [
     (''ETHTOOL_MSG_KERNEL_NONE'', 0), (''ETHTOOL_MSG_STRSET_GET_REPLY'', 1),
     (''ETHTOOL_MSG_LINKINFO_GET_REPLY'', 2), (''ETHTOOL_MSG_LINKINFO_NTF'', 3),
     (''ETHTOOL_MSG_LINKMODES_GET_REPLY'', 4), (''ETHTOOL_MSG_LINKMODES_NTF'', 5),
     (''ETHTOOL_MSG_LINKSTATE_GET_REPLY'', 6), (''ETHTOOL_MSG_DEBUG_GET_REPLY'', 7),
     (''ETHTOOL_MSG_DEBUG_NTF'', 8), (''ETHTOOL_MSG_WOL_GET_REPLY'', 9),
     (''ETHTOOL_MSG_WOL_NTF'', 10), (''ETHTOOL_MSG_FEATURES_GET_REPLY'', 11),
     (''ETHTOOL_MSG_FEATURES_SET_REPLY'', 12), (''ETHTOOL_MSG_FEATURES_NTF'', 13),
     (''ETHTOOL_MSG_PRIVFLAGS_GET_REPLY'', 14), (''ETHTOOL_MSG_PRIVFLAGS_NTF'', 15),
     (''ETHTOOL_MSG_RINGS_GET_REPLY'', 16), (''ETHTOOL_MSG_RINGS_NTF'', 17),
     (''ETHTOOL_MSG_CHANNELS_GET_REPLY'', 18), (''ETHTOOL_MSG_CHANNELS_NTF'', 19),
     (''ETHTOOL_MSG_COALESCE_GET_REPLY'', 20), (''ETHTOOL_MSG_COALESCE_NTF'', 21),
     (''ETHTOOL_MSG_PAUSE_GET_REPLY'', 22), (''ETHTOOL_MSG_PAUSE_NTF'', 23),
     (''ETHTOOL_MSG_EEE_GET_REPLY'', 24), (''ETHTOOL_MSG_EEE_NTF'', 25),
     (''ETHTOOL_MSG_TSINFO_GET_REPLY'', 26), (''ETHTOOL_MSG_CABLE_TEST_NTF'', 27),
     (''ETHTOOL_MSG_CABLE_TEST_TDR_NTF'', 28), (''ETHTOOL_MSG_TUNNEL_INFO_GET_REPLY'', 29),
     (''ETHTOOL_MSG_FEC_GET_REPLY'', 30), (''ETHTOOL_MSG_FEC_NTF'', 31),
     (''ETHTOOL_MSG_MODULE_EEPROM_GET_REPLY'', 32), (''ETHTOOL_MSG_STATS_GET_REPLY'', 33),
     (''ETHTOOL_MSG_PHC_VCLOCKS_GET_REPLY'', 34), (''ETHTOOL_MSG_MODULE_GET_REPLY'', 35),
     (''ETHTOOL_MSG_MODULE_NTF'', 36), (''ETHTOOL_MSG_PSE_GET_REPLY'', 37),
     (''ETHTOOL_MSG_RSS_GET_REPLY'', 38), (''ETHTOOL_MSG_PLCA_GET_CFG_REPLY'', 39),
     (''ETHTOOL_MSG_PLCA_GET_STATUS_REPLY'', 40), (''ETHTOOL_MSG_PLCA_NTF'', 41),
     (''ETHTOOL_MSG_MM_GET_REPLY'', 42), (''ETHTOOL_MSG_MM_NTF'', 43),
     (''ETHTOOL_MSG_MODULE_FW_FLASH_NTF'', 44), (''ETHTOOL_MSG_PHY_GET_REPLY'', 45),
     (''ETHTOOL_MSG_PHY_NTF'', 46), (''ETHTOOL_MSG_TSCONFIG_GET_REPLY'', 47),
     (''ETHTOOL_MSG_TSCONFIG_SET_REPLY'', 48), (''ETHTOOL_MSG_PSE_NTF'', 49),
     (''ETHTOOL_MSG_RSS_NTF'', 50), (''ETHTOOL_MSG_RSS_CREATE_ACT_REPLY'', 51),
     (''ETHTOOL_MSG_RSS_CREATE_NTF'', 52), (''ETHTOOL_MSG_RSS_DELETE_NTF'', 53),
     (''ETHTOOL_MSG_MSE_GET_REPLY'', 54), (''__ETHTOOL_MSG_KERNEL_CNT'', 55),
     (''ETHTOOL_MSG_KERNEL_MAX'', 54)]"

definition enumdecl_line_2807 :: cenum_decl where
  "enumdecl_line_2807 = EnumDecl False [
     (''ETHTOOL_MSG_USER_NONE'', 0), (''ETHTOOL_MSG_STRSET_GET'', 1),
     (''ETHTOOL_MSG_LINKINFO_GET'', 2), (''ETHTOOL_MSG_LINKINFO_SET'', 3),
     (''ETHTOOL_MSG_LINKMODES_GET'', 4), (''ETHTOOL_MSG_LINKMODES_SET'', 5),
     (''ETHTOOL_MSG_LINKSTATE_GET'', 6), (''ETHTOOL_MSG_DEBUG_GET'', 7),
     (''ETHTOOL_MSG_DEBUG_SET'', 8), (''ETHTOOL_MSG_WOL_GET'', 9), (''ETHTOOL_MSG_WOL_SET'', 10),
     (''ETHTOOL_MSG_FEATURES_GET'', 11), (''ETHTOOL_MSG_FEATURES_SET'', 12),
     (''ETHTOOL_MSG_PRIVFLAGS_GET'', 13), (''ETHTOOL_MSG_PRIVFLAGS_SET'', 14),
     (''ETHTOOL_MSG_RINGS_GET'', 15), (''ETHTOOL_MSG_RINGS_SET'', 16),
     (''ETHTOOL_MSG_CHANNELS_GET'', 17), (''ETHTOOL_MSG_CHANNELS_SET'', 18),
     (''ETHTOOL_MSG_COALESCE_GET'', 19), (''ETHTOOL_MSG_COALESCE_SET'', 20),
     (''ETHTOOL_MSG_PAUSE_GET'', 21), (''ETHTOOL_MSG_PAUSE_SET'', 22),
     (''ETHTOOL_MSG_EEE_GET'', 23), (''ETHTOOL_MSG_EEE_SET'', 24),
     (''ETHTOOL_MSG_TSINFO_GET'', 25), (''ETHTOOL_MSG_CABLE_TEST_ACT'', 26),
     (''ETHTOOL_MSG_CABLE_TEST_TDR_ACT'', 27), (''ETHTOOL_MSG_TUNNEL_INFO_GET'', 28),
     (''ETHTOOL_MSG_FEC_GET'', 29), (''ETHTOOL_MSG_FEC_SET'', 30),
     (''ETHTOOL_MSG_MODULE_EEPROM_GET'', 31), (''ETHTOOL_MSG_STATS_GET'', 32),
     (''ETHTOOL_MSG_PHC_VCLOCKS_GET'', 33), (''ETHTOOL_MSG_MODULE_GET'', 34),
     (''ETHTOOL_MSG_MODULE_SET'', 35), (''ETHTOOL_MSG_PSE_GET'', 36),
     (''ETHTOOL_MSG_PSE_SET'', 37), (''ETHTOOL_MSG_RSS_GET'', 38),
     (''ETHTOOL_MSG_PLCA_GET_CFG'', 39), (''ETHTOOL_MSG_PLCA_SET_CFG'', 40),
     (''ETHTOOL_MSG_PLCA_GET_STATUS'', 41), (''ETHTOOL_MSG_MM_GET'', 42),
     (''ETHTOOL_MSG_MM_SET'', 43), (''ETHTOOL_MSG_MODULE_FW_FLASH_ACT'', 44),
     (''ETHTOOL_MSG_PHY_GET'', 45), (''ETHTOOL_MSG_TSCONFIG_GET'', 46),
     (''ETHTOOL_MSG_TSCONFIG_SET'', 47), (''ETHTOOL_MSG_RSS_SET'', 48),
     (''ETHTOOL_MSG_RSS_CREATE_ACT'', 49), (''ETHTOOL_MSG_RSS_DELETE_ACT'', 50),
     (''ETHTOOL_MSG_MSE_GET'', 51), (''__ETHTOOL_MSG_USER_CNT'', 52),
     (''ETHTOOL_MSG_USER_MAX'', 51)]"

definition enumdecl_line_2864 :: cenum_decl where
  "enumdecl_line_2864 = EnumDecl False [
     (''ETHTOOL_STATS_ETH_PHY'', 0), (''ETHTOOL_STATS_ETH_MAC'', 1),
     (''ETHTOOL_STATS_ETH_CTRL'', 2), (''ETHTOOL_STATS_RMON'', 3), (''ETHTOOL_STATS_PHY'', 4),
     (''__ETHTOOL_STATS_CNT'', 5)]"

definition enumdecl_line_2873 :: cenum_decl where
  "enumdecl_line_2873 = EnumDecl False [
     (''ETHTOOL_UDP_TUNNEL_TYPE_VXLAN'', 0), (''ETHTOOL_UDP_TUNNEL_TYPE_GENEVE'', 1),
     (''ETHTOOL_UDP_TUNNEL_TYPE_VXLAN_GPE'', 2), (''__ETHTOOL_UDP_TUNNEL_TYPE_CNT'', 3),
     (''ETHTOOL_UDP_TUNNEL_TYPE_MAX'', 2)]"

definition enumdecl_line_2881 :: cenum_decl where
  "enumdecl_line_2881 = EnumDecl False [
     (''ETH_RSS_HASH_TOP_BIT'', 0), (''ETH_RSS_HASH_XOR_BIT'', 1),
     (''ETH_RSS_HASH_CRC32_BIT'', 2), (''ETH_RSS_HASH_FUNCS_COUNT'', 3)]"

definition enumdecl_line_2888 :: cenum_decl where
  "enumdecl_line_2888 = EnumDecl False [
     (''EVENTFS_SAVE_MODE'', 65536), (''EVENTFS_SAVE_UID'', 131072),
     (''EVENTFS_SAVE_GID'', 262144)]"

definition enumdecl_line_2894 :: cenum_decl where
  "enumdecl_line_2894 = EnumDecl False [
     (''EVENT_FILE_FL_ENABLED'', 1), (''EVENT_FILE_FL_RECORDED_CMD'', 2),
     (''EVENT_FILE_FL_RECORDED_TGID'', 4), (''EVENT_FILE_FL_FILTERED'', 8),
     (''EVENT_FILE_FL_NO_SET_FILTER'', 16), (''EVENT_FILE_FL_SOFT_DISABLED'', 32),
     (''EVENT_FILE_FL_TRIGGER_MODE'', 64), (''EVENT_FILE_FL_TRIGGER_COND'', 128),
     (''EVENT_FILE_FL_PID_FILTER'', 256), (''EVENT_FILE_FL_WAS_ENABLED'', 512),
     (''EVENT_FILE_FL_FREED'', 1024)]"

definition enumdecl_line_2908 :: cenum_decl where
  "enumdecl_line_2908 = EnumDecl False [
     (''EVENT_FILE_FL_ENABLED_BIT'', 0), (''EVENT_FILE_FL_RECORDED_CMD_BIT'', 1),
     (''EVENT_FILE_FL_RECORDED_TGID_BIT'', 2), (''EVENT_FILE_FL_FILTERED_BIT'', 3),
     (''EVENT_FILE_FL_NO_SET_FILTER_BIT'', 4), (''EVENT_FILE_FL_SOFT_DISABLED_BIT'', 5),
     (''EVENT_FILE_FL_TRIGGER_MODE_BIT'', 6), (''EVENT_FILE_FL_TRIGGER_COND_BIT'', 7),
     (''EVENT_FILE_FL_PID_FILTER_BIT'', 8), (''EVENT_FILE_FL_WAS_ENABLED_BIT'', 9),
     (''EVENT_FILE_FL_FREED_BIT'', 10)]"

definition enumdecl_line_2922 :: cenum_decl where
  "enumdecl_line_2922 = EnumDecl False [
     (''EVENT_TRIGGER_FL_PROBE'', 1), (''EVENT_TRIGGER_FL_COUNT'', 2)]"

definition enumdecl_line_2927 :: cenum_decl where
  "enumdecl_line_2927 = EnumDecl False [
     (''EXPECT_SWBP'', 0), (''EXPECT_CALL'', 1)]"

definition enumdecl_line_2932 :: cenum_decl where
  "enumdecl_line_2932 = EnumDecl False [
     (''EXT4_FC_REASON_XATTR'', 0), (''EXT4_FC_REASON_CROSS_RENAME'', 1),
     (''EXT4_FC_REASON_JOURNAL_FLAG_CHANGE'', 2), (''EXT4_FC_REASON_NOMEM'', 3),
     (''EXT4_FC_REASON_SWAP_BOOT'', 4), (''EXT4_FC_REASON_RESIZE'', 5),
     (''EXT4_FC_REASON_RENAME_DIR'', 6), (''EXT4_FC_REASON_FALLOC_RANGE'', 7),
     (''EXT4_FC_REASON_INODE_JOURNAL_DATA'', 8), (''EXT4_FC_REASON_ENCRYPTED_FILENAME'', 9),
     (''EXT4_FC_REASON_MIGRATE'', 10), (''EXT4_FC_REASON_VERITY'', 11),
     (''EXT4_FC_REASON_MOVE_EXT'', 12), (''EXT4_FC_REASON_MAX'', 13)]"

definition enumdecl_line_2949 :: cenum_decl where
  "enumdecl_line_2949 = EnumDecl False [
     (''EXT4_FC_STATUS_OK'', 0), (''EXT4_FC_STATUS_INELIGIBLE'', 1),
     (''EXT4_FC_STATUS_SKIPPED'', 2), (''EXT4_FC_STATUS_FAILED'', 3)]"

definition enumdecl_line_2956 :: cenum_decl where
  "enumdecl_line_2956 = EnumDecl False [
     (''EXT4_FLAGS_RESIZING'', 0), (''EXT4_FLAGS_SHUTDOWN'', 1), (''EXT4_FLAGS_BDEV_IS_DAX'', 2),
     (''EXT4_FLAGS_EMERGENCY_RO'', 3)]"

definition enumdecl_line_2963 :: cenum_decl where
  "enumdecl_line_2963 = EnumDecl False [
     (''EXT4_INODE_SECRM'', 0), (''EXT4_INODE_UNRM'', 1), (''EXT4_INODE_COMPR'', 2),
     (''EXT4_INODE_SYNC'', 3), (''EXT4_INODE_IMMUTABLE'', 4), (''EXT4_INODE_APPEND'', 5),
     (''EXT4_INODE_NODUMP'', 6), (''EXT4_INODE_NOATIME'', 7), (''EXT4_INODE_DIRTY'', 8),
     (''EXT4_INODE_COMPRBLK'', 9), (''EXT4_INODE_NOCOMPR'', 10), (''EXT4_INODE_ENCRYPT'', 11),
     (''EXT4_INODE_INDEX'', 12), (''EXT4_INODE_IMAGIC'', 13), (''EXT4_INODE_JOURNAL_DATA'', 14),
     (''EXT4_INODE_NOTAIL'', 15), (''EXT4_INODE_DIRSYNC'', 16), (''EXT4_INODE_TOPDIR'', 17),
     (''EXT4_INODE_HUGE_FILE'', 18), (''EXT4_INODE_EXTENTS'', 19), (''EXT4_INODE_VERITY'', 20),
     (''EXT4_INODE_EA_INODE'', 21), (''EXT4_INODE_DAX'', 25), (''EXT4_INODE_INLINE_DATA'', 28),
     (''EXT4_INODE_PROJINHERIT'', 29), (''EXT4_INODE_CASEFOLD'', 30),
     (''EXT4_INODE_RESERVED'', 31)]"

definition enumdecl_line_2993 :: cenum_decl where
  "enumdecl_line_2993 = EnumDecl False [
     (''EXT4_MF_MNTDIR_SAMPLED'', 0), (''EXT4_MF_FC_INELIGIBLE'', 1),
     (''EXT4_MF_JOURNAL_DESTROY'', 2)]"

definition enumdecl_line_2999 :: cenum_decl where
  "enumdecl_line_2999 = EnumDecl False [
     (''EXT4_STATE_NEW'', 0), (''EXT4_STATE_XATTR'', 1), (''EXT4_STATE_NO_EXPAND'', 2),
     (''EXT4_STATE_DA_ALLOC_CLOSE'', 3), (''EXT4_STATE_EXT_MIGRATE'', 4),
     (''EXT4_STATE_NEWENTRY'', 5), (''EXT4_STATE_MAY_INLINE_DATA'', 6),
     (''EXT4_STATE_EXT_PRECACHED'', 7), (''EXT4_STATE_LUSTRE_EA_INODE'', 8),
     (''EXT4_STATE_VERITY_IN_PROGRESS'', 9), (''EXT4_STATE_FC_COMMITTING'', 10),
     (''EXT4_STATE_FC_FLUSHING_DATA'', 11), (''EXT4_STATE_ORPHAN_FILE'', 12)]"

definition enumdecl_line_3015 :: cenum_decl where
  "enumdecl_line_3015 = EnumDecl False [
     (''EXTRA_REG_NHMEX_M_FILTER'', 0), (''EXTRA_REG_NHMEX_M_DSP'', 1),
     (''EXTRA_REG_NHMEX_M_ISS'', 2), (''EXTRA_REG_NHMEX_M_MAP'', 3),
     (''EXTRA_REG_NHMEX_M_MSC_THR'', 4), (''EXTRA_REG_NHMEX_M_PGT'', 5),
     (''EXTRA_REG_NHMEX_M_PLD'', 6), (''EXTRA_REG_NHMEX_M_ZDP_CTL_FVC'', 7)]"

definition enumdecl_line_3026 :: cenum_decl where
  "enumdecl_line_3026 = EnumDecl False [
     (''FAN_EVENT_INIT'', 0), (''FAN_EVENT_REPORTED'', 1), (''FAN_EVENT_ANSWERED'', 2),
     (''FAN_EVENT_CANCELED'', 3)]"

definition enumdecl_line_3033 :: cenum_decl where
  "enumdecl_line_3033 = EnumDecl False [
     (''FAST_W_CNT'', 16)]"

definition enumdecl_line_3037 :: cenum_decl where
  "enumdecl_line_3037 = EnumDecl False [
     (''FBCON_LOGO_CANSHOW'', - 1), (''FBCON_LOGO_DRAW'', - 2), (''FBCON_LOGO_DONTSHOW'', - 3)]"

definition enumdecl_line_3043 :: cenum_decl where
  "enumdecl_line_3043 = EnumDecl False [
     (''FB_BLANK_UNBLANK'', 0), (''FB_BLANK_NORMAL'', 1), (''FB_BLANK_VSYNC_SUSPEND'', 2),
     (''FB_BLANK_HSYNC_SUSPEND'', 3), (''FB_BLANK_POWERDOWN'', 4)]"

definition enumdecl_line_3051 :: cenum_decl where
  "enumdecl_line_3051 = EnumDecl False [
     (''FGRAPH_TYPE_RESERVED'', 0), (''FGRAPH_TYPE_BITMAP'', 1), (''FGRAPH_TYPE_DATA'', 2)]"

definition enumdecl_line_3057 :: cenum_decl where
  "enumdecl_line_3057 = EnumDecl False [
     (''FIB6_NO_SERNUM_CHANGE'', 0)]"

definition enumdecl_line_3061 :: cenum_decl where
  "enumdecl_line_3061 = EnumDecl False [
     (''FILTER_OTHER'', 0), (''FILTER_STATIC_STRING'', 1), (''FILTER_DYN_STRING'', 2),
     (''FILTER_RDYN_STRING'', 3), (''FILTER_PTR_STRING'', 4), (''FILTER_TRACE_FN'', 5),
     (''FILTER_CPUMASK'', 6), (''FILTER_COMM'', 7), (''FILTER_CPU'', 8),
     (''FILTER_STACKTRACE'', 9)]"

definition enumdecl_line_3074 :: cenum_decl where
  "enumdecl_line_3074 = EnumDecl False [
     (''FILT_ERR_NONE'', 0), (''FILT_ERR_INVALID_OP'', 1), (''FILT_ERR_TOO_MANY_OPEN'', 2),
     (''FILT_ERR_TOO_MANY_CLOSE'', 3), (''FILT_ERR_MISSING_QUOTE'', 4),
     (''FILT_ERR_MISSING_BRACE_OPEN'', 5), (''FILT_ERR_MISSING_BRACE_CLOSE'', 6),
     (''FILT_ERR_OPERAND_TOO_LONG'', 7), (''FILT_ERR_EXPECT_STRING'', 8),
     (''FILT_ERR_EXPECT_DIGIT'', 9), (''FILT_ERR_ILLEGAL_FIELD_OP'', 10),
     (''FILT_ERR_FIELD_NOT_FOUND'', 11), (''FILT_ERR_ILLEGAL_INTVAL'', 12),
     (''FILT_ERR_BAD_SUBSYS_FILTER'', 13), (''FILT_ERR_TOO_MANY_PREDS'', 14),
     (''FILT_ERR_INVALID_FILTER'', 15), (''FILT_ERR_INVALID_CPULIST'', 16),
     (''FILT_ERR_IP_FIELD_ONLY'', 17), (''FILT_ERR_INVALID_VALUE'', 18),
     (''FILT_ERR_NO_FUNCTION'', 19), (''FILT_ERR_ERRNO'', 20), (''FILT_ERR_NO_FILTER'', 21)]"

definition enumdecl_line_3099 :: cenum_decl where
  "enumdecl_line_3099 = EnumDecl False [
     (''FLAGS_ADC'', 1), (''FLAGS_RTC'', 2)]"

definition enumdecl_line_3104 :: cenum_decl where
  "enumdecl_line_3104 = EnumDecl False [
     (''FLAGS_FILL_FULL'', 268435456), (''FLAGS_FILL_START'', 536870912),
     (''FLAGS_FILL_END'', 805306368)]"

definition enumdecl_line_3110 :: cenum_decl where
  "enumdecl_line_3110 = EnumDecl False [
     (''FOLL_TOUCH'', 65536), (''FOLL_TRIED'', 131072), (''FOLL_REMOTE'', 262144),
     (''FOLL_PIN'', 524288), (''FOLL_FAST_ONLY'', 1048576), (''FOLL_UNLOCKABLE'', 2097152),
     (''FOLL_MADV_POPULATE'', 4194304)]"

definition enumdecl_line_3120 :: cenum_decl where
  "enumdecl_line_3120 = EnumDecl False [
     (''FOLL_WRITE'', 1), (''FOLL_GET'', 2), (''FOLL_DUMP'', 4), (''FOLL_FORCE'', 8),
     (''FOLL_NOWAIT'', 16), (''FOLL_NOFAULT'', 32), (''FOLL_HWPOISON'', 64),
     (''FOLL_ANON'', 128), (''FOLL_LONGTERM'', 256), (''FOLL_SPLIT_PMD'', 512),
     (''FOLL_PCI_P2PDMA'', 1024), (''FOLL_INTERRUPTIBLE'', 2048),
     (''FOLL_HONOR_NUMA_FAULT'', 4096)]"

definition enumdecl_line_3136 :: cenum_decl where
  "enumdecl_line_3136 = EnumDecl False [
     (''FORMAT_HEADER'', 1), (''FORMAT_FIELD_SEPERATOR'', 2), (''FORMAT_PRINTFMT'', 3)]"

definition enumdecl_line_3142 :: cenum_decl where
  "enumdecl_line_3142 = EnumDecl False [
     (''FRACTION_DENOM'', 128)]"

definition enumdecl_line_3146 :: cenum_decl where
  "enumdecl_line_3146 = EnumDecl False [
     (''FRA_UNSPEC'', 0), (''FRA_DST'', 1), (''FRA_SRC'', 2), (''FRA_IIFNAME'', 3),
     (''FRA_GOTO'', 4), (''FRA_UNUSED2'', 5), (''FRA_PRIORITY'', 6), (''FRA_UNUSED3'', 7),
     (''FRA_UNUSED4'', 8), (''FRA_UNUSED5'', 9), (''FRA_FWMARK'', 10), (''FRA_FLOW'', 11),
     (''FRA_TUN_ID'', 12), (''FRA_SUPPRESS_IFGROUP'', 13), (''FRA_SUPPRESS_PREFIXLEN'', 14),
     (''FRA_TABLE'', 15), (''FRA_FWMASK'', 16), (''FRA_OIFNAME'', 17), (''FRA_PAD'', 18),
     (''FRA_L3MDEV'', 19), (''FRA_UID_RANGE'', 20), (''FRA_PROTOCOL'', 21),
     (''FRA_IP_PROTO'', 22), (''FRA_SPORT_RANGE'', 23), (''FRA_DPORT_RANGE'', 24),
     (''FRA_DSCP'', 25), (''FRA_FLOWLABEL'', 26), (''FRA_FLOWLABEL_MASK'', 27),
     (''FRA_SPORT_MASK'', 28), (''FRA_DPORT_MASK'', 29), (''FRA_DSCP_MASK'', 30),
     (''__FRA_MAX'', 31)]"

definition enumdecl_line_3181 :: cenum_decl where
  "enumdecl_line_3181 = EnumDecl False [
     (''FR_ACT_UNSPEC'', 0), (''FR_ACT_TO_TBL'', 1), (''FR_ACT_GOTO'', 2), (''FR_ACT_NOP'', 3),
     (''FR_ACT_RES3'', 4), (''FR_ACT_RES4'', 5), (''FR_ACT_BLACKHOLE'', 6),
     (''FR_ACT_UNREACHABLE'', 7), (''FR_ACT_PROHIBIT'', 8), (''__FR_ACT_MAX'', 9)]"

definition enumdecl_line_3194 :: cenum_decl where
  "enumdecl_line_3194 = EnumDecl False [
     (''FR_PERCPU'', 0), (''FR_ATOMIC'', 1)]"

definition enumdecl_line_3199 :: cenum_decl where
  "enumdecl_line_3199 = EnumDecl False [
     (''FTRACE_FL_ENABLED'', 2147483648), (''FTRACE_FL_REGS'', 1073741824),
     (''FTRACE_FL_REGS_EN'', 536870912), (''FTRACE_FL_TRAMP'', 268435456),
     (''FTRACE_FL_TRAMP_EN'', 134217728), (''FTRACE_FL_IPMODIFY'', 67108864),
     (''FTRACE_FL_DISABLED'', 33554432), (''FTRACE_FL_DIRECT'', 16777216),
     (''FTRACE_FL_DIRECT_EN'', 8388608), (''FTRACE_FL_CALL_OPS'', 4194304),
     (''FTRACE_FL_CALL_OPS_EN'', 2097152), (''FTRACE_FL_TOUCHED'', 1048576),
     (''FTRACE_FL_MODIFIED'', 524288)]"

lemma enumdecl_line_3199_4: "enum4 enumdecl_line_3199"
  by (unfold enumdecl_line_3199_def) (intro enum_uint_intros; simp)

definition enumdecl_line_3215 :: cenum_decl where
  "enumdecl_line_3215 = EnumDecl False [
     (''FTRACE_HASH_FL_MOD'', 1)]"

definition enumdecl_line_3219 :: cenum_decl where
  "enumdecl_line_3219 = EnumDecl False [
     (''FTRACE_ITER_FILTER'', 1), (''FTRACE_ITER_NOTRACE'', 2), (''FTRACE_ITER_PRINTALL'', 4),
     (''FTRACE_ITER_DO_PROBES'', 8), (''FTRACE_ITER_PROBE'', 16), (''FTRACE_ITER_MOD'', 32),
     (''FTRACE_ITER_ENABLED'', 64), (''FTRACE_ITER_TOUCHED'', 128), (''FTRACE_ITER_ADDRS'', 256)]"

definition enumdecl_line_3231 :: cenum_decl where
  "enumdecl_line_3231 = EnumDecl False [
     (''FTRACE_MODIFY_ENABLE_FL'', 1), (''FTRACE_MODIFY_MAY_SLEEP_FL'', 2)]"

definition enumdecl_line_3236 :: cenum_decl where
  "enumdecl_line_3236 = EnumDecl False [
     (''FTRACE_OPS_FL_ENABLED'', 1), (''FTRACE_OPS_FL_DYNAMIC'', 2),
     (''FTRACE_OPS_FL_SAVE_REGS'', 4), (''FTRACE_OPS_FL_SAVE_REGS_IF_SUPPORTED'', 8),
     (''FTRACE_OPS_FL_RECURSION'', 16), (''FTRACE_OPS_FL_STUB'', 32),
     (''FTRACE_OPS_FL_INITIALIZED'', 64), (''FTRACE_OPS_FL_DELETED'', 128),
     (''FTRACE_OPS_FL_ADDING'', 256), (''FTRACE_OPS_FL_REMOVING'', 512),
     (''FTRACE_OPS_FL_MODIFYING'', 1024), (''FTRACE_OPS_FL_ALLOC_TRAMP'', 2048),
     (''FTRACE_OPS_FL_IPMODIFY'', 4096), (''FTRACE_OPS_FL_PID'', 8192),
     (''FTRACE_OPS_FL_RCU'', 16384), (''FTRACE_OPS_FL_TRACE_ARRAY'', 32768),
     (''FTRACE_OPS_FL_PERMANENT'', 65536), (''FTRACE_OPS_FL_DIRECT'', 131072),
     (''FTRACE_OPS_FL_SUBOP'', 262144), (''FTRACE_OPS_FL_GRAPH'', 524288)]"

definition enumdecl_line_3259 :: cenum_decl where
  "enumdecl_line_3259 = EnumDecl False [
     (''FTRACE_UPDATE_CALLS'', 1), (''FTRACE_DISABLE_CALLS'', 2),
     (''FTRACE_UPDATE_TRACE_FUNC'', 4), (''FTRACE_START_FUNC_RET'', 8),
     (''FTRACE_STOP_FUNC_RET'', 16), (''FTRACE_MAY_SLEEP'', 32)]"

definition enumdecl_line_3268 :: cenum_decl where
  "enumdecl_line_3268 = EnumDecl False [
     (''FTRACE_UPDATE_IGNORE'', 0), (''FTRACE_UPDATE_MAKE_CALL'', 1),
     (''FTRACE_UPDATE_MODIFY_CALL'', 2), (''FTRACE_UPDATE_MAKE_NOP'', 3)]"

definition enumdecl_line_3275 :: cenum_decl where
  "enumdecl_line_3275 = EnumDecl False [
     (''FUSE_I_ADVISE_RDPLUS'', 0), (''FUSE_I_INIT_RDPLUS'', 1), (''FUSE_I_SIZE_UNSTABLE'', 2),
     (''FUSE_I_BAD'', 3), (''FUSE_I_BTIME'', 4), (''FUSE_I_CACHE_IO_MODE'', 5),
     (''FUSE_I_EXCLUSIVE'', 6)]"

definition enumdecl_line_3285 :: cenum_decl where
  "enumdecl_line_3285 = EnumDecl False [
     (''FUTEX_STATE_OK'', 0), (''FUTEX_STATE_EXITING'', 1), (''FUTEX_STATE_DEAD'', 2)]"

definition enumdecl_line_3291 :: cenum_decl where
  "enumdecl_line_3291 = EnumDecl False [
     (''GATE_INTERRUPT'', 14), (''GATE_TRAP'', 15), (''GATE_CALL'', 12), (''GATE_TASK'', 5)]"

definition enumdecl_line_3298 :: cenum_decl where
  "enumdecl_line_3298 = EnumDecl False [
     (''GENHD_FL_REMOVABLE'', 1), (''GENHD_FL_HIDDEN'', 2), (''GENHD_FL_NO_PART'', 4)]"

definition enum_decls_2 :: "cenum_decl list" where
  "enum_decls_2 = [
     enumdecl_line_1655, enumdecl_line_1719, enumdecl_line_1727, enumdecl_line_1732,
     enumdecl_line_1741, enumdecl_line_1752, enumdecl_line_1759, enumdecl_line_1769,
     enumdecl_line_1773, enumdecl_line_1778, enumdecl_line_1783, enumdecl_line_1788,
     enumdecl_line_1793, enumdecl_line_1800, enumdecl_line_1806, enumdecl_line_1811,
     enumdecl_line_1817, enumdecl_line_1823, enumdecl_line_1828, enumdecl_line_1850,
     enumdecl_line_1855, enumdecl_line_1859, enumdecl_line_1863, enumdecl_line_1869,
     enumdecl_line_1881, enumdecl_line_1887, enumdecl_line_1898, enumdecl_line_1905,
     enumdecl_line_1911, enumdecl_line_1919, enumdecl_line_1925, enumdecl_line_1934,
     enumdecl_line_1941, enumdecl_line_1950, enumdecl_line_1961, enumdecl_line_1969,
     enumdecl_line_1977, enumdecl_line_1986, enumdecl_line_1992, enumdecl_line_2000,
     enumdecl_line_2007, enumdecl_line_2014, enumdecl_line_2025, enumdecl_line_2034,
     enumdecl_line_2043, enumdecl_line_2052, enumdecl_line_2058, enumdecl_line_2067,
     enumdecl_line_2077, enumdecl_line_2085, enumdecl_line_2092, enumdecl_line_2107,
     enumdecl_line_2143, enumdecl_line_2151, enumdecl_line_2164, enumdecl_line_2175,
     enumdecl_line_2185, enumdecl_line_2196, enumdecl_line_2207, enumdecl_line_2239,
     enumdecl_line_2249, enumdecl_line_2258, enumdecl_line_2270, enumdecl_line_2286,
     enumdecl_line_2299, enumdecl_line_2312, enumdecl_line_2329, enumdecl_line_2342,
     enumdecl_line_2355, enumdecl_line_2364, enumdecl_line_2373, enumdecl_line_2386,
     enumdecl_line_2394, enumdecl_line_2403, enumdecl_line_2415, enumdecl_line_2424,
     enumdecl_line_2438, enumdecl_line_2453, enumdecl_line_2461, enumdecl_line_2468,
     enumdecl_line_2475, enumdecl_line_2497, enumdecl_line_2521, enumdecl_line_2535,
     enumdecl_line_2543, enumdecl_line_2570, enumdecl_line_2576, enumdecl_line_2591,
     enumdecl_line_2602, enumdecl_line_2611, enumdecl_line_2622, enumdecl_line_2629,
     enumdecl_line_2638, enumdecl_line_2645, enumdecl_line_2653, enumdecl_line_2662,
     enumdecl_line_2673, enumdecl_line_2688, enumdecl_line_2696, enumdecl_line_2706,
     enumdecl_line_2714, enumdecl_line_2722, enumdecl_line_2731, enumdecl_line_2738,
     enumdecl_line_2747, enumdecl_line_2807, enumdecl_line_2864, enumdecl_line_2873,
     enumdecl_line_2881, enumdecl_line_2888, enumdecl_line_2894, enumdecl_line_2908,
     enumdecl_line_2922, enumdecl_line_2927, enumdecl_line_2932, enumdecl_line_2949,
     enumdecl_line_2956, enumdecl_line_2963, enumdecl_line_2993, enumdecl_line_2999,
     enumdecl_line_3015, enumdecl_line_3026, enumdecl_line_3033, enumdecl_line_3037,
     enumdecl_line_3043, enumdecl_line_3051, enumdecl_line_3057, enumdecl_line_3061,
     enumdecl_line_3074, enumdecl_line_3099, enumdecl_line_3104, enumdecl_line_3110,
     enumdecl_line_3120, enumdecl_line_3136, enumdecl_line_3142, enumdecl_line_3146,
     enumdecl_line_3181, enumdecl_line_3194, enumdecl_line_3199, enumdecl_line_3215,
     enumdecl_line_3219, enumdecl_line_3231, enumdecl_line_3236, enumdecl_line_3259,
     enumdecl_line_3268, enumdecl_line_3275, enumdecl_line_3285, enumdecl_line_3291,
     enumdecl_line_3298]"

lemma enum_decls_2_4: "list_all enum4 enum_decls_2"
  by (unfold enum_decls_2_def
     enumdecl_line_1655_def enumdecl_line_1719_def enumdecl_line_1727_def
     enumdecl_line_1732_def enumdecl_line_1741_def enumdecl_line_1752_def
     enumdecl_line_1759_def enumdecl_line_1769_def enumdecl_line_1773_def
     enumdecl_line_1778_def enumdecl_line_1783_def enumdecl_line_1788_def
     enumdecl_line_1793_def enumdecl_line_1800_def enumdecl_line_1806_def
     enumdecl_line_1811_def enumdecl_line_1817_def enumdecl_line_1823_def
     enumdecl_line_1828_def enumdecl_line_1850_def enumdecl_line_1855_def
     enumdecl_line_1859_def enumdecl_line_1863_def enumdecl_line_1869_def
     enumdecl_line_1881_def enumdecl_line_1887_def enumdecl_line_1898_def
     enumdecl_line_1905_def enumdecl_line_1911_def enumdecl_line_1919_def
     enumdecl_line_1925_def enumdecl_line_1934_def enumdecl_line_1941_def
     enumdecl_line_1950_def enumdecl_line_1961_def enumdecl_line_1969_def
     enumdecl_line_1977_def enumdecl_line_1986_def enumdecl_line_1992_def
     enumdecl_line_2000_def enumdecl_line_2007_def enumdecl_line_2014_def
     enumdecl_line_2025_def enumdecl_line_2034_def enumdecl_line_2043_def
     enumdecl_line_2052_def enumdecl_line_2058_def enumdecl_line_2067_def
     enumdecl_line_2077_def enumdecl_line_2085_def enumdecl_line_2092_def
     enumdecl_line_2107_def enumdecl_line_2143_def enumdecl_line_2151_def
     enumdecl_line_2164_def enumdecl_line_2175_def enumdecl_line_2185_def
     enumdecl_line_2196_def enumdecl_line_2207_def enumdecl_line_2239_def
     enumdecl_line_2249_def enumdecl_line_2258_def enumdecl_line_2270_def
     enumdecl_line_2286_def enumdecl_line_2299_def enumdecl_line_2312_def
     enumdecl_line_2329_def enumdecl_line_2342_def enumdecl_line_2355_def
     enumdecl_line_2364_def enumdecl_line_2373_def enumdecl_line_2386_def
     enumdecl_line_2394_def enumdecl_line_2403_def enumdecl_line_2415_def
     enumdecl_line_2424_def enumdecl_line_2438_def enumdecl_line_2453_def
     enumdecl_line_2461_def enumdecl_line_2468_def enumdecl_line_2475_def
     enumdecl_line_2497_def enumdecl_line_2521_def enumdecl_line_2535_def
     enumdecl_line_2543_def enumdecl_line_2570_def enumdecl_line_2576_def
     enumdecl_line_2591_def enumdecl_line_2602_def enumdecl_line_2611_def
     enumdecl_line_2622_def enumdecl_line_2629_def enumdecl_line_2638_def
     enumdecl_line_2645_def enumdecl_line_2653_def enumdecl_line_2662_def
     enumdecl_line_2673_def enumdecl_line_2688_def enumdecl_line_2696_def
     enumdecl_line_2706_def enumdecl_line_2714_def enumdecl_line_2722_def
     enumdecl_line_2731_def enumdecl_line_2738_def enumdecl_line_2747_def
     enumdecl_line_2807_def enumdecl_line_2864_def enumdecl_line_2873_def
     enumdecl_line_2881_def enumdecl_line_2888_def enumdecl_line_2894_def
     enumdecl_line_2908_def enumdecl_line_2922_def enumdecl_line_2927_def
     enumdecl_line_2932_def enumdecl_line_2949_def enumdecl_line_2956_def
     enumdecl_line_2963_def enumdecl_line_2993_def enumdecl_line_2999_def
     enumdecl_line_3015_def enumdecl_line_3026_def enumdecl_line_3033_def
     enumdecl_line_3037_def enumdecl_line_3043_def enumdecl_line_3051_def
     enumdecl_line_3057_def enumdecl_line_3061_def enumdecl_line_3074_def
     enumdecl_line_3099_def enumdecl_line_3104_def enumdecl_line_3110_def
     enumdecl_line_3120_def enumdecl_line_3136_def enumdecl_line_3142_def
     enumdecl_line_3146_def enumdecl_line_3181_def enumdecl_line_3194_def
     enumdecl_line_3215_def enumdecl_line_3219_def enumdecl_line_3231_def
     enumdecl_line_3236_def enumdecl_line_3259_def enumdecl_line_3268_def
     enumdecl_line_3275_def enumdecl_line_3285_def enumdecl_line_3291_def
     enumdecl_line_3298_def)
    (intro enum_list_intros enum_int_intros enumdecl_line_3199_4; simp)

lemma length_enum_decls_2: "length enum_decls_2 = 149"
  by (simp add: enum_decls_2_def)

end
