(* ===== verification/VmlinuxEnum3.thy ===== *)
theory VmlinuxEnum3
  imports EnumDecl
begin

text \<open>
  The enumerations of four bytes of \<^verbatim>\<open>src/internal/ebpf/vmlinux.h\<close> between lines 3304 and
  4842, one definition per enumeration, enumerators in order. An enumeration without a tag is
  named after the line it starts on.
\<close>

definition enumdecl_line_3304 :: cenum_decl where
  "enumdecl_line_3304 = EnumDecl False [
     (''GHES_SEV_NO'', 0), (''GHES_SEV_CORRECTED'', 1), (''GHES_SEV_RECOVERABLE'', 2),
     (''GHES_SEV_PANIC'', 3)]"

definition enumdecl_line_3311 :: cenum_decl where
  "enumdecl_line_3311 = EnumDecl False [
     (''GI2C_PORT'', 0), (''PI2C_PORT'', 1)]"

definition enumdecl_line_3316 :: cenum_decl where
  "enumdecl_line_3316 = EnumDecl False [
     (''GPIO_SYSFS_LINE_CHIP_ATTR_DIRECTION'', 0), (''GPIO_SYSFS_LINE_CHIP_ATTR_VALUE'', 1),
     (''GPIO_SYSFS_LINE_CHIP_ATTR_SENTINEL'', 2), (''GPIO_SYSFS_LINE_CHIP_ATTR_SIZE'', 3)]"

definition enumdecl_line_3323 :: cenum_decl where
  "enumdecl_line_3323 = EnumDecl False [
     (''GPIO_SYSFS_LINE_CLASS_ATTR_DIRECTION'', 0), (''GPIO_SYSFS_LINE_CLASS_ATTR_VALUE'', 1),
     (''GPIO_SYSFS_LINE_CLASS_ATTR_EDGE'', 2), (''GPIO_SYSFS_LINE_CLASS_ATTR_ACTIVE_LOW'', 3),
     (''GPIO_SYSFS_LINE_CLASS_ATTR_SENTINEL'', 4), (''GPIO_SYSFS_LINE_CLASS_ATTR_SIZE'', 5)]"

definition enumdecl_line_3332 :: cenum_decl where
  "enumdecl_line_3332 = EnumDecl False [
     (''GP_IDLE'', 0), (''GP_ENTER'', 1), (''GP_PASSED'', 2), (''GP_EXIT'', 3),
     (''GP_REPLAY'', 4)]"

definition enumdecl_line_3340 :: cenum_decl where
  "enumdecl_line_3340 = EnumDecl False [
     (''HANDSHAKE_A_ACCEPT_SOCKFD'', 1), (''HANDSHAKE_A_ACCEPT_HANDLER_CLASS'', 2),
     (''HANDSHAKE_A_ACCEPT_MESSAGE_TYPE'', 3), (''HANDSHAKE_A_ACCEPT_TIMEOUT'', 4),
     (''HANDSHAKE_A_ACCEPT_AUTH_MODE'', 5), (''HANDSHAKE_A_ACCEPT_PEER_IDENTITY'', 6),
     (''HANDSHAKE_A_ACCEPT_CERTIFICATE'', 7), (''HANDSHAKE_A_ACCEPT_PEERNAME'', 8),
     (''HANDSHAKE_A_ACCEPT_KEYRING'', 9), (''__HANDSHAKE_A_ACCEPT_MAX'', 10),
     (''HANDSHAKE_A_ACCEPT_MAX'', 9)]"

definition enumdecl_line_3354 :: cenum_decl where
  "enumdecl_line_3354 = EnumDecl False [
     (''HANDSHAKE_A_DONE_STATUS'', 1), (''HANDSHAKE_A_DONE_SOCKFD'', 2),
     (''HANDSHAKE_A_DONE_REMOTE_AUTH'', 3), (''__HANDSHAKE_A_DONE_MAX'', 4),
     (''HANDSHAKE_A_DONE_MAX'', 3)]"

definition enumdecl_line_3362 :: cenum_decl where
  "enumdecl_line_3362 = EnumDecl False [
     (''HANDSHAKE_A_X509_CERT'', 1), (''HANDSHAKE_A_X509_PRIVKEY'', 2),
     (''__HANDSHAKE_A_X509_MAX'', 3), (''HANDSHAKE_A_X509_MAX'', 2)]"

definition enumdecl_line_3369 :: cenum_decl where
  "enumdecl_line_3369 = EnumDecl False [
     (''HANDSHAKE_CMD_READY'', 1), (''HANDSHAKE_CMD_ACCEPT'', 2), (''HANDSHAKE_CMD_DONE'', 3),
     (''__HANDSHAKE_CMD_MAX'', 4), (''HANDSHAKE_CMD_MAX'', 3)]"

definition enumdecl_line_3377 :: cenum_decl where
  "enumdecl_line_3377 = EnumDecl False [
     (''HANDSHAKE_NLGRP_NONE'', 0), (''HANDSHAKE_NLGRP_TLSHD'', 1)]"

definition enumdecl_line_3382 :: cenum_decl where
  "enumdecl_line_3382 = EnumDecl False [
     (''HASH_SIZE'', 128)]"

definition enumdecl_line_3386 :: cenum_decl where
  "enumdecl_line_3386 = EnumDecl False [
     (''HAS_READ'', 1), (''HAS_WRITE'', 2), (''HAS_LSEEK'', 4), (''HAS_POLL'', 8),
     (''HAS_IOCTL'', 16)]"

definition enumdecl_line_3394 :: cenum_decl where
  "enumdecl_line_3394 = EnumDecl False [
     (''HIBERNATION_INVALID'', 0), (''HIBERNATION_PLATFORM'', 1), (''HIBERNATION_SHUTDOWN'', 2),
     (''HIBERNATION_REBOOT'', 3), (''HIBERNATION_SUSPEND'', 4), (''HIBERNATION_TEST_RESUME'', 5),
     (''__HIBERNATION_AFTER_LAST'', 6)]"

definition enumdecl_line_3404 :: cenum_decl where
  "enumdecl_line_3404 = EnumDecl False [
     (''HIST_ERR_NONE'', 0), (''HIST_ERR_DUPLICATE_VAR'', 1), (''HIST_ERR_VAR_NOT_UNIQUE'', 2),
     (''HIST_ERR_TOO_MANY_VARS'', 3), (''HIST_ERR_MALFORMED_ASSIGNMENT'', 4),
     (''HIST_ERR_NAMED_MISMATCH'', 5), (''HIST_ERR_TRIGGER_EEXIST'', 6),
     (''HIST_ERR_TRIGGER_ENOENT_CLEAR'', 7), (''HIST_ERR_SET_CLOCK_FAIL'', 8),
     (''HIST_ERR_BAD_FIELD_MODIFIER'', 9), (''HIST_ERR_TOO_MANY_SUBEXPR'', 10),
     (''HIST_ERR_TIMESTAMP_MISMATCH'', 11), (''HIST_ERR_TOO_MANY_FIELD_VARS'', 12),
     (''HIST_ERR_EVENT_FILE_NOT_FOUND'', 13), (''HIST_ERR_HIST_NOT_FOUND'', 14),
     (''HIST_ERR_HIST_CREATE_FAIL'', 15), (''HIST_ERR_SYNTH_VAR_NOT_FOUND'', 16),
     (''HIST_ERR_SYNTH_EVENT_NOT_FOUND'', 17), (''HIST_ERR_SYNTH_TYPE_MISMATCH'', 18),
     (''HIST_ERR_SYNTH_COUNT_MISMATCH'', 19), (''HIST_ERR_FIELD_VAR_PARSE_FAIL'', 20),
     (''HIST_ERR_VAR_CREATE_FIND_FAIL'', 21), (''HIST_ERR_ONX_NOT_VAR'', 22),
     (''HIST_ERR_ONX_VAR_NOT_FOUND'', 23), (''HIST_ERR_ONX_VAR_CREATE_FAIL'', 24),
     (''HIST_ERR_FIELD_VAR_CREATE_FAIL'', 25), (''HIST_ERR_TOO_MANY_PARAMS'', 26),
     (''HIST_ERR_PARAM_NOT_FOUND'', 27), (''HIST_ERR_INVALID_PARAM'', 28),
     (''HIST_ERR_ACTION_NOT_FOUND'', 29), (''HIST_ERR_NO_SAVE_PARAMS'', 30),
     (''HIST_ERR_TOO_MANY_SAVE_ACTIONS'', 31), (''HIST_ERR_ACTION_MISMATCH'', 32),
     (''HIST_ERR_NO_CLOSING_PAREN'', 33), (''HIST_ERR_SUBSYS_NOT_FOUND'', 34),
     (''HIST_ERR_INVALID_SUBSYS_EVENT'', 35), (''HIST_ERR_INVALID_REF_KEY'', 36),
     (''HIST_ERR_VAR_NOT_FOUND'', 37), (''HIST_ERR_FIELD_NOT_FOUND'', 38),
     (''HIST_ERR_EMPTY_ASSIGNMENT'', 39), (''HIST_ERR_INVALID_SORT_MODIFIER'', 40),
     (''HIST_ERR_EMPTY_SORT_FIELD'', 41), (''HIST_ERR_TOO_MANY_SORT_FIELDS'', 42),
     (''HIST_ERR_INVALID_SORT_FIELD'', 43), (''HIST_ERR_INVALID_STR_OPERAND'', 44),
     (''HIST_ERR_EXPECT_NUMBER'', 45), (''HIST_ERR_UNARY_MINUS_SUBEXPR'', 46),
     (''HIST_ERR_DIVISION_BY_ZERO'', 47), (''HIST_ERR_NEED_NOHC_VAL'', 48)]"

definition enumdecl_line_3456 :: cenum_decl where
  "enumdecl_line_3456 = EnumDecl False [
     (''HI_SOFTIRQ'', 0), (''TIMER_SOFTIRQ'', 1), (''NET_TX_SOFTIRQ'', 2),
     (''NET_RX_SOFTIRQ'', 3), (''BLOCK_SOFTIRQ'', 4), (''IRQ_POLL_SOFTIRQ'', 5),
     (''TASKLET_SOFTIRQ'', 6), (''SCHED_SOFTIRQ'', 7), (''HRTIMER_SOFTIRQ'', 8),
     (''RCU_SOFTIRQ'', 9), (''NR_SOFTIRQS'', 10)]"

definition enumdecl_line_3470 :: cenum_decl where
  "enumdecl_line_3470 = EnumDecl False [
     (''HMM_NEED_FAULT'', 1), (''HMM_NEED_WRITE_FAULT'', 2), (''HMM_NEED_ALL_BITS'', 3)]"

definition enumdecl_line_3480 :: cenum_decl where
  "enumdecl_line_3480 = EnumDecl False [
     (''HOST_L_CNT'', 6)]"

definition enumdecl_line_3484 :: cenum_decl where
  "enumdecl_line_3484 = EnumDecl False [
     (''HOST_L_DUR'', 9)]"

definition enumdecl_line_3488 :: cenum_decl where
  "enumdecl_line_3488 = EnumDecl False [
     (''HOST_S_CNT'', 7)]"

definition enumdecl_line_3492 :: cenum_decl where
  "enumdecl_line_3492 = EnumDecl False [
     (''HOST_S_DUR'', 8)]"

definition enumdecl_line_3496 :: cenum_decl where
  "enumdecl_line_3496 = EnumDecl False [
     (''HP_THREAD_NONE'', 0), (''HP_THREAD_ACTIVE'', 1), (''HP_THREAD_PARKED'', 2)]"

definition enumdecl_line_3502 :: cenum_decl where
  "enumdecl_line_3502 = EnumDecl False [
     (''HSWEP_PCI_UNCORE_HA'', 0), (''HSWEP_PCI_UNCORE_IMC'', 1), (''HSWEP_PCI_UNCORE_IRP'', 2),
     (''HSWEP_PCI_UNCORE_QPI'', 3), (''HSWEP_PCI_UNCORE_R2PCIE'', 4),
     (''HSWEP_PCI_UNCORE_R3QPI'', 5)]"

definition enumdecl_line_3511 :: cenum_decl where
  "enumdecl_line_3511 = EnumDecl False [
     (''HTE_TS_REGISTERED'', 0), (''HTE_TS_REQ'', 1), (''HTE_TS_DISABLE'', 2),
     (''HTE_TS_QUEUE_WK'', 3)]"

definition enumdecl_line_3518 :: cenum_decl where
  "enumdecl_line_3518 = EnumDecl False [
     (''HUF_flags_bmi2'', 1), (''HUF_flags_optimalDepth'', 2), (''HUF_flags_preferRepeat'', 4),
     (''HUF_flags_suspectUncompressible'', 8), (''HUF_flags_disableAsm'', 16),
     (''HUF_flags_disableFast'', 32)]"

definition enumdecl_line_3527 :: cenum_decl where
  "enumdecl_line_3527 = EnumDecl False [
     (''HUGETLB_SHMFS_INODE'', 1), (''HUGETLB_ANONHUGE_INODE'', 2)]"

definition enumdecl_line_3532 :: cenum_decl where
  "enumdecl_line_3532 = EnumDecl False [
     (''HV_SUBNODE_ANY'', 0), (''HV_SUBNODE_SOCKET'', 1), (''HV_SUBNODE_CLUSTER'', 2),
     (''HV_SUBNODE_L3'', 3), (''HV_SUBNODE_COUNT'', 4), (''HV_SUBNODE_INVALID'', - 1)]"

definition enumdecl_line_3541 :: cenum_decl where
  "enumdecl_line_3541 = EnumDecl False [
     (''HW_BREAKPOINT_EMPTY'', 0), (''HW_BREAKPOINT_R'', 1), (''HW_BREAKPOINT_W'', 2),
     (''HW_BREAKPOINT_RW'', 3), (''HW_BREAKPOINT_X'', 4), (''HW_BREAKPOINT_INVALID'', 7)]"

definition enumdecl_line_3550 :: cenum_decl where
  "enumdecl_line_3550 = EnumDecl False [
     (''HW_BREAKPOINT_LEN_1'', 1), (''HW_BREAKPOINT_LEN_2'', 2), (''HW_BREAKPOINT_LEN_3'', 3),
     (''HW_BREAKPOINT_LEN_4'', 4), (''HW_BREAKPOINT_LEN_5'', 5), (''HW_BREAKPOINT_LEN_6'', 6),
     (''HW_BREAKPOINT_LEN_7'', 7), (''HW_BREAKPOINT_LEN_8'', 8)]"

definition enumdecl_line_3561 :: cenum_decl where
  "enumdecl_line_3561 = EnumDecl False [
     (''IBM'', 0), (''TVP'', 1)]"

definition enumdecl_line_3566 :: cenum_decl where
  "enumdecl_line_3566 = EnumDecl False [
     (''ICMP6_MIB_NUM'', 0), (''ICMP6_MIB_INMSGS'', 1), (''ICMP6_MIB_INERRORS'', 2),
     (''ICMP6_MIB_OUTMSGS'', 3), (''ICMP6_MIB_OUTERRORS'', 4), (''ICMP6_MIB_CSUMERRORS'', 5),
     (''ICMP6_MIB_RATELIMITHOST'', 6), (''__ICMP6_MIB_MAX'', 7)]"

definition enumdecl_line_3577 :: cenum_decl where
  "enumdecl_line_3577 = EnumDecl False [
     (''ICMP_ERR_EXT_IIO_IIF'', 0), (''ICMP_ERR_EXT_COUNT'', 1)]"

definition enumdecl_line_3582 :: cenum_decl where
  "enumdecl_line_3582 = EnumDecl False [
     (''ICMP_EXT_CTYPE_IIO_ROLE_IIF'', 0)]"

definition enumdecl_line_3586 :: cenum_decl where
  "enumdecl_line_3586 = EnumDecl False [
     (''ICMP_MIB_NUM'', 0), (''ICMP_MIB_INMSGS'', 1), (''ICMP_MIB_INERRORS'', 2),
     (''ICMP_MIB_INDESTUNREACHS'', 3), (''ICMP_MIB_INTIMEEXCDS'', 4),
     (''ICMP_MIB_INPARMPROBS'', 5), (''ICMP_MIB_INSRCQUENCHS'', 6),
     (''ICMP_MIB_INREDIRECTS'', 7), (''ICMP_MIB_INECHOS'', 8), (''ICMP_MIB_INECHOREPS'', 9),
     (''ICMP_MIB_INTIMESTAMPS'', 10), (''ICMP_MIB_INTIMESTAMPREPS'', 11),
     (''ICMP_MIB_INADDRMASKS'', 12), (''ICMP_MIB_INADDRMASKREPS'', 13),
     (''ICMP_MIB_OUTMSGS'', 14), (''ICMP_MIB_OUTERRORS'', 15),
     (''ICMP_MIB_OUTDESTUNREACHS'', 16), (''ICMP_MIB_OUTTIMEEXCDS'', 17),
     (''ICMP_MIB_OUTPARMPROBS'', 18), (''ICMP_MIB_OUTSRCQUENCHS'', 19),
     (''ICMP_MIB_OUTREDIRECTS'', 20), (''ICMP_MIB_OUTECHOS'', 21),
     (''ICMP_MIB_OUTECHOREPS'', 22), (''ICMP_MIB_OUTTIMESTAMPS'', 23),
     (''ICMP_MIB_OUTTIMESTAMPREPS'', 24), (''ICMP_MIB_OUTADDRMASKS'', 25),
     (''ICMP_MIB_OUTADDRMASKREPS'', 26), (''ICMP_MIB_CSUMERRORS'', 27),
     (''ICMP_MIB_RATELIMITGLOBAL'', 28), (''ICMP_MIB_RATELIMITHOST'', 29),
     (''__ICMP_MIB_MAX'', 30)]"

definition enumdecl_line_3620 :: cenum_decl where
  "enumdecl_line_3620 = EnumDecl False [
     (''ICQ_EXITED'', 4), (''ICQ_DESTROYED'', 8)]"

definition enumdecl_line_3625 :: cenum_decl where
  "enumdecl_line_3625 = EnumDecl False [
     (''ICX_PCIE1_PMON_ID'', 0), (''ICX_PCIE2_PMON_ID'', 1), (''ICX_PCIE3_PMON_ID'', 2),
     (''ICX_PCIE4_PMON_ID'', 3), (''ICX_PCIE5_PMON_ID'', 4), (''ICX_CBDMA_DMI_PMON_ID'', 5)]"

definition enumdecl_line_3634 :: cenum_decl where
  "enumdecl_line_3634 = EnumDecl False [
     (''ICX_PCI_UNCORE_M2M'', 0), (''ICX_PCI_UNCORE_UPI'', 1), (''ICX_PCI_UNCORE_M3UPI'', 2)]"

definition enumdecl_line_3640 :: cenum_decl where
  "enumdecl_line_3640 = EnumDecl False [
     (''IDX_MODULE_ID'', 0), (''IDX_ST_OPS_COMMON_VALUE_ID'', 1)]"

definition enumdecl_line_3645 :: cenum_decl where
  "enumdecl_line_3645 = EnumDecl False [
     (''IFAL_ADDRESS'', 1), (''IFAL_LABEL'', 2), (''__IFAL_MAX'', 3)]"

definition enumdecl_line_3651 :: cenum_decl where
  "enumdecl_line_3651 = EnumDecl False [
     (''IFA_UNSPEC'', 0), (''IFA_ADDRESS'', 1), (''IFA_LOCAL'', 2), (''IFA_LABEL'', 3),
     (''IFA_BROADCAST'', 4), (''IFA_ANYCAST'', 5), (''IFA_CACHEINFO'', 6),
     (''IFA_MULTICAST'', 7), (''IFA_FLAGS'', 8), (''IFA_RT_PRIORITY'', 9),
     (''IFA_TARGET_NETNSID'', 10), (''IFA_PROTO'', 11), (''__IFA_MAX'', 12)]"

definition enumdecl_line_3667 :: cenum_decl where
  "enumdecl_line_3667 = EnumDecl False [
     (''IFLA_BRIDGE_FLAGS'', 0), (''IFLA_BRIDGE_MODE'', 1), (''IFLA_BRIDGE_VLAN_INFO'', 2),
     (''IFLA_BRIDGE_VLAN_TUNNEL_INFO'', 3), (''IFLA_BRIDGE_MRP'', 4), (''IFLA_BRIDGE_CFM'', 5),
     (''IFLA_BRIDGE_MST'', 6), (''__IFLA_BRIDGE_MAX'', 7)]"

definition enumdecl_line_3678 :: cenum_decl where
  "enumdecl_line_3678 = EnumDecl False [
     (''IFLA_BRPORT_UNSPEC'', 0), (''IFLA_BRPORT_STATE'', 1), (''IFLA_BRPORT_PRIORITY'', 2),
     (''IFLA_BRPORT_COST'', 3), (''IFLA_BRPORT_MODE'', 4), (''IFLA_BRPORT_GUARD'', 5),
     (''IFLA_BRPORT_PROTECT'', 6), (''IFLA_BRPORT_FAST_LEAVE'', 7),
     (''IFLA_BRPORT_LEARNING'', 8), (''IFLA_BRPORT_UNICAST_FLOOD'', 9),
     (''IFLA_BRPORT_PROXYARP'', 10), (''IFLA_BRPORT_LEARNING_SYNC'', 11),
     (''IFLA_BRPORT_PROXYARP_WIFI'', 12), (''IFLA_BRPORT_ROOT_ID'', 13),
     (''IFLA_BRPORT_BRIDGE_ID'', 14), (''IFLA_BRPORT_DESIGNATED_PORT'', 15),
     (''IFLA_BRPORT_DESIGNATED_COST'', 16), (''IFLA_BRPORT_ID'', 17), (''IFLA_BRPORT_NO'', 18),
     (''IFLA_BRPORT_TOPOLOGY_CHANGE_ACK'', 19), (''IFLA_BRPORT_CONFIG_PENDING'', 20),
     (''IFLA_BRPORT_MESSAGE_AGE_TIMER'', 21), (''IFLA_BRPORT_FORWARD_DELAY_TIMER'', 22),
     (''IFLA_BRPORT_HOLD_TIMER'', 23), (''IFLA_BRPORT_FLUSH'', 24),
     (''IFLA_BRPORT_MULTICAST_ROUTER'', 25), (''IFLA_BRPORT_PAD'', 26),
     (''IFLA_BRPORT_MCAST_FLOOD'', 27), (''IFLA_BRPORT_MCAST_TO_UCAST'', 28),
     (''IFLA_BRPORT_VLAN_TUNNEL'', 29), (''IFLA_BRPORT_BCAST_FLOOD'', 30),
     (''IFLA_BRPORT_GROUP_FWD_MASK'', 31), (''IFLA_BRPORT_NEIGH_SUPPRESS'', 32),
     (''IFLA_BRPORT_ISOLATED'', 33), (''IFLA_BRPORT_BACKUP_PORT'', 34),
     (''IFLA_BRPORT_MRP_RING_OPEN'', 35), (''IFLA_BRPORT_MRP_IN_OPEN'', 36),
     (''IFLA_BRPORT_MCAST_EHT_HOSTS_LIMIT'', 37), (''IFLA_BRPORT_MCAST_EHT_HOSTS_CNT'', 38),
     (''IFLA_BRPORT_LOCKED'', 39), (''IFLA_BRPORT_MAB'', 40),
     (''IFLA_BRPORT_MCAST_N_GROUPS'', 41), (''IFLA_BRPORT_MCAST_MAX_GROUPS'', 42),
     (''IFLA_BRPORT_NEIGH_VLAN_SUPPRESS'', 43), (''IFLA_BRPORT_BACKUP_NHID'', 44),
     (''__IFLA_BRPORT_MAX'', 45)]"

definition enumdecl_line_3727 :: cenum_decl where
  "enumdecl_line_3727 = EnumDecl False [
     (''IFLA_EVENT_NONE'', 0), (''IFLA_EVENT_REBOOT'', 1), (''IFLA_EVENT_FEATURES'', 2),
     (''IFLA_EVENT_BONDING_FAILOVER'', 3), (''IFLA_EVENT_NOTIFY_PEERS'', 4),
     (''IFLA_EVENT_IGMP_RESEND'', 5), (''IFLA_EVENT_BONDING_OPTIONS'', 6)]"

definition enumdecl_line_3737 :: cenum_decl where
  "enumdecl_line_3737 = EnumDecl False [
     (''IFLA_INET6_UNSPEC'', 0), (''IFLA_INET6_FLAGS'', 1), (''IFLA_INET6_CONF'', 2),
     (''IFLA_INET6_STATS'', 3), (''IFLA_INET6_MCAST'', 4), (''IFLA_INET6_CACHEINFO'', 5),
     (''IFLA_INET6_ICMP6STATS'', 6), (''IFLA_INET6_TOKEN'', 7),
     (''IFLA_INET6_ADDR_GEN_MODE'', 8), (''IFLA_INET6_RA_MTU'', 9), (''__IFLA_INET6_MAX'', 10)]"

definition enumdecl_line_3751 :: cenum_decl where
  "enumdecl_line_3751 = EnumDecl False [
     (''IFLA_INET_UNSPEC'', 0), (''IFLA_INET_CONF'', 1), (''__IFLA_INET_MAX'', 2)]"

definition enumdecl_line_3757 :: cenum_decl where
  "enumdecl_line_3757 = EnumDecl False [
     (''IFLA_INFO_UNSPEC'', 0), (''IFLA_INFO_KIND'', 1), (''IFLA_INFO_DATA'', 2),
     (''IFLA_INFO_XSTATS'', 3), (''IFLA_INFO_SLAVE_KIND'', 4), (''IFLA_INFO_SLAVE_DATA'', 5),
     (''__IFLA_INFO_MAX'', 6)]"

definition enumdecl_line_3767 :: cenum_decl where
  "enumdecl_line_3767 = EnumDecl False [
     (''IFLA_IPTUN_UNSPEC'', 0), (''IFLA_IPTUN_LINK'', 1), (''IFLA_IPTUN_LOCAL'', 2),
     (''IFLA_IPTUN_REMOTE'', 3), (''IFLA_IPTUN_TTL'', 4), (''IFLA_IPTUN_TOS'', 5),
     (''IFLA_IPTUN_ENCAP_LIMIT'', 6), (''IFLA_IPTUN_FLOWINFO'', 7), (''IFLA_IPTUN_FLAGS'', 8),
     (''IFLA_IPTUN_PROTO'', 9), (''IFLA_IPTUN_PMTUDISC'', 10), (''IFLA_IPTUN_6RD_PREFIX'', 11),
     (''IFLA_IPTUN_6RD_RELAY_PREFIX'', 12), (''IFLA_IPTUN_6RD_PREFIXLEN'', 13),
     (''IFLA_IPTUN_6RD_RELAY_PREFIXLEN'', 14), (''IFLA_IPTUN_ENCAP_TYPE'', 15),
     (''IFLA_IPTUN_ENCAP_FLAGS'', 16), (''IFLA_IPTUN_ENCAP_SPORT'', 17),
     (''IFLA_IPTUN_ENCAP_DPORT'', 18), (''IFLA_IPTUN_COLLECT_METADATA'', 19),
     (''IFLA_IPTUN_FWMARK'', 20), (''__IFLA_IPTUN_VENDOR_BREAK'', 21),
     (''IFLA_IPTUN_FAN_MAP'', 33), (''__IFLA_IPTUN_MAX'', 34)]"

definition enumdecl_line_3794 :: cenum_decl where
  "enumdecl_line_3794 = EnumDecl False [
     (''IFLA_MCTP_UNSPEC'', 0), (''IFLA_MCTP_NET'', 1), (''IFLA_MCTP_PHYS_BINDING'', 2),
     (''__IFLA_MCTP_MAX'', 3)]"

definition enumdecl_line_3801 :: cenum_decl where
  "enumdecl_line_3801 = EnumDecl False [
     (''IFLA_NETKIT_UNSPEC'', 0), (''IFLA_NETKIT_PEER_INFO'', 1), (''IFLA_NETKIT_PRIMARY'', 2),
     (''IFLA_NETKIT_POLICY'', 3), (''IFLA_NETKIT_PEER_POLICY'', 4), (''IFLA_NETKIT_MODE'', 5),
     (''IFLA_NETKIT_SCRUB'', 6), (''IFLA_NETKIT_PEER_SCRUB'', 7), (''IFLA_NETKIT_HEADROOM'', 8),
     (''IFLA_NETKIT_TAILROOM'', 9), (''__IFLA_NETKIT_MAX'', 10)]"

definition enumdecl_line_3815 :: cenum_decl where
  "enumdecl_line_3815 = EnumDecl False [
     (''IFLA_OFFLOAD_XSTATS_HW_S_INFO_UNSPEC'', 0),
     (''IFLA_OFFLOAD_XSTATS_HW_S_INFO_REQUEST'', 1), (''IFLA_OFFLOAD_XSTATS_HW_S_INFO_USED'', 2),
     (''__IFLA_OFFLOAD_XSTATS_HW_S_INFO_MAX'', 3)]"

definition enumdecl_line_3822 :: cenum_decl where
  "enumdecl_line_3822 = EnumDecl False [
     (''IFLA_OFFLOAD_XSTATS_UNSPEC'', 0), (''IFLA_OFFLOAD_XSTATS_CPU_HIT'', 1),
     (''IFLA_OFFLOAD_XSTATS_HW_S_INFO'', 2), (''IFLA_OFFLOAD_XSTATS_L3_STATS'', 3),
     (''__IFLA_OFFLOAD_XSTATS_MAX'', 4)]"

definition enumdecl_line_3830 :: cenum_decl where
  "enumdecl_line_3830 = EnumDecl False [
     (''IFLA_PORT_UNSPEC'', 0), (''IFLA_PORT_VF'', 1), (''IFLA_PORT_PROFILE'', 2),
     (''IFLA_PORT_VSI_TYPE'', 3), (''IFLA_PORT_INSTANCE_UUID'', 4), (''IFLA_PORT_HOST_UUID'', 5),
     (''IFLA_PORT_REQUEST'', 6), (''IFLA_PORT_RESPONSE'', 7), (''__IFLA_PORT_MAX'', 8)]"

definition enumdecl_line_3842 :: cenum_decl where
  "enumdecl_line_3842 = EnumDecl False [
     (''IFLA_PPP_UNSPEC'', 0), (''IFLA_PPP_DEV_FD'', 1), (''__IFLA_PPP_MAX'', 2)]"

definition enumdecl_line_3848 :: cenum_decl where
  "enumdecl_line_3848 = EnumDecl False [
     (''IFLA_PROTO_DOWN_REASON_UNSPEC'', 0), (''IFLA_PROTO_DOWN_REASON_MASK'', 1),
     (''IFLA_PROTO_DOWN_REASON_VALUE'', 2), (''__IFLA_PROTO_DOWN_REASON_CNT'', 3),
     (''IFLA_PROTO_DOWN_REASON_MAX'', 2)]"

definition enumdecl_line_3856 :: cenum_decl where
  "enumdecl_line_3856 = EnumDecl False [
     (''IFLA_STATS_GETSET_UNSPEC'', 0), (''IFLA_STATS_GET_FILTERS'', 1),
     (''IFLA_STATS_SET_OFFLOAD_XSTATS_L3_STATS'', 2), (''__IFLA_STATS_GETSET_MAX'', 3)]"

definition enumdecl_line_3863 :: cenum_decl where
  "enumdecl_line_3863 = EnumDecl False [
     (''IFLA_STATS_UNSPEC'', 0), (''IFLA_STATS_LINK_64'', 1), (''IFLA_STATS_LINK_XSTATS'', 2),
     (''IFLA_STATS_LINK_XSTATS_SLAVE'', 3), (''IFLA_STATS_LINK_OFFLOAD_XSTATS'', 4),
     (''IFLA_STATS_AF_SPEC'', 5), (''__IFLA_STATS_MAX'', 6)]"

definition enumdecl_line_3873 :: cenum_decl where
  "enumdecl_line_3873 = EnumDecl False [
     (''IFLA_TUN_UNSPEC'', 0), (''IFLA_TUN_OWNER'', 1), (''IFLA_TUN_GROUP'', 2),
     (''IFLA_TUN_TYPE'', 3), (''IFLA_TUN_PI'', 4), (''IFLA_TUN_VNET_HDR'', 5),
     (''IFLA_TUN_PERSIST'', 6), (''IFLA_TUN_MULTI_QUEUE'', 7), (''IFLA_TUN_NUM_QUEUES'', 8),
     (''IFLA_TUN_NUM_DISABLED_QUEUES'', 9), (''__IFLA_TUN_MAX'', 10)]"

definition enumdecl_line_3887 :: cenum_decl where
  "enumdecl_line_3887 = EnumDecl False [
     (''IFLA_UNSPEC'', 0), (''IFLA_ADDRESS'', 1), (''IFLA_BROADCAST'', 2), (''IFLA_IFNAME'', 3),
     (''IFLA_MTU'', 4), (''IFLA_LINK'', 5), (''IFLA_QDISC'', 6), (''IFLA_STATS'', 7),
     (''IFLA_COST'', 8), (''IFLA_PRIORITY'', 9), (''IFLA_MASTER'', 10), (''IFLA_WIRELESS'', 11),
     (''IFLA_PROTINFO'', 12), (''IFLA_TXQLEN'', 13), (''IFLA_MAP'', 14), (''IFLA_WEIGHT'', 15),
     (''IFLA_OPERSTATE'', 16), (''IFLA_LINKMODE'', 17), (''IFLA_LINKINFO'', 18),
     (''IFLA_NET_NS_PID'', 19), (''IFLA_IFALIAS'', 20), (''IFLA_NUM_VF'', 21),
     (''IFLA_VFINFO_LIST'', 22), (''IFLA_STATS64'', 23), (''IFLA_VF_PORTS'', 24),
     (''IFLA_PORT_SELF'', 25), (''IFLA_AF_SPEC'', 26), (''IFLA_GROUP'', 27),
     (''IFLA_NET_NS_FD'', 28), (''IFLA_EXT_MASK'', 29), (''IFLA_PROMISCUITY'', 30),
     (''IFLA_NUM_TX_QUEUES'', 31), (''IFLA_NUM_RX_QUEUES'', 32), (''IFLA_CARRIER'', 33),
     (''IFLA_PHYS_PORT_ID'', 34), (''IFLA_CARRIER_CHANGES'', 35), (''IFLA_PHYS_SWITCH_ID'', 36),
     (''IFLA_LINK_NETNSID'', 37), (''IFLA_PHYS_PORT_NAME'', 38), (''IFLA_PROTO_DOWN'', 39),
     (''IFLA_GSO_MAX_SEGS'', 40), (''IFLA_GSO_MAX_SIZE'', 41), (''IFLA_PAD'', 42),
     (''IFLA_XDP'', 43), (''IFLA_EVENT'', 44), (''IFLA_NEW_NETNSID'', 45),
     (''IFLA_IF_NETNSID'', 46), (''IFLA_TARGET_NETNSID'', 46), (''IFLA_CARRIER_UP_COUNT'', 47),
     (''IFLA_CARRIER_DOWN_COUNT'', 48), (''IFLA_NEW_IFINDEX'', 49), (''IFLA_MIN_MTU'', 50),
     (''IFLA_MAX_MTU'', 51), (''IFLA_PROP_LIST'', 52), (''IFLA_ALT_IFNAME'', 53),
     (''IFLA_PERM_ADDRESS'', 54), (''IFLA_PROTO_DOWN_REASON'', 55),
     (''IFLA_PARENT_DEV_NAME'', 56), (''IFLA_PARENT_DEV_BUS_NAME'', 57),
     (''IFLA_GRO_MAX_SIZE'', 58), (''IFLA_TSO_MAX_SIZE'', 59), (''IFLA_TSO_MAX_SEGS'', 60),
     (''IFLA_ALLMULTI'', 61), (''IFLA_DEVLINK_PORT'', 62), (''IFLA_GSO_IPV4_MAX_SIZE'', 63),
     (''IFLA_GRO_IPV4_MAX_SIZE'', 64), (''IFLA_DPLL_PIN'', 65),
     (''IFLA_MAX_PACING_OFFLOAD_HORIZON'', 66), (''IFLA_NETNS_IMMUTABLE'', 67),
     (''IFLA_HEADROOM'', 68), (''IFLA_TAILROOM'', 69), (''__IFLA_MAX'', 70)]"

definition enumdecl_line_3962 :: cenum_decl where
  "enumdecl_line_3962 = EnumDecl False [
     (''IFLA_VF_INFO_UNSPEC'', 0), (''IFLA_VF_INFO'', 1), (''__IFLA_VF_INFO_MAX'', 2)]"

definition enumdecl_line_3968 :: cenum_decl where
  "enumdecl_line_3968 = EnumDecl False [
     (''IFLA_VF_PORT_UNSPEC'', 0), (''IFLA_VF_PORT'', 1), (''__IFLA_VF_PORT_MAX'', 2)]"

definition enumdecl_line_3974 :: cenum_decl where
  "enumdecl_line_3974 = EnumDecl False [
     (''IFLA_VF_STATS_RX_PACKETS'', 0), (''IFLA_VF_STATS_TX_PACKETS'', 1),
     (''IFLA_VF_STATS_RX_BYTES'', 2), (''IFLA_VF_STATS_TX_BYTES'', 3),
     (''IFLA_VF_STATS_BROADCAST'', 4), (''IFLA_VF_STATS_MULTICAST'', 5),
     (''IFLA_VF_STATS_PAD'', 6), (''IFLA_VF_STATS_RX_DROPPED'', 7),
     (''IFLA_VF_STATS_TX_DROPPED'', 8), (''__IFLA_VF_STATS_MAX'', 9)]"

definition enumdecl_line_3987 :: cenum_decl where
  "enumdecl_line_3987 = EnumDecl False [
     (''IFLA_VF_UNSPEC'', 0), (''IFLA_VF_MAC'', 1), (''IFLA_VF_VLAN'', 2),
     (''IFLA_VF_TX_RATE'', 3), (''IFLA_VF_SPOOFCHK'', 4), (''IFLA_VF_LINK_STATE'', 5),
     (''IFLA_VF_RATE'', 6), (''IFLA_VF_RSS_QUERY_EN'', 7), (''IFLA_VF_STATS'', 8),
     (''IFLA_VF_TRUST'', 9), (''IFLA_VF_IB_NODE_GUID'', 10), (''IFLA_VF_IB_PORT_GUID'', 11),
     (''IFLA_VF_VLAN_LIST'', 12), (''IFLA_VF_BROADCAST'', 13), (''__IFLA_VF_MAX'', 14)]"

definition enumdecl_line_4005 :: cenum_decl where
  "enumdecl_line_4005 = EnumDecl False [
     (''IFLA_VF_VLAN_INFO_UNSPEC'', 0), (''IFLA_VF_VLAN_INFO'', 1),
     (''__IFLA_VF_VLAN_INFO_MAX'', 2)]"

definition enumdecl_line_4011 :: cenum_decl where
  "enumdecl_line_4011 = EnumDecl False [
     (''IFLA_XDP_UNSPEC'', 0), (''IFLA_XDP_FD'', 1), (''IFLA_XDP_ATTACHED'', 2),
     (''IFLA_XDP_FLAGS'', 3), (''IFLA_XDP_PROG_ID'', 4), (''IFLA_XDP_DRV_PROG_ID'', 5),
     (''IFLA_XDP_SKB_PROG_ID'', 6), (''IFLA_XDP_HW_PROG_ID'', 7), (''IFLA_XDP_EXPECTED_FD'', 8),
     (''__IFLA_XDP_MAX'', 9)]"

definition enumdecl_line_4024 :: cenum_decl where
  "enumdecl_line_4024 = EnumDecl False [
     (''IF_ACT_NONE'', - 1), (''IF_ACT_FILTER'', 0), (''IF_ACT_START'', 1), (''IF_ACT_STOP'', 2),
     (''IF_SRC_FILE'', 3), (''IF_SRC_KERNEL'', 4), (''IF_SRC_FILEADDR'', 5),
     (''IF_SRC_KERNELADDR'', 6)]"

definition enumdecl_line_4035 :: cenum_decl where
  "enumdecl_line_4035 = EnumDecl False [
     (''IF_LINK_MODE_DEFAULT'', 0), (''IF_LINK_MODE_DORMANT'', 1), (''IF_LINK_MODE_TESTING'', 2)]"

definition enumdecl_line_4041 :: cenum_decl where
  "enumdecl_line_4041 = EnumDecl False [
     (''IF_OPER_UNKNOWN'', 0), (''IF_OPER_NOTPRESENT'', 1), (''IF_OPER_DOWN'', 2),
     (''IF_OPER_LOWERLAYERDOWN'', 3), (''IF_OPER_TESTING'', 4), (''IF_OPER_DORMANT'', 5),
     (''IF_OPER_UP'', 6)]"

definition enumdecl_line_4051 :: cenum_decl where
  "enumdecl_line_4051 = EnumDecl False [
     (''IF_STATE_ACTION'', 0), (''IF_STATE_SOURCE'', 1), (''IF_STATE_END'', 2)]"

definition enumdecl_line_4057 :: cenum_decl where
  "enumdecl_line_4057 = EnumDecl False [
     (''IIO_TOPOLOGY_TYPE'', 0), (''UPI_TOPOLOGY_TYPE'', 1), (''TOPOLOGY_MAX'', 2)]"

definition enumdecl_line_4063 :: cenum_decl where
  "enumdecl_line_4063 = EnumDecl False [
     (''INET6_IFADDR_STATE_PREDAD'', 0), (''INET6_IFADDR_STATE_DAD'', 1),
     (''INET6_IFADDR_STATE_POSTDAD'', 2), (''INET6_IFADDR_STATE_ERRDAD'', 3),
     (''INET6_IFADDR_STATE_DEAD'', 4)]"

definition enumdecl_line_4071 :: cenum_decl where
  "enumdecl_line_4071 = EnumDecl False [
     (''INET_DIAG_REQ_NONE'', 0), (''INET_DIAG_REQ_BYTECODE'', 1),
     (''INET_DIAG_REQ_SK_BPF_STORAGES'', 2), (''INET_DIAG_REQ_PROTOCOL'', 3),
     (''__INET_DIAG_REQ_MAX'', 4)]"

definition enumdecl_line_4079 :: cenum_decl where
  "enumdecl_line_4079 = EnumDecl False [
     (''INET_ECN_NOT_ECT'', 0), (''INET_ECN_ECT_1'', 1), (''INET_ECN_ECT_0'', 2),
     (''INET_ECN_CE'', 3), (''INET_ECN_MASK'', 3)]"

definition enumdecl_line_4087 :: cenum_decl where
  "enumdecl_line_4087 = EnumDecl False [
     (''INET_FLAGS_PKTINFO'', 0), (''INET_FLAGS_TTL'', 1), (''INET_FLAGS_TOS'', 2),
     (''INET_FLAGS_RECVOPTS'', 3), (''INET_FLAGS_RETOPTS'', 4), (''INET_FLAGS_PASSSEC'', 5),
     (''INET_FLAGS_ORIGDSTADDR'', 6), (''INET_FLAGS_CHECKSUM'', 7),
     (''INET_FLAGS_RECVFRAGSIZE'', 8), (''INET_FLAGS_RECVERR'', 9),
     (''INET_FLAGS_RECVERR_RFC4884'', 10), (''INET_FLAGS_FREEBIND'', 11),
     (''INET_FLAGS_HDRINCL'', 12), (''INET_FLAGS_MC_LOOP'', 13), (''INET_FLAGS_MC_ALL'', 14),
     (''INET_FLAGS_TRANSPARENT'', 15), (''INET_FLAGS_IS_ICSK'', 16),
     (''INET_FLAGS_NODEFRAG'', 17), (''INET_FLAGS_BIND_ADDRESS_NO_PORT'', 18),
     (''INET_FLAGS_DEFER_CONNECT'', 19), (''INET_FLAGS_MC6_LOOP'', 20),
     (''INET_FLAGS_RECVERR6_RFC4884'', 21), (''INET_FLAGS_MC6_ALL'', 22),
     (''INET_FLAGS_AUTOFLOWLABEL_SET'', 23), (''INET_FLAGS_AUTOFLOWLABEL'', 24),
     (''INET_FLAGS_DONTFRAG'', 25), (''INET_FLAGS_RECVERR6'', 26), (''INET_FLAGS_REPFLOW'', 27),
     (''INET_FLAGS_RTALERT_ISOLATE'', 28), (''INET_FLAGS_SNDFLOW'', 29),
     (''INET_FLAGS_RTALERT'', 30)]"

definition enumdecl_line_4121 :: cenum_decl where
  "enumdecl_line_4121 = EnumDecl False [
     (''INET_FRAG_FIRST_IN'', 1), (''INET_FRAG_LAST_IN'', 2), (''INET_FRAG_COMPLETE'', 4),
     (''INET_FRAG_HASH_DEAD'', 8), (''INET_FRAG_DROP'', 16)]"

definition enumdecl_line_4129 :: cenum_decl where
  "enumdecl_line_4129 = EnumDecl False [
     (''INET_ULP_INFO_UNSPEC'', 0), (''INET_ULP_INFO_NAME'', 1), (''INET_ULP_INFO_TLS'', 2),
     (''INET_ULP_INFO_MPTCP'', 3), (''__INET_ULP_INFO_MAX'', 4)]"

definition enumdecl_line_4137 :: cenum_decl where
  "enumdecl_line_4137 = EnumDecl False [
     (''INSN_F_FRAMENO_MASK'', 7), (''INSN_F_SPI_MASK'', 63), (''INSN_F_SPI_SHIFT'', 3),
     (''INSN_F_STACK_ACCESS'', 512), (''INSN_F_DST_REG_STACK'', 1024),
     (''INSN_F_SRC_REG_STACK'', 2048)]"

definition enumdecl_line_4146 :: cenum_decl where
  "enumdecl_line_4146 = EnumDecl False [
     (''INTEL_GPIO_BASE_ZERO'', - 2), (''INTEL_GPIO_BASE_NOMAP'', - 1),
     (''INTEL_GPIO_BASE_MATCH'', 0)]"

definition enumdecl_line_4152 :: cenum_decl where
  "enumdecl_line_4152 = EnumDecl False [
     (''INVERT'', 1), (''PROCESS_AND'', 2), (''PROCESS_OR'', 4)]"

definition enumdecl_line_4158 :: cenum_decl where
  "enumdecl_line_4158 = EnumDecl False [
     (''IOAM6_ATTR_UNSPEC'', 0), (''IOAM6_ATTR_NS_ID'', 1), (''IOAM6_ATTR_NS_DATA'', 2),
     (''IOAM6_ATTR_NS_DATA_WIDE'', 3), (''IOAM6_ATTR_SC_ID'', 4), (''IOAM6_ATTR_SC_DATA'', 5),
     (''IOAM6_ATTR_SC_NONE'', 6), (''IOAM6_ATTR_PAD'', 7), (''__IOAM6_ATTR_MAX'', 8)]"

definition enumdecl_line_4170 :: cenum_decl where
  "enumdecl_line_4170 = EnumDecl False [
     (''IOAM6_CMD_UNSPEC'', 0), (''IOAM6_CMD_ADD_NAMESPACE'', 1),
     (''IOAM6_CMD_DEL_NAMESPACE'', 2), (''IOAM6_CMD_DUMP_NAMESPACES'', 3),
     (''IOAM6_CMD_ADD_SCHEMA'', 4), (''IOAM6_CMD_DEL_SCHEMA'', 5),
     (''IOAM6_CMD_DUMP_SCHEMAS'', 6), (''IOAM6_CMD_NS_SET_SCHEMA'', 7), (''__IOAM6_CMD_MAX'', 8)]"

definition enumdecl_line_4182 :: cenum_decl where
  "enumdecl_line_4182 = EnumDecl False [
     (''IOAM6_IPTUNNEL_UNSPEC'', 0), (''IOAM6_IPTUNNEL_MODE'', 1), (''IOAM6_IPTUNNEL_DST'', 2),
     (''IOAM6_IPTUNNEL_TRACE'', 3), (''IOAM6_IPTUNNEL_FREQ_K'', 4),
     (''IOAM6_IPTUNNEL_FREQ_N'', 5), (''IOAM6_IPTUNNEL_SRC'', 6), (''__IOAM6_IPTUNNEL_MAX'', 7)]"

definition enumdecl_line_4193 :: cenum_decl where
  "enumdecl_line_4193 = EnumDecl False [
     (''IOBL_BUF_RING'', 1), (''IOBL_INC'', 2)]"

definition enumdecl_line_4198 :: cenum_decl where
  "enumdecl_line_4198 = EnumDecl False [
     (''IOCB_CMD_PREAD'', 0), (''IOCB_CMD_PWRITE'', 1), (''IOCB_CMD_FSYNC'', 2),
     (''IOCB_CMD_FDSYNC'', 3), (''IOCB_CMD_POLL'', 5), (''IOCB_CMD_NOOP'', 6),
     (''IOCB_CMD_PREADV'', 7), (''IOCB_CMD_PWRITEV'', 8)]"

definition enumdecl_line_4209 :: cenum_decl where
  "enumdecl_line_4209 = EnumDecl False [
     (''IOMMU_PASID_ARRAY_DOMAIN'', 0), (''IOMMU_PASID_ARRAY_HANDLE'', 1)]"

definition enumdecl_line_4214 :: cenum_decl where
  "enumdecl_line_4214 = EnumDecl False [
     (''IOMMU_SET_DOMAIN_MUST_SUCCEED'', 1)]"

definition enumdecl_line_4218 :: cenum_decl where
  "enumdecl_line_4218 = EnumDecl False [
     (''IOPRIO_CLASS_NONE'', 0), (''IOPRIO_CLASS_RT'', 1), (''IOPRIO_CLASS_BE'', 2),
     (''IOPRIO_CLASS_IDLE'', 3), (''IOPRIO_CLASS_INVALID'', 7)]"

definition enumdecl_line_4226 :: cenum_decl where
  "enumdecl_line_4226 = EnumDecl False [
     (''IOPRIO_HINT_NONE'', 0), (''IOPRIO_HINT_DEV_DURATION_LIMIT_1'', 1),
     (''IOPRIO_HINT_DEV_DURATION_LIMIT_2'', 2), (''IOPRIO_HINT_DEV_DURATION_LIMIT_3'', 3),
     (''IOPRIO_HINT_DEV_DURATION_LIMIT_4'', 4), (''IOPRIO_HINT_DEV_DURATION_LIMIT_5'', 5),
     (''IOPRIO_HINT_DEV_DURATION_LIMIT_6'', 6), (''IOPRIO_HINT_DEV_DURATION_LIMIT_7'', 7)]"

definition enumdecl_line_4237 :: cenum_decl where
  "enumdecl_line_4237 = EnumDecl False [
     (''IOPRIO_WHO_PROCESS'', 1), (''IOPRIO_WHO_PGRP'', 2), (''IOPRIO_WHO_USER'', 3)]"

definition enumdecl_line_4243 :: cenum_decl where
  "enumdecl_line_4243 = EnumDecl False [
     (''IORES_DESC_NONE'', 0), (''IORES_DESC_CRASH_KERNEL'', 1), (''IORES_DESC_ACPI_TABLES'', 2),
     (''IORES_DESC_ACPI_NV_STORAGE'', 3), (''IORES_DESC_PERSISTENT_MEMORY'', 4),
     (''IORES_DESC_PERSISTENT_MEMORY_LEGACY'', 5), (''IORES_DESC_DEVICE_PRIVATE_MEMORY'', 6),
     (''IORES_DESC_RESERVED'', 7), (''IORES_DESC_SOFT_RESERVED'', 8), (''IORES_DESC_CXL'', 9)]"

definition enumdecl_line_4256 :: cenum_decl where
  "enumdecl_line_4256 = EnumDecl False [
     (''IORES_MAP_SYSTEM_RAM'', 1), (''IORES_MAP_ENCRYPTED'', 2)]"

definition enumdecl_line_4261 :: cenum_decl where
  "enumdecl_line_4261 = EnumDecl False [
     (''IORING_MEM_REGION_REG_WAIT_ARG'', 1)]"

definition enumdecl_line_4265 :: cenum_decl where
  "enumdecl_line_4265 = EnumDecl False [
     (''IORING_MEM_REGION_TYPE_USER'', 1)]"

definition enumdecl_line_4269 :: cenum_decl where
  "enumdecl_line_4269 = EnumDecl False [
     (''IORING_REGISTER_SRC_REGISTERED'', 1), (''IORING_REGISTER_DST_REPLACE'', 2)]"

definition enumdecl_line_4274 :: cenum_decl where
  "enumdecl_line_4274 = EnumDecl False [
     (''IORING_REG_WAIT_TS'', 1)]"

definition enumdecl_line_4278 :: cenum_decl where
  "enumdecl_line_4278 = EnumDecl False [
     (''IORING_RSRC_FILE'', 0), (''IORING_RSRC_BUFFER'', 1)]"

definition enumdecl_line_4283 :: cenum_decl where
  "enumdecl_line_4283 = EnumDecl False [
     (''IOU_COMPLETE'', 0), (''IOU_ISSUE_SKIP_COMPLETE'', - 529), (''IOU_RETRY'', - 11),
     (''IOU_REQUEUE'', - 3072)]"

definition enumdecl_line_4290 :: cenum_decl where
  "enumdecl_line_4290 = EnumDecl False [
     (''IOU_F_TWQ_LAZY_WAKE'', 1)]"

definition enumdecl_line_4294 :: cenum_decl where
  "enumdecl_line_4294 = EnumDecl False [
     (''IOU_POLL_DONE'', 0), (''IOU_POLL_NO_ACTION'', 1), (''IOU_POLL_REMOVE_POLL_USE_RES'', 2),
     (''IOU_POLL_REISSUE'', 3), (''IOU_POLL_REQUEUE'', 4)]"

definition enumdecl_line_4302 :: cenum_decl where
  "enumdecl_line_4302 = EnumDecl False [
     (''IO_ACCT_STALLED_BIT'', 0)]"

definition enumdecl_line_4306 :: cenum_decl where
  "enumdecl_line_4306 = EnumDecl False [
     (''IO_APOLL_OK'', 0), (''IO_APOLL_ABORTED'', 1), (''IO_APOLL_READY'', 2)]"

definition enumdecl_line_4312 :: cenum_decl where
  "enumdecl_line_4312 = EnumDecl False [
     (''IO_CHECK_CQ_OVERFLOW_BIT'', 0), (''IO_CHECK_CQ_DROPPED_BIT'', 1)]"

definition enumdecl_line_4317 :: cenum_decl where
  "enumdecl_line_4317 = EnumDecl False [
     (''IO_EVENTFD_OP_SIGNAL_BIT'', 0)]"

definition enumdecl_line_4321 :: cenum_decl where
  "enumdecl_line_4321 = EnumDecl False [
     (''IO_IMU_DEST'', 1), (''IO_IMU_SOURCE'', 2)]"

definition enumdecl_line_4326 :: cenum_decl where
  "enumdecl_line_4326 = EnumDecl False [
     (''IO_REGBUF_F_KBUF'', 1)]"

definition enumdecl_line_4330 :: cenum_decl where
  "enumdecl_line_4330 = EnumDecl False [
     (''IO_REGION_F_VMAP'', 1), (''IO_REGION_F_USER_PROVIDED'', 2),
     (''IO_REGION_F_SINGLE_REF'', 4)]"

definition enumdecl_line_4336 :: cenum_decl where
  "enumdecl_line_4336 = EnumDecl False [
     (''IO_SQ_THREAD_SHOULD_STOP'', 0), (''IO_SQ_THREAD_SHOULD_PARK'', 1)]"

definition enumdecl_line_4341 :: cenum_decl where
  "enumdecl_line_4341 = EnumDecl False [
     (''IO_URING_BPF_CMD_FILTER'', 1)]"

definition enumdecl_line_4345 :: cenum_decl where
  "enumdecl_line_4345 = EnumDecl False [
     (''IO_URING_BPF_FILTER_DENY_REST'', 1), (''IO_URING_BPF_FILTER_SZ_STRICT'', 2)]"

definition enumdecl_line_4350 :: cenum_decl where
  "enumdecl_line_4350 = EnumDecl False [
     (''IO_URING_QUERY_OPCODES'', 0), (''IO_URING_QUERY_ZCRX'', 1), (''IO_URING_QUERY_SCQ'', 2),
     (''__IO_URING_QUERY_MAX'', 3)]"

definition enumdecl_line_4357 :: cenum_decl where
  "enumdecl_line_4357 = EnumDecl False [
     (''IO_WORKER_F_UP'', 0), (''IO_WORKER_F_RUNNING'', 1), (''IO_WORKER_F_FREE'', 2)]"

definition enumdecl_line_4363 :: cenum_decl where
  "enumdecl_line_4363 = EnumDecl False [
     (''IO_WQ_ACCT_BOUND'', 0), (''IO_WQ_ACCT_UNBOUND'', 1), (''IO_WQ_ACCT_NR'', 2)]"

definition enumdecl_line_4369 :: cenum_decl where
  "enumdecl_line_4369 = EnumDecl False [
     (''IO_WQ_BIT_EXIT'', 0), (''IO_WQ_BIT_EXIT_ON_IDLE'', 1)]"

definition enumdecl_line_4374 :: cenum_decl where
  "enumdecl_line_4374 = EnumDecl False [
     (''IO_WQ_WORK_CANCEL'', 1), (''IO_WQ_WORK_HASHED'', 2), (''IO_WQ_WORK_UNBOUND'', 4),
     (''IO_WQ_WORK_CONCURRENT'', 16), (''IO_WQ_HASH_SHIFT'', 24)]"

definition enumdecl_line_4382 :: cenum_decl where
  "enumdecl_line_4382 = EnumDecl False [
     (''IP6MRA_CREPORT_UNSPEC'', 0), (''IP6MRA_CREPORT_MSGTYPE'', 1),
     (''IP6MRA_CREPORT_MIF_ID'', 2), (''IP6MRA_CREPORT_SRC_ADDR'', 3),
     (''IP6MRA_CREPORT_DST_ADDR'', 4), (''IP6MRA_CREPORT_PKT'', 5), (''__IP6MRA_CREPORT_MAX'', 6)]"

definition enumdecl_line_4392 :: cenum_decl where
  "enumdecl_line_4392 = EnumDecl False [
     (''IP6_FH_F_FRAG'', 1), (''IP6_FH_F_AUTH'', 2), (''IP6_FH_F_SKIP_RH'', 4)]"

definition enumdecl_line_4398 :: cenum_decl where
  "enumdecl_line_4398 = EnumDecl False [
     (''IPMRA_CREPORT_UNSPEC'', 0), (''IPMRA_CREPORT_MSGTYPE'', 1),
     (''IPMRA_CREPORT_VIF_ID'', 2), (''IPMRA_CREPORT_SRC_ADDR'', 3),
     (''IPMRA_CREPORT_DST_ADDR'', 4), (''IPMRA_CREPORT_PKT'', 5), (''IPMRA_CREPORT_TABLE'', 6),
     (''__IPMRA_CREPORT_MAX'', 7)]"

definition enumdecl_line_4409 :: cenum_decl where
  "enumdecl_line_4409 = EnumDecl False [
     (''IPMRA_TABLE_UNSPEC'', 0), (''IPMRA_TABLE_ID'', 1),
     (''IPMRA_TABLE_CACHE_RES_QUEUE_LEN'', 2), (''IPMRA_TABLE_MROUTE_REG_VIF_NUM'', 3),
     (''IPMRA_TABLE_MROUTE_DO_ASSERT'', 4), (''IPMRA_TABLE_MROUTE_DO_PIM'', 5),
     (''IPMRA_TABLE_VIFS'', 6), (''IPMRA_TABLE_MROUTE_DO_WRVIFWHOLE'', 7),
     (''__IPMRA_TABLE_MAX'', 8)]"

definition enumdecl_line_4421 :: cenum_decl where
  "enumdecl_line_4421 = EnumDecl False [
     (''IPMRA_VIFA_UNSPEC'', 0), (''IPMRA_VIFA_IFINDEX'', 1), (''IPMRA_VIFA_VIF_ID'', 2),
     (''IPMRA_VIFA_FLAGS'', 3), (''IPMRA_VIFA_BYTES_IN'', 4), (''IPMRA_VIFA_BYTES_OUT'', 5),
     (''IPMRA_VIFA_PACKETS_IN'', 6), (''IPMRA_VIFA_PACKETS_OUT'', 7),
     (''IPMRA_VIFA_LOCAL_ADDR'', 8), (''IPMRA_VIFA_REMOTE_ADDR'', 9), (''IPMRA_VIFA_PAD'', 10),
     (''__IPMRA_VIFA_MAX'', 11)]"

definition enumdecl_line_4436 :: cenum_decl where
  "enumdecl_line_4436 = EnumDecl False [
     (''IPMRA_VIF_UNSPEC'', 0), (''IPMRA_VIF'', 1), (''__IPMRA_VIF_MAX'', 2)]"

definition enumdecl_line_4442 :: cenum_decl where
  "enumdecl_line_4442 = EnumDecl False [
     (''IPPROTO_IP'', 0), (''IPPROTO_ICMP'', 1), (''IPPROTO_IGMP'', 2), (''IPPROTO_IPIP'', 4),
     (''IPPROTO_TCP'', 6), (''IPPROTO_EGP'', 8), (''IPPROTO_PUP'', 12), (''IPPROTO_UDP'', 17),
     (''IPPROTO_IDP'', 22), (''IPPROTO_TP'', 29), (''IPPROTO_DCCP'', 33), (''IPPROTO_IPV6'', 41),
     (''IPPROTO_RSVP'', 46), (''IPPROTO_GRE'', 47), (''IPPROTO_ESP'', 50), (''IPPROTO_AH'', 51),
     (''IPPROTO_MTP'', 92), (''IPPROTO_BEETPH'', 94), (''IPPROTO_ENCAP'', 98),
     (''IPPROTO_PIM'', 103), (''IPPROTO_COMP'', 108), (''IPPROTO_L2TP'', 115),
     (''IPPROTO_SCTP'', 132), (''IPPROTO_UDPLITE'', 136), (''IPPROTO_MPLS'', 137),
     (''IPPROTO_ETHERNET'', 143), (''IPPROTO_AGGFRAG'', 144), (''IPPROTO_RAW'', 255),
     (''IPPROTO_SMC'', 256), (''IPPROTO_MPTCP'', 262), (''IPPROTO_MAX'', 263)]"

definition enumdecl_line_4476 :: cenum_decl where
  "enumdecl_line_4476 = EnumDecl False [
     (''IPSTATS_MIB_NUM'', 0), (''IPSTATS_MIB_INPKTS'', 1), (''IPSTATS_MIB_INOCTETS'', 2),
     (''IPSTATS_MIB_INDELIVERS'', 3), (''IPSTATS_MIB_NOECTPKTS'', 4),
     (''IPSTATS_MIB_ECT1PKTS'', 5), (''IPSTATS_MIB_ECT0PKTS'', 6), (''IPSTATS_MIB_CEPKTS'', 7),
     (''IPSTATS_MIB_OUTREQUESTS'', 8), (''IPSTATS_MIB_OUTPKTS'', 9),
     (''IPSTATS_MIB_OUTOCTETS'', 10), (''IPSTATS_MIB_OUTFORWDATAGRAMS'', 11),
     (''IPSTATS_MIB_INHDRERRORS'', 12), (''IPSTATS_MIB_INTOOBIGERRORS'', 13),
     (''IPSTATS_MIB_INNOROUTES'', 14), (''IPSTATS_MIB_INADDRERRORS'', 15),
     (''IPSTATS_MIB_INUNKNOWNPROTOS'', 16), (''IPSTATS_MIB_INTRUNCATEDPKTS'', 17),
     (''IPSTATS_MIB_INDISCARDS'', 18), (''IPSTATS_MIB_OUTDISCARDS'', 19),
     (''IPSTATS_MIB_OUTNOROUTES'', 20), (''IPSTATS_MIB_REASMTIMEOUT'', 21),
     (''IPSTATS_MIB_REASMREQDS'', 22), (''IPSTATS_MIB_REASMOKS'', 23),
     (''IPSTATS_MIB_REASMFAILS'', 24), (''IPSTATS_MIB_FRAGOKS'', 25),
     (''IPSTATS_MIB_FRAGFAILS'', 26), (''IPSTATS_MIB_FRAGCREATES'', 27),
     (''IPSTATS_MIB_INMCASTPKTS'', 28), (''IPSTATS_MIB_OUTMCASTPKTS'', 29),
     (''IPSTATS_MIB_INBCASTPKTS'', 30), (''IPSTATS_MIB_OUTBCASTPKTS'', 31),
     (''IPSTATS_MIB_INMCASTOCTETS'', 32), (''IPSTATS_MIB_OUTMCASTOCTETS'', 33),
     (''IPSTATS_MIB_INBCASTOCTETS'', 34), (''IPSTATS_MIB_OUTBCASTOCTETS'', 35),
     (''IPSTATS_MIB_CSUMERRORS'', 36), (''IPSTATS_MIB_REASM_OVERLAPS'', 37),
     (''__IPSTATS_MIB_MAX'', 38)]"

definition enumdecl_line_4518 :: cenum_decl where
  "enumdecl_line_4518 = EnumDecl False [
     (''IPV4_DEVCONF_FORWARDING'', 1), (''IPV4_DEVCONF_MC_FORWARDING'', 2),
     (''IPV4_DEVCONF_PROXY_ARP'', 3), (''IPV4_DEVCONF_ACCEPT_REDIRECTS'', 4),
     (''IPV4_DEVCONF_SECURE_REDIRECTS'', 5), (''IPV4_DEVCONF_SEND_REDIRECTS'', 6),
     (''IPV4_DEVCONF_SHARED_MEDIA'', 7), (''IPV4_DEVCONF_RP_FILTER'', 8),
     (''IPV4_DEVCONF_ACCEPT_SOURCE_ROUTE'', 9), (''IPV4_DEVCONF_BOOTP_RELAY'', 10),
     (''IPV4_DEVCONF_LOG_MARTIANS'', 11), (''IPV4_DEVCONF_TAG'', 12),
     (''IPV4_DEVCONF_ARPFILTER'', 13), (''IPV4_DEVCONF_MEDIUM_ID'', 14),
     (''IPV4_DEVCONF_NOXFRM'', 15), (''IPV4_DEVCONF_NOPOLICY'', 16),
     (''IPV4_DEVCONF_FORCE_IGMP_VERSION'', 17), (''IPV4_DEVCONF_ARP_ANNOUNCE'', 18),
     (''IPV4_DEVCONF_ARP_IGNORE'', 19), (''IPV4_DEVCONF_PROMOTE_SECONDARIES'', 20),
     (''IPV4_DEVCONF_ARP_ACCEPT'', 21), (''IPV4_DEVCONF_ARP_NOTIFY'', 22),
     (''IPV4_DEVCONF_ACCEPT_LOCAL'', 23), (''IPV4_DEVCONF_SRC_VMARK'', 24),
     (''IPV4_DEVCONF_PROXY_ARP_PVLAN'', 25), (''IPV4_DEVCONF_ROUTE_LOCALNET'', 26),
     (''IPV4_DEVCONF_IGMPV2_UNSOLICITED_REPORT_INTERVAL'', 27),
     (''IPV4_DEVCONF_IGMPV3_UNSOLICITED_REPORT_INTERVAL'', 28),
     (''IPV4_DEVCONF_IGNORE_ROUTES_WITH_LINKDOWN'', 29),
     (''IPV4_DEVCONF_DROP_UNICAST_IN_L2_MULTICAST'', 30),
     (''IPV4_DEVCONF_DROP_GRATUITOUS_ARP'', 31), (''IPV4_DEVCONF_BC_FORWARDING'', 32),
     (''IPV4_DEVCONF_ARP_EVICT_NOCARRIER'', 33), (''__IPV4_DEVCONF_MAX'', 34)]"

definition enumdecl_line_4555 :: cenum_decl where
  "enumdecl_line_4555 = EnumDecl False [
     (''IPV6_SADDR_RULE_INIT'', 0), (''IPV6_SADDR_RULE_LOCAL'', 1),
     (''IPV6_SADDR_RULE_SCOPE'', 2), (''IPV6_SADDR_RULE_PREFERRED'', 3),
     (''IPV6_SADDR_RULE_OIF'', 4), (''IPV6_SADDR_RULE_LABEL'', 5),
     (''IPV6_SADDR_RULE_PRIVACY'', 6), (''IPV6_SADDR_RULE_ORCHID'', 7),
     (''IPV6_SADDR_RULE_PREFIX'', 8), (''IPV6_SADDR_RULE_NOT_OPTIMISTIC'', 9),
     (''IPV6_SADDR_RULE_MAX'', 10)]"

definition enumdecl_line_4569 :: cenum_decl where
  "enumdecl_line_4569 = EnumDecl False [
     (''IP_TUNNEL_CSUM_BIT'', 0), (''IP_TUNNEL_ROUTING_BIT'', 1), (''IP_TUNNEL_KEY_BIT'', 2),
     (''IP_TUNNEL_SEQ_BIT'', 3), (''IP_TUNNEL_STRICT_BIT'', 4), (''IP_TUNNEL_REC_BIT'', 5),
     (''IP_TUNNEL_VERSION_BIT'', 6), (''IP_TUNNEL_NO_KEY_BIT'', 7),
     (''IP_TUNNEL_DONT_FRAGMENT_BIT'', 8), (''IP_TUNNEL_OAM_BIT'', 9),
     (''IP_TUNNEL_CRIT_OPT_BIT'', 10), (''IP_TUNNEL_GENEVE_OPT_BIT'', 11),
     (''IP_TUNNEL_VXLAN_OPT_BIT'', 12), (''IP_TUNNEL_NOCACHE_BIT'', 13),
     (''IP_TUNNEL_ERSPAN_OPT_BIT'', 14), (''IP_TUNNEL_GTP_OPT_BIT'', 15),
     (''IP_TUNNEL_VTI_BIT'', 16), (''IP_TUNNEL_SIT_ISATAP_BIT'', 16),
     (''IP_TUNNEL_PFCP_OPT_BIT'', 17), (''__IP_TUNNEL_FLAG_NUM'', 18)]"

definition enumdecl_line_4592 :: cenum_decl where
  "enumdecl_line_4592 = EnumDecl False [
     (''IRQCHIP_FWNODE_REAL'', 0), (''IRQCHIP_FWNODE_NAMED'', 1),
     (''IRQCHIP_FWNODE_NAMED_ID'', 2)]"

definition enumdecl_line_4598 :: cenum_decl where
  "enumdecl_line_4598 = EnumDecl False [
     (''IRQCHIP_SET_TYPE_MASKED'', 1), (''IRQCHIP_EOI_IF_HANDLED'', 2),
     (''IRQCHIP_MASK_ON_SUSPEND'', 4), (''IRQCHIP_ONOFFLINE_ENABLED'', 8),
     (''IRQCHIP_SKIP_SET_WAKE'', 16), (''IRQCHIP_ONESHOT_SAFE'', 32),
     (''IRQCHIP_EOI_THREADED'', 64), (''IRQCHIP_SUPPORTS_LEVEL_MSI'', 128),
     (''IRQCHIP_SUPPORTS_NMI'', 256), (''IRQCHIP_ENABLE_WAKEUP_ON_SUSPEND'', 512),
     (''IRQCHIP_AFFINITY_PRE_STARTUP'', 1024), (''IRQCHIP_IMMUTABLE'', 2048),
     (''IRQCHIP_MOVE_DEFERRED'', 4096)]"

definition enumdecl_line_4614 :: cenum_decl where
  "enumdecl_line_4614 = EnumDecl False [
     (''IRQC_IS_HARDIRQ'', 0), (''IRQC_IS_NESTED'', 1)]"

definition enumdecl_line_4619 :: cenum_decl where
  "enumdecl_line_4619 = EnumDecl False [
     (''IRQD_TRIGGER_MASK'', 15), (''IRQD_SETAFFINITY_PENDING'', 256), (''IRQD_ACTIVATED'', 512),
     (''IRQD_NO_BALANCING'', 1024), (''IRQD_PER_CPU'', 2048), (''IRQD_AFFINITY_SET'', 4096),
     (''IRQD_LEVEL'', 8192), (''IRQD_WAKEUP_STATE'', 16384), (''IRQD_IRQ_DISABLED'', 65536),
     (''IRQD_IRQ_MASKED'', 131072), (''IRQD_IRQ_INPROGRESS'', 262144),
     (''IRQD_WAKEUP_ARMED'', 524288), (''IRQD_FORWARDED_TO_VCPU'', 1048576),
     (''IRQD_AFFINITY_MANAGED'', 2097152), (''IRQD_IRQ_STARTED'', 4194304),
     (''IRQD_MANAGED_SHUTDOWN'', 8388608), (''IRQD_SINGLE_TARGET'', 16777216),
     (''IRQD_DEFAULT_TRIGGER_SET'', 33554432), (''IRQD_CAN_RESERVE'', 67108864),
     (''IRQD_HANDLE_ENFORCE_IRQCTX'', 134217728), (''IRQD_AFFINITY_ON_ACTIVATE'', 268435456),
     (''IRQD_IRQ_ENABLED_ON_SUSPEND'', 536870912), (''IRQD_RESEND_WHEN_IN_PROGRESS'', 1073741824)]"

definition enumdecl_line_4645 :: cenum_decl where
  "enumdecl_line_4645 = EnumDecl False [
     (''IRQS_AUTODETECT'', 1), (''IRQS_SPURIOUS_DISABLED'', 2), (''IRQS_POLL_INPROGRESS'', 8),
     (''IRQS_ONESHOT'', 32), (''IRQS_REPLAY'', 64), (''IRQS_WAITING'', 128),
     (''IRQS_PENDING'', 512), (''IRQS_SUSPENDED'', 2048), (''IRQS_TIMINGS'', 4096),
     (''IRQS_NMI'', 8192), (''IRQS_SYSFS'', 16384)]"

definition enumdecl_line_4659 :: cenum_decl where
  "enumdecl_line_4659 = EnumDecl False [
     (''IRQTF_RUNTHREAD'', 0), (''IRQTF_WARNED'', 1), (''IRQTF_AFFINITY'', 2),
     (''IRQTF_FORCED_THREAD'', 3), (''IRQTF_READY'', 4)]"

definition enumdecl_line_4667 :: cenum_decl where
  "enumdecl_line_4667 = EnumDecl False [
     (''IRQ_DOMAIN_FLAG_HIERARCHY'', 1), (''IRQ_DOMAIN_NAME_ALLOCATED'', 2),
     (''IRQ_DOMAIN_FLAG_IPI_PER_CPU'', 4), (''IRQ_DOMAIN_FLAG_IPI_SINGLE'', 8),
     (''IRQ_DOMAIN_FLAG_MSI'', 16), (''IRQ_DOMAIN_FLAG_ISOLATED_MSI'', 32),
     (''IRQ_DOMAIN_FLAG_NO_MAP'', 64), (''IRQ_DOMAIN_FLAG_MSI_PARENT'', 256),
     (''IRQ_DOMAIN_FLAG_MSI_DEVICE'', 512), (''IRQ_DOMAIN_FLAG_DESTROY_GC'', 1024),
     (''IRQ_DOMAIN_FLAG_MSI_IMMUTABLE'', 2048), (''IRQ_DOMAIN_FLAG_FWNODE_PARENT'', 4096),
     (''IRQ_DOMAIN_FLAG_NONCORE'', 65536)]"

definition enumdecl_line_4683 :: cenum_decl where
  "enumdecl_line_4683 = EnumDecl False [
     (''IRQ_POLL_F_SCHED'', 0), (''IRQ_POLL_F_DISABLE'', 1)]"

definition enumdecl_line_4688 :: cenum_decl where
  "enumdecl_line_4688 = EnumDecl False [
     (''IRQ_REMAP_XAPIC_MODE'', 0), (''IRQ_REMAP_X2APIC_MODE'', 1)]"

definition enumdecl_line_4693 :: cenum_decl where
  "enumdecl_line_4693 = EnumDecl False [
     (''IRQ_SET_MASK_OK'', 0), (''IRQ_SET_MASK_OK_NOCOPY'', 1), (''IRQ_SET_MASK_OK_DONE'', 2)]"

definition enumdecl_line_4699 :: cenum_decl where
  "enumdecl_line_4699 = EnumDecl False [
     (''IRQ_STARTUP_NORMAL'', 0), (''IRQ_STARTUP_MANAGED'', 1), (''IRQ_STARTUP_ABORT'', 2)]"

definition enumdecl_line_4705 :: cenum_decl where
  "enumdecl_line_4705 = EnumDecl False [
     (''IRQ_TYPE_NONE'', 0), (''IRQ_TYPE_EDGE_RISING'', 1), (''IRQ_TYPE_EDGE_FALLING'', 2),
     (''IRQ_TYPE_EDGE_BOTH'', 3), (''IRQ_TYPE_LEVEL_HIGH'', 4), (''IRQ_TYPE_LEVEL_LOW'', 8),
     (''IRQ_TYPE_LEVEL_MASK'', 12), (''IRQ_TYPE_SENSE_MASK'', 15), (''IRQ_TYPE_DEFAULT'', 15),
     (''IRQ_TYPE_PROBE'', 16), (''IRQ_LEVEL'', 256), (''IRQ_PER_CPU'', 512),
     (''IRQ_NOPROBE'', 1024), (''IRQ_NOREQUEST'', 2048), (''IRQ_NOAUTOEN'', 4096),
     (''IRQ_NO_BALANCING'', 8192), (''IRQ_NESTED_THREAD'', 32768), (''IRQ_NOTHREAD'', 65536),
     (''IRQ_PER_CPU_DEVID'', 131072), (''IRQ_IS_POLLED'', 262144),
     (''IRQ_DISABLE_UNLAZY'', 524288), (''IRQ_HIDDEN'', 1048576), (''IRQ_NO_DEBUG'', 2097152)]"

definition enumdecl_line_4731 :: cenum_decl where
  "enumdecl_line_4731 = EnumDecl False [
     (''IVBEP_PCI_UNCORE_HA'', 0), (''IVBEP_PCI_UNCORE_IMC'', 1), (''IVBEP_PCI_UNCORE_IRP'', 2),
     (''IVBEP_PCI_UNCORE_QPI'', 3), (''IVBEP_PCI_UNCORE_R2PCIE'', 4),
     (''IVBEP_PCI_UNCORE_R3QPI'', 5)]"

definition enumdecl_line_4740 :: cenum_decl where
  "enumdecl_line_4740 = EnumDecl False [
     (''I_DATA_SEM_NORMAL'', 0), (''I_DATA_SEM_OTHER'', 1), (''I_DATA_SEM_QUOTA'', 2),
     (''I_DATA_SEM_EA'', 3)]"

definition enumdecl_line_4747 :: cenum_decl where
  "enumdecl_line_4747 = EnumDecl False [
     (''I_LCOEF_RBPS'', 0), (''I_LCOEF_RSEQIOPS'', 1), (''I_LCOEF_RRANDIOPS'', 2),
     (''I_LCOEF_WBPS'', 3), (''I_LCOEF_WSEQIOPS'', 4), (''I_LCOEF_WRANDIOPS'', 5),
     (''NR_I_LCOEFS'', 6)]"

definition enumdecl_line_4757 :: cenum_decl where
  "enumdecl_line_4757 = EnumDecl False [
     (''KBUF_MODE_EXPAND'', 1), (''KBUF_MODE_FREE'', 2)]"

definition enumdecl_line_4762 :: cenum_decl where
  "enumdecl_line_4762 = EnumDecl False [
     (''KDB_NOT_INITIALIZED'', 0), (''KDB_INIT_EARLY'', 1), (''KDB_INIT_FULL'', 2)]"

definition enumdecl_line_4768 :: cenum_decl where
  "enumdecl_line_4768 = EnumDecl False [
     (''KERNEL_PARAM_FL_UNSAFE'', 1), (''KERNEL_PARAM_FL_HWPARAM'', 2)]"

definition enumdecl_line_4773 :: cenum_decl where
  "enumdecl_line_4773 = EnumDecl False [
     (''KERNEL_PARAM_OPS_FL_NOARG'', 1)]"

definition enumdecl_line_4777 :: cenum_decl where
  "enumdecl_line_4777 = EnumDecl False [
     (''KF_ARG_DYNPTR_ID'', 0), (''KF_ARG_LIST_HEAD_ID'', 1), (''KF_ARG_LIST_NODE_ID'', 2),
     (''KF_ARG_RB_ROOT_ID'', 3), (''KF_ARG_RB_NODE_ID'', 4), (''KF_ARG_WORKQUEUE_ID'', 5),
     (''KF_ARG_RES_SPIN_LOCK_ID'', 6), (''KF_ARG_TASK_WORK_ID'', 7), (''KF_ARG_PROG_AUX_ID'', 8),
     (''KF_ARG_TIMER_ID'', 9)]"

definition enumdecl_line_4790 :: cenum_decl where
  "enumdecl_line_4790 = EnumDecl False [
     (''KNL_PCI_UNCORE_MC_UCLK'', 0), (''KNL_PCI_UNCORE_MC_DCLK'', 1),
     (''KNL_PCI_UNCORE_EDC_UCLK'', 2), (''KNL_PCI_UNCORE_EDC_ECLK'', 3),
     (''KNL_PCI_UNCORE_M2PCIE'', 4), (''KNL_PCI_UNCORE_IRP'', 5)]"

definition enumdecl_line_4799 :: cenum_decl where
  "enumdecl_line_4799 = EnumDecl False [
     (''KTW_FREEZABLE'', 1)]"

definition enumdecl_line_4803 :: cenum_decl where
  "enumdecl_line_4803 = EnumDecl False [
     (''LAST_NORM'', 0), (''LAST_ROOT'', 1), (''LAST_DOT'', 2), (''LAST_DOTDOT'', 3)]"

definition enumdecl_line_4810 :: cenum_decl where
  "enumdecl_line_4810 = EnumDecl False [
     (''LAT_OK'', 1), (''LAT_UNKNOWN'', 2), (''LAT_UNKNOWN_WRITES'', 3), (''LAT_EXCEEDED'', 4)]"

definition enumdecl_line_4817 :: cenum_decl where
  "enumdecl_line_4817 = EnumDecl False [
     (''LBR_FORMAT_32'', 0), (''LBR_FORMAT_LIP'', 1), (''LBR_FORMAT_EIP'', 2),
     (''LBR_FORMAT_EIP_FLAGS'', 3), (''LBR_FORMAT_EIP_FLAGS2'', 4), (''LBR_FORMAT_INFO'', 5),
     (''LBR_FORMAT_TIME'', 6), (''LBR_FORMAT_INFO2'', 7), (''LBR_FORMAT_MAX_KNOWN'', 7)]"

definition enumdecl_line_4829 :: cenum_decl where
  "enumdecl_line_4829 = EnumDecl False [
     (''LBR_NONE'', 0), (''LBR_VALID'', 1)]"

definition enumdecl_line_4834 :: cenum_decl where
  "enumdecl_line_4834 = EnumDecl False [
     (''LCOEF_RPAGE'', 0), (''LCOEF_RSEQIO'', 1), (''LCOEF_RRANDIO'', 2), (''LCOEF_WPAGE'', 3),
     (''LCOEF_WSEQIO'', 4), (''LCOEF_WRANDIO'', 5), (''NR_LCOEFS'', 6)]"

definition enum_decls_3 :: "cenum_decl list" where
  "enum_decls_3 = [
     enumdecl_line_3304, enumdecl_line_3311, enumdecl_line_3316, enumdecl_line_3323,
     enumdecl_line_3332, enumdecl_line_3340, enumdecl_line_3354, enumdecl_line_3362,
     enumdecl_line_3369, enumdecl_line_3377, enumdecl_line_3382, enumdecl_line_3386,
     enumdecl_line_3394, enumdecl_line_3404, enumdecl_line_3456, enumdecl_line_3470,
     enumdecl_line_3480, enumdecl_line_3484, enumdecl_line_3488, enumdecl_line_3492,
     enumdecl_line_3496, enumdecl_line_3502, enumdecl_line_3511, enumdecl_line_3518,
     enumdecl_line_3527, enumdecl_line_3532, enumdecl_line_3541, enumdecl_line_3550,
     enumdecl_line_3561, enumdecl_line_3566, enumdecl_line_3577, enumdecl_line_3582,
     enumdecl_line_3586, enumdecl_line_3620, enumdecl_line_3625, enumdecl_line_3634,
     enumdecl_line_3640, enumdecl_line_3645, enumdecl_line_3651, enumdecl_line_3667,
     enumdecl_line_3678, enumdecl_line_3727, enumdecl_line_3737, enumdecl_line_3751,
     enumdecl_line_3757, enumdecl_line_3767, enumdecl_line_3794, enumdecl_line_3801,
     enumdecl_line_3815, enumdecl_line_3822, enumdecl_line_3830, enumdecl_line_3842,
     enumdecl_line_3848, enumdecl_line_3856, enumdecl_line_3863, enumdecl_line_3873,
     enumdecl_line_3887, enumdecl_line_3962, enumdecl_line_3968, enumdecl_line_3974,
     enumdecl_line_3987, enumdecl_line_4005, enumdecl_line_4011, enumdecl_line_4024,
     enumdecl_line_4035, enumdecl_line_4041, enumdecl_line_4051, enumdecl_line_4057,
     enumdecl_line_4063, enumdecl_line_4071, enumdecl_line_4079, enumdecl_line_4087,
     enumdecl_line_4121, enumdecl_line_4129, enumdecl_line_4137, enumdecl_line_4146,
     enumdecl_line_4152, enumdecl_line_4158, enumdecl_line_4170, enumdecl_line_4182,
     enumdecl_line_4193, enumdecl_line_4198, enumdecl_line_4209, enumdecl_line_4214,
     enumdecl_line_4218, enumdecl_line_4226, enumdecl_line_4237, enumdecl_line_4243,
     enumdecl_line_4256, enumdecl_line_4261, enumdecl_line_4265, enumdecl_line_4269,
     enumdecl_line_4274, enumdecl_line_4278, enumdecl_line_4283, enumdecl_line_4290,
     enumdecl_line_4294, enumdecl_line_4302, enumdecl_line_4306, enumdecl_line_4312,
     enumdecl_line_4317, enumdecl_line_4321, enumdecl_line_4326, enumdecl_line_4330,
     enumdecl_line_4336, enumdecl_line_4341, enumdecl_line_4345, enumdecl_line_4350,
     enumdecl_line_4357, enumdecl_line_4363, enumdecl_line_4369, enumdecl_line_4374,
     enumdecl_line_4382, enumdecl_line_4392, enumdecl_line_4398, enumdecl_line_4409,
     enumdecl_line_4421, enumdecl_line_4436, enumdecl_line_4442, enumdecl_line_4476,
     enumdecl_line_4518, enumdecl_line_4555, enumdecl_line_4569, enumdecl_line_4592,
     enumdecl_line_4598, enumdecl_line_4614, enumdecl_line_4619, enumdecl_line_4645,
     enumdecl_line_4659, enumdecl_line_4667, enumdecl_line_4683, enumdecl_line_4688,
     enumdecl_line_4693, enumdecl_line_4699, enumdecl_line_4705, enumdecl_line_4731,
     enumdecl_line_4740, enumdecl_line_4747, enumdecl_line_4757, enumdecl_line_4762,
     enumdecl_line_4768, enumdecl_line_4773, enumdecl_line_4777, enumdecl_line_4790,
     enumdecl_line_4799, enumdecl_line_4803, enumdecl_line_4810, enumdecl_line_4817,
     enumdecl_line_4829, enumdecl_line_4834]"

lemma enum_decls_3_4: "list_all enum4 enum_decls_3"
  by (unfold enum_decls_3_def
     enumdecl_line_3304_def enumdecl_line_3311_def enumdecl_line_3316_def
     enumdecl_line_3323_def enumdecl_line_3332_def enumdecl_line_3340_def
     enumdecl_line_3354_def enumdecl_line_3362_def enumdecl_line_3369_def
     enumdecl_line_3377_def enumdecl_line_3382_def enumdecl_line_3386_def
     enumdecl_line_3394_def enumdecl_line_3404_def enumdecl_line_3456_def
     enumdecl_line_3470_def enumdecl_line_3480_def enumdecl_line_3484_def
     enumdecl_line_3488_def enumdecl_line_3492_def enumdecl_line_3496_def
     enumdecl_line_3502_def enumdecl_line_3511_def enumdecl_line_3518_def
     enumdecl_line_3527_def enumdecl_line_3532_def enumdecl_line_3541_def
     enumdecl_line_3550_def enumdecl_line_3561_def enumdecl_line_3566_def
     enumdecl_line_3577_def enumdecl_line_3582_def enumdecl_line_3586_def
     enumdecl_line_3620_def enumdecl_line_3625_def enumdecl_line_3634_def
     enumdecl_line_3640_def enumdecl_line_3645_def enumdecl_line_3651_def
     enumdecl_line_3667_def enumdecl_line_3678_def enumdecl_line_3727_def
     enumdecl_line_3737_def enumdecl_line_3751_def enumdecl_line_3757_def
     enumdecl_line_3767_def enumdecl_line_3794_def enumdecl_line_3801_def
     enumdecl_line_3815_def enumdecl_line_3822_def enumdecl_line_3830_def
     enumdecl_line_3842_def enumdecl_line_3848_def enumdecl_line_3856_def
     enumdecl_line_3863_def enumdecl_line_3873_def enumdecl_line_3887_def
     enumdecl_line_3962_def enumdecl_line_3968_def enumdecl_line_3974_def
     enumdecl_line_3987_def enumdecl_line_4005_def enumdecl_line_4011_def
     enumdecl_line_4024_def enumdecl_line_4035_def enumdecl_line_4041_def
     enumdecl_line_4051_def enumdecl_line_4057_def enumdecl_line_4063_def
     enumdecl_line_4071_def enumdecl_line_4079_def enumdecl_line_4087_def
     enumdecl_line_4121_def enumdecl_line_4129_def enumdecl_line_4137_def
     enumdecl_line_4146_def enumdecl_line_4152_def enumdecl_line_4158_def
     enumdecl_line_4170_def enumdecl_line_4182_def enumdecl_line_4193_def
     enumdecl_line_4198_def enumdecl_line_4209_def enumdecl_line_4214_def
     enumdecl_line_4218_def enumdecl_line_4226_def enumdecl_line_4237_def
     enumdecl_line_4243_def enumdecl_line_4256_def enumdecl_line_4261_def
     enumdecl_line_4265_def enumdecl_line_4269_def enumdecl_line_4274_def
     enumdecl_line_4278_def enumdecl_line_4283_def enumdecl_line_4290_def
     enumdecl_line_4294_def enumdecl_line_4302_def enumdecl_line_4306_def
     enumdecl_line_4312_def enumdecl_line_4317_def enumdecl_line_4321_def
     enumdecl_line_4326_def enumdecl_line_4330_def enumdecl_line_4336_def
     enumdecl_line_4341_def enumdecl_line_4345_def enumdecl_line_4350_def
     enumdecl_line_4357_def enumdecl_line_4363_def enumdecl_line_4369_def
     enumdecl_line_4374_def enumdecl_line_4382_def enumdecl_line_4392_def
     enumdecl_line_4398_def enumdecl_line_4409_def enumdecl_line_4421_def
     enumdecl_line_4436_def enumdecl_line_4442_def enumdecl_line_4476_def
     enumdecl_line_4518_def enumdecl_line_4555_def enumdecl_line_4569_def
     enumdecl_line_4592_def enumdecl_line_4598_def enumdecl_line_4614_def
     enumdecl_line_4619_def enumdecl_line_4645_def enumdecl_line_4659_def
     enumdecl_line_4667_def enumdecl_line_4683_def enumdecl_line_4688_def
     enumdecl_line_4693_def enumdecl_line_4699_def enumdecl_line_4705_def
     enumdecl_line_4731_def enumdecl_line_4740_def enumdecl_line_4747_def
     enumdecl_line_4757_def enumdecl_line_4762_def enumdecl_line_4768_def
     enumdecl_line_4773_def enumdecl_line_4777_def enumdecl_line_4790_def
     enumdecl_line_4799_def enumdecl_line_4803_def enumdecl_line_4810_def
     enumdecl_line_4817_def enumdecl_line_4829_def enumdecl_line_4834_def)
    (intro enum_list_intros enum_int_intros; simp)

lemma length_enum_decls_3: "length enum_decls_3 = 150"
  by (simp add: enum_decls_3_def)

end
