(* ===== verification/VmlinuxEnum4.thy ===== *)
theory VmlinuxEnum4
  imports EnumDecl
begin

text \<open>
  The enumerations of four bytes of \<^verbatim>\<open>src/internal/ebpf/vmlinux.h\<close> between lines 4844 and
  6437, one definition per enumeration, enumerators in order. An enumeration without a tag is
  named after the line it starts on.
\<close>

definition enumdecl_line_4844 :: cenum_decl where
  "enumdecl_line_4844 = EnumDecl False [
     (''LIBATA_MAX_PRD'', 128), (''LIBATA_DUMB_MAX_PRD'', 64), (''ATA_DEF_QUEUE'', 1),
     (''ATA_MAX_QUEUE'', 32), (''ATA_TAG_INTERNAL'', 32), (''ATA_SHORT_PAUSE'', 16),
     (''ATAPI_MAX_DRAIN'', 16384), (''ATA_ALL_DEVICES'', 3), (''ATA_SHT_EMULATED'', 1),
     (''ATA_SHT_THIS_ID'', - 1), (''ATA_TFLAG_LBA48'', 1), (''ATA_TFLAG_ISADDR'', 2),
     (''ATA_TFLAG_DEVICE'', 4), (''ATA_TFLAG_WRITE'', 8), (''ATA_TFLAG_LBA'', 16),
     (''ATA_TFLAG_FUA'', 32), (''ATA_TFLAG_POLLING'', 64), (''ATA_DFLAG_LBA'', 1),
     (''ATA_DFLAG_LBA48'', 2), (''ATA_DFLAG_CDB_INTR'', 4), (''ATA_DFLAG_NCQ'', 8),
     (''ATA_DFLAG_FLUSH_EXT'', 16), (''ATA_DFLAG_ACPI_PENDING'', 32),
     (''ATA_DFLAG_ACPI_FAILED'', 64), (''ATA_DFLAG_AN'', 128), (''ATA_DFLAG_TRUSTED'', 256),
     (''ATA_DFLAG_FUA'', 512), (''ATA_DFLAG_DMADIR'', 1024), (''ATA_DFLAG_NCQ_SEND_RECV'', 2048),
     (''ATA_DFLAG_NCQ_PRIO'', 4096), (''ATA_DFLAG_CDL'', 8192), (''ATA_DFLAG_CFG_MASK'', 16383),
     (''ATA_DFLAG_PIO'', 16384), (''ATA_DFLAG_NCQ_OFF'', 32768), (''ATA_DFLAG_SLEEPING'', 65536),
     (''ATA_DFLAG_DUBIOUS_XFER'', 131072), (''ATA_DFLAG_NO_UNLOAD'', 262144),
     (''ATA_DFLAG_UNLOCK_HPA'', 524288), (''ATA_DFLAG_INIT_MASK'', 1048575),
     (''ATA_DFLAG_NCQ_PRIO_ENABLED'', 1048576), (''ATA_DFLAG_CDL_ENABLED'', 2097152),
     (''ATA_DFLAG_RESUMING'', 4194304), (''ATA_DFLAG_DETACH'', 16777216),
     (''ATA_DFLAG_DETACHED'', 33554432), (''ATA_DFLAG_DA'', 67108864),
     (''ATA_DFLAG_DEVSLP'', 134217728), (''ATA_DFLAG_ACPI_DISABLED'', 268435456),
     (''ATA_DFLAG_D_SENSE'', 536870912), (''ATA_DFLAG_FEATURES_MASK'', 201341696),
     (''ATA_DEV_UNKNOWN'', 0), (''ATA_DEV_ATA'', 1), (''ATA_DEV_ATA_UNSUP'', 2),
     (''ATA_DEV_ATAPI'', 3), (''ATA_DEV_ATAPI_UNSUP'', 4), (''ATA_DEV_PMP'', 5),
     (''ATA_DEV_PMP_UNSUP'', 6), (''ATA_DEV_SEMB'', 7), (''ATA_DEV_SEMB_UNSUP'', 8),
     (''ATA_DEV_ZAC'', 9), (''ATA_DEV_ZAC_UNSUP'', 10), (''ATA_DEV_NONE'', 11),
     (''ATA_LFLAG_NO_HRST'', 2), (''ATA_LFLAG_NO_SRST'', 4), (''ATA_LFLAG_ASSUME_ATA'', 8),
     (''ATA_LFLAG_ASSUME_SEMB'', 16), (''ATA_LFLAG_ASSUME_CLASS'', 24),
     (''ATA_LFLAG_NO_RETRY'', 32), (''ATA_LFLAG_DISABLED'', 64),
     (''ATA_LFLAG_SW_ACTIVITY'', 128), (''ATA_LFLAG_NO_LPM'', 256),
     (''ATA_LFLAG_RST_ONCE'', 512), (''ATA_LFLAG_CHANGED'', 1024),
     (''ATA_LFLAG_NO_DEBOUNCE_DELAY'', 2048), (''ATA_FLAG_SLAVE_POSS'', 1),
     (''ATA_FLAG_SATA'', 2), (''ATA_FLAG_NO_LPM'', 4), (''ATA_FLAG_NO_LOG_PAGE'', 32),
     (''ATA_FLAG_NO_ATAPI'', 64), (''ATA_FLAG_PIO_DMA'', 128), (''ATA_FLAG_PIO_LBA48'', 256),
     (''ATA_FLAG_PIO_POLLING'', 512), (''ATA_FLAG_NCQ'', 1024),
     (''ATA_FLAG_NO_POWEROFF_SPINDOWN'', 2048), (''ATA_FLAG_NO_HIBERNATE_SPINDOWN'', 4096),
     (''ATA_FLAG_DEBUGMSG'', 8192), (''ATA_FLAG_FPDMA_AA'', 16384),
     (''ATA_FLAG_IGN_SIMPLEX'', 32768), (''ATA_FLAG_NO_IORDY'', 65536),
     (''ATA_FLAG_ACPI_SATA'', 131072), (''ATA_FLAG_AN'', 262144), (''ATA_FLAG_PMP'', 524288),
     (''ATA_FLAG_FPDMA_AUX'', 1048576), (''ATA_FLAG_EM'', 2097152),
     (''ATA_FLAG_SW_ACTIVITY'', 4194304), (''ATA_FLAG_NO_DIPM'', 8388608),
     (''ATA_FLAG_SAS_HOST'', 16777216), (''ATA_PFLAG_EH_PENDING'', 1),
     (''ATA_PFLAG_EH_IN_PROGRESS'', 2), (''ATA_PFLAG_FROZEN'', 4), (''ATA_PFLAG_RECOVERED'', 8),
     (''ATA_PFLAG_LOADING'', 16), (''ATA_PFLAG_SCSI_HOTPLUG'', 64),
     (''ATA_PFLAG_INITIALIZING'', 128), (''ATA_PFLAG_RESETTING'', 256),
     (''ATA_PFLAG_UNLOADING'', 512), (''ATA_PFLAG_UNLOADED'', 1024),
     (''ATA_PFLAG_RESUMING'', 65536), (''ATA_PFLAG_SUSPENDED'', 131072),
     (''ATA_PFLAG_PM_PENDING'', 262144), (''ATA_PFLAG_INIT_GTM_VALID'', 524288),
     (''ATA_PFLAG_PIO32'', 1048576), (''ATA_PFLAG_PIO32CHANGE'', 2097152),
     (''ATA_PFLAG_EXTERNAL'', 4194304), (''ATA_QCFLAG_ACTIVE'', 1), (''ATA_QCFLAG_DMAMAP'', 2),
     (''ATA_QCFLAG_RTF_FILLED'', 4), (''ATA_QCFLAG_IO'', 8), (''ATA_QCFLAG_RESULT_TF'', 16),
     (''ATA_QCFLAG_CLEAR_EXCL'', 32), (''ATA_QCFLAG_QUIET'', 64), (''ATA_QCFLAG_RETRY'', 128),
     (''ATA_QCFLAG_HAS_CDL'', 256), (''ATA_QCFLAG_EH'', 65536),
     (''ATA_QCFLAG_SENSE_VALID'', 131072), (''ATA_QCFLAG_EH_SCHEDULED'', 262144),
     (''ATA_QCFLAG_EH_SUCCESS_CMD'', 524288), (''ATA_HOST_SIMPLEX'', 1),
     (''ATA_HOST_STARTED'', 2), (''ATA_HOST_PARALLEL_SCAN'', 4), (''ATA_HOST_IGNORE_ATA'', 8),
     (''ATA_HOST_NO_PART'', 16), (''ATA_HOST_NO_SSC'', 32), (''ATA_HOST_NO_DEVSLP'', 64),
     (''ATA_TMOUT_INTERNAL_QUICK'', 5000), (''ATA_TMOUT_MAX_PARK'', 30000),
     (''ATA_TMOUT_FF_WAIT_LONG'', 2000), (''ATA_TMOUT_FF_WAIT'', 800),
     (''ATA_WAIT_AFTER_RESET'', 150), (''ATA_TMOUT_PMP_SRST_WAIT'', 10000),
     (''ATA_TMOUT_SPURIOUS_PHY'', 10000), (''BUS_UNKNOWN'', 0), (''BUS_DMA'', 1),
     (''BUS_IDLE'', 2), (''BUS_NOINTR'', 3), (''BUS_NODATA'', 4), (''BUS_TIMER'', 5),
     (''BUS_PIO'', 6), (''BUS_EDD'', 7), (''BUS_IDENTIFY'', 8), (''BUS_PACKET'', 9),
     (''PORT_UNKNOWN'', 0), (''PORT_ENABLED'', 1), (''PORT_DISABLED'', 2),
     (''ATA_NR_PIO_MODES'', 7), (''ATA_NR_MWDMA_MODES'', 5), (''ATA_NR_UDMA_MODES'', 8),
     (''ATA_SHIFT_PIO'', 0), (''ATA_SHIFT_MWDMA'', 7), (''ATA_SHIFT_UDMA'', 12),
     (''ATA_SHIFT_PRIO'', 6), (''ATA_PRIO_HIGH'', 2), (''ATA_DMA_PAD_SZ'', 4),
     (''ATA_ERING_SIZE'', 32), (''ATA_DEFER_LINK'', 1), (''ATA_DEFER_PORT'', 2),
     (''ATA_EH_DESC_LEN'', 80), (''ATA_EH_REVALIDATE'', 1), (''ATA_EH_SOFTRESET'', 2),
     (''ATA_EH_HARDRESET'', 4), (''ATA_EH_RESET'', 6), (''ATA_EH_ENABLE_LINK'', 8),
     (''ATA_EH_PARK'', 32), (''ATA_EH_GET_SUCCESS_SENSE'', 64), (''ATA_EH_SET_ACTIVE'', 128),
     (''ATA_EH_PERDEV_MASK'', 225), (''ATA_EH_ALL_ACTIONS'', 15), (''ATA_EHI_HOTPLUGGED'', 1),
     (''ATA_EHI_NO_AUTOPSY'', 4), (''ATA_EHI_QUIET'', 8), (''ATA_EHI_NO_RECOVERY'', 16),
     (''ATA_EHI_DID_SOFTRESET'', 65536), (''ATA_EHI_DID_HARDRESET'', 131072),
     (''ATA_EHI_PRINTINFO'', 262144), (''ATA_EHI_SETMODE'', 524288),
     (''ATA_EHI_POST_SETMODE'', 1048576), (''ATA_EHI_DID_PRINT_QUIRKS'', 2097152),
     (''ATA_EHI_DID_RESET'', 196608), (''ATA_EHI_TO_SLAVE_MASK'', 12), (''ATA_EH_MAX_TRIES'', 5),
     (''ATA_LINK_RESUME_TRIES'', 5), (''ATA_EH_DEV_TRIES'', 3), (''ATA_EH_PMP_TRIES'', 5),
     (''ATA_EH_PMP_LINK_TRIES'', 3), (''SATA_PMP_RW_TIMEOUT'', 3000),
     (''ATA_EH_CMD_TIMEOUT_TABLE_SIZE'', 8), (''ATA_DMA_MASK_ATA'', 1),
     (''ATA_DMA_MASK_ATAPI'', 2), (''ATA_DMA_MASK_CFA'', 4), (''ATAPI_READ'', 0),
     (''ATAPI_WRITE'', 1), (''ATAPI_READ_CD'', 2), (''ATAPI_PASS_THRU'', 3), (''ATAPI_MISC'', 4),
     (''ATA_TIMING_SETUP'', 1), (''ATA_TIMING_ACT8B'', 2), (''ATA_TIMING_REC8B'', 4),
     (''ATA_TIMING_CYC8B'', 8), (''ATA_TIMING_8BIT'', 14), (''ATA_TIMING_ACTIVE'', 16),
     (''ATA_TIMING_RECOVER'', 32), (''ATA_TIMING_DMACK_HOLD'', 64), (''ATA_TIMING_CYCLE'', 128),
     (''ATA_TIMING_UDMA'', 256), (''ATA_TIMING_ALL'', 511), (''ATA_ACPI_FILTER_SETXFER'', 1),
     (''ATA_ACPI_FILTER_LOCK'', 2), (''ATA_ACPI_FILTER_DIPM'', 4),
     (''ATA_ACPI_FILTER_FPDMA_OFFSET'', 8), (''ATA_ACPI_FILTER_FPDMA_AA'', 16),
     (''ATA_ACPI_FILTER_DEFAULT'', 7)]"

definition enumdecl_line_5067 :: cenum_decl where
  "enumdecl_line_5067 = EnumDecl False [
     (''LINK_CAPA_10HD'', 0), (''LINK_CAPA_10FD'', 1), (''LINK_CAPA_100HD'', 2),
     (''LINK_CAPA_100FD'', 3), (''LINK_CAPA_1000HD'', 4), (''LINK_CAPA_1000FD'', 5),
     (''LINK_CAPA_2500FD'', 6), (''LINK_CAPA_5000FD'', 7), (''LINK_CAPA_10000FD'', 8),
     (''LINK_CAPA_20000FD'', 9), (''LINK_CAPA_25000FD'', 10), (''LINK_CAPA_40000FD'', 11),
     (''LINK_CAPA_50000FD'', 12), (''LINK_CAPA_56000FD'', 13), (''LINK_CAPA_80000FD'', 14),
     (''LINK_CAPA_100000FD'', 15), (''LINK_CAPA_200000FD'', 16), (''LINK_CAPA_400000FD'', 17),
     (''LINK_CAPA_800000FD'', 18), (''LINK_CAPA_1600000FD'', 19), (''__LINK_CAPA_MAX'', 20)]"

definition enumdecl_line_5091 :: cenum_decl where
  "enumdecl_line_5091 = EnumDecl False [
     (''LINUX_MIB_NUM'', 0), (''LINUX_MIB_SYNCOOKIESSENT'', 1),
     (''LINUX_MIB_SYNCOOKIESRECV'', 2), (''LINUX_MIB_SYNCOOKIESFAILED'', 3),
     (''LINUX_MIB_EMBRYONICRSTS'', 4), (''LINUX_MIB_PRUNECALLED'', 5),
     (''LINUX_MIB_RCVPRUNED'', 6), (''LINUX_MIB_OFOPRUNED'', 7),
     (''LINUX_MIB_OUTOFWINDOWICMPS'', 8), (''LINUX_MIB_LOCKDROPPEDICMPS'', 9),
     (''LINUX_MIB_ARPFILTER'', 10), (''LINUX_MIB_TIMEWAITED'', 11),
     (''LINUX_MIB_TIMEWAITRECYCLED'', 12), (''LINUX_MIB_TIMEWAITKILLED'', 13),
     (''LINUX_MIB_PAWSACTIVEREJECTED'', 14), (''LINUX_MIB_PAWSESTABREJECTED'', 15),
     (''LINUX_MIB_BEYOND_WINDOW'', 16), (''LINUX_MIB_TSECRREJECTED'', 17),
     (''LINUX_MIB_PAWS_OLD_ACK'', 18), (''LINUX_MIB_PAWS_TW_REJECTED'', 19),
     (''LINUX_MIB_DELAYEDACKS'', 20), (''LINUX_MIB_DELAYEDACKLOCKED'', 21),
     (''LINUX_MIB_DELAYEDACKLOST'', 22), (''LINUX_MIB_LISTENOVERFLOWS'', 23),
     (''LINUX_MIB_LISTENDROPS'', 24), (''LINUX_MIB_TCPHPHITS'', 25),
     (''LINUX_MIB_TCPPUREACKS'', 26), (''LINUX_MIB_TCPHPACKS'', 27),
     (''LINUX_MIB_TCPRENORECOVERY'', 28), (''LINUX_MIB_TCPSACKRECOVERY'', 29),
     (''LINUX_MIB_TCPSACKRENEGING'', 30), (''LINUX_MIB_TCPSACKREORDER'', 31),
     (''LINUX_MIB_TCPRENOREORDER'', 32), (''LINUX_MIB_TCPTSREORDER'', 33),
     (''LINUX_MIB_TCPFULLUNDO'', 34), (''LINUX_MIB_TCPPARTIALUNDO'', 35),
     (''LINUX_MIB_TCPDSACKUNDO'', 36), (''LINUX_MIB_TCPLOSSUNDO'', 37),
     (''LINUX_MIB_TCPLOSTRETRANSMIT'', 38), (''LINUX_MIB_TCPRENOFAILURES'', 39),
     (''LINUX_MIB_TCPSACKFAILURES'', 40), (''LINUX_MIB_TCPLOSSFAILURES'', 41),
     (''LINUX_MIB_TCPFASTRETRANS'', 42), (''LINUX_MIB_TCPSLOWSTARTRETRANS'', 43),
     (''LINUX_MIB_TCPTIMEOUTS'', 44), (''LINUX_MIB_TCPLOSSPROBES'', 45),
     (''LINUX_MIB_TCPLOSSPROBERECOVERY'', 46), (''LINUX_MIB_TCPRENORECOVERYFAIL'', 47),
     (''LINUX_MIB_TCPSACKRECOVERYFAIL'', 48), (''LINUX_MIB_TCPRCVCOLLAPSED'', 49),
     (''LINUX_MIB_TCPDSACKOLDSENT'', 50), (''LINUX_MIB_TCPDSACKOFOSENT'', 51),
     (''LINUX_MIB_TCPDSACKRECV'', 52), (''LINUX_MIB_TCPDSACKOFORECV'', 53),
     (''LINUX_MIB_TCPABORTONDATA'', 54), (''LINUX_MIB_TCPABORTONCLOSE'', 55),
     (''LINUX_MIB_TCPABORTONMEMORY'', 56), (''LINUX_MIB_TCPABORTONTIMEOUT'', 57),
     (''LINUX_MIB_TCPABORTONLINGER'', 58), (''LINUX_MIB_TCPABORTFAILED'', 59),
     (''LINUX_MIB_TCPMEMORYPRESSURES'', 60), (''LINUX_MIB_TCPMEMORYPRESSURESCHRONO'', 61),
     (''LINUX_MIB_TCPSACKDISCARD'', 62), (''LINUX_MIB_TCPDSACKIGNOREDOLD'', 63),
     (''LINUX_MIB_TCPDSACKIGNOREDNOUNDO'', 64), (''LINUX_MIB_TCPSPURIOUSRTOS'', 65),
     (''LINUX_MIB_TCPMD5NOTFOUND'', 66), (''LINUX_MIB_TCPMD5UNEXPECTED'', 67),
     (''LINUX_MIB_TCPMD5FAILURE'', 68), (''LINUX_MIB_SACKSHIFTED'', 69),
     (''LINUX_MIB_SACKMERGED'', 70), (''LINUX_MIB_SACKSHIFTFALLBACK'', 71),
     (''LINUX_MIB_TCPBACKLOGDROP'', 72), (''LINUX_MIB_PFMEMALLOCDROP'', 73),
     (''LINUX_MIB_TCPMINTTLDROP'', 74), (''LINUX_MIB_TCPDEFERACCEPTDROP'', 75),
     (''LINUX_MIB_IPRPFILTER'', 76), (''LINUX_MIB_TCPTIMEWAITOVERFLOW'', 77),
     (''LINUX_MIB_TCPREQQFULLDOCOOKIES'', 78), (''LINUX_MIB_TCPREQQFULLDROP'', 79),
     (''LINUX_MIB_TCPRETRANSFAIL'', 80), (''LINUX_MIB_TCPRCVCOALESCE'', 81),
     (''LINUX_MIB_TCPBACKLOGCOALESCE'', 82), (''LINUX_MIB_TCPOFOQUEUE'', 83),
     (''LINUX_MIB_TCPOFODROP'', 84), (''LINUX_MIB_TCPOFOMERGE'', 85),
     (''LINUX_MIB_TCPCHALLENGEACK'', 86), (''LINUX_MIB_TCPSYNCHALLENGE'', 87),
     (''LINUX_MIB_TCPFASTOPENACTIVE'', 88), (''LINUX_MIB_TCPFASTOPENACTIVEFAIL'', 89),
     (''LINUX_MIB_TCPFASTOPENPASSIVE'', 90), (''LINUX_MIB_TCPFASTOPENPASSIVEFAIL'', 91),
     (''LINUX_MIB_TCPFASTOPENLISTENOVERFLOW'', 92), (''LINUX_MIB_TCPFASTOPENCOOKIEREQD'', 93),
     (''LINUX_MIB_TCPFASTOPENBLACKHOLE'', 94), (''LINUX_MIB_TCPSPURIOUS_RTX_HOSTQUEUES'', 95),
     (''LINUX_MIB_BUSYPOLLRXPACKETS'', 96), (''LINUX_MIB_TCPAUTOCORKING'', 97),
     (''LINUX_MIB_TCPFROMZEROWINDOWADV'', 98), (''LINUX_MIB_TCPTOZEROWINDOWADV'', 99),
     (''LINUX_MIB_TCPWANTZEROWINDOWADV'', 100), (''LINUX_MIB_TCPSYNRETRANS'', 101),
     (''LINUX_MIB_TCPORIGDATASENT'', 102), (''LINUX_MIB_TCPHYSTARTTRAINDETECT'', 103),
     (''LINUX_MIB_TCPHYSTARTTRAINCWND'', 104), (''LINUX_MIB_TCPHYSTARTDELAYDETECT'', 105),
     (''LINUX_MIB_TCPHYSTARTDELAYCWND'', 106), (''LINUX_MIB_TCPACKSKIPPEDSYNRECV'', 107),
     (''LINUX_MIB_TCPACKSKIPPEDPAWS'', 108), (''LINUX_MIB_TCPACKSKIPPEDSEQ'', 109),
     (''LINUX_MIB_TCPACKSKIPPEDFINWAIT2'', 110), (''LINUX_MIB_TCPACKSKIPPEDTIMEWAIT'', 111),
     (''LINUX_MIB_TCPACKSKIPPEDCHALLENGE'', 112), (''LINUX_MIB_TCPWINPROBE'', 113),
     (''LINUX_MIB_TCPKEEPALIVE'', 114), (''LINUX_MIB_TCPMTUPFAIL'', 115),
     (''LINUX_MIB_TCPMTUPSUCCESS'', 116), (''LINUX_MIB_TCPDELIVERED'', 117),
     (''LINUX_MIB_TCPDELIVEREDCE'', 118), (''LINUX_MIB_TCPACKCOMPRESSED'', 119),
     (''LINUX_MIB_TCPZEROWINDOWDROP'', 120), (''LINUX_MIB_TCPRCVQDROP'', 121),
     (''LINUX_MIB_TCPWQUEUETOOBIG'', 122), (''LINUX_MIB_TCPFASTOPENPASSIVEALTKEY'', 123),
     (''LINUX_MIB_TCPTIMEOUTREHASH'', 124), (''LINUX_MIB_TCPDUPLICATEDATAREHASH'', 125),
     (''LINUX_MIB_TCPDSACKRECVSEGS'', 126), (''LINUX_MIB_TCPDSACKIGNOREDDUBIOUS'', 127),
     (''LINUX_MIB_TCPMIGRATEREQSUCCESS'', 128), (''LINUX_MIB_TCPMIGRATEREQFAILURE'', 129),
     (''LINUX_MIB_TCPPLBREHASH'', 130), (''LINUX_MIB_TCPAOREQUIRED'', 131),
     (''LINUX_MIB_TCPAOBAD'', 132), (''LINUX_MIB_TCPAOKEYNOTFOUND'', 133),
     (''LINUX_MIB_TCPAOGOOD'', 134), (''LINUX_MIB_TCPAODROPPEDICMPS'', 135),
     (''__LINUX_MIB_MAX'', 136)]"

definition enumdecl_line_5231 :: cenum_decl where
  "enumdecl_line_5231 = EnumDecl False [
     (''LINUX_MIB_TLSNUM'', 0), (''LINUX_MIB_TLSCURRTXSW'', 1), (''LINUX_MIB_TLSCURRRXSW'', 2),
     (''LINUX_MIB_TLSCURRTXDEVICE'', 3), (''LINUX_MIB_TLSCURRRXDEVICE'', 4),
     (''LINUX_MIB_TLSTXSW'', 5), (''LINUX_MIB_TLSRXSW'', 6), (''LINUX_MIB_TLSTXDEVICE'', 7),
     (''LINUX_MIB_TLSRXDEVICE'', 8), (''LINUX_MIB_TLSDECRYPTERROR'', 9),
     (''LINUX_MIB_TLSRXDEVICERESYNC'', 10), (''LINUX_MIB_TLSDECRYPTRETRY'', 11),
     (''LINUX_MIB_TLSRXNOPADVIOL'', 12), (''LINUX_MIB_TLSRXREKEYOK'', 13),
     (''LINUX_MIB_TLSRXREKEYERROR'', 14), (''LINUX_MIB_TLSTXREKEYOK'', 15),
     (''LINUX_MIB_TLSTXREKEYERROR'', 16), (''LINUX_MIB_TLSRXREKEYRECEIVED'', 17),
     (''__LINUX_MIB_TLSMAX'', 18)]"

definition enumdecl_line_5253 :: cenum_decl where
  "enumdecl_line_5253 = EnumDecl False [
     (''LINUX_MIB_XFRMNUM'', 0), (''LINUX_MIB_XFRMINERROR'', 1),
     (''LINUX_MIB_XFRMINBUFFERERROR'', 2), (''LINUX_MIB_XFRMINHDRERROR'', 3),
     (''LINUX_MIB_XFRMINNOSTATES'', 4), (''LINUX_MIB_XFRMINSTATEPROTOERROR'', 5),
     (''LINUX_MIB_XFRMINSTATEMODEERROR'', 6), (''LINUX_MIB_XFRMINSTATESEQERROR'', 7),
     (''LINUX_MIB_XFRMINSTATEEXPIRED'', 8), (''LINUX_MIB_XFRMINSTATEMISMATCH'', 9),
     (''LINUX_MIB_XFRMINSTATEINVALID'', 10), (''LINUX_MIB_XFRMINTMPLMISMATCH'', 11),
     (''LINUX_MIB_XFRMINNOPOLS'', 12), (''LINUX_MIB_XFRMINPOLBLOCK'', 13),
     (''LINUX_MIB_XFRMINPOLERROR'', 14), (''LINUX_MIB_XFRMOUTERROR'', 15),
     (''LINUX_MIB_XFRMOUTBUNDLEGENERROR'', 16), (''LINUX_MIB_XFRMOUTBUNDLECHECKERROR'', 17),
     (''LINUX_MIB_XFRMOUTNOSTATES'', 18), (''LINUX_MIB_XFRMOUTSTATEPROTOERROR'', 19),
     (''LINUX_MIB_XFRMOUTSTATEMODEERROR'', 20), (''LINUX_MIB_XFRMOUTSTATESEQERROR'', 21),
     (''LINUX_MIB_XFRMOUTSTATEEXPIRED'', 22), (''LINUX_MIB_XFRMOUTPOLBLOCK'', 23),
     (''LINUX_MIB_XFRMOUTPOLDEAD'', 24), (''LINUX_MIB_XFRMOUTPOLERROR'', 25),
     (''LINUX_MIB_XFRMFWDHDRERROR'', 26), (''LINUX_MIB_XFRMOUTSTATEINVALID'', 27),
     (''LINUX_MIB_XFRMACQUIREERROR'', 28), (''LINUX_MIB_XFRMOUTSTATEDIRERROR'', 29),
     (''LINUX_MIB_XFRMINSTATEDIRERROR'', 30), (''LINUX_MIB_XFRMINIPTFSERROR'', 31),
     (''LINUX_MIB_XFRMOUTNOQSPACE'', 32), (''__LINUX_MIB_XFRMMAX'', 33)]"

definition enumdecl_line_5290 :: cenum_decl where
  "enumdecl_line_5290 = EnumDecl False [
     (''LINUX_RAID_PARTITION'', 253)]"

definition enumdecl_line_5294 :: cenum_decl where
  "enumdecl_line_5294 = EnumDecl False [
     (''LIVEUPDATE_CMD_BASE'', 0), (''LIVEUPDATE_CMD_CREATE_SESSION'', 0),
     (''LIVEUPDATE_CMD_RETRIEVE_SESSION'', 1)]"

definition enumdecl_line_5300 :: cenum_decl where
  "enumdecl_line_5300 = EnumDecl False [
     (''LIVEUPDATE_CMD_SESSION_BASE'', 64), (''LIVEUPDATE_CMD_SESSION_PRESERVE_FD'', 64),
     (''LIVEUPDATE_CMD_SESSION_RETRIEVE_FD'', 65), (''LIVEUPDATE_CMD_SESSION_FINISH'', 66)]"

definition enumdecl_line_5307 :: cenum_decl where
  "enumdecl_line_5307 = EnumDecl False [
     (''LOGIC_PIO_INDIRECT'', 0), (''LOGIC_PIO_CPU_MMIO'', 1)]"

definition enumdecl_line_5312 :: cenum_decl where
  "enumdecl_line_5312 = EnumDecl False [
     (''LO_FLAGS_READ_ONLY'', 1), (''LO_FLAGS_AUTOCLEAR'', 4), (''LO_FLAGS_PARTSCAN'', 8),
     (''LO_FLAGS_DIRECT_IO'', 16)]"

definition enumdecl_line_5319 :: cenum_decl where
  "enumdecl_line_5319 = EnumDecl False [
     (''LRU_GEN_ANON'', 0), (''LRU_GEN_FILE'', 1)]"

definition enumdecl_line_5324 :: cenum_decl where
  "enumdecl_line_5324 = EnumDecl False [
     (''LRU_GEN_CORE'', 0), (''LRU_GEN_MM_WALK'', 1), (''LRU_GEN_NONLEAF_YOUNG'', 2),
     (''NR_LRU_GEN_CAPS'', 3)]"

definition enumdecl_line_5331 :: cenum_decl where
  "enumdecl_line_5331 = EnumDecl False [
     (''LWTUNNEL_IP_OPTS_UNSPEC'', 0), (''LWTUNNEL_IP_OPTS_GENEVE'', 1),
     (''LWTUNNEL_IP_OPTS_VXLAN'', 2), (''LWTUNNEL_IP_OPTS_ERSPAN'', 3),
     (''__LWTUNNEL_IP_OPTS_MAX'', 4)]"

definition enumdecl_line_5339 :: cenum_decl where
  "enumdecl_line_5339 = EnumDecl False [
     (''LWTUNNEL_IP_OPT_ERSPAN_UNSPEC'', 0), (''LWTUNNEL_IP_OPT_ERSPAN_VER'', 1),
     (''LWTUNNEL_IP_OPT_ERSPAN_INDEX'', 2), (''LWTUNNEL_IP_OPT_ERSPAN_DIR'', 3),
     (''LWTUNNEL_IP_OPT_ERSPAN_HWID'', 4), (''__LWTUNNEL_IP_OPT_ERSPAN_MAX'', 5)]"

definition enumdecl_line_5348 :: cenum_decl where
  "enumdecl_line_5348 = EnumDecl False [
     (''LWTUNNEL_IP_OPT_GENEVE_UNSPEC'', 0), (''LWTUNNEL_IP_OPT_GENEVE_CLASS'', 1),
     (''LWTUNNEL_IP_OPT_GENEVE_TYPE'', 2), (''LWTUNNEL_IP_OPT_GENEVE_DATA'', 3),
     (''__LWTUNNEL_IP_OPT_GENEVE_MAX'', 4)]"

definition enumdecl_line_5356 :: cenum_decl where
  "enumdecl_line_5356 = EnumDecl False [
     (''LWTUNNEL_IP_OPT_VXLAN_UNSPEC'', 0), (''LWTUNNEL_IP_OPT_VXLAN_GBP'', 1),
     (''__LWTUNNEL_IP_OPT_VXLAN_MAX'', 2)]"

definition enumdecl_line_5362 :: cenum_decl where
  "enumdecl_line_5362 = EnumDecl False [
     (''LWTUNNEL_XMIT_DONE'', 0), (''LWTUNNEL_XMIT_CONTINUE'', 256)]"

definition enumdecl_line_5367 :: cenum_decl where
  "enumdecl_line_5367 = EnumDecl False [
     (''LWT_BPF_PROG_UNSPEC'', 0), (''LWT_BPF_PROG_FD'', 1), (''LWT_BPF_PROG_NAME'', 2),
     (''__LWT_BPF_PROG_MAX'', 3)]"

definition enumdecl_line_5374 :: cenum_decl where
  "enumdecl_line_5374 = EnumDecl False [
     (''LWT_BPF_UNSPEC'', 0), (''LWT_BPF_IN'', 1), (''LWT_BPF_OUT'', 2), (''LWT_BPF_XMIT'', 3),
     (''LWT_BPF_XMIT_HEADROOM'', 4), (''__LWT_BPF_MAX'', 5)]"

definition enumdecl_line_5383 :: cenum_decl where
  "enumdecl_line_5383 = EnumDecl False [
     (''Lo_unbound'', 0), (''Lo_bound'', 1), (''Lo_rundown'', 2), (''Lo_deleting'', 3)]"

definition enumdecl_line_5390 :: cenum_decl where
  "enumdecl_line_5390 = EnumDecl False [
     (''MATCH_MTR'', 0), (''MATCH_MEQ'', 1), (''MATCH_MLE'', 2), (''MATCH_MLT'', 3),
     (''MATCH_MGE'', 4), (''MATCH_MGT'', 5)]"

definition enumdecl_line_5399 :: cenum_decl where
  "enumdecl_line_5399 = EnumDecl False [
     (''MAX8925_IRQ_VCHG_DC_OVP'', 0), (''MAX8925_IRQ_VCHG_DC_F'', 1),
     (''MAX8925_IRQ_VCHG_DC_R'', 2), (''MAX8925_IRQ_VCHG_THM_OK_R'', 3),
     (''MAX8925_IRQ_VCHG_THM_OK_F'', 4), (''MAX8925_IRQ_VCHG_SYSLOW_F'', 5),
     (''MAX8925_IRQ_VCHG_SYSLOW_R'', 6), (''MAX8925_IRQ_VCHG_RST'', 7),
     (''MAX8925_IRQ_VCHG_DONE'', 8), (''MAX8925_IRQ_VCHG_TOPOFF'', 9),
     (''MAX8925_IRQ_VCHG_TMR_FAULT'', 10), (''MAX8925_IRQ_GPM_RSTIN'', 11),
     (''MAX8925_IRQ_GPM_MPL'', 12), (''MAX8925_IRQ_GPM_SW_3SEC'', 13),
     (''MAX8925_IRQ_GPM_EXTON_F'', 14), (''MAX8925_IRQ_GPM_EXTON_R'', 15),
     (''MAX8925_IRQ_GPM_SW_1SEC'', 16), (''MAX8925_IRQ_GPM_SW_F'', 17),
     (''MAX8925_IRQ_GPM_SW_R'', 18), (''MAX8925_IRQ_GPM_SYSCKEN_F'', 19),
     (''MAX8925_IRQ_GPM_SYSCKEN_R'', 20), (''MAX8925_IRQ_RTC_ALARM1'', 21),
     (''MAX8925_IRQ_RTC_ALARM0'', 22), (''MAX8925_IRQ_TSC_STICK'', 23),
     (''MAX8925_IRQ_TSC_NSTICK'', 24), (''MAX8925_NR_IRQS'', 25)]"

definition enumdecl_line_5428 :: cenum_decl where
  "enumdecl_line_5428 = EnumDecl False [
     (''MAX8998_IRQ_DCINF'', 0), (''MAX8998_IRQ_DCINR'', 1), (''MAX8998_IRQ_JIGF'', 2),
     (''MAX8998_IRQ_JIGR'', 3), (''MAX8998_IRQ_PWRONF'', 4), (''MAX8998_IRQ_PWRONR'', 5),
     (''MAX8998_IRQ_WTSREVNT'', 6), (''MAX8998_IRQ_SMPLEVNT'', 7), (''MAX8998_IRQ_ALARM1'', 8),
     (''MAX8998_IRQ_ALARM0'', 9), (''MAX8998_IRQ_ONKEY1S'', 10), (''MAX8998_IRQ_TOPOFFR'', 11),
     (''MAX8998_IRQ_DCINOVPR'', 12), (''MAX8998_IRQ_CHGRSTF'', 13), (''MAX8998_IRQ_DONER'', 14),
     (''MAX8998_IRQ_CHGFAULT'', 15), (''MAX8998_IRQ_LOBAT1'', 16), (''MAX8998_IRQ_LOBAT2'', 17),
     (''MAX8998_IRQ_NR'', 18)]"

definition enumdecl_line_5450 :: cenum_decl where
  "enumdecl_line_5450 = EnumDecl False [
     (''MAX8998_REG_IRQ1'', 0), (''MAX8998_REG_IRQ2'', 1), (''MAX8998_REG_IRQ3'', 2),
     (''MAX8998_REG_IRQ4'', 3), (''MAX8998_REG_IRQM1'', 4), (''MAX8998_REG_IRQM2'', 5),
     (''MAX8998_REG_IRQM3'', 6), (''MAX8998_REG_IRQM4'', 7), (''MAX8998_REG_STATUS1'', 8),
     (''MAX8998_REG_STATUS2'', 9), (''MAX8998_REG_STATUSM1'', 10),
     (''MAX8998_REG_STATUSM2'', 11), (''MAX8998_REG_CHGR1'', 12), (''MAX8998_REG_CHGR2'', 13),
     (''MAX8998_REG_LDO_ACTIVE_DISCHARGE1'', 14), (''MAX8998_REG_LDO_ACTIVE_DISCHARGE2'', 15),
     (''MAX8998_REG_BUCK_ACTIVE_DISCHARGE3'', 16), (''MAX8998_REG_ONOFF1'', 17),
     (''MAX8998_REG_ONOFF2'', 18), (''MAX8998_REG_ONOFF3'', 19), (''MAX8998_REG_ONOFF4'', 20),
     (''MAX8998_REG_BUCK1_VOLTAGE1'', 21), (''MAX8998_REG_BUCK1_VOLTAGE2'', 22),
     (''MAX8998_REG_BUCK1_VOLTAGE3'', 23), (''MAX8998_REG_BUCK1_VOLTAGE4'', 24),
     (''MAX8998_REG_BUCK2_VOLTAGE1'', 25), (''MAX8998_REG_BUCK2_VOLTAGE2'', 26),
     (''MAX8998_REG_BUCK3'', 27), (''MAX8998_REG_BUCK4'', 28), (''MAX8998_REG_LDO2_LDO3'', 29),
     (''MAX8998_REG_LDO4'', 30), (''MAX8998_REG_LDO5'', 31), (''MAX8998_REG_LDO6'', 32),
     (''MAX8998_REG_LDO7'', 33), (''MAX8998_REG_LDO8_LDO9'', 34),
     (''MAX8998_REG_LDO10_LDO11'', 35), (''MAX8998_REG_LDO12'', 36), (''MAX8998_REG_LDO13'', 37),
     (''MAX8998_REG_LDO14'', 38), (''MAX8998_REG_LDO15'', 39), (''MAX8998_REG_LDO16'', 40),
     (''MAX8998_REG_LDO17'', 41), (''MAX8998_REG_BKCHR'', 42), (''MAX8998_REG_LBCNFG1'', 43),
     (''MAX8998_REG_LBCNFG2'', 44)]"

definition enumdecl_line_5498 :: cenum_decl where
  "enumdecl_line_5498 = EnumDecl False [
     (''MAX_IORES_LEVEL'', 8)]"

definition enumdecl_line_5502 :: cenum_decl where
  "enumdecl_line_5502 = EnumDecl False [
     (''MAX_OPT_ARGS'', 3)]"

definition enumdecl_line_5506 :: cenum_decl where
  "enumdecl_line_5506 = EnumDecl False [
     (''MBE_REFERENCED_B'', 0), (''MBE_REUSABLE_B'', 1)]"

definition enumdecl_line_5511 :: cenum_decl where
  "enumdecl_line_5511 = EnumDecl False [
     (''MB_INODE_PA'', 0), (''MB_GROUP_PA'', 1)]"

definition enumdecl_line_5516 :: cenum_decl where
  "enumdecl_line_5516 = EnumDecl False [
     (''MCTP_TRACE_KEY_TIMEOUT'', 0), (''MCTP_TRACE_KEY_REPLIED'', 1),
     (''MCTP_TRACE_KEY_INVALIDATED'', 2), (''MCTP_TRACE_KEY_CLOSED'', 3),
     (''MCTP_TRACE_KEY_DROPPED'', 4)]"

definition enumdecl_line_5524 :: cenum_decl where
  "enumdecl_line_5524 = EnumDecl False [
     (''MDBA_GET_ENTRY_UNSPEC'', 0), (''MDBA_GET_ENTRY'', 1), (''MDBA_GET_ENTRY_ATTRS'', 2),
     (''__MDBA_GET_ENTRY_MAX'', 3)]"

definition enumdecl_line_5531 :: cenum_decl where
  "enumdecl_line_5531 = EnumDecl False [
     (''MDBA_SET_ENTRY_UNSPEC'', 0), (''MDBA_SET_ENTRY'', 1), (''MDBA_SET_ENTRY_ATTRS'', 2),
     (''__MDBA_SET_ENTRY_MAX'', 3)]"

definition enumdecl_line_5538 :: cenum_decl where
  "enumdecl_line_5538 = EnumDecl False [
     (''MDIO_AN_C22'', 65504)]"

definition enumdecl_line_5542 :: cenum_decl where
  "enumdecl_line_5542 = EnumDecl False [
     (''MD_RESYNC_NONE'', 0), (''MD_RESYNC_YIELDED'', 1), (''MD_RESYNC_DELAYED'', 2),
     (''MD_RESYNC_ACTIVE'', 3)]"

definition enumdecl_line_5549 :: cenum_decl where
  "enumdecl_line_5549 = EnumDecl False [
     (''MED_R_CNT'', 10)]"

definition enumdecl_line_5553 :: cenum_decl where
  "enumdecl_line_5553 = EnumDecl False [
     (''MED_R_DUR'', 12)]"

definition enumdecl_line_5557 :: cenum_decl where
  "enumdecl_line_5557 = EnumDecl False [
     (''MED_W_CNT'', 11)]"

definition enumdecl_line_5561 :: cenum_decl where
  "enumdecl_line_5561 = EnumDecl False [
     (''MED_W_DUR'', 13)]"

definition enumdecl_line_5565 :: cenum_decl where
  "enumdecl_line_5565 = EnumDecl False [
     (''MEMBARRIER_FLAG_SYNC_CORE'', 1), (''MEMBARRIER_FLAG_RSEQ'', 2)]"

definition enumdecl_line_5570 :: cenum_decl where
  "enumdecl_line_5570 = EnumDecl False [
     (''MEMBARRIER_STATE_PRIVATE_EXPEDITED_READY'', 1),
     (''MEMBARRIER_STATE_PRIVATE_EXPEDITED'', 2),
     (''MEMBARRIER_STATE_GLOBAL_EXPEDITED_READY'', 4),
     (''MEMBARRIER_STATE_GLOBAL_EXPEDITED'', 8),
     (''MEMBARRIER_STATE_PRIVATE_EXPEDITED_SYNC_CORE_READY'', 16),
     (''MEMBARRIER_STATE_PRIVATE_EXPEDITED_SYNC_CORE'', 32),
     (''MEMBARRIER_STATE_PRIVATE_EXPEDITED_RSEQ_READY'', 64),
     (''MEMBARRIER_STATE_PRIVATE_EXPEDITED_RSEQ'', 128)]"

definition enumdecl_line_5581 :: cenum_decl where
  "enumdecl_line_5581 = EnumDecl False [
     (''MEMCG_LRU_NOP'', 0), (''MEMCG_LRU_HEAD'', 1), (''MEMCG_LRU_TAIL'', 2),
     (''MEMCG_LRU_OLD'', 3), (''MEMCG_LRU_YOUNG'', 4)]"

definition enumdecl_line_5589 :: cenum_decl where
  "enumdecl_line_5589 = EnumDecl False [
     (''MEMMAP_ON_MEMORY_DISABLE'', 0), (''MEMMAP_ON_MEMORY_ENABLE'', 1),
     (''MEMMAP_ON_MEMORY_FORCE'', 2)]"

definition enumdecl_line_5595 :: cenum_decl where
  "enumdecl_line_5595 = EnumDecl False [
     (''MEMORY_RECLAIM_SWAPPINESS'', 0), (''MEMORY_RECLAIM_SWAPPINESS_MAX'', 1),
     (''MEMORY_RECLAIM_NULL'', 2)]"

definition enumdecl_line_5601 :: cenum_decl where
  "enumdecl_line_5601 = EnumDecl False [
     (''MEMREMAP_WB'', 1), (''MEMREMAP_WT'', 2), (''MEMREMAP_WC'', 4), (''MEMREMAP_ENC'', 8),
     (''MEMREMAP_DEC'', 16)]"

definition enumdecl_line_5609 :: cenum_decl where
  "enumdecl_line_5609 = EnumDecl False [
     (''MEM_LIFE'', 4)]"

definition enumdecl_line_5613 :: cenum_decl where
  "enumdecl_line_5613 = EnumDecl False [
     (''MFC_STATIC'', 1), (''MFC_OFFLOAD'', 2)]"

definition enumdecl_line_5618 :: cenum_decl where
  "enumdecl_line_5618 = EnumDecl False [
     (''MILLION'', 1000000), (''MIN_PERIOD'', 1000), (''MAX_PERIOD'', 1000000),
     (''MARGIN_MIN_PCT'', 10), (''MARGIN_LOW_PCT'', 20), (''MARGIN_TARGET_PCT'', 50),
     (''INUSE_ADJ_STEP_PCT'', 25), (''TIMER_SLACK_PCT'', 1), (''WEIGHT_ONE'', 65536)]"

definition enumdecl_line_5630 :: cenum_decl where
  "enumdecl_line_5630 = EnumDecl False [
     (''MIPI_DCS_NOP'', 0), (''MIPI_DCS_SOFT_RESET'', 1), (''MIPI_DCS_GET_COMPRESSION_MODE'', 3),
     (''MIPI_DCS_GET_DISPLAY_ID'', 4), (''MIPI_DCS_GET_ERROR_COUNT_ON_DSI'', 5),
     (''MIPI_DCS_GET_RED_CHANNEL'', 6), (''MIPI_DCS_GET_GREEN_CHANNEL'', 7),
     (''MIPI_DCS_GET_BLUE_CHANNEL'', 8), (''MIPI_DCS_GET_DISPLAY_STATUS'', 9),
     (''MIPI_DCS_GET_POWER_MODE'', 10), (''MIPI_DCS_GET_ADDRESS_MODE'', 11),
     (''MIPI_DCS_GET_PIXEL_FORMAT'', 12), (''MIPI_DCS_GET_DISPLAY_MODE'', 13),
     (''MIPI_DCS_GET_SIGNAL_MODE'', 14), (''MIPI_DCS_GET_DIAGNOSTIC_RESULT'', 15),
     (''MIPI_DCS_ENTER_SLEEP_MODE'', 16), (''MIPI_DCS_EXIT_SLEEP_MODE'', 17),
     (''MIPI_DCS_ENTER_PARTIAL_MODE'', 18), (''MIPI_DCS_ENTER_NORMAL_MODE'', 19),
     (''MIPI_DCS_GET_IMAGE_CHECKSUM_RGB'', 20), (''MIPI_DCS_GET_IMAGE_CHECKSUM_CT'', 21),
     (''MIPI_DCS_EXIT_INVERT_MODE'', 32), (''MIPI_DCS_ENTER_INVERT_MODE'', 33),
     (''MIPI_DCS_SET_GAMMA_CURVE'', 38), (''MIPI_DCS_SET_DISPLAY_OFF'', 40),
     (''MIPI_DCS_SET_DISPLAY_ON'', 41), (''MIPI_DCS_SET_COLUMN_ADDRESS'', 42),
     (''MIPI_DCS_SET_PAGE_ADDRESS'', 43), (''MIPI_DCS_WRITE_MEMORY_START'', 44),
     (''MIPI_DCS_WRITE_LUT'', 45), (''MIPI_DCS_READ_MEMORY_START'', 46),
     (''MIPI_DCS_SET_PARTIAL_ROWS'', 48), (''MIPI_DCS_SET_PARTIAL_COLUMNS'', 49),
     (''MIPI_DCS_SET_SCROLL_AREA'', 51), (''MIPI_DCS_SET_TEAR_OFF'', 52),
     (''MIPI_DCS_SET_TEAR_ON'', 53), (''MIPI_DCS_SET_ADDRESS_MODE'', 54),
     (''MIPI_DCS_SET_SCROLL_START'', 55), (''MIPI_DCS_EXIT_IDLE_MODE'', 56),
     (''MIPI_DCS_ENTER_IDLE_MODE'', 57), (''MIPI_DCS_SET_PIXEL_FORMAT'', 58),
     (''MIPI_DCS_WRITE_MEMORY_CONTINUE'', 60), (''MIPI_DCS_SET_3D_CONTROL'', 61),
     (''MIPI_DCS_READ_MEMORY_CONTINUE'', 62), (''MIPI_DCS_GET_3D_CONTROL'', 63),
     (''MIPI_DCS_SET_VSYNC_TIMING'', 64), (''MIPI_DCS_SET_TEAR_SCANLINE'', 68),
     (''MIPI_DCS_GET_SCANLINE'', 69), (''MIPI_DCS_SET_DISPLAY_BRIGHTNESS'', 81),
     (''MIPI_DCS_GET_DISPLAY_BRIGHTNESS'', 82), (''MIPI_DCS_WRITE_CONTROL_DISPLAY'', 83),
     (''MIPI_DCS_GET_CONTROL_DISPLAY'', 84), (''MIPI_DCS_WRITE_POWER_SAVE'', 85),
     (''MIPI_DCS_GET_POWER_SAVE'', 86), (''MIPI_DCS_SET_CABC_MIN_BRIGHTNESS'', 94),
     (''MIPI_DCS_GET_CABC_MIN_BRIGHTNESS'', 95), (''MIPI_DCS_READ_DDB_START'', 161),
     (''MIPI_DCS_READ_PPS_START'', 162), (''MIPI_DCS_READ_DDB_CONTINUE'', 168),
     (''MIPI_DCS_READ_PPS_CONTINUE'', 169)]"

definition enumdecl_line_5693 :: cenum_decl where
  "enumdecl_line_5693 = EnumDecl False [
     (''MIPI_DSI_V_SYNC_START'', 1), (''MIPI_DSI_V_SYNC_END'', 17),
     (''MIPI_DSI_H_SYNC_START'', 33), (''MIPI_DSI_H_SYNC_END'', 49),
     (''MIPI_DSI_COMPRESSION_MODE'', 7), (''MIPI_DSI_END_OF_TRANSMISSION'', 8),
     (''MIPI_DSI_COLOR_MODE_OFF'', 2), (''MIPI_DSI_COLOR_MODE_ON'', 18),
     (''MIPI_DSI_SHUTDOWN_PERIPHERAL'', 34), (''MIPI_DSI_TURN_ON_PERIPHERAL'', 50),
     (''MIPI_DSI_GENERIC_SHORT_WRITE_0_PARAM'', 3),
     (''MIPI_DSI_GENERIC_SHORT_WRITE_1_PARAM'', 19),
     (''MIPI_DSI_GENERIC_SHORT_WRITE_2_PARAM'', 35),
     (''MIPI_DSI_GENERIC_READ_REQUEST_0_PARAM'', 4),
     (''MIPI_DSI_GENERIC_READ_REQUEST_1_PARAM'', 20),
     (''MIPI_DSI_GENERIC_READ_REQUEST_2_PARAM'', 36), (''MIPI_DSI_DCS_SHORT_WRITE'', 5),
     (''MIPI_DSI_DCS_SHORT_WRITE_PARAM'', 21), (''MIPI_DSI_DCS_READ'', 6),
     (''MIPI_DSI_EXECUTE_QUEUE'', 22), (''MIPI_DSI_SET_MAXIMUM_RETURN_PACKET_SIZE'', 55),
     (''MIPI_DSI_NULL_PACKET'', 9), (''MIPI_DSI_BLANKING_PACKET'', 25),
     (''MIPI_DSI_GENERIC_LONG_WRITE'', 41), (''MIPI_DSI_DCS_LONG_WRITE'', 57),
     (''MIPI_DSI_PICTURE_PARAMETER_SET'', 10), (''MIPI_DSI_COMPRESSED_PIXEL_STREAM'', 11),
     (''MIPI_DSI_LOOSELY_PACKED_PIXEL_STREAM_YCBCR20'', 12),
     (''MIPI_DSI_PACKED_PIXEL_STREAM_YCBCR24'', 28),
     (''MIPI_DSI_PACKED_PIXEL_STREAM_YCBCR16'', 44), (''MIPI_DSI_PACKED_PIXEL_STREAM_30'', 13),
     (''MIPI_DSI_PACKED_PIXEL_STREAM_36'', 29), (''MIPI_DSI_PACKED_PIXEL_STREAM_YCBCR12'', 61),
     (''MIPI_DSI_PACKED_PIXEL_STREAM_16'', 14), (''MIPI_DSI_PACKED_PIXEL_STREAM_18'', 30),
     (''MIPI_DSI_PIXEL_STREAM_3BYTE_18'', 46), (''MIPI_DSI_PACKED_PIXEL_STREAM_24'', 62)]"

definition enumdecl_line_5733 :: cenum_decl where
  "enumdecl_line_5733 = EnumDecl False [
     (''MIX_INFLIGHT'', 2147483648)]"

lemma enumdecl_line_5733_4: "enum4 enumdecl_line_5733"
  by (unfold enumdecl_line_5733_def) (intro enum_uint_intros; simp)

definition enumdecl_line_5737 :: cenum_decl where
  "enumdecl_line_5737 = EnumDecl False [
     (''MLX_MC_RBT_SUPPORT'', 1), (''MLX_MC_RBT_AVL'', 8)]"

definition enumdecl_line_5742 :: cenum_decl where
  "enumdecl_line_5742 = EnumDecl False [
     (''MMOP_OFFLINE'', 0), (''MMOP_ONLINE'', 1), (''MMOP_ONLINE_KERNEL'', 2),
     (''MMOP_ONLINE_MOVABLE'', 3)]"

definition enumdecl_line_5749 :: cenum_decl where
  "enumdecl_line_5749 = EnumDecl False [
     (''MM_FILEPAGES'', 0), (''MM_ANONPAGES'', 1), (''MM_SWAPENTS'', 2), (''MM_SHMEMPAGES'', 3),
     (''NR_MM_COUNTERS'', 4)]"

definition enumdecl_line_5757 :: cenum_decl where
  "enumdecl_line_5757 = EnumDecl False [
     (''MM_LEAF_TOTAL'', 0), (''MM_LEAF_YOUNG'', 1), (''MM_NONLEAF_FOUND'', 2),
     (''MM_NONLEAF_ADDED'', 3), (''NR_MM_STATS'', 4)]"

definition enumdecl_line_5765 :: cenum_decl where
  "enumdecl_line_5765 = EnumDecl False [
     (''MODE_NONE'', 0), (''MODE_ROUND_ROBIN'', 1), (''MODE_PER_CPU'', 2), (''MODE_MAX'', 3)]"

definition enumdecl_line_5772 :: cenum_decl where
  "enumdecl_line_5772 = EnumDecl False [
     (''MOXA_SUPP_RS232'', 1), (''MOXA_SUPP_RS422'', 2), (''MOXA_SUPP_RS485'', 4)]"

definition enumdecl_line_5778 :: cenum_decl where
  "enumdecl_line_5778 = EnumDecl False [
     (''MPOL_DEFAULT'', 0), (''MPOL_PREFERRED'', 1), (''MPOL_BIND'', 2),
     (''MPOL_INTERLEAVE'', 3), (''MPOL_LOCAL'', 4), (''MPOL_PREFERRED_MANY'', 5),
     (''MPOL_WEIGHTED_INTERLEAVE'', 6), (''MPOL_MAX'', 7)]"

definition enumdecl_line_5789 :: cenum_decl where
  "enumdecl_line_5789 = EnumDecl False [
     (''MPTCP_CMSG_TS'', 1), (''MPTCP_CMSG_INQ'', 2)]"

definition enumdecl_line_5794 :: cenum_decl where
  "enumdecl_line_5794 = EnumDecl False [
     (''MPTCP_PM_ADDR_ATTR_UNSPEC'', 0), (''MPTCP_PM_ADDR_ATTR_FAMILY'', 1),
     (''MPTCP_PM_ADDR_ATTR_ID'', 2), (''MPTCP_PM_ADDR_ATTR_ADDR4'', 3),
     (''MPTCP_PM_ADDR_ATTR_ADDR6'', 4), (''MPTCP_PM_ADDR_ATTR_PORT'', 5),
     (''MPTCP_PM_ADDR_ATTR_FLAGS'', 6), (''MPTCP_PM_ADDR_ATTR_IF_IDX'', 7),
     (''__MPTCP_PM_ADDR_ATTR_MAX'', 8)]"

definition enumdecl_line_5806 :: cenum_decl where
  "enumdecl_line_5806 = EnumDecl False [
     (''MPTCP_PM_ATTR_UNSPEC'', 0), (''MPTCP_PM_ATTR_ADDR'', 1),
     (''MPTCP_PM_ATTR_RCV_ADD_ADDRS'', 2), (''MPTCP_PM_ATTR_SUBFLOWS'', 3),
     (''MPTCP_PM_ATTR_TOKEN'', 4), (''MPTCP_PM_ATTR_LOC_ID'', 5),
     (''MPTCP_PM_ATTR_ADDR_REMOTE'', 6), (''__MPTCP_ATTR_AFTER_LAST'', 7)]"

definition enumdecl_line_5817 :: cenum_decl where
  "enumdecl_line_5817 = EnumDecl False [
     (''MPTCP_PM_CMD_UNSPEC'', 0), (''MPTCP_PM_CMD_ADD_ADDR'', 1),
     (''MPTCP_PM_CMD_DEL_ADDR'', 2), (''MPTCP_PM_CMD_GET_ADDR'', 3),
     (''MPTCP_PM_CMD_FLUSH_ADDRS'', 4), (''MPTCP_PM_CMD_SET_LIMITS'', 5),
     (''MPTCP_PM_CMD_GET_LIMITS'', 6), (''MPTCP_PM_CMD_SET_FLAGS'', 7),
     (''MPTCP_PM_CMD_ANNOUNCE'', 8), (''MPTCP_PM_CMD_REMOVE'', 9),
     (''MPTCP_PM_CMD_SUBFLOW_CREATE'', 10), (''MPTCP_PM_CMD_SUBFLOW_DESTROY'', 11),
     (''__MPTCP_PM_CMD_AFTER_LAST'', 12)]"

definition enumdecl_line_5833 :: cenum_decl where
  "enumdecl_line_5833 = EnumDecl False [
     (''MPTCP_PM_ENDPOINT_ADDR'', 1), (''__MPTCP_PM_ENDPOINT_MAX'', 2)]"

definition enumdecl_line_5838 :: cenum_decl where
  "enumdecl_line_5838 = EnumDecl False [
     (''MPTCP_SUBFLOW_ATTR_UNSPEC'', 0), (''MPTCP_SUBFLOW_ATTR_TOKEN_REM'', 1),
     (''MPTCP_SUBFLOW_ATTR_TOKEN_LOC'', 2), (''MPTCP_SUBFLOW_ATTR_RELWRITE_SEQ'', 3),
     (''MPTCP_SUBFLOW_ATTR_MAP_SEQ'', 4), (''MPTCP_SUBFLOW_ATTR_MAP_SFSEQ'', 5),
     (''MPTCP_SUBFLOW_ATTR_SSN_OFFSET'', 6), (''MPTCP_SUBFLOW_ATTR_MAP_DATALEN'', 7),
     (''MPTCP_SUBFLOW_ATTR_FLAGS'', 8), (''MPTCP_SUBFLOW_ATTR_ID_REM'', 9),
     (''MPTCP_SUBFLOW_ATTR_ID_LOC'', 10), (''MPTCP_SUBFLOW_ATTR_PAD'', 11),
     (''__MPTCP_SUBFLOW_ATTR_MAX'', 12)]"

definition enumdecl_line_5854 :: cenum_decl where
  "enumdecl_line_5854 = EnumDecl False [
     (''MSI_CHIP_FLAG_SET_EOI'', 1), (''MSI_CHIP_FLAG_SET_ACK'', 2)]"

definition enumdecl_line_5859 :: cenum_decl where
  "enumdecl_line_5859 = EnumDecl False [
     (''MSI_FLAG_USE_DEF_DOM_OPS'', 1), (''MSI_FLAG_USE_DEF_CHIP_OPS'', 2),
     (''MSI_FLAG_ACTIVATE_EARLY'', 4), (''MSI_FLAG_MUST_REACTIVATE'', 8),
     (''MSI_FLAG_DEV_SYSFS'', 16), (''MSI_FLAG_ALLOC_SIMPLE_MSI_DESCS'', 32),
     (''MSI_FLAG_FREE_MSI_DESCS'', 64), (''MSI_FLAG_USE_DEV_FWNODE'', 128),
     (''MSI_FLAG_PARENT_PM_DEV'', 256), (''MSI_FLAG_PCI_MSI_MASK_PARENT'', 512),
     (''MSI_FLAG_PCI_MSI_STARTUP_PARENT'', 1024), (''MSI_GENERIC_FLAGS_MASK'', 65535),
     (''MSI_DOMAIN_FLAGS_MASK'', 4294901760), (''MSI_FLAG_MULTI_PCI_MSI'', 65536),
     (''MSI_FLAG_PCI_MSIX'', 131072), (''MSI_FLAG_LEVEL_CAPABLE'', 262144),
     (''MSI_FLAG_MSIX_CONTIGUOUS'', 524288), (''MSI_FLAG_PCI_MSIX_ALLOC_DYN'', 1048576),
     (''MSI_FLAG_NO_AFFINITY'', 2097152), (''MSI_FLAG_NO_MASK'', 4194304)]"

lemma enumdecl_line_5859_4: "enum4 enumdecl_line_5859"
  by (unfold enumdecl_line_5859_def) (intro enum_uint_intros; simp)

definition enumdecl_line_5882 :: cenum_decl where
  "enumdecl_line_5882 = EnumDecl False [
     (''M_I17'', 0), (''M_I20'', 1), (''M_I20_SR'', 2), (''M_I24'', 3), (''M_I24_8_1'', 4),
     (''M_I24_10_1'', 5), (''M_I27_11_1'', 6), (''M_MINI'', 7), (''M_MINI_3_1'', 8),
     (''M_MINI_4_1'', 9), (''M_MB'', 10), (''M_MB_2'', 11), (''M_MB_3'', 12), (''M_MB_5_1'', 13),
     (''M_MB_6_1'', 14), (''M_MB_7_1'', 15), (''M_MB_SR'', 16), (''M_MBA'', 17),
     (''M_MBA_3'', 18), (''M_MBP'', 19), (''M_MBP_2'', 20), (''M_MBP_2_2'', 21),
     (''M_MBP_SR'', 22), (''M_MBP_4'', 23), (''M_MBP_5_1'', 24), (''M_MBP_5_2'', 25),
     (''M_MBP_5_3'', 26), (''M_MBP_6_1'', 27), (''M_MBP_6_2'', 28), (''M_MBP_7_1'', 29),
     (''M_MBP_8_2'', 30), (''M_UNKNOWN'', 31)]"

definition enumdecl_line_5917 :: cenum_decl where
  "enumdecl_line_5917 = EnumDecl False [
     (''NAPIF_STATE_SCHED'', 1), (''NAPIF_STATE_MISSED'', 2), (''NAPIF_STATE_DISABLE'', 4),
     (''NAPIF_STATE_NPSVC'', 8), (''NAPIF_STATE_LISTED'', 16),
     (''NAPIF_STATE_NO_BUSY_POLL'', 32), (''NAPIF_STATE_IN_BUSY_POLL'', 64),
     (''NAPIF_STATE_PREFER_BUSY_POLL'', 128), (''NAPIF_STATE_THREADED'', 256),
     (''NAPIF_STATE_SCHED_THREADED'', 512), (''NAPIF_STATE_HAS_NOTIFIER'', 1024),
     (''NAPIF_STATE_THREADED_BUSY_POLL'', 2048)]"

definition enumdecl_line_5932 :: cenum_decl where
  "enumdecl_line_5932 = EnumDecl False [
     (''NAPI_F_PREFER_BUSY_POLL'', 1), (''NAPI_F_END_ON_RESCHED'', 2)]"

definition enumdecl_line_5937 :: cenum_decl where
  "enumdecl_line_5937 = EnumDecl False [
     (''NAPI_STATE_SCHED'', 0), (''NAPI_STATE_MISSED'', 1), (''NAPI_STATE_DISABLE'', 2),
     (''NAPI_STATE_NPSVC'', 3), (''NAPI_STATE_LISTED'', 4), (''NAPI_STATE_NO_BUSY_POLL'', 5),
     (''NAPI_STATE_IN_BUSY_POLL'', 6), (''NAPI_STATE_PREFER_BUSY_POLL'', 7),
     (''NAPI_STATE_THREADED'', 8), (''NAPI_STATE_SCHED_THREADED'', 9),
     (''NAPI_STATE_HAS_NOTIFIER'', 10), (''NAPI_STATE_THREADED_BUSY_POLL'', 11)]"

definition enumdecl_line_5952 :: cenum_decl where
  "enumdecl_line_5952 = EnumDecl False [
     (''NCSI_CAP_BASE'', 0), (''NCSI_CAP_GENERIC'', 0), (''NCSI_CAP_BC'', 1),
     (''NCSI_CAP_MC'', 2), (''NCSI_CAP_BUFFER'', 3), (''NCSI_CAP_AEN'', 4),
     (''NCSI_CAP_VLAN'', 5), (''NCSI_CAP_MAX'', 6)]"

definition enumdecl_line_5963 :: cenum_decl where
  "enumdecl_line_5963 = EnumDecl False [
     (''NCSI_CAP_GENERIC_HWA'', 1), (''NCSI_CAP_GENERIC_HDS'', 2), (''NCSI_CAP_GENERIC_FC'', 4),
     (''NCSI_CAP_GENERIC_FC1'', 8), (''NCSI_CAP_GENERIC_MC'', 16),
     (''NCSI_CAP_GENERIC_HWA_UNKNOWN'', 0), (''NCSI_CAP_GENERIC_HWA_SUPPORT'', 32),
     (''NCSI_CAP_GENERIC_HWA_NOT_SUPPORT'', 64), (''NCSI_CAP_GENERIC_HWA_RESERVED'', 96),
     (''NCSI_CAP_GENERIC_HWA_MASK'', 96), (''NCSI_CAP_GENERIC_MASK'', 127),
     (''NCSI_CAP_BC_ARP'', 1), (''NCSI_CAP_BC_DHCPC'', 2), (''NCSI_CAP_BC_DHCPS'', 4),
     (''NCSI_CAP_BC_NETBIOS'', 8), (''NCSI_CAP_BC_MASK'', 15),
     (''NCSI_CAP_MC_IPV6_NEIGHBOR'', 1), (''NCSI_CAP_MC_IPV6_ROUTER'', 2),
     (''NCSI_CAP_MC_DHCPV6_RELAY'', 4), (''NCSI_CAP_MC_DHCPV6_WELL_KNOWN'', 8),
     (''NCSI_CAP_MC_IPV6_MLD'', 16), (''NCSI_CAP_MC_IPV6_NEIGHBOR_S'', 32),
     (''NCSI_CAP_MC_MASK'', 63), (''NCSI_CAP_AEN_LSC'', 1), (''NCSI_CAP_AEN_CR'', 2),
     (''NCSI_CAP_AEN_HDS'', 4), (''NCSI_CAP_AEN_MASK'', 7), (''NCSI_CAP_VLAN_ONLY'', 1),
     (''NCSI_CAP_VLAN_NO'', 2), (''NCSI_CAP_VLAN_ANY'', 4), (''NCSI_CAP_VLAN_MASK'', 7)]"

definition enumdecl_line_5997 :: cenum_decl where
  "enumdecl_line_5997 = EnumDecl False [
     (''NCSI_MODE_BASE'', 0), (''NCSI_MODE_ENABLE'', 0), (''NCSI_MODE_TX_ENABLE'', 1),
     (''NCSI_MODE_LINK'', 2), (''NCSI_MODE_VLAN'', 3), (''NCSI_MODE_BC'', 4),
     (''NCSI_MODE_MC'', 5), (''NCSI_MODE_AEN'', 6), (''NCSI_MODE_FC'', 7), (''NCSI_MODE_MAX'', 8)]"

definition enumdecl_line_6010 :: cenum_decl where
  "enumdecl_line_6010 = EnumDecl False [
     (''NDA_UNSPEC'', 0), (''NDA_DST'', 1), (''NDA_LLADDR'', 2), (''NDA_CACHEINFO'', 3),
     (''NDA_PROBES'', 4), (''NDA_VLAN'', 5), (''NDA_PORT'', 6), (''NDA_VNI'', 7),
     (''NDA_IFINDEX'', 8), (''NDA_MASTER'', 9), (''NDA_LINK_NETNSID'', 10),
     (''NDA_SRC_VNI'', 11), (''NDA_PROTOCOL'', 12), (''NDA_NH_ID'', 13),
     (''NDA_FDB_EXT_ATTRS'', 14), (''NDA_FLAGS_EXT'', 15), (''NDA_NDM_STATE_MASK'', 16),
     (''NDA_NDM_FLAGS_MASK'', 17), (''__NDA_MAX'', 18)]"

definition enumdecl_line_6032 :: cenum_decl where
  "enumdecl_line_6032 = EnumDecl False [
     (''NDD_UNARMED'', 1), (''NDD_LOCKED'', 2), (''NDD_SECURITY_OVERWRITE'', 3),
     (''NDD_WORK_PENDING'', 4), (''NDD_LABELING'', 6), (''NDD_INCOHERENT'', 7),
     (''NDD_REGISTER_SYNC'', 8), (''ND_IOCTL_MAX_BUFLEN'', 4194304), (''ND_CMD_MAX_ELEM'', 5),
     (''ND_CMD_MAX_ENVELOPE'', 256), (''ND_MAX_MAPPINGS'', 32), (''ND_REGION_PAGEMAP'', 0),
     (''ND_REGION_PERSIST_CACHE'', 1), (''ND_REGION_PERSIST_MEMCTRL'', 2),
     (''ND_REGION_ASYNC'', 3), (''ND_REGION_CXL'', 4), (''DPA_RESOURCE_ADJUSTED'', 1)]"

definition enumdecl_line_6052 :: cenum_decl where
  "enumdecl_line_6052 = EnumDecl False [
     (''NDTA_UNSPEC'', 0), (''NDTA_NAME'', 1), (''NDTA_THRESH1'', 2), (''NDTA_THRESH2'', 3),
     (''NDTA_THRESH3'', 4), (''NDTA_CONFIG'', 5), (''NDTA_PARMS'', 6), (''NDTA_STATS'', 7),
     (''NDTA_GC_INTERVAL'', 8), (''NDTA_PAD'', 9), (''__NDTA_MAX'', 10)]"

definition enumdecl_line_6066 :: cenum_decl where
  "enumdecl_line_6066 = EnumDecl False [
     (''NDTPA_UNSPEC'', 0), (''NDTPA_IFINDEX'', 1), (''NDTPA_REFCNT'', 2),
     (''NDTPA_REACHABLE_TIME'', 3), (''NDTPA_BASE_REACHABLE_TIME'', 4),
     (''NDTPA_RETRANS_TIME'', 5), (''NDTPA_GC_STALETIME'', 6), (''NDTPA_DELAY_PROBE_TIME'', 7),
     (''NDTPA_QUEUE_LEN'', 8), (''NDTPA_APP_PROBES'', 9), (''NDTPA_UCAST_PROBES'', 10),
     (''NDTPA_MCAST_PROBES'', 11), (''NDTPA_ANYCAST_DELAY'', 12), (''NDTPA_PROXY_DELAY'', 13),
     (''NDTPA_PROXY_QLEN'', 14), (''NDTPA_LOCKTIME'', 15), (''NDTPA_QUEUE_LENBYTES'', 16),
     (''NDTPA_MCAST_REPROBES'', 17), (''NDTPA_PAD'', 18), (''NDTPA_INTERVAL_PROBE_TIME_MS'', 19),
     (''__NDTPA_MAX'', 20)]"

definition enumdecl_line_6090 :: cenum_decl where
  "enumdecl_line_6090 = EnumDecl False [
     (''NDUSEROPT_UNSPEC'', 0), (''NDUSEROPT_SRCADDR'', 1), (''__NDUSEROPT_MAX'', 2)]"

definition enumdecl_line_6096 :: cenum_decl where
  "enumdecl_line_6096 = EnumDecl False [
     (''ND_CMD_IMPLEMENTED'', 0), (''ND_CMD_ARS_CAP'', 1), (''ND_CMD_ARS_START'', 2),
     (''ND_CMD_ARS_STATUS'', 3), (''ND_CMD_CLEAR_ERROR'', 4), (''ND_CMD_SMART'', 1),
     (''ND_CMD_SMART_THRESHOLD'', 2), (''ND_CMD_DIMM_FLAGS'', 3),
     (''ND_CMD_GET_CONFIG_SIZE'', 4), (''ND_CMD_GET_CONFIG_DATA'', 5),
     (''ND_CMD_SET_CONFIG_DATA'', 6), (''ND_CMD_VENDOR_EFFECT_LOG_SIZE'', 7),
     (''ND_CMD_VENDOR_EFFECT_LOG'', 8), (''ND_CMD_VENDOR'', 9), (''ND_CMD_CALL'', 10)]"

definition enumdecl_line_6114 :: cenum_decl where
  "enumdecl_line_6114 = EnumDecl False [
     (''ND_MAX_LANES'', 256), (''INT_LBASIZE_ALIGNMENT'', 64), (''NVDIMM_IO_ATOMIC'', 1)]"

definition enumdecl_line_6120 :: cenum_decl where
  "enumdecl_line_6120 = EnumDecl False [
     (''ND_MIN_NAMESPACE_SIZE'', 4096)]"

definition enumdecl_line_6124 :: cenum_decl where
  "enumdecl_line_6124 = EnumDecl False [
     (''NEIGH_ARP_TABLE'', 0), (''NEIGH_ND_TABLE'', 1), (''NEIGH_NR_TABLES'', 2),
     (''NEIGH_LINK_TABLE'', 2)]"

definition enumdecl_line_6131 :: cenum_decl where
  "enumdecl_line_6131 = EnumDecl False [
     (''NEIGH_VAR_MCAST_PROBES'', 0), (''NEIGH_VAR_UCAST_PROBES'', 1),
     (''NEIGH_VAR_APP_PROBES'', 2), (''NEIGH_VAR_MCAST_REPROBES'', 3),
     (''NEIGH_VAR_RETRANS_TIME'', 4), (''NEIGH_VAR_BASE_REACHABLE_TIME'', 5),
     (''NEIGH_VAR_DELAY_PROBE_TIME'', 6), (''NEIGH_VAR_INTERVAL_PROBE_TIME_MS'', 7),
     (''NEIGH_VAR_GC_STALETIME'', 8), (''NEIGH_VAR_QUEUE_LEN_BYTES'', 9),
     (''NEIGH_VAR_PROXY_QLEN'', 10), (''NEIGH_VAR_ANYCAST_DELAY'', 11),
     (''NEIGH_VAR_PROXY_DELAY'', 12), (''NEIGH_VAR_LOCKTIME'', 13),
     (''NEIGH_VAR_QUEUE_LEN'', 14), (''NEIGH_VAR_RETRANS_TIME_MS'', 15),
     (''NEIGH_VAR_BASE_REACHABLE_TIME_MS'', 16), (''NEIGH_VAR_GC_INTERVAL'', 17),
     (''NEIGH_VAR_GC_THRESH1'', 18), (''NEIGH_VAR_GC_THRESH2'', 19),
     (''NEIGH_VAR_GC_THRESH3'', 20), (''NEIGH_VAR_MAX'', 21)]"

definition enumdecl_line_6156 :: cenum_decl where
  "enumdecl_line_6156 = EnumDecl False [
     (''NESTED_SYNC_IMM_BIT'', 0), (''NESTED_SYNC_TODO_BIT'', 1)]"

definition enumdecl_line_6161 :: cenum_decl where
  "enumdecl_line_6161 = EnumDecl False [
     (''NETCONFA_UNSPEC'', 0), (''NETCONFA_IFINDEX'', 1), (''NETCONFA_FORWARDING'', 2),
     (''NETCONFA_RP_FILTER'', 3), (''NETCONFA_MC_FORWARDING'', 4), (''NETCONFA_PROXY_NEIGH'', 5),
     (''NETCONFA_IGNORE_ROUTES_WITH_LINKDOWN'', 6), (''NETCONFA_INPUT'', 7),
     (''NETCONFA_BC_FORWARDING'', 8), (''NETCONFA_FORCE_FORWARDING'', 9),
     (''__NETCONFA_MAX'', 10)]"

definition enumdecl_line_6175 :: cenum_decl where
  "enumdecl_line_6175 = EnumDecl False [
     (''NETDEV_A_DEV_IFINDEX'', 1), (''NETDEV_A_DEV_PAD'', 2),
     (''NETDEV_A_DEV_XDP_FEATURES'', 3), (''NETDEV_A_DEV_XDP_ZC_MAX_SEGS'', 4),
     (''NETDEV_A_DEV_XDP_RX_METADATA_FEATURES'', 5), (''NETDEV_A_DEV_XSK_FEATURES'', 6),
     (''__NETDEV_A_DEV_MAX'', 7), (''NETDEV_A_DEV_MAX'', 6)]"

definition enumdecl_line_6186 :: cenum_decl where
  "enumdecl_line_6186 = EnumDecl False [
     (''NETDEV_A_DMABUF_IFINDEX'', 1), (''NETDEV_A_DMABUF_QUEUES'', 2),
     (''NETDEV_A_DMABUF_FD'', 3), (''NETDEV_A_DMABUF_ID'', 4), (''__NETDEV_A_DMABUF_MAX'', 5),
     (''NETDEV_A_DMABUF_MAX'', 4)]"

definition enumdecl_line_6195 :: cenum_decl where
  "enumdecl_line_6195 = EnumDecl False [
     (''NETDEV_A_NAPI_IFINDEX'', 1), (''NETDEV_A_NAPI_ID'', 2), (''NETDEV_A_NAPI_IRQ'', 3),
     (''NETDEV_A_NAPI_PID'', 4), (''NETDEV_A_NAPI_DEFER_HARD_IRQS'', 5),
     (''NETDEV_A_NAPI_GRO_FLUSH_TIMEOUT'', 6), (''NETDEV_A_NAPI_IRQ_SUSPEND_TIMEOUT'', 7),
     (''NETDEV_A_NAPI_THREADED'', 8), (''__NETDEV_A_NAPI_MAX'', 9), (''NETDEV_A_NAPI_MAX'', 8)]"

definition enumdecl_line_6208 :: cenum_decl where
  "enumdecl_line_6208 = EnumDecl False [
     (''NETDEV_A_PAGE_POOL_ID'', 1), (''NETDEV_A_PAGE_POOL_IFINDEX'', 2),
     (''NETDEV_A_PAGE_POOL_NAPI_ID'', 3), (''NETDEV_A_PAGE_POOL_INFLIGHT'', 4),
     (''NETDEV_A_PAGE_POOL_INFLIGHT_MEM'', 5), (''NETDEV_A_PAGE_POOL_DETACH_TIME'', 6),
     (''NETDEV_A_PAGE_POOL_DMABUF'', 7), (''NETDEV_A_PAGE_POOL_IO_URING'', 8),
     (''__NETDEV_A_PAGE_POOL_MAX'', 9), (''NETDEV_A_PAGE_POOL_MAX'', 8)]"

definition enumdecl_line_6221 :: cenum_decl where
  "enumdecl_line_6221 = EnumDecl False [
     (''NETDEV_A_PAGE_POOL_STATS_INFO'', 1), (''NETDEV_A_PAGE_POOL_STATS_ALLOC_FAST'', 8),
     (''NETDEV_A_PAGE_POOL_STATS_ALLOC_SLOW'', 9),
     (''NETDEV_A_PAGE_POOL_STATS_ALLOC_SLOW_HIGH_ORDER'', 10),
     (''NETDEV_A_PAGE_POOL_STATS_ALLOC_EMPTY'', 11),
     (''NETDEV_A_PAGE_POOL_STATS_ALLOC_REFILL'', 12),
     (''NETDEV_A_PAGE_POOL_STATS_ALLOC_WAIVE'', 13),
     (''NETDEV_A_PAGE_POOL_STATS_RECYCLE_CACHED'', 14),
     (''NETDEV_A_PAGE_POOL_STATS_RECYCLE_CACHE_FULL'', 15),
     (''NETDEV_A_PAGE_POOL_STATS_RECYCLE_RING'', 16),
     (''NETDEV_A_PAGE_POOL_STATS_RECYCLE_RING_FULL'', 17),
     (''NETDEV_A_PAGE_POOL_STATS_RECYCLE_RELEASED_REFCNT'', 18),
     (''__NETDEV_A_PAGE_POOL_STATS_MAX'', 19), (''NETDEV_A_PAGE_POOL_STATS_MAX'', 18)]"

definition enumdecl_line_6238 :: cenum_decl where
  "enumdecl_line_6238 = EnumDecl False [
     (''NETDEV_A_QSTATS_IFINDEX'', 1), (''NETDEV_A_QSTATS_QUEUE_TYPE'', 2),
     (''NETDEV_A_QSTATS_QUEUE_ID'', 3), (''NETDEV_A_QSTATS_SCOPE'', 4),
     (''NETDEV_A_QSTATS_RX_PACKETS'', 8), (''NETDEV_A_QSTATS_RX_BYTES'', 9),
     (''NETDEV_A_QSTATS_TX_PACKETS'', 10), (''NETDEV_A_QSTATS_TX_BYTES'', 11),
     (''NETDEV_A_QSTATS_RX_ALLOC_FAIL'', 12), (''NETDEV_A_QSTATS_RX_HW_DROPS'', 13),
     (''NETDEV_A_QSTATS_RX_HW_DROP_OVERRUNS'', 14), (''NETDEV_A_QSTATS_RX_CSUM_COMPLETE'', 15),
     (''NETDEV_A_QSTATS_RX_CSUM_UNNECESSARY'', 16), (''NETDEV_A_QSTATS_RX_CSUM_NONE'', 17),
     (''NETDEV_A_QSTATS_RX_CSUM_BAD'', 18), (''NETDEV_A_QSTATS_RX_HW_GRO_PACKETS'', 19),
     (''NETDEV_A_QSTATS_RX_HW_GRO_BYTES'', 20), (''NETDEV_A_QSTATS_RX_HW_GRO_WIRE_PACKETS'', 21),
     (''NETDEV_A_QSTATS_RX_HW_GRO_WIRE_BYTES'', 22),
     (''NETDEV_A_QSTATS_RX_HW_DROP_RATELIMITS'', 23), (''NETDEV_A_QSTATS_TX_HW_DROPS'', 24),
     (''NETDEV_A_QSTATS_TX_HW_DROP_ERRORS'', 25), (''NETDEV_A_QSTATS_TX_CSUM_NONE'', 26),
     (''NETDEV_A_QSTATS_TX_NEEDS_CSUM'', 27), (''NETDEV_A_QSTATS_TX_HW_GSO_PACKETS'', 28),
     (''NETDEV_A_QSTATS_TX_HW_GSO_BYTES'', 29), (''NETDEV_A_QSTATS_TX_HW_GSO_WIRE_PACKETS'', 30),
     (''NETDEV_A_QSTATS_TX_HW_GSO_WIRE_BYTES'', 31),
     (''NETDEV_A_QSTATS_TX_HW_DROP_RATELIMITS'', 32), (''NETDEV_A_QSTATS_TX_STOP'', 33),
     (''NETDEV_A_QSTATS_TX_WAKE'', 34), (''__NETDEV_A_QSTATS_MAX'', 35),
     (''NETDEV_A_QSTATS_MAX'', 34)]"

definition enumdecl_line_6274 :: cenum_decl where
  "enumdecl_line_6274 = EnumDecl False [
     (''NETDEV_A_QUEUE_ID'', 1), (''NETDEV_A_QUEUE_IFINDEX'', 2), (''NETDEV_A_QUEUE_TYPE'', 3),
     (''NETDEV_A_QUEUE_NAPI_ID'', 4), (''NETDEV_A_QUEUE_DMABUF'', 5),
     (''NETDEV_A_QUEUE_IO_URING'', 6), (''NETDEV_A_QUEUE_XSK'', 7),
     (''__NETDEV_A_QUEUE_MAX'', 8), (''NETDEV_A_QUEUE_MAX'', 7)]"

definition enumdecl_line_6286 :: cenum_decl where
  "enumdecl_line_6286 = EnumDecl False [
     (''NETDEV_CMD_DEV_GET'', 1), (''NETDEV_CMD_DEV_ADD_NTF'', 2),
     (''NETDEV_CMD_DEV_DEL_NTF'', 3), (''NETDEV_CMD_DEV_CHANGE_NTF'', 4),
     (''NETDEV_CMD_PAGE_POOL_GET'', 5), (''NETDEV_CMD_PAGE_POOL_ADD_NTF'', 6),
     (''NETDEV_CMD_PAGE_POOL_DEL_NTF'', 7), (''NETDEV_CMD_PAGE_POOL_CHANGE_NTF'', 8),
     (''NETDEV_CMD_PAGE_POOL_STATS_GET'', 9), (''NETDEV_CMD_QUEUE_GET'', 10),
     (''NETDEV_CMD_NAPI_GET'', 11), (''NETDEV_CMD_QSTATS_GET'', 12),
     (''NETDEV_CMD_BIND_RX'', 13), (''NETDEV_CMD_NAPI_SET'', 14), (''NETDEV_CMD_BIND_TX'', 15),
     (''__NETDEV_CMD_MAX'', 16), (''NETDEV_CMD_MAX'', 15)]"

definition enumdecl_line_6306 :: cenum_decl where
  "enumdecl_line_6306 = EnumDecl False [
     (''NETDEV_NLGRP_MGMT'', 0), (''NETDEV_NLGRP_PAGE_POOL'', 1)]"

definition enumdecl_line_6311 :: cenum_decl where
  "enumdecl_line_6311 = EnumDecl False [
     (''NETIF_F_SG_BIT'', 0), (''NETIF_F_IP_CSUM_BIT'', 1), (''__UNUSED_NETIF_F_1'', 2),
     (''NETIF_F_HW_CSUM_BIT'', 3), (''NETIF_F_IPV6_CSUM_BIT'', 4), (''NETIF_F_HIGHDMA_BIT'', 5),
     (''NETIF_F_FRAGLIST_BIT'', 6), (''NETIF_F_HW_VLAN_CTAG_TX_BIT'', 7),
     (''NETIF_F_HW_VLAN_CTAG_RX_BIT'', 8), (''NETIF_F_HW_VLAN_CTAG_FILTER_BIT'', 9),
     (''NETIF_F_VLAN_CHALLENGED_BIT'', 10), (''NETIF_F_GSO_BIT'', 11),
     (''__UNUSED_NETIF_F_12'', 12), (''__UNUSED_NETIF_F_13'', 13), (''NETIF_F_GRO_BIT'', 14),
     (''NETIF_F_LRO_BIT'', 15), (''NETIF_F_GSO_SHIFT'', 16), (''NETIF_F_TSO_BIT'', 16),
     (''NETIF_F_GSO_ROBUST_BIT'', 17), (''NETIF_F_TSO_ECN_BIT'', 18),
     (''NETIF_F_TSO_MANGLEID_BIT'', 19), (''NETIF_F_TSO6_BIT'', 20), (''NETIF_F_FSO_BIT'', 21),
     (''NETIF_F_GSO_GRE_BIT'', 22), (''NETIF_F_GSO_GRE_CSUM_BIT'', 23),
     (''NETIF_F_GSO_IPXIP4_BIT'', 24), (''NETIF_F_GSO_IPXIP6_BIT'', 25),
     (''NETIF_F_GSO_UDP_TUNNEL_BIT'', 26), (''NETIF_F_GSO_UDP_TUNNEL_CSUM_BIT'', 27),
     (''NETIF_F_GSO_PARTIAL_BIT'', 28), (''NETIF_F_GSO_TUNNEL_REMCSUM_BIT'', 29),
     (''NETIF_F_GSO_SCTP_BIT'', 30), (''NETIF_F_GSO_ESP_BIT'', 31),
     (''NETIF_F_GSO_UDP_BIT'', 32), (''NETIF_F_GSO_UDP_L4_BIT'', 33),
     (''NETIF_F_GSO_FRAGLIST_BIT'', 34), (''NETIF_F_GSO_ACCECN_BIT'', 35),
     (''NETIF_F_GSO_LAST'', 35), (''NETIF_F_FCOE_CRC_BIT'', 36), (''NETIF_F_SCTP_CRC_BIT'', 37),
     (''NETIF_F_NTUPLE_BIT'', 38), (''NETIF_F_RXHASH_BIT'', 39), (''NETIF_F_RXCSUM_BIT'', 40),
     (''NETIF_F_NOCACHE_COPY_BIT'', 41), (''NETIF_F_LOOPBACK_BIT'', 42),
     (''NETIF_F_RXFCS_BIT'', 43), (''NETIF_F_RXALL_BIT'', 44),
     (''NETIF_F_HW_VLAN_STAG_TX_BIT'', 45), (''NETIF_F_HW_VLAN_STAG_RX_BIT'', 46),
     (''NETIF_F_HW_VLAN_STAG_FILTER_BIT'', 47), (''NETIF_F_HW_L2FW_DOFFLOAD_BIT'', 48),
     (''NETIF_F_HW_TC_BIT'', 49), (''NETIF_F_HW_ESP_BIT'', 50),
     (''NETIF_F_HW_ESP_TX_CSUM_BIT'', 51), (''NETIF_F_RX_UDP_TUNNEL_PORT_BIT'', 52),
     (''NETIF_F_HW_TLS_TX_BIT'', 53), (''NETIF_F_HW_TLS_RX_BIT'', 54),
     (''NETIF_F_GRO_HW_BIT'', 55), (''NETIF_F_HW_TLS_RECORD_BIT'', 56),
     (''NETIF_F_GRO_FRAGLIST_BIT'', 57), (''NETIF_F_HW_MACSEC_BIT'', 58),
     (''NETIF_F_GRO_UDP_FWD_BIT'', 59), (''NETIF_F_HW_HSR_TAG_INS_BIT'', 60),
     (''NETIF_F_HW_HSR_TAG_RM_BIT'', 61), (''NETIF_F_HW_HSR_FWD_BIT'', 62),
     (''NETIF_F_HW_HSR_DUP_BIT'', 63), (''NETDEV_FEATURE_COUNT'', 64)]"

definition enumdecl_line_6381 :: cenum_decl where
  "enumdecl_line_6381 = EnumDecl False [
     (''NETIF_MSG_DRV_BIT'', 0), (''NETIF_MSG_PROBE_BIT'', 1), (''NETIF_MSG_LINK_BIT'', 2),
     (''NETIF_MSG_TIMER_BIT'', 3), (''NETIF_MSG_IFDOWN_BIT'', 4), (''NETIF_MSG_IFUP_BIT'', 5),
     (''NETIF_MSG_RX_ERR_BIT'', 6), (''NETIF_MSG_TX_ERR_BIT'', 7),
     (''NETIF_MSG_TX_QUEUED_BIT'', 8), (''NETIF_MSG_INTR_BIT'', 9),
     (''NETIF_MSG_TX_DONE_BIT'', 10), (''NETIF_MSG_RX_STATUS_BIT'', 11),
     (''NETIF_MSG_PKTDATA_BIT'', 12), (''NETIF_MSG_HW_BIT'', 13), (''NETIF_MSG_WOL_BIT'', 14),
     (''NETIF_MSG_CLASS_COUNT'', 15)]"

definition enumdecl_line_6400 :: cenum_decl where
  "enumdecl_line_6400 = EnumDecl False [
     (''NETLINK_F_KERNEL_SOCKET'', 0), (''NETLINK_F_RECV_PKTINFO'', 1),
     (''NETLINK_F_BROADCAST_SEND_ERROR'', 2), (''NETLINK_F_RECV_NO_ENOBUFS'', 3),
     (''NETLINK_F_LISTEN_ALL_NSID'', 4), (''NETLINK_F_CAP_ACK'', 5), (''NETLINK_F_EXT_ACK'', 6),
     (''NETLINK_F_STRICT_CHK'', 7)]"

definition enumdecl_line_6411 :: cenum_decl where
  "enumdecl_line_6411 = EnumDecl False [
     (''NETLINK_UNCONNECTED'', 0), (''NETLINK_CONNECTED'', 1)]"

definition enumdecl_line_6416 :: cenum_decl where
  "enumdecl_line_6416 = EnumDecl False [
     (''NETNSA_NONE'', 0), (''NETNSA_NSID'', 1), (''NETNSA_PID'', 2), (''NETNSA_FD'', 3),
     (''NETNSA_TARGET_NSID'', 4), (''NETNSA_CURRENT_NSID'', 5), (''__NETNSA_MAX'', 6)]"

definition enumdecl_line_6426 :: cenum_decl where
  "enumdecl_line_6426 = EnumDecl False [
     (''NET_DM_ATTR_PORT_NETDEV_IFINDEX'', 0), (''NET_DM_ATTR_PORT_NETDEV_NAME'', 1),
     (''__NET_DM_ATTR_PORT_MAX'', 2), (''NET_DM_ATTR_PORT_MAX'', 1)]"

definition enumdecl_line_6433 :: cenum_decl where
  "enumdecl_line_6433 = EnumDecl False [
     (''NET_DM_ATTR_STATS_DROPPED'', 0), (''__NET_DM_ATTR_STATS_MAX'', 1),
     (''NET_DM_ATTR_STATS_MAX'', 0)]"

definition enum_decls_4 :: "cenum_decl list" where
  "enum_decls_4 = [
     enumdecl_line_4844, enumdecl_line_5067, enumdecl_line_5091, enumdecl_line_5231,
     enumdecl_line_5253, enumdecl_line_5290, enumdecl_line_5294, enumdecl_line_5300,
     enumdecl_line_5307, enumdecl_line_5312, enumdecl_line_5319, enumdecl_line_5324,
     enumdecl_line_5331, enumdecl_line_5339, enumdecl_line_5348, enumdecl_line_5356,
     enumdecl_line_5362, enumdecl_line_5367, enumdecl_line_5374, enumdecl_line_5383,
     enumdecl_line_5390, enumdecl_line_5399, enumdecl_line_5428, enumdecl_line_5450,
     enumdecl_line_5498, enumdecl_line_5502, enumdecl_line_5506, enumdecl_line_5511,
     enumdecl_line_5516, enumdecl_line_5524, enumdecl_line_5531, enumdecl_line_5538,
     enumdecl_line_5542, enumdecl_line_5549, enumdecl_line_5553, enumdecl_line_5557,
     enumdecl_line_5561, enumdecl_line_5565, enumdecl_line_5570, enumdecl_line_5581,
     enumdecl_line_5589, enumdecl_line_5595, enumdecl_line_5601, enumdecl_line_5609,
     enumdecl_line_5613, enumdecl_line_5618, enumdecl_line_5630, enumdecl_line_5693,
     enumdecl_line_5733, enumdecl_line_5737, enumdecl_line_5742, enumdecl_line_5749,
     enumdecl_line_5757, enumdecl_line_5765, enumdecl_line_5772, enumdecl_line_5778,
     enumdecl_line_5789, enumdecl_line_5794, enumdecl_line_5806, enumdecl_line_5817,
     enumdecl_line_5833, enumdecl_line_5838, enumdecl_line_5854, enumdecl_line_5859,
     enumdecl_line_5882, enumdecl_line_5917, enumdecl_line_5932, enumdecl_line_5937,
     enumdecl_line_5952, enumdecl_line_5963, enumdecl_line_5997, enumdecl_line_6010,
     enumdecl_line_6032, enumdecl_line_6052, enumdecl_line_6066, enumdecl_line_6090,
     enumdecl_line_6096, enumdecl_line_6114, enumdecl_line_6120, enumdecl_line_6124,
     enumdecl_line_6131, enumdecl_line_6156, enumdecl_line_6161, enumdecl_line_6175,
     enumdecl_line_6186, enumdecl_line_6195, enumdecl_line_6208, enumdecl_line_6221,
     enumdecl_line_6238, enumdecl_line_6274, enumdecl_line_6286, enumdecl_line_6306,
     enumdecl_line_6311, enumdecl_line_6381, enumdecl_line_6400, enumdecl_line_6411,
     enumdecl_line_6416, enumdecl_line_6426, enumdecl_line_6433]"

lemma enum_decls_4_4: "list_all enum4 enum_decls_4"
  by (unfold enum_decls_4_def
     enumdecl_line_4844_def enumdecl_line_5067_def enumdecl_line_5091_def
     enumdecl_line_5231_def enumdecl_line_5253_def enumdecl_line_5290_def
     enumdecl_line_5294_def enumdecl_line_5300_def enumdecl_line_5307_def
     enumdecl_line_5312_def enumdecl_line_5319_def enumdecl_line_5324_def
     enumdecl_line_5331_def enumdecl_line_5339_def enumdecl_line_5348_def
     enumdecl_line_5356_def enumdecl_line_5362_def enumdecl_line_5367_def
     enumdecl_line_5374_def enumdecl_line_5383_def enumdecl_line_5390_def
     enumdecl_line_5399_def enumdecl_line_5428_def enumdecl_line_5450_def
     enumdecl_line_5498_def enumdecl_line_5502_def enumdecl_line_5506_def
     enumdecl_line_5511_def enumdecl_line_5516_def enumdecl_line_5524_def
     enumdecl_line_5531_def enumdecl_line_5538_def enumdecl_line_5542_def
     enumdecl_line_5549_def enumdecl_line_5553_def enumdecl_line_5557_def
     enumdecl_line_5561_def enumdecl_line_5565_def enumdecl_line_5570_def
     enumdecl_line_5581_def enumdecl_line_5589_def enumdecl_line_5595_def
     enumdecl_line_5601_def enumdecl_line_5609_def enumdecl_line_5613_def
     enumdecl_line_5618_def enumdecl_line_5630_def enumdecl_line_5693_def
     enumdecl_line_5737_def enumdecl_line_5742_def enumdecl_line_5749_def
     enumdecl_line_5757_def enumdecl_line_5765_def enumdecl_line_5772_def
     enumdecl_line_5778_def enumdecl_line_5789_def enumdecl_line_5794_def
     enumdecl_line_5806_def enumdecl_line_5817_def enumdecl_line_5833_def
     enumdecl_line_5838_def enumdecl_line_5854_def enumdecl_line_5882_def
     enumdecl_line_5917_def enumdecl_line_5932_def enumdecl_line_5937_def
     enumdecl_line_5952_def enumdecl_line_5963_def enumdecl_line_5997_def
     enumdecl_line_6010_def enumdecl_line_6032_def enumdecl_line_6052_def
     enumdecl_line_6066_def enumdecl_line_6090_def enumdecl_line_6096_def
     enumdecl_line_6114_def enumdecl_line_6120_def enumdecl_line_6124_def
     enumdecl_line_6131_def enumdecl_line_6156_def enumdecl_line_6161_def
     enumdecl_line_6175_def enumdecl_line_6186_def enumdecl_line_6195_def
     enumdecl_line_6208_def enumdecl_line_6221_def enumdecl_line_6238_def
     enumdecl_line_6274_def enumdecl_line_6286_def enumdecl_line_6306_def
     enumdecl_line_6311_def enumdecl_line_6381_def enumdecl_line_6400_def
     enumdecl_line_6411_def enumdecl_line_6416_def enumdecl_line_6426_def
     enumdecl_line_6433_def)
    (intro enum_list_intros enum_int_intros enumdecl_line_5733_4 enumdecl_line_5859_4; simp)

lemma length_enum_decls_4: "length enum_decls_4 = 99"
  by (simp add: enum_decls_4_def)

end
