(* ===== verification/VmlinuxEnum5.thy ===== *)
theory VmlinuxEnum5
  imports EnumDecl
begin

text \<open>
  The enumerations of four bytes of \<^verbatim>\<open>src/internal/ebpf/vmlinux.h\<close> between lines 6439 and
  8017, one definition per enumeration, enumerators in order. An enumeration without a tag is
  named after the line it starts on.
\<close>

definition enumdecl_line_6439 :: cenum_decl where
  "enumdecl_line_6439 = EnumDecl False [
     (''NET_DM_CMD_UNSPEC'', 0), (''NET_DM_CMD_ALERT'', 1), (''NET_DM_CMD_CONFIG'', 2),
     (''NET_DM_CMD_START'', 3), (''NET_DM_CMD_STOP'', 4), (''NET_DM_CMD_PACKET_ALERT'', 5),
     (''NET_DM_CMD_CONFIG_GET'', 6), (''NET_DM_CMD_CONFIG_NEW'', 7),
     (''NET_DM_CMD_STATS_GET'', 8), (''NET_DM_CMD_STATS_NEW'', 9), (''_NET_DM_CMD_MAX'', 10)]"

definition enumdecl_line_6453 :: cenum_decl where
  "enumdecl_line_6453 = EnumDecl False [
     (''NET_NS_INDEX'', 0), (''UTS_NS_INDEX'', 1), (''IPC_NS_INDEX'', 2), (''PID_NS_INDEX'', 3),
     (''USER_NS_INDEX'', 4), (''MNT_NS_INDEX'', 5), (''CGROUP_NS_INDEX'', 6),
     (''NR_NAMESPACES'', 7)]"

definition enumdecl_line_6464 :: cenum_decl where
  "enumdecl_line_6464 = EnumDecl False [
     (''NET_SHAPER_A_CAPS_IFINDEX'', 1), (''NET_SHAPER_A_CAPS_SCOPE'', 2),
     (''NET_SHAPER_A_CAPS_SUPPORT_METRIC_BPS'', 3),
     (''NET_SHAPER_A_CAPS_SUPPORT_METRIC_PPS'', 4), (''NET_SHAPER_A_CAPS_SUPPORT_NESTING'', 5),
     (''NET_SHAPER_A_CAPS_SUPPORT_BW_MIN'', 6), (''NET_SHAPER_A_CAPS_SUPPORT_BW_MAX'', 7),
     (''NET_SHAPER_A_CAPS_SUPPORT_BURST'', 8), (''NET_SHAPER_A_CAPS_SUPPORT_PRIORITY'', 9),
     (''NET_SHAPER_A_CAPS_SUPPORT_WEIGHT'', 10), (''__NET_SHAPER_A_CAPS_MAX'', 11),
     (''NET_SHAPER_A_CAPS_MAX'', 10)]"

definition enumdecl_line_6479 :: cenum_decl where
  "enumdecl_line_6479 = EnumDecl False [
     (''NET_SHAPER_A_HANDLE'', 1), (''NET_SHAPER_A_METRIC'', 2), (''NET_SHAPER_A_BW_MIN'', 3),
     (''NET_SHAPER_A_BW_MAX'', 4), (''NET_SHAPER_A_BURST'', 5), (''NET_SHAPER_A_PRIORITY'', 6),
     (''NET_SHAPER_A_WEIGHT'', 7), (''NET_SHAPER_A_IFINDEX'', 8), (''NET_SHAPER_A_PARENT'', 9),
     (''NET_SHAPER_A_LEAVES'', 10), (''__NET_SHAPER_A_MAX'', 11), (''NET_SHAPER_A_MAX'', 10)]"

definition enumdecl_line_6494 :: cenum_decl where
  "enumdecl_line_6494 = EnumDecl False [
     (''NET_SHAPER_A_HANDLE_SCOPE'', 1), (''NET_SHAPER_A_HANDLE_ID'', 2),
     (''__NET_SHAPER_A_HANDLE_MAX'', 3), (''NET_SHAPER_A_HANDLE_MAX'', 2)]"

definition enumdecl_line_6501 :: cenum_decl where
  "enumdecl_line_6501 = EnumDecl False [
     (''NET_SHAPER_CMD_GET'', 1), (''NET_SHAPER_CMD_SET'', 2), (''NET_SHAPER_CMD_DELETE'', 3),
     (''NET_SHAPER_CMD_GROUP'', 4), (''NET_SHAPER_CMD_CAP_GET'', 5),
     (''__NET_SHAPER_CMD_MAX'', 6), (''NET_SHAPER_CMD_MAX'', 5)]"

definition enumdecl_line_6511 :: cenum_decl where
  "enumdecl_line_6511 = EnumDecl False [
     (''NEXTHOP_GRP_TYPE_MPATH'', 0), (''NEXTHOP_GRP_TYPE_RES'', 1),
     (''__NEXTHOP_GRP_TYPE_MAX'', 2)]"

definition enumdecl_line_6517 :: cenum_decl where
  "enumdecl_line_6517 = EnumDecl False [
     (''NFPROTO_UNSPEC'', 0), (''NFPROTO_INET'', 1), (''NFPROTO_IPV4'', 2), (''NFPROTO_ARP'', 3),
     (''NFPROTO_NETDEV'', 5), (''NFPROTO_BRIDGE'', 7), (''NFPROTO_IPV6'', 10),
     (''NFPROTO_NUMPROTO'', 11)]"

definition enumdecl_line_6528 :: cenum_decl where
  "enumdecl_line_6528 = EnumDecl False [
     (''NHA_GROUP_STATS_ENTRY_UNSPEC'', 0), (''NHA_GROUP_STATS_ENTRY_ID'', 1),
     (''NHA_GROUP_STATS_ENTRY_PACKETS'', 2), (''NHA_GROUP_STATS_ENTRY_PACKETS_HW'', 3),
     (''__NHA_GROUP_STATS_ENTRY_MAX'', 4)]"

definition enumdecl_line_6536 :: cenum_decl where
  "enumdecl_line_6536 = EnumDecl False [
     (''NHA_GROUP_STATS_UNSPEC'', 0), (''NHA_GROUP_STATS_ENTRY'', 1),
     (''__NHA_GROUP_STATS_MAX'', 2)]"

definition enumdecl_line_6542 :: cenum_decl where
  "enumdecl_line_6542 = EnumDecl False [
     (''NHA_RES_BUCKET_UNSPEC'', 0), (''NHA_RES_BUCKET_PAD'', 0), (''NHA_RES_BUCKET_INDEX'', 1),
     (''NHA_RES_BUCKET_IDLE_TIME'', 2), (''NHA_RES_BUCKET_NH_ID'', 3),
     (''__NHA_RES_BUCKET_MAX'', 4)]"

definition enumdecl_line_6551 :: cenum_decl where
  "enumdecl_line_6551 = EnumDecl False [
     (''NHA_RES_GROUP_UNSPEC'', 0), (''NHA_RES_GROUP_PAD'', 0), (''NHA_RES_GROUP_BUCKETS'', 1),
     (''NHA_RES_GROUP_IDLE_TIMER'', 2), (''NHA_RES_GROUP_UNBALANCED_TIMER'', 3),
     (''NHA_RES_GROUP_UNBALANCED_TIME'', 4), (''__NHA_RES_GROUP_MAX'', 5)]"

definition enumdecl_line_6561 :: cenum_decl where
  "enumdecl_line_6561 = EnumDecl False [
     (''NHA_UNSPEC'', 0), (''NHA_ID'', 1), (''NHA_GROUP'', 2), (''NHA_GROUP_TYPE'', 3),
     (''NHA_BLACKHOLE'', 4), (''NHA_OIF'', 5), (''NHA_GATEWAY'', 6), (''NHA_ENCAP_TYPE'', 7),
     (''NHA_ENCAP'', 8), (''NHA_GROUPS'', 9), (''NHA_MASTER'', 10), (''NHA_FDB'', 11),
     (''NHA_RES_GROUP'', 12), (''NHA_RES_BUCKET'', 13), (''NHA_OP_FLAGS'', 14),
     (''NHA_GROUP_STATS'', 15), (''NHA_HW_STATS_ENABLE'', 16), (''NHA_HW_STATS_USED'', 17),
     (''__NHA_MAX'', 18)]"

definition enumdecl_line_6583 :: cenum_decl where
  "enumdecl_line_6583 = EnumDecl False [
     (''NLA_UNSPEC'', 0), (''NLA_U8'', 1), (''NLA_U16'', 2), (''NLA_U32'', 3), (''NLA_U64'', 4),
     (''NLA_STRING'', 5), (''NLA_FLAG'', 6), (''NLA_MSECS'', 7), (''NLA_NESTED'', 8),
     (''NLA_NESTED_ARRAY'', 9), (''NLA_NUL_STRING'', 10), (''NLA_BINARY'', 11), (''NLA_S8'', 12),
     (''NLA_S16'', 13), (''NLA_S32'', 14), (''NLA_S64'', 15), (''NLA_BITFIELD32'', 16),
     (''NLA_REJECT'', 17), (''NLA_BE16'', 18), (''NLA_BE32'', 19), (''NLA_SINT'', 20),
     (''NLA_UINT'', 21), (''__NLA_TYPE_MAX'', 22)]"

definition enumdecl_line_6609 :: cenum_decl where
  "enumdecl_line_6609 = EnumDecl False [
     (''NLBL_CALIPSO_A_UNSPEC'', 0), (''NLBL_CALIPSO_A_DOI'', 1), (''NLBL_CALIPSO_A_MTYPE'', 2),
     (''__NLBL_CALIPSO_A_MAX'', 3)]"

definition enumdecl_line_6616 :: cenum_decl where
  "enumdecl_line_6616 = EnumDecl False [
     (''NLBL_CALIPSO_C_UNSPEC'', 0), (''NLBL_CALIPSO_C_ADD'', 1), (''NLBL_CALIPSO_C_REMOVE'', 2),
     (''NLBL_CALIPSO_C_LIST'', 3), (''NLBL_CALIPSO_C_LISTALL'', 4), (''__NLBL_CALIPSO_C_MAX'', 5)]"

definition enumdecl_line_6625 :: cenum_decl where
  "enumdecl_line_6625 = EnumDecl False [
     (''NLBL_CIPSOV4_A_UNSPEC'', 0), (''NLBL_CIPSOV4_A_DOI'', 1), (''NLBL_CIPSOV4_A_MTYPE'', 2),
     (''NLBL_CIPSOV4_A_TAG'', 3), (''NLBL_CIPSOV4_A_TAGLST'', 4),
     (''NLBL_CIPSOV4_A_MLSLVLLOC'', 5), (''NLBL_CIPSOV4_A_MLSLVLREM'', 6),
     (''NLBL_CIPSOV4_A_MLSLVL'', 7), (''NLBL_CIPSOV4_A_MLSLVLLST'', 8),
     (''NLBL_CIPSOV4_A_MLSCATLOC'', 9), (''NLBL_CIPSOV4_A_MLSCATREM'', 10),
     (''NLBL_CIPSOV4_A_MLSCAT'', 11), (''NLBL_CIPSOV4_A_MLSCATLST'', 12),
     (''__NLBL_CIPSOV4_A_MAX'', 13)]"

definition enumdecl_line_6642 :: cenum_decl where
  "enumdecl_line_6642 = EnumDecl False [
     (''NLBL_CIPSOV4_C_UNSPEC'', 0), (''NLBL_CIPSOV4_C_ADD'', 1), (''NLBL_CIPSOV4_C_REMOVE'', 2),
     (''NLBL_CIPSOV4_C_LIST'', 3), (''NLBL_CIPSOV4_C_LISTALL'', 4), (''__NLBL_CIPSOV4_C_MAX'', 5)]"

definition enumdecl_line_6651 :: cenum_decl where
  "enumdecl_line_6651 = EnumDecl False [
     (''NLBL_MGMT_A_UNSPEC'', 0), (''NLBL_MGMT_A_DOMAIN'', 1), (''NLBL_MGMT_A_PROTOCOL'', 2),
     (''NLBL_MGMT_A_VERSION'', 3), (''NLBL_MGMT_A_CV4DOI'', 4), (''NLBL_MGMT_A_IPV6ADDR'', 5),
     (''NLBL_MGMT_A_IPV6MASK'', 6), (''NLBL_MGMT_A_IPV4ADDR'', 7), (''NLBL_MGMT_A_IPV4MASK'', 8),
     (''NLBL_MGMT_A_ADDRSELECTOR'', 9), (''NLBL_MGMT_A_SELECTORLIST'', 10),
     (''NLBL_MGMT_A_FAMILY'', 11), (''NLBL_MGMT_A_CLPDOI'', 12), (''__NLBL_MGMT_A_MAX'', 13)]"

definition enumdecl_line_6668 :: cenum_decl where
  "enumdecl_line_6668 = EnumDecl False [
     (''NLBL_MGMT_C_UNSPEC'', 0), (''NLBL_MGMT_C_ADD'', 1), (''NLBL_MGMT_C_REMOVE'', 2),
     (''NLBL_MGMT_C_LISTALL'', 3), (''NLBL_MGMT_C_ADDDEF'', 4), (''NLBL_MGMT_C_REMOVEDEF'', 5),
     (''NLBL_MGMT_C_LISTDEF'', 6), (''NLBL_MGMT_C_PROTOCOLS'', 7), (''NLBL_MGMT_C_VERSION'', 8),
     (''__NLBL_MGMT_C_MAX'', 9)]"

definition enumdecl_line_6681 :: cenum_decl where
  "enumdecl_line_6681 = EnumDecl False [
     (''NLBL_UNLABEL_A_UNSPEC'', 0), (''NLBL_UNLABEL_A_ACPTFLG'', 1),
     (''NLBL_UNLABEL_A_IPV6ADDR'', 2), (''NLBL_UNLABEL_A_IPV6MASK'', 3),
     (''NLBL_UNLABEL_A_IPV4ADDR'', 4), (''NLBL_UNLABEL_A_IPV4MASK'', 5),
     (''NLBL_UNLABEL_A_IFACE'', 6), (''NLBL_UNLABEL_A_SECCTX'', 7), (''__NLBL_UNLABEL_A_MAX'', 8)]"

definition enumdecl_line_6693 :: cenum_decl where
  "enumdecl_line_6693 = EnumDecl False [
     (''NLBL_UNLABEL_C_UNSPEC'', 0), (''NLBL_UNLABEL_C_ACCEPT'', 1),
     (''NLBL_UNLABEL_C_LIST'', 2), (''NLBL_UNLABEL_C_STATICADD'', 3),
     (''NLBL_UNLABEL_C_STATICREMOVE'', 4), (''NLBL_UNLABEL_C_STATICLIST'', 5),
     (''NLBL_UNLABEL_C_STATICADDDEF'', 6), (''NLBL_UNLABEL_C_STATICREMOVEDEF'', 7),
     (''NLBL_UNLABEL_C_STATICLISTDEF'', 8), (''__NLBL_UNLABEL_C_MAX'', 9)]"

definition enumdecl_line_6706 :: cenum_decl where
  "enumdecl_line_6706 = EnumDecl False [
     (''NMI_LOCAL'', 0), (''NMI_UNKNOWN'', 1), (''NMI_SERR'', 2), (''NMI_IO_CHECK'', 3),
     (''NMI_MAX'', 4)]"

definition enumdecl_line_6714 :: cenum_decl where
  "enumdecl_line_6714 = EnumDecl False [
     (''NODE_ACCESS_CLASS_GENPORT_SINK_LOCAL'', 2), (''NODE_ACCESS_CLASS_GENPORT_SINK_CPU'', 3),
     (''NODE_ACCESS_CLASS_MAX'', 4)]"

definition enumdecl_line_6720 :: cenum_decl where
  "enumdecl_line_6720 = EnumDecl False [
     (''NONE_FORCE_HPET_RESUME'', 0), (''OLD_ICH_FORCE_HPET_RESUME'', 1),
     (''ICH_FORCE_HPET_RESUME'', 2), (''VT8237_FORCE_HPET_RESUME'', 3),
     (''NVIDIA_FORCE_HPET_RESUME'', 4), (''ATI_FORCE_HPET_RESUME'', 5)]"

definition enumdecl_line_6729 :: cenum_decl where
  "enumdecl_line_6729 = EnumDecl False [
     (''NO_USER_KERNEL'', 0), (''NO_USER_USER'', 1), (''NO_GUEST_HOST'', 2),
     (''NO_GUEST_GUEST'', 3), (''NO_CROSS_THREAD'', 4), (''NR_VECTOR_PARAMS'', 5)]"

definition enumdecl_line_6738 :: cenum_decl where
  "enumdecl_line_6738 = EnumDecl False [
     (''NSINDEX_SIG_LEN'', 16), (''NSINDEX_ALIGN'', 256), (''NSINDEX_SEQ_MASK'', 3),
     (''NSLABEL_UUID_LEN'', 16), (''NSLABEL_NAME_LEN'', 64), (''NSLABEL_FLAG_ROLABEL'', 1),
     (''NSLABEL_FLAG_LOCAL'', 2), (''NSLABEL_FLAG_BTT'', 4), (''NSLABEL_FLAG_UPDATING'', 8),
     (''BTT_ALIGN'', 4096), (''BTTINFO_SIG_LEN'', 16), (''BTTINFO_UUID_LEN'', 16),
     (''BTTINFO_FLAG_ERROR'', 1), (''BTTINFO_MAJOR_VERSION'', 1), (''ND_LABEL_MIN_SIZE'', 1024),
     (''ND_LABEL_ID_SIZE'', 50), (''ND_NSINDEX_INIT'', 1)]"

definition enumdecl_line_6758 :: cenum_decl where
  "enumdecl_line_6758 = EnumDecl False [
     (''NUM_TRIAL_SAMPLES'', 8192), (''MAX_SAMPLES_PER_BIT'', 66)]"

definition enumdecl_line_6763 :: cenum_decl where
  "enumdecl_line_6763 = EnumDecl False [
     (''NVMEM_ADD'', 1), (''NVMEM_REMOVE'', 2), (''NVMEM_CELL_ADD'', 3),
     (''NVMEM_CELL_REMOVE'', 4), (''NVMEM_LAYOUT_ADD'', 5), (''NVMEM_LAYOUT_REMOVE'', 6)]"

definition enumdecl_line_6772 :: cenum_decl where
  "enumdecl_line_6772 = EnumDecl False [
     (''NVME_CC_ENABLE'', 1), (''NVME_CC_EN_SHIFT'', 0), (''NVME_CC_CSS_SHIFT'', 4),
     (''NVME_CC_CSS_MASK'', 112), (''NVME_CC_CSS_NVM'', 0), (''NVME_CC_CSS_CSI'', 96),
     (''NVME_CC_MPS_SHIFT'', 7), (''NVME_CC_MPS_MASK'', 1920), (''NVME_CC_AMS_SHIFT'', 11),
     (''NVME_CC_AMS_MASK'', 14336), (''NVME_CC_AMS_RR'', 0), (''NVME_CC_AMS_WRRU'', 2048),
     (''NVME_CC_AMS_VS'', 14336), (''NVME_CC_SHN_SHIFT'', 14), (''NVME_CC_SHN_MASK'', 49152),
     (''NVME_CC_SHN_NONE'', 0), (''NVME_CC_SHN_NORMAL'', 16384), (''NVME_CC_SHN_ABRUPT'', 32768),
     (''NVME_CC_IOSQES_SHIFT'', 16), (''NVME_CC_IOSQES_MASK'', 983040),
     (''NVME_CC_IOSQES'', 393216), (''NVME_CC_IOCQES_SHIFT'', 20),
     (''NVME_CC_IOCQES_MASK'', 15728640), (''NVME_CC_IOCQES'', 4194304),
     (''NVME_CC_CRIME'', 16777216)]"

definition enumdecl_line_6800 :: cenum_decl where
  "enumdecl_line_6800 = EnumDecl False [
     (''NVME_CSTS_RDY'', 1), (''NVME_CSTS_CFS'', 2), (''NVME_CSTS_NSSRO'', 16),
     (''NVME_CSTS_PP'', 32), (''NVME_CSTS_SHST_NORMAL'', 0), (''NVME_CSTS_SHST_OCCUR'', 4),
     (''NVME_CSTS_SHST_CMPLT'', 8), (''NVME_CSTS_SHST_MASK'', 12)]"

definition enumdecl_line_6811 :: cenum_decl where
  "enumdecl_line_6811 = EnumDecl False [
     (''NVME_REG_CAP'', 0), (''NVME_REG_VS'', 8), (''NVME_REG_INTMS'', 12),
     (''NVME_REG_INTMC'', 16), (''NVME_REG_CC'', 20), (''NVME_REG_CSTS'', 28),
     (''NVME_REG_NSSR'', 32), (''NVME_REG_AQA'', 36), (''NVME_REG_ASQ'', 40),
     (''NVME_REG_ACQ'', 48), (''NVME_REG_CMBLOC'', 56), (''NVME_REG_CMBSZ'', 60),
     (''NVME_REG_BPINFO'', 64), (''NVME_REG_BPRSEL'', 68), (''NVME_REG_BPMBL'', 72),
     (''NVME_REG_CMBMSC'', 80), (''NVME_REG_CRTO'', 104), (''NVME_REG_PMRCAP'', 3584),
     (''NVME_REG_PMRCTL'', 3588), (''NVME_REG_PMRSTS'', 3592), (''NVME_REG_PMREBS'', 3596),
     (''NVME_REG_PMRSWTP'', 3600), (''NVME_REG_DBS'', 4096)]"

definition enumdecl_line_6837 :: cenum_decl where
  "enumdecl_line_6837 = EnumDecl False [
     (''OD_NORMAL_SAMPLE'', 0), (''OD_SUB_SAMPLE'', 1)]"

definition enumdecl_line_6842 :: cenum_decl where
  "enumdecl_line_6842 = EnumDecl False [
     (''ONLINE_POLICY_CONTIG_ZONES'', 0), (''ONLINE_POLICY_AUTO_MOVABLE'', 1)]"

definition enumdecl_line_6847 :: cenum_decl where
  "enumdecl_line_6847 = EnumDecl False [
     (''OPTIMIZER_ST_IDLE'', 0), (''OPTIMIZER_ST_KICKED'', 1), (''OPTIMIZER_ST_FLUSHING'', 2)]"

definition enumdecl_line_6853 :: cenum_decl where
  "enumdecl_line_6853 = EnumDecl False [
     (''OPT_SOURCE'', 0), (''OPT_SUBTYPE'', 1), (''OPT_FD'', 2), (''OPT_ROOTMODE'', 3),
     (''OPT_USER_ID'', 4), (''OPT_GROUP_ID'', 5), (''OPT_DEFAULT_PERMISSIONS'', 6),
     (''OPT_ALLOW_OTHER'', 7), (''OPT_MAX_READ'', 8), (''OPT_BLKSIZE'', 9), (''OPT_ERR'', 10)]"

definition enumdecl_line_6867 :: cenum_decl where
  "enumdecl_line_6867 = EnumDecl False [
     (''OPT_UID'', 0), (''OPT_GID'', 1), (''OPT_MODE'', 2), (''OPT_DELEGATE_CMDS'', 3),
     (''OPT_DELEGATE_MAPS'', 4), (''OPT_DELEGATE_PROGS'', 5), (''OPT_DELEGATE_ATTACHS'', 6)]"

definition enumdecl_line_6877 :: cenum_decl where
  "enumdecl_line_6877 = EnumDecl False [
     (''OVERRIDE_NONE'', 0), (''OVERRIDE_BASE'', 1), (''OVERRIDE_STRIDE'', 2),
     (''OVERRIDE_HEIGHT'', 4), (''OVERRIDE_WIDTH'', 8)]"

definition enumdecl_line_6885 :: cenum_decl where
  "enumdecl_line_6885 = EnumDecl False [
     (''Opt_bsd_df'', 0), (''Opt_minix_df'', 1), (''Opt_grpid'', 2), (''Opt_nogrpid'', 3),
     (''Opt_resgid'', 4), (''Opt_resuid'', 5), (''Opt_sb'', 6), (''Opt_nouid32'', 7),
     (''Opt_debug'', 8), (''Opt_removed'', 9), (''Opt_user_xattr'', 10), (''Opt_acl'', 11),
     (''Opt_auto_da_alloc'', 12), (''Opt_noauto_da_alloc'', 13), (''Opt_noload'', 14),
     (''Opt_commit'', 15), (''Opt_min_batch_time'', 16), (''Opt_max_batch_time'', 17),
     (''Opt_journal_dev'', 18), (''Opt_journal_path'', 19), (''Opt_journal_checksum'', 20),
     (''Opt_journal_async_commit'', 21), (''Opt_abort'', 22), (''Opt_data_journal'', 23),
     (''Opt_data_ordered'', 24), (''Opt_data_writeback'', 25), (''Opt_data_err_abort'', 26),
     (''Opt_data_err_ignore'', 27), (''Opt_test_dummy_encryption'', 28),
     (''Opt_inlinecrypt'', 29), (''Opt_usrjquota'', 30), (''Opt_grpjquota'', 31),
     (''Opt_quota'', 32), (''Opt_noquota'', 33), (''Opt_barrier'', 34), (''Opt_nobarrier'', 35),
     (''Opt_err'', 36), (''Opt_usrquota'', 37), (''Opt_grpquota'', 38), (''Opt_prjquota'', 39),
     (''Opt_dax'', 40), (''Opt_dax_always'', 41), (''Opt_dax_inode'', 42),
     (''Opt_dax_never'', 43), (''Opt_stripe'', 44), (''Opt_delalloc'', 45),
     (''Opt_nodelalloc'', 46), (''Opt_warn_on_error'', 47), (''Opt_nowarn_on_error'', 48),
     (''Opt_mblk_io_submit'', 49), (''Opt_debug_want_extra_isize'', 50),
     (''Opt_nomblk_io_submit'', 51), (''Opt_block_validity'', 52),
     (''Opt_noblock_validity'', 53), (''Opt_inode_readahead_blks'', 54),
     (''Opt_journal_ioprio'', 55), (''Opt_dioread_nolock'', 56), (''Opt_dioread_lock'', 57),
     (''Opt_discard'', 58), (''Opt_nodiscard'', 59), (''Opt_init_itable'', 60),
     (''Opt_noinit_itable'', 61), (''Opt_max_dir_size_kb'', 62),
     (''Opt_nojournal_checksum'', 63), (''Opt_nombcache'', 64),
     (''Opt_no_prefetch_block_bitmaps'', 65), (''Opt_mb_optimize_scan'', 66),
     (''Opt_errors'', 67), (''Opt_data'', 68), (''Opt_data_err'', 69), (''Opt_jqfmt'', 70),
     (''Opt_dax_type'', 71)]"

definition enumdecl_line_6960 :: cenum_decl where
  "enumdecl_line_6960 = EnumDecl False [
     (''Opt_check'', 0), (''Opt_uid'', 1), (''Opt_gid'', 2), (''Opt_umask'', 3),
     (''Opt_dmask'', 4), (''Opt_fmask'', 5), (''Opt_allow_utime'', 6), (''Opt_codepage'', 7),
     (''Opt_usefree'', 8), (''Opt_nocase'', 9), (''Opt_quiet'', 10), (''Opt_showexec'', 11),
     (''Opt_debug___2'', 12), (''Opt_immutable'', 13), (''Opt_dots'', 14), (''Opt_dotsOK'', 15),
     (''Opt_charset'', 16), (''Opt_shortname'', 17), (''Opt_utf8'', 18), (''Opt_utf8_bool'', 19),
     (''Opt_uni_xl'', 20), (''Opt_uni_xl_bool'', 21), (''Opt_nonumtail'', 22),
     (''Opt_nonumtail_bool'', 23), (''Opt_obsolete'', 24), (''Opt_flush'', 25), (''Opt_tz'', 26),
     (''Opt_rodir'', 27), (''Opt_errors___2'', 28), (''Opt_discard___2'', 29), (''Opt_nfs'', 30),
     (''Opt_nfs_enum'', 31), (''Opt_time_offset'', 32), (''Opt_dos1xfloppy'', 33)]"

definition enumdecl_line_6997 :: cenum_decl where
  "enumdecl_line_6997 = EnumDecl False [
     (''Opt_default'', 0), (''Opt_ecryptfs'', 1), (''Opt_enc32'', 2), (''Opt_error'', 3)]"

definition enumdecl_line_7004 :: cenum_decl where
  "enumdecl_line_7004 = EnumDecl False [
     (''Opt_err___2'', 0), (''Opt_enc'', 1), (''Opt_hash'', 2)]"

definition enumdecl_line_7010 :: cenum_decl where
  "enumdecl_line_7010 = EnumDecl False [
     (''Opt_err___3'', 0), (''Opt_new'', 1), (''Opt_load'', 2), (''Opt_update'', 3)]"

definition enumdecl_line_7017 :: cenum_decl where
  "enumdecl_line_7017 = EnumDecl False [
     (''Opt_err___4'', 0), (''Opt_keyhandle'', 1), (''Opt_keyauth'', 2), (''Opt_blobauth'', 3),
     (''Opt_pcrinfo'', 4), (''Opt_pcrlock'', 5), (''Opt_migratable'', 6), (''Opt_hash___2'', 7),
     (''Opt_policydigest'', 8), (''Opt_policyhandle'', 9)]"

definition enumdecl_line_7030 :: cenum_decl where
  "enumdecl_line_7030 = EnumDecl False [
     (''Opt_error___2'', - 1), (''Opt_fsdefault'', 0), (''Opt_fsfloor'', 1), (''Opt_fshat'', 2),
     (''Opt_fsroot'', 3), (''Opt_fstransmute'', 4)]"

definition enumdecl_line_7039 :: cenum_decl where
  "enumdecl_line_7039 = EnumDecl False [
     (''Opt_error___3'', - 1), (''Opt_context'', 0), (''Opt_defcontext'', 1),
     (''Opt_fscontext'', 2), (''Opt_rootcontext'', 3), (''Opt_seclabel'', 4)]"

definition enumdecl_line_7048 :: cenum_decl where
  "enumdecl_line_7048 = EnumDecl False [
     (''Opt_kmsg_bytes'', 0)]"

definition enumdecl_line_7052 :: cenum_decl where
  "enumdecl_line_7052 = EnumDecl False [
     (''Opt_new___2'', 0), (''Opt_load___2'', 1), (''Opt_update___2'', 2), (''Opt_err___5'', 3)]"

definition enumdecl_line_7059 :: cenum_decl where
  "enumdecl_line_7059 = EnumDecl False [
     (''Opt_sig'', 0), (''Opt_ecryptfs_sig'', 1), (''Opt_cipher'', 2),
     (''Opt_ecryptfs_cipher'', 3), (''Opt_ecryptfs_key_bytes'', 4), (''Opt_passthrough'', 5),
     (''Opt_xattr_metadata'', 6), (''Opt_encrypted_view'', 7), (''Opt_fnek_sig'', 8),
     (''Opt_fn_cipher'', 9), (''Opt_fn_cipher_key_bytes'', 10), (''Opt_unlink_sigs'', 11),
     (''Opt_mount_auth_tok_only'', 12), (''Opt_check_dev_ruid'', 13)]"

definition enumdecl_line_7076 :: cenum_decl where
  "enumdecl_line_7076 = EnumDecl False [
     (''Opt_uid___2'', 0), (''Opt_gid___2'', 1)]"

definition enumdecl_line_7081 :: cenum_decl where
  "enumdecl_line_7081 = EnumDecl False [
     (''Opt_uid___3'', 0), (''Opt_gid___3'', 1), (''Opt_mode'', 2)]"

definition enumdecl_line_7087 :: cenum_decl where
  "enumdecl_line_7087 = EnumDecl False [
     (''Opt_uid___4'', 0), (''Opt_gid___4'', 1), (''Opt_mode___2'', 2), (''Opt_source'', 3)]"

definition enumdecl_line_7094 :: cenum_decl where
  "enumdecl_line_7094 = EnumDecl False [
     (''Opt_uid___5'', 0), (''Opt_gid___5'', 1), (''Opt_mode___3'', 2), (''Opt_ptmxmode'', 3),
     (''Opt_newinstance'', 4), (''Opt_max'', 5), (''Opt_err___6'', 6)]"

definition enumdecl_line_7104 :: cenum_decl where
  "enumdecl_line_7104 = EnumDecl False [
     (''PADDRW'', 0), (''PDATA'', 4), (''PPMASK'', 8), (''PADDRR'', 12), (''PIDXLO'', 16),
     (''PIDXHI'', 20), (''PIDXDATA'', 24), (''PIDXCTL'', 28)]"

definition enumdecl_line_7115 :: cenum_decl where
  "enumdecl_line_7115 = EnumDecl False [
     (''PAD_CONNECT_NONE'', 0), (''PAD_CONNECT_INPUT'', 1), (''PAD_CONNECT_OUTPUT'', 2),
     (''PAD_CONNECT_FULL'', 3)]"

definition enumdecl_line_7122 :: cenum_decl where
  "enumdecl_line_7122 = EnumDecl False [
     (''PAD_UNLOCKED'', 0), (''PAD_LOCKED'', 1), (''PAD_LOCKED_TX'', 2), (''PAD_LOCKED_FULL'', 3)]"

definition enumdecl_line_7129 :: cenum_decl where
  "enumdecl_line_7129 = EnumDecl False [
     (''PAGE_REPORTING_IDLE'', 0), (''PAGE_REPORTING_REQUESTED'', 1),
     (''PAGE_REPORTING_ACTIVE'', 2)]"

definition enumdecl_line_7135 :: cenum_decl where
  "enumdecl_line_7135 = EnumDecl False [
     (''PAGE_WAS_MAPPED'', 1), (''PAGE_WAS_MLOCKED'', 2), (''PAGE_OLD_STATES'', 3)]"

definition enumdecl_line_7141 :: cenum_decl where
  "enumdecl_line_7141 = EnumDecl False [
     (''PALMAS_EXT_CONTROL_ENABLE1'', 1), (''PALMAS_EXT_CONTROL_ENABLE2'', 2),
     (''PALMAS_EXT_CONTROL_NSLEEP'', 4)]"

definition enumdecl_line_7147 :: cenum_decl where
  "enumdecl_line_7147 = EnumDecl False [
     (''PARSE_INVALID'', 1), (''PARSE_NOT_LONGNAME'', 2), (''PARSE_EOF'', 3)]"

definition enumdecl_line_7153 :: cenum_decl where
  "enumdecl_line_7153 = EnumDecl False [
     (''PCI_REASSIGN_ALL_RSRC'', 1), (''PCI_REASSIGN_ALL_BUS'', 2), (''PCI_PROBE_ONLY'', 4),
     (''PCI_CAN_SKIP_ISA_ALIGN'', 8), (''PCI_ENABLE_PROC_DOMAINS'', 16),
     (''PCI_COMPAT_DOMAIN_0'', 32), (''PCI_SCAN_ALL_PCIE_DEVS'', 64)]"

definition enumdecl_line_7163 :: cenum_decl where
  "enumdecl_line_7163 = EnumDecl False [
     (''PCI_STD_RESOURCES'', 0), (''PCI_STD_RESOURCE_END'', 5), (''PCI_ROM_RESOURCE'', 6),
     (''PCI_IOV_RESOURCES'', 7), (''PCI_IOV_RESOURCE_END'', 12), (''PCI_BRIDGE_RESOURCES'', 13),
     (''PCI_BRIDGE_RESOURCE_END'', 16), (''PCI_NUM_RESOURCES'', 17),
     (''DEVICE_COUNT_RESOURCE'', 17)]"

definition enumdecl_line_7175 :: cenum_decl where
  "enumdecl_line_7175 = EnumDecl False [
     (''PERCPU_REF_INIT_ATOMIC'', 1), (''PERCPU_REF_INIT_DEAD'', 2),
     (''PERCPU_REF_ALLOW_REINIT'', 4)]"

definition enumdecl_line_7181 :: cenum_decl where
  "enumdecl_line_7181 = EnumDecl False [
     (''PERF_BR_SPEC_NA'', 0), (''PERF_BR_SPEC_WRONG_PATH'', 1),
     (''PERF_BR_NON_SPEC_CORRECT_PATH'', 2), (''PERF_BR_SPEC_CORRECT_PATH'', 3),
     (''PERF_BR_SPEC_MAX'', 4)]"

definition enumdecl_line_7189 :: cenum_decl where
  "enumdecl_line_7189 = EnumDecl False [
     (''PERF_BR_UNKNOWN'', 0), (''PERF_BR_COND'', 1), (''PERF_BR_UNCOND'', 2),
     (''PERF_BR_IND'', 3), (''PERF_BR_CALL'', 4), (''PERF_BR_IND_CALL'', 5),
     (''PERF_BR_RET'', 6), (''PERF_BR_SYSCALL'', 7), (''PERF_BR_SYSRET'', 8),
     (''PERF_BR_COND_CALL'', 9), (''PERF_BR_COND_RET'', 10), (''PERF_BR_ERET'', 11),
     (''PERF_BR_IRQ'', 12), (''PERF_BR_SERROR'', 13), (''PERF_BR_NO_TX'', 14),
     (''PERF_BR_EXTEND_ABI'', 15), (''PERF_BR_MAX'', 16)]"

definition enumdecl_line_7223 :: cenum_decl where
  "enumdecl_line_7223 = EnumDecl False [
     (''PERF_X86_EVENT_PEBS_LDLAT'', 1), (''PERF_X86_EVENT_PEBS_ST'', 2),
     (''PERF_X86_EVENT_PEBS_ST_HSW'', 4), (''PERF_X86_EVENT_PEBS_LD_HSW'', 8),
     (''PERF_X86_EVENT_PEBS_NA_HSW'', 16), (''PERF_X86_EVENT_EXCL'', 32),
     (''PERF_X86_EVENT_DYNAMIC'', 64), (''PERF_X86_EVENT_PEBS_CNTR'', 128),
     (''PERF_X86_EVENT_EXCL_ACCT'', 256), (''PERF_X86_EVENT_AUTO_RELOAD'', 512),
     (''PERF_X86_EVENT_LARGE_PEBS'', 1024), (''PERF_X86_EVENT_PEBS_VIA_PT'', 2048),
     (''PERF_X86_EVENT_PAIR'', 4096), (''PERF_X86_EVENT_LBR_SELECT'', 8192),
     (''PERF_X86_EVENT_TOPDOWN'', 16384), (''PERF_X86_EVENT_PEBS_STLAT'', 32768),
     (''PERF_X86_EVENT_AMD_BRS'', 65536), (''PERF_X86_EVENT_PEBS_LAT_HYBRID'', 131072),
     (''PERF_X86_EVENT_NEEDS_BRANCH_STACK'', 262144),
     (''PERF_X86_EVENT_BRANCH_COUNTERS'', 524288), (''PERF_X86_EVENT_ACR'', 1048576)]"

definition enumdecl_line_7247 :: cenum_decl where
  "enumdecl_line_7247 = EnumDecl False [
     (''PER_LINUX'', 0), (''PER_LINUX_32BIT'', 8388608), (''PER_LINUX_FDPIC'', 524288),
     (''PER_SVR4'', 68157441), (''PER_SVR3'', 83886082), (''PER_SCOSVR3'', 117440515),
     (''PER_OSR5'', 100663299), (''PER_WYSEV386'', 83886084), (''PER_ISCR4'', 67108869),
     (''PER_BSD'', 6), (''PER_SUNOS'', 67108870), (''PER_XENIX'', 83886087),
     (''PER_LINUX32'', 8), (''PER_LINUX32_3GB'', 134217736), (''PER_IRIX32'', 67108873),
     (''PER_IRIXN32'', 67108874), (''PER_IRIX64'', 67108875), (''PER_RISCOS'', 12),
     (''PER_SOLARIS'', 67108877), (''PER_UW7'', 68157454), (''PER_OSF4'', 15),
     (''PER_HPUX'', 16), (''PER_MASK'', 255)]"

definition enumdecl_line_7273 :: cenum_decl where
  "enumdecl_line_7273 = EnumDecl False [
     (''PIIX_IOCFG'', 84), (''ICH5_PMR'', 144), (''ICH5_PCS'', 146), (''PIIX_SIDPR_BAR'', 5),
     (''PIIX_SIDPR_LEN'', 16), (''PIIX_SIDPR_IDX'', 0), (''PIIX_SIDPR_DATA'', 4),
     (''PIIX_FLAG_CHECKINTR'', 268435456), (''PIIX_FLAG_SIDPR'', 536870912),
     (''PIIX_PATA_FLAGS'', 1), (''PIIX_SATA_FLAGS'', 268435458),
     (''PIIX_FLAG_PIO16'', 1073741824), (''PIIX_80C_PRI'', 48), (''PIIX_80C_SEC'', 192),
     (''P0'', 0), (''P1'', 1), (''P2'', 2), (''P3'', 3), (''IDE'', - 1), (''NA'', - 2),
     (''RV'', - 3), (''PIIX_AHCI_DEVICE'', 6), (''PIIX_HOST_BROKEN_SUSPEND'', 16777216)]"

definition enumdecl_line_7299 :: cenum_decl where
  "enumdecl_line_7299 = EnumDecl False [
     (''PIM_TYPE_HELLO'', 0), (''PIM_TYPE_REGISTER'', 1), (''PIM_TYPE_REGISTER_STOP'', 2),
     (''PIM_TYPE_JOIN_PRUNE'', 3), (''PIM_TYPE_BOOTSTRAP'', 4), (''PIM_TYPE_ASSERT'', 5),
     (''PIM_TYPE_GRAFT'', 6), (''PIM_TYPE_GRAFT_ACK'', 7), (''PIM_TYPE_CANDIDATE_RP_ADV'', 8)]"

definition enumdecl_line_7311 :: cenum_decl where
  "enumdecl_line_7311 = EnumDecl False [
     (''PLAT8250_DEV_LEGACY'', - 1), (''PLAT8250_DEV_PLATFORM'', 0),
     (''PLAT8250_DEV_PLATFORM1'', 1), (''PLAT8250_DEV_PLATFORM2'', 2),
     (''PLAT8250_DEV_FOURPORT'', 3), (''PLAT8250_DEV_ACCENT'', 4), (''PLAT8250_DEV_BOCA'', 5),
     (''PLAT8250_DEV_EXAR_ST16C554'', 6), (''PLAT8250_DEV_HUB6'', 7),
     (''PLAT8250_DEV_AU1X00'', 8), (''PLAT8250_DEV_SM501'', 9)]"

definition enumdecl_line_7325 :: cenum_decl where
  "enumdecl_line_7325 = EnumDecl False [
     (''PM8607_IRQ_ONKEY'', 0), (''PM8607_IRQ_EXTON'', 1), (''PM8607_IRQ_CHG'', 2),
     (''PM8607_IRQ_BAT'', 3), (''PM8607_IRQ_RTC'', 4), (''PM8607_IRQ_CC'', 5),
     (''PM8607_IRQ_VBAT'', 6), (''PM8607_IRQ_VCHG'', 7), (''PM8607_IRQ_VSYS'', 8),
     (''PM8607_IRQ_TINT'', 9), (''PM8607_IRQ_GPADC0'', 10), (''PM8607_IRQ_GPADC1'', 11),
     (''PM8607_IRQ_GPADC2'', 12), (''PM8607_IRQ_GPADC3'', 13), (''PM8607_IRQ_AUDIO_SHORT'', 14),
     (''PM8607_IRQ_PEN'', 15), (''PM8607_IRQ_HEADSET'', 16), (''PM8607_IRQ_HOOK'', 17),
     (''PM8607_IRQ_MICIN'', 18), (''PM8607_IRQ_CHG_FAIL'', 19), (''PM8607_IRQ_CHG_DONE'', 20),
     (''PM8607_IRQ_CHG_FAULT'', 21)]"

definition enumdecl_line_7350 :: cenum_decl where
  "enumdecl_line_7350 = EnumDecl False [
     (''POLICYDB_CAP_NETPEER'', 0), (''POLICYDB_CAP_OPENPERM'', 1),
     (''POLICYDB_CAP_EXTSOCKCLASS'', 2), (''POLICYDB_CAP_ALWAYSNETWORK'', 3),
     (''POLICYDB_CAP_CGROUPSECLABEL'', 4), (''POLICYDB_CAP_NNP_NOSUID_TRANSITION'', 5),
     (''POLICYDB_CAP_GENFS_SECLABEL_SYMLINKS'', 6), (''POLICYDB_CAP_IOCTL_SKIP_CLOEXEC'', 7),
     (''POLICYDB_CAP_USERSPACE_INITIAL_CONTEXT'', 8), (''POLICYDB_CAP_NETLINK_XPERM'', 9),
     (''POLICYDB_CAP_NETIF_WILDCARD'', 10), (''POLICYDB_CAP_GENFS_SECLABEL_WILDCARD'', 11),
     (''POLICYDB_CAP_FUNCTIONFS_SECLABEL'', 12), (''POLICYDB_CAP_MEMFD_CLASS'', 13),
     (''POLICYDB_CAP_BPF_TOKEN_PERMS'', 14), (''__POLICYDB_CAP_MAX'', 15)]"

definition enumdecl_line_7369 :: cenum_decl where
  "enumdecl_line_7369 = EnumDecl False [
     (''POOL_BITS'', 256), (''POOL_READY_BITS'', 256), (''POOL_EARLY_BITS'', 128)]"

definition enumdecl_line_7375 :: cenum_decl where
  "enumdecl_line_7375 = EnumDecl False [
     (''POWERON_SECS'', 3)]"

definition enumdecl_line_7379 :: cenum_decl where
  "enumdecl_line_7379 = EnumDecl False [
     (''POWER_SUPPLY_CAPACITY_LEVEL_UNKNOWN'', 0), (''POWER_SUPPLY_CAPACITY_LEVEL_CRITICAL'', 1),
     (''POWER_SUPPLY_CAPACITY_LEVEL_LOW'', 2), (''POWER_SUPPLY_CAPACITY_LEVEL_NORMAL'', 3),
     (''POWER_SUPPLY_CAPACITY_LEVEL_HIGH'', 4), (''POWER_SUPPLY_CAPACITY_LEVEL_FULL'', 5)]"

definition enumdecl_line_7388 :: cenum_decl where
  "enumdecl_line_7388 = EnumDecl False [
     (''POWER_SUPPLY_HEALTH_UNKNOWN'', 0), (''POWER_SUPPLY_HEALTH_GOOD'', 1),
     (''POWER_SUPPLY_HEALTH_OVERHEAT'', 2), (''POWER_SUPPLY_HEALTH_DEAD'', 3),
     (''POWER_SUPPLY_HEALTH_OVERVOLTAGE'', 4), (''POWER_SUPPLY_HEALTH_UNDERVOLTAGE'', 5),
     (''POWER_SUPPLY_HEALTH_UNSPEC_FAILURE'', 6), (''POWER_SUPPLY_HEALTH_COLD'', 7),
     (''POWER_SUPPLY_HEALTH_WATCHDOG_TIMER_EXPIRE'', 8),
     (''POWER_SUPPLY_HEALTH_SAFETY_TIMER_EXPIRE'', 9), (''POWER_SUPPLY_HEALTH_OVERCURRENT'', 10),
     (''POWER_SUPPLY_HEALTH_CALIBRATION_REQUIRED'', 11), (''POWER_SUPPLY_HEALTH_WARM'', 12),
     (''POWER_SUPPLY_HEALTH_COOL'', 13), (''POWER_SUPPLY_HEALTH_HOT'', 14),
     (''POWER_SUPPLY_HEALTH_NO_BATTERY'', 15), (''POWER_SUPPLY_HEALTH_BLOWN_FUSE'', 16),
     (''POWER_SUPPLY_HEALTH_CELL_IMBALANCE'', 17)]"

definition enumdecl_line_7409 :: cenum_decl where
  "enumdecl_line_7409 = EnumDecl False [
     (''POWER_SUPPLY_SCOPE_UNKNOWN'', 0), (''POWER_SUPPLY_SCOPE_SYSTEM'', 1),
     (''POWER_SUPPLY_SCOPE_DEVICE'', 2)]"

definition enumdecl_line_7415 :: cenum_decl where
  "enumdecl_line_7415 = EnumDecl False [
     (''POWER_SUPPLY_STATUS_UNKNOWN'', 0), (''POWER_SUPPLY_STATUS_CHARGING'', 1),
     (''POWER_SUPPLY_STATUS_DISCHARGING'', 2), (''POWER_SUPPLY_STATUS_NOT_CHARGING'', 3),
     (''POWER_SUPPLY_STATUS_FULL'', 4)]"

definition enumdecl_line_7423 :: cenum_decl where
  "enumdecl_line_7423 = EnumDecl False [
     (''POWER_SUPPLY_TECHNOLOGY_UNKNOWN'', 0), (''POWER_SUPPLY_TECHNOLOGY_NiMH'', 1),
     (''POWER_SUPPLY_TECHNOLOGY_LION'', 2), (''POWER_SUPPLY_TECHNOLOGY_LIPO'', 3),
     (''POWER_SUPPLY_TECHNOLOGY_LiFe'', 4), (''POWER_SUPPLY_TECHNOLOGY_NiCd'', 5),
     (''POWER_SUPPLY_TECHNOLOGY_LiMn'', 6)]"

definition enumdecl_line_7433 :: cenum_decl where
  "enumdecl_line_7433 = EnumDecl False [
     (''PREFIX_UNSPEC'', 0), (''PREFIX_ADDRESS'', 1), (''PREFIX_CACHEINFO'', 2),
     (''__PREFIX_MAX'', 3)]"

definition enumdecl_line_7440 :: cenum_decl where
  "enumdecl_line_7440 = EnumDecl False [
     (''PROCESS_BPF_EXIT'', 1)]"

definition enumdecl_line_7444 :: cenum_decl where
  "enumdecl_line_7444 = EnumDecl False [
     (''PROCESS_SPIN_LOCK'', 1), (''PROCESS_RES_LOCK'', 2), (''PROCESS_LOCK_IRQ'', 4)]"

definition enumdecl_line_7450 :: cenum_decl where
  "enumdecl_line_7450 = EnumDecl False [
     (''PROC_ENTRY_PERMANENT'', 1), (''PROC_ENTRY_proc_read_iter'', 2),
     (''PROC_ENTRY_proc_compat_ioctl'', 4), (''PROC_ENTRY_proc_lseek'', 8),
     (''PROC_ENTRY_FORCE_LOOKUP'', 128)]"

definition enumdecl_line_7458 :: cenum_decl where
  "enumdecl_line_7458 = EnumDecl False [
     (''PSP_A_ASSOC_DEV_ID'', 1), (''PSP_A_ASSOC_VERSION'', 2), (''PSP_A_ASSOC_RX_KEY'', 3),
     (''PSP_A_ASSOC_TX_KEY'', 4), (''PSP_A_ASSOC_SOCK_FD'', 5), (''__PSP_A_ASSOC_MAX'', 6),
     (''PSP_A_ASSOC_MAX'', 5)]"

definition enumdecl_line_7468 :: cenum_decl where
  "enumdecl_line_7468 = EnumDecl False [
     (''PSP_A_DEV_ID'', 1), (''PSP_A_DEV_IFINDEX'', 2), (''PSP_A_DEV_PSP_VERSIONS_CAP'', 3),
     (''PSP_A_DEV_PSP_VERSIONS_ENA'', 4), (''__PSP_A_DEV_MAX'', 5), (''PSP_A_DEV_MAX'', 4)]"

definition enumdecl_line_7477 :: cenum_decl where
  "enumdecl_line_7477 = EnumDecl False [
     (''PSP_A_KEYS_KEY'', 1), (''PSP_A_KEYS_SPI'', 2), (''__PSP_A_KEYS_MAX'', 3),
     (''PSP_A_KEYS_MAX'', 2)]"

definition enumdecl_line_7484 :: cenum_decl where
  "enumdecl_line_7484 = EnumDecl False [
     (''PSP_A_STATS_DEV_ID'', 1), (''PSP_A_STATS_KEY_ROTATIONS'', 2),
     (''PSP_A_STATS_STALE_EVENTS'', 3), (''PSP_A_STATS_RX_PACKETS'', 4),
     (''PSP_A_STATS_RX_BYTES'', 5), (''PSP_A_STATS_RX_AUTH_FAIL'', 6),
     (''PSP_A_STATS_RX_ERROR'', 7), (''PSP_A_STATS_RX_BAD'', 8), (''PSP_A_STATS_TX_PACKETS'', 9),
     (''PSP_A_STATS_TX_BYTES'', 10), (''PSP_A_STATS_TX_ERROR'', 11), (''__PSP_A_STATS_MAX'', 12),
     (''PSP_A_STATS_MAX'', 11)]"

definition enumdecl_line_7500 :: cenum_decl where
  "enumdecl_line_7500 = EnumDecl False [
     (''PSP_CMD_DEV_GET'', 1), (''PSP_CMD_DEV_ADD_NTF'', 2), (''PSP_CMD_DEV_DEL_NTF'', 3),
     (''PSP_CMD_DEV_SET'', 4), (''PSP_CMD_DEV_CHANGE_NTF'', 5), (''PSP_CMD_KEY_ROTATE'', 6),
     (''PSP_CMD_KEY_ROTATE_NTF'', 7), (''PSP_CMD_RX_ASSOC'', 8), (''PSP_CMD_TX_ASSOC'', 9),
     (''PSP_CMD_GET_STATS'', 10), (''__PSP_CMD_MAX'', 11), (''PSP_CMD_MAX'', 10)]"

definition enumdecl_line_7515 :: cenum_decl where
  "enumdecl_line_7515 = EnumDecl False [
     (''PSP_NLGRP_MGMT'', 0), (''PSP_NLGRP_USE'', 1)]"

definition enumdecl_line_7520 :: cenum_decl where
  "enumdecl_line_7520 = EnumDecl False [
     (''PSS'', 0), (''PPC'', 1)]"

definition enumdecl_line_7525 :: cenum_decl where
  "enumdecl_line_7525 = EnumDecl False [
     (''PT_FEAT_AMDV1_ENCRYPT_TABLES'', 6), (''PT_FEAT_AMDV1_FORCE_COHERENCE'', 7)]"

definition enumdecl_line_7530 :: cenum_decl where
  "enumdecl_line_7530 = EnumDecl False [
     (''PT_FEAT_VTDSS_FORCE_COHERENCE'', 6), (''PT_FEAT_VTDSS_FORCE_WRITEABLE'', 7)]"

definition enumdecl_line_7535 :: cenum_decl where
  "enumdecl_line_7535 = EnumDecl False [
     (''PT_FEAT_X86_64_AMD_ENCRYPT_TABLES'', 6)]"

definition enumdecl_line_7569 :: cenum_decl where
  "enumdecl_line_7569 = EnumDecl False [
     (''PT_TOP_LEVEL_BITS'', 3), (''PT_TOP_LEVEL_MASK'', 7)]"

definition enumdecl_line_7581 :: cenum_decl where
  "enumdecl_line_7581 = EnumDecl False [
     (''PWMF_REQUESTED'', 0), (''PWMF_EXPORTED'', 1)]"

definition enumdecl_line_7586 :: cenum_decl where
  "enumdecl_line_7586 = EnumDecl False [
     (''QCFG_RX_PAGE_SIZE'', 1)]"

definition enumdecl_line_7590 :: cenum_decl where
  "enumdecl_line_7590 = EnumDecl False [
     (''QIF_BLIMITS_B'', 0), (''QIF_SPACE_B'', 1), (''QIF_ILIMITS_B'', 2), (''QIF_INODES_B'', 3),
     (''QIF_BTIME_B'', 4), (''QIF_ITIME_B'', 5)]"

definition enumdecl_line_7599 :: cenum_decl where
  "enumdecl_line_7599 = EnumDecl False [
     (''QI_FREE'', 0), (''QI_IN_USE'', 1), (''QI_DONE'', 2), (''QI_ABORT'', 3)]"

definition enumdecl_line_7606 :: cenum_decl where
  "enumdecl_line_7606 = EnumDecl False [
     (''QOS_ENABLE'', 0), (''QOS_CTRL'', 1), (''NR_QOS_CTRL_PARAMS'', 2)]"

definition enumdecl_line_7612 :: cenum_decl where
  "enumdecl_line_7612 = EnumDecl False [
     (''QOS_RPPM'', 0), (''QOS_RLAT'', 1), (''QOS_WPPM'', 2), (''QOS_WLAT'', 3),
     (''QOS_MIN'', 4), (''QOS_MAX'', 5), (''NR_QOS_PARAMS'', 6)]"

definition enumdecl_line_7622 :: cenum_decl where
  "enumdecl_line_7622 = EnumDecl False [
     (''QUEUE_FLAG_DYING'', 0), (''QUEUE_FLAG_NOMERGES'', 1), (''QUEUE_FLAG_SAME_COMP'', 2),
     (''QUEUE_FLAG_FAIL_IO'', 3), (''QUEUE_FLAG_NOXMERGES'', 4), (''QUEUE_FLAG_SAME_FORCE'', 5),
     (''QUEUE_FLAG_INIT_DONE'', 6), (''QUEUE_FLAG_STATS'', 7), (''QUEUE_FLAG_REGISTERED'', 8),
     (''QUEUE_FLAG_QUIESCED'', 9), (''QUEUE_FLAG_RQ_ALLOC_TIME'', 10),
     (''QUEUE_FLAG_HCTX_ACTIVE'', 11), (''QUEUE_FLAG_SQ_SCHED'', 12),
     (''QUEUE_FLAG_DISABLE_WBT_DEF'', 13), (''QUEUE_FLAG_NO_ELV_SWITCH'', 14),
     (''QUEUE_FLAG_QOS_ENABLED'', 15), (''QUEUE_FLAG_BIO_ISSUE_TIME'', 16),
     (''QUEUE_FLAG_MAX'', 17)]"

definition enumdecl_line_7643 :: cenum_decl where
  "enumdecl_line_7643 = EnumDecl False [
     (''QUIRK_IGNORE_CHECKSUM'', 0)]"

definition enumdecl_line_7647 :: cenum_decl where
  "enumdecl_line_7647 = EnumDecl False [
     (''QUOTA_NL_A_UNSPEC'', 0), (''QUOTA_NL_A_QTYPE'', 1), (''QUOTA_NL_A_EXCESS_ID'', 2),
     (''QUOTA_NL_A_WARNING'', 3), (''QUOTA_NL_A_DEV_MAJOR'', 4), (''QUOTA_NL_A_DEV_MINOR'', 5),
     (''QUOTA_NL_A_CAUSED_ID'', 6), (''QUOTA_NL_A_PAD'', 7), (''__QUOTA_NL_A_MAX'', 8)]"

definition enumdecl_line_7659 :: cenum_decl where
  "enumdecl_line_7659 = EnumDecl False [
     (''QUOTA_NL_C_UNSPEC'', 0), (''QUOTA_NL_C_WARNING'', 1), (''__QUOTA_NL_C_MAX'', 2)]"

definition enumdecl_line_7665 :: cenum_decl where
  "enumdecl_line_7665 = EnumDecl False [
     (''Q_REQUEUE_PI_NONE'', 0), (''Q_REQUEUE_PI_IGNORE'', 1), (''Q_REQUEUE_PI_IN_PROGRESS'', 2),
     (''Q_REQUEUE_PI_WAIT'', 3), (''Q_REQUEUE_PI_DONE'', 4), (''Q_REQUEUE_PI_LOCKED'', 5)]"

definition enumdecl_line_7674 :: cenum_decl where
  "enumdecl_line_7674 = EnumDecl False [
     (''RADIX_TREE_ITER_TAG_MASK'', 15), (''RADIX_TREE_ITER_TAGGED'', 16),
     (''RADIX_TREE_ITER_CONTIG'', 32)]"

definition enumdecl_line_7680 :: cenum_decl where
  "enumdecl_line_7680 = EnumDecl False [
     (''RB_ADD_STAMP_NONE'', 0), (''RB_ADD_STAMP_EXTEND'', 2), (''RB_ADD_STAMP_ABSOLUTE'', 4),
     (''RB_ADD_STAMP_FORCE'', 8)]"

definition enumdecl_line_7687 :: cenum_decl where
  "enumdecl_line_7687 = EnumDecl False [
     (''RB_CTX_TRANSITION'', 0), (''RB_CTX_NMI'', 1), (''RB_CTX_IRQ'', 2),
     (''RB_CTX_SOFTIRQ'', 3), (''RB_CTX_NORMAL'', 4), (''RB_CTX_MAX'', 5)]"

definition enumdecl_line_7696 :: cenum_decl where
  "enumdecl_line_7696 = EnumDecl False [
     (''RB_LEN_TIME_EXTEND'', 8), (''RB_LEN_TIME_STAMP'', 8)]"

definition enumdecl_line_7701 :: cenum_decl where
  "enumdecl_line_7701 = EnumDecl False [
     (''RC5T583_DS_NONE'', 0), (''RC5T583_DS_DC0'', 1), (''RC5T583_DS_DC1'', 2),
     (''RC5T583_DS_DC2'', 3), (''RC5T583_DS_DC3'', 4), (''RC5T583_DS_LDO0'', 5),
     (''RC5T583_DS_LDO1'', 6), (''RC5T583_DS_LDO2'', 7), (''RC5T583_DS_LDO3'', 8),
     (''RC5T583_DS_LDO4'', 9), (''RC5T583_DS_LDO5'', 10), (''RC5T583_DS_LDO6'', 11),
     (''RC5T583_DS_LDO7'', 12), (''RC5T583_DS_LDO8'', 13), (''RC5T583_DS_LDO9'', 14),
     (''RC5T583_DS_PSO0'', 15), (''RC5T583_DS_PSO1'', 16), (''RC5T583_DS_PSO2'', 17),
     (''RC5T583_DS_PSO3'', 18), (''RC5T583_DS_PSO4'', 19), (''RC5T583_DS_PSO5'', 20),
     (''RC5T583_DS_PSO6'', 21), (''RC5T583_DS_PSO7'', 22), (''RC5T583_DS_MAX'', 23)]"

definition enumdecl_line_7728 :: cenum_decl where
  "enumdecl_line_7728 = EnumDecl False [
     (''RC5T583_EXT_PWRREQ1_CONTROL'', 1), (''RC5T583_EXT_PWRREQ2_CONTROL'', 2)]"

definition enumdecl_line_7733 :: cenum_decl where
  "enumdecl_line_7733 = EnumDecl False [
     (''RC5T583_GPIO0'', 0), (''RC5T583_GPIO1'', 1), (''RC5T583_GPIO2'', 2),
     (''RC5T583_GPIO3'', 3), (''RC5T583_GPIO4'', 4), (''RC5T583_GPIO5'', 5),
     (''RC5T583_GPIO6'', 6), (''RC5T583_GPIO7'', 7), (''RC5T583_MAX_GPIO'', 8)]"

definition enumdecl_line_7745 :: cenum_decl where
  "enumdecl_line_7745 = EnumDecl False [
     (''RC5T583_IRQ_ONKEY'', 0), (''RC5T583_IRQ_ACOK'', 1), (''RC5T583_IRQ_LIDOPEN'', 2),
     (''RC5T583_IRQ_PREOT'', 3), (''RC5T583_IRQ_CLKSTP'', 4), (''RC5T583_IRQ_ONKEY_OFF'', 5),
     (''RC5T583_IRQ_WD'', 6), (''RC5T583_IRQ_EN_PWRREQ1'', 7), (''RC5T583_IRQ_EN_PWRREQ2'', 8),
     (''RC5T583_IRQ_PRE_VINDET'', 9), (''RC5T583_IRQ_DC0LIM'', 10), (''RC5T583_IRQ_DC1LIM'', 11),
     (''RC5T583_IRQ_DC2LIM'', 12), (''RC5T583_IRQ_DC3LIM'', 13), (''RC5T583_IRQ_CTC'', 14),
     (''RC5T583_IRQ_YALE'', 15), (''RC5T583_IRQ_DALE'', 16), (''RC5T583_IRQ_WALE'', 17),
     (''RC5T583_IRQ_AIN1L'', 18), (''RC5T583_IRQ_AIN2L'', 19), (''RC5T583_IRQ_AIN3L'', 20),
     (''RC5T583_IRQ_VBATL'', 21), (''RC5T583_IRQ_VIN3L'', 22), (''RC5T583_IRQ_VIN8L'', 23),
     (''RC5T583_IRQ_AIN1H'', 24), (''RC5T583_IRQ_AIN2H'', 25), (''RC5T583_IRQ_AIN3H'', 26),
     (''RC5T583_IRQ_VBATH'', 27), (''RC5T583_IRQ_VIN3H'', 28), (''RC5T583_IRQ_VIN8H'', 29),
     (''RC5T583_IRQ_ADCEND'', 30), (''RC5T583_IRQ_GPIO0'', 31), (''RC5T583_IRQ_GPIO1'', 32),
     (''RC5T583_IRQ_GPIO2'', 33), (''RC5T583_IRQ_GPIO3'', 34), (''RC5T583_IRQ_GPIO4'', 35),
     (''RC5T583_IRQ_GPIO5'', 36), (''RC5T583_IRQ_GPIO6'', 37), (''RC5T583_IRQ_GPIO7'', 38),
     (''RC5T583_MAX_IRQS'', 39)]"

definition enumdecl_line_7788 :: cenum_decl where
  "enumdecl_line_7788 = EnumDecl False [
     (''RC5T583_REGULATOR_DC0'', 0), (''RC5T583_REGULATOR_DC1'', 1),
     (''RC5T583_REGULATOR_DC2'', 2), (''RC5T583_REGULATOR_DC3'', 3),
     (''RC5T583_REGULATOR_LDO0'', 4), (''RC5T583_REGULATOR_LDO1'', 5),
     (''RC5T583_REGULATOR_LDO2'', 6), (''RC5T583_REGULATOR_LDO3'', 7),
     (''RC5T583_REGULATOR_LDO4'', 8), (''RC5T583_REGULATOR_LDO5'', 9),
     (''RC5T583_REGULATOR_LDO6'', 10), (''RC5T583_REGULATOR_LDO7'', 11),
     (''RC5T583_REGULATOR_LDO8'', 12), (''RC5T583_REGULATOR_LDO9'', 13),
     (''RC5T583_REGULATOR_MAX'', 14)]"

definition enumdecl_line_7806 :: cenum_decl where
  "enumdecl_line_7806 = EnumDecl False [
     (''RCD'', 0), (''RCH_DP'', 1), (''DEVICE'', 2), (''LD'', 3), (''FMLD'', 4), (''RP'', 5),
     (''DSP'', 6), (''USP'', 7)]"

definition enumdecl_line_7817 :: cenum_decl where
  "enumdecl_line_7817 = EnumDecl False [
     (''RDT_FLAG_CMT'', 0), (''RDT_FLAG_MBM_TOTAL'', 1), (''RDT_FLAG_MBM_LOCAL'', 2),
     (''RDT_FLAG_L3_CAT'', 3), (''RDT_FLAG_L3_CDP'', 4), (''RDT_FLAG_L2_CAT'', 5),
     (''RDT_FLAG_L2_CDP'', 6), (''RDT_FLAG_MBA'', 7), (''RDT_FLAG_SMBA'', 8),
     (''RDT_FLAG_BMEC'', 9), (''RDT_FLAG_ABMC'', 10), (''RDT_FLAG_SDCIAE'', 11)]"

definition enumdecl_line_7832 :: cenum_decl where
  "enumdecl_line_7832 = EnumDecl False [
     (''REASON_BOUNDS'', - 1), (''REASON_TYPE'', - 2), (''REASON_PATHS'', - 3),
     (''REASON_LIMIT'', - 4), (''REASON_STACK'', - 5)]"

definition enumdecl_line_7840 :: cenum_decl where
  "enumdecl_line_7840 = EnumDecl False [
     (''REGION_INTERSECTS'', 0), (''REGION_DISJOINT'', 1), (''REGION_MIXED'', 2)]"

definition enumdecl_line_7846 :: cenum_decl where
  "enumdecl_line_7846 = EnumDecl False [
     (''REGULATOR_ERROR_CLEARED'', 0), (''REGULATOR_FAILED_RETRY'', 1),
     (''REGULATOR_ERROR_ON'', 2)]"

definition enumdecl_line_7852 :: cenum_decl where
  "enumdecl_line_7852 = EnumDecl False [
     (''REG_GENL_ATTR_UNSPEC'', 0), (''REG_GENL_ATTR_EVENT'', 1), (''__REG_GENL_ATTR_MAX'', 2)]"

definition enumdecl_line_7858 :: cenum_decl where
  "enumdecl_line_7858 = EnumDecl False [
     (''REG_GENL_CMD_UNSPEC'', 0), (''REG_GENL_CMD_EVENT'', 1), (''__REG_GENL_CMD_MAX'', 2)]"

definition enumdecl_line_7864 :: cenum_decl where
  "enumdecl_line_7864 = EnumDecl False [
     (''RELAY_STATS_BUF_FULL'', 1), (''RELAY_STATS_WRT_BIG'', 2), (''RELAY_STATS_LAST'', 2)]"

definition enumdecl_line_7870 :: cenum_decl where
  "enumdecl_line_7870 = EnumDecl False [
     (''REQ_FSEQ_PREFLUSH'', 1), (''REQ_FSEQ_DATA'', 2), (''REQ_FSEQ_POSTFLUSH'', 4),
     (''REQ_FSEQ_DONE'', 8), (''REQ_FSEQ_ACTIONS'', 7), (''FLUSH_PENDING_TIMEOUT'', 5000)]"

definition enumdecl_line_7922 :: cenum_decl where
  "enumdecl_line_7922 = EnumDecl False [
     (''REQ_F_FIXED_FILE_BIT'', 0), (''REQ_F_IO_DRAIN_BIT'', 1), (''REQ_F_LINK_BIT'', 2),
     (''REQ_F_HARDLINK_BIT'', 3), (''REQ_F_FORCE_ASYNC_BIT'', 4),
     (''REQ_F_BUFFER_SELECT_BIT'', 5), (''REQ_F_CQE_SKIP_BIT'', 6), (''REQ_F_FAIL_BIT'', 8),
     (''REQ_F_INFLIGHT_BIT'', 9), (''REQ_F_CUR_POS_BIT'', 10), (''REQ_F_NOWAIT_BIT'', 11),
     (''REQ_F_LINK_TIMEOUT_BIT'', 12), (''REQ_F_NEED_CLEANUP_BIT'', 13),
     (''REQ_F_POLLED_BIT'', 14), (''REQ_F_HYBRID_IOPOLL_STATE_BIT'', 15),
     (''REQ_F_BUFFER_SELECTED_BIT'', 16), (''REQ_F_BUFFER_RING_BIT'', 17),
     (''REQ_F_REISSUE_BIT'', 18), (''REQ_F_CREDS_BIT'', 19), (''REQ_F_REFCOUNT_BIT'', 20),
     (''REQ_F_ARM_LTIMEOUT_BIT'', 21), (''REQ_F_ASYNC_DATA_BIT'', 22),
     (''REQ_F_SKIP_LINK_CQES_BIT'', 23), (''REQ_F_SINGLE_POLL_BIT'', 24),
     (''REQ_F_DOUBLE_POLL_BIT'', 25), (''REQ_F_MULTISHOT_BIT'', 26),
     (''REQ_F_APOLL_MULTISHOT_BIT'', 27), (''REQ_F_CLEAR_POLLIN_BIT'', 28),
     (''REQ_F_SUPPORT_NOWAIT_BIT'', 29), (''REQ_F_ISREG_BIT'', 30),
     (''REQ_F_POLL_NO_LAZY_BIT'', 31), (''REQ_F_CAN_POLL_BIT'', 32),
     (''REQ_F_BL_EMPTY_BIT'', 33), (''REQ_F_BL_NO_RECYCLE_BIT'', 34),
     (''REQ_F_BUFFERS_COMMIT_BIT'', 35), (''REQ_F_BUF_NODE_BIT'', 36),
     (''REQ_F_BUF_MORE_BIT'', 37), (''REQ_F_HAS_METADATA_BIT'', 38),
     (''REQ_F_IMPORT_BUFFER_BIT'', 39), (''REQ_F_SQE_COPIED_BIT'', 40),
     (''__REQ_F_LAST_BIT'', 41)]"

definition enumdecl_line_7966 :: cenum_decl where
  "enumdecl_line_7966 = EnumDecl False [
     (''RES_USAGE'', 0), (''RES_RSVD_USAGE'', 1), (''RES_LIMIT'', 2), (''RES_RSVD_LIMIT'', 3),
     (''RES_MAX_USAGE'', 4), (''RES_RSVD_MAX_USAGE'', 5), (''RES_FAILCNT'', 6),
     (''RES_RSVD_FAILCNT'', 7)]"

definition enumdecl_line_7977 :: cenum_decl where
  "enumdecl_line_7977 = EnumDecl False [
     (''RNG_SEED_LENGTH'', 32)]"

definition enumdecl_line_7981 :: cenum_decl where
  "enumdecl_line_7981 = EnumDecl False [
     (''RQ_WAIT_BUSY_PCT'', 5), (''UNBUSY_THR_PCT'', 75), (''MIN_DELAY_THR_PCT'', 500),
     (''MAX_DELAY_THR_PCT'', 25000), (''MIN_DELAY'', 250), (''MAX_DELAY'', 250000),
     (''DFGV_USAGE_PCT'', 50), (''DFGV_PERIOD'', 100000), (''MAX_LAGGING_PERIODS'', 10),
     (''IOC_PAGE_SHIFT'', 12), (''IOC_PAGE_SIZE'', 4096), (''IOC_SECT_TO_PAGE_SHIFT'', 3),
     (''LCOEF_RANDIO_PAGES'', 4096)]"

definition enumdecl_line_7997 :: cenum_decl where
  "enumdecl_line_7997 = EnumDecl False [
     (''RTAX_UNSPEC'', 0), (''RTAX_LOCK'', 1), (''RTAX_MTU'', 2), (''RTAX_WINDOW'', 3),
     (''RTAX_RTT'', 4), (''RTAX_RTTVAR'', 5), (''RTAX_SSTHRESH'', 6), (''RTAX_CWND'', 7),
     (''RTAX_ADVMSS'', 8), (''RTAX_REORDERING'', 9), (''RTAX_HOPLIMIT'', 10),
     (''RTAX_INITCWND'', 11), (''RTAX_FEATURES'', 12), (''RTAX_RTO_MIN'', 13),
     (''RTAX_INITRWND'', 14), (''RTAX_QUICKACK'', 15), (''RTAX_CC_ALGO'', 16),
     (''RTAX_FASTOPEN_NO_COOKIE'', 17), (''__RTAX_MAX'', 18)]"

definition enum_decls_5 :: "cenum_decl list" where
  "enum_decls_5 = [
     enumdecl_line_6439, enumdecl_line_6453, enumdecl_line_6464, enumdecl_line_6479,
     enumdecl_line_6494, enumdecl_line_6501, enumdecl_line_6511, enumdecl_line_6517,
     enumdecl_line_6528, enumdecl_line_6536, enumdecl_line_6542, enumdecl_line_6551,
     enumdecl_line_6561, enumdecl_line_6583, enumdecl_line_6609, enumdecl_line_6616,
     enumdecl_line_6625, enumdecl_line_6642, enumdecl_line_6651, enumdecl_line_6668,
     enumdecl_line_6681, enumdecl_line_6693, enumdecl_line_6706, enumdecl_line_6714,
     enumdecl_line_6720, enumdecl_line_6729, enumdecl_line_6738, enumdecl_line_6758,
     enumdecl_line_6763, enumdecl_line_6772, enumdecl_line_6800, enumdecl_line_6811,
     enumdecl_line_6837, enumdecl_line_6842, enumdecl_line_6847, enumdecl_line_6853,
     enumdecl_line_6867, enumdecl_line_6877, enumdecl_line_6885, enumdecl_line_6960,
     enumdecl_line_6997, enumdecl_line_7004, enumdecl_line_7010, enumdecl_line_7017,
     enumdecl_line_7030, enumdecl_line_7039, enumdecl_line_7048, enumdecl_line_7052,
     enumdecl_line_7059, enumdecl_line_7076, enumdecl_line_7081, enumdecl_line_7087,
     enumdecl_line_7094, enumdecl_line_7104, enumdecl_line_7115, enumdecl_line_7122,
     enumdecl_line_7129, enumdecl_line_7135, enumdecl_line_7141, enumdecl_line_7147,
     enumdecl_line_7153, enumdecl_line_7163, enumdecl_line_7175, enumdecl_line_7181,
     enumdecl_line_7189, enumdecl_line_7223, enumdecl_line_7247, enumdecl_line_7273,
     enumdecl_line_7299, enumdecl_line_7311, enumdecl_line_7325, enumdecl_line_7350,
     enumdecl_line_7369, enumdecl_line_7375, enumdecl_line_7379, enumdecl_line_7388,
     enumdecl_line_7409, enumdecl_line_7415, enumdecl_line_7423, enumdecl_line_7433,
     enumdecl_line_7440, enumdecl_line_7444, enumdecl_line_7450, enumdecl_line_7458,
     enumdecl_line_7468, enumdecl_line_7477, enumdecl_line_7484, enumdecl_line_7500,
     enumdecl_line_7515, enumdecl_line_7520, enumdecl_line_7525, enumdecl_line_7530,
     enumdecl_line_7535, enumdecl_line_7569, enumdecl_line_7581, enumdecl_line_7586,
     enumdecl_line_7590, enumdecl_line_7599, enumdecl_line_7606, enumdecl_line_7612,
     enumdecl_line_7622, enumdecl_line_7643, enumdecl_line_7647, enumdecl_line_7659,
     enumdecl_line_7665, enumdecl_line_7674, enumdecl_line_7680, enumdecl_line_7687,
     enumdecl_line_7696, enumdecl_line_7701, enumdecl_line_7728, enumdecl_line_7733,
     enumdecl_line_7745, enumdecl_line_7788, enumdecl_line_7806, enumdecl_line_7817,
     enumdecl_line_7832, enumdecl_line_7840, enumdecl_line_7846, enumdecl_line_7852,
     enumdecl_line_7858, enumdecl_line_7864, enumdecl_line_7870, enumdecl_line_7922,
     enumdecl_line_7966, enumdecl_line_7977, enumdecl_line_7981, enumdecl_line_7997]"

lemma enum_decls_5_4: "list_all enum4 enum_decls_5"
  by (unfold enum_decls_5_def
     enumdecl_line_6439_def enumdecl_line_6453_def enumdecl_line_6464_def
     enumdecl_line_6479_def enumdecl_line_6494_def enumdecl_line_6501_def
     enumdecl_line_6511_def enumdecl_line_6517_def enumdecl_line_6528_def
     enumdecl_line_6536_def enumdecl_line_6542_def enumdecl_line_6551_def
     enumdecl_line_6561_def enumdecl_line_6583_def enumdecl_line_6609_def
     enumdecl_line_6616_def enumdecl_line_6625_def enumdecl_line_6642_def
     enumdecl_line_6651_def enumdecl_line_6668_def enumdecl_line_6681_def
     enumdecl_line_6693_def enumdecl_line_6706_def enumdecl_line_6714_def
     enumdecl_line_6720_def enumdecl_line_6729_def enumdecl_line_6738_def
     enumdecl_line_6758_def enumdecl_line_6763_def enumdecl_line_6772_def
     enumdecl_line_6800_def enumdecl_line_6811_def enumdecl_line_6837_def
     enumdecl_line_6842_def enumdecl_line_6847_def enumdecl_line_6853_def
     enumdecl_line_6867_def enumdecl_line_6877_def enumdecl_line_6885_def
     enumdecl_line_6960_def enumdecl_line_6997_def enumdecl_line_7004_def
     enumdecl_line_7010_def enumdecl_line_7017_def enumdecl_line_7030_def
     enumdecl_line_7039_def enumdecl_line_7048_def enumdecl_line_7052_def
     enumdecl_line_7059_def enumdecl_line_7076_def enumdecl_line_7081_def
     enumdecl_line_7087_def enumdecl_line_7094_def enumdecl_line_7104_def
     enumdecl_line_7115_def enumdecl_line_7122_def enumdecl_line_7129_def
     enumdecl_line_7135_def enumdecl_line_7141_def enumdecl_line_7147_def
     enumdecl_line_7153_def enumdecl_line_7163_def enumdecl_line_7175_def
     enumdecl_line_7181_def enumdecl_line_7189_def enumdecl_line_7223_def
     enumdecl_line_7247_def enumdecl_line_7273_def enumdecl_line_7299_def
     enumdecl_line_7311_def enumdecl_line_7325_def enumdecl_line_7350_def
     enumdecl_line_7369_def enumdecl_line_7375_def enumdecl_line_7379_def
     enumdecl_line_7388_def enumdecl_line_7409_def enumdecl_line_7415_def
     enumdecl_line_7423_def enumdecl_line_7433_def enumdecl_line_7440_def
     enumdecl_line_7444_def enumdecl_line_7450_def enumdecl_line_7458_def
     enumdecl_line_7468_def enumdecl_line_7477_def enumdecl_line_7484_def
     enumdecl_line_7500_def enumdecl_line_7515_def enumdecl_line_7520_def
     enumdecl_line_7525_def enumdecl_line_7530_def enumdecl_line_7535_def
     enumdecl_line_7569_def enumdecl_line_7581_def enumdecl_line_7586_def
     enumdecl_line_7590_def enumdecl_line_7599_def enumdecl_line_7606_def
     enumdecl_line_7612_def enumdecl_line_7622_def enumdecl_line_7643_def
     enumdecl_line_7647_def enumdecl_line_7659_def enumdecl_line_7665_def
     enumdecl_line_7674_def enumdecl_line_7680_def enumdecl_line_7687_def
     enumdecl_line_7696_def enumdecl_line_7701_def enumdecl_line_7728_def
     enumdecl_line_7733_def enumdecl_line_7745_def enumdecl_line_7788_def
     enumdecl_line_7806_def enumdecl_line_7817_def enumdecl_line_7832_def
     enumdecl_line_7840_def enumdecl_line_7846_def enumdecl_line_7852_def
     enumdecl_line_7858_def enumdecl_line_7864_def enumdecl_line_7870_def
     enumdecl_line_7922_def enumdecl_line_7966_def enumdecl_line_7977_def
     enumdecl_line_7981_def enumdecl_line_7997_def)
    (intro enum_list_intros enum_int_intros; simp)

lemma length_enum_decls_5: "length enum_decls_5 = 128"
  by (simp add: enum_decls_5_def)

end
