(* ===== verification/VmlinuxEnum6.thy ===== *)
theory VmlinuxEnum6
  imports EnumDecl
begin

text \<open>
  The enumerations of four bytes of \<^verbatim>\<open>src/internal/ebpf/vmlinux.h\<close> between lines 8019 and
  9638, one definition per enumeration, enumerators in order. An enumeration without a tag is
  named after the line it starts on.
\<close>

definition enumdecl_line_8019 :: cenum_decl where
  "enumdecl_line_8019 = EnumDecl False [
     (''RTM_BASE'', 16), (''RTM_NEWLINK'', 16), (''RTM_DELLINK'', 17), (''RTM_GETLINK'', 18),
     (''RTM_SETLINK'', 19), (''RTM_NEWADDR'', 20), (''RTM_DELADDR'', 21), (''RTM_GETADDR'', 22),
     (''RTM_NEWROUTE'', 24), (''RTM_DELROUTE'', 25), (''RTM_GETROUTE'', 26),
     (''RTM_NEWNEIGH'', 28), (''RTM_DELNEIGH'', 29), (''RTM_GETNEIGH'', 30),
     (''RTM_NEWRULE'', 32), (''RTM_DELRULE'', 33), (''RTM_GETRULE'', 34), (''RTM_NEWQDISC'', 36),
     (''RTM_DELQDISC'', 37), (''RTM_GETQDISC'', 38), (''RTM_NEWTCLASS'', 40),
     (''RTM_DELTCLASS'', 41), (''RTM_GETTCLASS'', 42), (''RTM_NEWTFILTER'', 44),
     (''RTM_DELTFILTER'', 45), (''RTM_GETTFILTER'', 46), (''RTM_NEWACTION'', 48),
     (''RTM_DELACTION'', 49), (''RTM_GETACTION'', 50), (''RTM_NEWPREFIX'', 52),
     (''RTM_NEWMULTICAST'', 56), (''RTM_DELMULTICAST'', 57), (''RTM_GETMULTICAST'', 58),
     (''RTM_NEWANYCAST'', 60), (''RTM_DELANYCAST'', 61), (''RTM_GETANYCAST'', 62),
     (''RTM_NEWNEIGHTBL'', 64), (''RTM_GETNEIGHTBL'', 66), (''RTM_SETNEIGHTBL'', 67),
     (''RTM_NEWNDUSEROPT'', 68), (''RTM_NEWADDRLABEL'', 72), (''RTM_DELADDRLABEL'', 73),
     (''RTM_GETADDRLABEL'', 74), (''RTM_GETDCB'', 78), (''RTM_SETDCB'', 79),
     (''RTM_NEWNETCONF'', 80), (''RTM_DELNETCONF'', 81), (''RTM_GETNETCONF'', 82),
     (''RTM_NEWMDB'', 84), (''RTM_DELMDB'', 85), (''RTM_GETMDB'', 86), (''RTM_NEWNSID'', 88),
     (''RTM_DELNSID'', 89), (''RTM_GETNSID'', 90), (''RTM_NEWSTATS'', 92),
     (''RTM_GETSTATS'', 94), (''RTM_SETSTATS'', 95), (''RTM_NEWCACHEREPORT'', 96),
     (''RTM_NEWCHAIN'', 100), (''RTM_DELCHAIN'', 101), (''RTM_GETCHAIN'', 102),
     (''RTM_NEWNEXTHOP'', 104), (''RTM_DELNEXTHOP'', 105), (''RTM_GETNEXTHOP'', 106),
     (''RTM_NEWLINKPROP'', 108), (''RTM_DELLINKPROP'', 109), (''RTM_GETLINKPROP'', 110),
     (''RTM_NEWVLAN'', 112), (''RTM_DELVLAN'', 113), (''RTM_GETVLAN'', 114),
     (''RTM_NEWNEXTHOPBUCKET'', 116), (''RTM_DELNEXTHOPBUCKET'', 117),
     (''RTM_GETNEXTHOPBUCKET'', 118), (''RTM_NEWTUNNEL'', 120), (''RTM_DELTUNNEL'', 121),
     (''RTM_GETTUNNEL'', 122), (''__RTM_MAX'', 123)]"

definition enumdecl_line_8099 :: cenum_decl where
  "enumdecl_line_8099 = EnumDecl False [
     (''RTN_UNSPEC'', 0), (''RTN_UNICAST'', 1), (''RTN_LOCAL'', 2), (''RTN_BROADCAST'', 3),
     (''RTN_ANYCAST'', 4), (''RTN_MULTICAST'', 5), (''RTN_BLACKHOLE'', 6),
     (''RTN_UNREACHABLE'', 7), (''RTN_PROHIBIT'', 8), (''RTN_THROW'', 9), (''RTN_NAT'', 10),
     (''RTN_XRESOLVE'', 11), (''__RTN_MAX'', 12)]"

definition enumdecl_line_8115 :: cenum_decl where
  "enumdecl_line_8115 = EnumDecl False [
     (''RWB_DEF_DEPTH'', 16), (''RWB_WINDOW_NSEC'', 100000000), (''RWB_MIN_WRITE_SAMPLES'', 3),
     (''RWB_UNKNOWN_BUMP'', 5)]"

definition enumdecl_line_8122 :: cenum_decl where
  "enumdecl_line_8122 = EnumDecl False [
     (''Root_NFS'', 255), (''Root_CIFS'', 254), (''Root_Generic'', 253), (''Root_RAM0'', 1048576)]"

definition enumdecl_line_8129 :: cenum_decl where
  "enumdecl_line_8129 = EnumDecl False [
     (''S1SA'', 0), (''S2SA'', 1), (''SP'', 2), (''DSA'', 3), (''CNT'', 4), (''DP_OCTL'', 5),
     (''CLR'', 6), (''BI'', 8), (''MBC'', 9), (''BLTCTL'', 10), (''HES'', 12), (''HEB'', 13),
     (''HSB'', 14), (''HT'', 15), (''VES'', 16), (''VEB'', 17), (''VSB'', 18), (''VT'', 19),
     (''HCIV'', 20), (''VCIV'', 21), (''TCDR'', 22), (''VIL'', 23), (''STGCTL'', 24),
     (''SSR'', 25), (''HRIR'', 26), (''SPR'', 27), (''CMR'', 28), (''SRGCTL'', 29),
     (''RRCIV'', 30), (''RRSC'', 31), (''RRCR'', 34), (''GIOE'', 32), (''GIO'', 33),
     (''SCR'', 35), (''SSTATUS'', 36), (''PRC'', 37)]"

definition enumdecl_line_8168 :: cenum_decl where
  "enumdecl_line_8168 = EnumDecl False [
     (''SAMPLES'', 8), (''MIN_CHANGE'', 5)]"

definition enumdecl_line_8173 :: cenum_decl where
  "enumdecl_line_8173 = EnumDecl False [
     (''SB_UNFROZEN'', 0), (''SB_FREEZE_WRITE'', 1), (''SB_FREEZE_PAGEFAULT'', 2),
     (''SB_FREEZE_FS'', 3), (''SB_FREEZE_COMPLETE'', 4)]"

definition enumdecl_line_8181 :: cenum_decl where
  "enumdecl_line_8181 = EnumDecl False [
     (''SCM_TSTAMP_SND'', 0), (''SCM_TSTAMP_SCHED'', 1), (''SCM_TSTAMP_ACK'', 2),
     (''SCM_TSTAMP_COMPLETION'', 3)]"

definition enumdecl_line_8188 :: cenum_decl where
  "enumdecl_line_8188 = EnumDecl False [
     (''SCSI_DH_OK'', 0), (''SCSI_DH_DEV_FAILED'', 1), (''SCSI_DH_DEV_TEMP_BUSY'', 2),
     (''SCSI_DH_DEV_UNSUPP'', 3), (''SCSI_DH_DEVICE_MAX'', 4), (''SCSI_DH_NOTCONN'', 5),
     (''SCSI_DH_CONN_FAILURE'', 6), (''SCSI_DH_TRANSPORT_MAX'', 7), (''SCSI_DH_IO'', 8),
     (''SCSI_DH_INVALID_IO'', 9), (''SCSI_DH_RETRY'', 10), (''SCSI_DH_IMM_RETRY'', 11),
     (''SCSI_DH_TIMED_OUT'', 12), (''SCSI_DH_RES_TEMP_UNAVAIL'', 13),
     (''SCSI_DH_DEV_OFFLINED'', 14), (''SCSI_DH_NOMEM'', 15), (''SCSI_DH_NOSYS'', 16),
     (''SCSI_DH_DRIVER_MAX'', 17)]"

definition enumdecl_line_8209 :: cenum_decl where
  "enumdecl_line_8209 = EnumDecl False [
     (''SCTP_AUTH_HMAC_ID_RESERVED_0'', 0), (''SCTP_AUTH_HMAC_ID_SHA1'', 1),
     (''SCTP_AUTH_HMAC_ID_RESERVED_2'', 2), (''SCTP_AUTH_HMAC_ID_SHA256'', 3),
     (''__SCTP_AUTH_HMAC_MAX'', 4)]"

definition enumdecl_line_8217 :: cenum_decl where
  "enumdecl_line_8217 = EnumDecl False [
     (''SCTP_MAX_DUP_TSNS'', 16)]"

definition enumdecl_line_8221 :: cenum_decl where
  "enumdecl_line_8221 = EnumDecl False [
     (''SCTP_MAX_STREAM'', 65535)]"

definition enumdecl_line_8225 :: cenum_decl where
  "enumdecl_line_8225 = EnumDecl False [
     (''SD_BALANCE_NEWIDLE'', 1), (''SD_BALANCE_EXEC'', 2), (''SD_BALANCE_FORK'', 4),
     (''SD_BALANCE_WAKE'', 8), (''SD_WAKE_AFFINE'', 16), (''SD_ASYM_CPUCAPACITY'', 32),
     (''SD_ASYM_CPUCAPACITY_FULL'', 64), (''SD_SHARE_CPUCAPACITY'', 128), (''SD_CLUSTER'', 256),
     (''SD_SHARE_LLC'', 512), (''SD_SERIALIZE'', 1024), (''SD_ASYM_PACKING'', 2048),
     (''SD_PREFER_SIBLING'', 4096), (''SD_NUMA'', 8192)]"

definition enumdecl_line_8242 :: cenum_decl where
  "enumdecl_line_8242 = EnumDecl False [
     (''SD_DEF_XFER_BLOCKS'', 65535), (''SD_MAX_XFER_BLOCKS'', 4294967295),
     (''SD_MAX_WS10_BLOCKS'', 65535), (''SD_MAX_WS16_BLOCKS'', 8388607)]"

lemma enumdecl_line_8242_4: "enum4 enumdecl_line_8242"
  by (unfold enumdecl_line_8242_def) (intro enum_uint_intros; simp)

definition enumdecl_line_8249 :: cenum_decl where
  "enumdecl_line_8249 = EnumDecl False [
     (''SD_EXT_CDB_SIZE'', 32), (''SD_MEMPOOL_SIZE'', 2)]"

definition enumdecl_line_8254 :: cenum_decl where
  "enumdecl_line_8254 = EnumDecl False [
     (''SD_LBP_FULL'', 0), (''SD_LBP_UNMAP'', 1), (''SD_LBP_WS16'', 2), (''SD_LBP_WS10'', 3),
     (''SD_LBP_ZERO'', 4), (''SD_LBP_DISABLE'', 5)]"

definition enumdecl_line_8263 :: cenum_decl where
  "enumdecl_line_8263 = EnumDecl False [
     (''SD_ZERO_WRITE'', 0), (''SD_ZERO_WS'', 1), (''SD_ZERO_WS16_UNMAP'', 2),
     (''SD_ZERO_WS10_UNMAP'', 3)]"

definition enumdecl_line_8270 :: cenum_decl where
  "enumdecl_line_8270 = EnumDecl False [
     (''SEAL_keytype'', 1), (''SRK_keytype'', 4)]"

definition enumdecl_line_8275 :: cenum_decl where
  "enumdecl_line_8275 = EnumDecl False [
     (''SECTION_MARKED_PRESENT_BIT'', 0), (''SECTION_HAS_MEM_MAP_BIT'', 1),
     (''SECTION_IS_ONLINE_BIT'', 2), (''SECTION_IS_EARLY_BIT'', 3),
     (''SECTION_TAINT_ZONE_DEVICE_BIT'', 4), (''SECTION_IS_VMEMMAP_PREINIT_BIT'', 5),
     (''SECTION_MAP_LAST_BIT'', 6)]"

definition enumdecl_line_8285 :: cenum_decl where
  "enumdecl_line_8285 = EnumDecl False [
     (''SEG6_ATTR_UNSPEC'', 0), (''SEG6_ATTR_DST'', 1), (''SEG6_ATTR_DSTLEN'', 2),
     (''SEG6_ATTR_HMACKEYID'', 3), (''SEG6_ATTR_SECRET'', 4), (''SEG6_ATTR_SECRETLEN'', 5),
     (''SEG6_ATTR_ALGID'', 6), (''SEG6_ATTR_HMACINFO'', 7), (''__SEG6_ATTR_MAX'', 8)]"

definition enumdecl_line_8297 :: cenum_decl where
  "enumdecl_line_8297 = EnumDecl False [
     (''SEG6_CMD_UNSPEC'', 0), (''SEG6_CMD_SETHMAC'', 1), (''SEG6_CMD_DUMPHMAC'', 2),
     (''SEG6_CMD_SET_TUNSRC'', 3), (''SEG6_CMD_GET_TUNSRC'', 4), (''__SEG6_CMD_MAX'', 5)]"

definition enumdecl_line_8306 :: cenum_decl where
  "enumdecl_line_8306 = EnumDecl False [
     (''SEG6_HMAC_ALGO_SHA1'', 1), (''SEG6_HMAC_ALGO_SHA256'', 2)]"

definition enumdecl_line_8311 :: cenum_decl where
  "enumdecl_line_8311 = EnumDecl False [
     (''SEG6_IPTUNNEL_UNSPEC'', 0), (''SEG6_IPTUNNEL_SRH'', 1), (''__SEG6_IPTUNNEL_MAX'', 2)]"

definition enumdecl_line_8317 :: cenum_decl where
  "enumdecl_line_8317 = EnumDecl False [
     (''SEG6_IPTUN_MODE_INLINE'', 0), (''SEG6_IPTUN_MODE_ENCAP'', 1),
     (''SEG6_IPTUN_MODE_L2ENCAP'', 2), (''SEG6_IPTUN_MODE_ENCAP_RED'', 3),
     (''SEG6_IPTUN_MODE_L2ENCAP_RED'', 4)]"

definition enumdecl_line_8325 :: cenum_decl where
  "enumdecl_line_8325 = EnumDecl False [
     (''SEG6_LOCAL_ACTION_UNSPEC'', 0), (''SEG6_LOCAL_ACTION_END'', 1),
     (''SEG6_LOCAL_ACTION_END_X'', 2), (''SEG6_LOCAL_ACTION_END_T'', 3),
     (''SEG6_LOCAL_ACTION_END_DX2'', 4), (''SEG6_LOCAL_ACTION_END_DX6'', 5),
     (''SEG6_LOCAL_ACTION_END_DX4'', 6), (''SEG6_LOCAL_ACTION_END_DT6'', 7),
     (''SEG6_LOCAL_ACTION_END_DT4'', 8), (''SEG6_LOCAL_ACTION_END_B6'', 9),
     (''SEG6_LOCAL_ACTION_END_B6_ENCAP'', 10), (''SEG6_LOCAL_ACTION_END_BM'', 11),
     (''SEG6_LOCAL_ACTION_END_S'', 12), (''SEG6_LOCAL_ACTION_END_AS'', 13),
     (''SEG6_LOCAL_ACTION_END_AM'', 14), (''SEG6_LOCAL_ACTION_END_BPF'', 15),
     (''SEG6_LOCAL_ACTION_END_DT46'', 16), (''__SEG6_LOCAL_ACTION_MAX'', 17)]"

definition enumdecl_line_8346 :: cenum_decl where
  "enumdecl_line_8346 = EnumDecl False [
     (''SEG6_LOCAL_BPF_PROG_UNSPEC'', 0), (''SEG6_LOCAL_BPF_PROG'', 1),
     (''SEG6_LOCAL_BPF_PROG_NAME'', 2), (''__SEG6_LOCAL_BPF_PROG_MAX'', 3)]"

definition enumdecl_line_8353 :: cenum_decl where
  "enumdecl_line_8353 = EnumDecl False [
     (''SEG6_LOCAL_CNT_UNSPEC'', 0), (''SEG6_LOCAL_CNT_PAD'', 1),
     (''SEG6_LOCAL_CNT_PACKETS'', 2), (''SEG6_LOCAL_CNT_BYTES'', 3),
     (''SEG6_LOCAL_CNT_ERRORS'', 4), (''__SEG6_LOCAL_CNT_MAX'', 5)]"

definition enumdecl_line_8362 :: cenum_decl where
  "enumdecl_line_8362 = EnumDecl False [
     (''SEG6_LOCAL_FLV_OP_UNSPEC'', 0), (''SEG6_LOCAL_FLV_OP_PSP'', 1),
     (''SEG6_LOCAL_FLV_OP_USP'', 2), (''SEG6_LOCAL_FLV_OP_USD'', 3),
     (''SEG6_LOCAL_FLV_OP_NEXT_CSID'', 4), (''__SEG6_LOCAL_FLV_OP_MAX'', 5)]"

definition enumdecl_line_8371 :: cenum_decl where
  "enumdecl_line_8371 = EnumDecl False [
     (''SEG6_LOCAL_FLV_UNSPEC'', 0), (''SEG6_LOCAL_FLV_OPERATION'', 1),
     (''SEG6_LOCAL_FLV_LCBLOCK_BITS'', 2), (''SEG6_LOCAL_FLV_LCNODE_FN_BITS'', 3),
     (''__SEG6_LOCAL_FLV_MAX'', 4)]"

definition enumdecl_line_8379 :: cenum_decl where
  "enumdecl_line_8379 = EnumDecl False [
     (''SEG6_LOCAL_UNSPEC'', 0), (''SEG6_LOCAL_ACTION'', 1), (''SEG6_LOCAL_SRH'', 2),
     (''SEG6_LOCAL_TABLE'', 3), (''SEG6_LOCAL_NH4'', 4), (''SEG6_LOCAL_NH6'', 5),
     (''SEG6_LOCAL_IIF'', 6), (''SEG6_LOCAL_OIF'', 7), (''SEG6_LOCAL_BPF'', 8),
     (''SEG6_LOCAL_VRFTABLE'', 9), (''SEG6_LOCAL_COUNTERS'', 10), (''SEG6_LOCAL_FLAVORS'', 11),
     (''__SEG6_LOCAL_MAX'', 12)]"

definition enumdecl_line_8395 :: cenum_decl where
  "enumdecl_line_8395 = EnumDecl False [
     (''SELNL_MSG_SETENFORCE'', 16), (''SELNL_MSG_POLICYLOAD'', 17), (''SELNL_MSG_MAX'', 18)]"

definition enumdecl_line_8401 :: cenum_decl where
  "enumdecl_line_8401 = EnumDecl False [
     (''SEV_RET_NO_FW_CALL'', - 1), (''SEV_RET_SUCCESS'', 0),
     (''SEV_RET_INVALID_PLATFORM_STATE'', 1), (''SEV_RET_INVALID_GUEST_STATE'', 2),
     (''SEV_RET_INAVLID_CONFIG'', 3), (''SEV_RET_INVALID_CONFIG'', 3),
     (''SEV_RET_INVALID_LEN'', 4), (''SEV_RET_ALREADY_OWNED'', 5),
     (''SEV_RET_INVALID_CERTIFICATE'', 6), (''SEV_RET_POLICY_FAILURE'', 7),
     (''SEV_RET_INACTIVE'', 8), (''SEV_RET_INVALID_ADDRESS'', 9),
     (''SEV_RET_BAD_SIGNATURE'', 10), (''SEV_RET_BAD_MEASUREMENT'', 11),
     (''SEV_RET_ASID_OWNED'', 12), (''SEV_RET_INVALID_ASID'', 13),
     (''SEV_RET_WBINVD_REQUIRED'', 14), (''SEV_RET_DFFLUSH_REQUIRED'', 15),
     (''SEV_RET_INVALID_GUEST'', 16), (''SEV_RET_INVALID_COMMAND'', 17),
     (''SEV_RET_ACTIVE'', 18), (''SEV_RET_HWSEV_RET_PLATFORM'', 19),
     (''SEV_RET_HWSEV_RET_UNSAFE'', 20), (''SEV_RET_UNSUPPORTED'', 21),
     (''SEV_RET_INVALID_PARAM'', 22), (''SEV_RET_RESOURCE_LIMIT'', 23),
     (''SEV_RET_SECURE_DATA_INVALID'', 24), (''SEV_RET_INVALID_PAGE_SIZE'', 25),
     (''SEV_RET_INVALID_PAGE_STATE'', 26), (''SEV_RET_INVALID_MDATA_ENTRY'', 27),
     (''SEV_RET_INVALID_PAGE_OWNER'', 28), (''SEV_RET_AEAD_OFLOW'', 29),
     (''SEV_RET_EXIT_RING_BUFFER'', 31), (''SEV_RET_RMP_INIT_REQUIRED'', 32),
     (''SEV_RET_BAD_SVN'', 33), (''SEV_RET_BAD_VERSION'', 34),
     (''SEV_RET_SHUTDOWN_REQUIRED'', 35), (''SEV_RET_UPDATE_FAILED'', 36),
     (''SEV_RET_RESTORE_REQUIRED'', 37), (''SEV_RET_RMP_INITIALIZATION_FAILED'', 38),
     (''SEV_RET_INVALID_KEY'', 39), (''SEV_RET_SHUTDOWN_INCOMPLETE'', 40),
     (''SEV_RET_INCORRECT_BUFFER_LENGTH'', 48), (''SEV_RET_EXPAND_BUFFER_LENGTH_REQUEST'', 49),
     (''SEV_RET_SPDM_REQUEST'', 50), (''SEV_RET_SPDM_ERROR'', 51),
     (''SEV_RET_SEV_STATUS_ERR_IN_DEV_CONN'', 53), (''SEV_RET_SEV_STATUS_INVALID_DEV_CTX'', 54),
     (''SEV_RET_SEV_STATUS_INVALID_TDI_CTX'', 55), (''SEV_RET_SEV_STATUS_INVALID_TDI'', 56),
     (''SEV_RET_SEV_STATUS_RECLAIM_REQUIRED'', 57), (''SEV_RET_IN_USE'', 58),
     (''SEV_RET_SEV_STATUS_INVALID_DEV_STATE'', 59),
     (''SEV_RET_SEV_STATUS_INVALID_TDI_STATE'', 60),
     (''SEV_RET_SEV_STATUS_DEV_CERT_CHANGED'', 61), (''SEV_RET_SEV_STATUS_RESYNC_REQ'', 62),
     (''SEV_RET_SEV_STATUS_RESPONSE_TOO_LARGE'', 63), (''SEV_RET_MAX'', 64)]"

definition enumdecl_line_8462 :: cenum_decl where
  "enumdecl_line_8462 = EnumDecl False [
     (''SFF8024_ID_UNK'', 0), (''SFF8024_ID_SFF_8472'', 2), (''SFF8024_ID_SFP'', 3),
     (''SFF8024_ID_DWDM_SFP'', 11), (''SFF8024_ID_QSFP_8438'', 12),
     (''SFF8024_ID_QSFP_8436_8636'', 13), (''SFF8024_ID_QSFP28_8636'', 17),
     (''SFF8024_ID_QSFP_DD'', 24), (''SFF8024_ID_OSFP'', 25), (''SFF8024_ID_DSFP'', 27),
     (''SFF8024_ID_QSFP_PLUS_CMIS'', 30), (''SFF8024_ID_SFP_DD_CMIS'', 31),
     (''SFF8024_ID_SFP_PLUS_CMIS'', 32), (''SFF8024_ENCODING_UNSPEC'', 0),
     (''SFF8024_ENCODING_8B10B'', 1), (''SFF8024_ENCODING_4B5B'', 2),
     (''SFF8024_ENCODING_NRZ'', 3), (''SFF8024_ENCODING_8472_MANCHESTER'', 4),
     (''SFF8024_ENCODING_8472_SONET'', 5), (''SFF8024_ENCODING_8472_64B66B'', 6),
     (''SFF8024_ENCODING_8436_MANCHESTER'', 6), (''SFF8024_ENCODING_8436_SONET'', 4),
     (''SFF8024_ENCODING_8436_64B66B'', 5), (''SFF8024_ENCODING_256B257B'', 7),
     (''SFF8024_ENCODING_PAM4'', 8), (''SFF8024_CONNECTOR_UNSPEC'', 0),
     (''SFF8024_CONNECTOR_SC'', 1), (''SFF8024_CONNECTOR_FIBERJACK'', 6),
     (''SFF8024_CONNECTOR_LC'', 7), (''SFF8024_CONNECTOR_MT_RJ'', 8),
     (''SFF8024_CONNECTOR_MU'', 9), (''SFF8024_CONNECTOR_SG'', 10),
     (''SFF8024_CONNECTOR_OPTICAL_PIGTAIL'', 11), (''SFF8024_CONNECTOR_MPO_1X12'', 12),
     (''SFF8024_CONNECTOR_MPO_2X16'', 13), (''SFF8024_CONNECTOR_HSSDC_II'', 32),
     (''SFF8024_CONNECTOR_COPPER_PIGTAIL'', 33), (''SFF8024_CONNECTOR_RJ45'', 34),
     (''SFF8024_CONNECTOR_NOSEPARATE'', 35), (''SFF8024_CONNECTOR_MXC_2X16'', 36),
     (''SFF8024_ECC_UNSPEC'', 0), (''SFF8024_ECC_100G_25GAUI_C2M_AOC'', 1),
     (''SFF8024_ECC_100GBASE_SR4_25GBASE_SR'', 2), (''SFF8024_ECC_100GBASE_LR4_25GBASE_LR'', 3),
     (''SFF8024_ECC_100GBASE_ER4_25GBASE_ER'', 4), (''SFF8024_ECC_100GBASE_SR10'', 5),
     (''SFF8024_ECC_100GBASE_CR4'', 11), (''SFF8024_ECC_25GBASE_CR_S'', 12),
     (''SFF8024_ECC_25GBASE_CR_N'', 13), (''SFF8024_ECC_10GBASE_T_SFI'', 22),
     (''SFF8024_ECC_10GBASE_T_SR'', 28), (''SFF8024_ECC_5GBASE_T'', 29),
     (''SFF8024_ECC_2_5GBASE_T'', 30)]"

definition enumdecl_line_8518 :: cenum_decl where
  "enumdecl_line_8518 = EnumDecl False [
     (''SFP_PHYS_ID'', 0), (''SFP_PHYS_EXT_ID'', 1), (''SFP_PHYS_EXT_ID_SFP'', 4),
     (''SFP_CONNECTOR'', 2), (''SFP_COMPLIANCE'', 3), (''SFP_ENCODING'', 11),
     (''SFP_BR_NOMINAL'', 12), (''SFP_RATE_ID'', 13), (''SFF_RID_8079'', 1),
     (''SFF_RID_8431_RX_ONLY'', 2), (''SFF_RID_8431_TX_ONLY'', 4), (''SFF_RID_8431'', 6),
     (''SFF_RID_10G8G'', 14), (''SFP_LINK_LEN_SM_KM'', 14), (''SFP_LINK_LEN_SM_100M'', 15),
     (''SFP_LINK_LEN_50UM_OM2_10M'', 16), (''SFP_LINK_LEN_62_5UM_OM1_10M'', 17),
     (''SFP_LINK_LEN_COPPER_1M'', 18), (''SFP_LINK_LEN_50UM_OM4_10M'', 18),
     (''SFP_LINK_LEN_50UM_OM3_10M'', 19), (''SFP_VENDOR_NAME'', 20), (''SFP_VENDOR_OUI'', 37),
     (''SFP_VENDOR_PN'', 40), (''SFP_VENDOR_REV'', 56), (''SFP_OPTICAL_WAVELENGTH_MSB'', 60),
     (''SFP_OPTICAL_WAVELENGTH_LSB'', 61), (''SFP_CABLE_SPEC'', 60), (''SFP_CC_BASE'', 63),
     (''SFP_OPTIONS'', 64), (''SFP_OPTIONS_HIGH_POWER_LEVEL'', 8192),
     (''SFP_OPTIONS_PAGING_A2'', 4096), (''SFP_OPTIONS_RETIMER'', 2048),
     (''SFP_OPTIONS_COOLED_XCVR'', 1024), (''SFP_OPTIONS_POWER_DECL'', 512),
     (''SFP_OPTIONS_RX_LINEAR_OUT'', 256), (''SFP_OPTIONS_RX_DECISION_THRESH'', 128),
     (''SFP_OPTIONS_TUNABLE_TX'', 64), (''SFP_OPTIONS_RATE_SELECT'', 32),
     (''SFP_OPTIONS_TX_DISABLE'', 16), (''SFP_OPTIONS_TX_FAULT'', 8),
     (''SFP_OPTIONS_LOS_INVERTED'', 4), (''SFP_OPTIONS_LOS_NORMAL'', 2), (''SFP_BR_MAX'', 66),
     (''SFP_BR_MIN'', 67), (''SFP_VENDOR_SN'', 68), (''SFP_DATECODE'', 84),
     (''SFP_DIAGMON'', 92), (''SFP_DIAGMON_DDM'', 64), (''SFP_DIAGMON_INT_CAL'', 32),
     (''SFP_DIAGMON_EXT_CAL'', 16), (''SFP_DIAGMON_RXPWR_AVG'', 8),
     (''SFP_DIAGMON_ADDRMODE'', 4), (''SFP_ENHOPTS'', 93), (''SFP_ENHOPTS_ALARMWARN'', 128),
     (''SFP_ENHOPTS_SOFT_TX_DISABLE'', 64), (''SFP_ENHOPTS_SOFT_TX_FAULT'', 32),
     (''SFP_ENHOPTS_SOFT_RX_LOS'', 16), (''SFP_ENHOPTS_SOFT_RATE_SELECT'', 8),
     (''SFP_ENHOPTS_APP_SELECT_SFF8079'', 4), (''SFP_ENHOPTS_SOFT_RATE_SFF8431'', 2),
     (''SFP_SFF8472_COMPLIANCE'', 94), (''SFP_SFF8472_COMPLIANCE_NONE'', 0),
     (''SFP_SFF8472_COMPLIANCE_REV9_3'', 1), (''SFP_SFF8472_COMPLIANCE_REV9_5'', 2),
     (''SFP_SFF8472_COMPLIANCE_REV10_2'', 3), (''SFP_SFF8472_COMPLIANCE_REV10_4'', 4),
     (''SFP_SFF8472_COMPLIANCE_REV11_0'', 5), (''SFP_SFF8472_COMPLIANCE_REV11_3'', 6),
     (''SFP_SFF8472_COMPLIANCE_REV11_4'', 7), (''SFP_SFF8472_COMPLIANCE_REV12_0'', 8),
     (''SFP_CC_EXT'', 95)]"

definition enumdecl_line_8592 :: cenum_decl where
  "enumdecl_line_8592 = EnumDecl False [
     (''SKBFL_ZEROCOPY_ENABLE'', 1), (''SKBFL_SHARED_FRAG'', 2), (''SKBFL_PURE_ZEROCOPY'', 4),
     (''SKBFL_DONT_ORPHAN'', 8), (''SKBFL_MANAGED_FRAG_REFS'', 16)]"

definition enumdecl_line_8600 :: cenum_decl where
  "enumdecl_line_8600 = EnumDecl False [
     (''SKBTX_HW_TSTAMP_NOBPF'', 1), (''SKBTX_SW_TSTAMP'', 2), (''SKBTX_IN_PROGRESS'', 4),
     (''SKBTX_COMPLETION_TSTAMP'', 8), (''SKBTX_HW_TSTAMP_NETDEV'', 32),
     (''SKBTX_SCHED_TSTAMP'', 64), (''SKBTX_BPF'', 128)]"

definition enumdecl_line_8610 :: cenum_decl where
  "enumdecl_line_8610 = EnumDecl False [
     (''SKB_FCLONE_UNAVAILABLE'', 0), (''SKB_FCLONE_ORIG'', 1), (''SKB_FCLONE_CLONE'', 2)]"

definition enumdecl_line_8616 :: cenum_decl where
  "enumdecl_line_8616 = EnumDecl False [
     (''SKB_GSO_TCPV4'', 1), (''SKB_GSO_DODGY'', 2), (''SKB_GSO_TCP_ECN'', 4),
     (''__SKB_GSO_TCP_FIXEDID'', 8), (''SKB_GSO_TCPV6'', 16), (''SKB_GSO_FCOE'', 32),
     (''SKB_GSO_GRE'', 64), (''SKB_GSO_GRE_CSUM'', 128), (''SKB_GSO_IPXIP4'', 256),
     (''SKB_GSO_IPXIP6'', 512), (''SKB_GSO_UDP_TUNNEL'', 1024),
     (''SKB_GSO_UDP_TUNNEL_CSUM'', 2048), (''SKB_GSO_PARTIAL'', 4096),
     (''SKB_GSO_TUNNEL_REMCSUM'', 8192), (''SKB_GSO_SCTP'', 16384), (''SKB_GSO_ESP'', 32768),
     (''SKB_GSO_UDP'', 65536), (''SKB_GSO_UDP_L4'', 131072), (''SKB_GSO_FRAGLIST'', 262144),
     (''SKB_GSO_TCP_ACCECN'', 524288), (''SKB_GSO_TCP_FIXEDID'', 1073741824),
     (''SKB_GSO_TCP_FIXEDID_INNER'', - 2147483648)]"

definition enumdecl_line_8641 :: cenum_decl where
  "enumdecl_line_8641 = EnumDecl False [
     (''SKCIPHER_WALK_SLOW'', 1), (''SKCIPHER_WALK_COPY'', 2), (''SKCIPHER_WALK_DIFF'', 4),
     (''SKCIPHER_WALK_SLEEP'', 8)]"

definition enumdecl_line_8648 :: cenum_decl where
  "enumdecl_line_8648 = EnumDecl False [
     (''SKX_PCI_UNCORE_IMC'', 0), (''SKX_PCI_UNCORE_M2M'', 1), (''SKX_PCI_UNCORE_UPI'', 2),
     (''SKX_PCI_UNCORE_M2PCIE'', 3), (''SKX_PCI_UNCORE_M3UPI'', 4)]"

definition enumdecl_line_8656 :: cenum_decl where
  "enumdecl_line_8656 = EnumDecl False [
     (''SK_BPF_CB_TX_TIMESTAMPING'', 1), (''SK_BPF_CB_MASK'', 1)]"

definition enumdecl_line_8661 :: cenum_decl where
  "enumdecl_line_8661 = EnumDecl False [
     (''SK_DIAG_BPF_STORAGE_NONE'', 0), (''SK_DIAG_BPF_STORAGE_PAD'', 1),
     (''SK_DIAG_BPF_STORAGE_MAP_ID'', 2), (''SK_DIAG_BPF_STORAGE_MAP_VALUE'', 3),
     (''__SK_DIAG_BPF_STORAGE_MAX'', 4)]"

definition enumdecl_line_8669 :: cenum_decl where
  "enumdecl_line_8669 = EnumDecl False [
     (''SK_DIAG_BPF_STORAGE_REP_NONE'', 0), (''SK_DIAG_BPF_STORAGE'', 1),
     (''__SK_DIAG_BPF_STORAGE_REP_MAX'', 2)]"

definition enumdecl_line_8675 :: cenum_decl where
  "enumdecl_line_8675 = EnumDecl False [
     (''SK_DIAG_BPF_STORAGE_REQ_NONE'', 0), (''SK_DIAG_BPF_STORAGE_REQ_MAP_FD'', 1),
     (''__SK_DIAG_BPF_STORAGE_REQ_MAX'', 2)]"

definition enumdecl_line_8681 :: cenum_decl where
  "enumdecl_line_8681 = EnumDecl False [
     (''SK_MEMINFO_RMEM_ALLOC'', 0), (''SK_MEMINFO_RCVBUF'', 1), (''SK_MEMINFO_WMEM_ALLOC'', 2),
     (''SK_MEMINFO_SNDBUF'', 3), (''SK_MEMINFO_FWD_ALLOC'', 4), (''SK_MEMINFO_WMEM_QUEUED'', 5),
     (''SK_MEMINFO_OPTMEM'', 6), (''SK_MEMINFO_BACKLOG'', 7), (''SK_MEMINFO_DROPS'', 8),
     (''SK_MEMINFO_VARS'', 9)]"

definition enumdecl_line_8694 :: cenum_decl where
  "enumdecl_line_8694 = EnumDecl False [
     (''SNBEP_PCI_QPI_PORT0_FILTER'', 0), (''SNBEP_PCI_QPI_PORT1_FILTER'', 1),
     (''BDX_PCI_QPI_PORT2_FILTER'', 2)]"

definition enumdecl_line_8700 :: cenum_decl where
  "enumdecl_line_8700 = EnumDecl False [
     (''SNBEP_PCI_UNCORE_HA'', 0), (''SNBEP_PCI_UNCORE_IMC'', 1), (''SNBEP_PCI_UNCORE_QPI'', 2),
     (''SNBEP_PCI_UNCORE_R2PCIE'', 3), (''SNBEP_PCI_UNCORE_R3QPI'', 4)]"

definition enumdecl_line_8708 :: cenum_decl where
  "enumdecl_line_8708 = EnumDecl False [
     (''SNB_PCI_UNCORE_IMC'', 0)]"

definition enumdecl_line_8712 :: cenum_decl where
  "enumdecl_line_8712 = EnumDecl False [
     (''SNR_PCI_UNCORE_M2M'', 0), (''SNR_PCI_UNCORE_PCIE3'', 1)]"

definition enumdecl_line_8717 :: cenum_decl where
  "enumdecl_line_8717 = EnumDecl False [
     (''SNR_QAT_PMON_ID'', 0), (''SNR_CBDMA_DMI_PMON_ID'', 1), (''SNR_NIS_PMON_ID'', 2),
     (''SNR_DLB_PMON_ID'', 3), (''SNR_PCIE_GEN3_PMON_ID'', 4)]"

definition enumdecl_line_8725 :: cenum_decl where
  "enumdecl_line_8725 = EnumDecl False [
     (''SOCK_WAKE_IO'', 0), (''SOCK_WAKE_WAITD'', 1), (''SOCK_WAKE_SPACE'', 2),
     (''SOCK_WAKE_URG'', 3)]"

definition enumdecl_line_8732 :: cenum_decl where
  "enumdecl_line_8732 = EnumDecl False [
     (''SOF_TIMESTAMPING_TX_HARDWARE'', 1), (''SOF_TIMESTAMPING_TX_SOFTWARE'', 2),
     (''SOF_TIMESTAMPING_RX_HARDWARE'', 4), (''SOF_TIMESTAMPING_RX_SOFTWARE'', 8),
     (''SOF_TIMESTAMPING_SOFTWARE'', 16), (''SOF_TIMESTAMPING_SYS_HARDWARE'', 32),
     (''SOF_TIMESTAMPING_RAW_HARDWARE'', 64), (''SOF_TIMESTAMPING_OPT_ID'', 128),
     (''SOF_TIMESTAMPING_TX_SCHED'', 256), (''SOF_TIMESTAMPING_TX_ACK'', 512),
     (''SOF_TIMESTAMPING_OPT_CMSG'', 1024), (''SOF_TIMESTAMPING_OPT_TSONLY'', 2048),
     (''SOF_TIMESTAMPING_OPT_STATS'', 4096), (''SOF_TIMESTAMPING_OPT_PKTINFO'', 8192),
     (''SOF_TIMESTAMPING_OPT_TX_SWHW'', 16384), (''SOF_TIMESTAMPING_BIND_PHC'', 32768),
     (''SOF_TIMESTAMPING_OPT_ID_TCP'', 65536), (''SOF_TIMESTAMPING_OPT_RX_FILTER'', 131072),
     (''SOF_TIMESTAMPING_TX_COMPLETION'', 262144), (''SOF_TIMESTAMPING_LAST'', 262144),
     (''SOF_TIMESTAMPING_MASK'', 524287)]"

definition enumdecl_line_8756 :: cenum_decl where
  "enumdecl_line_8756 = EnumDecl False [
     (''SR_DMAR_FECTL_REG'', 0), (''SR_DMAR_FEDATA_REG'', 1), (''SR_DMAR_FEADDR_REG'', 2),
     (''SR_DMAR_FEUADDR_REG'', 3), (''MAX_SR_DMAR_REGS'', 4)]"

definition enumdecl_line_8764 :: cenum_decl where
  "enumdecl_line_8764 = EnumDecl False [
     (''SUN_WHOLE_DISK'', 5), (''LINUX_RAID_PARTITION___2'', 253)]"

definition enumdecl_line_8769 :: cenum_decl where
  "enumdecl_line_8769 = EnumDecl False [
     (''SWITCHTEC_GAS_MRPC_OFFSET'', 0), (''SWITCHTEC_GAS_TOP_CFG_OFFSET'', 4096),
     (''SWITCHTEC_GAS_SW_EVENT_OFFSET'', 6144), (''SWITCHTEC_GAS_SYS_INFO_OFFSET'', 8192),
     (''SWITCHTEC_GAS_FLASH_INFO_OFFSET'', 8704), (''SWITCHTEC_GAS_PART_CFG_OFFSET'', 16384),
     (''SWITCHTEC_GAS_NTB_OFFSET'', 65536), (''SWITCHTEC_GAS_PFF_CSR_OFFSET'', 1261568)]"

definition enumdecl_line_8780 :: cenum_decl where
  "enumdecl_line_8780 = EnumDecl False [
     (''SWITCHTEC_NTB_REG_INFO_OFFSET'', 0), (''SWITCHTEC_NTB_REG_CTRL_OFFSET'', 16384),
     (''SWITCHTEC_NTB_REG_DBMSG_OFFSET'', 409600)]"

definition enumdecl_line_8786 :: cenum_decl where
  "enumdecl_line_8786 = EnumDecl False [
     (''SWMII_SPEED_10'', 0), (''SWMII_SPEED_100'', 1), (''SWMII_SPEED_1000'', 2),
     (''SWMII_DUPLEX_HALF'', 0), (''SWMII_DUPLEX_FULL'', 1)]"

definition enumdecl_line_8794 :: cenum_decl where
  "enumdecl_line_8794 = EnumDecl False [
     (''SWP_USED'', 1), (''SWP_WRITEOK'', 2), (''SWP_DISCARDABLE'', 4), (''SWP_DISCARDING'', 8),
     (''SWP_SOLIDSTATE'', 16), (''SWP_CONTINUED'', 32), (''SWP_BLKDEV'', 64),
     (''SWP_ACTIVATED'', 128), (''SWP_FS_OPS'', 256), (''SWP_AREA_DISCARD'', 512),
     (''SWP_PAGE_DISCARD'', 1024), (''SWP_STABLE_WRITES'', 2048), (''SWP_SYNCHRONOUS_IO'', 4096)]"

definition enumdecl_line_8810 :: cenum_decl where
  "enumdecl_line_8810 = EnumDecl False [
     (''SW_BIT_CACHE_FLUSH_DONE'', 0)]"

definition enumdecl_line_8814 :: cenum_decl where
  "enumdecl_line_8814 = EnumDecl False [
     (''SX150X_123'', 0), (''SX150X_456'', 1), (''SX150X_789'', 2)]"

definition enumdecl_line_8820 :: cenum_decl where
  "enumdecl_line_8820 = EnumDecl False [
     (''SX150X_789_REG_MISC_AUTOCLEAR_OFF'', 1), (''SX150X_MAX_REGISTER'', 173),
     (''SX150X_IRQ_TYPE_EDGE_RISING'', 1), (''SX150X_IRQ_TYPE_EDGE_FALLING'', 2),
     (''SX150X_789_RESET_KEY1'', 18), (''SX150X_789_RESET_KEY2'', 52)]"

definition enumdecl_line_8829 :: cenum_decl where
  "enumdecl_line_8829 = EnumDecl False [
     (''SYNTH_ERR_BAD_NAME'', 0), (''SYNTH_ERR_INVALID_CMD'', 1),
     (''SYNTH_ERR_INVALID_DYN_CMD'', 2), (''SYNTH_ERR_EVENT_EXISTS'', 3),
     (''SYNTH_ERR_TOO_MANY_FIELDS'', 4), (''SYNTH_ERR_INCOMPLETE_TYPE'', 5),
     (''SYNTH_ERR_INVALID_TYPE'', 6), (''SYNTH_ERR_INVALID_FIELD'', 7),
     (''SYNTH_ERR_INVALID_ARRAY_SPEC'', 8)]"

definition enumdecl_line_8841 :: cenum_decl where
  "enumdecl_line_8841 = EnumDecl False [
     (''TASKLET_STATE_SCHED'', 0), (''TASKLET_STATE_RUN'', 1)]"

definition enumdecl_line_8846 :: cenum_decl where
  "enumdecl_line_8846 = EnumDecl False [
     (''TASKSTATS_CMD_ATTR_UNSPEC'', 0), (''TASKSTATS_CMD_ATTR_PID'', 1),
     (''TASKSTATS_CMD_ATTR_TGID'', 2), (''TASKSTATS_CMD_ATTR_REGISTER_CPUMASK'', 3),
     (''TASKSTATS_CMD_ATTR_DEREGISTER_CPUMASK'', 4), (''__TASKSTATS_CMD_ATTR_MAX'', 5)]"

definition enumdecl_line_8855 :: cenum_decl where
  "enumdecl_line_8855 = EnumDecl False [
     (''TASKSTATS_CMD_UNSPEC'', 0), (''TASKSTATS_CMD_GET'', 1), (''TASKSTATS_CMD_NEW'', 2),
     (''__TASKSTATS_CMD_MAX'', 3)]"

definition enumdecl_line_8862 :: cenum_decl where
  "enumdecl_line_8862 = EnumDecl False [
     (''TASKSTATS_TYPE_UNSPEC'', 0), (''TASKSTATS_TYPE_PID'', 1), (''TASKSTATS_TYPE_TGID'', 2),
     (''TASKSTATS_TYPE_STATS'', 3), (''TASKSTATS_TYPE_AGGR_PID'', 4),
     (''TASKSTATS_TYPE_AGGR_TGID'', 5), (''TASKSTATS_TYPE_NULL'', 6),
     (''__TASKSTATS_TYPE_MAX'', 7)]"

definition enumdecl_line_8873 :: cenum_decl where
  "enumdecl_line_8873 = EnumDecl False [
     (''TASK_COMM_LEN'', 16)]"

definition enumdecl_line_8877 :: cenum_decl where
  "enumdecl_line_8877 = EnumDecl False [
     (''TB_SHUTDOWN_REBOOT'', 0), (''TB_SHUTDOWN_S5'', 1), (''TB_SHUTDOWN_S4'', 2),
     (''TB_SHUTDOWN_S3'', 3), (''TB_SHUTDOWN_HALT'', 4), (''TB_SHUTDOWN_WFS'', 5)]"

definition enumdecl_line_8886 :: cenum_decl where
  "enumdecl_line_8886 = EnumDecl False [
     (''TCA_ACT_UNSPEC'', 0), (''TCA_ACT_KIND'', 1), (''TCA_ACT_OPTIONS'', 2),
     (''TCA_ACT_INDEX'', 3), (''TCA_ACT_STATS'', 4), (''TCA_ACT_PAD'', 5),
     (''TCA_ACT_COOKIE'', 6), (''TCA_ACT_FLAGS'', 7), (''TCA_ACT_HW_STATS'', 8),
     (''TCA_ACT_USED_HW_STATS'', 9), (''TCA_ACT_IN_HW_COUNT'', 10), (''__TCA_ACT_MAX'', 11)]"

definition enumdecl_line_8901 :: cenum_decl where
  "enumdecl_line_8901 = EnumDecl False [
     (''TCA_EMATCH_TREE_UNSPEC'', 0), (''TCA_EMATCH_TREE_HDR'', 1),
     (''TCA_EMATCH_TREE_LIST'', 2), (''__TCA_EMATCH_TREE_MAX'', 3)]"

definition enumdecl_line_8908 :: cenum_decl where
  "enumdecl_line_8908 = EnumDecl False [
     (''TCA_FLOWER_KEY_CT_FLAGS_NEW'', 1), (''TCA_FLOWER_KEY_CT_FLAGS_ESTABLISHED'', 2),
     (''TCA_FLOWER_KEY_CT_FLAGS_RELATED'', 4), (''TCA_FLOWER_KEY_CT_FLAGS_TRACKED'', 8),
     (''TCA_FLOWER_KEY_CT_FLAGS_INVALID'', 16), (''TCA_FLOWER_KEY_CT_FLAGS_REPLY'', 32),
     (''__TCA_FLOWER_KEY_CT_FLAGS_MAX'', 33)]"

definition enumdecl_line_8918 :: cenum_decl where
  "enumdecl_line_8918 = EnumDecl False [
     (''TCA_FLOWER_KEY_FLAGS_IS_FRAGMENT'', 1), (''TCA_FLOWER_KEY_FLAGS_FRAG_IS_FIRST'', 2),
     (''TCA_FLOWER_KEY_FLAGS_TUNNEL_CSUM'', 4),
     (''TCA_FLOWER_KEY_FLAGS_TUNNEL_DONT_FRAGMENT'', 8),
     (''TCA_FLOWER_KEY_FLAGS_TUNNEL_OAM'', 16), (''TCA_FLOWER_KEY_FLAGS_TUNNEL_CRIT_OPT'', 32),
     (''__TCA_FLOWER_KEY_FLAGS_MAX'', 33)]"

definition enumdecl_line_8928 :: cenum_decl where
  "enumdecl_line_8928 = EnumDecl False [
     (''TCA_ROOT_UNSPEC'', 0), (''TCA_ROOT_TAB'', 1), (''TCA_ROOT_FLAGS'', 2),
     (''TCA_ROOT_COUNT'', 3), (''TCA_ROOT_TIME_DELTA'', 4), (''TCA_ROOT_EXT_WARN_MSG'', 5),
     (''__TCA_ROOT_MAX'', 6)]"

definition enumdecl_line_8938 :: cenum_decl where
  "enumdecl_line_8938 = EnumDecl False [
     (''TCA_STAB_UNSPEC'', 0), (''TCA_STAB_BASE'', 1), (''TCA_STAB_DATA'', 2),
     (''__TCA_STAB_MAX'', 3)]"

definition enumdecl_line_8945 :: cenum_decl where
  "enumdecl_line_8945 = EnumDecl False [
     (''TCA_STATS_UNSPEC'', 0), (''TCA_STATS_BASIC'', 1), (''TCA_STATS_RATE_EST'', 2),
     (''TCA_STATS_QUEUE'', 3), (''TCA_STATS_APP'', 4), (''TCA_STATS_RATE_EST64'', 5),
     (''TCA_STATS_PAD'', 6), (''TCA_STATS_BASIC_HW'', 7), (''TCA_STATS_PKT64'', 8),
     (''__TCA_STATS_MAX'', 9)]"

definition enumdecl_line_8958 :: cenum_decl where
  "enumdecl_line_8958 = EnumDecl False [
     (''TCA_UNSPEC'', 0), (''TCA_KIND'', 1), (''TCA_OPTIONS'', 2), (''TCA_STATS'', 3),
     (''TCA_XSTATS'', 4), (''TCA_RATE'', 5), (''TCA_FCNT'', 6), (''TCA_STATS2'', 7),
     (''TCA_STAB'', 8), (''TCA_PAD'', 9), (''TCA_DUMP_INVISIBLE'', 10), (''TCA_CHAIN'', 11),
     (''TCA_HW_OFFLOAD'', 12), (''TCA_INGRESS_BLOCK'', 13), (''TCA_EGRESS_BLOCK'', 14),
     (''TCA_DUMP_FLAGS'', 15), (''TCA_EXT_WARN_MSG'', 16), (''__TCA_MAX'', 17)]"

definition enumdecl_line_8979 :: cenum_decl where
  "enumdecl_line_8979 = EnumDecl False [
     (''TCG_SECP_00'', 0), (''TCG_SECP_01'', 1)]"

definition enumdecl_line_8984 :: cenum_decl where
  "enumdecl_line_8984 = EnumDecl False [
     (''TCPF_ESTABLISHED'', 2), (''TCPF_SYN_SENT'', 4), (''TCPF_SYN_RECV'', 8),
     (''TCPF_FIN_WAIT1'', 16), (''TCPF_FIN_WAIT2'', 32), (''TCPF_TIME_WAIT'', 64),
     (''TCPF_CLOSE'', 128), (''TCPF_CLOSE_WAIT'', 256), (''TCPF_LAST_ACK'', 512),
     (''TCPF_LISTEN'', 1024), (''TCPF_CLOSING'', 2048), (''TCPF_NEW_SYN_RECV'', 4096),
     (''TCPF_BOUND_INACTIVE'', 8192)]"

definition enumdecl_line_9000 :: cenum_decl where
  "enumdecl_line_9000 = EnumDecl False [
     (''TCP_BPF_BASE'', 0), (''TCP_BPF_TX'', 1), (''TCP_BPF_RX'', 2), (''TCP_BPF_TXRX'', 3),
     (''TCP_BPF_NUM_CFGS'', 4)]"

definition enumdecl_line_9008 :: cenum_decl where
  "enumdecl_line_9008 = EnumDecl False [
     (''TCP_BPF_IPV4'', 0), (''TCP_BPF_IPV6'', 1), (''TCP_BPF_NUM_PROTS'', 2)]"

definition enumdecl_line_9014 :: cenum_decl where
  "enumdecl_line_9014 = EnumDecl False [
     (''TCP_BPF_IW'', 1001), (''TCP_BPF_SNDCWND_CLAMP'', 1002), (''TCP_BPF_DELACK_MAX'', 1003),
     (''TCP_BPF_RTO_MIN'', 1004), (''TCP_BPF_SYN'', 1005), (''TCP_BPF_SYN_IP'', 1006),
     (''TCP_BPF_SYN_MAC'', 1007), (''TCP_BPF_SOCK_OPS_CB_FLAGS'', 1008),
     (''SK_BPF_CB_FLAGS'', 1009), (''SK_BPF_BYPASS_PROT_MEM'', 1010)]"

definition enumdecl_line_9027 :: cenum_decl where
  "enumdecl_line_9027 = EnumDecl False [
     (''TCP_CMSG_INQ'', 1), (''TCP_CMSG_TS'', 2)]"

definition enumdecl_line_9032 :: cenum_decl where
  "enumdecl_line_9032 = EnumDecl False [
     (''TCP_ESTABLISHED'', 1), (''TCP_SYN_SENT'', 2), (''TCP_SYN_RECV'', 3),
     (''TCP_FIN_WAIT1'', 4), (''TCP_FIN_WAIT2'', 5), (''TCP_TIME_WAIT'', 6), (''TCP_CLOSE'', 7),
     (''TCP_CLOSE_WAIT'', 8), (''TCP_LAST_ACK'', 9), (''TCP_LISTEN'', 10), (''TCP_CLOSING'', 11),
     (''TCP_NEW_SYN_RECV'', 12), (''TCP_BOUND_INACTIVE'', 13), (''TCP_MAX_STATES'', 14)]"

definition enumdecl_line_9049 :: cenum_decl where
  "enumdecl_line_9049 = EnumDecl False [
     (''TCP_FLAG_AE'', 1), (''TCP_FLAG_CWR'', 32768), (''TCP_FLAG_ECE'', 16384),
     (''TCP_FLAG_URG'', 8192), (''TCP_FLAG_ACK'', 4096), (''TCP_FLAG_PSH'', 2048),
     (''TCP_FLAG_RST'', 1024), (''TCP_FLAG_SYN'', 512), (''TCP_FLAG_FIN'', 256),
     (''TCP_RESERVED_BITS'', 14), (''TCP_DATA_OFFSET'', 240)]"

definition enumdecl_line_9063 :: cenum_decl where
  "enumdecl_line_9063 = EnumDecl False [
     (''TCP_METRICS_ATTR_UNSPEC'', 0), (''TCP_METRICS_ATTR_ADDR_IPV4'', 1),
     (''TCP_METRICS_ATTR_ADDR_IPV6'', 2), (''TCP_METRICS_ATTR_AGE'', 3),
     (''TCP_METRICS_ATTR_TW_TSVAL'', 4), (''TCP_METRICS_ATTR_TW_TS_STAMP'', 5),
     (''TCP_METRICS_ATTR_VALS'', 6), (''TCP_METRICS_ATTR_FOPEN_MSS'', 7),
     (''TCP_METRICS_ATTR_FOPEN_SYN_DROPS'', 8), (''TCP_METRICS_ATTR_FOPEN_SYN_DROP_TS'', 9),
     (''TCP_METRICS_ATTR_FOPEN_COOKIE'', 10), (''TCP_METRICS_ATTR_SADDR_IPV4'', 11),
     (''TCP_METRICS_ATTR_SADDR_IPV6'', 12), (''TCP_METRICS_ATTR_PAD'', 13),
     (''__TCP_METRICS_ATTR_MAX'', 14)]"

definition enumdecl_line_9081 :: cenum_decl where
  "enumdecl_line_9081 = EnumDecl False [
     (''TCP_METRICS_CMD_UNSPEC'', 0), (''TCP_METRICS_CMD_GET'', 1), (''TCP_METRICS_CMD_DEL'', 2),
     (''__TCP_METRICS_CMD_MAX'', 3)]"

definition enumdecl_line_9088 :: cenum_decl where
  "enumdecl_line_9088 = EnumDecl False [
     (''TCP_MIB_NUM'', 0), (''TCP_MIB_RTOALGORITHM'', 1), (''TCP_MIB_RTOMIN'', 2),
     (''TCP_MIB_RTOMAX'', 3), (''TCP_MIB_MAXCONN'', 4), (''TCP_MIB_ACTIVEOPENS'', 5),
     (''TCP_MIB_PASSIVEOPENS'', 6), (''TCP_MIB_ATTEMPTFAILS'', 7), (''TCP_MIB_ESTABRESETS'', 8),
     (''TCP_MIB_CURRESTAB'', 9), (''TCP_MIB_INSEGS'', 10), (''TCP_MIB_OUTSEGS'', 11),
     (''TCP_MIB_RETRANSSEGS'', 12), (''TCP_MIB_INERRS'', 13), (''TCP_MIB_OUTRSTS'', 14),
     (''TCP_MIB_CSUMERRORS'', 15), (''__TCP_MIB_MAX'', 16)]"

definition enumdecl_line_9108 :: cenum_decl where
  "enumdecl_line_9108 = EnumDecl False [
     (''TCP_NLA_PAD'', 0), (''TCP_NLA_BUSY'', 1), (''TCP_NLA_RWND_LIMITED'', 2),
     (''TCP_NLA_SNDBUF_LIMITED'', 3), (''TCP_NLA_DATA_SEGS_OUT'', 4),
     (''TCP_NLA_TOTAL_RETRANS'', 5), (''TCP_NLA_PACING_RATE'', 6),
     (''TCP_NLA_DELIVERY_RATE'', 7), (''TCP_NLA_SND_CWND'', 8), (''TCP_NLA_REORDERING'', 9),
     (''TCP_NLA_MIN_RTT'', 10), (''TCP_NLA_RECUR_RETRANS'', 11),
     (''TCP_NLA_DELIVERY_RATE_APP_LMT'', 12), (''TCP_NLA_SNDQ_SIZE'', 13),
     (''TCP_NLA_CA_STATE'', 14), (''TCP_NLA_SND_SSTHRESH'', 15), (''TCP_NLA_DELIVERED'', 16),
     (''TCP_NLA_DELIVERED_CE'', 17), (''TCP_NLA_BYTES_SENT'', 18),
     (''TCP_NLA_BYTES_RETRANS'', 19), (''TCP_NLA_DSACK_DUPS'', 20), (''TCP_NLA_REORD_SEEN'', 21),
     (''TCP_NLA_SRTT'', 22), (''TCP_NLA_TIMEOUT_REHASH'', 23), (''TCP_NLA_BYTES_NOTSENT'', 24),
     (''TCP_NLA_EDT'', 25), (''TCP_NLA_TTL'', 26), (''TCP_NLA_REHASH'', 27)]"

definition enumdecl_line_9139 :: cenum_decl where
  "enumdecl_line_9139 = EnumDecl False [
     (''TCP_NO_QUEUE'', 0), (''TCP_RECV_QUEUE'', 1), (''TCP_SEND_QUEUE'', 2),
     (''TCP_QUEUES_NR'', 3)]"

definition enumdecl_line_9146 :: cenum_decl where
  "enumdecl_line_9146 = EnumDecl False [
     (''TCP_V4_FLOW'', 1), (''UDP_V4_FLOW'', 2), (''SCTP_V4_FLOW'', 3), (''AH_ESP_V4_FLOW'', 4),
     (''TCP_V6_FLOW'', 5), (''UDP_V6_FLOW'', 6), (''SCTP_V6_FLOW'', 7), (''AH_ESP_V6_FLOW'', 8),
     (''AH_V4_FLOW'', 9), (''ESP_V4_FLOW'', 10), (''AH_V6_FLOW'', 11), (''ESP_V6_FLOW'', 12),
     (''IPV4_USER_FLOW'', 13), (''IP_USER_FLOW'', 13), (''IPV6_USER_FLOW'', 14),
     (''IPV4_FLOW'', 16), (''IPV6_FLOW'', 17), (''ETHER_FLOW'', 18), (''GTPU_V4_FLOW'', 19),
     (''GTPU_V6_FLOW'', 20), (''GTPC_V4_FLOW'', 21), (''GTPC_V6_FLOW'', 22),
     (''GTPC_TEID_V4_FLOW'', 23), (''GTPC_TEID_V6_FLOW'', 24), (''GTPU_EH_V4_FLOW'', 25),
     (''GTPU_EH_V6_FLOW'', 26), (''GTPU_UL_V4_FLOW'', 27), (''GTPU_UL_V6_FLOW'', 28),
     (''GTPU_DL_V4_FLOW'', 29), (''GTPU_DL_V6_FLOW'', 30), (''__FLOW_TYPE_COUNT'', 31)]"

definition enumdecl_line_9180 :: cenum_decl where
  "enumdecl_line_9180 = EnumDecl False [
     (''TEST_NONE'', 0), (''TEST_CORE'', 1), (''TEST_CPUS'', 2), (''TEST_PLATFORM'', 3),
     (''TEST_DEVICES'', 4), (''TEST_FREEZER'', 5), (''__TEST_AFTER_LAST'', 6)]"

definition enumdecl_line_9190 :: cenum_decl where
  "enumdecl_line_9190 = EnumDecl False [
     (''TLS_ALERT_DESC_CLOSE_NOTIFY'', 0), (''TLS_ALERT_DESC_UNEXPECTED_MESSAGE'', 10),
     (''TLS_ALERT_DESC_BAD_RECORD_MAC'', 20), (''TLS_ALERT_DESC_RECORD_OVERFLOW'', 22),
     (''TLS_ALERT_DESC_HANDSHAKE_FAILURE'', 40), (''TLS_ALERT_DESC_BAD_CERTIFICATE'', 42),
     (''TLS_ALERT_DESC_UNSUPPORTED_CERTIFICATE'', 43),
     (''TLS_ALERT_DESC_CERTIFICATE_REVOKED'', 44), (''TLS_ALERT_DESC_CERTIFICATE_EXPIRED'', 45),
     (''TLS_ALERT_DESC_CERTIFICATE_UNKNOWN'', 46), (''TLS_ALERT_DESC_ILLEGAL_PARAMETER'', 47),
     (''TLS_ALERT_DESC_UNKNOWN_CA'', 48), (''TLS_ALERT_DESC_ACCESS_DENIED'', 49),
     (''TLS_ALERT_DESC_DECODE_ERROR'', 50), (''TLS_ALERT_DESC_DECRYPT_ERROR'', 51),
     (''TLS_ALERT_DESC_TOO_MANY_CIDS_REQUESTED'', 52), (''TLS_ALERT_DESC_PROTOCOL_VERSION'', 70),
     (''TLS_ALERT_DESC_INSUFFICIENT_SECURITY'', 71), (''TLS_ALERT_DESC_INTERNAL_ERROR'', 80),
     (''TLS_ALERT_DESC_INAPPROPRIATE_FALLBACK'', 86), (''TLS_ALERT_DESC_USER_CANCELED'', 90),
     (''TLS_ALERT_DESC_MISSING_EXTENSION'', 109),
     (''TLS_ALERT_DESC_UNSUPPORTED_EXTENSION'', 110),
     (''TLS_ALERT_DESC_UNRECOGNIZED_NAME'', 112),
     (''TLS_ALERT_DESC_BAD_CERTIFICATE_STATUS_RESPONSE'', 113),
     (''TLS_ALERT_DESC_UNKNOWN_PSK_IDENTITY'', 115),
     (''TLS_ALERT_DESC_CERTIFICATE_REQUIRED'', 116),
     (''TLS_ALERT_DESC_NO_APPLICATION_PROTOCOL'', 120)]"

definition enumdecl_line_9221 :: cenum_decl where
  "enumdecl_line_9221 = EnumDecl False [
     (''TLS_ALERT_LEVEL_WARNING'', 1), (''TLS_ALERT_LEVEL_FATAL'', 2)]"

definition enumdecl_line_9226 :: cenum_decl where
  "enumdecl_line_9226 = EnumDecl False [
     (''TLS_NO_KEYRING'', 0), (''TLS_NO_PEERID'', 0), (''TLS_NO_CERT'', 0),
     (''TLS_NO_PRIVKEY'', 0)]"

definition enumdecl_line_9233 :: cenum_decl where
  "enumdecl_line_9233 = EnumDecl False [
     (''TLS_RECORD_TYPE_CHANGE_CIPHER_SPEC'', 20), (''TLS_RECORD_TYPE_ALERT'', 21),
     (''TLS_RECORD_TYPE_HANDSHAKE'', 22), (''TLS_RECORD_TYPE_DATA'', 23),
     (''TLS_RECORD_TYPE_HEARTBEAT'', 24), (''TLS_RECORD_TYPE_TLS12_CID'', 25),
     (''TLS_RECORD_TYPE_ACK'', 26)]"

definition enumdecl_line_9243 :: cenum_decl where
  "enumdecl_line_9243 = EnumDecl False [
     (''TOO_MANY_CLOSE'', - 1), (''TOO_MANY_OPEN'', - 2), (''MISSING_QUOTE'', - 3)]"

definition enumdecl_line_9249 :: cenum_decl where
  "enumdecl_line_9249 = EnumDecl False [
     (''TPS65090_IRQ_INTERRUPT'', 0), (''TPS65090_IRQ_VAC_STATUS_CHANGE'', 1),
     (''TPS65090_IRQ_VSYS_STATUS_CHANGE'', 2), (''TPS65090_IRQ_BAT_STATUS_CHANGE'', 3),
     (''TPS65090_IRQ_CHARGING_STATUS_CHANGE'', 4), (''TPS65090_IRQ_CHARGING_COMPLETE'', 5),
     (''TPS65090_IRQ_OVERLOAD_DCDC1'', 6), (''TPS65090_IRQ_OVERLOAD_DCDC2'', 7),
     (''TPS65090_IRQ_OVERLOAD_DCDC3'', 8), (''TPS65090_IRQ_OVERLOAD_FET1'', 9),
     (''TPS65090_IRQ_OVERLOAD_FET2'', 10), (''TPS65090_IRQ_OVERLOAD_FET3'', 11),
     (''TPS65090_IRQ_OVERLOAD_FET4'', 12), (''TPS65090_IRQ_OVERLOAD_FET5'', 13),
     (''TPS65090_IRQ_OVERLOAD_FET6'', 14), (''TPS65090_IRQ_OVERLOAD_FET7'', 15)]"

definition enumdecl_line_9268 :: cenum_decl where
  "enumdecl_line_9268 = EnumDecl False [
     (''TPS65090_REGULATOR_DCDC1'', 0), (''TPS65090_REGULATOR_DCDC2'', 1),
     (''TPS65090_REGULATOR_DCDC3'', 2), (''TPS65090_REGULATOR_FET1'', 3),
     (''TPS65090_REGULATOR_FET2'', 4), (''TPS65090_REGULATOR_FET3'', 5),
     (''TPS65090_REGULATOR_FET4'', 6), (''TPS65090_REGULATOR_FET5'', 7),
     (''TPS65090_REGULATOR_FET6'', 8), (''TPS65090_REGULATOR_FET7'', 9),
     (''TPS65090_REGULATOR_LDO1'', 10), (''TPS65090_REGULATOR_LDO2'', 11),
     (''TPS65090_REGULATOR_MAX'', 12)]"

definition enumdecl_line_9284 :: cenum_decl where
  "enumdecl_line_9284 = EnumDecl False [
     (''TPS6586X_ID_SYS'', 0), (''TPS6586X_ID_SM_0'', 1), (''TPS6586X_ID_SM_1'', 2),
     (''TPS6586X_ID_SM_2'', 3), (''TPS6586X_ID_LDO_0'', 4), (''TPS6586X_ID_LDO_1'', 5),
     (''TPS6586X_ID_LDO_2'', 6), (''TPS6586X_ID_LDO_3'', 7), (''TPS6586X_ID_LDO_4'', 8),
     (''TPS6586X_ID_LDO_5'', 9), (''TPS6586X_ID_LDO_6'', 10), (''TPS6586X_ID_LDO_7'', 11),
     (''TPS6586X_ID_LDO_8'', 12), (''TPS6586X_ID_LDO_9'', 13), (''TPS6586X_ID_LDO_RTC'', 14),
     (''TPS6586X_ID_MAX_REGULATOR'', 15)]"

definition enumdecl_line_9303 :: cenum_decl where
  "enumdecl_line_9303 = EnumDecl False [
     (''TPS6586X_INT_PLDO_0'', 0), (''TPS6586X_INT_PLDO_1'', 1), (''TPS6586X_INT_PLDO_2'', 2),
     (''TPS6586X_INT_PLDO_3'', 3), (''TPS6586X_INT_PLDO_4'', 4), (''TPS6586X_INT_PLDO_5'', 5),
     (''TPS6586X_INT_PLDO_6'', 6), (''TPS6586X_INT_PLDO_7'', 7), (''TPS6586X_INT_COMP_DET'', 8),
     (''TPS6586X_INT_ADC'', 9), (''TPS6586X_INT_PLDO_8'', 10), (''TPS6586X_INT_PLDO_9'', 11),
     (''TPS6586X_INT_PSM_0'', 12), (''TPS6586X_INT_PSM_1'', 13), (''TPS6586X_INT_PSM_2'', 14),
     (''TPS6586X_INT_PSM_3'', 15), (''TPS6586X_INT_RTC_ALM1'', 16),
     (''TPS6586X_INT_ACUSB_OVP'', 17), (''TPS6586X_INT_USB_DET'', 18),
     (''TPS6586X_INT_AC_DET'', 19), (''TPS6586X_INT_BAT_DET'', 20),
     (''TPS6586X_INT_CHG_STAT'', 21), (''TPS6586X_INT_CHG_TEMP'', 22), (''TPS6586X_INT_PP'', 23),
     (''TPS6586X_INT_RESUME'', 24), (''TPS6586X_INT_LOW_SYS'', 25),
     (''TPS6586X_INT_RTC_ALM2'', 26)]"

definition enumdecl_line_9333 :: cenum_decl where
  "enumdecl_line_9333 = EnumDecl False [
     (''TP_ERR_FILE_NOT_FOUND'', 0), (''TP_ERR_NO_REGULAR_FILE'', 1), (''TP_ERR_BAD_REFCNT'', 2),
     (''TP_ERR_REFCNT_OPEN_BRACE'', 3), (''TP_ERR_BAD_REFCNT_SUFFIX'', 4),
     (''TP_ERR_BAD_UPROBE_OFFS'', 5), (''TP_ERR_BAD_MAXACT_TYPE'', 6),
     (''TP_ERR_BAD_MAXACT'', 7), (''TP_ERR_MAXACT_TOO_BIG'', 8), (''TP_ERR_BAD_PROBE_ADDR'', 9),
     (''TP_ERR_NON_UNIQ_SYMBOL'', 10), (''TP_ERR_BAD_RETPROBE'', 11),
     (''TP_ERR_NO_TRACEPOINT'', 12), (''TP_ERR_BAD_TP_NAME'', 13),
     (''TP_ERR_BAD_ADDR_SUFFIX'', 14), (''TP_ERR_NO_GROUP_NAME'', 15),
     (''TP_ERR_GROUP_TOO_LONG'', 16), (''TP_ERR_BAD_GROUP_NAME'', 17),
     (''TP_ERR_NO_EVENT_NAME'', 18), (''TP_ERR_EVENT_TOO_LONG'', 19),
     (''TP_ERR_BAD_EVENT_NAME'', 20), (''TP_ERR_EVENT_EXIST'', 21),
     (''TP_ERR_RETVAL_ON_PROBE'', 22), (''TP_ERR_NO_RETVAL'', 23),
     (''TP_ERR_BAD_STACK_NUM'', 24), (''TP_ERR_BAD_ARG_NUM'', 25), (''TP_ERR_BAD_VAR'', 26),
     (''TP_ERR_BAD_REG_NAME'', 27), (''TP_ERR_BAD_MEM_ADDR'', 28), (''TP_ERR_BAD_IMM'', 29),
     (''TP_ERR_IMMSTR_NO_CLOSE'', 30), (''TP_ERR_FILE_ON_KPROBE'', 31),
     (''TP_ERR_BAD_FILE_OFFS'', 32), (''TP_ERR_SYM_ON_UPROBE'', 33),
     (''TP_ERR_TOO_MANY_OPS'', 34), (''TP_ERR_DEREF_NEED_BRACE'', 35),
     (''TP_ERR_BAD_DEREF_OFFS'', 36), (''TP_ERR_DEREF_OPEN_BRACE'', 37),
     (''TP_ERR_COMM_CANT_DEREF'', 38), (''TP_ERR_BAD_FETCH_ARG'', 39),
     (''TP_ERR_ARRAY_NO_CLOSE'', 40), (''TP_ERR_BAD_ARRAY_SUFFIX'', 41),
     (''TP_ERR_BAD_ARRAY_NUM'', 42), (''TP_ERR_ARRAY_TOO_BIG'', 43), (''TP_ERR_BAD_TYPE'', 44),
     (''TP_ERR_BAD_STRING'', 45), (''TP_ERR_BAD_SYMSTRING'', 46), (''TP_ERR_BAD_BITFIELD'', 47),
     (''TP_ERR_ARG_NAME_TOO_LONG'', 48), (''TP_ERR_NO_ARG_NAME'', 49),
     (''TP_ERR_BAD_ARG_NAME'', 50), (''TP_ERR_USED_ARG_NAME'', 51),
     (''TP_ERR_ARG_TOO_LONG'', 52), (''TP_ERR_NO_ARG_BODY'', 53),
     (''TP_ERR_BAD_INSN_BNDRY'', 54), (''TP_ERR_FAIL_REG_PROBE'', 55),
     (''TP_ERR_DIFF_PROBE_TYPE'', 56), (''TP_ERR_DIFF_ARG_TYPE'', 57),
     (''TP_ERR_SAME_PROBE'', 58), (''TP_ERR_NO_EVENT_INFO'', 59),
     (''TP_ERR_BAD_ATTACH_EVENT'', 60), (''TP_ERR_BAD_ATTACH_ARG'', 61),
     (''TP_ERR_NO_EP_FILTER'', 62), (''TP_ERR_NOSUP_BTFARG'', 63), (''TP_ERR_NO_BTFARG'', 64),
     (''TP_ERR_NO_BTF_ENTRY'', 65), (''TP_ERR_BAD_VAR_ARGS'', 66),
     (''TP_ERR_NOFENTRY_ARGS'', 67), (''TP_ERR_DOUBLE_ARGS'', 68), (''TP_ERR_ARGS_2LONG'', 69),
     (''TP_ERR_ARGIDX_2BIG'', 70), (''TP_ERR_NO_PTR_STRCT'', 71), (''TP_ERR_NOSUP_DAT_ARG'', 72),
     (''TP_ERR_BAD_HYPHEN'', 73), (''TP_ERR_NO_BTF_FIELD'', 74), (''TP_ERR_BAD_BTF_TID'', 75),
     (''TP_ERR_BAD_TYPE4STR'', 76), (''TP_ERR_NEED_STRING_TYPE'', 77),
     (''TP_ERR_TOO_MANY_ARGS'', 78), (''TP_ERR_TOO_MANY_EARGS'', 79)]"

definition enumdecl_line_9416 :: cenum_decl where
  "enumdecl_line_9416 = EnumDecl False [
     (''TRACEFS_EVENT_INODE'', 2), (''TRACEFS_GID_PERM_SET'', 4), (''TRACEFS_UID_PERM_SET'', 8),
     (''TRACEFS_INSTANCE_INODE'', 16)]"

definition enumdecl_line_9423 :: cenum_decl where
  "enumdecl_line_9423 = EnumDecl False [
     (''TRACE_ARRAY_FL_GLOBAL'', 1), (''TRACE_ARRAY_FL_BOOT'', 2),
     (''TRACE_ARRAY_FL_LAST_BOOT'', 4), (''TRACE_ARRAY_FL_MOD_INIT'', 8),
     (''TRACE_ARRAY_FL_MEMMAP'', 16), (''TRACE_ARRAY_FL_VMALLOC'', 32)]"

definition enumdecl_line_9432 :: cenum_decl where
  "enumdecl_line_9432 = EnumDecl False [
     (''TRACE_CTX_NMI'', 0), (''TRACE_CTX_IRQ'', 1), (''TRACE_CTX_SOFTIRQ'', 2),
     (''TRACE_CTX_NORMAL'', 3), (''TRACE_CTX_TRANSITION'', 4)]"

definition enumdecl_line_9440 :: cenum_decl where
  "enumdecl_line_9440 = EnumDecl False [
     (''TRACE_EVENT_FL_CAP_ANY'', 1), (''TRACE_EVENT_FL_NO_SET_FILTER'', 2),
     (''TRACE_EVENT_FL_IGNORE_ENABLE'', 4), (''TRACE_EVENT_FL_TRACEPOINT'', 8),
     (''TRACE_EVENT_FL_DYNAMIC'', 16), (''TRACE_EVENT_FL_KPROBE'', 32),
     (''TRACE_EVENT_FL_UPROBE'', 64), (''TRACE_EVENT_FL_EPROBE'', 128),
     (''TRACE_EVENT_FL_FPROBE'', 256), (''TRACE_EVENT_FL_CUSTOM'', 512),
     (''TRACE_EVENT_FL_TEST_STR'', 1024)]"

definition enumdecl_line_9454 :: cenum_decl where
  "enumdecl_line_9454 = EnumDecl False [
     (''TRACE_EVENT_FL_CAP_ANY_BIT'', 0), (''TRACE_EVENT_FL_NO_SET_FILTER_BIT'', 1),
     (''TRACE_EVENT_FL_IGNORE_ENABLE_BIT'', 2), (''TRACE_EVENT_FL_TRACEPOINT_BIT'', 3),
     (''TRACE_EVENT_FL_DYNAMIC_BIT'', 4), (''TRACE_EVENT_FL_KPROBE_BIT'', 5),
     (''TRACE_EVENT_FL_UPROBE_BIT'', 6), (''TRACE_EVENT_FL_EPROBE_BIT'', 7),
     (''TRACE_EVENT_FL_FPROBE_BIT'', 8), (''TRACE_EVENT_FL_CUSTOM_BIT'', 9),
     (''TRACE_EVENT_FL_TEST_STR_BIT'', 10)]"

definition enumdecl_line_9468 :: cenum_decl where
  "enumdecl_line_9468 = EnumDecl False [
     (''TRACE_FTRACE_BIT'', 0), (''TRACE_FTRACE_NMI_BIT'', 1), (''TRACE_FTRACE_IRQ_BIT'', 2),
     (''TRACE_FTRACE_SIRQ_BIT'', 3), (''TRACE_FTRACE_TRANSITION_BIT'', 4),
     (''TRACE_INTERNAL_BIT'', 5), (''TRACE_INTERNAL_NMI_BIT'', 6),
     (''TRACE_INTERNAL_IRQ_BIT'', 7), (''TRACE_INTERNAL_SIRQ_BIT'', 8),
     (''TRACE_INTERNAL_TRANSITION_BIT'', 9), (''TRACE_INTERNAL_EVENT_BIT'', 10),
     (''TRACE_INTERNAL_EVENT_NMI_BIT'', 11), (''TRACE_INTERNAL_EVENT_IRQ_BIT'', 12),
     (''TRACE_INTERNAL_EVENT_SIRQ_BIT'', 13), (''TRACE_INTERNAL_EVENT_TRANSITION_BIT'', 14),
     (''TRACE_BRANCH_BIT'', 15), (''TRACE_IRQ_BIT'', 16), (''TRACE_RECORD_RECURSION_BIT'', 17)]"

definition enumdecl_line_9489 :: cenum_decl where
  "enumdecl_line_9489 = EnumDecl False [
     (''TRACE_FUNC_NO_OPTS'', 0), (''TRACE_FUNC_OPT_STACK'', 1),
     (''TRACE_FUNC_OPT_NO_REPEATS'', 2), (''TRACE_FUNC_OPT_ARGS'', 4),
     (''TRACE_FUNC_OPT_HIGHEST_BIT'', 8)]"

definition enumdecl_line_9497 :: cenum_decl where
  "enumdecl_line_9497 = EnumDecl False [
     (''TRACE_GRAPH_FL'', 1), (''TRACE_GRAPH_DEPTH_START_BIT'', 2),
     (''TRACE_GRAPH_DEPTH_END_BIT'', 3), (''TRACE_GRAPH_NOTRACE_BIT'', 4)]"

definition enumdecl_line_9504 :: cenum_decl where
  "enumdecl_line_9504 = EnumDecl False [
     (''TRACE_NOP_OPT_ACCEPT'', 1), (''TRACE_NOP_OPT_REFUSE'', 2)]"

definition enumdecl_line_9509 :: cenum_decl where
  "enumdecl_line_9509 = EnumDecl False [
     (''TRACE_PIDS'', 1), (''TRACE_NO_PIDS'', 2)]"

definition enumdecl_line_9514 :: cenum_decl where
  "enumdecl_line_9514 = EnumDecl False [
     (''TRACE_SIGNAL_DELIVERED'', 0), (''TRACE_SIGNAL_IGNORED'', 1),
     (''TRACE_SIGNAL_ALREADY_PENDING'', 2), (''TRACE_SIGNAL_OVERFLOW_FAIL'', 3),
     (''TRACE_SIGNAL_LOSE_INFO'', 4)]"

definition enumdecl_line_9522 :: cenum_decl where
  "enumdecl_line_9522 = EnumDecl False [
     (''TVPADDRW'', 0), (''TVPPDATA'', 4), (''TVPPMASK'', 8), (''TVPPADRR'', 12),
     (''TVPCADRW'', 16), (''TVPCDATA'', 20), (''TVPCADRR'', 28), (''TVPDCCTL'', 36),
     (''TVPIDATA'', 40), (''TVPCRDAT'', 44), (''TVPCXPOL'', 48), (''TVPCXPOH'', 52),
     (''TVPCYPOL'', 56), (''TVPCYPOH'', 60)]"

definition enumdecl_line_9539 :: cenum_decl where
  "enumdecl_line_9539 = EnumDecl False [
     (''TVPIRREV'', 1), (''TVPIRICC'', 6), (''TVPIRBRC'', 7), (''TVPIRLAC'', 15),
     (''TVPIRTCC'', 24), (''TVPIRMXC'', 25), (''TVPIRCLS'', 26), (''TVPIRPPG'', 28),
     (''TVPIRGEC'', 29), (''TVPIRMIC'', 30), (''TVPIRPLA'', 44), (''TVPIRPPD'', 45),
     (''TVPIRMPD'', 46), (''TVPIRLPD'', 47), (''TVPIRCKL'', 48), (''TVPIRCKH'', 49),
     (''TVPIRCRL'', 50), (''TVPIRCRH'', 51), (''TVPIRCGL'', 52), (''TVPIRCGH'', 53),
     (''TVPIRCBL'', 54), (''TVPIRCBH'', 55), (''TVPIRCKC'', 56), (''TVPIRMLC'', 57),
     (''TVPIRSEN'', 58), (''TVPIRTMD'', 59), (''TVPIRRML'', 60), (''TVPIRRMM'', 61),
     (''TVPIRRMS'', 62), (''TVPIRDID'', 63), (''TVPIRRES'', 255)]"

definition enumdecl_line_9573 :: cenum_decl where
  "enumdecl_line_9573 = EnumDecl False [
     (''TYPE_MAX8998'', 0), (''TYPE_LP3974'', 1), (''TYPE_LP3979'', 2)]"

definition enumdecl_line_9579 :: cenum_decl where
  "enumdecl_line_9579 = EnumDecl False [
     (''T_SHARED'', 1), (''T_UNBINDABLE'', 2), (''T_MARKED'', 4), (''T_UMOUNT_CANDIDATE'', 8),
     (''T_SHARED_MASK'', 2)]"

definition enumdecl_line_9587 :: cenum_decl where
  "enumdecl_line_9587 = EnumDecl False [
     (''UDP_BPF_IPV4'', 0), (''UDP_BPF_IPV6'', 1), (''UDP_BPF_NUM_PROTS'', 2)]"

definition enumdecl_line_9593 :: cenum_decl where
  "enumdecl_line_9593 = EnumDecl False [
     (''UDP_FLAGS_CORK'', 0), (''UDP_FLAGS_NO_CHECK6_TX'', 1), (''UDP_FLAGS_NO_CHECK6_RX'', 2),
     (''UDP_FLAGS_GRO_ENABLED'', 3), (''UDP_FLAGS_ACCEPT_FRAGLIST'', 4),
     (''UDP_FLAGS_ACCEPT_L4'', 5), (''UDP_FLAGS_ENCAP_ENABLED'', 6),
     (''UDP_FLAGS_UDPLITE_SEND_CC'', 7), (''UDP_FLAGS_UDPLITE_RECV_CC'', 8)]"

definition enumdecl_line_9605 :: cenum_decl where
  "enumdecl_line_9605 = EnumDecl False [
     (''UDP_MIB_NUM'', 0), (''UDP_MIB_INDATAGRAMS'', 1), (''UDP_MIB_NOPORTS'', 2),
     (''UDP_MIB_INERRORS'', 3), (''UDP_MIB_OUTDATAGRAMS'', 4), (''UDP_MIB_RCVBUFERRORS'', 5),
     (''UDP_MIB_SNDBUFERRORS'', 6), (''UDP_MIB_CSUMERRORS'', 7), (''UDP_MIB_IGNOREDMULTI'', 8),
     (''UDP_MIB_MEMERRORS'', 9), (''__UDP_MIB_MAX'', 10)]"

definition enumdecl_line_9619 :: cenum_decl where
  "enumdecl_line_9619 = EnumDecl False [
     (''UNAME26'', 131072), (''ADDR_NO_RANDOMIZE'', 262144), (''FDPIC_FUNCPTRS'', 524288),
     (''MMAP_PAGE_ZERO'', 1048576), (''ADDR_COMPAT_LAYOUT'', 2097152),
     (''READ_IMPLIES_EXEC'', 4194304), (''ADDR_LIMIT_32BIT'', 8388608),
     (''SHORT_INODE'', 16777216), (''WHOLE_SECONDS'', 33554432), (''STICKY_TIMEOUTS'', 67108864),
     (''ADDR_LIMIT_3GB'', 134217728)]"

definition enumdecl_line_9633 :: cenum_decl where
  "enumdecl_line_9633 = EnumDecl False [
     (''UNDEFINED_CAPABLE'', 0), (''SYSTEM_INTEL_MSR_CAPABLE'', 1),
     (''SYSTEM_AMD_MSR_CAPABLE'', 2), (''SYSTEM_IO_CAPABLE'', 3)]"

definition enum_decls_6 :: "cenum_decl list" where
  "enum_decls_6 = [
     enumdecl_line_8019, enumdecl_line_8099, enumdecl_line_8115, enumdecl_line_8122,
     enumdecl_line_8129, enumdecl_line_8168, enumdecl_line_8173, enumdecl_line_8181,
     enumdecl_line_8188, enumdecl_line_8209, enumdecl_line_8217, enumdecl_line_8221,
     enumdecl_line_8225, enumdecl_line_8242, enumdecl_line_8249, enumdecl_line_8254,
     enumdecl_line_8263, enumdecl_line_8270, enumdecl_line_8275, enumdecl_line_8285,
     enumdecl_line_8297, enumdecl_line_8306, enumdecl_line_8311, enumdecl_line_8317,
     enumdecl_line_8325, enumdecl_line_8346, enumdecl_line_8353, enumdecl_line_8362,
     enumdecl_line_8371, enumdecl_line_8379, enumdecl_line_8395, enumdecl_line_8401,
     enumdecl_line_8462, enumdecl_line_8518, enumdecl_line_8592, enumdecl_line_8600,
     enumdecl_line_8610, enumdecl_line_8616, enumdecl_line_8641, enumdecl_line_8648,
     enumdecl_line_8656, enumdecl_line_8661, enumdecl_line_8669, enumdecl_line_8675,
     enumdecl_line_8681, enumdecl_line_8694, enumdecl_line_8700, enumdecl_line_8708,
     enumdecl_line_8712, enumdecl_line_8717, enumdecl_line_8725, enumdecl_line_8732,
     enumdecl_line_8756, enumdecl_line_8764, enumdecl_line_8769, enumdecl_line_8780,
     enumdecl_line_8786, enumdecl_line_8794, enumdecl_line_8810, enumdecl_line_8814,
     enumdecl_line_8820, enumdecl_line_8829, enumdecl_line_8841, enumdecl_line_8846,
     enumdecl_line_8855, enumdecl_line_8862, enumdecl_line_8873, enumdecl_line_8877,
     enumdecl_line_8886, enumdecl_line_8901, enumdecl_line_8908, enumdecl_line_8918,
     enumdecl_line_8928, enumdecl_line_8938, enumdecl_line_8945, enumdecl_line_8958,
     enumdecl_line_8979, enumdecl_line_8984, enumdecl_line_9000, enumdecl_line_9008,
     enumdecl_line_9014, enumdecl_line_9027, enumdecl_line_9032, enumdecl_line_9049,
     enumdecl_line_9063, enumdecl_line_9081, enumdecl_line_9088, enumdecl_line_9108,
     enumdecl_line_9139, enumdecl_line_9146, enumdecl_line_9180, enumdecl_line_9190,
     enumdecl_line_9221, enumdecl_line_9226, enumdecl_line_9233, enumdecl_line_9243,
     enumdecl_line_9249, enumdecl_line_9268, enumdecl_line_9284, enumdecl_line_9303,
     enumdecl_line_9333, enumdecl_line_9416, enumdecl_line_9423, enumdecl_line_9432,
     enumdecl_line_9440, enumdecl_line_9454, enumdecl_line_9468, enumdecl_line_9489,
     enumdecl_line_9497, enumdecl_line_9504, enumdecl_line_9509, enumdecl_line_9514,
     enumdecl_line_9522, enumdecl_line_9539, enumdecl_line_9573, enumdecl_line_9579,
     enumdecl_line_9587, enumdecl_line_9593, enumdecl_line_9605, enumdecl_line_9619,
     enumdecl_line_9633]"

lemma enum_decls_6_4: "list_all enum4 enum_decls_6"
  by (unfold enum_decls_6_def
     enumdecl_line_8019_def enumdecl_line_8099_def enumdecl_line_8115_def
     enumdecl_line_8122_def enumdecl_line_8129_def enumdecl_line_8168_def
     enumdecl_line_8173_def enumdecl_line_8181_def enumdecl_line_8188_def
     enumdecl_line_8209_def enumdecl_line_8217_def enumdecl_line_8221_def
     enumdecl_line_8225_def enumdecl_line_8249_def enumdecl_line_8254_def
     enumdecl_line_8263_def enumdecl_line_8270_def enumdecl_line_8275_def
     enumdecl_line_8285_def enumdecl_line_8297_def enumdecl_line_8306_def
     enumdecl_line_8311_def enumdecl_line_8317_def enumdecl_line_8325_def
     enumdecl_line_8346_def enumdecl_line_8353_def enumdecl_line_8362_def
     enumdecl_line_8371_def enumdecl_line_8379_def enumdecl_line_8395_def
     enumdecl_line_8401_def enumdecl_line_8462_def enumdecl_line_8518_def
     enumdecl_line_8592_def enumdecl_line_8600_def enumdecl_line_8610_def
     enumdecl_line_8616_def enumdecl_line_8641_def enumdecl_line_8648_def
     enumdecl_line_8656_def enumdecl_line_8661_def enumdecl_line_8669_def
     enumdecl_line_8675_def enumdecl_line_8681_def enumdecl_line_8694_def
     enumdecl_line_8700_def enumdecl_line_8708_def enumdecl_line_8712_def
     enumdecl_line_8717_def enumdecl_line_8725_def enumdecl_line_8732_def
     enumdecl_line_8756_def enumdecl_line_8764_def enumdecl_line_8769_def
     enumdecl_line_8780_def enumdecl_line_8786_def enumdecl_line_8794_def
     enumdecl_line_8810_def enumdecl_line_8814_def enumdecl_line_8820_def
     enumdecl_line_8829_def enumdecl_line_8841_def enumdecl_line_8846_def
     enumdecl_line_8855_def enumdecl_line_8862_def enumdecl_line_8873_def
     enumdecl_line_8877_def enumdecl_line_8886_def enumdecl_line_8901_def
     enumdecl_line_8908_def enumdecl_line_8918_def enumdecl_line_8928_def
     enumdecl_line_8938_def enumdecl_line_8945_def enumdecl_line_8958_def
     enumdecl_line_8979_def enumdecl_line_8984_def enumdecl_line_9000_def
     enumdecl_line_9008_def enumdecl_line_9014_def enumdecl_line_9027_def
     enumdecl_line_9032_def enumdecl_line_9049_def enumdecl_line_9063_def
     enumdecl_line_9081_def enumdecl_line_9088_def enumdecl_line_9108_def
     enumdecl_line_9139_def enumdecl_line_9146_def enumdecl_line_9180_def
     enumdecl_line_9190_def enumdecl_line_9221_def enumdecl_line_9226_def
     enumdecl_line_9233_def enumdecl_line_9243_def enumdecl_line_9249_def
     enumdecl_line_9268_def enumdecl_line_9284_def enumdecl_line_9303_def
     enumdecl_line_9333_def enumdecl_line_9416_def enumdecl_line_9423_def
     enumdecl_line_9432_def enumdecl_line_9440_def enumdecl_line_9454_def
     enumdecl_line_9468_def enumdecl_line_9489_def enumdecl_line_9497_def
     enumdecl_line_9504_def enumdecl_line_9509_def enumdecl_line_9514_def
     enumdecl_line_9522_def enumdecl_line_9539_def enumdecl_line_9573_def
     enumdecl_line_9579_def enumdecl_line_9587_def enumdecl_line_9593_def
     enumdecl_line_9605_def enumdecl_line_9619_def enumdecl_line_9633_def)
    (intro enum_list_intros enum_int_intros enumdecl_line_8242_4; simp)

lemma length_enum_decls_6: "length enum_decls_6 = 121"
  by (simp add: enum_decls_6_def)

end
