(* ===== verification/VmlinuxEnum7.thy ===== *)
theory VmlinuxEnum7
  imports EnumDecl
begin

text \<open>
  The enumerations of four bytes of \<^verbatim>\<open>src/internal/ebpf/vmlinux.h\<close> between lines 9640 and
  11879, one definition per enumeration, enumerators in order. An enumeration without a tag is
  named after the line it starts on.
\<close>

definition enumdecl_line_9640 :: cenum_decl where
  "enumdecl_line_9640 = EnumDecl False [
     (''UNIX_GRAPH_NOT_CYCLIC'', 0), (''UNIX_GRAPH_MAYBE_CYCLIC'', 1), (''UNIX_GRAPH_CYCLIC'', 2)]"

definition enumdecl_line_9646 :: cenum_decl where
  "enumdecl_line_9646 = EnumDecl False [
     (''UNWIND_PENDING'', 1), (''UNWIND_USED'', 2)]"

definition enumdecl_line_9651 :: cenum_decl where
  "enumdecl_line_9651 = EnumDecl False [
     (''UNWIND_PENDING_BIT'', 0), (''UNWIND_USED_BIT'', 1)]"

definition enumdecl_line_9656 :: cenum_decl where
  "enumdecl_line_9656 = EnumDecl False [
     (''UV_AFFINITY_ALL'', 0), (''UV_AFFINITY_NODE'', 1), (''UV_AFFINITY_CPU'', 2)]"

definition enumdecl_line_9662 :: cenum_decl where
  "enumdecl_line_9662 = EnumDecl False [
     (''VMA_READ_BIT'', 0), (''VMA_WRITE_BIT'', 1), (''VMA_EXEC_BIT'', 2),
     (''VMA_SHARED_BIT'', 3), (''VMA_MAYREAD_BIT'', 4), (''VMA_MAYWRITE_BIT'', 5),
     (''VMA_MAYEXEC_BIT'', 6), (''VMA_MAYSHARE_BIT'', 7), (''VMA_GROWSDOWN_BIT'', 8),
     (''VMA_UFFD_MISSING_BIT'', 9), (''VMA_PFNMAP_BIT'', 10), (''VMA_MAYBE_GUARD_BIT'', 11),
     (''VMA_UFFD_WP_BIT'', 12), (''VMA_LOCKED_BIT'', 13), (''VMA_IO_BIT'', 14),
     (''VMA_SEQ_READ_BIT'', 15), (''VMA_RAND_READ_BIT'', 16), (''VMA_DONTCOPY_BIT'', 17),
     (''VMA_DONTEXPAND_BIT'', 18), (''VMA_LOCKONFAULT_BIT'', 19), (''VMA_ACCOUNT_BIT'', 20),
     (''VMA_NORESERVE_BIT'', 21), (''VMA_HUGETLB_BIT'', 22), (''VMA_SYNC_BIT'', 23),
     (''VMA_ARCH_1_BIT'', 24), (''VMA_WIPEONFORK_BIT'', 25), (''VMA_DONTDUMP_BIT'', 26),
     (''VMA_SOFTDIRTY_BIT'', 27), (''VMA_MIXEDMAP_BIT'', 28), (''VMA_HUGEPAGE_BIT'', 29),
     (''VMA_NOHUGEPAGE_BIT'', 30), (''VMA_MERGEABLE_BIT'', 31), (''VMA_HIGH_ARCH_0_BIT'', 32),
     (''VMA_HIGH_ARCH_1_BIT'', 33), (''VMA_HIGH_ARCH_2_BIT'', 34), (''VMA_HIGH_ARCH_3_BIT'', 35),
     (''VMA_HIGH_ARCH_4_BIT'', 36), (''VMA_HIGH_ARCH_5_BIT'', 37), (''VMA_HIGH_ARCH_6_BIT'', 38),
     (''VMA_ALLOW_ANY_UNCACHED_BIT'', 39), (''VMA_DROPPABLE_BIT'', 40),
     (''VMA_UFFD_MINOR_BIT'', 41), (''VMA_SEALED_BIT'', 42), (''VMA_PKEY_BIT0_BIT'', 32),
     (''VMA_PKEY_BIT1_BIT'', 33), (''VMA_PKEY_BIT2_BIT'', 34), (''VMA_PKEY_BIT3_BIT'', 35),
     (''VMA_PKEY_BIT4_BIT'', 36), (''VMA_SHADOW_STACK_BIT'', 37), (''VMA_SAO_BIT'', 24),
     (''VMA_GROWSUP_BIT'', 24), (''VMA_SPARC_ADI_BIT'', 24), (''VMA_ARM64_BTI_BIT'', 24),
     (''VMA_ARCH_CLEAR_BIT'', 24), (''VMA_MAPPED_COPY_BIT'', 24), (''VMA_MTE_BIT'', 36),
     (''VMA_MTE_ALLOWED_BIT'', 37), (''VMA_STACK_BIT'', 8)]"

definition enumdecl_line_9723 :: cenum_decl where
  "enumdecl_line_9723 = EnumDecl False [
     (''VP_MSIX_CONFIG_VECTOR'', 0), (''VP_MSIX_VQ_VECTOR'', 1)]"

definition enumdecl_line_9728 :: cenum_decl where
  "enumdecl_line_9728 = EnumDecl False [
     (''VTDSS_FMT_PS'', 128)]"

definition enumdecl_line_9753 :: cenum_decl where
  "enumdecl_line_9753 = EnumDecl False [
     (''WALK_TRAILING'', 1), (''WALK_MORE'', 2), (''WALK_NOFOLLOW'', 4)]"

definition enumdecl_line_9759 :: cenum_decl where
  "enumdecl_line_9759 = EnumDecl False [
     (''WBT_RWQ_BG'', 0), (''WBT_RWQ_SWAP'', 1), (''WBT_RWQ_DISCARD'', 2), (''WBT_NUM_RWQ'', 3)]"

definition enumdecl_line_9766 :: cenum_decl where
  "enumdecl_line_9766 = EnumDecl False [
     (''WBT_STATE_ON_DEFAULT'', 1), (''WBT_STATE_ON_MANUAL'', 2), (''WBT_STATE_OFF_DEFAULT'', 3),
     (''WBT_STATE_OFF_MANUAL'', 4)]"

definition enumdecl_line_9773 :: cenum_decl where
  "enumdecl_line_9773 = EnumDecl False [
     (''X2APIC_OFF'', 0), (''X2APIC_DISABLED'', 1), (''X2APIC_ON'', 2), (''X2APIC_ON_LOCKED'', 3)]"

definition enumdecl_line_9790 :: cenum_decl where
  "enumdecl_line_9790 = EnumDecl False [
     (''X86_64_FMT_PS'', 128)]"

definition enumdecl_line_9794 :: cenum_decl where
  "enumdecl_line_9794 = EnumDecl False [
     (''X86_BR_NONE'', 0), (''X86_BR_USER'', 1), (''X86_BR_KERNEL'', 2), (''X86_BR_CALL'', 4),
     (''X86_BR_RET'', 8), (''X86_BR_SYSCALL'', 16), (''X86_BR_SYSRET'', 32),
     (''X86_BR_INT'', 64), (''X86_BR_IRET'', 128), (''X86_BR_JCC'', 256), (''X86_BR_JMP'', 512),
     (''X86_BR_IRQ'', 1024), (''X86_BR_IND_CALL'', 2048), (''X86_BR_ABORT'', 4096),
     (''X86_BR_IN_TX'', 8192), (''X86_BR_NO_TX'', 16384), (''X86_BR_ZERO_CALL'', 32768),
     (''X86_BR_CALL_STACK'', 65536), (''X86_BR_IND_JMP'', 131072), (''X86_BR_TYPE_SAVE'', 262144)]"

definition enumdecl_line_9817 :: cenum_decl where
  "enumdecl_line_9817 = EnumDecl False [
     (''X86_IRQ_ALLOC_LEGACY'', 1)]"

definition enumdecl_line_9821 :: cenum_decl where
  "enumdecl_line_9821 = EnumDecl False [
     (''X86_PERF_KFREE_SHARED'', 0), (''X86_PERF_KFREE_EXCL'', 1), (''X86_PERF_KFREE_MAX'', 2)]"

definition enumdecl_line_9827 :: cenum_decl where
  "enumdecl_line_9827 = EnumDecl False [
     (''X86_USER_RDPMC_NEVER_ENABLE'', 0), (''X86_USER_RDPMC_CONDITIONAL_ENABLE'', 1),
     (''X86_USER_RDPMC_ALWAYS_ENABLE'', 2)]"

definition enumdecl_line_9833 :: cenum_decl where
  "enumdecl_line_9833 = EnumDecl False [
     (''XA_CHECK_SCHED'', 4096)]"

definition enumdecl_line_9837 :: cenum_decl where
  "enumdecl_line_9837 = EnumDecl False [
     (''XDP_ATTACHED_NONE'', 0), (''XDP_ATTACHED_DRV'', 1), (''XDP_ATTACHED_SKB'', 2),
     (''XDP_ATTACHED_HW'', 3), (''XDP_ATTACHED_MULTI'', 4)]"

definition enumdecl_line_9845 :: cenum_decl where
  "enumdecl_line_9845 = EnumDecl False [
     (''XFRM_DEV_OFFLOAD_FLAG_ACQ'', 1)]"

definition enumdecl_line_9849 :: cenum_decl where
  "enumdecl_line_9849 = EnumDecl False [
     (''XFRM_DEV_OFFLOAD_IN'', 1), (''XFRM_DEV_OFFLOAD_OUT'', 2), (''XFRM_DEV_OFFLOAD_FWD'', 3)]"

definition enumdecl_line_9855 :: cenum_decl where
  "enumdecl_line_9855 = EnumDecl False [
     (''XFRM_DEV_OFFLOAD_UNSPECIFIED'', 0), (''XFRM_DEV_OFFLOAD_CRYPTO'', 1),
     (''XFRM_DEV_OFFLOAD_PACKET'', 2)]"

definition enumdecl_line_9861 :: cenum_decl where
  "enumdecl_line_9861 = EnumDecl False [
     (''XFRM_LOOKUP_ICMP'', 1), (''XFRM_LOOKUP_QUEUE'', 2), (''XFRM_LOOKUP_KEEP_DST_REF'', 4)]"

definition enumdecl_line_9867 :: cenum_decl where
  "enumdecl_line_9867 = EnumDecl False [
     (''XFRM_MODE_FLAG_TUNNEL'', 1)]"

definition enumdecl_line_9871 :: cenum_decl where
  "enumdecl_line_9871 = EnumDecl False [
     (''XFRM_MSG_BASE'', 16), (''XFRM_MSG_NEWSA'', 16), (''XFRM_MSG_DELSA'', 17),
     (''XFRM_MSG_GETSA'', 18), (''XFRM_MSG_NEWPOLICY'', 19), (''XFRM_MSG_DELPOLICY'', 20),
     (''XFRM_MSG_GETPOLICY'', 21), (''XFRM_MSG_ALLOCSPI'', 22), (''XFRM_MSG_ACQUIRE'', 23),
     (''XFRM_MSG_EXPIRE'', 24), (''XFRM_MSG_UPDPOLICY'', 25), (''XFRM_MSG_UPDSA'', 26),
     (''XFRM_MSG_POLEXPIRE'', 27), (''XFRM_MSG_FLUSHSA'', 28), (''XFRM_MSG_FLUSHPOLICY'', 29),
     (''XFRM_MSG_NEWAE'', 30), (''XFRM_MSG_GETAE'', 31), (''XFRM_MSG_REPORT'', 32),
     (''XFRM_MSG_MIGRATE'', 33), (''XFRM_MSG_NEWSADINFO'', 34), (''XFRM_MSG_GETSADINFO'', 35),
     (''XFRM_MSG_NEWSPDINFO'', 36), (''XFRM_MSG_GETSPDINFO'', 37), (''XFRM_MSG_MAPPING'', 38),
     (''XFRM_MSG_SETDEFAULT'', 39), (''XFRM_MSG_GETDEFAULT'', 40), (''__XFRM_MSG_MAX'', 41)]"

definition enumdecl_line_9901 :: cenum_decl where
  "enumdecl_line_9901 = EnumDecl False [
     (''XFRM_POLICY_IN'', 0), (''XFRM_POLICY_OUT'', 1), (''XFRM_POLICY_FWD'', 2),
     (''XFRM_POLICY_MASK'', 3), (''XFRM_POLICY_MAX'', 3)]"

definition enumdecl_line_9909 :: cenum_decl where
  "enumdecl_line_9909 = EnumDecl False [
     (''XFRM_POLICY_TYPE_MAIN'', 0), (''XFRM_POLICY_TYPE_SUB'', 1),
     (''XFRM_POLICY_TYPE_MAX'', 2), (''XFRM_POLICY_TYPE_ANY'', 255)]"

definition enumdecl_line_9916 :: cenum_decl where
  "enumdecl_line_9916 = EnumDecl False [
     (''XFRM_STATE_VOID'', 0), (''XFRM_STATE_ACQ'', 1), (''XFRM_STATE_VALID'', 2),
     (''XFRM_STATE_ERROR'', 3), (''XFRM_STATE_EXPIRED'', 4), (''XFRM_STATE_DEAD'', 5)]"

definition enumdecl_line_9925 :: cenum_decl where
  "enumdecl_line_9925 = EnumDecl False [
     (''ZONELIST_FALLBACK'', 0), (''ZONELIST_NOFALLBACK'', 1), (''MAX_ZONELISTS'', 2)]"

definition enumdecl_line_9931 :: cenum_decl where
  "enumdecl_line_9931 = EnumDecl False [
     (''ZSTDbss_compress'', 0), (''ZSTDbss_noCompress'', 1)]"

definition enumdecl_line_9936 :: cenum_decl where
  "enumdecl_line_9936 = EnumDecl False [
     (''_DQUOT_USAGE_ENABLED'', 0), (''_DQUOT_LIMITS_ENABLED'', 1), (''_DQUOT_SUSPENDED'', 2),
     (''_DQUOT_STATE_FLAGS'', 3)]"

definition enumdecl_line_9943 :: cenum_decl where
  "enumdecl_line_9943 = EnumDecl False [
     (''_IRQ_DEFAULT_INIT_FLAGS'', 0), (''_IRQ_PER_CPU'', 512), (''_IRQ_LEVEL'', 256),
     (''_IRQ_NOPROBE'', 1024), (''_IRQ_NOREQUEST'', 2048), (''_IRQ_NOTHREAD'', 65536),
     (''_IRQ_NOAUTOEN'', 4096), (''_IRQ_NO_BALANCING'', 8192), (''_IRQ_NESTED_THREAD'', 32768),
     (''_IRQ_PER_CPU_DEVID'', 131072), (''_IRQ_IS_POLLED'', 262144),
     (''_IRQ_DISABLE_UNLAZY'', 524288), (''_IRQ_HIDDEN'', 1048576), (''_IRQ_NO_DEBUG'', 2097152),
     (''_IRQF_MODIFY_MASK'', 2080527)]"

definition enumdecl_line_9961 :: cenum_decl where
  "enumdecl_line_9961 = EnumDecl False [
     (''__IOAM6_IPTUNNEL_MODE_MIN'', 0), (''IOAM6_IPTUNNEL_MODE_INLINE'', 1),
     (''IOAM6_IPTUNNEL_MODE_ENCAP'', 2), (''IOAM6_IPTUNNEL_MODE_AUTO'', 3),
     (''__IOAM6_IPTUNNEL_MODE_MAX'', 4)]"

definition enumdecl_line_9969 :: cenum_decl where
  "enumdecl_line_9969 = EnumDecl False [
     (''__ND_OPT_PREFIX_INFO_END'', 0), (''ND_OPT_SOURCE_LL_ADDR'', 1),
     (''ND_OPT_TARGET_LL_ADDR'', 2), (''ND_OPT_PREFIX_INFO'', 3), (''ND_OPT_REDIRECT_HDR'', 4),
     (''ND_OPT_MTU'', 5), (''ND_OPT_NONCE'', 14), (''__ND_OPT_ARRAY_MAX'', 15),
     (''ND_OPT_ROUTE_INFO'', 24), (''ND_OPT_RDNSS'', 25), (''ND_OPT_DNSSL'', 31),
     (''ND_OPT_6CO'', 34), (''ND_OPT_CAPTIVE_PORTAL'', 37), (''ND_OPT_PREF64'', 38),
     (''__ND_OPT_MAX'', 39)]"

definition enumdecl_line_9987 :: cenum_decl where
  "enumdecl_line_9987 = EnumDecl False [
     (''__PERCPU_REF_ATOMIC'', 1), (''__PERCPU_REF_DEAD'', 2), (''__PERCPU_REF_ATOMIC_DEAD'', 3),
     (''__PERCPU_REF_FLAG_BITS'', 2)]"

definition enumdecl_line_9994 :: cenum_decl where
  "enumdecl_line_9994 = EnumDecl False [
     (''__SCHED_FEAT_PLACE_LAG'', 0), (''__SCHED_FEAT_PLACE_DEADLINE_INITIAL'', 1),
     (''__SCHED_FEAT_PLACE_REL_DEADLINE'', 2), (''__SCHED_FEAT_RUN_TO_PARITY'', 3),
     (''__SCHED_FEAT_PREEMPT_SHORT'', 4), (''__SCHED_FEAT_NEXT_BUDDY'', 5),
     (''__SCHED_FEAT_PICK_BUDDY'', 6), (''__SCHED_FEAT_CACHE_HOT_BUDDY'', 7),
     (''__SCHED_FEAT_DELAY_DEQUEUE'', 8), (''__SCHED_FEAT_DELAY_ZERO'', 9),
     (''__SCHED_FEAT_WAKEUP_PREEMPTION'', 10), (''__SCHED_FEAT_HRTICK'', 11),
     (''__SCHED_FEAT_HRTICK_DL'', 12), (''__SCHED_FEAT_NONTASK_CAPACITY'', 13),
     (''__SCHED_FEAT_TTWU_QUEUE'', 14), (''__SCHED_FEAT_SIS_UTIL'', 15),
     (''__SCHED_FEAT_WARN_DOUBLE_CLOCK'', 16), (''__SCHED_FEAT_RT_PUSH_IPI'', 17),
     (''__SCHED_FEAT_RT_RUNTIME_SHARE'', 18), (''__SCHED_FEAT_LB_MIN'', 19),
     (''__SCHED_FEAT_ATTACH_AGE_LOAD'', 20), (''__SCHED_FEAT_WA_IDLE'', 21),
     (''__SCHED_FEAT_WA_WEIGHT'', 22), (''__SCHED_FEAT_WA_BIAS'', 23),
     (''__SCHED_FEAT_UTIL_EST'', 24), (''__SCHED_FEAT_LATENCY_WARN'', 25),
     (''__SCHED_FEAT_NI_RANDOM'', 26), (''__SCHED_FEAT_NR'', 27)]"

definition enumdecl_line_10025 :: cenum_decl where
  "enumdecl_line_10025 = EnumDecl False [
     (''__SD_BALANCE_NEWIDLE'', 0), (''__SD_BALANCE_EXEC'', 1), (''__SD_BALANCE_FORK'', 2),
     (''__SD_BALANCE_WAKE'', 3), (''__SD_WAKE_AFFINE'', 4), (''__SD_ASYM_CPUCAPACITY'', 5),
     (''__SD_ASYM_CPUCAPACITY_FULL'', 6), (''__SD_SHARE_CPUCAPACITY'', 7), (''__SD_CLUSTER'', 8),
     (''__SD_SHARE_LLC'', 9), (''__SD_SERIALIZE'', 10), (''__SD_ASYM_PACKING'', 11),
     (''__SD_PREFER_SIBLING'', 12), (''__SD_NUMA'', 13), (''__SD_FLAG_CNT'', 14)]"

definition enumdecl_line_10043 :: cenum_decl where
  "enumdecl_line_10043 = EnumDecl False [
     (''___GFP_DMA_BIT'', 0), (''___GFP_HIGHMEM_BIT'', 1), (''___GFP_DMA32_BIT'', 2),
     (''___GFP_MOVABLE_BIT'', 3), (''___GFP_RECLAIMABLE_BIT'', 4), (''___GFP_HIGH_BIT'', 5),
     (''___GFP_IO_BIT'', 6), (''___GFP_FS_BIT'', 7), (''___GFP_ZERO_BIT'', 8),
     (''___GFP_UNUSED_BIT'', 9), (''___GFP_DIRECT_RECLAIM_BIT'', 10),
     (''___GFP_KSWAPD_RECLAIM_BIT'', 11), (''___GFP_WRITE_BIT'', 12),
     (''___GFP_NOWARN_BIT'', 13), (''___GFP_RETRY_MAYFAIL_BIT'', 14),
     (''___GFP_NOFAIL_BIT'', 15), (''___GFP_NORETRY_BIT'', 16), (''___GFP_MEMALLOC_BIT'', 17),
     (''___GFP_COMP_BIT'', 18), (''___GFP_NOMEMALLOC_BIT'', 19), (''___GFP_HARDWALL_BIT'', 20),
     (''___GFP_THISNODE_BIT'', 21), (''___GFP_ACCOUNT_BIT'', 22), (''___GFP_ZEROTAGS_BIT'', 23),
     (''___GFP_NO_OBJ_EXT_BIT'', 24), (''___GFP_LAST_BIT'', 25)]"

definition enumdecl_line_10072 :: cenum_decl where
  "enumdecl_line_10072 = EnumDecl False [
     (''__ctx_convertBPF_PROG_TYPE_SOCKET_FILTER'', 0),
     (''__ctx_convertBPF_PROG_TYPE_SCHED_CLS'', 1),
     (''__ctx_convertBPF_PROG_TYPE_SCHED_ACT'', 2), (''__ctx_convertBPF_PROG_TYPE_XDP'', 3),
     (''__ctx_convertBPF_PROG_TYPE_CGROUP_SKB'', 4),
     (''__ctx_convertBPF_PROG_TYPE_CGROUP_SOCK'', 5),
     (''__ctx_convertBPF_PROG_TYPE_CGROUP_SOCK_ADDR'', 6),
     (''__ctx_convertBPF_PROG_TYPE_LWT_IN'', 7), (''__ctx_convertBPF_PROG_TYPE_LWT_OUT'', 8),
     (''__ctx_convertBPF_PROG_TYPE_LWT_XMIT'', 9),
     (''__ctx_convertBPF_PROG_TYPE_LWT_SEG6LOCAL'', 10),
     (''__ctx_convertBPF_PROG_TYPE_SOCK_OPS'', 11), (''__ctx_convertBPF_PROG_TYPE_SK_SKB'', 12),
     (''__ctx_convertBPF_PROG_TYPE_SK_MSG'', 13),
     (''__ctx_convertBPF_PROG_TYPE_FLOW_DISSECTOR'', 14),
     (''__ctx_convertBPF_PROG_TYPE_KPROBE'', 15),
     (''__ctx_convertBPF_PROG_TYPE_TRACEPOINT'', 16),
     (''__ctx_convertBPF_PROG_TYPE_PERF_EVENT'', 17),
     (''__ctx_convertBPF_PROG_TYPE_RAW_TRACEPOINT'', 18),
     (''__ctx_convertBPF_PROG_TYPE_RAW_TRACEPOINT_WRITABLE'', 19),
     (''__ctx_convertBPF_PROG_TYPE_TRACING'', 20),
     (''__ctx_convertBPF_PROG_TYPE_CGROUP_DEVICE'', 21),
     (''__ctx_convertBPF_PROG_TYPE_CGROUP_SYSCTL'', 22),
     (''__ctx_convertBPF_PROG_TYPE_CGROUP_SOCKOPT'', 23),
     (''__ctx_convertBPF_PROG_TYPE_SK_REUSEPORT'', 24),
     (''__ctx_convertBPF_PROG_TYPE_SK_LOOKUP'', 25),
     (''__ctx_convertBPF_PROG_TYPE_STRUCT_OPS'', 26), (''__ctx_convertBPF_PROG_TYPE_EXT'', 27),
     (''__ctx_convertBPF_PROG_TYPE_LSM'', 28), (''__ctx_convertBPF_PROG_TYPE_SYSCALL'', 29),
     (''__ctx_convertBPF_PROG_TYPE_NETFILTER'', 30), (''__ctx_convert_unused'', 31)]"

definition enumdecl_line_10107 :: cenum_decl where
  "enumdecl_line_10107 = EnumDecl False [
     (''arg_AL'', 0), (''arg_CL'', 1), (''arg_DL'', 2), (''arg_BL'', 3), (''arg_AH'', 4),
     (''arg_CH'', 5), (''arg_DH'', 6), (''arg_BH'', 7), (''arg_AX'', 0), (''arg_CX'', 1),
     (''arg_DX'', 2), (''arg_BX'', 3), (''arg_SP'', 4), (''arg_BP'', 5), (''arg_SI'', 6),
     (''arg_DI'', 7), (''arg_R8'', 8), (''arg_R9'', 9), (''arg_R10'', 10), (''arg_R11'', 11),
     (''arg_R12'', 12), (''arg_R13'', 13), (''arg_R14'', 14), (''arg_R15'', 15)]"

definition enumdecl_line_10134 :: cenum_decl where
  "enumdecl_line_10134 = EnumDecl False [
     (''attr_noop'', 0), (''attr_delayed_allocation_blocks'', 1),
     (''attr_session_write_kbytes'', 2), (''attr_lifetime_write_kbytes'', 3),
     (''attr_reserved_clusters'', 4), (''attr_sra_exceeded_retry_limit'', 5),
     (''attr_inode_readahead'', 6), (''attr_trigger_test_error'', 7),
     (''attr_first_error_time'', 8), (''attr_last_error_time'', 9),
     (''attr_clusters_in_group'', 10), (''attr_mb_order'', 11), (''attr_feature'', 12),
     (''attr_pointer_pi'', 13), (''attr_pointer_ui'', 14), (''attr_pointer_ul'', 15),
     (''attr_pointer_u64'', 16), (''attr_pointer_u8'', 17), (''attr_pointer_string'', 18),
     (''attr_pointer_atomic'', 19), (''attr_journal_task'', 20), (''attr_err_report_sec'', 21)]"

definition enumdecl_line_10159 :: cenum_decl where
  "enumdecl_line_10159 = EnumDecl False [
     (''blank_off'', 0), (''blank_normal_wait'', 1), (''blank_vesa_wait'', 2)]"

definition enumdecl_line_10165 :: cenum_decl where
  "enumdecl_line_10165 = EnumDecl False [
     (''cpuset'', 0), (''possible'', 1), (''fail'', 2)]"

definition enumdecl_line_10171 :: cenum_decl where
  "enumdecl_line_10171 = EnumDecl False [
     (''dns_key_data'', 0), (''dns_key_error'', 1)]"

definition enumdecl_line_10176 :: cenum_decl where
  "enumdecl_line_10176 = EnumDecl False [
     (''false'', 0), (''true'', 1)]"

definition enumdecl_line_10181 :: cenum_decl where
  "enumdecl_line_10181 = EnumDecl False [
     (''mechtype_caddy'', 0), (''mechtype_tray'', 1), (''mechtype_popup'', 2),
     (''mechtype_individual_changer'', 4), (''mechtype_cartridge_changer'', 5)]"

definition enumdecl_line_10189 :: cenum_decl where
  "enumdecl_line_10189 = EnumDecl False [
     (''ncsi_dev_state_major'', 65280), (''ncsi_dev_state_minor'', 255),
     (''ncsi_dev_state_probe_deselect'', 513), (''ncsi_dev_state_probe_package'', 514),
     (''ncsi_dev_state_probe_channel'', 515), (''ncsi_dev_state_probe_mlx_gma'', 516),
     (''ncsi_dev_state_probe_mlx_smaf'', 517), (''ncsi_dev_state_probe_cis'', 518),
     (''ncsi_dev_state_probe_keep_phy'', 519), (''ncsi_dev_state_probe_gvi'', 520),
     (''ncsi_dev_state_probe_gc'', 521), (''ncsi_dev_state_probe_gls'', 522),
     (''ncsi_dev_state_probe_dp'', 523), (''ncsi_dev_state_config_sp'', 769),
     (''ncsi_dev_state_config_cis'', 770), (''ncsi_dev_state_config_oem_gma'', 771),
     (''ncsi_dev_state_config_apply_mac'', 772), (''ncsi_dev_state_config_clear_vids'', 773),
     (''ncsi_dev_state_config_svf'', 774), (''ncsi_dev_state_config_ev'', 775),
     (''ncsi_dev_state_config_sma'', 776), (''ncsi_dev_state_config_ebf'', 777),
     (''ncsi_dev_state_config_dgmf'', 778), (''ncsi_dev_state_config_ecnt'', 779),
     (''ncsi_dev_state_config_ec'', 780), (''ncsi_dev_state_config_ae'', 781),
     (''ncsi_dev_state_config_gls'', 782), (''ncsi_dev_state_config_done'', 783),
     (''ncsi_dev_state_suspend_select'', 1025), (''ncsi_dev_state_suspend_gls'', 1026),
     (''ncsi_dev_state_suspend_dcnt'', 1027), (''ncsi_dev_state_suspend_dc'', 1028),
     (''ncsi_dev_state_suspend_deselect'', 1029), (''ncsi_dev_state_suspend_done'', 1030)]"

definition enumdecl_line_10226 :: cenum_decl where
  "enumdecl_line_10226 = EnumDecl False [
     (''ncsi_dev_state_registered'', 0), (''ncsi_dev_state_functional'', 256),
     (''ncsi_dev_state_probe'', 512), (''ncsi_dev_state_config'', 768),
     (''ncsi_dev_state_suspend'', 1024)]"

definition enumdecl_line_10234 :: cenum_decl where
  "enumdecl_line_10234 = EnumDecl False [
     (''none'', 0), (''day'', 1), (''month'', 2), (''year'', 3)]"

definition enumdecl_line_10241 :: cenum_decl where
  "enumdecl_line_10241 = EnumDecl False [
     (''pci_channel_io_normal'', 1), (''pci_channel_io_frozen'', 2),
     (''pci_channel_io_perm_failure'', 3)]"

definition enumdecl_line_10247 :: cenum_decl where
  "enumdecl_line_10247 = EnumDecl False [
     (''preempt_dynamic_undefined'', - 1), (''preempt_dynamic_none'', 0),
     (''preempt_dynamic_voluntary'', 1), (''preempt_dynamic_full'', 2),
     (''preempt_dynamic_lazy'', 3)]"

definition enumdecl_line_10255 :: cenum_decl where
  "enumdecl_line_10255 = EnumDecl False [
     (''ptr_explicit'', 0), (''ptr_ext4_sb_info_offset'', 1),
     (''ptr_ext4_super_block_offset'', 2)]"

definition enumdecl_line_10261 :: cenum_decl where
  "enumdecl_line_10261 = EnumDecl False [
     (''st_wordstart'', 0), (''st_wordcmp'', 1), (''st_wordskip'', 2), (''st_bufcpy'', 3)]"

definition enumdecl_line_10268 :: cenum_decl where
  "enumdecl_line_10268 = EnumDecl False [
     (''st_wordstart___2'', 0), (''st_wordcmp___2'', 1), (''st_wordskip___2'', 2)]"

definition enumdecl_line_10274 :: cenum_decl where
  "enumdecl_line_10274 = EnumDecl False [
     (''type_kind_int'', 0), (''type_kind_float'', 1), (''type_unknown'', 65535)]"

definition enumdecl_line_10280 :: cenum_decl where
  "enumdecl_line_10280 = EnumDecl False [
     (''x86_lbr_exclusive_lbr'', 0), (''x86_lbr_exclusive_bts'', 1),
     (''x86_lbr_exclusive_pt'', 2), (''x86_lbr_exclusive_max'', 3)]"

definition enumdecl_CSI_J :: cenum_decl where
  "enumdecl_CSI_J = EnumDecl False [
     (''CSI_J_CURSOR_TO_END'', 0), (''CSI_J_START_TO_CURSOR'', 1), (''CSI_J_VISIBLE'', 2),
     (''CSI_J_FULL'', 3)]"

definition enumdecl_CSI_right_square_bracket :: cenum_decl where
  "enumdecl_CSI_right_square_bracket = EnumDecl False [
     (''CSI_RSB_COLOR_FOR_UNDERLINE'', 1), (''CSI_RSB_COLOR_FOR_HALF_BRIGHT'', 2),
     (''CSI_RSB_MAKE_CUR_COLOR_DEFAULT'', 8), (''CSI_RSB_BLANKING_INTERVAL'', 9),
     (''CSI_RSB_BELL_FREQUENCY'', 10), (''CSI_RSB_BELL_DURATION'', 11),
     (''CSI_RSB_BRING_CONSOLE_TO_FRONT'', 12), (''CSI_RSB_UNBLANK'', 13),
     (''CSI_RSB_VESA_OFF_INTERVAL'', 14), (''CSI_RSB_BRING_PREV_CONSOLE_TO_FRONT'', 15),
     (''CSI_RSB_CURSOR_BLINK_INTERVAL'', 16)]"

definition enumdecl_KTHREAD_BITS :: cenum_decl where
  "enumdecl_KTHREAD_BITS = EnumDecl False [
     (''KTHREAD_IS_PER_CPU'', 0), (''KTHREAD_SHOULD_STOP'', 1), (''KTHREAD_SHOULD_PARK'', 2)]"

definition enumdecl_NPmode :: cenum_decl where
  "enumdecl_NPmode = EnumDecl False [
     (''NPMODE_PASS'', 0), (''NPMODE_DROP'', 1), (''NPMODE_ERROR'', 2), (''NPMODE_QUEUE'', 3)]"

definition enumdecl_OID :: cenum_decl where
  "enumdecl_OID = EnumDecl False [
     (''OID_id_dsa_with_sha1'', 0), (''OID_id_dsa'', 1), (''OID_id_ecPublicKey'', 2),
     (''OID_id_prime192v1'', 3), (''OID_id_prime256v1'', 4), (''OID_id_ecdsa_with_sha1'', 5),
     (''OID_id_ecdsa_with_sha224'', 6), (''OID_id_ecdsa_with_sha256'', 7),
     (''OID_id_ecdsa_with_sha384'', 8), (''OID_id_ecdsa_with_sha512'', 9),
     (''OID_rsaEncryption'', 10), (''OID_sha1WithRSAEncryption'', 11),
     (''OID_sha256WithRSAEncryption'', 12), (''OID_sha384WithRSAEncryption'', 13),
     (''OID_sha512WithRSAEncryption'', 14), (''OID_sha224WithRSAEncryption'', 15),
     (''OID_data'', 16), (''OID_signed_data'', 17), (''OID_email_address'', 18),
     (''OID_contentType'', 19), (''OID_messageDigest'', 20), (''OID_signingTime'', 21),
     (''OID_smimeCapabilites'', 22), (''OID_smimeAuthenticatedAttrs'', 23), (''OID_mskrb5'', 24),
     (''OID_krb5'', 25), (''OID_krb5u2u'', 26), (''OID_msIndirectData'', 27),
     (''OID_msStatementType'', 28), (''OID_msSpOpusInfo'', 29), (''OID_msPeImageDataObjId'', 30),
     (''OID_msIndividualSPKeyPurpose'', 31), (''OID_msOutlookExpress'', 32),
     (''OID_ntlmssp'', 33), (''OID_negoex'', 34), (''OID_spnego'', 35), (''OID_IAKerb'', 36),
     (''OID_PKU2U'', 37), (''OID_Scram'', 38), (''OID_certAuthInfoAccess'', 39),
     (''OID_sha1'', 40), (''OID_id_ansip384r1'', 41), (''OID_id_ansip521r1'', 42),
     (''OID_sha256'', 43), (''OID_sha384'', 44), (''OID_sha512'', 45), (''OID_sha224'', 46),
     (''OID_commonName'', 47), (''OID_surname'', 48), (''OID_countryName'', 49),
     (''OID_locality'', 50), (''OID_stateOrProvinceName'', 51), (''OID_organizationName'', 52),
     (''OID_organizationUnitName'', 53), (''OID_title'', 54), (''OID_description'', 55),
     (''OID_name'', 56), (''OID_givenName'', 57), (''OID_initials'', 58),
     (''OID_generationalQualifier'', 59), (''OID_subjectKeyIdentifier'', 60),
     (''OID_keyUsage'', 61), (''OID_subjectAltName'', 62), (''OID_issuerAltName'', 63),
     (''OID_basicConstraints'', 64), (''OID_crlDistributionPoints'', 65),
     (''OID_certPolicies'', 66), (''OID_authorityKeyIdentifier'', 67), (''OID_extKeyUsage'', 68),
     (''OID_NetlogonMechanism'', 69), (''OID_appleLocalKdcSupported'', 70),
     (''OID_gostCPSignA'', 71), (''OID_gostCPSignB'', 72), (''OID_gostCPSignC'', 73),
     (''OID_gost2012PKey256'', 74), (''OID_gost2012PKey512'', 75),
     (''OID_gost2012Digest256'', 76), (''OID_gost2012Digest512'', 77),
     (''OID_gost2012Signature256'', 78), (''OID_gost2012Signature512'', 79),
     (''OID_gostTC26Sign256A'', 80), (''OID_gostTC26Sign256B'', 81),
     (''OID_gostTC26Sign256C'', 82), (''OID_gostTC26Sign256D'', 83),
     (''OID_gostTC26Sign512A'', 84), (''OID_gostTC26Sign512B'', 85),
     (''OID_gostTC26Sign512C'', 86), (''OID_sm2'', 87), (''OID_sm3'', 88),
     (''OID_SM2_with_SM3'', 89), (''OID_sm3WithRSAEncryption'', 90),
     (''OID_TPMLoadableKey'', 91), (''OID_TPMImportableKey'', 92), (''OID_TPMSealedData'', 93),
     (''OID_sha3_256'', 94), (''OID_sha3_384'', 95), (''OID_sha3_512'', 96),
     (''OID_id_ecdsa_with_sha3_256'', 97), (''OID_id_ecdsa_with_sha3_384'', 98),
     (''OID_id_ecdsa_with_sha3_512'', 99), (''OID_id_rsassa_pkcs1_v1_5_with_sha3_256'', 100),
     (''OID_id_rsassa_pkcs1_v1_5_with_sha3_384'', 101),
     (''OID_id_rsassa_pkcs1_v1_5_with_sha3_512'', 102), (''OID_id_ml_dsa_44'', 103),
     (''OID_id_ml_dsa_65'', 104), (''OID_id_ml_dsa_87'', 105), (''OID__NR'', 106)]"

definition enumdecl_Opt_errors :: cenum_decl where
  "enumdecl_Opt_errors = EnumDecl False [
     (''Opt_errors_continue'', 0), (''Opt_errors_panic'', 1)]"

definition enumdecl_P4_ESCR_EMASKS :: cenum_decl where
  "enumdecl_P4_ESCR_EMASKS = EnumDecl False [
     (''P4_EVENT_TC_DELIVER_MODE__DD'', 512), (''P4_EVENT_TC_DELIVER_MODE__DB'', 1024),
     (''P4_EVENT_TC_DELIVER_MODE__DI'', 2048), (''P4_EVENT_TC_DELIVER_MODE__BD'', 4096),
     (''P4_EVENT_TC_DELIVER_MODE__BB'', 8192), (''P4_EVENT_TC_DELIVER_MODE__BI'', 16384),
     (''P4_EVENT_TC_DELIVER_MODE__ID'', 32768), (''P4_EVENT_BPU_FETCH_REQUEST__TCMISS'', 512),
     (''P4_EVENT_ITLB_REFERENCE__HIT'', 512), (''P4_EVENT_ITLB_REFERENCE__MISS'', 1024),
     (''P4_EVENT_ITLB_REFERENCE__HIT_UK'', 2048), (''P4_EVENT_MEMORY_CANCEL__ST_RB_FULL'', 2048),
     (''P4_EVENT_MEMORY_CANCEL__64K_CONF'', 4096), (''P4_EVENT_MEMORY_COMPLETE__LSC'', 512),
     (''P4_EVENT_MEMORY_COMPLETE__SSC'', 1024), (''P4_EVENT_LOAD_PORT_REPLAY__SPLIT_LD'', 1024),
     (''P4_EVENT_STORE_PORT_REPLAY__SPLIT_ST'', 1024),
     (''P4_EVENT_MOB_LOAD_REPLAY__NO_STA'', 1024), (''P4_EVENT_MOB_LOAD_REPLAY__NO_STD'', 4096),
     (''P4_EVENT_MOB_LOAD_REPLAY__PARTIAL_DATA'', 8192),
     (''P4_EVENT_MOB_LOAD_REPLAY__UNALGN_ADDR'', 16384),
     (''P4_EVENT_PAGE_WALK_TYPE__DTMISS'', 512), (''P4_EVENT_PAGE_WALK_TYPE__ITMISS'', 1024),
     (''P4_EVENT_BSQ_CACHE_REFERENCE__RD_2ndL_HITS'', 512),
     (''P4_EVENT_BSQ_CACHE_REFERENCE__RD_2ndL_HITE'', 1024),
     (''P4_EVENT_BSQ_CACHE_REFERENCE__RD_2ndL_HITM'', 2048),
     (''P4_EVENT_BSQ_CACHE_REFERENCE__RD_3rdL_HITS'', 4096),
     (''P4_EVENT_BSQ_CACHE_REFERENCE__RD_3rdL_HITE'', 8192),
     (''P4_EVENT_BSQ_CACHE_REFERENCE__RD_3rdL_HITM'', 16384),
     (''P4_EVENT_BSQ_CACHE_REFERENCE__RD_2ndL_MISS'', 131072),
     (''P4_EVENT_BSQ_CACHE_REFERENCE__RD_3rdL_MISS'', 262144),
     (''P4_EVENT_BSQ_CACHE_REFERENCE__WR_2ndL_MISS'', 524288),
     (''P4_EVENT_IOQ_ALLOCATION__DEFAULT'', 512), (''P4_EVENT_IOQ_ALLOCATION__ALL_READ'', 16384),
     (''P4_EVENT_IOQ_ALLOCATION__ALL_WRITE'', 32768),
     (''P4_EVENT_IOQ_ALLOCATION__MEM_UC'', 65536), (''P4_EVENT_IOQ_ALLOCATION__MEM_WC'', 131072),
     (''P4_EVENT_IOQ_ALLOCATION__MEM_WT'', 262144),
     (''P4_EVENT_IOQ_ALLOCATION__MEM_WP'', 524288),
     (''P4_EVENT_IOQ_ALLOCATION__MEM_WB'', 1048576), (''P4_EVENT_IOQ_ALLOCATION__OWN'', 4194304),
     (''P4_EVENT_IOQ_ALLOCATION__OTHER'', 8388608),
     (''P4_EVENT_IOQ_ALLOCATION__PREFETCH'', 16777216),
     (''P4_EVENT_IOQ_ACTIVE_ENTRIES__DEFAULT'', 512),
     (''P4_EVENT_IOQ_ACTIVE_ENTRIES__ALL_READ'', 16384),
     (''P4_EVENT_IOQ_ACTIVE_ENTRIES__ALL_WRITE'', 32768),
     (''P4_EVENT_IOQ_ACTIVE_ENTRIES__MEM_UC'', 65536),
     (''P4_EVENT_IOQ_ACTIVE_ENTRIES__MEM_WC'', 131072),
     (''P4_EVENT_IOQ_ACTIVE_ENTRIES__MEM_WT'', 262144),
     (''P4_EVENT_IOQ_ACTIVE_ENTRIES__MEM_WP'', 524288),
     (''P4_EVENT_IOQ_ACTIVE_ENTRIES__MEM_WB'', 1048576),
     (''P4_EVENT_IOQ_ACTIVE_ENTRIES__OWN'', 4194304),
     (''P4_EVENT_IOQ_ACTIVE_ENTRIES__OTHER'', 8388608),
     (''P4_EVENT_IOQ_ACTIVE_ENTRIES__PREFETCH'', 16777216),
     (''P4_EVENT_FSB_DATA_ACTIVITY__DRDY_DRV'', 512),
     (''P4_EVENT_FSB_DATA_ACTIVITY__DRDY_OWN'', 1024),
     (''P4_EVENT_FSB_DATA_ACTIVITY__DRDY_OTHER'', 2048),
     (''P4_EVENT_FSB_DATA_ACTIVITY__DBSY_DRV'', 4096),
     (''P4_EVENT_FSB_DATA_ACTIVITY__DBSY_OWN'', 8192),
     (''P4_EVENT_FSB_DATA_ACTIVITY__DBSY_OTHER'', 16384),
     (''P4_EVENT_BSQ_ALLOCATION__REQ_TYPE0'', 512),
     (''P4_EVENT_BSQ_ALLOCATION__REQ_TYPE1'', 1024),
     (''P4_EVENT_BSQ_ALLOCATION__REQ_LEN0'', 2048),
     (''P4_EVENT_BSQ_ALLOCATION__REQ_LEN1'', 4096),
     (''P4_EVENT_BSQ_ALLOCATION__REQ_IO_TYPE'', 16384),
     (''P4_EVENT_BSQ_ALLOCATION__REQ_LOCK_TYPE'', 32768),
     (''P4_EVENT_BSQ_ALLOCATION__REQ_CACHE_TYPE'', 65536),
     (''P4_EVENT_BSQ_ALLOCATION__REQ_SPLIT_TYPE'', 131072),
     (''P4_EVENT_BSQ_ALLOCATION__REQ_DEM_TYPE'', 262144),
     (''P4_EVENT_BSQ_ALLOCATION__REQ_ORD_TYPE'', 524288),
     (''P4_EVENT_BSQ_ALLOCATION__MEM_TYPE0'', 1048576),
     (''P4_EVENT_BSQ_ALLOCATION__MEM_TYPE1'', 2097152),
     (''P4_EVENT_BSQ_ALLOCATION__MEM_TYPE2'', 4194304),
     (''P4_EVENT_BSQ_ACTIVE_ENTRIES__REQ_TYPE0'', 512),
     (''P4_EVENT_BSQ_ACTIVE_ENTRIES__REQ_TYPE1'', 1024),
     (''P4_EVENT_BSQ_ACTIVE_ENTRIES__REQ_LEN0'', 2048),
     (''P4_EVENT_BSQ_ACTIVE_ENTRIES__REQ_LEN1'', 4096),
     (''P4_EVENT_BSQ_ACTIVE_ENTRIES__REQ_IO_TYPE'', 16384),
     (''P4_EVENT_BSQ_ACTIVE_ENTRIES__REQ_LOCK_TYPE'', 32768),
     (''P4_EVENT_BSQ_ACTIVE_ENTRIES__REQ_CACHE_TYPE'', 65536),
     (''P4_EVENT_BSQ_ACTIVE_ENTRIES__REQ_SPLIT_TYPE'', 131072),
     (''P4_EVENT_BSQ_ACTIVE_ENTRIES__REQ_DEM_TYPE'', 262144),
     (''P4_EVENT_BSQ_ACTIVE_ENTRIES__REQ_ORD_TYPE'', 524288),
     (''P4_EVENT_BSQ_ACTIVE_ENTRIES__MEM_TYPE0'', 1048576),
     (''P4_EVENT_BSQ_ACTIVE_ENTRIES__MEM_TYPE1'', 2097152),
     (''P4_EVENT_BSQ_ACTIVE_ENTRIES__MEM_TYPE2'', 4194304),
     (''P4_EVENT_SSE_INPUT_ASSIST__ALL'', 16777216), (''P4_EVENT_PACKED_SP_UOP__ALL'', 16777216),
     (''P4_EVENT_PACKED_DP_UOP__ALL'', 16777216), (''P4_EVENT_SCALAR_SP_UOP__ALL'', 16777216),
     (''P4_EVENT_SCALAR_DP_UOP__ALL'', 16777216), (''P4_EVENT_64BIT_MMX_UOP__ALL'', 16777216),
     (''P4_EVENT_128BIT_MMX_UOP__ALL'', 16777216), (''P4_EVENT_X87_FP_UOP__ALL'', 16777216),
     (''P4_EVENT_TC_MISC__FLUSH'', 8192), (''P4_EVENT_GLOBAL_POWER_EVENTS__RUNNING'', 512),
     (''P4_EVENT_TC_MS_XFER__CISC'', 512), (''P4_EVENT_UOP_QUEUE_WRITES__FROM_TC_BUILD'', 512),
     (''P4_EVENT_UOP_QUEUE_WRITES__FROM_TC_DELIVER'', 1024),
     (''P4_EVENT_UOP_QUEUE_WRITES__FROM_ROM'', 2048),
     (''P4_EVENT_RETIRED_MISPRED_BRANCH_TYPE__CONDITIONAL'', 1024),
     (''P4_EVENT_RETIRED_MISPRED_BRANCH_TYPE__CALL'', 2048),
     (''P4_EVENT_RETIRED_MISPRED_BRANCH_TYPE__RETURN'', 4096),
     (''P4_EVENT_RETIRED_MISPRED_BRANCH_TYPE__INDIRECT'', 8192),
     (''P4_EVENT_RETIRED_BRANCH_TYPE__CONDITIONAL'', 1024),
     (''P4_EVENT_RETIRED_BRANCH_TYPE__CALL'', 2048),
     (''P4_EVENT_RETIRED_BRANCH_TYPE__RETURN'', 4096),
     (''P4_EVENT_RETIRED_BRANCH_TYPE__INDIRECT'', 8192),
     (''P4_EVENT_RESOURCE_STALL__SBFULL'', 16384), (''P4_EVENT_WC_BUFFER__WCB_EVICTS'', 512),
     (''P4_EVENT_WC_BUFFER__WCB_FULL_EVICTS'', 1024),
     (''P4_EVENT_FRONT_END_EVENT__NBOGUS'', 512), (''P4_EVENT_FRONT_END_EVENT__BOGUS'', 1024),
     (''P4_EVENT_EXECUTION_EVENT__NBOGUS0'', 512), (''P4_EVENT_EXECUTION_EVENT__NBOGUS1'', 1024),
     (''P4_EVENT_EXECUTION_EVENT__NBOGUS2'', 2048),
     (''P4_EVENT_EXECUTION_EVENT__NBOGUS3'', 4096), (''P4_EVENT_EXECUTION_EVENT__BOGUS0'', 8192),
     (''P4_EVENT_EXECUTION_EVENT__BOGUS1'', 16384),
     (''P4_EVENT_EXECUTION_EVENT__BOGUS2'', 32768),
     (''P4_EVENT_EXECUTION_EVENT__BOGUS3'', 65536), (''P4_EVENT_REPLAY_EVENT__NBOGUS'', 512),
     (''P4_EVENT_REPLAY_EVENT__BOGUS'', 1024), (''P4_EVENT_INSTR_RETIRED__NBOGUSNTAG'', 512),
     (''P4_EVENT_INSTR_RETIRED__NBOGUSTAG'', 1024),
     (''P4_EVENT_INSTR_RETIRED__BOGUSNTAG'', 2048), (''P4_EVENT_INSTR_RETIRED__BOGUSTAG'', 4096),
     (''P4_EVENT_UOPS_RETIRED__NBOGUS'', 512), (''P4_EVENT_UOPS_RETIRED__BOGUS'', 1024),
     (''P4_EVENT_UOP_TYPE__TAGLOADS'', 1024), (''P4_EVENT_UOP_TYPE__TAGSTORES'', 2048),
     (''P4_EVENT_BRANCH_RETIRED__MMNP'', 512), (''P4_EVENT_BRANCH_RETIRED__MMNM'', 1024),
     (''P4_EVENT_BRANCH_RETIRED__MMTP'', 2048), (''P4_EVENT_BRANCH_RETIRED__MMTM'', 4096),
     (''P4_EVENT_MISPRED_BRANCH_RETIRED__NBOGUS'', 512), (''P4_EVENT_X87_ASSIST__FPSU'', 512),
     (''P4_EVENT_X87_ASSIST__FPSO'', 1024), (''P4_EVENT_X87_ASSIST__POAO'', 2048),
     (''P4_EVENT_X87_ASSIST__POAU'', 4096), (''P4_EVENT_X87_ASSIST__PREA'', 8192),
     (''P4_EVENT_MACHINE_CLEAR__CLEAR'', 512), (''P4_EVENT_MACHINE_CLEAR__MOCLEAR'', 1024),
     (''P4_EVENT_MACHINE_CLEAR__SMCLEAR'', 2048), (''P4_EVENT_INSTR_COMPLETED__NBOGUS'', 512),
     (''P4_EVENT_INSTR_COMPLETED__BOGUS'', 1024)]"

definition enumdecl_P4_EVENTS :: cenum_decl where
  "enumdecl_P4_EVENTS = EnumDecl False [
     (''P4_EVENT_TC_DELIVER_MODE'', 0), (''P4_EVENT_BPU_FETCH_REQUEST'', 1),
     (''P4_EVENT_ITLB_REFERENCE'', 2), (''P4_EVENT_MEMORY_CANCEL'', 3),
     (''P4_EVENT_MEMORY_COMPLETE'', 4), (''P4_EVENT_LOAD_PORT_REPLAY'', 5),
     (''P4_EVENT_STORE_PORT_REPLAY'', 6), (''P4_EVENT_MOB_LOAD_REPLAY'', 7),
     (''P4_EVENT_PAGE_WALK_TYPE'', 8), (''P4_EVENT_BSQ_CACHE_REFERENCE'', 9),
     (''P4_EVENT_IOQ_ALLOCATION'', 10), (''P4_EVENT_IOQ_ACTIVE_ENTRIES'', 11),
     (''P4_EVENT_FSB_DATA_ACTIVITY'', 12), (''P4_EVENT_BSQ_ALLOCATION'', 13),
     (''P4_EVENT_BSQ_ACTIVE_ENTRIES'', 14), (''P4_EVENT_SSE_INPUT_ASSIST'', 15),
     (''P4_EVENT_PACKED_SP_UOP'', 16), (''P4_EVENT_PACKED_DP_UOP'', 17),
     (''P4_EVENT_SCALAR_SP_UOP'', 18), (''P4_EVENT_SCALAR_DP_UOP'', 19),
     (''P4_EVENT_64BIT_MMX_UOP'', 20), (''P4_EVENT_128BIT_MMX_UOP'', 21),
     (''P4_EVENT_X87_FP_UOP'', 22), (''P4_EVENT_TC_MISC'', 23),
     (''P4_EVENT_GLOBAL_POWER_EVENTS'', 24), (''P4_EVENT_TC_MS_XFER'', 25),
     (''P4_EVENT_UOP_QUEUE_WRITES'', 26), (''P4_EVENT_RETIRED_MISPRED_BRANCH_TYPE'', 27),
     (''P4_EVENT_RETIRED_BRANCH_TYPE'', 28), (''P4_EVENT_RESOURCE_STALL'', 29),
     (''P4_EVENT_WC_BUFFER'', 30), (''P4_EVENT_B2B_CYCLES'', 31), (''P4_EVENT_BNR'', 32),
     (''P4_EVENT_SNOOP'', 33), (''P4_EVENT_RESPONSE'', 34), (''P4_EVENT_FRONT_END_EVENT'', 35),
     (''P4_EVENT_EXECUTION_EVENT'', 36), (''P4_EVENT_REPLAY_EVENT'', 37),
     (''P4_EVENT_INSTR_RETIRED'', 38), (''P4_EVENT_UOPS_RETIRED'', 39),
     (''P4_EVENT_UOP_TYPE'', 40), (''P4_EVENT_BRANCH_RETIRED'', 41),
     (''P4_EVENT_MISPRED_BRANCH_RETIRED'', 42), (''P4_EVENT_X87_ASSIST'', 43),
     (''P4_EVENT_MACHINE_CLEAR'', 44), (''P4_EVENT_INSTR_COMPLETED'', 45)]"

definition enumdecl_P4_EVENT_OPCODES :: cenum_decl where
  "enumdecl_P4_EVENT_OPCODES = EnumDecl False [
     (''P4_EVENT_TC_DELIVER_MODE_OPCODE'', 257), (''P4_EVENT_BPU_FETCH_REQUEST_OPCODE'', 768),
     (''P4_EVENT_ITLB_REFERENCE_OPCODE'', 6147), (''P4_EVENT_MEMORY_CANCEL_OPCODE'', 517),
     (''P4_EVENT_MEMORY_COMPLETE_OPCODE'', 2050), (''P4_EVENT_LOAD_PORT_REPLAY_OPCODE'', 1026),
     (''P4_EVENT_STORE_PORT_REPLAY_OPCODE'', 1282), (''P4_EVENT_MOB_LOAD_REPLAY_OPCODE'', 770),
     (''P4_EVENT_PAGE_WALK_TYPE_OPCODE'', 260), (''P4_EVENT_BSQ_CACHE_REFERENCE_OPCODE'', 3079),
     (''P4_EVENT_IOQ_ALLOCATION_OPCODE'', 774), (''P4_EVENT_IOQ_ACTIVE_ENTRIES_OPCODE'', 6662),
     (''P4_EVENT_FSB_DATA_ACTIVITY_OPCODE'', 5894), (''P4_EVENT_BSQ_ALLOCATION_OPCODE'', 1287),
     (''P4_EVENT_BSQ_ACTIVE_ENTRIES_OPCODE'', 1543),
     (''P4_EVENT_SSE_INPUT_ASSIST_OPCODE'', 13313), (''P4_EVENT_PACKED_SP_UOP_OPCODE'', 2049),
     (''P4_EVENT_PACKED_DP_UOP_OPCODE'', 3073), (''P4_EVENT_SCALAR_SP_UOP_OPCODE'', 2561),
     (''P4_EVENT_SCALAR_DP_UOP_OPCODE'', 3585), (''P4_EVENT_64BIT_MMX_UOP_OPCODE'', 513),
     (''P4_EVENT_128BIT_MMX_UOP_OPCODE'', 6657), (''P4_EVENT_X87_FP_UOP_OPCODE'', 1025),
     (''P4_EVENT_TC_MISC_OPCODE'', 1537), (''P4_EVENT_GLOBAL_POWER_EVENTS_OPCODE'', 4870),
     (''P4_EVENT_TC_MS_XFER_OPCODE'', 1280), (''P4_EVENT_UOP_QUEUE_WRITES_OPCODE'', 2304),
     (''P4_EVENT_RETIRED_MISPRED_BRANCH_TYPE_OPCODE'', 1282),
     (''P4_EVENT_RETIRED_BRANCH_TYPE_OPCODE'', 1026), (''P4_EVENT_RESOURCE_STALL_OPCODE'', 257),
     (''P4_EVENT_WC_BUFFER_OPCODE'', 1285), (''P4_EVENT_B2B_CYCLES_OPCODE'', 5635),
     (''P4_EVENT_BNR_OPCODE'', 2051), (''P4_EVENT_SNOOP_OPCODE'', 1539),
     (''P4_EVENT_RESPONSE_OPCODE'', 1027), (''P4_EVENT_FRONT_END_EVENT_OPCODE'', 2053),
     (''P4_EVENT_EXECUTION_EVENT_OPCODE'', 3077), (''P4_EVENT_REPLAY_EVENT_OPCODE'', 2309),
     (''P4_EVENT_INSTR_RETIRED_OPCODE'', 516), (''P4_EVENT_UOPS_RETIRED_OPCODE'', 260),
     (''P4_EVENT_UOP_TYPE_OPCODE'', 514), (''P4_EVENT_BRANCH_RETIRED_OPCODE'', 1541),
     (''P4_EVENT_MISPRED_BRANCH_RETIRED_OPCODE'', 772), (''P4_EVENT_X87_ASSIST_OPCODE'', 773),
     (''P4_EVENT_MACHINE_CLEAR_OPCODE'', 517), (''P4_EVENT_INSTR_COMPLETED_OPCODE'', 1796)]"

definition enumdecl_P4_PEBS_METRIC :: cenum_decl where
  "enumdecl_P4_PEBS_METRIC = EnumDecl False [
     (''P4_PEBS_METRIC__none'', 0), (''P4_PEBS_METRIC__1stl_cache_load_miss_retired'', 1),
     (''P4_PEBS_METRIC__2ndl_cache_load_miss_retired'', 2),
     (''P4_PEBS_METRIC__dtlb_load_miss_retired'', 3),
     (''P4_PEBS_METRIC__dtlb_store_miss_retired'', 4),
     (''P4_PEBS_METRIC__dtlb_all_miss_retired'', 5),
     (''P4_PEBS_METRIC__tagged_mispred_branch'', 6),
     (''P4_PEBS_METRIC__mob_load_replay_retired'', 7),
     (''P4_PEBS_METRIC__split_load_retired'', 8), (''P4_PEBS_METRIC__split_store_retired'', 9),
     (''P4_PEBS_METRIC__max'', 10)]"

definition enumdecl_SHIFT_DIRECTION :: cenum_decl where
  "enumdecl_SHIFT_DIRECTION = EnumDecl False [
     (''SHIFT_LEFT'', 0), (''SHIFT_RIGHT'', 1)]"

definition enumdecl_TPM_OPS_FLAGS :: cenum_decl where
  "enumdecl_TPM_OPS_FLAGS = EnumDecl False [
     (''TPM_OPS_AUTO_STARTUP'', 1)]"

definition enumdecl___sk_action :: cenum_decl where
  "enumdecl___sk_action = EnumDecl False [
     (''__SK_DROP'', 0), (''__SK_PASS'', 1), (''__SK_REDIRECT'', 2), (''__SK_NONE'', 3)]"

definition enumdecl__cache_type :: cenum_decl where
  "enumdecl__cache_type = EnumDecl False [
     (''CTYPE_NULL'', 0), (''CTYPE_DATA'', 1), (''CTYPE_INST'', 2), (''CTYPE_UNIFIED'', 3)]"

definition enumdecl__slab_flag_bits :: cenum_decl where
  "enumdecl__slab_flag_bits = EnumDecl False [
     (''_SLAB_CONSISTENCY_CHECKS'', 0), (''_SLAB_RED_ZONE'', 1), (''_SLAB_POISON'', 2),
     (''_SLAB_KMALLOC'', 3), (''_SLAB_HWCACHE_ALIGN'', 4), (''_SLAB_CACHE_DMA'', 5),
     (''_SLAB_CACHE_DMA32'', 6), (''_SLAB_STORE_USER'', 7), (''_SLAB_PANIC'', 8),
     (''_SLAB_TYPESAFE_BY_RCU'', 9), (''_SLAB_TRACE'', 10), (''_SLAB_NOLEAKTRACE'', 11),
     (''_SLAB_NO_MERGE'', 12), (''_SLAB_ACCOUNT'', 13), (''_SLAB_NO_USER_FLAGS'', 14),
     (''_SLAB_SKIP_KFENCE'', 15), (''_SLAB_RECLAIM_ACCOUNT'', 16), (''_SLAB_OBJECT_POISON'', 17),
     (''_SLAB_CMPXCHG_DOUBLE'', 18), (''_SLAB_NO_OBJ_EXT'', 19), (''_SLAB_OBJ_EXT_IN_OBJ'', 20),
     (''_SLAB_FLAGS_LAST_BIT'', 21)]"

definition enumdecl_aa_code :: cenum_decl where
  "enumdecl_aa_code = EnumDecl False [
     (''AA_U8'', 0), (''AA_U16'', 1), (''AA_U32'', 2), (''AA_U64'', 3), (''AA_NAME'', 4),
     (''AA_STRING'', 5), (''AA_BLOB'', 6), (''AA_STRUCT'', 7), (''AA_STRUCTEND'', 8),
     (''AA_LIST'', 9), (''AA_LISTEND'', 10), (''AA_ARRAY'', 11), (''AA_ARRAYEND'', 12)]"

definition enumdecl_aa_sfs_type :: cenum_decl where
  "enumdecl_aa_sfs_type = EnumDecl False [
     (''AA_SFS_TYPE_BOOLEAN'', 0), (''AA_SFS_TYPE_BOOLEAN_INTPRINT'', 1),
     (''AA_SFS_TYPE_STRING'', 2), (''AA_SFS_TYPE_U64'', 3), (''AA_SFS_TYPE_FOPS'', 4),
     (''AA_SFS_TYPE_DIR'', 5)]"

definition enumdecl_aafs_ns_type :: cenum_decl where
  "enumdecl_aafs_ns_type = EnumDecl False [
     (''AAFS_NS_DIR'', 0), (''AAFS_NS_PROFS'', 1), (''AAFS_NS_NS'', 2),
     (''AAFS_NS_RAW_DATA'', 3), (''AAFS_NS_LOAD'', 4), (''AAFS_NS_REPLACE'', 5),
     (''AAFS_NS_REMOVE'', 6), (''AAFS_NS_REVISION'', 7), (''AAFS_NS_COUNT'', 8),
     (''AAFS_NS_MAX_COUNT'', 9), (''AAFS_NS_SIZE'', 10), (''AAFS_NS_MAX_SIZE'', 11),
     (''AAFS_NS_OWNER'', 12), (''AAFS_NS_SIZEOF'', 13)]"

definition enumdecl_aafs_prof_type :: cenum_decl where
  "enumdecl_aafs_prof_type = EnumDecl False [
     (''AAFS_PROF_DIR'', 0), (''AAFS_PROF_PROFS'', 1), (''AAFS_PROF_NAME'', 2),
     (''AAFS_PROF_MODE'', 3), (''AAFS_PROF_ATTACH'', 4), (''AAFS_PROF_HASH'', 5),
     (''AAFS_PROF_RAW_DATA'', 6), (''AAFS_PROF_RAW_HASH'', 7), (''AAFS_PROF_RAW_ABI'', 8),
     (''AAFS_PROF_LEARNING_COUNT'', 9), (''AAFS_PROF_SIZEOF'', 10)]"

definition enumdecl_aat2870_id :: cenum_decl where
  "enumdecl_aat2870_id = EnumDecl False [
     (''AAT2870_ID_BL'', 0), (''AAT2870_ID_LDOA'', 1), (''AAT2870_ID_LDOB'', 2),
     (''AAT2870_ID_LDOC'', 3), (''AAT2870_ID_LDOD'', 4)]"

definition enumdecl_access_coordinate_class :: cenum_decl where
  "enumdecl_access_coordinate_class = EnumDecl False [
     (''ACCESS_COORDINATE_LOCAL'', 0), (''ACCESS_COORDINATE_CPU'', 1),
     (''ACCESS_COORDINATE_MAX'', 2)]"

definition enumdecl_acpi_attr_enum :: cenum_decl where
  "enumdecl_acpi_attr_enum = EnumDecl False [
     (''ACPI_ATTR_LABEL_SHOW'', 0), (''ACPI_ATTR_INDEX_SHOW'', 1)]"

definition enumdecl_acpi_bridge_type :: cenum_decl where
  "enumdecl_acpi_bridge_type = EnumDecl False [
     (''ACPI_BRIDGE_TYPE_PCIE'', 1), (''ACPI_BRIDGE_TYPE_CXL'', 2)]"

definition enumdecl_acpi_bus_device_type :: cenum_decl where
  "enumdecl_acpi_bus_device_type = EnumDecl False [
     (''ACPI_BUS_TYPE_DEVICE'', 0), (''ACPI_BUS_TYPE_POWER'', 1),
     (''ACPI_BUS_TYPE_PROCESSOR'', 2), (''ACPI_BUS_TYPE_THERMAL'', 3),
     (''ACPI_BUS_TYPE_POWER_BUTTON'', 4), (''ACPI_BUS_TYPE_SLEEP_BUTTON'', 5),
     (''ACPI_BUS_TYPE_ECDT_EC'', 6), (''ACPI_BUS_DEVICE_TYPE_COUNT'', 7)]"

definition enumdecl_acpi_cdat_type :: cenum_decl where
  "enumdecl_acpi_cdat_type = EnumDecl False [
     (''ACPI_CDAT_TYPE_DSMAS'', 0), (''ACPI_CDAT_TYPE_DSLBIS'', 1),
     (''ACPI_CDAT_TYPE_DSMSCIS'', 2), (''ACPI_CDAT_TYPE_DSIS'', 3),
     (''ACPI_CDAT_TYPE_DSEMTS'', 4), (''ACPI_CDAT_TYPE_SSLBIS'', 5),
     (''ACPI_CDAT_TYPE_RESERVED'', 6)]"

definition enumdecl_acpi_cedt_type :: cenum_decl where
  "enumdecl_acpi_cedt_type = EnumDecl False [
     (''ACPI_CEDT_TYPE_CHBS'', 0), (''ACPI_CEDT_TYPE_CFMWS'', 1), (''ACPI_CEDT_TYPE_CXIMS'', 2),
     (''ACPI_CEDT_TYPE_RDPAS'', 3), (''ACPI_CEDT_TYPE_RESERVED'', 4)]"

definition enumdecl_acpi_device_swnode_dev_props :: cenum_decl where
  "enumdecl_acpi_device_swnode_dev_props = EnumDecl False [
     (''ACPI_DEVICE_SWNODE_DEV_ROTATION'', 0), (''ACPI_DEVICE_SWNODE_DEV_CLOCK_FREQUENCY'', 1),
     (''ACPI_DEVICE_SWNODE_DEV_LED_MAX_MICROAMP'', 2),
     (''ACPI_DEVICE_SWNODE_DEV_FLASH_MAX_MICROAMP'', 3),
     (''ACPI_DEVICE_SWNODE_DEV_FLASH_MAX_TIMEOUT_US'', 4),
     (''ACPI_DEVICE_SWNODE_DEV_NUM_OF'', 5), (''ACPI_DEVICE_SWNODE_DEV_NUM_ENTRIES'', 6)]"

definition enumdecl_acpi_device_swnode_ep_props :: cenum_decl where
  "enumdecl_acpi_device_swnode_ep_props = EnumDecl False [
     (''ACPI_DEVICE_SWNODE_EP_REMOTE_EP'', 0), (''ACPI_DEVICE_SWNODE_EP_BUS_TYPE'', 1),
     (''ACPI_DEVICE_SWNODE_EP_REG'', 2), (''ACPI_DEVICE_SWNODE_EP_CLOCK_LANES'', 3),
     (''ACPI_DEVICE_SWNODE_EP_DATA_LANES'', 4), (''ACPI_DEVICE_SWNODE_EP_LANE_POLARITIES'', 5),
     (''ACPI_DEVICE_SWNODE_EP_LINK_FREQUENCIES'', 6), (''ACPI_DEVICE_SWNODE_EP_NUM_OF'', 7),
     (''ACPI_DEVICE_SWNODE_EP_NUM_ENTRIES'', 8)]"

definition enumdecl_acpi_device_swnode_port_props :: cenum_decl where
  "enumdecl_acpi_device_swnode_port_props = EnumDecl False [
     (''ACPI_DEVICE_SWNODE_PORT_REG'', 0), (''ACPI_DEVICE_SWNODE_PORT_NUM_OF'', 1),
     (''ACPI_DEVICE_SWNODE_PORT_NUM_ENTRIES'', 2)]"

definition enumdecl_acpi_dmar_scope_type :: cenum_decl where
  "enumdecl_acpi_dmar_scope_type = EnumDecl False [
     (''ACPI_DMAR_SCOPE_TYPE_NOT_USED'', 0), (''ACPI_DMAR_SCOPE_TYPE_ENDPOINT'', 1),
     (''ACPI_DMAR_SCOPE_TYPE_BRIDGE'', 2), (''ACPI_DMAR_SCOPE_TYPE_IOAPIC'', 3),
     (''ACPI_DMAR_SCOPE_TYPE_HPET'', 4), (''ACPI_DMAR_SCOPE_TYPE_NAMESPACE'', 5),
     (''ACPI_DMAR_SCOPE_TYPE_RESERVED'', 6)]"

definition enumdecl_acpi_dmar_type :: cenum_decl where
  "enumdecl_acpi_dmar_type = EnumDecl False [
     (''ACPI_DMAR_TYPE_HARDWARE_UNIT'', 0), (''ACPI_DMAR_TYPE_RESERVED_MEMORY'', 1),
     (''ACPI_DMAR_TYPE_ROOT_ATS'', 2), (''ACPI_DMAR_TYPE_HARDWARE_AFFINITY'', 3),
     (''ACPI_DMAR_TYPE_NAMESPACE'', 4), (''ACPI_DMAR_TYPE_SATC'', 5),
     (''ACPI_DMAR_TYPE_SIDP'', 6), (''ACPI_DMAR_TYPE_RESERVED'', 7)]"

definition enumdecl_acpi_ec_event_state :: cenum_decl where
  "enumdecl_acpi_ec_event_state = EnumDecl False [
     (''EC_EVENT_READY'', 0), (''EC_EVENT_IN_PROGRESS'', 1), (''EC_EVENT_COMPLETE'', 2)]"

definition enumdecl_acpi_erst_actions :: cenum_decl where
  "enumdecl_acpi_erst_actions = EnumDecl False [
     (''ACPI_ERST_BEGIN_WRITE'', 0), (''ACPI_ERST_BEGIN_READ'', 1),
     (''ACPI_ERST_BEGIN_CLEAR'', 2), (''ACPI_ERST_END'', 3),
     (''ACPI_ERST_SET_RECORD_OFFSET'', 4), (''ACPI_ERST_EXECUTE_OPERATION'', 5),
     (''ACPI_ERST_CHECK_BUSY_STATUS'', 6), (''ACPI_ERST_GET_COMMAND_STATUS'', 7),
     (''ACPI_ERST_GET_RECORD_ID'', 8), (''ACPI_ERST_SET_RECORD_ID'', 9),
     (''ACPI_ERST_GET_RECORD_COUNT'', 10), (''ACPI_ERST_BEGIN_DUMMY_WRIITE'', 11),
     (''ACPI_ERST_NOT_USED'', 12), (''ACPI_ERST_GET_ERROR_RANGE'', 13),
     (''ACPI_ERST_GET_ERROR_LENGTH'', 14), (''ACPI_ERST_GET_ERROR_ATTRIBUTES'', 15),
     (''ACPI_ERST_EXECUTE_TIMINGS'', 16), (''ACPI_ERST_ACTION_RESERVED'', 17)]"

definition enumdecl_acpi_erst_instructions :: cenum_decl where
  "enumdecl_acpi_erst_instructions = EnumDecl False [
     (''ACPI_ERST_READ_REGISTER'', 0), (''ACPI_ERST_READ_REGISTER_VALUE'', 1),
     (''ACPI_ERST_WRITE_REGISTER'', 2), (''ACPI_ERST_WRITE_REGISTER_VALUE'', 3),
     (''ACPI_ERST_NOOP'', 4), (''ACPI_ERST_LOAD_VAR1'', 5), (''ACPI_ERST_LOAD_VAR2'', 6),
     (''ACPI_ERST_STORE_VAR1'', 7), (''ACPI_ERST_ADD'', 8), (''ACPI_ERST_SUBTRACT'', 9),
     (''ACPI_ERST_ADD_VALUE'', 10), (''ACPI_ERST_SUBTRACT_VALUE'', 11),
     (''ACPI_ERST_STALL'', 12), (''ACPI_ERST_STALL_WHILE_TRUE'', 13),
     (''ACPI_ERST_SKIP_NEXT_IF_TRUE'', 14), (''ACPI_ERST_GOTO'', 15),
     (''ACPI_ERST_SET_SRC_ADDRESS_BASE'', 16), (''ACPI_ERST_SET_DST_ADDRESS_BASE'', 17),
     (''ACPI_ERST_MOVE_DATA'', 18), (''ACPI_ERST_INSTRUCTION_RESERVED'', 19)]"

definition enumdecl_acpi_ex_debugger_commands :: cenum_decl where
  "enumdecl_acpi_ex_debugger_commands = EnumDecl False [
     (''CMD_NOT_FOUND'', 0), (''CMD_NULL'', 1), (''CMD_ALL'', 2), (''CMD_ALLOCATIONS'', 3),
     (''CMD_ARGS'', 4), (''CMD_ARGUMENTS'', 5), (''CMD_BREAKPOINT'', 6), (''CMD_BUSINFO'', 7),
     (''CMD_CALL'', 8), (''CMD_DEBUG'', 9), (''CMD_DISASSEMBLE'', 10), (''CMD_DISASM'', 11),
     (''CMD_DUMP'', 12), (''CMD_EVALUATE'', 13), (''CMD_EXECUTE'', 14), (''CMD_EXIT'', 15),
     (''CMD_FIELDS'', 16), (''CMD_FIND'', 17), (''CMD_GO'', 18), (''CMD_HANDLERS'', 19),
     (''CMD_HELP'', 20), (''CMD_HELP2'', 21), (''CMD_HISTORY'', 22), (''CMD_HISTORY_EXE'', 23),
     (''CMD_HISTORY_LAST'', 24), (''CMD_INFORMATION'', 25), (''CMD_INTEGRITY'', 26),
     (''CMD_INTO'', 27), (''CMD_LEVEL'', 28), (''CMD_LIST'', 29), (''CMD_LOCALS'', 30),
     (''CMD_LOCKS'', 31), (''CMD_METHODS'', 32), (''CMD_NAMESPACE'', 33), (''CMD_NOTIFY'', 34),
     (''CMD_OBJECTS'', 35), (''CMD_OSI'', 36), (''CMD_OWNER'', 37), (''CMD_PATHS'', 38),
     (''CMD_PREDEFINED'', 39), (''CMD_PREFIX'', 40), (''CMD_QUIT'', 41),
     (''CMD_REFERENCES'', 42), (''CMD_RESOURCES'', 43), (''CMD_RESULTS'', 44), (''CMD_SET'', 45),
     (''CMD_STATS'', 46), (''CMD_STOP'', 47), (''CMD_TABLES'', 48), (''CMD_TEMPLATE'', 49),
     (''CMD_TRACE'', 50), (''CMD_TREE'', 51), (''CMD_TYPE'', 52)]"

definition enumdecl_acpi_gpio_ignore_list :: cenum_decl where
  "enumdecl_acpi_gpio_ignore_list = EnumDecl False [
     (''ACPI_GPIO_IGNORE_WAKE'', 0), (''ACPI_GPIO_IGNORE_INTERRUPT'', 1)]"

definition enumdecl_acpi_hest_notify_types :: cenum_decl where
  "enumdecl_acpi_hest_notify_types = EnumDecl False [
     (''ACPI_HEST_NOTIFY_POLLED'', 0), (''ACPI_HEST_NOTIFY_EXTERNAL'', 1),
     (''ACPI_HEST_NOTIFY_LOCAL'', 2), (''ACPI_HEST_NOTIFY_SCI'', 3),
     (''ACPI_HEST_NOTIFY_NMI'', 4), (''ACPI_HEST_NOTIFY_CMCI'', 5),
     (''ACPI_HEST_NOTIFY_MCE'', 6), (''ACPI_HEST_NOTIFY_GPIO'', 7),
     (''ACPI_HEST_NOTIFY_SEA'', 8), (''ACPI_HEST_NOTIFY_SEI'', 9),
     (''ACPI_HEST_NOTIFY_GSIV'', 10), (''ACPI_HEST_NOTIFY_SOFTWARE_DELEGATED'', 11),
     (''ACPI_HEST_NOTIFY_RESERVED'', 12)]"

definition enumdecl_acpi_hest_types :: cenum_decl where
  "enumdecl_acpi_hest_types = EnumDecl False [
     (''ACPI_HEST_TYPE_IA32_CHECK'', 0), (''ACPI_HEST_TYPE_IA32_CORRECTED_CHECK'', 1),
     (''ACPI_HEST_TYPE_IA32_NMI'', 2), (''ACPI_HEST_TYPE_NOT_USED3'', 3),
     (''ACPI_HEST_TYPE_NOT_USED4'', 4), (''ACPI_HEST_TYPE_NOT_USED5'', 5),
     (''ACPI_HEST_TYPE_AER_ROOT_PORT'', 6), (''ACPI_HEST_TYPE_AER_ENDPOINT'', 7),
     (''ACPI_HEST_TYPE_AER_BRIDGE'', 8), (''ACPI_HEST_TYPE_GENERIC_ERROR'', 9),
     (''ACPI_HEST_TYPE_GENERIC_ERROR_V2'', 10), (''ACPI_HEST_TYPE_IA32_DEFERRED_CHECK'', 11),
     (''ACPI_HEST_TYPE_RESERVED'', 12)]"

definition enumdecl_acpi_hmat_type :: cenum_decl where
  "enumdecl_acpi_hmat_type = EnumDecl False [
     (''ACPI_HMAT_TYPE_PROXIMITY'', 0), (''ACPI_HMAT_TYPE_LOCALITY'', 1),
     (''ACPI_HMAT_TYPE_CACHE'', 2), (''ACPI_HMAT_TYPE_RESERVED'', 3)]"

definition enumdecl_acpi_irq_model_id :: cenum_decl where
  "enumdecl_acpi_irq_model_id = EnumDecl False [
     (''ACPI_IRQ_MODEL_PIC'', 0), (''ACPI_IRQ_MODEL_IOAPIC'', 1),
     (''ACPI_IRQ_MODEL_IOSAPIC'', 2), (''ACPI_IRQ_MODEL_PLATFORM'', 3),
     (''ACPI_IRQ_MODEL_GIC'', 4), (''ACPI_IRQ_MODEL_GIC_V5'', 5), (''ACPI_IRQ_MODEL_LPIC'', 6),
     (''ACPI_IRQ_MODEL_RINTC'', 7), (''ACPI_IRQ_MODEL_COUNT'', 8)]"

definition enumdecl_acpi_madt_multiproc_wakeup_version :: cenum_decl where
  "enumdecl_acpi_madt_multiproc_wakeup_version = EnumDecl False [
     (''ACPI_MADT_MP_WAKEUP_VERSION_NONE'', 0), (''ACPI_MADT_MP_WAKEUP_VERSION_V1'', 1),
     (''ACPI_MADT_MP_WAKEUP_VERSION_RESERVED'', 2)]"

definition enumdecl_acpi_madt_type :: cenum_decl where
  "enumdecl_acpi_madt_type = EnumDecl False [
     (''ACPI_MADT_TYPE_LOCAL_APIC'', 0), (''ACPI_MADT_TYPE_IO_APIC'', 1),
     (''ACPI_MADT_TYPE_INTERRUPT_OVERRIDE'', 2), (''ACPI_MADT_TYPE_NMI_SOURCE'', 3),
     (''ACPI_MADT_TYPE_LOCAL_APIC_NMI'', 4), (''ACPI_MADT_TYPE_LOCAL_APIC_OVERRIDE'', 5),
     (''ACPI_MADT_TYPE_IO_SAPIC'', 6), (''ACPI_MADT_TYPE_LOCAL_SAPIC'', 7),
     (''ACPI_MADT_TYPE_INTERRUPT_SOURCE'', 8), (''ACPI_MADT_TYPE_LOCAL_X2APIC'', 9),
     (''ACPI_MADT_TYPE_LOCAL_X2APIC_NMI'', 10), (''ACPI_MADT_TYPE_GENERIC_INTERRUPT'', 11),
     (''ACPI_MADT_TYPE_GENERIC_DISTRIBUTOR'', 12), (''ACPI_MADT_TYPE_GENERIC_MSI_FRAME'', 13),
     (''ACPI_MADT_TYPE_GENERIC_REDISTRIBUTOR'', 14), (''ACPI_MADT_TYPE_GENERIC_TRANSLATOR'', 15),
     (''ACPI_MADT_TYPE_MULTIPROC_WAKEUP'', 16), (''ACPI_MADT_TYPE_CORE_PIC'', 17),
     (''ACPI_MADT_TYPE_LIO_PIC'', 18), (''ACPI_MADT_TYPE_HT_PIC'', 19),
     (''ACPI_MADT_TYPE_EIO_PIC'', 20), (''ACPI_MADT_TYPE_MSI_PIC'', 21),
     (''ACPI_MADT_TYPE_BIO_PIC'', 22), (''ACPI_MADT_TYPE_LPC_PIC'', 23),
     (''ACPI_MADT_TYPE_RINTC'', 24), (''ACPI_MADT_TYPE_IMSIC'', 25),
     (''ACPI_MADT_TYPE_APLIC'', 26), (''ACPI_MADT_TYPE_PLIC'', 27),
     (''ACPI_MADT_TYPE_GICV5_IRS'', 28), (''ACPI_MADT_TYPE_GICV5_ITS'', 29),
     (''ACPI_MADT_TYPE_GICV5_ITS_TRANSLATE'', 30), (''ACPI_MADT_TYPE_RESERVED'', 31),
     (''ACPI_MADT_TYPE_OEM_RESERVED'', 128)]"

definition enumdecl_acpi_pcct_type :: cenum_decl where
  "enumdecl_acpi_pcct_type = EnumDecl False [
     (''ACPI_PCCT_TYPE_GENERIC_SUBSPACE'', 0), (''ACPI_PCCT_TYPE_HW_REDUCED_SUBSPACE'', 1),
     (''ACPI_PCCT_TYPE_HW_REDUCED_SUBSPACE_TYPE2'', 2),
     (''ACPI_PCCT_TYPE_EXT_PCC_MASTER_SUBSPACE'', 3),
     (''ACPI_PCCT_TYPE_EXT_PCC_SLAVE_SUBSPACE'', 4),
     (''ACPI_PCCT_TYPE_HW_REG_COMM_SUBSPACE'', 5), (''ACPI_PCCT_TYPE_RESERVED'', 6)]"

definition enumdecl_acpi_predicate :: cenum_decl where
  "enumdecl_acpi_predicate = EnumDecl False [
     (''all_versions'', 0), (''less_than_or_equal'', 1), (''equal'', 2),
     (''greater_than_or_equal'', 3)]"

definition enumdecl_acpi_preferred_pm_profiles :: cenum_decl where
  "enumdecl_acpi_preferred_pm_profiles = EnumDecl False [
     (''PM_UNSPECIFIED'', 0), (''PM_DESKTOP'', 1), (''PM_MOBILE'', 2), (''PM_WORKSTATION'', 3),
     (''PM_ENTERPRISE_SERVER'', 4), (''PM_SOHO_SERVER'', 5), (''PM_APPLIANCE_PC'', 6),
     (''PM_PERFORMANCE_SERVER'', 7), (''PM_TABLET'', 8), (''NR_PM_PROFILES'', 9)]"

definition enumdecl_acpi_reconfig_event :: cenum_decl where
  "enumdecl_acpi_reconfig_event = EnumDecl False [
     (''ACPI_RECONFIG_DEVICE_ADD'', 0), (''ACPI_RECONFIG_DEVICE_REMOVE'', 1)]"

definition enumdecl_acpi_return_package_types :: cenum_decl where
  "enumdecl_acpi_return_package_types = EnumDecl False [
     (''ACPI_PTYPE1_FIXED'', 1), (''ACPI_PTYPE1_VAR'', 2), (''ACPI_PTYPE1_OPTION'', 3),
     (''ACPI_PTYPE2'', 4), (''ACPI_PTYPE2_COUNT'', 5), (''ACPI_PTYPE2_PKG_COUNT'', 6),
     (''ACPI_PTYPE2_FIXED'', 7), (''ACPI_PTYPE2_MIN'', 8), (''ACPI_PTYPE2_REV_FIXED'', 9),
     (''ACPI_PTYPE2_FIX_VAR'', 10), (''ACPI_PTYPE2_VAR_VAR'', 11),
     (''ACPI_PTYPE2_UUID_PAIR'', 12), (''ACPI_PTYPE_CUSTOM'', 13)]"

definition enumdecl_acpi_srat_type :: cenum_decl where
  "enumdecl_acpi_srat_type = EnumDecl False [
     (''ACPI_SRAT_TYPE_CPU_AFFINITY'', 0), (''ACPI_SRAT_TYPE_MEMORY_AFFINITY'', 1),
     (''ACPI_SRAT_TYPE_X2APIC_CPU_AFFINITY'', 2), (''ACPI_SRAT_TYPE_GICC_AFFINITY'', 3),
     (''ACPI_SRAT_TYPE_GIC_ITS_AFFINITY'', 4), (''ACPI_SRAT_TYPE_GENERIC_AFFINITY'', 5),
     (''ACPI_SRAT_TYPE_GENERIC_PORT_AFFINITY'', 6), (''ACPI_SRAT_TYPE_RINTC_AFFINITY'', 7),
     (''ACPI_SRAT_TYPE_RESERVED'', 8)]"

definition enumdecl_acpi_subtable_type :: cenum_decl where
  "enumdecl_acpi_subtable_type = EnumDecl False [
     (''ACPI_SUBTABLE_COMMON'', 0), (''ACPI_SUBTABLE_HMAT'', 1), (''ACPI_SUBTABLE_PRMT'', 2),
     (''ACPI_SUBTABLE_CEDT'', 3), (''CDAT_SUBTABLE'', 4)]"

definition enumdecl_acpi_viot_node_type :: cenum_decl where
  "enumdecl_acpi_viot_node_type = EnumDecl False [
     (''ACPI_VIOT_NODE_PCI_RANGE'', 1), (''ACPI_VIOT_NODE_MMIO'', 2),
     (''ACPI_VIOT_NODE_VIRTIO_IOMMU_PCI'', 3), (''ACPI_VIOT_NODE_VIRTIO_IOMMU_MMIO'', 4),
     (''ACPI_VIOT_RESERVED'', 5)]"

definition enumdecl_action_id :: cenum_decl where
  "enumdecl_action_id = EnumDecl False [
     (''ACTION_SAVE'', 1), (''ACTION_TRACE'', 2), (''ACTION_SNAPSHOT'', 3)]"

definition enumdecl_action_t :: cenum_decl where
  "enumdecl_action_t = EnumDecl False [
     (''nmi_act_kdump'', 0), (''nmi_act_dump'', 1), (''nmi_act_ips'', 2), (''nmi_act_kdb'', 3),
     (''nmi_act_kgdb'', 4), (''nmi_act_health'', 5), (''nmi_act_max'', 6)]"

definition enumdecl_actions :: cenum_decl where
  "enumdecl_actions = EnumDecl False [
     (''REGISTER'', 0), (''DEREGISTER'', 1), (''CPU_DONT_CARE'', 2)]"

definition enumdecl_add_mode :: cenum_decl where
  "enumdecl_add_mode = EnumDecl False [
     (''ADD_TO_HEAD'', 0), (''ADD_TO_TAIL'', 1)]"

definition enumdecl_addr_stride :: cenum_decl where
  "enumdecl_addr_stride = EnumDecl False [
     (''PTE_STRIDE'', 0), (''PMD_STRIDE'', 1)]"

definition enumdecl_addr_type :: cenum_decl where
  "enumdecl_addr_type = EnumDecl False [
     (''ADDR_LOCAL'', 0), (''ADDR_LOCAL_PRIV'', 1), (''ADDR_REMOTE'', 2)]"

definition enumdecl_addr_type_t :: cenum_decl where
  "enumdecl_addr_type_t = EnumDecl False [
     (''UNICAST_ADDR'', 0), (''MULTICAST_ADDR'', 1), (''ANYCAST_ADDR'', 2)]"

definition enum_decls_7 :: "cenum_decl list" where
  "enum_decls_7 = [
     enumdecl_line_9640, enumdecl_line_9646, enumdecl_line_9651, enumdecl_line_9656,
     enumdecl_line_9662, enumdecl_line_9723, enumdecl_line_9728, enumdecl_line_9753,
     enumdecl_line_9759, enumdecl_line_9766, enumdecl_line_9773, enumdecl_line_9790,
     enumdecl_line_9794, enumdecl_line_9817, enumdecl_line_9821, enumdecl_line_9827,
     enumdecl_line_9833, enumdecl_line_9837, enumdecl_line_9845, enumdecl_line_9849,
     enumdecl_line_9855, enumdecl_line_9861, enumdecl_line_9867, enumdecl_line_9871,
     enumdecl_line_9901, enumdecl_line_9909, enumdecl_line_9916, enumdecl_line_9925,
     enumdecl_line_9931, enumdecl_line_9936, enumdecl_line_9943, enumdecl_line_9961,
     enumdecl_line_9969, enumdecl_line_9987, enumdecl_line_9994, enumdecl_line_10025,
     enumdecl_line_10043, enumdecl_line_10072, enumdecl_line_10107, enumdecl_line_10134,
     enumdecl_line_10159, enumdecl_line_10165, enumdecl_line_10171, enumdecl_line_10176,
     enumdecl_line_10181, enumdecl_line_10189, enumdecl_line_10226, enumdecl_line_10234,
     enumdecl_line_10241, enumdecl_line_10247, enumdecl_line_10255, enumdecl_line_10261,
     enumdecl_line_10268, enumdecl_line_10274, enumdecl_line_10280, enumdecl_CSI_J,
     enumdecl_CSI_right_square_bracket, enumdecl_KTHREAD_BITS, enumdecl_NPmode, enumdecl_OID,
     enumdecl_Opt_errors, enumdecl_P4_ESCR_EMASKS, enumdecl_P4_EVENTS, enumdecl_P4_EVENT_OPCODES,
     enumdecl_P4_PEBS_METRIC, enumdecl_SHIFT_DIRECTION, enumdecl_TPM_OPS_FLAGS,
     enumdecl___sk_action, enumdecl__cache_type, enumdecl__slab_flag_bits, enumdecl_aa_code,
     enumdecl_aa_sfs_type, enumdecl_aafs_ns_type, enumdecl_aafs_prof_type, enumdecl_aat2870_id,
     enumdecl_access_coordinate_class, enumdecl_acpi_attr_enum, enumdecl_acpi_bridge_type,
     enumdecl_acpi_bus_device_type, enumdecl_acpi_cdat_type, enumdecl_acpi_cedt_type,
     enumdecl_acpi_device_swnode_dev_props, enumdecl_acpi_device_swnode_ep_props,
     enumdecl_acpi_device_swnode_port_props, enumdecl_acpi_dmar_scope_type,
     enumdecl_acpi_dmar_type, enumdecl_acpi_ec_event_state, enumdecl_acpi_erst_actions,
     enumdecl_acpi_erst_instructions, enumdecl_acpi_ex_debugger_commands,
     enumdecl_acpi_gpio_ignore_list, enumdecl_acpi_hest_notify_types, enumdecl_acpi_hest_types,
     enumdecl_acpi_hmat_type, enumdecl_acpi_irq_model_id,
     enumdecl_acpi_madt_multiproc_wakeup_version, enumdecl_acpi_madt_type,
     enumdecl_acpi_pcct_type, enumdecl_acpi_predicate, enumdecl_acpi_preferred_pm_profiles,
     enumdecl_acpi_reconfig_event, enumdecl_acpi_return_package_types, enumdecl_acpi_srat_type,
     enumdecl_acpi_subtable_type, enumdecl_acpi_viot_node_type, enumdecl_action_id,
     enumdecl_action_t, enumdecl_actions, enumdecl_add_mode, enumdecl_addr_stride,
     enumdecl_addr_type, enumdecl_addr_type_t]"

lemma enum_decls_7_4: "list_all enum4 enum_decls_7"
  by (unfold enum_decls_7_def
     enumdecl_line_9640_def enumdecl_line_9646_def enumdecl_line_9651_def
     enumdecl_line_9656_def enumdecl_line_9662_def enumdecl_line_9723_def
     enumdecl_line_9728_def enumdecl_line_9753_def enumdecl_line_9759_def
     enumdecl_line_9766_def enumdecl_line_9773_def enumdecl_line_9790_def
     enumdecl_line_9794_def enumdecl_line_9817_def enumdecl_line_9821_def
     enumdecl_line_9827_def enumdecl_line_9833_def enumdecl_line_9837_def
     enumdecl_line_9845_def enumdecl_line_9849_def enumdecl_line_9855_def
     enumdecl_line_9861_def enumdecl_line_9867_def enumdecl_line_9871_def
     enumdecl_line_9901_def enumdecl_line_9909_def enumdecl_line_9916_def
     enumdecl_line_9925_def enumdecl_line_9931_def enumdecl_line_9936_def
     enumdecl_line_9943_def enumdecl_line_9961_def enumdecl_line_9969_def
     enumdecl_line_9987_def enumdecl_line_9994_def enumdecl_line_10025_def
     enumdecl_line_10043_def enumdecl_line_10072_def enumdecl_line_10107_def
     enumdecl_line_10134_def enumdecl_line_10159_def enumdecl_line_10165_def
     enumdecl_line_10171_def enumdecl_line_10176_def enumdecl_line_10181_def
     enumdecl_line_10189_def enumdecl_line_10226_def enumdecl_line_10234_def
     enumdecl_line_10241_def enumdecl_line_10247_def enumdecl_line_10255_def
     enumdecl_line_10261_def enumdecl_line_10268_def enumdecl_line_10274_def
     enumdecl_line_10280_def enumdecl_CSI_J_def enumdecl_CSI_right_square_bracket_def
     enumdecl_KTHREAD_BITS_def enumdecl_NPmode_def enumdecl_OID_def enumdecl_Opt_errors_def
     enumdecl_P4_ESCR_EMASKS_def enumdecl_P4_EVENTS_def enumdecl_P4_EVENT_OPCODES_def
     enumdecl_P4_PEBS_METRIC_def enumdecl_SHIFT_DIRECTION_def enumdecl_TPM_OPS_FLAGS_def
     enumdecl___sk_action_def enumdecl__cache_type_def enumdecl__slab_flag_bits_def
     enumdecl_aa_code_def enumdecl_aa_sfs_type_def enumdecl_aafs_ns_type_def
     enumdecl_aafs_prof_type_def enumdecl_aat2870_id_def enumdecl_access_coordinate_class_def
     enumdecl_acpi_attr_enum_def enumdecl_acpi_bridge_type_def
     enumdecl_acpi_bus_device_type_def enumdecl_acpi_cdat_type_def enumdecl_acpi_cedt_type_def
     enumdecl_acpi_device_swnode_dev_props_def enumdecl_acpi_device_swnode_ep_props_def
     enumdecl_acpi_device_swnode_port_props_def enumdecl_acpi_dmar_scope_type_def
     enumdecl_acpi_dmar_type_def enumdecl_acpi_ec_event_state_def
     enumdecl_acpi_erst_actions_def enumdecl_acpi_erst_instructions_def
     enumdecl_acpi_ex_debugger_commands_def enumdecl_acpi_gpio_ignore_list_def
     enumdecl_acpi_hest_notify_types_def enumdecl_acpi_hest_types_def
     enumdecl_acpi_hmat_type_def enumdecl_acpi_irq_model_id_def
     enumdecl_acpi_madt_multiproc_wakeup_version_def enumdecl_acpi_madt_type_def
     enumdecl_acpi_pcct_type_def enumdecl_acpi_predicate_def
     enumdecl_acpi_preferred_pm_profiles_def enumdecl_acpi_reconfig_event_def
     enumdecl_acpi_return_package_types_def enumdecl_acpi_srat_type_def
     enumdecl_acpi_subtable_type_def enumdecl_acpi_viot_node_type_def enumdecl_action_id_def
     enumdecl_action_t_def enumdecl_actions_def enumdecl_add_mode_def
     enumdecl_addr_stride_def enumdecl_addr_type_def enumdecl_addr_type_t_def)
    (intro enum_list_intros enum_int_intros; simp)

lemma length_enum_decls_7: "length enum_decls_7 = 112"
  by (simp add: enum_decls_7_def)

end
