(* ===== verification/VmlinuxEnum8.thy ===== *)
theory VmlinuxEnum8
  imports EnumDecl
begin

text \<open>
  The enumerations of four bytes of \<^verbatim>\<open>src/internal/ebpf/vmlinux.h\<close> between lines 11881 and
  13445, one definition per enumeration, enumerators in order. An enumeration without a tag is
  named after the line it starts on.
\<close>

definition enumdecl_address_markers_idx :: cenum_decl where
  "enumdecl_address_markers_idx = EnumDecl False [
     (''USER_SPACE_NR'', 0), (''KERNEL_SPACE_NR'', 1), (''LDT_NR'', 2), (''LOW_KERNEL_NR'', 3),
     (''VMALLOC_START_NR'', 4), (''VMEMMAP_START_NR'', 5), (''CPU_ENTRY_AREA_NR'', 6),
     (''ESPFIX_START_NR'', 7), (''EFI_END_NR'', 8), (''HIGH_KERNEL_NR'', 9),
     (''MODULES_VADDR_NR'', 10), (''MODULES_END_NR'', 11), (''FIXADDR_START_NR'', 12),
     (''END_OF_SPACE_NR'', 13)]"

definition enumdecl_aead_algo :: cenum_decl where
  "enumdecl_aead_algo = EnumDecl False [
     (''SNP_AEAD_INVALID'', 0), (''SNP_AEAD_AES_256_GCM'', 1)]"

definition enumdecl_alarmtimer_type :: cenum_decl where
  "enumdecl_alarmtimer_type = EnumDecl False [
     (''ALARM_REALTIME'', 0), (''ALARM_BOOTTIME'', 1), (''ALARM_NUMTYPE'', 2),
     (''ALARM_REALTIME_FREEZER'', 3), (''ALARM_BOOTTIME_FREEZER'', 4)]"

definition enumdecl_align_flags :: cenum_decl where
  "enumdecl_align_flags = EnumDecl False [
     (''ALIGN_VA_32'', 1), (''ALIGN_VA_64'', 2)]"

definition enumdecl_alloc_loc :: cenum_decl where
  "enumdecl_alloc_loc = EnumDecl False [
     (''ALLOC_ERR'', 0), (''ALLOC_BEFORE'', 1), (''ALLOC_MID'', 2), (''ALLOC_AFTER'', 3)]"

definition enumdecl_alloc_mode :: cenum_decl where
  "enumdecl_alloc_mode = EnumDecl False [
     (''ALLOC_NORMAL'', 0), (''ALLOC_DEFER_COHERENT_FLUSH'', 1)]"

definition enumdecl_amd_chipset_gen :: cenum_decl where
  "enumdecl_amd_chipset_gen = EnumDecl False [
     (''NOT_AMD_CHIPSET'', 0), (''AMD_CHIPSET_SB600'', 1), (''AMD_CHIPSET_SB700'', 2),
     (''AMD_CHIPSET_SB800'', 3), (''AMD_CHIPSET_HUDSON2'', 4), (''AMD_CHIPSET_BOLTON'', 5),
     (''AMD_CHIPSET_YANGTZE'', 6), (''AMD_CHIPSET_TAISHAN'', 7), (''AMD_CHIPSET_UNKNOWN'', 8)]"

definition enumdecl_amd_functions :: cenum_decl where
  "enumdecl_amd_functions = EnumDecl False [
     (''IMX_F0_GPIO0'', 0), (''IMX_F1_GPIO0'', 1), (''IMX_F2_GPIO0'', 2), (''IMX_F3_GPIO0'', 3),
     (''IMX_F0_GPIO1'', 4), (''IMX_F1_GPIO1'', 5), (''IMX_F2_GPIO1'', 6), (''IMX_F3_GPIO1'', 7),
     (''IMX_F0_GPIO2'', 8), (''IMX_F1_GPIO2'', 9), (''IMX_F2_GPIO2'', 10),
     (''IMX_F3_GPIO2'', 11), (''IMX_F0_GPIO3'', 12), (''IMX_F1_GPIO3'', 13),
     (''IMX_F2_GPIO3'', 14), (''IMX_F3_GPIO3'', 15), (''IMX_F0_GPIO4'', 16),
     (''IMX_F1_GPIO4'', 17), (''IMX_F2_GPIO4'', 18), (''IMX_F3_GPIO4'', 19),
     (''IMX_F0_GPIO5'', 20), (''IMX_F1_GPIO5'', 21), (''IMX_F2_GPIO5'', 22),
     (''IMX_F3_GPIO5'', 23), (''IMX_F0_GPIO6'', 24), (''IMX_F1_GPIO6'', 25),
     (''IMX_F2_GPIO6'', 26), (''IMX_F3_GPIO6'', 27), (''IMX_F0_GPIO7'', 28),
     (''IMX_F1_GPIO7'', 29), (''IMX_F2_GPIO7'', 30), (''IMX_F3_GPIO7'', 31),
     (''IMX_F0_GPIO8'', 32), (''IMX_F1_GPIO8'', 33), (''IMX_F2_GPIO8'', 34),
     (''IMX_F3_GPIO8'', 35), (''IMX_F0_GPIO9'', 36), (''IMX_F1_GPIO9'', 37),
     (''IMX_F2_GPIO9'', 38), (''IMX_F3_GPIO9'', 39), (''IMX_F0_GPIO10'', 40),
     (''IMX_F1_GPIO10'', 41), (''IMX_F2_GPIO10'', 42), (''IMX_F3_GPIO10'', 43),
     (''IMX_F0_GPIO11'', 44), (''IMX_F1_GPIO11'', 45), (''IMX_F2_GPIO11'', 46),
     (''IMX_F3_GPIO11'', 47), (''IMX_F0_GPIO12'', 48), (''IMX_F1_GPIO12'', 49),
     (''IMX_F2_GPIO12'', 50), (''IMX_F3_GPIO12'', 51), (''IMX_F0_GPIO13'', 52),
     (''IMX_F1_GPIO13'', 53), (''IMX_F2_GPIO13'', 54), (''IMX_F3_GPIO13'', 55),
     (''IMX_F0_GPIO14'', 56), (''IMX_F1_GPIO14'', 57), (''IMX_F2_GPIO14'', 58),
     (''IMX_F3_GPIO14'', 59), (''IMX_F0_GPIO15'', 60), (''IMX_F1_GPIO15'', 61),
     (''IMX_F2_GPIO15'', 62), (''IMX_F3_GPIO15'', 63), (''IMX_F0_GPIO16'', 64),
     (''IMX_F1_GPIO16'', 65), (''IMX_F2_GPIO16'', 66), (''IMX_F3_GPIO16'', 67),
     (''IMX_F0_GPIO17'', 68), (''IMX_F1_GPIO17'', 69), (''IMX_F2_GPIO17'', 70),
     (''IMX_F3_GPIO17'', 71), (''IMX_F0_GPIO18'', 72), (''IMX_F1_GPIO18'', 73),
     (''IMX_F2_GPIO18'', 74), (''IMX_F3_GPIO18'', 75), (''IMX_F0_GPIO19'', 76),
     (''IMX_F1_GPIO19'', 77), (''IMX_F2_GPIO19'', 78), (''IMX_F3_GPIO19'', 79),
     (''IMX_F0_GPIO20'', 80), (''IMX_F1_GPIO20'', 81), (''IMX_F2_GPIO20'', 82),
     (''IMX_F3_GPIO20'', 83), (''IMX_F0_GPIO21'', 84), (''IMX_F1_GPIO21'', 85),
     (''IMX_F2_GPIO21'', 86), (''IMX_F3_GPIO21'', 87), (''IMX_F0_GPIO22'', 88),
     (''IMX_F1_GPIO22'', 89), (''IMX_F2_GPIO22'', 90), (''IMX_F3_GPIO22'', 91),
     (''IMX_F0_GPIO23'', 92), (''IMX_F1_GPIO23'', 93), (''IMX_F2_GPIO23'', 94),
     (''IMX_F3_GPIO23'', 95), (''IMX_F0_GPIO24'', 96), (''IMX_F1_GPIO24'', 97),
     (''IMX_F2_GPIO24'', 98), (''IMX_F3_GPIO24'', 99), (''IMX_F0_GPIO25'', 100),
     (''IMX_F1_GPIO25'', 101), (''IMX_F2_GPIO25'', 102), (''IMX_F3_GPIO25'', 103),
     (''IMX_F0_GPIO26'', 104), (''IMX_F1_GPIO26'', 105), (''IMX_F2_GPIO26'', 106),
     (''IMX_F3_GPIO26'', 107), (''IMX_F0_GPIO27'', 108), (''IMX_F1_GPIO27'', 109),
     (''IMX_F2_GPIO27'', 110), (''IMX_F3_GPIO27'', 111), (''IMX_F0_GPIO28'', 112),
     (''IMX_F1_GPIO28'', 113), (''IMX_F2_GPIO28'', 114), (''IMX_F3_GPIO28'', 115),
     (''IMX_F0_GPIO29'', 116), (''IMX_F1_GPIO29'', 117), (''IMX_F2_GPIO29'', 118),
     (''IMX_F3_GPIO29'', 119), (''IMX_F0_GPIO30'', 120), (''IMX_F1_GPIO30'', 121),
     (''IMX_F2_GPIO30'', 122), (''IMX_F3_GPIO30'', 123), (''IMX_F0_GPIO31'', 124),
     (''IMX_F1_GPIO31'', 125), (''IMX_F2_GPIO31'', 126), (''IMX_F3_GPIO31'', 127),
     (''IMX_F0_GPIO32'', 128), (''IMX_F1_GPIO32'', 129), (''IMX_F2_GPIO32'', 130),
     (''IMX_F3_GPIO32'', 131), (''IMX_F0_GPIO33'', 132), (''IMX_F1_GPIO33'', 133),
     (''IMX_F2_GPIO33'', 134), (''IMX_F3_GPIO33'', 135), (''IMX_F0_GPIO34'', 136),
     (''IMX_F1_GPIO34'', 137), (''IMX_F2_GPIO34'', 138), (''IMX_F3_GPIO34'', 139),
     (''IMX_F0_GPIO35'', 140), (''IMX_F1_GPIO35'', 141), (''IMX_F2_GPIO35'', 142),
     (''IMX_F3_GPIO35'', 143), (''IMX_F0_GPIO36'', 144), (''IMX_F1_GPIO36'', 145),
     (''IMX_F2_GPIO36'', 146), (''IMX_F3_GPIO36'', 147), (''IMX_F0_GPIO37'', 148),
     (''IMX_F1_GPIO37'', 149), (''IMX_F2_GPIO37'', 150), (''IMX_F3_GPIO37'', 151),
     (''IMX_F0_GPIO38'', 152), (''IMX_F1_GPIO38'', 153), (''IMX_F2_GPIO38'', 154),
     (''IMX_F3_GPIO38'', 155), (''IMX_F0_GPIO39'', 156), (''IMX_F1_GPIO39'', 157),
     (''IMX_F2_GPIO39'', 158), (''IMX_F3_GPIO39'', 159), (''IMX_F0_GPIO40'', 160),
     (''IMX_F1_GPIO40'', 161), (''IMX_F2_GPIO40'', 162), (''IMX_F3_GPIO40'', 163),
     (''IMX_F0_GPIO41'', 164), (''IMX_F1_GPIO41'', 165), (''IMX_F2_GPIO41'', 166),
     (''IMX_F3_GPIO41'', 167), (''IMX_F0_GPIO42'', 168), (''IMX_F1_GPIO42'', 169),
     (''IMX_F2_GPIO42'', 170), (''IMX_F3_GPIO42'', 171), (''IMX_F0_GPIO43'', 172),
     (''IMX_F1_GPIO43'', 173), (''IMX_F2_GPIO43'', 174), (''IMX_F3_GPIO43'', 175),
     (''IMX_F0_GPIO44'', 176), (''IMX_F1_GPIO44'', 177), (''IMX_F2_GPIO44'', 178),
     (''IMX_F3_GPIO44'', 179), (''IMX_F0_GPIO45'', 180), (''IMX_F1_GPIO45'', 181),
     (''IMX_F2_GPIO45'', 182), (''IMX_F3_GPIO45'', 183), (''IMX_F0_GPIO46'', 184),
     (''IMX_F1_GPIO46'', 185), (''IMX_F2_GPIO46'', 186), (''IMX_F3_GPIO46'', 187),
     (''IMX_F0_GPIO47'', 188), (''IMX_F1_GPIO47'', 189), (''IMX_F2_GPIO47'', 190),
     (''IMX_F3_GPIO47'', 191), (''IMX_F0_GPIO48'', 192), (''IMX_F1_GPIO48'', 193),
     (''IMX_F2_GPIO48'', 194), (''IMX_F3_GPIO48'', 195), (''IMX_F0_GPIO49'', 196),
     (''IMX_F1_GPIO49'', 197), (''IMX_F2_GPIO49'', 198), (''IMX_F3_GPIO49'', 199),
     (''IMX_F0_GPIO50'', 200), (''IMX_F1_GPIO50'', 201), (''IMX_F2_GPIO50'', 202),
     (''IMX_F3_GPIO50'', 203), (''IMX_F0_GPIO51'', 204), (''IMX_F1_GPIO51'', 205),
     (''IMX_F2_GPIO51'', 206), (''IMX_F3_GPIO51'', 207), (''IMX_F0_GPIO52'', 208),
     (''IMX_F1_GPIO52'', 209), (''IMX_F2_GPIO52'', 210), (''IMX_F3_GPIO52'', 211),
     (''IMX_F0_GPIO53'', 212), (''IMX_F1_GPIO53'', 213), (''IMX_F2_GPIO53'', 214),
     (''IMX_F3_GPIO53'', 215), (''IMX_F0_GPIO54'', 216), (''IMX_F1_GPIO54'', 217),
     (''IMX_F2_GPIO54'', 218), (''IMX_F3_GPIO54'', 219), (''IMX_F0_GPIO55'', 220),
     (''IMX_F1_GPIO55'', 221), (''IMX_F2_GPIO55'', 222), (''IMX_F3_GPIO55'', 223),
     (''IMX_F0_GPIO56'', 224), (''IMX_F1_GPIO56'', 225), (''IMX_F2_GPIO56'', 226),
     (''IMX_F3_GPIO56'', 227), (''IMX_F0_GPIO57'', 228), (''IMX_F1_GPIO57'', 229),
     (''IMX_F2_GPIO57'', 230), (''IMX_F3_GPIO57'', 231), (''IMX_F0_GPIO58'', 232),
     (''IMX_F1_GPIO58'', 233), (''IMX_F2_GPIO58'', 234), (''IMX_F3_GPIO58'', 235),
     (''IMX_F0_GPIO59'', 236), (''IMX_F1_GPIO59'', 237), (''IMX_F2_GPIO59'', 238),
     (''IMX_F3_GPIO59'', 239), (''IMX_F0_GPIO60'', 240), (''IMX_F1_GPIO60'', 241),
     (''IMX_F2_GPIO60'', 242), (''IMX_F3_GPIO60'', 243), (''IMX_F0_GPIO61'', 244),
     (''IMX_F1_GPIO61'', 245), (''IMX_F2_GPIO61'', 246), (''IMX_F3_GPIO61'', 247),
     (''IMX_F0_GPIO62'', 248), (''IMX_F1_GPIO62'', 249), (''IMX_F2_GPIO62'', 250),
     (''IMX_F3_GPIO62'', 251), (''IMX_F0_GPIO64'', 252), (''IMX_F1_GPIO64'', 253),
     (''IMX_F2_GPIO64'', 254), (''IMX_F3_GPIO64'', 255), (''IMX_F0_GPIO65'', 256),
     (''IMX_F1_GPIO65'', 257), (''IMX_F2_GPIO65'', 258), (''IMX_F3_GPIO65'', 259),
     (''IMX_F0_GPIO66'', 260), (''IMX_F1_GPIO66'', 261), (''IMX_F2_GPIO66'', 262),
     (''IMX_F3_GPIO66'', 263), (''IMX_F0_GPIO67'', 264), (''IMX_F1_GPIO67'', 265),
     (''IMX_F2_GPIO67'', 266), (''IMX_F3_GPIO67'', 267), (''IMX_F0_GPIO68'', 268),
     (''IMX_F1_GPIO68'', 269), (''IMX_F2_GPIO68'', 270), (''IMX_F3_GPIO68'', 271),
     (''IMX_F0_GPIO69'', 272), (''IMX_F1_GPIO69'', 273), (''IMX_F2_GPIO69'', 274),
     (''IMX_F3_GPIO69'', 275), (''IMX_F0_GPIO70'', 276), (''IMX_F1_GPIO70'', 277),
     (''IMX_F2_GPIO70'', 278), (''IMX_F3_GPIO70'', 279), (''IMX_F0_GPIO71'', 280),
     (''IMX_F1_GPIO71'', 281), (''IMX_F2_GPIO71'', 282), (''IMX_F3_GPIO71'', 283),
     (''IMX_F0_GPIO72'', 284), (''IMX_F1_GPIO72'', 285), (''IMX_F2_GPIO72'', 286),
     (''IMX_F3_GPIO72'', 287), (''IMX_F0_GPIO73'', 288), (''IMX_F1_GPIO73'', 289),
     (''IMX_F2_GPIO73'', 290), (''IMX_F3_GPIO73'', 291), (''IMX_F0_GPIO74'', 292),
     (''IMX_F1_GPIO74'', 293), (''IMX_F2_GPIO74'', 294), (''IMX_F3_GPIO74'', 295),
     (''IMX_F0_GPIO75'', 296), (''IMX_F1_GPIO75'', 297), (''IMX_F2_GPIO75'', 298),
     (''IMX_F3_GPIO75'', 299), (''IMX_F0_GPIO76'', 300), (''IMX_F1_GPIO76'', 301),
     (''IMX_F2_GPIO76'', 302), (''IMX_F3_GPIO76'', 303), (''IMX_F0_GPIO77'', 304),
     (''IMX_F1_GPIO77'', 305), (''IMX_F2_GPIO77'', 306), (''IMX_F3_GPIO77'', 307),
     (''IMX_F0_GPIO78'', 308), (''IMX_F1_GPIO78'', 309), (''IMX_F2_GPIO78'', 310),
     (''IMX_F3_GPIO78'', 311), (''IMX_F0_GPIO79'', 312), (''IMX_F1_GPIO79'', 313),
     (''IMX_F2_GPIO79'', 314), (''IMX_F3_GPIO79'', 315), (''IMX_F0_GPIO80'', 316),
     (''IMX_F1_GPIO80'', 317), (''IMX_F2_GPIO80'', 318), (''IMX_F3_GPIO80'', 319),
     (''IMX_F0_GPIO81'', 320), (''IMX_F1_GPIO81'', 321), (''IMX_F2_GPIO81'', 322),
     (''IMX_F3_GPIO81'', 323), (''IMX_F0_GPIO82'', 324), (''IMX_F1_GPIO82'', 325),
     (''IMX_F2_GPIO82'', 326), (''IMX_F3_GPIO82'', 327), (''IMX_F0_GPIO83'', 328),
     (''IMX_F1_GPIO83'', 329), (''IMX_F2_GPIO83'', 330), (''IMX_F3_GPIO83'', 331),
     (''IMX_F0_GPIO84'', 332), (''IMX_F1_GPIO84'', 333), (''IMX_F2_GPIO84'', 334),
     (''IMX_F3_GPIO84'', 335), (''IMX_F0_GPIO85'', 336), (''IMX_F1_GPIO85'', 337),
     (''IMX_F2_GPIO85'', 338), (''IMX_F3_GPIO85'', 339), (''IMX_F0_GPIO86'', 340),
     (''IMX_F1_GPIO86'', 341), (''IMX_F2_GPIO86'', 342), (''IMX_F3_GPIO86'', 343),
     (''IMX_F0_GPIO87'', 344), (''IMX_F1_GPIO87'', 345), (''IMX_F2_GPIO87'', 346),
     (''IMX_F3_GPIO87'', 347), (''IMX_F0_GPIO88'', 348), (''IMX_F1_GPIO88'', 349),
     (''IMX_F2_GPIO88'', 350), (''IMX_F3_GPIO88'', 351), (''IMX_F0_GPIO89'', 352),
     (''IMX_F1_GPIO89'', 353), (''IMX_F2_GPIO89'', 354), (''IMX_F3_GPIO89'', 355),
     (''IMX_F0_GPIO90'', 356), (''IMX_F1_GPIO90'', 357), (''IMX_F2_GPIO90'', 358),
     (''IMX_F3_GPIO90'', 359), (''IMX_F0_GPIO91'', 360), (''IMX_F1_GPIO91'', 361),
     (''IMX_F2_GPIO91'', 362), (''IMX_F3_GPIO91'', 363), (''IMX_F0_GPIO92'', 364),
     (''IMX_F1_GPIO92'', 365), (''IMX_F2_GPIO92'', 366), (''IMX_F3_GPIO92'', 367),
     (''IMX_F0_GPIO93'', 368), (''IMX_F1_GPIO93'', 369), (''IMX_F2_GPIO93'', 370),
     (''IMX_F3_GPIO93'', 371), (''IMX_F0_GPIO94'', 372), (''IMX_F1_GPIO94'', 373),
     (''IMX_F2_GPIO94'', 374), (''IMX_F3_GPIO94'', 375), (''IMX_F0_GPIO95'', 376),
     (''IMX_F1_GPIO95'', 377), (''IMX_F2_GPIO95'', 378), (''IMX_F3_GPIO95'', 379),
     (''IMX_F0_GPIO96'', 380), (''IMX_F1_GPIO96'', 381), (''IMX_F2_GPIO96'', 382),
     (''IMX_F3_GPIO96'', 383), (''IMX_F0_GPIO97'', 384), (''IMX_F1_GPIO97'', 385),
     (''IMX_F2_GPIO97'', 386), (''IMX_F3_GPIO97'', 387), (''IMX_F0_GPIO98'', 388),
     (''IMX_F1_GPIO98'', 389), (''IMX_F2_GPIO98'', 390), (''IMX_F3_GPIO98'', 391),
     (''IMX_F0_GPIO99'', 392), (''IMX_F1_GPIO99'', 393), (''IMX_F2_GPIO99'', 394),
     (''IMX_F3_GPIO99'', 395), (''IMX_F0_GPIO100'', 396), (''IMX_F1_GPIO100'', 397),
     (''IMX_F2_GPIO100'', 398), (''IMX_F3_GPIO100'', 399), (''IMX_F0_GPIO101'', 400),
     (''IMX_F1_GPIO101'', 401), (''IMX_F2_GPIO101'', 402), (''IMX_F3_GPIO101'', 403),
     (''IMX_F0_GPIO102'', 404), (''IMX_F1_GPIO102'', 405), (''IMX_F2_GPIO102'', 406),
     (''IMX_F3_GPIO102'', 407), (''IMX_F0_GPIO103'', 408), (''IMX_F1_GPIO103'', 409),
     (''IMX_F2_GPIO103'', 410), (''IMX_F3_GPIO103'', 411), (''IMX_F0_GPIO104'', 412),
     (''IMX_F1_GPIO104'', 413), (''IMX_F2_GPIO104'', 414), (''IMX_F3_GPIO104'', 415),
     (''IMX_F0_GPIO105'', 416), (''IMX_F1_GPIO105'', 417), (''IMX_F2_GPIO105'', 418),
     (''IMX_F3_GPIO105'', 419), (''IMX_F0_GPIO106'', 420), (''IMX_F1_GPIO106'', 421),
     (''IMX_F2_GPIO106'', 422), (''IMX_F3_GPIO106'', 423), (''IMX_F0_GPIO107'', 424),
     (''IMX_F1_GPIO107'', 425), (''IMX_F2_GPIO107'', 426), (''IMX_F3_GPIO107'', 427),
     (''IMX_F0_GPIO108'', 428), (''IMX_F1_GPIO108'', 429), (''IMX_F2_GPIO108'', 430),
     (''IMX_F3_GPIO108'', 431), (''IMX_F0_GPIO109'', 432), (''IMX_F1_GPIO109'', 433),
     (''IMX_F2_GPIO109'', 434), (''IMX_F3_GPIO109'', 435), (''IMX_F0_GPIO110'', 436),
     (''IMX_F1_GPIO110'', 437), (''IMX_F2_GPIO110'', 438), (''IMX_F3_GPIO110'', 439),
     (''IMX_F0_GPIO111'', 440), (''IMX_F1_GPIO111'', 441), (''IMX_F2_GPIO111'', 442),
     (''IMX_F3_GPIO111'', 443), (''IMX_F0_GPIO112'', 444), (''IMX_F1_GPIO112'', 445),
     (''IMX_F2_GPIO112'', 446), (''IMX_F3_GPIO112'', 447), (''IMX_F0_GPIO113'', 448),
     (''IMX_F1_GPIO113'', 449), (''IMX_F2_GPIO113'', 450), (''IMX_F3_GPIO113'', 451),
     (''IMX_F0_GPIO114'', 452), (''IMX_F1_GPIO114'', 453), (''IMX_F2_GPIO114'', 454),
     (''IMX_F3_GPIO114'', 455), (''IMX_F0_GPIO115'', 456), (''IMX_F1_GPIO115'', 457),
     (''IMX_F2_GPIO115'', 458), (''IMX_F3_GPIO115'', 459), (''IMX_F0_GPIO116'', 460),
     (''IMX_F1_GPIO116'', 461), (''IMX_F2_GPIO116'', 462), (''IMX_F3_GPIO116'', 463),
     (''IMX_F0_GPIO117'', 464), (''IMX_F1_GPIO117'', 465), (''IMX_F2_GPIO117'', 466),
     (''IMX_F3_GPIO117'', 467), (''IMX_F0_GPIO118'', 468), (''IMX_F1_GPIO118'', 469),
     (''IMX_F2_GPIO118'', 470), (''IMX_F3_GPIO118'', 471), (''IMX_F0_GPIO119'', 472),
     (''IMX_F1_GPIO119'', 473), (''IMX_F2_GPIO119'', 474), (''IMX_F3_GPIO119'', 475),
     (''IMX_F0_GPIO120'', 476), (''IMX_F1_GPIO120'', 477), (''IMX_F2_GPIO120'', 478),
     (''IMX_F3_GPIO120'', 479), (''IMX_F0_GPIO121'', 480), (''IMX_F1_GPIO121'', 481),
     (''IMX_F2_GPIO121'', 482), (''IMX_F3_GPIO121'', 483), (''IMX_F0_GPIO122'', 484),
     (''IMX_F1_GPIO122'', 485), (''IMX_F2_GPIO122'', 486), (''IMX_F3_GPIO122'', 487),
     (''IMX_F0_GPIO123'', 488), (''IMX_F1_GPIO123'', 489), (''IMX_F2_GPIO123'', 490),
     (''IMX_F3_GPIO123'', 491), (''IMX_F0_GPIO124'', 492), (''IMX_F1_GPIO124'', 493),
     (''IMX_F2_GPIO124'', 494), (''IMX_F3_GPIO124'', 495), (''IMX_F0_GPIO125'', 496),
     (''IMX_F1_GPIO125'', 497), (''IMX_F2_GPIO125'', 498), (''IMX_F3_GPIO125'', 499),
     (''IMX_F0_GPIO126'', 500), (''IMX_F1_GPIO126'', 501), (''IMX_F2_GPIO126'', 502),
     (''IMX_F3_GPIO126'', 503), (''IMX_F0_GPIO127'', 504), (''IMX_F1_GPIO127'', 505),
     (''IMX_F2_GPIO127'', 506), (''IMX_F3_GPIO127'', 507), (''IMX_F0_GPIO128'', 508),
     (''IMX_F1_GPIO128'', 509), (''IMX_F2_GPIO128'', 510), (''IMX_F3_GPIO128'', 511),
     (''IMX_F0_GPIO129'', 512), (''IMX_F1_GPIO129'', 513), (''IMX_F2_GPIO129'', 514),
     (''IMX_F3_GPIO129'', 515), (''IMX_F0_GPIO130'', 516), (''IMX_F1_GPIO130'', 517),
     (''IMX_F2_GPIO130'', 518), (''IMX_F3_GPIO130'', 519), (''IMX_F0_GPIO131'', 520),
     (''IMX_F1_GPIO131'', 521), (''IMX_F2_GPIO131'', 522), (''IMX_F3_GPIO131'', 523),
     (''IMX_F0_GPIO132'', 524), (''IMX_F1_GPIO132'', 525), (''IMX_F2_GPIO132'', 526),
     (''IMX_F3_GPIO132'', 527), (''IMX_F0_GPIO133'', 528), (''IMX_F1_GPIO133'', 529),
     (''IMX_F2_GPIO133'', 530), (''IMX_F3_GPIO133'', 531), (''IMX_F0_GPIO134'', 532),
     (''IMX_F1_GPIO134'', 533), (''IMX_F2_GPIO134'', 534), (''IMX_F3_GPIO134'', 535),
     (''IMX_F0_GPIO135'', 536), (''IMX_F1_GPIO135'', 537), (''IMX_F2_GPIO135'', 538),
     (''IMX_F3_GPIO135'', 539), (''IMX_F0_GPIO136'', 540), (''IMX_F1_GPIO136'', 541),
     (''IMX_F2_GPIO136'', 542), (''IMX_F3_GPIO136'', 543), (''IMX_F0_GPIO137'', 544),
     (''IMX_F1_GPIO137'', 545), (''IMX_F2_GPIO137'', 546), (''IMX_F3_GPIO137'', 547),
     (''IMX_F0_GPIO138'', 548), (''IMX_F1_GPIO138'', 549), (''IMX_F2_GPIO138'', 550),
     (''IMX_F3_GPIO138'', 551), (''IMX_F0_GPIO139'', 552), (''IMX_F1_GPIO139'', 553),
     (''IMX_F2_GPIO139'', 554), (''IMX_F3_GPIO139'', 555), (''IMX_F0_GPIO140'', 556),
     (''IMX_F1_GPIO140'', 557), (''IMX_F2_GPIO140'', 558), (''IMX_F3_GPIO140'', 559),
     (''IMX_F0_GPIO141'', 560), (''IMX_F1_GPIO141'', 561), (''IMX_F2_GPIO141'', 562),
     (''IMX_F3_GPIO141'', 563), (''IMX_F0_GPIO142'', 564), (''IMX_F1_GPIO142'', 565),
     (''IMX_F2_GPIO142'', 566), (''IMX_F3_GPIO142'', 567), (''IMX_F0_GPIO143'', 568),
     (''IMX_F1_GPIO143'', 569), (''IMX_F2_GPIO143'', 570), (''IMX_F3_GPIO143'', 571),
     (''IMX_F0_GPIO144'', 572), (''IMX_F1_GPIO144'', 573), (''IMX_F2_GPIO144'', 574),
     (''IMX_F3_GPIO144'', 575)]"

definition enumdecl_amd_iommu_intr_mode_type :: cenum_decl where
  "enumdecl_amd_iommu_intr_mode_type = EnumDecl False [
     (''AMD_IOMMU_GUEST_IR_LEGACY'', 0), (''AMD_IOMMU_GUEST_IR_LEGACY_GA'', 1),
     (''AMD_IOMMU_GUEST_IR_VAPIC'', 2)]"

definition enumdecl_amd_pref_core :: cenum_decl where
  "enumdecl_amd_pref_core = EnumDecl False [
     (''AMD_PREF_CORE_UNKNOWN'', 0), (''AMD_PREF_CORE_SUPPORTED'', 1),
     (''AMD_PREF_CORE_UNSUPPORTED'', 2)]"

definition enumdecl_amd_pstate_mode :: cenum_decl where
  "enumdecl_amd_pstate_mode = EnumDecl False [
     (''AMD_PSTATE_UNDEFINED'', 0), (''AMD_PSTATE_DISABLE'', 1), (''AMD_PSTATE_PASSIVE'', 2),
     (''AMD_PSTATE_ACTIVE'', 3), (''AMD_PSTATE_GUIDED'', 4), (''AMD_PSTATE_MAX'', 5)]"

definition enumdecl_aper_size_type :: cenum_decl where
  "enumdecl_aper_size_type = EnumDecl False [
     (''U8_APER_SIZE'', 0), (''U16_APER_SIZE'', 1), (''U32_APER_SIZE'', 2),
     (''LVL2_APER_SIZE'', 3), (''FIXED_APER_SIZE'', 4)]"

definition enumdecl_apic_intr_mode_id :: cenum_decl where
  "enumdecl_apic_intr_mode_id = EnumDecl False [
     (''APIC_PIC'', 0), (''APIC_VIRTUAL_WIRE'', 1), (''APIC_VIRTUAL_WIRE_NO_CONFIG'', 2),
     (''APIC_SYMMETRIC_IO'', 3), (''APIC_SYMMETRIC_IO_NO_ROUTING'', 4)]"

definition enumdecl_apparmor_notif_type :: cenum_decl where
  "enumdecl_apparmor_notif_type = EnumDecl False [
     (''APPARMOR_NOTIF_RESP_PERM'', 0), (''APPARMOR_NOTIF_CANCEL'', 1),
     (''APPARMOR_NOTIF_INTERUPT'', 2), (''APPARMOR_NOTIF_ALIVE'', 3), (''APPARMOR_NOTIF_OP'', 4),
     (''APPARMOR_NOTIF_RESP_NAME'', 5)]"

definition enumdecl_array_state :: cenum_decl where
  "enumdecl_array_state = EnumDecl False [
     (''clear'', 0), (''inactive'', 1), (''suspended'', 2), (''readonly'', 3),
     (''read_auto'', 4), (''clean'', 5), (''active'', 6), (''write_pending'', 7),
     (''active_idle'', 8), (''broken'', 9), (''bad_word'', 10)]"

definition enumdecl_as3711_su2_fbprot :: cenum_decl where
  "enumdecl_as3711_su2_fbprot = EnumDecl False [
     (''AS3711_SU2_LX_SD4'', 0), (''AS3711_SU2_GPIO2'', 1), (''AS3711_SU2_GPIO3'', 2),
     (''AS3711_SU2_GPIO4'', 3)]"

definition enumdecl_as3711_su2_feedback :: cenum_decl where
  "enumdecl_as3711_su2_feedback = EnumDecl False [
     (''AS3711_SU2_VOLTAGE'', 0), (''AS3711_SU2_CURR1'', 1), (''AS3711_SU2_CURR2'', 2),
     (''AS3711_SU2_CURR3'', 3), (''AS3711_SU2_CURR_AUTO'', 4)]"

definition enumdecl_asn1_class :: cenum_decl where
  "enumdecl_asn1_class = EnumDecl False [
     (''ASN1_UNIV'', 0), (''ASN1_APPL'', 1), (''ASN1_CONT'', 2), (''ASN1_PRIV'', 3)]"

definition enumdecl_asn1_method :: cenum_decl where
  "enumdecl_asn1_method = EnumDecl False [
     (''ASN1_PRIM'', 0), (''ASN1_CONS'', 1)]"

definition enumdecl_asn1_opcode :: cenum_decl where
  "enumdecl_asn1_opcode = EnumDecl False [
     (''ASN1_OP_MATCH'', 0), (''ASN1_OP_MATCH_OR_SKIP'', 1), (''ASN1_OP_MATCH_ACT'', 2),
     (''ASN1_OP_MATCH_ACT_OR_SKIP'', 3), (''ASN1_OP_MATCH_JUMP'', 4),
     (''ASN1_OP_MATCH_JUMP_OR_SKIP'', 5), (''ASN1_OP_MATCH_ANY'', 8),
     (''ASN1_OP_MATCH_ANY_OR_SKIP'', 9), (''ASN1_OP_MATCH_ANY_ACT'', 10),
     (''ASN1_OP_MATCH_ANY_ACT_OR_SKIP'', 11), (''ASN1_OP_COND_MATCH_OR_SKIP'', 17),
     (''ASN1_OP_COND_MATCH_ACT_OR_SKIP'', 19), (''ASN1_OP_COND_MATCH_JUMP_OR_SKIP'', 21),
     (''ASN1_OP_COND_MATCH_ANY'', 24), (''ASN1_OP_COND_MATCH_ANY_OR_SKIP'', 25),
     (''ASN1_OP_COND_MATCH_ANY_ACT'', 26), (''ASN1_OP_COND_MATCH_ANY_ACT_OR_SKIP'', 27),
     (''ASN1_OP_COND_FAIL'', 28), (''ASN1_OP_COMPLETE'', 29), (''ASN1_OP_ACT'', 30),
     (''ASN1_OP_MAYBE_ACT'', 31), (''ASN1_OP_END_SEQ'', 32), (''ASN1_OP_END_SET'', 33),
     (''ASN1_OP_END_SEQ_OF'', 34), (''ASN1_OP_END_SET_OF'', 35), (''ASN1_OP_END_SEQ_ACT'', 36),
     (''ASN1_OP_END_SET_ACT'', 37), (''ASN1_OP_END_SEQ_OF_ACT'', 38),
     (''ASN1_OP_END_SET_OF_ACT'', 39), (''ASN1_OP_RETURN'', 40), (''ASN1_OP__NR'', 41)]"

definition enumdecl_asn1_tag :: cenum_decl where
  "enumdecl_asn1_tag = EnumDecl False [
     (''ASN1_EOC'', 0), (''ASN1_BOOL'', 1), (''ASN1_INT'', 2), (''ASN1_BTS'', 3),
     (''ASN1_OTS'', 4), (''ASN1_NULL'', 5), (''ASN1_OID'', 6), (''ASN1_ODE'', 7),
     (''ASN1_EXT'', 8), (''ASN1_REAL'', 9), (''ASN1_ENUM'', 10), (''ASN1_EPDV'', 11),
     (''ASN1_UTF8STR'', 12), (''ASN1_RELOID'', 13), (''ASN1_SEQ'', 16), (''ASN1_SET'', 17),
     (''ASN1_NUMSTR'', 18), (''ASN1_PRNSTR'', 19), (''ASN1_TEXSTR'', 20), (''ASN1_VIDSTR'', 21),
     (''ASN1_IA5STR'', 22), (''ASN1_UNITIM'', 23), (''ASN1_GENTIM'', 24), (''ASN1_GRASTR'', 25),
     (''ASN1_VISSTR'', 26), (''ASN1_GENSTR'', 27), (''ASN1_UNISTR'', 28), (''ASN1_CHRSTR'', 29),
     (''ASN1_BMPSTR'', 30), (''ASN1_LONG_TAG'', 31)]"

definition enumdecl_assoc_array_walk_status :: cenum_decl where
  "enumdecl_assoc_array_walk_status = EnumDecl False [
     (''assoc_array_walk_tree_empty'', 0), (''assoc_array_walk_found_terminal_node'', 1),
     (''assoc_array_walk_found_wrong_shortcut'', 2)]"

definition enumdecl_asymmetric_payload_bits :: cenum_decl where
  "enumdecl_asymmetric_payload_bits = EnumDecl False [
     (''asym_crypto'', 0), (''asym_subtype'', 1), (''asym_key_ids'', 2), (''asym_auth'', 3)]"

definition enumdecl_ata_completion_errors :: cenum_decl where
  "enumdecl_ata_completion_errors = EnumDecl False [
     (''AC_ERR_OK'', 0), (''AC_ERR_DEV'', 1), (''AC_ERR_HSM'', 2), (''AC_ERR_TIMEOUT'', 4),
     (''AC_ERR_MEDIA'', 8), (''AC_ERR_ATA_BUS'', 16), (''AC_ERR_HOST_BUS'', 32),
     (''AC_ERR_SYSTEM'', 64), (''AC_ERR_INVALID'', 128), (''AC_ERR_OTHER'', 256),
     (''AC_ERR_NODEV_HINT'', 512), (''AC_ERR_NCQ'', 1024)]"

definition enumdecl_ata_dev_iter_mode :: cenum_decl where
  "enumdecl_ata_dev_iter_mode = EnumDecl False [
     (''ATA_DITER_ENABLED'', 0), (''ATA_DITER_ENABLED_REVERSE'', 1), (''ATA_DITER_ALL'', 2),
     (''ATA_DITER_ALL_REVERSE'', 3)]"

definition enumdecl_ata_link_iter_mode :: cenum_decl where
  "enumdecl_ata_link_iter_mode = EnumDecl False [
     (''ATA_LITER_EDGE'', 0), (''ATA_LITER_HOST_FIRST'', 1), (''ATA_LITER_PMP_FIRST'', 2)]"

definition enumdecl_ata_lpm_hints :: cenum_decl where
  "enumdecl_ata_lpm_hints = EnumDecl False [
     (''ATA_LPM_EMPTY'', 1), (''ATA_LPM_HIPM'', 2), (''ATA_LPM_WAKE_ONLY'', 4)]"

definition enumdecl_ata_lpm_policy :: cenum_decl where
  "enumdecl_ata_lpm_policy = EnumDecl False [
     (''ATA_LPM_UNKNOWN'', 0), (''ATA_LPM_MAX_POWER'', 1), (''ATA_LPM_MED_POWER'', 2),
     (''ATA_LPM_MED_POWER_WITH_DIPM'', 3), (''ATA_LPM_MIN_POWER_WITH_PARTIAL'', 4),
     (''ATA_LPM_MIN_POWER'', 5)]"

definition enumdecl_ata_prot_flags :: cenum_decl where
  "enumdecl_ata_prot_flags = EnumDecl False [
     (''ATA_PROT_FLAG_PIO'', 1), (''ATA_PROT_FLAG_DMA'', 2), (''ATA_PROT_FLAG_NCQ'', 4),
     (''ATA_PROT_FLAG_ATAPI'', 8), (''ATA_PROT_UNKNOWN'', 255), (''ATA_PROT_NODATA'', 0),
     (''ATA_PROT_PIO'', 1), (''ATA_PROT_DMA'', 2), (''ATA_PROT_NCQ_NODATA'', 4),
     (''ATA_PROT_NCQ'', 6), (''ATAPI_PROT_NODATA'', 8), (''ATAPI_PROT_PIO'', 9),
     (''ATAPI_PROT_DMA'', 10)]"

definition enumdecl_ata_quirks :: cenum_decl where
  "enumdecl_ata_quirks = EnumDecl False [
     (''__ATA_QUIRK_DIAGNOSTIC'', 0), (''__ATA_QUIRK_NODMA'', 1), (''__ATA_QUIRK_NONCQ'', 2),
     (''__ATA_QUIRK_BROKEN_HPA'', 3), (''__ATA_QUIRK_DISABLE'', 4),
     (''__ATA_QUIRK_HPA_SIZE'', 5), (''__ATA_QUIRK_IVB'', 6), (''__ATA_QUIRK_STUCK_ERR'', 7),
     (''__ATA_QUIRK_BRIDGE_OK'', 8), (''__ATA_QUIRK_ATAPI_MOD16_DMA'', 9),
     (''__ATA_QUIRK_FIRMWARE_WARN'', 10), (''__ATA_QUIRK_1_5_GBPS'', 11),
     (''__ATA_QUIRK_NOSETXFER'', 12), (''__ATA_QUIRK_BROKEN_FPDMA_AA'', 13),
     (''__ATA_QUIRK_DUMP_ID'', 14), (''__ATA_QUIRK_MAX_SEC_LBA48'', 15),
     (''__ATA_QUIRK_ATAPI_DMADIR'', 16), (''__ATA_QUIRK_NO_NCQ_TRIM'', 17),
     (''__ATA_QUIRK_NOLPM'', 18), (''__ATA_QUIRK_WD_BROKEN_LPM'', 19),
     (''__ATA_QUIRK_ZERO_AFTER_TRIM'', 20), (''__ATA_QUIRK_NO_DMA_LOG'', 21),
     (''__ATA_QUIRK_NOTRIM'', 22), (''__ATA_QUIRK_MAX_SEC'', 23),
     (''__ATA_QUIRK_MAX_TRIM_128M'', 24), (''__ATA_QUIRK_NO_NCQ_ON_ATI'', 25),
     (''__ATA_QUIRK_NO_LPM_ON_ATI'', 26), (''__ATA_QUIRK_NO_ID_DEV_LOG'', 27),
     (''__ATA_QUIRK_NO_LOG_DIR'', 28), (''__ATA_QUIRK_NO_FUA'', 29), (''__ATA_QUIRK_MAX'', 30)]"

definition enumdecl_ata_xfer_mask :: cenum_decl where
  "enumdecl_ata_xfer_mask = EnumDecl False [
     (''ATA_MASK_PIO'', 127), (''ATA_MASK_MWDMA'', 3968), (''ATA_MASK_UDMA'', 1044480)]"

definition enumdecl_audit_mode :: cenum_decl where
  "enumdecl_audit_mode = EnumDecl False [
     (''AUDIT_NORMAL'', 0), (''AUDIT_QUIET_DENIED'', 1), (''AUDIT_QUIET'', 2),
     (''AUDIT_NOQUIET'', 3), (''AUDIT_ALL'', 4)]"

definition enumdecl_audit_nfcfgop :: cenum_decl where
  "enumdecl_audit_nfcfgop = EnumDecl False [
     (''AUDIT_XT_OP_REGISTER'', 0), (''AUDIT_XT_OP_REPLACE'', 1),
     (''AUDIT_XT_OP_UNREGISTER'', 2), (''AUDIT_NFT_OP_TABLE_REGISTER'', 3),
     (''AUDIT_NFT_OP_TABLE_UNREGISTER'', 4), (''AUDIT_NFT_OP_CHAIN_REGISTER'', 5),
     (''AUDIT_NFT_OP_CHAIN_UNREGISTER'', 6), (''AUDIT_NFT_OP_RULE_REGISTER'', 7),
     (''AUDIT_NFT_OP_RULE_UNREGISTER'', 8), (''AUDIT_NFT_OP_SET_REGISTER'', 9),
     (''AUDIT_NFT_OP_SET_UNREGISTER'', 10), (''AUDIT_NFT_OP_SETELEM_REGISTER'', 11),
     (''AUDIT_NFT_OP_SETELEM_UNREGISTER'', 12), (''AUDIT_NFT_OP_GEN_REGISTER'', 13),
     (''AUDIT_NFT_OP_OBJ_REGISTER'', 14), (''AUDIT_NFT_OP_OBJ_UNREGISTER'', 15),
     (''AUDIT_NFT_OP_OBJ_RESET'', 16), (''AUDIT_NFT_OP_FLOWTABLE_REGISTER'', 17),
     (''AUDIT_NFT_OP_FLOWTABLE_UNREGISTER'', 18), (''AUDIT_NFT_OP_SETELEM_RESET'', 19),
     (''AUDIT_NFT_OP_RULE_RESET'', 20), (''AUDIT_NFT_OP_INVALID'', 21)]"

definition enumdecl_audit_nlgrps :: cenum_decl where
  "enumdecl_audit_nlgrps = EnumDecl False [
     (''AUDIT_NLGRP_NONE'', 0), (''AUDIT_NLGRP_READLOG'', 1), (''__AUDIT_NLGRP_MAX'', 2)]"

definition enumdecl_audit_ntp_type :: cenum_decl where
  "enumdecl_audit_ntp_type = EnumDecl False [
     (''AUDIT_NTP_OFFSET'', 0), (''AUDIT_NTP_FREQ'', 1), (''AUDIT_NTP_STATUS'', 2),
     (''AUDIT_NTP_TAI'', 3), (''AUDIT_NTP_TICK'', 4), (''AUDIT_NTP_ADJUST'', 5),
     (''AUDIT_NTP_NVALS'', 6)]"

definition enumdecl_audit_state :: cenum_decl where
  "enumdecl_audit_state = EnumDecl False [
     (''AUDIT_STATE_DISABLED'', 0), (''AUDIT_STATE_BUILD'', 1), (''AUDIT_STATE_RECORD'', 2)]"

definition enumdecl_audit_type :: cenum_decl where
  "enumdecl_audit_type = EnumDecl False [
     (''AUDIT_APPARMOR_AUDIT'', 0), (''AUDIT_APPARMOR_ALLOWED'', 1),
     (''AUDIT_APPARMOR_DENIED'', 2), (''AUDIT_APPARMOR_HINT'', 3),
     (''AUDIT_APPARMOR_STATUS'', 4), (''AUDIT_APPARMOR_ERROR'', 5), (''AUDIT_APPARMOR_KILL'', 6),
     (''AUDIT_APPARMOR_USER'', 7), (''AUDIT_APPARMOR_AUTO'', 8)]"

definition enumdecl_auditsc_class_t :: cenum_decl where
  "enumdecl_auditsc_class_t = EnumDecl False [
     (''AUDITSC_NATIVE'', 0), (''AUDITSC_COMPAT'', 1), (''AUDITSC_OPEN'', 2),
     (''AUDITSC_OPENAT'', 3), (''AUDITSC_SOCKETCALL'', 4), (''AUDITSC_EXECVE'', 5),
     (''AUDITSC_OPENAT2'', 6), (''AUDITSC_NVALS'', 7)]"

definition enumdecl_axp20x_variants :: cenum_decl where
  "enumdecl_axp20x_variants = EnumDecl False [
     (''AXP152_ID'', 0), (''AXP192_ID'', 1), (''AXP202_ID'', 2), (''AXP209_ID'', 3),
     (''AXP221_ID'', 4), (''AXP223_ID'', 5), (''AXP288_ID'', 6), (''AXP313A_ID'', 7),
     (''AXP323_ID'', 8), (''AXP717_ID'', 9), (''AXP803_ID'', 10), (''AXP806_ID'', 11),
     (''AXP809_ID'', 12), (''AXP813_ID'', 13), (''AXP15060_ID'', 14),
     (''NR_AXP20X_VARIANTS'', 15)]"

definition enumdecl_backlight_scale :: cenum_decl where
  "enumdecl_backlight_scale = EnumDecl False [
     (''BACKLIGHT_SCALE_UNKNOWN'', 0), (''BACKLIGHT_SCALE_LINEAR'', 1),
     (''BACKLIGHT_SCALE_NON_LINEAR'', 2)]"

definition enumdecl_backlight_type :: cenum_decl where
  "enumdecl_backlight_type = EnumDecl False [
     (''BACKLIGHT_RAW'', 1), (''BACKLIGHT_PLATFORM'', 2), (''BACKLIGHT_FIRMWARE'', 3),
     (''BACKLIGHT_TYPE_MAX'', 4)]"

definition enumdecl_backlight_update_reason :: cenum_decl where
  "enumdecl_backlight_update_reason = EnumDecl False [
     (''BACKLIGHT_UPDATE_HOTKEY'', 0), (''BACKLIGHT_UPDATE_SYSFS'', 1)]"

definition enumdecl_base64_variant :: cenum_decl where
  "enumdecl_base64_variant = EnumDecl False [
     (''BASE64_STD'', 0), (''BASE64_URLSAFE'', 1), (''BASE64_IMAP'', 2)]"

definition enumdecl_batadv_packettype :: cenum_decl where
  "enumdecl_batadv_packettype = EnumDecl False [
     (''BATADV_IV_OGM'', 0), (''BATADV_BCAST'', 1), (''BATADV_CODED'', 2), (''BATADV_ELP'', 3),
     (''BATADV_OGM2'', 4), (''BATADV_MCAST'', 5), (''BATADV_UNICAST'', 64),
     (''BATADV_UNICAST_FRAG'', 65), (''BATADV_UNICAST_4ADDR'', 66), (''BATADV_ICMP'', 67),
     (''BATADV_UNICAST_TVLV'', 68)]"

definition enumdecl_behavior :: cenum_decl where
  "enumdecl_behavior = EnumDecl False [
     (''EXCLUSIVE'', 0), (''SHARED'', 1), (''DROP'', 2)]"

definition enumdecl_bh_state_bits :: cenum_decl where
  "enumdecl_bh_state_bits = EnumDecl False [
     (''BH_Uptodate'', 0), (''BH_Dirty'', 1), (''BH_Lock'', 2), (''BH_Req'', 3),
     (''BH_Mapped'', 4), (''BH_New'', 5), (''BH_Async_Read'', 6), (''BH_Async_Write'', 7),
     (''BH_Delay'', 8), (''BH_Boundary'', 9), (''BH_Write_EIO'', 10), (''BH_Unwritten'', 11),
     (''BH_Quiet'', 12), (''BH_Meta'', 13), (''BH_Prio'', 14), (''BH_Defer_Completion'', 15),
     (''BH_Migrate'', 16), (''BH_PrivateStart'', 17)]"

definition enumdecl_bhi_mitigations :: cenum_decl where
  "enumdecl_bhi_mitigations = EnumDecl False [
     (''BHI_MITIGATION_OFF'', 0), (''BHI_MITIGATION_AUTO'', 1), (''BHI_MITIGATION_ON'', 2),
     (''BHI_MITIGATION_VMEXIT_ONLY'', 3)]"

definition enumdecl_bio_merge_status :: cenum_decl where
  "enumdecl_bio_merge_status = EnumDecl False [
     (''BIO_MERGE_OK'', 0), (''BIO_MERGE_NONE'', 1), (''BIO_MERGE_FAILED'', 2)]"

definition enumdecl_bio_post_read_step :: cenum_decl where
  "enumdecl_bio_post_read_step = EnumDecl False [
     (''STEP_INITIAL'', 0), (''STEP_DECRYPT'', 1), (''STEP_VERITY'', 2), (''STEP_MAX'', 3)]"

definition enumdecl_bios_platform_class :: cenum_decl where
  "enumdecl_bios_platform_class = EnumDecl False [
     (''BIOS_CLIENT'', 0), (''BIOS_SERVER'', 1)]"

definition enumdecl_bip_flags :: cenum_decl where
  "enumdecl_bip_flags = EnumDecl False [
     (''BIP_BLOCK_INTEGRITY'', 1), (''BIP_MAPPED_INTEGRITY'', 2), (''BIP_DISK_NOCHECK'', 4),
     (''BIP_IP_CHECKSUM'', 8), (''BIP_COPY_USER'', 16), (''BIP_CHECK_GUARD'', 32),
     (''BIP_CHECK_REFTAG'', 64), (''BIP_CHECK_APPTAG'', 128), (''BIP_MEMPOOL'', 32768)]"

definition enumdecl_bitmap_page_attr :: cenum_decl where
  "enumdecl_bitmap_page_attr = EnumDecl False [
     (''BITMAP_PAGE_DIRTY'', 0), (''BITMAP_PAGE_PENDING'', 1), (''BITMAP_PAGE_NEEDWRITE'', 2)]"

definition enumdecl_bitmap_state :: cenum_decl where
  "enumdecl_bitmap_state = EnumDecl False [
     (''BITMAP_STALE'', 1), (''BITMAP_WRITE_ERROR'', 2), (''BITMAP_FIRST_USE'', 3),
     (''BITMAP_CLEAN'', 4), (''BITMAP_DAEMON_BUSY'', 5), (''BITMAP_HOSTENDIAN'', 15)]"

definition enumdecl_blacklist_hash_type :: cenum_decl where
  "enumdecl_blacklist_hash_type = EnumDecl False [
     (''BLACKLIST_HASH_X509_TBS'', 1), (''BLACKLIST_HASH_BINARY'', 2)]"

definition enumdecl_blake2s_iv :: cenum_decl where
  "enumdecl_blake2s_iv = EnumDecl False [
     (''BLAKE2S_IV0'', 1779033703), (''BLAKE2S_IV1'', 3144134277), (''BLAKE2S_IV2'', 1013904242),
     (''BLAKE2S_IV3'', 2773480762), (''BLAKE2S_IV4'', 1359893119), (''BLAKE2S_IV5'', 2600822924),
     (''BLAKE2S_IV6'', 528734635), (''BLAKE2S_IV7'', 1541459225)]"

lemma enumdecl_blake2s_iv_4: "enum4 enumdecl_blake2s_iv"
  by (unfold enumdecl_blake2s_iv_def) (intro enum_uint_intros; simp)

definition enumdecl_blake2s_lengths :: cenum_decl where
  "enumdecl_blake2s_lengths = EnumDecl False [
     (''BLAKE2S_BLOCK_SIZE'', 64), (''BLAKE2S_HASH_SIZE'', 32), (''BLAKE2S_KEY_SIZE'', 32),
     (''BLAKE2S_128_HASH_SIZE'', 16), (''BLAKE2S_160_HASH_SIZE'', 20),
     (''BLAKE2S_224_HASH_SIZE'', 28), (''BLAKE2S_256_HASH_SIZE'', 32)]"

definition enumdecl_blk_crypto_key_type :: cenum_decl where
  "enumdecl_blk_crypto_key_type = EnumDecl False [
     (''BLK_CRYPTO_KEY_TYPE_RAW'', 1), (''BLK_CRYPTO_KEY_TYPE_HW_WRAPPED'', 2)]"

definition enumdecl_blk_crypto_mode_num :: cenum_decl where
  "enumdecl_blk_crypto_mode_num = EnumDecl False [
     (''BLK_ENCRYPTION_MODE_INVALID'', 0), (''BLK_ENCRYPTION_MODE_AES_256_XTS'', 1),
     (''BLK_ENCRYPTION_MODE_AES_128_CBC_ESSIV'', 2), (''BLK_ENCRYPTION_MODE_ADIANTUM'', 3),
     (''BLK_ENCRYPTION_MODE_SM4_XTS'', 4), (''BLK_ENCRYPTION_MODE_MAX'', 5)]"

definition enumdecl_blk_default_limits :: cenum_decl where
  "enumdecl_blk_default_limits = EnumDecl False [
     (''BLK_MAX_SEGMENTS'', 128), (''BLK_SAFE_MAX_SECTORS'', 255),
     (''BLK_MAX_SEGMENT_SIZE'', 65536), (''BLK_SEG_BOUNDARY_MASK'', 4294967295)]"

lemma enumdecl_blk_default_limits_4: "enum4 enumdecl_blk_default_limits"
  by (unfold enumdecl_blk_default_limits_def) (intro enum_uint_intros; simp)

definition enumdecl_blk_eh_timer_return :: cenum_decl where
  "enumdecl_blk_eh_timer_return = EnumDecl False [
     (''BLK_EH_DONE'', 0), (''BLK_EH_RESET_TIMER'', 1)]"

definition enumdecl_blk_integrity_flags :: cenum_decl where
  "enumdecl_blk_integrity_flags = EnumDecl False [
     (''BLK_INTEGRITY_NOVERIFY'', 1), (''BLK_INTEGRITY_NOGENERATE'', 2),
     (''BLK_INTEGRITY_DEVICE_CAPABLE'', 4), (''BLK_INTEGRITY_REF_TAG'', 8),
     (''BLK_INTEGRITY_STACKED'', 16)]"

definition enumdecl_blk_req_status :: cenum_decl where
  "enumdecl_blk_req_status = EnumDecl False [
     (''REQ_PROCESSING'', 0), (''REQ_WAITING'', 1), (''REQ_DONE'', 2), (''REQ_ERROR'', 3),
     (''REQ_EOPNOTSUPP'', 4)]"

definition enumdecl_blk_unique_id :: cenum_decl where
  "enumdecl_blk_unique_id = EnumDecl False [
     (''BLK_UID_T10'', 1), (''BLK_UID_EUI64'', 2), (''BLK_UID_NAA'', 3)]"

definition enumdecl_blk_zone_cond :: cenum_decl where
  "enumdecl_blk_zone_cond = EnumDecl False [
     (''BLK_ZONE_COND_NOT_WP'', 0), (''BLK_ZONE_COND_EMPTY'', 1),
     (''BLK_ZONE_COND_IMP_OPEN'', 2), (''BLK_ZONE_COND_EXP_OPEN'', 3),
     (''BLK_ZONE_COND_CLOSED'', 4), (''BLK_ZONE_COND_READONLY'', 13),
     (''BLK_ZONE_COND_FULL'', 14), (''BLK_ZONE_COND_OFFLINE'', 15),
     (''BLK_ZONE_COND_ACTIVE'', 255)]"

definition enumdecl_blk_zone_report_flags :: cenum_decl where
  "enumdecl_blk_zone_report_flags = EnumDecl False [
     (''BLK_ZONE_REP_CAPACITY'', 1), (''BLK_ZONE_REP_CACHED'', 2147483648)]"

lemma enumdecl_blk_zone_report_flags_4: "enum4 enumdecl_blk_zone_report_flags"
  by (unfold enumdecl_blk_zone_report_flags_def) (intro enum_uint_intros; simp)

definition enumdecl_blk_zone_type :: cenum_decl where
  "enumdecl_blk_zone_type = EnumDecl False [
     (''BLK_ZONE_TYPE_CONVENTIONAL'', 1), (''BLK_ZONE_TYPE_SEQWRITE_REQ'', 2),
     (''BLK_ZONE_TYPE_SEQWRITE_PREF'', 3)]"

definition enumdecl_blkg_iostat_type :: cenum_decl where
  "enumdecl_blkg_iostat_type = EnumDecl False [
     (''BLKG_IOSTAT_READ'', 0), (''BLKG_IOSTAT_WRITE'', 1), (''BLKG_IOSTAT_DISCARD'', 2),
     (''BLKG_IOSTAT_NR'', 3)]"

definition enumdecl_blkg_rwstat_type :: cenum_decl where
  "enumdecl_blkg_rwstat_type = EnumDecl False [
     (''BLKG_RWSTAT_READ'', 0), (''BLKG_RWSTAT_WRITE'', 1), (''BLKG_RWSTAT_SYNC'', 2),
     (''BLKG_RWSTAT_ASYNC'', 3), (''BLKG_RWSTAT_DISCARD'', 4), (''BLKG_RWSTAT_NR'', 5),
     (''BLKG_RWSTAT_TOTAL'', 5)]"

definition enumdecl_blkif_state :: cenum_decl where
  "enumdecl_blkif_state = EnumDecl False [
     (''BLKIF_STATE_DISCONNECTED'', 0), (''BLKIF_STATE_CONNECTED'', 1),
     (''BLKIF_STATE_SUSPENDED'', 2), (''BLKIF_STATE_ERROR'', 3)]"

definition enumdecl_blktrace_act :: cenum_decl where
  "enumdecl_blktrace_act = EnumDecl False [
     (''__BLK_TA_QUEUE'', 1), (''__BLK_TA_BACKMERGE'', 2), (''__BLK_TA_FRONTMERGE'', 3),
     (''__BLK_TA_GETRQ'', 4), (''__BLK_TA_SLEEPRQ'', 5), (''__BLK_TA_REQUEUE'', 6),
     (''__BLK_TA_ISSUE'', 7), (''__BLK_TA_COMPLETE'', 8), (''__BLK_TA_PLUG'', 9),
     (''__BLK_TA_UNPLUG_IO'', 10), (''__BLK_TA_UNPLUG_TIMER'', 11), (''__BLK_TA_INSERT'', 12),
     (''__BLK_TA_SPLIT'', 13), (''__BLK_TA_BOUNCE'', 14), (''__BLK_TA_REMAP'', 15),
     (''__BLK_TA_ABORT'', 16), (''__BLK_TA_DRV_DATA'', 17), (''__BLK_TA_ZONE_PLUG'', 18),
     (''__BLK_TA_ZONE_UNPLUG'', 19), (''__BLK_TA_CGROUP'', 256)]"

definition enumdecl_blktrace_cat :: cenum_decl where
  "enumdecl_blktrace_cat = EnumDecl False [
     (''BLK_TC_READ'', 1), (''BLK_TC_WRITE'', 2), (''BLK_TC_FLUSH'', 4), (''BLK_TC_SYNC'', 8),
     (''BLK_TC_SYNCIO'', 8), (''BLK_TC_QUEUE'', 16), (''BLK_TC_REQUEUE'', 32),
     (''BLK_TC_ISSUE'', 64), (''BLK_TC_COMPLETE'', 128), (''BLK_TC_FS'', 256),
     (''BLK_TC_PC'', 512), (''BLK_TC_NOTIFY'', 1024), (''BLK_TC_AHEAD'', 2048),
     (''BLK_TC_META'', 4096), (''BLK_TC_DISCARD'', 8192), (''BLK_TC_DRV_DATA'', 16384),
     (''BLK_TC_FUA'', 32768), (''BLK_TC_END_V1'', 32768), (''BLK_TC_ZONE_APPEND'', 65536),
     (''BLK_TC_ZONE_RESET'', 131072), (''BLK_TC_ZONE_RESET_ALL'', 262144),
     (''BLK_TC_ZONE_FINISH'', 524288), (''BLK_TC_ZONE_OPEN'', 1048576),
     (''BLK_TC_ZONE_CLOSE'', 2097152), (''BLK_TC_WRITE_ZEROES'', 4194304),
     (''BLK_TC_END_V2'', 4194304)]"

definition enumdecl_blktrace_notify :: cenum_decl where
  "enumdecl_blktrace_notify = EnumDecl False [
     (''__BLK_TN_PROCESS'', 0), (''__BLK_TN_TIMESTAMP'', 1), (''__BLK_TN_MESSAGE'', 2),
     (''__BLK_TN_CGROUP'', 256)]"

definition enumdecl_bootmem_type :: cenum_decl where
  "enumdecl_bootmem_type = EnumDecl False [
     (''MEMORY_HOTPLUG_MIN_BOOTMEM_TYPE'', 1), (''SECTION_INFO'', 1), (''MIX_SECTION_INFO'', 2),
     (''NODE_INFO'', 3), (''MEMORY_HOTPLUG_MAX_BOOTMEM_TYPE'', 3)]"

definition enumdecl_bp_state :: cenum_decl where
  "enumdecl_bp_state = EnumDecl False [
     (''BP_DONE'', 0), (''BP_WAIT'', 1), (''BP_EAGAIN'', 2), (''BP_ECANCELED'', 3)]"

definition enumdecl_bp_type_idx :: cenum_decl where
  "enumdecl_bp_type_idx = EnumDecl False [
     (''TYPE_INST'', 0), (''TYPE_DATA'', 0), (''TYPE_MAX'', 1)]"

definition enumdecl_bpf_access_src :: cenum_decl where
  "enumdecl_bpf_access_src = EnumDecl False [
     (''ACCESS_DIRECT'', 1), (''ACCESS_HELPER'', 2)]"

definition enumdecl_bpf_access_type :: cenum_decl where
  "enumdecl_bpf_access_type = EnumDecl False [
     (''BPF_READ'', 1), (''BPF_WRITE'', 2)]"

definition enumdecl_bpf_addr_space_cast :: cenum_decl where
  "enumdecl_bpf_addr_space_cast = EnumDecl False [
     (''BPF_ADDR_SPACE_CAST'', 1)]"

definition enumdecl_bpf_adj_room_mode :: cenum_decl where
  "enumdecl_bpf_adj_room_mode = EnumDecl False [
     (''BPF_ADJ_ROOM_NET'', 0), (''BPF_ADJ_ROOM_MAC'', 1)]"

definition enumdecl_bpf_arg_type :: cenum_decl where
  "enumdecl_bpf_arg_type = EnumDecl False [
     (''ARG_DONTCARE'', 0), (''ARG_CONST_MAP_PTR'', 1), (''ARG_PTR_TO_MAP_KEY'', 2),
     (''ARG_PTR_TO_MAP_VALUE'', 3), (''ARG_PTR_TO_MEM'', 4), (''ARG_PTR_TO_ARENA'', 5),
     (''ARG_CONST_SIZE'', 6), (''ARG_CONST_SIZE_OR_ZERO'', 7), (''ARG_PTR_TO_CTX'', 8),
     (''ARG_ANYTHING'', 9), (''ARG_PTR_TO_SPIN_LOCK'', 10), (''ARG_PTR_TO_SOCK_COMMON'', 11),
     (''ARG_PTR_TO_SOCKET'', 12), (''ARG_PTR_TO_BTF_ID'', 13), (''ARG_PTR_TO_RINGBUF_MEM'', 14),
     (''ARG_CONST_ALLOC_SIZE_OR_ZERO'', 15), (''ARG_PTR_TO_BTF_ID_SOCK_COMMON'', 16),
     (''ARG_PTR_TO_PERCPU_BTF_ID'', 17), (''ARG_PTR_TO_FUNC'', 18), (''ARG_PTR_TO_STACK'', 19),
     (''ARG_PTR_TO_CONST_STR'', 20), (''ARG_PTR_TO_TIMER'', 21), (''ARG_KPTR_XCHG_DEST'', 22),
     (''ARG_PTR_TO_DYNPTR'', 23), (''__BPF_ARG_TYPE_MAX'', 24),
     (''ARG_PTR_TO_MAP_VALUE_OR_NULL'', 259), (''ARG_PTR_TO_MEM_OR_NULL'', 260),
     (''ARG_PTR_TO_CTX_OR_NULL'', 264), (''ARG_PTR_TO_SOCKET_OR_NULL'', 268),
     (''ARG_PTR_TO_STACK_OR_NULL'', 275), (''ARG_PTR_TO_BTF_ID_OR_NULL'', 269),
     (''ARG_PTR_TO_UNINIT_MEM'', 67141636), (''ARG_PTR_TO_FIXED_SIZE_MEM'', 262148),
     (''__BPF_ARG_TYPE_LIMIT'', 536870911)]"

definition enumdecl_bpf_async_op :: cenum_decl where
  "enumdecl_bpf_async_op = EnumDecl False [
     (''BPF_ASYNC_START'', 0), (''BPF_ASYNC_CANCEL'', 1)]"

definition enumdecl_bpf_async_type :: cenum_decl where
  "enumdecl_bpf_async_type = EnumDecl False [
     (''BPF_ASYNC_TYPE_TIMER'', 0), (''BPF_ASYNC_TYPE_WQ'', 1)]"

definition enumdecl_bpf_attach_type :: cenum_decl where
  "enumdecl_bpf_attach_type = EnumDecl False [
     (''BPF_CGROUP_INET_INGRESS'', 0), (''BPF_CGROUP_INET_EGRESS'', 1),
     (''BPF_CGROUP_INET_SOCK_CREATE'', 2), (''BPF_CGROUP_SOCK_OPS'', 3),
     (''BPF_SK_SKB_STREAM_PARSER'', 4), (''BPF_SK_SKB_STREAM_VERDICT'', 5),
     (''BPF_CGROUP_DEVICE'', 6), (''BPF_SK_MSG_VERDICT'', 7), (''BPF_CGROUP_INET4_BIND'', 8),
     (''BPF_CGROUP_INET6_BIND'', 9), (''BPF_CGROUP_INET4_CONNECT'', 10),
     (''BPF_CGROUP_INET6_CONNECT'', 11), (''BPF_CGROUP_INET4_POST_BIND'', 12),
     (''BPF_CGROUP_INET6_POST_BIND'', 13), (''BPF_CGROUP_UDP4_SENDMSG'', 14),
     (''BPF_CGROUP_UDP6_SENDMSG'', 15), (''BPF_LIRC_MODE2'', 16), (''BPF_FLOW_DISSECTOR'', 17),
     (''BPF_CGROUP_SYSCTL'', 18), (''BPF_CGROUP_UDP4_RECVMSG'', 19),
     (''BPF_CGROUP_UDP6_RECVMSG'', 20), (''BPF_CGROUP_GETSOCKOPT'', 21),
     (''BPF_CGROUP_SETSOCKOPT'', 22), (''BPF_TRACE_RAW_TP'', 23), (''BPF_TRACE_FENTRY'', 24),
     (''BPF_TRACE_FEXIT'', 25), (''BPF_MODIFY_RETURN'', 26), (''BPF_LSM_MAC'', 27),
     (''BPF_TRACE_ITER'', 28), (''BPF_CGROUP_INET4_GETPEERNAME'', 29),
     (''BPF_CGROUP_INET6_GETPEERNAME'', 30), (''BPF_CGROUP_INET4_GETSOCKNAME'', 31),
     (''BPF_CGROUP_INET6_GETSOCKNAME'', 32), (''BPF_XDP_DEVMAP'', 33),
     (''BPF_CGROUP_INET_SOCK_RELEASE'', 34), (''BPF_XDP_CPUMAP'', 35), (''BPF_SK_LOOKUP'', 36),
     (''BPF_XDP'', 37), (''BPF_SK_SKB_VERDICT'', 38), (''BPF_SK_REUSEPORT_SELECT'', 39),
     (''BPF_SK_REUSEPORT_SELECT_OR_MIGRATE'', 40), (''BPF_PERF_EVENT'', 41),
     (''BPF_TRACE_KPROBE_MULTI'', 42), (''BPF_LSM_CGROUP'', 43), (''BPF_STRUCT_OPS'', 44),
     (''BPF_NETFILTER'', 45), (''BPF_TCX_INGRESS'', 46), (''BPF_TCX_EGRESS'', 47),
     (''BPF_TRACE_UPROBE_MULTI'', 48), (''BPF_CGROUP_UNIX_CONNECT'', 49),
     (''BPF_CGROUP_UNIX_SENDMSG'', 50), (''BPF_CGROUP_UNIX_RECVMSG'', 51),
     (''BPF_CGROUP_UNIX_GETPEERNAME'', 52), (''BPF_CGROUP_UNIX_GETSOCKNAME'', 53),
     (''BPF_NETKIT_PRIMARY'', 54), (''BPF_NETKIT_PEER'', 55), (''BPF_TRACE_KPROBE_SESSION'', 56),
     (''BPF_TRACE_UPROBE_SESSION'', 57), (''BPF_TRACE_FSESSION'', 58),
     (''__MAX_BPF_ATTACH_TYPE'', 59)]"

definition enumdecl_bpf_audit :: cenum_decl where
  "enumdecl_bpf_audit = EnumDecl False [
     (''BPF_AUDIT_LOAD'', 0), (''BPF_AUDIT_UNLOAD'', 1), (''BPF_AUDIT_MAX'', 2)]"

definition enumdecl_bpf_cgroup_iter_order :: cenum_decl where
  "enumdecl_bpf_cgroup_iter_order = EnumDecl False [
     (''BPF_CGROUP_ITER_ORDER_UNSPEC'', 0), (''BPF_CGROUP_ITER_SELF_ONLY'', 1),
     (''BPF_CGROUP_ITER_DESCENDANTS_PRE'', 2), (''BPF_CGROUP_ITER_DESCENDANTS_POST'', 3),
     (''BPF_CGROUP_ITER_ANCESTORS_UP'', 4), (''BPF_CGROUP_ITER_CHILDREN'', 5)]"

definition enumdecl_bpf_cgroup_storage_type :: cenum_decl where
  "enumdecl_bpf_cgroup_storage_type = EnumDecl False [
     (''BPF_CGROUP_STORAGE_SHARED'', 0), (''BPF_CGROUP_STORAGE_PERCPU'', 1),
     (''__BPF_CGROUP_STORAGE_MAX'', 2)]"

definition enumdecl_bpf_check_mtu_flags :: cenum_decl where
  "enumdecl_bpf_check_mtu_flags = EnumDecl False [
     (''BPF_MTU_CHK_SEGS'', 1)]"

definition enumdecl_bpf_check_mtu_ret :: cenum_decl where
  "enumdecl_bpf_check_mtu_ret = EnumDecl False [
     (''BPF_MTU_CHK_RET_SUCCESS'', 0), (''BPF_MTU_CHK_RET_FRAG_NEEDED'', 1),
     (''BPF_MTU_CHK_RET_SEGS_TOOBIG'', 2)]"

definition enumdecl_bpf_cmd :: cenum_decl where
  "enumdecl_bpf_cmd = EnumDecl False [
     (''BPF_MAP_CREATE'', 0), (''BPF_MAP_LOOKUP_ELEM'', 1), (''BPF_MAP_UPDATE_ELEM'', 2),
     (''BPF_MAP_DELETE_ELEM'', 3), (''BPF_MAP_GET_NEXT_KEY'', 4), (''BPF_PROG_LOAD'', 5),
     (''BPF_OBJ_PIN'', 6), (''BPF_OBJ_GET'', 7), (''BPF_PROG_ATTACH'', 8),
     (''BPF_PROG_DETACH'', 9), (''BPF_PROG_TEST_RUN'', 10), (''BPF_PROG_RUN'', 10),
     (''BPF_PROG_GET_NEXT_ID'', 11), (''BPF_MAP_GET_NEXT_ID'', 12),
     (''BPF_PROG_GET_FD_BY_ID'', 13), (''BPF_MAP_GET_FD_BY_ID'', 14),
     (''BPF_OBJ_GET_INFO_BY_FD'', 15), (''BPF_PROG_QUERY'', 16),
     (''BPF_RAW_TRACEPOINT_OPEN'', 17), (''BPF_BTF_LOAD'', 18), (''BPF_BTF_GET_FD_BY_ID'', 19),
     (''BPF_TASK_FD_QUERY'', 20), (''BPF_MAP_LOOKUP_AND_DELETE_ELEM'', 21),
     (''BPF_MAP_FREEZE'', 22), (''BPF_BTF_GET_NEXT_ID'', 23), (''BPF_MAP_LOOKUP_BATCH'', 24),
     (''BPF_MAP_LOOKUP_AND_DELETE_BATCH'', 25), (''BPF_MAP_UPDATE_BATCH'', 26),
     (''BPF_MAP_DELETE_BATCH'', 27), (''BPF_LINK_CREATE'', 28), (''BPF_LINK_UPDATE'', 29),
     (''BPF_LINK_GET_FD_BY_ID'', 30), (''BPF_LINK_GET_NEXT_ID'', 31), (''BPF_ENABLE_STATS'', 32),
     (''BPF_ITER_CREATE'', 33), (''BPF_LINK_DETACH'', 34), (''BPF_PROG_BIND_MAP'', 35),
     (''BPF_TOKEN_CREATE'', 36), (''BPF_PROG_STREAM_READ_BY_FD'', 37),
     (''BPF_PROG_ASSOC_STRUCT_OPS'', 38), (''__MAX_BPF_CMD'', 39)]"

definition enumdecl_bpf_cond_pseudo_jmp :: cenum_decl where
  "enumdecl_bpf_cond_pseudo_jmp = EnumDecl False [
     (''BPF_MAY_GOTO'', 0)]"

definition enumdecl_bpf_core_relo_kind :: cenum_decl where
  "enumdecl_bpf_core_relo_kind = EnumDecl False [
     (''BPF_CORE_FIELD_BYTE_OFFSET'', 0), (''BPF_CORE_FIELD_BYTE_SIZE'', 1),
     (''BPF_CORE_FIELD_EXISTS'', 2), (''BPF_CORE_FIELD_SIGNED'', 3),
     (''BPF_CORE_FIELD_LSHIFT_U64'', 4), (''BPF_CORE_FIELD_RSHIFT_U64'', 5),
     (''BPF_CORE_TYPE_ID_LOCAL'', 6), (''BPF_CORE_TYPE_ID_TARGET'', 7),
     (''BPF_CORE_TYPE_EXISTS'', 8), (''BPF_CORE_TYPE_SIZE'', 9),
     (''BPF_CORE_ENUMVAL_EXISTS'', 10), (''BPF_CORE_ENUMVAL_VALUE'', 11),
     (''BPF_CORE_TYPE_MATCHES'', 12)]"

definition enumdecl_bpf_dynptr_type :: cenum_decl where
  "enumdecl_bpf_dynptr_type = EnumDecl False [
     (''BPF_DYNPTR_TYPE_INVALID'', 0), (''BPF_DYNPTR_TYPE_LOCAL'', 1),
     (''BPF_DYNPTR_TYPE_RINGBUF'', 2), (''BPF_DYNPTR_TYPE_SKB'', 3),
     (''BPF_DYNPTR_TYPE_XDP'', 4), (''BPF_DYNPTR_TYPE_SKB_META'', 5),
     (''BPF_DYNPTR_TYPE_FILE'', 6)]"

definition enumdecl_bpf_features :: cenum_decl where
  "enumdecl_bpf_features = EnumDecl False [
     (''BPF_FEAT_RDONLY_CAST_TO_VOID'', 0), (''BPF_FEAT_STREAMS'', 1), (''__MAX_BPF_FEAT'', 2)]"

definition enum_decls_8 :: "cenum_decl list" where
  "enum_decls_8 = [
     enumdecl_address_markers_idx, enumdecl_aead_algo, enumdecl_alarmtimer_type,
     enumdecl_align_flags, enumdecl_alloc_loc, enumdecl_alloc_mode, enumdecl_amd_chipset_gen,
     enumdecl_amd_functions, enumdecl_amd_iommu_intr_mode_type, enumdecl_amd_pref_core,
     enumdecl_amd_pstate_mode, enumdecl_aper_size_type, enumdecl_apic_intr_mode_id,
     enumdecl_apparmor_notif_type, enumdecl_array_state, enumdecl_as3711_su2_fbprot,
     enumdecl_as3711_su2_feedback, enumdecl_asn1_class, enumdecl_asn1_method,
     enumdecl_asn1_opcode, enumdecl_asn1_tag, enumdecl_assoc_array_walk_status,
     enumdecl_asymmetric_payload_bits, enumdecl_ata_completion_errors,
     enumdecl_ata_dev_iter_mode, enumdecl_ata_link_iter_mode, enumdecl_ata_lpm_hints,
     enumdecl_ata_lpm_policy, enumdecl_ata_prot_flags, enumdecl_ata_quirks,
     enumdecl_ata_xfer_mask, enumdecl_audit_mode, enumdecl_audit_nfcfgop, enumdecl_audit_nlgrps,
     enumdecl_audit_ntp_type, enumdecl_audit_state, enumdecl_audit_type,
     enumdecl_auditsc_class_t, enumdecl_axp20x_variants, enumdecl_backlight_scale,
     enumdecl_backlight_type, enumdecl_backlight_update_reason, enumdecl_base64_variant,
     enumdecl_batadv_packettype, enumdecl_behavior, enumdecl_bh_state_bits,
     enumdecl_bhi_mitigations, enumdecl_bio_merge_status, enumdecl_bio_post_read_step,
     enumdecl_bios_platform_class, enumdecl_bip_flags, enumdecl_bitmap_page_attr,
     enumdecl_bitmap_state, enumdecl_blacklist_hash_type, enumdecl_blake2s_iv,
     enumdecl_blake2s_lengths, enumdecl_blk_crypto_key_type, enumdecl_blk_crypto_mode_num,
     enumdecl_blk_default_limits, enumdecl_blk_eh_timer_return, enumdecl_blk_integrity_flags,
     enumdecl_blk_req_status, enumdecl_blk_unique_id, enumdecl_blk_zone_cond,
     enumdecl_blk_zone_report_flags, enumdecl_blk_zone_type, enumdecl_blkg_iostat_type,
     enumdecl_blkg_rwstat_type, enumdecl_blkif_state, enumdecl_blktrace_act,
     enumdecl_blktrace_cat, enumdecl_blktrace_notify, enumdecl_bootmem_type, enumdecl_bp_state,
     enumdecl_bp_type_idx, enumdecl_bpf_access_src, enumdecl_bpf_access_type,
     enumdecl_bpf_addr_space_cast, enumdecl_bpf_adj_room_mode, enumdecl_bpf_arg_type,
     enumdecl_bpf_async_op, enumdecl_bpf_async_type, enumdecl_bpf_attach_type,
     enumdecl_bpf_audit, enumdecl_bpf_cgroup_iter_order, enumdecl_bpf_cgroup_storage_type,
     enumdecl_bpf_check_mtu_flags, enumdecl_bpf_check_mtu_ret, enumdecl_bpf_cmd,
     enumdecl_bpf_cond_pseudo_jmp, enumdecl_bpf_core_relo_kind, enumdecl_bpf_dynptr_type,
     enumdecl_bpf_features]"

lemma enum_decls_8_4: "list_all enum4 enum_decls_8"
  by (unfold enum_decls_8_def
     enumdecl_address_markers_idx_def enumdecl_aead_algo_def enumdecl_alarmtimer_type_def
     enumdecl_align_flags_def enumdecl_alloc_loc_def enumdecl_alloc_mode_def
     enumdecl_amd_chipset_gen_def enumdecl_amd_functions_def
     enumdecl_amd_iommu_intr_mode_type_def enumdecl_amd_pref_core_def
     enumdecl_amd_pstate_mode_def enumdecl_aper_size_type_def enumdecl_apic_intr_mode_id_def
     enumdecl_apparmor_notif_type_def enumdecl_array_state_def enumdecl_as3711_su2_fbprot_def
     enumdecl_as3711_su2_feedback_def enumdecl_asn1_class_def enumdecl_asn1_method_def
     enumdecl_asn1_opcode_def enumdecl_asn1_tag_def enumdecl_assoc_array_walk_status_def
     enumdecl_asymmetric_payload_bits_def enumdecl_ata_completion_errors_def
     enumdecl_ata_dev_iter_mode_def enumdecl_ata_link_iter_mode_def enumdecl_ata_lpm_hints_def
     enumdecl_ata_lpm_policy_def enumdecl_ata_prot_flags_def enumdecl_ata_quirks_def
     enumdecl_ata_xfer_mask_def enumdecl_audit_mode_def enumdecl_audit_nfcfgop_def
     enumdecl_audit_nlgrps_def enumdecl_audit_ntp_type_def enumdecl_audit_state_def
     enumdecl_audit_type_def enumdecl_auditsc_class_t_def enumdecl_axp20x_variants_def
     enumdecl_backlight_scale_def enumdecl_backlight_type_def
     enumdecl_backlight_update_reason_def enumdecl_base64_variant_def
     enumdecl_batadv_packettype_def enumdecl_behavior_def enumdecl_bh_state_bits_def
     enumdecl_bhi_mitigations_def enumdecl_bio_merge_status_def
     enumdecl_bio_post_read_step_def enumdecl_bios_platform_class_def enumdecl_bip_flags_def
     enumdecl_bitmap_page_attr_def enumdecl_bitmap_state_def enumdecl_blacklist_hash_type_def
     enumdecl_blake2s_lengths_def enumdecl_blk_crypto_key_type_def
     enumdecl_blk_crypto_mode_num_def enumdecl_blk_eh_timer_return_def
     enumdecl_blk_integrity_flags_def enumdecl_blk_req_status_def enumdecl_blk_unique_id_def
     enumdecl_blk_zone_cond_def enumdecl_blk_zone_type_def enumdecl_blkg_iostat_type_def
     enumdecl_blkg_rwstat_type_def enumdecl_blkif_state_def enumdecl_blktrace_act_def
     enumdecl_blktrace_cat_def enumdecl_blktrace_notify_def enumdecl_bootmem_type_def
     enumdecl_bp_state_def enumdecl_bp_type_idx_def enumdecl_bpf_access_src_def
     enumdecl_bpf_access_type_def enumdecl_bpf_addr_space_cast_def
     enumdecl_bpf_adj_room_mode_def enumdecl_bpf_arg_type_def enumdecl_bpf_async_op_def
     enumdecl_bpf_async_type_def enumdecl_bpf_attach_type_def enumdecl_bpf_audit_def
     enumdecl_bpf_cgroup_iter_order_def enumdecl_bpf_cgroup_storage_type_def
     enumdecl_bpf_check_mtu_flags_def enumdecl_bpf_check_mtu_ret_def enumdecl_bpf_cmd_def
     enumdecl_bpf_cond_pseudo_jmp_def enumdecl_bpf_core_relo_kind_def
     enumdecl_bpf_dynptr_type_def enumdecl_bpf_features_def)
    (intro enum_list_intros enum_int_intros enumdecl_blake2s_iv_4 enumdecl_blk_default_limits_4 enumdecl_blk_zone_report_flags_4; simp)

lemma length_enum_decls_8: "length enum_decls_8 = 93"
  by (simp add: enum_decls_8_def)

end
