(* ===== verification/VmlinuxEnum10.thy ===== *)
theory VmlinuxEnum10
  imports EnumDecl
begin

text \<open>
  The enumerations of four bytes of \<^verbatim>\<open>src/internal/ebpf/vmlinux.h\<close> between lines 15068 and
  16696, one definition per enumeration, enumerators in order. An enumeration without a tag is
  named after the line it starts on.
\<close>

definition enumdecl_dcbnl_bcn_attrs :: cenum_decl where
  "enumdecl_dcbnl_bcn_attrs = EnumDecl False [
     (''DCB_BCN_ATTR_UNDEFINED'', 0), (''DCB_BCN_ATTR_RP_0'', 1), (''DCB_BCN_ATTR_RP_1'', 2),
     (''DCB_BCN_ATTR_RP_2'', 3), (''DCB_BCN_ATTR_RP_3'', 4), (''DCB_BCN_ATTR_RP_4'', 5),
     (''DCB_BCN_ATTR_RP_5'', 6), (''DCB_BCN_ATTR_RP_6'', 7), (''DCB_BCN_ATTR_RP_7'', 8),
     (''DCB_BCN_ATTR_RP_ALL'', 9), (''DCB_BCN_ATTR_BCNA_0'', 10), (''DCB_BCN_ATTR_BCNA_1'', 11),
     (''DCB_BCN_ATTR_ALPHA'', 12), (''DCB_BCN_ATTR_BETA'', 13), (''DCB_BCN_ATTR_GD'', 14),
     (''DCB_BCN_ATTR_GI'', 15), (''DCB_BCN_ATTR_TMAX'', 16), (''DCB_BCN_ATTR_TD'', 17),
     (''DCB_BCN_ATTR_RMIN'', 18), (''DCB_BCN_ATTR_W'', 19), (''DCB_BCN_ATTR_RD'', 20),
     (''DCB_BCN_ATTR_RU'', 21), (''DCB_BCN_ATTR_WRTT'', 22), (''DCB_BCN_ATTR_RI'', 23),
     (''DCB_BCN_ATTR_C'', 24), (''DCB_BCN_ATTR_ALL'', 25), (''__DCB_BCN_ATTR_ENUM_MAX'', 26),
     (''DCB_BCN_ATTR_MAX'', 25)]"

definition enumdecl_dcbnl_cap_attrs :: cenum_decl where
  "enumdecl_dcbnl_cap_attrs = EnumDecl False [
     (''DCB_CAP_ATTR_UNDEFINED'', 0), (''DCB_CAP_ATTR_ALL'', 1), (''DCB_CAP_ATTR_PG'', 2),
     (''DCB_CAP_ATTR_PFC'', 3), (''DCB_CAP_ATTR_UP2TC'', 4), (''DCB_CAP_ATTR_PG_TCS'', 5),
     (''DCB_CAP_ATTR_PFC_TCS'', 6), (''DCB_CAP_ATTR_GSP'', 7), (''DCB_CAP_ATTR_BCN'', 8),
     (''DCB_CAP_ATTR_DCBX'', 9), (''__DCB_CAP_ATTR_ENUM_MAX'', 10), (''DCB_CAP_ATTR_MAX'', 9)]"

definition enumdecl_dcbnl_commands :: cenum_decl where
  "enumdecl_dcbnl_commands = EnumDecl False [
     (''DCB_CMD_UNDEFINED'', 0), (''DCB_CMD_GSTATE'', 1), (''DCB_CMD_SSTATE'', 2),
     (''DCB_CMD_PGTX_GCFG'', 3), (''DCB_CMD_PGTX_SCFG'', 4), (''DCB_CMD_PGRX_GCFG'', 5),
     (''DCB_CMD_PGRX_SCFG'', 6), (''DCB_CMD_PFC_GCFG'', 7), (''DCB_CMD_PFC_SCFG'', 8),
     (''DCB_CMD_SET_ALL'', 9), (''DCB_CMD_GPERM_HWADDR'', 10), (''DCB_CMD_GCAP'', 11),
     (''DCB_CMD_GNUMTCS'', 12), (''DCB_CMD_SNUMTCS'', 13), (''DCB_CMD_PFC_GSTATE'', 14),
     (''DCB_CMD_PFC_SSTATE'', 15), (''DCB_CMD_BCN_GCFG'', 16), (''DCB_CMD_BCN_SCFG'', 17),
     (''DCB_CMD_GAPP'', 18), (''DCB_CMD_SAPP'', 19), (''DCB_CMD_IEEE_SET'', 20),
     (''DCB_CMD_IEEE_GET'', 21), (''DCB_CMD_GDCBX'', 22), (''DCB_CMD_SDCBX'', 23),
     (''DCB_CMD_GFEATCFG'', 24), (''DCB_CMD_SFEATCFG'', 25), (''DCB_CMD_CEE_GET'', 26),
     (''DCB_CMD_IEEE_DEL'', 27), (''__DCB_CMD_ENUM_MAX'', 28), (''DCB_CMD_MAX'', 27)]"

definition enumdecl_dcbnl_featcfg_attrs :: cenum_decl where
  "enumdecl_dcbnl_featcfg_attrs = EnumDecl False [
     (''DCB_FEATCFG_ATTR_UNDEFINED'', 0), (''DCB_FEATCFG_ATTR_ALL'', 1),
     (''DCB_FEATCFG_ATTR_PG'', 2), (''DCB_FEATCFG_ATTR_PFC'', 3), (''DCB_FEATCFG_ATTR_APP'', 4),
     (''__DCB_FEATCFG_ATTR_ENUM_MAX'', 5), (''DCB_FEATCFG_ATTR_MAX'', 4)]"

definition enumdecl_dcbnl_numtcs_attrs :: cenum_decl where
  "enumdecl_dcbnl_numtcs_attrs = EnumDecl False [
     (''DCB_NUMTCS_ATTR_UNDEFINED'', 0), (''DCB_NUMTCS_ATTR_ALL'', 1),
     (''DCB_NUMTCS_ATTR_PG'', 2), (''DCB_NUMTCS_ATTR_PFC'', 3),
     (''__DCB_NUMTCS_ATTR_ENUM_MAX'', 4), (''DCB_NUMTCS_ATTR_MAX'', 3)]"

definition enumdecl_dcbnl_pfc_up_attrs :: cenum_decl where
  "enumdecl_dcbnl_pfc_up_attrs = EnumDecl False [
     (''DCB_PFC_UP_ATTR_UNDEFINED'', 0), (''DCB_PFC_UP_ATTR_0'', 1), (''DCB_PFC_UP_ATTR_1'', 2),
     (''DCB_PFC_UP_ATTR_2'', 3), (''DCB_PFC_UP_ATTR_3'', 4), (''DCB_PFC_UP_ATTR_4'', 5),
     (''DCB_PFC_UP_ATTR_5'', 6), (''DCB_PFC_UP_ATTR_6'', 7), (''DCB_PFC_UP_ATTR_7'', 8),
     (''DCB_PFC_UP_ATTR_ALL'', 9), (''__DCB_PFC_UP_ATTR_ENUM_MAX'', 10),
     (''DCB_PFC_UP_ATTR_MAX'', 9)]"

definition enumdecl_dcbnl_pg_attrs :: cenum_decl where
  "enumdecl_dcbnl_pg_attrs = EnumDecl False [
     (''DCB_PG_ATTR_UNDEFINED'', 0), (''DCB_PG_ATTR_TC_0'', 1), (''DCB_PG_ATTR_TC_1'', 2),
     (''DCB_PG_ATTR_TC_2'', 3), (''DCB_PG_ATTR_TC_3'', 4), (''DCB_PG_ATTR_TC_4'', 5),
     (''DCB_PG_ATTR_TC_5'', 6), (''DCB_PG_ATTR_TC_6'', 7), (''DCB_PG_ATTR_TC_7'', 8),
     (''DCB_PG_ATTR_TC_MAX'', 9), (''DCB_PG_ATTR_TC_ALL'', 10), (''DCB_PG_ATTR_BW_ID_0'', 11),
     (''DCB_PG_ATTR_BW_ID_1'', 12), (''DCB_PG_ATTR_BW_ID_2'', 13), (''DCB_PG_ATTR_BW_ID_3'', 14),
     (''DCB_PG_ATTR_BW_ID_4'', 15), (''DCB_PG_ATTR_BW_ID_5'', 16), (''DCB_PG_ATTR_BW_ID_6'', 17),
     (''DCB_PG_ATTR_BW_ID_7'', 18), (''DCB_PG_ATTR_BW_ID_MAX'', 19),
     (''DCB_PG_ATTR_BW_ID_ALL'', 20), (''__DCB_PG_ATTR_ENUM_MAX'', 21), (''DCB_PG_ATTR_MAX'', 20)]"

definition enumdecl_dcbnl_tc_attrs :: cenum_decl where
  "enumdecl_dcbnl_tc_attrs = EnumDecl False [
     (''DCB_TC_ATTR_PARAM_UNDEFINED'', 0), (''DCB_TC_ATTR_PARAM_PGID'', 1),
     (''DCB_TC_ATTR_PARAM_UP_MAPPING'', 2), (''DCB_TC_ATTR_PARAM_STRICT_PRIO'', 3),
     (''DCB_TC_ATTR_PARAM_BW_PCT'', 4), (''DCB_TC_ATTR_PARAM_ALL'', 5),
     (''__DCB_TC_ATTR_PARAM_ENUM_MAX'', 6), (''DCB_TC_ATTR_PARAM_MAX'', 5)]"

definition enumdecl_dd_data_dir :: cenum_decl where
  "enumdecl_dd_data_dir = EnumDecl False [
     (''DD_READ'', 0), (''DD_WRITE'', 1)]"

definition enumdecl_dd_prio :: cenum_decl where
  "enumdecl_dd_prio = EnumDecl False [
     (''DD_RT_PRIO'', 0), (''DD_BE_PRIO'', 1), (''DD_IDLE_PRIO'', 2), (''DD_PRIO_MAX'', 2)]"

definition enumdecl_dentry_d_lock_class :: cenum_decl where
  "enumdecl_dentry_d_lock_class = EnumDecl False [
     (''DENTRY_D_LOCK_NORMAL'', 0), (''DENTRY_D_LOCK_NESTED'', 1)]"

definition enumdecl_dentry_flags :: cenum_decl where
  "enumdecl_dentry_flags = EnumDecl False [
     (''DCACHE_OP_HASH'', 1), (''DCACHE_OP_COMPARE'', 2), (''DCACHE_OP_REVALIDATE'', 4),
     (''DCACHE_OP_DELETE'', 8), (''DCACHE_OP_PRUNE'', 16), (''DCACHE_DISCONNECTED'', 32),
     (''DCACHE_REFERENCED'', 64), (''DCACHE_DONTCACHE'', 128), (''DCACHE_CANT_MOUNT'', 256),
     (''DCACHE_SHRINK_LIST'', 1024), (''DCACHE_OP_WEAK_REVALIDATE'', 2048),
     (''DCACHE_NFSFS_RENAMED'', 4096), (''DCACHE_FSNOTIFY_PARENT_WATCHED'', 8192),
     (''DCACHE_DENTRY_KILLED'', 16384), (''DCACHE_MOUNTED'', 32768),
     (''DCACHE_NEED_AUTOMOUNT'', 65536), (''DCACHE_MANAGE_TRANSIT'', 131072),
     (''DCACHE_LRU_LIST'', 262144), (''DCACHE_ENTRY_TYPE'', 3670016), (''DCACHE_MISS_TYPE'', 0),
     (''DCACHE_WHITEOUT_TYPE'', 524288), (''DCACHE_DIRECTORY_TYPE'', 1048576),
     (''DCACHE_AUTODIR_TYPE'', 1572864), (''DCACHE_REGULAR_TYPE'', 2097152),
     (''DCACHE_SPECIAL_TYPE'', 2621440), (''DCACHE_SYMLINK_TYPE'', 3145728),
     (''DCACHE_NOKEY_NAME'', 4194304), (''DCACHE_OP_REAL'', 8388608),
     (''DCACHE_PAR_LOOKUP'', 16777216), (''DCACHE_DENTRY_CURSOR'', 33554432),
     (''DCACHE_NORCU'', 67108864), (''DCACHE_PERSISTENT'', 134217728)]"

definition enumdecl_depot_counter_id :: cenum_decl where
  "enumdecl_depot_counter_id = EnumDecl False [
     (''DEPOT_COUNTER_REFD_ALLOCS'', 0), (''DEPOT_COUNTER_REFD_FREES'', 1),
     (''DEPOT_COUNTER_REFD_INUSE'', 2), (''DEPOT_COUNTER_FREELIST_SIZE'', 3),
     (''DEPOT_COUNTER_PERSIST_COUNT'', 4), (''DEPOT_COUNTER_PERSIST_BYTES'', 5),
     (''DEPOT_COUNTER_COUNT'', 6)]"

definition enumdecl_derived_key_type :: cenum_decl where
  "enumdecl_derived_key_type = EnumDecl False [
     (''ENC_KEY'', 0), (''AUTH_KEY'', 1)]"

definition enumdecl_desc_state :: cenum_decl where
  "enumdecl_desc_state = EnumDecl False [
     (''desc_miss'', - 1), (''desc_reserved'', 0), (''desc_committed'', 1),
     (''desc_finalized'', 2), (''desc_reusable'', 3)]"

definition enumdecl_dev_dma_attr :: cenum_decl where
  "enumdecl_dev_dma_attr = EnumDecl False [
     (''DEV_DMA_NOT_SUPPORTED'', 0), (''DEV_DMA_NON_COHERENT'', 1), (''DEV_DMA_COHERENT'', 2)]"

definition enumdecl_dev_pm_opp_event :: cenum_decl where
  "enumdecl_dev_pm_opp_event = EnumDecl False [
     (''OPP_EVENT_ADD'', 0), (''OPP_EVENT_REMOVE'', 1), (''OPP_EVENT_ENABLE'', 2),
     (''OPP_EVENT_DISABLE'', 3), (''OPP_EVENT_ADJUST_VOLTAGE'', 4)]"

definition enumdecl_dev_pm_qos_req_type :: cenum_decl where
  "enumdecl_dev_pm_qos_req_type = EnumDecl False enum_dev_pm_qos_req_type"

definition enumdecl_dev_prop_type :: cenum_decl where
  "enumdecl_dev_prop_type = EnumDecl False [
     (''DEV_PROP_U8'', 0), (''DEV_PROP_U16'', 1), (''DEV_PROP_U32'', 2), (''DEV_PROP_U64'', 3),
     (''DEV_PROP_STRING'', 4), (''DEV_PROP_REF'', 5)]"

definition enumdecl_dev_type :: cenum_decl where
  "enumdecl_dev_type = EnumDecl False [
     (''DEV_UNKNOWN'', 0), (''DEV_X1'', 1), (''DEV_X2'', 2), (''DEV_X4'', 3), (''DEV_X8'', 4),
     (''DEV_X16'', 5), (''DEV_X32'', 6), (''DEV_X64'', 7)]"

definition enumdecl_devcg_behavior :: cenum_decl where
  "enumdecl_devcg_behavior = EnumDecl False [
     (''DEVCG_DEFAULT_NONE'', 0), (''DEVCG_DEFAULT_ALLOW'', 1), (''DEVCG_DEFAULT_DENY'', 2)]"

definition enumdecl_devfreq_parent_dev_type :: cenum_decl where
  "enumdecl_devfreq_parent_dev_type = EnumDecl False [
     (''DEVFREQ_PARENT_DEV'', 0), (''CPUFREQ_PARENT_DEV'', 1)]"

definition enumdecl_devfreq_timer :: cenum_decl where
  "enumdecl_devfreq_timer = EnumDecl False [
     (''DEVFREQ_TIMER_DEFERRABLE'', 0), (''DEVFREQ_TIMER_DELAYED'', 1),
     (''DEVFREQ_TIMER_NUM'', 2)]"

definition enumdecl_device_link_state :: cenum_decl where
  "enumdecl_device_link_state = EnumDecl False [
     (''DL_STATE_NONE'', - 1), (''DL_STATE_DORMANT'', 0), (''DL_STATE_AVAILABLE'', 1),
     (''DL_STATE_CONSUMER_PROBE'', 2), (''DL_STATE_ACTIVE'', 3),
     (''DL_STATE_SUPPLIER_UNBIND'', 4)]"

definition enumdecl_device_physical_location_horizontal_position :: cenum_decl where
  "enumdecl_device_physical_location_horizontal_position = EnumDecl False [
     (''DEVICE_HORI_POS_LEFT'', 0), (''DEVICE_HORI_POS_CENTER'', 1),
     (''DEVICE_HORI_POS_RIGHT'', 2)]"

definition enumdecl_device_physical_location_panel :: cenum_decl where
  "enumdecl_device_physical_location_panel = EnumDecl False [
     (''DEVICE_PANEL_TOP'', 0), (''DEVICE_PANEL_BOTTOM'', 1), (''DEVICE_PANEL_LEFT'', 2),
     (''DEVICE_PANEL_RIGHT'', 3), (''DEVICE_PANEL_FRONT'', 4), (''DEVICE_PANEL_BACK'', 5),
     (''DEVICE_PANEL_UNKNOWN'', 6)]"

definition enumdecl_device_physical_location_vertical_position :: cenum_decl where
  "enumdecl_device_physical_location_vertical_position = EnumDecl False [
     (''DEVICE_VERT_POS_UPPER'', 0), (''DEVICE_VERT_POS_CENTER'', 1),
     (''DEVICE_VERT_POS_LOWER'', 2)]"

definition enumdecl_device_removable :: cenum_decl where
  "enumdecl_device_removable = EnumDecl False [
     (''DEVICE_REMOVABLE_NOT_SUPPORTED'', 0), (''DEVICE_REMOVABLE_UNKNOWN'', 1),
     (''DEVICE_FIXED'', 2), (''DEVICE_REMOVABLE'', 3)]"

definition enumdecl_devkmsg_log_bits :: cenum_decl where
  "enumdecl_devkmsg_log_bits = EnumDecl False [
     (''__DEVKMSG_LOG_BIT_ON'', 0), (''__DEVKMSG_LOG_BIT_OFF'', 1),
     (''__DEVKMSG_LOG_BIT_LOCK'', 2)]"

definition enumdecl_devkmsg_log_masks :: cenum_decl where
  "enumdecl_devkmsg_log_masks = EnumDecl False [
     (''DEVKMSG_LOG_MASK_ON'', 1), (''DEVKMSG_LOG_MASK_OFF'', 2), (''DEVKMSG_LOG_MASK_LOCK'', 4)]"

definition enumdecl_devlink_attr :: cenum_decl where
  "enumdecl_devlink_attr = EnumDecl False [
     (''DEVLINK_ATTR_UNSPEC'', 0), (''DEVLINK_ATTR_BUS_NAME'', 1),
     (''DEVLINK_ATTR_DEV_NAME'', 2), (''DEVLINK_ATTR_PORT_INDEX'', 3),
     (''DEVLINK_ATTR_PORT_TYPE'', 4), (''DEVLINK_ATTR_PORT_DESIRED_TYPE'', 5),
     (''DEVLINK_ATTR_PORT_NETDEV_IFINDEX'', 6), (''DEVLINK_ATTR_PORT_NETDEV_NAME'', 7),
     (''DEVLINK_ATTR_PORT_IBDEV_NAME'', 8), (''DEVLINK_ATTR_PORT_SPLIT_COUNT'', 9),
     (''DEVLINK_ATTR_PORT_SPLIT_GROUP'', 10), (''DEVLINK_ATTR_SB_INDEX'', 11),
     (''DEVLINK_ATTR_SB_SIZE'', 12), (''DEVLINK_ATTR_SB_INGRESS_POOL_COUNT'', 13),
     (''DEVLINK_ATTR_SB_EGRESS_POOL_COUNT'', 14), (''DEVLINK_ATTR_SB_INGRESS_TC_COUNT'', 15),
     (''DEVLINK_ATTR_SB_EGRESS_TC_COUNT'', 16), (''DEVLINK_ATTR_SB_POOL_INDEX'', 17),
     (''DEVLINK_ATTR_SB_POOL_TYPE'', 18), (''DEVLINK_ATTR_SB_POOL_SIZE'', 19),
     (''DEVLINK_ATTR_SB_POOL_THRESHOLD_TYPE'', 20), (''DEVLINK_ATTR_SB_THRESHOLD'', 21),
     (''DEVLINK_ATTR_SB_TC_INDEX'', 22), (''DEVLINK_ATTR_SB_OCC_CUR'', 23),
     (''DEVLINK_ATTR_SB_OCC_MAX'', 24), (''DEVLINK_ATTR_ESWITCH_MODE'', 25),
     (''DEVLINK_ATTR_ESWITCH_INLINE_MODE'', 26), (''DEVLINK_ATTR_DPIPE_TABLES'', 27),
     (''DEVLINK_ATTR_DPIPE_TABLE'', 28), (''DEVLINK_ATTR_DPIPE_TABLE_NAME'', 29),
     (''DEVLINK_ATTR_DPIPE_TABLE_SIZE'', 30), (''DEVLINK_ATTR_DPIPE_TABLE_MATCHES'', 31),
     (''DEVLINK_ATTR_DPIPE_TABLE_ACTIONS'', 32),
     (''DEVLINK_ATTR_DPIPE_TABLE_COUNTERS_ENABLED'', 33), (''DEVLINK_ATTR_DPIPE_ENTRIES'', 34),
     (''DEVLINK_ATTR_DPIPE_ENTRY'', 35), (''DEVLINK_ATTR_DPIPE_ENTRY_INDEX'', 36),
     (''DEVLINK_ATTR_DPIPE_ENTRY_MATCH_VALUES'', 37),
     (''DEVLINK_ATTR_DPIPE_ENTRY_ACTION_VALUES'', 38),
     (''DEVLINK_ATTR_DPIPE_ENTRY_COUNTER'', 39), (''DEVLINK_ATTR_DPIPE_MATCH'', 40),
     (''DEVLINK_ATTR_DPIPE_MATCH_VALUE'', 41), (''DEVLINK_ATTR_DPIPE_MATCH_TYPE'', 42),
     (''DEVLINK_ATTR_DPIPE_ACTION'', 43), (''DEVLINK_ATTR_DPIPE_ACTION_VALUE'', 44),
     (''DEVLINK_ATTR_DPIPE_ACTION_TYPE'', 45), (''DEVLINK_ATTR_DPIPE_VALUE'', 46),
     (''DEVLINK_ATTR_DPIPE_VALUE_MASK'', 47), (''DEVLINK_ATTR_DPIPE_VALUE_MAPPING'', 48),
     (''DEVLINK_ATTR_DPIPE_HEADERS'', 49), (''DEVLINK_ATTR_DPIPE_HEADER'', 50),
     (''DEVLINK_ATTR_DPIPE_HEADER_NAME'', 51), (''DEVLINK_ATTR_DPIPE_HEADER_ID'', 52),
     (''DEVLINK_ATTR_DPIPE_HEADER_FIELDS'', 53), (''DEVLINK_ATTR_DPIPE_HEADER_GLOBAL'', 54),
     (''DEVLINK_ATTR_DPIPE_HEADER_INDEX'', 55), (''DEVLINK_ATTR_DPIPE_FIELD'', 56),
     (''DEVLINK_ATTR_DPIPE_FIELD_NAME'', 57), (''DEVLINK_ATTR_DPIPE_FIELD_ID'', 58),
     (''DEVLINK_ATTR_DPIPE_FIELD_BITWIDTH'', 59),
     (''DEVLINK_ATTR_DPIPE_FIELD_MAPPING_TYPE'', 60), (''DEVLINK_ATTR_PAD'', 61),
     (''DEVLINK_ATTR_ESWITCH_ENCAP_MODE'', 62), (''DEVLINK_ATTR_RESOURCE_LIST'', 63),
     (''DEVLINK_ATTR_RESOURCE'', 64), (''DEVLINK_ATTR_RESOURCE_NAME'', 65),
     (''DEVLINK_ATTR_RESOURCE_ID'', 66), (''DEVLINK_ATTR_RESOURCE_SIZE'', 67),
     (''DEVLINK_ATTR_RESOURCE_SIZE_NEW'', 68), (''DEVLINK_ATTR_RESOURCE_SIZE_VALID'', 69),
     (''DEVLINK_ATTR_RESOURCE_SIZE_MIN'', 70), (''DEVLINK_ATTR_RESOURCE_SIZE_MAX'', 71),
     (''DEVLINK_ATTR_RESOURCE_SIZE_GRAN'', 72), (''DEVLINK_ATTR_RESOURCE_UNIT'', 73),
     (''DEVLINK_ATTR_RESOURCE_OCC'', 74), (''DEVLINK_ATTR_DPIPE_TABLE_RESOURCE_ID'', 75),
     (''DEVLINK_ATTR_DPIPE_TABLE_RESOURCE_UNITS'', 76), (''DEVLINK_ATTR_PORT_FLAVOUR'', 77),
     (''DEVLINK_ATTR_PORT_NUMBER'', 78), (''DEVLINK_ATTR_PORT_SPLIT_SUBPORT_NUMBER'', 79),
     (''DEVLINK_ATTR_PARAM'', 80), (''DEVLINK_ATTR_PARAM_NAME'', 81),
     (''DEVLINK_ATTR_PARAM_GENERIC'', 82), (''DEVLINK_ATTR_PARAM_TYPE'', 83),
     (''DEVLINK_ATTR_PARAM_VALUES_LIST'', 84), (''DEVLINK_ATTR_PARAM_VALUE'', 85),
     (''DEVLINK_ATTR_PARAM_VALUE_DATA'', 86), (''DEVLINK_ATTR_PARAM_VALUE_CMODE'', 87),
     (''DEVLINK_ATTR_REGION_NAME'', 88), (''DEVLINK_ATTR_REGION_SIZE'', 89),
     (''DEVLINK_ATTR_REGION_SNAPSHOTS'', 90), (''DEVLINK_ATTR_REGION_SNAPSHOT'', 91),
     (''DEVLINK_ATTR_REGION_SNAPSHOT_ID'', 92), (''DEVLINK_ATTR_REGION_CHUNKS'', 93),
     (''DEVLINK_ATTR_REGION_CHUNK'', 94), (''DEVLINK_ATTR_REGION_CHUNK_DATA'', 95),
     (''DEVLINK_ATTR_REGION_CHUNK_ADDR'', 96), (''DEVLINK_ATTR_REGION_CHUNK_LEN'', 97),
     (''DEVLINK_ATTR_INFO_DRIVER_NAME'', 98), (''DEVLINK_ATTR_INFO_SERIAL_NUMBER'', 99),
     (''DEVLINK_ATTR_INFO_VERSION_FIXED'', 100), (''DEVLINK_ATTR_INFO_VERSION_RUNNING'', 101),
     (''DEVLINK_ATTR_INFO_VERSION_STORED'', 102), (''DEVLINK_ATTR_INFO_VERSION_NAME'', 103),
     (''DEVLINK_ATTR_INFO_VERSION_VALUE'', 104), (''DEVLINK_ATTR_SB_POOL_CELL_SIZE'', 105),
     (''DEVLINK_ATTR_FMSG'', 106), (''DEVLINK_ATTR_FMSG_OBJ_NEST_START'', 107),
     (''DEVLINK_ATTR_FMSG_PAIR_NEST_START'', 108), (''DEVLINK_ATTR_FMSG_ARR_NEST_START'', 109),
     (''DEVLINK_ATTR_FMSG_NEST_END'', 110), (''DEVLINK_ATTR_FMSG_OBJ_NAME'', 111),
     (''DEVLINK_ATTR_FMSG_OBJ_VALUE_TYPE'', 112), (''DEVLINK_ATTR_FMSG_OBJ_VALUE_DATA'', 113),
     (''DEVLINK_ATTR_HEALTH_REPORTER'', 114), (''DEVLINK_ATTR_HEALTH_REPORTER_NAME'', 115),
     (''DEVLINK_ATTR_HEALTH_REPORTER_STATE'', 116),
     (''DEVLINK_ATTR_HEALTH_REPORTER_ERR_COUNT'', 117),
     (''DEVLINK_ATTR_HEALTH_REPORTER_RECOVER_COUNT'', 118),
     (''DEVLINK_ATTR_HEALTH_REPORTER_DUMP_TS'', 119),
     (''DEVLINK_ATTR_HEALTH_REPORTER_GRACEFUL_PERIOD'', 120),
     (''DEVLINK_ATTR_HEALTH_REPORTER_AUTO_RECOVER'', 121),
     (''DEVLINK_ATTR_FLASH_UPDATE_FILE_NAME'', 122),
     (''DEVLINK_ATTR_FLASH_UPDATE_COMPONENT'', 123),
     (''DEVLINK_ATTR_FLASH_UPDATE_STATUS_MSG'', 124),
     (''DEVLINK_ATTR_FLASH_UPDATE_STATUS_DONE'', 125),
     (''DEVLINK_ATTR_FLASH_UPDATE_STATUS_TOTAL'', 126),
     (''DEVLINK_ATTR_PORT_PCI_PF_NUMBER'', 127), (''DEVLINK_ATTR_PORT_PCI_VF_NUMBER'', 128),
     (''DEVLINK_ATTR_STATS'', 129), (''DEVLINK_ATTR_TRAP_NAME'', 130),
     (''DEVLINK_ATTR_TRAP_ACTION'', 131), (''DEVLINK_ATTR_TRAP_TYPE'', 132),
     (''DEVLINK_ATTR_TRAP_GENERIC'', 133), (''DEVLINK_ATTR_TRAP_METADATA'', 134),
     (''DEVLINK_ATTR_TRAP_GROUP_NAME'', 135), (''DEVLINK_ATTR_RELOAD_FAILED'', 136),
     (''DEVLINK_ATTR_HEALTH_REPORTER_DUMP_TS_NS'', 137), (''DEVLINK_ATTR_NETNS_FD'', 138),
     (''DEVLINK_ATTR_NETNS_PID'', 139), (''DEVLINK_ATTR_NETNS_ID'', 140),
     (''DEVLINK_ATTR_HEALTH_REPORTER_AUTO_DUMP'', 141), (''DEVLINK_ATTR_TRAP_POLICER_ID'', 142),
     (''DEVLINK_ATTR_TRAP_POLICER_RATE'', 143), (''DEVLINK_ATTR_TRAP_POLICER_BURST'', 144),
     (''DEVLINK_ATTR_PORT_FUNCTION'', 145), (''DEVLINK_ATTR_INFO_BOARD_SERIAL_NUMBER'', 146),
     (''DEVLINK_ATTR_PORT_LANES'', 147), (''DEVLINK_ATTR_PORT_SPLITTABLE'', 148),
     (''DEVLINK_ATTR_PORT_EXTERNAL'', 149), (''DEVLINK_ATTR_PORT_CONTROLLER_NUMBER'', 150),
     (''DEVLINK_ATTR_FLASH_UPDATE_STATUS_TIMEOUT'', 151),
     (''DEVLINK_ATTR_FLASH_UPDATE_OVERWRITE_MASK'', 152), (''DEVLINK_ATTR_RELOAD_ACTION'', 153),
     (''DEVLINK_ATTR_RELOAD_ACTIONS_PERFORMED'', 154), (''DEVLINK_ATTR_RELOAD_LIMITS'', 155),
     (''DEVLINK_ATTR_DEV_STATS'', 156), (''DEVLINK_ATTR_RELOAD_STATS'', 157),
     (''DEVLINK_ATTR_RELOAD_STATS_ENTRY'', 158), (''DEVLINK_ATTR_RELOAD_STATS_LIMIT'', 159),
     (''DEVLINK_ATTR_RELOAD_STATS_VALUE'', 160), (''DEVLINK_ATTR_REMOTE_RELOAD_STATS'', 161),
     (''DEVLINK_ATTR_RELOAD_ACTION_INFO'', 162), (''DEVLINK_ATTR_RELOAD_ACTION_STATS'', 163),
     (''DEVLINK_ATTR_PORT_PCI_SF_NUMBER'', 164), (''DEVLINK_ATTR_RATE_TYPE'', 165),
     (''DEVLINK_ATTR_RATE_TX_SHARE'', 166), (''DEVLINK_ATTR_RATE_TX_MAX'', 167),
     (''DEVLINK_ATTR_RATE_NODE_NAME'', 168), (''DEVLINK_ATTR_RATE_PARENT_NODE_NAME'', 169),
     (''DEVLINK_ATTR_REGION_MAX_SNAPSHOTS'', 170), (''DEVLINK_ATTR_LINECARD_INDEX'', 171),
     (''DEVLINK_ATTR_LINECARD_STATE'', 172), (''DEVLINK_ATTR_LINECARD_TYPE'', 173),
     (''DEVLINK_ATTR_LINECARD_SUPPORTED_TYPES'', 174), (''DEVLINK_ATTR_NESTED_DEVLINK'', 175),
     (''DEVLINK_ATTR_SELFTESTS'', 176), (''DEVLINK_ATTR_RATE_TX_PRIORITY'', 177),
     (''DEVLINK_ATTR_RATE_TX_WEIGHT'', 178), (''DEVLINK_ATTR_REGION_DIRECT'', 179),
     (''DEVLINK_ATTR_RATE_TC_BWS'', 180), (''DEVLINK_ATTR_HEALTH_REPORTER_BURST_PERIOD'', 181),
     (''DEVLINK_ATTR_PARAM_VALUE_DEFAULT'', 182), (''DEVLINK_ATTR_PARAM_RESET_DEFAULT'', 183),
     (''__DEVLINK_ATTR_MAX'', 184), (''DEVLINK_ATTR_MAX'', 183)]"

definition enumdecl_devlink_attr_selftest_id :: cenum_decl where
  "enumdecl_devlink_attr_selftest_id = EnumDecl False [
     (''DEVLINK_ATTR_SELFTEST_ID_UNSPEC'', 0), (''DEVLINK_ATTR_SELFTEST_ID_FLASH'', 1),
     (''__DEVLINK_ATTR_SELFTEST_ID_MAX'', 2), (''DEVLINK_ATTR_SELFTEST_ID_MAX'', 1)]"

definition enumdecl_devlink_attr_selftest_result :: cenum_decl where
  "enumdecl_devlink_attr_selftest_result = EnumDecl False [
     (''DEVLINK_ATTR_SELFTEST_RESULT_UNSPEC'', 0), (''DEVLINK_ATTR_SELFTEST_RESULT'', 1),
     (''DEVLINK_ATTR_SELFTEST_RESULT_ID'', 2), (''DEVLINK_ATTR_SELFTEST_RESULT_STATUS'', 3),
     (''__DEVLINK_ATTR_SELFTEST_RESULT_MAX'', 4), (''DEVLINK_ATTR_SELFTEST_RESULT_MAX'', 3)]"

definition enumdecl_devlink_command :: cenum_decl where
  "enumdecl_devlink_command = EnumDecl False [
     (''DEVLINK_CMD_UNSPEC'', 0), (''DEVLINK_CMD_GET'', 1), (''DEVLINK_CMD_SET'', 2),
     (''DEVLINK_CMD_NEW'', 3), (''DEVLINK_CMD_DEL'', 4), (''DEVLINK_CMD_PORT_GET'', 5),
     (''DEVLINK_CMD_PORT_SET'', 6), (''DEVLINK_CMD_PORT_NEW'', 7), (''DEVLINK_CMD_PORT_DEL'', 8),
     (''DEVLINK_CMD_PORT_SPLIT'', 9), (''DEVLINK_CMD_PORT_UNSPLIT'', 10),
     (''DEVLINK_CMD_SB_GET'', 11), (''DEVLINK_CMD_SB_SET'', 12), (''DEVLINK_CMD_SB_NEW'', 13),
     (''DEVLINK_CMD_SB_DEL'', 14), (''DEVLINK_CMD_SB_POOL_GET'', 15),
     (''DEVLINK_CMD_SB_POOL_SET'', 16), (''DEVLINK_CMD_SB_POOL_NEW'', 17),
     (''DEVLINK_CMD_SB_POOL_DEL'', 18), (''DEVLINK_CMD_SB_PORT_POOL_GET'', 19),
     (''DEVLINK_CMD_SB_PORT_POOL_SET'', 20), (''DEVLINK_CMD_SB_PORT_POOL_NEW'', 21),
     (''DEVLINK_CMD_SB_PORT_POOL_DEL'', 22), (''DEVLINK_CMD_SB_TC_POOL_BIND_GET'', 23),
     (''DEVLINK_CMD_SB_TC_POOL_BIND_SET'', 24), (''DEVLINK_CMD_SB_TC_POOL_BIND_NEW'', 25),
     (''DEVLINK_CMD_SB_TC_POOL_BIND_DEL'', 26), (''DEVLINK_CMD_SB_OCC_SNAPSHOT'', 27),
     (''DEVLINK_CMD_SB_OCC_MAX_CLEAR'', 28), (''DEVLINK_CMD_ESWITCH_GET'', 29),
     (''DEVLINK_CMD_ESWITCH_SET'', 30), (''DEVLINK_CMD_DPIPE_TABLE_GET'', 31),
     (''DEVLINK_CMD_DPIPE_ENTRIES_GET'', 32), (''DEVLINK_CMD_DPIPE_HEADERS_GET'', 33),
     (''DEVLINK_CMD_DPIPE_TABLE_COUNTERS_SET'', 34), (''DEVLINK_CMD_RESOURCE_SET'', 35),
     (''DEVLINK_CMD_RESOURCE_DUMP'', 36), (''DEVLINK_CMD_RELOAD'', 37),
     (''DEVLINK_CMD_PARAM_GET'', 38), (''DEVLINK_CMD_PARAM_SET'', 39),
     (''DEVLINK_CMD_PARAM_NEW'', 40), (''DEVLINK_CMD_PARAM_DEL'', 41),
     (''DEVLINK_CMD_REGION_GET'', 42), (''DEVLINK_CMD_REGION_SET'', 43),
     (''DEVLINK_CMD_REGION_NEW'', 44), (''DEVLINK_CMD_REGION_DEL'', 45),
     (''DEVLINK_CMD_REGION_READ'', 46), (''DEVLINK_CMD_PORT_PARAM_GET'', 47),
     (''DEVLINK_CMD_PORT_PARAM_SET'', 48), (''DEVLINK_CMD_PORT_PARAM_NEW'', 49),
     (''DEVLINK_CMD_PORT_PARAM_DEL'', 50), (''DEVLINK_CMD_INFO_GET'', 51),
     (''DEVLINK_CMD_HEALTH_REPORTER_GET'', 52), (''DEVLINK_CMD_HEALTH_REPORTER_SET'', 53),
     (''DEVLINK_CMD_HEALTH_REPORTER_RECOVER'', 54),
     (''DEVLINK_CMD_HEALTH_REPORTER_DIAGNOSE'', 55),
     (''DEVLINK_CMD_HEALTH_REPORTER_DUMP_GET'', 56),
     (''DEVLINK_CMD_HEALTH_REPORTER_DUMP_CLEAR'', 57), (''DEVLINK_CMD_FLASH_UPDATE'', 58),
     (''DEVLINK_CMD_FLASH_UPDATE_END'', 59), (''DEVLINK_CMD_FLASH_UPDATE_STATUS'', 60),
     (''DEVLINK_CMD_TRAP_GET'', 61), (''DEVLINK_CMD_TRAP_SET'', 62),
     (''DEVLINK_CMD_TRAP_NEW'', 63), (''DEVLINK_CMD_TRAP_DEL'', 64),
     (''DEVLINK_CMD_TRAP_GROUP_GET'', 65), (''DEVLINK_CMD_TRAP_GROUP_SET'', 66),
     (''DEVLINK_CMD_TRAP_GROUP_NEW'', 67), (''DEVLINK_CMD_TRAP_GROUP_DEL'', 68),
     (''DEVLINK_CMD_TRAP_POLICER_GET'', 69), (''DEVLINK_CMD_TRAP_POLICER_SET'', 70),
     (''DEVLINK_CMD_TRAP_POLICER_NEW'', 71), (''DEVLINK_CMD_TRAP_POLICER_DEL'', 72),
     (''DEVLINK_CMD_HEALTH_REPORTER_TEST'', 73), (''DEVLINK_CMD_RATE_GET'', 74),
     (''DEVLINK_CMD_RATE_SET'', 75), (''DEVLINK_CMD_RATE_NEW'', 76),
     (''DEVLINK_CMD_RATE_DEL'', 77), (''DEVLINK_CMD_LINECARD_GET'', 78),
     (''DEVLINK_CMD_LINECARD_SET'', 79), (''DEVLINK_CMD_LINECARD_NEW'', 80),
     (''DEVLINK_CMD_LINECARD_DEL'', 81), (''DEVLINK_CMD_SELFTESTS_GET'', 82),
     (''DEVLINK_CMD_SELFTESTS_RUN'', 83), (''DEVLINK_CMD_NOTIFY_FILTER_SET'', 84),
     (''__DEVLINK_CMD_MAX'', 85), (''DEVLINK_CMD_MAX'', 84)]"

definition enumdecl_devlink_dpipe_action_type :: cenum_decl where
  "enumdecl_devlink_dpipe_action_type = EnumDecl False [
     (''DEVLINK_DPIPE_ACTION_TYPE_FIELD_MODIFY'', 0)]"

definition enumdecl_devlink_dpipe_field_ethernet_id :: cenum_decl where
  "enumdecl_devlink_dpipe_field_ethernet_id = EnumDecl False [
     (''DEVLINK_DPIPE_FIELD_ETHERNET_DST_MAC'', 0)]"

definition enumdecl_devlink_dpipe_field_ipv4_id :: cenum_decl where
  "enumdecl_devlink_dpipe_field_ipv4_id = EnumDecl False [
     (''DEVLINK_DPIPE_FIELD_IPV4_DST_IP'', 0)]"

definition enumdecl_devlink_dpipe_field_ipv6_id :: cenum_decl where
  "enumdecl_devlink_dpipe_field_ipv6_id = EnumDecl False [
     (''DEVLINK_DPIPE_FIELD_IPV6_DST_IP'', 0)]"

definition enumdecl_devlink_dpipe_field_mapping_type :: cenum_decl where
  "enumdecl_devlink_dpipe_field_mapping_type = EnumDecl False [
     (''DEVLINK_DPIPE_FIELD_MAPPING_TYPE_NONE'', 0),
     (''DEVLINK_DPIPE_FIELD_MAPPING_TYPE_IFINDEX'', 1)]"

definition enumdecl_devlink_dpipe_header_id :: cenum_decl where
  "enumdecl_devlink_dpipe_header_id = EnumDecl False [
     (''DEVLINK_DPIPE_HEADER_ETHERNET'', 0), (''DEVLINK_DPIPE_HEADER_IPV4'', 1),
     (''DEVLINK_DPIPE_HEADER_IPV6'', 2)]"

definition enumdecl_devlink_dpipe_match_type :: cenum_decl where
  "enumdecl_devlink_dpipe_match_type = EnumDecl False [
     (''DEVLINK_DPIPE_MATCH_TYPE_FIELD_EXACT'', 0)]"

definition enumdecl_devlink_eswitch_encap_mode :: cenum_decl where
  "enumdecl_devlink_eswitch_encap_mode = EnumDecl False [
     (''DEVLINK_ESWITCH_ENCAP_MODE_NONE'', 0), (''DEVLINK_ESWITCH_ENCAP_MODE_BASIC'', 1)]"

definition enumdecl_devlink_health_reporter_state :: cenum_decl where
  "enumdecl_devlink_health_reporter_state = EnumDecl False [
     (''DEVLINK_HEALTH_REPORTER_STATE_HEALTHY'', 0), (''DEVLINK_HEALTH_REPORTER_STATE_ERROR'', 1)]"

definition enumdecl_devlink_info_version_type :: cenum_decl where
  "enumdecl_devlink_info_version_type = EnumDecl False [
     (''DEVLINK_INFO_VERSION_TYPE_NONE'', 0), (''DEVLINK_INFO_VERSION_TYPE_COMPONENT'', 1)]"

definition enumdecl_devlink_linecard_state :: cenum_decl where
  "enumdecl_devlink_linecard_state = EnumDecl False [
     (''DEVLINK_LINECARD_STATE_UNSPEC'', 0), (''DEVLINK_LINECARD_STATE_UNPROVISIONED'', 1),
     (''DEVLINK_LINECARD_STATE_UNPROVISIONING'', 2),
     (''DEVLINK_LINECARD_STATE_PROVISIONING'', 3),
     (''DEVLINK_LINECARD_STATE_PROVISIONING_FAILED'', 4),
     (''DEVLINK_LINECARD_STATE_PROVISIONED'', 5), (''DEVLINK_LINECARD_STATE_ACTIVE'', 6),
     (''__DEVLINK_LINECARD_STATE_MAX'', 7), (''DEVLINK_LINECARD_STATE_MAX'', 6)]"

definition enumdecl_devlink_multicast_groups :: cenum_decl where
  "enumdecl_devlink_multicast_groups = EnumDecl False [
     (''DEVLINK_MCGRP_CONFIG'', 0)]"

definition enumdecl_devlink_param_cmode :: cenum_decl where
  "enumdecl_devlink_param_cmode = EnumDecl False [
     (''DEVLINK_PARAM_CMODE_RUNTIME'', 0), (''DEVLINK_PARAM_CMODE_DRIVERINIT'', 1),
     (''DEVLINK_PARAM_CMODE_PERMANENT'', 2), (''__DEVLINK_PARAM_CMODE_MAX'', 3),
     (''DEVLINK_PARAM_CMODE_MAX'', 2)]"

definition enumdecl_devlink_param_generic_id :: cenum_decl where
  "enumdecl_devlink_param_generic_id = EnumDecl False [
     (''DEVLINK_PARAM_GENERIC_ID_INT_ERR_RESET'', 0), (''DEVLINK_PARAM_GENERIC_ID_MAX_MACS'', 1),
     (''DEVLINK_PARAM_GENERIC_ID_ENABLE_SRIOV'', 2),
     (''DEVLINK_PARAM_GENERIC_ID_REGION_SNAPSHOT'', 3),
     (''DEVLINK_PARAM_GENERIC_ID_IGNORE_ARI'', 4),
     (''DEVLINK_PARAM_GENERIC_ID_MSIX_VEC_PER_PF_MAX'', 5),
     (''DEVLINK_PARAM_GENERIC_ID_MSIX_VEC_PER_PF_MIN'', 6),
     (''DEVLINK_PARAM_GENERIC_ID_FW_LOAD_POLICY'', 7),
     (''DEVLINK_PARAM_GENERIC_ID_RESET_DEV_ON_DRV_PROBE'', 8),
     (''DEVLINK_PARAM_GENERIC_ID_ENABLE_ROCE'', 9),
     (''DEVLINK_PARAM_GENERIC_ID_ENABLE_REMOTE_DEV_RESET'', 10),
     (''DEVLINK_PARAM_GENERIC_ID_ENABLE_ETH'', 11),
     (''DEVLINK_PARAM_GENERIC_ID_ENABLE_RDMA'', 12),
     (''DEVLINK_PARAM_GENERIC_ID_ENABLE_VNET'', 13),
     (''DEVLINK_PARAM_GENERIC_ID_ENABLE_IWARP'', 14),
     (''DEVLINK_PARAM_GENERIC_ID_IO_EQ_SIZE'', 15),
     (''DEVLINK_PARAM_GENERIC_ID_EVENT_EQ_SIZE'', 16),
     (''DEVLINK_PARAM_GENERIC_ID_ENABLE_PHC'', 17), (''DEVLINK_PARAM_GENERIC_ID_CLOCK_ID'', 18),
     (''DEVLINK_PARAM_GENERIC_ID_TOTAL_VFS'', 19),
     (''DEVLINK_PARAM_GENERIC_ID_NUM_DOORBELLS'', 20),
     (''DEVLINK_PARAM_GENERIC_ID_MAX_MAC_PER_VF'', 21), (''__DEVLINK_PARAM_GENERIC_ID_MAX'', 22),
     (''DEVLINK_PARAM_GENERIC_ID_MAX'', 21)]"

definition enumdecl_devlink_param_type :: cenum_decl where
  "enumdecl_devlink_param_type = EnumDecl False [
     (''DEVLINK_PARAM_TYPE_U8'', 1), (''DEVLINK_PARAM_TYPE_U16'', 2),
     (''DEVLINK_PARAM_TYPE_U32'', 3), (''DEVLINK_PARAM_TYPE_U64'', 4),
     (''DEVLINK_PARAM_TYPE_STRING'', 5), (''DEVLINK_PARAM_TYPE_BOOL'', 6)]"

definition enumdecl_devlink_port_flavour :: cenum_decl where
  "enumdecl_devlink_port_flavour = EnumDecl False [
     (''DEVLINK_PORT_FLAVOUR_PHYSICAL'', 0), (''DEVLINK_PORT_FLAVOUR_CPU'', 1),
     (''DEVLINK_PORT_FLAVOUR_DSA'', 2), (''DEVLINK_PORT_FLAVOUR_PCI_PF'', 3),
     (''DEVLINK_PORT_FLAVOUR_PCI_VF'', 4), (''DEVLINK_PORT_FLAVOUR_VIRTUAL'', 5),
     (''DEVLINK_PORT_FLAVOUR_UNUSED'', 6), (''DEVLINK_PORT_FLAVOUR_PCI_SF'', 7)]"

definition enumdecl_devlink_port_fn_attr_cap :: cenum_decl where
  "enumdecl_devlink_port_fn_attr_cap = EnumDecl False [
     (''DEVLINK_PORT_FN_ATTR_CAP_ROCE_BIT'', 0),
     (''DEVLINK_PORT_FN_ATTR_CAP_MIGRATABLE_BIT'', 1),
     (''DEVLINK_PORT_FN_ATTR_CAP_IPSEC_CRYPTO_BIT'', 2),
     (''DEVLINK_PORT_FN_ATTR_CAP_IPSEC_PACKET_BIT'', 3), (''__DEVLINK_PORT_FN_ATTR_CAPS_MAX'', 4)]"

definition enumdecl_devlink_port_fn_opstate :: cenum_decl where
  "enumdecl_devlink_port_fn_opstate = EnumDecl False [
     (''DEVLINK_PORT_FN_OPSTATE_DETACHED'', 0), (''DEVLINK_PORT_FN_OPSTATE_ATTACHED'', 1)]"

definition enumdecl_devlink_port_fn_state :: cenum_decl where
  "enumdecl_devlink_port_fn_state = EnumDecl False [
     (''DEVLINK_PORT_FN_STATE_INACTIVE'', 0), (''DEVLINK_PORT_FN_STATE_ACTIVE'', 1)]"

definition enumdecl_devlink_port_function_attr :: cenum_decl where
  "enumdecl_devlink_port_function_attr = EnumDecl False [
     (''DEVLINK_PORT_FUNCTION_ATTR_UNSPEC'', 0), (''DEVLINK_PORT_FUNCTION_ATTR_HW_ADDR'', 1),
     (''DEVLINK_PORT_FN_ATTR_STATE'', 2), (''DEVLINK_PORT_FN_ATTR_OPSTATE'', 3),
     (''DEVLINK_PORT_FN_ATTR_CAPS'', 4), (''DEVLINK_PORT_FN_ATTR_DEVLINK'', 5),
     (''DEVLINK_PORT_FN_ATTR_MAX_IO_EQS'', 6), (''__DEVLINK_PORT_FUNCTION_ATTR_MAX'', 7),
     (''DEVLINK_PORT_FUNCTION_ATTR_MAX'', 6)]"

definition enumdecl_devlink_port_type :: cenum_decl where
  "enumdecl_devlink_port_type = EnumDecl False [
     (''DEVLINK_PORT_TYPE_NOTSET'', 0), (''DEVLINK_PORT_TYPE_AUTO'', 1),
     (''DEVLINK_PORT_TYPE_ETH'', 2), (''DEVLINK_PORT_TYPE_IB'', 3)]"

definition enumdecl_devlink_rate_tc_attr :: cenum_decl where
  "enumdecl_devlink_rate_tc_attr = EnumDecl False [
     (''DEVLINK_RATE_TC_ATTR_UNSPEC'', 0), (''DEVLINK_RATE_TC_ATTR_INDEX'', 1),
     (''DEVLINK_RATE_TC_ATTR_BW'', 2), (''__DEVLINK_RATE_TC_ATTR_MAX'', 3),
     (''DEVLINK_RATE_TC_ATTR_MAX'', 2)]"

definition enumdecl_devlink_rate_type :: cenum_decl where
  "enumdecl_devlink_rate_type = EnumDecl False [
     (''DEVLINK_RATE_TYPE_LEAF'', 0), (''DEVLINK_RATE_TYPE_NODE'', 1)]"

definition enumdecl_devlink_reload_action :: cenum_decl where
  "enumdecl_devlink_reload_action = EnumDecl False [
     (''DEVLINK_RELOAD_ACTION_UNSPEC'', 0), (''DEVLINK_RELOAD_ACTION_DRIVER_REINIT'', 1),
     (''DEVLINK_RELOAD_ACTION_FW_ACTIVATE'', 2), (''__DEVLINK_RELOAD_ACTION_MAX'', 3),
     (''DEVLINK_RELOAD_ACTION_MAX'', 2)]"

definition enumdecl_devlink_reload_limit :: cenum_decl where
  "enumdecl_devlink_reload_limit = EnumDecl False [
     (''DEVLINK_RELOAD_LIMIT_UNSPEC'', 0), (''DEVLINK_RELOAD_LIMIT_NO_RESET'', 1),
     (''__DEVLINK_RELOAD_LIMIT_MAX'', 2), (''DEVLINK_RELOAD_LIMIT_MAX'', 1)]"

definition enumdecl_devlink_resource_unit :: cenum_decl where
  "enumdecl_devlink_resource_unit = EnumDecl False [
     (''DEVLINK_RESOURCE_UNIT_ENTRY'', 0)]"

definition enumdecl_devlink_sb_pool_type :: cenum_decl where
  "enumdecl_devlink_sb_pool_type = EnumDecl False [
     (''DEVLINK_SB_POOL_TYPE_INGRESS'', 0), (''DEVLINK_SB_POOL_TYPE_EGRESS'', 1)]"

definition enumdecl_devlink_sb_threshold_type :: cenum_decl where
  "enumdecl_devlink_sb_threshold_type = EnumDecl False [
     (''DEVLINK_SB_THRESHOLD_TYPE_STATIC'', 0), (''DEVLINK_SB_THRESHOLD_TYPE_DYNAMIC'', 1)]"

definition enumdecl_devlink_selftest_status :: cenum_decl where
  "enumdecl_devlink_selftest_status = EnumDecl False [
     (''DEVLINK_SELFTEST_STATUS_SKIP'', 0), (''DEVLINK_SELFTEST_STATUS_PASS'', 1),
     (''DEVLINK_SELFTEST_STATUS_FAIL'', 2)]"

definition enumdecl_devlink_trap_action :: cenum_decl where
  "enumdecl_devlink_trap_action = EnumDecl False [
     (''DEVLINK_TRAP_ACTION_DROP'', 0), (''DEVLINK_TRAP_ACTION_TRAP'', 1),
     (''DEVLINK_TRAP_ACTION_MIRROR'', 2)]"

definition enumdecl_devlink_trap_generic_id :: cenum_decl where
  "enumdecl_devlink_trap_generic_id = EnumDecl False [
     (''DEVLINK_TRAP_GENERIC_ID_SMAC_MC'', 0),
     (''DEVLINK_TRAP_GENERIC_ID_VLAN_TAG_MISMATCH'', 1),
     (''DEVLINK_TRAP_GENERIC_ID_INGRESS_VLAN_FILTER'', 2),
     (''DEVLINK_TRAP_GENERIC_ID_INGRESS_STP_FILTER'', 3),
     (''DEVLINK_TRAP_GENERIC_ID_EMPTY_TX_LIST'', 4),
     (''DEVLINK_TRAP_GENERIC_ID_PORT_LOOPBACK_FILTER'', 5),
     (''DEVLINK_TRAP_GENERIC_ID_BLACKHOLE_ROUTE'', 6),
     (''DEVLINK_TRAP_GENERIC_ID_TTL_ERROR'', 7), (''DEVLINK_TRAP_GENERIC_ID_TAIL_DROP'', 8),
     (''DEVLINK_TRAP_GENERIC_ID_NON_IP_PACKET'', 9),
     (''DEVLINK_TRAP_GENERIC_ID_UC_DIP_MC_DMAC'', 10), (''DEVLINK_TRAP_GENERIC_ID_DIP_LB'', 11),
     (''DEVLINK_TRAP_GENERIC_ID_SIP_MC'', 12), (''DEVLINK_TRAP_GENERIC_ID_SIP_LB'', 13),
     (''DEVLINK_TRAP_GENERIC_ID_CORRUPTED_IP_HDR'', 14),
     (''DEVLINK_TRAP_GENERIC_ID_IPV4_SIP_BC'', 15),
     (''DEVLINK_TRAP_GENERIC_ID_IPV6_MC_DIP_RESERVED_SCOPE'', 16),
     (''DEVLINK_TRAP_GENERIC_ID_IPV6_MC_DIP_INTERFACE_LOCAL_SCOPE'', 17),
     (''DEVLINK_TRAP_GENERIC_ID_MTU_ERROR'', 18),
     (''DEVLINK_TRAP_GENERIC_ID_UNRESOLVED_NEIGH'', 19), (''DEVLINK_TRAP_GENERIC_ID_RPF'', 20),
     (''DEVLINK_TRAP_GENERIC_ID_REJECT_ROUTE'', 21),
     (''DEVLINK_TRAP_GENERIC_ID_IPV4_LPM_UNICAST_MISS'', 22),
     (''DEVLINK_TRAP_GENERIC_ID_IPV6_LPM_UNICAST_MISS'', 23),
     (''DEVLINK_TRAP_GENERIC_ID_NON_ROUTABLE'', 24),
     (''DEVLINK_TRAP_GENERIC_ID_DECAP_ERROR'', 25),
     (''DEVLINK_TRAP_GENERIC_ID_OVERLAY_SMAC_MC'', 26),
     (''DEVLINK_TRAP_GENERIC_ID_INGRESS_FLOW_ACTION_DROP'', 27),
     (''DEVLINK_TRAP_GENERIC_ID_EGRESS_FLOW_ACTION_DROP'', 28),
     (''DEVLINK_TRAP_GENERIC_ID_STP'', 29), (''DEVLINK_TRAP_GENERIC_ID_LACP'', 30),
     (''DEVLINK_TRAP_GENERIC_ID_LLDP'', 31), (''DEVLINK_TRAP_GENERIC_ID_IGMP_QUERY'', 32),
     (''DEVLINK_TRAP_GENERIC_ID_IGMP_V1_REPORT'', 33),
     (''DEVLINK_TRAP_GENERIC_ID_IGMP_V2_REPORT'', 34),
     (''DEVLINK_TRAP_GENERIC_ID_IGMP_V3_REPORT'', 35),
     (''DEVLINK_TRAP_GENERIC_ID_IGMP_V2_LEAVE'', 36),
     (''DEVLINK_TRAP_GENERIC_ID_MLD_QUERY'', 37),
     (''DEVLINK_TRAP_GENERIC_ID_MLD_V1_REPORT'', 38),
     (''DEVLINK_TRAP_GENERIC_ID_MLD_V2_REPORT'', 39),
     (''DEVLINK_TRAP_GENERIC_ID_MLD_V1_DONE'', 40), (''DEVLINK_TRAP_GENERIC_ID_IPV4_DHCP'', 41),
     (''DEVLINK_TRAP_GENERIC_ID_IPV6_DHCP'', 42), (''DEVLINK_TRAP_GENERIC_ID_ARP_REQUEST'', 43),
     (''DEVLINK_TRAP_GENERIC_ID_ARP_RESPONSE'', 44),
     (''DEVLINK_TRAP_GENERIC_ID_ARP_OVERLAY'', 45),
     (''DEVLINK_TRAP_GENERIC_ID_IPV6_NEIGH_SOLICIT'', 46),
     (''DEVLINK_TRAP_GENERIC_ID_IPV6_NEIGH_ADVERT'', 47),
     (''DEVLINK_TRAP_GENERIC_ID_IPV4_BFD'', 48), (''DEVLINK_TRAP_GENERIC_ID_IPV6_BFD'', 49),
     (''DEVLINK_TRAP_GENERIC_ID_IPV4_OSPF'', 50), (''DEVLINK_TRAP_GENERIC_ID_IPV6_OSPF'', 51),
     (''DEVLINK_TRAP_GENERIC_ID_IPV4_BGP'', 52), (''DEVLINK_TRAP_GENERIC_ID_IPV6_BGP'', 53),
     (''DEVLINK_TRAP_GENERIC_ID_IPV4_VRRP'', 54), (''DEVLINK_TRAP_GENERIC_ID_IPV6_VRRP'', 55),
     (''DEVLINK_TRAP_GENERIC_ID_IPV4_PIM'', 56), (''DEVLINK_TRAP_GENERIC_ID_IPV6_PIM'', 57),
     (''DEVLINK_TRAP_GENERIC_ID_UC_LB'', 58), (''DEVLINK_TRAP_GENERIC_ID_LOCAL_ROUTE'', 59),
     (''DEVLINK_TRAP_GENERIC_ID_EXTERNAL_ROUTE'', 60),
     (''DEVLINK_TRAP_GENERIC_ID_IPV6_UC_DIP_LINK_LOCAL_SCOPE'', 61),
     (''DEVLINK_TRAP_GENERIC_ID_IPV6_DIP_ALL_NODES'', 62),
     (''DEVLINK_TRAP_GENERIC_ID_IPV6_DIP_ALL_ROUTERS'', 63),
     (''DEVLINK_TRAP_GENERIC_ID_IPV6_ROUTER_SOLICIT'', 64),
     (''DEVLINK_TRAP_GENERIC_ID_IPV6_ROUTER_ADVERT'', 65),
     (''DEVLINK_TRAP_GENERIC_ID_IPV6_REDIRECT'', 66),
     (''DEVLINK_TRAP_GENERIC_ID_IPV4_ROUTER_ALERT'', 67),
     (''DEVLINK_TRAP_GENERIC_ID_IPV6_ROUTER_ALERT'', 68),
     (''DEVLINK_TRAP_GENERIC_ID_PTP_EVENT'', 69), (''DEVLINK_TRAP_GENERIC_ID_PTP_GENERAL'', 70),
     (''DEVLINK_TRAP_GENERIC_ID_FLOW_ACTION_SAMPLE'', 71),
     (''DEVLINK_TRAP_GENERIC_ID_FLOW_ACTION_TRAP'', 72),
     (''DEVLINK_TRAP_GENERIC_ID_EARLY_DROP'', 73),
     (''DEVLINK_TRAP_GENERIC_ID_VXLAN_PARSING'', 74),
     (''DEVLINK_TRAP_GENERIC_ID_LLC_SNAP_PARSING'', 75),
     (''DEVLINK_TRAP_GENERIC_ID_VLAN_PARSING'', 76),
     (''DEVLINK_TRAP_GENERIC_ID_PPPOE_PPP_PARSING'', 77),
     (''DEVLINK_TRAP_GENERIC_ID_MPLS_PARSING'', 78),
     (''DEVLINK_TRAP_GENERIC_ID_ARP_PARSING'', 79),
     (''DEVLINK_TRAP_GENERIC_ID_IP_1_PARSING'', 80),
     (''DEVLINK_TRAP_GENERIC_ID_IP_N_PARSING'', 81),
     (''DEVLINK_TRAP_GENERIC_ID_GRE_PARSING'', 82),
     (''DEVLINK_TRAP_GENERIC_ID_UDP_PARSING'', 83),
     (''DEVLINK_TRAP_GENERIC_ID_TCP_PARSING'', 84),
     (''DEVLINK_TRAP_GENERIC_ID_IPSEC_PARSING'', 85),
     (''DEVLINK_TRAP_GENERIC_ID_SCTP_PARSING'', 86),
     (''DEVLINK_TRAP_GENERIC_ID_DCCP_PARSING'', 87),
     (''DEVLINK_TRAP_GENERIC_ID_GTP_PARSING'', 88),
     (''DEVLINK_TRAP_GENERIC_ID_ESP_PARSING'', 89),
     (''DEVLINK_TRAP_GENERIC_ID_BLACKHOLE_NEXTHOP'', 90),
     (''DEVLINK_TRAP_GENERIC_ID_DMAC_FILTER'', 91), (''DEVLINK_TRAP_GENERIC_ID_EAPOL'', 92),
     (''DEVLINK_TRAP_GENERIC_ID_LOCKED_PORT'', 93), (''__DEVLINK_TRAP_GENERIC_ID_MAX'', 94),
     (''DEVLINK_TRAP_GENERIC_ID_MAX'', 93)]"

definition enumdecl_devlink_trap_group_generic_id :: cenum_decl where
  "enumdecl_devlink_trap_group_generic_id = EnumDecl False [
     (''DEVLINK_TRAP_GROUP_GENERIC_ID_L2_DROPS'', 0),
     (''DEVLINK_TRAP_GROUP_GENERIC_ID_L3_DROPS'', 1),
     (''DEVLINK_TRAP_GROUP_GENERIC_ID_L3_EXCEPTIONS'', 2),
     (''DEVLINK_TRAP_GROUP_GENERIC_ID_BUFFER_DROPS'', 3),
     (''DEVLINK_TRAP_GROUP_GENERIC_ID_TUNNEL_DROPS'', 4),
     (''DEVLINK_TRAP_GROUP_GENERIC_ID_ACL_DROPS'', 5),
     (''DEVLINK_TRAP_GROUP_GENERIC_ID_STP'', 6), (''DEVLINK_TRAP_GROUP_GENERIC_ID_LACP'', 7),
     (''DEVLINK_TRAP_GROUP_GENERIC_ID_LLDP'', 8),
     (''DEVLINK_TRAP_GROUP_GENERIC_ID_MC_SNOOPING'', 9),
     (''DEVLINK_TRAP_GROUP_GENERIC_ID_DHCP'', 10),
     (''DEVLINK_TRAP_GROUP_GENERIC_ID_NEIGH_DISCOVERY'', 11),
     (''DEVLINK_TRAP_GROUP_GENERIC_ID_BFD'', 12), (''DEVLINK_TRAP_GROUP_GENERIC_ID_OSPF'', 13),
     (''DEVLINK_TRAP_GROUP_GENERIC_ID_BGP'', 14), (''DEVLINK_TRAP_GROUP_GENERIC_ID_VRRP'', 15),
     (''DEVLINK_TRAP_GROUP_GENERIC_ID_PIM'', 16), (''DEVLINK_TRAP_GROUP_GENERIC_ID_UC_LB'', 17),
     (''DEVLINK_TRAP_GROUP_GENERIC_ID_LOCAL_DELIVERY'', 18),
     (''DEVLINK_TRAP_GROUP_GENERIC_ID_EXTERNAL_DELIVERY'', 19),
     (''DEVLINK_TRAP_GROUP_GENERIC_ID_IPV6'', 20),
     (''DEVLINK_TRAP_GROUP_GENERIC_ID_PTP_EVENT'', 21),
     (''DEVLINK_TRAP_GROUP_GENERIC_ID_PTP_GENERAL'', 22),
     (''DEVLINK_TRAP_GROUP_GENERIC_ID_ACL_SAMPLE'', 23),
     (''DEVLINK_TRAP_GROUP_GENERIC_ID_ACL_TRAP'', 24),
     (''DEVLINK_TRAP_GROUP_GENERIC_ID_PARSER_ERROR_DROPS'', 25),
     (''DEVLINK_TRAP_GROUP_GENERIC_ID_EAPOL'', 26),
     (''__DEVLINK_TRAP_GROUP_GENERIC_ID_MAX'', 27), (''DEVLINK_TRAP_GROUP_GENERIC_ID_MAX'', 26)]"

definition enumdecl_devlink_trap_type :: cenum_decl where
  "enumdecl_devlink_trap_type = EnumDecl False [
     (''DEVLINK_TRAP_TYPE_DROP'', 0), (''DEVLINK_TRAP_TYPE_EXCEPTION'', 1),
     (''DEVLINK_TRAP_TYPE_CONTROL'', 2)]"

definition enumdecl_devlink_var_attr_type :: cenum_decl where
  "enumdecl_devlink_var_attr_type = EnumDecl False [
     (''DEVLINK_VAR_ATTR_TYPE_U8'', 1), (''DEVLINK_VAR_ATTR_TYPE_U16'', 2),
     (''DEVLINK_VAR_ATTR_TYPE_U32'', 3), (''DEVLINK_VAR_ATTR_TYPE_U64'', 4),
     (''DEVLINK_VAR_ATTR_TYPE_STRING'', 5), (''DEVLINK_VAR_ATTR_TYPE_FLAG'', 6),
     (''DEVLINK_VAR_ATTR_TYPE_NUL_STRING'', 10), (''DEVLINK_VAR_ATTR_TYPE_BINARY'', 11),
     (''__DEVLINK_VAR_ATTR_TYPE_CUSTOM_BASE'', 128)]"

definition enumdecl_devm_ioremap_type :: cenum_decl where
  "enumdecl_devm_ioremap_type = EnumDecl False [
     (''DEVM_IOREMAP'', 0), (''DEVM_IOREMAP_UC'', 1), (''DEVM_IOREMAP_WC'', 2),
     (''DEVM_IOREMAP_NP'', 3)]"

definition enumdecl_dfa_accept_flags :: cenum_decl where
  "enumdecl_dfa_accept_flags = EnumDecl False [
     (''ACCEPT_FLAG_OWNER'', 1)]"

definition enumdecl_die_val :: cenum_decl where
  "enumdecl_die_val = EnumDecl False [
     (''DIE_OOPS'', 1), (''DIE_INT3'', 2), (''DIE_DEBUG'', 3), (''DIE_PANIC'', 4),
     (''DIE_NMI'', 5), (''DIE_DIE'', 6), (''DIE_KERNELDEBUG'', 7), (''DIE_TRAP'', 8),
     (''DIE_GPF'', 9), (''DIE_CALL'', 10), (''DIE_PAGE_FAULT'', 11), (''DIE_NMIUNKNOWN'', 12)]"

definition enumdecl_digest_type :: cenum_decl where
  "enumdecl_digest_type = EnumDecl False [
     (''DIGEST_TYPE_IMA'', 0), (''DIGEST_TYPE_VERITY'', 1), (''DIGEST_TYPE__LAST'', 2)]"

definition enumdecl_dim_cq_period_mode :: cenum_decl where
  "enumdecl_dim_cq_period_mode = EnumDecl False [
     (''DIM_CQ_PERIOD_MODE_START_FROM_EQE'', 0), (''DIM_CQ_PERIOD_MODE_START_FROM_CQE'', 1),
     (''DIM_CQ_PERIOD_NUM_MODES'', 2)]"

definition enumdecl_dim_state :: cenum_decl where
  "enumdecl_dim_state = EnumDecl False [
     (''DIM_START_MEASURE'', 0), (''DIM_MEASURE_IN_PROGRESS'', 1), (''DIM_APPLY_NEW_PROFILE'', 2)]"

definition enumdecl_dim_stats_state :: cenum_decl where
  "enumdecl_dim_stats_state = EnumDecl False [
     (''DIM_STATS_WORSE'', 0), (''DIM_STATS_SAME'', 1), (''DIM_STATS_BETTER'', 2)]"

definition enumdecl_dim_step_result :: cenum_decl where
  "enumdecl_dim_step_result = EnumDecl False [
     (''DIM_STEPPED'', 0), (''DIM_TOO_TIRED'', 1), (''DIM_ON_EDGE'', 2)]"

definition enumdecl_dim_tune_state :: cenum_decl where
  "enumdecl_dim_tune_state = EnumDecl False [
     (''DIM_PARKING_ON_TOP'', 0), (''DIM_PARKING_TIRED'', 1), (''DIM_GOING_RIGHT'', 2),
     (''DIM_GOING_LEFT'', 3)]"

definition enumdecl_display_flags :: cenum_decl where
  "enumdecl_display_flags = EnumDecl False [
     (''DISPLAY_FLAGS_HSYNC_LOW'', 1), (''DISPLAY_FLAGS_HSYNC_HIGH'', 2),
     (''DISPLAY_FLAGS_VSYNC_LOW'', 4), (''DISPLAY_FLAGS_VSYNC_HIGH'', 8),
     (''DISPLAY_FLAGS_DE_LOW'', 16), (''DISPLAY_FLAGS_DE_HIGH'', 32),
     (''DISPLAY_FLAGS_PIXDATA_POSEDGE'', 64), (''DISPLAY_FLAGS_PIXDATA_NEGEDGE'', 128),
     (''DISPLAY_FLAGS_INTERLACED'', 256), (''DISPLAY_FLAGS_DOUBLESCAN'', 512),
     (''DISPLAY_FLAGS_DOUBLECLK'', 1024), (''DISPLAY_FLAGS_SYNC_POSEDGE'', 2048),
     (''DISPLAY_FLAGS_SYNC_NEGEDGE'', 4096)]"

definition enumdecl_dl_bw_request :: cenum_decl where
  "enumdecl_dl_bw_request = EnumDecl False [
     (''dl_bw_req_deactivate'', 0), (''dl_bw_req_alloc'', 1), (''dl_bw_req_free'', 2)]"

definition enumdecl_dl_dev_state :: cenum_decl where
  "enumdecl_dl_dev_state = EnumDecl False [
     (''DL_DEV_NO_DRIVER'', 0), (''DL_DEV_PROBING'', 1), (''DL_DEV_DRIVER_BOUND'', 2),
     (''DL_DEV_UNBINDING'', 3)]"

definition enumdecl_dl_param :: cenum_decl where
  "enumdecl_dl_param = EnumDecl False [
     (''DL_RUNTIME'', 0), (''DL_PERIOD'', 1)]"

definition enumdecl_dm_io_mem_type :: cenum_decl where
  "enumdecl_dm_io_mem_type = EnumDecl False [
     (''DM_IO_PAGE_LIST'', 0), (''DM_IO_BIO'', 1), (''DM_IO_VMA'', 2), (''DM_IO_KMEM'', 3)]"

definition enumdecl_dm_queue_mode :: cenum_decl where
  "enumdecl_dm_queue_mode = EnumDecl False [
     (''DM_TYPE_NONE'', 0), (''DM_TYPE_BIO_BASED'', 1), (''DM_TYPE_REQUEST_BASED'', 2),
     (''DM_TYPE_DAX_BIO_BASED'', 3)]"

definition enumdecl_dm_uevent_type :: cenum_decl where
  "enumdecl_dm_uevent_type = EnumDecl False [
     (''DM_UEVENT_PATH_FAILED'', 0), (''DM_UEVENT_PATH_REINSTATED'', 1)]"

definition enumdecl_dm_wrappedkey_op :: cenum_decl where
  "enumdecl_dm_wrappedkey_op = EnumDecl False [
     (''DERIVE_SW_SECRET'', 0), (''IMPORT_KEY'', 1), (''GENERATE_KEY'', 2), (''PREPARE_KEY'', 3)]"

definition enumdecl_dma_ctrl_flags :: cenum_decl where
  "enumdecl_dma_ctrl_flags = EnumDecl False [
     (''DMA_PREP_INTERRUPT'', 1), (''DMA_CTRL_ACK'', 2), (''DMA_PREP_PQ_DISABLE_P'', 4),
     (''DMA_PREP_PQ_DISABLE_Q'', 8), (''DMA_PREP_CONTINUE'', 16), (''DMA_PREP_FENCE'', 32),
     (''DMA_CTRL_REUSE'', 64), (''DMA_PREP_CMD'', 128), (''DMA_PREP_REPEAT'', 256),
     (''DMA_PREP_LOAD_EOT'', 512)]"

definition enumdecl_dma_data_direction :: cenum_decl where
  "enumdecl_dma_data_direction = EnumDecl False enum_dma_data_direction"

definition enumdecl_dma_desc_metadata_mode :: cenum_decl where
  "enumdecl_dma_desc_metadata_mode = EnumDecl False [
     (''DESC_METADATA_NONE'', 0), (''DESC_METADATA_CLIENT'', 1), (''DESC_METADATA_ENGINE'', 2)]"

definition enumdecl_dma_fence_flag_bits :: cenum_decl where
  "enumdecl_dma_fence_flag_bits = EnumDecl False [
     (''DMA_FENCE_FLAG_SEQNO64_BIT'', 0), (''DMA_FENCE_FLAG_SIGNALED_BIT'', 1),
     (''DMA_FENCE_FLAG_TIMESTAMP_BIT'', 2), (''DMA_FENCE_FLAG_ENABLE_SIGNAL_BIT'', 3),
     (''DMA_FENCE_FLAG_USER_BITS'', 4)]"

definition enumdecl_dma_residue_granularity :: cenum_decl where
  "enumdecl_dma_residue_granularity = EnumDecl False [
     (''DMA_RESIDUE_GRANULARITY_DESCRIPTOR'', 0), (''DMA_RESIDUE_GRANULARITY_SEGMENT'', 1),
     (''DMA_RESIDUE_GRANULARITY_BURST'', 2)]"

definition enumdecl_dma_resv_usage :: cenum_decl where
  "enumdecl_dma_resv_usage = EnumDecl False [
     (''DMA_RESV_USAGE_KERNEL'', 0), (''DMA_RESV_USAGE_WRITE'', 1), (''DMA_RESV_USAGE_READ'', 2),
     (''DMA_RESV_USAGE_BOOKKEEP'', 3)]"

definition enumdecl_dma_slave_buswidth :: cenum_decl where
  "enumdecl_dma_slave_buswidth = EnumDecl False [
     (''DMA_SLAVE_BUSWIDTH_UNDEFINED'', 0), (''DMA_SLAVE_BUSWIDTH_1_BYTE'', 1),
     (''DMA_SLAVE_BUSWIDTH_2_BYTES'', 2), (''DMA_SLAVE_BUSWIDTH_3_BYTES'', 3),
     (''DMA_SLAVE_BUSWIDTH_4_BYTES'', 4), (''DMA_SLAVE_BUSWIDTH_8_BYTES'', 8),
     (''DMA_SLAVE_BUSWIDTH_16_BYTES'', 16), (''DMA_SLAVE_BUSWIDTH_32_BYTES'', 32),
     (''DMA_SLAVE_BUSWIDTH_64_BYTES'', 64), (''DMA_SLAVE_BUSWIDTH_128_BYTES'', 128)]"

definition enumdecl_dma_status :: cenum_decl where
  "enumdecl_dma_status = EnumDecl False [
     (''DMA_COMPLETE'', 0), (''DMA_IN_PROGRESS'', 1), (''DMA_PAUSED'', 2), (''DMA_ERROR'', 3),
     (''DMA_OUT_OF_ORDER'', 4)]"

definition enumdecl_dma_transaction_type :: cenum_decl where
  "enumdecl_dma_transaction_type = EnumDecl False [
     (''DMA_MEMCPY'', 0), (''DMA_XOR'', 1), (''DMA_PQ'', 2), (''DMA_XOR_VAL'', 3),
     (''DMA_PQ_VAL'', 4), (''DMA_MEMSET'', 5), (''DMA_MEMSET_SG'', 6), (''DMA_INTERRUPT'', 7),
     (''DMA_PRIVATE'', 8), (''DMA_ASYNC_TX'', 9), (''DMA_SLAVE'', 10), (''DMA_CYCLIC'', 11),
     (''DMA_INTERLEAVE'', 12), (''DMA_COMPLETION_NO_ORDER'', 13), (''DMA_REPEAT'', 14),
     (''DMA_LOAD_EOT'', 15), (''DMA_TX_TYPE_END'', 16)]"

definition enumdecl_dma_transfer_direction :: cenum_decl where
  "enumdecl_dma_transfer_direction = EnumDecl False [
     (''DMA_MEM_TO_MEM'', 0), (''DMA_MEM_TO_DEV'', 1), (''DMA_DEV_TO_MEM'', 2),
     (''DMA_DEV_TO_DEV'', 3), (''DMA_TRANS_NONE'', 4)]"

definition enumdecl_dmaengine_alignment :: cenum_decl where
  "enumdecl_dmaengine_alignment = EnumDecl False [
     (''DMAENGINE_ALIGN_1_BYTE'', 0), (''DMAENGINE_ALIGN_2_BYTES'', 1),
     (''DMAENGINE_ALIGN_4_BYTES'', 2), (''DMAENGINE_ALIGN_8_BYTES'', 3),
     (''DMAENGINE_ALIGN_16_BYTES'', 4), (''DMAENGINE_ALIGN_32_BYTES'', 5),
     (''DMAENGINE_ALIGN_64_BYTES'', 6), (''DMAENGINE_ALIGN_128_BYTES'', 7),
     (''DMAENGINE_ALIGN_256_BYTES'', 8)]"

definition enumdecl_dmaengine_tx_result :: cenum_decl where
  "enumdecl_dmaengine_tx_result = EnumDecl False [
     (''DMA_TRANS_NOERROR'', 0), (''DMA_TRANS_READ_FAILED'', 1), (''DMA_TRANS_WRITE_FAILED'', 2),
     (''DMA_TRANS_ABORTED'', 3)]"

definition enumdecl_dmi_device_type :: cenum_decl where
  "enumdecl_dmi_device_type = EnumDecl False [
     (''DMI_DEV_TYPE_ANY'', 0), (''DMI_DEV_TYPE_OTHER'', 1), (''DMI_DEV_TYPE_UNKNOWN'', 2),
     (''DMI_DEV_TYPE_VIDEO'', 3), (''DMI_DEV_TYPE_SCSI'', 4), (''DMI_DEV_TYPE_ETHERNET'', 5),
     (''DMI_DEV_TYPE_TOKENRING'', 6), (''DMI_DEV_TYPE_SOUND'', 7), (''DMI_DEV_TYPE_PATA'', 8),
     (''DMI_DEV_TYPE_SATA'', 9), (''DMI_DEV_TYPE_SAS'', 10), (''DMI_DEV_TYPE_IPMI'', - 1),
     (''DMI_DEV_TYPE_OEM_STRING'', - 2), (''DMI_DEV_TYPE_DEV_ONBOARD'', - 3),
     (''DMI_DEV_TYPE_DEV_SLOT'', - 4)]"

definition enumdecl_dmi_entry_type :: cenum_decl where
  "enumdecl_dmi_entry_type = EnumDecl False [
     (''DMI_ENTRY_BIOS'', 0), (''DMI_ENTRY_SYSTEM'', 1), (''DMI_ENTRY_BASEBOARD'', 2),
     (''DMI_ENTRY_CHASSIS'', 3), (''DMI_ENTRY_PROCESSOR'', 4), (''DMI_ENTRY_MEM_CONTROLLER'', 5),
     (''DMI_ENTRY_MEM_MODULE'', 6), (''DMI_ENTRY_CACHE'', 7), (''DMI_ENTRY_PORT_CONNECTOR'', 8),
     (''DMI_ENTRY_SYSTEM_SLOT'', 9), (''DMI_ENTRY_ONBOARD_DEVICE'', 10),
     (''DMI_ENTRY_OEMSTRINGS'', 11), (''DMI_ENTRY_SYSCONF'', 12), (''DMI_ENTRY_BIOS_LANG'', 13),
     (''DMI_ENTRY_GROUP_ASSOC'', 14), (''DMI_ENTRY_SYSTEM_EVENT_LOG'', 15),
     (''DMI_ENTRY_PHYS_MEM_ARRAY'', 16), (''DMI_ENTRY_MEM_DEVICE'', 17),
     (''DMI_ENTRY_32_MEM_ERROR'', 18), (''DMI_ENTRY_MEM_ARRAY_MAPPED_ADDR'', 19),
     (''DMI_ENTRY_MEM_DEV_MAPPED_ADDR'', 20), (''DMI_ENTRY_BUILTIN_POINTING_DEV'', 21),
     (''DMI_ENTRY_PORTABLE_BATTERY'', 22), (''DMI_ENTRY_SYSTEM_RESET'', 23),
     (''DMI_ENTRY_HW_SECURITY'', 24), (''DMI_ENTRY_SYSTEM_POWER_CONTROLS'', 25),
     (''DMI_ENTRY_VOLTAGE_PROBE'', 26), (''DMI_ENTRY_COOLING_DEV'', 27),
     (''DMI_ENTRY_TEMP_PROBE'', 28), (''DMI_ENTRY_ELECTRICAL_CURRENT_PROBE'', 29),
     (''DMI_ENTRY_OOB_REMOTE_ACCESS'', 30), (''DMI_ENTRY_BIS_ENTRY'', 31),
     (''DMI_ENTRY_SYSTEM_BOOT'', 32), (''DMI_ENTRY_MGMT_DEV'', 33),
     (''DMI_ENTRY_MGMT_DEV_COMPONENT'', 34), (''DMI_ENTRY_MGMT_DEV_THRES'', 35),
     (''DMI_ENTRY_MEM_CHANNEL'', 36), (''DMI_ENTRY_IPMI_DEV'', 37),
     (''DMI_ENTRY_SYS_POWER_SUPPLY'', 38), (''DMI_ENTRY_ADDITIONAL'', 39),
     (''DMI_ENTRY_ONBOARD_DEV_EXT'', 40), (''DMI_ENTRY_MGMT_CONTROLLER_HOST'', 41),
     (''DMI_ENTRY_INACTIVE'', 126), (''DMI_ENTRY_END_OF_TABLE'', 127)]"

definition enumdecl_dmi_field :: cenum_decl where
  "enumdecl_dmi_field = EnumDecl False [
     (''DMI_NONE'', 0), (''DMI_BIOS_VENDOR'', 1), (''DMI_BIOS_VERSION'', 2),
     (''DMI_BIOS_DATE'', 3), (''DMI_BIOS_RELEASE'', 4), (''DMI_EC_FIRMWARE_RELEASE'', 5),
     (''DMI_SYS_VENDOR'', 6), (''DMI_PRODUCT_NAME'', 7), (''DMI_PRODUCT_VERSION'', 8),
     (''DMI_PRODUCT_SERIAL'', 9), (''DMI_PRODUCT_UUID'', 10), (''DMI_PRODUCT_SKU'', 11),
     (''DMI_PRODUCT_FAMILY'', 12), (''DMI_BOARD_VENDOR'', 13), (''DMI_BOARD_NAME'', 14),
     (''DMI_BOARD_VERSION'', 15), (''DMI_BOARD_SERIAL'', 16), (''DMI_BOARD_ASSET_TAG'', 17),
     (''DMI_CHASSIS_VENDOR'', 18), (''DMI_CHASSIS_TYPE'', 19), (''DMI_CHASSIS_VERSION'', 20),
     (''DMI_CHASSIS_SERIAL'', 21), (''DMI_CHASSIS_ASSET_TAG'', 22), (''DMI_STRING_MAX'', 23),
     (''DMI_OEM_STRING'', 24)]"

definition enumdecl_dns_lookup_status :: cenum_decl where
  "enumdecl_dns_lookup_status = EnumDecl False [
     (''DNS_LOOKUP_NOT_DONE'', 0), (''DNS_LOOKUP_GOOD'', 1), (''DNS_LOOKUP_GOOD_WITH_BAD'', 2),
     (''DNS_LOOKUP_BAD'', 3), (''DNS_LOOKUP_GOT_NOT_FOUND'', 4),
     (''DNS_LOOKUP_GOT_LOCAL_FAILURE'', 5), (''DNS_LOOKUP_GOT_TEMP_FAILURE'', 6),
     (''DNS_LOOKUP_GOT_NS_FAILURE'', 7), (''NR__dns_lookup_status'', 8)]"

definition enumdecl_dns_payload_content_type :: cenum_decl where
  "enumdecl_dns_payload_content_type = EnumDecl False [
     (''DNS_PAYLOAD_IS_SERVER_LIST'', 0)]"

definition enumdecl_dock_callback_type :: cenum_decl where
  "enumdecl_dock_callback_type = EnumDecl False [
     (''DOCK_CALL_HANDLER'', 0), (''DOCK_CALL_FIXUP'', 1), (''DOCK_CALL_UEVENT'', 2)]"

definition enumdecl_dpll_a :: cenum_decl where
  "enumdecl_dpll_a = EnumDecl False [
     (''DPLL_A_ID'', 1), (''DPLL_A_MODULE_NAME'', 2), (''DPLL_A_PAD'', 3),
     (''DPLL_A_CLOCK_ID'', 4), (''DPLL_A_MODE'', 5), (''DPLL_A_MODE_SUPPORTED'', 6),
     (''DPLL_A_LOCK_STATUS'', 7), (''DPLL_A_TEMP'', 8), (''DPLL_A_TYPE'', 9),
     (''DPLL_A_LOCK_STATUS_ERROR'', 10), (''DPLL_A_CLOCK_QUALITY_LEVEL'', 11),
     (''DPLL_A_PHASE_OFFSET_MONITOR'', 12), (''DPLL_A_PHASE_OFFSET_AVG_FACTOR'', 13),
     (''__DPLL_A_MAX'', 14), (''DPLL_A_MAX'', 13)]"

definition enumdecl_dpll_a_pin :: cenum_decl where
  "enumdecl_dpll_a_pin = EnumDecl False [
     (''DPLL_A_PIN_ID'', 1), (''DPLL_A_PIN_PARENT_ID'', 2), (''DPLL_A_PIN_MODULE_NAME'', 3),
     (''DPLL_A_PIN_PAD'', 4), (''DPLL_A_PIN_CLOCK_ID'', 5), (''DPLL_A_PIN_BOARD_LABEL'', 6),
     (''DPLL_A_PIN_PANEL_LABEL'', 7), (''DPLL_A_PIN_PACKAGE_LABEL'', 8),
     (''DPLL_A_PIN_TYPE'', 9), (''DPLL_A_PIN_DIRECTION'', 10), (''DPLL_A_PIN_FREQUENCY'', 11),
     (''DPLL_A_PIN_FREQUENCY_SUPPORTED'', 12), (''DPLL_A_PIN_FREQUENCY_MIN'', 13),
     (''DPLL_A_PIN_FREQUENCY_MAX'', 14), (''DPLL_A_PIN_PRIO'', 15), (''DPLL_A_PIN_STATE'', 16),
     (''DPLL_A_PIN_CAPABILITIES'', 17), (''DPLL_A_PIN_PARENT_DEVICE'', 18),
     (''DPLL_A_PIN_PARENT_PIN'', 19), (''DPLL_A_PIN_PHASE_ADJUST_MIN'', 20),
     (''DPLL_A_PIN_PHASE_ADJUST_MAX'', 21), (''DPLL_A_PIN_PHASE_ADJUST'', 22),
     (''DPLL_A_PIN_PHASE_OFFSET'', 23), (''DPLL_A_PIN_FRACTIONAL_FREQUENCY_OFFSET'', 24),
     (''DPLL_A_PIN_ESYNC_FREQUENCY'', 25), (''DPLL_A_PIN_ESYNC_FREQUENCY_SUPPORTED'', 26),
     (''DPLL_A_PIN_ESYNC_PULSE'', 27), (''DPLL_A_PIN_REFERENCE_SYNC'', 28),
     (''DPLL_A_PIN_PHASE_ADJUST_GRAN'', 29),
     (''DPLL_A_PIN_FRACTIONAL_FREQUENCY_OFFSET_PPT'', 30), (''__DPLL_A_PIN_MAX'', 31),
     (''DPLL_A_PIN_MAX'', 30)]"

definition enumdecl_dpll_clock_quality_level :: cenum_decl where
  "enumdecl_dpll_clock_quality_level = EnumDecl False [
     (''DPLL_CLOCK_QUALITY_LEVEL_ITU_OPT1_PRC'', 1),
     (''DPLL_CLOCK_QUALITY_LEVEL_ITU_OPT1_SSU_A'', 2),
     (''DPLL_CLOCK_QUALITY_LEVEL_ITU_OPT1_SSU_B'', 3),
     (''DPLL_CLOCK_QUALITY_LEVEL_ITU_OPT1_EEC1'', 4),
     (''DPLL_CLOCK_QUALITY_LEVEL_ITU_OPT1_PRTC'', 5),
     (''DPLL_CLOCK_QUALITY_LEVEL_ITU_OPT1_EPRTC'', 6),
     (''DPLL_CLOCK_QUALITY_LEVEL_ITU_OPT1_EEEC'', 7),
     (''DPLL_CLOCK_QUALITY_LEVEL_ITU_OPT1_EPRC'', 8), (''__DPLL_CLOCK_QUALITY_LEVEL_MAX'', 9),
     (''DPLL_CLOCK_QUALITY_LEVEL_MAX'', 8)]"

definition enumdecl_dpll_cmd :: cenum_decl where
  "enumdecl_dpll_cmd = EnumDecl False [
     (''DPLL_CMD_DEVICE_ID_GET'', 1), (''DPLL_CMD_DEVICE_GET'', 2), (''DPLL_CMD_DEVICE_SET'', 3),
     (''DPLL_CMD_DEVICE_CREATE_NTF'', 4), (''DPLL_CMD_DEVICE_DELETE_NTF'', 5),
     (''DPLL_CMD_DEVICE_CHANGE_NTF'', 6), (''DPLL_CMD_PIN_ID_GET'', 7),
     (''DPLL_CMD_PIN_GET'', 8), (''DPLL_CMD_PIN_SET'', 9), (''DPLL_CMD_PIN_CREATE_NTF'', 10),
     (''DPLL_CMD_PIN_DELETE_NTF'', 11), (''DPLL_CMD_PIN_CHANGE_NTF'', 12),
     (''__DPLL_CMD_MAX'', 13), (''DPLL_CMD_MAX'', 12)]"

definition enumdecl_dpll_feature_state :: cenum_decl where
  "enumdecl_dpll_feature_state = EnumDecl False [
     (''DPLL_FEATURE_STATE_DISABLE'', 0), (''DPLL_FEATURE_STATE_ENABLE'', 1)]"

definition enumdecl_dpll_lock_status :: cenum_decl where
  "enumdecl_dpll_lock_status = EnumDecl False [
     (''DPLL_LOCK_STATUS_UNLOCKED'', 1), (''DPLL_LOCK_STATUS_LOCKED'', 2),
     (''DPLL_LOCK_STATUS_LOCKED_HO_ACQ'', 3), (''DPLL_LOCK_STATUS_HOLDOVER'', 4),
     (''__DPLL_LOCK_STATUS_MAX'', 5), (''DPLL_LOCK_STATUS_MAX'', 4)]"

definition enumdecl_dpll_lock_status_error :: cenum_decl where
  "enumdecl_dpll_lock_status_error = EnumDecl False [
     (''DPLL_LOCK_STATUS_ERROR_NONE'', 1), (''DPLL_LOCK_STATUS_ERROR_UNDEFINED'', 2),
     (''DPLL_LOCK_STATUS_ERROR_MEDIA_DOWN'', 3),
     (''DPLL_LOCK_STATUS_ERROR_FRACTIONAL_FREQUENCY_OFFSET_TOO_HIGH'', 4),
     (''__DPLL_LOCK_STATUS_ERROR_MAX'', 5), (''DPLL_LOCK_STATUS_ERROR_MAX'', 4)]"

definition enumdecl_dpll_mode :: cenum_decl where
  "enumdecl_dpll_mode = EnumDecl False [
     (''DPLL_MODE_MANUAL'', 1), (''DPLL_MODE_AUTOMATIC'', 2), (''__DPLL_MODE_MAX'', 3),
     (''DPLL_MODE_MAX'', 2)]"

definition enumdecl_dpll_pin_capabilities :: cenum_decl where
  "enumdecl_dpll_pin_capabilities = EnumDecl False [
     (''DPLL_PIN_CAPABILITIES_DIRECTION_CAN_CHANGE'', 1),
     (''DPLL_PIN_CAPABILITIES_PRIORITY_CAN_CHANGE'', 2),
     (''DPLL_PIN_CAPABILITIES_STATE_CAN_CHANGE'', 4)]"

definition enumdecl_dpll_pin_direction :: cenum_decl where
  "enumdecl_dpll_pin_direction = EnumDecl False [
     (''DPLL_PIN_DIRECTION_INPUT'', 1), (''DPLL_PIN_DIRECTION_OUTPUT'', 2),
     (''__DPLL_PIN_DIRECTION_MAX'', 3), (''DPLL_PIN_DIRECTION_MAX'', 2)]"

definition enumdecl_dpll_pin_state :: cenum_decl where
  "enumdecl_dpll_pin_state = EnumDecl False [
     (''DPLL_PIN_STATE_CONNECTED'', 1), (''DPLL_PIN_STATE_DISCONNECTED'', 2),
     (''DPLL_PIN_STATE_SELECTABLE'', 3), (''__DPLL_PIN_STATE_MAX'', 4),
     (''DPLL_PIN_STATE_MAX'', 3)]"

definition enumdecl_dpll_pin_type :: cenum_decl where
  "enumdecl_dpll_pin_type = EnumDecl False [
     (''DPLL_PIN_TYPE_MUX'', 1), (''DPLL_PIN_TYPE_EXT'', 2),
     (''DPLL_PIN_TYPE_SYNCE_ETH_PORT'', 3), (''DPLL_PIN_TYPE_INT_OSCILLATOR'', 4),
     (''DPLL_PIN_TYPE_GNSS'', 5), (''__DPLL_PIN_TYPE_MAX'', 6), (''DPLL_PIN_TYPE_MAX'', 5)]"

definition enumdecl_dpll_type :: cenum_decl where
  "enumdecl_dpll_type = EnumDecl False [
     (''DPLL_TYPE_PPS'', 1), (''DPLL_TYPE_EEC'', 2), (''__DPLL_TYPE_MAX'', 3),
     (''DPLL_TYPE_MAX'', 2)]"

definition enumdecl_dpm_order :: cenum_decl where
  "enumdecl_dpm_order = EnumDecl False [
     (''DPM_ORDER_NONE'', 0), (''DPM_ORDER_DEV_AFTER_PARENT'', 1),
     (''DPM_ORDER_PARENT_BEFORE_DEV'', 2), (''DPM_ORDER_DEV_LAST'', 3)]"

definition enumdecl_drbg_prefixes :: cenum_decl where
  "enumdecl_drbg_prefixes = EnumDecl False [
     (''DRBG_PREFIX0'', 0), (''DRBG_PREFIX1'', 1), (''DRBG_PREFIX2'', 2), (''DRBG_PREFIX3'', 3)]"

definition enumdecl_drbg_seed_state :: cenum_decl where
  "enumdecl_drbg_seed_state = EnumDecl False [
     (''DRBG_SEED_STATE_UNSEEDED'', 0), (''DRBG_SEED_STATE_PARTIAL'', 1),
     (''DRBG_SEED_STATE_FULL'', 2)]"

definition enumdecl_drm_bridge_attach_flags :: cenum_decl where
  "enumdecl_drm_bridge_attach_flags = EnumDecl False [
     (''DRM_BRIDGE_ATTACH_NO_CONNECTOR'', 1)]"

definition enumdecl_drm_bridge_ops :: cenum_decl where
  "enumdecl_drm_bridge_ops = EnumDecl False [
     (''DRM_BRIDGE_OP_DETECT'', 1), (''DRM_BRIDGE_OP_EDID'', 2), (''DRM_BRIDGE_OP_HPD'', 4),
     (''DRM_BRIDGE_OP_MODES'', 8), (''DRM_BRIDGE_OP_HDMI'', 16),
     (''DRM_BRIDGE_OP_HDMI_AUDIO'', 32), (''DRM_BRIDGE_OP_DP_AUDIO'', 64),
     (''DRM_BRIDGE_OP_HDMI_CEC_NOTIFIER'', 128), (''DRM_BRIDGE_OP_HDMI_CEC_ADAPTER'', 256),
     (''DRM_BRIDGE_OP_HDMI_HDR_DRM_INFOFRAME'', 512),
     (''DRM_BRIDGE_OP_HDMI_SPD_INFOFRAME'', 1024)]"

definition enumdecl_drm_bus_flags :: cenum_decl where
  "enumdecl_drm_bus_flags = EnumDecl False [
     (''DRM_BUS_FLAG_DE_LOW'', 1), (''DRM_BUS_FLAG_DE_HIGH'', 2),
     (''DRM_BUS_FLAG_PIXDATA_DRIVE_POSEDGE'', 4), (''DRM_BUS_FLAG_PIXDATA_DRIVE_NEGEDGE'', 8),
     (''DRM_BUS_FLAG_PIXDATA_SAMPLE_POSEDGE'', 8), (''DRM_BUS_FLAG_PIXDATA_SAMPLE_NEGEDGE'', 4),
     (''DRM_BUS_FLAG_DATA_MSB_TO_LSB'', 16), (''DRM_BUS_FLAG_DATA_LSB_TO_MSB'', 32),
     (''DRM_BUS_FLAG_SYNC_DRIVE_POSEDGE'', 64), (''DRM_BUS_FLAG_SYNC_DRIVE_NEGEDGE'', 128),
     (''DRM_BUS_FLAG_SYNC_SAMPLE_POSEDGE'', 128), (''DRM_BUS_FLAG_SYNC_SAMPLE_NEGEDGE'', 64),
     (''DRM_BUS_FLAG_SHARP_SIGNALS'', 256)]"

definition enumdecl_drm_color_encoding :: cenum_decl where
  "enumdecl_drm_color_encoding = EnumDecl False [
     (''DRM_COLOR_YCBCR_BT601'', 0), (''DRM_COLOR_YCBCR_BT709'', 1),
     (''DRM_COLOR_YCBCR_BT2020'', 2), (''DRM_COLOR_ENCODING_MAX'', 3)]"

definition enumdecl_drm_color_lut_tests :: cenum_decl where
  "enumdecl_drm_color_lut_tests = EnumDecl False [
     (''DRM_COLOR_LUT_EQUAL_CHANNELS'', 1), (''DRM_COLOR_LUT_NON_DECREASING'', 2)]"

definition enumdecl_drm_color_range :: cenum_decl where
  "enumdecl_drm_color_range = EnumDecl False [
     (''DRM_COLOR_YCBCR_LIMITED_RANGE'', 0), (''DRM_COLOR_YCBCR_FULL_RANGE'', 1),
     (''DRM_COLOR_RANGE_MAX'', 2)]"

definition enumdecl_drm_colorop_curve_1d_type :: cenum_decl where
  "enumdecl_drm_colorop_curve_1d_type = EnumDecl False [
     (''DRM_COLOROP_1D_CURVE_SRGB_EOTF'', 0), (''DRM_COLOROP_1D_CURVE_SRGB_INV_EOTF'', 1),
     (''DRM_COLOROP_1D_CURVE_PQ_125_EOTF'', 2), (''DRM_COLOROP_1D_CURVE_PQ_125_INV_EOTF'', 3),
     (''DRM_COLOROP_1D_CURVE_BT2020_INV_OETF'', 4), (''DRM_COLOROP_1D_CURVE_BT2020_OETF'', 5),
     (''DRM_COLOROP_1D_CURVE_GAMMA22'', 6), (''DRM_COLOROP_1D_CURVE_GAMMA22_INV'', 7),
     (''DRM_COLOROP_1D_CURVE_COUNT'', 8)]"

definition enumdecl_drm_colorop_lut1d_interpolation_type :: cenum_decl where
  "enumdecl_drm_colorop_lut1d_interpolation_type = EnumDecl False [
     (''DRM_COLOROP_LUT1D_INTERPOLATION_LINEAR'', 0)]"

definition enumdecl_drm_colorop_lut3d_interpolation_type :: cenum_decl where
  "enumdecl_drm_colorop_lut3d_interpolation_type = EnumDecl False [
     (''DRM_COLOROP_LUT3D_INTERPOLATION_TETRAHEDRAL'', 0)]"

definition enumdecl_drm_colorop_type :: cenum_decl where
  "enumdecl_drm_colorop_type = EnumDecl False [
     (''DRM_COLOROP_1D_CURVE'', 0), (''DRM_COLOROP_1D_LUT'', 1), (''DRM_COLOROP_CTM_3X4'', 2),
     (''DRM_COLOROP_MULTIPLIER'', 3), (''DRM_COLOROP_3D_LUT'', 4)]"

definition enumdecl_drm_colorspace :: cenum_decl where
  "enumdecl_drm_colorspace = EnumDecl False [
     (''DRM_MODE_COLORIMETRY_DEFAULT'', 0), (''DRM_MODE_COLORIMETRY_NO_DATA'', 0),
     (''DRM_MODE_COLORIMETRY_SMPTE_170M_YCC'', 1), (''DRM_MODE_COLORIMETRY_BT709_YCC'', 2),
     (''DRM_MODE_COLORIMETRY_XVYCC_601'', 3), (''DRM_MODE_COLORIMETRY_XVYCC_709'', 4),
     (''DRM_MODE_COLORIMETRY_SYCC_601'', 5), (''DRM_MODE_COLORIMETRY_OPYCC_601'', 6),
     (''DRM_MODE_COLORIMETRY_OPRGB'', 7), (''DRM_MODE_COLORIMETRY_BT2020_CYCC'', 8),
     (''DRM_MODE_COLORIMETRY_BT2020_RGB'', 9), (''DRM_MODE_COLORIMETRY_BT2020_YCC'', 10),
     (''DRM_MODE_COLORIMETRY_DCI_P3_RGB_D65'', 11),
     (''DRM_MODE_COLORIMETRY_DCI_P3_RGB_THEATER'', 12),
     (''DRM_MODE_COLORIMETRY_RGB_WIDE_FIXED'', 13),
     (''DRM_MODE_COLORIMETRY_RGB_WIDE_FLOAT'', 14), (''DRM_MODE_COLORIMETRY_BT601_YCC'', 15),
     (''DRM_MODE_COLORIMETRY_COUNT'', 16)]"

definition enumdecl_drm_connector_force :: cenum_decl where
  "enumdecl_drm_connector_force = EnumDecl False [
     (''DRM_FORCE_UNSPECIFIED'', 0), (''DRM_FORCE_OFF'', 1), (''DRM_FORCE_ON'', 2),
     (''DRM_FORCE_ON_DIGITAL'', 3)]"

definition enumdecl_drm_connector_registration_state :: cenum_decl where
  "enumdecl_drm_connector_registration_state = EnumDecl False [
     (''DRM_CONNECTOR_INITIALIZING'', 0), (''DRM_CONNECTOR_REGISTERED'', 1),
     (''DRM_CONNECTOR_UNREGISTERED'', 2)]"

definition enumdecl_drm_connector_status :: cenum_decl where
  "enumdecl_drm_connector_status = EnumDecl False [
     (''connector_status_connected'', 1), (''connector_status_disconnected'', 2),
     (''connector_status_unknown'', 3)]"

definition enum_decls_10 :: "cenum_decl list" where
  "enum_decls_10 = [
     enumdecl_dcbnl_bcn_attrs, enumdecl_dcbnl_cap_attrs, enumdecl_dcbnl_commands,
     enumdecl_dcbnl_featcfg_attrs, enumdecl_dcbnl_numtcs_attrs, enumdecl_dcbnl_pfc_up_attrs,
     enumdecl_dcbnl_pg_attrs, enumdecl_dcbnl_tc_attrs, enumdecl_dd_data_dir, enumdecl_dd_prio,
     enumdecl_dentry_d_lock_class, enumdecl_dentry_flags, enumdecl_depot_counter_id,
     enumdecl_derived_key_type, enumdecl_desc_state, enumdecl_dev_dma_attr,
     enumdecl_dev_pm_opp_event, enumdecl_dev_pm_qos_req_type, enumdecl_dev_prop_type,
     enumdecl_dev_type, enumdecl_devcg_behavior, enumdecl_devfreq_parent_dev_type,
     enumdecl_devfreq_timer, enumdecl_device_link_state,
     enumdecl_device_physical_location_horizontal_position,
     enumdecl_device_physical_location_panel,
     enumdecl_device_physical_location_vertical_position, enumdecl_device_removable,
     enumdecl_devkmsg_log_bits, enumdecl_devkmsg_log_masks, enumdecl_devlink_attr,
     enumdecl_devlink_attr_selftest_id, enumdecl_devlink_attr_selftest_result,
     enumdecl_devlink_command, enumdecl_devlink_dpipe_action_type,
     enumdecl_devlink_dpipe_field_ethernet_id, enumdecl_devlink_dpipe_field_ipv4_id,
     enumdecl_devlink_dpipe_field_ipv6_id, enumdecl_devlink_dpipe_field_mapping_type,
     enumdecl_devlink_dpipe_header_id, enumdecl_devlink_dpipe_match_type,
     enumdecl_devlink_eswitch_encap_mode, enumdecl_devlink_health_reporter_state,
     enumdecl_devlink_info_version_type, enumdecl_devlink_linecard_state,
     enumdecl_devlink_multicast_groups, enumdecl_devlink_param_cmode,
     enumdecl_devlink_param_generic_id, enumdecl_devlink_param_type,
     enumdecl_devlink_port_flavour, enumdecl_devlink_port_fn_attr_cap,
     enumdecl_devlink_port_fn_opstate, enumdecl_devlink_port_fn_state,
     enumdecl_devlink_port_function_attr, enumdecl_devlink_port_type,
     enumdecl_devlink_rate_tc_attr, enumdecl_devlink_rate_type, enumdecl_devlink_reload_action,
     enumdecl_devlink_reload_limit, enumdecl_devlink_resource_unit,
     enumdecl_devlink_sb_pool_type, enumdecl_devlink_sb_threshold_type,
     enumdecl_devlink_selftest_status, enumdecl_devlink_trap_action,
     enumdecl_devlink_trap_generic_id, enumdecl_devlink_trap_group_generic_id,
     enumdecl_devlink_trap_type, enumdecl_devlink_var_attr_type, enumdecl_devm_ioremap_type,
     enumdecl_dfa_accept_flags, enumdecl_die_val, enumdecl_digest_type,
     enumdecl_dim_cq_period_mode, enumdecl_dim_state, enumdecl_dim_stats_state,
     enumdecl_dim_step_result, enumdecl_dim_tune_state, enumdecl_display_flags,
     enumdecl_dl_bw_request, enumdecl_dl_dev_state, enumdecl_dl_param, enumdecl_dm_io_mem_type,
     enumdecl_dm_queue_mode, enumdecl_dm_uevent_type, enumdecl_dm_wrappedkey_op,
     enumdecl_dma_ctrl_flags, enumdecl_dma_data_direction, enumdecl_dma_desc_metadata_mode,
     enumdecl_dma_fence_flag_bits, enumdecl_dma_residue_granularity, enumdecl_dma_resv_usage,
     enumdecl_dma_slave_buswidth, enumdecl_dma_status, enumdecl_dma_transaction_type,
     enumdecl_dma_transfer_direction, enumdecl_dmaengine_alignment, enumdecl_dmaengine_tx_result,
     enumdecl_dmi_device_type, enumdecl_dmi_entry_type, enumdecl_dmi_field,
     enumdecl_dns_lookup_status, enumdecl_dns_payload_content_type, enumdecl_dock_callback_type,
     enumdecl_dpll_a, enumdecl_dpll_a_pin, enumdecl_dpll_clock_quality_level, enumdecl_dpll_cmd,
     enumdecl_dpll_feature_state, enumdecl_dpll_lock_status, enumdecl_dpll_lock_status_error,
     enumdecl_dpll_mode, enumdecl_dpll_pin_capabilities, enumdecl_dpll_pin_direction,
     enumdecl_dpll_pin_state, enumdecl_dpll_pin_type, enumdecl_dpll_type, enumdecl_dpm_order,
     enumdecl_drbg_prefixes, enumdecl_drbg_seed_state, enumdecl_drm_bridge_attach_flags,
     enumdecl_drm_bridge_ops, enumdecl_drm_bus_flags, enumdecl_drm_color_encoding,
     enumdecl_drm_color_lut_tests, enumdecl_drm_color_range, enumdecl_drm_colorop_curve_1d_type,
     enumdecl_drm_colorop_lut1d_interpolation_type,
     enumdecl_drm_colorop_lut3d_interpolation_type, enumdecl_drm_colorop_type,
     enumdecl_drm_colorspace, enumdecl_drm_connector_force,
     enumdecl_drm_connector_registration_state, enumdecl_drm_connector_status]"

lemma enum_decls_10_4: "list_all enum4 enum_decls_10"
  by (unfold enum_decls_10_def
     enumdecl_dcbnl_bcn_attrs_def enumdecl_dcbnl_cap_attrs_def enumdecl_dcbnl_commands_def
     enumdecl_dcbnl_featcfg_attrs_def enumdecl_dcbnl_numtcs_attrs_def
     enumdecl_dcbnl_pfc_up_attrs_def enumdecl_dcbnl_pg_attrs_def enumdecl_dcbnl_tc_attrs_def
     enumdecl_dd_data_dir_def enumdecl_dd_prio_def enumdecl_dentry_d_lock_class_def
     enumdecl_dentry_flags_def enumdecl_depot_counter_id_def enumdecl_derived_key_type_def
     enumdecl_desc_state_def enumdecl_dev_dma_attr_def enumdecl_dev_pm_opp_event_def
     enumdecl_dev_pm_qos_req_type_def enum_dev_pm_qos_req_type_def enumdecl_dev_prop_type_def
     enumdecl_dev_type_def enumdecl_devcg_behavior_def enumdecl_devfreq_parent_dev_type_def
     enumdecl_devfreq_timer_def enumdecl_device_link_state_def
     enumdecl_device_physical_location_horizontal_position_def
     enumdecl_device_physical_location_panel_def
     enumdecl_device_physical_location_vertical_position_def enumdecl_device_removable_def
     enumdecl_devkmsg_log_bits_def enumdecl_devkmsg_log_masks_def enumdecl_devlink_attr_def
     enumdecl_devlink_attr_selftest_id_def enumdecl_devlink_attr_selftest_result_def
     enumdecl_devlink_command_def enumdecl_devlink_dpipe_action_type_def
     enumdecl_devlink_dpipe_field_ethernet_id_def enumdecl_devlink_dpipe_field_ipv4_id_def
     enumdecl_devlink_dpipe_field_ipv6_id_def enumdecl_devlink_dpipe_field_mapping_type_def
     enumdecl_devlink_dpipe_header_id_def enumdecl_devlink_dpipe_match_type_def
     enumdecl_devlink_eswitch_encap_mode_def enumdecl_devlink_health_reporter_state_def
     enumdecl_devlink_info_version_type_def enumdecl_devlink_linecard_state_def
     enumdecl_devlink_multicast_groups_def enumdecl_devlink_param_cmode_def
     enumdecl_devlink_param_generic_id_def enumdecl_devlink_param_type_def
     enumdecl_devlink_port_flavour_def enumdecl_devlink_port_fn_attr_cap_def
     enumdecl_devlink_port_fn_opstate_def enumdecl_devlink_port_fn_state_def
     enumdecl_devlink_port_function_attr_def enumdecl_devlink_port_type_def
     enumdecl_devlink_rate_tc_attr_def enumdecl_devlink_rate_type_def
     enumdecl_devlink_reload_action_def enumdecl_devlink_reload_limit_def
     enumdecl_devlink_resource_unit_def enumdecl_devlink_sb_pool_type_def
     enumdecl_devlink_sb_threshold_type_def enumdecl_devlink_selftest_status_def
     enumdecl_devlink_trap_action_def enumdecl_devlink_trap_generic_id_def
     enumdecl_devlink_trap_group_generic_id_def enumdecl_devlink_trap_type_def
     enumdecl_devlink_var_attr_type_def enumdecl_devm_ioremap_type_def
     enumdecl_dfa_accept_flags_def enumdecl_die_val_def enumdecl_digest_type_def
     enumdecl_dim_cq_period_mode_def enumdecl_dim_state_def enumdecl_dim_stats_state_def
     enumdecl_dim_step_result_def enumdecl_dim_tune_state_def enumdecl_display_flags_def
     enumdecl_dl_bw_request_def enumdecl_dl_dev_state_def enumdecl_dl_param_def
     enumdecl_dm_io_mem_type_def enumdecl_dm_queue_mode_def enumdecl_dm_uevent_type_def
     enumdecl_dm_wrappedkey_op_def enumdecl_dma_ctrl_flags_def enumdecl_dma_data_direction_def
     enum_dma_data_direction_def enumdecl_dma_desc_metadata_mode_def
     enumdecl_dma_fence_flag_bits_def enumdecl_dma_residue_granularity_def
     enumdecl_dma_resv_usage_def enumdecl_dma_slave_buswidth_def enumdecl_dma_status_def
     enumdecl_dma_transaction_type_def enumdecl_dma_transfer_direction_def
     enumdecl_dmaengine_alignment_def enumdecl_dmaengine_tx_result_def
     enumdecl_dmi_device_type_def enumdecl_dmi_entry_type_def enumdecl_dmi_field_def
     enumdecl_dns_lookup_status_def enumdecl_dns_payload_content_type_def
     enumdecl_dock_callback_type_def enumdecl_dpll_a_def enumdecl_dpll_a_pin_def
     enumdecl_dpll_clock_quality_level_def enumdecl_dpll_cmd_def
     enumdecl_dpll_feature_state_def enumdecl_dpll_lock_status_def
     enumdecl_dpll_lock_status_error_def enumdecl_dpll_mode_def
     enumdecl_dpll_pin_capabilities_def enumdecl_dpll_pin_direction_def
     enumdecl_dpll_pin_state_def enumdecl_dpll_pin_type_def enumdecl_dpll_type_def
     enumdecl_dpm_order_def enumdecl_drbg_prefixes_def enumdecl_drbg_seed_state_def
     enumdecl_drm_bridge_attach_flags_def enumdecl_drm_bridge_ops_def
     enumdecl_drm_bus_flags_def enumdecl_drm_color_encoding_def
     enumdecl_drm_color_lut_tests_def enumdecl_drm_color_range_def
     enumdecl_drm_colorop_curve_1d_type_def enumdecl_drm_colorop_lut1d_interpolation_type_def
     enumdecl_drm_colorop_lut3d_interpolation_type_def enumdecl_drm_colorop_type_def
     enumdecl_drm_colorspace_def enumdecl_drm_connector_force_def
     enumdecl_drm_connector_registration_state_def enumdecl_drm_connector_status_def)
    (intro enum_list_intros enum_int_intros; simp)

lemma enum_dev_pm_qos_req_type_listed: "EnumDecl False enum_dev_pm_qos_req_type \<in> set enum_decls_10"
  by (simp add: enum_decls_10_def flip: enumdecl_dev_pm_qos_req_type_def)

lemma enum_dma_data_direction_listed: "EnumDecl False enum_dma_data_direction \<in> set enum_decls_10"
  by (simp add: enum_decls_10_def flip: enumdecl_dma_data_direction_def)

lemma length_enum_decls_10: "length enum_decls_10 = 133"
  by (simp add: enum_decls_10_def)

end
