(* ===== verification/VmlinuxEnum11.thy ===== *)
theory VmlinuxEnum11
  imports EnumDecl
begin

text \<open>
  The enumerations of four bytes of \<^verbatim>\<open>src/internal/ebpf/vmlinux.h\<close> between lines 16698 and
  18348, one definition per enumeration, enumerators in order. An enumeration without a tag is
  named after the line it starts on.
\<close>

definition enumdecl_drm_connector_tv_mode :: cenum_decl where
  "enumdecl_drm_connector_tv_mode = EnumDecl False [
     (''DRM_MODE_TV_MODE_NTSC'', 0), (''DRM_MODE_TV_MODE_NTSC_443'', 1),
     (''DRM_MODE_TV_MODE_NTSC_J'', 2), (''DRM_MODE_TV_MODE_PAL'', 3),
     (''DRM_MODE_TV_MODE_PAL_M'', 4), (''DRM_MODE_TV_MODE_PAL_N'', 5),
     (''DRM_MODE_TV_MODE_SECAM'', 6), (''DRM_MODE_TV_MODE_MONOCHROME'', 7),
     (''DRM_MODE_TV_MODE_MAX'', 8)]"

definition enumdecl_drm_debug_category :: cenum_decl where
  "enumdecl_drm_debug_category = EnumDecl False [
     (''DRM_UT_CORE'', 0), (''DRM_UT_DRIVER'', 1), (''DRM_UT_KMS'', 2), (''DRM_UT_PRIME'', 3),
     (''DRM_UT_ATOMIC'', 4), (''DRM_UT_VBL'', 5), (''DRM_UT_STATE'', 6), (''DRM_UT_LEASE'', 7),
     (''DRM_UT_DP'', 8), (''DRM_UT_DRMRES'', 9)]"

definition enumdecl_drm_driver_feature :: cenum_decl where
  "enumdecl_drm_driver_feature = EnumDecl False [
     (''DRIVER_GEM'', 1), (''DRIVER_MODESET'', 2), (''DRIVER_RENDER'', 8),
     (''DRIVER_ATOMIC'', 16), (''DRIVER_SYNCOBJ'', 32), (''DRIVER_SYNCOBJ_TIMELINE'', 64),
     (''DRIVER_COMPUTE_ACCEL'', 128), (''DRIVER_GEM_GPUVA'', 256),
     (''DRIVER_CURSOR_HOTSPOT'', 512), (''DRIVER_USE_AGP'', 33554432),
     (''DRIVER_LEGACY'', 67108864), (''DRIVER_PCI_DMA'', 134217728), (''DRIVER_SG'', 268435456),
     (''DRIVER_HAVE_DMA'', 536870912), (''DRIVER_HAVE_IRQ'', 1073741824)]"

definition enumdecl_drm_edid_internal_quirk :: cenum_decl where
  "enumdecl_drm_edid_internal_quirk = EnumDecl False [
     (''EDID_QUIRK_PREFER_LARGE_60'', 1), (''EDID_QUIRK_135_CLOCK_TOO_HIGH'', 2),
     (''EDID_QUIRK_PREFER_LARGE_75'', 3), (''EDID_QUIRK_DETAILED_IN_CM'', 4),
     (''EDID_QUIRK_DETAILED_USE_MAXIMUM_SIZE'', 5), (''EDID_QUIRK_DETAILED_SYNC_PP'', 6),
     (''EDID_QUIRK_FORCE_REDUCED_BLANKING'', 7), (''EDID_QUIRK_FORCE_8BPC'', 8),
     (''EDID_QUIRK_FORCE_12BPC'', 9), (''EDID_QUIRK_FORCE_6BPC'', 10),
     (''EDID_QUIRK_FORCE_10BPC'', 11), (''EDID_QUIRK_NON_DESKTOP'', 12),
     (''EDID_QUIRK_CAP_DSC_15BPP'', 13)]"

definition enumdecl_drm_edid_quirk :: cenum_decl where
  "enumdecl_drm_edid_quirk = EnumDecl False [
     (''DRM_EDID_QUIRK_DP_DPCD_PROBE'', 0), (''DRM_EDID_QUIRK_NUM'', 1)]"

definition enumdecl_drm_gem_object_status :: cenum_decl where
  "enumdecl_drm_gem_object_status = EnumDecl False [
     (''DRM_GEM_OBJECT_RESIDENT'', 1), (''DRM_GEM_OBJECT_PURGEABLE'', 2),
     (''DRM_GEM_OBJECT_ACTIVE'', 4)]"

definition enumdecl_drm_gpuva_flags :: cenum_decl where
  "enumdecl_drm_gpuva_flags = EnumDecl False [
     (''DRM_GPUVA_INVALIDATED'', 1), (''DRM_GPUVA_SPARSE'', 2), (''DRM_GPUVA_USERBITS'', 4)]"

definition enumdecl_drm_gpuva_op_type :: cenum_decl where
  "enumdecl_drm_gpuva_op_type = EnumDecl False [
     (''DRM_GPUVA_OP_MAP'', 0), (''DRM_GPUVA_OP_REMAP'', 1), (''DRM_GPUVA_OP_UNMAP'', 2),
     (''DRM_GPUVA_OP_PREFETCH'', 3), (''DRM_GPUVA_OP_DRIVER'', 4)]"

definition enumdecl_drm_gpuvm_flags :: cenum_decl where
  "enumdecl_drm_gpuvm_flags = EnumDecl False [
     (''DRM_GPUVM_RESV_PROTECTED'', 1), (''DRM_GPUVM_IMMEDIATE_MODE'', 2),
     (''DRM_GPUVM_USERBITS'', 4)]"

definition enumdecl_drm_hdmi_broadcast_rgb :: cenum_decl where
  "enumdecl_drm_hdmi_broadcast_rgb = EnumDecl False [
     (''DRM_HDMI_BROADCAST_RGB_AUTO'', 0), (''DRM_HDMI_BROADCAST_RGB_FULL'', 1),
     (''DRM_HDMI_BROADCAST_RGB_LIMITED'', 2)]"

definition enumdecl_drm_ioctl_flags :: cenum_decl where
  "enumdecl_drm_ioctl_flags = EnumDecl False [
     (''DRM_AUTH'', 1), (''DRM_MASTER'', 2), (''DRM_ROOT_ONLY'', 4), (''DRM_RENDER_ALLOW'', 32)]"

definition enumdecl_drm_link_status :: cenum_decl where
  "enumdecl_drm_link_status = EnumDecl False [
     (''DRM_LINK_STATUS_GOOD'', 0), (''DRM_LINK_STATUS_BAD'', 1)]"

definition enumdecl_drm_minor_type :: cenum_decl where
  "enumdecl_drm_minor_type = EnumDecl False [
     (''DRM_MINOR_PRIMARY'', 0), (''DRM_MINOR_CONTROL'', 1), (''DRM_MINOR_RENDER'', 2),
     (''DRM_MINOR_ACCEL'', 32)]"

definition enumdecl_drm_mm_insert_mode :: cenum_decl where
  "enumdecl_drm_mm_insert_mode = EnumDecl False [
     (''DRM_MM_INSERT_BEST'', 0), (''DRM_MM_INSERT_LOW'', 1), (''DRM_MM_INSERT_HIGH'', 2),
     (''DRM_MM_INSERT_EVICT'', 3), (''DRM_MM_INSERT_ONCE'', 2147483648),
     (''DRM_MM_INSERT_HIGHEST'', 2147483650), (''DRM_MM_INSERT_LOWEST'', 2147483649)]"

lemma enumdecl_drm_mm_insert_mode_4: "enum4 enumdecl_drm_mm_insert_mode"
  by (unfold enumdecl_drm_mm_insert_mode_def) (intro enum_uint_intros; simp)

definition enumdecl_drm_mode_analog :: cenum_decl where
  "enumdecl_drm_mode_analog = EnumDecl False [
     (''DRM_MODE_ANALOG_NTSC'', 0), (''DRM_MODE_ANALOG_PAL'', 1)]"

definition enumdecl_drm_mode_status :: cenum_decl where
  "enumdecl_drm_mode_status = EnumDecl False [
     (''MODE_OK'', 0), (''MODE_HSYNC'', 1), (''MODE_VSYNC'', 2), (''MODE_H_ILLEGAL'', 3),
     (''MODE_V_ILLEGAL'', 4), (''MODE_BAD_WIDTH'', 5), (''MODE_NOMODE'', 6),
     (''MODE_NO_INTERLACE'', 7), (''MODE_NO_DBLESCAN'', 8), (''MODE_NO_VSCAN'', 9),
     (''MODE_MEM'', 10), (''MODE_VIRTUAL_X'', 11), (''MODE_VIRTUAL_Y'', 12),
     (''MODE_MEM_VIRT'', 13), (''MODE_NOCLOCK'', 14), (''MODE_CLOCK_HIGH'', 15),
     (''MODE_CLOCK_LOW'', 16), (''MODE_CLOCK_RANGE'', 17), (''MODE_BAD_HVALUE'', 18),
     (''MODE_BAD_VVALUE'', 19), (''MODE_BAD_VSCAN'', 20), (''MODE_HSYNC_NARROW'', 21),
     (''MODE_HSYNC_WIDE'', 22), (''MODE_HBLANK_NARROW'', 23), (''MODE_HBLANK_WIDE'', 24),
     (''MODE_VSYNC_NARROW'', 25), (''MODE_VSYNC_WIDE'', 26), (''MODE_VBLANK_NARROW'', 27),
     (''MODE_VBLANK_WIDE'', 28), (''MODE_PANEL'', 29), (''MODE_INTERLACE_WIDTH'', 30),
     (''MODE_ONE_WIDTH'', 31), (''MODE_ONE_HEIGHT'', 32), (''MODE_ONE_SIZE'', 33),
     (''MODE_NO_REDUCED'', 34), (''MODE_NO_STEREO'', 35), (''MODE_NO_420'', 36),
     (''MODE_STALE'', - 3), (''MODE_BAD'', - 2), (''MODE_ERROR'', - 1)]"

definition enumdecl_drm_mode_subconnector :: cenum_decl where
  "enumdecl_drm_mode_subconnector = EnumDecl False [
     (''DRM_MODE_SUBCONNECTOR_Automatic'', 0), (''DRM_MODE_SUBCONNECTOR_Unknown'', 0),
     (''DRM_MODE_SUBCONNECTOR_VGA'', 1), (''DRM_MODE_SUBCONNECTOR_DVID'', 3),
     (''DRM_MODE_SUBCONNECTOR_DVIA'', 4), (''DRM_MODE_SUBCONNECTOR_Composite'', 5),
     (''DRM_MODE_SUBCONNECTOR_SVIDEO'', 6), (''DRM_MODE_SUBCONNECTOR_Component'', 8),
     (''DRM_MODE_SUBCONNECTOR_SCART'', 9), (''DRM_MODE_SUBCONNECTOR_DisplayPort'', 10),
     (''DRM_MODE_SUBCONNECTOR_HDMIA'', 11), (''DRM_MODE_SUBCONNECTOR_Native'', 15),
     (''DRM_MODE_SUBCONNECTOR_Wireless'', 18)]"

definition enumdecl_drm_panel_orientation :: cenum_decl where
  "enumdecl_drm_panel_orientation = EnumDecl False [
     (''DRM_MODE_PANEL_ORIENTATION_UNKNOWN'', - 1), (''DRM_MODE_PANEL_ORIENTATION_NORMAL'', 0),
     (''DRM_MODE_PANEL_ORIENTATION_BOTTOM_UP'', 1), (''DRM_MODE_PANEL_ORIENTATION_LEFT_UP'', 2),
     (''DRM_MODE_PANEL_ORIENTATION_RIGHT_UP'', 3)]"

definition enumdecl_drm_panic_type :: cenum_decl where
  "enumdecl_drm_panic_type = EnumDecl False [
     (''DRM_PANIC_TYPE_KMSG'', 0), (''DRM_PANIC_TYPE_USER'', 1), (''DRM_PANIC_TYPE_QR'', 2)]"

definition enumdecl_drm_plane_type :: cenum_decl where
  "enumdecl_drm_plane_type = EnumDecl False [
     (''DRM_PLANE_TYPE_OVERLAY'', 0), (''DRM_PLANE_TYPE_PRIMARY'', 1),
     (''DRM_PLANE_TYPE_CURSOR'', 2)]"

definition enumdecl_drm_privacy_screen_status :: cenum_decl where
  "enumdecl_drm_privacy_screen_status = EnumDecl False [
     (''PRIVACY_SCREEN_DISABLED'', 0), (''PRIVACY_SCREEN_ENABLED'', 1),
     (''PRIVACY_SCREEN_DISABLED_LOCKED'', 2), (''PRIVACY_SCREEN_ENABLED_LOCKED'', 3)]"

definition enumdecl_drm_scaling_filter :: cenum_decl where
  "enumdecl_drm_scaling_filter = EnumDecl False [
     (''DRM_SCALING_FILTER_DEFAULT'', 0), (''DRM_SCALING_FILTER_NEAREST_NEIGHBOR'', 1)]"

definition enumdecl_drm_stat_type :: cenum_decl where
  "enumdecl_drm_stat_type = EnumDecl False [
     (''_DRM_STAT_LOCK'', 0), (''_DRM_STAT_OPENS'', 1), (''_DRM_STAT_CLOSES'', 2),
     (''_DRM_STAT_IOCTLS'', 3), (''_DRM_STAT_LOCKS'', 4), (''_DRM_STAT_UNLOCKS'', 5),
     (''_DRM_STAT_VALUE'', 6), (''_DRM_STAT_BYTE'', 7), (''_DRM_STAT_COUNT'', 8),
     (''_DRM_STAT_IRQ'', 9), (''_DRM_STAT_PRIMARY'', 10), (''_DRM_STAT_SECONDARY'', 11),
     (''_DRM_STAT_DMA'', 12), (''_DRM_STAT_SPECIAL'', 13), (''_DRM_STAT_MISSED'', 14)]"

definition enumdecl_drm_vblank_seq_type :: cenum_decl where
  "enumdecl_drm_vblank_seq_type = EnumDecl False [
     (''_DRM_VBLANK_ABSOLUTE'', 0), (''_DRM_VBLANK_RELATIVE'', 1),
     (''_DRM_VBLANK_HIGH_CRTC_MASK'', 62), (''_DRM_VBLANK_EVENT'', 67108864),
     (''_DRM_VBLANK_FLIP'', 134217728), (''_DRM_VBLANK_NEXTONMISS'', 268435456),
     (''_DRM_VBLANK_SECONDARY'', 536870912), (''_DRM_VBLANK_SIGNAL'', 1073741824)]"

definition enumdecl_dsa_db_type :: cenum_decl where
  "enumdecl_dsa_db_type = EnumDecl False [
     (''DSA_DB_PORT'', 0), (''DSA_DB_LAG'', 1), (''DSA_DB_BRIDGE'', 2)]"

definition enumdecl_dsa_tag_protocol :: cenum_decl where
  "enumdecl_dsa_tag_protocol = EnumDecl False [
     (''DSA_TAG_PROTO_NONE'', 0), (''DSA_TAG_PROTO_BRCM'', 1),
     (''DSA_TAG_PROTO_BRCM_LEGACY'', 22), (''DSA_TAG_PROTO_BRCM_LEGACY_FCS'', 29),
     (''DSA_TAG_PROTO_BRCM_PREPEND'', 2), (''DSA_TAG_PROTO_DSA'', 3),
     (''DSA_TAG_PROTO_EDSA'', 4), (''DSA_TAG_PROTO_GSWIP'', 5), (''DSA_TAG_PROTO_KSZ9477'', 6),
     (''DSA_TAG_PROTO_KSZ9893'', 7), (''DSA_TAG_PROTO_LAN9303'', 8), (''DSA_TAG_PROTO_MTK'', 9),
     (''DSA_TAG_PROTO_QCA'', 10), (''DSA_TAG_PROTO_TRAILER'', 11), (''DSA_TAG_PROTO_8021Q'', 12),
     (''DSA_TAG_PROTO_SJA1105'', 13), (''DSA_TAG_PROTO_KSZ8795'', 14),
     (''DSA_TAG_PROTO_OCELOT'', 15), (''DSA_TAG_PROTO_AR9331'', 16),
     (''DSA_TAG_PROTO_RTL4_A'', 17), (''DSA_TAG_PROTO_HELLCREEK'', 18),
     (''DSA_TAG_PROTO_XRS700X'', 19), (''DSA_TAG_PROTO_OCELOT_8021Q'', 20),
     (''DSA_TAG_PROTO_SEVILLE'', 21), (''DSA_TAG_PROTO_SJA1110'', 23),
     (''DSA_TAG_PROTO_RTL8_4'', 24), (''DSA_TAG_PROTO_RTL8_4T'', 25),
     (''DSA_TAG_PROTO_RZN1_A5PSW'', 26), (''DSA_TAG_PROTO_LAN937X'', 27),
     (''DSA_TAG_PROTO_VSC73XX_8021Q'', 28), (''DSA_TAG_PROTO_YT921X'', 30),
     (''DSA_TAG_PROTO_MXL_GSW1XX'', 31), (''DSA_TAG_PROTO_MXL862'', 32)]"

definition enumdecl_dw_edma_chip_flags :: cenum_decl where
  "enumdecl_dw_edma_chip_flags = EnumDecl False [
     (''DW_EDMA_CHIP_LOCAL'', 1)]"

definition enumdecl_dw_edma_map_format :: cenum_decl where
  "enumdecl_dw_edma_map_format = EnumDecl False [
     (''EDMA_MF_EDMA_LEGACY'', 0), (''EDMA_MF_EDMA_UNROLL'', 1), (''EDMA_MF_HDMA_COMPAT'', 5),
     (''EDMA_MF_HDMA_NATIVE'', 7)]"

definition enumdecl_dw_pcie_app_clk :: cenum_decl where
  "enumdecl_dw_pcie_app_clk = EnumDecl False [
     (''DW_PCIE_DBI_CLK'', 0), (''DW_PCIE_MSTR_CLK'', 1), (''DW_PCIE_SLV_CLK'', 2),
     (''DW_PCIE_NUM_APP_CLKS'', 3)]"

definition enumdecl_dw_pcie_app_rst :: cenum_decl where
  "enumdecl_dw_pcie_app_rst = EnumDecl False [
     (''DW_PCIE_DBI_RST'', 0), (''DW_PCIE_MSTR_RST'', 1), (''DW_PCIE_SLV_RST'', 2),
     (''DW_PCIE_NUM_APP_RSTS'', 3)]"

definition enumdecl_dw_pcie_core_clk :: cenum_decl where
  "enumdecl_dw_pcie_core_clk = EnumDecl False [
     (''DW_PCIE_PIPE_CLK'', 0), (''DW_PCIE_CORE_CLK'', 1), (''DW_PCIE_AUX_CLK'', 2),
     (''DW_PCIE_REF_CLK'', 3), (''DW_PCIE_NUM_CORE_CLKS'', 4)]"

definition enumdecl_dw_pcie_core_rst :: cenum_decl where
  "enumdecl_dw_pcie_core_rst = EnumDecl False [
     (''DW_PCIE_NON_STICKY_RST'', 0), (''DW_PCIE_STICKY_RST'', 1), (''DW_PCIE_CORE_RST'', 2),
     (''DW_PCIE_PIPE_RST'', 3), (''DW_PCIE_PHY_RST'', 4), (''DW_PCIE_HOT_RST'', 5),
     (''DW_PCIE_PWR_RST'', 6), (''DW_PCIE_NUM_CORE_RSTS'', 7)]"

definition enumdecl_dw_pcie_device_mode :: cenum_decl where
  "enumdecl_dw_pcie_device_mode = EnumDecl False [
     (''DW_PCIE_UNKNOWN_TYPE'', 0), (''DW_PCIE_EP_TYPE'', 1), (''DW_PCIE_LEG_EP_TYPE'', 2),
     (''DW_PCIE_RC_TYPE'', 3)]"

definition enumdecl_dw_pcie_ltssm :: cenum_decl where
  "enumdecl_dw_pcie_ltssm = EnumDecl False [
     (''DW_PCIE_LTSSM_DETECT_QUIET'', 0), (''DW_PCIE_LTSSM_DETECT_ACT'', 1),
     (''DW_PCIE_LTSSM_POLL_ACTIVE'', 2), (''DW_PCIE_LTSSM_POLL_COMPLIANCE'', 3),
     (''DW_PCIE_LTSSM_POLL_CONFIG'', 4), (''DW_PCIE_LTSSM_PRE_DETECT_QUIET'', 5),
     (''DW_PCIE_LTSSM_DETECT_WAIT'', 6), (''DW_PCIE_LTSSM_CFG_LINKWD_START'', 7),
     (''DW_PCIE_LTSSM_CFG_LINKWD_ACEPT'', 8), (''DW_PCIE_LTSSM_CFG_LANENUM_WAI'', 9),
     (''DW_PCIE_LTSSM_CFG_LANENUM_ACEPT'', 10), (''DW_PCIE_LTSSM_CFG_COMPLETE'', 11),
     (''DW_PCIE_LTSSM_CFG_IDLE'', 12), (''DW_PCIE_LTSSM_RCVRY_LOCK'', 13),
     (''DW_PCIE_LTSSM_RCVRY_SPEED'', 14), (''DW_PCIE_LTSSM_RCVRY_RCVRCFG'', 15),
     (''DW_PCIE_LTSSM_RCVRY_IDLE'', 16), (''DW_PCIE_LTSSM_L0'', 17), (''DW_PCIE_LTSSM_L0S'', 18),
     (''DW_PCIE_LTSSM_L123_SEND_EIDLE'', 19), (''DW_PCIE_LTSSM_L1_IDLE'', 20),
     (''DW_PCIE_LTSSM_L2_IDLE'', 21), (''DW_PCIE_LTSSM_L2_WAKE'', 22),
     (''DW_PCIE_LTSSM_DISABLED_ENTRY'', 23), (''DW_PCIE_LTSSM_DISABLED_IDLE'', 24),
     (''DW_PCIE_LTSSM_DISABLED'', 25), (''DW_PCIE_LTSSM_LPBK_ENTRY'', 26),
     (''DW_PCIE_LTSSM_LPBK_ACTIVE'', 27), (''DW_PCIE_LTSSM_LPBK_EXIT'', 28),
     (''DW_PCIE_LTSSM_LPBK_EXIT_TIMEOUT'', 29), (''DW_PCIE_LTSSM_HOT_RESET_ENTRY'', 30),
     (''DW_PCIE_LTSSM_HOT_RESET'', 31), (''DW_PCIE_LTSSM_RCVRY_EQ0'', 32),
     (''DW_PCIE_LTSSM_RCVRY_EQ1'', 33), (''DW_PCIE_LTSSM_RCVRY_EQ2'', 34),
     (''DW_PCIE_LTSSM_RCVRY_EQ3'', 35), (''DW_PCIE_LTSSM_L1_1'', 321),
     (''DW_PCIE_LTSSM_L1_2'', 322), (''DW_PCIE_LTSSM_UNKNOWN'', 4294967295)]"

lemma enumdecl_dw_pcie_ltssm_4: "enum4 enumdecl_dw_pcie_ltssm"
  by (unfold enumdecl_dw_pcie_ltssm_def) (intro enum_uint_intros; simp)

definition enumdecl_dwc2_control_phase :: cenum_decl where
  "enumdecl_dwc2_control_phase = EnumDecl False [
     (''DWC2_CONTROL_SETUP'', 0), (''DWC2_CONTROL_DATA'', 1), (''DWC2_CONTROL_STATUS'', 2)]"

definition enumdecl_dwc2_halt_status :: cenum_decl where
  "enumdecl_dwc2_halt_status = EnumDecl False [
     (''DWC2_HC_XFER_NO_HALT_STATUS'', 0), (''DWC2_HC_XFER_COMPLETE'', 1),
     (''DWC2_HC_XFER_URB_COMPLETE'', 2), (''DWC2_HC_XFER_ACK'', 3), (''DWC2_HC_XFER_NAK'', 4),
     (''DWC2_HC_XFER_NYET'', 5), (''DWC2_HC_XFER_STALL'', 6), (''DWC2_HC_XFER_XACT_ERR'', 7),
     (''DWC2_HC_XFER_FRAME_OVERRUN'', 8), (''DWC2_HC_XFER_BABBLE_ERR'', 9),
     (''DWC2_HC_XFER_DATA_TOGGLE_ERR'', 10), (''DWC2_HC_XFER_AHB_ERR'', 11),
     (''DWC2_HC_XFER_PERIODIC_INCOMPLETE'', 12), (''DWC2_HC_XFER_URB_DEQUEUE'', 13)]"

definition enumdecl_dwc2_hsotg_dmamode :: cenum_decl where
  "enumdecl_dwc2_hsotg_dmamode = EnumDecl False [
     (''S3C_HSOTG_DMA_NONE'', 0), (''S3C_HSOTG_DMA_ONLY'', 1), (''S3C_HSOTG_DMA_DRV'', 2)]"

definition enumdecl_dwc2_lx_state :: cenum_decl where
  "enumdecl_dwc2_lx_state = EnumDecl False [
     (''DWC2_L0'', 0), (''DWC2_L1'', 1), (''DWC2_L2'', 2), (''DWC2_L3'', 3)]"

definition enumdecl_dwc2_transaction_type :: cenum_decl where
  "enumdecl_dwc2_transaction_type = EnumDecl False [
     (''DWC2_TRANSACTION_NONE'', 0), (''DWC2_TRANSACTION_PERIODIC'', 1),
     (''DWC2_TRANSACTION_NON_PERIODIC'', 2), (''DWC2_TRANSACTION_ALL'', 3)]"

definition enumdecl_dyn_constr_type :: cenum_decl where
  "enumdecl_dyn_constr_type = EnumDecl False [
     (''DYN_CONSTR_NONE'', 0), (''DYN_CONSTR_BR_CNTR'', 1), (''DYN_CONSTR_ACR_CNTR'', 2),
     (''DYN_CONSTR_ACR_CAUSE'', 3), (''DYN_CONSTR_PEBS'', 4), (''DYN_CONSTR_PDIST'', 5),
     (''DYN_CONSTR_MAX'', 6)]"

definition enumdecl_dynevent_type :: cenum_decl where
  "enumdecl_dynevent_type = EnumDecl False [
     (''DYNEVENT_TYPE_SYNTH'', 1), (''DYNEVENT_TYPE_KPROBE'', 2), (''DYNEVENT_TYPE_NONE'', 3)]"

definition enumdecl_e820_type :: cenum_decl where
  "enumdecl_e820_type = EnumDecl False [
     (''E820_TYPE_RAM'', 1), (''E820_TYPE_RESERVED'', 2), (''E820_TYPE_ACPI'', 3),
     (''E820_TYPE_NVS'', 4), (''E820_TYPE_UNUSABLE'', 5), (''E820_TYPE_PMEM'', 7),
     (''E820_TYPE_PRAM'', 12), (''E820_TYPE_SOFT_RESERVED'', 4026531839)]"

lemma enumdecl_e820_type_4: "enum4 enumdecl_e820_type"
  by (unfold enumdecl_e820_type_def) (intro enum_uint_intros; simp)

definition enumdecl_ec_command :: cenum_decl where
  "enumdecl_ec_command = EnumDecl False [
     (''ACPI_EC_COMMAND_READ'', 128), (''ACPI_EC_COMMAND_WRITE'', 129),
     (''ACPI_EC_BURST_ENABLE'', 130), (''ACPI_EC_BURST_DISABLE'', 131),
     (''ACPI_EC_COMMAND_QUERY'', 132)]"

definition enumdecl_ecryptfs_token_types :: cenum_decl where
  "enumdecl_ecryptfs_token_types = EnumDecl False [
     (''ECRYPTFS_PASSWORD'', 0), (''ECRYPTFS_PRIVATE_KEY'', 1)]"

definition enumdecl_edac_dev_feat :: cenum_decl where
  "enumdecl_edac_dev_feat = EnumDecl False [
     (''RAS_FEAT_SCRUB'', 0), (''RAS_FEAT_ECS'', 1), (''RAS_FEAT_MEM_REPAIR'', 2),
     (''RAS_FEAT_MAX'', 3)]"

definition enumdecl_edac_ecs_attributes :: cenum_decl where
  "enumdecl_edac_ecs_attributes = EnumDecl False [
     (''ECS_LOG_ENTRY_TYPE'', 0), (''ECS_MODE'', 1), (''ECS_RESET'', 2), (''ECS_THRESHOLD'', 3),
     (''ECS_MAX_ATTRS'', 4)]"

definition enumdecl_edac_mc_layer_type :: cenum_decl where
  "enumdecl_edac_mc_layer_type = EnumDecl False [
     (''EDAC_MC_LAYER_BRANCH'', 0), (''EDAC_MC_LAYER_CHANNEL'', 1), (''EDAC_MC_LAYER_SLOT'', 2),
     (''EDAC_MC_LAYER_CHIP_SELECT'', 3), (''EDAC_MC_LAYER_ALL_MEM'', 4)]"

definition enumdecl_edac_mem_repair_attributes :: cenum_decl where
  "enumdecl_edac_mem_repair_attributes = EnumDecl False [
     (''MR_TYPE'', 0), (''MR_PERSIST_MODE'', 1), (''MR_SAFE_IN_USE'', 2), (''MR_HPA'', 3),
     (''MR_MIN_HPA'', 4), (''MR_MAX_HPA'', 5), (''MR_DPA'', 6), (''MR_MIN_DPA'', 7),
     (''MR_MAX_DPA'', 8), (''MR_NIBBLE_MASK'', 9), (''MR_BANK_GROUP'', 10), (''MR_BANK'', 11),
     (''MR_RANK'', 12), (''MR_ROW'', 13), (''MR_COLUMN'', 14), (''MR_CHANNEL'', 15),
     (''MR_SUB_CHANNEL'', 16), (''MEM_DO_REPAIR'', 17), (''MR_MAX_ATTRS'', 18)]"

definition enumdecl_edac_mem_repair_type :: cenum_decl where
  "enumdecl_edac_mem_repair_type = EnumDecl False [
     (''EDAC_REPAIR_PPR'', 0), (''EDAC_REPAIR_CACHELINE_SPARING'', 1),
     (''EDAC_REPAIR_ROW_SPARING'', 2), (''EDAC_REPAIR_BANK_SPARING'', 3),
     (''EDAC_REPAIR_RANK_SPARING'', 4), (''EDAC_REPAIR_MAX'', 5)]"

definition enumdecl_edac_scrub_attributes :: cenum_decl where
  "enumdecl_edac_scrub_attributes = EnumDecl False [
     (''SCRUB_ADDRESS'', 0), (''SCRUB_SIZE'', 1), (''SCRUB_ENABLE_BACKGROUND'', 2),
     (''SCRUB_MIN_CYCLE_DURATION'', 3), (''SCRUB_MAX_CYCLE_DURATION'', 4),
     (''SCRUB_CUR_CYCLE_DURATION'', 5), (''SCRUB_MAX_ATTRS'', 6)]"

definition enumdecl_edac_type :: cenum_decl where
  "enumdecl_edac_type = EnumDecl False [
     (''EDAC_UNKNOWN'', 0), (''EDAC_NONE'', 1), (''EDAC_RESERVED'', 2), (''EDAC_PARITY'', 3),
     (''EDAC_EC'', 4), (''EDAC_SECDED'', 5), (''EDAC_S2ECD2ED'', 6), (''EDAC_S4ECD4ED'', 7),
     (''EDAC_S8ECD8ED'', 8), (''EDAC_S16ECD16ED'', 9)]"

definition enumdecl_edid_block_status :: cenum_decl where
  "enumdecl_edid_block_status = EnumDecl False [
     (''EDID_BLOCK_OK'', 0), (''EDID_BLOCK_READ_FAIL'', 1), (''EDID_BLOCK_NULL'', 2),
     (''EDID_BLOCK_ZERO'', 3), (''EDID_BLOCK_HEADER_CORRUPT'', 4),
     (''EDID_BLOCK_HEADER_REPAIR'', 5), (''EDID_BLOCK_HEADER_FIXED'', 6),
     (''EDID_BLOCK_CHECKSUM'', 7), (''EDID_BLOCK_VERSION'', 8)]"

definition enumdecl_efi_rts_ids :: cenum_decl where
  "enumdecl_efi_rts_ids = EnumDecl False [
     (''EFI_NONE'', 0), (''EFI_GET_TIME'', 1), (''EFI_SET_TIME'', 2),
     (''EFI_GET_WAKEUP_TIME'', 3), (''EFI_SET_WAKEUP_TIME'', 4), (''EFI_GET_VARIABLE'', 5),
     (''EFI_GET_NEXT_VARIABLE'', 6), (''EFI_SET_VARIABLE'', 7), (''EFI_QUERY_VARIABLE_INFO'', 8),
     (''EFI_GET_NEXT_HIGH_MONO_COUNT'', 9), (''EFI_RESET_SYSTEM'', 10),
     (''EFI_UPDATE_CAPSULE'', 11), (''EFI_QUERY_CAPSULE_CAPS'', 12),
     (''EFI_ACPI_PRM_HANDLER'', 13)]"

definition enumdecl_efi_secureboot_mode :: cenum_decl where
  "enumdecl_efi_secureboot_mode = EnumDecl False [
     (''efi_secureboot_mode_unset'', 0), (''efi_secureboot_mode_unknown'', 1),
     (''efi_secureboot_mode_disabled'', 2), (''efi_secureboot_mode_enabled'', 3)]"

definition enumdecl_ehci_hrtimer_event :: cenum_decl where
  "enumdecl_ehci_hrtimer_event = EnumDecl False [
     (''EHCI_HRTIMER_POLL_ASS'', 0), (''EHCI_HRTIMER_POLL_PSS'', 1),
     (''EHCI_HRTIMER_POLL_DEAD'', 2), (''EHCI_HRTIMER_UNLINK_INTR'', 3),
     (''EHCI_HRTIMER_FREE_ITDS'', 4), (''EHCI_HRTIMER_ACTIVE_UNLINK'', 5),
     (''EHCI_HRTIMER_START_UNLINK_INTR'', 6), (''EHCI_HRTIMER_ASYNC_UNLINKS'', 7),
     (''EHCI_HRTIMER_IAA_WATCHDOG'', 8), (''EHCI_HRTIMER_DISABLE_PERIODIC'', 9),
     (''EHCI_HRTIMER_DISABLE_ASYNC'', 10), (''EHCI_HRTIMER_IO_WATCHDOG'', 11),
     (''EHCI_HRTIMER_NUM_EVENTS'', 12)]"

definition enumdecl_ehci_rh_state :: cenum_decl where
  "enumdecl_ehci_rh_state = EnumDecl False [
     (''EHCI_RH_HALTED'', 0), (''EHCI_RH_SUSPENDED'', 1), (''EHCI_RH_RUNNING'', 2),
     (''EHCI_RH_STOPPING'', 3)]"

definition enumdecl_elants_chip_id :: cenum_decl where
  "enumdecl_elants_chip_id = EnumDecl False [
     (''EKTH3500'', 0), (''EKTF3624'', 1)]"

definition enumdecl_elants_iap_mode :: cenum_decl where
  "enumdecl_elants_iap_mode = EnumDecl False [
     (''ELAN_IAP_OPERATIONAL'', 0), (''ELAN_IAP_RECOVERY'', 1)]"

definition enumdecl_elants_state :: cenum_decl where
  "enumdecl_elants_state = EnumDecl False [
     (''ELAN_STATE_NORMAL'', 0), (''ELAN_WAIT_QUEUE_HEADER'', 1),
     (''ELAN_WAIT_RECALIBRATION'', 2)]"

definition enumdecl_elv_merge :: cenum_decl where
  "enumdecl_elv_merge = EnumDecl False [
     (''ELEVATOR_NO_MERGE'', 0), (''ELEVATOR_FRONT_MERGE'', 1), (''ELEVATOR_BACK_MERGE'', 2),
     (''ELEVATOR_DISCARD_MERGE'', 3)]"

definition enumdecl_enable_type :: cenum_decl where
  "enumdecl_enable_type = EnumDecl False [
     (''undefined'', - 1), (''user_disabled'', 0), (''auto_disabled'', 1), (''user_enabled'', 2),
     (''auto_enabled'', 3)]"

definition enumdecl_energy_perf_value_index :: cenum_decl where
  "enumdecl_energy_perf_value_index = EnumDecl False [
     (''EPB_INDEX_PERFORMANCE'', 0), (''EPB_INDEX_BALANCE_PERFORMANCE'', 1),
     (''EPB_INDEX_NORMAL'', 2), (''EPB_INDEX_BALANCE_POWERSAVE'', 3),
     (''EPB_INDEX_POWERSAVE'', 4)]"

definition enumdecl_energy_perf_value_index___2 :: cenum_decl where
  "enumdecl_energy_perf_value_index___2 = EnumDecl False [
     (''EPP_INDEX_DEFAULT'', 0), (''EPP_INDEX_PERFORMANCE'', 1),
     (''EPP_INDEX_BALANCE_PERFORMANCE'', 2), (''EPP_INDEX_BALANCE_POWERSAVE'', 3),
     (''EPP_INDEX_POWERSAVE'', 4)]"

definition enumdecl_energy_perf_value_index___3 :: cenum_decl where
  "enumdecl_energy_perf_value_index___3 = EnumDecl False [
     (''EPP_INDEX_DEFAULT___2'', 0), (''EPP_INDEX_PERFORMANCE___2'', 1),
     (''EPP_INDEX_BALANCE_PERFORMANCE___2'', 2), (''EPP_INDEX_BALANCE_POWERSAVE___2'', 3),
     (''EPP_INDEX_POWERSAVE___2'', 4), (''EPP_INDEX_MAX'', 5)]"

definition enumdecl_environment_cap :: cenum_decl where
  "enumdecl_environment_cap = EnumDecl False [
     (''ENVIRON_ANY'', 0), (''ENVIRON_INDOOR'', 1), (''ENVIRON_OUTDOOR'', 2)]"

definition enumdecl_equalization_preset_type :: cenum_decl where
  "enumdecl_equalization_preset_type = EnumDecl False [
     (''EQ_PRESET_TYPE_8GTS'', 0), (''EQ_PRESET_TYPE_16GTS'', 1), (''EQ_PRESET_TYPE_32GTS'', 2),
     (''EQ_PRESET_TYPE_64GTS'', 3), (''EQ_PRESET_TYPE_MAX'', 4)]"

definition enumdecl_err_types :: cenum_decl where
  "enumdecl_err_types = EnumDecl False [
     (''ERR_TYPE_CACHE'', 0), (''ERR_TYPE_TLB'', 1), (''ERR_TYPE_BUS'', 2), (''ERR_TYPE_MS'', 3),
     (''N_ERR_TYPES'', 4)]"

definition enumdecl_error_detector :: cenum_decl where
  "enumdecl_error_detector = EnumDecl False enum_error_detector"

definition enumdecl_es_result :: cenum_decl where
  "enumdecl_es_result = EnumDecl False [
     (''ES_OK'', 0), (''ES_UNSUPPORTED'', 1), (''ES_VMM_ERROR'', 2), (''ES_DECODE_FAILED'', 3),
     (''ES_EXCEPTION'', 4), (''ES_RETRY'', 5)]"

definition enumdecl_ethnl_sock_type :: cenum_decl where
  "enumdecl_ethnl_sock_type = EnumDecl False [
     (''ETHTOOL_SOCK_TYPE_MODULE_FW_FLASH'', 0)]"

definition enumdecl_ethtool_c33_pse_admin_state :: cenum_decl where
  "enumdecl_ethtool_c33_pse_admin_state = EnumDecl False [
     (''ETHTOOL_C33_PSE_ADMIN_STATE_UNKNOWN'', 1), (''ETHTOOL_C33_PSE_ADMIN_STATE_DISABLED'', 2),
     (''ETHTOOL_C33_PSE_ADMIN_STATE_ENABLED'', 3)]"

definition enumdecl_ethtool_c33_pse_ext_state :: cenum_decl where
  "enumdecl_ethtool_c33_pse_ext_state = EnumDecl False [
     (''ETHTOOL_C33_PSE_EXT_STATE_ERROR_CONDITION'', 1),
     (''ETHTOOL_C33_PSE_EXT_STATE_MR_MPS_VALID'', 2),
     (''ETHTOOL_C33_PSE_EXT_STATE_MR_PSE_ENABLE'', 3),
     (''ETHTOOL_C33_PSE_EXT_STATE_OPTION_DETECT_TED'', 4),
     (''ETHTOOL_C33_PSE_EXT_STATE_OPTION_VPORT_LIM'', 5),
     (''ETHTOOL_C33_PSE_EXT_STATE_OVLD_DETECTED'', 6),
     (''ETHTOOL_C33_PSE_EXT_STATE_PD_DLL_POWER_TYPE'', 7),
     (''ETHTOOL_C33_PSE_EXT_STATE_POWER_NOT_AVAILABLE'', 8),
     (''ETHTOOL_C33_PSE_EXT_STATE_SHORT_DETECTED'', 9)]"

definition enumdecl_ethtool_c33_pse_ext_substate_error_condition :: cenum_decl where
  "enumdecl_ethtool_c33_pse_ext_substate_error_condition = EnumDecl False [
     (''ETHTOOL_C33_PSE_EXT_SUBSTATE_ERROR_CONDITION_NON_EXISTING_PORT'', 1),
     (''ETHTOOL_C33_PSE_EXT_SUBSTATE_ERROR_CONDITION_UNDEFINED_PORT'', 2),
     (''ETHTOOL_C33_PSE_EXT_SUBSTATE_ERROR_CONDITION_INTERNAL_HW_FAULT'', 3),
     (''ETHTOOL_C33_PSE_EXT_SUBSTATE_ERROR_CONDITION_COMM_ERROR_AFTER_FORCE_ON'', 4),
     (''ETHTOOL_C33_PSE_EXT_SUBSTATE_ERROR_CONDITION_UNKNOWN_PORT_STATUS'', 5),
     (''ETHTOOL_C33_PSE_EXT_SUBSTATE_ERROR_CONDITION_HOST_CRASH_TURN_OFF'', 6),
     (''ETHTOOL_C33_PSE_EXT_SUBSTATE_ERROR_CONDITION_HOST_CRASH_FORCE_SHUTDOWN'', 7),
     (''ETHTOOL_C33_PSE_EXT_SUBSTATE_ERROR_CONDITION_CONFIG_CHANGE'', 8),
     (''ETHTOOL_C33_PSE_EXT_SUBSTATE_ERROR_CONDITION_DETECTED_OVER_TEMP'', 9)]"

definition enumdecl_ethtool_c33_pse_ext_substate_mr_pse_enable :: cenum_decl where
  "enumdecl_ethtool_c33_pse_ext_substate_mr_pse_enable = EnumDecl False [
     (''ETHTOOL_C33_PSE_EXT_SUBSTATE_MR_PSE_ENABLE_DISABLE_PIN_ACTIVE'', 1)]"

definition enumdecl_ethtool_c33_pse_ext_substate_option_detect_ted :: cenum_decl where
  "enumdecl_ethtool_c33_pse_ext_substate_option_detect_ted = EnumDecl False [
     (''ETHTOOL_C33_PSE_EXT_SUBSTATE_OPTION_DETECT_TED_DET_IN_PROCESS'', 1),
     (''ETHTOOL_C33_PSE_EXT_SUBSTATE_OPTION_DETECT_TED_CONNECTION_CHECK_ERROR'', 2)]"

definition enumdecl_ethtool_c33_pse_ext_substate_option_vport_lim :: cenum_decl where
  "enumdecl_ethtool_c33_pse_ext_substate_option_vport_lim = EnumDecl False [
     (''ETHTOOL_C33_PSE_EXT_SUBSTATE_OPTION_VPORT_LIM_HIGH_VOLTAGE'', 1),
     (''ETHTOOL_C33_PSE_EXT_SUBSTATE_OPTION_VPORT_LIM_LOW_VOLTAGE'', 2),
     (''ETHTOOL_C33_PSE_EXT_SUBSTATE_OPTION_VPORT_LIM_VOLTAGE_INJECTION'', 3)]"

definition enumdecl_ethtool_c33_pse_ext_substate_ovld_detected :: cenum_decl where
  "enumdecl_ethtool_c33_pse_ext_substate_ovld_detected = EnumDecl False [
     (''ETHTOOL_C33_PSE_EXT_SUBSTATE_OVLD_DETECTED_OVERLOAD'', 1)]"

definition enumdecl_ethtool_c33_pse_ext_substate_power_not_available :: cenum_decl where
  "enumdecl_ethtool_c33_pse_ext_substate_power_not_available = EnumDecl False [
     (''ETHTOOL_C33_PSE_EXT_SUBSTATE_POWER_NOT_AVAILABLE_BUDGET_EXCEEDED'', 1),
     (''ETHTOOL_C33_PSE_EXT_SUBSTATE_POWER_NOT_AVAILABLE_PORT_PW_LIMIT_EXCEEDS_CONTROLLER_BUDGET'', 2),
     (''ETHTOOL_C33_PSE_EXT_SUBSTATE_POWER_NOT_AVAILABLE_PD_REQUEST_EXCEEDS_PORT_LIMIT'', 3),
     (''ETHTOOL_C33_PSE_EXT_SUBSTATE_POWER_NOT_AVAILABLE_HW_PW_LIMIT'', 4)]"

definition enumdecl_ethtool_c33_pse_ext_substate_short_detected :: cenum_decl where
  "enumdecl_ethtool_c33_pse_ext_substate_short_detected = EnumDecl False [
     (''ETHTOOL_C33_PSE_EXT_SUBSTATE_SHORT_DETECTED_SHORT_CONDITION'', 1)]"

definition enumdecl_ethtool_c33_pse_pw_d_status :: cenum_decl where
  "enumdecl_ethtool_c33_pse_pw_d_status = EnumDecl False [
     (''ETHTOOL_C33_PSE_PW_D_STATUS_UNKNOWN'', 1), (''ETHTOOL_C33_PSE_PW_D_STATUS_DISABLED'', 2),
     (''ETHTOOL_C33_PSE_PW_D_STATUS_SEARCHING'', 3),
     (''ETHTOOL_C33_PSE_PW_D_STATUS_DELIVERING'', 4), (''ETHTOOL_C33_PSE_PW_D_STATUS_TEST'', 5),
     (''ETHTOOL_C33_PSE_PW_D_STATUS_FAULT'', 6), (''ETHTOOL_C33_PSE_PW_D_STATUS_OTHERFAULT'', 7)]"

definition enumdecl_ethtool_cmis_cdb_cmd_id :: cenum_decl where
  "enumdecl_ethtool_cmis_cdb_cmd_id = EnumDecl False [
     (''ETHTOOL_CMIS_CDB_CMD_QUERY_STATUS'', 0), (''ETHTOOL_CMIS_CDB_CMD_MODULE_FEATURES'', 64),
     (''ETHTOOL_CMIS_CDB_CMD_FW_MANAGMENT_FEATURES'', 65),
     (''ETHTOOL_CMIS_CDB_CMD_START_FW_DOWNLOAD'', 257),
     (''ETHTOOL_CMIS_CDB_CMD_WRITE_FW_BLOCK_LPL'', 259),
     (''ETHTOOL_CMIS_CDB_CMD_WRITE_FW_BLOCK_EPL'', 260),
     (''ETHTOOL_CMIS_CDB_CMD_COMPLETE_FW_DOWNLOAD'', 263),
     (''ETHTOOL_CMIS_CDB_CMD_RUN_FW_IMAGE'', 265),
     (''ETHTOOL_CMIS_CDB_CMD_COMMIT_FW_IMAGE'', 266)]"

definition enumdecl_ethtool_fec_config_bits :: cenum_decl where
  "enumdecl_ethtool_fec_config_bits = EnumDecl False [
     (''ETHTOOL_FEC_NONE_BIT'', 0), (''ETHTOOL_FEC_AUTO_BIT'', 1), (''ETHTOOL_FEC_OFF_BIT'', 2),
     (''ETHTOOL_FEC_RS_BIT'', 3), (''ETHTOOL_FEC_BASER_BIT'', 4), (''ETHTOOL_FEC_LLRS_BIT'', 5)]"

definition enumdecl_ethtool_flags :: cenum_decl where
  "enumdecl_ethtool_flags = EnumDecl False [
     (''ETH_FLAG_TXVLAN'', 128), (''ETH_FLAG_RXVLAN'', 256), (''ETH_FLAG_LRO'', 32768),
     (''ETH_FLAG_NTUPLE'', 134217728), (''ETH_FLAG_RXHASH'', 268435456)]"

definition enumdecl_ethtool_header_flags :: cenum_decl where
  "enumdecl_ethtool_header_flags = EnumDecl False [
     (''ETHTOOL_FLAG_COMPACT_BITSETS'', 1), (''ETHTOOL_FLAG_OMIT_REPLY'', 2),
     (''ETHTOOL_FLAG_STATS'', 4)]"

definition enumdecl_ethtool_link_ext_state :: cenum_decl where
  "enumdecl_ethtool_link_ext_state = EnumDecl False [
     (''ETHTOOL_LINK_EXT_STATE_AUTONEG'', 0),
     (''ETHTOOL_LINK_EXT_STATE_LINK_TRAINING_FAILURE'', 1),
     (''ETHTOOL_LINK_EXT_STATE_LINK_LOGICAL_MISMATCH'', 2),
     (''ETHTOOL_LINK_EXT_STATE_BAD_SIGNAL_INTEGRITY'', 3),
     (''ETHTOOL_LINK_EXT_STATE_NO_CABLE'', 4), (''ETHTOOL_LINK_EXT_STATE_CABLE_ISSUE'', 5),
     (''ETHTOOL_LINK_EXT_STATE_EEPROM_ISSUE'', 6),
     (''ETHTOOL_LINK_EXT_STATE_CALIBRATION_FAILURE'', 7),
     (''ETHTOOL_LINK_EXT_STATE_POWER_BUDGET_EXCEEDED'', 8),
     (''ETHTOOL_LINK_EXT_STATE_OVERHEAT'', 9), (''ETHTOOL_LINK_EXT_STATE_MODULE'', 10),
     (''ETHTOOL_LINK_EXT_STATE_OTP_SPEED_VIOLATION'', 11),
     (''ETHTOOL_LINK_EXT_STATE_BMC_REQUEST_DOWN'', 12)]"

definition enumdecl_ethtool_link_ext_substate_autoneg :: cenum_decl where
  "enumdecl_ethtool_link_ext_substate_autoneg = EnumDecl False [
     (''ETHTOOL_LINK_EXT_SUBSTATE_AN_NO_PARTNER_DETECTED'', 1),
     (''ETHTOOL_LINK_EXT_SUBSTATE_AN_ACK_NOT_RECEIVED'', 2),
     (''ETHTOOL_LINK_EXT_SUBSTATE_AN_NEXT_PAGE_EXCHANGE_FAILED'', 3),
     (''ETHTOOL_LINK_EXT_SUBSTATE_AN_NO_PARTNER_DETECTED_FORCE_MODE'', 4),
     (''ETHTOOL_LINK_EXT_SUBSTATE_AN_FEC_MISMATCH_DURING_OVERRIDE'', 5),
     (''ETHTOOL_LINK_EXT_SUBSTATE_AN_NO_HCD'', 6)]"

definition enumdecl_ethtool_link_ext_substate_bad_signal_integrity :: cenum_decl where
  "enumdecl_ethtool_link_ext_substate_bad_signal_integrity = EnumDecl False [
     (''ETHTOOL_LINK_EXT_SUBSTATE_BSI_LARGE_NUMBER_OF_PHYSICAL_ERRORS'', 1),
     (''ETHTOOL_LINK_EXT_SUBSTATE_BSI_UNSUPPORTED_RATE'', 2),
     (''ETHTOOL_LINK_EXT_SUBSTATE_BSI_SERDES_REFERENCE_CLOCK_LOST'', 3),
     (''ETHTOOL_LINK_EXT_SUBSTATE_BSI_SERDES_ALOS'', 4)]"

definition enumdecl_ethtool_link_ext_substate_cable_issue :: cenum_decl where
  "enumdecl_ethtool_link_ext_substate_cable_issue = EnumDecl False [
     (''ETHTOOL_LINK_EXT_SUBSTATE_CI_UNSUPPORTED_CABLE'', 1),
     (''ETHTOOL_LINK_EXT_SUBSTATE_CI_CABLE_TEST_FAILURE'', 2)]"

definition enumdecl_ethtool_link_ext_substate_link_logical_mismatch :: cenum_decl where
  "enumdecl_ethtool_link_ext_substate_link_logical_mismatch = EnumDecl False [
     (''ETHTOOL_LINK_EXT_SUBSTATE_LLM_PCS_DID_NOT_ACQUIRE_BLOCK_LOCK'', 1),
     (''ETHTOOL_LINK_EXT_SUBSTATE_LLM_PCS_DID_NOT_ACQUIRE_AM_LOCK'', 2),
     (''ETHTOOL_LINK_EXT_SUBSTATE_LLM_PCS_DID_NOT_GET_ALIGN_STATUS'', 3),
     (''ETHTOOL_LINK_EXT_SUBSTATE_LLM_FC_FEC_IS_NOT_LOCKED'', 4),
     (''ETHTOOL_LINK_EXT_SUBSTATE_LLM_RS_FEC_IS_NOT_LOCKED'', 5)]"

definition enumdecl_ethtool_link_ext_substate_link_training :: cenum_decl where
  "enumdecl_ethtool_link_ext_substate_link_training = EnumDecl False [
     (''ETHTOOL_LINK_EXT_SUBSTATE_LT_KR_FRAME_LOCK_NOT_ACQUIRED'', 1),
     (''ETHTOOL_LINK_EXT_SUBSTATE_LT_KR_LINK_INHIBIT_TIMEOUT'', 2),
     (''ETHTOOL_LINK_EXT_SUBSTATE_LT_KR_LINK_PARTNER_DID_NOT_SET_RECEIVER_READY'', 3),
     (''ETHTOOL_LINK_EXT_SUBSTATE_LT_REMOTE_FAULT'', 4)]"

definition enumdecl_ethtool_link_ext_substate_module :: cenum_decl where
  "enumdecl_ethtool_link_ext_substate_module = EnumDecl False [
     (''ETHTOOL_LINK_EXT_SUBSTATE_MODULE_CMIS_NOT_READY'', 1)]"

definition enumdecl_ethtool_link_medium :: cenum_decl where
  "enumdecl_ethtool_link_medium = EnumDecl False [
     (''ETHTOOL_LINK_MEDIUM_BASET'', 0), (''ETHTOOL_LINK_MEDIUM_BASEK'', 1),
     (''ETHTOOL_LINK_MEDIUM_BASES'', 2), (''ETHTOOL_LINK_MEDIUM_BASEC'', 3),
     (''ETHTOOL_LINK_MEDIUM_BASEL'', 4), (''ETHTOOL_LINK_MEDIUM_BASED'', 5),
     (''ETHTOOL_LINK_MEDIUM_BASEE'', 6), (''ETHTOOL_LINK_MEDIUM_BASEF'', 7),
     (''ETHTOOL_LINK_MEDIUM_BASEV'', 8), (''ETHTOOL_LINK_MEDIUM_BASEMLD'', 9),
     (''ETHTOOL_LINK_MEDIUM_NONE'', 10), (''__ETHTOOL_LINK_MEDIUM_LAST'', 11)]"

definition enumdecl_ethtool_link_mode_bit_indices :: cenum_decl where
  "enumdecl_ethtool_link_mode_bit_indices = EnumDecl False [
     (''ETHTOOL_LINK_MODE_10baseT_Half_BIT'', 0), (''ETHTOOL_LINK_MODE_10baseT_Full_BIT'', 1),
     (''ETHTOOL_LINK_MODE_100baseT_Half_BIT'', 2), (''ETHTOOL_LINK_MODE_100baseT_Full_BIT'', 3),
     (''ETHTOOL_LINK_MODE_1000baseT_Half_BIT'', 4),
     (''ETHTOOL_LINK_MODE_1000baseT_Full_BIT'', 5), (''ETHTOOL_LINK_MODE_Autoneg_BIT'', 6),
     (''ETHTOOL_LINK_MODE_TP_BIT'', 7), (''ETHTOOL_LINK_MODE_AUI_BIT'', 8),
     (''ETHTOOL_LINK_MODE_MII_BIT'', 9), (''ETHTOOL_LINK_MODE_FIBRE_BIT'', 10),
     (''ETHTOOL_LINK_MODE_BNC_BIT'', 11), (''ETHTOOL_LINK_MODE_10000baseT_Full_BIT'', 12),
     (''ETHTOOL_LINK_MODE_Pause_BIT'', 13), (''ETHTOOL_LINK_MODE_Asym_Pause_BIT'', 14),
     (''ETHTOOL_LINK_MODE_2500baseX_Full_BIT'', 15), (''ETHTOOL_LINK_MODE_Backplane_BIT'', 16),
     (''ETHTOOL_LINK_MODE_1000baseKX_Full_BIT'', 17),
     (''ETHTOOL_LINK_MODE_10000baseKX4_Full_BIT'', 18),
     (''ETHTOOL_LINK_MODE_10000baseKR_Full_BIT'', 19),
     (''ETHTOOL_LINK_MODE_10000baseR_FEC_BIT'', 20),
     (''ETHTOOL_LINK_MODE_20000baseMLD2_Full_BIT'', 21),
     (''ETHTOOL_LINK_MODE_20000baseKR2_Full_BIT'', 22),
     (''ETHTOOL_LINK_MODE_40000baseKR4_Full_BIT'', 23),
     (''ETHTOOL_LINK_MODE_40000baseCR4_Full_BIT'', 24),
     (''ETHTOOL_LINK_MODE_40000baseSR4_Full_BIT'', 25),
     (''ETHTOOL_LINK_MODE_40000baseLR4_Full_BIT'', 26),
     (''ETHTOOL_LINK_MODE_56000baseKR4_Full_BIT'', 27),
     (''ETHTOOL_LINK_MODE_56000baseCR4_Full_BIT'', 28),
     (''ETHTOOL_LINK_MODE_56000baseSR4_Full_BIT'', 29),
     (''ETHTOOL_LINK_MODE_56000baseLR4_Full_BIT'', 30),
     (''ETHTOOL_LINK_MODE_25000baseCR_Full_BIT'', 31),
     (''ETHTOOL_LINK_MODE_25000baseKR_Full_BIT'', 32),
     (''ETHTOOL_LINK_MODE_25000baseSR_Full_BIT'', 33),
     (''ETHTOOL_LINK_MODE_50000baseCR2_Full_BIT'', 34),
     (''ETHTOOL_LINK_MODE_50000baseKR2_Full_BIT'', 35),
     (''ETHTOOL_LINK_MODE_100000baseKR4_Full_BIT'', 36),
     (''ETHTOOL_LINK_MODE_100000baseSR4_Full_BIT'', 37),
     (''ETHTOOL_LINK_MODE_100000baseCR4_Full_BIT'', 38),
     (''ETHTOOL_LINK_MODE_100000baseLR4_ER4_Full_BIT'', 39),
     (''ETHTOOL_LINK_MODE_50000baseSR2_Full_BIT'', 40),
     (''ETHTOOL_LINK_MODE_1000baseX_Full_BIT'', 41),
     (''ETHTOOL_LINK_MODE_10000baseCR_Full_BIT'', 42),
     (''ETHTOOL_LINK_MODE_10000baseSR_Full_BIT'', 43),
     (''ETHTOOL_LINK_MODE_10000baseLR_Full_BIT'', 44),
     (''ETHTOOL_LINK_MODE_10000baseLRM_Full_BIT'', 45),
     (''ETHTOOL_LINK_MODE_10000baseER_Full_BIT'', 46),
     (''ETHTOOL_LINK_MODE_2500baseT_Full_BIT'', 47),
     (''ETHTOOL_LINK_MODE_5000baseT_Full_BIT'', 48), (''ETHTOOL_LINK_MODE_FEC_NONE_BIT'', 49),
     (''ETHTOOL_LINK_MODE_FEC_RS_BIT'', 50), (''ETHTOOL_LINK_MODE_FEC_BASER_BIT'', 51),
     (''ETHTOOL_LINK_MODE_50000baseKR_Full_BIT'', 52),
     (''ETHTOOL_LINK_MODE_50000baseSR_Full_BIT'', 53),
     (''ETHTOOL_LINK_MODE_50000baseCR_Full_BIT'', 54),
     (''ETHTOOL_LINK_MODE_50000baseLR_ER_FR_Full_BIT'', 55),
     (''ETHTOOL_LINK_MODE_50000baseDR_Full_BIT'', 56),
     (''ETHTOOL_LINK_MODE_100000baseKR2_Full_BIT'', 57),
     (''ETHTOOL_LINK_MODE_100000baseSR2_Full_BIT'', 58),
     (''ETHTOOL_LINK_MODE_100000baseCR2_Full_BIT'', 59),
     (''ETHTOOL_LINK_MODE_100000baseLR2_ER2_FR2_Full_BIT'', 60),
     (''ETHTOOL_LINK_MODE_100000baseDR2_Full_BIT'', 61),
     (''ETHTOOL_LINK_MODE_200000baseKR4_Full_BIT'', 62),
     (''ETHTOOL_LINK_MODE_200000baseSR4_Full_BIT'', 63),
     (''ETHTOOL_LINK_MODE_200000baseLR4_ER4_FR4_Full_BIT'', 64),
     (''ETHTOOL_LINK_MODE_200000baseDR4_Full_BIT'', 65),
     (''ETHTOOL_LINK_MODE_200000baseCR4_Full_BIT'', 66),
     (''ETHTOOL_LINK_MODE_100baseT1_Full_BIT'', 67),
     (''ETHTOOL_LINK_MODE_1000baseT1_Full_BIT'', 68),
     (''ETHTOOL_LINK_MODE_400000baseKR8_Full_BIT'', 69),
     (''ETHTOOL_LINK_MODE_400000baseSR8_Full_BIT'', 70),
     (''ETHTOOL_LINK_MODE_400000baseLR8_ER8_FR8_Full_BIT'', 71),
     (''ETHTOOL_LINK_MODE_400000baseDR8_Full_BIT'', 72),
     (''ETHTOOL_LINK_MODE_400000baseCR8_Full_BIT'', 73),
     (''ETHTOOL_LINK_MODE_FEC_LLRS_BIT'', 74), (''ETHTOOL_LINK_MODE_100000baseKR_Full_BIT'', 75),
     (''ETHTOOL_LINK_MODE_100000baseSR_Full_BIT'', 76),
     (''ETHTOOL_LINK_MODE_100000baseLR_ER_FR_Full_BIT'', 77),
     (''ETHTOOL_LINK_MODE_100000baseCR_Full_BIT'', 78),
     (''ETHTOOL_LINK_MODE_100000baseDR_Full_BIT'', 79),
     (''ETHTOOL_LINK_MODE_200000baseKR2_Full_BIT'', 80),
     (''ETHTOOL_LINK_MODE_200000baseSR2_Full_BIT'', 81),
     (''ETHTOOL_LINK_MODE_200000baseLR2_ER2_FR2_Full_BIT'', 82),
     (''ETHTOOL_LINK_MODE_200000baseDR2_Full_BIT'', 83),
     (''ETHTOOL_LINK_MODE_200000baseCR2_Full_BIT'', 84),
     (''ETHTOOL_LINK_MODE_400000baseKR4_Full_BIT'', 85),
     (''ETHTOOL_LINK_MODE_400000baseSR4_Full_BIT'', 86),
     (''ETHTOOL_LINK_MODE_400000baseLR4_ER4_FR4_Full_BIT'', 87),
     (''ETHTOOL_LINK_MODE_400000baseDR4_Full_BIT'', 88),
     (''ETHTOOL_LINK_MODE_400000baseCR4_Full_BIT'', 89),
     (''ETHTOOL_LINK_MODE_100baseFX_Half_BIT'', 90),
     (''ETHTOOL_LINK_MODE_100baseFX_Full_BIT'', 91),
     (''ETHTOOL_LINK_MODE_10baseT1L_Full_BIT'', 92),
     (''ETHTOOL_LINK_MODE_800000baseCR8_Full_BIT'', 93),
     (''ETHTOOL_LINK_MODE_800000baseKR8_Full_BIT'', 94),
     (''ETHTOOL_LINK_MODE_800000baseDR8_Full_BIT'', 95),
     (''ETHTOOL_LINK_MODE_800000baseDR8_2_Full_BIT'', 96),
     (''ETHTOOL_LINK_MODE_800000baseSR8_Full_BIT'', 97),
     (''ETHTOOL_LINK_MODE_800000baseVR8_Full_BIT'', 98),
     (''ETHTOOL_LINK_MODE_10baseT1S_Full_BIT'', 99),
     (''ETHTOOL_LINK_MODE_10baseT1S_Half_BIT'', 100),
     (''ETHTOOL_LINK_MODE_10baseT1S_P2MP_Half_BIT'', 101),
     (''ETHTOOL_LINK_MODE_10baseT1BRR_Full_BIT'', 102),
     (''ETHTOOL_LINK_MODE_200000baseCR_Full_BIT'', 103),
     (''ETHTOOL_LINK_MODE_200000baseKR_Full_BIT'', 104),
     (''ETHTOOL_LINK_MODE_200000baseDR_Full_BIT'', 105),
     (''ETHTOOL_LINK_MODE_200000baseDR_2_Full_BIT'', 106),
     (''ETHTOOL_LINK_MODE_200000baseSR_Full_BIT'', 107),
     (''ETHTOOL_LINK_MODE_200000baseVR_Full_BIT'', 108),
     (''ETHTOOL_LINK_MODE_400000baseCR2_Full_BIT'', 109),
     (''ETHTOOL_LINK_MODE_400000baseKR2_Full_BIT'', 110),
     (''ETHTOOL_LINK_MODE_400000baseDR2_Full_BIT'', 111),
     (''ETHTOOL_LINK_MODE_400000baseDR2_2_Full_BIT'', 112),
     (''ETHTOOL_LINK_MODE_400000baseSR2_Full_BIT'', 113),
     (''ETHTOOL_LINK_MODE_400000baseVR2_Full_BIT'', 114),
     (''ETHTOOL_LINK_MODE_800000baseCR4_Full_BIT'', 115),
     (''ETHTOOL_LINK_MODE_800000baseKR4_Full_BIT'', 116),
     (''ETHTOOL_LINK_MODE_800000baseDR4_Full_BIT'', 117),
     (''ETHTOOL_LINK_MODE_800000baseDR4_2_Full_BIT'', 118),
     (''ETHTOOL_LINK_MODE_800000baseSR4_Full_BIT'', 119),
     (''ETHTOOL_LINK_MODE_800000baseVR4_Full_BIT'', 120),
     (''ETHTOOL_LINK_MODE_1600000baseCR8_Full_BIT'', 121),
     (''ETHTOOL_LINK_MODE_1600000baseKR8_Full_BIT'', 122),
     (''ETHTOOL_LINK_MODE_1600000baseDR8_Full_BIT'', 123),
     (''ETHTOOL_LINK_MODE_1600000baseDR8_2_Full_BIT'', 124),
     (''__ETHTOOL_LINK_MODE_MASK_NBITS'', 125)]"

definition enumdecl_ethtool_mac_stats_src :: cenum_decl where
  "enumdecl_ethtool_mac_stats_src = EnumDecl False [
     (''ETHTOOL_MAC_STATS_SRC_AGGREGATE'', 0), (''ETHTOOL_MAC_STATS_SRC_EMAC'', 1),
     (''ETHTOOL_MAC_STATS_SRC_PMAC'', 2)]"

definition enumdecl_ethtool_mm_verify_status :: cenum_decl where
  "enumdecl_ethtool_mm_verify_status = EnumDecl False [
     (''ETHTOOL_MM_VERIFY_STATUS_UNKNOWN'', 0), (''ETHTOOL_MM_VERIFY_STATUS_INITIAL'', 1),
     (''ETHTOOL_MM_VERIFY_STATUS_VERIFYING'', 2), (''ETHTOOL_MM_VERIFY_STATUS_SUCCEEDED'', 3),
     (''ETHTOOL_MM_VERIFY_STATUS_FAILED'', 4), (''ETHTOOL_MM_VERIFY_STATUS_DISABLED'', 5)]"

definition enumdecl_ethtool_mmsv_event :: cenum_decl where
  "enumdecl_ethtool_mmsv_event = EnumDecl False [
     (''ETHTOOL_MMSV_LP_SENT_VERIFY_MPACKET'', 0), (''ETHTOOL_MMSV_LD_SENT_VERIFY_MPACKET'', 1),
     (''ETHTOOL_MMSV_LP_SENT_RESPONSE_MPACKET'', 2)]"

definition enumdecl_ethtool_module_fw_flash_status :: cenum_decl where
  "enumdecl_ethtool_module_fw_flash_status = EnumDecl False [
     (''ETHTOOL_MODULE_FW_FLASH_STATUS_STARTED'', 1),
     (''ETHTOOL_MODULE_FW_FLASH_STATUS_IN_PROGRESS'', 2),
     (''ETHTOOL_MODULE_FW_FLASH_STATUS_COMPLETED'', 3),
     (''ETHTOOL_MODULE_FW_FLASH_STATUS_ERROR'', 4)]"

definition enumdecl_ethtool_module_power_mode :: cenum_decl where
  "enumdecl_ethtool_module_power_mode = EnumDecl False [
     (''ETHTOOL_MODULE_POWER_MODE_LOW'', 1), (''ETHTOOL_MODULE_POWER_MODE_HIGH'', 2)]"

definition enumdecl_ethtool_module_power_mode_policy :: cenum_decl where
  "enumdecl_ethtool_module_power_mode_policy = EnumDecl False [
     (''ETHTOOL_MODULE_POWER_MODE_POLICY_HIGH'', 1),
     (''ETHTOOL_MODULE_POWER_MODE_POLICY_AUTO'', 2)]"

definition enumdecl_ethtool_mpacket :: cenum_decl where
  "enumdecl_ethtool_mpacket = EnumDecl False [
     (''ETHTOOL_MPACKET_VERIFY'', 0), (''ETHTOOL_MPACKET_RESPONSE'', 1)]"

definition enumdecl_ethtool_multicast_groups :: cenum_decl where
  "enumdecl_ethtool_multicast_groups = EnumDecl False [
     (''ETHNL_MCGRP_MONITOR'', 0)]"

definition enumdecl_ethtool_phys_id_state :: cenum_decl where
  "enumdecl_ethtool_phys_id_state = EnumDecl False [
     (''ETHTOOL_ID_INACTIVE'', 0), (''ETHTOOL_ID_ACTIVE'', 1), (''ETHTOOL_ID_ON'', 2),
     (''ETHTOOL_ID_OFF'', 3)]"

definition enumdecl_ethtool_podl_pse_admin_state :: cenum_decl where
  "enumdecl_ethtool_podl_pse_admin_state = EnumDecl False [
     (''ETHTOOL_PODL_PSE_ADMIN_STATE_UNKNOWN'', 1),
     (''ETHTOOL_PODL_PSE_ADMIN_STATE_DISABLED'', 2),
     (''ETHTOOL_PODL_PSE_ADMIN_STATE_ENABLED'', 3)]"

definition enumdecl_ethtool_podl_pse_pw_d_status :: cenum_decl where
  "enumdecl_ethtool_podl_pse_pw_d_status = EnumDecl False [
     (''ETHTOOL_PODL_PSE_PW_D_STATUS_UNKNOWN'', 1),
     (''ETHTOOL_PODL_PSE_PW_D_STATUS_DISABLED'', 2),
     (''ETHTOOL_PODL_PSE_PW_D_STATUS_SEARCHING'', 3),
     (''ETHTOOL_PODL_PSE_PW_D_STATUS_DELIVERING'', 4),
     (''ETHTOOL_PODL_PSE_PW_D_STATUS_SLEEP'', 5), (''ETHTOOL_PODL_PSE_PW_D_STATUS_IDLE'', 6),
     (''ETHTOOL_PODL_PSE_PW_D_STATUS_ERROR'', 7)]"

definition enumdecl_ethtool_pse_event :: cenum_decl where
  "enumdecl_ethtool_pse_event = EnumDecl False [
     (''ETHTOOL_PSE_EVENT_OVER_CURRENT'', 1), (''ETHTOOL_PSE_EVENT_OVER_TEMP'', 2),
     (''ETHTOOL_C33_PSE_EVENT_DETECTION'', 4), (''ETHTOOL_C33_PSE_EVENT_CLASSIFICATION'', 8),
     (''ETHTOOL_C33_PSE_EVENT_DISCONNECTION'', 16), (''ETHTOOL_PSE_EVENT_OVER_BUDGET'', 32),
     (''ETHTOOL_PSE_EVENT_SW_PW_CONTROL_ERROR'', 64)]"

definition enumdecl_ethtool_pse_types :: cenum_decl where
  "enumdecl_ethtool_pse_types = EnumDecl False [
     (''ETHTOOL_PSE_UNKNOWN'', 1), (''ETHTOOL_PSE_PODL'', 2), (''ETHTOOL_PSE_C33'', 4)]"

definition enumdecl_ethtool_reset_flags :: cenum_decl where
  "enumdecl_ethtool_reset_flags = EnumDecl False [
     (''ETH_RESET_MGMT'', 1), (''ETH_RESET_IRQ'', 2), (''ETH_RESET_DMA'', 4),
     (''ETH_RESET_FILTER'', 8), (''ETH_RESET_OFFLOAD'', 16), (''ETH_RESET_MAC'', 32),
     (''ETH_RESET_PHY'', 64), (''ETH_RESET_RAM'', 128), (''ETH_RESET_AP'', 256),
     (''ETH_RESET_DEDICATED'', 65535), (''ETH_RESET_ALL'', 4294967295)]"

lemma enumdecl_ethtool_reset_flags_4: "enum4 enumdecl_ethtool_reset_flags"
  by (unfold enumdecl_ethtool_reset_flags_def) (intro enum_uint_intros; simp)

definition enumdecl_ethtool_sfeatures_retval_bits :: cenum_decl where
  "enumdecl_ethtool_sfeatures_retval_bits = EnumDecl False [
     (''ETHTOOL_F_UNSUPPORTED__BIT'', 0), (''ETHTOOL_F_WISH__BIT'', 1),
     (''ETHTOOL_F_COMPAT__BIT'', 2)]"

definition enumdecl_ethtool_stringset :: cenum_decl where
  "enumdecl_ethtool_stringset = EnumDecl False [
     (''ETH_SS_TEST'', 0), (''ETH_SS_STATS'', 1), (''ETH_SS_PRIV_FLAGS'', 2),
     (''ETH_SS_NTUPLE_FILTERS'', 3), (''ETH_SS_FEATURES'', 4), (''ETH_SS_RSS_HASH_FUNCS'', 5),
     (''ETH_SS_TUNABLES'', 6), (''ETH_SS_PHY_STATS'', 7), (''ETH_SS_PHY_TUNABLES'', 8),
     (''ETH_SS_LINK_MODES'', 9), (''ETH_SS_MSG_CLASSES'', 10), (''ETH_SS_WOL_MODES'', 11),
     (''ETH_SS_SOF_TIMESTAMPING'', 12), (''ETH_SS_TS_TX_TYPES'', 13),
     (''ETH_SS_TS_RX_FILTERS'', 14), (''ETH_SS_UDP_TUNNEL_TYPES'', 15),
     (''ETH_SS_STATS_STD'', 16), (''ETH_SS_STATS_ETH_PHY'', 17), (''ETH_SS_STATS_ETH_MAC'', 18),
     (''ETH_SS_STATS_ETH_CTRL'', 19), (''ETH_SS_STATS_RMON'', 20), (''ETH_SS_STATS_PHY'', 21),
     (''ETH_SS_TS_FLAGS'', 22), (''ETH_SS_COUNT'', 23)]"

definition enumdecl_ethtool_supported_ring_param :: cenum_decl where
  "enumdecl_ethtool_supported_ring_param = EnumDecl False [
     (''ETHTOOL_RING_USE_RX_BUF_LEN'', 1), (''ETHTOOL_RING_USE_CQE_SIZE'', 2),
     (''ETHTOOL_RING_USE_TX_PUSH'', 4), (''ETHTOOL_RING_USE_RX_PUSH'', 8),
     (''ETHTOOL_RING_USE_TX_PUSH_BUF_LEN'', 16), (''ETHTOOL_RING_USE_TCP_DATA_SPLIT'', 32),
     (''ETHTOOL_RING_USE_HDS_THRS'', 64)]"

definition enumdecl_ethtool_tcp_data_split :: cenum_decl where
  "enumdecl_ethtool_tcp_data_split = EnumDecl False [
     (''ETHTOOL_TCP_DATA_SPLIT_UNKNOWN'', 0), (''ETHTOOL_TCP_DATA_SPLIT_DISABLED'', 1),
     (''ETHTOOL_TCP_DATA_SPLIT_ENABLED'', 2)]"

definition enumdecl_ethtool_test_flags :: cenum_decl where
  "enumdecl_ethtool_test_flags = EnumDecl False [
     (''ETH_TEST_FL_OFFLINE'', 1), (''ETH_TEST_FL_FAILED'', 2), (''ETH_TEST_FL_EXTERNAL_LB'', 4),
     (''ETH_TEST_FL_EXTERNAL_LB_DONE'', 8)]"

definition enumdecl_event_command_flags :: cenum_decl where
  "enumdecl_event_command_flags = EnumDecl False [
     (''EVENT_CMD_FL_POST_TRIGGER'', 1), (''EVENT_CMD_FL_NEEDS_REC'', 2)]"

definition enumdecl_event_trigger_type :: cenum_decl where
  "enumdecl_event_trigger_type = EnumDecl False [
     (''ETT_NONE'', 0), (''ETT_TRACE_ONOFF'', 1), (''ETT_SNAPSHOT'', 2), (''ETT_STACKTRACE'', 4),
     (''ETT_EVENT_ENABLE'', 8), (''ETT_EVENT_HIST'', 16), (''ETT_HIST_ENABLE'', 32),
     (''ETT_EVENT_EPROBE'', 64)]"

definition enumdecl_event_type_t :: cenum_decl where
  "enumdecl_event_type_t = EnumDecl False [
     (''EVENT_FLEXIBLE'', 1), (''EVENT_PINNED'', 2), (''EVENT_TIME'', 4), (''EVENT_FROZEN'', 8),
     (''EVENT_CPU'', 16), (''EVENT_CGROUP'', 32), (''EVENT_GUEST'', 64), (''EVENT_FLAGS'', 96),
     (''EVENT_ALL'', 3), (''EVENT_TIME_FROZEN'', 12)]"

definition enumdecl_events_wwnr :: cenum_decl where
  "enumdecl_events_wwnr = EnumDecl False [
     (''switch_in_wwnr'', 0), (''switch_out_wwnr'', 1), (''wakeup_wwnr'', 2),
     (''event_max_wwnr'', 3)]"

definition enumdecl_evm_ima_xattr_type :: cenum_decl where
  "enumdecl_evm_ima_xattr_type = EnumDecl False [
     (''IMA_XATTR_DIGEST'', 1), (''EVM_XATTR_HMAC'', 2), (''EVM_IMA_XATTR_DIGSIG'', 3),
     (''IMA_XATTR_DIGEST_NG'', 4), (''EVM_XATTR_PORTABLE_DIGSIG'', 5),
     (''IMA_VERITY_DIGSIG'', 6), (''IMA_XATTR_LAST'', 7)]"

definition enumdecl_evtreturn :: cenum_decl where
  "enumdecl_evtreturn = EnumDecl False [
     (''EVT_ERR'', - 1), (''EVT_DONE'', 0), (''EVT_XFER_DONE'', 1), (''EVT_GSER'', 2),
     (''EVT_DISC'', 3)]"

definition enumdecl_exact_level :: cenum_decl where
  "enumdecl_exact_level = EnumDecl False [
     (''NOT_EXACT'', 0), (''EXACT'', 1), (''RANGE_WITHIN'', 2)]"

definition enumdecl_exception :: cenum_decl where
  "enumdecl_exception = EnumDecl False [
     (''EXCP_CONTEXT'', 1), (''NO_EXCP'', 2)]"

definition enumdecl_exception_stack_ordering :: cenum_decl where
  "enumdecl_exception_stack_ordering = EnumDecl False [
     (''ESTACK_DF'', 0), (''ESTACK_NMI'', 1), (''ESTACK_DB'', 2), (''ESTACK_MCE'', 3),
     (''ESTACK_VC'', 4), (''ESTACK_VC2'', 5), (''N_EXCEPTION_STACKS'', 6)]"

definition enumdecl_execmem_range_flags :: cenum_decl where
  "enumdecl_execmem_range_flags = EnumDecl False [
     (''EXECMEM_KASAN_SHADOW'', 1), (''EXECMEM_ROX_CACHE'', 2)]"

definition enumdecl_execmem_type :: cenum_decl where
  "enumdecl_execmem_type = EnumDecl False [
     (''EXECMEM_DEFAULT'', 0), (''EXECMEM_MODULE_TEXT'', 0), (''EXECMEM_KPROBES'', 1),
     (''EXECMEM_FTRACE'', 2), (''EXECMEM_BPF'', 3), (''EXECMEM_MODULE_DATA'', 4),
     (''EXECMEM_TYPE_MAX'', 5)]"

definition enumdecl_exit_fastpath_completion :: cenum_decl where
  "enumdecl_exit_fastpath_completion = EnumDecl False [
     (''EXIT_FASTPATH_NONE'', 0), (''EXIT_FASTPATH_REENTER_GUEST'', 1),
     (''EXIT_FASTPATH_EXIT_HANDLED'', 2), (''EXIT_FASTPATH_EXIT_USERSPACE'', 3)]"

definition enumdecl_ext4_journal_trigger_type :: cenum_decl where
  "enumdecl_ext4_journal_trigger_type = EnumDecl False [
     (''EXT4_JTR_ORPHAN_FILE'', 0), (''EXT4_JTR_NONE'', 1)]"

definition enumdecl_ext4_li_mode :: cenum_decl where
  "enumdecl_ext4_li_mode = EnumDecl False [
     (''EXT4_LI_MODE_PREFETCH_BBITMAP'', 0), (''EXT4_LI_MODE_ITABLE'', 1)]"

definition enumdecl_extra_reg_type :: cenum_decl where
  "enumdecl_extra_reg_type = EnumDecl False [
     (''EXTRA_REG_NONE'', - 1), (''EXTRA_REG_RSP_0'', 0), (''EXTRA_REG_RSP_1'', 1),
     (''EXTRA_REG_LBR'', 2), (''EXTRA_REG_LDLAT'', 3), (''EXTRA_REG_FE'', 4),
     (''EXTRA_REG_SNOOP_0'', 5), (''EXTRA_REG_SNOOP_1'', 6), (''EXTRA_REG_OMR_0'', 7),
     (''EXTRA_REG_OMR_1'', 8), (''EXTRA_REG_OMR_2'', 9), (''EXTRA_REG_OMR_3'', 10),
     (''EXTRA_REG_MAX'', 11)]"

definition enumdecl_fail_dup_mod_reason :: cenum_decl where
  "enumdecl_fail_dup_mod_reason = EnumDecl False [
     (''FAIL_DUP_MOD_BECOMING'', 0), (''FAIL_DUP_MOD_LOAD'', 1)]"

definition enumdecl_fanotify_event_type :: cenum_decl where
  "enumdecl_fanotify_event_type = EnumDecl False [
     (''FANOTIFY_EVENT_TYPE_FID'', 0), (''FANOTIFY_EVENT_TYPE_FID_NAME'', 1),
     (''FANOTIFY_EVENT_TYPE_PATH'', 2), (''FANOTIFY_EVENT_TYPE_PATH_PERM'', 3),
     (''FANOTIFY_EVENT_TYPE_OVERFLOW'', 4), (''FANOTIFY_EVENT_TYPE_FS_ERROR'', 5),
     (''FANOTIFY_EVENT_TYPE_MNT'', 6), (''__FANOTIFY_EVENT_TYPE_NUM'', 7)]"

definition enumdecl_fault_flag :: cenum_decl where
  "enumdecl_fault_flag = EnumDecl False [
     (''FAULT_FLAG_WRITE'', 1), (''FAULT_FLAG_MKWRITE'', 2), (''FAULT_FLAG_ALLOW_RETRY'', 4),
     (''FAULT_FLAG_RETRY_NOWAIT'', 8), (''FAULT_FLAG_KILLABLE'', 16), (''FAULT_FLAG_TRIED'', 32),
     (''FAULT_FLAG_USER'', 64), (''FAULT_FLAG_REMOTE'', 128), (''FAULT_FLAG_INSTRUCTION'', 256),
     (''FAULT_FLAG_INTERRUPTIBLE'', 512), (''FAULT_FLAG_UNSHARE'', 1024),
     (''FAULT_FLAG_ORIG_PTE_VALID'', 2048), (''FAULT_FLAG_VMA_LOCK'', 4096)]"

definition enumdecl_fault_flags :: cenum_decl where
  "enumdecl_fault_flags = EnumDecl False [
     (''FAULT_NOWARN'', 1)]"

definition enumdecl_faulttype :: cenum_decl where
  "enumdecl_faulttype = EnumDecl False [
     (''DMA_REMAP'', 0), (''INTR_REMAP'', 1), (''UNKNOWN'', 2)]"

definition enumdecl_fbq_type :: cenum_decl where
  "enumdecl_fbq_type = EnumDecl False [
     (''regular'', 0), (''remote'', 1), (''all'', 2)]"

definition enumdecl_fetch_op :: cenum_decl where
  "enumdecl_fetch_op = EnumDecl False [
     (''FETCH_OP_NOP'', 0), (''FETCH_OP_REG'', 1), (''FETCH_OP_STACK'', 2),
     (''FETCH_OP_STACKP'', 3), (''FETCH_OP_RETVAL'', 4), (''FETCH_OP_IMM'', 5),
     (''FETCH_OP_COMM'', 6), (''FETCH_OP_ARG'', 7), (''FETCH_OP_FOFFS'', 8),
     (''FETCH_OP_DATA'', 9), (''FETCH_OP_EDATA'', 10), (''FETCH_OP_DEREF'', 11),
     (''FETCH_OP_UDEREF'', 12), (''FETCH_OP_ST_RAW'', 13), (''FETCH_OP_ST_MEM'', 14),
     (''FETCH_OP_ST_UMEM'', 15), (''FETCH_OP_ST_STRING'', 16), (''FETCH_OP_ST_USTRING'', 17),
     (''FETCH_OP_ST_SYMSTR'', 18), (''FETCH_OP_ST_EDATA'', 19), (''FETCH_OP_MOD_BF'', 20),
     (''FETCH_OP_LP_ARRAY'', 21), (''FETCH_OP_TP_ARG'', 22), (''FETCH_OP_END'', 23),
     (''FETCH_NOP_SYMBOL'', 24)]"

definition enumdecl_fib6_walk_state :: cenum_decl where
  "enumdecl_fib6_walk_state = EnumDecl False [
     (''FWS_S'', 0), (''FWS_L'', 1), (''FWS_R'', 2), (''FWS_C'', 3), (''FWS_U'', 4)]"

definition enumdecl_fib_event_type :: cenum_decl where
  "enumdecl_fib_event_type = EnumDecl False [
     (''FIB_EVENT_ENTRY_REPLACE'', 0), (''FIB_EVENT_ENTRY_APPEND'', 1),
     (''FIB_EVENT_ENTRY_ADD'', 2), (''FIB_EVENT_ENTRY_DEL'', 3), (''FIB_EVENT_RULE_ADD'', 4),
     (''FIB_EVENT_RULE_DEL'', 5), (''FIB_EVENT_NH_ADD'', 6), (''FIB_EVENT_NH_DEL'', 7),
     (''FIB_EVENT_VIF_ADD'', 8), (''FIB_EVENT_VIF_DEL'', 9)]"

definition enumdecl_fid_type :: cenum_decl where
  "enumdecl_fid_type = EnumDecl False [
     (''FILEID_ROOT'', 0), (''FILEID_INO32_GEN'', 1), (''FILEID_INO32_GEN_PARENT'', 2),
     (''FILEID_BTRFS_WITHOUT_PARENT'', 77), (''FILEID_BTRFS_WITH_PARENT'', 78),
     (''FILEID_BTRFS_WITH_PARENT_ROOT'', 79), (''FILEID_UDF_WITHOUT_PARENT'', 81),
     (''FILEID_UDF_WITH_PARENT'', 82), (''FILEID_NILFS_WITHOUT_PARENT'', 97),
     (''FILEID_NILFS_WITH_PARENT'', 98), (''FILEID_FAT_WITHOUT_PARENT'', 113),
     (''FILEID_FAT_WITH_PARENT'', 114), (''FILEID_INO64_GEN'', 129),
     (''FILEID_INO64_GEN_PARENT'', 130), (''FILEID_LUSTRE'', 151),
     (''FILEID_BCACHEFS_WITHOUT_PARENT'', 177), (''FILEID_BCACHEFS_WITH_PARENT'', 178),
     (''FILEID_NSFS'', 241), (''FILEID_KERNFS'', 254), (''FILEID_INVALID'', 255)]"

definition enumdecl_field_op_id :: cenum_decl where
  "enumdecl_field_op_id = EnumDecl False [
     (''FIELD_OP_NONE'', 0), (''FIELD_OP_PLUS'', 1), (''FIELD_OP_MINUS'', 2),
     (''FIELD_OP_UNARY_MINUS'', 3), (''FIELD_OP_DIV'', 4), (''FIELD_OP_MULT'', 5)]"

definition enumdecl_filter_op_ids :: cenum_decl where
  "enumdecl_filter_op_ids = EnumDecl False [
     (''OP_GLOB'', 0), (''OP_NE'', 1), (''OP_EQ'', 2), (''OP_LE'', 3), (''OP_LT'', 4),
     (''OP_GE'', 5), (''OP_GT'', 6), (''OP_BAND'', 7), (''OP_MAX'', 8)]"

definition enumdecl_filter_pred_fn :: cenum_decl where
  "enumdecl_filter_pred_fn = EnumDecl False [
     (''FILTER_PRED_FN_NOP'', 0), (''FILTER_PRED_FN_64'', 1), (''FILTER_PRED_FN_64_CPUMASK'', 2),
     (''FILTER_PRED_FN_S64'', 3), (''FILTER_PRED_FN_U64'', 4), (''FILTER_PRED_FN_32'', 5),
     (''FILTER_PRED_FN_32_CPUMASK'', 6), (''FILTER_PRED_FN_S32'', 7),
     (''FILTER_PRED_FN_U32'', 8), (''FILTER_PRED_FN_16'', 9),
     (''FILTER_PRED_FN_16_CPUMASK'', 10), (''FILTER_PRED_FN_S16'', 11),
     (''FILTER_PRED_FN_U16'', 12), (''FILTER_PRED_FN_8'', 13),
     (''FILTER_PRED_FN_8_CPUMASK'', 14), (''FILTER_PRED_FN_S8'', 15),
     (''FILTER_PRED_FN_U8'', 16), (''FILTER_PRED_FN_COMM'', 17), (''FILTER_PRED_FN_STRING'', 18),
     (''FILTER_PRED_FN_STRLOC'', 19), (''FILTER_PRED_FN_STRRELLOC'', 20),
     (''FILTER_PRED_FN_PCHAR_USER'', 21), (''FILTER_PRED_FN_PCHAR'', 22),
     (''FILTER_PRED_FN_CPU'', 23), (''FILTER_PRED_FN_CPU_CPUMASK'', 24),
     (''FILTER_PRED_FN_CPUMASK'', 25), (''FILTER_PRED_FN_CPUMASK_CPU'', 26),
     (''FILTER_PRED_FN_FUNCTION'', 27), (''FILTER_PRED_FN_'', 28),
     (''FILTER_PRED_TEST_VISITED'', 29)]"

definition enumdecl_fit_type :: cenum_decl where
  "enumdecl_fit_type = EnumDecl False [
     (''NOTHING_FIT'', 0), (''FL_FIT_TYPE'', 1), (''LE_FIT_TYPE'', 2), (''RE_FIT_TYPE'', 3),
     (''NE_FIT_TYPE'', 4)]"

definition enumdecl_fixed_addresses :: cenum_decl where
  "enumdecl_fixed_addresses = EnumDecl False [
     (''VSYSCALL_PAGE'', 511), (''FIX_DBGP_BASE'', 512), (''FIX_EARLYCON_MEM_BASE'', 513),
     (''FIX_APIC_BASE'', 514), (''FIX_IO_APIC_BASE_0'', 515), (''FIX_IO_APIC_BASE_END'', 642),
     (''FIX_PARAVIRT_BOOTMAP'', 643), (''FIX_APEI_GHES_IRQ'', 644), (''FIX_APEI_GHES_NMI'', 645),
     (''__end_of_permanent_fixed_addresses'', 646), (''FIX_BTMAP_END'', 1024),
     (''FIX_BTMAP_BEGIN'', 1535), (''FIX_TBOOT_BASE'', 1536),
     (''__end_of_fixed_addresses'', 1537)]"

definition enumdecl_flag_bits :: cenum_decl where
  "enumdecl_flag_bits = EnumDecl False [
     (''Faulty'', 0), (''In_sync'', 1), (''Bitmap_sync'', 2), (''WriteMostly'', 3),
     (''AutoDetected'', 4), (''Blocked'', 5), (''WriteErrorSeen'', 6), (''FaultRecorded'', 7),
     (''BlockedBadBlocks'', 8), (''WantReplacement'', 9), (''Replacement'', 10),
     (''Candidate'', 11), (''Journal'', 12), (''ClusterRemove'', 13), (''ExternalBbl'', 14),
     (''FailFast'', 15), (''LastDev'', 16), (''CollisionCheck'', 17), (''Nonrot'', 18)]"

definition enumdecl_flow_action_hw_stats :: cenum_decl where
  "enumdecl_flow_action_hw_stats = EnumDecl False [
     (''FLOW_ACTION_HW_STATS_IMMEDIATE'', 1), (''FLOW_ACTION_HW_STATS_DELAYED'', 2),
     (''FLOW_ACTION_HW_STATS_ANY'', 3), (''FLOW_ACTION_HW_STATS_DISABLED'', 4),
     (''FLOW_ACTION_HW_STATS_DONT_CARE'', 7)]"

definition enumdecl_flow_action_hw_stats_bit :: cenum_decl where
  "enumdecl_flow_action_hw_stats_bit = EnumDecl False [
     (''FLOW_ACTION_HW_STATS_IMMEDIATE_BIT'', 0), (''FLOW_ACTION_HW_STATS_DELAYED_BIT'', 1),
     (''FLOW_ACTION_HW_STATS_DISABLED_BIT'', 2), (''FLOW_ACTION_HW_STATS_NUM_BITS'', 3)]"

definition enumdecl_flow_action_id :: cenum_decl where
  "enumdecl_flow_action_id = EnumDecl False [
     (''FLOW_ACTION_ACCEPT'', 0), (''FLOW_ACTION_DROP'', 1), (''FLOW_ACTION_TRAP'', 2),
     (''FLOW_ACTION_GOTO'', 3), (''FLOW_ACTION_REDIRECT'', 4), (''FLOW_ACTION_MIRRED'', 5),
     (''FLOW_ACTION_REDIRECT_INGRESS'', 6), (''FLOW_ACTION_MIRRED_INGRESS'', 7),
     (''FLOW_ACTION_VLAN_PUSH'', 8), (''FLOW_ACTION_VLAN_POP'', 9),
     (''FLOW_ACTION_VLAN_MANGLE'', 10), (''FLOW_ACTION_TUNNEL_ENCAP'', 11),
     (''FLOW_ACTION_TUNNEL_DECAP'', 12), (''FLOW_ACTION_MANGLE'', 13), (''FLOW_ACTION_ADD'', 14),
     (''FLOW_ACTION_CSUM'', 15), (''FLOW_ACTION_MARK'', 16), (''FLOW_ACTION_PTYPE'', 17),
     (''FLOW_ACTION_PRIORITY'', 18), (''FLOW_ACTION_RX_QUEUE_MAPPING'', 19),
     (''FLOW_ACTION_WAKE'', 20), (''FLOW_ACTION_QUEUE'', 21), (''FLOW_ACTION_SAMPLE'', 22),
     (''FLOW_ACTION_POLICE'', 23), (''FLOW_ACTION_CT'', 24), (''FLOW_ACTION_CT_METADATA'', 25),
     (''FLOW_ACTION_MPLS_PUSH'', 26), (''FLOW_ACTION_MPLS_POP'', 27),
     (''FLOW_ACTION_MPLS_MANGLE'', 28), (''FLOW_ACTION_GATE'', 29),
     (''FLOW_ACTION_PPPOE_PUSH'', 30), (''FLOW_ACTION_JUMP'', 31), (''FLOW_ACTION_PIPE'', 32),
     (''FLOW_ACTION_VLAN_PUSH_ETH'', 33), (''FLOW_ACTION_VLAN_POP_ETH'', 34),
     (''FLOW_ACTION_CONTINUE'', 35), (''NUM_FLOW_ACTIONS'', 36)]"

definition enumdecl_flow_action_mangle_base :: cenum_decl where
  "enumdecl_flow_action_mangle_base = EnumDecl False [
     (''FLOW_ACT_MANGLE_UNSPEC'', 0), (''FLOW_ACT_MANGLE_HDR_TYPE_ETH'', 1),
     (''FLOW_ACT_MANGLE_HDR_TYPE_IP4'', 2), (''FLOW_ACT_MANGLE_HDR_TYPE_IP6'', 3),
     (''FLOW_ACT_MANGLE_HDR_TYPE_TCP'', 4), (''FLOW_ACT_MANGLE_HDR_TYPE_UDP'', 5)]"

definition enumdecl_flow_block_binder_type :: cenum_decl where
  "enumdecl_flow_block_binder_type = EnumDecl False [
     (''FLOW_BLOCK_BINDER_TYPE_UNSPEC'', 0), (''FLOW_BLOCK_BINDER_TYPE_CLSACT_INGRESS'', 1),
     (''FLOW_BLOCK_BINDER_TYPE_CLSACT_EGRESS'', 2),
     (''FLOW_BLOCK_BINDER_TYPE_RED_EARLY_DROP'', 3), (''FLOW_BLOCK_BINDER_TYPE_RED_MARK'', 4)]"

definition enumdecl_flow_block_command :: cenum_decl where
  "enumdecl_flow_block_command = EnumDecl False [
     (''FLOW_BLOCK_BIND'', 0), (''FLOW_BLOCK_UNBIND'', 1)]"

definition enumdecl_flow_cls_command :: cenum_decl where
  "enumdecl_flow_cls_command = EnumDecl False [
     (''FLOW_CLS_REPLACE'', 0), (''FLOW_CLS_DESTROY'', 1), (''FLOW_CLS_STATS'', 2),
     (''FLOW_CLS_TMPLT_CREATE'', 3), (''FLOW_CLS_TMPLT_DESTROY'', 4)]"

definition enumdecl_flow_dissect_ret :: cenum_decl where
  "enumdecl_flow_dissect_ret = EnumDecl False [
     (''FLOW_DISSECT_RET_OUT_GOOD'', 0), (''FLOW_DISSECT_RET_OUT_BAD'', 1),
     (''FLOW_DISSECT_RET_PROTO_AGAIN'', 2), (''FLOW_DISSECT_RET_IPPROTO_AGAIN'', 3),
     (''FLOW_DISSECT_RET_CONTINUE'', 4)]"

definition enumdecl_flow_dissector_ctrl_flags :: cenum_decl where
  "enumdecl_flow_dissector_ctrl_flags = EnumDecl False [
     (''FLOW_DIS_IS_FRAGMENT'', 1), (''FLOW_DIS_FIRST_FRAG'', 2),
     (''FLOW_DIS_F_TUNNEL_CSUM'', 4), (''FLOW_DIS_F_TUNNEL_DONT_FRAGMENT'', 8),
     (''FLOW_DIS_F_TUNNEL_OAM'', 16), (''FLOW_DIS_F_TUNNEL_CRIT_OPT'', 32),
     (''FLOW_DIS_ENCAPSULATION'', 64)]"

definition enumdecl_flow_dissector_key_id :: cenum_decl where
  "enumdecl_flow_dissector_key_id = EnumDecl False [
     (''FLOW_DISSECTOR_KEY_CONTROL'', 0), (''FLOW_DISSECTOR_KEY_BASIC'', 1),
     (''FLOW_DISSECTOR_KEY_IPV4_ADDRS'', 2), (''FLOW_DISSECTOR_KEY_IPV6_ADDRS'', 3),
     (''FLOW_DISSECTOR_KEY_PORTS'', 4), (''FLOW_DISSECTOR_KEY_PORTS_RANGE'', 5),
     (''FLOW_DISSECTOR_KEY_ICMP'', 6), (''FLOW_DISSECTOR_KEY_ETH_ADDRS'', 7),
     (''FLOW_DISSECTOR_KEY_TIPC'', 8), (''FLOW_DISSECTOR_KEY_ARP'', 9),
     (''FLOW_DISSECTOR_KEY_VLAN'', 10), (''FLOW_DISSECTOR_KEY_FLOW_LABEL'', 11),
     (''FLOW_DISSECTOR_KEY_GRE_KEYID'', 12), (''FLOW_DISSECTOR_KEY_MPLS_ENTROPY'', 13),
     (''FLOW_DISSECTOR_KEY_ENC_KEYID'', 14), (''FLOW_DISSECTOR_KEY_ENC_IPV4_ADDRS'', 15),
     (''FLOW_DISSECTOR_KEY_ENC_IPV6_ADDRS'', 16), (''FLOW_DISSECTOR_KEY_ENC_CONTROL'', 17),
     (''FLOW_DISSECTOR_KEY_ENC_PORTS'', 18), (''FLOW_DISSECTOR_KEY_MPLS'', 19),
     (''FLOW_DISSECTOR_KEY_TCP'', 20), (''FLOW_DISSECTOR_KEY_IP'', 21),
     (''FLOW_DISSECTOR_KEY_CVLAN'', 22), (''FLOW_DISSECTOR_KEY_ENC_IP'', 23),
     (''FLOW_DISSECTOR_KEY_ENC_OPTS'', 24), (''FLOW_DISSECTOR_KEY_META'', 25),
     (''FLOW_DISSECTOR_KEY_CT'', 26), (''FLOW_DISSECTOR_KEY_HASH'', 27),
     (''FLOW_DISSECTOR_KEY_NUM_OF_VLANS'', 28), (''FLOW_DISSECTOR_KEY_PPPOE'', 29),
     (''FLOW_DISSECTOR_KEY_L2TPV3'', 30), (''FLOW_DISSECTOR_KEY_CFM'', 31),
     (''FLOW_DISSECTOR_KEY_IPSEC'', 32), (''FLOW_DISSECTOR_KEY_MAX'', 33)]"

definition enumdecl_flowlabel_reflect :: cenum_decl where
  "enumdecl_flowlabel_reflect = EnumDecl False [
     (''FLOWLABEL_REFLECT_ESTABLISHED'', 1), (''FLOWLABEL_REFLECT_TCP_RESET'', 2),
     (''FLOWLABEL_REFLECT_ICMPV6_ECHO_REPLIES'', 4)]"

definition enum_decls_11 :: "cenum_decl list" where
  "enum_decls_11 = [
     enumdecl_drm_connector_tv_mode, enumdecl_drm_debug_category, enumdecl_drm_driver_feature,
     enumdecl_drm_edid_internal_quirk, enumdecl_drm_edid_quirk, enumdecl_drm_gem_object_status,
     enumdecl_drm_gpuva_flags, enumdecl_drm_gpuva_op_type, enumdecl_drm_gpuvm_flags,
     enumdecl_drm_hdmi_broadcast_rgb, enumdecl_drm_ioctl_flags, enumdecl_drm_link_status,
     enumdecl_drm_minor_type, enumdecl_drm_mm_insert_mode, enumdecl_drm_mode_analog,
     enumdecl_drm_mode_status, enumdecl_drm_mode_subconnector, enumdecl_drm_panel_orientation,
     enumdecl_drm_panic_type, enumdecl_drm_plane_type, enumdecl_drm_privacy_screen_status,
     enumdecl_drm_scaling_filter, enumdecl_drm_stat_type, enumdecl_drm_vblank_seq_type,
     enumdecl_dsa_db_type, enumdecl_dsa_tag_protocol, enumdecl_dw_edma_chip_flags,
     enumdecl_dw_edma_map_format, enumdecl_dw_pcie_app_clk, enumdecl_dw_pcie_app_rst,
     enumdecl_dw_pcie_core_clk, enumdecl_dw_pcie_core_rst, enumdecl_dw_pcie_device_mode,
     enumdecl_dw_pcie_ltssm, enumdecl_dwc2_control_phase, enumdecl_dwc2_halt_status,
     enumdecl_dwc2_hsotg_dmamode, enumdecl_dwc2_lx_state, enumdecl_dwc2_transaction_type,
     enumdecl_dyn_constr_type, enumdecl_dynevent_type, enumdecl_e820_type, enumdecl_ec_command,
     enumdecl_ecryptfs_token_types, enumdecl_edac_dev_feat, enumdecl_edac_ecs_attributes,
     enumdecl_edac_mc_layer_type, enumdecl_edac_mem_repair_attributes,
     enumdecl_edac_mem_repair_type, enumdecl_edac_scrub_attributes, enumdecl_edac_type,
     enumdecl_edid_block_status, enumdecl_efi_rts_ids, enumdecl_efi_secureboot_mode,
     enumdecl_ehci_hrtimer_event, enumdecl_ehci_rh_state, enumdecl_elants_chip_id,
     enumdecl_elants_iap_mode, enumdecl_elants_state, enumdecl_elv_merge, enumdecl_enable_type,
     enumdecl_energy_perf_value_index, enumdecl_energy_perf_value_index___2,
     enumdecl_energy_perf_value_index___3, enumdecl_environment_cap,
     enumdecl_equalization_preset_type, enumdecl_err_types, enumdecl_error_detector,
     enumdecl_es_result, enumdecl_ethnl_sock_type, enumdecl_ethtool_c33_pse_admin_state,
     enumdecl_ethtool_c33_pse_ext_state, enumdecl_ethtool_c33_pse_ext_substate_error_condition,
     enumdecl_ethtool_c33_pse_ext_substate_mr_pse_enable,
     enumdecl_ethtool_c33_pse_ext_substate_option_detect_ted,
     enumdecl_ethtool_c33_pse_ext_substate_option_vport_lim,
     enumdecl_ethtool_c33_pse_ext_substate_ovld_detected,
     enumdecl_ethtool_c33_pse_ext_substate_power_not_available,
     enumdecl_ethtool_c33_pse_ext_substate_short_detected, enumdecl_ethtool_c33_pse_pw_d_status,
     enumdecl_ethtool_cmis_cdb_cmd_id, enumdecl_ethtool_fec_config_bits, enumdecl_ethtool_flags,
     enumdecl_ethtool_header_flags, enumdecl_ethtool_link_ext_state,
     enumdecl_ethtool_link_ext_substate_autoneg,
     enumdecl_ethtool_link_ext_substate_bad_signal_integrity,
     enumdecl_ethtool_link_ext_substate_cable_issue,
     enumdecl_ethtool_link_ext_substate_link_logical_mismatch,
     enumdecl_ethtool_link_ext_substate_link_training, enumdecl_ethtool_link_ext_substate_module,
     enumdecl_ethtool_link_medium, enumdecl_ethtool_link_mode_bit_indices,
     enumdecl_ethtool_mac_stats_src, enumdecl_ethtool_mm_verify_status,
     enumdecl_ethtool_mmsv_event, enumdecl_ethtool_module_fw_flash_status,
     enumdecl_ethtool_module_power_mode, enumdecl_ethtool_module_power_mode_policy,
     enumdecl_ethtool_mpacket, enumdecl_ethtool_multicast_groups, enumdecl_ethtool_phys_id_state,
     enumdecl_ethtool_podl_pse_admin_state, enumdecl_ethtool_podl_pse_pw_d_status,
     enumdecl_ethtool_pse_event, enumdecl_ethtool_pse_types, enumdecl_ethtool_reset_flags,
     enumdecl_ethtool_sfeatures_retval_bits, enumdecl_ethtool_stringset,
     enumdecl_ethtool_supported_ring_param, enumdecl_ethtool_tcp_data_split,
     enumdecl_ethtool_test_flags, enumdecl_event_command_flags, enumdecl_event_trigger_type,
     enumdecl_event_type_t, enumdecl_events_wwnr, enumdecl_evm_ima_xattr_type,
     enumdecl_evtreturn, enumdecl_exact_level, enumdecl_exception,
     enumdecl_exception_stack_ordering, enumdecl_execmem_range_flags, enumdecl_execmem_type,
     enumdecl_exit_fastpath_completion, enumdecl_ext4_journal_trigger_type,
     enumdecl_ext4_li_mode, enumdecl_extra_reg_type, enumdecl_fail_dup_mod_reason,
     enumdecl_fanotify_event_type, enumdecl_fault_flag, enumdecl_fault_flags, enumdecl_faulttype,
     enumdecl_fbq_type, enumdecl_fetch_op, enumdecl_fib6_walk_state, enumdecl_fib_event_type,
     enumdecl_fid_type, enumdecl_field_op_id, enumdecl_filter_op_ids, enumdecl_filter_pred_fn,
     enumdecl_fit_type, enumdecl_fixed_addresses, enumdecl_flag_bits,
     enumdecl_flow_action_hw_stats, enumdecl_flow_action_hw_stats_bit, enumdecl_flow_action_id,
     enumdecl_flow_action_mangle_base, enumdecl_flow_block_binder_type,
     enumdecl_flow_block_command, enumdecl_flow_cls_command, enumdecl_flow_dissect_ret,
     enumdecl_flow_dissector_ctrl_flags, enumdecl_flow_dissector_key_id,
     enumdecl_flowlabel_reflect]"

lemma enum_decls_11_4: "list_all enum4 enum_decls_11"
  by (unfold enum_decls_11_def
     enumdecl_drm_connector_tv_mode_def enumdecl_drm_debug_category_def
     enumdecl_drm_driver_feature_def enumdecl_drm_edid_internal_quirk_def
     enumdecl_drm_edid_quirk_def enumdecl_drm_gem_object_status_def
     enumdecl_drm_gpuva_flags_def enumdecl_drm_gpuva_op_type_def enumdecl_drm_gpuvm_flags_def
     enumdecl_drm_hdmi_broadcast_rgb_def enumdecl_drm_ioctl_flags_def
     enumdecl_drm_link_status_def enumdecl_drm_minor_type_def enumdecl_drm_mode_analog_def
     enumdecl_drm_mode_status_def enumdecl_drm_mode_subconnector_def
     enumdecl_drm_panel_orientation_def enumdecl_drm_panic_type_def
     enumdecl_drm_plane_type_def enumdecl_drm_privacy_screen_status_def
     enumdecl_drm_scaling_filter_def enumdecl_drm_stat_type_def
     enumdecl_drm_vblank_seq_type_def enumdecl_dsa_db_type_def enumdecl_dsa_tag_protocol_def
     enumdecl_dw_edma_chip_flags_def enumdecl_dw_edma_map_format_def
     enumdecl_dw_pcie_app_clk_def enumdecl_dw_pcie_app_rst_def enumdecl_dw_pcie_core_clk_def
     enumdecl_dw_pcie_core_rst_def enumdecl_dw_pcie_device_mode_def
     enumdecl_dwc2_control_phase_def enumdecl_dwc2_halt_status_def
     enumdecl_dwc2_hsotg_dmamode_def enumdecl_dwc2_lx_state_def
     enumdecl_dwc2_transaction_type_def enumdecl_dyn_constr_type_def
     enumdecl_dynevent_type_def enumdecl_ec_command_def enumdecl_ecryptfs_token_types_def
     enumdecl_edac_dev_feat_def enumdecl_edac_ecs_attributes_def
     enumdecl_edac_mc_layer_type_def enumdecl_edac_mem_repair_attributes_def
     enumdecl_edac_mem_repair_type_def enumdecl_edac_scrub_attributes_def
     enumdecl_edac_type_def enumdecl_edid_block_status_def enumdecl_efi_rts_ids_def
     enumdecl_efi_secureboot_mode_def enumdecl_ehci_hrtimer_event_def
     enumdecl_ehci_rh_state_def enumdecl_elants_chip_id_def enumdecl_elants_iap_mode_def
     enumdecl_elants_state_def enumdecl_elv_merge_def enumdecl_enable_type_def
     enumdecl_energy_perf_value_index_def enumdecl_energy_perf_value_index___2_def
     enumdecl_energy_perf_value_index___3_def enumdecl_environment_cap_def
     enumdecl_equalization_preset_type_def enumdecl_err_types_def enumdecl_error_detector_def
     enum_error_detector_def enumdecl_es_result_def enumdecl_ethnl_sock_type_def
     enumdecl_ethtool_c33_pse_admin_state_def enumdecl_ethtool_c33_pse_ext_state_def
     enumdecl_ethtool_c33_pse_ext_substate_error_condition_def
     enumdecl_ethtool_c33_pse_ext_substate_mr_pse_enable_def
     enumdecl_ethtool_c33_pse_ext_substate_option_detect_ted_def
     enumdecl_ethtool_c33_pse_ext_substate_option_vport_lim_def
     enumdecl_ethtool_c33_pse_ext_substate_ovld_detected_def
     enumdecl_ethtool_c33_pse_ext_substate_power_not_available_def
     enumdecl_ethtool_c33_pse_ext_substate_short_detected_def
     enumdecl_ethtool_c33_pse_pw_d_status_def enumdecl_ethtool_cmis_cdb_cmd_id_def
     enumdecl_ethtool_fec_config_bits_def enumdecl_ethtool_flags_def
     enumdecl_ethtool_header_flags_def enumdecl_ethtool_link_ext_state_def
     enumdecl_ethtool_link_ext_substate_autoneg_def
     enumdecl_ethtool_link_ext_substate_bad_signal_integrity_def
     enumdecl_ethtool_link_ext_substate_cable_issue_def
     enumdecl_ethtool_link_ext_substate_link_logical_mismatch_def
     enumdecl_ethtool_link_ext_substate_link_training_def
     enumdecl_ethtool_link_ext_substate_module_def enumdecl_ethtool_link_medium_def
     enumdecl_ethtool_link_mode_bit_indices_def enumdecl_ethtool_mac_stats_src_def
     enumdecl_ethtool_mm_verify_status_def enumdecl_ethtool_mmsv_event_def
     enumdecl_ethtool_module_fw_flash_status_def enumdecl_ethtool_module_power_mode_def
     enumdecl_ethtool_module_power_mode_policy_def enumdecl_ethtool_mpacket_def
     enumdecl_ethtool_multicast_groups_def enumdecl_ethtool_phys_id_state_def
     enumdecl_ethtool_podl_pse_admin_state_def enumdecl_ethtool_podl_pse_pw_d_status_def
     enumdecl_ethtool_pse_event_def enumdecl_ethtool_pse_types_def
     enumdecl_ethtool_sfeatures_retval_bits_def enumdecl_ethtool_stringset_def
     enumdecl_ethtool_supported_ring_param_def enumdecl_ethtool_tcp_data_split_def
     enumdecl_ethtool_test_flags_def enumdecl_event_command_flags_def
     enumdecl_event_trigger_type_def enumdecl_event_type_t_def enumdecl_events_wwnr_def
     enumdecl_evm_ima_xattr_type_def enumdecl_evtreturn_def enumdecl_exact_level_def
     enumdecl_exception_def enumdecl_exception_stack_ordering_def
     enumdecl_execmem_range_flags_def enumdecl_execmem_type_def
     enumdecl_exit_fastpath_completion_def enumdecl_ext4_journal_trigger_type_def
     enumdecl_ext4_li_mode_def enumdecl_extra_reg_type_def enumdecl_fail_dup_mod_reason_def
     enumdecl_fanotify_event_type_def enumdecl_fault_flag_def enumdecl_fault_flags_def
     enumdecl_faulttype_def enumdecl_fbq_type_def enumdecl_fetch_op_def
     enumdecl_fib6_walk_state_def enumdecl_fib_event_type_def enumdecl_fid_type_def
     enumdecl_field_op_id_def enumdecl_filter_op_ids_def enumdecl_filter_pred_fn_def
     enumdecl_fit_type_def enumdecl_fixed_addresses_def enumdecl_flag_bits_def
     enumdecl_flow_action_hw_stats_def enumdecl_flow_action_hw_stats_bit_def
     enumdecl_flow_action_id_def enumdecl_flow_action_mangle_base_def
     enumdecl_flow_block_binder_type_def enumdecl_flow_block_command_def
     enumdecl_flow_cls_command_def enumdecl_flow_dissect_ret_def
     enumdecl_flow_dissector_ctrl_flags_def enumdecl_flow_dissector_key_id_def
     enumdecl_flowlabel_reflect_def)
    (intro enum_list_intros enum_int_intros enumdecl_drm_mm_insert_mode_4 enumdecl_dw_pcie_ltssm_4 enumdecl_e820_type_4 enumdecl_ethtool_reset_flags_4; simp)

lemma enum_error_detector_listed: "EnumDecl False enum_error_detector \<in> set enum_decls_11"
  by (simp add: enum_decls_11_def flip: enumdecl_error_detector_def)

lemma length_enum_decls_11: "length enum_decls_11 = 154"
  by (simp add: enum_decls_11_def)

end
