(* ===== verification/VmlinuxEnum12.thy ===== *)
theory VmlinuxEnum12
  imports EnumDecl
begin

text \<open>
  The enumerations of four bytes of \<^verbatim>\<open>src/internal/ebpf/vmlinux.h\<close> between lines 18350 and
  20025, one definition per enumeration, enumerators in order. An enumeration without a tag is
  named after the line it starts on.
\<close>

definition enumdecl_folio_references :: cenum_decl where
  "enumdecl_folio_references = EnumDecl False [
     (''FOLIOREF_RECLAIM'', 0), (''FOLIOREF_RECLAIM_CLEAN'', 1), (''FOLIOREF_KEEP'', 2),
     (''FOLIOREF_ACTIVATE'', 3)]"

definition enumdecl_folio_walk_level :: cenum_decl where
  "enumdecl_folio_walk_level = EnumDecl False [
     (''FW_LEVEL_PTE'', 0), (''FW_LEVEL_PMD'', 1), (''FW_LEVEL_PUD'', 2)]"

definition enumdecl_format_state :: cenum_decl where
  "enumdecl_format_state = EnumDecl False [
     (''FORMAT_STATE_NONE'', 0), (''FORMAT_STATE_NUM'', 1), (''FORMAT_STATE_WIDTH'', 2),
     (''FORMAT_STATE_PRECISION'', 3), (''FORMAT_STATE_CHAR'', 4), (''FORMAT_STATE_STR'', 5),
     (''FORMAT_STATE_PTR'', 6), (''FORMAT_STATE_PERCENT_CHAR'', 7), (''FORMAT_STATE_INVALID'', 8)]"

definition enumdecl_fortify_func :: cenum_decl where
  "enumdecl_fortify_func = EnumDecl False [
     (''FORTIFY_FUNC_strncpy'', 0), (''FORTIFY_FUNC_strnlen'', 1), (''FORTIFY_FUNC_strlen'', 2),
     (''FORTIFY_FUNC_strscpy'', 3), (''FORTIFY_FUNC_strlcat'', 4), (''FORTIFY_FUNC_strcat'', 5),
     (''FORTIFY_FUNC_strncat'', 6), (''FORTIFY_FUNC_memset'', 7), (''FORTIFY_FUNC_memcpy'', 8),
     (''FORTIFY_FUNC_memmove'', 9), (''FORTIFY_FUNC_memscan'', 10),
     (''FORTIFY_FUNC_memcmp'', 11), (''FORTIFY_FUNC_memchr'', 12),
     (''FORTIFY_FUNC_memchr_inv'', 13), (''FORTIFY_FUNC_kmemdup'', 14),
     (''FORTIFY_FUNC_strcpy'', 15), (''FORTIFY_FUNC_UNKNOWN'', 16)]"

definition enumdecl_fpdt_record_type :: cenum_decl where
  "enumdecl_fpdt_record_type = EnumDecl False [
     (''RECORD_S3_RESUME'', 0), (''RECORD_S3_SUSPEND'', 1), (''RECORD_BOOT'', 2)]"

definition enumdecl_fpdt_subtable_type :: cenum_decl where
  "enumdecl_fpdt_subtable_type = EnumDecl False [
     (''SUBTABLE_FBPT'', 0), (''SUBTABLE_S3PT'', 1)]"

definition enumdecl_freeze_holder :: cenum_decl where
  "enumdecl_freeze_holder = EnumDecl False [
     (''FREEZE_HOLDER_KERNEL'', 1), (''FREEZE_HOLDER_USERSPACE'', 2), (''FREEZE_MAY_NEST'', 4),
     (''FREEZE_EXCL'', 8)]"

definition enumdecl_freezer_state_flags :: cenum_decl where
  "enumdecl_freezer_state_flags = EnumDecl False [
     (''CGROUP_FREEZER_ONLINE'', 1), (''CGROUP_FREEZING_SELF'', 2),
     (''CGROUP_FREEZING_PARENT'', 4), (''CGROUP_FROZEN'', 8), (''CGROUP_FREEZING'', 6)]"

definition enumdecl_freq_qos_req_type :: cenum_decl where
  "enumdecl_freq_qos_req_type = EnumDecl False [
     (''FREQ_QOS_MIN'', 1), (''FREQ_QOS_MAX'', 2)]"

definition enumdecl_fs_context_phase :: cenum_decl where
  "enumdecl_fs_context_phase = EnumDecl False [
     (''FS_CONTEXT_CREATE_PARAMS'', 0), (''FS_CONTEXT_CREATING'', 1),
     (''FS_CONTEXT_AWAITING_MOUNT'', 2), (''FS_CONTEXT_AWAITING_RECONF'', 3),
     (''FS_CONTEXT_RECONF_PARAMS'', 4), (''FS_CONTEXT_RECONFIGURING'', 5),
     (''FS_CONTEXT_FAILED'', 6)]"

definition enumdecl_fs_context_purpose :: cenum_decl where
  "enumdecl_fs_context_purpose = EnumDecl False [
     (''FS_CONTEXT_FOR_MOUNT'', 0), (''FS_CONTEXT_FOR_SUBMOUNT'', 1),
     (''FS_CONTEXT_FOR_RECONFIGURE'', 2)]"

definition enumdecl_fs_update_time :: cenum_decl where
  "enumdecl_fs_update_time = EnumDecl False [
     (''FS_UPD_ATIME'', 0), (''FS_UPD_CMTIME'', 1)]"

definition enumdecl_fs_value_type :: cenum_decl where
  "enumdecl_fs_value_type = EnumDecl False [
     (''fs_value_is_undefined'', 0), (''fs_value_is_flag'', 1), (''fs_value_is_string'', 2),
     (''fs_value_is_blob'', 3), (''fs_value_is_filename'', 4), (''fs_value_is_file'', 5)]"

definition enumdecl_fsconfig_command :: cenum_decl where
  "enumdecl_fsconfig_command = EnumDecl False [
     (''FSCONFIG_SET_FLAG'', 0), (''FSCONFIG_SET_STRING'', 1), (''FSCONFIG_SET_BINARY'', 2),
     (''FSCONFIG_SET_PATH'', 3), (''FSCONFIG_SET_PATH_EMPTY'', 4), (''FSCONFIG_SET_FD'', 5),
     (''FSCONFIG_CMD_CREATE'', 6), (''FSCONFIG_CMD_RECONFIGURE'', 7),
     (''FSCONFIG_CMD_CREATE_EXCL'', 8)]"

definition enumdecl_fserror_type :: cenum_decl where
  "enumdecl_fserror_type = EnumDecl False [
     (''FSERR_BUFFERED_READ'', 0), (''FSERR_BUFFERED_WRITE'', 1), (''FSERR_DIRECTIO_READ'', 2),
     (''FSERR_DIRECTIO_WRITE'', 3), (''FSERR_DATA_LOST'', 4), (''FSERR_METADATA'', 5)]"

definition enumdecl_fsl_mc_pool_type :: cenum_decl where
  "enumdecl_fsl_mc_pool_type = EnumDecl False [
     (''FSL_MC_POOL_DPMCP'', 0), (''FSL_MC_POOL_DPBP'', 1), (''FSL_MC_POOL_DPCON'', 2),
     (''FSL_MC_POOL_IRQ'', 3), (''FSL_MC_NUM_POOL_TYPES'', 4)]"

definition enumdecl_fsnotify_data_type :: cenum_decl where
  "enumdecl_fsnotify_data_type = EnumDecl False [
     (''FSNOTIFY_EVENT_NONE'', 0), (''FSNOTIFY_EVENT_FILE_RANGE'', 1),
     (''FSNOTIFY_EVENT_PATH'', 2), (''FSNOTIFY_EVENT_INODE'', 3), (''FSNOTIFY_EVENT_DENTRY'', 4),
     (''FSNOTIFY_EVENT_MNT'', 5), (''FSNOTIFY_EVENT_ERROR'', 6)]"

definition enumdecl_fsnotify_group_prio :: cenum_decl where
  "enumdecl_fsnotify_group_prio = EnumDecl False [
     (''FSNOTIFY_PRIO_NORMAL'', 0), (''FSNOTIFY_PRIO_CONTENT'', 1),
     (''FSNOTIFY_PRIO_PRE_CONTENT'', 2), (''__FSNOTIFY_PRIO_NUM'', 3)]"

definition enumdecl_fsnotify_iter_type :: cenum_decl where
  "enumdecl_fsnotify_iter_type = EnumDecl False [
     (''FSNOTIFY_ITER_TYPE_INODE'', 0), (''FSNOTIFY_ITER_TYPE_VFSMOUNT'', 1),
     (''FSNOTIFY_ITER_TYPE_SB'', 2), (''FSNOTIFY_ITER_TYPE_PARENT'', 3),
     (''FSNOTIFY_ITER_TYPE_INODE2'', 4), (''FSNOTIFY_ITER_TYPE_MNTNS'', 5),
     (''FSNOTIFY_ITER_TYPE_COUNT'', 6)]"

definition enumdecl_fsnotify_obj_type :: cenum_decl where
  "enumdecl_fsnotify_obj_type = EnumDecl False [
     (''FSNOTIFY_OBJ_TYPE_ANY'', - 1), (''FSNOTIFY_OBJ_TYPE_INODE'', 0),
     (''FSNOTIFY_OBJ_TYPE_VFSMOUNT'', 1), (''FSNOTIFY_OBJ_TYPE_SB'', 2),
     (''FSNOTIFY_OBJ_TYPE_MNTNS'', 3), (''FSNOTIFY_OBJ_TYPE_COUNT'', 4),
     (''FSNOTIFY_OBJ_TYPE_DETACHED'', 4)]"

definition enumdecl_ftrace_bug_type :: cenum_decl where
  "enumdecl_ftrace_bug_type = EnumDecl False [
     (''FTRACE_BUG_UNKNOWN'', 0), (''FTRACE_BUG_INIT'', 1), (''FTRACE_BUG_NOP'', 2),
     (''FTRACE_BUG_CALL'', 3), (''FTRACE_BUG_UPDATE'', 4)]"

definition enumdecl_ftrace_dump_mode :: cenum_decl where
  "enumdecl_ftrace_dump_mode = EnumDecl False [
     (''DUMP_NONE'', 0), (''DUMP_ALL'', 1), (''DUMP_ORIG'', 2), (''DUMP_PARAM'', 3)]"

definition enumdecl_ftrace_ops_cmd :: cenum_decl where
  "enumdecl_ftrace_ops_cmd = EnumDecl False [
     (''FTRACE_OPS_CMD_ENABLE_SHARE_IPMODIFY_SELF'', 0),
     (''FTRACE_OPS_CMD_ENABLE_SHARE_IPMODIFY_PEER'', 1),
     (''FTRACE_OPS_CMD_DISABLE_SHARE_IPMODIFY_PEER'', 2)]"

definition enumdecl_fullness_group :: cenum_decl where
  "enumdecl_fullness_group = EnumDecl False [
     (''ZS_INUSE_RATIO_0'', 0), (''ZS_INUSE_RATIO_10'', 1), (''ZS_INUSE_RATIO_99'', 10),
     (''ZS_INUSE_RATIO_100'', 11), (''NR_FULLNESS_GROUPS'', 12)]"

definition enumdecl_fuse_dax_mode :: cenum_decl where
  "enumdecl_fuse_dax_mode = EnumDecl False [
     (''FUSE_DAX_INODE_DEFAULT'', 0), (''FUSE_DAX_ALWAYS'', 1), (''FUSE_DAX_NEVER'', 2),
     (''FUSE_DAX_INODE_USER'', 3)]"

definition enumdecl_fuse_ext_type :: cenum_decl where
  "enumdecl_fuse_ext_type = EnumDecl False [
     (''FUSE_MAX_NR_SECCTX'', 31), (''FUSE_EXT_GROUPS'', 32)]"

definition enumdecl_fuse_notify_code :: cenum_decl where
  "enumdecl_fuse_notify_code = EnumDecl False [
     (''FUSE_NOTIFY_POLL'', 1), (''FUSE_NOTIFY_INVAL_INODE'', 2),
     (''FUSE_NOTIFY_INVAL_ENTRY'', 3), (''FUSE_NOTIFY_STORE'', 4), (''FUSE_NOTIFY_RETRIEVE'', 5),
     (''FUSE_NOTIFY_DELETE'', 6), (''FUSE_NOTIFY_RESEND'', 7), (''FUSE_NOTIFY_INC_EPOCH'', 8),
     (''FUSE_NOTIFY_PRUNE'', 9)]"

definition enumdecl_fuse_opcode :: cenum_decl where
  "enumdecl_fuse_opcode = EnumDecl False enum_fuse_opcode"

definition enumdecl_fuse_parse_result :: cenum_decl where
  "enumdecl_fuse_parse_result = EnumDecl False [
     (''FOUND_ERR'', - 1), (''FOUND_NONE'', 0), (''FOUND_SOME'', 1), (''FOUND_ALL'', 2)]"

definition enumdecl_fuse_req_flag :: cenum_decl where
  "enumdecl_fuse_req_flag = EnumDecl False [
     (''FR_ISREPLY'', 0), (''FR_FORCE'', 1), (''FR_BACKGROUND'', 2), (''FR_WAITING'', 3),
     (''FR_ABORTED'', 4), (''FR_INTERRUPTED'', 5), (''FR_LOCKED'', 6), (''FR_PENDING'', 7),
     (''FR_SENT'', 8), (''FR_FINISHED'', 9), (''FR_PRIVATE'', 10), (''FR_ASYNC'', 11),
     (''FR_URING'', 12)]"

definition enumdecl_fuse_ring_req_state :: cenum_decl where
  "enumdecl_fuse_ring_req_state = EnumDecl False [
     (''FRRS_INVALID'', 0), (''FRRS_COMMIT'', 1), (''FRRS_AVAILABLE'', 2),
     (''FRRS_FUSE_REQ'', 3), (''FRRS_USERSPACE'', 4), (''FRRS_TEARDOWN'', 5),
     (''FRRS_RELEASED'', 6)]"

definition enumdecl_fuse_uring_cmd :: cenum_decl where
  "enumdecl_fuse_uring_cmd = EnumDecl False [
     (''FUSE_IO_URING_CMD_INVALID'', 0), (''FUSE_IO_URING_CMD_REGISTER'', 1),
     (''FUSE_IO_URING_CMD_COMMIT_AND_FETCH'', 2)]"

definition enumdecl_futex_access :: cenum_decl where
  "enumdecl_futex_access = EnumDecl False [
     (''FUTEX_READ'', 0), (''FUTEX_WRITE'', 1)]"

definition enumdecl_fw_opt :: cenum_decl where
  "enumdecl_fw_opt = EnumDecl False [
     (''FW_OPT_UEVENT'', 1), (''FW_OPT_NOWAIT'', 2), (''FW_OPT_USERHELPER'', 4),
     (''FW_OPT_NO_WARN'', 8), (''FW_OPT_NOCACHE'', 16), (''FW_OPT_NOFALLBACK_SYSFS'', 32),
     (''FW_OPT_FALLBACK_PLATFORM'', 64), (''FW_OPT_PARTIAL'', 128)]"

definition enumdecl_fw_resource_type :: cenum_decl where
  "enumdecl_fw_resource_type = EnumDecl False [
     (''RSC_CARVEOUT'', 0), (''RSC_DEVMEM'', 1), (''RSC_TRACE'', 2), (''RSC_VDEV'', 3),
     (''RSC_LAST'', 4), (''RSC_VENDOR_START'', 128), (''RSC_VENDOR_END'', 512)]"

definition enumdecl_fw_status :: cenum_decl where
  "enumdecl_fw_status = EnumDecl False [
     (''FW_STATUS_UNKNOWN'', 0), (''FW_STATUS_LOADING'', 1), (''FW_STATUS_DONE'', 2),
     (''FW_STATUS_ABORTED'', 3)]"

definition enumdecl_fw_upload_err :: cenum_decl where
  "enumdecl_fw_upload_err = EnumDecl False [
     (''FW_UPLOAD_ERR_NONE'', 0), (''FW_UPLOAD_ERR_HW_ERROR'', 1),
     (''FW_UPLOAD_ERR_TIMEOUT'', 2), (''FW_UPLOAD_ERR_CANCELED'', 3),
     (''FW_UPLOAD_ERR_BUSY'', 4), (''FW_UPLOAD_ERR_INVALID_SIZE'', 5),
     (''FW_UPLOAD_ERR_RW_ERROR'', 6), (''FW_UPLOAD_ERR_WEAROUT'', 7),
     (''FW_UPLOAD_ERR_FW_INVALID'', 8), (''FW_UPLOAD_ERR_MAX'', 9)]"

definition enumdecl_fw_upload_prog :: cenum_decl where
  "enumdecl_fw_upload_prog = EnumDecl False [
     (''FW_UPLOAD_PROG_IDLE'', 0), (''FW_UPLOAD_PROG_RECEIVING'', 1),
     (''FW_UPLOAD_PROG_PREPARING'', 2), (''FW_UPLOAD_PROG_TRANSFERRING'', 3),
     (''FW_UPLOAD_PROG_PROGRAMMING'', 4), (''FW_UPLOAD_PROG_MAX'', 5)]"

definition enumdecl_gds_mitigations :: cenum_decl where
  "enumdecl_gds_mitigations = EnumDecl False [
     (''GDS_MITIGATION_OFF'', 0), (''GDS_MITIGATION_AUTO'', 1),
     (''GDS_MITIGATION_UCODE_NEEDED'', 2), (''GDS_MITIGATION_FORCE'', 3),
     (''GDS_MITIGATION_FULL'', 4), (''GDS_MITIGATION_FULL_LOCKED'', 5),
     (''GDS_MITIGATION_HYPERVISOR'', 6)]"

definition enumdecl_genl_validate_flags :: cenum_decl where
  "enumdecl_genl_validate_flags = EnumDecl False [
     (''GENL_DONT_VALIDATE_STRICT'', 1), (''GENL_DONT_VALIDATE_DUMP'', 2),
     (''GENL_DONT_VALIDATE_DUMP_STRICT'', 4)]"

definition enumdecl_genpd_notication :: cenum_decl where
  "enumdecl_genpd_notication = EnumDecl False [
     (''GENPD_NOTIFY_PRE_OFF'', 0), (''GENPD_NOTIFY_OFF'', 1), (''GENPD_NOTIFY_PRE_ON'', 2),
     (''GENPD_NOTIFY_ON'', 3)]"

definition enumdecl_genpd_sync_state :: cenum_decl where
  "enumdecl_genpd_sync_state = EnumDecl False [
     (''GENPD_SYNC_STATE_OFF'', 0), (''GENPD_SYNC_STATE_SIMPLE'', 1),
     (''GENPD_SYNC_STATE_ONECELL'', 2)]"

definition enumdecl_gpd_status :: cenum_decl where
  "enumdecl_gpd_status = EnumDecl False [
     (''GENPD_STATE_ON'', 0), (''GENPD_STATE_OFF'', 1)]"

definition enumdecl_gpio_lookup_flags :: cenum_decl where
  "enumdecl_gpio_lookup_flags = EnumDecl False [
     (''GPIO_ACTIVE_HIGH'', 0), (''GPIO_ACTIVE_LOW'', 1), (''GPIO_OPEN_DRAIN'', 2),
     (''GPIO_OPEN_SOURCE'', 4), (''GPIO_PERSISTENT'', 0), (''GPIO_TRANSITORY'', 8),
     (''GPIO_PULL_UP'', 16), (''GPIO_PULL_DOWN'', 32), (''GPIO_PULL_DISABLE'', 64),
     (''GPIO_LOOKUP_FLAGS_DEFAULT'', 0)]"

definition enumdecl_gpio_select :: cenum_decl where
  "enumdecl_gpio_select = EnumDecl False [
     (''NO_GPIO'', 0), (''GPIO_1'', 1), (''GPIO_2'', 2)]"

definition enumdecl_gpio_v2_line_attr_id :: cenum_decl where
  "enumdecl_gpio_v2_line_attr_id = EnumDecl False [
     (''GPIO_V2_LINE_ATTR_ID_FLAGS'', 1), (''GPIO_V2_LINE_ATTR_ID_OUTPUT_VALUES'', 2),
     (''GPIO_V2_LINE_ATTR_ID_DEBOUNCE'', 3)]"

definition enumdecl_gpio_v2_line_changed_type :: cenum_decl where
  "enumdecl_gpio_v2_line_changed_type = EnumDecl False [
     (''GPIO_V2_LINE_CHANGED_REQUESTED'', 1), (''GPIO_V2_LINE_CHANGED_RELEASED'', 2),
     (''GPIO_V2_LINE_CHANGED_CONFIG'', 3)]"

definition enumdecl_gpio_v2_line_event_id :: cenum_decl where
  "enumdecl_gpio_v2_line_event_id = EnumDecl False [
     (''GPIO_V2_LINE_EVENT_RISING_EDGE'', 1), (''GPIO_V2_LINE_EVENT_FALLING_EDGE'', 2)]"

definition enumdecl_gpio_v2_line_flag :: cenum_decl where
  "enumdecl_gpio_v2_line_flag = EnumDecl False [
     (''GPIO_V2_LINE_FLAG_USED'', 1), (''GPIO_V2_LINE_FLAG_ACTIVE_LOW'', 2),
     (''GPIO_V2_LINE_FLAG_INPUT'', 4), (''GPIO_V2_LINE_FLAG_OUTPUT'', 8),
     (''GPIO_V2_LINE_FLAG_EDGE_RISING'', 16), (''GPIO_V2_LINE_FLAG_EDGE_FALLING'', 32),
     (''GPIO_V2_LINE_FLAG_OPEN_DRAIN'', 64), (''GPIO_V2_LINE_FLAG_OPEN_SOURCE'', 128),
     (''GPIO_V2_LINE_FLAG_BIAS_PULL_UP'', 256), (''GPIO_V2_LINE_FLAG_BIAS_PULL_DOWN'', 512),
     (''GPIO_V2_LINE_FLAG_BIAS_DISABLED'', 1024),
     (''GPIO_V2_LINE_FLAG_EVENT_CLOCK_REALTIME'', 2048),
     (''GPIO_V2_LINE_FLAG_EVENT_CLOCK_HTE'', 4096)]"

definition enumdecl_gpiod_flags :: cenum_decl where
  "enumdecl_gpiod_flags = EnumDecl False [
     (''GPIOD_ASIS'', 0), (''GPIOD_IN'', 1), (''GPIOD_OUT_LOW'', 3), (''GPIOD_OUT_HIGH'', 7),
     (''GPIOD_OUT_LOW_OPEN_DRAIN'', 11), (''GPIOD_OUT_HIGH_OPEN_DRAIN'', 15)]"

definition enumdecl_graph_filter_type :: cenum_decl where
  "enumdecl_graph_filter_type = EnumDecl False [
     (''GRAPH_FILTER_NOTRACE'', 0), (''GRAPH_FILTER_FUNCTION'', 1)]"

definition enumdecl_gre_conntrack :: cenum_decl where
  "enumdecl_gre_conntrack = EnumDecl False [
     (''GRE_CT_UNREPLIED'', 0), (''GRE_CT_REPLIED'', 1), (''GRE_CT_MAX'', 2)]"

definition enumdecl_gro_result :: cenum_decl where
  "enumdecl_gro_result = EnumDecl False [
     (''GRO_MERGED'', 0), (''GRO_MERGED_FREE'', 1), (''GRO_HELD'', 2), (''GRO_NORMAL'', 3),
     (''GRO_CONSUMED'', 4)]"

definition enumdecl_group_type :: cenum_decl where
  "enumdecl_group_type = EnumDecl False [
     (''group_has_spare'', 0), (''group_fully_busy'', 1), (''group_misfit_task'', 2),
     (''group_smt_balance'', 3), (''group_asym_packing'', 4), (''group_imbalanced'', 5),
     (''group_overloaded'', 6)]"

definition enumdecl_handle_to_path_flags :: cenum_decl where
  "enumdecl_handle_to_path_flags = EnumDecl False [
     (''HANDLE_CHECK_PERMS'', 1), (''HANDLE_CHECK_SUBTREE'', 2)]"

definition enumdecl_handler_id :: cenum_decl where
  "enumdecl_handler_id = EnumDecl False [
     (''HANDLER_ONMATCH'', 1), (''HANDLER_ONMAX'', 2), (''HANDLER_ONCHANGE'', 3)]"

definition enumdecl_handshake_auth :: cenum_decl where
  "enumdecl_handshake_auth = EnumDecl False [
     (''HANDSHAKE_AUTH_UNSPEC'', 0), (''HANDSHAKE_AUTH_UNAUTH'', 1), (''HANDSHAKE_AUTH_PSK'', 2),
     (''HANDSHAKE_AUTH_X509'', 3)]"

definition enumdecl_handshake_handler_class :: cenum_decl where
  "enumdecl_handshake_handler_class = EnumDecl False [
     (''HANDSHAKE_HANDLER_CLASS_NONE'', 0), (''HANDSHAKE_HANDLER_CLASS_TLSHD'', 1),
     (''HANDSHAKE_HANDLER_CLASS_MAX'', 2)]"

definition enumdecl_handshake_msg_type :: cenum_decl where
  "enumdecl_handshake_msg_type = EnumDecl False [
     (''HANDSHAKE_MSG_TYPE_UNSPEC'', 0), (''HANDSHAKE_MSG_TYPE_CLIENTHELLO'', 1),
     (''HANDSHAKE_MSG_TYPE_SERVERHELLO'', 2)]"

definition enumdecl_hash_algo :: cenum_decl where
  "enumdecl_hash_algo = EnumDecl False [
     (''HASH_ALGO_MD4'', 0), (''HASH_ALGO_MD5'', 1), (''HASH_ALGO_SHA1'', 2),
     (''HASH_ALGO_RIPE_MD_160'', 3), (''HASH_ALGO_SHA256'', 4), (''HASH_ALGO_SHA384'', 5),
     (''HASH_ALGO_SHA512'', 6), (''HASH_ALGO_SHA224'', 7), (''HASH_ALGO_RIPE_MD_128'', 8),
     (''HASH_ALGO_RIPE_MD_256'', 9), (''HASH_ALGO_RIPE_MD_320'', 10), (''HASH_ALGO_WP_256'', 11),
     (''HASH_ALGO_WP_384'', 12), (''HASH_ALGO_WP_512'', 13), (''HASH_ALGO_TGR_128'', 14),
     (''HASH_ALGO_TGR_160'', 15), (''HASH_ALGO_TGR_192'', 16), (''HASH_ALGO_SM3_256'', 17),
     (''HASH_ALGO_STREEBOG_256'', 18), (''HASH_ALGO_STREEBOG_512'', 19),
     (''HASH_ALGO_SHA3_256'', 20), (''HASH_ALGO_SHA3_384'', 21), (''HASH_ALGO_SHA3_512'', 22),
     (''HASH_ALGO__LAST'', 23)]"

definition enumdecl_hash_pointers_policy :: cenum_decl where
  "enumdecl_hash_pointers_policy = EnumDecl False [
     (''HASH_PTR_AUTO'', 0), (''HASH_PTR_ALWAYS'', 1), (''HASH_PTR_NEVER'', 2)]"

definition enumdecl_hctx_type :: cenum_decl where
  "enumdecl_hctx_type = EnumDecl False [
     (''HCTX_TYPE_DEFAULT'', 0), (''HCTX_TYPE_READ'', 1), (''HCTX_TYPE_POLL'', 2),
     (''HCTX_MAX_TYPES'', 3)]"

definition enumdecl_hdmi_3d_structure :: cenum_decl where
  "enumdecl_hdmi_3d_structure = EnumDecl False [
     (''HDMI_3D_STRUCTURE_INVALID'', - 1), (''HDMI_3D_STRUCTURE_FRAME_PACKING'', 0),
     (''HDMI_3D_STRUCTURE_FIELD_ALTERNATIVE'', 1), (''HDMI_3D_STRUCTURE_LINE_ALTERNATIVE'', 2),
     (''HDMI_3D_STRUCTURE_SIDE_BY_SIDE_FULL'', 3), (''HDMI_3D_STRUCTURE_L_DEPTH'', 4),
     (''HDMI_3D_STRUCTURE_L_DEPTH_GFX_GFX_DEPTH'', 5), (''HDMI_3D_STRUCTURE_TOP_AND_BOTTOM'', 6),
     (''HDMI_3D_STRUCTURE_SIDE_BY_SIDE_HALF'', 8)]"

definition enumdecl_hdmi_active_aspect :: cenum_decl where
  "enumdecl_hdmi_active_aspect = EnumDecl False [
     (''HDMI_ACTIVE_ASPECT_16_9_TOP'', 2), (''HDMI_ACTIVE_ASPECT_14_9_TOP'', 3),
     (''HDMI_ACTIVE_ASPECT_16_9_CENTER'', 4), (''HDMI_ACTIVE_ASPECT_PICTURE'', 8),
     (''HDMI_ACTIVE_ASPECT_4_3'', 9), (''HDMI_ACTIVE_ASPECT_16_9'', 10),
     (''HDMI_ACTIVE_ASPECT_14_9'', 11), (''HDMI_ACTIVE_ASPECT_4_3_SP_14_9'', 13),
     (''HDMI_ACTIVE_ASPECT_16_9_SP_14_9'', 14), (''HDMI_ACTIVE_ASPECT_16_9_SP_4_3'', 15)]"

definition enumdecl_hdmi_audio_coding_type :: cenum_decl where
  "enumdecl_hdmi_audio_coding_type = EnumDecl False [
     (''HDMI_AUDIO_CODING_TYPE_STREAM'', 0), (''HDMI_AUDIO_CODING_TYPE_PCM'', 1),
     (''HDMI_AUDIO_CODING_TYPE_AC3'', 2), (''HDMI_AUDIO_CODING_TYPE_MPEG1'', 3),
     (''HDMI_AUDIO_CODING_TYPE_MP3'', 4), (''HDMI_AUDIO_CODING_TYPE_MPEG2'', 5),
     (''HDMI_AUDIO_CODING_TYPE_AAC_LC'', 6), (''HDMI_AUDIO_CODING_TYPE_DTS'', 7),
     (''HDMI_AUDIO_CODING_TYPE_ATRAC'', 8), (''HDMI_AUDIO_CODING_TYPE_DSD'', 9),
     (''HDMI_AUDIO_CODING_TYPE_EAC3'', 10), (''HDMI_AUDIO_CODING_TYPE_DTS_HD'', 11),
     (''HDMI_AUDIO_CODING_TYPE_MLP'', 12), (''HDMI_AUDIO_CODING_TYPE_DST'', 13),
     (''HDMI_AUDIO_CODING_TYPE_WMA_PRO'', 14), (''HDMI_AUDIO_CODING_TYPE_CXT'', 15)]"

definition enumdecl_hdmi_audio_coding_type_ext :: cenum_decl where
  "enumdecl_hdmi_audio_coding_type_ext = EnumDecl False [
     (''HDMI_AUDIO_CODING_TYPE_EXT_CT'', 0), (''HDMI_AUDIO_CODING_TYPE_EXT_HE_AAC'', 1),
     (''HDMI_AUDIO_CODING_TYPE_EXT_HE_AAC_V2'', 2),
     (''HDMI_AUDIO_CODING_TYPE_EXT_MPEG_SURROUND'', 3),
     (''HDMI_AUDIO_CODING_TYPE_EXT_MPEG4_HE_AAC'', 4),
     (''HDMI_AUDIO_CODING_TYPE_EXT_MPEG4_HE_AAC_V2'', 5),
     (''HDMI_AUDIO_CODING_TYPE_EXT_MPEG4_AAC_LC'', 6), (''HDMI_AUDIO_CODING_TYPE_EXT_DRA'', 7),
     (''HDMI_AUDIO_CODING_TYPE_EXT_MPEG4_HE_AAC_SURROUND'', 8),
     (''HDMI_AUDIO_CODING_TYPE_EXT_MPEG4_AAC_LC_SURROUND'', 10)]"

definition enumdecl_hdmi_audio_sample_frequency :: cenum_decl where
  "enumdecl_hdmi_audio_sample_frequency = EnumDecl False [
     (''HDMI_AUDIO_SAMPLE_FREQUENCY_STREAM'', 0), (''HDMI_AUDIO_SAMPLE_FREQUENCY_32000'', 1),
     (''HDMI_AUDIO_SAMPLE_FREQUENCY_44100'', 2), (''HDMI_AUDIO_SAMPLE_FREQUENCY_48000'', 3),
     (''HDMI_AUDIO_SAMPLE_FREQUENCY_88200'', 4), (''HDMI_AUDIO_SAMPLE_FREQUENCY_96000'', 5),
     (''HDMI_AUDIO_SAMPLE_FREQUENCY_176400'', 6), (''HDMI_AUDIO_SAMPLE_FREQUENCY_192000'', 7)]"

definition enumdecl_hdmi_audio_sample_size :: cenum_decl where
  "enumdecl_hdmi_audio_sample_size = EnumDecl False [
     (''HDMI_AUDIO_SAMPLE_SIZE_STREAM'', 0), (''HDMI_AUDIO_SAMPLE_SIZE_16'', 1),
     (''HDMI_AUDIO_SAMPLE_SIZE_20'', 2), (''HDMI_AUDIO_SAMPLE_SIZE_24'', 3)]"

definition enumdecl_hdmi_colorimetry :: cenum_decl where
  "enumdecl_hdmi_colorimetry = EnumDecl False [
     (''HDMI_COLORIMETRY_NONE'', 0), (''HDMI_COLORIMETRY_ITU_601'', 1),
     (''HDMI_COLORIMETRY_ITU_709'', 2), (''HDMI_COLORIMETRY_EXTENDED'', 3)]"

definition enumdecl_hdmi_colorspace :: cenum_decl where
  "enumdecl_hdmi_colorspace = EnumDecl False [
     (''HDMI_COLORSPACE_RGB'', 0), (''HDMI_COLORSPACE_YUV422'', 1),
     (''HDMI_COLORSPACE_YUV444'', 2), (''HDMI_COLORSPACE_YUV420'', 3),
     (''HDMI_COLORSPACE_RESERVED4'', 4), (''HDMI_COLORSPACE_RESERVED5'', 5),
     (''HDMI_COLORSPACE_RESERVED6'', 6), (''HDMI_COLORSPACE_IDO_DEFINED'', 7)]"

definition enumdecl_hdmi_content_type :: cenum_decl where
  "enumdecl_hdmi_content_type = EnumDecl False [
     (''HDMI_CONTENT_TYPE_GRAPHICS'', 0), (''HDMI_CONTENT_TYPE_PHOTO'', 1),
     (''HDMI_CONTENT_TYPE_CINEMA'', 2), (''HDMI_CONTENT_TYPE_GAME'', 3)]"

definition enumdecl_hdmi_eotf :: cenum_decl where
  "enumdecl_hdmi_eotf = EnumDecl False [
     (''HDMI_EOTF_TRADITIONAL_GAMMA_SDR'', 0), (''HDMI_EOTF_TRADITIONAL_GAMMA_HDR'', 1),
     (''HDMI_EOTF_SMPTE_ST2084'', 2), (''HDMI_EOTF_BT_2100_HLG'', 3)]"

definition enumdecl_hdmi_extended_colorimetry :: cenum_decl where
  "enumdecl_hdmi_extended_colorimetry = EnumDecl False [
     (''HDMI_EXTENDED_COLORIMETRY_XV_YCC_601'', 0),
     (''HDMI_EXTENDED_COLORIMETRY_XV_YCC_709'', 1), (''HDMI_EXTENDED_COLORIMETRY_S_YCC_601'', 2),
     (''HDMI_EXTENDED_COLORIMETRY_OPYCC_601'', 3), (''HDMI_EXTENDED_COLORIMETRY_OPRGB'', 4),
     (''HDMI_EXTENDED_COLORIMETRY_BT2020_CONST_LUM'', 5),
     (''HDMI_EXTENDED_COLORIMETRY_BT2020'', 6), (''HDMI_EXTENDED_COLORIMETRY_RESERVED'', 7)]"

definition enumdecl_hdmi_infoframe_type :: cenum_decl where
  "enumdecl_hdmi_infoframe_type = EnumDecl False [
     (''HDMI_INFOFRAME_TYPE_VENDOR'', 129), (''HDMI_INFOFRAME_TYPE_AVI'', 130),
     (''HDMI_INFOFRAME_TYPE_SPD'', 131), (''HDMI_INFOFRAME_TYPE_AUDIO'', 132),
     (''HDMI_INFOFRAME_TYPE_DRM'', 135)]"

definition enumdecl_hdmi_metadata_type :: cenum_decl where
  "enumdecl_hdmi_metadata_type = EnumDecl False [
     (''HDMI_STATIC_METADATA_TYPE1'', 0)]"

definition enumdecl_hdmi_nups :: cenum_decl where
  "enumdecl_hdmi_nups = EnumDecl False [
     (''HDMI_NUPS_UNKNOWN'', 0), (''HDMI_NUPS_HORIZONTAL'', 1), (''HDMI_NUPS_VERTICAL'', 2),
     (''HDMI_NUPS_BOTH'', 3)]"

definition enumdecl_hdmi_picture_aspect :: cenum_decl where
  "enumdecl_hdmi_picture_aspect = EnumDecl False [
     (''HDMI_PICTURE_ASPECT_NONE'', 0), (''HDMI_PICTURE_ASPECT_4_3'', 1),
     (''HDMI_PICTURE_ASPECT_16_9'', 2), (''HDMI_PICTURE_ASPECT_64_27'', 3),
     (''HDMI_PICTURE_ASPECT_256_135'', 4), (''HDMI_PICTURE_ASPECT_RESERVED'', 5)]"

definition enumdecl_hdmi_quantization_range :: cenum_decl where
  "enumdecl_hdmi_quantization_range = EnumDecl False [
     (''HDMI_QUANTIZATION_RANGE_DEFAULT'', 0), (''HDMI_QUANTIZATION_RANGE_LIMITED'', 1),
     (''HDMI_QUANTIZATION_RANGE_FULL'', 2), (''HDMI_QUANTIZATION_RANGE_RESERVED'', 3)]"

definition enumdecl_hdmi_scan_mode :: cenum_decl where
  "enumdecl_hdmi_scan_mode = EnumDecl False [
     (''HDMI_SCAN_MODE_NONE'', 0), (''HDMI_SCAN_MODE_OVERSCAN'', 1),
     (''HDMI_SCAN_MODE_UNDERSCAN'', 2), (''HDMI_SCAN_MODE_RESERVED'', 3)]"

definition enumdecl_hdmi_spd_sdi :: cenum_decl where
  "enumdecl_hdmi_spd_sdi = EnumDecl False [
     (''HDMI_SPD_SDI_UNKNOWN'', 0), (''HDMI_SPD_SDI_DSTB'', 1), (''HDMI_SPD_SDI_DVDP'', 2),
     (''HDMI_SPD_SDI_DVHS'', 3), (''HDMI_SPD_SDI_HDDVR'', 4), (''HDMI_SPD_SDI_DVC'', 5),
     (''HDMI_SPD_SDI_DSC'', 6), (''HDMI_SPD_SDI_VCD'', 7), (''HDMI_SPD_SDI_GAME'', 8),
     (''HDMI_SPD_SDI_PC'', 9), (''HDMI_SPD_SDI_BD'', 10), (''HDMI_SPD_SDI_SACD'', 11),
     (''HDMI_SPD_SDI_HDDVD'', 12), (''HDMI_SPD_SDI_PMP'', 13)]"

definition enumdecl_hdmi_ycc_quantization_range :: cenum_decl where
  "enumdecl_hdmi_ycc_quantization_range = EnumDecl False [
     (''HDMI_YCC_QUANTIZATION_RANGE_LIMITED'', 0), (''HDMI_YCC_QUANTIZATION_RANGE_FULL'', 1)]"

definition enumdecl_header_fields :: cenum_decl where
  "enumdecl_header_fields = EnumDecl False [
     (''HDR_PCR'', 0), (''HDR_DIGEST'', 1), (''HDR_TEMPLATE_NAME'', 2),
     (''HDR_TEMPLATE_DATA'', 3), (''HDR__LAST'', 4)]"

definition enumdecl_header_opt :: cenum_decl where
  "enumdecl_header_opt = EnumDecl False [
     (''IPE_HEADER_POLICY_NAME'', 0), (''IPE_HEADER_POLICY_VERSION'', 1),
     (''__IPE_HEADER_MAX'', 2)]"

definition enumdecl_hest_status :: cenum_decl where
  "enumdecl_hest_status = EnumDecl False [
     (''HEST_ENABLED'', 0), (''HEST_DISABLED'', 1), (''HEST_NOT_FOUND'', 2)]"

definition enumdecl_hid_battery_status :: cenum_decl where
  "enumdecl_hid_battery_status = EnumDecl False [
     (''HID_BATTERY_UNKNOWN'', 0), (''HID_BATTERY_QUERIED'', 1), (''HID_BATTERY_REPORTED'', 2)]"

definition enumdecl_hid_class_request :: cenum_decl where
  "enumdecl_hid_class_request = EnumDecl False [
     (''HID_REQ_GET_REPORT'', 1), (''HID_REQ_GET_IDLE'', 2), (''HID_REQ_GET_PROTOCOL'', 3),
     (''HID_REQ_SET_REPORT'', 9), (''HID_REQ_SET_IDLE'', 10), (''HID_REQ_SET_PROTOCOL'', 11)]"

definition enumdecl_hid_report_type :: cenum_decl where
  "enumdecl_hid_report_type = EnumDecl False [
     (''HID_INPUT_REPORT'', 0), (''HID_OUTPUT_REPORT'', 1), (''HID_FEATURE_REPORT'', 2),
     (''HID_REPORT_TYPES'', 3)]"

definition enumdecl_hid_type :: cenum_decl where
  "enumdecl_hid_type = EnumDecl False [
     (''HID_TYPE_OTHER'', 0), (''HID_TYPE_USBMOUSE'', 1), (''HID_TYPE_USBNONE'', 2)]"

definition enumdecl_hist_field_flags :: cenum_decl where
  "enumdecl_hist_field_flags = EnumDecl False [
     (''HIST_FIELD_FL_HITCOUNT'', 1), (''HIST_FIELD_FL_KEY'', 2), (''HIST_FIELD_FL_STRING'', 4),
     (''HIST_FIELD_FL_HEX'', 8), (''HIST_FIELD_FL_SYM'', 16), (''HIST_FIELD_FL_SYM_OFFSET'', 32),
     (''HIST_FIELD_FL_EXECNAME'', 64), (''HIST_FIELD_FL_SYSCALL'', 128),
     (''HIST_FIELD_FL_STACKTRACE'', 256), (''HIST_FIELD_FL_LOG2'', 512),
     (''HIST_FIELD_FL_TIMESTAMP'', 1024), (''HIST_FIELD_FL_TIMESTAMP_USECS'', 2048),
     (''HIST_FIELD_FL_VAR'', 4096), (''HIST_FIELD_FL_EXPR'', 8192),
     (''HIST_FIELD_FL_VAR_REF'', 16384), (''HIST_FIELD_FL_CPU'', 32768),
     (''HIST_FIELD_FL_ALIAS'', 65536), (''HIST_FIELD_FL_BUCKET'', 131072),
     (''HIST_FIELD_FL_CONST'', 262144), (''HIST_FIELD_FL_PERCENT'', 524288),
     (''HIST_FIELD_FL_GRAPH'', 1048576), (''HIST_FIELD_FL_COMM'', 2097152)]"

definition enumdecl_hist_field_fn :: cenum_decl where
  "enumdecl_hist_field_fn = EnumDecl False [
     (''HIST_FIELD_FN_NOP'', 0), (''HIST_FIELD_FN_VAR_REF'', 1), (''HIST_FIELD_FN_COUNTER'', 2),
     (''HIST_FIELD_FN_CONST'', 3), (''HIST_FIELD_FN_LOG2'', 4), (''HIST_FIELD_FN_BUCKET'', 5),
     (''HIST_FIELD_FN_TIMESTAMP'', 6), (''HIST_FIELD_FN_CPU'', 7), (''HIST_FIELD_FN_COMM'', 8),
     (''HIST_FIELD_FN_STRING'', 9), (''HIST_FIELD_FN_DYNSTRING'', 10),
     (''HIST_FIELD_FN_RELDYNSTRING'', 11), (''HIST_FIELD_FN_PSTRING'', 12),
     (''HIST_FIELD_FN_S64'', 13), (''HIST_FIELD_FN_U64'', 14), (''HIST_FIELD_FN_S32'', 15),
     (''HIST_FIELD_FN_U32'', 16), (''HIST_FIELD_FN_S16'', 17), (''HIST_FIELD_FN_U16'', 18),
     (''HIST_FIELD_FN_S8'', 19), (''HIST_FIELD_FN_U8'', 20), (''HIST_FIELD_FN_UMINUS'', 21),
     (''HIST_FIELD_FN_MINUS'', 22), (''HIST_FIELD_FN_PLUS'', 23), (''HIST_FIELD_FN_DIV'', 24),
     (''HIST_FIELD_FN_MULT'', 25), (''HIST_FIELD_FN_DIV_POWER2'', 26),
     (''HIST_FIELD_FN_DIV_NOT_POWER2'', 27), (''HIST_FIELD_FN_DIV_MULT_SHIFT'', 28),
     (''HIST_FIELD_FN_EXECNAME'', 29), (''HIST_FIELD_FN_STACK'', 30)]"

definition enumdecl_hk_flags :: cenum_decl where
  "enumdecl_hk_flags = EnumDecl False [
     (''HK_FLAG_DOMAIN_BOOT'', 1), (''HK_FLAG_DOMAIN'', 2), (''HK_FLAG_MANAGED_IRQ'', 4),
     (''HK_FLAG_KERNEL_NOISE'', 8)]"

definition enumdecl_hk_type :: cenum_decl where
  "enumdecl_hk_type = EnumDecl False [
     (''HK_TYPE_DOMAIN_BOOT'', 0), (''HK_TYPE_DOMAIN'', 1), (''HK_TYPE_MANAGED_IRQ'', 2),
     (''HK_TYPE_KERNEL_NOISE'', 3), (''HK_TYPE_MAX'', 4), (''HK_TYPE_TICK'', 3),
     (''HK_TYPE_TIMER'', 3), (''HK_TYPE_RCU'', 3), (''HK_TYPE_MISC'', 3), (''HK_TYPE_WQ'', 3),
     (''HK_TYPE_KTHREAD'', 3)]"

definition enumdecl_hn_flags_bits :: cenum_decl where
  "enumdecl_hn_flags_bits = EnumDecl False [
     (''HANDSHAKE_F_NET_DRAINING'', 0)]"

definition enumdecl_hp_flags_bits :: cenum_decl where
  "enumdecl_hp_flags_bits = EnumDecl False [
     (''HANDSHAKE_F_PROTO_NOTIFY'', 0)]"

definition enumdecl_hpet_mode :: cenum_decl where
  "enumdecl_hpet_mode = EnumDecl False [
     (''HPET_MODE_UNUSED'', 0), (''HPET_MODE_LEGACY'', 1), (''HPET_MODE_CLOCKEVT'', 2),
     (''HPET_MODE_DEVICE'', 3)]"

definition enumdecl_hprobe_state :: cenum_decl where
  "enumdecl_hprobe_state = EnumDecl False [
     (''HPROBE_LEASED'', 0), (''HPROBE_STABLE'', 1), (''HPROBE_GONE'', 2),
     (''HPROBE_CONSUMED'', 3)]"

definition enumdecl_hpx_type3_cfg_loc :: cenum_decl where
  "enumdecl_hpx_type3_cfg_loc = EnumDecl False [
     (''HPX_CFG_PCICFG'', 0), (''HPX_CFG_PCIE_CAP'', 1), (''HPX_CFG_PCIE_CAP_EXT'', 2),
     (''HPX_CFG_VEND_CAP'', 3), (''HPX_CFG_DVSEC'', 4), (''HPX_CFG_MAX'', 5)]"

definition enumdecl_hpx_type3_dev_type :: cenum_decl where
  "enumdecl_hpx_type3_dev_type = EnumDecl False [
     (''HPX_TYPE_ENDPOINT'', 1), (''HPX_TYPE_LEG_END'', 2), (''HPX_TYPE_RC_END'', 4),
     (''HPX_TYPE_RC_EC'', 8), (''HPX_TYPE_ROOT_PORT'', 16), (''HPX_TYPE_UPSTREAM'', 32),
     (''HPX_TYPE_DOWNSTREAM'', 64), (''HPX_TYPE_PCI_BRIDGE'', 128),
     (''HPX_TYPE_PCIE_BRIDGE'', 256)]"

definition enumdecl_hpx_type3_fn_type :: cenum_decl where
  "enumdecl_hpx_type3_fn_type = EnumDecl False [
     (''HPX_FN_NORMAL'', 1), (''HPX_FN_SRIOV_PHYS'', 2), (''HPX_FN_SRIOV_VIRT'', 4)]"

definition enumdecl_hr_flags_bits :: cenum_decl where
  "enumdecl_hr_flags_bits = EnumDecl False [
     (''HANDSHAKE_F_REQ_COMPLETED'', 0), (''HANDSHAKE_F_REQ_SESSION'', 1)]"

definition enumdecl_hrtimer_base_type :: cenum_decl where
  "enumdecl_hrtimer_base_type = EnumDecl False [
     (''HRTIMER_BASE_MONOTONIC'', 0), (''HRTIMER_BASE_REALTIME'', 1),
     (''HRTIMER_BASE_BOOTTIME'', 2), (''HRTIMER_BASE_TAI'', 3),
     (''HRTIMER_BASE_MONOTONIC_SOFT'', 4), (''HRTIMER_BASE_REALTIME_SOFT'', 5),
     (''HRTIMER_BASE_BOOTTIME_SOFT'', 6), (''HRTIMER_BASE_TAI_SOFT'', 7),
     (''HRTIMER_MAX_CLOCK_BASES'', 8)]"

definition enumdecl_hrtimer_mode :: cenum_decl where
  "enumdecl_hrtimer_mode = EnumDecl False enum_hrtimer_mode"

definition enumdecl_hrtimer_restart :: cenum_decl where
  "enumdecl_hrtimer_restart = EnumDecl False [
     (''HRTIMER_NORESTART'', 0), (''HRTIMER_RESTART'', 1)]"

definition enumdecl_hsm_task_states :: cenum_decl where
  "enumdecl_hsm_task_states = EnumDecl False [
     (''HSM_ST_IDLE'', 0), (''HSM_ST_FIRST'', 1), (''HSM_ST'', 2), (''HSM_ST_LAST'', 3),
     (''HSM_ST_ERR'', 4)]"

definition enumdecl_hte_edge :: cenum_decl where
  "enumdecl_hte_edge = EnumDecl False [
     (''HTE_EDGE_NO_SETUP'', 1), (''HTE_RISING_EDGE_TS'', 2), (''HTE_FALLING_EDGE_TS'', 4)]"

definition enumdecl_hte_return :: cenum_decl where
  "enumdecl_hte_return = EnumDecl False [
     (''HTE_CB_HANDLED'', 0), (''HTE_RUN_SECOND_CB'', 1)]"

definition enumdecl_hub_activation_type :: cenum_decl where
  "enumdecl_hub_activation_type = EnumDecl False [
     (''HUB_INIT'', 0), (''HUB_INIT2'', 1), (''HUB_INIT3'', 2), (''HUB_POST_RESET'', 3),
     (''HUB_RESUME'', 4), (''HUB_RESET_RESUME'', 5)]"

definition enumdecl_hub_quiescing_type :: cenum_decl where
  "enumdecl_hub_quiescing_type = EnumDecl False [
     (''HUB_DISCONNECT'', 0), (''HUB_PRE_RESET'', 1), (''HUB_SUSPEND'', 2)]"

definition enumdecl_hugetlb_memory_event :: cenum_decl where
  "enumdecl_hugetlb_memory_event = EnumDecl False [
     (''HUGETLB_MAX'', 0), (''HUGETLB_NR_MEMORY_EVENTS'', 1)]"

definition enumdecl_hugetlb_page_flags :: cenum_decl where
  "enumdecl_hugetlb_page_flags = EnumDecl False [
     (''HPG_restore_reserve'', 0), (''HPG_migratable'', 1), (''HPG_temporary'', 2),
     (''HPG_freed'', 3), (''HPG_vmemmap_optimized'', 4), (''HPG_raw_hwp_unreliable'', 5),
     (''HPG_cma'', 6), (''__NR_HPAGEFLAGS'', 7)]"

definition enumdecl_hugetlb_param :: cenum_decl where
  "enumdecl_hugetlb_param = EnumDecl False [
     (''Opt_gid___6'', 0), (''Opt_min_size'', 1), (''Opt_mode___4'', 2), (''Opt_nr_inodes'', 3),
     (''Opt_pagesize'', 4), (''Opt_size'', 5), (''Opt_uid___6'', 6)]"

definition enumdecl_hugetlbfs_size_type :: cenum_decl where
  "enumdecl_hugetlbfs_size_type = EnumDecl False [
     (''NO_SIZE'', 0), (''SIZE_STD'', 1), (''SIZE_PERCENT'', 2)]"

definition enumdecl_hv_crashdump_action :: cenum_decl where
  "enumdecl_hv_crashdump_action = EnumDecl False [
     (''HV_CRASHDUMP_NONE'', 0), (''HV_CRASHDUMP_SUSPEND_ALL_VPS'', 1),
     (''HV_CRASHDUMP_PREPARE_FOR_STATE_SAVE'', 2), (''HV_CRASHDUMP_STATE_SAVED'', 3),
     (''HV_CRASHDUMP_ENTRY'', 4)]"

definition enumdecl_hv_device_type :: cenum_decl where
  "enumdecl_hv_device_type = EnumDecl False [
     (''HV_DEVICE_TYPE_LOGICAL'', 0), (''HV_DEVICE_TYPE_PCI'', 1),
     (''HV_DEVICE_TYPE_IOAPIC'', 2), (''HV_DEVICE_TYPE_ACPI'', 3)]"

definition enumdecl_hv_generic_set_format :: cenum_decl where
  "enumdecl_hv_generic_set_format = EnumDecl False [
     (''HV_GENERIC_SET_SPARSE_4K'', 0), (''HV_GENERIC_SET_ALL'', 1)]"

definition enumdecl_hv_interrupt_trigger_mode :: cenum_decl where
  "enumdecl_hv_interrupt_trigger_mode = EnumDecl False [
     (''HV_INTERRUPT_TRIGGER_MODE_EDGE'', 0), (''HV_INTERRUPT_TRIGGER_MODE_LEVEL'', 1)]"

definition enumdecl_hv_interrupt_type :: cenum_decl where
  "enumdecl_hv_interrupt_type = EnumDecl False [
     (''HV_X64_INTERRUPT_TYPE_FIXED'', 0), (''HV_X64_INTERRUPT_TYPE_LOWESTPRIORITY'', 1),
     (''HV_X64_INTERRUPT_TYPE_SMI'', 2), (''HV_X64_INTERRUPT_TYPE_REMOTEREAD'', 3),
     (''HV_X64_INTERRUPT_TYPE_NMI'', 4), (''HV_X64_INTERRUPT_TYPE_INIT'', 5),
     (''HV_X64_INTERRUPT_TYPE_SIPI'', 6), (''HV_X64_INTERRUPT_TYPE_EXTINT'', 7),
     (''HV_X64_INTERRUPT_TYPE_LOCALINT0'', 8), (''HV_X64_INTERRUPT_TYPE_LOCALINT1'', 9),
     (''HV_X64_INTERRUPT_TYPE_MAXIMUM'', 10)]"

definition enumdecl_hv_isolation_type :: cenum_decl where
  "enumdecl_hv_isolation_type = EnumDecl False [
     (''HV_ISOLATION_TYPE_NONE'', 0), (''HV_ISOLATION_TYPE_VBS'', 1),
     (''HV_ISOLATION_TYPE_SNP'', 2), (''HV_ISOLATION_TYPE_TDX'', 3)]"

definition enumdecl_hv_mem_host_visibility :: cenum_decl where
  "enumdecl_hv_mem_host_visibility = EnumDecl False [
     (''VMBUS_PAGE_NOT_VISIBLE'', 0), (''VMBUS_PAGE_VISIBLE_READ_ONLY'', 1),
     (''VMBUS_PAGE_VISIBLE_READ_WRITE'', 3)]"

definition enumdecl_hv_partition_event :: cenum_decl where
  "enumdecl_hv_partition_event = EnumDecl False [
     (''HV_PARTITION_EVENT_ROOT_CRASHDUMP'', 2)]"

definition enumdecl_hv_partition_type :: cenum_decl where
  "enumdecl_hv_partition_type = EnumDecl False [
     (''HV_PARTITION_TYPE_GUEST'', 0), (''HV_PARTITION_TYPE_ROOT'', 1),
     (''HV_PARTITION_TYPE_L1VH'', 2)]"

definition enumdecl_hv_sleep_state :: cenum_decl where
  "enumdecl_hv_sleep_state = EnumDecl False [
     (''HV_SLEEP_STATE_S1'', 1), (''HV_SLEEP_STATE_S2'', 2), (''HV_SLEEP_STATE_S3'', 3),
     (''HV_SLEEP_STATE_S4'', 4), (''HV_SLEEP_STATE_S5'', 5), (''HV_SLEEP_STATE_LOCK'', 6)]"

definition enumdecl_hv_system_property :: cenum_decl where
  "enumdecl_hv_system_property = EnumDecl False [
     (''HV_SYSTEM_PROPERTY_SLEEP_STATE'', 3), (''HV_SYSTEM_PROPERTY_SCHEDULER_TYPE'', 15),
     (''HV_DYNAMIC_PROCESSOR_FEATURE_PROPERTY'', 21), (''HV_SYSTEM_PROPERTY_CRASHDUMPAREA'', 47)]"

definition enumdecl_hv_tlb_flush_fifos :: cenum_decl where
  "enumdecl_hv_tlb_flush_fifos = EnumDecl False [
     (''HV_L1_TLB_FLUSH_FIFO'', 0), (''HV_L2_TLB_FLUSH_FIFO'', 1), (''HV_NR_TLB_FLUSH_FIFOS'', 2)]"

definition enumdecl_hv_tsc_page_status :: cenum_decl where
  "enumdecl_hv_tsc_page_status = EnumDecl False [
     (''HV_TSC_PAGE_UNSET'', 0), (''HV_TSC_PAGE_GUEST_CHANGED'', 1),
     (''HV_TSC_PAGE_HOST_CHANGED'', 2), (''HV_TSC_PAGE_SET'', 3), (''HV_TSC_PAGE_BROKEN'', 4)]"

definition enumdecl_hvmmem_type_t :: cenum_decl where
  "enumdecl_hvmmem_type_t = EnumDecl False [
     (''HVMMEM_ram_rw'', 0), (''HVMMEM_ram_ro'', 1), (''HVMMEM_mmio_dm'', 2)]"

definition enumdecl_hw_event_mc_err_type :: cenum_decl where
  "enumdecl_hw_event_mc_err_type = EnumDecl False [
     (''HW_EVENT_ERR_CORRECTED'', 0), (''HW_EVENT_ERR_UNCORRECTED'', 1),
     (''HW_EVENT_ERR_DEFERRED'', 2), (''HW_EVENT_ERR_FATAL'', 3), (''HW_EVENT_ERR_INFO'', 4)]"

definition enumdecl_hw_protection_action :: cenum_decl where
  "enumdecl_hw_protection_action = EnumDecl False [
     (''HWPROT_ACT_DEFAULT'', 0), (''HWPROT_ACT_SHUTDOWN'', 1), (''HWPROT_ACT_REBOOT'', 2)]"

definition enumdecl_hwerr_error_type :: cenum_decl where
  "enumdecl_hwerr_error_type = EnumDecl False [
     (''HWERR_RECOV_CPU'', 0), (''HWERR_RECOV_MEMORY'', 1), (''HWERR_RECOV_PCI'', 2),
     (''HWERR_RECOV_CXL'', 3), (''HWERR_RECOV_OTHERS'', 4), (''HWERR_RECOV_MAX'', 5)]"

definition enumdecl_hwmon_chip_attributes :: cenum_decl where
  "enumdecl_hwmon_chip_attributes = EnumDecl False [
     (''hwmon_chip_temp_reset_history'', 0), (''hwmon_chip_in_reset_history'', 1),
     (''hwmon_chip_curr_reset_history'', 2), (''hwmon_chip_power_reset_history'', 3),
     (''hwmon_chip_register_tz'', 4), (''hwmon_chip_update_interval'', 5),
     (''hwmon_chip_alarms'', 6), (''hwmon_chip_samples'', 7), (''hwmon_chip_curr_samples'', 8),
     (''hwmon_chip_in_samples'', 9), (''hwmon_chip_power_samples'', 10),
     (''hwmon_chip_temp_samples'', 11), (''hwmon_chip_beep_enable'', 12),
     (''hwmon_chip_pec'', 13)]"

definition enumdecl_hwmon_curr_attributes :: cenum_decl where
  "enumdecl_hwmon_curr_attributes = EnumDecl False [
     (''hwmon_curr_enable'', 0), (''hwmon_curr_input'', 1), (''hwmon_curr_min'', 2),
     (''hwmon_curr_max'', 3), (''hwmon_curr_lcrit'', 4), (''hwmon_curr_crit'', 5),
     (''hwmon_curr_average'', 6), (''hwmon_curr_lowest'', 7), (''hwmon_curr_highest'', 8),
     (''hwmon_curr_reset_history'', 9), (''hwmon_curr_label'', 10), (''hwmon_curr_alarm'', 11),
     (''hwmon_curr_min_alarm'', 12), (''hwmon_curr_max_alarm'', 13),
     (''hwmon_curr_lcrit_alarm'', 14), (''hwmon_curr_crit_alarm'', 15),
     (''hwmon_curr_rated_min'', 16), (''hwmon_curr_rated_max'', 17), (''hwmon_curr_beep'', 18)]"

definition enumdecl_hwmon_energy_attributes :: cenum_decl where
  "enumdecl_hwmon_energy_attributes = EnumDecl False [
     (''hwmon_energy_enable'', 0), (''hwmon_energy_input'', 1), (''hwmon_energy_label'', 2)]"

definition enumdecl_hwmon_fan_attributes :: cenum_decl where
  "enumdecl_hwmon_fan_attributes = EnumDecl False [
     (''hwmon_fan_enable'', 0), (''hwmon_fan_input'', 1), (''hwmon_fan_label'', 2),
     (''hwmon_fan_min'', 3), (''hwmon_fan_max'', 4), (''hwmon_fan_div'', 5),
     (''hwmon_fan_pulses'', 6), (''hwmon_fan_target'', 7), (''hwmon_fan_alarm'', 8),
     (''hwmon_fan_min_alarm'', 9), (''hwmon_fan_max_alarm'', 10), (''hwmon_fan_fault'', 11),
     (''hwmon_fan_beep'', 12)]"

definition enumdecl_hwmon_humidity_attributes :: cenum_decl where
  "enumdecl_hwmon_humidity_attributes = EnumDecl False [
     (''hwmon_humidity_enable'', 0), (''hwmon_humidity_input'', 1),
     (''hwmon_humidity_label'', 2), (''hwmon_humidity_min'', 3),
     (''hwmon_humidity_min_hyst'', 4), (''hwmon_humidity_max'', 5),
     (''hwmon_humidity_max_hyst'', 6), (''hwmon_humidity_alarm'', 7),
     (''hwmon_humidity_fault'', 8), (''hwmon_humidity_rated_min'', 9),
     (''hwmon_humidity_rated_max'', 10), (''hwmon_humidity_min_alarm'', 11),
     (''hwmon_humidity_max_alarm'', 12)]"

definition enumdecl_hwmon_in_attributes :: cenum_decl where
  "enumdecl_hwmon_in_attributes = EnumDecl False [
     (''hwmon_in_enable'', 0), (''hwmon_in_input'', 1), (''hwmon_in_min'', 2),
     (''hwmon_in_max'', 3), (''hwmon_in_lcrit'', 4), (''hwmon_in_crit'', 5),
     (''hwmon_in_average'', 6), (''hwmon_in_lowest'', 7), (''hwmon_in_highest'', 8),
     (''hwmon_in_reset_history'', 9), (''hwmon_in_label'', 10), (''hwmon_in_alarm'', 11),
     (''hwmon_in_min_alarm'', 12), (''hwmon_in_max_alarm'', 13), (''hwmon_in_lcrit_alarm'', 14),
     (''hwmon_in_crit_alarm'', 15), (''hwmon_in_rated_min'', 16), (''hwmon_in_rated_max'', 17),
     (''hwmon_in_beep'', 18), (''hwmon_in_fault'', 19)]"

definition enumdecl_hwmon_intrusion_attributes :: cenum_decl where
  "enumdecl_hwmon_intrusion_attributes = EnumDecl False [
     (''hwmon_intrusion_alarm'', 0), (''hwmon_intrusion_beep'', 1)]"

definition enumdecl_hwmon_power_attributes :: cenum_decl where
  "enumdecl_hwmon_power_attributes = EnumDecl False [
     (''hwmon_power_enable'', 0), (''hwmon_power_average'', 1),
     (''hwmon_power_average_interval'', 2), (''hwmon_power_average_interval_max'', 3),
     (''hwmon_power_average_interval_min'', 4), (''hwmon_power_average_highest'', 5),
     (''hwmon_power_average_lowest'', 6), (''hwmon_power_average_max'', 7),
     (''hwmon_power_average_min'', 8), (''hwmon_power_input'', 9),
     (''hwmon_power_input_highest'', 10), (''hwmon_power_input_lowest'', 11),
     (''hwmon_power_reset_history'', 12), (''hwmon_power_accuracy'', 13),
     (''hwmon_power_cap'', 14), (''hwmon_power_cap_hyst'', 15), (''hwmon_power_cap_max'', 16),
     (''hwmon_power_cap_min'', 17), (''hwmon_power_min'', 18), (''hwmon_power_max'', 19),
     (''hwmon_power_crit'', 20), (''hwmon_power_lcrit'', 21), (''hwmon_power_label'', 22),
     (''hwmon_power_alarm'', 23), (''hwmon_power_cap_alarm'', 24),
     (''hwmon_power_min_alarm'', 25), (''hwmon_power_max_alarm'', 26),
     (''hwmon_power_lcrit_alarm'', 27), (''hwmon_power_crit_alarm'', 28),
     (''hwmon_power_rated_min'', 29), (''hwmon_power_rated_max'', 30)]"

definition enumdecl_hwmon_pwm_attributes :: cenum_decl where
  "enumdecl_hwmon_pwm_attributes = EnumDecl False [
     (''hwmon_pwm_input'', 0), (''hwmon_pwm_enable'', 1), (''hwmon_pwm_mode'', 2),
     (''hwmon_pwm_freq'', 3), (''hwmon_pwm_auto_channels_temp'', 4)]"

definition enumdecl_hwmon_sensor_types :: cenum_decl where
  "enumdecl_hwmon_sensor_types = EnumDecl False [
     (''hwmon_chip'', 0), (''hwmon_temp'', 1), (''hwmon_in'', 2), (''hwmon_curr'', 3),
     (''hwmon_power'', 4), (''hwmon_energy'', 5), (''hwmon_energy64'', 6),
     (''hwmon_humidity'', 7), (''hwmon_fan'', 8), (''hwmon_pwm'', 9), (''hwmon_intrusion'', 10),
     (''hwmon_max'', 11)]"

definition enumdecl_hwmon_temp_attributes :: cenum_decl where
  "enumdecl_hwmon_temp_attributes = EnumDecl False [
     (''hwmon_temp_enable'', 0), (''hwmon_temp_input'', 1), (''hwmon_temp_type'', 2),
     (''hwmon_temp_lcrit'', 3), (''hwmon_temp_lcrit_hyst'', 4), (''hwmon_temp_min'', 5),
     (''hwmon_temp_min_hyst'', 6), (''hwmon_temp_max'', 7), (''hwmon_temp_max_hyst'', 8),
     (''hwmon_temp_crit'', 9), (''hwmon_temp_crit_hyst'', 10), (''hwmon_temp_emergency'', 11),
     (''hwmon_temp_emergency_hyst'', 12), (''hwmon_temp_alarm'', 13),
     (''hwmon_temp_lcrit_alarm'', 14), (''hwmon_temp_min_alarm'', 15),
     (''hwmon_temp_max_alarm'', 16), (''hwmon_temp_crit_alarm'', 17),
     (''hwmon_temp_emergency_alarm'', 18), (''hwmon_temp_fault'', 19),
     (''hwmon_temp_offset'', 20), (''hwmon_temp_label'', 21), (''hwmon_temp_lowest'', 22),
     (''hwmon_temp_highest'', 23), (''hwmon_temp_reset_history'', 24),
     (''hwmon_temp_rated_min'', 25), (''hwmon_temp_rated_max'', 26), (''hwmon_temp_beep'', 27)]"

definition enumdecl_hwp_cpufreq_attr_index :: cenum_decl where
  "enumdecl_hwp_cpufreq_attr_index = EnumDecl False [
     (''HWP_BASE_FREQUENCY_INDEX'', 0), (''HWP_PERFORMANCE_PREFERENCE_INDEX'', 1),
     (''HWP_PERFORMANCE_AVAILABLE_PREFERENCES_INDEX'', 2), (''HWP_CPUFREQ_ATTR_COUNT'', 3)]"

definition enumdecl_hwparam_type :: cenum_decl where
  "enumdecl_hwparam_type = EnumDecl False [
     (''hwparam_ioport'', 0), (''hwparam_iomem'', 1), (''hwparam_ioport_or_iomem'', 2),
     (''hwparam_irq'', 3), (''hwparam_dma'', 4), (''hwparam_dma_addr'', 5),
     (''hwparam_other'', 6)]"

definition enumdecl_hwtstamp_flags :: cenum_decl where
  "enumdecl_hwtstamp_flags = EnumDecl False [
     (''HWTSTAMP_FLAG_BONDED_PHC_INDEX'', 1), (''HWTSTAMP_FLAG_LAST'', 1),
     (''HWTSTAMP_FLAG_MASK'', 1)]"

definition enumdecl_hwtstamp_provider_qualifier :: cenum_decl where
  "enumdecl_hwtstamp_provider_qualifier = EnumDecl False [
     (''HWTSTAMP_PROVIDER_QUALIFIER_PRECISE'', 0), (''HWTSTAMP_PROVIDER_QUALIFIER_APPROX'', 1),
     (''HWTSTAMP_PROVIDER_QUALIFIER_CNT'', 2)]"

definition enumdecl_hwtstamp_rx_filters :: cenum_decl where
  "enumdecl_hwtstamp_rx_filters = EnumDecl False [
     (''HWTSTAMP_FILTER_NONE'', 0), (''HWTSTAMP_FILTER_ALL'', 1), (''HWTSTAMP_FILTER_SOME'', 2),
     (''HWTSTAMP_FILTER_PTP_V1_L4_EVENT'', 3), (''HWTSTAMP_FILTER_PTP_V1_L4_SYNC'', 4),
     (''HWTSTAMP_FILTER_PTP_V1_L4_DELAY_REQ'', 5), (''HWTSTAMP_FILTER_PTP_V2_L4_EVENT'', 6),
     (''HWTSTAMP_FILTER_PTP_V2_L4_SYNC'', 7), (''HWTSTAMP_FILTER_PTP_V2_L4_DELAY_REQ'', 8),
     (''HWTSTAMP_FILTER_PTP_V2_L2_EVENT'', 9), (''HWTSTAMP_FILTER_PTP_V2_L2_SYNC'', 10),
     (''HWTSTAMP_FILTER_PTP_V2_L2_DELAY_REQ'', 11), (''HWTSTAMP_FILTER_PTP_V2_EVENT'', 12),
     (''HWTSTAMP_FILTER_PTP_V2_SYNC'', 13), (''HWTSTAMP_FILTER_PTP_V2_DELAY_REQ'', 14),
     (''HWTSTAMP_FILTER_NTP_ALL'', 15), (''__HWTSTAMP_FILTER_CNT'', 16)]"

definition enumdecl_hwtstamp_source :: cenum_decl where
  "enumdecl_hwtstamp_source = EnumDecl False [
     (''HWTSTAMP_SOURCE_NETDEV'', 1), (''HWTSTAMP_SOURCE_PHYLIB'', 2)]"

definition enumdecl_hwtstamp_tx_types :: cenum_decl where
  "enumdecl_hwtstamp_tx_types = EnumDecl False [
     (''HWTSTAMP_TX_OFF'', 0), (''HWTSTAMP_TX_ON'', 1), (''HWTSTAMP_TX_ONESTEP_SYNC'', 2),
     (''HWTSTAMP_TX_ONESTEP_P2P'', 3), (''__HWTSTAMP_TX_CNT'', 4)]"

definition enumdecl_hybrid_pmu_type :: cenum_decl where
  "enumdecl_hybrid_pmu_type = EnumDecl False [
     (''not_hybrid'', 0), (''hybrid_small'', 1), (''hybrid_big'', 2), (''hybrid_tiny'', 4),
     (''hybrid_big_small'', 3), (''hybrid_small_tiny'', 5), (''hybrid_big_small_tiny'', 7)]"

definition enumdecl_i2c_alert_protocol :: cenum_decl where
  "enumdecl_i2c_alert_protocol = EnumDecl False [
     (''I2C_PROTOCOL_SMBUS_ALERT'', 0), (''I2C_PROTOCOL_SMBUS_HOST_NOTIFY'', 1)]"

definition enumdecl_i2c_driver_flags :: cenum_decl where
  "enumdecl_i2c_driver_flags = EnumDecl False [
     (''I2C_DRV_ACPI_WAIVE_D0_PROBE'', 1)]"

definition enumdecl_i2c_slave_event :: cenum_decl where
  "enumdecl_i2c_slave_event = EnumDecl False enum_i2c_slave_event"

definition enumdecl_i8042_controller_reset_mode :: cenum_decl where
  "enumdecl_i8042_controller_reset_mode = EnumDecl False [
     (''I8042_RESET_NEVER'', 0), (''I8042_RESET_ALWAYS'', 1), (''I8042_RESET_ON_S2RAM'', 2)]"

definition enumdecl_ib_atomic_cap :: cenum_decl where
  "enumdecl_ib_atomic_cap = EnumDecl False [
     (''IB_ATOMIC_NONE'', 0), (''IB_ATOMIC_HCA'', 1), (''IB_ATOMIC_GLOB'', 2)]"

definition enumdecl_ib_cq_notify_flags :: cenum_decl where
  "enumdecl_ib_cq_notify_flags = EnumDecl False [
     (''IB_CQ_SOLICITED'', 1), (''IB_CQ_NEXT_COMP'', 2), (''IB_CQ_SOLICITED_MASK'', 3),
     (''IB_CQ_REPORT_MISSED_EVENTS'', 4)]"

definition enumdecl_ib_event_type :: cenum_decl where
  "enumdecl_ib_event_type = EnumDecl False [
     (''IB_EVENT_CQ_ERR'', 0), (''IB_EVENT_QP_FATAL'', 1), (''IB_EVENT_QP_REQ_ERR'', 2),
     (''IB_EVENT_QP_ACCESS_ERR'', 3), (''IB_EVENT_COMM_EST'', 4), (''IB_EVENT_SQ_DRAINED'', 5),
     (''IB_EVENT_PATH_MIG'', 6), (''IB_EVENT_PATH_MIG_ERR'', 7), (''IB_EVENT_DEVICE_FATAL'', 8),
     (''IB_EVENT_PORT_ACTIVE'', 9), (''IB_EVENT_PORT_ERR'', 10), (''IB_EVENT_LID_CHANGE'', 11),
     (''IB_EVENT_PKEY_CHANGE'', 12), (''IB_EVENT_SM_CHANGE'', 13), (''IB_EVENT_SRQ_ERR'', 14),
     (''IB_EVENT_SRQ_LIMIT_REACHED'', 15), (''IB_EVENT_QP_LAST_WQE_REACHED'', 16),
     (''IB_EVENT_CLIENT_REREGISTER'', 17), (''IB_EVENT_GID_CHANGE'', 18),
     (''IB_EVENT_WQ_FATAL'', 19), (''IB_EVENT_DEVICE_SPEED_CHANGE'', 20)]"

definition enumdecl_ib_flow_action_type :: cenum_decl where
  "enumdecl_ib_flow_action_type = EnumDecl False [
     (''IB_FLOW_ACTION_UNSPECIFIED'', 0), (''IB_FLOW_ACTION_ESP'', 1)]"

definition enumdecl_ib_flow_attr_type :: cenum_decl where
  "enumdecl_ib_flow_attr_type = EnumDecl False [
     (''IB_FLOW_ATTR_NORMAL'', 0), (''IB_FLOW_ATTR_ALL_DEFAULT'', 1),
     (''IB_FLOW_ATTR_MC_DEFAULT'', 2), (''IB_FLOW_ATTR_SNIFFER'', 3)]"

definition enumdecl_ib_flow_spec_type :: cenum_decl where
  "enumdecl_ib_flow_spec_type = EnumDecl False [
     (''IB_FLOW_SPEC_ETH'', 32), (''IB_FLOW_SPEC_IB'', 34), (''IB_FLOW_SPEC_IPV4'', 48),
     (''IB_FLOW_SPEC_IPV6'', 49), (''IB_FLOW_SPEC_ESP'', 52), (''IB_FLOW_SPEC_TCP'', 64),
     (''IB_FLOW_SPEC_UDP'', 65), (''IB_FLOW_SPEC_VXLAN_TUNNEL'', 80), (''IB_FLOW_SPEC_GRE'', 81),
     (''IB_FLOW_SPEC_MPLS'', 96), (''IB_FLOW_SPEC_INNER'', 256),
     (''IB_FLOW_SPEC_ACTION_TAG'', 4096), (''IB_FLOW_SPEC_ACTION_DROP'', 4097),
     (''IB_FLOW_SPEC_ACTION_HANDLE'', 4098), (''IB_FLOW_SPEC_ACTION_COUNT'', 4099)]"

definition enumdecl_ib_gid_type :: cenum_decl where
  "enumdecl_ib_gid_type = EnumDecl False [
     (''IB_GID_TYPE_IB'', 0), (''IB_GID_TYPE_ROCE'', 1), (''IB_GID_TYPE_ROCE_UDP_ENCAP'', 2),
     (''IB_GID_TYPE_SIZE'', 3)]"

definition enumdecl_ib_mig_state :: cenum_decl where
  "enumdecl_ib_mig_state = EnumDecl False [
     (''IB_MIG_MIGRATED'', 0), (''IB_MIG_REARM'', 1), (''IB_MIG_ARMED'', 2)]"

definition enumdecl_ib_mr_type :: cenum_decl where
  "enumdecl_ib_mr_type = EnumDecl False [
     (''IB_MR_TYPE_MEM_REG'', 0), (''IB_MR_TYPE_SG_GAPS'', 1), (''IB_MR_TYPE_DM'', 2),
     (''IB_MR_TYPE_USER'', 3), (''IB_MR_TYPE_DMA'', 4), (''IB_MR_TYPE_INTEGRITY'', 5)]"

definition enumdecl_ib_mtu :: cenum_decl where
  "enumdecl_ib_mtu = EnumDecl False [
     (''IB_MTU_256'', 1), (''IB_MTU_512'', 2), (''IB_MTU_1024'', 3), (''IB_MTU_2048'', 4),
     (''IB_MTU_4096'', 5)]"

definition enumdecl_ib_mw_type :: cenum_decl where
  "enumdecl_ib_mw_type = EnumDecl False [
     (''IB_MW_TYPE_1'', 1), (''IB_MW_TYPE_2'', 2)]"

definition enumdecl_ib_poll_context :: cenum_decl where
  "enumdecl_ib_poll_context = EnumDecl False [
     (''IB_POLL_SOFTIRQ'', 0), (''IB_POLL_WORKQUEUE'', 1), (''IB_POLL_UNBOUND_WORKQUEUE'', 2),
     (''IB_POLL_LAST_POOL_TYPE'', 2), (''IB_POLL_DIRECT'', 3)]"

definition enumdecl_ib_port_state :: cenum_decl where
  "enumdecl_ib_port_state = EnumDecl False [
     (''IB_PORT_NOP'', 0), (''IB_PORT_DOWN'', 1), (''IB_PORT_INIT'', 2), (''IB_PORT_ARMED'', 3),
     (''IB_PORT_ACTIVE'', 4), (''IB_PORT_ACTIVE_DEFER'', 5)]"

definition enumdecl_ib_qp_state :: cenum_decl where
  "enumdecl_ib_qp_state = EnumDecl False [
     (''IB_QPS_RESET'', 0), (''IB_QPS_INIT'', 1), (''IB_QPS_RTR'', 2), (''IB_QPS_RTS'', 3),
     (''IB_QPS_SQD'', 4), (''IB_QPS_SQE'', 5), (''IB_QPS_ERR'', 6)]"

definition enumdecl_ib_qp_type :: cenum_decl where
  "enumdecl_ib_qp_type = EnumDecl False [
     (''IB_QPT_SMI'', 0), (''IB_QPT_GSI'', 1), (''IB_QPT_RC'', 2), (''IB_QPT_UC'', 3),
     (''IB_QPT_UD'', 4), (''IB_QPT_RAW_IPV6'', 5), (''IB_QPT_RAW_ETHERTYPE'', 6),
     (''IB_QPT_RAW_PACKET'', 8), (''IB_QPT_XRC_INI'', 9), (''IB_QPT_XRC_TGT'', 10),
     (''IB_QPT_MAX'', 11), (''IB_QPT_DRIVER'', 255), (''IB_QPT_RESERVED1'', 4096),
     (''IB_QPT_RESERVED2'', 4097), (''IB_QPT_RESERVED3'', 4098), (''IB_QPT_RESERVED4'', 4099),
     (''IB_QPT_RESERVED5'', 4100), (''IB_QPT_RESERVED6'', 4101), (''IB_QPT_RESERVED7'', 4102),
     (''IB_QPT_RESERVED8'', 4103), (''IB_QPT_RESERVED9'', 4104), (''IB_QPT_RESERVED10'', 4105)]"

definition enumdecl_ib_sig_err_type :: cenum_decl where
  "enumdecl_ib_sig_err_type = EnumDecl False [
     (''IB_SIG_BAD_GUARD'', 0), (''IB_SIG_BAD_REFTAG'', 1), (''IB_SIG_BAD_APPTAG'', 2)]"

definition enumdecl_ib_sig_type :: cenum_decl where
  "enumdecl_ib_sig_type = EnumDecl False [
     (''IB_SIGNAL_ALL_WR'', 0), (''IB_SIGNAL_REQ_WR'', 1)]"

definition enumdecl_ib_signature_type :: cenum_decl where
  "enumdecl_ib_signature_type = EnumDecl False [
     (''IB_SIG_TYPE_NONE'', 0), (''IB_SIG_TYPE_T10_DIF'', 1)]"

definition enumdecl_ib_srq_attr_mask :: cenum_decl where
  "enumdecl_ib_srq_attr_mask = EnumDecl False [
     (''IB_SRQ_MAX_WR'', 1), (''IB_SRQ_LIMIT'', 2)]"

definition enumdecl_ib_srq_type :: cenum_decl where
  "enumdecl_ib_srq_type = EnumDecl False [
     (''IB_SRQT_BASIC'', 0), (''IB_SRQT_XRC'', 1), (''IB_SRQT_TM'', 2)]"

definition enumdecl_ib_t10_dif_bg_type :: cenum_decl where
  "enumdecl_ib_t10_dif_bg_type = EnumDecl False [
     (''IB_T10DIF_CRC'', 0), (''IB_T10DIF_CSUM'', 1)]"

definition enumdecl_ib_uverbs_access_flags :: cenum_decl where
  "enumdecl_ib_uverbs_access_flags = EnumDecl False [
     (''IB_UVERBS_ACCESS_LOCAL_WRITE'', 1), (''IB_UVERBS_ACCESS_REMOTE_WRITE'', 2),
     (''IB_UVERBS_ACCESS_REMOTE_READ'', 4), (''IB_UVERBS_ACCESS_REMOTE_ATOMIC'', 8),
     (''IB_UVERBS_ACCESS_MW_BIND'', 16), (''IB_UVERBS_ACCESS_ZERO_BASED'', 32),
     (''IB_UVERBS_ACCESS_ON_DEMAND'', 64), (''IB_UVERBS_ACCESS_HUGETLB'', 128),
     (''IB_UVERBS_ACCESS_FLUSH_GLOBAL'', 256), (''IB_UVERBS_ACCESS_FLUSH_PERSISTENT'', 512),
     (''IB_UVERBS_ACCESS_RELAXED_ORDERING'', 1048576),
     (''IB_UVERBS_ACCESS_OPTIONAL_RANGE'', 1072693248)]"

definition enumdecl_ib_uverbs_advise_mr_advice :: cenum_decl where
  "enumdecl_ib_uverbs_advise_mr_advice = EnumDecl False [
     (''IB_UVERBS_ADVISE_MR_ADVICE_PREFETCH'', 0),
     (''IB_UVERBS_ADVISE_MR_ADVICE_PREFETCH_WRITE'', 1),
     (''IB_UVERBS_ADVISE_MR_ADVICE_PREFETCH_NO_FAULT'', 2)]"

definition enum_decls_12 :: "cenum_decl list" where
  "enum_decls_12 = [
     enumdecl_folio_references, enumdecl_folio_walk_level, enumdecl_format_state,
     enumdecl_fortify_func, enumdecl_fpdt_record_type, enumdecl_fpdt_subtable_type,
     enumdecl_freeze_holder, enumdecl_freezer_state_flags, enumdecl_freq_qos_req_type,
     enumdecl_fs_context_phase, enumdecl_fs_context_purpose, enumdecl_fs_update_time,
     enumdecl_fs_value_type, enumdecl_fsconfig_command, enumdecl_fserror_type,
     enumdecl_fsl_mc_pool_type, enumdecl_fsnotify_data_type, enumdecl_fsnotify_group_prio,
     enumdecl_fsnotify_iter_type, enumdecl_fsnotify_obj_type, enumdecl_ftrace_bug_type,
     enumdecl_ftrace_dump_mode, enumdecl_ftrace_ops_cmd, enumdecl_fullness_group,
     enumdecl_fuse_dax_mode, enumdecl_fuse_ext_type, enumdecl_fuse_notify_code,
     enumdecl_fuse_opcode, enumdecl_fuse_parse_result, enumdecl_fuse_req_flag,
     enumdecl_fuse_ring_req_state, enumdecl_fuse_uring_cmd, enumdecl_futex_access,
     enumdecl_fw_opt, enumdecl_fw_resource_type, enumdecl_fw_status, enumdecl_fw_upload_err,
     enumdecl_fw_upload_prog, enumdecl_gds_mitigations, enumdecl_genl_validate_flags,
     enumdecl_genpd_notication, enumdecl_genpd_sync_state, enumdecl_gpd_status,
     enumdecl_gpio_lookup_flags, enumdecl_gpio_select, enumdecl_gpio_v2_line_attr_id,
     enumdecl_gpio_v2_line_changed_type, enumdecl_gpio_v2_line_event_id,
     enumdecl_gpio_v2_line_flag, enumdecl_gpiod_flags, enumdecl_graph_filter_type,
     enumdecl_gre_conntrack, enumdecl_gro_result, enumdecl_group_type,
     enumdecl_handle_to_path_flags, enumdecl_handler_id, enumdecl_handshake_auth,
     enumdecl_handshake_handler_class, enumdecl_handshake_msg_type, enumdecl_hash_algo,
     enumdecl_hash_pointers_policy, enumdecl_hctx_type, enumdecl_hdmi_3d_structure,
     enumdecl_hdmi_active_aspect, enumdecl_hdmi_audio_coding_type,
     enumdecl_hdmi_audio_coding_type_ext, enumdecl_hdmi_audio_sample_frequency,
     enumdecl_hdmi_audio_sample_size, enumdecl_hdmi_colorimetry, enumdecl_hdmi_colorspace,
     enumdecl_hdmi_content_type, enumdecl_hdmi_eotf, enumdecl_hdmi_extended_colorimetry,
     enumdecl_hdmi_infoframe_type, enumdecl_hdmi_metadata_type, enumdecl_hdmi_nups,
     enumdecl_hdmi_picture_aspect, enumdecl_hdmi_quantization_range, enumdecl_hdmi_scan_mode,
     enumdecl_hdmi_spd_sdi, enumdecl_hdmi_ycc_quantization_range, enumdecl_header_fields,
     enumdecl_header_opt, enumdecl_hest_status, enumdecl_hid_battery_status,
     enumdecl_hid_class_request, enumdecl_hid_report_type, enumdecl_hid_type,
     enumdecl_hist_field_flags, enumdecl_hist_field_fn, enumdecl_hk_flags, enumdecl_hk_type,
     enumdecl_hn_flags_bits, enumdecl_hp_flags_bits, enumdecl_hpet_mode, enumdecl_hprobe_state,
     enumdecl_hpx_type3_cfg_loc, enumdecl_hpx_type3_dev_type, enumdecl_hpx_type3_fn_type,
     enumdecl_hr_flags_bits, enumdecl_hrtimer_base_type, enumdecl_hrtimer_mode,
     enumdecl_hrtimer_restart, enumdecl_hsm_task_states, enumdecl_hte_edge, enumdecl_hte_return,
     enumdecl_hub_activation_type, enumdecl_hub_quiescing_type, enumdecl_hugetlb_memory_event,
     enumdecl_hugetlb_page_flags, enumdecl_hugetlb_param, enumdecl_hugetlbfs_size_type,
     enumdecl_hv_crashdump_action, enumdecl_hv_device_type, enumdecl_hv_generic_set_format,
     enumdecl_hv_interrupt_trigger_mode, enumdecl_hv_interrupt_type, enumdecl_hv_isolation_type,
     enumdecl_hv_mem_host_visibility, enumdecl_hv_partition_event, enumdecl_hv_partition_type,
     enumdecl_hv_sleep_state, enumdecl_hv_system_property, enumdecl_hv_tlb_flush_fifos,
     enumdecl_hv_tsc_page_status, enumdecl_hvmmem_type_t, enumdecl_hw_event_mc_err_type,
     enumdecl_hw_protection_action, enumdecl_hwerr_error_type, enumdecl_hwmon_chip_attributes,
     enumdecl_hwmon_curr_attributes, enumdecl_hwmon_energy_attributes,
     enumdecl_hwmon_fan_attributes, enumdecl_hwmon_humidity_attributes,
     enumdecl_hwmon_in_attributes, enumdecl_hwmon_intrusion_attributes,
     enumdecl_hwmon_power_attributes, enumdecl_hwmon_pwm_attributes, enumdecl_hwmon_sensor_types,
     enumdecl_hwmon_temp_attributes, enumdecl_hwp_cpufreq_attr_index, enumdecl_hwparam_type,
     enumdecl_hwtstamp_flags, enumdecl_hwtstamp_provider_qualifier, enumdecl_hwtstamp_rx_filters,
     enumdecl_hwtstamp_source, enumdecl_hwtstamp_tx_types, enumdecl_hybrid_pmu_type,
     enumdecl_i2c_alert_protocol, enumdecl_i2c_driver_flags, enumdecl_i2c_slave_event,
     enumdecl_i8042_controller_reset_mode, enumdecl_ib_atomic_cap, enumdecl_ib_cq_notify_flags,
     enumdecl_ib_event_type, enumdecl_ib_flow_action_type, enumdecl_ib_flow_attr_type,
     enumdecl_ib_flow_spec_type, enumdecl_ib_gid_type, enumdecl_ib_mig_state,
     enumdecl_ib_mr_type, enumdecl_ib_mtu, enumdecl_ib_mw_type, enumdecl_ib_poll_context,
     enumdecl_ib_port_state, enumdecl_ib_qp_state, enumdecl_ib_qp_type, enumdecl_ib_sig_err_type,
     enumdecl_ib_sig_type, enumdecl_ib_signature_type, enumdecl_ib_srq_attr_mask,
     enumdecl_ib_srq_type, enumdecl_ib_t10_dif_bg_type, enumdecl_ib_uverbs_access_flags,
     enumdecl_ib_uverbs_advise_mr_advice]"

lemma enum_decls_12_4: "list_all enum4 enum_decls_12"
  by (unfold enum_decls_12_def
     enumdecl_folio_references_def enumdecl_folio_walk_level_def enumdecl_format_state_def
     enumdecl_fortify_func_def enumdecl_fpdt_record_type_def enumdecl_fpdt_subtable_type_def
     enumdecl_freeze_holder_def enumdecl_freezer_state_flags_def
     enumdecl_freq_qos_req_type_def enumdecl_fs_context_phase_def
     enumdecl_fs_context_purpose_def enumdecl_fs_update_time_def enumdecl_fs_value_type_def
     enumdecl_fsconfig_command_def enumdecl_fserror_type_def enumdecl_fsl_mc_pool_type_def
     enumdecl_fsnotify_data_type_def enumdecl_fsnotify_group_prio_def
     enumdecl_fsnotify_iter_type_def enumdecl_fsnotify_obj_type_def
     enumdecl_ftrace_bug_type_def enumdecl_ftrace_dump_mode_def enumdecl_ftrace_ops_cmd_def
     enumdecl_fullness_group_def enumdecl_fuse_dax_mode_def enumdecl_fuse_ext_type_def
     enumdecl_fuse_notify_code_def enumdecl_fuse_opcode_def enum_fuse_opcode_def
     enumdecl_fuse_parse_result_def enumdecl_fuse_req_flag_def
     enumdecl_fuse_ring_req_state_def enumdecl_fuse_uring_cmd_def enumdecl_futex_access_def
     enumdecl_fw_opt_def enumdecl_fw_resource_type_def enumdecl_fw_status_def
     enumdecl_fw_upload_err_def enumdecl_fw_upload_prog_def enumdecl_gds_mitigations_def
     enumdecl_genl_validate_flags_def enumdecl_genpd_notication_def
     enumdecl_genpd_sync_state_def enumdecl_gpd_status_def enumdecl_gpio_lookup_flags_def
     enumdecl_gpio_select_def enumdecl_gpio_v2_line_attr_id_def
     enumdecl_gpio_v2_line_changed_type_def enumdecl_gpio_v2_line_event_id_def
     enumdecl_gpio_v2_line_flag_def enumdecl_gpiod_flags_def enumdecl_graph_filter_type_def
     enumdecl_gre_conntrack_def enumdecl_gro_result_def enumdecl_group_type_def
     enumdecl_handle_to_path_flags_def enumdecl_handler_id_def enumdecl_handshake_auth_def
     enumdecl_handshake_handler_class_def enumdecl_handshake_msg_type_def
     enumdecl_hash_algo_def enumdecl_hash_pointers_policy_def enumdecl_hctx_type_def
     enumdecl_hdmi_3d_structure_def enumdecl_hdmi_active_aspect_def
     enumdecl_hdmi_audio_coding_type_def enumdecl_hdmi_audio_coding_type_ext_def
     enumdecl_hdmi_audio_sample_frequency_def enumdecl_hdmi_audio_sample_size_def
     enumdecl_hdmi_colorimetry_def enumdecl_hdmi_colorspace_def enumdecl_hdmi_content_type_def
     enumdecl_hdmi_eotf_def enumdecl_hdmi_extended_colorimetry_def
     enumdecl_hdmi_infoframe_type_def enumdecl_hdmi_metadata_type_def enumdecl_hdmi_nups_def
     enumdecl_hdmi_picture_aspect_def enumdecl_hdmi_quantization_range_def
     enumdecl_hdmi_scan_mode_def enumdecl_hdmi_spd_sdi_def
     enumdecl_hdmi_ycc_quantization_range_def enumdecl_header_fields_def
     enumdecl_header_opt_def enumdecl_hest_status_def enumdecl_hid_battery_status_def
     enumdecl_hid_class_request_def enumdecl_hid_report_type_def enumdecl_hid_type_def
     enumdecl_hist_field_flags_def enumdecl_hist_field_fn_def enumdecl_hk_flags_def
     enumdecl_hk_type_def enumdecl_hn_flags_bits_def enumdecl_hp_flags_bits_def
     enumdecl_hpet_mode_def enumdecl_hprobe_state_def enumdecl_hpx_type3_cfg_loc_def
     enumdecl_hpx_type3_dev_type_def enumdecl_hpx_type3_fn_type_def enumdecl_hr_flags_bits_def
     enumdecl_hrtimer_base_type_def enumdecl_hrtimer_mode_def enum_hrtimer_mode_def
     enumdecl_hrtimer_restart_def enumdecl_hsm_task_states_def enumdecl_hte_edge_def
     enumdecl_hte_return_def enumdecl_hub_activation_type_def enumdecl_hub_quiescing_type_def
     enumdecl_hugetlb_memory_event_def enumdecl_hugetlb_page_flags_def
     enumdecl_hugetlb_param_def enumdecl_hugetlbfs_size_type_def
     enumdecl_hv_crashdump_action_def enumdecl_hv_device_type_def
     enumdecl_hv_generic_set_format_def enumdecl_hv_interrupt_trigger_mode_def
     enumdecl_hv_interrupt_type_def enumdecl_hv_isolation_type_def
     enumdecl_hv_mem_host_visibility_def enumdecl_hv_partition_event_def
     enumdecl_hv_partition_type_def enumdecl_hv_sleep_state_def
     enumdecl_hv_system_property_def enumdecl_hv_tlb_flush_fifos_def
     enumdecl_hv_tsc_page_status_def enumdecl_hvmmem_type_t_def
     enumdecl_hw_event_mc_err_type_def enumdecl_hw_protection_action_def
     enumdecl_hwerr_error_type_def enumdecl_hwmon_chip_attributes_def
     enumdecl_hwmon_curr_attributes_def enumdecl_hwmon_energy_attributes_def
     enumdecl_hwmon_fan_attributes_def enumdecl_hwmon_humidity_attributes_def
     enumdecl_hwmon_in_attributes_def enumdecl_hwmon_intrusion_attributes_def
     enumdecl_hwmon_power_attributes_def enumdecl_hwmon_pwm_attributes_def
     enumdecl_hwmon_sensor_types_def enumdecl_hwmon_temp_attributes_def
     enumdecl_hwp_cpufreq_attr_index_def enumdecl_hwparam_type_def enumdecl_hwtstamp_flags_def
     enumdecl_hwtstamp_provider_qualifier_def enumdecl_hwtstamp_rx_filters_def
     enumdecl_hwtstamp_source_def enumdecl_hwtstamp_tx_types_def enumdecl_hybrid_pmu_type_def
     enumdecl_i2c_alert_protocol_def enumdecl_i2c_driver_flags_def
     enumdecl_i2c_slave_event_def enum_i2c_slave_event_def
     enumdecl_i8042_controller_reset_mode_def enumdecl_ib_atomic_cap_def
     enumdecl_ib_cq_notify_flags_def enumdecl_ib_event_type_def
     enumdecl_ib_flow_action_type_def enumdecl_ib_flow_attr_type_def
     enumdecl_ib_flow_spec_type_def enumdecl_ib_gid_type_def enumdecl_ib_mig_state_def
     enumdecl_ib_mr_type_def enumdecl_ib_mtu_def enumdecl_ib_mw_type_def
     enumdecl_ib_poll_context_def enumdecl_ib_port_state_def enumdecl_ib_qp_state_def
     enumdecl_ib_qp_type_def enumdecl_ib_sig_err_type_def enumdecl_ib_sig_type_def
     enumdecl_ib_signature_type_def enumdecl_ib_srq_attr_mask_def enumdecl_ib_srq_type_def
     enumdecl_ib_t10_dif_bg_type_def enumdecl_ib_uverbs_access_flags_def
     enumdecl_ib_uverbs_advise_mr_advice_def)
    (intro enum_list_intros enum_int_intros; simp)

lemma enum_fuse_opcode_listed: "EnumDecl False enum_fuse_opcode \<in> set enum_decls_12"
  by (simp add: enum_decls_12_def flip: enumdecl_fuse_opcode_def)

lemma enum_hrtimer_mode_listed: "EnumDecl False enum_hrtimer_mode \<in> set enum_decls_12"
  by (simp add: enum_decls_12_def flip: enumdecl_hrtimer_mode_def)

lemma enum_i2c_slave_event_listed: "EnumDecl False enum_i2c_slave_event \<in> set enum_decls_12"
  by (simp add: enum_decls_12_def flip: enumdecl_i2c_slave_event_def)

lemma length_enum_decls_12: "length enum_decls_12 = 175"
  by (simp add: enum_decls_12_def)

end
