(* ===== verification/VmlinuxEnum13.thy ===== *)
theory VmlinuxEnum13
  imports EnumDecl
begin

text \<open>
  The enumerations of four bytes of \<^verbatim>\<open>src/internal/ebpf/vmlinux.h\<close> between lines 20027 and
  21684, one definition per enumeration, enumerators in order. An enumeration without a tag is
  named after the line it starts on.
\<close>

definition enumdecl_ib_uverbs_gid_type :: cenum_decl where
  "enumdecl_ib_uverbs_gid_type = EnumDecl False [
     (''IB_UVERBS_GID_TYPE_IB'', 0), (''IB_UVERBS_GID_TYPE_ROCE_V1'', 1),
     (''IB_UVERBS_GID_TYPE_ROCE_V2'', 2)]"

definition enumdecl_ib_uverbs_odp_general_cap_bits :: cenum_decl where
  "enumdecl_ib_uverbs_odp_general_cap_bits = EnumDecl False [
     (''IB_UVERBS_ODP_SUPPORT'', 1), (''IB_UVERBS_ODP_SUPPORT_IMPLICIT'', 2)]"

definition enumdecl_ib_uverbs_odp_transport_cap_bits :: cenum_decl where
  "enumdecl_ib_uverbs_odp_transport_cap_bits = EnumDecl False [
     (''IB_UVERBS_ODP_SUPPORT_SEND'', 1), (''IB_UVERBS_ODP_SUPPORT_RECV'', 2),
     (''IB_UVERBS_ODP_SUPPORT_WRITE'', 4), (''IB_UVERBS_ODP_SUPPORT_READ'', 8),
     (''IB_UVERBS_ODP_SUPPORT_ATOMIC'', 16), (''IB_UVERBS_ODP_SUPPORT_SRQ_RECV'', 32),
     (''IB_UVERBS_ODP_SUPPORT_FLUSH'', 64), (''IB_UVERBS_ODP_SUPPORT_ATOMIC_WRITE'', 128)]"

definition enumdecl_ib_uverbs_qp_create_flags :: cenum_decl where
  "enumdecl_ib_uverbs_qp_create_flags = EnumDecl False [
     (''IB_UVERBS_QP_CREATE_BLOCK_MULTICAST_LOOPBACK'', 2),
     (''IB_UVERBS_QP_CREATE_SCATTER_FCS'', 256), (''IB_UVERBS_QP_CREATE_CVLAN_STRIPPING'', 512),
     (''IB_UVERBS_QP_CREATE_PCI_WRITE_END_PADDING'', 2048),
     (''IB_UVERBS_QP_CREATE_SQ_SIG_ALL'', 4096)]"

definition enumdecl_ib_uverbs_qp_type :: cenum_decl where
  "enumdecl_ib_uverbs_qp_type = EnumDecl False [
     (''IB_UVERBS_QPT_RC'', 2), (''IB_UVERBS_QPT_UC'', 3), (''IB_UVERBS_QPT_UD'', 4),
     (''IB_UVERBS_QPT_RAW_PACKET'', 8), (''IB_UVERBS_QPT_XRC_INI'', 9),
     (''IB_UVERBS_QPT_XRC_TGT'', 10), (''IB_UVERBS_QPT_DRIVER'', 255)]"

definition enumdecl_ib_uverbs_raw_packet_caps :: cenum_decl where
  "enumdecl_ib_uverbs_raw_packet_caps = EnumDecl False [
     (''IB_UVERBS_RAW_PACKET_CAP_CVLAN_STRIPPING'', 1),
     (''IB_UVERBS_RAW_PACKET_CAP_SCATTER_FCS'', 2), (''IB_UVERBS_RAW_PACKET_CAP_IP_CSUM'', 4),
     (''IB_UVERBS_RAW_PACKET_CAP_DELAY_DROP'', 8)]"

definition enumdecl_ib_uverbs_srq_type :: cenum_decl where
  "enumdecl_ib_uverbs_srq_type = EnumDecl False [
     (''IB_UVERBS_SRQT_BASIC'', 0), (''IB_UVERBS_SRQT_XRC'', 1), (''IB_UVERBS_SRQT_TM'', 2)]"

definition enumdecl_ib_uverbs_wc_opcode :: cenum_decl where
  "enumdecl_ib_uverbs_wc_opcode = EnumDecl False [
     (''IB_UVERBS_WC_SEND'', 0), (''IB_UVERBS_WC_RDMA_WRITE'', 1),
     (''IB_UVERBS_WC_RDMA_READ'', 2), (''IB_UVERBS_WC_COMP_SWAP'', 3),
     (''IB_UVERBS_WC_FETCH_ADD'', 4), (''IB_UVERBS_WC_BIND_MW'', 5),
     (''IB_UVERBS_WC_LOCAL_INV'', 6), (''IB_UVERBS_WC_TSO'', 7), (''IB_UVERBS_WC_FLUSH'', 8),
     (''IB_UVERBS_WC_ATOMIC_WRITE'', 9)]"

definition enumdecl_ib_uverbs_wq_flags :: cenum_decl where
  "enumdecl_ib_uverbs_wq_flags = EnumDecl False [
     (''IB_UVERBS_WQ_FLAGS_CVLAN_STRIPPING'', 1), (''IB_UVERBS_WQ_FLAGS_SCATTER_FCS'', 2),
     (''IB_UVERBS_WQ_FLAGS_DELAY_DROP'', 4), (''IB_UVERBS_WQ_FLAGS_PCI_WRITE_END_PADDING'', 8)]"

definition enumdecl_ib_uverbs_wq_type :: cenum_decl where
  "enumdecl_ib_uverbs_wq_type = EnumDecl False [
     (''IB_UVERBS_WQT_RQ'', 0)]"

definition enumdecl_ib_uverbs_wr_opcode :: cenum_decl where
  "enumdecl_ib_uverbs_wr_opcode = EnumDecl False [
     (''IB_UVERBS_WR_RDMA_WRITE'', 0), (''IB_UVERBS_WR_RDMA_WRITE_WITH_IMM'', 1),
     (''IB_UVERBS_WR_SEND'', 2), (''IB_UVERBS_WR_SEND_WITH_IMM'', 3),
     (''IB_UVERBS_WR_RDMA_READ'', 4), (''IB_UVERBS_WR_ATOMIC_CMP_AND_SWP'', 5),
     (''IB_UVERBS_WR_ATOMIC_FETCH_AND_ADD'', 6), (''IB_UVERBS_WR_LOCAL_INV'', 7),
     (''IB_UVERBS_WR_BIND_MW'', 8), (''IB_UVERBS_WR_SEND_WITH_INV'', 9),
     (''IB_UVERBS_WR_TSO'', 10), (''IB_UVERBS_WR_RDMA_READ_WITH_INV'', 11),
     (''IB_UVERBS_WR_MASKED_ATOMIC_CMP_AND_SWP'', 12),
     (''IB_UVERBS_WR_MASKED_ATOMIC_FETCH_AND_ADD'', 13), (''IB_UVERBS_WR_FLUSH'', 14),
     (''IB_UVERBS_WR_ATOMIC_WRITE'', 15)]"

definition enumdecl_ib_wc_opcode :: cenum_decl where
  "enumdecl_ib_wc_opcode = EnumDecl False [
     (''IB_WC_SEND'', 0), (''IB_WC_RDMA_WRITE'', 1), (''IB_WC_RDMA_READ'', 2),
     (''IB_WC_COMP_SWAP'', 3), (''IB_WC_FETCH_ADD'', 4), (''IB_WC_BIND_MW'', 5),
     (''IB_WC_LOCAL_INV'', 6), (''IB_WC_LSO'', 7), (''IB_WC_ATOMIC_WRITE'', 9),
     (''IB_WC_REG_MR'', 10), (''IB_WC_MASKED_COMP_SWAP'', 11), (''IB_WC_MASKED_FETCH_ADD'', 12),
     (''IB_WC_FLUSH'', 8), (''IB_WC_RECV'', 128), (''IB_WC_RECV_RDMA_WITH_IMM'', 129)]"

definition enumdecl_ib_wc_status :: cenum_decl where
  "enumdecl_ib_wc_status = EnumDecl False [
     (''IB_WC_SUCCESS'', 0), (''IB_WC_LOC_LEN_ERR'', 1), (''IB_WC_LOC_QP_OP_ERR'', 2),
     (''IB_WC_LOC_EEC_OP_ERR'', 3), (''IB_WC_LOC_PROT_ERR'', 4), (''IB_WC_WR_FLUSH_ERR'', 5),
     (''IB_WC_MW_BIND_ERR'', 6), (''IB_WC_BAD_RESP_ERR'', 7), (''IB_WC_LOC_ACCESS_ERR'', 8),
     (''IB_WC_REM_INV_REQ_ERR'', 9), (''IB_WC_REM_ACCESS_ERR'', 10), (''IB_WC_REM_OP_ERR'', 11),
     (''IB_WC_RETRY_EXC_ERR'', 12), (''IB_WC_RNR_RETRY_EXC_ERR'', 13),
     (''IB_WC_LOC_RDD_VIOL_ERR'', 14), (''IB_WC_REM_INV_RD_REQ_ERR'', 15),
     (''IB_WC_REM_ABORT_ERR'', 16), (''IB_WC_INV_EECN_ERR'', 17),
     (''IB_WC_INV_EEC_STATE_ERR'', 18), (''IB_WC_FATAL_ERR'', 19),
     (''IB_WC_RESP_TIMEOUT_ERR'', 20), (''IB_WC_GENERAL_ERR'', 21)]"

definition enumdecl_ib_wq_state :: cenum_decl where
  "enumdecl_ib_wq_state = EnumDecl False [
     (''IB_WQS_RESET'', 0), (''IB_WQS_RDY'', 1), (''IB_WQS_ERR'', 2)]"

definition enumdecl_ib_wq_type :: cenum_decl where
  "enumdecl_ib_wq_type = EnumDecl False [
     (''IB_WQT_RQ'', 0)]"

definition enumdecl_ib_wr_opcode :: cenum_decl where
  "enumdecl_ib_wr_opcode = EnumDecl False [
     (''IB_WR_RDMA_WRITE'', 0), (''IB_WR_RDMA_WRITE_WITH_IMM'', 1), (''IB_WR_SEND'', 2),
     (''IB_WR_SEND_WITH_IMM'', 3), (''IB_WR_RDMA_READ'', 4), (''IB_WR_ATOMIC_CMP_AND_SWP'', 5),
     (''IB_WR_ATOMIC_FETCH_AND_ADD'', 6), (''IB_WR_BIND_MW'', 8), (''IB_WR_LSO'', 10),
     (''IB_WR_SEND_WITH_INV'', 9), (''IB_WR_RDMA_READ_WITH_INV'', 11), (''IB_WR_LOCAL_INV'', 7),
     (''IB_WR_MASKED_ATOMIC_CMP_AND_SWP'', 12), (''IB_WR_MASKED_ATOMIC_FETCH_AND_ADD'', 13),
     (''IB_WR_FLUSH'', 14), (''IB_WR_ATOMIC_WRITE'', 15), (''IB_WR_REG_MR'', 32),
     (''IB_WR_REG_MR_INTEGRITY'', 33), (''IB_WR_RESERVED1'', 240), (''IB_WR_RESERVED2'', 241),
     (''IB_WR_RESERVED3'', 242), (''IB_WR_RESERVED4'', 243), (''IB_WR_RESERVED5'', 244),
     (''IB_WR_RESERVED6'', 245), (''IB_WR_RESERVED7'', 246), (''IB_WR_RESERVED8'', 247),
     (''IB_WR_RESERVED9'', 248), (''IB_WR_RESERVED10'', 249)]"

definition enumdecl_ibs_states :: cenum_decl where
  "enumdecl_ibs_states = EnumDecl False [
     (''IBS_ENABLED'', 0), (''IBS_STARTED'', 1), (''IBS_STOPPING'', 2), (''IBS_STOPPED'', 3),
     (''IBS_MAX_STATES'', 4)]"

definition enumdecl_id_action :: cenum_decl where
  "enumdecl_id_action = EnumDecl False [
     (''ID_REMOVE'', 0), (''ID_ADD'', 1)]"

definition enumdecl_idle_boot_override :: cenum_decl where
  "enumdecl_idle_boot_override = EnumDecl False [
     (''IDLE_NO_OVERRIDE'', 0), (''IDLE_HALT'', 1), (''IDLE_NOMWAIT'', 2), (''IDLE_POLL'', 3)]"

definition enumdecl_ieee80211_bss_type :: cenum_decl where
  "enumdecl_ieee80211_bss_type = EnumDecl False [
     (''IEEE80211_BSS_TYPE_ESS'', 0), (''IEEE80211_BSS_TYPE_PBSS'', 1),
     (''IEEE80211_BSS_TYPE_IBSS'', 2), (''IEEE80211_BSS_TYPE_MBSS'', 3),
     (''IEEE80211_BSS_TYPE_ANY'', 4)]"

definition enumdecl_ieee80211_edmg_bw_config :: cenum_decl where
  "enumdecl_ieee80211_edmg_bw_config = EnumDecl False [
     (''IEEE80211_EDMG_BW_CONFIG_4'', 4), (''IEEE80211_EDMG_BW_CONFIG_5'', 5),
     (''IEEE80211_EDMG_BW_CONFIG_6'', 6), (''IEEE80211_EDMG_BW_CONFIG_7'', 7),
     (''IEEE80211_EDMG_BW_CONFIG_8'', 8), (''IEEE80211_EDMG_BW_CONFIG_9'', 9),
     (''IEEE80211_EDMG_BW_CONFIG_10'', 10), (''IEEE80211_EDMG_BW_CONFIG_11'', 11),
     (''IEEE80211_EDMG_BW_CONFIG_12'', 12), (''IEEE80211_EDMG_BW_CONFIG_13'', 13),
     (''IEEE80211_EDMG_BW_CONFIG_14'', 14), (''IEEE80211_EDMG_BW_CONFIG_15'', 15)]"

definition enumdecl_ieee802154_filtering_level :: cenum_decl where
  "enumdecl_ieee802154_filtering_level = EnumDecl False [
     (''IEEE802154_FILTERING_NONE'', 0), (''IEEE802154_FILTERING_1_FCS'', 1),
     (''IEEE802154_FILTERING_2_PROMISCUOUS'', 2), (''IEEE802154_FILTERING_3_SCAN'', 3),
     (''IEEE802154_FILTERING_4_FRAME_FIELDS'', 4)]"

definition enumdecl_ieee8021q_traffic_type :: cenum_decl where
  "enumdecl_ieee8021q_traffic_type = EnumDecl False [
     (''IEEE8021Q_TT_BK'', 0), (''IEEE8021Q_TT_BE'', 1), (''IEEE8021Q_TT_EE'', 2),
     (''IEEE8021Q_TT_CA'', 3), (''IEEE8021Q_TT_VI'', 4), (''IEEE8021Q_TT_VO'', 5),
     (''IEEE8021Q_TT_IC'', 6), (''IEEE8021Q_TT_NC'', 7), (''IEEE8021Q_TT_MAX'', 8)]"

definition enumdecl_ieee_attrs :: cenum_decl where
  "enumdecl_ieee_attrs = EnumDecl False [
     (''DCB_ATTR_IEEE_UNSPEC'', 0), (''DCB_ATTR_IEEE_ETS'', 1), (''DCB_ATTR_IEEE_PFC'', 2),
     (''DCB_ATTR_IEEE_APP_TABLE'', 3), (''DCB_ATTR_IEEE_PEER_ETS'', 4),
     (''DCB_ATTR_IEEE_PEER_PFC'', 5), (''DCB_ATTR_IEEE_PEER_APP'', 6),
     (''DCB_ATTR_IEEE_MAXRATE'', 7), (''DCB_ATTR_IEEE_QCN'', 8),
     (''DCB_ATTR_IEEE_QCN_STATS'', 9), (''DCB_ATTR_DCB_BUFFER'', 10),
     (''DCB_ATTR_DCB_APP_TRUST_TABLE'', 11), (''DCB_ATTR_DCB_REWR_TABLE'', 12),
     (''__DCB_ATTR_IEEE_MAX'', 13)]"

definition enumdecl_ieee_attrs_app :: cenum_decl where
  "enumdecl_ieee_attrs_app = EnumDecl False [
     (''DCB_ATTR_IEEE_APP_UNSPEC'', 0), (''DCB_ATTR_IEEE_APP'', 1), (''DCB_ATTR_DCB_APP'', 2),
     (''__DCB_ATTR_IEEE_APP_MAX'', 3)]"

definition enumdecl_ima_fs_flags :: cenum_decl where
  "enumdecl_ima_fs_flags = EnumDecl False [
     (''IMA_FS_BUSY'', 0)]"

definition enumdecl_ima_hooks :: cenum_decl where
  "enumdecl_ima_hooks = EnumDecl False [
     (''NONE___2'', 0), (''FILE_CHECK'', 1), (''MMAP_CHECK'', 2), (''MMAP_CHECK_REQPROT'', 3),
     (''BPRM_CHECK'', 4), (''CREDS_CHECK'', 5), (''POST_SETATTR'', 6), (''MODULE_CHECK'', 7),
     (''FIRMWARE_CHECK'', 8), (''KEXEC_KERNEL_CHECK'', 9), (''KEXEC_INITRAMFS_CHECK'', 10),
     (''POLICY_CHECK'', 11), (''KEXEC_CMDLINE'', 12), (''KEY_CHECK'', 13),
     (''CRITICAL_DATA'', 14), (''SETXATTR_CHECK'', 15), (''MAX_CHECK'', 16)]"

definition enumdecl_ima_show_type :: cenum_decl where
  "enumdecl_ima_show_type = EnumDecl False [
     (''IMA_SHOW_BINARY'', 0), (''IMA_SHOW_BINARY_NO_FIELD_LEN'', 1),
     (''IMA_SHOW_BINARY_OLD_STRING_FMT'', 2), (''IMA_SHOW_ASCII'', 3)]"

definition enumdecl_in6_addr_gen_mode :: cenum_decl where
  "enumdecl_in6_addr_gen_mode = EnumDecl False [
     (''IN6_ADDR_GEN_MODE_EUI64'', 0), (''IN6_ADDR_GEN_MODE_NONE'', 1),
     (''IN6_ADDR_GEN_MODE_STABLE_PRIVACY'', 2), (''IN6_ADDR_GEN_MODE_RANDOM'', 3)]"

definition enumdecl_inet_csk_ack_state_t :: cenum_decl where
  "enumdecl_inet_csk_ack_state_t = EnumDecl False [
     (''ICSK_ACK_SCHED'', 1), (''ICSK_ACK_TIMER'', 2), (''ICSK_ACK_PUSHED'', 4),
     (''ICSK_ACK_PUSHED2'', 8), (''ICSK_ACK_NOW'', 16), (''ICSK_ACK_NOMEM'', 32)]"

definition enumdecl_init_ns_id :: cenum_decl where
  "enumdecl_init_ns_id = EnumDecl False [
     (''IPC_NS_INIT_ID'', 1), (''UTS_NS_INIT_ID'', 2), (''USER_NS_INIT_ID'', 3),
     (''PID_NS_INIT_ID'', 4), (''CGROUP_NS_INIT_ID'', 5), (''TIME_NS_INIT_ID'', 6),
     (''NET_NS_INIT_ID'', 7), (''MNT_NS_INIT_ID'', 8), (''NS_LAST_INIT_ID'', 8)]"

definition enumdecl_init_ns_ino :: cenum_decl where
  "enumdecl_init_ns_ino = EnumDecl False [
     (''IPC_NS_INIT_INO'', 4026531839), (''UTS_NS_INIT_INO'', 4026531838),
     (''USER_NS_INIT_INO'', 4026531837), (''PID_NS_INIT_INO'', 4026531836),
     (''CGROUP_NS_INIT_INO'', 4026531835), (''TIME_NS_INIT_INO'', 4026531834),
     (''NET_NS_INIT_INO'', 4026531833), (''MNT_NS_INIT_INO'', 4026531832),
     (''MNT_NS_ANON_INO'', 4026531831)]"

lemma enumdecl_init_ns_ino_4: "enum4 enumdecl_init_ns_ino"
  by (unfold enumdecl_init_ns_ino_def) (intro enum_uint_intros; simp)

definition enumdecl_inode_i_mutex_lock_class :: cenum_decl where
  "enumdecl_inode_i_mutex_lock_class = EnumDecl False [
     (''I_MUTEX_NORMAL'', 0), (''I_MUTEX_PARENT'', 1), (''I_MUTEX_CHILD'', 2),
     (''I_MUTEX_XATTR'', 3), (''I_MUTEX_NONDIR2'', 4), (''I_MUTEX_PARENT2'', 5)]"

definition enumdecl_inode_state_bits :: cenum_decl where
  "enumdecl_inode_state_bits = EnumDecl False [
     (''__I_NEW'', 0), (''__I_SYNC'', 1), (''__I_LRU_ISOLATING'', 2)]"

definition enumdecl_inode_state_flags_enum :: cenum_decl where
  "enumdecl_inode_state_flags_enum = EnumDecl False [
     (''I_NEW'', 1), (''I_SYNC'', 2), (''I_LRU_ISOLATING'', 4), (''I_DIRTY_SYNC'', 16),
     (''I_DIRTY_DATASYNC'', 32), (''I_DIRTY_PAGES'', 64), (''I_WILL_FREE'', 128),
     (''I_FREEING'', 256), (''I_CLEAR'', 512), (''I_REFERENCED'', 1024), (''I_LINKABLE'', 2048),
     (''I_DIRTY_TIME'', 4096), (''I_WB_SWITCH'', 8192), (''I_OVL_INUSE'', 16384),
     (''I_CREATING'', 32768), (''I_DONTCACHE'', 65536), (''I_SYNC_QUEUED'', 131072),
     (''I_PINNING_NETFS_WB'', 262144)]"

definition enumdecl_input_clock_type :: cenum_decl where
  "enumdecl_input_clock_type = EnumDecl False [
     (''INPUT_CLK_REAL'', 0), (''INPUT_CLK_MONO'', 1), (''INPUT_CLK_BOOT'', 2),
     (''INPUT_CLK_MAX'', 3)]"

definition enumdecl_insn_mmio_type :: cenum_decl where
  "enumdecl_insn_mmio_type = EnumDecl False [
     (''INSN_MMIO_DECODE_FAILED'', 0), (''INSN_MMIO_WRITE'', 1), (''INSN_MMIO_WRITE_IMM'', 2),
     (''INSN_MMIO_READ'', 3), (''INSN_MMIO_READ_ZERO_EXTEND'', 4),
     (''INSN_MMIO_READ_SIGN_EXTEND'', 5), (''INSN_MMIO_MOVS'', 6)]"

definition enumdecl_insn_mode :: cenum_decl where
  "enumdecl_insn_mode = EnumDecl False [
     (''INSN_MODE_32'', 0), (''INSN_MODE_64'', 1), (''INSN_MODE_KERN'', 2),
     (''INSN_NUM_MODES'', 3)]"

definition enumdecl_insn_type :: cenum_decl where
  "enumdecl_insn_type = EnumDecl False [
     (''CALL'', 0), (''NOP'', 1), (''JMP'', 2), (''RET'', 3), (''JCC'', 4)]"

definition enumdecl_int_type :: cenum_decl where
  "enumdecl_int_type = EnumDecl False [
     (''SYS_INT'', 1), (''DCDC_INT'', 2), (''RTC_INT'', 4), (''ADC_INT'', 8), (''GPIO_INT'', 16)]"

definition enumdecl_integrity_status :: cenum_decl where
  "enumdecl_integrity_status = EnumDecl False [
     (''INTEGRITY_PASS'', 0), (''INTEGRITY_PASS_IMMUTABLE'', 1), (''INTEGRITY_FAIL'', 2),
     (''INTEGRITY_FAIL_IMMUTABLE'', 3), (''INTEGRITY_NOLABEL'', 4), (''INTEGRITY_NOXATTRS'', 5),
     (''INTEGRITY_UNKNOWN'', 6)]"

definition enumdecl_intel_cht_wc_models :: cenum_decl where
  "enumdecl_intel_cht_wc_models = EnumDecl False [
     (''INTEL_CHT_WC_UNKNOWN'', 0), (''INTEL_CHT_WC_GPD_WIN_POCKET'', 1),
     (''INTEL_CHT_WC_XIAOMI_MIPAD2'', 2), (''INTEL_CHT_WC_LENOVO_YOGABOOK1'', 3),
     (''INTEL_CHT_WC_LENOVO_YT3_X90'', 4)]"

definition enumdecl_intel_cpu_type :: cenum_decl where
  "enumdecl_intel_cpu_type = EnumDecl False [
     (''INTEL_CPU_TYPE_UNKNOWN'', 0), (''INTEL_CPU_TYPE_ATOM'', 32),
     (''INTEL_CPU_TYPE_CORE'', 64)]"

definition enumdecl_intel_excl_state_type :: cenum_decl where
  "enumdecl_intel_excl_state_type = EnumDecl False [
     (''INTEL_EXCL_UNUSED'', 0), (''INTEL_EXCL_SHARED'', 1), (''INTEL_EXCL_EXCLUSIVE'', 2)]"

definition enumdecl_intel_native_id :: cenum_decl where
  "enumdecl_intel_native_id = EnumDecl False [
     (''INTEL_ATOM_CMT_NATIVE_ID'', 2), (''INTEL_ATOM_SKT_NATIVE_ID'', 3)]"

definition enumdecl_intercept_words :: cenum_decl where
  "enumdecl_intercept_words = EnumDecl False [
     (''INTERCEPT_CR'', 0), (''INTERCEPT_DR'', 1), (''INTERCEPT_EXCEPTION'', 2),
     (''INTERCEPT_WORD3'', 3), (''INTERCEPT_WORD4'', 4), (''INTERCEPT_WORD5'', 5),
     (''MAX_INTERCEPT'', 6)]"

definition enumdecl_io_uring_cmd_flags :: cenum_decl where
  "enumdecl_io_uring_cmd_flags = EnumDecl False [
     (''IO_URING_F_COMPLETE_DEFER'', 1), (''IO_URING_F_UNLOCKED'', 2),
     (''IO_URING_F_MULTISHOT'', 4), (''IO_URING_F_IOWQ'', 8), (''IO_URING_F_INLINE'', 16),
     (''IO_URING_F_NONBLOCK'', - 2147483648), (''IO_URING_F_SQE128'', 256),
     (''IO_URING_F_CQE32'', 512), (''IO_URING_F_IOPOLL'', 1024), (''IO_URING_F_CANCEL'', 2048),
     (''IO_URING_F_COMPAT'', 4096)]"

definition enumdecl_io_uring_msg_ring_flags :: cenum_decl where
  "enumdecl_io_uring_msg_ring_flags = EnumDecl False [
     (''IORING_MSG_DATA'', 0), (''IORING_MSG_SEND_FD'', 1)]"

definition enumdecl_io_uring_napi_op :: cenum_decl where
  "enumdecl_io_uring_napi_op = EnumDecl False [
     (''IO_URING_NAPI_REGISTER_OP'', 0), (''IO_URING_NAPI_STATIC_ADD_ID'', 1),
     (''IO_URING_NAPI_STATIC_DEL_ID'', 2)]"

definition enumdecl_io_uring_napi_tracking_strategy :: cenum_decl where
  "enumdecl_io_uring_napi_tracking_strategy = EnumDecl False [
     (''IO_URING_NAPI_TRACKING_DYNAMIC'', 0), (''IO_URING_NAPI_TRACKING_STATIC'', 1),
     (''IO_URING_NAPI_TRACKING_INACTIVE'', 255)]"

definition enumdecl_io_uring_op :: cenum_decl where
  "enumdecl_io_uring_op = EnumDecl False [
     (''IORING_OP_NOP'', 0), (''IORING_OP_READV'', 1), (''IORING_OP_WRITEV'', 2),
     (''IORING_OP_FSYNC'', 3), (''IORING_OP_READ_FIXED'', 4), (''IORING_OP_WRITE_FIXED'', 5),
     (''IORING_OP_POLL_ADD'', 6), (''IORING_OP_POLL_REMOVE'', 7),
     (''IORING_OP_SYNC_FILE_RANGE'', 8), (''IORING_OP_SENDMSG'', 9), (''IORING_OP_RECVMSG'', 10),
     (''IORING_OP_TIMEOUT'', 11), (''IORING_OP_TIMEOUT_REMOVE'', 12), (''IORING_OP_ACCEPT'', 13),
     (''IORING_OP_ASYNC_CANCEL'', 14), (''IORING_OP_LINK_TIMEOUT'', 15),
     (''IORING_OP_CONNECT'', 16), (''IORING_OP_FALLOCATE'', 17), (''IORING_OP_OPENAT'', 18),
     (''IORING_OP_CLOSE'', 19), (''IORING_OP_FILES_UPDATE'', 20), (''IORING_OP_STATX'', 21),
     (''IORING_OP_READ'', 22), (''IORING_OP_WRITE'', 23), (''IORING_OP_FADVISE'', 24),
     (''IORING_OP_MADVISE'', 25), (''IORING_OP_SEND'', 26), (''IORING_OP_RECV'', 27),
     (''IORING_OP_OPENAT2'', 28), (''IORING_OP_EPOLL_CTL'', 29), (''IORING_OP_SPLICE'', 30),
     (''IORING_OP_PROVIDE_BUFFERS'', 31), (''IORING_OP_REMOVE_BUFFERS'', 32),
     (''IORING_OP_TEE'', 33), (''IORING_OP_SHUTDOWN'', 34), (''IORING_OP_RENAMEAT'', 35),
     (''IORING_OP_UNLINKAT'', 36), (''IORING_OP_MKDIRAT'', 37), (''IORING_OP_SYMLINKAT'', 38),
     (''IORING_OP_LINKAT'', 39), (''IORING_OP_MSG_RING'', 40), (''IORING_OP_FSETXATTR'', 41),
     (''IORING_OP_SETXATTR'', 42), (''IORING_OP_FGETXATTR'', 43), (''IORING_OP_GETXATTR'', 44),
     (''IORING_OP_SOCKET'', 45), (''IORING_OP_URING_CMD'', 46), (''IORING_OP_SEND_ZC'', 47),
     (''IORING_OP_SENDMSG_ZC'', 48), (''IORING_OP_READ_MULTISHOT'', 49),
     (''IORING_OP_WAITID'', 50), (''IORING_OP_FUTEX_WAIT'', 51), (''IORING_OP_FUTEX_WAKE'', 52),
     (''IORING_OP_FUTEX_WAITV'', 53), (''IORING_OP_FIXED_FD_INSTALL'', 54),
     (''IORING_OP_FTRUNCATE'', 55), (''IORING_OP_BIND'', 56), (''IORING_OP_LISTEN'', 57),
     (''IORING_OP_RECV_ZC'', 58), (''IORING_OP_EPOLL_WAIT'', 59),
     (''IORING_OP_READV_FIXED'', 60), (''IORING_OP_WRITEV_FIXED'', 61), (''IORING_OP_PIPE'', 62),
     (''IORING_OP_NOP128'', 63), (''IORING_OP_URING_CMD128'', 64), (''IORING_OP_LAST'', 65)]"

definition enumdecl_io_uring_register_op :: cenum_decl where
  "enumdecl_io_uring_register_op = EnumDecl False [
     (''IORING_REGISTER_BUFFERS'', 0), (''IORING_UNREGISTER_BUFFERS'', 1),
     (''IORING_REGISTER_FILES'', 2), (''IORING_UNREGISTER_FILES'', 3),
     (''IORING_REGISTER_EVENTFD'', 4), (''IORING_UNREGISTER_EVENTFD'', 5),
     (''IORING_REGISTER_FILES_UPDATE'', 6), (''IORING_REGISTER_EVENTFD_ASYNC'', 7),
     (''IORING_REGISTER_PROBE'', 8), (''IORING_REGISTER_PERSONALITY'', 9),
     (''IORING_UNREGISTER_PERSONALITY'', 10), (''IORING_REGISTER_RESTRICTIONS'', 11),
     (''IORING_REGISTER_ENABLE_RINGS'', 12), (''IORING_REGISTER_FILES2'', 13),
     (''IORING_REGISTER_FILES_UPDATE2'', 14), (''IORING_REGISTER_BUFFERS2'', 15),
     (''IORING_REGISTER_BUFFERS_UPDATE'', 16), (''IORING_REGISTER_IOWQ_AFF'', 17),
     (''IORING_UNREGISTER_IOWQ_AFF'', 18), (''IORING_REGISTER_IOWQ_MAX_WORKERS'', 19),
     (''IORING_REGISTER_RING_FDS'', 20), (''IORING_UNREGISTER_RING_FDS'', 21),
     (''IORING_REGISTER_PBUF_RING'', 22), (''IORING_UNREGISTER_PBUF_RING'', 23),
     (''IORING_REGISTER_SYNC_CANCEL'', 24), (''IORING_REGISTER_FILE_ALLOC_RANGE'', 25),
     (''IORING_REGISTER_PBUF_STATUS'', 26), (''IORING_REGISTER_NAPI'', 27),
     (''IORING_UNREGISTER_NAPI'', 28), (''IORING_REGISTER_CLOCK'', 29),
     (''IORING_REGISTER_CLONE_BUFFERS'', 30), (''IORING_REGISTER_SEND_MSG_RING'', 31),
     (''IORING_REGISTER_ZCRX_IFQ'', 32), (''IORING_REGISTER_RESIZE_RINGS'', 33),
     (''IORING_REGISTER_MEM_REGION'', 34), (''IORING_REGISTER_QUERY'', 35),
     (''IORING_REGISTER_ZCRX_CTRL'', 36), (''IORING_REGISTER_BPF_FILTER'', 37),
     (''IORING_REGISTER_LAST'', 38), (''IORING_REGISTER_USE_REGISTERED_RING'', 2147483648)]"

lemma enumdecl_io_uring_register_op_4: "enum4 enumdecl_io_uring_register_op"
  by (unfold enumdecl_io_uring_register_op_def) (intro enum_uint_intros; simp)

definition enumdecl_io_uring_register_pbuf_ring_flags :: cenum_decl where
  "enumdecl_io_uring_register_pbuf_ring_flags = EnumDecl False [
     (''IOU_PBUF_RING_MMAP'', 1), (''IOU_PBUF_RING_INC'', 2)]"

definition enumdecl_io_uring_register_restriction_op :: cenum_decl where
  "enumdecl_io_uring_register_restriction_op = EnumDecl False [
     (''IORING_RESTRICTION_REGISTER_OP'', 0), (''IORING_RESTRICTION_SQE_OP'', 1),
     (''IORING_RESTRICTION_SQE_FLAGS_ALLOWED'', 2),
     (''IORING_RESTRICTION_SQE_FLAGS_REQUIRED'', 3), (''IORING_RESTRICTION_LAST'', 4)]"

definition enumdecl_io_uring_socket_op :: cenum_decl where
  "enumdecl_io_uring_socket_op = EnumDecl False [
     (''SOCKET_URING_OP_SIOCINQ'', 0), (''SOCKET_URING_OP_SIOCOUTQ'', 1),
     (''SOCKET_URING_OP_GETSOCKOPT'', 2), (''SOCKET_URING_OP_SETSOCKOPT'', 3),
     (''SOCKET_URING_OP_TX_TIMESTAMP'', 4), (''SOCKET_URING_OP_GETSOCKNAME'', 5)]"

definition enumdecl_io_uring_sqe_flags_bit :: cenum_decl where
  "enumdecl_io_uring_sqe_flags_bit = EnumDecl False [
     (''IOSQE_FIXED_FILE_BIT'', 0), (''IOSQE_IO_DRAIN_BIT'', 1), (''IOSQE_IO_LINK_BIT'', 2),
     (''IOSQE_IO_HARDLINK_BIT'', 3), (''IOSQE_ASYNC_BIT'', 4), (''IOSQE_BUFFER_SELECT_BIT'', 5),
     (''IOSQE_CQE_SKIP_SUCCESS_BIT'', 6)]"

definition enumdecl_io_uring_zcrx_area_flags :: cenum_decl where
  "enumdecl_io_uring_zcrx_area_flags = EnumDecl False [
     (''IORING_ZCRX_AREA_DMABUF'', 1)]"

definition enumdecl_io_wq_cancel :: cenum_decl where
  "enumdecl_io_wq_cancel = EnumDecl False [
     (''IO_WQ_CANCEL_OK'', 0), (''IO_WQ_CANCEL_RUNNING'', 1), (''IO_WQ_CANCEL_NOTFOUND'', 2)]"

definition enumdecl_io_wq_type :: cenum_decl where
  "enumdecl_io_wq_type = EnumDecl False [
     (''IO_WQ_BOUND'', 0), (''IO_WQ_UNBOUND'', 1)]"

definition enumdecl_ioam6_event_attr :: cenum_decl where
  "enumdecl_ioam6_event_attr = EnumDecl False [
     (''IOAM6_EVENT_ATTR_UNSPEC'', 0), (''IOAM6_EVENT_ATTR_TRACE_NAMESPACE'', 1),
     (''IOAM6_EVENT_ATTR_TRACE_NODELEN'', 2), (''IOAM6_EVENT_ATTR_TRACE_TYPE'', 3),
     (''IOAM6_EVENT_ATTR_TRACE_DATA'', 4), (''__IOAM6_EVENT_ATTR_MAX'', 5)]"

definition enumdecl_ioam6_event_type :: cenum_decl where
  "enumdecl_ioam6_event_type = EnumDecl False [
     (''IOAM6_EVENT_UNSPEC'', 0), (''IOAM6_EVENT_TRACE'', 1)]"

definition enumdecl_ioapic_domain_type :: cenum_decl where
  "enumdecl_ioapic_domain_type = EnumDecl False [
     (''IOAPIC_DOMAIN_INVALID'', 0), (''IOAPIC_DOMAIN_LEGACY'', 1),
     (''IOAPIC_DOMAIN_STRICT'', 2), (''IOAPIC_DOMAIN_DYNAMIC'', 3)]"

definition enumdecl_ioc_running :: cenum_decl where
  "enumdecl_ioc_running = EnumDecl False [
     (''IOC_IDLE'', 0), (''IOC_RUNNING'', 1), (''IOC_STOP'', 2)]"

definition enumdecl_iommu_cap :: cenum_decl where
  "enumdecl_iommu_cap = EnumDecl False [
     (''IOMMU_CAP_CACHE_COHERENCY'', 0), (''IOMMU_CAP_NOEXEC'', 1),
     (''IOMMU_CAP_PRE_BOOT_PROTECTION'', 2), (''IOMMU_CAP_ENFORCE_CACHE_COHERENCY'', 3),
     (''IOMMU_CAP_DEFERRED_FLUSH'', 4), (''IOMMU_CAP_DIRTY_TRACKING'', 5)]"

definition enumdecl_iommu_dma_queue_type :: cenum_decl where
  "enumdecl_iommu_dma_queue_type = EnumDecl False [
     (''IOMMU_DMA_OPTS_PER_CPU_QUEUE'', 0), (''IOMMU_DMA_OPTS_SINGLE_QUEUE'', 1)]"

definition enumdecl_iommu_domain_cookie_type :: cenum_decl where
  "enumdecl_iommu_domain_cookie_type = EnumDecl False [
     (''IOMMU_COOKIE_NONE'', 0), (''IOMMU_COOKIE_DMA_IOVA'', 1), (''IOMMU_COOKIE_DMA_MSI'', 2),
     (''IOMMU_COOKIE_FAULT_HANDLER'', 3), (''IOMMU_COOKIE_SVA'', 4),
     (''IOMMU_COOKIE_IOMMUFD'', 5)]"

definition enumdecl_iommu_fault_type :: cenum_decl where
  "enumdecl_iommu_fault_type = EnumDecl False [
     (''IOMMU_FAULT_PAGE_REQ'', 1)]"

definition enumdecl_iommu_hw_info_type :: cenum_decl where
  "enumdecl_iommu_hw_info_type = EnumDecl False [
     (''IOMMU_HW_INFO_TYPE_NONE'', 0), (''IOMMU_HW_INFO_TYPE_DEFAULT'', 0),
     (''IOMMU_HW_INFO_TYPE_INTEL_VTD'', 1), (''IOMMU_HW_INFO_TYPE_ARM_SMMUV3'', 2),
     (''IOMMU_HW_INFO_TYPE_TEGRA241_CMDQV'', 3), (''IOMMU_HW_INFO_TYPE_AMD'', 4)]"

definition enumdecl_iommu_hw_info_vtd_flags :: cenum_decl where
  "enumdecl_iommu_hw_info_vtd_flags = EnumDecl False [
     (''IOMMU_HW_INFO_VTD_ERRATA_772415_SPR17'', 1)]"

definition enumdecl_iommu_hw_queue_type :: cenum_decl where
  "enumdecl_iommu_hw_queue_type = EnumDecl False [
     (''IOMMU_HW_QUEUE_TYPE_DEFAULT'', 0), (''IOMMU_HW_QUEUE_TYPE_TEGRA241_CMDQV'', 1)]"

definition enumdecl_iommu_hwpt_data_type :: cenum_decl where
  "enumdecl_iommu_hwpt_data_type = EnumDecl False [
     (''IOMMU_HWPT_DATA_NONE'', 0), (''IOMMU_HWPT_DATA_VTD_S1'', 1),
     (''IOMMU_HWPT_DATA_ARM_SMMUV3'', 2), (''IOMMU_HWPT_DATA_AMD_GUEST'', 3)]"

definition enumdecl_iommu_hwpt_invalidate_data_type :: cenum_decl where
  "enumdecl_iommu_hwpt_invalidate_data_type = EnumDecl False [
     (''IOMMU_HWPT_INVALIDATE_DATA_VTD_S1'', 0), (''IOMMU_VIOMMU_INVALIDATE_DATA_ARM_SMMUV3'', 1)]"

definition enumdecl_iommu_hwpt_vtd_s1_flags :: cenum_decl where
  "enumdecl_iommu_hwpt_vtd_s1_flags = EnumDecl False [
     (''IOMMU_VTD_S1_SRE'', 1), (''IOMMU_VTD_S1_EAFE'', 2), (''IOMMU_VTD_S1_WPE'', 4)]"

definition enumdecl_iommu_hwpt_vtd_s1_invalidate_flags :: cenum_decl where
  "enumdecl_iommu_hwpt_vtd_s1_invalidate_flags = EnumDecl False [
     (''IOMMU_VTD_INV_FLAGS_LEAF'', 1)]"

definition enumdecl_iommu_init_state :: cenum_decl where
  "enumdecl_iommu_init_state = EnumDecl False [
     (''IOMMU_START_STATE'', 0), (''IOMMU_IVRS_DETECTED'', 1), (''IOMMU_ACPI_FINISHED'', 2),
     (''IOMMU_ENABLED'', 3), (''IOMMU_PCI_INIT'', 4), (''IOMMU_INTERRUPTS_EN'', 5),
     (''IOMMU_INITIALIZED'', 6), (''IOMMU_NOT_FOUND'', 7), (''IOMMU_INIT_ERROR'', 8),
     (''IOMMU_CMDLINE_DISABLED'', 9)]"

definition enumdecl_iommu_page_response_code :: cenum_decl where
  "enumdecl_iommu_page_response_code = EnumDecl False [
     (''IOMMU_PAGE_RESP_SUCCESS'', 0), (''IOMMU_PAGE_RESP_INVALID'', 1),
     (''IOMMU_PAGE_RESP_FAILURE'', 2)]"

definition enumdecl_iommu_resv_type :: cenum_decl where
  "enumdecl_iommu_resv_type = EnumDecl False [
     (''IOMMU_RESV_DIRECT'', 0), (''IOMMU_RESV_DIRECT_RELAXABLE'', 1),
     (''IOMMU_RESV_RESERVED'', 2), (''IOMMU_RESV_MSI'', 3), (''IOMMU_RESV_SW_MSI'', 4)]"

definition enumdecl_iommu_veventq_type :: cenum_decl where
  "enumdecl_iommu_veventq_type = EnumDecl False [
     (''IOMMU_VEVENTQ_TYPE_DEFAULT'', 0), (''IOMMU_VEVENTQ_TYPE_ARM_SMMUV3'', 1),
     (''IOMMU_VEVENTQ_TYPE_TEGRA241_CMDQV'', 2)]"

definition enumdecl_iommu_viommu_type :: cenum_decl where
  "enumdecl_iommu_viommu_type = EnumDecl False [
     (''IOMMU_VIOMMU_TYPE_DEFAULT'', 0), (''IOMMU_VIOMMU_TYPE_ARM_SMMUV3'', 1),
     (''IOMMU_VIOMMU_TYPE_TEGRA241_CMDQV'', 2)]"

definition enumdecl_iommufd_hwpt_alloc_flags :: cenum_decl where
  "enumdecl_iommufd_hwpt_alloc_flags = EnumDecl False [
     (''IOMMU_HWPT_ALLOC_NEST_PARENT'', 1), (''IOMMU_HWPT_ALLOC_DIRTY_TRACKING'', 2),
     (''IOMMU_HWPT_FAULT_ID_VALID'', 4), (''IOMMU_HWPT_ALLOC_PASID'', 8)]"

definition enumdecl_iommufd_object_type :: cenum_decl where
  "enumdecl_iommufd_object_type = EnumDecl False [
     (''IOMMUFD_OBJ_NONE'', 0), (''IOMMUFD_OBJ_ANY'', 0), (''IOMMUFD_OBJ_DEVICE'', 1),
     (''IOMMUFD_OBJ_HWPT_PAGING'', 2), (''IOMMUFD_OBJ_HWPT_NESTED'', 3),
     (''IOMMUFD_OBJ_IOAS'', 4), (''IOMMUFD_OBJ_ACCESS'', 5), (''IOMMUFD_OBJ_FAULT'', 6),
     (''IOMMUFD_OBJ_VIOMMU'', 7), (''IOMMUFD_OBJ_VDEVICE'', 8), (''IOMMUFD_OBJ_VEVENTQ'', 9),
     (''IOMMUFD_OBJ_HW_QUEUE'', 10), (''IOMMUFD_OBJ_MAX'', 11)]"

definition enumdecl_ip6_defrag_users :: cenum_decl where
  "enumdecl_ip6_defrag_users = EnumDecl False [
     (''IP6_DEFRAG_LOCAL_DELIVER'', 0), (''IP6_DEFRAG_CONNTRACK_IN'', 1),
     (''__IP6_DEFRAG_CONNTRACK_IN'', 65536), (''IP6_DEFRAG_CONNTRACK_OUT'', 65537),
     (''__IP6_DEFRAG_CONNTRACK_OUT'', 131072), (''IP6_DEFRAG_CONNTRACK_BRIDGE_IN'', 131073),
     (''__IP6_DEFRAG_CONNTRACK_BRIDGE_IN'', 196608)]"

definition enumdecl_ip_conntrack_dir :: cenum_decl where
  "enumdecl_ip_conntrack_dir = EnumDecl False [
     (''IP_CT_DIR_ORIGINAL'', 0), (''IP_CT_DIR_REPLY'', 1), (''IP_CT_DIR_MAX'', 2)]"

definition enumdecl_ip_conntrack_info :: cenum_decl where
  "enumdecl_ip_conntrack_info = EnumDecl False [
     (''IP_CT_ESTABLISHED'', 0), (''IP_CT_RELATED'', 1), (''IP_CT_NEW'', 2),
     (''IP_CT_IS_REPLY'', 3), (''IP_CT_ESTABLISHED_REPLY'', 3), (''IP_CT_RELATED_REPLY'', 4),
     (''IP_CT_NUMBER'', 5), (''IP_CT_UNTRACKED'', 7)]"

definition enumdecl_ip_conntrack_status :: cenum_decl where
  "enumdecl_ip_conntrack_status = EnumDecl False [
     (''IPS_EXPECTED_BIT'', 0), (''IPS_EXPECTED'', 1), (''IPS_SEEN_REPLY_BIT'', 1),
     (''IPS_SEEN_REPLY'', 2), (''IPS_ASSURED_BIT'', 2), (''IPS_ASSURED'', 4),
     (''IPS_CONFIRMED_BIT'', 3), (''IPS_CONFIRMED'', 8), (''IPS_SRC_NAT_BIT'', 4),
     (''IPS_SRC_NAT'', 16), (''IPS_DST_NAT_BIT'', 5), (''IPS_DST_NAT'', 32),
     (''IPS_NAT_MASK'', 48), (''IPS_SEQ_ADJUST_BIT'', 6), (''IPS_SEQ_ADJUST'', 64),
     (''IPS_SRC_NAT_DONE_BIT'', 7), (''IPS_SRC_NAT_DONE'', 128), (''IPS_DST_NAT_DONE_BIT'', 8),
     (''IPS_DST_NAT_DONE'', 256), (''IPS_NAT_DONE_MASK'', 384), (''IPS_DYING_BIT'', 9),
     (''IPS_DYING'', 512), (''IPS_FIXED_TIMEOUT_BIT'', 10), (''IPS_FIXED_TIMEOUT'', 1024),
     (''IPS_TEMPLATE_BIT'', 11), (''IPS_TEMPLATE'', 2048), (''IPS_UNTRACKED_BIT'', 12),
     (''IPS_UNTRACKED'', 4096), (''IPS_NAT_CLASH_BIT'', 12), (''IPS_NAT_CLASH'', 4096),
     (''IPS_HELPER_BIT'', 13), (''IPS_HELPER'', 8192), (''IPS_OFFLOAD_BIT'', 14),
     (''IPS_OFFLOAD'', 16384), (''IPS_HW_OFFLOAD_BIT'', 15), (''IPS_HW_OFFLOAD'', 32768),
     (''IPS_UNCHANGEABLE_MASK'', 56313), (''__IPS_MAX_BIT'', 16)]"

definition enumdecl_ip_defrag_users :: cenum_decl where
  "enumdecl_ip_defrag_users = EnumDecl False [
     (''IP_DEFRAG_LOCAL_DELIVER'', 0), (''IP_DEFRAG_CALL_RA_CHAIN'', 1),
     (''IP_DEFRAG_CONNTRACK_IN'', 2), (''__IP_DEFRAG_CONNTRACK_IN_END'', 65537),
     (''IP_DEFRAG_CONNTRACK_OUT'', 65538), (''__IP_DEFRAG_CONNTRACK_OUT_END'', 131073),
     (''IP_DEFRAG_CONNTRACK_BRIDGE_IN'', 131074), (''__IP_DEFRAG_CONNTRACK_BRIDGE_IN'', 196609),
     (''IP_DEFRAG_VS_IN'', 196610), (''IP_DEFRAG_VS_OUT'', 196611),
     (''IP_DEFRAG_VS_FWD'', 196612), (''IP_DEFRAG_AF_PACKET'', 196613),
     (''IP_DEFRAG_MACVLAN'', 196614)]"

definition enumdecl_ipe_action_type :: cenum_decl where
  "enumdecl_ipe_action_type = EnumDecl False [
     (''IPE_ACTION_ALLOW'', 0), (''IPE_ACTION_DENY'', 1), (''__IPE_ACTION_MAX'', 2)]"

definition enumdecl_ipe_hook_type :: cenum_decl where
  "enumdecl_ipe_hook_type = EnumDecl False [
     (''IPE_HOOK_BPRM_CHECK'', 0), (''IPE_HOOK_BPRM_CREDS_FOR_EXEC'', 1), (''IPE_HOOK_MMAP'', 2),
     (''IPE_HOOK_MPROTECT'', 3), (''IPE_HOOK_KERNEL_READ'', 4), (''IPE_HOOK_KERNEL_LOAD'', 5),
     (''__IPE_HOOK_MAX'', 6)]"

definition enumdecl_ipe_match :: cenum_decl where
  "enumdecl_ipe_match = EnumDecl False [
     (''IPE_MATCH_RULE'', 0), (''IPE_MATCH_TABLE'', 1), (''IPE_MATCH_GLOBAL'', 2),
     (''__IPE_MATCH_MAX'', 3)]"

definition enumdecl_ipe_op_type :: cenum_decl where
  "enumdecl_ipe_op_type = EnumDecl False [
     (''IPE_OP_EXEC'', 0), (''IPE_OP_FIRMWARE'', 1), (''IPE_OP_KERNEL_MODULE'', 2),
     (''IPE_OP_KEXEC_IMAGE'', 3), (''IPE_OP_KEXEC_INITRAMFS'', 4), (''IPE_OP_POLICY'', 5),
     (''IPE_OP_X509'', 6), (''__IPE_OP_MAX'', 7)]"

definition enumdecl_ipe_prop_type :: cenum_decl where
  "enumdecl_ipe_prop_type = EnumDecl False [
     (''IPE_PROP_BOOT_VERIFIED_FALSE'', 0), (''IPE_PROP_BOOT_VERIFIED_TRUE'', 1),
     (''IPE_PROP_DMV_ROOTHASH'', 2), (''IPE_PROP_DMV_SIG_FALSE'', 3),
     (''IPE_PROP_DMV_SIG_TRUE'', 4), (''IPE_PROP_FSV_DIGEST'', 5),
     (''IPE_PROP_FSV_SIG_FALSE'', 6), (''IPE_PROP_FSV_SIG_TRUE'', 7), (''__IPE_PROP_MAX'', 8)]"

definition enumdecl_ipi_vector :: cenum_decl where
  "enumdecl_ipi_vector = EnumDecl False [
     (''XEN_RESCHEDULE_VECTOR'', 0), (''XEN_CALL_FUNCTION_VECTOR'', 1),
     (''XEN_CALL_FUNCTION_SINGLE_VECTOR'', 2), (''XEN_SPIN_UNLOCK_VECTOR'', 3),
     (''XEN_IRQ_WORK_VECTOR'', 4), (''XEN_NMI_VECTOR'', 5), (''XEN_NR_IPIS'', 6)]"

definition enumdecl_ipmi_addr_space :: cenum_decl where
  "enumdecl_ipmi_addr_space = EnumDecl False [
     (''IPMI_IO_ADDR_SPACE'', 0), (''IPMI_MEM_ADDR_SPACE'', 1)]"

definition enumdecl_ipmi_addr_src :: cenum_decl where
  "enumdecl_ipmi_addr_src = EnumDecl False [
     (''SI_INVALID'', 0), (''SI_HOTMOD'', 1), (''SI_HARDCODED'', 2), (''SI_SPMI'', 3),
     (''SI_ACPI'', 4), (''SI_SMBIOS'', 5), (''SI_PCI'', 6), (''SI_DEVICETREE'', 7),
     (''SI_PLATFORM'', 8), (''SI_LAST'', 9)]"

definition enumdecl_ipmi_plat_interface_type :: cenum_decl where
  "enumdecl_ipmi_plat_interface_type = EnumDecl False [
     (''IPMI_PLAT_IF_SI'', 0), (''IPMI_PLAT_IF_SSIF'', 1)]"

definition enumdecl_irq_alloc_type :: cenum_decl where
  "enumdecl_irq_alloc_type = EnumDecl False [
     (''X86_IRQ_ALLOC_TYPE_IOAPIC'', 1), (''X86_IRQ_ALLOC_TYPE_HPET'', 2),
     (''X86_IRQ_ALLOC_TYPE_PCI_MSI'', 3), (''X86_IRQ_ALLOC_TYPE_PCI_MSIX'', 4),
     (''X86_IRQ_ALLOC_TYPE_DMAR'', 5), (''X86_IRQ_ALLOC_TYPE_AMDVI'', 6),
     (''X86_IRQ_ALLOC_TYPE_UV'', 7)]"

definition enumdecl_irq_domain_bus_token :: cenum_decl where
  "enumdecl_irq_domain_bus_token = EnumDecl False [
     (''DOMAIN_BUS_ANY'', 0), (''DOMAIN_BUS_WIRED'', 1), (''DOMAIN_BUS_GENERIC_MSI'', 2),
     (''DOMAIN_BUS_PCI_MSI'', 3), (''DOMAIN_BUS_PLATFORM_MSI'', 4), (''DOMAIN_BUS_NEXUS'', 5),
     (''DOMAIN_BUS_IPI'', 6), (''DOMAIN_BUS_FSL_MC_MSI'', 7),
     (''DOMAIN_BUS_TI_SCI_INTA_MSI'', 8), (''DOMAIN_BUS_WAKEUP'', 9),
     (''DOMAIN_BUS_VMD_MSI'', 10), (''DOMAIN_BUS_PCI_DEVICE_MSI'', 11),
     (''DOMAIN_BUS_PCI_DEVICE_MSIX'', 12), (''DOMAIN_BUS_DMAR'', 13), (''DOMAIN_BUS_AMDVI'', 14),
     (''DOMAIN_BUS_DEVICE_MSI'', 15), (''DOMAIN_BUS_WIRED_TO_MSI'', 16)]"

definition enumdecl_irq_gc_flags :: cenum_decl where
  "enumdecl_irq_gc_flags = EnumDecl False [
     (''IRQ_GC_INIT_MASK_CACHE'', 1), (''IRQ_GC_INIT_NESTED_LOCK'', 2),
     (''IRQ_GC_MASK_CACHE_PER_TYPE'', 4), (''IRQ_GC_NO_MASK'', 8), (''IRQ_GC_BE_IO'', 16)]"

definition enumdecl_irq_remap_cap :: cenum_decl where
  "enumdecl_irq_remap_cap = EnumDecl False [
     (''IRQ_POSTING_CAP'', 0)]"

definition enumdecl_irqchip_irq_state :: cenum_decl where
  "enumdecl_irqchip_irq_state = EnumDecl False [
     (''IRQCHIP_STATE_PENDING'', 0), (''IRQCHIP_STATE_ACTIVE'', 1),
     (''IRQCHIP_STATE_MASKED'', 2), (''IRQCHIP_STATE_LINE_LEVEL'', 3)]"

definition enumdecl_irqreturn :: cenum_decl where
  "enumdecl_irqreturn = EnumDecl False [
     (''IRQ_NONE'', 0), (''IRQ_HANDLED'', 1), (''IRQ_WAKE_THREAD'', 2)]"

definition enumdecl_iter_type :: cenum_decl where
  "enumdecl_iter_type = EnumDecl False [
     (''ITER_UBUF'', 0), (''ITER_IOVEC'', 1), (''ITER_BVEC'', 2), (''ITER_KVEC'', 3),
     (''ITER_FOLIOQ'', 4), (''ITER_XARRAY'', 5), (''ITER_DISCARD'', 6)]"

definition enumdecl_its_mitigation :: cenum_decl where
  "enumdecl_its_mitigation = EnumDecl False [
     (''ITS_MITIGATION_OFF'', 0), (''ITS_MITIGATION_AUTO'', 1),
     (''ITS_MITIGATION_VMEXIT_ONLY'', 2), (''ITS_MITIGATION_ALIGNED_THUNKS'', 3),
     (''ITS_MITIGATION_RETPOLINE_STUFF'', 4)]"

definition enumdecl_jbd2_shrink_type :: cenum_decl where
  "enumdecl_jbd2_shrink_type = EnumDecl False [
     (''JBD2_SHRINK_DESTROY'', 0), (''JBD2_SHRINK_BUSY_STOP'', 1), (''JBD2_SHRINK_BUSY_SKIP'', 2)]"

definition enumdecl_jbd_state_bits :: cenum_decl where
  "enumdecl_jbd_state_bits = EnumDecl False [
     (''BH_JBD'', 17), (''BH_JWrite'', 18), (''BH_Freed'', 19), (''BH_Revoked'', 20),
     (''BH_RevokeValid'', 21), (''BH_JBDDirty'', 22), (''BH_JournalHead'', 23),
     (''BH_Shadow'', 24), (''BH_Verified'', 25), (''BH_JBDPrivateStart'', 26)]"

definition enumdecl_jump_label_type :: cenum_decl where
  "enumdecl_jump_label_type = EnumDecl False [
     (''JUMP_LABEL_NOP'', 0), (''JUMP_LABEL_JMP'', 1)]"

definition enumdecl_kcmp_type :: cenum_decl where
  "enumdecl_kcmp_type = EnumDecl False [
     (''KCMP_FILE'', 0), (''KCMP_VM'', 1), (''KCMP_FILES'', 2), (''KCMP_FS'', 3),
     (''KCMP_SIGHAND'', 4), (''KCMP_IO'', 5), (''KCMP_SYSVSEM'', 6), (''KCMP_EPOLL_TFD'', 7),
     (''KCMP_TYPES'', 8)]"

definition enumdecl_kcore_type :: cenum_decl where
  "enumdecl_kcore_type = EnumDecl False [
     (''KCORE_TEXT'', 0), (''KCORE_VMALLOC'', 1), (''KCORE_RAM'', 2), (''KCORE_VMEMMAP'', 3),
     (''KCORE_USER'', 4)]"

definition enumdecl_kdb_msgsrc :: cenum_decl where
  "enumdecl_kdb_msgsrc = EnumDecl False [
     (''KDB_MSGSRC_INTERNAL'', 0), (''KDB_MSGSRC_PRINTK'', 1)]"

definition enumdecl_kernel_gp_hint :: cenum_decl where
  "enumdecl_kernel_gp_hint = EnumDecl False [
     (''GP_NO_HINT'', 0), (''GP_NON_CANONICAL'', 1), (''GP_CANONICAL'', 2),
     (''GP_LASS_VIOLATION'', 3), (''GP_NULL_POINTER'', 4)]"

definition enumdecl_kernel_load_data_id :: cenum_decl where
  "enumdecl_kernel_load_data_id = EnumDecl False [
     (''LOADING_UNKNOWN'', 0), (''LOADING_FIRMWARE'', 1), (''LOADING_MODULE'', 2),
     (''LOADING_KEXEC_IMAGE'', 3), (''LOADING_KEXEC_INITRAMFS'', 4), (''LOADING_POLICY'', 5),
     (''LOADING_X509_CERTIFICATE'', 6), (''LOADING_MODULE_COMPRESSED'', 7),
     (''LOADING_MAX_ID'', 8)]"

definition enumdecl_kernel_pkey_operation :: cenum_decl where
  "enumdecl_kernel_pkey_operation = EnumDecl False [
     (''kernel_pkey_encrypt'', 0), (''kernel_pkey_decrypt'', 1), (''kernel_pkey_sign'', 2),
     (''kernel_pkey_verify'', 3)]"

definition enumdecl_kernel_read_file_id :: cenum_decl where
  "enumdecl_kernel_read_file_id = EnumDecl False [
     (''READING_UNKNOWN'', 0), (''READING_FIRMWARE'', 1), (''READING_MODULE'', 2),
     (''READING_KEXEC_IMAGE'', 3), (''READING_KEXEC_INITRAMFS'', 4), (''READING_POLICY'', 5),
     (''READING_X509_CERTIFICATE'', 6), (''READING_MODULE_COMPRESSED'', 7),
     (''READING_MAX_ID'', 8)]"

definition enumdecl_kernfs_node_flag :: cenum_decl where
  "enumdecl_kernfs_node_flag = EnumDecl False [
     (''KERNFS_ACTIVATED'', 16), (''KERNFS_NS'', 32), (''KERNFS_HAS_SEQ_SHOW'', 64),
     (''KERNFS_HAS_MMAP'', 128), (''KERNFS_LOCKDEP'', 256), (''KERNFS_HIDDEN'', 512),
     (''KERNFS_SUICIDAL'', 1024), (''KERNFS_SUICIDED'', 2048), (''KERNFS_EMPTY_DIR'', 4096),
     (''KERNFS_HAS_RELEASE'', 8192), (''KERNFS_REMOVING'', 16384)]"

definition enumdecl_kernfs_node_type :: cenum_decl where
  "enumdecl_kernfs_node_type = EnumDecl False [
     (''KERNFS_DIR'', 1), (''KERNFS_FILE'', 2), (''KERNFS_LINK'', 4)]"

definition enumdecl_kernfs_root_flag :: cenum_decl where
  "enumdecl_kernfs_root_flag = EnumDecl False [
     (''KERNFS_ROOT_CREATE_DEACTIVATED'', 1), (''KERNFS_ROOT_EXTRA_OPEN_PERM_CHECK'', 2),
     (''KERNFS_ROOT_SUPPORT_EXPORTOP'', 4), (''KERNFS_ROOT_SUPPORT_USER_XATTR'', 8),
     (''KERNFS_ROOT_INVARIANT_PARENT'', 16)]"

definition enumdecl_key_being_used_for :: cenum_decl where
  "enumdecl_key_being_used_for = EnumDecl False [
     (''VERIFYING_MODULE_SIGNATURE'', 0), (''VERIFYING_FIRMWARE_SIGNATURE'', 1),
     (''VERIFYING_KEXEC_PE_SIGNATURE'', 2), (''VERIFYING_KEY_SIGNATURE'', 3),
     (''VERIFYING_KEY_SELF_SIGNATURE'', 4), (''VERIFYING_UNSPECIFIED_SIGNATURE'', 5),
     (''VERIFYING_BPF_SIGNATURE'', 6), (''NR__KEY_BEING_USED_FOR'', 7)]"

definition enumdecl_key_lookup_flag :: cenum_decl where
  "enumdecl_key_lookup_flag = EnumDecl False [
     (''KEY_LOOKUP_CREATE'', 1), (''KEY_LOOKUP_PARTIAL'', 2), (''KEY_LOOKUP_ALL'', 3)]"

definition enumdecl_key_need_perm :: cenum_decl where
  "enumdecl_key_need_perm = EnumDecl False [
     (''KEY_NEED_UNSPECIFIED'', 0), (''KEY_NEED_VIEW'', 1), (''KEY_NEED_READ'', 2),
     (''KEY_NEED_WRITE'', 3), (''KEY_NEED_SEARCH'', 4), (''KEY_NEED_LINK'', 5),
     (''KEY_NEED_SETATTR'', 6), (''KEY_NEED_UNLINK'', 7), (''KEY_SYSADMIN_OVERRIDE'', 8),
     (''KEY_AUTHTOKEN_OVERRIDE'', 9), (''KEY_DEFER_PERM_CHECK'', 10)]"

definition enumdecl_key_notification_subtype :: cenum_decl where
  "enumdecl_key_notification_subtype = EnumDecl False [
     (''NOTIFY_KEY_INSTANTIATED'', 0), (''NOTIFY_KEY_UPDATED'', 1), (''NOTIFY_KEY_LINKED'', 2),
     (''NOTIFY_KEY_UNLINKED'', 3), (''NOTIFY_KEY_CLEARED'', 4), (''NOTIFY_KEY_REVOKED'', 5),
     (''NOTIFY_KEY_INVALIDATED'', 6), (''NOTIFY_KEY_SETATTR'', 7)]"

definition enumdecl_key_state :: cenum_decl where
  "enumdecl_key_state = EnumDecl False [
     (''KEY_IS_UNINSTANTIATED'', 0), (''KEY_IS_POSITIVE'', 1)]"

definition enumdecl_kfence_counter_id :: cenum_decl where
  "enumdecl_kfence_counter_id = EnumDecl False [
     (''KFENCE_COUNTER_ALLOCATED'', 0), (''KFENCE_COUNTER_ALLOCS'', 1),
     (''KFENCE_COUNTER_FREES'', 2), (''KFENCE_COUNTER_ZOMBIES'', 3),
     (''KFENCE_COUNTER_BUGS'', 4), (''KFENCE_COUNTER_SKIP_INCOMPAT'', 5),
     (''KFENCE_COUNTER_SKIP_CAPACITY'', 6), (''KFENCE_COUNTER_SKIP_COVERED'', 7),
     (''KFENCE_COUNTER_COUNT'', 8)]"

definition enumdecl_kfence_error_type :: cenum_decl where
  "enumdecl_kfence_error_type = EnumDecl False [
     (''KFENCE_ERROR_OOB'', 0), (''KFENCE_ERROR_UAF'', 1), (''KFENCE_ERROR_CORRUPTION'', 2),
     (''KFENCE_ERROR_INVALID'', 3), (''KFENCE_ERROR_INVALID_FREE'', 4)]"

definition enumdecl_kfence_object_state :: cenum_decl where
  "enumdecl_kfence_object_state = EnumDecl False [
     (''KFENCE_OBJECT_UNUSED'', 0), (''KFENCE_OBJECT_ALLOCATED'', 1),
     (''KFENCE_OBJECT_RCU_FREEING'', 2), (''KFENCE_OBJECT_FREED'', 3)]"

definition enumdecl_kfunc_ptr_arg_type :: cenum_decl where
  "enumdecl_kfunc_ptr_arg_type = EnumDecl False [
     (''KF_ARG_PTR_TO_CTX'', 0), (''KF_ARG_PTR_TO_ALLOC_BTF_ID'', 1),
     (''KF_ARG_PTR_TO_REFCOUNTED_KPTR'', 2), (''KF_ARG_PTR_TO_DYNPTR'', 3),
     (''KF_ARG_PTR_TO_ITER'', 4), (''KF_ARG_PTR_TO_LIST_HEAD'', 5),
     (''KF_ARG_PTR_TO_LIST_NODE'', 6), (''KF_ARG_PTR_TO_BTF_ID'', 7), (''KF_ARG_PTR_TO_MEM'', 8),
     (''KF_ARG_PTR_TO_MEM_SIZE'', 9), (''KF_ARG_PTR_TO_CALLBACK'', 10),
     (''KF_ARG_PTR_TO_RB_ROOT'', 11), (''KF_ARG_PTR_TO_RB_NODE'', 12),
     (''KF_ARG_PTR_TO_NULL'', 13), (''KF_ARG_PTR_TO_CONST_STR'', 14),
     (''KF_ARG_PTR_TO_MAP'', 15), (''KF_ARG_PTR_TO_TIMER'', 16),
     (''KF_ARG_PTR_TO_WORKQUEUE'', 17), (''KF_ARG_PTR_TO_IRQ_FLAG'', 18),
     (''KF_ARG_PTR_TO_RES_SPIN_LOCK'', 19), (''KF_ARG_PTR_TO_TASK_WORK'', 20)]"

definition enumdecl_kgdb_bpstate :: cenum_decl where
  "enumdecl_kgdb_bpstate = EnumDecl False [
     (''BP_UNDEFINED'', 0), (''BP_REMOVED'', 1), (''BP_SET'', 2), (''BP_ACTIVE'', 3)]"

definition enumdecl_kgdb_bptype :: cenum_decl where
  "enumdecl_kgdb_bptype = EnumDecl False [
     (''BP_BREAKPOINT'', 0), (''BP_HARDWARE_BREAKPOINT'', 1), (''BP_WRITE_WATCHPOINT'', 2),
     (''BP_READ_WATCHPOINT'', 3), (''BP_ACCESS_WATCHPOINT'', 4), (''BP_POKE_BREAKPOINT'', 5)]"

definition enumdecl_kmalloc_cache_type :: cenum_decl where
  "enumdecl_kmalloc_cache_type = EnumDecl False [
     (''KMALLOC_NORMAL'', 0), (''KMALLOC_RANDOM_START'', 0), (''KMALLOC_RANDOM_END'', 15),
     (''KMALLOC_RECLAIM'', 16), (''KMALLOC_DMA'', 17), (''KMALLOC_CGROUP'', 18),
     (''NR_KMALLOC_TYPES'', 19)]"

definition enumdecl_kmsg_dump_reason :: cenum_decl where
  "enumdecl_kmsg_dump_reason = EnumDecl False [
     (''KMSG_DUMP_UNDEF'', 0), (''KMSG_DUMP_PANIC'', 1), (''KMSG_DUMP_OOPS'', 2),
     (''KMSG_DUMP_EMERG'', 3), (''KMSG_DUMP_SHUTDOWN'', 4), (''KMSG_DUMP_MAX'', 5)]"

definition enumdecl_kobj_ns_type :: cenum_decl where
  "enumdecl_kobj_ns_type = EnumDecl False [
     (''KOBJ_NS_TYPE_NONE'', 0), (''KOBJ_NS_TYPE_NET'', 1), (''KOBJ_NS_TYPES'', 2)]"

definition enumdecl_kobject_action :: cenum_decl where
  "enumdecl_kobject_action = EnumDecl False [
     (''KOBJ_ADD'', 0), (''KOBJ_REMOVE'', 1), (''KOBJ_CHANGE'', 2), (''KOBJ_MOVE'', 3),
     (''KOBJ_ONLINE'', 4), (''KOBJ_OFFLINE'', 5), (''KOBJ_BIND'', 6), (''KOBJ_UNBIND'', 7)]"

definition enumdecl_kpage_operation :: cenum_decl where
  "enumdecl_kpage_operation = EnumDecl False [
     (''KPAGE_FLAGS'', 0), (''KPAGE_COUNT'', 1), (''KPAGE_CGROUP'', 2)]"

definition enumdecl_kprobe_slot_state :: cenum_decl where
  "enumdecl_kprobe_slot_state = EnumDecl False [
     (''SLOT_CLEAN'', 0), (''SLOT_DIRTY'', 1), (''SLOT_USED'', 2)]"

definition enumdecl_ksm_advisor_type :: cenum_decl where
  "enumdecl_ksm_advisor_type = EnumDecl False [
     (''KSM_ADVISOR_NONE'', 0), (''KSM_ADVISOR_SCAN_TIME'', 1)]"

definition enumdecl_ksm_get_folio_flags :: cenum_decl where
  "enumdecl_ksm_get_folio_flags = EnumDecl False [
     (''KSM_GET_FOLIO_NOLOCK'', 0), (''KSM_GET_FOLIO_LOCK'', 1), (''KSM_GET_FOLIO_TRYLOCK'', 2)]"

definition enumdecl_kswapd_clear_hopeless_reason :: cenum_decl where
  "enumdecl_kswapd_clear_hopeless_reason = EnumDecl False [
     (''KSWAPD_CLEAR_HOPELESS_OTHER'', 0), (''KSWAPD_CLEAR_HOPELESS_KSWAPD'', 1),
     (''KSWAPD_CLEAR_HOPELESS_DIRECT'', 2), (''KSWAPD_CLEAR_HOPELESS_PCP'', 3)]"

definition enumdecl_kvm_apic_logical_mode :: cenum_decl where
  "enumdecl_kvm_apic_logical_mode = EnumDecl False [
     (''KVM_APIC_MODE_SW_DISABLED'', 0), (''KVM_APIC_MODE_XAPIC_CLUSTER'', 1),
     (''KVM_APIC_MODE_XAPIC_FLAT'', 2), (''KVM_APIC_MODE_X2APIC'', 3),
     (''KVM_APIC_MODE_MAP_DISABLED'', 4)]"

definition enumdecl_kvm_bus :: cenum_decl where
  "enumdecl_kvm_bus = EnumDecl False [
     (''KVM_MMIO_BUS'', 0), (''KVM_PIO_BUS'', 1), (''KVM_VIRTIO_CCW_NOTIFY_BUS'', 2),
     (''KVM_FAST_MMIO_BUS'', 3), (''KVM_IOCSR_BUS'', 4), (''KVM_NR_BUSES'', 5)]"

definition enumdecl_kvm_irqchip_mode :: cenum_decl where
  "enumdecl_kvm_irqchip_mode = EnumDecl False [
     (''KVM_IRQCHIP_NONE'', 0), (''KVM_IRQCHIP_KERNEL'', 1), (''KVM_IRQCHIP_SPLIT'', 2)]"

definition enumdecl_kvm_mmu_type :: cenum_decl where
  "enumdecl_kvm_mmu_type = EnumDecl False [
     (''KVM_SHADOW_MMU'', 0), (''KVM_TDP_MMU'', 1), (''KVM_NR_MMU_TYPES'', 2)]"

definition enumdecl_kvm_only_cpuid_leafs :: cenum_decl where
  "enumdecl_kvm_only_cpuid_leafs = EnumDecl False [
     (''CPUID_12_EAX'', 22), (''CPUID_7_1_EDX'', 23), (''CPUID_8000_0007_EDX'', 24),
     (''CPUID_8000_0022_EAX'', 25), (''CPUID_7_2_EDX'', 26), (''CPUID_24_0_EBX'', 27),
     (''CPUID_8000_0021_ECX'', 28), (''CPUID_7_1_ECX'', 29), (''CPUID_1E_1_EAX'', 30),
     (''CPUID_24_1_ECX'', 31), (''NR_KVM_CPU_CAPS'', 32), (''NKVMCAPINTS'', 10)]"

definition enumdecl_kvm_reg :: cenum_decl where
  "enumdecl_kvm_reg = EnumDecl False [
     (''VCPU_REGS_RAX'', 0), (''VCPU_REGS_RCX'', 1), (''VCPU_REGS_RDX'', 2),
     (''VCPU_REGS_RBX'', 3), (''VCPU_REGS_RSP'', 4), (''VCPU_REGS_RBP'', 5),
     (''VCPU_REGS_RSI'', 6), (''VCPU_REGS_RDI'', 7), (''VCPU_REGS_R8'', 8),
     (''VCPU_REGS_R9'', 9), (''VCPU_REGS_R10'', 10), (''VCPU_REGS_R11'', 11),
     (''VCPU_REGS_R12'', 12), (''VCPU_REGS_R13'', 13), (''VCPU_REGS_R14'', 14),
     (''VCPU_REGS_R15'', 15), (''VCPU_REGS_RIP'', 16), (''NR_VCPU_REGS'', 17),
     (''VCPU_EXREG_PDPTR'', 17), (''VCPU_EXREG_CR0'', 18), (''VCPU_EXREG_CR3'', 19),
     (''VCPU_EXREG_ERAPS'', 19), (''VCPU_EXREG_CR4'', 20), (''VCPU_EXREG_RFLAGS'', 21),
     (''VCPU_EXREG_SEGMENTS'', 22), (''VCPU_EXREG_EXIT_INFO_1'', 23),
     (''VCPU_EXREG_EXIT_INFO_2'', 24)]"

definition enumdecl_kvm_stat_kind :: cenum_decl where
  "enumdecl_kvm_stat_kind = EnumDecl False [
     (''KVM_STAT_VM'', 0), (''KVM_STAT_VCPU'', 1)]"

definition enumdecl_kvm_suppress_eoi_broadcast_mode :: cenum_decl where
  "enumdecl_kvm_suppress_eoi_broadcast_mode = EnumDecl False [
     (''KVM_SUPPRESS_EOI_BROADCAST_QUIRKED'', 0), (''KVM_SUPPRESS_EOI_BROADCAST_ENABLED'', 1),
     (''KVM_SUPPRESS_EOI_BROADCAST_DISABLED'', 2)]"

definition enumdecl_l1d_flush_mitigations :: cenum_decl where
  "enumdecl_l1d_flush_mitigations = EnumDecl False [
     (''L1D_FLUSH_OFF'', 0), (''L1D_FLUSH_ON'', 1)]"

definition enumdecl_l1tf_mitigations :: cenum_decl where
  "enumdecl_l1tf_mitigations = EnumDecl False [
     (''L1TF_MITIGATION_OFF'', 0), (''L1TF_MITIGATION_AUTO'', 1),
     (''L1TF_MITIGATION_FLUSH_NOWARN'', 2), (''L1TF_MITIGATION_FLUSH'', 3),
     (''L1TF_MITIGATION_FLUSH_NOSMT'', 4), (''L1TF_MITIGATION_FULL'', 5),
     (''L1TF_MITIGATION_FULL_FORCE'', 6)]"

definition enumdecl_l2tp_debug_flags :: cenum_decl where
  "enumdecl_l2tp_debug_flags = EnumDecl False [
     (''L2TP_MSG_DEBUG'', 1), (''L2TP_MSG_CONTROL'', 2), (''L2TP_MSG_SEQ'', 4),
     (''L2TP_MSG_DATA'', 8)]"

definition enumdecl_l3mdev_type :: cenum_decl where
  "enumdecl_l3mdev_type = EnumDecl False [
     (''L3MDEV_TYPE_UNSPEC'', 0), (''L3MDEV_TYPE_VRF'', 1), (''__L3MDEV_TYPE_MAX'', 2)]"

definition enumdecl_label_flags :: cenum_decl where
  "enumdecl_label_flags = EnumDecl False [
     (''FLAG_HAT'', 1), (''FLAG_UNCONFINED'', 2), (''FLAG_NULL'', 4),
     (''FLAG_IX_ON_NAME_ERROR'', 8), (''FLAG_IMMUTIBLE'', 16), (''FLAG_USER_DEFINED'', 32),
     (''FLAG_NO_LIST_REF'', 64), (''FLAG_NS_COUNT'', 128), (''FLAG_IN_TREE'', 256),
     (''FLAG_PROFILE'', 512), (''FLAG_EXPLICIT'', 1024), (''FLAG_STALE'', 2048),
     (''FLAG_INTERRUPTIBLE'', 4096), (''FLAG_REVOKED'', 8192), (''FLAG_DEBUG1'', 16384),
     (''FLAG_DEBUG2'', 32768)]"

definition enumdecl_label_initialized :: cenum_decl where
  "enumdecl_label_initialized = EnumDecl False [
     (''LABEL_INVALID'', 0), (''LABEL_INITIALIZED'', 1), (''LABEL_PENDING'', 2)]"

definition enumdecl_landlock_key_type :: cenum_decl where
  "enumdecl_landlock_key_type = EnumDecl False [
     (''LANDLOCK_KEY_INODE'', 1), (''LANDLOCK_KEY_NET_PORT'', 2)]"

definition enumdecl_landlock_log_status :: cenum_decl where
  "enumdecl_landlock_log_status = EnumDecl False [
     (''LANDLOCK_LOG_PENDING'', 0), (''LANDLOCK_LOG_RECORDED'', 1),
     (''LANDLOCK_LOG_DISABLED'', 2)]"

definition enumdecl_landlock_request_type :: cenum_decl where
  "enumdecl_landlock_request_type = EnumDecl False [
     (''LANDLOCK_REQUEST_PTRACE'', 1), (''LANDLOCK_REQUEST_FS_CHANGE_TOPOLOGY'', 2),
     (''LANDLOCK_REQUEST_FS_ACCESS'', 3), (''LANDLOCK_REQUEST_NET_ACCESS'', 4),
     (''LANDLOCK_REQUEST_SCOPE_ABSTRACT_UNIX_SOCKET'', 5), (''LANDLOCK_REQUEST_SCOPE_SIGNAL'', 6)]"

definition enumdecl_landlock_rule_type :: cenum_decl where
  "enumdecl_landlock_rule_type = EnumDecl False [
     (''LANDLOCK_RULE_PATH_BENEATH'', 1), (''LANDLOCK_RULE_NET_PORT'', 2)]"

definition enumdecl_latency_count :: cenum_decl where
  "enumdecl_latency_count = EnumDecl False [
     (''COUNTS_10e2'', 0), (''COUNTS_10e3'', 1), (''COUNTS_10e4'', 2), (''COUNTS_10e5'', 3),
     (''COUNTS_10e6'', 4), (''COUNTS_10e7'', 5), (''COUNTS_10e8_plus'', 6), (''COUNTS_MIN'', 7),
     (''COUNTS_MAX'', 8), (''COUNTS_SUM'', 9), (''COUNTS_NUM'', 10)]"

definition enumdecl_latency_type :: cenum_decl where
  "enumdecl_latency_type = EnumDecl False [
     (''DMAR_LATENCY_INV_IOTLB'', 0), (''DMAR_LATENCY_INV_DEVTLB'', 1),
     (''DMAR_LATENCY_INV_IEC'', 2), (''DMAR_LATENCY_NUM'', 3)]"

definition enumdecl_ldma_chan_on_off :: cenum_decl where
  "enumdecl_ldma_chan_on_off = EnumDecl False [
     (''DMA_CH_OFF'', 0), (''DMA_CH_ON'', 1)]"

definition enumdecl_led_brightness :: cenum_decl where
  "enumdecl_led_brightness = EnumDecl False [
     (''LED_OFF'', 0), (''LED_ON'', 1), (''LED_HALF'', 127), (''LED_FULL'', 255)]"

definition enumdecl_led_default_state :: cenum_decl where
  "enumdecl_led_default_state = EnumDecl False [
     (''LEDS_DEFSTATE_OFF'', 0), (''LEDS_DEFSTATE_ON'', 1), (''LEDS_DEFSTATE_KEEP'', 2)]"

definition enumdecl_link_inband_signalling :: cenum_decl where
  "enumdecl_link_inband_signalling = EnumDecl False [
     (''LINK_INBAND_DISABLE'', 1), (''LINK_INBAND_ENABLE'', 2), (''LINK_INBAND_BYPASS'', 4)]"

definition enumdecl_linux_mptcp_mib_field :: cenum_decl where
  "enumdecl_linux_mptcp_mib_field = EnumDecl False [
     (''MPTCP_MIB_NUM'', 0), (''MPTCP_MIB_MPCAPABLEPASSIVE'', 1),
     (''MPTCP_MIB_MPCAPABLEACTIVE'', 2), (''MPTCP_MIB_MPCAPABLEACTIVEACK'', 3),
     (''MPTCP_MIB_MPCAPABLEPASSIVEACK'', 4), (''MPTCP_MIB_MPCAPABLEPASSIVEFALLBACK'', 5),
     (''MPTCP_MIB_MPCAPABLEACTIVEFALLBACK'', 6), (''MPTCP_MIB_MPCAPABLEACTIVEDROP'', 7),
     (''MPTCP_MIB_MPCAPABLEACTIVEDISABLED'', 8), (''MPTCP_MIB_MPCAPABLEENDPATTEMPT'', 9),
     (''MPTCP_MIB_TOKENFALLBACKINIT'', 10), (''MPTCP_MIB_RETRANSSEGS'', 11),
     (''MPTCP_MIB_JOINNOTOKEN'', 12), (''MPTCP_MIB_JOINSYNRX'', 13),
     (''MPTCP_MIB_JOINSYNBACKUPRX'', 14), (''MPTCP_MIB_JOINSYNACKRX'', 15),
     (''MPTCP_MIB_JOINSYNACKBACKUPRX'', 16), (''MPTCP_MIB_JOINSYNACKMAC'', 17),
     (''MPTCP_MIB_JOINACKRX'', 18), (''MPTCP_MIB_JOINACKMAC'', 19),
     (''MPTCP_MIB_JOINREJECTED'', 20), (''MPTCP_MIB_JOINSYNTX'', 21),
     (''MPTCP_MIB_JOINSYNTXCREATSKERR'', 22), (''MPTCP_MIB_JOINSYNTXBINDERR'', 23),
     (''MPTCP_MIB_JOINSYNTXCONNECTERR'', 24), (''MPTCP_MIB_DSSNOMATCH'', 25),
     (''MPTCP_MIB_DSSCORRUPTIONFALLBACK'', 26), (''MPTCP_MIB_DSSCORRUPTIONRESET'', 27),
     (''MPTCP_MIB_INFINITEMAPTX'', 28), (''MPTCP_MIB_INFINITEMAPRX'', 29),
     (''MPTCP_MIB_DSSTCPMISMATCH'', 30), (''MPTCP_MIB_DATACSUMERR'', 31),
     (''MPTCP_MIB_OFOQUEUETAIL'', 32), (''MPTCP_MIB_OFOQUEUE'', 33),
     (''MPTCP_MIB_OFOMERGE'', 34), (''MPTCP_MIB_NODSSWINDOW'', 35), (''MPTCP_MIB_DUPDATA'', 36),
     (''MPTCP_MIB_ADDADDR'', 37), (''MPTCP_MIB_ADDADDRTX'', 38),
     (''MPTCP_MIB_ADDADDRTXDROP'', 39), (''MPTCP_MIB_ECHOADD'', 40),
     (''MPTCP_MIB_ECHOADDTX'', 41), (''MPTCP_MIB_ECHOADDTXDROP'', 42),
     (''MPTCP_MIB_PORTADD'', 43), (''MPTCP_MIB_ADDADDRDROP'', 44),
     (''MPTCP_MIB_JOINPORTSYNRX'', 45), (''MPTCP_MIB_JOINPORTSYNACKRX'', 46),
     (''MPTCP_MIB_JOINPORTACKRX'', 47), (''MPTCP_MIB_MISMATCHPORTSYNRX'', 48),
     (''MPTCP_MIB_MISMATCHPORTACKRX'', 49), (''MPTCP_MIB_RMADDR'', 50),
     (''MPTCP_MIB_RMADDRDROP'', 51), (''MPTCP_MIB_RMADDRTX'', 52),
     (''MPTCP_MIB_RMADDRTXDROP'', 53), (''MPTCP_MIB_RMSUBFLOW'', 54),
     (''MPTCP_MIB_MPPRIOTX'', 55), (''MPTCP_MIB_MPPRIORX'', 56), (''MPTCP_MIB_MPFAILTX'', 57),
     (''MPTCP_MIB_MPFAILRX'', 58), (''MPTCP_MIB_MPFASTCLOSETX'', 59),
     (''MPTCP_MIB_MPFASTCLOSERX'', 60), (''MPTCP_MIB_MPRSTTX'', 61), (''MPTCP_MIB_MPRSTRX'', 62),
     (''MPTCP_MIB_SUBFLOWSTALE'', 63), (''MPTCP_MIB_SUBFLOWRECOVER'', 64),
     (''MPTCP_MIB_SNDWNDSHARED'', 65), (''MPTCP_MIB_RCVWNDSHARED'', 66),
     (''MPTCP_MIB_RCVWNDCONFLICTUPDATE'', 67), (''MPTCP_MIB_RCVWNDCONFLICT'', 68),
     (''MPTCP_MIB_CURRESTAB'', 69), (''MPTCP_MIB_BLACKHOLE'', 70),
     (''MPTCP_MIB_MPCAPABLEDATAFALLBACK'', 71), (''MPTCP_MIB_MD5SIGFALLBACK'', 72),
     (''MPTCP_MIB_DSSFALLBACK'', 73), (''MPTCP_MIB_SIMULTCONNFALLBACK'', 74),
     (''MPTCP_MIB_FALLBACKFAILED'', 75), (''MPTCP_MIB_WINPROBE'', 76), (''__MPTCP_MIB_MAX'', 77)]"

definition enum_decls_13 :: "cenum_decl list" where
  "enum_decls_13 = [
     enumdecl_ib_uverbs_gid_type, enumdecl_ib_uverbs_odp_general_cap_bits,
     enumdecl_ib_uverbs_odp_transport_cap_bits, enumdecl_ib_uverbs_qp_create_flags,
     enumdecl_ib_uverbs_qp_type, enumdecl_ib_uverbs_raw_packet_caps, enumdecl_ib_uverbs_srq_type,
     enumdecl_ib_uverbs_wc_opcode, enumdecl_ib_uverbs_wq_flags, enumdecl_ib_uverbs_wq_type,
     enumdecl_ib_uverbs_wr_opcode, enumdecl_ib_wc_opcode, enumdecl_ib_wc_status,
     enumdecl_ib_wq_state, enumdecl_ib_wq_type, enumdecl_ib_wr_opcode, enumdecl_ibs_states,
     enumdecl_id_action, enumdecl_idle_boot_override, enumdecl_ieee80211_bss_type,
     enumdecl_ieee80211_edmg_bw_config, enumdecl_ieee802154_filtering_level,
     enumdecl_ieee8021q_traffic_type, enumdecl_ieee_attrs, enumdecl_ieee_attrs_app,
     enumdecl_ima_fs_flags, enumdecl_ima_hooks, enumdecl_ima_show_type,
     enumdecl_in6_addr_gen_mode, enumdecl_inet_csk_ack_state_t, enumdecl_init_ns_id,
     enumdecl_init_ns_ino, enumdecl_inode_i_mutex_lock_class, enumdecl_inode_state_bits,
     enumdecl_inode_state_flags_enum, enumdecl_input_clock_type, enumdecl_insn_mmio_type,
     enumdecl_insn_mode, enumdecl_insn_type, enumdecl_int_type, enumdecl_integrity_status,
     enumdecl_intel_cht_wc_models, enumdecl_intel_cpu_type, enumdecl_intel_excl_state_type,
     enumdecl_intel_native_id, enumdecl_intercept_words, enumdecl_io_uring_cmd_flags,
     enumdecl_io_uring_msg_ring_flags, enumdecl_io_uring_napi_op,
     enumdecl_io_uring_napi_tracking_strategy, enumdecl_io_uring_op,
     enumdecl_io_uring_register_op, enumdecl_io_uring_register_pbuf_ring_flags,
     enumdecl_io_uring_register_restriction_op, enumdecl_io_uring_socket_op,
     enumdecl_io_uring_sqe_flags_bit, enumdecl_io_uring_zcrx_area_flags, enumdecl_io_wq_cancel,
     enumdecl_io_wq_type, enumdecl_ioam6_event_attr, enumdecl_ioam6_event_type,
     enumdecl_ioapic_domain_type, enumdecl_ioc_running, enumdecl_iommu_cap,
     enumdecl_iommu_dma_queue_type, enumdecl_iommu_domain_cookie_type, enumdecl_iommu_fault_type,
     enumdecl_iommu_hw_info_type, enumdecl_iommu_hw_info_vtd_flags, enumdecl_iommu_hw_queue_type,
     enumdecl_iommu_hwpt_data_type, enumdecl_iommu_hwpt_invalidate_data_type,
     enumdecl_iommu_hwpt_vtd_s1_flags, enumdecl_iommu_hwpt_vtd_s1_invalidate_flags,
     enumdecl_iommu_init_state, enumdecl_iommu_page_response_code, enumdecl_iommu_resv_type,
     enumdecl_iommu_veventq_type, enumdecl_iommu_viommu_type, enumdecl_iommufd_hwpt_alloc_flags,
     enumdecl_iommufd_object_type, enumdecl_ip6_defrag_users, enumdecl_ip_conntrack_dir,
     enumdecl_ip_conntrack_info, enumdecl_ip_conntrack_status, enumdecl_ip_defrag_users,
     enumdecl_ipe_action_type, enumdecl_ipe_hook_type, enumdecl_ipe_match, enumdecl_ipe_op_type,
     enumdecl_ipe_prop_type, enumdecl_ipi_vector, enumdecl_ipmi_addr_space,
     enumdecl_ipmi_addr_src, enumdecl_ipmi_plat_interface_type, enumdecl_irq_alloc_type,
     enumdecl_irq_domain_bus_token, enumdecl_irq_gc_flags, enumdecl_irq_remap_cap,
     enumdecl_irqchip_irq_state, enumdecl_irqreturn, enumdecl_iter_type, enumdecl_its_mitigation,
     enumdecl_jbd2_shrink_type, enumdecl_jbd_state_bits, enumdecl_jump_label_type,
     enumdecl_kcmp_type, enumdecl_kcore_type, enumdecl_kdb_msgsrc, enumdecl_kernel_gp_hint,
     enumdecl_kernel_load_data_id, enumdecl_kernel_pkey_operation, enumdecl_kernel_read_file_id,
     enumdecl_kernfs_node_flag, enumdecl_kernfs_node_type, enumdecl_kernfs_root_flag,
     enumdecl_key_being_used_for, enumdecl_key_lookup_flag, enumdecl_key_need_perm,
     enumdecl_key_notification_subtype, enumdecl_key_state, enumdecl_kfence_counter_id,
     enumdecl_kfence_error_type, enumdecl_kfence_object_state, enumdecl_kfunc_ptr_arg_type,
     enumdecl_kgdb_bpstate, enumdecl_kgdb_bptype, enumdecl_kmalloc_cache_type,
     enumdecl_kmsg_dump_reason, enumdecl_kobj_ns_type, enumdecl_kobject_action,
     enumdecl_kpage_operation, enumdecl_kprobe_slot_state, enumdecl_ksm_advisor_type,
     enumdecl_ksm_get_folio_flags, enumdecl_kswapd_clear_hopeless_reason,
     enumdecl_kvm_apic_logical_mode, enumdecl_kvm_bus, enumdecl_kvm_irqchip_mode,
     enumdecl_kvm_mmu_type, enumdecl_kvm_only_cpuid_leafs, enumdecl_kvm_reg,
     enumdecl_kvm_stat_kind, enumdecl_kvm_suppress_eoi_broadcast_mode,
     enumdecl_l1d_flush_mitigations, enumdecl_l1tf_mitigations, enumdecl_l2tp_debug_flags,
     enumdecl_l3mdev_type, enumdecl_label_flags, enumdecl_label_initialized,
     enumdecl_landlock_key_type, enumdecl_landlock_log_status, enumdecl_landlock_request_type,
     enumdecl_landlock_rule_type, enumdecl_latency_count, enumdecl_latency_type,
     enumdecl_ldma_chan_on_off, enumdecl_led_brightness, enumdecl_led_default_state,
     enumdecl_link_inband_signalling, enumdecl_linux_mptcp_mib_field]"

lemma enum_decls_13_4: "list_all enum4 enum_decls_13"
  by (unfold enum_decls_13_def
     enumdecl_ib_uverbs_gid_type_def enumdecl_ib_uverbs_odp_general_cap_bits_def
     enumdecl_ib_uverbs_odp_transport_cap_bits_def enumdecl_ib_uverbs_qp_create_flags_def
     enumdecl_ib_uverbs_qp_type_def enumdecl_ib_uverbs_raw_packet_caps_def
     enumdecl_ib_uverbs_srq_type_def enumdecl_ib_uverbs_wc_opcode_def
     enumdecl_ib_uverbs_wq_flags_def enumdecl_ib_uverbs_wq_type_def
     enumdecl_ib_uverbs_wr_opcode_def enumdecl_ib_wc_opcode_def enumdecl_ib_wc_status_def
     enumdecl_ib_wq_state_def enumdecl_ib_wq_type_def enumdecl_ib_wr_opcode_def
     enumdecl_ibs_states_def enumdecl_id_action_def enumdecl_idle_boot_override_def
     enumdecl_ieee80211_bss_type_def enumdecl_ieee80211_edmg_bw_config_def
     enumdecl_ieee802154_filtering_level_def enumdecl_ieee8021q_traffic_type_def
     enumdecl_ieee_attrs_def enumdecl_ieee_attrs_app_def enumdecl_ima_fs_flags_def
     enumdecl_ima_hooks_def enumdecl_ima_show_type_def enumdecl_in6_addr_gen_mode_def
     enumdecl_inet_csk_ack_state_t_def enumdecl_init_ns_id_def
     enumdecl_inode_i_mutex_lock_class_def enumdecl_inode_state_bits_def
     enumdecl_inode_state_flags_enum_def enumdecl_input_clock_type_def
     enumdecl_insn_mmio_type_def enumdecl_insn_mode_def enumdecl_insn_type_def
     enumdecl_int_type_def enumdecl_integrity_status_def enumdecl_intel_cht_wc_models_def
     enumdecl_intel_cpu_type_def enumdecl_intel_excl_state_type_def
     enumdecl_intel_native_id_def enumdecl_intercept_words_def enumdecl_io_uring_cmd_flags_def
     enumdecl_io_uring_msg_ring_flags_def enumdecl_io_uring_napi_op_def
     enumdecl_io_uring_napi_tracking_strategy_def enumdecl_io_uring_op_def
     enumdecl_io_uring_register_pbuf_ring_flags_def
     enumdecl_io_uring_register_restriction_op_def enumdecl_io_uring_socket_op_def
     enumdecl_io_uring_sqe_flags_bit_def enumdecl_io_uring_zcrx_area_flags_def
     enumdecl_io_wq_cancel_def enumdecl_io_wq_type_def enumdecl_ioam6_event_attr_def
     enumdecl_ioam6_event_type_def enumdecl_ioapic_domain_type_def enumdecl_ioc_running_def
     enumdecl_iommu_cap_def enumdecl_iommu_dma_queue_type_def
     enumdecl_iommu_domain_cookie_type_def enumdecl_iommu_fault_type_def
     enumdecl_iommu_hw_info_type_def enumdecl_iommu_hw_info_vtd_flags_def
     enumdecl_iommu_hw_queue_type_def enumdecl_iommu_hwpt_data_type_def
     enumdecl_iommu_hwpt_invalidate_data_type_def enumdecl_iommu_hwpt_vtd_s1_flags_def
     enumdecl_iommu_hwpt_vtd_s1_invalidate_flags_def enumdecl_iommu_init_state_def
     enumdecl_iommu_page_response_code_def enumdecl_iommu_resv_type_def
     enumdecl_iommu_veventq_type_def enumdecl_iommu_viommu_type_def
     enumdecl_iommufd_hwpt_alloc_flags_def enumdecl_iommufd_object_type_def
     enumdecl_ip6_defrag_users_def enumdecl_ip_conntrack_dir_def
     enumdecl_ip_conntrack_info_def enumdecl_ip_conntrack_status_def
     enumdecl_ip_defrag_users_def enumdecl_ipe_action_type_def enumdecl_ipe_hook_type_def
     enumdecl_ipe_match_def enumdecl_ipe_op_type_def enumdecl_ipe_prop_type_def
     enumdecl_ipi_vector_def enumdecl_ipmi_addr_space_def enumdecl_ipmi_addr_src_def
     enumdecl_ipmi_plat_interface_type_def enumdecl_irq_alloc_type_def
     enumdecl_irq_domain_bus_token_def enumdecl_irq_gc_flags_def enumdecl_irq_remap_cap_def
     enumdecl_irqchip_irq_state_def enumdecl_irqreturn_def enumdecl_iter_type_def
     enumdecl_its_mitigation_def enumdecl_jbd2_shrink_type_def enumdecl_jbd_state_bits_def
     enumdecl_jump_label_type_def enumdecl_kcmp_type_def enumdecl_kcore_type_def
     enumdecl_kdb_msgsrc_def enumdecl_kernel_gp_hint_def enumdecl_kernel_load_data_id_def
     enumdecl_kernel_pkey_operation_def enumdecl_kernel_read_file_id_def
     enumdecl_kernfs_node_flag_def enumdecl_kernfs_node_type_def enumdecl_kernfs_root_flag_def
     enumdecl_key_being_used_for_def enumdecl_key_lookup_flag_def enumdecl_key_need_perm_def
     enumdecl_key_notification_subtype_def enumdecl_key_state_def
     enumdecl_kfence_counter_id_def enumdecl_kfence_error_type_def
     enumdecl_kfence_object_state_def enumdecl_kfunc_ptr_arg_type_def
     enumdecl_kgdb_bpstate_def enumdecl_kgdb_bptype_def enumdecl_kmalloc_cache_type_def
     enumdecl_kmsg_dump_reason_def enumdecl_kobj_ns_type_def enumdecl_kobject_action_def
     enumdecl_kpage_operation_def enumdecl_kprobe_slot_state_def enumdecl_ksm_advisor_type_def
     enumdecl_ksm_get_folio_flags_def enumdecl_kswapd_clear_hopeless_reason_def
     enumdecl_kvm_apic_logical_mode_def enumdecl_kvm_bus_def enumdecl_kvm_irqchip_mode_def
     enumdecl_kvm_mmu_type_def enumdecl_kvm_only_cpuid_leafs_def enumdecl_kvm_reg_def
     enumdecl_kvm_stat_kind_def enumdecl_kvm_suppress_eoi_broadcast_mode_def
     enumdecl_l1d_flush_mitigations_def enumdecl_l1tf_mitigations_def
     enumdecl_l2tp_debug_flags_def enumdecl_l3mdev_type_def enumdecl_label_flags_def
     enumdecl_label_initialized_def enumdecl_landlock_key_type_def
     enumdecl_landlock_log_status_def enumdecl_landlock_request_type_def
     enumdecl_landlock_rule_type_def enumdecl_latency_count_def enumdecl_latency_type_def
     enumdecl_ldma_chan_on_off_def enumdecl_led_brightness_def enumdecl_led_default_state_def
     enumdecl_link_inband_signalling_def enumdecl_linux_mptcp_mib_field_def)
    (intro enum_list_intros enum_int_intros enumdecl_init_ns_ino_4 enumdecl_io_uring_register_op_4; simp)

lemma length_enum_decls_13: "length enum_decls_13 = 161"
  by (simp add: enum_decls_13_def)

end
