(* ===== verification/VmlinuxEnum14.thy ===== *)
theory VmlinuxEnum14
  imports EnumDecl
begin

text \<open>
  The enumerations of four bytes of \<^verbatim>\<open>src/internal/ebpf/vmlinux.h\<close> between lines 21686 and
  23321, one definition per enumeration, enumerators in order. An enumeration without a tag is
  named after the line it starts on.
\<close>

definition enumdecl_llbitmap_action :: cenum_decl where
  "enumdecl_llbitmap_action = EnumDecl False [
     (''BitmapActionStartwrite'', 0), (''BitmapActionStartsync'', 1),
     (''BitmapActionEndsync'', 2), (''BitmapActionAbortsync'', 3), (''BitmapActionReload'', 4),
     (''BitmapActionDaemon'', 5), (''BitmapActionDiscard'', 6), (''BitmapActionStale'', 7),
     (''BitmapActionCount'', 8), (''BitmapActionInit'', 9)]"

definition enumdecl_llbitmap_page_state :: cenum_decl where
  "enumdecl_llbitmap_page_state = EnumDecl False [
     (''LLPageFlush'', 0), (''LLPageDirty'', 1)]"

definition enumdecl_llbitmap_state :: cenum_decl where
  "enumdecl_llbitmap_state = EnumDecl False [
     (''BitUnwritten'', 0), (''BitClean'', 1), (''BitDirty'', 2), (''BitNeedSync'', 3),
     (''BitSyncing'', 4), (''BitStateCount'', 5), (''BitNone'', 255)]"

definition enumdecl_locality_types :: cenum_decl where
  "enumdecl_locality_types = EnumDecl False [
     (''WRITE_LATENCY'', 0), (''READ_LATENCY'', 1), (''WRITE_BANDWIDTH'', 2),
     (''READ_BANDWIDTH'', 3)]"

definition enumdecl_lockdep_ok :: cenum_decl where
  "enumdecl_lockdep_ok = EnumDecl False [
     (''LOCKDEP_STILL_OK'', 0), (''LOCKDEP_NOW_UNRELIABLE'', 1)]"

definition enumdecl_lockdown_reason :: cenum_decl where
  "enumdecl_lockdown_reason = EnumDecl False [
     (''LOCKDOWN_NONE'', 0), (''LOCKDOWN_MODULE_SIGNATURE'', 1), (''LOCKDOWN_DEV_MEM'', 2),
     (''LOCKDOWN_EFI_TEST'', 3), (''LOCKDOWN_KEXEC'', 4), (''LOCKDOWN_HIBERNATION'', 5),
     (''LOCKDOWN_PCI_ACCESS'', 6), (''LOCKDOWN_IOPORT'', 7), (''LOCKDOWN_MSR'', 8),
     (''LOCKDOWN_ACPI_TABLES'', 9), (''LOCKDOWN_DEVICE_TREE'', 10),
     (''LOCKDOWN_PCMCIA_CIS'', 11), (''LOCKDOWN_TIOCSSERIAL'', 12),
     (''LOCKDOWN_MODULE_PARAMETERS'', 13), (''LOCKDOWN_MMIOTRACE'', 14),
     (''LOCKDOWN_DEBUGFS'', 15), (''LOCKDOWN_XMON_WR'', 16), (''LOCKDOWN_BPF_WRITE_USER'', 17),
     (''LOCKDOWN_DBG_WRITE_KERNEL'', 18), (''LOCKDOWN_RTAS_ERROR_INJECTION'', 19),
     (''LOCKDOWN_XEN_USER_ACTIONS'', 20), (''LOCKDOWN_INTEGRITY_MAX'', 21),
     (''LOCKDOWN_KCORE'', 22), (''LOCKDOWN_KPROBES'', 23), (''LOCKDOWN_BPF_READ_KERNEL'', 24),
     (''LOCKDOWN_DBG_READ_KERNEL'', 25), (''LOCKDOWN_PERF'', 26), (''LOCKDOWN_TRACEFS'', 27),
     (''LOCKDOWN_XMON_RW'', 28), (''LOCKDOWN_XFRM_SECRET'', 29),
     (''LOCKDOWN_CONFIDENTIALITY_MAX'', 30)]"

definition enumdecl_lp8788_alarm_sel :: cenum_decl where
  "enumdecl_lp8788_alarm_sel = EnumDecl False [
     (''LP8788_ALARM_1'', 0), (''LP8788_ALARM_2'', 1), (''LP8788_ALARM_MAX'', 2)]"

definition enumdecl_lp8788_charger_event :: cenum_decl where
  "enumdecl_lp8788_charger_event = EnumDecl False [
     (''NO_CHARGER'', 0), (''CHARGER_DETECTED'', 1)]"

definition enumdecl_lp8788_dvs_sel :: cenum_decl where
  "enumdecl_lp8788_dvs_sel = EnumDecl False [
     (''DVS_SEL_V0'', 0), (''DVS_SEL_V1'', 1), (''DVS_SEL_V2'', 2), (''DVS_SEL_V3'', 3)]"

definition enumdecl_lp8788_int_id :: cenum_decl where
  "enumdecl_lp8788_int_id = EnumDecl False [
     (''LP8788_INT_TSDL'', 0), (''LP8788_INT_TSDH'', 1), (''LP8788_INT_UVLO'', 2),
     (''LP8788_INT_FLAGMON'', 3), (''LP8788_INT_PWRON_TIME'', 4), (''LP8788_INT_PWRON'', 5),
     (''LP8788_INT_COMP1'', 6), (''LP8788_INT_COMP2'', 7), (''LP8788_INT_CHG_INPUT_STATE'', 8),
     (''LP8788_INT_CHG_STATE'', 9), (''LP8788_INT_EOC'', 10), (''LP8788_INT_CHG_RESTART'', 11),
     (''LP8788_INT_RESTART_TIMEOUT'', 12), (''LP8788_INT_FULLCHG_TIMEOUT'', 13),
     (''LP8788_INT_PRECHG_TIMEOUT'', 14), (''LP8788_INT_RTC_ALARM1'', 17),
     (''LP8788_INT_RTC_ALARM2'', 18), (''LP8788_INT_ENTER_SYS_SUPPORT'', 19),
     (''LP8788_INT_EXIT_SYS_SUPPORT'', 20), (''LP8788_INT_BATT_LOW'', 21),
     (''LP8788_INT_NO_BATT'', 22), (''LP8788_INT_MAX'', 24)]"

definition enumdecl_lp8788_isink_number :: cenum_decl where
  "enumdecl_lp8788_isink_number = EnumDecl False [
     (''LP8788_ISINK_1'', 0), (''LP8788_ISINK_2'', 1), (''LP8788_ISINK_3'', 2)]"

definition enumdecl_lp8788_isink_scale :: cenum_decl where
  "enumdecl_lp8788_isink_scale = EnumDecl False [
     (''LP8788_ISINK_SCALE_100mA'', 0), (''LP8788_ISINK_SCALE_120mA'', 1)]"

definition enumdecl_lru_list :: cenum_decl where
  "enumdecl_lru_list = EnumDecl False enum_lru_list"

definition enumdecl_lru_status :: cenum_decl where
  "enumdecl_lru_status = EnumDecl False [
     (''LRU_REMOVED'', 0), (''LRU_REMOVED_RETRY'', 1), (''LRU_ROTATE'', 2), (''LRU_SKIP'', 3),
     (''LRU_RETRY'', 4), (''LRU_STOP'', 5)]"

definition enumdecl_lruvec_flags :: cenum_decl where
  "enumdecl_lruvec_flags = EnumDecl False [
     (''LRUVEC_CGROUP_CONGESTED'', 0), (''LRUVEC_NODE_CONGESTED'', 1)]"

definition enumdecl_lsm_event :: cenum_decl where
  "enumdecl_lsm_event = EnumDecl False [
     (''LSM_POLICY_CHANGE'', 0), (''LSM_STARTED_ALL'', 1)]"

definition enumdecl_lsm_integrity_type :: cenum_decl where
  "enumdecl_lsm_integrity_type = EnumDecl False [
     (''LSM_INT_DMVERITY_SIG_VALID'', 0), (''LSM_INT_DMVERITY_ROOTHASH'', 1),
     (''LSM_INT_FSVERITY_BUILTINSIG_VALID'', 2)]"

definition enumdecl_lsm_order :: cenum_decl where
  "enumdecl_lsm_order = EnumDecl False [
     (''LSM_ORDER_FIRST'', - 1), (''LSM_ORDER_MUTABLE'', 0), (''LSM_ORDER_LAST'', 1)]"

definition enumdecl_lsm_rule_types :: cenum_decl where
  "enumdecl_lsm_rule_types = EnumDecl False [
     (''LSM_OBJ_USER'', 0), (''LSM_OBJ_ROLE'', 1), (''LSM_OBJ_TYPE'', 2), (''LSM_SUBJ_USER'', 3),
     (''LSM_SUBJ_ROLE'', 4), (''LSM_SUBJ_TYPE'', 5)]"

definition enumdecl_lw_bits :: cenum_decl where
  "enumdecl_lw_bits = EnumDecl False [
     (''LW_URGENT'', 0)]"

definition enumdecl_lwtunnel_encap_types :: cenum_decl where
  "enumdecl_lwtunnel_encap_types = EnumDecl False [
     (''LWTUNNEL_ENCAP_NONE'', 0), (''LWTUNNEL_ENCAP_MPLS'', 1), (''LWTUNNEL_ENCAP_IP'', 2),
     (''LWTUNNEL_ENCAP_ILA'', 3), (''LWTUNNEL_ENCAP_IP6'', 4), (''LWTUNNEL_ENCAP_SEG6'', 5),
     (''LWTUNNEL_ENCAP_BPF'', 6), (''LWTUNNEL_ENCAP_SEG6_LOCAL'', 7),
     (''LWTUNNEL_ENCAP_RPL'', 8), (''LWTUNNEL_ENCAP_IOAM6'', 9), (''LWTUNNEL_ENCAP_XFRM'', 10),
     (''__LWTUNNEL_ENCAP_MAX'', 11)]"

definition enumdecl_lwtunnel_ip6_t :: cenum_decl where
  "enumdecl_lwtunnel_ip6_t = EnumDecl False [
     (''LWTUNNEL_IP6_UNSPEC'', 0), (''LWTUNNEL_IP6_ID'', 1), (''LWTUNNEL_IP6_DST'', 2),
     (''LWTUNNEL_IP6_SRC'', 3), (''LWTUNNEL_IP6_HOPLIMIT'', 4), (''LWTUNNEL_IP6_TC'', 5),
     (''LWTUNNEL_IP6_FLAGS'', 6), (''LWTUNNEL_IP6_PAD'', 7), (''LWTUNNEL_IP6_OPTS'', 8),
     (''__LWTUNNEL_IP6_MAX'', 9)]"

definition enumdecl_lwtunnel_ip_t :: cenum_decl where
  "enumdecl_lwtunnel_ip_t = EnumDecl False [
     (''LWTUNNEL_IP_UNSPEC'', 0), (''LWTUNNEL_IP_ID'', 1), (''LWTUNNEL_IP_DST'', 2),
     (''LWTUNNEL_IP_SRC'', 3), (''LWTUNNEL_IP_TTL'', 4), (''LWTUNNEL_IP_TOS'', 5),
     (''LWTUNNEL_IP_FLAGS'', 6), (''LWTUNNEL_IP_PAD'', 7), (''LWTUNNEL_IP_OPTS'', 8),
     (''__LWTUNNEL_IP_MAX'', 9)]"

definition enumdecl_lzma2_seq :: cenum_decl where
  "enumdecl_lzma2_seq = EnumDecl False [
     (''SEQ_CONTROL'', 0), (''SEQ_UNCOMPRESSED_1'', 1), (''SEQ_UNCOMPRESSED_2'', 2),
     (''SEQ_COMPRESSED_0'', 3), (''SEQ_COMPRESSED_1'', 4), (''SEQ_PROPERTIES'', 5),
     (''SEQ_LZMA_PREPARE'', 6), (''SEQ_LZMA_RUN'', 7), (''SEQ_COPY'', 8)]"

definition enumdecl_lzma_state :: cenum_decl where
  "enumdecl_lzma_state = EnumDecl False [
     (''STATE_LIT_LIT'', 0), (''STATE_MATCH_LIT_LIT'', 1), (''STATE_REP_LIT_LIT'', 2),
     (''STATE_SHORTREP_LIT_LIT'', 3), (''STATE_MATCH_LIT'', 4), (''STATE_REP_LIT'', 5),
     (''STATE_SHORTREP_LIT'', 6), (''STATE_LIT_MATCH'', 7), (''STATE_LIT_LONGREP'', 8),
     (''STATE_LIT_SHORTREP'', 9), (''STATE_NONLIT_MATCH'', 10), (''STATE_NONLIT_REP'', 11)]"

definition enumdecl_macsec_offload :: cenum_decl where
  "enumdecl_macsec_offload = EnumDecl False [
     (''MACSEC_OFFLOAD_OFF'', 0), (''MACSEC_OFFLOAD_PHY'', 1), (''MACSEC_OFFLOAD_MAC'', 2),
     (''__MACSEC_OFFLOAD_END'', 3), (''MACSEC_OFFLOAD_MAX'', 2)]"

definition enumdecl_macsec_validation_type :: cenum_decl where
  "enumdecl_macsec_validation_type = EnumDecl False [
     (''MACSEC_VALIDATE_DISABLED'', 0), (''MACSEC_VALIDATE_CHECK'', 1),
     (''MACSEC_VALIDATE_STRICT'', 2), (''__MACSEC_VALIDATE_END'', 3),
     (''MACSEC_VALIDATE_MAX'', 2)]"

definition enumdecl_madvise_lock_mode :: cenum_decl where
  "enumdecl_madvise_lock_mode = EnumDecl False [
     (''MADVISE_NO_LOCK'', 0), (''MADVISE_MMAP_READ_LOCK'', 1), (''MADVISE_MMAP_WRITE_LOCK'', 2),
     (''MADVISE_VMA_READ_LOCK'', 3)]"

definition enumdecl_map_type :: cenum_decl where
  "enumdecl_map_type = EnumDecl False [
     (''map_wb'', 0), (''map_uc'', 1)]"

definition enumdecl_maple_status :: cenum_decl where
  "enumdecl_maple_status = EnumDecl False [
     (''ma_active'', 0), (''ma_start'', 1), (''ma_root'', 2), (''ma_none'', 3),
     (''ma_pause'', 4), (''ma_overflow'', 5), (''ma_underflow'', 6), (''ma_error'', 7)]"

definition enumdecl_maple_type :: cenum_decl where
  "enumdecl_maple_type = EnumDecl False [
     (''maple_dense'', 0), (''maple_leaf_64'', 1), (''maple_range_64'', 2),
     (''maple_arange_64'', 3)]"

definition enumdecl_mapping_flags :: cenum_decl where
  "enumdecl_mapping_flags = EnumDecl False [
     (''AS_EIO'', 0), (''AS_ENOSPC'', 1), (''AS_MM_ALL_LOCKS'', 2), (''AS_UNEVICTABLE'', 3),
     (''AS_EXITING'', 4), (''AS_NO_WRITEBACK_TAGS'', 5), (''AS_RELEASE_ALWAYS'', 6),
     (''AS_STABLE_WRITES'', 7), (''AS_INACCESSIBLE'', 8),
     (''AS_WRITEBACK_MAY_DEADLOCK_ON_RECLAIM'', 9), (''AS_KERNEL_FILE'', 10),
     (''AS_FOLIO_ORDER_BITS'', 5), (''AS_FOLIO_ORDER_MIN'', 16), (''AS_FOLIO_ORDER_MAX'', 21)]"

definition enumdecl_mapping_status :: cenum_decl where
  "enumdecl_mapping_status = EnumDecl False [
     (''MAPPING_OK'', 0), (''MAPPING_INVALID'', 1), (''MAPPING_EMPTY'', 2),
     (''MAPPING_DATA_FIN'', 3), (''MAPPING_DUMMY'', 4), (''MAPPING_BAD_CSUM'', 5),
     (''MAPPING_NODSS'', 6)]"

definition enumdecl_max14577_reg :: cenum_decl where
  "enumdecl_max14577_reg = EnumDecl False [
     (''MAX14577_REG_DEVICEID'', 0), (''MAX14577_REG_INT1'', 1), (''MAX14577_REG_INT2'', 2),
     (''MAX14577_REG_INT3'', 3), (''MAX14577_REG_STATUS1'', 4), (''MAX14577_REG_STATUS2'', 5),
     (''MAX14577_REG_STATUS3'', 6), (''MAX14577_REG_INTMASK1'', 7),
     (''MAX14577_REG_INTMASK2'', 8), (''MAX14577_REG_INTMASK3'', 9),
     (''MAX14577_REG_CDETCTRL1'', 10), (''MAX14577_REG_RFU'', 11),
     (''MAX14577_REG_CONTROL1'', 12), (''MAX14577_REG_CONTROL2'', 13),
     (''MAX14577_REG_CONTROL3'', 14), (''MAX14577_REG_CHGCTRL1'', 15),
     (''MAX14577_REG_CHGCTRL2'', 16), (''MAX14577_REG_CHGCTRL3'', 17),
     (''MAX14577_REG_CHGCTRL4'', 18), (''MAX14577_REG_CHGCTRL5'', 19),
     (''MAX14577_REG_CHGCTRL6'', 20), (''MAX14577_REG_CHGCTRL7'', 21), (''MAX14577_REG_END'', 22)]"

definition enumdecl_max77693_haptic_reg :: cenum_decl where
  "enumdecl_max77693_haptic_reg = EnumDecl False [
     (''MAX77693_HAPTIC_REG_STATUS'', 0), (''MAX77693_HAPTIC_REG_CONFIG1'', 1),
     (''MAX77693_HAPTIC_REG_CONFIG2'', 2), (''MAX77693_HAPTIC_REG_CONFIG_CHNL'', 3),
     (''MAX77693_HAPTIC_REG_CONFG_CYC1'', 4), (''MAX77693_HAPTIC_REG_CONFG_CYC2'', 5),
     (''MAX77693_HAPTIC_REG_CONFIG_PER1'', 6), (''MAX77693_HAPTIC_REG_CONFIG_PER2'', 7),
     (''MAX77693_HAPTIC_REG_CONFIG_PER3'', 8), (''MAX77693_HAPTIC_REG_CONFIG_PER4'', 9),
     (''MAX77693_HAPTIC_REG_CONFIG_DUTY1'', 10), (''MAX77693_HAPTIC_REG_CONFIG_DUTY2'', 11),
     (''MAX77693_HAPTIC_REG_CONFIG_PWM1'', 12), (''MAX77693_HAPTIC_REG_CONFIG_PWM2'', 13),
     (''MAX77693_HAPTIC_REG_CONFIG_PWM3'', 14), (''MAX77693_HAPTIC_REG_CONFIG_PWM4'', 15),
     (''MAX77693_HAPTIC_REG_REV'', 16), (''MAX77693_HAPTIC_REG_END'', 17)]"

definition enumdecl_max77693_muic_reg :: cenum_decl where
  "enumdecl_max77693_muic_reg = EnumDecl False [
     (''MAX77693_MUIC_REG_ID'', 0), (''MAX77693_MUIC_REG_INT1'', 1),
     (''MAX77693_MUIC_REG_INT2'', 2), (''MAX77693_MUIC_REG_INT3'', 3),
     (''MAX77693_MUIC_REG_STATUS1'', 4), (''MAX77693_MUIC_REG_STATUS2'', 5),
     (''MAX77693_MUIC_REG_STATUS3'', 6), (''MAX77693_MUIC_REG_INTMASK1'', 7),
     (''MAX77693_MUIC_REG_INTMASK2'', 8), (''MAX77693_MUIC_REG_INTMASK3'', 9),
     (''MAX77693_MUIC_REG_CDETCTRL1'', 10), (''MAX77693_MUIC_REG_CDETCTRL2'', 11),
     (''MAX77693_MUIC_REG_CTRL1'', 12), (''MAX77693_MUIC_REG_CTRL2'', 13),
     (''MAX77693_MUIC_REG_CTRL3'', 14), (''MAX77693_MUIC_REG_END'', 15)]"

definition enumdecl_max77693_pmic_reg :: cenum_decl where
  "enumdecl_max77693_pmic_reg = EnumDecl False [
     (''MAX77693_LED_REG_IFLASH1'', 0), (''MAX77693_LED_REG_IFLASH2'', 1),
     (''MAX77693_LED_REG_ITORCH'', 2), (''MAX77693_LED_REG_ITORCHTIMER'', 3),
     (''MAX77693_LED_REG_FLASH_TIMER'', 4), (''MAX77693_LED_REG_FLASH_EN'', 5),
     (''MAX77693_LED_REG_MAX_FLASH1'', 6), (''MAX77693_LED_REG_MAX_FLASH2'', 7),
     (''MAX77693_LED_REG_MAX_FLASH3'', 8), (''MAX77693_LED_REG_MAX_FLASH4'', 9),
     (''MAX77693_LED_REG_VOUT_CNTL'', 10), (''MAX77693_LED_REG_VOUT_FLASH1'', 11),
     (''MAX77693_LED_REG_VOUT_FLASH2'', 12), (''MAX77693_LED_REG_FLASH_INT'', 14),
     (''MAX77693_LED_REG_FLASH_INT_MASK'', 15), (''MAX77693_LED_REG_FLASH_STATUS'', 16),
     (''MAX77693_PMIC_REG_PMIC_ID1'', 32), (''MAX77693_PMIC_REG_PMIC_ID2'', 33),
     (''MAX77693_PMIC_REG_INTSRC'', 34), (''MAX77693_PMIC_REG_INTSRC_MASK'', 35),
     (''MAX77693_PMIC_REG_TOPSYS_INT'', 36), (''MAX77693_PMIC_REG_TOPSYS_INT_MASK'', 38),
     (''MAX77693_PMIC_REG_TOPSYS_STAT'', 40), (''MAX77693_PMIC_REG_MAINCTRL1'', 42),
     (''MAX77693_PMIC_REG_LSCNFG'', 43), (''MAX77693_CHG_REG_CHG_INT'', 176),
     (''MAX77693_CHG_REG_CHG_INT_MASK'', 177), (''MAX77693_CHG_REG_CHG_INT_OK'', 178),
     (''MAX77693_CHG_REG_CHG_DETAILS_00'', 179), (''MAX77693_CHG_REG_CHG_DETAILS_01'', 180),
     (''MAX77693_CHG_REG_CHG_DETAILS_02'', 181), (''MAX77693_CHG_REG_CHG_DETAILS_03'', 182),
     (''MAX77693_CHG_REG_CHG_CNFG_00'', 183), (''MAX77693_CHG_REG_CHG_CNFG_01'', 184),
     (''MAX77693_CHG_REG_CHG_CNFG_02'', 185), (''MAX77693_CHG_REG_CHG_CNFG_03'', 186),
     (''MAX77693_CHG_REG_CHG_CNFG_04'', 187), (''MAX77693_CHG_REG_CHG_CNFG_05'', 188),
     (''MAX77693_CHG_REG_CHG_CNFG_06'', 189), (''MAX77693_CHG_REG_CHG_CNFG_07'', 190),
     (''MAX77693_CHG_REG_CHG_CNFG_08'', 191), (''MAX77693_CHG_REG_CHG_CNFG_09'', 192),
     (''MAX77693_CHG_REG_CHG_CNFG_10'', 193), (''MAX77693_CHG_REG_CHG_CNFG_11'', 194),
     (''MAX77693_CHG_REG_CHG_CNFG_12'', 195), (''MAX77693_CHG_REG_CHG_CNFG_13'', 196),
     (''MAX77693_CHG_REG_CHG_CNFG_14'', 197), (''MAX77693_CHG_REG_SAFEOUT_CTRL'', 198),
     (''MAX77693_PMIC_REG_END'', 199)]"

definition enumdecl_max77693_types :: cenum_decl where
  "enumdecl_max77693_types = EnumDecl False [
     (''TYPE_MAX77693_UNKNOWN'', 0), (''TYPE_MAX77693'', 1), (''TYPE_MAX77705'', 2),
     (''TYPE_MAX77843'', 3), (''TYPE_MAX77693_NUM'', 4)]"

definition enumdecl_max77836_fg_reg :: cenum_decl where
  "enumdecl_max77836_fg_reg = EnumDecl False [
     (''MAX77836_FG_REG_VCELL_MSB'', 2), (''MAX77836_FG_REG_VCELL_LSB'', 3),
     (''MAX77836_FG_REG_SOC_MSB'', 4), (''MAX77836_FG_REG_SOC_LSB'', 5),
     (''MAX77836_FG_REG_MODE_H'', 6), (''MAX77836_FG_REG_MODE_L'', 7),
     (''MAX77836_FG_REG_VERSION_MSB'', 8), (''MAX77836_FG_REG_VERSION_LSB'', 9),
     (''MAX77836_FG_REG_HIBRT_H'', 10), (''MAX77836_FG_REG_HIBRT_L'', 11),
     (''MAX77836_FG_REG_CONFIG_H'', 12), (''MAX77836_FG_REG_CONFIG_L'', 13),
     (''MAX77836_FG_REG_VALRT_MIN'', 20), (''MAX77836_FG_REG_VALRT_MAX'', 21),
     (''MAX77836_FG_REG_CRATE_MSB'', 22), (''MAX77836_FG_REG_CRATE_LSB'', 23),
     (''MAX77836_FG_REG_VRESET'', 24), (''MAX77836_FG_REG_FGID'', 25),
     (''MAX77836_FG_REG_STATUS_H'', 26), (''MAX77836_FG_REG_STATUS_L'', 27),
     (''MAX77836_FG_REG_END'', 28)]"

definition enumdecl_max77836_pmic_reg :: cenum_decl where
  "enumdecl_max77836_pmic_reg = EnumDecl False [
     (''MAX77836_PMIC_REG_PMIC_ID'', 32), (''MAX77836_PMIC_REG_PMIC_REV'', 33),
     (''MAX77836_PMIC_REG_INTSRC'', 34), (''MAX77836_PMIC_REG_INTSRC_MASK'', 35),
     (''MAX77836_PMIC_REG_TOPSYS_INT'', 36), (''MAX77836_PMIC_REG_TOPSYS_INT_MASK'', 38),
     (''MAX77836_PMIC_REG_TOPSYS_STAT'', 40), (''MAX77836_PMIC_REG_MRSTB_CNTL'', 42),
     (''MAX77836_PMIC_REG_LSCNFG'', 43), (''MAX77836_LDO_REG_CNFG1_LDO1'', 81),
     (''MAX77836_LDO_REG_CNFG2_LDO1'', 82), (''MAX77836_LDO_REG_CNFG1_LDO2'', 83),
     (''MAX77836_LDO_REG_CNFG2_LDO2'', 84), (''MAX77836_LDO_REG_CNFG_LDO_BIAS'', 85),
     (''MAX77836_COMP_REG_COMP1'', 96), (''MAX77836_PMIC_REG_END'', 97)]"

definition enumdecl_max77843_charger_reg :: cenum_decl where
  "enumdecl_max77843_charger_reg = EnumDecl False [
     (''MAX77843_CHG_REG_CHG_INT'', 176), (''MAX77843_CHG_REG_CHG_INT_MASK'', 177),
     (''MAX77843_CHG_REG_CHG_INT_OK'', 178), (''MAX77843_CHG_REG_CHG_DTLS_00'', 179),
     (''MAX77843_CHG_REG_CHG_DTLS_01'', 180), (''MAX77843_CHG_REG_CHG_DTLS_02'', 181),
     (''MAX77843_CHG_REG_CHG_CNFG_00'', 183), (''MAX77843_CHG_REG_CHG_CNFG_01'', 184),
     (''MAX77843_CHG_REG_CHG_CNFG_02'', 185), (''MAX77843_CHG_REG_CHG_CNFG_03'', 186),
     (''MAX77843_CHG_REG_CHG_CNFG_04'', 187), (''MAX77843_CHG_REG_CHG_CNFG_06'', 189),
     (''MAX77843_CHG_REG_CHG_CNFG_07'', 190), (''MAX77843_CHG_REG_CHG_CNFG_09'', 192),
     (''MAX77843_CHG_REG_CHG_CNFG_10'', 193), (''MAX77843_CHG_REG_CHG_CNFG_11'', 194),
     (''MAX77843_CHG_REG_CHG_CNFG_12'', 195), (''MAX77843_CHG_REG_END'', 196)]"

definition enumdecl_max77843_sys_reg :: cenum_decl where
  "enumdecl_max77843_sys_reg = EnumDecl False [
     (''MAX77843_SYS_REG_PMICID'', 0), (''MAX77843_SYS_REG_PMICREV'', 1),
     (''MAX77843_SYS_REG_MAINCTRL1'', 2), (''MAX77843_SYS_REG_INTSRC'', 34),
     (''MAX77843_SYS_REG_INTSRCMASK'', 35), (''MAX77843_SYS_REG_SYSINTSRC'', 36),
     (''MAX77843_SYS_REG_SYSINTMASK'', 38), (''MAX77843_SYS_REG_TOPSYS_STAT'', 40),
     (''MAX77843_SYS_REG_SAFEOUTCTRL'', 198), (''MAX77843_SYS_REG_END'', 199)]"

definition enumdecl_max8997_haptic_motor_type :: cenum_decl where
  "enumdecl_max8997_haptic_motor_type = EnumDecl False [
     (''MAX8997_HAPTIC_ERM'', 0), (''MAX8997_HAPTIC_LRA'', 1)]"

definition enumdecl_max8997_haptic_pulse_mode :: cenum_decl where
  "enumdecl_max8997_haptic_pulse_mode = EnumDecl False [
     (''MAX8997_EXTERNAL_MODE'', 0), (''MAX8997_INTERNAL_MODE'', 1)]"

definition enumdecl_max8997_haptic_pwm_divisor :: cenum_decl where
  "enumdecl_max8997_haptic_pwm_divisor = EnumDecl False [
     (''MAX8997_PWM_DIVISOR_32'', 0), (''MAX8997_PWM_DIVISOR_64'', 1),
     (''MAX8997_PWM_DIVISOR_128'', 2), (''MAX8997_PWM_DIVISOR_256'', 3)]"

definition enumdecl_max8997_haptic_reg :: cenum_decl where
  "enumdecl_max8997_haptic_reg = EnumDecl False [
     (''MAX8997_HAPTIC_REG_GENERAL'', 0), (''MAX8997_HAPTIC_REG_CONF1'', 1),
     (''MAX8997_HAPTIC_REG_CONF2'', 2), (''MAX8997_HAPTIC_REG_DRVCONF'', 3),
     (''MAX8997_HAPTIC_REG_CYCLECONF1'', 4), (''MAX8997_HAPTIC_REG_CYCLECONF2'', 5),
     (''MAX8997_HAPTIC_REG_SIGCONF1'', 6), (''MAX8997_HAPTIC_REG_SIGCONF2'', 7),
     (''MAX8997_HAPTIC_REG_SIGCONF3'', 8), (''MAX8997_HAPTIC_REG_SIGCONF4'', 9),
     (''MAX8997_HAPTIC_REG_SIGDC1'', 10), (''MAX8997_HAPTIC_REG_SIGDC2'', 11),
     (''MAX8997_HAPTIC_REG_SIGPWMDC1'', 12), (''MAX8997_HAPTIC_REG_SIGPWMDC2'', 13),
     (''MAX8997_HAPTIC_REG_SIGPWMDC3'', 14), (''MAX8997_HAPTIC_REG_SIGPWMDC4'', 15),
     (''MAX8997_HAPTIC_REG_MTR_REV'', 16), (''MAX8997_HAPTIC_REG_END'', 17)]"

definition enumdecl_max8997_irq :: cenum_decl where
  "enumdecl_max8997_irq = EnumDecl False [
     (''MAX8997_PMICIRQ_PWRONR'', 0), (''MAX8997_PMICIRQ_PWRONF'', 1),
     (''MAX8997_PMICIRQ_PWRON1SEC'', 2), (''MAX8997_PMICIRQ_JIGONR'', 3),
     (''MAX8997_PMICIRQ_JIGONF'', 4), (''MAX8997_PMICIRQ_LOWBAT2'', 5),
     (''MAX8997_PMICIRQ_LOWBAT1'', 6), (''MAX8997_PMICIRQ_JIGR'', 7),
     (''MAX8997_PMICIRQ_JIGF'', 8), (''MAX8997_PMICIRQ_MR'', 9),
     (''MAX8997_PMICIRQ_DVS1OK'', 10), (''MAX8997_PMICIRQ_DVS2OK'', 11),
     (''MAX8997_PMICIRQ_DVS3OK'', 12), (''MAX8997_PMICIRQ_DVS4OK'', 13),
     (''MAX8997_PMICIRQ_CHGINS'', 14), (''MAX8997_PMICIRQ_CHGRM'', 15),
     (''MAX8997_PMICIRQ_DCINOVP'', 16), (''MAX8997_PMICIRQ_TOPOFFR'', 17),
     (''MAX8997_PMICIRQ_CHGRSTF'', 18), (''MAX8997_PMICIRQ_MBCHGTMEXPD'', 19),
     (''MAX8997_PMICIRQ_RTC60S'', 20), (''MAX8997_PMICIRQ_RTCA1'', 21),
     (''MAX8997_PMICIRQ_RTCA2'', 22), (''MAX8997_PMICIRQ_SMPL_INT'', 23),
     (''MAX8997_PMICIRQ_RTC1S'', 24), (''MAX8997_PMICIRQ_WTSR'', 25),
     (''MAX8997_MUICIRQ_ADCError'', 26), (''MAX8997_MUICIRQ_ADCLow'', 27),
     (''MAX8997_MUICIRQ_ADC'', 28), (''MAX8997_MUICIRQ_VBVolt'', 29),
     (''MAX8997_MUICIRQ_DBChg'', 30), (''MAX8997_MUICIRQ_DCDTmr'', 31),
     (''MAX8997_MUICIRQ_ChgDetRun'', 32), (''MAX8997_MUICIRQ_ChgTyp'', 33),
     (''MAX8997_MUICIRQ_OVP'', 34), (''MAX8997_IRQ_NR'', 35)]"

definition enumdecl_max8997_irq_source :: cenum_decl where
  "enumdecl_max8997_irq_source = EnumDecl False [
     (''PMIC_INT1'', 0), (''PMIC_INT2'', 1), (''PMIC_INT3'', 2), (''PMIC_INT4'', 3),
     (''FUEL_GAUGE'', 4), (''MUIC_INT1'', 5), (''MUIC_INT2'', 6), (''MUIC_INT3'', 7),
     (''GPIO_LOW'', 8), (''GPIO_HI'', 9), (''FLASH_STATUS'', 10), (''MAX8997_IRQ_GROUP_NR'', 11)]"

definition enumdecl_max8997_led_mode :: cenum_decl where
  "enumdecl_max8997_led_mode = EnumDecl False [
     (''MAX8997_NONE'', 0), (''MAX8997_FLASH_MODE'', 1), (''MAX8997_MOVIE_MODE'', 2),
     (''MAX8997_FLASH_PIN_CONTROL_MODE'', 3), (''MAX8997_MOVIE_PIN_CONTROL_MODE'', 4)]"

definition enumdecl_max8997_muic_reg :: cenum_decl where
  "enumdecl_max8997_muic_reg = EnumDecl False [
     (''MAX8997_MUIC_REG_ID'', 0), (''MAX8997_MUIC_REG_INT1'', 1),
     (''MAX8997_MUIC_REG_INT2'', 2), (''MAX8997_MUIC_REG_INT3'', 3),
     (''MAX8997_MUIC_REG_STATUS1'', 4), (''MAX8997_MUIC_REG_STATUS2'', 5),
     (''MAX8997_MUIC_REG_STATUS3'', 6), (''MAX8997_MUIC_REG_INTMASK1'', 7),
     (''MAX8997_MUIC_REG_INTMASK2'', 8), (''MAX8997_MUIC_REG_INTMASK3'', 9),
     (''MAX8997_MUIC_REG_CDETCTRL'', 10), (''MAX8997_MUIC_REG_CONTROL1'', 12),
     (''MAX8997_MUIC_REG_CONTROL2'', 13), (''MAX8997_MUIC_REG_CONTROL3'', 14),
     (''MAX8997_MUIC_REG_END'', 15)]"

definition enumdecl_max8997_pmic_reg :: cenum_decl where
  "enumdecl_max8997_pmic_reg = EnumDecl False [
     (''MAX8997_REG_PMIC_ID0'', 0), (''MAX8997_REG_PMIC_ID1'', 1), (''MAX8997_REG_INTSRC'', 2),
     (''MAX8997_REG_INT1'', 3), (''MAX8997_REG_INT2'', 4), (''MAX8997_REG_INT3'', 5),
     (''MAX8997_REG_INT4'', 6), (''MAX8997_REG_INT1MSK'', 8), (''MAX8997_REG_INT2MSK'', 9),
     (''MAX8997_REG_INT3MSK'', 10), (''MAX8997_REG_INT4MSK'', 11), (''MAX8997_REG_STATUS1'', 13),
     (''MAX8997_REG_STATUS2'', 14), (''MAX8997_REG_STATUS3'', 15), (''MAX8997_REG_STATUS4'', 16),
     (''MAX8997_REG_MAINCON1'', 19), (''MAX8997_REG_MAINCON2'', 20),
     (''MAX8997_REG_BUCKRAMP'', 21), (''MAX8997_REG_BUCK1CTRL'', 24),
     (''MAX8997_REG_BUCK1DVS1'', 25), (''MAX8997_REG_BUCK1DVS2'', 26),
     (''MAX8997_REG_BUCK1DVS3'', 27), (''MAX8997_REG_BUCK1DVS4'', 28),
     (''MAX8997_REG_BUCK1DVS5'', 29), (''MAX8997_REG_BUCK1DVS6'', 30),
     (''MAX8997_REG_BUCK1DVS7'', 31), (''MAX8997_REG_BUCK1DVS8'', 32),
     (''MAX8997_REG_BUCK2CTRL'', 33), (''MAX8997_REG_BUCK2DVS1'', 34),
     (''MAX8997_REG_BUCK2DVS2'', 35), (''MAX8997_REG_BUCK2DVS3'', 36),
     (''MAX8997_REG_BUCK2DVS4'', 37), (''MAX8997_REG_BUCK2DVS5'', 38),
     (''MAX8997_REG_BUCK2DVS6'', 39), (''MAX8997_REG_BUCK2DVS7'', 40),
     (''MAX8997_REG_BUCK2DVS8'', 41), (''MAX8997_REG_BUCK3CTRL'', 42),
     (''MAX8997_REG_BUCK3DVS'', 43), (''MAX8997_REG_BUCK4CTRL'', 44),
     (''MAX8997_REG_BUCK4DVS'', 45), (''MAX8997_REG_BUCK5CTRL'', 46),
     (''MAX8997_REG_BUCK5DVS1'', 47), (''MAX8997_REG_BUCK5DVS2'', 48),
     (''MAX8997_REG_BUCK5DVS3'', 49), (''MAX8997_REG_BUCK5DVS4'', 50),
     (''MAX8997_REG_BUCK5DVS5'', 51), (''MAX8997_REG_BUCK5DVS6'', 52),
     (''MAX8997_REG_BUCK5DVS7'', 53), (''MAX8997_REG_BUCK5DVS8'', 54),
     (''MAX8997_REG_BUCK6CTRL'', 55), (''MAX8997_REG_BUCK6BPSKIPCTRL'', 56),
     (''MAX8997_REG_BUCK7CTRL'', 57), (''MAX8997_REG_BUCK7DVS'', 58),
     (''MAX8997_REG_LDO1CTRL'', 59), (''MAX8997_REG_LDO2CTRL'', 60),
     (''MAX8997_REG_LDO3CTRL'', 61), (''MAX8997_REG_LDO4CTRL'', 62),
     (''MAX8997_REG_LDO5CTRL'', 63), (''MAX8997_REG_LDO6CTRL'', 64),
     (''MAX8997_REG_LDO7CTRL'', 65), (''MAX8997_REG_LDO8CTRL'', 66),
     (''MAX8997_REG_LDO9CTRL'', 67), (''MAX8997_REG_LDO10CTRL'', 68),
     (''MAX8997_REG_LDO11CTRL'', 69), (''MAX8997_REG_LDO12CTRL'', 70),
     (''MAX8997_REG_LDO13CTRL'', 71), (''MAX8997_REG_LDO14CTRL'', 72),
     (''MAX8997_REG_LDO15CTRL'', 73), (''MAX8997_REG_LDO16CTRL'', 74),
     (''MAX8997_REG_LDO17CTRL'', 75), (''MAX8997_REG_LDO18CTRL'', 76),
     (''MAX8997_REG_LDO21CTRL'', 77), (''MAX8997_REG_MBCCTRL1'', 80),
     (''MAX8997_REG_MBCCTRL2'', 81), (''MAX8997_REG_MBCCTRL3'', 82),
     (''MAX8997_REG_MBCCTRL4'', 83), (''MAX8997_REG_MBCCTRL5'', 84),
     (''MAX8997_REG_MBCCTRL6'', 85), (''MAX8997_REG_OTPCGHCVS'', 86),
     (''MAX8997_REG_SAFEOUTCTRL'', 90), (''MAX8997_REG_LBCNFG1'', 94),
     (''MAX8997_REG_LBCNFG2'', 95), (''MAX8997_REG_BBCCTRL'', 96),
     (''MAX8997_REG_FLASH1_CUR'', 99), (''MAX8997_REG_FLASH2_CUR'', 100),
     (''MAX8997_REG_MOVIE_CUR'', 101), (''MAX8997_REG_GSMB_CUR'', 102),
     (''MAX8997_REG_BOOST_CNTL'', 103), (''MAX8997_REG_LEN_CNTL'', 104),
     (''MAX8997_REG_FLASH_CNTL'', 105), (''MAX8997_REG_WDT_CNTL'', 106),
     (''MAX8997_REG_MAXFLASH1'', 107), (''MAX8997_REG_MAXFLASH2'', 108),
     (''MAX8997_REG_FLASHSTATUS'', 109), (''MAX8997_REG_FLASHSTATUSMASK'', 110),
     (''MAX8997_REG_GPIOCNTL1'', 112), (''MAX8997_REG_GPIOCNTL2'', 113),
     (''MAX8997_REG_GPIOCNTL3'', 114), (''MAX8997_REG_GPIOCNTL4'', 115),
     (''MAX8997_REG_GPIOCNTL5'', 116), (''MAX8997_REG_GPIOCNTL6'', 117),
     (''MAX8997_REG_GPIOCNTL7'', 118), (''MAX8997_REG_GPIOCNTL8'', 119),
     (''MAX8997_REG_GPIOCNTL9'', 120), (''MAX8997_REG_GPIOCNTL10'', 121),
     (''MAX8997_REG_GPIOCNTL11'', 122), (''MAX8997_REG_GPIOCNTL12'', 123),
     (''MAX8997_REG_LDO1CONFIG'', 128), (''MAX8997_REG_LDO2CONFIG'', 129),
     (''MAX8997_REG_LDO3CONFIG'', 130), (''MAX8997_REG_LDO4CONFIG'', 131),
     (''MAX8997_REG_LDO5CONFIG'', 132), (''MAX8997_REG_LDO6CONFIG'', 133),
     (''MAX8997_REG_LDO7CONFIG'', 134), (''MAX8997_REG_LDO8CONFIG'', 135),
     (''MAX8997_REG_LDO9CONFIG'', 136), (''MAX8997_REG_LDO10CONFIG'', 137),
     (''MAX8997_REG_LDO11CONFIG'', 138), (''MAX8997_REG_LDO12CONFIG'', 139),
     (''MAX8997_REG_LDO13CONFIG'', 140), (''MAX8997_REG_LDO14CONFIG'', 141),
     (''MAX8997_REG_LDO15CONFIG'', 142), (''MAX8997_REG_LDO16CONFIG'', 143),
     (''MAX8997_REG_LDO17CONFIG'', 144), (''MAX8997_REG_LDO18CONFIG'', 145),
     (''MAX8997_REG_LDO21CONFIG'', 146), (''MAX8997_REG_DVSOKTIMER1'', 151),
     (''MAX8997_REG_DVSOKTIMER2'', 152), (''MAX8997_REG_DVSOKTIMER4'', 153),
     (''MAX8997_REG_DVSOKTIMER5'', 154), (''MAX8997_REG_PMIC_END'', 155)]"

definition enumdecl_max8997_types :: cenum_decl where
  "enumdecl_max8997_types = EnumDecl False [
     (''TYPE_MAX8997'', 0), (''TYPE_MAX8966'', 1)]"

definition enumdecl_maxim_device_type :: cenum_decl where
  "enumdecl_maxim_device_type = EnumDecl False [
     (''MAXIM_DEVICE_TYPE_UNKNOWN'', 0), (''MAXIM_DEVICE_TYPE_MAX14577'', 1),
     (''MAXIM_DEVICE_TYPE_MAX77836'', 2), (''MAXIM_DEVICE_TYPE_NUM'', 3)]"

definition enumdecl_mca_msr :: cenum_decl where
  "enumdecl_mca_msr = EnumDecl False [
     (''MCA_CTL'', 0), (''MCA_STATUS'', 1), (''MCA_ADDR'', 2), (''MCA_MISC'', 3)]"

definition enumdecl_mce_notifier_prios :: cenum_decl where
  "enumdecl_mce_notifier_prios = EnumDecl False [
     (''MCE_PRIO_LOWEST'', 0), (''MCE_PRIO_MCELOG'', 1), (''MCE_PRIO_EDAC'', 2),
     (''MCE_PRIO_NFIT'', 3), (''MCE_PRIO_EXTLOG'', 4), (''MCE_PRIO_UC'', 5),
     (''MCE_PRIO_EARLY'', 6), (''MCE_PRIO_CEC'', 7), (''MCE_PRIO_HIGHEST'', 7)]"

definition enumdecl_mcp_flags :: cenum_decl where
  "enumdecl_mcp_flags = EnumDecl False [
     (''MCP_TIMESTAMP'', 1), (''MCP_UC'', 2), (''MCP_QUEUE_LOG'', 4)]"

definition enumdecl_mctp_neigh_source :: cenum_decl where
  "enumdecl_mctp_neigh_source = EnumDecl False [
     (''MCTP_NEIGH_STATIC'', 0), (''MCTP_NEIGH_DISCOVER'', 1)]"

definition enumdecl_mctp_phys_binding :: cenum_decl where
  "enumdecl_mctp_phys_binding = EnumDecl False [
     (''MCTP_PHYS_BINDING_UNSPEC'', 0), (''MCTP_PHYS_BINDING_SMBUS'', 1),
     (''MCTP_PHYS_BINDING_PCIE_VDM'', 2), (''MCTP_PHYS_BINDING_USB'', 3),
     (''MCTP_PHYS_BINDING_KCS'', 4), (''MCTP_PHYS_BINDING_SERIAL'', 5),
     (''MCTP_PHYS_BINDING_I3C'', 6), (''MCTP_PHYS_BINDING_MMBI'', 7),
     (''MCTP_PHYS_BINDING_PCC'', 8), (''MCTP_PHYS_BINDING_UCIE'', 9),
     (''MCTP_PHYS_BINDING_VENDOR'', 255)]"

definition enumdecl_mctrl_gpio_idx :: cenum_decl where
  "enumdecl_mctrl_gpio_idx = EnumDecl False [
     (''UART_GPIO_CTS'', 0), (''UART_GPIO_DSR'', 1), (''UART_GPIO_DCD'', 2),
     (''UART_GPIO_RNG'', 3), (''UART_GPIO_RI'', 3), (''UART_GPIO_RTS'', 4),
     (''UART_GPIO_DTR'', 5), (''UART_GPIO_MAX'', 6)]"

definition enumdecl_md_ro_state :: cenum_decl where
  "enumdecl_md_ro_state = EnumDecl False [
     (''MD_RDWR'', 0), (''MD_RDONLY'', 1), (''MD_AUTO_READ'', 2), (''MD_MAX_STATE'', 3)]"

definition enumdecl_md_submodule_id :: cenum_decl where
  "enumdecl_md_submodule_id = EnumDecl False [
     (''ID_LINEAR'', - 1), (''ID_RAID0'', 0), (''ID_RAID1'', 1), (''ID_RAID4'', 4),
     (''ID_RAID5'', 5), (''ID_RAID6'', 6), (''ID_RAID10'', 10), (''ID_CLUSTER'', 11),
     (''ID_BITMAP'', 12), (''ID_LLBITMAP'', 13), (''ID_BITMAP_NONE'', 14)]"

definition enumdecl_md_submodule_type :: cenum_decl where
  "enumdecl_md_submodule_type = EnumDecl False [
     (''MD_PERSONALITY'', 0), (''MD_CLUSTER'', 1), (''MD_BITMAP'', 2)]"

definition enumdecl_mddev_flags :: cenum_decl where
  "enumdecl_mddev_flags = EnumDecl False [
     (''MD_ARRAY_FIRST_USE'', 0), (''MD_CLOSING'', 1), (''MD_JOURNAL_CLEAN'', 2),
     (''MD_HAS_JOURNAL'', 3), (''MD_CLUSTER_RESYNC_LOCKED'', 4), (''MD_FAILFAST_SUPPORTED'', 5),
     (''MD_HAS_PPL'', 6), (''MD_HAS_MULTIPLE_PPLS'', 7), (''MD_NOT_READY'', 8),
     (''MD_BROKEN'', 9), (''MD_DO_DELETE'', 10), (''MD_DELETED'', 11),
     (''MD_HAS_SUPERBLOCK'', 12), (''MD_FAILLAST_DEV'', 13), (''MD_SERIALIZE_POLICY'', 14)]"

definition enumdecl_mddev_sb_flags :: cenum_decl where
  "enumdecl_mddev_sb_flags = EnumDecl False [
     (''MD_SB_CHANGE_DEVS'', 0), (''MD_SB_CHANGE_CLEAN'', 1), (''MD_SB_CHANGE_PENDING'', 2),
     (''MD_SB_NEED_REWRITE'', 3)]"

definition enumdecl_mds_mitigations :: cenum_decl where
  "enumdecl_mds_mitigations = EnumDecl False [
     (''MDS_MITIGATION_OFF'', 0), (''MDS_MITIGATION_AUTO'', 1), (''MDS_MITIGATION_FULL'', 2),
     (''MDS_MITIGATION_VMWERV'', 3)]"

definition enumdecl_mem_type :: cenum_decl where
  "enumdecl_mem_type = EnumDecl False [
     (''MEM_EMPTY'', 0), (''MEM_RESERVED'', 1), (''MEM_UNKNOWN'', 2), (''MEM_FPM'', 3),
     (''MEM_EDO'', 4), (''MEM_BEDO'', 5), (''MEM_SDR'', 6), (''MEM_RDR'', 7), (''MEM_DDR'', 8),
     (''MEM_RDDR'', 9), (''MEM_RMBS'', 10), (''MEM_DDR2'', 11), (''MEM_FB_DDR2'', 12),
     (''MEM_RDDR2'', 13), (''MEM_XDR'', 14), (''MEM_DDR3'', 15), (''MEM_RDDR3'', 16),
     (''MEM_LRDDR3'', 17), (''MEM_LPDDR3'', 18), (''MEM_DDR4'', 19), (''MEM_RDDR4'', 20),
     (''MEM_LRDDR4'', 21), (''MEM_LPDDR4'', 22), (''MEM_DDR5'', 23), (''MEM_RDDR5'', 24),
     (''MEM_LRDDR5'', 25), (''MEM_NVDIMM'', 26), (''MEM_WIO2'', 27), (''MEM_HBM2'', 28),
     (''MEM_HBM3'', 29)]"

definition enumdecl_membarrier_cmd :: cenum_decl where
  "enumdecl_membarrier_cmd = EnumDecl False [
     (''MEMBARRIER_CMD_QUERY'', 0), (''MEMBARRIER_CMD_GLOBAL'', 1),
     (''MEMBARRIER_CMD_GLOBAL_EXPEDITED'', 2), (''MEMBARRIER_CMD_REGISTER_GLOBAL_EXPEDITED'', 4),
     (''MEMBARRIER_CMD_PRIVATE_EXPEDITED'', 8),
     (''MEMBARRIER_CMD_REGISTER_PRIVATE_EXPEDITED'', 16),
     (''MEMBARRIER_CMD_PRIVATE_EXPEDITED_SYNC_CORE'', 32),
     (''MEMBARRIER_CMD_REGISTER_PRIVATE_EXPEDITED_SYNC_CORE'', 64),
     (''MEMBARRIER_CMD_PRIVATE_EXPEDITED_RSEQ'', 128),
     (''MEMBARRIER_CMD_REGISTER_PRIVATE_EXPEDITED_RSEQ'', 256),
     (''MEMBARRIER_CMD_GET_REGISTRATIONS'', 512), (''MEMBARRIER_CMD_SHARED'', 1)]"

definition enumdecl_membarrier_cmd_flag :: cenum_decl where
  "enumdecl_membarrier_cmd_flag = EnumDecl False [
     (''MEMBARRIER_CMD_FLAG_CPU'', 1)]"

definition enumdecl_memblock_flags :: cenum_decl where
  "enumdecl_memblock_flags = EnumDecl False [
     (''MEMBLOCK_NONE'', 0), (''MEMBLOCK_HOTPLUG'', 1), (''MEMBLOCK_MIRROR'', 2),
     (''MEMBLOCK_NOMAP'', 4), (''MEMBLOCK_DRIVER_MANAGED'', 8), (''MEMBLOCK_RSRV_NOINIT'', 16),
     (''MEMBLOCK_RSRV_KERN'', 32), (''MEMBLOCK_KHO_SCRATCH'', 64)]"

definition enumdecl_membw_throttle_mode :: cenum_decl where
  "enumdecl_membw_throttle_mode = EnumDecl False [
     (''THREAD_THROTTLE_UNDEFINED'', 0), (''THREAD_THROTTLE_MAX'', 1),
     (''THREAD_THROTTLE_PER_THREAD'', 2)]"

definition enumdecl_memcg_memory_event :: cenum_decl where
  "enumdecl_memcg_memory_event = EnumDecl False [
     (''MEMCG_LOW'', 0), (''MEMCG_HIGH'', 1), (''MEMCG_MAX'', 2), (''MEMCG_OOM'', 3),
     (''MEMCG_OOM_KILL'', 4), (''MEMCG_OOM_GROUP_KILL'', 5), (''MEMCG_SWAP_HIGH'', 6),
     (''MEMCG_SWAP_MAX'', 7), (''MEMCG_SWAP_FAIL'', 8), (''MEMCG_SOCK_THROTTLED'', 9),
     (''MEMCG_NR_MEMORY_EVENTS'', 10)]"

definition enumdecl_memcg_stat_item :: cenum_decl where
  "enumdecl_memcg_stat_item = EnumDecl False [
     (''MEMCG_SWAP'', 51), (''MEMCG_SOCK'', 52), (''MEMCG_PERCPU_B'', 53),
     (''MEMCG_VMALLOC'', 54), (''MEMCG_KMEM'', 55), (''MEMCG_ZSWAP_B'', 56),
     (''MEMCG_ZSWAPPED'', 57), (''MEMCG_NR_STAT'', 58)]"

definition enumdecl_meminit_context :: cenum_decl where
  "enumdecl_meminit_context = EnumDecl False [
     (''MEMINIT_EARLY'', 0), (''MEMINIT_HOTPLUG'', 1)]"

definition enumdecl_memory_block_state :: cenum_decl where
  "enumdecl_memory_block_state = EnumDecl False [
     (''MEM_ONLINE'', 0), (''MEM_GOING_OFFLINE'', 1), (''MEM_OFFLINE'', 2),
     (''MEM_GOING_ONLINE'', 3), (''MEM_CANCEL_ONLINE'', 4), (''MEM_CANCEL_OFFLINE'', 5)]"

definition enumdecl_memory_type :: cenum_decl where
  "enumdecl_memory_type = EnumDecl False [
     (''MEMORY_DEVICE_PRIVATE'', 1), (''MEMORY_DEVICE_COHERENT'', 2),
     (''MEMORY_DEVICE_FS_DAX'', 3), (''MEMORY_DEVICE_GENERIC'', 4),
     (''MEMORY_DEVICE_PCI_P2PDMA'', 5)]"

definition enumdecl_metadata_type :: cenum_decl where
  "enumdecl_metadata_type = EnumDecl False [
     (''METADATA_IP_TUNNEL'', 0), (''METADATA_HW_PORT_MUX'', 1), (''METADATA_MACSEC'', 2),
     (''METADATA_XFRM'', 3)]"

definition enumdecl_mext_move_type :: cenum_decl where
  "enumdecl_mext_move_type = EnumDecl False [
     (''MEXT_SKIP_EXTENT'', 0), (''MEXT_MOVE_EXTENT'', 1), (''MEXT_COPY_DATA'', 2)]"

definition enumdecl_mf_action_page_type :: cenum_decl where
  "enumdecl_mf_action_page_type = EnumDecl False [
     (''MF_MSG_KERNEL'', 0), (''MF_MSG_KERNEL_HIGH_ORDER'', 1),
     (''MF_MSG_DIFFERENT_COMPOUND'', 2), (''MF_MSG_HUGE'', 3), (''MF_MSG_FREE_HUGE'', 4),
     (''MF_MSG_GET_HWPOISON'', 5), (''MF_MSG_UNMAP_FAILED'', 6), (''MF_MSG_DIRTY_SWAPCACHE'', 7),
     (''MF_MSG_CLEAN_SWAPCACHE'', 8), (''MF_MSG_DIRTY_MLOCKED_LRU'', 9),
     (''MF_MSG_CLEAN_MLOCKED_LRU'', 10), (''MF_MSG_DIRTY_UNEVICTABLE_LRU'', 11),
     (''MF_MSG_CLEAN_UNEVICTABLE_LRU'', 12), (''MF_MSG_DIRTY_LRU'', 13),
     (''MF_MSG_CLEAN_LRU'', 14), (''MF_MSG_TRUNCATED_LRU'', 15), (''MF_MSG_BUDDY'', 16),
     (''MF_MSG_DAX'', 17), (''MF_MSG_UNSPLIT_THP'', 18), (''MF_MSG_ALREADY_POISONED'', 19),
     (''MF_MSG_PFN_MAP'', 20), (''MF_MSG_UNKNOWN'', 21)]"

definition enumdecl_mf_flags :: cenum_decl where
  "enumdecl_mf_flags = EnumDecl False [
     (''MF_COUNT_INCREASED'', 1), (''MF_ACTION_REQUIRED'', 2), (''MF_MUST_KILL'', 4),
     (''MF_SOFT_OFFLINE'', 8), (''MF_UNPOISON'', 16), (''MF_SW_SIMULATED'', 32),
     (''MF_NO_RETRY'', 64), (''MF_MEM_PRE_REMOVE'', 128)]"

definition enumdecl_mf_result :: cenum_decl where
  "enumdecl_mf_result = EnumDecl False [
     (''MF_IGNORED'', 0), (''MF_FAILED'', 1), (''MF_DELAYED'', 2), (''MF_RECOVERED'', 3)]"

definition enumdecl_mfill_atomic_mode :: cenum_decl where
  "enumdecl_mfill_atomic_mode = EnumDecl False [
     (''MFILL_ATOMIC_COPY'', 0), (''MFILL_ATOMIC_ZEROPAGE'', 1), (''MFILL_ATOMIC_CONTINUE'', 2),
     (''MFILL_ATOMIC_POISON'', 3), (''NR_MFILL_ATOMIC_MODES'', 4)]"

definition enumdecl_migrate_mode :: cenum_decl where
  "enumdecl_migrate_mode = EnumDecl False enum_migrate_mode"

definition enumdecl_migrate_reason :: cenum_decl where
  "enumdecl_migrate_reason = EnumDecl False [
     (''MR_COMPACTION'', 0), (''MR_MEMORY_FAILURE'', 1), (''MR_MEMORY_HOTPLUG'', 2),
     (''MR_SYSCALL'', 3), (''MR_MEMPOLICY_MBIND'', 4), (''MR_NUMA_MISPLACED'', 5),
     (''MR_CONTIG_RANGE'', 6), (''MR_LONGTERM_PIN'', 7), (''MR_DEMOTION'', 8), (''MR_DAMON'', 9),
     (''MR_TYPES'', 10)]"

definition enumdecl_migrate_vma_direction :: cenum_decl where
  "enumdecl_migrate_vma_direction = EnumDecl False [
     (''MIGRATE_VMA_SELECT_SYSTEM'', 1), (''MIGRATE_VMA_SELECT_DEVICE_PRIVATE'', 2),
     (''MIGRATE_VMA_SELECT_DEVICE_COHERENT'', 4), (''MIGRATE_VMA_SELECT_COMPOUND'', 8)]"

definition enumdecl_migratetype :: cenum_decl where
  "enumdecl_migratetype = EnumDecl False [
     (''MIGRATE_UNMOVABLE'', 0), (''MIGRATE_MOVABLE'', 1), (''MIGRATE_RECLAIMABLE'', 2),
     (''MIGRATE_PCPTYPES'', 3), (''MIGRATE_HIGHATOMIC'', 3), (''MIGRATE_CMA'', 4),
     (''__MIGRATE_TYPE_END'', 4), (''MIGRATE_ISOLATE'', 5), (''MIGRATE_TYPES'', 6)]"

definition enumdecl_migration_type :: cenum_decl where
  "enumdecl_migration_type = EnumDecl False [
     (''migrate_load'', 0), (''migrate_util'', 1), (''migrate_task'', 2), (''migrate_misfit'', 3)]"

definition enumdecl_mipi_dsi_compression_algo :: cenum_decl where
  "enumdecl_mipi_dsi_compression_algo = EnumDecl False [
     (''MIPI_DSI_COMPRESSION_DSC'', 0), (''MIPI_DSI_COMPRESSION_VENDOR'', 3)]"

definition enumdecl_mipi_dsi_dcs_tear_mode :: cenum_decl where
  "enumdecl_mipi_dsi_dcs_tear_mode = EnumDecl False [
     (''MIPI_DSI_DCS_TEAR_MODE_VBLANK'', 0), (''MIPI_DSI_DCS_TEAR_MODE_VHBLANK'', 1)]"

definition enumdecl_mipi_dsi_pixel_format :: cenum_decl where
  "enumdecl_mipi_dsi_pixel_format = EnumDecl False [
     (''MIPI_DSI_FMT_RGB888'', 0), (''MIPI_DSI_FMT_RGB666'', 1),
     (''MIPI_DSI_FMT_RGB666_PACKED'', 2), (''MIPI_DSI_FMT_RGB565'', 3)]"

definition enumdecl_misc_res_type :: cenum_decl where
  "enumdecl_misc_res_type = EnumDecl False [
     (''MISC_CG_RES_SEV'', 0), (''MISC_CG_RES_SEV_ES'', 1), (''MISC_CG_RES_TDX'', 2),
     (''MISC_CG_RES_TYPES'', 3)]"

definition enumdecl_mm_io_opcode :: cenum_decl where
  "enumdecl_mm_io_opcode = EnumDecl False [
     (''MMIO_READ'', 1), (''MMIO_WRITE'', 2), (''MMIO_PROBE'', 3), (''MMIO_UNPROBE'', 4),
     (''MMIO_UNKNOWN_OP'', 5)]"

definition enumdecl_mmap_action_type :: cenum_decl where
  "enumdecl_mmap_action_type = EnumDecl False [
     (''MMAP_NOTHING'', 0), (''MMAP_REMAP_PFN'', 1), (''MMAP_IO_REMAP_PFN'', 2)]"

definition enumdecl_mmc_busy_cmd :: cenum_decl where
  "enumdecl_mmc_busy_cmd = EnumDecl False [
     (''MMC_BUSY_CMD6'', 0), (''MMC_BUSY_ERASE'', 1), (''MMC_BUSY_HPI'', 2),
     (''MMC_BUSY_EXTR_SINGLE'', 3), (''MMC_BUSY_IO'', 4)]"

definition enumdecl_mmc_drv_op :: cenum_decl where
  "enumdecl_mmc_drv_op = EnumDecl False [
     (''MMC_DRV_OP_IOCTL'', 0), (''MMC_DRV_OP_IOCTL_RPMB'', 1), (''MMC_DRV_OP_BOOT_WP'', 2),
     (''MMC_DRV_OP_GET_CARD_STATUS'', 3), (''MMC_DRV_OP_GET_EXT_CSD'', 4)]"

definition enumdecl_mmc_err_stat :: cenum_decl where
  "enumdecl_mmc_err_stat = EnumDecl False [
     (''MMC_ERR_CMD_TIMEOUT'', 0), (''MMC_ERR_CMD_CRC'', 1), (''MMC_ERR_DAT_TIMEOUT'', 2),
     (''MMC_ERR_DAT_CRC'', 3), (''MMC_ERR_AUTO_CMD'', 4), (''MMC_ERR_ADMA'', 5),
     (''MMC_ERR_TUNING'', 6), (''MMC_ERR_CMDQ_RED'', 7), (''MMC_ERR_CMDQ_GCE'', 8),
     (''MMC_ERR_CMDQ_ICCE'', 9), (''MMC_ERR_REQ_TIMEOUT'', 10),
     (''MMC_ERR_CMDQ_REQ_TIMEOUT'', 11), (''MMC_ERR_ICE_CFG'', 12),
     (''MMC_ERR_CTRL_TIMEOUT'', 13), (''MMC_ERR_UNEXPECTED_IRQ'', 14), (''MMC_ERR_MAX'', 15)]"

definition enumdecl_mmc_issue_type :: cenum_decl where
  "enumdecl_mmc_issue_type = EnumDecl False [
     (''MMC_ISSUE_SYNC'', 0), (''MMC_ISSUE_DCMD'', 1), (''MMC_ISSUE_ASYNC'', 2),
     (''MMC_ISSUE_MAX'', 3)]"

definition enumdecl_mmc_poweroff_type :: cenum_decl where
  "enumdecl_mmc_poweroff_type = EnumDecl False [
     (''MMC_POWEROFF_SUSPEND'', 0), (''MMC_POWEROFF_SHUTDOWN'', 1),
     (''MMC_POWEROFF_UNDERVOLTAGE'', 2), (''MMC_POWEROFF_UNBIND'', 3)]"

definition enumdecl_mminit_level :: cenum_decl where
  "enumdecl_mminit_level = EnumDecl False [
     (''MMINIT_WARNING'', 0), (''MMINIT_VERIFY'', 1), (''MMINIT_TRACE'', 2)]"

definition enumdecl_mmio_mitigations :: cenum_decl where
  "enumdecl_mmio_mitigations = EnumDecl False [
     (''MMIO_MITIGATION_OFF'', 0), (''MMIO_MITIGATION_AUTO'', 1),
     (''MMIO_MITIGATION_UCODE_NEEDED'', 2), (''MMIO_MITIGATION_VERW'', 3)]"

definition enumdecl_mmioh_arch :: cenum_decl where
  "enumdecl_mmioh_arch = EnumDecl False [
     (''UV2_MMIOH'', - 1), (''UVY_MMIOH0'', 0), (''UVY_MMIOH1'', 1), (''UVX_MMIOH0'', 2),
     (''UVX_MMIOH1'', 3)]"

definition enumdecl_mmu_notifier_event :: cenum_decl where
  "enumdecl_mmu_notifier_event = EnumDecl False [
     (''MMU_NOTIFY_UNMAP'', 0), (''MMU_NOTIFY_CLEAR'', 1), (''MMU_NOTIFY_PROTECTION_VMA'', 2),
     (''MMU_NOTIFY_PROTECTION_PAGE'', 3), (''MMU_NOTIFY_SOFT_DIRTY'', 4),
     (''MMU_NOTIFY_RELEASE'', 5), (''MMU_NOTIFY_MIGRATE'', 6), (''MMU_NOTIFY_EXCLUSIVE'', 7)]"

definition enumdecl_mnt_tree_flags_t :: cenum_decl where
  "enumdecl_mnt_tree_flags_t = EnumDecl False [
     (''MNT_TREE_BENEATH'', 1), (''MNT_TREE_PROPAGATION'', 2)]"

definition enumdecl_mod_license :: cenum_decl where
  "enumdecl_mod_license = EnumDecl False [
     (''NOT_GPL_ONLY'', 0), (''GPL_ONLY'', 1)]"

definition enumdecl_mod_mem_type :: cenum_decl where
  "enumdecl_mod_mem_type = EnumDecl False [
     (''MOD_TEXT'', 0), (''MOD_DATA'', 1), (''MOD_RODATA'', 2), (''MOD_RO_AFTER_INIT'', 3),
     (''MOD_INIT_TEXT'', 4), (''MOD_INIT_DATA'', 5), (''MOD_INIT_RODATA'', 6),
     (''MOD_MEM_NUM_TYPES'', 7), (''MOD_INVALID'', - 1)]"

definition enumdecl_module_state :: cenum_decl where
  "enumdecl_module_state = EnumDecl False [
     (''MODULE_STATE_LIVE'', 0), (''MODULE_STATE_COMING'', 1), (''MODULE_STATE_GOING'', 2),
     (''MODULE_STATE_UNFORMED'', 3)]"

definition enumdecl_mount_flags :: cenum_decl where
  "enumdecl_mount_flags = EnumDecl False [
     (''MNT_NOSUID'', 1), (''MNT_NODEV'', 2), (''MNT_NOEXEC'', 4), (''MNT_NOATIME'', 8),
     (''MNT_NODIRATIME'', 16), (''MNT_RELATIME'', 32), (''MNT_READONLY'', 64),
     (''MNT_NOSYMFOLLOW'', 128), (''MNT_SHRINKABLE'', 256), (''MNT_INTERNAL'', 16384),
     (''MNT_LOCK_ATIME'', 262144), (''MNT_LOCK_NOEXEC'', 524288), (''MNT_LOCK_NOSUID'', 1048576),
     (''MNT_LOCK_NODEV'', 2097152), (''MNT_LOCK_READONLY'', 4194304), (''MNT_LOCKED'', 8388608),
     (''MNT_DOOMED'', 16777216), (''MNT_SYNC_UMOUNT'', 33554432), (''MNT_UMOUNT'', 134217728),
     (''MNT_USER_SETTABLE_MASK'', 255), (''MNT_ATIME_MASK'', 56),
     (''MNT_INTERNAL_FLAGS'', 58736640)]"

definition enumdecl_mount_kattr_flags_t :: cenum_decl where
  "enumdecl_mount_kattr_flags_t = EnumDecl False [
     (''MOUNT_KATTR_RECURSE'', 1), (''MOUNT_KATTR_IDMAP_REPLACE'', 2)]"

definition enumdecl_mousedev_emul :: cenum_decl where
  "enumdecl_mousedev_emul = EnumDecl False [
     (''MOUSEDEV_EMUL_PS2'', 0), (''MOUSEDEV_EMUL_IMPS'', 1), (''MOUSEDEV_EMUL_EXPS'', 2)]"

definition enumdecl_mp_irq_source_types :: cenum_decl where
  "enumdecl_mp_irq_source_types = EnumDecl False [
     (''mp_INT'', 0), (''mp_NMI'', 1), (''mp_SMI'', 2), (''mp_ExtINT'', 3)]"

definition enumdecl_mptcp_addr_signal_status :: cenum_decl where
  "enumdecl_mptcp_addr_signal_status = EnumDecl False [
     (''MPTCP_ADD_ADDR_SIGNAL'', 0), (''MPTCP_ADD_ADDR_ECHO'', 1), (''MPTCP_RM_ADDR_SIGNAL'', 2)]"

definition enumdecl_mptcp_event_attr :: cenum_decl where
  "enumdecl_mptcp_event_attr = EnumDecl False [
     (''MPTCP_ATTR_UNSPEC'', 0), (''MPTCP_ATTR_TOKEN'', 1), (''MPTCP_ATTR_FAMILY'', 2),
     (''MPTCP_ATTR_LOC_ID'', 3), (''MPTCP_ATTR_REM_ID'', 4), (''MPTCP_ATTR_SADDR4'', 5),
     (''MPTCP_ATTR_SADDR6'', 6), (''MPTCP_ATTR_DADDR4'', 7), (''MPTCP_ATTR_DADDR6'', 8),
     (''MPTCP_ATTR_SPORT'', 9), (''MPTCP_ATTR_DPORT'', 10), (''MPTCP_ATTR_BACKUP'', 11),
     (''MPTCP_ATTR_ERROR'', 12), (''MPTCP_ATTR_FLAGS'', 13), (''MPTCP_ATTR_TIMEOUT'', 14),
     (''MPTCP_ATTR_IF_IDX'', 15), (''MPTCP_ATTR_RESET_REASON'', 16),
     (''MPTCP_ATTR_RESET_FLAGS'', 17), (''MPTCP_ATTR_SERVER_SIDE'', 18),
     (''__MPTCP_ATTR_MAX'', 19)]"

definition enumdecl_mptcp_event_type :: cenum_decl where
  "enumdecl_mptcp_event_type = EnumDecl False [
     (''MPTCP_EVENT_UNSPEC'', 0), (''MPTCP_EVENT_CREATED'', 1), (''MPTCP_EVENT_ESTABLISHED'', 2),
     (''MPTCP_EVENT_CLOSED'', 3), (''MPTCP_EVENT_ANNOUNCED'', 6), (''MPTCP_EVENT_REMOVED'', 7),
     (''MPTCP_EVENT_SUB_ESTABLISHED'', 10), (''MPTCP_EVENT_SUB_CLOSED'', 11),
     (''MPTCP_EVENT_SUB_PRIORITY'', 13), (''MPTCP_EVENT_LISTENER_CREATED'', 15),
     (''MPTCP_EVENT_LISTENER_CLOSED'', 16)]"

definition enumdecl_mptcp_pm_status :: cenum_decl where
  "enumdecl_mptcp_pm_status = EnumDecl False [
     (''MPTCP_PM_ADD_ADDR_RECEIVED'', 0), (''MPTCP_PM_ADD_ADDR_SEND_ACK'', 1),
     (''MPTCP_PM_RM_ADDR_RECEIVED'', 2), (''MPTCP_PM_ESTABLISHED'', 3),
     (''MPTCP_PM_SUBFLOW_ESTABLISHED'', 4), (''MPTCP_PM_ALREADY_ESTABLISHED'', 5),
     (''MPTCP_PM_MPC_ENDPOINT_ACCOUNTED'', 6)]"

definition enumdecl_mptcp_pm_type :: cenum_decl where
  "enumdecl_mptcp_pm_type = EnumDecl False [
     (''MPTCP_PM_TYPE_KERNEL'', 0), (''MPTCP_PM_TYPE_USERSPACE'', 1),
     (''__MPTCP_PM_TYPE_NR'', 2), (''__MPTCP_PM_TYPE_MAX'', 1)]"

definition enumdecl_mq_rq_state :: cenum_decl where
  "enumdecl_mq_rq_state = EnumDecl False [
     (''MQ_RQ_IDLE'', 0), (''MQ_RQ_IN_FLIGHT'', 1), (''MQ_RQ_COMPLETE'', 2)]"

definition enumdecl_mremap_type :: cenum_decl where
  "enumdecl_mremap_type = EnumDecl False [
     (''MREMAP_INVALID'', 0), (''MREMAP_NO_RESIZE'', 1), (''MREMAP_SHRINK'', 2),
     (''MREMAP_EXPAND'', 3)]"

definition enumdecl_mscode_actions :: cenum_decl where
  "enumdecl_mscode_actions = EnumDecl False [
     (''ACT_mscode_note_content_type'', 0), (''ACT_mscode_note_digest'', 1),
     (''ACT_mscode_note_digest_algo'', 2), (''NR__mscode_actions'', 3)]"

definition enumdecl_msdos_sys_ind :: cenum_decl where
  "enumdecl_msdos_sys_ind = EnumDecl False [
     (''DOS_EXTENDED_PARTITION'', 5), (''LINUX_EXTENDED_PARTITION'', 133),
     (''WIN98_EXTENDED_PARTITION'', 15), (''LINUX_DATA_PARTITION'', 131),
     (''LINUX_LVM_PARTITION'', 142), (''LINUX_RAID_PARTITION___3'', 253),
     (''SOLARIS_X86_PARTITION'', 130), (''NEW_SOLARIS_X86_PARTITION'', 191),
     (''DM6_AUX1PARTITION'', 81), (''DM6_AUX3PARTITION'', 83), (''DM6_PARTITION'', 84),
     (''EZD_PARTITION'', 85), (''FREEBSD_PARTITION'', 165), (''OPENBSD_PARTITION'', 166),
     (''NETBSD_PARTITION'', 169), (''BSDI_PARTITION'', 183), (''MINIX_PARTITION'', 129),
     (''UNIXWARE_PARTITION'', 99)]"

definition enumdecl_msg_type :: cenum_decl where
  "enumdecl_msg_type = EnumDecl False [
     (''SNP_MSG_TYPE_INVALID'', 0), (''SNP_MSG_CPUID_REQ'', 1), (''SNP_MSG_CPUID_RSP'', 2),
     (''SNP_MSG_KEY_REQ'', 3), (''SNP_MSG_KEY_RSP'', 4), (''SNP_MSG_REPORT_REQ'', 5),
     (''SNP_MSG_REPORT_RSP'', 6), (''SNP_MSG_EXPORT_REQ'', 7), (''SNP_MSG_EXPORT_RSP'', 8),
     (''SNP_MSG_IMPORT_REQ'', 9), (''SNP_MSG_IMPORT_RSP'', 10), (''SNP_MSG_ABSORB_REQ'', 11),
     (''SNP_MSG_ABSORB_RSP'', 12), (''SNP_MSG_VMRK_REQ'', 13), (''SNP_MSG_VMRK_RSP'', 14),
     (''SNP_MSG_TSC_INFO_REQ'', 17), (''SNP_MSG_TSC_INFO_RSP'', 18), (''SNP_MSG_TYPE_MAX'', 19)]"

definition enumdecl_msi_desc_filter :: cenum_decl where
  "enumdecl_msi_desc_filter = EnumDecl False [
     (''MSI_DESC_ALL'', 0), (''MSI_DESC_NOTASSOCIATED'', 1), (''MSI_DESC_ASSOCIATED'', 2)]"

definition enumdecl_msi_domain_ids :: cenum_decl where
  "enumdecl_msi_domain_ids = EnumDecl False [
     (''MSI_DEFAULT_DOMAIN'', 0), (''MSI_MAX_DEVICE_IRQDOMAINS'', 1)]"

definition enumdecl_mthp_stat_item :: cenum_decl where
  "enumdecl_mthp_stat_item = EnumDecl False [
     (''MTHP_STAT_ANON_FAULT_ALLOC'', 0), (''MTHP_STAT_ANON_FAULT_FALLBACK'', 1),
     (''MTHP_STAT_ANON_FAULT_FALLBACK_CHARGE'', 2), (''MTHP_STAT_ZSWPOUT'', 3),
     (''MTHP_STAT_SWPIN'', 4), (''MTHP_STAT_SWPIN_FALLBACK'', 5),
     (''MTHP_STAT_SWPIN_FALLBACK_CHARGE'', 6), (''MTHP_STAT_SWPOUT'', 7),
     (''MTHP_STAT_SWPOUT_FALLBACK'', 8), (''MTHP_STAT_SHMEM_ALLOC'', 9),
     (''MTHP_STAT_SHMEM_FALLBACK'', 10), (''MTHP_STAT_SHMEM_FALLBACK_CHARGE'', 11),
     (''MTHP_STAT_SPLIT'', 12), (''MTHP_STAT_SPLIT_FAILED'', 13),
     (''MTHP_STAT_SPLIT_DEFERRED'', 14), (''MTHP_STAT_NR_ANON'', 15),
     (''MTHP_STAT_NR_ANON_PARTIALLY_MAPPED'', 16), (''__MTHP_STAT_COUNT'', 17)]"

definition enumdecl_multi_stop_state :: cenum_decl where
  "enumdecl_multi_stop_state = EnumDecl False [
     (''MULTI_STOP_NONE'', 0), (''MULTI_STOP_PREPARE'', 1), (''MULTI_STOP_DISABLE_IRQ'', 2),
     (''MULTI_STOP_RUN'', 3), (''MULTI_STOP_EXIT'', 4)]"

definition enumdecl_nbcon_prio :: cenum_decl where
  "enumdecl_nbcon_prio = EnumDecl False [
     (''NBCON_PRIO_NONE'', 0), (''NBCON_PRIO_NORMAL'', 1), (''NBCON_PRIO_EMERGENCY'', 2),
     (''NBCON_PRIO_PANIC'', 3), (''NBCON_PRIO_MAX'', 4)]"

definition enumdecl_ncsi_nl_attrs :: cenum_decl where
  "enumdecl_ncsi_nl_attrs = EnumDecl False [
     (''NCSI_ATTR_UNSPEC'', 0), (''NCSI_ATTR_IFINDEX'', 1), (''NCSI_ATTR_PACKAGE_LIST'', 2),
     (''NCSI_ATTR_PACKAGE_ID'', 3), (''NCSI_ATTR_CHANNEL_ID'', 4), (''NCSI_ATTR_DATA'', 5),
     (''NCSI_ATTR_MULTI_FLAG'', 6), (''NCSI_ATTR_PACKAGE_MASK'', 7),
     (''NCSI_ATTR_CHANNEL_MASK'', 8), (''__NCSI_ATTR_AFTER_LAST'', 9), (''NCSI_ATTR_MAX'', 8)]"

definition enumdecl_ncsi_nl_channel_attrs :: cenum_decl where
  "enumdecl_ncsi_nl_channel_attrs = EnumDecl False [
     (''NCSI_CHANNEL_ATTR_UNSPEC'', 0), (''NCSI_CHANNEL_ATTR'', 1),
     (''NCSI_CHANNEL_ATTR_ID'', 2), (''NCSI_CHANNEL_ATTR_VERSION_MAJOR'', 3),
     (''NCSI_CHANNEL_ATTR_VERSION_MINOR'', 4), (''NCSI_CHANNEL_ATTR_VERSION_STR'', 5),
     (''NCSI_CHANNEL_ATTR_LINK_STATE'', 6), (''NCSI_CHANNEL_ATTR_ACTIVE'', 7),
     (''NCSI_CHANNEL_ATTR_FORCED'', 8), (''NCSI_CHANNEL_ATTR_VLAN_LIST'', 9),
     (''NCSI_CHANNEL_ATTR_VLAN_ID'', 10), (''__NCSI_CHANNEL_ATTR_AFTER_LAST'', 11),
     (''NCSI_CHANNEL_ATTR_MAX'', 10)]"

definition enumdecl_ncsi_nl_commands :: cenum_decl where
  "enumdecl_ncsi_nl_commands = EnumDecl False [
     (''NCSI_CMD_UNSPEC'', 0), (''NCSI_CMD_PKG_INFO'', 1), (''NCSI_CMD_SET_INTERFACE'', 2),
     (''NCSI_CMD_CLEAR_INTERFACE'', 3), (''NCSI_CMD_SEND_CMD'', 4),
     (''NCSI_CMD_SET_PACKAGE_MASK'', 5), (''NCSI_CMD_SET_CHANNEL_MASK'', 6),
     (''__NCSI_CMD_AFTER_LAST'', 7), (''NCSI_CMD_MAX'', 6)]"

definition enumdecl_ncsi_nl_pkg_attrs :: cenum_decl where
  "enumdecl_ncsi_nl_pkg_attrs = EnumDecl False [
     (''NCSI_PKG_ATTR_UNSPEC'', 0), (''NCSI_PKG_ATTR'', 1), (''NCSI_PKG_ATTR_ID'', 2),
     (''NCSI_PKG_ATTR_FORCED'', 3), (''NCSI_PKG_ATTR_CHANNEL_LIST'', 4),
     (''__NCSI_PKG_ATTR_AFTER_LAST'', 5), (''NCSI_PKG_ATTR_MAX'', 4)]"

definition enumdecl_nd_async_mode :: cenum_decl where
  "enumdecl_nd_async_mode = EnumDecl False [
     (''ND_SYNC'', 0), (''ND_ASYNC'', 1)]"

definition enumdecl_nd_driver_flags :: cenum_decl where
  "enumdecl_nd_driver_flags = EnumDecl False [
     (''ND_DRIVER_DIMM'', 2), (''ND_DRIVER_REGION_PMEM'', 4), (''ND_DRIVER_REGION_BLK'', 8),
     (''ND_DRIVER_NAMESPACE_IO'', 16), (''ND_DRIVER_NAMESPACE_PMEM'', 32),
     (''ND_DRIVER_DAX_PMEM'', 128)]"

definition enumdecl_nd_ioctl_mode :: cenum_decl where
  "enumdecl_nd_ioctl_mode = EnumDecl False [
     (''BUS_IOCTL'', 0), (''DIMM_IOCTL'', 1)]"

definition enumdecl_nd_label_flags :: cenum_decl where
  "enumdecl_nd_label_flags = EnumDecl False [
     (''ND_LABEL_REAP'', 0)]"

definition enumdecl_nd_pfn_mode :: cenum_decl where
  "enumdecl_nd_pfn_mode = EnumDecl False [
     (''PFN_MODE_NONE'', 0), (''PFN_MODE_RAM'', 1), (''PFN_MODE_PMEM'', 2)]"

definition enumdecl_net_device_flags :: cenum_decl where
  "enumdecl_net_device_flags = EnumDecl False [
     (''IFF_UP'', 1), (''IFF_BROADCAST'', 2), (''IFF_DEBUG'', 4), (''IFF_LOOPBACK'', 8),
     (''IFF_POINTOPOINT'', 16), (''IFF_NOTRAILERS'', 32), (''IFF_RUNNING'', 64),
     (''IFF_NOARP'', 128), (''IFF_PROMISC'', 256), (''IFF_ALLMULTI'', 512),
     (''IFF_MASTER'', 1024), (''IFF_SLAVE'', 2048), (''IFF_MULTICAST'', 4096),
     (''IFF_PORTSEL'', 8192), (''IFF_AUTOMEDIA'', 16384), (''IFF_DYNAMIC'', 32768),
     (''IFF_LOWER_UP'', 65536), (''IFF_DORMANT'', 131072), (''IFF_ECHO'', 262144)]"

definition enumdecl_net_device_path_type :: cenum_decl where
  "enumdecl_net_device_path_type = EnumDecl False [
     (''DEV_PATH_ETHERNET'', 0), (''DEV_PATH_VLAN'', 1), (''DEV_PATH_BRIDGE'', 2),
     (''DEV_PATH_PPPOE'', 3), (''DEV_PATH_DSA'', 4), (''DEV_PATH_MTK_WDMA'', 5),
     (''DEV_PATH_TUN'', 6)]"

definition enumdecl_net_dm_alert_mode :: cenum_decl where
  "enumdecl_net_dm_alert_mode = EnumDecl False [
     (''NET_DM_ALERT_MODE_SUMMARY'', 0), (''NET_DM_ALERT_MODE_PACKET'', 1)]"

definition enumdecl_net_dm_attr :: cenum_decl where
  "enumdecl_net_dm_attr = EnumDecl False [
     (''NET_DM_ATTR_UNSPEC'', 0), (''NET_DM_ATTR_ALERT_MODE'', 1), (''NET_DM_ATTR_PC'', 2),
     (''NET_DM_ATTR_SYMBOL'', 3), (''NET_DM_ATTR_IN_PORT'', 4), (''NET_DM_ATTR_TIMESTAMP'', 5),
     (''NET_DM_ATTR_PROTO'', 6), (''NET_DM_ATTR_PAYLOAD'', 7), (''NET_DM_ATTR_PAD'', 8),
     (''NET_DM_ATTR_TRUNC_LEN'', 9), (''NET_DM_ATTR_ORIG_LEN'', 10),
     (''NET_DM_ATTR_QUEUE_LEN'', 11), (''NET_DM_ATTR_STATS'', 12),
     (''NET_DM_ATTR_HW_STATS'', 13), (''NET_DM_ATTR_ORIGIN'', 14),
     (''NET_DM_ATTR_HW_TRAP_GROUP_NAME'', 15), (''NET_DM_ATTR_HW_TRAP_NAME'', 16),
     (''NET_DM_ATTR_HW_ENTRIES'', 17), (''NET_DM_ATTR_HW_ENTRY'', 18),
     (''NET_DM_ATTR_HW_TRAP_COUNT'', 19), (''NET_DM_ATTR_SW_DROPS'', 20),
     (''NET_DM_ATTR_HW_DROPS'', 21), (''NET_DM_ATTR_FLOW_ACTION_COOKIE'', 22),
     (''NET_DM_ATTR_REASON'', 23), (''__NET_DM_ATTR_MAX'', 24), (''NET_DM_ATTR_MAX'', 23)]"

definition enum_decls_14 :: "cenum_decl list" where
  "enum_decls_14 = [
     enumdecl_llbitmap_action, enumdecl_llbitmap_page_state, enumdecl_llbitmap_state,
     enumdecl_locality_types, enumdecl_lockdep_ok, enumdecl_lockdown_reason,
     enumdecl_lp8788_alarm_sel, enumdecl_lp8788_charger_event, enumdecl_lp8788_dvs_sel,
     enumdecl_lp8788_int_id, enumdecl_lp8788_isink_number, enumdecl_lp8788_isink_scale,
     enumdecl_lru_list, enumdecl_lru_status, enumdecl_lruvec_flags, enumdecl_lsm_event,
     enumdecl_lsm_integrity_type, enumdecl_lsm_order, enumdecl_lsm_rule_types, enumdecl_lw_bits,
     enumdecl_lwtunnel_encap_types, enumdecl_lwtunnel_ip6_t, enumdecl_lwtunnel_ip_t,
     enumdecl_lzma2_seq, enumdecl_lzma_state, enumdecl_macsec_offload,
     enumdecl_macsec_validation_type, enumdecl_madvise_lock_mode, enumdecl_map_type,
     enumdecl_maple_status, enumdecl_maple_type, enumdecl_mapping_flags, enumdecl_mapping_status,
     enumdecl_max14577_reg, enumdecl_max77693_haptic_reg, enumdecl_max77693_muic_reg,
     enumdecl_max77693_pmic_reg, enumdecl_max77693_types, enumdecl_max77836_fg_reg,
     enumdecl_max77836_pmic_reg, enumdecl_max77843_charger_reg, enumdecl_max77843_sys_reg,
     enumdecl_max8997_haptic_motor_type, enumdecl_max8997_haptic_pulse_mode,
     enumdecl_max8997_haptic_pwm_divisor, enumdecl_max8997_haptic_reg, enumdecl_max8997_irq,
     enumdecl_max8997_irq_source, enumdecl_max8997_led_mode, enumdecl_max8997_muic_reg,
     enumdecl_max8997_pmic_reg, enumdecl_max8997_types, enumdecl_maxim_device_type,
     enumdecl_mca_msr, enumdecl_mce_notifier_prios, enumdecl_mcp_flags,
     enumdecl_mctp_neigh_source, enumdecl_mctp_phys_binding, enumdecl_mctrl_gpio_idx,
     enumdecl_md_ro_state, enumdecl_md_submodule_id, enumdecl_md_submodule_type,
     enumdecl_mddev_flags, enumdecl_mddev_sb_flags, enumdecl_mds_mitigations, enumdecl_mem_type,
     enumdecl_membarrier_cmd, enumdecl_membarrier_cmd_flag, enumdecl_memblock_flags,
     enumdecl_membw_throttle_mode, enumdecl_memcg_memory_event, enumdecl_memcg_stat_item,
     enumdecl_meminit_context, enumdecl_memory_block_state, enumdecl_memory_type,
     enumdecl_metadata_type, enumdecl_mext_move_type, enumdecl_mf_action_page_type,
     enumdecl_mf_flags, enumdecl_mf_result, enumdecl_mfill_atomic_mode, enumdecl_migrate_mode,
     enumdecl_migrate_reason, enumdecl_migrate_vma_direction, enumdecl_migratetype,
     enumdecl_migration_type, enumdecl_mipi_dsi_compression_algo,
     enumdecl_mipi_dsi_dcs_tear_mode, enumdecl_mipi_dsi_pixel_format, enumdecl_misc_res_type,
     enumdecl_mm_io_opcode, enumdecl_mmap_action_type, enumdecl_mmc_busy_cmd,
     enumdecl_mmc_drv_op, enumdecl_mmc_err_stat, enumdecl_mmc_issue_type,
     enumdecl_mmc_poweroff_type, enumdecl_mminit_level, enumdecl_mmio_mitigations,
     enumdecl_mmioh_arch, enumdecl_mmu_notifier_event, enumdecl_mnt_tree_flags_t,
     enumdecl_mod_license, enumdecl_mod_mem_type, enumdecl_module_state, enumdecl_mount_flags,
     enumdecl_mount_kattr_flags_t, enumdecl_mousedev_emul, enumdecl_mp_irq_source_types,
     enumdecl_mptcp_addr_signal_status, enumdecl_mptcp_event_attr, enumdecl_mptcp_event_type,
     enumdecl_mptcp_pm_status, enumdecl_mptcp_pm_type, enumdecl_mq_rq_state,
     enumdecl_mremap_type, enumdecl_mscode_actions, enumdecl_msdos_sys_ind, enumdecl_msg_type,
     enumdecl_msi_desc_filter, enumdecl_msi_domain_ids, enumdecl_mthp_stat_item,
     enumdecl_multi_stop_state, enumdecl_nbcon_prio, enumdecl_ncsi_nl_attrs,
     enumdecl_ncsi_nl_channel_attrs, enumdecl_ncsi_nl_commands, enumdecl_ncsi_nl_pkg_attrs,
     enumdecl_nd_async_mode, enumdecl_nd_driver_flags, enumdecl_nd_ioctl_mode,
     enumdecl_nd_label_flags, enumdecl_nd_pfn_mode, enumdecl_net_device_flags,
     enumdecl_net_device_path_type, enumdecl_net_dm_alert_mode, enumdecl_net_dm_attr]"

lemma enum_decls_14_4: "list_all enum4 enum_decls_14"
  by (unfold enum_decls_14_def
     enumdecl_llbitmap_action_def enumdecl_llbitmap_page_state_def enumdecl_llbitmap_state_def
     enumdecl_locality_types_def enumdecl_lockdep_ok_def enumdecl_lockdown_reason_def
     enumdecl_lp8788_alarm_sel_def enumdecl_lp8788_charger_event_def
     enumdecl_lp8788_dvs_sel_def enumdecl_lp8788_int_id_def enumdecl_lp8788_isink_number_def
     enumdecl_lp8788_isink_scale_def enumdecl_lru_list_def enum_lru_list_def
     enumdecl_lru_status_def enumdecl_lruvec_flags_def enumdecl_lsm_event_def
     enumdecl_lsm_integrity_type_def enumdecl_lsm_order_def enumdecl_lsm_rule_types_def
     enumdecl_lw_bits_def enumdecl_lwtunnel_encap_types_def enumdecl_lwtunnel_ip6_t_def
     enumdecl_lwtunnel_ip_t_def enumdecl_lzma2_seq_def enumdecl_lzma_state_def
     enumdecl_macsec_offload_def enumdecl_macsec_validation_type_def
     enumdecl_madvise_lock_mode_def enumdecl_map_type_def enumdecl_maple_status_def
     enumdecl_maple_type_def enumdecl_mapping_flags_def enumdecl_mapping_status_def
     enumdecl_max14577_reg_def enumdecl_max77693_haptic_reg_def enumdecl_max77693_muic_reg_def
     enumdecl_max77693_pmic_reg_def enumdecl_max77693_types_def enumdecl_max77836_fg_reg_def
     enumdecl_max77836_pmic_reg_def enumdecl_max77843_charger_reg_def
     enumdecl_max77843_sys_reg_def enumdecl_max8997_haptic_motor_type_def
     enumdecl_max8997_haptic_pulse_mode_def enumdecl_max8997_haptic_pwm_divisor_def
     enumdecl_max8997_haptic_reg_def enumdecl_max8997_irq_def enumdecl_max8997_irq_source_def
     enumdecl_max8997_led_mode_def enumdecl_max8997_muic_reg_def enumdecl_max8997_pmic_reg_def
     enumdecl_max8997_types_def enumdecl_maxim_device_type_def enumdecl_mca_msr_def
     enumdecl_mce_notifier_prios_def enumdecl_mcp_flags_def enumdecl_mctp_neigh_source_def
     enumdecl_mctp_phys_binding_def enumdecl_mctrl_gpio_idx_def enumdecl_md_ro_state_def
     enumdecl_md_submodule_id_def enumdecl_md_submodule_type_def enumdecl_mddev_flags_def
     enumdecl_mddev_sb_flags_def enumdecl_mds_mitigations_def enumdecl_mem_type_def
     enumdecl_membarrier_cmd_def enumdecl_membarrier_cmd_flag_def enumdecl_memblock_flags_def
     enumdecl_membw_throttle_mode_def enumdecl_memcg_memory_event_def
     enumdecl_memcg_stat_item_def enumdecl_meminit_context_def enumdecl_memory_block_state_def
     enumdecl_memory_type_def enumdecl_metadata_type_def enumdecl_mext_move_type_def
     enumdecl_mf_action_page_type_def enumdecl_mf_flags_def enumdecl_mf_result_def
     enumdecl_mfill_atomic_mode_def enumdecl_migrate_mode_def enum_migrate_mode_def
     enumdecl_migrate_reason_def enumdecl_migrate_vma_direction_def enumdecl_migratetype_def
     enumdecl_migration_type_def enumdecl_mipi_dsi_compression_algo_def
     enumdecl_mipi_dsi_dcs_tear_mode_def enumdecl_mipi_dsi_pixel_format_def
     enumdecl_misc_res_type_def enumdecl_mm_io_opcode_def enumdecl_mmap_action_type_def
     enumdecl_mmc_busy_cmd_def enumdecl_mmc_drv_op_def enumdecl_mmc_err_stat_def
     enumdecl_mmc_issue_type_def enumdecl_mmc_poweroff_type_def enumdecl_mminit_level_def
     enumdecl_mmio_mitigations_def enumdecl_mmioh_arch_def enumdecl_mmu_notifier_event_def
     enumdecl_mnt_tree_flags_t_def enumdecl_mod_license_def enumdecl_mod_mem_type_def
     enumdecl_module_state_def enumdecl_mount_flags_def enumdecl_mount_kattr_flags_t_def
     enumdecl_mousedev_emul_def enumdecl_mp_irq_source_types_def
     enumdecl_mptcp_addr_signal_status_def enumdecl_mptcp_event_attr_def
     enumdecl_mptcp_event_type_def enumdecl_mptcp_pm_status_def enumdecl_mptcp_pm_type_def
     enumdecl_mq_rq_state_def enumdecl_mremap_type_def enumdecl_mscode_actions_def
     enumdecl_msdos_sys_ind_def enumdecl_msg_type_def enumdecl_msi_desc_filter_def
     enumdecl_msi_domain_ids_def enumdecl_mthp_stat_item_def enumdecl_multi_stop_state_def
     enumdecl_nbcon_prio_def enumdecl_ncsi_nl_attrs_def enumdecl_ncsi_nl_channel_attrs_def
     enumdecl_ncsi_nl_commands_def enumdecl_ncsi_nl_pkg_attrs_def enumdecl_nd_async_mode_def
     enumdecl_nd_driver_flags_def enumdecl_nd_ioctl_mode_def enumdecl_nd_label_flags_def
     enumdecl_nd_pfn_mode_def enumdecl_net_device_flags_def enumdecl_net_device_path_type_def
     enumdecl_net_dm_alert_mode_def enumdecl_net_dm_attr_def)
    (intro enum_list_intros enum_int_intros; simp)

lemma enum_lru_list_listed: "EnumDecl False enum_lru_list \<in> set enum_decls_14"
  by (simp add: enum_decls_14_def flip: enumdecl_lru_list_def)

lemma enum_migrate_mode_listed: "EnumDecl False enum_migrate_mode \<in> set enum_decls_14"
  by (simp add: enum_decls_14_def flip: enumdecl_migrate_mode_def)

lemma length_enum_decls_14: "length enum_decls_14 = 137"
  by (simp add: enum_decls_14_def)

end
