(* ===== verification/VmlinuxEnum15.thy ===== *)
theory VmlinuxEnum15
  imports EnumDecl
begin

text \<open>
  The enumerations of four bytes of \<^verbatim>\<open>src/internal/ebpf/vmlinux.h\<close> between lines 23323 and
  24900, one definition per enumeration, enumerators in order. An enumeration without a tag is
  named after the line it starts on.
\<close>

definition enumdecl_net_dm_origin :: cenum_decl where
  "enumdecl_net_dm_origin = EnumDecl False [
     (''NET_DM_ORIGIN_SW'', 0), (''NET_DM_ORIGIN_HW'', 1)]"

definition enumdecl_net_iov_type :: cenum_decl where
  "enumdecl_net_iov_type = EnumDecl False [
     (''NET_IOV_DMABUF'', 0), (''NET_IOV_IOURING'', 1)]"

definition enumdecl_net_shaper_binding_type :: cenum_decl where
  "enumdecl_net_shaper_binding_type = EnumDecl False [
     (''NET_SHAPER_BINDING_TYPE_NETDEV'', 0)]"

definition enumdecl_net_shaper_metric :: cenum_decl where
  "enumdecl_net_shaper_metric = EnumDecl False [
     (''NET_SHAPER_METRIC_BPS'', 0), (''NET_SHAPER_METRIC_PPS'', 1)]"

definition enumdecl_net_shaper_scope :: cenum_decl where
  "enumdecl_net_shaper_scope = EnumDecl False [
     (''NET_SHAPER_SCOPE_UNSPEC'', 0), (''NET_SHAPER_SCOPE_NETDEV'', 1),
     (''NET_SHAPER_SCOPE_QUEUE'', 2), (''NET_SHAPER_SCOPE_NODE'', 3),
     (''__NET_SHAPER_SCOPE_MAX'', 4), (''NET_SHAPER_SCOPE_MAX'', 3)]"

definition enumdecl_net_xmit_qdisc_t :: cenum_decl where
  "enumdecl_net_xmit_qdisc_t = EnumDecl False [
     (''__NET_XMIT_STOLEN'', 65536), (''__NET_XMIT_BYPASS'', 131072)]"

definition enumdecl_netdev_cmd :: cenum_decl where
  "enumdecl_netdev_cmd = EnumDecl False [
     (''NETDEV_UP'', 1), (''NETDEV_DOWN'', 2), (''NETDEV_REBOOT'', 3), (''NETDEV_CHANGE'', 4),
     (''NETDEV_REGISTER'', 5), (''NETDEV_UNREGISTER'', 6), (''NETDEV_CHANGEMTU'', 7),
     (''NETDEV_CHANGEADDR'', 8), (''NETDEV_PRE_CHANGEADDR'', 9), (''NETDEV_GOING_DOWN'', 10),
     (''NETDEV_CHANGENAME'', 11), (''NETDEV_FEAT_CHANGE'', 12),
     (''NETDEV_BONDING_FAILOVER'', 13), (''NETDEV_PRE_UP'', 14),
     (''NETDEV_PRE_TYPE_CHANGE'', 15), (''NETDEV_POST_TYPE_CHANGE'', 16),
     (''NETDEV_POST_INIT'', 17), (''NETDEV_PRE_UNINIT'', 18), (''NETDEV_RELEASE'', 19),
     (''NETDEV_NOTIFY_PEERS'', 20), (''NETDEV_JOIN'', 21), (''NETDEV_CHANGEUPPER'', 22),
     (''NETDEV_RESEND_IGMP'', 23), (''NETDEV_PRECHANGEMTU'', 24),
     (''NETDEV_CHANGEINFODATA'', 25), (''NETDEV_BONDING_INFO'', 26),
     (''NETDEV_PRECHANGEUPPER'', 27), (''NETDEV_CHANGELOWERSTATE'', 28),
     (''NETDEV_UDP_TUNNEL_PUSH_INFO'', 29), (''NETDEV_UDP_TUNNEL_DROP_INFO'', 30),
     (''NETDEV_CHANGE_TX_QUEUE_LEN'', 31), (''NETDEV_CVLAN_FILTER_PUSH_INFO'', 32),
     (''NETDEV_CVLAN_FILTER_DROP_INFO'', 33), (''NETDEV_SVLAN_FILTER_PUSH_INFO'', 34),
     (''NETDEV_SVLAN_FILTER_DROP_INFO'', 35), (''NETDEV_OFFLOAD_XSTATS_ENABLE'', 36),
     (''NETDEV_OFFLOAD_XSTATS_DISABLE'', 37), (''NETDEV_OFFLOAD_XSTATS_REPORT_USED'', 38),
     (''NETDEV_OFFLOAD_XSTATS_REPORT_DELTA'', 39), (''NETDEV_XDP_FEAT_CHANGE'', 40)]"

definition enumdecl_netdev_lag_hash :: cenum_decl where
  "enumdecl_netdev_lag_hash = EnumDecl False [
     (''NETDEV_LAG_HASH_NONE'', 0), (''NETDEV_LAG_HASH_L2'', 1), (''NETDEV_LAG_HASH_L34'', 2),
     (''NETDEV_LAG_HASH_L23'', 3), (''NETDEV_LAG_HASH_E23'', 4), (''NETDEV_LAG_HASH_E34'', 5),
     (''NETDEV_LAG_HASH_VLAN_SRCMAC'', 6), (''NETDEV_LAG_HASH_UNKNOWN'', 7)]"

definition enumdecl_netdev_lag_tx_type :: cenum_decl where
  "enumdecl_netdev_lag_tx_type = EnumDecl False [
     (''NETDEV_LAG_TX_TYPE_UNKNOWN'', 0), (''NETDEV_LAG_TX_TYPE_RANDOM'', 1),
     (''NETDEV_LAG_TX_TYPE_BROADCAST'', 2), (''NETDEV_LAG_TX_TYPE_ROUNDROBIN'', 3),
     (''NETDEV_LAG_TX_TYPE_ACTIVEBACKUP'', 4), (''NETDEV_LAG_TX_TYPE_HASH'', 5)]"

definition enumdecl_netdev_ml_priv_type :: cenum_decl where
  "enumdecl_netdev_ml_priv_type = EnumDecl False [
     (''ML_PRIV_NONE'', 0), (''ML_PRIV_CAN'', 1)]"

definition enumdecl_netdev_napi_threaded :: cenum_decl where
  "enumdecl_netdev_napi_threaded = EnumDecl False [
     (''NETDEV_NAPI_THREADED_DISABLED'', 0), (''NETDEV_NAPI_THREADED_ENABLED'', 1),
     (''NETDEV_NAPI_THREADED_BUSY_POLL'', 2)]"

definition enumdecl_netdev_offload_xstats_type :: cenum_decl where
  "enumdecl_netdev_offload_xstats_type = EnumDecl False [
     (''NETDEV_OFFLOAD_XSTATS_TYPE_L3'', 1)]"

definition enumdecl_netdev_priv_flags :: cenum_decl where
  "enumdecl_netdev_priv_flags = EnumDecl False [
     (''IFF_802_1Q_VLAN'', 1), (''IFF_EBRIDGE'', 2), (''IFF_BONDING'', 4), (''IFF_ISATAP'', 8),
     (''IFF_WAN_HDLC'', 16), (''IFF_XMIT_DST_RELEASE'', 32), (''IFF_DONT_BRIDGE'', 64),
     (''IFF_DISABLE_NETPOLL'', 128), (''IFF_MACVLAN_PORT'', 256), (''IFF_BRIDGE_PORT'', 512),
     (''IFF_OVS_DATAPATH'', 1024), (''IFF_TX_SKB_SHARING'', 2048), (''IFF_UNICAST_FLT'', 4096),
     (''IFF_TEAM_PORT'', 8192), (''IFF_SUPP_NOFCS'', 16384), (''IFF_LIVE_ADDR_CHANGE'', 32768),
     (''IFF_MACVLAN'', 65536), (''IFF_XMIT_DST_RELEASE_PERM'', 131072),
     (''IFF_L3MDEV_MASTER'', 262144), (''IFF_NO_QUEUE'', 524288), (''IFF_OPENVSWITCH'', 1048576),
     (''IFF_L3MDEV_SLAVE'', 2097152), (''IFF_TEAM'', 4194304),
     (''IFF_RXFH_CONFIGURED'', 8388608), (''IFF_PHONY_HEADROOM'', 16777216),
     (''IFF_MACSEC'', 33554432), (''IFF_NO_RX_HANDLER'', 67108864),
     (''IFF_FAILOVER'', 134217728), (''IFF_FAILOVER_SLAVE'', 268435456),
     (''IFF_L3MDEV_RX_HANDLER'', 536870912), (''IFF_NO_ADDRCONF'', 1073741824),
     (''IFF_TX_SKB_NO_LINEAR'', 2147483648)]"

lemma enumdecl_netdev_priv_flags_4: "enum4 enumdecl_netdev_priv_flags"
  by (unfold enumdecl_netdev_priv_flags_def) (intro enum_uint_intros; simp)

definition enumdecl_netdev_qstats_scope :: cenum_decl where
  "enumdecl_netdev_qstats_scope = EnumDecl False [
     (''NETDEV_QSTATS_SCOPE_QUEUE'', 1)]"

definition enumdecl_netdev_queue_state_t :: cenum_decl where
  "enumdecl_netdev_queue_state_t = EnumDecl False [
     (''__QUEUE_STATE_DRV_XOFF'', 0), (''__QUEUE_STATE_STACK_XOFF'', 1),
     (''__QUEUE_STATE_FROZEN'', 2)]"

definition enumdecl_netdev_queue_type :: cenum_decl where
  "enumdecl_netdev_queue_type = EnumDecl False [
     (''NETDEV_QUEUE_TYPE_RX'', 0), (''NETDEV_QUEUE_TYPE_TX'', 1)]"

definition enumdecl_netdev_reg_state :: cenum_decl where
  "enumdecl_netdev_reg_state = EnumDecl False [
     (''NETREG_UNINITIALIZED'', 0), (''NETREG_REGISTERED'', 1), (''NETREG_UNREGISTERING'', 2),
     (''NETREG_UNREGISTERED'', 3), (''NETREG_RELEASED'', 4), (''NETREG_DUMMY'', 5)]"

definition enumdecl_netdev_stat_type :: cenum_decl where
  "enumdecl_netdev_stat_type = EnumDecl False [
     (''NETDEV_PCPU_STAT_NONE'', 0), (''NETDEV_PCPU_STAT_LSTATS'', 1),
     (''NETDEV_PCPU_STAT_TSTATS'', 2), (''NETDEV_PCPU_STAT_DSTATS'', 3)]"

definition enumdecl_netdev_state_t :: cenum_decl where
  "enumdecl_netdev_state_t = EnumDecl False [
     (''__LINK_STATE_START'', 0), (''__LINK_STATE_PRESENT'', 1), (''__LINK_STATE_NOCARRIER'', 2),
     (''__LINK_STATE_LINKWATCH_PENDING'', 3), (''__LINK_STATE_DORMANT'', 4),
     (''__LINK_STATE_TESTING'', 5)]"

definition enumdecl_netdev_tx :: cenum_decl where
  "enumdecl_netdev_tx = EnumDecl False [
     (''__NETDEV_TX_MIN'', - 2147483648), (''NETDEV_TX_OK'', 0), (''NETDEV_TX_BUSY'', 16)]"

definition enumdecl_netdev_xdp_act :: cenum_decl where
  "enumdecl_netdev_xdp_act = EnumDecl False [
     (''NETDEV_XDP_ACT_BASIC'', 1), (''NETDEV_XDP_ACT_REDIRECT'', 2),
     (''NETDEV_XDP_ACT_NDO_XMIT'', 4), (''NETDEV_XDP_ACT_XSK_ZEROCOPY'', 8),
     (''NETDEV_XDP_ACT_HW_OFFLOAD'', 16), (''NETDEV_XDP_ACT_RX_SG'', 32),
     (''NETDEV_XDP_ACT_NDO_XMIT_SG'', 64), (''NETDEV_XDP_ACT_MASK'', 127)]"

definition enumdecl_netdev_xdp_rx_metadata :: cenum_decl where
  "enumdecl_netdev_xdp_rx_metadata = EnumDecl False [
     (''NETDEV_XDP_RX_METADATA_TIMESTAMP'', 1), (''NETDEV_XDP_RX_METADATA_HASH'', 2),
     (''NETDEV_XDP_RX_METADATA_VLAN_TAG'', 4)]"

definition enumdecl_netdev_xsk_flags :: cenum_decl where
  "enumdecl_netdev_xsk_flags = EnumDecl False [
     (''NETDEV_XSK_FLAGS_TX_TIMESTAMP'', 1), (''NETDEV_XSK_FLAGS_TX_CHECKSUM'', 2),
     (''NETDEV_XSK_FLAGS_TX_LAUNCH_TIME_FIFO'', 4)]"

definition enumdecl_netevent_notif_type :: cenum_decl where
  "enumdecl_netevent_notif_type = EnumDecl False [
     (''NETEVENT_NEIGH_UPDATE'', 1), (''NETEVENT_REDIRECT'', 2),
     (''NETEVENT_DELAY_PROBE_TIME_UPDATE'', 3), (''NETEVENT_IPV4_MPATH_HASH_UPDATE'', 4),
     (''NETEVENT_IPV6_MPATH_HASH_UPDATE'', 5), (''NETEVENT_IPV4_FWD_UPDATE_PRIORITY_UPDATE'', 6)]"

definition enumdecl_netkit_action :: cenum_decl where
  "enumdecl_netkit_action = EnumDecl False [
     (''NETKIT_NEXT'', - 1), (''NETKIT_PASS'', 0), (''NETKIT_DROP'', 2), (''NETKIT_REDIRECT'', 7)]"

definition enumdecl_netkit_mode :: cenum_decl where
  "enumdecl_netkit_mode = EnumDecl False [
     (''NETKIT_L2'', 0), (''NETKIT_L3'', 1)]"

definition enumdecl_netkit_scrub :: cenum_decl where
  "enumdecl_netkit_scrub = EnumDecl False [
     (''NETKIT_SCRUB_NONE'', 0), (''NETKIT_SCRUB_DEFAULT'', 1)]"

definition enumdecl_netlink_attribute_type :: cenum_decl where
  "enumdecl_netlink_attribute_type = EnumDecl False [
     (''NL_ATTR_TYPE_INVALID'', 0), (''NL_ATTR_TYPE_FLAG'', 1), (''NL_ATTR_TYPE_U8'', 2),
     (''NL_ATTR_TYPE_U16'', 3), (''NL_ATTR_TYPE_U32'', 4), (''NL_ATTR_TYPE_U64'', 5),
     (''NL_ATTR_TYPE_S8'', 6), (''NL_ATTR_TYPE_S16'', 7), (''NL_ATTR_TYPE_S32'', 8),
     (''NL_ATTR_TYPE_S64'', 9), (''NL_ATTR_TYPE_BINARY'', 10), (''NL_ATTR_TYPE_STRING'', 11),
     (''NL_ATTR_TYPE_NUL_STRING'', 12), (''NL_ATTR_TYPE_NESTED'', 13),
     (''NL_ATTR_TYPE_NESTED_ARRAY'', 14), (''NL_ATTR_TYPE_BITFIELD32'', 15),
     (''NL_ATTR_TYPE_SINT'', 16), (''NL_ATTR_TYPE_UINT'', 17)]"

definition enumdecl_netlink_policy_type_attr :: cenum_decl where
  "enumdecl_netlink_policy_type_attr = EnumDecl False [
     (''NL_POLICY_TYPE_ATTR_UNSPEC'', 0), (''NL_POLICY_TYPE_ATTR_TYPE'', 1),
     (''NL_POLICY_TYPE_ATTR_MIN_VALUE_S'', 2), (''NL_POLICY_TYPE_ATTR_MAX_VALUE_S'', 3),
     (''NL_POLICY_TYPE_ATTR_MIN_VALUE_U'', 4), (''NL_POLICY_TYPE_ATTR_MAX_VALUE_U'', 5),
     (''NL_POLICY_TYPE_ATTR_MIN_LENGTH'', 6), (''NL_POLICY_TYPE_ATTR_MAX_LENGTH'', 7),
     (''NL_POLICY_TYPE_ATTR_POLICY_IDX'', 8), (''NL_POLICY_TYPE_ATTR_POLICY_MAXTYPE'', 9),
     (''NL_POLICY_TYPE_ATTR_BITFIELD32_MASK'', 10), (''NL_POLICY_TYPE_ATTR_PAD'', 11),
     (''NL_POLICY_TYPE_ATTR_MASK'', 12), (''__NL_POLICY_TYPE_ATTR_MAX'', 13),
     (''NL_POLICY_TYPE_ATTR_MAX'', 12)]"

definition enumdecl_netlink_skb_flags :: cenum_decl where
  "enumdecl_netlink_skb_flags = EnumDecl False [
     (''NETLINK_SKB_DST'', 8)]"

definition enumdecl_netlink_validation :: cenum_decl where
  "enumdecl_netlink_validation = EnumDecl False [
     (''NL_VALIDATE_LIBERAL'', 0), (''NL_VALIDATE_TRAILING'', 1), (''NL_VALIDATE_MAXTYPE'', 2),
     (''NL_VALIDATE_UNSPEC'', 4), (''NL_VALIDATE_STRICT_ATTRS'', 8), (''NL_VALIDATE_NESTED'', 16)]"

definition enumdecl_netns_bpf_attach_type :: cenum_decl where
  "enumdecl_netns_bpf_attach_type = EnumDecl False [
     (''NETNS_BPF_INVALID'', - 1), (''NETNS_BPF_FLOW_DISSECTOR'', 0),
     (''NETNS_BPF_SK_LOOKUP'', 1), (''MAX_NETNS_BPF_ATTACH_TYPE'', 2)]"

definition enumdecl_nexthop_event_type :: cenum_decl where
  "enumdecl_nexthop_event_type = EnumDecl False [
     (''NEXTHOP_EVENT_DEL'', 0), (''NEXTHOP_EVENT_REPLACE'', 1),
     (''NEXTHOP_EVENT_RES_TABLE_PRE_REPLACE'', 2), (''NEXTHOP_EVENT_BUCKET_REPLACE'', 3),
     (''NEXTHOP_EVENT_HW_STATS_REPORT_DELTA'', 4)]"

definition enumdecl_nf_ct_ext_id :: cenum_decl where
  "enumdecl_nf_ct_ext_id = EnumDecl False [
     (''NF_CT_EXT_HELPER'', 0), (''NF_CT_EXT_NAT'', 1), (''NF_CT_EXT_SEQADJ'', 2),
     (''NF_CT_EXT_ACCT'', 3), (''NF_CT_EXT_ECACHE'', 4), (''NF_CT_EXT_TSTAMP'', 5),
     (''NF_CT_EXT_TIMEOUT'', 6), (''NF_CT_EXT_LABELS'', 7), (''NF_CT_EXT_SYNPROXY'', 8),
     (''NF_CT_EXT_ACT_CT'', 9), (''NF_CT_EXT_NUM'', 10)]"

definition enumdecl_nf_dev_hooks :: cenum_decl where
  "enumdecl_nf_dev_hooks = EnumDecl False [
     (''NF_NETDEV_INGRESS'', 0), (''NF_NETDEV_EGRESS'', 1), (''NF_NETDEV_NUMHOOKS'', 2)]"

definition enumdecl_nf_hook_ops_type :: cenum_decl where
  "enumdecl_nf_hook_ops_type = EnumDecl False [
     (''NF_HOOK_OP_UNDEFINED'', 0), (''NF_HOOK_OP_NF_TABLES'', 1), (''NF_HOOK_OP_BPF'', 2),
     (''NF_HOOK_OP_NFT_FT'', 3)]"

definition enumdecl_nf_inet_hooks :: cenum_decl where
  "enumdecl_nf_inet_hooks = EnumDecl False [
     (''NF_INET_PRE_ROUTING'', 0), (''NF_INET_LOCAL_IN'', 1), (''NF_INET_FORWARD'', 2),
     (''NF_INET_LOCAL_OUT'', 3), (''NF_INET_POST_ROUTING'', 4), (''NF_INET_NUMHOOKS'', 5),
     (''NF_INET_INGRESS'', 5)]"

definition enumdecl_nf_ip6_hook_priorities :: cenum_decl where
  "enumdecl_nf_ip6_hook_priorities = EnumDecl False [
     (''NF_IP6_PRI_FIRST'', - 2147483648), (''NF_IP6_PRI_RAW_BEFORE_DEFRAG'', - 450),
     (''NF_IP6_PRI_CONNTRACK_DEFRAG'', - 400), (''NF_IP6_PRI_RAW'', - 300),
     (''NF_IP6_PRI_SELINUX_FIRST'', - 225), (''NF_IP6_PRI_CONNTRACK'', - 200),
     (''NF_IP6_PRI_MANGLE'', - 150), (''NF_IP6_PRI_NAT_DST'', - 100), (''NF_IP6_PRI_FILTER'', 0),
     (''NF_IP6_PRI_SECURITY'', 50), (''NF_IP6_PRI_NAT_SRC'', 100),
     (''NF_IP6_PRI_SELINUX_LAST'', 225), (''NF_IP6_PRI_CONNTRACK_HELPER'', 300),
     (''NF_IP6_PRI_LAST'', 2147483647)]"

definition enumdecl_nf_ip_hook_priorities :: cenum_decl where
  "enumdecl_nf_ip_hook_priorities = EnumDecl False [
     (''NF_IP_PRI_FIRST'', - 2147483648), (''NF_IP_PRI_RAW_BEFORE_DEFRAG'', - 450),
     (''NF_IP_PRI_CONNTRACK_DEFRAG'', - 400), (''NF_IP_PRI_RAW'', - 300),
     (''NF_IP_PRI_SELINUX_FIRST'', - 225), (''NF_IP_PRI_CONNTRACK'', - 200),
     (''NF_IP_PRI_MANGLE'', - 150), (''NF_IP_PRI_NAT_DST'', - 100), (''NF_IP_PRI_FILTER'', 0),
     (''NF_IP_PRI_SECURITY'', 50), (''NF_IP_PRI_NAT_SRC'', 100),
     (''NF_IP_PRI_SELINUX_LAST'', 225), (''NF_IP_PRI_CONNTRACK_HELPER'', 300),
     (''NF_IP_PRI_CONNTRACK_CONFIRM'', 2147483647), (''NF_IP_PRI_LAST'', 2147483647)]"

definition enumdecl_nf_log_type :: cenum_decl where
  "enumdecl_nf_log_type = EnumDecl False [
     (''NF_LOG_TYPE_LOG'', 0), (''NF_LOG_TYPE_ULOG'', 1), (''NF_LOG_TYPE_MAX'', 2)]"

definition enumdecl_nfs3_stable_how :: cenum_decl where
  "enumdecl_nfs3_stable_how = EnumDecl False [
     (''NFS_UNSTABLE'', 0), (''NFS_DATA_SYNC'', 1), (''NFS_FILE_SYNC'', 2),
     (''NFS_INVALID_STABLE_HOW'', - 1)]"

definition enumdecl_nfs4_change_attr_type :: cenum_decl where
  "enumdecl_nfs4_change_attr_type = EnumDecl False [
     (''NFS4_CHANGE_TYPE_IS_MONOTONIC_INCR'', 0), (''NFS4_CHANGE_TYPE_IS_VERSION_COUNTER'', 1),
     (''NFS4_CHANGE_TYPE_IS_VERSION_COUNTER_NOPNFS'', 2),
     (''NFS4_CHANGE_TYPE_IS_TIME_METADATA'', 3), (''NFS4_CHANGE_TYPE_IS_UNDEFINED'', 4)]"

definition enumdecl_nfs_opnum4 :: cenum_decl where
  "enumdecl_nfs_opnum4 = EnumDecl False [
     (''OP_ACCESS'', 3), (''OP_CLOSE'', 4), (''OP_COMMIT'', 5), (''OP_CREATE'', 6),
     (''OP_DELEGPURGE'', 7), (''OP_DELEGRETURN'', 8), (''OP_GETATTR'', 9), (''OP_GETFH'', 10),
     (''OP_LINK'', 11), (''OP_LOCK'', 12), (''OP_LOCKT'', 13), (''OP_LOCKU'', 14),
     (''OP_LOOKUP'', 15), (''OP_LOOKUPP'', 16), (''OP_NVERIFY'', 17), (''OP_OPEN'', 18),
     (''OP_OPENATTR'', 19), (''OP_OPEN_CONFIRM'', 20), (''OP_OPEN_DOWNGRADE'', 21),
     (''OP_PUTFH'', 22), (''OP_PUTPUBFH'', 23), (''OP_PUTROOTFH'', 24), (''OP_READ'', 25),
     (''OP_READDIR'', 26), (''OP_READLINK'', 27), (''OP_REMOVE'', 28), (''OP_RENAME'', 29),
     (''OP_RENEW'', 30), (''OP_RESTOREFH'', 31), (''OP_SAVEFH'', 32), (''OP_SECINFO'', 33),
     (''OP_SETATTR'', 34), (''OP_SETCLIENTID'', 35), (''OP_SETCLIENTID_CONFIRM'', 36),
     (''OP_VERIFY'', 37), (''OP_WRITE'', 38), (''OP_RELEASE_LOCKOWNER'', 39),
     (''OP_BACKCHANNEL_CTL'', 40), (''OP_BIND_CONN_TO_SESSION'', 41), (''OP_EXCHANGE_ID'', 42),
     (''OP_CREATE_SESSION'', 43), (''OP_DESTROY_SESSION'', 44), (''OP_FREE_STATEID'', 45),
     (''OP_GET_DIR_DELEGATION'', 46), (''OP_GETDEVICEINFO'', 47), (''OP_GETDEVICELIST'', 48),
     (''OP_LAYOUTCOMMIT'', 49), (''OP_LAYOUTGET'', 50), (''OP_LAYOUTRETURN'', 51),
     (''OP_SECINFO_NO_NAME'', 52), (''OP_SEQUENCE'', 53), (''OP_SET_SSV'', 54),
     (''OP_TEST_STATEID'', 55), (''OP_WANT_DELEGATION'', 56), (''OP_DESTROY_CLIENTID'', 57),
     (''OP_RECLAIM_COMPLETE'', 58), (''OP_ALLOCATE'', 59), (''OP_COPY'', 60),
     (''OP_COPY_NOTIFY'', 61), (''OP_DEALLOCATE'', 62), (''OP_IO_ADVISE'', 63),
     (''OP_LAYOUTERROR'', 64), (''OP_LAYOUTSTATS'', 65), (''OP_OFFLOAD_CANCEL'', 66),
     (''OP_OFFLOAD_STATUS'', 67), (''OP_READ_PLUS'', 68), (''OP_SEEK'', 69),
     (''OP_WRITE_SAME'', 70), (''OP_CLONE'', 71), (''OP_GETXATTR'', 72), (''OP_SETXATTR'', 73),
     (''OP_LISTXATTRS'', 74), (''OP_REMOVEXATTR'', 75), (''OP_ILLEGAL'', 10044)]"

definition enumdecl_nfs_stat :: cenum_decl where
  "enumdecl_nfs_stat = EnumDecl False [
     (''NFS_OK'', 0), (''NFSERR_PERM'', 1), (''NFSERR_NOENT'', 2), (''NFSERR_IO'', 5),
     (''NFSERR_NXIO'', 6), (''NFSERR_ACCES'', 13), (''NFSERR_EXIST'', 17), (''NFSERR_XDEV'', 18),
     (''NFSERR_NODEV'', 19), (''NFSERR_NOTDIR'', 20), (''NFSERR_ISDIR'', 21),
     (''NFSERR_INVAL'', 22), (''NFSERR_FBIG'', 27), (''NFSERR_NOSPC'', 28),
     (''NFSERR_ROFS'', 30), (''NFSERR_MLINK'', 31), (''NFSERR_NAMETOOLONG'', 63),
     (''NFSERR_NOTEMPTY'', 66), (''NFSERR_DQUOT'', 69), (''NFSERR_STALE'', 70),
     (''NFSERR_REMOTE'', 71), (''NFSERR_WFLUSH'', 99), (''NFSERR_BADHANDLE'', 10001),
     (''NFSERR_NOT_SYNC'', 10002), (''NFSERR_BAD_COOKIE'', 10003), (''NFSERR_NOTSUPP'', 10004),
     (''NFSERR_TOOSMALL'', 10005), (''NFSERR_SERVERFAULT'', 10006), (''NFSERR_BADTYPE'', 10007),
     (''NFSERR_JUKEBOX'', 10008), (''NFSERR_SAME'', 10009), (''NFSERR_DENIED'', 10010),
     (''NFSERR_EXPIRED'', 10011), (''NFSERR_LOCKED'', 10012), (''NFSERR_GRACE'', 10013),
     (''NFSERR_FHEXPIRED'', 10014), (''NFSERR_SHARE_DENIED'', 10015),
     (''NFSERR_WRONGSEC'', 10016), (''NFSERR_CLID_INUSE'', 10017), (''NFSERR_RESOURCE'', 10018),
     (''NFSERR_MOVED'', 10019), (''NFSERR_NOFILEHANDLE'', 10020),
     (''NFSERR_MINOR_VERS_MISMATCH'', 10021), (''NFSERR_STALE_CLIENTID'', 10022),
     (''NFSERR_STALE_STATEID'', 10023), (''NFSERR_OLD_STATEID'', 10024),
     (''NFSERR_BAD_STATEID'', 10025), (''NFSERR_BAD_SEQID'', 10026),
     (''NFSERR_NOT_SAME'', 10027), (''NFSERR_LOCK_RANGE'', 10028), (''NFSERR_SYMLINK'', 10029),
     (''NFSERR_RESTOREFH'', 10030), (''NFSERR_LEASE_MOVED'', 10031),
     (''NFSERR_ATTRNOTSUPP'', 10032), (''NFSERR_NO_GRACE'', 10033),
     (''NFSERR_RECLAIM_BAD'', 10034), (''NFSERR_RECLAIM_CONFLICT'', 10035),
     (''NFSERR_BAD_XDR'', 10036), (''NFSERR_LOCKS_HELD'', 10037), (''NFSERR_OPENMODE'', 10038),
     (''NFSERR_BADOWNER'', 10039), (''NFSERR_BADCHAR'', 10040), (''NFSERR_BADNAME'', 10041),
     (''NFSERR_BAD_RANGE'', 10042), (''NFSERR_LOCK_NOTSUPP'', 10043),
     (''NFSERR_OP_ILLEGAL'', 10044), (''NFSERR_DEADLOCK'', 10045), (''NFSERR_FILE_OPEN'', 10046),
     (''NFSERR_ADMIN_REVOKED'', 10047), (''NFSERR_CB_PATH_DOWN'', 10048)]"

definition enumdecl_nfsstat4 :: cenum_decl where
  "enumdecl_nfsstat4 = EnumDecl False [
     (''NFS4_OK'', 0), (''NFS4ERR_PERM'', 1), (''NFS4ERR_NOENT'', 2), (''NFS4ERR_IO'', 5),
     (''NFS4ERR_NXIO'', 6), (''NFS4ERR_ACCESS'', 13), (''NFS4ERR_EXIST'', 17),
     (''NFS4ERR_XDEV'', 18), (''NFS4ERR_NOTDIR'', 20), (''NFS4ERR_ISDIR'', 21),
     (''NFS4ERR_INVAL'', 22), (''NFS4ERR_FBIG'', 27), (''NFS4ERR_NOSPC'', 28),
     (''NFS4ERR_ROFS'', 30), (''NFS4ERR_MLINK'', 31), (''NFS4ERR_NAMETOOLONG'', 63),
     (''NFS4ERR_NOTEMPTY'', 66), (''NFS4ERR_DQUOT'', 69), (''NFS4ERR_STALE'', 70),
     (''NFS4ERR_BADHANDLE'', 10001), (''NFS4ERR_BAD_COOKIE'', 10003),
     (''NFS4ERR_NOTSUPP'', 10004), (''NFS4ERR_TOOSMALL'', 10005),
     (''NFS4ERR_SERVERFAULT'', 10006), (''NFS4ERR_BADTYPE'', 10007), (''NFS4ERR_DELAY'', 10008),
     (''NFS4ERR_SAME'', 10009), (''NFS4ERR_DENIED'', 10010), (''NFS4ERR_EXPIRED'', 10011),
     (''NFS4ERR_LOCKED'', 10012), (''NFS4ERR_GRACE'', 10013), (''NFS4ERR_FHEXPIRED'', 10014),
     (''NFS4ERR_SHARE_DENIED'', 10015), (''NFS4ERR_WRONGSEC'', 10016),
     (''NFS4ERR_CLID_INUSE'', 10017), (''NFS4ERR_RESOURCE'', 10018), (''NFS4ERR_MOVED'', 10019),
     (''NFS4ERR_NOFILEHANDLE'', 10020), (''NFS4ERR_MINOR_VERS_MISMATCH'', 10021),
     (''NFS4ERR_STALE_CLIENTID'', 10022), (''NFS4ERR_STALE_STATEID'', 10023),
     (''NFS4ERR_OLD_STATEID'', 10024), (''NFS4ERR_BAD_STATEID'', 10025),
     (''NFS4ERR_BAD_SEQID'', 10026), (''NFS4ERR_NOT_SAME'', 10027),
     (''NFS4ERR_LOCK_RANGE'', 10028), (''NFS4ERR_SYMLINK'', 10029),
     (''NFS4ERR_RESTOREFH'', 10030), (''NFS4ERR_LEASE_MOVED'', 10031),
     (''NFS4ERR_ATTRNOTSUPP'', 10032), (''NFS4ERR_NO_GRACE'', 10033),
     (''NFS4ERR_RECLAIM_BAD'', 10034), (''NFS4ERR_RECLAIM_CONFLICT'', 10035),
     (''NFS4ERR_BADXDR'', 10036), (''NFS4ERR_LOCKS_HELD'', 10037), (''NFS4ERR_OPENMODE'', 10038),
     (''NFS4ERR_BADOWNER'', 10039), (''NFS4ERR_BADCHAR'', 10040), (''NFS4ERR_BADNAME'', 10041),
     (''NFS4ERR_BAD_RANGE'', 10042), (''NFS4ERR_LOCK_NOTSUPP'', 10043),
     (''NFS4ERR_OP_ILLEGAL'', 10044), (''NFS4ERR_DEADLOCK'', 10045),
     (''NFS4ERR_FILE_OPEN'', 10046), (''NFS4ERR_ADMIN_REVOKED'', 10047),
     (''NFS4ERR_CB_PATH_DOWN'', 10048), (''NFS4ERR_BADIOMODE'', 10049),
     (''NFS4ERR_BADLAYOUT'', 10050), (''NFS4ERR_BAD_SESSION_DIGEST'', 10051),
     (''NFS4ERR_BADSESSION'', 10052), (''NFS4ERR_BADSLOT'', 10053),
     (''NFS4ERR_COMPLETE_ALREADY'', 10054), (''NFS4ERR_CONN_NOT_BOUND_TO_SESSION'', 10055),
     (''NFS4ERR_DELEG_ALREADY_WANTED'', 10056), (''NFS4ERR_BACK_CHAN_BUSY'', 10057),
     (''NFS4ERR_LAYOUTTRYLATER'', 10058), (''NFS4ERR_LAYOUTUNAVAILABLE'', 10059),
     (''NFS4ERR_NOMATCHING_LAYOUT'', 10060), (''NFS4ERR_RECALLCONFLICT'', 10061),
     (''NFS4ERR_UNKNOWN_LAYOUTTYPE'', 10062), (''NFS4ERR_SEQ_MISORDERED'', 10063),
     (''NFS4ERR_SEQUENCE_POS'', 10064), (''NFS4ERR_REQ_TOO_BIG'', 10065),
     (''NFS4ERR_REP_TOO_BIG'', 10066), (''NFS4ERR_REP_TOO_BIG_TO_CACHE'', 10067),
     (''NFS4ERR_RETRY_UNCACHED_REP'', 10068), (''NFS4ERR_UNSAFE_COMPOUND'', 10069),
     (''NFS4ERR_TOO_MANY_OPS'', 10070), (''NFS4ERR_OP_NOT_IN_SESSION'', 10071),
     (''NFS4ERR_HASH_ALG_UNSUPP'', 10072), (''NFS4ERR_CLIENTID_BUSY'', 10074),
     (''NFS4ERR_PNFS_IO_HOLE'', 10075), (''NFS4ERR_SEQ_FALSE_RETRY'', 10076),
     (''NFS4ERR_BAD_HIGH_SLOT'', 10077), (''NFS4ERR_DEADSESSION'', 10078),
     (''NFS4ERR_ENCR_ALG_UNSUPP'', 10079), (''NFS4ERR_PNFS_NO_LAYOUT'', 10080),
     (''NFS4ERR_NOT_ONLY_OP'', 10081), (''NFS4ERR_WRONG_CRED'', 10082),
     (''NFS4ERR_WRONG_TYPE'', 10083), (''NFS4ERR_DIRDELEG_UNAVAIL'', 10084),
     (''NFS4ERR_REJECT_DELEG'', 10085), (''NFS4ERR_RETURNCONFLICT'', 10086),
     (''NFS4ERR_DELEG_REVOKED'', 10087), (''NFS4ERR_PARTNER_NOTSUPP'', 10088),
     (''NFS4ERR_PARTNER_NO_AUTH'', 10089), (''NFS4ERR_UNION_NOTSUPP'', 10090),
     (''NFS4ERR_OFFLOAD_DENIED'', 10091), (''NFS4ERR_WRONG_LFS'', 10092),
     (''NFS4ERR_BADLABEL'', 10093), (''NFS4ERR_OFFLOAD_NO_REQS'', 10094),
     (''NFS4ERR_NOXATTR'', 10095), (''NFS4ERR_XATTR2BIG'', 10096),
     (''NFS4ERR_FIRST_FREE'', 10097)]"

definition enumdecl_nh_notifier_info_type :: cenum_decl where
  "enumdecl_nh_notifier_info_type = EnumDecl False [
     (''NH_NOTIFIER_INFO_TYPE_SINGLE'', 0), (''NH_NOTIFIER_INFO_TYPE_GRP'', 1),
     (''NH_NOTIFIER_INFO_TYPE_RES_TABLE'', 2), (''NH_NOTIFIER_INFO_TYPE_RES_BUCKET'', 3),
     (''NH_NOTIFIER_INFO_TYPE_GRP_HW_STATS'', 4)]"

definition enumdecl_nl80211_auth_type :: cenum_decl where
  "enumdecl_nl80211_auth_type = EnumDecl False [
     (''NL80211_AUTHTYPE_OPEN_SYSTEM'', 0), (''NL80211_AUTHTYPE_SHARED_KEY'', 1),
     (''NL80211_AUTHTYPE_FT'', 2), (''NL80211_AUTHTYPE_NETWORK_EAP'', 3),
     (''NL80211_AUTHTYPE_SAE'', 4), (''NL80211_AUTHTYPE_FILS_SK'', 5),
     (''NL80211_AUTHTYPE_FILS_SK_PFS'', 6), (''NL80211_AUTHTYPE_FILS_PK'', 7),
     (''NL80211_AUTHTYPE_EPPKE'', 8), (''__NL80211_AUTHTYPE_NUM'', 9),
     (''NL80211_AUTHTYPE_MAX'', 8), (''NL80211_AUTHTYPE_AUTOMATIC'', 9)]"

definition enumdecl_nl80211_band :: cenum_decl where
  "enumdecl_nl80211_band = EnumDecl False [
     (''NL80211_BAND_2GHZ'', 0), (''NL80211_BAND_5GHZ'', 1), (''NL80211_BAND_60GHZ'', 2),
     (''NL80211_BAND_6GHZ'', 3), (''NL80211_BAND_S1GHZ'', 4), (''NL80211_BAND_LC'', 5),
     (''NUM_NL80211_BANDS'', 6)]"

definition enumdecl_nl80211_bss_select_attr :: cenum_decl where
  "enumdecl_nl80211_bss_select_attr = EnumDecl False [
     (''__NL80211_BSS_SELECT_ATTR_INVALID'', 0), (''NL80211_BSS_SELECT_ATTR_RSSI'', 1),
     (''NL80211_BSS_SELECT_ATTR_BAND_PREF'', 2), (''NL80211_BSS_SELECT_ATTR_RSSI_ADJUST'', 3),
     (''__NL80211_BSS_SELECT_ATTR_AFTER_LAST'', 4), (''NL80211_BSS_SELECT_ATTR_MAX'', 3)]"

definition enumdecl_nl80211_chan_width :: cenum_decl where
  "enumdecl_nl80211_chan_width = EnumDecl False [
     (''NL80211_CHAN_WIDTH_20_NOHT'', 0), (''NL80211_CHAN_WIDTH_20'', 1),
     (''NL80211_CHAN_WIDTH_40'', 2), (''NL80211_CHAN_WIDTH_80'', 3),
     (''NL80211_CHAN_WIDTH_80P80'', 4), (''NL80211_CHAN_WIDTH_160'', 5),
     (''NL80211_CHAN_WIDTH_5'', 6), (''NL80211_CHAN_WIDTH_10'', 7),
     (''NL80211_CHAN_WIDTH_1'', 8), (''NL80211_CHAN_WIDTH_2'', 9),
     (''NL80211_CHAN_WIDTH_4'', 10), (''NL80211_CHAN_WIDTH_8'', 11),
     (''NL80211_CHAN_WIDTH_16'', 12), (''NL80211_CHAN_WIDTH_320'', 13)]"

definition enumdecl_nl80211_dfs_regions :: cenum_decl where
  "enumdecl_nl80211_dfs_regions = EnumDecl False [
     (''NL80211_DFS_UNSET'', 0), (''NL80211_DFS_FCC'', 1), (''NL80211_DFS_ETSI'', 2),
     (''NL80211_DFS_JP'', 3)]"

definition enumdecl_nl80211_dfs_state :: cenum_decl where
  "enumdecl_nl80211_dfs_state = EnumDecl False [
     (''NL80211_DFS_USABLE'', 0), (''NL80211_DFS_UNAVAILABLE'', 1),
     (''NL80211_DFS_AVAILABLE'', 2)]"

definition enumdecl_nl80211_iftype :: cenum_decl where
  "enumdecl_nl80211_iftype = EnumDecl False [
     (''NL80211_IFTYPE_UNSPECIFIED'', 0), (''NL80211_IFTYPE_ADHOC'', 1),
     (''NL80211_IFTYPE_STATION'', 2), (''NL80211_IFTYPE_AP'', 3),
     (''NL80211_IFTYPE_AP_VLAN'', 4), (''NL80211_IFTYPE_WDS'', 5),
     (''NL80211_IFTYPE_MONITOR'', 6), (''NL80211_IFTYPE_MESH_POINT'', 7),
     (''NL80211_IFTYPE_P2P_CLIENT'', 8), (''NL80211_IFTYPE_P2P_GO'', 9),
     (''NL80211_IFTYPE_P2P_DEVICE'', 10), (''NL80211_IFTYPE_OCB'', 11),
     (''NL80211_IFTYPE_NAN'', 12), (''NUM_NL80211_IFTYPES'', 13), (''NL80211_IFTYPE_MAX'', 12)]"

definition enumdecl_nl80211_key_mode :: cenum_decl where
  "enumdecl_nl80211_key_mode = EnumDecl False [
     (''NL80211_KEY_RX_TX'', 0), (''NL80211_KEY_NO_TX'', 1), (''NL80211_KEY_SET_TX'', 2)]"

definition enumdecl_nl80211_mfp :: cenum_decl where
  "enumdecl_nl80211_mfp = EnumDecl False [
     (''NL80211_MFP_NO'', 0), (''NL80211_MFP_REQUIRED'', 1), (''NL80211_MFP_OPTIONAL'', 2)]"

definition enumdecl_nl80211_reg_initiator :: cenum_decl where
  "enumdecl_nl80211_reg_initiator = EnumDecl False [
     (''NL80211_REGDOM_SET_BY_CORE'', 0), (''NL80211_REGDOM_SET_BY_USER'', 1),
     (''NL80211_REGDOM_SET_BY_DRIVER'', 2), (''NL80211_REGDOM_SET_BY_COUNTRY_IE'', 3)]"

definition enumdecl_nl80211_sae_pwe_mechanism :: cenum_decl where
  "enumdecl_nl80211_sae_pwe_mechanism = EnumDecl False [
     (''NL80211_SAE_PWE_UNSPECIFIED'', 0), (''NL80211_SAE_PWE_HUNT_AND_PECK'', 1),
     (''NL80211_SAE_PWE_HASH_TO_ELEMENT'', 2), (''NL80211_SAE_PWE_BOTH'', 3)]"

definition enumdecl_nl80211_sar_type :: cenum_decl where
  "enumdecl_nl80211_sar_type = EnumDecl False [
     (''NL80211_SAR_TYPE_POWER'', 0), (''NUM_NL80211_SAR_TYPE'', 1)]"

definition enumdecl_nl80211_user_reg_hint_type :: cenum_decl where
  "enumdecl_nl80211_user_reg_hint_type = EnumDecl False [
     (''NL80211_USER_REG_HINT_USER'', 0), (''NL80211_USER_REG_HINT_CELL_BASE'', 1),
     (''NL80211_USER_REG_HINT_INDOOR'', 2)]"

definition enumdecl_nl802154_cca_modes :: cenum_decl where
  "enumdecl_nl802154_cca_modes = EnumDecl False [
     (''__NL802154_CCA_INVALID'', 0), (''NL802154_CCA_ENERGY'', 1),
     (''NL802154_CCA_CARRIER'', 2), (''NL802154_CCA_ENERGY_CARRIER'', 3),
     (''NL802154_CCA_ALOHA'', 4), (''NL802154_CCA_UWB_SHR'', 5),
     (''NL802154_CCA_UWB_MULTIPLEXED'', 6), (''__NL802154_CCA_ATTR_AFTER_LAST'', 7),
     (''NL802154_CCA_ATTR_MAX'', 6)]"

definition enumdecl_nl802154_cca_opts :: cenum_decl where
  "enumdecl_nl802154_cca_opts = EnumDecl False [
     (''NL802154_CCA_OPT_ENERGY_CARRIER_AND'', 0), (''NL802154_CCA_OPT_ENERGY_CARRIER_OR'', 1),
     (''__NL802154_CCA_OPT_ATTR_AFTER_LAST'', 2), (''NL802154_CCA_OPT_ATTR_MAX'', 1)]"

definition enumdecl_nl802154_supported_bool_states :: cenum_decl where
  "enumdecl_nl802154_supported_bool_states = EnumDecl False [
     (''NL802154_SUPPORTED_BOOL_FALSE'', 0), (''NL802154_SUPPORTED_BOOL_TRUE'', 1),
     (''__NL802154_SUPPORTED_BOOL_INVALD'', 2), (''NL802154_SUPPORTED_BOOL_BOTH'', 3),
     (''__NL802154_SUPPORTED_BOOL_AFTER_LAST'', 4), (''NL802154_SUPPORTED_BOOL_MAX'', 3)]"

definition enumdecl_nla_policy_validation :: cenum_decl where
  "enumdecl_nla_policy_validation = EnumDecl False [
     (''NLA_VALIDATE_NONE'', 0), (''NLA_VALIDATE_RANGE'', 1),
     (''NLA_VALIDATE_RANGE_WARN_TOO_LONG'', 2), (''NLA_VALIDATE_MIN'', 3),
     (''NLA_VALIDATE_MAX'', 4), (''NLA_VALIDATE_MASK'', 5), (''NLA_VALIDATE_RANGE_PTR'', 6),
     (''NLA_VALIDATE_FUNCTION'', 7)]"

definition enumdecl_nlmsgerr_attrs :: cenum_decl where
  "enumdecl_nlmsgerr_attrs = EnumDecl False [
     (''NLMSGERR_ATTR_UNUSED'', 0), (''NLMSGERR_ATTR_MSG'', 1), (''NLMSGERR_ATTR_OFFS'', 2),
     (''NLMSGERR_ATTR_COOKIE'', 3), (''NLMSGERR_ATTR_POLICY'', 4),
     (''NLMSGERR_ATTR_MISS_TYPE'', 5), (''NLMSGERR_ATTR_MISS_NEST'', 6),
     (''__NLMSGERR_ATTR_MAX'', 7), (''NLMSGERR_ATTR_MAX'', 6)]"

definition enumdecl_nmi_states :: cenum_decl where
  "enumdecl_nmi_states = EnumDecl False [
     (''NMI_NOT_RUNNING'', 0), (''NMI_EXECUTING'', 1), (''NMI_LATCHED'', 2)]"

definition enumdecl_node_stat_item :: cenum_decl where
  "enumdecl_node_stat_item = EnumDecl False [
     (''NR_LRU_BASE'', 0), (''NR_INACTIVE_ANON'', 0), (''NR_ACTIVE_ANON'', 1),
     (''NR_INACTIVE_FILE'', 2), (''NR_ACTIVE_FILE'', 3), (''NR_UNEVICTABLE'', 4),
     (''NR_SLAB_RECLAIMABLE_B'', 5), (''NR_SLAB_UNRECLAIMABLE_B'', 6), (''NR_ISOLATED_ANON'', 7),
     (''NR_ISOLATED_FILE'', 8), (''WORKINGSET_NODES'', 9), (''WORKINGSET_REFAULT_BASE'', 10),
     (''WORKINGSET_REFAULT_ANON'', 10), (''WORKINGSET_REFAULT_FILE'', 11),
     (''WORKINGSET_ACTIVATE_BASE'', 12), (''WORKINGSET_ACTIVATE_ANON'', 12),
     (''WORKINGSET_ACTIVATE_FILE'', 13), (''WORKINGSET_RESTORE_BASE'', 14),
     (''WORKINGSET_RESTORE_ANON'', 14), (''WORKINGSET_RESTORE_FILE'', 15),
     (''WORKINGSET_NODERECLAIM'', 16), (''NR_ANON_MAPPED'', 17), (''NR_FILE_MAPPED'', 18),
     (''NR_FILE_PAGES'', 19), (''NR_FILE_DIRTY'', 20), (''NR_WRITEBACK'', 21),
     (''NR_SHMEM'', 22), (''NR_SHMEM_THPS'', 23), (''NR_SHMEM_PMDMAPPED'', 24),
     (''NR_FILE_THPS'', 25), (''NR_FILE_PMDMAPPED'', 26), (''NR_ANON_THPS'', 27),
     (''NR_VMSCAN_WRITE'', 28), (''NR_VMSCAN_IMMEDIATE'', 29), (''NR_DIRTIED'', 30),
     (''NR_WRITTEN'', 31), (''NR_THROTTLED_WRITTEN'', 32), (''NR_KERNEL_MISC_RECLAIMABLE'', 33),
     (''NR_FOLL_PIN_ACQUIRED'', 34), (''NR_FOLL_PIN_RELEASED'', 35),
     (''NR_KERNEL_STACK_KB'', 36), (''NR_PAGETABLE'', 37), (''NR_SECONDARY_PAGETABLE'', 38),
     (''NR_IOMMU_PAGES'', 39), (''NR_SWAPCACHE'', 40), (''PGPROMOTE_SUCCESS'', 41),
     (''PGPROMOTE_CANDIDATE'', 42), (''PGPROMOTE_CANDIDATE_NRL'', 43), (''PGDEMOTE_KSWAPD'', 44),
     (''PGDEMOTE_DIRECT'', 45), (''PGDEMOTE_KHUGEPAGED'', 46), (''PGDEMOTE_PROACTIVE'', 47),
     (''NR_HUGETLB'', 48), (''NR_BALLOON_PAGES'', 49), (''NR_KERNEL_FILE_PAGES'', 50),
     (''NR_VM_NODE_STAT_ITEMS'', 51)]"

definition enumdecl_node_states :: cenum_decl where
  "enumdecl_node_states = EnumDecl False [
     (''N_POSSIBLE'', 0), (''N_ONLINE'', 1), (''N_NORMAL_MEMORY'', 2), (''N_HIGH_MEMORY'', 2),
     (''N_MEMORY'', 3), (''N_CPU'', 4), (''N_GENERIC_INITIATOR'', 5), (''NR_NODE_STATES'', 6)]"

definition enumdecl_notify_state :: cenum_decl where
  "enumdecl_notify_state = EnumDecl False [
     (''SECCOMP_NOTIFY_INIT'', 0), (''SECCOMP_NOTIFY_SENT'', 1), (''SECCOMP_NOTIFY_REPLIED'', 2)]"

definition enumdecl_ns_type :: cenum_decl where
  "enumdecl_ns_type = EnumDecl False [
     (''TIME_NS'', 128), (''MNT_NS'', 131072), (''CGROUP_NS'', 33554432), (''UTS_NS'', 67108864),
     (''IPC_NS'', 134217728), (''USER_NS'', 268435456), (''PID_NS'', 536870912),
     (''NET_NS'', 1073741824)]"

definition enumdecl_numa_faults_stats :: cenum_decl where
  "enumdecl_numa_faults_stats = EnumDecl False [
     (''NUMA_MEM'', 0), (''NUMA_CPU'', 1), (''NUMA_MEMBUF'', 2), (''NUMA_CPUBUF'', 3)]"

definition enumdecl_numa_stat_item :: cenum_decl where
  "enumdecl_numa_stat_item = EnumDecl False [
     (''NUMA_HIT'', 0), (''NUMA_MISS'', 1), (''NUMA_FOREIGN'', 2), (''NUMA_INTERLEAVE_HIT'', 3),
     (''NUMA_LOCAL'', 4), (''NUMA_OTHER'', 5), (''NR_VM_NUMA_EVENT_ITEMS'', 6)]"

definition enumdecl_numa_topology_type :: cenum_decl where
  "enumdecl_numa_topology_type = EnumDecl False [
     (''NUMA_DIRECT'', 0), (''NUMA_GLUELESS_MESH'', 1), (''NUMA_BACKPLANE'', 2)]"

definition enumdecl_numa_type :: cenum_decl where
  "enumdecl_numa_type = EnumDecl False [
     (''node_has_spare'', 0), (''node_fully_busy'', 1), (''node_overloaded'', 2)]"

definition enumdecl_numa_vmaskip_reason :: cenum_decl where
  "enumdecl_numa_vmaskip_reason = EnumDecl False enum_numa_vmaskip_reason"

definition enumdecl_nvdimm_claim_class :: cenum_decl where
  "enumdecl_nvdimm_claim_class = EnumDecl False [
     (''NVDIMM_CCLASS_NONE'', 0), (''NVDIMM_CCLASS_BTT'', 1), (''NVDIMM_CCLASS_BTT2'', 2),
     (''NVDIMM_CCLASS_PFN'', 3), (''NVDIMM_CCLASS_DAX'', 4), (''NVDIMM_CCLASS_UNKNOWN'', 5)]"

definition enumdecl_nvdimm_event :: cenum_decl where
  "enumdecl_nvdimm_event = EnumDecl False [
     (''NVDIMM_REVALIDATE_POISON'', 0), (''NVDIMM_REVALIDATE_REGION'', 1)]"

definition enumdecl_nvdimm_fwa_capability :: cenum_decl where
  "enumdecl_nvdimm_fwa_capability = EnumDecl False [
     (''NVDIMM_FWA_CAP_INVALID'', 0), (''NVDIMM_FWA_CAP_NONE'', 1),
     (''NVDIMM_FWA_CAP_QUIESCE'', 2), (''NVDIMM_FWA_CAP_LIVE'', 3)]"

definition enumdecl_nvdimm_fwa_result :: cenum_decl where
  "enumdecl_nvdimm_fwa_result = EnumDecl False [
     (''NVDIMM_FWA_RESULT_INVALID'', 0), (''NVDIMM_FWA_RESULT_NONE'', 1),
     (''NVDIMM_FWA_RESULT_SUCCESS'', 2), (''NVDIMM_FWA_RESULT_NOTSTAGED'', 3),
     (''NVDIMM_FWA_RESULT_NEEDRESET'', 4), (''NVDIMM_FWA_RESULT_FAIL'', 5)]"

definition enumdecl_nvdimm_fwa_state :: cenum_decl where
  "enumdecl_nvdimm_fwa_state = EnumDecl False [
     (''NVDIMM_FWA_INVALID'', 0), (''NVDIMM_FWA_IDLE'', 1), (''NVDIMM_FWA_ARMED'', 2),
     (''NVDIMM_FWA_BUSY'', 3), (''NVDIMM_FWA_ARM_OVERFLOW'', 4)]"

definition enumdecl_nvdimm_fwa_trigger :: cenum_decl where
  "enumdecl_nvdimm_fwa_trigger = EnumDecl False [
     (''NVDIMM_FWA_ARM'', 0), (''NVDIMM_FWA_DISARM'', 1)]"

definition enumdecl_nvdimm_passphrase_type :: cenum_decl where
  "enumdecl_nvdimm_passphrase_type = EnumDecl False [
     (''NVDIMM_USER'', 0), (''NVDIMM_MASTER'', 1)]"

definition enumdecl_nvdimm_security_bits :: cenum_decl where
  "enumdecl_nvdimm_security_bits = EnumDecl False [
     (''NVDIMM_SECURITY_DISABLED'', 0), (''NVDIMM_SECURITY_UNLOCKED'', 1),
     (''NVDIMM_SECURITY_LOCKED'', 2), (''NVDIMM_SECURITY_FROZEN'', 3),
     (''NVDIMM_SECURITY_OVERWRITE'', 4)]"

definition enumdecl_nvdimmsec_op_ids :: cenum_decl where
  "enumdecl_nvdimmsec_op_ids = EnumDecl False [
     (''OP_FREEZE'', 0), (''OP_DISABLE'', 1), (''OP_DISABLE_MASTER'', 2), (''OP_UPDATE'', 3),
     (''OP_ERASE'', 4), (''OP_OVERWRITE'', 5), (''OP_MASTER_UPDATE'', 6),
     (''OP_MASTER_ERASE'', 7)]"

definition enumdecl_nvmem_type :: cenum_decl where
  "enumdecl_nvmem_type = EnumDecl False [
     (''NVMEM_TYPE_UNKNOWN'', 0), (''NVMEM_TYPE_EEPROM'', 1), (''NVMEM_TYPE_OTP'', 2),
     (''NVMEM_TYPE_BATTERY_BACKED'', 3), (''NVMEM_TYPE_FRAM'', 4)]"

definition enumdecl_oatc14_hdd_status :: cenum_decl where
  "enumdecl_oatc14_hdd_status = EnumDecl False [
     (''OATC14_HDD_STATUS_CABLE_OK'', 0), (''OATC14_HDD_STATUS_OPEN'', 1),
     (''OATC14_HDD_STATUS_SHORT'', 2), (''OATC14_HDD_STATUS_NOT_DETECTABLE'', 3)]"

definition enumdecl_objext_flags :: cenum_decl where
  "enumdecl_objext_flags = EnumDecl False [
     (''OBJEXTS_ALLOC_FAIL'', 1), (''__OBJEXTS_FLAG_UNUSED'', 4), (''__NR_OBJEXTS_FLAGS'', 8)]"

definition enumdecl_octep_hp_intr_type :: cenum_decl where
  "enumdecl_octep_hp_intr_type = EnumDecl False [
     (''OCTEP_HP_INTR_INVALID'', - 1), (''OCTEP_HP_INTR_ENA'', 0), (''OCTEP_HP_INTR_DIS'', 1),
     (''OCTEP_HP_INTR_MAX'', 2)]"

definition enumdecl_odd_mech_type :: cenum_decl where
  "enumdecl_odd_mech_type = EnumDecl False [
     (''ODD_MECH_TYPE_SLOT'', 0), (''ODD_MECH_TYPE_DRAWER'', 1),
     (''ODD_MECH_TYPE_UNSUPPORTED'', 2)]"

definition enumdecl_offload_act_command :: cenum_decl where
  "enumdecl_offload_act_command = EnumDecl False [
     (''FLOW_ACT_REPLACE'', 0), (''FLOW_ACT_DESTROY'', 1), (''FLOW_ACT_STATS'', 2)]"

definition enumdecl_ohci_rh_state :: cenum_decl where
  "enumdecl_ohci_rh_state = EnumDecl False [
     (''OHCI_RH_HALTED'', 0), (''OHCI_RH_SUSPENDED'', 1), (''OHCI_RH_RUNNING'', 2)]"

definition enumdecl_oom_constraint :: cenum_decl where
  "enumdecl_oom_constraint = EnumDecl False [
     (''CONSTRAINT_NONE'', 0), (''CONSTRAINT_CPUSET'', 1), (''CONSTRAINT_MEMORY_POLICY'', 2),
     (''CONSTRAINT_MEMCG'', 3)]"

definition enumdecl_opal_atom_width :: cenum_decl where
  "enumdecl_opal_atom_width = EnumDecl False [
     (''OPAL_WIDTH_TINY'', 0), (''OPAL_WIDTH_SHORT'', 1), (''OPAL_WIDTH_MEDIUM'', 2),
     (''OPAL_WIDTH_LONG'', 3), (''OPAL_WIDTH_TOKEN'', 4)]"

definition enumdecl_opal_key_type :: cenum_decl where
  "enumdecl_opal_key_type = EnumDecl False [
     (''OPAL_INCLUDED'', 0), (''OPAL_KEYRING'', 1)]"

definition enumdecl_opal_lock_flags :: cenum_decl where
  "enumdecl_opal_lock_flags = EnumDecl False [
     (''OPAL_SAVE_FOR_LOCK'', 1)]"

definition enumdecl_opal_lock_state :: cenum_decl where
  "enumdecl_opal_lock_state = EnumDecl False [
     (''OPAL_RO'', 1), (''OPAL_RW'', 2), (''OPAL_LK'', 4)]"

definition enumdecl_opal_mbr :: cenum_decl where
  "enumdecl_opal_mbr = EnumDecl False [
     (''OPAL_MBR_ENABLE'', 0), (''OPAL_MBR_DISABLE'', 1)]"

definition enumdecl_opal_mbr_done_flag :: cenum_decl where
  "enumdecl_opal_mbr_done_flag = EnumDecl False [
     (''OPAL_MBR_NOT_DONE'', 0), (''OPAL_MBR_DONE'', 1)]"

definition enumdecl_opal_method :: cenum_decl where
  "enumdecl_opal_method = EnumDecl False [
     (''OPAL_PROPERTIES'', 0), (''OPAL_STARTSESSION'', 1), (''OPAL_REVERT'', 2),
     (''OPAL_ACTIVATE'', 3), (''OPAL_EGET'', 4), (''OPAL_ESET'', 5), (''OPAL_NEXT'', 6),
     (''OPAL_EAUTHENTICATE'', 7), (''OPAL_GETACL'', 8), (''OPAL_GENKEY'', 9),
     (''OPAL_REVERTSP'', 10), (''OPAL_GET'', 11), (''OPAL_SET'', 12),
     (''OPAL_AUTHENTICATE'', 13), (''OPAL_RANDOM'', 14), (''OPAL_ERASE'', 15)]"

definition enumdecl_opal_parameter :: cenum_decl where
  "enumdecl_opal_parameter = EnumDecl False [
     (''OPAL_SUM_SET_LIST'', 393216)]"

definition enumdecl_opal_response_token :: cenum_decl where
  "enumdecl_opal_response_token = EnumDecl False [
     (''OPAL_DTA_TOKENID_BYTESTRING'', 224), (''OPAL_DTA_TOKENID_SINT'', 225),
     (''OPAL_DTA_TOKENID_UINT'', 226), (''OPAL_DTA_TOKENID_TOKEN'', 227),
     (''OPAL_DTA_TOKENID_INVALID'', 0)]"

definition enumdecl_opal_revert_lsp_opts :: cenum_decl where
  "enumdecl_opal_revert_lsp_opts = EnumDecl False [
     (''OPAL_PRESERVE'', 1)]"

definition enumdecl_opal_revertlsp :: cenum_decl where
  "enumdecl_opal_revertlsp = EnumDecl False [
     (''OPAL_KEEP_GLOBAL_RANGE_KEY'', 393216)]"

definition enumdecl_opal_table_ops :: cenum_decl where
  "enumdecl_opal_table_ops = EnumDecl False [
     (''OPAL_READ_TABLE'', 0), (''OPAL_WRITE_TABLE'', 1)]"

definition enumdecl_opal_token :: cenum_decl where
  "enumdecl_opal_token = EnumDecl False [
     (''OPAL_TRUE'', 1), (''OPAL_FALSE'', 0), (''OPAL_BOOLEAN_EXPR'', 3), (''OPAL_TABLE'', 0),
     (''OPAL_STARTROW'', 1), (''OPAL_ENDROW'', 2), (''OPAL_STARTCOLUMN'', 3),
     (''OPAL_ENDCOLUMN'', 4), (''OPAL_VALUES'', 1), (''OPAL_TABLE_UID'', 0),
     (''OPAL_TABLE_NAME'', 1), (''OPAL_TABLE_COMMON'', 2), (''OPAL_TABLE_TEMPLATE'', 3),
     (''OPAL_TABLE_KIND'', 4), (''OPAL_TABLE_COLUMN'', 5), (''OPAL_TABLE_COLUMNS'', 6),
     (''OPAL_TABLE_ROWS'', 7), (''OPAL_TABLE_ROWS_FREE'', 8), (''OPAL_TABLE_ROW_BYTES'', 9),
     (''OPAL_TABLE_LASTID'', 10), (''OPAL_TABLE_MIN'', 11), (''OPAL_TABLE_MAX'', 12),
     (''OPAL_PIN'', 3), (''OPAL_RANGESTART'', 3), (''OPAL_RANGELENGTH'', 4),
     (''OPAL_READLOCKENABLED'', 5), (''OPAL_WRITELOCKENABLED'', 6), (''OPAL_READLOCKED'', 7),
     (''OPAL_WRITELOCKED'', 8), (''OPAL_ACTIVEKEY'', 10), (''OPAL_LIFECYCLE'', 6),
     (''OPAL_MAXRANGES'', 4), (''OPAL_MBRENABLE'', 1), (''OPAL_MBRDONE'', 2),
     (''OPAL_HOSTPROPERTIES'', 0), (''OPAL_STARTLIST'', 240), (''OPAL_ENDLIST'', 241),
     (''OPAL_STARTNAME'', 242), (''OPAL_ENDNAME'', 243), (''OPAL_CALL'', 248),
     (''OPAL_ENDOFDATA'', 249), (''OPAL_ENDOFSESSION'', 250), (''OPAL_STARTTRANSACTON'', 251),
     (''OPAL_ENDTRANSACTON'', 252), (''OPAL_EMPTYATOM'', 255), (''OPAL_WHERE'', 0)]"

definition enumdecl_opal_uid :: cenum_decl where
  "enumdecl_opal_uid = EnumDecl False [
     (''OPAL_SMUID_UID'', 0), (''OPAL_THISSP_UID'', 1), (''OPAL_ADMINSP_UID'', 2),
     (''OPAL_LOCKINGSP_UID'', 3), (''OPAL_ENTERPRISE_LOCKINGSP_UID'', 4),
     (''OPAL_ANYBODY_UID'', 5), (''OPAL_SID_UID'', 6), (''OPAL_ADMIN1_UID'', 7),
     (''OPAL_USER1_UID'', 8), (''OPAL_USER2_UID'', 9), (''OPAL_PSID_UID'', 10),
     (''OPAL_ENTERPRISE_BANDMASTER0_UID'', 11), (''OPAL_ENTERPRISE_ERASEMASTER_UID'', 12),
     (''OPAL_TABLE_TABLE'', 13), (''OPAL_LOCKINGRANGE_GLOBAL'', 14),
     (''OPAL_LOCKINGRANGE_ACE_START_TO_KEY'', 15), (''OPAL_LOCKINGRANGE_ACE_RDLOCKED'', 16),
     (''OPAL_LOCKINGRANGE_ACE_WRLOCKED'', 17), (''OPAL_MBRCONTROL'', 18), (''OPAL_MBR'', 19),
     (''OPAL_AUTHORITY_TABLE'', 20), (''OPAL_C_PIN_TABLE'', 21),
     (''OPAL_LOCKING_INFO_TABLE'', 22), (''OPAL_ENTERPRISE_LOCKING_INFO_TABLE'', 23),
     (''OPAL_DATASTORE'', 24), (''OPAL_C_PIN_MSID'', 25), (''OPAL_C_PIN_SID'', 26),
     (''OPAL_C_PIN_ADMIN1'', 27), (''OPAL_HALF_UID_AUTHORITY_OBJ_REF'', 28),
     (''OPAL_HALF_UID_BOOLEAN_ACE'', 29), (''OPAL_UID_HEXFF'', 30)]"

definition enumdecl_opal_user :: cenum_decl where
  "enumdecl_opal_user = EnumDecl False [
     (''OPAL_ADMIN1'', 0), (''OPAL_USER1'', 1), (''OPAL_USER2'', 2), (''OPAL_USER3'', 3),
     (''OPAL_USER4'', 4), (''OPAL_USER5'', 5), (''OPAL_USER6'', 6), (''OPAL_USER7'', 7),
     (''OPAL_USER8'', 8), (''OPAL_USER9'', 9)]"

definition enumdecl_opp_table_access :: cenum_decl where
  "enumdecl_opp_table_access = EnumDecl False [
     (''OPP_TABLE_ACCESS_UNKNOWN'', 0), (''OPP_TABLE_ACCESS_EXCLUSIVE'', 1),
     (''OPP_TABLE_ACCESS_SHARED'', 2)]"

definition enumdecl_osnoise_options_index :: cenum_decl where
  "enumdecl_osnoise_options_index = EnumDecl False [
     (''OSN_DEFAULTS'', 0), (''OSN_WORKLOAD'', 1), (''OSN_PANIC_ON_STOP'', 2),
     (''OSN_PREEMPT_DISABLE'', 3), (''OSN_IRQ_DISABLE'', 4), (''OSN_MAX'', 5)]"

definition enumdecl_owner_state :: cenum_decl where
  "enumdecl_owner_state = EnumDecl False [
     (''OWNER_NULL'', 1), (''OWNER_WRITER'', 2), (''OWNER_READER'', 4),
     (''OWNER_NONSPINNABLE'', 8)]"

definition enumdecl_packet_sock_flags :: cenum_decl where
  "enumdecl_packet_sock_flags = EnumDecl False [
     (''PACKET_SOCK_ORIGDEV'', 0), (''PACKET_SOCK_AUXDATA'', 1), (''PACKET_SOCK_TX_HAS_OFF'', 2),
     (''PACKET_SOCK_TP_LOSS'', 3), (''PACKET_SOCK_RUNNING'', 4), (''PACKET_SOCK_PRESSURE'', 5),
     (''PACKET_SOCK_QDISC_BYPASS'', 6)]"

definition enumdecl_packing_op :: cenum_decl where
  "enumdecl_packing_op = EnumDecl False [
     (''PACK'', 0), (''UNPACK'', 1)]"

definition enumdecl_page_cache_mode :: cenum_decl where
  "enumdecl_page_cache_mode = EnumDecl False [
     (''_PAGE_CACHE_MODE_WB'', 0), (''_PAGE_CACHE_MODE_WC'', 1),
     (''_PAGE_CACHE_MODE_UC_MINUS'', 2), (''_PAGE_CACHE_MODE_UC'', 3),
     (''_PAGE_CACHE_MODE_WT'', 4), (''_PAGE_CACHE_MODE_WP'', 5), (''_PAGE_CACHE_MODE_NUM'', 8)]"

definition enumdecl_page_memcg_data_flags :: cenum_decl where
  "enumdecl_page_memcg_data_flags = EnumDecl False [
     (''MEMCG_DATA_OBJEXTS'', 1), (''MEMCG_DATA_KMEM'', 2), (''__NR_MEMCG_DATA_FLAGS'', 4)]"

definition enumdecl_page_size_enum :: cenum_decl where
  "enumdecl_page_size_enum = EnumDecl False [
     (''__PAGE_SIZE'', 4096)]"

definition enumdecl_page_walk_action :: cenum_decl where
  "enumdecl_page_walk_action = EnumDecl False [
     (''ACTION_SUBTREE'', 0), (''ACTION_CONTINUE'', 1), (''ACTION_AGAIN'', 2)]"

definition enumdecl_page_walk_lock :: cenum_decl where
  "enumdecl_page_walk_lock = EnumDecl False [
     (''PGWALK_RDLOCK'', 0), (''PGWALK_WRLOCK'', 1), (''PGWALK_WRLOCK_VERIFY'', 2),
     (''PGWALK_VMA_RDLOCK_VERIFY'', 3)]"

definition enumdecl_pageblock_bits :: cenum_decl where
  "enumdecl_pageblock_bits = EnumDecl False [
     (''PB_migrate_0'', 0), (''PB_migrate_1'', 1), (''PB_migrate_2'', 2),
     (''PB_compact_skip'', 3), (''PB_migrate_isolate'', 4), (''__NR_PAGEBLOCK_BITS'', 5)]"

definition enumdecl_pageflags :: cenum_decl where
  "enumdecl_pageflags = EnumDecl False [
     (''PG_locked'', 0), (''PG_writeback'', 1), (''PG_referenced'', 2), (''PG_uptodate'', 3),
     (''PG_dirty'', 4), (''PG_lru'', 5), (''PG_head'', 6), (''PG_waiters'', 7),
     (''PG_active'', 8), (''PG_workingset'', 9), (''PG_owner_priv_1'', 10), (''PG_owner_2'', 11),
     (''PG_arch_1'', 12), (''PG_reserved'', 13), (''PG_private'', 14), (''PG_private_2'', 15),
     (''PG_reclaim'', 16), (''PG_swapbacked'', 17), (''PG_unevictable'', 18),
     (''PG_dropbehind'', 19), (''PG_mlocked'', 20), (''PG_hwpoison'', 21), (''PG_young'', 22),
     (''PG_idle'', 23), (''PG_arch_2'', 24), (''__NR_PAGEFLAGS'', 25), (''PG_readahead'', 16),
     (''PG_swapcache'', 10), (''PG_checked'', 10), (''PG_anon_exclusive'', 11),
     (''PG_mappedtodisk'', 11), (''PG_fscache'', 15), (''PG_pinned'', 10),
     (''PG_savepinned'', 4), (''PG_foreign'', 10), (''PG_xen_remapped'', 10),
     (''PG_movable_ops_isolated'', 16), (''PG_movable_ops'', 3), (''PG_reported'', 3),
     (''PG_vmemmap_self_hosted'', 10), (''PG_has_hwpoisoned'', 8), (''PG_large_rmappable'', 9),
     (''PG_partially_mapped'', 16)]"

definition enumdecl_pagetype :: cenum_decl where
  "enumdecl_pagetype = EnumDecl False [
     (''PGTY_buddy'', 240), (''PGTY_offline'', 241), (''PGTY_table'', 242),
     (''PGTY_guard'', 243), (''PGTY_hugetlb'', 244), (''PGTY_slab'', 245),
     (''PGTY_zsmalloc'', 246), (''PGTY_unaccepted'', 247), (''PGTY_large_kmalloc'', 248),
     (''PGTY_mapcount_underflow'', 255)]"

definition enumdecl_palmas_external_requestor_id :: cenum_decl where
  "enumdecl_palmas_external_requestor_id = EnumDecl False [
     (''PALMAS_EXTERNAL_REQSTR_ID_REGEN1'', 0), (''PALMAS_EXTERNAL_REQSTR_ID_REGEN2'', 1),
     (''PALMAS_EXTERNAL_REQSTR_ID_SYSEN1'', 2), (''PALMAS_EXTERNAL_REQSTR_ID_SYSEN2'', 3),
     (''PALMAS_EXTERNAL_REQSTR_ID_CLK32KG'', 4), (''PALMAS_EXTERNAL_REQSTR_ID_CLK32KGAUDIO'', 5),
     (''PALMAS_EXTERNAL_REQSTR_ID_REGEN3'', 6), (''PALMAS_EXTERNAL_REQSTR_ID_SMPS12'', 7),
     (''PALMAS_EXTERNAL_REQSTR_ID_SMPS3'', 8), (''PALMAS_EXTERNAL_REQSTR_ID_SMPS45'', 9),
     (''PALMAS_EXTERNAL_REQSTR_ID_SMPS6'', 10), (''PALMAS_EXTERNAL_REQSTR_ID_SMPS7'', 11),
     (''PALMAS_EXTERNAL_REQSTR_ID_SMPS8'', 12), (''PALMAS_EXTERNAL_REQSTR_ID_SMPS9'', 13),
     (''PALMAS_EXTERNAL_REQSTR_ID_SMPS10'', 14), (''PALMAS_EXTERNAL_REQSTR_ID_LDO1'', 15),
     (''PALMAS_EXTERNAL_REQSTR_ID_LDO2'', 16), (''PALMAS_EXTERNAL_REQSTR_ID_LDO3'', 17),
     (''PALMAS_EXTERNAL_REQSTR_ID_LDO4'', 18), (''PALMAS_EXTERNAL_REQSTR_ID_LDO5'', 19),
     (''PALMAS_EXTERNAL_REQSTR_ID_LDO6'', 20), (''PALMAS_EXTERNAL_REQSTR_ID_LDO7'', 21),
     (''PALMAS_EXTERNAL_REQSTR_ID_LDO8'', 22), (''PALMAS_EXTERNAL_REQSTR_ID_LDO9'', 23),
     (''PALMAS_EXTERNAL_REQSTR_ID_LDOLN'', 24), (''PALMAS_EXTERNAL_REQSTR_ID_LDOUSB'', 25),
     (''PALMAS_EXTERNAL_REQSTR_ID_MAX'', 26)]"

definition enumdecl_palmas_irqs :: cenum_decl where
  "enumdecl_palmas_irqs = EnumDecl False [
     (''PALMAS_CHARG_DET_N_VBUS_OVV_IRQ'', 0), (''PALMAS_PWRON_IRQ'', 1),
     (''PALMAS_LONG_PRESS_KEY_IRQ'', 2), (''PALMAS_RPWRON_IRQ'', 3), (''PALMAS_PWRDOWN_IRQ'', 4),
     (''PALMAS_HOTDIE_IRQ'', 5), (''PALMAS_VSYS_MON_IRQ'', 6), (''PALMAS_VBAT_MON_IRQ'', 7),
     (''PALMAS_RTC_ALARM_IRQ'', 8), (''PALMAS_RTC_TIMER_IRQ'', 9), (''PALMAS_WDT_IRQ'', 10),
     (''PALMAS_BATREMOVAL_IRQ'', 11), (''PALMAS_RESET_IN_IRQ'', 12), (''PALMAS_FBI_BB_IRQ'', 13),
     (''PALMAS_SHORT_IRQ'', 14), (''PALMAS_VAC_ACOK_IRQ'', 15),
     (''PALMAS_GPADC_AUTO_0_IRQ'', 16), (''PALMAS_GPADC_AUTO_1_IRQ'', 17),
     (''PALMAS_GPADC_EOC_SW_IRQ'', 18), (''PALMAS_GPADC_EOC_RT_IRQ'', 19),
     (''PALMAS_ID_OTG_IRQ'', 20), (''PALMAS_ID_IRQ'', 21), (''PALMAS_VBUS_OTG_IRQ'', 22),
     (''PALMAS_VBUS_IRQ'', 23), (''PALMAS_GPIO_0_IRQ'', 24), (''PALMAS_GPIO_1_IRQ'', 25),
     (''PALMAS_GPIO_2_IRQ'', 26), (''PALMAS_GPIO_3_IRQ'', 27), (''PALMAS_GPIO_4_IRQ'', 28),
     (''PALMAS_GPIO_5_IRQ'', 29), (''PALMAS_GPIO_6_IRQ'', 30), (''PALMAS_GPIO_7_IRQ'', 31),
     (''PALMAS_NUM_IRQ'', 32)]"

definition enumdecl_palmas_regulators :: cenum_decl where
  "enumdecl_palmas_regulators = EnumDecl False [
     (''PALMAS_REG_SMPS12'', 0), (''PALMAS_REG_SMPS123'', 1), (''PALMAS_REG_SMPS3'', 2),
     (''PALMAS_REG_SMPS45'', 3), (''PALMAS_REG_SMPS457'', 4), (''PALMAS_REG_SMPS6'', 5),
     (''PALMAS_REG_SMPS7'', 6), (''PALMAS_REG_SMPS8'', 7), (''PALMAS_REG_SMPS9'', 8),
     (''PALMAS_REG_SMPS10_OUT2'', 9), (''PALMAS_REG_SMPS10_OUT1'', 10),
     (''PALMAS_REG_LDO1'', 11), (''PALMAS_REG_LDO2'', 12), (''PALMAS_REG_LDO3'', 13),
     (''PALMAS_REG_LDO4'', 14), (''PALMAS_REG_LDO5'', 15), (''PALMAS_REG_LDO6'', 16),
     (''PALMAS_REG_LDO7'', 17), (''PALMAS_REG_LDO8'', 18), (''PALMAS_REG_LDO9'', 19),
     (''PALMAS_REG_LDOLN'', 20), (''PALMAS_REG_LDOUSB'', 21), (''PALMAS_REG_REGEN1'', 22),
     (''PALMAS_REG_REGEN2'', 23), (''PALMAS_REG_REGEN3'', 24), (''PALMAS_REG_SYSEN1'', 25),
     (''PALMAS_REG_SYSEN2'', 26), (''PALMAS_NUM_REGS'', 27)]"

definition enumdecl_palmas_usb_state :: cenum_decl where
  "enumdecl_palmas_usb_state = EnumDecl False [
     (''PALMAS_USB_STATE_DISCONNECT'', 0), (''PALMAS_USB_STATE_VBUS'', 1),
     (''PALMAS_USB_STATE_ID'', 2)]"

definition enumdecl_partition_cmd :: cenum_decl where
  "enumdecl_partition_cmd = EnumDecl False [
     (''partcmd_enable'', 0), (''partcmd_enablei'', 1), (''partcmd_disable'', 2),
     (''partcmd_update'', 3), (''partcmd_invalidate'', 4)]"

definition enumdecl_passtype :: cenum_decl where
  "enumdecl_passtype = EnumDecl False [
     (''PASS_SCAN'', 0), (''PASS_REVOKE'', 1), (''PASS_REPLAY'', 2)]"

definition enumdecl_path_flags :: cenum_decl where
  "enumdecl_path_flags = EnumDecl False [
     (''PATH_IS_DIR'', 1), (''PATH_SOCK_COND'', 2), (''PATH_CONNECT_PATH'', 4),
     (''PATH_CHROOT_REL'', 8), (''PATH_CHROOT_NSCONNECT'', 16), (''PATH_CONNECT_IPC_PATH'', 32),
     (''PATH_DELEGATE_DELETED'', 65536), (''PATH_MEDIATE_DELETED'', 131072)]"

definition enumdecl_pb_isolate_mode :: cenum_decl where
  "enumdecl_pb_isolate_mode = EnumDecl False [
     (''PB_ISOLATE_MODE_MEM_OFFLINE'', 0), (''PB_ISOLATE_MODE_CMA_ALLOC'', 1),
     (''PB_ISOLATE_MODE_OTHER'', 2)]"

definition enumdecl_pce_status :: cenum_decl where
  "enumdecl_pce_status = EnumDecl False [
     (''PCE_STATUS_NONE'', 0), (''PCE_STATUS_ACQUIRED'', 1), (''PCE_STATUS_PREPARED'', 2),
     (''PCE_STATUS_ENABLED'', 3), (''PCE_STATUS_ERROR'', 4)]"

definition enumdecl_pci_bar_type :: cenum_decl where
  "enumdecl_pci_bar_type = EnumDecl False [
     (''pci_bar_unknown'', 0), (''pci_bar_io'', 1), (''pci_bar_mem32'', 2),
     (''pci_bar_mem64'', 3)]"

definition enumdecl_pci_barno :: cenum_decl where
  "enumdecl_pci_barno = EnumDecl False [
     (''NO_BAR'', - 1), (''BAR_0'', 0), (''BAR_1'', 1), (''BAR_2'', 2), (''BAR_3'', 3),
     (''BAR_4'', 4), (''BAR_5'', 5)]"

definition enumdecl_pci_bf_sort_state :: cenum_decl where
  "enumdecl_pci_bf_sort_state = EnumDecl False [
     (''pci_bf_sort_default'', 0), (''pci_force_nobf'', 1), (''pci_force_bf'', 2),
     (''pci_dmi_bf'', 3)]"

definition enum_decls_15 :: "cenum_decl list" where
  "enum_decls_15 = [
     enumdecl_net_dm_origin, enumdecl_net_iov_type, enumdecl_net_shaper_binding_type,
     enumdecl_net_shaper_metric, enumdecl_net_shaper_scope, enumdecl_net_xmit_qdisc_t,
     enumdecl_netdev_cmd, enumdecl_netdev_lag_hash, enumdecl_netdev_lag_tx_type,
     enumdecl_netdev_ml_priv_type, enumdecl_netdev_napi_threaded,
     enumdecl_netdev_offload_xstats_type, enumdecl_netdev_priv_flags,
     enumdecl_netdev_qstats_scope, enumdecl_netdev_queue_state_t, enumdecl_netdev_queue_type,
     enumdecl_netdev_reg_state, enumdecl_netdev_stat_type, enumdecl_netdev_state_t,
     enumdecl_netdev_tx, enumdecl_netdev_xdp_act, enumdecl_netdev_xdp_rx_metadata,
     enumdecl_netdev_xsk_flags, enumdecl_netevent_notif_type, enumdecl_netkit_action,
     enumdecl_netkit_mode, enumdecl_netkit_scrub, enumdecl_netlink_attribute_type,
     enumdecl_netlink_policy_type_attr, enumdecl_netlink_skb_flags, enumdecl_netlink_validation,
     enumdecl_netns_bpf_attach_type, enumdecl_nexthop_event_type, enumdecl_nf_ct_ext_id,
     enumdecl_nf_dev_hooks, enumdecl_nf_hook_ops_type, enumdecl_nf_inet_hooks,
     enumdecl_nf_ip6_hook_priorities, enumdecl_nf_ip_hook_priorities, enumdecl_nf_log_type,
     enumdecl_nfs3_stable_how, enumdecl_nfs4_change_attr_type, enumdecl_nfs_opnum4,
     enumdecl_nfs_stat, enumdecl_nfsstat4, enumdecl_nh_notifier_info_type,
     enumdecl_nl80211_auth_type, enumdecl_nl80211_band, enumdecl_nl80211_bss_select_attr,
     enumdecl_nl80211_chan_width, enumdecl_nl80211_dfs_regions, enumdecl_nl80211_dfs_state,
     enumdecl_nl80211_iftype, enumdecl_nl80211_key_mode, enumdecl_nl80211_mfp,
     enumdecl_nl80211_reg_initiator, enumdecl_nl80211_sae_pwe_mechanism,
     enumdecl_nl80211_sar_type, enumdecl_nl80211_user_reg_hint_type, enumdecl_nl802154_cca_modes,
     enumdecl_nl802154_cca_opts, enumdecl_nl802154_supported_bool_states,
     enumdecl_nla_policy_validation, enumdecl_nlmsgerr_attrs, enumdecl_nmi_states,
     enumdecl_node_stat_item, enumdecl_node_states, enumdecl_notify_state, enumdecl_ns_type,
     enumdecl_numa_faults_stats, enumdecl_numa_stat_item, enumdecl_numa_topology_type,
     enumdecl_numa_type, enumdecl_numa_vmaskip_reason, enumdecl_nvdimm_claim_class,
     enumdecl_nvdimm_event, enumdecl_nvdimm_fwa_capability, enumdecl_nvdimm_fwa_result,
     enumdecl_nvdimm_fwa_state, enumdecl_nvdimm_fwa_trigger, enumdecl_nvdimm_passphrase_type,
     enumdecl_nvdimm_security_bits, enumdecl_nvdimmsec_op_ids, enumdecl_nvmem_type,
     enumdecl_oatc14_hdd_status, enumdecl_objext_flags, enumdecl_octep_hp_intr_type,
     enumdecl_odd_mech_type, enumdecl_offload_act_command, enumdecl_ohci_rh_state,
     enumdecl_oom_constraint, enumdecl_opal_atom_width, enumdecl_opal_key_type,
     enumdecl_opal_lock_flags, enumdecl_opal_lock_state, enumdecl_opal_mbr,
     enumdecl_opal_mbr_done_flag, enumdecl_opal_method, enumdecl_opal_parameter,
     enumdecl_opal_response_token, enumdecl_opal_revert_lsp_opts, enumdecl_opal_revertlsp,
     enumdecl_opal_table_ops, enumdecl_opal_token, enumdecl_opal_uid, enumdecl_opal_user,
     enumdecl_opp_table_access, enumdecl_osnoise_options_index, enumdecl_owner_state,
     enumdecl_packet_sock_flags, enumdecl_packing_op, enumdecl_page_cache_mode,
     enumdecl_page_memcg_data_flags, enumdecl_page_size_enum, enumdecl_page_walk_action,
     enumdecl_page_walk_lock, enumdecl_pageblock_bits, enumdecl_pageflags, enumdecl_pagetype,
     enumdecl_palmas_external_requestor_id, enumdecl_palmas_irqs, enumdecl_palmas_regulators,
     enumdecl_palmas_usb_state, enumdecl_partition_cmd, enumdecl_passtype, enumdecl_path_flags,
     enumdecl_pb_isolate_mode, enumdecl_pce_status, enumdecl_pci_bar_type, enumdecl_pci_barno,
     enumdecl_pci_bf_sort_state]"

lemma enum_decls_15_4: "list_all enum4 enum_decls_15"
  by (unfold enum_decls_15_def
     enumdecl_net_dm_origin_def enumdecl_net_iov_type_def enumdecl_net_shaper_binding_type_def
     enumdecl_net_shaper_metric_def enumdecl_net_shaper_scope_def
     enumdecl_net_xmit_qdisc_t_def enumdecl_netdev_cmd_def enumdecl_netdev_lag_hash_def
     enumdecl_netdev_lag_tx_type_def enumdecl_netdev_ml_priv_type_def
     enumdecl_netdev_napi_threaded_def enumdecl_netdev_offload_xstats_type_def
     enumdecl_netdev_qstats_scope_def enumdecl_netdev_queue_state_t_def
     enumdecl_netdev_queue_type_def enumdecl_netdev_reg_state_def
     enumdecl_netdev_stat_type_def enumdecl_netdev_state_t_def enumdecl_netdev_tx_def
     enumdecl_netdev_xdp_act_def enumdecl_netdev_xdp_rx_metadata_def
     enumdecl_netdev_xsk_flags_def enumdecl_netevent_notif_type_def enumdecl_netkit_action_def
     enumdecl_netkit_mode_def enumdecl_netkit_scrub_def enumdecl_netlink_attribute_type_def
     enumdecl_netlink_policy_type_attr_def enumdecl_netlink_skb_flags_def
     enumdecl_netlink_validation_def enumdecl_netns_bpf_attach_type_def
     enumdecl_nexthop_event_type_def enumdecl_nf_ct_ext_id_def enumdecl_nf_dev_hooks_def
     enumdecl_nf_hook_ops_type_def enumdecl_nf_inet_hooks_def
     enumdecl_nf_ip6_hook_priorities_def enumdecl_nf_ip_hook_priorities_def
     enumdecl_nf_log_type_def enumdecl_nfs3_stable_how_def enumdecl_nfs4_change_attr_type_def
     enumdecl_nfs_opnum4_def enumdecl_nfs_stat_def enumdecl_nfsstat4_def
     enumdecl_nh_notifier_info_type_def enumdecl_nl80211_auth_type_def
     enumdecl_nl80211_band_def enumdecl_nl80211_bss_select_attr_def
     enumdecl_nl80211_chan_width_def enumdecl_nl80211_dfs_regions_def
     enumdecl_nl80211_dfs_state_def enumdecl_nl80211_iftype_def enumdecl_nl80211_key_mode_def
     enumdecl_nl80211_mfp_def enumdecl_nl80211_reg_initiator_def
     enumdecl_nl80211_sae_pwe_mechanism_def enumdecl_nl80211_sar_type_def
     enumdecl_nl80211_user_reg_hint_type_def enumdecl_nl802154_cca_modes_def
     enumdecl_nl802154_cca_opts_def enumdecl_nl802154_supported_bool_states_def
     enumdecl_nla_policy_validation_def enumdecl_nlmsgerr_attrs_def enumdecl_nmi_states_def
     enumdecl_node_stat_item_def enumdecl_node_states_def enumdecl_notify_state_def
     enumdecl_ns_type_def enumdecl_numa_faults_stats_def enumdecl_numa_stat_item_def
     enumdecl_numa_topology_type_def enumdecl_numa_type_def enumdecl_numa_vmaskip_reason_def
     enum_numa_vmaskip_reason_def enumdecl_nvdimm_claim_class_def enumdecl_nvdimm_event_def
     enumdecl_nvdimm_fwa_capability_def enumdecl_nvdimm_fwa_result_def
     enumdecl_nvdimm_fwa_state_def enumdecl_nvdimm_fwa_trigger_def
     enumdecl_nvdimm_passphrase_type_def enumdecl_nvdimm_security_bits_def
     enumdecl_nvdimmsec_op_ids_def enumdecl_nvmem_type_def enumdecl_oatc14_hdd_status_def
     enumdecl_objext_flags_def enumdecl_octep_hp_intr_type_def enumdecl_odd_mech_type_def
     enumdecl_offload_act_command_def enumdecl_ohci_rh_state_def enumdecl_oom_constraint_def
     enumdecl_opal_atom_width_def enumdecl_opal_key_type_def enumdecl_opal_lock_flags_def
     enumdecl_opal_lock_state_def enumdecl_opal_mbr_def enumdecl_opal_mbr_done_flag_def
     enumdecl_opal_method_def enumdecl_opal_parameter_def enumdecl_opal_response_token_def
     enumdecl_opal_revert_lsp_opts_def enumdecl_opal_revertlsp_def enumdecl_opal_table_ops_def
     enumdecl_opal_token_def enumdecl_opal_uid_def enumdecl_opal_user_def
     enumdecl_opp_table_access_def enumdecl_osnoise_options_index_def enumdecl_owner_state_def
     enumdecl_packet_sock_flags_def enumdecl_packing_op_def enumdecl_page_cache_mode_def
     enumdecl_page_memcg_data_flags_def enumdecl_page_size_enum_def
     enumdecl_page_walk_action_def enumdecl_page_walk_lock_def enumdecl_pageblock_bits_def
     enumdecl_pageflags_def enumdecl_pagetype_def enumdecl_palmas_external_requestor_id_def
     enumdecl_palmas_irqs_def enumdecl_palmas_regulators_def enumdecl_palmas_usb_state_def
     enumdecl_partition_cmd_def enumdecl_passtype_def enumdecl_path_flags_def
     enumdecl_pb_isolate_mode_def enumdecl_pce_status_def enumdecl_pci_bar_type_def
     enumdecl_pci_barno_def enumdecl_pci_bf_sort_state_def)
    (intro enum_list_intros enum_int_intros enumdecl_netdev_priv_flags_4; simp)

lemma enum_numa_vmaskip_reason_listed: "EnumDecl False enum_numa_vmaskip_reason \<in> set enum_decls_15"
  by (simp add: enum_decls_15_def flip: enumdecl_numa_vmaskip_reason_def)

lemma length_enum_decls_15: "length enum_decls_15 = 131"
  by (simp add: enum_decls_15_def)

end
