(* ===== verification/VmlinuxEnum16.thy ===== *)
theory VmlinuxEnum16
  imports EnumDecl
begin

text \<open>
  The enumerations of four bytes of \<^verbatim>\<open>src/internal/ebpf/vmlinux.h\<close> between lines 24902 and
  26560, one definition per enumeration, enumerators in order. An enumeration without a tag is
  named after the line it starts on.
\<close>

definition enumdecl_pci_board_num_t :: cenum_decl where
  "enumdecl_pci_board_num_t = EnumDecl False [
     (''pbn_default'', 0), (''pbn_b0_1_115200'', 1), (''pbn_b0_2_115200'', 2),
     (''pbn_b0_4_115200'', 3), (''pbn_b0_5_115200'', 4), (''pbn_b0_8_115200'', 5),
     (''pbn_b0_1_921600'', 6), (''pbn_b0_2_921600'', 7), (''pbn_b0_4_921600'', 8),
     (''pbn_b0_2_1130000'', 9), (''pbn_b0_4_1152000'', 10), (''pbn_b0_4_1250000'', 11),
     (''pbn_b0_2_1843200'', 12), (''pbn_b0_4_1843200'', 13), (''pbn_b0_1_15625000'', 14),
     (''pbn_b0_bt_1_115200'', 15), (''pbn_b0_bt_2_115200'', 16), (''pbn_b0_bt_4_115200'', 17),
     (''pbn_b0_bt_8_115200'', 18), (''pbn_b0_bt_1_460800'', 19), (''pbn_b0_bt_2_460800'', 20),
     (''pbn_b0_bt_4_460800'', 21), (''pbn_b0_bt_1_921600'', 22), (''pbn_b0_bt_2_921600'', 23),
     (''pbn_b0_bt_4_921600'', 24), (''pbn_b0_bt_8_921600'', 25), (''pbn_b1_1_115200'', 26),
     (''pbn_b1_2_115200'', 27), (''pbn_b1_4_115200'', 28), (''pbn_b1_8_115200'', 29),
     (''pbn_b1_16_115200'', 30), (''pbn_b1_1_921600'', 31), (''pbn_b1_2_921600'', 32),
     (''pbn_b1_4_921600'', 33), (''pbn_b1_8_921600'', 34), (''pbn_b1_2_1250000'', 35),
     (''pbn_b1_bt_1_115200'', 36), (''pbn_b1_bt_2_115200'', 37), (''pbn_b1_bt_4_115200'', 38),
     (''pbn_b1_bt_2_921600'', 39), (''pbn_b1_1_1382400'', 40), (''pbn_b1_2_1382400'', 41),
     (''pbn_b1_4_1382400'', 42), (''pbn_b1_8_1382400'', 43), (''pbn_b2_1_115200'', 44),
     (''pbn_b2_2_115200'', 45), (''pbn_b2_4_115200'', 46), (''pbn_b2_8_115200'', 47),
     (''pbn_b2_1_460800'', 48), (''pbn_b2_4_460800'', 49), (''pbn_b2_8_460800'', 50),
     (''pbn_b2_16_460800'', 51), (''pbn_b2_1_921600'', 52), (''pbn_b2_4_921600'', 53),
     (''pbn_b2_8_921600'', 54), (''pbn_b2_8_1152000'', 55), (''pbn_b2_bt_1_115200'', 56),
     (''pbn_b2_bt_2_115200'', 57), (''pbn_b2_bt_4_115200'', 58), (''pbn_b2_bt_2_921600'', 59),
     (''pbn_b2_bt_4_921600'', 60), (''pbn_b3_2_115200'', 61), (''pbn_b3_4_115200'', 62),
     (''pbn_b3_8_115200'', 63), (''pbn_b4_bt_2_921600'', 64), (''pbn_b4_bt_4_921600'', 65),
     (''pbn_b4_bt_8_921600'', 66), (''pbn_panacom'', 67), (''pbn_panacom2'', 68),
     (''pbn_panacom4'', 69), (''pbn_plx_romulus'', 70), (''pbn_oxsemi'', 71),
     (''pbn_oxsemi_1_15625000'', 72), (''pbn_oxsemi_2_15625000'', 73),
     (''pbn_oxsemi_4_15625000'', 74), (''pbn_oxsemi_8_15625000'', 75), (''pbn_intel_i960'', 76),
     (''pbn_sgi_ioc3'', 77), (''pbn_computone_4'', 78), (''pbn_computone_6'', 79),
     (''pbn_computone_8'', 80), (''pbn_sbsxrsio'', 81), (''pbn_pasemi_1682M'', 82),
     (''pbn_ni8430_2'', 83), (''pbn_ni8430_4'', 84), (''pbn_ni8430_8'', 85),
     (''pbn_ni8430_16'', 86), (''pbn_ADDIDATA_PCIe_1_3906250'', 87),
     (''pbn_ADDIDATA_PCIe_2_3906250'', 88), (''pbn_ADDIDATA_PCIe_4_3906250'', 89),
     (''pbn_ADDIDATA_PCIe_8_3906250'', 90), (''pbn_ce4100_1_115200'', 91),
     (''pbn_omegapci'', 92), (''pbn_NETMOS9900_2s_115200'', 93), (''pbn_brcm_trumanage'', 94),
     (''pbn_fintek_4'', 95), (''pbn_fintek_8'', 96), (''pbn_fintek_12'', 97),
     (''pbn_fintek_F81504A'', 98), (''pbn_fintek_F81508A'', 99), (''pbn_fintek_F81512A'', 100),
     (''pbn_wch382_2'', 101), (''pbn_wch384_4'', 102), (''pbn_wch384_8'', 103),
     (''pbn_sunix_pci_1s'', 104), (''pbn_sunix_pci_2s'', 105), (''pbn_sunix_pci_4s'', 106),
     (''pbn_sunix_pci_8s'', 107), (''pbn_sunix_pci_16s'', 108), (''pbn_titan_1_4000000'', 109),
     (''pbn_titan_2_4000000'', 110), (''pbn_titan_4_4000000'', 111),
     (''pbn_titan_8_4000000'', 112), (''pbn_moxa_2'', 113), (''pbn_moxa_4'', 114),
     (''pbn_moxa_8'', 115)]"

definition enumdecl_pci_bus_flags :: cenum_decl where
  "enumdecl_pci_bus_flags = EnumDecl False [
     (''PCI_BUS_FLAGS_NO_MSI'', 1), (''PCI_BUS_FLAGS_NO_MMRBC'', 2),
     (''PCI_BUS_FLAGS_NO_AERSID'', 4), (''PCI_BUS_FLAGS_NO_EXTCFG'', 8)]"

definition enumdecl_pci_bus_speed :: cenum_decl where
  "enumdecl_pci_bus_speed = EnumDecl False [
     (''PCI_SPEED_33MHz'', 0), (''PCI_SPEED_66MHz'', 1), (''PCI_SPEED_66MHz_PCIX'', 2),
     (''PCI_SPEED_100MHz_PCIX'', 3), (''PCI_SPEED_133MHz_PCIX'', 4),
     (''PCI_SPEED_66MHz_PCIX_ECC'', 5), (''PCI_SPEED_100MHz_PCIX_ECC'', 6),
     (''PCI_SPEED_133MHz_PCIX_ECC'', 7), (''PCI_SPEED_66MHz_PCIX_266'', 9),
     (''PCI_SPEED_100MHz_PCIX_266'', 10), (''PCI_SPEED_133MHz_PCIX_266'', 11),
     (''AGP_UNKNOWN'', 12), (''AGP_1X'', 13), (''AGP_2X'', 14), (''AGP_4X'', 15),
     (''AGP_8X'', 16), (''PCI_SPEED_66MHz_PCIX_533'', 17), (''PCI_SPEED_100MHz_PCIX_533'', 18),
     (''PCI_SPEED_133MHz_PCIX_533'', 19), (''PCIE_SPEED_2_5GT'', 20), (''PCIE_SPEED_5_0GT'', 21),
     (''PCIE_SPEED_8_0GT'', 22), (''PCIE_SPEED_16_0GT'', 23), (''PCIE_SPEED_32_0GT'', 24),
     (''PCIE_SPEED_64_0GT'', 25), (''PCI_SPEED_UNKNOWN'', 255)]"

definition enumdecl_pci_dev_flags :: cenum_decl where
  "enumdecl_pci_dev_flags = EnumDecl False [
     (''PCI_DEV_FLAGS_MSI_INTX_DISABLE_BUG'', 1), (''PCI_DEV_FLAGS_NO_D3'', 2),
     (''PCI_DEV_FLAGS_ASSIGNED'', 4), (''PCI_DEV_FLAGS_ACS_ENABLED_QUIRK'', 8),
     (''PCI_DEV_FLAG_PCIE_BRIDGE_ALIAS'', 32), (''PCI_DEV_FLAGS_NO_BUS_RESET'', 64),
     (''PCI_DEV_FLAGS_NO_PM_RESET'', 128), (''PCI_DEV_FLAGS_VPD_REF_F0'', 256),
     (''PCI_DEV_FLAGS_BRIDGE_XLATE_ROOT'', 512), (''PCI_DEV_FLAGS_NO_FLR_RESET'', 1024),
     (''PCI_DEV_FLAGS_NO_RELAXED_ORDERING'', 2048), (''PCI_DEV_FLAGS_HAS_MSI_MASKING'', 4096),
     (''PCI_DEV_FLAGS_MSIX_TOUCH_ENTRY_DATA_FIRST'', 8192),
     (''PCI_DEV_FLAGS_PCI_BRIDGE_NO_ALIAS'', 16384)]"

definition enumdecl_pci_epc_bar_type :: cenum_decl where
  "enumdecl_pci_epc_bar_type = EnumDecl False [
     (''BAR_PROGRAMMABLE'', 0), (''BAR_FIXED'', 1), (''BAR_RESIZABLE'', 2), (''BAR_RESERVED'', 3)]"

definition enumdecl_pci_epc_interface_type :: cenum_decl where
  "enumdecl_pci_epc_interface_type = EnumDecl False [
     (''UNKNOWN_INTERFACE'', - 1), (''PRIMARY_INTERFACE'', 0), (''SECONDARY_INTERFACE'', 1)]"

definition enumdecl_pci_ers_result :: cenum_decl where
  "enumdecl_pci_ers_result = EnumDecl False [
     (''PCI_ERS_RESULT_NONE'', 1), (''PCI_ERS_RESULT_CAN_RECOVER'', 2),
     (''PCI_ERS_RESULT_NEED_RESET'', 3), (''PCI_ERS_RESULT_DISCONNECT'', 4),
     (''PCI_ERS_RESULT_RECOVERED'', 5), (''PCI_ERS_RESULT_NO_AER_DRIVER'', 6)]"

definition enumdecl_pci_fixup_pass :: cenum_decl where
  "enumdecl_pci_fixup_pass = EnumDecl False [
     (''pci_fixup_early'', 0), (''pci_fixup_header'', 1), (''pci_fixup_final'', 2),
     (''pci_fixup_enable'', 3), (''pci_fixup_resume'', 4), (''pci_fixup_suspend'', 5),
     (''pci_fixup_resume_early'', 6), (''pci_fixup_suspend_late'', 7)]"

definition enumdecl_pci_hotplug_event :: cenum_decl where
  "enumdecl_pci_hotplug_event = EnumDecl False [
     (''PCI_HOTPLUG_LINK_UP'', 0), (''PCI_HOTPLUG_LINK_DOWN'', 1),
     (''PCI_HOTPLUG_CARD_PRESENT'', 2), (''PCI_HOTPLUG_CARD_NOT_PRESENT'', 3)]"

definition enumdecl_pci_ide_partner_select :: cenum_decl where
  "enumdecl_pci_ide_partner_select = EnumDecl False [
     (''PCI_IDE_EP'', 0), (''PCI_IDE_RP'', 1), (''PCI_IDE_PARTNER_MAX'', 2), (''PCI_IDE_HB'', 2)]"

definition enumdecl_pci_interrupt_pin :: cenum_decl where
  "enumdecl_pci_interrupt_pin = EnumDecl False [
     (''PCI_INTERRUPT_UNKNOWN'', 0), (''PCI_INTERRUPT_INTA'', 1), (''PCI_INTERRUPT_INTB'', 2),
     (''PCI_INTERRUPT_INTC'', 3), (''PCI_INTERRUPT_INTD'', 4)]"

definition enumdecl_pci_irq_reroute_variant :: cenum_decl where
  "enumdecl_pci_irq_reroute_variant = EnumDecl False [
     (''INTEL_IRQ_REROUTE_VARIANT'', 1), (''MAX_IRQ_REROUTE_VARIANTS'', 3)]"

definition enumdecl_pci_mmap_api :: cenum_decl where
  "enumdecl_pci_mmap_api = EnumDecl False [
     (''PCI_MMAP_SYSFS'', 0), (''PCI_MMAP_PROCFS'', 1)]"

definition enumdecl_pci_mmap_state :: cenum_decl where
  "enumdecl_pci_mmap_state = EnumDecl False [
     (''pci_mmap_io'', 0), (''pci_mmap_mem'', 1)]"

definition enumdecl_pci_p2pdma_map_type :: cenum_decl where
  "enumdecl_pci_p2pdma_map_type = EnumDecl False [
     (''PCI_P2PDMA_MAP_UNKNOWN'', 0), (''PCI_P2PDMA_MAP_NONE'', 1),
     (''PCI_P2PDMA_MAP_NOT_SUPPORTED'', 2), (''PCI_P2PDMA_MAP_BUS_ADDR'', 3),
     (''PCI_P2PDMA_MAP_THRU_HOST_BRIDGE'', 4)]"

definition enumdecl_pci_search_direction :: cenum_decl where
  "enumdecl_pci_search_direction = EnumDecl False [
     (''PCI_SEARCH_FORWARD'', 0), (''PCI_SEARCH_REVERSE'', 1)]"

definition enumdecl_pci_tsm_req_scope :: cenum_decl where
  "enumdecl_pci_tsm_req_scope = EnumDecl False [
     (''PCI_TSM_REQ_INFO'', 0), (''PCI_TSM_REQ_STATE_CHANGE'', 1),
     (''PCI_TSM_REQ_DEBUG_READ'', 2), (''PCI_TSM_REQ_DEBUG_WRITE'', 3)]"

definition enumdecl_pcie_bus_config_types :: cenum_decl where
  "enumdecl_pcie_bus_config_types = EnumDecl False [
     (''PCIE_BUS_TUNE_OFF'', 0), (''PCIE_BUS_DEFAULT'', 1), (''PCIE_BUS_SAFE'', 2),
     (''PCIE_BUS_PERFORMANCE'', 3), (''PCIE_BUS_PEER2PEER'', 4)]"

definition enumdecl_pcie_link_change_reason :: cenum_decl where
  "enumdecl_pcie_link_change_reason = EnumDecl False [
     (''PCIE_LINK_RETRAIN'', 0), (''PCIE_ADD_BUS'', 1), (''PCIE_BWCTRL_ENABLE'', 2),
     (''PCIE_BWCTRL_IRQ'', 3), (''PCIE_HOTPLUG'', 4)]"

definition enumdecl_pcie_link_width :: cenum_decl where
  "enumdecl_pcie_link_width = EnumDecl False [
     (''PCIE_LNK_WIDTH_RESRV'', 0), (''PCIE_LNK_X1'', 1), (''PCIE_LNK_X2'', 2),
     (''PCIE_LNK_X4'', 4), (''PCIE_LNK_X8'', 8), (''PCIE_LNK_X12'', 12), (''PCIE_LNK_X16'', 16),
     (''PCIE_LNK_X32'', 32), (''PCIE_LNK_WIDTH_UNKNOWN'', 255)]"

definition enumdecl_pcie_reset_state :: cenum_decl where
  "enumdecl_pcie_reset_state = EnumDecl False [
     (''pcie_deassert_reset'', 1), (''pcie_warm_reset'', 2), (''pcie_hot_reset'', 3)]"

definition enumdecl_pcim_addr_devres_type :: cenum_decl where
  "enumdecl_pcim_addr_devres_type = EnumDecl False [
     (''PCIM_ADDR_DEVRES_TYPE_INVALID'', 0), (''PCIM_ADDR_DEVRES_TYPE_REGION'', 1),
     (''PCIM_ADDR_DEVRES_TYPE_REGION_MAPPING'', 2), (''PCIM_ADDR_DEVRES_TYPE_MAPPING'', 3)]"

definition enumdecl_pcpu_fc :: cenum_decl where
  "enumdecl_pcpu_fc = EnumDecl False [
     (''PCPU_FC_AUTO'', 0), (''PCPU_FC_EMBED'', 1), (''PCPU_FC_PAGE'', 2), (''PCPU_FC_NR'', 3)]"

definition enumdecl_pedit_cmd :: cenum_decl where
  "enumdecl_pedit_cmd = EnumDecl False [
     (''TCA_PEDIT_KEY_EX_CMD_SET'', 0), (''TCA_PEDIT_KEY_EX_CMD_ADD'', 1),
     (''__PEDIT_CMD_MAX'', 2)]"

definition enumdecl_pedit_header_type :: cenum_decl where
  "enumdecl_pedit_header_type = EnumDecl False [
     (''TCA_PEDIT_KEY_EX_HDR_TYPE_NETWORK'', 0), (''TCA_PEDIT_KEY_EX_HDR_TYPE_ETH'', 1),
     (''TCA_PEDIT_KEY_EX_HDR_TYPE_IP4'', 2), (''TCA_PEDIT_KEY_EX_HDR_TYPE_IP6'', 3),
     (''TCA_PEDIT_KEY_EX_HDR_TYPE_TCP'', 4), (''TCA_PEDIT_KEY_EX_HDR_TYPE_UDP'', 5),
     (''__PEDIT_HDR_TYPE_MAX'', 6)]"

definition enumdecl_peer_app_attr :: cenum_decl where
  "enumdecl_peer_app_attr = EnumDecl False [
     (''DCB_ATTR_CEE_PEER_APP_UNSPEC'', 0), (''DCB_ATTR_CEE_PEER_APP_INFO'', 1),
     (''DCB_ATTR_CEE_PEER_APP'', 2), (''__DCB_ATTR_CEE_PEER_APP_MAX'', 3)]"

definition enumdecl_perf_addr_filter_action_t :: cenum_decl where
  "enumdecl_perf_addr_filter_action_t = EnumDecl False [
     (''PERF_ADDR_FILTER_ACTION_STOP'', 0), (''PERF_ADDR_FILTER_ACTION_START'', 1),
     (''PERF_ADDR_FILTER_ACTION_FILTER'', 2)]"

definition enumdecl_perf_adl_uncore_imc_freerunning_types :: cenum_decl where
  "enumdecl_perf_adl_uncore_imc_freerunning_types = EnumDecl False [
     (''ADL_MMIO_UNCORE_IMC_DATA_TOTAL'', 0), (''ADL_MMIO_UNCORE_IMC_DATA_READ'', 1),
     (''ADL_MMIO_UNCORE_IMC_DATA_WRITE'', 2), (''ADL_MMIO_UNCORE_IMC_FREERUNNING_TYPE_MAX'', 3)]"

definition enumdecl_perf_bpf_event_type :: cenum_decl where
  "enumdecl_perf_bpf_event_type = EnumDecl False [
     (''PERF_BPF_EVENT_UNKNOWN'', 0), (''PERF_BPF_EVENT_PROG_LOAD'', 1),
     (''PERF_BPF_EVENT_PROG_UNLOAD'', 2), (''PERF_BPF_EVENT_MAX'', 3)]"

definition enumdecl_perf_branch_sample_type :: cenum_decl where
  "enumdecl_perf_branch_sample_type = EnumDecl False [
     (''PERF_SAMPLE_BRANCH_USER'', 1), (''PERF_SAMPLE_BRANCH_KERNEL'', 2),
     (''PERF_SAMPLE_BRANCH_HV'', 4), (''PERF_SAMPLE_BRANCH_ANY'', 8),
     (''PERF_SAMPLE_BRANCH_ANY_CALL'', 16), (''PERF_SAMPLE_BRANCH_ANY_RETURN'', 32),
     (''PERF_SAMPLE_BRANCH_IND_CALL'', 64), (''PERF_SAMPLE_BRANCH_ABORT_TX'', 128),
     (''PERF_SAMPLE_BRANCH_IN_TX'', 256), (''PERF_SAMPLE_BRANCH_NO_TX'', 512),
     (''PERF_SAMPLE_BRANCH_COND'', 1024), (''PERF_SAMPLE_BRANCH_CALL_STACK'', 2048),
     (''PERF_SAMPLE_BRANCH_IND_JUMP'', 4096), (''PERF_SAMPLE_BRANCH_CALL'', 8192),
     (''PERF_SAMPLE_BRANCH_NO_FLAGS'', 16384), (''PERF_SAMPLE_BRANCH_NO_CYCLES'', 32768),
     (''PERF_SAMPLE_BRANCH_TYPE_SAVE'', 65536), (''PERF_SAMPLE_BRANCH_HW_INDEX'', 131072),
     (''PERF_SAMPLE_BRANCH_PRIV_SAVE'', 262144), (''PERF_SAMPLE_BRANCH_COUNTERS'', 524288),
     (''PERF_SAMPLE_BRANCH_MAX'', 1048576)]"

definition enumdecl_perf_branch_sample_type_shift :: cenum_decl where
  "enumdecl_perf_branch_sample_type_shift = EnumDecl False [
     (''PERF_SAMPLE_BRANCH_USER_SHIFT'', 0), (''PERF_SAMPLE_BRANCH_KERNEL_SHIFT'', 1),
     (''PERF_SAMPLE_BRANCH_HV_SHIFT'', 2), (''PERF_SAMPLE_BRANCH_ANY_SHIFT'', 3),
     (''PERF_SAMPLE_BRANCH_ANY_CALL_SHIFT'', 4), (''PERF_SAMPLE_BRANCH_ANY_RETURN_SHIFT'', 5),
     (''PERF_SAMPLE_BRANCH_IND_CALL_SHIFT'', 6), (''PERF_SAMPLE_BRANCH_ABORT_TX_SHIFT'', 7),
     (''PERF_SAMPLE_BRANCH_IN_TX_SHIFT'', 8), (''PERF_SAMPLE_BRANCH_NO_TX_SHIFT'', 9),
     (''PERF_SAMPLE_BRANCH_COND_SHIFT'', 10), (''PERF_SAMPLE_BRANCH_CALL_STACK_SHIFT'', 11),
     (''PERF_SAMPLE_BRANCH_IND_JUMP_SHIFT'', 12), (''PERF_SAMPLE_BRANCH_CALL_SHIFT'', 13),
     (''PERF_SAMPLE_BRANCH_NO_FLAGS_SHIFT'', 14), (''PERF_SAMPLE_BRANCH_NO_CYCLES_SHIFT'', 15),
     (''PERF_SAMPLE_BRANCH_TYPE_SAVE_SHIFT'', 16), (''PERF_SAMPLE_BRANCH_HW_INDEX_SHIFT'', 17),
     (''PERF_SAMPLE_BRANCH_PRIV_SAVE_SHIFT'', 18), (''PERF_SAMPLE_BRANCH_COUNTERS_SHIFT'', 19),
     (''PERF_SAMPLE_BRANCH_MAX_SHIFT'', 20)]"

definition enumdecl_perf_event_ioc_flags :: cenum_decl where
  "enumdecl_perf_event_ioc_flags = EnumDecl False [
     (''PERF_IOC_FLAG_GROUP'', 1)]"

definition enumdecl_perf_event_read_format :: cenum_decl where
  "enumdecl_perf_event_read_format = EnumDecl False [
     (''PERF_FORMAT_TOTAL_TIME_ENABLED'', 1), (''PERF_FORMAT_TOTAL_TIME_RUNNING'', 2),
     (''PERF_FORMAT_ID'', 4), (''PERF_FORMAT_GROUP'', 8), (''PERF_FORMAT_LOST'', 16),
     (''PERF_FORMAT_MAX'', 32)]"

definition enumdecl_perf_event_sample_format :: cenum_decl where
  "enumdecl_perf_event_sample_format = EnumDecl False [
     (''PERF_SAMPLE_IP'', 1), (''PERF_SAMPLE_TID'', 2), (''PERF_SAMPLE_TIME'', 4),
     (''PERF_SAMPLE_ADDR'', 8), (''PERF_SAMPLE_READ'', 16), (''PERF_SAMPLE_CALLCHAIN'', 32),
     (''PERF_SAMPLE_ID'', 64), (''PERF_SAMPLE_CPU'', 128), (''PERF_SAMPLE_PERIOD'', 256),
     (''PERF_SAMPLE_STREAM_ID'', 512), (''PERF_SAMPLE_RAW'', 1024),
     (''PERF_SAMPLE_BRANCH_STACK'', 2048), (''PERF_SAMPLE_REGS_USER'', 4096),
     (''PERF_SAMPLE_STACK_USER'', 8192), (''PERF_SAMPLE_WEIGHT'', 16384),
     (''PERF_SAMPLE_DATA_SRC'', 32768), (''PERF_SAMPLE_IDENTIFIER'', 65536),
     (''PERF_SAMPLE_TRANSACTION'', 131072), (''PERF_SAMPLE_REGS_INTR'', 262144),
     (''PERF_SAMPLE_PHYS_ADDR'', 524288), (''PERF_SAMPLE_AUX'', 1048576),
     (''PERF_SAMPLE_CGROUP'', 2097152), (''PERF_SAMPLE_DATA_PAGE_SIZE'', 4194304),
     (''PERF_SAMPLE_CODE_PAGE_SIZE'', 8388608), (''PERF_SAMPLE_WEIGHT_STRUCT'', 16777216),
     (''PERF_SAMPLE_MAX'', 33554432)]"

definition enumdecl_perf_event_state :: cenum_decl where
  "enumdecl_perf_event_state = EnumDecl False [
     (''PERF_EVENT_STATE_DEAD'', - 5), (''PERF_EVENT_STATE_REVOKED'', - 4),
     (''PERF_EVENT_STATE_EXIT'', - 3), (''PERF_EVENT_STATE_ERROR'', - 2),
     (''PERF_EVENT_STATE_OFF'', - 1), (''PERF_EVENT_STATE_INACTIVE'', 0),
     (''PERF_EVENT_STATE_ACTIVE'', 1)]"

definition enumdecl_perf_event_task_context :: cenum_decl where
  "enumdecl_perf_event_task_context = EnumDecl False [
     (''perf_invalid_context'', - 1), (''perf_hw_context'', 0), (''perf_sw_context'', 1),
     (''perf_nr_task_contexts'', 2)]"

definition enumdecl_perf_event_type :: cenum_decl where
  "enumdecl_perf_event_type = EnumDecl False [
     (''PERF_RECORD_MMAP'', 1), (''PERF_RECORD_LOST'', 2), (''PERF_RECORD_COMM'', 3),
     (''PERF_RECORD_EXIT'', 4), (''PERF_RECORD_THROTTLE'', 5), (''PERF_RECORD_UNTHROTTLE'', 6),
     (''PERF_RECORD_FORK'', 7), (''PERF_RECORD_READ'', 8), (''PERF_RECORD_SAMPLE'', 9),
     (''PERF_RECORD_MMAP2'', 10), (''PERF_RECORD_AUX'', 11), (''PERF_RECORD_ITRACE_START'', 12),
     (''PERF_RECORD_LOST_SAMPLES'', 13), (''PERF_RECORD_SWITCH'', 14),
     (''PERF_RECORD_SWITCH_CPU_WIDE'', 15), (''PERF_RECORD_NAMESPACES'', 16),
     (''PERF_RECORD_KSYMBOL'', 17), (''PERF_RECORD_BPF_EVENT'', 18),
     (''PERF_RECORD_CGROUP'', 19), (''PERF_RECORD_TEXT_POKE'', 20),
     (''PERF_RECORD_AUX_OUTPUT_HW_ID'', 21), (''PERF_RECORD_CALLCHAIN_DEFERRED'', 22),
     (''PERF_RECORD_MAX'', 23)]"

definition enumdecl_perf_event_x86_regs :: cenum_decl where
  "enumdecl_perf_event_x86_regs = EnumDecl False [
     (''PERF_REG_X86_AX'', 0), (''PERF_REG_X86_BX'', 1), (''PERF_REG_X86_CX'', 2),
     (''PERF_REG_X86_DX'', 3), (''PERF_REG_X86_SI'', 4), (''PERF_REG_X86_DI'', 5),
     (''PERF_REG_X86_BP'', 6), (''PERF_REG_X86_SP'', 7), (''PERF_REG_X86_IP'', 8),
     (''PERF_REG_X86_FLAGS'', 9), (''PERF_REG_X86_CS'', 10), (''PERF_REG_X86_SS'', 11),
     (''PERF_REG_X86_DS'', 12), (''PERF_REG_X86_ES'', 13), (''PERF_REG_X86_FS'', 14),
     (''PERF_REG_X86_GS'', 15), (''PERF_REG_X86_R8'', 16), (''PERF_REG_X86_R9'', 17),
     (''PERF_REG_X86_R10'', 18), (''PERF_REG_X86_R11'', 19), (''PERF_REG_X86_R12'', 20),
     (''PERF_REG_X86_R13'', 21), (''PERF_REG_X86_R14'', 22), (''PERF_REG_X86_R15'', 23),
     (''PERF_REG_X86_32_MAX'', 16), (''PERF_REG_X86_64_MAX'', 24), (''PERF_REG_X86_XMM0'', 32),
     (''PERF_REG_X86_XMM1'', 34), (''PERF_REG_X86_XMM2'', 36), (''PERF_REG_X86_XMM3'', 38),
     (''PERF_REG_X86_XMM4'', 40), (''PERF_REG_X86_XMM5'', 42), (''PERF_REG_X86_XMM6'', 44),
     (''PERF_REG_X86_XMM7'', 46), (''PERF_REG_X86_XMM8'', 48), (''PERF_REG_X86_XMM9'', 50),
     (''PERF_REG_X86_XMM10'', 52), (''PERF_REG_X86_XMM11'', 54), (''PERF_REG_X86_XMM12'', 56),
     (''PERF_REG_X86_XMM13'', 58), (''PERF_REG_X86_XMM14'', 60), (''PERF_REG_X86_XMM15'', 62),
     (''PERF_REG_X86_XMM_MAX'', 64)]"

definition enumdecl_perf_hw_cache_id :: cenum_decl where
  "enumdecl_perf_hw_cache_id = EnumDecl False [
     (''PERF_COUNT_HW_CACHE_L1D'', 0), (''PERF_COUNT_HW_CACHE_L1I'', 1),
     (''PERF_COUNT_HW_CACHE_LL'', 2), (''PERF_COUNT_HW_CACHE_DTLB'', 3),
     (''PERF_COUNT_HW_CACHE_ITLB'', 4), (''PERF_COUNT_HW_CACHE_BPU'', 5),
     (''PERF_COUNT_HW_CACHE_NODE'', 6), (''PERF_COUNT_HW_CACHE_MAX'', 7)]"

definition enumdecl_perf_hw_cache_op_id :: cenum_decl where
  "enumdecl_perf_hw_cache_op_id = EnumDecl False [
     (''PERF_COUNT_HW_CACHE_OP_READ'', 0), (''PERF_COUNT_HW_CACHE_OP_WRITE'', 1),
     (''PERF_COUNT_HW_CACHE_OP_PREFETCH'', 2), (''PERF_COUNT_HW_CACHE_OP_MAX'', 3)]"

definition enumdecl_perf_hw_cache_op_result_id :: cenum_decl where
  "enumdecl_perf_hw_cache_op_result_id = EnumDecl False [
     (''PERF_COUNT_HW_CACHE_RESULT_ACCESS'', 0), (''PERF_COUNT_HW_CACHE_RESULT_MISS'', 1),
     (''PERF_COUNT_HW_CACHE_RESULT_MAX'', 2)]"

definition enumdecl_perf_hw_id :: cenum_decl where
  "enumdecl_perf_hw_id = EnumDecl False [
     (''PERF_COUNT_HW_CPU_CYCLES'', 0), (''PERF_COUNT_HW_INSTRUCTIONS'', 1),
     (''PERF_COUNT_HW_CACHE_REFERENCES'', 2), (''PERF_COUNT_HW_CACHE_MISSES'', 3),
     (''PERF_COUNT_HW_BRANCH_INSTRUCTIONS'', 4), (''PERF_COUNT_HW_BRANCH_MISSES'', 5),
     (''PERF_COUNT_HW_BUS_CYCLES'', 6), (''PERF_COUNT_HW_STALLED_CYCLES_FRONTEND'', 7),
     (''PERF_COUNT_HW_STALLED_CYCLES_BACKEND'', 8), (''PERF_COUNT_HW_REF_CPU_CYCLES'', 9),
     (''PERF_COUNT_HW_MAX'', 10)]"

definition enumdecl_perf_msr_id :: cenum_decl where
  "enumdecl_perf_msr_id = EnumDecl False [
     (''PERF_MSR_TSC'', 0), (''PERF_MSR_APERF'', 1), (''PERF_MSR_MPERF'', 2),
     (''PERF_MSR_PPERF'', 3), (''PERF_MSR_SMI'', 4), (''PERF_MSR_PTSC'', 5),
     (''PERF_MSR_IRPERF'', 6), (''PERF_MSR_THERM'', 7), (''PERF_MSR_EVENT_MAX'', 8)]"

definition enumdecl_perf_pmu_scope :: cenum_decl where
  "enumdecl_perf_pmu_scope = EnumDecl False [
     (''PERF_PMU_SCOPE_NONE'', 0), (''PERF_PMU_SCOPE_CORE'', 1), (''PERF_PMU_SCOPE_DIE'', 2),
     (''PERF_PMU_SCOPE_CLUSTER'', 3), (''PERF_PMU_SCOPE_PKG'', 4),
     (''PERF_PMU_SCOPE_SYS_WIDE'', 5), (''PERF_PMU_MAX_SCOPE'', 6)]"

definition enumdecl_perf_probe_config :: cenum_decl where
  "enumdecl_perf_probe_config = EnumDecl False [
     (''PERF_PROBE_CONFIG_IS_RETPROBE'', 1), (''PERF_UPROBE_REF_CTR_OFFSET_BITS'', 32),
     (''PERF_UPROBE_REF_CTR_OFFSET_SHIFT'', 32)]"

definition enumdecl_perf_record_ksymbol_type :: cenum_decl where
  "enumdecl_perf_record_ksymbol_type = EnumDecl False [
     (''PERF_RECORD_KSYMBOL_TYPE_UNKNOWN'', 0), (''PERF_RECORD_KSYMBOL_TYPE_BPF'', 1),
     (''PERF_RECORD_KSYMBOL_TYPE_OOL'', 2), (''PERF_RECORD_KSYMBOL_TYPE_MAX'', 3)]"

definition enumdecl_perf_sample_regs_abi :: cenum_decl where
  "enumdecl_perf_sample_regs_abi = EnumDecl False [
     (''PERF_SAMPLE_REGS_ABI_NONE'', 0), (''PERF_SAMPLE_REGS_ABI_32'', 1),
     (''PERF_SAMPLE_REGS_ABI_64'', 2)]"

definition enumdecl_perf_snb_uncore_imc_freerunning_types :: cenum_decl where
  "enumdecl_perf_snb_uncore_imc_freerunning_types = EnumDecl False [
     (''SNB_PCI_UNCORE_IMC_DATA_READS'', 0), (''SNB_PCI_UNCORE_IMC_DATA_WRITES'', 1),
     (''SNB_PCI_UNCORE_IMC_GT_REQUESTS'', 2), (''SNB_PCI_UNCORE_IMC_IA_REQUESTS'', 3),
     (''SNB_PCI_UNCORE_IMC_IO_REQUESTS'', 4), (''SNB_PCI_UNCORE_IMC_FREERUNNING_TYPE_MAX'', 5)]"

definition enumdecl_perf_sw_ids :: cenum_decl where
  "enumdecl_perf_sw_ids = EnumDecl False [
     (''PERF_COUNT_SW_CPU_CLOCK'', 0), (''PERF_COUNT_SW_TASK_CLOCK'', 1),
     (''PERF_COUNT_SW_PAGE_FAULTS'', 2), (''PERF_COUNT_SW_CONTEXT_SWITCHES'', 3),
     (''PERF_COUNT_SW_CPU_MIGRATIONS'', 4), (''PERF_COUNT_SW_PAGE_FAULTS_MIN'', 5),
     (''PERF_COUNT_SW_PAGE_FAULTS_MAJ'', 6), (''PERF_COUNT_SW_ALIGNMENT_FAULTS'', 7),
     (''PERF_COUNT_SW_EMULATION_FAULTS'', 8), (''PERF_COUNT_SW_DUMMY'', 9),
     (''PERF_COUNT_SW_BPF_OUTPUT'', 10), (''PERF_COUNT_SW_CGROUP_SWITCHES'', 11),
     (''PERF_COUNT_SW_MAX'', 12)]"

definition enumdecl_perf_tgl_uncore_imc_freerunning_types :: cenum_decl where
  "enumdecl_perf_tgl_uncore_imc_freerunning_types = EnumDecl False [
     (''TGL_MMIO_UNCORE_IMC_DATA_TOTAL'', 0), (''TGL_MMIO_UNCORE_IMC_DATA_READ'', 1),
     (''TGL_MMIO_UNCORE_IMC_DATA_WRITE'', 2), (''TGL_MMIO_UNCORE_IMC_FREERUNNING_TYPE_MAX'', 3)]"

definition enumdecl_perf_type_id :: cenum_decl where
  "enumdecl_perf_type_id = EnumDecl False [
     (''PERF_TYPE_HARDWARE'', 0), (''PERF_TYPE_SOFTWARE'', 1), (''PERF_TYPE_TRACEPOINT'', 2),
     (''PERF_TYPE_HW_CACHE'', 3), (''PERF_TYPE_RAW'', 4), (''PERF_TYPE_BREAKPOINT'', 5),
     (''PERF_TYPE_MAX'', 6)]"

definition enumdecl_perf_uncore_dmr_iio_freerunning_type_id :: cenum_decl where
  "enumdecl_perf_uncore_dmr_iio_freerunning_type_id = EnumDecl False [
     (''DMR_ITC_INB_DATA_BW'', 0), (''DMR_ITC_BW_IN'', 1), (''DMR_OTC_BW_OUT'', 2),
     (''DMR_OTC_CLOCK_TICKS'', 3), (''DMR_IIO_FREERUNNING_TYPE_MAX'', 4)]"

definition enumdecl_perf_uncore_icx_iio_freerunning_type_id :: cenum_decl where
  "enumdecl_perf_uncore_icx_iio_freerunning_type_id = EnumDecl False [
     (''ICX_IIO_MSR_IOCLK'', 0), (''ICX_IIO_MSR_BW_IN'', 1),
     (''ICX_IIO_FREERUNNING_TYPE_MAX'', 2)]"

definition enumdecl_perf_uncore_icx_imc_freerunning_type_id :: cenum_decl where
  "enumdecl_perf_uncore_icx_imc_freerunning_type_id = EnumDecl False [
     (''ICX_IMC_DCLK'', 0), (''ICX_IMC_DDR'', 1), (''ICX_IMC_DDRT'', 2),
     (''ICX_IMC_FREERUNNING_TYPE_MAX'', 3)]"

definition enumdecl_perf_uncore_iio_freerunning_type_id :: cenum_decl where
  "enumdecl_perf_uncore_iio_freerunning_type_id = EnumDecl False [
     (''SKX_IIO_MSR_IOCLK'', 0), (''SKX_IIO_MSR_BW'', 1), (''SKX_IIO_MSR_UTIL'', 2),
     (''SKX_IIO_FREERUNNING_TYPE_MAX'', 3)]"

definition enumdecl_perf_uncore_snr_iio_freerunning_type_id :: cenum_decl where
  "enumdecl_perf_uncore_snr_iio_freerunning_type_id = EnumDecl False [
     (''SNR_IIO_MSR_IOCLK'', 0), (''SNR_IIO_MSR_BW_IN'', 1),
     (''SNR_IIO_FREERUNNING_TYPE_MAX'', 2)]"

definition enumdecl_perf_uncore_snr_imc_freerunning_type_id :: cenum_decl where
  "enumdecl_perf_uncore_snr_imc_freerunning_type_id = EnumDecl False [
     (''SNR_IMC_DCLK'', 0), (''SNR_IMC_DDR'', 1), (''SNR_IMC_FREERUNNING_TYPE_MAX'', 2)]"

definition enumdecl_perf_uncore_spr_iio_freerunning_type_id :: cenum_decl where
  "enumdecl_perf_uncore_spr_iio_freerunning_type_id = EnumDecl False [
     (''SPR_IIO_MSR_IOCLK'', 0), (''SPR_IIO_MSR_BW_IN'', 1), (''SPR_IIO_MSR_BW_OUT'', 2),
     (''SPR_IIO_FREERUNNING_TYPE_MAX'', 3)]"

definition enumdecl_perf_uncore_spr_imc_freerunning_type_id :: cenum_decl where
  "enumdecl_perf_uncore_spr_imc_freerunning_type_id = EnumDecl False [
     (''SPR_IMC_DCLK'', 0), (''SPR_IMC_PQ_CYCLES'', 1), (''SPR_IMC_FREERUNNING_TYPE_MAX'', 2)]"

definition enumdecl_pg_level :: cenum_decl where
  "enumdecl_pg_level = EnumDecl False [
     (''PG_LEVEL_NONE'', 0), (''PG_LEVEL_4K'', 1), (''PG_LEVEL_2M'', 2), (''PG_LEVEL_1G'', 3),
     (''PG_LEVEL_512G'', 4), (''PG_LEVEL_256T'', 5), (''PG_LEVEL_NUM'', 6)]"

definition enumdecl_pgdat_flags :: cenum_decl where
  "enumdecl_pgdat_flags = EnumDecl False [
     (''PGDAT_WRITEBACK'', 0), (''PGDAT_RECLAIM_LOCKED'', 1)]"

definition enumdecl_pgt_entry :: cenum_decl where
  "enumdecl_pgt_entry = EnumDecl False [
     (''NORMAL_PMD'', 0), (''HPAGE_PMD'', 1), (''NORMAL_PUD'', 2), (''HPAGE_PUD'', 3)]"

definition enumdecl_pgtable_level :: cenum_decl where
  "enumdecl_pgtable_level = EnumDecl False [
     (''PGTABLE_LEVEL_PTE'', 0), (''PGTABLE_LEVEL_PMD'', 1), (''PGTABLE_LEVEL_PUD'', 2),
     (''PGTABLE_LEVEL_P4D'', 3), (''PGTABLE_LEVEL_PGD'', 4)]"

definition enumdecl_phy_media :: cenum_decl where
  "enumdecl_phy_media = EnumDecl False [
     (''PHY_MEDIA_DEFAULT'', 0), (''PHY_MEDIA_SR'', 1), (''PHY_MEDIA_DAC'', 2)]"

definition enumdecl_phy_mode :: cenum_decl where
  "enumdecl_phy_mode = EnumDecl False [
     (''PHY_MODE_INVALID'', 0), (''PHY_MODE_USB_HOST'', 1), (''PHY_MODE_USB_HOST_LS'', 2),
     (''PHY_MODE_USB_HOST_FS'', 3), (''PHY_MODE_USB_HOST_HS'', 4), (''PHY_MODE_USB_HOST_SS'', 5),
     (''PHY_MODE_USB_DEVICE'', 6), (''PHY_MODE_USB_DEVICE_LS'', 7),
     (''PHY_MODE_USB_DEVICE_FS'', 8), (''PHY_MODE_USB_DEVICE_HS'', 9),
     (''PHY_MODE_USB_DEVICE_SS'', 10), (''PHY_MODE_USB_OTG'', 11), (''PHY_MODE_UFS_HS_A'', 12),
     (''PHY_MODE_UFS_HS_B'', 13), (''PHY_MODE_PCIE'', 14), (''PHY_MODE_ETHERNET'', 15),
     (''PHY_MODE_MIPI_DPHY'', 16), (''PHY_MODE_SATA'', 17), (''PHY_MODE_LVDS'', 18),
     (''PHY_MODE_DP'', 19), (''PHY_MODE_HDMI'', 20)]"

definition enumdecl_phy_mse_channel :: cenum_decl where
  "enumdecl_phy_mse_channel = EnumDecl False [
     (''PHY_MSE_CHANNEL_A'', 0), (''PHY_MSE_CHANNEL_B'', 1), (''PHY_MSE_CHANNEL_C'', 2),
     (''PHY_MSE_CHANNEL_D'', 3), (''PHY_MSE_CHANNEL_WORST'', 4), (''PHY_MSE_CHANNEL_LINK'', 5)]"

definition enumdecl_phy_port_parent :: cenum_decl where
  "enumdecl_phy_port_parent = EnumDecl False [
     (''PHY_PORT_PHY'', 0)]"

definition enumdecl_phy_state :: cenum_decl where
  "enumdecl_phy_state = EnumDecl False [
     (''PHY_DOWN'', 0), (''PHY_READY'', 1), (''PHY_HALTED'', 2), (''PHY_ERROR'', 3),
     (''PHY_UP'', 4), (''PHY_RUNNING'', 5), (''PHY_NOLINK'', 6), (''PHY_CABLETEST'', 7)]"

definition enumdecl_phy_state_work :: cenum_decl where
  "enumdecl_phy_state_work = EnumDecl False [
     (''PHY_STATE_WORK_NONE'', 0), (''PHY_STATE_WORK_ANEG'', 1), (''PHY_STATE_WORK_SUSPEND'', 2)]"

definition enumdecl_phy_tunable_id :: cenum_decl where
  "enumdecl_phy_tunable_id = EnumDecl False [
     (''ETHTOOL_PHY_ID_UNSPEC'', 0), (''ETHTOOL_PHY_DOWNSHIFT'', 1),
     (''ETHTOOL_PHY_FAST_LINK_DOWN'', 2), (''ETHTOOL_PHY_EDPD'', 3),
     (''__ETHTOOL_PHY_TUNABLE_COUNT'', 4)]"

definition enumdecl_phy_ufs_state :: cenum_decl where
  "enumdecl_phy_ufs_state = EnumDecl False [
     (''PHY_UFS_HIBERN8_ENTER'', 0), (''PHY_UFS_HIBERN8_EXIT'', 1)]"

definition enumdecl_phy_upstream :: cenum_decl where
  "enumdecl_phy_upstream = EnumDecl False [
     (''PHY_UPSTREAM_MAC'', 0), (''PHY_UPSTREAM_PHY'', 1)]"

definition enumdecl_phylink_op_type :: cenum_decl where
  "enumdecl_phylink_op_type = EnumDecl False [
     (''PHYLINK_NETDEV'', 0), (''PHYLINK_DEV'', 1)]"

definition enumdecl_pid_type :: cenum_decl where
  "enumdecl_pid_type = EnumDecl False [
     (''PIDTYPE_PID'', 0), (''PIDTYPE_TGID'', 1), (''PIDTYPE_PGID'', 2), (''PIDTYPE_SID'', 3),
     (''PIDTYPE_MAX'', 4)]"

definition enumdecl_pidcg_event :: cenum_decl where
  "enumdecl_pidcg_event = EnumDecl False [
     (''PIDCG_MAX'', 0), (''PIDCG_FORKFAIL'', 1), (''NR_PIDCG_EVENTS'', 2)]"

definition enumdecl_pidfs_attr_mask_bits :: cenum_decl where
  "enumdecl_pidfs_attr_mask_bits = EnumDecl False [
     (''PIDFS_ATTR_BIT_EXIT'', 0), (''PIDFS_ATTR_BIT_COREDUMP'', 1)]"

definition enumdecl_piix_controller_ids :: cenum_decl where
  "enumdecl_piix_controller_ids = EnumDecl False [
     (''piix_pata_mwdma'', 0), (''piix_pata_33'', 1), (''ich_pata_33'', 2), (''ich_pata_66'', 3),
     (''ich_pata_100'', 4), (''ich_pata_100_nomwdma1'', 5), (''ich5_sata'', 6),
     (''ich6_sata'', 7), (''ich6m_sata'', 8), (''ich8_sata'', 9), (''ich8_2port_sata'', 10),
     (''ich8m_apple_sata'', 11), (''tolapai_sata'', 12), (''piix_pata_vmw'', 13),
     (''ich8_sata_snb'', 14), (''ich8_2port_sata_snb'', 15), (''ich8_2port_sata_byt'', 16)]"

definition enumdecl_pin_config_param :: cenum_decl where
  "enumdecl_pin_config_param = EnumDecl False [
     (''PIN_CONFIG_BIAS_BUS_HOLD'', 0), (''PIN_CONFIG_BIAS_DISABLE'', 1),
     (''PIN_CONFIG_BIAS_HIGH_IMPEDANCE'', 2), (''PIN_CONFIG_BIAS_PULL_DOWN'', 3),
     (''PIN_CONFIG_BIAS_PULL_PIN_DEFAULT'', 4), (''PIN_CONFIG_BIAS_PULL_UP'', 5),
     (''PIN_CONFIG_DRIVE_OPEN_DRAIN'', 6), (''PIN_CONFIG_DRIVE_OPEN_SOURCE'', 7),
     (''PIN_CONFIG_DRIVE_PUSH_PULL'', 8), (''PIN_CONFIG_DRIVE_STRENGTH'', 9),
     (''PIN_CONFIG_DRIVE_STRENGTH_UA'', 10), (''PIN_CONFIG_INPUT_DEBOUNCE'', 11),
     (''PIN_CONFIG_INPUT_ENABLE'', 12), (''PIN_CONFIG_INPUT_SCHMITT'', 13),
     (''PIN_CONFIG_INPUT_SCHMITT_ENABLE'', 14), (''PIN_CONFIG_INPUT_SCHMITT_UV'', 15),
     (''PIN_CONFIG_MODE_LOW_POWER'', 16), (''PIN_CONFIG_MODE_PWM'', 17),
     (''PIN_CONFIG_LEVEL'', 18), (''PIN_CONFIG_OUTPUT_ENABLE'', 19),
     (''PIN_CONFIG_OUTPUT_IMPEDANCE_OHMS'', 20), (''PIN_CONFIG_PERSIST_STATE'', 21),
     (''PIN_CONFIG_POWER_SOURCE'', 22), (''PIN_CONFIG_SKEW_DELAY'', 23),
     (''PIN_CONFIG_SKEW_DELAY_INPUT_PS'', 24), (''PIN_CONFIG_SKEW_DELAY_OUTPUT_PS'', 25),
     (''PIN_CONFIG_SLEEP_HARDWARE_STATE'', 26), (''PIN_CONFIG_SLEW_RATE'', 27),
     (''PIN_CONFIG_END'', 127), (''PIN_CONFIG_MAX'', 255)]"

definition enumdecl_pinctrl_map_type :: cenum_decl where
  "enumdecl_pinctrl_map_type = EnumDecl False [
     (''PIN_MAP_TYPE_INVALID'', 0), (''PIN_MAP_TYPE_DUMMY_STATE'', 1),
     (''PIN_MAP_TYPE_MUX_GROUP'', 2), (''PIN_MAP_TYPE_CONFIGS_PIN'', 3),
     (''PIN_MAP_TYPE_CONFIGS_GROUP'', 4)]"

definition enumdecl_pkcs7_actions :: cenum_decl where
  "enumdecl_pkcs7_actions = EnumDecl False [
     (''ACT_pkcs7_check_content_type'', 0), (''ACT_pkcs7_extract_cert'', 1),
     (''ACT_pkcs7_note_OID'', 2), (''ACT_pkcs7_note_certificate_list'', 3),
     (''ACT_pkcs7_note_content'', 4), (''ACT_pkcs7_note_data'', 5),
     (''ACT_pkcs7_note_signed_info'', 6), (''ACT_pkcs7_note_signeddata_version'', 7),
     (''ACT_pkcs7_note_signerinfo_version'', 8), (''ACT_pkcs7_sig_note_authenticated_attr'', 9),
     (''ACT_pkcs7_sig_note_digest_algo'', 10), (''ACT_pkcs7_sig_note_issuer'', 11),
     (''ACT_pkcs7_sig_note_pkey_algo'', 12), (''ACT_pkcs7_sig_note_serial'', 13),
     (''ACT_pkcs7_sig_note_set_of_authattrs'', 14), (''ACT_pkcs7_sig_note_signature'', 15),
     (''ACT_pkcs7_sig_note_skid'', 16), (''NR__pkcs7_actions'', 17)]"

definition enumdecl_pkey_id_type :: cenum_decl where
  "enumdecl_pkey_id_type = EnumDecl False [
     (''PKEY_ID_PGP'', 0), (''PKEY_ID_X509'', 1), (''PKEY_ID_PKCS7'', 2)]"

definition enumdecl_pkt_hash_types :: cenum_decl where
  "enumdecl_pkt_hash_types = EnumDecl False [
     (''PKT_HASH_TYPE_NONE'', 0), (''PKT_HASH_TYPE_L2'', 1), (''PKT_HASH_TYPE_L3'', 2),
     (''PKT_HASH_TYPE_L4'', 3)]"

definition enumdecl_pldmfw_update_mode :: cenum_decl where
  "enumdecl_pldmfw_update_mode = EnumDecl False [
     (''PLDMFW_UPDATE_MODE_FULL'', 0), (''PLDMFW_UPDATE_MODE_SINGLE_COMPONENT'', 1)]"

definition enumdecl_pm8606_ref_gp_and_osc_clients :: cenum_decl where
  "enumdecl_pm8606_ref_gp_and_osc_clients = EnumDecl False [
     (''REF_GP_NO_CLIENTS'', 0), (''WLED1_DUTY'', 1), (''WLED2_DUTY'', 2), (''WLED3_DUTY'', 4),
     (''RGB1_ENABLE'', 8), (''RGB2_ENABLE'', 16), (''LDO_VBR_EN'', 32),
     (''REF_GP_MAX_CLIENT'', 65535)]"

definition enumdecl_pm_qos_flags_status :: cenum_decl where
  "enumdecl_pm_qos_flags_status = EnumDecl False [
     (''PM_QOS_FLAGS_UNDEFINED'', - 1), (''PM_QOS_FLAGS_NONE'', 0), (''PM_QOS_FLAGS_SOME'', 1),
     (''PM_QOS_FLAGS_ALL'', 2)]"

definition enumdecl_pm_qos_req_action :: cenum_decl where
  "enumdecl_pm_qos_req_action = EnumDecl False enum_pm_qos_req_action"

definition enumdecl_pm_qos_type :: cenum_decl where
  "enumdecl_pm_qos_type = EnumDecl False [
     (''PM_QOS_UNITIALIZED'', 0), (''PM_QOS_MAX'', 1), (''PM_QOS_MIN'', 2)]"

definition enumdecl_pmc_type :: cenum_decl where
  "enumdecl_pmc_type = EnumDecl False [
     (''KVM_PMC_GP'', 0), (''KVM_PMC_FIXED'', 1)]"

definition enumdecl_poison_cmd_enabled_bits :: cenum_decl where
  "enumdecl_poison_cmd_enabled_bits = EnumDecl False [
     (''CXL_POISON_ENABLED_LIST'', 0), (''CXL_POISON_ENABLED_INJECT'', 1),
     (''CXL_POISON_ENABLED_CLEAR'', 2), (''CXL_POISON_ENABLED_SCAN_CAPS'', 3),
     (''CXL_POISON_ENABLED_SCAN_MEDIA'', 4), (''CXL_POISON_ENABLED_SCAN_RESULTS'', 5),
     (''CXL_POISON_ENABLED_MAX'', 6)]"

definition enumdecl_policy_opt :: cenum_decl where
  "enumdecl_policy_opt = EnumDecl False [
     (''Opt_measure'', 0), (''Opt_dont_measure'', 1), (''Opt_appraise'', 2),
     (''Opt_dont_appraise'', 3), (''Opt_audit'', 4), (''Opt_dont_audit'', 5),
     (''Opt_hash___3'', 6), (''Opt_dont_hash'', 7), (''Opt_obj_user'', 8), (''Opt_obj_role'', 9),
     (''Opt_obj_type'', 10), (''Opt_subj_user'', 11), (''Opt_subj_role'', 12),
     (''Opt_subj_type'', 13), (''Opt_func'', 14), (''Opt_mask'', 15), (''Opt_fsmagic'', 16),
     (''Opt_fsname'', 17), (''Opt_fs_subtype'', 18), (''Opt_fsuuid'', 19), (''Opt_uid_eq'', 20),
     (''Opt_euid_eq'', 21), (''Opt_gid_eq'', 22), (''Opt_egid_eq'', 23), (''Opt_fowner_eq'', 24),
     (''Opt_fgroup_eq'', 25), (''Opt_uid_gt'', 26), (''Opt_euid_gt'', 27), (''Opt_gid_gt'', 28),
     (''Opt_egid_gt'', 29), (''Opt_fowner_gt'', 30), (''Opt_fgroup_gt'', 31),
     (''Opt_uid_lt'', 32), (''Opt_euid_lt'', 33), (''Opt_gid_lt'', 34), (''Opt_egid_lt'', 35),
     (''Opt_fowner_lt'', 36), (''Opt_fgroup_lt'', 37), (''Opt_digest_type'', 38),
     (''Opt_appraise_type'', 39), (''Opt_appraise_flag'', 40), (''Opt_appraise_algos'', 41),
     (''Opt_permit_directio'', 42), (''Opt_pcr'', 43), (''Opt_template'', 44),
     (''Opt_keyrings'', 45), (''Opt_label'', 46), (''Opt_err___7'', 47)]"

definition enumdecl_policy_rule_list :: cenum_decl where
  "enumdecl_policy_rule_list = EnumDecl False [
     (''IMA_DEFAULT_POLICY'', 1), (''IMA_CUSTOM_POLICY'', 2)]"

definition enumdecl_policy_types :: cenum_decl where
  "enumdecl_policy_types = EnumDecl False [
     (''ORIGINAL_TCB'', 1), (''DEFAULT_TCB'', 2)]"

definition enumdecl_poll_time_type :: cenum_decl where
  "enumdecl_poll_time_type = EnumDecl False [
     (''PT_TIMEVAL'', 0), (''PT_OLD_TIMEVAL'', 1), (''PT_TIMESPEC'', 2), (''PT_OLD_TIMESPEC'', 3)]"

definition enumdecl_polling_modes :: cenum_decl where
  "enumdecl_polling_modes = EnumDecl False [
     (''CM_POLL_DISABLE'', 0), (''CM_POLL_ALWAYS'', 1), (''CM_POLL_EXTERNAL_POWER_ONLY'', 2),
     (''CM_POLL_CHARGING_ONLY'', 3)]"

definition enumdecl_pool_workqueue_stats :: cenum_decl where
  "enumdecl_pool_workqueue_stats = EnumDecl False [
     (''PWQ_STAT_STARTED'', 0), (''PWQ_STAT_COMPLETED'', 1), (''PWQ_STAT_CPU_TIME'', 2),
     (''PWQ_STAT_CPU_INTENSIVE'', 3), (''PWQ_STAT_CM_WAKEUP'', 4), (''PWQ_STAT_REPATRIATED'', 5),
     (''PWQ_STAT_MAYDAY'', 6), (''PWQ_STAT_RESCUED'', 7), (''PWQ_NR_STATS'', 8)]"

definition enumdecl_port_pkey_state :: cenum_decl where
  "enumdecl_port_pkey_state = EnumDecl False [
     (''IB_PORT_PKEY_NOT_VALID'', 0), (''IB_PORT_PKEY_VALID'', 1), (''IB_PORT_PKEY_LISTED'', 2)]"

definition enumdecl_positive_aop_returns :: cenum_decl where
  "enumdecl_positive_aop_returns = EnumDecl False [
     (''AOP_WRITEPAGE_ACTIVATE'', 524288), (''AOP_TRUNCATED_PAGE'', 524289)]"

definition enumdecl_posix_timer_state :: cenum_decl where
  "enumdecl_posix_timer_state = EnumDecl False [
     (''POSIX_TIMER_DISARMED'', 0), (''POSIX_TIMER_ARMED'', 1),
     (''POSIX_TIMER_REQUEUE_PENDING'', 2)]"

definition enumdecl_power_supply_charge_behaviour :: cenum_decl where
  "enumdecl_power_supply_charge_behaviour = EnumDecl False [
     (''POWER_SUPPLY_CHARGE_BEHAVIOUR_AUTO'', 0),
     (''POWER_SUPPLY_CHARGE_BEHAVIOUR_INHIBIT_CHARGE'', 1),
     (''POWER_SUPPLY_CHARGE_BEHAVIOUR_INHIBIT_CHARGE_AWAKE'', 2),
     (''POWER_SUPPLY_CHARGE_BEHAVIOUR_FORCE_DISCHARGE'', 3)]"

definition enumdecl_power_supply_charge_type :: cenum_decl where
  "enumdecl_power_supply_charge_type = EnumDecl False [
     (''POWER_SUPPLY_CHARGE_TYPE_UNKNOWN'', 0), (''POWER_SUPPLY_CHARGE_TYPE_NONE'', 1),
     (''POWER_SUPPLY_CHARGE_TYPE_TRICKLE'', 2), (''POWER_SUPPLY_CHARGE_TYPE_FAST'', 3),
     (''POWER_SUPPLY_CHARGE_TYPE_STANDARD'', 4), (''POWER_SUPPLY_CHARGE_TYPE_ADAPTIVE'', 5),
     (''POWER_SUPPLY_CHARGE_TYPE_CUSTOM'', 6), (''POWER_SUPPLY_CHARGE_TYPE_LONGLIFE'', 7),
     (''POWER_SUPPLY_CHARGE_TYPE_BYPASS'', 8)]"

definition enumdecl_power_supply_notifier_events :: cenum_decl where
  "enumdecl_power_supply_notifier_events = EnumDecl False [
     (''PSY_EVENT_PROP_CHANGED'', 0)]"

definition enumdecl_power_supply_property :: cenum_decl where
  "enumdecl_power_supply_property = EnumDecl False [
     (''POWER_SUPPLY_PROP_STATUS'', 0), (''POWER_SUPPLY_PROP_CHARGE_TYPE'', 1),
     (''POWER_SUPPLY_PROP_CHARGE_TYPES'', 2), (''POWER_SUPPLY_PROP_HEALTH'', 3),
     (''POWER_SUPPLY_PROP_PRESENT'', 4), (''POWER_SUPPLY_PROP_ONLINE'', 5),
     (''POWER_SUPPLY_PROP_AUTHENTIC'', 6), (''POWER_SUPPLY_PROP_TECHNOLOGY'', 7),
     (''POWER_SUPPLY_PROP_CYCLE_COUNT'', 8), (''POWER_SUPPLY_PROP_VOLTAGE_MAX'', 9),
     (''POWER_SUPPLY_PROP_VOLTAGE_MIN'', 10), (''POWER_SUPPLY_PROP_VOLTAGE_MAX_DESIGN'', 11),
     (''POWER_SUPPLY_PROP_VOLTAGE_MIN_DESIGN'', 12), (''POWER_SUPPLY_PROP_VOLTAGE_NOW'', 13),
     (''POWER_SUPPLY_PROP_VOLTAGE_AVG'', 14), (''POWER_SUPPLY_PROP_VOLTAGE_OCV'', 15),
     (''POWER_SUPPLY_PROP_VOLTAGE_BOOT'', 16), (''POWER_SUPPLY_PROP_CURRENT_MAX'', 17),
     (''POWER_SUPPLY_PROP_CURRENT_NOW'', 18), (''POWER_SUPPLY_PROP_CURRENT_AVG'', 19),
     (''POWER_SUPPLY_PROP_CURRENT_BOOT'', 20), (''POWER_SUPPLY_PROP_POWER_NOW'', 21),
     (''POWER_SUPPLY_PROP_POWER_AVG'', 22), (''POWER_SUPPLY_PROP_CHARGE_FULL_DESIGN'', 23),
     (''POWER_SUPPLY_PROP_CHARGE_EMPTY_DESIGN'', 24), (''POWER_SUPPLY_PROP_CHARGE_FULL'', 25),
     (''POWER_SUPPLY_PROP_CHARGE_EMPTY'', 26), (''POWER_SUPPLY_PROP_CHARGE_NOW'', 27),
     (''POWER_SUPPLY_PROP_CHARGE_AVG'', 28), (''POWER_SUPPLY_PROP_CHARGE_COUNTER'', 29),
     (''POWER_SUPPLY_PROP_CONSTANT_CHARGE_CURRENT'', 30),
     (''POWER_SUPPLY_PROP_CONSTANT_CHARGE_CURRENT_MAX'', 31),
     (''POWER_SUPPLY_PROP_CONSTANT_CHARGE_VOLTAGE'', 32),
     (''POWER_SUPPLY_PROP_CONSTANT_CHARGE_VOLTAGE_MAX'', 33),
     (''POWER_SUPPLY_PROP_CHARGE_CONTROL_LIMIT'', 34),
     (''POWER_SUPPLY_PROP_CHARGE_CONTROL_LIMIT_MAX'', 35),
     (''POWER_SUPPLY_PROP_CHARGE_CONTROL_START_THRESHOLD'', 36),
     (''POWER_SUPPLY_PROP_CHARGE_CONTROL_END_THRESHOLD'', 37),
     (''POWER_SUPPLY_PROP_CHARGE_BEHAVIOUR'', 38),
     (''POWER_SUPPLY_PROP_INPUT_CURRENT_LIMIT'', 39),
     (''POWER_SUPPLY_PROP_INPUT_VOLTAGE_LIMIT'', 40),
     (''POWER_SUPPLY_PROP_INPUT_POWER_LIMIT'', 41),
     (''POWER_SUPPLY_PROP_ENERGY_FULL_DESIGN'', 42),
     (''POWER_SUPPLY_PROP_ENERGY_EMPTY_DESIGN'', 43), (''POWER_SUPPLY_PROP_ENERGY_FULL'', 44),
     (''POWER_SUPPLY_PROP_ENERGY_EMPTY'', 45), (''POWER_SUPPLY_PROP_ENERGY_NOW'', 46),
     (''POWER_SUPPLY_PROP_ENERGY_AVG'', 47), (''POWER_SUPPLY_PROP_CAPACITY'', 48),
     (''POWER_SUPPLY_PROP_CAPACITY_ALERT_MIN'', 49),
     (''POWER_SUPPLY_PROP_CAPACITY_ALERT_MAX'', 50),
     (''POWER_SUPPLY_PROP_CAPACITY_ERROR_MARGIN'', 51),
     (''POWER_SUPPLY_PROP_CAPACITY_LEVEL'', 52), (''POWER_SUPPLY_PROP_TEMP'', 53),
     (''POWER_SUPPLY_PROP_TEMP_MAX'', 54), (''POWER_SUPPLY_PROP_TEMP_MIN'', 55),
     (''POWER_SUPPLY_PROP_TEMP_ALERT_MIN'', 56), (''POWER_SUPPLY_PROP_TEMP_ALERT_MAX'', 57),
     (''POWER_SUPPLY_PROP_TEMP_AMBIENT'', 58),
     (''POWER_SUPPLY_PROP_TEMP_AMBIENT_ALERT_MIN'', 59),
     (''POWER_SUPPLY_PROP_TEMP_AMBIENT_ALERT_MAX'', 60),
     (''POWER_SUPPLY_PROP_TIME_TO_EMPTY_NOW'', 61),
     (''POWER_SUPPLY_PROP_TIME_TO_EMPTY_AVG'', 62), (''POWER_SUPPLY_PROP_TIME_TO_FULL_NOW'', 63),
     (''POWER_SUPPLY_PROP_TIME_TO_FULL_AVG'', 64), (''POWER_SUPPLY_PROP_TYPE'', 65),
     (''POWER_SUPPLY_PROP_USB_TYPE'', 66), (''POWER_SUPPLY_PROP_SCOPE'', 67),
     (''POWER_SUPPLY_PROP_PRECHARGE_CURRENT'', 68),
     (''POWER_SUPPLY_PROP_CHARGE_TERM_CURRENT'', 69), (''POWER_SUPPLY_PROP_CALIBRATE'', 70),
     (''POWER_SUPPLY_PROP_MANUFACTURE_YEAR'', 71), (''POWER_SUPPLY_PROP_MANUFACTURE_MONTH'', 72),
     (''POWER_SUPPLY_PROP_MANUFACTURE_DAY'', 73),
     (''POWER_SUPPLY_PROP_INTERNAL_RESISTANCE'', 74),
     (''POWER_SUPPLY_PROP_STATE_OF_HEALTH'', 75), (''POWER_SUPPLY_PROP_MODEL_NAME'', 76),
     (''POWER_SUPPLY_PROP_MANUFACTURER'', 77), (''POWER_SUPPLY_PROP_SERIAL_NUMBER'', 78)]"

definition enumdecl_power_supply_type :: cenum_decl where
  "enumdecl_power_supply_type = EnumDecl False [
     (''POWER_SUPPLY_TYPE_UNKNOWN'', 0), (''POWER_SUPPLY_TYPE_BATTERY'', 1),
     (''POWER_SUPPLY_TYPE_UPS'', 2), (''POWER_SUPPLY_TYPE_MAINS'', 3),
     (''POWER_SUPPLY_TYPE_USB'', 4), (''POWER_SUPPLY_TYPE_USB_DCP'', 5),
     (''POWER_SUPPLY_TYPE_USB_CDP'', 6), (''POWER_SUPPLY_TYPE_USB_ACA'', 7),
     (''POWER_SUPPLY_TYPE_USB_TYPE_C'', 8), (''POWER_SUPPLY_TYPE_USB_PD'', 9),
     (''POWER_SUPPLY_TYPE_USB_PD_DRP'', 10), (''POWER_SUPPLY_TYPE_APPLE_BRICK_ID'', 11),
     (''POWER_SUPPLY_TYPE_WIRELESS'', 12)]"

definition enumdecl_power_supply_usb_type :: cenum_decl where
  "enumdecl_power_supply_usb_type = EnumDecl False [
     (''POWER_SUPPLY_USB_TYPE_UNKNOWN'', 0), (''POWER_SUPPLY_USB_TYPE_SDP'', 1),
     (''POWER_SUPPLY_USB_TYPE_DCP'', 2), (''POWER_SUPPLY_USB_TYPE_CDP'', 3),
     (''POWER_SUPPLY_USB_TYPE_ACA'', 4), (''POWER_SUPPLY_USB_TYPE_C'', 5),
     (''POWER_SUPPLY_USB_TYPE_PD'', 6), (''POWER_SUPPLY_USB_TYPE_PD_DRP'', 7),
     (''POWER_SUPPLY_USB_TYPE_PD_PPS'', 8), (''POWER_SUPPLY_USB_TYPE_APPLE_BRICK_ID'', 9)]"

definition enumdecl_pr_direction :: cenum_decl where
  "enumdecl_pr_direction = EnumDecl False [
     (''PR_IN'', 0), (''PR_OUT'', 1)]"

definition enumdecl_pr_status :: cenum_decl where
  "enumdecl_pr_status = EnumDecl False [
     (''PR_STS_SUCCESS'', 0), (''PR_STS_IOERR'', 2), (''PR_STS_RESERVATION_CONFLICT'', 24),
     (''PR_STS_RETRY_PATH_FAILURE'', 917504), (''PR_STS_PATH_FAST_FAILED'', 983040),
     (''PR_STS_PATH_FAILED'', 65536)]"

definition enumdecl_pr_type :: cenum_decl where
  "enumdecl_pr_type = EnumDecl False [
     (''PR_WRITE_EXCLUSIVE'', 1), (''PR_EXCLUSIVE_ACCESS'', 2),
     (''PR_WRITE_EXCLUSIVE_REG_ONLY'', 3), (''PR_EXCLUSIVE_ACCESS_REG_ONLY'', 4),
     (''PR_WRITE_EXCLUSIVE_ALL_REGS'', 5), (''PR_EXCLUSIVE_ACCESS_ALL_REGS'', 6)]"

definition enumdecl_preempt_wakeup_action :: cenum_decl where
  "enumdecl_preempt_wakeup_action = EnumDecl False [
     (''PREEMPT_WAKEUP_NONE'', 0), (''PREEMPT_WAKEUP_SHORT'', 1), (''PREEMPT_WAKEUP_PICK'', 2),
     (''PREEMPT_WAKEUP_RESCHED'', 3)]"

definition enumdecl_prep_dispatch :: cenum_decl where
  "enumdecl_prep_dispatch = EnumDecl False [
     (''PREP_DISPATCH_OK'', 0), (''PREP_DISPATCH_NO_TAG'', 1), (''PREP_DISPATCH_NO_BUDGET'', 2)]"

definition enumdecl_print_line_t :: cenum_decl where
  "enumdecl_print_line_t = EnumDecl False [
     (''TRACE_TYPE_PARTIAL_LINE'', 0), (''TRACE_TYPE_HANDLED'', 1),
     (''TRACE_TYPE_UNHANDLED'', 2), (''TRACE_TYPE_NO_CONSUME'', 3)]"

definition enumdecl_printk_info_flags :: cenum_decl where
  "enumdecl_printk_info_flags = EnumDecl False [
     (''LOG_FORCE_CON'', 1), (''LOG_NEWLINE'', 2), (''LOG_CONT'', 8)]"

definition enumdecl_prio_policy :: cenum_decl where
  "enumdecl_prio_policy = EnumDecl False [
     (''POLICY_NO_CHANGE'', 0), (''POLICY_PROMOTE_TO_RT'', 1), (''POLICY_RESTRICT_TO_BE'', 2),
     (''POLICY_ALL_TO_IDLE'', 3), (''POLICY_NONE_TO_RT'', 4)]"

definition enumdecl_priv_stack_mode :: cenum_decl where
  "enumdecl_priv_stack_mode = EnumDecl False [
     (''PRIV_STACK_UNKNOWN'', 0), (''NO_PRIV_STACK'', 1), (''PRIV_STACK_ADAPTIVE'', 2)]"

definition enumdecl_probe_print_type :: cenum_decl where
  "enumdecl_probe_print_type = EnumDecl False [
     (''PROBE_PRINT_NORMAL'', 0), (''PROBE_PRINT_RETURN'', 1), (''PROBE_PRINT_EVENT'', 2)]"

definition enumdecl_probe_type :: cenum_decl where
  "enumdecl_probe_type = EnumDecl False [
     (''PROBE_DEFAULT_STRATEGY'', 0), (''PROBE_PREFER_ASYNCHRONOUS'', 1),
     (''PROBE_FORCE_SYNCHRONOUS'', 2)]"

definition enumdecl_proc_cn_event :: cenum_decl where
  "enumdecl_proc_cn_event = EnumDecl False [
     (''PROC_EVENT_NONE'', 0), (''PROC_EVENT_FORK'', 1), (''PROC_EVENT_EXEC'', 2),
     (''PROC_EVENT_UID'', 4), (''PROC_EVENT_GID'', 64), (''PROC_EVENT_SID'', 128),
     (''PROC_EVENT_PTRACE'', 256), (''PROC_EVENT_COMM'', 512),
     (''PROC_EVENT_NONZERO_EXIT'', 536870912), (''PROC_EVENT_COREDUMP'', 1073741824),
     (''PROC_EVENT_EXIT'', 2147483648)]"

lemma enumdecl_proc_cn_event_4: "enum4 enumdecl_proc_cn_event"
  by (unfold enumdecl_proc_cn_event_def) (intro enum_uint_intros; simp)

definition enumdecl_proc_cn_mcast_op :: cenum_decl where
  "enumdecl_proc_cn_mcast_op = EnumDecl False [
     (''PROC_CN_MCAST_LISTEN'', 1), (''PROC_CN_MCAST_IGNORE'', 2)]"

definition enumdecl_proc_hidepid :: cenum_decl where
  "enumdecl_proc_hidepid = EnumDecl False [
     (''HIDEPID_OFF'', 0), (''HIDEPID_NO_ACCESS'', 1), (''HIDEPID_INVISIBLE'', 2),
     (''HIDEPID_NOT_PTRACEABLE'', 4)]"

definition enumdecl_proc_mem_force :: cenum_decl where
  "enumdecl_proc_mem_force = EnumDecl False [
     (''PROC_MEM_FORCE_ALWAYS'', 0), (''PROC_MEM_FORCE_PTRACE'', 1),
     (''PROC_MEM_FORCE_NEVER'', 2)]"

definition enumdecl_proc_param :: cenum_decl where
  "enumdecl_proc_param = EnumDecl False [
     (''Opt_gid___7'', 0), (''Opt_hidepid'', 1), (''Opt_subset'', 2), (''Opt_pidns'', 3)]"

definition enumdecl_proc_pidonly :: cenum_decl where
  "enumdecl_proc_pidonly = EnumDecl False [
     (''PROC_PIDONLY_OFF'', 0), (''PROC_PIDONLY_ON'', 1)]"

definition enumdecl_procfs_ino :: cenum_decl where
  "enumdecl_procfs_ino = EnumDecl False [
     (''PROCFS_ROOT_INO'', 1)]"

definition enumdecl_procmap_query_flags :: cenum_decl where
  "enumdecl_procmap_query_flags = EnumDecl False [
     (''PROCMAP_QUERY_VMA_READABLE'', 1), (''PROCMAP_QUERY_VMA_WRITABLE'', 2),
     (''PROCMAP_QUERY_VMA_EXECUTABLE'', 4), (''PROCMAP_QUERY_VMA_SHARED'', 8),
     (''PROCMAP_QUERY_COVERING_OR_NEXT_VMA'', 16), (''PROCMAP_QUERY_FILE_BACKED_VMA'', 32)]"

definition enumdecl_profile_mode :: cenum_decl where
  "enumdecl_profile_mode = EnumDecl False [
     (''APPARMOR_ENFORCE'', 0), (''APPARMOR_COMPLAIN'', 1), (''APPARMOR_KILL'', 2),
     (''APPARMOR_UNCONFINED'', 3), (''APPARMOR_USER'', 4)]"

definition enumdecl_protection_domain_mode :: cenum_decl where
  "enumdecl_protection_domain_mode = EnumDecl False [
     (''PD_MODE_NONE'', 0), (''PD_MODE_V1'', 1), (''PD_MODE_V2'', 2)]"

definition enumdecl_prs_errcode :: cenum_decl where
  "enumdecl_prs_errcode = EnumDecl False [
     (''PERR_NONE'', 0), (''PERR_INVCPUS'', 1), (''PERR_INVPARENT'', 2), (''PERR_NOTPART'', 3),
     (''PERR_NOTEXCL'', 4), (''PERR_NOCPUS'', 5), (''PERR_HOTPLUG'', 6), (''PERR_CPUSEMPTY'', 7),
     (''PERR_HKEEPING'', 8), (''PERR_ACCESS'', 9), (''PERR_REMOTE'', 10)]"

definition enumdecl_ps2_disposition :: cenum_decl where
  "enumdecl_ps2_disposition = EnumDecl False [
     (''PS2_PROCESS'', 0), (''PS2_IGNORE'', 1), (''PS2_ERROR'', 2)]"

definition enumdecl_psc_op :: cenum_decl where
  "enumdecl_psc_op = EnumDecl False [
     (''SNP_PAGE_STATE_PRIVATE'', 1), (''SNP_PAGE_STATE_SHARED'', 2)]"

definition enumdecl_pse_budget_eval_strategies :: cenum_decl where
  "enumdecl_pse_budget_eval_strategies = EnumDecl False [
     (''PSE_BUDGET_EVAL_STRAT_DISABLED'', 1), (''PSE_BUDGET_EVAL_STRAT_STATIC'', 2),
     (''PSE_BUDGET_EVAL_STRAT_DYNAMIC'', 4)]"

definition enumdecl_pse_pi_pairset_pinout :: cenum_decl where
  "enumdecl_pse_pi_pairset_pinout = EnumDecl False [
     (''ALTERNATIVE_A'', 0), (''ALTERNATIVE_B'', 1)]"

definition enumdecl_psi_aggregators :: cenum_decl where
  "enumdecl_psi_aggregators = EnumDecl False [
     (''PSI_AVGS'', 0), (''PSI_POLL'', 1), (''NR_PSI_AGGREGATORS'', 2)]"

definition enumdecl_psi_res :: cenum_decl where
  "enumdecl_psi_res = EnumDecl False [
     (''PSI_IO'', 0), (''PSI_MEM'', 1), (''PSI_CPU'', 2), (''NR_PSI_RESOURCES'', 3)]"

definition enumdecl_psi_states :: cenum_decl where
  "enumdecl_psi_states = EnumDecl False [
     (''PSI_IO_SOME'', 0), (''PSI_IO_FULL'', 1), (''PSI_MEM_SOME'', 2), (''PSI_MEM_FULL'', 3),
     (''PSI_CPU_SOME'', 4), (''PSI_CPU_FULL'', 5), (''PSI_NONIDLE'', 6), (''NR_PSI_STATES'', 7)]"

definition enumdecl_psi_task_count :: cenum_decl where
  "enumdecl_psi_task_count = EnumDecl False [
     (''NR_IOWAIT'', 0), (''NR_MEMSTALL'', 1), (''NR_RUNNING'', 2), (''NR_MEMSTALL_RUNNING'', 3),
     (''NR_PSI_TASK_COUNTS'', 4)]"

definition enumdecl_psp_version :: cenum_decl where
  "enumdecl_psp_version = EnumDecl False [
     (''PSP_VERSION_HDR0_AES_GCM_128'', 0), (''PSP_VERSION_HDR0_AES_GCM_256'', 1),
     (''PSP_VERSION_HDR0_AES_GMAC_128'', 2), (''PSP_VERSION_HDR0_AES_GMAC_256'', 3)]"

definition enumdecl_pstore_type_id :: cenum_decl where
  "enumdecl_pstore_type_id = EnumDecl False [
     (''PSTORE_TYPE_DMESG'', 0), (''PSTORE_TYPE_MCE'', 1), (''PSTORE_TYPE_CONSOLE'', 2),
     (''PSTORE_TYPE_FTRACE'', 3), (''PSTORE_TYPE_PPC_RTAS'', 4), (''PSTORE_TYPE_PPC_OF'', 5),
     (''PSTORE_TYPE_PPC_COMMON'', 6), (''PSTORE_TYPE_PMSG'', 7), (''PSTORE_TYPE_PPC_OPAL'', 8),
     (''PSTORE_TYPE_MAX'', 9)]"

definition enumdecl_pt_capabilities :: cenum_decl where
  "enumdecl_pt_capabilities = EnumDecl False [
     (''PT_CAP_max_subleaf'', 0), (''PT_CAP_cr3_filtering'', 1), (''PT_CAP_psb_cyc'', 2),
     (''PT_CAP_ip_filtering'', 3), (''PT_CAP_mtc'', 4), (''PT_CAP_ptwrite'', 5),
     (''PT_CAP_power_event_trace'', 6), (''PT_CAP_event_trace'', 7), (''PT_CAP_tnt_disable'', 8),
     (''PT_CAP_topa_output'', 9), (''PT_CAP_topa_multiple_entries'', 10),
     (''PT_CAP_single_range_output'', 11), (''PT_CAP_output_subsys'', 12),
     (''PT_CAP_payloads_lip'', 13), (''PT_CAP_num_address_ranges'', 14),
     (''PT_CAP_mtc_periods'', 15), (''PT_CAP_cycle_thresholds'', 16),
     (''PT_CAP_psb_periods'', 17)]"

definition enumdecl_pt_entry_type :: cenum_decl where
  "enumdecl_pt_entry_type = EnumDecl False [
     (''PT_ENTRY_EMPTY'', 0), (''PT_ENTRY_TABLE'', 1), (''PT_ENTRY_OA'', 2)]"

definition enumdecl_pt_features :: cenum_decl where
  "enumdecl_pt_features = EnumDecl False [
     (''PT_FEAT_DMA_INCOHERENT'', 0), (''PT_FEAT_FULL_VA'', 1), (''PT_FEAT_DYNAMIC_TOP'', 2),
     (''PT_FEAT_SIGN_EXTEND'', 3), (''PT_FEAT_FLUSH_RANGE'', 4),
     (''PT_FEAT_FLUSH_RANGE_NO_GAPS'', 5), (''PT_FEAT_FMT_START'', 6)]"

definition enumdecl_pt_flags :: cenum_decl where
  "enumdecl_pt_flags = EnumDecl False [
     (''PT_kernel'', 2), (''PT_reserved'', 13)]"

definition enumdecl_pt_level :: cenum_decl where
  "enumdecl_pt_level = EnumDecl False [
     (''PT_PGD'', 0), (''PT_P4D'', 1), (''PT_PUD'', 2), (''PT_PMD'', 3), (''PT_PTE'', 4)]"

definition enumdecl_pti_clone_level :: cenum_decl where
  "enumdecl_pti_clone_level = EnumDecl False [
     (''PTI_CLONE_PMD'', 0), (''PTI_CLONE_PTE'', 1)]"

definition enumdecl_pti_mode :: cenum_decl where
  "enumdecl_pti_mode = EnumDecl False [
     (''PTI_AUTO'', 0), (''PTI_FORCE_OFF'', 1), (''PTI_FORCE_ON'', 2)]"

definition enumdecl_ptp_clock_events :: cenum_decl where
  "enumdecl_ptp_clock_events = EnumDecl False [
     (''PTP_CLOCK_ALARM'', 0), (''PTP_CLOCK_EXTTS'', 1), (''PTP_CLOCK_EXTOFF'', 2),
     (''PTP_CLOCK_PPS'', 3), (''PTP_CLOCK_PPSUSR'', 4)]"

definition enumdecl_ptp_pin_function :: cenum_decl where
  "enumdecl_ptp_pin_function = EnumDecl False [
     (''PTP_PF_NONE'', 0), (''PTP_PF_EXTTS'', 1), (''PTP_PF_PEROUT'', 2), (''PTP_PF_PHYSYNC'', 3)]"

definition enumdecl_pubkey_algo :: cenum_decl where
  "enumdecl_pubkey_algo = EnumDecl False [
     (''PUBKEY_ALGO_RSA'', 0), (''PUBKEY_ALGO_MAX'', 1)]"

definition enumdecl_pwm_polarity :: cenum_decl where
  "enumdecl_pwm_polarity = EnumDecl False enum_pwm_polarity"

definition enumdecl_pxa_ssp_type :: cenum_decl where
  "enumdecl_pxa_ssp_type = EnumDecl False [
     (''SSP_UNDEFINED'', 0), (''PXA25x_SSP'', 1), (''PXA25x_NSSP'', 2), (''PXA27x_SSP'', 3),
     (''PXA3xx_SSP'', 4), (''PXA168_SSP'', 5), (''PXA910_SSP'', 6), (''CE4100_SSP'', 7),
     (''MMP2_SSP'', 8), (''MRFLD_SSP'', 9), (''QUARK_X1000_SSP'', 10), (''LPSS_LPT_SSP'', 11),
     (''LPSS_BYT_SSP'', 12), (''LPSS_BSW_SSP'', 13), (''LPSS_SPT_SSP'', 14),
     (''LPSS_BXT_SSP'', 15), (''LPSS_CNL_SSP'', 16), (''SSP_MAX'', 17)]"

definition enumdecl_qdisc_class_ops_flags :: cenum_decl where
  "enumdecl_qdisc_class_ops_flags = EnumDecl False [
     (''QDISC_CLASS_OPS_DOIT_UNLOCKED'', 1)]"

definition enumdecl_qdisc_ops_kf_flags :: cenum_decl where
  "enumdecl_qdisc_ops_kf_flags = EnumDecl False [
     (''QDISC_OPS_KF_COMMON'', 0), (''QDISC_OPS_KF_ENQUEUE'', 1), (''QDISC_OPS_KF_DEQUEUE'', 2)]"

definition enumdecl_qdisc_state_t :: cenum_decl where
  "enumdecl_qdisc_state_t = EnumDecl False [
     (''__QDISC_STATE_SCHED'', 0), (''__QDISC_STATE_DEACTIVATED'', 1),
     (''__QDISC_STATE_MISSED'', 2), (''__QDISC_STATE_DRAINING'', 3)]"

definition enumdecl_quota_type :: cenum_decl where
  "enumdecl_quota_type = EnumDecl False [
     (''USRQUOTA'', 0), (''GRPQUOTA'', 1), (''PRJQUOTA'', 2)]"

definition enumdecl_ramfs_param :: cenum_decl where
  "enumdecl_ramfs_param = EnumDecl False [
     (''Opt_mode___5'', 0)]"

definition enumdecl_rdma_ah_attr_type :: cenum_decl where
  "enumdecl_rdma_ah_attr_type = EnumDecl False [
     (''RDMA_AH_ATTR_TYPE_UNDEFINED'', 0), (''RDMA_AH_ATTR_TYPE_IB'', 1),
     (''RDMA_AH_ATTR_TYPE_ROCE'', 2), (''RDMA_AH_ATTR_TYPE_OPA'', 3)]"

definition enumdecl_rdma_driver_id :: cenum_decl where
  "enumdecl_rdma_driver_id = EnumDecl False [
     (''RDMA_DRIVER_UNKNOWN'', 0), (''RDMA_DRIVER_MLX5'', 1), (''RDMA_DRIVER_MLX4'', 2),
     (''RDMA_DRIVER_CXGB3'', 3), (''RDMA_DRIVER_CXGB4'', 4), (''RDMA_DRIVER_MTHCA'', 5),
     (''RDMA_DRIVER_BNXT_RE'', 6), (''RDMA_DRIVER_OCRDMA'', 7), (''RDMA_DRIVER_NES'', 8),
     (''RDMA_DRIVER_I40IW'', 9), (''RDMA_DRIVER_IRDMA'', 9), (''RDMA_DRIVER_VMW_PVRDMA'', 10),
     (''RDMA_DRIVER_QEDR'', 11), (''RDMA_DRIVER_HNS'', 12), (''RDMA_DRIVER_USNIC'', 13),
     (''RDMA_DRIVER_RXE'', 14), (''RDMA_DRIVER_HFI1'', 15), (''RDMA_DRIVER_QIB'', 16),
     (''RDMA_DRIVER_EFA'', 17), (''RDMA_DRIVER_SIW'', 18), (''RDMA_DRIVER_ERDMA'', 19),
     (''RDMA_DRIVER_MANA'', 20), (''RDMA_DRIVER_IONIC'', 21)]"

definition enumdecl_rdma_link_layer :: cenum_decl where
  "enumdecl_rdma_link_layer = EnumDecl False [
     (''IB_LINK_LAYER_UNSPECIFIED'', 0), (''IB_LINK_LAYER_INFINIBAND'', 1),
     (''IB_LINK_LAYER_ETHERNET'', 2)]"

definition enumdecl_rdma_netdev_t :: cenum_decl where
  "enumdecl_rdma_netdev_t = EnumDecl False [
     (''RDMA_NETDEV_OPA_VNIC'', 0), (''RDMA_NETDEV_IPOIB'', 1)]"

definition enumdecl_rdma_nl_counter_mask :: cenum_decl where
  "enumdecl_rdma_nl_counter_mask = EnumDecl False [
     (''RDMA_COUNTER_MASK_QP_TYPE'', 1), (''RDMA_COUNTER_MASK_PID'', 2)]"

definition enumdecl_rdma_nl_counter_mode :: cenum_decl where
  "enumdecl_rdma_nl_counter_mode = EnumDecl False [
     (''RDMA_COUNTER_MODE_NONE'', 0), (''RDMA_COUNTER_MODE_AUTO'', 1),
     (''RDMA_COUNTER_MODE_MANUAL'', 2), (''RDMA_COUNTER_MODE_MAX'', 3)]"

definition enumdecl_rdma_nl_dev_type :: cenum_decl where
  "enumdecl_rdma_nl_dev_type = EnumDecl False [
     (''RDMA_DEVICE_TYPE_SMI'', 1)]"

definition enum_decls_16 :: "cenum_decl list" where
  "enum_decls_16 = [
     enumdecl_pci_board_num_t, enumdecl_pci_bus_flags, enumdecl_pci_bus_speed,
     enumdecl_pci_dev_flags, enumdecl_pci_epc_bar_type, enumdecl_pci_epc_interface_type,
     enumdecl_pci_ers_result, enumdecl_pci_fixup_pass, enumdecl_pci_hotplug_event,
     enumdecl_pci_ide_partner_select, enumdecl_pci_interrupt_pin,
     enumdecl_pci_irq_reroute_variant, enumdecl_pci_mmap_api, enumdecl_pci_mmap_state,
     enumdecl_pci_p2pdma_map_type, enumdecl_pci_search_direction, enumdecl_pci_tsm_req_scope,
     enumdecl_pcie_bus_config_types, enumdecl_pcie_link_change_reason, enumdecl_pcie_link_width,
     enumdecl_pcie_reset_state, enumdecl_pcim_addr_devres_type, enumdecl_pcpu_fc,
     enumdecl_pedit_cmd, enumdecl_pedit_header_type, enumdecl_peer_app_attr,
     enumdecl_perf_addr_filter_action_t, enumdecl_perf_adl_uncore_imc_freerunning_types,
     enumdecl_perf_bpf_event_type, enumdecl_perf_branch_sample_type,
     enumdecl_perf_branch_sample_type_shift, enumdecl_perf_event_ioc_flags,
     enumdecl_perf_event_read_format, enumdecl_perf_event_sample_format,
     enumdecl_perf_event_state, enumdecl_perf_event_task_context, enumdecl_perf_event_type,
     enumdecl_perf_event_x86_regs, enumdecl_perf_hw_cache_id, enumdecl_perf_hw_cache_op_id,
     enumdecl_perf_hw_cache_op_result_id, enumdecl_perf_hw_id, enumdecl_perf_msr_id,
     enumdecl_perf_pmu_scope, enumdecl_perf_probe_config, enumdecl_perf_record_ksymbol_type,
     enumdecl_perf_sample_regs_abi, enumdecl_perf_snb_uncore_imc_freerunning_types,
     enumdecl_perf_sw_ids, enumdecl_perf_tgl_uncore_imc_freerunning_types, enumdecl_perf_type_id,
     enumdecl_perf_uncore_dmr_iio_freerunning_type_id,
     enumdecl_perf_uncore_icx_iio_freerunning_type_id,
     enumdecl_perf_uncore_icx_imc_freerunning_type_id,
     enumdecl_perf_uncore_iio_freerunning_type_id,
     enumdecl_perf_uncore_snr_iio_freerunning_type_id,
     enumdecl_perf_uncore_snr_imc_freerunning_type_id,
     enumdecl_perf_uncore_spr_iio_freerunning_type_id,
     enumdecl_perf_uncore_spr_imc_freerunning_type_id, enumdecl_pg_level, enumdecl_pgdat_flags,
     enumdecl_pgt_entry, enumdecl_pgtable_level, enumdecl_phy_media, enumdecl_phy_mode,
     enumdecl_phy_mse_channel, enumdecl_phy_port_parent, enumdecl_phy_state,
     enumdecl_phy_state_work, enumdecl_phy_tunable_id, enumdecl_phy_ufs_state,
     enumdecl_phy_upstream, enumdecl_phylink_op_type, enumdecl_pid_type, enumdecl_pidcg_event,
     enumdecl_pidfs_attr_mask_bits, enumdecl_piix_controller_ids, enumdecl_pin_config_param,
     enumdecl_pinctrl_map_type, enumdecl_pkcs7_actions, enumdecl_pkey_id_type,
     enumdecl_pkt_hash_types, enumdecl_pldmfw_update_mode,
     enumdecl_pm8606_ref_gp_and_osc_clients, enumdecl_pm_qos_flags_status,
     enumdecl_pm_qos_req_action, enumdecl_pm_qos_type, enumdecl_pmc_type,
     enumdecl_poison_cmd_enabled_bits, enumdecl_policy_opt, enumdecl_policy_rule_list,
     enumdecl_policy_types, enumdecl_poll_time_type, enumdecl_polling_modes,
     enumdecl_pool_workqueue_stats, enumdecl_port_pkey_state, enumdecl_positive_aop_returns,
     enumdecl_posix_timer_state, enumdecl_power_supply_charge_behaviour,
     enumdecl_power_supply_charge_type, enumdecl_power_supply_notifier_events,
     enumdecl_power_supply_property, enumdecl_power_supply_type, enumdecl_power_supply_usb_type,
     enumdecl_pr_direction, enumdecl_pr_status, enumdecl_pr_type, enumdecl_preempt_wakeup_action,
     enumdecl_prep_dispatch, enumdecl_print_line_t, enumdecl_printk_info_flags,
     enumdecl_prio_policy, enumdecl_priv_stack_mode, enumdecl_probe_print_type,
     enumdecl_probe_type, enumdecl_proc_cn_event, enumdecl_proc_cn_mcast_op,
     enumdecl_proc_hidepid, enumdecl_proc_mem_force, enumdecl_proc_param, enumdecl_proc_pidonly,
     enumdecl_procfs_ino, enumdecl_procmap_query_flags, enumdecl_profile_mode,
     enumdecl_protection_domain_mode, enumdecl_prs_errcode, enumdecl_ps2_disposition,
     enumdecl_psc_op, enumdecl_pse_budget_eval_strategies, enumdecl_pse_pi_pairset_pinout,
     enumdecl_psi_aggregators, enumdecl_psi_res, enumdecl_psi_states, enumdecl_psi_task_count,
     enumdecl_psp_version, enumdecl_pstore_type_id, enumdecl_pt_capabilities,
     enumdecl_pt_entry_type, enumdecl_pt_features, enumdecl_pt_flags, enumdecl_pt_level,
     enumdecl_pti_clone_level, enumdecl_pti_mode, enumdecl_ptp_clock_events,
     enumdecl_ptp_pin_function, enumdecl_pubkey_algo, enumdecl_pwm_polarity,
     enumdecl_pxa_ssp_type, enumdecl_qdisc_class_ops_flags, enumdecl_qdisc_ops_kf_flags,
     enumdecl_qdisc_state_t, enumdecl_quota_type, enumdecl_ramfs_param,
     enumdecl_rdma_ah_attr_type, enumdecl_rdma_driver_id, enumdecl_rdma_link_layer,
     enumdecl_rdma_netdev_t, enumdecl_rdma_nl_counter_mask, enumdecl_rdma_nl_counter_mode,
     enumdecl_rdma_nl_dev_type]"

lemma enum_decls_16_4: "list_all enum4 enum_decls_16"
  by (unfold enum_decls_16_def
     enumdecl_pci_board_num_t_def enumdecl_pci_bus_flags_def enumdecl_pci_bus_speed_def
     enumdecl_pci_dev_flags_def enumdecl_pci_epc_bar_type_def
     enumdecl_pci_epc_interface_type_def enumdecl_pci_ers_result_def
     enumdecl_pci_fixup_pass_def enumdecl_pci_hotplug_event_def
     enumdecl_pci_ide_partner_select_def enumdecl_pci_interrupt_pin_def
     enumdecl_pci_irq_reroute_variant_def enumdecl_pci_mmap_api_def
     enumdecl_pci_mmap_state_def enumdecl_pci_p2pdma_map_type_def
     enumdecl_pci_search_direction_def enumdecl_pci_tsm_req_scope_def
     enumdecl_pcie_bus_config_types_def enumdecl_pcie_link_change_reason_def
     enumdecl_pcie_link_width_def enumdecl_pcie_reset_state_def
     enumdecl_pcim_addr_devres_type_def enumdecl_pcpu_fc_def enumdecl_pedit_cmd_def
     enumdecl_pedit_header_type_def enumdecl_peer_app_attr_def
     enumdecl_perf_addr_filter_action_t_def enumdecl_perf_adl_uncore_imc_freerunning_types_def
     enumdecl_perf_bpf_event_type_def enumdecl_perf_branch_sample_type_def
     enumdecl_perf_branch_sample_type_shift_def enumdecl_perf_event_ioc_flags_def
     enumdecl_perf_event_read_format_def enumdecl_perf_event_sample_format_def
     enumdecl_perf_event_state_def enumdecl_perf_event_task_context_def
     enumdecl_perf_event_type_def enumdecl_perf_event_x86_regs_def
     enumdecl_perf_hw_cache_id_def enumdecl_perf_hw_cache_op_id_def
     enumdecl_perf_hw_cache_op_result_id_def enumdecl_perf_hw_id_def enumdecl_perf_msr_id_def
     enumdecl_perf_pmu_scope_def enumdecl_perf_probe_config_def
     enumdecl_perf_record_ksymbol_type_def enumdecl_perf_sample_regs_abi_def
     enumdecl_perf_snb_uncore_imc_freerunning_types_def enumdecl_perf_sw_ids_def
     enumdecl_perf_tgl_uncore_imc_freerunning_types_def enumdecl_perf_type_id_def
     enumdecl_perf_uncore_dmr_iio_freerunning_type_id_def
     enumdecl_perf_uncore_icx_iio_freerunning_type_id_def
     enumdecl_perf_uncore_icx_imc_freerunning_type_id_def
     enumdecl_perf_uncore_iio_freerunning_type_id_def
     enumdecl_perf_uncore_snr_iio_freerunning_type_id_def
     enumdecl_perf_uncore_snr_imc_freerunning_type_id_def
     enumdecl_perf_uncore_spr_iio_freerunning_type_id_def
     enumdecl_perf_uncore_spr_imc_freerunning_type_id_def enumdecl_pg_level_def
     enumdecl_pgdat_flags_def enumdecl_pgt_entry_def enumdecl_pgtable_level_def
     enumdecl_phy_media_def enumdecl_phy_mode_def enumdecl_phy_mse_channel_def
     enumdecl_phy_port_parent_def enumdecl_phy_state_def enumdecl_phy_state_work_def
     enumdecl_phy_tunable_id_def enumdecl_phy_ufs_state_def enumdecl_phy_upstream_def
     enumdecl_phylink_op_type_def enumdecl_pid_type_def enumdecl_pidcg_event_def
     enumdecl_pidfs_attr_mask_bits_def enumdecl_piix_controller_ids_def
     enumdecl_pin_config_param_def enumdecl_pinctrl_map_type_def enumdecl_pkcs7_actions_def
     enumdecl_pkey_id_type_def enumdecl_pkt_hash_types_def enumdecl_pldmfw_update_mode_def
     enumdecl_pm8606_ref_gp_and_osc_clients_def enumdecl_pm_qos_flags_status_def
     enumdecl_pm_qos_req_action_def enum_pm_qos_req_action_def enumdecl_pm_qos_type_def
     enumdecl_pmc_type_def enumdecl_poison_cmd_enabled_bits_def enumdecl_policy_opt_def
     enumdecl_policy_rule_list_def enumdecl_policy_types_def enumdecl_poll_time_type_def
     enumdecl_polling_modes_def enumdecl_pool_workqueue_stats_def enumdecl_port_pkey_state_def
     enumdecl_positive_aop_returns_def enumdecl_posix_timer_state_def
     enumdecl_power_supply_charge_behaviour_def enumdecl_power_supply_charge_type_def
     enumdecl_power_supply_notifier_events_def enumdecl_power_supply_property_def
     enumdecl_power_supply_type_def enumdecl_power_supply_usb_type_def
     enumdecl_pr_direction_def enumdecl_pr_status_def enumdecl_pr_type_def
     enumdecl_preempt_wakeup_action_def enumdecl_prep_dispatch_def enumdecl_print_line_t_def
     enumdecl_printk_info_flags_def enumdecl_prio_policy_def enumdecl_priv_stack_mode_def
     enumdecl_probe_print_type_def enumdecl_probe_type_def enumdecl_proc_cn_mcast_op_def
     enumdecl_proc_hidepid_def enumdecl_proc_mem_force_def enumdecl_proc_param_def
     enumdecl_proc_pidonly_def enumdecl_procfs_ino_def enumdecl_procmap_query_flags_def
     enumdecl_profile_mode_def enumdecl_protection_domain_mode_def enumdecl_prs_errcode_def
     enumdecl_ps2_disposition_def enumdecl_psc_op_def enumdecl_pse_budget_eval_strategies_def
     enumdecl_pse_pi_pairset_pinout_def enumdecl_psi_aggregators_def enumdecl_psi_res_def
     enumdecl_psi_states_def enumdecl_psi_task_count_def enumdecl_psp_version_def
     enumdecl_pstore_type_id_def enumdecl_pt_capabilities_def enumdecl_pt_entry_type_def
     enumdecl_pt_features_def enumdecl_pt_flags_def enumdecl_pt_level_def
     enumdecl_pti_clone_level_def enumdecl_pti_mode_def enumdecl_ptp_clock_events_def
     enumdecl_ptp_pin_function_def enumdecl_pubkey_algo_def enumdecl_pwm_polarity_def
     enum_pwm_polarity_def enumdecl_pxa_ssp_type_def enumdecl_qdisc_class_ops_flags_def
     enumdecl_qdisc_ops_kf_flags_def enumdecl_qdisc_state_t_def enumdecl_quota_type_def
     enumdecl_ramfs_param_def enumdecl_rdma_ah_attr_type_def enumdecl_rdma_driver_id_def
     enumdecl_rdma_link_layer_def enumdecl_rdma_netdev_t_def enumdecl_rdma_nl_counter_mask_def
     enumdecl_rdma_nl_counter_mode_def enumdecl_rdma_nl_dev_type_def)
    (intro enum_list_intros enum_int_intros enumdecl_proc_cn_event_4; simp)

lemma enum_pm_qos_req_action_listed: "EnumDecl False enum_pm_qos_req_action \<in> set enum_decls_16"
  by (simp add: enum_decls_16_def flip: enumdecl_pm_qos_req_action_def)

lemma enum_pwm_polarity_listed: "EnumDecl False enum_pwm_polarity \<in> set enum_decls_16"
  by (simp add: enum_decls_16_def flip: enumdecl_pwm_polarity_def)

lemma length_enum_decls_16: "length enum_decls_16 = 160"
  by (simp add: enum_decls_16_def)

end
