(* ===== verification/VmlinuxEnum17.thy ===== *)
theory VmlinuxEnum17
  imports EnumDecl
begin

text \<open>
  The enumerations of four bytes of \<^verbatim>\<open>src/internal/ebpf/vmlinux.h\<close> between lines 26562 and
  28214, one definition per enumeration, enumerators in order. An enumeration without a tag is
  named after the line it starts on.
\<close>

definition enumdecl_rdma_nl_name_assign_type :: cenum_decl where
  "enumdecl_rdma_nl_name_assign_type = EnumDecl False [
     (''RDMA_NAME_ASSIGN_TYPE_UNKNOWN'', 0), (''RDMA_NAME_ASSIGN_TYPE_USER'', 1)]"

definition enumdecl_rdma_restrack_type :: cenum_decl where
  "enumdecl_rdma_restrack_type = EnumDecl False [
     (''RDMA_RESTRACK_PD'', 0), (''RDMA_RESTRACK_CQ'', 1), (''RDMA_RESTRACK_QP'', 2),
     (''RDMA_RESTRACK_CM_ID'', 3), (''RDMA_RESTRACK_MR'', 4), (''RDMA_RESTRACK_CTX'', 5),
     (''RDMA_RESTRACK_COUNTER'', 6), (''RDMA_RESTRACK_SRQ'', 7), (''RDMA_RESTRACK_DMAH'', 8),
     (''RDMA_RESTRACK_MAX'', 9)]"

definition enumdecl_rdmacg_file_type :: cenum_decl where
  "enumdecl_rdmacg_file_type = EnumDecl False [
     (''RDMACG_RESOURCE_TYPE_MAX'', 0), (''RDMACG_RESOURCE_TYPE_STAT'', 1)]"

definition enumdecl_rdmacg_resource_type :: cenum_decl where
  "enumdecl_rdmacg_resource_type = EnumDecl False [
     (''RDMACG_RESOURCE_HCA_HANDLE'', 0), (''RDMACG_RESOURCE_HCA_OBJECT'', 1),
     (''RDMACG_RESOURCE_MAX'', 2)]"

definition enumdecl_rdt_group_type :: cenum_decl where
  "enumdecl_rdt_group_type = EnumDecl False [
     (''RDTCTRL_GROUP'', 0), (''RDTMON_GROUP'', 1), (''RDT_NUM_GROUP'', 2)]"

definition enumdecl_rdt_param :: cenum_decl where
  "enumdecl_rdt_param = EnumDecl False [
     (''Opt_cdp'', 0), (''Opt_cdpl2'', 1), (''Opt_mba_mbps'', 2), (''Opt_debug___3'', 3),
     (''nr__rdt_params'', 4)]"

definition enumdecl_rdtgrp_mode :: cenum_decl where
  "enumdecl_rdtgrp_mode = EnumDecl False [
     (''RDT_MODE_SHAREABLE'', 0), (''RDT_MODE_EXCLUSIVE'', 1),
     (''RDT_MODE_PSEUDO_LOCKSETUP'', 2), (''RDT_MODE_PSEUDO_LOCKED'', 3), (''RDT_NUM_MODES'', 4)]"

definition enumdecl_reason_type :: cenum_decl where
  "enumdecl_reason_type = EnumDecl False [
     (''NOT_ME'', 0), (''NOTHING'', 1), (''REG_READ'', 2), (''REG_WRITE'', 3),
     (''IMM_WRITE'', 4), (''OTHERS'', 5)]"

definition enumdecl_reboot_mode :: cenum_decl where
  "enumdecl_reboot_mode = EnumDecl False [
     (''REBOOT_UNDEFINED'', - 1), (''REBOOT_COLD'', 0), (''REBOOT_WARM'', 1),
     (''REBOOT_HARD'', 2), (''REBOOT_SOFT'', 3), (''REBOOT_GPIO'', 4)]"

definition enumdecl_reboot_type :: cenum_decl where
  "enumdecl_reboot_type = EnumDecl False [
     (''BOOT_TRIPLE'', 116), (''BOOT_KBD'', 107), (''BOOT_BIOS'', 98), (''BOOT_ACPI'', 97),
     (''BOOT_EFI'', 101), (''BOOT_CF9_FORCE'', 112), (''BOOT_CF9_SAFE'', 113)]"

definition enumdecl_recovery_flags :: cenum_decl where
  "enumdecl_recovery_flags = EnumDecl False [
     (''MD_RECOVERY_NEEDED'', 0), (''MD_RECOVERY_RUNNING'', 1), (''MD_RECOVERY_INTR'', 2),
     (''MD_RECOVERY_DONE'', 3), (''MD_RECOVERY_FROZEN'', 4), (''MD_RECOVERY_WAIT'', 5),
     (''MD_RECOVERY_SYNC'', 6), (''MD_RECOVERY_REQUESTED'', 7), (''MD_RECOVERY_CHECK'', 8),
     (''MD_RECOVERY_RECOVER'', 9), (''MD_RECOVERY_RESHAPE'', 10), (''MD_RESYNCING_REMOTE'', 11),
     (''MD_RECOVERY_LAZY_RECOVER'', 12)]"

definition enumdecl_ref_state_type :: cenum_decl where
  "enumdecl_ref_state_type = EnumDecl False [
     (''REF_TYPE_PTR'', 2), (''REF_TYPE_IRQ'', 4), (''REF_TYPE_LOCK'', 8),
     (''REF_TYPE_RES_LOCK'', 16), (''REF_TYPE_RES_LOCK_IRQ'', 32), (''REF_TYPE_LOCK_MASK'', 56)]"

definition enumdecl_refcount_saturation_type :: cenum_decl where
  "enumdecl_refcount_saturation_type = EnumDecl False [
     (''REFCOUNT_ADD_NOT_ZERO_OVF'', 0), (''REFCOUNT_ADD_OVF'', 1), (''REFCOUNT_ADD_UAF'', 2),
     (''REFCOUNT_SUB_UAF'', 3), (''REFCOUNT_DEC_LEAK'', 4)]"

definition enumdecl_reftype :: cenum_decl where
  "enumdecl_reftype = EnumDecl False [
     (''REF_NS'', 0), (''REF_PROXY'', 1), (''REF_RAWDATA'', 2)]"

definition enumdecl_reg_arg_type :: cenum_decl where
  "enumdecl_reg_arg_type = EnumDecl False [
     (''SRC_OP'', 0), (''DST_OP'', 1), (''DST_OP_NO_MARK'', 2)]"

definition enumdecl_reg_type :: cenum_decl where
  "enumdecl_reg_type = EnumDecl False [
     (''REG_TYPE_RM'', 0), (''REG_TYPE_REG'', 1), (''REG_TYPE_INDEX'', 2), (''REG_TYPE_BASE'', 3)]"

definition enumdecl_regcache_type :: cenum_decl where
  "enumdecl_regcache_type = EnumDecl False [
     (''REGCACHE_NONE'', 0), (''REGCACHE_RBTREE'', 1), (''REGCACHE_FLAT'', 2),
     (''REGCACHE_MAPLE'', 3), (''REGCACHE_FLAT_S'', 4)]"

definition enumdecl_regex_type :: cenum_decl where
  "enumdecl_regex_type = EnumDecl False [
     (''MATCH_FULL'', 0), (''MATCH_FRONT_ONLY'', 1), (''MATCH_MIDDLE_ONLY'', 2),
     (''MATCH_END_ONLY'', 3), (''MATCH_GLOB'', 4), (''MATCH_INDEX'', 5)]"

definition enumdecl_regmap_endian :: cenum_decl where
  "enumdecl_regmap_endian = EnumDecl False [
     (''REGMAP_ENDIAN_DEFAULT'', 0), (''REGMAP_ENDIAN_BIG'', 1), (''REGMAP_ENDIAN_LITTLE'', 2),
     (''REGMAP_ENDIAN_NATIVE'', 3)]"

definition enumdecl_regnames :: cenum_decl where
  "enumdecl_regnames = EnumDecl False [
     (''GDB_AX'', 0), (''GDB_BX'', 1), (''GDB_CX'', 2), (''GDB_DX'', 3), (''GDB_SI'', 4),
     (''GDB_DI'', 5), (''GDB_BP'', 6), (''GDB_SP'', 7), (''GDB_R8'', 8), (''GDB_R9'', 9),
     (''GDB_R10'', 10), (''GDB_R11'', 11), (''GDB_R12'', 12), (''GDB_R13'', 13),
     (''GDB_R14'', 14), (''GDB_R15'', 15), (''GDB_PC'', 16), (''GDB_PS'', 17), (''GDB_CS'', 18),
     (''GDB_SS'', 19), (''GDB_DS'', 20), (''GDB_ES'', 21), (''GDB_FS'', 22), (''GDB_GS'', 23)]"

definition enumdecl_regulator_active_discharge :: cenum_decl where
  "enumdecl_regulator_active_discharge = EnumDecl False [
     (''REGULATOR_ACTIVE_DISCHARGE_DEFAULT'', 0), (''REGULATOR_ACTIVE_DISCHARGE_DISABLE'', 1),
     (''REGULATOR_ACTIVE_DISCHARGE_ENABLE'', 2)]"

definition enumdecl_regulator_detection_severity :: cenum_decl where
  "enumdecl_regulator_detection_severity = EnumDecl False [
     (''REGULATOR_SEVERITY_PROT'', 0), (''REGULATOR_SEVERITY_ERR'', 1),
     (''REGULATOR_SEVERITY_WARN'', 2)]"

definition enumdecl_regulator_get_type :: cenum_decl where
  "enumdecl_regulator_get_type = EnumDecl False [
     (''NORMAL_GET'', 0), (''EXCLUSIVE_GET'', 1), (''OPTIONAL_GET'', 2), (''MAX_GET_TYPE'', 3)]"

definition enumdecl_regulator_status :: cenum_decl where
  "enumdecl_regulator_status = EnumDecl False [
     (''REGULATOR_STATUS_OFF'', 0), (''REGULATOR_STATUS_ON'', 1),
     (''REGULATOR_STATUS_ERROR'', 2), (''REGULATOR_STATUS_FAST'', 3),
     (''REGULATOR_STATUS_NORMAL'', 4), (''REGULATOR_STATUS_IDLE'', 5),
     (''REGULATOR_STATUS_STANDBY'', 6), (''REGULATOR_STATUS_BYPASS'', 7),
     (''REGULATOR_STATUS_UNDEFINED'', 8)]"

definition enumdecl_regulator_type :: cenum_decl where
  "enumdecl_regulator_type = EnumDecl False [
     (''REGULATOR_VOLTAGE'', 0), (''REGULATOR_CURRENT'', 1)]"

definition enumdecl_release_type :: cenum_decl where
  "enumdecl_release_type = EnumDecl False [
     (''leaf_only'', 0), (''whole_subtree'', 1)]"

definition enumdecl_req_flag_bits :: cenum_decl where
  "enumdecl_req_flag_bits = EnumDecl False [
     (''__REQ_FAILFAST_DEV'', 8), (''__REQ_FAILFAST_TRANSPORT'', 9),
     (''__REQ_FAILFAST_DRIVER'', 10), (''__REQ_SYNC'', 11), (''__REQ_META'', 12),
     (''__REQ_PRIO'', 13), (''__REQ_NOMERGE'', 14), (''__REQ_IDLE'', 15),
     (''__REQ_INTEGRITY'', 16), (''__REQ_FUA'', 17), (''__REQ_PREFLUSH'', 18),
     (''__REQ_RAHEAD'', 19), (''__REQ_BACKGROUND'', 20), (''__REQ_NOWAIT'', 21),
     (''__REQ_POLLED'', 22), (''__REQ_ALLOC_CACHE'', 23), (''__REQ_SWAP'', 24),
     (''__REQ_DRV'', 25), (''__REQ_FS_PRIVATE'', 26), (''__REQ_ATOMIC'', 27),
     (''__REQ_NOUNMAP'', 28), (''__REQ_NR_BITS'', 29)]"

definition enumdecl_req_op :: cenum_decl where
  "enumdecl_req_op = EnumDecl False [
     (''REQ_OP_READ'', 0), (''REQ_OP_WRITE'', 1), (''REQ_OP_FLUSH'', 2), (''REQ_OP_DISCARD'', 3),
     (''REQ_OP_SECURE_ERASE'', 5), (''REQ_OP_ZONE_APPEND'', 7), (''REQ_OP_WRITE_ZEROES'', 9),
     (''REQ_OP_ZONE_OPEN'', 11), (''REQ_OP_ZONE_CLOSE'', 13), (''REQ_OP_ZONE_FINISH'', 15),
     (''REQ_OP_ZONE_RESET'', 17), (''REQ_OP_ZONE_RESET_ALL'', 19), (''REQ_OP_DRV_IN'', 34),
     (''REQ_OP_DRV_OUT'', 35), (''REQ_OP_LAST'', 36)]"

definition enumdecl_resctrl_conf_type :: cenum_decl where
  "enumdecl_resctrl_conf_type = EnumDecl False [
     (''CDP_NONE'', 0), (''CDP_CODE'', 1), (''CDP_DATA'', 2)]"

definition enumdecl_resctrl_domain_type :: cenum_decl where
  "enumdecl_resctrl_domain_type = EnumDecl False [
     (''RESCTRL_CTRL_DOMAIN'', 0), (''RESCTRL_MON_DOMAIN'', 1)]"

definition enumdecl_resctrl_event_id :: cenum_decl where
  "enumdecl_resctrl_event_id = EnumDecl False [
     (''QOS_FIRST_EVENT'', 1), (''QOS_L3_OCCUP_EVENT_ID'', 1),
     (''QOS_L3_MBM_TOTAL_EVENT_ID'', 2), (''QOS_L3_MBM_LOCAL_EVENT_ID'', 3),
     (''PMT_EVENT_ENERGY'', 4), (''PMT_EVENT_ACTIVITY'', 5), (''PMT_EVENT_STALLS_LLC_HIT'', 6),
     (''PMT_EVENT_C1_RES'', 7), (''PMT_EVENT_UNHALTED_CORE_CYCLES'', 8),
     (''PMT_EVENT_STALLS_LLC_MISS'', 9), (''PMT_EVENT_AUTO_C6_RES'', 10),
     (''PMT_EVENT_UNHALTED_REF_CYCLES'', 11), (''PMT_EVENT_UOPS_RETIRED'', 12),
     (''QOS_NUM_EVENTS'', 13)]"

definition enumdecl_resctrl_res_level :: cenum_decl where
  "enumdecl_resctrl_res_level = EnumDecl False [
     (''RDT_RESOURCE_L3'', 0), (''RDT_RESOURCE_L2'', 1), (''RDT_RESOURCE_MBA'', 2),
     (''RDT_RESOURCE_SMBA'', 3), (''RDT_RESOURCE_PERF_PKG'', 4), (''RDT_NUM_RESOURCES'', 5)]"

definition enumdecl_resctrl_schema_fmt :: cenum_decl where
  "enumdecl_resctrl_schema_fmt = EnumDecl False [
     (''RESCTRL_SCHEMA_BITMAP'', 0), (''RESCTRL_SCHEMA_RANGE'', 1)]"

definition enumdecl_resctrl_scope :: cenum_decl where
  "enumdecl_resctrl_scope = EnumDecl False [
     (''RESCTRL_L2_CACHE'', 2), (''RESCTRL_L3_CACHE'', 3), (''RESCTRL_L3_NODE'', 4),
     (''RESCTRL_PACKAGE'', 5)]"

definition enumdecl_reset_control_flags :: cenum_decl where
  "enumdecl_reset_control_flags = EnumDecl False [
     (''RESET_CONTROL_EXCLUSIVE'', 4), (''RESET_CONTROL_EXCLUSIVE_DEASSERTED'', 12),
     (''RESET_CONTROL_EXCLUSIVE_RELEASED'', 0), (''RESET_CONTROL_SHARED'', 1),
     (''RESET_CONTROL_SHARED_DEASSERTED'', 9), (''RESET_CONTROL_OPTIONAL_EXCLUSIVE'', 6),
     (''RESET_CONTROL_OPTIONAL_EXCLUSIVE_DEASSERTED'', 14),
     (''RESET_CONTROL_OPTIONAL_EXCLUSIVE_RELEASED'', 2), (''RESET_CONTROL_OPTIONAL_SHARED'', 3),
     (''RESET_CONTROL_OPTIONAL_SHARED_DEASSERTED'', 11)]"

definition enumdecl_resolve_mode :: cenum_decl where
  "enumdecl_resolve_mode = EnumDecl False [
     (''RESOLVE_TBD'', 0), (''RESOLVE_PTR'', 1), (''RESOLVE_STRUCT_OR_ARRAY'', 2)]"

definition enumdecl_retbleed_mitigation :: cenum_decl where
  "enumdecl_retbleed_mitigation = EnumDecl False [
     (''RETBLEED_MITIGATION_NONE'', 0), (''RETBLEED_MITIGATION_AUTO'', 1),
     (''RETBLEED_MITIGATION_UNRET'', 2), (''RETBLEED_MITIGATION_IBPB'', 3),
     (''RETBLEED_MITIGATION_IBRS'', 4), (''RETBLEED_MITIGATION_EIBRS'', 5),
     (''RETBLEED_MITIGATION_STUFF'', 6)]"

definition enumdecl_rfds_mitigations :: cenum_decl where
  "enumdecl_rfds_mitigations = EnumDecl False [
     (''RFDS_MITIGATION_OFF'', 0), (''RFDS_MITIGATION_AUTO'', 1), (''RFDS_MITIGATION_VERW'', 2),
     (''RFDS_MITIGATION_UCODE_NEEDED'', 3)]"

definition enumdecl_rfkill_hard_block_reasons :: cenum_decl where
  "enumdecl_rfkill_hard_block_reasons = EnumDecl False [
     (''RFKILL_HARD_BLOCK_SIGNAL'', 1), (''RFKILL_HARD_BLOCK_NOT_OWNER'', 2)]"

definition enumdecl_rfkill_input_master_mode :: cenum_decl where
  "enumdecl_rfkill_input_master_mode = EnumDecl False [
     (''RFKILL_INPUT_MASTER_UNLOCK'', 0), (''RFKILL_INPUT_MASTER_RESTORE'', 1),
     (''RFKILL_INPUT_MASTER_UNBLOCKALL'', 2), (''NUM_RFKILL_INPUT_MASTER_MODES'', 3)]"

definition enumdecl_rfkill_operation :: cenum_decl where
  "enumdecl_rfkill_operation = EnumDecl False [
     (''RFKILL_OP_ADD'', 0), (''RFKILL_OP_DEL'', 1), (''RFKILL_OP_CHANGE'', 2),
     (''RFKILL_OP_CHANGE_ALL'', 3)]"

definition enumdecl_rfkill_sched_op :: cenum_decl where
  "enumdecl_rfkill_sched_op = EnumDecl False [
     (''RFKILL_GLOBAL_OP_EPO'', 0), (''RFKILL_GLOBAL_OP_RESTORE'', 1),
     (''RFKILL_GLOBAL_OP_UNLOCK'', 2), (''RFKILL_GLOBAL_OP_UNBLOCK'', 3)]"

definition enumdecl_rfkill_type :: cenum_decl where
  "enumdecl_rfkill_type = EnumDecl False [
     (''RFKILL_TYPE_ALL'', 0), (''RFKILL_TYPE_WLAN'', 1), (''RFKILL_TYPE_BLUETOOTH'', 2),
     (''RFKILL_TYPE_UWB'', 3), (''RFKILL_TYPE_WIMAX'', 4), (''RFKILL_TYPE_WWAN'', 5),
     (''RFKILL_TYPE_GPS'', 6), (''RFKILL_TYPE_FM'', 7), (''RFKILL_TYPE_NFC'', 8),
     (''NUM_RFKILL_TYPES'', 9)]"

definition enumdecl_rfkill_user_states :: cenum_decl where
  "enumdecl_rfkill_user_states = EnumDecl False [
     (''RFKILL_USER_STATE_SOFT_BLOCKED'', 0), (''RFKILL_USER_STATE_UNBLOCKED'', 1),
     (''RFKILL_USER_STATE_HARD_BLOCKED'', 2)]"

definition enumdecl_rht_lookup_freq :: cenum_decl where
  "enumdecl_rht_lookup_freq = EnumDecl False [
     (''RHT_LOOKUP_NORMAL'', 0), (''RHT_LOOKUP_LIKELY'', 1)]"

definition enumdecl_ring_buffer_flags :: cenum_decl where
  "enumdecl_ring_buffer_flags = EnumDecl False [
     (''RB_FL_OVERWRITE'', 1)]"

definition enumdecl_ring_buffer_type :: cenum_decl where
  "enumdecl_ring_buffer_type = EnumDecl False [
     (''RINGBUF_TYPE_DATA_TYPE_LEN_MAX'', 28), (''RINGBUF_TYPE_PADDING'', 29),
     (''RINGBUF_TYPE_TIME_EXTEND'', 30), (''RINGBUF_TYPE_TIME_STAMP'', 31)]"

definition enumdecl_rio_device_state :: cenum_decl where
  "enumdecl_rio_device_state = EnumDecl False [
     (''RIO_DEVICE_INITIALIZING'', 0), (''RIO_DEVICE_RUNNING'', 1), (''RIO_DEVICE_GONE'', 2),
     (''RIO_DEVICE_SHUTDOWN'', 3)]"

definition enumdecl_rio_write_type :: cenum_decl where
  "enumdecl_rio_write_type = EnumDecl False [
     (''RDW_DEFAULT'', 0), (''RDW_ALL_NWRITE'', 1), (''RDW_ALL_NWRITE_R'', 2),
     (''RDW_LAST_NWRITE_R'', 3)]"

definition enumdecl_rlimit_type :: cenum_decl where
  "enumdecl_rlimit_type = EnumDecl False [
     (''UCOUNT_RLIMIT_NPROC'', 0), (''UCOUNT_RLIMIT_MSGQUEUE'', 1),
     (''UCOUNT_RLIMIT_SIGPENDING'', 2), (''UCOUNT_RLIMIT_MEMLOCK'', 3),
     (''UCOUNT_RLIMIT_COUNTS'', 4)]"

definition enumdecl_rmqueue_mode :: cenum_decl where
  "enumdecl_rmqueue_mode = EnumDecl False [
     (''RMQUEUE_NORMAL'', 0), (''RMQUEUE_CMA'', 1), (''RMQUEUE_CLAIM'', 2),
     (''RMQUEUE_STEAL'', 3)]"

definition enumdecl_rp_check :: cenum_decl where
  "enumdecl_rp_check = EnumDecl False [
     (''RP_CHECK_CALL'', 0), (''RP_CHECK_CHAIN_CALL'', 1), (''RP_CHECK_RET'', 2)]"

definition enumdecl_rpm_request :: cenum_decl where
  "enumdecl_rpm_request = EnumDecl False [
     (''RPM_REQ_NONE'', 0), (''RPM_REQ_IDLE'', 1), (''RPM_REQ_SUSPEND'', 2),
     (''RPM_REQ_AUTOSUSPEND'', 3), (''RPM_REQ_RESUME'', 4)]"

definition enumdecl_rpm_status :: cenum_decl where
  "enumdecl_rpm_status = EnumDecl False [
     (''RPM_INVALID'', - 1), (''RPM_ACTIVE'', 0), (''RPM_RESUMING'', 1), (''RPM_SUSPENDED'', 2),
     (''RPM_SUSPENDING'', 3), (''RPM_BLOCKED'', 4)]"

definition enumdecl_rproc_crash_type :: cenum_decl where
  "enumdecl_rproc_crash_type = EnumDecl False [
     (''RPROC_MMUFAULT'', 0), (''RPROC_WATCHDOG'', 1), (''RPROC_FATAL_ERROR'', 2)]"

definition enumdecl_rproc_dump_mechanism :: cenum_decl where
  "enumdecl_rproc_dump_mechanism = EnumDecl False [
     (''RPROC_COREDUMP_DISABLED'', 0), (''RPROC_COREDUMP_ENABLED'', 1),
     (''RPROC_COREDUMP_INLINE'', 2)]"

definition enumdecl_rproc_features :: cenum_decl where
  "enumdecl_rproc_features = EnumDecl False [
     (''RPROC_FEAT_ATTACH_ON_RECOVERY'', 0), (''RPROC_MAX_FEATURES'', 1)]"

definition enumdecl_rproc_state :: cenum_decl where
  "enumdecl_rproc_state = EnumDecl False [
     (''RPROC_OFFLINE'', 0), (''RPROC_SUSPENDED'', 1), (''RPROC_RUNNING'', 2),
     (''RPROC_CRASHED'', 3), (''RPROC_DELETED'', 4), (''RPROC_ATTACHED'', 5),
     (''RPROC_DETACHED'', 6), (''RPROC_LAST'', 7)]"

definition enumdecl_rq_end_io_ret :: cenum_decl where
  "enumdecl_rq_end_io_ret = EnumDecl False [
     (''RQ_END_IO_NONE'', 0), (''RQ_END_IO_FREE'', 1)]"

definition enumdecl_rq_qos_id :: cenum_decl where
  "enumdecl_rq_qos_id = EnumDecl False [
     (''RQ_QOS_WBT'', 0), (''RQ_QOS_LATENCY'', 1), (''RQ_QOS_COST'', 2)]"

definition enumdecl_rqf_flags :: cenum_decl where
  "enumdecl_rqf_flags = EnumDecl False [
     (''__RQF_STARTED'', 0), (''__RQF_FLUSH_SEQ'', 1), (''__RQF_MIXED_MERGE'', 2),
     (''__RQF_DONTPREP'', 3), (''__RQF_SCHED_TAGS'', 4), (''__RQF_USE_SCHED'', 5),
     (''__RQF_FAILED'', 6), (''__RQF_QUIET'', 7), (''__RQF_IO_STAT'', 8), (''__RQF_PM'', 9),
     (''__RQF_HASHED'', 10), (''__RQF_STATS'', 11), (''__RQF_SPECIAL_PAYLOAD'', 12),
     (''__RQF_ZONE_WRITE_PLUGGING'', 13), (''__RQF_TIMED_OUT'', 14), (''__RQF_RESV'', 15),
     (''__RQF_BITS'', 16)]"

definition enumdecl_rsaprivkey_actions :: cenum_decl where
  "enumdecl_rsaprivkey_actions = EnumDecl False [
     (''ACT_rsa_get_d'', 0), (''ACT_rsa_get_dp'', 1), (''ACT_rsa_get_dq'', 2),
     (''ACT_rsa_get_e'', 3), (''ACT_rsa_get_n'', 4), (''ACT_rsa_get_p'', 5),
     (''ACT_rsa_get_q'', 6), (''ACT_rsa_get_qinv'', 7), (''NR__rsaprivkey_actions'', 8)]"

definition enumdecl_rsapubkey_actions :: cenum_decl where
  "enumdecl_rsapubkey_actions = EnumDecl False [
     (''ACT_rsa_get_e___2'', 0), (''ACT_rsa_get_n___2'', 1), (''NR__rsapubkey_actions'', 2)]"

definition enumdecl_rsc_handling_status :: cenum_decl where
  "enumdecl_rsc_handling_status = EnumDecl False [
     (''RSC_HANDLED'', 0), (''RSC_IGNORED'', 1)]"

definition enumdecl_rseq_cpu_id_state :: cenum_decl where
  "enumdecl_rseq_cpu_id_state = EnumDecl False [
     (''RSEQ_CPU_ID_UNINITIALIZED'', - 1), (''RSEQ_CPU_ID_REGISTRATION_FAILED'', - 2)]"

definition enumdecl_rseq_cs_flags :: cenum_decl where
  "enumdecl_rseq_cs_flags = EnumDecl False [
     (''RSEQ_CS_FLAG_NO_RESTART_ON_PREEMPT'', 1), (''RSEQ_CS_FLAG_NO_RESTART_ON_SIGNAL'', 2),
     (''RSEQ_CS_FLAG_NO_RESTART_ON_MIGRATE'', 4), (''RSEQ_CS_FLAG_SLICE_EXT_AVAILABLE'', 16),
     (''RSEQ_CS_FLAG_SLICE_EXT_ENABLED'', 32)]"

definition enumdecl_rseq_cs_flags_bit :: cenum_decl where
  "enumdecl_rseq_cs_flags_bit = EnumDecl False [
     (''RSEQ_CS_FLAG_NO_RESTART_ON_PREEMPT_BIT'', 0),
     (''RSEQ_CS_FLAG_NO_RESTART_ON_SIGNAL_BIT'', 1),
     (''RSEQ_CS_FLAG_NO_RESTART_ON_MIGRATE_BIT'', 2),
     (''RSEQ_CS_FLAG_SLICE_EXT_AVAILABLE_BIT'', 4), (''RSEQ_CS_FLAG_SLICE_EXT_ENABLED_BIT'', 5)]"

definition enumdecl_rseq_flags :: cenum_decl where
  "enumdecl_rseq_flags = EnumDecl False [
     (''RSEQ_FLAG_UNREGISTER'', 1), (''RSEQ_FLAG_SLICE_EXT_DEFAULT_ON'', 2)]"

definition enumdecl_rt6_nud_state :: cenum_decl where
  "enumdecl_rt6_nud_state = EnumDecl False [
     (''RT6_NUD_FAIL_HARD'', - 3), (''RT6_NUD_FAIL_PROBE'', - 2), (''RT6_NUD_FAIL_DO_RR'', - 1),
     (''RT6_NUD_SUCCEED'', 1)]"

definition enumdecl_rt_class_t :: cenum_decl where
  "enumdecl_rt_class_t = EnumDecl False [
     (''RT_TABLE_UNSPEC'', 0), (''RT_TABLE_COMPAT'', 252), (''RT_TABLE_DEFAULT'', 253),
     (''RT_TABLE_MAIN'', 254), (''RT_TABLE_LOCAL'', 255), (''RT_TABLE_MAX'', 4294967295)]"

lemma enumdecl_rt_class_t_4: "enum4 enumdecl_rt_class_t"
  by (unfold enumdecl_rt_class_t_def) (intro enum_uint_intros; simp)

definition enumdecl_rt_scope_t :: cenum_decl where
  "enumdecl_rt_scope_t = EnumDecl False [
     (''RT_SCOPE_UNIVERSE'', 0), (''RT_SCOPE_SITE'', 200), (''RT_SCOPE_LINK'', 253),
     (''RT_SCOPE_HOST'', 254), (''RT_SCOPE_NOWHERE'', 255)]"

definition enumdecl_rtattr_type_t :: cenum_decl where
  "enumdecl_rtattr_type_t = EnumDecl False [
     (''RTA_UNSPEC'', 0), (''RTA_DST'', 1), (''RTA_SRC'', 2), (''RTA_IIF'', 3), (''RTA_OIF'', 4),
     (''RTA_GATEWAY'', 5), (''RTA_PRIORITY'', 6), (''RTA_PREFSRC'', 7), (''RTA_METRICS'', 8),
     (''RTA_MULTIPATH'', 9), (''RTA_PROTOINFO'', 10), (''RTA_FLOW'', 11),
     (''RTA_CACHEINFO'', 12), (''RTA_SESSION'', 13), (''RTA_MP_ALGO'', 14), (''RTA_TABLE'', 15),
     (''RTA_MARK'', 16), (''RTA_MFC_STATS'', 17), (''RTA_VIA'', 18), (''RTA_NEWDST'', 19),
     (''RTA_PREF'', 20), (''RTA_ENCAP_TYPE'', 21), (''RTA_ENCAP'', 22), (''RTA_EXPIRES'', 23),
     (''RTA_PAD'', 24), (''RTA_UID'', 25), (''RTA_TTL_PROPAGATE'', 26), (''RTA_IP_PROTO'', 27),
     (''RTA_SPORT'', 28), (''RTA_DPORT'', 29), (''RTA_NH_ID'', 30), (''RTA_FLOWLABEL'', 31),
     (''__RTA_MAX'', 32)]"

definition enumdecl_rtmutex_chainwalk :: cenum_decl where
  "enumdecl_rtmutex_chainwalk = EnumDecl False [
     (''RT_MUTEX_MIN_CHAINWALK'', 0), (''RT_MUTEX_FULL_CHAINWALK'', 1)]"

definition enumdecl_rtnetlink_groups :: cenum_decl where
  "enumdecl_rtnetlink_groups = EnumDecl False [
     (''RTNLGRP_NONE'', 0), (''RTNLGRP_LINK'', 1), (''RTNLGRP_NOTIFY'', 2),
     (''RTNLGRP_NEIGH'', 3), (''RTNLGRP_TC'', 4), (''RTNLGRP_IPV4_IFADDR'', 5),
     (''RTNLGRP_IPV4_MROUTE'', 6), (''RTNLGRP_IPV4_ROUTE'', 7), (''RTNLGRP_IPV4_RULE'', 8),
     (''RTNLGRP_IPV6_IFADDR'', 9), (''RTNLGRP_IPV6_MROUTE'', 10), (''RTNLGRP_IPV6_ROUTE'', 11),
     (''RTNLGRP_IPV6_IFINFO'', 12), (''RTNLGRP_DECnet_IFADDR'', 13), (''RTNLGRP_NOP2'', 14),
     (''RTNLGRP_DECnet_ROUTE'', 15), (''RTNLGRP_DECnet_RULE'', 16), (''RTNLGRP_NOP4'', 17),
     (''RTNLGRP_IPV6_PREFIX'', 18), (''RTNLGRP_IPV6_RULE'', 19), (''RTNLGRP_ND_USEROPT'', 20),
     (''RTNLGRP_PHONET_IFADDR'', 21), (''RTNLGRP_PHONET_ROUTE'', 22), (''RTNLGRP_DCB'', 23),
     (''RTNLGRP_IPV4_NETCONF'', 24), (''RTNLGRP_IPV6_NETCONF'', 25), (''RTNLGRP_MDB'', 26),
     (''RTNLGRP_MPLS_ROUTE'', 27), (''RTNLGRP_NSID'', 28), (''RTNLGRP_MPLS_NETCONF'', 29),
     (''RTNLGRP_IPV4_MROUTE_R'', 30), (''RTNLGRP_IPV6_MROUTE_R'', 31), (''RTNLGRP_NEXTHOP'', 32),
     (''RTNLGRP_BRVLAN'', 33), (''RTNLGRP_MCTP_IFADDR'', 34), (''RTNLGRP_TUNNEL'', 35),
     (''RTNLGRP_STATS'', 36), (''RTNLGRP_IPV4_MCADDR'', 37), (''RTNLGRP_IPV6_MCADDR'', 38),
     (''RTNLGRP_IPV6_ACADDR'', 39), (''__RTNLGRP_MAX'', 40)]"

definition enumdecl_rtnl_kinds :: cenum_decl where
  "enumdecl_rtnl_kinds = EnumDecl False [
     (''RTNL_KIND_NEW'', 0), (''RTNL_KIND_DEL'', 1), (''RTNL_KIND_GET'', 2),
     (''RTNL_KIND_SET'', 3)]"

definition enumdecl_rtnl_link_flags :: cenum_decl where
  "enumdecl_rtnl_link_flags = EnumDecl False [
     (''RTNL_FLAG_DOIT_UNLOCKED'', 1), (''RTNL_FLAG_BULK_DEL_SUPPORTED'', 2),
     (''RTNL_FLAG_DUMP_UNLOCKED'', 4), (''RTNL_FLAG_DUMP_SPLIT_NLM_DONE'', 8)]"

definition enumdecl_rwsem_waiter_type :: cenum_decl where
  "enumdecl_rwsem_waiter_type = EnumDecl False [
     (''RWSEM_WAITING_FOR_WRITE'', 0), (''RWSEM_WAITING_FOR_READ'', 1)]"

definition enumdecl_rwsem_wake_type :: cenum_decl where
  "enumdecl_rwsem_wake_type = EnumDecl False [
     (''RWSEM_WAKE_ANY'', 0), (''RWSEM_WAKE_READERS'', 1), (''RWSEM_WAKE_READ_OWNED'', 2)]"

definition enumdecl_rx_handler_result :: cenum_decl where
  "enumdecl_rx_handler_result = EnumDecl False [
     (''RX_HANDLER_CONSUMED'', 0), (''RX_HANDLER_ANOTHER'', 1), (''RX_HANDLER_EXACT'', 2),
     (''RX_HANDLER_PASS'', 3)]"

definition enumdecl_s2idle_states :: cenum_decl where
  "enumdecl_s2idle_states = EnumDecl False [
     (''S2IDLE_STATE_NONE'', 0), (''S2IDLE_STATE_ENTER'', 1), (''S2IDLE_STATE_WAKE'', 2)]"

definition enumdecl_s_alloc :: cenum_decl where
  "enumdecl_s_alloc = EnumDecl False [
     (''sa_rootdomain'', 0), (''sa_sd'', 1), (''sa_sd_storage'', 2), (''sa_none'', 3)]"

definition enumdecl_sam_status :: cenum_decl where
  "enumdecl_sam_status = EnumDecl False [
     (''SAM_STAT_GOOD'', 0), (''SAM_STAT_CHECK_CONDITION'', 2), (''SAM_STAT_CONDITION_MET'', 4),
     (''SAM_STAT_BUSY'', 8), (''SAM_STAT_INTERMEDIATE'', 16),
     (''SAM_STAT_INTERMEDIATE_CONDITION_MET'', 20), (''SAM_STAT_RESERVATION_CONFLICT'', 24),
     (''SAM_STAT_COMMAND_TERMINATED'', 34), (''SAM_STAT_TASK_SET_FULL'', 40),
     (''SAM_STAT_ACA_ACTIVE'', 48), (''SAM_STAT_TASK_ABORTED'', 64)]"

definition enumdecl_scan_balance :: cenum_decl where
  "enumdecl_scan_balance = EnumDecl False [
     (''SCAN_EQUAL'', 0), (''SCAN_FRACT'', 1), (''SCAN_ANON'', 2), (''SCAN_FILE'', 3)]"

definition enumdecl_scan_result :: cenum_decl where
  "enumdecl_scan_result = EnumDecl False [
     (''SCAN_FAIL'', 0), (''SCAN_SUCCEED'', 1), (''SCAN_NO_PTE_TABLE'', 2),
     (''SCAN_PMD_MAPPED'', 3), (''SCAN_EXCEED_NONE_PTE'', 4), (''SCAN_EXCEED_SWAP_PTE'', 5),
     (''SCAN_EXCEED_SHARED_PTE'', 6), (''SCAN_PTE_NON_PRESENT'', 7), (''SCAN_PTE_UFFD_WP'', 8),
     (''SCAN_PTE_MAPPED_HUGEPAGE'', 9), (''SCAN_LACK_REFERENCED_PAGE'', 10),
     (''SCAN_PAGE_NULL'', 11), (''SCAN_SCAN_ABORT'', 12), (''SCAN_PAGE_COUNT'', 13),
     (''SCAN_PAGE_LRU'', 14), (''SCAN_PAGE_LOCK'', 15), (''SCAN_PAGE_ANON'', 16),
     (''SCAN_PAGE_COMPOUND'', 17), (''SCAN_ANY_PROCESS'', 18), (''SCAN_VMA_NULL'', 19),
     (''SCAN_VMA_CHECK'', 20), (''SCAN_ADDRESS_RANGE'', 21), (''SCAN_DEL_PAGE_LRU'', 22),
     (''SCAN_ALLOC_HUGE_PAGE_FAIL'', 23), (''SCAN_CGROUP_CHARGE_FAIL'', 24),
     (''SCAN_TRUNCATED'', 25), (''SCAN_PAGE_HAS_PRIVATE'', 26), (''SCAN_STORE_FAILED'', 27),
     (''SCAN_COPY_MC'', 28), (''SCAN_PAGE_FILLED'', 29), (''SCAN_PAGE_DIRTY_OR_WRITEBACK'', 30)]"

definition enumdecl_sched_tunable_scaling :: cenum_decl where
  "enumdecl_sched_tunable_scaling = EnumDecl False [
     (''SCHED_TUNABLESCALING_NONE'', 0), (''SCHED_TUNABLESCALING_LOG'', 1),
     (''SCHED_TUNABLESCALING_LINEAR'', 2), (''SCHED_TUNABLESCALING_END'', 3)]"

definition enumdecl_scrub_type :: cenum_decl where
  "enumdecl_scrub_type = EnumDecl False [
     (''SCRUB_UNKNOWN'', 0), (''SCRUB_NONE'', 1), (''SCRUB_SW_PROG'', 2), (''SCRUB_SW_SRC'', 3),
     (''SCRUB_SW_PROG_SRC'', 4), (''SCRUB_SW_TUNABLE'', 5), (''SCRUB_HW_PROG'', 6),
     (''SCRUB_HW_SRC'', 7), (''SCRUB_HW_PROG_SRC'', 8), (''SCRUB_HW_TUNABLE'', 9)]"

definition enumdecl_scsi_device_event :: cenum_decl where
  "enumdecl_scsi_device_event = EnumDecl False [
     (''SDEV_EVT_MEDIA_CHANGE'', 1), (''SDEV_EVT_INQUIRY_CHANGE_REPORTED'', 2),
     (''SDEV_EVT_CAPACITY_CHANGE_REPORTED'', 3),
     (''SDEV_EVT_SOFT_THRESHOLD_REACHED_REPORTED'', 4),
     (''SDEV_EVT_MODE_PARAMETER_CHANGE_REPORTED'', 5), (''SDEV_EVT_LUN_CHANGE_REPORTED'', 6),
     (''SDEV_EVT_ALUA_STATE_CHANGE_REPORTED'', 7), (''SDEV_EVT_POWER_ON_RESET_OCCURRED'', 8),
     (''SDEV_EVT_FIRST'', 1), (''SDEV_EVT_LAST'', 8), (''SDEV_EVT_MAXBITS'', 9)]"

definition enumdecl_scsi_device_state :: cenum_decl where
  "enumdecl_scsi_device_state = EnumDecl False [
     (''SDEV_CREATED'', 1), (''SDEV_RUNNING'', 2), (''SDEV_CANCEL'', 3), (''SDEV_DEL'', 4),
     (''SDEV_QUIESCE'', 5), (''SDEV_OFFLINE'', 6), (''SDEV_TRANSPORT_OFFLINE'', 7),
     (''SDEV_BLOCK'', 8), (''SDEV_CREATED_BLOCK'', 9)]"

definition enumdecl_scsi_devinfo_key :: cenum_decl where
  "enumdecl_scsi_devinfo_key = EnumDecl False [
     (''SCSI_DEVINFO_GLOBAL'', 0), (''SCSI_DEVINFO_SPI'', 1)]"

definition enumdecl_scsi_disposition :: cenum_decl where
  "enumdecl_scsi_disposition = EnumDecl False [
     (''NEEDS_RETRY'', 8193), (''SUCCESS'', 8194), (''FAILED'', 8195), (''QUEUED'', 8196),
     (''SOFT_ERROR'', 8197), (''ADD_TO_MLQUEUE'', 8198), (''TIMEOUT_ERROR'', 8199),
     (''SCSI_RETURN_NOT_HANDLED'', 8200), (''FAST_IO_FAIL'', 8201)]"

definition enumdecl_scsi_host_guard_type :: cenum_decl where
  "enumdecl_scsi_host_guard_type = EnumDecl False [
     (''SHOST_DIX_GUARD_CRC'', 1), (''SHOST_DIX_GUARD_IP'', 2)]"

definition enumdecl_scsi_host_prot_capabilities :: cenum_decl where
  "enumdecl_scsi_host_prot_capabilities = EnumDecl False [
     (''SHOST_DIF_TYPE1_PROTECTION'', 1), (''SHOST_DIF_TYPE2_PROTECTION'', 2),
     (''SHOST_DIF_TYPE3_PROTECTION'', 4), (''SHOST_DIX_TYPE0_PROTECTION'', 8),
     (''SHOST_DIX_TYPE1_PROTECTION'', 16), (''SHOST_DIX_TYPE2_PROTECTION'', 32),
     (''SHOST_DIX_TYPE3_PROTECTION'', 64)]"

definition enumdecl_scsi_host_state :: cenum_decl where
  "enumdecl_scsi_host_state = EnumDecl False [
     (''SHOST_CREATED'', 1), (''SHOST_RUNNING'', 2), (''SHOST_CANCEL'', 3), (''SHOST_DEL'', 4),
     (''SHOST_RECOVERY'', 5), (''SHOST_CANCEL_RECOVERY'', 6), (''SHOST_DEL_RECOVERY'', 7)]"

definition enumdecl_scsi_host_status :: cenum_decl where
  "enumdecl_scsi_host_status = EnumDecl False [
     (''DID_OK'', 0), (''DID_NO_CONNECT'', 1), (''DID_BUS_BUSY'', 2), (''DID_TIME_OUT'', 3),
     (''DID_BAD_TARGET'', 4), (''DID_ABORT'', 5), (''DID_PARITY'', 6), (''DID_ERROR'', 7),
     (''DID_RESET'', 8), (''DID_BAD_INTR'', 9), (''DID_PASSTHROUGH'', 10),
     (''DID_SOFT_ERROR'', 11), (''DID_IMM_RETRY'', 12), (''DID_REQUEUE'', 13),
     (''DID_TRANSPORT_DISRUPTED'', 14), (''DID_TRANSPORT_FAILFAST'', 15),
     (''DID_TRANSPORT_MARGINAL'', 20)]"

definition enumdecl_scsi_ml_status :: cenum_decl where
  "enumdecl_scsi_ml_status = EnumDecl False [
     (''SCSIML_STAT_OK'', 0), (''SCSIML_STAT_RESV_CONFLICT'', 1), (''SCSIML_STAT_NOSPC'', 2),
     (''SCSIML_STAT_MED_ERROR'', 3), (''SCSIML_STAT_TGT_FAILURE'', 4),
     (''SCSIML_STAT_DL_TIMEOUT'', 5)]"

definition enumdecl_scsi_msg_byte :: cenum_decl where
  "enumdecl_scsi_msg_byte = EnumDecl False [
     (''COMMAND_COMPLETE'', 0), (''EXTENDED_MESSAGE'', 1), (''SAVE_POINTERS'', 2),
     (''RESTORE_POINTERS'', 3), (''DISCONNECT'', 4), (''INITIATOR_ERROR'', 5),
     (''ABORT_TASK_SET'', 6), (''MESSAGE_REJECT'', 7), (''NOP___2'', 8),
     (''MSG_PARITY_ERROR'', 9), (''LINKED_CMD_COMPLETE'', 10), (''LINKED_FLG_CMD_COMPLETE'', 11),
     (''TARGET_RESET'', 12), (''ABORT_TASK'', 13), (''CLEAR_TASK_SET'', 14),
     (''INITIATE_RECOVERY'', 15), (''RELEASE_RECOVERY'', 16), (''TERMINATE_IO_PROC'', 17),
     (''CLEAR_ACA'', 22), (''LOGICAL_UNIT_RESET'', 23), (''SIMPLE_QUEUE_TAG'', 32),
     (''HEAD_OF_QUEUE_TAG'', 33), (''ORDERED_QUEUE_TAG'', 34), (''IGNORE_WIDE_RESIDUE'', 35),
     (''ACA'', 36), (''QAS_REQUEST'', 85), (''BUS_DEVICE_RESET'', 12), (''ABORT'', 6)]"

definition enumdecl_scsi_pr_type :: cenum_decl where
  "enumdecl_scsi_pr_type = EnumDecl False [
     (''SCSI_PR_WRITE_EXCLUSIVE'', 1), (''SCSI_PR_EXCLUSIVE_ACCESS'', 3),
     (''SCSI_PR_WRITE_EXCLUSIVE_REG_ONLY'', 5), (''SCSI_PR_EXCLUSIVE_ACCESS_REG_ONLY'', 6),
     (''SCSI_PR_WRITE_EXCLUSIVE_ALL_REGS'', 7), (''SCSI_PR_EXCLUSIVE_ACCESS_ALL_REGS'', 8)]"

definition enumdecl_scsi_prot_flags :: cenum_decl where
  "enumdecl_scsi_prot_flags = EnumDecl False [
     (''SCSI_PROT_TRANSFER_PI'', 1), (''SCSI_PROT_GUARD_CHECK'', 2),
     (''SCSI_PROT_REF_CHECK'', 4), (''SCSI_PROT_REF_INCREMENT'', 8),
     (''SCSI_PROT_IP_CHECKSUM'', 16)]"

definition enumdecl_scsi_prot_operations :: cenum_decl where
  "enumdecl_scsi_prot_operations = EnumDecl False [
     (''SCSI_PROT_NORMAL'', 0), (''SCSI_PROT_READ_INSERT'', 1), (''SCSI_PROT_WRITE_STRIP'', 2),
     (''SCSI_PROT_READ_STRIP'', 3), (''SCSI_PROT_WRITE_INSERT'', 4),
     (''SCSI_PROT_READ_PASS'', 5), (''SCSI_PROT_WRITE_PASS'', 6)]"

definition enumdecl_scsi_qc_status :: cenum_decl where
  "enumdecl_scsi_qc_status = EnumDecl False [
     (''SCSI_MLQUEUE_HOST_BUSY'', 4181), (''SCSI_MLQUEUE_DEVICE_BUSY'', 4182),
     (''SCSI_MLQUEUE_EH_RETRY'', 4183), (''SCSI_MLQUEUE_TARGET_BUSY'', 4184)]"

definition enumdecl_scsi_scan_mode :: cenum_decl where
  "enumdecl_scsi_scan_mode = EnumDecl False [
     (''SCSI_SCAN_INITIAL'', 0), (''SCSI_SCAN_RESCAN'', 1), (''SCSI_SCAN_MANUAL'', 2)]"

definition enumdecl_scsi_target_state :: cenum_decl where
  "enumdecl_scsi_target_state = EnumDecl False [
     (''STARGET_CREATED'', 1), (''STARGET_RUNNING'', 2), (''STARGET_REMOVE'', 3),
     (''STARGET_CREATED_REMOVE'', 4), (''STARGET_DEL'', 5)]"

definition enumdecl_scsi_timeout_action :: cenum_decl where
  "enumdecl_scsi_timeout_action = EnumDecl False [
     (''SCSI_EH_DONE'', 0), (''SCSI_EH_RESET_TIMER'', 1), (''SCSI_EH_NOT_HANDLED'', 2)]"

definition enumdecl_scsi_timeouts :: cenum_decl where
  "enumdecl_scsi_timeouts = EnumDecl False [
     (''SCSI_DEFAULT_EH_TIMEOUT'', 10000)]"

definition enumdecl_scsi_vpd_parameters :: cenum_decl where
  "enumdecl_scsi_vpd_parameters = EnumDecl False [
     (''SCSI_VPD_HEADER_SIZE'', 4), (''SCSI_VPD_LIST_SIZE'', 36)]"

definition enumdecl_sctp_cid :: cenum_decl where
  "enumdecl_sctp_cid = EnumDecl False [
     (''SCTP_CID_DATA'', 0), (''SCTP_CID_INIT'', 1), (''SCTP_CID_INIT_ACK'', 2),
     (''SCTP_CID_SACK'', 3), (''SCTP_CID_HEARTBEAT'', 4), (''SCTP_CID_HEARTBEAT_ACK'', 5),
     (''SCTP_CID_ABORT'', 6), (''SCTP_CID_SHUTDOWN'', 7), (''SCTP_CID_SHUTDOWN_ACK'', 8),
     (''SCTP_CID_ERROR'', 9), (''SCTP_CID_COOKIE_ECHO'', 10), (''SCTP_CID_COOKIE_ACK'', 11),
     (''SCTP_CID_ECN_ECNE'', 12), (''SCTP_CID_ECN_CWR'', 13),
     (''SCTP_CID_SHUTDOWN_COMPLETE'', 14), (''SCTP_CID_AUTH'', 15), (''SCTP_CID_I_DATA'', 64),
     (''SCTP_CID_FWD_TSN'', 192), (''SCTP_CID_ASCONF'', 193), (''SCTP_CID_I_FWD_TSN'', 194),
     (''SCTP_CID_ASCONF_ACK'', 128), (''SCTP_CID_RECONF'', 130), (''SCTP_CID_PAD'', 132)]"

definition enumdecl_sctp_conntrack :: cenum_decl where
  "enumdecl_sctp_conntrack = EnumDecl False [
     (''SCTP_CONNTRACK_NONE'', 0), (''SCTP_CONNTRACK_CLOSED'', 1),
     (''SCTP_CONNTRACK_COOKIE_WAIT'', 2), (''SCTP_CONNTRACK_COOKIE_ECHOED'', 3),
     (''SCTP_CONNTRACK_ESTABLISHED'', 4), (''SCTP_CONNTRACK_SHUTDOWN_SENT'', 5),
     (''SCTP_CONNTRACK_SHUTDOWN_RECD'', 6), (''SCTP_CONNTRACK_SHUTDOWN_ACK_SENT'', 7),
     (''SCTP_CONNTRACK_HEARTBEAT_SENT'', 8), (''SCTP_CONNTRACK_HEARTBEAT_ACKED'', 9),
     (''SCTP_CONNTRACK_MAX'', 10)]"

definition enumdecl_sctp_endpoint_type :: cenum_decl where
  "enumdecl_sctp_endpoint_type = EnumDecl False [
     (''SCTP_EP_TYPE_SOCKET'', 0), (''SCTP_EP_TYPE_ASSOCIATION'', 1)]"

definition enumdecl_sctp_event_timeout :: cenum_decl where
  "enumdecl_sctp_event_timeout = EnumDecl False [
     (''SCTP_EVENT_TIMEOUT_NONE'', 0), (''SCTP_EVENT_TIMEOUT_T1_COOKIE'', 1),
     (''SCTP_EVENT_TIMEOUT_T1_INIT'', 2), (''SCTP_EVENT_TIMEOUT_T2_SHUTDOWN'', 3),
     (''SCTP_EVENT_TIMEOUT_T3_RTX'', 4), (''SCTP_EVENT_TIMEOUT_T4_RTO'', 5),
     (''SCTP_EVENT_TIMEOUT_T5_SHUTDOWN_GUARD'', 6), (''SCTP_EVENT_TIMEOUT_HEARTBEAT'', 7),
     (''SCTP_EVENT_TIMEOUT_RECONF'', 8), (''SCTP_EVENT_TIMEOUT_PROBE'', 9),
     (''SCTP_EVENT_TIMEOUT_SACK'', 10), (''SCTP_EVENT_TIMEOUT_AUTOCLOSE'', 11)]"

definition enumdecl_sctp_msg_flags :: cenum_decl where
  "enumdecl_sctp_msg_flags = EnumDecl False [
     (''MSG_NOTIFICATION'', 32768)]"

definition enumdecl_sctp_param :: cenum_decl where
  "enumdecl_sctp_param = EnumDecl False [
     (''SCTP_PARAM_HEARTBEAT_INFO'', 256), (''SCTP_PARAM_IPV4_ADDRESS'', 1280),
     (''SCTP_PARAM_IPV6_ADDRESS'', 1536), (''SCTP_PARAM_STATE_COOKIE'', 1792),
     (''SCTP_PARAM_UNRECOGNIZED_PARAMETERS'', 2048), (''SCTP_PARAM_COOKIE_PRESERVATIVE'', 2304),
     (''SCTP_PARAM_HOST_NAME_ADDRESS'', 2816), (''SCTP_PARAM_SUPPORTED_ADDRESS_TYPES'', 3072),
     (''SCTP_PARAM_ECN_CAPABLE'', 128), (''SCTP_PARAM_RANDOM'', 640),
     (''SCTP_PARAM_CHUNKS'', 896), (''SCTP_PARAM_HMAC_ALGO'', 1152),
     (''SCTP_PARAM_SUPPORTED_EXT'', 2176), (''SCTP_PARAM_FWD_TSN_SUPPORT'', 192),
     (''SCTP_PARAM_ADD_IP'', 448), (''SCTP_PARAM_DEL_IP'', 704), (''SCTP_PARAM_ERR_CAUSE'', 960),
     (''SCTP_PARAM_SET_PRIMARY'', 1216), (''SCTP_PARAM_SUCCESS_REPORT'', 1472),
     (''SCTP_PARAM_ADAPTATION_LAYER_IND'', 1728), (''SCTP_PARAM_RESET_OUT_REQUEST'', 3328),
     (''SCTP_PARAM_RESET_IN_REQUEST'', 3584), (''SCTP_PARAM_RESET_TSN_REQUEST'', 3840),
     (''SCTP_PARAM_RESET_RESPONSE'', 4096), (''SCTP_PARAM_RESET_ADD_OUT_STREAMS'', 4352),
     (''SCTP_PARAM_RESET_ADD_IN_STREAMS'', 4608)]"

definition enumdecl_sctp_scope :: cenum_decl where
  "enumdecl_sctp_scope = EnumDecl False [
     (''SCTP_SCOPE_GLOBAL'', 0), (''SCTP_SCOPE_PRIVATE'', 1), (''SCTP_SCOPE_LINK'', 2),
     (''SCTP_SCOPE_LOOPBACK'', 3), (''SCTP_SCOPE_UNUSABLE'', 4)]"

definition enumdecl_sctp_socket_type :: cenum_decl where
  "enumdecl_sctp_socket_type = EnumDecl False [
     (''SCTP_SOCKET_UDP'', 0), (''SCTP_SOCKET_UDP_HIGH_BANDWIDTH'', 1), (''SCTP_SOCKET_TCP'', 2)]"

definition enumdecl_sctp_state :: cenum_decl where
  "enumdecl_sctp_state = EnumDecl False [
     (''SCTP_STATE_CLOSED'', 0), (''SCTP_STATE_COOKIE_WAIT'', 1),
     (''SCTP_STATE_COOKIE_ECHOED'', 2), (''SCTP_STATE_ESTABLISHED'', 3),
     (''SCTP_STATE_SHUTDOWN_PENDING'', 4), (''SCTP_STATE_SHUTDOWN_SENT'', 5),
     (''SCTP_STATE_SHUTDOWN_RECEIVED'', 6), (''SCTP_STATE_SHUTDOWN_ACK_SENT'', 7)]"

definition enumdecl_scx_consts :: cenum_decl where
  "enumdecl_scx_consts = EnumDecl False [
     (''SCX_DSP_DFL_MAX_BATCH'', 32), (''SCX_DSP_MAX_LOOPS'', 32),
     (''SCX_WATCHDOG_MAX_TIMEOUT'', 30000), (''SCX_EXIT_BT_LEN'', 64),
     (''SCX_EXIT_MSG_LEN'', 1024), (''SCX_EXIT_DUMP_DFL_LEN'', 32768),
     (''SCX_CPUPERF_ONE'', 1024), (''SCX_TASK_ITER_BATCH'', 32),
     (''SCX_BYPASS_LB_DFL_INTV_US'', 500000), (''SCX_BYPASS_LB_DONOR_PCT'', 125),
     (''SCX_BYPASS_LB_MIN_DELTA_DIV'', 4), (''SCX_BYPASS_LB_BATCH'', 256)]"

definition enumdecl_scx_cpu_preempt_reason :: cenum_decl where
  "enumdecl_scx_cpu_preempt_reason = EnumDecl False [
     (''SCX_CPU_PREEMPT_RT'', 0), (''SCX_CPU_PREEMPT_DL'', 1), (''SCX_CPU_PREEMPT_STOP'', 2),
     (''SCX_CPU_PREEMPT_UNKNOWN'', 3)]"

definition enumdecl_scx_dsq_iter_flags :: cenum_decl where
  "enumdecl_scx_dsq_iter_flags = EnumDecl False [
     (''SCX_DSQ_ITER_REV'', 65536), (''__SCX_DSQ_ITER_HAS_SLICE'', 1073741824),
     (''__SCX_DSQ_ITER_HAS_VTIME'', 2147483648), (''__SCX_DSQ_ITER_USER_FLAGS'', 65536),
     (''__SCX_DSQ_ITER_ALL_FLAGS'', 3221291008)]"

lemma enumdecl_scx_dsq_iter_flags_4: "enum4 enumdecl_scx_dsq_iter_flags"
  by (unfold enumdecl_scx_dsq_iter_flags_def) (intro enum_uint_intros; simp)

definition enumdecl_scx_dsq_lnode_flags :: cenum_decl where
  "enumdecl_scx_dsq_lnode_flags = EnumDecl False [
     (''SCX_DSQ_LNODE_ITER_CURSOR'', 1), (''__SCX_DSQ_LNODE_PRIV_SHIFT'', 16)]"

definition enumdecl_scx_enable_state :: cenum_decl where
  "enumdecl_scx_enable_state = EnumDecl False [
     (''SCX_ENABLING'', 0), (''SCX_ENABLED'', 1), (''SCX_DISABLING'', 2), (''SCX_DISABLED'', 3)]"

definition enumdecl_scx_ent_dsq_flags :: cenum_decl where
  "enumdecl_scx_ent_dsq_flags = EnumDecl False [
     (''SCX_TASK_DSQ_ON_PRIQ'', 1)]"

definition enumdecl_scx_ent_flags :: cenum_decl where
  "enumdecl_scx_ent_flags = EnumDecl False [
     (''SCX_TASK_QUEUED'', 1), (''SCX_TASK_RESET_RUNNABLE_AT'', 4),
     (''SCX_TASK_DEQD_FOR_SLEEP'', 8), (''SCX_TASK_STATE_SHIFT'', 8),
     (''SCX_TASK_STATE_BITS'', 2), (''SCX_TASK_STATE_MASK'', 768),
     (''SCX_TASK_CURSOR'', - 2147483648)]"

definition enumdecl_scx_exit_flags :: cenum_decl where
  "enumdecl_scx_exit_flags = EnumDecl False [
     (''SCX_EFLAG_INITIALIZED'', 1)]"

definition enumdecl_scx_exit_kind :: cenum_decl where
  "enumdecl_scx_exit_kind = EnumDecl False [
     (''SCX_EXIT_NONE'', 0), (''SCX_EXIT_DONE'', 1), (''SCX_EXIT_UNREG'', 64),
     (''SCX_EXIT_UNREG_BPF'', 65), (''SCX_EXIT_UNREG_KERN'', 66), (''SCX_EXIT_SYSRQ'', 67),
     (''SCX_EXIT_ERROR'', 1024), (''SCX_EXIT_ERROR_BPF'', 1025), (''SCX_EXIT_ERROR_STALL'', 1026)]"

definition enumdecl_scx_kf_mask :: cenum_decl where
  "enumdecl_scx_kf_mask = EnumDecl False [
     (''SCX_KF_UNLOCKED'', 0), (''SCX_KF_CPU_RELEASE'', 1), (''SCX_KF_DISPATCH'', 2),
     (''SCX_KF_ENQUEUE'', 4), (''SCX_KF_SELECT_CPU'', 8), (''SCX_KF_REST'', 16),
     (''__SCX_KF_RQ_LOCKED'', 31), (''__SCX_KF_TERMINAL'', 28)]"

definition enumdecl_scx_kick_flags :: cenum_decl where
  "enumdecl_scx_kick_flags = EnumDecl False [
     (''SCX_KICK_IDLE'', 1), (''SCX_KICK_PREEMPT'', 2), (''SCX_KICK_WAIT'', 4)]"

definition enumdecl_scx_opi :: cenum_decl where
  "enumdecl_scx_opi = EnumDecl False [
     (''SCX_OPI_BEGIN'', 0), (''SCX_OPI_NORMAL_BEGIN'', 0), (''SCX_OPI_NORMAL_END'', 31),
     (''SCX_OPI_CPU_HOTPLUG_BEGIN'', 31), (''SCX_OPI_CPU_HOTPLUG_END'', 33),
     (''SCX_OPI_END'', 33)]"

definition enumdecl_scx_ops_state :: cenum_decl where
  "enumdecl_scx_ops_state = EnumDecl False [
     (''SCX_OPSS_NONE'', 0), (''SCX_OPSS_QUEUEING'', 1), (''SCX_OPSS_QUEUED'', 2),
     (''SCX_OPSS_DISPATCHING'', 3), (''SCX_OPSS_QSEQ_SHIFT'', 2)]"

definition enumdecl_scx_pick_idle_cpu_flags :: cenum_decl where
  "enumdecl_scx_pick_idle_cpu_flags = EnumDecl False [
     (''SCX_PICK_IDLE_CORE'', 1), (''SCX_PICK_IDLE_IN_NODE'', 2)]"

definition enumdecl_scx_rq_flags :: cenum_decl where
  "enumdecl_scx_rq_flags = EnumDecl False [
     (''SCX_RQ_ONLINE'', 1), (''SCX_RQ_CAN_STOP_TICK'', 2), (''SCX_RQ_BAL_KEEP'', 8),
     (''SCX_RQ_BYPASSING'', 16), (''SCX_RQ_CLK_VALID'', 32), (''SCX_RQ_BAL_CB_PENDING'', 64),
     (''SCX_RQ_IN_WAKEUP'', 65536), (''SCX_RQ_IN_BALANCE'', 131072)]"

definition enumdecl_scx_task_state :: cenum_decl where
  "enumdecl_scx_task_state = EnumDecl False [
     (''SCX_TASK_NONE'', 0), (''SCX_TASK_INIT'', 1), (''SCX_TASK_READY'', 2),
     (''SCX_TASK_ENABLED'', 3), (''SCX_TASK_NR_STATES'', 4)]"

definition enumdecl_scx_tg_flags :: cenum_decl where
  "enumdecl_scx_tg_flags = EnumDecl False [
     (''SCX_TG_ONLINE'', 1), (''SCX_TG_INITED'', 2)]"

definition enumdecl_scx_wake_flags :: cenum_decl where
  "enumdecl_scx_wake_flags = EnumDecl False [
     (''SCX_WAKE_FORK'', 4), (''SCX_WAKE_TTWU'', 8), (''SCX_WAKE_SYNC'', 16)]"

definition enumdecl_sd_uhs2_operation :: cenum_decl where
  "enumdecl_sd_uhs2_operation = EnumDecl False [
     (''UHS2_PHY_INIT'', 0), (''UHS2_SET_CONFIG'', 1), (''UHS2_ENABLE_INT'', 2),
     (''UHS2_DISABLE_INT'', 3), (''UHS2_ENABLE_CLK'', 4), (''UHS2_DISABLE_CLK'', 5),
     (''UHS2_CHECK_DORMANT'', 6), (''UHS2_SET_IOS'', 7)]"

definition enumdecl_security_cmd_enabled_bits :: cenum_decl where
  "enumdecl_security_cmd_enabled_bits = EnumDecl False [
     (''CXL_SEC_ENABLED_SANITIZE'', 0), (''CXL_SEC_ENABLED_SECURE_ERASE'', 1),
     (''CXL_SEC_ENABLED_GET_SECURITY_STATE'', 2), (''CXL_SEC_ENABLED_SET_PASSPHRASE'', 3),
     (''CXL_SEC_ENABLED_DISABLE_PASSPHRASE'', 4), (''CXL_SEC_ENABLED_UNLOCK'', 5),
     (''CXL_SEC_ENABLED_FREEZE_SECURITY'', 6), (''CXL_SEC_ENABLED_PASSPHRASE_SECURE_ERASE'', 7),
     (''CXL_SEC_ENABLED_MAX'', 8)]"

definition enumdecl_seg6_end_dt_mode :: cenum_decl where
  "enumdecl_seg6_end_dt_mode = EnumDecl False [
     (''DT_INVALID_MODE'', - 22), (''DT_LEGACY_MODE'', 0), (''DT_VRF_MODE'', 1)]"

definition enumdecl_seg6_local_flv_action :: cenum_decl where
  "enumdecl_seg6_local_flv_action = EnumDecl False [
     (''SEG6_LOCAL_FLV_ACT_UNSPEC'', 0), (''SEG6_LOCAL_FLV_ACT_END'', 1),
     (''SEG6_LOCAL_FLV_ACT_PSP'', 2), (''SEG6_LOCAL_FLV_ACT_USP'', 3),
     (''SEG6_LOCAL_FLV_ACT_USD'', 4), (''__SEG6_LOCAL_FLV_ACT_MAX'', 5)]"

definition enumdecl_seg6_local_pktinfo :: cenum_decl where
  "enumdecl_seg6_local_pktinfo = EnumDecl False [
     (''SEG6_LOCAL_PKTINFO_NOHDR'', 0), (''SEG6_LOCAL_PKTINFO_SL_ZERO'', 1),
     (''SEG6_LOCAL_PKTINFO_SL_ONE'', 2), (''SEG6_LOCAL_PKTINFO_SL_MORE'', 3),
     (''__SEG6_LOCAL_PKTINFO_MAX'', 4)]"

definition enumdecl_sel_inos :: cenum_decl where
  "enumdecl_sel_inos = EnumDecl False [
     (''SEL_ROOT_INO'', 2), (''SEL_LOAD'', 3), (''SEL_ENFORCE'', 4), (''SEL_CONTEXT'', 5),
     (''SEL_ACCESS'', 6), (''SEL_CREATE'', 7), (''SEL_RELABEL'', 8), (''SEL_USER'', 9),
     (''SEL_POLICYVERS'', 10), (''SEL_COMMIT_BOOLS'', 11), (''SEL_MLS'', 12),
     (''SEL_DISABLE'', 13), (''SEL_MEMBER'', 14), (''SEL_CHECKREQPROT'', 15),
     (''SEL_COMPAT_NET'', 16), (''SEL_REJECT_UNKNOWN'', 17), (''SEL_DENY_UNKNOWN'', 18),
     (''SEL_STATUS'', 19), (''SEL_POLICY'', 20), (''SEL_VALIDATE_TRANS'', 21),
     (''SEL_INO_NEXT'', 22)]"

definition enumdecl_selinux_nlgroups :: cenum_decl where
  "enumdecl_selinux_nlgroups = EnumDecl False [
     (''SELNLGRP_NONE'', 0), (''SELNLGRP_AVC'', 1), (''__SELNLGRP_MAX'', 2)]"

definition enumdecl_ser :: cenum_decl where
  "enumdecl_ser = EnumDecl False [
     (''SER_REQUIRED'', 1), (''NO_SER'', 2)]"

definition enumdecl_serdev_parity :: cenum_decl where
  "enumdecl_serdev_parity = EnumDecl False [
     (''SERDEV_PARITY_NONE'', 0), (''SERDEV_PARITY_EVEN'', 1), (''SERDEV_PARITY_ODD'', 2)]"

definition enumdecl_serio_event_type :: cenum_decl where
  "enumdecl_serio_event_type = EnumDecl False [
     (''SERIO_RESCAN_PORT'', 0), (''SERIO_RECONNECT_PORT'', 1), (''SERIO_RECONNECT_SUBTREE'', 2),
     (''SERIO_REGISTER_PORT'', 3), (''SERIO_ATTACH_DRIVER'', 4)]"

definition enumdecl_set_event_iter_type :: cenum_decl where
  "enumdecl_set_event_iter_type = EnumDecl False [
     (''SET_EVENT_FILE'', 0), (''SET_EVENT_MOD'', 1)]"

definition enumdecl_setid_type :: cenum_decl where
  "enumdecl_setid_type = EnumDecl False [
     (''UID'', 0), (''GID'', 1)]"

definition enumdecl_severity_level :: cenum_decl where
  "enumdecl_severity_level = EnumDecl False [
     (''MCE_NO_SEVERITY'', 0), (''MCE_DEFERRED_SEVERITY'', 1), (''MCE_UCNA_SEVERITY'', 1),
     (''MCE_KEEP_SEVERITY'', 2), (''MCE_SOME_SEVERITY'', 3), (''MCE_AO_SEVERITY'', 4),
     (''MCE_UC_SEVERITY'', 5), (''MCE_AR_SEVERITY'', 6), (''MCE_PANIC_SEVERITY'', 7)]"

definition enumdecl_sgp_type :: cenum_decl where
  "enumdecl_sgp_type = EnumDecl False [
     (''SGP_READ'', 0), (''SGP_NOALLOC'', 1), (''SGP_CACHE'', 2), (''SGP_WRITE'', 3),
     (''SGP_FALLOC'', 4)]"

definition enumdecl_sgx_attribute :: cenum_decl where
  "enumdecl_sgx_attribute = EnumDecl False [
     (''SGX_ATTR_INIT'', 1), (''SGX_ATTR_DEBUG'', 2), (''SGX_ATTR_MODE64BIT'', 4),
     (''SGX_ATTR_PROVISIONKEY'', 16), (''SGX_ATTR_EINITTOKENKEY'', 32), (''SGX_ATTR_KSS'', 128),
     (''SGX_ATTR_ASYNC_EXIT_NOTIFY'', 1024)]"

definition enumdecl_sgx_encl_flags :: cenum_decl where
  "enumdecl_sgx_encl_flags = EnumDecl False [
     (''SGX_ENCL_IOCTL'', 1), (''SGX_ENCL_DEBUG'', 2), (''SGX_ENCL_CREATED'', 4),
     (''SGX_ENCL_INITIALIZED'', 8)]"

definition enumdecl_sgx_encls_function :: cenum_decl where
  "enumdecl_sgx_encls_function = EnumDecl False [
     (''ECREATE'', 0), (''EADD'', 1), (''EINIT'', 2), (''EREMOVE'', 3), (''EDGBRD'', 4),
     (''EDGBWR'', 5), (''EEXTEND'', 6), (''ELDU'', 8), (''EBLOCK'', 9), (''EPA'', 10),
     (''EWB'', 11), (''ETRACK'', 12), (''EAUG'', 13), (''EMODPR'', 14), (''EMODT'', 15),
     (''EUPDATESVN'', 24)]"

definition enumdecl_sgx_page_flags :: cenum_decl where
  "enumdecl_sgx_page_flags = EnumDecl False [
     (''SGX_PAGE_MEASURE'', 1)]"

definition enumdecl_sgx_page_type :: cenum_decl where
  "enumdecl_sgx_page_type = EnumDecl False [
     (''SGX_PAGE_TYPE_SECS'', 0), (''SGX_PAGE_TYPE_TCS'', 1), (''SGX_PAGE_TYPE_REG'', 2),
     (''SGX_PAGE_TYPE_VA'', 3), (''SGX_PAGE_TYPE_TRIM'', 4)]"

definition enumdecl_sgx_return_code :: cenum_decl where
  "enumdecl_sgx_return_code = EnumDecl False [
     (''SGX_EPC_PAGE_CONFLICT'', 7), (''SGX_NOT_TRACKED'', 11), (''SGX_CHILD_PRESENT'', 13),
     (''SGX_INVALID_EINITTOKEN'', 16), (''SGX_PAGE_NOT_MODIFIABLE'', 20),
     (''SGX_INSUFFICIENT_ENTROPY'', 29), (''SGX_NO_UPDATE'', 31), (''SGX_UNMASKED_EVENT'', 128)]"

definition enumdecl_sgx_secinfo_flags :: cenum_decl where
  "enumdecl_sgx_secinfo_flags = EnumDecl False [
     (''SGX_SECINFO_R'', 1), (''SGX_SECINFO_W'', 2), (''SGX_SECINFO_X'', 4),
     (''SGX_SECINFO_SECS'', 0), (''SGX_SECINFO_TCS'', 256), (''SGX_SECINFO_REG'', 512),
     (''SGX_SECINFO_VA'', 768), (''SGX_SECINFO_TRIM'', 1024)]"

definition enumdecl_shmem_param :: cenum_decl where
  "enumdecl_shmem_param = EnumDecl False [
     (''Opt_gid___8'', 0), (''Opt_huge'', 1), (''Opt_mode___6'', 2), (''Opt_mpol'', 3),
     (''Opt_nr_blocks'', 4), (''Opt_nr_inodes___2'', 5), (''Opt_size___2'', 6),
     (''Opt_uid___7'', 7), (''Opt_inode32'', 8), (''Opt_inode64'', 9), (''Opt_noswap'', 10),
     (''Opt_quota___2'', 11), (''Opt_usrquota___2'', 12), (''Opt_grpquota___2'', 13),
     (''Opt_usrquota_block_hardlimit'', 14), (''Opt_usrquota_inode_hardlimit'', 15),
     (''Opt_grpquota_block_hardlimit'', 16), (''Opt_grpquota_inode_hardlimit'', 17),
     (''Opt_casefold_version'', 18), (''Opt_casefold'', 19), (''Opt_strict_encoding'', 20)]"

definition enumdecl_show_regs_mode :: cenum_decl where
  "enumdecl_show_regs_mode = EnumDecl False [
     (''SHOW_REGS_SHORT'', 0), (''SHOW_REGS_USER'', 1), (''SHOW_REGS_ALL'', 2)]"

definition enumdecl_shutdown_state :: cenum_decl where
  "enumdecl_shutdown_state = EnumDecl False [
     (''SHUTDOWN_INVALID'', - 1), (''SHUTDOWN_POWEROFF'', 0), (''SHUTDOWN_SUSPEND'', 2),
     (''SHUTDOWN_HALT'', 4)]"

definition enumdecl_si_type :: cenum_decl where
  "enumdecl_si_type = EnumDecl False [
     (''SI_TYPE_INVALID'', 0), (''SI_KCS'', 1), (''SI_SMIC'', 2), (''SI_BT'', 3),
     (''SI_TYPE_MAX'', 4)]"

definition enumdecl_sid_policy_type :: cenum_decl where
  "enumdecl_sid_policy_type = EnumDecl False [
     (''SIDPOL_DEFAULT'', 0), (''SIDPOL_CONSTRAINED'', 1), (''SIDPOL_ALLOWED'', 2)]"

definition enumdecl_sig_handler :: cenum_decl where
  "enumdecl_sig_handler = EnumDecl False [
     (''HANDLER_CURRENT'', 0), (''HANDLER_SIG_DFL'', 1), (''HANDLER_EXIT'', 2)]"

definition enumdecl_siginfo_layout :: cenum_decl where
  "enumdecl_siginfo_layout = EnumDecl False [
     (''SIL_KILL'', 0), (''SIL_TIMER'', 1), (''SIL_POLL'', 2), (''SIL_FAULT'', 3),
     (''SIL_FAULT_TRAPNO'', 4), (''SIL_FAULT_MCEERR'', 5), (''SIL_FAULT_BNDERR'', 6),
     (''SIL_FAULT_PKUERR'', 7), (''SIL_FAULT_PERF_EVENT'', 8), (''SIL_CHLD'', 9),
     (''SIL_RT'', 10), (''SIL_SYS'', 11)]"

definition enumdecl_simatic_ipc_station_ids :: cenum_decl where
  "enumdecl_simatic_ipc_station_ids = EnumDecl False [
     (''SIMATIC_IPC_INVALID_STATION_ID'', 0), (''SIMATIC_IPC_IPC227D'', 1281),
     (''SIMATIC_IPC_IPC427D'', 1793), (''SIMATIC_IPC_IPC227E'', 2305),
     (''SIMATIC_IPC_IPC277E'', 2306), (''SIMATIC_IPC_IPC427E'', 2561),
     (''SIMATIC_IPC_IPC477E'', 2562), (''SIMATIC_IPC_IPC127E'', 3329),
     (''SIMATIC_IPC_IPC227G'', 3841), (''SIMATIC_IPC_IPC277G'', 3842),
     (''SIMATIC_IPC_IPCBX_39A'', 4097), (''SIMATIC_IPC_IPCPX_39A'', 4098),
     (''SIMATIC_IPC_IPCBX_21A'', 4353), (''SIMATIC_IPC_IPCBX_56A'', 4609),
     (''SIMATIC_IPC_IPCBX_59A'', 4610)]"

definition enumdecl_sk_action :: cenum_decl where
  "enumdecl_sk_action = EnumDecl False [
     (''SK_DROP'', 0), (''SK_PASS'', 1)]"

definition enumdecl_sk_pacing :: cenum_decl where
  "enumdecl_sk_pacing = EnumDecl False [
     (''SK_PACING_NONE'', 0), (''SK_PACING_NEEDED'', 1), (''SK_PACING_FQ'', 2)]"

definition enumdecl_sk_psock_state_bits :: cenum_decl where
  "enumdecl_sk_psock_state_bits = EnumDecl False [
     (''SK_PSOCK_TX_ENABLED'', 0), (''SK_PSOCK_RX_STRP_ENABLED'', 1)]"

definition enumdecl_sk_rst_reason :: cenum_decl where
  "enumdecl_sk_rst_reason = EnumDecl False enum_sk_rst_reason"

definition enum_decls_17 :: "cenum_decl list" where
  "enum_decls_17 = [
     enumdecl_rdma_nl_name_assign_type, enumdecl_rdma_restrack_type, enumdecl_rdmacg_file_type,
     enumdecl_rdmacg_resource_type, enumdecl_rdt_group_type, enumdecl_rdt_param,
     enumdecl_rdtgrp_mode, enumdecl_reason_type, enumdecl_reboot_mode, enumdecl_reboot_type,
     enumdecl_recovery_flags, enumdecl_ref_state_type, enumdecl_refcount_saturation_type,
     enumdecl_reftype, enumdecl_reg_arg_type, enumdecl_reg_type, enumdecl_regcache_type,
     enumdecl_regex_type, enumdecl_regmap_endian, enumdecl_regnames,
     enumdecl_regulator_active_discharge, enumdecl_regulator_detection_severity,
     enumdecl_regulator_get_type, enumdecl_regulator_status, enumdecl_regulator_type,
     enumdecl_release_type, enumdecl_req_flag_bits, enumdecl_req_op, enumdecl_resctrl_conf_type,
     enumdecl_resctrl_domain_type, enumdecl_resctrl_event_id, enumdecl_resctrl_res_level,
     enumdecl_resctrl_schema_fmt, enumdecl_resctrl_scope, enumdecl_reset_control_flags,
     enumdecl_resolve_mode, enumdecl_retbleed_mitigation, enumdecl_rfds_mitigations,
     enumdecl_rfkill_hard_block_reasons, enumdecl_rfkill_input_master_mode,
     enumdecl_rfkill_operation, enumdecl_rfkill_sched_op, enumdecl_rfkill_type,
     enumdecl_rfkill_user_states, enumdecl_rht_lookup_freq, enumdecl_ring_buffer_flags,
     enumdecl_ring_buffer_type, enumdecl_rio_device_state, enumdecl_rio_write_type,
     enumdecl_rlimit_type, enumdecl_rmqueue_mode, enumdecl_rp_check, enumdecl_rpm_request,
     enumdecl_rpm_status, enumdecl_rproc_crash_type, enumdecl_rproc_dump_mechanism,
     enumdecl_rproc_features, enumdecl_rproc_state, enumdecl_rq_end_io_ret, enumdecl_rq_qos_id,
     enumdecl_rqf_flags, enumdecl_rsaprivkey_actions, enumdecl_rsapubkey_actions,
     enumdecl_rsc_handling_status, enumdecl_rseq_cpu_id_state, enumdecl_rseq_cs_flags,
     enumdecl_rseq_cs_flags_bit, enumdecl_rseq_flags, enumdecl_rt6_nud_state,
     enumdecl_rt_class_t, enumdecl_rt_scope_t, enumdecl_rtattr_type_t,
     enumdecl_rtmutex_chainwalk, enumdecl_rtnetlink_groups, enumdecl_rtnl_kinds,
     enumdecl_rtnl_link_flags, enumdecl_rwsem_waiter_type, enumdecl_rwsem_wake_type,
     enumdecl_rx_handler_result, enumdecl_s2idle_states, enumdecl_s_alloc, enumdecl_sam_status,
     enumdecl_scan_balance, enumdecl_scan_result, enumdecl_sched_tunable_scaling,
     enumdecl_scrub_type, enumdecl_scsi_device_event, enumdecl_scsi_device_state,
     enumdecl_scsi_devinfo_key, enumdecl_scsi_disposition, enumdecl_scsi_host_guard_type,
     enumdecl_scsi_host_prot_capabilities, enumdecl_scsi_host_state, enumdecl_scsi_host_status,
     enumdecl_scsi_ml_status, enumdecl_scsi_msg_byte, enumdecl_scsi_pr_type,
     enumdecl_scsi_prot_flags, enumdecl_scsi_prot_operations, enumdecl_scsi_qc_status,
     enumdecl_scsi_scan_mode, enumdecl_scsi_target_state, enumdecl_scsi_timeout_action,
     enumdecl_scsi_timeouts, enumdecl_scsi_vpd_parameters, enumdecl_sctp_cid,
     enumdecl_sctp_conntrack, enumdecl_sctp_endpoint_type, enumdecl_sctp_event_timeout,
     enumdecl_sctp_msg_flags, enumdecl_sctp_param, enumdecl_sctp_scope,
     enumdecl_sctp_socket_type, enumdecl_sctp_state, enumdecl_scx_consts,
     enumdecl_scx_cpu_preempt_reason, enumdecl_scx_dsq_iter_flags, enumdecl_scx_dsq_lnode_flags,
     enumdecl_scx_enable_state, enumdecl_scx_ent_dsq_flags, enumdecl_scx_ent_flags,
     enumdecl_scx_exit_flags, enumdecl_scx_exit_kind, enumdecl_scx_kf_mask,
     enumdecl_scx_kick_flags, enumdecl_scx_opi, enumdecl_scx_ops_state,
     enumdecl_scx_pick_idle_cpu_flags, enumdecl_scx_rq_flags, enumdecl_scx_task_state,
     enumdecl_scx_tg_flags, enumdecl_scx_wake_flags, enumdecl_sd_uhs2_operation,
     enumdecl_security_cmd_enabled_bits, enumdecl_seg6_end_dt_mode,
     enumdecl_seg6_local_flv_action, enumdecl_seg6_local_pktinfo, enumdecl_sel_inos,
     enumdecl_selinux_nlgroups, enumdecl_ser, enumdecl_serdev_parity, enumdecl_serio_event_type,
     enumdecl_set_event_iter_type, enumdecl_setid_type, enumdecl_severity_level,
     enumdecl_sgp_type, enumdecl_sgx_attribute, enumdecl_sgx_encl_flags,
     enumdecl_sgx_encls_function, enumdecl_sgx_page_flags, enumdecl_sgx_page_type,
     enumdecl_sgx_return_code, enumdecl_sgx_secinfo_flags, enumdecl_shmem_param,
     enumdecl_show_regs_mode, enumdecl_shutdown_state, enumdecl_si_type,
     enumdecl_sid_policy_type, enumdecl_sig_handler, enumdecl_siginfo_layout,
     enumdecl_simatic_ipc_station_ids, enumdecl_sk_action, enumdecl_sk_pacing,
     enumdecl_sk_psock_state_bits, enumdecl_sk_rst_reason]"

lemma enum_decls_17_4: "list_all enum4 enum_decls_17"
  by (unfold enum_decls_17_def
     enumdecl_rdma_nl_name_assign_type_def enumdecl_rdma_restrack_type_def
     enumdecl_rdmacg_file_type_def enumdecl_rdmacg_resource_type_def
     enumdecl_rdt_group_type_def enumdecl_rdt_param_def enumdecl_rdtgrp_mode_def
     enumdecl_reason_type_def enumdecl_reboot_mode_def enumdecl_reboot_type_def
     enumdecl_recovery_flags_def enumdecl_ref_state_type_def
     enumdecl_refcount_saturation_type_def enumdecl_reftype_def enumdecl_reg_arg_type_def
     enumdecl_reg_type_def enumdecl_regcache_type_def enumdecl_regex_type_def
     enumdecl_regmap_endian_def enumdecl_regnames_def enumdecl_regulator_active_discharge_def
     enumdecl_regulator_detection_severity_def enumdecl_regulator_get_type_def
     enumdecl_regulator_status_def enumdecl_regulator_type_def enumdecl_release_type_def
     enumdecl_req_flag_bits_def enumdecl_req_op_def enumdecl_resctrl_conf_type_def
     enumdecl_resctrl_domain_type_def enumdecl_resctrl_event_id_def
     enumdecl_resctrl_res_level_def enumdecl_resctrl_schema_fmt_def enumdecl_resctrl_scope_def
     enumdecl_reset_control_flags_def enumdecl_resolve_mode_def
     enumdecl_retbleed_mitigation_def enumdecl_rfds_mitigations_def
     enumdecl_rfkill_hard_block_reasons_def enumdecl_rfkill_input_master_mode_def
     enumdecl_rfkill_operation_def enumdecl_rfkill_sched_op_def enumdecl_rfkill_type_def
     enumdecl_rfkill_user_states_def enumdecl_rht_lookup_freq_def
     enumdecl_ring_buffer_flags_def enumdecl_ring_buffer_type_def
     enumdecl_rio_device_state_def enumdecl_rio_write_type_def enumdecl_rlimit_type_def
     enumdecl_rmqueue_mode_def enumdecl_rp_check_def enumdecl_rpm_request_def
     enumdecl_rpm_status_def enumdecl_rproc_crash_type_def enumdecl_rproc_dump_mechanism_def
     enumdecl_rproc_features_def enumdecl_rproc_state_def enumdecl_rq_end_io_ret_def
     enumdecl_rq_qos_id_def enumdecl_rqf_flags_def enumdecl_rsaprivkey_actions_def
     enumdecl_rsapubkey_actions_def enumdecl_rsc_handling_status_def
     enumdecl_rseq_cpu_id_state_def enumdecl_rseq_cs_flags_def enumdecl_rseq_cs_flags_bit_def
     enumdecl_rseq_flags_def enumdecl_rt6_nud_state_def enumdecl_rt_scope_t_def
     enumdecl_rtattr_type_t_def enumdecl_rtmutex_chainwalk_def enumdecl_rtnetlink_groups_def
     enumdecl_rtnl_kinds_def enumdecl_rtnl_link_flags_def enumdecl_rwsem_waiter_type_def
     enumdecl_rwsem_wake_type_def enumdecl_rx_handler_result_def enumdecl_s2idle_states_def
     enumdecl_s_alloc_def enumdecl_sam_status_def enumdecl_scan_balance_def
     enumdecl_scan_result_def enumdecl_sched_tunable_scaling_def enumdecl_scrub_type_def
     enumdecl_scsi_device_event_def enumdecl_scsi_device_state_def
     enumdecl_scsi_devinfo_key_def enumdecl_scsi_disposition_def
     enumdecl_scsi_host_guard_type_def enumdecl_scsi_host_prot_capabilities_def
     enumdecl_scsi_host_state_def enumdecl_scsi_host_status_def enumdecl_scsi_ml_status_def
     enumdecl_scsi_msg_byte_def enumdecl_scsi_pr_type_def enumdecl_scsi_prot_flags_def
     enumdecl_scsi_prot_operations_def enumdecl_scsi_qc_status_def enumdecl_scsi_scan_mode_def
     enumdecl_scsi_target_state_def enumdecl_scsi_timeout_action_def
     enumdecl_scsi_timeouts_def enumdecl_scsi_vpd_parameters_def enumdecl_sctp_cid_def
     enumdecl_sctp_conntrack_def enumdecl_sctp_endpoint_type_def
     enumdecl_sctp_event_timeout_def enumdecl_sctp_msg_flags_def enumdecl_sctp_param_def
     enumdecl_sctp_scope_def enumdecl_sctp_socket_type_def enumdecl_sctp_state_def
     enumdecl_scx_consts_def enumdecl_scx_cpu_preempt_reason_def
     enumdecl_scx_dsq_lnode_flags_def enumdecl_scx_enable_state_def
     enumdecl_scx_ent_dsq_flags_def enumdecl_scx_ent_flags_def enumdecl_scx_exit_flags_def
     enumdecl_scx_exit_kind_def enumdecl_scx_kf_mask_def enumdecl_scx_kick_flags_def
     enumdecl_scx_opi_def enumdecl_scx_ops_state_def enumdecl_scx_pick_idle_cpu_flags_def
     enumdecl_scx_rq_flags_def enumdecl_scx_task_state_def enumdecl_scx_tg_flags_def
     enumdecl_scx_wake_flags_def enumdecl_sd_uhs2_operation_def
     enumdecl_security_cmd_enabled_bits_def enumdecl_seg6_end_dt_mode_def
     enumdecl_seg6_local_flv_action_def enumdecl_seg6_local_pktinfo_def enumdecl_sel_inos_def
     enumdecl_selinux_nlgroups_def enumdecl_ser_def enumdecl_serdev_parity_def
     enumdecl_serio_event_type_def enumdecl_set_event_iter_type_def enumdecl_setid_type_def
     enumdecl_severity_level_def enumdecl_sgp_type_def enumdecl_sgx_attribute_def
     enumdecl_sgx_encl_flags_def enumdecl_sgx_encls_function_def enumdecl_sgx_page_flags_def
     enumdecl_sgx_page_type_def enumdecl_sgx_return_code_def enumdecl_sgx_secinfo_flags_def
     enumdecl_shmem_param_def enumdecl_show_regs_mode_def enumdecl_shutdown_state_def
     enumdecl_si_type_def enumdecl_sid_policy_type_def enumdecl_sig_handler_def
     enumdecl_siginfo_layout_def enumdecl_simatic_ipc_station_ids_def enumdecl_sk_action_def
     enumdecl_sk_pacing_def enumdecl_sk_psock_state_bits_def enumdecl_sk_rst_reason_def
     enum_sk_rst_reason_def)
    (intro enum_list_intros enum_int_intros enumdecl_rt_class_t_4 enumdecl_scx_dsq_iter_flags_4; simp)

lemma enum_sk_rst_reason_listed: "EnumDecl False enum_sk_rst_reason \<in> set enum_decls_17"
  by (simp add: enum_decls_17_def flip: enumdecl_sk_rst_reason_def)

lemma length_enum_decls_17: "length enum_decls_17 = 165"
  by (simp add: enum_decls_17_def)

end
