(* ===== verification/VmlinuxEnum18.thy ===== *)
theory VmlinuxEnum18
  imports EnumDecl
begin

text \<open>
  The enumerations of four bytes of \<^verbatim>\<open>src/internal/ebpf/vmlinux.h\<close> between lines 28216 and
  29846, one definition per enumeration, enumerators in order. An enumeration without a tag is
  named after the line it starts on.
\<close>

definition enumdecl_skb_drop_reason :: cenum_decl where
  "enumdecl_skb_drop_reason = EnumDecl False enum_skb_drop_reason"

lemma enumdecl_skb_drop_reason_4: "enum4 enumdecl_skb_drop_reason"
  by (unfold enumdecl_skb_drop_reason_def enum_skb_drop_reason_def) (intro enum_uint_intros; simp)

definition enumdecl_skb_drop_reason_subsys :: cenum_decl where
  "enumdecl_skb_drop_reason_subsys = EnumDecl False [
     (''SKB_DROP_REASON_SUBSYS_CORE'', 0), (''SKB_DROP_REASON_SUBSYS_MAC80211_UNUSABLE'', 1),
     (''SKB_DROP_REASON_SUBSYS_OPENVSWITCH'', 2), (''SKB_DROP_REASON_SUBSYS_NUM'', 3)]"

definition enumdecl_skb_ext_id :: cenum_decl where
  "enumdecl_skb_ext_id = EnumDecl False [
     (''SKB_EXT_BRIDGE_NF'', 0), (''SKB_EXT_SEC_PATH'', 1), (''TC_SKB_EXT'', 2),
     (''SKB_EXT_MPTCP'', 3), (''SKB_EXT_MCTP'', 4), (''SKB_EXT_PSP'', 5), (''SKB_EXT_CAN'', 6),
     (''SKB_EXT_NUM'', 7)]"

definition enumdecl_skb_tstamp_type :: cenum_decl where
  "enumdecl_skb_tstamp_type = EnumDecl False [
     (''SKB_CLOCK_REALTIME'', 0), (''SKB_CLOCK_MONOTONIC'', 1), (''SKB_CLOCK_TAI'', 2),
     (''__SKB_CLOCK_MAX'', 2)]"

definition enumdecl_sknetlink_groups :: cenum_decl where
  "enumdecl_sknetlink_groups = EnumDecl False [
     (''SKNLGRP_NONE'', 0), (''SKNLGRP_INET_TCP_DESTROY'', 1), (''SKNLGRP_INET_UDP_DESTROY'', 2),
     (''SKNLGRP_INET6_TCP_DESTROY'', 3), (''SKNLGRP_INET6_UDP_DESTROY'', 4),
     (''__SKNLGRP_MAX'', 5)]"

definition enumdecl_slab_flags :: cenum_decl where
  "enumdecl_slab_flags = EnumDecl False [
     (''SL_locked'', 0), (''SL_partial'', 9), (''SL_pfmemalloc'', 8)]"

definition enumdecl_slab_stat_type :: cenum_decl where
  "enumdecl_slab_stat_type = EnumDecl False [
     (''SL_ALL'', 0), (''SL_PARTIAL'', 1), (''SL_CPU'', 2), (''SL_OBJECTS'', 3),
     (''SL_TOTAL'', 4)]"

definition enumdecl_slab_state :: cenum_decl where
  "enumdecl_slab_state = EnumDecl False [
     (''DOWN'', 0), (''PARTIAL'', 1), (''UP'', 2), (''FULL'', 3)]"

definition enumdecl_smbios_attr_enum :: cenum_decl where
  "enumdecl_smbios_attr_enum = EnumDecl False [
     (''SMBIOS_ATTR_NONE'', 0), (''SMBIOS_ATTR_LABEL_SHOW'', 1),
     (''SMBIOS_ATTR_INSTANCE_SHOW'', 2)]"

definition enumdecl_smca_bank_types :: cenum_decl where
  "enumdecl_smca_bank_types = EnumDecl False [
     (''SMCA_LS'', 0), (''SMCA_LS_V2'', 1), (''SMCA_IF'', 2), (''SMCA_L2_CACHE'', 3),
     (''SMCA_DE'', 4), (''SMCA_RESERVED'', 5), (''SMCA_EX'', 6), (''SMCA_FP'', 7),
     (''SMCA_L3_CACHE'', 8), (''SMCA_CS'', 9), (''SMCA_CS_V2'', 10), (''SMCA_PIE'', 11),
     (''SMCA_UMC'', 12), (''SMCA_UMC_V2'', 13), (''SMCA_MA_LLC'', 14), (''SMCA_PB'', 15),
     (''SMCA_PSP'', 16), (''SMCA_PSP_V2'', 17), (''SMCA_SMU'', 18), (''SMCA_SMU_V2'', 19),
     (''SMCA_MP5'', 20), (''SMCA_MPDMA'', 21), (''SMCA_NBIO'', 22), (''SMCA_PCIE'', 23),
     (''SMCA_PCIE_V2'', 24), (''SMCA_XGMI_PCS'', 25), (''SMCA_NBIF'', 26), (''SMCA_SHUB'', 27),
     (''SMCA_SATA'', 28), (''SMCA_USB'', 29), (''SMCA_USR_DP'', 30), (''SMCA_USR_CP'', 31),
     (''SMCA_GMI_PCS'', 32), (''SMCA_XGMI_PHY'', 33), (''SMCA_WAFL_PHY'', 34),
     (''SMCA_GMI_PHY'', 35), (''N_SMCA_BANK_TYPES'', 36)]"

definition enumdecl_smk_inos :: cenum_decl where
  "enumdecl_smk_inos = EnumDecl False [
     (''SMK_ROOT_INO'', 2), (''SMK_LOAD'', 3), (''SMK_CIPSO'', 4), (''SMK_DOI'', 5),
     (''SMK_DIRECT'', 6), (''SMK_AMBIENT'', 7), (''SMK_NET4ADDR'', 8), (''SMK_ONLYCAP'', 9),
     (''SMK_LOGGING'', 10), (''SMK_LOAD_SELF'', 11), (''SMK_ACCESSES'', 12),
     (''SMK_MAPPED'', 13), (''SMK_LOAD2'', 14), (''SMK_LOAD_SELF2'', 15), (''SMK_ACCESS2'', 16),
     (''SMK_CIPSO2'', 17), (''SMK_REVOKE_SUBJ'', 18), (''SMK_CHANGE_RULE'', 19),
     (''SMK_SYSLOG'', 20), (''SMK_PTRACE'', 21), (''SMK_NET6ADDR'', 23),
     (''SMK_RELABEL_SELF'', 24)]"

definition enumdecl_smt_mitigations :: cenum_decl where
  "enumdecl_smt_mitigations = EnumDecl False [
     (''SMT_MITIGATIONS_OFF'', 0), (''SMT_MITIGATIONS_AUTO'', 1), (''SMT_MITIGATIONS_ON'', 2)]"

definition enumdecl_snoop_when :: cenum_decl where
  "enumdecl_snoop_when = EnumDecl False [
     (''SUBMIT'', 0), (''COMPLETE'', 1)]"

definition enumdecl_sock_flags :: cenum_decl where
  "enumdecl_sock_flags = EnumDecl False [
     (''SOCK_DEAD'', 0), (''SOCK_DONE'', 1), (''SOCK_URGINLINE'', 2), (''SOCK_KEEPOPEN'', 3),
     (''SOCK_LINGER'', 4), (''SOCK_DESTROY'', 5), (''SOCK_BROADCAST'', 6),
     (''SOCK_TIMESTAMP'', 7), (''SOCK_ZAPPED'', 8), (''SOCK_USE_WRITE_QUEUE'', 9),
     (''SOCK_DBG'', 10), (''SOCK_RCVTSTAMP'', 11), (''SOCK_RCVTSTAMPNS'', 12),
     (''SOCK_LOCALROUTE'', 13), (''SOCK_MEMALLOC'', 14), (''SOCK_TIMESTAMPING_RX_SOFTWARE'', 15),
     (''SOCK_FASYNC'', 16), (''SOCK_RXQ_OVFL'', 17), (''SOCK_ZEROCOPY'', 18),
     (''SOCK_WIFI_STATUS'', 19), (''SOCK_NOFCS'', 20), (''SOCK_FILTER_LOCKED'', 21),
     (''SOCK_SELECT_ERR_QUEUE'', 22), (''SOCK_RCU_FREE'', 23), (''SOCK_TXTIME'', 24),
     (''SOCK_XDP'', 25), (''SOCK_TSTAMP_NEW'', 26), (''SOCK_RCVMARK'', 27),
     (''SOCK_RCVPRIORITY'', 28), (''SOCK_TIMESTAMPING_ANY'', 29)]"

definition enumdecl_sock_shutdown_cmd :: cenum_decl where
  "enumdecl_sock_shutdown_cmd = EnumDecl False [
     (''SHUT_RD'', 0), (''SHUT_WR'', 1), (''SHUT_RDWR'', 2)]"

definition enumdecl_sock_type :: cenum_decl where
  "enumdecl_sock_type = EnumDecl False [
     (''SOCK_STREAM'', 1), (''SOCK_DGRAM'', 2), (''SOCK_RAW'', 3), (''SOCK_RDM'', 4),
     (''SOCK_SEQPACKET'', 5), (''SOCK_DCCP'', 6), (''SOCK_PACKET'', 10)]"

definition enumdecl_socket_flags :: cenum_decl where
  "enumdecl_socket_flags = EnumDecl False [
     (''SOCKWQ_ASYNC_NOSPACE'', 0), (''SOCKWQ_ASYNC_WAITDATA'', 1), (''SOCK_NOSPACE'', 2),
     (''SOCK_SUPPORT_ZC'', 3), (''SOCK_CUSTOM_SOCKOPT'', 4)]"

definition enumdecl_softleaf_type :: cenum_decl where
  "enumdecl_softleaf_type = EnumDecl False [
     (''SOFTLEAF_NONE'', 0), (''SOFTLEAF_SWAP'', 1), (''SOFTLEAF_MIGRATION_READ'', 2),
     (''SOFTLEAF_MIGRATION_READ_EXCLUSIVE'', 3), (''SOFTLEAF_MIGRATION_WRITE'', 4),
     (''SOFTLEAF_DEVICE_PRIVATE_READ'', 5), (''SOFTLEAF_DEVICE_PRIVATE_WRITE'', 6),
     (''SOFTLEAF_DEVICE_EXCLUSIVE'', 7), (''SOFTLEAF_HWPOISON'', 8), (''SOFTLEAF_MARKER'', 9)]"

definition enumdecl_special_kfunc_type :: cenum_decl where
  "enumdecl_special_kfunc_type = EnumDecl False [
     (''KF_bpf_obj_new_impl'', 0), (''KF_bpf_obj_drop_impl'', 1),
     (''KF_bpf_refcount_acquire_impl'', 2), (''KF_bpf_list_push_front_impl'', 3),
     (''KF_bpf_list_push_back_impl'', 4), (''KF_bpf_list_pop_front'', 5),
     (''KF_bpf_list_pop_back'', 6), (''KF_bpf_list_front'', 7), (''KF_bpf_list_back'', 8),
     (''KF_bpf_cast_to_kern_ctx'', 9), (''KF_bpf_rdonly_cast'', 10),
     (''KF_bpf_rcu_read_lock'', 11), (''KF_bpf_rcu_read_unlock'', 12),
     (''KF_bpf_rbtree_remove'', 13), (''KF_bpf_rbtree_add_impl'', 14),
     (''KF_bpf_rbtree_first'', 15), (''KF_bpf_rbtree_root'', 16), (''KF_bpf_rbtree_left'', 17),
     (''KF_bpf_rbtree_right'', 18), (''KF_bpf_dynptr_from_skb'', 19),
     (''KF_bpf_dynptr_from_xdp'', 20), (''KF_bpf_dynptr_from_skb_meta'', 21),
     (''KF_bpf_xdp_pull_data'', 22), (''KF_bpf_dynptr_slice'', 23),
     (''KF_bpf_dynptr_slice_rdwr'', 24), (''KF_bpf_dynptr_clone'', 25),
     (''KF_bpf_percpu_obj_new_impl'', 26), (''KF_bpf_percpu_obj_drop_impl'', 27),
     (''KF_bpf_throw'', 28), (''KF_bpf_wq_set_callback'', 29), (''KF_bpf_preempt_disable'', 30),
     (''KF_bpf_preempt_enable'', 31), (''KF_bpf_iter_css_task_new'', 32),
     (''KF_bpf_session_cookie'', 33), (''KF_bpf_get_kmem_cache'', 34),
     (''KF_bpf_local_irq_save'', 35), (''KF_bpf_local_irq_restore'', 36),
     (''KF_bpf_iter_num_new'', 37), (''KF_bpf_iter_num_next'', 38),
     (''KF_bpf_iter_num_destroy'', 39), (''KF_bpf_set_dentry_xattr'', 40),
     (''KF_bpf_remove_dentry_xattr'', 41), (''KF_bpf_res_spin_lock'', 42),
     (''KF_bpf_res_spin_unlock'', 43), (''KF_bpf_res_spin_lock_irqsave'', 44),
     (''KF_bpf_res_spin_unlock_irqrestore'', 45), (''KF_bpf_dynptr_from_file'', 46),
     (''KF_bpf_dynptr_file_discard'', 47), (''KF___bpf_trap'', 48),
     (''KF_bpf_task_work_schedule_signal'', 49), (''KF_bpf_task_work_schedule_resume'', 50),
     (''KF_bpf_arena_alloc_pages'', 51), (''KF_bpf_arena_free_pages'', 52),
     (''KF_bpf_arena_reserve_pages'', 53), (''KF_bpf_session_is_return'', 54),
     (''KF_bpf_stream_vprintk'', 55), (''KF_bpf_stream_print_stack'', 56)]"

definition enumdecl_spectre_v1_mitigation :: cenum_decl where
  "enumdecl_spectre_v1_mitigation = EnumDecl False [
     (''SPECTRE_V1_MITIGATION_NONE'', 0), (''SPECTRE_V1_MITIGATION_AUTO'', 1)]"

definition enumdecl_spectre_v2_mitigation :: cenum_decl where
  "enumdecl_spectre_v2_mitigation = EnumDecl False [
     (''SPECTRE_V2_NONE'', 0), (''SPECTRE_V2_RETPOLINE'', 1), (''SPECTRE_V2_LFENCE'', 2),
     (''SPECTRE_V2_EIBRS'', 3), (''SPECTRE_V2_EIBRS_RETPOLINE'', 4),
     (''SPECTRE_V2_EIBRS_LFENCE'', 5), (''SPECTRE_V2_IBRS'', 6)]"

definition enumdecl_spectre_v2_mitigation_cmd :: cenum_decl where
  "enumdecl_spectre_v2_mitigation_cmd = EnumDecl False [
     (''SPECTRE_V2_CMD_NONE'', 0), (''SPECTRE_V2_CMD_AUTO'', 1), (''SPECTRE_V2_CMD_FORCE'', 2),
     (''SPECTRE_V2_CMD_RETPOLINE'', 3), (''SPECTRE_V2_CMD_RETPOLINE_GENERIC'', 4),
     (''SPECTRE_V2_CMD_RETPOLINE_LFENCE'', 5), (''SPECTRE_V2_CMD_EIBRS'', 6),
     (''SPECTRE_V2_CMD_EIBRS_RETPOLINE'', 7), (''SPECTRE_V2_CMD_EIBRS_LFENCE'', 8),
     (''SPECTRE_V2_CMD_IBRS'', 9)]"

definition enumdecl_spectre_v2_user_mitigation :: cenum_decl where
  "enumdecl_spectre_v2_user_mitigation = EnumDecl False [
     (''SPECTRE_V2_USER_NONE'', 0), (''SPECTRE_V2_USER_STRICT'', 1),
     (''SPECTRE_V2_USER_STRICT_PREFERRED'', 2), (''SPECTRE_V2_USER_PRCTL'', 3),
     (''SPECTRE_V2_USER_SECCOMP'', 4)]"

definition enumdecl_spectre_v2_user_mitigation_cmd :: cenum_decl where
  "enumdecl_spectre_v2_user_mitigation_cmd = EnumDecl False [
     (''SPECTRE_V2_USER_CMD_NONE'', 0), (''SPECTRE_V2_USER_CMD_AUTO'', 1),
     (''SPECTRE_V2_USER_CMD_FORCE'', 2), (''SPECTRE_V2_USER_CMD_PRCTL'', 3),
     (''SPECTRE_V2_USER_CMD_PRCTL_IBPB'', 4), (''SPECTRE_V2_USER_CMD_SECCOMP'', 5),
     (''SPECTRE_V2_USER_CMD_SECCOMP_IBPB'', 6)]"

definition enumdecl_spi_mem_data_dir :: cenum_decl where
  "enumdecl_spi_mem_data_dir = EnumDecl False [
     (''SPI_MEM_NO_DATA'', 0), (''SPI_MEM_DATA_IN'', 1), (''SPI_MEM_DATA_OUT'', 2)]"

definition enumdecl_spi_offload_trigger_type :: cenum_decl where
  "enumdecl_spi_offload_trigger_type = EnumDecl False [
     (''SPI_OFFLOAD_TRIGGER_DATA_READY'', 0), (''SPI_OFFLOAD_TRIGGER_PERIODIC'', 1)]"

definition enumdecl_split_lock_detect_state :: cenum_decl where
  "enumdecl_split_lock_detect_state = EnumDecl False [
     (''sld_off'', 0), (''sld_warn'', 1), (''sld_fatal'', 2), (''sld_ratelimit'', 3)]"

definition enumdecl_split_type :: cenum_decl where
  "enumdecl_split_type = EnumDecl False [
     (''SPLIT_TYPE_UNIFORM'', 0), (''SPLIT_TYPE_NON_UNIFORM'', 1)]"

definition enumdecl_squashfs_param :: cenum_decl where
  "enumdecl_squashfs_param = EnumDecl False [
     (''Opt_errors___3'', 0), (''Opt_threads'', 1)]"

definition enumdecl_sr_retry_flags :: cenum_decl where
  "enumdecl_sr_retry_flags = EnumDecl False [
     (''IORING_RECV_RETRY'', 32768), (''IORING_RECV_PARTIAL_MAP'', 16384),
     (''IORING_RECV_MSHOT_CAP'', 8192), (''IORING_RECV_MSHOT_LIM'', 4096),
     (''IORING_RECV_MSHOT_DONE'', 2048), (''IORING_RECV_RETRY_CLEAR'', 49152),
     (''IORING_RECV_NO_RETRY'', 59392)]"

definition enumdecl_srbds_mitigations :: cenum_decl where
  "enumdecl_srbds_mitigations = EnumDecl False [
     (''SRBDS_MITIGATION_OFF'', 0), (''SRBDS_MITIGATION_AUTO'', 1),
     (''SRBDS_MITIGATION_UCODE_NEEDED'', 2), (''SRBDS_MITIGATION_FULL'', 3),
     (''SRBDS_MITIGATION_TSX_OFF'', 4), (''SRBDS_MITIGATION_HYPERVISOR'', 5)]"

definition enumdecl_srso_mitigation :: cenum_decl where
  "enumdecl_srso_mitigation = EnumDecl False [
     (''SRSO_MITIGATION_NONE'', 0), (''SRSO_MITIGATION_AUTO'', 1),
     (''SRSO_MITIGATION_UCODE_NEEDED'', 2), (''SRSO_MITIGATION_SAFE_RET_UCODE_NEEDED'', 3),
     (''SRSO_MITIGATION_MICROCODE'', 4), (''SRSO_MITIGATION_NOSMT'', 5),
     (''SRSO_MITIGATION_SAFE_RET'', 6), (''SRSO_MITIGATION_IBPB'', 7),
     (''SRSO_MITIGATION_IBPB_ON_VMEXIT'', 8), (''SRSO_MITIGATION_BP_SPEC_REDUCE'', 9)]"

definition enumdecl_ss_state :: cenum_decl where
  "enumdecl_ss_state = EnumDecl False [
     (''ss_done'', 0), (''ss_lock'', 1), (''ss_lock_irqsave'', 2), (''ss_lockless'', 3)]"

definition enumdecl_ssb_mitigation :: cenum_decl where
  "enumdecl_ssb_mitigation = EnumDecl False [
     (''SPEC_STORE_BYPASS_NONE'', 0), (''SPEC_STORE_BYPASS_AUTO'', 1),
     (''SPEC_STORE_BYPASS_DISABLE'', 2), (''SPEC_STORE_BYPASS_PRCTL'', 3),
     (''SPEC_STORE_BYPASS_SECCOMP'', 4)]"

definition enumdecl_stack_type :: cenum_decl where
  "enumdecl_stack_type = EnumDecl False [
     (''STACK_TYPE_UNKNOWN'', 0), (''STACK_TYPE_TASK'', 1), (''STACK_TYPE_IRQ'', 2),
     (''STACK_TYPE_SOFTIRQ'', 3), (''STACK_TYPE_ENTRY'', 4), (''STACK_TYPE_EXCEPTION'', 5),
     (''STACK_TYPE_EXCEPTION_LAST'', 10)]"

definition enumdecl_stat_group :: cenum_decl where
  "enumdecl_stat_group = EnumDecl False [
     (''STAT_READ'', 0), (''STAT_WRITE'', 1), (''STAT_DISCARD'', 2), (''STAT_FLUSH'', 3),
     (''NR_STAT_GROUPS'', 4)]"

definition enumdecl_stat_item :: cenum_decl where
  "enumdecl_stat_item = EnumDecl False [
     (''ALLOC_FASTPATH'', 0), (''ALLOC_SLOWPATH'', 1), (''FREE_RCU_SHEAF'', 2),
     (''FREE_RCU_SHEAF_FAIL'', 3), (''FREE_FASTPATH'', 4), (''FREE_SLOWPATH'', 5),
     (''FREE_ADD_PARTIAL'', 6), (''FREE_REMOVE_PARTIAL'', 7), (''ALLOC_SLAB'', 8),
     (''ALLOC_NODE_MISMATCH'', 9), (''FREE_SLAB'', 10), (''ORDER_FALLBACK'', 11),
     (''CMPXCHG_DOUBLE_FAIL'', 12), (''SHEAF_FLUSH'', 13), (''SHEAF_REFILL'', 14),
     (''SHEAF_ALLOC'', 15), (''SHEAF_FREE'', 16), (''BARN_GET'', 17), (''BARN_GET_FAIL'', 18),
     (''BARN_PUT'', 19), (''BARN_PUT_FAIL'', 20), (''SHEAF_PREFILL_FAST'', 21),
     (''SHEAF_PREFILL_SLOW'', 22), (''SHEAF_PREFILL_OVERSIZE'', 23), (''SHEAF_RETURN_FAST'', 24),
     (''SHEAF_RETURN_SLOW'', 25), (''NR_SLUB_STAT_ITEMS'', 26)]"

definition enumdecl_state :: cenum_decl where
  "enumdecl_state = EnumDecl False [
     (''Start'', 0), (''Collect'', 1), (''GotHeader'', 2), (''SkipIt'', 3), (''GotName'', 4),
     (''CopyFile'', 5), (''GotSymlink'', 6), (''Reset'', 7)]"

definition enumdecl_states_wwnr :: cenum_decl where
  "enumdecl_states_wwnr = EnumDecl False [
     (''not_running_wwnr'', 0), (''running_wwnr'', 1), (''state_max_wwnr'', 2)]"

definition enumdecl_store_type :: cenum_decl where
  "enumdecl_store_type = EnumDecl False [
     (''wr_invalid'', 0), (''wr_new_root'', 1), (''wr_store_root'', 2), (''wr_exact_fit'', 3),
     (''wr_spanning_store'', 4), (''wr_split_store'', 5), (''wr_rebalance'', 6),
     (''wr_append'', 7), (''wr_node_store'', 8), (''wr_slot_store'', 9)]"

definition enumdecl_string_size_units :: cenum_decl where
  "enumdecl_string_size_units = EnumDecl False [
     (''STRING_UNITS_10'', 0), (''STRING_UNITS_2'', 1), (''STRING_UNITS_MASK'', 1),
     (''STRING_UNITS_NO_SPACE'', 1073741824), (''STRING_UNITS_NO_BYTES'', 2147483648)]"

lemma enumdecl_string_size_units_4: "enum4 enumdecl_string_size_units"
  by (unfold enumdecl_string_size_units_def) (intro enum_uint_intros; simp)

definition enumdecl_struct_device_flags :: cenum_decl where
  "enumdecl_struct_device_flags = EnumDecl False [
     (''DEV_FLAG_READY_TO_PROBE'', 0), (''DEV_FLAG_COUNT'', 1)]"

definition enumdecl_subpixel_order :: cenum_decl where
  "enumdecl_subpixel_order = EnumDecl False [
     (''SubPixelUnknown'', 0), (''SubPixelHorizontalRGB'', 1), (''SubPixelHorizontalBGR'', 2),
     (''SubPixelVerticalRGB'', 3), (''SubPixelVerticalBGR'', 4), (''SubPixelNone'', 5)]"

definition enumdecl_sum_check_bits :: cenum_decl where
  "enumdecl_sum_check_bits = EnumDecl False [
     (''SUM_CHECK_P'', 0), (''SUM_CHECK_Q'', 1)]"

definition enumdecl_sum_check_flags :: cenum_decl where
  "enumdecl_sum_check_flags = EnumDecl False [
     (''SUM_CHECK_P_RESULT'', 1), (''SUM_CHECK_Q_RESULT'', 2)]"

definition enumdecl_super_iter_flags_t :: cenum_decl where
  "enumdecl_super_iter_flags_t = EnumDecl False [
     (''SUPER_ITER_EXCL'', 1), (''SUPER_ITER_UNLOCKED'', 2), (''SUPER_ITER_REVERSE'', 4)]"

definition enumdecl_support_mode :: cenum_decl where
  "enumdecl_support_mode = EnumDecl False [
     (''ALLOW_LEGACY'', 0), (''DENY_LEGACY'', 1)]"

definition enumdecl_suspend_mode :: cenum_decl where
  "enumdecl_suspend_mode = EnumDecl False [
     (''PRESUSPEND'', 0), (''PRESUSPEND_UNDO'', 1), (''POSTSUSPEND'', 2)]"

definition enumdecl_suspend_stat_step :: cenum_decl where
  "enumdecl_suspend_stat_step = EnumDecl False [
     (''SUSPEND_WORKING'', 0), (''SUSPEND_FREEZE'', 1), (''SUSPEND_PREPARE'', 2),
     (''SUSPEND_SUSPEND'', 3), (''SUSPEND_SUSPEND_LATE'', 4), (''SUSPEND_SUSPEND_NOIRQ'', 5),
     (''SUSPEND_RESUME_NOIRQ'', 6), (''SUSPEND_RESUME_EARLY'', 7), (''SUSPEND_RESUME'', 8)]"

definition enumdecl_svc_auth_status :: cenum_decl where
  "enumdecl_svc_auth_status = EnumDecl False [
     (''SVC_GARBAGE'', 1), (''SVC_VALID'', 2), (''SVC_NEGATIVE'', 3), (''SVC_OK'', 4),
     (''SVC_DROP'', 5), (''SVC_CLOSE'', 6), (''SVC_DENIED'', 7), (''SVC_PENDING'', 8),
     (''SVC_COMPLETE'', 9)]"

definition enumdecl_sw_activity :: cenum_decl where
  "enumdecl_sw_activity = EnumDecl False [
     (''OFF'', 0), (''BLINK_ON'', 1), (''BLINK_OFF'', 2)]"

definition enumdecl_swap_cluster_flags :: cenum_decl where
  "enumdecl_swap_cluster_flags = EnumDecl False [
     (''CLUSTER_FLAG_NONE'', 0), (''CLUSTER_FLAG_FREE'', 1), (''CLUSTER_FLAG_NONFULL'', 2),
     (''CLUSTER_FLAG_FRAG'', 3), (''CLUSTER_FLAG_USABLE'', 3), (''CLUSTER_FLAG_FULL'', 4),
     (''CLUSTER_FLAG_DISCARD'', 5), (''CLUSTER_FLAG_MAX'', 6)]"

definition enumdecl_switch_power_state :: cenum_decl where
  "enumdecl_switch_power_state = EnumDecl False [
     (''DRM_SWITCH_POWER_ON'', 0), (''DRM_SWITCH_POWER_OFF'', 1),
     (''DRM_SWITCH_POWER_CHANGING'', 2), (''DRM_SWITCH_POWER_DYNAMIC_OFF'', 3)]"

definition enumdecl_switchdev_attr_id :: cenum_decl where
  "enumdecl_switchdev_attr_id = EnumDecl False [
     (''SWITCHDEV_ATTR_ID_UNDEFINED'', 0), (''SWITCHDEV_ATTR_ID_PORT_STP_STATE'', 1),
     (''SWITCHDEV_ATTR_ID_PORT_MST_STATE'', 2), (''SWITCHDEV_ATTR_ID_PORT_BRIDGE_FLAGS'', 3),
     (''SWITCHDEV_ATTR_ID_PORT_PRE_BRIDGE_FLAGS'', 4), (''SWITCHDEV_ATTR_ID_PORT_MROUTER'', 5),
     (''SWITCHDEV_ATTR_ID_BRIDGE_AGEING_TIME'', 6),
     (''SWITCHDEV_ATTR_ID_BRIDGE_VLAN_FILTERING'', 7),
     (''SWITCHDEV_ATTR_ID_BRIDGE_VLAN_PROTOCOL'', 8),
     (''SWITCHDEV_ATTR_ID_BRIDGE_MC_DISABLED'', 9), (''SWITCHDEV_ATTR_ID_BRIDGE_MROUTER'', 10),
     (''SWITCHDEV_ATTR_ID_BRIDGE_MST'', 11), (''SWITCHDEV_ATTR_ID_MRP_PORT_ROLE'', 12),
     (''SWITCHDEV_ATTR_ID_VLAN_MSTI'', 13)]"

definition enumdecl_switchdev_notifier_type :: cenum_decl where
  "enumdecl_switchdev_notifier_type = EnumDecl False [
     (''SWITCHDEV_FDB_ADD_TO_BRIDGE'', 1), (''SWITCHDEV_FDB_DEL_TO_BRIDGE'', 2),
     (''SWITCHDEV_FDB_ADD_TO_DEVICE'', 3), (''SWITCHDEV_FDB_DEL_TO_DEVICE'', 4),
     (''SWITCHDEV_FDB_OFFLOADED'', 5), (''SWITCHDEV_FDB_FLUSH_TO_BRIDGE'', 6),
     (''SWITCHDEV_PORT_OBJ_ADD'', 7), (''SWITCHDEV_PORT_OBJ_DEL'', 8),
     (''SWITCHDEV_PORT_ATTR_SET'', 9), (''SWITCHDEV_VXLAN_FDB_ADD_TO_BRIDGE'', 10),
     (''SWITCHDEV_VXLAN_FDB_DEL_TO_BRIDGE'', 11), (''SWITCHDEV_VXLAN_FDB_ADD_TO_DEVICE'', 12),
     (''SWITCHDEV_VXLAN_FDB_DEL_TO_DEVICE'', 13), (''SWITCHDEV_VXLAN_FDB_OFFLOADED'', 14),
     (''SWITCHDEV_BRPORT_OFFLOADED'', 15), (''SWITCHDEV_BRPORT_UNOFFLOADED'', 16),
     (''SWITCHDEV_BRPORT_REPLAY'', 17)]"

definition enumdecl_switchdev_obj_id :: cenum_decl where
  "enumdecl_switchdev_obj_id = EnumDecl False [
     (''SWITCHDEV_OBJ_ID_UNDEFINED'', 0), (''SWITCHDEV_OBJ_ID_PORT_VLAN'', 1),
     (''SWITCHDEV_OBJ_ID_PORT_MDB'', 2), (''SWITCHDEV_OBJ_ID_HOST_MDB'', 3),
     (''SWITCHDEV_OBJ_ID_MRP'', 4), (''SWITCHDEV_OBJ_ID_RING_TEST_MRP'', 5),
     (''SWITCHDEV_OBJ_ID_RING_ROLE_MRP'', 6), (''SWITCHDEV_OBJ_ID_RING_STATE_MRP'', 7),
     (''SWITCHDEV_OBJ_ID_IN_TEST_MRP'', 8), (''SWITCHDEV_OBJ_ID_IN_ROLE_MRP'', 9),
     (''SWITCHDEV_OBJ_ID_IN_STATE_MRP'', 10)]"

definition enumdecl_sync_action :: cenum_decl where
  "enumdecl_sync_action = EnumDecl False [
     (''ACTION_RESYNC'', 0), (''ACTION_RECOVER'', 1), (''ACTION_CHECK'', 2),
     (''ACTION_REPAIR'', 3), (''ACTION_RESHAPE'', 4), (''ACTION_FROZEN'', 5),
     (''ACTION_IDLE'', 6), (''NR_SYNC_ACTIONS'', 7)]"

definition enumdecl_sys_off_mode :: cenum_decl where
  "enumdecl_sys_off_mode = EnumDecl False [
     (''SYS_OFF_MODE_POWER_OFF_PREPARE'', 0), (''SYS_OFF_MODE_POWER_OFF'', 1),
     (''SYS_OFF_MODE_RESTART_PREPARE'', 2), (''SYS_OFF_MODE_RESTART'', 3)]"

definition enumdecl_syscall_work_bit :: cenum_decl where
  "enumdecl_syscall_work_bit = EnumDecl False [
     (''SYSCALL_WORK_BIT_SECCOMP'', 0), (''SYSCALL_WORK_BIT_SYSCALL_TRACEPOINT'', 1),
     (''SYSCALL_WORK_BIT_SYSCALL_TRACE'', 2), (''SYSCALL_WORK_BIT_SYSCALL_EMU'', 3),
     (''SYSCALL_WORK_BIT_SYSCALL_AUDIT'', 4), (''SYSCALL_WORK_BIT_SYSCALL_USER_DISPATCH'', 5),
     (''SYSCALL_WORK_BIT_SYSCALL_EXIT_TRAP'', 6), (''SYSCALL_WORK_BIT_SYSCALL_RSEQ_SLICE'', 7)]"

definition enumdecl_sysctl_writes_mode :: cenum_decl where
  "enumdecl_sysctl_writes_mode = EnumDecl False [
     (''SYSCTL_WRITES_LEGACY'', - 1), (''SYSCTL_WRITES_WARN'', 0), (''SYSCTL_WRITES_STRICT'', 1)]"

definition enumdecl_system_states :: cenum_decl where
  "enumdecl_system_states = EnumDecl False [
     (''SYSTEM_BOOTING'', 0), (''SYSTEM_SCHEDULING'', 1), (''SYSTEM_FREEING_INITMEM'', 2),
     (''SYSTEM_RUNNING'', 3), (''SYSTEM_HALT'', 4), (''SYSTEM_POWER_OFF'', 5),
     (''SYSTEM_RESTART'', 6), (''SYSTEM_SUSPEND'', 7)]"

definition enumdecl_t10_dif_type :: cenum_decl where
  "enumdecl_t10_dif_type = EnumDecl False [
     (''T10_PI_TYPE0_PROTECTION'', 0), (''T10_PI_TYPE1_PROTECTION'', 1),
     (''T10_PI_TYPE2_PROTECTION'', 2), (''T10_PI_TYPE3_PROTECTION'', 3)]"

definition enumdecl_taa_mitigations :: cenum_decl where
  "enumdecl_taa_mitigations = EnumDecl False [
     (''TAA_MITIGATION_OFF'', 0), (''TAA_MITIGATION_AUTO'', 1),
     (''TAA_MITIGATION_UCODE_NEEDED'', 2), (''TAA_MITIGATION_VERW'', 3),
     (''TAA_MITIGATION_TSX_DISABLED'', 4)]"

definition enumdecl_task_work_notify_mode :: cenum_decl where
  "enumdecl_task_work_notify_mode = EnumDecl False [
     (''TWA_NONE'', 0), (''TWA_RESUME'', 1), (''TWA_SIGNAL'', 2), (''TWA_SIGNAL_NO_IPI'', 3),
     (''TWA_NMI_CURRENT'', 4)]"

definition enumdecl_tc_fifo_command :: cenum_decl where
  "enumdecl_tc_fifo_command = EnumDecl False [
     (''TC_FIFO_REPLACE'', 0), (''TC_FIFO_DESTROY'', 1), (''TC_FIFO_STATS'', 2)]"

definition enumdecl_tc_link_layer :: cenum_decl where
  "enumdecl_tc_link_layer = EnumDecl False [
     (''TC_LINKLAYER_UNAWARE'', 0), (''TC_LINKLAYER_ETHERNET'', 1), (''TC_LINKLAYER_ATM'', 2)]"

definition enumdecl_tc_mq_command :: cenum_decl where
  "enumdecl_tc_mq_command = EnumDecl False [
     (''TC_MQ_CREATE'', 0), (''TC_MQ_DESTROY'', 1), (''TC_MQ_STATS'', 2), (''TC_MQ_GRAFT'', 3)]"

definition enumdecl_tc_root_command :: cenum_decl where
  "enumdecl_tc_root_command = EnumDecl False [
     (''TC_ROOT_GRAFT'', 0)]"

definition enumdecl_tc_setup_type :: cenum_decl where
  "enumdecl_tc_setup_type = EnumDecl False [
     (''TC_QUERY_CAPS'', 0), (''TC_SETUP_QDISC_MQPRIO'', 1), (''TC_SETUP_CLSU32'', 2),
     (''TC_SETUP_CLSFLOWER'', 3), (''TC_SETUP_CLSMATCHALL'', 4), (''TC_SETUP_CLSBPF'', 5),
     (''TC_SETUP_BLOCK'', 6), (''TC_SETUP_QDISC_CBS'', 7), (''TC_SETUP_QDISC_RED'', 8),
     (''TC_SETUP_QDISC_PRIO'', 9), (''TC_SETUP_QDISC_MQ'', 10), (''TC_SETUP_QDISC_ETF'', 11),
     (''TC_SETUP_ROOT_QDISC'', 12), (''TC_SETUP_QDISC_GRED'', 13),
     (''TC_SETUP_QDISC_TAPRIO'', 14), (''TC_SETUP_FT'', 15), (''TC_SETUP_QDISC_ETS'', 16),
     (''TC_SETUP_QDISC_TBF'', 17), (''TC_SETUP_QDISC_FIFO'', 18), (''TC_SETUP_QDISC_HTB'', 19),
     (''TC_SETUP_ACT'', 20)]"

definition enumdecl_tca_id :: cenum_decl where
  "enumdecl_tca_id = EnumDecl False [
     (''TCA_ID_UNSPEC'', 0), (''TCA_ID_POLICE'', 1), (''TCA_ID_GACT'', 5), (''TCA_ID_IPT'', 6),
     (''TCA_ID_PEDIT'', 7), (''TCA_ID_MIRRED'', 8), (''TCA_ID_NAT'', 9), (''TCA_ID_XT'', 10),
     (''TCA_ID_SKBEDIT'', 11), (''TCA_ID_VLAN'', 12), (''TCA_ID_BPF'', 13),
     (''TCA_ID_CONNMARK'', 14), (''TCA_ID_SKBMOD'', 15), (''TCA_ID_CSUM'', 16),
     (''TCA_ID_TUNNEL_KEY'', 17), (''TCA_ID_SIMP'', 22), (''TCA_ID_IFE'', 25),
     (''TCA_ID_SAMPLE'', 26), (''TCA_ID_CTINFO'', 27), (''TCA_ID_MPLS'', 28),
     (''TCA_ID_CT'', 29), (''TCA_ID_GATE'', 30), (''__TCA_ID_MAX'', 255)]"

definition enumdecl_tcf_proto_ops_flags :: cenum_decl where
  "enumdecl_tcf_proto_ops_flags = EnumDecl False [
     (''TCF_PROTO_OPS_DOIT_UNLOCKED'', 1)]"

definition enumdecl_tcp_accecn_option :: cenum_decl where
  "enumdecl_tcp_accecn_option = EnumDecl False [
     (''TCP_ACCECN_OPTION_DISABLED'', 0), (''TCP_ACCECN_OPTION_MINIMUM'', 1),
     (''TCP_ACCECN_OPTION_FULL'', 2), (''TCP_ACCECN_OPTION_PERSIST'', 3)]"

definition enumdecl_tcp_ca_ack_event_flags :: cenum_decl where
  "enumdecl_tcp_ca_ack_event_flags = EnumDecl False [
     (''CA_ACK_SLOWPATH'', 1), (''CA_ACK_WIN_UPDATE'', 2), (''CA_ACK_ECE'', 4)]"

definition enumdecl_tcp_ca_event :: cenum_decl where
  "enumdecl_tcp_ca_event = EnumDecl False [
     (''CA_EVENT_TX_START'', 0), (''CA_EVENT_CWND_RESTART'', 1), (''CA_EVENT_COMPLETE_CWR'', 2),
     (''CA_EVENT_LOSS'', 3), (''CA_EVENT_ECN_NO_CE'', 4), (''CA_EVENT_ECN_IS_CE'', 5)]"

definition enumdecl_tcp_ca_state :: cenum_decl where
  "enumdecl_tcp_ca_state = EnumDecl False [
     (''TCP_CA_Open'', 0), (''TCP_CA_Disorder'', 1), (''TCP_CA_CWR'', 2),
     (''TCP_CA_Recovery'', 3), (''TCP_CA_Loss'', 4)]"

definition enumdecl_tcp_chrono :: cenum_decl where
  "enumdecl_tcp_chrono = EnumDecl False [
     (''TCP_CHRONO_UNSPEC'', 0), (''TCP_CHRONO_BUSY'', 1), (''TCP_CHRONO_RWND_LIMITED'', 2),
     (''TCP_CHRONO_SNDBUF_LIMITED'', 3), (''__TCP_CHRONO_MAX'', 4)]"

definition enumdecl_tcp_conntrack :: cenum_decl where
  "enumdecl_tcp_conntrack = EnumDecl False [
     (''TCP_CONNTRACK_NONE'', 0), (''TCP_CONNTRACK_SYN_SENT'', 1),
     (''TCP_CONNTRACK_SYN_RECV'', 2), (''TCP_CONNTRACK_ESTABLISHED'', 3),
     (''TCP_CONNTRACK_FIN_WAIT'', 4), (''TCP_CONNTRACK_CLOSE_WAIT'', 5),
     (''TCP_CONNTRACK_LAST_ACK'', 6), (''TCP_CONNTRACK_TIME_WAIT'', 7),
     (''TCP_CONNTRACK_CLOSE'', 8), (''TCP_CONNTRACK_LISTEN'', 9), (''TCP_CONNTRACK_MAX'', 10),
     (''TCP_CONNTRACK_IGNORE'', 11), (''TCP_CONNTRACK_RETRANS'', 12),
     (''TCP_CONNTRACK_UNACK'', 13), (''TCP_CONNTRACK_TIMEOUT_MAX'', 14)]"

definition enumdecl_tcp_ecn_mode :: cenum_decl where
  "enumdecl_tcp_ecn_mode = EnumDecl False [
     (''TCP_ECN_IN_NOECN_OUT_NOECN'', 0), (''TCP_ECN_IN_ECN_OUT_ECN'', 1),
     (''TCP_ECN_IN_ECN_OUT_NOECN'', 2), (''TCP_ECN_IN_ACCECN_OUT_ACCECN'', 3),
     (''TCP_ECN_IN_ACCECN_OUT_ECN'', 4), (''TCP_ECN_IN_ACCECN_OUT_NOECN'', 5)]"

definition enumdecl_tcp_fastopen_client_fail :: cenum_decl where
  "enumdecl_tcp_fastopen_client_fail = EnumDecl False [
     (''TFO_STATUS_UNSPEC'', 0), (''TFO_COOKIE_UNAVAILABLE'', 1), (''TFO_DATA_NOT_ACKED'', 2),
     (''TFO_SYN_RETRANSMITTED'', 3)]"

definition enumdecl_tcp_metric_index :: cenum_decl where
  "enumdecl_tcp_metric_index = EnumDecl False [
     (''TCP_METRIC_RTT'', 0), (''TCP_METRIC_RTTVAR'', 1), (''TCP_METRIC_SSTHRESH'', 2),
     (''TCP_METRIC_CWND'', 3), (''TCP_METRIC_REORDERING'', 4), (''TCP_METRIC_RTT_US'', 5),
     (''TCP_METRIC_RTTVAR_US'', 6), (''__TCP_METRIC_MAX'', 7)]"

definition enumdecl_tcp_queue :: cenum_decl where
  "enumdecl_tcp_queue = EnumDecl False [
     (''TCP_FRAG_IN_WRITE_QUEUE'', 0), (''TCP_FRAG_IN_RTX_QUEUE'', 1)]"

definition enumdecl_tcp_seq_states :: cenum_decl where
  "enumdecl_tcp_seq_states = EnumDecl False [
     (''TCP_SEQ_STATE_LISTENING'', 0), (''TCP_SEQ_STATE_ESTABLISHED'', 1)]"

definition enumdecl_tcp_skb_cb_sacked_flags :: cenum_decl where
  "enumdecl_tcp_skb_cb_sacked_flags = EnumDecl False [
     (''TCPCB_SACKED_ACKED'', 1), (''TCPCB_SACKED_RETRANS'', 2), (''TCPCB_LOST'', 4),
     (''TCPCB_TAGBITS'', 7), (''TCPCB_REPAIRED'', 16), (''TCPCB_EVER_RETRANS'', 128),
     (''TCPCB_RETRANS'', 146)]"

definition enumdecl_tcp_synack_type :: cenum_decl where
  "enumdecl_tcp_synack_type = EnumDecl False [
     (''TCP_SYNACK_NORMAL'', 0), (''TCP_SYNACK_FASTOPEN'', 1), (''TCP_SYNACK_COOKIE'', 2),
     (''TCP_SYNACK_RETRANS'', 3)]"

definition enumdecl_tcp_tw_status :: cenum_decl where
  "enumdecl_tcp_tw_status = EnumDecl False [
     (''TCP_TW_SUCCESS'', 0), (''TCP_TW_RST'', 1), (''TCP_TW_ACK'', 2), (''TCP_TW_SYN'', 3),
     (''TCP_TW_ACK_OOW'', 4)]"

definition enumdecl_tcpa_event_types :: cenum_decl where
  "enumdecl_tcpa_event_types = EnumDecl False [
     (''PREBOOT'', 0), (''POST_CODE'', 1), (''UNUSED'', 2), (''NO_ACTION'', 3),
     (''SEPARATOR'', 4), (''ACTION'', 5), (''EVENT_TAG'', 6), (''SCRTM_CONTENTS'', 7),
     (''SCRTM_VERSION'', 8), (''CPU_MICROCODE'', 9), (''PLATFORM_CONFIG_FLAGS'', 10),
     (''TABLE_OF_DEVICES'', 11), (''COMPACT_HASH'', 12), (''IPL'', 13),
     (''IPL_PARTITION_DATA'', 14), (''NONHOST_CODE'', 15), (''NONHOST_CONFIG'', 16),
     (''NONHOST_INFO'', 17)]"

definition enumdecl_tcpa_pc_event_ids :: cenum_decl where
  "enumdecl_tcpa_pc_event_ids = EnumDecl False [
     (''SMBIOS'', 1), (''BIS_CERT'', 2), (''POST_BIOS_ROM'', 3), (''ESCD'', 4), (''CMOS'', 5),
     (''NVRAM'', 6), (''OPTION_ROM_EXEC'', 7), (''OPTION_ROM_CONFIG'', 8),
     (''OPTION_ROM_MICROCODE'', 10), (''S_CRTM_VERSION'', 11), (''S_CRTM_CONTENTS'', 12),
     (''POST_CONTENTS'', 13), (''HOST_TABLE_OF_DEVICES'', 14)]"

definition enumdecl_tcx_action_base :: cenum_decl where
  "enumdecl_tcx_action_base = EnumDecl False [
     (''TCX_NEXT'', - 1), (''TCX_PASS'', 0), (''TCX_DROP'', 2), (''TCX_REDIRECT'', 7)]"

definition enumdecl_tdx_module_status_t :: cenum_decl where
  "enumdecl_tdx_module_status_t = EnumDecl False [
     (''TDX_MODULE_UNINITIALIZED'', 0), (''TDX_MODULE_INITIALIZED'', 1),
     (''TDX_MODULE_ERROR'', 2)]"

definition enumdecl_tg_state_flags :: cenum_decl where
  "enumdecl_tg_state_flags = EnumDecl False [
     (''THROTL_TG_PENDING'', 1), (''THROTL_TG_WAS_EMPTY'', 2), (''THROTL_TG_IOPS_WAS_EMPTY'', 4),
     (''THROTL_TG_CANCELING'', 8)]"

definition enumdecl_thermal_device_mode :: cenum_decl where
  "enumdecl_thermal_device_mode = EnumDecl False [
     (''THERMAL_DEVICE_DISABLED'', 0), (''THERMAL_DEVICE_ENABLED'', 1)]"

definition enumdecl_thermal_genl_attr :: cenum_decl where
  "enumdecl_thermal_genl_attr = EnumDecl False [
     (''THERMAL_GENL_ATTR_UNSPEC'', 0), (''THERMAL_GENL_ATTR_TZ'', 1),
     (''THERMAL_GENL_ATTR_TZ_ID'', 2), (''THERMAL_GENL_ATTR_TZ_TEMP'', 3),
     (''THERMAL_GENL_ATTR_TZ_TRIP'', 4), (''THERMAL_GENL_ATTR_TZ_TRIP_ID'', 5),
     (''THERMAL_GENL_ATTR_TZ_TRIP_TYPE'', 6), (''THERMAL_GENL_ATTR_TZ_TRIP_TEMP'', 7),
     (''THERMAL_GENL_ATTR_TZ_TRIP_HYST'', 8), (''THERMAL_GENL_ATTR_TZ_MODE'', 9),
     (''THERMAL_GENL_ATTR_TZ_NAME'', 10), (''THERMAL_GENL_ATTR_TZ_CDEV_WEIGHT'', 11),
     (''THERMAL_GENL_ATTR_TZ_GOV'', 12), (''THERMAL_GENL_ATTR_TZ_GOV_NAME'', 13),
     (''THERMAL_GENL_ATTR_CDEV'', 14), (''THERMAL_GENL_ATTR_CDEV_ID'', 15),
     (''THERMAL_GENL_ATTR_CDEV_CUR_STATE'', 16), (''THERMAL_GENL_ATTR_CDEV_MAX_STATE'', 17),
     (''THERMAL_GENL_ATTR_CDEV_NAME'', 18), (''THERMAL_GENL_ATTR_GOV_NAME'', 19),
     (''THERMAL_GENL_ATTR_CPU_CAPABILITY'', 20), (''THERMAL_GENL_ATTR_CPU_CAPABILITY_ID'', 21),
     (''THERMAL_GENL_ATTR_CPU_CAPABILITY_PERFORMANCE'', 22),
     (''THERMAL_GENL_ATTR_CPU_CAPABILITY_EFFICIENCY'', 23),
     (''THERMAL_GENL_ATTR_THRESHOLD'', 24), (''THERMAL_GENL_ATTR_THRESHOLD_TEMP'', 25),
     (''THERMAL_GENL_ATTR_THRESHOLD_DIRECTION'', 26), (''THERMAL_GENL_ATTR_TZ_PREV_TEMP'', 27),
     (''__THERMAL_GENL_ATTR_MAX'', 28)]"

definition enumdecl_thermal_genl_cmd :: cenum_decl where
  "enumdecl_thermal_genl_cmd = EnumDecl False [
     (''THERMAL_GENL_CMD_UNSPEC'', 0), (''THERMAL_GENL_CMD_TZ_GET_ID'', 1),
     (''THERMAL_GENL_CMD_TZ_GET_TRIP'', 2), (''THERMAL_GENL_CMD_TZ_GET_TEMP'', 3),
     (''THERMAL_GENL_CMD_TZ_GET_GOV'', 4), (''THERMAL_GENL_CMD_TZ_GET_MODE'', 5),
     (''THERMAL_GENL_CMD_CDEV_GET'', 6), (''THERMAL_GENL_CMD_THRESHOLD_GET'', 7),
     (''THERMAL_GENL_CMD_THRESHOLD_ADD'', 8), (''THERMAL_GENL_CMD_THRESHOLD_DELETE'', 9),
     (''THERMAL_GENL_CMD_THRESHOLD_FLUSH'', 10), (''__THERMAL_GENL_CMD_MAX'', 11)]"

definition enumdecl_thermal_genl_event :: cenum_decl where
  "enumdecl_thermal_genl_event = EnumDecl False [
     (''THERMAL_GENL_EVENT_UNSPEC'', 0), (''THERMAL_GENL_EVENT_TZ_CREATE'', 1),
     (''THERMAL_GENL_EVENT_TZ_DELETE'', 2), (''THERMAL_GENL_EVENT_TZ_DISABLE'', 3),
     (''THERMAL_GENL_EVENT_TZ_ENABLE'', 4), (''THERMAL_GENL_EVENT_TZ_TRIP_UP'', 5),
     (''THERMAL_GENL_EVENT_TZ_TRIP_DOWN'', 6), (''THERMAL_GENL_EVENT_TZ_TRIP_CHANGE'', 7),
     (''THERMAL_GENL_EVENT_TZ_TRIP_ADD'', 8), (''THERMAL_GENL_EVENT_TZ_TRIP_DELETE'', 9),
     (''THERMAL_GENL_EVENT_CDEV_ADD'', 10), (''THERMAL_GENL_EVENT_CDEV_DELETE'', 11),
     (''THERMAL_GENL_EVENT_CDEV_STATE_UPDATE'', 12), (''THERMAL_GENL_EVENT_TZ_GOV_CHANGE'', 13),
     (''THERMAL_GENL_EVENT_CPU_CAPABILITY_CHANGE'', 14),
     (''THERMAL_GENL_EVENT_THRESHOLD_ADD'', 15), (''THERMAL_GENL_EVENT_THRESHOLD_DELETE'', 16),
     (''THERMAL_GENL_EVENT_THRESHOLD_FLUSH'', 17), (''THERMAL_GENL_EVENT_THRESHOLD_UP'', 18),
     (''THERMAL_GENL_EVENT_THRESHOLD_DOWN'', 19), (''__THERMAL_GENL_EVENT_MAX'', 20)]"

definition enumdecl_thermal_genl_multicast_groups :: cenum_decl where
  "enumdecl_thermal_genl_multicast_groups = EnumDecl False [
     (''THERMAL_GENL_SAMPLING_GROUP'', 0), (''THERMAL_GENL_EVENT_GROUP'', 1),
     (''THERMAL_GENL_MAX_GROUP'', 1)]"

definition enumdecl_thermal_genl_sampling :: cenum_decl where
  "enumdecl_thermal_genl_sampling = EnumDecl False [
     (''THERMAL_GENL_SAMPLING_TEMP'', 0), (''__THERMAL_GENL_SAMPLING_MAX'', 1)]"

definition enumdecl_thermal_notify_event :: cenum_decl where
  "enumdecl_thermal_notify_event = EnumDecl False [
     (''THERMAL_EVENT_UNSPECIFIED'', 0), (''THERMAL_EVENT_TEMP_SAMPLE'', 1),
     (''THERMAL_TRIP_VIOLATED'', 2), (''THERMAL_TRIP_CHANGED'', 3), (''THERMAL_DEVICE_DOWN'', 4),
     (''THERMAL_DEVICE_UP'', 5), (''THERMAL_DEVICE_POWER_CAPABILITY_CHANGED'', 6),
     (''THERMAL_TABLE_CHANGED'', 7), (''THERMAL_EVENT_KEEP_ALIVE'', 8),
     (''THERMAL_TZ_BIND_CDEV'', 9), (''THERMAL_TZ_UNBIND_CDEV'', 10),
     (''THERMAL_INSTANCE_WEIGHT_CHANGED'', 11), (''THERMAL_TZ_RESUME'', 12),
     (''THERMAL_TZ_ADD_THRESHOLD'', 13), (''THERMAL_TZ_DEL_THRESHOLD'', 14),
     (''THERMAL_TZ_FLUSH_THRESHOLDS'', 15)]"

definition enumdecl_thermal_trend :: cenum_decl where
  "enumdecl_thermal_trend = EnumDecl False [
     (''THERMAL_TREND_STABLE'', 0), (''THERMAL_TREND_RAISING'', 1),
     (''THERMAL_TREND_DROPPING'', 2)]"

definition enumdecl_thermal_trip_type :: cenum_decl where
  "enumdecl_thermal_trip_type = EnumDecl False enum_thermal_trip_type"

definition enumdecl_tick_broadcast_mode :: cenum_decl where
  "enumdecl_tick_broadcast_mode = EnumDecl False [
     (''TICK_BROADCAST_OFF'', 0), (''TICK_BROADCAST_ON'', 1), (''TICK_BROADCAST_FORCE'', 2)]"

definition enumdecl_tick_broadcast_state :: cenum_decl where
  "enumdecl_tick_broadcast_state = EnumDecl False [
     (''TICK_BROADCAST_EXIT'', 0), (''TICK_BROADCAST_ENTER'', 1)]"

definition enumdecl_tick_dep_bits :: cenum_decl where
  "enumdecl_tick_dep_bits = EnumDecl False [
     (''TICK_DEP_BIT_POSIX_TIMER'', 0), (''TICK_DEP_BIT_PERF_EVENTS'', 1),
     (''TICK_DEP_BIT_SCHED'', 2), (''TICK_DEP_BIT_CLOCK_UNSTABLE'', 3),
     (''TICK_DEP_BIT_RCU'', 4), (''TICK_DEP_BIT_RCU_EXP'', 5)]"

definition enumdecl_tick_device_mode :: cenum_decl where
  "enumdecl_tick_device_mode = EnumDecl False [
     (''TICKDEV_MODE_PERIODIC'', 0), (''TICKDEV_MODE_ONESHOT'', 1)]"

definition enumdecl_timekeeper_ids :: cenum_decl where
  "enumdecl_timekeeper_ids = EnumDecl False [
     (''TIMEKEEPER_CORE'', 0), (''TIMEKEEPER_AUX_FIRST'', 1), (''TIMEKEEPER_AUX_LAST'', 8),
     (''TIMEKEEPERS_MAX'', 9)]"

definition enumdecl_timekeeping_adv_mode :: cenum_decl where
  "enumdecl_timekeeping_adv_mode = EnumDecl False [
     (''TK_ADV_TICK'', 0), (''TK_ADV_FREQ'', 1)]"

definition enumdecl_timespec_type :: cenum_decl where
  "enumdecl_timespec_type = EnumDecl False [
     (''TT_NONE'', 0), (''TT_NATIVE'', 1), (''TT_COMPAT'', 2)]"

definition enumdecl_tis_access :: cenum_decl where
  "enumdecl_tis_access = EnumDecl False [
     (''TPM_ACCESS_VALID'', 128), (''TPM_ACCESS_ACTIVE_LOCALITY'', 32),
     (''TPM_ACCESS_REQUEST_PENDING'', 4), (''TPM_ACCESS_REQUEST_USE'', 2)]"

definition enumdecl_tis_defaults :: cenum_decl where
  "enumdecl_tis_defaults = EnumDecl False [
     (''TIS_MEM_LEN'', 20480), (''TIS_SHORT_TIMEOUT'', 750), (''TIS_LONG_TIMEOUT'', 4000),
     (''TIS_TIMEOUT_MIN_ATML'', 14700), (''TIS_TIMEOUT_MAX_ATML'', 15000)]"

definition enumdecl_tis_int_flags :: cenum_decl where
  "enumdecl_tis_int_flags = EnumDecl False [
     (''TPM_GLOBAL_INT_ENABLE'', 2147483648), (''TPM_INTF_BURST_COUNT_STATIC'', 256),
     (''TPM_INTF_CMD_READY_INT'', 128), (''TPM_INTF_INT_EDGE_FALLING'', 64),
     (''TPM_INTF_INT_EDGE_RISING'', 32), (''TPM_INTF_INT_LEVEL_LOW'', 16),
     (''TPM_INTF_INT_LEVEL_HIGH'', 8), (''TPM_INTF_LOCALITY_CHANGE_INT'', 4),
     (''TPM_INTF_STS_VALID_INT'', 2), (''TPM_INTF_DATA_AVAIL_INT'', 1)]"

lemma enumdecl_tis_int_flags_4: "enum4 enumdecl_tis_int_flags"
  by (unfold enumdecl_tis_int_flags_def) (intro enum_uint_intros; simp)

definition enumdecl_tis_status :: cenum_decl where
  "enumdecl_tis_status = EnumDecl False [
     (''TPM_STS_VALID'', 128), (''TPM_STS_COMMAND_READY'', 64), (''TPM_STS_GO'', 32),
     (''TPM_STS_DATA_AVAIL'', 16), (''TPM_STS_DATA_EXPECT'', 8), (''TPM_STS_RESPONSE_RETRY'', 2),
     (''TPM_STS_READ_ZERO'', 35)]"

definition enumdecl_tk_offsets :: cenum_decl where
  "enumdecl_tk_offsets = EnumDecl False [
     (''TK_OFFS_REAL'', 0), (''TK_OFFS_BOOT'', 1), (''TK_OFFS_TAI'', 2), (''TK_OFFS_MAX'', 3)]"

definition enumdecl_tlb_flush_reason :: cenum_decl where
  "enumdecl_tlb_flush_reason = EnumDecl False [
     (''TLB_FLUSH_ON_TASK_SWITCH'', 0), (''TLB_REMOTE_SHOOTDOWN'', 1),
     (''TLB_LOCAL_SHOOTDOWN'', 2), (''TLB_LOCAL_MM_SHOOTDOWN'', 3), (''TLB_REMOTE_SEND_IPI'', 4),
     (''TLB_REMOTE_WRONG_CPU'', 5)]"

definition enumdecl_tls_offload_ctx_dir :: cenum_decl where
  "enumdecl_tls_offload_ctx_dir = EnumDecl False [
     (''TLS_OFFLOAD_CTX_DIR_RX'', 0), (''TLS_OFFLOAD_CTX_DIR_TX'', 1)]"

definition enumdecl_tomoyo_acl_entry_type_index :: cenum_decl where
  "enumdecl_tomoyo_acl_entry_type_index = EnumDecl False [
     (''TOMOYO_TYPE_PATH_ACL'', 0), (''TOMOYO_TYPE_PATH2_ACL'', 1),
     (''TOMOYO_TYPE_PATH_NUMBER_ACL'', 2), (''TOMOYO_TYPE_MKDEV_ACL'', 3),
     (''TOMOYO_TYPE_MOUNT_ACL'', 4), (''TOMOYO_TYPE_INET_ACL'', 5),
     (''TOMOYO_TYPE_UNIX_ACL'', 6), (''TOMOYO_TYPE_ENV_ACL'', 7),
     (''TOMOYO_TYPE_MANUAL_TASK_ACL'', 8)]"

definition enumdecl_tomoyo_conditions_index :: cenum_decl where
  "enumdecl_tomoyo_conditions_index = EnumDecl False [
     (''TOMOYO_TASK_UID'', 0), (''TOMOYO_TASK_EUID'', 1), (''TOMOYO_TASK_SUID'', 2),
     (''TOMOYO_TASK_FSUID'', 3), (''TOMOYO_TASK_GID'', 4), (''TOMOYO_TASK_EGID'', 5),
     (''TOMOYO_TASK_SGID'', 6), (''TOMOYO_TASK_FSGID'', 7), (''TOMOYO_TASK_PID'', 8),
     (''TOMOYO_TASK_PPID'', 9), (''TOMOYO_EXEC_ARGC'', 10), (''TOMOYO_EXEC_ENVC'', 11),
     (''TOMOYO_TYPE_IS_SOCKET'', 12), (''TOMOYO_TYPE_IS_SYMLINK'', 13),
     (''TOMOYO_TYPE_IS_FILE'', 14), (''TOMOYO_TYPE_IS_BLOCK_DEV'', 15),
     (''TOMOYO_TYPE_IS_DIRECTORY'', 16), (''TOMOYO_TYPE_IS_CHAR_DEV'', 17),
     (''TOMOYO_TYPE_IS_FIFO'', 18), (''TOMOYO_MODE_SETUID'', 19), (''TOMOYO_MODE_SETGID'', 20),
     (''TOMOYO_MODE_STICKY'', 21), (''TOMOYO_MODE_OWNER_READ'', 22),
     (''TOMOYO_MODE_OWNER_WRITE'', 23), (''TOMOYO_MODE_OWNER_EXECUTE'', 24),
     (''TOMOYO_MODE_GROUP_READ'', 25), (''TOMOYO_MODE_GROUP_WRITE'', 26),
     (''TOMOYO_MODE_GROUP_EXECUTE'', 27), (''TOMOYO_MODE_OTHERS_READ'', 28),
     (''TOMOYO_MODE_OTHERS_WRITE'', 29), (''TOMOYO_MODE_OTHERS_EXECUTE'', 30),
     (''TOMOYO_EXEC_REALPATH'', 31), (''TOMOYO_SYMLINK_TARGET'', 32), (''TOMOYO_PATH1_UID'', 33),
     (''TOMOYO_PATH1_GID'', 34), (''TOMOYO_PATH1_INO'', 35), (''TOMOYO_PATH1_MAJOR'', 36),
     (''TOMOYO_PATH1_MINOR'', 37), (''TOMOYO_PATH1_PERM'', 38), (''TOMOYO_PATH1_TYPE'', 39),
     (''TOMOYO_PATH1_DEV_MAJOR'', 40), (''TOMOYO_PATH1_DEV_MINOR'', 41),
     (''TOMOYO_PATH2_UID'', 42), (''TOMOYO_PATH2_GID'', 43), (''TOMOYO_PATH2_INO'', 44),
     (''TOMOYO_PATH2_MAJOR'', 45), (''TOMOYO_PATH2_MINOR'', 46), (''TOMOYO_PATH2_PERM'', 47),
     (''TOMOYO_PATH2_TYPE'', 48), (''TOMOYO_PATH2_DEV_MAJOR'', 49),
     (''TOMOYO_PATH2_DEV_MINOR'', 50), (''TOMOYO_PATH1_PARENT_UID'', 51),
     (''TOMOYO_PATH1_PARENT_GID'', 52), (''TOMOYO_PATH1_PARENT_INO'', 53),
     (''TOMOYO_PATH1_PARENT_PERM'', 54), (''TOMOYO_PATH2_PARENT_UID'', 55),
     (''TOMOYO_PATH2_PARENT_GID'', 56), (''TOMOYO_PATH2_PARENT_INO'', 57),
     (''TOMOYO_PATH2_PARENT_PERM'', 58), (''TOMOYO_MAX_CONDITION_KEYWORD'', 59),
     (''TOMOYO_NUMBER_UNION'', 60), (''TOMOYO_NAME_UNION'', 61), (''TOMOYO_ARGV_ENTRY'', 62),
     (''TOMOYO_ENVP_ENTRY'', 63)]"

definition enumdecl_tomoyo_domain_info_flags_index :: cenum_decl where
  "enumdecl_tomoyo_domain_info_flags_index = EnumDecl False [
     (''TOMOYO_DIF_QUOTA_WARNED'', 0), (''TOMOYO_DIF_TRANSITION_FAILED'', 1),
     (''TOMOYO_MAX_DOMAIN_INFO_FLAGS'', 2)]"

definition enumdecl_tomoyo_grant_log :: cenum_decl where
  "enumdecl_tomoyo_grant_log = EnumDecl False [
     (''TOMOYO_GRANTLOG_AUTO'', 0), (''TOMOYO_GRANTLOG_NO'', 1), (''TOMOYO_GRANTLOG_YES'', 2)]"

definition enumdecl_tomoyo_group_id :: cenum_decl where
  "enumdecl_tomoyo_group_id = EnumDecl False [
     (''TOMOYO_PATH_GROUP'', 0), (''TOMOYO_NUMBER_GROUP'', 1), (''TOMOYO_ADDRESS_GROUP'', 2),
     (''TOMOYO_MAX_GROUP'', 3)]"

definition enumdecl_tomoyo_mac_category_index :: cenum_decl where
  "enumdecl_tomoyo_mac_category_index = EnumDecl False [
     (''TOMOYO_MAC_CATEGORY_FILE'', 0), (''TOMOYO_MAC_CATEGORY_NETWORK'', 1),
     (''TOMOYO_MAC_CATEGORY_MISC'', 2), (''TOMOYO_MAX_MAC_CATEGORY_INDEX'', 3)]"

definition enumdecl_tomoyo_mac_index :: cenum_decl where
  "enumdecl_tomoyo_mac_index = EnumDecl False [
     (''TOMOYO_MAC_FILE_EXECUTE'', 0), (''TOMOYO_MAC_FILE_OPEN'', 1),
     (''TOMOYO_MAC_FILE_CREATE'', 2), (''TOMOYO_MAC_FILE_UNLINK'', 3),
     (''TOMOYO_MAC_FILE_GETATTR'', 4), (''TOMOYO_MAC_FILE_MKDIR'', 5),
     (''TOMOYO_MAC_FILE_RMDIR'', 6), (''TOMOYO_MAC_FILE_MKFIFO'', 7),
     (''TOMOYO_MAC_FILE_MKSOCK'', 8), (''TOMOYO_MAC_FILE_TRUNCATE'', 9),
     (''TOMOYO_MAC_FILE_SYMLINK'', 10), (''TOMOYO_MAC_FILE_MKBLOCK'', 11),
     (''TOMOYO_MAC_FILE_MKCHAR'', 12), (''TOMOYO_MAC_FILE_LINK'', 13),
     (''TOMOYO_MAC_FILE_RENAME'', 14), (''TOMOYO_MAC_FILE_CHMOD'', 15),
     (''TOMOYO_MAC_FILE_CHOWN'', 16), (''TOMOYO_MAC_FILE_CHGRP'', 17),
     (''TOMOYO_MAC_FILE_IOCTL'', 18), (''TOMOYO_MAC_FILE_CHROOT'', 19),
     (''TOMOYO_MAC_FILE_MOUNT'', 20), (''TOMOYO_MAC_FILE_UMOUNT'', 21),
     (''TOMOYO_MAC_FILE_PIVOT_ROOT'', 22), (''TOMOYO_MAC_NETWORK_INET_STREAM_BIND'', 23),
     (''TOMOYO_MAC_NETWORK_INET_STREAM_LISTEN'', 24),
     (''TOMOYO_MAC_NETWORK_INET_STREAM_CONNECT'', 25),
     (''TOMOYO_MAC_NETWORK_INET_DGRAM_BIND'', 26), (''TOMOYO_MAC_NETWORK_INET_DGRAM_SEND'', 27),
     (''TOMOYO_MAC_NETWORK_INET_RAW_BIND'', 28), (''TOMOYO_MAC_NETWORK_INET_RAW_SEND'', 29),
     (''TOMOYO_MAC_NETWORK_UNIX_STREAM_BIND'', 30),
     (''TOMOYO_MAC_NETWORK_UNIX_STREAM_LISTEN'', 31),
     (''TOMOYO_MAC_NETWORK_UNIX_STREAM_CONNECT'', 32),
     (''TOMOYO_MAC_NETWORK_UNIX_DGRAM_BIND'', 33), (''TOMOYO_MAC_NETWORK_UNIX_DGRAM_SEND'', 34),
     (''TOMOYO_MAC_NETWORK_UNIX_SEQPACKET_BIND'', 35),
     (''TOMOYO_MAC_NETWORK_UNIX_SEQPACKET_LISTEN'', 36),
     (''TOMOYO_MAC_NETWORK_UNIX_SEQPACKET_CONNECT'', 37), (''TOMOYO_MAC_ENVIRON'', 38),
     (''TOMOYO_MAX_MAC_INDEX'', 39)]"

definition enumdecl_tomoyo_memory_stat_type :: cenum_decl where
  "enumdecl_tomoyo_memory_stat_type = EnumDecl False [
     (''TOMOYO_MEMORY_POLICY'', 0), (''TOMOYO_MEMORY_AUDIT'', 1), (''TOMOYO_MEMORY_QUERY'', 2),
     (''TOMOYO_MAX_MEMORY_STAT'', 3)]"

definition enumdecl_tomoyo_mkdev_acl_index :: cenum_decl where
  "enumdecl_tomoyo_mkdev_acl_index = EnumDecl False [
     (''TOMOYO_TYPE_MKBLOCK'', 0), (''TOMOYO_TYPE_MKCHAR'', 1),
     (''TOMOYO_MAX_MKDEV_OPERATION'', 2)]"

definition enumdecl_tomoyo_mode_index :: cenum_decl where
  "enumdecl_tomoyo_mode_index = EnumDecl False [
     (''TOMOYO_CONFIG_DISABLED'', 0), (''TOMOYO_CONFIG_LEARNING'', 1),
     (''TOMOYO_CONFIG_PERMISSIVE'', 2), (''TOMOYO_CONFIG_ENFORCING'', 3),
     (''TOMOYO_CONFIG_MAX_MODE'', 4), (''TOMOYO_CONFIG_WANT_REJECT_LOG'', 64),
     (''TOMOYO_CONFIG_WANT_GRANT_LOG'', 128), (''TOMOYO_CONFIG_USE_DEFAULT'', 255)]"

definition enumdecl_tomoyo_network_acl_index :: cenum_decl where
  "enumdecl_tomoyo_network_acl_index = EnumDecl False [
     (''TOMOYO_NETWORK_BIND'', 0), (''TOMOYO_NETWORK_LISTEN'', 1),
     (''TOMOYO_NETWORK_CONNECT'', 2), (''TOMOYO_NETWORK_SEND'', 3),
     (''TOMOYO_MAX_NETWORK_OPERATION'', 4)]"

definition enumdecl_tomoyo_path2_acl_index :: cenum_decl where
  "enumdecl_tomoyo_path2_acl_index = EnumDecl False [
     (''TOMOYO_TYPE_LINK'', 0), (''TOMOYO_TYPE_RENAME'', 1), (''TOMOYO_TYPE_PIVOT_ROOT'', 2),
     (''TOMOYO_MAX_PATH2_OPERATION'', 3)]"

definition enumdecl_tomoyo_path_acl_index :: cenum_decl where
  "enumdecl_tomoyo_path_acl_index = EnumDecl False [
     (''TOMOYO_TYPE_EXECUTE'', 0), (''TOMOYO_TYPE_READ'', 1), (''TOMOYO_TYPE_WRITE'', 2),
     (''TOMOYO_TYPE_APPEND'', 3), (''TOMOYO_TYPE_UNLINK'', 4), (''TOMOYO_TYPE_GETATTR'', 5),
     (''TOMOYO_TYPE_RMDIR'', 6), (''TOMOYO_TYPE_TRUNCATE'', 7), (''TOMOYO_TYPE_SYMLINK'', 8),
     (''TOMOYO_TYPE_CHROOT'', 9), (''TOMOYO_TYPE_UMOUNT'', 10),
     (''TOMOYO_MAX_PATH_OPERATION'', 11)]"

definition enumdecl_tomoyo_path_number_acl_index :: cenum_decl where
  "enumdecl_tomoyo_path_number_acl_index = EnumDecl False [
     (''TOMOYO_TYPE_CREATE'', 0), (''TOMOYO_TYPE_MKDIR'', 1), (''TOMOYO_TYPE_MKFIFO'', 2),
     (''TOMOYO_TYPE_MKSOCK'', 3), (''TOMOYO_TYPE_IOCTL'', 4), (''TOMOYO_TYPE_CHMOD'', 5),
     (''TOMOYO_TYPE_CHOWN'', 6), (''TOMOYO_TYPE_CHGRP'', 7),
     (''TOMOYO_MAX_PATH_NUMBER_OPERATION'', 8)]"

definition enumdecl_tomoyo_path_stat_index :: cenum_decl where
  "enumdecl_tomoyo_path_stat_index = EnumDecl False [
     (''TOMOYO_PATH1'', 0), (''TOMOYO_PATH1_PARENT'', 1), (''TOMOYO_PATH2'', 2),
     (''TOMOYO_PATH2_PARENT'', 3), (''TOMOYO_MAX_PATH_STAT'', 4)]"

definition enumdecl_tomoyo_policy_id :: cenum_decl where
  "enumdecl_tomoyo_policy_id = EnumDecl False [
     (''TOMOYO_ID_GROUP'', 0), (''TOMOYO_ID_ADDRESS_GROUP'', 1), (''TOMOYO_ID_PATH_GROUP'', 2),
     (''TOMOYO_ID_NUMBER_GROUP'', 3), (''TOMOYO_ID_TRANSITION_CONTROL'', 4),
     (''TOMOYO_ID_AGGREGATOR'', 5), (''TOMOYO_ID_MANAGER'', 6), (''TOMOYO_ID_CONDITION'', 7),
     (''TOMOYO_ID_NAME'', 8), (''TOMOYO_ID_ACL'', 9), (''TOMOYO_ID_DOMAIN'', 10),
     (''TOMOYO_MAX_POLICY'', 11)]"

definition enumdecl_tomoyo_policy_stat_type :: cenum_decl where
  "enumdecl_tomoyo_policy_stat_type = EnumDecl False [
     (''TOMOYO_STAT_POLICY_UPDATES'', 0), (''TOMOYO_STAT_POLICY_LEARNING'', 1),
     (''TOMOYO_STAT_POLICY_PERMISSIVE'', 2), (''TOMOYO_STAT_POLICY_ENFORCING'', 3),
     (''TOMOYO_MAX_POLICY_STAT'', 4)]"

definition enumdecl_tomoyo_pref_index :: cenum_decl where
  "enumdecl_tomoyo_pref_index = EnumDecl False [
     (''TOMOYO_PREF_MAX_AUDIT_LOG'', 0), (''TOMOYO_PREF_MAX_LEARNING_ENTRY'', 1),
     (''TOMOYO_MAX_PREF'', 2)]"

definition enumdecl_tomoyo_securityfs_interface_index :: cenum_decl where
  "enumdecl_tomoyo_securityfs_interface_index = EnumDecl False [
     (''TOMOYO_DOMAINPOLICY'', 0), (''TOMOYO_EXCEPTIONPOLICY'', 1),
     (''TOMOYO_PROCESS_STATUS'', 2), (''TOMOYO_STAT'', 3), (''TOMOYO_AUDIT'', 4),
     (''TOMOYO_VERSION'', 5), (''TOMOYO_PROFILE'', 6), (''TOMOYO_QUERY'', 7),
     (''TOMOYO_MANAGER'', 8)]"

definition enumdecl_tomoyo_special_mount :: cenum_decl where
  "enumdecl_tomoyo_special_mount = EnumDecl False [
     (''TOMOYO_MOUNT_BIND'', 0), (''TOMOYO_MOUNT_MOVE'', 1), (''TOMOYO_MOUNT_REMOUNT'', 2),
     (''TOMOYO_MOUNT_MAKE_UNBINDABLE'', 3), (''TOMOYO_MOUNT_MAKE_PRIVATE'', 4),
     (''TOMOYO_MOUNT_MAKE_SLAVE'', 5), (''TOMOYO_MOUNT_MAKE_SHARED'', 6),
     (''TOMOYO_MAX_SPECIAL_MOUNT'', 7)]"

definition enumdecl_tomoyo_transition_type :: cenum_decl where
  "enumdecl_tomoyo_transition_type = EnumDecl False [
     (''TOMOYO_TRANSITION_CONTROL_NO_RESET'', 0), (''TOMOYO_TRANSITION_CONTROL_RESET'', 1),
     (''TOMOYO_TRANSITION_CONTROL_NO_INITIALIZE'', 2),
     (''TOMOYO_TRANSITION_CONTROL_INITIALIZE'', 3), (''TOMOYO_TRANSITION_CONTROL_NO_KEEP'', 4),
     (''TOMOYO_TRANSITION_CONTROL_KEEP'', 5), (''TOMOYO_MAX_TRANSITION_TYPE'', 6)]"

definition enumdecl_tomoyo_value_type :: cenum_decl where
  "enumdecl_tomoyo_value_type = EnumDecl False [
     (''TOMOYO_VALUE_TYPE_INVALID'', 0), (''TOMOYO_VALUE_TYPE_DECIMAL'', 1),
     (''TOMOYO_VALUE_TYPE_OCTAL'', 2), (''TOMOYO_VALUE_TYPE_HEXADECIMAL'', 3)]"

definition enumdecl_topo_types :: cenum_decl where
  "enumdecl_topo_types = EnumDecl False [
     (''INVALID_TYPE'', 0), (''SMT_TYPE'', 1), (''CORE_TYPE'', 2), (''MAX_TYPE_0B'', 3),
     (''MODULE_TYPE'', 3), (''AMD_CCD_TYPE'', 3), (''TILE_TYPE'', 4), (''AMD_SOCKET_TYPE'', 4),
     (''MAX_TYPE_80000026'', 5), (''DIE_TYPE'', 5), (''DIEGRP_TYPE'', 6), (''MAX_TYPE_1F'', 7)]"

definition enumdecl_tp_func_state :: cenum_decl where
  "enumdecl_tp_func_state = EnumDecl False [
     (''TP_FUNC_0'', 0), (''TP_FUNC_1'', 1), (''TP_FUNC_2'', 2), (''TP_FUNC_N'', 3)]"

definition enumdecl_tp_transition_sync :: cenum_decl where
  "enumdecl_tp_transition_sync = EnumDecl False [
     (''TP_TRANSITION_SYNC_1_0_1'', 0), (''TP_TRANSITION_SYNC_N_2_1'', 1),
     (''_NR_TP_TRANSITION_SYNC'', 2)]"

definition enumdecl_tpacket_versions :: cenum_decl where
  "enumdecl_tpacket_versions = EnumDecl False [
     (''TPACKET_V1'', 0), (''TPACKET_V2'', 1), (''TPACKET_V3'', 2)]"

definition enumdecl_tph_mem_type :: cenum_decl where
  "enumdecl_tph_mem_type = EnumDecl False [
     (''TPH_MEM_TYPE_VM'', 0), (''TPH_MEM_TYPE_PM'', 1)]"

definition enumdecl_tpm2_capabilities :: cenum_decl where
  "enumdecl_tpm2_capabilities = EnumDecl False [
     (''TPM2_CAP_HANDLES'', 1), (''TPM2_CAP_COMMANDS'', 2), (''TPM2_CAP_PCRS'', 5),
     (''TPM2_CAP_TPM_PROPERTIES'', 6)]"

definition enumdecl_tpm2_cc_attrs :: cenum_decl where
  "enumdecl_tpm2_cc_attrs = EnumDecl False [
     (''TPM2_CC_ATTR_CHANDLES'', 25), (''TPM2_CC_ATTR_RHANDLE'', 28),
     (''TPM2_CC_ATTR_VENDOR'', 29)]"

definition enum_decls_18 :: "cenum_decl list" where
  "enum_decls_18 = [
     enumdecl_skb_drop_reason, enumdecl_skb_drop_reason_subsys, enumdecl_skb_ext_id,
     enumdecl_skb_tstamp_type, enumdecl_sknetlink_groups, enumdecl_slab_flags,
     enumdecl_slab_stat_type, enumdecl_slab_state, enumdecl_smbios_attr_enum,
     enumdecl_smca_bank_types, enumdecl_smk_inos, enumdecl_smt_mitigations, enumdecl_snoop_when,
     enumdecl_sock_flags, enumdecl_sock_shutdown_cmd, enumdecl_sock_type, enumdecl_socket_flags,
     enumdecl_softleaf_type, enumdecl_special_kfunc_type, enumdecl_spectre_v1_mitigation,
     enumdecl_spectre_v2_mitigation, enumdecl_spectre_v2_mitigation_cmd,
     enumdecl_spectre_v2_user_mitigation, enumdecl_spectre_v2_user_mitigation_cmd,
     enumdecl_spi_mem_data_dir, enumdecl_spi_offload_trigger_type,
     enumdecl_split_lock_detect_state, enumdecl_split_type, enumdecl_squashfs_param,
     enumdecl_sr_retry_flags, enumdecl_srbds_mitigations, enumdecl_srso_mitigation,
     enumdecl_ss_state, enumdecl_ssb_mitigation, enumdecl_stack_type, enumdecl_stat_group,
     enumdecl_stat_item, enumdecl_state, enumdecl_states_wwnr, enumdecl_store_type,
     enumdecl_string_size_units, enumdecl_struct_device_flags, enumdecl_subpixel_order,
     enumdecl_sum_check_bits, enumdecl_sum_check_flags, enumdecl_super_iter_flags_t,
     enumdecl_support_mode, enumdecl_suspend_mode, enumdecl_suspend_stat_step,
     enumdecl_svc_auth_status, enumdecl_sw_activity, enumdecl_swap_cluster_flags,
     enumdecl_switch_power_state, enumdecl_switchdev_attr_id, enumdecl_switchdev_notifier_type,
     enumdecl_switchdev_obj_id, enumdecl_sync_action, enumdecl_sys_off_mode,
     enumdecl_syscall_work_bit, enumdecl_sysctl_writes_mode, enumdecl_system_states,
     enumdecl_t10_dif_type, enumdecl_taa_mitigations, enumdecl_task_work_notify_mode,
     enumdecl_tc_fifo_command, enumdecl_tc_link_layer, enumdecl_tc_mq_command,
     enumdecl_tc_root_command, enumdecl_tc_setup_type, enumdecl_tca_id,
     enumdecl_tcf_proto_ops_flags, enumdecl_tcp_accecn_option, enumdecl_tcp_ca_ack_event_flags,
     enumdecl_tcp_ca_event, enumdecl_tcp_ca_state, enumdecl_tcp_chrono, enumdecl_tcp_conntrack,
     enumdecl_tcp_ecn_mode, enumdecl_tcp_fastopen_client_fail, enumdecl_tcp_metric_index,
     enumdecl_tcp_queue, enumdecl_tcp_seq_states, enumdecl_tcp_skb_cb_sacked_flags,
     enumdecl_tcp_synack_type, enumdecl_tcp_tw_status, enumdecl_tcpa_event_types,
     enumdecl_tcpa_pc_event_ids, enumdecl_tcx_action_base, enumdecl_tdx_module_status_t,
     enumdecl_tg_state_flags, enumdecl_thermal_device_mode, enumdecl_thermal_genl_attr,
     enumdecl_thermal_genl_cmd, enumdecl_thermal_genl_event,
     enumdecl_thermal_genl_multicast_groups, enumdecl_thermal_genl_sampling,
     enumdecl_thermal_notify_event, enumdecl_thermal_trend, enumdecl_thermal_trip_type,
     enumdecl_tick_broadcast_mode, enumdecl_tick_broadcast_state, enumdecl_tick_dep_bits,
     enumdecl_tick_device_mode, enumdecl_timekeeper_ids, enumdecl_timekeeping_adv_mode,
     enumdecl_timespec_type, enumdecl_tis_access, enumdecl_tis_defaults, enumdecl_tis_int_flags,
     enumdecl_tis_status, enumdecl_tk_offsets, enumdecl_tlb_flush_reason,
     enumdecl_tls_offload_ctx_dir, enumdecl_tomoyo_acl_entry_type_index,
     enumdecl_tomoyo_conditions_index, enumdecl_tomoyo_domain_info_flags_index,
     enumdecl_tomoyo_grant_log, enumdecl_tomoyo_group_id, enumdecl_tomoyo_mac_category_index,
     enumdecl_tomoyo_mac_index, enumdecl_tomoyo_memory_stat_type,
     enumdecl_tomoyo_mkdev_acl_index, enumdecl_tomoyo_mode_index,
     enumdecl_tomoyo_network_acl_index, enumdecl_tomoyo_path2_acl_index,
     enumdecl_tomoyo_path_acl_index, enumdecl_tomoyo_path_number_acl_index,
     enumdecl_tomoyo_path_stat_index, enumdecl_tomoyo_policy_id,
     enumdecl_tomoyo_policy_stat_type, enumdecl_tomoyo_pref_index,
     enumdecl_tomoyo_securityfs_interface_index, enumdecl_tomoyo_special_mount,
     enumdecl_tomoyo_transition_type, enumdecl_tomoyo_value_type, enumdecl_topo_types,
     enumdecl_tp_func_state, enumdecl_tp_transition_sync, enumdecl_tpacket_versions,
     enumdecl_tph_mem_type, enumdecl_tpm2_capabilities, enumdecl_tpm2_cc_attrs]"

lemma enum_decls_18_4: "list_all enum4 enum_decls_18"
  by (unfold enum_decls_18_def
     enumdecl_skb_drop_reason_subsys_def enumdecl_skb_ext_id_def enumdecl_skb_tstamp_type_def
     enumdecl_sknetlink_groups_def enumdecl_slab_flags_def enumdecl_slab_stat_type_def
     enumdecl_slab_state_def enumdecl_smbios_attr_enum_def enumdecl_smca_bank_types_def
     enumdecl_smk_inos_def enumdecl_smt_mitigations_def enumdecl_snoop_when_def
     enumdecl_sock_flags_def enumdecl_sock_shutdown_cmd_def enumdecl_sock_type_def
     enumdecl_socket_flags_def enumdecl_softleaf_type_def enumdecl_special_kfunc_type_def
     enumdecl_spectre_v1_mitigation_def enumdecl_spectre_v2_mitigation_def
     enumdecl_spectre_v2_mitigation_cmd_def enumdecl_spectre_v2_user_mitigation_def
     enumdecl_spectre_v2_user_mitigation_cmd_def enumdecl_spi_mem_data_dir_def
     enumdecl_spi_offload_trigger_type_def enumdecl_split_lock_detect_state_def
     enumdecl_split_type_def enumdecl_squashfs_param_def enumdecl_sr_retry_flags_def
     enumdecl_srbds_mitigations_def enumdecl_srso_mitigation_def enumdecl_ss_state_def
     enumdecl_ssb_mitigation_def enumdecl_stack_type_def enumdecl_stat_group_def
     enumdecl_stat_item_def enumdecl_state_def enumdecl_states_wwnr_def
     enumdecl_store_type_def enumdecl_struct_device_flags_def enumdecl_subpixel_order_def
     enumdecl_sum_check_bits_def enumdecl_sum_check_flags_def enumdecl_super_iter_flags_t_def
     enumdecl_support_mode_def enumdecl_suspend_mode_def enumdecl_suspend_stat_step_def
     enumdecl_svc_auth_status_def enumdecl_sw_activity_def enumdecl_swap_cluster_flags_def
     enumdecl_switch_power_state_def enumdecl_switchdev_attr_id_def
     enumdecl_switchdev_notifier_type_def enumdecl_switchdev_obj_id_def
     enumdecl_sync_action_def enumdecl_sys_off_mode_def enumdecl_syscall_work_bit_def
     enumdecl_sysctl_writes_mode_def enumdecl_system_states_def enumdecl_t10_dif_type_def
     enumdecl_taa_mitigations_def enumdecl_task_work_notify_mode_def
     enumdecl_tc_fifo_command_def enumdecl_tc_link_layer_def enumdecl_tc_mq_command_def
     enumdecl_tc_root_command_def enumdecl_tc_setup_type_def enumdecl_tca_id_def
     enumdecl_tcf_proto_ops_flags_def enumdecl_tcp_accecn_option_def
     enumdecl_tcp_ca_ack_event_flags_def enumdecl_tcp_ca_event_def enumdecl_tcp_ca_state_def
     enumdecl_tcp_chrono_def enumdecl_tcp_conntrack_def enumdecl_tcp_ecn_mode_def
     enumdecl_tcp_fastopen_client_fail_def enumdecl_tcp_metric_index_def
     enumdecl_tcp_queue_def enumdecl_tcp_seq_states_def enumdecl_tcp_skb_cb_sacked_flags_def
     enumdecl_tcp_synack_type_def enumdecl_tcp_tw_status_def enumdecl_tcpa_event_types_def
     enumdecl_tcpa_pc_event_ids_def enumdecl_tcx_action_base_def
     enumdecl_tdx_module_status_t_def enumdecl_tg_state_flags_def
     enumdecl_thermal_device_mode_def enumdecl_thermal_genl_attr_def
     enumdecl_thermal_genl_cmd_def enumdecl_thermal_genl_event_def
     enumdecl_thermal_genl_multicast_groups_def enumdecl_thermal_genl_sampling_def
     enumdecl_thermal_notify_event_def enumdecl_thermal_trend_def
     enumdecl_thermal_trip_type_def enum_thermal_trip_type_def
     enumdecl_tick_broadcast_mode_def enumdecl_tick_broadcast_state_def
     enumdecl_tick_dep_bits_def enumdecl_tick_device_mode_def enumdecl_timekeeper_ids_def
     enumdecl_timekeeping_adv_mode_def enumdecl_timespec_type_def enumdecl_tis_access_def
     enumdecl_tis_defaults_def enumdecl_tis_status_def enumdecl_tk_offsets_def
     enumdecl_tlb_flush_reason_def enumdecl_tls_offload_ctx_dir_def
     enumdecl_tomoyo_acl_entry_type_index_def enumdecl_tomoyo_conditions_index_def
     enumdecl_tomoyo_domain_info_flags_index_def enumdecl_tomoyo_grant_log_def
     enumdecl_tomoyo_group_id_def enumdecl_tomoyo_mac_category_index_def
     enumdecl_tomoyo_mac_index_def enumdecl_tomoyo_memory_stat_type_def
     enumdecl_tomoyo_mkdev_acl_index_def enumdecl_tomoyo_mode_index_def
     enumdecl_tomoyo_network_acl_index_def enumdecl_tomoyo_path2_acl_index_def
     enumdecl_tomoyo_path_acl_index_def enumdecl_tomoyo_path_number_acl_index_def
     enumdecl_tomoyo_path_stat_index_def enumdecl_tomoyo_policy_id_def
     enumdecl_tomoyo_policy_stat_type_def enumdecl_tomoyo_pref_index_def
     enumdecl_tomoyo_securityfs_interface_index_def enumdecl_tomoyo_special_mount_def
     enumdecl_tomoyo_transition_type_def enumdecl_tomoyo_value_type_def
     enumdecl_topo_types_def enumdecl_tp_func_state_def enumdecl_tp_transition_sync_def
     enumdecl_tpacket_versions_def enumdecl_tph_mem_type_def enumdecl_tpm2_capabilities_def
     enumdecl_tpm2_cc_attrs_def)
    (intro enum_list_intros enum_int_intros enumdecl_skb_drop_reason_4 enumdecl_string_size_units_4 enumdecl_tis_int_flags_4; simp)

lemma enum_skb_drop_reason_listed: "EnumDecl False enum_skb_drop_reason \<in> set enum_decls_18"
  by (simp add: enum_decls_18_def flip: enumdecl_skb_drop_reason_def)

lemma enum_thermal_trip_type_listed: "EnumDecl False enum_thermal_trip_type \<in> set enum_decls_18"
  by (simp add: enum_decls_18_def flip: enumdecl_thermal_trip_type_def)

lemma length_enum_decls_18: "length enum_decls_18 = 142"
  by (simp add: enum_decls_18_def)

end
