(* ===== verification/VmlinuxEnum19.thy ===== *)
theory VmlinuxEnum19
  imports EnumDecl
begin

text \<open>
  The enumerations of four bytes of \<^verbatim>\<open>src/internal/ebpf/vmlinux.h\<close> between lines 29848 and
  31482, one definition per enumeration, enumerators in order. An enumeration without a tag is
  named after the line it starts on.
\<close>

definition enumdecl_tpm2_command_codes :: cenum_decl where
  "enumdecl_tpm2_command_codes = EnumDecl False [
     (''TPM2_CC_FIRST'', 287), (''TPM2_CC_HIERARCHY_CONTROL'', 289),
     (''TPM2_CC_HIERARCHY_CHANGE_AUTH'', 297), (''TPM2_CC_CREATE_PRIMARY'', 305),
     (''TPM2_CC_SEQUENCE_COMPLETE'', 318), (''TPM2_CC_SELF_TEST'', 323),
     (''TPM2_CC_STARTUP'', 324), (''TPM2_CC_SHUTDOWN'', 325), (''TPM2_CC_NV_READ'', 334),
     (''TPM2_CC_CREATE'', 339), (''TPM2_CC_LOAD'', 343), (''TPM2_CC_SEQUENCE_UPDATE'', 348),
     (''TPM2_CC_UNSEAL'', 350), (''TPM2_CC_CONTEXT_LOAD'', 353), (''TPM2_CC_CONTEXT_SAVE'', 354),
     (''TPM2_CC_FLUSH_CONTEXT'', 357), (''TPM2_CC_READ_PUBLIC'', 371),
     (''TPM2_CC_START_AUTH_SESS'', 374), (''TPM2_CC_VERIFY_SIGNATURE'', 375),
     (''TPM2_CC_GET_CAPABILITY'', 378), (''TPM2_CC_GET_RANDOM'', 379),
     (''TPM2_CC_PCR_READ'', 382), (''TPM2_CC_PCR_EXTEND'', 386),
     (''TPM2_CC_EVENT_SEQUENCE_COMPLETE'', 389), (''TPM2_CC_HASH_SEQUENCE_START'', 390),
     (''TPM2_CC_CREATE_LOADED'', 401), (''TPM2_CC_LAST'', 403)]"

definition enumdecl_tpm2_const :: cenum_decl where
  "enumdecl_tpm2_const = EnumDecl False [
     (''TPM2_PLATFORM_PCR'', 24), (''TPM2_PCR_SELECT_MIN'', 3)]"

definition enumdecl_tpm2_durations :: cenum_decl where
  "enumdecl_tpm2_durations = EnumDecl False [
     (''TPM2_DURATION_SHORT'', 20), (''TPM2_DURATION_LONG'', 2000),
     (''TPM2_DURATION_DEFAULT'', 120000)]"

definition enumdecl_tpm2_handle_types :: cenum_decl where
  "enumdecl_tpm2_handle_types = EnumDecl False [
     (''TPM2_HT_HMAC_SESSION'', 33554432), (''TPM2_HT_POLICY_SESSION'', 50331648),
     (''TPM2_HT_TRANSIENT'', 2147483648)]"

lemma enumdecl_tpm2_handle_types_4: "enum4 enumdecl_tpm2_handle_types"
  by (unfold enumdecl_tpm2_handle_types_def) (intro enum_uint_intros; simp)

definition enumdecl_tpm2_object_attributes :: cenum_decl where
  "enumdecl_tpm2_object_attributes = EnumDecl False [
     (''TPM2_OA_FIXED_TPM'', 2), (''TPM2_OA_ST_CLEAR'', 4), (''TPM2_OA_FIXED_PARENT'', 16),
     (''TPM2_OA_SENSITIVE_DATA_ORIGIN'', 32), (''TPM2_OA_USER_WITH_AUTH'', 64),
     (''TPM2_OA_ADMIN_WITH_POLICY'', 128), (''TPM2_OA_NO_DA'', 1024),
     (''TPM2_OA_ENCRYPTED_DUPLICATION'', 2048), (''TPM2_OA_RESTRICTED'', 65536),
     (''TPM2_OA_DECRYPT'', 131072), (''TPM2_OA_SIGN'', 262144)]"

definition enumdecl_tpm2_permanent_handles :: cenum_decl where
  "enumdecl_tpm2_permanent_handles = EnumDecl False [
     (''TPM2_RH_NULL'', 1073741831), (''TPM2_RS_PW'', 1073741833)]"

definition enumdecl_tpm2_properties :: cenum_decl where
  "enumdecl_tpm2_properties = EnumDecl False [
     (''TPM_PT_TOTAL_COMMANDS'', 297)]"

definition enumdecl_tpm2_return_codes :: cenum_decl where
  "enumdecl_tpm2_return_codes = EnumDecl False [
     (''TPM2_RC_SUCCESS'', 0), (''TPM2_RC_HASH'', 131), (''TPM2_RC_HANDLE'', 139),
     (''TPM2_RC_INTEGRITY'', 159), (''TPM2_RC_INITIALIZE'', 256), (''TPM2_RC_FAILURE'', 257),
     (''TPM2_RC_DISABLED'', 288), (''TPM2_RC_UPGRADE'', 301), (''TPM2_RC_COMMAND_CODE'', 323),
     (''TPM2_RC_TESTING'', 2314), (''TPM2_RC_REFERENCE_H0'', 2320), (''TPM2_RC_RETRY'', 2338),
     (''TPM2_RC_SESSION_MEMORY'', 2307)]"

definition enumdecl_tpm2_session_attributes :: cenum_decl where
  "enumdecl_tpm2_session_attributes = EnumDecl False [
     (''TPM2_SA_CONTINUE_SESSION'', 1), (''TPM2_SA_AUDIT_EXCLUSIVE'', 2),
     (''TPM2_SA_AUDIT_RESET'', 8), (''TPM2_SA_DECRYPT'', 32), (''TPM2_SA_ENCRYPT'', 64),
     (''TPM2_SA_AUDIT'', 128)]"

definition enumdecl_tpm2_startup_types :: cenum_decl where
  "enumdecl_tpm2_startup_types = EnumDecl False [
     (''TPM2_SU_CLEAR'', 0), (''TPM2_SU_STATE'', 1)]"

definition enumdecl_tpm2_structures :: cenum_decl where
  "enumdecl_tpm2_structures = EnumDecl False [
     (''TPM2_ST_NO_SESSIONS'', 32769), (''TPM2_ST_SESSIONS'', 32770),
     (''TPM2_ST_CREATION'', 32801)]"

definition enumdecl_tpm2_timeouts :: cenum_decl where
  "enumdecl_tpm2_timeouts = EnumDecl False [
     (''TPM2_TIMEOUT_A'', 750), (''TPM2_TIMEOUT_B'', 4000), (''TPM2_TIMEOUT_C'', 200),
     (''TPM2_TIMEOUT_D'', 30)]"

definition enumdecl_tpm2key_actions :: cenum_decl where
  "enumdecl_tpm2key_actions = EnumDecl False [
     (''ACT_tpm2_key_parent'', 0), (''ACT_tpm2_key_priv'', 1), (''ACT_tpm2_key_pub'', 2),
     (''ACT_tpm2_key_type'', 3), (''NR__tpm2key_actions'', 4)]"

definition enumdecl_tpm_algorithms :: cenum_decl where
  "enumdecl_tpm_algorithms = EnumDecl False [
     (''TPM_ALG_ERROR'', 0), (''TPM_ALG_SHA1'', 4), (''TPM_ALG_AES'', 6),
     (''TPM_ALG_KEYEDHASH'', 8), (''TPM_ALG_SHA256'', 11), (''TPM_ALG_SHA384'', 12),
     (''TPM_ALG_SHA512'', 13), (''TPM_ALG_NULL'', 16), (''TPM_ALG_SM3_256'', 18),
     (''TPM_ALG_ECC'', 35), (''TPM_ALG_CFB'', 67)]"

definition enumdecl_tpm_buf_flags :: cenum_decl where
  "enumdecl_tpm_buf_flags = EnumDecl False [
     (''TPM_BUF_OVERFLOW'', 1), (''TPM_BUF_TPM2B'', 2), (''TPM_BUF_BOUNDARY_ERROR'', 4)]"

definition enumdecl_tpm_capabilities :: cenum_decl where
  "enumdecl_tpm_capabilities = EnumDecl False [
     (''TPM_CAP_FLAG'', 4), (''TPM_CAP_PROP'', 5), (''TPM_CAP_VERSION_1_1'', 6),
     (''TPM_CAP_VERSION_1_2'', 26)]"

definition enumdecl_tpm_chip_flags :: cenum_decl where
  "enumdecl_tpm_chip_flags = EnumDecl False [
     (''TPM_CHIP_FLAG_BOOTSTRAPPED'', 1), (''TPM_CHIP_FLAG_TPM2'', 2),
     (''TPM_CHIP_FLAG_IRQ'', 4), (''TPM_CHIP_FLAG_VIRTUAL'', 8),
     (''TPM_CHIP_FLAG_HAVE_TIMEOUTS'', 16), (''TPM_CHIP_FLAG_ALWAYS_POWERED'', 32),
     (''TPM_CHIP_FLAG_FIRMWARE_POWER_MANAGED'', 64), (''TPM_CHIP_FLAG_FIRMWARE_UPGRADE'', 128),
     (''TPM_CHIP_FLAG_SUSPENDED'', 256), (''TPM_CHIP_FLAG_HWRNG_DISABLED'', 512),
     (''TPM_CHIP_FLAG_DISABLE'', 1024), (''TPM_CHIP_FLAG_SYNC'', 2048)]"

definition enumdecl_tpm_duration :: cenum_decl where
  "enumdecl_tpm_duration = EnumDecl False [
     (''TPM_SHORT'', 0), (''TPM_MEDIUM'', 1), (''TPM_LONG'', 2), (''TPM_LONG_LONG'', 3),
     (''TPM_UNDEFINED'', 4), (''TPM_NUM_DURATIONS'', 4)]"

definition enumdecl_tpm_pcrs :: cenum_decl where
  "enumdecl_tpm_pcrs = EnumDecl False [
     (''TPM_PCR0'', 0), (''TPM_PCR8'', 8), (''TPM_PCR10'', 10)]"

definition enumdecl_tpm_sub_capabilities :: cenum_decl where
  "enumdecl_tpm_sub_capabilities = EnumDecl False [
     (''TPM_CAP_PROP_PCR'', 257), (''TPM_CAP_PROP_MANUFACTURER'', 259),
     (''TPM_CAP_FLAG_PERM'', 264), (''TPM_CAP_FLAG_VOL'', 265), (''TPM_CAP_PROP_OWNER'', 273),
     (''TPM_CAP_PROP_TIS_TIMEOUT'', 277), (''TPM_CAP_PROP_TIS_DURATION'', 288)]"

definition enumdecl_tpm_timeout :: cenum_decl where
  "enumdecl_tpm_timeout = EnumDecl False [
     (''TPM_TIMEOUT'', 5), (''TPM_TIMEOUT_RETRY'', 100), (''TPM_TIMEOUT_RANGE_US'', 300),
     (''TPM_TIMEOUT_POLL'', 1), (''TPM_TIMEOUT_USECS_MIN'', 100),
     (''TPM_TIMEOUT_USECS_MAX'', 500)]"

definition enumdecl_tpm_tis_flags :: cenum_decl where
  "enumdecl_tpm_tis_flags = EnumDecl False [
     (''TPM_TIS_ITPM_WORKAROUND'', 0), (''TPM_TIS_INVALID_STATUS'', 1),
     (''TPM_TIS_DEFAULT_CANCELLATION'', 2), (''TPM_TIS_IRQ_TESTED'', 3),
     (''TPM_TIS_STATUS_VALID_RETRY'', 4)]"

definition enumdecl_tpm_tis_io_mode :: cenum_decl where
  "enumdecl_tpm_tis_io_mode = EnumDecl False [
     (''TPM_TIS_PHYS_8'', 0), (''TPM_TIS_PHYS_16'', 1), (''TPM_TIS_PHYS_32'', 2)]"

definition enumdecl_tps65090_cells :: cenum_decl where
  "enumdecl_tps65090_cells = EnumDecl False [
     (''PMIC'', 0), (''CHARGER'', 1)]"

definition enumdecl_tps65912_irqs :: cenum_decl where
  "enumdecl_tps65912_irqs = EnumDecl False [
     (''TPS65912_IRQ_PWRHOLD_F'', 0), (''TPS65912_IRQ_VMON'', 1), (''TPS65912_IRQ_PWRON'', 2),
     (''TPS65912_IRQ_PWRON_LP'', 3), (''TPS65912_IRQ_PWRHOLD_R'', 4),
     (''TPS65912_IRQ_HOTDIE'', 5), (''TPS65912_IRQ_GPIO1_R'', 6), (''TPS65912_IRQ_GPIO1_F'', 7),
     (''TPS65912_IRQ_GPIO2_R'', 8), (''TPS65912_IRQ_GPIO2_F'', 9),
     (''TPS65912_IRQ_GPIO3_R'', 10), (''TPS65912_IRQ_GPIO3_F'', 11),
     (''TPS65912_IRQ_GPIO4_R'', 12), (''TPS65912_IRQ_GPIO4_F'', 13),
     (''TPS65912_IRQ_GPIO5_R'', 14), (''TPS65912_IRQ_GPIO5_F'', 15),
     (''TPS65912_IRQ_PGOOD_DCDC1'', 16), (''TPS65912_IRQ_PGOOD_DCDC2'', 17),
     (''TPS65912_IRQ_PGOOD_DCDC3'', 18), (''TPS65912_IRQ_PGOOD_DCDC4'', 19),
     (''TPS65912_IRQ_PGOOD_LDO1'', 20), (''TPS65912_IRQ_PGOOD_LDO2'', 21),
     (''TPS65912_IRQ_PGOOD_LDO3'', 22), (''TPS65912_IRQ_PGOOD_LDO4'', 23),
     (''TPS65912_IRQ_PGOOD_LDO5'', 24), (''TPS65912_IRQ_PGOOD_LDO6'', 25),
     (''TPS65912_IRQ_PGOOD_LDO7'', 26), (''TPS65912_IRQ_PGOOD_LDO8'', 27),
     (''TPS65912_IRQ_PGOOD_LDO9'', 28), (''TPS65912_IRQ_PGOOD_LDO10'', 29)]"

definition enumdecl_tps65917_irqs :: cenum_decl where
  "enumdecl_tps65917_irqs = EnumDecl False [
     (''TPS65917_RESERVED1'', 0), (''TPS65917_PWRON_IRQ'', 1),
     (''TPS65917_LONG_PRESS_KEY_IRQ'', 2), (''TPS65917_RESERVED2'', 3),
     (''TPS65917_PWRDOWN_IRQ'', 4), (''TPS65917_HOTDIE_IRQ'', 5), (''TPS65917_VSYS_MON_IRQ'', 6),
     (''TPS65917_RESERVED3'', 7), (''TPS65917_RESERVED4'', 8), (''TPS65917_OTP_ERROR_IRQ'', 9),
     (''TPS65917_WDT_IRQ'', 10), (''TPS65917_RESERVED5'', 11), (''TPS65917_RESET_IN_IRQ'', 12),
     (''TPS65917_FSD_IRQ'', 13), (''TPS65917_SHORT_IRQ'', 14), (''TPS65917_RESERVED6'', 15),
     (''TPS65917_GPADC_AUTO_0_IRQ'', 16), (''TPS65917_GPADC_AUTO_1_IRQ'', 17),
     (''TPS65917_GPADC_EOC_SW_IRQ'', 18), (''TPS65917_RESREVED6'', 19),
     (''TPS65917_RESERVED7'', 20), (''TPS65917_RESERVED8'', 21), (''TPS65917_RESERVED9'', 22),
     (''TPS65917_VBUS_IRQ'', 23), (''TPS65917_GPIO_0_IRQ'', 24), (''TPS65917_GPIO_1_IRQ'', 25),
     (''TPS65917_GPIO_2_IRQ'', 26), (''TPS65917_GPIO_3_IRQ'', 27), (''TPS65917_GPIO_4_IRQ'', 28),
     (''TPS65917_GPIO_5_IRQ'', 29), (''TPS65917_GPIO_6_IRQ'', 30), (''TPS65917_RESERVED10'', 31),
     (''TPS65917_NUM_IRQ'', 32)]"

definition enumdecl_trace_flag_type :: cenum_decl where
  "enumdecl_trace_flag_type = EnumDecl False [
     (''TRACE_FLAG_IRQS_OFF'', 1), (''TRACE_FLAG_NEED_RESCHED_LAZY'', 2),
     (''TRACE_FLAG_NEED_RESCHED'', 4), (''TRACE_FLAG_HARDIRQ'', 8), (''TRACE_FLAG_SOFTIRQ'', 16),
     (''TRACE_FLAG_PREEMPT_RESCHED'', 32), (''TRACE_FLAG_NMI'', 64), (''TRACE_FLAG_BH_OFF'', 128)]"

definition enumdecl_trace_iter_flags :: cenum_decl where
  "enumdecl_trace_iter_flags = EnumDecl False [
     (''TRACE_FILE_LAT_FMT'', 1), (''TRACE_FILE_ANNOTATE'', 2), (''TRACE_FILE_TIME_IN_NS'', 4),
     (''TRACE_FILE_PAUSE'', 8)]"

definition enumdecl_trace_iterator_bits :: cenum_decl where
  "enumdecl_trace_iterator_bits = EnumDecl False [
     (''TRACE_ITER_PRINT_PARENT_BIT'', 0), (''TRACE_ITER_SYM_OFFSET_BIT'', 1),
     (''TRACE_ITER_SYM_ADDR_BIT'', 2), (''TRACE_ITER_VERBOSE_BIT'', 3),
     (''TRACE_ITER_RAW_BIT'', 4), (''TRACE_ITER_HEX_BIT'', 5), (''TRACE_ITER_BIN_BIT'', 6),
     (''TRACE_ITER_BLOCK_BIT'', 7), (''TRACE_ITER_FIELDS_BIT'', 8),
     (''TRACE_ITER_PRINTK_BIT'', 9), (''TRACE_ITER_ANNOTATE_BIT'', 10),
     (''TRACE_ITER_USERSTACKTRACE_BIT'', 11), (''TRACE_ITER_SYM_USEROBJ_BIT'', 12),
     (''TRACE_ITER_PRINTK_MSGONLY_BIT'', 13), (''TRACE_ITER_CONTEXT_INFO_BIT'', 14),
     (''TRACE_ITER_LATENCY_FMT_BIT'', 15), (''TRACE_ITER_RECORD_CMD_BIT'', 16),
     (''TRACE_ITER_RECORD_TGID_BIT'', 17), (''TRACE_ITER_OVERWRITE_BIT'', 18),
     (''TRACE_ITER_STOP_ON_FREE_BIT'', 19), (''TRACE_ITER_IRQ_INFO_BIT'', 20),
     (''TRACE_ITER_MARKERS_BIT'', 21), (''TRACE_ITER_EVENT_FORK_BIT'', 22),
     (''TRACE_ITER_TRACE_PRINTK_BIT'', 23), (''TRACE_ITER_COPY_MARKER_BIT'', 24),
     (''TRACE_ITER_PAUSE_ON_TRACE_BIT'', 25), (''TRACE_ITER_HASH_PTR_BIT'', 26),
     (''TRACE_ITER_BITMASK_LIST_BIT'', 27), (''TRACE_ITER_FUNCTION_BIT'', 28),
     (''TRACE_ITER_FUNC_FORK_BIT'', 29), (''TRACE_ITER_DISPLAY_GRAPH_BIT'', 30),
     (''TRACE_ITER_STACKTRACE_BIT'', 31), (''TRACE_ITER_PROF_TEXT_OFFSET_BIT'', 32),
     (''TRACE_ITER_GRAPH_TIME_BIT'', 33), (''TRACE_ITER_LAST_BIT'', 34)]"

definition enumdecl_trace_reg :: cenum_decl where
  "enumdecl_trace_reg = EnumDecl False [
     (''TRACE_REG_REGISTER'', 0), (''TRACE_REG_UNREGISTER'', 1),
     (''TRACE_REG_PERF_REGISTER'', 2), (''TRACE_REG_PERF_UNREGISTER'', 3),
     (''TRACE_REG_PERF_OPEN'', 4), (''TRACE_REG_PERF_CLOSE'', 5), (''TRACE_REG_PERF_ADD'', 6),
     (''TRACE_REG_PERF_DEL'', 7)]"

definition enumdecl_trace_type :: cenum_decl where
  "enumdecl_trace_type = EnumDecl False [
     (''__TRACE_FIRST_TYPE'', 0), (''TRACE_FN'', 1), (''TRACE_CTX'', 2), (''TRACE_WAKE'', 3),
     (''TRACE_STACK'', 4), (''TRACE_PRINT'', 5), (''TRACE_BPRINT'', 6), (''TRACE_MMIO_RW'', 7),
     (''TRACE_MMIO_MAP'', 8), (''TRACE_BRANCH'', 9), (''TRACE_GRAPH_RET'', 10),
     (''TRACE_GRAPH_ENT'', 11), (''TRACE_GRAPH_RETADDR_ENT'', 12), (''TRACE_USER_STACK'', 13),
     (''TRACE_BLK'', 14), (''TRACE_BPUTS'', 15), (''TRACE_HWLAT'', 16), (''TRACE_OSNOISE'', 17),
     (''TRACE_TIMERLAT'', 18), (''TRACE_RAW_DATA'', 19), (''TRACE_FUNC_REPEATS'', 20),
     (''__TRACE_LAST_TYPE'', 21)]"

definition enumdecl_track_item :: cenum_decl where
  "enumdecl_track_item = EnumDecl False [
     (''TRACK_ALLOC'', 0), (''TRACK_FREE'', 1)]"

definition enumdecl_translation_map :: cenum_decl where
  "enumdecl_translation_map = EnumDecl False [
     (''LAT1_MAP'', 0), (''GRAF_MAP'', 1), (''IBMPC_MAP'', 2), (''USER_MAP'', 3),
     (''FIRST_MAP'', 0), (''LAST_MAP'', 3)]"

definition enumdecl_transparent_hugepage_flag :: cenum_decl where
  "enumdecl_transparent_hugepage_flag = EnumDecl False [
     (''TRANSPARENT_HUGEPAGE_UNSUPPORTED'', 0), (''TRANSPARENT_HUGEPAGE_FLAG'', 1),
     (''TRANSPARENT_HUGEPAGE_REQ_MADV_FLAG'', 2),
     (''TRANSPARENT_HUGEPAGE_DEFRAG_DIRECT_FLAG'', 3),
     (''TRANSPARENT_HUGEPAGE_DEFRAG_KSWAPD_FLAG'', 4),
     (''TRANSPARENT_HUGEPAGE_DEFRAG_KSWAPD_OR_MADV_FLAG'', 5),
     (''TRANSPARENT_HUGEPAGE_DEFRAG_REQ_MADV_FLAG'', 6),
     (''TRANSPARENT_HUGEPAGE_DEFRAG_KHUGEPAGED_FLAG'', 7),
     (''TRANSPARENT_HUGEPAGE_USE_ZERO_PAGE_FLAG'', 8)]"

definition enumdecl_tsa_mitigations :: cenum_decl where
  "enumdecl_tsa_mitigations = EnumDecl False [
     (''TSA_MITIGATION_NONE'', 0), (''TSA_MITIGATION_AUTO'', 1),
     (''TSA_MITIGATION_UCODE_NEEDED'', 2), (''TSA_MITIGATION_USER_KERNEL'', 3),
     (''TSA_MITIGATION_VM'', 4), (''TSA_MITIGATION_FULL'', 5)]"

definition enumdecl_tsq_enum :: cenum_decl where
  "enumdecl_tsq_enum = EnumDecl False [
     (''TSQ_THROTTLED'', 0), (''TSQ_QUEUED'', 1), (''TCP_TSQ_DEFERRED'', 2),
     (''TCP_WRITE_TIMER_DEFERRED'', 3), (''TCP_DELACK_TIMER_DEFERRED'', 4),
     (''TCP_MTU_REDUCED_DEFERRED'', 5), (''TCP_ACK_DEFERRED'', 6)]"

definition enumdecl_tsq_flags :: cenum_decl where
  "enumdecl_tsq_flags = EnumDecl False [
     (''TSQF_THROTTLED'', 1), (''TSQF_QUEUED'', 2), (''TCPF_TSQ_DEFERRED'', 4),
     (''TCPF_WRITE_TIMER_DEFERRED'', 8), (''TCPF_DELACK_TIMER_DEFERRED'', 16),
     (''TCPF_MTU_REDUCED_DEFERRED'', 32), (''TCPF_ACK_DEFERRED'', 64)]"

definition enumdecl_tsx_ctrl_states :: cenum_decl where
  "enumdecl_tsx_ctrl_states = EnumDecl False [
     (''TSX_CTRL_AUTO'', 0), (''TSX_CTRL_ENABLE'', 1), (''TSX_CTRL_DISABLE'', 2),
     (''TSX_CTRL_RTM_ALWAYS_ABORT'', 3), (''TSX_CTRL_NOT_SUPPORTED'', 4)]"

definition enumdecl_ttu_flags :: cenum_decl where
  "enumdecl_ttu_flags = EnumDecl False [
     (''TTU_USE_SHARED_ZEROPAGE'', 2), (''TTU_SPLIT_HUGE_PMD'', 4), (''TTU_IGNORE_MLOCK'', 8),
     (''TTU_SYNC'', 16), (''TTU_HWPOISON'', 32), (''TTU_BATCH_FLUSH'', 64),
     (''TTU_RMAP_LOCKED'', 128)]"

definition enumdecl_tty_driver_flag :: cenum_decl where
  "enumdecl_tty_driver_flag = EnumDecl False [
     (''TTY_DRIVER_INSTALLED'', 1), (''TTY_DRIVER_RESET_TERMIOS'', 2),
     (''TTY_DRIVER_REAL_RAW'', 4), (''TTY_DRIVER_DYNAMIC_DEV'', 8),
     (''TTY_DRIVER_DEVPTS_MEM'', 16), (''TTY_DRIVER_HARDWARE_BREAK'', 32),
     (''TTY_DRIVER_DYNAMIC_ALLOC'', 64), (''TTY_DRIVER_UNNUMBERED_NODE'', 128)]"

definition enumdecl_tty_driver_subtype :: cenum_decl where
  "enumdecl_tty_driver_subtype = EnumDecl False [
     (''SYSTEM_TYPE_TTY'', 1), (''SYSTEM_TYPE_CONSOLE'', 2), (''SYSTEM_TYPE_SYSCONS'', 3),
     (''SYSTEM_TYPE_SYSPTMX'', 4), (''PTY_TYPE_MASTER'', 1), (''PTY_TYPE_SLAVE'', 2),
     (''SERIAL_TYPE_NORMAL'', 1)]"

definition enumdecl_tty_driver_type :: cenum_decl where
  "enumdecl_tty_driver_type = EnumDecl False [
     (''TTY_DRIVER_TYPE_SYSTEM'', 0), (''TTY_DRIVER_TYPE_CONSOLE'', 1),
     (''TTY_DRIVER_TYPE_SERIAL'', 2), (''TTY_DRIVER_TYPE_PTY'', 3), (''TTY_DRIVER_TYPE_SCC'', 4),
     (''TTY_DRIVER_TYPE_SYSCONS'', 5)]"

definition enumdecl_tty_flow_change :: cenum_decl where
  "enumdecl_tty_flow_change = EnumDecl False [
     (''TTY_FLOW_NO_CHANGE'', 0), (''TTY_THROTTLE_SAFE'', 1), (''TTY_UNTHROTTLE_SAFE'', 2)]"

definition enumdecl_tty_struct_flags :: cenum_decl where
  "enumdecl_tty_struct_flags = EnumDecl False [
     (''TTY_THROTTLED'', 0), (''TTY_IO_ERROR'', 1), (''TTY_OTHER_CLOSED'', 2),
     (''TTY_EXCLUSIVE'', 3), (''TTY_DO_WRITE_WAKEUP'', 4), (''TTY_LDISC_OPEN'', 5),
     (''TTY_PTY_LOCK'', 6), (''TTY_NO_WRITE_SPLIT'', 7), (''TTY_HUPPED'', 8),
     (''TTY_HUPPING'', 9), (''TTY_LDISC_CHANGING'', 10), (''TTY_LDISC_HALTED'', 11)]"

definition enumdecl_tunable_id :: cenum_decl where
  "enumdecl_tunable_id = EnumDecl False [
     (''ETHTOOL_ID_UNSPEC'', 0), (''ETHTOOL_RX_COPYBREAK'', 1), (''ETHTOOL_TX_COPYBREAK'', 2),
     (''ETHTOOL_PFC_PREVENTION_TOUT'', 3), (''ETHTOOL_TX_COPYBREAK_BUF_SIZE'', 4),
     (''__ETHTOOL_TUNABLE_COUNT'', 5)]"

definition enumdecl_tunable_type_id :: cenum_decl where
  "enumdecl_tunable_type_id = EnumDecl False [
     (''ETHTOOL_TUNABLE_UNSPEC'', 0), (''ETHTOOL_TUNABLE_U8'', 1), (''ETHTOOL_TUNABLE_U16'', 2),
     (''ETHTOOL_TUNABLE_U32'', 3), (''ETHTOOL_TUNABLE_U64'', 4), (''ETHTOOL_TUNABLE_STRING'', 5),
     (''ETHTOOL_TUNABLE_S8'', 6), (''ETHTOOL_TUNABLE_S16'', 7), (''ETHTOOL_TUNABLE_S32'', 8),
     (''ETHTOOL_TUNABLE_S64'', 9)]"

definition enumdecl_tva_type :: cenum_decl where
  "enumdecl_tva_type = EnumDecl False [
     (''TVA_SMAPS'', 0), (''TVA_PAGEFAULT'', 1), (''TVA_KHUGEPAGED'', 2),
     (''TVA_FORCED_COLLAPSE'', 3)]"

definition enumdecl_twl4030_audio_res :: cenum_decl where
  "enumdecl_twl4030_audio_res = EnumDecl False [
     (''TWL4030_AUDIO_RES_POWER'', 0), (''TWL4030_AUDIO_RES_APLL'', 1),
     (''TWL4030_AUDIO_RES_MAX'', 2)]"

definition enumdecl_twl4030_module_ids :: cenum_decl where
  "enumdecl_twl4030_module_ids = EnumDecl False [
     (''TWL4030_MODULE_AUDIO_VOICE'', 9), (''TWL4030_MODULE_GPIO'', 10),
     (''TWL4030_MODULE_INTBR'', 11), (''TWL4030_MODULE_TEST'', 12),
     (''TWL4030_MODULE_KEYPAD'', 13), (''TWL4030_MODULE_MADC'', 14),
     (''TWL4030_MODULE_INTERRUPTS'', 15), (''TWL4030_MODULE_PRECHARGE'', 16),
     (''TWL4030_MODULE_BACKUP'', 17), (''TWL4030_MODULE_INT'', 18),
     (''TWL5031_MODULE_ACCESSORY'', 19), (''TWL5031_MODULE_INTERRUPTS'', 20),
     (''TWL4030_MODULE_LAST'', 21)]"

definition enumdecl_twl6030_module_ids :: cenum_decl where
  "enumdecl_twl6030_module_ids = EnumDecl False [
     (''TWL6030_MODULE_ID0'', 9), (''TWL6030_MODULE_ID1'', 10), (''TWL6030_MODULE_ID2'', 11),
     (''TWL6030_MODULE_GPADC'', 12), (''TWL6030_MODULE_GASGAUGE'', 13),
     (''TWL6032_MODULE_CHARGE'', 14), (''TWL6030_MODULE_LAST'', 15)]"

definition enumdecl_twl_module_ids :: cenum_decl where
  "enumdecl_twl_module_ids = EnumDecl False [
     (''TWL_MODULE_USB'', 0), (''TWL_MODULE_PIH'', 1), (''TWL_MODULE_MAIN_CHARGE'', 2),
     (''TWL_MODULE_PM_MASTER'', 3), (''TWL_MODULE_PM_RECEIVER'', 4), (''TWL_MODULE_RTC'', 5),
     (''TWL_MODULE_PWM'', 6), (''TWL_MODULE_LED'', 7), (''TWL_MODULE_SECURED_REG'', 8),
     (''TWL_MODULE_LAST'', 9)]"

definition enumdecl_txtime_flags :: cenum_decl where
  "enumdecl_txtime_flags = EnumDecl False [
     (''SOF_TXTIME_DEADLINE_MODE'', 1), (''SOF_TXTIME_REPORT_ERRORS'', 2),
     (''SOF_TXTIME_FLAGS_LAST'', 2), (''SOF_TXTIME_FLAGS_MASK'', 3)]"

definition enumdecl_uart_iotype :: cenum_decl where
  "enumdecl_uart_iotype = EnumDecl False [
     (''UPIO_UNKNOWN'', - 1), (''UPIO_PORT'', 0), (''UPIO_HUB6'', 1), (''UPIO_MEM'', 2),
     (''UPIO_MEM32'', 3), (''UPIO_AU'', 4), (''UPIO_TSI'', 5), (''UPIO_MEM32BE'', 6),
     (''UPIO_MEM16'', 7)]"

definition enumdecl_uart_pm_state :: cenum_decl where
  "enumdecl_uart_pm_state = EnumDecl False [
     (''UART_PM_STATE_ON'', 0), (''UART_PM_STATE_OFF'', 3), (''UART_PM_STATE_UNDEFINED'', 4)]"

definition enumdecl_uclamp_id :: cenum_decl where
  "enumdecl_uclamp_id = EnumDecl False [
     (''UCLAMP_MIN'', 0), (''UCLAMP_MAX'', 1), (''UCLAMP_CNT'', 2)]"

definition enumdecl_ucode_state :: cenum_decl where
  "enumdecl_ucode_state = EnumDecl False [
     (''UCODE_OK'', 0), (''UCODE_NEW'', 1), (''UCODE_NEW_SAFE'', 2), (''UCODE_UPDATED'', 3),
     (''UCODE_NFOUND'', 4), (''UCODE_ERROR'', 5), (''UCODE_TIMEOUT'', 6), (''UCODE_OFFLINE'', 7)]"

definition enumdecl_ucount_type :: cenum_decl where
  "enumdecl_ucount_type = EnumDecl False [
     (''UCOUNT_USER_NAMESPACES'', 0), (''UCOUNT_PID_NAMESPACES'', 1),
     (''UCOUNT_UTS_NAMESPACES'', 2), (''UCOUNT_IPC_NAMESPACES'', 3),
     (''UCOUNT_NET_NAMESPACES'', 4), (''UCOUNT_MNT_NAMESPACES'', 5),
     (''UCOUNT_CGROUP_NAMESPACES'', 6), (''UCOUNT_TIME_NAMESPACES'', 7),
     (''UCOUNT_INOTIFY_INSTANCES'', 8), (''UCOUNT_INOTIFY_WATCHES'', 9),
     (''UCOUNT_FANOTIFY_GROUPS'', 10), (''UCOUNT_FANOTIFY_MARKS'', 11), (''UCOUNT_COUNTS'', 12)]"

definition enumdecl_udp_conntrack :: cenum_decl where
  "enumdecl_udp_conntrack = EnumDecl False [
     (''UDP_CT_UNREPLIED'', 0), (''UDP_CT_REPLIED'', 1), (''UDP_CT_MAX'', 2)]"

definition enumdecl_udp_parsable_tunnel_type :: cenum_decl where
  "enumdecl_udp_parsable_tunnel_type = EnumDecl False [
     (''UDP_TUNNEL_TYPE_VXLAN'', 1), (''UDP_TUNNEL_TYPE_GENEVE'', 2),
     (''UDP_TUNNEL_TYPE_VXLAN_GPE'', 4)]"

definition enumdecl_udp_tunnel_nic_info_flags :: cenum_decl where
  "enumdecl_udp_tunnel_nic_info_flags = EnumDecl False [
     (''UDP_TUNNEL_NIC_INFO_OPEN_ONLY'', 1), (''UDP_TUNNEL_NIC_INFO_IPV4_ONLY'', 2),
     (''UDP_TUNNEL_NIC_INFO_STATIC_IANA_VXLAN'', 4)]"

definition enumdecl_uhci_rh_state :: cenum_decl where
  "enumdecl_uhci_rh_state = EnumDecl False [
     (''UHCI_RH_RESET'', 0), (''UHCI_RH_SUSPENDED'', 1), (''UHCI_RH_AUTO_STOPPED'', 2),
     (''UHCI_RH_RESUMING'', 3), (''UHCI_RH_SUSPENDING'', 4), (''UHCI_RH_RUNNING'', 5),
     (''UHCI_RH_RUNNING_NODEVS'', 6)]"

definition enumdecl_uinput_state :: cenum_decl where
  "enumdecl_uinput_state = EnumDecl False [
     (''UIST_NEW_DEVICE'', 0), (''UIST_SETUP_COMPLETE'', 1), (''UIST_CREATED'', 2)]"

definition enumdecl_umh_disable_depth :: cenum_decl where
  "enumdecl_umh_disable_depth = EnumDecl False [
     (''UMH_ENABLED'', 0), (''UMH_FREEZING'', 1), (''UMH_DISABLED'', 2)]"

definition enumdecl_umount_tree_flags :: cenum_decl where
  "enumdecl_umount_tree_flags = EnumDecl False [
     (''UMOUNT_SYNC'', 1), (''UMOUNT_PROPAGATE'', 2), (''UMOUNT_CONNECTED'', 4)]"

definition enumdecl_uncore_access_type :: cenum_decl where
  "enumdecl_uncore_access_type = EnumDecl False [
     (''UNCORE_ACCESS_MSR'', 0), (''UNCORE_ACCESS_MMIO'', 1), (''UNCORE_ACCESS_PCI'', 2),
     (''UNCORE_ACCESS_MAX'', 3)]"

definition enumdecl_unix_vertex_index :: cenum_decl where
  "enumdecl_unix_vertex_index = EnumDecl False [
     (''UNIX_VERTEX_INDEX_MARK1'', 0), (''UNIX_VERTEX_INDEX_MARK2'', 1),
     (''UNIX_VERTEX_INDEX_START'', 2)]"

definition enumdecl_unwind_user_type :: cenum_decl where
  "enumdecl_unwind_user_type = EnumDecl False [
     (''UNWIND_USER_TYPE_NONE'', 0), (''UNWIND_USER_TYPE_FP'', 1)]"

definition enumdecl_unwind_user_type_bits :: cenum_decl where
  "enumdecl_unwind_user_type_bits = EnumDecl False [
     (''UNWIND_USER_TYPE_FP_BIT'', 0), (''NR_UNWIND_USER_TYPE_BITS'', 1)]"

definition enumdecl_uprobe_task_state :: cenum_decl where
  "enumdecl_uprobe_task_state = EnumDecl False [
     (''UTASK_RUNNING'', 0), (''UTASK_SSTEP'', 1), (''UTASK_SSTEP_ACK'', 2),
     (''UTASK_SSTEP_TRAPPED'', 3)]"

definition enumdecl_usb3_link_state :: cenum_decl where
  "enumdecl_usb3_link_state = EnumDecl False [
     (''USB3_LPM_U0'', 0), (''USB3_LPM_U1'', 1), (''USB3_LPM_U2'', 2), (''USB3_LPM_U3'', 3)]"

definition enumdecl_usb_charger_state :: cenum_decl where
  "enumdecl_usb_charger_state = EnumDecl False [
     (''USB_CHARGER_DEFAULT'', 0), (''USB_CHARGER_PRESENT'', 1), (''USB_CHARGER_ABSENT'', 2)]"

definition enumdecl_usb_charger_type :: cenum_decl where
  "enumdecl_usb_charger_type = EnumDecl False [
     (''UNKNOWN_TYPE'', 0), (''SDP_TYPE'', 1), (''DCP_TYPE'', 2), (''CDP_TYPE'', 3),
     (''ACA_TYPE'', 4)]"

definition enumdecl_usb_dev_authorize_policy :: cenum_decl where
  "enumdecl_usb_dev_authorize_policy = EnumDecl False [
     (''USB_DEVICE_AUTHORIZE_NONE'', 0), (''USB_DEVICE_AUTHORIZE_ALL'', 1),
     (''USB_DEVICE_AUTHORIZE_INTERNAL'', 2)]"

definition enumdecl_usb_device_speed :: cenum_decl where
  "enumdecl_usb_device_speed = EnumDecl False enum_usb_device_speed"

definition enumdecl_usb_device_state :: cenum_decl where
  "enumdecl_usb_device_state = EnumDecl False enum_usb_device_state"

definition enumdecl_usb_dr_mode :: cenum_decl where
  "enumdecl_usb_dr_mode = EnumDecl False [
     (''USB_DR_MODE_UNKNOWN'', 0), (''USB_DR_MODE_HOST'', 1), (''USB_DR_MODE_PERIPHERAL'', 2),
     (''USB_DR_MODE_OTG'', 3)]"

definition enumdecl_usb_interface_condition :: cenum_decl where
  "enumdecl_usb_interface_condition = EnumDecl False [
     (''USB_INTERFACE_UNBOUND'', 0), (''USB_INTERFACE_BINDING'', 1),
     (''USB_INTERFACE_BOUND'', 2), (''USB_INTERFACE_UNBINDING'', 3)]"

definition enumdecl_usb_led_event :: cenum_decl where
  "enumdecl_usb_led_event = EnumDecl False [
     (''USB_LED_EVENT_HOST'', 0), (''USB_LED_EVENT_GADGET'', 1)]"

definition enumdecl_usb_link_tunnel_mode :: cenum_decl where
  "enumdecl_usb_link_tunnel_mode = EnumDecl False [
     (''USB_LINK_UNKNOWN'', 0), (''USB_LINK_NATIVE'', 1), (''USB_LINK_TUNNELED'', 2)]"

definition enumdecl_usb_otg_state :: cenum_decl where
  "enumdecl_usb_otg_state = EnumDecl False [
     (''OTG_STATE_UNDEFINED'', 0), (''OTG_STATE_B_IDLE'', 1), (''OTG_STATE_B_SRP_INIT'', 2),
     (''OTG_STATE_B_PERIPHERAL'', 3), (''OTG_STATE_B_WAIT_ACON'', 4), (''OTG_STATE_B_HOST'', 5),
     (''OTG_STATE_A_IDLE'', 6), (''OTG_STATE_A_WAIT_VRISE'', 7), (''OTG_STATE_A_WAIT_BCON'', 8),
     (''OTG_STATE_A_HOST'', 9), (''OTG_STATE_A_SUSPEND'', 10), (''OTG_STATE_A_PERIPHERAL'', 11),
     (''OTG_STATE_A_WAIT_VFALL'', 12), (''OTG_STATE_A_VBUS_ERR'', 13)]"

definition enumdecl_usb_phy_events :: cenum_decl where
  "enumdecl_usb_phy_events = EnumDecl False [
     (''USB_EVENT_NONE'', 0), (''USB_EVENT_VBUS'', 1), (''USB_EVENT_ID'', 2),
     (''USB_EVENT_CHARGER'', 3), (''USB_EVENT_ENUMERATED'', 4)]"

definition enumdecl_usb_phy_type :: cenum_decl where
  "enumdecl_usb_phy_type = EnumDecl False [
     (''USB_PHY_TYPE_UNDEFINED'', 0), (''USB_PHY_TYPE_USB2'', 1), (''USB_PHY_TYPE_USB3'', 2)]"

definition enumdecl_usb_port_connect_type :: cenum_decl where
  "enumdecl_usb_port_connect_type = EnumDecl False [
     (''USB_PORT_CONNECT_TYPE_UNKNOWN'', 0), (''USB_PORT_CONNECT_TYPE_HOT_PLUG'', 1),
     (''USB_PORT_CONNECT_TYPE_HARD_WIRED'', 2), (''USB_PORT_NOT_USED'', 3)]"

definition enumdecl_usb_role :: cenum_decl where
  "enumdecl_usb_role = EnumDecl False [
     (''USB_ROLE_NONE'', 0), (''USB_ROLE_HOST'', 1), (''USB_ROLE_DEVICE'', 2)]"

definition enumdecl_usb_ssp_rate :: cenum_decl where
  "enumdecl_usb_ssp_rate = EnumDecl False [
     (''USB_SSP_GEN_UNKNOWN'', 0), (''USB_SSP_GEN_2x1'', 1), (''USB_SSP_GEN_1x2'', 2),
     (''USB_SSP_GEN_2x2'', 3)]"

definition enumdecl_usb_wireless_status :: cenum_decl where
  "enumdecl_usb_wireless_status = EnumDecl False [
     (''USB_WIRELESS_STATUS_NA'', 0), (''USB_WIRELESS_STATUS_DISCONNECTED'', 1),
     (''USB_WIRELESS_STATUS_CONNECTED'', 2)]"

definition enumdecl_user_reg_flag :: cenum_decl where
  "enumdecl_user_reg_flag = EnumDecl False [
     (''USER_EVENT_REG_PERSIST'', 1), (''USER_EVENT_REG_MULTI_FORMAT'', 2),
     (''USER_EVENT_REG_MAX'', 4)]"

definition enumdecl_utf16_endian :: cenum_decl where
  "enumdecl_utf16_endian = EnumDecl False [
     (''UTF16_HOST_ENDIAN'', 0), (''UTF16_LITTLE_ENDIAN'', 1), (''UTF16_BIG_ENDIAN'', 2)]"

definition enumdecl_utf8_normalization :: cenum_decl where
  "enumdecl_utf8_normalization = EnumDecl False [
     (''UTF8_NFDI'', 0), (''UTF8_NFDICF'', 1), (''UTF8_NMAX'', 2)]"

definition enumdecl_uts_proc :: cenum_decl where
  "enumdecl_uts_proc = EnumDecl False [
     (''UTS_PROC_ARCH'', 0), (''UTS_PROC_OSTYPE'', 1), (''UTS_PROC_OSRELEASE'', 2),
     (''UTS_PROC_VERSION'', 3), (''UTS_PROC_HOSTNAME'', 4), (''UTS_PROC_DOMAINNAME'', 5)]"

definition enumdecl_uv_bios_cmd :: cenum_decl where
  "enumdecl_uv_bios_cmd = EnumDecl False [
     (''UV_BIOS_COMMON'', 0), (''UV_BIOS_GET_SN_INFO'', 1), (''UV_BIOS_FREQ_BASE'', 2),
     (''UV_BIOS_WATCHLIST_ALLOC'', 3), (''UV_BIOS_WATCHLIST_FREE'', 4),
     (''UV_BIOS_MEMPROTECT'', 5), (''UV_BIOS_GET_PARTITION_ADDR'', 6),
     (''UV_BIOS_SET_LEGACY_VGA_TARGET'', 7)]"

definition enumdecl_uv_memprotect :: cenum_decl where
  "enumdecl_uv_memprotect = EnumDecl False [
     (''UV_MEMPROT_RESTRICT_ACCESS'', 0), (''UV_MEMPROT_ALLOW_AMO'', 1),
     (''UV_MEMPROT_ALLOW_RW'', 2)]"

definition enumdecl_uv_system_type :: cenum_decl where
  "enumdecl_uv_system_type = EnumDecl False [
     (''UV_NONE'', 0), (''UV_LEGACY_APIC'', 1), (''UV_X2APIC'', 2)]"

definition enumdecl_v4l2_av1_segment_feature :: cenum_decl where
  "enumdecl_v4l2_av1_segment_feature = EnumDecl False [
     (''V4L2_AV1_SEG_LVL_ALT_Q'', 0), (''V4L2_AV1_SEG_LVL_ALT_LF_Y_V'', 1),
     (''V4L2_AV1_SEG_LVL_REF_FRAME'', 5), (''V4L2_AV1_SEG_LVL_REF_SKIP'', 6),
     (''V4L2_AV1_SEG_LVL_REF_GLOBALMV'', 7), (''V4L2_AV1_SEG_LVL_MAX'', 8)]"

definition enumdecl_v4l2_fwnode_bus_type :: cenum_decl where
  "enumdecl_v4l2_fwnode_bus_type = EnumDecl False [
     (''V4L2_FWNODE_BUS_TYPE_GUESS'', 0), (''V4L2_FWNODE_BUS_TYPE_CSI2_CPHY'', 1),
     (''V4L2_FWNODE_BUS_TYPE_CSI1'', 2), (''V4L2_FWNODE_BUS_TYPE_CCP2'', 3),
     (''V4L2_FWNODE_BUS_TYPE_CSI2_DPHY'', 4), (''V4L2_FWNODE_BUS_TYPE_PARALLEL'', 5),
     (''V4L2_FWNODE_BUS_TYPE_BT656'', 6), (''V4L2_FWNODE_BUS_TYPE_DPI'', 7),
     (''NR_OF_V4L2_FWNODE_BUS_TYPE'', 8)]"

definition enumdecl_v4l2_preemphasis :: cenum_decl where
  "enumdecl_v4l2_preemphasis = EnumDecl False [
     (''V4L2_PREEMPHASIS_DISABLED'', 0), (''V4L2_PREEMPHASIS_50_uS'', 1),
     (''V4L2_PREEMPHASIS_75_uS'', 2)]"

definition enumdecl_vc_ctl_state :: cenum_decl where
  "enumdecl_vc_ctl_state = EnumDecl False [
     (''ESnormal'', 0), (''ESesc'', 1), (''ESsquare'', 2), (''ESgetpars'', 3),
     (''ESfunckey'', 4), (''EShash'', 5), (''ESsetG0'', 6), (''ESsetG1'', 7), (''ESpercent'', 8),
     (''EScsiignore'', 9), (''ESnonstd'', 10), (''ESpalette'', 11), (''ESosc'', 12),
     (''ESANSI_first'', 12), (''ESapc'', 13), (''ESpm'', 14), (''ESdcs'', 15),
     (''ESANSI_last'', 15)]"

definition enumdecl_vc_intensity :: cenum_decl where
  "enumdecl_vc_intensity = EnumDecl False [
     (''VCI_HALF_BRIGHT'', 0), (''VCI_NORMAL'', 1), (''VCI_BOLD'', 2), (''VCI_MASK'', 3)]"

definition enumdecl_vcap_action_field :: cenum_decl where
  "enumdecl_vcap_action_field = EnumDecl False [
     (''VCAP_AF_NO_VALUE'', 0), (''VCAP_AF_ACL_ID'', 1), (''VCAP_AF_CLS_VID_SEL'', 2),
     (''VCAP_AF_CNT_ID'', 3), (''VCAP_AF_COPY_PORT_NUM'', 4), (''VCAP_AF_COPY_QUEUE_NUM'', 5),
     (''VCAP_AF_CPU_COPY_ENA'', 6), (''VCAP_AF_CPU_QU'', 7), (''VCAP_AF_CPU_QUEUE_NUM'', 8),
     (''VCAP_AF_CUSTOM_ACE_TYPE_ENA'', 9), (''VCAP_AF_DEI_A_VAL'', 10),
     (''VCAP_AF_DEI_B_VAL'', 11), (''VCAP_AF_DEI_C_VAL'', 12), (''VCAP_AF_DEI_ENA'', 13),
     (''VCAP_AF_DEI_VAL'', 14), (''VCAP_AF_DLR_SEL'', 15), (''VCAP_AF_DP_ENA'', 16),
     (''VCAP_AF_DP_VAL'', 17), (''VCAP_AF_DSCP_ENA'', 18), (''VCAP_AF_DSCP_SEL'', 19),
     (''VCAP_AF_DSCP_VAL'', 20), (''VCAP_AF_ES2_REW_CMD'', 21), (''VCAP_AF_ESDX'', 22),
     (''VCAP_AF_FWD_KILL_ENA'', 23), (''VCAP_AF_FWD_MODE'', 24), (''VCAP_AF_FWD_SEL'', 25),
     (''VCAP_AF_HIT_ME_ONCE'', 26), (''VCAP_AF_HOST_MATCH'', 27),
     (''VCAP_AF_IGNORE_PIPELINE_CTRL'', 28), (''VCAP_AF_INTR_ENA'', 29),
     (''VCAP_AF_ISDX_ADD_REPLACE_SEL'', 30), (''VCAP_AF_ISDX_ADD_VAL'', 31),
     (''VCAP_AF_ISDX_ENA'', 32), (''VCAP_AF_ISDX_REPLACE_ENA'', 33), (''VCAP_AF_ISDX_VAL'', 34),
     (''VCAP_AF_LOOP_ENA'', 35), (''VCAP_AF_LRN_DIS'', 36), (''VCAP_AF_MAP_IDX'', 37),
     (''VCAP_AF_MAP_KEY'', 38), (''VCAP_AF_MAP_LOOKUP_SEL'', 39), (''VCAP_AF_MASK_MODE'', 40),
     (''VCAP_AF_MATCH_ID'', 41), (''VCAP_AF_MATCH_ID_MASK'', 42), (''VCAP_AF_MIRROR_ENA'', 43),
     (''VCAP_AF_MIRROR_PROBE'', 44), (''VCAP_AF_MIRROR_PROBE_ID'', 45),
     (''VCAP_AF_MRP_SEL'', 46), (''VCAP_AF_NXT_IDX'', 47), (''VCAP_AF_NXT_IDX_CTRL'', 48),
     (''VCAP_AF_OAM_SEL'', 49), (''VCAP_AF_PAG_OVERRIDE_MASK'', 50), (''VCAP_AF_PAG_VAL'', 51),
     (''VCAP_AF_PCP_A_VAL'', 52), (''VCAP_AF_PCP_B_VAL'', 53), (''VCAP_AF_PCP_C_VAL'', 54),
     (''VCAP_AF_PCP_ENA'', 55), (''VCAP_AF_PCP_VAL'', 56), (''VCAP_AF_PIPELINE_ACT'', 57),
     (''VCAP_AF_PIPELINE_FORCE_ENA'', 58), (''VCAP_AF_PIPELINE_PT'', 59),
     (''VCAP_AF_POLICE_ENA'', 60), (''VCAP_AF_POLICE_IDX'', 61), (''VCAP_AF_POLICE_REMARK'', 62),
     (''VCAP_AF_POLICE_VCAP_ONLY'', 63), (''VCAP_AF_POP_VAL'', 64), (''VCAP_AF_PORT_MASK'', 65),
     (''VCAP_AF_PUSH_CUSTOMER_TAG'', 66), (''VCAP_AF_PUSH_INNER_TAG'', 67),
     (''VCAP_AF_PUSH_OUTER_TAG'', 68), (''VCAP_AF_QOS_ENA'', 69), (''VCAP_AF_QOS_VAL'', 70),
     (''VCAP_AF_REW_OP'', 71), (''VCAP_AF_RT_DIS'', 72), (''VCAP_AF_SFID_ENA'', 73),
     (''VCAP_AF_SFID_VAL'', 74), (''VCAP_AF_SGID_ENA'', 75), (''VCAP_AF_SGID_VAL'', 76),
     (''VCAP_AF_SWAP_MACS_ENA'', 77), (''VCAP_AF_TAG_A_DEI_SEL'', 78),
     (''VCAP_AF_TAG_A_PCP_SEL'', 79), (''VCAP_AF_TAG_A_TPID_SEL'', 80),
     (''VCAP_AF_TAG_A_VID_SEL'', 81), (''VCAP_AF_TAG_B_DEI_SEL'', 82),
     (''VCAP_AF_TAG_B_PCP_SEL'', 83), (''VCAP_AF_TAG_B_TPID_SEL'', 84),
     (''VCAP_AF_TAG_B_VID_SEL'', 85), (''VCAP_AF_TAG_C_DEI_SEL'', 86),
     (''VCAP_AF_TAG_C_PCP_SEL'', 87), (''VCAP_AF_TAG_C_TPID_SEL'', 88),
     (''VCAP_AF_TAG_C_VID_SEL'', 89), (''VCAP_AF_TYPE'', 90), (''VCAP_AF_UNTAG_VID_ENA'', 91),
     (''VCAP_AF_VID_A_VAL'', 92), (''VCAP_AF_VID_B_VAL'', 93), (''VCAP_AF_VID_C_VAL'', 94),
     (''VCAP_AF_VID_REPLACE_ENA'', 95), (''VCAP_AF_VID_VAL'', 96),
     (''VCAP_AF_VLAN_POP_CNT'', 97), (''VCAP_AF_VLAN_POP_CNT_ENA'', 98)]"

definition enumdecl_vcap_actionfield_set :: cenum_decl where
  "enumdecl_vcap_actionfield_set = EnumDecl False [
     (''VCAP_AFS_NO_VALUE'', 0), (''VCAP_AFS_BASE_TYPE'', 1), (''VCAP_AFS_CLASSIFICATION'', 2),
     (''VCAP_AFS_CLASS_REDUCED'', 3), (''VCAP_AFS_ES0'', 4), (''VCAP_AFS_FULL'', 5),
     (''VCAP_AFS_S1'', 6), (''VCAP_AFS_SMAC_SIP'', 7), (''VCAP_AFS_VID'', 8)]"

definition enumdecl_vcap_arp_opcode :: cenum_decl where
  "enumdecl_vcap_arp_opcode = EnumDecl False [
     (''VCAP_ARP_OP_RESERVED'', 0), (''VCAP_ARP_OP_REQUEST'', 1), (''VCAP_ARP_OP_REPLY'', 2)]"

definition enumdecl_vcap_bit :: cenum_decl where
  "enumdecl_vcap_bit = EnumDecl False [
     (''VCAP_BIT_ANY'', 0), (''VCAP_BIT_0'', 1), (''VCAP_BIT_1'', 2)]"

definition enumdecl_vcap_command :: cenum_decl where
  "enumdecl_vcap_command = EnumDecl False [
     (''VCAP_CMD_WRITE'', 0), (''VCAP_CMD_READ'', 1), (''VCAP_CMD_MOVE_DOWN'', 2),
     (''VCAP_CMD_MOVE_UP'', 3), (''VCAP_CMD_INITIALIZE'', 4)]"

definition enumdecl_vcap_field_type :: cenum_decl where
  "enumdecl_vcap_field_type = EnumDecl False [
     (''VCAP_FIELD_BIT'', 0), (''VCAP_FIELD_U32'', 1), (''VCAP_FIELD_U48'', 2),
     (''VCAP_FIELD_U56'', 3), (''VCAP_FIELD_U64'', 4), (''VCAP_FIELD_U72'', 5),
     (''VCAP_FIELD_U112'', 6), (''VCAP_FIELD_U128'', 7)]"

definition enumdecl_vcap_is2_arp_opcode :: cenum_decl where
  "enumdecl_vcap_is2_arp_opcode = EnumDecl False [
     (''VCAP_IS2_ARP_REQUEST'', 0), (''VCAP_IS2_ARP_REPLY'', 1), (''VCAP_IS2_RARP_REQUEST'', 2),
     (''VCAP_IS2_RARP_REPLY'', 3)]"

definition enumdecl_vcap_key_field :: cenum_decl where
  "enumdecl_vcap_key_field = EnumDecl False [
     (''VCAP_KF_NO_VALUE'', 0), (''VCAP_KF_8021BR_ECID_BASE'', 1),
     (''VCAP_KF_8021BR_ECID_EXT'', 2), (''VCAP_KF_8021BR_E_TAGGED'', 3),
     (''VCAP_KF_8021BR_GRP'', 4), (''VCAP_KF_8021BR_IGR_ECID_BASE'', 5),
     (''VCAP_KF_8021BR_IGR_ECID_EXT'', 6), (''VCAP_KF_8021CB_R_TAGGED_IS'', 7),
     (''VCAP_KF_8021Q_DEI0'', 8), (''VCAP_KF_8021Q_DEI1'', 9), (''VCAP_KF_8021Q_DEI2'', 10),
     (''VCAP_KF_8021Q_DEI_CLS'', 11), (''VCAP_KF_8021Q_PCP0'', 12), (''VCAP_KF_8021Q_PCP1'', 13),
     (''VCAP_KF_8021Q_PCP2'', 14), (''VCAP_KF_8021Q_PCP_CLS'', 15), (''VCAP_KF_8021Q_TPID'', 16),
     (''VCAP_KF_8021Q_TPID0'', 17), (''VCAP_KF_8021Q_TPID1'', 18), (''VCAP_KF_8021Q_TPID2'', 19),
     (''VCAP_KF_8021Q_VID0'', 20), (''VCAP_KF_8021Q_VID1'', 21), (''VCAP_KF_8021Q_VID2'', 22),
     (''VCAP_KF_8021Q_VID_CLS'', 23), (''VCAP_KF_8021Q_VLAN_DBL_TAGGED_IS'', 24),
     (''VCAP_KF_8021Q_VLAN_TAGGED_IS'', 25), (''VCAP_KF_8021Q_VLAN_TAGS'', 26),
     (''VCAP_KF_ACL_GRP_ID'', 27), (''VCAP_KF_ARP_ADDR_SPACE_OK_IS'', 28),
     (''VCAP_KF_ARP_LEN_OK_IS'', 29), (''VCAP_KF_ARP_OPCODE'', 30),
     (''VCAP_KF_ARP_OPCODE_UNKNOWN_IS'', 31), (''VCAP_KF_ARP_PROTO_SPACE_OK_IS'', 32),
     (''VCAP_KF_ARP_SENDER_MATCH_IS'', 33), (''VCAP_KF_ARP_TGT_MATCH_IS'', 34),
     (''VCAP_KF_COSID_CLS'', 35), (''VCAP_KF_ES0_ISDX_KEY_ENA'', 36), (''VCAP_KF_ETYPE'', 37),
     (''VCAP_KF_ETYPE_LEN_IS'', 38), (''VCAP_KF_HOST_MATCH'', 39),
     (''VCAP_KF_IF_EGR_PORT_MASK'', 40), (''VCAP_KF_IF_EGR_PORT_MASK_RNG'', 41),
     (''VCAP_KF_IF_EGR_PORT_NO'', 42), (''VCAP_KF_IF_IGR_PORT'', 43),
     (''VCAP_KF_IF_IGR_PORT_MASK'', 44), (''VCAP_KF_IF_IGR_PORT_MASK_L3'', 45),
     (''VCAP_KF_IF_IGR_PORT_MASK_RNG'', 46), (''VCAP_KF_IF_IGR_PORT_MASK_SEL'', 47),
     (''VCAP_KF_IF_IGR_PORT_SEL'', 48), (''VCAP_KF_IP4_IS'', 49), (''VCAP_KF_IP_MC_IS'', 50),
     (''VCAP_KF_IP_PAYLOAD_5TUPLE'', 51), (''VCAP_KF_IP_PAYLOAD_S1_IP6'', 52),
     (''VCAP_KF_IP_SNAP_IS'', 53), (''VCAP_KF_ISDX_CLS'', 54), (''VCAP_KF_ISDX_GT0_IS'', 55),
     (''VCAP_KF_L2_BC_IS'', 56), (''VCAP_KF_L2_DMAC'', 57), (''VCAP_KF_L2_FRM_TYPE'', 58),
     (''VCAP_KF_L2_FWD_IS'', 59), (''VCAP_KF_L2_LLC'', 60), (''VCAP_KF_L2_MAC'', 61),
     (''VCAP_KF_L2_MC_IS'', 62), (''VCAP_KF_L2_PAYLOAD0'', 63), (''VCAP_KF_L2_PAYLOAD1'', 64),
     (''VCAP_KF_L2_PAYLOAD2'', 65), (''VCAP_KF_L2_PAYLOAD_ETYPE'', 66),
     (''VCAP_KF_L2_SMAC'', 67), (''VCAP_KF_L2_SNAP'', 68), (''VCAP_KF_L3_DIP_EQ_SIP_IS'', 69),
     (''VCAP_KF_L3_DPL_CLS'', 70), (''VCAP_KF_L3_DSCP'', 71), (''VCAP_KF_L3_DST_IS'', 72),
     (''VCAP_KF_L3_FRAGMENT'', 73), (''VCAP_KF_L3_FRAGMENT_TYPE'', 74),
     (''VCAP_KF_L3_FRAG_INVLD_L4_LEN'', 75), (''VCAP_KF_L3_FRAG_OFS_GT0'', 76),
     (''VCAP_KF_L3_IP4_DIP'', 77), (''VCAP_KF_L3_IP4_SIP'', 78), (''VCAP_KF_L3_IP6_DIP'', 79),
     (''VCAP_KF_L3_IP6_DIP_MSB'', 80), (''VCAP_KF_L3_IP6_SIP'', 81),
     (''VCAP_KF_L3_IP6_SIP_MSB'', 82), (''VCAP_KF_L3_IP_PROTO'', 83),
     (''VCAP_KF_L3_OPTIONS_IS'', 84), (''VCAP_KF_L3_PAYLOAD'', 85), (''VCAP_KF_L3_RT_IS'', 86),
     (''VCAP_KF_L3_TOS'', 87), (''VCAP_KF_L3_TTL_GT0'', 88), (''VCAP_KF_L4_1588_DOM'', 89),
     (''VCAP_KF_L4_1588_VER'', 90), (''VCAP_KF_L4_ACK'', 91), (''VCAP_KF_L4_DPORT'', 92),
     (''VCAP_KF_L4_FIN'', 93), (''VCAP_KF_L4_PAYLOAD'', 94), (''VCAP_KF_L4_PSH'', 95),
     (''VCAP_KF_L4_RNG'', 96), (''VCAP_KF_L4_RST'', 97), (''VCAP_KF_L4_SEQUENCE_EQ0_IS'', 98),
     (''VCAP_KF_L4_SPORT'', 99), (''VCAP_KF_L4_SPORT_EQ_DPORT_IS'', 100),
     (''VCAP_KF_L4_SYN'', 101), (''VCAP_KF_L4_URG'', 102), (''VCAP_KF_LOOKUP_FIRST_IS'', 103),
     (''VCAP_KF_LOOKUP_GEN_IDX'', 104), (''VCAP_KF_LOOKUP_GEN_IDX_SEL'', 105),
     (''VCAP_KF_LOOKUP_INDEX'', 106), (''VCAP_KF_LOOKUP_PAG'', 107),
     (''VCAP_KF_MIRROR_PROBE'', 108), (''VCAP_KF_OAM_CCM_CNTS_EQ0'', 109),
     (''VCAP_KF_OAM_DETECTED'', 110), (''VCAP_KF_OAM_FLAGS'', 111),
     (''VCAP_KF_OAM_MEL_FLAGS'', 112), (''VCAP_KF_OAM_MEPID'', 113),
     (''VCAP_KF_OAM_OPCODE'', 114), (''VCAP_KF_OAM_VER'', 115), (''VCAP_KF_OAM_Y1731_IS'', 116),
     (''VCAP_KF_PDU_TYPE'', 117), (''VCAP_KF_PROT_ACTIVE'', 118), (''VCAP_KF_RTP_ID'', 119),
     (''VCAP_KF_RT_FRMID'', 120), (''VCAP_KF_RT_TYPE'', 121), (''VCAP_KF_RT_VLAN_IDX'', 122),
     (''VCAP_KF_TCP_IS'', 123), (''VCAP_KF_TCP_UDP_IS'', 124), (''VCAP_KF_TYPE'', 125)]"

definition enumdecl_vcap_keyfield_set :: cenum_decl where
  "enumdecl_vcap_keyfield_set = EnumDecl False [
     (''VCAP_KFS_NO_VALUE'', 0), (''VCAP_KFS_5TUPLE_IP4'', 1), (''VCAP_KFS_5TUPLE_IP6'', 2),
     (''VCAP_KFS_7TUPLE'', 3), (''VCAP_KFS_ARP'', 4), (''VCAP_KFS_DBL_VID'', 5),
     (''VCAP_KFS_DMAC_VID'', 6), (''VCAP_KFS_ETAG'', 7), (''VCAP_KFS_IP4_OTHER'', 8),
     (''VCAP_KFS_IP4_TCP_UDP'', 9), (''VCAP_KFS_IP4_VID'', 10), (''VCAP_KFS_IP6_OTHER'', 11),
     (''VCAP_KFS_IP6_STD'', 12), (''VCAP_KFS_IP6_TCP_UDP'', 13), (''VCAP_KFS_IP6_VID'', 14),
     (''VCAP_KFS_IP_7TUPLE'', 15), (''VCAP_KFS_ISDX'', 16), (''VCAP_KFS_LL_FULL'', 17),
     (''VCAP_KFS_MAC_ETYPE'', 18), (''VCAP_KFS_MAC_LLC'', 19), (''VCAP_KFS_MAC_SNAP'', 20),
     (''VCAP_KFS_NORMAL'', 21), (''VCAP_KFS_NORMAL_5TUPLE_IP4'', 22),
     (''VCAP_KFS_NORMAL_7TUPLE'', 23), (''VCAP_KFS_NORMAL_IP6'', 24), (''VCAP_KFS_OAM'', 25),
     (''VCAP_KFS_PURE_5TUPLE_IP4'', 26), (''VCAP_KFS_RT'', 27), (''VCAP_KFS_SMAC_SIP4'', 28),
     (''VCAP_KFS_SMAC_SIP6'', 29), (''VCAP_KFS_VID'', 30)]"

definition enumdecl_vcap_rule_error :: cenum_decl where
  "enumdecl_vcap_rule_error = EnumDecl False [
     (''VCAP_ERR_NONE'', 0), (''VCAP_ERR_NO_ADMIN'', 1), (''VCAP_ERR_NO_NETDEV'', 2),
     (''VCAP_ERR_NO_KEYSET_MATCH'', 3), (''VCAP_ERR_NO_ACTIONSET_MATCH'', 4),
     (''VCAP_ERR_NO_PORT_KEYSET_MATCH'', 5)]"

definition enumdecl_vcap_rule_state :: cenum_decl where
  "enumdecl_vcap_rule_state = EnumDecl False [
     (''VCAP_RS_PERMANENT'', 0), (''VCAP_RS_ENABLED'', 1), (''VCAP_RS_DISABLED'', 2)]"

definition enumdecl_vcap_selection :: cenum_decl where
  "enumdecl_vcap_selection = EnumDecl False [
     (''VCAP_SEL_ENTRY'', 1), (''VCAP_SEL_ACTION'', 2), (''VCAP_SEL_COUNTER'', 4),
     (''VCAP_SEL_ALL'', 255)]"

definition enumdecl_vcap_type :: cenum_decl where
  "enumdecl_vcap_type = EnumDecl False [
     (''VCAP_TYPE_ES0'', 0), (''VCAP_TYPE_ES2'', 1), (''VCAP_TYPE_IS0'', 2),
     (''VCAP_TYPE_IS1'', 3), (''VCAP_TYPE_IS2'', 4), (''VCAP_TYPE_MAX'', 5)]"

definition enumdecl_vcap_user :: cenum_decl where
  "enumdecl_vcap_user = EnumDecl False [
     (''VCAP_USER_PTP'', 0), (''VCAP_USER_MRP'', 1), (''VCAP_USER_CFM'', 2),
     (''VCAP_USER_VLAN'', 3), (''VCAP_USER_QOS'', 4), (''VCAP_USER_VCAP_UTIL'', 5),
     (''VCAP_USER_TC'', 6), (''VCAP_USER_TC_EXTRA'', 7), (''__VCAP_USER_AFTER_LAST'', 8),
     (''VCAP_USER_MAX'', 7)]"

definition enumdecl_vcpu_state :: cenum_decl where
  "enumdecl_vcpu_state = EnumDecl False [
     (''VCPU_RUNNING'', 0), (''VCPU_HALTED'', 1), (''VCPU_HASHED'', 2)]"

definition enumdecl_vdso_clock_mode :: cenum_decl where
  "enumdecl_vdso_clock_mode = EnumDecl False [
     (''VDSO_CLOCKMODE_NONE'', 0), (''VDSO_CLOCKMODE_TSC'', 1), (''VDSO_CLOCKMODE_PVCLOCK'', 2),
     (''VDSO_CLOCKMODE_HVCLOCK'', 3), (''VDSO_CLOCKMODE_MAX'', 4),
     (''VDSO_CLOCKMODE_TIMENS'', 2147483647)]"

definition enumdecl_vdso_pages :: cenum_decl where
  "enumdecl_vdso_pages = EnumDecl False [
     (''VDSO_TIME_PAGE_OFFSET'', 0), (''VDSO_TIMENS_PAGE_OFFSET'', 1),
     (''VDSO_RNG_PAGE_OFFSET'', 2), (''VDSO_ARCH_PAGES_START'', 3), (''VDSO_ARCH_PAGES_END'', 3),
     (''VDSO_NR_PAGES'', 4)]"

definition enumdecl_verifier_phase :: cenum_decl where
  "enumdecl_verifier_phase = EnumDecl False [
     (''CHECK_META'', 0), (''CHECK_TYPE'', 1)]"

definition enumdecl_vesa_blank_mode :: cenum_decl where
  "enumdecl_vesa_blank_mode = EnumDecl False [
     (''VESA_NO_BLANKING'', 0), (''VESA_VSYNC_SUSPEND'', 1), (''VESA_HSYNC_SUSPEND'', 2),
     (''VESA_POWERDOWN'', 3), (''VESA_BLANK_MAX'', 3)]"

definition enumdecl_vga_switcheroo_client_id :: cenum_decl where
  "enumdecl_vga_switcheroo_client_id = EnumDecl False [
     (''VGA_SWITCHEROO_UNKNOWN_ID'', 4096), (''VGA_SWITCHEROO_IGD'', 0),
     (''VGA_SWITCHEROO_DIS'', 1), (''VGA_SWITCHEROO_MAX_CLIENTS'', 2)]"

definition enumdecl_vga_switcheroo_handler_flags_t :: cenum_decl where
  "enumdecl_vga_switcheroo_handler_flags_t = EnumDecl False [
     (''VGA_SWITCHEROO_CAN_SWITCH_DDC'', 1), (''VGA_SWITCHEROO_NEEDS_EDP_CONFIG'', 2)]"

definition enumdecl_vga_switcheroo_state :: cenum_decl where
  "enumdecl_vga_switcheroo_state = EnumDecl False [
     (''VGA_SWITCHEROO_OFF'', 0), (''VGA_SWITCHEROO_ON'', 1), (''VGA_SWITCHEROO_NOT_FOUND'', 2)]"

definition enumdecl_vhost_task_flags :: cenum_decl where
  "enumdecl_vhost_task_flags = EnumDecl False [
     (''VHOST_TASK_FLAGS_STOP'', 0), (''VHOST_TASK_FLAGS_KILLED'', 1)]"

definition enumdecl_virtio_balloon_config_read :: cenum_decl where
  "enumdecl_virtio_balloon_config_read = EnumDecl False [
     (''VIRTIO_BALLOON_CONFIG_READ_CMD_ID'', 0)]"

definition enumdecl_virtio_balloon_vq :: cenum_decl where
  "enumdecl_virtio_balloon_vq = EnumDecl False [
     (''VIRTIO_BALLOON_VQ_INFLATE'', 0), (''VIRTIO_BALLOON_VQ_DEFLATE'', 1),
     (''VIRTIO_BALLOON_VQ_STATS'', 2), (''VIRTIO_BALLOON_VQ_FREE_PAGE'', 3),
     (''VIRTIO_BALLOON_VQ_REPORTING'', 4), (''VIRTIO_BALLOON_VQ_MAX'', 5)]"

definition enumdecl_virtnet_xmit_type :: cenum_decl where
  "enumdecl_virtnet_xmit_type = EnumDecl False [
     (''VIRTNET_XMIT_TYPE_SKB'', 0), (''VIRTNET_XMIT_TYPE_SKB_ORPHAN'', 1),
     (''VIRTNET_XMIT_TYPE_XDP'', 2), (''VIRTNET_XMIT_TYPE_XSK'', 3)]"

definition enumdecl_visit_state :: cenum_decl where
  "enumdecl_visit_state = EnumDecl False [
     (''NOT_VISITED'', 0), (''VISITED'', 1), (''RESOLVED'', 2)]"

definition enumdecl_vlan_flags :: cenum_decl where
  "enumdecl_vlan_flags = EnumDecl False [
     (''VLAN_FLAG_REORDER_HDR'', 1), (''VLAN_FLAG_GVRP'', 2), (''VLAN_FLAG_LOOSE_BINDING'', 4),
     (''VLAN_FLAG_MVRP'', 8), (''VLAN_FLAG_BRIDGE_BINDING'', 16)]"

definition enumdecl_vlan_protos :: cenum_decl where
  "enumdecl_vlan_protos = EnumDecl False [
     (''VLAN_PROTO_8021Q'', 0), (''VLAN_PROTO_8021AD'', 1), (''VLAN_PROTO_NUM'', 2)]"

definition enumdecl_vm_event_item :: cenum_decl where
  "enumdecl_vm_event_item = EnumDecl False [
     (''PGPGIN'', 0), (''PGPGOUT'', 1), (''PSWPIN'', 2), (''PSWPOUT'', 3), (''PGALLOC_DMA'', 4),
     (''PGALLOC_DMA32'', 5), (''PGALLOC_NORMAL'', 6), (''PGALLOC_MOVABLE'', 7),
     (''PGALLOC_DEVICE'', 8), (''ALLOCSTALL_DMA'', 9), (''ALLOCSTALL_DMA32'', 10),
     (''ALLOCSTALL_NORMAL'', 11), (''ALLOCSTALL_MOVABLE'', 12), (''ALLOCSTALL_DEVICE'', 13),
     (''PGSCAN_SKIP_DMA'', 14), (''PGSCAN_SKIP_DMA32'', 15), (''PGSCAN_SKIP_NORMAL'', 16),
     (''PGSCAN_SKIP_MOVABLE'', 17), (''PGSCAN_SKIP_DEVICE'', 18), (''PGFREE'', 19),
     (''PGACTIVATE'', 20), (''PGDEACTIVATE'', 21), (''PGLAZYFREE'', 22), (''PGFAULT'', 23),
     (''PGMAJFAULT'', 24), (''PGLAZYFREED'', 25), (''PGREFILL'', 26), (''PGREUSE'', 27),
     (''PGSTEAL_KSWAPD'', 28), (''PGSTEAL_DIRECT'', 29), (''PGSTEAL_KHUGEPAGED'', 30),
     (''PGSTEAL_PROACTIVE'', 31), (''PGSCAN_KSWAPD'', 32), (''PGSCAN_DIRECT'', 33),
     (''PGSCAN_KHUGEPAGED'', 34), (''PGSCAN_PROACTIVE'', 35), (''PGSCAN_DIRECT_THROTTLE'', 36),
     (''PGSCAN_ANON'', 37), (''PGSCAN_FILE'', 38), (''PGSTEAL_ANON'', 39),
     (''PGSTEAL_FILE'', 40), (''PGSCAN_ZONE_RECLAIM_SUCCESS'', 41),
     (''PGSCAN_ZONE_RECLAIM_FAILED'', 42), (''PGINODESTEAL'', 43), (''SLABS_SCANNED'', 44),
     (''KSWAPD_INODESTEAL'', 45), (''KSWAPD_LOW_WMARK_HIT_QUICKLY'', 46),
     (''KSWAPD_HIGH_WMARK_HIT_QUICKLY'', 47), (''PAGEOUTRUN'', 48), (''PGROTATED'', 49),
     (''DROP_PAGECACHE'', 50), (''DROP_SLAB'', 51), (''OOM_KILL'', 52),
     (''NUMA_PTE_UPDATES'', 53), (''NUMA_HUGE_PTE_UPDATES'', 54), (''NUMA_HINT_FAULTS'', 55),
     (''NUMA_HINT_FAULTS_LOCAL'', 56), (''NUMA_PAGE_MIGRATE'', 57), (''PGMIGRATE_SUCCESS'', 58),
     (''PGMIGRATE_FAIL'', 59), (''THP_MIGRATION_SUCCESS'', 60), (''THP_MIGRATION_FAIL'', 61),
     (''THP_MIGRATION_SPLIT'', 62), (''COMPACTMIGRATE_SCANNED'', 63),
     (''COMPACTFREE_SCANNED'', 64), (''COMPACTISOLATED'', 65), (''COMPACTSTALL'', 66),
     (''COMPACTFAIL'', 67), (''COMPACTSUCCESS'', 68), (''KCOMPACTD_WAKE'', 69),
     (''KCOMPACTD_MIGRATE_SCANNED'', 70), (''KCOMPACTD_FREE_SCANNED'', 71),
     (''HTLB_BUDDY_PGALLOC'', 72), (''HTLB_BUDDY_PGALLOC_FAIL'', 73),
     (''CMA_ALLOC_SUCCESS'', 74), (''CMA_ALLOC_FAIL'', 75), (''UNEVICTABLE_PGCULLED'', 76),
     (''UNEVICTABLE_PGSCANNED'', 77), (''UNEVICTABLE_PGRESCUED'', 78),
     (''UNEVICTABLE_PGMLOCKED'', 79), (''UNEVICTABLE_PGMUNLOCKED'', 80),
     (''UNEVICTABLE_PGCLEARED'', 81), (''UNEVICTABLE_PGSTRANDED'', 82),
     (''THP_FAULT_ALLOC'', 83), (''THP_FAULT_FALLBACK'', 84),
     (''THP_FAULT_FALLBACK_CHARGE'', 85), (''THP_COLLAPSE_ALLOC'', 86),
     (''THP_COLLAPSE_ALLOC_FAILED'', 87), (''THP_FILE_ALLOC'', 88), (''THP_FILE_FALLBACK'', 89),
     (''THP_FILE_FALLBACK_CHARGE'', 90), (''THP_FILE_MAPPED'', 91), (''THP_SPLIT_PAGE'', 92),
     (''THP_SPLIT_PAGE_FAILED'', 93), (''THP_DEFERRED_SPLIT_PAGE'', 94),
     (''THP_UNDERUSED_SPLIT_PAGE'', 95), (''THP_SPLIT_PMD'', 96),
     (''THP_SCAN_EXCEED_NONE_PTE'', 97), (''THP_SCAN_EXCEED_SWAP_PTE'', 98),
     (''THP_SCAN_EXCEED_SHARED_PTE'', 99), (''THP_SPLIT_PUD'', 100),
     (''THP_ZERO_PAGE_ALLOC'', 101), (''THP_ZERO_PAGE_ALLOC_FAILED'', 102),
     (''THP_SWPOUT'', 103), (''THP_SWPOUT_FALLBACK'', 104), (''BALLOON_INFLATE'', 105),
     (''BALLOON_DEFLATE'', 106), (''BALLOON_MIGRATE'', 107), (''SWAP_RA'', 108),
     (''SWAP_RA_HIT'', 109), (''SWPIN_ZERO'', 110), (''SWPOUT_ZERO'', 111),
     (''KSM_SWPIN_COPY'', 112), (''COW_KSM'', 113), (''ZSWPIN'', 114), (''ZSWPOUT'', 115),
     (''ZSWPWB'', 116), (''DIRECT_MAP_LEVEL2_SPLIT'', 117), (''DIRECT_MAP_LEVEL3_SPLIT'', 118),
     (''DIRECT_MAP_LEVEL2_COLLAPSE'', 119), (''DIRECT_MAP_LEVEL3_COLLAPSE'', 120),
     (''NR_VM_EVENT_ITEMS'', 121)]"

definition enumdecl_vm_fault_reason :: cenum_decl where
  "enumdecl_vm_fault_reason = EnumDecl False [
     (''VM_FAULT_OOM'', 1), (''VM_FAULT_SIGBUS'', 2), (''VM_FAULT_MAJOR'', 4),
     (''VM_FAULT_HWPOISON'', 16), (''VM_FAULT_HWPOISON_LARGE'', 32), (''VM_FAULT_SIGSEGV'', 64),
     (''VM_FAULT_NOPAGE'', 256), (''VM_FAULT_LOCKED'', 512), (''VM_FAULT_RETRY'', 1024),
     (''VM_FAULT_FALLBACK'', 2048), (''VM_FAULT_DONE_COW'', 4096),
     (''VM_FAULT_NEEDDSYNC'', 8192), (''VM_FAULT_COMPLETED'', 16384),
     (''VM_FAULT_HINDEX_MASK'', 983040)]"

definition enumdecl_vm_stat_item :: cenum_decl where
  "enumdecl_vm_stat_item = EnumDecl False [
     (''NR_DIRTY_THRESHOLD'', 0), (''NR_DIRTY_BG_THRESHOLD'', 1), (''NR_MEMMAP_PAGES'', 2),
     (''NR_MEMMAP_BOOT_PAGES'', 3), (''NR_VM_STAT_ITEMS'', 4)]"

definition enumdecl_vma_merge_state :: cenum_decl where
  "enumdecl_vma_merge_state = EnumDecl False [
     (''VMA_MERGE_START'', 0), (''VMA_MERGE_ERROR_NOMEM'', 1), (''VMA_MERGE_NOMERGE'', 2),
     (''VMA_MERGE_SUCCESS'', 3)]"

definition enumdecl_vma_operation :: cenum_decl where
  "enumdecl_vma_operation = EnumDecl False [
     (''VMA_OP_SPLIT'', 0), (''VMA_OP_MERGE_UNFAULTED'', 1), (''VMA_OP_REMAP'', 2),
     (''VMA_OP_FORK'', 3)]"

definition enumdecl_vma_resv_mode :: cenum_decl where
  "enumdecl_vma_resv_mode = EnumDecl False [
     (''VMA_NEEDS_RESV'', 0), (''VMA_COMMIT_RESV'', 1), (''VMA_END_RESV'', 2),
     (''VMA_ADD_RESV'', 3), (''VMA_DEL_RESV'', 4)]"

definition enumdecl_vme_resource_type :: cenum_decl where
  "enumdecl_vme_resource_type = EnumDecl False [
     (''VME_MASTER'', 0), (''VME_SLAVE'', 1), (''VME_DMA'', 2), (''VME_LM'', 3)]"

definition enumdecl_vmpressure_levels :: cenum_decl where
  "enumdecl_vmpressure_levels = EnumDecl False [
     (''VMPRESSURE_LOW'', 0), (''VMPRESSURE_MEDIUM'', 1), (''VMPRESSURE_CRITICAL'', 2),
     (''VMPRESSURE_NUM_LEVELS'', 3)]"

definition enumdecl_vmpressure_modes :: cenum_decl where
  "enumdecl_vmpressure_modes = EnumDecl False [
     (''VMPRESSURE_NO_PASSTHROUGH'', 0), (''VMPRESSURE_HIERARCHY'', 1),
     (''VMPRESSURE_LOCAL'', 2), (''VMPRESSURE_NUM_MODES'', 3)]"

definition enumdecl_vmscan_throttle_state :: cenum_decl where
  "enumdecl_vmscan_throttle_state = EnumDecl False [
     (''VMSCAN_THROTTLE_WRITEBACK'', 0), (''VMSCAN_THROTTLE_ISOLATED'', 1),
     (''VMSCAN_THROTTLE_NOPROGRESS'', 2), (''VMSCAN_THROTTLE_CONGESTED'', 3),
     (''NR_VMSCAN_THROTTLE'', 4)]"

definition enumdecl_vmscape_mitigations :: cenum_decl where
  "enumdecl_vmscape_mitigations = EnumDecl False [
     (''VMSCAPE_MITIGATION_NONE'', 0), (''VMSCAPE_MITIGATION_AUTO'', 1),
     (''VMSCAPE_MITIGATION_IBPB_EXIT_TO_USER'', 2), (''VMSCAPE_MITIGATION_IBPB_ON_VMEXIT'', 3)]"

definition enumdecl_vmx_feature_leafs :: cenum_decl where
  "enumdecl_vmx_feature_leafs = EnumDecl False [
     (''MISC_FEATURES'', 0), (''PRIMARY_CTLS'', 1), (''SECONDARY_CTLS'', 2),
     (''TERTIARY_CTLS_LOW'', 3), (''TERTIARY_CTLS_HIGH'', 4), (''NR_VMX_FEATURE_WORDS'', 5)]"

definition enumdecl_vmx_l1d_flush_state :: cenum_decl where
  "enumdecl_vmx_l1d_flush_state = EnumDecl False [
     (''VMENTER_L1D_FLUSH_AUTO'', 0), (''VMENTER_L1D_FLUSH_NEVER'', 1),
     (''VMENTER_L1D_FLUSH_COND'', 2), (''VMENTER_L1D_FLUSH_ALWAYS'', 3),
     (''VMENTER_L1D_FLUSH_EPT_DISABLED'', 4), (''VMENTER_L1D_FLUSH_NOT_REQUIRED'', 5)]"

definition enumdecl_vp_vq_vector_policy :: cenum_decl where
  "enumdecl_vp_vq_vector_policy = EnumDecl False [
     (''VP_VQ_VECTOR_POLICY_EACH'', 0), (''VP_VQ_VECTOR_POLICY_SHARED_SLOW'', 1),
     (''VP_VQ_VECTOR_POLICY_SHARED'', 2)]"

definition enum_decls_19 :: "cenum_decl list" where
  "enum_decls_19 = [
     enumdecl_tpm2_command_codes, enumdecl_tpm2_const, enumdecl_tpm2_durations,
     enumdecl_tpm2_handle_types, enumdecl_tpm2_object_attributes,
     enumdecl_tpm2_permanent_handles, enumdecl_tpm2_properties, enumdecl_tpm2_return_codes,
     enumdecl_tpm2_session_attributes, enumdecl_tpm2_startup_types, enumdecl_tpm2_structures,
     enumdecl_tpm2_timeouts, enumdecl_tpm2key_actions, enumdecl_tpm_algorithms,
     enumdecl_tpm_buf_flags, enumdecl_tpm_capabilities, enumdecl_tpm_chip_flags,
     enumdecl_tpm_duration, enumdecl_tpm_pcrs, enumdecl_tpm_sub_capabilities,
     enumdecl_tpm_timeout, enumdecl_tpm_tis_flags, enumdecl_tpm_tis_io_mode,
     enumdecl_tps65090_cells, enumdecl_tps65912_irqs, enumdecl_tps65917_irqs,
     enumdecl_trace_flag_type, enumdecl_trace_iter_flags, enumdecl_trace_iterator_bits,
     enumdecl_trace_reg, enumdecl_trace_type, enumdecl_track_item, enumdecl_translation_map,
     enumdecl_transparent_hugepage_flag, enumdecl_tsa_mitigations, enumdecl_tsq_enum,
     enumdecl_tsq_flags, enumdecl_tsx_ctrl_states, enumdecl_ttu_flags, enumdecl_tty_driver_flag,
     enumdecl_tty_driver_subtype, enumdecl_tty_driver_type, enumdecl_tty_flow_change,
     enumdecl_tty_struct_flags, enumdecl_tunable_id, enumdecl_tunable_type_id, enumdecl_tva_type,
     enumdecl_twl4030_audio_res, enumdecl_twl4030_module_ids, enumdecl_twl6030_module_ids,
     enumdecl_twl_module_ids, enumdecl_txtime_flags, enumdecl_uart_iotype,
     enumdecl_uart_pm_state, enumdecl_uclamp_id, enumdecl_ucode_state, enumdecl_ucount_type,
     enumdecl_udp_conntrack, enumdecl_udp_parsable_tunnel_type,
     enumdecl_udp_tunnel_nic_info_flags, enumdecl_uhci_rh_state, enumdecl_uinput_state,
     enumdecl_umh_disable_depth, enumdecl_umount_tree_flags, enumdecl_uncore_access_type,
     enumdecl_unix_vertex_index, enumdecl_unwind_user_type, enumdecl_unwind_user_type_bits,
     enumdecl_uprobe_task_state, enumdecl_usb3_link_state, enumdecl_usb_charger_state,
     enumdecl_usb_charger_type, enumdecl_usb_dev_authorize_policy, enumdecl_usb_device_speed,
     enumdecl_usb_device_state, enumdecl_usb_dr_mode, enumdecl_usb_interface_condition,
     enumdecl_usb_led_event, enumdecl_usb_link_tunnel_mode, enumdecl_usb_otg_state,
     enumdecl_usb_phy_events, enumdecl_usb_phy_type, enumdecl_usb_port_connect_type,
     enumdecl_usb_role, enumdecl_usb_ssp_rate, enumdecl_usb_wireless_status,
     enumdecl_user_reg_flag, enumdecl_utf16_endian, enumdecl_utf8_normalization,
     enumdecl_uts_proc, enumdecl_uv_bios_cmd, enumdecl_uv_memprotect, enumdecl_uv_system_type,
     enumdecl_v4l2_av1_segment_feature, enumdecl_v4l2_fwnode_bus_type, enumdecl_v4l2_preemphasis,
     enumdecl_vc_ctl_state, enumdecl_vc_intensity, enumdecl_vcap_action_field,
     enumdecl_vcap_actionfield_set, enumdecl_vcap_arp_opcode, enumdecl_vcap_bit,
     enumdecl_vcap_command, enumdecl_vcap_field_type, enumdecl_vcap_is2_arp_opcode,
     enumdecl_vcap_key_field, enumdecl_vcap_keyfield_set, enumdecl_vcap_rule_error,
     enumdecl_vcap_rule_state, enumdecl_vcap_selection, enumdecl_vcap_type, enumdecl_vcap_user,
     enumdecl_vcpu_state, enumdecl_vdso_clock_mode, enumdecl_vdso_pages, enumdecl_verifier_phase,
     enumdecl_vesa_blank_mode, enumdecl_vga_switcheroo_client_id,
     enumdecl_vga_switcheroo_handler_flags_t, enumdecl_vga_switcheroo_state,
     enumdecl_vhost_task_flags, enumdecl_virtio_balloon_config_read, enumdecl_virtio_balloon_vq,
     enumdecl_virtnet_xmit_type, enumdecl_visit_state, enumdecl_vlan_flags, enumdecl_vlan_protos,
     enumdecl_vm_event_item, enumdecl_vm_fault_reason, enumdecl_vm_stat_item,
     enumdecl_vma_merge_state, enumdecl_vma_operation, enumdecl_vma_resv_mode,
     enumdecl_vme_resource_type, enumdecl_vmpressure_levels, enumdecl_vmpressure_modes,
     enumdecl_vmscan_throttle_state, enumdecl_vmscape_mitigations, enumdecl_vmx_feature_leafs,
     enumdecl_vmx_l1d_flush_state, enumdecl_vp_vq_vector_policy]"

lemma enum_decls_19_4: "list_all enum4 enum_decls_19"
  by (unfold enum_decls_19_def
     enumdecl_tpm2_command_codes_def enumdecl_tpm2_const_def enumdecl_tpm2_durations_def
     enumdecl_tpm2_object_attributes_def enumdecl_tpm2_permanent_handles_def
     enumdecl_tpm2_properties_def enumdecl_tpm2_return_codes_def
     enumdecl_tpm2_session_attributes_def enumdecl_tpm2_startup_types_def
     enumdecl_tpm2_structures_def enumdecl_tpm2_timeouts_def enumdecl_tpm2key_actions_def
     enumdecl_tpm_algorithms_def enumdecl_tpm_buf_flags_def enumdecl_tpm_capabilities_def
     enumdecl_tpm_chip_flags_def enumdecl_tpm_duration_def enumdecl_tpm_pcrs_def
     enumdecl_tpm_sub_capabilities_def enumdecl_tpm_timeout_def enumdecl_tpm_tis_flags_def
     enumdecl_tpm_tis_io_mode_def enumdecl_tps65090_cells_def enumdecl_tps65912_irqs_def
     enumdecl_tps65917_irqs_def enumdecl_trace_flag_type_def enumdecl_trace_iter_flags_def
     enumdecl_trace_iterator_bits_def enumdecl_trace_reg_def enumdecl_trace_type_def
     enumdecl_track_item_def enumdecl_translation_map_def
     enumdecl_transparent_hugepage_flag_def enumdecl_tsa_mitigations_def enumdecl_tsq_enum_def
     enumdecl_tsq_flags_def enumdecl_tsx_ctrl_states_def enumdecl_ttu_flags_def
     enumdecl_tty_driver_flag_def enumdecl_tty_driver_subtype_def enumdecl_tty_driver_type_def
     enumdecl_tty_flow_change_def enumdecl_tty_struct_flags_def enumdecl_tunable_id_def
     enumdecl_tunable_type_id_def enumdecl_tva_type_def enumdecl_twl4030_audio_res_def
     enumdecl_twl4030_module_ids_def enumdecl_twl6030_module_ids_def
     enumdecl_twl_module_ids_def enumdecl_txtime_flags_def enumdecl_uart_iotype_def
     enumdecl_uart_pm_state_def enumdecl_uclamp_id_def enumdecl_ucode_state_def
     enumdecl_ucount_type_def enumdecl_udp_conntrack_def enumdecl_udp_parsable_tunnel_type_def
     enumdecl_udp_tunnel_nic_info_flags_def enumdecl_uhci_rh_state_def
     enumdecl_uinput_state_def enumdecl_umh_disable_depth_def enumdecl_umount_tree_flags_def
     enumdecl_uncore_access_type_def enumdecl_unix_vertex_index_def
     enumdecl_unwind_user_type_def enumdecl_unwind_user_type_bits_def
     enumdecl_uprobe_task_state_def enumdecl_usb3_link_state_def
     enumdecl_usb_charger_state_def enumdecl_usb_charger_type_def
     enumdecl_usb_dev_authorize_policy_def enumdecl_usb_device_speed_def
     enum_usb_device_speed_def enumdecl_usb_device_state_def enum_usb_device_state_def
     enumdecl_usb_dr_mode_def enumdecl_usb_interface_condition_def enumdecl_usb_led_event_def
     enumdecl_usb_link_tunnel_mode_def enumdecl_usb_otg_state_def enumdecl_usb_phy_events_def
     enumdecl_usb_phy_type_def enumdecl_usb_port_connect_type_def enumdecl_usb_role_def
     enumdecl_usb_ssp_rate_def enumdecl_usb_wireless_status_def enumdecl_user_reg_flag_def
     enumdecl_utf16_endian_def enumdecl_utf8_normalization_def enumdecl_uts_proc_def
     enumdecl_uv_bios_cmd_def enumdecl_uv_memprotect_def enumdecl_uv_system_type_def
     enumdecl_v4l2_av1_segment_feature_def enumdecl_v4l2_fwnode_bus_type_def
     enumdecl_v4l2_preemphasis_def enumdecl_vc_ctl_state_def enumdecl_vc_intensity_def
     enumdecl_vcap_action_field_def enumdecl_vcap_actionfield_set_def
     enumdecl_vcap_arp_opcode_def enumdecl_vcap_bit_def enumdecl_vcap_command_def
     enumdecl_vcap_field_type_def enumdecl_vcap_is2_arp_opcode_def enumdecl_vcap_key_field_def
     enumdecl_vcap_keyfield_set_def enumdecl_vcap_rule_error_def enumdecl_vcap_rule_state_def
     enumdecl_vcap_selection_def enumdecl_vcap_type_def enumdecl_vcap_user_def
     enumdecl_vcpu_state_def enumdecl_vdso_clock_mode_def enumdecl_vdso_pages_def
     enumdecl_verifier_phase_def enumdecl_vesa_blank_mode_def
     enumdecl_vga_switcheroo_client_id_def enumdecl_vga_switcheroo_handler_flags_t_def
     enumdecl_vga_switcheroo_state_def enumdecl_vhost_task_flags_def
     enumdecl_virtio_balloon_config_read_def enumdecl_virtio_balloon_vq_def
     enumdecl_virtnet_xmit_type_def enumdecl_visit_state_def enumdecl_vlan_flags_def
     enumdecl_vlan_protos_def enumdecl_vm_event_item_def enumdecl_vm_fault_reason_def
     enumdecl_vm_stat_item_def enumdecl_vma_merge_state_def enumdecl_vma_operation_def
     enumdecl_vma_resv_mode_def enumdecl_vme_resource_type_def enumdecl_vmpressure_levels_def
     enumdecl_vmpressure_modes_def enumdecl_vmscan_throttle_state_def
     enumdecl_vmscape_mitigations_def enumdecl_vmx_feature_leafs_def
     enumdecl_vmx_l1d_flush_state_def enumdecl_vp_vq_vector_policy_def)
    (intro enum_list_intros enum_int_intros enumdecl_tpm2_handle_types_4; simp)

lemma enum_usb_device_speed_listed: "EnumDecl False enum_usb_device_speed \<in> set enum_decls_19"
  by (simp add: enum_decls_19_def flip: enumdecl_usb_device_speed_def)

lemma enum_usb_device_state_listed: "EnumDecl False enum_usb_device_state \<in> set enum_decls_19"
  by (simp add: enum_decls_19_def flip: enumdecl_usb_device_state_def)

lemma length_enum_decls_19: "length enum_decls_19 = 141"
  by (simp add: enum_decls_19_def)

end
