(* ===== verification/VmlinuxEnum20.thy ===== *)
theory VmlinuxEnum20
  imports EnumDecl
begin

text \<open>
  The enumerations of four bytes of \<^verbatim>\<open>src/internal/ebpf/vmlinux.h\<close> between lines 31484 and
  32281, one definition per enumeration, enumerators in order. An enumeration without a tag is
  named after the line it starts on.
\<close>

definition enumdecl_vq_layout :: cenum_decl where
  "enumdecl_vq_layout = EnumDecl False [
     (''VQ_LAYOUT_SPLIT'', 0), (''VQ_LAYOUT_PACKED'', 1), (''VQ_LAYOUT_SPLIT_IN_ORDER'', 2),
     (''VQ_LAYOUT_PACKED_IN_ORDER'', 3)]"

definition enumdecl_vsock_net_mode :: cenum_decl where
  "enumdecl_vsock_net_mode = EnumDecl False [
     (''VSOCK_NET_MODE_GLOBAL'', 0), (''VSOCK_NET_MODE_LOCAL'', 1)]"

definition enumdecl_vtime_state :: cenum_decl where
  "enumdecl_vtime_state = EnumDecl False [
     (''VTIME_INACTIVE'', 0), (''VTIME_IDLE'', 1), (''VTIME_SYS'', 2), (''VTIME_USER'', 3),
     (''VTIME_GUEST'', 4)]"

definition enumdecl_watch_meta_notification_subtype :: cenum_decl where
  "enumdecl_watch_meta_notification_subtype = EnumDecl False [
     (''WATCH_META_REMOVAL_NOTIFICATION'', 0), (''WATCH_META_LOSS_NOTIFICATION'', 1)]"

definition enumdecl_watch_notification_type :: cenum_decl where
  "enumdecl_watch_notification_type = EnumDecl False [
     (''WATCH_TYPE_META'', 0), (''WATCH_TYPE_KEY_NOTIFY'', 1), (''WATCH_TYPE__NR'', 2)]"

definition enumdecl_wb_reason :: cenum_decl where
  "enumdecl_wb_reason = EnumDecl False [
     (''WB_REASON_BACKGROUND'', 0), (''WB_REASON_VMSCAN'', 1), (''WB_REASON_SYNC'', 2),
     (''WB_REASON_PERIODIC'', 3), (''WB_REASON_FS_FREE_SPACE'', 4),
     (''WB_REASON_FORKER_THREAD'', 5), (''WB_REASON_FOREIGN_FLUSH'', 6), (''WB_REASON_MAX'', 7)]"

definition enumdecl_wb_stat_item :: cenum_decl where
  "enumdecl_wb_stat_item = EnumDecl False [
     (''WB_RECLAIMABLE'', 0), (''WB_WRITEBACK'', 1), (''WB_DIRTIED'', 2), (''WB_WRITTEN'', 3),
     (''NR_WB_STAT_ITEMS'', 4)]"

definition enumdecl_wb_state :: cenum_decl where
  "enumdecl_wb_state = EnumDecl False [
     (''WB_registered'', 0), (''WB_writeback_running'', 1), (''WB_has_dirty_io'', 2),
     (''WB_start_all'', 3)]"

definition enumdecl_wbrf_notifier_actions :: cenum_decl where
  "enumdecl_wbrf_notifier_actions = EnumDecl False [
     (''WBRF_CHANGED'', 0)]"

definition enumdecl_wbt_flags :: cenum_decl where
  "enumdecl_wbt_flags = EnumDecl False [
     (''WBT_TRACKED'', 1), (''WBT_READ'', 2), (''WBT_SWAP'', 4), (''WBT_DISCARD'', 8),
     (''WBT_NR_BITS'', 4)]"

definition enumdecl_wd_read_status :: cenum_decl where
  "enumdecl_wd_read_status = EnumDecl False [
     (''WD_READ_SUCCESS'', 0), (''WD_READ_UNSTABLE'', 1), (''WD_READ_SKIP'', 2)]"

definition enumdecl_which_selector :: cenum_decl where
  "enumdecl_which_selector = EnumDecl False [
     (''FS'', 0), (''GS'', 1)]"

definition enumdecl_wiphy_flags :: cenum_decl where
  "enumdecl_wiphy_flags = EnumDecl False [
     (''WIPHY_FLAG_SUPPORTS_EXT_KEK_KCK'', 1), (''WIPHY_FLAG_SUPPORTS_MLO'', 2),
     (''WIPHY_FLAG_SPLIT_SCAN_6GHZ'', 4), (''WIPHY_FLAG_NETNS_OK'', 8),
     (''WIPHY_FLAG_PS_ON_BY_DEFAULT'', 16), (''WIPHY_FLAG_4ADDR_AP'', 32),
     (''WIPHY_FLAG_4ADDR_STATION'', 64), (''WIPHY_FLAG_CONTROL_PORT_PROTOCOL'', 128),
     (''WIPHY_FLAG_IBSS_RSN'', 256), (''WIPHY_FLAG_DISABLE_WEXT'', 512),
     (''WIPHY_FLAG_MESH_AUTH'', 1024), (''WIPHY_FLAG_SUPPORTS_EXT_KCK_32'', 2048),
     (''WIPHY_FLAG_SUPPORTS_NSTR_NONPRIMARY'', 4096), (''WIPHY_FLAG_SUPPORTS_FW_ROAM'', 8192),
     (''WIPHY_FLAG_AP_UAPSD'', 16384), (''WIPHY_FLAG_SUPPORTS_TDLS'', 32768),
     (''WIPHY_FLAG_TDLS_EXTERNAL_SETUP'', 65536), (''WIPHY_FLAG_HAVE_AP_SME'', 131072),
     (''WIPHY_FLAG_REPORTS_OBSS'', 262144), (''WIPHY_FLAG_AP_PROBE_RESP_OFFLOAD'', 524288),
     (''WIPHY_FLAG_OFFCHAN_TX'', 1048576), (''WIPHY_FLAG_HAS_REMAIN_ON_CHANNEL'', 2097152),
     (''WIPHY_FLAG_SUPPORTS_5_10_MHZ'', 4194304), (''WIPHY_FLAG_HAS_CHANNEL_SWITCH'', 8388608),
     (''WIPHY_FLAG_NOTIFY_REGDOM_BY_DRIVER'', 16777216),
     (''WIPHY_FLAG_CHANNEL_CHANGE_ON_BEACON'', 33554432)]"

definition enumdecl_wm831x_auxadc :: cenum_decl where
  "enumdecl_wm831x_auxadc = EnumDecl False [
     (''WM831X_AUX_CAL'', 15), (''WM831X_AUX_BKUP_BATT'', 10), (''WM831X_AUX_WALL'', 9),
     (''WM831X_AUX_BATT'', 8), (''WM831X_AUX_USB'', 7), (''WM831X_AUX_SYSVDD'', 6),
     (''WM831X_AUX_BATT_TEMP'', 5), (''WM831X_AUX_CHIP_TEMP'', 4), (''WM831X_AUX_AUX4'', 3),
     (''WM831X_AUX_AUX3'', 2), (''WM831X_AUX_AUX2'', 1), (''WM831X_AUX_AUX1'', 0)]"

definition enumdecl_wm831x_parent :: cenum_decl where
  "enumdecl_wm831x_parent = EnumDecl False [
     (''WM8310'', 33552), (''WM8311'', 33553), (''WM8312'', 33554), (''WM8320'', 33568),
     (''WM8321'', 33569), (''WM8325'', 33573), (''WM8326'', 33574)]"

definition enumdecl_wm831x_status_src :: cenum_decl where
  "enumdecl_wm831x_status_src = EnumDecl False [
     (''WM831X_STATUS_PRESERVE'', 0), (''WM831X_STATUS_OTP'', 1), (''WM831X_STATUS_POWER'', 2),
     (''WM831X_STATUS_CHARGER'', 3), (''WM831X_STATUS_MANUAL'', 4)]"

definition enumdecl_wm831x_watchdog_action :: cenum_decl where
  "enumdecl_wm831x_watchdog_action = EnumDecl False [
     (''WM831X_WDOG_NONE'', 0), (''WM831X_WDOG_INTERRUPT'', 1), (''WM831X_WDOG_RESET'', 2),
     (''WM831X_WDOG_WAKE'', 3)]"

definition enumdecl_work_bits :: cenum_decl where
  "enumdecl_work_bits = EnumDecl False [
     (''WORK_STRUCT_PENDING_BIT'', 0), (''WORK_STRUCT_INACTIVE_BIT'', 1),
     (''WORK_STRUCT_PWQ_BIT'', 2), (''WORK_STRUCT_LINKED_BIT'', 3),
     (''WORK_STRUCT_FLAG_BITS'', 4), (''WORK_STRUCT_COLOR_SHIFT'', 4),
     (''WORK_STRUCT_COLOR_BITS'', 4), (''WORK_STRUCT_PWQ_SHIFT'', 8),
     (''WORK_OFFQ_FLAG_SHIFT'', 4), (''WORK_OFFQ_BH_BIT'', 4), (''WORK_OFFQ_FLAG_END'', 5),
     (''WORK_OFFQ_FLAG_BITS'', 1), (''WORK_OFFQ_DISABLE_SHIFT'', 5),
     (''WORK_OFFQ_DISABLE_BITS'', 16), (''WORK_OFFQ_POOL_SHIFT'', 21), (''WORK_OFFQ_LEFT'', 43),
     (''WORK_OFFQ_POOL_BITS'', 31)]"

definition enumdecl_work_cancel_flags :: cenum_decl where
  "enumdecl_work_cancel_flags = EnumDecl False [
     (''WORK_CANCEL_DELAYED'', 1), (''WORK_CANCEL_DISABLE'', 2)]"

definition enumdecl_work_flags :: cenum_decl where
  "enumdecl_work_flags = EnumDecl False [
     (''WORK_STRUCT_PENDING'', 1), (''WORK_STRUCT_INACTIVE'', 2), (''WORK_STRUCT_PWQ'', 4),
     (''WORK_STRUCT_LINKED'', 8), (''WORK_STRUCT_STATIC'', 0)]"

definition enumdecl_worker_flags :: cenum_decl where
  "enumdecl_worker_flags = EnumDecl False [
     (''WORKER_DIE'', 2), (''WORKER_IDLE'', 4), (''WORKER_PREP'', 8),
     (''WORKER_CPU_INTENSIVE'', 64), (''WORKER_UNBOUND'', 128), (''WORKER_REBOUND'', 256),
     (''WORKER_NOT_RUNNING'', 456)]"

definition enumdecl_worker_pool_flags :: cenum_decl where
  "enumdecl_worker_pool_flags = EnumDecl False [
     (''POOL_BH'', 1), (''POOL_MANAGER_ACTIVE'', 2), (''POOL_DISASSOCIATED'', 4),
     (''POOL_BH_DRAINING'', 8)]"

definition enumdecl_wq_affn_scope :: cenum_decl where
  "enumdecl_wq_affn_scope = EnumDecl False [
     (''WQ_AFFN_DFL'', 0), (''WQ_AFFN_CPU'', 1), (''WQ_AFFN_SMT'', 2), (''WQ_AFFN_CACHE'', 3),
     (''WQ_AFFN_NUMA'', 4), (''WQ_AFFN_SYSTEM'', 5), (''WQ_AFFN_NR_TYPES'', 6)]"

definition enumdecl_wq_consts :: cenum_decl where
  "enumdecl_wq_consts = EnumDecl False [
     (''WQ_MAX_ACTIVE'', 2048), (''WQ_UNBOUND_MAX_ACTIVE'', 2048), (''WQ_DFL_ACTIVE'', 1024),
     (''WQ_DFL_MIN_ACTIVE'', 8)]"

definition enumdecl_wq_flags :: cenum_decl where
  "enumdecl_wq_flags = EnumDecl False [
     (''WQ_BH'', 1), (''WQ_UNBOUND'', 2), (''WQ_FREEZABLE'', 4), (''WQ_MEM_RECLAIM'', 8),
     (''WQ_HIGHPRI'', 16), (''WQ_CPU_INTENSIVE'', 32), (''WQ_SYSFS'', 64),
     (''WQ_POWER_EFFICIENT'', 128), (''WQ_PERCPU'', 256), (''__WQ_DESTROYING'', 32768),
     (''__WQ_DRAINING'', 65536), (''__WQ_ORDERED'', 131072), (''__WQ_LEGACY'', 262144),
     (''__WQ_BH_ALLOWS'', 273)]"

definition enumdecl_wq_internal_consts :: cenum_decl where
  "enumdecl_wq_internal_consts = EnumDecl False [
     (''NR_STD_WORKER_POOLS'', 2), (''UNBOUND_POOL_HASH_ORDER'', 6),
     (''BUSY_WORKER_HASH_ORDER'', 6), (''MAX_IDLE_WORKERS_RATIO'', 4),
     (''IDLE_WORKER_TIMEOUT'', 300000), (''MAYDAY_INITIAL_TIMEOUT'', 10),
     (''MAYDAY_INTERVAL'', 100), (''CREATE_COOLDOWN'', 1000), (''RESCUER_BATCH'', 16),
     (''RESCUER_NICE_LEVEL'', - 20), (''HIGHPRI_NICE_LEVEL'', - 20), (''WQ_NAME_LEN'', 32),
     (''WORKER_ID_LEN'', 42)]"

definition enumdecl_wq_misc_consts :: cenum_decl where
  "enumdecl_wq_misc_consts = EnumDecl False [
     (''WORK_NR_COLORS'', 16), (''WORK_CPU_UNBOUND'', 8192), (''WORK_BUSY_PENDING'', 1),
     (''WORK_BUSY_RUNNING'', 2), (''WORKER_DESC_LEN'', 32)]"

definition enumdecl_writeback_sync_modes :: cenum_decl where
  "enumdecl_writeback_sync_modes = EnumDecl False [
     (''WB_SYNC_NONE'', 0), (''WB_SYNC_ALL'', 1)]"

definition enumdecl_x509_actions :: cenum_decl where
  "enumdecl_x509_actions = EnumDecl False [
     (''ACT_x509_extract_key_data'', 0), (''ACT_x509_extract_name_segment'', 1),
     (''ACT_x509_note_OID'', 2), (''ACT_x509_note_issuer'', 3), (''ACT_x509_note_not_after'', 4),
     (''ACT_x509_note_not_before'', 5), (''ACT_x509_note_params'', 6),
     (''ACT_x509_note_serial'', 7), (''ACT_x509_note_sig_algo'', 8),
     (''ACT_x509_note_signature'', 9), (''ACT_x509_note_subject'', 10),
     (''ACT_x509_note_tbs_certificate'', 11), (''ACT_x509_process_extension'', 12),
     (''NR__x509_actions'', 13)]"

definition enumdecl_x509_akid_actions :: cenum_decl where
  "enumdecl_x509_akid_actions = EnumDecl False [
     (''ACT_x509_akid_note_kid'', 0), (''ACT_x509_akid_note_name'', 1),
     (''ACT_x509_akid_note_serial'', 2), (''ACT_x509_extract_name_segment___2'', 3),
     (''ACT_x509_note_OID___2'', 4), (''NR__x509_akid_actions'', 5)]"

definition enumdecl_x86_hardware_subarch :: cenum_decl where
  "enumdecl_x86_hardware_subarch = EnumDecl False [
     (''X86_SUBARCH_PC'', 0), (''X86_SUBARCH_LGUEST'', 1), (''X86_SUBARCH_XEN'', 2),
     (''X86_SUBARCH_INTEL_MID'', 3), (''X86_SUBARCH_CE4100'', 4), (''X86_NR_SUBARCHS'', 5)]"

definition enumdecl_x86_hypervisor_type :: cenum_decl where
  "enumdecl_x86_hypervisor_type = EnumDecl False [
     (''X86_HYPER_NATIVE'', 0), (''X86_HYPER_VMWARE'', 1), (''X86_HYPER_MS_HYPERV'', 2),
     (''X86_HYPER_XEN_PV'', 3), (''X86_HYPER_XEN_HVM'', 4), (''X86_HYPER_KVM'', 5),
     (''X86_HYPER_JAILHOUSE'', 6), (''X86_HYPER_ACRN'', 7), (''X86_HYPER_BHYVE'', 8)]"

definition enumdecl_x86_legacy_i8042_state :: cenum_decl where
  "enumdecl_x86_legacy_i8042_state = EnumDecl False [
     (''X86_LEGACY_I8042_PLATFORM_ABSENT'', 0), (''X86_LEGACY_I8042_FIRMWARE_ABSENT'', 1),
     (''X86_LEGACY_I8042_EXPECTED_PRESENT'', 2)]"

definition enumdecl_x86_pf_error_code :: cenum_decl where
  "enumdecl_x86_pf_error_code = EnumDecl False [
     (''X86_PF_PROT'', 1), (''X86_PF_WRITE'', 2), (''X86_PF_USER'', 4), (''X86_PF_RSVD'', 8),
     (''X86_PF_INSTR'', 16), (''X86_PF_PK'', 32), (''X86_PF_SHSTK'', 64),
     (''X86_PF_SGX'', 32768), (''X86_PF_RMP'', 2147483648)]"

lemma enumdecl_x86_pf_error_code_4: "enum4 enumdecl_x86_pf_error_code"
  by (unfold enumdecl_x86_pf_error_code_def) (intro enum_uint_intros; simp)

definition enumdecl_x86_regset_32 :: cenum_decl where
  "enumdecl_x86_regset_32 = EnumDecl False [
     (''REGSET32_GENERAL'', 0), (''REGSET32_FP'', 1), (''REGSET32_XFP'', 2),
     (''REGSET32_XSTATE'', 3), (''REGSET32_TLS'', 4), (''REGSET32_IOPERM'', 5)]"

definition enumdecl_x86_regset_64 :: cenum_decl where
  "enumdecl_x86_regset_64 = EnumDecl False [
     (''REGSET64_GENERAL'', 0), (''REGSET64_FP'', 1), (''REGSET64_IOPERM'', 2),
     (''REGSET64_XSTATE'', 3), (''REGSET64_SSP'', 4)]"

definition enumdecl_x86_topology_cpu_type :: cenum_decl where
  "enumdecl_x86_topology_cpu_type = EnumDecl False [
     (''TOPO_CPU_TYPE_PERFORMANCE'', 0), (''TOPO_CPU_TYPE_EFFICIENCY'', 1),
     (''TOPO_CPU_TYPE_UNKNOWN'', 2)]"

definition enumdecl_x86_topology_domains :: cenum_decl where
  "enumdecl_x86_topology_domains = EnumDecl False [
     (''TOPO_SMT_DOMAIN'', 0), (''TOPO_CORE_DOMAIN'', 1), (''TOPO_MODULE_DOMAIN'', 2),
     (''TOPO_TILE_DOMAIN'', 3), (''TOPO_DIE_DOMAIN'', 4), (''TOPO_DIEGRP_DOMAIN'', 5),
     (''TOPO_PKG_DOMAIN'', 6), (''TOPO_MAX_DOMAIN'', 7)]"

definition enumdecl_xa_lock_type :: cenum_decl where
  "enumdecl_xa_lock_type = EnumDecl False [
     (''XA_LOCK_IRQ'', 1), (''XA_LOCK_BH'', 2)]"

definition enumdecl_xb_req_state :: cenum_decl where
  "enumdecl_xb_req_state = EnumDecl False [
     (''xb_req_state_queued'', 0), (''xb_req_state_wait_reply'', 1),
     (''xb_req_state_got_reply'', 2), (''xb_req_state_aborted'', 3)]"

definition enumdecl_xdp_action :: cenum_decl where
  "enumdecl_xdp_action = EnumDecl False [
     (''XDP_ABORTED'', 0), (''XDP_DROP'', 1), (''XDP_PASS'', 2), (''XDP_TX'', 3),
     (''XDP_REDIRECT'', 4)]"

definition enumdecl_xdp_buff_flags :: cenum_decl where
  "enumdecl_xdp_buff_flags = EnumDecl False [
     (''XDP_FLAGS_HAS_FRAGS'', 1), (''XDP_FLAGS_FRAGS_PF_MEMALLOC'', 2),
     (''XDP_FLAGS_FRAGS_UNREADABLE'', 4)]"

definition enumdecl_xdp_mem_type :: cenum_decl where
  "enumdecl_xdp_mem_type = EnumDecl False [
     (''MEM_TYPE_PAGE_SHARED'', 0), (''MEM_TYPE_PAGE_ORDER0'', 1), (''MEM_TYPE_PAGE_POOL'', 2),
     (''MEM_TYPE_XSK_BUFF_POOL'', 3), (''MEM_TYPE_MAX'', 4)]"

definition enumdecl_xdp_rss_hash_type :: cenum_decl where
  "enumdecl_xdp_rss_hash_type = EnumDecl False [
     (''XDP_RSS_L3_IPV4'', 1), (''XDP_RSS_L3_IPV6'', 2), (''XDP_RSS_L3_DYNHDR'', 4),
     (''XDP_RSS_L4'', 8), (''XDP_RSS_L4_TCP'', 16), (''XDP_RSS_L4_UDP'', 32),
     (''XDP_RSS_L4_SCTP'', 64), (''XDP_RSS_L4_IPSEC'', 128), (''XDP_RSS_L4_ICMP'', 256),
     (''XDP_RSS_TYPE_NONE'', 0), (''XDP_RSS_TYPE_L2'', 0), (''XDP_RSS_TYPE_L3_IPV4'', 1),
     (''XDP_RSS_TYPE_L3_IPV6'', 2), (''XDP_RSS_TYPE_L3_IPV4_OPT'', 5),
     (''XDP_RSS_TYPE_L3_IPV6_EX'', 6), (''XDP_RSS_TYPE_L4_ANY'', 8),
     (''XDP_RSS_TYPE_L4_IPV4_TCP'', 25), (''XDP_RSS_TYPE_L4_IPV4_UDP'', 41),
     (''XDP_RSS_TYPE_L4_IPV4_SCTP'', 73), (''XDP_RSS_TYPE_L4_IPV4_IPSEC'', 137),
     (''XDP_RSS_TYPE_L4_IPV4_ICMP'', 265), (''XDP_RSS_TYPE_L4_IPV6_TCP'', 26),
     (''XDP_RSS_TYPE_L4_IPV6_UDP'', 42), (''XDP_RSS_TYPE_L4_IPV6_SCTP'', 74),
     (''XDP_RSS_TYPE_L4_IPV6_IPSEC'', 138), (''XDP_RSS_TYPE_L4_IPV6_ICMP'', 266),
     (''XDP_RSS_TYPE_L4_IPV6_TCP_EX'', 30), (''XDP_RSS_TYPE_L4_IPV6_UDP_EX'', 46),
     (''XDP_RSS_TYPE_L4_IPV6_SCTP_EX'', 78)]"

definition enumdecl_xdp_rx_metadata :: cenum_decl where
  "enumdecl_xdp_rx_metadata = EnumDecl False [
     (''XDP_METADATA_KFUNC_RX_TIMESTAMP'', 0), (''XDP_METADATA_KFUNC_RX_HASH'', 1),
     (''XDP_METADATA_KFUNC_RX_VLAN_TAG'', 2), (''MAX_XDP_METADATA_KFUNC'', 3)]"

definition enumdecl_xen_domain_type :: cenum_decl where
  "enumdecl_xen_domain_type = EnumDecl False [
     (''XEN_NATIVE'', 0), (''XEN_PV_DOMAIN'', 1), (''XEN_HVM_DOMAIN'', 2)]"

definition enumdecl_xen_irq_type :: cenum_decl where
  "enumdecl_xen_irq_type = EnumDecl False [
     (''IRQT_UNBOUND'', 0), (''IRQT_PIRQ'', 1), (''IRQT_VIRQ'', 2), (''IRQT_IPI'', 3),
     (''IRQT_EVTCHN'', 4)]"

definition enumdecl_xen_lazy_mode :: cenum_decl where
  "enumdecl_xen_lazy_mode = EnumDecl False enum_xen_lazy_mode"

definition enumdecl_xen_mc_extend_args :: cenum_decl where
  "enumdecl_xen_mc_extend_args = EnumDecl False enum_xen_mc_extend_args"

definition enumdecl_xen_mc_flush_reason :: cenum_decl where
  "enumdecl_xen_mc_flush_reason = EnumDecl False enum_xen_mc_flush_reason"

definition enumdecl_xenbus_state :: cenum_decl where
  "enumdecl_xenbus_state = EnumDecl False [
     (''XenbusStateUnknown'', 0), (''XenbusStateInitialising'', 1), (''XenbusStateInitWait'', 2),
     (''XenbusStateInitialised'', 3), (''XenbusStateConnected'', 4), (''XenbusStateClosing'', 5),
     (''XenbusStateClosed'', 6), (''XenbusStateReconfiguring'', 7),
     (''XenbusStateReconfigured'', 8)]"

definition enumdecl_xenstore_init :: cenum_decl where
  "enumdecl_xenstore_init = EnumDecl False [
     (''XS_UNKNOWN'', 0), (''XS_PV'', 1), (''XS_HVM'', 2), (''XS_LOCAL'', 3)]"

definition enumdecl_xfeature :: cenum_decl where
  "enumdecl_xfeature = EnumDecl False [
     (''XFEATURE_FP'', 0), (''XFEATURE_SSE'', 1), (''XFEATURE_YMM'', 2),
     (''XFEATURE_BNDREGS'', 3), (''XFEATURE_BNDCSR'', 4), (''XFEATURE_OPMASK'', 5),
     (''XFEATURE_ZMM_Hi256'', 6), (''XFEATURE_Hi16_ZMM'', 7),
     (''XFEATURE_PT_UNIMPLEMENTED_SO_FAR'', 8), (''XFEATURE_PKRU'', 9), (''XFEATURE_PASID'', 10),
     (''XFEATURE_CET_USER'', 11), (''XFEATURE_CET_KERNEL'', 12),
     (''XFEATURE_RSRVD_COMP_13'', 13), (''XFEATURE_RSRVD_COMP_14'', 14), (''XFEATURE_LBR'', 15),
     (''XFEATURE_RSRVD_COMP_16'', 16), (''XFEATURE_XTILE_CFG'', 17),
     (''XFEATURE_XTILE_DATA'', 18), (''XFEATURE_APX'', 19), (''XFEATURE_MAX'', 20)]"

definition enumdecl_xfrm_ae_ftype_t :: cenum_decl where
  "enumdecl_xfrm_ae_ftype_t = EnumDecl False [
     (''XFRM_AE_UNSPEC'', 0), (''XFRM_AE_RTHR'', 1), (''XFRM_AE_RVAL'', 2),
     (''XFRM_AE_LVAL'', 4), (''XFRM_AE_ETHR'', 8), (''XFRM_AE_CR'', 16), (''XFRM_AE_CE'', 32),
     (''XFRM_AE_CU'', 64), (''__XFRM_AE_MAX'', 65)]"

definition enumdecl_xfrm_attr_type_t :: cenum_decl where
  "enumdecl_xfrm_attr_type_t = EnumDecl False [
     (''XFRMA_UNSPEC'', 0), (''XFRMA_ALG_AUTH'', 1), (''XFRMA_ALG_CRYPT'', 2),
     (''XFRMA_ALG_COMP'', 3), (''XFRMA_ENCAP'', 4), (''XFRMA_TMPL'', 5), (''XFRMA_SA'', 6),
     (''XFRMA_POLICY'', 7), (''XFRMA_SEC_CTX'', 8), (''XFRMA_LTIME_VAL'', 9),
     (''XFRMA_REPLAY_VAL'', 10), (''XFRMA_REPLAY_THRESH'', 11), (''XFRMA_ETIMER_THRESH'', 12),
     (''XFRMA_SRCADDR'', 13), (''XFRMA_COADDR'', 14), (''XFRMA_LASTUSED'', 15),
     (''XFRMA_POLICY_TYPE'', 16), (''XFRMA_MIGRATE'', 17), (''XFRMA_ALG_AEAD'', 18),
     (''XFRMA_KMADDRESS'', 19), (''XFRMA_ALG_AUTH_TRUNC'', 20), (''XFRMA_MARK'', 21),
     (''XFRMA_TFCPAD'', 22), (''XFRMA_REPLAY_ESN_VAL'', 23), (''XFRMA_SA_EXTRA_FLAGS'', 24),
     (''XFRMA_PROTO'', 25), (''XFRMA_ADDRESS_FILTER'', 26), (''XFRMA_PAD'', 27),
     (''XFRMA_OFFLOAD_DEV'', 28), (''XFRMA_SET_MARK'', 29), (''XFRMA_SET_MARK_MASK'', 30),
     (''XFRMA_IF_ID'', 31), (''XFRMA_MTIMER_THRESH'', 32), (''XFRMA_SA_DIR'', 33),
     (''XFRMA_NAT_KEEPALIVE_INTERVAL'', 34), (''XFRMA_SA_PCPU'', 35),
     (''XFRMA_IPTFS_DROP_TIME'', 36), (''XFRMA_IPTFS_REORDER_WINDOW'', 37),
     (''XFRMA_IPTFS_DONT_FRAG'', 38), (''XFRMA_IPTFS_INIT_DELAY'', 39),
     (''XFRMA_IPTFS_MAX_QSIZE'', 40), (''XFRMA_IPTFS_PKT_SIZE'', 41), (''__XFRMA_MAX'', 42)]"

definition enumdecl_xfrm_nlgroups :: cenum_decl where
  "enumdecl_xfrm_nlgroups = EnumDecl False [
     (''XFRMNLGRP_NONE'', 0), (''XFRMNLGRP_ACQUIRE'', 1), (''XFRMNLGRP_EXPIRE'', 2),
     (''XFRMNLGRP_SA'', 3), (''XFRMNLGRP_POLICY'', 4), (''XFRMNLGRP_AEVENTS'', 5),
     (''XFRMNLGRP_REPORT'', 6), (''XFRMNLGRP_MIGRATE'', 7), (''XFRMNLGRP_MAPPING'', 8),
     (''__XFRMNLGRP_MAX'', 9)]"

definition enumdecl_xfrm_pol_inexact_candidate_type :: cenum_decl where
  "enumdecl_xfrm_pol_inexact_candidate_type = EnumDecl False [
     (''XFRM_POL_CAND_BOTH'', 0), (''XFRM_POL_CAND_SADDR'', 1), (''XFRM_POL_CAND_DADDR'', 2),
     (''XFRM_POL_CAND_ANY'', 3), (''XFRM_POL_CAND_MAX'', 4)]"

definition enumdecl_xfrm_replay_mode :: cenum_decl where
  "enumdecl_xfrm_replay_mode = EnumDecl False [
     (''XFRM_REPLAY_MODE_LEGACY'', 0), (''XFRM_REPLAY_MODE_BMP'', 1),
     (''XFRM_REPLAY_MODE_ESN'', 2)]"

definition enumdecl_xfrm_sa_dir :: cenum_decl where
  "enumdecl_xfrm_sa_dir = EnumDecl False [
     (''XFRM_SA_DIR_IN'', 1), (''XFRM_SA_DIR_OUT'', 2)]"

definition enumdecl_xhci_cancelled_td_status :: cenum_decl where
  "enumdecl_xhci_cancelled_td_status = EnumDecl False [
     (''TD_DIRTY'', 0), (''TD_HALTED'', 1), (''TD_CLEARING_CACHE'', 2),
     (''TD_CLEARING_CACHE_DEFERRED'', 3), (''TD_CLEARED'', 4)]"

definition enumdecl_xhci_ep_reset_type :: cenum_decl where
  "enumdecl_xhci_ep_reset_type = EnumDecl False [
     (''EP_HARD_RESET'', 0), (''EP_SOFT_RESET'', 1)]"

definition enumdecl_xhci_overhead_type :: cenum_decl where
  "enumdecl_xhci_overhead_type = EnumDecl False [
     (''LS_OVERHEAD_TYPE'', 0), (''FS_OVERHEAD_TYPE'', 1), (''HS_OVERHEAD_TYPE'', 2)]"

definition enumdecl_xhci_ring_type :: cenum_decl where
  "enumdecl_xhci_ring_type = EnumDecl False [
     (''TYPE_CTRL'', 0), (''TYPE_ISOC'', 1), (''TYPE_BULK'', 2), (''TYPE_INTR'', 3),
     (''TYPE_STREAM'', 4), (''TYPE_COMMAND'', 5), (''TYPE_EVENT'', 6)]"

definition enumdecl_xhci_setup_dev :: cenum_decl where
  "enumdecl_xhci_setup_dev = EnumDecl False [
     (''SETUP_CONTEXT_ONLY'', 0), (''SETUP_CONTEXT_ADDRESS'', 1)]"

definition enumdecl_xhci_sideband_notify_type :: cenum_decl where
  "enumdecl_xhci_sideband_notify_type = EnumDecl False [
     (''XHCI_SIDEBAND_XFER_RING_FREE'', 0)]"

definition enumdecl_xhci_sideband_type :: cenum_decl where
  "enumdecl_xhci_sideband_type = EnumDecl False [
     (''XHCI_SIDEBAND_AUDIO'', 0), (''XHCI_SIDEBAND_VENDOR'', 1)]"

definition enumdecl_xprtsec_policies :: cenum_decl where
  "enumdecl_xprtsec_policies = EnumDecl False [
     (''RPC_XPRTSEC_NONE'', 0), (''RPC_XPRTSEC_TLS_ANON'', 1), (''RPC_XPRTSEC_TLS_X509'', 2)]"

definition enumdecl_xps_map_type :: cenum_decl where
  "enumdecl_xps_map_type = EnumDecl False [
     (''XPS_CPUS'', 0), (''XPS_RXQS'', 1), (''XPS_MAPS_MAX'', 2)]"

definition enumdecl_xsd_sockmsg_type :: cenum_decl where
  "enumdecl_xsd_sockmsg_type = EnumDecl False [
     (''XS_CONTROL'', 0), (''XS_DIRECTORY'', 1), (''XS_READ'', 2), (''XS_GET_PERMS'', 3),
     (''XS_WATCH'', 4), (''XS_UNWATCH'', 5), (''XS_TRANSACTION_START'', 6),
     (''XS_TRANSACTION_END'', 7), (''XS_INTRODUCE'', 8), (''XS_RELEASE'', 9),
     (''XS_GET_DOMAIN_PATH'', 10), (''XS_WRITE'', 11), (''XS_MKDIR'', 12), (''XS_RM'', 13),
     (''XS_SET_PERMS'', 14), (''XS_WATCH_EVENT'', 15), (''XS_ERROR'', 16),
     (''XS_IS_DOMAIN_INTRODUCED'', 17), (''XS_RESUME'', 18), (''XS_SET_TARGET'', 19),
     (''XS_RESET_WATCHES'', 21), (''XS_DIRECTORY_PART'', 22), (''XS_TYPE_COUNT'', 23),
     (''XS_INVALID'', 65535)]"

definition enumdecl_xstate_copy_mode :: cenum_decl where
  "enumdecl_xstate_copy_mode = EnumDecl False [
     (''XSTATE_COPY_FP'', 0), (''XSTATE_COPY_FX'', 1), (''XSTATE_COPY_XSAVE'', 2)]"

definition enumdecl_xz_check :: cenum_decl where
  "enumdecl_xz_check = EnumDecl False [
     (''XZ_CHECK_NONE'', 0), (''XZ_CHECK_CRC32'', 1), (''XZ_CHECK_CRC64'', 4),
     (''XZ_CHECK_SHA256'', 10)]"

definition enumdecl_xz_mode :: cenum_decl where
  "enumdecl_xz_mode = EnumDecl False [
     (''XZ_SINGLE'', 0), (''XZ_PREALLOC'', 1), (''XZ_DYNALLOC'', 2)]"

definition enumdecl_xz_ret :: cenum_decl where
  "enumdecl_xz_ret = EnumDecl False [
     (''XZ_OK'', 0), (''XZ_STREAM_END'', 1), (''XZ_UNSUPPORTED_CHECK'', 2),
     (''XZ_MEM_ERROR'', 3), (''XZ_MEMLIMIT_ERROR'', 4), (''XZ_FORMAT_ERROR'', 5),
     (''XZ_OPTIONS_ERROR'', 6), (''XZ_DATA_ERROR'', 7), (''XZ_BUF_ERROR'', 8)]"

definition enumdecl_zbc_zone_alignment_method :: cenum_decl where
  "enumdecl_zbc_zone_alignment_method = EnumDecl False [
     (''ZBC_CONSTANT_ZONE_LENGTH'', 1), (''ZBC_CONSTANT_ZONE_START_OFFSET'', 8)]"

definition enumdecl_zbc_zone_cond :: cenum_decl where
  "enumdecl_zbc_zone_cond = EnumDecl False [
     (''ZBC_ZONE_COND_NO_WP'', 0), (''ZBC_ZONE_COND_EMPTY'', 1), (''ZBC_ZONE_COND_IMP_OPEN'', 2),
     (''ZBC_ZONE_COND_EXP_OPEN'', 3), (''ZBC_ZONE_COND_CLOSED'', 4),
     (''ZBC_ZONE_COND_READONLY'', 13), (''ZBC_ZONE_COND_FULL'', 14),
     (''ZBC_ZONE_COND_OFFLINE'', 15)]"

definition enumdecl_zbc_zone_type :: cenum_decl where
  "enumdecl_zbc_zone_type = EnumDecl False [
     (''ZBC_ZONE_TYPE_CONV'', 1), (''ZBC_ZONE_TYPE_SEQWRITE_REQ'', 2),
     (''ZBC_ZONE_TYPE_SEQWRITE_PREF'', 3), (''ZBC_ZONE_TYPE_SEQ_OR_BEFORE_REQ'', 4),
     (''ZBC_ZONE_TYPE_GAP'', 5)]"

definition enumdecl_zcrx_ctrl_op :: cenum_decl where
  "enumdecl_zcrx_ctrl_op = EnumDecl False [
     (''ZCRX_CTRL_FLUSH_RQ'', 0), (''ZCRX_CTRL_EXPORT'', 1), (''__ZCRX_CTRL_LAST'', 2)]"

definition enumdecl_zcrx_features :: cenum_decl where
  "enumdecl_zcrx_features = EnumDecl False [
     (''ZCRX_FEATURE_RX_PAGE_SIZE'', 1)]"

definition enumdecl_zcrx_reg_flags :: cenum_decl where
  "enumdecl_zcrx_reg_flags = EnumDecl False [
     (''ZCRX_REG_IMPORT'', 1)]"

definition enumdecl_zone_flags :: cenum_decl where
  "enumdecl_zone_flags = EnumDecl False [
     (''ZONE_BOOSTED_WATERMARK'', 0), (''ZONE_RECLAIM_ACTIVE'', 1), (''ZONE_BELOW_HIGH'', 2)]"

definition enumdecl_zone_stat_item :: cenum_decl where
  "enumdecl_zone_stat_item = EnumDecl False [
     (''NR_FREE_PAGES'', 0), (''NR_FREE_PAGES_BLOCKS'', 1), (''NR_ZONE_LRU_BASE'', 2),
     (''NR_ZONE_INACTIVE_ANON'', 2), (''NR_ZONE_ACTIVE_ANON'', 3),
     (''NR_ZONE_INACTIVE_FILE'', 4), (''NR_ZONE_ACTIVE_FILE'', 5), (''NR_ZONE_UNEVICTABLE'', 6),
     (''NR_ZONE_WRITE_PENDING'', 7), (''NR_MLOCK'', 8), (''NR_ZSPAGES'', 9),
     (''NR_FREE_CMA_PAGES'', 10), (''NR_UNACCEPTED'', 11), (''NR_VM_ZONE_STAT_ITEMS'', 12)]"

definition enumdecl_zone_type :: cenum_decl where
  "enumdecl_zone_type = EnumDecl False enum_zone_type"

definition enumdecl_zone_watermarks :: cenum_decl where
  "enumdecl_zone_watermarks = EnumDecl False [
     (''WMARK_MIN'', 0), (''WMARK_LOW'', 1), (''WMARK_HIGH'', 2), (''WMARK_PROMO'', 3),
     (''NR_WMARK'', 4)]"

definition enumdecl_zswap_init_type :: cenum_decl where
  "enumdecl_zswap_init_type = EnumDecl False [
     (''ZSWAP_UNINIT'', 0), (''ZSWAP_INIT_SUCCEED'', 1), (''ZSWAP_INIT_FAILED'', 2)]"

definition enum_decls_20 :: "cenum_decl list" where
  "enum_decls_20 = [
     enumdecl_vq_layout, enumdecl_vsock_net_mode, enumdecl_vtime_state,
     enumdecl_watch_meta_notification_subtype, enumdecl_watch_notification_type,
     enumdecl_wb_reason, enumdecl_wb_stat_item, enumdecl_wb_state,
     enumdecl_wbrf_notifier_actions, enumdecl_wbt_flags, enumdecl_wd_read_status,
     enumdecl_which_selector, enumdecl_wiphy_flags, enumdecl_wm831x_auxadc,
     enumdecl_wm831x_parent, enumdecl_wm831x_status_src, enumdecl_wm831x_watchdog_action,
     enumdecl_work_bits, enumdecl_work_cancel_flags, enumdecl_work_flags, enumdecl_worker_flags,
     enumdecl_worker_pool_flags, enumdecl_wq_affn_scope, enumdecl_wq_consts, enumdecl_wq_flags,
     enumdecl_wq_internal_consts, enumdecl_wq_misc_consts, enumdecl_writeback_sync_modes,
     enumdecl_x509_actions, enumdecl_x509_akid_actions, enumdecl_x86_hardware_subarch,
     enumdecl_x86_hypervisor_type, enumdecl_x86_legacy_i8042_state, enumdecl_x86_pf_error_code,
     enumdecl_x86_regset_32, enumdecl_x86_regset_64, enumdecl_x86_topology_cpu_type,
     enumdecl_x86_topology_domains, enumdecl_xa_lock_type, enumdecl_xb_req_state,
     enumdecl_xdp_action, enumdecl_xdp_buff_flags, enumdecl_xdp_mem_type,
     enumdecl_xdp_rss_hash_type, enumdecl_xdp_rx_metadata, enumdecl_xen_domain_type,
     enumdecl_xen_irq_type, enumdecl_xen_lazy_mode, enumdecl_xen_mc_extend_args,
     enumdecl_xen_mc_flush_reason, enumdecl_xenbus_state, enumdecl_xenstore_init,
     enumdecl_xfeature, enumdecl_xfrm_ae_ftype_t, enumdecl_xfrm_attr_type_t,
     enumdecl_xfrm_nlgroups, enumdecl_xfrm_pol_inexact_candidate_type, enumdecl_xfrm_replay_mode,
     enumdecl_xfrm_sa_dir, enumdecl_xhci_cancelled_td_status, enumdecl_xhci_ep_reset_type,
     enumdecl_xhci_overhead_type, enumdecl_xhci_ring_type, enumdecl_xhci_setup_dev,
     enumdecl_xhci_sideband_notify_type, enumdecl_xhci_sideband_type, enumdecl_xprtsec_policies,
     enumdecl_xps_map_type, enumdecl_xsd_sockmsg_type, enumdecl_xstate_copy_mode,
     enumdecl_xz_check, enumdecl_xz_mode, enumdecl_xz_ret, enumdecl_zbc_zone_alignment_method,
     enumdecl_zbc_zone_cond, enumdecl_zbc_zone_type, enumdecl_zcrx_ctrl_op,
     enumdecl_zcrx_features, enumdecl_zcrx_reg_flags, enumdecl_zone_flags,
     enumdecl_zone_stat_item, enumdecl_zone_type, enumdecl_zone_watermarks,
     enumdecl_zswap_init_type]"

lemma enum_decls_20_4: "list_all enum4 enum_decls_20"
  by (unfold enum_decls_20_def
     enumdecl_vq_layout_def enumdecl_vsock_net_mode_def enumdecl_vtime_state_def
     enumdecl_watch_meta_notification_subtype_def enumdecl_watch_notification_type_def
     enumdecl_wb_reason_def enumdecl_wb_stat_item_def enumdecl_wb_state_def
     enumdecl_wbrf_notifier_actions_def enumdecl_wbt_flags_def enumdecl_wd_read_status_def
     enumdecl_which_selector_def enumdecl_wiphy_flags_def enumdecl_wm831x_auxadc_def
     enumdecl_wm831x_parent_def enumdecl_wm831x_status_src_def
     enumdecl_wm831x_watchdog_action_def enumdecl_work_bits_def enumdecl_work_cancel_flags_def
     enumdecl_work_flags_def enumdecl_worker_flags_def enumdecl_worker_pool_flags_def
     enumdecl_wq_affn_scope_def enumdecl_wq_consts_def enumdecl_wq_flags_def
     enumdecl_wq_internal_consts_def enumdecl_wq_misc_consts_def
     enumdecl_writeback_sync_modes_def enumdecl_x509_actions_def
     enumdecl_x509_akid_actions_def enumdecl_x86_hardware_subarch_def
     enumdecl_x86_hypervisor_type_def enumdecl_x86_legacy_i8042_state_def
     enumdecl_x86_regset_32_def enumdecl_x86_regset_64_def enumdecl_x86_topology_cpu_type_def
     enumdecl_x86_topology_domains_def enumdecl_xa_lock_type_def enumdecl_xb_req_state_def
     enumdecl_xdp_action_def enumdecl_xdp_buff_flags_def enumdecl_xdp_mem_type_def
     enumdecl_xdp_rss_hash_type_def enumdecl_xdp_rx_metadata_def enumdecl_xen_domain_type_def
     enumdecl_xen_irq_type_def enumdecl_xen_lazy_mode_def enum_xen_lazy_mode_def
     enumdecl_xen_mc_extend_args_def enum_xen_mc_extend_args_def
     enumdecl_xen_mc_flush_reason_def enum_xen_mc_flush_reason_def enumdecl_xenbus_state_def
     enumdecl_xenstore_init_def enumdecl_xfeature_def enumdecl_xfrm_ae_ftype_t_def
     enumdecl_xfrm_attr_type_t_def enumdecl_xfrm_nlgroups_def
     enumdecl_xfrm_pol_inexact_candidate_type_def enumdecl_xfrm_replay_mode_def
     enumdecl_xfrm_sa_dir_def enumdecl_xhci_cancelled_td_status_def
     enumdecl_xhci_ep_reset_type_def enumdecl_xhci_overhead_type_def
     enumdecl_xhci_ring_type_def enumdecl_xhci_setup_dev_def
     enumdecl_xhci_sideband_notify_type_def enumdecl_xhci_sideband_type_def
     enumdecl_xprtsec_policies_def enumdecl_xps_map_type_def enumdecl_xsd_sockmsg_type_def
     enumdecl_xstate_copy_mode_def enumdecl_xz_check_def enumdecl_xz_mode_def
     enumdecl_xz_ret_def enumdecl_zbc_zone_alignment_method_def enumdecl_zbc_zone_cond_def
     enumdecl_zbc_zone_type_def enumdecl_zcrx_ctrl_op_def enumdecl_zcrx_features_def
     enumdecl_zcrx_reg_flags_def enumdecl_zone_flags_def enumdecl_zone_stat_item_def
     enumdecl_zone_type_def enum_zone_type_def enumdecl_zone_watermarks_def
     enumdecl_zswap_init_type_def)
    (intro enum_list_intros enum_int_intros enumdecl_x86_pf_error_code_4; simp)

lemma enum_xen_lazy_mode_listed: "EnumDecl False enum_xen_lazy_mode \<in> set enum_decls_20"
  by (simp add: enum_decls_20_def flip: enumdecl_xen_lazy_mode_def)

lemma enum_xen_mc_extend_args_listed: "EnumDecl False enum_xen_mc_extend_args \<in> set enum_decls_20"
  by (simp add: enum_decls_20_def flip: enumdecl_xen_mc_extend_args_def)

lemma enum_xen_mc_flush_reason_listed: "EnumDecl False enum_xen_mc_flush_reason \<in> set enum_decls_20"
  by (simp add: enum_decls_20_def flip: enumdecl_xen_mc_flush_reason_def)

lemma enum_zone_type_listed: "EnumDecl False enum_zone_type \<in> set enum_decls_20"
  by (simp add: enum_decls_20_def flip: enumdecl_zone_type_def)

lemma length_enum_decls_20: "length enum_decls_20 = 84"
  by (simp add: enum_decls_20_def)

end
