(* ===== verification/VmlinuxEnumWide.thy ===== *)
theory VmlinuxEnumWide
  imports EnumDecl
begin

text \<open>
  The enumerations of \<^verbatim>\<open>src/internal/ebpf/vmlinux.h\<close> that are not of four bytes: those
  of mode \<^verbatim>\<open>byte\<close> and those with an enumerator beyond 32 bits.
\<close>

definition enumdecl_line_142 :: cenum_decl where
  "enumdecl_line_142 = EnumDecl False [
     (''AMDV1PT_FMT_PR'', 1), (''AMDV1PT_FMT_D'', 64), (''AMDV1PT_FMT_NEXT_LEVEL'', 3584),
     (''AMDV1PT_FMT_OA'', 4503599627366400), (''AMDV1PT_FMT_FC'', 1152921504606846976),
     (''AMDV1PT_FMT_IR'', 2305843009213693952), (''AMDV1PT_FMT_IW'', 4611686018427387904)]"

definition enumdecl_line_948 :: cenum_decl where
  "enumdecl_line_948 = EnumDecl False [
     (''BPF_F_INDEX_MASK'', 4294967295), (''BPF_F_CURRENT_CPU'', 4294967295),
     (''BPF_F_CTXLEN_MASK'', 4503595332403200)]"

definition enumdecl_line_3476 :: cenum_decl where
  "enumdecl_line_3476 = EnumDecl False [
     (''HMM_PFN_INOUT_FLAGS'', 2017612633061982208)]"

definition enumdecl_line_7209 :: cenum_decl where
  "enumdecl_line_7209 = EnumDecl False [
     (''PERF_TXN_ELISION'', 1), (''PERF_TXN_TRANSACTION'', 2), (''PERF_TXN_SYNC'', 4),
     (''PERF_TXN_ASYNC'', 8), (''PERF_TXN_RETRY'', 16), (''PERF_TXN_CONFLICT'', 32),
     (''PERF_TXN_CAPACITY_WRITE'', 64), (''PERF_TXN_CAPACITY_READ'', 128),
     (''PERF_TXN_MAX'', 256), (''PERF_TXN_ABORT_MASK'', 18446744069414584320),
     (''PERF_TXN_ABORT_SHIFT'', 32)]"

definition enumdecl_line_7539 :: cenum_decl where
  "enumdecl_line_7539 = EnumDecl False [
     (''PT_ITEM_WORD_SIZE'', 8), (''PT_MAX_VA_ADDRESS_LG2'', 64),
     (''PT_MAX_OUTPUT_ADDRESS_LG2'', 52), (''PT_MAX_TOP_LEVEL'', 5), (''PT_GRANULE_LG2SZ'', 12),
     (''PT_TABLEMEM_LG2SZ'', 12), (''PT_TOP_PHYS_MASK'', 4503599627366400)]"

definition enumdecl_line_7549 :: cenum_decl where
  "enumdecl_line_7549 = EnumDecl False [
     (''PT_MAX_OUTPUT_ADDRESS_LG2___2'', 52), (''PT_MAX_VA_ADDRESS_LG2___2'', 57),
     (''PT_ITEM_WORD_SIZE___2'', 8), (''PT_MAX_TOP_LEVEL___2'', 4),
     (''PT_GRANULE_LG2SZ___2'', 12), (''PT_TABLEMEM_LG2SZ___2'', 12),
     (''PT_TOP_PHYS_MASK___2'', 18446744073709547520)]"

definition enumdecl_line_7559 :: cenum_decl where
  "enumdecl_line_7559 = EnumDecl False [
     (''PT_MAX_OUTPUT_ADDRESS_LG2___3'', 52), (''PT_MAX_VA_ADDRESS_LG2___3'', 57),
     (''PT_ITEM_WORD_SIZE___3'', 8), (''PT_MAX_TOP_LEVEL___3'', 4),
     (''PT_GRANULE_LG2SZ___3'', 12), (''PT_TABLEMEM_LG2SZ___3'', 12),
     (''PT_TOP_PHYS_MASK___3'', 4503599627366400)]"

definition enumdecl_line_7574 :: cenum_decl where
  "enumdecl_line_7574 = EnumDecl False [
     (''PT_VADDR_MAX'', 18446744073709551615), (''PT_VADDR_MAX_LG2'', 64),
     (''PT_OADDR_MAX'', 18446744073709551615), (''PT_OADDR_MAX_LG2'', 64)]"

definition enumdecl_line_7879 :: cenum_decl where
  "enumdecl_line_7879 = EnumDecl False [
     (''REQ_F_FIXED_FILE'', 1), (''REQ_F_IO_DRAIN'', 2), (''REQ_F_LINK'', 4),
     (''REQ_F_HARDLINK'', 8), (''REQ_F_FORCE_ASYNC'', 16), (''REQ_F_BUFFER_SELECT'', 32),
     (''REQ_F_CQE_SKIP'', 64), (''REQ_F_FAIL'', 256), (''REQ_F_INFLIGHT'', 512),
     (''REQ_F_CUR_POS'', 1024), (''REQ_F_NOWAIT'', 2048), (''REQ_F_LINK_TIMEOUT'', 4096),
     (''REQ_F_NEED_CLEANUP'', 8192), (''REQ_F_POLLED'', 16384), (''REQ_F_IOPOLL_STATE'', 32768),
     (''REQ_F_BUFFER_SELECTED'', 65536), (''REQ_F_BUFFER_RING'', 131072),
     (''REQ_F_REISSUE'', 262144), (''REQ_F_SUPPORT_NOWAIT'', 536870912),
     (''REQ_F_ISREG'', 1073741824), (''REQ_F_CREDS'', 524288), (''REQ_F_REFCOUNT'', 1048576),
     (''REQ_F_ARM_LTIMEOUT'', 2097152), (''REQ_F_ASYNC_DATA'', 4194304),
     (''REQ_F_SKIP_LINK_CQES'', 8388608), (''REQ_F_SINGLE_POLL'', 16777216),
     (''REQ_F_DOUBLE_POLL'', 33554432), (''REQ_F_MULTISHOT'', 67108864),
     (''REQ_F_APOLL_MULTISHOT'', 134217728), (''REQ_F_CLEAR_POLLIN'', 268435456),
     (''REQ_F_POLL_NO_LAZY'', 2147483648), (''REQ_F_CAN_POLL'', 4294967296),
     (''REQ_F_BL_EMPTY'', 8589934592), (''REQ_F_BL_NO_RECYCLE'', 17179869184),
     (''REQ_F_BUFFERS_COMMIT'', 34359738368), (''REQ_F_BUF_NODE'', 68719476736),
     (''REQ_F_BUF_MORE'', 137438953472), (''REQ_F_HAS_METADATA'', 274877906944),
     (''REQ_F_IMPORT_BUFFER'', 549755813888), (''REQ_F_SQE_COPIED'', 1099511627776)]"

definition enumdecl_line_9732 :: cenum_decl where
  "enumdecl_line_9732 = EnumDecl False [
     (''VTDSS_FMT_R'', 1), (''VTDSS_FMT_W'', 2), (''VTDSS_FMT_A'', 256), (''VTDSS_FMT_D'', 512),
     (''VTDSS_FMT_SNP'', 2048), (''VTDSS_FMT_OA'', 4503599627366400)]"

definition enumdecl_line_9741 :: cenum_decl where
  "enumdecl_line_9741 = EnumDecl False [
     (''VTIME_PER_SEC_SHIFT'', 37), (''VTIME_PER_SEC'', 137438953472),
     (''VTIME_PER_USEC'', 137438), (''VTIME_PER_NSEC'', 137), (''VRATE_MIN_PPM'', 10000),
     (''VRATE_MAX_PPM'', 100000000), (''VRATE_MIN'', 1374), (''VRATE_CLAMP_ADJ_PCT'', 4),
     (''AUTOP_CYCLE_NSEC'', 10000000000)]"

definition enumdecl_line_9780 :: cenum_decl where
  "enumdecl_line_9780 = EnumDecl False [
     (''X86_64_FMT_P'', 1), (''X86_64_FMT_RW'', 2), (''X86_64_FMT_U'', 4),
     (''X86_64_FMT_A'', 32), (''X86_64_FMT_D'', 64), (''X86_64_FMT_OA'', 4503599627366400),
     (''X86_64_FMT_XD'', 9223372036854775808)]"

definition enumdecl__cache_table_type :: cenum_decl where
  "enumdecl__cache_table_type = EnumDecl True [
     (''CACHE_L1_INST'', 1), (''CACHE_L1_DATA'', 2), (''CACHE_L2'', 3), (''CACHE_L3'', 4)]"

definition enumdecl__tlb_table_type :: cenum_decl where
  "enumdecl__tlb_table_type = EnumDecl True [
     (''TLB_INST_4K'', 5), (''TLB_INST_4M'', 6), (''TLB_INST_2M_4M'', 7), (''TLB_INST_ALL'', 8),
     (''TLB_DATA_4K'', 9), (''TLB_DATA_4M'', 10), (''TLB_DATA_2M_4M'', 11),
     (''TLB_DATA_4K_4M'', 12), (''TLB_DATA_1G'', 13), (''TLB_DATA_1G_2M_4M'', 14),
     (''TLB_DATA0_4K'', 15), (''TLB_DATA0_4M'', 16), (''TLB_DATA0_2M_4M'', 17),
     (''STLB_4K'', 18), (''STLB_4K_2M'', 19)]"

definition enumdecl_blk_integrity_checksum :: cenum_decl where
  "enumdecl_blk_integrity_checksum = EnumDecl True [
     (''BLK_INTEGRITY_CSUM_NONE'', 0), (''BLK_INTEGRITY_CSUM_IP'', 1),
     (''BLK_INTEGRITY_CSUM_CRC'', 2), (''BLK_INTEGRITY_CSUM_CRC64'', 3)]"

definition enumdecl_hmm_pfn_flags :: cenum_decl where
  "enumdecl_hmm_pfn_flags = EnumDecl False [
     (''HMM_PFN_VALID'', 9223372036854775808), (''HMM_PFN_WRITE'', 4611686018427387904),
     (''HMM_PFN_ERROR'', 2305843009213693952), (''HMM_PFN_DMA_MAPPED'', 1152921504606846976),
     (''HMM_PFN_P2PDMA'', 576460752303423488), (''HMM_PFN_P2PDMA_BUS'', 288230376151711744),
     (''HMM_PFN_ORDER_SHIFT'', 53), (''HMM_PFN_REQ_FAULT'', 9223372036854775808),
     (''HMM_PFN_REQ_WRITE'', 4611686018427387904), (''HMM_PFN_FLAGS'', 18437736874454810624)]"

definition enumdecl_hub_led_mode :: cenum_decl where
  "enumdecl_hub_led_mode = EnumDecl True [
     (''INDICATOR_AUTO'', 0), (''INDICATOR_CYCLE'', 1), (''INDICATOR_GREEN_BLINK'', 2),
     (''INDICATOR_GREEN_BLINK_OFF'', 3), (''INDICATOR_AMBER_BLINK'', 4),
     (''INDICATOR_AMBER_BLINK_OFF'', 5), (''INDICATOR_ALT_BLINK'', 6),
     (''INDICATOR_ALT_BLINK_OFF'', 7)]"

definition enumdecl_ib_uverbs_device_cap_flags :: cenum_decl where
  "enumdecl_ib_uverbs_device_cap_flags = EnumDecl False [
     (''IB_UVERBS_DEVICE_RESIZE_MAX_WR'', 1), (''IB_UVERBS_DEVICE_BAD_PKEY_CNTR'', 2),
     (''IB_UVERBS_DEVICE_BAD_QKEY_CNTR'', 4), (''IB_UVERBS_DEVICE_RAW_MULTI'', 8),
     (''IB_UVERBS_DEVICE_AUTO_PATH_MIG'', 16), (''IB_UVERBS_DEVICE_CHANGE_PHY_PORT'', 32),
     (''IB_UVERBS_DEVICE_UD_AV_PORT_ENFORCE'', 64),
     (''IB_UVERBS_DEVICE_CURR_QP_STATE_MOD'', 128), (''IB_UVERBS_DEVICE_SHUTDOWN_PORT'', 256),
     (''IB_UVERBS_DEVICE_PORT_ACTIVE_EVENT'', 1024), (''IB_UVERBS_DEVICE_SYS_IMAGE_GUID'', 2048),
     (''IB_UVERBS_DEVICE_RC_RNR_NAK_GEN'', 4096), (''IB_UVERBS_DEVICE_SRQ_RESIZE'', 8192),
     (''IB_UVERBS_DEVICE_N_NOTIFY_CQ'', 16384), (''IB_UVERBS_DEVICE_MEM_WINDOW'', 131072),
     (''IB_UVERBS_DEVICE_UD_IP_CSUM'', 262144), (''IB_UVERBS_DEVICE_XRC'', 1048576),
     (''IB_UVERBS_DEVICE_MEM_MGT_EXTENSIONS'', 2097152),
     (''IB_UVERBS_DEVICE_MEM_WINDOW_TYPE_2A'', 8388608),
     (''IB_UVERBS_DEVICE_MEM_WINDOW_TYPE_2B'', 16777216),
     (''IB_UVERBS_DEVICE_RC_IP_CSUM'', 33554432), (''IB_UVERBS_DEVICE_RAW_IP_CSUM'', 67108864),
     (''IB_UVERBS_DEVICE_MANAGED_FLOW_STEERING'', 536870912),
     (''IB_UVERBS_DEVICE_RAW_SCATTER_FCS'', 17179869184),
     (''IB_UVERBS_DEVICE_PCI_WRITE_END_PADDING'', 68719476736),
     (''IB_UVERBS_DEVICE_FLUSH_GLOBAL'', 274877906944),
     (''IB_UVERBS_DEVICE_FLUSH_PERSISTENT'', 549755813888),
     (''IB_UVERBS_DEVICE_ATOMIC_WRITE'', 1099511627776)]"

definition enumdecl_perf_callchain_context :: cenum_decl where
  "enumdecl_perf_callchain_context = EnumDecl False [
     (''PERF_CONTEXT_HV'', 18446744073709551584),
     (''PERF_CONTEXT_KERNEL'', 18446744073709551488),
     (''PERF_CONTEXT_USER'', 18446744073709551104),
     (''PERF_CONTEXT_USER_DEFERRED'', 18446744073709550976),
     (''PERF_CONTEXT_GUEST'', 18446744073709549568),
     (''PERF_CONTEXT_GUEST_KERNEL'', 18446744073709549440),
     (''PERF_CONTEXT_GUEST_USER'', 18446744073709549056),
     (''PERF_CONTEXT_MAX'', 18446744073709547521)]"

definition enumdecl_rw_hint :: cenum_decl where
  "enumdecl_rw_hint = EnumDecl True [
     (''WRITE_LIFE_NOT_SET'', 0), (''WRITE_LIFE_NONE'', 1), (''WRITE_LIFE_SHORT'', 2),
     (''WRITE_LIFE_MEDIUM'', 3), (''WRITE_LIFE_LONG'', 4), (''WRITE_LIFE_EXTREME'', 5),
     (''WRITE_LIFE_HINT_NR'', 6)]"

definition enumdecl_scsi_cmnd_submitter :: cenum_decl where
  "enumdecl_scsi_cmnd_submitter = EnumDecl True [
     (''SUBMITTED_BY_BLOCK_LAYER'', 0), (''SUBMITTED_BY_SCSI_ERROR_HANDLER'', 1),
     (''SUBMITTED_BY_SCSI_RESET_IOCTL'', 2)]"

definition enumdecl_scx_deq_flags :: cenum_decl where
  "enumdecl_scx_deq_flags = EnumDecl False [
     (''SCX_DEQ_SLEEP'', 1), (''SCX_DEQ_CORE_SCHED_EXEC'', 4294967296)]"

definition enumdecl_scx_dsq_id_flags :: cenum_decl where
  "enumdecl_scx_dsq_id_flags = EnumDecl False [
     (''SCX_DSQ_FLAG_BUILTIN'', 9223372036854775808),
     (''SCX_DSQ_FLAG_LOCAL_ON'', 4611686018427387904),
     (''SCX_DSQ_INVALID'', 9223372036854775808), (''SCX_DSQ_GLOBAL'', 9223372036854775809),
     (''SCX_DSQ_LOCAL'', 9223372036854775810), (''SCX_DSQ_BYPASS'', 9223372036854775811),
     (''SCX_DSQ_LOCAL_ON'', 13835058055282163712), (''SCX_DSQ_LOCAL_CPU_MASK'', 4294967295)]"

definition enumdecl_scx_enq_flags :: cenum_decl where
  "enumdecl_scx_enq_flags = EnumDecl False [
     (''SCX_ENQ_WAKEUP'', 1), (''SCX_ENQ_HEAD'', 65536), (''SCX_ENQ_CPU_SELECTED'', 1048576),
     (''SCX_ENQ_PREEMPT'', 4294967296), (''SCX_ENQ_REENQ'', 1099511627776),
     (''SCX_ENQ_LAST'', 2199023255552), (''__SCX_ENQ_INTERNAL_MASK'', 18374686479671623680),
     (''SCX_ENQ_CLEAR_OPSS'', 72057594037927936), (''SCX_ENQ_DSQ_PRIQ'', 144115188075855872),
     (''SCX_ENQ_NESTED'', 288230376151711744)]"

definition enumdecl_scx_exit_code :: cenum_decl where
  "enumdecl_scx_exit_code = EnumDecl False [
     (''SCX_ECODE_RSN_HOTPLUG'', 4294967296), (''SCX_ECODE_ACT_RESTART'', 281474976710656)]"

definition enumdecl_scx_ops_flags :: cenum_decl where
  "enumdecl_scx_ops_flags = EnumDecl False [
     (''SCX_OPS_KEEP_BUILTIN_IDLE'', 1), (''SCX_OPS_ENQ_LAST'', 2), (''SCX_OPS_ENQ_EXITING'', 4),
     (''SCX_OPS_SWITCH_PARTIAL'', 8), (''SCX_OPS_ENQ_MIGRATION_DISABLED'', 16),
     (''SCX_OPS_ALLOW_QUEUED_WAKEUP'', 32), (''SCX_OPS_BUILTIN_IDLE_PER_NODE'', 64),
     (''SCX_OPS_HAS_CGROUP_WEIGHT'', 65536), (''SCX_OPS_ALL_FLAGS'', 65663),
     (''__SCX_OPS_INTERNAL_MASK'', 18374686479671623680),
     (''SCX_OPS_HAS_CPU_PREEMPT'', 72057594037927936)]"

definition enumdecl_scx_public_consts :: cenum_decl where
  "enumdecl_scx_public_consts = EnumDecl False [
     (''SCX_OPS_NAME_LEN'', 128), (''SCX_SLICE_DFL'', 20000000), (''SCX_SLICE_BYPASS'', 5000000),
     (''SCX_SLICE_INF'', 18446744073709551615)]"

definition wide_enums :: "cenum_decl list" where
  "wide_enums = [
     enumdecl_line_142, enumdecl_line_948, enumdecl_line_3476, enumdecl_line_7209,
     enumdecl_line_7539, enumdecl_line_7549, enumdecl_line_7559, enumdecl_line_7574,
     enumdecl_line_7879, enumdecl_line_9732, enumdecl_line_9741, enumdecl_line_9780,
     enumdecl_hmm_pfn_flags, enumdecl_ib_uverbs_device_cap_flags,
     enumdecl_perf_callchain_context, enumdecl_scx_deq_flags, enumdecl_scx_dsq_id_flags,
     enumdecl_scx_enq_flags, enumdecl_scx_exit_code, enumdecl_scx_ops_flags,
     enumdecl_scx_public_consts]"

lemma wide_enums_ok: "list_all (\<lambda>d. enum_decl_ok d \<and> enum_bytes d = 8) wide_enums"
  by code_simp

definition byte_enums :: "cenum_decl list" where
  "byte_enums = [
     enumdecl__cache_table_type, enumdecl__tlb_table_type, enumdecl_blk_integrity_checksum,
     enumdecl_hub_led_mode, enumdecl_rw_hint, enumdecl_scsi_cmnd_submitter]"

lemma byte_enums_ok: "list_all (\<lambda>d. enum_decl_ok d \<and> enum_bytes d = 1) byte_enums"
  by code_simp

end
