(* ===== verification/VmlinuxEnums.thy ===== *)
theory VmlinuxEnums
  imports
    VmlinuxEnum1 VmlinuxEnum2 VmlinuxEnum3 VmlinuxEnum4 VmlinuxEnum5 VmlinuxEnum6 VmlinuxEnum7
    VmlinuxEnum8 VmlinuxEnum9 VmlinuxEnum10 VmlinuxEnum11 VmlinuxEnum12 VmlinuxEnum13
    VmlinuxEnum14 VmlinuxEnum15 VmlinuxEnum16 VmlinuxEnum17 VmlinuxEnum18 VmlinuxEnum19
    VmlinuxEnum20
    VmlinuxEnumWide
begin

text \<open>
  All the enumerations of \<open>src/internal/ebpf/vmlinux.h\<close> together: their sizes, and that the
  size \<open>CLayout\<close> gives to a member of enumeration type is right for every enumeration that the
  modelled structures mention.
\<close>

definition enum_catalogue :: "cenum_decl list" where
  "enum_catalogue =
     enum_decls_1 @ enum_decls_2 @ enum_decls_3 @ enum_decls_4 @ enum_decls_5 @
     enum_decls_6 @ enum_decls_7 @ enum_decls_8 @ enum_decls_9 @ enum_decls_10 @
     enum_decls_11 @ enum_decls_12 @ enum_decls_13 @ enum_decls_14 @ enum_decls_15 @
     enum_decls_16 @ enum_decls_17 @ enum_decls_18 @ enum_decls_19 @ enum_decls_20 @
     wide_enums @ byte_enums"

lemmas enum_tables_4 =
  enum_decls_1_4 enum_decls_2_4 enum_decls_3_4 enum_decls_4_4 enum_decls_5_4 enum_decls_6_4
  enum_decls_7_4 enum_decls_8_4 enum_decls_9_4 enum_decls_10_4 enum_decls_11_4 enum_decls_12_4
  enum_decls_13_4 enum_decls_14_4 enum_decls_15_4 enum_decls_16_4 enum_decls_17_4
  enum_decls_18_4 enum_decls_19_4 enum_decls_20_4

lemmas enum_table_lengths =
  length_enum_decls_1 length_enum_decls_2 length_enum_decls_3 length_enum_decls_4
  length_enum_decls_5 length_enum_decls_6 length_enum_decls_7 length_enum_decls_8
  length_enum_decls_9 length_enum_decls_10 length_enum_decls_11 length_enum_decls_12
  length_enum_decls_13 length_enum_decls_14 length_enum_decls_15 length_enum_decls_16
  length_enum_decls_17 length_enum_decls_18 length_enum_decls_19 length_enum_decls_20

lemmas member_enums_listed =
  enum_dev_pm_qos_req_type_listed enum_dma_data_direction_listed enum_error_detector_listed
  enum_fuse_opcode_listed enum_hrtimer_mode_listed enum_i2c_slave_event_listed
  enum_lru_list_listed enum_migrate_mode_listed enum_numa_vmaskip_reason_listed
  enum_pm_qos_req_action_listed enum_pwm_polarity_listed enum_sk_rst_reason_listed
  enum_skb_drop_reason_listed enum_thermal_trip_type_listed enum_usb_device_speed_listed
  enum_usb_device_state_listed enum_xen_lazy_mode_listed enum_xen_mc_extend_args_listed
  enum_xen_mc_flush_reason_listed enum_zone_type_listed

lemma enum_catalogue_ok: "list_all enum_decl_ok enum_catalogue"
  using enum_tables_4 wide_enums_ok byte_enums_ok
  by (auto simp: enum_catalogue_def enum4_def list_all_iff)

lemma length_enum_catalogue: "length enum_catalogue = 2730"
  by (simp add: enum_catalogue_def enum_table_lengths wide_enums_def byte_enums_def)

lemma enum_catalogue_sizes:
  "list_all (\<lambda>d. enum_bytes d = 4 \<or> d \<in> set wide_enums \<or> d \<in> set byte_enums) enum_catalogue"
  using enum_tables_4 by (auto simp: enum_catalogue_def enum4_def list_all_iff)

lemma member_enums_in_catalogue:
  "list_all (\<lambda>(n, es). EnumDecl False es \<in> set enum_catalogue) member_enums"
  using member_enums_listed by (simp add: member_enums_def enum_catalogue_def)

lemma member_enums_4: "list_all (\<lambda>(n, es). enum_fits_32 es) member_enums"
  by code_simp

section \<open>Properties\<close>

text \<open>
  Each of the 2730 enumerations of \<open>vmlinux.h\<close> has a size that holds its enumerators: four
  bytes but for the 21 with an enumerator beyond 32 bits (eight bytes) and the six declared in
  mode \<open>byte\<close>. The enumerations that members of the modelled structures have are among them
  and have the four bytes that the layout algorithm gives them.
\<close>

lemma enumerations_sized:
  "length enum_catalogue = 2730 \<and> list_all enum_decl_ok enum_catalogue \<and>
   list_all (\<lambda>d. enum_bytes d = 4 \<or> d \<in> set wide_enums \<or> d \<in> set byte_enums) enum_catalogue \<and>
   length wide_enums = 21 \<and> list_all (\<lambda>d. enum_bytes d = 8) wide_enums \<and>
   length byte_enums = 6 \<and> list_all (\<lambda>d. enum_bytes d = 1) byte_enums \<and>
   list_all (\<lambda>(n, es). EnumDecl False es \<in> set enum_catalogue \<and>
     enum_bytes (EnumDecl False es) = size_of (CEnum n)) member_enums"
proof (intro conjI)
  show "list_all (\<lambda>d. enum_bytes d = 8) wide_enums" "list_all (\<lambda>d. enum_bytes d = 1) byte_enums"
    using wide_enums_ok byte_enums_ok by (simp_all add: list_all_iff)
  show "list_all (\<lambda>(n, es). EnumDecl False es \<in> set enum_catalogue \<and>
     enum_bytes (EnumDecl False es) = size_of (CEnum n)) member_enums"
    using member_enums_in_catalogue member_enums_4 by (auto simp: list_all_iff)
  show "length wide_enums = 21" "length byte_enums = 6"
    by (simp_all add: wide_enums_def byte_enums_def)
qed (fact length_enum_catalogue enum_catalogue_ok enum_catalogue_sizes)+

end
