(* ===== verification/CStructs.thy ===== *)
theory CStructs
  imports CLayout
begin

text \<open>
  The layout of every aggregate type of \<open>src/internal/ebpf/vmlinux.h\<close>: structures, unions,
  bit-fields, anonymous members and packed types, by the rules of the System V ABI that the
  target follows. Offsets are counted in bits. \<open>CLayout\<close> covers the fragment of the tracepoint
  contexts; on it both give the same sizes, alignments and offsets.
\<close>

section \<open>Types\<close>

datatype isize = I8 | I16 | I32 | I64 | I128

fun isize_bytes :: "isize \<Rightarrow> nat" where
  "isize_bytes I8 = 1"
| "isize_bytes I16 = 2"
| "isize_bytes I32 = 4"
| "isize_bytes I64 = 8"
| "isize_bytes I128 = 16"

text \<open>
  An integer has a size and a sign; a pointer carries its pointee, a function pointer its
  prototype, as the header writes them; an enumeration its tag and size. \<open>TStruct\<close> and \<open>TUnion\<close>
  have a tag (empty for an anonymous type), the attribute \<open>packed\<close> and the members in order. A
  member is plain or a bit-field of some width; an unnamed member has the empty name.
\<close>

datatype ty =
    TInt isize bool
  | TBool
  | TPtr string
  | TFun string
  | TEnum string isize
  | TArr ty nat
  | TStruct string bool "member list"
  | TUnion string bool "member list"
and member =
    Plain string ty
  | Bits string ty nat

section \<open>Alignment and size\<close>

fun ty_align :: "ty \<Rightarrow> nat" and member_align_of :: "bool \<Rightarrow> member \<Rightarrow> nat"
  and members_align :: "bool \<Rightarrow> member list \<Rightarrow> nat" where
  "ty_align (TInt s sg) = isize_bytes s"
| "ty_align TBool = 1"
| "ty_align (TPtr t) = 8"
| "ty_align (TFun t) = 8"
| "ty_align (TEnum t s) = isize_bytes s"
| "ty_align (TArr t n) = ty_align t"
| "ty_align (TStruct tag p ms) = members_align p ms"
| "ty_align (TUnion tag p ms) = members_align p ms"
| "member_align_of p (Plain f t) = (if p then 1 else ty_align t)"
| "member_align_of p (Bits f t w) = (if p \<or> f = [] then 1 else ty_align t)"
| "members_align p [] = 1"
| "members_align p (m # ms) = max (member_align_of p m) (members_align p ms)"

text \<open>The storage unit of a bit-field of type \<open>t\<close>, in bytes.\<close>

fun bit_unit :: "ty \<Rightarrow> nat" where
  "bit_unit (TInt s sg) = isize_bytes s"
| "bit_unit (TEnum t s) = isize_bytes s"
| "bit_unit _ = 1"

text \<open>
  \<open>place_bits p w s n\<close>: where a bit-field of \<open>w\<close> bits with a storage unit of \<open>s\<close> bytes goes when \<open>n\<close> bits are
  taken: next, unless it would straddle two storage units; a width of 0 closes the unit. In a
  packed structure it always goes next.
\<close>

definition place_bits :: "bool \<Rightarrow> nat \<Rightarrow> nat \<Rightarrow> nat \<Rightarrow> nat" where
  "place_bits p w s n =
     (if w = 0 then align_up n (8 * s)
      else if p \<or> n mod (8 * s) + w \<le> 8 * s then n
      else align_up n (8 * s))"

fun ty_size :: "ty \<Rightarrow> nat" and member_bits :: "member \<Rightarrow> nat"
  and member_at :: "bool \<Rightarrow> nat \<Rightarrow> member \<Rightarrow> nat"
  and struct_end :: "bool \<Rightarrow> nat \<Rightarrow> member list \<Rightarrow> nat"
  and union_end :: "member list \<Rightarrow> nat" where
  "ty_size (TInt s sg) = isize_bytes s"
| "ty_size TBool = 1"
| "ty_size (TPtr t) = 8"
| "ty_size (TFun t) = 8"
| "ty_size (TEnum t s) = isize_bytes s"
| "ty_size (TArr t n) = n * ty_size t"
| "ty_size (TStruct tag p ms) = align_up ((struct_end p 0 ms + 7) div 8) (members_align p ms)"
| "ty_size (TUnion tag p ms) = align_up ((union_end ms + 7) div 8) (members_align p ms)"
| "member_bits (Plain f t) = 8 * ty_size t"
| "member_bits (Bits f t w) = w"
| "member_at p n (Plain f t) = align_up n (8 * (if p then 1 else ty_align t))"
| "member_at p n (Bits f t w) = place_bits p w (bit_unit t) n"
| "struct_end p n [] = n"
| "struct_end p n (m # ms) = struct_end p (member_at p n m + member_bits m) ms"
| "union_end [] = 0"
| "union_end (m # ms) = max (member_bits m) (union_end ms)"

text \<open>The members with their bit offsets.\<close>

fun place_members :: "bool \<Rightarrow> nat \<Rightarrow> member list \<Rightarrow> (member \<times> nat) list" where
  "place_members p n [] = []"
| "place_members p n (m # ms) =
     (m, member_at p n m) # place_members p (member_at p n m + member_bits m) ms"

fun bit_offsets :: "ty \<Rightarrow> (member \<times> nat) list" where
  "bit_offsets (TStruct tag p ms) = place_members p 0 ms"
| "bit_offsets (TUnion tag p ms) = map (\<lambda>m. (m, 0)) ms"
| "bit_offsets _ = []"

fun member_name :: "member \<Rightarrow> string" where
  "member_name (Plain f t) = f"
| "member_name (Bits f t w) = f"

fun member_type :: "member \<Rightarrow> ty" where
  "member_type (Plain f t) = t"
| "member_type (Bits f t w) = t"

fun ty_packed :: "ty \<Rightarrow> bool" where
  "ty_packed (TStruct tag p ms) = p"
| "ty_packed (TUnion tag p ms) = p"
| "ty_packed _ = False"

fun is_struct :: "ty \<Rightarrow> bool" where
  "is_struct (TStruct tag p ms) = True"
| "is_struct _ = False"

section \<open>Soundness of the layout\<close>

lemma isize_pow2: "pow2 (isize_bytes s)"
proof (cases s)
  case I128
  have "pow2 16" unfolding pow2_def by (rule exI [of _ 4]) simp
  then show ?thesis using I128 by simp
qed simp_all

lemma align_pow2_ty:
  "pow2 (ty_align t)" "pow2 (member_align_of p m)" "pow2 (members_align p ms)"
  by (induction t and p m and p ms rule: ty_align_member_align_of_members_align.induct)
    (auto intro: pow2_max isize_pow2)

lemma align_pos_ty: "0 < ty_align t" "0 < member_align_of p m" "0 < members_align p ms"
  by (simp_all add: align_pow2_ty pow2_pos)

lemma bit_unit_pos: "0 < bit_unit t"
  by (cases t) (simp_all add: isize_pow2 pow2_pos)

lemma members_align_ge: "m \<in> set ms \<Longrightarrow> member_align_of p m \<le> members_align p ms"
  by (induction ms) auto

text \<open>An array keeps its elements aligned: a size is a multiple of the alignment.\<close>

lemma align_dvd_size: "ty_align t dvd ty_size t"
  by (induction t) (simp_all add: align_up_dvd)

text \<open>
  A member is placed soundly when a plain member starts at a byte, is aligned for its type
  unless the type is packed, and a bit-field lies within one storage unit of its type unless
  it is wider or the type is packed.
\<close>

fun member_sound :: "bool \<Rightarrow> member \<times> nat \<Rightarrow> bool" where
  "member_sound p (Plain f t, off) \<longleftrightarrow> 8 dvd off \<and> (p \<or> 8 * ty_align t dvd off)"
| "member_sound p (Bits f t w, off) \<longleftrightarrow>
     p \<or> w > 8 * bit_unit t \<or> off mod (8 * bit_unit t) + w \<le> 8 * bit_unit t"

definition layout_sound :: "ty \<Rightarrow> bool" where
  "layout_sound T \<longleftrightarrow>
     (is_struct T \<longrightarrow>
        sorted_wrt (\<lambda>(m1, o1) (m2, o2). o1 + member_bits m1 \<le> o2) (bit_offsets T)) \<and>
     list_all (member_sound (ty_packed T)) (bit_offsets T) \<and>
     list_all (\<lambda>(m, off). off + member_bits m \<le> 8 * ty_size T) (bit_offsets T) \<and>
     ty_align T dvd ty_size T \<and> pow2 (ty_align T)"

lemma place_bits_ge: "0 < s \<Longrightarrow> n \<le> place_bits p w s n"
  by (simp add: place_bits_def align_up_ge)

lemma member_at_ge: "n \<le> member_at p n m"
  by (cases m) (simp_all add: align_up_ge align_pos_ty bit_unit_pos place_bits_ge)

lemma member_at_sound: "member_sound p (m, member_at p n m)"
proof (cases m)
  case (Plain f t)
  have "8 * ty_align t dvd align_up n (8 * ty_align t)" "8 dvd align_up n 8"
    by (rule align_up_dvd)+
  then show ?thesis using Plain by (auto intro: dvd_trans [OF dvd_triv_left])
next
  case (Bits f t w)
  have "align_up n (8 * bit_unit t) mod (8 * bit_unit t) = 0"
    using align_up_dvd by (rule dvd_imp_mod_0)
  then show ?thesis using Bits by (auto simp: place_bits_def)
qed

lemma place_members_ge: "(m, off) \<in> set (place_members p n ms) \<Longrightarrow> n \<le> off"
proof (induction p n ms rule: place_members.induct)
  case (2 p n m' ms)
  then show ?case using member_at_ge [of n p m'] by fastforce
qed simp

lemma place_members_sorted:
  "sorted_wrt (\<lambda>(m1, o1) (m2, o2). o1 + member_bits m1 \<le> o2) (place_members p n ms)"
  by (induction p n ms rule: place_members.induct) (auto dest: place_members_ge)

lemma struct_end_ge: "n \<le> struct_end p n ms"
proof (induction ms arbitrary: n)
  case (Cons m ms)
  have "n \<le> member_at p n m + member_bits m" using member_at_ge [of n p m] by linarith
  also have "\<dots> \<le> struct_end p (member_at p n m + member_bits m) ms" by (rule Cons)
  finally show ?case by simp
qed simp

lemma place_members_end:
  "(m, off) \<in> set (place_members p n ms) \<Longrightarrow> off + member_bits m \<le> struct_end p n ms"
  by (induction p n ms rule: place_members.induct) (auto simp: struct_end_ge)

lemma place_members_sound: "list_all (member_sound p) (place_members p n ms)"
  by (induction p n ms rule: place_members.induct) (simp_all add: member_at_sound)

lemma union_end_ge: "m \<in> set ms \<Longrightarrow> member_bits m \<le> union_end ms"
  by (induction ms) auto

lemma bits_fit_bytes: "n \<le> 8 * align_up ((n + 7) div 8) a" if "0 < a"
  using align_up_ge [OF that, of "(n + 7) div 8"] by linarith

text \<open>The layout of every type is sound.\<close>

lemma layout_always_sound: "layout_sound T"
proof -
  have u: "member_sound p (m, 0)" for p m by (cases m) (auto simp: Suc_leI)
  show ?thesis
  proof (cases T)
    case (TStruct tag p ms)
    have "off + member_bits m \<le> 8 * ty_size T" if "(m, off) \<in> set (bit_offsets T)" for m off
      using that place_members_end [of m off p 0 ms] bits_fit_bytes [OF align_pos_ty(3)]
      by (auto simp: TStruct intro: order_trans)
    then show ?thesis
      using align_dvd_size [of T] align_pow2_ty(1) [of T] place_members_sound [of p 0 ms]
      by (auto simp: layout_sound_def TStruct place_members_sorted list_all_iff)
  next
    case (TUnion tag p ms)
    have "member_bits m \<le> 8 * ty_size T" if "m \<in> set ms" for m
      using union_end_ge [OF that] bits_fit_bytes [OF align_pos_ty(3), of "union_end ms" p ms]
      by (simp add: TUnion)
    then show ?thesis
      using align_dvd_size [of T] align_pow2_ty(1) [of T] u
      by (auto simp: layout_sound_def TUnion list_all_iff)
  qed (simp_all add: layout_sound_def align_dvd_size align_pow2_ty isize_pow2)
qed

section \<open>Agreement with CLayout\<close>

text \<open>The types of \<open>CLayout\<close> among these.\<close>

definition isize_of :: "nat \<Rightarrow> isize" where
  "isize_of n = (if n = 1 then I8 else if n = 2 then I16 else if n = 4 then I32 else I64)"

fun ty_of :: "ctype \<Rightarrow> ty" and members_of :: "cfields \<Rightarrow> member list" where
  "ty_of (CInt n s) = TInt (isize_of n) s"
| "ty_of CBool = TBool"
| "ty_of (CPtr t) = TPtr t"
| "ty_of (CEnum t) = TEnum t I32"
| "ty_of (CArray t n) = TArr (ty_of t) n"
| "ty_of (CStruct nm p fs) = TStruct nm p (members_of fs)"
| "members_of [] = []"
| "members_of ((f, t) # fs) = Plain f (ty_of t) # members_of fs"

lemma packed_align: "members_align True ms = 1"
proof (induction ms)
  case (Cons m ms)
  then show ?case by (cases m) simp_all
qed simp

lemma ty_of_align:
  "wf_ctype t \<Longrightarrow> ty_align (ty_of t) = align_of t"
  "wf_fields fs \<Longrightarrow> members_align False (members_of fs) = fields_align fs"
proof (induction t and fs rule: ty_of_members_of.induct)
  case (6 nm p fs)
  then show ?case by (cases p) (simp_all add: packed_align)
qed (auto simp: isize_of_def)

lemma align_up_8: "0 < a \<Longrightarrow> align_up (8 * n) (8 * a) = 8 * align_up n a"
proof -
  assume a: "0 < a"
  have "(8 * n + 8 * a - 1) div (8 * a) = (8 * (n + a - 1) + 7) div 8 div a"
    using a by (simp add: div_mult2_eq diff_mult_distrib2 add_mult_distrib2)
  also have "(8 * (n + a - 1) + 7) div 8 = n + a - 1" by simp
  finally show ?thesis by (simp add: align_up_def)
qed

lemma member_at_plain:
  "wf_ctype t \<Longrightarrow> member_at p (8 * n) (Plain f (ty_of t)) = 8 * align_up n (member_align p t)"
  using align_up_8 [of 1 n] align_up_8 [of "align_of t" n]
  by (simp add: ty_of_align member_align_def align_pos)

lemma ty_of_size:
  "wf_ctype t \<Longrightarrow> ty_size (ty_of t) = size_of t"
  "wf_fields fs \<Longrightarrow> struct_end p (8 * n) (members_of fs) = 8 * fields_end p n fs"
proof (induction t and fs arbitrary: and p n rule: ty_of_members_of.induct)
  case (1 n s)
  then show ?case by (auto simp: isize_of_def)
next
  case (6 nm p fs)
  then have "struct_end p 0 (members_of fs) = 8 * fields_end p 0 fs"
    using 6(1) [where p = p and n = 0] by simp
  moreover have "members_align p (members_of fs) = align_of (CStruct nm p fs)"
    using ty_of_align(1) [OF 6(2)] by simp
  ultimately show ?case by simp
next
  case (8 f t fs)
  have "struct_end p (8 * (align_up n (member_align p t) + size_of t)) (members_of fs) =
      8 * fields_end p (align_up n (member_align p t) + size_of t) fs"
    using 8(2) [of p "align_up n (member_align p t) + size_of t"] 8(3) by simp
  then show ?case using 8 member_at_plain [of t p n f] by (simp del: member_at.simps)
qed simp_all

lemma ty_of_offsets:
  "wf_fields fs \<Longrightarrow>
     map (\<lambda>(m, off). (member_name m, off)) (place_members p (8 * n) (members_of fs)) =
     map (\<lambda>(f, off, t). (f, 8 * off)) (place p n fs)"
proof (induction p n fs rule: place.induct)
  case (2 p n f t fs)
  have "place_members p (8 * n) (members_of ((f, t) # fs)) =
      (Plain f (ty_of t), 8 * align_up n (member_align p t)) #
      place_members p (8 * (align_up n (member_align p t) + size_of t)) (members_of fs)"
    using 2(2) by (simp add: member_at_plain ty_of_size del: member_at.simps)
  then show ?case using 2 by (simp add: Let_def ty_of_size)
qed simp

definition same_layout :: "ctype \<Rightarrow> bool" where
  "same_layout T \<longleftrightarrow>
     ty_size (ty_of T) = size_of T \<and> ty_align (ty_of T) = align_of T \<and>
     map (\<lambda>(m, off). (member_name m, off)) (bit_offsets (ty_of T)) =
       map (\<lambda>(f, off, t). (f, 8 * off)) (offsets T)"

lemma layouts_agree:
  assumes "wf_ctype T"
  shows "same_layout T"
proof (cases T)
  case (CStruct nm p fs)
  then show ?thesis
    using assms ty_of_size(1) [OF assms] ty_of_align(1) [OF assms] ty_of_offsets [of fs p 0]
    by (simp add: same_layout_def)
qed (use assms ty_of_size(1) [OF assms] ty_of_align(1) [OF assms] in \<open>simp_all add: same_layout_def\<close>)

end
