(* ===== verification/VmlinuxTypedefs.thy ===== *)
theory VmlinuxTypedefs
  imports CStructs
begin

text \<open>
  The type names of \<open>src/internal/ebpf/vmlinux.h\<close> that the members of the modelled structures
  have, one definition \<open>td_<name>\<close> per \<open>typedef\<close>.
\<close>

definition td_inflate_mode :: ty where
  "td_inflate_mode = TEnum '''' I32"

definition td_phy_interface_t :: ty where
  "td_phy_interface_t = TEnum '''' I32"

definition td_bool :: ty where
  "td_bool = TBool"

definition td___u128 :: ty where
  "td___u128 = TInt I128 False"

definition td_u128 :: ty where
  "td_u128 = td___u128"

definition td_freelist_full_t :: ty where
  "td_freelist_full_t = td_u128"

definition td___kernel_clockid_t :: ty where
  "td___kernel_clockid_t = TInt I32 True"

definition td___kernel_ipc_pid_t :: ty where
  "td___kernel_ipc_pid_t = TInt I32 True"

definition td___kernel_key_t :: ty where
  "td___kernel_key_t = TInt I32 True"

definition td___kernel_mqd_t :: ty where
  "td___kernel_mqd_t = TInt I32 True"

definition td___kernel_pid_t :: ty where
  "td___kernel_pid_t = TInt I32 True"

definition td___kernel_rwf_t :: ty where
  "td___kernel_rwf_t = TInt I32 True"

definition td___kernel_timer_t :: ty where
  "td___kernel_timer_t = TInt I32 True"

definition td___s32 :: ty where
  "td___s32 = TInt I32 True"

definition td_clockid_t :: ty where
  "td_clockid_t = td___kernel_clockid_t"

definition td_s32 :: ty where
  "td_s32 = td___s32"

definition td_compat_clock_t :: ty where
  "td_compat_clock_t = td_s32"

definition td_compat_int_t :: ty where
  "td_compat_int_t = td_s32"

definition td_compat_key_t :: ty where
  "td_compat_key_t = td_s32"

definition td_compat_long_t :: ty where
  "td_compat_long_t = td_s32"

definition td_compat_pid_t :: ty where
  "td_compat_pid_t = td_s32"

definition td_compat_timer_t :: ty where
  "td_compat_timer_t = td_s32"

definition td_dma_cookie_t :: ty where
  "td_dma_cookie_t = td_s32"

definition td_ext4_grpblk_t :: ty where
  "td_ext4_grpblk_t = TInt I32 True"

definition td_insn_value_t :: ty where
  "td_insn_value_t = TInt I32 True"

definition td_int32_t :: ty where
  "td_int32_t = td_s32"

definition td_key_serial_t :: ty where
  "td_key_serial_t = td_int32_t"

definition td_key_t :: ty where
  "td_key_t = td___kernel_key_t"

definition td_mm_id_mapcount_t :: ty where
  "td_mm_id_mapcount_t = TInt I32 True"

definition td_mqd_t :: ty where
  "td_mqd_t = td___kernel_mqd_t"

definition td_old_time32_t :: ty where
  "td_old_time32_t = td_s32"

definition td_pci_power_t :: ty where
  "td_pci_power_t = TInt I32 True"

definition td_pid_t :: ty where
  "td_pid_t = td___kernel_pid_t"

definition td_sctp_assoc_t :: ty where
  "td_sctp_assoc_t = td___s32"

definition td_suspend_state_t :: ty where
  "td_suspend_state_t = TInt I32 True"

definition td_timer_t :: ty where
  "td_timer_t = td___kernel_timer_t"

definition td___kernel_long_t :: ty where
  "td___kernel_long_t = TInt I64 True"

definition td___kernel_clock_t :: ty where
  "td___kernel_clock_t = td___kernel_long_t"

definition td___kernel_off_t :: ty where
  "td___kernel_off_t = td___kernel_long_t"

definition td___kernel_old_time_t :: ty where
  "td___kernel_old_time_t = td___kernel_long_t"

definition td___kernel_ssize_t :: ty where
  "td___kernel_ssize_t = td___kernel_long_t"

definition td_clock_t :: ty where
  "td_clock_t = td___kernel_clock_t"

definition td_off_t :: ty where
  "td_off_t = td___kernel_off_t"

definition td_ssize_t :: ty where
  "td_ssize_t = td___kernel_ssize_t"

definition td___s64 :: ty where
  "td___s64 = TInt I64 True"

definition td_s64 :: ty where
  "td_s64 = td___s64"

definition td_int64_t :: ty where
  "td_int64_t = td_s64"

definition td___kernel_loff_t :: ty where
  "td___kernel_loff_t = TInt I64 True"

definition td___kernel_time64_t :: ty where
  "td___kernel_time64_t = TInt I64 True"

definition td_ktime_t :: ty where
  "td_ktime_t = td_s64"

definition td_loff_t :: ty where
  "td_loff_t = td___kernel_loff_t"

definition td_qsize_t :: ty where
  "td_qsize_t = TInt I64 True"

definition td_time64_t :: ty where
  "td_time64_t = td___s64"

definition td___u64 :: ty where
  "td___u64 = TInt I64 False"

definition td_Elf64_Addr :: ty where
  "td_Elf64_Addr = td___u64"

definition td_Elf64_Off :: ty where
  "td_Elf64_Off = td___u64"

definition td_u64 :: ty where
  "td_u64 = td___u64"

definition td_uint64_t :: ty where
  "td_uint64_t = td_u64"

definition td___addrpair :: ty where
  "td___addrpair = td___u64"

definition td___be64 :: ty where
  "td___be64 = td___u64"

definition td___le64 :: ty where
  "td___le64 = td___u64"

definition td___virtio64 :: ty where
  "td___virtio64 = td___u64"

definition td_acpi_io_address :: ty where
  "td_acpi_io_address = td_u64"

definition td_acpi_physical_address :: ty where
  "td_acpi_physical_address = td_u64"

definition td_async_cookie_t :: ty where
  "td_async_cookie_t = td_u64"

definition td_blist_flags_t :: ty where
  "td_blist_flags_t = td___u64"

definition td_blkcnt_t :: ty where
  "td_blkcnt_t = td_u64"

definition td_compat_u64 :: ty where
  "td_compat_u64 = td_u64"

definition td_dma_addr_t :: ty where
  "td_dma_addr_t = td_u64"

definition td_ext4_fsblk_t :: ty where
  "td_ext4_fsblk_t = TInt I64 False"

definition td_gfn_t :: ty where
  "td_gfn_t = td_u64"

definition td_gpa_t :: ty where
  "td_gpa_t = td_u64"

definition td_hfn_t :: ty where
  "td_hfn_t = td_u64"

definition td_io_req_flags_t :: ty where
  "td_io_req_flags_t = td_u64"

definition td_kvm_pfn_t :: ty where
  "td_kvm_pfn_t = td_hfn_t"

definition td_netdev_features_t :: ty where
  "td_netdev_features_t = td_u64"

definition td_phys_addr_t :: ty where
  "td_phys_addr_t = td_u64"

definition td_resource_size_t :: ty where
  "td_resource_size_t = td_phys_addr_t"

definition td_sector_t :: ty where
  "td_sector_t = td_u64"

definition td_timeu64_t :: ty where
  "td_timeu64_t = td___u64"

definition td_vli_type :: ty where
  "td_vli_type = td_uint64_t"

definition td___kernel_ulong_t :: ty where
  "td___kernel_ulong_t = TInt I64 False"

definition td___kernel_size_t :: ty where
  "td___kernel_size_t = td___kernel_ulong_t"

definition td_size_t :: ty where
  "td_size_t = td___kernel_size_t"

definition td_xen_pfn_t :: ty where
  "td_xen_pfn_t = TInt I64 False"

definition td_xen_ulong_t :: ty where
  "td_xen_ulong_t = TInt I64 False"

definition td___kernel_old_dev_t :: ty where
  "td___kernel_old_dev_t = TInt I64 False"

definition td_ino_t :: ty where
  "td_ino_t = td___kernel_ulong_t"

definition td_irq_hw_number_t :: ty where
  "td_irq_hw_number_t = TInt I64 False"

definition td_kernel_ulong_t :: ty where
  "td_kernel_ulong_t = TInt I64 False"

definition td_kimage_entry_t :: ty where
  "td_kimage_entry_t = TInt I64 False"

definition td_netmem_ref :: ty where
  "td_netmem_ref = TInt I64 False"

definition td_pgprotval_t :: ty where
  "td_pgprotval_t = TInt I64 False"

definition td_pmdval_t :: ty where
  "td_pmdval_t = TInt I64 False"

definition td_pteval_t :: ty where
  "td_pteval_t = TInt I64 False"

definition td_pudval_t :: ty where
  "td_pudval_t = TInt I64 False"

definition td_uLong :: ty where
  "td_uLong = TInt I64 False"

definition td_ulg :: ty where
  "td_ulg = TInt I64 False"

definition td_ulong :: ty where
  "td_ulong = TInt I64 False"

definition td_vm_flags_t :: ty where
  "td_vm_flags_t = TInt I64 False"

definition td___s16 :: ty where
  "td___s16 = TInt I16 True"

definition td_s16 :: ty where
  "td_s16 = td___s16"

definition td_int16_t :: ty where
  "td_int16_t = td_s16"

definition td___u16 :: ty where
  "td___u16 = TInt I16 False"

definition td_Elf32_Half :: ty where
  "td_Elf32_Half = td___u16"

definition td_Elf64_Half :: ty where
  "td_Elf64_Half = td___u16"

definition td_ush :: ty where
  "td_ush = TInt I16 False"

definition td_u16 :: ty where
  "td_u16 = td___u16"

definition td_uint16_t :: ty where
  "td_uint16_t = td_u16"

definition td___be16 :: ty where
  "td___be16 = td___u16"

definition td___compat_gid_t :: ty where
  "td___compat_gid_t = td_u16"

definition td___compat_uid_t :: ty where
  "td___compat_uid_t = td_u16"

definition td___hc16 :: ty where
  "td___hc16 = td___u16"

definition td___kernel_sa_family_t :: ty where
  "td___kernel_sa_family_t = TInt I16 False"

definition td___le16 :: ty where
  "td___le16 = td___u16"

definition td___sum16 :: ty where
  "td___sum16 = td___u16"

definition td___virtio16 :: ty where
  "td___virtio16 = td___u16"

definition td_access_mask_t :: ty where
  "td_access_mask_t = td_u16"

definition td_acpi_owner_id :: ty where
  "td_acpi_owner_id = td_u16"

definition td_blkif_vdev_t :: ty where
  "td_blkif_vdev_t = td_uint16_t"

definition td_comp_t :: ty where
  "td_comp_t = td___u16"

definition td_compat_dev_t :: ty where
  "td_compat_dev_t = td_u16"

definition td_compat_ipc_pid_t :: ty where
  "td_compat_ipc_pid_t = td_u16"

definition td_compat_mode_t :: ty where
  "td_compat_mode_t = td_u16"

definition td_compat_nlink_t :: ty where
  "td_compat_nlink_t = td_u16"

definition td_compat_ushort_t :: ty where
  "td_compat_ushort_t = td_u16"

definition td_domid_t :: ty where
  "td_domid_t = td_uint16_t"

definition td_hv_pci_rid :: ty where
  "td_hv_pci_rid = td_u16"

definition td_hv_pci_segment :: ty where
  "td_hv_pci_segment = td_u16"

definition td_pci_bus_flags_t :: ty where
  "td_pci_bus_flags_t = TInt I16 False"

definition td_pci_dev_flags_t :: ty where
  "td_pci_dev_flags_t = TInt I16 False"

definition td_sa_family_t :: ty where
  "td_sa_family_t = td___kernel_sa_family_t"

definition td_u_int16_t :: ty where
  "td_u_int16_t = td_u16"

definition td_uio_meta_flags_t :: ty where
  "td_uio_meta_flags_t = td___u16"

definition td_umode_t :: ty where
  "td_umode_t = TInt I16 False"

definition td___s8 :: ty where
  "td___s8 = TInt I8 True"

definition td_s8 :: ty where
  "td_s8 = td___s8"

definition td_int8_t :: ty where
  "td_int8_t = td_s8"

definition td___u8 :: ty where
  "td___u8 = TInt I8 False"

definition td_u8 :: ty where
  "td_u8 = td___u8"

definition td_uint8_t :: ty where
  "td_uint8_t = td_u8"

definition td_Byte :: ty where
  "td_Byte = TInt I8 False"

definition td___guest_handle_uchar :: ty where
  "td___guest_handle_uchar = TPtr ''unsigned char''"

definition td_blk_status_t :: ty where
  "td_blk_status_t = td_u8"

definition td_byte_t :: ty where
  "td_byte_t = td___u8"

definition td_cc_t :: ty where
  "td_cc_t = TInt I8 False"

definition td_dscp_t :: ty where
  "td_dscp_t = td_u8"

definition td_efi_bool_t :: ty where
  "td_efi_bool_t = td_u8"

definition td_insn_byte_t :: ty where
  "td_insn_byte_t = TInt I8 False"

definition td_mctp_eid_t :: ty where
  "td_mctp_eid_t = td___u8"

definition td_rmap_age_t :: ty where
  "td_rmap_age_t = td_u8"

definition td_u_int8_t :: ty where
  "td_u_int8_t = td_u8"

definition td_uch :: ty where
  "td_uch = TInt I8 False"

definition td___u32 :: ty where
  "td___u32 = TInt I32 False"

definition td_Elf32_Addr :: ty where
  "td_Elf32_Addr = td___u32"

definition td_Elf32_Off :: ty where
  "td_Elf32_Off = td___u32"

definition td_Elf32_Word :: ty where
  "td_Elf32_Word = td___u32"

definition td_Elf64_Word :: ty where
  "td_Elf64_Word = td___u32"

definition td_u32 :: ty where
  "td_u32 = td___u32"

definition td_uint32_t :: ty where
  "td_uint32_t = td_u32"

definition td_IPos :: ty where
  "td_IPos = TInt I32 False"

definition td___be32 :: ty where
  "td___be32 = td___u32"

definition td___compat_gid32_t :: ty where
  "td___compat_gid32_t = td_u32"

definition td___compat_uid32_t :: ty where
  "td___compat_uid32_t = td_u32"

definition td_evtchn_port_t :: ty where
  "td_evtchn_port_t = td_uint32_t"

definition td___hc32 :: ty where
  "td___hc32 = td___u32"

definition td___kernel_dev_t :: ty where
  "td___kernel_dev_t = td_u32"

definition td___kernel_gid32_t :: ty where
  "td___kernel_gid32_t = TInt I32 False"

definition td___kernel_gid_t :: ty where
  "td___kernel_gid_t = TInt I32 False"

definition td___kernel_mode_t :: ty where
  "td___kernel_mode_t = TInt I32 False"

definition td___kernel_uid32_t :: ty where
  "td___kernel_uid32_t = TInt I32 False"

definition td___kernel_uid_t :: ty where
  "td___kernel_uid_t = TInt I32 False"

definition td___le32 :: ty where
  "td___le32 = td___u32"

definition td___poll_t :: ty where
  "td___poll_t = TInt I32 False"

definition td___portpair :: ty where
  "td___portpair = td___u32"

definition td___virtio32 :: ty where
  "td___virtio32 = td___u32"

definition td___wsum :: ty where
  "td___wsum = td___u32"

definition td_acpi_object_type :: ty where
  "td_acpi_object_type = td_u32"

definition td_blk_features_t :: ty where
  "td_blk_features_t = TInt I32 False"

definition td_blk_flags_t :: ty where
  "td_blk_flags_t = TInt I32 False"

definition td_blk_mode_t :: ty where
  "td_blk_mode_t = TInt I32 False"

definition td_blk_opf_t :: ty where
  "td_blk_opf_t = td___u32"

definition td_blk_qc_t :: ty where
  "td_blk_qc_t = TInt I32 False"

definition td_compat_caddr_t :: ty where
  "td_compat_caddr_t = td_u32"

definition td_compat_ino_t :: ty where
  "td_compat_ino_t = td_u32"

definition td_compat_size_t :: ty where
  "td_compat_size_t = td_u32"

definition td_compat_uint_t :: ty where
  "td_compat_uint_t = td_u32"

definition td_compat_ulong_t :: ty where
  "td_compat_ulong_t = td_u32"

definition td_compat_uptr_t :: ty where
  "td_compat_uptr_t = td_u32"

definition td_depot_stack_handle_t :: ty where
  "td_depot_stack_handle_t = td_u32"

definition td_dev_t :: ty where
  "td_dev_t = td___kernel_dev_t"

definition td_drm_magic_t :: ty where
  "td_drm_magic_t = TInt I32 False"

definition td_errseq_t :: ty where
  "td_errseq_t = td_u32"

definition td_ext4_group_t :: ty where
  "td_ext4_group_t = TInt I32 False"

definition td_ext4_lblk_t :: ty where
  "td_ext4_lblk_t = td___u32"

definition td_fmode_t :: ty where
  "td_fmode_t = TInt I32 False"

definition td_gfp_t :: ty where
  "td_gfp_t = TInt I32 False"

definition td_gid_t :: ty where
  "td_gid_t = td___kernel_gid32_t"

definition td_grant_handle_t :: ty where
  "td_grant_handle_t = td_uint32_t"

definition td_grant_ref_t :: ty where
  "td_grant_ref_t = td_uint32_t"

definition td_insn_attr_t :: ty where
  "td_insn_attr_t = TInt I32 False"

definition td_int32 :: ty where
  "td_int32 = td___u32"

definition td_key_perm_t :: ty where
  "td_key_perm_t = td_uint32_t"

definition td_mm_id_t :: ty where
  "td_mm_id_t = TInt I32 False"

definition td_mmc_pm_flag_t :: ty where
  "td_mmc_pm_flag_t = TInt I32 False"

definition td_nlink_t :: ty where
  "td_nlink_t = td_u32"

definition td_pci_channel_state_t :: ty where
  "td_pci_channel_state_t = TInt I32 False"

definition td_pipe_index_t :: ty where
  "td_pipe_index_t = TInt I32 False"

definition td_projid_t :: ty where
  "td_projid_t = td___kernel_uid32_t"

definition td_req_flags_t :: ty where
  "td_req_flags_t = td___u32"

definition td_rpc_authflavor_t :: ty where
  "td_rpc_authflavor_t = td_u32"

definition td_sk_buff_data_t :: ty where
  "td_sk_buff_data_t = TInt I32 False"

definition td_slab_flags_t :: ty where
  "td_slab_flags_t = TInt I32 False"

definition td_speed_t :: ty where
  "td_speed_t = TInt I32 False"

definition td_tcflag_t :: ty where
  "td_tcflag_t = TInt I32 False"

definition td_tid_t :: ty where
  "td_tid_t = TInt I32 False"

definition td_uInt :: ty where
  "td_uInt = TInt I32 False"

definition td_u_int32_t :: ty where
  "td_u_int32_t = td_u32"

definition td_uid_t :: ty where
  "td_uid_t = td___kernel_uid32_t"

definition td_usb_port_location_t :: ty where
  "td_usb_port_location_t = td_u32"

definition td___kernel_fsid_t :: ty where
  "td___kernel_fsid_t = TStruct '''' False [
    Plain ''val'' (TArr (TInt I32 True) 2)]"

definition td_atomic64_t :: ty where
  "td_atomic64_t = TStruct '''' False [
    Plain ''counter'' td_s64]"

definition td_atomic_long_t :: ty where
  "td_atomic_long_t = td_atomic64_t"

definition td_atomic_t :: ty where
  "td_atomic_t = TStruct '''' False [
    Plain ''counter'' (TInt I32 True)]"

definition td_sockptr_t :: ty where
  "td_sockptr_t = TStruct '''' False [
    Plain '''' (TUnion '''' False [
      Plain ''kernel'' (TPtr ''void''),
      Plain ''user'' (TPtr ''void'')]),
    Bits ''is_kernel'' td_bool 1]"

definition td_bpfptr_t :: ty where
  "td_bpfptr_t = td_sockptr_t"

definition td_code :: ty where
  "td_code = TStruct '''' False [
    Plain ''op'' (TInt I8 False),
    Plain ''bits'' (TInt I8 False),
    Plain ''val'' (TInt I16 False)]"

definition td_compat_fsid_t :: ty where
  "td_compat_fsid_t = td___kernel_fsid_t"

definition td_guid_t :: ty where
  "td_guid_t = TStruct '''' False [
    Plain ''b'' (TArr td___u8 16)]"

definition td_efi_guid_t :: ty where
  "td_efi_guid_t = td_guid_t"

definition td_file_ref_t :: ty where
  "td_file_ref_t = TStruct '''' False [
    Plain ''refcnt'' td_atomic64_t]"

definition td_freeptr_t :: ty where
  "td_freeptr_t = TStruct '''' False [
    Plain ''v'' (TInt I64 False)]"

definition td_kernel_cap_t :: ty where
  "td_kernel_cap_t = TStruct '''' False [
    Plain ''val'' td_u64]"

definition td_kgid_t :: ty where
  "td_kgid_t = TStruct '''' False [
    Plain ''val'' td_gid_t]"

definition td_kuid_t :: ty where
  "td_kuid_t = TStruct '''' False [
    Plain ''val'' td_uid_t]"

definition td_kprojid_t :: ty where
  "td_kprojid_t = TStruct '''' False [
    Plain ''val'' td_projid_t]"

definition td_local_t :: ty where
  "td_local_t = TStruct '''' False [
    Plain ''a'' td_atomic_long_t]"

definition td_local64_t :: ty where
  "td_local64_t = TStruct '''' False [
    Plain ''a'' td_local_t]"

definition td_memdesc_flags_t :: ty where
  "td_memdesc_flags_t = TStruct '''' False [
    Plain ''f'' (TInt I64 False)]"

definition td_mm_flags_t :: ty where
  "td_mm_flags_t = TStruct '''' False [
    Plain ''__mm_flags'' (TArr (TInt I64 False) 1)]"

definition td_netdevice_tracker :: ty where
  "td_netdevice_tracker = TStruct '''' False []"

definition td_netns_tracker :: ty where
  "td_netns_tracker = TStruct '''' False []"

definition td_nfs4_verifier :: ty where
  "td_nfs4_verifier = TStruct '''' False [
    Plain ''data'' (TArr (TInt I8 True) 8)]"

definition td_nodemask_t :: ty where
  "td_nodemask_t = TStruct '''' False [
    Plain ''bits'' (TArr (TInt I64 False) 16)]"

definition td_pmd_t :: ty where
  "td_pmd_t = TStruct '''' False [
    Plain ''pmd'' td_pmdval_t]"

definition td_possible_net_t :: ty where
  "td_possible_net_t = TStruct '''' False [
    Plain ''net'' (TPtr ''struct net'')]"

definition td_pte_t :: ty where
  "td_pte_t = TStruct '''' False [
    Plain ''pte'' td_pteval_t]"

definition td_pud_t :: ty where
  "td_pud_t = TStruct '''' False [
    Plain ''pud'' td_pudval_t]"

definition td_rcuref_t :: ty where
  "td_rcuref_t = TStruct '''' False [
    Plain ''refcnt'' td_atomic_t]"

definition td_sigset_t :: ty where
  "td_sigset_t = TStruct '''' False [
    Plain ''sig'' (TArr (TInt I64 False) 1)]"

definition td_swp_entry_t :: ty where
  "td_swp_entry_t = TStruct '''' False [
    Plain ''val'' (TInt I64 False)]"

definition td_u64_stats_t :: ty where
  "td_u64_stats_t = TStruct '''' False [
    Plain ''v'' td_local64_t]"

definition td_uuid_t :: ty where
  "td_uuid_t = TStruct '''' False [
    Plain ''b'' (TArr td___u8 16)]"

definition td_vfsgid_t :: ty where
  "td_vfsgid_t = TStruct '''' False [
    Plain ''val'' td_gid_t]"

definition td_vfsuid_t :: ty where
  "td_vfsuid_t = TStruct '''' False [
    Plain ''val'' td_uid_t]"

definition td_vma_flags_t :: ty where
  "td_vma_flags_t = TStruct '''' False [
    Plain ''__vma_flags'' (TArr (TInt I64 False) 1)]"

definition td_work_func_t :: ty where
  "td_work_func_t = TFun ''void (*)(struct work_struct *)''"

definition td_smp_call_func_t :: ty where
  "td_smp_call_func_t = TFun ''void (*)(void *)''"

definition td_crypto_completion_t :: ty where
  "td_crypto_completion_t = TFun ''void (*)(void *, int)''"

definition td_notifier_fn_t :: ty where
  "td_notifier_fn_t = TFun ''int (*)(struct notifier_block *, long unsigned int, void *)''"

definition td_acpi_osd_exec_callback :: ty where
  "td_acpi_osd_exec_callback = TFun ''void (*)(void *)''"

definition td_cpumask_var_t :: ty where
  "td_cpumask_var_t = TPtr ''struct cpumask''"

definition td_acpi_handle :: ty where
  "td_acpi_handle = TPtr ''void''"

definition td_acpi_internal_method :: ty where
  "td_acpi_internal_method = TFun ''acpi_status (*)(struct acpi_walk_state *)''"

definition td_dma_filter_fn :: ty where
  "td_dma_filter_fn = TFun ''bool (*)(struct dma_chan *, void *)''"

definition td_irq_handler_t :: ty where
  "td_irq_handler_t = TFun ''irqreturn_t (*)(int, void *)''"

definition td_action_fn_t :: ty where
  "td_action_fn_t = TFun ''void (*)(struct hist_trigger_data *, struct tracing_map_elt *, struct trace_buffer *, void *, struct ring_buffer_event *, void *, struct action_data *, u64 *)''"

definition td_check_track_val_fn_t :: ty where
  "td_check_track_val_fn_t = TFun ''bool (*)(u64, u64)''"

definition td_wait_queue_func_t :: ty where
  "td_wait_queue_func_t = TFun ''int (*)(struct wait_queue_entry *, unsigned int, int, void *)''"

definition td_irq_flow_handler_t :: ty where
  "td_irq_flow_handler_t = TFun ''void (*)(struct irq_desc *)''"

definition td_ata_qc_cb_t :: ty where
  "td_ata_qc_cb_t = TFun ''void (*)(struct ata_queued_cmd *)''"

definition td_ps2_pre_receive_handler_t :: ty where
  "td_ps2_pre_receive_handler_t = TFun ''enum ps2_disposition (*)(struct ps2dev *, u8, unsigned int)''"

definition td_ps2_receive_handler_t :: ty where
  "td_ps2_receive_handler_t = TFun ''void (*)(struct ps2dev *, u8)''"

definition td_cpu_stop_fn_t :: ty where
  "td_cpu_stop_fn_t = TFun ''int (*)(void *)''"

definition td_z_streamp :: ty where
  "td_z_streamp = TPtr ''z_stream''"

definition td_config_clks_t :: ty where
  "td_config_clks_t = TFun ''int (*)(struct device *, struct opp_table *, struct dev_pm_opp *, void *, bool)''"

definition td_config_regulators_t :: ty where
  "td_config_regulators_t = TFun ''int (*)(struct device *, struct dev_pm_opp *, struct dev_pm_opp *, struct regulator **, unsigned int)''"

definition td_kthread_work_func_t :: ty where
  "td_kthread_work_func_t = TFun ''void (*)(struct kthread_work *)''"

definition td_iommu_fault_handler_t :: ty where
  "td_iommu_fault_handler_t = TFun ''int (*)(struct iommu_domain *, struct device *, long unsigned int, int, void *)''"

definition td_fl_owner_t :: ty where
  "td_fl_owner_t = TPtr ''void''"

definition td_action_destr :: ty where
  "td_action_destr = TFun ''void (*)(void *)''"

definition td_hte_ts_cb_t :: ty where
  "td_hte_ts_cb_t = TFun ''enum hte_return (*)(struct hte_ts_data *, void *)''"

definition td_hte_ts_sec_cb_t :: ty where
  "td_hte_ts_sec_cb_t = TFun ''enum hte_return (*)(void *)''"

definition td_ib_comp_handler :: ty where
  "td_ib_comp_handler = TFun ''void (*)(struct ib_cq *, void *)''"

definition td_io_req_tw_func_t :: ty where
  "td_io_req_tw_func_t = TFun ''void (*)(struct io_tw_req, io_tw_token_t)''"

definition td_dm_kcopyd_notify_fn :: ty where
  "td_dm_kcopyd_notify_fn = TFun ''void (*)(int, long unsigned int, void *)''"

definition td_pgtable_t :: ty where
  "td_pgtable_t = TPtr ''struct page''"

definition td_proc_write_t :: ty where
  "td_proc_write_t = TFun ''int (*)(struct file *, char *, size_t)''"

definition td_dl_server_pick_f :: ty where
  "td_dl_server_pick_f = TFun ''struct task_struct * (*)(struct sched_dl_entity *, struct rq_flags *)''"

definition td_tracing_map_cmp_fn_t :: ty where
  "td_tracing_map_cmp_fn_t = TFun ''int (*)(void *, void *)''"

definition td_usb_complete_t :: ty where
  "td_usb_complete_t = TFun ''void (*)(struct urb *)''"

definition td___guest_handle_void :: ty where
  "td___guest_handle_void = TPtr ''void''"

end
