(* ===== verification/VmlinuxStruct1.thy ===== *)
theory VmlinuxStruct1
  imports VmlinuxTypedefs
begin

text \<open>
  Structures and unions of \<open>src/internal/ebpf/vmlinux.h\<close> (without members of modelled aggregate types), in the
  order of the header: \<open>st_<tag>\<close>, \<open>un_<tag>\<close>, and \<open>td_<name>\<close> for an aggregate with a type name.
\<close>

definition st_hlist_node :: ty where
  "st_hlist_node = TStruct ''hlist_node'' False [
    Plain ''next'' (TPtr ''struct hlist_node''),
    Plain ''pprev'' (TPtr ''struct hlist_node *'')]"

definition st_permanent_flags_t :: ty where
  "st_permanent_flags_t = TStruct ''permanent_flags_t'' False [
    Plain ''tag'' td___be16,
    Plain ''disable'' td_u8,
    Plain ''ownership'' td_u8,
    Plain ''deactivated'' td_u8,
    Plain ''readPubek'' td_u8,
    Plain ''disableOwnerClear'' td_u8,
    Plain ''allowMaintenance'' td_u8,
    Plain ''physicalPresenceLifetimeLock'' td_u8,
    Plain ''physicalPresenceHWEnable'' td_u8,
    Plain ''physicalPresenceCMDEnable'' td_u8,
    Plain ''CEKPUsed'' td_u8,
    Plain ''TPMpost'' td_u8,
    Plain ''TPMpostLock'' td_u8,
    Plain ''FIPS'' td_u8,
    Plain ''operator'' td_u8,
    Plain ''enableRevokeEK'' td_u8,
    Plain ''nvLocked'' td_u8,
    Plain ''readSRKPub'' td_u8,
    Plain ''tpmEstablished'' td_u8,
    Plain ''maintenanceDone'' td_u8,
    Plain ''disableFullDALogicInfo'' td_u8]"

definition st_dvd_layer :: ty where
  "st_dvd_layer = TStruct ''dvd_layer'' False [
    Bits ''book_version'' td___u8 4,
    Bits ''book_type'' td___u8 4,
    Bits ''min_rate'' td___u8 4,
    Bits ''disc_size'' td___u8 4,
    Bits ''layer_type'' td___u8 4,
    Bits ''track_path'' td___u8 1,
    Bits ''nlayers'' td___u8 2,
    Bits '''' (TInt I8 True) 1,
    Bits ''track_density'' td___u8 4,
    Bits ''linear_density'' td___u8 4,
    Bits ''bca'' td___u8 1,
    Plain ''start_sector'' td___u32,
    Plain ''end_sector'' td___u32,
    Plain ''end_sector_l0'' td___u32]"

definition st_optimistic_spin_queue :: ty where
  "st_optimistic_spin_queue = TStruct ''optimistic_spin_queue'' False [
    Plain ''tail'' td_atomic_t]"

definition st_qspinlock :: ty where
  "st_qspinlock = TStruct ''qspinlock'' False [
    Plain '''' (TUnion '''' False [
      Plain ''val'' td_atomic_t,
      Plain '''' (TStruct '''' False [
        Plain ''locked'' td_u8,
        Plain ''pending'' td_u8]),
      Plain '''' (TStruct '''' False [
        Plain ''locked_pending'' td_u16,
        Plain ''tail'' td_u16])])]"

definition st_list_head :: ty where
  "st_list_head = TStruct ''list_head'' False [
    Plain ''next'' (TPtr ''struct list_head''),
    Plain ''prev'' (TPtr ''struct list_head'')]"

definition st_seqcount :: ty where
  "st_seqcount = TStruct ''seqcount'' False [
    Plain ''sequence'' (TInt I32 False)]"

definition st_in6_addr :: ty where
  "st_in6_addr = TStruct ''in6_addr'' False [
    Plain ''in6_u'' (TUnion '''' False [
      Plain ''u6_addr8'' (TArr td___u8 16),
      Plain ''u6_addr16'' (TArr td___be16 8),
      Plain ''u6_addr32'' (TArr td___be32 4)])]"

definition st_IO_APIC_route_entry :: ty where
  "st_IO_APIC_route_entry = TStruct ''IO_APIC_route_entry'' False [
    Plain '''' (TUnion '''' False [
      Plain '''' (TStruct '''' False [
        Bits ''vector'' td_u64 8,
        Bits ''delivery_mode'' td_u64 3,
        Bits ''dest_mode_logical'' td_u64 1,
        Bits ''delivery_status'' td_u64 1,
        Bits ''active_low'' td_u64 1,
        Bits ''irr'' td_u64 1,
        Bits ''is_level'' td_u64 1,
        Bits ''masked'' td_u64 1,
        Bits ''reserved_0'' td_u64 15,
        Bits ''reserved_1'' td_u64 17,
        Bits ''virt_destid_8_14'' td_u64 7,
        Bits ''destid_0_7'' td_u64 8]),
      Plain '''' (TStruct '''' False [
        Bits ''ir_shared_0'' td_u64 8,
        Bits ''ir_zero'' td_u64 3,
        Bits ''ir_index_15'' td_u64 1,
        Bits ''ir_shared_1'' td_u64 5,
        Bits ''ir_reserved_0'' td_u64 31,
        Bits ''ir_format'' td_u64 1,
        Bits ''ir_index_0_14'' td_u64 15]),
      Plain '''' (TStruct '''' False [
        Bits ''w1'' td_u64 32,
        Bits ''w2'' td_u64 32])])]"

definition st_PartitionBlock :: ty where
  "st_PartitionBlock = TStruct ''PartitionBlock'' False [
    Plain ''pb_ID'' td___be32,
    Plain ''pb_SummedLongs'' td___be32,
    Plain ''pb_ChkSum'' td___be32,
    Plain ''pb_HostID'' td___be32,
    Plain ''pb_Next'' td___be32,
    Plain ''pb_Flags'' td___be32,
    Plain ''pb_Reserved1'' (TArr td___be32 2),
    Plain ''pb_DevFlags'' td___be32,
    Plain ''pb_DriveName'' (TArr td___u8 32),
    Plain ''pb_Reserved2'' (TArr td___be32 15),
    Plain ''pb_Environment'' (TArr td___be32 17),
    Plain ''pb_EReserved'' (TArr td___be32 15)]"

definition st_refcount_struct :: ty where
  "st_refcount_struct = TStruct ''refcount_struct'' False [
    Plain ''refs'' td_atomic_t]"

definition st_sk_buff_list :: ty where
  "st_sk_buff_list = TStruct ''sk_buff_list'' False [
    Plain ''next'' (TPtr ''struct sk_buff''),
    Plain ''prev'' (TPtr ''struct sk_buff'')]"

definition st_u64_stats_sync :: ty where
  "st_u64_stats_sync = TStruct ''u64_stats_sync'' False []"

definition st_gnet_stats_queue :: ty where
  "st_gnet_stats_queue = TStruct ''gnet_stats_queue'' False [
    Plain ''qlen'' td___u32,
    Plain ''backlog'' td___u32,
    Plain ''drops'' td___u32,
    Plain ''requeues'' td___u32,
    Plain ''overlimits'' td___u32]"

definition st_llist_head :: ty where
  "st_llist_head = TStruct ''llist_head'' False [
    Plain ''first'' (TPtr ''struct llist_node'')]"

definition st_callback_head :: ty where
  "st_callback_head = TStruct ''callback_head'' False [
    Plain ''next'' (TPtr ''struct callback_head''),
    Plain ''func'' (TFun ''void (*)(struct callback_head *)'')]"

definition st_lock_class_key :: ty where
  "st_lock_class_key = TStruct ''lock_class_key'' False []"

definition st_RigidDiskBlock :: ty where
  "st_RigidDiskBlock = TStruct ''RigidDiskBlock'' False [
    Plain ''rdb_ID'' td___be32,
    Plain ''rdb_SummedLongs'' td___be32,
    Plain ''rdb_ChkSum'' td___be32,
    Plain ''rdb_HostID'' td___be32,
    Plain ''rdb_BlockBytes'' td___be32,
    Plain ''rdb_Flags'' td___be32,
    Plain ''rdb_BadBlockList'' td___be32,
    Plain ''rdb_PartitionList'' td___be32,
    Plain ''rdb_FileSysHeaderList'' td___be32,
    Plain ''rdb_DriveInit'' td___be32,
    Plain ''rdb_Reserved1'' (TArr td___be32 6),
    Plain ''rdb_Cylinders'' td___be32,
    Plain ''rdb_Sectors'' td___be32,
    Plain ''rdb_Heads'' td___be32,
    Plain ''rdb_Interleave'' td___be32,
    Plain ''rdb_Park'' td___be32,
    Plain ''rdb_Reserved2'' (TArr td___be32 3),
    Plain ''rdb_WritePreComp'' td___be32,
    Plain ''rdb_ReducedWrite'' td___be32,
    Plain ''rdb_StepRate'' td___be32,
    Plain ''rdb_Reserved3'' (TArr td___be32 5),
    Plain ''rdb_RDBBlocksLo'' td___be32,
    Plain ''rdb_RDBBlocksHi'' td___be32,
    Plain ''rdb_LoCylinder'' td___be32,
    Plain ''rdb_HiCylinder'' td___be32,
    Plain ''rdb_CylBlocks'' td___be32,
    Plain ''rdb_AutoParkSeconds'' td___be32,
    Plain ''rdb_HighRDSKBlock'' td___be32,
    Plain ''rdb_Reserved4'' td___be32,
    Plain ''rdb_DiskVendor'' (TArr (TInt I8 True) 8),
    Plain ''rdb_DiskProduct'' (TArr (TInt I8 True) 16),
    Plain ''rdb_DiskRevision'' (TArr (TInt I8 True) 4),
    Plain ''rdb_ControllerVendor'' (TArr (TInt I8 True) 8),
    Plain ''rdb_ControllerProduct'' (TArr (TInt I8 True) 16),
    Plain ''rdb_ControllerRevision'' (TArr (TInt I8 True) 4),
    Plain ''rdb_Reserved5'' (TArr td___be32 10)]"

definition st_blk_mq_queue_map :: ty where
  "st_blk_mq_queue_map = TStruct ''blk_mq_queue_map'' False [
    Plain ''mq_map'' (TPtr ''unsigned int''),
    Plain ''nr_queues'' (TInt I32 False),
    Plain ''queue_offset'' (TInt I32 False)]"

definition st_lockdep_map :: ty where
  "st_lockdep_map = TStruct ''lockdep_map'' False []"

definition st_pm_message :: ty where
  "st_pm_message = TStruct ''pm_message'' False [
    Plain ''event'' (TInt I32 True)]"

definition st_rb_node :: ty where
  "st_rb_node = TStruct ''rb_node'' False [
    Plain ''__rb_parent_color'' (TInt I64 False),
    Plain ''rb_right'' (TPtr ''struct rb_node''),
    Plain ''rb_left'' (TPtr ''struct rb_node'')]"

definition st_dev_msi_info :: ty where
  "st_dev_msi_info = TStruct ''dev_msi_info'' False [
    Plain ''domain'' (TPtr ''struct irq_domain''),
    Plain ''data'' (TPtr ''struct msi_device_data'')]"

definition st_dev_archdata :: ty where
  "st_dev_archdata = TStruct ''dev_archdata'' False []"

definition st_fred_cs :: ty where
  "st_fred_cs = TStruct ''fred_cs'' False [
    Bits ''cs'' td_u64 16,
    Bits ''sl'' td_u64 2,
    Bits ''wfe'' td_u64 1]"

definition st_fred_ss :: ty where
  "st_fred_ss = TStruct ''fred_ss'' False [
    Bits ''ss'' td_u64 16,
    Bits ''sti'' td_u64 1,
    Bits ''swevent'' td_u64 1,
    Bits ''nmi'' td_u64 1,
    Bits '''' (TInt I32 True) 13,
    Bits ''vector'' td_u64 8,
    Bits '''' (TInt I16 True) 8,
    Bits ''type'' td_u64 4,
    Bits '''' (TInt I8 True) 4,
    Bits ''enclave'' td_u64 1,
    Bits ''l'' td_u64 1,
    Bits ''nested'' td_u64 1,
    Bits '''' (TInt I8 True) 1,
    Bits ''insnlen'' td_u64 4]"

definition st_llist_node :: ty where
  "st_llist_node = TStruct ''llist_node'' False [
    Plain ''next'' (TPtr ''struct llist_node'')]"

definition st___genradix :: ty where
  "st___genradix = TStruct ''__genradix'' False [
    Plain ''root'' (TPtr ''struct genradix_root'')]"

definition st_sha256_block_state :: ty where
  "st_sha256_block_state = TStruct ''sha256_block_state'' False [
    Plain ''h'' (TArr td_u32 8)]"

definition st___kernel_timespec :: ty where
  "st___kernel_timespec = TStruct ''__kernel_timespec'' False [
    Plain ''tv_sec'' td___kernel_time64_t,
    Plain ''tv_nsec'' (TInt I64 True)]"

definition st___kernel_old_timeval :: ty where
  "st___kernel_old_timeval = TStruct ''__kernel_old_timeval'' False [
    Plain ''tv_sec'' td___kernel_long_t,
    Plain ''tv_usec'' td___kernel_long_t]"

definition st___kernel_sockaddr_storage :: ty where
  "st___kernel_sockaddr_storage = TStruct ''__kernel_sockaddr_storage'' False [
    Plain '''' (TUnion '''' False [
      Plain '''' (TStruct '''' False [
        Plain ''ss_family'' td___kernel_sa_family_t,
        Plain ''__data'' (TArr (TInt I8 True) 126)]),
      Plain ''__align'' (TPtr ''void'')])]"

definition st___kernel_timex_timeval :: ty where
  "st___kernel_timex_timeval = TStruct ''__kernel_timex_timeval'' False [
    Plain ''tv_sec'' td___kernel_time64_t,
    Plain ''tv_usec'' (TInt I64 True)]"

definition st___kfifo :: ty where
  "st___kfifo = TStruct ''__kfifo'' False [
    Plain ''in'' (TInt I32 False),
    Plain ''out'' (TInt I32 False),
    Plain ''mask'' (TInt I32 False),
    Plain ''esize'' (TInt I32 False),
    Plain ''data'' (TPtr ''void'')]"

definition un_sigval :: ty where
  "un_sigval = TUnion ''sigval'' False [
    Plain ''sival_int'' (TInt I32 True),
    Plain ''sival_ptr'' (TPtr ''void'')]"

definition st___sk_buff :: ty where
  "st___sk_buff = TStruct ''__sk_buff'' False [
    Plain ''len'' td___u32,
    Plain ''pkt_type'' td___u32,
    Plain ''mark'' td___u32,
    Plain ''queue_mapping'' td___u32,
    Plain ''protocol'' td___u32,
    Plain ''vlan_present'' td___u32,
    Plain ''vlan_tci'' td___u32,
    Plain ''vlan_proto'' td___u32,
    Plain ''priority'' td___u32,
    Plain ''ingress_ifindex'' td___u32,
    Plain ''ifindex'' td___u32,
    Plain ''tc_index'' td___u32,
    Plain ''cb'' (TArr td___u32 5),
    Plain ''hash'' td___u32,
    Plain ''tc_classid'' td___u32,
    Plain ''data'' td___u32,
    Plain ''data_end'' td___u32,
    Plain ''napi_id'' td___u32,
    Plain ''family'' td___u32,
    Plain ''remote_ip4'' td___u32,
    Plain ''local_ip4'' td___u32,
    Plain ''remote_ip6'' (TArr td___u32 4),
    Plain ''local_ip6'' (TArr td___u32 4),
    Plain ''remote_port'' td___u32,
    Plain ''local_port'' td___u32,
    Plain ''data_meta'' td___u32,
    Plain '''' (TUnion '''' False [
      Plain ''flow_keys'' (TPtr ''struct bpf_flow_keys'')]),
    Plain ''tstamp'' td___u64,
    Plain ''wire_len'' td___u32,
    Plain ''gso_segs'' td___u32,
    Plain '''' (TUnion '''' False [
      Plain ''sk'' (TPtr ''struct bpf_sock'')]),
    Plain ''gso_size'' td___u32,
    Plain ''tstamp_type'' td___u8,
    Plain ''hwtstamp'' td___u64]"

definition st__fpreg :: ty where
  "st__fpreg = TStruct ''_fpreg'' False [
    Plain ''significand'' (TArr td___u16 4),
    Plain ''exponent'' td___u16]"

definition st__fpxreg :: ty where
  "st__fpxreg = TStruct ''_fpxreg'' False [
    Plain ''significand'' (TArr td___u16 4),
    Plain ''exponent'' td___u16,
    Plain ''padding'' (TArr td___u16 3)]"

definition st__xmmreg :: ty where
  "st__xmmreg = TStruct ''_xmmreg'' False [
    Plain ''element'' (TArr td___u32 4)]"

definition st__fpx_sw_bytes :: ty where
  "st__fpx_sw_bytes = TStruct ''_fpx_sw_bytes'' False [
    Plain ''magic1'' td___u32,
    Plain ''extended_size'' td___u32,
    Plain ''xfeatures'' td___u64,
    Plain ''xstate_size'' td___u32,
    Plain ''padding'' (TArr td___u32 7)]"

definition st__gpt_header :: ty where
  "st__gpt_header = TStruct ''_gpt_header'' True [
    Plain ''signature'' td___le64,
    Plain ''revision'' td___le32,
    Plain ''header_size'' td___le32,
    Plain ''header_crc32'' td___le32,
    Plain ''reserved1'' td___le32,
    Plain ''my_lba'' td___le64,
    Plain ''alternate_lba'' td___le64,
    Plain ''first_usable_lba'' td___le64,
    Plain ''last_usable_lba'' td___le64,
    Plain ''disk_guid'' td_efi_guid_t,
    Plain ''partition_entry_lba'' td___le64,
    Plain ''num_partition_entries'' td___le32,
    Plain ''sizeof_partition_entry'' td___le32,
    Plain ''partition_entry_array_crc32'' td___le32]"

definition st_resource :: ty where
  "st_resource = TStruct ''resource'' False [
    Plain ''start'' td_resource_size_t,
    Plain ''end'' td_resource_size_t,
    Plain ''name'' (TPtr ''char''),
    Plain ''flags'' (TInt I64 False),
    Plain ''desc'' (TInt I64 False),
    Plain ''parent'' (TPtr ''struct resource''),
    Plain ''sibling'' (TPtr ''struct resource''),
    Plain ''child'' (TPtr ''struct resource'')]"

definition st_aa_attachment :: ty where
  "st_aa_attachment = TStruct ''aa_attachment'' False [
    Plain ''xmatch_str'' (TPtr ''char''),
    Plain ''xmatch'' (TPtr ''struct aa_policydb''),
    Plain ''xmatch_len'' (TInt I32 False),
    Plain ''xattr_count'' (TInt I32 True),
    Plain ''xattrs'' (TPtr ''char *'')]"

definition st_path :: ty where
  "st_path = TStruct ''path'' False [
    Plain ''mnt'' (TPtr ''struct vfsmount''),
    Plain ''dentry'' (TPtr ''struct dentry'')]"

definition st_rhash_head :: ty where
  "st_rhash_head = TStruct ''rhash_head'' False [
    Plain ''next'' (TPtr ''struct rhash_head'')]"

definition st_rb_root :: ty where
  "st_rb_root = TStruct ''rb_root'' False [
    Plain ''rb_node'' (TPtr ''struct rb_node'')]"

definition st_aa_ns_acct :: ty where
  "st_aa_ns_acct = TStruct ''aa_ns_acct'' False [
    Plain ''max_size'' (TInt I32 True),
    Plain ''max_count'' (TInt I32 True),
    Plain ''size'' (TInt I32 True),
    Plain ''count'' (TInt I32 True)]"

definition st_aa_perms :: ty where
  "st_aa_perms = TStruct ''aa_perms'' False [
    Plain ''allow'' td_u32,
    Plain ''deny'' td_u32,
    Plain ''subtree'' td_u32,
    Plain ''cond'' td_u32,
    Plain ''kill'' td_u32,
    Plain ''complain'' td_u32,
    Plain ''prompt'' td_u32,
    Plain ''audit'' td_u32,
    Plain ''quiet'' td_u32,
    Plain ''hide'' td_u32,
    Plain ''xindex'' td_u32,
    Plain ''tag'' td_u32,
    Plain ''label'' td_u32]"

definition st_rlimit :: ty where
  "st_rlimit = TStruct ''rlimit'' False [
    Plain ''rlim_cur'' td___kernel_ulong_t,
    Plain ''rlim_max'' td___kernel_ulong_t]"

definition st_access_masks :: ty where
  "st_access_masks = TStruct ''access_masks'' False [
    Bits ''fs'' td_access_mask_t 16,
    Bits ''net'' td_access_mask_t 2,
    Bits ''scope'' td_access_mask_t 2]"

definition st_acct_v3 :: ty where
  "st_acct_v3 = TStruct ''acct_v3'' False [
    Plain ''ac_flag'' (TInt I8 True),
    Plain ''ac_version'' (TInt I8 True),
    Plain ''ac_tty'' td___u16,
    Plain ''ac_exitcode'' td___u32,
    Plain ''ac_uid'' td___u32,
    Plain ''ac_gid'' td___u32,
    Plain ''ac_pid'' td___u32,
    Plain ''ac_ppid'' td___u32,
    Plain ''ac_btime'' td___u32,
    Plain ''ac_etime'' td___u32,
    Plain ''ac_utime'' td_comp_t,
    Plain ''ac_stime'' td_comp_t,
    Plain ''ac_mem'' td_comp_t,
    Plain ''ac_io'' td_comp_t,
    Plain ''ac_rw'' td_comp_t,
    Plain ''ac_minflt'' td_comp_t,
    Plain ''ac_majflt'' td_comp_t,
    Plain ''ac_swaps'' td_comp_t,
    Plain ''ac_comm'' (TArr (TInt I8 True) 16)]"

definition st_scatterlist :: ty where
  "st_scatterlist = TStruct ''scatterlist'' False [
    Plain ''page_link'' (TInt I64 False),
    Plain ''offset'' (TInt I32 False),
    Plain ''length'' (TInt I32 False),
    Plain ''dma_address'' td_dma_addr_t,
    Plain ''dma_length'' (TInt I32 False),
    Plain ''dma_flags'' (TInt I32 False)]"

definition st_scatter_walk :: ty where
  "st_scatter_walk = TStruct ''scatter_walk'' False [
    Plain '''' (TUnion '''' False [
      Plain ''addr'' (TPtr ''void''),
      Plain ''__addr'' (TPtr ''union crypto_no_such_thing'')]),
    Plain ''sg'' (TPtr ''struct scatterlist''),
    Plain ''offset'' (TInt I32 False)]"

definition st_notifier_block :: ty where
  "st_notifier_block = TStruct ''notifier_block'' False [
    Plain ''notifier_call'' td_notifier_fn_t,
    Plain ''next'' (TPtr ''struct notifier_block''),
    Plain ''priority'' (TInt I32 True)]"

definition st_circ_buf :: ty where
  "st_circ_buf = TStruct ''circ_buf'' False [
    Plain ''buf'' (TPtr ''char''),
    Plain ''head'' (TInt I32 True),
    Plain ''tail'' (TInt I32 True)]"

definition st_acpi_create_field_info :: ty where
  "st_acpi_create_field_info = TStruct ''acpi_create_field_info'' False [
    Plain ''region_node'' (TPtr ''struct acpi_namespace_node''),
    Plain ''field_node'' (TPtr ''struct acpi_namespace_node''),
    Plain ''register_node'' (TPtr ''struct acpi_namespace_node''),
    Plain ''data_register_node'' (TPtr ''struct acpi_namespace_node''),
    Plain ''connection_node'' (TPtr ''struct acpi_namespace_node''),
    Plain ''resource_buffer'' (TPtr ''u8''),
    Plain ''bank_value'' td_u32,
    Plain ''field_bit_position'' td_u32,
    Plain ''field_bit_length'' td_u32,
    Plain ''resource_length'' td_u16,
    Plain ''pin_number_index'' td_u16,
    Plain ''field_flags'' td_u8,
    Plain ''attribute'' td_u8,
    Plain ''field_type'' td_u8,
    Plain ''access_length'' td_u8]"

definition st_acpi_csrt_shared_info :: ty where
  "st_acpi_csrt_shared_info = TStruct ''acpi_csrt_shared_info'' False [
    Plain ''major_version'' td_u16,
    Plain ''minor_version'' td_u16,
    Plain ''mmio_base_low'' td_u32,
    Plain ''mmio_base_high'' td_u32,
    Plain ''gsi_interrupt'' td_u32,
    Plain ''interrupt_polarity'' td_u8,
    Plain ''interrupt_mode'' td_u8,
    Plain ''num_channels'' td_u8,
    Plain ''dma_address_width'' td_u8,
    Plain ''base_request_line'' td_u16,
    Plain ''num_handshake_signals'' td_u16,
    Plain ''max_block_size'' td_u32]"

definition st_acpi_db_method_info :: ty where
  "st_acpi_db_method_info = TStruct ''acpi_db_method_info'' False [
    Plain ''method'' td_acpi_handle,
    Plain ''main_thread_gate'' td_acpi_handle,
    Plain ''thread_complete_gate'' td_acpi_handle,
    Plain ''info_gate'' td_acpi_handle,
    Plain ''threads'' (TPtr ''u64''),
    Plain ''num_threads'' td_u32,
    Plain ''num_created'' td_u32,
    Plain ''num_completed'' td_u32,
    Plain ''name'' (TPtr ''char''),
    Plain ''flags'' td_u32,
    Plain ''num_loops'' td_u32,
    Plain ''pathname'' (TArr (TInt I8 True) 512),
    Plain ''args'' (TPtr ''char *''),
    Plain ''types'' (TPtr ''acpi_object_type''),
    Plain ''init_args'' (TInt I8 True),
    Plain ''arg_types'' (TArr td_acpi_object_type 7),
    Plain ''arguments'' (TArr (TPtr ''char'') 7),
    Plain ''num_threads_str'' (TArr (TInt I8 True) 11),
    Plain ''id_of_thread_str'' (TArr (TInt I8 True) 11),
    Plain ''index_of_thread_str'' (TArr (TInt I8 True) 11)]"

definition st_acpi_object_method :: ty where
  "st_acpi_object_method = TStruct ''acpi_object_method'' False [
    Plain ''next_object'' (TPtr ''union acpi_operand_object''),
    Plain ''descriptor_type'' td_u8,
    Plain ''type'' td_u8,
    Plain ''reference_count'' td_u16,
    Plain ''flags'' td_u8,
    Plain ''info_flags'' td_u8,
    Plain ''param_count'' td_u8,
    Plain ''sync_level'' td_u8,
    Plain ''mutex'' (TPtr ''union acpi_operand_object''),
    Plain ''node'' (TPtr ''union acpi_operand_object''),
    Plain ''aml_start'' (TPtr ''u8''),
    Plain ''dispatch'' (TUnion '''' False [
      Plain ''implementation'' td_acpi_internal_method,
      Plain ''handler'' (TPtr ''union acpi_operand_object'')]),
    Plain ''aml_length'' td_u32,
    Plain ''owner_id'' td_acpi_owner_id,
    Plain ''thread_count'' td_u8]"

definition st_acpi_object_mutex :: ty where
  "st_acpi_object_mutex = TStruct ''acpi_object_mutex'' False [
    Plain ''next_object'' (TPtr ''union acpi_operand_object''),
    Plain ''descriptor_type'' td_u8,
    Plain ''type'' td_u8,
    Plain ''reference_count'' td_u16,
    Plain ''flags'' td_u8,
    Plain ''sync_level'' td_u8,
    Plain ''acquisition_depth'' td_u16,
    Plain ''os_mutex'' (TPtr ''void''),
    Plain ''thread_id'' td_u64,
    Plain ''owner_thread'' (TPtr ''struct acpi_thread_state''),
    Plain ''prev'' (TPtr ''union acpi_operand_object''),
    Plain ''next'' (TPtr ''union acpi_operand_object''),
    Plain ''node'' (TPtr ''struct acpi_namespace_node''),
    Plain ''original_sync_level'' td_u8]"

definition st_acpi_object_region :: ty where
  "st_acpi_object_region = TStruct ''acpi_object_region'' False [
    Plain ''next_object'' (TPtr ''union acpi_operand_object''),
    Plain ''descriptor_type'' td_u8,
    Plain ''type'' td_u8,
    Plain ''reference_count'' td_u16,
    Plain ''flags'' td_u8,
    Plain ''space_id'' td_u8,
    Plain ''node'' (TPtr ''struct acpi_namespace_node''),
    Plain ''handler'' (TPtr ''union acpi_operand_object''),
    Plain ''next'' (TPtr ''union acpi_operand_object''),
    Plain ''address'' td_acpi_physical_address,
    Plain ''length'' td_u32,
    Plain ''pointer'' (TPtr ''void'')]"

definition st_acpi_object_field_common :: ty where
  "st_acpi_object_field_common = TStruct ''acpi_object_field_common'' False [
    Plain ''next_object'' (TPtr ''union acpi_operand_object''),
    Plain ''descriptor_type'' td_u8,
    Plain ''type'' td_u8,
    Plain ''reference_count'' td_u16,
    Plain ''flags'' td_u8,
    Plain ''field_flags'' td_u8,
    Plain ''attribute'' td_u8,
    Plain ''access_byte_width'' td_u8,
    Plain ''node'' (TPtr ''struct acpi_namespace_node''),
    Plain ''bit_length'' td_u32,
    Plain ''base_byte_offset'' td_u32,
    Plain ''value'' td_u32,
    Plain ''start_field_bit_offset'' td_u8,
    Plain ''access_length'' td_u8,
    Plain ''region_obj'' (TPtr ''union acpi_operand_object'')]"

definition st_acpi_object_region_field :: ty where
  "st_acpi_object_region_field = TStruct ''acpi_object_region_field'' False [
    Plain ''next_object'' (TPtr ''union acpi_operand_object''),
    Plain ''descriptor_type'' td_u8,
    Plain ''type'' td_u8,
    Plain ''reference_count'' td_u16,
    Plain ''flags'' td_u8,
    Plain ''field_flags'' td_u8,
    Plain ''attribute'' td_u8,
    Plain ''access_byte_width'' td_u8,
    Plain ''node'' (TPtr ''struct acpi_namespace_node''),
    Plain ''bit_length'' td_u32,
    Plain ''base_byte_offset'' td_u32,
    Plain ''value'' td_u32,
    Plain ''start_field_bit_offset'' td_u8,
    Plain ''access_length'' td_u8,
    Plain ''resource_length'' td_u16,
    Plain ''region_obj'' (TPtr ''union acpi_operand_object''),
    Plain ''resource_buffer'' (TPtr ''u8''),
    Plain ''pin_number_index'' td_u16,
    Plain ''internal_pcc_buffer'' (TPtr ''u8'')]"

definition st_acpi_object_buffer_field :: ty where
  "st_acpi_object_buffer_field = TStruct ''acpi_object_buffer_field'' False [
    Plain ''next_object'' (TPtr ''union acpi_operand_object''),
    Plain ''descriptor_type'' td_u8,
    Plain ''type'' td_u8,
    Plain ''reference_count'' td_u16,
    Plain ''flags'' td_u8,
    Plain ''field_flags'' td_u8,
    Plain ''attribute'' td_u8,
    Plain ''access_byte_width'' td_u8,
    Plain ''node'' (TPtr ''struct acpi_namespace_node''),
    Plain ''bit_length'' td_u32,
    Plain ''base_byte_offset'' td_u32,
    Plain ''value'' td_u32,
    Plain ''start_field_bit_offset'' td_u8,
    Plain ''access_length'' td_u8,
    Plain ''is_create_field'' td_u8,
    Plain ''buffer_obj'' (TPtr ''union acpi_operand_object'')]"

definition st_acpi_object_bank_field :: ty where
  "st_acpi_object_bank_field = TStruct ''acpi_object_bank_field'' False [
    Plain ''next_object'' (TPtr ''union acpi_operand_object''),
    Plain ''descriptor_type'' td_u8,
    Plain ''type'' td_u8,
    Plain ''reference_count'' td_u16,
    Plain ''flags'' td_u8,
    Plain ''field_flags'' td_u8,
    Plain ''attribute'' td_u8,
    Plain ''access_byte_width'' td_u8,
    Plain ''node'' (TPtr ''struct acpi_namespace_node''),
    Plain ''bit_length'' td_u32,
    Plain ''base_byte_offset'' td_u32,
    Plain ''value'' td_u32,
    Plain ''start_field_bit_offset'' td_u8,
    Plain ''access_length'' td_u8,
    Plain ''region_obj'' (TPtr ''union acpi_operand_object''),
    Plain ''bank_obj'' (TPtr ''union acpi_operand_object'')]"

definition st_acpi_object_index_field :: ty where
  "st_acpi_object_index_field = TStruct ''acpi_object_index_field'' False [
    Plain ''next_object'' (TPtr ''union acpi_operand_object''),
    Plain ''descriptor_type'' td_u8,
    Plain ''type'' td_u8,
    Plain ''reference_count'' td_u16,
    Plain ''flags'' td_u8,
    Plain ''field_flags'' td_u8,
    Plain ''attribute'' td_u8,
    Plain ''access_byte_width'' td_u8,
    Plain ''node'' (TPtr ''struct acpi_namespace_node''),
    Plain ''bit_length'' td_u32,
    Plain ''base_byte_offset'' td_u32,
    Plain ''value'' td_u32,
    Plain ''start_field_bit_offset'' td_u8,
    Plain ''access_length'' td_u8,
    Plain ''index_obj'' (TPtr ''union acpi_operand_object''),
    Plain ''data_obj'' (TPtr ''union acpi_operand_object'')]"

definition st_acpi_object_reference :: ty where
  "st_acpi_object_reference = TStruct ''acpi_object_reference'' False [
    Plain ''next_object'' (TPtr ''union acpi_operand_object''),
    Plain ''descriptor_type'' td_u8,
    Plain ''type'' td_u8,
    Plain ''reference_count'' td_u16,
    Plain ''flags'' td_u8,
    Plain ''class'' td_u8,
    Plain ''target_type'' td_u8,
    Plain ''resolved'' td_u8,
    Plain ''object'' (TPtr ''void''),
    Plain ''node'' (TPtr ''struct acpi_namespace_node''),
    Plain ''where'' (TPtr ''union acpi_operand_object *''),
    Plain ''index_pointer'' (TPtr ''u8''),
    Plain ''aml'' (TPtr ''u8''),
    Plain ''value'' td_u32]"

definition un_acpi_parse_value :: ty where
  "un_acpi_parse_value = TUnion ''acpi_parse_value'' False [
    Plain ''integer'' td_u64,
    Plain ''size'' td_u32,
    Plain ''string'' (TPtr ''char''),
    Plain ''buffer'' (TPtr ''u8''),
    Plain ''name'' (TPtr ''char''),
    Plain ''arg'' (TPtr ''union acpi_parse_object'')]"

definition st_acpi_device_flags :: ty where
  "st_acpi_device_flags = TStruct ''acpi_device_flags'' False [
    Bits ''dynamic_status'' td_u32 1,
    Bits ''removable'' td_u32 1,
    Bits ''ejectable'' td_u32 1,
    Bits ''power_manageable'' td_u32 1,
    Bits ''match_driver'' td_u32 1,
    Bits ''initialized'' td_u32 1,
    Bits ''visited'' td_u32 1,
    Bits ''hotplug_notify'' td_u32 1,
    Bits ''is_dock_station'' td_u32 1,
    Bits ''of_compatible_ok'' td_u32 1,
    Bits ''coherent_dma'' td_u32 1,
    Bits ''cca_seen'' td_u32 1,
    Bits ''enumeration_by_parent'' td_u32 1,
    Bits ''honor_deps'' td_u32 1,
    Bits ''reserved'' td_u32 18]"

definition st_acpi_pnp_device_id :: ty where
  "st_acpi_pnp_device_id = TStruct ''acpi_pnp_device_id'' False [
    Plain ''length'' td_u32,
    Plain ''string'' (TPtr ''char'')]"

definition st_property_entry :: ty where
  "st_property_entry = TStruct ''property_entry'' False [
    Plain ''name'' (TPtr ''char''),
    Plain ''length'' td_size_t,
    Plain ''is_inline'' td_bool,
    Plain ''type'' (TEnum ''dev_prop_type'' I32),
    Plain '''' (TUnion '''' False [
      Plain ''pointer'' (TPtr ''void''),
      Plain ''value'' (TUnion '''' False [
        Plain ''u8_data'' (TArr td_u8 8),
        Plain ''u16_data'' (TArr td_u16 4),
        Plain ''u32_data'' (TArr td_u32 2),
        Plain ''u64_data'' (TArr td_u64 1),
        Plain ''str'' (TArr (TPtr ''char'') 1)])])]"

definition st_acpi_evaluate_info :: ty where
  "st_acpi_evaluate_info = TStruct ''acpi_evaluate_info'' False [
    Plain ''prefix_node'' (TPtr ''struct acpi_namespace_node''),
    Plain ''relative_pathname'' (TPtr ''char''),
    Plain ''parameters'' (TPtr ''union acpi_operand_object *''),
    Plain ''node'' (TPtr ''struct acpi_namespace_node''),
    Plain ''obj_desc'' (TPtr ''union acpi_operand_object''),
    Plain ''full_pathname'' (TPtr ''char''),
    Plain ''predefined'' (TPtr ''union acpi_predefined_info''),
    Plain ''return_object'' (TPtr ''union acpi_operand_object''),
    Plain ''parent_package'' (TPtr ''union acpi_operand_object''),
    Plain ''return_flags'' td_u32,
    Plain ''return_btype'' td_u32,
    Plain ''param_count'' td_u16,
    Plain ''node_flags'' td_u16,
    Plain ''pass_number'' td_u8,
    Plain ''return_object_type'' td_u8,
    Plain ''flags'' td_u8]"

definition st_acpi_generic_address :: ty where
  "st_acpi_generic_address = TStruct ''acpi_generic_address'' True [
    Plain ''space_id'' td_u8,
    Plain ''bit_width'' td_u8,
    Plain ''bit_offset'' td_u8,
    Plain ''access_width'' td_u8,
    Plain ''address'' td_u64]"

definition st_acpi_gpe_block_info :: ty where
  "st_acpi_gpe_block_info = TStruct ''acpi_gpe_block_info'' False [
    Plain ''node'' (TPtr ''struct acpi_namespace_node''),
    Plain ''previous'' (TPtr ''struct acpi_gpe_block_info''),
    Plain ''next'' (TPtr ''struct acpi_gpe_block_info''),
    Plain ''xrupt_block'' (TPtr ''struct acpi_gpe_xrupt_info''),
    Plain ''register_info'' (TPtr ''struct acpi_gpe_register_info''),
    Plain ''event_info'' (TPtr ''struct acpi_gpe_event_info''),
    Plain ''address'' td_u64,
    Plain ''register_count'' td_u32,
    Plain ''gpe_count'' td_u16,
    Plain ''block_base_number'' td_u16,
    Plain ''space_id'' td_u8,
    Plain ''initialized'' td_u8]"

definition st_acpi_init_walk_info :: ty where
  "st_acpi_init_walk_info = TStruct ''acpi_init_walk_info'' False [
    Plain ''table_index'' td_u32,
    Plain ''object_count'' td_u32,
    Plain ''method_count'' td_u32,
    Plain ''serial_method_count'' td_u32,
    Plain ''non_serial_method_count'' td_u32,
    Plain ''serialized_method_count'' td_u32,
    Plain ''device_count'' td_u32,
    Plain ''op_region_count'' td_u32,
    Plain ''field_count'' td_u32,
    Plain ''buffer_count'' td_u32,
    Plain ''package_count'' td_u32,
    Plain ''op_region_init'' td_u32,
    Plain ''field_init'' td_u32,
    Plain ''buffer_init'' td_u32,
    Plain ''package_init'' td_u32,
    Plain ''owner_id'' td_acpi_owner_id]"

definition st_acpi_subtable_header :: ty where
  "st_acpi_subtable_header = TStruct ''acpi_subtable_header'' False [
    Plain ''type'' td_u8,
    Plain ''length'' td_u8]"

definition st_acpi_nhlt_vendor_mic_config :: ty where
  "st_acpi_nhlt_vendor_mic_config = TStruct ''acpi_nhlt_vendor_mic_config'' False [
    Plain ''type'' td_u8,
    Plain ''panel'' td_u8,
    Plain ''speaker_position_distance'' td_u16,
    Plain ''horizontal_offset'' td_u16,
    Plain ''vertical_offset'' td_u16,
    Plain ''frequency_low_band'' td_u8,
    Plain ''frequency_high_band'' td_u8,
    Plain ''direction_angle'' td_u16,
    Plain ''elevation_angle'' td_u16,
    Plain ''work_vertical_angle_begin'' td_u16,
    Plain ''work_vertical_angle_end'' td_u16,
    Plain ''work_horizontal_angle_begin'' td_u16,
    Plain ''work_horizontal_angle_end'' td_u16]"

definition un_acpi_object :: ty where
  "un_acpi_object = TUnion ''acpi_object'' False [
    Plain ''type'' td_acpi_object_type,
    Plain ''integer'' (TStruct '''' False [
      Plain ''type'' td_acpi_object_type,
      Plain ''value'' td_u64]),
    Plain ''string'' (TStruct '''' False [
      Plain ''type'' td_acpi_object_type,
      Plain ''length'' td_u32,
      Plain ''pointer'' (TPtr ''char'')]),
    Plain ''buffer'' (TStruct '''' False [
      Plain ''type'' td_acpi_object_type,
      Plain ''length'' td_u32,
      Plain ''pointer'' (TPtr ''u8'')]),
    Plain ''package'' (TStruct '''' False [
      Plain ''type'' td_acpi_object_type,
      Plain ''count'' td_u32,
      Plain ''elements'' (TPtr ''union acpi_object'')]),
    Plain ''reference'' (TStruct '''' False [
      Plain ''type'' td_acpi_object_type,
      Plain ''actual_type'' td_acpi_object_type,
      Plain ''handle'' td_acpi_handle]),
    Plain ''processor'' (TStruct '''' False [
      Plain ''type'' td_acpi_object_type,
      Plain ''proc_id'' td_u32,
      Plain ''pblk_address'' td_acpi_io_address,
      Plain ''pblk_length'' td_u32]),
    Plain ''power_resource'' (TStruct '''' False [
      Plain ''type'' td_acpi_object_type,
      Plain ''system_level'' td_u32,
      Plain ''resource_order'' td_u32])]"

definition st_acpi_pld_info :: ty where
  "st_acpi_pld_info = TStruct ''acpi_pld_info'' False [
    Plain ''revision'' td_u8,
    Plain ''ignore_color'' td_u8,
    Plain ''red'' td_u8,
    Plain ''green'' td_u8,
    Plain ''blue'' td_u8,
    Plain ''width'' td_u16,
    Plain ''height'' td_u16,
    Plain ''user_visible'' td_u8,
    Plain ''dock'' td_u8,
    Plain ''lid'' td_u8,
    Plain ''panel'' td_u8,
    Plain ''vertical_position'' td_u8,
    Plain ''horizontal_position'' td_u8,
    Plain ''shape'' td_u8,
    Plain ''group_orientation'' td_u8,
    Plain ''group_token'' td_u8,
    Plain ''group_position'' td_u8,
    Plain ''bay'' td_u8,
    Plain ''ejectable'' td_u8,
    Plain ''ospm_eject_required'' td_u8,
    Plain ''cabinet_number'' td_u8,
    Plain ''card_cage_number'' td_u8,
    Plain ''reference'' td_u8,
    Plain ''rotation'' td_u8,
    Plain ''order'' td_u8,
    Plain ''reserved'' td_u8,
    Plain ''vertical_offset'' td_u16,
    Plain ''horizontal_offset'' td_u16]"

definition st_acpi_resource_irq :: ty where
  "st_acpi_resource_irq = TStruct ''acpi_resource_irq'' False [
    Plain ''descriptor_length'' td_u8,
    Plain ''triggering'' td_u8,
    Plain ''polarity'' td_u8,
    Plain ''shareable'' td_u8,
    Plain ''wake_capable'' td_u8,
    Plain ''interrupt_count'' td_u8,
    Plain '''' (TUnion '''' False [
      Plain ''interrupt'' td_u8,
      Plain '''' (TStruct '''' False [
        Plain ''__Empty_interrupts'' (TStruct '''' False []),
        Plain ''interrupts'' (TArr td_u8 0)])])]"

definition st_acpi_resource_source :: ty where
  "st_acpi_resource_source = TStruct ''acpi_resource_source'' True [
    Plain ''index'' td_u8,
    Plain ''string_length'' td_u16,
    Plain ''string_ptr'' (TPtr ''char'')]"

definition st_acpi_table_header :: ty where
  "st_acpi_table_header = TStruct ''acpi_table_header'' False [
    Plain ''signature'' (TArr (TInt I8 True) 4),
    Plain ''length'' td_u32,
    Plain ''revision'' td_u8,
    Plain ''checksum'' td_u8,
    Plain ''oem_id'' (TArr (TInt I8 True) 6),
    Plain ''oem_table_id'' (TArr (TInt I8 True) 8),
    Plain ''oem_revision'' td_u32,
    Plain ''asl_compiler_id'' (TArr (TInt I8 True) 4),
    Plain ''asl_compiler_revision'' td_u32]"

definition st_action_data :: ty where
  "st_action_data = TStruct ''action_data'' False [
    Plain ''handler'' (TEnum ''handler_id'' I32),
    Plain ''action'' (TEnum ''action_id'' I32),
    Plain ''action_name'' (TPtr ''char''),
    Plain ''fn'' td_action_fn_t,
    Plain ''n_params'' (TInt I32 False),
    Plain ''params'' (TArr (TPtr ''char'') 64),
    Plain ''var_ref_idx'' (TArr (TInt I32 False) 64),
    Plain ''synth_event'' (TPtr ''struct synth_event''),
    Plain ''use_trace_keyword'' td_bool,
    Plain ''synth_event_name'' (TPtr ''char''),
    Plain '''' (TUnion '''' False [
      Plain ''match_data'' (TStruct '''' False [
        Plain ''event'' (TPtr ''char''),
        Plain ''event_system'' (TPtr ''char'')]),
      Plain ''track_data'' (TStruct '''' False [
        Plain ''var_str'' (TPtr ''char''),
        Plain ''var_ref'' (TPtr ''struct hist_field''),
        Plain ''track_var'' (TPtr ''struct hist_field''),
        Plain ''check_val'' td_check_track_val_fn_t,
        Plain ''save_data'' td_action_fn_t])])]"

definition st_audit_ntp_val :: ty where
  "st_audit_ntp_val = TStruct ''audit_ntp_val'' False [
    Plain ''oldval'' (TInt I64 True),
    Plain ''newval'' (TInt I64 True)]"

definition st_timespec64 :: ty where
  "st_timespec64 = TStruct ''timespec64'' False [
    Plain ''tv_sec'' td_time64_t,
    Plain ''tv_nsec'' (TInt I64 True)]"

definition st_adp5520_backlight_platform_data :: ty where
  "st_adp5520_backlight_platform_data = TStruct ''adp5520_backlight_platform_data'' False [
    Plain ''fade_in'' td_u8,
    Plain ''fade_out'' td_u8,
    Plain ''fade_led_law'' td_u8,
    Plain ''en_ambl_sens'' td_u8,
    Plain ''abml_filt'' td_u8,
    Plain ''l1_daylight_max'' td_u8,
    Plain ''l1_daylight_dim'' td_u8,
    Plain ''l2_office_max'' td_u8,
    Plain ''l2_office_dim'' td_u8,
    Plain ''l3_dark_max'' td_u8,
    Plain ''l3_dark_dim'' td_u8,
    Plain ''l2_trip'' td_u8,
    Plain ''l2_hyst'' td_u8,
    Plain ''l3_trip'' td_u8,
    Plain ''l3_hyst'' td_u8]"

definition st_pcie_tlp_log :: ty where
  "st_pcie_tlp_log = TStruct ''pcie_tlp_log'' False [
    Plain '''' (TUnion '''' False [
      Plain ''dw'' (TArr td_u32 14),
      Plain '''' (TStruct '''' False [
        Plain ''_do_not_use'' (TArr td_u32 4),
        Plain ''prefix'' (TArr td_u32 4)])]),
    Plain ''header_len'' td_u8,
    Plain ''flit'' td_bool]"

definition st_aer_err_source :: ty where
  "st_aer_err_source = TStruct ''aer_err_source'' False [
    Plain ''status'' td_u32,
    Plain ''id'' td_u32]"

definition un_aes_enckey_arch :: ty where
  "un_aes_enckey_arch = TUnion ''aes_enckey_arch'' False [
    Plain ''rndkeys'' (TArr td_u32 60)]"

definition un_amd_debug_extn_cfg :: ty where
  "un_amd_debug_extn_cfg = TUnion ''amd_debug_extn_cfg'' False [
    Plain ''val'' td___u64,
    Plain '''' (TStruct '''' False [
      Bits ''rsvd0'' td___u64 2,
      Bits ''brsmen'' td___u64 1,
      Bits ''rsvd4_3'' td___u64 2,
      Bits ''vb'' td___u64 1,
      Bits ''rsvd2'' td___u64 10,
      Bits ''msroff'' td___u64 4,
      Bits ''rsvd3'' td___u64 4,
      Bits ''pmc'' td___u64 3,
      Bits ''rsvd4'' td___u64 37])]"

definition st_x86_msi_addr_lo :: ty where
  "st_x86_msi_addr_lo = TStruct ''x86_msi_addr_lo'' False [
    Plain '''' (TUnion '''' False [
      Plain '''' (TStruct '''' False [
        Bits ''reserved_0'' td_u32 2,
        Bits ''dest_mode_logical'' td_u32 1,
        Bits ''redirect_hint'' td_u32 1,
        Bits ''reserved_1'' td_u32 1,
        Bits ''virt_destid_8_14'' td_u32 7,
        Bits ''destid_0_7'' td_u32 8,
        Bits ''base_address'' td_u32 12]),
      Plain '''' (TStruct '''' False [
        Bits ''dmar_reserved_0'' td_u32 2,
        Bits ''dmar_index_15'' td_u32 1,
        Bits ''dmar_subhandle_valid'' td_u32 1,
        Bits ''dmar_format'' td_u32 1,
        Bits ''dmar_index_0_14'' td_u32 15,
        Bits ''dmar_base_address'' td_u32 12])])]"

definition st_event_constraint :: ty where
  "st_event_constraint = TStruct ''event_constraint'' False [
    Plain '''' (TUnion '''' False [
      Plain ''idxmsk'' (TArr (TInt I64 False) 1),
      Plain ''idxmsk64'' td_u64]),
    Plain ''code'' td_u64,
    Plain ''cmask'' td_u64,
    Plain ''weight'' (TInt I32 True),
    Plain ''overlap'' (TInt I32 True),
    Plain ''flags'' (TInt I32 True),
    Plain ''size'' (TInt I32 False)]"

definition st_aml_resource_extended_address64 :: ty where
  "st_aml_resource_extended_address64 = TStruct ''aml_resource_extended_address64'' True [
    Plain ''descriptor_type'' td_u8,
    Plain ''resource_length'' td_u16,
    Plain ''resource_type'' td_u8,
    Plain ''flags'' td_u8,
    Plain ''specific_flags'' td_u8,
    Plain ''revision_ID'' td_u8,
    Plain ''reserved'' td_u8,
    Plain ''granularity'' td_u64,
    Plain ''minimum'' td_u64,
    Plain ''maximum'' td_u64,
    Plain ''translation_offset'' td_u64,
    Plain ''address_length'' td_u64,
    Plain ''type_specific'' td_u64]"

definition st_aml_resource_gpio :: ty where
  "st_aml_resource_gpio = TStruct ''aml_resource_gpio'' True [
    Plain ''descriptor_type'' td_u8,
    Plain ''resource_length'' td_u16,
    Plain ''revision_id'' td_u8,
    Plain ''connection_type'' td_u8,
    Plain ''flags'' td_u16,
    Plain ''int_flags'' td_u16,
    Plain ''pin_config'' td_u8,
    Plain ''drive_strength'' td_u16,
    Plain ''debounce_timeout'' td_u16,
    Plain ''pin_table_offset'' td_u16,
    Plain ''res_source_index'' td_u8,
    Plain ''res_source_offset'' td_u16,
    Plain ''vendor_offset'' td_u16,
    Plain ''vendor_length'' td_u16]"

definition st_aml_resource_spi_serialbus :: ty where
  "st_aml_resource_spi_serialbus = TStruct ''aml_resource_spi_serialbus'' True [
    Plain ''descriptor_type'' td_u8,
    Plain ''resource_length'' td_u16,
    Plain ''revision_id'' td_u8,
    Plain ''res_source_index'' td_u8,
    Plain ''type'' td_u8,
    Plain ''flags'' td_u8,
    Plain ''type_specific_flags'' td_u16,
    Plain ''type_revision_id'' td_u8,
    Plain ''type_data_length'' td_u16,
    Plain ''connection_speed'' td_u32,
    Plain ''data_bit_length'' td_u8,
    Plain ''clock_phase'' td_u8,
    Plain ''clock_polarity'' td_u8,
    Plain ''device_selection'' td_u16]"

definition st_aml_resource_uart_serialbus :: ty where
  "st_aml_resource_uart_serialbus = TStruct ''aml_resource_uart_serialbus'' True [
    Plain ''descriptor_type'' td_u8,
    Plain ''resource_length'' td_u16,
    Plain ''revision_id'' td_u8,
    Plain ''res_source_index'' td_u8,
    Plain ''type'' td_u8,
    Plain ''flags'' td_u8,
    Plain ''type_specific_flags'' td_u16,
    Plain ''type_revision_id'' td_u8,
    Plain ''type_data_length'' td_u16,
    Plain ''default_baud_rate'' td_u32,
    Plain ''rx_fifo_size'' td_u16,
    Plain ''tx_fifo_size'' td_u16,
    Plain ''parity'' td_u8,
    Plain ''lines_enabled'' td_u8]"

definition st_arch_hw_breakpoint :: ty where
  "st_arch_hw_breakpoint = TStruct ''arch_hw_breakpoint'' False [
    Plain ''address'' (TInt I64 False),
    Plain ''mask'' (TInt I64 False),
    Plain ''len'' td_u8,
    Plain ''type'' td_u8]"

definition st_lbr_entry :: ty where
  "st_lbr_entry = TStruct ''lbr_entry'' False [
    Plain ''from'' td_u64,
    Plain ''to'' td_u64,
    Plain ''info'' td_u64]"

definition st_arch_pebs_cap :: ty where
  "st_arch_pebs_cap = TStruct ''arch_pebs_cap'' False [
    Plain ''caps'' td_u64,
    Plain ''counters'' td_u64,
    Plain ''pdists'' td_u64]"

definition st_arch_pebs_gprs :: ty where
  "st_arch_pebs_gprs = TStruct ''arch_pebs_gprs'' False [
    Plain ''flags'' td_u64,
    Plain ''ip'' td_u64,
    Plain ''ax'' td_u64,
    Plain ''cx'' td_u64,
    Plain ''dx'' td_u64,
    Plain ''bx'' td_u64,
    Plain ''sp'' td_u64,
    Plain ''bp'' td_u64,
    Plain ''si'' td_u64,
    Plain ''di'' td_u64,
    Plain ''r8'' td_u64,
    Plain ''r9'' td_u64,
    Plain ''r10'' td_u64,
    Plain ''r11'' td_u64,
    Plain ''r12'' td_u64,
    Plain ''r13'' td_u64,
    Plain ''r14'' td_u64,
    Plain ''r15'' td_u64,
    Plain ''ssp'' td_u64,
    Plain ''rsvd'' td_u64]"

definition st_arch_pebs_header :: ty where
  "st_arch_pebs_header = TStruct ''arch_pebs_header'' False [
    Plain '''' (TUnion '''' False [
      Plain ''format'' td_u64,
      Plain '''' (TStruct '''' False [
        Bits ''size'' td_u64 16,
        Bits ''rsvd'' td_u64 14,
        Bits ''mode'' td_u64 1,
        Bits ''cont'' td_u64 1,
        Bits ''rsvd2'' td_u64 3,
        Bits ''cntr'' td_u64 5,
        Bits ''lbr'' td_u64 2,
        Bits ''rsvd3'' td_u64 7,
        Bits ''xmm'' td_u64 1,
        Bits ''ymmh'' td_u64 1,
        Bits ''rsvd4'' td_u64 2,
        Bits ''opmask'' td_u64 1,
        Bits ''zmmh'' td_u64 1,
        Bits ''h16zmm'' td_u64 1,
        Bits ''rsvd5'' td_u64 5,
        Bits ''gpr'' td_u64 1,
        Bits ''aux'' td_u64 1,
        Bits ''basic'' td_u64 1])]),
    Plain ''rsvd6'' td_u64]"

definition st_arch_specific_insn :: ty where
  "st_arch_specific_insn = TStruct ''arch_specific_insn'' False [
    Plain ''insn'' (TPtr ''kprobe_opcode_t''),
    Bits ''boostable'' (TInt I32 False) 1,
    Plain ''size'' (TInt I8 False),
    Plain '''' (TUnion '''' False [
      Plain ''opcode'' (TInt I8 False),
      Plain ''jcc'' (TStruct '''' False [
        Plain ''type'' (TInt I8 False)]),
      Plain ''loop'' (TStruct '''' False [
        Plain ''type'' (TInt I8 False),
        Plain ''asize'' (TInt I8 False)]),
      Plain ''indirect'' (TStruct '''' False [
        Plain ''reg'' (TInt I8 False)])]),
    Plain ''rel32'' td_s32,
    Plain ''emulate_op'' (TFun ''void (*)(struct kprobe *, struct pt_regs *)''),
    Plain ''tp_len'' (TInt I32 True)]"

definition st_cpumask :: ty where
  "st_cpumask = TStruct ''cpumask'' False [
    Plain ''bits'' (TArr (TInt I64 False) 128)]"

definition st_arch_uprobe :: ty where
  "st_arch_uprobe = TStruct ''arch_uprobe'' False [
    Plain '''' (TUnion '''' False [
      Plain ''insn'' (TArr td_u8 16),
      Plain ''ixol'' (TArr td_u8 16)]),
    Plain ''ops'' (TPtr ''struct uprobe_xol_ops''),
    Plain '''' (TUnion '''' False [
      Plain ''branch'' (TStruct '''' False [
        Plain ''offs'' td_s32,
        Plain ''ilen'' td_u8,
        Plain ''opc1'' td_u8]),
      Plain ''defparam'' (TStruct '''' False [
        Plain ''fixups'' td_u8,
        Plain ''ilen'' td_u8]),
      Plain ''push'' (TStruct '''' False [
        Plain ''reg_offset'' td_u8,
        Plain ''ilen'' td_u8])]),
    Plain ''flags'' (TInt I64 False)]"

definition st_arch_uprobe_task :: ty where
  "st_arch_uprobe_task = TStruct ''arch_uprobe_task'' False [
    Plain ''saved_scratch_register'' (TInt I64 False),
    Plain ''saved_trap_nr'' (TInt I32 False),
    Plain ''saved_tf'' (TInt I32 False)]"

definition st_sockaddr :: ty where
  "st_sockaddr = TStruct ''sockaddr'' False [
    Plain ''sa_family'' td_sa_family_t,
    Plain ''sa_data'' (TArr (TInt I8 True) 14)]"

definition st_array_buffer :: ty where
  "st_array_buffer = TStruct ''array_buffer'' False [
    Plain ''tr'' (TPtr ''struct trace_array''),
    Plain ''buffer'' (TPtr ''struct trace_buffer''),
    Plain ''data'' (TPtr ''struct trace_array_cpu''),
    Plain ''time_start'' td_u64,
    Plain ''cpu'' (TInt I32 True)]"

definition st_assoc_array :: ty where
  "st_assoc_array = TStruct ''assoc_array'' False [
    Plain ''root'' (TPtr ''struct assoc_array_ptr''),
    Plain ''nr_leaves_on_tree'' (TInt I64 False)]"

definition st_assoc_array_walk_result :: ty where
  "st_assoc_array_walk_result = TStruct ''assoc_array_walk_result'' False [
    Plain ''terminal_node'' (TStruct '''' False [
      Plain ''node'' (TPtr ''struct assoc_array_node''),
      Plain ''level'' (TInt I32 True),
      Plain ''slot'' (TInt I32 True)]),
    Plain ''wrong_shortcut'' (TStruct '''' False [
      Plain ''shortcut'' (TPtr ''struct assoc_array_shortcut''),
      Plain ''level'' (TInt I32 True),
      Plain ''sc_level'' (TInt I32 True),
      Plain ''sc_segments'' (TInt I64 False),
      Plain ''dissimilarity'' (TInt I64 False)])]"

definition st_ata_acpi_drive :: ty where
  "st_ata_acpi_drive = TStruct ''ata_acpi_drive'' False [
    Plain ''pio'' td_u32,
    Plain ''dma'' td_u32]"

definition st_ata_ering_entry :: ty where
  "st_ata_ering_entry = TStruct ''ata_ering_entry'' False [
    Plain ''eflags'' (TInt I32 False),
    Plain ''err_mask'' (TInt I32 False),
    Plain ''timestamp'' td_u64]"

definition st_ata_eh_info :: ty where
  "st_ata_eh_info = TStruct ''ata_eh_info'' False [
    Plain ''dev'' (TPtr ''struct ata_device''),
    Plain ''serror'' td_u32,
    Plain ''err_mask'' (TInt I32 False),
    Plain ''action'' (TInt I32 False),
    Plain ''dev_action'' (TArr (TInt I32 False) 2),
    Plain ''flags'' (TInt I32 False),
    Plain ''probe_mask'' (TInt I32 False),
    Plain ''desc'' (TArr (TInt I8 True) 80),
    Plain ''desc_len'' (TInt I32 True)]"

definition st_ata_ioports :: ty where
  "st_ata_ioports = TStruct ''ata_ioports'' False [
    Plain ''cmd_addr'' (TPtr ''void''),
    Plain ''data_addr'' (TPtr ''void''),
    Plain ''error_addr'' (TPtr ''void''),
    Plain ''feature_addr'' (TPtr ''void''),
    Plain ''nsect_addr'' (TPtr ''void''),
    Plain ''lbal_addr'' (TPtr ''void''),
    Plain ''lbam_addr'' (TPtr ''void''),
    Plain ''lbah_addr'' (TPtr ''void''),
    Plain ''device_addr'' (TPtr ''void''),
    Plain ''status_addr'' (TPtr ''void''),
    Plain ''command_addr'' (TPtr ''void''),
    Plain ''altstatus_addr'' (TPtr ''void''),
    Plain ''ctl_addr'' (TPtr ''void''),
    Plain ''bmdma_addr'' (TPtr ''void''),
    Plain ''scr_addr'' (TPtr ''void'')]"

definition st_ata_taskfile :: ty where
  "st_ata_taskfile = TStruct ''ata_taskfile'' False [
    Plain ''flags'' (TInt I64 False),
    Plain ''protocol'' td_u8,
    Plain ''ctl'' td_u8,
    Plain ''hob_feature'' td_u8,
    Plain ''hob_nsect'' td_u8,
    Plain ''hob_lbal'' td_u8,
    Plain ''hob_lbam'' td_u8,
    Plain ''hob_lbah'' td_u8,
    Plain '''' (TUnion '''' False [
      Plain ''error'' td_u8,
      Plain ''feature'' td_u8]),
    Plain ''nsect'' td_u8,
    Plain ''lbal'' td_u8,
    Plain ''lbam'' td_u8,
    Plain ''lbah'' td_u8,
    Plain ''device'' td_u8,
    Plain '''' (TUnion '''' False [
      Plain ''status'' td_u8,
      Plain ''command'' td_u8]),
    Plain ''auxiliary'' td_u32]"

definition st_ata_port_stats :: ty where
  "st_ata_port_stats = TStruct ''ata_port_stats'' False [
    Plain ''unhandled_irq'' (TInt I64 False),
    Plain ''idle_irq'' (TInt I64 False),
    Plain ''rw_reqbuf'' (TInt I64 False)]"

definition st_vivaldi_data :: ty where
  "st_vivaldi_data = TStruct ''vivaldi_data'' False [
    Plain ''function_row_physmap'' (TArr td_u32 24),
    Plain ''num_function_row_keys'' (TInt I32 False)]"

definition st_audit_cap_data :: ty where
  "st_audit_cap_data = TStruct ''audit_cap_data'' False [
    Plain ''permitted'' td_kernel_cap_t,
    Plain ''inheritable'' td_kernel_cap_t,
    Plain '''' (TUnion '''' False [
      Plain ''fE'' (TInt I32 False),
      Plain ''effective'' td_kernel_cap_t]),
    Plain ''ambient'' td_kernel_cap_t,
    Plain ''rootid'' td_kuid_t]"

definition st_lsm_prop_selinux :: ty where
  "st_lsm_prop_selinux = TStruct ''lsm_prop_selinux'' False [
    Plain ''secid'' td_u32]"

definition st_lsm_prop_smack :: ty where
  "st_lsm_prop_smack = TStruct ''lsm_prop_smack'' False [
    Plain ''skp'' (TPtr ''struct smack_known'')]"

definition st_lsm_prop_apparmor :: ty where
  "st_lsm_prop_apparmor = TStruct ''lsm_prop_apparmor'' False [
    Plain ''label'' (TPtr ''struct aa_label'')]"

definition st_lsm_prop_bpf :: ty where
  "st_lsm_prop_bpf = TStruct ''lsm_prop_bpf'' False [
    Plain ''secid'' td_u32]"

definition st_mq_attr :: ty where
  "st_mq_attr = TStruct ''mq_attr'' False [
    Plain ''mq_flags'' td___kernel_long_t,
    Plain ''mq_maxmsg'' td___kernel_long_t,
    Plain ''mq_msgsize'' td___kernel_long_t,
    Plain ''mq_curmsgs'' td___kernel_long_t,
    Plain ''__reserved'' (TArr td___kernel_long_t 4)]"

definition st_open_how :: ty where
  "st_open_how = TStruct ''open_how'' False [
    Plain ''flags'' td___u64,
    Plain ''mode'' td___u64,
    Plain ''resolve'' td___u64]"

definition st_audit_proctitle :: ty where
  "st_audit_proctitle = TStruct ''audit_proctitle'' False [
    Plain ''len'' (TInt I32 True),
    Plain ''value'' (TPtr ''char'')]"

definition st_audit_status :: ty where
  "st_audit_status = TStruct ''audit_status'' False [
    Plain ''mask'' td___u32,
    Plain ''enabled'' td___u32,
    Plain ''failure'' td___u32,
    Plain ''pid'' td___u32,
    Plain ''rate_limit'' td___u32,
    Plain ''backlog_limit'' td___u32,
    Plain ''lost'' td___u32,
    Plain ''backlog'' td___u32,
    Plain '''' (TUnion '''' False [
      Plain ''version'' td___u32,
      Plain ''feature_bitmap'' td___u32]),
    Plain ''backlog_wait_time'' td___u32,
    Plain ''backlog_wait_time_actual'' td___u32]"

definition st_hlist_head :: ty where
  "st_hlist_head = TStruct ''hlist_head'' False [
    Plain ''first'' (TPtr ''struct hlist_node'')]"

definition st_percpu_ref :: ty where
  "st_percpu_ref = TStruct ''percpu_ref'' False [
    Plain ''percpu_count_ptr'' (TInt I64 False),
    Plain ''data'' (TPtr ''struct percpu_ref_data'')]"

definition st_file_ra_state :: ty where
  "st_file_ra_state = TStruct ''file_ra_state'' False [
    Plain ''start'' (TInt I64 False),
    Plain ''size'' (TInt I32 False),
    Plain ''async_size'' (TInt I32 False),
    Plain ''ra_pages'' (TInt I32 False),
    Plain ''order'' (TInt I16 False),
    Plain ''mmap_miss'' (TInt I16 False),
    Plain ''prev_pos'' td_loff_t]"

definition st_backtrack_state :: ty where
  "st_backtrack_state = TStruct ''backtrack_state'' False [
    Plain ''env'' (TPtr ''struct bpf_verifier_env''),
    Plain ''frame'' td_u32,
    Plain ''reg_masks'' (TArr td_u32 8),
    Plain ''stack_masks'' (TArr td_u64 8)]"

definition st_balance_callback :: ty where
  "st_balance_callback = TStruct ''balance_callback'' False [
    Plain ''next'' (TPtr ''struct balance_callback''),
    Plain ''func'' (TFun ''void (*)(struct rq *)'')]"

definition st_inode_state_flags :: ty where
  "st_inode_state_flags = TStruct ''inode_state_flags'' False [
    Plain ''__state'' (TEnum ''inode_state_flags_enum'' I32)]"

definition st_bictcp :: ty where
  "st_bictcp = TStruct ''bictcp'' False [
    Plain ''cnt'' td_u32,
    Plain ''last_max_cwnd'' td_u32,
    Plain ''last_cwnd'' td_u32,
    Plain ''last_time'' td_u32,
    Plain ''bic_origin_point'' td_u32,
    Plain ''bic_K'' td_u32,
    Plain ''delay_min'' td_u32,
    Plain ''epoch_start'' td_u32,
    Plain ''ack_cnt'' td_u32,
    Plain ''tcp_cwnd'' td_u32,
    Plain ''unused'' td_u16,
    Plain ''sample_cnt'' td_u8,
    Plain ''found'' td_u8,
    Plain ''round_start'' td_u32,
    Plain ''end_seq'' td_u32,
    Plain ''last_ack'' td_u32,
    Plain ''curr_rtt'' td_u32]"

definition st_bvec_iter :: ty where
  "st_bvec_iter = TStruct ''bvec_iter'' True [
    Plain ''bi_sector'' td_sector_t,
    Plain ''bi_size'' (TInt I32 False),
    Plain ''bi_idx'' (TInt I32 False),
    Plain ''bi_bvec_done'' (TInt I32 False)]"

definition st_bio_crypt_ctx :: ty where
  "st_bio_crypt_ctx = TStruct ''bio_crypt_ctx'' False [
    Plain ''bc_key'' (TPtr ''struct blk_crypto_key''),
    Plain ''bc_dun'' (TArr td_u64 4)]"

definition st_bio_vec :: ty where
  "st_bio_vec = TStruct ''bio_vec'' False [
    Plain ''bv_page'' (TPtr ''struct page''),
    Plain ''bv_len'' (TInt I32 False),
    Plain ''bv_offset'' (TInt I32 False)]"

definition st_bio_list :: ty where
  "st_bio_list = TStruct ''bio_list'' False [
    Plain ''head'' (TPtr ''struct bio''),
    Plain ''tail'' (TPtr ''struct bio'')]"

definition st_iovec :: ty where
  "st_iovec = TStruct ''iovec'' False [
    Plain ''iov_base'' (TPtr ''void''),
    Plain ''iov_len'' td___kernel_size_t]"

definition st_bitmap_super_s :: ty where
  "st_bitmap_super_s = TStruct ''bitmap_super_s'' False [
    Plain ''magic'' td___le32,
    Plain ''version'' td___le32,
    Plain ''uuid'' (TArr td___u8 16),
    Plain ''events'' td___le64,
    Plain ''events_cleared'' td___le64,
    Plain ''sync_size'' td___le64,
    Plain ''state'' td___le32,
    Plain ''chunksize'' td___le32,
    Plain ''daemon_sleep'' td___le32,
    Plain ''write_behind'' td___le32,
    Plain ''sectors_reserved'' td___le32,
    Plain ''nodes'' td___le32,
    Plain ''cluster_name'' (TArr td___u8 64),
    Plain ''pad'' (TArr td___u8 120)]"

definition st_blk_crypto_ll_ops :: ty where
  "st_blk_crypto_ll_ops = TStruct ''blk_crypto_ll_ops'' False [
    Plain ''keyslot_program''
      (TFun ''int (*)(struct blk_crypto_profile *, const struct blk_crypto_key *, unsigned int)''),
    Plain ''keyslot_evict''
      (TFun ''int (*)(struct blk_crypto_profile *, const struct blk_crypto_key *, unsigned int)''),
    Plain ''derive_sw_secret''
      (TFun ''int (*)(struct blk_crypto_profile *, const u8 *, size_t, u8 *)''),
    Plain ''import_key'' (TFun ''int (*)(struct blk_crypto_profile *, const u8 *, size_t, u8 *)''),
    Plain ''generate_key'' (TFun ''int (*)(struct blk_crypto_profile *, u8 *)''),
    Plain ''prepare_key''
      (TFun ''int (*)(struct blk_crypto_profile *, const u8 *, size_t, u8 *)'')]"

definition st_blk_integrity :: ty where
  "st_blk_integrity = TStruct ''blk_integrity'' False [
    Plain ''flags'' (TInt I8 False),
    Plain ''csum_type'' (TEnum ''blk_integrity_checksum'' I8),
    Plain ''metadata_size'' (TInt I8 False),
    Plain ''pi_offset'' (TInt I8 False),
    Plain ''interval_exp'' (TInt I8 False),
    Plain ''tag_size'' (TInt I8 False),
    Plain ''pi_tuple_size'' (TInt I8 False)]"

definition st_blk_io_trace2 :: ty where
  "st_blk_io_trace2 = TStruct ''blk_io_trace2'' False [
    Plain ''magic'' td___u32,
    Plain ''sequence'' td___u32,
    Plain ''time'' td___u64,
    Plain ''sector'' td___u64,
    Plain ''bytes'' td___u32,
    Plain ''pid'' td___u32,
    Plain ''action'' td___u64,
    Plain ''device'' td___u32,
    Plain ''cpu'' td___u32,
    Plain ''error'' td___u16,
    Plain ''pdu_len'' td___u16,
    Plain ''pad'' (TArr td___u8 12)]"

definition st_sbitmap :: ty where
  "st_sbitmap = TStruct ''sbitmap'' False [
    Plain ''depth'' (TInt I32 False),
    Plain ''shift'' (TInt I32 False),
    Plain ''map_nr'' (TInt I32 False),
    Plain ''round_robin'' td_bool,
    Plain ''map'' (TPtr ''struct sbitmap_word''),
    Plain ''alloc_hint'' (TPtr ''unsigned int'')]"

definition st_rq_list :: ty where
  "st_rq_list = TStruct ''rq_list'' False [
    Plain ''head'' (TPtr ''struct request''),
    Plain ''tail'' (TPtr ''struct request'')]"

definition st_blkg_iostat :: ty where
  "st_blkg_iostat = TStruct ''blkg_iostat'' False [
    Plain ''bytes'' (TArr td_u64 3),
    Plain ''ios'' (TArr td_u64 3)]"

definition st_blkg_policy_data :: ty where
  "st_blkg_policy_data = TStruct ''blkg_policy_data'' False [
    Plain ''blkg'' (TPtr ''struct blkcg_gq''),
    Plain ''plid'' (TInt I32 True),
    Plain ''online'' td_bool]"

definition st_screen_info :: ty where
  "st_screen_info = TStruct ''screen_info'' True [
    Plain ''orig_x'' td___u8,
    Plain ''orig_y'' td___u8,
    Plain ''ext_mem_k'' td___u16,
    Plain ''orig_video_page'' td___u16,
    Plain ''orig_video_mode'' td___u8,
    Plain ''orig_video_cols'' td___u8,
    Plain ''flags'' td___u8,
    Plain ''unused2'' td___u8,
    Plain ''orig_video_ega_bx'' td___u16,
    Plain ''unused3'' td___u16,
    Plain ''orig_video_lines'' td___u8,
    Plain ''orig_video_isVGA'' td___u8,
    Plain ''orig_video_points'' td___u16,
    Plain ''lfb_width'' td___u16,
    Plain ''lfb_height'' td___u16,
    Plain ''lfb_depth'' td___u16,
    Plain ''lfb_base'' td___u32,
    Plain ''lfb_size'' td___u32,
    Plain ''cl_magic'' td___u16,
    Plain ''cl_offset'' td___u16,
    Plain ''lfb_linelength'' td___u16,
    Plain ''red_size'' td___u8,
    Plain ''red_pos'' td___u8,
    Plain ''green_size'' td___u8,
    Plain ''green_pos'' td___u8,
    Plain ''blue_size'' td___u8,
    Plain ''blue_pos'' td___u8,
    Plain ''rsvd_size'' td___u8,
    Plain ''rsvd_pos'' td___u8,
    Plain ''vesapm_seg'' td___u16,
    Plain ''vesapm_off'' td___u16,
    Plain ''pages'' td___u16,
    Plain ''vesa_attributes'' td___u16,
    Plain ''capabilities'' td___u32,
    Plain ''ext_lfb_base'' td___u32,
    Plain ''_reserved'' (TArr td___u8 2)]"

definition st_setup_header :: ty where
  "st_setup_header = TStruct ''setup_header'' True [
    Plain ''setup_sects'' td___u8,
    Plain ''root_flags'' td___u16,
    Plain ''syssize'' td___u32,
    Plain ''ram_size'' td___u16,
    Plain ''vid_mode'' td___u16,
    Plain ''root_dev'' td___u16,
    Plain ''boot_flag'' td___u16,
    Plain ''jump'' td___u16,
    Plain ''header'' td___u32,
    Plain ''version'' td___u16,
    Plain ''realmode_swtch'' td___u32,
    Plain ''start_sys_seg'' td___u16,
    Plain ''kernel_version'' td___u16,
    Plain ''type_of_loader'' td___u8,
    Plain ''loadflags'' td___u8,
    Plain ''setup_move_size'' td___u16,
    Plain ''code32_start'' td___u32,
    Plain ''ramdisk_image'' td___u32,
    Plain ''ramdisk_size'' td___u32,
    Plain ''bootsect_kludge'' td___u32,
    Plain ''heap_end_ptr'' td___u16,
    Plain ''ext_loader_ver'' td___u8,
    Plain ''ext_loader_type'' td___u8,
    Plain ''cmd_line_ptr'' td___u32,
    Plain ''initrd_addr_max'' td___u32,
    Plain ''kernel_alignment'' td___u32,
    Plain ''relocatable_kernel'' td___u8,
    Plain ''min_alignment'' td___u8,
    Plain ''xloadflags'' td___u16,
    Plain ''cmdline_size'' td___u32,
    Plain ''hardware_subarch'' td___u32,
    Plain ''hardware_subarch_data'' td___u64,
    Plain ''payload_offset'' td___u32,
    Plain ''payload_length'' td___u32,
    Plain ''setup_data'' td___u64,
    Plain ''pref_address'' td___u64,
    Plain ''init_size'' td___u32,
    Plain ''handover_offset'' td___u32,
    Plain ''kernel_info_offset'' td___u32]"

definition st_edd_device_params :: ty where
  "st_edd_device_params = TStruct ''edd_device_params'' True [
    Plain ''length'' td___u16,
    Plain ''info_flags'' td___u16,
    Plain ''num_default_cylinders'' td___u32,
    Plain ''num_default_heads'' td___u32,
    Plain ''sectors_per_track'' td___u32,
    Plain ''number_of_sectors'' td___u64,
    Plain ''bytes_per_sector'' td___u16,
    Plain ''dpte_ptr'' td___u32,
    Plain ''key'' td___u16,
    Plain ''device_path_info_length'' td___u8,
    Plain ''reserved2'' td___u8,
    Plain ''reserved3'' td___u16,
    Plain ''host_bus_type'' (TArr td___u8 4),
    Plain ''interface_type'' (TArr td___u8 8),
    Plain ''interface_path'' (TUnion '''' False [
      Plain ''isa'' (TStruct '''' False [
        Plain ''base_address'' td___u16,
        Plain ''reserved1'' td___u16,
        Plain ''reserved2'' td___u32]),
      Plain ''pci'' (TStruct '''' False [
        Plain ''bus'' td___u8,
        Plain ''slot'' td___u8,
        Plain ''function'' td___u8,
        Plain ''channel'' td___u8,
        Plain ''reserved'' td___u32]),
      Plain ''ibnd'' (TStruct '''' False [
        Plain ''reserved'' td___u64]),
      Plain ''xprs'' (TStruct '''' False [
        Plain ''reserved'' td___u64]),
      Plain ''htpt'' (TStruct '''' False [
        Plain ''reserved'' td___u64]),
      Plain ''unknown'' (TStruct '''' False [
        Plain ''reserved'' td___u64])]),
    Plain ''device_path'' (TUnion '''' False [
      Plain ''ata'' (TStruct '''' False [
        Plain ''device'' td___u8,
        Plain ''reserved1'' td___u8,
        Plain ''reserved2'' td___u16,
        Plain ''reserved3'' td___u32,
        Plain ''reserved4'' td___u64]),
      Plain ''atapi'' (TStruct '''' False [
        Plain ''device'' td___u8,
        Plain ''lun'' td___u8,
        Plain ''reserved1'' td___u8,
        Plain ''reserved2'' td___u8,
        Plain ''reserved3'' td___u32,
        Plain ''reserved4'' td___u64]),
      Plain ''scsi'' (TStruct '''' True [
        Plain ''id'' td___u16,
        Plain ''lun'' td___u64,
        Plain ''reserved1'' td___u16,
        Plain ''reserved2'' td___u32]),
      Plain ''usb'' (TStruct '''' False [
        Plain ''serial_number'' td___u64,
        Plain ''reserved'' td___u64]),
      Plain ''i1394'' (TStruct '''' False [
        Plain ''eui'' td___u64,
        Plain ''reserved'' td___u64]),
      Plain ''fibre'' (TStruct '''' False [
        Plain ''wwid'' td___u64,
        Plain ''lun'' td___u64]),
      Plain ''i2o'' (TStruct '''' False [
        Plain ''identity_tag'' td___u64,
        Plain ''reserved'' td___u64]),
      Plain ''raid'' (TStruct '''' False [
        Plain ''array_number'' td___u32,
        Plain ''reserved1'' td___u32,
        Plain ''reserved2'' td___u64]),
      Plain ''sata'' (TStruct '''' False [
        Plain ''device'' td___u8,
        Plain ''reserved1'' td___u8,
        Plain ''reserved2'' td___u16,
        Plain ''reserved3'' td___u32,
        Plain ''reserved4'' td___u64]),
      Plain ''unknown'' (TStruct '''' False [
        Plain ''reserved1'' td___u64,
        Plain ''reserved2'' td___u64])]),
    Plain ''reserved4'' td___u8,
    Plain ''checksum'' td___u8]"

definition st_rcuwait :: ty where
  "st_rcuwait = TStruct ''rcuwait'' False [
    Plain ''task'' (TPtr ''struct task_struct'')]"

definition st_btf_func_model :: ty where
  "st_btf_func_model = TStruct ''btf_func_model'' False [
    Plain ''ret_size'' td_u8,
    Plain ''ret_flags'' td_u8,
    Plain ''nr_args'' td_u8,
    Plain ''arg_size'' (TArr td_u8 12),
    Plain ''arg_flags'' (TArr td_u8 12)]"

definition un_bpf_attr :: ty where
  "un_bpf_attr = TUnion ''bpf_attr'' False [
    Plain '''' (TStruct '''' False [
      Plain ''map_type'' td___u32,
      Plain ''key_size'' td___u32,
      Plain ''value_size'' td___u32,
      Plain ''max_entries'' td___u32,
      Plain ''map_flags'' td___u32,
      Plain ''inner_map_fd'' td___u32,
      Plain ''numa_node'' td___u32,
      Plain ''map_name'' (TArr (TInt I8 True) 16),
      Plain ''map_ifindex'' td___u32,
      Plain ''btf_fd'' td___u32,
      Plain ''btf_key_type_id'' td___u32,
      Plain ''btf_value_type_id'' td___u32,
      Plain ''btf_vmlinux_value_type_id'' td___u32,
      Plain ''map_extra'' td___u64,
      Plain ''value_type_btf_obj_fd'' td___s32,
      Plain ''map_token_fd'' td___s32,
      Plain ''excl_prog_hash'' td___u64,
      Plain ''excl_prog_hash_size'' td___u32]),
    Plain '''' (TStruct '''' False [
      Plain ''map_fd'' td___u32,
      Plain ''key'' td___u64,
      Plain '''' (TUnion '''' False [
        Plain ''value'' td___u64,
        Plain ''next_key'' td___u64]),
      Plain ''flags'' td___u64]),
    Plain ''batch'' (TStruct '''' False [
      Plain ''in_batch'' td___u64,
      Plain ''out_batch'' td___u64,
      Plain ''keys'' td___u64,
      Plain ''values'' td___u64,
      Plain ''count'' td___u32,
      Plain ''map_fd'' td___u32,
      Plain ''elem_flags'' td___u64,
      Plain ''flags'' td___u64]),
    Plain '''' (TStruct '''' False [
      Plain ''prog_type'' td___u32,
      Plain ''insn_cnt'' td___u32,
      Plain ''insns'' td___u64,
      Plain ''license'' td___u64,
      Plain ''log_level'' td___u32,
      Plain ''log_size'' td___u32,
      Plain ''log_buf'' td___u64,
      Plain ''kern_version'' td___u32,
      Plain ''prog_flags'' td___u32,
      Plain ''prog_name'' (TArr (TInt I8 True) 16),
      Plain ''prog_ifindex'' td___u32,
      Plain ''expected_attach_type'' td___u32,
      Plain ''prog_btf_fd'' td___u32,
      Plain ''func_info_rec_size'' td___u32,
      Plain ''func_info'' td___u64,
      Plain ''func_info_cnt'' td___u32,
      Plain ''line_info_rec_size'' td___u32,
      Plain ''line_info'' td___u64,
      Plain ''line_info_cnt'' td___u32,
      Plain ''attach_btf_id'' td___u32,
      Plain '''' (TUnion '''' False [
        Plain ''attach_prog_fd'' td___u32,
        Plain ''attach_btf_obj_fd'' td___u32]),
      Plain ''core_relo_cnt'' td___u32,
      Plain ''fd_array'' td___u64,
      Plain ''core_relos'' td___u64,
      Plain ''core_relo_rec_size'' td___u32,
      Plain ''log_true_size'' td___u32,
      Plain ''prog_token_fd'' td___s32,
      Plain ''fd_array_cnt'' td___u32,
      Plain ''signature'' td___u64,
      Plain ''signature_size'' td___u32,
      Plain ''keyring_id'' td___s32]),
    Plain '''' (TStruct '''' False [
      Plain ''pathname'' td___u64,
      Plain ''bpf_fd'' td___u32,
      Plain ''file_flags'' td___u32,
      Plain ''path_fd'' td___s32]),
    Plain '''' (TStruct '''' False [
      Plain '''' (TUnion '''' False [
        Plain ''target_fd'' td___u32,
        Plain ''target_ifindex'' td___u32]),
      Plain ''attach_bpf_fd'' td___u32,
      Plain ''attach_type'' td___u32,
      Plain ''attach_flags'' td___u32,
      Plain ''replace_bpf_fd'' td___u32,
      Plain '''' (TUnion '''' False [
        Plain ''relative_fd'' td___u32,
        Plain ''relative_id'' td___u32]),
      Plain ''expected_revision'' td___u64]),
    Plain ''test'' (TStruct '''' False [
      Plain ''prog_fd'' td___u32,
      Plain ''retval'' td___u32,
      Plain ''data_size_in'' td___u32,
      Plain ''data_size_out'' td___u32,
      Plain ''data_in'' td___u64,
      Plain ''data_out'' td___u64,
      Plain ''repeat'' td___u32,
      Plain ''duration'' td___u32,
      Plain ''ctx_size_in'' td___u32,
      Plain ''ctx_size_out'' td___u32,
      Plain ''ctx_in'' td___u64,
      Plain ''ctx_out'' td___u64,
      Plain ''flags'' td___u32,
      Plain ''cpu'' td___u32,
      Plain ''batch_size'' td___u32]),
    Plain '''' (TStruct '''' False [
      Plain '''' (TUnion '''' False [
        Plain ''start_id'' td___u32,
        Plain ''prog_id'' td___u32,
        Plain ''map_id'' td___u32,
        Plain ''btf_id'' td___u32,
        Plain ''link_id'' td___u32]),
      Plain ''next_id'' td___u32,
      Plain ''open_flags'' td___u32,
      Plain ''fd_by_id_token_fd'' td___s32]),
    Plain ''info'' (TStruct '''' False [
      Plain ''bpf_fd'' td___u32,
      Plain ''info_len'' td___u32,
      Plain ''info'' td___u64]),
    Plain ''query'' (TStruct '''' False [
      Plain '''' (TUnion '''' False [
        Plain ''target_fd'' td___u32,
        Plain ''target_ifindex'' td___u32]),
      Plain ''attach_type'' td___u32,
      Plain ''query_flags'' td___u32,
      Plain ''attach_flags'' td___u32,
      Plain ''prog_ids'' td___u64,
      Plain '''' (TUnion '''' False [
        Plain ''prog_cnt'' td___u32,
        Plain ''count'' td___u32]),
      Plain ''prog_attach_flags'' td___u64,
      Plain ''link_ids'' td___u64,
      Plain ''link_attach_flags'' td___u64,
      Plain ''revision'' td___u64]),
    Plain ''raw_tracepoint'' (TStruct '''' False [
      Plain ''name'' td___u64,
      Plain ''prog_fd'' td___u32,
      Plain ''cookie'' td___u64]),
    Plain '''' (TStruct '''' False [
      Plain ''btf'' td___u64,
      Plain ''btf_log_buf'' td___u64,
      Plain ''btf_size'' td___u32,
      Plain ''btf_log_size'' td___u32,
      Plain ''btf_log_level'' td___u32,
      Plain ''btf_log_true_size'' td___u32,
      Plain ''btf_flags'' td___u32,
      Plain ''btf_token_fd'' td___s32]),
    Plain ''task_fd_query'' (TStruct '''' False [
      Plain ''pid'' td___u32,
      Plain ''fd'' td___u32,
      Plain ''flags'' td___u32,
      Plain ''buf_len'' td___u32,
      Plain ''buf'' td___u64,
      Plain ''prog_id'' td___u32,
      Plain ''fd_type'' td___u32,
      Plain ''probe_offset'' td___u64,
      Plain ''probe_addr'' td___u64]),
    Plain ''link_create'' (TStruct '''' False [
      Plain '''' (TUnion '''' False [
        Plain ''prog_fd'' td___u32,
        Plain ''map_fd'' td___u32]),
      Plain '''' (TUnion '''' False [
        Plain ''target_fd'' td___u32,
        Plain ''target_ifindex'' td___u32]),
      Plain ''attach_type'' td___u32,
      Plain ''flags'' td___u32,
      Plain '''' (TUnion '''' False [
        Plain ''target_btf_id'' td___u32,
        Plain '''' (TStruct '''' False [
          Plain ''iter_info'' td___u64,
          Plain ''iter_info_len'' td___u32]),
        Plain ''perf_event'' (TStruct '''' False [
          Plain ''bpf_cookie'' td___u64]),
        Plain ''kprobe_multi'' (TStruct '''' False [
          Plain ''flags'' td___u32,
          Plain ''cnt'' td___u32,
          Plain ''syms'' td___u64,
          Plain ''addrs'' td___u64,
          Plain ''cookies'' td___u64]),
        Plain ''tracing'' (TStruct '''' False [
          Plain ''target_btf_id'' td___u32,
          Plain ''cookie'' td___u64]),
        Plain ''netfilter'' (TStruct '''' False [
          Plain ''pf'' td___u32,
          Plain ''hooknum'' td___u32,
          Plain ''priority'' td___s32,
          Plain ''flags'' td___u32]),
        Plain ''tcx'' (TStruct '''' False [
          Plain '''' (TUnion '''' False [
            Plain ''relative_fd'' td___u32,
            Plain ''relative_id'' td___u32]),
          Plain ''expected_revision'' td___u64]),
        Plain ''uprobe_multi'' (TStruct '''' False [
          Plain ''path'' td___u64,
          Plain ''offsets'' td___u64,
          Plain ''ref_ctr_offsets'' td___u64,
          Plain ''cookies'' td___u64,
          Plain ''cnt'' td___u32,
          Plain ''flags'' td___u32,
          Plain ''pid'' td___u32]),
        Plain ''netkit'' (TStruct '''' False [
          Plain '''' (TUnion '''' False [
            Plain ''relative_fd'' td___u32,
            Plain ''relative_id'' td___u32]),
          Plain ''expected_revision'' td___u64]),
        Plain ''cgroup'' (TStruct '''' False [
          Plain '''' (TUnion '''' False [
            Plain ''relative_fd'' td___u32,
            Plain ''relative_id'' td___u32]),
          Plain ''expected_revision'' td___u64])])]),
    Plain ''link_update'' (TStruct '''' False [
      Plain ''link_fd'' td___u32,
      Plain '''' (TUnion '''' False [
        Plain ''new_prog_fd'' td___u32,
        Plain ''new_map_fd'' td___u32]),
      Plain ''flags'' td___u32,
      Plain '''' (TUnion '''' False [
        Plain ''old_prog_fd'' td___u32,
        Plain ''old_map_fd'' td___u32])]),
    Plain ''link_detach'' (TStruct '''' False [
      Plain ''link_fd'' td___u32]),
    Plain ''enable_stats'' (TStruct '''' False [
      Plain ''type'' td___u32]),
    Plain ''iter_create'' (TStruct '''' False [
      Plain ''link_fd'' td___u32,
      Plain ''flags'' td___u32]),
    Plain ''prog_bind_map'' (TStruct '''' False [
      Plain ''prog_fd'' td___u32,
      Plain ''map_fd'' td___u32,
      Plain ''flags'' td___u32]),
    Plain ''token_create'' (TStruct '''' False [
      Plain ''flags'' td___u32,
      Plain ''bpffs_fd'' td___u32]),
    Plain ''prog_stream_read'' (TStruct '''' False [
      Plain ''stream_buf'' td___u64,
      Plain ''stream_buf_len'' td___u32,
      Plain ''stream_id'' td___u32,
      Plain ''prog_fd'' td___u32]),
    Plain ''prog_assoc_struct_ops'' (TStruct '''' False [
      Plain ''map_fd'' td___u32,
      Plain ''prog_fd'' td___u32,
      Plain ''flags'' td___u32])]"

definition st_bpf_map_desc :: ty where
  "st_bpf_map_desc = TStruct ''bpf_map_desc'' False [
    Plain ''ptr'' (TPtr ''struct bpf_map''),
    Plain ''uid'' (TInt I32 True)]"

definition st_xdp_buff :: ty where
  "st_xdp_buff = TStruct ''xdp_buff'' False [
    Plain ''data'' (TPtr ''void''),
    Plain ''data_end'' (TPtr ''void''),
    Plain ''data_meta'' (TPtr ''void''),
    Plain ''data_hard_start'' (TPtr ''void''),
    Plain ''rxq'' (TPtr ''struct xdp_rxq_info''),
    Plain ''txq'' (TPtr ''struct xdp_txq_info''),
    Plain '''' (TUnion '''' False [
      Plain '''' (TStruct '''' False [
        Plain ''frame_sz'' td_u32,
        Plain ''flags'' td_u32]),
      Plain ''frame_sz_flags_init'' td_u64])]"

definition st_bpf_sock :: ty where
  "st_bpf_sock = TStruct ''bpf_sock'' False [
    Plain ''bound_dev_if'' td___u32,
    Plain ''family'' td___u32,
    Plain ''type'' td___u32,
    Plain ''protocol'' td___u32,
    Plain ''mark'' td___u32,
    Plain ''priority'' td___u32,
    Plain ''src_ip4'' td___u32,
    Plain ''src_ip6'' (TArr td___u32 4),
    Plain ''src_port'' td___u32,
    Plain ''dst_port'' td___be16,
    Plain ''dst_ip4'' td___u32,
    Plain ''dst_ip6'' (TArr td___u32 4),
    Plain ''state'' td___u32,
    Plain ''rx_queue_mapping'' td___s32]"

definition st_hlist_nulls_node :: ty where
  "st_hlist_nulls_node = TStruct ''hlist_nulls_node'' False [
    Plain ''next'' (TPtr ''struct hlist_nulls_node''),
    Plain ''pprev'' (TPtr ''struct hlist_nulls_node *'')]"

definition st_page_frag :: ty where
  "st_page_frag = TStruct ''page_frag'' False [
    Plain ''page'' (TPtr ''struct page''),
    Plain ''offset'' td___u32,
    Plain ''size'' td___u32]"

definition st_sock_cgroup_data :: ty where
  "st_sock_cgroup_data = TStruct ''sock_cgroup_data'' False [
    Plain ''cgroup'' (TPtr ''struct cgroup''),
    Plain ''classid'' td_u32,
    Plain ''prioidx'' td_u16]"

definition st_bpf_sock_addr :: ty where
  "st_bpf_sock_addr = TStruct ''bpf_sock_addr'' False [
    Plain ''user_family'' td___u32,
    Plain ''user_ip4'' td___u32,
    Plain ''user_ip6'' (TArr td___u32 4),
    Plain ''user_port'' td___u32,
    Plain ''family'' td___u32,
    Plain ''type'' td___u32,
    Plain ''protocol'' td___u32,
    Plain ''msg_src_ip4'' td___u32,
    Plain ''msg_src_ip6'' (TArr td___u32 4),
    Plain '''' (TUnion '''' False [
      Plain ''sk'' (TPtr ''struct bpf_sock'')])]"

definition st_bpf_sock_ops :: ty where
  "st_bpf_sock_ops = TStruct ''bpf_sock_ops'' False [
    Plain ''op'' td___u32,
    Plain '''' (TUnion '''' False [
      Plain ''args'' (TArr td___u32 4),
      Plain ''reply'' td___u32,
      Plain ''replylong'' (TArr td___u32 4)]),
    Plain ''family'' td___u32,
    Plain ''remote_ip4'' td___u32,
    Plain ''local_ip4'' td___u32,
    Plain ''remote_ip6'' (TArr td___u32 4),
    Plain ''local_ip6'' (TArr td___u32 4),
    Plain ''remote_port'' td___u32,
    Plain ''local_port'' td___u32,
    Plain ''is_fullsock'' td___u32,
    Plain ''snd_cwnd'' td___u32,
    Plain ''srtt_us'' td___u32,
    Plain ''bpf_sock_ops_cb_flags'' td___u32,
    Plain ''state'' td___u32,
    Plain ''rtt_min'' td___u32,
    Plain ''snd_ssthresh'' td___u32,
    Plain ''rcv_nxt'' td___u32,
    Plain ''snd_nxt'' td___u32,
    Plain ''snd_una'' td___u32,
    Plain ''mss_cache'' td___u32,
    Plain ''ecn_flags'' td___u32,
    Plain ''rate_delivered'' td___u32,
    Plain ''rate_interval_us'' td___u32,
    Plain ''packets_out'' td___u32,
    Plain ''retrans_out'' td___u32,
    Plain ''total_retrans'' td___u32,
    Plain ''segs_in'' td___u32,
    Plain ''data_segs_in'' td___u32,
    Plain ''segs_out'' td___u32,
    Plain ''data_segs_out'' td___u32,
    Plain ''lost_out'' td___u32,
    Plain ''sacked_out'' td___u32,
    Plain ''sk_txhash'' td___u32,
    Plain ''bytes_received'' td___u64,
    Plain ''bytes_acked'' td___u64,
    Plain '''' (TUnion '''' False [
      Plain ''sk'' (TPtr ''struct bpf_sock'')]),
    Plain '''' (TUnion '''' False [
      Plain ''skb_data'' (TPtr ''void'')]),
    Plain '''' (TUnion '''' False [
      Plain ''skb_data_end'' (TPtr ''void'')]),
    Plain ''skb_len'' td___u32,
    Plain ''skb_tcp_flags'' td___u32,
    Plain ''skb_hwtstamp'' td___u64]"

definition st_bpf_sock_ops_kern :: ty where
  "st_bpf_sock_ops_kern = TStruct ''bpf_sock_ops_kern'' False [
    Plain ''sk'' (TPtr ''struct sock''),
    Plain '''' (TUnion '''' False [
      Plain ''args'' (TArr td_u32 4),
      Plain ''reply'' td_u32,
      Plain ''replylong'' (TArr td_u32 4)]),
    Plain ''syn_skb'' (TPtr ''struct sk_buff''),
    Plain ''skb'' (TPtr ''struct sk_buff''),
    Plain ''skb_data_end'' (TPtr ''void''),
    Plain ''op'' td_u8,
    Plain ''is_fullsock'' td_u8,
    Plain ''is_locked_tcp_sock'' td_u8,
    Plain ''remaining_opt_len'' td_u8,
    Plain ''temp'' td_u64]"

definition st_sk_msg_md :: ty where
  "st_sk_msg_md = TStruct ''sk_msg_md'' False [
    Plain '''' (TUnion '''' False [
      Plain ''data'' (TPtr ''void'')]),
    Plain '''' (TUnion '''' False [
      Plain ''data_end'' (TPtr ''void'')]),
    Plain ''family'' td___u32,
    Plain ''remote_ip4'' td___u32,
    Plain ''local_ip4'' td___u32,
    Plain ''remote_ip6'' (TArr td___u32 4),
    Plain ''local_ip6'' (TArr td___u32 4),
    Plain ''remote_port'' td___u32,
    Plain ''local_port'' td___u32,
    Plain ''size'' td___u32,
    Plain '''' (TUnion '''' False [
      Plain ''sk'' (TPtr ''struct bpf_sock'')])]"

definition st_bpf_sockopt :: ty where
  "st_bpf_sockopt = TStruct ''bpf_sockopt'' False [
    Plain '''' (TUnion '''' False [
      Plain ''sk'' (TPtr ''struct bpf_sock'')]),
    Plain '''' (TUnion '''' False [
      Plain ''optval'' (TPtr ''void'')]),
    Plain '''' (TUnion '''' False [
      Plain ''optval_end'' (TPtr ''void'')]),
    Plain ''level'' td___s32,
    Plain ''optname'' td___s32,
    Plain ''optlen'' td___s32,
    Plain ''retval'' td___s32]"

definition st_sk_reuseport_md :: ty where
  "st_sk_reuseport_md = TStruct ''sk_reuseport_md'' False [
    Plain '''' (TUnion '''' False [
      Plain ''data'' (TPtr ''void'')]),
    Plain '''' (TUnion '''' False [
      Plain ''data_end'' (TPtr ''void'')]),
    Plain ''len'' td___u32,
    Plain ''eth_protocol'' td___u32,
    Plain ''ip_protocol'' td___u32,
    Plain ''bind_inany'' td___u32,
    Plain ''hash'' td___u32,
    Plain '''' (TUnion '''' False [
      Plain ''sk'' (TPtr ''struct bpf_sock'')]),
    Plain '''' (TUnion '''' False [
      Plain ''migrating_sk'' (TPtr ''struct bpf_sock'')])]"

definition st_bpf_sk_lookup :: ty where
  "st_bpf_sk_lookup = TStruct ''bpf_sk_lookup'' False [
    Plain '''' (TUnion '''' False [
      Plain '''' (TUnion '''' False [
        Plain ''sk'' (TPtr ''struct bpf_sock'')]),
      Plain ''cookie'' td___u64]),
    Plain ''family'' td___u32,
    Plain ''protocol'' td___u32,
    Plain ''remote_ip4'' td___u32,
    Plain ''remote_ip6'' (TArr td___u32 4),
    Plain ''remote_port'' td___be16,
    Plain ''local_ip4'' td___u32,
    Plain ''local_ip6'' (TArr td___u32 4),
    Plain ''local_port'' td___u32,
    Plain ''ingress_ifindex'' td___u32]"

definition st_bpf_sk_lookup_kern :: ty where
  "st_bpf_sk_lookup_kern = TStruct ''bpf_sk_lookup_kern'' False [
    Plain ''family'' td_u16,
    Plain ''protocol'' td_u16,
    Plain ''sport'' td___be16,
    Plain ''dport'' td_u16,
    Plain ''v4'' (TStruct '''' False [
      Plain ''saddr'' td___be32,
      Plain ''daddr'' td___be32]),
    Plain ''v6'' (TStruct '''' False [
      Plain ''saddr'' (TPtr ''struct in6_addr''),
      Plain ''daddr'' (TPtr ''struct in6_addr'')]),
    Plain ''selected_sk'' (TPtr ''struct sock''),
    Plain ''ingress_ifindex'' td_u32,
    Plain ''no_reuseport'' td_bool]"

definition st_bpf_dummy_ops :: ty where
  "st_bpf_dummy_ops = TStruct ''bpf_dummy_ops'' False [
    Plain ''test_1'' (TFun ''int (*)(struct bpf_dummy_ops_state *)''),
    Plain ''test_2''
      (TFun ''int (*)(struct bpf_dummy_ops_state *, int, short unsigned int, char, long unsigned int)''),
    Plain ''test_sleepable'' (TFun ''int (*)(struct bpf_dummy_ops_state *)'')]"

definition st_freader :: ty where
  "st_freader = TStruct ''freader'' False [
    Plain ''buf'' (TPtr ''void''),
    Plain ''buf_sz'' td_u32,
    Plain ''err'' (TInt I32 True),
    Plain '''' (TUnion '''' False [
      Plain '''' (TStruct '''' False [
        Plain ''file'' (TPtr ''struct file''),
        Plain ''folio'' (TPtr ''struct folio''),
        Plain ''addr'' (TPtr ''void''),
        Plain ''folio_off'' td_loff_t,
        Plain ''may_fault'' td_bool]),
      Plain '''' (TStruct '''' False [
        Plain ''data'' (TPtr ''char''),
        Plain ''data_sz'' td_u64])])]"

definition st_bpf_fib_lookup :: ty where
  "st_bpf_fib_lookup = TStruct ''bpf_fib_lookup'' False [
    Plain ''family'' td___u8,
    Plain ''l4_protocol'' td___u8,
    Plain ''sport'' td___be16,
    Plain ''dport'' td___be16,
    Plain '''' (TUnion '''' False [
      Plain ''tot_len'' td___u16,
      Plain ''mtu_result'' td___u16]),
    Plain ''ifindex'' td___u32,
    Plain '''' (TUnion '''' False [
      Plain ''tos'' td___u8,
      Plain ''flowinfo'' td___be32,
      Plain ''rt_metric'' td___u32]),
    Plain '''' (TUnion '''' False [
      Plain ''ipv4_src'' td___be32,
      Plain ''ipv6_src'' (TArr td___u32 4)]),
    Plain '''' (TUnion '''' False [
      Plain ''ipv4_dst'' td___be32,
      Plain ''ipv6_dst'' (TArr td___u32 4)]),
    Plain '''' (TUnion '''' False [
      Plain '''' (TStruct '''' False [
        Plain ''h_vlan_proto'' td___be16,
        Plain ''h_vlan_TCI'' td___be16]),
      Plain ''tbid'' td___u32]),
    Plain '''' (TUnion '''' False [
      Plain '''' (TStruct '''' False [
        Plain ''mark'' td___u32]),
      Plain '''' (TStruct '''' False [
        Plain ''smac'' (TArr td___u8 6),
        Plain ''dmac'' (TArr td___u8 6)])])]"

definition st_bpf_flow_keys :: ty where
  "st_bpf_flow_keys = TStruct ''bpf_flow_keys'' False [
    Plain ''nhoff'' td___u16,
    Plain ''thoff'' td___u16,
    Plain ''addr_proto'' td___u16,
    Plain ''is_frag'' td___u8,
    Plain ''is_first_frag'' td___u8,
    Plain ''is_encap'' td___u8,
    Plain ''ip_proto'' td___u8,
    Plain ''n_proto'' td___be16,
    Plain ''sport'' td___be16,
    Plain ''dport'' td___be16,
    Plain '''' (TUnion '''' False [
      Plain '''' (TStruct '''' False [
        Plain ''ipv4_src'' td___be32,
        Plain ''ipv4_dst'' td___be32]),
      Plain '''' (TStruct '''' False [
        Plain ''ipv6_src'' (TArr td___u32 4),
        Plain ''ipv6_dst'' (TArr td___u32 4)])]),
    Plain ''flags'' td___u32,
    Plain ''flow_label'' td___be32]"

definition st_bpf_func_proto :: ty where
  "st_bpf_func_proto = TStruct ''bpf_func_proto'' False [
    Plain ''func'' (TFun ''u64 (*)(u64, u64, u64, u64, u64)''),
    Plain ''gpl_only'' td_bool,
    Plain ''pkt_access'' td_bool,
    Plain ''might_sleep'' td_bool,
    Plain ''allow_fastcall'' td_bool,
    Plain ''ret_type'' (TEnum ''bpf_return_type'' I32),
    Plain '''' (TUnion '''' False [
      Plain '''' (TStruct '''' False [
        Plain ''arg1_type'' (TEnum ''bpf_arg_type'' I32),
        Plain ''arg2_type'' (TEnum ''bpf_arg_type'' I32),
        Plain ''arg3_type'' (TEnum ''bpf_arg_type'' I32),
        Plain ''arg4_type'' (TEnum ''bpf_arg_type'' I32),
        Plain ''arg5_type'' (TEnum ''bpf_arg_type'' I32)]),
      Plain ''arg_type'' (TArr (TEnum ''bpf_arg_type'' I32) 5)]),
    Plain '''' (TUnion '''' False [
      Plain '''' (TStruct '''' False [
        Plain ''arg1_btf_id'' (TPtr ''u32''),
        Plain ''arg2_btf_id'' (TPtr ''u32''),
        Plain ''arg3_btf_id'' (TPtr ''u32''),
        Plain ''arg4_btf_id'' (TPtr ''u32''),
        Plain ''arg5_btf_id'' (TPtr ''u32'')]),
      Plain ''arg_btf_id'' (TArr (TPtr ''u32'') 5),
      Plain '''' (TStruct '''' False [
        Plain ''arg1_size'' td_size_t,
        Plain ''arg2_size'' td_size_t,
        Plain ''arg3_size'' td_size_t,
        Plain ''arg4_size'' td_size_t,
        Plain ''arg5_size'' td_size_t]),
      Plain ''arg_size'' (TArr td_size_t 5)]),
    Plain ''ret_btf_id'' (TPtr ''int''),
    Plain ''allowed'' (TFun ''bool (*)(const struct bpf_prog *)'')]"

definition st_tnum :: ty where
  "st_tnum = TStruct ''tnum'' False [
    Plain ''value'' td_u64,
    Plain ''mask'' td_u64]"

definition st_bpf_retval_range :: ty where
  "st_bpf_retval_range = TStruct ''bpf_retval_range'' False [
    Plain ''minval'' td_s32,
    Plain ''maxval'' td_s32]"

definition st_bpf_id_pair :: ty where
  "st_bpf_id_pair = TStruct ''bpf_id_pair'' False [
    Plain ''old'' td_u32,
    Plain ''cur'' td_u32]"

definition st_bpf_idset :: ty where
  "st_bpf_idset = TStruct ''bpf_idset'' False [
    Plain ''num_ids'' td_u32,
    Plain ''entries'' (TArr (TStruct '''' False [
      Plain ''id'' td_u32,
      Plain ''cnt'' td_u32]) 600)]"

definition st_bpf_insn :: ty where
  "st_bpf_insn = TStruct ''bpf_insn'' False [
    Plain ''code'' td___u8,
    Bits ''dst_reg'' td___u8 4,
    Bits ''src_reg'' td___u8 4,
    Plain ''off'' td___s16,
    Plain ''imm'' td___s32]"

definition st_bpf_insn_access_aux :: ty where
  "st_bpf_insn_access_aux = TStruct ''bpf_insn_access_aux'' False [
    Plain ''reg_type'' (TEnum ''bpf_reg_type'' I32),
    Plain ''is_ldsx'' td_bool,
    Plain '''' (TUnion '''' False [
      Plain ''ctx_field_size'' (TInt I32 True),
      Plain '''' (TStruct '''' False [
        Plain ''btf'' (TPtr ''struct btf''),
        Plain ''btf_id'' td_u32,
        Plain ''ref_obj_id'' td_u32])]),
    Plain ''log'' (TPtr ''struct bpf_verifier_log''),
    Plain ''is_retval'' td_bool]"

definition st_bpf_map_ptr_state :: ty where
  "st_bpf_map_ptr_state = TStruct ''bpf_map_ptr_state'' False [
    Plain ''map_ptr'' (TPtr ''struct bpf_map''),
    Plain ''poison'' td_bool,
    Plain ''unpriv'' td_bool]"

definition st_bpf_loop_inline_state :: ty where
  "st_bpf_loop_inline_state = TStruct ''bpf_loop_inline_state'' False [
    Bits ''initialized'' (TInt I32 False) 1,
    Bits ''fit_for_inline'' (TInt I32 False) 1,
    Plain ''callback_subprogno'' td_u32]"

definition st_bpf_iter__bpf_map_elem :: ty where
  "st_bpf_iter__bpf_map_elem = TStruct ''bpf_iter__bpf_map_elem'' False [
    Plain '''' (TUnion '''' False [
      Plain ''meta'' (TPtr ''struct bpf_iter_meta'')]),
    Plain '''' (TUnion '''' False [
      Plain ''map'' (TPtr ''struct bpf_map'')]),
    Plain '''' (TUnion '''' False [
      Plain ''key'' (TPtr ''void'')]),
    Plain '''' (TUnion '''' False [
      Plain ''value'' (TPtr ''void'')])]"

definition st_bpf_iter__bpf_sk_storage_map :: ty where
  "st_bpf_iter__bpf_sk_storage_map = TStruct ''bpf_iter__bpf_sk_storage_map'' False [
    Plain '''' (TUnion '''' False [
      Plain ''meta'' (TPtr ''struct bpf_iter_meta'')]),
    Plain '''' (TUnion '''' False [
      Plain ''map'' (TPtr ''struct bpf_map'')]),
    Plain '''' (TUnion '''' False [
      Plain ''sk'' (TPtr ''struct sock'')]),
    Plain '''' (TUnion '''' False [
      Plain ''value'' (TPtr ''void'')])]"

definition st_bpf_iter__sockmap :: ty where
  "st_bpf_iter__sockmap = TStruct ''bpf_iter__sockmap'' False [
    Plain '''' (TUnion '''' False [
      Plain ''meta'' (TPtr ''struct bpf_iter_meta'')]),
    Plain '''' (TUnion '''' False [
      Plain ''map'' (TPtr ''struct bpf_map'')]),
    Plain '''' (TUnion '''' False [
      Plain ''key'' (TPtr ''void'')]),
    Plain '''' (TUnion '''' False [
      Plain ''sk'' (TPtr ''struct sock'')])]"

definition un_bpf_iter_link_info :: ty where
  "un_bpf_iter_link_info = TUnion ''bpf_iter_link_info'' False [
    Plain ''map'' (TStruct '''' False [
      Plain ''map_fd'' td___u32]),
    Plain ''cgroup'' (TStruct '''' False [
      Plain ''order'' (TEnum ''bpf_cgroup_iter_order'' I32),
      Plain ''cgroup_fd'' td___u32,
      Plain ''cgroup_id'' td___u64]),
    Plain ''task'' (TStruct '''' False [
      Plain ''tid'' td___u32,
      Plain ''pid'' td___u32,
      Plain ''pid_fd'' td___u32])]"

definition st_ma_state :: ty where
  "st_ma_state = TStruct ''ma_state'' False [
    Plain ''tree'' (TPtr ''struct maple_tree''),
    Plain ''index'' (TInt I64 False),
    Plain ''last'' (TInt I64 False),
    Plain ''node'' (TPtr ''struct maple_enode''),
    Plain ''min'' (TInt I64 False),
    Plain ''max'' (TInt I64 False),
    Plain ''sheaf'' (TPtr ''struct slab_sheaf''),
    Plain ''alloc'' (TPtr ''struct maple_node''),
    Plain ''node_request'' (TInt I64 False),
    Plain ''status'' (TEnum ''maple_status'' I32),
    Plain ''depth'' (TInt I8 False),
    Plain ''offset'' (TInt I8 False),
    Plain ''mas_flags'' (TInt I8 False),
    Plain ''end'' (TInt I8 False),
    Plain ''store_type'' (TEnum ''store_type'' I32)]"

definition st_bpf_jit_poke_descriptor :: ty where
  "st_bpf_jit_poke_descriptor = TStruct ''bpf_jit_poke_descriptor'' False [
    Plain ''tailcall_target'' (TPtr ''void''),
    Plain ''tailcall_bypass'' (TPtr ''void''),
    Plain ''bypass_addr'' (TPtr ''void''),
    Plain ''aux'' (TPtr ''void''),
    Plain '''' (TUnion '''' False [
      Plain ''tail_call'' (TStruct '''' False [
        Plain ''map'' (TPtr ''struct bpf_map''),
        Plain ''key'' td_u32])]),
    Plain ''tailcall_target_stable'' td_bool,
    Plain ''adj_off'' td_u8,
    Plain ''reason'' td_u16,
    Plain ''insn_idx'' td_u32]"

definition st_bpf_link_info :: ty where
  "st_bpf_link_info = TStruct ''bpf_link_info'' False [
    Plain ''type'' td___u32,
    Plain ''id'' td___u32,
    Plain ''prog_id'' td___u32,
    Plain '''' (TUnion '''' False [
      Plain ''raw_tracepoint'' (TStruct '''' False [
        Plain ''tp_name'' td___u64,
        Plain ''tp_name_len'' td___u32,
        Plain ''cookie'' td___u64]),
      Plain ''tracing'' (TStruct '''' False [
        Plain ''attach_type'' td___u32,
        Plain ''target_obj_id'' td___u32,
        Plain ''target_btf_id'' td___u32,
        Plain ''cookie'' td___u64]),
      Plain ''cgroup'' (TStruct '''' False [
        Plain ''cgroup_id'' td___u64,
        Plain ''attach_type'' td___u32]),
      Plain ''iter'' (TStruct '''' False [
        Plain ''target_name'' td___u64,
        Plain ''target_name_len'' td___u32,
        Plain '''' (TUnion '''' False [
          Plain ''map'' (TStruct '''' False [
            Plain ''map_id'' td___u32])]),
        Plain '''' (TUnion '''' False [
          Plain ''cgroup'' (TStruct '''' False [
            Plain ''cgroup_id'' td___u64,
            Plain ''order'' td___u32]),
          Plain ''task'' (TStruct '''' False [
            Plain ''tid'' td___u32,
            Plain ''pid'' td___u32])])]),
      Plain ''netns'' (TStruct '''' False [
        Plain ''netns_ino'' td___u32,
        Plain ''attach_type'' td___u32]),
      Plain ''xdp'' (TStruct '''' False [
        Plain ''ifindex'' td___u32]),
      Plain ''struct_ops'' (TStruct '''' False [
        Plain ''map_id'' td___u32]),
      Plain ''netfilter'' (TStruct '''' False [
        Plain ''pf'' td___u32,
        Plain ''hooknum'' td___u32,
        Plain ''priority'' td___s32,
        Plain ''flags'' td___u32]),
      Plain ''kprobe_multi'' (TStruct '''' False [
        Plain ''addrs'' td___u64,
        Plain ''count'' td___u32,
        Plain ''flags'' td___u32,
        Plain ''missed'' td___u64,
        Plain ''cookies'' td___u64]),
      Plain ''uprobe_multi'' (TStruct '''' False [
        Plain ''path'' td___u64,
        Plain ''offsets'' td___u64,
        Plain ''ref_ctr_offsets'' td___u64,
        Plain ''cookies'' td___u64,
        Plain ''path_size'' td___u32,
        Plain ''count'' td___u32,
        Plain ''flags'' td___u32,
        Plain ''pid'' td___u32]),
      Plain ''perf_event'' (TStruct '''' False [
        Plain ''type'' td___u32,
        Plain '''' (TUnion '''' False [
          Plain ''uprobe'' (TStruct '''' False [
            Plain ''file_name'' td___u64,
            Plain ''name_len'' td___u32,
            Plain ''offset'' td___u32,
            Plain ''cookie'' td___u64,
            Plain ''ref_ctr_offset'' td___u64]),
          Plain ''kprobe'' (TStruct '''' False [
            Plain ''func_name'' td___u64,
            Plain ''name_len'' td___u32,
            Plain ''offset'' td___u32,
            Plain ''addr'' td___u64,
            Plain ''missed'' td___u64,
            Plain ''cookie'' td___u64]),
          Plain ''tracepoint'' (TStruct '''' False [
            Plain ''tp_name'' td___u64,
            Plain ''name_len'' td___u32,
            Plain ''cookie'' td___u64]),
          Plain ''event'' (TStruct '''' False [
            Plain ''config'' td___u64,
            Plain ''type'' td___u32,
            Plain ''cookie'' td___u64])])]),
      Plain ''tcx'' (TStruct '''' False [
        Plain ''ifindex'' td___u32,
        Plain ''attach_type'' td___u32]),
      Plain ''netkit'' (TStruct '''' False [
        Plain ''ifindex'' td___u32,
        Plain ''attach_type'' td___u32]),
      Plain ''sockmap'' (TStruct '''' False [
        Plain ''map_id'' td___u32,
        Plain ''attach_type'' td___u32])])]"

definition st_bpf_local_storage_data :: ty where
  "st_bpf_local_storage_data = TStruct ''bpf_local_storage_data'' False [
    Plain ''smap'' (TPtr ''struct bpf_local_storage_map''),
    Plain ''data'' (TArr td_u8 0)]"

definition st_bpf_map_info :: ty where
  "st_bpf_map_info = TStruct ''bpf_map_info'' False [
    Plain ''type'' td___u32,
    Plain ''id'' td___u32,
    Plain ''key_size'' td___u32,
    Plain ''value_size'' td___u32,
    Plain ''max_entries'' td___u32,
    Plain ''map_flags'' td___u32,
    Plain ''name'' (TArr (TInt I8 True) 16),
    Plain ''ifindex'' td___u32,
    Plain ''btf_vmlinux_value_type_id'' td___u32,
    Plain ''netns_dev'' td___u64,
    Plain ''netns_ino'' td___u64,
    Plain ''btf_id'' td___u32,
    Plain ''btf_key_type_id'' td___u32,
    Plain ''btf_value_type_id'' td___u32,
    Plain ''btf_vmlinux_id'' td___u32,
    Plain ''map_extra'' td___u64,
    Plain ''hash'' td___u64,
    Plain ''hash_size'' td___u32]"

definition st_sock_filter :: ty where
  "st_sock_filter = TStruct ''sock_filter'' False [
    Plain ''code'' td___u16,
    Plain ''jt'' td___u8,
    Plain ''jf'' td___u8,
    Plain ''k'' td___u32]"

definition st_bpf_prog_info :: ty where
  "st_bpf_prog_info = TStruct ''bpf_prog_info'' False [
    Plain ''type'' td___u32,
    Plain ''id'' td___u32,
    Plain ''tag'' (TArr td___u8 8),
    Plain ''jited_prog_len'' td___u32,
    Plain ''xlated_prog_len'' td___u32,
    Plain ''jited_prog_insns'' td___u64,
    Plain ''xlated_prog_insns'' td___u64,
    Plain ''load_time'' td___u64,
    Plain ''created_by_uid'' td___u32,
    Plain ''nr_map_ids'' td___u32,
    Plain ''map_ids'' td___u64,
    Plain ''name'' (TArr (TInt I8 True) 16),
    Plain ''ifindex'' td___u32,
    Bits ''gpl_compatible'' td___u32 1,
    Plain ''netns_dev'' td___u64,
    Plain ''netns_ino'' td___u64,
    Plain ''nr_jited_ksyms'' td___u32,
    Plain ''nr_jited_func_lens'' td___u32,
    Plain ''jited_ksyms'' td___u64,
    Plain ''jited_func_lens'' td___u64,
    Plain ''btf_id'' td___u32,
    Plain ''func_info_rec_size'' td___u32,
    Plain ''func_info'' td___u64,
    Plain ''nr_func_info'' td___u32,
    Plain ''nr_line_info'' td___u32,
    Plain ''line_info'' td___u64,
    Plain ''jited_line_info'' td___u64,
    Plain ''nr_jited_line_info'' td___u32,
    Plain ''line_info_rec_size'' td___u32,
    Plain ''jited_line_info_rec_size'' td___u32,
    Plain ''nr_prog_tags'' td___u32,
    Plain ''prog_tags'' td___u64,
    Plain ''run_time_ns'' td___u64,
    Plain ''run_cnt'' td___u64,
    Plain ''recursion_misses'' td___u64,
    Plain ''verified_insns'' td___u32,
    Plain ''attach_btf_obj_id'' td___u32,
    Plain ''attach_btf_id'' td___u32]"

definition st_bpf_verifier_state :: ty where
  "st_bpf_verifier_state = TStruct ''bpf_verifier_state'' False [
    Plain ''frame'' (TArr (TPtr ''struct bpf_func_state'') 8),
    Plain ''parent'' (TPtr ''struct bpf_verifier_state''),
    Plain ''refs'' (TPtr ''struct bpf_reference_state''),
    Plain ''branches'' td_u32,
    Plain ''insn_idx'' td_u32,
    Plain ''curframe'' td_u32,
    Plain ''acquired_refs'' td_u32,
    Plain ''active_locks'' td_u32,
    Plain ''active_preempt_locks'' td_u32,
    Plain ''active_irq_id'' td_u32,
    Plain ''active_lock_id'' td_u32,
    Plain ''active_lock_ptr'' (TPtr ''void''),
    Plain ''active_rcu_locks'' td_u32,
    Plain ''speculative'' td_bool,
    Plain ''in_sleepable'' td_bool,
    Plain ''cleaned'' td_bool,
    Plain ''first_insn_idx'' td_u32,
    Plain ''last_insn_idx'' td_u32,
    Plain ''equal_state'' (TPtr ''struct bpf_verifier_state''),
    Plain ''jmp_history'' (TPtr ''struct bpf_jmp_history_entry''),
    Plain ''jmp_history_cnt'' td_u32,
    Plain ''dfs_depth'' td_u32,
    Plain ''callback_unroll_depth'' td_u32,
    Plain ''may_goto_depth'' td_u32]"

definition st_bpf_scc_callchain :: ty where
  "st_bpf_scc_callchain = TStruct ''bpf_scc_callchain'' False [
    Plain ''callsites'' (TArr td_u32 7),
    Plain ''scc'' td_u32]"

definition st_bpf_sock_tuple :: ty where
  "st_bpf_sock_tuple = TStruct ''bpf_sock_tuple'' False [
    Plain '''' (TUnion '''' False [
      Plain ''ipv4'' (TStruct '''' False [
        Plain ''saddr'' td___be32,
        Plain ''daddr'' td___be32,
        Plain ''sport'' td___be16,
        Plain ''dport'' td___be16]),
      Plain ''ipv6'' (TStruct '''' False [
        Plain ''saddr'' (TArr td___be32 4),
        Plain ''daddr'' (TArr td___be32 4),
        Plain ''sport'' td___be16,
        Plain ''dport'' td___be16])])]"

definition st_bpf_subprog_arg_info :: ty where
  "st_bpf_subprog_arg_info = TStruct ''bpf_subprog_arg_info'' False [
    Plain ''arg_type'' (TEnum ''bpf_arg_type'' I32),
    Plain '''' (TUnion '''' False [
      Plain ''mem_size'' td_u32,
      Plain ''btf_id'' td_u32])]"

definition st_bpf_tcp_sock :: ty where
  "st_bpf_tcp_sock = TStruct ''bpf_tcp_sock'' False [
    Plain ''snd_cwnd'' td___u32,
    Plain ''srtt_us'' td___u32,
    Plain ''rtt_min'' td___u32,
    Plain ''snd_ssthresh'' td___u32,
    Plain ''rcv_nxt'' td___u32,
    Plain ''snd_nxt'' td___u32,
    Plain ''snd_una'' td___u32,
    Plain ''mss_cache'' td___u32,
    Plain ''ecn_flags'' td___u32,
    Plain ''rate_delivered'' td___u32,
    Plain ''rate_interval_us'' td___u32,
    Plain ''packets_out'' td___u32,
    Plain ''retrans_out'' td___u32,
    Plain ''total_retrans'' td___u32,
    Plain ''segs_in'' td___u32,
    Plain ''data_segs_in'' td___u32,
    Plain ''segs_out'' td___u32,
    Plain ''data_segs_out'' td___u32,
    Plain ''lost_out'' td___u32,
    Plain ''sacked_out'' td___u32,
    Plain ''bytes_received'' td___u64,
    Plain ''bytes_acked'' td___u64,
    Plain ''dsack_dups'' td___u32,
    Plain ''delivered'' td___u32,
    Plain ''delivered_ce'' td___u32,
    Plain ''icsk_retransmits'' td___u32]"

definition un_perf_sample_weight :: ty where
  "un_perf_sample_weight = TUnion ''perf_sample_weight'' False [
    Plain ''full'' td___u64,
    Plain '''' (TStruct '''' False [
      Plain ''var1_dw'' td___u32,
      Plain ''var2_w'' td___u16,
      Plain ''var3_w'' td___u16])]"

definition un_perf_mem_data_src :: ty where
  "un_perf_mem_data_src = TUnion ''perf_mem_data_src'' False [
    Plain ''val'' td___u64,
    Plain '''' (TStruct '''' False [
      Bits ''mem_op'' td___u64 5,
      Bits ''mem_lvl'' td___u64 14,
      Bits ''mem_snoop'' td___u64 5,
      Bits ''mem_lock'' td___u64 2,
      Bits ''mem_dtlb'' td___u64 7,
      Bits ''mem_lvl_num'' td___u64 4,
      Bits ''mem_remote'' td___u64 1,
      Bits ''mem_snoopx'' td___u64 2,
      Bits ''mem_blk'' td___u64 3,
      Bits ''mem_hops'' td___u64 3,
      Bits ''mem_region'' td___u64 5,
      Bits ''mem_rsvd'' td___u64 13])]"

definition st_perf_regs :: ty where
  "st_perf_regs = TStruct ''perf_regs'' False [
    Plain ''abi'' td___u64,
    Plain ''regs'' (TPtr ''struct pt_regs'')]"

definition st_bpf_tunnel_key :: ty where
  "st_bpf_tunnel_key = TStruct ''bpf_tunnel_key'' False [
    Plain ''tunnel_id'' td___u32,
    Plain '''' (TUnion '''' False [
      Plain ''remote_ipv4'' td___u32,
      Plain ''remote_ipv6'' (TArr td___u32 4)]),
    Plain ''tunnel_tos'' td___u8,
    Plain ''tunnel_ttl'' td___u8,
    Plain '''' (TUnion '''' False [
      Plain ''tunnel_ext'' td___u16,
      Plain ''tunnel_flags'' td___be16]),
    Plain ''tunnel_label'' td___u32,
    Plain '''' (TUnion '''' False [
      Plain ''local_ipv4'' td___u32,
      Plain ''local_ipv6'' (TArr td___u32 4)])]"

definition st_btf_mod_pair :: ty where
  "st_btf_mod_pair = TStruct ''btf_mod_pair'' False [
    Plain ''btf'' (TPtr ''struct btf''),
    Plain ''module'' (TPtr ''struct module'')]"

definition st_bpf_verifier_log :: ty where
  "st_bpf_verifier_log = TStruct ''bpf_verifier_log'' False [
    Plain ''start_pos'' td_u64,
    Plain ''end_pos'' td_u64,
    Plain ''ubuf'' (TPtr ''char''),
    Plain ''level'' td_u32,
    Plain ''len_total'' td_u32,
    Plain ''len_max'' td_u32,
    Plain ''kbuf'' (TArr (TInt I8 True) 1024)]"

definition st_br_input_skb_cb :: ty where
  "st_br_input_skb_cb = TStruct ''br_input_skb_cb'' False [
    Plain ''brdev'' (TPtr ''struct net_device''),
    Plain ''frag_max_size'' td_u16,
    Plain ''igmp'' td_u8,
    Bits ''mrouters_only'' td_u8 1,
    Bits ''proxyarp_replied'' td_u8 1,
    Bits ''src_port_isolated'' td_u8 1,
    Bits ''promisc'' td_u8 1,
    Bits ''vlan_filtered'' td_u8 1,
    Bits ''br_netfilter_broute'' td_u8 1,
    Bits ''tx_fwd_offload'' td_u8 1,
    Plain ''src_hwdom'' (TInt I32 True),
    Plain ''fwd_hwdoms'' (TInt I64 False),
    Plain ''backup_nhid'' td_u32]"

definition st_br_mcast_stats :: ty where
  "st_br_mcast_stats = TStruct ''br_mcast_stats'' False [
    Plain ''igmp_v1queries'' (TArr td___u64 2),
    Plain ''igmp_v2queries'' (TArr td___u64 2),
    Plain ''igmp_v3queries'' (TArr td___u64 2),
    Plain ''igmp_leaves'' (TArr td___u64 2),
    Plain ''igmp_v1reports'' (TArr td___u64 2),
    Plain ''igmp_v2reports'' (TArr td___u64 2),
    Plain ''igmp_v3reports'' (TArr td___u64 2),
    Plain ''igmp_parse_errors'' td___u64,
    Plain ''mld_v1queries'' (TArr td___u64 2),
    Plain ''mld_v2queries'' (TArr td___u64 2),
    Plain ''mld_leaves'' (TArr td___u64 2),
    Plain ''mld_v1reports'' (TArr td___u64 2),
    Plain ''mld_v2reports'' (TArr td___u64 2),
    Plain ''mld_parse_errors'' td___u64,
    Plain ''mcast_bytes'' (TArr td___u64 2),
    Plain ''mcast_packets'' (TArr td___u64 2)]"

definition st_branch_entry :: ty where
  "st_branch_entry = TStruct ''branch_entry'' False [
    Plain ''from'' (TUnion '''' False [
      Plain ''split'' (TStruct '''' False [
        Bits ''ip'' td_u64 58,
        Bits ''ip_sign_ext'' td_u64 5,
        Bits ''mispredict'' td_u64 1]),
      Plain ''full'' td_u64]),
    Plain ''to'' (TUnion '''' False [
      Plain ''split'' (TStruct '''' False [
        Bits ''ip'' td_u64 58,
        Bits ''ip_sign_ext'' td_u64 3,
        Bits ''reserved'' td_u64 1,
        Bits ''spec'' td_u64 1,
        Bits ''valid'' td_u64 1]),
      Plain ''full'' td_u64])]"

definition st_bsd_partition :: ty where
  "st_bsd_partition = TStruct ''bsd_partition'' False [
    Plain ''p_size'' td___le32,
    Plain ''p_offset'' td___le32,
    Plain ''p_fsize'' td___le32,
    Plain ''p_fstype'' td___u8,
    Plain ''p_frag'' td___u8,
    Plain ''p_cpg'' td___le16]"

definition st_bsg_buffer :: ty where
  "st_bsg_buffer = TStruct ''bsg_buffer'' False [
    Plain ''payload_len'' (TInt I32 False),
    Plain ''sg_cnt'' (TInt I32 True),
    Plain ''sg_list'' (TPtr ''struct scatterlist'')]"

definition st_btf_header :: ty where
  "st_btf_header = TStruct ''btf_header'' False [
    Plain ''magic'' td___u16,
    Plain ''version'' td___u8,
    Plain ''flags'' td___u8,
    Plain ''hdr_len'' td___u32,
    Plain ''type_off'' td___u32,
    Plain ''type_len'' td___u32,
    Plain ''str_off'' td___u32,
    Plain ''str_len'' td___u32]"

definition st_btf_show :: ty where
  "st_btf_show = TStruct ''btf_show'' False [
    Plain ''flags'' td_u64,
    Plain ''target'' (TPtr ''void''),
    Plain ''showfn'' (TFun ''void (*)(struct btf_show *, const char *, struct __va_list_tag *)''),
    Plain ''btf'' (TPtr ''struct btf''),
    Plain ''state'' (TStruct '''' False [
      Plain ''depth'' td_u8,
      Plain ''depth_to_show'' td_u8,
      Plain ''depth_check'' td_u8,
      Bits ''array_member'' td_u8 1,
      Bits ''array_terminated'' td_u8 1,
      Plain ''array_encoding'' td_u16,
      Plain ''type_id'' td_u32,
      Plain ''status'' (TInt I32 True),
      Plain ''type'' (TPtr ''struct btf_type''),
      Plain ''member'' (TPtr ''struct btf_member''),
      Plain ''name'' (TArr (TInt I8 True) 80)]),
    Plain ''obj'' (TStruct '''' False [
      Plain ''size'' td_u32,
      Plain ''head'' (TPtr ''void''),
      Plain ''data'' (TPtr ''void''),
      Plain ''safe'' (TArr td_u8 32)])]"

definition st_perf_output_handle :: ty where
  "st_perf_output_handle = TStruct ''perf_output_handle'' False [
    Plain ''event'' (TPtr ''struct perf_event''),
    Plain ''rb'' (TPtr ''struct perf_buffer''),
    Plain ''wakeup'' (TInt I64 False),
    Plain ''size'' (TInt I64 False),
    Plain '''' (TUnion '''' False [
      Plain ''flags'' td_u64,
      Plain ''aux_flags'' td_u64,
      Plain '''' (TStruct '''' False [
        Bits ''skip_read'' td_u64 1])]),
    Plain '''' (TUnion '''' False [
      Plain ''addr'' (TPtr ''void''),
      Plain ''head'' (TInt I64 False)]),
    Plain ''page'' (TInt I32 True)]"

definition st_btt_sb :: ty where
  "st_btt_sb = TStruct ''btt_sb'' False [
    Plain ''signature'' (TArr td_u8 16),
    Plain ''uuid'' (TArr td_u8 16),
    Plain ''parent_uuid'' (TArr td_u8 16),
    Plain ''flags'' td___le32,
    Plain ''version_major'' td___le16,
    Plain ''version_minor'' td___le16,
    Plain ''external_lbasize'' td___le32,
    Plain ''external_nlba'' td___le32,
    Plain ''internal_lbasize'' td___le32,
    Plain ''internal_nlba'' td___le32,
    Plain ''nfree'' td___le32,
    Plain ''infosize'' td___le32,
    Plain ''nextoff'' td___le64,
    Plain ''dataoff'' td___le64,
    Plain ''mapoff'' td___le64,
    Plain ''logoff'' td___le64,
    Plain ''info2off'' td___le64,
    Plain ''padding'' (TArr td_u8 3968),
    Plain ''checksum'' td___le64]"

definition st_group_data :: ty where
  "st_group_data = TStruct ''group_data'' False [
    Plain ''limit'' (TArr (TInt I32 True) 21),
    Plain ''base'' (TArr (TInt I32 True) 20),
    Plain ''permute'' (TArr (TInt I32 True) 258),
    Plain ''minLen'' (TInt I32 True),
    Plain ''maxLen'' (TInt I32 True)]"

definition st_cache_req :: ty where
  "st_cache_req = TStruct ''cache_req'' False [
    Plain ''defer'' (TFun ''struct cache_deferred_req * (*)(struct cache_req *)''),
    Plain ''thread_wait'' (TInt I64 False)]"

definition st_cacheline_padding :: ty where
  "st_cacheline_padding = TStruct ''cacheline_padding'' False [
    Plain ''x'' (TArr (TInt I8 True) 0)]"

definition st_ccs_modesel_head :: ty where
  "st_ccs_modesel_head = TStruct ''ccs_modesel_head'' False [
    Plain ''_r1'' td___u8,
    Plain ''medium'' td___u8,
    Plain ''_r2'' td___u8,
    Plain ''block_desc_length'' td___u8,
    Plain ''density'' td___u8,
    Plain ''number_blocks_hi'' td___u8,
    Plain ''number_blocks_med'' td___u8,
    Plain ''number_blocks_lo'' td___u8,
    Plain ''_r3'' td___u8,
    Plain ''block_length_hi'' td___u8,
    Plain ''block_length_med'' td___u8,
    Plain ''block_length_lo'' td___u8]"

definition st_cdrom_generic_command :: ty where
  "st_cdrom_generic_command = TStruct ''cdrom_generic_command'' False [
    Plain ''cmd'' (TArr (TInt I8 False) 12),
    Plain ''buffer'' (TPtr ''unsigned char''),
    Plain ''buflen'' (TInt I32 False),
    Plain ''stat'' (TInt I32 True),
    Plain ''sense'' (TPtr ''struct request_sense''),
    Plain ''data_direction'' (TInt I8 False),
    Plain ''quiet'' (TInt I32 True),
    Plain ''timeout'' (TInt I32 True),
    Plain '''' (TUnion '''' False [
      Plain ''reserved'' (TArr (TPtr ''void'') 1),
      Plain ''unused'' (TPtr ''void'')])]"

definition st_ce_array :: ty where
  "st_ce_array = TStruct ''ce_array'' False [
    Plain ''array'' (TPtr ''u64''),
    Plain ''n'' (TInt I32 False),
    Plain ''decay_count'' (TInt I32 False),
    Plain ''pfns_poisoned'' td_u64,
    Plain ''ces_entered'' td_u64,
    Plain ''decays_done'' td_u64,
    Plain '''' (TUnion '''' False [
      Plain '''' (TStruct '''' False [
        Bits ''disabled'' td___u32 1,
        Bits ''__resv'' td___u32 31]),
      Plain ''flags'' td___u32])]"

definition st_cea_exception_stacks :: ty where
  "st_cea_exception_stacks = TStruct ''cea_exception_stacks'' False [
    Plain ''DF_stack_guard'' (TArr (TInt I8 True) 4096),
    Plain ''DF_stack'' (TArr (TInt I8 True) 8192),
    Plain ''NMI_stack_guard'' (TArr (TInt I8 True) 4096),
    Plain ''NMI_stack'' (TArr (TInt I8 True) 8192),
    Plain ''DB_stack_guard'' (TArr (TInt I8 True) 4096),
    Plain ''DB_stack'' (TArr (TInt I8 True) 8192),
    Plain ''MCE_stack_guard'' (TArr (TInt I8 True) 4096),
    Plain ''MCE_stack'' (TArr (TInt I8 True) 8192),
    Plain ''VC_stack_guard'' (TArr (TInt I8 True) 4096),
    Plain ''VC_stack'' (TArr (TInt I8 True) 8192),
    Plain ''VC2_stack_guard'' (TArr (TInt I8 True) 4096),
    Plain ''VC2_stack'' (TArr (TInt I8 True) 8192),
    Plain ''IST_top_guard'' (TArr (TInt I8 True) 4096)]"

definition st_cfg80211_bss_select_adjust :: ty where
  "st_cfg80211_bss_select_adjust = TStruct ''cfg80211_bss_select_adjust'' False [
    Plain ''band'' (TEnum ''nl80211_band'' I32),
    Plain ''delta'' td_s8]"

definition st_cfg80211_crypto_settings :: ty where
  "st_cfg80211_crypto_settings = TStruct ''cfg80211_crypto_settings'' False [
    Plain ''wpa_versions'' td_u32,
    Plain ''cipher_group'' td_u32,
    Plain ''n_ciphers_pairwise'' (TInt I32 True),
    Plain ''ciphers_pairwise'' (TArr td_u32 5),
    Plain ''n_akm_suites'' (TInt I32 True),
    Plain ''akm_suites'' (TArr td_u32 10),
    Plain ''control_port'' td_bool,
    Plain ''control_port_ethertype'' td___be16,
    Plain ''control_port_no_encrypt'' td_bool,
    Plain ''control_port_over_nl80211'' td_bool,
    Plain ''control_port_no_preauth'' td_bool,
    Plain ''psk'' (TPtr ''u8''),
    Plain ''sae_pwd'' (TPtr ''u8''),
    Plain ''sae_pwd_len'' td_u8,
    Plain ''sae_pwe'' (TEnum ''nl80211_sae_pwe_mechanism'' I32)]"

definition st_cfg80211_pmsr_capabilities :: ty where
  "st_cfg80211_pmsr_capabilities = TStruct ''cfg80211_pmsr_capabilities'' False [
    Plain ''max_peers'' (TInt I32 False),
    Bits ''report_ap_tsf'' td_u8 1,
    Bits ''randomize_mac_addr'' td_u8 1,
    Plain ''ftm'' (TStruct '''' False [
      Plain ''preambles'' td_u32,
      Plain ''bandwidths'' td_u32,
      Plain ''max_bursts_exponent'' td_s8,
      Plain ''max_ftms_per_burst'' td_u8,
      Bits ''supported'' td_u8 1,
      Bits ''asap'' td_u8 1,
      Bits ''non_asap'' td_u8 1,
      Bits ''request_lci'' td_u8 1,
      Bits ''request_civicloc'' td_u8 1,
      Bits ''trigger_based'' td_u8 1,
      Bits ''non_trigger_based'' td_u8 1,
      Bits ''support_6ghz'' td_u8 1,
      Plain ''max_tx_ltf_rep'' td_u8,
      Plain ''max_rx_ltf_rep'' td_u8,
      Plain ''max_tx_sts'' td_u8,
      Plain ''max_rx_sts'' td_u8,
      Plain ''max_total_ltf_tx'' td_u8,
      Plain ''max_total_ltf_rx'' td_u8,
      Bits ''support_rsta'' td_u8 1])]"

definition st_nl80211_wowlan_tcp_data_seq :: ty where
  "st_nl80211_wowlan_tcp_data_seq = TStruct ''nl80211_wowlan_tcp_data_seq'' False [
    Plain ''start'' td___u32,
    Plain ''offset'' td___u32,
    Plain ''len'' td___u32]"

definition st_nl80211_wowlan_tcp_data_token :: ty where
  "st_nl80211_wowlan_tcp_data_token = TStruct ''nl80211_wowlan_tcp_data_token'' False [
    Plain ''offset'' td___u32,
    Plain ''len'' td___u32,
    Plain ''token_stream'' (TArr td___u8 0)]"

definition st_load_weight :: ty where
  "st_load_weight = TStruct ''load_weight'' False [
    Plain ''weight'' (TInt I64 False),
    Plain ''inv_weight'' td_u32]"

definition st_sched_avg :: ty where
  "st_sched_avg = TStruct ''sched_avg'' False [
    Plain ''last_update_time'' td_u64,
    Plain ''load_sum'' td_u64,
    Plain ''runnable_sum'' td_u64,
    Plain ''util_sum'' td_u32,
    Plain ''period_contrib'' td_u32,
    Plain ''load_avg'' (TInt I64 False),
    Plain ''runnable_avg'' (TInt I64 False),
    Plain ''util_avg'' (TInt I64 False),
    Plain ''util_est'' (TInt I32 False)]"

definition st_task_cputime :: ty where
  "st_task_cputime = TStruct ''task_cputime'' False [
    Plain ''stime'' td_u64,
    Plain ''utime'' td_u64,
    Plain ''sum_exec_runtime'' (TInt I64 False)]"

definition st_ethnl_reply_data :: ty where
  "st_ethnl_reply_data = TStruct ''ethnl_reply_data'' False [
    Plain ''dev'' (TPtr ''struct net_device'')]"

definition st_charger_desc :: ty where
  "st_charger_desc = TStruct ''charger_desc'' False [
    Plain ''psy_name'' (TPtr ''char''),
    Plain ''polling_mode'' (TEnum ''polling_modes'' I32),
    Plain ''polling_interval_ms'' (TInt I32 False),
    Plain ''fullbatt_vchkdrop_uV'' (TInt I32 False),
    Plain ''fullbatt_uV'' (TInt I32 False),
    Plain ''fullbatt_soc'' (TInt I32 False),
    Plain ''fullbatt_full_capacity'' (TInt I32 False),
    Plain ''battery_present'' (TEnum ''data_source'' I32),
    Plain ''psy_charger_stat'' (TPtr ''char *''),
    Plain ''num_charger_regulators'' (TInt I32 True),
    Plain ''charger_regulators'' (TPtr ''struct charger_regulator''),
    Plain ''sysfs_groups'' (TPtr ''struct attribute_group *''),
    Plain ''psy_fuel_gauge'' (TPtr ''char''),
    Plain ''thermal_zone'' (TPtr ''char''),
    Plain ''temp_min'' (TInt I32 True),
    Plain ''temp_max'' (TInt I32 True),
    Plain ''temp_diff'' (TInt I32 True),
    Plain ''measure_battery_temp'' td_bool,
    Plain ''charging_max_duration_ms'' td_u32,
    Plain ''discharging_max_duration_ms'' td_u32]"

definition st_cipso_v4_std_map_tbl :: ty where
  "st_cipso_v4_std_map_tbl = TStruct ''cipso_v4_std_map_tbl'' False [
    Plain ''lvl'' (TStruct '''' False [
      Plain ''cipso'' (TPtr ''u32''),
      Plain ''local'' (TPtr ''u32''),
      Plain ''cipso_size'' td_u32,
      Plain ''local_size'' td_u32]),
    Plain ''cat'' (TStruct '''' False [
      Plain ''cipso'' (TPtr ''u32''),
      Plain ''local'' (TPtr ''u32''),
      Plain ''cipso_size'' td_u32,
      Plain ''local_size'' td_u32])]"

definition st_clk_bulk_data :: ty where
  "st_clk_bulk_data = TStruct ''clk_bulk_data'' False [
    Plain ''id'' (TPtr ''char''),
    Plain ''clk'' (TPtr ''struct clk'')]"

definition st_clk_duty :: ty where
  "st_clk_duty = TStruct ''clk_duty'' False [
    Plain ''num'' (TInt I32 False),
    Plain ''den'' (TInt I32 False)]"

definition st_clock_identity :: ty where
  "st_clock_identity = TStruct ''clock_identity'' False [
    Plain ''id'' (TArr td_u8 8)]"

definition st_debugfs_u32_array :: ty where
  "st_debugfs_u32_array = TStruct ''debugfs_u32_array'' False [
    Plain ''array'' (TPtr ''u32''),
    Plain ''n_elements'' td_u32]"

definition st_cmis_cdb_fw_mng_features_rpl :: ty where
  "st_cmis_cdb_fw_mng_features_rpl = TStruct ''cmis_cdb_fw_mng_features_rpl'' False [
    Plain ''resv1'' td_u8,
    Plain ''resv2'' td_u8,
    Plain ''start_cmd_payload_size'' td_u8,
    Plain ''resv3'' td_u8,
    Plain ''read_write_len_ext'' td_u8,
    Plain ''write_mechanism'' td_u8,
    Plain ''resv4'' td_u8,
    Plain ''resv5'' td_u8,
    Plain ''max_duration_start'' td___be16,
    Plain ''resv6'' td___be16,
    Plain ''max_duration_write'' td___be16,
    Plain ''max_duration_complete'' td___be16,
    Plain ''resv7'' td___be16]"

definition st_ethtool_coalesce :: ty where
  "st_ethtool_coalesce = TStruct ''ethtool_coalesce'' False [
    Plain ''cmd'' td___u32,
    Plain ''rx_coalesce_usecs'' td___u32,
    Plain ''rx_max_coalesced_frames'' td___u32,
    Plain ''rx_coalesce_usecs_irq'' td___u32,
    Plain ''rx_max_coalesced_frames_irq'' td___u32,
    Plain ''tx_coalesce_usecs'' td___u32,
    Plain ''tx_max_coalesced_frames'' td___u32,
    Plain ''tx_coalesce_usecs_irq'' td___u32,
    Plain ''tx_max_coalesced_frames_irq'' td___u32,
    Plain ''stats_block_coalesce_usecs'' td___u32,
    Plain ''use_adaptive_rx_coalesce'' td___u32,
    Plain ''use_adaptive_tx_coalesce'' td___u32,
    Plain ''pkt_rate_low'' td___u32,
    Plain ''rx_coalesce_usecs_low'' td___u32,
    Plain ''rx_max_coalesced_frames_low'' td___u32,
    Plain ''tx_coalesce_usecs_low'' td___u32,
    Plain ''tx_max_coalesced_frames_low'' td___u32,
    Plain ''pkt_rate_high'' td___u32,
    Plain ''rx_coalesce_usecs_high'' td___u32,
    Plain ''rx_max_coalesced_frames_high'' td___u32,
    Plain ''tx_coalesce_usecs_high'' td___u32,
    Plain ''tx_max_coalesced_frames_high'' td___u32,
    Plain ''rate_sample_interval'' td___u32]"

definition st_compat_elf_prpsinfo :: ty where
  "st_compat_elf_prpsinfo = TStruct ''compat_elf_prpsinfo'' False [
    Plain ''pr_state'' (TInt I8 True),
    Plain ''pr_sname'' (TInt I8 True),
    Plain ''pr_zomb'' (TInt I8 True),
    Plain ''pr_nice'' (TInt I8 True),
    Plain ''pr_flag'' td_compat_ulong_t,
    Plain ''pr_uid'' td___compat_uid_t,
    Plain ''pr_gid'' td___compat_gid_t,
    Plain ''pr_pid'' td_compat_pid_t,
    Plain ''pr_ppid'' td_compat_pid_t,
    Plain ''pr_pgrp'' td_compat_pid_t,
    Plain ''pr_sid'' td_compat_pid_t,
    Plain ''pr_fname'' (TArr (TInt I8 True) 16),
    Plain ''pr_psargs'' (TArr (TInt I8 True) 80)]"

definition st_compat_elf_siginfo :: ty where
  "st_compat_elf_siginfo = TStruct ''compat_elf_siginfo'' False [
    Plain ''si_signo'' td_compat_int_t,
    Plain ''si_code'' td_compat_int_t,
    Plain ''si_errno'' td_compat_int_t]"

definition st_old_timeval32 :: ty where
  "st_old_timeval32 = TStruct ''old_timeval32'' False [
    Plain ''tv_sec'' td_old_time32_t,
    Plain ''tv_usec'' td_s32]"

definition st_user_regs_struct :: ty where
  "st_user_regs_struct = TStruct ''user_regs_struct'' False [
    Plain ''r15'' (TInt I64 False),
    Plain ''r14'' (TInt I64 False),
    Plain ''r13'' (TInt I64 False),
    Plain ''r12'' (TInt I64 False),
    Plain ''bp'' (TInt I64 False),
    Plain ''bx'' (TInt I64 False),
    Plain ''r11'' (TInt I64 False),
    Plain ''r10'' (TInt I64 False),
    Plain ''r9'' (TInt I64 False),
    Plain ''r8'' (TInt I64 False),
    Plain ''ax'' (TInt I64 False),
    Plain ''cx'' (TInt I64 False),
    Plain ''dx'' (TInt I64 False),
    Plain ''si'' (TInt I64 False),
    Plain ''di'' (TInt I64 False),
    Plain ''orig_ax'' (TInt I64 False),
    Plain ''ip'' (TInt I64 False),
    Plain ''cs'' (TInt I64 False),
    Plain ''flags'' (TInt I64 False),
    Plain ''sp'' (TInt I64 False),
    Plain ''ss'' (TInt I64 False),
    Plain ''fs_base'' (TInt I64 False),
    Plain ''gs_base'' (TInt I64 False),
    Plain ''ds'' (TInt I64 False),
    Plain ''es'' (TInt I64 False),
    Plain ''fs'' (TInt I64 False),
    Plain ''gs'' (TInt I64 False)]"

definition st_compat_fs_qfilestat :: ty where
  "st_compat_fs_qfilestat = TStruct ''compat_fs_qfilestat'' True [
    Plain ''dqb_bhardlimit'' td_compat_u64,
    Plain ''qfs_nblks'' td_compat_u64,
    Plain ''qfs_nextents'' td_compat_uint_t]"

definition st_compat_if_settings :: ty where
  "st_compat_if_settings = TStruct ''compat_if_settings'' False [
    Plain ''type'' (TInt I32 False),
    Plain ''size'' (TInt I32 False),
    Plain ''ifs_ifsu'' td_compat_uptr_t]"

definition st_compat_ifmap :: ty where
  "st_compat_ifmap = TStruct ''compat_ifmap'' False [
    Plain ''mem_start'' td_compat_ulong_t,
    Plain ''mem_end'' td_compat_ulong_t,
    Plain ''base_addr'' (TInt I16 False),
    Plain ''irq'' (TInt I8 False),
    Plain ''dma'' (TInt I8 False),
    Plain ''port'' (TInt I8 False)]"

definition st_compat_ipc64_perm :: ty where
  "st_compat_ipc64_perm = TStruct ''compat_ipc64_perm'' False [
    Plain ''key'' td_compat_key_t,
    Plain ''uid'' td___compat_uid32_t,
    Plain ''gid'' td___compat_gid32_t,
    Plain ''cuid'' td___compat_uid32_t,
    Plain ''cgid'' td___compat_gid32_t,
    Plain ''mode'' td_compat_mode_t,
    Plain ''__pad1'' (TArr (TInt I8 False) 2),
    Plain ''seq'' td_compat_ushort_t,
    Plain ''__pad2'' td_compat_ushort_t,
    Plain ''unused1'' td_compat_ulong_t,
    Plain ''unused2'' td_compat_ulong_t]"

definition st_compat_ipc_perm :: ty where
  "st_compat_ipc_perm = TStruct ''compat_ipc_perm'' False [
    Plain ''key'' td_key_t,
    Plain ''uid'' td___compat_uid_t,
    Plain ''gid'' td___compat_gid_t,
    Plain ''cuid'' td___compat_uid_t,
    Plain ''cgid'' td___compat_gid_t,
    Plain ''mode'' td_compat_mode_t,
    Plain ''seq'' (TInt I16 False)]"

definition st_compat_loop_info :: ty where
  "st_compat_loop_info = TStruct ''compat_loop_info'' False [
    Plain ''lo_number'' td_compat_int_t,
    Plain ''lo_device'' td_compat_dev_t,
    Plain ''lo_inode'' td_compat_ulong_t,
    Plain ''lo_rdevice'' td_compat_dev_t,
    Plain ''lo_offset'' td_compat_int_t,
    Plain ''lo_encrypt_type'' td_compat_int_t,
    Plain ''lo_encrypt_key_size'' td_compat_int_t,
    Plain ''lo_flags'' td_compat_int_t,
    Plain ''lo_name'' (TArr (TInt I8 True) 64),
    Plain ''lo_encrypt_key'' (TArr (TInt I8 False) 32),
    Plain ''lo_init'' (TArr td_compat_ulong_t 2),
    Plain ''reserved'' (TArr (TInt I8 True) 4)]"

definition st_compat_sg_io_hdr :: ty where
  "st_compat_sg_io_hdr = TStruct ''compat_sg_io_hdr'' False [
    Plain ''interface_id'' td_compat_int_t,
    Plain ''dxfer_direction'' td_compat_int_t,
    Plain ''cmd_len'' (TInt I8 False),
    Plain ''mx_sb_len'' (TInt I8 False),
    Plain ''iovec_count'' (TInt I16 False),
    Plain ''dxfer_len'' td_compat_uint_t,
    Plain ''dxferp'' td_compat_uint_t,
    Plain ''cmdp'' td_compat_uptr_t,
    Plain ''sbp'' td_compat_uptr_t,
    Plain ''timeout'' td_compat_uint_t,
    Plain ''flags'' td_compat_uint_t,
    Plain ''pack_id'' td_compat_int_t,
    Plain ''usr_ptr'' td_compat_uptr_t,
    Plain ''status'' (TInt I8 False),
    Plain ''masked_status'' (TInt I8 False),
    Plain ''msg_status'' (TInt I8 False),
    Plain ''sb_len_wr'' (TInt I8 False),
    Plain ''host_status'' (TInt I16 False),
    Plain ''driver_status'' (TInt I16 False),
    Plain ''resid'' td_compat_int_t,
    Plain ''duration'' td_compat_uint_t,
    Plain ''info'' td_compat_uint_t]"

end
