(* ===== verification/VmlinuxStruct2.thy ===== *)
theory VmlinuxStruct2
  imports VmlinuxTypedefs
begin

text \<open>
  Structures and unions of \<open>src/internal/ebpf/vmlinux.h\<close> (without members of modelled aggregate types), in the
  order of the header: \<open>st_<tag>\<close>, \<open>un_<tag>\<close>, and \<open>td_<name>\<close> for an aggregate with a type name.
\<close>

definition un_compat_sigval :: ty where
  "un_compat_sigval = TUnion ''compat_sigval'' False [
    Plain ''sival_int'' td_compat_int_t,
    Plain ''sival_ptr'' td_compat_uptr_t]"

definition st_in_addr :: ty where
  "st_in_addr = TStruct ''in_addr'' False [
    Plain ''s_addr'' td___be32]"

definition st_compat_stat :: ty where
  "st_compat_stat = TStruct ''compat_stat'' False [
    Plain ''st_dev'' td_u32,
    Plain ''st_ino'' td_compat_ino_t,
    Plain ''st_mode'' td_compat_mode_t,
    Plain ''st_nlink'' td_compat_nlink_t,
    Plain ''st_uid'' td___compat_uid_t,
    Plain ''st_gid'' td___compat_gid_t,
    Plain ''st_rdev'' td_u32,
    Plain ''st_size'' td_u32,
    Plain ''st_blksize'' td_u32,
    Plain ''st_blocks'' td_u32,
    Plain ''st_atime'' td_u32,
    Plain ''st_atime_nsec'' td_u32,
    Plain ''st_mtime'' td_u32,
    Plain ''st_mtime_nsec'' td_u32,
    Plain ''st_ctime'' td_u32,
    Plain ''st_ctime_nsec'' td_u32,
    Plain ''__unused4'' td_u32,
    Plain ''__unused5'' td_u32]"

definition st_compat_statfs :: ty where
  "st_compat_statfs = TStruct ''compat_statfs'' False [
    Plain ''f_type'' (TInt I32 True),
    Plain ''f_bsize'' (TInt I32 True),
    Plain ''f_blocks'' (TInt I32 True),
    Plain ''f_bfree'' (TInt I32 True),
    Plain ''f_bavail'' (TInt I32 True),
    Plain ''f_files'' (TInt I32 True),
    Plain ''f_ffree'' (TInt I32 True),
    Plain ''f_fsid'' td_compat_fsid_t,
    Plain ''f_namelen'' (TInt I32 True),
    Plain ''f_frsize'' (TInt I32 True),
    Plain ''f_flags'' (TInt I32 True),
    Plain ''f_spare'' (TArr (TInt I32 True) 4)]"

definition st_compat_statfs64 :: ty where
  "st_compat_statfs64 = TStruct ''compat_statfs64'' True [
    Plain ''f_type'' td___u32,
    Plain ''f_bsize'' td___u32,
    Plain ''f_blocks'' td___u64,
    Plain ''f_bfree'' td___u64,
    Plain ''f_bavail'' td___u64,
    Plain ''f_files'' td___u64,
    Plain ''f_ffree'' td___u64,
    Plain ''f_fsid'' td___kernel_fsid_t,
    Plain ''f_namelen'' td___u32,
    Plain ''f_frsize'' td___u32,
    Plain ''f_flags'' td___u32,
    Plain ''f_spare'' (TArr td___u32 4)]"

definition st_compat_sysinfo :: ty where
  "st_compat_sysinfo = TStruct ''compat_sysinfo'' False [
    Plain ''uptime'' td_s32,
    Plain ''loads'' (TArr td_u32 3),
    Plain ''totalram'' td_u32,
    Plain ''freeram'' td_u32,
    Plain ''sharedram'' td_u32,
    Plain ''bufferram'' td_u32,
    Plain ''totalswap'' td_u32,
    Plain ''freeswap'' td_u32,
    Plain ''procs'' td_u16,
    Plain ''pad'' td_u16,
    Plain ''totalhigh'' td_u32,
    Plain ''freehigh'' td_u32,
    Plain ''mem_unit'' td_u32,
    Plain ''_f'' (TArr (TInt I8 True) 8)]"

definition st_winsize :: ty where
  "st_winsize = TStruct ''winsize'' False [
    Plain ''ws_row'' (TInt I16 False),
    Plain ''ws_col'' (TInt I16 False),
    Plain ''ws_xpixel'' (TInt I16 False),
    Plain ''ws_ypixel'' (TInt I16 False)]"

definition st_console_font :: ty where
  "st_console_font = TStruct ''console_font'' False [
    Plain ''width'' (TInt I32 False),
    Plain ''height'' (TInt I32 False),
    Plain ''charcount'' (TInt I32 False),
    Plain ''data'' (TPtr ''unsigned char'')]"

definition st_ebitmap :: ty where
  "st_ebitmap = TStruct ''ebitmap'' False [
    Plain ''node'' (TPtr ''struct ebitmap_node''),
    Plain ''highbit'' td_u32]"

definition st_hotplug_slot :: ty where
  "st_hotplug_slot = TStruct ''hotplug_slot'' False [
    Plain ''ops'' (TPtr ''struct hotplug_slot_ops''),
    Plain ''pci_slot'' (TPtr ''struct pci_slot''),
    Plain ''owner'' (TPtr ''struct module''),
    Plain ''mod_name'' (TPtr ''char'')]"

definition st_coredump_params :: ty where
  "st_coredump_params = TStruct ''coredump_params'' False [
    Plain ''siginfo'' (TPtr ''kernel_siginfo_t''),
    Plain ''file'' (TPtr ''struct file''),
    Plain ''limit'' (TInt I64 False),
    Plain ''mm_flags'' (TInt I64 False),
    Plain ''cpu'' (TInt I32 True),
    Plain ''written'' td_loff_t,
    Plain ''pos'' td_loff_t,
    Plain ''to_skip'' td_loff_t,
    Plain ''vma_count'' (TInt I32 True),
    Plain ''vma_data_size'' td_size_t,
    Plain ''vma_meta'' (TPtr ''struct core_vma_metadata''),
    Plain ''pid'' (TPtr ''struct pid'')]"

definition st_coupling_desc :: ty where
  "st_coupling_desc = TStruct ''coupling_desc'' False [
    Plain ''coupled_rdevs'' (TPtr ''struct regulator_dev *''),
    Plain ''coupler'' (TPtr ''struct regulator_coupler''),
    Plain ''n_resolved'' (TInt I32 True),
    Plain ''n_coupled'' (TInt I32 True)]"

definition st_pgprot :: ty where
  "st_pgprot = TStruct ''pgprot'' False [
    Plain ''pgprot'' td_pgprotval_t]"

definition st_cper_record_header :: ty where
  "st_cper_record_header = TStruct ''cper_record_header'' True [
    Plain ''signature'' (TArr (TInt I8 True) 4),
    Plain ''revision'' td_u16,
    Plain ''signature_end'' td_u32,
    Plain ''section_count'' td_u16,
    Plain ''error_severity'' td_u32,
    Plain ''validation_bits'' td_u32,
    Plain ''record_length'' td_u32,
    Plain ''timestamp'' td_u64,
    Plain ''platform_id'' td_guid_t,
    Plain ''partition_id'' td_guid_t,
    Plain ''creator_id'' td_guid_t,
    Plain ''notification_type'' td_guid_t,
    Plain ''record_id'' td_u64,
    Plain ''flags'' td_u32,
    Plain ''persistence_information'' td_u64,
    Plain ''reserved'' (TArr td_u8 12)]"

definition st_mce :: ty where
  "st_mce = TStruct ''mce'' False [
    Plain ''status'' td___u64,
    Plain ''misc'' td___u64,
    Plain ''addr'' td___u64,
    Plain ''mcgstatus'' td___u64,
    Plain ''ip'' td___u64,
    Plain ''tsc'' td___u64,
    Plain ''time'' td___u64,
    Plain ''cpuvendor'' td___u8,
    Plain ''inject_flags'' td___u8,
    Plain ''severity'' td___u8,
    Plain ''pad'' td___u8,
    Plain ''cpuid'' td___u32,
    Plain ''cs'' td___u8,
    Plain ''bank'' td___u8,
    Plain ''cpu'' td___u8,
    Plain ''finished'' td___u8,
    Plain ''extcpu'' td___u32,
    Plain ''socketid'' td___u32,
    Plain ''apicid'' td___u32,
    Plain ''mcgcap'' td___u64,
    Plain ''synd'' td___u64,
    Plain ''ipid'' td___u64,
    Plain ''ppin'' td___u64,
    Plain ''microcode'' td___u32,
    Plain ''kflags'' td___u64]"

definition st_cper_mem_err_compact :: ty where
  "st_cper_mem_err_compact = TStruct ''cper_mem_err_compact'' True [
    Plain ''validation_bits'' td_u64,
    Plain ''node'' td_u16,
    Plain ''card'' td_u16,
    Plain ''module'' td_u16,
    Plain ''bank'' td_u16,
    Plain ''device'' td_u16,
    Plain ''row'' td_u16,
    Plain ''column'' td_u16,
    Plain ''bit_pos'' td_u16,
    Plain ''requestor_id'' td_u64,
    Plain ''responder_id'' td_u64,
    Plain ''target_id'' td_u64,
    Plain ''rank'' td_u16,
    Plain ''mem_array_handle'' td_u16,
    Plain ''mem_dev_handle'' td_u16,
    Plain ''extended'' td_u8]"

definition st_cper_sec_mem_err :: ty where
  "st_cper_sec_mem_err = TStruct ''cper_sec_mem_err'' False [
    Plain ''validation_bits'' td_u64,
    Plain ''error_status'' td_u64,
    Plain ''physical_addr'' td_u64,
    Plain ''physical_addr_mask'' td_u64,
    Plain ''node'' td_u16,
    Plain ''card'' td_u16,
    Plain ''module'' td_u16,
    Plain ''bank'' td_u16,
    Plain ''device'' td_u16,
    Plain ''row'' td_u16,
    Plain ''column'' td_u16,
    Plain ''bit_pos'' td_u16,
    Plain ''requestor_id'' td_u64,
    Plain ''responder_id'' td_u64,
    Plain ''target_id'' td_u64,
    Plain ''error_type'' td_u8,
    Plain ''extended'' td_u8,
    Plain ''rank'' td_u16,
    Plain ''mem_array_handle'' td_u16,
    Plain ''mem_dev_handle'' td_u16]"

definition st_cper_sec_pcie :: ty where
  "st_cper_sec_pcie = TStruct ''cper_sec_pcie'' False [
    Plain ''validation_bits'' td_u64,
    Plain ''port_type'' td_u32,
    Plain ''version'' (TStruct '''' False [
      Plain ''minor'' td_u8,
      Plain ''major'' td_u8,
      Plain ''reserved'' (TArr td_u8 2)]),
    Plain ''command'' td_u16,
    Plain ''status'' td_u16,
    Plain ''reserved'' td_u32,
    Plain ''device_id'' (TStruct '''' True [
      Plain ''vendor_id'' td_u16,
      Plain ''device_id'' td_u16,
      Plain ''class_code'' (TArr td_u8 3),
      Plain ''function'' td_u8,
      Plain ''device'' td_u8,
      Plain ''segment'' td_u16,
      Plain ''bus'' td_u8,
      Plain ''secondary_bus'' td_u8,
      Plain ''slot'' td_u16,
      Plain ''reserved'' td_u8]),
    Plain ''serial_number'' (TStruct '''' False [
      Plain ''lower'' td_u32,
      Plain ''upper'' td_u32]),
    Plain ''bridge'' (TStruct '''' False [
      Plain ''secondary_status'' td_u16,
      Plain ''control'' td_u16]),
    Plain ''capability'' (TArr td_u8 60),
    Plain ''aer_info'' (TArr td_u8 96)]"

definition st_cper_sec_proc_generic :: ty where
  "st_cper_sec_proc_generic = TStruct ''cper_sec_proc_generic'' False [
    Plain ''validation_bits'' td_u64,
    Plain ''proc_type'' td_u8,
    Plain ''proc_isa'' td_u8,
    Plain ''proc_error_type'' td_u8,
    Plain ''operation'' td_u8,
    Plain ''flags'' td_u8,
    Plain ''level'' td_u8,
    Plain ''reserved'' td_u16,
    Plain ''cpu_version'' td_u64,
    Plain ''cpu_brand'' (TArr (TInt I8 True) 128),
    Plain ''proc_id'' td_u64,
    Plain ''target_addr'' td_u64,
    Plain ''requestor_id'' td_u64,
    Plain ''responder_id'' td_u64,
    Plain ''ip'' td_u64]"

definition st_folio_batch :: ty where
  "st_folio_batch = TStruct ''folio_batch'' False [
    Plain ''nr'' (TInt I8 False),
    Plain ''i'' (TInt I8 False),
    Plain ''percpu_pvec_drained'' td_bool,
    Plain ''folios'' (TArr (TPtr ''struct folio'') 31)]"

definition st_perf_branch_entry :: ty where
  "st_perf_branch_entry = TStruct ''perf_branch_entry'' False [
    Plain ''from'' td___u64,
    Plain ''to'' td___u64,
    Bits ''mispred'' td___u64 1,
    Bits ''predicted'' td___u64 1,
    Bits ''in_tx'' td___u64 1,
    Bits ''abort'' td___u64 1,
    Bits ''cycles'' td___u64 16,
    Bits ''type'' td___u64 4,
    Bits ''spec'' td___u64 2,
    Bits ''new_type'' td___u64 4,
    Bits ''priv'' td___u64 3,
    Bits ''reserved'' td___u64 31]"

definition st_perf_guest_switch_msr :: ty where
  "st_perf_guest_switch_msr = TStruct ''perf_guest_switch_msr'' False [
    Plain ''msr'' (TInt I32 False),
    Plain ''host'' td_u64,
    Plain ''guest'' td_u64]"

definition st_cpu_itimer :: ty where
  "st_cpu_itimer = TStruct ''cpu_itimer'' False [
    Plain ''expires'' td_u64,
    Plain ''incr'' td_u64]"

definition st_cpu_user_regs :: ty where
  "st_cpu_user_regs = TStruct ''cpu_user_regs'' False [
    Plain ''r15'' td_uint64_t,
    Plain ''r14'' td_uint64_t,
    Plain ''r13'' td_uint64_t,
    Plain ''r12'' td_uint64_t,
    Plain '''' (TUnion '''' False [
      Plain ''rbp'' td_uint64_t,
      Plain ''ebp'' td_uint64_t,
      Plain ''_ebp'' td_uint32_t]),
    Plain '''' (TUnion '''' False [
      Plain ''rbx'' td_uint64_t,
      Plain ''ebx'' td_uint64_t,
      Plain ''_ebx'' td_uint32_t]),
    Plain ''r11'' td_uint64_t,
    Plain ''r10'' td_uint64_t,
    Plain ''r9'' td_uint64_t,
    Plain ''r8'' td_uint64_t,
    Plain '''' (TUnion '''' False [
      Plain ''rax'' td_uint64_t,
      Plain ''eax'' td_uint64_t,
      Plain ''_eax'' td_uint32_t]),
    Plain '''' (TUnion '''' False [
      Plain ''rcx'' td_uint64_t,
      Plain ''ecx'' td_uint64_t,
      Plain ''_ecx'' td_uint32_t]),
    Plain '''' (TUnion '''' False [
      Plain ''rdx'' td_uint64_t,
      Plain ''edx'' td_uint64_t,
      Plain ''_edx'' td_uint32_t]),
    Plain '''' (TUnion '''' False [
      Plain ''rsi'' td_uint64_t,
      Plain ''esi'' td_uint64_t,
      Plain ''_esi'' td_uint32_t]),
    Plain '''' (TUnion '''' False [
      Plain ''rdi'' td_uint64_t,
      Plain ''edi'' td_uint64_t,
      Plain ''_edi'' td_uint32_t]),
    Plain ''error_code'' td_uint32_t,
    Plain ''entry_vector'' td_uint32_t,
    Plain '''' (TUnion '''' False [
      Plain ''rip'' td_uint64_t,
      Plain ''eip'' td_uint64_t,
      Plain ''_eip'' td_uint32_t]),
    Plain ''cs'' td_uint16_t,
    Plain ''_pad0'' (TArr td_uint16_t 1),
    Plain ''saved_upcall_mask'' td_uint8_t,
    Plain ''_pad1'' (TArr td_uint8_t 3),
    Plain '''' (TUnion '''' False [
      Plain ''rflags'' td_uint64_t,
      Plain ''eflags'' td_uint64_t,
      Plain ''_eflags'' td_uint32_t]),
    Plain '''' (TUnion '''' False [
      Plain ''rsp'' td_uint64_t,
      Plain ''esp'' td_uint64_t,
      Plain ''_esp'' td_uint32_t]),
    Plain ''ss'' td_uint16_t,
    Plain ''_pad2'' (TArr td_uint16_t 3),
    Plain ''es'' td_uint16_t,
    Plain ''_pad3'' (TArr td_uint16_t 3),
    Plain ''ds'' td_uint16_t,
    Plain ''_pad4'' (TArr td_uint16_t 3),
    Plain ''fs'' td_uint16_t,
    Plain ''_pad5'' (TArr td_uint16_t 3),
    Plain ''gs'' td_uint16_t,
    Plain ''_pad6'' (TArr td_uint16_t 3)]"

definition st_cpufreq_cpuinfo :: ty where
  "st_cpufreq_cpuinfo = TStruct ''cpufreq_cpuinfo'' False [
    Plain ''max_freq'' (TInt I32 False),
    Plain ''min_freq'' (TInt I32 False),
    Plain ''transition_latency'' (TInt I32 False)]"

definition st_cpuidle_state_usage :: ty where
  "st_cpuidle_state_usage = TStruct ''cpuidle_state_usage'' False [
    Plain ''disable'' (TInt I64 False),
    Plain ''usage'' (TInt I64 False),
    Plain ''time_ns'' td_u64,
    Plain ''above'' (TInt I64 False),
    Plain ''below'' (TInt I64 False),
    Plain ''rejected'' (TInt I64 False),
    Plain ''s2idle_usage'' (TInt I64 False),
    Plain ''s2idle_time'' (TInt I64 False)]"

definition st_cpuinfo_topology :: ty where
  "st_cpuinfo_topology = TStruct ''cpuinfo_topology'' False [
    Plain ''apicid'' td_u32,
    Plain ''initial_apicid'' td_u32,
    Plain ''pkg_id'' td_u32,
    Plain ''die_id'' td_u32,
    Plain ''cu_id'' td_u32,
    Plain ''core_id'' td_u32,
    Plain ''logical_pkg_id'' td_u32,
    Plain ''logical_die_id'' td_u32,
    Plain ''logical_core_id'' td_u32,
    Plain ''amd_node_id'' td_u32,
    Plain ''llc_id'' td_u32,
    Plain ''l2c_id'' td_u32,
    Plain '''' (TUnion '''' False [
      Plain ''cpu_type'' td_u32,
      Plain '''' (TStruct '''' False [
        Bits ''intel_native_model_id'' td_u32 24,
        Bits ''intel_type'' td_u32 8]),
      Plain '''' (TStruct '''' False [
        Bits ''amd_num_processors'' td_u32 16,
        Bits ''amd_power_eff_ranking'' td_u32 8,
        Bits ''amd_native_model_id'' td_u32 4,
        Bits ''amd_type'' td_u32 4])])]"

definition st_cpupri_vec :: ty where
  "st_cpupri_vec = TStruct ''cpupri_vec'' False [
    Plain ''count'' td_atomic_t,
    Plain ''mask'' td_cpumask_var_t]"

definition st_range :: ty where
  "st_range = TStruct ''range'' False [
    Plain ''start'' td_u64,
    Plain ''end'' td_u64]"

definition st_crb_priv :: ty where
  "st_crb_priv = TStruct ''crb_priv'' False [
    Plain ''sm'' td_u32,
    Plain ''hid'' (TPtr ''char''),
    Plain ''regs_h'' (TPtr ''struct crb_regs_head''),
    Plain ''regs_t'' (TPtr ''struct crb_regs_tail''),
    Plain ''cmd'' (TPtr ''u8''),
    Plain ''rsp'' (TPtr ''u8''),
    Plain ''cmd_size'' td_u32,
    Plain ''smc_func_id'' td_u32,
    Plain ''pluton_start_addr'' (TPtr ''u32''),
    Plain ''pluton_reply_addr'' (TPtr ''u32''),
    Plain ''ffa_flags'' td_u8,
    Plain ''ffa_attributes'' td_u8]"

definition st_crypto_attr_alg :: ty where
  "st_crypto_attr_alg = TStruct ''crypto_attr_alg'' False [
    Plain ''name'' (TArr (TInt I8 True) 128)]"

definition st_crypto_attr_type :: ty where
  "st_crypto_attr_type = TStruct ''crypto_attr_type'' False [
    Plain ''type'' td_u32,
    Plain ''mask'' td_u32]"

definition st_rtattr :: ty where
  "st_rtattr = TStruct ''rtattr'' False [
    Plain ''rta_len'' (TInt I16 False),
    Plain ''rta_type'' (TInt I16 False)]"

definition st_iphdr :: ty where
  "st_iphdr = TStruct ''iphdr'' False [
    Bits ''ihl'' td___u8 4,
    Bits ''version'' td___u8 4,
    Plain ''tos'' td___u8,
    Plain ''tot_len'' td___be16,
    Plain ''id'' td___be16,
    Plain ''frag_off'' td___be16,
    Plain ''ttl'' td___u8,
    Plain ''protocol'' td___u8,
    Plain ''check'' td___sum16,
    Plain '''' (TUnion '''' False [
      Plain '''' (TStruct '''' False [
        Plain ''saddr'' td___be32,
        Plain ''daddr'' td___be32]),
      Plain ''addrs'' (TStruct '''' False [
        Plain ''saddr'' td___be32,
        Plain ''daddr'' td___be32])])]"

definition st_tcphdr :: ty where
  "st_tcphdr = TStruct ''tcphdr'' False [
    Plain ''source'' td___be16,
    Plain ''dest'' td___be16,
    Plain ''seq'' td___be32,
    Plain ''ack_seq'' td___be32,
    Bits ''ae'' td___u16 1,
    Bits ''res1'' td___u16 3,
    Bits ''doff'' td___u16 4,
    Bits ''fin'' td___u16 1,
    Bits ''syn'' td___u16 1,
    Bits ''rst'' td___u16 1,
    Bits ''psh'' td___u16 1,
    Bits ''ack'' td___u16 1,
    Bits ''urg'' td___u16 1,
    Bits ''ece'' td___u16 1,
    Bits ''cwr'' td___u16 1,
    Plain ''window'' td___be16,
    Plain ''check'' td___sum16,
    Plain ''urg_ptr'' td___be16]"

definition st_ct_data_s :: ty where
  "st_ct_data_s = TStruct ''ct_data_s'' False [
    Plain ''fc'' (TUnion '''' False [
      Plain ''freq'' td_ush,
      Plain ''code'' td_ush]),
    Plain ''dl'' (TUnion '''' False [
      Plain ''dad'' td_ush,
      Plain ''len'' td_ush])]"

definition st_cvt_timing :: ty where
  "st_cvt_timing = TStruct ''cvt_timing'' False [
    Plain ''code'' (TArr td_u8 3)]"

definition st_cxl_event_record_hdr :: ty where
  "st_cxl_event_record_hdr = TStruct ''cxl_event_record_hdr'' False [
    Plain ''length'' td_u8,
    Plain ''flags'' (TArr td_u8 3),
    Plain ''handle'' td___le16,
    Plain ''related_handle'' td___le16,
    Plain ''timestamp'' td___le64,
    Plain ''maint_op_class'' td_u8,
    Plain ''maint_op_sub_class'' td_u8,
    Plain ''ld_id'' td___le16,
    Plain ''head_id'' td_u8,
    Plain ''reserved'' (TArr td_u8 11)]"

definition st_cxl_cper_sec_prot_err :: ty where
  "st_cxl_cper_sec_prot_err = TStruct ''cxl_cper_sec_prot_err'' True [
    Plain ''valid_bits'' td_u64,
    Plain ''agent_type'' td_u8,
    Plain ''reserved'' (TArr td_u8 7),
    Plain ''agent_addr'' (TUnion '''' False [
      Plain ''rcrb_base_addr'' td_u64,
      Plain '''' (TStruct '''' True [
        Plain ''function'' td_u8,
        Plain ''device'' td_u8,
        Plain ''bus'' td_u8,
        Plain ''segment'' td_u16,
        Plain ''reserved_1'' (TArr td_u8 3)])]),
    Plain ''device_id'' (TStruct '''' False [
      Plain ''vendor_id'' td_u16,
      Plain ''device_id'' td_u16,
      Plain ''subsystem_vendor_id'' td_u16,
      Plain ''subsystem_id'' td_u16,
      Plain ''class_code'' (TArr td_u8 2),
      Plain ''slot'' td_u16,
      Plain ''reserved_1'' (TArr td_u8 4)]),
    Plain ''dev_serial_num'' (TStruct '''' False [
      Plain ''lower_dw'' td_u32,
      Plain ''upper_dw'' td_u32]),
    Plain ''capability'' (TArr td_u8 60),
    Plain ''dvsec_len'' td_u16,
    Plain ''err_len'' td_u16,
    Plain ''reserved_2'' (TArr td_u8 4)]"

definition st_d_partition :: ty where
  "st_d_partition = TStruct ''d_partition'' False [
    Plain ''p_size'' td___le32,
    Plain ''p_offset'' td___le32,
    Plain ''p_fsize'' td___le32,
    Plain ''p_fstype'' td_u8,
    Plain ''p_frag'' td_u8,
    Plain ''p_cpg'' td___le16]"

definition st_data_dirent :: ty where
  "st_data_dirent = TStruct ''data_dirent'' False [
    Plain ''virtual_address'' td_uint32_t,
    Plain ''size'' td_uint32_t]"

definition st_tasklet_struct :: ty where
  "st_tasklet_struct = TStruct ''tasklet_struct'' False [
    Plain ''next'' (TPtr ''struct tasklet_struct''),
    Plain ''state'' (TInt I64 False),
    Plain ''count'' td_atomic_t,
    Plain ''use_callback'' td_bool,
    Plain '''' (TUnion '''' False [
      Plain ''func'' (TFun ''void (*)(long unsigned int)''),
      Plain ''callback'' (TFun ''void (*)(struct tasklet_struct *)'')]),
    Plain ''data'' (TInt I64 False)]"

definition st_dbc_regs :: ty where
  "st_dbc_regs = TStruct ''dbc_regs'' False [
    Plain ''capability'' td___le32,
    Plain ''doorbell'' td___le32,
    Plain ''ersts'' td___le32,
    Plain ''__reserved_0'' td___le32,
    Plain ''erstba'' td___le64,
    Plain ''erdp'' td___le64,
    Plain ''control'' td___le32,
    Plain ''status'' td___le32,
    Plain ''portsc'' td___le32,
    Plain ''__reserved_1'' td___le32,
    Plain ''dccp'' td___le64,
    Plain ''devinfo1'' td___le32,
    Plain ''devinfo2'' td___le32]"

definition st_tree_desc_s :: ty where
  "st_tree_desc_s = TStruct ''tree_desc_s'' False [
    Plain ''dyn_tree'' (TPtr ''ct_data''),
    Plain ''max_code'' (TInt I32 True),
    Plain ''stat_desc'' (TPtr ''static_tree_desc'')]"

definition st_z_stream_s :: ty where
  "st_z_stream_s = TStruct ''z_stream_s'' False [
    Plain ''next_in'' (TPtr ''Byte''),
    Plain ''avail_in'' td_uLong,
    Plain ''total_in'' td_uLong,
    Plain ''next_out'' (TPtr ''Byte''),
    Plain ''avail_out'' td_uLong,
    Plain ''total_out'' td_uLong,
    Plain ''msg'' (TPtr ''char''),
    Plain ''state'' (TPtr ''struct internal_state''),
    Plain ''workspace'' (TPtr ''void''),
    Plain ''data_type'' (TInt I32 True),
    Plain ''adler'' td_uLong,
    Plain ''reserved'' td_uLong]"

definition st_delayed_call :: ty where
  "st_delayed_call = TStruct ''delayed_call'' False [
    Plain ''fn'' (TFun ''void (*)(void *)''),
    Plain ''arg'' (TPtr ''void'')]"

definition st_hlist_bl_node :: ty where
  "st_hlist_bl_node = TStruct ''hlist_bl_node'' False [
    Plain ''next'' (TPtr ''struct hlist_bl_node''),
    Plain ''pprev'' (TPtr ''struct hlist_bl_node *'')]"

definition st_qstr :: ty where
  "st_qstr = TStruct ''qstr'' False [
    Plain '''' (TUnion '''' False [
      Plain '''' (TStruct '''' False [
        Plain ''hash'' td_u32,
        Plain ''len'' td_u32]),
      Plain ''hash_len'' td_u64]),
    Plain ''name'' (TPtr ''unsigned char'')]"

definition un_shortname_store :: ty where
  "un_shortname_store = TUnion ''shortname_store'' False [
    Plain ''string'' (TArr (TInt I8 False) 40),
    Plain ''words'' (TArr (TInt I64 False) 5)]"

definition st_desc_ptr :: ty where
  "st_desc_ptr = TStruct ''desc_ptr'' True [
    Plain ''size'' (TInt I16 False),
    Plain ''address'' (TInt I64 False)]"

definition st_desc_struct :: ty where
  "st_desc_struct = TStruct ''desc_struct'' False [
    Plain ''limit0'' td_u16,
    Plain ''base0'' td_u16,
    Bits ''base1'' td_u16 8,
    Bits ''type'' td_u16 4,
    Bits ''s'' td_u16 1,
    Bits ''dpl'' td_u16 2,
    Bits ''p'' td_u16 1,
    Bits ''limit1'' td_u16 4,
    Bits ''avl'' td_u16 1,
    Bits ''l'' td_u16 1,
    Bits ''d'' td_u16 1,
    Bits ''g'' td_u16 1,
    Bits ''base2'' td_u16 8]"

definition st_detailed_data_monitor_range :: ty where
  "st_detailed_data_monitor_range = TStruct ''detailed_data_monitor_range'' False [
    Plain ''min_vfreq'' td_u8,
    Plain ''max_vfreq'' td_u8,
    Plain ''min_hfreq_khz'' td_u8,
    Plain ''max_hfreq_khz'' td_u8,
    Plain ''pixel_clock_mhz'' td_u8,
    Plain ''flags'' td_u8,
    Plain ''formula'' (TUnion '''' False [
      Plain ''gtf2'' (TStruct '''' True [
        Plain ''reserved'' td_u8,
        Plain ''hfreq_start_khz'' td_u8,
        Plain ''c'' td_u8,
        Plain ''m'' td___le16,
        Plain ''k'' td_u8,
        Plain ''j'' td_u8]),
      Plain ''cvt'' (TStruct '''' False [
        Plain ''version'' td_u8,
        Plain ''data1'' td_u8,
        Plain ''data2'' td_u8,
        Plain ''supported_aspects'' td_u8,
        Plain ''flags'' td_u8,
        Plain ''supported_scalings'' td_u8,
        Plain ''preferred_refresh'' td_u8])])]"

definition st_detailed_data_string :: ty where
  "st_detailed_data_string = TStruct ''detailed_data_string'' False [
    Plain ''str'' (TArr td_u8 13)]"

definition st_detailed_data_wpindex :: ty where
  "st_detailed_data_wpindex = TStruct ''detailed_data_wpindex'' False [
    Plain ''white_yx_lo'' td_u8,
    Plain ''white_x_hi'' td_u8,
    Plain ''white_y_hi'' td_u8,
    Plain ''gamma'' td_u8]"

definition st_std_timing :: ty where
  "st_std_timing = TStruct ''std_timing'' False [
    Plain ''hsize'' td_u8,
    Plain ''vfreq_aspect'' td_u8]"

definition st_detailed_pixel_timing :: ty where
  "st_detailed_pixel_timing = TStruct ''detailed_pixel_timing'' False [
    Plain ''hactive_lo'' td_u8,
    Plain ''hblank_lo'' td_u8,
    Plain ''hactive_hblank_hi'' td_u8,
    Plain ''vactive_lo'' td_u8,
    Plain ''vblank_lo'' td_u8,
    Plain ''vactive_vblank_hi'' td_u8,
    Plain ''hsync_offset_lo'' td_u8,
    Plain ''hsync_pulse_width_lo'' td_u8,
    Plain ''vsync_offset_pulse_width_lo'' td_u8,
    Plain ''hsync_vsync_offset_pulse_width_hi'' td_u8,
    Plain ''width_mm_lo'' td_u8,
    Plain ''height_mm_lo'' td_u8,
    Plain ''width_height_mm_hi'' td_u8,
    Plain ''hborder'' td_u8,
    Plain ''vborder'' td_u8,
    Plain ''misc'' td_u8]"

definition st_vmem_altmap :: ty where
  "st_vmem_altmap = TStruct ''vmem_altmap'' False [
    Plain ''base_pfn'' (TInt I64 False),
    Plain ''end_pfn'' (TInt I64 False),
    Plain ''reserve'' (TInt I64 False),
    Plain ''free'' (TInt I64 False),
    Plain ''align'' (TInt I64 False),
    Plain ''alloc'' (TInt I64 False)]"

definition st_device_dma_parameters :: ty where
  "st_device_dma_parameters = TStruct ''device_dma_parameters'' False [
    Plain ''max_segment_size'' (TInt I32 False),
    Plain ''min_align_mask'' (TInt I32 False),
    Plain ''segment_boundary_mask'' (TInt I64 False)]"

definition st_devlink_dev_stats :: ty where
  "st_devlink_dev_stats = TStruct ''devlink_dev_stats'' False [
    Plain ''reload_stats'' (TArr td_u32 6),
    Plain ''remote_reload_stats'' (TArr td_u32 6)]"

definition st_netdev_phys_item_id :: ty where
  "st_netdev_phys_item_id = TStruct ''netdev_phys_item_id'' False [
    Plain ''id'' (TArr (TInt I8 False) 32),
    Plain ''id_len'' (TInt I8 False)]"

definition st_dim_stats :: ty where
  "st_dim_stats = TStruct ''dim_stats'' False [
    Plain ''ppms'' (TInt I32 True),
    Plain ''bpms'' (TInt I32 True),
    Plain ''epms'' (TInt I32 True),
    Plain ''cpms'' (TInt I32 True),
    Plain ''cpe_ratio'' (TInt I32 True)]"

definition st_dim_sample :: ty where
  "st_dim_sample = TStruct ''dim_sample'' False [
    Plain ''time'' td_ktime_t,
    Plain ''pkt_ctr'' td_u32,
    Plain ''byte_ctr'' td_u32,
    Plain ''event_ctr'' td_u16,
    Plain ''comp_ctr'' td_u32]"

definition st_dio_submit :: ty where
  "st_dio_submit = TStruct ''dio_submit'' False [
    Plain ''bio'' (TPtr ''struct bio''),
    Plain ''blkbits'' (TInt I32 False),
    Plain ''blkfactor'' (TInt I32 False),
    Plain ''start_zero_done'' (TInt I32 False),
    Plain ''pages_in_io'' (TInt I32 True),
    Plain ''block_in_file'' td_sector_t,
    Plain ''blocks_available'' (TInt I32 False),
    Plain ''reap_counter'' (TInt I32 True),
    Plain ''final_block_in_request'' td_sector_t,
    Plain ''boundary'' (TInt I32 True),
    Plain ''get_block'' (TPtr ''get_block_t''),
    Plain ''logical_offset_in_bio'' td_loff_t,
    Plain ''final_block_in_bio'' td_sector_t,
    Plain ''next_block_for_io'' td_sector_t,
    Plain ''cur_page'' (TPtr ''struct page''),
    Plain ''cur_page_offset'' (TInt I32 False),
    Plain ''cur_page_len'' (TInt I32 False),
    Plain ''cur_page_block'' td_sector_t,
    Plain ''cur_page_fs_offset'' td_loff_t,
    Plain ''iter'' (TPtr ''struct iov_iter''),
    Plain ''head'' (TInt I32 False),
    Plain ''tail'' (TInt I32 False),
    Plain ''from'' td_size_t,
    Plain ''to'' td_size_t]"

definition st_dirty_throttle_control :: ty where
  "st_dirty_throttle_control = TStruct ''dirty_throttle_control'' False [
    Plain ''dom'' (TPtr ''struct wb_domain''),
    Plain ''gdtc'' (TPtr ''struct dirty_throttle_control''),
    Plain ''wb'' (TPtr ''struct bdi_writeback''),
    Plain ''wb_completions'' (TPtr ''struct fprop_local_percpu''),
    Plain ''avail'' (TInt I64 False),
    Plain ''dirty'' (TInt I64 False),
    Plain ''thresh'' (TInt I64 False),
    Plain ''bg_thresh'' (TInt I64 False),
    Plain ''limit'' (TInt I64 False),
    Plain ''wb_dirty'' (TInt I64 False),
    Plain ''wb_thresh'' (TInt I64 False),
    Plain ''wb_bg_thresh'' (TInt I64 False),
    Plain ''pos_ratio'' (TInt I64 False),
    Plain ''freerun'' td_bool,
    Plain ''dirty_exceeded'' td_bool]"

definition st_dm_ioctl :: ty where
  "st_dm_ioctl = TStruct ''dm_ioctl'' False [
    Plain ''version'' (TArr td___u32 3),
    Plain ''data_size'' td___u32,
    Plain ''data_start'' td___u32,
    Plain ''target_count'' td___u32,
    Plain ''open_count'' td___s32,
    Plain ''flags'' td___u32,
    Plain ''event_nr'' td___u32,
    Plain ''padding'' td___u32,
    Plain ''dev'' td___u64,
    Plain ''name'' (TArr (TInt I8 True) 128),
    Plain ''uuid'' (TArr (TInt I8 True) 129),
    Plain ''data'' (TArr (TInt I8 True) 7)]"

definition st_dm_ima_device_table_metadata :: ty where
  "st_dm_ima_device_table_metadata = TStruct ''dm_ima_device_table_metadata'' False [
    Plain ''device_metadata'' (TPtr ''char''),
    Plain ''device_metadata_len'' (TInt I32 False),
    Plain ''num_targets'' (TInt I32 False),
    Plain ''hash'' (TPtr ''char''),
    Plain ''hash_len'' (TInt I32 False)]"

definition st_dm_io_region :: ty where
  "st_dm_io_region = TStruct ''dm_io_region'' False [
    Plain ''bdev'' (TPtr ''struct block_device''),
    Plain ''sector'' td_sector_t,
    Plain ''count'' td_sector_t]"

definition st_dm_stat_percpu :: ty where
  "st_dm_stat_percpu = TStruct ''dm_stat_percpu'' False [
    Plain ''sectors'' (TArr (TInt I64 False) 2),
    Plain ''ios'' (TArr (TInt I64 False) 2),
    Plain ''merges'' (TArr (TInt I64 False) 2),
    Plain ''ticks'' (TArr (TInt I64 False) 2),
    Plain ''io_ticks'' (TArr (TInt I64 False) 2),
    Plain ''io_ticks_total'' (TInt I64 False),
    Plain ''time_in_queue'' (TInt I64 False),
    Plain ''histogram'' (TPtr ''long long unsigned int'')]"

definition st_dm_target :: ty where
  "st_dm_target = TStruct ''dm_target'' False [
    Plain ''table'' (TPtr ''struct dm_table''),
    Plain ''type'' (TPtr ''struct target_type''),
    Plain ''begin'' td_sector_t,
    Plain ''len'' td_sector_t,
    Plain ''max_io_len'' td_uint32_t,
    Plain ''num_flush_bios'' (TInt I32 False),
    Plain ''num_discard_bios'' (TInt I32 False),
    Plain ''num_secure_erase_bios'' (TInt I32 False),
    Plain ''num_write_zeroes_bios'' (TInt I32 False),
    Plain ''per_io_data_size'' (TInt I32 False),
    Plain ''private'' (TPtr ''void''),
    Plain ''error'' (TPtr ''char''),
    Bits ''flush_supported'' td_bool 1,
    Bits ''discards_supported'' td_bool 1,
    Bits ''zone_reset_all_supported'' td_bool 1,
    Bits ''max_discard_granularity'' td_bool 1,
    Bits ''limit_swap_bios'' td_bool 1,
    Bits ''emulate_zone_append'' td_bool 1,
    Bits ''accounts_remapped_io'' td_bool 1,
    Bits ''needs_bio_set_dev'' td_bool 1,
    Bits ''flush_bypasses_map'' td_bool 1,
    Bits ''mempool_needs_integrity'' td_bool 1]"

definition st_dm_wrappedkey_op_args :: ty where
  "st_dm_wrappedkey_op_args = TStruct ''dm_wrappedkey_op_args'' False [
    Plain ''op'' (TEnum ''dm_wrappedkey_op'' I32),
    Plain ''err'' (TInt I32 True),
    Plain '''' (TUnion '''' False [
      Plain ''derive_sw_secret'' (TStruct '''' False [
        Plain ''eph_key'' (TPtr ''u8''),
        Plain ''eph_key_size'' td_size_t,
        Plain ''sw_secret'' (TPtr ''u8'')]),
      Plain ''import_key'' (TStruct '''' False [
        Plain ''raw_key'' (TPtr ''u8''),
        Plain ''raw_key_size'' td_size_t,
        Plain ''lt_key'' (TPtr ''u8'')]),
      Plain ''generate_key'' (TStruct '''' False [
        Plain ''lt_key'' (TPtr ''u8'')]),
      Plain ''prepare_key'' (TStruct '''' False [
        Plain ''lt_key'' (TPtr ''u8''),
        Plain ''lt_key_size'' td_size_t,
        Plain ''eph_key'' (TPtr ''u8'')])])]"

definition st_sg_table :: ty where
  "st_sg_table = TStruct ''sg_table'' False [
    Plain ''sgl'' (TPtr ''struct scatterlist''),
    Plain ''nents'' (TInt I32 False),
    Plain ''orig_nents'' (TInt I32 False)]"

definition st_dma_slave_config :: ty where
  "st_dma_slave_config = TStruct ''dma_slave_config'' False [
    Plain ''direction'' (TEnum ''dma_transfer_direction'' I32),
    Plain ''src_addr'' td_phys_addr_t,
    Plain ''dst_addr'' td_phys_addr_t,
    Plain ''src_addr_width'' (TEnum ''dma_slave_buswidth'' I32),
    Plain ''dst_addr_width'' (TEnum ''dma_slave_buswidth'' I32),
    Plain ''src_maxburst'' td_u32,
    Plain ''dst_maxburst'' td_u32,
    Plain ''src_port_window_size'' td_u32,
    Plain ''dst_port_window_size'' td_u32,
    Plain ''device_fc'' td_bool,
    Plain ''peripheral_config'' (TPtr ''void''),
    Plain ''peripheral_size'' td_size_t]"

definition st_net_iov_area :: ty where
  "st_net_iov_area = TStruct ''net_iov_area'' False [
    Plain ''niovs'' (TPtr ''struct net_iov''),
    Plain ''num_niovs'' td_size_t,
    Plain ''base_virtual'' (TInt I64 False)]"

definition st_iommu_domain_geometry :: ty where
  "st_iommu_domain_geometry = TStruct ''iommu_domain_geometry'' False [
    Plain ''aperture_start'' td_dma_addr_t,
    Plain ''aperture_end'' td_dma_addr_t,
    Plain ''force_aperture'' td_bool]"

definition st_dom0_vga_console_info :: ty where
  "st_dom0_vga_console_info = TStruct ''dom0_vga_console_info'' False [
    Plain ''video_type'' td_uint8_t,
    Plain ''u'' (TUnion '''' False [
      Plain ''text_mode_3'' (TStruct '''' False [
        Plain ''font_height'' td_uint16_t,
        Plain ''cursor_x'' td_uint16_t,
        Plain ''cursor_y'' td_uint16_t,
        Plain ''rows'' td_uint16_t,
        Plain ''columns'' td_uint16_t]),
      Plain ''vesa_lfb'' (TStruct '''' False [
        Plain ''width'' td_uint16_t,
        Plain ''height'' td_uint16_t,
        Plain ''bytes_per_line'' td_uint16_t,
        Plain ''bits_per_pixel'' td_uint16_t,
        Plain ''lfb_base'' td_uint32_t,
        Plain ''lfb_size'' td_uint32_t,
        Plain ''red_pos'' td_uint8_t,
        Plain ''red_size'' td_uint8_t,
        Plain ''green_pos'' td_uint8_t,
        Plain ''green_size'' td_uint8_t,
        Plain ''blue_pos'' td_uint8_t,
        Plain ''blue_size'' td_uint8_t,
        Plain ''rsvd_pos'' td_uint8_t,
        Plain ''rsvd_size'' td_uint8_t,
        Plain ''gbl_caps'' td_uint32_t,
        Plain ''mode_attrs'' td_uint16_t,
        Plain ''pad'' td_uint16_t,
        Plain ''ext_lfb_base'' td_uint32_t])])]"

definition st_dql :: ty where
  "st_dql = TStruct ''dql'' False [
    Plain ''num_queued'' (TInt I32 False),
    Plain ''adj_limit'' (TInt I32 False),
    Plain ''last_obj_cnt'' (TInt I32 False),
    Plain ''stall_thrs'' (TInt I16 False),
    Plain ''history_head'' (TInt I64 False),
    Plain ''history'' (TArr (TInt I64 False) 4),
    Bits '''' (TInt I64 True) 64,
    Plain ''limit'' (TInt I32 False),
    Plain ''num_completed'' (TInt I32 False),
    Plain ''prev_ovlimit'' (TInt I32 False),
    Plain ''prev_num_queued'' (TInt I32 False),
    Plain ''prev_last_obj_cnt'' (TInt I32 False),
    Plain ''lowest_slack'' (TInt I32 False),
    Plain ''slack_start_time'' (TInt I64 False),
    Plain ''max_limit'' (TInt I32 False),
    Plain ''min_limit'' (TInt I32 False),
    Plain ''slack_hold_time'' (TInt I32 False),
    Plain ''stall_max'' (TInt I16 False),
    Plain ''last_reap'' (TInt I64 False),
    Plain ''stall_cnt'' (TInt I64 False)]"

definition st_drm_rect :: ty where
  "st_drm_rect = TStruct ''drm_rect'' False [
    Plain ''x1'' (TInt I32 True),
    Plain ''y1'' (TInt I32 True),
    Plain ''x2'' (TInt I32 True),
    Plain ''y2'' (TInt I32 True)]"

definition st_drm_connector_tv_margins :: ty where
  "st_drm_connector_tv_margins = TStruct ''drm_connector_tv_margins'' False [
    Plain ''bottom'' (TInt I32 False),
    Plain ''left'' (TInt I32 False),
    Plain ''right'' (TInt I32 False),
    Plain ''top'' (TInt I32 False)]"

definition st_drm_object_properties :: ty where
  "st_drm_object_properties = TStruct ''drm_object_properties'' False [
    Plain ''count'' (TInt I32 True),
    Plain ''properties'' (TArr (TPtr ''struct drm_property'') 64),
    Plain ''values'' (TArr td_uint64_t 64)]"

definition st_hdmi_avi_infoframe :: ty where
  "st_hdmi_avi_infoframe = TStruct ''hdmi_avi_infoframe'' False [
    Plain ''type'' (TEnum ''hdmi_infoframe_type'' I32),
    Plain ''version'' (TInt I8 False),
    Plain ''length'' (TInt I8 False),
    Plain ''itc'' td_bool,
    Plain ''pixel_repeat'' (TInt I8 False),
    Plain ''colorspace'' (TEnum ''hdmi_colorspace'' I32),
    Plain ''scan_mode'' (TEnum ''hdmi_scan_mode'' I32),
    Plain ''colorimetry'' (TEnum ''hdmi_colorimetry'' I32),
    Plain ''picture_aspect'' (TEnum ''hdmi_picture_aspect'' I32),
    Plain ''active_aspect'' (TEnum ''hdmi_active_aspect'' I32),
    Plain ''extended_colorimetry'' (TEnum ''hdmi_extended_colorimetry'' I32),
    Plain ''quantization_range'' (TEnum ''hdmi_quantization_range'' I32),
    Plain ''nups'' (TEnum ''hdmi_nups'' I32),
    Plain ''video_code'' (TInt I8 False),
    Plain ''ycc_quantization_range'' (TEnum ''hdmi_ycc_quantization_range'' I32),
    Plain ''content_type'' (TEnum ''hdmi_content_type'' I32),
    Plain ''top_bar'' (TInt I16 False),
    Plain ''bottom_bar'' (TInt I16 False),
    Plain ''left_bar'' (TInt I16 False),
    Plain ''right_bar'' (TInt I16 False)]"

definition st_hdmi_drm_infoframe :: ty where
  "st_hdmi_drm_infoframe = TStruct ''hdmi_drm_infoframe'' False [
    Plain ''type'' (TEnum ''hdmi_infoframe_type'' I32),
    Plain ''version'' (TInt I8 False),
    Plain ''length'' (TInt I8 False),
    Plain ''eotf'' (TEnum ''hdmi_eotf'' I32),
    Plain ''metadata_type'' (TEnum ''hdmi_metadata_type'' I32),
    Plain ''display_primaries'' (TArr (TStruct '''' False [
      Plain ''x'' td_u16,
      Plain ''y'' td_u16]) 3),
    Plain ''white_point'' (TStruct '''' False [
      Plain ''x'' td_u16,
      Plain ''y'' td_u16]),
    Plain ''max_display_mastering_luminance'' td_u16,
    Plain ''min_display_mastering_luminance'' td_u16,
    Plain ''max_cll'' td_u16,
    Plain ''max_fall'' td_u16]"

definition st_drm_dsc_rc_range_parameters :: ty where
  "st_drm_dsc_rc_range_parameters = TStruct ''drm_dsc_rc_range_parameters'' False [
    Plain ''range_min_qp'' td_u8,
    Plain ''range_max_qp'' td_u8,
    Plain ''range_bpg_offset'' td_u8]"

definition st_drm_dsc_picture_parameter_set :: ty where
  "st_drm_dsc_picture_parameter_set = TStruct ''drm_dsc_picture_parameter_set'' True [
    Plain ''dsc_version'' td_u8,
    Plain ''pps_identifier'' td_u8,
    Plain ''pps_reserved'' td_u8,
    Plain ''pps_3'' td_u8,
    Plain ''pps_4'' td_u8,
    Plain ''bits_per_pixel_low'' td_u8,
    Plain ''pic_height'' td___be16,
    Plain ''pic_width'' td___be16,
    Plain ''slice_height'' td___be16,
    Plain ''slice_width'' td___be16,
    Plain ''chunk_size'' td___be16,
    Plain ''initial_xmit_delay_high'' td_u8,
    Plain ''initial_xmit_delay_low'' td_u8,
    Plain ''initial_dec_delay'' td___be16,
    Plain ''pps20_reserved'' td_u8,
    Plain ''initial_scale_value'' td_u8,
    Plain ''scale_increment_interval'' td___be16,
    Plain ''scale_decrement_interval_high'' td_u8,
    Plain ''scale_decrement_interval_low'' td_u8,
    Plain ''pps26_reserved'' td_u8,
    Plain ''first_line_bpg_offset'' td_u8,
    Plain ''nfl_bpg_offset'' td___be16,
    Plain ''slice_bpg_offset'' td___be16,
    Plain ''initial_offset'' td___be16,
    Plain ''final_offset'' td___be16,
    Plain ''flatness_min_qp'' td_u8,
    Plain ''flatness_max_qp'' td_u8,
    Plain ''rc_model_size'' td___be16,
    Plain ''rc_edge_factor'' td_u8,
    Plain ''rc_quant_incr_limit0'' td_u8,
    Plain ''rc_quant_incr_limit1'' td_u8,
    Plain ''rc_tgt_offset'' td_u8,
    Plain ''rc_buf_thresh'' (TArr td_u8 14),
    Plain ''rc_range_parameters'' (TArr td___be16 15),
    Plain ''native_422_420'' td_u8,
    Plain ''second_line_bpg_offset'' td_u8,
    Plain ''nsl_bpg_offset'' td___be16,
    Plain ''second_line_offset_adj'' td___be16,
    Plain ''pps_long_94_reserved'' td_u32,
    Plain ''pps_long_98_reserved'' td_u32,
    Plain ''pps_long_102_reserved'' td_u32,
    Plain ''pps_long_106_reserved'' td_u32,
    Plain ''pps_long_110_reserved'' td_u32,
    Plain ''pps_long_114_reserved'' td_u32,
    Plain ''pps_long_118_reserved'' td_u32,
    Plain ''pps_long_122_reserved'' td_u32,
    Plain ''pps_short_126_reserved'' td___be16]"

definition st_drm_edid_product_id :: ty where
  "st_drm_edid_product_id = TStruct ''drm_edid_product_id'' True [
    Plain ''manufacturer_name'' td___be16,
    Plain ''product_code'' td___le16,
    Plain ''serial_number'' td___le32,
    Plain ''week_of_manufacture'' td_u8,
    Plain ''year_of_manufacture'' td_u8]"

definition st_drm_format_info :: ty where
  "st_drm_format_info = TStruct ''drm_format_info'' False [
    Plain ''format'' td_u32,
    Plain ''depth'' td_u8,
    Plain ''num_planes'' td_u8,
    Plain '''' (TUnion '''' False [
      Plain ''cpp'' (TArr td_u8 4),
      Plain ''char_per_block'' (TArr td_u8 4)]),
    Plain ''block_w'' (TArr td_u8 4),
    Plain ''block_h'' (TArr td_u8 4),
    Plain ''hsub'' td_u8,
    Plain ''vsub'' td_u8,
    Plain ''has_alpha'' td_bool,
    Plain ''is_yuv'' td_bool,
    Plain ''is_color_indexed'' td_bool]"

definition st_drm_mode_card_res :: ty where
  "st_drm_mode_card_res = TStruct ''drm_mode_card_res'' False [
    Plain ''fb_id_ptr'' td___u64,
    Plain ''crtc_id_ptr'' td___u64,
    Plain ''connector_id_ptr'' td___u64,
    Plain ''encoder_id_ptr'' td___u64,
    Plain ''count_fbs'' td___u32,
    Plain ''count_crtcs'' td___u32,
    Plain ''count_connectors'' td___u32,
    Plain ''count_encoders'' td___u32,
    Plain ''min_width'' td___u32,
    Plain ''max_width'' td___u32,
    Plain ''min_height'' td___u32,
    Plain ''max_height'' td___u32]"

definition st_drm_mode_modeinfo :: ty where
  "st_drm_mode_modeinfo = TStruct ''drm_mode_modeinfo'' False [
    Plain ''clock'' td___u32,
    Plain ''hdisplay'' td___u16,
    Plain ''hsync_start'' td___u16,
    Plain ''hsync_end'' td___u16,
    Plain ''htotal'' td___u16,
    Plain ''hskew'' td___u16,
    Plain ''vdisplay'' td___u16,
    Plain ''vsync_start'' td___u16,
    Plain ''vsync_end'' td___u16,
    Plain ''vtotal'' td___u16,
    Plain ''vscan'' td___u16,
    Plain ''vrefresh'' td___u32,
    Plain ''flags'' td___u32,
    Plain ''type'' td___u32,
    Plain ''name'' (TArr (TInt I8 True) 32)]"

definition st_drm_mode_get_connector :: ty where
  "st_drm_mode_get_connector = TStruct ''drm_mode_get_connector'' False [
    Plain ''encoders_ptr'' td___u64,
    Plain ''modes_ptr'' td___u64,
    Plain ''props_ptr'' td___u64,
    Plain ''prop_values_ptr'' td___u64,
    Plain ''count_modes'' td___u32,
    Plain ''count_props'' td___u32,
    Plain ''count_encoders'' td___u32,
    Plain ''encoder_id'' td___u32,
    Plain ''connector_id'' td___u32,
    Plain ''connector_type'' td___u32,
    Plain ''connector_type_id'' td___u32,
    Plain ''connection'' td___u32,
    Plain ''mm_width'' td___u32,
    Plain ''mm_height'' td___u32,
    Plain ''subpixel'' td___u32,
    Plain ''pad'' td___u32]"

definition st_drm_mode_set_plane :: ty where
  "st_drm_mode_set_plane = TStruct ''drm_mode_set_plane'' False [
    Plain ''plane_id'' td___u32,
    Plain ''crtc_id'' td___u32,
    Plain ''fb_id'' td___u32,
    Plain ''flags'' td___u32,
    Plain ''crtc_x'' td___s32,
    Plain ''crtc_y'' td___s32,
    Plain ''crtc_w'' td___u32,
    Plain ''crtc_h'' td___u32,
    Plain ''src_x'' td___u32,
    Plain ''src_y'' td___u32,
    Plain ''src_h'' td___u32,
    Plain ''src_w'' td___u32]"

definition st_pixel_format :: ty where
  "st_pixel_format = TStruct ''pixel_format'' False [
    Plain ''bits_per_pixel'' (TInt I8 False),
    Plain ''indexed'' td_bool,
    Plain '''' (TUnion '''' False [
      Plain '''' (TStruct '''' False [
        Plain ''alpha'' (TStruct '''' False [
          Plain ''offset'' (TInt I8 False),
          Plain ''length'' (TInt I8 False)]),
        Plain ''red'' (TStruct '''' False [
          Plain ''offset'' (TInt I8 False),
          Plain ''length'' (TInt I8 False)]),
        Plain ''green'' (TStruct '''' False [
          Plain ''offset'' (TInt I8 False),
          Plain ''length'' (TInt I8 False)]),
        Plain ''blue'' (TStruct '''' False [
          Plain ''offset'' (TInt I8 False),
          Plain ''length'' (TInt I8 False)])]),
      Plain ''index'' (TStruct '''' False [
        Plain ''offset'' (TInt I8 False),
        Plain ''length'' (TInt I8 False)])])]"

definition st_drm_vblank_crtc_config :: ty where
  "st_drm_vblank_crtc_config = TStruct ''drm_vblank_crtc_config'' False [
    Plain ''offdelay_ms'' (TInt I32 True),
    Plain ''disable_immediate'' td_bool]"

definition st_phylink_config :: ty where
  "st_phylink_config = TStruct ''phylink_config'' False [
    Plain ''dev'' (TPtr ''struct device''),
    Plain ''type'' (TEnum ''phylink_op_type'' I32),
    Plain ''poll_fixed_state'' td_bool,
    Plain ''mac_managed_pm'' td_bool,
    Plain ''mac_requires_rxc'' td_bool,
    Plain ''default_an_inband'' td_bool,
    Plain ''eee_rx_clk_stop_enable'' td_bool,
    Plain ''get_fixed_state''
      (TFun ''void (*)(struct phylink_config *, struct phylink_link_state *)''),
    Plain ''supported_interfaces'' (TArr (TInt I64 False) 1),
    Plain ''lpi_interfaces'' (TArr (TInt I64 False) 1),
    Plain ''mac_capabilities'' (TInt I64 False),
    Plain ''lpi_capabilities'' (TInt I64 False),
    Plain ''lpi_timer_default'' td_u32,
    Plain ''eee_enabled_default'' td_bool,
    Plain ''wol_phy_legacy'' td_bool,
    Plain ''wol_phy_speed_ctrl'' td_bool,
    Plain ''wol_mac_support'' td_u32]"

definition st_raw_notifier_head :: ty where
  "st_raw_notifier_head = TStruct ''raw_notifier_head'' False [
    Plain ''head'' (TPtr ''struct notifier_block'')]"

definition st_dst_cache :: ty where
  "st_dst_cache = TStruct ''dst_cache'' False [
    Plain ''cache'' (TPtr ''struct dst_cache_pcpu''),
    Plain ''reset_ts'' (TInt I64 False)]"

definition st_dw_edma_region :: ty where
  "st_dw_edma_region = TStruct ''dw_edma_region'' False [
    Plain ''paddr'' td_u64,
    Plain ''vaddr'' (TUnion '''' False [
      Plain ''mem'' (TPtr ''void''),
      Plain ''io'' (TPtr ''void'')]),
    Plain ''sz'' td_size_t]"

definition st_pci_eq_presets :: ty where
  "st_pci_eq_presets = TStruct ''pci_eq_presets'' False [
    Plain ''eq_presets_8gts'' (TArr td_u16 16),
    Plain ''eq_presets_Ngts'' (TArr td_u8 48)]"

definition st_reset_control_bulk_data :: ty where
  "st_reset_control_bulk_data = TStruct ''reset_control_bulk_data'' False [
    Plain ''id'' (TPtr ''char''),
    Plain ''rstc'' (TPtr ''struct reset_control'')]"

definition st_usb_otg_caps :: ty where
  "st_usb_otg_caps = TStruct ''usb_otg_caps'' False [
    Plain ''otg_rev'' td_u16,
    Plain ''hnp_support'' td_bool,
    Plain ''srp_support'' td_bool,
    Plain ''adp_support'' td_bool]"

definition st_dwc2_dregs_backup :: ty where
  "st_dwc2_dregs_backup = TStruct ''dwc2_dregs_backup'' False [
    Plain ''dcfg'' td_u32,
    Plain ''dctl'' td_u32,
    Plain ''daintmsk'' td_u32,
    Plain ''diepmsk'' td_u32,
    Plain ''doepmsk'' td_u32,
    Plain ''diepctl'' (TArr td_u32 16),
    Plain ''dieptsiz'' (TArr td_u32 16),
    Plain ''diepdma'' (TArr td_u32 16),
    Plain ''doepctl'' (TArr td_u32 16),
    Plain ''doeptsiz'' (TArr td_u32 16),
    Plain ''doepdma'' (TArr td_u32 16),
    Plain ''dtxfsiz'' (TArr td_u32 16),
    Plain ''valid'' td_bool]"

definition st_dwc2_gregs_backup :: ty where
  "st_dwc2_gregs_backup = TStruct ''dwc2_gregs_backup'' False [
    Plain ''gintsts'' td_u32,
    Plain ''gotgctl'' td_u32,
    Plain ''gintmsk'' td_u32,
    Plain ''gahbcfg'' td_u32,
    Plain ''gusbcfg'' td_u32,
    Plain ''grxfsiz'' td_u32,
    Plain ''gnptxfsiz'' td_u32,
    Plain ''gi2cctl'' td_u32,
    Plain ''glpmcfg'' td_u32,
    Plain ''pcgcctl'' td_u32,
    Plain ''pcgcctl1'' td_u32,
    Plain ''gdfifocfg'' td_u32,
    Plain ''gpwrdn'' td_u32,
    Plain ''valid'' td_bool]"

definition un_dwc2_hcd_internal_flags :: ty where
  "un_dwc2_hcd_internal_flags = TUnion ''dwc2_hcd_internal_flags'' False [
    Plain ''d32'' td_u32,
    Plain ''b'' (TStruct '''' False [
      Bits ''port_connect_status_change'' (TInt I32 False) 1,
      Bits ''port_connect_status'' (TInt I32 False) 1,
      Bits ''port_reset_change'' (TInt I32 False) 1,
      Bits ''port_enable_change'' (TInt I32 False) 1,
      Bits ''port_suspend_change'' (TInt I32 False) 1,
      Bits ''port_over_current_change'' (TInt I32 False) 1,
      Bits ''port_l1_change'' (TInt I32 False) 1,
      Bits ''reserved'' (TInt I32 False) 25])]"

definition st_dwc2_hcd_iso_packet_desc :: ty where
  "st_dwc2_hcd_iso_packet_desc = TStruct ''dwc2_hcd_iso_packet_desc'' False [
    Plain ''offset'' td_u32,
    Plain ''length'' td_u32,
    Plain ''actual_length'' td_u32,
    Plain ''status'' td_u32]"

definition st_dwc2_hcd_pipe_info :: ty where
  "st_dwc2_hcd_pipe_info = TStruct ''dwc2_hcd_pipe_info'' False [
    Plain ''dev_addr'' td_u8,
    Plain ''ep_num'' td_u8,
    Plain ''pipe_type'' td_u8,
    Plain ''pipe_dir'' td_u8,
    Plain ''maxp'' td_u16,
    Plain ''maxp_mult'' td_u16]"

definition st_dwc2_hregs_backup :: ty where
  "st_dwc2_hregs_backup = TStruct ''dwc2_hregs_backup'' False [
    Plain ''hcfg'' td_u32,
    Plain ''hflbaddr'' td_u32,
    Plain ''haintmsk'' td_u32,
    Plain ''hcchar'' (TArr td_u32 16),
    Plain ''hcsplt'' (TArr td_u32 16),
    Plain ''hcintmsk'' (TArr td_u32 16),
    Plain ''hctsiz'' (TArr td_u32 16),
    Plain ''hcidma'' (TArr td_u32 16),
    Plain ''hcidmab'' (TArr td_u32 16),
    Plain ''hprt0'' td_u32,
    Plain ''hfir'' td_u32,
    Plain ''hptxfsiz'' td_u32,
    Plain ''valid'' td_bool]"

definition st_dwc2_hs_transfer_time :: ty where
  "st_dwc2_hs_transfer_time = TStruct ''dwc2_hs_transfer_time'' False [
    Plain ''start_schedule_us'' td_u32,
    Plain ''duration_us'' td_u16]"

definition st_dwc2_hw_params :: ty where
  "st_dwc2_hw_params = TStruct ''dwc2_hw_params'' False [
    Bits ''op_mode'' (TInt I32 False) 3,
    Bits ''arch'' (TInt I32 False) 2,
    Bits ''dma_desc_enable'' (TInt I32 False) 1,
    Bits ''enable_dynamic_fifo'' (TInt I32 False) 1,
    Bits ''en_multiple_tx_fifo'' (TInt I32 False) 1,
    Bits ''rx_fifo_size'' (TInt I32 False) 16,
    Bits '''' (TInt I32 True) 8,
    Bits ''host_nperio_tx_fifo_size'' (TInt I32 False) 16,
    Bits ''dev_nperio_tx_fifo_size'' (TInt I32 False) 16,
    Bits ''host_perio_tx_fifo_size'' (TInt I32 False) 16,
    Bits ''nperio_tx_q_depth'' (TInt I32 False) 3,
    Bits ''host_perio_tx_q_depth'' (TInt I32 False) 3,
    Bits ''dev_token_q_depth'' (TInt I32 False) 5,
    Bits '''' (TInt I32 True) 5,
    Bits ''max_transfer_size'' (TInt I32 False) 26,
    Bits '''' (TInt I64 True) 6,
    Bits ''max_packet_count'' (TInt I32 False) 11,
    Bits ''host_channels'' (TInt I32 False) 5,
    Bits ''hs_phy_type'' (TInt I32 False) 2,
    Bits ''fs_phy_type'' (TInt I32 False) 2,
    Bits ''i2c_enable'' (TInt I32 False) 1,
    Bits ''acg_enable'' (TInt I32 False) 1,
    Bits ''num_dev_ep'' (TInt I32 False) 4,
    Bits ''num_dev_in_eps'' (TInt I32 False) 4,
    Bits '''' (TInt I32 True) 2,
    Bits ''num_dev_perio_in_ep'' (TInt I32 False) 4,
    Bits ''total_fifo_size'' (TInt I32 False) 16,
    Bits ''power_optimized'' (TInt I32 False) 1,
    Bits ''hibernation'' (TInt I32 False) 1,
    Bits ''utmi_phy_data_width'' (TInt I32 False) 2,
    Bits ''lpm_mode'' (TInt I32 False) 1,
    Bits ''ipg_isoc_en'' (TInt I32 False) 1,
    Bits ''service_interval_mode'' (TInt I32 False) 1,
    Plain ''snpsid'' td_u32,
    Plain ''dev_ep_dirs'' td_u32,
    Plain ''g_tx_fifo_size'' (TArr td_u32 16)]"

definition st_regulator_bulk_data :: ty where
  "st_regulator_bulk_data = TStruct ''regulator_bulk_data'' False [
    Plain ''supply'' (TPtr ''char''),
    Plain ''consumer'' (TPtr ''struct regulator''),
    Plain ''init_load_uA'' (TInt I32 True),
    Plain ''ret'' (TInt I32 True)]"

definition st_seq_buf :: ty where
  "st_seq_buf = TStruct ''seq_buf'' False [
    Plain ''buffer'' (TPtr ''char''),
    Plain ''size'' td_size_t,
    Plain ''len'' td_size_t]"

definition st_serial_rs485 :: ty where
  "st_serial_rs485 = TStruct ''serial_rs485'' False [
    Plain ''flags'' td___u32,
    Plain ''delay_rts_before_send'' td___u32,
    Plain ''delay_rts_after_send'' td___u32,
    Plain '''' (TUnion '''' False [
      Plain ''padding'' (TArr td___u32 5),
      Plain '''' (TStruct '''' False [
        Plain ''addr_recv'' td___u8,
        Plain ''addr_dest'' td___u8,
        Plain ''padding0'' (TArr td___u8 2),
        Plain ''padding1'' (TArr td___u32 4)])])]"

definition st_edac_device_counter :: ty where
  "st_edac_device_counter = TStruct ''edac_device_counter'' False [
    Plain ''ue_count'' td_u32,
    Plain ''ce_count'' td_u32]"

definition st_edac_pci_counter :: ty where
  "st_edac_pci_counter = TStruct ''edac_pci_counter'' False [
    Plain ''pe_count'' td_atomic_t,
    Plain ''npe_count'' td_atomic_t]"

definition st_edac_raw_error_desc :: ty where
  "st_edac_raw_error_desc = TStruct ''edac_raw_error_desc'' False [
    Plain ''location'' (TArr (TInt I8 True) 256),
    Plain ''label'' (TArr (TInt I8 True) 296),
    Plain ''grain'' (TInt I64 True),
    Plain ''error_count'' td_u16,
    Plain ''type'' (TEnum ''hw_event_mc_err_type'' I32),
    Plain ''top_layer'' (TInt I32 True),
    Plain ''mid_layer'' (TInt I32 True),
    Plain ''low_layer'' (TInt I32 True),
    Plain ''page_frame_number'' (TInt I64 False),
    Plain ''offset_in_page'' (TInt I64 False),
    Plain ''syndrome'' (TInt I64 False),
    Plain ''msg'' (TPtr ''char''),
    Plain ''other_detail'' (TPtr ''char'')]"

definition st_est_timings :: ty where
  "st_est_timings = TStruct ''est_timings'' False [
    Plain ''t1'' td_u8,
    Plain ''t2'' td_u8,
    Plain ''mfg_rsvd'' td_u8]"

definition st_eee_config :: ty where
  "st_eee_config = TStruct ''eee_config'' False [
    Plain ''tx_lpi_timer'' td_u32,
    Plain ''tx_lpi_enabled'' td_bool,
    Plain ''eee_enabled'' td_bool]"

definition un_efi_rts_args :: ty where
  "un_efi_rts_args = TUnion ''efi_rts_args'' False [
    Plain ''GET_TIME'' (TStruct '''' False [
      Plain ''time'' (TPtr ''efi_time_t''),
      Plain ''capabilities'' (TPtr ''efi_time_cap_t'')]),
    Plain ''SET_TIME'' (TStruct '''' False [
      Plain ''time'' (TPtr ''efi_time_t'')]),
    Plain ''GET_WAKEUP_TIME'' (TStruct '''' False [
      Plain ''enabled'' (TPtr ''efi_bool_t''),
      Plain ''pending'' (TPtr ''efi_bool_t''),
      Plain ''time'' (TPtr ''efi_time_t'')]),
    Plain ''SET_WAKEUP_TIME'' (TStruct '''' False [
      Plain ''enable'' td_efi_bool_t,
      Plain ''time'' (TPtr ''efi_time_t'')]),
    Plain ''GET_VARIABLE'' (TStruct '''' False [
      Plain ''name'' (TPtr ''efi_char16_t''),
      Plain ''vendor'' (TPtr ''efi_guid_t''),
      Plain ''attr'' (TPtr ''u32''),
      Plain ''data_size'' (TPtr ''long unsigned int''),
      Plain ''data'' (TPtr ''void'')]),
    Plain ''GET_NEXT_VARIABLE'' (TStruct '''' False [
      Plain ''name_size'' (TPtr ''long unsigned int''),
      Plain ''name'' (TPtr ''efi_char16_t''),
      Plain ''vendor'' (TPtr ''efi_guid_t'')]),
    Plain ''SET_VARIABLE'' (TStruct '''' False [
      Plain ''name'' (TPtr ''efi_char16_t''),
      Plain ''vendor'' (TPtr ''efi_guid_t''),
      Plain ''attr'' td_u32,
      Plain ''data_size'' (TInt I64 False),
      Plain ''data'' (TPtr ''void'')]),
    Plain ''QUERY_VARIABLE_INFO'' (TStruct '''' False [
      Plain ''attr'' td_u32,
      Plain ''storage_space'' (TPtr ''u64''),
      Plain ''remaining_space'' (TPtr ''u64''),
      Plain ''max_variable_size'' (TPtr ''u64'')]),
    Plain ''GET_NEXT_HIGH_MONO_COUNT'' (TStruct '''' False [
      Plain ''high_count'' (TPtr ''u32'')]),
    Plain ''UPDATE_CAPSULE'' (TStruct '''' False [
      Plain ''capsules'' (TPtr ''efi_capsule_header_t *''),
      Plain ''count'' (TInt I64 False),
      Plain ''sg_list'' (TInt I64 False)]),
    Plain ''QUERY_CAPSULE_CAPS'' (TStruct '''' False [
      Plain ''capsules'' (TPtr ''efi_capsule_header_t *''),
      Plain ''count'' (TInt I64 False),
      Plain ''max_size'' (TPtr ''u64''),
      Plain ''reset_type'' (TPtr ''int'')]),
    Plain ''ACPI_PRM_HANDLER'' (TStruct '''' False [
      Plain ''acpi_prm_handler'' (TFun ''efi_status_t (*)(u64, void *)''),
      Plain ''param_buffer_addr'' td_u64,
      Plain ''context'' (TPtr ''void'')])]"

definition un_ehci_shadow :: ty where
  "un_ehci_shadow = TUnion ''ehci_shadow'' False [
    Plain ''qh'' (TPtr ''struct ehci_qh''),
    Plain ''itd'' (TPtr ''struct ehci_itd''),
    Plain ''sitd'' (TPtr ''struct ehci_sitd''),
    Plain ''fstn'' (TPtr ''struct ehci_fstn''),
    Plain ''hw_next'' (TPtr ''__le32''),
    Plain ''ptr'' (TPtr ''void'')]"

definition st_ehci_stats :: ty where
  "st_ehci_stats = TStruct ''ehci_stats'' False [
    Plain ''normal'' (TInt I64 False),
    Plain ''error'' (TInt I64 False),
    Plain ''iaa'' (TInt I64 False),
    Plain ''lost_iaa'' (TInt I64 False),
    Plain ''complete'' (TInt I64 False),
    Plain ''unlink'' (TInt I64 False)]"

definition st_ehci_qh_hw :: ty where
  "st_ehci_qh_hw = TStruct ''ehci_qh_hw'' False [
    Plain ''hw_next'' td___le32,
    Plain ''hw_info1'' td___le32,
    Plain ''hw_info2'' td___le32,
    Plain ''hw_current'' td___le32,
    Plain ''hw_qtd_next'' td___le32,
    Plain ''hw_alt_next'' td___le32,
    Plain ''hw_token'' td___le32,
    Plain ''hw_buf'' (TArr td___le32 5),
    Plain ''hw_buf_hi'' (TArr td___le32 5),
    Bits '''' (TInt I64 True) 64,
    Bits '''' (TInt I64 True) 64,
    Bits '''' (TInt I64 True) 64]"

definition st_ehci_regs :: ty where
  "st_ehci_regs = TStruct ''ehci_regs'' False [
    Plain ''command'' td_u32,
    Plain ''status'' td_u32,
    Plain ''intr_enable'' td_u32,
    Plain ''frame_index'' td_u32,
    Plain ''segment'' td_u32,
    Plain ''frame_list'' td_u32,
    Plain ''async_next'' td_u32,
    Plain ''reserved1'' (TArr td_u32 2),
    Plain ''txfill_tuning'' td_u32,
    Plain ''reserved2'' (TArr td_u32 6),
    Plain ''configured_flag'' td_u32,
    Plain '''' (TUnion '''' False [
      Plain ''port_status'' (TArr td_u32 15),
      Plain '''' (TStruct '''' False [
        Plain ''reserved3'' (TArr td_u32 9),
        Plain ''usbmode'' td_u32])]),
    Plain '''' (TUnion '''' False [
      Plain '''' (TStruct '''' False [
        Plain ''reserved4'' td_u32,
        Plain ''hostpc'' (TArr td_u32 15)]),
      Plain ''brcm_insnreg'' (TArr td_u32 4)]),
    Plain ''reserved5'' (TArr td_u32 2),
    Plain ''usbmode_ex'' td_u32]"

definition st_touchscreen_properties :: ty where
  "st_touchscreen_properties = TStruct ''touchscreen_properties'' False [
    Plain ''max_x'' (TInt I32 False),
    Plain ''max_y'' (TInt I32 False),
    Plain ''invert_x'' td_bool,
    Plain ''invert_y'' td_bool,
    Plain ''swap_x_y'' td_bool]"

definition st_elf32_hdr :: ty where
  "st_elf32_hdr = TStruct ''elf32_hdr'' False [
    Plain ''e_ident'' (TArr (TInt I8 False) 16),
    Plain ''e_type'' td_Elf32_Half,
    Plain ''e_machine'' td_Elf32_Half,
    Plain ''e_version'' td_Elf32_Word,
    Plain ''e_entry'' td_Elf32_Addr,
    Plain ''e_phoff'' td_Elf32_Off,
    Plain ''e_shoff'' td_Elf32_Off,
    Plain ''e_flags'' td_Elf32_Word,
    Plain ''e_ehsize'' td_Elf32_Half,
    Plain ''e_phentsize'' td_Elf32_Half,
    Plain ''e_phnum'' td_Elf32_Half,
    Plain ''e_shentsize'' td_Elf32_Half,
    Plain ''e_shnum'' td_Elf32_Half,
    Plain ''e_shstrndx'' td_Elf32_Half]"

definition st_elf64_hdr :: ty where
  "st_elf64_hdr = TStruct ''elf64_hdr'' False [
    Plain ''e_ident'' (TArr (TInt I8 False) 16),
    Plain ''e_type'' td_Elf64_Half,
    Plain ''e_machine'' td_Elf64_Half,
    Plain ''e_version'' td_Elf64_Word,
    Plain ''e_entry'' td_Elf64_Addr,
    Plain ''e_phoff'' td_Elf64_Off,
    Plain ''e_shoff'' td_Elf64_Off,
    Plain ''e_flags'' td_Elf64_Word,
    Plain ''e_ehsize'' td_Elf64_Half,
    Plain ''e_phentsize'' td_Elf64_Half,
    Plain ''e_phnum'' td_Elf64_Half,
    Plain ''e_shentsize'' td_Elf64_Half,
    Plain ''e_shnum'' td_Elf64_Half,
    Plain ''e_shstrndx'' td_Elf64_Half]"

definition st_elf_prpsinfo :: ty where
  "st_elf_prpsinfo = TStruct ''elf_prpsinfo'' False [
    Plain ''pr_state'' (TInt I8 True),
    Plain ''pr_sname'' (TInt I8 True),
    Plain ''pr_zomb'' (TInt I8 True),
    Plain ''pr_nice'' (TInt I8 True),
    Plain ''pr_flag'' (TInt I64 False),
    Plain ''pr_uid'' td___kernel_uid_t,
    Plain ''pr_gid'' td___kernel_gid_t,
    Plain ''pr_pid'' td_pid_t,
    Plain ''pr_ppid'' td_pid_t,
    Plain ''pr_pgrp'' td_pid_t,
    Plain ''pr_sid'' td_pid_t,
    Plain ''pr_fname'' (TArr (TInt I8 True) 16),
    Plain ''pr_psargs'' (TArr (TInt I8 True) 80)]"

definition st_elf_siginfo :: ty where
  "st_elf_siginfo = TStruct ''elf_siginfo'' False [
    Plain ''si_signo'' (TInt I32 True),
    Plain ''si_code'' (TInt I32 True),
    Plain ''si_errno'' (TInt I32 True)]"

definition st_epoll_filefd :: ty where
  "st_epoll_filefd = TStruct ''epoll_filefd'' True [
    Plain ''file'' (TPtr ''struct file''),
    Plain ''fd'' (TInt I32 True)]"

definition st_epoll_event :: ty where
  "st_epoll_event = TStruct ''epoll_event'' True [
    Plain ''events'' td___poll_t,
    Plain ''data'' td___u64]"

definition st_insn_field :: ty where
  "st_insn_field = TStruct ''insn_field'' False [
    Plain '''' (TUnion '''' False [
      Plain ''value'' td_insn_value_t,
      Plain ''bytes'' (TArr td_insn_byte_t 4)]),
    Plain ''got'' (TInt I8 False),
    Plain ''nbytes'' (TInt I8 False)]"

definition st_ethtool_cmd :: ty where
  "st_ethtool_cmd = TStruct ''ethtool_cmd'' False [
    Plain ''cmd'' td___u32,
    Plain ''supported'' td___u32,
    Plain ''advertising'' td___u32,
    Plain ''speed'' td___u16,
    Plain ''duplex'' td___u8,
    Plain ''port'' td___u8,
    Plain ''phy_address'' td___u8,
    Plain ''transceiver'' td___u8,
    Plain ''autoneg'' td___u8,
    Plain ''mdio_support'' td___u8,
    Plain ''maxtxpkt'' td___u32,
    Plain ''maxrxpkt'' td___u32,
    Plain ''speed_hi'' td___u16,
    Plain ''eth_tp_mdix'' td___u8,
    Plain ''eth_tp_mdix_ctrl'' td___u8,
    Plain ''lp_advertising'' td___u32,
    Plain ''reserved'' (TArr td___u32 2)]"

definition st_ethtool_cmis_cdb_request :: ty where
  "st_ethtool_cmis_cdb_request = TStruct ''ethtool_cmis_cdb_request'' False [
    Plain ''id'' td___be16,
    Plain '''' (TUnion '''' False [
      Plain '''' (TStruct '''' False [
        Plain ''epl_len'' td___be16,
        Plain ''lpl_len'' td_u8,
        Plain ''chk_code'' td_u8,
        Plain ''resv1'' td_u8,
        Plain ''resv2'' td_u8,
        Plain ''payload'' (TArr td_u8 120)]),
      Plain ''body'' (TStruct '''' False [
        Plain ''epl_len'' td___be16,
        Plain ''lpl_len'' td_u8,
        Plain ''chk_code'' td_u8,
        Plain ''resv1'' td_u8,
        Plain ''resv2'' td_u8,
        Plain ''payload'' (TArr td_u8 120)])]),
    Plain ''epl'' (TPtr ''u8'')]"

definition st_ethtool_drvinfo :: ty where
  "st_ethtool_drvinfo = TStruct ''ethtool_drvinfo'' False [
    Plain ''cmd'' td___u32,
    Plain ''driver'' (TArr (TInt I8 True) 32),
    Plain ''version'' (TArr (TInt I8 True) 32),
    Plain ''fw_version'' (TArr (TInt I8 True) 32),
    Plain ''bus_info'' (TArr (TInt I8 True) 32),
    Plain ''erom_version'' (TArr (TInt I8 True) 32),
    Plain ''reserved2'' (TArr (TInt I8 True) 12),
    Plain ''n_priv_flags'' td___u32,
    Plain ''n_stats'' td___u32,
    Plain ''testinfo_len'' td___u32,
    Plain ''eedump_len'' td___u32,
    Plain ''regdump_len'' td___u32]"

definition st_ethtool_eth_ctrl_stats :: ty where
  "st_ethtool_eth_ctrl_stats = TStruct ''ethtool_eth_ctrl_stats'' False [
    Plain ''src'' (TEnum ''ethtool_mac_stats_src'' I32),
    Plain '''' (TUnion '''' False [
      Plain '''' (TStruct '''' False [
        Plain ''MACControlFramesTransmitted'' td_u64,
        Plain ''MACControlFramesReceived'' td_u64,
        Plain ''UnsupportedOpcodesReceived'' td_u64]),
      Plain ''stats'' (TStruct '''' False [
        Plain ''MACControlFramesTransmitted'' td_u64,
        Plain ''MACControlFramesReceived'' td_u64,
        Plain ''UnsupportedOpcodesReceived'' td_u64])])]"

definition st_ethtool_eth_mac_stats :: ty where
  "st_ethtool_eth_mac_stats = TStruct ''ethtool_eth_mac_stats'' False [
    Plain ''src'' (TEnum ''ethtool_mac_stats_src'' I32),
    Plain '''' (TUnion '''' False [
      Plain '''' (TStruct '''' False [
        Plain ''FramesTransmittedOK'' td_u64,
        Plain ''SingleCollisionFrames'' td_u64,
        Plain ''MultipleCollisionFrames'' td_u64,
        Plain ''FramesReceivedOK'' td_u64,
        Plain ''FrameCheckSequenceErrors'' td_u64,
        Plain ''AlignmentErrors'' td_u64,
        Plain ''OctetsTransmittedOK'' td_u64,
        Plain ''FramesWithDeferredXmissions'' td_u64,
        Plain ''LateCollisions'' td_u64,
        Plain ''FramesAbortedDueToXSColls'' td_u64,
        Plain ''FramesLostDueToIntMACXmitError'' td_u64,
        Plain ''CarrierSenseErrors'' td_u64,
        Plain ''OctetsReceivedOK'' td_u64,
        Plain ''FramesLostDueToIntMACRcvError'' td_u64,
        Plain ''MulticastFramesXmittedOK'' td_u64,
        Plain ''BroadcastFramesXmittedOK'' td_u64,
        Plain ''FramesWithExcessiveDeferral'' td_u64,
        Plain ''MulticastFramesReceivedOK'' td_u64,
        Plain ''BroadcastFramesReceivedOK'' td_u64,
        Plain ''InRangeLengthErrors'' td_u64,
        Plain ''OutOfRangeLengthField'' td_u64,
        Plain ''FrameTooLongErrors'' td_u64]),
      Plain ''stats'' (TStruct '''' False [
        Plain ''FramesTransmittedOK'' td_u64,
        Plain ''SingleCollisionFrames'' td_u64,
        Plain ''MultipleCollisionFrames'' td_u64,
        Plain ''FramesReceivedOK'' td_u64,
        Plain ''FrameCheckSequenceErrors'' td_u64,
        Plain ''AlignmentErrors'' td_u64,
        Plain ''OctetsTransmittedOK'' td_u64,
        Plain ''FramesWithDeferredXmissions'' td_u64,
        Plain ''LateCollisions'' td_u64,
        Plain ''FramesAbortedDueToXSColls'' td_u64,
        Plain ''FramesLostDueToIntMACXmitError'' td_u64,
        Plain ''CarrierSenseErrors'' td_u64,
        Plain ''OctetsReceivedOK'' td_u64,
        Plain ''FramesLostDueToIntMACRcvError'' td_u64,
        Plain ''MulticastFramesXmittedOK'' td_u64,
        Plain ''BroadcastFramesXmittedOK'' td_u64,
        Plain ''FramesWithExcessiveDeferral'' td_u64,
        Plain ''MulticastFramesReceivedOK'' td_u64,
        Plain ''BroadcastFramesReceivedOK'' td_u64,
        Plain ''InRangeLengthErrors'' td_u64,
        Plain ''OutOfRangeLengthField'' td_u64,
        Plain ''FrameTooLongErrors'' td_u64])])]"

definition st_ethtool_eth_phy_stats :: ty where
  "st_ethtool_eth_phy_stats = TStruct ''ethtool_eth_phy_stats'' False [
    Plain ''src'' (TEnum ''ethtool_mac_stats_src'' I32),
    Plain '''' (TUnion '''' False [
      Plain '''' (TStruct '''' False [
        Plain ''SymbolErrorDuringCarrier'' td_u64]),
      Plain ''stats'' (TStruct '''' False [
        Plain ''SymbolErrorDuringCarrier'' td_u64])])]"

definition st_ethtool_link_settings :: ty where
  "st_ethtool_link_settings = TStruct ''ethtool_link_settings'' False [
    Plain ''cmd'' td___u32,
    Plain ''speed'' td___u32,
    Plain ''duplex'' td___u8,
    Plain ''port'' td___u8,
    Plain ''phy_address'' td___u8,
    Plain ''autoneg'' td___u8,
    Plain ''mdio_support'' td___u8,
    Plain ''eth_tp_mdix'' td___u8,
    Plain ''eth_tp_mdix_ctrl'' td___u8,
    Plain ''link_mode_masks_nwords'' td___s8,
    Plain ''transceiver'' td___u8,
    Plain ''master_slave_cfg'' td___u8,
    Plain ''master_slave_state'' td___u8,
    Plain ''rate_matching'' td___u8,
    Plain ''reserved'' (TArr td___u32 7)]"

definition st_ethtool_phy_stats :: ty where
  "st_ethtool_phy_stats = TStruct ''ethtool_phy_stats'' False [
    Plain ''rx_packets'' td_u64,
    Plain ''rx_bytes'' td_u64,
    Plain ''rx_errors'' td_u64,
    Plain ''tx_packets'' td_u64,
    Plain ''tx_bytes'' td_u64,
    Plain ''tx_errors'' td_u64]"

definition st_ethtool_rmon_stats :: ty where
  "st_ethtool_rmon_stats = TStruct ''ethtool_rmon_stats'' False [
    Plain ''src'' (TEnum ''ethtool_mac_stats_src'' I32),
    Plain '''' (TUnion '''' False [
      Plain '''' (TStruct '''' False [
        Plain ''undersize_pkts'' td_u64,
        Plain ''oversize_pkts'' td_u64,
        Plain ''fragments'' td_u64,
        Plain ''jabbers'' td_u64,
        Plain ''hist'' (TArr td_u64 11),
        Plain ''hist_tx'' (TArr td_u64 11)]),
      Plain ''stats'' (TStruct '''' False [
        Plain ''undersize_pkts'' td_u64,
        Plain ''oversize_pkts'' td_u64,
        Plain ''fragments'' td_u64,
        Plain ''jabbers'' td_u64,
        Plain ''hist'' (TArr td_u64 11),
        Plain ''hist_tx'' (TArr td_u64 11)])])]"

definition st_ethtool_ts_stats :: ty where
  "st_ethtool_ts_stats = TStruct ''ethtool_ts_stats'' False [
    Plain '''' (TUnion '''' False [
      Plain '''' (TStruct '''' False [
        Plain ''pkts'' td_u64,
        Plain ''onestep_pkts_unconfirmed'' td_u64,
        Plain ''lost'' td_u64,
        Plain ''err'' td_u64]),
      Plain ''tx_stats'' (TStruct '''' False [
        Plain ''pkts'' td_u64,
        Plain ''onestep_pkts_unconfirmed'' td_u64,
        Plain ''lost'' td_u64,
        Plain ''err'' td_u64])])]"

definition st_input_event :: ty where
  "st_input_event = TStruct ''input_event'' False [
    Plain ''__sec'' td___kernel_ulong_t,
    Plain ''__usec'' td___kernel_ulong_t,
    Plain ''type'' td___u16,
    Plain ''code'' td___u16,
    Plain ''value'' td___s32]"

definition st_eventfs_attr :: ty where
  "st_eventfs_attr = TStruct ''eventfs_attr'' False [
    Plain ''mode'' (TInt I32 True),
    Plain ''uid'' td_kuid_t,
    Plain ''gid'' td_kgid_t]"

definition st_ima_digest_data_hdr :: ty where
  "st_ima_digest_data_hdr = TStruct ''ima_digest_data_hdr'' False [
    Plain ''algo'' td_u8,
    Plain ''length'' td_u8,
    Plain ''xattr'' (TUnion '''' False [
      Plain ''sha1'' (TStruct '''' False [
        Plain ''unused'' td_u8,
        Plain ''type'' td_u8]),
      Plain ''ng'' (TStruct '''' False [
        Plain ''type'' td_u8,
        Plain ''algo'' td_u8]),
      Plain ''data'' (TArr td_u8 2)])]"

definition st_evtchn_status :: ty where
  "st_evtchn_status = TStruct ''evtchn_status'' False [
    Plain ''dom'' td_domid_t,
    Plain ''port'' td_evtchn_port_t,
    Plain ''status'' td_uint32_t,
    Plain ''vcpu'' td_uint32_t,
    Plain ''u'' (TUnion '''' False [
      Plain ''unbound'' (TStruct '''' False [
        Plain ''dom'' td_domid_t]),
      Plain ''interdomain'' (TStruct '''' False [
        Plain ''dom'' td_domid_t,
        Plain ''port'' td_evtchn_port_t]),
      Plain ''pirq'' td_uint32_t,
      Plain ''virq'' td_uint32_t])]"

definition st_exception_stacks :: ty where
  "st_exception_stacks = TStruct ''exception_stacks'' False [
    Plain ''DF_stack_guard'' (TArr (TInt I8 True) 0),
    Plain ''DF_stack'' (TArr (TInt I8 True) 8192),
    Plain ''NMI_stack_guard'' (TArr (TInt I8 True) 0),
    Plain ''NMI_stack'' (TArr (TInt I8 True) 8192),
    Plain ''DB_stack_guard'' (TArr (TInt I8 True) 0),
    Plain ''DB_stack'' (TArr (TInt I8 True) 8192),
    Plain ''MCE_stack_guard'' (TArr (TInt I8 True) 0),
    Plain ''MCE_stack'' (TArr (TInt I8 True) 8192),
    Plain ''VC_stack_guard'' (TArr (TInt I8 True) 0),
    Plain ''VC_stack'' (TArr (TInt I8 True) 8192),
    Plain ''VC2_stack_guard'' (TArr (TInt I8 True) 0),
    Plain ''VC2_stack'' (TArr (TInt I8 True) 8192),
    Plain ''IST_top_guard'' (TArr (TInt I8 True) 0)]"

definition st_ext4_free_extent :: ty where
  "st_ext4_free_extent = TStruct ''ext4_free_extent'' False [
    Plain ''fe_logical'' td_ext4_lblk_t,
    Plain ''fe_start'' td_ext4_grpblk_t,
    Plain ''fe_group'' td_ext4_group_t,
    Plain ''fe_len'' td_ext4_grpblk_t]"

definition st_ext4_fc_replay_state :: ty where
  "st_ext4_fc_replay_state = TStruct ''ext4_fc_replay_state'' False [
    Plain ''fc_replay_num_tags'' (TInt I32 True),
    Plain ''fc_replay_expected_off'' (TInt I32 True),
    Plain ''fc_current_pass'' (TInt I32 True),
    Plain ''fc_cur_tag'' (TInt I32 True),
    Plain ''fc_crc'' (TInt I32 True),
    Plain ''fc_regions'' (TPtr ''struct ext4_fc_alloc_region''),
    Plain ''fc_regions_size'' (TInt I32 True),
    Plain ''fc_regions_used'' (TInt I32 True),
    Plain ''fc_regions_valid'' (TInt I32 True),
    Plain ''fc_modified_inodes'' (TPtr ''int''),
    Plain ''fc_modified_inodes_used'' (TInt I32 True),
    Plain ''fc_modified_inodes_size'' (TInt I32 True)]"

definition st_fscrypt_dummy_policy :: ty where
  "st_fscrypt_dummy_policy = TStruct ''fscrypt_dummy_policy'' False [
    Plain ''policy'' (TPtr ''union fscrypt_policy'')]"

definition st_ext4_group_desc :: ty where
  "st_ext4_group_desc = TStruct ''ext4_group_desc'' False [
    Plain ''bg_block_bitmap_lo'' td___le32,
    Plain ''bg_inode_bitmap_lo'' td___le32,
    Plain ''bg_inode_table_lo'' td___le32,
    Plain ''bg_free_blocks_count_lo'' td___le16,
    Plain ''bg_free_inodes_count_lo'' td___le16,
    Plain ''bg_used_dirs_count_lo'' td___le16,
    Plain ''bg_flags'' td___le16,
    Plain ''bg_exclude_bitmap_lo'' td___le32,
    Plain ''bg_block_bitmap_csum_lo'' td___le16,
    Plain ''bg_inode_bitmap_csum_lo'' td___le16,
    Plain ''bg_itable_unused_lo'' td___le16,
    Plain ''bg_checksum'' td___le16,
    Plain ''bg_block_bitmap_hi'' td___le32,
    Plain ''bg_inode_bitmap_hi'' td___le32,
    Plain ''bg_inode_table_hi'' td___le32,
    Plain ''bg_free_blocks_count_hi'' td___le16,
    Plain ''bg_free_inodes_count_hi'' td___le16,
    Plain ''bg_used_dirs_count_hi'' td___le16,
    Plain ''bg_itable_unused_hi'' td___le16,
    Plain ''bg_exclude_bitmap_hi'' td___le32,
    Plain ''bg_block_bitmap_csum_hi'' td___le16,
    Plain ''bg_inode_bitmap_csum_hi'' td___le16,
    Plain ''bg_reserved'' td___u32]"

definition st_ext4_inode :: ty where
  "st_ext4_inode = TStruct ''ext4_inode'' False [
    Plain ''i_mode'' td___le16,
    Plain ''i_uid'' td___le16,
    Plain ''i_size_lo'' td___le32,
    Plain ''i_atime'' td___le32,
    Plain ''i_ctime'' td___le32,
    Plain ''i_mtime'' td___le32,
    Plain ''i_dtime'' td___le32,
    Plain ''i_gid'' td___le16,
    Plain ''i_links_count'' td___le16,
    Plain ''i_blocks_lo'' td___le32,
    Plain ''i_flags'' td___le32,
    Plain ''osd1'' (TUnion '''' False [
      Plain ''linux1'' (TStruct '''' False [
        Plain ''l_i_version'' td___le32]),
      Plain ''hurd1'' (TStruct '''' False [
        Plain ''h_i_translator'' td___u32]),
      Plain ''masix1'' (TStruct '''' False [
        Plain ''m_i_reserved1'' td___u32])]),
    Plain ''i_block'' (TArr td___le32 15),
    Plain ''i_generation'' td___le32,
    Plain ''i_file_acl_lo'' td___le32,
    Plain ''i_size_high'' td___le32,
    Plain ''i_obso_faddr'' td___le32,
    Plain ''osd2'' (TUnion '''' False [
      Plain ''linux2'' (TStruct '''' False [
        Plain ''l_i_blocks_high'' td___le16,
        Plain ''l_i_file_acl_high'' td___le16,
        Plain ''l_i_uid_high'' td___le16,
        Plain ''l_i_gid_high'' td___le16,
        Plain ''l_i_checksum_lo'' td___le16,
        Plain ''l_i_reserved'' td___le16]),
      Plain ''hurd2'' (TStruct '''' False [
        Plain ''h_i_reserved1'' td___le16,
        Plain ''h_i_mode_high'' td___u16,
        Plain ''h_i_uid_high'' td___u16,
        Plain ''h_i_gid_high'' td___u16,
        Plain ''h_i_author'' td___u32]),
      Plain ''masix2'' (TStruct '''' False [
        Plain ''h_i_reserved1'' td___le16,
        Plain ''m_i_file_acl_high'' td___le16,
        Plain ''m_i_reserved2'' (TArr td___u32 2)])]),
    Plain ''i_extra_isize'' td___le16,
    Plain ''i_checksum_hi'' td___le16,
    Plain ''i_ctime_extra'' td___le32,
    Plain ''i_mtime_extra'' td___le32,
    Plain ''i_atime_extra'' td___le32,
    Plain ''i_crtime'' td___le32,
    Plain ''i_crtime_extra'' td___le32,
    Plain ''i_version_hi'' td___le32,
    Plain ''i_projid'' td___le32]"

definition st_ext4_super_block :: ty where
  "st_ext4_super_block = TStruct ''ext4_super_block'' False [
    Plain ''s_inodes_count'' td___le32,
    Plain ''s_blocks_count_lo'' td___le32,
    Plain ''s_r_blocks_count_lo'' td___le32,
    Plain ''s_free_blocks_count_lo'' td___le32,
    Plain ''s_free_inodes_count'' td___le32,
    Plain ''s_first_data_block'' td___le32,
    Plain ''s_log_block_size'' td___le32,
    Plain ''s_log_cluster_size'' td___le32,
    Plain ''s_blocks_per_group'' td___le32,
    Plain ''s_clusters_per_group'' td___le32,
    Plain ''s_inodes_per_group'' td___le32,
    Plain ''s_mtime'' td___le32,
    Plain ''s_wtime'' td___le32,
    Plain ''s_mnt_count'' td___le16,
    Plain ''s_max_mnt_count'' td___le16,
    Plain ''s_magic'' td___le16,
    Plain ''s_state'' td___le16,
    Plain ''s_errors'' td___le16,
    Plain ''s_minor_rev_level'' td___le16,
    Plain ''s_lastcheck'' td___le32,
    Plain ''s_checkinterval'' td___le32,
    Plain ''s_creator_os'' td___le32,
    Plain ''s_rev_level'' td___le32,
    Plain ''s_def_resuid'' td___le16,
    Plain ''s_def_resgid'' td___le16,
    Plain ''s_first_ino'' td___le32,
    Plain ''s_inode_size'' td___le16,
    Plain ''s_block_group_nr'' td___le16,
    Plain ''s_feature_compat'' td___le32,
    Plain ''s_feature_incompat'' td___le32,
    Plain ''s_feature_ro_compat'' td___le32,
    Plain ''s_uuid'' (TArr td___u8 16),
    Plain ''s_volume_name'' (TArr (TInt I8 True) 16),
    Plain ''s_last_mounted'' (TArr (TInt I8 True) 64),
    Plain ''s_algorithm_usage_bitmap'' td___le32,
    Plain ''s_prealloc_blocks'' td___u8,
    Plain ''s_prealloc_dir_blocks'' td___u8,
    Plain ''s_reserved_gdt_blocks'' td___le16,
    Plain ''s_journal_uuid'' (TArr td___u8 16),
    Plain ''s_journal_inum'' td___le32,
    Plain ''s_journal_dev'' td___le32,
    Plain ''s_last_orphan'' td___le32,
    Plain ''s_hash_seed'' (TArr td___le32 4),
    Plain ''s_def_hash_version'' td___u8,
    Plain ''s_jnl_backup_type'' td___u8,
    Plain ''s_desc_size'' td___le16,
    Plain ''s_default_mount_opts'' td___le32,
    Plain ''s_first_meta_bg'' td___le32,
    Plain ''s_mkfs_time'' td___le32,
    Plain ''s_jnl_blocks'' (TArr td___le32 17),
    Plain ''s_blocks_count_hi'' td___le32,
    Plain ''s_r_blocks_count_hi'' td___le32,
    Plain ''s_free_blocks_count_hi'' td___le32,
    Plain ''s_min_extra_isize'' td___le16,
    Plain ''s_want_extra_isize'' td___le16,
    Plain ''s_flags'' td___le32,
    Plain ''s_raid_stride'' td___le16,
    Plain ''s_mmp_update_interval'' td___le16,
    Plain ''s_mmp_block'' td___le64,
    Plain ''s_raid_stripe_width'' td___le32,
    Plain ''s_log_groups_per_flex'' td___u8,
    Plain ''s_checksum_type'' td___u8,
    Plain ''s_encryption_level'' td___u8,
    Plain ''s_reserved_pad'' td___u8,
    Plain ''s_kbytes_written'' td___le64,
    Plain ''s_snapshot_inum'' td___le32,
    Plain ''s_snapshot_id'' td___le32,
    Plain ''s_snapshot_r_blocks_count'' td___le64,
    Plain ''s_snapshot_list'' td___le32,
    Plain ''s_error_count'' td___le32,
    Plain ''s_first_error_time'' td___le32,
    Plain ''s_first_error_ino'' td___le32,
    Plain ''s_first_error_block'' td___le64,
    Plain ''s_first_error_func'' (TArr td___u8 32),
    Plain ''s_first_error_line'' td___le32,
    Plain ''s_last_error_time'' td___le32,
    Plain ''s_last_error_ino'' td___le32,
    Plain ''s_last_error_line'' td___le32,
    Plain ''s_last_error_block'' td___le64,
    Plain ''s_last_error_func'' (TArr td___u8 32),
    Plain ''s_mount_opts'' (TArr td___u8 64),
    Plain ''s_usr_quota_inum'' td___le32,
    Plain ''s_grp_quota_inum'' td___le32,
    Plain ''s_overhead_clusters'' td___le32,
    Plain ''s_backup_bgs'' (TArr td___le32 2),
    Plain ''s_encrypt_algos'' (TArr td___u8 4),
    Plain ''s_encrypt_pw_salt'' (TArr td___u8 16),
    Plain ''s_lpf_ino'' td___le32,
    Plain ''s_prj_quota_inum'' td___le32,
    Plain ''s_checksum_seed'' td___le32,
    Plain ''s_wtime_hi'' td___u8,
    Plain ''s_mtime_hi'' td___u8,
    Plain ''s_mkfs_time_hi'' td___u8,
    Plain ''s_lastcheck_hi'' td___u8,
    Plain ''s_first_error_time_hi'' td___u8,
    Plain ''s_last_error_time_hi'' td___u8,
    Plain ''s_first_error_errcode'' td___u8,
    Plain ''s_last_error_errcode'' td___u8,
    Plain ''s_encoding'' td___le16,
    Plain ''s_encoding_flags'' td___le16,
    Plain ''s_orphan_file_inum'' td___le32,
    Plain ''s_def_resuid_hi'' td___le16,
    Plain ''s_def_resgid_hi'' td___le16,
    Plain ''s_reserved'' (TArr td___le32 93),
    Plain ''s_checksum'' td___le32]"

definition st_ext4_tune_sb_params :: ty where
  "st_ext4_tune_sb_params = TStruct ''ext4_tune_sb_params'' False [
    Plain ''set_flags'' td___u32,
    Plain ''checkinterval'' td___u32,
    Plain ''errors_behavior'' td___u16,
    Plain ''mnt_count'' td___u16,
    Plain ''max_mnt_count'' td___u16,
    Plain ''raid_stride'' td___u16,
    Plain ''last_check_time'' td___u64,
    Plain ''reserved_blocks'' td___u64,
    Plain ''blocks_count'' td___u64,
    Plain ''default_mnt_opts'' td___u32,
    Plain ''reserved_uid'' td___u32,
    Plain ''reserved_gid'' td___u32,
    Plain ''raid_stripe_width'' td___u32,
    Plain ''encoding'' td___u16,
    Plain ''encoding_flags'' td___u16,
    Plain ''def_hash_alg'' td___u8,
    Plain ''pad_1'' td___u8,
    Plain ''pad_2'' td___u16,
    Plain ''feature_compat'' td___u32,
    Plain ''feature_incompat'' td___u32,
    Plain ''feature_ro_compat'' td___u32,
    Plain ''set_feature_compat_mask'' td___u32,
    Plain ''set_feature_incompat_mask'' td___u32,
    Plain ''set_feature_ro_compat_mask'' td___u32,
    Plain ''clear_feature_compat_mask'' td___u32,
    Plain ''clear_feature_incompat_mask'' td___u32,
    Plain ''clear_feature_ro_compat_mask'' td___u32,
    Plain ''mount_opts'' (TArr td___u8 64),
    Plain ''pad'' (TArr td___u8 68)]"

definition st_fanotify_response_info_header :: ty where
  "st_fanotify_response_info_header = TStruct ''fanotify_response_info_header'' False [
    Plain ''type'' td___u8,
    Plain ''pad'' td___u8,
    Plain ''len'' td___u16]"

definition st_fat_bios_param_block :: ty where
  "st_fat_bios_param_block = TStruct ''fat_bios_param_block'' False [
    Plain ''fat_sector_size'' td_u16,
    Plain ''fat_sec_per_clus'' td_u8,
    Plain ''fat_reserved'' td_u16,
    Plain ''fat_fats'' td_u8,
    Plain ''fat_dir_entries'' td_u16,
    Plain ''fat_sectors'' td_u16,
    Plain ''fat_fat_length'' td_u16,
    Plain ''fat_total_sect'' td_u32,
    Plain ''fat16_state'' td_u8,
    Plain ''fat16_vol_id'' td_u32,
    Plain ''fat32_length'' td_u32,
    Plain ''fat32_root_cluster'' td_u32,
    Plain ''fat32_info_sector'' td_u16,
    Plain ''fat32_state'' td_u8,
    Plain ''fat32_vol_id'' td_u32]"

definition st_fat_boot_sector :: ty where
  "st_fat_boot_sector = TStruct ''fat_boot_sector'' False [
    Plain ''ignored'' (TArr td___u8 3),
    Plain ''system_id'' (TArr td___u8 8),
    Plain ''sector_size'' (TArr td___u8 2),
    Plain ''sec_per_clus'' td___u8,
    Plain ''reserved'' td___le16,
    Plain ''fats'' td___u8,
    Plain ''dir_entries'' (TArr td___u8 2),
    Plain ''sectors'' (TArr td___u8 2),
    Plain ''media'' td___u8,
    Plain ''fat_length'' td___le16,
    Plain ''secs_track'' td___le16,
    Plain ''heads'' td___le16,
    Plain ''hidden'' td___le32,
    Plain ''total_sect'' td___le32,
    Plain '''' (TUnion '''' False [
      Plain ''fat16'' (TStruct '''' False [
        Plain ''drive_number'' td___u8,
        Plain ''state'' td___u8,
        Plain ''signature'' td___u8,
        Plain ''vol_id'' (TArr td___u8 4),
        Plain ''vol_label'' (TArr td___u8 11),
        Plain ''fs_type'' (TArr td___u8 8)]),
      Plain ''fat32'' (TStruct '''' False [
        Plain ''length'' td___le32,
        Plain ''flags'' td___le16,
        Plain ''version'' (TArr td___u8 2),
        Plain ''root_cluster'' td___le32,
        Plain ''info_sector'' td___le16,
        Plain ''backup_boot'' td___le16,
        Plain ''reserved2'' (TArr td___le16 6),
        Plain ''drive_number'' td___u8,
        Plain ''state'' td___u8,
        Plain ''signature'' td___u8,
        Plain ''vol_id'' (TArr td___u8 4),
        Plain ''vol_label'' (TArr td___u8 11),
        Plain ''fs_type'' (TArr td___u8 8)])])]"

definition st_fat_mount_options :: ty where
  "st_fat_mount_options = TStruct ''fat_mount_options'' False [
    Plain ''fs_uid'' td_kuid_t,
    Plain ''fs_gid'' td_kgid_t,
    Plain ''fs_fmask'' (TInt I16 False),
    Plain ''fs_dmask'' (TInt I16 False),
    Plain ''codepage'' (TInt I16 False),
    Plain ''time_offset'' (TInt I32 True),
    Plain ''iocharset'' (TPtr ''char''),
    Plain ''shortname'' (TInt I16 False),
    Plain ''name_check'' (TInt I8 False),
    Plain ''errors'' (TInt I8 False),
    Plain ''nfs'' (TInt I8 False),
    Plain ''allow_utime'' (TInt I16 False),
    Bits ''quiet'' (TInt I32 False) 1,
    Bits ''showexec'' (TInt I32 False) 1,
    Bits ''sys_immutable'' (TInt I32 False) 1,
    Bits ''dotsOK'' (TInt I32 False) 1,
    Bits ''isvfat'' (TInt I32 False) 1,
    Bits ''utf8'' (TInt I32 False) 1,
    Bits ''unicode_xlate'' (TInt I32 False) 1,
    Bits ''numtail'' (TInt I32 False) 1,
    Bits ''flush'' (TInt I32 False) 1,
    Bits ''nocase'' (TInt I32 False) 1,
    Bits ''usefree'' (TInt I32 False) 1,
    Bits ''tz_set'' (TInt I32 False) 1,
    Bits ''rodir'' (TInt I32 False) 1,
    Bits ''discard'' (TInt I32 False) 1,
    Bits ''dos1xfloppy'' (TInt I32 False) 1,
    Bits ''debug'' (TInt I32 False) 1]"

definition st_fb_bitfield :: ty where
  "st_fb_bitfield = TStruct ''fb_bitfield'' False [
    Plain ''offset'' td___u32,
    Plain ''length'' td___u32,
    Plain ''msb_right'' td___u32]"

definition st_fb_chroma :: ty where
  "st_fb_chroma = TStruct ''fb_chroma'' False [
    Plain ''redx'' td___u32,
    Plain ''greenx'' td___u32,
    Plain ''bluex'' td___u32,
    Plain ''whitex'' td___u32,
    Plain ''redy'' td___u32,
    Plain ''greeny'' td___u32,
    Plain ''bluey'' td___u32,
    Plain ''whitey'' td___u32]"

definition st_fb_cmap :: ty where
  "st_fb_cmap = TStruct ''fb_cmap'' False [
    Plain ''start'' td___u32,
    Plain ''len'' td___u32,
    Plain ''red'' (TPtr ''__u16''),
    Plain ''green'' (TPtr ''__u16''),
    Plain ''blue'' (TPtr ''__u16''),
    Plain ''transp'' (TPtr ''__u16'')]"

definition st_fbcurpos :: ty where
  "st_fbcurpos = TStruct ''fbcurpos'' False [
    Plain ''x'' td___u16,
    Plain ''y'' td___u16]"

definition st_fb_cvt_data :: ty where
  "st_fb_cvt_data = TStruct ''fb_cvt_data'' False [
    Plain ''xres'' td_u32,
    Plain ''yres'' td_u32,
    Plain ''refresh'' td_u32,
    Plain ''f_refresh'' td_u32,
    Plain ''pixclock'' td_u32,
    Plain ''hperiod'' td_u32,
    Plain ''hblank'' td_u32,
    Plain ''hfreq'' td_u32,
    Plain ''htotal'' td_u32,
    Plain ''vtotal'' td_u32,
    Plain ''vsync'' td_u32,
    Plain ''hsync'' td_u32,
    Plain ''h_front_porch'' td_u32,
    Plain ''h_back_porch'' td_u32,
    Plain ''v_front_porch'' td_u32,
    Plain ''v_back_porch'' td_u32,
    Plain ''h_margin'' td_u32,
    Plain ''v_margin'' td_u32,
    Plain ''interlace'' td_u32,
    Plain ''aspect_ratio'' td_u32,
    Plain ''active_pixels'' td_u32,
    Plain ''flags'' td_u32,
    Plain ''status'' td_u32]"

definition st_fb_fix_screeninfo :: ty where
  "st_fb_fix_screeninfo = TStruct ''fb_fix_screeninfo'' False [
    Plain ''id'' (TArr (TInt I8 True) 16),
    Plain ''smem_start'' (TInt I64 False),
    Plain ''smem_len'' td___u32,
    Plain ''type'' td___u32,
    Plain ''type_aux'' td___u32,
    Plain ''visual'' td___u32,
    Plain ''xpanstep'' td___u16,
    Plain ''ypanstep'' td___u16,
    Plain ''ywrapstep'' td___u16,
    Plain ''line_length'' td___u32,
    Plain ''mmio_start'' (TInt I64 False),
    Plain ''mmio_len'' td___u32,
    Plain ''accel'' td___u32,
    Plain ''capabilities'' td___u16,
    Plain ''reserved'' (TArr td___u16 2)]"

definition st_fb_fix_screeninfo32 :: ty where
  "st_fb_fix_screeninfo32 = TStruct ''fb_fix_screeninfo32'' False [
    Plain ''id'' (TArr (TInt I8 True) 16),
    Plain ''smem_start'' td_compat_caddr_t,
    Plain ''smem_len'' td_u32,
    Plain ''type'' td_u32,
    Plain ''type_aux'' td_u32,
    Plain ''visual'' td_u32,
    Plain ''xpanstep'' td_u16,
    Plain ''ypanstep'' td_u16,
    Plain ''ywrapstep'' td_u16,
    Plain ''line_length'' td_u32,
    Plain ''mmio_start'' td_compat_caddr_t,
    Plain ''mmio_len'' td_u32,
    Plain ''accel'' td_u32,
    Plain ''reserved'' (TArr td_u16 3)]"

definition st_fb_pixmap :: ty where
  "st_fb_pixmap = TStruct ''fb_pixmap'' False [
    Plain ''addr'' (TPtr ''u8''),
    Plain ''size'' td_u32,
    Plain ''offset'' td_u32,
    Plain ''buf_align'' td_u32,
    Plain ''scan_align'' td_u32,
    Plain ''access_align'' td_u32,
    Plain ''flags'' td_u32,
    Plain ''blit_x'' (TArr (TInt I64 False) 1),
    Plain ''blit_y'' (TArr (TInt I64 False) 2),
    Plain ''writeio'' (TFun ''void (*)(struct fb_info *, void *, void *, unsigned int)''),
    Plain ''readio'' (TFun ''void (*)(struct fb_info *, void *, void *, unsigned int)'')]"

definition st_fb_videomode :: ty where
  "st_fb_videomode = TStruct ''fb_videomode'' False [
    Plain ''name'' (TPtr ''char''),
    Plain ''refresh'' td_u32,
    Plain ''xres'' td_u32,
    Plain ''yres'' td_u32,
    Plain ''pixclock'' td_u32,
    Plain ''left_margin'' td_u32,
    Plain ''right_margin'' td_u32,
    Plain ''upper_margin'' td_u32,
    Plain ''lower_margin'' td_u32,
    Plain ''hsync_len'' td_u32,
    Plain ''vsync_len'' td_u32,
    Plain ''sync'' td_u32,
    Plain ''vmode'' td_u32,
    Plain ''flag'' td_u32]"

definition st_fetch_insn :: ty where
  "st_fetch_insn = TStruct ''fetch_insn'' False [
    Plain ''op'' (TEnum ''fetch_op'' I32),
    Plain '''' (TUnion '''' False [
      Plain ''param'' (TInt I32 False),
      Plain '''' (TStruct '''' False [
        Plain ''size'' (TInt I32 False),
        Plain ''offset'' (TInt I32 True)]),
      Plain '''' (TStruct '''' False [
        Plain ''basesize'' (TInt I8 False),
        Plain ''lshift'' (TInt I8 False),
        Plain ''rshift'' (TInt I8 False)]),
      Plain ''immediate'' (TInt I64 False),
      Plain ''data'' (TPtr ''void'')])]"

definition st_fib_kuid_range :: ty where
  "st_fib_kuid_range = TStruct ''fib_kuid_range'' False [
    Plain ''start'' td_kuid_t,
    Plain ''end'' td_kuid_t]"

definition st_fib_rule_port_range :: ty where
  "st_fib_rule_port_range = TStruct ''fib_rule_port_range'' False [
    Plain ''start'' td___u16,
    Plain ''end'' td___u16]"

definition st_nl_info :: ty where
  "st_nl_info = TStruct ''nl_info'' False [
    Plain ''nlh'' (TPtr ''struct nlmsghdr''),
    Plain ''nl_net'' (TPtr ''struct net''),
    Plain ''portid'' td_u32,
    Bits ''skip_notify'' td_u8 1,
    Bits ''skip_notify_kernel'' td_u8 1]"

definition st_fid :: ty where
  "st_fid = TStruct ''fid'' False [
    Plain '''' (TUnion '''' False [
      Plain ''i32'' (TStruct '''' False [
        Plain ''ino'' td_u32,
        Plain ''gen'' td_u32,
        Plain ''parent_ino'' td_u32,
        Plain ''parent_gen'' td_u32]),
      Plain ''i64'' (TStruct '''' True [
        Plain ''ino'' td_u64,
        Plain ''gen'' td_u32]),
      Plain ''udf'' (TStruct '''' False [
        Plain ''block'' td_u32,
        Plain ''partref'' td_u16,
        Plain ''parent_partref'' td_u16,
        Plain ''generation'' td_u32,
        Plain ''parent_block'' td_u32,
        Plain ''parent_generation'' td_u32]),
      Plain '''' (TStruct '''' False [
        Plain ''__empty_raw'' (TStruct '''' False []),
        Plain ''raw'' (TArr td___u32 0)])])]"

definition st_nfs4_lock_info :: ty where
  "st_nfs4_lock_info = TStruct ''nfs4_lock_info'' False [
    Plain ''owner'' (TPtr ''struct nfs4_lock_state'')]"

definition st_regulator_state :: ty where
  "st_regulator_state = TStruct ''regulator_state'' False [
    Plain ''uV'' (TInt I32 True),
    Plain ''min_uV'' (TInt I32 True),
    Plain ''max_uV'' (TInt I32 True),
    Plain ''mode'' (TInt I32 False),
    Plain ''enabled'' (TInt I32 True),
    Plain ''changeable'' td_bool]"

definition st_notification_limit :: ty where
  "st_notification_limit = TStruct ''notification_limit'' False [
    Plain ''prot'' (TInt I32 True),
    Plain ''err'' (TInt I32 True),
    Plain ''warn'' (TInt I32 True)]"

definition st_flow_action_police :: ty where
  "st_flow_action_police = TStruct ''flow_action_police'' False [
    Plain ''burst'' td_u32,
    Plain ''rate_bytes_ps'' td_u64,
    Plain ''peakrate_bytes_ps'' td_u64,
    Plain ''avrate'' td_u32,
    Plain ''overhead'' td_u16,
    Plain ''burst_pkt'' td_u64,
    Plain ''rate_pkt_ps'' td_u64,
    Plain ''mtu'' td_u32,
    Plain ''exceed'' (TStruct '''' False [
      Plain ''act_id'' (TEnum ''flow_action_id'' I32),
      Plain ''extval'' td_u32]),
    Plain ''notexceed'' (TStruct '''' False [
      Plain ''act_id'' (TEnum ''flow_action_id'' I32),
      Plain ''extval'' td_u32])]"

definition st_flowi_tunnel :: ty where
  "st_flowi_tunnel = TStruct ''flowi_tunnel'' False [
    Plain ''tun_id'' td___be64]"

definition un_flowi_uli :: ty where
  "un_flowi_uli = TUnion ''flowi_uli'' False [
    Plain ''ports'' (TStruct '''' False [
      Plain ''dport'' td___be16,
      Plain ''sport'' td___be16]),
    Plain ''icmpt'' (TStruct '''' False [
      Plain ''type'' td___u8,
      Plain ''code'' td___u8]),
    Plain ''gre_key'' td___be32,
    Plain ''mht'' (TStruct '''' False [
      Plain ''type'' td___u8])]"

definition st_folio_walk :: ty where
  "st_folio_walk = TStruct ''folio_walk'' False [
    Plain ''page'' (TPtr ''struct page''),
    Plain ''level'' (TEnum ''folio_walk_level'' I32),
    Plain '''' (TUnion '''' False [
      Plain ''ptep'' (TPtr ''pte_t''),
      Plain ''pudp'' (TPtr ''pud_t''),
      Plain ''pmdp'' (TPtr ''pmd_t'')]),
    Plain '''' (TUnion '''' False [
      Plain ''pte'' td_pte_t,
      Plain ''pud'' td_pud_t,
      Plain ''pmd'' td_pmd_t]),
    Plain ''vma'' (TPtr ''struct vm_area_struct''),
    Plain ''ptl'' (TPtr ''spinlock_t'')]"

definition st_fregs_state :: ty where
  "st_fregs_state = TStruct ''fregs_state'' False [
    Plain ''cwd'' td_u32,
    Plain ''swd'' td_u32,
    Plain ''twd'' td_u32,
    Plain ''fip'' td_u32,
    Plain ''fcs'' td_u32,
    Plain ''foo'' td_u32,
    Plain ''fos'' td_u32,
    Plain ''st_space'' (TArr td_u32 20),
    Plain ''status'' td_u32]"

definition st_fxregs_state :: ty where
  "st_fxregs_state = TStruct ''fxregs_state'' False [
    Plain ''cwd'' td_u16,
    Plain ''swd'' td_u16,
    Plain ''twd'' td_u16,
    Plain ''fop'' td_u16,
    Plain '''' (TUnion '''' False [
      Plain '''' (TStruct '''' False [
        Plain ''rip'' td_u64,
        Plain ''rdp'' td_u64]),
      Plain '''' (TStruct '''' False [
        Plain ''fip'' td_u32,
        Plain ''fcs'' td_u32,
        Plain ''foo'' td_u32,
        Plain ''fos'' td_u32])]),
    Plain ''mxcsr'' td_u32,
    Plain ''mxcsr_mask'' td_u32,
    Plain ''st_space'' (TArr td_u32 32),
    Plain ''xmm_space'' (TArr td_u32 64),
    Plain ''padding'' (TArr td_u32 12),
    Plain '''' (TUnion '''' False [
      Plain ''padding1'' (TArr td_u32 12),
      Plain ''sw_reserved'' (TArr td_u32 12)])]"

definition st_swregs_state :: ty where
  "st_swregs_state = TStruct ''swregs_state'' False [
    Plain ''cwd'' td_u32,
    Plain ''swd'' td_u32,
    Plain ''twd'' td_u32,
    Plain ''fip'' td_u32,
    Plain ''fcs'' td_u32,
    Plain ''foo'' td_u32,
    Plain ''fos'' td_u32,
    Plain ''st_space'' (TArr td_u32 20),
    Plain ''ftop'' td_u8,
    Plain ''changed'' td_u8,
    Plain ''lookahead'' td_u8,
    Plain ''no_update'' td_u8,
    Plain ''rm'' td_u8,
    Plain ''alimit'' td_u8,
    Plain ''info'' (TPtr ''struct math_emu_info''),
    Plain ''entry_eip'' td_u32]"

definition st_xstate_header :: ty where
  "st_xstate_header = TStruct ''xstate_header'' False [
    Plain ''xfeatures'' td_u64,
    Plain ''xcomp_bv'' td_u64,
    Plain ''reserved'' (TArr td_u64 6)]"

definition st_frag_v4_compare_key :: ty where
  "st_frag_v4_compare_key = TStruct ''frag_v4_compare_key'' False [
    Plain ''saddr'' td___be32,
    Plain ''daddr'' td___be32,
    Plain ''user'' td_u32,
    Plain ''vif'' td_u32,
    Plain ''id'' td___be16,
    Plain ''protocol'' td_u16]"

definition st_freelist_counters :: ty where
  "st_freelist_counters = TStruct ''freelist_counters'' False [
    Plain '''' (TUnion '''' False [
      Plain '''' (TStruct '''' False [
        Plain ''freelist'' (TPtr ''void''),
        Plain '''' (TUnion '''' False [
          Plain ''counters'' (TInt I64 False),
          Plain '''' (TStruct '''' False [
            Bits ''inuse'' (TInt I32 False) 16,
            Bits ''objects'' (TInt I32 False) 15,
            Bits ''frozen'' (TInt I32 False) 1,
            Plain ''stride'' (TInt I32 False)])])]),
      Plain ''freelist_counters'' td_freelist_full_t])]"

definition st_p_log :: ty where
  "st_p_log = TStruct ''p_log'' False [
    Plain ''prefix'' (TPtr ''char''),
    Plain ''log'' (TPtr ''struct fc_log'')]"

definition st_fs_disk_quota :: ty where
  "st_fs_disk_quota = TStruct ''fs_disk_quota'' False [
    Plain ''d_version'' td___s8,
    Plain ''d_flags'' td___s8,
    Plain ''d_fieldmask'' td___u16,
    Plain ''d_id'' td___u32,
    Plain ''d_blk_hardlimit'' td___u64,
    Plain ''d_blk_softlimit'' td___u64,
    Plain ''d_ino_hardlimit'' td___u64,
    Plain ''d_ino_softlimit'' td___u64,
    Plain ''d_bcount'' td___u64,
    Plain ''d_icount'' td___u64,
    Plain ''d_itimer'' td___s32,
    Plain ''d_btimer'' td___s32,
    Plain ''d_iwarns'' td___u16,
    Plain ''d_bwarns'' td___u16,
    Plain ''d_itimer_hi'' td___s8,
    Plain ''d_btimer_hi'' td___s8,
    Plain ''d_rtbtimer_hi'' td___s8,
    Plain ''d_padding2'' td___s8,
    Plain ''d_rtb_hardlimit'' td___u64,
    Plain ''d_rtb_softlimit'' td___u64,
    Plain ''d_rtbcount'' td___u64,
    Plain ''d_rtbtimer'' td___s32,
    Plain ''d_rtbwarns'' td___u16,
    Plain ''d_padding3'' td___s16,
    Plain ''d_padding4'' (TArr (TInt I8 True) 8)]"

definition st_fs_qfilestatv :: ty where
  "st_fs_qfilestatv = TStruct ''fs_qfilestatv'' False [
    Plain ''qfs_ino'' td___u64,
    Plain ''qfs_nblks'' td___u64,
    Plain ''qfs_nextents'' td___u32,
    Plain ''qfs_pad'' td___u32]"

definition st_fsl_mc_obj_desc :: ty where
  "st_fsl_mc_obj_desc = TStruct ''fsl_mc_obj_desc'' False [
    Plain ''type'' (TArr (TInt I8 True) 16),
    Plain ''id'' (TInt I32 True),
    Plain ''vendor'' td_u16,
    Plain ''ver_major'' td_u16,
    Plain ''ver_minor'' td_u16,
    Plain ''irq_count'' td_u8,
    Plain ''region_count'' td_u8,
    Plain ''state'' td_u32,
    Plain ''label'' (TArr (TInt I8 True) 16),
    Plain ''flags'' td_u16]"

definition st_merkle_tree_params :: ty where
  "st_merkle_tree_params = TStruct ''merkle_tree_params'' False [
    Plain ''hash_alg'' (TPtr ''struct fsverity_hash_alg''),
    Plain ''hashstate'' (TPtr ''union fsverity_hash_ctx''),
    Plain ''digest_size'' (TInt I32 False),
    Plain ''block_size'' (TInt I32 False),
    Plain ''hashes_per_block'' (TInt I32 False),
    Plain ''blocks_per_page'' (TInt I32 False),
    Plain ''log_digestsize'' td_u8,
    Plain ''log_blocksize'' td_u8,
    Plain ''log_arity'' td_u8,
    Plain ''log_blocks_per_page'' td_u8,
    Plain ''num_levels'' (TInt I32 False),
    Plain ''tree_size'' td_u64,
    Plain ''tree_pages'' (TInt I64 False),
    Plain ''level_start'' (TArr (TInt I64 False) 8)]"

definition st_trace_parser :: ty where
  "st_trace_parser = TStruct ''trace_parser'' False [
    Plain ''cont'' td_bool,
    Plain ''fail'' td_bool,
    Plain ''buffer'' (TPtr ''char''),
    Plain ''idx'' (TInt I32 False),
    Plain ''size'' (TInt I32 False)]"

definition st_fuse_arg :: ty where
  "st_fuse_arg = TStruct ''fuse_arg'' False [
    Plain ''size'' (TInt I32 False),
    Plain ''value'' (TPtr ''void'')]"

definition st_fuse_in_arg :: ty where
  "st_fuse_in_arg = TStruct ''fuse_in_arg'' False [
    Plain ''size'' (TInt I32 False),
    Plain ''value'' (TPtr ''void'')]"

definition st_fuse_attr :: ty where
  "st_fuse_attr = TStruct ''fuse_attr'' False [
    Plain ''ino'' td_uint64_t,
    Plain ''size'' td_uint64_t,
    Plain ''blocks'' td_uint64_t,
    Plain ''atime'' td_uint64_t,
    Plain ''mtime'' td_uint64_t,
    Plain ''ctime'' td_uint64_t,
    Plain ''atimensec'' td_uint32_t,
    Plain ''mtimensec'' td_uint32_t,
    Plain ''ctimensec'' td_uint32_t,
    Plain ''mode'' td_uint32_t,
    Plain ''nlink'' td_uint32_t,
    Plain ''uid'' td_uint32_t,
    Plain ''gid'' td_uint32_t,
    Plain ''rdev'' td_uint32_t,
    Plain ''blksize'' td_uint32_t,
    Plain ''flags'' td_uint32_t]"

definition st_fuse_forget_one :: ty where
  "st_fuse_forget_one = TStruct ''fuse_forget_one'' False [
    Plain ''nodeid'' td_uint64_t,
    Plain ''nlookup'' td_uint64_t]"

definition st_fuse_copy_state :: ty where
  "st_fuse_copy_state = TStruct ''fuse_copy_state'' False [
    Plain ''req'' (TPtr ''struct fuse_req''),
    Plain ''iter'' (TPtr ''struct iov_iter''),
    Plain ''pipebufs'' (TPtr ''struct pipe_buffer''),
    Plain ''currbuf'' (TPtr ''struct pipe_buffer''),
    Plain ''pipe'' (TPtr ''struct pipe_inode_info''),
    Plain ''nr_segs'' (TInt I64 False),
    Plain ''pg'' (TPtr ''struct page''),
    Plain ''len'' (TInt I32 False),
    Plain ''offset'' (TInt I32 False),
    Bits ''write'' td_bool 1,
    Bits ''move_folios'' td_bool 1,
    Bits ''is_uring'' td_bool 1,
    Plain ''ring'' (TStruct '''' False [
      Plain ''copied_sz'' (TInt I32 False)])]"

definition st_fuse_fs_context :: ty where
  "st_fuse_fs_context = TStruct ''fuse_fs_context'' False [
    Plain ''fd'' (TInt I32 True),
    Plain ''file'' (TPtr ''struct file''),
    Plain ''rootmode'' (TInt I32 False),
    Plain ''user_id'' td_kuid_t,
    Plain ''group_id'' td_kgid_t,
    Bits ''is_bdev'' td_bool 1,
    Bits ''fd_present'' td_bool 1,
    Bits ''rootmode_present'' td_bool 1,
    Bits ''user_id_present'' td_bool 1,
    Bits ''group_id_present'' td_bool 1,
    Bits ''default_permissions'' td_bool 1,
    Bits ''allow_other'' td_bool 1,
    Bits ''destroy'' td_bool 1,
    Bits ''no_control'' td_bool 1,
    Bits ''no_force_umount'' td_bool 1,
    Bits ''legacy_opts_show'' td_bool 1,
    Plain ''dax_mode'' (TEnum ''fuse_dax_mode'' I32),
    Plain ''max_read'' (TInt I32 False),
    Plain ''blksize'' (TInt I32 False),
    Plain ''subtype'' (TPtr ''char''),
    Plain ''dax_dev'' (TPtr ''struct dax_device''),
    Plain ''fudptr'' (TPtr ''void *'')]"

definition st_fuse_in_header :: ty where
  "st_fuse_in_header = TStruct ''fuse_in_header'' False [
    Plain ''len'' td_uint32_t,
    Plain ''opcode'' td_uint32_t,
    Plain ''unique'' td_uint64_t,
    Plain ''nodeid'' td_uint64_t,
    Plain ''uid'' td_uint32_t,
    Plain ''gid'' td_uint32_t,
    Plain ''pid'' td_uint32_t,
    Plain ''total_extlen'' td_uint16_t,
    Plain ''padding'' td_uint16_t]"

definition st_fuse_init_out :: ty where
  "st_fuse_init_out = TStruct ''fuse_init_out'' False [
    Plain ''major'' td_uint32_t,
    Plain ''minor'' td_uint32_t,
    Plain ''max_readahead'' td_uint32_t,
    Plain ''flags'' td_uint32_t,
    Plain ''max_background'' td_uint16_t,
    Plain ''congestion_threshold'' td_uint16_t,
    Plain ''max_write'' td_uint32_t,
    Plain ''time_gran'' td_uint32_t,
    Plain ''max_pages'' td_uint16_t,
    Plain ''map_alignment'' td_uint16_t,
    Plain ''flags2'' td_uint32_t,
    Plain ''max_stack_depth'' td_uint32_t,
    Plain ''request_timeout'' td_uint16_t,
    Plain ''unused'' (TArr td_uint16_t 11)]"

definition st_fuse_out_header :: ty where
  "st_fuse_out_header = TStruct ''fuse_out_header'' False [
    Plain ''len'' td_uint32_t,
    Plain ''error'' td_int32_t,
    Plain ''unique'' td_uint64_t]"

definition st_fuse_setattr_in :: ty where
  "st_fuse_setattr_in = TStruct ''fuse_setattr_in'' False [
    Plain ''valid'' td_uint32_t,
    Plain ''padding'' td_uint32_t,
    Plain ''fh'' td_uint64_t,
    Plain ''size'' td_uint64_t,
    Plain ''lock_owner'' td_uint64_t,
    Plain ''atime'' td_uint64_t,
    Plain ''mtime'' td_uint64_t,
    Plain ''ctime'' td_uint64_t,
    Plain ''atimensec'' td_uint32_t,
    Plain ''mtimensec'' td_uint32_t,
    Plain ''ctimensec'' td_uint32_t,
    Plain ''mode'' td_uint32_t,
    Plain ''unused4'' td_uint32_t,
    Plain ''uid'' td_uint32_t,
    Plain ''gid'' td_uint32_t,
    Plain ''unused5'' td_uint32_t]"

definition st_fuse_sx_time :: ty where
  "st_fuse_sx_time = TStruct ''fuse_sx_time'' False [
    Plain ''tv_sec'' td_int64_t,
    Plain ''tv_nsec'' td_uint32_t,
    Plain ''__reserved'' td_int32_t]"

definition un_futex_key :: ty where
  "un_futex_key = TUnion ''futex_key'' False [
    Plain ''shared'' (TStruct '''' False [
      Plain ''i_seq'' td_u64,
      Plain ''pgoff'' (TInt I64 False),
      Plain ''offset'' (TInt I32 False)]),
    Plain ''private'' (TStruct '''' False [
      Plain '''' (TUnion '''' False [
        Plain ''mm'' (TPtr ''struct mm_struct''),
        Plain ''__tmp'' td_u64]),
      Plain ''address'' (TInt I64 False),
      Plain ''offset'' (TInt I32 False)]),
    Plain ''both'' (TStruct '''' False [
      Plain ''ptr'' td_u64,
      Plain ''word'' (TInt I64 False),
      Plain ''offset'' (TInt I32 False),
      Plain ''node'' (TInt I32 False)])]"

definition st_gcr3_tbl_info :: ty where
  "st_gcr3_tbl_info = TStruct ''gcr3_tbl_info'' False [
    Plain ''gcr3_tbl'' (TPtr ''u64''),
    Plain ''glx'' (TInt I32 True),
    Plain ''pasid_cnt'' td_u32,
    Plain ''domid'' td_u16]"

definition st_gen_cookie :: ty where
  "st_gen_cookie = TStruct ''gen_cookie'' False [
    Plain ''local'' (TPtr ''struct pcpu_gen_cookie''),
    Bits '''' (TInt I64 True) 64,
    Bits '''' (TInt I64 True) 64,
    Bits '''' (TInt I64 True) 64,
    Bits '''' (TInt I64 True) 64,
    Bits '''' (TInt I64 True) 64,
    Bits '''' (TInt I64 True) 64,
    Bits '''' (TInt I64 True) 64,
    Plain ''forward_last'' td_atomic64_t,
    Plain ''reverse_last'' td_atomic64_t,
    Bits '''' (TInt I64 True) 64,
    Bits '''' (TInt I64 True) 64,
    Bits '''' (TInt I64 True) 64,
    Bits '''' (TInt I64 True) 64,
    Bits '''' (TInt I64 True) 64,
    Bits '''' (TInt I64 True) 64]"

definition st_genl_split_ops :: ty where
  "st_genl_split_ops = TStruct ''genl_split_ops'' False [
    Plain '''' (TUnion '''' False [
      Plain '''' (TStruct '''' False [
        Plain ''pre_doit''
          (TFun ''int (*)(const struct genl_split_ops *, struct sk_buff *, struct genl_info *)''),
        Plain ''doit'' (TFun ''int (*)(struct sk_buff *, struct genl_info *)''),
        Plain ''post_doit''
          (TFun ''void (*)(const struct genl_split_ops *, struct sk_buff *, struct genl_info *)'')]),
      Plain '''' (TStruct '''' False [
        Plain ''start'' (TFun ''int (*)(struct netlink_callback *)''),
        Plain ''dumpit'' (TFun ''int (*)(struct sk_buff *, struct netlink_callback *)''),
        Plain ''done'' (TFun ''int (*)(struct netlink_callback *)'')])]),
    Plain ''policy'' (TPtr ''struct nla_policy''),
    Plain ''maxattr'' (TInt I32 False),
    Plain ''cmd'' td_u8,
    Plain ''internal_flags'' td_u8,
    Plain ''flags'' td_u8,
    Plain ''validate'' td_u8]"

definition st_genl_info :: ty where
  "st_genl_info = TStruct ''genl_info'' False [
    Plain ''snd_seq'' td_u32,
    Plain ''snd_portid'' td_u32,
    Plain ''family'' (TPtr ''struct genl_family''),
    Plain ''nlhdr'' (TPtr ''struct nlmsghdr''),
    Plain ''genlhdr'' (TPtr ''struct genlmsghdr''),
    Plain ''attrs'' (TPtr ''struct nlattr *''),
    Plain ''_net'' td_possible_net_t,
    Plain '''' (TUnion '''' False [
      Plain ''ctx'' (TArr td_u8 48),
      Plain ''user_ptr'' (TArr (TPtr ''void'') 2)]),
    Plain ''extack'' (TPtr ''struct netlink_ext_ack'')]"

definition st_genl_family :: ty where
  "st_genl_family = TStruct ''genl_family'' False [
    Plain ''hdrsize'' (TInt I32 False),
    Plain ''name'' (TArr (TInt I8 True) 16),
    Plain ''version'' (TInt I32 False),
    Plain ''maxattr'' (TInt I32 False),
    Bits ''netnsok'' td_u8 1,
    Bits ''parallel_ops'' td_u8 1,
    Plain ''n_ops'' td_u8,
    Plain ''n_small_ops'' td_u8,
    Plain ''n_split_ops'' td_u8,
    Plain ''n_mcgrps'' td_u8,
    Plain ''resv_start_op'' td_u8,
    Plain ''policy'' (TPtr ''struct nla_policy''),
    Plain ''pre_doit''
      (TFun ''int (*)(const struct genl_split_ops *, struct sk_buff *, struct genl_info *)''),
    Plain ''post_doit''
      (TFun ''void (*)(const struct genl_split_ops *, struct sk_buff *, struct genl_info *)''),
    Plain ''bind'' (TFun ''int (*)(int)''),
    Plain ''unbind'' (TFun ''void (*)(int)''),
    Plain ''ops'' (TPtr ''struct genl_ops''),
    Plain ''small_ops'' (TPtr ''struct genl_small_ops''),
    Plain ''split_ops'' (TPtr ''struct genl_split_ops''),
    Plain ''mcgrps'' (TPtr ''struct genl_multicast_group''),
    Plain ''module'' (TPtr ''struct module''),
    Plain ''sock_priv_size'' td_size_t,
    Plain ''sock_priv_init'' (TFun ''void (*)(void *)''),
    Plain ''sock_priv_destroy'' (TFun ''void (*)(void *)''),
    Plain ''id'' (TInt I32 True),
    Plain ''mcgrp_offset'' (TInt I32 False),
    Plain ''sock_privs'' (TPtr ''struct xarray'')]"

definition st_ghcb_save_area :: ty where
  "st_ghcb_save_area = TStruct ''ghcb_save_area'' False [
    Plain ''reserved_0x0'' (TArr td_u8 203),
    Plain ''cpl'' td_u8,
    Plain ''reserved_0xcc'' (TArr td_u8 116),
    Plain ''xss'' td_u64,
    Plain ''reserved_0x148'' (TArr td_u8 24),
    Plain ''dr7'' td_u64,
    Plain ''reserved_0x168'' (TArr td_u8 16),
    Plain ''rip'' td_u64,
    Plain ''reserved_0x180'' (TArr td_u8 88),
    Plain ''rsp'' td_u64,
    Plain ''reserved_0x1e0'' (TArr td_u8 24),
    Plain ''rax'' td_u64,
    Plain ''reserved_0x200'' (TArr td_u8 264),
    Plain ''rcx'' td_u64,
    Plain ''rdx'' td_u64,
    Plain ''rbx'' td_u64,
    Plain ''reserved_0x320'' (TArr td_u8 8),
    Plain ''rbp'' td_u64,
    Plain ''rsi'' td_u64,
    Plain ''rdi'' td_u64,
    Plain ''r8'' td_u64,
    Plain ''r9'' td_u64,
    Plain ''r10'' td_u64,
    Plain ''r11'' td_u64,
    Plain ''r12'' td_u64,
    Plain ''r13'' td_u64,
    Plain ''r14'' td_u64,
    Plain ''r15'' td_u64,
    Plain ''reserved_0x380'' (TArr td_u8 16),
    Plain ''sw_exit_code'' td_u64,
    Plain ''sw_exit_info_1'' td_u64,
    Plain ''sw_exit_info_2'' td_u64,
    Plain ''sw_scratch'' td_u64,
    Plain ''reserved_0x3b0'' (TArr td_u8 56),
    Plain ''xcr0'' td_u64,
    Plain ''valid_bitmap'' (TArr td_u8 16),
    Plain ''x87_state_gpa'' td_u64]"

definition st_gpio_v2_line_event :: ty where
  "st_gpio_v2_line_event = TStruct ''gpio_v2_line_event'' False [
    Plain ''timestamp_ns'' td___u64,
    Plain ''id'' td___u32,
    Plain ''offset'' td___u32,
    Plain ''seqno'' td___u32,
    Plain ''line_seqno'' td___u32,
    Plain ''padding'' (TArr td___u32 6)]"

definition st_gpioevent_data :: ty where
  "st_gpioevent_data = TStruct ''gpioevent_data'' False [
    Plain ''timestamp'' td___u64,
    Plain ''id'' td___u32]"

definition st_grant_entry_header :: ty where
  "st_grant_entry_header = TStruct ''grant_entry_header'' False [
    Plain ''flags'' td_uint16_t,
    Plain ''domid'' td_domid_t]"

definition st_gro_cells :: ty where
  "st_gro_cells = TStruct ''gro_cells'' False [
    Plain ''cells'' (TPtr ''struct gro_cell'')]"

definition un_handle_parts :: ty where
  "un_handle_parts = TUnion ''handle_parts'' False [
    Plain ''handle'' td_depot_stack_handle_t,
    Plain '''' (TStruct '''' False [
      Bits ''pool_index_plus_1'' td_u32 17,
      Bits ''offset'' td_u32 10,
      Bits ''extra'' td_u32 5])]"

definition st_hd_geometry :: ty where
  "st_hd_geometry = TStruct ''hd_geometry'' False [
    Plain ''heads'' (TInt I8 False),
    Plain ''sectors'' (TInt I8 False),
    Plain ''cylinders'' (TInt I16 False),
    Plain ''start'' (TInt I64 False)]"

definition st_hid_field :: ty where
  "st_hid_field = TStruct ''hid_field'' False [
    Plain ''physical'' (TInt I32 False),
    Plain ''logical'' (TInt I32 False),
    Plain ''application'' (TInt I32 False),
    Plain ''usage'' (TPtr ''struct hid_usage''),
    Plain ''maxusage'' (TInt I32 False),
    Plain ''flags'' (TInt I32 False),
    Plain ''report_offset'' (TInt I32 False),
    Plain ''report_size'' (TInt I32 False),
    Plain ''report_count'' (TInt I32 False),
    Plain ''report_type'' (TInt I32 False),
    Plain ''value'' (TPtr ''__s32''),
    Plain ''new_value'' (TPtr ''__s32''),
    Plain ''usages_priorities'' (TPtr ''__s32''),
    Plain ''logical_minimum'' td___s32,
    Plain ''logical_maximum'' td___s32,
    Plain ''physical_minimum'' td___s32,
    Plain ''physical_maximum'' td___s32,
    Plain ''unit_exponent'' td___s32,
    Plain ''unit'' (TInt I32 False),
    Plain ''ignored'' td_bool,
    Plain ''report'' (TPtr ''struct hid_report''),
    Plain ''index'' (TInt I32 False),
    Plain ''hidinput'' (TPtr ''struct hid_input''),
    Plain ''dpad'' td___u16,
    Plain ''slot_idx'' (TInt I32 False)]"

definition st_hist_var :: ty where
  "st_hist_var = TStruct ''hist_var'' False [
    Plain ''name'' (TPtr ''char''),
    Plain ''hist_data'' (TPtr ''struct hist_trigger_data''),
    Plain ''idx'' (TInt I32 False)]"

definition st_var_defs :: ty where
  "st_var_defs = TStruct ''var_defs'' False [
    Plain ''n_vars'' (TInt I32 False),
    Plain ''name'' (TArr (TPtr ''char'') 16),
    Plain ''expr'' (TArr (TPtr ''char'') 16)]"

definition st_tracing_map_sort_key :: ty where
  "st_tracing_map_sort_key = TStruct ''tracing_map_sort_key'' False [
    Plain ''field_idx'' (TInt I32 False),
    Plain ''descending'' td_bool]"

definition st_hpet_timer :: ty where
  "st_hpet_timer = TStruct ''hpet_timer'' False [
    Plain ''hpet_config'' td_u64,
    Plain ''_u1'' (TUnion '''' False [
      Plain ''_hpet_hc64'' td_u64,
      Plain ''_hpet_hc32'' td_u32,
      Plain ''_hpet_compare'' (TInt I64 False)]),
    Plain ''hpet_fsb'' (TArr td_u64 2)]"

definition st_hprobe :: ty where
  "st_hprobe = TStruct ''hprobe'' False [
    Plain ''state'' (TEnum ''hprobe_state'' I32),
    Plain ''srcu_idx'' (TInt I32 True),
    Plain ''uprobe'' (TPtr ''struct uprobe'')]"

definition st_hpx_type2 :: ty where
  "st_hpx_type2 = TStruct ''hpx_type2'' False [
    Plain ''revision'' td_u32,
    Plain ''unc_err_mask_and'' td_u32,
    Plain ''unc_err_mask_or'' td_u32,
    Plain ''unc_err_sever_and'' td_u32,
    Plain ''unc_err_sever_or'' td_u32,
    Plain ''cor_err_mask_and'' td_u32,
    Plain ''cor_err_mask_or'' td_u32,
    Plain ''adv_err_cap_and'' td_u32,
    Plain ''adv_err_cap_or'' td_u32,
    Plain ''pci_exp_devctl_and'' td_u16,
    Plain ''pci_exp_devctl_or'' td_u16,
    Plain ''pci_exp_lnkctl_and'' td_u16,
    Plain ''pci_exp_lnkctl_or'' td_u16,
    Plain ''sec_unc_err_sever_and'' td_u32,
    Plain ''sec_unc_err_sever_or'' td_u32,
    Plain ''sec_unc_err_mask_and'' td_u32,
    Plain ''sec_unc_err_mask_or'' td_u32]"

definition st_hpx_type3 :: ty where
  "st_hpx_type3 = TStruct ''hpx_type3'' False [
    Plain ''device_type'' td_u16,
    Plain ''function_type'' td_u16,
    Plain ''config_space_location'' td_u16,
    Plain ''pci_exp_cap_id'' td_u16,
    Plain ''pci_exp_cap_ver'' td_u16,
    Plain ''pci_exp_vendor_id'' td_u16,
    Plain ''dvsec_id'' td_u16,
    Plain ''dvsec_rev'' td_u16,
    Plain ''match_offset'' td_u16,
    Plain ''match_mask_and'' td_u32,
    Plain ''match_value'' td_u32,
    Plain ''reg_offset'' td_u16,
    Plain ''reg_mask_and'' td_u32,
    Plain ''reg_mask_or'' td_u32]"

definition un_hsw_tsx_tuning :: ty where
  "un_hsw_tsx_tuning = TUnion ''hsw_tsx_tuning'' False [
    Plain '''' (TStruct '''' False [
      Bits ''cycles_last_block'' td_u32 32,
      Bits ''hle_abort'' td_u32 1,
      Bits ''rtm_abort'' td_u32 1,
      Bits ''instruction_abort'' td_u32 1,
      Bits ''non_instruction_abort'' td_u32 1,
      Bits ''retry'' td_u32 1,
      Bits ''data_conflict'' td_u32 1,
      Bits ''capacity_writes'' td_u32 1,
      Bits ''capacity_reads'' td_u32 1]),
    Plain ''value'' td_u64]"

definition st_pcpu_freelist_node :: ty where
  "st_pcpu_freelist_node = TStruct ''pcpu_freelist_node'' False [
    Plain ''next'' (TPtr ''struct pcpu_freelist_node'')]"

definition st_hte_line_attr :: ty where
  "st_hte_line_attr = TStruct ''hte_line_attr'' False [
    Plain ''line_id'' td_u32,
    Plain ''line_data'' (TPtr ''void''),
    Plain ''edge_flags'' (TInt I64 False),
    Plain ''name'' (TPtr ''char'')]"

definition un_hv_pci_bdf :: ty where
  "un_hv_pci_bdf = TUnion ''hv_pci_bdf'' False [
    Plain ''as_uint16'' td_u16,
    Plain '''' (TStruct '''' False [
      Bits ''function'' td_u8 3,
      Bits ''device'' td_u8 5,
      Plain ''bus'' td_u8])]"

definition un_hv_pci_bus_range :: ty where
  "un_hv_pci_bus_range = TUnion ''hv_pci_bus_range'' False [
    Plain ''as_uint16'' td_u16,
    Plain '''' (TStruct '''' False [
      Plain ''subordinate_bus'' td_u8,
      Plain ''secondary_bus'' td_u8])]"

definition st_hv_x64_segment_register :: ty where
  "st_hv_x64_segment_register = TStruct ''hv_x64_segment_register'' False [
    Plain ''base'' td_u64,
    Plain ''limit'' td_u32,
    Plain ''selector'' td_u16,
    Plain '''' (TUnion '''' False [
      Plain '''' (TStruct '''' False [
        Bits ''segment_type'' td_u16 4,
        Bits ''non_system_segment'' td_u16 1,
        Bits ''descriptor_privilege_level'' td_u16 2,
        Bits ''present'' td_u16 1,
        Bits ''reserved'' td_u16 4,
        Bits ''available'' td_u16 1,
        Bits ''_long'' td_u16 1,
        Bits ''_default'' td_u16 1,
        Bits ''granularity'' td_u16 1]),
      Plain ''attributes'' td_u16])]"

definition st_hv_x64_table_register :: ty where
  "st_hv_x64_table_register = TStruct ''hv_x64_table_register'' False [
    Plain ''pad'' (TArr td_u16 3),
    Plain ''limit'' td_u16,
    Plain ''base'' td_u64]"

definition un_hv_gpa_page_range :: ty where
  "un_hv_gpa_page_range = TUnion ''hv_gpa_page_range'' False [
    Plain ''address_space'' td_u64,
    Plain ''page'' (TStruct '''' False [
      Bits ''additional_pages'' td_u64 11,
      Bits ''largepage'' td_u64 1,
      Bits ''basepfn'' td_u64 52]),
    Plain '''' (TStruct '''' False [
      Bits ''reserved'' td_u64 12,
      Bits ''page_size'' td_u64 1,
      Bits ''reserved1'' td_u64 8,
      Bits ''base_large_pfn'' td_u64 43])]"

definition un_hv_hypervisor_version_info :: ty where
  "un_hv_hypervisor_version_info = TUnion ''hv_hypervisor_version_info'' False [
    Plain '''' (TStruct '''' False [
      Plain ''build_number'' td_u32,
      Bits ''minor_version'' td_u32 16,
      Bits ''major_version'' td_u32 16,
      Plain ''service_pack'' td_u32,
      Bits ''service_number'' td_u32 24,
      Bits ''service_branch'' td_u32 8]),
    Plain '''' (TStruct '''' False [
      Plain ''eax'' td_u32,
      Plain ''ebx'' td_u32,
      Plain ''ecx'' td_u32,
      Plain ''edx'' td_u32])]"

definition un_hv_ioapic_rte :: ty where
  "un_hv_ioapic_rte = TUnion ''hv_ioapic_rte'' False [
    Plain ''as_uint64'' td_u64,
    Plain '''' (TStruct '''' False [
      Bits ''vector'' td_u32 8,
      Bits ''delivery_mode'' td_u32 3,
      Bits ''destination_mode'' td_u32 1,
      Bits ''delivery_status'' td_u32 1,
      Bits ''interrupt_polarity'' td_u32 1,
      Bits ''remote_irr'' td_u32 1,
      Bits ''trigger_mode'' td_u32 1,
      Bits ''interrupt_mask'' td_u32 1,
      Bits ''reserved1'' td_u32 15,
      Bits ''reserved2'' td_u32 24,
      Bits ''destination_id'' td_u32 8]),
    Plain '''' (TStruct '''' False [
      Plain ''low_uint32'' td_u32,
      Plain ''high_uint32'' td_u32])]"

definition st_hv_nested_enlightenments_control :: ty where
  "st_hv_nested_enlightenments_control = TStruct ''hv_nested_enlightenments_control'' False [
    Plain ''features'' (TStruct '''' False [
      Bits ''directhypercall'' td_u32 1,
      Bits ''reserved'' td_u32 31]),
    Plain ''hypercall_controls'' (TStruct '''' False [
      Bits ''inter_partition_comm'' td_u32 1,
      Bits ''reserved'' td_u32 31])]"

definition un_hv_stimer_config :: ty where
  "un_hv_stimer_config = TUnion ''hv_stimer_config'' False [
    Plain ''as_uint64'' td_u64,
    Plain '''' (TStruct '''' False [
      Bits ''enable'' td_u64 1,
      Bits ''periodic'' td_u64 1,
      Bits ''lazy'' td_u64 1,
      Bits ''auto_enable'' td_u64 1,
      Bits ''apic_vector'' td_u64 8,
      Bits ''direct_mode'' td_u64 1,
      Bits ''reserved_z0'' td_u64 3,
      Bits ''sintx'' td_u64 4,
      Bits ''reserved_z1'' td_u64 44])]"

definition st_hw_perf_event_extra :: ty where
  "st_hw_perf_event_extra = TStruct ''hw_perf_event_extra'' False [
    Plain ''config'' td_u64,
    Plain ''reg'' (TInt I32 False),
    Plain ''alloc'' (TInt I32 True),
    Plain ''idx'' (TInt I32 True)]"

definition st_user_regs_struct32 :: ty where
  "st_user_regs_struct32 = TStruct ''user_regs_struct32'' False [
    Plain ''ebx'' td___u32,
    Plain ''ecx'' td___u32,
    Plain ''edx'' td___u32,
    Plain ''esi'' td___u32,
    Plain ''edi'' td___u32,
    Plain ''ebp'' td___u32,
    Plain ''eax'' td___u32,
    Plain ''ds'' (TInt I16 False),
    Plain ''__ds'' (TInt I16 False),
    Plain ''es'' (TInt I16 False),
    Plain ''__es'' (TInt I16 False),
    Plain ''fs'' (TInt I16 False),
    Plain ''__fs'' (TInt I16 False),
    Plain ''gs'' (TInt I16 False),
    Plain ''__gs'' (TInt I16 False),
    Plain ''orig_eax'' td___u32,
    Plain ''eip'' td___u32,
    Plain ''cs'' (TInt I16 False),
    Plain ''__cs'' (TInt I16 False),
    Plain ''eflags'' td___u32,
    Plain ''esp'' td___u32,
    Plain ''ss'' (TInt I16 False),
    Plain ''__ss'' (TInt I16 False)]"

definition st_ib_cq_caps :: ty where
  "st_ib_cq_caps = TStruct ''ib_cq_caps'' False [
    Plain ''max_cq_moderation_count'' td_u16,
    Plain ''max_cq_moderation_period'' td_u16]"

definition st_ib_odp_caps :: ty where
  "st_ib_odp_caps = TStruct ''ib_odp_caps'' False [
    Plain ''general_caps'' td_uint64_t,
    Plain ''per_transport_caps'' (TStruct '''' False [
      Plain ''rc_odp_caps'' td_uint32_t,
      Plain ''uc_odp_caps'' td_uint32_t,
      Plain ''ud_odp_caps'' td_uint32_t,
      Plain ''xrc_odp_caps'' td_uint32_t])]"

definition st_ib_rss_caps :: ty where
  "st_ib_rss_caps = TStruct ''ib_rss_caps'' False [
    Plain ''supported_qpts'' td_u32,
    Plain ''max_rwq_indirection_tables'' td_u32,
    Plain ''max_rwq_indirection_table_size'' td_u32]"

definition st_ib_tm_caps :: ty where
  "st_ib_tm_caps = TStruct ''ib_tm_caps'' False [
    Plain ''max_rndv_hdr_size'' td_u32,
    Plain ''max_num_tags'' td_u32,
    Plain ''flags'' td_u32,
    Plain ''max_ops'' td_u32,
    Plain ''max_sge'' td_u32]"

definition st_ib_port_attr :: ty where
  "st_ib_port_attr = TStruct ''ib_port_attr'' False [
    Plain ''subnet_prefix'' td_u64,
    Plain ''state'' (TEnum ''ib_port_state'' I32),
    Plain ''max_mtu'' (TEnum ''ib_mtu'' I32),
    Plain ''active_mtu'' (TEnum ''ib_mtu'' I32),
    Plain ''phys_mtu'' td_u32,
    Plain ''gid_tbl_len'' (TInt I32 True),
    Bits ''ip_gids'' (TInt I32 False) 1,
    Plain ''port_cap_flags'' td_u32,
    Plain ''max_msg_sz'' td_u32,
    Plain ''bad_pkey_cntr'' td_u32,
    Plain ''qkey_viol_cntr'' td_u32,
    Plain ''pkey_tbl_len'' td_u16,
    Plain ''sm_lid'' td_u32,
    Plain ''lid'' td_u32,
    Plain ''lmc'' td_u8,
    Plain ''max_vl_num'' td_u8,
    Plain ''sm_sl'' td_u8,
    Plain ''subnet_timeout'' td_u8,
    Plain ''init_type_reply'' td_u8,
    Plain ''active_width'' td_u8,
    Plain ''active_speed'' td_u16,
    Plain ''phys_state'' td_u8,
    Plain ''port_cap_flags2'' td_u16]"

definition st_ib_send_wr :: ty where
  "st_ib_send_wr = TStruct ''ib_send_wr'' False [
    Plain ''next'' (TPtr ''struct ib_send_wr''),
    Plain '''' (TUnion '''' False [
      Plain ''wr_id'' td_u64,
      Plain ''wr_cqe'' (TPtr ''struct ib_cqe'')]),
    Plain ''sg_list'' (TPtr ''struct ib_sge''),
    Plain ''num_sge'' (TInt I32 True),
    Plain ''opcode'' (TEnum ''ib_wr_opcode'' I32),
    Plain ''send_flags'' (TInt I32 True),
    Plain ''ex'' (TUnion '''' False [
      Plain ''imm_data'' td___be32,
      Plain ''invalidate_rkey'' td_u32])]"

definition st_ib_srq_attr :: ty where
  "st_ib_srq_attr = TStruct ''ib_srq_attr'' False [
    Plain ''max_wr'' td_u32,
    Plain ''max_sge'' td_u32,
    Plain ''srq_limit'' td_u32]"

definition st_ib_wc :: ty where
  "st_ib_wc = TStruct ''ib_wc'' False [
    Plain '''' (TUnion '''' False [
      Plain ''wr_id'' td_u64,
      Plain ''wr_cqe'' (TPtr ''struct ib_cqe'')]),
    Plain ''status'' (TEnum ''ib_wc_status'' I32),
    Plain ''opcode'' (TEnum ''ib_wc_opcode'' I32),
    Plain ''vendor_err'' td_u32,
    Plain ''byte_len'' td_u32,
    Plain ''qp'' (TPtr ''struct ib_qp''),
    Plain ''ex'' (TUnion '''' False [
      Plain ''imm_data'' td___be32,
      Plain ''invalidate_rkey'' td_u32]),
    Plain ''src_qp'' td_u32,
    Plain ''slid'' td_u32,
    Plain ''wc_flags'' (TInt I32 True),
    Plain ''pkey_index'' td_u16,
    Plain ''sl'' td_u8,
    Plain ''dlid_path_bits'' td_u8,
    Plain ''port_num'' td_u32,
    Plain ''smac'' (TArr td_u8 6),
    Plain ''vlan_id'' td_u16,
    Plain ''network_hdr_type'' td_u8]"

definition un_ibs_fetch_ctl :: ty where
  "un_ibs_fetch_ctl = TUnion ''ibs_fetch_ctl'' False [
    Plain ''val'' td___u64,
    Plain '''' (TStruct '''' False [
      Bits ''fetch_maxcnt'' td___u64 16,
      Bits ''fetch_cnt'' td___u64 16,
      Bits ''fetch_lat'' td___u64 16,
      Bits ''fetch_en'' td___u64 1,
      Bits ''fetch_val'' td___u64 1,
      Bits ''fetch_comp'' td___u64 1,
      Bits ''ic_miss'' td___u64 1,
      Bits ''phy_addr_valid'' td___u64 1,
      Bits ''l1tlb_pgsz'' td___u64 2,
      Bits ''l1tlb_miss'' td___u64 1,
      Bits ''l2tlb_miss'' td___u64 1,
      Bits ''rand_en'' td___u64 1,
      Bits ''fetch_l2_miss'' td___u64 1,
      Bits ''l3_miss_only'' td___u64 1,
      Bits ''fetch_oc_miss'' td___u64 1,
      Bits ''fetch_l3_miss'' td___u64 1,
      Bits ''reserved'' td___u64 2])]"

end
