(* ===== verification/VmlinuxStruct3.thy ===== *)
theory VmlinuxStruct3
  imports VmlinuxTypedefs
begin

text \<open>
  Structures and unions of \<open>src/internal/ebpf/vmlinux.h\<close> (without members of modelled aggregate types), in the
  order of the header: \<open>st_<tag>\<close>, \<open>un_<tag>\<close>, and \<open>td_<name>\<close> for an aggregate with a type name.
\<close>

definition un_ibs_op_ctl :: ty where
  "un_ibs_op_ctl = TUnion ''ibs_op_ctl'' False [
    Plain ''val'' td___u64,
    Plain '''' (TStruct '''' False [
      Bits ''opmaxcnt'' td___u64 16,
      Bits ''l3_miss_only'' td___u64 1,
      Bits ''op_en'' td___u64 1,
      Bits ''op_val'' td___u64 1,
      Bits ''cnt_ctl'' td___u64 1,
      Bits ''opmaxcnt_ext'' td___u64 7,
      Bits ''reserved0'' td___u64 5,
      Bits ''opcurcnt'' td___u64 27,
      Bits ''ldlat_thrsh'' td___u64 4,
      Bits ''ldlat_en'' td___u64 1])]"

definition un_ibs_op_data :: ty where
  "un_ibs_op_data = TUnion ''ibs_op_data'' False [
    Plain ''val'' td___u64,
    Plain '''' (TStruct '''' False [
      Bits ''comp_to_ret_ctr'' td___u64 16,
      Bits ''tag_to_ret_ctr'' td___u64 16,
      Bits ''reserved1'' td___u64 2,
      Bits ''op_return'' td___u64 1,
      Bits ''op_brn_taken'' td___u64 1,
      Bits ''op_brn_misp'' td___u64 1,
      Bits ''op_brn_ret'' td___u64 1,
      Bits ''op_rip_invalid'' td___u64 1,
      Bits ''op_brn_fuse'' td___u64 1,
      Bits ''op_microcode'' td___u64 1,
      Bits ''reserved2'' td___u64 23])]"

definition un_ibs_op_data3 :: ty where
  "un_ibs_op_data3 = TUnion ''ibs_op_data3'' False [
    Plain ''val'' td___u64,
    Plain '''' (TStruct '''' False [
      Bits ''ld_op'' td___u64 1,
      Bits ''st_op'' td___u64 1,
      Bits ''dc_l1tlb_miss'' td___u64 1,
      Bits ''dc_l2tlb_miss'' td___u64 1,
      Bits ''dc_l1tlb_hit_2m'' td___u64 1,
      Bits ''dc_l1tlb_hit_1g'' td___u64 1,
      Bits ''dc_l2tlb_hit_2m'' td___u64 1,
      Bits ''dc_miss'' td___u64 1,
      Bits ''dc_mis_acc'' td___u64 1,
      Bits ''reserved'' td___u64 4,
      Bits ''dc_wc_mem_acc'' td___u64 1,
      Bits ''dc_uc_mem_acc'' td___u64 1,
      Bits ''dc_locked_op'' td___u64 1,
      Bits ''dc_miss_no_mab_alloc'' td___u64 1,
      Bits ''dc_lin_addr_valid'' td___u64 1,
      Bits ''dc_phy_addr_valid'' td___u64 1,
      Bits ''dc_l2_tlb_hit_1g'' td___u64 1,
      Bits ''l2_miss'' td___u64 1,
      Bits ''sw_pf'' td___u64 1,
      Bits ''op_mem_width'' td___u64 4,
      Bits ''op_dc_miss_open_mem_reqs'' td___u64 6,
      Bits ''dc_miss_lat'' td___u64 16,
      Bits ''tlb_refill_lat'' td___u64 16])]"

definition st_icmp6_filter :: ty where
  "st_icmp6_filter = TStruct ''icmp6_filter'' False [
    Plain ''data'' (TArr td___u32 8)]"

definition st_icmphdr :: ty where
  "st_icmphdr = TStruct ''icmphdr'' False [
    Plain ''type'' td___u8,
    Plain ''code'' td___u8,
    Plain ''checksum'' td___sum16,
    Plain ''un'' (TUnion '''' False [
      Plain ''echo'' (TStruct '''' False [
        Plain ''id'' td___be16,
        Plain ''sequence'' td___be16]),
      Plain ''gateway'' td___be32,
      Plain ''frag'' (TStruct '''' False [
        Plain ''__unused'' td___be16,
        Plain ''mtu'' td___be16]),
      Plain ''reserved'' (TArr td___u8 4)])]"

definition st_ip_options :: ty where
  "st_ip_options = TStruct ''ip_options'' False [
    Plain ''faddr'' td___be32,
    Plain ''nexthop'' td___be32,
    Plain ''optlen'' (TInt I8 False),
    Plain ''srr'' (TInt I8 False),
    Plain ''rr'' (TInt I8 False),
    Plain ''ts'' (TInt I8 False),
    Bits ''is_strictroute'' (TInt I8 False) 1,
    Bits ''srr_is_hit'' (TInt I8 False) 1,
    Bits ''is_changed'' (TInt I8 False) 1,
    Bits ''rr_needaddr'' (TInt I8 False) 1,
    Bits ''ts_needtime'' (TInt I8 False) 1,
    Bits ''ts_needaddr'' (TInt I8 False) 1,
    Plain ''router_alert'' (TInt I8 False),
    Plain ''cipso'' (TInt I8 False),
    Plain ''__pad2'' (TInt I8 False),
    Plain ''__data'' (TArr (TInt I8 False) 0)]"

definition st_icmp_ext_echo_ctype3_hdr :: ty where
  "st_icmp_ext_echo_ctype3_hdr = TStruct ''icmp_ext_echo_ctype3_hdr'' False [
    Plain ''afi'' td___be16,
    Plain ''addrlen'' td___u8,
    Plain ''reserved'' td___u8]"

definition st_icmp_extobj_hdr :: ty where
  "st_icmp_extobj_hdr = TStruct ''icmp_extobj_hdr'' False [
    Plain ''length'' td___be16,
    Plain ''class_num'' td___u8,
    Plain ''class_type'' td___u8]"

definition st_ieee80211_channel :: ty where
  "st_ieee80211_channel = TStruct ''ieee80211_channel'' False [
    Plain ''band'' (TEnum ''nl80211_band'' I32),
    Plain ''center_freq'' td_u32,
    Plain ''freq_offset'' td_u16,
    Plain ''hw_value'' td_u16,
    Plain ''flags'' td_u32,
    Plain ''max_antenna_gain'' (TInt I32 True),
    Plain ''max_power'' (TInt I32 True),
    Plain ''max_reg_power'' (TInt I32 True),
    Plain ''beacon_found'' td_bool,
    Plain ''orig_flags'' td_u32,
    Plain ''orig_mag'' (TInt I32 True),
    Plain ''orig_mpwr'' (TInt I32 True),
    Plain ''dfs_state'' (TEnum ''nl80211_dfs_state'' I32),
    Plain ''dfs_state_entered'' (TInt I64 False),
    Plain ''dfs_cac_ms'' (TInt I32 False),
    Plain ''psd'' td_s8]"

definition st_ieee_qcn :: ty where
  "st_ieee_qcn = TStruct ''ieee_qcn'' False [
    Plain ''rpg_enable'' (TArr td___u8 8),
    Plain ''rppp_max_rps'' (TArr td___u32 8),
    Plain ''rpg_time_reset'' (TArr td___u32 8),
    Plain ''rpg_byte_reset'' (TArr td___u32 8),
    Plain ''rpg_threshold'' (TArr td___u32 8),
    Plain ''rpg_max_rate'' (TArr td___u32 8),
    Plain ''rpg_ai_rate'' (TArr td___u32 8),
    Plain ''rpg_hai_rate'' (TArr td___u32 8),
    Plain ''rpg_gd'' (TArr td___u32 8),
    Plain ''rpg_min_dec_fac'' (TArr td___u32 8),
    Plain ''rpg_min_rate'' (TArr td___u32 8),
    Plain ''cndd_state_machine'' (TArr td___u32 8)]"

definition st_if_settings :: ty where
  "st_if_settings = TStruct ''if_settings'' False [
    Plain ''type'' (TInt I32 False),
    Plain ''size'' (TInt I32 False),
    Plain ''ifs_ifsu'' (TUnion '''' False [
      Plain ''raw_hdlc'' (TPtr ''raw_hdlc_proto''),
      Plain ''cisco'' (TPtr ''cisco_proto''),
      Plain ''fr'' (TPtr ''fr_proto''),
      Plain ''fr_pvc'' (TPtr ''fr_proto_pvc''),
      Plain ''fr_pvc_info'' (TPtr ''fr_proto_pvc_info''),
      Plain ''x25'' (TPtr ''x25_hdlc_proto''),
      Plain ''sync'' (TPtr ''sync_serial_settings''),
      Plain ''te1'' (TPtr ''te1_settings'')])]"

definition st_ifmap :: ty where
  "st_ifmap = TStruct ''ifmap'' False [
    Plain ''mem_start'' (TInt I64 False),
    Plain ''mem_end'' (TInt I64 False),
    Plain ''base_addr'' (TInt I16 False),
    Plain ''irq'' (TInt I8 False),
    Plain ''dma'' (TInt I8 False),
    Plain ''port'' (TInt I8 False)]"

definition st_imstt_regvals :: ty where
  "st_imstt_regvals = TStruct ''imstt_regvals'' False [
    Plain ''pitch'' td___u32,
    Plain ''hes'' td___u16,
    Plain ''heb'' td___u16,
    Plain ''hsb'' td___u16,
    Plain ''ht'' td___u16,
    Plain ''ves'' td___u16,
    Plain ''veb'' td___u16,
    Plain ''vsb'' td___u16,
    Plain ''vt'' td___u16,
    Plain ''vil'' td___u16,
    Plain ''pclk_m'' td___u8,
    Plain ''pclk_n'' td___u8,
    Plain ''pclk_p'' td___u8,
    Plain ''mlc'' (TArr td___u8 3),
    Plain ''lckl_p'' (TArr td___u8 3)]"

definition st_ipv4_devconf :: ty where
  "st_ipv4_devconf = TStruct ''ipv4_devconf'' False [
    Plain ''sysctl'' (TPtr ''void''),
    Plain ''data'' (TArr (TInt I32 True) 33),
    Plain ''state'' (TArr (TInt I64 False) 1)]"

definition st_inet6_cork :: ty where
  "st_inet6_cork = TStruct ''inet6_cork'' False [
    Plain ''opt'' (TPtr ''struct ipv6_txoptions''),
    Plain ''hop_limit'' td_u8,
    Plain ''tclass'' td_u8,
    Bits ''dontfrag'' td_u8 1]"

definition st_ipv6_devstat :: ty where
  "st_ipv6_devstat = TStruct ''ipv6_devstat'' False [
    Plain ''proc_dir_entry'' (TPtr ''struct proc_dir_entry''),
    Plain ''ipv6'' (TPtr ''struct ipstats_mib''),
    Plain ''icmpv6dev'' (TPtr ''struct icmpv6_mib_device''),
    Plain ''icmpv6msgdev'' (TPtr ''struct icmpv6msg_mib_device'')]"

definition st_inet6_skb_parm :: ty where
  "st_inet6_skb_parm = TStruct ''inet6_skb_parm'' False [
    Plain ''iif'' (TInt I32 True),
    Plain ''ra'' td___be16,
    Plain ''dst0'' td___u16,
    Plain ''srcrt'' td___u16,
    Plain ''dst1'' td___u16,
    Plain ''lastopt'' td___u16,
    Plain ''nhoff'' td___u16,
    Plain ''flags'' td___u16,
    Plain ''dsthao'' td___u16,
    Plain ''frag_max_size'' td___u16,
    Plain ''srhoff'' td___u16]"

definition st_inet_cork :: ty where
  "st_inet_cork = TStruct ''inet_cork'' False [
    Plain ''flags'' (TInt I32 False),
    Plain ''addr'' td___be32,
    Plain ''opt'' (TPtr ''struct ip_options''),
    Plain ''fragsize'' (TInt I32 False),
    Plain ''length'' (TInt I32 True),
    Plain ''dst'' (TPtr ''struct dst_entry''),
    Plain ''tx_flags'' td_u8,
    Plain ''ttl'' td___u8,
    Plain ''tos'' td___s16,
    Plain ''priority'' td_u32,
    Plain ''gso_size'' td___u16,
    Plain ''ts_opt_id'' td_u32,
    Plain ''transmit_time'' td_u64,
    Plain ''mark'' td_u32]"

definition st_inet_hashinfo :: ty where
  "st_inet_hashinfo = TStruct ''inet_hashinfo'' False [
    Plain ''ehash'' (TPtr ''struct inet_ehash_bucket''),
    Plain ''ehash_locks'' (TPtr ''spinlock_t''),
    Plain ''ehash_mask'' (TInt I32 False),
    Plain ''ehash_locks_mask'' (TInt I32 False),
    Plain ''bind_bucket_cachep'' (TPtr ''struct kmem_cache''),
    Plain ''bhash'' (TPtr ''struct inet_bind_hashbucket''),
    Plain ''bind2_bucket_cachep'' (TPtr ''struct kmem_cache''),
    Plain ''bhash2'' (TPtr ''struct inet_bind_hashbucket''),
    Plain ''bhash_size'' (TInt I32 False),
    Plain ''lhash2_mask'' (TInt I32 False),
    Plain ''lhash2'' (TPtr ''struct inet_listen_hashbucket''),
    Plain ''pernet'' td_bool,
    Bits '''' (TInt I64 True) 64,
    Bits '''' (TInt I64 True) 64,
    Bits '''' (TInt I64 True) 64,
    Bits '''' (TInt I64 True) 64,
    Bits '''' (TInt I64 True) 64,
    Bits '''' (TInt I64 True) 64]"

definition st_ipv4_addr_key :: ty where
  "st_ipv4_addr_key = TStruct ''ipv4_addr_key'' False [
    Plain ''addr'' td___be32,
    Plain ''vif'' (TInt I32 True)]"

definition st_inflate_state :: ty where
  "st_inflate_state = TStruct ''inflate_state'' False [
    Plain ''mode'' td_inflate_mode,
    Plain ''last'' (TInt I32 True),
    Plain ''wrap'' (TInt I32 True),
    Plain ''havedict'' (TInt I32 True),
    Plain ''flags'' (TInt I32 True),
    Plain ''dmax'' (TInt I32 False),
    Plain ''check'' (TInt I64 False),
    Plain ''total'' (TInt I64 False),
    Plain ''wbits'' (TInt I32 False),
    Plain ''wsize'' (TInt I32 False),
    Plain ''whave'' (TInt I32 False),
    Plain ''write'' (TInt I32 False),
    Plain ''window'' (TPtr ''unsigned char''),
    Plain ''hold'' (TInt I64 False),
    Plain ''bits'' (TInt I32 False),
    Plain ''length'' (TInt I32 False),
    Plain ''offset'' (TInt I32 False),
    Plain ''extra'' (TInt I32 False),
    Plain ''lencode'' (TPtr ''code''),
    Plain ''distcode'' (TPtr ''code''),
    Plain ''lenbits'' (TInt I32 False),
    Plain ''distbits'' (TInt I32 False),
    Plain ''ncode'' (TInt I32 False),
    Plain ''nlen'' (TInt I32 False),
    Plain ''ndist'' (TInt I32 False),
    Plain ''have'' (TInt I32 False),
    Plain ''next'' (TPtr ''code''),
    Plain ''lens'' (TArr (TInt I16 False) 320),
    Plain ''work'' (TArr (TInt I16 False) 288),
    Plain ''codes'' (TArr td_code 2048)]"

definition st_input_id :: ty where
  "st_input_id = TStruct ''input_id'' False [
    Plain ''bustype'' td___u16,
    Plain ''vendor'' td___u16,
    Plain ''product'' td___u16,
    Plain ''version'' td___u16]"

definition st_input_device_id :: ty where
  "st_input_device_id = TStruct ''input_device_id'' False [
    Plain ''flags'' td_kernel_ulong_t,
    Plain ''bustype'' td___u16,
    Plain ''vendor'' td___u16,
    Plain ''product'' td___u16,
    Plain ''version'' td___u16,
    Plain ''evbit'' (TArr td_kernel_ulong_t 1),
    Plain ''keybit'' (TArr td_kernel_ulong_t 12),
    Plain ''relbit'' (TArr td_kernel_ulong_t 1),
    Plain ''absbit'' (TArr td_kernel_ulong_t 1),
    Plain ''mscbit'' (TArr td_kernel_ulong_t 1),
    Plain ''ledbit'' (TArr td_kernel_ulong_t 1),
    Plain ''sndbit'' (TArr td_kernel_ulong_t 1),
    Plain ''ffbit'' (TArr td_kernel_ulong_t 2),
    Plain ''swbit'' (TArr td_kernel_ulong_t 1),
    Plain ''propbit'' (TArr td_kernel_ulong_t 1),
    Plain ''driver_info'' td_kernel_ulong_t]"

definition st_intel_community :: ty where
  "st_intel_community = TStruct ''intel_community'' False [
    Plain ''barno'' (TInt I32 False),
    Plain ''padown_offset'' (TInt I32 False),
    Plain ''padcfglock_offset'' (TInt I32 False),
    Plain ''hostown_offset'' (TInt I32 False),
    Plain ''is_offset'' (TInt I32 False),
    Plain ''ie_offset'' (TInt I32 False),
    Plain ''features'' (TInt I32 False),
    Plain ''pin_base'' (TInt I32 False),
    Plain ''npins'' td_size_t,
    Plain ''gpp_size'' (TInt I32 False),
    Plain ''gpp_num_padown_regs'' (TInt I32 False),
    Plain ''gpps'' (TPtr ''struct intel_padgroup''),
    Plain ''ngpps'' td_size_t,
    Plain ''pad_map'' (TPtr ''unsigned int''),
    Plain ''nirqs'' (TInt I16 False),
    Plain ''acpi_space_id'' (TInt I16 False),
    Plain ''regs'' (TPtr ''void''),
    Plain ''pad_regs'' (TPtr ''void'')]"

definition st_iommu_flush :: ty where
  "st_iommu_flush = TStruct ''iommu_flush'' False [
    Plain ''flush_context'' (TFun ''void (*)(struct intel_iommu *, u16, u16, u8, u64)''),
    Plain ''flush_iotlb'' (TFun ''void (*)(struct intel_iommu *, u16, u64, unsigned int, u64)'')]"

definition st_irte :: ty where
  "st_irte = TStruct ''irte'' False [
    Plain '''' (TUnion '''' False [
      Plain '''' (TStruct '''' False [
        Plain '''' (TUnion '''' False [
          Plain '''' (TStruct '''' False [
            Bits ''present'' td___u64 1,
            Bits ''fpd'' td___u64 1,
            Bits ''__res0'' td___u64 6,
            Bits ''avail'' td___u64 4,
            Bits ''__res1'' td___u64 3,
            Bits ''pst'' td___u64 1,
            Bits ''vector'' td___u64 8,
            Bits ''__res2'' td___u64 40]),
          Plain '''' (TStruct '''' False [
            Bits ''r_present'' td___u64 1,
            Bits ''r_fpd'' td___u64 1,
            Bits ''dst_mode'' td___u64 1,
            Bits ''redir_hint'' td___u64 1,
            Bits ''trigger_mode'' td___u64 1,
            Bits ''dlvry_mode'' td___u64 3,
            Bits ''r_avail'' td___u64 4,
            Bits ''r_res0'' td___u64 4,
            Bits ''r_vector'' td___u64 8,
            Bits ''r_res1'' td___u64 8,
            Bits ''dest_id'' td___u64 32]),
          Plain '''' (TStruct '''' False [
            Bits ''p_present'' td___u64 1,
            Bits ''p_fpd'' td___u64 1,
            Bits ''p_res0'' td___u64 6,
            Bits ''p_avail'' td___u64 4,
            Bits ''p_res1'' td___u64 2,
            Bits ''p_urgent'' td___u64 1,
            Bits ''p_pst'' td___u64 1,
            Bits ''p_vector'' td___u64 8,
            Bits ''p_res2'' td___u64 14,
            Bits ''pda_l'' td___u64 26]),
          Plain ''low'' td___u64]),
        Plain '''' (TUnion '''' False [
          Plain '''' (TStruct '''' False [
            Bits ''sid'' td___u64 16,
            Bits ''sq'' td___u64 2,
            Bits ''svt'' td___u64 2,
            Bits ''__res3'' td___u64 44]),
          Plain '''' (TStruct '''' False [
            Bits ''p_sid'' td___u64 16,
            Bits ''p_sq'' td___u64 2,
            Bits ''p_svt'' td___u64 2,
            Bits ''p_res3'' td___u64 12,
            Bits ''pda_h'' td___u64 32]),
          Plain ''high'' td___u64])]),
      Plain ''irte'' td___u128])]"

definition un_intel_x86_pebs_dse :: ty where
  "un_intel_x86_pebs_dse = TUnion ''intel_x86_pebs_dse'' False [
    Plain ''val'' td_u64,
    Plain '''' (TStruct '''' False [
      Bits ''ld_dse'' (TInt I32 False) 4,
      Bits ''ld_stlb_miss'' (TInt I32 False) 1,
      Bits ''ld_locked'' (TInt I32 False) 1,
      Bits ''ld_data_blk'' (TInt I32 False) 1,
      Bits ''ld_addr_blk'' (TInt I32 False) 1,
      Bits ''ld_reserved'' (TInt I32 False) 24]),
    Plain '''' (TStruct '''' False [
      Bits ''st_l1d_hit'' (TInt I32 False) 1,
      Bits ''st_reserved1'' (TInt I32 False) 3,
      Bits ''st_stlb_miss'' (TInt I32 False) 1,
      Bits ''st_locked'' (TInt I32 False) 1,
      Bits ''st_reserved2'' (TInt I32 False) 26]),
    Plain '''' (TStruct '''' False [
      Bits ''st_lat_dse'' (TInt I32 False) 4,
      Bits ''st_lat_stlb_miss'' (TInt I32 False) 1,
      Bits ''st_lat_locked'' (TInt I32 False) 1,
      Bits ''ld_reserved3'' (TInt I32 False) 26]),
    Plain '''' (TStruct '''' False [
      Bits ''mtl_dse'' (TInt I32 False) 5,
      Bits ''mtl_locked'' (TInt I32 False) 1,
      Bits ''mtl_stlb_miss'' (TInt I32 False) 1,
      Bits ''mtl_fwd_blk'' (TInt I32 False) 1,
      Bits ''ld_reserved4'' (TInt I32 False) 24]),
    Plain '''' (TStruct '''' False [
      Bits ''lnc_dse'' (TInt I32 False) 8,
      Bits ''ld_reserved5'' (TInt I32 False) 2,
      Bits ''lnc_stlb_miss'' (TInt I32 False) 1,
      Bits ''lnc_locked'' (TInt I32 False) 1,
      Bits ''lnc_data_blk'' (TInt I32 False) 1,
      Bits ''lnc_addr_blk'' (TInt I32 False) 1,
      Bits ''ld_reserved6'' (TInt I32 False) 18]),
    Plain '''' (TStruct '''' False [
      Bits ''pnc_dse'' (TInt I32 False) 8,
      Bits ''pnc_l2_miss'' (TInt I32 False) 1,
      Bits ''pnc_stlb_clean_hit'' (TInt I32 False) 1,
      Bits ''pnc_stlb_any_hit'' (TInt I32 False) 1,
      Bits ''pnc_stlb_miss'' (TInt I32 False) 1,
      Bits ''pnc_locked'' (TInt I32 False) 1,
      Bits ''pnc_data_blk'' (TInt I32 False) 1,
      Bits ''pnc_addr_blk'' (TInt I32 False) 1,
      Bits ''pnc_fb_full'' (TInt I32 False) 1,
      Bits ''ld_reserved8'' (TInt I32 False) 16]),
    Plain '''' (TStruct '''' False [
      Bits ''arw_dse'' (TInt I32 False) 8,
      Bits ''arw_l2_miss'' (TInt I32 False) 1,
      Bits ''arw_xq_promotion'' (TInt I32 False) 1,
      Bits ''arw_reissue'' (TInt I32 False) 1,
      Bits ''arw_stlb_miss'' (TInt I32 False) 1,
      Bits ''arw_locked'' (TInt I32 False) 1,
      Bits ''arw_data_blk'' (TInt I32 False) 1,
      Bits ''arw_addr_blk'' (TInt I32 False) 1,
      Bits ''arw_fb_full'' (TInt I32 False) 1,
      Bits ''ld_reserved9'' (TInt I32 False) 16])]"

definition st_interval_tree_span_iter :: ty where
  "st_interval_tree_span_iter = TStruct ''interval_tree_span_iter'' False [
    Plain ''nodes'' (TArr (TPtr ''struct interval_tree_node'') 2),
    Plain ''first_index'' (TInt I64 False),
    Plain ''last_index'' (TInt I64 False),
    Plain '''' (TUnion '''' False [
      Plain ''start_hole'' (TInt I64 False),
      Plain ''start_used'' (TInt I64 False)]),
    Plain '''' (TUnion '''' False [
      Plain ''last_hole'' (TInt I64 False),
      Plain ''last_used'' (TInt I64 False)]),
    Plain ''is_hole'' (TInt I32 True)]"

definition st_io_alloc_cache :: ty where
  "st_io_alloc_cache = TStruct ''io_alloc_cache'' False [
    Plain ''entries'' (TPtr ''void *''),
    Plain ''nr_cached'' (TInt I32 False),
    Plain ''max_cached'' (TInt I32 False),
    Plain ''elem_size'' (TInt I32 False),
    Plain ''init_clear'' (TInt I32 False)]"

definition st_iou_vec :: ty where
  "st_iou_vec = TStruct ''iou_vec'' False [
    Plain '''' (TUnion '''' False [
      Plain ''iovec'' (TPtr ''struct iovec''),
      Plain ''bvec'' (TPtr ''struct bio_vec'')]),
    Plain ''nr'' (TInt I32 False)]"

definition st_io_uring_sqe :: ty where
  "st_io_uring_sqe = TStruct ''io_uring_sqe'' False [
    Plain ''opcode'' td___u8,
    Plain ''flags'' td___u8,
    Plain ''ioprio'' td___u16,
    Plain ''fd'' td___s32,
    Plain '''' (TUnion '''' False [
      Plain ''off'' td___u64,
      Plain ''addr2'' td___u64,
      Plain '''' (TStruct '''' False [
        Plain ''cmd_op'' td___u32,
        Plain ''__pad1'' td___u32])]),
    Plain '''' (TUnion '''' False [
      Plain ''addr'' td___u64,
      Plain ''splice_off_in'' td___u64,
      Plain '''' (TStruct '''' False [
        Plain ''level'' td___u32,
        Plain ''optname'' td___u32])]),
    Plain ''len'' td___u32,
    Plain '''' (TUnion '''' False [
      Plain ''rw_flags'' td___u32,
      Plain ''fsync_flags'' td___u32,
      Plain ''poll_events'' td___u16,
      Plain ''poll32_events'' td___u32,
      Plain ''sync_range_flags'' td___u32,
      Plain ''msg_flags'' td___u32,
      Plain ''timeout_flags'' td___u32,
      Plain ''accept_flags'' td___u32,
      Plain ''cancel_flags'' td___u32,
      Plain ''open_flags'' td___u32,
      Plain ''statx_flags'' td___u32,
      Plain ''fadvise_advice'' td___u32,
      Plain ''splice_flags'' td___u32,
      Plain ''rename_flags'' td___u32,
      Plain ''unlink_flags'' td___u32,
      Plain ''hardlink_flags'' td___u32,
      Plain ''xattr_flags'' td___u32,
      Plain ''msg_ring_flags'' td___u32,
      Plain ''uring_cmd_flags'' td___u32,
      Plain ''waitid_flags'' td___u32,
      Plain ''futex_flags'' td___u32,
      Plain ''install_fd_flags'' td___u32,
      Plain ''nop_flags'' td___u32,
      Plain ''pipe_flags'' td___u32]),
    Plain ''user_data'' td___u64,
    Plain '''' (TUnion '''' False [
      Plain ''buf_index'' td___u16,
      Plain ''buf_group'' td___u16]),
    Plain ''personality'' td___u16,
    Plain '''' (TUnion '''' False [
      Plain ''splice_fd_in'' td___s32,
      Plain ''file_index'' td___u32,
      Plain ''zcrx_ifq_idx'' td___u32,
      Plain ''optlen'' td___u32,
      Plain '''' (TStruct '''' False [
        Plain ''addr_len'' td___u16,
        Plain ''__pad3'' (TArr td___u16 1)]),
      Plain '''' (TStruct '''' False [
        Plain ''write_stream'' td___u8,
        Plain ''__pad4'' (TArr td___u8 3)])]),
    Plain '''' (TUnion '''' False [
      Plain '''' (TStruct '''' False [
        Plain ''addr3'' td___u64,
        Plain ''__pad2'' (TArr td___u64 1)]),
      Plain '''' (TStruct '''' False [
        Plain ''attr_ptr'' td___u64,
        Plain ''attr_type_mask'' td___u64]),
      Plain ''optval'' td___u64,
      Plain ''cmd'' (TArr td___u8 0)])]"

definition st_iov_iter_state :: ty where
  "st_iov_iter_state = TStruct ''iov_iter_state'' False [
    Plain ''iov_offset'' td_size_t,
    Plain ''count'' td_size_t,
    Plain ''nr_segs'' (TInt I64 False)]"

definition st_io_big_cqe :: ty where
  "st_io_big_cqe = TStruct ''io_big_cqe'' False [
    Plain ''extra1'' td_u64,
    Plain ''extra2'' td_u64]"

definition st_io_mapped_region :: ty where
  "st_io_mapped_region = TStruct ''io_mapped_region'' False [
    Plain ''pages'' (TPtr ''struct page *''),
    Plain ''ptr'' (TPtr ''void''),
    Plain ''nr_pages'' (TInt I32 False),
    Plain ''flags'' (TInt I32 False)]"

definition st_io_cmd_data :: ty where
  "st_io_cmd_data = TStruct ''io_cmd_data'' False [
    Plain ''file'' (TPtr ''struct file''),
    Plain ''data'' (TArr td___u8 56)]"

definition st_io_cqe :: ty where
  "st_io_cqe = TStruct ''io_cqe'' False [
    Plain ''user_data'' td___u64,
    Plain ''res'' td___s32,
    Plain '''' (TUnion '''' False [
      Plain ''flags'' td___u32,
      Plain ''fd'' (TInt I32 True)])]"

definition st_io_rsrc_data :: ty where
  "st_io_rsrc_data = TStruct ''io_rsrc_data'' False [
    Plain ''nr'' (TInt I32 False),
    Plain ''nodes'' (TPtr ''struct io_rsrc_node *'')]"

definition st_io_hash_table :: ty where
  "st_io_hash_table = TStruct ''io_hash_table'' False [
    Plain ''hbs'' (TPtr ''struct io_hash_bucket''),
    Plain ''hash_bits'' (TInt I32 False)]"

definition st_io_issue_def :: ty where
  "st_io_issue_def = TStruct ''io_issue_def'' False [
    Bits ''needs_file'' (TInt I32 False) 1,
    Bits ''plug'' (TInt I32 False) 1,
    Bits ''ioprio'' (TInt I32 False) 1,
    Bits ''iopoll'' (TInt I32 False) 1,
    Bits ''buffer_select'' (TInt I32 False) 1,
    Bits ''hash_reg_file'' (TInt I32 False) 1,
    Bits ''unbound_nonreg_file'' (TInt I32 False) 1,
    Bits ''pollin'' (TInt I32 False) 1,
    Bits ''pollout'' (TInt I32 False) 1,
    Bits ''poll_exclusive'' (TInt I32 False) 1,
    Bits ''audit_skip'' (TInt I32 False) 1,
    Bits ''iopoll_queue'' (TInt I32 False) 1,
    Bits ''vectored'' (TInt I32 False) 1,
    Bits ''is_128'' (TInt I32 False) 1,
    Plain ''async_size'' (TInt I16 False),
    Plain ''filter_pdu_size'' (TInt I16 False),
    Plain ''issue'' (TFun ''int (*)(struct io_kiocb *, unsigned int)''),
    Plain ''prep'' (TFun ''int (*)(struct io_kiocb *, const struct io_uring_sqe *)''),
    Plain ''filter_populate'' (TFun ''void (*)(struct io_uring_bpf_ctx *, struct io_kiocb *)'')]"

definition st_io_wq_work_node :: ty where
  "st_io_wq_work_node = TStruct ''io_wq_work_node'' False [
    Plain ''next'' (TPtr ''struct io_wq_work_node'')]"

definition st_io_uring_cqe :: ty where
  "st_io_uring_cqe = TStruct ''io_uring_cqe'' False [
    Plain ''user_data'' td___u64,
    Plain ''res'' td___s32,
    Plain ''flags'' td___u32,
    Plain ''big_cqe'' (TArr td___u64 0)]"

definition st_io_restriction :: ty where
  "st_io_restriction = TStruct ''io_restriction'' False [
    Plain ''register_op'' (TArr (TInt I64 False) 1),
    Plain ''sqe_op'' (TArr (TInt I64 False) 2),
    Plain ''bpf_filters'' (TPtr ''struct io_bpf_filters''),
    Plain ''bpf_filters_cow'' td_bool,
    Plain ''sqe_flags_allowed'' td_u8,
    Plain ''sqe_flags_required'' td_u8,
    Plain ''op_registered'' td_bool,
    Plain ''reg_registered'' td_bool]"

definition st_io_wq_work_list :: ty where
  "st_io_wq_work_list = TStruct ''io_wq_work_list'' False [
    Plain ''first'' (TPtr ''struct io_wq_work_node''),
    Plain ''last'' (TPtr ''struct io_wq_work_node'')]"

definition st_io_submit_link :: ty where
  "st_io_submit_link = TStruct ''io_submit_link'' False [
    Plain ''head'' (TPtr ''struct io_kiocb''),
    Plain ''last'' (TPtr ''struct io_kiocb'')]"

definition st_io_uring :: ty where
  "st_io_uring = TStruct ''io_uring'' False [
    Plain ''head'' td_u32,
    Plain ''tail'' td_u32]"

definition st_io_sr_msg :: ty where
  "st_io_sr_msg = TStruct ''io_sr_msg'' False [
    Plain ''file'' (TPtr ''struct file''),
    Plain '''' (TUnion '''' False [
      Plain ''umsg_compat'' (TPtr ''struct compat_msghdr''),
      Plain ''umsg'' (TPtr ''struct user_msghdr''),
      Plain ''buf'' (TPtr ''void'')]),
    Plain ''len'' (TInt I32 True),
    Plain ''done_io'' (TInt I32 False),
    Plain ''msg_flags'' (TInt I32 False),
    Plain ''nr_multishot_loops'' (TInt I32 False),
    Plain ''flags'' td_u16,
    Plain ''buf_group'' td_u16,
    Plain ''mshot_len'' (TInt I32 False),
    Plain ''mshot_total_len'' (TInt I32 False),
    Plain ''msg_control'' (TPtr ''void''),
    Plain ''notif'' (TPtr ''struct io_kiocb'')]"

definition st_io_uring_bpf_ctx :: ty where
  "st_io_uring_bpf_ctx = TStruct ''io_uring_bpf_ctx'' False [
    Plain ''user_data'' td___u64,
    Plain ''opcode'' td___u8,
    Plain ''sqe_flags'' td___u8,
    Plain ''pdu_size'' td___u8,
    Plain ''pad'' (TArr td___u8 5),
    Plain '''' (TUnion '''' False [
      Plain ''socket'' (TStruct '''' False [
        Plain ''family'' td___u32,
        Plain ''type'' td___u32,
        Plain ''protocol'' td___u32]),
      Plain ''open'' (TStruct '''' False [
        Plain ''flags'' td___u64,
        Plain ''mode'' td___u64,
        Plain ''resolve'' td___u64])])]"

definition st_io_uring_buf :: ty where
  "st_io_uring_buf = TStruct ''io_uring_buf'' False [
    Plain ''addr'' td___u64,
    Plain ''len'' td___u32,
    Plain ''bid'' td___u16,
    Plain ''resv'' td___u16]"

definition st_ioam6_trace_hdr :: ty where
  "st_ioam6_trace_hdr = TStruct ''ioam6_trace_hdr'' False [
    Plain ''namespace_id'' td___be16,
    Bits '''' (TInt I8 True) 2,
    Bits ''overflow'' td___u8 1,
    Bits ''nodelen'' td___u8 5,
    Bits ''remlen'' td___u8 7,
    Plain '''' (TUnion '''' False [
      Plain ''type_be32'' td___be32,
      Plain ''type'' (TStruct '''' False [
        Bits ''bit7'' td___u32 1,
        Bits ''bit6'' td___u32 1,
        Bits ''bit5'' td___u32 1,
        Bits ''bit4'' td___u32 1,
        Bits ''bit3'' td___u32 1,
        Bits ''bit2'' td___u32 1,
        Bits ''bit1'' td___u32 1,
        Bits ''bit0'' td___u32 1,
        Bits ''bit15'' td___u32 1,
        Bits ''bit14'' td___u32 1,
        Bits ''bit13'' td___u32 1,
        Bits ''bit12'' td___u32 1,
        Bits ''bit11'' td___u32 1,
        Bits ''bit10'' td___u32 1,
        Bits ''bit9'' td___u32 1,
        Bits ''bit8'' td___u32 1,
        Bits ''bit23'' td___u32 1,
        Bits ''bit22'' td___u32 1,
        Bits ''bit21'' td___u32 1,
        Bits ''bit20'' td___u32 1,
        Bits ''bit19'' td___u32 1,
        Bits ''bit18'' td___u32 1,
        Bits ''bit17'' td___u32 1,
        Bits ''bit16'' td___u32 1])]),
    Plain ''data'' (TArr td___u8 0)]"

definition st_rq_qos :: ty where
  "st_rq_qos = TStruct ''rq_qos'' False [
    Plain ''ops'' (TPtr ''struct rq_qos_ops''),
    Plain ''disk'' (TPtr ''struct gendisk''),
    Plain ''id'' (TEnum ''rq_qos_id'' I32),
    Plain ''next'' (TPtr ''struct rq_qos''),
    Plain ''debugfs_dir'' (TPtr ''struct dentry'')]"

definition st_ioc_params :: ty where
  "st_ioc_params = TStruct ''ioc_params'' False [
    Plain ''qos'' (TArr td_u32 6),
    Plain ''i_lcoefs'' (TArr td_u64 6),
    Plain ''lcoefs'' (TArr td_u64 6),
    Plain ''too_fast_vrate_pct'' td_u32,
    Plain ''too_slow_vrate_pct'' td_u32]"

definition st_ioc_margins :: ty where
  "st_ioc_margins = TStruct ''ioc_margins'' False [
    Plain ''min'' td_s64,
    Plain ''low'' td_s64,
    Plain ''target'' td_s64]"

definition st_iocg_stat :: ty where
  "st_iocg_stat = TStruct ''iocg_stat'' False [
    Plain ''usage_us'' td_u64,
    Plain ''wait_us'' td_u64,
    Plain ''indebt_us'' td_u64,
    Plain ''indelay_us'' td_u64]"

definition st_iocb :: ty where
  "st_iocb = TStruct ''iocb'' False [
    Plain ''aio_data'' td___u64,
    Plain ''aio_key'' td___u32,
    Plain ''aio_rw_flags'' td___kernel_rwf_t,
    Plain ''aio_lio_opcode'' td___u16,
    Plain ''aio_reqprio'' td___s16,
    Plain ''aio_fildes'' td___u32,
    Plain ''aio_buf'' td___u64,
    Plain ''aio_nbytes'' td___u64,
    Plain ''aio_offset'' td___s64,
    Plain ''aio_reserved2'' td___u64,
    Plain ''aio_flags'' td___u32,
    Plain ''aio_resfd'' td___u32]"

definition st_ip_tunnel_encap :: ty where
  "st_ip_tunnel_encap = TStruct ''ip_tunnel_encap'' False [
    Plain ''type'' td_u16,
    Plain ''flags'' td_u16,
    Plain ''sport'' td___be16,
    Plain ''dport'' td___be16]"

definition st_ip_conntrack_stat :: ty where
  "st_ip_conntrack_stat = TStruct ''ip_conntrack_stat'' False [
    Plain ''found'' (TInt I32 False),
    Plain ''invalid'' (TInt I32 False),
    Plain ''insert'' (TInt I32 False),
    Plain ''insert_failed'' (TInt I32 False),
    Plain ''clash_resolve'' (TInt I32 False),
    Plain ''drop'' (TInt I32 False),
    Plain ''early_drop'' (TInt I32 False),
    Plain ''error'' (TInt I32 False),
    Plain ''expect_new'' (TInt I32 False),
    Plain ''expect_create'' (TInt I32 False),
    Plain ''expect_delete'' (TInt I32 False),
    Plain ''search_restart'' (TInt I32 False),
    Plain ''chaintoolong'' (TInt I32 False)]"

definition st_kvec :: ty where
  "st_kvec = TStruct ''kvec'' False [
    Plain ''iov_base'' (TPtr ''void''),
    Plain ''iov_len'' td_size_t]"

definition st_ipc_perm :: ty where
  "st_ipc_perm = TStruct ''ipc_perm'' False [
    Plain ''key'' td___kernel_key_t,
    Plain ''uid'' td___kernel_uid_t,
    Plain ''gid'' td___kernel_gid_t,
    Plain ''cuid'' td___kernel_uid_t,
    Plain ''cgid'' td___kernel_gid_t,
    Plain ''mode'' td___kernel_mode_t,
    Plain ''seq'' (TInt I16 False)]"

definition st_irq_common_data :: ty where
  "st_irq_common_data = TStruct ''irq_common_data'' False [
    Plain ''state_use_accessors'' (TInt I32 False),
    Plain ''node'' (TInt I32 False),
    Plain ''handler_data'' (TPtr ''void''),
    Plain ''msi_desc'' (TPtr ''struct msi_desc''),
    Plain ''affinity'' td_cpumask_var_t,
    Plain ''effective_affinity'' td_cpumask_var_t]"

definition st_irq_data :: ty where
  "st_irq_data = TStruct ''irq_data'' False [
    Plain ''mask'' td_u32,
    Plain ''irq'' (TInt I32 False),
    Plain ''hwirq'' td_irq_hw_number_t,
    Plain ''common'' (TPtr ''struct irq_common_data''),
    Plain ''chip'' (TPtr ''struct irq_chip''),
    Plain ''domain'' (TPtr ''struct irq_domain''),
    Plain ''parent_data'' (TPtr ''struct irq_data''),
    Plain ''chip_data'' (TPtr ''void'')]"

definition st_irq_domain_info :: ty where
  "st_irq_domain_info = TStruct ''irq_domain_info'' False [
    Plain ''fwnode'' (TPtr ''struct fwnode_handle''),
    Plain ''domain_flags'' (TInt I32 False),
    Plain ''size'' (TInt I32 False),
    Plain ''hwirq_max'' td_irq_hw_number_t,
    Plain ''direct_max'' (TInt I32 True),
    Plain ''hwirq_base'' (TInt I32 False),
    Plain ''virq_base'' (TInt I32 False),
    Plain ''bus_token'' (TEnum ''irq_domain_bus_token'' I32),
    Plain ''name_suffix'' (TPtr ''char''),
    Plain ''ops'' (TPtr ''struct irq_domain_ops''),
    Plain ''host_data'' (TPtr ''void''),
    Plain ''dev'' (TPtr ''struct device''),
    Plain ''parent'' (TPtr ''struct irq_domain''),
    Plain ''dgc_info'' (TPtr ''struct irq_domain_chip_generic_info''),
    Plain ''init'' (TFun ''int (*)(struct irq_domain *)''),
    Plain ''exit'' (TFun ''void (*)(struct irq_domain *)'')]"

definition st_irq_info :: ty where
  "st_irq_info = TStruct ''irq_info'' False [
    Plain ''bus'' td_u8,
    Plain ''devfn'' td_u8,
    Plain ''irq'' (TArr (TStruct '''' True [
      Plain ''link'' td_u8,
      Plain ''bitmap'' td_u16]) 4),
    Plain ''slot'' td_u8,
    Plain ''rfu'' td_u8]"

definition st_irq_matrix :: ty where
  "st_irq_matrix = TStruct ''irq_matrix'' False [
    Plain ''matrix_bits'' (TInt I32 False),
    Plain ''alloc_start'' (TInt I32 False),
    Plain ''alloc_end'' (TInt I32 False),
    Plain ''alloc_size'' (TInt I32 False),
    Plain ''global_available'' (TInt I32 False),
    Plain ''global_reserved'' (TInt I32 False),
    Plain ''systembits_inalloc'' (TInt I32 False),
    Plain ''total_allocated'' (TInt I32 False),
    Plain ''online_maps'' (TInt I32 False),
    Plain ''maps'' (TPtr ''struct cpumap''),
    Plain ''system_map'' (TPtr ''long unsigned int''),
    Plain ''scratch_map'' (TArr (TInt I64 False) 0)]"

definition st_irqaction :: ty where
  "st_irqaction = TStruct ''irqaction'' False [
    Plain ''handler'' td_irq_handler_t,
    Plain '''' (TUnion '''' False [
      Plain ''dev_id'' (TPtr ''void''),
      Plain ''percpu_dev_id'' (TPtr ''void'')]),
    Plain ''affinity'' (TPtr ''struct cpumask''),
    Plain ''next'' (TPtr ''struct irqaction''),
    Plain ''thread_fn'' td_irq_handler_t,
    Plain ''thread'' (TPtr ''struct task_struct''),
    Plain ''secondary'' (TPtr ''struct irqaction''),
    Plain ''irq'' (TInt I32 False),
    Plain ''flags'' (TInt I32 False),
    Plain ''thread_flags'' (TInt I64 False),
    Plain ''thread_mask'' (TInt I64 False),
    Plain ''name'' (TPtr ''char''),
    Plain ''dir'' (TPtr ''struct proc_dir_entry''),
    Bits '''' (TInt I64 True) 64,
    Bits '''' (TInt I64 True) 64,
    Bits '''' (TInt I64 True) 64,
    Bits '''' (TInt I64 True) 64]"

definition un_irte___2 :: ty where
  "un_irte___2 = TUnion ''irte___2'' False [
    Plain ''val'' td_u32,
    Plain ''fields'' (TStruct '''' False [
      Bits ''valid'' td_u32 1,
      Bits ''no_fault'' td_u32 1,
      Bits ''int_type'' td_u32 3,
      Bits ''rq_eoi'' td_u32 1,
      Bits ''dm'' td_u32 1,
      Bits ''rsvd_1'' td_u32 1,
      Bits ''destination'' td_u32 8,
      Bits ''vector'' td_u32 8,
      Bits ''rsvd_2'' td_u32 8])]"

definition un_irte_ga_lo :: ty where
  "un_irte_ga_lo = TUnion ''irte_ga_lo'' False [
    Plain ''val'' td_u64,
    Plain ''fields_remap'' (TStruct '''' False [
      Bits ''valid'' td_u64 1,
      Bits ''no_fault'' td_u64 1,
      Bits ''int_type'' td_u64 3,
      Bits ''rq_eoi'' td_u64 1,
      Bits ''dm'' td_u64 1,
      Bits ''guest_mode'' td_u64 1,
      Bits ''destination'' td_u64 24,
      Bits ''ga_tag'' td_u64 32]),
    Plain ''fields_vapic'' (TStruct '''' False [
      Bits ''valid'' td_u64 1,
      Bits ''no_fault'' td_u64 1,
      Bits ''ga_log_intr'' td_u64 1,
      Bits ''rsvd1'' td_u64 3,
      Bits ''is_run'' td_u64 1,
      Bits ''guest_mode'' td_u64 1,
      Bits ''destination'' td_u64 24,
      Bits ''ga_tag'' td_u64 32])]"

definition st_ivhd_entry :: ty where
  "st_ivhd_entry = TStruct ''ivhd_entry'' True [
    Plain ''type'' td_u8,
    Plain ''devid'' td_u16,
    Plain ''flags'' td_u8,
    Plain '''' (TUnion '''' False [
      Plain '''' (TStruct '''' False [
        Plain ''ext'' td_u32,
        Plain ''hidh'' td_u32]),
      Plain ''ext_hid'' (TStruct '''' False [
        Plain ''ext'' td_u32,
        Plain ''hidh'' td_u32])]),
    Plain ''cid'' td_u64,
    Plain ''uidf'' td_u8,
    Plain ''uidl'' td_u8,
    Plain ''uid'' td_u8]"

definition st_iw_point :: ty where
  "st_iw_point = TStruct ''iw_point'' False [
    Plain ''pointer'' (TPtr ''void''),
    Plain ''length'' td___u16,
    Plain ''flags'' td___u16]"

definition st_iw_param :: ty where
  "st_iw_param = TStruct ''iw_param'' False [
    Plain ''value'' td___s32,
    Plain ''fixed'' td___u8,
    Plain ''disabled'' td___u8,
    Plain ''flags'' td___u16]"

definition st_iw_freq :: ty where
  "st_iw_freq = TStruct ''iw_freq'' False [
    Plain ''m'' td___s32,
    Plain ''e'' td___s16,
    Plain ''i'' td___u8,
    Plain ''flags'' td___u8]"

definition st_iw_quality :: ty where
  "st_iw_quality = TStruct ''iw_quality'' False [
    Plain ''qual'' td___u8,
    Plain ''level'' td___u8,
    Plain ''noise'' td___u8,
    Plain ''updated'' td___u8]"

definition st_jailhouse_setup_data :: ty where
  "st_jailhouse_setup_data = TStruct ''jailhouse_setup_data'' False [
    Plain ''hdr'' (TStruct '''' False [
      Plain ''version'' td___u16,
      Plain ''compatible_version'' td___u16]),
    Plain ''v1'' (TStruct '''' True [
      Plain ''pm_timer_address'' td___u16,
      Plain ''num_cpus'' td___u16,
      Plain ''pci_mmconfig_base'' td___u64,
      Plain ''tsc_khz'' td___u32,
      Plain ''apic_khz'' td___u32,
      Plain ''standard_ioapic'' td___u8,
      Plain ''cpu_ids'' (TArr td___u8 255)]),
    Plain ''v2'' (TStruct '''' False [
      Plain ''flags'' td___u32])]"

definition st_jbd2_journal_handle :: ty where
  "st_jbd2_journal_handle = TStruct ''jbd2_journal_handle'' False [
    Plain '''' (TUnion '''' False [
      Plain ''h_transaction'' (TPtr ''transaction_t''),
      Plain ''h_journal'' (TPtr ''journal_t'')]),
    Plain ''h_rsv_handle'' (TPtr ''handle_t''),
    Plain ''h_total_credits'' (TInt I32 True),
    Plain ''h_revoke_credits'' (TInt I32 True),
    Plain ''h_revoke_credits_requested'' (TInt I32 True),
    Plain ''h_ref'' (TInt I32 True),
    Plain ''h_err'' (TInt I32 True),
    Bits ''h_sync'' (TInt I32 False) 1,
    Bits ''h_reserved'' (TInt I32 False) 1,
    Bits ''h_aborted'' (TInt I32 False) 1,
    Bits ''h_type'' (TInt I32 False) 8,
    Bits ''h_line_no'' (TInt I32 False) 16,
    Plain ''h_start_jiffies'' (TInt I64 False),
    Plain ''h_requested_credits'' (TInt I32 False),
    Plain ''saved_alloc_context'' (TInt I32 False)]"

definition st_journal_header_s :: ty where
  "st_journal_header_s = TStruct ''journal_header_s'' False [
    Plain ''h_magic'' td___be32,
    Plain ''h_blocktype'' td___be32,
    Plain ''h_sequence'' td___be32]"

definition st_kernel_clone_args :: ty where
  "st_kernel_clone_args = TStruct ''kernel_clone_args'' False [
    Plain ''flags'' td_u64,
    Plain ''pidfd'' (TPtr ''int''),
    Plain ''child_tid'' (TPtr ''int''),
    Plain ''parent_tid'' (TPtr ''int''),
    Plain ''name'' (TPtr ''char''),
    Plain ''exit_signal'' (TInt I32 True),
    Bits ''kthread'' td_u32 1,
    Bits ''io_thread'' td_u32 1,
    Bits ''user_worker'' td_u32 1,
    Bits ''no_files'' td_u32 1,
    Plain ''stack'' (TInt I64 False),
    Plain ''stack_size'' (TInt I64 False),
    Plain ''tls'' (TInt I64 False),
    Plain ''set_tid'' (TPtr ''pid_t''),
    Plain ''set_tid_size'' td_size_t,
    Plain ''cgroup'' (TInt I32 True),
    Plain ''idle'' (TInt I32 True),
    Plain ''fn'' (TFun ''int (*)(void *)''),
    Plain ''fn_arg'' (TPtr ''void''),
    Plain ''cgrp'' (TPtr ''struct cgroup''),
    Plain ''cset'' (TPtr ''struct css_set''),
    Plain ''kill_seq'' (TInt I32 False)]"

definition st_kernfs_elem_attr :: ty where
  "st_kernfs_elem_attr = TStruct ''kernfs_elem_attr'' False [
    Plain ''ops'' (TPtr ''struct kernfs_ops''),
    Plain ''open'' (TPtr ''struct kernfs_open_node''),
    Plain ''size'' td_loff_t,
    Plain ''notify_next'' (TPtr ''struct kernfs_node'')]"

definition st_kernfs_elem_symlink :: ty where
  "st_kernfs_elem_symlink = TStruct ''kernfs_elem_symlink'' False [
    Plain ''target_kn'' (TPtr ''struct kernfs_node'')]"

definition st_kexec_entry64_regs :: ty where
  "st_kexec_entry64_regs = TStruct ''kexec_entry64_regs'' False [
    Plain ''rax'' td_uint64_t,
    Plain ''rcx'' td_uint64_t,
    Plain ''rdx'' td_uint64_t,
    Plain ''rbx'' td_uint64_t,
    Plain ''rsp'' td_uint64_t,
    Plain ''rbp'' td_uint64_t,
    Plain ''rsi'' td_uint64_t,
    Plain ''rdi'' td_uint64_t,
    Plain ''r8'' td_uint64_t,
    Plain ''r9'' td_uint64_t,
    Plain ''r10'' td_uint64_t,
    Plain ''r11'' td_uint64_t,
    Plain ''r12'' td_uint64_t,
    Plain ''r13'' td_uint64_t,
    Plain ''r14'' td_uint64_t,
    Plain ''r15'' td_uint64_t,
    Plain ''rip'' td_uint64_t]"

definition st_kexec_segment :: ty where
  "st_kexec_segment = TStruct ''kexec_segment'' False [
    Plain '''' (TUnion '''' False [
      Plain ''buf'' (TPtr ''void''),
      Plain ''kbuf'' (TPtr ''void'')]),
    Plain ''bufsz'' td_size_t,
    Plain ''mem'' (TInt I64 False),
    Plain ''memsz'' td_size_t]"

definition st_keyring_index_key :: ty where
  "st_keyring_index_key = TStruct ''keyring_index_key'' False [
    Plain ''hash'' (TInt I64 False),
    Plain '''' (TUnion '''' False [
      Plain '''' (TStruct '''' False [
        Plain ''desc_len'' td_u16,
        Plain ''desc'' (TArr (TInt I8 True) 6)]),
      Plain ''x'' (TInt I64 False)]),
    Plain ''type'' (TPtr ''struct key_type''),
    Plain ''domain_tag'' (TPtr ''struct key_tag''),
    Plain ''description'' (TPtr ''char'')]"

definition un_key_payload :: ty where
  "un_key_payload = TUnion ''key_payload'' False [
    Plain ''rcu_data0'' (TPtr ''void''),
    Plain ''data'' (TArr (TPtr ''void'') 4)]"

definition st_kfence_track :: ty where
  "st_kfence_track = TStruct ''kfence_track'' False [
    Plain ''pid'' td_pid_t,
    Plain ''cpu'' (TInt I32 True),
    Plain ''ts_nsec'' td_u64,
    Plain ''num_stack_entries'' (TInt I32 True),
    Plain ''stack_entries'' (TArr (TInt I64 False) 64)]"

definition st_slabobj_ext :: ty where
  "st_slabobj_ext = TStruct ''slabobj_ext'' False [
    Plain ''objcg'' (TPtr ''struct obj_cgroup'')]"

definition st_rcu_gp_oldstate :: ty where
  "st_rcu_gp_oldstate = TStruct ''rcu_gp_oldstate'' False [
    Plain ''rgos_norm'' (TInt I64 False),
    Plain ''rgos_exp'' (TInt I64 False)]"

definition st_kimage_arch :: ty where
  "st_kimage_arch = TStruct ''kimage_arch'' False [
    Plain ''pgd'' (TPtr ''pgd_t''),
    Plain ''p4d'' (TPtr ''p4d_t''),
    Plain ''pud'' (TPtr ''pud_t''),
    Plain ''pmd'' (TPtr ''pmd_t''),
    Plain ''pte'' (TPtr ''pte_t'')]"

definition st_purgatory_info :: ty where
  "st_purgatory_info = TStruct ''purgatory_info'' False [
    Plain ''ehdr'' (TPtr ''Elf64_Ehdr''),
    Plain ''sechdrs'' (TPtr ''Elf64_Shdr''),
    Plain ''purgatory_buf'' (TPtr ''void'')]"

definition st_reciprocal_value :: ty where
  "st_reciprocal_value = TStruct ''reciprocal_value'' False [
    Plain ''m'' td_u32,
    Plain ''sh1'' td_u8,
    Plain ''sh2'' td_u8]"

definition st_kmem_cache_order_objects :: ty where
  "st_kmem_cache_order_objects = TStruct ''kmem_cache_order_objects'' False [
    Plain ''x'' (TInt I32 False)]"

definition st_kstatfs :: ty where
  "st_kstatfs = TStruct ''kstatfs'' False [
    Plain ''f_type'' (TInt I64 True),
    Plain ''f_bsize'' (TInt I64 True),
    Plain ''f_blocks'' td_u64,
    Plain ''f_bfree'' td_u64,
    Plain ''f_bavail'' td_u64,
    Plain ''f_files'' td_u64,
    Plain ''f_ffree'' td_u64,
    Plain ''f_fsid'' td___kernel_fsid_t,
    Plain ''f_namelen'' (TInt I64 True),
    Plain ''f_frsize'' (TInt I64 True),
    Plain ''f_flags'' (TInt I64 True),
    Plain ''f_spare'' (TArr (TInt I64 True) 4)]"

definition st_statmount :: ty where
  "st_statmount = TStruct ''statmount'' False [
    Plain ''size'' td___u32,
    Plain ''mnt_opts'' td___u32,
    Plain ''mask'' td___u64,
    Plain ''sb_dev_major'' td___u32,
    Plain ''sb_dev_minor'' td___u32,
    Plain ''sb_magic'' td___u64,
    Plain ''sb_flags'' td___u32,
    Plain ''fs_type'' td___u32,
    Plain ''mnt_id'' td___u64,
    Plain ''mnt_parent_id'' td___u64,
    Plain ''mnt_id_old'' td___u32,
    Plain ''mnt_parent_id_old'' td___u32,
    Plain ''mnt_attr'' td___u64,
    Plain ''mnt_propagation'' td___u64,
    Plain ''mnt_peer_group'' td___u64,
    Plain ''mnt_master'' td___u64,
    Plain ''propagate_from'' td___u64,
    Plain ''mnt_root'' td___u32,
    Plain ''mnt_point'' td___u32,
    Plain ''mnt_ns_id'' td___u64,
    Plain ''fs_subtype'' td___u32,
    Plain ''sb_source'' td___u32,
    Plain ''opt_num'' td___u32,
    Plain ''opt_array'' td___u32,
    Plain ''opt_sec_num'' td___u32,
    Plain ''opt_sec_array'' td___u32,
    Plain ''supported_mask'' td___u64,
    Plain ''mnt_uidmap_num'' td___u32,
    Plain ''mnt_uidmap'' td___u32,
    Plain ''mnt_gidmap_num'' td___u32,
    Plain ''mnt_gidmap'' td___u32,
    Plain ''__spare2'' (TArr td___u64 43),
    Plain ''str'' (TArr (TInt I8 True) 0)]"

definition st_ktermios :: ty where
  "st_ktermios = TStruct ''ktermios'' False [
    Plain ''c_iflag'' td_tcflag_t,
    Plain ''c_oflag'' td_tcflag_t,
    Plain ''c_cflag'' td_tcflag_t,
    Plain ''c_lflag'' td_tcflag_t,
    Plain ''c_line'' td_cc_t,
    Plain ''c_cc'' (TArr td_cc_t 19),
    Plain ''c_ispeed'' td_speed_t,
    Plain ''c_ospeed'' td_speed_t]"

definition st_kvm_vm_stat_generic :: ty where
  "st_kvm_vm_stat_generic = TStruct ''kvm_vm_stat_generic'' False [
    Plain ''remote_tlb_flush'' td_u64,
    Plain ''remote_tlb_flush_requests'' td_u64]"

definition st_kvm_arch_memory_slot :: ty where
  "st_kvm_arch_memory_slot = TStruct ''kvm_arch_memory_slot'' False [
    Plain ''rmap'' (TArr (TPtr ''struct kvm_rmap_head'') 3),
    Plain ''lpage_info'' (TArr (TPtr ''struct kvm_lpage_info'') 2),
    Plain ''gfn_write_track'' (TPtr ''short unsigned int'')]"

definition un_kvm_mmu_page_role :: ty where
  "un_kvm_mmu_page_role = TUnion ''kvm_mmu_page_role'' False [
    Plain ''word'' td_u32,
    Plain '''' (TStruct '''' False [
      Bits ''level'' (TInt I32 False) 4,
      Bits ''has_4_byte_gpte'' (TInt I32 False) 1,
      Bits ''quadrant'' (TInt I32 False) 2,
      Bits ''direct'' (TInt I32 False) 1,
      Bits ''access'' (TInt I32 False) 3,
      Bits ''invalid'' (TInt I32 False) 1,
      Bits ''efer_nx'' (TInt I32 False) 1,
      Bits ''cr0_wp'' (TInt I32 False) 1,
      Bits ''smep_andnot_wp'' (TInt I32 False) 1,
      Bits ''smap_andnot_wp'' (TInt I32 False) 1,
      Bits ''ad_disabled'' (TInt I32 False) 1,
      Bits ''guest_mode'' (TInt I32 False) 1,
      Bits ''passthrough'' (TInt I32 False) 1,
      Bits ''is_mirror'' (TInt I32 False) 1,
      Bits '''' (TInt I8 True) 4,
      Bits ''smm'' (TInt I32 False) 8])]"

definition st_kvm_debug_exit_arch :: ty where
  "st_kvm_debug_exit_arch = TStruct ''kvm_debug_exit_arch'' False [
    Plain ''exception'' td___u32,
    Plain ''pad'' td___u32,
    Plain ''pc'' td___u64,
    Plain ''dr6'' td___u64,
    Plain ''dr7'' td___u64]"

definition st_kvm_dtable :: ty where
  "st_kvm_dtable = TStruct ''kvm_dtable'' False [
    Plain ''base'' td___u64,
    Plain ''limit'' td___u16,
    Plain ''padding'' (TArr td___u16 3)]"

definition st_kvm_exit_snp_req_certs :: ty where
  "st_kvm_exit_snp_req_certs = TStruct ''kvm_exit_snp_req_certs'' False [
    Plain ''gpa'' td___u64,
    Plain ''npages'' td___u64,
    Plain ''ret'' td___u64]"

definition st_kvm_hyperv_exit :: ty where
  "st_kvm_hyperv_exit = TStruct ''kvm_hyperv_exit'' False [
    Plain ''type'' td___u32,
    Plain ''pad1'' td___u32,
    Plain ''u'' (TUnion '''' False [
      Plain ''synic'' (TStruct '''' False [
        Plain ''msr'' td___u32,
        Plain ''pad2'' td___u32,
        Plain ''control'' td___u64,
        Plain ''evt_page'' td___u64,
        Plain ''msg_page'' td___u64]),
      Plain ''hcall'' (TStruct '''' False [
        Plain ''input'' td___u64,
        Plain ''result'' td___u64,
        Plain ''params'' (TArr td___u64 2)]),
      Plain ''syndbg'' (TStruct '''' False [
        Plain ''msr'' td___u32,
        Plain ''pad2'' td___u32,
        Plain ''control'' td___u64,
        Plain ''status'' td___u64,
        Plain ''send_page'' td___u64,
        Plain ''recv_page'' td___u64,
        Plain ''pending_page'' td___u64])])]"

definition st_kvm_hypervisor_cpuid :: ty where
  "st_kvm_hypervisor_cpuid = TStruct ''kvm_hypervisor_cpuid'' False [
    Plain ''base'' td_u32,
    Plain ''limit'' td_u32]"

definition st_kvm_vmx_nested_state_hdr :: ty where
  "st_kvm_vmx_nested_state_hdr = TStruct ''kvm_vmx_nested_state_hdr'' False [
    Plain ''vmxon_pa'' td___u64,
    Plain ''vmcs12_pa'' td___u64,
    Plain ''smm'' (TStruct '''' False [
      Plain ''flags'' td___u16]),
    Plain ''pad'' td___u16,
    Plain ''flags'' td___u32,
    Plain ''preemption_timer_deadline'' td___u64]"

definition st_kvm_svm_nested_state_hdr :: ty where
  "st_kvm_svm_nested_state_hdr = TStruct ''kvm_svm_nested_state_hdr'' False [
    Plain ''vmcb_pa'' td___u64]"

definition st_kvm_vmx_nested_state_data :: ty where
  "st_kvm_vmx_nested_state_data = TStruct ''kvm_vmx_nested_state_data'' False [
    Plain ''vmcs12'' (TArr td___u8 4096),
    Plain ''shadow_vmcs12'' (TArr td___u8 4096)]"

definition st_kvm_svm_nested_state_data :: ty where
  "st_kvm_svm_nested_state_data = TStruct ''kvm_svm_nested_state_data'' False [
    Plain ''vmcb12'' (TArr td___u8 4096)]"

definition st_kvm_pmc :: ty where
  "st_kvm_pmc = TStruct ''kvm_pmc'' False [
    Plain ''type'' (TEnum ''pmc_type'' I32),
    Plain ''idx'' td_u8,
    Plain ''is_paused'' td_bool,
    Plain ''intr'' td_bool,
    Plain ''counter'' td_u64,
    Plain ''emulated_counter'' td_u64,
    Plain ''eventsel'' td_u64,
    Plain ''eventsel_hw'' td_u64,
    Plain ''perf_event'' (TPtr ''struct perf_event''),
    Plain ''vcpu'' (TPtr ''struct kvm_vcpu''),
    Plain ''current_config'' td_u64]"

definition st_kvm_regs :: ty where
  "st_kvm_regs = TStruct ''kvm_regs'' False [
    Plain ''rax'' td___u64,
    Plain ''rbx'' td___u64,
    Plain ''rcx'' td___u64,
    Plain ''rdx'' td___u64,
    Plain ''rsi'' td___u64,
    Plain ''rdi'' td___u64,
    Plain ''rsp'' td___u64,
    Plain ''rbp'' td___u64,
    Plain ''r8'' td___u64,
    Plain ''r9'' td___u64,
    Plain ''r10'' td___u64,
    Plain ''r11'' td___u64,
    Plain ''r12'' td___u64,
    Plain ''r13'' td___u64,
    Plain ''r14'' td___u64,
    Plain ''r15'' td___u64,
    Plain ''rip'' td___u64,
    Plain ''rflags'' td___u64]"

definition st_kvm_xen_exit :: ty where
  "st_kvm_xen_exit = TStruct ''kvm_xen_exit'' False [
    Plain ''type'' td___u32,
    Plain ''u'' (TUnion '''' False [
      Plain ''hcall'' (TStruct '''' False [
        Plain ''longmode'' td___u32,
        Plain ''cpl'' td___u32,
        Plain ''input'' td___u64,
        Plain ''result'' td___u64,
        Plain ''params'' (TArr td___u64 6)])])]"

definition st_kvm_segment :: ty where
  "st_kvm_segment = TStruct ''kvm_segment'' False [
    Plain ''base'' td___u64,
    Plain ''limit'' td___u32,
    Plain ''selector'' td___u16,
    Plain ''type'' td___u8,
    Plain ''present'' td___u8,
    Plain ''dpl'' td___u8,
    Plain ''db'' td___u8,
    Plain ''s'' td___u8,
    Plain ''l'' td___u8,
    Plain ''g'' td___u8,
    Plain ''avl'' td___u8,
    Plain ''unusable'' td___u8,
    Plain ''padding'' td___u8]"

definition st_kvm_vcpu_events :: ty where
  "st_kvm_vcpu_events = TStruct ''kvm_vcpu_events'' False [
    Plain ''exception'' (TStruct '''' False [
      Plain ''injected'' td___u8,
      Plain ''nr'' td___u8,
      Plain ''has_error_code'' td___u8,
      Plain ''pending'' td___u8,
      Plain ''error_code'' td___u32]),
    Plain ''interrupt'' (TStruct '''' False [
      Plain ''injected'' td___u8,
      Plain ''nr'' td___u8,
      Plain ''soft'' td___u8,
      Plain ''shadow'' td___u8]),
    Plain ''nmi'' (TStruct '''' False [
      Plain ''injected'' td___u8,
      Plain ''pending'' td___u8,
      Plain ''masked'' td___u8,
      Plain ''pad'' td___u8]),
    Plain ''sipi_vector'' td___u32,
    Plain ''flags'' td___u32,
    Plain ''smi'' (TStruct '''' False [
      Plain ''smm'' td___u8,
      Plain ''pending'' td___u8,
      Plain ''smm_inside_nmi'' td___u8,
      Plain ''latched_init'' td___u8]),
    Plain ''triple_fault'' (TStruct '''' False [
      Plain ''pending'' td___u8]),
    Plain ''reserved'' (TArr td___u8 26),
    Plain ''exception_has_payload'' td___u8,
    Plain ''exception_payload'' td___u64]"

definition st_kvm_vcpu_stat_generic :: ty where
  "st_kvm_vcpu_stat_generic = TStruct ''kvm_vcpu_stat_generic'' False [
    Plain ''halt_successful_poll'' td_u64,
    Plain ''halt_attempted_poll'' td_u64,
    Plain ''halt_poll_invalid'' td_u64,
    Plain ''halt_wakeup'' td_u64,
    Plain ''halt_poll_success_ns'' td_u64,
    Plain ''halt_poll_fail_ns'' td_u64,
    Plain ''halt_wait_ns'' td_u64,
    Plain ''halt_poll_success_hist'' (TArr td_u64 32),
    Plain ''halt_poll_fail_hist'' (TArr td_u64 32),
    Plain ''halt_wait_hist'' (TArr td_u64 32),
    Plain ''blocking'' td_u64]"

definition st_ldttss_desc :: ty where
  "st_ldttss_desc = TStruct ''ldttss_desc'' False [
    Plain ''limit0'' td_u16,
    Plain ''base0'' td_u16,
    Bits ''base1'' td_u16 8,
    Bits ''type'' td_u16 5,
    Bits ''dpl'' td_u16 2,
    Bits ''p'' td_u16 1,
    Bits ''limit1'' td_u16 4,
    Bits ''zero0'' td_u16 3,
    Bits ''g'' td_u16 1,
    Bits ''base2'' td_u16 8,
    Plain ''base3'' td_u32,
    Plain ''zero1'' td_u32]"

definition st_load_info :: ty where
  "st_load_info = TStruct ''load_info'' False [
    Plain ''name'' (TPtr ''char''),
    Plain ''mod'' (TPtr ''struct module''),
    Plain ''hdr'' (TPtr ''Elf64_Ehdr''),
    Plain ''len'' (TInt I64 False),
    Plain ''sechdrs'' (TPtr ''Elf64_Shdr''),
    Plain ''secstrings'' (TPtr ''char''),
    Plain ''strtab'' (TPtr ''char''),
    Plain ''symoffs'' (TInt I64 False),
    Plain ''stroffs'' (TInt I64 False),
    Plain ''init_typeoffs'' (TInt I64 False),
    Plain ''core_typeoffs'' (TInt I64 False),
    Plain ''sig_ok'' td_bool,
    Plain ''mod_kallsyms_init_off'' (TInt I64 False),
    Plain ''pages'' (TPtr ''struct page *''),
    Plain ''max_pages'' (TInt I32 False),
    Plain ''used_pages'' (TInt I32 False),
    Plain ''index'' (TStruct '''' False [
      Plain ''sym'' (TInt I32 False),
      Plain ''str'' (TInt I32 False),
      Plain ''mod'' (TInt I32 False),
      Plain ''vers'' (TInt I32 False),
      Plain ''info'' (TInt I32 False),
      Plain ''pcpu'' (TInt I32 False),
      Plain ''vers_ext_crc'' (TInt I32 False),
      Plain ''vers_ext_name'' (TInt I32 False)])]"

definition st_logical_block_metadata_cap :: ty where
  "st_logical_block_metadata_cap = TStruct ''logical_block_metadata_cap'' False [
    Plain ''lbmd_flags'' td___u32,
    Plain ''lbmd_interval'' td___u16,
    Plain ''lbmd_size'' td___u8,
    Plain ''lbmd_opaque_size'' td___u8,
    Plain ''lbmd_opaque_offset'' td___u8,
    Plain ''lbmd_pi_size'' td___u8,
    Plain ''lbmd_pi_offset'' td___u8,
    Plain ''lbmd_guard_tag_type'' td___u8,
    Plain ''lbmd_app_tag_size'' td___u8,
    Plain ''lbmd_ref_tag_size'' td___u8,
    Plain ''lbmd_storage_tag_size'' td___u8,
    Plain ''pad'' td___u8]"

definition st_loop_info64 :: ty where
  "st_loop_info64 = TStruct ''loop_info64'' False [
    Plain ''lo_device'' td___u64,
    Plain ''lo_inode'' td___u64,
    Plain ''lo_rdevice'' td___u64,
    Plain ''lo_offset'' td___u64,
    Plain ''lo_sizelimit'' td___u64,
    Plain ''lo_number'' td___u32,
    Plain ''lo_encrypt_type'' td___u32,
    Plain ''lo_encrypt_key_size'' td___u32,
    Plain ''lo_flags'' td___u32,
    Plain ''lo_file_name'' (TArr td___u8 64),
    Plain ''lo_crypt_name'' (TArr td___u8 64),
    Plain ''lo_encrypt_key'' (TArr td___u8 32),
    Plain ''lo_init'' (TArr td___u64 2)]"

definition st_loop_info :: ty where
  "st_loop_info = TStruct ''loop_info'' False [
    Plain ''lo_number'' (TInt I32 True),
    Plain ''lo_device'' td___kernel_old_dev_t,
    Plain ''lo_inode'' (TInt I64 False),
    Plain ''lo_rdevice'' td___kernel_old_dev_t,
    Plain ''lo_offset'' (TInt I32 True),
    Plain ''lo_encrypt_type'' (TInt I32 True),
    Plain ''lo_encrypt_key_size'' (TInt I32 True),
    Plain ''lo_flags'' (TInt I32 True),
    Plain ''lo_name'' (TArr (TInt I8 True) 64),
    Plain ''lo_encrypt_key'' (TArr (TInt I8 False) 32),
    Plain ''lo_init'' (TArr (TInt I64 False) 2),
    Plain ''reserved'' (TArr (TInt I8 True) 4)]"

definition st_lsm_blob_sizes :: ty where
  "st_lsm_blob_sizes = TStruct ''lsm_blob_sizes'' False [
    Plain ''lbs_cred'' (TInt I32 False),
    Plain ''lbs_file'' (TInt I32 False),
    Plain ''lbs_backing_file'' (TInt I32 False),
    Plain ''lbs_ib'' (TInt I32 False),
    Plain ''lbs_inode'' (TInt I32 False),
    Plain ''lbs_sock'' (TInt I32 False),
    Plain ''lbs_superblock'' (TInt I32 False),
    Plain ''lbs_ipc'' (TInt I32 False),
    Plain ''lbs_key'' (TInt I32 False),
    Plain ''lbs_msg_msg'' (TInt I32 False),
    Plain ''lbs_perf_event'' (TInt I32 False),
    Plain ''lbs_task'' (TInt I32 False),
    Plain ''lbs_xattr_count'' (TInt I32 False),
    Plain ''lbs_tun_dev'' (TInt I32 False),
    Plain ''lbs_bdev'' (TInt I32 False),
    Plain ''lbs_bpf_map'' (TInt I32 False),
    Plain ''lbs_bpf_prog'' (TInt I32 False),
    Plain ''lbs_bpf_token'' (TInt I32 False),
    Plain ''lbs_secmark'' td_bool]"

definition st_lzma_len_dec :: ty where
  "st_lzma_len_dec = TStruct ''lzma_len_dec'' False [
    Plain ''choice'' td_uint16_t,
    Plain ''choice2'' td_uint16_t,
    Plain ''low'' (TArr td_uint16_t 128),
    Plain ''mid'' (TArr td_uint16_t 128),
    Plain ''high'' (TArr td_uint16_t 256)]"

definition st_ma_wr_state :: ty where
  "st_ma_wr_state = TStruct ''ma_wr_state'' False [
    Plain ''mas'' (TPtr ''struct ma_state''),
    Plain ''node'' (TPtr ''struct maple_node''),
    Plain ''r_min'' (TInt I64 False),
    Plain ''r_max'' (TInt I64 False),
    Plain ''type'' (TEnum ''maple_type'' I32),
    Plain ''offset_end'' (TInt I8 False),
    Plain ''pivots'' (TPtr ''long unsigned int''),
    Plain ''end_piv'' (TInt I64 False),
    Plain ''slots'' (TPtr ''void *''),
    Plain ''entry'' (TPtr ''void''),
    Plain ''content'' (TPtr ''void''),
    Plain ''vacant_height'' (TInt I8 False),
    Plain ''sufficient_height'' (TInt I8 False)]"

definition st_mac_addr :: ty where
  "st_mac_addr = TStruct ''mac_addr'' False [
    Plain ''addr'' (TArr (TInt I8 False) 6)]"

definition st_mac_partition :: ty where
  "st_mac_partition = TStruct ''mac_partition'' False [
    Plain ''signature'' td___be16,
    Plain ''res1'' td___be16,
    Plain ''map_count'' td___be32,
    Plain ''start_block'' td___be32,
    Plain ''block_count'' td___be32,
    Plain ''name'' (TArr (TInt I8 True) 32),
    Plain ''type'' (TArr (TInt I8 True) 32),
    Plain ''data_start'' td___be32,
    Plain ''data_count'' td___be32,
    Plain ''status'' td___be32,
    Plain ''boot_start'' td___be32,
    Plain ''boot_size'' td___be32,
    Plain ''boot_load'' td___be32,
    Plain ''boot_load2'' td___be32,
    Plain ''boot_entry'' td___be32,
    Plain ''boot_entry2'' td___be32,
    Plain ''boot_cksum'' td___be32,
    Plain ''processor'' (TArr (TInt I8 True) 16)]"

definition st_macsec_context :: ty where
  "st_macsec_context = TStruct ''macsec_context'' False [
    Plain '''' (TUnion '''' False [
      Plain ''netdev'' (TPtr ''struct net_device''),
      Plain ''phydev'' (TPtr ''struct phy_device'')]),
    Plain ''offload'' (TEnum ''macsec_offload'' I32),
    Plain ''secy'' (TPtr ''struct macsec_secy''),
    Plain ''rx_sc'' (TPtr ''struct macsec_rx_sc''),
    Plain ''sa'' (TStruct '''' False [
      Plain ''update_pn'' td_bool,
      Plain ''assoc_num'' (TInt I8 False),
      Plain ''key'' (TArr td_u8 128),
      Plain '''' (TUnion '''' False [
        Plain ''rx_sa'' (TPtr ''struct macsec_rx_sa''),
        Plain ''tx_sa'' (TPtr ''struct macsec_tx_sa'')])]),
    Plain ''stats'' (TUnion '''' False [
      Plain ''tx_sc_stats'' (TPtr ''struct macsec_tx_sc_stats''),
      Plain ''tx_sa_stats'' (TPtr ''struct macsec_tx_sa_stats''),
      Plain ''rx_sc_stats'' (TPtr ''struct macsec_rx_sc_stats''),
      Plain ''rx_sa_stats'' (TPtr ''struct macsec_rx_sa_stats''),
      Plain ''dev_stats'' (TPtr ''struct macsec_dev_stats'')])]"

definition st_maple_metadata :: ty where
  "st_maple_metadata = TStruct ''maple_metadata'' False [
    Plain ''end'' (TInt I8 False),
    Plain ''gap'' (TInt I8 False)]"

definition st_max8997_platform_data :: ty where
  "st_max8997_platform_data = TStruct ''max8997_platform_data'' False [
    Plain ''ono'' (TInt I32 True),
    Plain ''regulators'' (TPtr ''struct max8997_regulator_data''),
    Plain ''num_regulators'' (TInt I32 True),
    Plain ''ignore_gpiodvs_side_effect'' td_bool,
    Plain ''buck125_default_idx'' (TInt I32 True),
    Plain ''buck1_voltage'' (TArr (TInt I32 False) 8),
    Plain ''buck1_gpiodvs'' td_bool,
    Plain ''buck2_voltage'' (TArr (TInt I32 False) 8),
    Plain ''buck2_gpiodvs'' td_bool,
    Plain ''buck5_voltage'' (TArr (TInt I32 False) 8),
    Plain ''buck5_gpiodvs'' td_bool,
    Plain ''eoc_mA'' (TInt I32 True),
    Plain ''timeout'' (TInt I32 True),
    Plain ''muic_pdata'' (TPtr ''struct max8997_muic_platform_data''),
    Plain ''haptic_pdata'' (TPtr ''struct max8997_haptic_platform_data''),
    Plain ''led_pdata'' (TPtr ''struct max8997_led_platform_data'')]"

definition st_max8998_platform_data :: ty where
  "st_max8998_platform_data = TStruct ''max8998_platform_data'' False [
    Plain ''regulators'' (TPtr ''struct max8998_regulator_data''),
    Plain ''num_regulators'' (TInt I32 True),
    Plain ''irq_base'' (TInt I32 False),
    Plain ''ono'' (TInt I32 True),
    Plain ''buck_voltage_lock'' td_bool,
    Plain ''buck1_voltage'' (TArr (TInt I32 True) 4),
    Plain ''buck2_voltage'' (TArr (TInt I32 True) 2),
    Plain ''buck1_default_idx'' (TInt I32 True),
    Plain ''buck2_default_idx'' (TInt I32 True),
    Plain ''wakeup'' td_bool,
    Plain ''rtc_delay'' td_bool,
    Plain ''eoc'' (TInt I32 True),
    Plain ''restart'' (TInt I32 True),
    Plain ''timeout'' (TInt I32 True)]"

definition st_mca_config :: ty where
  "st_mca_config = TStruct ''mca_config'' False [
    Bits ''lmce_disabled'' td___u64 1,
    Bits ''disabled'' td___u64 1,
    Bits ''ser'' td___u64 1,
    Bits ''recovery'' td___u64 1,
    Bits ''bios_cmci_threshold'' td___u64 1,
    Bits ''initialized'' td___u64 1,
    Bits ''__reserved'' td___u64 58,
    Plain ''dont_log_ce'' td_bool,
    Plain ''cmci_disabled'' td_bool,
    Plain ''ignore_ce'' td_bool,
    Plain ''print_all'' td_bool,
    Plain ''monarch_timeout'' (TInt I32 True),
    Plain ''panic_timeout'' (TInt I32 True),
    Plain ''rip_msr'' td_u32,
    Plain ''bootlog'' td_s8]"

definition st_mcinfo_msr :: ty where
  "st_mcinfo_msr = TStruct ''mcinfo_msr'' False [
    Plain ''reg'' td_uint64_t,
    Plain ''value'' td_uint64_t]"

definition st_mctp_fq_addr :: ty where
  "st_mctp_fq_addr = TStruct ''mctp_fq_addr'' False [
    Plain ''net'' (TInt I32 False),
    Plain ''eid'' td_mctp_eid_t]"

definition st_mdp_device_descriptor_s :: ty where
  "st_mdp_device_descriptor_s = TStruct ''mdp_device_descriptor_s'' False [
    Plain ''number'' td___u32,
    Plain ''major'' td___u32,
    Plain ''minor'' td___u32,
    Plain ''raid_disk'' td___u32,
    Plain ''state'' td___u32,
    Plain ''reserved'' (TArr td___u32 27)]"

definition st_mdp_superblock_1 :: ty where
  "st_mdp_superblock_1 = TStruct ''mdp_superblock_1'' False [
    Plain ''magic'' td___le32,
    Plain ''major_version'' td___le32,
    Plain ''feature_map'' td___le32,
    Plain ''pad0'' td___le32,
    Plain ''set_uuid'' (TArr td___u8 16),
    Plain ''set_name'' (TArr (TInt I8 True) 32),
    Plain ''ctime'' td___le64,
    Plain ''level'' td___le32,
    Plain ''layout'' td___le32,
    Plain ''size'' td___le64,
    Plain ''chunksize'' td___le32,
    Plain ''raid_disks'' td___le32,
    Plain '''' (TUnion '''' False [
      Plain ''bitmap_offset'' td___le32,
      Plain ''ppl'' (TStruct '''' False [
        Plain ''offset'' td___le16,
        Plain ''size'' td___le16])]),
    Plain ''new_level'' td___le32,
    Plain ''reshape_position'' td___le64,
    Plain ''delta_disks'' td___le32,
    Plain ''new_layout'' td___le32,
    Plain ''new_chunk'' td___le32,
    Plain ''new_offset'' td___le32,
    Plain ''data_offset'' td___le64,
    Plain ''data_size'' td___le64,
    Plain ''super_offset'' td___le64,
    Plain '''' (TUnion '''' False [
      Plain ''recovery_offset'' td___le64,
      Plain ''journal_tail'' td___le64]),
    Plain ''dev_number'' td___le32,
    Plain ''cnt_corrected_read'' td___le32,
    Plain ''device_uuid'' (TArr td___u8 16),
    Plain ''devflags'' td___u8,
    Plain ''bblog_shift'' td___u8,
    Plain ''bblog_size'' td___le16,
    Plain ''bblog_offset'' td___le32,
    Plain ''utime'' td___le64,
    Plain ''events'' td___le64,
    Plain ''resync_offset'' td___le64,
    Plain ''sb_csum'' td___le32,
    Plain ''max_dev'' td___le32,
    Plain ''logical_block_size'' td___le32,
    Plain ''pad3'' (TArr td___u8 28),
    Plain ''dev_roles'' (TArr td___le16 0)]"

definition st_mdu_array_info_s :: ty where
  "st_mdu_array_info_s = TStruct ''mdu_array_info_s'' False [
    Plain ''major_version'' (TInt I32 True),
    Plain ''minor_version'' (TInt I32 True),
    Plain ''patch_version'' (TInt I32 True),
    Plain ''ctime'' (TInt I32 False),
    Plain ''level'' (TInt I32 True),
    Plain ''size'' (TInt I32 True),
    Plain ''nr_disks'' (TInt I32 True),
    Plain ''raid_disks'' (TInt I32 True),
    Plain ''md_minor'' (TInt I32 True),
    Plain ''not_persistent'' (TInt I32 True),
    Plain ''utime'' (TInt I32 False),
    Plain ''state'' (TInt I32 True),
    Plain ''active_disks'' (TInt I32 True),
    Plain ''working_disks'' (TInt I32 True),
    Plain ''failed_disks'' (TInt I32 True),
    Plain ''spare_disks'' (TInt I32 True),
    Plain ''layout'' (TInt I32 True),
    Plain ''chunk_size'' (TInt I32 True)]"

definition st_mem_size_stats :: ty where
  "st_mem_size_stats = TStruct ''mem_size_stats'' False [
    Plain ''resident'' (TInt I64 False),
    Plain ''shared_clean'' (TInt I64 False),
    Plain ''shared_dirty'' (TInt I64 False),
    Plain ''private_clean'' (TInt I64 False),
    Plain ''private_dirty'' (TInt I64 False),
    Plain ''referenced'' (TInt I64 False),
    Plain ''anonymous'' (TInt I64 False),
    Plain ''lazyfree'' (TInt I64 False),
    Plain ''anonymous_thp'' (TInt I64 False),
    Plain ''shmem_thp'' (TInt I64 False),
    Plain ''file_thp'' (TInt I64 False),
    Plain ''swap'' (TInt I64 False),
    Plain ''shared_hugetlb'' (TInt I64 False),
    Plain ''private_hugetlb'' (TInt I64 False),
    Plain ''ksm'' (TInt I64 False),
    Plain ''pss'' td_u64,
    Plain ''pss_anon'' td_u64,
    Plain ''pss_file'' td_u64,
    Plain ''pss_shmem'' td_u64,
    Plain ''pss_dirty'' td_u64,
    Plain ''pss_locked'' td_u64,
    Plain ''swap_pss'' td_u64]"

definition st_memdev_dmi_entry :: ty where
  "st_memdev_dmi_entry = TStruct ''memdev_dmi_entry'' True [
    Plain ''type'' td_u8,
    Plain ''length'' td_u8,
    Plain ''handle'' td_u16,
    Plain ''phys_mem_array_handle'' td_u16,
    Plain ''mem_err_info_handle'' td_u16,
    Plain ''total_width'' td_u16,
    Plain ''data_width'' td_u16,
    Plain ''size'' td_u16,
    Plain ''form_factor'' td_u8,
    Plain ''device_set'' td_u8,
    Plain ''device_locator'' td_u8,
    Plain ''bank_locator'' td_u8,
    Plain ''memory_type'' td_u8,
    Plain ''type_detail'' td_u16,
    Plain ''speed'' td_u16,
    Plain ''manufacturer'' td_u8,
    Plain ''serial_number'' td_u8,
    Plain ''asset_tag'' td_u8,
    Plain ''part_number'' td_u8,
    Plain ''attributes'' td_u8,
    Plain ''extended_size'' td_u32,
    Plain ''conf_mem_clk_speed'' td_u16]"

definition st_memory_failure_entry :: ty where
  "st_memory_failure_entry = TStruct ''memory_failure_entry'' False [
    Plain ''pfn'' (TInt I64 False),
    Plain ''flags'' (TInt I32 True)]"

definition st_mfd_cell :: ty where
  "st_mfd_cell = TStruct ''mfd_cell'' False [
    Plain ''name'' (TPtr ''char''),
    Plain ''id'' (TInt I32 True),
    Plain ''level'' (TInt I32 True),
    Plain ''suspend'' (TFun ''int (*)(struct platform_device *)''),
    Plain ''resume'' (TFun ''int (*)(struct platform_device *)''),
    Plain ''platform_data'' (TPtr ''void''),
    Plain ''pdata_size'' td_size_t,
    Plain ''acpi_match'' (TPtr ''struct mfd_cell_acpi_match''),
    Plain ''swnode'' (TPtr ''struct software_node''),
    Plain ''of_compatible'' (TPtr ''char''),
    Plain ''of_reg'' td_u64,
    Plain ''use_of_reg'' td_bool,
    Plain ''num_resources'' (TInt I32 True),
    Plain ''resources'' (TPtr ''struct resource''),
    Plain ''ignore_resource_conflicts'' td_bool,
    Plain ''pm_runtime_no_callbacks'' td_bool,
    Plain ''num_parent_supplies'' (TInt I32 True),
    Plain ''parent_supplies'' (TPtr ''char *'')]"

definition st_microcode_header_amd :: ty where
  "st_microcode_header_amd = TStruct ''microcode_header_amd'' False [
    Plain ''data_code'' td_u32,
    Plain ''patch_id'' td_u32,
    Plain ''mc_patch_data_id'' td_u16,
    Plain ''mc_patch_data_len'' td_u8,
    Plain ''init_flag'' td_u8,
    Plain ''mc_patch_data_checksum'' td_u32,
    Plain ''nb_dev_id'' td_u32,
    Plain ''sb_dev_id'' td_u32,
    Plain ''processor_rev_id'' td_u16,
    Plain ''nb_rev_id'' td_u8,
    Plain ''sb_rev_id'' td_u8,
    Plain ''bios_api_rev'' td_u8,
    Plain ''reserved1'' (TArr td_u8 3),
    Plain ''match_reg'' (TArr td_u32 8)]"

definition st_microcode_header_intel :: ty where
  "st_microcode_header_intel = TStruct ''microcode_header_intel'' False [
    Plain ''hdrver'' (TInt I32 False),
    Plain ''rev'' (TInt I32 False),
    Plain ''date'' (TInt I32 False),
    Plain ''sig'' (TInt I32 False),
    Plain ''cksum'' (TInt I32 False),
    Plain ''ldrver'' (TInt I32 False),
    Plain ''pf'' (TInt I32 False),
    Plain ''datasize'' (TInt I32 False),
    Plain ''totalsize'' (TInt I32 False),
    Plain ''metasize'' (TInt I32 False),
    Plain ''min_req_ver'' (TInt I32 False),
    Plain ''reserved'' (TInt I32 False)]"

definition st_minmax_sample :: ty where
  "st_minmax_sample = TStruct ''minmax_sample'' False [
    Plain ''t'' td_u32,
    Plain ''v'' td_u32]"

definition st_vma_munmap_struct :: ty where
  "st_vma_munmap_struct = TStruct ''vma_munmap_struct'' False [
    Plain ''vmi'' (TPtr ''struct vma_iterator''),
    Plain ''vma'' (TPtr ''struct vm_area_struct''),
    Plain ''prev'' (TPtr ''struct vm_area_struct''),
    Plain ''next'' (TPtr ''struct vm_area_struct''),
    Plain ''uf'' (TPtr ''struct list_head''),
    Plain ''start'' (TInt I64 False),
    Plain ''end'' (TInt I64 False),
    Plain ''unmap_start'' (TInt I64 False),
    Plain ''unmap_end'' (TInt I64 False),
    Plain ''vma_count'' (TInt I32 True),
    Plain ''unlock'' td_bool,
    Plain ''clear_ptes'' td_bool,
    Plain ''nr_pages'' (TInt I64 False),
    Plain ''locked_vm'' (TInt I64 False),
    Plain ''nr_accounted'' (TInt I64 False),
    Plain ''exec_vm'' (TInt I64 False),
    Plain ''stack_vm'' (TInt I64 False),
    Plain ''data_vm'' (TInt I64 False)]"

definition st_mmc_command :: ty where
  "st_mmc_command = TStruct ''mmc_command'' False [
    Plain ''opcode'' td_u32,
    Plain ''arg'' td_u32,
    Plain ''resp'' (TArr td_u32 4),
    Plain ''flags'' (TInt I32 False),
    Plain ''retries'' (TInt I32 False),
    Plain ''error'' (TInt I32 True),
    Plain ''busy_timeout'' (TInt I32 False),
    Plain ''data'' (TPtr ''struct mmc_data''),
    Plain ''mrq'' (TPtr ''struct mmc_request''),
    Plain ''uhs2_cmd'' (TPtr ''struct uhs2_command''),
    Plain ''has_ext_addr'' td_bool,
    Plain ''ext_addr'' td_u8]"

definition st_mmc_data :: ty where
  "st_mmc_data = TStruct ''mmc_data'' False [
    Plain ''timeout_ns'' (TInt I32 False),
    Plain ''timeout_clks'' (TInt I32 False),
    Plain ''blksz'' (TInt I32 False),
    Plain ''blocks'' (TInt I32 False),
    Plain ''blk_addr'' (TInt I32 False),
    Plain ''error'' (TInt I32 True),
    Plain ''flags'' (TInt I32 False),
    Plain ''bytes_xfered'' (TInt I32 False),
    Plain ''stop'' (TPtr ''struct mmc_command''),
    Plain ''mrq'' (TPtr ''struct mmc_request''),
    Plain ''sg_len'' (TInt I32 False),
    Plain ''sg_count'' (TInt I32 True),
    Plain ''sg'' (TPtr ''struct scatterlist''),
    Plain ''host_cookie'' td_s32]"

definition st_mmc_cid :: ty where
  "st_mmc_cid = TStruct ''mmc_cid'' False [
    Plain ''manfid'' (TInt I32 False),
    Plain ''prod_name'' (TArr (TInt I8 True) 8),
    Plain ''prv'' (TInt I8 False),
    Plain ''serial'' (TInt I32 False),
    Plain ''oemid'' (TInt I16 False),
    Plain ''year'' (TInt I16 False),
    Plain ''hwrev'' (TInt I8 False),
    Plain ''fwrev'' (TInt I8 False),
    Plain ''month'' (TInt I8 False)]"

definition st_mmc_csd :: ty where
  "st_mmc_csd = TStruct ''mmc_csd'' False [
    Plain ''structure'' (TInt I8 False),
    Plain ''mmca_vsn'' (TInt I8 False),
    Plain ''cmdclass'' (TInt I16 False),
    Plain ''taac_clks'' (TInt I16 False),
    Plain ''taac_ns'' (TInt I32 False),
    Plain ''c_size'' (TInt I32 False),
    Plain ''r2w_factor'' (TInt I32 False),
    Plain ''max_dtr'' (TInt I32 False),
    Plain ''erase_size'' (TInt I32 False),
    Plain ''wp_grp_size'' (TInt I32 False),
    Plain ''read_blkbits'' (TInt I32 False),
    Plain ''write_blkbits'' (TInt I32 False),
    Plain ''capacity'' td_sector_t,
    Bits ''read_partial'' (TInt I32 False) 1,
    Bits ''read_misalign'' (TInt I32 False) 1,
    Bits ''write_partial'' (TInt I32 False) 1,
    Bits ''write_misalign'' (TInt I32 False) 1,
    Bits ''dsr_imp'' (TInt I32 False) 1]"

definition st_mmc_ext_csd :: ty where
  "st_mmc_ext_csd = TStruct ''mmc_ext_csd'' False [
    Plain ''rev'' td_u8,
    Plain ''erase_group_def'' td_u8,
    Plain ''sec_feature_support'' td_u8,
    Plain ''rel_sectors'' td_u8,
    Plain ''rel_param'' td_u8,
    Plain ''enhanced_rpmb_supported'' td_bool,
    Plain ''part_config'' td_u8,
    Plain ''cache_ctrl'' td_u8,
    Plain ''rst_n_function'' td_u8,
    Plain ''part_time'' (TInt I32 False),
    Plain ''sa_timeout'' (TInt I32 False),
    Plain ''generic_cmd6_time'' (TInt I32 False),
    Plain ''power_off_longtime'' (TInt I32 False),
    Plain ''power_off_notification'' td_u8,
    Plain ''hs_max_dtr'' (TInt I32 False),
    Plain ''hs200_max_dtr'' (TInt I32 False),
    Plain ''sectors'' (TInt I32 False),
    Plain ''hc_erase_size'' (TInt I32 False),
    Plain ''hc_erase_timeout'' (TInt I32 False),
    Plain ''sec_trim_mult'' (TInt I32 False),
    Plain ''sec_erase_mult'' (TInt I32 False),
    Plain ''trim_timeout'' (TInt I32 False),
    Plain ''partition_setting_completed'' td_bool,
    Plain ''enhanced_area_offset'' (TInt I64 False),
    Plain ''enhanced_area_size'' (TInt I32 False),
    Plain ''cache_size'' (TInt I32 False),
    Plain ''hpi_en'' td_bool,
    Plain ''hpi'' td_bool,
    Plain ''hpi_cmd'' (TInt I32 False),
    Plain ''bkops'' td_bool,
    Plain ''man_bkops_en'' td_bool,
    Plain ''auto_bkops_en'' td_bool,
    Plain ''data_sector_size'' (TInt I32 False),
    Plain ''data_tag_unit_size'' (TInt I32 False),
    Plain ''boot_ro_lock'' (TInt I32 False),
    Plain ''boot_ro_lockable'' td_bool,
    Plain ''ffu_capable'' td_bool,
    Plain ''cmdq_en'' td_bool,
    Plain ''cmdq_support'' td_bool,
    Plain ''cmdq_depth'' (TInt I32 False),
    Plain ''fwrev'' (TArr td_u8 8),
    Plain ''raw_exception_status'' td_u8,
    Plain ''raw_partition_support'' td_u8,
    Plain ''raw_rpmb_size_mult'' td_u8,
    Plain ''raw_erased_mem_count'' td_u8,
    Plain ''strobe_support'' td_u8,
    Plain ''raw_ext_csd_structure'' td_u8,
    Plain ''raw_card_type'' td_u8,
    Plain ''raw_driver_strength'' td_u8,
    Plain ''out_of_int_time'' td_u8,
    Plain ''raw_pwr_cl_52_195'' td_u8,
    Plain ''raw_pwr_cl_26_195'' td_u8,
    Plain ''raw_pwr_cl_52_360'' td_u8,
    Plain ''raw_pwr_cl_26_360'' td_u8,
    Plain ''raw_s_a_timeout'' td_u8,
    Plain ''raw_hc_erase_gap_size'' td_u8,
    Plain ''raw_erase_timeout_mult'' td_u8,
    Plain ''raw_hc_erase_grp_size'' td_u8,
    Plain ''raw_boot_mult'' td_u8,
    Plain ''raw_sec_trim_mult'' td_u8,
    Plain ''raw_sec_erase_mult'' td_u8,
    Plain ''raw_sec_feature_support'' td_u8,
    Plain ''raw_trim_mult'' td_u8,
    Plain ''raw_pwr_cl_200_195'' td_u8,
    Plain ''raw_pwr_cl_200_360'' td_u8,
    Plain ''raw_pwr_cl_ddr_52_195'' td_u8,
    Plain ''raw_pwr_cl_ddr_52_360'' td_u8,
    Plain ''raw_pwr_cl_ddr_200_360'' td_u8,
    Plain ''raw_bkops_status'' td_u8,
    Plain ''raw_sectors'' (TArr td_u8 4),
    Plain ''pre_eol_info'' td_u8,
    Plain ''device_life_time_est_typ_a'' td_u8,
    Plain ''device_life_time_est_typ_b'' td_u8,
    Plain ''feature_support'' (TInt I32 False)]"

definition st_sd_scr :: ty where
  "st_sd_scr = TStruct ''sd_scr'' False [
    Plain ''sda_vsn'' (TInt I8 False),
    Plain ''sda_spec3'' (TInt I8 False),
    Plain ''sda_spec4'' (TInt I8 False),
    Plain ''sda_specx'' (TInt I8 False),
    Plain ''bus_widths'' (TInt I8 False),
    Plain ''cmds'' (TInt I8 False)]"

definition st_sd_ssr :: ty where
  "st_sd_ssr = TStruct ''sd_ssr'' False [
    Plain ''au'' (TInt I32 False),
    Plain ''erase_timeout'' (TInt I32 False),
    Plain ''erase_offset'' (TInt I32 False)]"

definition st_sd_switch_caps :: ty where
  "st_sd_switch_caps = TStruct ''sd_switch_caps'' False [
    Plain ''hs_max_dtr'' (TInt I32 False),
    Plain ''uhs_max_dtr'' (TInt I32 False),
    Plain ''sd3_bus_mode'' (TInt I32 False),
    Plain ''sd3_drv_type'' (TInt I32 False),
    Plain ''sd3_curr_limit'' (TInt I32 False)]"

definition st_sd_ext_reg :: ty where
  "st_sd_ext_reg = TStruct ''sd_ext_reg'' False [
    Plain ''fno'' td_u8,
    Plain ''page'' td_u8,
    Plain ''offset'' td_u16,
    Plain ''rev'' td_u8,
    Plain ''feature_enabled'' td_u8,
    Plain ''feature_support'' td_u8]"

definition st_sd_uhs2_config :: ty where
  "st_sd_uhs2_config = TStruct ''sd_uhs2_config'' False [
    Plain ''node_id'' td_u32,
    Plain ''n_fcu'' td_u32,
    Plain ''maxblk_len'' td_u32,
    Plain ''n_lanes'' td_u8,
    Plain ''dadr_len'' td_u8,
    Plain ''app_type'' td_u8,
    Plain ''phy_minor_rev'' td_u8,
    Plain ''phy_major_rev'' td_u8,
    Plain ''can_hibernate'' td_u8,
    Plain ''n_lss_sync'' td_u8,
    Plain ''n_lss_dir'' td_u8,
    Plain ''link_minor_rev'' td_u8,
    Plain ''link_major_rev'' td_u8,
    Plain ''dev_type'' td_u8,
    Plain ''n_data_gap'' td_u8,
    Plain ''n_fcu_set'' td_u32,
    Plain ''maxblk_len_set'' td_u32,
    Plain ''n_lanes_set'' td_u8,
    Plain ''speed_range_set'' td_u8,
    Plain ''n_lss_sync_set'' td_u8,
    Plain ''n_lss_dir_set'' td_u8,
    Plain ''n_data_gap_set'' td_u8,
    Plain ''max_retry_set'' td_u8]"

definition st_sdio_cccr :: ty where
  "st_sdio_cccr = TStruct ''sdio_cccr'' False [
    Plain ''sdio_vsn'' (TInt I32 False),
    Plain ''sd_vsn'' (TInt I32 False),
    Bits ''multi_block'' (TInt I32 False) 1,
    Bits ''low_speed'' (TInt I32 False) 1,
    Bits ''wide_bus'' (TInt I32 False) 1,
    Bits ''high_power'' (TInt I32 False) 1,
    Bits ''high_speed'' (TInt I32 False) 1,
    Bits ''disable_cd'' (TInt I32 False) 1,
    Bits ''enable_async_irq'' (TInt I32 False) 1]"

definition st_sdio_cis :: ty where
  "st_sdio_cis = TStruct ''sdio_cis'' False [
    Plain ''vendor'' (TInt I16 False),
    Plain ''device'' (TInt I16 False),
    Plain ''blksize'' (TInt I16 False),
    Plain ''max_dtr'' (TInt I32 False)]"

definition st_mmc_part :: ty where
  "st_mmc_part = TStruct ''mmc_part'' False [
    Plain ''size'' td_u64,
    Plain ''part_cfg'' (TInt I32 False),
    Plain ''name'' (TArr (TInt I8 True) 20),
    Plain ''force_ro'' td_bool,
    Plain ''area_type'' (TInt I32 False)]"

definition st_mmc_ctx :: ty where
  "st_mmc_ctx = TStruct ''mmc_ctx'' False [
    Plain ''task'' (TPtr ''struct task_struct'')]"

definition st_mmc_fixup :: ty where
  "st_mmc_fixup = TStruct ''mmc_fixup'' False [
    Plain ''name'' (TPtr ''char''),
    Plain ''rev_start'' td_u64,
    Plain ''rev_end'' td_u64,
    Plain ''manfid'' (TInt I32 False),
    Plain ''oemid'' (TInt I16 False),
    Plain ''year'' (TInt I16 False),
    Plain ''month'' (TInt I8 False),
    Plain ''cis_vendor'' td_u16,
    Plain ''cis_device'' td_u16,
    Plain ''ext_csd_rev'' (TInt I32 False),
    Plain ''of_compatible'' (TPtr ''char''),
    Plain ''vendor_fixup'' (TFun ''void (*)(struct mmc_card *, int)''),
    Plain ''data'' (TInt I32 True)]"

definition st_sd_uhs2_caps :: ty where
  "st_sd_uhs2_caps = TStruct ''sd_uhs2_caps'' False [
    Plain ''dap'' td_u32,
    Plain ''gap'' td_u32,
    Plain ''group_desc'' td_u32,
    Plain ''maxblk_len'' td_u32,
    Plain ''n_fcu'' td_u32,
    Plain ''n_lanes'' td_u8,
    Plain ''addr64'' td_u8,
    Plain ''card_type'' td_u8,
    Plain ''phy_rev'' td_u8,
    Plain ''speed_range'' td_u8,
    Plain ''n_lss_sync'' td_u8,
    Plain ''n_lss_dir'' td_u8,
    Plain ''link_rev'' td_u8,
    Plain ''host_type'' td_u8,
    Plain ''n_data_gap'' td_u8,
    Plain ''maxblk_len_set'' td_u32,
    Plain ''n_fcu_set'' td_u32,
    Plain ''n_lanes_set'' td_u8,
    Plain ''n_lss_sync_set'' td_u8,
    Plain ''n_lss_dir_set'' td_u8,
    Plain ''n_data_gap_set'' td_u8,
    Plain ''max_retry_set'' td_u8]"

definition st_mmc_ios :: ty where
  "st_mmc_ios = TStruct ''mmc_ios'' False [
    Plain ''clock'' (TInt I32 False),
    Plain ''vdd'' (TInt I16 False),
    Plain ''power_delay_ms'' (TInt I32 False),
    Plain ''bus_mode'' (TInt I8 False),
    Plain ''chip_select'' (TInt I8 False),
    Plain ''power_mode'' (TInt I8 False),
    Plain ''bus_width'' (TInt I8 False),
    Plain ''timing'' (TInt I8 False),
    Plain ''signal_voltage'' (TInt I8 False),
    Plain ''vqmmc2_voltage'' (TInt I8 False),
    Plain ''drv_type'' (TInt I8 False),
    Plain ''enhanced_strobe'' td_bool]"

definition st_mmc_slot :: ty where
  "st_mmc_slot = TStruct ''mmc_slot'' False [
    Plain ''cd_irq'' (TInt I32 True),
    Plain ''cd_wake_enabled'' td_bool,
    Plain ''handler_priv'' (TPtr ''void'')]"

definition st_mmpin :: ty where
  "st_mmpin = TStruct ''mmpin'' False [
    Plain ''user'' (TPtr ''struct user_struct''),
    Plain ''num_pg'' (TInt I32 False)]"

definition st_mmu_gather_batch :: ty where
  "st_mmu_gather_batch = TStruct ''mmu_gather_batch'' False [
    Plain ''next'' (TPtr ''struct mmu_gather_batch''),
    Plain ''nr'' (TInt I32 False),
    Plain ''max'' (TInt I32 False),
    Plain ''encoded_pages'' (TArr (TPtr ''struct encoded_page'') 0)]"

definition st_uid_gid_extent :: ty where
  "st_uid_gid_extent = TStruct ''uid_gid_extent'' False [
    Plain ''first'' td_u32,
    Plain ''lower_first'' td_u32,
    Plain ''count'' td_u32]"

definition st_modesel_head :: ty where
  "st_modesel_head = TStruct ''modesel_head'' False [
    Plain ''reserved1'' td___u8,
    Plain ''medium'' td___u8,
    Plain ''reserved2'' td___u8,
    Plain ''block_desc_length'' td___u8,
    Plain ''density'' td___u8,
    Plain ''number_of_blocks_hi'' td___u8,
    Plain ''number_of_blocks_med'' td___u8,
    Plain ''number_of_blocks_lo'' td___u8,
    Plain ''reserved3'' td___u8,
    Plain ''block_length_hi'' td___u8,
    Plain ''block_length_med'' td___u8,
    Plain ''block_length_lo'' td___u8]"

definition st_vfsmount :: ty where
  "st_vfsmount = TStruct ''vfsmount'' False [
    Plain ''mnt_root'' (TPtr ''struct dentry''),
    Plain ''mnt_sb'' (TPtr ''struct super_block''),
    Plain ''mnt_flags'' (TInt I32 True),
    Plain ''mnt_idmap'' (TPtr ''struct mnt_idmap'')]"

definition st_mousedev_hw_data :: ty where
  "st_mousedev_hw_data = TStruct ''mousedev_hw_data'' False [
    Plain ''dx'' (TInt I32 True),
    Plain ''dy'' (TInt I32 True),
    Plain ''dz'' (TInt I32 True),
    Plain ''x'' (TInt I32 True),
    Plain ''y'' (TInt I32 True),
    Plain ''abs_event'' (TInt I32 True),
    Plain ''buttons'' (TInt I64 False)]"

definition st_mousedev_motion :: ty where
  "st_mousedev_motion = TStruct ''mousedev_motion'' False [
    Plain ''dx'' (TInt I32 True),
    Plain ''dy'' (TInt I32 True),
    Plain ''dz'' (TInt I32 True),
    Plain ''buttons'' (TInt I64 False)]"

definition st_mptcp_rm_list :: ty where
  "st_mptcp_rm_list = TStruct ''mptcp_rm_list'' False [
    Plain ''ids'' (TArr td_u8 8),
    Plain ''nr'' td_u8]"

definition st_mptcp_ext :: ty where
  "st_mptcp_ext = TStruct ''mptcp_ext'' False [
    Plain '''' (TUnion '''' False [
      Plain ''data_ack'' td_u64,
      Plain ''data_ack32'' td_u32]),
    Plain ''data_seq'' td_u64,
    Plain ''subflow_seq'' td_u32,
    Plain ''data_len'' td_u16,
    Plain ''csum'' td___sum16,
    Bits ''use_map'' td_u8 1,
    Bits ''dsn64'' td_u8 1,
    Bits ''data_fin'' td_u8 1,
    Bits ''use_ack'' td_u8 1,
    Bits ''ack64'' td_u8 1,
    Bits ''mpc_map'' td_u8 1,
    Bits ''frozen'' td_u8 1,
    Bits ''reset_transient'' td_u8 1,
    Bits ''reset_reason'' td_u8 4,
    Bits ''csum_reqd'' td_u8 1,
    Bits ''infinite_map'' td_u8 1]"

definition st_mptcp_info :: ty where
  "st_mptcp_info = TStruct ''mptcp_info'' False [
    Plain ''mptcpi_subflows'' td___u8,
    Plain ''mptcpi_add_addr_signal'' td___u8,
    Plain ''mptcpi_add_addr_accepted'' td___u8,
    Plain ''mptcpi_subflows_max'' td___u8,
    Plain ''mptcpi_add_addr_signal_max'' td___u8,
    Plain ''mptcpi_add_addr_accepted_max'' td___u8,
    Plain ''mptcpi_flags'' td___u32,
    Plain ''mptcpi_token'' td___u32,
    Plain ''mptcpi_write_seq'' td___u64,
    Plain ''mptcpi_snd_una'' td___u64,
    Plain ''mptcpi_rcv_nxt'' td___u64,
    Plain ''mptcpi_local_addr_used'' td___u8,
    Plain ''mptcpi_local_addr_max'' td___u8,
    Plain ''mptcpi_csum_enabled'' td___u8,
    Plain ''mptcpi_retransmits'' td___u32,
    Plain ''mptcpi_bytes_retrans'' td___u64,
    Plain ''mptcpi_bytes_sent'' td___u64,
    Plain ''mptcpi_bytes_received'' td___u64,
    Plain ''mptcpi_bytes_acked'' td___u64,
    Plain ''mptcpi_subflows_total'' td___u8,
    Plain ''mptcpi_endp_laminar_max'' td___u8,
    Plain ''mptcpi_endp_fullmesh_max'' td___u8,
    Plain ''reserved'' td___u8,
    Plain ''mptcpi_last_data_sent'' td___u32,
    Plain ''mptcpi_last_data_recv'' td___u32,
    Plain ''mptcpi_last_ack_recv'' td___u32]"

definition st_mptcp_pernet :: ty where
  "st_mptcp_pernet = TStruct ''mptcp_pernet'' False [
    Plain ''ctl_table_hdr'' (TPtr ''struct ctl_table_header''),
    Plain ''add_addr_timeout'' (TInt I32 False),
    Plain ''blackhole_timeout'' (TInt I32 False),
    Plain ''close_timeout'' (TInt I32 False),
    Plain ''stale_loss_cnt'' (TInt I32 False),
    Plain ''active_disable_times'' td_atomic_t,
    Plain ''syn_retrans_before_tcp_fallback'' td_u8,
    Plain ''active_disable_stamp'' (TInt I64 False),
    Plain ''mptcp_enabled'' td_u8,
    Plain ''checksum_enabled'' td_u8,
    Plain ''allow_join_initial_addr_port'' td_u8,
    Plain ''pm_type'' td_u8,
    Plain ''scheduler'' (TArr (TInt I8 True) 16),
    Plain ''path_manager'' (TArr (TInt I8 True) 16)]"

definition st_ms_hyperv_info :: ty where
  "st_ms_hyperv_info = TStruct ''ms_hyperv_info'' False [
    Plain ''features'' td_u32,
    Plain ''priv_high'' td_u32,
    Plain ''ext_features'' td_u32,
    Plain ''misc_features'' td_u32,
    Plain ''hints'' td_u32,
    Plain ''nested_features'' td_u32,
    Plain ''max_vp_index'' td_u32,
    Plain ''max_lp_index'' td_u32,
    Plain ''vtl'' td_u8,
    Plain '''' (TUnion '''' False [
      Plain ''isolation_config_a'' td_u32,
      Plain '''' (TStruct '''' False [
        Bits ''paravisor_present'' td_u32 1,
        Bits ''reserved_a1'' td_u32 31])]),
    Plain '''' (TUnion '''' False [
      Plain ''isolation_config_b'' td_u32,
      Plain '''' (TStruct '''' False [
        Bits ''cvm_type'' td_u32 4,
        Bits ''reserved_b1'' td_u32 1,
        Bits ''shared_gpa_boundary_active'' td_u32 1,
        Bits ''shared_gpa_boundary_bits'' td_u32 6,
        Bits ''reserved_b2'' td_u32 20])]),
    Plain ''shared_gpa_boundary'' td_u64,
    Plain ''msi_ext_dest_id'' td_bool,
    Plain ''confidential_vmbus_available'' td_bool]"

definition st_msdos_dir_entry :: ty where
  "st_msdos_dir_entry = TStruct ''msdos_dir_entry'' False [
    Plain ''name'' (TArr td___u8 11),
    Plain ''attr'' td___u8,
    Plain ''lcase'' td___u8,
    Plain ''ctime_cs'' td___u8,
    Plain ''ctime'' td___le16,
    Plain ''cdate'' td___le16,
    Plain ''adate'' td___le16,
    Plain ''starthi'' td___le16,
    Plain ''time'' td___le16,
    Plain ''date'' td___le16,
    Plain ''start'' td___le16,
    Plain ''size'' td___le32]"

definition st_pci_msi_desc :: ty where
  "st_pci_msi_desc = TStruct ''pci_msi_desc'' False [
    Plain '''' (TUnion '''' False [
      Plain ''msi_mask'' td_u32,
      Plain ''msix_ctrl'' td_u32]),
    Plain ''msi_attrib'' (TStruct '''' False [
      Bits ''is_msix'' td_u8 1,
      Bits ''multiple'' td_u8 3,
      Bits ''multi_cap'' td_u8 3,
      Bits ''can_mask'' td_u8 1,
      Bits ''is_64'' td_u8 1,
      Bits ''is_virtual'' td_u8 1,
      Plain ''default_irq'' (TInt I32 False)]),
    Plain '''' (TUnion '''' False [
      Plain ''mask_pos'' td_u8,
      Plain ''mask_base'' (TPtr ''void'')])]"

definition st_msi_domain_info :: ty where
  "st_msi_domain_info = TStruct ''msi_domain_info'' False [
    Plain ''flags'' td_u32,
    Plain ''bus_token'' (TEnum ''irq_domain_bus_token'' I32),
    Plain ''hwsize'' (TInt I32 False),
    Plain ''ops'' (TPtr ''struct msi_domain_ops''),
    Plain ''dev'' (TPtr ''struct device''),
    Plain ''chip'' (TPtr ''struct irq_chip''),
    Plain ''chip_data'' (TPtr ''void''),
    Plain ''handler'' td_irq_flow_handler_t,
    Plain ''handler_data'' (TPtr ''void''),
    Plain ''handler_name'' (TPtr ''char''),
    Plain ''alloc_data'' (TPtr ''msi_alloc_info_t''),
    Plain ''data'' (TPtr ''void'')]"

definition st_mz_hdr :: ty where
  "st_mz_hdr = TStruct ''mz_hdr'' False [
    Plain ''magic'' td_uint16_t,
    Plain ''lbsize'' td_uint16_t,
    Plain ''blocks'' td_uint16_t,
    Plain ''relocs'' td_uint16_t,
    Plain ''hdrsize'' td_uint16_t,
    Plain ''min_extra_pps'' td_uint16_t,
    Plain ''max_extra_pps'' td_uint16_t,
    Plain ''ss'' td_uint16_t,
    Plain ''sp'' td_uint16_t,
    Plain ''checksum'' td_uint16_t,
    Plain ''ip'' td_uint16_t,
    Plain ''cs'' td_uint16_t,
    Plain ''reloc_table_offset'' td_uint16_t,
    Plain ''overlay_num'' td_uint16_t,
    Plain ''reserved0'' (TArr td_uint16_t 4),
    Plain ''oem_id'' td_uint16_t,
    Plain ''oem_info'' td_uint16_t,
    Plain ''reserved1'' (TArr td_uint16_t 10),
    Plain ''peaddr'' td_uint32_t,
    Plain ''message'' (TArr (TInt I8 True) 0)]"

definition st_napi_gro_cb :: ty where
  "st_napi_gro_cb = TStruct ''napi_gro_cb'' False [
    Plain '''' (TUnion '''' False [
      Plain '''' (TStruct '''' False [
        Plain ''frag0'' (TPtr ''void''),
        Plain ''frag0_len'' (TInt I32 False)]),
      Plain '''' (TStruct '''' False [
        Plain ''last'' (TPtr ''struct sk_buff''),
        Plain ''age'' (TInt I64 False)])]),
    Plain ''data_offset'' (TInt I32 True),
    Plain ''flush'' td_u16,
    Plain ''count'' td_u16,
    Plain ''proto'' td_u16,
    Plain ''pad'' td_u16,
    Plain '''' (TUnion '''' False [
      Plain '''' (TStruct '''' False [
        Plain ''gro_remcsum_start'' td_u16,
        Bits ''same_flow'' td_u8 1,
        Bits ''encap_mark'' td_u8 1,
        Bits ''csum_valid'' td_u8 1,
        Bits ''csum_cnt'' td_u8 3,
        Bits ''free'' td_u8 2,
        Bits ''is_fou'' td_u8 1,
        Bits ''ip_fixedid'' td_u8 2,
        Bits ''recursion_counter'' td_u8 4,
        Bits ''is_flist'' td_u8 1]),
      Plain ''zeroed'' (TStruct '''' False [
        Plain ''gro_remcsum_start'' td_u16,
        Bits ''same_flow'' td_u8 1,
        Bits ''encap_mark'' td_u8 1,
        Bits ''csum_valid'' td_u8 1,
        Bits ''csum_cnt'' td_u8 3,
        Bits ''free'' td_u8 2,
        Bits ''is_fou'' td_u8 1,
        Bits ''ip_fixedid'' td_u8 2,
        Bits ''recursion_counter'' td_u8 4,
        Bits ''is_flist'' td_u8 1])]),
    Plain ''csum'' td___wsum,
    Plain '''' (TUnion '''' False [
      Plain '''' (TStruct '''' False [
        Plain ''network_offset'' td_u16,
        Plain ''inner_network_offset'' td_u16]),
      Plain ''network_offsets'' (TArr td_u16 2)])]"

definition st_ncsi_pkt_hdr :: ty where
  "st_ncsi_pkt_hdr = TStruct ''ncsi_pkt_hdr'' False [
    Plain ''mc_id'' (TInt I8 False),
    Plain ''revision'' (TInt I8 False),
    Plain ''reserved'' (TInt I8 False),
    Plain ''id'' (TInt I8 False),
    Plain ''type'' (TInt I8 False),
    Plain ''channel'' (TInt I8 False),
    Plain ''length'' td___be16,
    Plain ''reserved1'' (TArr td___be32 2)]"

definition st_ncsi_channel_stats :: ty where
  "st_ncsi_channel_stats = TStruct ''ncsi_channel_stats'' False [
    Plain ''hnc_cnt'' td_u64,
    Plain ''hnc_rx_bytes'' td_u64,
    Plain ''hnc_tx_bytes'' td_u64,
    Plain ''hnc_rx_uc_pkts'' td_u64,
    Plain ''hnc_rx_mc_pkts'' td_u64,
    Plain ''hnc_rx_bc_pkts'' td_u64,
    Plain ''hnc_tx_uc_pkts'' td_u64,
    Plain ''hnc_tx_mc_pkts'' td_u64,
    Plain ''hnc_tx_bc_pkts'' td_u64,
    Plain ''hnc_fcs_err'' td_u32,
    Plain ''hnc_align_err'' td_u32,
    Plain ''hnc_false_carrier'' td_u32,
    Plain ''hnc_runt_pkts'' td_u32,
    Plain ''hnc_jabber_pkts'' td_u32,
    Plain ''hnc_rx_pause_xon'' td_u32,
    Plain ''hnc_rx_pause_xoff'' td_u32,
    Plain ''hnc_tx_pause_xon'' td_u32,
    Plain ''hnc_tx_pause_xoff'' td_u32,
    Plain ''hnc_tx_s_collision'' td_u32,
    Plain ''hnc_tx_m_collision'' td_u32,
    Plain ''hnc_l_collision'' td_u32,
    Plain ''hnc_e_collision'' td_u32,
    Plain ''hnc_rx_ctl_frames'' td_u32,
    Plain ''hnc_rx_64_frames'' td_u32,
    Plain ''hnc_rx_127_frames'' td_u32,
    Plain ''hnc_rx_255_frames'' td_u32,
    Plain ''hnc_rx_511_frames'' td_u32,
    Plain ''hnc_rx_1023_frames'' td_u32,
    Plain ''hnc_rx_1522_frames'' td_u32,
    Plain ''hnc_rx_9022_frames'' td_u32,
    Plain ''hnc_tx_64_frames'' td_u32,
    Plain ''hnc_tx_127_frames'' td_u32,
    Plain ''hnc_tx_255_frames'' td_u32,
    Plain ''hnc_tx_511_frames'' td_u32,
    Plain ''hnc_tx_1023_frames'' td_u32,
    Plain ''hnc_tx_1522_frames'' td_u32,
    Plain ''hnc_tx_9022_frames'' td_u32,
    Plain ''hnc_rx_valid_bytes'' td_u64,
    Plain ''hnc_rx_runt_pkts'' td_u32,
    Plain ''hnc_rx_jabber_pkts'' td_u32,
    Plain ''ncsi_rx_cmds'' td_u32,
    Plain ''ncsi_dropped_cmds'' td_u32,
    Plain ''ncsi_cmd_type_errs'' td_u32,
    Plain ''ncsi_cmd_csum_errs'' td_u32,
    Plain ''ncsi_rx_pkts'' td_u32,
    Plain ''ncsi_tx_pkts'' td_u32,
    Plain ''ncsi_tx_aen_pkts'' td_u32,
    Plain ''pt_tx_pkts'' td_u32,
    Plain ''pt_tx_dropped'' td_u32,
    Plain ''pt_tx_channel_err'' td_u32,
    Plain ''pt_tx_us_err'' td_u32,
    Plain ''pt_rx_pkts'' td_u32,
    Plain ''pt_rx_dropped'' td_u32,
    Plain ''pt_rx_channel_err'' td_u32,
    Plain ''pt_rx_us_err'' td_u32,
    Plain ''pt_rx_os_err'' td_u32]"

definition st_ncsi_cmd_arg :: ty where
  "st_ncsi_cmd_arg = TStruct ''ncsi_cmd_arg'' False [
    Plain ''ndp'' (TPtr ''struct ncsi_dev_priv''),
    Plain ''type'' (TInt I8 False),
    Plain ''id'' (TInt I8 False),
    Plain ''package'' (TInt I8 False),
    Plain ''channel'' (TInt I8 False),
    Plain ''payload'' (TInt I16 False),
    Plain ''req_flags'' (TInt I32 False),
    Plain '''' (TUnion '''' False [
      Plain ''bytes'' (TArr (TInt I8 False) 16),
      Plain ''words'' (TArr (TInt I16 False) 8),
      Plain ''dwords'' (TArr (TInt I32 False) 4)]),
    Plain ''data'' (TPtr ''unsigned char''),
    Plain ''info'' (TPtr ''struct genl_info'')]"

definition st_nd_namespace_index :: ty where
  "st_nd_namespace_index = TStruct ''nd_namespace_index'' False [
    Plain ''sig'' (TArr td_u8 16),
    Plain ''flags'' (TArr td_u8 3),
    Plain ''labelsize'' td_u8,
    Plain ''seq'' td___le32,
    Plain ''myoff'' td___le64,
    Plain ''mysize'' td___le64,
    Plain ''otheroff'' td___le64,
    Plain ''labeloff'' td___le64,
    Plain ''nslot'' td___le32,
    Plain ''major'' td___le16,
    Plain ''minor'' td___le16,
    Plain ''checksum'' td___le64,
    Plain ''free'' (TArr td_u8 0)]"

definition st_nvdimm_cxl_label :: ty where
  "st_nvdimm_cxl_label = TStruct ''nvdimm_cxl_label'' False [
    Plain ''type'' (TArr td_u8 16),
    Plain ''uuid'' (TArr td_u8 16),
    Plain ''name'' (TArr td_u8 64),
    Plain ''flags'' td___le32,
    Plain ''nrange'' td___le16,
    Plain ''position'' td___le16,
    Plain ''dpa'' td___le64,
    Plain ''rawsize'' td___le64,
    Plain ''slot'' td___le32,
    Plain ''align'' td___le32,
    Plain ''region_uuid'' (TArr td_u8 16),
    Plain ''abstraction_uuid'' (TArr td_u8 16),
    Plain ''lbasize'' td___le16,
    Plain ''reserved'' (TArr td_u8 86),
    Plain ''checksum'' td___le64]"

definition st_nvdimm_efi_label :: ty where
  "st_nvdimm_efi_label = TStruct ''nvdimm_efi_label'' False [
    Plain ''uuid'' (TArr td_u8 16),
    Plain ''name'' (TArr td_u8 64),
    Plain ''flags'' td___le32,
    Plain ''nlabel'' td___le16,
    Plain ''position'' td___le16,
    Plain ''isetcookie'' td___le64,
    Plain ''lbasize'' td___le64,
    Plain ''dpa'' td___le64,
    Plain ''rawsize'' td___le64,
    Plain ''slot'' td___le32,
    Plain ''align'' td_u8,
    Plain ''reserved'' (TArr td_u8 3),
    Plain ''type_guid'' td_guid_t,
    Plain ''abstraction_guid'' td_guid_t,
    Plain ''reserved2'' (TArr td_u8 88),
    Plain ''checksum'' td___le64]"

definition st_nd_pfn_sb :: ty where
  "st_nd_pfn_sb = TStruct ''nd_pfn_sb'' False [
    Plain ''signature'' (TArr td_u8 16),
    Plain ''uuid'' (TArr td_u8 16),
    Plain ''parent_uuid'' (TArr td_u8 16),
    Plain ''flags'' td___le32,
    Plain ''version_major'' td___le16,
    Plain ''version_minor'' td___le16,
    Plain ''dataoff'' td___le64,
    Plain ''npfns'' td___le64,
    Plain ''mode'' td___le32,
    Plain ''start_pad'' td___le32,
    Plain ''end_trunc'' td___le32,
    Plain ''align'' td___le32,
    Plain ''page_size'' td___le32,
    Plain ''page_struct_size'' td___le16,
    Plain ''padding'' (TArr td_u8 3994),
    Plain ''checksum'' td___le64]"

definition st_nd_region_desc :: ty where
  "st_nd_region_desc = TStruct ''nd_region_desc'' False [
    Plain ''res'' (TPtr ''struct resource''),
    Plain ''mapping'' (TPtr ''struct nd_mapping_desc''),
    Plain ''num_mappings'' td_u16,
    Plain ''attr_groups'' (TPtr ''struct attribute_group *''),
    Plain ''nd_set'' (TPtr ''struct nd_interleave_set''),
    Plain ''provider_data'' (TPtr ''void''),
    Plain ''num_lanes'' (TInt I32 True),
    Plain ''numa_node'' (TInt I32 True),
    Plain ''target_node'' (TInt I32 True),
    Plain ''flags'' (TInt I64 False),
    Plain ''memregion'' (TInt I32 True),
    Plain ''of_node'' (TPtr ''struct device_node''),
    Plain ''flush'' (TFun ''int (*)(struct nd_region *, struct bio *)'')]"

definition st_neigh_statistics :: ty where
  "st_neigh_statistics = TStruct ''neigh_statistics'' False [
    Plain ''allocs'' (TInt I64 False),
    Plain ''destroys'' (TInt I64 False),
    Plain ''hash_grows'' (TInt I64 False),
    Plain ''res_failed'' (TInt I64 False),
    Plain ''lookups'' (TInt I64 False),
    Plain ''hits'' (TInt I64 False),
    Plain ''rcv_probes_mcast'' (TInt I64 False),
    Plain ''rcv_probes_ucast'' (TInt I64 False),
    Plain ''periodic_gc_runs'' (TInt I64 False),
    Plain ''forced_gc_runs'' (TInt I64 False),
    Plain ''unres_discards'' (TInt I64 False),
    Plain ''table_fulls'' (TInt I64 False)]"

definition st_netns_sysctl_ipv6 :: ty where
  "st_netns_sysctl_ipv6 = TStruct ''netns_sysctl_ipv6'' False [
    Plain ''hdr'' (TPtr ''struct ctl_table_header''),
    Plain ''route_hdr'' (TPtr ''struct ctl_table_header''),
    Plain ''icmp_hdr'' (TPtr ''struct ctl_table_header''),
    Plain ''frags_hdr'' (TPtr ''struct ctl_table_header''),
    Plain ''xfrm6_hdr'' (TPtr ''struct ctl_table_header''),
    Plain ''flush_delay'' (TInt I32 True),
    Plain ''ip6_rt_max_size'' (TInt I32 True),
    Plain ''ip6_rt_gc_min_interval'' (TInt I32 True),
    Plain ''ip6_rt_gc_timeout'' (TInt I32 True),
    Plain ''ip6_rt_gc_interval'' (TInt I32 True),
    Plain ''ip6_rt_gc_elasticity'' (TInt I32 True),
    Plain ''ip6_rt_mtu_expires'' (TInt I32 True),
    Plain ''ip6_rt_min_advmss'' (TInt I32 True),
    Plain ''multipath_hash_fields'' td_u32,
    Plain ''multipath_hash_policy'' td_u8,
    Plain ''__cacheline_group_begin__sysctl_ipv6_flowlabel'' (TArr td___u8 0),
    Plain ''flowlabel_consistency'' td_u8,
    Plain ''auto_flowlabels'' td_u8,
    Plain ''flowlabel_state_ranges'' td_u8,
    Plain ''__cacheline_group_end__sysctl_ipv6_flowlabel'' (TArr td___u8 0),
    Plain ''icmpv6_echo_ignore_all'' td_u8,
    Plain ''icmpv6_echo_ignore_multicast'' td_u8,
    Plain ''icmpv6_echo_ignore_anycast'' td_u8,
    Plain ''icmpv6_time'' (TInt I32 True),
    Plain ''icmpv6_ratemask'' (TArr (TInt I64 False) 4),
    Plain ''icmpv6_ratemask_ptr'' (TPtr ''long unsigned int''),
    Plain ''anycast_src_echo_reply'' td_u8,
    Plain ''bindv6only'' td_u8,
    Plain ''ip_nonlocal_bind'' td_u8,
    Plain ''fwmark_reflect'' td_u8,
    Plain ''idgen_retries'' (TInt I32 True),
    Plain ''idgen_delay'' (TInt I32 True),
    Plain ''flowlabel_reflect'' (TInt I32 True),
    Plain ''max_dst_opts_cnt'' (TInt I32 True),
    Plain ''max_hbh_opts_cnt'' (TInt I32 True),
    Plain ''max_dst_opts_len'' (TInt I32 True),
    Plain ''max_hbh_opts_len'' (TInt I32 True),
    Plain ''seg6_flowlabel'' (TInt I32 True),
    Plain ''ioam6_id'' td_u32,
    Plain ''ioam6_id_wide'' td_u64,
    Plain ''skip_notify_on_dev_down'' td_u8,
    Plain ''fib_notify_on_flag_change'' td_u8,
    Plain ''icmpv6_error_anycast_as_unicast'' td_u8,
    Plain ''icmpv6_errors_extension_mask'' td_u8]"

definition st_net_aligned_data :: ty where
  "st_net_aligned_data = TStruct ''net_aligned_data'' False [
    Plain ''net_cookie'' td_atomic64_t,
    Bits '''' (TInt I64 True) 64,
    Bits '''' (TInt I64 True) 64,
    Bits '''' (TInt I64 True) 64,
    Bits '''' (TInt I64 True) 64,
    Bits '''' (TInt I64 True) 64,
    Bits '''' (TInt I64 True) 64,
    Bits '''' (TInt I64 True) 64,
    Plain ''tcp_memory_allocated'' td_atomic_long_t,
    Bits '''' (TInt I64 True) 64,
    Bits '''' (TInt I64 True) 64,
    Bits '''' (TInt I64 True) 64,
    Bits '''' (TInt I64 True) 64,
    Bits '''' (TInt I64 True) 64,
    Bits '''' (TInt I64 True) 64,
    Bits '''' (TInt I64 True) 64,
    Plain ''udp_memory_allocated'' td_atomic_long_t,
    Bits '''' (TInt I64 True) 64,
    Bits '''' (TInt I64 True) 64,
    Bits '''' (TInt I64 True) 64,
    Bits '''' (TInt I64 True) 64,
    Bits '''' (TInt I64 True) 64,
    Bits '''' (TInt I64 True) 64,
    Bits '''' (TInt I64 True) 64]"

definition st_net_device_stats :: ty where
  "st_net_device_stats = TStruct ''net_device_stats'' False [
    Plain '''' (TUnion '''' False [
      Plain ''rx_packets'' (TInt I64 False),
      Plain ''__rx_packets'' td_atomic_long_t]),
    Plain '''' (TUnion '''' False [
      Plain ''tx_packets'' (TInt I64 False),
      Plain ''__tx_packets'' td_atomic_long_t]),
    Plain '''' (TUnion '''' False [
      Plain ''rx_bytes'' (TInt I64 False),
      Plain ''__rx_bytes'' td_atomic_long_t]),
    Plain '''' (TUnion '''' False [
      Plain ''tx_bytes'' (TInt I64 False),
      Plain ''__tx_bytes'' td_atomic_long_t]),
    Plain '''' (TUnion '''' False [
      Plain ''rx_errors'' (TInt I64 False),
      Plain ''__rx_errors'' td_atomic_long_t]),
    Plain '''' (TUnion '''' False [
      Plain ''tx_errors'' (TInt I64 False),
      Plain ''__tx_errors'' td_atomic_long_t]),
    Plain '''' (TUnion '''' False [
      Plain ''rx_dropped'' (TInt I64 False),
      Plain ''__rx_dropped'' td_atomic_long_t]),
    Plain '''' (TUnion '''' False [
      Plain ''tx_dropped'' (TInt I64 False),
      Plain ''__tx_dropped'' td_atomic_long_t]),
    Plain '''' (TUnion '''' False [
      Plain ''multicast'' (TInt I64 False),
      Plain ''__multicast'' td_atomic_long_t]),
    Plain '''' (TUnion '''' False [
      Plain ''collisions'' (TInt I64 False),
      Plain ''__collisions'' td_atomic_long_t]),
    Plain '''' (TUnion '''' False [
      Plain ''rx_length_errors'' (TInt I64 False),
      Plain ''__rx_length_errors'' td_atomic_long_t]),
    Plain '''' (TUnion '''' False [
      Plain ''rx_over_errors'' (TInt I64 False),
      Plain ''__rx_over_errors'' td_atomic_long_t]),
    Plain '''' (TUnion '''' False [
      Plain ''rx_crc_errors'' (TInt I64 False),
      Plain ''__rx_crc_errors'' td_atomic_long_t]),
    Plain '''' (TUnion '''' False [
      Plain ''rx_frame_errors'' (TInt I64 False),
      Plain ''__rx_frame_errors'' td_atomic_long_t]),
    Plain '''' (TUnion '''' False [
      Plain ''rx_fifo_errors'' (TInt I64 False),
      Plain ''__rx_fifo_errors'' td_atomic_long_t]),
    Plain '''' (TUnion '''' False [
      Plain ''rx_missed_errors'' (TInt I64 False),
      Plain ''__rx_missed_errors'' td_atomic_long_t]),
    Plain '''' (TUnion '''' False [
      Plain ''tx_aborted_errors'' (TInt I64 False),
      Plain ''__tx_aborted_errors'' td_atomic_long_t]),
    Plain '''' (TUnion '''' False [
      Plain ''tx_carrier_errors'' (TInt I64 False),
      Plain ''__tx_carrier_errors'' td_atomic_long_t]),
    Plain '''' (TUnion '''' False [
      Plain ''tx_fifo_errors'' (TInt I64 False),
      Plain ''__tx_fifo_errors'' td_atomic_long_t]),
    Plain '''' (TUnion '''' False [
      Plain ''tx_heartbeat_errors'' (TInt I64 False),
      Plain ''__tx_heartbeat_errors'' td_atomic_long_t]),
    Plain '''' (TUnion '''' False [
      Plain ''tx_window_errors'' (TInt I64 False),
      Plain ''__tx_window_errors'' td_atomic_long_t]),
    Plain '''' (TUnion '''' False [
      Plain ''rx_compressed'' (TInt I64 False),
      Plain ''__rx_compressed'' td_atomic_long_t]),
    Plain '''' (TUnion '''' False [
      Plain ''tx_compressed'' (TInt I64 False),
      Plain ''__tx_compressed'' td_atomic_long_t])]"

definition st_rtnl_link_stats64 :: ty where
  "st_rtnl_link_stats64 = TStruct ''rtnl_link_stats64'' False [
    Plain ''rx_packets'' td___u64,
    Plain ''tx_packets'' td___u64,
    Plain ''rx_bytes'' td___u64,
    Plain ''tx_bytes'' td___u64,
    Plain ''rx_errors'' td___u64,
    Plain ''tx_errors'' td___u64,
    Plain ''rx_dropped'' td___u64,
    Plain ''tx_dropped'' td___u64,
    Plain ''multicast'' td___u64,
    Plain ''collisions'' td___u64,
    Plain ''rx_length_errors'' td___u64,
    Plain ''rx_over_errors'' td___u64,
    Plain ''rx_crc_errors'' td___u64,
    Plain ''rx_frame_errors'' td___u64,
    Plain ''rx_fifo_errors'' td___u64,
    Plain ''rx_missed_errors'' td___u64,
    Plain ''tx_aborted_errors'' td___u64,
    Plain ''tx_carrier_errors'' td___u64,
    Plain ''tx_fifo_errors'' td___u64,
    Plain ''tx_heartbeat_errors'' td___u64,
    Plain ''tx_window_errors'' td___u64,
    Plain ''rx_compressed'' td___u64,
    Plain ''tx_compressed'' td___u64,
    Plain ''rx_nohandler'' td___u64,
    Plain ''rx_otherhost_dropped'' td___u64]"

definition st_netmem_desc :: ty where
  "st_netmem_desc = TStruct ''netmem_desc'' False [
    Plain ''_flags'' (TInt I64 False),
    Plain ''pp_magic'' (TInt I64 False),
    Plain ''pp'' (TPtr ''struct page_pool''),
    Plain ''_pp_mapping_pad'' (TInt I64 False),
    Plain ''dma_addr'' (TInt I64 False),
    Plain ''pp_ref_count'' td_atomic_long_t]"

definition st_net_packet_attrs :: ty where
  "st_net_packet_attrs = TStruct ''net_packet_attrs'' False [
    Plain ''src'' (TPtr ''unsigned char''),
    Plain ''dst'' (TPtr ''unsigned char''),
    Plain ''ip_src'' td_u32,
    Plain ''ip_dst'' td_u32,
    Plain ''tcp'' td_bool,
    Plain ''sport'' td_u16,
    Plain ''dport'' td_u16,
    Plain ''timeout'' (TInt I32 True),
    Plain ''size'' (TInt I32 True),
    Plain ''max_size'' (TInt I32 True),
    Plain ''id'' td_u8,
    Plain ''queue_mapping'' td_u16,
    Plain ''bad_csum'' td_bool]"

definition st_netdev_bpf :: ty where
  "st_netdev_bpf = TStruct ''netdev_bpf'' False [
    Plain ''command'' (TEnum ''bpf_netdev_command'' I32),
    Plain '''' (TUnion '''' False [
      Plain '''' (TStruct '''' False [
        Plain ''flags'' td_u32,
        Plain ''prog'' (TPtr ''struct bpf_prog''),
        Plain ''extack'' (TPtr ''struct netlink_ext_ack'')]),
      Plain '''' (TStruct '''' False [
        Plain ''offmap'' (TPtr ''struct bpf_offloaded_map'')]),
      Plain ''xsk'' (TStruct '''' False [
        Plain ''pool'' (TPtr ''struct xsk_buff_pool''),
        Plain ''queue_id'' td_u16])])]"

definition st_netdev_queue_config :: ty where
  "st_netdev_queue_config = TStruct ''netdev_queue_config'' False [
    Plain ''rx_page_size'' td_u32]"

definition st_netdev_queue_stats_rx :: ty where
  "st_netdev_queue_stats_rx = TStruct ''netdev_queue_stats_rx'' False [
    Plain ''bytes'' td_u64,
    Plain ''packets'' td_u64,
    Plain ''alloc_fail'' td_u64,
    Plain ''hw_drops'' td_u64,
    Plain ''hw_drop_overruns'' td_u64,
    Plain ''csum_complete'' td_u64,
    Plain ''csum_unnecessary'' td_u64,
    Plain ''csum_none'' td_u64,
    Plain ''csum_bad'' td_u64,
    Plain ''hw_gro_packets'' td_u64,
    Plain ''hw_gro_bytes'' td_u64,
    Plain ''hw_gro_wire_packets'' td_u64,
    Plain ''hw_gro_wire_bytes'' td_u64,
    Plain ''hw_drop_ratelimits'' td_u64]"

definition st_netdev_queue_stats_tx :: ty where
  "st_netdev_queue_stats_tx = TStruct ''netdev_queue_stats_tx'' False [
    Plain ''bytes'' td_u64,
    Plain ''packets'' td_u64,
    Plain ''hw_drops'' td_u64,
    Plain ''hw_drop_errors'' td_u64,
    Plain ''csum_none'' td_u64,
    Plain ''needs_csum'' td_u64,
    Plain ''hw_gso_packets'' td_u64,
    Plain ''hw_gso_bytes'' td_u64,
    Plain ''hw_gso_wire_packets'' td_u64,
    Plain ''hw_gso_wire_bytes'' td_u64,
    Plain ''hw_drop_ratelimits'' td_u64,
    Plain ''stop'' td_u64,
    Plain ''wake'' td_u64]"

definition st_xdp_mem_info :: ty where
  "st_xdp_mem_info = TStruct ''xdp_mem_info'' False [
    Plain ''type'' td_u32,
    Plain ''id'' td_u32]"

definition st_pp_memory_provider_params :: ty where
  "st_pp_memory_provider_params = TStruct ''pp_memory_provider_params'' False [
    Plain ''mp_priv'' (TPtr ''void''),
    Plain ''mp_ops'' (TPtr ''struct memory_provider_ops''),
    Plain ''rx_page_size'' td_u32]"

definition st_xen_netif_extra_info :: ty where
  "st_xen_netif_extra_info = TStruct ''xen_netif_extra_info'' False [
    Plain ''type'' td_uint8_t,
    Plain ''flags'' td_uint8_t,
    Plain ''u'' (TUnion '''' False [
      Plain ''gso'' (TStruct '''' False [
        Plain ''size'' td_uint16_t,
        Plain ''type'' td_uint8_t,
        Plain ''pad'' td_uint8_t,
        Plain ''features'' td_uint16_t]),
      Plain ''mcast'' (TStruct '''' False [
        Plain ''addr'' (TArr td_uint8_t 6)]),
      Plain ''hash'' (TStruct '''' False [
        Plain ''type'' td_uint8_t,
        Plain ''algorithm'' td_uint8_t,
        Plain ''value'' (TArr td_uint8_t 4)]),
      Plain ''xdp'' (TStruct '''' False [
        Plain ''headroom'' td_uint16_t,
        Plain ''pad'' (TArr td_uint16_t 2)]),
      Plain ''pad'' (TArr td_uint16_t 3)])]"

definition st_netlink_broadcast_data :: ty where
  "st_netlink_broadcast_data = TStruct ''netlink_broadcast_data'' False [
    Plain ''exclude_sk'' (TPtr ''struct sock''),
    Plain ''net'' (TPtr ''struct net''),
    Plain ''portid'' td_u32,
    Plain ''group'' td_u32,
    Plain ''failure'' (TInt I32 True),
    Plain ''delivery_failure'' (TInt I32 True),
    Plain ''congested'' (TInt I32 True),
    Plain ''delivered'' (TInt I32 True),
    Plain ''allocation'' td_gfp_t,
    Plain ''skb'' (TPtr ''struct sk_buff''),
    Plain ''skb2'' (TPtr ''struct sk_buff''),
    Plain ''tx_filter'' (TFun ''int (*)(struct sock *, struct sk_buff *, void *)''),
    Plain ''tx_data'' (TPtr ''void'')]"

definition st_netlink_callback :: ty where
  "st_netlink_callback = TStruct ''netlink_callback'' False [
    Plain ''skb'' (TPtr ''struct sk_buff''),
    Plain ''nlh'' (TPtr ''struct nlmsghdr''),
    Plain ''dump'' (TFun ''int (*)(struct sk_buff *, struct netlink_callback *)''),
    Plain ''done'' (TFun ''int (*)(struct netlink_callback *)''),
    Plain ''data'' (TPtr ''void''),
    Plain ''module'' (TPtr ''struct module''),
    Plain ''extack'' (TPtr ''struct netlink_ext_ack''),
    Plain ''family'' td_u16,
    Plain ''answer_flags'' td_u16,
    Plain ''min_dump_alloc'' td_u32,
    Plain ''prev_seq'' (TInt I32 False),
    Plain ''seq'' (TInt I32 False),
    Plain ''flags'' (TInt I32 True),
    Plain ''strict_check'' td_bool,
    Plain '''' (TUnion '''' False [
      Plain ''ctx'' (TArr td_u8 48),
      Plain ''args'' (TArr (TInt I64 True) 6)])]"

definition st_nf_conntrack_zone :: ty where
  "st_nf_conntrack_zone = TStruct ''nf_conntrack_zone'' False [
    Plain ''id'' td_u16,
    Plain ''flags'' td_u8,
    Plain ''dir'' td_u8]"

definition un_nf_conntrack_man_proto :: ty where
  "un_nf_conntrack_man_proto = TUnion ''nf_conntrack_man_proto'' False [
    Plain ''all'' td___be16,
    Plain ''tcp'' (TStruct '''' False [
      Plain ''port'' td___be16]),
    Plain ''udp'' (TStruct '''' False [
      Plain ''port'' td___be16]),
    Plain ''icmp'' (TStruct '''' False [
      Plain ''id'' td___be16]),
    Plain ''dccp'' (TStruct '''' False [
      Plain ''port'' td___be16]),
    Plain ''sctp'' (TStruct '''' False [
      Plain ''port'' td___be16]),
    Plain ''gre'' (TStruct '''' False [
      Plain ''key'' td___be16])]"

definition st_nf_loginfo :: ty where
  "st_nf_loginfo = TStruct ''nf_loginfo'' False [
    Plain ''type'' td_u_int8_t,
    Plain ''u'' (TUnion '''' False [
      Plain ''ulog'' (TStruct '''' False [
        Plain ''copy_len'' td_u_int32_t,
        Plain ''group'' td_u_int16_t,
        Plain ''qthreshold'' td_u_int16_t,
        Plain ''flags'' td_u_int16_t]),
      Plain ''log'' (TStruct '''' False [
        Plain ''level'' td_u_int8_t,
        Plain ''logflags'' td_u_int8_t])])]"

definition st_nfs4_stateid_struct :: ty where
  "st_nfs4_stateid_struct = TStruct ''nfs4_stateid_struct'' False [
    Plain '''' (TUnion '''' False [
      Plain ''data'' (TArr (TInt I8 True) 16),
      Plain '''' (TStruct '''' False [
        Plain ''seqid'' td___be32,
        Plain ''other'' (TArr (TInt I8 True) 12)])]),
    Plain ''type'' (TEnum '''' I32)]"

definition st_nfs4_sequence_args :: ty where
  "st_nfs4_sequence_args = TStruct ''nfs4_sequence_args'' False [
    Plain ''sa_slot'' (TPtr ''struct nfs4_slot''),
    Bits ''sa_cache_this'' td_u8 1,
    Bits ''sa_privileged'' td_u8 1]"

definition st_nfs4_sequence_res :: ty where
  "st_nfs4_sequence_res = TStruct ''nfs4_sequence_res'' False [
    Plain ''sr_slot_ops'' (TPtr ''struct nfs4_sequence_slot_ops''),
    Plain ''sr_slot'' (TPtr ''struct nfs4_slot''),
    Plain ''sr_timestamp'' (TInt I64 False),
    Plain ''sr_status'' (TInt I32 True),
    Plain ''sr_status_flags'' td_u32,
    Plain ''sr_highest_slotid'' td_u32,
    Plain ''sr_target_highest_slotid'' td_u32]"

definition st_nfs_auth_info :: ty where
  "st_nfs_auth_info = TStruct ''nfs_auth_info'' False [
    Plain ''flavor_len'' (TInt I32 False),
    Plain ''flavors'' (TArr td_rpc_authflavor_t 12)]"

definition st_xprtsec_parms :: ty where
  "st_xprtsec_parms = TStruct ''xprtsec_parms'' False [
    Plain ''policy'' (TEnum ''xprtsec_policies'' I32),
    Plain ''cert_serial'' td_key_serial_t,
    Plain ''privkey_serial'' td_key_serial_t]"

definition st_rpc_message :: ty where
  "st_rpc_message = TStruct ''rpc_message'' False [
    Plain ''rpc_proc'' (TPtr ''struct rpc_procinfo''),
    Plain ''rpc_argp'' (TPtr ''void''),
    Plain ''rpc_resp'' (TPtr ''void''),
    Plain ''rpc_cred'' (TPtr ''struct cred'')]"

definition st_nfs_fsid :: ty where
  "st_nfs_fsid = TStruct ''nfs_fsid'' False [
    Plain ''major'' td_uint64_t,
    Plain ''minor'' td_uint64_t]"

definition st_nfs_write_verifier :: ty where
  "st_nfs_write_verifier = TStruct ''nfs_write_verifier'' False [
    Plain ''data'' (TArr (TInt I8 True) 8)]"

definition st_nfs_page_array :: ty where
  "st_nfs_page_array = TStruct ''nfs_page_array'' False [
    Plain ''pagevec'' (TPtr ''struct page *''),
    Plain ''npages'' (TInt I32 False),
    Plain ''page_array'' (TArr (TPtr ''struct page'') 8)]"

definition st_nla_policy :: ty where
  "st_nla_policy = TStruct ''nla_policy'' False [
    Plain ''type'' td_u8,
    Plain ''validation_type'' td_u8,
    Plain ''len'' td_u16,
    Plain '''' (TUnion '''' False [
      Plain ''strict_start_type'' td_u16,
      Plain ''bitfield32_valid'' td_u32,
      Plain ''mask'' td_u32,
      Plain ''reject_message'' (TPtr ''char''),
      Plain ''nested_policy'' (TPtr ''struct nla_policy''),
      Plain ''range'' (TPtr ''struct netlink_range_validation''),
      Plain ''range_signed'' (TPtr ''struct netlink_range_validation_signed''),
      Plain '''' (TStruct '''' False [
        Plain ''min'' td_s16,
        Plain ''max'' td_s16]),
      Plain ''validate'' (TFun ''int (*)(const struct nlattr *, struct netlink_ext_ack *)'')])]"

definition st_nmi_stats :: ty where
  "st_nmi_stats = TStruct ''nmi_stats'' False [
    Plain ''normal'' (TInt I32 False),
    Plain ''unknown'' (TInt I32 False),
    Plain ''external'' (TInt I32 False),
    Plain ''swallow'' (TInt I32 False),
    Plain ''recv_jiffies'' (TInt I64 False),
    Plain ''idt_seq'' (TInt I64 False),
    Plain ''idt_nmi_seq'' (TInt I64 False),
    Plain ''idt_ignored'' (TInt I64 False),
    Plain ''idt_calls'' td_atomic_long_t,
    Plain ''idt_seq_snap'' (TInt I64 False),
    Plain ''idt_nmi_seq_snap'' (TInt I64 False),
    Plain ''idt_ignored_snap'' (TInt I64 False),
    Plain ''idt_calls_snap'' (TInt I64 True)]"

definition st_ntb_ctrl_regs :: ty where
  "st_ntb_ctrl_regs = TStruct ''ntb_ctrl_regs'' False [
    Plain ''partition_status'' td_u32,
    Plain ''partition_op'' td_u32,
    Plain ''partition_ctrl'' td_u32,
    Plain ''bar_setup'' td_u32,
    Plain ''bar_error'' td_u32,
    Plain ''lut_table_entries'' td_u16,
    Plain ''lut_table_offset'' td_u16,
    Plain ''lut_error'' td_u32,
    Plain ''req_id_table_size'' td_u16,
    Plain ''req_id_table_offset'' td_u16,
    Plain ''req_id_error'' td_u32,
    Plain ''reserved1'' (TArr td_u32 7),
    Plain ''bar_entry'' (TArr (TStruct '''' False [
      Plain ''ctl'' td_u32,
      Plain ''win_size'' td_u32,
      Plain ''xlate_addr'' td_u64]) 6),
    Plain ''bar_ext_entry'' (TArr (TStruct '''' False [
      Plain ''win_size'' td_u32,
      Plain ''reserved'' (TArr td_u32 3)]) 6),
    Plain ''reserved2'' (TArr td_u32 192),
    Plain ''req_id_table'' (TArr td_u32 512),
    Plain ''reserved3'' (TArr td_u32 256),
    Plain ''lut_entry'' (TArr td_u64 512)]"

definition st_ntp_data :: ty where
  "st_ntp_data = TStruct ''ntp_data'' False [
    Plain ''tick_usec'' (TInt I64 False),
    Plain ''tick_length'' td_u64,
    Plain ''tick_length_base'' td_u64,
    Plain ''time_state'' (TInt I32 True),
    Plain ''time_status'' (TInt I32 True),
    Plain ''time_offset'' td_s64,
    Plain ''time_constant'' (TInt I64 True),
    Plain ''time_maxerror'' (TInt I64 True),
    Plain ''time_esterror'' (TInt I64 True),
    Plain ''time_freq'' td_s64,
    Plain ''time_reftime'' td_time64_t,
    Plain ''time_adjust'' (TInt I64 True),
    Plain ''ntp_tick_adj'' td_s64,
    Plain ''ntp_next_leap_sec'' td_time64_t]"

definition st_numa_drop_counters :: ty where
  "st_numa_drop_counters = TStruct ''numa_drop_counters'' False [
    Plain ''drops0'' td_atomic_t,
    Bits '''' (TInt I64 True) 64,
    Bits '''' (TInt I64 True) 64,
    Bits '''' (TInt I64 True) 64,
    Bits '''' (TInt I64 True) 64,
    Bits '''' (TInt I64 True) 64,
    Bits '''' (TInt I64 True) 64,
    Bits '''' (TInt I64 True) 64,
    Plain ''drops1'' td_atomic_t,
    Bits '''' (TInt I64 True) 64,
    Bits '''' (TInt I64 True) 64,
    Bits '''' (TInt I64 True) 64,
    Bits '''' (TInt I64 True) 64,
    Bits '''' (TInt I64 True) 64,
    Bits '''' (TInt I64 True) 64,
    Bits '''' (TInt I64 True) 64]"

definition st_numa_stats :: ty where
  "st_numa_stats = TStruct ''numa_stats'' False [
    Plain ''load'' (TInt I64 False),
    Plain ''runnable'' (TInt I64 False),
    Plain ''util'' (TInt I64 False),
    Plain ''compute_capacity'' (TInt I64 False),
    Plain ''nr_running'' (TInt I32 False),
    Plain ''weight'' (TInt I32 False),
    Plain ''node_type'' (TEnum ''numa_type'' I32),
    Plain ''idle_cpu'' (TInt I32 True)]"

definition st_ohci_roothub_regs :: ty where
  "st_ohci_roothub_regs = TStruct ''ohci_roothub_regs'' False [
    Plain ''a'' td___hc32,
    Plain ''b'' td___hc32,
    Plain ''status'' td___hc32,
    Plain ''portstatus'' (TArr td___hc32 15)]"

definition st_opal_resp_tok :: ty where
  "st_opal_resp_tok = TStruct ''opal_resp_tok'' False [
    Plain ''pos'' (TPtr ''u8''),
    Plain ''len'' td_size_t,
    Plain ''type'' (TEnum ''opal_response_token'' I32),
    Plain ''width'' (TEnum ''opal_atom_width'' I32),
    Plain ''stored'' (TUnion '''' False [
      Plain ''u'' td_u64,
      Plain ''s'' td_s64])]"

definition st_pacct_struct :: ty where
  "st_pacct_struct = TStruct ''pacct_struct'' False [
    Plain ''ac_flag'' (TInt I32 True),
    Plain ''ac_exitcode'' (TInt I64 True),
    Plain ''ac_mem'' (TInt I64 False),
    Plain ''ac_utime'' td_u64,
    Plain ''ac_stime'' td_u64,
    Plain ''ac_minflt'' (TInt I64 False),
    Plain ''ac_majflt'' (TInt I64 False)]"

definition st_tpacket_stats :: ty where
  "st_tpacket_stats = TStruct ''tpacket_stats'' False [
    Plain ''tp_packets'' (TInt I32 False),
    Plain ''tp_drops'' (TInt I32 False)]"

definition st_tpacket_stats_v3 :: ty where
  "st_tpacket_stats_v3 = TStruct ''tpacket_stats_v3'' False [
    Plain ''tp_packets'' (TInt I32 False),
    Plain ''tp_drops'' (TInt I32 False),
    Plain ''tp_freeze_q_cnt'' (TInt I32 False)]"

definition st_page_pool_params_fast :: ty where
  "st_page_pool_params_fast = TStruct ''page_pool_params_fast'' False [
    Plain ''order'' (TInt I32 False),
    Plain ''pool_size'' (TInt I32 False),
    Plain ''nid'' (TInt I32 True),
    Plain ''dev'' (TPtr ''struct device''),
    Plain ''napi'' (TPtr ''struct napi_struct''),
    Plain ''dma_dir'' (TEnum ''dma_data_direction'' I32),
    Plain ''max_len'' (TInt I32 False),
    Plain ''offset'' (TInt I32 False)]"

definition st_page_pool_alloc_stats :: ty where
  "st_page_pool_alloc_stats = TStruct ''page_pool_alloc_stats'' False [
    Plain ''fast'' td_u64,
    Plain ''slow'' td_u64,
    Plain ''slow_high_order'' td_u64,
    Plain ''empty'' td_u64,
    Plain ''refill'' td_u64,
    Plain ''waive'' td_u64]"

definition st_pp_alloc_cache :: ty where
  "st_pp_alloc_cache = TStruct ''pp_alloc_cache'' False [
    Plain ''count'' td_u32,
    Plain ''cache'' (TArr td_netmem_ref 128)]"

definition st_page_pool_params_slow :: ty where
  "st_page_pool_params_slow = TStruct ''page_pool_params_slow'' False [
    Plain ''netdev'' (TPtr ''struct net_device''),
    Plain ''queue_idx'' (TInt I32 False),
    Plain ''flags'' (TInt I32 False),
    Plain ''init_callback'' (TFun ''void (*)(netmem_ref, void *)''),
    Plain ''init_arg'' (TPtr ''void'')]"

definition st_page_req_dsc :: ty where
  "st_page_req_dsc = TStruct ''page_req_dsc'' False [
    Plain '''' (TUnion '''' False [
      Plain '''' (TStruct '''' False [
        Bits ''type'' td_u64 8,
        Bits ''pasid_present'' td_u64 1,
        Bits ''rsvd'' td_u64 7,
        Bits ''rid'' td_u64 16,
        Bits ''pasid'' td_u64 20,
        Bits ''exe_req'' td_u64 1,
        Bits ''pm_req'' td_u64 1,
        Bits ''rsvd2'' td_u64 10]),
      Plain ''qw_0'' td_u64]),
    Plain '''' (TUnion '''' False [
      Plain '''' (TStruct '''' False [
        Bits ''rd_req'' td_u64 1,
        Bits ''wr_req'' td_u64 1,
        Bits ''lpig'' td_u64 1,
        Bits ''prg_index'' td_u64 9,
        Bits ''addr'' td_u64 52]),
      Plain ''qw_1'' td_u64]),
    Plain ''qw_2'' td_u64,
    Plain ''qw_3'' td_u64]"

definition st_pm_scan_arg :: ty where
  "st_pm_scan_arg = TStruct ''pm_scan_arg'' False [
    Plain ''size'' td___u64,
    Plain ''flags'' td___u64,
    Plain ''start'' td___u64,
    Plain ''end'' td___u64,
    Plain ''walk_end'' td___u64,
    Plain ''vec'' td___u64,
    Plain ''vec_len'' td___u64,
    Plain ''max_pages'' td___u64,
    Plain ''category_inverted'' td___u64,
    Plain ''category_mask'' td___u64,
    Plain ''category_anyof_mask'' td___u64,
    Plain ''return_mask'' td___u64]"

definition st_palmas_platform_data :: ty where
  "st_palmas_platform_data = TStruct ''palmas_platform_data'' False [
    Plain ''irq_flags'' (TInt I32 True),
    Plain ''gpio_base'' (TInt I32 True),
    Plain ''power_ctrl'' td_u8,
    Plain ''mux_from_pdata'' (TInt I32 True),
    Plain ''pad1'' td_u8,
    Plain ''pad2'' td_u8,
    Plain ''pm_off'' td_bool,
    Plain ''pmic_pdata'' (TPtr ''struct palmas_pmic_platform_data''),
    Plain ''gpadc_pdata'' (TPtr ''struct palmas_gpadc_platform_data''),
    Plain ''usb_pdata'' (TPtr ''struct palmas_usb_platform_data''),
    Plain ''resource_pdata'' (TPtr ''struct palmas_resource_platform_data''),
    Plain ''clk_pdata'' (TPtr ''struct palmas_clk_platform_data'')]"

definition st_regulator_desc :: ty where
  "st_regulator_desc = TStruct ''regulator_desc'' False [
    Plain ''name'' (TPtr ''char''),
    Plain ''supply_name'' (TPtr ''char''),
    Plain ''of_match'' (TPtr ''char''),
    Plain ''of_match_full_name'' td_bool,
    Plain ''regulators_node'' (TPtr ''char''),
    Plain ''of_parse_cb''
      (TFun ''int (*)(struct device_node *, const struct regulator_desc *, struct regulator_config *)''),
    Plain ''init_cb'' (TFun ''int (*)(struct regulator_dev *, struct regulator_config *)''),
    Plain ''id'' (TInt I32 True),
    Bits ''continuous_voltage_range'' (TInt I32 False) 1,
    Plain ''n_voltages'' (TInt I32 False),
    Plain ''n_current_limits'' (TInt I32 False),
    Plain ''ops'' (TPtr ''struct regulator_ops''),
    Plain ''irq'' (TInt I32 True),
    Plain ''type'' (TEnum ''regulator_type'' I32),
    Plain ''owner'' (TPtr ''struct module''),
    Plain ''min_uV'' (TInt I32 False),
    Plain ''uV_step'' (TInt I32 False),
    Plain ''linear_min_sel'' (TInt I32 False),
    Plain ''fixed_uV'' (TInt I32 True),
    Plain ''ramp_delay'' (TInt I32 False),
    Plain ''min_dropout_uV'' (TInt I32 True),
    Plain ''linear_ranges'' (TPtr ''struct linear_range''),
    Plain ''linear_range_selectors_bitfield'' (TPtr ''unsigned int''),
    Plain ''n_linear_ranges'' (TInt I32 True),
    Plain ''volt_table'' (TPtr ''unsigned int''),
    Plain ''curr_table'' (TPtr ''unsigned int''),
    Plain ''vsel_range_reg'' (TInt I32 False),
    Plain ''vsel_range_mask'' (TInt I32 False),
    Plain ''range_applied_by_vsel'' td_bool,
    Plain ''vsel_reg'' (TInt I32 False),
    Plain ''vsel_mask'' (TInt I32 False),
    Plain ''vsel_step'' (TInt I32 False),
    Plain ''csel_reg'' (TInt I32 False),
    Plain ''csel_mask'' (TInt I32 False),
    Plain ''apply_reg'' (TInt I32 False),
    Plain ''apply_bit'' (TInt I32 False),
    Plain ''enable_reg'' (TInt I32 False),
    Plain ''enable_mask'' (TInt I32 False),
    Plain ''enable_val'' (TInt I32 False),
    Plain ''disable_val'' (TInt I32 False),
    Plain ''enable_is_inverted'' td_bool,
    Plain ''bypass_reg'' (TInt I32 False),
    Plain ''bypass_mask'' (TInt I32 False),
    Plain ''bypass_val_on'' (TInt I32 False),
    Plain ''bypass_val_off'' (TInt I32 False),
    Plain ''active_discharge_on'' (TInt I32 False),
    Plain ''active_discharge_off'' (TInt I32 False),
    Plain ''active_discharge_mask'' (TInt I32 False),
    Plain ''active_discharge_reg'' (TInt I32 False),
    Plain ''soft_start_reg'' (TInt I32 False),
    Plain ''soft_start_mask'' (TInt I32 False),
    Plain ''soft_start_val_on'' (TInt I32 False),
    Plain ''pull_down_reg'' (TInt I32 False),
    Plain ''pull_down_mask'' (TInt I32 False),
    Plain ''pull_down_val_on'' (TInt I32 False),
    Plain ''ramp_reg'' (TInt I32 False),
    Plain ''ramp_mask'' (TInt I32 False),
    Plain ''ramp_delay_table'' (TPtr ''unsigned int''),
    Plain ''n_ramp_values'' (TInt I32 False),
    Plain ''enable_time'' (TInt I32 False),
    Plain ''off_on_delay'' (TInt I32 False),
    Plain ''poll_enabled_time'' (TInt I32 False),
    Plain ''of_map_mode'' (TFun ''unsigned int (*)(unsigned int)'')]"

end
