(* ===== verification/VmlinuxStruct4.thy ===== *)
theory VmlinuxStruct4
  imports VmlinuxTypedefs
begin

text \<open>
  Structures and unions of \<open>src/internal/ebpf/vmlinux.h\<close> (without members of modelled aggregate types), in the
  order of the header: \<open>st_<tag>\<close>, \<open>un_<tag>\<close>, and \<open>td_<name>\<close> for an aggregate with a type name.
\<close>

definition st_palmas_resource_platform_data :: ty where
  "st_palmas_resource_platform_data = TStruct ''palmas_resource_platform_data'' False [
    Plain ''regen1_mode_sleep'' (TInt I32 True),
    Plain ''regen2_mode_sleep'' (TInt I32 True),
    Plain ''sysen1_mode_sleep'' (TInt I32 True),
    Plain ''sysen2_mode_sleep'' (TInt I32 True),
    Plain ''nsleep_res'' td_u8,
    Plain ''nsleep_smps'' td_u8,
    Plain ''nsleep_ldo1'' td_u8,
    Plain ''nsleep_ldo2'' td_u8,
    Plain ''enable1_res'' td_u8,
    Plain ''enable1_smps'' td_u8,
    Plain ''enable1_ldo1'' td_u8,
    Plain ''enable1_ldo2'' td_u8,
    Plain ''enable2_res'' td_u8,
    Plain ''enable2_smps'' td_u8,
    Plain ''enable2_ldo1'' td_u8,
    Plain ''enable2_ldo2'' td_u8]"

definition st_param :: ty where
  "st_param = TStruct ''param'' False [
    Plain ''attrs'' (TPtr ''struct nlattr *''),
    Plain ''msg'' (TPtr ''struct sk_buff''),
    Plain ''name'' (TPtr ''char''),
    Plain ''tz_id'' (TInt I32 True),
    Plain ''cdev_id'' (TInt I32 True),
    Plain ''trip_id'' (TInt I32 True),
    Plain ''trip_temp'' (TInt I32 True),
    Plain ''trip_type'' (TInt I32 True),
    Plain ''trip_hyst'' (TInt I32 True),
    Plain ''temp'' (TInt I32 True),
    Plain ''prev_temp'' (TInt I32 True),
    Plain ''direction'' (TInt I32 True),
    Plain ''cdev_state'' (TInt I32 True),
    Plain ''cdev_max_state'' (TInt I32 True),
    Plain ''cpu_capabilities'' (TPtr ''struct thermal_genl_cpu_caps''),
    Plain ''cpu_capabilities_count'' (TInt I32 True)]"

definition st_parsed_partitions :: ty where
  "st_parsed_partitions = TStruct ''parsed_partitions'' False [
    Plain ''disk'' (TPtr ''struct gendisk''),
    Plain ''name'' (TArr (TInt I8 True) 32),
    Plain ''parts'' (TPtr ''struct {...}''),
    Plain ''next'' (TInt I32 True),
    Plain ''limit'' (TInt I32 True),
    Plain ''access_beyond_eod'' td_bool,
    Plain ''pp_buf'' (TPtr ''char'')]"

definition st_pcc_header :: ty where
  "st_pcc_header = TStruct ''pcc_header'' False [
    Plain ''signature'' td_u32,
    Plain ''length'' td_u16,
    Plain ''major'' td_u8,
    Plain ''minor'' td_u8,
    Plain ''features'' td_u32,
    Plain ''command'' td_u16,
    Plain ''status'' td_u16,
    Plain ''latency'' td_u32,
    Plain ''minimum_time'' td_u32,
    Plain ''maximum_time'' td_u32,
    Plain ''nominal'' td_u32,
    Plain ''throttled_frequency'' td_u32,
    Plain ''minimum_frequency'' td_u32]"

definition st_pci_epf_bar :: ty where
  "st_pci_epf_bar = TStruct ''pci_epf_bar'' False [
    Plain ''phys_addr'' td_dma_addr_t,
    Plain ''addr'' (TPtr ''void''),
    Plain ''size'' td_size_t,
    Plain ''mem_size'' td_size_t,
    Plain ''barno'' (TEnum ''pci_barno'' I32),
    Plain ''flags'' (TInt I32 True),
    Plain ''num_submap'' (TInt I32 False),
    Plain ''submap'' (TPtr ''struct pci_epf_bar_submap'')]"

definition st_pci_sriov :: ty where
  "st_pci_sriov = TStruct ''pci_sriov'' False [
    Plain ''pos'' (TInt I32 True),
    Plain ''nres'' (TInt I32 True),
    Plain ''cap'' td_u32,
    Plain ''ctrl'' td_u16,
    Plain ''total_VFs'' td_u16,
    Plain ''initial_VFs'' td_u16,
    Plain ''num_VFs'' td_u16,
    Plain ''offset'' td_u16,
    Plain ''stride'' td_u16,
    Plain ''vf_device'' td_u16,
    Plain ''pgsz'' td_u32,
    Plain ''link'' td_u8,
    Plain ''max_VF_buses'' td_u8,
    Plain ''driver_max_VFs'' td_u16,
    Plain ''dev'' (TPtr ''struct pci_dev''),
    Plain ''self'' (TPtr ''struct pci_dev''),
    Plain ''class'' td_u32,
    Plain ''hdr_type'' td_u8,
    Plain ''subsystem_vendor'' td_u16,
    Plain ''subsystem_device'' td_u16,
    Plain ''barsz'' (TArr td_resource_size_t 6),
    Plain ''vf_rebar_cap'' td_u16,
    Plain ''drivers_autoprobe'' td_bool]"

definition st_pcpu_block_md :: ty where
  "st_pcpu_block_md = TStruct ''pcpu_block_md'' False [
    Plain ''scan_hint'' (TInt I32 True),
    Plain ''scan_hint_start'' (TInt I32 True),
    Plain ''contig_hint'' (TInt I32 True),
    Plain ''contig_hint_start'' (TInt I32 True),
    Plain ''left_free'' (TInt I32 True),
    Plain ''right_free'' (TInt I32 True),
    Plain ''first_free'' (TInt I32 True),
    Plain ''nr_bits'' (TInt I32 True)]"

definition st_pe32_opt_hdr :: ty where
  "st_pe32_opt_hdr = TStruct ''pe32_opt_hdr'' False [
    Plain ''magic'' td_uint16_t,
    Plain ''ld_major'' td_uint8_t,
    Plain ''ld_minor'' td_uint8_t,
    Plain ''text_size'' td_uint32_t,
    Plain ''data_size'' td_uint32_t,
    Plain ''bss_size'' td_uint32_t,
    Plain ''entry_point'' td_uint32_t,
    Plain ''code_base'' td_uint32_t,
    Plain ''data_base'' td_uint32_t,
    Plain ''image_base'' td_uint32_t,
    Plain ''section_align'' td_uint32_t,
    Plain ''file_align'' td_uint32_t,
    Plain ''os_major'' td_uint16_t,
    Plain ''os_minor'' td_uint16_t,
    Plain ''image_major'' td_uint16_t,
    Plain ''image_minor'' td_uint16_t,
    Plain ''subsys_major'' td_uint16_t,
    Plain ''subsys_minor'' td_uint16_t,
    Plain ''win32_version'' td_uint32_t,
    Plain ''image_size'' td_uint32_t,
    Plain ''header_size'' td_uint32_t,
    Plain ''csum'' td_uint32_t,
    Plain ''subsys'' td_uint16_t,
    Plain ''dll_flags'' td_uint16_t,
    Plain ''stack_size_req'' td_uint32_t,
    Plain ''stack_size'' td_uint32_t,
    Plain ''heap_size_req'' td_uint32_t,
    Plain ''heap_size'' td_uint32_t,
    Plain ''loader_flags'' td_uint32_t,
    Plain ''data_dirs'' td_uint32_t]"

definition st_pe32plus_opt_hdr :: ty where
  "st_pe32plus_opt_hdr = TStruct ''pe32plus_opt_hdr'' False [
    Plain ''magic'' td_uint16_t,
    Plain ''ld_major'' td_uint8_t,
    Plain ''ld_minor'' td_uint8_t,
    Plain ''text_size'' td_uint32_t,
    Plain ''data_size'' td_uint32_t,
    Plain ''bss_size'' td_uint32_t,
    Plain ''entry_point'' td_uint32_t,
    Plain ''code_base'' td_uint32_t,
    Plain ''image_base'' td_uint64_t,
    Plain ''section_align'' td_uint32_t,
    Plain ''file_align'' td_uint32_t,
    Plain ''os_major'' td_uint16_t,
    Plain ''os_minor'' td_uint16_t,
    Plain ''image_major'' td_uint16_t,
    Plain ''image_minor'' td_uint16_t,
    Plain ''subsys_major'' td_uint16_t,
    Plain ''subsys_minor'' td_uint16_t,
    Plain ''win32_version'' td_uint32_t,
    Plain ''image_size'' td_uint32_t,
    Plain ''header_size'' td_uint32_t,
    Plain ''csum'' td_uint32_t,
    Plain ''subsys'' td_uint16_t,
    Plain ''dll_flags'' td_uint16_t,
    Plain ''stack_size_req'' td_uint64_t,
    Plain ''stack_size'' td_uint64_t,
    Plain ''heap_size_req'' td_uint64_t,
    Plain ''heap_size'' td_uint64_t,
    Plain ''loader_flags'' td_uint32_t,
    Plain ''data_dirs'' td_uint32_t]"

definition st_pebs_gprs :: ty where
  "st_pebs_gprs = TStruct ''pebs_gprs'' False [
    Plain ''flags'' td_u64,
    Plain ''ip'' td_u64,
    Plain ''ax'' td_u64,
    Plain ''cx'' td_u64,
    Plain ''dx'' td_u64,
    Plain ''bx'' td_u64,
    Plain ''sp'' td_u64,
    Plain ''bp'' td_u64,
    Plain ''si'' td_u64,
    Plain ''di'' td_u64,
    Plain ''r8'' td_u64,
    Plain ''r9'' td_u64,
    Plain ''r10'' td_u64,
    Plain ''r11'' td_u64,
    Plain ''r12'' td_u64,
    Plain ''r13'' td_u64,
    Plain ''r14'' td_u64,
    Plain ''r15'' td_u64]"

definition st_pebs_meminfo :: ty where
  "st_pebs_meminfo = TStruct ''pebs_meminfo'' False [
    Plain ''address'' td_u64,
    Plain ''aux'' td_u64,
    Plain '''' (TUnion '''' False [
      Plain ''mem_latency'' td_u64,
      Plain '''' (TStruct '''' False [
        Bits ''instr_latency'' td_u64 16,
        Bits ''pad2'' td_u64 16,
        Bits ''cache_latency'' td_u64 16,
        Bits ''pad3'' td_u64 16])]),
    Plain ''tsx_tuning'' td_u64]"

definition st_pebs_record_core :: ty where
  "st_pebs_record_core = TStruct ''pebs_record_core'' False [
    Plain ''flags'' td_u64,
    Plain ''ip'' td_u64,
    Plain ''ax'' td_u64,
    Plain ''bx'' td_u64,
    Plain ''cx'' td_u64,
    Plain ''dx'' td_u64,
    Plain ''si'' td_u64,
    Plain ''di'' td_u64,
    Plain ''bp'' td_u64,
    Plain ''sp'' td_u64,
    Plain ''r8'' td_u64,
    Plain ''r9'' td_u64,
    Plain ''r10'' td_u64,
    Plain ''r11'' td_u64,
    Plain ''r12'' td_u64,
    Plain ''r13'' td_u64,
    Plain ''r14'' td_u64,
    Plain ''r15'' td_u64]"

definition st_pebs_record_nhm :: ty where
  "st_pebs_record_nhm = TStruct ''pebs_record_nhm'' False [
    Plain ''flags'' td_u64,
    Plain ''ip'' td_u64,
    Plain ''ax'' td_u64,
    Plain ''bx'' td_u64,
    Plain ''cx'' td_u64,
    Plain ''dx'' td_u64,
    Plain ''si'' td_u64,
    Plain ''di'' td_u64,
    Plain ''bp'' td_u64,
    Plain ''sp'' td_u64,
    Plain ''r8'' td_u64,
    Plain ''r9'' td_u64,
    Plain ''r10'' td_u64,
    Plain ''r11'' td_u64,
    Plain ''r12'' td_u64,
    Plain ''r13'' td_u64,
    Plain ''r14'' td_u64,
    Plain ''r15'' td_u64,
    Plain ''status'' td_u64,
    Plain ''dla'' td_u64,
    Plain ''dse'' td_u64,
    Plain ''lat'' td_u64]"

definition st_pebs_record_skl :: ty where
  "st_pebs_record_skl = TStruct ''pebs_record_skl'' False [
    Plain ''flags'' td_u64,
    Plain ''ip'' td_u64,
    Plain ''ax'' td_u64,
    Plain ''bx'' td_u64,
    Plain ''cx'' td_u64,
    Plain ''dx'' td_u64,
    Plain ''si'' td_u64,
    Plain ''di'' td_u64,
    Plain ''bp'' td_u64,
    Plain ''sp'' td_u64,
    Plain ''r8'' td_u64,
    Plain ''r9'' td_u64,
    Plain ''r10'' td_u64,
    Plain ''r11'' td_u64,
    Plain ''r12'' td_u64,
    Plain ''r13'' td_u64,
    Plain ''r14'' td_u64,
    Plain ''r15'' td_u64,
    Plain ''status'' td_u64,
    Plain ''dla'' td_u64,
    Plain ''dse'' td_u64,
    Plain ''lat'' td_u64,
    Plain ''real_ip'' td_u64,
    Plain ''tsx_tuning'' td_u64,
    Plain ''tsc'' td_u64]"

definition st_pefile_context :: ty where
  "st_pefile_context = TStruct ''pefile_context'' False [
    Plain ''header_size'' (TInt I32 False),
    Plain ''image_checksum_offset'' (TInt I32 False),
    Plain ''cert_dirent_offset'' (TInt I32 False),
    Plain ''n_data_dirents'' (TInt I32 False),
    Plain ''n_sections'' (TInt I32 False),
    Plain ''certs_size'' (TInt I32 False),
    Plain ''sig_offset'' (TInt I32 False),
    Plain ''sig_len'' (TInt I32 False),
    Plain ''secs'' (TPtr ''struct section_header''),
    Plain ''digest'' (TPtr ''void''),
    Plain ''digest_len'' (TInt I32 False),
    Plain ''digest_algo'' (TPtr ''char'')]"

definition st_perf_event_header :: ty where
  "st_perf_event_header = TStruct ''perf_event_header'' False [
    Plain ''type'' td___u32,
    Plain ''misc'' td___u16,
    Plain ''size'' td___u16]"

definition un_perf_capabilities :: ty where
  "un_perf_capabilities = TUnion ''perf_capabilities'' False [
    Plain '''' (TStruct '''' False [
      Bits ''lbr_format'' td_u64 6,
      Bits ''pebs_trap'' td_u64 1,
      Bits ''pebs_arch_reg'' td_u64 1,
      Bits ''pebs_format'' td_u64 4,
      Bits ''smm_freeze'' td_u64 1,
      Bits ''full_width_write'' td_u64 1,
      Bits ''pebs_baseline'' td_u64 1,
      Bits ''perf_metrics'' td_u64 1,
      Bits ''pebs_output_pt_available'' td_u64 1,
      Bits ''pebs_timing_info'' td_u64 1,
      Bits ''anythread_deprecated'' td_u64 1,
      Bits ''rdpmc_metrics_clear'' td_u64 1]),
    Plain ''capabilities'' td_u64]"

definition st_perf_time_ctx :: ty where
  "st_perf_time_ctx = TStruct ''perf_time_ctx'' False [
    Plain ''time'' td_u64,
    Plain ''stamp'' td_u64,
    Plain ''offset'' td_u64]"

definition st_perf_event_attr :: ty where
  "st_perf_event_attr = TStruct ''perf_event_attr'' False [
    Plain ''type'' td___u32,
    Plain ''size'' td___u32,
    Plain ''config'' td___u64,
    Plain '''' (TUnion '''' False [
      Plain ''sample_period'' td___u64,
      Plain ''sample_freq'' td___u64]),
    Plain ''sample_type'' td___u64,
    Plain ''read_format'' td___u64,
    Bits ''disabled'' td___u64 1,
    Bits ''inherit'' td___u64 1,
    Bits ''pinned'' td___u64 1,
    Bits ''exclusive'' td___u64 1,
    Bits ''exclude_user'' td___u64 1,
    Bits ''exclude_kernel'' td___u64 1,
    Bits ''exclude_hv'' td___u64 1,
    Bits ''exclude_idle'' td___u64 1,
    Bits ''mmap'' td___u64 1,
    Bits ''comm'' td___u64 1,
    Bits ''freq'' td___u64 1,
    Bits ''inherit_stat'' td___u64 1,
    Bits ''enable_on_exec'' td___u64 1,
    Bits ''task'' td___u64 1,
    Bits ''watermark'' td___u64 1,
    Bits ''precise_ip'' td___u64 2,
    Bits ''mmap_data'' td___u64 1,
    Bits ''sample_id_all'' td___u64 1,
    Bits ''exclude_host'' td___u64 1,
    Bits ''exclude_guest'' td___u64 1,
    Bits ''exclude_callchain_kernel'' td___u64 1,
    Bits ''exclude_callchain_user'' td___u64 1,
    Bits ''mmap2'' td___u64 1,
    Bits ''comm_exec'' td___u64 1,
    Bits ''use_clockid'' td___u64 1,
    Bits ''context_switch'' td___u64 1,
    Bits ''write_backward'' td___u64 1,
    Bits ''namespaces'' td___u64 1,
    Bits ''ksymbol'' td___u64 1,
    Bits ''bpf_event'' td___u64 1,
    Bits ''aux_output'' td___u64 1,
    Bits ''cgroup'' td___u64 1,
    Bits ''text_poke'' td___u64 1,
    Bits ''build_id'' td___u64 1,
    Bits ''inherit_thread'' td___u64 1,
    Bits ''remove_on_exec'' td___u64 1,
    Bits ''sigtrap'' td___u64 1,
    Bits ''defer_callchain'' td___u64 1,
    Bits ''defer_output'' td___u64 1,
    Bits ''__reserved_1'' td___u64 24,
    Plain '''' (TUnion '''' False [
      Plain ''wakeup_events'' td___u32,
      Plain ''wakeup_watermark'' td___u32]),
    Plain ''bp_type'' td___u32,
    Plain '''' (TUnion '''' False [
      Plain ''bp_addr'' td___u64,
      Plain ''kprobe_func'' td___u64,
      Plain ''uprobe_path'' td___u64,
      Plain ''config1'' td___u64]),
    Plain '''' (TUnion '''' False [
      Plain ''bp_len'' td___u64,
      Plain ''kprobe_addr'' td___u64,
      Plain ''probe_offset'' td___u64,
      Plain ''config2'' td___u64]),
    Plain ''branch_sample_type'' td___u64,
    Plain ''sample_regs_user'' td___u64,
    Plain ''sample_stack_user'' td___u32,
    Plain ''clockid'' td___s32,
    Plain ''sample_regs_intr'' td___u64,
    Plain ''aux_watermark'' td___u32,
    Plain ''sample_max_stack'' td___u16,
    Plain ''__reserved_2'' td___u16,
    Plain ''aux_sample_size'' td___u32,
    Plain '''' (TUnion '''' False [
      Plain ''aux_action'' td___u32,
      Plain '''' (TStruct '''' False [
        Bits ''aux_start_paused'' td___u32 1,
        Bits ''aux_pause'' td___u32 1,
        Bits ''aux_resume'' td___u32 1,
        Bits ''__reserved_3'' td___u32 29])]),
    Plain ''sig_data'' td___u64,
    Plain ''config3'' td___u64,
    Plain ''config4'' td___u64]"

definition st_perf_event_mmap_page :: ty where
  "st_perf_event_mmap_page = TStruct ''perf_event_mmap_page'' False [
    Plain ''version'' td___u32,
    Plain ''compat_version'' td___u32,
    Plain ''lock'' td___u32,
    Plain ''index'' td___u32,
    Plain ''offset'' td___s64,
    Plain ''time_enabled'' td___u64,
    Plain ''time_running'' td___u64,
    Plain '''' (TUnion '''' False [
      Plain ''capabilities'' td___u64,
      Plain '''' (TStruct '''' False [
        Bits ''cap_bit0'' td___u64 1,
        Bits ''cap_bit0_is_deprecated'' td___u64 1,
        Bits ''cap_user_rdpmc'' td___u64 1,
        Bits ''cap_user_time'' td___u64 1,
        Bits ''cap_user_time_zero'' td___u64 1,
        Bits ''cap_user_time_short'' td___u64 1,
        Bits ''cap_____res'' td___u64 58])]),
    Plain ''pmc_width'' td___u16,
    Plain ''time_shift'' td___u16,
    Plain ''time_mult'' td___u32,
    Plain ''time_offset'' td___u64,
    Plain ''time_zero'' td___u64,
    Plain ''size'' td___u32,
    Plain ''__reserved_1'' td___u32,
    Plain ''time_cycles'' td___u64,
    Plain ''time_mask'' td___u64,
    Plain ''__reserved'' (TArr td___u8 928),
    Plain ''data_head'' td___u64,
    Plain ''data_tail'' td___u64,
    Plain ''data_offset'' td___u64,
    Plain ''data_size'' td___u64,
    Plain ''aux_head'' td___u64,
    Plain ''aux_tail'' td___u64,
    Plain ''aux_offset'' td___u64,
    Plain ''aux_size'' td___u64]"

definition st_phy_c45_device_ids :: ty where
  "st_phy_c45_device_ids = TStruct ''phy_c45_device_ids'' False [
    Plain ''devices_in_package'' td_u32,
    Plain ''mmds_present'' td_u32,
    Plain ''device_ids'' (TArr td_u32 32)]"

definition st_phy_configure_opts_mipi_dphy :: ty where
  "st_phy_configure_opts_mipi_dphy = TStruct ''phy_configure_opts_mipi_dphy'' False [
    Plain ''clk_miss'' (TInt I32 False),
    Plain ''clk_post'' (TInt I32 False),
    Plain ''clk_pre'' (TInt I32 False),
    Plain ''clk_prepare'' (TInt I32 False),
    Plain ''clk_settle'' (TInt I32 False),
    Plain ''clk_term_en'' (TInt I32 False),
    Plain ''clk_trail'' (TInt I32 False),
    Plain ''clk_zero'' (TInt I32 False),
    Plain ''d_term_en'' (TInt I32 False),
    Plain ''eot'' (TInt I32 False),
    Plain ''hs_exit'' (TInt I32 False),
    Plain ''hs_prepare'' (TInt I32 False),
    Plain ''hs_settle'' (TInt I32 False),
    Plain ''hs_skip'' (TInt I32 False),
    Plain ''hs_trail'' (TInt I32 False),
    Plain ''hs_zero'' (TInt I32 False),
    Plain ''init'' (TInt I32 False),
    Plain ''lpx'' (TInt I32 False),
    Plain ''ta_get'' (TInt I32 False),
    Plain ''ta_go'' (TInt I32 False),
    Plain ''ta_sure'' (TInt I32 False),
    Plain ''wakeup'' (TInt I32 False),
    Plain ''hs_clk_rate'' (TInt I64 False),
    Plain ''lp_clk_rate'' (TInt I64 False),
    Plain ''lanes'' (TInt I8 False)]"

definition st_phy_oatc14_sqi_capability :: ty where
  "st_phy_oatc14_sqi_capability = TStruct ''phy_oatc14_sqi_capability'' False [
    Plain ''updated'' td_bool,
    Plain ''sqi_max'' (TInt I32 True),
    Plain ''sqiplus_bits'' td_u8]"

definition st_upid :: ty where
  "st_upid = TStruct ''upid'' False [
    Plain ''nr'' (TInt I32 True),
    Plain ''ns'' (TPtr ''struct pid_namespace'')]"

definition st_pidfd_info :: ty where
  "st_pidfd_info = TStruct ''pidfd_info'' False [
    Plain ''mask'' td___u64,
    Plain ''cgroupid'' td___u64,
    Plain ''pid'' td___u32,
    Plain ''tgid'' td___u32,
    Plain ''ppid'' td___u32,
    Plain ''ruid'' td___u32,
    Plain ''rgid'' td___u32,
    Plain ''euid'' td___u32,
    Plain ''egid'' td___u32,
    Plain ''suid'' td___u32,
    Plain ''sgid'' td___u32,
    Plain ''fsuid'' td___u32,
    Plain ''fsgid'' td___u32,
    Plain ''exit_code'' td___s32,
    Plain '''' (TStruct '''' False [
      Plain ''coredump_mask'' td___u32,
      Plain ''coredump_signal'' td___u32]),
    Plain ''supported_mask'' td___u64]"

definition un_pipe_index :: ty where
  "un_pipe_index = TUnion ''pipe_index'' False [
    Plain ''head_tail'' (TInt I64 False),
    Plain '''' (TStruct '''' False [
      Plain ''head'' td_pipe_index_t,
      Plain ''tail'' td_pipe_index_t])]"

definition st_pkcs7_parse_context :: ty where
  "st_pkcs7_parse_context = TStruct ''pkcs7_parse_context'' False [
    Plain ''msg'' (TPtr ''struct pkcs7_message''),
    Plain ''sinfo'' (TPtr ''struct pkcs7_signed_info''),
    Plain ''ppsinfo'' (TPtr ''struct pkcs7_signed_info *''),
    Plain ''certs'' (TPtr ''struct x509_certificate''),
    Plain ''ppcerts'' (TPtr ''struct x509_certificate *''),
    Plain ''data'' (TInt I64 False),
    Plain ''last_oid'' (TEnum ''OID'' I32),
    Plain ''x509_index'' (TInt I32 False),
    Plain ''sinfo_index'' (TInt I32 False),
    Plain ''raw_serial'' (TPtr ''void''),
    Plain ''raw_serial_size'' (TInt I32 False),
    Plain ''raw_issuer_size'' (TInt I32 False),
    Plain ''raw_issuer'' (TPtr ''void''),
    Plain ''raw_skid'' (TPtr ''void''),
    Plain ''raw_skid_size'' (TInt I32 False),
    Plain ''expect_skid'' td_bool]"

definition st_pkcs7_signed_info :: ty where
  "st_pkcs7_signed_info = TStruct ''pkcs7_signed_info'' False [
    Plain ''next'' (TPtr ''struct pkcs7_signed_info''),
    Plain ''signer'' (TPtr ''struct x509_certificate''),
    Plain ''index'' (TInt I32 False),
    Plain ''unsupported_crypto'' td_bool,
    Plain ''blacklisted'' td_bool,
    Plain ''msgdigest'' (TPtr ''void''),
    Plain ''msgdigest_len'' (TInt I32 False),
    Plain ''authattrs_len'' (TInt I32 False),
    Plain ''authattrs'' (TPtr ''void''),
    Plain ''aa_set'' (TInt I64 False),
    Plain ''signing_time'' td_time64_t,
    Plain ''sig'' (TPtr ''struct public_key_signature'')]"

definition st_poly1305_arch_internal :: ty where
  "st_poly1305_arch_internal = TStruct ''poly1305_arch_internal'' False [
    Plain '''' (TUnion '''' False [
      Plain '''' (TStruct '''' False [
        Plain ''h'' (TArr td_u32 5),
        Plain ''is_base2_26'' td_u32]),
      Plain ''hs'' (TArr td_u64 3)]),
    Plain ''r'' (TArr td_u64 2),
    Plain ''pad'' td_u64,
    Plain ''rn'' (TArr (TStruct '''' False [
      Plain ''r2'' td_u32,
      Plain ''r1'' td_u32,
      Plain ''r4'' td_u32,
      Plain ''r3'' td_u32]) 9)]"

definition st_port_stats :: ty where
  "st_port_stats = TStruct ''port_stats'' False [
    Plain ''bytes_sent'' (TInt I64 False),
    Plain ''bytes_received'' (TInt I64 False),
    Plain ''bytes_discarded'' (TInt I64 False)]"

definition st_virtio_console_control :: ty where
  "st_virtio_console_control = TStruct ''virtio_console_control'' False [
    Plain ''id'' td___virtio32,
    Plain ''event'' td___virtio16,
    Plain ''value'' td___virtio16]"

definition st_prctl_mm_map :: ty where
  "st_prctl_mm_map = TStruct ''prctl_mm_map'' False [
    Plain ''start_code'' td___u64,
    Plain ''end_code'' td___u64,
    Plain ''start_data'' td___u64,
    Plain ''end_data'' td___u64,
    Plain ''start_brk'' td___u64,
    Plain ''brk'' td___u64,
    Plain ''start_stack'' td___u64,
    Plain ''arg_start'' td___u64,
    Plain ''arg_end'' td___u64,
    Plain ''env_start'' td___u64,
    Plain ''env_end'' td___u64,
    Plain ''auxv'' (TPtr ''__u64''),
    Plain ''auxv_size'' td___u32,
    Plain ''exe_fd'' td___u32]"

definition st_procmap_query :: ty where
  "st_procmap_query = TStruct ''procmap_query'' False [
    Plain ''size'' td___u64,
    Plain ''query_flags'' td___u64,
    Plain ''query_addr'' td___u64,
    Plain ''vma_start'' td___u64,
    Plain ''vma_end'' td___u64,
    Plain ''vma_flags'' td___u64,
    Plain ''vma_page_size'' td___u64,
    Plain ''vma_offset'' td___u64,
    Plain ''inode'' td___u64,
    Plain ''dev_major'' td___u32,
    Plain ''dev_minor'' td___u32,
    Plain ''vma_name_size'' td___u32,
    Plain ''build_id_size'' td___u32,
    Plain ''vma_name_addr'' td___u64,
    Plain ''build_id_addr'' td___u64]"

definition st_pse_ntf :: ty where
  "st_pse_ntf = TStruct ''pse_ntf'' False [
    Plain ''id'' (TInt I32 True),
    Plain ''notifs'' (TInt I64 False)]"

definition st_psp_key_parsed :: ty where
  "st_psp_key_parsed = TStruct ''psp_key_parsed'' False [
    Plain ''spi'' td___be32,
    Plain ''key'' (TArr td_u8 32)]"

definition st_psp_dev_config :: ty where
  "st_psp_dev_config = TStruct ''psp_dev_config'' False [
    Plain ''versions'' td_u32]"

definition st_psp_dev_stats :: ty where
  "st_psp_dev_stats = TStruct ''psp_dev_stats'' False [
    Plain '''' (TUnion '''' False [
      Plain '''' (TStruct '''' False [
        Plain ''rx_packets'' td_u64,
        Plain ''rx_bytes'' td_u64,
        Plain ''rx_auth_fail'' td_u64,
        Plain ''rx_error'' td_u64,
        Plain ''rx_bad'' td_u64,
        Plain ''tx_packets'' td_u64,
        Plain ''tx_bytes'' td_u64,
        Plain ''tx_error'' td_u64]),
      Plain '''' (TStruct '''' False [
        Plain ''__empty_required'' (TStruct '''' False []),
        Plain ''required'' (TArr td_u64 0)])])]"

definition st_ptrace_syscall_info :: ty where
  "st_ptrace_syscall_info = TStruct ''ptrace_syscall_info'' False [
    Plain ''op'' td___u8,
    Plain ''reserved'' td___u8,
    Plain ''flags'' td___u16,
    Plain ''arch'' td___u32,
    Plain ''instruction_pointer'' td___u64,
    Plain ''stack_pointer'' td___u64,
    Plain '''' (TUnion '''' False [
      Plain ''entry'' (TStruct '''' False [
        Plain ''nr'' td___u64,
        Plain ''args'' (TArr td___u64 6)]),
      Plain ''exit'' (TStruct '''' False [
        Plain ''rval'' td___s64,
        Plain ''is_error'' td___u8]),
      Plain ''seccomp'' (TStruct '''' False [
        Plain ''nr'' td___u64,
        Plain ''args'' (TArr td___u64 6),
        Plain ''ret_data'' td___u32,
        Plain ''reserved2'' td___u32])])]"

definition st_qc_dqblk :: ty where
  "st_qc_dqblk = TStruct ''qc_dqblk'' False [
    Plain ''d_fieldmask'' (TInt I32 True),
    Plain ''d_spc_hardlimit'' td_u64,
    Plain ''d_spc_softlimit'' td_u64,
    Plain ''d_ino_hardlimit'' td_u64,
    Plain ''d_ino_softlimit'' td_u64,
    Plain ''d_space'' td_u64,
    Plain ''d_ino_count'' td_u64,
    Plain ''d_ino_timer'' td_s64,
    Plain ''d_spc_timer'' td_s64,
    Plain ''d_ino_warns'' (TInt I32 True),
    Plain ''d_spc_warns'' (TInt I32 True),
    Plain ''d_rt_spc_hardlimit'' td_u64,
    Plain ''d_rt_spc_softlimit'' td_u64,
    Plain ''d_rt_space'' td_u64,
    Plain ''d_rt_spc_timer'' td_s64,
    Plain ''d_rt_spc_warns'' (TInt I32 True)]"

definition st_rand_data :: ty where
  "st_rand_data = TStruct ''rand_data'' False [
    Plain ''hash_state'' (TPtr ''void''),
    Plain ''prev_time'' td___u64,
    Plain ''last_delta'' td___u64,
    Plain ''last_delta2'' td___s64,
    Plain ''flags'' (TInt I32 False),
    Plain ''osr'' (TInt I32 False),
    Plain ''mem'' (TPtr ''unsigned char''),
    Plain ''memlocation'' (TInt I32 False),
    Plain ''memblocks'' (TInt I32 False),
    Plain ''memblocksize'' (TInt I32 False),
    Plain ''memaccessloops'' (TInt I32 False),
    Plain ''rct_count'' (TInt I32 False),
    Plain ''apt_cutoff'' (TInt I32 False),
    Plain ''apt_cutoff_permanent'' (TInt I32 False),
    Plain ''apt_observations'' (TInt I32 False),
    Plain ''apt_count'' (TInt I32 False),
    Plain ''apt_base'' (TInt I32 False),
    Plain ''health_failure'' (TInt I32 False),
    Bits ''apt_base_set'' (TInt I32 False) 1]"

definition st_rate_sample :: ty where
  "st_rate_sample = TStruct ''rate_sample'' False [
    Plain ''prior_mstamp'' td_u64,
    Plain ''prior_delivered'' td_u32,
    Plain ''prior_delivered_ce'' td_u32,
    Plain ''delivered'' td_s32,
    Plain ''delivered_ce'' td_s32,
    Plain ''interval_us'' (TInt I64 True),
    Plain ''snd_interval_us'' td_u32,
    Plain ''rcv_interval_us'' td_u32,
    Plain ''rtt_us'' (TInt I64 True),
    Plain ''losses'' (TInt I32 True),
    Plain ''acked_sacked'' td_u32,
    Plain ''prior_in_flight'' td_u32,
    Plain ''last_end_seq'' td_u32,
    Plain ''is_app_limited'' td_bool,
    Plain ''is_retrans'' td_bool,
    Plain ''is_ack_delayed'' td_bool]"

definition st_rb_time_struct :: ty where
  "st_rb_time_struct = TStruct ''rb_time_struct'' False [
    Plain ''time'' td_local64_t]"

definition st_rchan_buf_stats :: ty where
  "st_rchan_buf_stats = TStruct ''rchan_buf_stats'' False [
    Plain ''full_count'' (TInt I32 False),
    Plain ''big_count'' (TInt I32 False)]"

definition st_rcu_cblist :: ty where
  "st_rcu_cblist = TStruct ''rcu_cblist'' False [
    Plain ''head'' (TPtr ''struct callback_head''),
    Plain ''tail'' (TPtr ''struct callback_head *''),
    Plain ''len'' (TInt I64 True)]"

definition un_rcu_noqs :: ty where
  "un_rcu_noqs = TUnion ''rcu_noqs'' False [
    Plain ''b'' (TStruct '''' False [
      Plain ''norm'' td_u8,
      Plain ''exp'' td_u8]),
    Plain ''s'' td_u16]"

definition st_rcu_segcblist :: ty where
  "st_rcu_segcblist = TStruct ''rcu_segcblist'' False [
    Plain ''head'' (TPtr ''struct callback_head''),
    Plain ''tails'' (TArr (TPtr ''struct callback_head *'') 4),
    Plain ''gp_seq'' (TArr (TInt I64 False) 4),
    Plain ''len'' td_atomic_long_t,
    Plain ''seglen'' (TArr (TInt I64 True) 4),
    Plain ''flags'' td_u8]"

definition st_rcu_snap_record :: ty where
  "st_rcu_snap_record = TStruct ''rcu_snap_record'' False [
    Plain ''gp_seq'' (TInt I64 False),
    Plain ''cputime_irq'' td_u64,
    Plain ''cputime_softirq'' td_u64,
    Plain ''cputime_system'' td_u64,
    Plain ''nr_hardirqs'' td_u64,
    Plain ''nr_softirqs'' (TInt I32 False),
    Plain ''nr_csw'' (TInt I64 False),
    Plain ''jiffies'' (TInt I64 False)]"

definition st_virtnet_interrupt_coalesce :: ty where
  "st_virtnet_interrupt_coalesce = TStruct ''virtnet_interrupt_coalesce'' False [
    Plain ''max_packets'' td_u32,
    Plain ''max_usecs'' td_u32]"

definition st_reclaim_state :: ty where
  "st_reclaim_state = TStruct ''reclaim_state'' False [
    Plain ''reclaimed'' (TInt I64 False),
    Plain ''mm_walk'' (TPtr ''struct lru_gen_mm_walk'')]"

definition st_spi_delay :: ty where
  "st_spi_delay = TStruct ''spi_delay'' False [
    Plain ''value'' td_u16,
    Plain ''unit'' td_u8]"

definition st_regmap_irq_chip :: ty where
  "st_regmap_irq_chip = TStruct ''regmap_irq_chip'' False [
    Plain ''name'' (TPtr ''char''),
    Plain ''domain_suffix'' (TPtr ''char''),
    Plain ''main_status'' (TInt I32 False),
    Plain ''num_main_status_bits'' (TInt I32 False),
    Plain ''sub_reg_offsets'' (TPtr ''struct regmap_irq_sub_irq_map''),
    Plain ''num_main_regs'' (TInt I32 True),
    Plain ''status_base'' (TInt I32 False),
    Plain ''mask_base'' (TInt I32 False),
    Plain ''unmask_base'' (TInt I32 False),
    Plain ''ack_base'' (TInt I32 False),
    Plain ''wake_base'' (TInt I32 False),
    Plain ''config_base'' (TPtr ''unsigned int''),
    Plain ''irq_reg_stride'' (TInt I32 False),
    Bits ''init_ack_masked'' (TInt I32 False) 1,
    Bits ''mask_unmask_non_inverted'' (TInt I32 False) 1,
    Bits ''use_ack'' (TInt I32 False) 1,
    Bits ''ack_invert'' (TInt I32 False) 1,
    Bits ''clear_ack'' (TInt I32 False) 1,
    Bits ''status_invert'' (TInt I32 False) 1,
    Bits ''status_is_level'' (TInt I32 False) 1,
    Bits ''wake_invert'' (TInt I32 False) 1,
    Bits ''type_in_mask'' (TInt I32 False) 1,
    Bits ''clear_on_unmask'' (TInt I32 False) 1,
    Bits ''runtime_pm'' (TInt I32 False) 1,
    Bits ''no_status'' (TInt I32 False) 1,
    Plain ''num_regs'' (TInt I32 True),
    Plain ''irqs'' (TPtr ''struct regmap_irq''),
    Plain ''num_irqs'' (TInt I32 True),
    Plain ''num_config_bases'' (TInt I32 True),
    Plain ''num_config_regs'' (TInt I32 True),
    Plain ''handle_pre_irq'' (TFun ''int (*)(void *)''),
    Plain ''handle_post_irq'' (TFun ''int (*)(void *)''),
    Plain ''handle_mask_sync'' (TFun ''int (*)(int, unsigned int, unsigned int, void *)''),
    Plain ''set_type_config''
      (TFun ''int (*)(unsigned int **, unsigned int, const struct regmap_irq *, int, void *)''),
    Plain ''get_irq_reg''
      (TFun ''unsigned int (*)(struct regmap_irq_chip_data *, unsigned int, int)''),
    Plain ''irq_drv_data'' (TPtr ''void'')]"

definition st_request_sense :: ty where
  "st_request_sense = TStruct ''request_sense'' False [
    Bits ''error_code'' td___u8 7,
    Bits ''valid'' td___u8 1,
    Plain ''segment_number'' td___u8,
    Bits ''sense_key'' td___u8 4,
    Bits ''reserved2'' td___u8 1,
    Bits ''ili'' td___u8 1,
    Bits ''reserved1'' td___u8 2,
    Plain ''information'' (TArr td___u8 4),
    Plain ''add_sense_len'' td___u8,
    Plain ''command_info'' (TArr td___u8 4),
    Plain ''asc'' td___u8,
    Plain ''ascq'' td___u8,
    Plain ''fruc'' td___u8,
    Plain ''sks'' (TArr td___u8 3),
    Plain ''asb'' (TArr td___u8 46)]"

definition st_return_consumer :: ty where
  "st_return_consumer = TStruct ''return_consumer'' False [
    Plain ''cookie'' td___u64,
    Plain ''id'' td___u64]"

definition st_ring_buffer_iter :: ty where
  "st_ring_buffer_iter = TStruct ''ring_buffer_iter'' False [
    Plain ''cpu_buffer'' (TPtr ''struct ring_buffer_per_cpu''),
    Plain ''head'' (TInt I64 False),
    Plain ''next_event'' (TInt I64 False),
    Plain ''head_page'' (TPtr ''struct buffer_page''),
    Plain ''cache_reader_page'' (TPtr ''struct buffer_page''),
    Plain ''cache_read'' (TInt I64 False),
    Plain ''cache_pages_removed'' (TInt I64 False),
    Plain ''read_stamp'' td_u64,
    Plain ''page_stamp'' td_u64,
    Plain ''event'' (TPtr ''struct ring_buffer_event''),
    Plain ''event_size'' td_size_t,
    Plain ''missed_events'' (TInt I32 True)]"

definition st_rm_feature_desc :: ty where
  "st_rm_feature_desc = TStruct ''rm_feature_desc'' False [
    Plain ''feature_code'' td___be16,
    Bits ''curr'' td___u8 1,
    Bits ''persistent'' td___u8 1,
    Bits ''feature_version'' td___u8 4,
    Bits ''reserved1'' td___u8 2,
    Plain ''add_len'' td___u8,
    Bits ''lock'' td___u8 1,
    Bits ''dbml'' td___u8 1,
    Bits ''pvnt_jmpr'' td___u8 1,
    Bits ''eject'' td___u8 1,
    Bits ''load'' td___u8 1,
    Bits ''mech_type'' td___u8 3,
    Plain ''reserved2'' td___u8,
    Plain ''reserved3'' td___u8,
    Plain ''reserved4'' td___u8]"

definition st_rmpentry_raw :: ty where
  "st_rmpentry_raw = TStruct ''rmpentry_raw'' False [
    Plain '''' (TUnion '''' False [
      Plain '''' (TStruct '''' False [
        Bits ''assigned'' td_u64 1,
        Bits ''pagesize'' td_u64 1,
        Bits ''immutable'' td_u64 1,
        Bits ''rsvd1'' td_u64 9,
        Bits ''gpa'' td_u64 39,
        Bits ''asid'' td_u64 10,
        Bits ''vmsa'' td_u64 1,
        Bits ''validated'' td_u64 1,
        Bits ''rsvd2'' td_u64 1]),
      Plain ''lo'' td_u64]),
    Plain ''hi'' td_u64]"

definition st_rpc_rtt :: ty where
  "st_rpc_rtt = TStruct ''rpc_rtt'' False [
    Plain ''timeo'' (TInt I64 False),
    Plain ''srtt'' (TArr (TInt I64 False) 5),
    Plain ''sdrtt'' (TArr (TInt I64 False) 5),
    Plain ''ntimeouts'' (TArr (TInt I32 True) 5)]"

definition st_rpc_timeout :: ty where
  "st_rpc_timeout = TStruct ''rpc_timeout'' False [
    Plain ''to_initval'' (TInt I64 False),
    Plain ''to_maxval'' (TInt I64 False),
    Plain ''to_increment'' (TInt I64 False),
    Plain ''to_retries'' (TInt I32 False),
    Plain ''to_exponential'' (TInt I8 False)]"

definition st_rpc_xprt_iter :: ty where
  "st_rpc_xprt_iter = TStruct ''rpc_xprt_iter'' False [
    Plain ''xpi_xpswitch'' (TPtr ''struct rpc_xprt_switch''),
    Plain ''xpi_cursor'' (TPtr ''struct rpc_xprt''),
    Plain ''xpi_ops'' (TPtr ''struct rpc_xprt_iter_ops'')]"

definition st_uclamp_bucket :: ty where
  "st_uclamp_bucket = TStruct ''uclamp_bucket'' False [
    Bits ''value'' (TInt I64 False) 11,
    Bits ''tasks'' (TInt I64 False) 53]"

definition st_rq_depth :: ty where
  "st_rq_depth = TStruct ''rq_depth'' False [
    Plain ''max_depth'' (TInt I32 False),
    Plain ''scale_step'' (TInt I32 True),
    Plain ''scaled_max'' td_bool,
    Plain ''queue_depth'' (TInt I32 False),
    Plain ''default_depth'' (TInt I32 False)]"

definition st_rsa_key :: ty where
  "st_rsa_key = TStruct ''rsa_key'' False [
    Plain ''n'' (TPtr ''u8''),
    Plain ''e'' (TPtr ''u8''),
    Plain ''d'' (TPtr ''u8''),
    Plain ''p'' (TPtr ''u8''),
    Plain ''q'' (TPtr ''u8''),
    Plain ''dp'' (TPtr ''u8''),
    Plain ''dq'' (TPtr ''u8''),
    Plain ''qinv'' (TPtr ''u8''),
    Plain ''n_sz'' td_size_t,
    Plain ''e_sz'' td_size_t,
    Plain ''d_sz'' td_size_t,
    Plain ''p_sz'' td_size_t,
    Plain ''q_sz'' td_size_t,
    Plain ''dp_sz'' td_size_t,
    Plain ''dq_sz'' td_size_t,
    Plain ''qinv_sz'' td_size_t]"

definition st_rseq_slice_ctrl :: ty where
  "st_rseq_slice_ctrl = TStruct ''rseq_slice_ctrl'' False [
    Plain '''' (TUnion '''' False [
      Plain ''all'' td___u32,
      Plain '''' (TStruct '''' False [
        Plain ''request'' td___u8,
        Plain ''granted'' td___u8,
        Plain ''__reserved'' td___u16])])]"

definition st_rseq_event :: ty where
  "st_rseq_event = TStruct ''rseq_event'' False [
    Plain '''' (TUnion '''' False [
      Plain ''all'' td_u64,
      Plain '''' (TStruct '''' False [
        Plain '''' (TUnion '''' False [
          Plain ''events'' td_u32,
          Plain '''' (TStruct '''' False [
            Plain ''sched_switch'' td_u8,
            Plain ''ids_changed'' td_u8,
            Plain ''user_irq'' td_u8])]),
        Plain ''has_rseq'' td_u8,
        Plain ''__pad'' td_u8,
        Plain '''' (TUnion '''' False [
          Plain ''error'' td_u16,
          Plain '''' (TStruct '''' False [
            Plain ''fatal'' td_u8,
            Plain ''slowpath'' td_u8])])])])]"

definition st_sigcontext_64 :: ty where
  "st_sigcontext_64 = TStruct ''sigcontext_64'' False [
    Plain ''r8'' td___u64,
    Plain ''r9'' td___u64,
    Plain ''r10'' td___u64,
    Plain ''r11'' td___u64,
    Plain ''r12'' td___u64,
    Plain ''r13'' td___u64,
    Plain ''r14'' td___u64,
    Plain ''r15'' td___u64,
    Plain ''di'' td___u64,
    Plain ''si'' td___u64,
    Plain ''bp'' td___u64,
    Plain ''bx'' td___u64,
    Plain ''dx'' td___u64,
    Plain ''ax'' td___u64,
    Plain ''cx'' td___u64,
    Plain ''sp'' td___u64,
    Plain ''ip'' td___u64,
    Plain ''flags'' td___u64,
    Plain ''cs'' td___u16,
    Plain ''gs'' td___u16,
    Plain ''fs'' td___u16,
    Plain ''ss'' td___u16,
    Plain ''err'' td___u64,
    Plain ''trapno'' td___u64,
    Plain ''oldmask'' td___u64,
    Plain ''cr2'' td___u64,
    Plain ''fpstate'' td___u64,
    Plain ''reserved1'' (TArr td___u64 8)]"

definition st_sigcontext_32 :: ty where
  "st_sigcontext_32 = TStruct ''sigcontext_32'' False [
    Plain ''gs'' td___u16,
    Plain ''__gsh'' td___u16,
    Plain ''fs'' td___u16,
    Plain ''__fsh'' td___u16,
    Plain ''es'' td___u16,
    Plain ''__esh'' td___u16,
    Plain ''ds'' td___u16,
    Plain ''__dsh'' td___u16,
    Plain ''di'' td___u32,
    Plain ''si'' td___u32,
    Plain ''bp'' td___u32,
    Plain ''sp'' td___u32,
    Plain ''bx'' td___u32,
    Plain ''dx'' td___u32,
    Plain ''cx'' td___u32,
    Plain ''ax'' td___u32,
    Plain ''trapno'' td___u32,
    Plain ''err'' td___u32,
    Plain ''ip'' td___u32,
    Plain ''cs'' td___u16,
    Plain ''__csh'' td___u16,
    Plain ''flags'' td___u32,
    Plain ''sp_at_signal'' td___u32,
    Plain ''ss'' td___u16,
    Plain ''__ssh'' td___u16,
    Plain ''fpstate'' td___u32,
    Plain ''oldmask'' td___u32,
    Plain ''cr2'' td___u32]"

definition st_rtnl_link_stats :: ty where
  "st_rtnl_link_stats = TStruct ''rtnl_link_stats'' False [
    Plain ''rx_packets'' td___u32,
    Plain ''tx_packets'' td___u32,
    Plain ''rx_bytes'' td___u32,
    Plain ''tx_bytes'' td___u32,
    Plain ''rx_errors'' td___u32,
    Plain ''tx_errors'' td___u32,
    Plain ''rx_dropped'' td___u32,
    Plain ''tx_dropped'' td___u32,
    Plain ''multicast'' td___u32,
    Plain ''collisions'' td___u32,
    Plain ''rx_length_errors'' td___u32,
    Plain ''rx_over_errors'' td___u32,
    Plain ''rx_crc_errors'' td___u32,
    Plain ''rx_frame_errors'' td___u32,
    Plain ''rx_fifo_errors'' td___u32,
    Plain ''rx_missed_errors'' td___u32,
    Plain ''tx_aborted_errors'' td___u32,
    Plain ''tx_carrier_errors'' td___u32,
    Plain ''tx_fifo_errors'' td___u32,
    Plain ''tx_heartbeat_errors'' td___u32,
    Plain ''tx_window_errors'' td___u32,
    Plain ''rx_compressed'' td___u32,
    Plain ''tx_compressed'' td___u32,
    Plain ''rx_nohandler'' td___u32]"

definition st_rwrt_feature_desc :: ty where
  "st_rwrt_feature_desc = TStruct ''rwrt_feature_desc'' False [
    Plain ''feature_code'' td___be16,
    Bits ''curr'' td___u8 1,
    Bits ''persistent'' td___u8 1,
    Bits ''feature_version'' td___u8 4,
    Bits ''reserved1'' td___u8 2,
    Plain ''add_len'' td___u8,
    Plain ''last_lba'' td___u32,
    Plain ''block_size'' td___u32,
    Plain ''blocking'' td___u16,
    Bits ''page_present'' td___u8 1,
    Bits ''reserved2'' td___u8 7,
    Plain ''reserved3'' td___u8]"

definition st_s3_save :: ty where
  "st_s3_save = TStruct ''s3_save'' False [
    Plain ''command'' td_u32,
    Plain ''dev_nt'' td_u32,
    Plain ''dcbaa_ptr'' td_u64,
    Plain ''config_reg'' td_u32]"

definition st_saved_msrs :: ty where
  "st_saved_msrs = TStruct ''saved_msrs'' False [
    Plain ''num'' (TInt I32 False),
    Plain ''array'' (TPtr ''struct saved_msr'')]"

definition st_sched_statistics :: ty where
  "st_sched_statistics = TStruct ''sched_statistics'' False [
    Plain ''wait_start'' td_u64,
    Plain ''wait_max'' td_u64,
    Plain ''wait_count'' td_u64,
    Plain ''wait_sum'' td_u64,
    Plain ''iowait_count'' td_u64,
    Plain ''iowait_sum'' td_u64,
    Plain ''sleep_start'' td_u64,
    Plain ''sleep_max'' td_u64,
    Plain ''sum_sleep_runtime'' td_s64,
    Plain ''block_start'' td_u64,
    Plain ''block_max'' td_u64,
    Plain ''sum_block_runtime'' td_s64,
    Plain ''exec_max'' td_s64,
    Plain ''slice_max'' td_u64,
    Plain ''nr_migrations_cold'' td_u64,
    Plain ''nr_failed_migrations_affine'' td_u64,
    Plain ''nr_failed_migrations_running'' td_u64,
    Plain ''nr_failed_migrations_hot'' td_u64,
    Plain ''nr_forced_migrations'' td_u64,
    Plain ''nr_wakeups'' td_u64,
    Plain ''nr_wakeups_sync'' td_u64,
    Plain ''nr_wakeups_migrate'' td_u64,
    Plain ''nr_wakeups_local'' td_u64,
    Plain ''nr_wakeups_remote'' td_u64,
    Plain ''nr_wakeups_affine'' td_u64,
    Plain ''nr_wakeups_affine_attempts'' td_u64,
    Plain ''nr_wakeups_passive'' td_u64,
    Plain ''nr_wakeups_idle'' td_u64,
    Plain ''core_forceidle_sum'' td_u64,
    Bits '''' (TInt I64 True) 64,
    Bits '''' (TInt I64 True) 64,
    Bits '''' (TInt I64 True) 64]"

definition st_scm_stat :: ty where
  "st_scm_stat = TStruct ''scm_stat'' False [
    Plain ''nr_fds'' td_atomic_t,
    Plain ''nr_unix_fds'' (TInt I64 False)]"

definition st_zoned_disk_info :: ty where
  "st_zoned_disk_info = TStruct ''zoned_disk_info'' False [
    Plain ''nr_zones'' td_u32,
    Plain ''zone_blocks'' td_u32]"

definition st_scsi_io_group_descriptor :: ty where
  "st_scsi_io_group_descriptor = TStruct ''scsi_io_group_descriptor'' False [
    Bits ''ic_enable'' td_u8 1,
    Bits ''cs_enble'' td_u8 1,
    Bits ''st_enble'' td_u8 1,
    Bits ''reserved1'' td_u8 3,
    Bits ''io_advice_hints_mode'' td_u8 2,
    Plain ''reserved2'' (TArr td_u8 3),
    Bits ''lbm_descriptor_type'' td_u8 4,
    Bits ''rlbsr'' td_u8 2,
    Bits ''reserved3'' td_u8 1,
    Bits ''acdlu'' td_u8 1,
    Plain ''params'' (TArr td_u8 2),
    Plain ''reserved4'' td_u8,
    Plain ''reserved5'' (TArr td_u8 8)]"

definition st_sockaddr_inet :: ty where
  "st_sockaddr_inet = TStruct ''sockaddr_inet'' False [
    Plain ''sa_family'' (TInt I16 False),
    Plain ''sa_data'' (TArr (TInt I8 True) 26)]"

definition st_sctp_tsnmap :: ty where
  "st_sctp_tsnmap = TStruct ''sctp_tsnmap'' False [
    Plain ''tsn_map'' (TPtr ''long unsigned int''),
    Plain ''base_tsn'' td___u32,
    Plain ''cumulative_tsn_ack_point'' td___u32,
    Plain ''max_tsn_seen'' td___u32,
    Plain ''len'' td___u16,
    Plain ''pending_data'' td___u16,
    Plain ''num_dup_tsns'' td___u16,
    Plain ''dup_tsns'' (TArr td___be32 16)]"

definition st_sctp_inithdr_host :: ty where
  "st_sctp_inithdr_host = TStruct ''sctp_inithdr_host'' False [
    Plain ''init_tag'' td___u32,
    Plain ''a_rwnd'' td___u32,
    Plain ''num_outbound_streams'' td___u16,
    Plain ''num_inbound_streams'' td___u16,
    Plain ''initial_tsn'' td___u32]"

definition st_sctp_stream_out :: ty where
  "st_sctp_stream_out = TStruct ''sctp_stream_out'' False [
    Plain '''' (TUnion '''' False [
      Plain ''mid'' td___u32,
      Plain ''ssn'' td___u16]),
    Plain ''mid_uo'' td___u32,
    Plain ''ext'' (TPtr ''struct sctp_stream_out_ext''),
    Plain ''state'' td___u8]"

definition st_sctp_stream_in :: ty where
  "st_sctp_stream_in = TStruct ''sctp_stream_in'' False [
    Plain '''' (TUnion '''' False [
      Plain ''mid'' td___u32,
      Plain ''ssn'' td___u16]),
    Plain ''mid_uo'' td___u32,
    Plain ''fsn'' td___u32,
    Plain ''fsn_uo'' td___u32,
    Plain ''pd_mode'' (TInt I8 True),
    Plain ''pd_mode_uo'' (TInt I8 True)]"

definition st_sctp_assocparams :: ty where
  "st_sctp_assocparams = TStruct ''sctp_assocparams'' False [
    Plain ''sasoc_assoc_id'' td_sctp_assoc_t,
    Plain ''sasoc_asocmaxrxt'' td___u16,
    Plain ''sasoc_number_peer_destinations'' td___u16,
    Plain ''sasoc_peer_rwnd'' td___u32,
    Plain ''sasoc_local_rwnd'' td___u32,
    Plain ''sasoc_cookie_life'' td___u32]"

definition st_sctp_initmsg :: ty where
  "st_sctp_initmsg = TStruct ''sctp_initmsg'' False [
    Plain ''sinit_num_ostreams'' td___u16,
    Plain ''sinit_max_instreams'' td___u16,
    Plain ''sinit_max_attempts'' td___u16,
    Plain ''sinit_max_init_timeo'' td___u16]"

definition st_sctp_rtoinfo :: ty where
  "st_sctp_rtoinfo = TStruct ''sctp_rtoinfo'' False [
    Plain ''srto_assoc_id'' td_sctp_assoc_t,
    Plain ''srto_initial'' td___u32,
    Plain ''srto_max'' td___u32,
    Plain ''srto_min'' td___u32]"

definition st_sctp_ulpevent :: ty where
  "st_sctp_ulpevent = TStruct ''sctp_ulpevent'' True [
    Plain ''asoc'' (TPtr ''struct sctp_association''),
    Plain ''chunk'' (TPtr ''struct sctp_chunk''),
    Plain ''rmem_len'' (TInt I32 False),
    Plain '''' (TUnion '''' False [
      Plain ''mid'' td___u32,
      Plain ''ssn'' td___u16]),
    Plain '''' (TUnion '''' False [
      Plain ''ppid'' td___u32,
      Plain ''fsn'' td___u32]),
    Plain ''tsn'' td___u32,
    Plain ''cumtsn'' td___u32,
    Plain ''stream'' td___u16,
    Plain ''flags'' td___u16,
    Plain ''msg_flags'' td___u16]"

definition st_scx_task_group :: ty where
  "st_scx_task_group = TStruct ''scx_task_group'' False [
    Plain ''flags'' td_u32,
    Plain ''weight'' td_u32,
    Plain ''bw_period_us'' td_u64,
    Plain ''bw_quota_us'' td_u64,
    Plain ''bw_burst_us'' td_u64,
    Plain ''idle'' td_bool]"

definition st_sg_lb_stats :: ty where
  "st_sg_lb_stats = TStruct ''sg_lb_stats'' False [
    Plain ''avg_load'' (TInt I64 False),
    Plain ''group_load'' (TInt I64 False),
    Plain ''group_capacity'' (TInt I64 False),
    Plain ''group_util'' (TInt I64 False),
    Plain ''group_runnable'' (TInt I64 False),
    Plain ''sum_nr_running'' (TInt I32 False),
    Plain ''sum_h_nr_running'' (TInt I32 False),
    Plain ''idle_cpus'' (TInt I32 False),
    Plain ''group_weight'' (TInt I32 False),
    Plain ''group_type'' (TEnum ''group_type'' I32),
    Plain ''group_asym_packing'' (TInt I32 False),
    Plain ''group_smt_balance'' (TInt I32 False),
    Plain ''group_misfit_task_load'' (TInt I64 False),
    Plain ''nr_numa_running'' (TInt I32 False),
    Plain ''nr_preferred_running'' (TInt I32 False)]"

definition st_secrets_os_area :: ty where
  "st_secrets_os_area = TStruct ''secrets_os_area'' False [
    Plain ''msg_seqno_0'' td_u32,
    Plain ''msg_seqno_1'' td_u32,
    Plain ''msg_seqno_2'' td_u32,
    Plain ''msg_seqno_3'' td_u32,
    Plain ''ap_jump_table_pa'' td_u64,
    Plain ''rsvd'' (TArr td_u8 40),
    Plain ''guest_usage'' (TArr td_u8 32)]"

definition st_serial_icounter_struct :: ty where
  "st_serial_icounter_struct = TStruct ''serial_icounter_struct'' False [
    Plain ''cts'' (TInt I32 True),
    Plain ''dsr'' (TInt I32 True),
    Plain ''rng'' (TInt I32 True),
    Plain ''dcd'' (TInt I32 True),
    Plain ''rx'' (TInt I32 True),
    Plain ''tx'' (TInt I32 True),
    Plain ''frame'' (TInt I32 True),
    Plain ''overrun'' (TInt I32 True),
    Plain ''parity'' (TInt I32 True),
    Plain ''brk'' (TInt I32 True),
    Plain ''buf_overrun'' (TInt I32 True),
    Plain ''reserved'' (TArr (TInt I32 True) 9)]"

definition st_serial_struct :: ty where
  "st_serial_struct = TStruct ''serial_struct'' False [
    Plain ''type'' (TInt I32 True),
    Plain ''line'' (TInt I32 True),
    Plain ''port'' (TInt I32 False),
    Plain ''irq'' (TInt I32 True),
    Plain ''flags'' (TInt I32 True),
    Plain ''xmit_fifo_size'' (TInt I32 True),
    Plain ''custom_divisor'' (TInt I32 True),
    Plain ''baud_base'' (TInt I32 True),
    Plain ''close_delay'' (TInt I16 False),
    Plain ''io_type'' (TInt I8 True),
    Plain ''reserved_char'' (TArr (TInt I8 True) 1),
    Plain ''hub6'' (TInt I32 True),
    Plain ''closing_wait'' (TInt I16 False),
    Plain ''closing_wait2'' (TInt I16 False),
    Plain ''iomem_base'' (TPtr ''unsigned char''),
    Plain ''iomem_reg_shift'' (TInt I16 False),
    Plain ''port_high'' (TInt I32 False),
    Plain ''iomap_base'' (TInt I64 False)]"

definition st_serial_struct32 :: ty where
  "st_serial_struct32 = TStruct ''serial_struct32'' False [
    Plain ''type'' td_compat_int_t,
    Plain ''line'' td_compat_int_t,
    Plain ''port'' td_compat_uint_t,
    Plain ''irq'' td_compat_int_t,
    Plain ''flags'' td_compat_int_t,
    Plain ''xmit_fifo_size'' td_compat_int_t,
    Plain ''custom_divisor'' td_compat_int_t,
    Plain ''baud_base'' td_compat_int_t,
    Plain ''close_delay'' (TInt I16 False),
    Plain ''io_type'' (TInt I8 True),
    Plain ''reserved_char'' (TInt I8 True),
    Plain ''hub6'' td_compat_int_t,
    Plain ''closing_wait'' (TInt I16 False),
    Plain ''closing_wait2'' (TInt I16 False),
    Plain ''iomem_base'' td_compat_uint_t,
    Plain ''iomem_reg_shift'' (TInt I16 False),
    Plain ''port_high'' (TInt I32 False),
    Plain ''reserved'' td_compat_int_t]"

definition st_serio_device_id :: ty where
  "st_serio_device_id = TStruct ''serio_device_id'' False [
    Plain ''type'' td___u8,
    Plain ''extra'' td___u8,
    Plain ''id'' td___u8,
    Plain ''proto'' td___u8]"

definition st_vmcb_seg :: ty where
  "st_vmcb_seg = TStruct ''vmcb_seg'' False [
    Plain ''selector'' td_u16,
    Plain ''attrib'' td_u16,
    Plain ''limit'' td_u32,
    Plain ''base'' td_u64]"

definition st_severity :: ty where
  "st_severity = TStruct ''severity'' False [
    Plain ''mask'' td_u64,
    Plain ''result'' td_u64,
    Plain ''sev'' (TInt I8 False),
    Plain ''mcgmask'' (TInt I16 False),
    Plain ''mcgres'' (TInt I16 False),
    Plain ''ser'' (TInt I8 False),
    Plain ''context'' (TInt I8 False),
    Plain ''excp'' (TInt I8 False),
    Plain ''covered'' (TInt I8 False),
    Plain ''cpu_vfm'' (TInt I32 False),
    Plain ''cpu_minstepping'' (TInt I8 False),
    Plain ''bank_lo'' (TInt I8 False),
    Plain ''bank_hi'' (TInt I8 False),
    Plain ''msg'' (TPtr ''char'')]"

definition st_sfp_module_caps :: ty where
  "st_sfp_module_caps = TStruct ''sfp_module_caps'' False [
    Plain ''interfaces'' (TArr (TInt I64 False) 1),
    Plain ''link_modes'' (TArr (TInt I64 False) 2),
    Plain ''may_have_phy'' td_bool,
    Plain ''port'' td_u8]"

definition st_sfp_eeprom_base :: ty where
  "st_sfp_eeprom_base = TStruct ''sfp_eeprom_base'' False [
    Plain ''phys_id'' td_u8,
    Plain ''phys_ext_id'' td_u8,
    Plain ''connector'' td_u8,
    Bits ''if_1x_copper_passive'' td_u8 1,
    Bits ''if_1x_copper_active'' td_u8 1,
    Bits ''if_1x_lx'' td_u8 1,
    Bits ''if_1x_sx'' td_u8 1,
    Bits ''e10g_base_sr'' td_u8 1,
    Bits ''e10g_base_lr'' td_u8 1,
    Bits ''e10g_base_lrm'' td_u8 1,
    Bits ''e10g_base_er'' td_u8 1,
    Bits ''sonet_oc3_short_reach'' td_u8 1,
    Bits ''sonet_oc3_smf_intermediate_reach'' td_u8 1,
    Bits ''sonet_oc3_smf_long_reach'' td_u8 1,
    Bits ''unallocated_5_3'' td_u8 1,
    Bits ''sonet_oc12_short_reach'' td_u8 1,
    Bits ''sonet_oc12_smf_intermediate_reach'' td_u8 1,
    Bits ''sonet_oc12_smf_long_reach'' td_u8 1,
    Bits ''unallocated_5_7'' td_u8 1,
    Bits ''sonet_oc48_short_reach'' td_u8 1,
    Bits ''sonet_oc48_intermediate_reach'' td_u8 1,
    Bits ''sonet_oc48_long_reach'' td_u8 1,
    Bits ''sonet_reach_bit2'' td_u8 1,
    Bits ''sonet_reach_bit1'' td_u8 1,
    Bits ''sonet_oc192_short_reach'' td_u8 1,
    Bits ''escon_smf_1310_laser'' td_u8 1,
    Bits ''escon_mmf_1310_led'' td_u8 1,
    Bits ''e1000_base_sx'' td_u8 1,
    Bits ''e1000_base_lx'' td_u8 1,
    Bits ''e1000_base_cx'' td_u8 1,
    Bits ''e1000_base_t'' td_u8 1,
    Bits ''e100_base_lx'' td_u8 1,
    Bits ''e100_base_fx'' td_u8 1,
    Bits ''e_base_bx10'' td_u8 1,
    Bits ''e_base_px'' td_u8 1,
    Bits ''fc_tech_electrical_inter_enclosure'' td_u8 1,
    Bits ''fc_tech_lc'' td_u8 1,
    Bits ''fc_tech_sa'' td_u8 1,
    Bits ''fc_ll_m'' td_u8 1,
    Bits ''fc_ll_l'' td_u8 1,
    Bits ''fc_ll_i'' td_u8 1,
    Bits ''fc_ll_s'' td_u8 1,
    Bits ''fc_ll_v'' td_u8 1,
    Bits ''unallocated_8_0'' td_u8 1,
    Bits ''unallocated_8_1'' td_u8 1,
    Bits ''sfp_ct_passive'' td_u8 1,
    Bits ''sfp_ct_active'' td_u8 1,
    Bits ''fc_tech_ll'' td_u8 1,
    Bits ''fc_tech_sl'' td_u8 1,
    Bits ''fc_tech_sn'' td_u8 1,
    Bits ''fc_tech_electrical_intra_enclosure'' td_u8 1,
    Bits ''fc_media_sm'' td_u8 1,
    Bits ''unallocated_9_1'' td_u8 1,
    Bits ''fc_media_m5'' td_u8 1,
    Bits ''fc_media_m6'' td_u8 1,
    Bits ''fc_media_tv'' td_u8 1,
    Bits ''fc_media_mi'' td_u8 1,
    Bits ''fc_media_tp'' td_u8 1,
    Bits ''fc_media_tw'' td_u8 1,
    Bits ''fc_speed_100'' td_u8 1,
    Bits ''unallocated_10_1'' td_u8 1,
    Bits ''fc_speed_200'' td_u8 1,
    Bits ''fc_speed_3200'' td_u8 1,
    Bits ''fc_speed_400'' td_u8 1,
    Bits ''fc_speed_1600'' td_u8 1,
    Bits ''fc_speed_800'' td_u8 1,
    Bits ''fc_speed_1200'' td_u8 1,
    Plain ''encoding'' td_u8,
    Plain ''br_nominal'' td_u8,
    Plain ''rate_id'' td_u8,
    Plain ''link_len'' (TArr td_u8 6),
    Plain ''vendor_name'' (TArr (TInt I8 True) 16),
    Plain ''extended_cc'' td_u8,
    Plain ''vendor_oui'' (TArr (TInt I8 True) 3),
    Plain ''vendor_pn'' (TArr (TInt I8 True) 16),
    Plain ''vendor_rev'' (TArr (TInt I8 True) 4),
    Plain '''' (TUnion '''' False [
      Plain ''optical_wavelength'' td___be16,
      Plain ''cable_compliance'' td___be16,
      Plain ''passive'' (TStruct '''' False [
        Bits ''sff8431_app_e'' td_u8 1,
        Bits ''fc_pi_4_app_h'' td_u8 1,
        Bits ''reserved60_2'' td_u8 6,
        Bits ''reserved61'' td_u8 8]),
      Plain ''active'' (TStruct '''' False [
        Bits ''sff8431_app_e'' td_u8 1,
        Bits ''fc_pi_4_app_h'' td_u8 1,
        Bits ''sff8431_lim'' td_u8 1,
        Bits ''fc_pi_4_lim'' td_u8 1,
        Bits ''reserved60_4'' td_u8 4,
        Bits ''reserved61'' td_u8 8])]),
    Plain ''reserved62'' td_u8,
    Plain ''cc_base'' td_u8]"

definition st_sg_io_hdr :: ty where
  "st_sg_io_hdr = TStruct ''sg_io_hdr'' False [
    Plain ''interface_id'' (TInt I32 True),
    Plain ''dxfer_direction'' (TInt I32 True),
    Plain ''cmd_len'' (TInt I8 False),
    Plain ''mx_sb_len'' (TInt I8 False),
    Plain ''iovec_count'' (TInt I16 False),
    Plain ''dxfer_len'' (TInt I32 False),
    Plain ''dxferp'' (TPtr ''void''),
    Plain ''cmdp'' (TPtr ''unsigned char''),
    Plain ''sbp'' (TPtr ''void''),
    Plain ''timeout'' (TInt I32 False),
    Plain ''flags'' (TInt I32 False),
    Plain ''pack_id'' (TInt I32 True),
    Plain ''usr_ptr'' (TPtr ''void''),
    Plain ''status'' (TInt I8 False),
    Plain ''masked_status'' (TInt I8 False),
    Plain ''msg_status'' (TInt I8 False),
    Plain ''sb_len_wr'' (TInt I8 False),
    Plain ''host_status'' (TInt I16 False),
    Plain ''driver_status'' (TInt I16 False),
    Plain ''resid'' (TInt I32 True),
    Plain ''duration'' (TInt I32 False),
    Plain ''info'' (TInt I32 False)]"

definition st_sg_io_v4 :: ty where
  "st_sg_io_v4 = TStruct ''sg_io_v4'' False [
    Plain ''guard'' td___s32,
    Plain ''protocol'' td___u32,
    Plain ''subprotocol'' td___u32,
    Plain ''request_len'' td___u32,
    Plain ''request'' td___u64,
    Plain ''request_tag'' td___u64,
    Plain ''request_attr'' td___u32,
    Plain ''request_priority'' td___u32,
    Plain ''request_extra'' td___u32,
    Plain ''max_response_len'' td___u32,
    Plain ''response'' td___u64,
    Plain ''dout_iovec_count'' td___u32,
    Plain ''dout_xfer_len'' td___u32,
    Plain ''din_iovec_count'' td___u32,
    Plain ''din_xfer_len'' td___u32,
    Plain ''dout_xferp'' td___u64,
    Plain ''din_xferp'' td___u64,
    Plain ''timeout'' td___u32,
    Plain ''flags'' td___u32,
    Plain ''usr_ptr'' td___u64,
    Plain ''spare_in'' td___u32,
    Plain ''driver_status'' td___u32,
    Plain ''transport_status'' td___u32,
    Plain ''device_status'' td___u32,
    Plain ''retry_delay'' td___u32,
    Plain ''info'' td___u32,
    Plain ''duration'' td___u32,
    Plain ''response_len'' td___u32,
    Plain ''din_resid'' td___s32,
    Plain ''dout_resid'' td___s32,
    Plain ''generated_tag'' td___u64,
    Plain ''spare_out'' td___u32,
    Plain ''padding'' td___u32]"

definition st_sgx_encl_page :: ty where
  "st_sgx_encl_page = TStruct ''sgx_encl_page'' False [
    Plain ''desc'' (TInt I64 False),
    Bits ''vm_max_prot_bits'' (TInt I64 False) 8,
    Bits ''type'' (TEnum ''sgx_page_type'' I32) 16,
    Plain ''epc_page'' (TPtr ''struct sgx_epc_page''),
    Plain ''encl'' (TPtr ''struct sgx_encl''),
    Plain ''va_page'' (TPtr ''struct sgx_va_page'')]"

definition st_sgx_secs :: ty where
  "st_sgx_secs = TStruct ''sgx_secs'' False [
    Plain ''size'' td_u64,
    Plain ''base'' td_u64,
    Plain ''ssa_frame_size'' td_u32,
    Plain ''miscselect'' td_u32,
    Plain ''reserved1'' (TArr td_u8 24),
    Plain ''attributes'' td_u64,
    Plain ''xfrm'' td_u64,
    Plain ''mrenclave'' (TArr td_u32 8),
    Plain ''reserved2'' (TArr td_u8 32),
    Plain ''mrsigner'' (TArr td_u32 8),
    Plain ''reserved3'' (TArr td_u8 32),
    Plain ''config_id'' (TArr td_u32 16),
    Plain ''isv_prod_id'' td_u16,
    Plain ''isv_svn'' td_u16,
    Plain ''config_svn'' td_u16,
    Plain ''reserved4'' (TArr td_u8 3834)]"

definition st_sha1_hash :: ty where
  "st_sha1_hash = TStruct ''sha1_hash'' False [
    Plain ''hash'' (TArr td_u8 20)]"

definition st_shmem_quota_limits :: ty where
  "st_shmem_quota_limits = TStruct ''shmem_quota_limits'' False [
    Plain ''usrquota_bhardlimit'' td_qsize_t,
    Plain ''usrquota_ihardlimit'' td_qsize_t,
    Plain ''grpquota_bhardlimit'' td_qsize_t,
    Plain ''grpquota_ihardlimit'' td_qsize_t]"

definition st_task_cputime_atomic :: ty where
  "st_task_cputime_atomic = TStruct ''task_cputime_atomic'' False [
    Plain ''utime'' td_atomic64_t,
    Plain ''stime'' td_atomic64_t,
    Plain ''sum_exec_runtime'' td_atomic64_t]"

definition st_task_io_accounting :: ty where
  "st_task_io_accounting = TStruct ''task_io_accounting'' False [
    Plain ''rchar'' td_u64,
    Plain ''wchar'' td_u64,
    Plain ''syscr'' td_u64,
    Plain ''syscw'' td_u64,
    Plain ''read_bytes'' td_u64,
    Plain ''write_bytes'' td_u64,
    Plain ''cancelled_write_bytes'' td_u64]"

definition st_signalfd_siginfo :: ty where
  "st_signalfd_siginfo = TStruct ''signalfd_siginfo'' False [
    Plain ''ssi_signo'' td___u32,
    Plain ''ssi_errno'' td___s32,
    Plain ''ssi_code'' td___s32,
    Plain ''ssi_pid'' td___u32,
    Plain ''ssi_uid'' td___u32,
    Plain ''ssi_fd'' td___s32,
    Plain ''ssi_tid'' td___u32,
    Plain ''ssi_band'' td___u32,
    Plain ''ssi_overrun'' td___u32,
    Plain ''ssi_trapno'' td___u32,
    Plain ''ssi_status'' td___s32,
    Plain ''ssi_int'' td___s32,
    Plain ''ssi_ptr'' td___u64,
    Plain ''ssi_utime'' td___u64,
    Plain ''ssi_stime'' td___u64,
    Plain ''ssi_addr'' td___u64,
    Plain ''ssi_addr_lsb'' td___u16,
    Plain ''__pad2'' td___u16,
    Plain ''ssi_syscall'' td___s32,
    Plain ''ssi_call_addr'' td___u64,
    Plain ''ssi_arch'' td___u32,
    Plain ''__pad'' (TArr td___u8 28)]"

definition st_sk_security_struct :: ty where
  "st_sk_security_struct = TStruct ''sk_security_struct'' False [
    Plain ''nlbl_state'' (TEnum '''' I32),
    Plain ''nlbl_secattr'' (TPtr ''struct netlbl_lsm_secattr''),
    Plain ''sid'' td_u32,
    Plain ''peer_sid'' td_u32,
    Plain ''sclass'' td_u16,
    Plain ''sctp_assoc_state'' (TEnum '''' I32)]"

definition st_skb_frag :: ty where
  "st_skb_frag = TStruct ''skb_frag'' False [
    Plain ''netmem'' td_netmem_ref,
    Plain ''len'' (TInt I32 False),
    Plain ''offset'' (TInt I32 False)]"

definition st_skb_shared_hwtstamps :: ty where
  "st_skb_shared_hwtstamps = TStruct ''skb_shared_hwtstamps'' False [
    Plain '''' (TUnion '''' False [
      Plain ''hwtstamp'' td_ktime_t,
      Plain ''netdev_data'' (TPtr ''void'')])]"

definition st_xsk_tx_metadata_compl :: ty where
  "st_xsk_tx_metadata_compl = TStruct ''xsk_tx_metadata_compl'' False [
    Plain ''tx_timestamp'' (TPtr ''__u64'')]"

definition st_slcompress :: ty where
  "st_slcompress = TStruct ''slcompress'' False [
    Plain ''tstate'' (TPtr ''struct cstate''),
    Plain ''rstate'' (TPtr ''struct cstate''),
    Plain ''tslot_limit'' td_byte_t,
    Plain ''rslot_limit'' td_byte_t,
    Plain ''xmit_oldest'' td_byte_t,
    Plain ''xmit_current'' td_byte_t,
    Plain ''recv_current'' td_byte_t,
    Plain ''flags'' td_byte_t,
    Plain ''sls_o_nontcp'' td_int32,
    Plain ''sls_o_tcp'' td_int32,
    Plain ''sls_o_uncompressed'' td_int32,
    Plain ''sls_o_compressed'' td_int32,
    Plain ''sls_o_searches'' td_int32,
    Plain ''sls_o_misses'' td_int32,
    Plain ''sls_i_uncompressed'' td_int32,
    Plain ''sls_i_compressed'' td_int32,
    Plain ''sls_i_error'' td_int32,
    Plain ''sls_i_tossed'' td_int32,
    Plain ''sls_i_runt'' td_int32,
    Plain ''sls_i_badcheck'' td_int32]"

definition st_snp_guest_msg_hdr :: ty where
  "st_snp_guest_msg_hdr = TStruct ''snp_guest_msg_hdr'' False [
    Plain ''authtag'' (TArr td_u8 32),
    Plain ''msg_seqno'' td_u64,
    Plain ''rsvd1'' (TArr td_u8 8),
    Plain ''algo'' td_u8,
    Plain ''hdr_version'' td_u8,
    Plain ''hdr_sz'' td_u16,
    Plain ''msg_type'' td_u8,
    Plain ''msg_version'' td_u8,
    Plain ''msg_sz'' td_u16,
    Plain ''rsvd2'' td_u32,
    Plain ''msg_vmpck'' td_u8,
    Plain ''rsvd3'' (TArr td_u8 35)]"

definition st_sock_fprog :: ty where
  "st_sock_fprog = TStruct ''sock_fprog'' False [
    Plain ''len'' (TInt I16 False),
    Plain ''filter'' (TPtr ''struct sock_filter'')]"

definition st_spi_mem_op :: ty where
  "st_spi_mem_op = TStruct ''spi_mem_op'' False [
    Plain ''cmd'' (TStruct '''' False [
      Plain ''nbytes'' td_u8,
      Plain ''buswidth'' td_u8,
      Bits ''dtr'' td_u8 1,
      Bits ''__pad'' td_u8 7,
      Plain ''opcode'' td_u16]),
    Plain ''addr'' (TStruct '''' False [
      Plain ''nbytes'' td_u8,
      Plain ''buswidth'' td_u8,
      Bits ''dtr'' td_u8 1,
      Bits ''__pad'' td_u8 7,
      Plain ''val'' td_u64]),
    Plain ''dummy'' (TStruct '''' False [
      Plain ''nbytes'' td_u8,
      Plain ''buswidth'' td_u8,
      Bits ''dtr'' td_u8 1,
      Bits ''__pad'' td_u8 7]),
    Plain ''data'' (TStruct '''' False [
      Plain ''buswidth'' td_u8,
      Bits ''dtr'' td_u8 1,
      Bits ''ecc'' td_u8 1,
      Bits ''swap16'' td_u8 1,
      Bits ''__pad'' td_u8 5,
      Plain ''dir'' (TEnum ''spi_mem_data_dir'' I32),
      Plain ''nbytes'' (TInt I32 False),
      Plain ''buf'' (TUnion '''' False [
        Plain ''in'' (TPtr ''void''),
        Plain ''out'' (TPtr ''void'')])]),
    Plain ''max_freq'' (TInt I32 False)]"

definition st_splice_desc :: ty where
  "st_splice_desc = TStruct ''splice_desc'' False [
    Plain ''total_len'' td_size_t,
    Plain ''len'' (TInt I32 False),
    Plain ''flags'' (TInt I32 False),
    Plain ''u'' (TUnion '''' False [
      Plain ''userptr'' (TPtr ''void''),
      Plain ''file'' (TPtr ''struct file''),
      Plain ''data'' (TPtr ''void'')]),
    Plain ''splice_eof'' (TFun ''void (*)(struct splice_desc *)''),
    Plain ''pos'' td_loff_t,
    Plain ''opos'' (TPtr ''loff_t''),
    Plain ''num_spliced'' td_size_t,
    Plain ''need_wakeup'' td_bool]"

definition st_squashfs_dir_index :: ty where
  "st_squashfs_dir_index = TStruct ''squashfs_dir_index'' False [
    Plain ''index'' td___le32,
    Plain ''start_block'' td___le32,
    Plain ''size'' td___le32,
    Plain ''name'' (TArr (TInt I8 False) 0)]"

definition st_squashfs_lreg_inode :: ty where
  "st_squashfs_lreg_inode = TStruct ''squashfs_lreg_inode'' False [
    Plain ''inode_type'' td___le16,
    Plain ''mode'' td___le16,
    Plain ''uid'' td___le16,
    Plain ''guid'' td___le16,
    Plain ''mtime'' td___le32,
    Plain ''inode_number'' td___le32,
    Plain ''start_block'' td___le64,
    Plain ''file_size'' td___le64,
    Plain ''sparse'' td___le64,
    Plain ''nlink'' td___le32,
    Plain ''fragment'' td___le32,
    Plain ''offset'' td___le32,
    Plain ''xattr'' td___le32,
    Plain ''block_list'' (TArr td___le16 0)]"

definition st_squashfs_page_actor :: ty where
  "st_squashfs_page_actor = TStruct ''squashfs_page_actor'' False [
    Plain '''' (TUnion '''' False [
      Plain ''buffer'' (TPtr ''void *''),
      Plain ''page'' (TPtr ''struct page *'')]),
    Plain ''pageaddr'' (TPtr ''void''),
    Plain ''tmp_buffer'' (TPtr ''void''),
    Plain ''squashfs_first_page'' (TFun ''void * (*)(struct squashfs_page_actor *)''),
    Plain ''squashfs_next_page'' (TFun ''void * (*)(struct squashfs_page_actor *)''),
    Plain ''squashfs_finish_page'' (TFun ''void (*)(struct squashfs_page_actor *)''),
    Plain ''last_page'' (TPtr ''struct page''),
    Plain ''pages'' (TInt I32 True),
    Plain ''length'' (TInt I32 True),
    Plain ''next_page'' (TInt I32 True),
    Plain ''alloc_buffer'' (TInt I32 True),
    Plain ''returned_pages'' (TInt I32 True),
    Plain ''next_index'' (TInt I64 False)]"

definition st_squashfs_super_block :: ty where
  "st_squashfs_super_block = TStruct ''squashfs_super_block'' False [
    Plain ''s_magic'' td___le32,
    Plain ''inodes'' td___le32,
    Plain ''mkfs_time'' td___le32,
    Plain ''block_size'' td___le32,
    Plain ''fragments'' td___le32,
    Plain ''compression'' td___le16,
    Plain ''block_log'' td___le16,
    Plain ''flags'' td___le16,
    Plain ''no_ids'' td___le16,
    Plain ''s_major'' td___le16,
    Plain ''s_minor'' td___le16,
    Plain ''root_inode'' td___le64,
    Plain ''bytes_used'' td___le64,
    Plain ''id_table_start'' td___le64,
    Plain ''xattr_id_table_start'' td___le64,
    Plain ''inode_table_start'' td___le64,
    Plain ''directory_table_start'' td___le64,
    Plain ''fragment_table_start'' td___le64,
    Plain ''lookup_table_start'' td___le64]"

definition st_srcu_ctr :: ty where
  "st_srcu_ctr = TStruct ''srcu_ctr'' False [
    Plain ''srcu_locks'' td_atomic_long_t,
    Plain ''srcu_unlocks'' td_atomic_long_t]"

definition un_st_info :: ty where
  "un_st_info = TUnion ''st_info'' False [
    Plain '''' (TStruct '''' False [
      Bits ''vm_st_valid'' td_u64 1,
      Bits ''vm_xst_valid'' td_u64 1,
      Bits ''vm_ph_ignore'' td_u64 1,
      Bits ''rsvd1'' td_u64 5,
      Bits ''vm_st'' td_u64 8,
      Bits ''vm_xst'' td_u64 16,
      Bits ''pm_st_valid'' td_u64 1,
      Bits ''pm_xst_valid'' td_u64 1,
      Bits ''pm_ph_ignore'' td_u64 1,
      Bits ''rsvd2'' td_u64 5,
      Bits ''pm_st'' td_u64 8,
      Bits ''pm_xst'' td_u64 16]),
    Plain ''value'' td_u64]"

definition st_start_info :: ty where
  "st_start_info = TStruct ''start_info'' False [
    Plain ''magic'' (TArr (TInt I8 True) 32),
    Plain ''nr_pages'' (TInt I64 False),
    Plain ''shared_info'' (TInt I64 False),
    Plain ''flags'' td_uint32_t,
    Plain ''store_mfn'' td_xen_pfn_t,
    Plain ''store_evtchn'' td_uint32_t,
    Plain ''console'' (TUnion '''' False [
      Plain ''domU'' (TStruct '''' False [
        Plain ''mfn'' td_xen_pfn_t,
        Plain ''evtchn'' td_uint32_t]),
      Plain ''dom0'' (TStruct '''' False [
        Plain ''info_off'' td_uint32_t,
        Plain ''info_size'' td_uint32_t])]),
    Plain ''pt_base'' (TInt I64 False),
    Plain ''nr_pt_frames'' (TInt I64 False),
    Plain ''mfn_list'' (TInt I64 False),
    Plain ''mod_start'' (TInt I64 False),
    Plain ''mod_len'' (TInt I64 False),
    Plain ''cmd_line'' (TArr td_int8_t 1024),
    Plain ''first_p2m_pfn'' (TInt I64 False),
    Plain ''nr_p2m_frames'' (TInt I64 False)]"

definition st_stat :: ty where
  "st_stat = TStruct ''stat'' False [
    Plain ''st_dev'' td___kernel_ulong_t,
    Plain ''st_ino'' td___kernel_ulong_t,
    Plain ''st_nlink'' td___kernel_ulong_t,
    Plain ''st_mode'' (TInt I32 False),
    Plain ''st_uid'' (TInt I32 False),
    Plain ''st_gid'' (TInt I32 False),
    Plain ''__pad0'' (TInt I32 False),
    Plain ''st_rdev'' td___kernel_ulong_t,
    Plain ''st_size'' td___kernel_long_t,
    Plain ''st_blksize'' td___kernel_long_t,
    Plain ''st_blocks'' td___kernel_long_t,
    Plain ''st_atime'' td___kernel_ulong_t,
    Plain ''st_atime_nsec'' td___kernel_ulong_t,
    Plain ''st_mtime'' td___kernel_ulong_t,
    Plain ''st_mtime_nsec'' td___kernel_ulong_t,
    Plain ''st_ctime'' td___kernel_ulong_t,
    Plain ''st_ctime_nsec'' td___kernel_ulong_t,
    Plain ''__unused'' (TArr td___kernel_long_t 3)]"

definition st_stat64 :: ty where
  "st_stat64 = TStruct ''stat64'' True [
    Plain ''st_dev'' (TInt I64 False),
    Plain ''__pad0'' (TArr (TInt I8 False) 4),
    Plain ''__st_ino'' (TInt I32 False),
    Plain ''st_mode'' (TInt I32 False),
    Plain ''st_nlink'' (TInt I32 False),
    Plain ''st_uid'' (TInt I32 False),
    Plain ''st_gid'' (TInt I32 False),
    Plain ''st_rdev'' (TInt I64 False),
    Plain ''__pad3'' (TArr (TInt I8 False) 4),
    Plain ''st_size'' (TInt I64 True),
    Plain ''st_blksize'' (TInt I32 False),
    Plain ''st_blocks'' (TInt I64 True),
    Plain ''st_atime'' (TInt I32 False),
    Plain ''st_atime_nsec'' (TInt I32 False),
    Plain ''st_mtime'' (TInt I32 False),
    Plain ''st_mtime_nsec'' (TInt I32 False),
    Plain ''st_ctime'' (TInt I32 False),
    Plain ''st_ctime_nsec'' (TInt I32 False),
    Plain ''st_ino'' (TInt I64 False)]"

definition st_statfs :: ty where
  "st_statfs = TStruct ''statfs'' False [
    Plain ''f_type'' td___kernel_long_t,
    Plain ''f_bsize'' td___kernel_long_t,
    Plain ''f_blocks'' td___kernel_long_t,
    Plain ''f_bfree'' td___kernel_long_t,
    Plain ''f_bavail'' td___kernel_long_t,
    Plain ''f_files'' td___kernel_long_t,
    Plain ''f_ffree'' td___kernel_long_t,
    Plain ''f_fsid'' td___kernel_fsid_t,
    Plain ''f_namelen'' td___kernel_long_t,
    Plain ''f_frsize'' td___kernel_long_t,
    Plain ''f_flags'' td___kernel_long_t,
    Plain ''f_spare'' (TArr td___kernel_long_t 4)]"

definition st_statfs64 :: ty where
  "st_statfs64 = TStruct ''statfs64'' False [
    Plain ''f_type'' td___kernel_long_t,
    Plain ''f_bsize'' td___kernel_long_t,
    Plain ''f_blocks'' td___u64,
    Plain ''f_bfree'' td___u64,
    Plain ''f_bavail'' td___u64,
    Plain ''f_files'' td___u64,
    Plain ''f_ffree'' td___u64,
    Plain ''f_fsid'' td___kernel_fsid_t,
    Plain ''f_namelen'' td___kernel_long_t,
    Plain ''f_frsize'' td___kernel_long_t,
    Plain ''f_flags'' td___kernel_long_t,
    Plain ''f_spare'' (TArr td___kernel_long_t 4)]"

definition st_statx_timestamp :: ty where
  "st_statx_timestamp = TStruct ''statx_timestamp'' False [
    Plain ''tv_sec'' td___s64,
    Plain ''tv_nsec'' td___u32,
    Plain ''__reserved'' td___s32]"

definition st_sun_info :: ty where
  "st_sun_info = TStruct ''sun_info'' False [
    Plain ''id'' td___be16,
    Plain ''flags'' td___be16]"

definition st_sun_partition :: ty where
  "st_sun_partition = TStruct ''sun_partition'' False [
    Plain ''start_cylinder'' td___be32,
    Plain ''num_sectors'' td___be32]"

definition st_suspend_stats :: ty where
  "st_suspend_stats = TStruct ''suspend_stats'' False [
    Plain ''step_failures'' (TArr (TInt I32 False) 8),
    Plain ''success'' (TInt I32 False),
    Plain ''fail'' (TInt I32 False),
    Plain ''last_failed_dev'' (TInt I32 True),
    Plain ''failed_devs'' (TArr (TInt I8 True) 80),
    Plain ''last_failed_errno'' (TInt I32 True),
    Plain ''errno'' (TArr (TInt I32 True) 2),
    Plain ''last_failed_step'' (TInt I32 True),
    Plain ''last_hw_sleep'' td_u64,
    Plain ''total_hw_sleep'' td_u64,
    Plain ''max_hw_sleep'' td_u64,
    Plain ''failed_steps'' (TArr (TEnum ''suspend_stat_step'' I32) 2)]"

definition st_svc_cred :: ty where
  "st_svc_cred = TStruct ''svc_cred'' False [
    Plain ''cr_uid'' td_kuid_t,
    Plain ''cr_gid'' td_kgid_t,
    Plain ''cr_group_info'' (TPtr ''struct group_info''),
    Plain ''cr_flavor'' td_u32,
    Plain ''cr_raw_principal'' (TPtr ''char''),
    Plain ''cr_principal'' (TPtr ''char''),
    Plain ''cr_targ_princ'' (TPtr ''char''),
    Plain ''cr_gss_mech'' (TPtr ''struct gss_api_mech'')]"

definition un_swap_header :: ty where
  "un_swap_header = TUnion ''swap_header'' False [
    Plain ''magic'' (TStruct '''' False [
      Plain ''reserved'' (TArr (TInt I8 True) 4086),
      Plain ''magic'' (TArr (TInt I8 True) 10)]),
    Plain ''info'' (TStruct '''' False [
      Plain ''bootbits'' (TArr (TInt I8 True) 1024),
      Plain ''version'' td___u32,
      Plain ''last_page'' td___u32,
      Plain ''nr_badpages'' td___u32,
      Plain ''sws_uuid'' (TArr (TInt I8 False) 16),
      Plain ''sws_volume'' (TArr (TInt I8 False) 16),
      Plain ''padding'' (TArr td___u32 117),
      Plain ''badpages'' (TArr td___u32 1)])]"

definition st_switchdev_mst_state :: ty where
  "st_switchdev_mst_state = TStruct ''switchdev_mst_state'' False [
    Plain ''msti'' td_u16,
    Plain ''state'' td_u8]"

definition st_switchdev_brport_flags :: ty where
  "st_switchdev_brport_flags = TStruct ''switchdev_brport_flags'' False [
    Plain ''val'' (TInt I64 False),
    Plain ''mask'' (TInt I64 False)]"

definition st_switchdev_vlan_msti :: ty where
  "st_switchdev_vlan_msti = TStruct ''switchdev_vlan_msti'' False [
    Plain ''vid'' td_u16,
    Plain ''msti'' td_u16]"

definition st_sysinfo :: ty where
  "st_sysinfo = TStruct ''sysinfo'' False [
    Plain ''uptime'' td___kernel_long_t,
    Plain ''loads'' (TArr td___kernel_ulong_t 3),
    Plain ''totalram'' td___kernel_ulong_t,
    Plain ''freeram'' td___kernel_ulong_t,
    Plain ''sharedram'' td___kernel_ulong_t,
    Plain ''bufferram'' td___kernel_ulong_t,
    Plain ''totalswap'' td___kernel_ulong_t,
    Plain ''freeswap'' td___kernel_ulong_t,
    Plain ''procs'' td___u16,
    Plain ''pad'' td___u16,
    Plain ''totalhigh'' td___kernel_ulong_t,
    Plain ''freehigh'' td___kernel_ulong_t,
    Plain ''mem_unit'' td___u32,
    Plain ''_f'' (TArr (TInt I8 True) 0)]"

definition st_tap_filter :: ty where
  "st_tap_filter = TStruct ''tap_filter'' False [
    Plain ''count'' (TInt I32 False),
    Plain ''mask'' (TArr td_u32 2),
    Plain ''addr'' (TArr (TInt I8 False) 48)]"

definition st_uclamp_se :: ty where
  "st_uclamp_se = TStruct ''uclamp_se'' False [
    Bits ''value'' (TInt I32 False) 11,
    Bits ''bucket_id'' (TInt I32 False) 3,
    Bits ''active'' (TInt I32 False) 1,
    Bits ''user_defined'' (TInt I32 False) 1]"

definition st_thread_shstk :: ty where
  "st_thread_shstk = TStruct ''thread_shstk'' False [
    Plain ''base'' td_u64,
    Plain ''size'' td_u64]"

definition st_tcf_t :: ty where
  "st_tcf_t = TStruct ''tcf_t'' False [
    Plain ''install'' td___u64,
    Plain ''lastuse'' td___u64,
    Plain ''expires'' td___u64,
    Plain ''firstuse'' td___u64]"

definition st_tcp_options_received :: ty where
  "st_tcp_options_received = TStruct ''tcp_options_received'' False [
    Plain ''ts_recent_stamp'' (TInt I32 True),
    Plain ''ts_recent'' td_u32,
    Plain ''rcv_tsval'' td_u32,
    Plain ''rcv_tsecr'' td_u32,
    Bits ''saw_tstamp'' td_u16 1,
    Bits ''tstamp_ok'' td_u16 1,
    Bits ''dsack'' td_u16 1,
    Bits ''wscale_ok'' td_u16 1,
    Bits ''sack_ok'' td_u16 3,
    Bits ''smc_ok'' td_u16 1,
    Bits ''snd_wscale'' td_u16 4,
    Bits ''rcv_wscale'' td_u16 4,
    Bits ''accecn'' td_u8 6,
    Bits ''saw_unknown'' td_u8 1,
    Bits ''unused'' td_u8 1,
    Plain ''num_sacks'' td_u8,
    Plain ''user_mss'' td_u16,
    Plain ''mss_clamp'' td_u16]"

definition st_tcp_rack :: ty where
  "st_tcp_rack = TStruct ''tcp_rack'' False [
    Plain ''mstamp'' td_u64,
    Plain ''rtt_us'' td_u32,
    Plain ''end_seq'' td_u32,
    Plain ''last_delivered'' td_u32,
    Plain ''reo_wnd_steps'' td_u8,
    Bits ''reo_wnd_persist'' td_u8 5,
    Bits ''dsack_seen'' td_u8 1,
    Bits ''advanced'' td_u8 1]"

definition st_tcp_sack_block :: ty where
  "st_tcp_sack_block = TStruct ''tcp_sack_block'' False [
    Plain ''start_seq'' td_u32,
    Plain ''end_seq'' td_u32]"

definition st_tcp_ao_counters :: ty where
  "st_tcp_ao_counters = TStruct ''tcp_ao_counters'' False [
    Plain ''pkt_good'' td_atomic64_t,
    Plain ''pkt_bad'' td_atomic64_t,
    Plain ''key_not_found'' td_atomic64_t,
    Plain ''ao_required'' td_atomic64_t,
    Plain ''dropped_icmp'' td_atomic64_t]"

definition st_tcp_ao_info_opt :: ty where
  "st_tcp_ao_info_opt = TStruct ''tcp_ao_info_opt'' False [
    Bits ''set_current'' td___u32 1,
    Bits ''set_rnext'' td___u32 1,
    Bits ''ao_required'' td___u32 1,
    Bits ''set_counters'' td___u32 1,
    Bits ''accept_icmps'' td___u32 1,
    Bits ''reserved'' td___u32 27,
    Plain ''reserved2'' td___u16,
    Plain ''current_key'' td___u8,
    Plain ''rnext'' td___u8,
    Plain ''pkt_good'' td___u64,
    Plain ''pkt_bad'' td___u64,
    Plain ''pkt_key_not_found'' td___u64,
    Plain ''pkt_ao_required'' td___u64,
    Plain ''pkt_dropped_icmp'' td___u64]"

definition st_tcp_info :: ty where
  "st_tcp_info = TStruct ''tcp_info'' False [
    Plain ''tcpi_state'' td___u8,
    Plain ''tcpi_ca_state'' td___u8,
    Plain ''tcpi_retransmits'' td___u8,
    Plain ''tcpi_probes'' td___u8,
    Plain ''tcpi_backoff'' td___u8,
    Plain ''tcpi_options'' td___u8,
    Bits ''tcpi_snd_wscale'' td___u8 4,
    Bits ''tcpi_rcv_wscale'' td___u8 4,
    Bits ''tcpi_delivery_rate_app_limited'' td___u8 1,
    Bits ''tcpi_fastopen_client_fail'' td___u8 2,
    Plain ''tcpi_rto'' td___u32,
    Plain ''tcpi_ato'' td___u32,
    Plain ''tcpi_snd_mss'' td___u32,
    Plain ''tcpi_rcv_mss'' td___u32,
    Plain ''tcpi_unacked'' td___u32,
    Plain ''tcpi_sacked'' td___u32,
    Plain ''tcpi_lost'' td___u32,
    Plain ''tcpi_retrans'' td___u32,
    Plain ''tcpi_fackets'' td___u32,
    Plain ''tcpi_last_data_sent'' td___u32,
    Plain ''tcpi_last_ack_sent'' td___u32,
    Plain ''tcpi_last_data_recv'' td___u32,
    Plain ''tcpi_last_ack_recv'' td___u32,
    Plain ''tcpi_pmtu'' td___u32,
    Plain ''tcpi_rcv_ssthresh'' td___u32,
    Plain ''tcpi_rtt'' td___u32,
    Plain ''tcpi_rttvar'' td___u32,
    Plain ''tcpi_snd_ssthresh'' td___u32,
    Plain ''tcpi_snd_cwnd'' td___u32,
    Plain ''tcpi_advmss'' td___u32,
    Plain ''tcpi_reordering'' td___u32,
    Plain ''tcpi_rcv_rtt'' td___u32,
    Plain ''tcpi_rcv_space'' td___u32,
    Plain ''tcpi_total_retrans'' td___u32,
    Plain ''tcpi_pacing_rate'' td___u64,
    Plain ''tcpi_max_pacing_rate'' td___u64,
    Plain ''tcpi_bytes_acked'' td___u64,
    Plain ''tcpi_bytes_received'' td___u64,
    Plain ''tcpi_segs_out'' td___u32,
    Plain ''tcpi_segs_in'' td___u32,
    Plain ''tcpi_notsent_bytes'' td___u32,
    Plain ''tcpi_min_rtt'' td___u32,
    Plain ''tcpi_data_segs_in'' td___u32,
    Plain ''tcpi_data_segs_out'' td___u32,
    Plain ''tcpi_delivery_rate'' td___u64,
    Plain ''tcpi_busy_time'' td___u64,
    Plain ''tcpi_rwnd_limited'' td___u64,
    Plain ''tcpi_sndbuf_limited'' td___u64,
    Plain ''tcpi_delivered'' td___u32,
    Plain ''tcpi_delivered_ce'' td___u32,
    Plain ''tcpi_bytes_sent'' td___u64,
    Plain ''tcpi_bytes_retrans'' td___u64,
    Plain ''tcpi_dsack_dups'' td___u32,
    Plain ''tcpi_reord_seen'' td___u32,
    Plain ''tcpi_rcv_ooopack'' td___u32,
    Plain ''tcpi_snd_wnd'' td___u32,
    Plain ''tcpi_rcv_wnd'' td___u32,
    Plain ''tcpi_rehash'' td___u32,
    Plain ''tcpi_total_rto'' td___u16,
    Plain ''tcpi_total_rto_recoveries'' td___u16,
    Plain ''tcpi_total_rto_time'' td___u32,
    Plain ''tcpi_received_ce'' td___u32,
    Plain ''tcpi_delivered_e1_bytes'' td___u32,
    Plain ''tcpi_delivered_e0_bytes'' td___u32,
    Plain ''tcpi_delivered_ce_bytes'' td___u32,
    Plain ''tcpi_received_e1_bytes'' td___u32,
    Plain ''tcpi_received_e0_bytes'' td___u32,
    Plain ''tcpi_received_ce_bytes'' td___u32,
    Bits ''tcpi_ecn_mode'' td___u32 2,
    Bits ''tcpi_accecn_opt_seen'' td___u32 2,
    Bits ''tcpi_accecn_fail_mode'' td___u32 4,
    Bits ''tcpi_options2'' td___u32 24]"

definition st_tcp_key :: ty where
  "st_tcp_key = TStruct ''tcp_key'' False [
    Plain '''' (TUnion '''' False [
      Plain '''' (TStruct '''' False [
        Plain ''ao_key'' (TPtr ''struct tcp_ao_key''),
        Plain ''traffic_key'' (TPtr ''char''),
        Plain ''sne'' td_u32,
        Plain ''rcv_next'' td_u8]),
      Plain ''md5_key'' (TPtr ''struct tcp_md5sig_key'')]),
    Plain ''type'' (TEnum '''' I32)]"

definition st_tcp_zerocopy_receive :: ty where
  "st_tcp_zerocopy_receive = TStruct ''tcp_zerocopy_receive'' False [
    Plain ''address'' td___u64,
    Plain ''length'' td___u32,
    Plain ''recv_skip_hint'' td___u32,
    Plain ''inq'' td___u32,
    Plain ''err'' td___s32,
    Plain ''copybuf_address'' td___u64,
    Plain ''copybuf_len'' td___s32,
    Plain ''flags'' td___u32,
    Plain ''msg_control'' td___u64,
    Plain ''msg_controllen'' td___u64,
    Plain ''msg_flags'' td___u32,
    Plain ''reserved'' td___u32]"

definition st_tdmr_reserved_area :: ty where
  "st_tdmr_reserved_area = TStruct ''tdmr_reserved_area'' False [
    Plain ''offset'' td_u64,
    Plain ''size'' td_u64]"

definition st_tdx_module_args :: ty where
  "st_tdx_module_args = TStruct ''tdx_module_args'' False [
    Plain ''rcx'' td_u64,
    Plain ''rdx'' td_u64,
    Plain ''r8'' td_u64,
    Plain ''r9'' td_u64,
    Plain ''r10'' td_u64,
    Plain ''r11'' td_u64,
    Plain ''r12'' td_u64,
    Plain ''r13'' td_u64,
    Plain ''r14'' td_u64,
    Plain ''r15'' td_u64,
    Plain ''rbx'' td_u64,
    Plain ''rdi'' td_u64,
    Plain ''rsi'' td_u64]"

definition st_tk_read_base :: ty where
  "st_tk_read_base = TStruct ''tk_read_base'' False [
    Plain ''clock'' (TPtr ''struct clocksource''),
    Plain ''mask'' td_u64,
    Plain ''cycle_last'' td_u64,
    Plain ''mult'' td_u32,
    Plain ''shift'' td_u32,
    Plain ''xtime_nsec'' td_u64,
    Plain ''base'' td_ktime_t,
    Plain ''base_real'' td_u64]"

definition st_tomoyo_request_info :: ty where
  "st_tomoyo_request_info = TStruct ''tomoyo_request_info'' False [
    Plain ''obj'' (TPtr ''struct tomoyo_obj_info''),
    Plain ''ee'' (TPtr ''struct tomoyo_execve''),
    Plain ''domain'' (TPtr ''struct tomoyo_domain_info''),
    Plain ''param'' (TUnion '''' False [
      Plain ''path'' (TStruct '''' False [
        Plain ''filename'' (TPtr ''struct tomoyo_path_info''),
        Plain ''matched_path'' (TPtr ''struct tomoyo_path_info''),
        Plain ''operation'' td_u8]),
      Plain ''path2'' (TStruct '''' False [
        Plain ''filename1'' (TPtr ''struct tomoyo_path_info''),
        Plain ''filename2'' (TPtr ''struct tomoyo_path_info''),
        Plain ''operation'' td_u8]),
      Plain ''mkdev'' (TStruct '''' False [
        Plain ''filename'' (TPtr ''struct tomoyo_path_info''),
        Plain ''mode'' (TInt I32 False),
        Plain ''major'' (TInt I32 False),
        Plain ''minor'' (TInt I32 False),
        Plain ''operation'' td_u8]),
      Plain ''path_number'' (TStruct '''' False [
        Plain ''filename'' (TPtr ''struct tomoyo_path_info''),
        Plain ''number'' (TInt I64 False),
        Plain ''operation'' td_u8]),
      Plain ''environ'' (TStruct '''' False [
        Plain ''name'' (TPtr ''struct tomoyo_path_info'')]),
      Plain ''inet_network'' (TStruct '''' False [
        Plain ''address'' (TPtr ''__be32''),
        Plain ''port'' td_u16,
        Plain ''protocol'' td_u8,
        Plain ''operation'' td_u8,
        Plain ''is_ipv6'' td_bool]),
      Plain ''unix_network'' (TStruct '''' False [
        Plain ''address'' (TPtr ''struct tomoyo_path_info''),
        Plain ''protocol'' td_u8,
        Plain ''operation'' td_u8]),
      Plain ''mount'' (TStruct '''' False [
        Plain ''type'' (TPtr ''struct tomoyo_path_info''),
        Plain ''dir'' (TPtr ''struct tomoyo_path_info''),
        Plain ''dev'' (TPtr ''struct tomoyo_path_info''),
        Plain ''flags'' (TInt I64 False),
        Plain ''need_dev'' (TInt I32 True)]),
      Plain ''task'' (TStruct '''' False [
        Plain ''domainname'' (TPtr ''struct tomoyo_path_info'')])]),
    Plain ''matched_acl'' (TPtr ''struct tomoyo_acl_info''),
    Plain ''param_type'' td_u8,
    Plain ''granted'' td_bool,
    Plain ''retry'' td_u8,
    Plain ''profile'' td_u8,
    Plain ''mode'' td_u8,
    Plain ''type'' td_u8]"

definition st_tpacket_hdr_variant1 :: ty where
  "st_tpacket_hdr_variant1 = TStruct ''tpacket_hdr_variant1'' False [
    Plain ''tp_rxhash'' td___u32,
    Plain ''tp_vlan_tci'' td___u32,
    Plain ''tp_vlan_tpid'' td___u16,
    Plain ''tp_padding'' td___u16]"

definition st_tpm_bank_info :: ty where
  "st_tpm_bank_info = TStruct ''tpm_bank_info'' False [
    Plain ''alg_id'' td_u16,
    Plain ''digest_size'' td_u16,
    Plain ''crypto_id'' td_u16]"

definition st_tpm_bios_log :: ty where
  "st_tpm_bios_log = TStruct ''tpm_bios_log'' False [
    Plain ''bios_event_log'' (TPtr ''void''),
    Plain ''bios_event_log_end'' (TPtr ''void'')]"

definition st_tpm_chip_seqops :: ty where
  "st_tpm_chip_seqops = TStruct ''tpm_chip_seqops'' False [
    Plain ''chip'' (TPtr ''struct tpm_chip''),
    Plain ''seqops'' (TPtr ''struct seq_operations'')]"

definition st_tpm_space :: ty where
  "st_tpm_space = TStruct ''tpm_space'' False [
    Plain ''context_tbl'' (TArr td_u32 3),
    Plain ''context_buf'' (TPtr ''u8''),
    Plain ''session_tbl'' (TArr td_u32 3),
    Plain ''session_buf'' (TPtr ''u8''),
    Plain ''buf_size'' td_u32]"

definition st_tps65910_sleep_keepon_data :: ty where
  "st_tps65910_sleep_keepon_data = TStruct ''tps65910_sleep_keepon_data'' False [
    Bits ''therm_keepon'' (TInt I32 False) 1,
    Bits ''clkout32k_keepon'' (TInt I32 False) 1,
    Bits ''i2chs_keepon'' (TInt I32 False) 1]"

definition st_trace_array_cpu :: ty where
  "st_trace_array_cpu = TStruct ''trace_array_cpu'' False [
    Plain ''disabled'' td_local_t,
    Plain ''entries'' (TInt I64 False),
    Plain ''saved_latency'' (TInt I64 False),
    Plain ''critical_start'' (TInt I64 False),
    Plain ''critical_end'' (TInt I64 False),
    Plain ''critical_sequence'' (TInt I64 False),
    Plain ''nice'' (TInt I64 False),
    Plain ''policy'' (TInt I64 False),
    Plain ''rt_priority'' (TInt I64 False),
    Plain ''skipped_entries'' (TInt I64 False),
    Plain ''preempt_timestamp'' td_u64,
    Plain ''pid'' td_pid_t,
    Plain ''uid'' td_kuid_t,
    Plain ''comm'' (TArr (TInt I8 True) 16),
    Plain ''ftrace_ignore_pid'' (TInt I32 True),
    Plain ''ignore_pid'' td_bool]"

definition st_trace_buffer_meta :: ty where
  "st_trace_buffer_meta = TStruct ''trace_buffer_meta'' False [
    Plain ''meta_page_size'' td___u32,
    Plain ''meta_struct_len'' td___u32,
    Plain ''subbuf_size'' td___u32,
    Plain ''nr_subbufs'' td___u32,
    Plain ''reader'' (TStruct '''' False [
      Plain ''lost_events'' td___u64,
      Plain ''id'' td___u32,
      Plain ''read'' td___u32]),
    Plain ''flags'' td___u64,
    Plain ''entries'' td___u64,
    Plain ''overrun'' td___u64,
    Plain ''read'' td___u64,
    Plain ''Reserved1'' td___u64,
    Plain ''Reserved2'' td___u64]"

definition st_trace_event_fields :: ty where
  "st_trace_event_fields = TStruct ''trace_event_fields'' False [
    Plain ''type'' (TPtr ''char''),
    Plain '''' (TUnion '''' False [
      Plain '''' (TStruct '''' False [
        Plain ''name'' (TPtr ''char''),
        Plain ''size'' (TInt I32 True),
        Plain ''align'' (TInt I32 True),
        Bits ''is_signed'' (TInt I32 False) 1,
        Bits ''needs_test'' (TInt I32 False) 1,
        Plain ''filter_type'' (TInt I32 True),
        Plain ''len'' (TInt I32 True)]),
      Plain ''define_fields'' (TFun ''int (*)(struct trace_event_call *)'')])]"

definition st_traceprobe_parse_context :: ty where
  "st_traceprobe_parse_context = TStruct ''traceprobe_parse_context'' False [
    Plain ''event'' (TPtr ''struct trace_event_call''),
    Plain ''funcname'' (TPtr ''char''),
    Plain ''proto'' (TPtr ''struct btf_type''),
    Plain ''params'' (TPtr ''struct btf_param''),
    Plain ''nr_params'' td_s32,
    Plain ''btf'' (TPtr ''struct btf''),
    Plain ''last_type'' (TPtr ''struct btf_type''),
    Plain ''last_bitoffs'' td_u32,
    Plain ''last_bitsize'' td_u32,
    Plain ''tp'' (TPtr ''struct trace_probe''),
    Plain ''flags'' (TInt I32 False),
    Plain ''offset'' (TInt I32 True)]"

definition st_tracing_map_field :: ty where
  "st_tracing_map_field = TStruct ''tracing_map_field'' False [
    Plain ''cmp_fn'' td_tracing_map_cmp_fn_t,
    Plain '''' (TUnion '''' False [
      Plain ''sum'' td_atomic64_t,
      Plain ''offset'' (TInt I32 False)])]"

definition st_transaction_chp_stats_s :: ty where
  "st_transaction_chp_stats_s = TStruct ''transaction_chp_stats_s'' False [
    Plain ''cs_chp_time'' (TInt I64 False),
    Plain ''cs_forced_to_close'' td___u32,
    Plain ''cs_written'' td___u32,
    Plain ''cs_dropped'' td___u32]"

definition st_trap_info :: ty where
  "st_trap_info = TStruct ''trap_info'' False [
    Plain ''vector'' td_uint8_t,
    Plain ''flags'' td_uint8_t,
    Plain ''cs'' td_uint16_t,
    Plain ''address'' (TInt I64 False)]"

definition st_trusted_key_options :: ty where
  "st_trusted_key_options = TStruct ''trusted_key_options'' False [
    Plain ''keytype'' td_uint16_t,
    Plain ''keyhandle'' td_uint32_t,
    Plain ''keyauth'' (TArr (TInt I8 False) 20),
    Plain ''blobauth_len'' td_uint32_t,
    Plain ''blobauth'' (TArr (TInt I8 False) 20),
    Plain ''pcrinfo_len'' td_uint32_t,
    Plain ''pcrinfo'' (TArr (TInt I8 False) 64),
    Plain ''pcrlock'' (TInt I32 True),
    Plain ''hash'' td_uint32_t,
    Plain ''policydigest_len'' td_uint32_t,
    Plain ''policydigest'' (TArr (TInt I8 False) 64),
    Plain ''policyhandle'' td_uint32_t,
    Plain ''private'' (TPtr ''void'')]"

definition st_uffd_msg :: ty where
  "st_uffd_msg = TStruct ''uffd_msg'' False [
    Plain ''event'' td___u8,
    Plain ''reserved1'' td___u8,
    Plain ''reserved2'' td___u16,
    Plain ''reserved3'' td___u32,
    Plain ''arg'' (TUnion '''' False [
      Plain ''pagefault'' (TStruct '''' False [
        Plain ''flags'' td___u64,
        Plain ''address'' td___u64,
        Plain ''feat'' (TUnion '''' False [
          Plain ''ptid'' td___u32])]),
      Plain ''fork'' (TStruct '''' False [
        Plain ''ufd'' td___u32]),
      Plain ''remap'' (TStruct '''' False [
        Plain ''from'' td___u64,
        Plain ''to'' td___u64,
        Plain ''len'' td___u64]),
      Plain ''remove'' (TStruct '''' False [
        Plain ''start'' td___u64,
        Plain ''end'' td___u64]),
      Plain ''reserved'' (TStruct '''' False [
        Plain ''reserved1'' td___u64,
        Plain ''reserved2'' td___u64,
        Plain ''reserved3'' td___u64])])]"

definition st_uncore_global_discovery :: ty where
  "st_uncore_global_discovery = TStruct ''uncore_global_discovery'' False [
    Plain '''' (TUnion '''' False [
      Plain ''table1'' td_u64,
      Plain '''' (TStruct '''' False [
        Bits ''type'' td_u64 8,
        Bits ''stride'' td_u64 8,
        Bits ''max_units'' td_u64 10,
        Bits ''__reserved_1'' td_u64 36,
        Bits ''access_type'' td_u64 2])]),
    Plain ''ctl'' td_u64,
    Plain '''' (TUnion '''' False [
      Plain ''table3'' td_u64,
      Plain '''' (TStruct '''' False [
        Bits ''status_offset'' td_u64 8,
        Bits ''num_status'' td_u64 16,
        Bits ''__reserved_2'' td_u64 40])])]"

definition st_uncore_unit_discovery :: ty where
  "st_uncore_unit_discovery = TStruct ''uncore_unit_discovery'' False [
    Plain '''' (TUnion '''' False [
      Plain ''table1'' td_u64,
      Plain '''' (TStruct '''' False [
        Bits ''num_regs'' td_u64 8,
        Bits ''ctl_offset'' td_u64 8,
        Bits ''bit_width'' td_u64 8,
        Bits ''ctr_offset'' td_u64 8,
        Bits ''status_offset'' td_u64 8,
        Bits ''__reserved_1'' td_u64 22,
        Bits ''access_type'' td_u64 2])]),
    Plain ''ctl'' td_u64,
    Plain '''' (TUnion '''' False [
      Plain ''table3'' td_u64,
      Plain '''' (TStruct '''' False [
        Bits ''box_type'' td_u64 16,
        Bits ''box_id'' td_u64 16,
        Bits ''__reserved_2'' td_u64 32])])]"

definition st_unixware_slice :: ty where
  "st_unixware_slice = TStruct ''unixware_slice'' False [
    Plain ''s_label'' td___le16,
    Plain ''s_flags'' td___le16,
    Plain ''start_sect'' td___le32,
    Plain ''nr_sects'' td___le32]"

definition st_usb_iso_packet_descriptor :: ty where
  "st_usb_iso_packet_descriptor = TStruct ''usb_iso_packet_descriptor'' False [
    Plain ''offset'' (TInt I32 False),
    Plain ''length'' (TInt I32 False),
    Plain ''actual_length'' (TInt I32 False),
    Plain ''status'' (TInt I32 True)]"

definition st_usb2_lpm_parameters :: ty where
  "st_usb2_lpm_parameters = TStruct ''usb2_lpm_parameters'' False [
    Plain ''besl'' (TInt I32 False),
    Plain ''timeout'' (TInt I32 True)]"

definition st_usb3_lpm_parameters :: ty where
  "st_usb3_lpm_parameters = TStruct ''usb3_lpm_parameters'' False [
    Plain ''mel'' (TInt I32 False),
    Plain ''pel'' (TInt I32 False),
    Plain ''sel'' (TInt I32 False),
    Plain ''timeout'' (TInt I32 True)]"

definition st_usb_endpoint_descriptor :: ty where
  "st_usb_endpoint_descriptor = TStruct ''usb_endpoint_descriptor'' True [
    Plain ''bLength'' td___u8,
    Plain ''bDescriptorType'' td___u8,
    Plain ''bEndpointAddress'' td___u8,
    Plain ''bmAttributes'' td___u8,
    Plain ''wMaxPacketSize'' td___le16,
    Plain ''bInterval'' td___u8,
    Plain ''bRefresh'' td___u8,
    Plain ''bSynchAddress'' td___u8]"

definition st_usb_ss_ep_comp_descriptor :: ty where
  "st_usb_ss_ep_comp_descriptor = TStruct ''usb_ss_ep_comp_descriptor'' False [
    Plain ''bLength'' td___u8,
    Plain ''bDescriptorType'' td___u8,
    Plain ''bMaxBurst'' td___u8,
    Plain ''bmAttributes'' td___u8,
    Plain ''wBytesPerInterval'' td___le16]"

definition st_usb_ssp_isoc_ep_comp_descriptor :: ty where
  "st_usb_ssp_isoc_ep_comp_descriptor = TStruct ''usb_ssp_isoc_ep_comp_descriptor'' False [
    Plain ''bLength'' td___u8,
    Plain ''bDescriptorType'' td___u8,
    Plain ''wReseved'' td___le16,
    Plain ''dwBytesPerInterval'' td___le32]"

definition st_usb_eusb2_isoc_ep_comp_descriptor :: ty where
  "st_usb_eusb2_isoc_ep_comp_descriptor = TStruct ''usb_eusb2_isoc_ep_comp_descriptor'' False [
    Plain ''bLength'' td___u8,
    Plain ''bDescriptorType'' td___u8,
    Plain ''wMaxPacketSize'' td___le16,
    Plain ''dwBytesPerInterval'' td___le32]"

definition st_usb_device_descriptor :: ty where
  "st_usb_device_descriptor = TStruct ''usb_device_descriptor'' False [
    Plain ''bLength'' td___u8,
    Plain ''bDescriptorType'' td___u8,
    Plain ''bcdUSB'' td___le16,
    Plain ''bDeviceClass'' td___u8,
    Plain ''bDeviceSubClass'' td___u8,
    Plain ''bDeviceProtocol'' td___u8,
    Plain ''bMaxPacketSize0'' td___u8,
    Plain ''idVendor'' td___le16,
    Plain ''idProduct'' td___le16,
    Plain ''bcdDevice'' td___le16,
    Plain ''iManufacturer'' td___u8,
    Plain ''iProduct'' td___u8,
    Plain ''iSerialNumber'' td___u8,
    Plain ''bNumConfigurations'' td___u8]"

definition st_usb_device_id :: ty where
  "st_usb_device_id = TStruct ''usb_device_id'' False [
    Plain ''match_flags'' td___u16,
    Plain ''idVendor'' td___u16,
    Plain ''idProduct'' td___u16,
    Plain ''bcdDevice_lo'' td___u16,
    Plain ''bcdDevice_hi'' td___u16,
    Plain ''bDeviceClass'' td___u8,
    Plain ''bDeviceSubClass'' td___u8,
    Plain ''bDeviceProtocol'' td___u8,
    Plain ''bInterfaceClass'' td___u8,
    Plain ''bInterfaceSubClass'' td___u8,
    Plain ''bInterfaceProtocol'' td___u8,
    Plain ''bInterfaceNumber'' td___u8,
    Plain ''driver_info'' td_kernel_ulong_t]"

definition st_usb_ehci_pdata :: ty where
  "st_usb_ehci_pdata = TStruct ''usb_ehci_pdata'' False [
    Plain ''caps_offset'' (TInt I32 True),
    Bits ''has_tt'' (TInt I32 False) 1,
    Bits ''has_synopsys_hc_bug'' (TInt I32 False) 1,
    Bits ''big_endian_desc'' (TInt I32 False) 1,
    Bits ''big_endian_mmio'' (TInt I32 False) 1,
    Bits ''no_io_watchdog'' (TInt I32 False) 1,
    Bits ''reset_on_resume'' (TInt I32 False) 1,
    Bits ''dma_mask_64'' (TInt I32 False) 1,
    Bits ''spurious_oc'' (TInt I32 False) 1,
    Plain ''power_on'' (TFun ''int (*)(struct platform_device *)''),
    Plain ''power_off'' (TFun ''void (*)(struct platform_device *)''),
    Plain ''power_suspend'' (TFun ''void (*)(struct platform_device *)''),
    Plain ''pre_setup'' (TFun ''int (*)(struct usb_hcd *)'')]"

definition st_usb_ep_caps :: ty where
  "st_usb_ep_caps = TStruct ''usb_ep_caps'' False [
    Bits ''type_control'' (TInt I32 False) 1,
    Bits ''type_iso'' (TInt I32 False) 1,
    Bits ''type_bulk'' (TInt I32 False) 1,
    Bits ''type_int'' (TInt I32 False) 1,
    Bits ''dir_in'' (TInt I32 False) 1,
    Bits ''dir_out'' (TInt I32 False) 1]"

definition st_usb_hub_descriptor :: ty where
  "st_usb_hub_descriptor = TStruct ''usb_hub_descriptor'' True [
    Plain ''bDescLength'' td___u8,
    Plain ''bDescriptorType'' td___u8,
    Plain ''bNbrPorts'' td___u8,
    Plain ''wHubCharacteristics'' td___le16,
    Plain ''bPwrOn2PwrGood'' td___u8,
    Plain ''bHubContrCurrent'' td___u8,
    Plain ''u'' (TUnion '''' False [
      Plain ''hs'' (TStruct '''' False [
        Plain ''DeviceRemovable'' (TArr td___u8 4),
        Plain ''PortPwrCtrlMask'' (TArr td___u8 4)]),
      Plain ''ss'' (TStruct '''' True [
        Plain ''bHubHdrDecLat'' td___u8,
        Plain ''wHubDelay'' td___le16,
        Plain ''DeviceRemovable'' td___le16])])]"

definition st_usb_ssp_cap_descriptor :: ty where
  "st_usb_ssp_cap_descriptor = TStruct ''usb_ssp_cap_descriptor'' False [
    Plain ''bLength'' td___u8,
    Plain ''bDescriptorType'' td___u8,
    Plain ''bDevCapabilityType'' td___u8,
    Plain ''bReserved'' td___u8,
    Plain ''bmAttributes'' td___le32,
    Plain ''wFunctionalitySupport'' td___le16,
    Plain ''wReserved'' td___le16,
    Plain '''' (TUnion '''' False [
      Plain ''legacy_padding'' td___le32,
      Plain '''' (TStruct '''' False [
        Plain ''__empty_bmSublinkSpeedAttr'' (TStruct '''' False []),
        Plain ''bmSublinkSpeedAttr'' (TArr td___le32 0)])])]"

definition st_usbdevfs_iso_packet_desc :: ty where
  "st_usbdevfs_iso_packet_desc = TStruct ''usbdevfs_iso_packet_desc'' False [
    Plain ''length'' (TInt I32 False),
    Plain ''actual_length'' (TInt I32 False),
    Plain ''status'' (TInt I32 False)]"

definition st_uv_hub_info_s :: ty where
  "st_uv_hub_info_s = TStruct ''uv_hub_info_s'' False [
    Plain ''hub_type'' (TInt I32 False),
    Plain ''hub_revision'' (TInt I8 False),
    Plain ''global_mmr_base'' (TInt I64 False),
    Plain ''global_mmr_shift'' (TInt I64 False),
    Plain ''gpa_mask'' (TInt I64 False),
    Plain ''socket_to_node'' (TPtr ''short unsigned int''),
    Plain ''socket_to_pnode'' (TPtr ''short unsigned int''),
    Plain ''pnode_to_socket'' (TPtr ''short unsigned int''),
    Plain ''gr_table'' (TPtr ''struct uv_gam_range_s''),
    Plain ''min_socket'' (TInt I16 False),
    Plain ''min_pnode'' (TInt I16 False),
    Plain ''m_val'' (TInt I8 False),
    Plain ''n_val'' (TInt I8 False),
    Plain ''gr_table_len'' (TInt I8 False),
    Plain ''apic_pnode_shift'' (TInt I8 False),
    Plain ''gpa_shift'' (TInt I8 False),
    Plain ''nasid_shift'' (TInt I8 False),
    Plain ''m_shift'' (TInt I8 False),
    Plain ''n_lshift'' (TInt I8 False),
    Plain ''gnode_extra'' (TInt I32 False),
    Plain ''gnode_upper'' (TInt I64 False),
    Plain ''lowmem_remap_top'' (TInt I64 False),
    Plain ''lowmem_remap_base'' (TInt I64 False),
    Plain ''global_gru_base'' (TInt I64 False),
    Plain ''global_gru_shift'' (TInt I64 False),
    Plain ''pnode'' (TInt I16 False),
    Plain ''pnode_mask'' (TInt I16 False),
    Plain ''coherency_domain_number'' (TInt I16 False),
    Plain ''numa_blade_id'' (TInt I16 False),
    Plain ''nr_possible_cpus'' (TInt I16 False),
    Plain ''nr_online_cpus'' (TInt I16 False),
    Plain ''memory_nid'' (TInt I16 True),
    Plain ''node_to_socket'' (TPtr ''short unsigned int'')]"

definition st_vc_state :: ty where
  "st_vc_state = TStruct ''vc_state'' False [
    Plain ''x'' (TInt I32 False),
    Plain ''y'' (TInt I32 False),
    Plain ''color'' (TInt I8 False),
    Plain ''Gx_charset'' (TArr (TInt I8 False) 2),
    Bits ''charset'' (TInt I32 False) 1,
    Plain ''intensity'' (TEnum ''vc_intensity'' I32),
    Plain ''italic'' td_bool,
    Plain ''underline'' td_bool,
    Plain ''blink'' td_bool,
    Plain ''reverse'' td_bool]"

definition st_vt_mode :: ty where
  "st_vt_mode = TStruct ''vt_mode'' False [
    Plain ''mode'' td___u8,
    Plain ''waitv'' td___u8,
    Plain ''relsig'' td___s16,
    Plain ''acqsig'' td___s16,
    Plain ''frsig'' td___s16]"

definition st_vcap_cache_data :: ty where
  "st_vcap_cache_data = TStruct ''vcap_cache_data'' False [
    Plain ''keystream'' (TPtr ''u32''),
    Plain ''maskstream'' (TPtr ''u32''),
    Plain ''actionstream'' (TPtr ''u32''),
    Plain ''counter'' td_u32,
    Plain ''sticky'' td_bool]"

definition st_vcap_info :: ty where
  "st_vcap_info = TStruct ''vcap_info'' False [
    Plain ''name'' (TPtr ''char''),
    Plain ''rows'' td_u16,
    Plain ''sw_count'' td_u16,
    Plain ''sw_width'' td_u16,
    Plain ''sticky_width'' td_u16,
    Plain ''act_width'' td_u16,
    Plain ''default_cnt'' td_u16,
    Plain ''require_cnt_dis'' td_u16,
    Plain ''version'' td_u16,
    Plain ''keyfield_set'' (TPtr ''struct vcap_set''),
    Plain ''keyfield_set_size'' (TInt I32 True),
    Plain ''actionfield_set'' (TPtr ''struct vcap_set''),
    Plain ''actionfield_set_size'' (TInt I32 True),
    Plain ''keyfield_set_map'' (TPtr ''struct vcap_field *''),
    Plain ''keyfield_set_map_size'' (TPtr ''int''),
    Plain ''actionfield_set_map'' (TPtr ''struct vcap_field *''),
    Plain ''actionfield_set_map_size'' (TPtr ''int''),
    Plain ''keyfield_set_typegroups'' (TPtr ''struct vcap_typegroup *''),
    Plain ''actionfield_set_typegroups'' (TPtr ''struct vcap_typegroup *'')]"

definition st_vdso_image :: ty where
  "st_vdso_image = TStruct ''vdso_image'' False [
    Plain ''data'' (TPtr ''void''),
    Plain ''size'' (TInt I64 False),
    Plain ''alt'' (TInt I64 False),
    Plain ''alt_len'' (TInt I64 False),
    Plain ''extable_base'' (TInt I64 False),
    Plain ''extable_len'' (TInt I64 False),
    Plain ''extable'' (TPtr ''void''),
    Plain ''sym_VDSO32_NOTE_MASK'' (TInt I64 True),
    Plain ''sym___kernel_sigreturn'' (TInt I64 True),
    Plain ''sym___kernel_rt_sigreturn'' (TInt I64 True),
    Plain ''sym___kernel_vsyscall'' (TInt I64 True),
    Plain ''sym_int80_landing_pad'' (TInt I64 True),
    Plain ''sym_vdso32_sigreturn_landing_pad'' (TInt I64 True),
    Plain ''sym_vdso32_rt_sigreturn_landing_pad'' (TInt I64 True)]"

definition st_virtio_dev_part_hdr :: ty where
  "st_virtio_dev_part_hdr = TStruct ''virtio_dev_part_hdr'' False [
    Plain ''part_type'' td___le16,
    Plain ''flags'' td___u8,
    Plain ''reserved'' td___u8,
    Plain ''selector'' (TUnion '''' False [
      Plain ''pci_common_cfg'' (TStruct '''' False [
        Plain ''offset'' td___le32,
        Plain ''reserved'' td___le32]),
      Plain ''vq_index'' (TStruct '''' False [
        Plain ''index'' td___le16,
        Plain ''reserved'' (TArr td___u8 6)])]),
    Plain ''length'' td___le32]"

definition st_virtio_blk_geometry :: ty where
  "st_virtio_blk_geometry = TStruct ''virtio_blk_geometry'' False [
    Plain ''cylinders'' td___virtio16,
    Plain ''heads'' td___u8,
    Plain ''sectors'' td___u8]"

definition st_virtio_blk_zoned_characteristics :: ty where
  "st_virtio_blk_zoned_characteristics = TStruct ''virtio_blk_zoned_characteristics'' False [
    Plain ''zone_sectors'' td___virtio32,
    Plain ''max_open_zones'' td___virtio32,
    Plain ''max_active_zones'' td___virtio32,
    Plain ''max_append_sectors'' td___virtio32,
    Plain ''write_granularity'' td___virtio32,
    Plain ''model'' td___u8,
    Plain ''unused2'' (TArr td___u8 3)]"

definition st_virtio_device_id :: ty where
  "st_virtio_device_id = TStruct ''virtio_device_id'' False [
    Plain ''device'' td___u32,
    Plain ''vendor'' td___u32]"

definition un_virtio_map :: ty where
  "un_virtio_map = TUnion ''virtio_map'' False [
    Plain ''dma_dev'' (TPtr ''struct device''),
    Plain ''group'' (TPtr ''struct vduse_vq_group'')]"

definition st_virtio_net_hdr_v1 :: ty where
  "st_virtio_net_hdr_v1 = TStruct ''virtio_net_hdr_v1'' False [
    Plain ''flags'' td___u8,
    Plain ''gso_type'' td___u8,
    Plain ''hdr_len'' td___virtio16,
    Plain ''gso_size'' td___virtio16,
    Plain '''' (TUnion '''' False [
      Plain '''' (TStruct '''' False [
        Plain ''csum_start'' td___virtio16,
        Plain ''csum_offset'' td___virtio16]),
      Plain ''csum'' (TStruct '''' False [
        Plain ''start'' td___virtio16,
        Plain ''offset'' td___virtio16]),
      Plain ''rsc'' (TStruct '''' False [
        Plain ''segments'' td___le16,
        Plain ''dup_acks'' td___le16])]),
    Plain ''num_buffers'' td___virtio16]"

definition st_virtio_net_rss_config_trailer :: ty where
  "st_virtio_net_rss_config_trailer = TStruct ''virtio_net_rss_config_trailer'' False [
    Plain ''max_tx_vq'' td___le16,
    Plain ''hash_key_length'' td___u8,
    Plain ''hash_key_data'' (TArr td___u8 0)]"

definition st_virtio_pci_common_cfg :: ty where
  "st_virtio_pci_common_cfg = TStruct ''virtio_pci_common_cfg'' False [
    Plain ''device_feature_select'' td___le32,
    Plain ''device_feature'' td___le32,
    Plain ''guest_feature_select'' td___le32,
    Plain ''guest_feature'' td___le32,
    Plain ''msix_config'' td___le16,
    Plain ''num_queues'' td___le16,
    Plain ''device_status'' td___u8,
    Plain ''config_generation'' td___u8,
    Plain ''queue_select'' td___le16,
    Plain ''queue_size'' td___le16,
    Plain ''queue_msix_vector'' td___le16,
    Plain ''queue_enable'' td___le16,
    Plain ''queue_notify_off'' td___le16,
    Plain ''queue_desc_lo'' td___le32,
    Plain ''queue_desc_hi'' td___le32,
    Plain ''queue_avail_lo'' td___le32,
    Plain ''queue_avail_hi'' td___le32,
    Plain ''queue_used_lo'' td___le32,
    Plain ''queue_used_hi'' td___le32]"

definition st_vlan_dev_priv :: ty where
  "st_vlan_dev_priv = TStruct ''vlan_dev_priv'' False [
    Plain ''nr_ingress_mappings'' (TInt I32 False),
    Plain ''ingress_priority_map'' (TArr td_u32 8),
    Plain ''nr_egress_mappings'' (TInt I32 False),
    Plain ''egress_priority_map'' (TArr (TPtr ''struct vlan_priority_tci_mapping'') 16),
    Plain ''vlan_proto'' td___be16,
    Plain ''vlan_id'' td_u16,
    Plain ''flags'' td_u16,
    Plain ''real_dev'' (TPtr ''struct net_device''),
    Plain ''dev_tracker'' td_netdevice_tracker,
    Plain ''real_dev_addr'' (TArr (TInt I8 False) 6),
    Plain ''dent'' (TPtr ''struct proc_dir_entry''),
    Plain ''vlan_pcpu_stats'' (TPtr ''struct vlan_pcpu_stats''),
    Plain ''netpoll'' (TPtr ''struct netpoll'')]"

definition st_vlan_ethhdr :: ty where
  "st_vlan_ethhdr = TStruct ''vlan_ethhdr'' False [
    Plain '''' (TUnion '''' False [
      Plain '''' (TStruct '''' False [
        Plain ''h_dest'' (TArr (TInt I8 False) 6),
        Plain ''h_source'' (TArr (TInt I8 False) 6)]),
      Plain ''addrs'' (TStruct '''' False [
        Plain ''h_dest'' (TArr (TInt I8 False) 6),
        Plain ''h_source'' (TArr (TInt I8 False) 6)])]),
    Plain ''h_vlan_proto'' td___be16,
    Plain ''h_vlan_TCI'' td___be16,
    Plain ''h_vlan_encapsulated_proto'' td___be16]"

definition st_vm_userfaultfd_ctx :: ty where
  "st_vm_userfaultfd_ctx = TStruct ''vm_userfaultfd_ctx'' False [
    Plain ''ctx'' (TPtr ''struct userfaultfd_ctx'')]"

definition st_vm_fault :: ty where
  "st_vm_fault = TStruct ''vm_fault'' False [
    Plain '''' (TStruct '''' False [
      Plain ''vma'' (TPtr ''struct vm_area_struct''),
      Plain ''gfp_mask'' td_gfp_t,
      Plain ''pgoff'' (TInt I64 False),
      Plain ''address'' (TInt I64 False),
      Plain ''real_address'' (TInt I64 False)]),
    Plain ''flags'' (TEnum ''fault_flag'' I32),
    Plain ''pmd'' (TPtr ''pmd_t''),
    Plain ''pud'' (TPtr ''pud_t''),
    Plain '''' (TUnion '''' False [
      Plain ''orig_pte'' td_pte_t,
      Plain ''orig_pmd'' td_pmd_t]),
    Plain ''cow_page'' (TPtr ''struct page''),
    Plain ''page'' (TPtr ''struct page''),
    Plain ''pte'' (TPtr ''pte_t''),
    Plain ''ptl'' (TPtr ''spinlock_t''),
    Plain ''prealloc_pte'' td_pgtable_t]"

definition st_vma_remap_struct :: ty where
  "st_vma_remap_struct = TStruct ''vma_remap_struct'' False [
    Plain ''addr'' (TInt I64 False),
    Plain ''old_len'' (TInt I64 False),
    Plain ''new_len'' (TInt I64 False),
    Plain ''flags'' (TInt I64 False),
    Plain ''new_addr'' (TInt I64 False),
    Plain ''uf'' (TPtr ''struct vm_userfaultfd_ctx''),
    Plain ''uf_unmap_early'' (TPtr ''struct list_head''),
    Plain ''uf_unmap'' (TPtr ''struct list_head''),
    Plain ''vma'' (TPtr ''struct vm_area_struct''),
    Plain ''delta'' (TInt I64 False),
    Plain ''populate_expand'' td_bool,
    Plain ''remap_type'' (TEnum ''mremap_type'' I32),
    Plain ''mmap_locked'' td_bool,
    Plain ''charged'' (TInt I64 False),
    Plain ''vmi_needs_invalidate'' td_bool]"

definition st_vring_virtqueue_packed :: ty where
  "st_vring_virtqueue_packed = TStruct ''vring_virtqueue_packed'' False [
    Plain ''vring'' (TStruct '''' False [
      Plain ''num'' (TInt I32 False),
      Plain ''desc'' (TPtr ''struct vring_packed_desc''),
      Plain ''driver'' (TPtr ''struct vring_packed_desc_event''),
      Plain ''device'' (TPtr ''struct vring_packed_desc_event'')]),
    Plain ''avail_wrap_counter'' td_bool,
    Plain ''avail_used_flags'' td_u16,
    Plain ''next_avail_idx'' td_u16,
    Plain ''event_flags_shadow'' td_u16,
    Plain ''desc_state'' (TPtr ''struct vring_desc_state_packed''),
    Plain ''desc_extra'' (TPtr ''struct vring_desc_extra''),
    Plain ''ring_dma_addr'' td_dma_addr_t,
    Plain ''driver_event_dma_addr'' td_dma_addr_t,
    Plain ''device_event_dma_addr'' td_dma_addr_t,
    Plain ''ring_size_in_bytes'' td_size_t,
    Plain ''event_size_in_bytes'' td_size_t]"

definition st_wakeup_header :: ty where
  "st_wakeup_header = TStruct ''wakeup_header'' True [
    Plain ''video_mode'' td_u16,
    Plain ''pmode_entry'' td_u32,
    Plain ''pmode_cs'' td_u16,
    Plain ''pmode_cr0'' td_u32,
    Plain ''pmode_cr3'' td_u32,
    Plain ''pmode_cr4'' td_u32,
    Plain ''pmode_efer_low'' td_u32,
    Plain ''pmode_efer_high'' td_u32,
    Plain ''pmode_gdt'' td_u64,
    Plain ''pmode_misc_en_low'' td_u32,
    Plain ''pmode_misc_en_high'' td_u32,
    Plain ''pmode_behavior'' td_u32,
    Plain ''realmode_flags'' td_u32,
    Plain ''real_magic'' td_u32,
    Plain ''signature'' td_u32]"

definition st_wiphy_nan_capa :: ty where
  "st_wiphy_nan_capa = TStruct ''wiphy_nan_capa'' False [
    Plain ''flags'' td_u32,
    Plain ''op_mode'' td_u8,
    Plain ''n_antennas'' td_u8,
    Plain ''max_channel_switch_time'' td_u16,
    Plain ''dev_capabilities'' td_u8]"

definition st_wm8350_audio_platform_data :: ty where
  "st_wm8350_audio_platform_data = TStruct ''wm8350_audio_platform_data'' False [
    Plain ''vmid_discharge_msecs'' (TInt I32 True),
    Plain ''drain_msecs'' (TInt I32 True),
    Plain ''cap_discharge_msecs'' (TInt I32 True),
    Plain ''vmid_charge_msecs'' (TInt I32 True),
    Bits ''vmid_s_curve'' td_u32 2,
    Bits ''dis_out4'' td_u32 2,
    Bits ''dis_out3'' td_u32 2,
    Bits ''dis_out2'' td_u32 2,
    Bits ''dis_out1'' td_u32 2,
    Bits ''vroi_out4'' td_u32 1,
    Bits ''vroi_out3'' td_u32 1,
    Bits ''vroi_out2'' td_u32 1,
    Bits ''vroi_out1'' td_u32 1,
    Bits ''vroi_enable'' td_u32 1,
    Bits ''codec_current_on'' td_u32 2,
    Bits ''codec_current_standby'' td_u32 2,
    Bits ''codec_current_charge'' td_u32 2]"

definition st_wpan_phy_supported :: ty where
  "st_wpan_phy_supported = TStruct ''wpan_phy_supported'' False [
    Plain ''channels'' (TArr td_u32 32),
    Plain ''cca_modes'' td_u32,
    Plain ''cca_opts'' td_u32,
    Plain ''iftypes'' td_u32,
    Plain ''lbt'' (TEnum ''nl802154_supported_bool_states'' I32),
    Plain ''min_minbe'' td_u8,
    Plain ''max_minbe'' td_u8,
    Plain ''min_maxbe'' td_u8,
    Plain ''max_maxbe'' td_u8,
    Plain ''min_csma_backoffs'' td_u8,
    Plain ''max_csma_backoffs'' td_u8,
    Plain ''min_frame_retries'' td_s8,
    Plain ''max_frame_retries'' td_s8,
    Plain ''tx_powers_size'' td_size_t,
    Plain ''cca_ed_levels_size'' td_size_t,
    Plain ''tx_powers'' (TPtr ''s32''),
    Plain ''cca_ed_levels'' (TPtr ''s32'')]"

definition st_wpan_phy_cca :: ty where
  "st_wpan_phy_cca = TStruct ''wpan_phy_cca'' False [
    Plain ''mode'' (TEnum ''nl802154_cca_modes'' I32),
    Plain ''opt'' (TEnum ''nl802154_cca_opts'' I32)]"

definition st_x509_certificate :: ty where
  "st_x509_certificate = TStruct ''x509_certificate'' False [
    Plain ''next'' (TPtr ''struct x509_certificate''),
    Plain ''signer'' (TPtr ''struct x509_certificate''),
    Plain ''pub'' (TPtr ''struct public_key''),
    Plain ''sig'' (TPtr ''struct public_key_signature''),
    Plain ''sha256'' (TArr td_u8 32),
    Plain ''issuer'' (TPtr ''char''),
    Plain ''subject'' (TPtr ''char''),
    Plain ''id'' (TPtr ''struct asymmetric_key_id''),
    Plain ''skid'' (TPtr ''struct asymmetric_key_id''),
    Plain ''valid_from'' td_time64_t,
    Plain ''valid_to'' td_time64_t,
    Plain ''tbs'' (TPtr ''void''),
    Plain ''tbs_size'' (TInt I32 False),
    Plain ''raw_sig_size'' (TInt I32 False),
    Plain ''raw_sig'' (TPtr ''void''),
    Plain ''raw_serial'' (TPtr ''void''),
    Plain ''raw_serial_size'' (TInt I32 False),
    Plain ''raw_issuer_size'' (TInt I32 False),
    Plain ''raw_issuer'' (TPtr ''void''),
    Plain ''raw_subject'' (TPtr ''void''),
    Plain ''raw_subject_size'' (TInt I32 False),
    Plain ''raw_skid_size'' (TInt I32 False),
    Plain ''raw_skid'' (TPtr ''void''),
    Plain ''index'' (TInt I32 False),
    Plain ''seen'' td_bool,
    Plain ''verified'' td_bool,
    Plain ''self_signed'' td_bool,
    Plain ''unsupported_sig'' td_bool,
    Plain ''blacklisted'' td_bool]"

definition st_x509_parse_context :: ty where
  "st_x509_parse_context = TStruct ''x509_parse_context'' False [
    Plain ''cert'' (TPtr ''struct x509_certificate''),
    Plain ''data'' (TInt I64 False),
    Plain ''key'' (TPtr ''void''),
    Plain ''key_size'' td_size_t,
    Plain ''params'' (TPtr ''void''),
    Plain ''params_size'' td_size_t,
    Plain ''key_algo'' (TEnum ''OID'' I32),
    Plain ''last_oid'' (TEnum ''OID'' I32),
    Plain ''sig_algo'' (TEnum ''OID'' I32),
    Plain ''o_size'' td_u8,
    Plain ''cn_size'' td_u8,
    Plain ''email_size'' td_u8,
    Plain ''o_offset'' td_u16,
    Plain ''cn_offset'' td_u16,
    Plain ''email_offset'' td_u16,
    Plain ''raw_akid_size'' (TInt I32 False),
    Plain ''raw_akid'' (TPtr ''void''),
    Plain ''akid_raw_issuer'' (TPtr ''void''),
    Plain ''akid_raw_issuer_size'' (TInt I32 False)]"

definition st_x86_perf_task_context_opt :: ty where
  "st_x86_perf_task_context_opt = TStruct ''x86_perf_task_context_opt'' False [
    Plain ''lbr_callstack_users'' (TInt I32 True),
    Plain ''lbr_stack_state'' (TInt I32 True),
    Plain ''log_id'' (TInt I32 True)]"

definition un_x86_pmu_config :: ty where
  "un_x86_pmu_config = TUnion ''x86_pmu_config'' False [
    Plain ''bits'' (TStruct '''' False [
      Bits ''event'' td_u64 8,
      Bits ''umask'' td_u64 8,
      Bits ''usr'' td_u64 1,
      Bits ''os'' td_u64 1,
      Bits ''edge'' td_u64 1,
      Bits ''pc'' td_u64 1,
      Bits ''interrupt'' td_u64 1,
      Bits ''__reserved1'' td_u64 1,
      Bits ''en'' td_u64 1,
      Bits ''inv'' td_u64 1,
      Bits ''cmask'' td_u64 8,
      Bits ''event2'' td_u64 4,
      Bits ''__reserved2'' td_u64 4,
      Bits ''go'' td_u64 1,
      Bits ''ho'' td_u64 1]),
    Plain ''value'' td_u64]"

definition st_xsd_sockmsg :: ty where
  "st_xsd_sockmsg = TStruct ''xsd_sockmsg'' False [
    Plain ''type'' td_uint32_t,
    Plain ''req_id'' td_uint32_t,
    Plain ''tx_id'' td_uint32_t,
    Plain ''len'' td_uint32_t]"

definition st_xdbc_regs :: ty where
  "st_xdbc_regs = TStruct ''xdbc_regs'' False [
    Plain ''capability'' td___le32,
    Plain ''doorbell'' td___le32,
    Plain ''ersts'' td___le32,
    Plain ''__reserved_0'' td___le32,
    Plain ''erstba'' td___le64,
    Plain ''erdp'' td___le64,
    Plain ''control'' td___le32,
    Plain ''status'' td___le32,
    Plain ''portsc'' td___le32,
    Plain ''__reserved_1'' td___le32,
    Plain ''dccp'' td___le64,
    Plain ''devinfo1'' td___le32,
    Plain ''devinfo2'' td___le32]"

definition st_xdbc_ring :: ty where
  "st_xdbc_ring = TStruct ''xdbc_ring'' False [
    Plain ''segment'' (TPtr ''struct xdbc_segment''),
    Plain ''enqueue'' (TPtr ''struct xdbc_trb''),
    Plain ''dequeue'' (TPtr ''struct xdbc_trb''),
    Plain ''cycle_state'' td_u32]"

definition st_xdbc_segment :: ty where
  "st_xdbc_segment = TStruct ''xdbc_segment'' False [
    Plain ''trbs'' (TPtr ''struct xdbc_trb''),
    Plain ''dma'' td_dma_addr_t]"

definition st_xdp_frame :: ty where
  "st_xdp_frame = TStruct ''xdp_frame'' False [
    Plain ''data'' (TPtr ''void''),
    Plain ''len'' td_u32,
    Plain ''headroom'' td_u32,
    Plain ''metasize'' td_u32,
    Bits ''mem_type'' (TEnum ''xdp_mem_type'' I32) 32,
    Plain ''dev_rx'' (TPtr ''struct net_device''),
    Plain ''frame_sz'' td_u32,
    Plain ''flags'' td_u32]"

definition st_xdp_ring :: ty where
  "st_xdp_ring = TStruct ''xdp_ring'' False [
    Plain ''producer'' td_u32,
    Bits '''' (TInt I64 True) 64,
    Bits '''' (TInt I64 True) 64,
    Bits '''' (TInt I64 True) 64,
    Bits '''' (TInt I64 True) 64,
    Bits '''' (TInt I64 True) 64,
    Bits '''' (TInt I64 True) 64,
    Bits '''' (TInt I64 True) 64,
    Plain ''pad1'' td_u32,
    Bits '''' (TInt I64 True) 64,
    Bits '''' (TInt I64 True) 64,
    Bits '''' (TInt I64 True) 64,
    Bits '''' (TInt I64 True) 64,
    Bits '''' (TInt I64 True) 64,
    Bits '''' (TInt I64 True) 64,
    Bits '''' (TInt I64 True) 64,
    Plain ''consumer'' td_u32,
    Bits '''' (TInt I64 True) 64,
    Bits '''' (TInt I64 True) 64,
    Bits '''' (TInt I64 True) 64,
    Bits '''' (TInt I64 True) 64,
    Bits '''' (TInt I64 True) 64,
    Bits '''' (TInt I64 True) 64,
    Bits '''' (TInt I64 True) 64,
    Plain ''pad2'' td_u32,
    Plain ''flags'' td_u32,
    Bits '''' (TInt I64 True) 64,
    Bits '''' (TInt I64 True) 64,
    Bits '''' (TInt I64 True) 64,
    Bits '''' (TInt I64 True) 64,
    Bits '''' (TInt I64 True) 64,
    Bits '''' (TInt I64 True) 64,
    Bits '''' (TInt I64 True) 64,
    Plain ''pad3'' td_u32,
    Bits '''' (TInt I64 True) 64,
    Bits '''' (TInt I64 True) 64,
    Bits '''' (TInt I64 True) 64,
    Bits '''' (TInt I64 True) 64,
    Bits '''' (TInt I64 True) 64,
    Bits '''' (TInt I64 True) 64,
    Bits '''' (TInt I64 True) 64]"

definition st_xen_mce :: ty where
  "st_xen_mce = TStruct ''xen_mce'' False [
    Plain ''status'' td___u64,
    Plain ''misc'' td___u64,
    Plain ''addr'' td___u64,
    Plain ''mcgstatus'' td___u64,
    Plain ''ip'' td___u64,
    Plain ''tsc'' td___u64,
    Plain ''time'' td___u64,
    Plain ''cpuvendor'' td___u8,
    Plain ''inject_flags'' td___u8,
    Plain ''pad'' td___u16,
    Plain ''cpuid'' td___u32,
    Plain ''cs'' td___u8,
    Plain ''bank'' td___u8,
    Plain ''cpu'' td___u8,
    Plain ''finished'' td___u8,
    Plain ''extcpu'' td___u32,
    Plain ''socketid'' td___u32,
    Plain ''apicid'' td___u32,
    Plain ''mcgcap'' td___u64,
    Plain ''synd'' td___u64,
    Plain ''ipid'' td___u64,
    Plain ''ppin'' td___u64]"

definition st_xenpf_efi_time :: ty where
  "st_xenpf_efi_time = TStruct ''xenpf_efi_time'' False [
    Plain ''year'' td_uint16_t,
    Plain ''month'' td_uint8_t,
    Plain ''day'' td_uint8_t,
    Plain ''hour'' td_uint8_t,
    Plain ''min'' td_uint8_t,
    Plain ''sec'' td_uint8_t,
    Plain ''ns'' td_uint32_t,
    Plain ''tz'' td_int16_t,
    Plain ''daylight'' td_uint8_t]"

definition st_xenpf_efi_guid :: ty where
  "st_xenpf_efi_guid = TStruct ''xenpf_efi_guid'' False [
    Plain ''data1'' td_uint32_t,
    Plain ''data2'' td_uint16_t,
    Plain ''data3'' td_uint16_t,
    Plain ''data4'' (TArr td_uint8_t 8)]"

definition un_xenpf_efi_info :: ty where
  "un_xenpf_efi_info = TUnion ''xenpf_efi_info'' False [
    Plain ''version'' td_uint32_t,
    Plain ''cfg'' (TStruct '''' False [
      Plain ''addr'' td_uint64_t,
      Plain ''nent'' td_uint32_t]),
    Plain ''vendor'' (TStruct '''' False [
      Plain ''revision'' td_uint32_t,
      Plain ''bufsz'' td_uint32_t,
      Plain ''name'' td___guest_handle_void]),
    Plain ''mem'' (TStruct '''' False [
      Plain ''addr'' td_uint64_t,
      Plain ''size'' td_uint64_t,
      Plain ''attr'' td_uint64_t,
      Plain ''type'' td_uint32_t])]"

definition st_xen_pmu_amd_ctxt :: ty where
  "st_xen_pmu_amd_ctxt = TStruct ''xen_pmu_amd_ctxt'' False [
    Plain ''counters'' td_uint32_t,
    Plain ''ctrls'' td_uint32_t,
    Plain ''regs'' (TArr td_uint64_t 0)]"

definition st_xen_pmu_regs :: ty where
  "st_xen_pmu_regs = TStruct ''xen_pmu_regs'' False [
    Plain ''ip'' td_uint64_t,
    Plain ''sp'' td_uint64_t,
    Plain ''flags'' td_uint64_t,
    Plain ''cs'' td_uint16_t,
    Plain ''ss'' td_uint16_t,
    Plain ''cpl'' td_uint8_t,
    Plain ''pad'' (TArr td_uint8_t 3)]"

definition st_xen_pmu_intel_ctxt :: ty where
  "st_xen_pmu_intel_ctxt = TStruct ''xen_pmu_intel_ctxt'' False [
    Plain ''fixed_counters'' td_uint32_t,
    Plain ''arch_counters'' td_uint32_t,
    Plain ''global_ctrl'' td_uint64_t,
    Plain ''global_ovf_ctrl'' td_uint64_t,
    Plain ''global_status'' td_uint64_t,
    Plain ''fixed_ctrl'' td_uint64_t,
    Plain ''ds_area'' td_uint64_t,
    Plain ''pebs_enable'' td_uint64_t,
    Plain ''debugctl'' td_uint64_t,
    Plain ''regs'' (TArr td_uint64_t 0)]"

definition st_xfrm_dev_offload :: ty where
  "st_xfrm_dev_offload = TStruct ''xfrm_dev_offload'' False [
    Plain ''dev'' (TPtr ''struct net_device''),
    Plain ''dev_tracker'' td_netdevice_tracker,
    Plain ''real_dev'' (TPtr ''struct net_device''),
    Plain ''offload_handle'' (TInt I64 False),
    Bits ''dir'' td_u8 2,
    Bits ''type'' td_u8 2,
    Bits ''flags'' td_u8 2]"

definition st_xfrm_lifetime_cfg :: ty where
  "st_xfrm_lifetime_cfg = TStruct ''xfrm_lifetime_cfg'' False [
    Plain ''soft_byte_limit'' td___u64,
    Plain ''hard_byte_limit'' td___u64,
    Plain ''soft_packet_limit'' td___u64,
    Plain ''hard_packet_limit'' td___u64,
    Plain ''soft_add_expires_seconds'' td___u64,
    Plain ''hard_add_expires_seconds'' td___u64,
    Plain ''soft_use_expires_seconds'' td___u64,
    Plain ''hard_use_expires_seconds'' td___u64]"

definition st_xfrm_lifetime_cur :: ty where
  "st_xfrm_lifetime_cur = TStruct ''xfrm_lifetime_cur'' False [
    Plain ''bytes'' td___u64,
    Plain ''packets'' td___u64,
    Plain ''add_time'' td___u64,
    Plain ''use_time'' td___u64]"

definition st_xfrm_mark :: ty where
  "st_xfrm_mark = TStruct ''xfrm_mark'' False [
    Plain ''v'' td___u32,
    Plain ''m'' td___u32]"

definition st_xfrm_mode :: ty where
  "st_xfrm_mode = TStruct ''xfrm_mode'' False [
    Plain ''encap'' td_u8,
    Plain ''family'' td_u8,
    Plain ''flags'' td_u8]"

definition st_xfrm_replay_state :: ty where
  "st_xfrm_replay_state = TStruct ''xfrm_replay_state'' False [
    Plain ''oseq'' td___u32,
    Plain ''seq'' td___u32,
    Plain ''bitmap'' td___u32]"

definition st_xfrm_stats :: ty where
  "st_xfrm_stats = TStruct ''xfrm_stats'' False [
    Plain ''replay_window'' td___u32,
    Plain ''replay'' td___u32,
    Plain ''integrity_failed'' td___u32]"

definition st_xhci_bus_state :: ty where
  "st_xhci_bus_state = TStruct ''xhci_bus_state'' False [
    Plain ''bus_suspended'' (TInt I64 False),
    Plain ''next_statechange'' (TInt I64 False),
    Plain ''port_c_suspend'' td_u32,
    Plain ''suspended_ports'' td_u32,
    Plain ''port_remote_wakeup'' td_u32,
    Plain ''resuming_ports'' (TInt I64 False)]"

definition st_xhci_bw_info :: ty where
  "st_xhci_bw_info = TStruct ''xhci_bw_info'' False [
    Plain ''ep_interval'' (TInt I32 False),
    Plain ''mult'' (TInt I32 False),
    Plain ''num_packets'' (TInt I32 False),
    Plain ''max_packet_size'' (TInt I32 False),
    Plain ''max_esit_payload'' (TInt I32 False),
    Plain ''type'' (TInt I32 False)]"

definition st_xhci_port_regs :: ty where
  "st_xhci_port_regs = TStruct ''xhci_port_regs'' False [
    Plain ''portsc'' td___le32,
    Plain ''portpmsc'' td___le32,
    Plain ''portli'' td___le32,
    Plain ''porthlmpc'' td___le32]"

definition st_xz_dec_hash :: ty where
  "st_xz_dec_hash = TStruct ''xz_dec_hash'' False [
    Plain ''unpadded'' td_vli_type,
    Plain ''uncompressed'' td_vli_type,
    Plain ''crc32'' td_uint32_t]"

definition st_xz_dec_bcj :: ty where
  "st_xz_dec_bcj = TStruct ''xz_dec_bcj'' False [
    Plain ''type'' (TEnum '''' I32),
    Plain ''ret'' (TEnum ''xz_ret'' I32),
    Plain ''single_call'' td_bool,
    Plain ''pos'' td_uint32_t,
    Plain ''x86_prev_mask'' td_uint32_t,
    Plain ''out'' (TPtr ''uint8_t''),
    Plain ''out_pos'' td_size_t,
    Plain ''out_size'' td_size_t,
    Plain ''temp'' (TStruct '''' False [
      Plain ''filtered'' td_size_t,
      Plain ''size'' td_size_t,
      Plain ''buf'' (TArr td_uint8_t 16)])]"

end
