(* ===== verification/VmlinuxStruct5.thy ===== *)
theory VmlinuxStruct5
  imports VmlinuxStruct1 VmlinuxStruct2 VmlinuxStruct3 VmlinuxStruct4
begin

text \<open>
  Structures and unions of \<open>src/internal/ebpf/vmlinux.h\<close> (aggregates nested 1 deep), in the
  order of the header: \<open>st_<tag>\<close>, \<open>un_<tag>\<close>, and \<open>td_<name>\<close> for an aggregate with a type name.
\<close>

definition st_timer_list :: ty where
  "st_timer_list = TStruct ''timer_list'' False [
    Plain ''entry'' st_hlist_node,
    Plain ''expires'' (TInt I64 False),
    Plain ''function'' (TFun ''void (*)(struct timer_list *)''),
    Plain ''flags'' td_u32]"

definition td_arch_spinlock_t :: ty where
  "td_arch_spinlock_t = st_qspinlock"

definition td_seqcount_t :: ty where
  "td_seqcount_t = st_seqcount"

definition td_xfrm_address_t :: ty where
  "td_xfrm_address_t = TUnion '''' False [
    Plain ''a4'' td___be32,
    Plain ''a6'' (TArr td___be32 4),
    Plain ''in6'' st_in6_addr]"

definition td_refcount_t :: ty where
  "td_refcount_t = st_refcount_struct"

definition st_gnet_stats_basic_sync :: ty where
  "st_gnet_stats_basic_sync = TStruct ''gnet_stats_basic_sync'' False [
    Plain ''bytes'' td_u64_stats_t,
    Plain ''packets'' td_u64_stats_t,
    Plain ''syncp'' st_u64_stats_sync]"

definition st_srcu_struct :: ty where
  "st_srcu_struct = TStruct ''srcu_struct'' False [
    Plain ''srcu_ctrp'' (TPtr ''struct srcu_ctr''),
    Plain ''sda'' (TPtr ''struct srcu_data''),
    Plain ''srcu_reader_flavor'' td_u8,
    Plain ''dep_map'' st_lockdep_map,
    Plain ''srcu_sup'' (TPtr ''struct srcu_usage'')]"

definition st_dev_links_info :: ty where
  "st_dev_links_info = TStruct ''dev_links_info'' False [
    Plain ''suppliers'' st_list_head,
    Plain ''consumers'' st_list_head,
    Plain ''defer_sync'' st_list_head,
    Plain ''status'' (TEnum ''dl_dev_state'' I32)]"

definition td_pm_message_t :: ty where
  "td_pm_message_t = st_pm_message"

definition st_timerqueue_node :: ty where
  "st_timerqueue_node = TStruct ''timerqueue_node'' False [
    Plain ''node'' st_rb_node,
    Plain ''expires'' td_ktime_t]"

definition st_work_struct :: ty where
  "st_work_struct = TStruct ''work_struct'' False [
    Plain ''data'' td_atomic_long_t,
    Plain ''entry'' st_list_head,
    Plain ''func'' td_work_func_t]"

definition st_pt_regs :: ty where
  "st_pt_regs = TStruct ''pt_regs'' False [
    Plain ''r15'' (TInt I64 False),
    Plain ''r14'' (TInt I64 False),
    Plain ''r13'' (TInt I64 False),
    Plain ''r12'' (TInt I64 False),
    Plain ''bp'' (TInt I64 False),
    Plain ''bx'' (TInt I64 False),
    Plain ''r11'' (TInt I64 False),
    Plain ''r10'' (TInt I64 False),
    Plain ''r9'' (TInt I64 False),
    Plain ''r8'' (TInt I64 False),
    Plain ''ax'' (TInt I64 False),
    Plain ''cx'' (TInt I64 False),
    Plain ''dx'' (TInt I64 False),
    Plain ''si'' (TInt I64 False),
    Plain ''di'' (TInt I64 False),
    Plain ''orig_ax'' (TInt I64 False),
    Plain ''ip'' (TInt I64 False),
    Plain '''' (TUnion '''' False [
      Plain ''cs'' td_u16,
      Plain ''csx'' td_u64,
      Plain ''fred_cs'' st_fred_cs]),
    Plain ''flags'' (TInt I64 False),
    Plain ''sp'' (TInt I64 False),
    Plain '''' (TUnion '''' False [
      Plain ''ss'' td_u16,
      Plain ''ssx'' td_u64,
      Plain ''fred_ss'' st_fred_ss])]"

definition st___call_single_node :: ty where
  "st___call_single_node = TStruct ''__call_single_node'' False [
    Plain ''llist'' st_llist_node,
    Plain '''' (TUnion '''' False [
      Plain ''u_flags'' (TInt I32 False),
      Plain ''a_flags'' td_atomic_t]),
    Plain ''src'' td_u16,
    Plain ''dst'' td_u16]"

definition st___hmac_sha256_key :: ty where
  "st___hmac_sha256_key = TStruct ''__hmac_sha256_key'' False [
    Plain ''istate'' st_sha256_block_state,
    Plain ''ostate'' st_sha256_block_state]"

definition st___ip6_tnl_parm :: ty where
  "st___ip6_tnl_parm = TStruct ''__ip6_tnl_parm'' False [
    Plain ''name'' (TArr (TInt I8 True) 16),
    Plain ''link'' (TInt I32 True),
    Plain ''proto'' td___u8,
    Plain ''encap_limit'' td___u8,
    Plain ''hop_limit'' td___u8,
    Plain ''collect_md'' td_bool,
    Plain ''flowinfo'' td___be32,
    Plain ''flags'' td___u32,
    Plain ''laddr'' st_in6_addr,
    Plain ''raddr'' st_in6_addr,
    Plain ''i_flags'' (TArr (TInt I64 False) 1),
    Plain ''o_flags'' (TArr (TInt I64 False) 1),
    Plain ''i_key'' td___be32,
    Plain ''o_key'' td___be32,
    Plain ''fwmark'' td___u32,
    Plain ''index'' td___u32,
    Plain ''erspan_ver'' td___u8,
    Plain ''dir'' td___u8,
    Plain ''hwid'' td___u16]"

definition st___kernel_timex :: ty where
  "st___kernel_timex = TStruct ''__kernel_timex'' False [
    Plain ''modes'' (TInt I32 False),
    Plain ''offset'' (TInt I64 True),
    Plain ''freq'' (TInt I64 True),
    Plain ''maxerror'' (TInt I64 True),
    Plain ''esterror'' (TInt I64 True),
    Plain ''status'' (TInt I32 True),
    Plain ''constant'' (TInt I64 True),
    Plain ''precision'' (TInt I64 True),
    Plain ''tolerance'' (TInt I64 True),
    Plain ''time'' st___kernel_timex_timeval,
    Plain ''tick'' (TInt I64 True),
    Plain ''ppsfreq'' (TInt I64 True),
    Plain ''jitter'' (TInt I64 True),
    Plain ''shift'' (TInt I32 True),
    Plain ''stabil'' (TInt I64 True),
    Plain ''jitcnt'' (TInt I64 True),
    Plain ''calcnt'' (TInt I64 True),
    Plain ''errcnt'' (TInt I64 True),
    Plain ''stbcnt'' (TInt I64 True),
    Plain ''tai'' (TInt I32 True),
    Bits '''' (TInt I64 True) 64,
    Bits '''' (TInt I64 True) 64,
    Bits '''' (TInt I64 True) 64,
    Bits '''' (TInt I64 True) 64,
    Bits '''' (TInt I64 True) 64]"

definition td_sigval_t :: ty where
  "td_sigval_t = un_sigval"

definition st__fpstate_32 :: ty where
  "st__fpstate_32 = TStruct ''_fpstate_32'' False [
    Plain ''cw'' td___u32,
    Plain ''sw'' td___u32,
    Plain ''tag'' td___u32,
    Plain ''ipoff'' td___u32,
    Plain ''cssel'' td___u32,
    Plain ''dataoff'' td___u32,
    Plain ''datasel'' td___u32,
    Plain ''_st'' (TArr st__fpreg 8),
    Plain ''status'' td___u16,
    Plain ''magic'' td___u16,
    Plain ''_fxsr_env'' (TArr td___u32 6),
    Plain ''mxcsr'' td___u32,
    Plain ''reserved'' td___u32,
    Plain ''_fxsr_st'' (TArr st__fpxreg 8),
    Plain ''_xmm'' (TArr st__xmmreg 8),
    Plain '''' (TUnion '''' False [
      Plain ''padding1'' (TArr td___u32 44),
      Plain ''padding'' (TArr td___u32 44)]),
    Plain '''' (TUnion '''' False [
      Plain ''padding2'' (TArr td___u32 12),
      Plain ''sw_reserved'' st__fpx_sw_bytes])]"

definition st__intel_private :: ty where
  "st__intel_private = TStruct ''_intel_private'' False [
    Plain ''driver'' (TPtr ''struct intel_gtt_driver''),
    Plain ''pcidev'' (TPtr ''struct pci_dev''),
    Plain ''bridge_dev'' (TPtr ''struct pci_dev''),
    Plain ''registers'' (TPtr ''u8''),
    Plain ''gtt_phys_addr'' td_phys_addr_t,
    Plain ''PGETBL_save'' td_u32,
    Plain ''gtt'' (TPtr ''u32''),
    Plain ''clear_fake_agp'' td_bool,
    Plain ''num_dcache_entries'' (TInt I32 True),
    Plain ''i9xx_flush_page'' (TPtr ''void''),
    Plain ''i81x_gtt_table'' (TPtr ''char''),
    Plain ''ifp_resource'' st_resource,
    Plain ''resource_valid'' (TInt I32 True),
    Plain ''scratch_page'' (TPtr ''struct page''),
    Plain ''scratch_page_dma'' td_phys_addr_t,
    Plain ''refcount'' (TInt I32 True),
    Bits ''needs_dmar'' (TInt I32 False) 1,
    Plain ''gma_bus_addr'' td_phys_addr_t,
    Plain ''stolen_size'' td_resource_size_t,
    Plain ''gtt_total_entries'' (TInt I32 False),
    Plain ''gtt_mappable_entries'' (TInt I32 False)]"

definition st_common_audit_data :: ty where
  "st_common_audit_data = TStruct ''common_audit_data'' False [
    Plain ''type'' (TInt I8 True),
    Plain ''u'' (TUnion '''' False [
      Plain ''path'' st_path,
      Plain ''dentry'' (TPtr ''struct dentry''),
      Plain ''inode'' (TPtr ''struct inode''),
      Plain ''net'' (TPtr ''struct lsm_network_audit''),
      Plain ''cap'' (TInt I32 True),
      Plain ''ipc_id'' (TInt I32 True),
      Plain ''tsk'' (TPtr ''struct task_struct''),
      Plain ''key_struct'' (TStruct '''' False [
        Plain ''key'' td_key_serial_t,
        Plain ''key_desc'' (TPtr ''char'')]),
      Plain ''kmod_name'' (TPtr ''char''),
      Plain ''op'' (TPtr ''struct lsm_ioctlop_audit''),
      Plain ''file'' (TPtr ''struct file''),
      Plain ''ibpkey'' (TPtr ''struct lsm_ibpkey_audit''),
      Plain ''ibendport'' (TPtr ''struct lsm_ibendport_audit''),
      Plain ''reason'' (TInt I32 True),
      Plain ''anonclass'' (TPtr ''char''),
      Plain ''nlmsg_type'' td_u16]),
    Plain '''' (TUnion '''' False [
      Plain ''smack_audit_data'' (TPtr ''struct smack_audit_data''),
      Plain ''selinux_audit_data'' (TPtr ''struct selinux_audit_data''),
      Plain ''apparmor_audit_data'' (TPtr ''struct apparmor_audit_data'')])]"

definition st_aa_policy :: ty where
  "st_aa_policy = TStruct ''aa_policy'' False [
    Plain ''name'' (TPtr ''char''),
    Plain ''hname'' (TPtr ''char''),
    Plain ''list'' st_list_head,
    Plain ''profiles'' st_list_head]"

definition td_acct_t :: ty where
  "td_acct_t = st_acct_v3"

definition st_crypto_async_request :: ty where
  "st_crypto_async_request = TStruct ''crypto_async_request'' False [
    Plain ''list'' st_list_head,
    Plain ''complete'' td_crypto_completion_t,
    Plain ''data'' (TPtr ''void''),
    Plain ''tfm'' (TPtr ''struct crypto_tfm''),
    Plain ''flags'' td_u32]"

definition st_acomp_req_chain :: ty where
  "st_acomp_req_chain = TStruct ''acomp_req_chain'' False [
    Plain ''compl'' td_crypto_completion_t,
    Plain ''data'' (TPtr ''void''),
    Plain ''ssg'' st_scatterlist,
    Plain ''dsg'' st_scatterlist,
    Plain '''' (TUnion '''' False [
      Plain ''src'' (TPtr ''u8''),
      Plain ''sfolio'' (TPtr ''struct folio'')]),
    Plain '''' (TUnion '''' False [
      Plain ''dst'' (TPtr ''u8''),
      Plain ''dfolio'' (TPtr ''struct folio'')]),
    Plain ''flags'' td_u32]"

definition st_acomp_walk :: ty where
  "st_acomp_walk = TStruct ''acomp_walk'' False [
    Plain '''' (TUnion '''' False [
      Plain ''src'' (TStruct '''' False [
        Plain ''virt'' (TStruct '''' False [
          Plain ''addr'' (TPtr ''void'')])]),
      Plain ''in'' st_scatter_walk]),
    Plain '''' (TUnion '''' False [
      Plain ''dst'' (TStruct '''' False [
        Plain ''virt'' (TStruct '''' False [
          Plain ''addr'' (TPtr ''void'')])]),
      Plain ''out'' st_scatter_walk]),
    Plain ''slen'' (TInt I32 False),
    Plain ''dlen'' (TInt I32 False),
    Plain ''flags'' (TInt I32 True)]"

definition st_acpi_parse_obj_common :: ty where
  "st_acpi_parse_obj_common = TStruct ''acpi_parse_obj_common'' False [
    Plain ''parent'' (TPtr ''union acpi_parse_object''),
    Plain ''descriptor_type'' td_u8,
    Plain ''flags'' td_u8,
    Plain ''aml_opcode'' td_u16,
    Plain ''aml'' (TPtr ''u8''),
    Plain ''next'' (TPtr ''union acpi_parse_object''),
    Plain ''node'' (TPtr ''struct acpi_namespace_node''),
    Plain ''value'' un_acpi_parse_value,
    Plain ''arg_list_length'' td_u8,
    Plain ''disasm_flags'' td_u16,
    Plain ''disasm_opcode'' td_u8,
    Plain ''operator_symbol'' (TPtr ''char''),
    Plain ''aml_op_name'' (TArr (TInt I8 True) 16)]"

definition st_acpi_parse_obj_named :: ty where
  "st_acpi_parse_obj_named = TStruct ''acpi_parse_obj_named'' False [
    Plain ''parent'' (TPtr ''union acpi_parse_object''),
    Plain ''descriptor_type'' td_u8,
    Plain ''flags'' td_u8,
    Plain ''aml_opcode'' td_u16,
    Plain ''aml'' (TPtr ''u8''),
    Plain ''next'' (TPtr ''union acpi_parse_object''),
    Plain ''node'' (TPtr ''struct acpi_namespace_node''),
    Plain ''value'' un_acpi_parse_value,
    Plain ''arg_list_length'' td_u8,
    Plain ''disasm_flags'' td_u16,
    Plain ''disasm_opcode'' td_u8,
    Plain ''operator_symbol'' (TPtr ''char''),
    Plain ''aml_op_name'' (TArr (TInt I8 True) 16),
    Plain ''path'' (TPtr ''char''),
    Plain ''data'' (TPtr ''u8''),
    Plain ''length'' td_u32,
    Plain ''name'' td_u32]"

definition st_acpi_parse_obj_asl :: ty where
  "st_acpi_parse_obj_asl = TStruct ''acpi_parse_obj_asl'' False [
    Plain ''parent'' (TPtr ''union acpi_parse_object''),
    Plain ''descriptor_type'' td_u8,
    Plain ''flags'' td_u8,
    Plain ''aml_opcode'' td_u16,
    Plain ''aml'' (TPtr ''u8''),
    Plain ''next'' (TPtr ''union acpi_parse_object''),
    Plain ''node'' (TPtr ''struct acpi_namespace_node''),
    Plain ''value'' un_acpi_parse_value,
    Plain ''arg_list_length'' td_u8,
    Plain ''disasm_flags'' td_u16,
    Plain ''disasm_opcode'' td_u8,
    Plain ''operator_symbol'' (TPtr ''char''),
    Plain ''aml_op_name'' (TArr (TInt I8 True) 16),
    Plain ''child'' (TPtr ''union acpi_parse_object''),
    Plain ''parent_method'' (TPtr ''union acpi_parse_object''),
    Plain ''filename'' (TPtr ''char''),
    Plain ''file_changed'' td_u8,
    Plain ''parent_filename'' (TPtr ''char''),
    Plain ''external_name'' (TPtr ''char''),
    Plain ''namepath'' (TPtr ''char''),
    Plain ''name_seg'' (TArr (TInt I8 True) 4),
    Plain ''extra_value'' td_u32,
    Plain ''column'' td_u32,
    Plain ''line_number'' td_u32,
    Plain ''logical_line_number'' td_u32,
    Plain ''logical_byte_offset'' td_u32,
    Plain ''end_line'' td_u32,
    Plain ''end_logical_line'' td_u32,
    Plain ''acpi_btype'' td_u32,
    Plain ''aml_length'' td_u32,
    Plain ''aml_subtree_length'' td_u32,
    Plain ''final_aml_length'' td_u32,
    Plain ''final_aml_offset'' td_u32,
    Plain ''compile_flags'' td_u32,
    Plain ''parse_opcode'' td_u16,
    Plain ''aml_opcode_length'' td_u8,
    Plain ''aml_pkg_len_bytes'' td_u8,
    Plain ''extra'' td_u8,
    Plain ''parse_op_name'' (TArr (TInt I8 True) 20)]"

definition st_acpi_pnp_device_id_list :: ty where
  "st_acpi_pnp_device_id_list = TStruct ''acpi_pnp_device_id_list'' False [
    Plain ''count'' td_u32,
    Plain ''list_size'' td_u32,
    Plain ''ids'' (TArr st_acpi_pnp_device_id 0)]"

definition st_acpi_madt_generic_interrupt :: ty where
  "st_acpi_madt_generic_interrupt = TStruct ''acpi_madt_generic_interrupt'' True [
    Plain ''header'' st_acpi_subtable_header,
    Plain ''reserved'' td_u16,
    Plain ''cpu_interface_number'' td_u32,
    Plain ''uid'' td_u32,
    Plain ''flags'' td_u32,
    Plain ''parking_version'' td_u32,
    Plain ''performance_interrupt'' td_u32,
    Plain ''parked_address'' td_u64,
    Plain ''base_address'' td_u64,
    Plain ''gicv_base_address'' td_u64,
    Plain ''gich_base_address'' td_u64,
    Plain ''vgic_interrupt'' td_u32,
    Plain ''gicr_base_address'' td_u64,
    Plain ''arm_mpidr'' td_u64,
    Plain ''efficiency_class'' td_u8,
    Plain ''reserved2'' (TArr td_u8 1),
    Plain ''spe_interrupt'' td_u16,
    Plain ''trbe_interrupt'' td_u16,
    Plain ''iaffid'' td_u16,
    Plain ''irs_id'' td_u32]"

definition st_acpi_pcct_ext_pcc_master :: ty where
  "st_acpi_pcct_ext_pcc_master = TStruct ''acpi_pcct_ext_pcc_master'' True [
    Plain ''header'' st_acpi_subtable_header,
    Plain ''platform_interrupt'' td_u32,
    Plain ''flags'' td_u8,
    Plain ''reserved1'' td_u8,
    Plain ''base_address'' td_u64,
    Plain ''length'' td_u32,
    Plain ''doorbell_register'' st_acpi_generic_address,
    Plain ''preserve_mask'' td_u64,
    Plain ''write_mask'' td_u64,
    Plain ''latency'' td_u32,
    Plain ''max_access_rate'' td_u32,
    Plain ''min_turnaround_time'' td_u32,
    Plain ''platform_ack_register'' st_acpi_generic_address,
    Plain ''ack_preserve_mask'' td_u64,
    Plain ''ack_set_mask'' td_u64,
    Plain ''reserved2'' td_u64,
    Plain ''cmd_complete_register'' st_acpi_generic_address,
    Plain ''cmd_complete_mask'' td_u64,
    Plain ''cmd_update_register'' st_acpi_generic_address,
    Plain ''cmd_update_preserve_mask'' td_u64,
    Plain ''cmd_update_set_mask'' td_u64,
    Plain ''error_status_register'' st_acpi_generic_address,
    Plain ''error_status_mask'' td_u64]"

definition st_acpi_pcct_ext_pcc_slave :: ty where
  "st_acpi_pcct_ext_pcc_slave = TStruct ''acpi_pcct_ext_pcc_slave'' True [
    Plain ''header'' st_acpi_subtable_header,
    Plain ''platform_interrupt'' td_u32,
    Plain ''flags'' td_u8,
    Plain ''reserved1'' td_u8,
    Plain ''base_address'' td_u64,
    Plain ''length'' td_u32,
    Plain ''doorbell_register'' st_acpi_generic_address,
    Plain ''preserve_mask'' td_u64,
    Plain ''write_mask'' td_u64,
    Plain ''latency'' td_u32,
    Plain ''max_access_rate'' td_u32,
    Plain ''min_turnaround_time'' td_u32,
    Plain ''platform_ack_register'' st_acpi_generic_address,
    Plain ''ack_preserve_mask'' td_u64,
    Plain ''ack_set_mask'' td_u64,
    Plain ''reserved2'' td_u64,
    Plain ''cmd_complete_register'' st_acpi_generic_address,
    Plain ''cmd_complete_mask'' td_u64,
    Plain ''cmd_update_register'' st_acpi_generic_address,
    Plain ''cmd_update_preserve_mask'' td_u64,
    Plain ''cmd_update_set_mask'' td_u64,
    Plain ''error_status_register'' st_acpi_generic_address,
    Plain ''error_status_mask'' td_u64]"

definition st_acpi_pcct_hw_reduced :: ty where
  "st_acpi_pcct_hw_reduced = TStruct ''acpi_pcct_hw_reduced'' True [
    Plain ''header'' st_acpi_subtable_header,
    Plain ''platform_interrupt'' td_u32,
    Plain ''flags'' td_u8,
    Plain ''reserved'' td_u8,
    Plain ''base_address'' td_u64,
    Plain ''length'' td_u64,
    Plain ''doorbell_register'' st_acpi_generic_address,
    Plain ''preserve_mask'' td_u64,
    Plain ''write_mask'' td_u64,
    Plain ''latency'' td_u32,
    Plain ''max_access_rate'' td_u32,
    Plain ''min_turnaround_time'' td_u16]"

definition st_acpi_pcct_hw_reduced_type2 :: ty where
  "st_acpi_pcct_hw_reduced_type2 = TStruct ''acpi_pcct_hw_reduced_type2'' True [
    Plain ''header'' st_acpi_subtable_header,
    Plain ''platform_interrupt'' td_u32,
    Plain ''flags'' td_u8,
    Plain ''reserved'' td_u8,
    Plain ''base_address'' td_u64,
    Plain ''length'' td_u64,
    Plain ''doorbell_register'' st_acpi_generic_address,
    Plain ''preserve_mask'' td_u64,
    Plain ''write_mask'' td_u64,
    Plain ''latency'' td_u32,
    Plain ''max_access_rate'' td_u32,
    Plain ''min_turnaround_time'' td_u16,
    Plain ''platform_ack_register'' st_acpi_generic_address,
    Plain ''ack_preserve_mask'' td_u64,
    Plain ''ack_write_mask'' td_u64]"

definition st_plist_node :: ty where
  "st_plist_node = TStruct ''plist_node'' False [
    Plain ''prio'' (TInt I32 True),
    Plain ''prio_list'' st_list_head,
    Plain ''node_list'' st_list_head]"

definition st_acpi_resource_extended_irq :: ty where
  "st_acpi_resource_extended_irq = TStruct ''acpi_resource_extended_irq'' True [
    Plain ''producer_consumer'' td_u8,
    Plain ''triggering'' td_u8,
    Plain ''polarity'' td_u8,
    Plain ''shareable'' td_u8,
    Plain ''wake_capable'' td_u8,
    Plain ''interrupt_count'' td_u8,
    Plain ''resource_source'' st_acpi_resource_source,
    Plain '''' (TUnion '''' False [
      Plain ''interrupt'' td_u32,
      Plain '''' (TStruct '''' False [
        Plain ''__Empty_interrupts'' (TStruct '''' False []),
        Plain ''interrupts'' (TArr td_u32 0)])])]"

definition st_acpi_resource_gpio :: ty where
  "st_acpi_resource_gpio = TStruct ''acpi_resource_gpio'' True [
    Plain ''revision_id'' td_u8,
    Plain ''connection_type'' td_u8,
    Plain ''producer_consumer'' td_u8,
    Plain ''pin_config'' td_u8,
    Plain ''shareable'' td_u8,
    Plain ''wake_capable'' td_u8,
    Plain ''io_restriction'' td_u8,
    Plain ''triggering'' td_u8,
    Plain ''polarity'' td_u8,
    Plain ''drive_strength'' td_u16,
    Plain ''debounce_timeout'' td_u16,
    Plain ''pin_table_length'' td_u16,
    Plain ''vendor_length'' td_u16,
    Plain ''resource_source'' st_acpi_resource_source,
    Plain ''pin_table'' (TPtr ''u16''),
    Plain ''vendor_data'' (TPtr ''u8'')]"

definition st_acpi_resource_i2c_serialbus :: ty where
  "st_acpi_resource_i2c_serialbus = TStruct ''acpi_resource_i2c_serialbus'' True [
    Plain ''revision_id'' td_u8,
    Plain ''type'' td_u8,
    Plain ''producer_consumer'' td_u8,
    Plain ''slave_mode'' td_u8,
    Plain ''connection_sharing'' td_u8,
    Plain ''type_revision_id'' td_u8,
    Plain ''type_data_length'' td_u16,
    Plain ''vendor_length'' td_u16,
    Plain ''resource_source'' st_acpi_resource_source,
    Plain ''vendor_data'' (TPtr ''u8''),
    Plain ''access_mode'' td_u8,
    Plain ''slave_address'' td_u16,
    Plain ''connection_speed'' td_u32]"

definition st_acpi_resource_spi_serialbus :: ty where
  "st_acpi_resource_spi_serialbus = TStruct ''acpi_resource_spi_serialbus'' True [
    Plain ''revision_id'' td_u8,
    Plain ''type'' td_u8,
    Plain ''producer_consumer'' td_u8,
    Plain ''slave_mode'' td_u8,
    Plain ''connection_sharing'' td_u8,
    Plain ''type_revision_id'' td_u8,
    Plain ''type_data_length'' td_u16,
    Plain ''vendor_length'' td_u16,
    Plain ''resource_source'' st_acpi_resource_source,
    Plain ''vendor_data'' (TPtr ''u8''),
    Plain ''wire_mode'' td_u8,
    Plain ''device_polarity'' td_u8,
    Plain ''data_bit_length'' td_u8,
    Plain ''clock_phase'' td_u8,
    Plain ''clock_polarity'' td_u8,
    Plain ''device_selection'' td_u16,
    Plain ''connection_speed'' td_u32]"

definition st_acpi_resource_uart_serialbus :: ty where
  "st_acpi_resource_uart_serialbus = TStruct ''acpi_resource_uart_serialbus'' True [
    Plain ''revision_id'' td_u8,
    Plain ''type'' td_u8,
    Plain ''producer_consumer'' td_u8,
    Plain ''slave_mode'' td_u8,
    Plain ''connection_sharing'' td_u8,
    Plain ''type_revision_id'' td_u8,
    Plain ''type_data_length'' td_u16,
    Plain ''vendor_length'' td_u16,
    Plain ''resource_source'' st_acpi_resource_source,
    Plain ''vendor_data'' (TPtr ''u8''),
    Plain ''endian'' td_u8,
    Plain ''data_bits'' td_u8,
    Plain ''stop_bits'' td_u8,
    Plain ''flow_control'' td_u8,
    Plain ''parity'' td_u8,
    Plain ''lines_enabled'' td_u8,
    Plain ''rx_fifo_size'' td_u16,
    Plain ''tx_fifo_size'' td_u16,
    Plain ''default_baud_rate'' td_u32]"

definition st_acpi_resource_csi2_serialbus :: ty where
  "st_acpi_resource_csi2_serialbus = TStruct ''acpi_resource_csi2_serialbus'' True [
    Plain ''revision_id'' td_u8,
    Plain ''type'' td_u8,
    Plain ''producer_consumer'' td_u8,
    Plain ''slave_mode'' td_u8,
    Plain ''connection_sharing'' td_u8,
    Plain ''type_revision_id'' td_u8,
    Plain ''type_data_length'' td_u16,
    Plain ''vendor_length'' td_u16,
    Plain ''resource_source'' st_acpi_resource_source,
    Plain ''vendor_data'' (TPtr ''u8''),
    Plain ''local_port_instance'' td_u8,
    Plain ''phy_type'' td_u8]"

definition st_acpi_table_fadt :: ty where
  "st_acpi_table_fadt = TStruct ''acpi_table_fadt'' True [
    Plain ''header'' st_acpi_table_header,
    Plain ''facs'' td_u32,
    Plain ''dsdt'' td_u32,
    Plain ''model'' td_u8,
    Plain ''preferred_profile'' td_u8,
    Plain ''sci_interrupt'' td_u16,
    Plain ''smi_command'' td_u32,
    Plain ''acpi_enable'' td_u8,
    Plain ''acpi_disable'' td_u8,
    Plain ''s4_bios_request'' td_u8,
    Plain ''pstate_control'' td_u8,
    Plain ''pm1a_event_block'' td_u32,
    Plain ''pm1b_event_block'' td_u32,
    Plain ''pm1a_control_block'' td_u32,
    Plain ''pm1b_control_block'' td_u32,
    Plain ''pm2_control_block'' td_u32,
    Plain ''pm_timer_block'' td_u32,
    Plain ''gpe0_block'' td_u32,
    Plain ''gpe1_block'' td_u32,
    Plain ''pm1_event_length'' td_u8,
    Plain ''pm1_control_length'' td_u8,
    Plain ''pm2_control_length'' td_u8,
    Plain ''pm_timer_length'' td_u8,
    Plain ''gpe0_block_length'' td_u8,
    Plain ''gpe1_block_length'' td_u8,
    Plain ''gpe1_base'' td_u8,
    Plain ''cst_control'' td_u8,
    Plain ''c2_latency'' td_u16,
    Plain ''c3_latency'' td_u16,
    Plain ''flush_size'' td_u16,
    Plain ''flush_stride'' td_u16,
    Plain ''duty_offset'' td_u8,
    Plain ''duty_width'' td_u8,
    Plain ''day_alarm'' td_u8,
    Plain ''month_alarm'' td_u8,
    Plain ''century'' td_u8,
    Plain ''boot_flags'' td_u16,
    Plain ''reserved'' td_u8,
    Plain ''flags'' td_u32,
    Plain ''reset_register'' st_acpi_generic_address,
    Plain ''reset_value'' td_u8,
    Plain ''arm_boot_flags'' td_u16,
    Plain ''minor_revision'' td_u8,
    Plain ''Xfacs'' td_u64,
    Plain ''Xdsdt'' td_u64,
    Plain ''xpm1a_event_block'' st_acpi_generic_address,
    Plain ''xpm1b_event_block'' st_acpi_generic_address,
    Plain ''xpm1a_control_block'' st_acpi_generic_address,
    Plain ''xpm1b_control_block'' st_acpi_generic_address,
    Plain ''xpm2_control_block'' st_acpi_generic_address,
    Plain ''xpm_timer_block'' st_acpi_generic_address,
    Plain ''xgpe0_block'' st_acpi_generic_address,
    Plain ''xgpe1_block'' st_acpi_generic_address,
    Plain ''sleep_control'' st_acpi_generic_address,
    Plain ''sleep_status'' st_acpi_generic_address,
    Plain ''hypervisor_id'' td_u64]"

definition st_acpi_table_spcr :: ty where
  "st_acpi_table_spcr = TStruct ''acpi_table_spcr'' True [
    Plain ''header'' st_acpi_table_header,
    Plain ''interface_type'' td_u8,
    Plain ''reserved'' (TArr td_u8 3),
    Plain ''serial_port'' st_acpi_generic_address,
    Plain ''interrupt_type'' td_u8,
    Plain ''pc_interrupt'' td_u8,
    Plain ''interrupt'' td_u32,
    Plain ''baud_rate'' td_u8,
    Plain ''parity'' td_u8,
    Plain ''stop_bits'' td_u8,
    Plain ''flow_control'' td_u8,
    Plain ''terminal_type'' td_u8,
    Plain ''language'' td_u8,
    Plain ''pci_device_id'' td_u16,
    Plain ''pci_vendor_id'' td_u16,
    Plain ''pci_bus'' td_u8,
    Plain ''pci_device'' td_u8,
    Plain ''pci_function'' td_u8,
    Plain ''pci_flags'' td_u32,
    Plain ''pci_segment'' td_u8,
    Plain ''uart_clk_freq'' td_u32,
    Plain ''precise_baudrate'' td_u32,
    Plain ''name_space_string_length'' td_u16,
    Plain ''name_space_string_offset'' td_u16,
    Plain ''name_space_string'' (TArr (TInt I8 True) 0)]"

definition st_acpi_table_wdat :: ty where
  "st_acpi_table_wdat = TStruct ''acpi_table_wdat'' False [
    Plain ''header'' st_acpi_table_header,
    Plain ''header_length'' td_u32,
    Plain ''pci_segment'' td_u16,
    Plain ''pci_bus'' td_u8,
    Plain ''pci_device'' td_u8,
    Plain ''pci_function'' td_u8,
    Plain ''reserved'' (TArr td_u8 3),
    Plain ''timer_period'' td_u32,
    Plain ''max_count'' td_u32,
    Plain ''min_count'' td_u32,
    Plain ''flags'' td_u8,
    Plain ''reserved2'' (TArr td_u8 3),
    Plain ''entries'' td_u32]"

definition st_rb_root_cached :: ty where
  "st_rb_root_cached = TStruct ''rb_root_cached'' False [
    Plain ''rb_root'' st_rb_root,
    Plain ''rb_leftmost'' (TPtr ''struct rb_node'')]"

definition st_audit_ntp_data :: ty where
  "st_audit_ntp_data = TStruct ''audit_ntp_data'' False [
    Plain ''vals'' (TArr st_audit_ntp_val 6)]"

definition st_aer_capability_regs :: ty where
  "st_aer_capability_regs = TStruct ''aer_capability_regs'' False [
    Plain ''header'' td_u32,
    Plain ''uncor_status'' td_u32,
    Plain ''uncor_mask'' td_u32,
    Plain ''uncor_severity'' td_u32,
    Plain ''cor_status'' td_u32,
    Plain ''cor_mask'' td_u32,
    Plain ''cap_control'' td_u32,
    Plain ''header_log'' st_pcie_tlp_log,
    Plain ''root_command'' td_u32,
    Plain ''root_status'' td_u32,
    Plain ''cor_err_source'' td_u16,
    Plain ''uncor_err_source'' td_u16]"

definition st_aer_err_info :: ty where
  "st_aer_err_info = TStruct ''aer_err_info'' False [
    Plain ''dev'' (TArr (TPtr ''struct pci_dev'') 5),
    Plain ''ratelimit_print'' (TArr (TInt I32 True) 5),
    Plain ''error_dev_num'' (TInt I32 True),
    Plain ''level'' (TPtr ''char''),
    Bits ''id'' (TInt I32 False) 16,
    Bits ''severity'' (TInt I32 False) 2,
    Bits ''root_ratelimit_print'' (TInt I32 False) 1,
    Bits ''__pad1'' (TInt I32 False) 4,
    Bits ''multi_error_valid'' (TInt I32 False) 1,
    Bits ''first_error'' (TInt I32 False) 5,
    Bits ''__pad2'' (TInt I32 False) 1,
    Bits ''is_cxl'' (TInt I32 False) 1,
    Bits ''tlp_header_valid'' (TInt I32 False) 1,
    Plain ''status'' (TInt I32 False),
    Plain ''mask'' (TInt I32 False),
    Plain ''tlp'' st_pcie_tlp_log]"

definition st_aer_rpc :: ty where
  "st_aer_rpc = TStruct ''aer_rpc'' False [
    Plain ''rpd'' (TPtr ''struct pci_dev''),
    Plain ''aer_fifo'' (TStruct '''' False [
      Plain '''' (TUnion '''' False [
        Plain ''kfifo'' st___kfifo,
        Plain ''type'' (TPtr ''struct aer_err_source''),
        Plain ''const_type'' (TPtr ''struct aer_err_source''),
        Plain ''rectype'' (TPtr ''char (*rectype)[0]''),
        Plain ''ptr'' (TPtr ''struct aer_err_source''),
        Plain ''ptr_const'' (TPtr ''struct aer_err_source'')]),
      Plain ''buf'' (TArr st_aer_err_source 128)])]"

definition st_aes_enckey :: ty where
  "st_aes_enckey = TStruct ''aes_enckey'' False [
    Plain ''len'' td_u32,
    Plain ''nrounds'' td_u32,
    Plain ''padding'' (TArr td_u32 2),
    Plain ''k'' un_aes_enckey_arch]"

definition st_agp_memory :: ty where
  "st_agp_memory = TStruct ''agp_memory'' False [
    Plain ''next'' (TPtr ''struct agp_memory''),
    Plain ''prev'' (TPtr ''struct agp_memory''),
    Plain ''bridge'' (TPtr ''struct agp_bridge_data''),
    Plain ''pages'' (TPtr ''struct page *''),
    Plain ''page_count'' td_size_t,
    Plain ''key'' (TInt I32 True),
    Plain ''num_scratch_pages'' (TInt I32 True),
    Plain ''pg_start'' td_off_t,
    Plain ''type'' td_u32,
    Plain ''physical'' td_u32,
    Plain ''is_bound'' td_bool,
    Plain ''is_flushed'' td_bool,
    Plain ''mapped_list'' st_list_head,
    Plain ''sg_list'' (TPtr ''struct scatterlist''),
    Plain ''num_sg'' (TInt I32 True)]"

definition st_wait_queue_entry :: ty where
  "st_wait_queue_entry = TStruct ''wait_queue_entry'' False [
    Plain ''flags'' (TInt I32 False),
    Plain ''private'' (TPtr ''void''),
    Plain ''func'' td_wait_queue_func_t,
    Plain ''entry'' st_list_head]"

definition st_iommu_device :: ty where
  "st_iommu_device = TStruct ''iommu_device'' False [
    Plain ''list'' st_list_head,
    Plain ''ops'' (TPtr ''struct iommu_ops''),
    Plain ''fwnode'' (TPtr ''struct fwnode_handle''),
    Plain ''dev'' (TPtr ''struct device''),
    Plain ''singleton_group'' (TPtr ''struct iommu_group''),
    Plain ''max_pasids'' td_u32,
    Plain ''ready'' td_bool]"

definition st_arch_lbr_state :: ty where
  "st_arch_lbr_state = TStruct ''arch_lbr_state'' False [
    Plain ''lbr_ctl'' td_u64,
    Plain ''lbr_depth'' td_u64,
    Plain ''ler_from'' td_u64,
    Plain ''ler_to'' td_u64,
    Plain ''ler_info'' td_u64,
    Plain ''entries'' (TArr st_lbr_entry 0)]"

definition st_assoc_array_edit :: ty where
  "st_assoc_array_edit = TStruct ''assoc_array_edit'' False [
    Plain ''rcu'' st_callback_head,
    Plain ''array'' (TPtr ''struct assoc_array''),
    Plain ''ops'' (TPtr ''struct assoc_array_ops''),
    Plain ''ops_for_excised_subtree'' (TPtr ''struct assoc_array_ops''),
    Plain ''leaf'' (TPtr ''struct assoc_array_ptr''),
    Plain ''leaf_p'' (TPtr ''struct assoc_array_ptr *''),
    Plain ''dead_leaf'' (TPtr ''struct assoc_array_ptr''),
    Plain ''new_meta'' (TArr (TPtr ''struct assoc_array_ptr'') 3),
    Plain ''excised_meta'' (TArr (TPtr ''struct assoc_array_ptr'') 1),
    Plain ''excised_subtree'' (TPtr ''struct assoc_array_ptr''),
    Plain ''set_backpointers'' (TArr (TPtr ''struct assoc_array_ptr *'') 16),
    Plain ''set_backpointers_to'' (TPtr ''struct assoc_array_ptr''),
    Plain ''adjust_count_on'' (TPtr ''struct assoc_array_node''),
    Plain ''adjust_count_by'' (TInt I64 True),
    Plain ''set'' (TArr (TStruct '''' False [
      Plain ''ptr'' (TPtr ''struct assoc_array_ptr *''),
      Plain ''to'' (TPtr ''struct assoc_array_ptr'')]) 2),
    Plain ''set_parent_slot'' (TArr (TStruct '''' False [
      Plain ''p'' (TPtr ''u8''),
      Plain ''to'' td_u8]) 1),
    Plain ''segment_cache'' (TArr td_u8 17)]"

definition st_ata_acpi_gtm :: ty where
  "st_ata_acpi_gtm = TStruct ''ata_acpi_gtm'' False [
    Plain ''drive'' (TArr st_ata_acpi_drive 2),
    Plain ''flags'' td_u32]"

definition st_ata_ering :: ty where
  "st_ata_ering = TStruct ''ata_ering'' False [
    Plain ''cursor'' (TInt I32 True),
    Plain ''ring'' (TArr st_ata_ering_entry 32)]"

definition st_ata_eh_context :: ty where
  "st_ata_eh_context = TStruct ''ata_eh_context'' False [
    Plain ''i'' st_ata_eh_info,
    Plain ''tries'' (TArr (TInt I32 True) 2),
    Plain ''cmd_timeout_idx'' (TArr (TInt I32 True) 16),
    Plain ''classes'' (TArr (TInt I32 False) 2),
    Plain ''did_probe_mask'' (TInt I32 False),
    Plain ''unloaded_mask'' (TInt I32 False),
    Plain ''saved_ncq_enabled'' (TInt I32 False),
    Plain ''saved_xfer_mode'' (TArr td_u8 2),
    Plain ''last_reset'' (TInt I64 False)]"

definition st_ata_queued_cmd :: ty where
  "st_ata_queued_cmd = TStruct ''ata_queued_cmd'' False [
    Plain ''ap'' (TPtr ''struct ata_port''),
    Plain ''dev'' (TPtr ''struct ata_device''),
    Plain ''scsicmd'' (TPtr ''struct scsi_cmnd''),
    Plain ''scsidone'' (TFun ''void (*)(struct scsi_cmnd *)''),
    Plain ''tf'' st_ata_taskfile,
    Plain ''cdb'' (TArr td_u8 16),
    Plain ''flags'' (TInt I64 False),
    Plain ''tag'' (TInt I32 False),
    Plain ''hw_tag'' (TInt I32 False),
    Plain ''n_elem'' (TInt I32 False),
    Plain ''orig_n_elem'' (TInt I32 False),
    Plain ''dma_dir'' (TInt I32 True),
    Plain ''sect_size'' (TInt I32 False),
    Plain ''nbytes'' (TInt I32 False),
    Plain ''extrabytes'' (TInt I32 False),
    Plain ''curbytes'' (TInt I32 False),
    Plain ''sgent'' st_scatterlist,
    Plain ''sg'' (TPtr ''struct scatterlist''),
    Plain ''cursg'' (TPtr ''struct scatterlist''),
    Plain ''cursg_ofs'' (TInt I32 False),
    Plain ''err_mask'' (TInt I32 False),
    Plain ''result_tf'' st_ata_taskfile,
    Plain ''complete_fn'' td_ata_qc_cb_t,
    Plain ''private_data'' (TPtr ''void''),
    Plain ''lldd_task'' (TPtr ''void'')]"

definition st_lsm_prop :: ty where
  "st_lsm_prop = TStruct ''lsm_prop'' False [
    Plain ''selinux'' st_lsm_prop_selinux,
    Plain ''smack'' st_lsm_prop_smack,
    Plain ''apparmor'' st_lsm_prop_apparmor,
    Plain ''bpf'' st_lsm_prop_bpf]"

definition st_audit_stamp :: ty where
  "st_audit_stamp = TStruct ''audit_stamp'' False [
    Plain ''ctime'' st_timespec64,
    Plain ''serial'' (TInt I32 False)]"

definition st_audit_krule :: ty where
  "st_audit_krule = TStruct ''audit_krule'' False [
    Plain ''pflags'' td_u32,
    Plain ''flags'' td_u32,
    Plain ''listnr'' td_u32,
    Plain ''action'' td_u32,
    Plain ''mask'' (TArr td_u32 64),
    Plain ''buflen'' td_u32,
    Plain ''field_count'' td_u32,
    Plain ''filterkey'' (TPtr ''char''),
    Plain ''fields'' (TPtr ''struct audit_field''),
    Plain ''arch_f'' (TPtr ''struct audit_field''),
    Plain ''inode_f'' (TPtr ''struct audit_field''),
    Plain ''watch'' (TPtr ''struct audit_watch''),
    Plain ''tree'' (TPtr ''struct audit_tree''),
    Plain ''exe'' (TPtr ''struct audit_fsnotify_mark''),
    Plain ''rlist'' st_list_head,
    Plain ''list'' st_list_head,
    Plain ''prio'' td_u64]"

definition st_bio :: ty where
  "st_bio = TStruct ''bio'' False [
    Plain ''bi_next'' (TPtr ''struct bio''),
    Plain ''bi_bdev'' (TPtr ''struct block_device''),
    Plain ''bi_opf'' td_blk_opf_t,
    Plain ''bi_flags'' (TInt I16 False),
    Plain ''bi_ioprio'' (TInt I16 False),
    Plain ''bi_write_hint'' (TEnum ''rw_hint'' I8),
    Plain ''bi_write_stream'' td_u8,
    Plain ''bi_status'' td_blk_status_t,
    Plain ''bi_bvec_gap_bit'' td_u8,
    Plain ''__bi_remaining'' td_atomic_t,
    Plain ''bi_io_vec'' (TPtr ''struct bio_vec''),
    Plain ''bi_iter'' st_bvec_iter,
    Plain '''' (TUnion '''' False [
      Plain ''bi_cookie'' td_blk_qc_t,
      Plain ''__bi_nr_segments'' (TInt I32 False)]),
    Plain ''bi_end_io'' (TPtr ''bio_end_io_t''),
    Plain ''bi_private'' (TPtr ''void''),
    Plain ''bi_blkg'' (TPtr ''struct blkcg_gq''),
    Plain ''issue_time_ns'' td_u64,
    Plain ''bi_iocost_cost'' td_u64,
    Plain ''bi_crypt_context'' (TPtr ''struct bio_crypt_ctx''),
    Plain ''bi_integrity'' (TPtr ''struct bio_integrity_payload''),
    Plain ''bi_vcnt'' (TInt I16 False),
    Plain ''bi_max_vecs'' (TInt I16 False),
    Plain ''__bi_cnt'' td_atomic_t,
    Plain ''bi_pool'' (TPtr ''struct bio_set'')]"

definition st_iov_iter :: ty where
  "st_iov_iter = TStruct ''iov_iter'' False [
    Plain ''iter_type'' td_u8,
    Plain ''nofault'' td_bool,
    Plain ''data_source'' td_bool,
    Plain ''iov_offset'' td_size_t,
    Plain '''' (TUnion '''' False [
      Plain ''__ubuf_iovec'' st_iovec,
      Plain '''' (TStruct '''' False [
        Plain '''' (TUnion '''' False [
          Plain ''__iov'' (TPtr ''struct iovec''),
          Plain ''kvec'' (TPtr ''struct kvec''),
          Plain ''bvec'' (TPtr ''struct bio_vec''),
          Plain ''folioq'' (TPtr ''struct folio_queue''),
          Plain ''xarray'' (TPtr ''struct xarray''),
          Plain ''ubuf'' (TPtr ''void'')]),
        Plain ''count'' td_size_t])]),
    Plain '''' (TUnion '''' False [
      Plain ''nr_segs'' (TInt I64 False),
      Plain ''folioq_slot'' td_u8,
      Plain ''xarray_start'' td_loff_t])]"

definition st_blk_plug :: ty where
  "st_blk_plug = TStruct ''blk_plug'' False [
    Plain ''mq_list'' st_rq_list,
    Plain ''cached_rqs'' st_rq_list,
    Plain ''cur_ktime'' td_u64,
    Plain ''nr_ios'' (TInt I16 False),
    Plain ''rq_count'' (TInt I16 False),
    Plain ''multiple_queues'' td_bool,
    Plain ''has_elevator'' td_bool,
    Plain ''cb_list'' st_list_head]"

definition st_blk_trace :: ty where
  "st_blk_trace = TStruct ''blk_trace'' False [
    Plain ''version'' (TInt I32 True),
    Plain ''trace_state'' (TInt I32 True),
    Plain ''rchan'' (TPtr ''struct rchan''),
    Plain ''sequence'' (TPtr ''long unsigned int''),
    Plain ''msg_data'' (TPtr ''unsigned char''),
    Plain ''act_mask'' td_u64,
    Plain ''start_lba'' td_u64,
    Plain ''end_lba'' td_u64,
    Plain ''pid'' td_u32,
    Plain ''dev'' td_u32,
    Plain ''dir'' (TPtr ''struct dentry''),
    Plain ''running_list'' st_list_head,
    Plain ''dropped'' td_atomic_t]"

definition st_blkg_iostat_set :: ty where
  "st_blkg_iostat_set = TStruct ''blkg_iostat_set'' False [
    Plain ''sync'' st_u64_stats_sync,
    Plain ''blkg'' (TPtr ''struct blkcg_gq''),
    Plain ''lnode'' st_llist_node,
    Plain ''lqueued'' (TInt I32 True),
    Plain ''cur'' st_blkg_iostat,
    Plain ''last'' st_blkg_iostat]"

definition st_bpf_call_arg_meta :: ty where
  "st_bpf_call_arg_meta = TStruct ''bpf_call_arg_meta'' False [
    Plain ''map'' st_bpf_map_desc,
    Plain ''raw_mode'' td_bool,
    Plain ''pkt_access'' td_bool,
    Plain ''release_regno'' td_u8,
    Plain ''regno'' (TInt I32 True),
    Plain ''access_size'' (TInt I32 True),
    Plain ''mem_size'' (TInt I32 True),
    Plain ''msize_max_value'' td_u64,
    Plain ''ref_obj_id'' (TInt I32 True),
    Plain ''dynptr_id'' (TInt I32 True),
    Plain ''func_id'' (TInt I32 True),
    Plain ''btf'' (TPtr ''struct btf''),
    Plain ''btf_id'' td_u32,
    Plain ''ret_btf'' (TPtr ''struct btf''),
    Plain ''ret_btf_id'' td_u32,
    Plain ''subprogno'' td_u32,
    Plain ''kptr_field'' (TPtr ''struct btf_field''),
    Plain ''const_map_key'' td_s64]"

definition td_cpumask_t :: ty where
  "td_cpumask_t = st_cpumask"

definition st_latch_tree_node :: ty where
  "st_latch_tree_node = TStruct ''latch_tree_node'' False [
    Plain ''node'' (TArr st_rb_node 2)]"

definition st_bpf_reg_state :: ty where
  "st_bpf_reg_state = TStruct ''bpf_reg_state'' False [
    Plain ''type'' (TEnum ''bpf_reg_type'' I32),
    Plain ''off'' td_s32,
    Plain '''' (TUnion '''' False [
      Plain ''range'' (TInt I32 True),
      Plain '''' (TStruct '''' False [
        Plain ''map_ptr'' (TPtr ''struct bpf_map''),
        Plain ''map_uid'' td_u32]),
      Plain '''' (TStruct '''' False [
        Plain ''btf'' (TPtr ''struct btf''),
        Plain ''btf_id'' td_u32]),
      Plain '''' (TStruct '''' False [
        Plain ''mem_size'' td_u32,
        Plain ''dynptr_id'' td_u32]),
      Plain ''dynptr'' (TStruct '''' False [
        Plain ''type'' (TEnum ''bpf_dynptr_type'' I32),
        Plain ''first_slot'' td_bool]),
      Plain ''iter'' (TStruct '''' False [
        Plain ''btf'' (TPtr ''struct btf''),
        Plain ''btf_id'' td_u32,
        Bits ''state'' (TEnum ''bpf_iter_state'' I32) 2,
        Bits ''depth'' (TInt I32 True) 30]),
      Plain ''irq'' (TStruct '''' False [
        Plain ''kfunc_class'' (TEnum '''' I32)]),
      Plain ''raw'' (TStruct '''' False [
        Plain ''raw1'' (TInt I64 False),
        Plain ''raw2'' (TInt I64 False)]),
      Plain ''subprogno'' td_u32]),
    Plain ''var_off'' st_tnum,
    Plain ''smin_value'' td_s64,
    Plain ''smax_value'' td_s64,
    Plain ''umin_value'' td_u64,
    Plain ''umax_value'' td_u64,
    Plain ''s32_min_value'' td_s32,
    Plain ''s32_max_value'' td_s32,
    Plain ''u32_min_value'' td_u32,
    Plain ''u32_max_value'' td_u32,
    Plain ''id'' td_u32,
    Plain ''ref_obj_id'' td_u32,
    Plain ''frameno'' td_u32,
    Plain ''subreg_def'' td_s32,
    Plain ''precise'' td_bool]"

definition st_bpf_idmap :: ty where
  "st_bpf_idmap = TStruct ''bpf_idmap'' False [
    Plain ''tmp_id_gen'' td_u32,
    Plain ''cnt'' td_u32,
    Plain ''map'' (TArr st_bpf_id_pair 600)]"

definition st_bpf_insn_aux_data :: ty where
  "st_bpf_insn_aux_data = TStruct ''bpf_insn_aux_data'' False [
    Plain '''' (TUnion '''' False [
      Plain ''ptr_type'' (TEnum ''bpf_reg_type'' I32),
      Plain ''map_ptr_state'' st_bpf_map_ptr_state,
      Plain ''call_imm'' td_s32,
      Plain ''alu_limit'' td_u32,
      Plain '''' (TStruct '''' False [
        Plain ''map_index'' td_u32,
        Plain ''map_off'' td_u32]),
      Plain ''btf_var'' (TStruct '''' False [
        Plain ''reg_type'' (TEnum ''bpf_reg_type'' I32),
        Plain '''' (TUnion '''' False [
          Plain '''' (TStruct '''' False [
            Plain ''btf'' (TPtr ''struct btf''),
            Plain ''btf_id'' td_u32]),
          Plain ''mem_size'' td_u32])]),
      Plain ''loop_inline_state'' st_bpf_loop_inline_state]),
    Plain '''' (TUnion '''' False [
      Plain ''obj_new_size'' td_u64,
      Plain ''insert_off'' td_u64]),
    Plain ''jt'' (TPtr ''struct bpf_iarray''),
    Plain ''kptr_struct_meta'' (TPtr ''struct btf_struct_meta''),
    Plain ''map_key_state'' td_u64,
    Plain ''ctx_field_size'' (TInt I32 True),
    Plain ''seen'' td_u32,
    Plain ''nospec'' td_bool,
    Plain ''nospec_result'' td_bool,
    Plain ''zext_dst'' td_bool,
    Plain ''needs_zext'' td_bool,
    Plain ''non_sleepable'' td_bool,
    Plain ''is_iter_next'' td_bool,
    Plain ''call_with_percpu_alloc_ptr'' td_bool,
    Plain ''alu_state'' td_u8,
    Bits ''fastcall_pattern'' td_u8 1,
    Bits ''fastcall_spills_num'' td_u8 3,
    Bits ''arg_prog'' td_u8 4,
    Plain ''orig_idx'' (TInt I32 False),
    Plain ''jmp_point'' td_bool,
    Plain ''prune_point'' td_bool,
    Plain ''force_checkpoint'' td_bool,
    Plain ''calls_callback'' td_bool,
    Plain ''scc'' td_u32,
    Plain ''live_regs_before'' td_u16]"

definition st_scx_dsq_list_node :: ty where
  "st_scx_dsq_list_node = TStruct ''scx_dsq_list_node'' False [
    Plain ''node'' st_list_head,
    Plain ''flags'' td_u32,
    Plain ''priv'' td_u32]"

definition st_bpf_kfunc_call_arg_meta :: ty where
  "st_bpf_kfunc_call_arg_meta = TStruct ''bpf_kfunc_call_arg_meta'' False [
    Plain ''btf'' (TPtr ''struct btf''),
    Plain ''func_id'' td_u32,
    Plain ''kfunc_flags'' td_u32,
    Plain ''func_proto'' (TPtr ''struct btf_type''),
    Plain ''func_name'' (TPtr ''char''),
    Plain ''ref_obj_id'' td_u32,
    Plain ''release_regno'' td_u8,
    Plain ''r0_rdonly'' td_bool,
    Plain ''ret_btf_id'' td_u32,
    Plain ''r0_size'' td_u64,
    Plain ''subprogno'' td_u32,
    Plain ''arg_constant'' (TStruct '''' False [
      Plain ''value'' td_u64,
      Plain ''found'' td_bool]),
    Plain ''arg_btf'' (TPtr ''struct btf''),
    Plain ''arg_btf_id'' td_u32,
    Plain ''arg_owning_ref'' td_bool,
    Plain ''arg_prog'' td_bool,
    Plain ''arg_list_head'' (TStruct '''' False [
      Plain ''field'' (TPtr ''struct btf_field'')]),
    Plain ''arg_rbtree_root'' (TStruct '''' False [
      Plain ''field'' (TPtr ''struct btf_field'')]),
    Plain ''initialized_dynptr'' (TStruct '''' False [
      Plain ''type'' (TEnum ''bpf_dynptr_type'' I32),
      Plain ''id'' td_u32,
      Plain ''ref_obj_id'' td_u32]),
    Plain ''iter'' (TStruct '''' False [
      Plain ''spi'' td_u8,
      Plain ''frameno'' td_u8]),
    Plain ''map'' st_bpf_map_desc,
    Plain ''mem_size'' td_u64]"

definition st_bpf_local_storage_elem :: ty where
  "st_bpf_local_storage_elem = TStruct ''bpf_local_storage_elem'' False [
    Plain ''map_node'' st_hlist_node,
    Plain ''snode'' st_hlist_node,
    Plain ''local_storage'' (TPtr ''struct bpf_local_storage''),
    Plain '''' (TUnion '''' False [
      Plain ''rcu'' st_callback_head,
      Plain ''free_node'' st_hlist_node]),
    Plain ''state'' td_atomic_t,
    Plain ''use_kmalloc_nolock'' td_bool,
    Plain ''sdata'' st_bpf_local_storage_data,
    Bits '''' (TInt I64 True) 64,
    Bits '''' (TInt I64 True) 64,
    Bits '''' (TInt I64 True) 64,
    Bits '''' (TInt I64 True) 64,
    Bits '''' (TInt I64 True) 64,
    Bits '''' (TInt I64 True) 64,
    Bits '''' (TInt I64 True) 64]"

definition st_bpf_lru_node :: ty where
  "st_bpf_lru_node = TStruct ''bpf_lru_node'' False [
    Plain ''list'' st_list_head,
    Plain ''cpu'' td_u16,
    Plain ''type'' td_u8,
    Plain ''ref'' td_u8]"

definition st_bpf_prog :: ty where
  "st_bpf_prog = TStruct ''bpf_prog'' False [
    Plain ''pages'' td_u16,
    Bits ''jited'' td_u16 1,
    Bits ''jit_requested'' td_u16 1,
    Bits ''gpl_compatible'' td_u16 1,
    Bits ''cb_access'' td_u16 1,
    Bits ''dst_needed'' td_u16 1,
    Bits ''blinding_requested'' td_u16 1,
    Bits ''blinded'' td_u16 1,
    Bits ''is_func'' td_u16 1,
    Bits ''kprobe_override'' td_u16 1,
    Bits ''has_callchain_buf'' td_u16 1,
    Bits ''enforce_expected_attach_type'' td_u16 1,
    Bits ''call_get_stack'' td_u16 1,
    Bits ''call_get_func_ip'' td_u16 1,
    Bits ''call_session_cookie'' td_u16 1,
    Bits ''tstamp_type_access'' td_u16 1,
    Bits ''sleepable'' td_u16 1,
    Plain ''type'' (TEnum ''bpf_prog_type'' I32),
    Plain ''expected_attach_type'' (TEnum ''bpf_attach_type'' I32),
    Plain ''len'' td_u32,
    Plain ''jited_len'' td_u32,
    Plain '''' (TUnion '''' False [
      Plain ''digest'' (TArr td_u8 32),
      Plain ''tag'' (TArr td_u8 8)]),
    Plain ''stats'' (TPtr ''struct bpf_prog_stats''),
    Plain ''active'' (TPtr ''u8''),
    Plain ''bpf_func'' (TFun ''unsigned int (*)(const void *, const struct bpf_insn *)''),
    Plain ''aux'' (TPtr ''struct bpf_prog_aux''),
    Plain ''orig_prog'' (TPtr ''struct sock_fprog_kern''),
    Plain '''' (TUnion '''' False [
      Plain '''' (TStruct '''' False [
        Plain ''__empty_insns'' (TStruct '''' False []),
        Plain ''insns'' (TArr st_sock_filter 0)]),
      Plain '''' (TStruct '''' False [
        Plain ''__empty_insnsi'' (TStruct '''' False []),
        Plain ''insnsi'' (TArr st_bpf_insn 0)])])]"

definition st_bpf_subprog_info :: ty where
  "st_bpf_subprog_info = TStruct ''bpf_subprog_info'' False [
    Plain ''start'' td_u32,
    Plain ''linfo_idx'' td_u32,
    Plain ''postorder_start'' td_u32,
    Plain ''exit_idx'' td_u32,
    Plain ''stack_depth'' td_u16,
    Plain ''stack_extra'' td_u16,
    Plain ''fastcall_stack_off'' td_s16,
    Bits ''has_tail_call'' td_bool 1,
    Bits ''tail_call_reachable'' td_bool 1,
    Bits ''has_ld_abs'' td_bool 1,
    Bits ''is_cb'' td_bool 1,
    Bits ''is_async_cb'' td_bool 1,
    Bits ''is_exception_cb'' td_bool 1,
    Bits ''args_cached'' td_bool 1,
    Bits ''keep_fastcall_stack'' td_bool 1,
    Bits ''changes_pkt_data'' td_bool 1,
    Bits ''might_sleep'' td_bool 1,
    Bits ''arg_cnt'' td_u8 3,
    Plain ''priv_stack_mode'' (TEnum ''priv_stack_mode'' I32),
    Plain ''args'' (TArr st_bpf_subprog_arg_info 5)]"

definition st_perf_sample_data :: ty where
  "st_perf_sample_data = TStruct ''perf_sample_data'' False [
    Plain ''sample_flags'' td_u64,
    Plain ''period'' td_u64,
    Plain ''dyn_size'' td_u64,
    Plain ''type'' td_u64,
    Plain ''tid_entry'' (TStruct '''' False [
      Plain ''pid'' td_u32,
      Plain ''tid'' td_u32]),
    Plain ''time'' td_u64,
    Plain ''id'' td_u64,
    Plain ''cpu_entry'' (TStruct '''' False [
      Plain ''cpu'' td_u32,
      Plain ''reserved'' td_u32]),
    Plain ''ip'' td_u64,
    Plain ''callchain'' (TPtr ''struct perf_callchain_entry''),
    Plain ''raw'' (TPtr ''struct perf_raw_record''),
    Plain ''br_stack'' (TPtr ''struct perf_branch_stack''),
    Plain ''br_stack_cntr'' (TPtr ''u64''),
    Plain ''weight'' un_perf_sample_weight,
    Plain ''data_src'' un_perf_mem_data_src,
    Plain ''txn'' td_u64,
    Plain ''regs_user'' st_perf_regs,
    Plain ''regs_intr'' st_perf_regs,
    Plain ''stack_user_size'' td_u64,
    Plain ''stream_id'' td_u64,
    Plain ''cgroup'' td_u64,
    Plain ''addr'' td_u64,
    Plain ''phys_addr'' td_u64,
    Plain ''data_page_size'' td_u64,
    Plain ''code_page_size'' td_u64,
    Plain ''aux_size'' td_u64,
    Bits '''' (TInt I64 True) 64,
    Bits '''' (TInt I64 True) 64,
    Bits '''' (TInt I64 True) 64,
    Bits '''' (TInt I64 True) 64]"

definition st_br_mdb_entry :: ty where
  "st_br_mdb_entry = TStruct ''br_mdb_entry'' False [
    Plain ''ifindex'' td___u32,
    Plain ''state'' td___u8,
    Plain ''flags'' td___u8,
    Plain ''vid'' td___u16,
    Plain ''addr'' (TStruct '''' False [
      Plain ''u'' (TUnion '''' False [
        Plain ''ip4'' td___be32,
        Plain ''ip6'' st_in6_addr,
        Plain ''mac_addr'' (TArr (TInt I8 False) 6)]),
      Plain ''proto'' td___be16])]"

definition st_bsd_disklabel :: ty where
  "st_bsd_disklabel = TStruct ''bsd_disklabel'' False [
    Plain ''d_magic'' td___le32,
    Plain ''d_type'' td___s16,
    Plain ''d_subtype'' td___s16,
    Plain ''d_typename'' (TArr (TInt I8 True) 16),
    Plain ''d_packname'' (TArr (TInt I8 True) 16),
    Plain ''d_secsize'' td___u32,
    Plain ''d_nsectors'' td___u32,
    Plain ''d_ntracks'' td___u32,
    Plain ''d_ncylinders'' td___u32,
    Plain ''d_secpercyl'' td___u32,
    Plain ''d_secperunit'' td___u32,
    Plain ''d_sparespertrack'' td___u16,
    Plain ''d_sparespercyl'' td___u16,
    Plain ''d_acylinders'' td___u32,
    Plain ''d_rpm'' td___u16,
    Plain ''d_interleave'' td___u16,
    Plain ''d_trackskew'' td___u16,
    Plain ''d_cylskew'' td___u16,
    Plain ''d_headswitch'' td___u32,
    Plain ''d_trkseek'' td___u32,
    Plain ''d_flags'' td___u32,
    Plain ''d_drivedata'' (TArr td___u32 5),
    Plain ''d_spare'' (TArr td___u32 5),
    Plain ''d_magic2'' td___le32,
    Plain ''d_checksum'' td___le16,
    Plain ''d_npartitions'' td___le16,
    Plain ''d_bbsize'' td___le32,
    Plain ''d_sbsize'' td___le32,
    Plain ''d_partitions'' (TArr st_bsd_partition 16)]"

definition st_bunzip_data :: ty where
  "st_bunzip_data = TStruct ''bunzip_data'' False [
    Plain ''writeCopies'' (TInt I32 True),
    Plain ''writePos'' (TInt I32 True),
    Plain ''writeRunCountdown'' (TInt I32 True),
    Plain ''writeCount'' (TInt I32 True),
    Plain ''writeCurrent'' (TInt I32 True),
    Plain ''fill'' (TFun ''long int (*)(void *, long unsigned int)''),
    Plain ''inbufCount'' (TInt I64 True),
    Plain ''inbufPos'' (TInt I64 True),
    Plain ''inbuf'' (TPtr ''unsigned char''),
    Plain ''inbufBitCount'' (TInt I32 False),
    Plain ''inbufBits'' (TInt I32 False),
    Plain ''crc32Table'' (TArr (TInt I32 False) 256),
    Plain ''headerCRC'' (TInt I32 False),
    Plain ''totalCRC'' (TInt I32 False),
    Plain ''writeCRC'' (TInt I32 False),
    Plain ''dbuf'' (TPtr ''unsigned int''),
    Plain ''dbufSize'' (TInt I32 False),
    Plain ''selectors'' (TArr (TInt I8 False) 32768),
    Plain ''groups'' (TArr st_group_data 6),
    Plain ''io_error'' (TInt I32 True),
    Plain ''byteCount'' (TArr (TInt I32 True) 256),
    Plain ''symToByte'' (TArr (TInt I8 False) 256),
    Plain ''mtfSymbol'' (TArr (TInt I8 False) 256)]"

definition st_cdrom_device_info :: ty where
  "st_cdrom_device_info = TStruct ''cdrom_device_info'' False [
    Plain ''ops'' (TPtr ''struct cdrom_device_ops''),
    Plain ''list'' st_list_head,
    Plain ''disk'' (TPtr ''struct gendisk''),
    Plain ''handle'' (TPtr ''void''),
    Plain ''mask'' (TInt I32 True),
    Plain ''speed'' (TInt I32 True),
    Plain ''capacity'' (TInt I32 True),
    Bits ''options'' (TInt I32 False) 30,
    Bits ''mc_flags'' (TInt I32 False) 2,
    Plain ''vfs_events'' (TInt I32 False),
    Plain ''ioctl_events'' (TInt I32 False),
    Plain ''use_count'' (TInt I32 True),
    Plain ''name'' (TArr (TInt I8 True) 20),
    Bits ''sanyo_slot'' td___u8 2,
    Bits ''keeplocked'' td___u8 1,
    Bits ''reserved'' td___u8 5,
    Plain ''cdda_method'' (TInt I32 True),
    Plain ''last_sense'' td___u8,
    Plain ''media_written'' td___u8,
    Plain ''mmc3_profile'' (TInt I16 False),
    Plain ''mrw_mode_page'' (TInt I32 True),
    Plain ''opened_for_data'' td_bool,
    Plain ''last_media_change_ms'' td___s64]"

definition st_cfg80211_sched_scan_request :: ty where
  "st_cfg80211_sched_scan_request = TStruct ''cfg80211_sched_scan_request'' False [
    Plain ''reqid'' td_u64,
    Plain ''ssids'' (TPtr ''struct cfg80211_ssid''),
    Plain ''n_ssids'' (TInt I32 True),
    Plain ''n_channels'' td_u32,
    Plain ''ie'' (TPtr ''u8''),
    Plain ''ie_len'' td_size_t,
    Plain ''flags'' td_u32,
    Plain ''match_sets'' (TPtr ''struct cfg80211_match_set''),
    Plain ''n_match_sets'' (TInt I32 True),
    Plain ''min_rssi_thold'' td_s32,
    Plain ''delay'' td_u32,
    Plain ''scan_plans'' (TPtr ''struct cfg80211_sched_scan_plan''),
    Plain ''n_scan_plans'' (TInt I32 True),
    Plain ''mac_addr'' (TArr td_u8 6),
    Plain ''mac_addr_mask'' (TArr td_u8 6),
    Plain ''relative_rssi_set'' td_bool,
    Plain ''relative_rssi'' td_s8,
    Plain ''rssi_adjust'' st_cfg80211_bss_select_adjust,
    Plain ''wiphy'' (TPtr ''struct wiphy''),
    Plain ''dev'' (TPtr ''struct net_device''),
    Plain ''scan_start'' (TInt I64 False),
    Plain ''report_results'' td_bool,
    Plain ''callback_head'' st_callback_head,
    Plain ''owner_nlportid'' td_u32,
    Plain ''nl_owner_dead'' td_bool,
    Plain ''list'' st_list_head,
    Plain ''channels'' (TArr (TPtr ''struct ieee80211_channel'') 0)]"

definition st_cfg80211_wowlan_tcp :: ty where
  "st_cfg80211_wowlan_tcp = TStruct ''cfg80211_wowlan_tcp'' False [
    Plain ''sock'' (TPtr ''struct socket''),
    Plain ''src'' td___be32,
    Plain ''dst'' td___be32,
    Plain ''src_port'' td_u16,
    Plain ''dst_port'' td_u16,
    Plain ''dst_mac'' (TArr td_u8 6),
    Plain ''payload_len'' (TInt I32 True),
    Plain ''payload'' (TPtr ''u8''),
    Plain ''payload_seq'' st_nl80211_wowlan_tcp_data_seq,
    Plain ''data_interval'' td_u32,
    Plain ''wake_len'' td_u32,
    Plain ''wake_data'' (TPtr ''u8''),
    Plain ''wake_mask'' (TPtr ''u8''),
    Plain ''tokens_size'' td_u32,
    Plain ''payload_tok'' st_nl80211_wowlan_tcp_data_token]"

definition st_cgroup_base_stat :: ty where
  "st_cgroup_base_stat = TStruct ''cgroup_base_stat'' False [
    Plain ''cputime'' st_task_cputime,
    Plain ''forceidle_sum'' td_u64,
    Plain ''ntime'' td_u64]"

definition st_css_task_iter :: ty where
  "st_css_task_iter = TStruct ''css_task_iter'' False [
    Plain ''ss'' (TPtr ''struct cgroup_subsys''),
    Plain ''flags'' (TInt I32 False),
    Plain ''cset_pos'' (TPtr ''struct list_head''),
    Plain ''cset_head'' (TPtr ''struct list_head''),
    Plain ''tcset_pos'' (TPtr ''struct list_head''),
    Plain ''tcset_head'' (TPtr ''struct list_head''),
    Plain ''task_pos'' (TPtr ''struct list_head''),
    Plain ''cur_tasks_head'' (TPtr ''struct list_head''),
    Plain ''cur_cset'' (TPtr ''struct css_set''),
    Plain ''cur_dcset'' (TPtr ''struct css_set''),
    Plain ''cur_task'' (TPtr ''struct task_struct''),
    Plain ''iters_node'' st_list_head]"

definition st_cgroup_of_peak :: ty where
  "st_cgroup_of_peak = TStruct ''cgroup_of_peak'' False [
    Plain ''value'' (TInt I64 False),
    Plain ''list'' st_list_head]"

definition st_ns_tree_node :: ty where
  "st_ns_tree_node = TStruct ''ns_tree_node'' False [
    Plain ''ns_node'' st_rb_node,
    Plain ''ns_list_entry'' st_list_head]"

definition st_ns_tree_root :: ty where
  "st_ns_tree_root = TStruct ''ns_tree_root'' False [
    Plain ''ns_rb'' st_rb_root,
    Plain ''ns_list_head'' st_list_head]"

definition st_clocksource :: ty where
  "st_clocksource = TStruct ''clocksource'' False [
    Plain ''read'' (TFun ''u64 (*)(struct clocksource *)''),
    Plain ''mask'' td_u64,
    Plain ''mult'' td_u32,
    Plain ''shift'' td_u32,
    Plain ''max_idle_ns'' td_u64,
    Plain ''maxadj'' td_u32,
    Plain ''uncertainty_margin'' td_u32,
    Plain ''max_cycles'' td_u64,
    Plain ''max_raw_delta'' td_u64,
    Plain ''name'' (TPtr ''char''),
    Plain ''list'' st_list_head,
    Plain ''freq_khz'' td_u32,
    Plain ''rating'' (TInt I32 True),
    Plain ''id'' (TEnum ''clocksource_ids'' I32),
    Plain ''vdso_clock_mode'' (TEnum ''vdso_clock_mode'' I32),
    Plain ''flags'' (TInt I64 False),
    Plain ''base'' (TPtr ''struct clocksource_base''),
    Plain ''enable'' (TFun ''int (*)(struct clocksource *)''),
    Plain ''disable'' (TFun ''void (*)(struct clocksource *)''),
    Plain ''suspend'' (TFun ''void (*)(struct clocksource *)''),
    Plain ''resume'' (TFun ''void (*)(struct clocksource *)''),
    Plain ''mark_unstable'' (TFun ''void (*)(struct clocksource *)''),
    Plain ''tick_stable'' (TFun ''void (*)(struct clocksource *)''),
    Plain ''wd_list'' st_list_head,
    Plain ''cs_last'' td_u64,
    Plain ''wd_last'' td_u64,
    Plain ''owner'' (TPtr ''struct module'')]"

definition st_cma_memrange :: ty where
  "st_cma_memrange = TStruct ''cma_memrange'' False [
    Plain ''base_pfn'' (TInt I64 False),
    Plain ''count'' (TInt I64 False),
    Plain '''' (TUnion '''' False [
      Plain ''early_pfn'' (TInt I64 False),
      Plain ''bitmap'' (TPtr ''long unsigned int'')]),
    Plain ''dfs_bitmap'' st_debugfs_u32_array]"

definition st_compact_control :: ty where
  "st_compact_control = TStruct ''compact_control'' False [
    Plain ''freepages'' (TArr st_list_head 11),
    Plain ''migratepages'' st_list_head,
    Plain ''nr_freepages'' (TInt I32 False),
    Plain ''nr_migratepages'' (TInt I32 False),
    Plain ''free_pfn'' (TInt I64 False),
    Plain ''migrate_pfn'' (TInt I64 False),
    Plain ''fast_start_pfn'' (TInt I64 False),
    Plain ''zone'' (TPtr ''struct zone''),
    Plain ''total_migrate_scanned'' (TInt I64 False),
    Plain ''total_free_scanned'' (TInt I64 False),
    Plain ''fast_search_fail'' (TInt I16 False),
    Plain ''search_order'' (TInt I16 True),
    Plain ''gfp_mask'' td_gfp_t,
    Plain ''order'' (TInt I32 True),
    Plain ''migratetype'' (TInt I32 True),
    Plain ''alloc_flags'' (TInt I32 False),
    Plain ''highest_zoneidx'' (TInt I32 True),
    Plain ''mode'' (TEnum ''migrate_mode'' I32),
    Plain ''ignore_skip_hint'' td_bool,
    Plain ''no_set_skip_hint'' td_bool,
    Plain ''ignore_block_suitable'' td_bool,
    Plain ''direct_compaction'' td_bool,
    Plain ''proactive_compaction'' td_bool,
    Plain ''whole_zone'' td_bool,
    Plain ''contended'' td_bool,
    Plain ''finish_pageblock'' td_bool,
    Plain ''alloc_contig'' td_bool]"

definition st_compat_elf_prstatus_common :: ty where
  "st_compat_elf_prstatus_common = TStruct ''compat_elf_prstatus_common'' False [
    Plain ''pr_info'' st_compat_elf_siginfo,
    Plain ''pr_cursig'' (TInt I16 True),
    Plain ''pr_sigpend'' td_compat_ulong_t,
    Plain ''pr_sighold'' td_compat_ulong_t,
    Plain ''pr_pid'' td_compat_pid_t,
    Plain ''pr_ppid'' td_compat_pid_t,
    Plain ''pr_pgrp'' td_compat_pid_t,
    Plain ''pr_sid'' td_compat_pid_t,
    Plain ''pr_utime'' st_old_timeval32,
    Plain ''pr_stime'' st_old_timeval32,
    Plain ''pr_cutime'' st_old_timeval32,
    Plain ''pr_cstime'' st_old_timeval32]"

definition st_compat_fs_quota_stat :: ty where
  "st_compat_fs_quota_stat = TStruct ''compat_fs_quota_stat'' False [
    Plain ''qs_version'' td___s8,
    Plain ''qs_flags'' td___u16,
    Plain ''qs_pad'' td___s8,
    Bits '''' (TInt I64 True) 0,
    Plain ''qs_uquota'' st_compat_fs_qfilestat,
    Plain ''qs_gquota'' st_compat_fs_qfilestat,
    Plain ''qs_incoredqs'' td_compat_uint_t,
    Plain ''qs_btimelimit'' td_compat_int_t,
    Plain ''qs_itimelimit'' td_compat_int_t,
    Plain ''qs_rtbtimelimit'' td_compat_int_t,
    Plain ''qs_bwarnlimit'' td___u16,
    Plain ''qs_iwarnlimit'' td___u16]"

definition st_compat_group_filter :: ty where
  "st_compat_group_filter = TStruct ''compat_group_filter'' False [
    Plain '''' (TUnion '''' False [
      Plain '''' (TStruct '''' True [
        Plain ''gf_interface_aux'' td___u32,
        Plain ''gf_group_aux'' st___kernel_sockaddr_storage,
        Plain ''gf_fmode_aux'' td___u32,
        Plain ''gf_numsrc_aux'' td___u32,
        Plain ''gf_slist'' (TArr st___kernel_sockaddr_storage 1)]),
      Plain '''' (TStruct '''' True [
        Plain ''gf_interface'' td___u32,
        Plain ''gf_group'' st___kernel_sockaddr_storage,
        Plain ''gf_fmode'' td___u32,
        Plain ''gf_numsrc'' td___u32,
        Plain ''gf_slist_flex'' (TArr st___kernel_sockaddr_storage 0)])])]"

definition st_compat_ifreq :: ty where
  "st_compat_ifreq = TStruct ''compat_ifreq'' False [
    Plain ''ifr_ifrn'' (TUnion '''' False [
      Plain ''ifrn_name'' (TArr (TInt I8 True) 16)]),
    Plain ''ifr_ifru'' (TUnion '''' False [
      Plain ''ifru_addr'' st_sockaddr,
      Plain ''ifru_dstaddr'' st_sockaddr,
      Plain ''ifru_broadaddr'' st_sockaddr,
      Plain ''ifru_netmask'' st_sockaddr,
      Plain ''ifru_hwaddr'' st_sockaddr,
      Plain ''ifru_flags'' (TInt I16 True),
      Plain ''ifru_ivalue'' td_compat_int_t,
      Plain ''ifru_mtu'' td_compat_int_t,
      Plain ''ifru_map'' st_compat_ifmap,
      Plain ''ifru_slave'' (TArr (TInt I8 True) 16),
      Plain ''ifru_newname'' (TArr (TInt I8 True) 16),
      Plain ''ifru_data'' td_compat_caddr_t,
      Plain ''ifru_settings'' st_compat_if_settings])]"

definition st_compat_msqid64_ds :: ty where
  "st_compat_msqid64_ds = TStruct ''compat_msqid64_ds'' False [
    Plain ''msg_perm'' st_compat_ipc64_perm,
    Plain ''msg_stime'' td_compat_ulong_t,
    Plain ''msg_stime_high'' td_compat_ulong_t,
    Plain ''msg_rtime'' td_compat_ulong_t,
    Plain ''msg_rtime_high'' td_compat_ulong_t,
    Plain ''msg_ctime'' td_compat_ulong_t,
    Plain ''msg_ctime_high'' td_compat_ulong_t,
    Plain ''msg_cbytes'' td_compat_ulong_t,
    Plain ''msg_qnum'' td_compat_ulong_t,
    Plain ''msg_qbytes'' td_compat_ulong_t,
    Plain ''msg_lspid'' td_compat_pid_t,
    Plain ''msg_lrpid'' td_compat_pid_t,
    Plain ''__unused4'' td_compat_ulong_t,
    Plain ''__unused5'' td_compat_ulong_t]"

definition st_compat_msqid_ds :: ty where
  "st_compat_msqid_ds = TStruct ''compat_msqid_ds'' False [
    Plain ''msg_perm'' st_compat_ipc_perm,
    Plain ''msg_first'' td_compat_uptr_t,
    Plain ''msg_last'' td_compat_uptr_t,
    Plain ''msg_stime'' td_old_time32_t,
    Plain ''msg_rtime'' td_old_time32_t,
    Plain ''msg_ctime'' td_old_time32_t,
    Plain ''msg_lcbytes'' td_compat_ulong_t,
    Plain ''msg_lqbytes'' td_compat_ulong_t,
    Plain ''msg_cbytes'' (TInt I16 False),
    Plain ''msg_qnum'' (TInt I16 False),
    Plain ''msg_qbytes'' (TInt I16 False),
    Plain ''msg_lspid'' td_compat_ipc_pid_t,
    Plain ''msg_lrpid'' td_compat_ipc_pid_t]"

definition st_compat_rtentry :: ty where
  "st_compat_rtentry = TStruct ''compat_rtentry'' False [
    Plain ''rt_pad1'' td_u32,
    Plain ''rt_dst'' st_sockaddr,
    Plain ''rt_gateway'' st_sockaddr,
    Plain ''rt_genmask'' st_sockaddr,
    Plain ''rt_flags'' (TInt I16 False),
    Plain ''rt_pad2'' (TInt I16 True),
    Plain ''rt_pad3'' td_u32,
    Plain ''rt_tos'' (TInt I8 False),
    Plain ''rt_class'' (TInt I8 False),
    Plain ''rt_pad4'' (TInt I16 True),
    Plain ''rt_metric'' (TInt I16 True),
    Plain ''rt_dev'' td_compat_uptr_t,
    Plain ''rt_mtu'' td_u32,
    Plain ''rt_window'' td_u32,
    Plain ''rt_irtt'' (TInt I16 False)]"

definition st_compat_rusage :: ty where
  "st_compat_rusage = TStruct ''compat_rusage'' False [
    Plain ''ru_utime'' st_old_timeval32,
    Plain ''ru_stime'' st_old_timeval32,
    Plain ''ru_maxrss'' td_compat_long_t,
    Plain ''ru_ixrss'' td_compat_long_t,
    Plain ''ru_idrss'' td_compat_long_t,
    Plain ''ru_isrss'' td_compat_long_t,
    Plain ''ru_minflt'' td_compat_long_t,
    Plain ''ru_majflt'' td_compat_long_t,
    Plain ''ru_nswap'' td_compat_long_t,
    Plain ''ru_inblock'' td_compat_long_t,
    Plain ''ru_oublock'' td_compat_long_t,
    Plain ''ru_msgsnd'' td_compat_long_t,
    Plain ''ru_msgrcv'' td_compat_long_t,
    Plain ''ru_nsignals'' td_compat_long_t,
    Plain ''ru_nvcsw'' td_compat_long_t,
    Plain ''ru_nivcsw'' td_compat_long_t]"

definition st_compat_shmid64_ds :: ty where
  "st_compat_shmid64_ds = TStruct ''compat_shmid64_ds'' False [
    Plain ''shm_perm'' st_compat_ipc64_perm,
    Plain ''shm_segsz'' td_compat_size_t,
    Plain ''shm_atime'' td_compat_ulong_t,
    Plain ''shm_atime_high'' td_compat_ulong_t,
    Plain ''shm_dtime'' td_compat_ulong_t,
    Plain ''shm_dtime_high'' td_compat_ulong_t,
    Plain ''shm_ctime'' td_compat_ulong_t,
    Plain ''shm_ctime_high'' td_compat_ulong_t,
    Plain ''shm_cpid'' td_compat_pid_t,
    Plain ''shm_lpid'' td_compat_pid_t,
    Plain ''shm_nattch'' td_compat_ulong_t,
    Plain ''__unused4'' td_compat_ulong_t,
    Plain ''__unused5'' td_compat_ulong_t]"

definition td_compat_sigval_t :: ty where
  "td_compat_sigval_t = un_compat_sigval"

definition st_sockaddr_in6 :: ty where
  "st_sockaddr_in6 = TStruct ''sockaddr_in6'' False [
    Plain ''sin6_family'' (TInt I16 False),
    Plain ''sin6_port'' td___be16,
    Plain ''sin6_flowinfo'' td___be32,
    Plain ''sin6_addr'' st_in6_addr,
    Plain ''sin6_scope_id'' td___u32]"

definition st_console___2 :: ty where
  "st_console___2 = TStruct ''console___2'' False [
    Plain ''list'' st_list_head,
    Plain ''hvc'' (TPtr ''struct hvc_struct''),
    Plain ''ws'' st_winsize,
    Plain ''vtermno'' td_u32]"

definition st_mls_level :: ty where
  "st_mls_level = TStruct ''mls_level'' False [
    Plain ''sens'' td_u32,
    Plain ''cat'' st_ebitmap]"

definition td_pgprot_t :: ty where
  "td_pgprot_t = st_pgprot"

definition st_perf_branch_stack :: ty where
  "st_perf_branch_stack = TStruct ''perf_branch_stack'' False [
    Plain ''nr'' td_u64,
    Plain ''hw_idx'' td_u64,
    Plain ''entries'' (TArr st_perf_branch_entry 0)]"

definition st_cpu_stop_work :: ty where
  "st_cpu_stop_work = TStruct ''cpu_stop_work'' False [
    Plain ''list'' st_list_head,
    Plain ''fn'' td_cpu_stop_fn_t,
    Plain ''caller'' (TInt I64 False),
    Plain ''arg'' (TPtr ''void''),
    Plain ''done'' (TPtr ''struct cpu_stop_done'')]"

definition st_plist_head :: ty where
  "st_plist_head = TStruct ''plist_head'' False [
    Plain ''node_list'' st_list_head]"

definition st_cpuhp_step :: ty where
  "st_cpuhp_step = TStruct ''cpuhp_step'' False [
    Plain ''name'' (TPtr ''char''),
    Plain ''startup'' (TUnion '''' False [
      Plain ''single'' (TFun ''int (*)(unsigned int)''),
      Plain ''multi'' (TFun ''int (*)(unsigned int, struct hlist_node *)'')]),
    Plain ''teardown'' (TUnion '''' False [
      Plain ''single'' (TFun ''int (*)(unsigned int)''),
      Plain ''multi'' (TFun ''int (*)(unsigned int, struct hlist_node *)'')]),
    Plain ''list'' st_hlist_head,
    Plain ''cant_stop'' td_bool,
    Plain ''multi_instance'' td_bool]"

definition st_cpuidle_device :: ty where
  "st_cpuidle_device = TStruct ''cpuidle_device'' False [
    Bits ''registered'' (TInt I32 False) 1,
    Bits ''enabled'' (TInt I32 False) 1,
    Bits ''poll_time_limit'' (TInt I32 False) 1,
    Plain ''cpu'' (TInt I32 False),
    Plain ''next_hrtimer'' td_ktime_t,
    Plain ''last_state_idx'' (TInt I32 True),
    Plain ''last_residency_ns'' td_u64,
    Plain ''poll_limit_ns'' td_u64,
    Plain ''forced_idle_latency_limit_ns'' td_u64,
    Plain ''states_usage'' (TArr st_cpuidle_state_usage 10),
    Plain ''kobjs'' (TArr (TPtr ''struct cpuidle_state_kobj'') 10),
    Plain ''kobj_driver'' (TPtr ''struct cpuidle_driver_kobj''),
    Plain ''kobj_dev'' (TPtr ''struct cpuidle_device_kobj''),
    Plain ''device_list'' st_list_head]"

definition st_cpuinfo_x86 :: ty where
  "st_cpuinfo_x86 = TStruct ''cpuinfo_x86'' False [
    Plain '''' (TUnion '''' False [
      Plain '''' (TStruct '''' False [
        Plain ''x86_model'' td___u8,
        Plain ''x86'' td___u8,
        Plain ''x86_vendor'' td___u8,
        Plain ''x86_reserved'' td___u8]),
      Plain ''x86_vfm'' td___u32]),
    Plain ''x86_stepping'' td___u8,
    Plain ''x86_tlbsize'' (TInt I32 True),
    Plain ''vmx_capability'' (TArr td___u32 5),
    Plain ''x86_virt_bits'' td___u8,
    Plain ''x86_phys_bits'' td___u8,
    Plain ''extended_cpuid_level'' td___u32,
    Plain ''cpuid_level'' (TInt I32 True),
    Plain '''' (TUnion '''' False [
      Plain ''x86_capability'' (TArr td___u32 24),
      Plain ''x86_capability_alignment'' (TInt I64 False)]),
    Plain ''x86_vendor_id'' (TArr (TInt I8 True) 16),
    Plain ''x86_model_id'' (TArr (TInt I8 True) 64),
    Plain ''topo'' st_cpuinfo_topology,
    Plain ''x86_cache_size'' (TInt I32 False),
    Plain ''x86_cache_alignment'' (TInt I32 True),
    Plain ''x86_cache_max_rmid'' (TInt I32 True),
    Plain ''x86_cache_occ_scale'' (TInt I32 True),
    Plain ''x86_cache_mbm_width_offset'' (TInt I32 True),
    Plain ''x86_power'' (TInt I32 True),
    Plain ''loops_per_jiffy'' (TInt I64 False),
    Plain ''ppin'' td_u64,
    Plain ''x86_clflush_size'' td_u16,
    Plain ''booted_cores'' td_u16,
    Plain ''cpu_index'' td_u16,
    Plain ''smt_active'' td_bool,
    Plain ''microcode'' td_u32,
    Plain ''x86_cache_bits'' td_u8,
    Bits ''initialized'' (TInt I32 False) 1]"

definition st_cpupri :: ty where
  "st_cpupri = TStruct ''cpupri'' False [
    Plain ''pri_to_cpu'' (TArr st_cpupri_vec 101),
    Plain ''cpu_to_pri'' (TPtr ''int'')]"

definition st_cred :: ty where
  "st_cred = TStruct ''cred'' False [
    Plain ''usage'' td_atomic_long_t,
    Plain ''uid'' td_kuid_t,
    Plain ''gid'' td_kgid_t,
    Plain ''suid'' td_kuid_t,
    Plain ''sgid'' td_kgid_t,
    Plain ''euid'' td_kuid_t,
    Plain ''egid'' td_kgid_t,
    Plain ''fsuid'' td_kuid_t,
    Plain ''fsgid'' td_kgid_t,
    Plain ''securebits'' (TInt I32 False),
    Plain ''cap_inheritable'' td_kernel_cap_t,
    Plain ''cap_permitted'' td_kernel_cap_t,
    Plain ''cap_effective'' td_kernel_cap_t,
    Plain ''cap_bset'' td_kernel_cap_t,
    Plain ''cap_ambient'' td_kernel_cap_t,
    Plain ''jit_keyring'' (TInt I8 False),
    Plain ''session_keyring'' (TPtr ''struct key''),
    Plain ''process_keyring'' (TPtr ''struct key''),
    Plain ''thread_keyring'' (TPtr ''struct key''),
    Plain ''request_key_auth'' (TPtr ''struct key''),
    Plain ''security'' (TPtr ''void''),
    Plain ''user'' (TPtr ''struct user_struct''),
    Plain ''user_ns'' (TPtr ''struct user_namespace''),
    Plain ''ucounts'' (TPtr ''struct ucounts''),
    Plain ''group_info'' (TPtr ''struct group_info''),
    Plain '''' (TUnion '''' False [
      Plain ''non_rcu'' (TInt I32 True),
      Plain ''rcu'' st_callback_head])]"

definition st_cryptomgr_param :: ty where
  "st_cryptomgr_param = TStruct ''cryptomgr_param'' False [
    Plain ''tb'' (TArr (TPtr ''struct rtattr'') 34),
    Plain ''type'' (TStruct '''' False [
      Plain ''attr'' st_rtattr,
      Plain ''data'' st_crypto_attr_type]),
    Plain ''attrs'' (TArr (TStruct '''' False [
      Plain ''attr'' st_rtattr,
      Plain ''data'' st_crypto_attr_alg]) 32),
    Plain ''template'' (TArr (TInt I8 True) 128),
    Plain ''larval'' (TPtr ''struct crypto_larval''),
    Plain ''otype'' td_u32,
    Plain ''omask'' td_u32]"

definition st_ctl_table_header :: ty where
  "st_ctl_table_header = TStruct ''ctl_table_header'' False [
    Plain '''' (TUnion '''' False [
      Plain '''' (TStruct '''' False [
        Plain ''ctl_table'' (TPtr ''struct ctl_table''),
        Plain ''ctl_table_size'' (TInt I32 True),
        Plain ''used'' (TInt I32 True),
        Plain ''count'' (TInt I32 True),
        Plain ''nreg'' (TInt I32 True)]),
      Plain ''rcu'' st_callback_head]),
    Plain ''unregistering'' (TPtr ''struct completion''),
    Plain ''ctl_table_arg'' (TPtr ''struct ctl_table''),
    Plain ''root'' (TPtr ''struct ctl_table_root''),
    Plain ''set'' (TPtr ''struct ctl_table_set''),
    Plain ''parent'' (TPtr ''struct ctl_dir''),
    Plain ''node'' (TPtr ''struct ctl_node''),
    Plain ''inodes'' st_hlist_head,
    Plain ''type'' (TEnum '''' I32)]"

definition st_cxl_event_media_hdr :: ty where
  "st_cxl_event_media_hdr = TStruct ''cxl_event_media_hdr'' True [
    Plain ''hdr'' st_cxl_event_record_hdr,
    Plain ''phys_addr'' td___le64,
    Plain ''descriptor'' td_u8,
    Plain ''type'' td_u8,
    Plain ''transaction_type'' td_u8,
    Plain ''validity_flags'' (TArr td_u8 2),
    Plain ''channel'' td_u8,
    Plain ''rank'' td_u8]"

definition st_cxl_event_mem_sparing :: ty where
  "st_cxl_event_mem_sparing = TStruct ''cxl_event_mem_sparing'' False [
    Plain ''hdr'' st_cxl_event_record_hdr,
    Plain ''rsv1'' td_u8,
    Plain ''rsv2'' td_u8,
    Plain ''flags'' td_u8,
    Plain ''result'' td_u8,
    Plain ''validity_flags'' td___le16,
    Plain ''reserved1'' (TArr td_u8 6),
    Plain ''res_avail'' td___le16,
    Plain ''channel'' td_u8,
    Plain ''rank'' td_u8,
    Plain ''nibble_mask'' (TArr td_u8 3),
    Plain ''bank_group'' td_u8,
    Plain ''bank'' td_u8,
    Plain ''row'' (TArr td_u8 3),
    Plain ''column'' td___le16,
    Plain ''component_id'' (TArr td_u8 16),
    Plain ''sub_channel'' td_u8,
    Plain ''reserved2'' (TArr td_u8 37)]"

definition st_data_directory :: ty where
  "st_data_directory = TStruct ''data_directory'' False [
    Plain ''exports'' st_data_dirent,
    Plain ''imports'' st_data_dirent,
    Plain ''resources'' st_data_dirent,
    Plain ''exceptions'' st_data_dirent,
    Plain ''certs'' st_data_dirent,
    Plain ''base_relocations'' st_data_dirent,
    Plain ''debug'' st_data_dirent,
    Plain ''arch'' st_data_dirent,
    Plain ''global_ptr'' st_data_dirent,
    Plain ''tls'' st_data_dirent,
    Plain ''load_config'' st_data_dirent,
    Plain ''bound_imports'' st_data_dirent,
    Plain ''import_addrs'' st_data_dirent,
    Plain ''delay_imports'' st_data_dirent,
    Plain ''clr_runtime_hdr'' st_data_dirent,
    Plain ''reserved'' st_data_dirent]"

definition st_tty_buffer :: ty where
  "st_tty_buffer = TStruct ''tty_buffer'' False [
    Plain '''' (TUnion '''' False [
      Plain ''next'' (TPtr ''struct tty_buffer''),
      Plain ''free'' st_llist_node]),
    Plain ''used'' (TInt I32 False),
    Plain ''size'' (TInt I32 False),
    Plain ''commit'' (TInt I32 False),
    Plain ''lookahead'' (TInt I32 False),
    Plain ''read'' (TInt I32 False),
    Plain ''flags'' td_bool,
    Bits '''' (TInt I64 True) 0,
    Plain ''data'' (TArr td_u8 0)]"

definition st_dbc_request :: ty where
  "st_dbc_request = TStruct ''dbc_request'' False [
    Plain ''buf'' (TPtr ''void''),
    Plain ''length'' (TInt I32 False),
    Plain ''dma'' td_dma_addr_t,
    Plain ''complete'' (TFun ''void (*)(struct xhci_dbc *, struct dbc_request *)''),
    Plain ''list_pool'' st_list_head,
    Plain ''status'' (TInt I32 True),
    Plain ''actual'' (TInt I32 False),
    Plain ''dbc'' (TPtr ''struct xhci_dbc''),
    Plain ''list_pending'' st_list_head,
    Plain ''trb_dma'' td_dma_addr_t,
    Plain ''trb'' (TPtr ''union xhci_trb''),
    Bits ''direction'' (TInt I32 False) 1]"

definition st_deflate_state :: ty where
  "st_deflate_state = TStruct ''deflate_state'' False [
    Plain ''strm'' td_z_streamp,
    Plain ''status'' (TInt I32 True),
    Plain ''pending_buf'' (TPtr ''Byte''),
    Plain ''pending_buf_size'' td_ulg,
    Plain ''pending_out'' (TPtr ''Byte''),
    Plain ''pending'' (TInt I32 True),
    Plain ''noheader'' (TInt I32 True),
    Plain ''data_type'' td_Byte,
    Plain ''method'' td_Byte,
    Plain ''last_flush'' (TInt I32 True),
    Plain ''w_size'' td_uInt,
    Plain ''w_bits'' td_uInt,
    Plain ''w_mask'' td_uInt,
    Plain ''window'' (TPtr ''Byte''),
    Plain ''window_size'' td_ulg,
    Plain ''prev'' (TPtr ''Pos''),
    Plain ''head'' (TPtr ''Pos''),
    Plain ''ins_h'' td_uInt,
    Plain ''hash_size'' td_uInt,
    Plain ''hash_bits'' td_uInt,
    Plain ''hash_mask'' td_uInt,
    Plain ''hash_shift'' td_uInt,
    Plain ''block_start'' (TInt I64 True),
    Plain ''match_length'' td_uInt,
    Plain ''prev_match'' td_IPos,
    Plain ''match_available'' (TInt I32 True),
    Plain ''strstart'' td_uInt,
    Plain ''match_start'' td_uInt,
    Plain ''lookahead'' td_uInt,
    Plain ''prev_length'' td_uInt,
    Plain ''max_chain_length'' td_uInt,
    Plain ''max_lazy_match'' td_uInt,
    Plain ''level'' (TInt I32 True),
    Plain ''strategy'' (TInt I32 True),
    Plain ''good_match'' td_uInt,
    Plain ''nice_match'' (TInt I32 True),
    Plain ''dyn_ltree'' (TArr st_ct_data_s 573),
    Plain ''dyn_dtree'' (TArr st_ct_data_s 61),
    Plain ''bl_tree'' (TArr st_ct_data_s 39),
    Plain ''l_desc'' st_tree_desc_s,
    Plain ''d_desc'' st_tree_desc_s,
    Plain ''bl_desc'' st_tree_desc_s,
    Plain ''bl_count'' (TArr td_ush 16),
    Plain ''heap'' (TArr (TInt I32 True) 573),
    Plain ''heap_len'' (TInt I32 True),
    Plain ''heap_max'' (TInt I32 True),
    Plain ''depth'' (TArr td_uch 573),
    Plain ''l_buf'' (TPtr ''uch''),
    Plain ''lit_bufsize'' td_uInt,
    Plain ''last_lit'' td_uInt,
    Plain ''d_buf'' (TPtr ''ush''),
    Plain ''opt_len'' td_ulg,
    Plain ''static_len'' td_ulg,
    Plain ''compressed_len'' td_ulg,
    Plain ''matches'' td_uInt,
    Plain ''last_eob_len'' (TInt I32 True),
    Plain ''bi_buf'' td_ush,
    Plain ''bi_valid'' (TInt I32 True)]"

definition st_detailed_non_pixel :: ty where
  "st_detailed_non_pixel = TStruct ''detailed_non_pixel'' False [
    Plain ''pad1'' td_u8,
    Plain ''type'' td_u8,
    Plain ''pad2'' td_u8,
    Plain ''data'' (TUnion '''' False [
      Plain ''str'' st_detailed_data_string,
      Plain ''range'' st_detailed_data_monitor_range,
      Plain ''color'' st_detailed_data_wpindex,
      Plain ''timings'' (TArr st_std_timing 6),
      Plain ''cvt'' (TArr st_cvt_timing 4)])]"

definition st_device_domain_info :: ty where
  "st_device_domain_info = TStruct ''device_domain_info'' False [
    Plain ''link'' st_list_head,
    Plain ''segment'' td_u32,
    Plain ''bus'' td_u8,
    Plain ''devfn'' td_u8,
    Plain ''pfsid'' td_u16,
    Bits ''pasid_supported'' td_u8 3,
    Bits ''pasid_enabled'' td_u8 1,
    Bits ''pri_supported'' td_u8 1,
    Bits ''pri_enabled'' td_u8 1,
    Bits ''ats_supported'' td_u8 1,
    Bits ''ats_enabled'' td_u8 1,
    Bits ''dtlb_extra_inval'' td_u8 1,
    Bits ''domain_attached'' td_u8 1,
    Plain ''ats_qdep'' td_u8,
    Plain ''iopf_refcount'' (TInt I32 False),
    Plain ''dev'' (TPtr ''struct device''),
    Plain ''iommu'' (TPtr ''struct intel_iommu''),
    Plain ''domain'' (TPtr ''struct dmar_domain''),
    Plain ''pasid_table'' (TPtr ''struct pasid_table''),
    Plain ''node'' st_rb_node]"

definition st_devlink_health_reporter :: ty where
  "st_devlink_health_reporter = TStruct ''devlink_health_reporter'' False [
    Plain ''list'' st_list_head,
    Plain ''priv'' (TPtr ''void''),
    Plain ''ops'' (TPtr ''struct devlink_health_reporter_ops''),
    Plain ''devlink'' (TPtr ''struct devlink''),
    Plain ''devlink_port'' (TPtr ''struct devlink_port''),
    Plain ''dump_fmsg'' (TPtr ''struct devlink_fmsg''),
    Plain ''graceful_period'' td_u64,
    Plain ''burst_period'' td_u64,
    Plain ''auto_recover'' td_bool,
    Plain ''auto_dump'' td_bool,
    Plain ''health_state'' td_u8,
    Plain ''dump_ts'' td_u64,
    Plain ''dump_real_ts'' td_u64,
    Plain ''error_count'' td_u64,
    Plain ''recovery_count'' td_u64,
    Plain ''last_recovery_ts'' td_u64]"

definition st_disklabel :: ty where
  "st_disklabel = TStruct ''disklabel'' False [
    Plain ''d_magic'' td___le32,
    Plain ''d_type'' td___le16,
    Plain ''d_subtype'' td___le16,
    Plain ''d_typename'' (TArr td_u8 16),
    Plain ''d_packname'' (TArr td_u8 16),
    Plain ''d_secsize'' td___le32,
    Plain ''d_nsectors'' td___le32,
    Plain ''d_ntracks'' td___le32,
    Plain ''d_ncylinders'' td___le32,
    Plain ''d_secpercyl'' td___le32,
    Plain ''d_secprtunit'' td___le32,
    Plain ''d_sparespertrack'' td___le16,
    Plain ''d_sparespercyl'' td___le16,
    Plain ''d_acylinders'' td___le32,
    Plain ''d_rpm'' td___le16,
    Plain ''d_interleave'' td___le16,
    Plain ''d_trackskew'' td___le16,
    Plain ''d_cylskew'' td___le16,
    Plain ''d_headswitch'' td___le32,
    Plain ''d_trkseek'' td___le32,
    Plain ''d_flags'' td___le32,
    Plain ''d_drivedata'' (TArr td___le32 5),
    Plain ''d_spare'' (TArr td___le32 5),
    Plain ''d_magic2'' td___le32,
    Plain ''d_checksum'' td___le16,
    Plain ''d_npartitions'' td___le16,
    Plain ''d_bbsize'' td___le32,
    Plain ''d_sbsize'' td___le32,
    Plain ''d_partitions'' (TArr st_d_partition 18)]"

definition st_dm_ima_measurements :: ty where
  "st_dm_ima_measurements = TStruct ''dm_ima_measurements'' False [
    Plain ''active_table'' st_dm_ima_device_table_metadata,
    Plain ''inactive_table'' st_dm_ima_device_table_metadata,
    Plain ''dm_version_str_len'' (TInt I32 False)]"

definition st_kthread_work :: ty where
  "st_kthread_work = TStruct ''kthread_work'' False [
    Plain ''node'' st_list_head,
    Plain ''func'' td_kthread_work_func_t,
    Plain ''worker'' (TPtr ''struct kthread_worker''),
    Plain ''canceling'' (TInt I32 True)]"

definition st_dm_stat_shared :: ty where
  "st_dm_stat_shared = TStruct ''dm_stat_shared'' False [
    Plain ''in_flight'' (TArr td_atomic_t 2),
    Plain ''stamp'' (TInt I64 False),
    Plain ''tmp'' st_dm_stat_percpu]"

definition st_dm_table :: ty where
  "st_dm_table = TStruct ''dm_table'' False [
    Plain ''md'' (TPtr ''struct mapped_device''),
    Plain ''type'' (TEnum ''dm_queue_mode'' I32),
    Plain ''depth'' (TInt I32 False),
    Plain ''counts'' (TArr (TInt I32 False) 16),
    Plain ''index'' (TArr (TPtr ''sector_t'') 16),
    Plain ''num_targets'' (TInt I32 False),
    Plain ''num_allocated'' (TInt I32 False),
    Plain ''highs'' (TPtr ''sector_t''),
    Plain ''targets'' (TPtr ''struct dm_target''),
    Plain ''immutable_target_type'' (TPtr ''struct target_type''),
    Bits ''integrity_supported'' td_bool 1,
    Bits ''singleton'' td_bool 1,
    Bits ''flush_bypasses_map'' td_bool 1,
    Plain ''mode'' td_blk_mode_t,
    Plain ''devices'' st_list_head,
    Plain ''event_fn'' (TFun ''void (*)(void *)''),
    Plain ''event_context'' (TPtr ''void''),
    Plain ''mempools'' (TPtr ''struct dm_md_mempools''),
    Plain ''crypto_profile'' (TPtr ''struct blk_crypto_profile'')]"

definition st_dma_chan :: ty where
  "st_dma_chan = TStruct ''dma_chan'' False [
    Plain ''device'' (TPtr ''struct dma_device''),
    Plain ''slave'' (TPtr ''struct device''),
    Plain ''cookie'' td_dma_cookie_t,
    Plain ''completed_cookie'' td_dma_cookie_t,
    Plain ''chan_id'' (TInt I32 True),
    Plain ''dev'' (TPtr ''struct dma_chan_dev''),
    Plain ''name'' (TPtr ''char''),
    Plain ''dbg_client_name'' (TPtr ''char''),
    Plain ''device_node'' st_list_head,
    Plain ''local'' (TPtr ''struct dma_chan_percpu''),
    Plain ''client_count'' (TInt I32 True),
    Plain ''table_count'' (TInt I32 True),
    Plain ''router'' (TPtr ''struct dma_router''),
    Plain ''route_data'' (TPtr ''void''),
    Plain ''private'' (TPtr ''void'')]"

definition st_iommu_domain :: ty where
  "st_iommu_domain = TStruct ''iommu_domain'' False [
    Plain ''type'' (TInt I32 False),
    Plain ''cookie_type'' (TEnum ''iommu_domain_cookie_type'' I32),
    Plain ''ops'' (TPtr ''struct iommu_domain_ops''),
    Plain ''dirty_ops'' (TPtr ''struct iommu_dirty_ops''),
    Plain ''owner'' (TPtr ''struct iommu_ops''),
    Plain ''pgsize_bitmap'' (TInt I64 False),
    Plain ''geometry'' st_iommu_domain_geometry,
    Plain ''iopf_handler'' (TFun ''int (*)(struct iopf_group *)''),
    Plain '''' (TUnion '''' False [
      Plain ''iova_cookie'' (TPtr ''struct iommu_dma_cookie''),
      Plain ''msi_cookie'' (TPtr ''struct iommu_dma_msi_cookie''),
      Plain ''iommufd_hwpt'' (TPtr ''struct iommufd_hw_pagetable''),
      Plain '''' (TStruct '''' False [
        Plain ''handler'' td_iommu_fault_handler_t,
        Plain ''handler_token'' (TPtr ''void'')]),
      Plain '''' (TStruct '''' False [
        Plain ''mm'' (TPtr ''struct mm_struct''),
        Plain ''users'' (TInt I32 True),
        Plain ''next'' st_list_head])])]"

definition st_page_counter :: ty where
  "st_page_counter = TStruct ''page_counter'' False [
    Plain ''usage'' td_atomic_long_t,
    Plain ''failcnt'' (TInt I64 False),
    Bits '''' (TInt I64 True) 64,
    Bits '''' (TInt I64 True) 64,
    Bits '''' (TInt I64 True) 64,
    Bits '''' (TInt I64 True) 64,
    Bits '''' (TInt I64 True) 64,
    Bits '''' (TInt I64 True) 64,
    Plain ''_pad1_'' st_cacheline_padding,
    Plain ''emin'' (TInt I64 False),
    Plain ''min_usage'' td_atomic_long_t,
    Plain ''children_min_usage'' td_atomic_long_t,
    Plain ''elow'' (TInt I64 False),
    Plain ''low_usage'' td_atomic_long_t,
    Plain ''children_low_usage'' td_atomic_long_t,
    Plain ''watermark'' (TInt I64 False),
    Plain ''local_watermark'' (TInt I64 False),
    Plain ''_pad2_'' st_cacheline_padding,
    Plain ''protection_support'' td_bool,
    Plain ''track_failcnt'' td_bool,
    Plain ''min'' (TInt I64 False),
    Plain ''low'' (TInt I64 False),
    Plain ''high'' (TInt I64 False),
    Plain ''max'' (TInt I64 False),
    Plain ''parent'' (TPtr ''struct page_counter''),
    Bits '''' (TInt I64 True) 64,
    Bits '''' (TInt I64 True) 64]"

definition st_drbg_string :: ty where
  "st_drbg_string = TStruct ''drbg_string'' False [
    Plain ''buf'' (TPtr ''unsigned char''),
    Plain ''len'' td_size_t,
    Plain ''list'' st_list_head]"

definition st_drm_cmdline_mode :: ty where
  "st_drm_cmdline_mode = TStruct ''drm_cmdline_mode'' False [
    Plain ''name'' (TArr (TInt I8 True) 32),
    Plain ''specified'' td_bool,
    Plain ''refresh_specified'' td_bool,
    Plain ''bpp_specified'' td_bool,
    Plain ''pixel_clock'' (TInt I32 False),
    Plain ''xres'' (TInt I32 True),
    Plain ''yres'' (TInt I32 True),
    Plain ''bpp'' (TInt I32 True),
    Plain ''refresh'' (TInt I32 True),
    Plain ''rb'' td_bool,
    Plain ''interlace'' td_bool,
    Plain ''cvt'' td_bool,
    Plain ''margins'' td_bool,
    Plain ''force'' (TEnum ''drm_connector_force'' I32),
    Plain ''rotation_reflection'' (TInt I32 False),
    Plain ''panel_orientation'' (TEnum ''drm_panel_orientation'' I32),
    Plain ''tv_margins'' st_drm_connector_tv_margins,
    Plain ''tv_mode'' (TEnum ''drm_connector_tv_mode'' I32),
    Plain ''tv_mode_specified'' td_bool]"

definition st_drm_display_mode :: ty where
  "st_drm_display_mode = TStruct ''drm_display_mode'' False [
    Plain ''clock'' (TInt I32 True),
    Plain ''hdisplay'' td_u16,
    Plain ''hsync_start'' td_u16,
    Plain ''hsync_end'' td_u16,
    Plain ''htotal'' td_u16,
    Plain ''hskew'' td_u16,
    Plain ''vdisplay'' td_u16,
    Plain ''vsync_start'' td_u16,
    Plain ''vsync_end'' td_u16,
    Plain ''vtotal'' td_u16,
    Plain ''vscan'' td_u16,
    Plain ''flags'' td_u32,
    Plain ''crtc_clock'' (TInt I32 True),
    Plain ''crtc_hdisplay'' td_u16,
    Plain ''crtc_hblank_start'' td_u16,
    Plain ''crtc_hblank_end'' td_u16,
    Plain ''crtc_hsync_start'' td_u16,
    Plain ''crtc_hsync_end'' td_u16,
    Plain ''crtc_htotal'' td_u16,
    Plain ''crtc_hskew'' td_u16,
    Plain ''crtc_vdisplay'' td_u16,
    Plain ''crtc_vblank_start'' td_u16,
    Plain ''crtc_vblank_end'' td_u16,
    Plain ''crtc_vsync_start'' td_u16,
    Plain ''crtc_vsync_end'' td_u16,
    Plain ''crtc_vtotal'' td_u16,
    Plain ''width_mm'' td_u16,
    Plain ''height_mm'' td_u16,
    Plain ''type'' td_u8,
    Plain ''expose_to_userspace'' td_bool,
    Plain ''head'' st_list_head,
    Plain ''name'' (TArr (TInt I8 True) 32),
    Plain ''status'' (TEnum ''drm_mode_status'' I32),
    Plain ''picture_aspect_ratio'' (TEnum ''hdmi_picture_aspect'' I32)]"

definition st_drm_dsc_config :: ty where
  "st_drm_dsc_config = TStruct ''drm_dsc_config'' False [
    Plain ''line_buf_depth'' td_u8,
    Plain ''bits_per_component'' td_u8,
    Plain ''convert_rgb'' td_bool,
    Plain ''slice_count'' td_u8,
    Plain ''slice_width'' td_u16,
    Plain ''slice_height'' td_u16,
    Plain ''simple_422'' td_bool,
    Plain ''pic_width'' td_u16,
    Plain ''pic_height'' td_u16,
    Plain ''rc_tgt_offset_high'' td_u8,
    Plain ''rc_tgt_offset_low'' td_u8,
    Plain ''bits_per_pixel'' td_u16,
    Plain ''rc_edge_factor'' td_u8,
    Plain ''rc_quant_incr_limit1'' td_u8,
    Plain ''rc_quant_incr_limit0'' td_u8,
    Plain ''initial_xmit_delay'' td_u16,
    Plain ''initial_dec_delay'' td_u16,
    Plain ''block_pred_enable'' td_bool,
    Plain ''first_line_bpg_offset'' td_u8,
    Plain ''initial_offset'' td_u16,
    Plain ''rc_buf_thresh'' (TArr td_u16 14),
    Plain ''rc_range_params'' (TArr st_drm_dsc_rc_range_parameters 15),
    Plain ''rc_model_size'' td_u16,
    Plain ''flatness_min_qp'' td_u8,
    Plain ''flatness_max_qp'' td_u8,
    Plain ''initial_scale_value'' td_u8,
    Plain ''scale_decrement_interval'' td_u16,
    Plain ''scale_increment_interval'' td_u16,
    Plain ''nfl_bpg_offset'' td_u16,
    Plain ''slice_bpg_offset'' td_u16,
    Plain ''final_offset'' td_u16,
    Plain ''vbr_enable'' td_bool,
    Plain ''mux_word_size'' td_u8,
    Plain ''slice_chunk_size'' td_u16,
    Plain ''rc_bits'' td_u16,
    Plain ''dsc_version_minor'' td_u8,
    Plain ''dsc_version_major'' td_u8,
    Plain ''native_422'' td_bool,
    Plain ''native_420'' td_bool,
    Plain ''second_line_bpg_offset'' td_u8,
    Plain ''nsl_bpg_offset'' td_u16,
    Plain ''second_line_offset_adj'' td_u16]"

definition st_drm_mm_node :: ty where
  "st_drm_mm_node = TStruct ''drm_mm_node'' False [
    Plain ''color'' (TInt I64 False),
    Plain ''start'' td_u64,
    Plain ''size'' td_u64,
    Plain ''mm'' (TPtr ''struct drm_mm''),
    Plain ''node_list'' st_list_head,
    Plain ''hole_stack'' st_list_head,
    Plain ''rb'' st_rb_node,
    Plain ''rb_hole_size'' st_rb_node,
    Plain ''rb_hole_addr'' st_rb_node,
    Plain ''__subtree_last'' td_u64,
    Plain ''hole_size'' td_u64,
    Plain ''subtree_max_hole'' td_u64,
    Plain ''flags'' (TInt I64 False)]"

definition st_drm_gpuva :: ty where
  "st_drm_gpuva = TStruct ''drm_gpuva'' False [
    Plain ''vm'' (TPtr ''struct drm_gpuvm''),
    Plain ''vm_bo'' (TPtr ''struct drm_gpuvm_bo''),
    Plain ''flags'' (TEnum ''drm_gpuva_flags'' I32),
    Plain ''va'' (TStruct '''' False [
      Plain ''addr'' td_u64,
      Plain ''range'' td_u64]),
    Plain ''gem'' (TStruct '''' False [
      Plain ''offset'' td_u64,
      Plain ''obj'' (TPtr ''struct drm_gem_object''),
      Plain ''entry'' st_list_head]),
    Plain ''rb'' (TStruct '''' False [
      Plain ''node'' st_rb_node,
      Plain ''entry'' st_list_head,
      Plain ''__subtree_last'' td_u64])]"

definition st_drm_plane_state :: ty where
  "st_drm_plane_state = TStruct ''drm_plane_state'' False [
    Plain ''plane'' (TPtr ''struct drm_plane''),
    Plain ''crtc'' (TPtr ''struct drm_crtc''),
    Plain ''fb'' (TPtr ''struct drm_framebuffer''),
    Plain ''fence'' (TPtr ''struct dma_fence''),
    Plain ''crtc_x'' td_int32_t,
    Plain ''crtc_y'' td_int32_t,
    Plain ''crtc_w'' td_uint32_t,
    Plain ''crtc_h'' td_uint32_t,
    Plain ''src_x'' td_uint32_t,
    Plain ''src_y'' td_uint32_t,
    Plain ''src_h'' td_uint32_t,
    Plain ''src_w'' td_uint32_t,
    Plain ''hotspot_x'' td_int32_t,
    Plain ''hotspot_y'' td_int32_t,
    Plain ''alpha'' td_u16,
    Plain ''pixel_blend_mode'' td_uint16_t,
    Plain ''rotation'' (TInt I32 False),
    Plain ''zpos'' (TInt I32 False),
    Plain ''normalized_zpos'' (TInt I32 False),
    Plain ''color_encoding'' (TEnum ''drm_color_encoding'' I32),
    Plain ''color_range'' (TEnum ''drm_color_range'' I32),
    Plain ''fb_damage_clips'' (TPtr ''struct drm_property_blob''),
    Plain ''ignore_damage_clips'' td_bool,
    Plain ''src'' st_drm_rect,
    Plain ''dst'' st_drm_rect,
    Plain ''visible'' td_bool,
    Plain ''scaling_filter'' (TEnum ''drm_scaling_filter'' I32),
    Plain ''color_pipeline'' (TPtr ''struct drm_colorop''),
    Plain ''commit'' (TPtr ''struct drm_crtc_commit''),
    Plain ''state'' (TPtr ''struct drm_atomic_state''),
    Bits ''color_mgmt_changed'' td_bool 1]"

definition st_dsa_switch :: ty where
  "st_dsa_switch = TStruct ''dsa_switch'' False [
    Plain ''dev'' (TPtr ''struct device''),
    Plain ''dst'' (TPtr ''struct dsa_switch_tree''),
    Plain ''index'' (TInt I32 False),
    Bits ''setup'' td_u32 1,
    Bits ''vlan_filtering_is_global'' td_u32 1,
    Bits ''needs_standalone_vlan_filtering'' td_u32 1,
    Bits ''configure_vlan_while_not_filtering'' td_u32 1,
    Bits ''untag_bridge_pvid'' td_u32 1,
    Bits ''untag_vlan_aware_bridge_pvid'' td_u32 1,
    Bits ''assisted_learning_on_cpu_port'' td_u32 1,
    Bits ''vlan_filtering'' td_u32 1,
    Bits ''mtu_enforcement_ingress'' td_u32 1,
    Bits ''fdb_isolation'' td_u32 1,
    Bits ''dscp_prio_mapping_is_global'' td_u32 1,
    Plain ''nb'' st_notifier_block,
    Plain ''priv'' (TPtr ''void''),
    Plain ''tagger_data'' (TPtr ''void''),
    Plain ''cd'' (TPtr ''struct dsa_chip_data''),
    Plain ''ops'' (TPtr ''struct dsa_switch_ops''),
    Plain ''phylink_mac_ops'' (TPtr ''struct phylink_mac_ops''),
    Plain ''phys_mii_mask'' td_u32,
    Plain ''user_mii_bus'' (TPtr ''struct mii_bus''),
    Plain ''ageing_time_min'' (TInt I32 False),
    Plain ''ageing_time_max'' (TInt I32 False),
    Plain ''tag_8021q_ctx'' (TPtr ''struct dsa_8021q_context''),
    Plain ''devlink'' (TPtr ''struct devlink''),
    Plain ''num_tx_queues'' (TInt I32 False),
    Plain ''num_lag_ids'' (TInt I32 False),
    Plain ''max_num_bridges'' (TInt I32 False),
    Plain ''num_ports'' (TInt I32 False)]"

definition st_dst_entry :: ty where
  "st_dst_entry = TStruct ''dst_entry'' False [
    Plain '''' (TUnion '''' False [
      Plain ''dev'' (TPtr ''struct net_device''),
      Plain ''dev_rcu'' (TPtr ''struct net_device'')]),
    Plain ''ops'' (TPtr ''struct dst_ops''),
    Plain ''_metrics'' (TInt I64 False),
    Plain ''expires'' (TInt I64 False),
    Plain ''xfrm'' (TPtr ''struct xfrm_state''),
    Plain ''input'' (TFun ''int (*)(struct sk_buff *)''),
    Plain ''output'' (TFun ''int (*)(struct net *, struct sock *, struct sk_buff *)''),
    Plain ''flags'' (TInt I16 False),
    Plain ''obsolete'' (TInt I16 True),
    Plain ''header_len'' (TInt I16 False),
    Plain ''trailer_len'' (TInt I16 False),
    Plain ''__rcuref'' td_rcuref_t,
    Plain ''__use'' (TInt I32 True),
    Plain ''lastuse'' (TInt I64 False),
    Plain ''callback_head'' st_callback_head,
    Plain ''error'' (TInt I16 True),
    Plain ''__pad'' (TInt I16 True),
    Plain ''tclassid'' td___u32,
    Plain ''dev_tracker'' td_netdevice_tracker,
    Plain ''rt_uncached'' st_list_head,
    Plain ''rt_uncached_list'' (TPtr ''struct uncached_list''),
    Plain ''lwtstate'' (TPtr ''struct lwtunnel_state'')]"

definition st_uart_8250_dma :: ty where
  "st_uart_8250_dma = TStruct ''uart_8250_dma'' False [
    Plain ''tx_dma'' (TFun ''int (*)(struct uart_8250_port *)''),
    Plain ''rx_dma'' (TFun ''int (*)(struct uart_8250_port *)''),
    Plain ''prepare_tx_dma'' (TFun ''void (*)(struct uart_8250_port *)''),
    Plain ''prepare_rx_dma'' (TFun ''void (*)(struct uart_8250_port *)''),
    Plain ''fn'' td_dma_filter_fn,
    Plain ''rx_param'' (TPtr ''void''),
    Plain ''tx_param'' (TPtr ''void''),
    Plain ''rxconf'' st_dma_slave_config,
    Plain ''txconf'' st_dma_slave_config,
    Plain ''rxchan'' (TPtr ''struct dma_chan''),
    Plain ''txchan'' (TPtr ''struct dma_chan''),
    Plain ''rx_dma_addr'' td_phys_addr_t,
    Plain ''tx_dma_addr'' td_phys_addr_t,
    Plain ''rx_addr'' td_dma_addr_t,
    Plain ''tx_addr'' td_dma_addr_t,
    Plain ''rx_cookie'' td_dma_cookie_t,
    Plain ''tx_cookie'' td_dma_cookie_t,
    Plain ''rx_buf'' (TPtr ''void''),
    Plain ''rx_size'' td_size_t,
    Plain ''tx_size'' td_size_t,
    Plain ''tx_running'' (TInt I8 False),
    Plain ''tx_err'' (TInt I8 False),
    Plain ''rx_running'' (TInt I8 False)]"

definition st_dw_edma_chip :: ty where
  "st_dw_edma_chip = TStruct ''dw_edma_chip'' False [
    Plain ''dev'' (TPtr ''struct device''),
    Plain ''nr_irqs'' (TInt I32 True),
    Plain ''ops'' (TPtr ''struct dw_edma_plat_ops''),
    Plain ''flags'' td_u32,
    Plain ''reg_base'' (TPtr ''void''),
    Plain ''ll_wr_cnt'' td_u16,
    Plain ''ll_rd_cnt'' td_u16,
    Plain ''ll_region_wr'' (TArr st_dw_edma_region 8),
    Plain ''ll_region_rd'' (TArr st_dw_edma_region 8),
    Plain ''dt_region_wr'' (TArr st_dw_edma_region 8),
    Plain ''dt_region_rd'' (TArr st_dw_edma_region 8),
    Plain ''mf'' (TEnum ''dw_edma_map_format'' I32),
    Plain ''dw'' (TPtr ''struct dw_edma'')]"

definition st_dw_pcie_ep :: ty where
  "st_dw_pcie_ep = TStruct ''dw_pcie_ep'' False [
    Plain ''epc'' (TPtr ''struct pci_epc''),
    Plain ''func_list'' st_list_head,
    Plain ''ops'' (TPtr ''struct dw_pcie_ep_ops''),
    Plain ''phys_base'' td_phys_addr_t,
    Plain ''addr_size'' td_size_t,
    Plain ''page_size'' td_size_t,
    Plain ''outbound_addr'' (TPtr ''phys_addr_t''),
    Plain ''ib_window_map'' (TPtr ''long unsigned int''),
    Plain ''ob_window_map'' (TPtr ''long unsigned int''),
    Plain ''msi_mem'' (TPtr ''void''),
    Plain ''msi_mem_phys'' td_phys_addr_t,
    Plain ''msi_iatu_mapped'' td_bool,
    Plain ''msi_msg_addr'' td_u64,
    Plain ''msi_map_size'' td_size_t]"

definition st_dwc2_core_params :: ty where
  "st_dwc2_core_params = TStruct ''dwc2_core_params'' False [
    Plain ''otg_caps'' st_usb_otg_caps,
    Plain ''phy_type'' td_u8,
    Plain ''speed'' td_u8,
    Plain ''phy_utmi_width'' td_u8,
    Plain ''eusb2_disc'' td_bool,
    Plain ''phy_ulpi_ddr'' td_bool,
    Plain ''phy_ulpi_ext_vbus'' td_bool,
    Plain ''enable_dynamic_fifo'' td_bool,
    Plain ''en_multiple_tx_fifo'' td_bool,
    Plain ''i2c_enable'' td_bool,
    Plain ''acg_enable'' td_bool,
    Plain ''ulpi_fs_ls'' td_bool,
    Plain ''ts_dline'' td_bool,
    Plain ''reload_ctl'' td_bool,
    Plain ''uframe_sched'' td_bool,
    Plain ''external_id_pin_ctl'' td_bool,
    Plain ''power_down'' (TInt I32 True),
    Plain ''no_clock_gating'' td_bool,
    Plain ''lpm'' td_bool,
    Plain ''lpm_clock_gating'' td_bool,
    Plain ''besl'' td_bool,
    Plain ''hird_threshold_en'' td_bool,
    Plain ''service_interval'' td_bool,
    Plain ''hird_threshold'' td_u8,
    Plain ''activate_stm_fs_transceiver'' td_bool,
    Plain ''activate_stm_id_vb_detection'' td_bool,
    Plain ''activate_ingenic_overcurrent_detection'' td_bool,
    Plain ''ipg_isoc_en'' td_bool,
    Plain ''max_packet_count'' td_u16,
    Plain ''max_transfer_size'' td_u32,
    Plain ''ahbcfg'' td_u32,
    Plain ''ref_clk_per'' td_u32,
    Plain ''sof_cnt_wkup_alert'' td_u16,
    Plain ''host_dma'' td_bool,
    Plain ''dma_desc_enable'' td_bool,
    Plain ''dma_desc_fs_enable'' td_bool,
    Plain ''host_support_fs_ls_low_power'' td_bool,
    Plain ''host_ls_low_power_phy_clk'' td_bool,
    Plain ''oc_disable'' td_bool,
    Plain ''host_channels'' td_u8,
    Plain ''host_rx_fifo_size'' td_u16,
    Plain ''host_nperio_tx_fifo_size'' td_u16,
    Plain ''host_perio_tx_fifo_size'' td_u16,
    Plain ''g_dma'' td_bool,
    Plain ''g_dma_desc'' td_bool,
    Plain ''g_rx_fifo_size'' td_u32,
    Plain ''g_np_tx_fifo_size'' td_u32,
    Plain ''g_tx_fifo_size'' (TArr td_u32 16),
    Plain ''change_speed_quirk'' td_bool]"

definition st_dwc2_hcd_urb :: ty where
  "st_dwc2_hcd_urb = TStruct ''dwc2_hcd_urb'' False [
    Plain ''priv'' (TPtr ''void''),
    Plain ''qtd'' (TPtr ''struct dwc2_qtd''),
    Plain ''buf'' (TPtr ''void''),
    Plain ''dma'' td_dma_addr_t,
    Plain ''setup_packet'' (TPtr ''void''),
    Plain ''setup_dma'' td_dma_addr_t,
    Plain ''length'' td_u32,
    Plain ''actual_length'' td_u32,
    Plain ''status'' td_u32,
    Plain ''error_count'' td_u32,
    Plain ''packet_count'' td_u32,
    Plain ''flags'' td_u32,
    Plain ''interval'' td_u16,
    Plain ''pipe_info'' st_dwc2_hcd_pipe_info,
    Plain ''iso_descs'' (TArr st_dwc2_hcd_iso_packet_desc 0)]"

definition st_dwc2_host_chan :: ty where
  "st_dwc2_host_chan = TStruct ''dwc2_host_chan'' False [
    Plain ''hc_num'' td_u8,
    Bits ''dev_addr'' (TInt I32 False) 7,
    Bits ''ep_num'' (TInt I32 False) 4,
    Bits ''ep_is_in'' (TInt I32 False) 1,
    Bits ''speed'' (TInt I32 False) 4,
    Bits ''ep_type'' (TInt I32 False) 2,
    Bits '''' (TInt I32 True) 6,
    Bits ''max_packet'' (TInt I32 False) 11,
    Bits ''data_pid_start'' (TInt I32 False) 2,
    Bits ''multi_count'' (TInt I32 False) 2,
    Plain ''xfer_buf'' (TPtr ''u8''),
    Plain ''xfer_dma'' td_dma_addr_t,
    Plain ''align_buf'' td_dma_addr_t,
    Plain ''xfer_len'' td_u32,
    Plain ''xfer_count'' td_u32,
    Plain ''start_pkt_count'' td_u16,
    Plain ''xfer_started'' td_u8,
    Plain ''do_ping'' td_u8,
    Plain ''error_state'' td_u8,
    Plain ''halt_on_queue'' td_u8,
    Plain ''halt_pending'' td_u8,
    Plain ''do_split'' td_u8,
    Plain ''complete_split'' td_u8,
    Plain ''hub_addr'' td_u8,
    Plain ''hub_port'' td_u8,
    Plain ''xact_pos'' td_u8,
    Plain ''requests'' td_u8,
    Plain ''schinfo'' td_u8,
    Plain ''ntd'' td_u16,
    Plain ''halt_status'' (TEnum ''dwc2_halt_status'' I32),
    Plain ''hcint'' td_u32,
    Plain ''qh'' (TPtr ''struct dwc2_qh''),
    Plain ''hc_list_entry'' st_list_head,
    Plain ''desc_list_addr'' td_dma_addr_t,
    Plain ''desc_list_sz'' td_u32,
    Plain ''split_order_list_entry'' st_list_head]"

definition st_dwc2_qtd :: ty where
  "st_dwc2_qtd = TStruct ''dwc2_qtd'' False [
    Plain ''control_phase'' (TEnum ''dwc2_control_phase'' I32),
    Plain ''in_process'' td_u8,
    Plain ''data_toggle'' td_u8,
    Plain ''complete_split'' td_u8,
    Plain ''isoc_split_pos'' td_u8,
    Plain ''isoc_frame_index'' td_u16,
    Plain ''isoc_split_offset'' td_u16,
    Plain ''isoc_td_last'' td_u16,
    Plain ''isoc_td_first'' td_u16,
    Plain ''ssplit_out_xfer_count'' td_u32,
    Plain ''error_count'' td_u8,
    Plain ''n_desc'' td_u8,
    Plain ''isoc_frame_index_last'' td_u16,
    Plain ''num_naks'' td_u16,
    Plain ''urb'' (TPtr ''struct dwc2_hcd_urb''),
    Plain ''qh'' (TPtr ''struct dwc2_qh''),
    Plain ''qtd_list_entry'' st_list_head]"

definition st_ecryptfs_parse_tag_70_packet_silly_stack :: ty where
  "st_ecryptfs_parse_tag_70_packet_silly_stack = TStruct ''ecryptfs_parse_tag_70_packet_silly_stack'' False [
    Plain ''cipher_code'' td_u8,
    Plain ''max_packet_size'' td_size_t,
    Plain ''packet_size_len'' td_size_t,
    Plain ''parsed_tag_70_packet_size'' td_size_t,
    Plain ''block_aligned_filename_size'' td_size_t,
    Plain ''block_size'' td_size_t,
    Plain ''i'' td_size_t,
    Plain ''tfm_mutex'' (TPtr ''struct mutex''),
    Plain ''decrypted_filename'' (TPtr ''char''),
    Plain ''auth_tok'' (TPtr ''struct ecryptfs_auth_tok''),
    Plain ''src_sg'' (TArr st_scatterlist 2),
    Plain ''dst_sg'' (TArr st_scatterlist 2),
    Plain ''skcipher_tfm'' (TPtr ''struct crypto_skcipher''),
    Plain ''skcipher_req'' (TPtr ''struct skcipher_request''),
    Plain ''fnek_sig_hex'' (TArr (TInt I8 True) 17),
    Plain ''iv'' (TArr (TInt I8 True) 16),
    Plain ''cipher_string'' (TArr (TInt I8 True) 32)]"

definition st_ecryptfs_write_tag_70_packet_silly_stack :: ty where
  "st_ecryptfs_write_tag_70_packet_silly_stack = TStruct ''ecryptfs_write_tag_70_packet_silly_stack'' False [
    Plain ''cipher_code'' td_u8,
    Plain ''max_packet_size'' td_size_t,
    Plain ''packet_size_len'' td_size_t,
    Plain ''block_aligned_filename_size'' td_size_t,
    Plain ''block_size'' td_size_t,
    Plain ''i'' td_size_t,
    Plain ''j'' td_size_t,
    Plain ''num_rand_bytes'' td_size_t,
    Plain ''tfm_mutex'' (TPtr ''struct mutex''),
    Plain ''block_aligned_filename'' (TPtr ''char''),
    Plain ''auth_tok'' (TPtr ''struct ecryptfs_auth_tok''),
    Plain ''src_sg'' (TArr st_scatterlist 2),
    Plain ''dst_sg'' (TArr st_scatterlist 2),
    Plain ''skcipher_tfm'' (TPtr ''struct crypto_skcipher''),
    Plain ''skcipher_req'' (TPtr ''struct skcipher_request''),
    Plain ''iv'' (TArr (TInt I8 True) 16),
    Plain ''hash'' (TArr (TInt I8 True) 16)]"

definition st_ed :: ty where
  "st_ed = TStruct ''ed'' False [
    Plain ''hwINFO'' td___hc32,
    Plain ''hwTailP'' td___hc32,
    Plain ''hwHeadP'' td___hc32,
    Plain ''hwNextED'' td___hc32,
    Plain ''dma'' td_dma_addr_t,
    Plain ''dummy'' (TPtr ''struct td''),
    Plain ''ed_next'' (TPtr ''struct ed''),
    Plain ''ed_prev'' (TPtr ''struct ed''),
    Plain ''td_list'' st_list_head,
    Plain ''in_use_list'' st_list_head,
    Plain ''state'' td_u8,
    Plain ''type'' td_u8,
    Plain ''branch'' td_u8,
    Plain ''interval'' td_u16,
    Plain ''load'' td_u16,
    Plain ''last_iso'' td_u16,
    Plain ''tick'' td_u16,
    Plain ''takeback_wdh_cnt'' (TInt I32 False),
    Plain ''pending_td'' (TPtr ''struct td''),
    Bits '''' (TInt I64 True) 64]"

definition st_ehci_per_sched :: ty where
  "st_ehci_per_sched = TStruct ''ehci_per_sched'' False [
    Plain ''udev'' (TPtr ''struct usb_device''),
    Plain ''ep'' (TPtr ''struct usb_host_endpoint''),
    Plain ''ps_list'' st_list_head,
    Plain ''tt_usecs'' td_u16,
    Plain ''cs_mask'' td_u16,
    Plain ''period'' td_u16,
    Plain ''phase'' td_u16,
    Plain ''bw_phase'' td_u8,
    Plain ''phase_uf'' td_u8,
    Plain ''usecs'' td_u8,
    Plain ''c_usecs'' td_u8,
    Plain ''bw_uperiod'' td_u8,
    Plain ''bw_period'' td_u8]"

definition st_ehci_itd :: ty where
  "st_ehci_itd = TStruct ''ehci_itd'' False [
    Plain ''hw_next'' td___le32,
    Plain ''hw_transaction'' (TArr td___le32 8),
    Plain ''hw_bufp'' (TArr td___le32 7),
    Plain ''hw_bufp_hi'' (TArr td___le32 7),
    Plain ''itd_dma'' td_dma_addr_t,
    Plain ''itd_next'' un_ehci_shadow,
    Plain ''urb'' (TPtr ''struct urb''),
    Plain ''stream'' (TPtr ''struct ehci_iso_stream''),
    Plain ''itd_list'' st_list_head,
    Plain ''frame'' (TInt I32 False),
    Plain ''pg'' (TInt I32 False),
    Plain ''index'' (TArr (TInt I32 False) 8),
    Bits '''' (TInt I64 True) 64]"

definition st_ehci_sitd :: ty where
  "st_ehci_sitd = TStruct ''ehci_sitd'' False [
    Plain ''hw_next'' td___le32,
    Plain ''hw_fullspeed_ep'' td___le32,
    Plain ''hw_uframe'' td___le32,
    Plain ''hw_results'' td___le32,
    Plain ''hw_buf'' (TArr td___le32 2),
    Plain ''hw_backpointer'' td___le32,
    Plain ''hw_buf_hi'' (TArr td___le32 2),
    Plain ''sitd_dma'' td_dma_addr_t,
    Plain ''sitd_next'' un_ehci_shadow,
    Plain ''urb'' (TPtr ''struct urb''),
    Plain ''stream'' (TPtr ''struct ehci_iso_stream''),
    Plain ''sitd_list'' st_list_head,
    Plain ''frame'' (TInt I32 False),
    Plain ''index'' (TInt I32 False)]"

definition st_elf_prstatus_common :: ty where
  "st_elf_prstatus_common = TStruct ''elf_prstatus_common'' False [
    Plain ''pr_info'' st_elf_siginfo,
    Plain ''pr_cursig'' (TInt I16 True),
    Plain ''pr_sigpend'' (TInt I64 False),
    Plain ''pr_sighold'' (TInt I64 False),
    Plain ''pr_pid'' td_pid_t,
    Plain ''pr_ppid'' td_pid_t,
    Plain ''pr_pgrp'' td_pid_t,
    Plain ''pr_sid'' td_pid_t,
    Plain ''pr_utime'' st___kernel_old_timeval,
    Plain ''pr_stime'' st___kernel_old_timeval,
    Plain ''pr_cutime'' st___kernel_old_timeval,
    Plain ''pr_cstime'' st___kernel_old_timeval]"

definition st_encrypted_key_payload :: ty where
  "st_encrypted_key_payload = TStruct ''encrypted_key_payload'' False [
    Plain ''rcu'' st_callback_head,
    Plain ''format'' (TPtr ''char''),
    Plain ''master_desc'' (TPtr ''char''),
    Plain ''datalen'' (TPtr ''char''),
    Plain ''iv'' (TPtr ''u8''),
    Plain ''encrypted_data'' (TPtr ''u8''),
    Plain ''datablob_len'' (TInt I16 False),
    Plain ''decrypted_datalen'' (TInt I16 False),
    Plain ''payload_datalen'' (TInt I16 False),
    Plain ''encrypted_key_format'' (TInt I16 False),
    Plain ''decrypted_data'' (TPtr ''u8''),
    Plain ''payload_data'' (TArr td_u8 0)]"

definition st_epitem :: ty where
  "st_epitem = TStruct ''epitem'' False [
    Plain '''' (TUnion '''' False [
      Plain ''rbn'' st_rb_node,
      Plain ''rcu'' st_callback_head]),
    Plain ''rdllink'' st_list_head,
    Plain ''next'' (TPtr ''struct epitem''),
    Plain ''ffd'' st_epoll_filefd,
    Plain ''dying'' td_bool,
    Plain ''pwqlist'' (TPtr ''struct eppoll_entry''),
    Plain ''ep'' (TPtr ''struct eventpoll''),
    Plain ''fllink'' st_hlist_node,
    Plain ''ws'' (TPtr ''struct wakeup_source''),
    Plain ''event'' st_epoll_event]"

definition st_insn :: ty where
  "st_insn = TStruct ''insn'' False [
    Plain ''prefixes'' st_insn_field,
    Plain ''rex_prefix'' st_insn_field,
    Plain '''' (TUnion '''' False [
      Plain ''vex_prefix'' st_insn_field,
      Plain ''xop_prefix'' st_insn_field]),
    Plain ''opcode'' st_insn_field,
    Plain ''modrm'' st_insn_field,
    Plain ''sib'' st_insn_field,
    Plain ''displacement'' st_insn_field,
    Plain '''' (TUnion '''' False [
      Plain ''immediate'' st_insn_field,
      Plain ''moffset1'' st_insn_field,
      Plain ''immediate1'' st_insn_field]),
    Plain '''' (TUnion '''' False [
      Plain ''moffset2'' st_insn_field,
      Plain ''immediate2'' st_insn_field]),
    Plain ''emulate_prefix_size'' (TInt I32 True),
    Plain ''attr'' td_insn_attr_t,
    Plain ''opnd_bytes'' (TInt I8 False),
    Plain ''addr_bytes'' (TInt I8 False),
    Plain ''length'' (TInt I8 False),
    Plain ''x86_64'' (TInt I8 False),
    Plain ''kaddr'' (TPtr ''insn_byte_t''),
    Plain ''end_kaddr'' (TPtr ''insn_byte_t''),
    Plain ''next_byte'' (TPtr ''insn_byte_t'')]"

definition st_ethtool_link_ksettings :: ty where
  "st_ethtool_link_ksettings = TStruct ''ethtool_link_ksettings'' False [
    Plain ''base'' st_ethtool_link_settings,
    Plain ''link_modes'' (TStruct '''' False [
      Plain ''supported'' (TArr (TInt I64 False) 2),
      Plain ''advertising'' (TArr (TInt I64 False) 2),
      Plain ''lp_advertising'' (TArr (TInt I64 False) 2)]),
    Plain ''lanes'' td_u32]"

definition st_input_handle :: ty where
  "st_input_handle = TStruct ''input_handle'' False [
    Plain ''private'' (TPtr ''void''),
    Plain ''open'' (TInt I32 True),
    Plain ''name'' (TPtr ''char''),
    Plain ''dev'' (TPtr ''struct input_dev''),
    Plain ''handler'' (TPtr ''struct input_handler''),
    Plain ''handle_events''
      (TFun ''unsigned int (*)(struct input_handle *, struct input_value *, unsigned int)''),
    Plain ''d_node'' st_list_head,
    Plain ''h_node'' st_list_head]"

definition st_event_trigger_data :: ty where
  "st_event_trigger_data = TStruct ''event_trigger_data'' False [
    Plain ''count'' (TInt I64 False),
    Plain ''ref'' (TInt I32 True),
    Plain ''flags'' (TInt I32 True),
    Plain ''cmd_ops'' (TPtr ''struct event_command''),
    Plain ''filter'' (TPtr ''struct event_filter''),
    Plain ''filter_str'' (TPtr ''char''),
    Plain ''private_data'' (TPtr ''void''),
    Plain ''paused'' td_bool,
    Plain ''paused_tmp'' td_bool,
    Plain ''list'' st_list_head,
    Plain ''name'' (TPtr ''char''),
    Plain ''named_list'' st_list_head,
    Plain ''named_data'' (TPtr ''struct event_trigger_data''),
    Plain ''llist'' st_llist_node]"

definition st_ext4_allocation_context :: ty where
  "st_ext4_allocation_context = TStruct ''ext4_allocation_context'' False [
    Plain ''ac_inode'' (TPtr ''struct inode''),
    Plain ''ac_sb'' (TPtr ''struct super_block''),
    Plain ''ac_o_ex'' st_ext4_free_extent,
    Plain ''ac_g_ex'' st_ext4_free_extent,
    Plain ''ac_b_ex'' st_ext4_free_extent,
    Plain ''ac_f_ex'' st_ext4_free_extent,
    Plain ''ac_orig_goal_len'' td_ext4_grpblk_t,
    Plain ''ac_prefetch_grp'' td_ext4_group_t,
    Plain ''ac_prefetch_ios'' (TInt I32 False),
    Plain ''ac_prefetch_nr'' (TInt I32 False),
    Plain ''ac_first_err'' (TInt I32 True),
    Plain ''ac_flags'' td___u32,
    Plain ''ac_groups_scanned'' td___u16,
    Plain ''ac_found'' td___u16,
    Plain ''ac_cX_found'' (TArr td___u16 5),
    Plain ''ac_tail'' td___u16,
    Plain ''ac_buddy'' td___u16,
    Plain ''ac_status'' td___u8,
    Plain ''ac_criteria'' td___u8,
    Plain ''ac_2order'' td___u8,
    Plain ''ac_op'' td___u8,
    Plain ''ac_e4b'' (TPtr ''struct ext4_buddy''),
    Plain ''ac_bitmap_folio'' (TPtr ''struct folio''),
    Plain ''ac_buddy_folio'' (TPtr ''struct folio''),
    Plain ''ac_pa'' (TPtr ''struct ext4_prealloc_space''),
    Plain ''ac_lg'' (TPtr ''struct ext4_locality_group'')]"

definition st_ext4_es_tree :: ty where
  "st_ext4_es_tree = TStruct ''ext4_es_tree'' False [
    Plain ''root'' st_rb_root,
    Plain ''cache_es'' (TPtr ''struct extent_status'')]"

definition st_ext4_fs_context :: ty where
  "st_ext4_fs_context = TStruct ''ext4_fs_context'' False [
    Plain ''s_qf_names'' (TArr (TPtr ''char'') 3),
    Plain ''dummy_enc_policy'' st_fscrypt_dummy_policy,
    Plain ''s_jquota_fmt'' (TInt I32 True),
    Plain ''qname_spec'' (TInt I16 False),
    Plain ''vals_s_flags'' (TInt I64 False),
    Plain ''mask_s_flags'' (TInt I64 False),
    Plain ''journal_devnum'' (TInt I64 False),
    Plain ''s_commit_interval'' (TInt I64 False),
    Plain ''s_stripe'' (TInt I64 False),
    Plain ''s_inode_readahead_blks'' (TInt I32 False),
    Plain ''s_want_extra_isize'' (TInt I32 False),
    Plain ''s_li_wait_mult'' (TInt I32 False),
    Plain ''s_max_dir_size_kb'' (TInt I32 False),
    Plain ''journal_ioprio'' (TInt I32 False),
    Plain ''vals_s_mount_opt'' (TInt I32 False),
    Plain ''mask_s_mount_opt'' (TInt I32 False),
    Plain ''vals_s_mount_opt2'' (TInt I32 False),
    Plain ''mask_s_mount_opt2'' (TInt I32 False),
    Plain ''opt_flags'' (TInt I32 False),
    Plain ''spec'' (TInt I32 False),
    Plain ''s_max_batch_time'' td_u32,
    Plain ''s_min_batch_time'' td_u32,
    Plain ''s_resuid'' td_kuid_t,
    Plain ''s_resgid'' td_kgid_t,
    Plain ''s_sb_block'' td_ext4_fsblk_t]"

definition st_ext4_pending_tree :: ty where
  "st_ext4_pending_tree = TStruct ''ext4_pending_tree'' False [
    Plain ''root'' st_rb_root]"

definition st_fsnotify_event :: ty where
  "st_fsnotify_event = TStruct ''fsnotify_event'' False [
    Plain ''list'' st_list_head]"

definition st_fanotify_response_info_audit_rule :: ty where
  "st_fanotify_response_info_audit_rule = TStruct ''fanotify_response_info_audit_rule'' False [
    Plain ''hdr'' st_fanotify_response_info_header,
    Plain ''rule_number'' td___u32,
    Plain ''subj_trust'' td___u32,
    Plain ''obj_trust'' td___u32]"

definition st_fb_image :: ty where
  "st_fb_image = TStruct ''fb_image'' False [
    Plain ''dx'' td___u32,
    Plain ''dy'' td___u32,
    Plain ''width'' td___u32,
    Plain ''height'' td___u32,
    Plain ''fg_color'' td___u32,
    Plain ''bg_color'' td___u32,
    Plain ''depth'' td___u8,
    Plain ''data'' (TPtr ''char''),
    Plain ''cmap'' st_fb_cmap]"

definition st_fb_var_screeninfo :: ty where
  "st_fb_var_screeninfo = TStruct ''fb_var_screeninfo'' False [
    Plain ''xres'' td___u32,
    Plain ''yres'' td___u32,
    Plain ''xres_virtual'' td___u32,
    Plain ''yres_virtual'' td___u32,
    Plain ''xoffset'' td___u32,
    Plain ''yoffset'' td___u32,
    Plain ''bits_per_pixel'' td___u32,
    Plain ''grayscale'' td___u32,
    Plain ''red'' st_fb_bitfield,
    Plain ''green'' st_fb_bitfield,
    Plain ''blue'' st_fb_bitfield,
    Plain ''transp'' st_fb_bitfield,
    Plain ''nonstd'' td___u32,
    Plain ''activate'' td___u32,
    Plain ''height'' td___u32,
    Plain ''width'' td___u32,
    Plain ''accel_flags'' td___u32,
    Plain ''pixclock'' td___u32,
    Plain ''left_margin'' td___u32,
    Plain ''right_margin'' td___u32,
    Plain ''upper_margin'' td___u32,
    Plain ''lower_margin'' td___u32,
    Plain ''hsync_len'' td___u32,
    Plain ''vsync_len'' td___u32,
    Plain ''sync'' td___u32,
    Plain ''vmode'' td___u32,
    Plain ''rotate'' td___u32,
    Plain ''colorspace'' td___u32,
    Plain ''reserved'' (TArr td___u32 4)]"

definition st_fb_monspecs :: ty where
  "st_fb_monspecs = TStruct ''fb_monspecs'' False [
    Plain ''chroma'' st_fb_chroma,
    Plain ''modedb'' (TPtr ''struct fb_videomode''),
    Plain ''manufacturer'' (TArr td___u8 4),
    Plain ''monitor'' (TArr td___u8 14),
    Plain ''serial_no'' (TArr td___u8 14),
    Plain ''ascii'' (TArr td___u8 14),
    Plain ''modedb_len'' td___u32,
    Plain ''model'' td___u32,
    Plain ''serial'' td___u32,
    Plain ''year'' td___u32,
    Plain ''week'' td___u32,
    Plain ''hfmin'' td___u32,
    Plain ''hfmax'' td___u32,
    Plain ''dclkmin'' td___u32,
    Plain ''dclkmax'' td___u32,
    Plain ''input'' td___u16,
    Plain ''dpms'' td___u16,
    Plain ''signal'' td___u16,
    Plain ''vfmin'' td___u16,
    Plain ''vfmax'' td___u16,
    Plain ''gamma'' td___u16,
    Bits ''gtf'' td___u16 1,
    Plain ''misc'' td___u16,
    Plain ''version'' td___u8,
    Plain ''revision'' td___u8,
    Plain ''max_x'' td___u8,
    Plain ''max_y'' td___u8]"

definition st_fbcon_display :: ty where
  "st_fbcon_display = TStruct ''fbcon_display'' False [
    Plain ''fontdata'' (TPtr ''u_char''),
    Plain ''userfont'' (TInt I32 True),
    Plain ''yscroll'' (TInt I16 True),
    Plain ''vrows'' (TInt I32 True),
    Plain ''cursor_shape'' (TInt I32 True),
    Plain ''con_rotate'' (TInt I32 True),
    Plain ''xres_virtual'' td_u32,
    Plain ''yres_virtual'' td_u32,
    Plain ''height'' td_u32,
    Plain ''width'' td_u32,
    Plain ''bits_per_pixel'' td_u32,
    Plain ''grayscale'' td_u32,
    Plain ''nonstd'' td_u32,
    Plain ''accel_flags'' td_u32,
    Plain ''rotate'' td_u32,
    Plain ''red'' st_fb_bitfield,
    Plain ''green'' st_fb_bitfield,
    Plain ''blue'' st_fb_bitfield,
    Plain ''transp'' st_fb_bitfield,
    Plain ''mode'' (TPtr ''struct fb_videomode'')]"

definition st_fdtable :: ty where
  "st_fdtable = TStruct ''fdtable'' False [
    Plain ''max_fds'' (TInt I32 False),
    Plain ''fd'' (TPtr ''struct file *''),
    Plain ''close_on_exec'' (TPtr ''long unsigned int''),
    Plain ''open_fds'' (TPtr ''long unsigned int''),
    Plain ''full_fds_bits'' (TPtr ''long unsigned int''),
    Plain ''rcu'' st_callback_head]"

definition st_fib6_config :: ty where
  "st_fib6_config = TStruct ''fib6_config'' False [
    Plain ''fc_table'' td_u32,
    Plain ''fc_metric'' td_u32,
    Plain ''fc_dst_len'' (TInt I32 True),
    Plain ''fc_src_len'' (TInt I32 True),
    Plain ''fc_ifindex'' (TInt I32 True),
    Plain ''fc_flags'' td_u32,
    Plain ''fc_protocol'' td_u32,
    Plain ''fc_type'' td_u16,
    Bits ''fc_delete_all_nh'' td_u16 1,
    Bits ''fc_ignore_dev_down'' td_u16 1,
    Bits ''__unused'' td_u16 14,
    Plain ''fc_nh_id'' td_u32,
    Plain ''fc_dst'' st_in6_addr,
    Plain ''fc_src'' st_in6_addr,
    Plain ''fc_prefsrc'' st_in6_addr,
    Plain ''fc_gateway'' st_in6_addr,
    Plain ''fc_expires'' (TInt I64 False),
    Plain ''fc_mx'' (TPtr ''struct nlattr''),
    Plain ''fc_mx_len'' (TInt I32 True),
    Plain ''fc_mp_len'' (TInt I32 True),
    Plain ''fc_mp'' (TPtr ''struct nlattr''),
    Plain ''fc_nlinfo'' st_nl_info,
    Plain ''fc_encap'' (TPtr ''struct nlattr''),
    Plain ''fc_encap_type'' td_u16,
    Plain ''fc_is_fdb'' td_bool]"

definition st_rt6key :: ty where
  "st_rt6key = TStruct ''rt6key'' False [
    Plain ''addr'' st_in6_addr,
    Plain ''plen'' (TInt I32 True)]"

definition st_fib_nh_common :: ty where
  "st_fib_nh_common = TStruct ''fib_nh_common'' False [
    Plain ''nhc_dev'' (TPtr ''struct net_device''),
    Plain ''nhc_dev_tracker'' td_netdevice_tracker,
    Plain ''nhc_oif'' (TInt I32 True),
    Plain ''nhc_scope'' (TInt I8 False),
    Plain ''nhc_family'' td_u8,
    Plain ''nhc_gw_family'' td_u8,
    Plain ''nhc_flags'' (TInt I8 False),
    Plain ''nhc_lwtstate'' (TPtr ''struct lwtunnel_state''),
    Plain ''nhc_gw'' (TUnion '''' False [
      Plain ''ipv4'' td___be32,
      Plain ''ipv6'' st_in6_addr]),
    Plain ''nhc_weight'' (TInt I32 True),
    Plain ''nhc_upper_bound'' td_atomic_t,
    Plain ''nhc_pcpu_rth_output'' (TPtr ''struct rtable *''),
    Plain ''nhc_rth_input'' (TPtr ''struct rtable''),
    Plain ''nhc_exceptions'' (TPtr ''struct fnhe_hash_bucket'')]"

definition st_fib_alias :: ty where
  "st_fib_alias = TStruct ''fib_alias'' False [
    Plain ''fa_list'' st_hlist_node,
    Plain ''fa_info'' (TPtr ''struct fib_info''),
    Plain ''fa_dscp'' td_dscp_t,
    Plain ''fa_type'' td_u8,
    Plain ''fa_state'' td_u8,
    Plain ''fa_slen'' td_u8,
    Plain ''tb_id'' td_u32,
    Plain ''fa_default'' td_s16,
    Plain ''offload'' td_u8,
    Plain ''trap'' td_u8,
    Plain ''offload_failed'' td_u8,
    Plain ''rcu'' st_callback_head]"

definition st_fib_config :: ty where
  "st_fib_config = TStruct ''fib_config'' False [
    Plain ''fc_dst_len'' td_u8,
    Plain ''fc_dscp'' td_dscp_t,
    Plain ''fc_protocol'' td_u8,
    Plain ''fc_scope'' td_u8,
    Plain ''fc_type'' td_u8,
    Plain ''fc_gw_family'' td_u8,
    Plain ''fc_table'' td_u32,
    Plain ''fc_dst'' td___be32,
    Plain '''' (TUnion '''' False [
      Plain ''fc_gw4'' td___be32,
      Plain ''fc_gw6'' st_in6_addr]),
    Plain ''fc_oif'' (TInt I32 True),
    Plain ''fc_flags'' td_u32,
    Plain ''fc_priority'' td_u32,
    Plain ''fc_prefsrc'' td___be32,
    Plain ''fc_nh_id'' td_u32,
    Plain ''fc_mx'' (TPtr ''struct nlattr''),
    Plain ''fc_mp'' (TPtr ''struct rtnexthop''),
    Plain ''fc_mx_len'' (TInt I32 True),
    Plain ''fc_mp_len'' (TInt I32 True),
    Plain ''fc_flow'' td_u32,
    Plain ''fc_nlflags'' td_u32,
    Plain ''fc_nlinfo'' st_nl_info,
    Plain ''fc_encap'' (TPtr ''struct nlattr''),
    Plain ''fc_encap_type'' td_u16]"

definition st_nfs_lock_info :: ty where
  "st_nfs_lock_info = TStruct ''nfs_lock_info'' False [
    Plain ''state'' td_u32,
    Plain ''owner'' (TPtr ''struct nlm_lockowner''),
    Plain ''list'' st_list_head]"

definition st_file_system_type :: ty where
  "st_file_system_type = TStruct ''file_system_type'' False [
    Plain ''name'' (TPtr ''char''),
    Plain ''fs_flags'' (TInt I32 True),
    Plain ''init_fs_context'' (TFun ''int (*)(struct fs_context *)''),
    Plain ''parameters'' (TPtr ''struct fs_parameter_spec''),
    Plain ''kill_sb'' (TFun ''void (*)(struct super_block *)''),
    Plain ''owner'' (TPtr ''struct module''),
    Plain ''next'' (TPtr ''struct file_system_type''),
    Plain ''fs_supers'' st_hlist_head,
    Plain ''s_lock_key'' st_lock_class_key,
    Plain ''s_umount_key'' st_lock_class_key,
    Plain ''s_vfs_rename_key'' st_lock_class_key,
    Plain ''s_writers_key'' (TArr st_lock_class_key 3),
    Plain ''i_lock_key'' st_lock_class_key,
    Plain ''i_mutex_key'' st_lock_class_key,
    Plain ''invalidate_lock_key'' st_lock_class_key,
    Plain ''i_mutex_dir_key'' st_lock_class_key]"

definition st_regulation_constraints :: ty where
  "st_regulation_constraints = TStruct ''regulation_constraints'' False [
    Plain ''name'' (TPtr ''char''),
    Plain ''min_uV'' (TInt I32 True),
    Plain ''max_uV'' (TInt I32 True),
    Plain ''uV_offset'' (TInt I32 True),
    Plain ''min_uA'' (TInt I32 True),
    Plain ''max_uA'' (TInt I32 True),
    Plain ''ilim_uA'' (TInt I32 True),
    Plain ''pw_budget_mW'' (TInt I32 True),
    Plain ''system_load'' (TInt I32 True),
    Plain ''max_spread'' (TPtr ''u32''),
    Plain ''max_uV_step'' (TInt I32 True),
    Plain ''valid_modes_mask'' (TInt I32 False),
    Plain ''valid_ops_mask'' (TInt I32 False),
    Plain ''input_uV'' (TInt I32 True),
    Plain ''state_disk'' st_regulator_state,
    Plain ''state_mem'' st_regulator_state,
    Plain ''state_standby'' st_regulator_state,
    Plain ''over_curr_limits'' st_notification_limit,
    Plain ''over_voltage_limits'' st_notification_limit,
    Plain ''under_voltage_limits'' st_notification_limit,
    Plain ''temp_limits'' st_notification_limit,
    Plain ''initial_state'' td_suspend_state_t,
    Plain ''initial_mode'' (TInt I32 False),
    Plain ''ramp_delay'' (TInt I32 False),
    Plain ''settling_time'' (TInt I32 False),
    Plain ''settling_time_up'' (TInt I32 False),
    Plain ''settling_time_down'' (TInt I32 False),
    Plain ''enable_time'' (TInt I32 False),
    Plain ''uv_less_critical_window_ms'' (TInt I32 False),
    Plain ''active_discharge'' (TInt I32 False),
    Bits ''always_on'' (TInt I32 False) 1,
    Bits ''boot_on'' (TInt I32 False) 1,
    Bits ''apply_uV'' (TInt I32 False) 1,
    Bits ''ramp_disable'' (TInt I32 False) 1,
    Bits ''soft_start'' (TInt I32 False) 1,
    Bits ''pull_down'' (TInt I32 False) 1,
    Bits ''system_critical'' (TInt I32 False) 1,
    Bits ''over_current_protection'' (TInt I32 False) 1,
    Bits ''over_current_detection'' (TInt I32 False) 1,
    Bits ''over_voltage_detection'' (TInt I32 False) 1,
    Bits ''under_voltage_detection'' (TInt I32 False) 1,
    Bits ''over_temp_detection'' (TInt I32 False) 1]"

definition st_flow_action_entry :: ty where
  "st_flow_action_entry = TStruct ''flow_action_entry'' False [
    Plain ''id'' (TEnum ''flow_action_id'' I32),
    Plain ''hw_index'' td_u32,
    Plain ''cookie'' (TInt I64 False),
    Plain ''miss_cookie'' td_u64,
    Plain ''hw_stats'' (TEnum ''flow_action_hw_stats'' I32),
    Plain ''destructor'' td_action_destr,
    Plain ''destructor_priv'' (TPtr ''void''),
    Plain '''' (TUnion '''' False [
      Plain ''chain_index'' td_u32,
      Plain ''dev'' (TPtr ''struct net_device''),
      Plain ''vlan'' (TStruct '''' False [
        Plain ''vid'' td_u16,
        Plain ''proto'' td___be16,
        Plain ''prio'' td_u8]),
      Plain ''vlan_push_eth'' (TStruct '''' False [
        Plain ''dst'' (TArr (TInt I8 False) 6),
        Plain ''src'' (TArr (TInt I8 False) 6)]),
      Plain ''mangle'' (TStruct '''' False [
        Plain ''htype'' (TEnum ''flow_action_mangle_base'' I32),
        Plain ''offset'' td_u32,
        Plain ''mask'' td_u32,
        Plain ''val'' td_u32]),
      Plain ''tunnel'' (TPtr ''struct ip_tunnel_info''),
      Plain ''csum_flags'' td_u32,
      Plain ''mark'' td_u32,
      Plain ''ptype'' td_u16,
      Plain ''rx_queue'' td_u16,
      Plain ''priority'' td_u32,
      Plain ''queue'' (TStruct '''' False [
        Plain ''ctx'' td_u32,
        Plain ''index'' td_u32,
        Plain ''vf'' td_u8]),
      Plain ''sample'' (TStruct '''' False [
        Plain ''psample_group'' (TPtr ''struct psample_group''),
        Plain ''rate'' td_u32,
        Plain ''trunc_size'' td_u32,
        Plain ''truncate'' td_bool]),
      Plain ''police'' st_flow_action_police,
      Plain ''ct'' (TStruct '''' False [
        Plain ''action'' (TInt I32 True),
        Plain ''zone'' td_u16,
        Plain ''flow_table'' (TPtr ''struct nf_flowtable'')]),
      Plain ''ct_metadata'' (TStruct '''' False [
        Plain ''cookie'' (TInt I64 False),
        Plain ''mark'' td_u32,
        Plain ''labels'' (TArr td_u32 4),
        Plain ''orig_dir'' td_bool]),
      Plain ''mpls_push'' (TStruct '''' False [
        Plain ''label'' td_u32,
        Plain ''proto'' td___be16,
        Plain ''tc'' td_u8,
        Plain ''bos'' td_u8,
        Plain ''ttl'' td_u8]),
      Plain ''mpls_pop'' (TStruct '''' False [
        Plain ''proto'' td___be16]),
      Plain ''mpls_mangle'' (TStruct '''' False [
        Plain ''label'' td_u32,
        Plain ''tc'' td_u8,
        Plain ''bos'' td_u8,
        Plain ''ttl'' td_u8]),
      Plain ''gate'' (TStruct '''' False [
        Plain ''prio'' td_s32,
        Plain ''basetime'' td_u64,
        Plain ''cycletime'' td_u64,
        Plain ''cycletimeext'' td_u64,
        Plain ''num_entries'' td_u32,
        Plain ''entries'' (TPtr ''struct action_gate_entry'')]),
      Plain ''pppoe'' (TStruct '''' False [
        Plain ''sid'' td_u16])]),
    Plain ''user_cookie'' (TPtr ''struct flow_action_cookie'')]"

definition st_flow_block :: ty where
  "st_flow_block = TStruct ''flow_block'' False [
    Plain ''cb_list'' st_list_head]"

definition st_flowi_common :: ty where
  "st_flowi_common = TStruct ''flowi_common'' False [
    Plain ''flowic_oif'' (TInt I32 True),
    Plain ''flowic_iif'' (TInt I32 True),
    Plain ''flowic_l3mdev'' (TInt I32 True),
    Plain ''flowic_mark'' td___u32,
    Plain ''flowic_dscp'' td_dscp_t,
    Plain ''flowic_scope'' td___u8,
    Plain ''flowic_proto'' td___u8,
    Plain ''flowic_flags'' td___u8,
    Plain ''flowic_secid'' td___u32,
    Plain ''flowic_uid'' td_kuid_t,
    Plain ''flowic_multipath_hash'' td___u32,
    Plain ''flowic_tun_key'' st_flowi_tunnel]"

definition st_page :: ty where
  "st_page = TStruct ''page'' False [
    Plain ''flags'' td_memdesc_flags_t,
    Plain '''' (TUnion '''' False [
      Plain '''' (TStruct '''' False [
        Plain '''' (TUnion '''' False [
          Plain ''lru'' st_list_head,
          Plain ''buddy_list'' st_list_head,
          Plain ''pcp_list'' st_list_head,
          Plain ''pcp_llist'' st_llist_node]),
        Plain ''mapping'' (TPtr ''struct address_space''),
        Plain '''' (TUnion '''' False [
          Plain ''__folio_index'' (TInt I64 False),
          Plain ''share'' (TInt I64 False)]),
        Plain ''private'' (TInt I64 False)]),
      Plain '''' (TStruct '''' False [
        Plain ''pp_magic'' (TInt I64 False),
        Plain ''pp'' (TPtr ''struct page_pool''),
        Plain ''_pp_mapping_pad'' (TInt I64 False),
        Plain ''dma_addr'' (TInt I64 False),
        Plain ''pp_ref_count'' td_atomic_long_t]),
      Plain '''' (TStruct '''' False [
        Plain ''compound_head'' (TInt I64 False)]),
      Plain '''' (TStruct '''' False [
        Plain ''_unused_pgmap_compound_head'' (TPtr ''void''),
        Plain ''zone_device_data'' (TPtr ''void'')]),
      Plain ''callback_head'' st_callback_head]),
    Plain '''' (TUnion '''' False [
      Plain ''page_type'' (TInt I32 False),
      Plain ''_mapcount'' td_atomic_t]),
    Plain ''_refcount'' td_atomic_t,
    Plain ''memcg_data'' (TInt I64 False)]"

definition st_xregs_state :: ty where
  "st_xregs_state = TStruct ''xregs_state'' False [
    Plain ''i387'' st_fxregs_state,
    Plain ''header'' st_xstate_header,
    Plain ''extended_state_area'' (TArr td_u8 0)]"

definition st_rhlist_head :: ty where
  "st_rhlist_head = TStruct ''rhlist_head'' False [
    Plain ''rhead'' st_rhash_head,
    Plain ''next'' (TPtr ''struct rhlist_head'')]"

definition st_frag_v6_compare_key :: ty where
  "st_frag_v6_compare_key = TStruct ''frag_v6_compare_key'' False [
    Plain ''saddr'' st_in6_addr,
    Plain ''daddr'' st_in6_addr,
    Plain ''user'' td_u32,
    Plain ''id'' td___be32,
    Plain ''iif'' td_u32]"

definition st_free_area :: ty where
  "st_free_area = TStruct ''free_area'' False [
    Plain ''free_list'' (TArr st_list_head 6),
    Plain ''nr_free'' (TInt I64 False)]"

definition st_fs_quota_statv :: ty where
  "st_fs_quota_statv = TStruct ''fs_quota_statv'' False [
    Plain ''qs_version'' td___s8,
    Plain ''qs_pad1'' td___u8,
    Plain ''qs_flags'' td___u16,
    Plain ''qs_incoredqs'' td___u32,
    Plain ''qs_uquota'' st_fs_qfilestatv,
    Plain ''qs_gquota'' st_fs_qfilestatv,
    Plain ''qs_pquota'' st_fs_qfilestatv,
    Plain ''qs_btimelimit'' td___s32,
    Plain ''qs_itimelimit'' td___s32,
    Plain ''qs_rtbtimelimit'' td___s32,
    Plain ''qs_bwarnlimit'' td___u16,
    Plain ''qs_iwarnlimit'' td___u16,
    Plain ''qs_rtbwarnlimit'' td___u16,
    Plain ''qs_pad3'' td___u16,
    Plain ''qs_pad4'' td___u32,
    Plain ''qs_pad2'' (TArr td___u64 7)]"

definition st_trace_seq :: ty where
  "st_trace_seq = TStruct ''trace_seq'' False [
    Plain ''seq'' st_seq_buf,
    Plain ''readpos'' td_size_t,
    Plain ''full'' (TInt I32 True),
    Plain ''buffer'' (TArr (TInt I8 True) 8156)]"

definition st_ftrace_iterator :: ty where
  "st_ftrace_iterator = TStruct ''ftrace_iterator'' False [
    Plain ''pos'' td_loff_t,
    Plain ''func_pos'' td_loff_t,
    Plain ''mod_pos'' td_loff_t,
    Plain ''pg'' (TPtr ''struct ftrace_page''),
    Plain ''func'' (TPtr ''struct dyn_ftrace''),
    Plain ''probe'' (TPtr ''struct ftrace_func_probe''),
    Plain ''probe_entry'' (TPtr ''struct ftrace_func_entry''),
    Plain ''parser'' st_trace_parser,
    Plain ''hash'' (TPtr ''struct ftrace_hash''),
    Plain ''ops'' (TPtr ''struct ftrace_ops''),
    Plain ''tr'' (TPtr ''struct trace_array''),
    Plain ''mod_list'' (TPtr ''struct list_head''),
    Plain ''pidx'' (TInt I32 True),
    Plain ''idx'' (TInt I32 True),
    Plain ''flags'' (TInt I32 False)]"

definition st_fuse_args :: ty where
  "st_fuse_args = TStruct ''fuse_args'' False [
    Plain ''nodeid'' td_uint64_t,
    Plain ''opcode'' td_uint32_t,
    Plain ''in_numargs'' td_uint8_t,
    Plain ''out_numargs'' td_uint8_t,
    Plain ''ext_idx'' td_uint8_t,
    Bits ''force'' td_bool 1,
    Bits ''noreply'' td_bool 1,
    Bits ''nocreds'' td_bool 1,
    Bits ''in_pages'' td_bool 1,
    Bits ''out_pages'' td_bool 1,
    Bits ''user_pages'' td_bool 1,
    Bits ''out_argvar'' td_bool 1,
    Bits ''page_zeroing'' td_bool 1,
    Bits ''page_replace'' td_bool 1,
    Bits ''may_block'' td_bool 1,
    Bits ''is_ext'' td_bool 1,
    Bits ''is_pinned'' td_bool 1,
    Bits ''invalidate_vmap'' td_bool 1,
    Bits ''abort_on_kill'' td_bool 1,
    Plain ''in_args'' (TArr st_fuse_in_arg 4),
    Plain ''out_args'' (TArr st_fuse_arg 2),
    Plain ''end'' (TFun ''void (*)(struct fuse_mount *, struct fuse_args *, int)''),
    Plain ''vmap_base'' (TPtr ''void'')]"

definition st_fuse_forget_link :: ty where
  "st_fuse_forget_link = TStruct ''fuse_forget_link'' False [
    Plain ''forget_one'' st_fuse_forget_one,
    Plain ''next'' (TPtr ''struct fuse_forget_link'')]"

definition st_interval_tree_node :: ty where
  "st_interval_tree_node = TStruct ''interval_tree_node'' False [
    Plain ''rb'' st_rb_node,
    Plain ''start'' (TInt I64 False),
    Plain ''last'' (TInt I64 False),
    Plain ''__subtree_last'' (TInt I64 False)]"

definition st_fuse_statx :: ty where
  "st_fuse_statx = TStruct ''fuse_statx'' False [
    Plain ''mask'' td_uint32_t,
    Plain ''blksize'' td_uint32_t,
    Plain ''attributes'' td_uint64_t,
    Plain ''nlink'' td_uint32_t,
    Plain ''uid'' td_uint32_t,
    Plain ''gid'' td_uint32_t,
    Plain ''mode'' td_uint16_t,
    Plain ''__spare0'' (TArr td_uint16_t 1),
    Plain ''ino'' td_uint64_t,
    Plain ''size'' td_uint64_t,
    Plain ''blocks'' td_uint64_t,
    Plain ''attributes_mask'' td_uint64_t,
    Plain ''atime'' st_fuse_sx_time,
    Plain ''btime'' st_fuse_sx_time,
    Plain ''ctime'' st_fuse_sx_time,
    Plain ''mtime'' st_fuse_sx_time,
    Plain ''rdev_major'' td_uint32_t,
    Plain ''rdev_minor'' td_uint32_t,
    Plain ''dev_major'' td_uint32_t,
    Plain ''dev_minor'' td_uint32_t,
    Plain ''__spare2'' (TArr td_uint64_t 14)]"

definition st_pm_domain_data :: ty where
  "st_pm_domain_data = TStruct ''pm_domain_data'' False [
    Plain ''list_node'' st_list_head,
    Plain ''dev'' (TPtr ''struct device'')]"

definition st_ghcb :: ty where
  "st_ghcb = TStruct ''ghcb'' False [
    Plain ''save'' st_ghcb_save_area,
    Plain ''reserved_save'' (TArr td_u8 1016),
    Plain ''shared_buffer'' (TArr td_u8 2032),
    Plain ''reserved_0xff0'' (TArr td_u8 10),
    Plain ''protocol_version'' td_u16,
    Plain ''ghcb_usage'' td_u32]"

definition un_grant_entry_v2 :: ty where
  "un_grant_entry_v2 = TUnion ''grant_entry_v2'' False [
    Plain ''hdr'' st_grant_entry_header,
    Plain ''full_page'' (TStruct '''' False [
      Plain ''hdr'' st_grant_entry_header,
      Plain ''pad0'' td_uint32_t,
      Plain ''frame'' td_uint64_t]),
    Plain ''sub_page'' (TStruct '''' False [
      Plain ''hdr'' st_grant_entry_header,
      Plain ''page_off'' td_uint16_t,
      Plain ''length'' td_uint16_t,
      Plain ''frame'' td_uint64_t]),
    Plain ''transitive'' (TStruct '''' False [
      Plain ''hdr'' st_grant_entry_header,
      Plain ''trans_domid'' td_domid_t,
      Plain ''pad0'' td_uint16_t,
      Plain ''gref'' td_grant_ref_t]),
    Plain ''__spacer'' (TArr td_uint32_t 4)]"

definition st_group_filter :: ty where
  "st_group_filter = TStruct ''group_filter'' False [
    Plain '''' (TUnion '''' False [
      Plain '''' (TStruct '''' False [
        Plain ''gf_interface_aux'' td___u32,
        Plain ''gf_group_aux'' st___kernel_sockaddr_storage,
        Plain ''gf_fmode_aux'' td___u32,
        Plain ''gf_numsrc_aux'' td___u32,
        Plain ''gf_slist'' (TArr st___kernel_sockaddr_storage 1)]),
      Plain '''' (TStruct '''' False [
        Plain ''gf_interface'' td___u32,
        Plain ''gf_group'' st___kernel_sockaddr_storage,
        Plain ''gf_fmode'' td___u32,
        Plain ''gf_numsrc'' td___u32,
        Plain ''gf_slist_flex'' (TArr st___kernel_sockaddr_storage 0)])])]"

definition st_hid_report_enum :: ty where
  "st_hid_report_enum = TStruct ''hid_report_enum'' False [
    Plain ''numbered'' (TInt I32 False),
    Plain ''report_list'' st_list_head,
    Plain ''report_id_hash'' (TArr (TPtr ''struct hid_report'') 256)]"

definition st_hid_report :: ty where
  "st_hid_report = TStruct ''hid_report'' False [
    Plain ''list'' st_list_head,
    Plain ''hidinput_list'' st_list_head,
    Plain ''field_entry_list'' st_list_head,
    Plain ''id'' (TInt I32 False),
    Plain ''type'' (TEnum ''hid_report_type'' I32),
    Plain ''application'' (TInt I32 False),
    Plain ''field'' (TArr (TPtr ''struct hid_field'') 256),
    Plain ''field_entries'' (TPtr ''struct hid_field_entry''),
    Plain ''maxfield'' (TInt I32 False),
    Plain ''size'' (TInt I32 False),
    Plain ''device'' (TPtr ''struct hid_device''),
    Plain ''tool_active'' td_bool,
    Plain ''tool'' (TInt I32 False)]"

definition st_hist_field :: ty where
  "st_hist_field = TStruct ''hist_field'' False [
    Plain ''field'' (TPtr ''struct ftrace_event_field''),
    Plain ''flags'' (TInt I64 False),
    Plain ''buckets'' (TInt I64 False),
    Plain ''type'' (TPtr ''char''),
    Plain ''operands'' (TArr (TPtr ''struct hist_field'') 2),
    Plain ''hist_data'' (TPtr ''struct hist_trigger_data''),
    Plain ''fn_num'' (TEnum ''hist_field_fn'' I32),
    Plain ''ref'' (TInt I32 False),
    Plain ''size'' (TInt I32 False),
    Plain ''offset'' (TInt I32 False),
    Plain ''is_signed'' (TInt I32 False),
    Plain ''var'' st_hist_var,
    Plain ''operator'' (TEnum ''field_op_id'' I32),
    Plain ''system'' (TPtr ''char''),
    Plain ''event_name'' (TPtr ''char''),
    Plain ''name'' (TPtr ''char''),
    Plain ''var_ref_idx'' (TInt I32 False),
    Plain ''read_once'' td_bool,
    Plain ''var_str_idx'' (TInt I32 False),
    Plain ''constant'' td_u64,
    Plain ''div_multiplier'' td_u64]"

definition st_hist_trigger_attrs :: ty where
  "st_hist_trigger_attrs = TStruct ''hist_trigger_attrs'' False [
    Plain ''keys_str'' (TPtr ''char''),
    Plain ''vals_str'' (TPtr ''char''),
    Plain ''sort_key_str'' (TPtr ''char''),
    Plain ''name'' (TPtr ''char''),
    Plain ''clock'' (TPtr ''char''),
    Plain ''pause'' td_bool,
    Plain ''cont'' td_bool,
    Plain ''clear'' td_bool,
    Plain ''ts_in_usecs'' td_bool,
    Plain ''no_hitcount'' td_bool,
    Plain ''map_bits'' (TInt I32 False),
    Plain ''assignment_str'' (TArr (TPtr ''char'') 16),
    Plain ''n_assignments'' (TInt I32 False),
    Plain ''action_str'' (TArr (TPtr ''char'') 8),
    Plain ''n_actions'' (TInt I32 False),
    Plain ''var_defs'' st_var_defs]"

definition st_hist_trigger_data :: ty where
  "st_hist_trigger_data = TStruct ''hist_trigger_data'' False [
    Plain ''fields'' (TArr (TPtr ''struct hist_field'') 22),
    Plain ''n_vals'' (TInt I32 False),
    Plain ''n_keys'' (TInt I32 False),
    Plain ''n_fields'' (TInt I32 False),
    Plain ''n_vars'' (TInt I32 False),
    Plain ''n_var_str'' (TInt I32 False),
    Plain ''key_size'' (TInt I32 False),
    Plain ''sort_keys'' (TArr st_tracing_map_sort_key 2),
    Plain ''n_sort_keys'' (TInt I32 False),
    Plain ''event_file'' (TPtr ''struct trace_event_file''),
    Plain ''attrs'' (TPtr ''struct hist_trigger_attrs''),
    Plain ''map'' (TPtr ''struct tracing_map''),
    Plain ''enable_timestamps'' td_bool,
    Plain ''remove'' td_bool,
    Plain ''var_refs'' (TArr (TPtr ''struct hist_field'') 16),
    Plain ''n_var_refs'' (TInt I32 False),
    Plain ''actions'' (TArr (TPtr ''struct action_data'') 8),
    Plain ''n_actions'' (TInt I32 False),
    Plain ''field_vars'' (TArr (TPtr ''struct field_var'') 64),
    Plain ''n_field_vars'' (TInt I32 False),
    Plain ''n_field_var_str'' (TInt I32 False),
    Plain ''field_var_hists'' (TArr (TPtr ''struct field_var_hist'') 64),
    Plain ''n_field_var_hists'' (TInt I32 False),
    Plain ''save_vars'' (TArr (TPtr ''struct field_var'') 64),
    Plain ''n_save_vars'' (TInt I32 False),
    Plain ''n_save_var_str'' (TInt I32 False)]"

definition st_hpet :: ty where
  "st_hpet = TStruct ''hpet'' False [
    Plain ''hpet_cap'' td_u64,
    Plain ''res0'' td_u64,
    Plain ''hpet_config'' td_u64,
    Plain ''res1'' td_u64,
    Plain ''hpet_isr'' td_u64,
    Plain ''res2'' (TArr td_u64 25),
    Plain ''_u0'' (TUnion '''' False [
      Plain ''_hpet_mc64'' td_u64,
      Plain ''_hpet_mc32'' td_u32,
      Plain ''_hpet_mc'' (TInt I64 False)]),
    Plain ''res3'' td_u64,
    Plain ''hpet_timers'' (TArr st_hpet_timer 0)]"

definition st_hte_ts_desc :: ty where
  "st_hte_ts_desc = TStruct ''hte_ts_desc'' False [
    Plain ''attr'' st_hte_line_attr,
    Plain ''hte_data'' (TPtr ''void'')]"

definition st_hv_crash_ctxt :: ty where
  "st_hv_crash_ctxt = TStruct ''hv_crash_ctxt'' False [
    Plain ''rsp'' td_ulong,
    Plain ''cr0'' td_ulong,
    Plain ''cr2'' td_ulong,
    Plain ''cr4'' td_ulong,
    Plain ''cr8'' td_ulong,
    Plain ''cs'' td_u16,
    Plain ''ss'' td_u16,
    Plain ''ds'' td_u16,
    Plain ''es'' td_u16,
    Plain ''fs'' td_u16,
    Plain ''gs'' td_u16,
    Plain ''gdt_fill'' td_u16,
    Plain ''gdtr'' st_desc_ptr,
    Plain ''idt_fill'' (TArr (TInt I8 True) 6),
    Plain ''idtr'' st_desc_ptr,
    Plain ''gsbase'' td_u64,
    Plain ''efer'' td_u64,
    Plain ''pat'' td_u64]"

definition un_hv_device_id :: ty where
  "un_hv_device_id = TUnion ''hv_device_id'' False [
    Plain ''as_uint64'' td_u64,
    Plain '''' (TStruct '''' False [
      Bits ''reserved0'' td_u64 62,
      Bits ''device_type'' td_u64 2]),
    Plain ''logical'' (TStruct '''' False [
      Bits ''id'' td_u64 62,
      Bits ''device_type'' td_u64 2]),
    Plain ''pci'' (TStruct '''' False [
      Plain '''' (TUnion '''' False [
        Plain ''rid'' td_hv_pci_rid,
        Plain ''bdf'' un_hv_pci_bdf]),
      Plain ''segment'' td_hv_pci_segment,
      Plain ''shadow_bus_range'' un_hv_pci_bus_range,
      Bits ''phantom_function_bits'' td_u16 2,
      Bits ''source_shadow'' td_u16 1,
      Bits ''rsvdz0'' td_u16 11,
      Bits ''device_type'' td_u16 2]),
    Plain ''ioapic'' (TStruct '''' False [
      Plain ''ioapic_id'' td_u8,
      Plain ''rsvdz0'' td_u8,
      Plain ''rsvdz1'' td_u16,
      Plain ''rsvdz2'' td_u16,
      Bits ''rsvdz3'' td_u16 14,
      Bits ''device_type'' td_u16 2]),
    Plain ''acpi'' (TStruct '''' False [
      Plain ''input_mapping_base'' td_u32,
      Bits ''input_mapping_count'' td_u32 30,
      Bits ''device_type'' td_u32 2])]"

definition st_hv_init_vp_context :: ty where
  "st_hv_init_vp_context = TStruct ''hv_init_vp_context'' False [
    Plain ''rip'' td_u64,
    Plain ''rsp'' td_u64,
    Plain ''rflags'' td_u64,
    Plain ''cs'' st_hv_x64_segment_register,
    Plain ''ds'' st_hv_x64_segment_register,
    Plain ''es'' st_hv_x64_segment_register,
    Plain ''fs'' st_hv_x64_segment_register,
    Plain ''gs'' st_hv_x64_segment_register,
    Plain ''ss'' st_hv_x64_segment_register,
    Plain ''tr'' st_hv_x64_segment_register,
    Plain ''ldtr'' st_hv_x64_segment_register,
    Plain ''idtr'' st_hv_x64_table_register,
    Plain ''gdtr'' st_hv_x64_table_register,
    Plain ''efer'' td_u64,
    Plain ''cr0'' td_u64,
    Plain ''cr3'' td_u64,
    Plain ''cr4'' td_u64,
    Plain ''msr_cr_pat'' td_u64]"

definition st_hv_vp_assist_page :: ty where
  "st_hv_vp_assist_page = TStruct ''hv_vp_assist_page'' False [
    Plain ''apic_assist'' td_u32,
    Plain ''reserved1'' td_u32,
    Plain ''vtl_entry_reason'' td_u32,
    Plain ''vtl_reserved'' td_u32,
    Plain ''vtl_ret_x64rax'' td_u64,
    Plain ''vtl_ret_x64rcx'' td_u64,
    Plain ''nested_control'' st_hv_nested_enlightenments_control,
    Plain ''enlighten_vmentry'' td_u8,
    Plain ''reserved2'' (TArr td_u8 7),
    Plain ''current_nested_vmcs'' td_u64,
    Plain ''synthetic_time_unhalted_timer_expired'' td_u8,
    Plain ''reserved3'' (TArr td_u8 7),
    Plain ''virtualization_fault_information'' (TArr td_u8 40),
    Plain ''reserved4'' (TArr td_u8 8),
    Plain ''intercept_message'' (TArr td_u8 256),
    Plain ''vtl_ret_actions'' (TArr td_u8 256)]"

definition st_iattr :: ty where
  "st_iattr = TStruct ''iattr'' False [
    Plain ''ia_valid'' (TInt I32 False),
    Plain ''ia_mode'' td_umode_t,
    Plain '''' (TUnion '''' False [
      Plain ''ia_uid'' td_kuid_t,
      Plain ''ia_vfsuid'' td_vfsuid_t]),
    Plain '''' (TUnion '''' False [
      Plain ''ia_gid'' td_kgid_t,
      Plain ''ia_vfsgid'' td_vfsgid_t]),
    Plain ''ia_size'' td_loff_t,
    Plain ''ia_atime'' st_timespec64,
    Plain ''ia_mtime'' st_timespec64,
    Plain ''ia_ctime'' st_timespec64,
    Plain ''ia_file'' (TPtr ''struct file'')]"

definition st_irq_poll :: ty where
  "st_irq_poll = TStruct ''irq_poll'' False [
    Plain ''list'' st_list_head,
    Plain ''state'' (TInt I64 False),
    Plain ''weight'' (TInt I32 True),
    Plain ''poll'' (TPtr ''irq_poll_fn'')]"

definition st_ib_device_attr :: ty where
  "st_ib_device_attr = TStruct ''ib_device_attr'' False [
    Plain ''fw_ver'' td_u64,
    Plain ''sys_image_guid'' td___be64,
    Plain ''max_mr_size'' td_u64,
    Plain ''page_size_cap'' td_u64,
    Plain ''vendor_id'' td_u32,
    Plain ''vendor_part_id'' td_u32,
    Plain ''hw_ver'' td_u32,
    Plain ''max_qp'' (TInt I32 True),
    Plain ''max_qp_wr'' (TInt I32 True),
    Plain ''device_cap_flags'' td_u64,
    Plain ''kernel_cap_flags'' td_u64,
    Plain ''max_send_sge'' (TInt I32 True),
    Plain ''max_recv_sge'' (TInt I32 True),
    Plain ''max_sge_rd'' (TInt I32 True),
    Plain ''max_cq'' (TInt I32 True),
    Plain ''max_cqe'' (TInt I32 True),
    Plain ''max_mr'' (TInt I32 True),
    Plain ''max_pd'' (TInt I32 True),
    Plain ''max_qp_rd_atom'' (TInt I32 True),
    Plain ''max_ee_rd_atom'' (TInt I32 True),
    Plain ''max_res_rd_atom'' (TInt I32 True),
    Plain ''max_qp_init_rd_atom'' (TInt I32 True),
    Plain ''max_ee_init_rd_atom'' (TInt I32 True),
    Plain ''atomic_cap'' (TEnum ''ib_atomic_cap'' I32),
    Plain ''masked_atomic_cap'' (TEnum ''ib_atomic_cap'' I32),
    Plain ''max_ee'' (TInt I32 True),
    Plain ''max_rdd'' (TInt I32 True),
    Plain ''max_mw'' (TInt I32 True),
    Plain ''max_raw_ipv6_qp'' (TInt I32 True),
    Plain ''max_raw_ethy_qp'' (TInt I32 True),
    Plain ''max_mcast_grp'' (TInt I32 True),
    Plain ''max_mcast_qp_attach'' (TInt I32 True),
    Plain ''max_total_mcast_qp_attach'' (TInt I32 True),
    Plain ''max_ah'' (TInt I32 True),
    Plain ''max_srq'' (TInt I32 True),
    Plain ''max_srq_wr'' (TInt I32 True),
    Plain ''max_srq_sge'' (TInt I32 True),
    Plain ''max_fast_reg_page_list_len'' (TInt I32 False),
    Plain ''max_pi_fast_reg_page_list_len'' (TInt I32 False),
    Plain ''max_pkeys'' td_u16,
    Plain ''local_ca_ack_delay'' td_u8,
    Plain ''sig_prot_cap'' (TInt I32 True),
    Plain ''sig_guard_cap'' (TInt I32 True),
    Plain ''odp_caps'' st_ib_odp_caps,
    Plain ''timestamp_mask'' td_uint64_t,
    Plain ''hca_core_clock'' td_uint64_t,
    Plain ''rss_caps'' st_ib_rss_caps,
    Plain ''max_wq_type_rq'' td_u32,
    Plain ''raw_packet_caps'' td_u32,
    Plain ''tm_caps'' st_ib_tm_caps,
    Plain ''cq_caps'' st_ib_cq_caps,
    Plain ''max_dm_size'' td_u64,
    Plain ''max_sgl_rd'' td_u32]"

definition st_ib_srq_init_attr :: ty where
  "st_ib_srq_init_attr = TStruct ''ib_srq_init_attr'' False [
    Plain ''event_handler'' (TFun ''void (*)(struct ib_event *, void *)''),
    Plain ''srq_context'' (TPtr ''void''),
    Plain ''attr'' st_ib_srq_attr,
    Plain ''srq_type'' (TEnum ''ib_srq_type'' I32),
    Plain ''ext'' (TStruct '''' False [
      Plain ''cq'' (TPtr ''struct ib_cq''),
      Plain '''' (TUnion '''' False [
        Plain ''xrc'' (TStruct '''' False [
          Plain ''xrcd'' (TPtr ''struct ib_xrcd'')]),
        Plain ''tag_matching'' (TStruct '''' False [
          Plain ''max_num_tags'' td_u32])])])]"

definition st_icc_node :: ty where
  "st_icc_node = TStruct ''icc_node'' False [
    Plain ''id'' (TInt I32 True),
    Plain ''name'' (TPtr ''char''),
    Plain ''links'' (TPtr ''struct icc_node *''),
    Plain ''num_links'' td_size_t,
    Plain ''provider'' (TPtr ''struct icc_provider''),
    Plain ''node_list'' st_list_head,
    Plain ''search_list'' st_list_head,
    Plain ''reverse'' (TPtr ''struct icc_node''),
    Bits ''is_traversed'' td_u8 1,
    Plain ''req_list'' st_hlist_head,
    Plain ''avg_bw'' td_u32,
    Plain ''peak_bw'' td_u32,
    Plain ''init_avg'' td_u32,
    Plain ''init_peak'' td_u32,
    Plain ''data'' (TPtr ''void'')]"

end
