(* ===== verification/VmlinuxStruct6.thy ===== *)
theory VmlinuxStruct6
  imports VmlinuxStruct1 VmlinuxStruct2 VmlinuxStruct3 VmlinuxStruct4
begin

text \<open>
  Structures and unions of \<open>src/internal/ebpf/vmlinux.h\<close> (aggregates nested 1 deep), in the
  order of the header: \<open>st_<tag>\<close>, \<open>un_<tag>\<close>, and \<open>td_<name>\<close> for an aggregate with a type name.
\<close>

definition st_icmp_ext_echo_iio :: ty where
  "st_icmp_ext_echo_iio = TStruct ''icmp_ext_echo_iio'' False [
    Plain ''extobj_hdr'' st_icmp_extobj_hdr,
    Plain ''ident'' (TUnion '''' False [
      Plain ''name'' (TArr (TInt I8 True) 16),
      Plain ''ifindex'' td___be32,
      Plain ''addr'' (TStruct '''' False [
        Plain ''ctype3_hdr'' st_icmp_ext_echo_ctype3_hdr,
        Plain ''ip_addr'' (TUnion '''' False [
          Plain ''ipv4_addr'' td___be32,
          Plain ''ipv6_addr'' st_in6_addr])])])]"

definition st_ifreq :: ty where
  "st_ifreq = TStruct ''ifreq'' False [
    Plain ''ifr_ifrn'' (TUnion '''' False [
      Plain ''ifrn_name'' (TArr (TInt I8 True) 16)]),
    Plain ''ifr_ifru'' (TUnion '''' False [
      Plain ''ifru_addr'' st_sockaddr,
      Plain ''ifru_dstaddr'' st_sockaddr,
      Plain ''ifru_broadaddr'' st_sockaddr,
      Plain ''ifru_netmask'' st_sockaddr,
      Plain ''ifru_hwaddr'' st_sockaddr,
      Plain ''ifru_flags'' (TInt I16 True),
      Plain ''ifru_ivalue'' (TInt I32 True),
      Plain ''ifru_mtu'' (TInt I32 True),
      Plain ''ifru_map'' st_ifmap,
      Plain ''ifru_slave'' (TArr (TInt I8 True) 16),
      Plain ''ifru_newname'' (TArr (TInt I8 True) 16),
      Plain ''ifru_data'' (TPtr ''void''),
      Plain ''ifru_settings'' st_if_settings])]"

definition st_ima_digest_data :: ty where
  "st_ima_digest_data = TStruct ''ima_digest_data'' False [
    Plain '''' (TUnion '''' False [
      Plain '''' (TStruct '''' False [
        Plain ''algo'' td_u8,
        Plain ''length'' td_u8,
        Plain ''xattr'' (TUnion '''' False [
          Plain ''sha1'' (TStruct '''' False [
            Plain ''unused'' td_u8,
            Plain ''type'' td_u8]),
          Plain ''ng'' (TStruct '''' False [
            Plain ''type'' td_u8,
            Plain ''algo'' td_u8]),
          Plain ''data'' (TArr td_u8 2)])]),
      Plain ''hdr'' st_ima_digest_data_hdr]),
    Plain ''digest'' (TArr td_u8 0)]"

definition st_ima_rule_entry :: ty where
  "st_ima_rule_entry = TStruct ''ima_rule_entry'' False [
    Plain ''list'' st_list_head,
    Plain ''action'' (TInt I32 True),
    Plain ''flags'' (TInt I32 False),
    Plain ''func'' (TEnum ''ima_hooks'' I32),
    Plain ''mask'' (TInt I32 True),
    Plain ''fsmagic'' (TInt I64 False),
    Plain ''fsuuid'' td_uuid_t,
    Plain ''uid'' td_kuid_t,
    Plain ''gid'' td_kgid_t,
    Plain ''fowner'' td_kuid_t,
    Plain ''fgroup'' td_kgid_t,
    Plain ''uid_op'' (TFun ''bool (*)(kuid_t, kuid_t)''),
    Plain ''gid_op'' (TFun ''bool (*)(kgid_t, kgid_t)''),
    Plain ''fowner_op'' (TFun ''bool (*)(vfsuid_t, kuid_t)''),
    Plain ''fgroup_op'' (TFun ''bool (*)(vfsgid_t, kgid_t)''),
    Plain ''pcr'' (TInt I32 True),
    Plain ''allowed_algos'' (TInt I32 False),
    Plain ''lsm'' (TArr (TStruct '''' False [
      Plain ''rule'' (TPtr ''void''),
      Plain ''args_p'' (TPtr ''char''),
      Plain ''type'' (TInt I32 True)]) 6),
    Plain ''fsname'' (TPtr ''char''),
    Plain ''fs_subtype'' (TPtr ''char''),
    Plain ''keyrings'' (TPtr ''struct ima_rule_opt_list''),
    Plain ''label'' (TPtr ''struct ima_rule_opt_list''),
    Plain ''template'' (TPtr ''struct ima_template_desc'')]"

definition st_in6_pktinfo :: ty where
  "st_in6_pktinfo = TStruct ''in6_pktinfo'' False [
    Plain ''ipi6_addr'' st_in6_addr,
    Plain ''ipi6_ifindex'' (TInt I32 True)]"

definition st_in_ifaddr :: ty where
  "st_in_ifaddr = TStruct ''in_ifaddr'' False [
    Plain ''addr_lst'' st_hlist_node,
    Plain ''ifa_next'' (TPtr ''struct in_ifaddr''),
    Plain ''ifa_dev'' (TPtr ''struct in_device''),
    Plain ''callback_head'' st_callback_head,
    Plain ''ifa_local'' td___be32,
    Plain ''ifa_address'' td___be32,
    Plain ''ifa_mask'' td___be32,
    Plain ''ifa_rt_priority'' td___u32,
    Plain ''ifa_broadcast'' td___be32,
    Plain ''ifa_scope'' (TInt I8 False),
    Plain ''ifa_prefixlen'' (TInt I8 False),
    Plain ''ifa_proto'' (TInt I8 False),
    Plain ''ifa_flags'' td___u32,
    Plain ''ifa_label'' (TArr (TInt I8 True) 16),
    Plain ''ifa_valid_lft'' td___u32,
    Plain ''ifa_preferred_lft'' td___u32,
    Plain ''ifa_cstamp'' (TInt I64 False),
    Plain ''ifa_tstamp'' (TInt I64 False)]"

definition st_ipv6_stable_secret :: ty where
  "st_ipv6_stable_secret = TStruct ''ipv6_stable_secret'' False [
    Plain ''initialized'' td_bool,
    Plain ''secret'' st_in6_addr]"

definition un_inet_addr :: ty where
  "un_inet_addr = TUnion ''inet_addr'' False [
    Plain ''ip'' td___be32,
    Plain ''in6'' st_in6_addr]"

definition st_inet_bind_bucket :: ty where
  "st_inet_bind_bucket = TStruct ''inet_bind_bucket'' False [
    Plain ''ib_net'' td_possible_net_t,
    Plain ''l3mdev'' (TInt I32 True),
    Plain ''port'' (TInt I16 False),
    Plain ''fastreuse'' (TInt I8 True),
    Plain ''fastreuseport'' (TInt I8 True),
    Plain ''fastuid'' td_kuid_t,
    Plain ''fast_v6_rcv_saddr'' st_in6_addr,
    Plain ''fast_rcv_saddr'' td___be32,
    Plain ''fast_sk_family'' (TInt I16 False),
    Plain ''fast_ipv6_only'' td_bool,
    Plain ''node'' st_hlist_node,
    Plain ''bhash2'' st_hlist_head,
    Plain ''rcu'' st_callback_head]"

definition st_inetpeer_addr :: ty where
  "st_inetpeer_addr = TStruct ''inetpeer_addr'' False [
    Plain '''' (TUnion '''' False [
      Plain ''a4'' st_ipv4_addr_key,
      Plain ''a6'' st_in6_addr,
      Plain ''key'' (TArr td_u32 4)]),
    Plain ''family'' td___u16]"

definition st_inet_skb_parm :: ty where
  "st_inet_skb_parm = TStruct ''inet_skb_parm'' False [
    Plain ''iif'' (TInt I32 True),
    Plain ''opt'' st_ip_options,
    Plain ''flags'' td_u16,
    Plain ''frag_max_size'' td_u16]"

definition st_intel_uncore_type :: ty where
  "st_intel_uncore_type = TStruct ''intel_uncore_type'' False [
    Plain ''name'' (TPtr ''char''),
    Plain ''num_counters'' (TInt I32 True),
    Plain ''num_boxes'' (TInt I32 True),
    Plain ''perf_ctr_bits'' (TInt I32 True),
    Plain ''fixed_ctr_bits'' (TInt I32 True),
    Plain ''num_freerunning_types'' (TInt I32 True),
    Plain ''type_id'' (TInt I32 True),
    Plain ''perf_ctr'' (TInt I32 False),
    Plain ''event_ctl'' (TInt I32 False),
    Plain ''event_mask'' (TInt I32 False),
    Plain ''event_mask_ext'' (TInt I32 False),
    Plain ''fixed_ctr'' (TInt I32 False),
    Plain ''fixed_ctl'' (TInt I32 False),
    Plain ''box_ctl'' (TInt I32 False),
    Plain '''' (TUnion '''' False [
      Plain ''msr_offset'' (TInt I32 False),
      Plain ''mmio_offset'' (TInt I32 False)]),
    Plain ''mmio_map_size'' (TInt I32 False),
    Bits ''num_shared_regs'' (TInt I32 False) 8,
    Bits ''single_fixed'' (TInt I32 False) 1,
    Bits ''pair_ctr_ctl'' (TInt I32 False) 1,
    Plain '''' (TUnion '''' False [
      Plain ''msr_offsets'' (TPtr ''u64''),
      Plain ''pci_offsets'' (TPtr ''u64''),
      Plain ''mmio_offsets'' (TPtr ''u64'')]),
    Plain ''unconstrainted'' st_event_constraint,
    Plain ''constraints'' (TPtr ''struct event_constraint''),
    Plain ''pmus'' (TPtr ''struct intel_uncore_pmu''),
    Plain ''ops'' (TPtr ''struct intel_uncore_ops''),
    Plain ''event_descs'' (TPtr ''struct uncore_event_desc''),
    Plain ''freerunning'' (TPtr ''struct freerunning_counters''),
    Plain ''attr_groups'' (TArr (TPtr ''struct attribute_group'') 4),
    Plain ''attr_update'' (TPtr ''struct attribute_group *''),
    Plain ''pmu'' (TPtr ''struct pmu''),
    Plain ''boxes'' (TPtr ''struct rb_root''),
    Plain ''topology'' (TPtr ''struct intel_uncore_topology *''),
    Plain ''get_topology'' (TFun ''int (*)(struct intel_uncore_type *)''),
    Plain ''set_mapping'' (TFun ''void (*)(struct intel_uncore_type *)''),
    Plain ''cleanup_mapping'' (TFun ''void (*)(struct intel_uncore_type *)''),
    Plain ''cleanup_extra_boxes'' (TFun ''void (*)(struct intel_uncore_type *)'')]"

definition st_io_meta_state :: ty where
  "st_io_meta_state = TStruct ''io_meta_state'' False [
    Plain ''seed'' td_u32,
    Plain ''iter_meta'' st_iov_iter_state]"

definition st_io_file_table :: ty where
  "st_io_file_table = TStruct ''io_file_table'' False [
    Plain ''data'' st_io_rsrc_data,
    Plain ''bitmap'' (TPtr ''long unsigned int''),
    Plain ''alloc_hint'' (TInt I32 False)]"

definition st_io_task_work :: ty where
  "st_io_task_work = TStruct ''io_task_work'' False [
    Plain ''node'' st_llist_node,
    Plain ''func'' td_io_req_tw_func_t]"

definition st_io_wq_work :: ty where
  "st_io_wq_work = TStruct ''io_wq_work'' False [
    Plain ''list'' st_io_wq_work_node,
    Plain ''flags'' td_atomic_t,
    Plain ''cancel_seq'' (TInt I32 True)]"

definition st_io_msg :: ty where
  "st_io_msg = TStruct ''io_msg'' False [
    Plain ''file'' (TPtr ''struct file''),
    Plain ''src_file'' (TPtr ''struct file''),
    Plain ''tw'' st_callback_head,
    Plain ''user_data'' td_u64,
    Plain ''len'' td_u32,
    Plain ''cmd'' td_u32,
    Plain ''src_fd'' td_u32,
    Plain '''' (TUnion '''' False [
      Plain ''dst_fd'' td_u32,
      Plain ''cqe_flags'' td_u32]),
    Plain ''flags'' td_u32]"

definition st_io_rings :: ty where
  "st_io_rings = TStruct ''io_rings'' False [
    Plain ''sq'' st_io_uring,
    Plain ''cq'' st_io_uring,
    Plain ''sq_ring_mask'' td_u32,
    Plain ''cq_ring_mask'' td_u32,
    Plain ''sq_ring_entries'' td_u32,
    Plain ''cq_ring_entries'' td_u32,
    Plain ''sq_dropped'' td_u32,
    Plain ''sq_flags'' td_atomic_t,
    Plain ''cq_flags'' td_u32,
    Plain ''cq_overflow'' td_u32,
    Bits '''' (TInt I64 True) 64,
    Bits '''' (TInt I64 True) 64,
    Plain ''cqes'' (TArr st_io_uring_cqe 0)]"

definition st_io_tlb_pool :: ty where
  "st_io_tlb_pool = TStruct ''io_tlb_pool'' False [
    Plain ''start'' td_phys_addr_t,
    Plain ''end'' td_phys_addr_t,
    Plain ''vaddr'' (TPtr ''void''),
    Plain ''nslabs'' (TInt I64 False),
    Plain ''late_alloc'' td_bool,
    Plain ''nareas'' (TInt I32 False),
    Plain ''area_nslabs'' (TInt I32 False),
    Plain ''areas'' (TPtr ''struct io_tlb_area''),
    Plain ''slots'' (TPtr ''struct io_tlb_slot''),
    Plain ''node'' st_list_head,
    Plain ''rcu'' st_callback_head,
    Plain ''transient'' td_bool]"

definition st_io_uring_buf_ring :: ty where
  "st_io_uring_buf_ring = TStruct ''io_uring_buf_ring'' False [
    Plain '''' (TUnion '''' False [
      Plain '''' (TStruct '''' False [
        Plain ''resv1'' td___u64,
        Plain ''resv2'' td___u32,
        Plain ''resv3'' td___u16,
        Plain ''tail'' td___u16]),
      Plain '''' (TStruct '''' False [
        Plain ''__empty_bufs'' (TStruct '''' False []),
        Plain ''bufs'' (TArr st_io_uring_buf 0)])])]"

definition st_io_zcrx_mem :: ty where
  "st_io_zcrx_mem = TStruct ''io_zcrx_mem'' False [
    Plain ''size'' (TInt I64 False),
    Plain ''is_dmabuf'' td_bool,
    Plain ''pages'' (TPtr ''struct page *''),
    Plain ''nr_folios'' (TInt I64 False),
    Plain ''page_sg_table'' st_sg_table,
    Plain ''account_pages'' (TInt I64 False),
    Plain ''sgt'' (TPtr ''struct sg_table''),
    Plain ''attach'' (TPtr ''struct dma_buf_attachment''),
    Plain ''dmabuf'' (TPtr ''struct dma_buf'')]"

definition st_ip6_flowlabel :: ty where
  "st_ip6_flowlabel = TStruct ''ip6_flowlabel'' False [
    Plain ''next'' (TPtr ''struct ip6_flowlabel''),
    Plain ''label'' td___be32,
    Plain ''users'' td_atomic_t,
    Plain ''dst'' st_in6_addr,
    Plain ''opt'' (TPtr ''struct ipv6_txoptions''),
    Plain ''linger'' (TInt I64 False),
    Plain ''rcu'' st_callback_head,
    Plain ''share'' td_u8,
    Plain ''owner'' (TUnion '''' False [
      Plain ''pid'' (TPtr ''struct pid''),
      Plain ''uid'' td_kuid_t]),
    Plain ''lastuse'' (TInt I64 False),
    Plain ''expires'' (TInt I64 False),
    Plain ''fl_net'' (TPtr ''struct net'')]"

definition st_ip_tunnel_parm_kern :: ty where
  "st_ip_tunnel_parm_kern = TStruct ''ip_tunnel_parm_kern'' False [
    Plain ''name'' (TArr (TInt I8 True) 16),
    Plain ''i_flags'' (TArr (TInt I64 False) 1),
    Plain ''o_flags'' (TArr (TInt I64 False) 1),
    Plain ''i_key'' td___be32,
    Plain ''o_key'' td___be32,
    Plain ''link'' (TInt I32 True),
    Plain ''iph'' st_iphdr]"

definition st_ip_tunnel_6rd_parm :: ty where
  "st_ip_tunnel_6rd_parm = TStruct ''ip_tunnel_6rd_parm'' False [
    Plain ''prefix'' st_in6_addr,
    Plain ''relay_prefix'' td___be32,
    Plain ''prefixlen'' td_u16,
    Plain ''relay_prefixlen'' td_u16]"

definition st_ip_tunnel_fan :: ty where
  "st_ip_tunnel_fan = TStruct ''ip_tunnel_fan'' False [
    Plain ''fan_maps'' st_list_head]"

definition st_ip_tunnel_key :: ty where
  "st_ip_tunnel_key = TStruct ''ip_tunnel_key'' False [
    Plain ''tun_id'' td___be64,
    Plain ''u'' (TUnion '''' False [
      Plain ''ipv4'' (TStruct '''' False [
        Plain ''src'' td___be32,
        Plain ''dst'' td___be32]),
      Plain ''ipv6'' (TStruct '''' False [
        Plain ''src'' st_in6_addr,
        Plain ''dst'' st_in6_addr])]),
    Plain ''tun_flags'' (TArr (TInt I64 False) 1),
    Plain ''label'' td___be32,
    Plain ''nhid'' td_u32,
    Plain ''tos'' td_u8,
    Plain ''ttl'' td_u8,
    Plain ''tp_src'' td___be16,
    Plain ''tp_dst'' td___be16,
    Plain ''flow_flags'' td___u8]"

definition st_ipv6_rpl_sr_hdr :: ty where
  "st_ipv6_rpl_sr_hdr = TStruct ''ipv6_rpl_sr_hdr'' False [
    Plain ''nexthdr'' td___u8,
    Plain ''hdrlen'' td___u8,
    Plain ''type'' td___u8,
    Plain ''segments_left'' td___u8,
    Bits ''cmpre'' td___u32 4,
    Bits ''cmpri'' td___u32 4,
    Bits ''reserved'' td___u32 4,
    Bits ''pad'' td___u32 4,
    Bits ''reserved1'' td___u32 16,
    Plain ''segments'' (TUnion '''' False [
      Plain '''' (TStruct '''' False [
        Plain ''__empty_addr'' (TStruct '''' False []),
        Plain ''addr'' (TArr st_in6_addr 0)]),
      Plain '''' (TStruct '''' False [
        Plain ''__empty_data'' (TStruct '''' False []),
        Plain ''data'' (TArr td___u8 0)])])]"

definition st_ipv6hdr :: ty where
  "st_ipv6hdr = TStruct ''ipv6hdr'' False [
    Bits ''priority'' td___u8 4,
    Bits ''version'' td___u8 4,
    Plain ''flow_lbl'' (TArr td___u8 3),
    Plain ''payload_len'' td___be16,
    Plain ''nexthdr'' td___u8,
    Plain ''hop_limit'' td___u8,
    Plain '''' (TUnion '''' False [
      Plain '''' (TStruct '''' False [
        Plain ''saddr'' st_in6_addr,
        Plain ''daddr'' st_in6_addr]),
      Plain ''addrs'' (TStruct '''' False [
        Plain ''saddr'' st_in6_addr,
        Plain ''daddr'' st_in6_addr])])]"

definition st_irq_routing_table :: ty where
  "st_irq_routing_table = TStruct ''irq_routing_table'' False [
    Plain ''signature'' td_u32,
    Plain ''version'' td_u16,
    Plain ''size'' td_u16,
    Plain ''rtr_bus'' td_u8,
    Plain ''rtr_devfn'' td_u8,
    Plain ''exclusive_irqs'' td_u16,
    Plain ''rtr_vendor'' td_u16,
    Plain ''rtr_device'' td_u16,
    Plain ''miniport_data'' td_u32,
    Plain ''rfu'' (TArr td_u8 11),
    Plain ''checksum'' td_u8,
    Plain ''slots'' (TArr st_irq_info 0)]"

definition un_iwreq_data :: ty where
  "un_iwreq_data = TUnion ''iwreq_data'' False [
    Plain ''name'' (TArr (TInt I8 True) 16),
    Plain ''essid'' st_iw_point,
    Plain ''nwid'' st_iw_param,
    Plain ''freq'' st_iw_freq,
    Plain ''sens'' st_iw_param,
    Plain ''bitrate'' st_iw_param,
    Plain ''txpower'' st_iw_param,
    Plain ''rts'' st_iw_param,
    Plain ''frag'' st_iw_param,
    Plain ''mode'' td___u32,
    Plain ''retry'' st_iw_param,
    Plain ''encoding'' st_iw_point,
    Plain ''power'' st_iw_param,
    Plain ''qual'' st_iw_quality,
    Plain ''ap_addr'' st_sockaddr,
    Plain ''addr'' st_sockaddr,
    Plain ''param'' st_iw_param,
    Plain ''data'' st_iw_point]"

definition td_journal_header_t :: ty where
  "td_journal_header_t = st_journal_header_s"

definition st_kernfs_elem_dir :: ty where
  "st_kernfs_elem_dir = TStruct ''kernfs_elem_dir'' False [
    Plain ''subdirs'' (TInt I64 False),
    Plain ''children'' st_rb_root,
    Plain ''root'' (TPtr ''struct kernfs_root''),
    Plain ''rev'' (TInt I64 False)]"

definition st_kimage :: ty where
  "st_kimage = TStruct ''kimage'' False [
    Plain ''head'' td_kimage_entry_t,
    Plain ''entry'' (TPtr ''kimage_entry_t''),
    Plain ''last_entry'' (TPtr ''kimage_entry_t''),
    Plain ''start'' (TInt I64 False),
    Plain ''control_code_page'' (TPtr ''struct page''),
    Plain ''swap_page'' (TPtr ''struct page''),
    Plain ''vmcoreinfo_data_copy'' (TPtr ''void''),
    Plain ''nr_segments'' (TInt I64 False),
    Plain ''segment'' (TArr st_kexec_segment 16),
    Plain ''segment_cma'' (TArr (TPtr ''struct page'') 16),
    Plain ''control_pages'' st_list_head,
    Plain ''dest_pages'' st_list_head,
    Plain ''unusable_pages'' st_list_head,
    Plain ''control_page'' (TInt I64 False),
    Bits ''type'' (TInt I32 False) 1,
    Bits ''preserve_context'' (TInt I32 False) 1,
    Bits ''file_mode'' (TInt I32 False) 1,
    Bits ''hotplug_support'' (TInt I32 False) 1,
    Bits ''no_cma'' (TInt I32 False) 1,
    Plain ''arch'' st_kimage_arch,
    Plain ''kernel_buf'' (TPtr ''void''),
    Plain ''kernel_buf_len'' (TInt I64 False),
    Plain ''initrd_buf'' (TPtr ''void''),
    Plain ''initrd_buf_len'' (TInt I64 False),
    Plain ''cmdline_buf'' (TPtr ''char''),
    Plain ''cmdline_buf_len'' (TInt I64 False),
    Plain ''fops'' (TPtr ''struct kexec_file_ops''),
    Plain ''image_loader_data'' (TPtr ''void''),
    Plain ''purgatory_info'' st_purgatory_info,
    Plain ''force_dtb'' td_bool,
    Plain ''hp_action'' (TInt I32 True),
    Plain ''elfcorehdr_index'' (TInt I32 True),
    Plain ''elfcorehdr_updated'' td_bool,
    Plain ''ima_buffer'' (TPtr ''void''),
    Plain ''ima_buffer_addr'' td_phys_addr_t,
    Plain ''ima_buffer_size'' td_size_t,
    Plain ''ima_segment_index'' (TInt I64 False),
    Plain ''is_ima_segment_index_set'' td_bool,
    Plain ''kho'' (TStruct '''' False [
      Plain ''scratch'' (TPtr ''struct kexec_segment''),
      Plain ''fdt'' td_phys_addr_t]),
    Plain ''elf_headers'' (TPtr ''void''),
    Plain ''elf_headers_sz'' (TInt I64 False),
    Plain ''elf_load_addr'' (TInt I64 False),
    Plain ''dm_crypt_keys_addr'' (TInt I64 False),
    Plain ''dm_crypt_keys_sz'' (TInt I64 False)]"

definition st_ksm_rmap_item :: ty where
  "st_ksm_rmap_item = TStruct ''ksm_rmap_item'' False [
    Plain ''rmap_list'' (TPtr ''struct ksm_rmap_item''),
    Plain '''' (TUnion '''' False [
      Plain ''anon_vma'' (TPtr ''struct anon_vma''),
      Plain ''nid'' (TInt I32 True)]),
    Plain ''mm'' (TPtr ''struct mm_struct''),
    Plain ''address'' (TInt I64 False),
    Plain ''oldchecksum'' (TInt I32 False),
    Plain ''age'' td_rmap_age_t,
    Plain ''remaining_skips'' td_rmap_age_t,
    Plain '''' (TUnion '''' False [
      Plain ''node'' st_rb_node,
      Plain '''' (TStruct '''' False [
        Plain ''head'' (TPtr ''struct ksm_stable_node''),
        Plain ''hlist'' st_hlist_node])])]"

definition st_ksm_stable_node :: ty where
  "st_ksm_stable_node = TStruct ''ksm_stable_node'' False [
    Plain '''' (TUnion '''' False [
      Plain ''node'' st_rb_node,
      Plain '''' (TStruct '''' False [
        Plain ''head'' (TPtr ''struct list_head''),
        Plain '''' (TStruct '''' False [
          Plain ''hlist_dup'' st_hlist_node,
          Plain ''list'' st_list_head])])]),
    Plain ''hlist'' st_hlist_head,
    Plain '''' (TUnion '''' False [
      Plain ''kpfn'' (TInt I64 False),
      Plain ''chain_prune_time'' (TInt I64 False)]),
    Plain ''rmap_hlist_len'' (TInt I32 True),
    Plain ''nid'' (TInt I32 True)]"

definition st_kstat :: ty where
  "st_kstat = TStruct ''kstat'' False [
    Plain ''result_mask'' td_u32,
    Plain ''mode'' td_umode_t,
    Plain ''nlink'' (TInt I32 False),
    Plain ''blksize'' td_uint32_t,
    Plain ''attributes'' td_u64,
    Plain ''attributes_mask'' td_u64,
    Plain ''ino'' td_u64,
    Plain ''dev'' td_dev_t,
    Plain ''rdev'' td_dev_t,
    Plain ''uid'' td_kuid_t,
    Plain ''gid'' td_kgid_t,
    Plain ''size'' td_loff_t,
    Plain ''atime'' st_timespec64,
    Plain ''mtime'' st_timespec64,
    Plain ''ctime'' st_timespec64,
    Plain ''btime'' st_timespec64,
    Plain ''blocks'' td_u64,
    Plain ''mnt_id'' td_u64,
    Plain ''change_cookie'' td_u64,
    Plain ''subvol'' td_u64,
    Plain ''dio_mem_align'' td_u32,
    Plain ''dio_offset_align'' td_u32,
    Plain ''dio_read_offset_align'' td_u32,
    Plain ''atomic_write_unit_min'' td_u32,
    Plain ''atomic_write_unit_max'' td_u32,
    Plain ''atomic_write_unit_max_opt'' td_u32,
    Plain ''atomic_write_segments_max'' td_u32]"

definition st_kvm_vm_stat :: ty where
  "st_kvm_vm_stat = TStruct ''kvm_vm_stat'' False [
    Plain ''generic'' st_kvm_vm_stat_generic,
    Plain ''mmu_shadow_zapped'' td_u64,
    Plain ''mmu_pte_write'' td_u64,
    Plain ''mmu_pde_zapped'' td_u64,
    Plain ''mmu_flooded'' td_u64,
    Plain ''mmu_recycled'' td_u64,
    Plain ''mmu_cache_miss'' td_u64,
    Plain ''mmu_unsync'' td_u64,
    Plain '''' (TUnion '''' False [
      Plain '''' (TStruct '''' False [
        Plain ''pages_4k'' td_atomic64_t,
        Plain ''pages_2m'' td_atomic64_t,
        Plain ''pages_1g'' td_atomic64_t]),
      Plain ''pages'' (TArr td_atomic64_t 3)]),
    Plain ''nx_lpage_splits'' td_u64,
    Plain ''max_mmu_page_hash_collisions'' td_u64,
    Plain ''max_mmu_rmap_size'' td_u64]"

definition st_kvm_nested_state :: ty where
  "st_kvm_nested_state = TStruct ''kvm_nested_state'' False [
    Plain ''flags'' td___u16,
    Plain ''format'' td___u16,
    Plain ''size'' td___u32,
    Plain ''hdr'' (TUnion '''' False [
      Plain ''vmx'' st_kvm_vmx_nested_state_hdr,
      Plain ''svm'' st_kvm_svm_nested_state_hdr,
      Plain ''pad'' (TArr td___u8 120)]),
    Plain ''data'' (TUnion '''' False [
      Plain '''' (TStruct '''' False [
        Plain ''__empty_vmx'' (TStruct '''' False []),
        Plain ''vmx'' (TArr st_kvm_vmx_nested_state_data 0)]),
      Plain '''' (TStruct '''' False [
        Plain ''__empty_svm'' (TStruct '''' False []),
        Plain ''svm'' (TArr st_kvm_svm_nested_state_data 0)])])]"

definition st_kvm_pmu :: ty where
  "st_kvm_pmu = TStruct ''kvm_pmu'' False [
    Plain ''version'' td_u8,
    Plain ''nr_arch_gp_counters'' (TInt I32 False),
    Plain ''nr_arch_fixed_counters'' (TInt I32 False),
    Plain ''available_event_types'' (TInt I32 False),
    Plain ''fixed_ctr_ctrl'' td_u64,
    Plain ''fixed_ctr_ctrl_hw'' td_u64,
    Plain ''fixed_ctr_ctrl_rsvd'' td_u64,
    Plain ''global_ctrl'' td_u64,
    Plain ''global_status'' td_u64,
    Plain ''counter_bitmask'' (TArr td_u64 2),
    Plain ''global_ctrl_rsvd'' td_u64,
    Plain ''global_status_rsvd'' td_u64,
    Plain ''reserved_bits'' td_u64,
    Plain ''raw_event_mask'' td_u64,
    Plain ''gp_counters'' (TArr st_kvm_pmc 8),
    Plain ''fixed_counters'' (TArr st_kvm_pmc 3),
    Plain '''' (TUnion '''' False [
      Plain ''reprogram_pmi'' (TArr (TInt I64 False) 1),
      Plain ''__reprogram_pmi'' td_atomic64_t]),
    Plain ''all_valid_pmc_idx'' (TArr (TInt I64 False) 1),
    Plain ''pmc_in_use'' (TArr (TInt I64 False) 1),
    Plain ''pmc_counting_instructions'' (TArr (TInt I64 False) 1),
    Plain ''pmc_counting_branches'' (TArr (TInt I64 False) 1),
    Plain ''ds_area'' td_u64,
    Plain ''pebs_enable'' td_u64,
    Plain ''pebs_enable_rsvd'' td_u64,
    Plain ''pebs_data_cfg'' td_u64,
    Plain ''pebs_data_cfg_rsvd'' td_u64,
    Plain ''host_cross_mapped_mask'' td_u64,
    Plain ''need_cleanup'' td_bool,
    Plain ''event_count'' td_u8]"

definition st_kvm_sregs :: ty where
  "st_kvm_sregs = TStruct ''kvm_sregs'' False [
    Plain ''cs'' st_kvm_segment,
    Plain ''ds'' st_kvm_segment,
    Plain ''es'' st_kvm_segment,
    Plain ''fs'' st_kvm_segment,
    Plain ''gs'' st_kvm_segment,
    Plain ''ss'' st_kvm_segment,
    Plain ''tr'' st_kvm_segment,
    Plain ''ldt'' st_kvm_segment,
    Plain ''gdt'' st_kvm_dtable,
    Plain ''idt'' st_kvm_dtable,
    Plain ''cr0'' td___u64,
    Plain ''cr2'' td___u64,
    Plain ''cr3'' td___u64,
    Plain ''cr4'' td___u64,
    Plain ''cr8'' td___u64,
    Plain ''efer'' td___u64,
    Plain ''apic_base'' td___u64,
    Plain ''interrupt_bitmap'' (TArr td___u64 4)]"

definition st_kvm_vcpu_stat :: ty where
  "st_kvm_vcpu_stat = TStruct ''kvm_vcpu_stat'' False [
    Plain ''generic'' st_kvm_vcpu_stat_generic,
    Plain ''pf_taken'' td_u64,
    Plain ''pf_fixed'' td_u64,
    Plain ''pf_emulate'' td_u64,
    Plain ''pf_spurious'' td_u64,
    Plain ''pf_fast'' td_u64,
    Plain ''pf_mmio_spte_created'' td_u64,
    Plain ''pf_guest'' td_u64,
    Plain ''tlb_flush'' td_u64,
    Plain ''invlpg'' td_u64,
    Plain ''exits'' td_u64,
    Plain ''io_exits'' td_u64,
    Plain ''mmio_exits'' td_u64,
    Plain ''signal_exits'' td_u64,
    Plain ''irq_window_exits'' td_u64,
    Plain ''nmi_window_exits'' td_u64,
    Plain ''l1d_flush'' td_u64,
    Plain ''halt_exits'' td_u64,
    Plain ''request_irq_exits'' td_u64,
    Plain ''irq_exits'' td_u64,
    Plain ''host_state_reload'' td_u64,
    Plain ''fpu_reload'' td_u64,
    Plain ''insn_emulation'' td_u64,
    Plain ''insn_emulation_fail'' td_u64,
    Plain ''hypercalls'' td_u64,
    Plain ''irq_injections'' td_u64,
    Plain ''nmi_injections'' td_u64,
    Plain ''req_event'' td_u64,
    Plain ''nested_run'' td_u64,
    Plain ''directed_yield_attempted'' td_u64,
    Plain ''directed_yield_successful'' td_u64,
    Plain ''preemption_reported'' td_u64,
    Plain ''preemption_other'' td_u64,
    Plain ''guest_mode'' td_u64,
    Plain ''notify_window_exits'' td_u64]"

definition st_lb_env :: ty where
  "st_lb_env = TStruct ''lb_env'' False [
    Plain ''sd'' (TPtr ''struct sched_domain''),
    Plain ''src_rq'' (TPtr ''struct rq''),
    Plain ''src_cpu'' (TInt I32 True),
    Plain ''dst_cpu'' (TInt I32 True),
    Plain ''dst_rq'' (TPtr ''struct rq''),
    Plain ''dst_grpmask'' (TPtr ''struct cpumask''),
    Plain ''new_dst_cpu'' (TInt I32 True),
    Plain ''idle'' (TEnum ''cpu_idle_type'' I32),
    Plain ''imbalance'' (TInt I64 True),
    Plain ''cpus'' (TPtr ''struct cpumask''),
    Plain ''flags'' (TInt I32 False),
    Plain ''loop'' (TInt I32 False),
    Plain ''loop_break'' (TInt I32 False),
    Plain ''loop_max'' (TInt I32 False),
    Plain ''fbq_type'' (TEnum ''fbq_type'' I32),
    Plain ''migration_type'' (TEnum ''migration_type'' I32),
    Plain ''tasks'' st_list_head]"

definition st_linux_binprm :: ty where
  "st_linux_binprm = TStruct ''linux_binprm'' False [
    Plain ''vma'' (TPtr ''struct vm_area_struct''),
    Plain ''vma_pages'' (TInt I64 False),
    Plain ''argmin'' (TInt I64 False),
    Plain ''mm'' (TPtr ''struct mm_struct''),
    Plain ''p'' (TInt I64 False),
    Bits ''have_execfd'' (TInt I32 False) 1,
    Bits ''execfd_creds'' (TInt I32 False) 1,
    Bits ''secureexec'' (TInt I32 False) 1,
    Bits ''point_of_no_return'' (TInt I32 False) 1,
    Bits ''comm_from_dentry'' (TInt I32 False) 1,
    Bits ''is_check'' (TInt I32 False) 1,
    Plain ''executable'' (TPtr ''struct file''),
    Plain ''interpreter'' (TPtr ''struct file''),
    Plain ''file'' (TPtr ''struct file''),
    Plain ''cred'' (TPtr ''struct cred''),
    Plain ''unsafe'' (TInt I32 True),
    Plain ''per_clear'' (TInt I32 False),
    Plain ''argc'' (TInt I32 True),
    Plain ''envc'' (TInt I32 True),
    Plain ''filename'' (TPtr ''char''),
    Plain ''interp'' (TPtr ''char''),
    Plain ''fdpath'' (TPtr ''char''),
    Plain ''interp_flags'' (TInt I32 False),
    Plain ''execfd'' (TInt I32 True),
    Plain ''exec'' (TInt I64 False),
    Plain ''rlim_stack'' st_rlimit,
    Plain ''buf'' (TArr (TInt I8 True) 256)]"

definition st_lru_gen_folio :: ty where
  "st_lru_gen_folio = TStruct ''lru_gen_folio'' False [
    Plain ''max_seq'' (TInt I64 False),
    Plain ''min_seq'' (TArr (TInt I64 False) 2),
    Plain ''timestamps'' (TArr (TInt I64 False) 4),
    Plain ''folios'' (TArr st_list_head 40),
    Plain ''nr_pages'' (TArr (TInt I64 True) 40),
    Plain ''avg_refaulted'' (TArr (TInt I64 False) 8),
    Plain ''avg_total'' (TArr (TInt I64 False) 8),
    Plain ''protected'' (TArr (TInt I64 False) 8),
    Plain ''evicted'' (TArr td_atomic_long_t 8),
    Plain ''refaulted'' (TArr td_atomic_long_t 8),
    Plain ''enabled'' td_bool,
    Plain ''gen'' td_u8,
    Plain ''seg'' td_u8,
    Plain ''list'' st_hlist_nulls_node]"

definition st_lsm_network_audit :: ty where
  "st_lsm_network_audit = TStruct ''lsm_network_audit'' False [
    Plain ''netif'' (TInt I32 True),
    Plain ''sk'' (TPtr ''struct sock''),
    Plain ''family'' td_u16,
    Plain ''dport'' td___be16,
    Plain ''sport'' td___be16,
    Plain ''fam'' (TUnion '''' False [
      Plain ''v4'' (TStruct '''' False [
        Plain ''daddr'' td___be32,
        Plain ''saddr'' td___be32]),
      Plain ''v6'' (TStruct '''' False [
        Plain ''daddr'' st_in6_addr,
        Plain ''saddr'' st_in6_addr])])]"

definition st_lwq_node :: ty where
  "st_lwq_node = TStruct ''lwq_node'' False [
    Plain ''node'' st_llist_node]"

definition st_lzma_dec :: ty where
  "st_lzma_dec = TStruct ''lzma_dec'' False [
    Plain ''rep0'' td_uint32_t,
    Plain ''rep1'' td_uint32_t,
    Plain ''rep2'' td_uint32_t,
    Plain ''rep3'' td_uint32_t,
    Plain ''state'' (TEnum ''lzma_state'' I32),
    Plain ''len'' td_uint32_t,
    Plain ''lc'' td_uint32_t,
    Plain ''literal_pos_mask'' td_uint32_t,
    Plain ''pos_mask'' td_uint32_t,
    Plain ''is_match'' (TArr td_uint16_t 192),
    Plain ''is_rep'' (TArr td_uint16_t 12),
    Plain ''is_rep0'' (TArr td_uint16_t 12),
    Plain ''is_rep1'' (TArr td_uint16_t 12),
    Plain ''is_rep2'' (TArr td_uint16_t 12),
    Plain ''is_rep0_long'' (TArr td_uint16_t 192),
    Plain ''dist_slot'' (TArr td_uint16_t 256),
    Plain ''dist_special'' (TArr td_uint16_t 114),
    Plain ''dist_align'' (TArr td_uint16_t 16),
    Plain ''match_len_dec'' st_lzma_len_dec,
    Plain ''rep_len_dec'' st_lzma_len_dec,
    Plain ''literal'' (TArr td_uint16_t 12288)]"

definition td_mac_addr :: ty where
  "td_mac_addr = st_mac_addr"

definition st_maple_arange_64 :: ty where
  "st_maple_arange_64 = TStruct ''maple_arange_64'' False [
    Plain ''parent'' (TPtr ''struct maple_pnode''),
    Plain ''pivot'' (TArr (TInt I64 False) 9),
    Plain ''slot'' (TArr (TPtr ''void'') 10),
    Plain ''gap'' (TArr (TInt I64 False) 10),
    Plain ''meta'' st_maple_metadata]"

definition st_maple_range_64 :: ty where
  "st_maple_range_64 = TStruct ''maple_range_64'' False [
    Plain ''parent'' (TPtr ''struct maple_pnode''),
    Plain ''pivot'' (TArr (TInt I64 False) 15),
    Plain '''' (TUnion '''' False [
      Plain ''slot'' (TArr (TPtr ''void'') 16),
      Plain '''' (TStruct '''' False [
        Plain ''pad'' (TArr (TPtr ''void'') 15),
        Plain ''meta'' st_maple_metadata])])]"

definition st_mcinfo_logical_cpu :: ty where
  "st_mcinfo_logical_cpu = TStruct ''mcinfo_logical_cpu'' False [
    Plain ''mc_cpunr'' td_uint32_t,
    Plain ''mc_chipid'' td_uint32_t,
    Plain ''mc_coreid'' td_uint16_t,
    Plain ''mc_threadid'' td_uint16_t,
    Plain ''mc_apicid'' td_uint32_t,
    Plain ''mc_clusterid'' td_uint32_t,
    Plain ''mc_ncores'' td_uint32_t,
    Plain ''mc_ncores_active'' td_uint32_t,
    Plain ''mc_nthreads'' td_uint32_t,
    Plain ''mc_cpuid_level'' td_uint32_t,
    Plain ''mc_family'' td_uint32_t,
    Plain ''mc_vendor'' td_uint32_t,
    Plain ''mc_model'' td_uint32_t,
    Plain ''mc_step'' td_uint32_t,
    Plain ''mc_vendorid'' (TArr (TInt I8 True) 16),
    Plain ''mc_brandid'' (TArr (TInt I8 True) 64),
    Plain ''mc_cpu_caps'' (TArr td_uint32_t 7),
    Plain ''mc_cache_size'' td_uint32_t,
    Plain ''mc_cache_alignment'' td_uint32_t,
    Plain ''mc_nmsrvals'' td_uint32_t,
    Plain ''mc_msrvalues'' (TArr st_mcinfo_msr 8)]"

definition st_mdio_bus_stats :: ty where
  "st_mdio_bus_stats = TStruct ''mdio_bus_stats'' False [
    Plain ''transfers'' td_u64_stats_t,
    Plain ''errors'' td_u64_stats_t,
    Plain ''writes'' td_u64_stats_t,
    Plain ''reads'' td_u64_stats_t,
    Plain ''syncp'' st_u64_stats_sync]"

definition td_mdp_disk_t :: ty where
  "td_mdp_disk_t = st_mdp_device_descriptor_s"

definition st_memory_group :: ty where
  "st_memory_group = TStruct ''memory_group'' False [
    Plain ''nid'' (TInt I32 True),
    Plain ''memory_blocks'' st_list_head,
    Plain ''present_kernel_pages'' (TInt I64 False),
    Plain ''present_movable_pages'' (TInt I64 False),
    Plain ''is_dynamic'' td_bool,
    Plain '''' (TUnion '''' False [
      Plain ''s'' (TStruct '''' False [
        Plain ''max_pages'' (TInt I64 False)]),
      Plain ''d'' (TStruct '''' False [
        Plain ''unit_pages'' (TInt I64 False)])])]"

definition st_minmax :: ty where
  "st_minmax = TStruct ''minmax'' False [
    Plain ''s'' (TArr st_minmax_sample 3)]"

definition st_uprobes_state :: ty where
  "st_uprobes_state = TStruct ''uprobes_state'' False [
    Plain ''xol_area'' (TPtr ''struct xol_area''),
    Plain ''head_tramps'' st_hlist_head]"

definition st_mmu_gather :: ty where
  "st_mmu_gather = TStruct ''mmu_gather'' False [
    Plain ''mm'' (TPtr ''struct mm_struct''),
    Plain ''batch'' (TPtr ''struct mmu_table_batch''),
    Plain ''start'' (TInt I64 False),
    Plain ''end'' (TInt I64 False),
    Bits ''fullmm'' (TInt I32 False) 1,
    Bits ''need_flush_all'' (TInt I32 False) 1,
    Bits ''freed_tables'' (TInt I32 False) 1,
    Bits ''delayed_rmap'' (TInt I32 False) 1,
    Bits ''cleared_ptes'' (TInt I32 False) 1,
    Bits ''cleared_pmds'' (TInt I32 False) 1,
    Bits ''cleared_puds'' (TInt I32 False) 1,
    Bits ''cleared_p4ds'' (TInt I32 False) 1,
    Bits ''vma_exec'' (TInt I32 False) 1,
    Bits ''vma_huge'' (TInt I32 False) 1,
    Bits ''vma_pfn'' (TInt I32 False) 1,
    Bits ''unshared_tables'' (TInt I32 False) 1,
    Bits ''fully_unshared_tables'' (TInt I32 False) 1,
    Plain ''batch_count'' (TInt I32 False),
    Plain ''active'' (TPtr ''struct mmu_gather_batch''),
    Plain ''local'' st_mmu_gather_batch,
    Plain ''__pages'' (TArr (TPtr ''struct page'') 8)]"

definition st_uid_gid_map :: ty where
  "st_uid_gid_map = TStruct ''uid_gid_map'' False [
    Plain '''' (TUnion '''' False [
      Plain '''' (TStruct '''' False [
        Plain ''extent'' (TArr st_uid_gid_extent 5),
        Plain ''nr_extents'' td_u32]),
      Plain '''' (TStruct '''' False [
        Plain ''forward'' (TPtr ''struct uid_gid_extent''),
        Plain ''reverse'' (TPtr ''struct uid_gid_extent'')])])]"

definition st_mount :: ty where
  "st_mount = TStruct ''mount'' False [
    Plain ''mnt_hash'' st_hlist_node,
    Plain ''mnt_parent'' (TPtr ''struct mount''),
    Plain ''mnt_mountpoint'' (TPtr ''struct dentry''),
    Plain ''mnt'' st_vfsmount,
    Plain '''' (TUnion '''' False [
      Plain ''mnt_node'' st_rb_node,
      Plain ''mnt_rcu'' st_callback_head,
      Plain ''mnt_llist'' st_llist_node]),
    Plain ''mnt_pcp'' (TPtr ''struct mnt_pcp''),
    Plain ''mnt_mounts'' st_list_head,
    Plain ''mnt_child'' st_list_head,
    Plain ''mnt_next_for_sb'' (TPtr ''struct mount''),
    Plain ''mnt_pprev_for_sb'' (TPtr ''struct mount *''),
    Plain ''mnt_devname'' (TPtr ''char''),
    Plain ''mnt_list'' st_list_head,
    Plain ''mnt_expire'' st_list_head,
    Plain ''mnt_share'' st_list_head,
    Plain ''mnt_slave_list'' st_hlist_head,
    Plain ''mnt_slave'' st_hlist_node,
    Plain ''mnt_master'' (TPtr ''struct mount''),
    Plain ''mnt_ns'' (TPtr ''struct mnt_namespace''),
    Plain ''mnt_mp'' (TPtr ''struct mountpoint''),
    Plain '''' (TUnion '''' False [
      Plain ''mnt_mp_list'' st_hlist_node,
      Plain ''mnt_umount'' st_hlist_node]),
    Plain ''mnt_fsnotify_marks'' (TPtr ''struct fsnotify_mark_connector''),
    Plain ''mnt_fsnotify_mask'' td___u32,
    Plain ''to_notify'' st_list_head,
    Plain ''prev_ns'' (TPtr ''struct mnt_namespace''),
    Plain ''mnt_t_flags'' (TInt I32 True),
    Plain ''mnt_id'' (TInt I32 True),
    Plain ''mnt_id_unique'' td_u64,
    Plain ''mnt_group_id'' (TInt I32 True),
    Plain ''mnt_expiry_mark'' (TInt I32 True),
    Plain ''mnt_pins'' st_hlist_head,
    Plain ''mnt_stuck_children'' st_hlist_head,
    Plain ''overmount'' (TPtr ''struct mount'')]"

definition st_mptcp_addr_info :: ty where
  "st_mptcp_addr_info = TStruct ''mptcp_addr_info'' False [
    Plain ''id'' td_u8,
    Plain ''family'' td_sa_family_t,
    Plain ''port'' td___be16,
    Plain '''' (TUnion '''' False [
      Plain ''addr'' st_in_addr,
      Plain ''addr6'' st_in6_addr])]"

definition st_mptcp_sched_ops :: ty where
  "st_mptcp_sched_ops = TStruct ''mptcp_sched_ops'' False [
    Plain ''get_send'' (TFun ''int (*)(struct mptcp_sock *)''),
    Plain ''get_retrans'' (TFun ''int (*)(struct mptcp_sock *)''),
    Plain ''name'' (TArr (TInt I8 True) 16),
    Plain ''owner'' (TPtr ''struct module''),
    Plain ''list'' st_list_head,
    Plain ''init'' (TFun ''void (*)(struct mptcp_sock *)''),
    Plain ''release'' (TFun ''void (*)(struct mptcp_sock *)''),
    Bits '''' (TInt I64 True) 64,
    Bits '''' (TInt I64 True) 64,
    Bits '''' (TInt I64 True) 64,
    Bits '''' (TInt I64 True) 64,
    Bits '''' (TInt I64 True) 64,
    Bits '''' (TInt I64 True) 64,
    Bits '''' (TInt I64 True) 64]"

definition st_sockaddr_in :: ty where
  "st_sockaddr_in = TStruct ''sockaddr_in'' False [
    Plain ''sin_family'' td___kernel_sa_family_t,
    Plain ''sin_port'' td___be16,
    Plain ''sin_addr'' st_in_addr,
    Plain ''__pad'' (TArr (TInt I8 False) 8)]"

definition st_mptcp_subflow_context :: ty where
  "st_mptcp_subflow_context = TStruct ''mptcp_subflow_context'' False [
    Plain ''node'' st_list_head,
    Plain '''' (TUnion '''' False [
      Plain '''' (TStruct '''' False [
        Plain ''avg_pacing_rate'' (TInt I64 False),
        Plain ''local_key'' td_u64,
        Plain ''remote_key'' td_u64,
        Plain ''idsn'' td_u64,
        Plain ''map_seq'' td_u64,
        Plain ''rcv_wnd_sent'' td_u64,
        Plain ''snd_isn'' td_u32,
        Plain ''token'' td_u32,
        Plain ''rel_write_seq'' td_u32,
        Plain ''map_subflow_seq'' td_u32,
        Plain ''ssn_offset'' td_u32,
        Plain ''map_data_len'' td_u32,
        Plain ''map_data_csum'' td___wsum,
        Plain ''map_csum_len'' td_u32,
        Bits ''request_mptcp'' td_u32 1,
        Bits ''request_join'' td_u32 1,
        Bits ''request_bkup'' td_u32 1,
        Bits ''mp_capable'' td_u32 1,
        Bits ''mp_join'' td_u32 1,
        Bits ''pm_notified'' td_u32 1,
        Bits ''conn_finished'' td_u32 1,
        Bits ''map_valid'' td_u32 1,
        Bits ''map_csum_reqd'' td_u32 1,
        Bits ''map_data_fin'' td_u32 1,
        Bits ''mpc_map'' td_u32 1,
        Bits ''backup'' td_u32 1,
        Bits ''send_mp_prio'' td_u32 1,
        Bits ''send_mp_fail'' td_u32 1,
        Bits ''send_fastclose'' td_u32 1,
        Bits ''send_infinite_map'' td_u32 1,
        Bits ''remote_key_valid'' td_u32 1,
        Bits ''disposable'' td_u32 1,
        Bits ''closing'' td_u32 1,
        Bits ''stale'' td_u32 1,
        Bits ''valid_csum_seen'' td_u32 1,
        Bits ''is_mptfo'' td_u32 1,
        Bits ''close_event_done'' td_u32 1,
        Bits ''mpc_drop'' td_u32 1,
        Bits ''__unused'' td_u32 8,
        Plain ''data_avail'' td_bool,
        Plain ''scheduled'' td_bool,
        Plain ''pm_listener'' td_bool,
        Plain ''fully_established'' td_bool,
        Plain ''lent_mem_frag'' td_u32,
        Plain ''remote_nonce'' td_u32,
        Plain ''thmac'' td_u64,
        Plain ''local_nonce'' td_u32,
        Plain ''remote_token'' td_u32,
        Plain '''' (TUnion '''' False [
          Plain ''hmac'' (TArr td_u8 20),
          Plain ''iasn'' td_u64]),
        Plain ''local_id'' td_s16,
        Plain ''remote_id'' td_u8,
        Bits ''reset_seen'' td_u8 1,
        Bits ''reset_transient'' td_u8 1,
        Bits ''reset_reason'' td_u8 4,
        Plain ''stale_count'' td_u8,
        Plain ''subflow_id'' td_u32,
        Plain ''delegated_status'' (TInt I64 True),
        Plain ''fail_tout'' (TInt I64 False)]),
      Plain ''reset'' (TStruct '''' False [
        Plain ''avg_pacing_rate'' (TInt I64 False),
        Plain ''local_key'' td_u64,
        Plain ''remote_key'' td_u64,
        Plain ''idsn'' td_u64,
        Plain ''map_seq'' td_u64,
        Plain ''rcv_wnd_sent'' td_u64,
        Plain ''snd_isn'' td_u32,
        Plain ''token'' td_u32,
        Plain ''rel_write_seq'' td_u32,
        Plain ''map_subflow_seq'' td_u32,
        Plain ''ssn_offset'' td_u32,
        Plain ''map_data_len'' td_u32,
        Plain ''map_data_csum'' td___wsum,
        Plain ''map_csum_len'' td_u32,
        Bits ''request_mptcp'' td_u32 1,
        Bits ''request_join'' td_u32 1,
        Bits ''request_bkup'' td_u32 1,
        Bits ''mp_capable'' td_u32 1,
        Bits ''mp_join'' td_u32 1,
        Bits ''pm_notified'' td_u32 1,
        Bits ''conn_finished'' td_u32 1,
        Bits ''map_valid'' td_u32 1,
        Bits ''map_csum_reqd'' td_u32 1,
        Bits ''map_data_fin'' td_u32 1,
        Bits ''mpc_map'' td_u32 1,
        Bits ''backup'' td_u32 1,
        Bits ''send_mp_prio'' td_u32 1,
        Bits ''send_mp_fail'' td_u32 1,
        Bits ''send_fastclose'' td_u32 1,
        Bits ''send_infinite_map'' td_u32 1,
        Bits ''remote_key_valid'' td_u32 1,
        Bits ''disposable'' td_u32 1,
        Bits ''closing'' td_u32 1,
        Bits ''stale'' td_u32 1,
        Bits ''valid_csum_seen'' td_u32 1,
        Bits ''is_mptfo'' td_u32 1,
        Bits ''close_event_done'' td_u32 1,
        Bits ''mpc_drop'' td_u32 1,
        Bits ''__unused'' td_u32 8,
        Plain ''data_avail'' td_bool,
        Plain ''scheduled'' td_bool,
        Plain ''pm_listener'' td_bool,
        Plain ''fully_established'' td_bool,
        Plain ''lent_mem_frag'' td_u32,
        Plain ''remote_nonce'' td_u32,
        Plain ''thmac'' td_u64,
        Plain ''local_nonce'' td_u32,
        Plain ''remote_token'' td_u32,
        Plain '''' (TUnion '''' False [
          Plain ''hmac'' (TArr td_u8 20),
          Plain ''iasn'' td_u64]),
        Plain ''local_id'' td_s16,
        Plain ''remote_id'' td_u8,
        Bits ''reset_seen'' td_u8 1,
        Bits ''reset_transient'' td_u8 1,
        Bits ''reset_reason'' td_u8 4,
        Plain ''stale_count'' td_u8,
        Plain ''subflow_id'' td_u32,
        Plain ''delegated_status'' (TInt I64 True),
        Plain ''fail_tout'' (TInt I64 False)])]),
    Plain ''delegated_node'' st_list_head,
    Plain ''setsockopt_seq'' td_u32,
    Plain ''stale_rcv_tstamp'' td_u32,
    Plain ''cached_sndbuf'' (TInt I32 True),
    Plain ''tcp_sock'' (TPtr ''struct sock''),
    Plain ''conn'' (TPtr ''struct sock''),
    Plain ''icsk_af_ops'' (TPtr ''struct inet_connection_sock_af_ops''),
    Plain ''tcp_state_change'' (TFun ''void (*)(struct sock *)''),
    Plain ''tcp_error_report'' (TFun ''void (*)(struct sock *)''),
    Plain ''rcu'' st_callback_head]"

definition st_vif_device :: ty where
  "st_vif_device = TStruct ''vif_device'' False [
    Plain ''dev'' (TPtr ''struct net_device''),
    Plain ''dev_tracker'' td_netdevice_tracker,
    Plain ''bytes_in'' (TInt I64 False),
    Plain ''bytes_out'' (TInt I64 False),
    Plain ''pkt_in'' (TInt I64 False),
    Plain ''pkt_out'' (TInt I64 False),
    Plain ''rate_limit'' (TInt I64 False),
    Plain ''threshold'' (TInt I8 False),
    Plain ''flags'' (TInt I16 False),
    Plain ''link'' (TInt I32 True),
    Plain ''dev_parent_id'' st_netdev_phys_item_id,
    Plain ''local'' td___be32,
    Plain ''remote'' td___be32]"

definition st_msqid_ds :: ty where
  "st_msqid_ds = TStruct ''msqid_ds'' False [
    Plain ''msg_perm'' st_ipc_perm,
    Plain ''msg_first'' (TPtr ''struct msg''),
    Plain ''msg_last'' (TPtr ''struct msg''),
    Plain ''msg_stime'' td___kernel_old_time_t,
    Plain ''msg_rtime'' td___kernel_old_time_t,
    Plain ''msg_ctime'' td___kernel_old_time_t,
    Plain ''msg_lcbytes'' (TInt I64 False),
    Plain ''msg_lqbytes'' (TInt I64 False),
    Plain ''msg_cbytes'' (TInt I16 False),
    Plain ''msg_qnum'' (TInt I16 False),
    Plain ''msg_qbytes'' (TInt I16 False),
    Plain ''msg_lspid'' td___kernel_ipc_pid_t,
    Plain ''msg_lrpid'' td___kernel_ipc_pid_t]"

definition st_saved :: ty where
  "st_saved = TStruct ''saved'' False [
    Plain ''link'' st_path,
    Plain ''done'' st_delayed_call,
    Plain ''name'' (TPtr ''char''),
    Plain ''seq'' (TInt I32 False)]"

definition st_packet_type :: ty where
  "st_packet_type = TStruct ''packet_type'' False [
    Plain ''type'' td___be16,
    Plain ''ignore_outgoing'' td_bool,
    Plain ''dev'' (TPtr ''struct net_device''),
    Plain ''dev_tracker'' td_netdevice_tracker,
    Plain ''func''
      (TFun ''int (*)(struct sk_buff *, struct net_device *, struct packet_type *, struct net_device *)''),
    Plain ''list_func''
      (TFun ''void (*)(struct list_head *, struct packet_type *, struct net_device *)''),
    Plain ''id_match'' (TFun ''bool (*)(struct packet_type *, struct sock *)''),
    Plain ''af_packet_net'' (TPtr ''struct net''),
    Plain ''af_packet_priv'' (TPtr ''void''),
    Plain ''list'' st_list_head]"

definition st_ncsi_rsp_pkt_hdr :: ty where
  "st_ncsi_rsp_pkt_hdr = TStruct ''ncsi_rsp_pkt_hdr'' False [
    Plain ''common'' st_ncsi_pkt_hdr,
    Plain ''code'' td___be16,
    Plain ''reason'' td___be16]"

definition st_net_device_path :: ty where
  "st_net_device_path = TStruct ''net_device_path'' False [
    Plain ''type'' (TEnum ''net_device_path_type'' I32),
    Plain ''dev'' (TPtr ''struct net_device''),
    Plain '''' (TUnion '''' False [
      Plain ''encap'' (TStruct '''' False [
        Plain ''id'' td_u16,
        Plain ''proto'' td___be16,
        Plain ''h_dest'' (TArr td_u8 6)]),
      Plain ''tun'' (TStruct '''' False [
        Plain '''' (TUnion '''' False [
          Plain ''src_v4'' st_in_addr,
          Plain ''src_v6'' st_in6_addr]),
        Plain '''' (TUnion '''' False [
          Plain ''dst_v4'' st_in_addr,
          Plain ''dst_v6'' st_in6_addr]),
        Plain ''l3_proto'' td_u8]),
      Plain ''bridge'' (TStruct '''' False [
        Plain ''vlan_mode'' (TEnum '''' I32),
        Plain ''vlan_id'' td_u16,
        Plain ''vlan_proto'' td___be16]),
      Plain ''dsa'' (TStruct '''' False [
        Plain ''port'' (TInt I32 True),
        Plain ''proto'' td_u16]),
      Plain ''mtk_wdma'' (TStruct '''' False [
        Plain ''wdma_idx'' td_u8,
        Plain ''queue'' td_u8,
        Plain ''wcid'' td_u16,
        Plain ''bss'' td_u8,
        Plain ''amsdu'' td_u8])])]"

definition st_net_iov :: ty where
  "st_net_iov = TStruct ''net_iov'' False [
    Plain '''' (TUnion '''' False [
      Plain ''desc'' st_netmem_desc,
      Plain '''' (TStruct '''' False [
        Plain ''_flags'' (TInt I64 False),
        Plain ''pp_magic'' (TInt I64 False),
        Plain ''pp'' (TPtr ''struct page_pool''),
        Plain ''_pp_mapping_pad'' (TInt I64 False),
        Plain ''dma_addr'' (TInt I64 False),
        Plain ''pp_ref_count'' td_atomic_long_t])]),
    Plain ''owner'' (TPtr ''struct net_iov_area''),
    Plain ''type'' (TEnum ''net_iov_type'' I32)]"

definition st_xdp_rxq_info :: ty where
  "st_xdp_rxq_info = TStruct ''xdp_rxq_info'' False [
    Plain ''dev'' (TPtr ''struct net_device''),
    Plain ''queue_index'' td_u32,
    Plain ''reg_state'' td_u32,
    Plain ''mem'' st_xdp_mem_info,
    Plain ''frag_size'' td_u32,
    Bits '''' (TInt I64 True) 64,
    Bits '''' (TInt I64 True) 64,
    Bits '''' (TInt I64 True) 64,
    Bits '''' (TInt I64 True) 64]"

definition st_nf_bridge_info :: ty where
  "st_nf_bridge_info = TStruct ''nf_bridge_info'' False [
    Bits ''orig_proto'' (TEnum '''' I32) 8,
    Bits ''pkt_otherhost'' td_u8 1,
    Bits ''in_prerouting'' td_u8 1,
    Bits ''bridged_dnat'' td_u8 1,
    Bits ''sabotage_in_done'' td_u8 1,
    Plain ''frag_max_size'' td___u16,
    Plain ''physinif'' (TInt I32 True),
    Plain ''physoutdev'' (TPtr ''struct net_device''),
    Plain '''' (TUnion '''' False [
      Plain ''ipv4_daddr'' td___be32,
      Plain ''ipv6_daddr'' st_in6_addr,
      Plain ''neigh_header'' (TArr (TInt I8 True) 8)])]"

definition un_nf_inet_addr :: ty where
  "un_nf_inet_addr = TUnion ''nf_inet_addr'' False [
    Plain ''all'' (TArr td___u32 4),
    Plain ''ip'' td___be32,
    Plain ''ip6'' (TArr td___be32 4),
    Plain ''in'' st_in_addr,
    Plain ''in6'' st_in6_addr]"

definition td_nfs4_stateid :: ty where
  "td_nfs4_stateid = st_nfs4_stateid_struct"

definition st_rpc_wait :: ty where
  "st_rpc_wait = TStruct ''rpc_wait'' False [
    Plain ''list'' st_list_head,
    Plain ''links'' st_list_head,
    Plain ''timer_list'' st_list_head]"

definition st_nfs_fattr :: ty where
  "st_nfs_fattr = TStruct ''nfs_fattr'' False [
    Plain ''valid'' td___u64,
    Plain ''mode'' td_umode_t,
    Plain ''nlink'' td___u32,
    Plain ''uid'' td_kuid_t,
    Plain ''gid'' td_kgid_t,
    Plain ''rdev'' td_dev_t,
    Plain ''size'' td___u64,
    Plain ''du'' (TUnion '''' False [
      Plain ''nfs2'' (TStruct '''' False [
        Plain ''blocksize'' td___u32,
        Plain ''blocks'' td___u32]),
      Plain ''nfs3'' (TStruct '''' False [
        Plain ''used'' td___u64])]),
    Plain ''fsid'' st_nfs_fsid,
    Plain ''fileid'' td___u64,
    Plain ''mounted_on_fileid'' td___u64,
    Plain ''atime'' st_timespec64,
    Plain ''mtime'' st_timespec64,
    Plain ''ctime'' st_timespec64,
    Plain ''btime'' st_timespec64,
    Plain ''change_attr'' td___u64,
    Plain ''pre_change_attr'' td___u64,
    Plain ''pre_size'' td___u64,
    Plain ''pre_mtime'' st_timespec64,
    Plain ''pre_ctime'' st_timespec64,
    Plain ''time_start'' (TInt I64 False),
    Plain ''gencount'' (TInt I64 False),
    Plain ''owner_name'' (TPtr ''struct nfs4_string''),
    Plain ''group_name'' (TPtr ''struct nfs4_string''),
    Plain ''mdsthreshold'' (TPtr ''struct nfs4_threshold''),
    Plain ''label'' (TPtr ''struct nfs4_label'')]"

definition st_nfs_writeverf :: ty where
  "st_nfs_writeverf = TStruct ''nfs_writeverf'' False [
    Plain ''verifier'' st_nfs_write_verifier,
    Plain ''committed'' (TEnum ''nfs3_stable_how'' I32)]"

definition st_nfs_fsinfo :: ty where
  "st_nfs_fsinfo = TStruct ''nfs_fsinfo'' False [
    Plain ''fattr'' (TPtr ''struct nfs_fattr''),
    Plain ''rtmax'' td___u32,
    Plain ''rtpref'' td___u32,
    Plain ''rtmult'' td___u32,
    Plain ''wtmax'' td___u32,
    Plain ''wtpref'' td___u32,
    Plain ''wtmult'' td___u32,
    Plain ''dtpref'' td___u32,
    Plain ''maxfilesize'' td___u64,
    Plain ''time_delta'' st_timespec64,
    Plain ''lease_time'' td___u32,
    Plain ''nlayouttypes'' td___u32,
    Plain ''layouttype'' (TArr td___u32 8),
    Plain ''blksize'' td___u32,
    Plain ''clone_blksize'' td___u32,
    Plain ''change_attr_type'' (TEnum ''nfs4_change_attr_type'' I32),
    Plain ''xattr_support'' td___u32]"

definition st_nfs_pgio_res :: ty where
  "st_nfs_pgio_res = TStruct ''nfs_pgio_res'' False [
    Plain ''seq_res'' st_nfs4_sequence_res,
    Plain ''fattr'' (TPtr ''struct nfs_fattr''),
    Plain ''count'' td___u64,
    Plain ''op_status'' td___u32,
    Plain '''' (TUnion '''' False [
      Plain '''' (TStruct '''' False [
        Plain ''replen'' (TInt I32 False),
        Plain ''eof'' (TInt I32 True),
        Plain ''scratch'' (TPtr ''void'')]),
      Plain '''' (TStruct '''' False [
        Plain ''verf'' (TPtr ''struct nfs_writeverf''),
        Plain ''server'' (TPtr ''struct nfs_server'')])])]"

definition st_nh_config :: ty where
  "st_nh_config = TStruct ''nh_config'' False [
    Plain ''nh_id'' td_u32,
    Plain ''nh_family'' td_u8,
    Plain ''nh_protocol'' td_u8,
    Plain ''nh_blackhole'' td_u8,
    Plain ''nh_fdb'' td_u8,
    Plain ''nh_flags'' td_u32,
    Plain ''nh_ifindex'' (TInt I32 True),
    Plain ''dev'' (TPtr ''struct net_device''),
    Plain ''gw'' (TUnion '''' False [
      Plain ''ipv4'' td___be32,
      Plain ''ipv6'' st_in6_addr]),
    Plain ''nh_grp'' (TPtr ''struct nlattr''),
    Plain ''nh_grp_type'' td_u16,
    Plain ''nh_grp_res_num_buckets'' td_u16,
    Plain ''nh_grp_res_idle_timer'' (TInt I64 False),
    Plain ''nh_grp_res_unbalanced_timer'' (TInt I64 False),
    Plain ''nh_grp_res_has_num_buckets'' td_bool,
    Plain ''nh_grp_res_has_idle_timer'' td_bool,
    Plain ''nh_grp_res_has_unbalanced_timer'' td_bool,
    Plain ''nh_hw_stats'' td_bool,
    Plain ''nh_encap'' (TPtr ''struct nlattr''),
    Plain ''nh_encap_type'' td_u16,
    Plain ''nlflags'' td_u32,
    Plain ''nlinfo'' st_nl_info]"

definition st_nh_grp_entry :: ty where
  "st_nh_grp_entry = TStruct ''nh_grp_entry'' False [
    Plain ''nh'' (TPtr ''struct nexthop''),
    Plain ''stats'' (TPtr ''struct nh_grp_entry_stats''),
    Plain ''weight'' td_u16,
    Plain '''' (TUnion '''' False [
      Plain ''hthr'' (TStruct '''' False [
        Plain ''upper_bound'' td_atomic_t]),
      Plain ''res'' (TStruct '''' False [
        Plain ''uw_nh_entry'' st_list_head,
        Plain ''count_buckets'' td_u16,
        Plain ''wants_buckets'' td_u16])]),
    Plain ''nh_list'' st_list_head,
    Plain ''nh_parent'' (TPtr ''struct nexthop''),
    Plain ''packets_hw'' td_u64]"

definition st_ohci_regs :: ty where
  "st_ohci_regs = TStruct ''ohci_regs'' False [
    Plain ''revision'' td___hc32,
    Plain ''control'' td___hc32,
    Plain ''cmdstatus'' td___hc32,
    Plain ''intrstatus'' td___hc32,
    Plain ''intrenable'' td___hc32,
    Plain ''intrdisable'' td___hc32,
    Plain ''hcca'' td___hc32,
    Plain ''ed_periodcurrent'' td___hc32,
    Plain ''ed_controlhead'' td___hc32,
    Plain ''ed_controlcurrent'' td___hc32,
    Plain ''ed_bulkhead'' td___hc32,
    Plain ''ed_bulkcurrent'' td___hc32,
    Plain ''donehead'' td___hc32,
    Plain ''fminterval'' td___hc32,
    Plain ''fmremaining'' td___hc32,
    Plain ''fmnumber'' td___hc32,
    Plain ''periodicstart'' td___hc32,
    Plain ''lsthresh'' td___hc32,
    Plain ''roothub'' st_ohci_roothub_regs,
    Bits '''' (TInt I64 True) 64,
    Bits '''' (TInt I64 True) 64]"

definition st_old_timex32 :: ty where
  "st_old_timex32 = TStruct ''old_timex32'' False [
    Plain ''modes'' td_u32,
    Plain ''offset'' td_s32,
    Plain ''freq'' td_s32,
    Plain ''maxerror'' td_s32,
    Plain ''esterror'' td_s32,
    Plain ''status'' td_s32,
    Plain ''constant'' td_s32,
    Plain ''precision'' td_s32,
    Plain ''tolerance'' td_s32,
    Plain ''time'' st_old_timeval32,
    Plain ''tick'' td_s32,
    Plain ''ppsfreq'' td_s32,
    Plain ''jitter'' td_s32,
    Plain ''shift'' td_s32,
    Plain ''stabil'' td_s32,
    Plain ''jitcnt'' td_s32,
    Plain ''calcnt'' td_s32,
    Plain ''errcnt'' td_s32,
    Plain ''stbcnt'' td_s32,
    Plain ''tai'' td_s32,
    Bits '''' (TInt I64 True) 64,
    Bits '''' (TInt I64 True) 64,
    Bits '''' (TInt I64 True) 64,
    Bits '''' (TInt I64 True) 64,
    Bits '''' (TInt I64 True) 64]"

definition st_parsed_resp :: ty where
  "st_parsed_resp = TStruct ''parsed_resp'' False [
    Plain ''num'' (TInt I32 True),
    Plain ''toks'' (TArr st_opal_resp_tok 64)]"

definition un_tpacket_stats_u :: ty where
  "un_tpacket_stats_u = TUnion ''tpacket_stats_u'' False [
    Plain ''stats1'' st_tpacket_stats,
    Plain ''stats3'' st_tpacket_stats_v3]"

definition st_page_pool_params :: ty where
  "st_page_pool_params = TStruct ''page_pool_params'' False [
    Plain '''' (TUnion '''' False [
      Plain '''' (TStruct '''' False [
        Plain ''order'' (TInt I32 False),
        Plain ''pool_size'' (TInt I32 False),
        Plain ''nid'' (TInt I32 True),
        Plain ''dev'' (TPtr ''struct device''),
        Plain ''napi'' (TPtr ''struct napi_struct''),
        Plain ''dma_dir'' (TEnum ''dma_data_direction'' I32),
        Plain ''max_len'' (TInt I32 False),
        Plain ''offset'' (TInt I32 False)]),
      Plain ''fast'' st_page_pool_params_fast]),
    Plain '''' (TUnion '''' False [
      Plain '''' (TStruct '''' False [
        Plain ''netdev'' (TPtr ''struct net_device''),
        Plain ''queue_idx'' (TInt I32 False),
        Plain ''flags'' (TInt I32 False),
        Plain ''init_callback'' (TFun ''void (*)(netmem_ref, void *)''),
        Plain ''init_arg'' (TPtr ''void'')]),
      Plain ''slow'' st_page_pool_params_slow])]"

definition st_pcie_link_state :: ty where
  "st_pcie_link_state = TStruct ''pcie_link_state'' False [
    Plain ''pdev'' (TPtr ''struct pci_dev''),
    Plain ''downstream'' (TPtr ''struct pci_dev''),
    Plain ''root'' (TPtr ''struct pcie_link_state''),
    Plain ''parent'' (TPtr ''struct pcie_link_state''),
    Plain ''sibling'' st_list_head,
    Bits ''aspm_support'' td_u32 7,
    Bits ''aspm_enabled'' td_u32 7,
    Bits ''aspm_capable'' td_u32 7,
    Bits ''aspm_default'' td_u32 7,
    Bits '''' (TInt I32 True) 4,
    Bits ''aspm_disable'' td_u32 7,
    Bits ''clkpm_capable'' td_u32 1,
    Bits ''clkpm_enabled'' td_u32 1,
    Bits ''clkpm_default'' td_u32 1,
    Bits ''clkpm_disable'' td_u32 1]"

definition st_pcpu_chunk :: ty where
  "st_pcpu_chunk = TStruct ''pcpu_chunk'' False [
    Plain ''list'' st_list_head,
    Plain ''free_bytes'' (TInt I32 True),
    Plain ''chunk_md'' st_pcpu_block_md,
    Plain ''bound_map'' (TPtr ''long unsigned int''),
    Plain ''base_addr'' (TPtr ''void''),
    Plain ''alloc_map'' (TPtr ''long unsigned int''),
    Plain ''md_blocks'' (TPtr ''struct pcpu_block_md''),
    Plain ''data'' (TPtr ''void''),
    Plain ''immutable'' td_bool,
    Plain ''isolated'' td_bool,
    Plain ''start_offset'' (TInt I32 True),
    Plain ''end_offset'' (TInt I32 True),
    Plain ''obj_exts'' (TPtr ''struct pcpuobj_ext''),
    Plain ''nr_pages'' (TInt I32 True),
    Plain ''nr_populated'' (TInt I32 True),
    Plain ''nr_empty_pop_pages'' (TInt I32 True),
    Plain ''populated'' (TArr (TInt I64 False) 0),
    Bits '''' (TInt I64 True) 64,
    Bits '''' (TInt I64 True) 64,
    Bits '''' (TInt I64 True) 64,
    Bits '''' (TInt I64 True) 64,
    Bits '''' (TInt I64 True) 64,
    Bits '''' (TInt I64 True) 64,
    Bits '''' (TInt I64 True) 64]"

definition st_perf_event_groups :: ty where
  "st_perf_event_groups = TStruct ''perf_event_groups'' False [
    Plain ''tree'' st_rb_root,
    Plain ''index'' td_u64]"

definition st_perf_event_pmu_context :: ty where
  "st_perf_event_pmu_context = TStruct ''perf_event_pmu_context'' False [
    Plain ''pmu'' (TPtr ''struct pmu''),
    Plain ''ctx'' (TPtr ''struct perf_event_context''),
    Plain ''pmu_ctx_entry'' st_list_head,
    Plain ''pinned_active'' st_list_head,
    Plain ''flexible_active'' st_list_head,
    Bits ''embedded'' (TInt I32 False) 1,
    Plain ''nr_events'' (TInt I32 False),
    Plain ''nr_cgroups'' (TInt I32 False),
    Plain ''nr_freq'' (TInt I32 False),
    Plain ''refcount'' td_atomic_t,
    Plain ''callback_head'' st_callback_head,
    Plain ''rotate_necessary'' (TInt I32 True)]"

definition st_perf_mmap_event :: ty where
  "st_perf_mmap_event = TStruct ''perf_mmap_event'' False [
    Plain ''vma'' (TPtr ''struct vm_area_struct''),
    Plain ''file_name'' (TPtr ''char''),
    Plain ''file_size'' (TInt I32 True),
    Plain ''maj'' (TInt I32 True),
    Plain ''min'' (TInt I32 True),
    Plain ''ino'' td_u64,
    Plain ''ino_generation'' td_u64,
    Plain ''prot'' td_u32,
    Plain ''flags'' td_u32,
    Plain ''build_id'' (TArr td_u8 20),
    Plain ''build_id_size'' td_u32,
    Plain ''event_id'' (TStruct '''' False [
      Plain ''header'' st_perf_event_header,
      Plain ''pid'' td_u32,
      Plain ''tid'' td_u32,
      Plain ''start'' td_u64,
      Plain ''len'' td_u64,
      Plain ''pgoff'' td_u64])]"

definition st_phy_port :: ty where
  "st_phy_port = TStruct ''phy_port'' False [
    Plain ''head'' st_list_head,
    Plain ''parent_type'' (TEnum ''phy_port_parent'' I32),
    Plain '''' (TUnion '''' False [
      Plain ''phy'' (TPtr ''struct phy_device'')]),
    Plain ''ops'' (TPtr ''struct phy_port_ops''),
    Plain ''pairs'' (TInt I32 True),
    Plain ''mediums'' (TInt I64 False),
    Plain ''supported'' (TArr (TInt I64 False) 2),
    Plain ''interfaces'' (TArr (TInt I64 False) 1),
    Bits ''not_described'' (TInt I32 False) 1,
    Bits ''active'' (TInt I32 False) 1,
    Bits ''is_mii'' (TInt I32 False) 1,
    Bits ''is_sfp'' (TInt I32 False) 1]"

definition st_pldmfw_component :: ty where
  "st_pldmfw_component = TStruct ''pldmfw_component'' False [
    Plain ''entry'' st_list_head,
    Plain ''classification'' td_u16,
    Plain ''identifier'' td_u16,
    Plain ''options'' td_u16,
    Plain ''activation_method'' td_u16,
    Plain ''comparison_stamp'' td_u32,
    Plain ''component_size'' td_u32,
    Plain ''component_data'' (TPtr ''u8''),
    Plain ''version_string'' (TPtr ''u8''),
    Plain ''version_type'' td_u8,
    Plain ''version_len'' td_u8,
    Plain ''index'' td_u8]"

definition st_pldmfw_priv :: ty where
  "st_pldmfw_priv = TStruct ''pldmfw_priv'' False [
    Plain ''context'' (TPtr ''struct pldmfw''),
    Plain ''fw'' (TPtr ''struct firmware''),
    Plain ''offset'' td_size_t,
    Plain ''records'' st_list_head,
    Plain ''components'' st_list_head,
    Plain ''header'' (TPtr ''struct __pldm_header''),
    Plain ''total_header_size'' td_u16,
    Plain ''component_bitmap_len'' td_u16,
    Plain ''bitmap_size'' td_u16,
    Plain ''component_count'' td_u16,
    Plain ''component_start'' (TPtr ''u8''),
    Plain ''record_start'' (TPtr ''u8''),
    Plain ''record_count'' td_u8,
    Plain ''header_crc'' td_u32,
    Plain ''matching_record'' (TPtr ''struct pldmfw_record'')]"

definition st_pneigh_entry :: ty where
  "st_pneigh_entry = TStruct ''pneigh_entry'' False [
    Plain ''next'' (TPtr ''struct pneigh_entry''),
    Plain ''net'' td_possible_net_t,
    Plain ''dev'' (TPtr ''struct net_device''),
    Plain ''dev_tracker'' td_netdevice_tracker,
    Plain '''' (TUnion '''' False [
      Plain ''free_node'' st_list_head,
      Plain ''rcu'' st_callback_head]),
    Plain ''flags'' td_u32,
    Plain ''protocol'' td_u8,
    Plain ''permanent'' td_bool,
    Plain ''key'' (TArr td_u32 0)]"

definition st_port_identity :: ty where
  "st_port_identity = TStruct ''port_identity'' False [
    Plain ''clock_identity'' st_clock_identity,
    Plain ''port_number'' td___be16]"

definition st_prefix_info :: ty where
  "st_prefix_info = TStruct ''prefix_info'' False [
    Plain ''type'' td___u8,
    Plain ''length'' td___u8,
    Plain ''prefix_len'' td___u8,
    Plain '''' (TUnion '''' False [
      Plain ''flags'' td___u8,
      Plain '''' (TStruct '''' False [
        Bits ''reserved'' td___u8 4,
        Bits ''preferpd'' td___u8 1,
        Bits ''routeraddr'' td___u8 1,
        Bits ''autoconf'' td___u8 1,
        Bits ''onlink'' td___u8 1])]),
    Plain ''valid'' td___be32,
    Plain ''prefered'' td___be32,
    Plain ''reserved2'' td___be32,
    Plain ''prefix'' st_in6_addr]"

definition st_pstore_record :: ty where
  "st_pstore_record = TStruct ''pstore_record'' False [
    Plain ''psi'' (TPtr ''struct pstore_info''),
    Plain ''type'' (TEnum ''pstore_type_id'' I32),
    Plain ''id'' td_u64,
    Plain ''time'' st_timespec64,
    Plain ''buf'' (TPtr ''char''),
    Plain ''size'' td_ssize_t,
    Plain ''ecc_notice_size'' td_ssize_t,
    Plain ''priv'' (TPtr ''void''),
    Plain ''count'' (TInt I32 True),
    Plain ''reason'' (TEnum ''kmsg_dump_reason'' I32),
    Plain ''part'' (TInt I32 False),
    Plain ''compressed'' td_bool]"

definition st_pt_buffer :: ty where
  "st_pt_buffer = TStruct ''pt_buffer'' False [
    Plain ''tables'' st_list_head,
    Plain ''first'' (TPtr ''struct topa''),
    Plain ''last'' (TPtr ''struct topa''),
    Plain ''cur'' (TPtr ''struct topa''),
    Plain ''cur_idx'' (TInt I32 False),
    Plain ''output_off'' td_size_t,
    Plain ''nr_pages'' (TInt I64 False),
    Plain ''data_size'' td_local_t,
    Plain ''head'' td_local64_t,
    Plain ''snapshot'' td_bool,
    Plain ''single'' td_bool,
    Plain ''wrapped'' td_bool,
    Plain ''stop_pos'' (TInt I64 True),
    Plain ''intr_pos'' (TInt I64 True),
    Plain ''stop_te'' (TPtr ''struct topa_entry''),
    Plain ''intr_te'' (TPtr ''struct topa_entry''),
    Plain ''data_pages'' (TPtr ''void *'')]"

definition st_queue_limits :: ty where
  "st_queue_limits = TStruct ''queue_limits'' False [
    Plain ''features'' td_blk_features_t,
    Plain ''flags'' td_blk_flags_t,
    Plain ''seg_boundary_mask'' (TInt I64 False),
    Plain ''virt_boundary_mask'' (TInt I64 False),
    Plain ''max_hw_sectors'' (TInt I32 False),
    Plain ''max_dev_sectors'' (TInt I32 False),
    Plain ''chunk_sectors'' (TInt I32 False),
    Plain ''max_sectors'' (TInt I32 False),
    Plain ''max_user_sectors'' (TInt I32 False),
    Plain ''max_segment_size'' (TInt I32 False),
    Plain ''max_fast_segment_size'' (TInt I32 False),
    Plain ''physical_block_size'' (TInt I32 False),
    Plain ''logical_block_size'' (TInt I32 False),
    Plain ''alignment_offset'' (TInt I32 False),
    Plain ''io_min'' (TInt I32 False),
    Plain ''io_opt'' (TInt I32 False),
    Plain ''max_discard_sectors'' (TInt I32 False),
    Plain ''max_hw_discard_sectors'' (TInt I32 False),
    Plain ''max_user_discard_sectors'' (TInt I32 False),
    Plain ''max_secure_erase_sectors'' (TInt I32 False),
    Plain ''max_write_zeroes_sectors'' (TInt I32 False),
    Plain ''max_wzeroes_unmap_sectors'' (TInt I32 False),
    Plain ''max_hw_wzeroes_unmap_sectors'' (TInt I32 False),
    Plain ''max_user_wzeroes_unmap_sectors'' (TInt I32 False),
    Plain ''max_hw_zone_append_sectors'' (TInt I32 False),
    Plain ''max_zone_append_sectors'' (TInt I32 False),
    Plain ''discard_granularity'' (TInt I32 False),
    Plain ''discard_alignment'' (TInt I32 False),
    Plain ''zone_write_granularity'' (TInt I32 False),
    Plain ''atomic_write_hw_max'' (TInt I32 False),
    Plain ''atomic_write_max_sectors'' (TInt I32 False),
    Plain ''atomic_write_hw_boundary'' (TInt I32 False),
    Plain ''atomic_write_boundary_sectors'' (TInt I32 False),
    Plain ''atomic_write_hw_unit_min'' (TInt I32 False),
    Plain ''atomic_write_unit_min'' (TInt I32 False),
    Plain ''atomic_write_hw_unit_max'' (TInt I32 False),
    Plain ''atomic_write_unit_max'' (TInt I32 False),
    Plain ''max_segments'' (TInt I16 False),
    Plain ''max_integrity_segments'' (TInt I16 False),
    Plain ''max_discard_segments'' (TInt I16 False),
    Plain ''max_write_streams'' (TInt I16 False),
    Plain ''write_stream_granularity'' (TInt I32 False),
    Plain ''max_open_zones'' (TInt I32 False),
    Plain ''max_active_zones'' (TInt I32 False),
    Plain ''dma_alignment'' (TInt I32 False),
    Plain ''dma_pad_mask'' (TInt I32 False),
    Plain ''integrity'' st_blk_integrity]"

definition td_rb_time_t :: ty where
  "td_rb_time_t = st_rb_time_struct"

definition st_sr_wait_node :: ty where
  "st_sr_wait_node = TStruct ''sr_wait_node'' False [
    Plain ''inuse'' td_atomic_t,
    Plain ''node'' st_llist_node]"

definition st_spi_message :: ty where
  "st_spi_message = TStruct ''spi_message'' False [
    Plain ''transfers'' st_list_head,
    Plain ''spi'' (TPtr ''struct spi_device''),
    Plain ''pre_optimized'' td_bool,
    Plain ''optimized'' td_bool,
    Plain ''prepared'' td_bool,
    Plain ''status'' (TInt I32 True),
    Plain ''complete'' (TFun ''void (*)(void *)''),
    Plain ''context'' (TPtr ''void''),
    Plain ''frame_length'' (TInt I32 False),
    Plain ''actual_length'' (TInt I32 False),
    Plain ''queue'' st_list_head,
    Plain ''state'' (TPtr ''void''),
    Plain ''opt_state'' (TPtr ''void''),
    Plain ''offload'' (TPtr ''struct spi_offload''),
    Plain ''resources'' st_list_head]"

definition st_spi_transfer :: ty where
  "st_spi_transfer = TStruct ''spi_transfer'' False [
    Plain ''tx_buf'' (TPtr ''void''),
    Plain ''rx_buf'' (TPtr ''void''),
    Plain ''len'' (TInt I32 False),
    Plain ''error'' td_u16,
    Plain ''tx_sg_mapped'' td_bool,
    Plain ''rx_sg_mapped'' td_bool,
    Plain ''tx_sg'' st_sg_table,
    Plain ''rx_sg'' st_sg_table,
    Plain ''tx_dma'' td_dma_addr_t,
    Plain ''rx_dma'' td_dma_addr_t,
    Bits ''dummy_data'' (TInt I32 False) 1,
    Bits ''cs_off'' (TInt I32 False) 1,
    Bits ''cs_change'' (TInt I32 False) 1,
    Bits ''tx_nbits'' (TInt I32 False) 4,
    Bits ''rx_nbits'' (TInt I32 False) 4,
    Bits ''multi_lane_mode'' (TInt I32 False) 2,
    Bits ''timestamped'' (TInt I32 False) 1,
    Plain ''dtr_mode'' td_bool,
    Plain ''bits_per_word'' td_u8,
    Plain ''delay'' st_spi_delay,
    Plain ''cs_change_delay'' st_spi_delay,
    Plain ''word_delay'' st_spi_delay,
    Plain ''speed_hz'' td_u32,
    Plain ''effective_speed_hz'' td_u32,
    Plain ''offload_flags'' (TInt I32 False),
    Plain ''ptp_sts_word_pre'' (TInt I32 False),
    Plain ''ptp_sts_word_post'' (TInt I32 False),
    Plain ''ptp_sts'' (TPtr ''struct ptp_system_timestamp''),
    Plain ''transfer_list'' st_list_head]"

definition st_request :: ty where
  "st_request = TStruct ''request'' False [
    Plain ''q'' (TPtr ''struct request_queue''),
    Plain ''mq_ctx'' (TPtr ''struct blk_mq_ctx''),
    Plain ''mq_hctx'' (TPtr ''struct blk_mq_hw_ctx''),
    Plain ''cmd_flags'' td_blk_opf_t,
    Plain ''rq_flags'' td_req_flags_t,
    Plain ''tag'' (TInt I32 True),
    Plain ''internal_tag'' (TInt I32 True),
    Plain ''timeout'' (TInt I32 False),
    Plain ''__data_len'' (TInt I32 False),
    Plain ''__sector'' td_sector_t,
    Plain ''bio'' (TPtr ''struct bio''),
    Plain ''biotail'' (TPtr ''struct bio''),
    Plain '''' (TUnion '''' False [
      Plain ''queuelist'' st_list_head,
      Plain ''rq_next'' (TPtr ''struct request'')]),
    Plain ''part'' (TPtr ''struct block_device''),
    Plain ''alloc_time_ns'' td_u64,
    Plain ''start_time_ns'' td_u64,
    Plain ''io_start_time_ns'' td_u64,
    Plain ''wbt_flags'' (TInt I16 False),
    Plain ''stats_sectors'' (TInt I16 False),
    Plain ''nr_phys_segments'' (TInt I16 False),
    Plain ''nr_integrity_segments'' (TInt I16 False),
    Plain ''phys_gap_bit'' (TInt I8 False),
    Plain ''crypt_ctx'' (TPtr ''struct bio_crypt_ctx''),
    Plain ''crypt_keyslot'' (TPtr ''struct blk_crypto_keyslot''),
    Plain ''state'' (TEnum ''mq_rq_state'' I32),
    Plain ''ref'' td_atomic_t,
    Plain ''deadline'' (TInt I64 False),
    Plain '''' (TUnion '''' False [
      Plain ''hash'' st_hlist_node,
      Plain ''ipi_list'' st_llist_node]),
    Plain '''' (TUnion '''' False [
      Plain ''rb_node'' st_rb_node,
      Plain ''special_vec'' st_bio_vec]),
    Plain ''elv'' (TStruct '''' False [
      Plain ''icq'' (TPtr ''struct io_cq''),
      Plain ''priv'' (TArr (TPtr ''void'') 2)]),
    Plain ''flush'' (TStruct '''' False [
      Plain ''seq'' (TInt I32 False),
      Plain ''saved_end_io'' (TPtr ''rq_end_io_fn'')]),
    Plain ''fifo_time'' td_u64,
    Plain ''end_io'' (TPtr ''rq_end_io_fn''),
    Plain ''end_io_data'' (TPtr ''void'')]"

definition st_restart_block :: ty where
  "st_restart_block = TStruct ''restart_block'' False [
    Plain ''arch_data'' (TInt I64 False),
    Plain ''fn'' (TFun ''long int (*)(struct restart_block *)''),
    Plain '''' (TUnion '''' False [
      Plain ''futex'' (TStruct '''' False [
        Plain ''uaddr'' (TPtr ''u32''),
        Plain ''val'' td_u32,
        Plain ''flags'' td_u32,
        Plain ''bitset'' td_u32,
        Plain ''time'' td_ktime_t,
        Plain ''uaddr2'' (TPtr ''u32'')]),
      Plain ''nanosleep'' (TStruct '''' False [
        Plain ''clockid'' td_clockid_t,
        Plain ''type'' (TEnum ''timespec_type'' I32),
        Plain '''' (TUnion '''' False [
          Plain ''rmtp'' (TPtr ''struct __kernel_timespec''),
          Plain ''compat_rmtp'' (TPtr ''struct old_timespec32'')]),
        Plain ''expires'' td_ktime_t]),
      Plain ''poll'' (TStruct '''' False [
        Plain ''ufds'' (TPtr ''struct pollfd''),
        Plain ''nfds'' (TInt I32 True),
        Plain ''has_timeout'' (TInt I32 True),
        Plain ''end_time'' st_timespec64])])]"

definition st_return_instance :: ty where
  "st_return_instance = TStruct ''return_instance'' False [
    Plain ''hprobe'' st_hprobe,
    Plain ''func'' (TInt I64 False),
    Plain ''stack'' (TInt I64 False),
    Plain ''orig_ret_vaddr'' (TInt I64 False),
    Plain ''chained'' td_bool,
    Plain ''cons_cnt'' (TInt I32 True),
    Plain ''next'' (TPtr ''struct return_instance''),
    Plain ''rcu'' st_callback_head,
    Plain ''consumer'' st_return_consumer,
    Plain ''extra_consumers'' (TPtr ''struct return_consumer''),
    Bits '''' (TInt I64 True) 64,
    Bits '''' (TInt I64 True) 64,
    Bits '''' (TInt I64 True) 64,
    Bits '''' (TInt I64 True) 64]"

definition st_rpc_pipe_dir_head :: ty where
  "st_rpc_pipe_dir_head = TStruct ''rpc_pipe_dir_head'' False [
    Plain ''pdh_entries'' st_list_head,
    Plain ''pdh_dentry'' (TPtr ''struct dentry'')]"

definition st_xdr_buf :: ty where
  "st_xdr_buf = TStruct ''xdr_buf'' False [
    Plain ''head'' (TArr st_kvec 1),
    Plain ''tail'' (TArr st_kvec 1),
    Plain ''bvec'' (TPtr ''struct bio_vec''),
    Plain ''pages'' (TPtr ''struct page *''),
    Plain ''page_base'' (TInt I32 False),
    Plain ''page_len'' (TInt I32 False),
    Plain ''flags'' (TInt I32 False),
    Plain ''buflen'' (TInt I32 False),
    Plain ''len'' (TInt I32 False)]"

definition st_rproc_mem_entry :: ty where
  "st_rproc_mem_entry = TStruct ''rproc_mem_entry'' False [
    Plain ''va'' (TPtr ''void''),
    Plain ''is_iomem'' td_bool,
    Plain ''dma'' td_dma_addr_t,
    Plain ''len'' td_size_t,
    Plain ''da'' td_u32,
    Plain ''priv'' (TPtr ''void''),
    Plain ''name'' (TArr (TInt I8 True) 32),
    Plain ''node'' st_list_head,
    Plain ''rsc_offset'' td_u32,
    Plain ''flags'' td_u32,
    Plain ''of_resm_idx'' td_u32,
    Plain ''alloc'' (TFun ''int (*)(struct rproc *, struct rproc_mem_entry *)''),
    Plain ''release'' (TFun ''int (*)(struct rproc *, struct rproc_mem_entry *)'')]"

definition st_uclamp_rq :: ty where
  "st_uclamp_rq = TStruct ''uclamp_rq'' False [
    Plain ''value'' (TInt I32 False),
    Plain ''bucket'' (TArr st_uclamp_bucket 5)]"

definition st_rt_prio_array :: ty where
  "st_rt_prio_array = TStruct ''rt_prio_array'' False [
    Plain ''bitmap'' (TArr (TInt I64 False) 2),
    Plain ''queue'' (TArr st_list_head 100)]"

definition st_sched_info :: ty where
  "st_sched_info = TStruct ''sched_info'' False [
    Plain ''pcount'' (TInt I64 False),
    Plain ''run_delay'' (TInt I64 False),
    Plain ''max_run_delay'' (TInt I64 False),
    Plain ''min_run_delay'' (TInt I64 False),
    Plain ''last_arrival'' (TInt I64 False),
    Plain ''last_queued'' (TInt I64 False),
    Plain ''max_run_delay_ts'' st_timespec64]"

definition st_rseq :: ty where
  "st_rseq = TStruct ''rseq'' False [
    Plain ''cpu_id_start'' td___u32,
    Plain ''cpu_id'' td___u32,
    Plain ''rseq_cs'' td___u64,
    Plain ''flags'' td___u32,
    Plain ''node_id'' td___u32,
    Plain ''mm_cid'' td___u32,
    Plain ''slice_ctrl'' st_rseq_slice_ctrl,
    Plain ''__reserved'' td___u8,
    Plain ''end'' (TArr (TInt I8 True) 0),
    Bits '''' (TInt I64 True) 64,
    Bits '''' (TInt I64 True) 64,
    Bits '''' (TInt I64 True) 64]"

definition st_rtentry :: ty where
  "st_rtentry = TStruct ''rtentry'' False [
    Plain ''rt_pad1'' (TInt I64 False),
    Plain ''rt_dst'' st_sockaddr,
    Plain ''rt_gateway'' st_sockaddr,
    Plain ''rt_genmask'' st_sockaddr,
    Plain ''rt_flags'' (TInt I16 False),
    Plain ''rt_pad2'' (TInt I16 True),
    Plain ''rt_pad3'' (TInt I64 False),
    Plain ''rt_pad4'' (TPtr ''void''),
    Plain ''rt_metric'' (TInt I16 True),
    Plain ''rt_dev'' (TPtr ''char''),
    Plain ''rt_mtu'' (TInt I64 False),
    Plain ''rt_window'' (TInt I64 False),
    Plain ''rt_irtt'' (TInt I16 False)]"

definition st_rusage :: ty where
  "st_rusage = TStruct ''rusage'' False [
    Plain ''ru_utime'' st___kernel_old_timeval,
    Plain ''ru_stime'' st___kernel_old_timeval,
    Plain ''ru_maxrss'' td___kernel_long_t,
    Plain ''ru_ixrss'' td___kernel_long_t,
    Plain ''ru_idrss'' td___kernel_long_t,
    Plain ''ru_isrss'' td___kernel_long_t,
    Plain ''ru_minflt'' td___kernel_long_t,
    Plain ''ru_majflt'' td___kernel_long_t,
    Plain ''ru_nswap'' td___kernel_long_t,
    Plain ''ru_inblock'' td___kernel_long_t,
    Plain ''ru_oublock'' td___kernel_long_t,
    Plain ''ru_msgsnd'' td___kernel_long_t,
    Plain ''ru_msgrcv'' td___kernel_long_t,
    Plain ''ru_nsignals'' td___kernel_long_t,
    Plain ''ru_nvcsw'' td___kernel_long_t,
    Plain ''ru_nivcsw'' td___kernel_long_t]"

definition st_scan_control :: ty where
  "st_scan_control = TStruct ''scan_control'' False [
    Plain ''nr_to_reclaim'' (TInt I64 False),
    Plain ''nodemask'' (TPtr ''nodemask_t''),
    Plain ''target_mem_cgroup'' (TPtr ''struct mem_cgroup''),
    Plain ''anon_cost'' (TInt I64 False),
    Plain ''file_cost'' (TInt I64 False),
    Plain ''proactive_swappiness'' (TPtr ''int''),
    Bits ''may_deactivate'' (TInt I32 False) 2,
    Bits ''force_deactivate'' (TInt I32 False) 1,
    Bits ''skipped_deactivate'' (TInt I32 False) 1,
    Bits ''may_writepage'' (TInt I32 False) 1,
    Bits ''may_unmap'' (TInt I32 False) 1,
    Bits ''may_swap'' (TInt I32 False) 1,
    Bits ''no_cache_trim_mode'' (TInt I32 False) 1,
    Bits ''cache_trim_mode_failed'' (TInt I32 False) 1,
    Bits ''proactive'' (TInt I32 False) 1,
    Bits ''memcg_low_reclaim'' (TInt I32 False) 1,
    Bits ''memcg_low_skipped'' (TInt I32 False) 1,
    Bits ''memcg_full_walk'' (TInt I32 False) 1,
    Bits ''hibernation_mode'' (TInt I32 False) 1,
    Bits ''compaction_ready'' (TInt I32 False) 1,
    Bits ''cache_trim_mode'' (TInt I32 False) 1,
    Bits ''file_is_tiny'' (TInt I32 False) 1,
    Bits ''no_demotion'' (TInt I32 False) 1,
    Plain ''order'' td_s8,
    Plain ''priority'' td_s8,
    Plain ''reclaim_idx'' td_s8,
    Plain ''gfp_mask'' td_gfp_t,
    Plain ''nr_scanned'' (TInt I64 False),
    Plain ''nr_reclaimed'' (TInt I64 False),
    Plain ''nr'' (TStruct '''' False [
      Plain ''dirty'' (TInt I32 False),
      Plain ''unqueued_dirty'' (TInt I32 False),
      Plain ''congested'' (TInt I32 False),
      Plain ''writeback'' (TInt I32 False),
      Plain ''immediate'' (TInt I32 False),
      Plain ''file_taken'' (TInt I32 False),
      Plain ''taken'' (TInt I32 False)]),
    Plain ''reclaim_state'' st_reclaim_state]"

definition st_sched_domain :: ty where
  "st_sched_domain = TStruct ''sched_domain'' False [
    Plain ''parent'' (TPtr ''struct sched_domain''),
    Plain ''child'' (TPtr ''struct sched_domain''),
    Plain ''groups'' (TPtr ''struct sched_group''),
    Plain ''min_interval'' (TInt I64 False),
    Plain ''max_interval'' (TInt I64 False),
    Plain ''busy_factor'' (TInt I32 False),
    Plain ''imbalance_pct'' (TInt I32 False),
    Plain ''cache_nice_tries'' (TInt I32 False),
    Plain ''imb_numa_nr'' (TInt I32 False),
    Plain ''nohz_idle'' (TInt I32 True),
    Plain ''flags'' (TInt I32 True),
    Plain ''level'' (TInt I32 True),
    Plain ''last_balance'' (TInt I64 False),
    Plain ''balance_interval'' (TInt I32 False),
    Plain ''nr_balance_failed'' (TInt I32 False),
    Plain ''newidle_call'' (TInt I32 False),
    Plain ''newidle_success'' (TInt I32 False),
    Plain ''newidle_ratio'' (TInt I32 False),
    Plain ''max_newidle_lb_cost'' td_u64,
    Plain ''last_decay_max_lb_cost'' (TInt I64 False),
    Plain ''lb_count'' (TArr (TInt I32 False) 3),
    Plain ''lb_failed'' (TArr (TInt I32 False) 3),
    Plain ''lb_balanced'' (TArr (TInt I32 False) 3),
    Plain ''lb_imbalance_load'' (TArr (TInt I32 False) 3),
    Plain ''lb_imbalance_util'' (TArr (TInt I32 False) 3),
    Plain ''lb_imbalance_task'' (TArr (TInt I32 False) 3),
    Plain ''lb_imbalance_misfit'' (TArr (TInt I32 False) 3),
    Plain ''lb_gained'' (TArr (TInt I32 False) 3),
    Plain ''lb_hot_gained'' (TArr (TInt I32 False) 3),
    Plain ''lb_nobusyg'' (TArr (TInt I32 False) 3),
    Plain ''lb_nobusyq'' (TArr (TInt I32 False) 3),
    Plain ''alb_count'' (TInt I32 False),
    Plain ''alb_failed'' (TInt I32 False),
    Plain ''alb_pushed'' (TInt I32 False),
    Plain ''sbe_count'' (TInt I32 False),
    Plain ''sbe_balanced'' (TInt I32 False),
    Plain ''sbe_pushed'' (TInt I32 False),
    Plain ''sbf_count'' (TInt I32 False),
    Plain ''sbf_balanced'' (TInt I32 False),
    Plain ''sbf_pushed'' (TInt I32 False),
    Plain ''ttwu_wake_remote'' (TInt I32 False),
    Plain ''ttwu_move_affine'' (TInt I32 False),
    Plain ''ttwu_move_balance'' (TInt I32 False),
    Plain ''name'' (TPtr ''char''),
    Plain '''' (TUnion '''' False [
      Plain ''private'' (TPtr ''void''),
      Plain ''rcu'' st_callback_head]),
    Plain ''shared'' (TPtr ''struct sched_domain_shared''),
    Plain ''span_weight'' (TInt I32 False),
    Plain ''span'' (TArr (TInt I64 False) 0)]"

definition st_sched_entity :: ty where
  "st_sched_entity = TStruct ''sched_entity'' False [
    Plain ''load'' st_load_weight,
    Plain ''run_node'' st_rb_node,
    Plain ''deadline'' td_u64,
    Plain ''min_vruntime'' td_u64,
    Plain ''min_slice'' td_u64,
    Plain ''max_slice'' td_u64,
    Plain ''group_node'' st_list_head,
    Plain ''on_rq'' (TInt I8 False),
    Plain ''sched_delayed'' (TInt I8 False),
    Plain ''rel_deadline'' (TInt I8 False),
    Plain ''custom_slice'' (TInt I8 False),
    Plain ''exec_start'' td_u64,
    Plain ''sum_exec_runtime'' td_u64,
    Plain ''prev_sum_exec_runtime'' td_u64,
    Plain ''vruntime'' td_u64,
    Plain ''vlag'' td_s64,
    Plain ''vprot'' td_u64,
    Plain ''slice'' td_u64,
    Plain ''nr_migrations'' td_u64,
    Plain ''depth'' (TInt I32 True),
    Plain ''parent'' (TPtr ''struct sched_entity''),
    Plain ''cfs_rq'' (TPtr ''struct cfs_rq''),
    Plain ''my_q'' (TPtr ''struct cfs_rq''),
    Plain ''runnable_weight'' (TInt I64 False),
    Bits '''' (TInt I64 True) 64,
    Bits '''' (TInt I64 True) 64,
    Bits '''' (TInt I64 True) 64,
    Bits '''' (TInt I64 True) 64,
    Bits '''' (TInt I64 True) 64,
    Bits '''' (TInt I64 True) 64,
    Bits '''' (TInt I64 True) 64,
    Plain ''avg'' st_sched_avg]"

definition st_scsi_data_buffer :: ty where
  "st_scsi_data_buffer = TStruct ''scsi_data_buffer'' False [
    Plain ''table'' st_sg_table,
    Plain ''length'' (TInt I32 False)]"

definition st_sctp_bind_addr :: ty where
  "st_sctp_bind_addr = TStruct ''sctp_bind_addr'' False [
    Plain ''port'' td___u16,
    Plain ''address_list'' st_list_head]"

definition st_sctp_stream :: ty where
  "st_sctp_stream = TStruct ''sctp_stream'' False [
    Plain ''out'' (TStruct '''' False [
      Plain ''tree'' st___genradix,
      Plain ''type'' (TArr st_sctp_stream_out 0)]),
    Plain ''in'' (TStruct '''' False [
      Plain ''tree'' st___genradix,
      Plain ''type'' (TArr st_sctp_stream_in 0)]),
    Plain ''outcnt'' td___u16,
    Plain ''incnt'' td___u16,
    Plain ''out_curr'' (TPtr ''struct sctp_stream_out''),
    Plain '''' (TUnion '''' False [
      Plain '''' (TStruct '''' False [
        Plain ''prio_list'' st_list_head]),
      Plain '''' (TStruct '''' False [
        Plain ''rr_list'' st_list_head,
        Plain ''rr_next'' (TPtr ''struct sctp_stream_out_ext'')]),
      Plain '''' (TStruct '''' False [
        Plain ''fc_list'' st_list_head])]),
    Plain ''si'' (TPtr ''struct sctp_stream_interleave'')]"

definition st_sctp_outq :: ty where
  "st_sctp_outq = TStruct ''sctp_outq'' False [
    Plain ''asoc'' (TPtr ''struct sctp_association''),
    Plain ''out_chunk_list'' st_list_head,
    Plain ''sched'' (TPtr ''struct sctp_sched_ops''),
    Plain ''out_qlen'' (TInt I32 False),
    Plain ''error'' (TInt I32 False),
    Plain ''control_chunk_list'' st_list_head,
    Plain ''sacked'' st_list_head,
    Plain ''retransmit'' st_list_head,
    Plain ''abandoned'' st_list_head,
    Plain ''outstanding_bytes'' td___u32,
    Plain ''fast_rtx'' (TInt I8 True),
    Plain ''cork'' (TInt I8 True)]"

definition st_sctp_priv_assoc_stats :: ty where
  "st_sctp_priv_assoc_stats = TStruct ''sctp_priv_assoc_stats'' False [
    Plain ''obs_rto_ipaddr'' st___kernel_sockaddr_storage,
    Plain ''max_obs_rto'' td___u64,
    Plain ''isacks'' td___u64,
    Plain ''osacks'' td___u64,
    Plain ''opackets'' td___u64,
    Plain ''ipackets'' td___u64,
    Plain ''rtxchunks'' td___u64,
    Plain ''outofseqtsns'' td___u64,
    Plain ''idupchunks'' td___u64,
    Plain ''gapcnt'' td___u64,
    Plain ''ouodchunks'' td___u64,
    Plain ''iuodchunks'' td___u64,
    Plain ''oodchunks'' td___u64,
    Plain ''iodchunks'' td___u64,
    Plain ''octrlchunks'' td___u64,
    Plain ''ictrlchunks'' td___u64]"

definition st_sctp_packet :: ty where
  "st_sctp_packet = TStruct ''sctp_packet'' False [
    Plain ''source_port'' td___u16,
    Plain ''destination_port'' td___u16,
    Plain ''vtag'' td___u32,
    Plain ''chunk_list'' st_list_head,
    Plain ''overhead'' td_size_t,
    Plain ''size'' td_size_t,
    Plain ''max_size'' td_size_t,
    Plain ''transport'' (TPtr ''struct sctp_transport''),
    Plain ''auth'' (TPtr ''struct sctp_chunk''),
    Bits ''has_cookie_echo'' td_u8 1,
    Bits ''has_sack'' td_u8 1,
    Bits ''has_auth'' td_u8 1,
    Bits ''has_data'' td_u8 1,
    Bits ''ipfragok'' td_u8 1]"

definition st_sctp_paddrparams :: ty where
  "st_sctp_paddrparams = TStruct ''sctp_paddrparams'' True [
    Plain ''spp_assoc_id'' td_sctp_assoc_t,
    Plain ''spp_address'' st___kernel_sockaddr_storage,
    Plain ''spp_hbinterval'' td___u32,
    Plain ''spp_pathmaxrxt'' td___u16,
    Plain ''spp_pathmtu'' td___u32,
    Plain ''spp_sackdelay'' td___u32,
    Plain ''spp_flags'' td___u32,
    Plain ''spp_ipv6_flowlabel'' td___u32,
    Plain ''spp_dscp'' td___u8,
    Bits '''' (TInt I32 True) 0]"

definition st_sctp_stream_out_ext :: ty where
  "st_sctp_stream_out_ext = TStruct ''sctp_stream_out_ext'' False [
    Plain ''abandoned_unsent'' (TArr td___u64 3),
    Plain ''abandoned_sent'' (TArr td___u64 3),
    Plain ''outq'' st_list_head,
    Plain '''' (TUnion '''' False [
      Plain '''' (TStruct '''' False [
        Plain ''prio_list'' st_list_head,
        Plain ''prio_head'' (TPtr ''struct sctp_stream_priorities'')]),
      Plain '''' (TStruct '''' False [
        Plain ''rr_list'' st_list_head]),
      Plain '''' (TStruct '''' False [
        Plain ''fc_list'' st_list_head,
        Plain ''fc_length'' td___u32,
        Plain ''fc_weight'' td___u16])])]"

definition st_sev_es_save_area :: ty where
  "st_sev_es_save_area = TStruct ''sev_es_save_area'' False [
    Plain ''es'' st_vmcb_seg,
    Plain ''cs'' st_vmcb_seg,
    Plain ''ss'' st_vmcb_seg,
    Plain ''ds'' st_vmcb_seg,
    Plain ''fs'' st_vmcb_seg,
    Plain ''gs'' st_vmcb_seg,
    Plain ''gdtr'' st_vmcb_seg,
    Plain ''ldtr'' st_vmcb_seg,
    Plain ''idtr'' st_vmcb_seg,
    Plain ''tr'' st_vmcb_seg,
    Plain ''pl0_ssp'' td_u64,
    Plain ''pl1_ssp'' td_u64,
    Plain ''pl2_ssp'' td_u64,
    Plain ''pl3_ssp'' td_u64,
    Plain ''u_cet'' td_u64,
    Plain ''reserved_0xc8'' (TArr td_u8 2),
    Plain ''vmpl'' td_u8,
    Plain ''cpl'' td_u8,
    Plain ''reserved_0xcc'' (TArr td_u8 4),
    Plain ''efer'' td_u64,
    Plain ''reserved_0xd8'' (TArr td_u8 104),
    Plain ''xss'' td_u64,
    Plain ''cr4'' td_u64,
    Plain ''cr3'' td_u64,
    Plain ''cr0'' td_u64,
    Plain ''dr7'' td_u64,
    Plain ''dr6'' td_u64,
    Plain ''rflags'' td_u64,
    Plain ''rip'' td_u64,
    Plain ''dr0'' td_u64,
    Plain ''dr1'' td_u64,
    Plain ''dr2'' td_u64,
    Plain ''dr3'' td_u64,
    Plain ''dr0_addr_mask'' td_u64,
    Plain ''dr1_addr_mask'' td_u64,
    Plain ''dr2_addr_mask'' td_u64,
    Plain ''dr3_addr_mask'' td_u64,
    Plain ''reserved_0x1c0'' (TArr td_u8 24),
    Plain ''rsp'' td_u64,
    Plain ''s_cet'' td_u64,
    Plain ''ssp'' td_u64,
    Plain ''isst_addr'' td_u64,
    Plain ''rax'' td_u64,
    Plain ''star'' td_u64,
    Plain ''lstar'' td_u64,
    Plain ''cstar'' td_u64,
    Plain ''sfmask'' td_u64,
    Plain ''kernel_gs_base'' td_u64,
    Plain ''sysenter_cs'' td_u64,
    Plain ''sysenter_esp'' td_u64,
    Plain ''sysenter_eip'' td_u64,
    Plain ''cr2'' td_u64,
    Plain ''reserved_0x248'' (TArr td_u8 32),
    Plain ''g_pat'' td_u64,
    Plain ''dbgctl'' td_u64,
    Plain ''br_from'' td_u64,
    Plain ''br_to'' td_u64,
    Plain ''last_excp_from'' td_u64,
    Plain ''last_excp_to'' td_u64,
    Plain ''reserved_0x298'' (TArr td_u8 80),
    Plain ''pkru'' td_u32,
    Plain ''tsc_aux'' td_u32,
    Plain ''tsc_scale'' td_u64,
    Plain ''tsc_offset'' td_u64,
    Plain ''reserved_0x300'' (TArr td_u8 8),
    Plain ''rcx'' td_u64,
    Plain ''rdx'' td_u64,
    Plain ''rbx'' td_u64,
    Plain ''reserved_0x320'' td_u64,
    Plain ''rbp'' td_u64,
    Plain ''rsi'' td_u64,
    Plain ''rdi'' td_u64,
    Plain ''r8'' td_u64,
    Plain ''r9'' td_u64,
    Plain ''r10'' td_u64,
    Plain ''r11'' td_u64,
    Plain ''r12'' td_u64,
    Plain ''r13'' td_u64,
    Plain ''r14'' td_u64,
    Plain ''r15'' td_u64,
    Plain ''reserved_0x380'' (TArr td_u8 16),
    Plain ''guest_exit_info_1'' td_u64,
    Plain ''guest_exit_info_2'' td_u64,
    Plain ''guest_exit_int_info'' td_u64,
    Plain ''guest_nrip'' td_u64,
    Plain ''sev_features'' td_u64,
    Plain ''vintr_ctrl'' td_u64,
    Plain ''guest_exit_code'' td_u64,
    Plain ''virtual_tom'' td_u64,
    Plain ''tlb_id'' td_u64,
    Plain ''pcpu_id'' td_u64,
    Plain ''event_inj'' td_u64,
    Plain ''xcr0'' td_u64,
    Plain ''reserved_0x3f0'' (TArr td_u8 16),
    Plain ''x87_dp'' td_u64,
    Plain ''mxcsr'' td_u32,
    Plain ''x87_ftw'' td_u16,
    Plain ''x87_fsw'' td_u16,
    Plain ''x87_fcw'' td_u16,
    Plain ''x87_fop'' td_u16,
    Plain ''x87_ds'' td_u16,
    Plain ''x87_cs'' td_u16,
    Plain ''x87_rip'' td_u64,
    Plain ''fpreg_x87'' (TArr td_u8 80),
    Plain ''fpreg_xmm'' (TArr td_u8 256),
    Plain ''fpreg_ymm'' (TArr td_u8 256)]"

definition st_shmem_options :: ty where
  "st_shmem_options = TStruct ''shmem_options'' False [
    Plain ''blocks'' (TInt I64 False),
    Plain ''inodes'' (TInt I64 False),
    Plain ''mpol'' (TPtr ''struct mempolicy''),
    Plain ''uid'' td_kuid_t,
    Plain ''gid'' td_kgid_t,
    Plain ''mode'' td_umode_t,
    Plain ''full_inums'' td_bool,
    Plain ''huge'' (TInt I32 True),
    Plain ''seen'' (TInt I32 True),
    Plain ''noswap'' td_bool,
    Plain ''quota_types'' (TInt I16 False),
    Plain ''qlimits'' st_shmem_quota_limits,
    Plain ''encoding'' (TPtr ''struct unicode_map''),
    Plain ''strict_encoding'' td_bool]"

definition st_sigpending :: ty where
  "st_sigpending = TStruct ''sigpending'' False [
    Plain ''list'' st_list_head,
    Plain ''signal'' td_sigset_t]"

definition st_thread_group_cputimer :: ty where
  "st_thread_group_cputimer = TStruct ''thread_group_cputimer'' False [
    Plain ''cputime_atomic'' st_task_cputime_atomic]"

definition st_sinit_mle_data :: ty where
  "st_sinit_mle_data = TStruct ''sinit_mle_data'' True [
    Plain ''version'' td_u32,
    Plain ''bios_acm_id'' st_sha1_hash,
    Plain ''edx_senter_flags'' td_u32,
    Plain ''mseg_valid'' td_u64,
    Plain ''sinit_hash'' st_sha1_hash,
    Plain ''mle_hash'' st_sha1_hash,
    Plain ''stm_hash'' st_sha1_hash,
    Plain ''lcp_policy_hash'' st_sha1_hash,
    Plain ''lcp_policy_control'' td_u32,
    Plain ''rlp_wakeup_addr'' td_u32,
    Plain ''reserved'' td_u32,
    Plain ''num_mdrs'' td_u32,
    Plain ''mdrs_off'' td_u32,
    Plain ''num_vtd_dmars'' td_u32,
    Plain ''vtd_dmars_off'' td_u32]"

definition td_skb_frag_t :: ty where
  "td_skb_frag_t = st_skb_frag"

definition st_skcipher_walk :: ty where
  "st_skcipher_walk = TStruct ''skcipher_walk'' False [
    Plain '''' (TUnion '''' False [
      Plain ''src'' (TStruct '''' False [
        Plain ''virt'' (TStruct '''' False [
          Plain ''addr'' (TPtr ''void'')])]),
      Plain ''in'' st_scatter_walk]),
    Plain '''' (TUnion '''' False [
      Plain ''dst'' (TStruct '''' False [
        Plain ''virt'' (TStruct '''' False [
          Plain ''addr'' (TPtr ''void'')])]),
      Plain ''out'' st_scatter_walk]),
    Plain ''nbytes'' (TInt I32 False),
    Plain ''total'' (TInt I32 False),
    Plain ''page'' (TPtr ''u8''),
    Plain ''buffer'' (TPtr ''u8''),
    Plain ''oiv'' (TPtr ''u8''),
    Plain ''iv'' (TPtr ''void''),
    Plain ''ivsize'' (TInt I32 False),
    Plain ''flags'' (TInt I32 True),
    Plain ''blocksize'' (TInt I32 False),
    Plain ''stride'' (TInt I32 False),
    Plain ''alignmask'' (TInt I32 False)]"

definition st_slab :: ty where
  "st_slab = TStruct ''slab'' False [
    Plain ''flags'' td_memdesc_flags_t,
    Plain ''slab_cache'' (TPtr ''struct kmem_cache''),
    Plain '''' (TUnion '''' False [
      Plain '''' (TStruct '''' False [
        Plain ''slab_list'' st_list_head,
        Plain '''' st_freelist_counters]),
      Plain ''callback_head'' st_callback_head]),
    Plain ''__page_type'' (TInt I32 False),
    Plain ''__page_refcount'' td_atomic_t,
    Plain ''obj_exts'' (TInt I64 False)]"

definition st_slab_sheaf :: ty where
  "st_slab_sheaf = TStruct ''slab_sheaf'' False [
    Plain '''' (TUnion '''' False [
      Plain ''callback_head'' st_callback_head,
      Plain ''barn_list'' st_list_head,
      Plain '''' (TStruct '''' False [
        Plain ''capacity'' (TInt I32 False),
        Plain ''pfmemalloc'' td_bool])]),
    Plain ''cache'' (TPtr ''struct kmem_cache''),
    Plain ''size'' (TInt I32 False),
    Plain ''node'' (TInt I32 True),
    Plain ''objects'' (TArr (TPtr ''void'') 0)]"

definition st_snp_secrets_page :: ty where
  "st_snp_secrets_page = TStruct ''snp_secrets_page'' False [
    Plain ''version'' td_u32,
    Bits ''imien'' td_u32 1,
    Bits ''rsvd1'' td_u32 31,
    Plain ''fms'' td_u32,
    Plain ''rsvd2'' td_u32,
    Plain ''gosvw'' (TArr td_u8 16),
    Plain ''vmpck0'' (TArr td_u8 32),
    Plain ''vmpck1'' (TArr td_u8 32),
    Plain ''vmpck2'' (TArr td_u8 32),
    Plain ''vmpck3'' (TArr td_u8 32),
    Plain ''os_area'' st_secrets_os_area,
    Plain ''vmsa_tweak_bitmap'' (TArr td_u8 64),
    Plain ''svsm_base'' td_u64,
    Plain ''svsm_size'' td_u64,
    Plain ''svsm_caa'' td_u64,
    Plain ''svsm_max_version'' td_u32,
    Plain ''svsm_guest_vmpl'' td_u8,
    Plain ''rsvd3'' (TArr td_u8 3),
    Plain ''tsc_factor'' td_u32,
    Plain ''rsvd4'' (TArr td_u8 3740)]"

definition st_spi_statistics :: ty where
  "st_spi_statistics = TStruct ''spi_statistics'' False [
    Plain ''syncp'' st_u64_stats_sync,
    Plain ''messages'' td_u64_stats_t,
    Plain ''transfers'' td_u64_stats_t,
    Plain ''errors'' td_u64_stats_t,
    Plain ''timedout'' td_u64_stats_t,
    Plain ''spi_sync'' td_u64_stats_t,
    Plain ''spi_sync_immediate'' td_u64_stats_t,
    Plain ''spi_async'' td_u64_stats_t,
    Plain ''bytes'' td_u64_stats_t,
    Plain ''bytes_rx'' td_u64_stats_t,
    Plain ''bytes_tx'' td_u64_stats_t,
    Plain ''transfer_bytes_histo'' (TArr td_u64_stats_t 17),
    Plain ''transfers_split_maxsize'' td_u64_stats_t]"

definition st_squashfs_ldir_inode :: ty where
  "st_squashfs_ldir_inode = TStruct ''squashfs_ldir_inode'' False [
    Plain ''inode_type'' td___le16,
    Plain ''mode'' td___le16,
    Plain ''uid'' td___le16,
    Plain ''guid'' td___le16,
    Plain ''mtime'' td___le32,
    Plain ''inode_number'' td___le32,
    Plain ''nlink'' td___le32,
    Plain ''file_size'' td___le32,
    Plain ''start_block'' td___le32,
    Plain ''parent_inode'' td___le32,
    Plain ''i_count'' td___le16,
    Plain ''offset'' td___le16,
    Plain ''xattr'' td___le32,
    Plain ''index'' (TArr st_squashfs_dir_index 0)]"

definition st_stats_reply_data :: ty where
  "st_stats_reply_data = TStruct ''stats_reply_data'' False [
    Plain ''base'' st_ethnl_reply_data,
    Plain '''' (TUnion '''' False [
      Plain '''' (TStruct '''' False [
        Plain ''phy_stats'' st_ethtool_eth_phy_stats,
        Plain ''mac_stats'' st_ethtool_eth_mac_stats,
        Plain ''ctrl_stats'' st_ethtool_eth_ctrl_stats,
        Plain ''rmon_stats'' st_ethtool_rmon_stats,
        Plain ''phydev_stats'' st_ethtool_phy_stats]),
      Plain ''stats'' (TStruct '''' False [
        Plain ''phy_stats'' st_ethtool_eth_phy_stats,
        Plain ''mac_stats'' st_ethtool_eth_mac_stats,
        Plain ''ctrl_stats'' st_ethtool_eth_ctrl_stats,
        Plain ''rmon_stats'' st_ethtool_rmon_stats,
        Plain ''phydev_stats'' st_ethtool_phy_stats])]),
    Plain ''rmon_ranges'' (TPtr ''struct ethtool_rmon_hist_range'')]"

definition st_statx :: ty where
  "st_statx = TStruct ''statx'' False [
    Plain ''stx_mask'' td___u32,
    Plain ''stx_blksize'' td___u32,
    Plain ''stx_attributes'' td___u64,
    Plain ''stx_nlink'' td___u32,
    Plain ''stx_uid'' td___u32,
    Plain ''stx_gid'' td___u32,
    Plain ''stx_mode'' td___u16,
    Plain ''__spare0'' (TArr td___u16 1),
    Plain ''stx_ino'' td___u64,
    Plain ''stx_size'' td___u64,
    Plain ''stx_blocks'' td___u64,
    Plain ''stx_attributes_mask'' td___u64,
    Plain ''stx_atime'' st_statx_timestamp,
    Plain ''stx_btime'' st_statx_timestamp,
    Plain ''stx_ctime'' st_statx_timestamp,
    Plain ''stx_mtime'' st_statx_timestamp,
    Plain ''stx_rdev_major'' td___u32,
    Plain ''stx_rdev_minor'' td___u32,
    Plain ''stx_dev_major'' td___u32,
    Plain ''stx_dev_minor'' td___u32,
    Plain ''stx_mnt_id'' td___u64,
    Plain ''stx_dio_mem_align'' td___u32,
    Plain ''stx_dio_offset_align'' td___u32,
    Plain ''stx_subvol'' td___u64,
    Plain ''stx_atomic_write_unit_min'' td___u32,
    Plain ''stx_atomic_write_unit_max'' td___u32,
    Plain ''stx_atomic_write_segments_max'' td___u32,
    Plain ''stx_dio_read_offset_align'' td___u32,
    Plain ''stx_atomic_write_unit_max_opt'' td___u32,
    Plain ''__spare2'' (TArr td___u32 1),
    Plain ''__spare3'' (TArr td___u64 8)]"

definition st_sun_vtoc :: ty where
  "st_sun_vtoc = TStruct ''sun_vtoc'' False [
    Plain ''version'' td___be32,
    Plain ''volume'' (TArr (TInt I8 True) 8),
    Plain ''nparts'' td___be16,
    Plain ''infos'' (TArr st_sun_info 8),
    Plain ''padding'' td___be16,
    Plain ''bootinfo'' (TArr td___be32 3),
    Plain ''sanity'' td___be32,
    Plain ''reserved'' (TArr td___be32 10),
    Plain ''timestamp'' (TArr td___be32 8)]"

definition st_xdr_stream :: ty where
  "st_xdr_stream = TStruct ''xdr_stream'' False [
    Plain ''p'' (TPtr ''__be32''),
    Plain ''buf'' (TPtr ''struct xdr_buf''),
    Plain ''end'' (TPtr ''__be32''),
    Plain ''iov'' (TPtr ''struct kvec''),
    Plain ''scratch'' st_kvec,
    Plain ''page_ptr'' (TPtr ''struct page *''),
    Plain ''page_kaddr'' (TPtr ''void''),
    Plain ''nwords'' (TInt I32 False),
    Plain ''rqst'' (TPtr ''struct rpc_rqst'')]"

definition st_switchdev_attr :: ty where
  "st_switchdev_attr = TStruct ''switchdev_attr'' False [
    Plain ''orig_dev'' (TPtr ''struct net_device''),
    Plain ''id'' (TEnum ''switchdev_attr_id'' I32),
    Plain ''flags'' td_u32,
    Plain ''complete_priv'' (TPtr ''void''),
    Plain ''complete'' (TFun ''void (*)(struct net_device *, int, void *)''),
    Plain ''u'' (TUnion '''' False [
      Plain ''stp_state'' td_u8,
      Plain ''mst_state'' st_switchdev_mst_state,
      Plain ''brport_flags'' st_switchdev_brport_flags,
      Plain ''mrouter'' td_bool,
      Plain ''ageing_time'' td_clock_t,
      Plain ''vlan_filtering'' td_bool,
      Plain ''vlan_protocol'' td_u16,
      Plain ''mst'' td_bool,
      Plain ''mc_disabled'' td_bool,
      Plain ''mrp_port_role'' td_u8,
      Plain ''vlan_msti'' st_switchdev_vlan_msti])]"

definition st_trace_event :: ty where
  "st_trace_event = TStruct ''trace_event'' False [
    Plain ''node'' st_hlist_node,
    Plain ''type'' (TInt I32 True),
    Plain ''funcs'' (TPtr ''struct trace_event_functions'')]"

definition st_task_numa_env :: ty where
  "st_task_numa_env = TStruct ''task_numa_env'' False [
    Plain ''p'' (TPtr ''struct task_struct''),
    Plain ''src_cpu'' (TInt I32 True),
    Plain ''src_nid'' (TInt I32 True),
    Plain ''dst_cpu'' (TInt I32 True),
    Plain ''dst_nid'' (TInt I32 True),
    Plain ''imb_numa_nr'' (TInt I32 True),
    Plain ''src_stats'' st_numa_stats,
    Plain ''dst_stats'' st_numa_stats,
    Plain ''imbalance_pct'' (TInt I32 True),
    Plain ''dist'' (TInt I32 True),
    Plain ''best_task'' (TPtr ''struct task_struct''),
    Plain ''best_imp'' (TInt I64 True),
    Plain ''best_cpu'' (TInt I32 True)]"

definition st_thread_struct :: ty where
  "st_thread_struct = TStruct ''thread_struct'' False [
    Plain ''tls_array'' (TArr st_desc_struct 3),
    Plain ''sp'' (TInt I64 False),
    Plain ''es'' (TInt I16 False),
    Plain ''ds'' (TInt I16 False),
    Plain ''fsindex'' (TInt I16 False),
    Plain ''gsindex'' (TInt I16 False),
    Plain ''fsbase'' (TInt I64 False),
    Plain ''gsbase'' (TInt I64 False),
    Plain ''ptrace_bps'' (TArr (TPtr ''struct perf_event'') 4),
    Plain ''virtual_dr6'' (TInt I64 False),
    Plain ''ptrace_dr7'' (TInt I64 False),
    Plain ''cr2'' (TInt I64 False),
    Plain ''trap_nr'' (TInt I64 False),
    Plain ''error_code'' (TInt I64 False),
    Plain ''io_bitmap'' (TPtr ''struct io_bitmap''),
    Plain ''iopl_emul'' (TInt I64 False),
    Bits ''iopl_warn'' (TInt I32 False) 1,
    Plain ''pkru'' td_u32,
    Plain ''features'' (TInt I64 False),
    Plain ''features_locked'' (TInt I64 False),
    Plain ''shstk'' st_thread_shstk]"

definition st_taskstats :: ty where
  "st_taskstats = TStruct ''taskstats'' False [
    Plain ''version'' td___u16,
    Plain ''ac_exitcode'' td___u32,
    Plain ''ac_flag'' td___u8,
    Plain ''ac_nice'' td___u8,
    Plain ''cpu_count'' td___u64,
    Plain ''cpu_delay_total'' td___u64,
    Plain ''blkio_count'' td___u64,
    Plain ''blkio_delay_total'' td___u64,
    Plain ''swapin_count'' td___u64,
    Plain ''swapin_delay_total'' td___u64,
    Plain ''cpu_run_real_total'' td___u64,
    Plain ''cpu_run_virtual_total'' td___u64,
    Plain ''ac_comm'' (TArr (TInt I8 True) 32),
    Plain ''ac_sched'' td___u8,
    Plain ''ac_pad'' (TArr td___u8 3),
    Bits '''' (TInt I64 True) 0,
    Plain ''ac_uid'' td___u32,
    Plain ''ac_gid'' td___u32,
    Plain ''ac_pid'' td___u32,
    Plain ''ac_ppid'' td___u32,
    Plain ''ac_btime'' td___u32,
    Plain ''ac_etime'' td___u64,
    Plain ''ac_utime'' td___u64,
    Plain ''ac_stime'' td___u64,
    Plain ''ac_minflt'' td___u64,
    Plain ''ac_majflt'' td___u64,
    Plain ''coremem'' td___u64,
    Plain ''virtmem'' td___u64,
    Plain ''hiwater_rss'' td___u64,
    Plain ''hiwater_vm'' td___u64,
    Plain ''read_char'' td___u64,
    Plain ''write_char'' td___u64,
    Plain ''read_syscalls'' td___u64,
    Plain ''write_syscalls'' td___u64,
    Plain ''read_bytes'' td___u64,
    Plain ''write_bytes'' td___u64,
    Plain ''cancelled_write_bytes'' td___u64,
    Plain ''nvcsw'' td___u64,
    Plain ''nivcsw'' td___u64,
    Plain ''ac_utimescaled'' td___u64,
    Plain ''ac_stimescaled'' td___u64,
    Plain ''cpu_scaled_run_real_total'' td___u64,
    Plain ''freepages_count'' td___u64,
    Plain ''freepages_delay_total'' td___u64,
    Plain ''thrashing_count'' td___u64,
    Plain ''thrashing_delay_total'' td___u64,
    Plain ''ac_btime64'' td___u64,
    Plain ''compact_count'' td___u64,
    Plain ''compact_delay_total'' td___u64,
    Plain ''ac_tgid'' td___u32,
    Plain ''ac_tgetime'' td___u64,
    Plain ''ac_exe_dev'' td___u64,
    Plain ''ac_exe_inode'' td___u64,
    Plain ''wpcopy_count'' td___u64,
    Plain ''wpcopy_delay_total'' td___u64,
    Plain ''irq_count'' td___u64,
    Plain ''irq_delay_total'' td___u64,
    Plain ''cpu_delay_max'' td___u64,
    Plain ''cpu_delay_min'' td___u64,
    Plain ''blkio_delay_max'' td___u64,
    Plain ''blkio_delay_min'' td___u64,
    Plain ''swapin_delay_max'' td___u64,
    Plain ''swapin_delay_min'' td___u64,
    Plain ''freepages_delay_max'' td___u64,
    Plain ''freepages_delay_min'' td___u64,
    Plain ''thrashing_delay_max'' td___u64,
    Plain ''thrashing_delay_min'' td___u64,
    Plain ''compact_delay_max'' td___u64,
    Plain ''compact_delay_min'' td___u64,
    Plain ''wpcopy_delay_max'' td___u64,
    Plain ''wpcopy_delay_min'' td___u64,
    Plain ''irq_delay_max'' td___u64,
    Plain ''irq_delay_min'' td___u64,
    Plain ''cpu_delay_max_ts'' st___kernel_timespec,
    Plain ''blkio_delay_max_ts'' st___kernel_timespec,
    Plain ''swapin_delay_max_ts'' st___kernel_timespec,
    Plain ''freepages_delay_max_ts'' st___kernel_timespec,
    Plain ''thrashing_delay_max_ts'' st___kernel_timespec,
    Plain ''compact_delay_max_ts'' st___kernel_timespec,
    Plain ''wpcopy_delay_max_ts'' st___kernel_timespec,
    Plain ''irq_delay_max_ts'' st___kernel_timespec]"

definition st_tcp_ao_add :: ty where
  "st_tcp_ao_add = TStruct ''tcp_ao_add'' False [
    Plain ''addr'' st___kernel_sockaddr_storage,
    Plain ''alg_name'' (TArr (TInt I8 True) 64),
    Plain ''ifindex'' td___s32,
    Bits ''set_current'' td___u32 1,
    Bits ''set_rnext'' td___u32 1,
    Bits ''reserved'' td___u32 30,
    Plain ''reserved2'' td___u16,
    Plain ''prefix'' td___u8,
    Plain ''sndid'' td___u8,
    Plain ''rcvid'' td___u8,
    Plain ''maclen'' td___u8,
    Plain ''keyflags'' td___u8,
    Plain ''keylen'' td___u8,
    Plain ''key'' (TArr td___u8 80)]"

definition un_tcp_ao_addr :: ty where
  "un_tcp_ao_addr = TUnion ''tcp_ao_addr'' False [
    Plain ''a4'' st_in_addr,
    Plain ''a6'' st_in6_addr]"

definition st_tcp_ao_del :: ty where
  "st_tcp_ao_del = TStruct ''tcp_ao_del'' False [
    Plain ''addr'' st___kernel_sockaddr_storage,
    Plain ''ifindex'' td___s32,
    Bits ''set_current'' td___u32 1,
    Bits ''set_rnext'' td___u32 1,
    Bits ''del_async'' td___u32 1,
    Bits ''reserved'' td___u32 29,
    Plain ''reserved2'' td___u16,
    Plain ''prefix'' td___u8,
    Plain ''sndid'' td___u8,
    Plain ''rcvid'' td___u8,
    Plain ''current_key'' td___u8,
    Plain ''rnext'' td___u8,
    Plain ''keyflags'' td___u8]"

definition st_tcp_ao_getsockopt :: ty where
  "st_tcp_ao_getsockopt = TStruct ''tcp_ao_getsockopt'' False [
    Plain ''addr'' st___kernel_sockaddr_storage,
    Plain ''alg_name'' (TArr (TInt I8 True) 64),
    Plain ''key'' (TArr td___u8 80),
    Plain ''nkeys'' td___u32,
    Bits ''is_current'' td___u16 1,
    Bits ''is_rnext'' td___u16 1,
    Bits ''get_all'' td___u16 1,
    Bits ''reserved'' td___u16 13,
    Plain ''sndid'' td___u8,
    Plain ''rcvid'' td___u8,
    Plain ''prefix'' td___u8,
    Plain ''maclen'' td___u8,
    Plain ''keyflags'' td___u8,
    Plain ''keylen'' td___u8,
    Plain ''ifindex'' td___s32,
    Plain ''pkt_good'' td___u64,
    Plain ''pkt_bad'' td___u64]"

definition st_td :: ty where
  "st_td = TStruct ''td'' False [
    Plain ''hwINFO'' td___hc32,
    Plain ''hwCBP'' td___hc32,
    Plain ''hwNextTD'' td___hc32,
    Plain ''hwBE'' td___hc32,
    Plain ''hwPSW'' (TArr td___hc16 2),
    Plain ''index'' td___u8,
    Plain ''ed'' (TPtr ''struct ed''),
    Plain ''td_hash'' (TPtr ''struct td''),
    Plain ''next_dl_td'' (TPtr ''struct td''),
    Plain ''urb'' (TPtr ''struct urb''),
    Plain ''td_dma'' td_dma_addr_t,
    Plain ''data_dma'' td_dma_addr_t,
    Plain ''td_list'' st_list_head,
    Bits '''' (TInt I64 True) 64]"

definition st_tdmr_info :: ty where
  "st_tdmr_info = TStruct ''tdmr_info'' False [
    Plain ''base'' td_u64,
    Plain ''size'' td_u64,
    Plain ''pamt_1g_base'' td_u64,
    Plain ''pamt_1g_size'' td_u64,
    Plain ''pamt_2m_base'' td_u64,
    Plain ''pamt_2m_size'' td_u64,
    Plain ''pamt_4k_base'' td_u64,
    Plain ''pamt_4k_size'' td_u64,
    Plain '''' (TStruct '''' False [
      Plain ''__empty_reserved_areas'' (TStruct '''' False []),
      Plain ''reserved_areas'' (TArr st_tdmr_reserved_area 0)]),
    Bits '''' (TInt I64 True) 64,
    Bits '''' (TInt I64 True) 64,
    Bits '''' (TInt I64 True) 64,
    Bits '''' (TInt I64 True) 64,
    Bits '''' (TInt I64 True) 64,
    Bits '''' (TInt I64 True) 64,
    Bits '''' (TInt I64 True) 64,
    Bits '''' (TInt I64 True) 64,
    Bits '''' (TInt I64 True) 64,
    Bits '''' (TInt I64 True) 64,
    Bits '''' (TInt I64 True) 64,
    Bits '''' (TInt I64 True) 64,
    Bits '''' (TInt I64 True) 64,
    Bits '''' (TInt I64 True) 64,
    Bits '''' (TInt I64 True) 64,
    Bits '''' (TInt I64 True) 64,
    Bits '''' (TInt I64 True) 64,
    Bits '''' (TInt I64 True) 64,
    Bits '''' (TInt I64 True) 64,
    Bits '''' (TInt I64 True) 64,
    Bits '''' (TInt I64 True) 64,
    Bits '''' (TInt I64 True) 64,
    Bits '''' (TInt I64 True) 64,
    Bits '''' (TInt I64 True) 64,
    Bits '''' (TInt I64 True) 64,
    Bits '''' (TInt I64 True) 64,
    Bits '''' (TInt I64 True) 64,
    Bits '''' (TInt I64 True) 64,
    Bits '''' (TInt I64 True) 64,
    Bits '''' (TInt I64 True) 64,
    Bits '''' (TInt I64 True) 64,
    Bits '''' (TInt I64 True) 64,
    Bits '''' (TInt I64 True) 64,
    Bits '''' (TInt I64 True) 64,
    Bits '''' (TInt I64 True) 64,
    Bits '''' (TInt I64 True) 64,
    Bits '''' (TInt I64 True) 64,
    Bits '''' (TInt I64 True) 64,
    Bits '''' (TInt I64 True) 64,
    Bits '''' (TInt I64 True) 64,
    Bits '''' (TInt I64 True) 64,
    Bits '''' (TInt I64 True) 64,
    Bits '''' (TInt I64 True) 64,
    Bits '''' (TInt I64 True) 64,
    Bits '''' (TInt I64 True) 64,
    Bits '''' (TInt I64 True) 64,
    Bits '''' (TInt I64 True) 64,
    Bits '''' (TInt I64 True) 64,
    Bits '''' (TInt I64 True) 64,
    Bits '''' (TInt I64 True) 64,
    Bits '''' (TInt I64 True) 64,
    Bits '''' (TInt I64 True) 64,
    Bits '''' (TInt I64 True) 64,
    Bits '''' (TInt I64 True) 64,
    Bits '''' (TInt I64 True) 64,
    Bits '''' (TInt I64 True) 64]"

definition st_timens_offsets :: ty where
  "st_timens_offsets = TStruct ''timens_offsets'' False [
    Plain ''monotonic'' st_timespec64,
    Plain ''boottime'' st_timespec64]"

definition st_timekeeper :: ty where
  "st_timekeeper = TStruct ''timekeeper'' False [
    Plain ''tkr_mono'' st_tk_read_base,
    Plain ''xtime_sec'' td_u64,
    Plain ''ktime_sec'' (TInt I64 False),
    Plain ''wall_to_monotonic'' st_timespec64,
    Plain ''offs_real'' td_ktime_t,
    Plain ''offs_boot'' td_ktime_t,
    Plain '''' (TUnion '''' False [
      Plain ''offs_tai'' td_ktime_t,
      Plain ''offs_aux'' td_ktime_t]),
    Plain ''coarse_nsec'' td_u32,
    Plain ''id'' (TEnum ''timekeeper_ids'' I32),
    Plain ''tkr_raw'' st_tk_read_base,
    Plain ''raw_sec'' td_u64,
    Plain ''clock_was_set_seq'' (TInt I32 False),
    Plain ''cs_was_changed_seq'' td_u8,
    Plain ''clock_valid'' td_u8,
    Plain '''' (TUnion '''' False [
      Plain ''monotonic_to_boot'' st_timespec64,
      Plain ''monotonic_to_aux'' st_timespec64]),
    Plain ''cycle_interval'' td_u64,
    Plain ''xtime_interval'' td_u64,
    Plain ''xtime_remainder'' td_s64,
    Plain ''raw_interval'' td_u64,
    Plain ''next_leap_ktime'' td_ktime_t,
    Plain ''ntp_tick'' td_u64,
    Plain ''ntp_error'' td_s64,
    Plain ''ntp_error_shift'' td_u32,
    Plain ''ntp_err_mult'' td_u32,
    Plain ''skip_second_overflow'' td_u32,
    Plain ''tai_offset'' td_s32]"

definition st_tpacket3_hdr :: ty where
  "st_tpacket3_hdr = TStruct ''tpacket3_hdr'' False [
    Plain ''tp_next_offset'' td___u32,
    Plain ''tp_sec'' td___u32,
    Plain ''tp_nsec'' td___u32,
    Plain ''tp_snaplen'' td___u32,
    Plain ''tp_len'' td___u32,
    Plain ''tp_status'' td___u32,
    Plain ''tp_mac'' td___u16,
    Plain ''tp_net'' td___u16,
    Plain '''' (TUnion '''' False [
      Plain ''hv1'' st_tpacket_hdr_variant1]),
    Plain ''tp_padding'' (TArr td___u8 8)]"

definition st_tps65910_board :: ty where
  "st_tps65910_board = TStruct ''tps65910_board'' False [
    Plain ''gpio_base'' (TInt I32 True),
    Plain ''irq'' (TInt I32 True),
    Plain ''irq_base'' (TInt I32 True),
    Plain ''vmbch_threshold'' (TInt I32 True),
    Plain ''vmbch2_threshold'' (TInt I32 True),
    Plain ''en_ck32k_xtal'' td_bool,
    Plain ''en_dev_slp'' td_bool,
    Plain ''pm_off'' td_bool,
    Plain ''slp_keepon'' st_tps65910_sleep_keepon_data,
    Plain ''en_gpio_sleep'' (TArr td_bool 9),
    Plain ''regulator_ext_sleep_control'' (TArr (TInt I64 False) 14),
    Plain ''tps65910_pmic_init_data'' (TArr (TPtr ''struct regulator_init_data'') 14)]"

definition st_tracing_map :: ty where
  "st_tracing_map = TStruct ''tracing_map'' False [
    Plain ''key_size'' (TInt I32 False),
    Plain ''map_bits'' (TInt I32 False),
    Plain ''map_size'' (TInt I32 False),
    Plain ''max_elts'' (TInt I32 False),
    Plain ''next_elt'' td_atomic_t,
    Plain ''elts'' (TPtr ''struct tracing_map_array''),
    Plain ''map'' (TPtr ''struct tracing_map_array''),
    Plain ''ops'' (TPtr ''struct tracing_map_ops''),
    Plain ''private_data'' (TPtr ''void''),
    Plain ''fields'' (TArr st_tracing_map_field 6),
    Plain ''n_fields'' (TInt I32 False),
    Plain ''key_idx'' (TArr (TInt I32 True) 3),
    Plain ''n_keys'' (TInt I32 False),
    Plain ''sort_key'' st_tracing_map_sort_key,
    Plain ''n_vars'' (TInt I32 False),
    Plain ''hits'' td_atomic64_t,
    Plain ''drops'' td_atomic64_t]"

definition st_transaction_s :: ty where
  "st_transaction_s = TStruct ''transaction_s'' False [
    Plain ''t_journal'' (TPtr ''journal_t''),
    Plain ''t_tid'' td_tid_t,
    Plain ''t_state'' (TEnum '''' I32),
    Plain ''t_log_start'' (TInt I64 False),
    Plain ''t_nr_buffers'' (TInt I32 True),
    Plain ''t_reserved_list'' (TPtr ''struct journal_head''),
    Plain ''t_buffers'' (TPtr ''struct journal_head''),
    Plain ''t_forget'' (TPtr ''struct journal_head''),
    Plain ''t_checkpoint_list'' (TPtr ''struct journal_head''),
    Plain ''t_shadow_list'' (TPtr ''struct journal_head''),
    Plain ''t_inode_list'' st_list_head,
    Plain ''t_max_wait'' (TInt I64 False),
    Plain ''t_start'' (TInt I64 False),
    Plain ''t_requested'' (TInt I64 False),
    Plain ''t_chp_stats'' st_transaction_chp_stats_s,
    Plain ''t_updates'' td_atomic_t,
    Plain ''t_outstanding_credits'' td_atomic_t,
    Plain ''t_outstanding_revokes'' td_atomic_t,
    Plain ''t_handle_count'' td_atomic_t,
    Plain ''t_cpnext'' (TPtr ''transaction_t''),
    Plain ''t_cpprev'' (TPtr ''transaction_t''),
    Plain ''t_expires'' (TInt I64 False),
    Plain ''t_start_time'' td_ktime_t,
    Bits ''t_synchronous_commit'' (TInt I32 False) 1,
    Plain ''t_need_data_flush'' (TInt I32 True)]"

definition st_tun_flow_entry :: ty where
  "st_tun_flow_entry = TStruct ''tun_flow_entry'' False [
    Plain ''hash_link'' st_hlist_node,
    Plain ''rcu'' st_callback_head,
    Plain ''tun'' (TPtr ''struct tun_struct''),
    Plain ''rxhash'' td_u32,
    Plain ''rps_rxhash'' td_u32,
    Plain ''queue_index'' (TInt I32 True),
    Bits '''' (TInt I64 True) 64,
    Plain ''updated'' (TInt I64 False),
    Bits '''' (TInt I64 True) 64,
    Bits '''' (TInt I64 True) 64,
    Bits '''' (TInt I64 True) 64,
    Bits '''' (TInt I64 True) 64,
    Bits '''' (TInt I64 True) 64,
    Bits '''' (TInt I64 True) 64,
    Bits '''' (TInt I64 True) 64]"

definition st_uhci_qh :: ty where
  "st_uhci_qh = TStruct ''uhci_qh'' False [
    Plain ''link'' td___le32,
    Plain ''element'' td___le32,
    Plain ''dma_handle'' td_dma_addr_t,
    Plain ''node'' st_list_head,
    Plain ''hep'' (TPtr ''struct usb_host_endpoint''),
    Plain ''udev'' (TPtr ''struct usb_device''),
    Plain ''queue'' st_list_head,
    Plain ''dummy_td'' (TPtr ''struct uhci_td''),
    Plain ''post_td'' (TPtr ''struct uhci_td''),
    Plain ''iso_packet_desc'' (TPtr ''struct usb_iso_packet_descriptor''),
    Plain ''advance_jiffies'' (TInt I64 False),
    Plain ''unlink_frame'' (TInt I32 False),
    Plain ''period'' (TInt I32 False),
    Plain ''phase'' (TInt I16 True),
    Plain ''load'' (TInt I16 True),
    Plain ''iso_frame'' (TInt I32 False),
    Plain ''state'' (TInt I32 True),
    Plain ''type'' (TInt I32 True),
    Plain ''skel'' (TInt I32 True),
    Bits ''initial_toggle'' (TInt I32 False) 1,
    Bits ''needs_fixup'' (TInt I32 False) 1,
    Bits ''is_stopped'' (TInt I32 False) 1,
    Bits ''wait_expired'' (TInt I32 False) 1,
    Bits ''bandwidth_reserved'' (TInt I32 False) 1]"

definition st_unixware_vtoc :: ty where
  "st_unixware_vtoc = TStruct ''unixware_vtoc'' False [
    Plain ''v_magic'' td___le32,
    Plain ''v_version'' td___le32,
    Plain ''v_name'' (TArr (TInt I8 True) 8),
    Plain ''v_nslices'' td___le16,
    Plain ''v_unknown1'' td___le16,
    Plain ''v_reserved'' (TArr td___le32 10),
    Plain ''v_slice'' (TArr st_unixware_slice 16)]"

definition st_xhci_td :: ty where
  "st_xhci_td = TStruct ''xhci_td'' False [
    Plain ''td_list'' st_list_head,
    Plain ''cancelled_td_list'' st_list_head,
    Plain ''status'' (TInt I32 True),
    Plain ''cancel_status'' (TEnum ''xhci_cancelled_td_status'' I32),
    Plain ''urb'' (TPtr ''struct urb''),
    Plain ''start_seg'' (TPtr ''struct xhci_segment''),
    Plain ''start_trb'' (TPtr ''union xhci_trb''),
    Plain ''end_seg'' (TPtr ''struct xhci_segment''),
    Plain ''end_trb'' (TPtr ''union xhci_trb''),
    Plain ''bounce_seg'' (TPtr ''struct xhci_segment''),
    Plain ''urb_length_set'' td_bool,
    Plain ''error_mid_td'' td_bool]"

definition st_usb_host_endpoint :: ty where
  "st_usb_host_endpoint = TStruct ''usb_host_endpoint'' True [
    Plain ''desc'' st_usb_endpoint_descriptor,
    Plain ''ss_ep_comp'' st_usb_ss_ep_comp_descriptor,
    Plain ''ssp_isoc_ep_comp'' st_usb_ssp_isoc_ep_comp_descriptor,
    Plain ''eusb2_isoc_ep_comp'' st_usb_eusb2_isoc_ep_comp_descriptor,
    Bits '''' (TInt I64 True) 0,
    Plain ''urb_list'' st_list_head,
    Plain ''hcpriv'' (TPtr ''void''),
    Plain ''ep_dev'' (TPtr ''struct ep_device''),
    Plain ''extra'' (TPtr ''unsigned char''),
    Plain ''extralen'' (TInt I32 True),
    Plain ''enabled'' (TInt I32 True),
    Plain ''streams'' (TInt I32 True),
    Bits '''' (TInt I64 True) 0]"

definition st_usb_ep :: ty where
  "st_usb_ep = TStruct ''usb_ep'' False [
    Plain ''driver_data'' (TPtr ''void''),
    Plain ''name'' (TPtr ''char''),
    Plain ''ops'' (TPtr ''struct usb_ep_ops''),
    Plain ''desc'' (TPtr ''struct usb_endpoint_descriptor''),
    Plain ''comp_desc'' (TPtr ''struct usb_ss_ep_comp_descriptor''),
    Plain ''ep_list'' st_list_head,
    Plain ''caps'' st_usb_ep_caps,
    Plain ''claimed'' td_bool,
    Plain ''enabled'' td_bool,
    Bits ''mult'' (TInt I32 False) 2,
    Bits ''maxburst'' (TInt I32 False) 5,
    Plain ''address'' td_u8,
    Plain ''maxpacket'' td_u16,
    Plain ''maxpacket_limit'' td_u16,
    Plain ''max_streams'' td_u16]"

definition st_usb_request :: ty where
  "st_usb_request = TStruct ''usb_request'' False [
    Plain ''ep'' (TPtr ''struct usb_ep''),
    Plain ''buf'' (TPtr ''void''),
    Plain ''length'' (TInt I32 False),
    Plain ''dma'' td_dma_addr_t,
    Plain ''sg'' (TPtr ''struct scatterlist''),
    Plain ''num_sgs'' (TInt I32 False),
    Plain ''num_mapped_sgs'' (TInt I32 False),
    Bits ''stream_id'' (TInt I32 False) 16,
    Bits ''is_last'' (TInt I32 False) 1,
    Bits ''no_interrupt'' (TInt I32 False) 1,
    Bits ''zero'' (TInt I32 False) 1,
    Bits ''short_not_ok'' (TInt I32 False) 1,
    Bits ''dma_mapped'' (TInt I32 False) 1,
    Bits ''sg_was_mapped'' (TInt I32 False) 1,
    Plain ''complete'' (TFun ''void (*)(struct usb_ep *, struct usb_request *)''),
    Plain ''context'' (TPtr ''void''),
    Plain ''list'' st_list_head,
    Plain ''frame_number'' (TInt I32 False),
    Plain ''status'' (TInt I32 True),
    Plain ''actual'' (TInt I32 False)]"

definition st_usbdevfs_urb :: ty where
  "st_usbdevfs_urb = TStruct ''usbdevfs_urb'' False [
    Plain ''type'' (TInt I8 False),
    Plain ''endpoint'' (TInt I8 False),
    Plain ''status'' (TInt I32 True),
    Plain ''flags'' (TInt I32 False),
    Plain ''buffer'' (TPtr ''void''),
    Plain ''buffer_length'' (TInt I32 True),
    Plain ''actual_length'' (TInt I32 True),
    Plain ''start_frame'' (TInt I32 True),
    Plain '''' (TUnion '''' False [
      Plain ''number_of_packets'' (TInt I32 True),
      Plain ''stream_id'' (TInt I32 False)]),
    Plain ''error_count'' (TInt I32 True),
    Plain ''signr'' (TInt I32 False),
    Plain ''usercontext'' (TPtr ''void''),
    Plain ''iso_frame_desc'' (TArr st_usbdevfs_iso_packet_desc 0)]"

definition st_usbdevfs_urb32 :: ty where
  "st_usbdevfs_urb32 = TStruct ''usbdevfs_urb32'' False [
    Plain ''type'' (TInt I8 False),
    Plain ''endpoint'' (TInt I8 False),
    Plain ''status'' td_compat_int_t,
    Plain ''flags'' td_compat_uint_t,
    Plain ''buffer'' td_compat_caddr_t,
    Plain ''buffer_length'' td_compat_int_t,
    Plain ''actual_length'' td_compat_int_t,
    Plain ''start_frame'' td_compat_int_t,
    Plain ''number_of_packets'' td_compat_int_t,
    Plain ''error_count'' td_compat_int_t,
    Plain ''signr'' td_compat_uint_t,
    Plain ''usercontext'' td_compat_caddr_t,
    Plain ''iso_frame_desc'' (TArr st_usbdevfs_iso_packet_desc 0)]"

definition st_vcpu_guest_context :: ty where
  "st_vcpu_guest_context = TStruct ''vcpu_guest_context'' False [
    Plain ''fpu_ctxt'' (TStruct '''' False [
      Plain ''x'' (TArr (TInt I8 True) 512)]),
    Plain ''flags'' (TInt I64 False),
    Plain ''user_regs'' st_cpu_user_regs,
    Plain ''trap_ctxt'' (TArr st_trap_info 256),
    Plain ''ldt_base'' (TInt I64 False),
    Plain ''ldt_ents'' (TInt I64 False),
    Plain ''gdt_frames'' (TArr (TInt I64 False) 16),
    Plain ''gdt_ents'' (TInt I64 False),
    Plain ''kernel_ss'' (TInt I64 False),
    Plain ''kernel_sp'' (TInt I64 False),
    Plain ''ctrlreg'' (TArr (TInt I64 False) 8),
    Plain ''debugreg'' (TArr (TInt I64 False) 8),
    Plain ''event_callback_eip'' (TInt I64 False),
    Plain ''failsafe_callback_eip'' (TInt I64 False),
    Plain ''syscall_callback_eip'' (TInt I64 False),
    Plain ''vm_assist'' (TInt I64 False),
    Plain ''fs_base'' td_uint64_t,
    Plain ''gs_base_kernel'' td_uint64_t,
    Plain ''gs_base_user'' td_uint64_t]"

definition st_vga_device :: ty where
  "st_vga_device = TStruct ''vga_device'' False [
    Plain ''list'' st_list_head,
    Plain ''pdev'' (TPtr ''struct pci_dev''),
    Plain ''decodes'' (TInt I32 False),
    Plain ''owns'' (TInt I32 False),
    Plain ''locks'' (TInt I32 False),
    Plain ''io_lock_cnt'' (TInt I32 False),
    Plain ''mem_lock_cnt'' (TInt I32 False),
    Plain ''io_norm_cnt'' (TInt I32 False),
    Plain ''mem_norm_cnt'' (TInt I32 False),
    Plain ''bridge_has_one_vga'' td_bool,
    Plain ''is_firmware_default'' td_bool,
    Plain ''set_decode'' (TFun ''unsigned int (*)(struct pci_dev *, bool)'')]"

definition st_viot_endpoint :: ty where
  "st_viot_endpoint = TStruct ''viot_endpoint'' False [
    Plain '''' (TUnion '''' False [
      Plain '''' (TStruct '''' False [
        Plain ''segment_start'' td_u16,
        Plain ''segment_end'' td_u16,
        Plain ''bdf_start'' td_u16,
        Plain ''bdf_end'' td_u16]),
      Plain ''address'' td_u64]),
    Plain ''endpoint_id'' td_u32,
    Plain ''viommu'' (TPtr ''struct viot_iommu''),
    Plain ''list'' st_list_head]"

definition st_virtio_admin_cmd_dev_parts_metadata_result :: ty where
  "st_virtio_admin_cmd_dev_parts_metadata_result = TStruct ''virtio_admin_cmd_dev_parts_metadata_result'' False [
    Plain '''' (TUnion '''' False [
      Plain ''parts_size'' (TStruct '''' False [
        Plain ''size'' td___le32,
        Plain ''reserved'' td___le32]),
      Plain ''hdr_list_count'' (TStruct '''' False [
        Plain ''count'' td___le32,
        Plain ''reserved'' td___le32]),
      Plain ''hdr_list'' (TStruct '''' False [
        Plain ''count'' td___le32,
        Plain ''reserved'' td___le32,
        Plain ''hdrs'' (TArr st_virtio_dev_part_hdr 0)])])]"

definition st_virtio_blk_config :: ty where
  "st_virtio_blk_config = TStruct ''virtio_blk_config'' False [
    Plain ''capacity'' td___virtio64,
    Plain ''size_max'' td___virtio32,
    Plain ''seg_max'' td___virtio32,
    Plain ''geometry'' st_virtio_blk_geometry,
    Plain ''blk_size'' td___virtio32,
    Plain ''physical_block_exp'' td___u8,
    Plain ''alignment_offset'' td___u8,
    Plain ''min_io_size'' td___virtio16,
    Plain ''opt_io_size'' td___virtio32,
    Plain ''wce'' td___u8,
    Plain ''unused'' td___u8,
    Plain ''num_queues'' td___virtio16,
    Plain ''max_discard_sectors'' td___virtio32,
    Plain ''max_discard_seg'' td___virtio32,
    Plain ''discard_sector_alignment'' td___virtio32,
    Plain ''max_write_zeroes_sectors'' td___virtio32,
    Plain ''max_write_zeroes_seg'' td___virtio32,
    Plain ''write_zeroes_may_unmap'' td___u8,
    Plain ''unused1'' (TArr td___u8 3),
    Plain ''max_secure_erase_sectors'' td___virtio32,
    Plain ''max_secure_erase_seg'' td___virtio32,
    Plain ''secure_erase_sector_alignment'' td___virtio32,
    Plain ''zoned'' st_virtio_blk_zoned_characteristics]"

definition st_virtio_pci_modern_device :: ty where
  "st_virtio_pci_modern_device = TStruct ''virtio_pci_modern_device'' False [
    Plain ''pci_dev'' (TPtr ''struct pci_dev''),
    Plain ''common'' (TPtr ''struct virtio_pci_common_cfg''),
    Plain ''device'' (TPtr ''void''),
    Plain ''notify_base'' (TPtr ''void''),
    Plain ''notify_pa'' td_resource_size_t,
    Plain ''isr'' (TPtr ''u8''),
    Plain ''notify_len'' td_size_t,
    Plain ''device_len'' td_size_t,
    Plain ''common_len'' td_size_t,
    Plain ''notify_map_cap'' (TInt I32 True),
    Plain ''notify_offset_multiplier'' td_u32,
    Plain ''modern_bars'' (TInt I32 True),
    Plain ''id'' st_virtio_device_id,
    Plain ''device_id_check'' (TFun ''int (*)(struct pci_dev *)''),
    Plain ''dma_mask'' td_u64]"

definition st_vm_struct :: ty where
  "st_vm_struct = TStruct ''vm_struct'' False [
    Plain '''' (TUnion '''' False [
      Plain ''next'' (TPtr ''struct vm_struct''),
      Plain ''llnode'' st_llist_node]),
    Plain ''addr'' (TPtr ''void''),
    Plain ''size'' (TInt I64 False),
    Plain ''flags'' (TInt I64 False),
    Plain ''pages'' (TPtr ''struct page *''),
    Plain ''page_order'' (TInt I32 False),
    Plain ''nr_pages'' (TInt I32 False),
    Plain ''phys_addr'' td_phys_addr_t,
    Plain ''caller'' (TPtr ''void''),
    Plain ''requested_size'' (TInt I64 False)]"

definition st_vma_merge_struct :: ty where
  "st_vma_merge_struct = TStruct ''vma_merge_struct'' False [
    Plain ''mm'' (TPtr ''struct mm_struct''),
    Plain ''vmi'' (TPtr ''struct vma_iterator''),
    Plain ''prev'' (TPtr ''struct vm_area_struct''),
    Plain ''middle'' (TPtr ''struct vm_area_struct''),
    Plain ''next'' (TPtr ''struct vm_area_struct''),
    Plain ''target'' (TPtr ''struct vm_area_struct''),
    Plain ''start'' (TInt I64 False),
    Plain ''end'' (TInt I64 False),
    Plain ''pgoff'' (TInt I64 False),
    Plain ''vm_flags'' td_vm_flags_t,
    Plain ''file'' (TPtr ''struct file''),
    Plain ''anon_vma'' (TPtr ''struct anon_vma''),
    Plain ''policy'' (TPtr ''struct mempolicy''),
    Plain ''uffd_ctx'' st_vm_userfaultfd_ctx,
    Plain ''anon_name'' (TPtr ''struct anon_vma_name''),
    Plain ''state'' (TEnum ''vma_merge_state'' I32),
    Plain ''copied_from'' (TPtr ''struct vm_area_struct''),
    Bits ''just_expand'' td_bool 1,
    Bits ''give_up_on_oom'' td_bool 1,
    Bits ''skip_vma_uprobe'' td_bool 1,
    Bits ''__adjust_middle_start'' td_bool 1,
    Bits ''__adjust_next_start'' td_bool 1,
    Bits ''__remove_middle'' td_bool 1,
    Bits ''__remove_next'' td_bool 1]"

definition st_xenbus_watch :: ty where
  "st_xenbus_watch = TStruct ''xenbus_watch'' False [
    Plain ''list'' st_list_head,
    Plain ''node'' (TPtr ''char''),
    Plain ''nr_pending'' (TInt I32 False),
    Plain ''will_handle'' (TFun ''bool (*)(struct xenbus_watch *, const char *, const char *)''),
    Plain ''callback'' (TFun ''void (*)(struct xenbus_watch *, const char *, const char *)'')]"

definition st_watchdog_device :: ty where
  "st_watchdog_device = TStruct ''watchdog_device'' False [
    Plain ''id'' (TInt I32 True),
    Plain ''parent'' (TPtr ''struct device''),
    Plain ''groups'' (TPtr ''struct attribute_group *''),
    Plain ''info'' (TPtr ''struct watchdog_info''),
    Plain ''ops'' (TPtr ''struct watchdog_ops''),
    Plain ''gov'' (TPtr ''struct watchdog_governor''),
    Plain ''bootstatus'' (TInt I32 False),
    Plain ''timeout'' (TInt I32 False),
    Plain ''pretimeout'' (TInt I32 False),
    Plain ''min_timeout'' (TInt I32 False),
    Plain ''max_timeout'' (TInt I32 False),
    Plain ''min_hw_heartbeat_ms'' (TInt I32 False),
    Plain ''max_hw_heartbeat_ms'' (TInt I32 False),
    Plain ''reboot_nb'' st_notifier_block,
    Plain ''restart_nb'' st_notifier_block,
    Plain ''pm_nb'' st_notifier_block,
    Plain ''driver_data'' (TPtr ''void''),
    Plain ''wd_data'' (TPtr ''struct watchdog_core_data''),
    Plain ''status'' (TInt I64 False),
    Plain ''deferred'' st_list_head]"

definition st_wb_writeback_work :: ty where
  "st_wb_writeback_work = TStruct ''wb_writeback_work'' False [
    Plain ''nr_pages'' (TInt I64 True),
    Plain ''sb'' (TPtr ''struct super_block''),
    Plain ''sync_mode'' (TEnum ''writeback_sync_modes'' I32),
    Bits ''tagged_writepages'' (TInt I32 False) 1,
    Bits ''for_kupdate'' (TInt I32 False) 1,
    Bits ''range_cyclic'' (TInt I32 False) 1,
    Bits ''for_background'' (TInt I32 False) 1,
    Bits ''for_sync'' (TInt I32 False) 1,
    Bits ''auto_free'' (TInt I32 False) 1,
    Plain ''reason'' (TEnum ''wb_reason'' I32),
    Plain ''list'' st_list_head,
    Plain ''done'' (TPtr ''struct wb_completion'')]"

definition st_worker :: ty where
  "st_worker = TStruct ''worker'' False [
    Plain '''' (TUnion '''' False [
      Plain ''entry'' st_list_head,
      Plain ''hentry'' st_hlist_node]),
    Plain ''current_work'' (TPtr ''struct work_struct''),
    Plain ''current_func'' td_work_func_t,
    Plain ''current_pwq'' (TPtr ''struct pool_workqueue''),
    Plain ''current_at'' td_u64,
    Plain ''current_start'' (TInt I64 False),
    Plain ''current_color'' (TInt I32 False),
    Plain ''sleeping'' (TInt I32 True),
    Plain ''last_func'' td_work_func_t,
    Plain ''scheduled'' st_list_head,
    Plain ''task'' (TPtr ''struct task_struct''),
    Plain ''pool'' (TPtr ''struct worker_pool''),
    Plain ''node'' st_list_head,
    Plain ''last_active'' (TInt I64 False),
    Plain ''flags'' (TInt I32 False),
    Plain ''id'' (TInt I32 True),
    Plain ''desc'' (TArr (TInt I8 True) 32),
    Plain ''rescue_wq'' (TPtr ''struct workqueue_struct'')]"

definition st_writeback_control :: ty where
  "st_writeback_control = TStruct ''writeback_control'' False [
    Plain ''nr_to_write'' (TInt I64 True),
    Plain ''pages_skipped'' (TInt I64 True),
    Plain ''range_start'' td_loff_t,
    Plain ''range_end'' td_loff_t,
    Plain ''sync_mode'' (TEnum ''writeback_sync_modes'' I32),
    Bits ''for_kupdate'' (TInt I32 False) 1,
    Bits ''for_background'' (TInt I32 False) 1,
    Bits ''tagged_writepages'' (TInt I32 False) 1,
    Bits ''range_cyclic'' (TInt I32 False) 1,
    Bits ''for_sync'' (TInt I32 False) 1,
    Bits ''unpinned_netfs_wb'' (TInt I32 False) 1,
    Bits ''no_cgroup_owner'' (TInt I32 False) 1,
    Plain ''fbatch'' st_folio_batch,
    Plain ''index'' (TInt I64 False),
    Plain ''saved_err'' (TInt I32 True),
    Plain ''wb'' (TPtr ''struct bdi_writeback''),
    Plain ''inode'' (TPtr ''struct inode''),
    Plain ''wb_id'' (TInt I32 True),
    Plain ''wb_lcand_id'' (TInt I32 True),
    Plain ''wb_tcand_id'' (TInt I32 True),
    Plain ''wb_bytes'' td_size_t,
    Plain ''wb_lcand_bytes'' td_size_t,
    Plain ''wb_tcand_bytes'' td_size_t]"

definition st_x86_pmu :: ty where
  "st_x86_pmu = TStruct ''x86_pmu'' False [
    Plain ''name'' (TPtr ''char''),
    Plain ''version'' (TInt I32 True),
    Plain ''handle_irq'' (TFun ''int (*)(struct pt_regs *)''),
    Plain ''disable_all'' (TFun ''void (*)(void)''),
    Plain ''enable_all'' (TFun ''void (*)(int)''),
    Plain ''enable'' (TFun ''void (*)(struct perf_event *)''),
    Plain ''disable'' (TFun ''void (*)(struct perf_event *)''),
    Plain ''assign'' (TFun ''void (*)(struct perf_event *, int)''),
    Plain ''add'' (TFun ''void (*)(struct perf_event *)''),
    Plain ''del'' (TFun ''void (*)(struct perf_event *)''),
    Plain ''read'' (TFun ''void (*)(struct perf_event *)''),
    Plain ''set_period'' (TFun ''int (*)(struct perf_event *)''),
    Plain ''update'' (TFun ''u64 (*)(struct perf_event *)''),
    Plain ''hw_config'' (TFun ''int (*)(struct perf_event *)''),
    Plain ''schedule_events'' (TFun ''int (*)(struct cpu_hw_events *, int, int *)''),
    Plain ''late_setup'' (TFun ''void (*)(void)''),
    Plain ''pebs_enable'' (TFun ''void (*)(struct perf_event *)''),
    Plain ''pebs_disable'' (TFun ''void (*)(struct perf_event *)''),
    Plain ''pebs_enable_all'' (TFun ''void (*)(void)''),
    Plain ''pebs_disable_all'' (TFun ''void (*)(void)''),
    Plain ''eventsel'' (TInt I32 False),
    Plain ''perfctr'' (TInt I32 False),
    Plain ''fixedctr'' (TInt I32 False),
    Plain ''addr_offset'' (TFun ''int (*)(int, bool)''),
    Plain ''rdpmc_index'' (TFun ''int (*)(int)''),
    Plain ''event_map'' (TFun ''u64 (*)(int)''),
    Plain ''max_events'' (TInt I32 True),
    Plain ''config_mask'' td_u64,
    Plain '''' (TUnion '''' False [
      Plain ''cntr_mask64'' td_u64,
      Plain ''cntr_mask'' (TArr (TInt I64 False) 1)]),
    Plain '''' (TUnion '''' False [
      Plain ''fixed_cntr_mask64'' td_u64,
      Plain ''fixed_cntr_mask'' (TArr (TInt I64 False) 1)]),
    Plain '''' (TUnion '''' False [
      Plain ''acr_cntr_mask64'' td_u64,
      Plain ''acr_cntr_mask'' (TArr (TInt I64 False) 1)]),
    Plain '''' (TUnion '''' False [
      Plain ''acr_cause_mask64'' td_u64,
      Plain ''acr_cause_mask'' (TArr (TInt I64 False) 1)]),
    Plain ''cntval_bits'' (TInt I32 True),
    Plain ''cntval_mask'' td_u64,
    Plain '''' (TUnion '''' False [
      Plain ''events_maskl'' (TInt I64 False),
      Plain ''events_mask'' (TArr (TInt I64 False) 1)]),
    Plain ''events_mask_len'' (TInt I32 True),
    Plain ''apic'' (TInt I32 True),
    Plain ''max_period'' td_u64,
    Plain ''get_event_constraints''
      (TFun ''struct event_constraint * (*)(struct cpu_hw_events *, int, struct perf_event *)''),
    Plain ''put_event_constraints''
      (TFun ''void (*)(struct cpu_hw_events *, struct perf_event *)''),
    Plain ''start_scheduling'' (TFun ''void (*)(struct cpu_hw_events *)''),
    Plain ''commit_scheduling'' (TFun ''void (*)(struct cpu_hw_events *, int, int)''),
    Plain ''stop_scheduling'' (TFun ''void (*)(struct cpu_hw_events *)''),
    Plain ''event_constraints'' (TPtr ''struct event_constraint''),
    Plain ''quirks'' (TPtr ''struct x86_pmu_quirk''),
    Plain ''limit_period'' (TFun ''void (*)(struct perf_event *, s64 *)''),
    Bits ''late_ack'' (TInt I32 False) 1,
    Bits ''mid_ack'' (TInt I32 False) 1,
    Bits ''enabled_ack'' (TInt I32 False) 1,
    Plain ''attr_rdpmc_broken'' (TInt I32 True),
    Plain ''attr_rdpmc'' (TInt I32 True),
    Plain ''format_attrs'' (TPtr ''struct attribute *''),
    Plain ''events_sysfs_show'' (TFun ''ssize_t (*)(char *, u64)''),
    Plain ''attr_update'' (TPtr ''struct attribute_group *''),
    Plain ''attr_freeze_on_smi'' (TInt I64 False),
    Plain ''cpu_prepare'' (TFun ''int (*)(int)''),
    Plain ''cpu_starting'' (TFun ''void (*)(int)''),
    Plain ''cpu_dying'' (TFun ''void (*)(int)''),
    Plain ''cpu_dead'' (TFun ''void (*)(int)''),
    Plain ''check_microcode'' (TFun ''void (*)(void)''),
    Plain ''sched_task''
      (TFun ''void (*)(struct perf_event_pmu_context *, struct task_struct *, bool)''),
    Plain ''intel_ctrl'' td_u64,
    Plain ''intel_cap'' un_perf_capabilities,
    Bits ''bts'' (TInt I32 False) 1,
    Bits ''bts_active'' (TInt I32 False) 1,
    Bits ''ds_pebs'' (TInt I32 False) 1,
    Bits ''pebs_active'' (TInt I32 False) 1,
    Bits ''pebs_broken'' (TInt I32 False) 1,
    Bits ''pebs_prec_dist'' (TInt I32 False) 1,
    Bits ''pebs_no_tlb'' (TInt I32 False) 1,
    Bits ''pebs_no_isolation'' (TInt I32 False) 1,
    Bits ''pebs_block'' (TInt I32 False) 1,
    Bits ''pebs_ept'' (TInt I32 False) 1,
    Bits ''arch_pebs'' (TInt I32 False) 1,
    Plain ''pebs_record_size'' (TInt I32 True),
    Plain ''pebs_buffer_size'' (TInt I32 True),
    Plain ''pebs_events_mask'' td_u64,
    Plain ''drain_pebs'' (TFun ''void (*)(struct pt_regs *, struct perf_sample_data *)''),
    Plain ''pebs_constraints'' (TPtr ''struct event_constraint''),
    Plain ''pebs_aliases'' (TFun ''void (*)(struct perf_event *)''),
    Plain ''pebs_latency_data'' (TFun ''u64 (*)(struct perf_event *, u64)''),
    Plain ''large_pebs_flags'' (TInt I64 False),
    Plain ''rtm_abort_event'' td_u64,
    Plain ''pebs_capable'' td_u64,
    Plain ''arch_pebs_cap'' st_arch_pebs_cap,
    Plain ''lbr_tos'' (TInt I32 False),
    Plain ''lbr_from'' (TInt I32 False),
    Plain ''lbr_to'' (TInt I32 False),
    Plain ''lbr_info'' (TInt I32 False),
    Plain ''lbr_nr'' (TInt I32 False),
    Plain '''' (TUnion '''' False [
      Plain ''lbr_sel_mask'' td_u64,
      Plain ''lbr_ctl_mask'' td_u64]),
    Plain '''' (TUnion '''' False [
      Plain ''lbr_sel_map'' (TPtr ''int''),
      Plain ''lbr_ctl_map'' (TPtr ''int'')]),
    Plain ''lbr_callstack_users'' td_u64,
    Plain ''lbr_double_abort'' td_bool,
    Plain ''lbr_pt_coexist'' td_bool,
    Bits ''lbr_has_info'' (TInt I32 False) 1,
    Bits ''lbr_has_tsx'' (TInt I32 False) 1,
    Bits ''lbr_from_flags'' (TInt I32 False) 1,
    Bits ''lbr_to_cycles'' (TInt I32 False) 1,
    Bits ''lbr_depth_mask'' (TInt I32 False) 8,
    Bits ''lbr_deep_c_reset'' (TInt I32 False) 1,
    Bits ''lbr_lip'' (TInt I32 False) 1,
    Bits ''lbr_cpl'' (TInt I32 False) 1,
    Bits ''lbr_filter'' (TInt I32 False) 1,
    Bits ''lbr_call_stack'' (TInt I32 False) 1,
    Bits ''lbr_mispred'' (TInt I32 False) 1,
    Bits ''lbr_timed_lbr'' (TInt I32 False) 1,
    Bits ''lbr_br_type'' (TInt I32 False) 1,
    Bits ''lbr_counters'' (TInt I32 False) 4,
    Plain ''lbr_reset'' (TFun ''void (*)(void)''),
    Plain ''lbr_read'' (TFun ''void (*)(struct cpu_hw_events *)''),
    Plain ''lbr_save'' (TFun ''void (*)(void *)''),
    Plain ''lbr_restore'' (TFun ''void (*)(void *)''),
    Plain ''lbr_exclusive'' (TArr td_atomic_t 3),
    Plain ''num_topdown_events'' (TInt I32 True),
    Bits ''amd_nb_constraints'' (TInt I32 False) 1,
    Plain ''perf_ctr_pair_en'' td_u64,
    Plain ''extra_regs'' (TPtr ''struct extra_reg''),
    Plain ''flags'' (TInt I32 False),
    Plain ''guest_get_msrs'' (TFun ''struct perf_guest_switch_msr * (*)(int *, void *)''),
    Plain ''check_period'' (TFun ''int (*)(struct perf_event *, u64)''),
    Plain ''aux_output_match'' (TFun ''int (*)(struct perf_event *)''),
    Plain ''filter'' (TFun ''void (*)(struct pmu *, int, bool *)''),
    Plain ''num_hybrid_pmus'' (TInt I32 True),
    Plain ''hybrid_pmu'' (TPtr ''struct x86_hybrid_pmu''),
    Plain ''get_hybrid_cpu_type'' (TFun ''enum intel_cpu_type (*)(void)'')]"

definition st_xa_node :: ty where
  "st_xa_node = TStruct ''xa_node'' False [
    Plain ''shift'' (TInt I8 False),
    Plain ''offset'' (TInt I8 False),
    Plain ''count'' (TInt I8 False),
    Plain ''nr_values'' (TInt I8 False),
    Plain ''parent'' (TPtr ''struct xa_node''),
    Plain ''array'' (TPtr ''struct xarray''),
    Plain '''' (TUnion '''' False [
      Plain ''private_list'' st_list_head,
      Plain ''callback_head'' st_callback_head]),
    Plain ''slots'' (TArr (TPtr ''void'') 64),
    Plain '''' (TUnion '''' False [
      Plain ''tags'' (TArr (TInt I64 False) 3),
      Plain ''marks'' (TArr (TInt I64 False) 3)])]"

definition st_xdp_page_head :: ty where
  "st_xdp_page_head = TStruct ''xdp_page_head'' False [
    Plain ''orig_ctx'' st_xdp_buff,
    Plain ''ctx'' st_xdp_buff,
    Plain '''' (TUnion '''' False [
      Plain '''' (TStruct '''' False [
        Plain ''__empty_frame'' (TStruct '''' False []),
        Plain ''frame'' (TArr st_xdp_frame 0)]),
      Plain '''' (TStruct '''' False [
        Plain ''__empty_data'' (TStruct '''' False []),
        Plain ''data'' (TArr td_u8 0)])])]"

definition st_xenpf_efi_runtime_call :: ty where
  "st_xenpf_efi_runtime_call = TStruct ''xenpf_efi_runtime_call'' False [
    Plain ''function'' td_uint32_t,
    Plain ''misc'' td_uint32_t,
    Plain ''status'' td_xen_ulong_t,
    Plain ''u'' (TUnion '''' False [
      Plain ''get_time'' (TStruct '''' False [
        Plain ''time'' st_xenpf_efi_time,
        Plain ''resolution'' td_uint32_t,
        Plain ''accuracy'' td_uint32_t]),
      Plain ''set_time'' st_xenpf_efi_time,
      Plain ''get_wakeup_time'' st_xenpf_efi_time,
      Plain ''set_wakeup_time'' st_xenpf_efi_time,
      Plain ''get_variable'' (TStruct '''' False [
        Plain ''name'' td___guest_handle_void,
        Plain ''size'' td_xen_ulong_t,
        Plain ''data'' td___guest_handle_void,
        Plain ''vendor_guid'' st_xenpf_efi_guid]),
      Plain ''set_variable'' (TStruct '''' False [
        Plain ''name'' td___guest_handle_void,
        Plain ''size'' td_xen_ulong_t,
        Plain ''data'' td___guest_handle_void,
        Plain ''vendor_guid'' st_xenpf_efi_guid]),
      Plain ''get_next_variable_name'' (TStruct '''' False [
        Plain ''size'' td_xen_ulong_t,
        Plain ''name'' td___guest_handle_void,
        Plain ''vendor_guid'' st_xenpf_efi_guid]),
      Plain ''query_variable_info'' (TStruct '''' False [
        Plain ''attr'' td_uint32_t,
        Plain ''max_store_size'' td_uint64_t,
        Plain ''remain_store_size'' td_uint64_t,
        Plain ''max_size'' td_uint64_t]),
      Plain ''query_capsule_capabilities'' (TStruct '''' False [
        Plain ''capsule_header_array'' td___guest_handle_void,
        Plain ''capsule_count'' td_xen_ulong_t,
        Plain ''max_capsule_size'' td_uint64_t,
        Plain ''reset_type'' td_uint32_t]),
      Plain ''update_capsule'' (TStruct '''' False [
        Plain ''capsule_header_array'' td___guest_handle_void,
        Plain ''capsule_count'' td_xen_ulong_t,
        Plain ''sg_list'' td_uint64_t])])]"

definition st_xenpf_firmware_info :: ty where
  "st_xenpf_firmware_info = TStruct ''xenpf_firmware_info'' False [
    Plain ''type'' td_uint32_t,
    Plain ''index'' td_uint32_t,
    Plain ''u'' (TUnion '''' False [
      Plain ''disk_info'' (TStruct '''' False [
        Plain ''device'' td_uint8_t,
        Plain ''version'' td_uint8_t,
        Plain ''interface_support'' td_uint16_t,
        Plain ''legacy_max_cylinder'' td_uint16_t,
        Plain ''legacy_max_head'' td_uint8_t,
        Plain ''legacy_sectors_per_track'' td_uint8_t,
        Plain ''edd_params'' td___guest_handle_void]),
      Plain ''disk_mbr_signature'' (TStruct '''' False [
        Plain ''device'' td_uint8_t,
        Plain ''mbr_signature'' td_uint32_t]),
      Plain ''vbeddc_info'' (TStruct '''' False [
        Plain ''capabilities'' td_uint8_t,
        Plain ''edid_transfer_time'' td_uint8_t,
        Plain ''edid'' td___guest_handle_uchar]),
      Plain ''efi_info'' un_xenpf_efi_info,
      Plain ''kbd_shift_flags'' td_uint8_t])]"

definition st_xen_pmu_arch :: ty where
  "st_xen_pmu_arch = TStruct ''xen_pmu_arch'' False [
    Plain ''r'' (TUnion '''' False [
      Plain ''regs'' st_xen_pmu_regs,
      Plain ''pad'' (TArr td_uint8_t 64)]),
    Plain ''pmu_flags'' td_uint64_t,
    Plain ''l'' (TUnion '''' False [
      Plain ''lapic_lvtpc'' td_uint32_t,
      Plain ''pad'' td_uint64_t]),
    Plain ''c'' (TUnion '''' False [
      Plain ''amd'' st_xen_pmu_amd_ctxt,
      Plain ''intel'' st_xen_pmu_intel_ctxt,
      Plain ''pad'' (TArr td_uint8_t 128)])]"

definition st_xenbus_map_node :: ty where
  "st_xenbus_map_node = TStruct ''xenbus_map_node'' False [
    Plain ''next'' st_list_head,
    Plain '''' (TUnion '''' False [
      Plain ''pv'' (TStruct '''' False [
        Plain ''area'' (TPtr ''struct vm_struct'')]),
      Plain ''hvm'' (TStruct '''' False [
        Plain ''pages'' (TArr (TPtr ''struct page'') 16),
        Plain ''addrs'' (TArr (TInt I64 False) 16),
        Plain ''addr'' (TPtr ''void'')])]),
    Plain ''handles'' (TArr td_grant_handle_t 16),
    Plain ''nr_handles'' (TInt I32 False)]"

definition st_xfrm_policy_walk_entry :: ty where
  "st_xfrm_policy_walk_entry = TStruct ''xfrm_policy_walk_entry'' False [
    Plain ''all'' st_list_head,
    Plain ''dead'' td_u8]"

definition st_xfrm_state_walk :: ty where
  "st_xfrm_state_walk = TStruct ''xfrm_state_walk'' False [
    Plain ''all'' st_list_head,
    Plain ''state'' td_u8,
    Plain ''dying'' td_u8,
    Plain ''proto'' td_u8,
    Plain ''seq'' td_u32,
    Plain ''filter'' (TPtr ''struct xfrm_address_filter'')]"

definition st_xhci_hub :: ty where
  "st_xhci_hub = TStruct ''xhci_hub'' False [
    Plain ''ports'' (TPtr ''struct xhci_port *''),
    Plain ''num_ports'' (TInt I32 False),
    Plain ''hcd'' (TPtr ''struct usb_hcd''),
    Plain ''bus_state'' st_xhci_bus_state,
    Plain ''maj_rev'' td_u8,
    Plain ''min_rev'' td_u8]"

definition st_xhci_op_regs :: ty where
  "st_xhci_op_regs = TStruct ''xhci_op_regs'' False [
    Plain ''command'' td___le32,
    Plain ''status'' td___le32,
    Plain ''page_size'' td___le32,
    Plain ''reserved1'' td___le32,
    Plain ''reserved2'' td___le32,
    Plain ''dev_notification'' td___le32,
    Plain ''cmd_ring'' td___le64,
    Plain ''reserved3'' (TArr td___le32 4),
    Plain ''dcbaa_ptr'' td___le64,
    Plain ''config_reg'' td___le32,
    Plain ''reserved4'' (TArr td___le32 241),
    Plain ''port_regs'' (TArr st_xhci_port_regs 0)]"

definition st_xhci_ring :: ty where
  "st_xhci_ring = TStruct ''xhci_ring'' False [
    Plain ''first_seg'' (TPtr ''struct xhci_segment''),
    Plain ''last_seg'' (TPtr ''struct xhci_segment''),
    Plain ''enqueue'' (TPtr ''union xhci_trb''),
    Plain ''enq_seg'' (TPtr ''struct xhci_segment''),
    Plain ''dequeue'' (TPtr ''union xhci_trb''),
    Plain ''deq_seg'' (TPtr ''struct xhci_segment''),
    Plain ''td_list'' st_list_head,
    Plain ''cycle_state'' td_u32,
    Plain ''stream_id'' (TInt I32 False),
    Plain ''num_segs'' (TInt I32 False),
    Plain ''num_trbs_free'' (TInt I32 False),
    Plain ''bounce_buf_len'' (TInt I32 False),
    Plain ''type'' (TEnum ''xhci_ring_type'' I32),
    Plain ''old_trb_comp_code'' td_u32,
    Plain ''trb_address_map'' (TPtr ''struct xarray'')]"

definition st_xhci_virt_ep :: ty where
  "st_xhci_virt_ep = TStruct ''xhci_virt_ep'' False [
    Plain ''vdev'' (TPtr ''struct xhci_virt_device''),
    Plain ''ep_index'' (TInt I32 False),
    Plain ''ring'' (TPtr ''struct xhci_ring''),
    Plain ''stream_info'' (TPtr ''struct xhci_stream_info''),
    Plain ''new_ring'' (TPtr ''struct xhci_ring''),
    Plain ''err_count'' (TInt I32 False),
    Plain ''ep_state'' (TInt I32 False),
    Plain ''cancelled_td_list'' st_list_head,
    Plain ''xhci'' (TPtr ''struct xhci_hcd''),
    Plain ''queued_deq_seg'' (TPtr ''struct xhci_segment''),
    Plain ''queued_deq_ptr'' (TPtr ''union xhci_trb''),
    Plain ''skip'' td_bool,
    Plain ''bw_info'' st_xhci_bw_info,
    Plain ''bw_endpoint_list'' st_list_head,
    Plain ''stop_time'' (TInt I64 False),
    Plain ''next_frame_id'' (TInt I32 True),
    Plain ''use_extended_tbc'' td_bool,
    Plain ''sideband'' (TPtr ''struct xhci_sideband'')]"

definition st_xprt_create :: ty where
  "st_xprt_create = TStruct ''xprt_create'' False [
    Plain ''ident'' (TInt I32 True),
    Plain ''net'' (TPtr ''struct net''),
    Plain ''srcaddr'' (TPtr ''struct sockaddr''),
    Plain ''dstaddr'' (TPtr ''struct sockaddr''),
    Plain ''addrlen'' td_size_t,
    Plain ''servername'' (TPtr ''char''),
    Plain ''bc_xprt'' (TPtr ''struct svc_xprt''),
    Plain ''bc_xps'' (TPtr ''struct rpc_xprt_switch''),
    Plain ''flags'' (TInt I32 False),
    Plain ''xprtsec'' st_xprtsec_parms,
    Plain ''connect_timeout'' (TInt I64 False),
    Plain ''reconnect_timeout'' (TInt I64 False)]"

definition st_xz_dec :: ty where
  "st_xz_dec = TStruct ''xz_dec'' False [
    Plain ''sequence'' (TEnum '''' I32),
    Plain ''pos'' td_uint32_t,
    Plain ''vli'' td_vli_type,
    Plain ''in_start'' td_size_t,
    Plain ''out_start'' td_size_t,
    Plain ''crc32'' td_uint32_t,
    Plain ''check_type'' (TEnum ''xz_check'' I32),
    Plain ''mode'' (TEnum ''xz_mode'' I32),
    Plain ''allow_buf_error'' td_bool,
    Plain ''block_header'' (TStruct '''' False [
      Plain ''compressed'' td_vli_type,
      Plain ''uncompressed'' td_vli_type,
      Plain ''size'' td_uint32_t]),
    Plain ''block'' (TStruct '''' False [
      Plain ''compressed'' td_vli_type,
      Plain ''uncompressed'' td_vli_type,
      Plain ''count'' td_vli_type,
      Plain ''hash'' st_xz_dec_hash]),
    Plain ''index'' (TStruct '''' False [
      Plain ''sequence'' (TEnum '''' I32),
      Plain ''size'' td_vli_type,
      Plain ''count'' td_vli_type,
      Plain ''hash'' st_xz_dec_hash]),
    Plain ''temp'' (TStruct '''' False [
      Plain ''pos'' td_size_t,
      Plain ''size'' td_size_t,
      Plain ''buf'' (TArr td_uint8_t 1024)]),
    Plain ''lzma2'' (TPtr ''struct xz_dec_lzma2''),
    Plain ''bcj'' (TPtr ''struct xz_dec_bcj''),
    Plain ''bcj_active'' td_bool]"

end
