(* ===== verification/VmlinuxStruct7.thy ===== *)
theory VmlinuxStruct7
  imports VmlinuxStruct5 VmlinuxStruct6
begin

text \<open>
  Structures and unions of \<open>src/internal/ebpf/vmlinux.h\<close> (aggregates nested 2 deep), in the
  order of the header: \<open>st_<tag>\<close>, \<open>un_<tag>\<close>, and \<open>td_<name>\<close> for an aggregate with a type name.
\<close>

definition st_raw_spinlock :: ty where
  "st_raw_spinlock = TStruct ''raw_spinlock'' False [
    Plain ''raw_lock'' td_arch_spinlock_t]"

definition st_kref :: ty where
  "st_kref = TStruct ''kref'' False [
    Plain ''refcount'' td_refcount_t]"

definition st_hrtimer :: ty where
  "st_hrtimer = TStruct ''hrtimer'' False [
    Plain ''node'' st_timerqueue_node,
    Plain ''_softexpires'' td_ktime_t,
    Plain ''function'' (TFun ''enum hrtimer_restart (*)(struct hrtimer *)''),
    Plain ''base'' (TPtr ''struct hrtimer_clock_base''),
    Plain ''state'' td_u8,
    Plain ''is_rel'' td_u8,
    Plain ''is_soft'' td_u8,
    Plain ''is_hard'' td_u8]"

definition st___call_single_data :: ty where
  "st___call_single_data = TStruct ''__call_single_data'' False [
    Plain ''node'' st___call_single_node,
    Plain ''func'' td_smp_call_func_t,
    Plain ''info'' (TPtr ''void'')]"

definition un___sifields :: ty where
  "un___sifields = TUnion ''__sifields'' False [
    Plain ''_kill'' (TStruct '''' False [
      Plain ''_pid'' td___kernel_pid_t,
      Plain ''_uid'' td___kernel_uid32_t]),
    Plain ''_timer'' (TStruct '''' False [
      Plain ''_tid'' td___kernel_timer_t,
      Plain ''_overrun'' (TInt I32 True),
      Plain ''_sigval'' td_sigval_t,
      Plain ''_sys_private'' (TInt I32 True)]),
    Plain ''_rt'' (TStruct '''' False [
      Plain ''_pid'' td___kernel_pid_t,
      Plain ''_uid'' td___kernel_uid32_t,
      Plain ''_sigval'' td_sigval_t]),
    Plain ''_sigchld'' (TStruct '''' False [
      Plain ''_pid'' td___kernel_pid_t,
      Plain ''_uid'' td___kernel_uid32_t,
      Plain ''_status'' (TInt I32 True),
      Plain ''_utime'' td___kernel_clock_t,
      Plain ''_stime'' td___kernel_clock_t]),
    Plain ''_sigfault'' (TStruct '''' False [
      Plain ''_addr'' (TPtr ''void''),
      Plain '''' (TUnion '''' False [
        Plain ''_trapno'' (TInt I32 True),
        Plain ''_addr_lsb'' (TInt I16 True),
        Plain ''_addr_bnd'' (TStruct '''' False [
          Plain ''_dummy_bnd'' (TArr (TInt I8 True) 8),
          Plain ''_lower'' (TPtr ''void''),
          Plain ''_upper'' (TPtr ''void'')]),
        Plain ''_addr_pkey'' (TStruct '''' False [
          Plain ''_dummy_pkey'' (TArr (TInt I8 True) 8),
          Plain ''_pkey'' td___u32]),
        Plain ''_perf'' (TStruct '''' False [
          Plain ''_data'' (TInt I64 False),
          Plain ''_type'' td___u32,
          Plain ''_flags'' td___u32])])]),
    Plain ''_sigpoll'' (TStruct '''' False [
      Plain ''_band'' (TInt I64 True),
      Plain ''_fd'' (TInt I32 True)]),
    Plain ''_sigsys'' (TStruct '''' False [
      Plain ''_call_addr'' (TPtr ''void''),
      Plain ''_syscall'' (TInt I32 True),
      Plain ''_arch'' (TInt I32 False)])]"

definition st_delayed_work :: ty where
  "st_delayed_work = TStruct ''delayed_work'' False [
    Plain ''work'' st_work_struct,
    Plain ''timer'' st_timer_list,
    Plain ''wq'' (TPtr ''struct workqueue_struct''),
    Plain ''cpu'' (TInt I32 True)]"

definition st_apparmor_audit_data :: ty where
  "st_apparmor_audit_data = TStruct ''apparmor_audit_data'' False [
    Plain ''flags'' td_u32,
    Plain ''error'' (TInt I32 True),
    Plain ''type'' (TInt I32 True),
    Plain ''class'' td_u16,
    Plain ''op'' (TPtr ''char''),
    Plain ''subj_cred'' (TPtr ''struct cred''),
    Plain ''subj_label'' (TPtr ''struct aa_label''),
    Plain ''name'' (TPtr ''char''),
    Plain ''info'' (TPtr ''char''),
    Plain ''request'' td_u32,
    Plain ''denied'' td_u32,
    Plain ''tags'' td_u32,
    Plain ''subjtsk'' (TPtr ''struct task_struct''),
    Plain '''' (TUnion '''' False [
      Plain '''' (TStruct '''' False [
        Plain ''peer'' (TPtr ''struct aa_label''),
        Plain '''' (TUnion '''' False [
          Plain ''fs'' (TStruct '''' False [
            Plain ''target'' (TPtr ''char''),
            Plain ''ouid'' td_kuid_t]),
          Plain ''rlim'' (TStruct '''' False [
            Plain ''rlim'' (TInt I32 True),
            Plain ''max'' (TInt I64 False)]),
          Plain '''' (TStruct '''' False [
            Plain ''signal'' (TInt I32 True),
            Plain ''unmappedsig'' (TInt I32 True)]),
          Plain ''net'' (TStruct '''' False [
            Plain ''type'' (TInt I32 True),
            Plain ''protocol'' (TInt I32 True),
            Plain ''addr'' (TPtr ''void''),
            Plain ''addrlen'' (TInt I32 True),
            Plain ''peer'' (TStruct '''' False [
              Plain ''addr'' (TPtr ''void''),
              Plain ''addrlen'' (TInt I32 True)])]),
          Plain ''ns'' (TStruct '''' False [
            Plain ''target'' (TPtr ''char'')]),
          Plain ''mq'' (TStruct '''' False [
            Plain ''ouid'' td_kuid_t])])]),
      Plain ''iface'' (TStruct '''' False [
        Plain ''profile'' (TPtr ''struct aa_profile''),
        Plain ''ns'' (TPtr ''char''),
        Plain ''pos'' (TInt I64 True)]),
      Plain ''mnt'' (TStruct '''' False [
        Plain ''src_name'' (TPtr ''char''),
        Plain ''type'' (TPtr ''char''),
        Plain ''trans'' (TPtr ''char''),
        Plain ''data'' (TPtr ''char''),
        Plain ''flags'' (TInt I64 False)]),
      Plain ''uring'' (TStruct '''' False [
        Plain ''target'' (TPtr ''struct aa_label'')])]),
    Plain ''common'' st_common_audit_data]"

definition st_qrwlock :: ty where
  "st_qrwlock = TStruct ''qrwlock'' False [
    Plain '''' (TUnion '''' False [
      Plain ''cnts'' td_atomic_t,
      Plain '''' (TStruct '''' False [
        Plain ''wlocked'' td_u8,
        Plain ''__lstate'' (TArr td_u8 3)])]),
    Plain ''wait_lock'' td_arch_spinlock_t]"

definition st_acomp_req :: ty where
  "st_acomp_req = TStruct ''acomp_req'' False [
    Plain ''base'' st_crypto_async_request,
    Plain '''' (TUnion '''' False [
      Plain ''src'' (TPtr ''struct scatterlist''),
      Plain ''svirt'' (TPtr ''u8'')]),
    Plain '''' (TUnion '''' False [
      Plain ''dst'' (TPtr ''struct scatterlist''),
      Plain ''dvirt'' (TPtr ''u8'')]),
    Plain ''slen'' (TInt I32 False),
    Plain ''dlen'' (TInt I32 False),
    Plain ''chain'' st_acomp_req_chain,
    Plain ''__ctx'' (TArr (TPtr ''void'') 0)]"

definition st_acpi_device_info :: ty where
  "st_acpi_device_info = TStruct ''acpi_device_info'' False [
    Plain ''info_size'' td_u32,
    Plain ''name'' td_u32,
    Plain ''type'' td_acpi_object_type,
    Plain ''param_count'' td_u8,
    Plain ''valid'' td_u16,
    Plain ''flags'' td_u8,
    Plain ''highest_dstates'' (TArr td_u8 4),
    Plain ''lowest_dstates'' (TArr td_u8 5),
    Plain ''address'' td_u64,
    Plain ''hardware_id'' st_acpi_pnp_device_id,
    Plain ''unique_id'' st_acpi_pnp_device_id,
    Plain ''class_code'' st_acpi_pnp_device_id,
    Plain ''compatible_id_list'' st_acpi_pnp_device_id_list]"

definition st_rcu_work :: ty where
  "st_rcu_work = TStruct ''rcu_work'' False [
    Plain ''work'' st_work_struct,
    Plain ''rcu'' st_callback_head,
    Plain ''wq'' (TPtr ''struct workqueue_struct'')]"

definition st_timerqueue_head :: ty where
  "st_timerqueue_head = TStruct ''timerqueue_head'' False [
    Plain ''rb_root'' st_rb_root_cached]"

definition st_async :: ty where
  "st_async = TStruct ''async'' False [
    Plain ''asynclist'' st_list_head,
    Plain ''ps'' (TPtr ''struct usb_dev_state''),
    Plain ''pid'' (TPtr ''struct pid''),
    Plain ''cred'' (TPtr ''struct cred''),
    Plain ''signr'' (TInt I32 False),
    Plain ''ifnum'' (TInt I32 False),
    Plain ''userbuffer'' (TPtr ''void''),
    Plain ''userurb'' (TPtr ''void''),
    Plain ''userurb_sigval'' td_sigval_t,
    Plain ''urb'' (TPtr ''struct urb''),
    Plain ''usbm'' (TPtr ''struct usb_memory''),
    Plain ''mem_usage'' (TInt I32 False),
    Plain ''status'' (TInt I32 True),
    Plain ''bulk_addr'' td_u8,
    Plain ''bulk_status'' td_u8]"

definition st_audit_names :: ty where
  "st_audit_names = TStruct ''audit_names'' False [
    Plain ''list'' st_list_head,
    Plain ''name'' (TPtr ''struct filename''),
    Plain ''name_len'' (TInt I32 True),
    Plain ''hidden'' td_bool,
    Plain ''ino'' (TInt I64 False),
    Plain ''dev'' td_dev_t,
    Plain ''mode'' td_umode_t,
    Plain ''uid'' td_kuid_t,
    Plain ''gid'' td_kgid_t,
    Plain ''rdev'' td_dev_t,
    Plain ''oprop'' st_lsm_prop,
    Plain ''fcap'' st_audit_cap_data,
    Plain ''fcap_ver'' (TInt I32 False),
    Plain ''type'' (TInt I8 False),
    Plain ''should_free'' td_bool]"

definition st_seqcount_spinlock :: ty where
  "st_seqcount_spinlock = TStruct ''seqcount_spinlock'' False [
    Plain ''seqcount'' td_seqcount_t]"

definition st_bio_fallback_crypt_ctx :: ty where
  "st_bio_fallback_crypt_ctx = TStruct ''bio_fallback_crypt_ctx'' False [
    Plain ''crypt_ctx'' st_bio_crypt_ctx,
    Plain ''crypt_iter'' st_bvec_iter,
    Plain '''' (TUnion '''' False [
      Plain '''' (TStruct '''' False [
        Plain ''work'' st_work_struct,
        Plain ''bio'' (TPtr ''struct bio'')]),
      Plain '''' (TStruct '''' False [
        Plain ''bi_private_orig'' (TPtr ''void''),
        Plain ''bi_end_io_orig'' (TPtr ''bio_end_io_t'')])])]"

definition td_wait_queue_entry_t :: ty where
  "td_wait_queue_entry_t = st_wait_queue_entry"

definition st_blkdev_dio :: ty where
  "st_blkdev_dio = TStruct ''blkdev_dio'' False [
    Plain '''' (TUnion '''' False [
      Plain ''iocb'' (TPtr ''struct kiocb''),
      Plain ''waiter'' (TPtr ''struct task_struct'')]),
    Plain ''size'' td_size_t,
    Plain ''ref'' td_atomic_t,
    Plain ''flags'' (TInt I32 False),
    Bits '''' (TInt I64 True) 64,
    Bits '''' (TInt I64 True) 64,
    Bits '''' (TInt I64 True) 64,
    Bits '''' (TInt I64 True) 64,
    Bits '''' (TInt I64 True) 64,
    Plain ''bio'' st_bio,
    Bits '''' (TInt I64 True) 64,
    Bits '''' (TInt I64 True) 64,
    Bits '''' (TInt I64 True) 64,
    Bits '''' (TInt I64 True) 64,
    Bits '''' (TInt I64 True) 64,
    Bits '''' (TInt I64 True) 64,
    Bits '''' (TInt I64 True) 64]"

definition st_irq_work :: ty where
  "st_irq_work = TStruct ''irq_work'' False [
    Plain ''node'' st___call_single_node,
    Plain ''func'' (TFun ''void (*)(struct irq_work *)''),
    Plain ''irqwait'' st_rcuwait]"

definition st_bpf_link :: ty where
  "st_bpf_link = TStruct ''bpf_link'' False [
    Plain ''refcnt'' td_atomic64_t,
    Plain ''id'' td_u32,
    Plain ''type'' (TEnum ''bpf_link_type'' I32),
    Plain ''ops'' (TPtr ''struct bpf_link_ops''),
    Plain ''prog'' (TPtr ''struct bpf_prog''),
    Plain ''flags'' td_u32,
    Plain ''attach_type'' (TEnum ''bpf_attach_type'' I32),
    Plain '''' (TUnion '''' False [
      Plain ''rcu'' st_callback_head,
      Plain ''work'' st_work_struct]),
    Plain ''sleepable'' td_bool]"

definition st_sk_buff :: ty where
  "st_sk_buff = TStruct ''sk_buff'' False [
    Plain '''' (TUnion '''' False [
      Plain '''' (TStruct '''' False [
        Plain ''next'' (TPtr ''struct sk_buff''),
        Plain ''prev'' (TPtr ''struct sk_buff''),
        Plain '''' (TUnion '''' False [
          Plain ''dev'' (TPtr ''struct net_device''),
          Plain ''dev_scratch'' (TInt I64 False)])]),
      Plain ''rbnode'' st_rb_node,
      Plain ''list'' st_list_head,
      Plain ''ll_node'' st_llist_node]),
    Plain ''sk'' (TPtr ''struct sock''),
    Plain '''' (TUnion '''' False [
      Plain ''tstamp'' td_ktime_t,
      Plain ''skb_mstamp_ns'' td_u64]),
    Plain ''cb'' (TArr (TInt I8 True) 48),
    Plain '''' (TUnion '''' False [
      Plain '''' (TStruct '''' False [
        Plain ''_skb_refdst'' (TInt I64 False),
        Plain ''destructor'' (TFun ''void (*)(struct sk_buff *)'')]),
      Plain ''tcp_tsorted_anchor'' st_list_head,
      Plain ''_sk_redir'' (TInt I64 False)]),
    Plain ''_nfct'' (TInt I64 False),
    Plain ''len'' (TInt I32 False),
    Plain ''data_len'' (TInt I32 False),
    Plain ''mac_len'' td___u16,
    Plain ''hdr_len'' td___u16,
    Plain ''queue_mapping'' td___u16,
    Plain ''__cloned_offset'' (TArr td___u8 0),
    Bits ''cloned'' td___u8 1,
    Bits ''nohdr'' td___u8 1,
    Bits ''fclone'' td___u8 2,
    Bits ''peeked'' td___u8 1,
    Bits ''head_frag'' td___u8 1,
    Bits ''pfmemalloc'' td___u8 1,
    Bits ''pp_recycle'' td___u8 1,
    Plain ''active_extensions'' td___u8,
    Plain '''' (TUnion '''' False [
      Plain '''' (TStruct '''' False [
        Plain ''__pkt_type_offset'' (TArr td___u8 0),
        Bits ''pkt_type'' td___u8 3,
        Bits ''ignore_df'' td___u8 1,
        Bits ''dst_pending_confirm'' td___u8 1,
        Bits ''ip_summed'' td___u8 2,
        Bits ''ooo_okay'' td___u8 1,
        Plain ''__mono_tc_offset'' (TArr td___u8 0),
        Bits ''tstamp_type'' td___u8 2,
        Bits ''tc_at_ingress'' td___u8 1,
        Bits ''tc_skip_classify'' td___u8 1,
        Bits ''remcsum_offload'' td___u8 1,
        Bits ''csum_complete_sw'' td___u8 1,
        Bits ''csum_level'' td___u8 2,
        Bits ''inner_protocol_type'' td___u8 1,
        Bits ''l4_hash'' td___u8 1,
        Bits ''sw_hash'' td___u8 1,
        Bits ''wifi_acked_valid'' td___u8 1,
        Bits ''wifi_acked'' td___u8 1,
        Bits ''no_fcs'' td___u8 1,
        Bits ''encapsulation'' td___u8 1,
        Bits ''encap_hdr_csum'' td___u8 1,
        Bits ''csum_valid'' td___u8 1,
        Bits ''ndisc_nodetype'' td___u8 2,
        Bits ''ipvs_property'' td___u8 1,
        Bits ''nf_trace'' td___u8 1,
        Bits ''offload_fwd_mark'' td___u8 1,
        Bits ''offload_l3_fwd_mark'' td___u8 1,
        Bits ''redirected'' td___u8 1,
        Bits ''from_ingress'' td___u8 1,
        Bits ''nf_skip_egress'' td___u8 1,
        Bits ''decrypted'' td___u8 1,
        Bits ''slow_gro'' td___u8 1,
        Bits ''csum_not_inet'' td___u8 1,
        Bits ''unreadable'' td___u8 1,
        Plain ''tc_index'' td___u16,
        Plain ''alloc_cpu'' td_u16,
        Plain '''' (TUnion '''' False [
          Plain ''csum'' td___wsum,
          Plain '''' (TStruct '''' False [
            Plain ''csum_start'' td___u16,
            Plain ''csum_offset'' td___u16])]),
        Plain ''priority'' td___u32,
        Plain ''skb_iif'' (TInt I32 True),
        Plain ''hash'' td___u32,
        Plain '''' (TUnion '''' False [
          Plain ''vlan_all'' td_u32,
          Plain '''' (TStruct '''' False [
            Plain ''vlan_proto'' td___be16,
            Plain ''vlan_tci'' td___u16])]),
        Plain '''' (TUnion '''' False [
          Plain ''napi_id'' (TInt I32 False),
          Plain ''sender_cpu'' (TInt I32 False)]),
        Plain ''secmark'' td___u32,
        Plain '''' (TUnion '''' False [
          Plain ''mark'' td___u32,
          Plain ''reserved_tailroom'' td___u32]),
        Plain '''' (TUnion '''' False [
          Plain ''inner_protocol'' td___be16,
          Plain ''inner_ipproto'' td___u8]),
        Plain ''inner_transport_header'' td___u16,
        Plain ''inner_network_header'' td___u16,
        Plain ''inner_mac_header'' td___u16,
        Plain ''protocol'' td___be16,
        Plain ''transport_header'' td___u16,
        Plain ''network_header'' td___u16,
        Plain ''mac_header'' td___u16]),
      Plain ''headers'' (TStruct '''' False [
        Plain ''__pkt_type_offset'' (TArr td___u8 0),
        Bits ''pkt_type'' td___u8 3,
        Bits ''ignore_df'' td___u8 1,
        Bits ''dst_pending_confirm'' td___u8 1,
        Bits ''ip_summed'' td___u8 2,
        Bits ''ooo_okay'' td___u8 1,
        Plain ''__mono_tc_offset'' (TArr td___u8 0),
        Bits ''tstamp_type'' td___u8 2,
        Bits ''tc_at_ingress'' td___u8 1,
        Bits ''tc_skip_classify'' td___u8 1,
        Bits ''remcsum_offload'' td___u8 1,
        Bits ''csum_complete_sw'' td___u8 1,
        Bits ''csum_level'' td___u8 2,
        Bits ''inner_protocol_type'' td___u8 1,
        Bits ''l4_hash'' td___u8 1,
        Bits ''sw_hash'' td___u8 1,
        Bits ''wifi_acked_valid'' td___u8 1,
        Bits ''wifi_acked'' td___u8 1,
        Bits ''no_fcs'' td___u8 1,
        Bits ''encapsulation'' td___u8 1,
        Bits ''encap_hdr_csum'' td___u8 1,
        Bits ''csum_valid'' td___u8 1,
        Bits ''ndisc_nodetype'' td___u8 2,
        Bits ''ipvs_property'' td___u8 1,
        Bits ''nf_trace'' td___u8 1,
        Bits ''offload_fwd_mark'' td___u8 1,
        Bits ''offload_l3_fwd_mark'' td___u8 1,
        Bits ''redirected'' td___u8 1,
        Bits ''from_ingress'' td___u8 1,
        Bits ''nf_skip_egress'' td___u8 1,
        Bits ''decrypted'' td___u8 1,
        Bits ''slow_gro'' td___u8 1,
        Bits ''csum_not_inet'' td___u8 1,
        Bits ''unreadable'' td___u8 1,
        Plain ''tc_index'' td___u16,
        Plain ''alloc_cpu'' td_u16,
        Plain '''' (TUnion '''' False [
          Plain ''csum'' td___wsum,
          Plain '''' (TStruct '''' False [
            Plain ''csum_start'' td___u16,
            Plain ''csum_offset'' td___u16])]),
        Plain ''priority'' td___u32,
        Plain ''skb_iif'' (TInt I32 True),
        Plain ''hash'' td___u32,
        Plain '''' (TUnion '''' False [
          Plain ''vlan_all'' td_u32,
          Plain '''' (TStruct '''' False [
            Plain ''vlan_proto'' td___be16,
            Plain ''vlan_tci'' td___u16])]),
        Plain '''' (TUnion '''' False [
          Plain ''napi_id'' (TInt I32 False),
          Plain ''sender_cpu'' (TInt I32 False)]),
        Plain ''secmark'' td___u32,
        Plain '''' (TUnion '''' False [
          Plain ''mark'' td___u32,
          Plain ''reserved_tailroom'' td___u32]),
        Plain '''' (TUnion '''' False [
          Plain ''inner_protocol'' td___be16,
          Plain ''inner_ipproto'' td___u8]),
        Plain ''inner_transport_header'' td___u16,
        Plain ''inner_network_header'' td___u16,
        Plain ''inner_mac_header'' td___u16,
        Plain ''protocol'' td___be16,
        Plain ''transport_header'' td___u16,
        Plain ''network_header'' td___u16,
        Plain ''mac_header'' td___u16])]),
    Plain ''tail'' td_sk_buff_data_t,
    Plain ''end'' td_sk_buff_data_t,
    Plain ''head'' (TPtr ''unsigned char''),
    Plain ''data'' (TPtr ''unsigned char''),
    Plain ''truesize'' (TInt I32 False),
    Plain ''users'' td_refcount_t,
    Plain ''extensions'' (TPtr ''struct skb_ext'')]"

definition st_sock_common :: ty where
  "st_sock_common = TStruct ''sock_common'' False [
    Plain '''' (TUnion '''' False [
      Plain ''skc_addrpair'' td___addrpair,
      Plain '''' (TStruct '''' False [
        Plain ''skc_daddr'' td___be32,
        Plain ''skc_rcv_saddr'' td___be32])]),
    Plain '''' (TUnion '''' False [
      Plain ''skc_hash'' (TInt I32 False),
      Plain ''skc_u16hashes'' (TArr td___u16 2)]),
    Plain '''' (TUnion '''' False [
      Plain ''skc_portpair'' td___portpair,
      Plain '''' (TStruct '''' False [
        Plain ''skc_dport'' td___be16,
        Plain ''skc_num'' td___u16])]),
    Plain ''skc_family'' (TInt I16 False),
    Plain ''skc_state'' (TInt I8 False),
    Bits ''skc_reuse'' (TInt I8 False) 4,
    Bits ''skc_reuseport'' (TInt I8 False) 1,
    Bits ''skc_ipv6only'' (TInt I8 False) 1,
    Bits ''skc_net_refcnt'' (TInt I8 False) 1,
    Bits ''skc_bypass_prot_mem'' (TInt I8 False) 1,
    Plain ''skc_bound_dev_if'' (TInt I32 True),
    Plain '''' (TUnion '''' False [
      Plain ''skc_bind_node'' st_hlist_node,
      Plain ''skc_portaddr_node'' st_hlist_node]),
    Plain ''skc_prot'' (TPtr ''struct proto''),
    Plain ''skc_net'' td_possible_net_t,
    Plain ''skc_v6_daddr'' st_in6_addr,
    Plain ''skc_v6_rcv_saddr'' st_in6_addr,
    Plain ''skc_cookie'' td_atomic64_t,
    Plain '''' (TUnion '''' False [
      Plain ''skc_flags'' (TInt I64 False),
      Plain ''skc_listener'' (TPtr ''struct sock''),
      Plain ''skc_tw_dr'' (TPtr ''struct inet_timewait_death_row'')]),
    Plain ''skc_dontcopy_begin'' (TArr (TInt I32 True) 0),
    Plain '''' (TUnion '''' False [
      Plain ''skc_node'' st_hlist_node,
      Plain ''skc_nulls_node'' st_hlist_nulls_node]),
    Plain ''skc_tx_queue_mapping'' (TInt I16 False),
    Plain ''skc_rx_queue_mapping'' (TInt I16 False),
    Plain '''' (TUnion '''' False [
      Plain ''skc_incoming_cpu'' (TInt I32 True),
      Plain ''skc_rcv_wnd'' td_u32,
      Plain ''skc_tw_rcv_nxt'' td_u32]),
    Plain ''skc_refcnt'' td_refcount_t,
    Plain ''skc_dontcopy_end'' (TArr (TInt I32 True) 0),
    Plain '''' (TUnion '''' False [
      Plain ''skc_rxhash'' td_u32,
      Plain ''skc_window_clamp'' td_u32,
      Plain ''skc_tw_snd_nxt'' td_u32])]"

definition st_bpf_ksym :: ty where
  "st_bpf_ksym = TStruct ''bpf_ksym'' False [
    Plain ''start'' (TInt I64 False),
    Plain ''end'' (TInt I64 False),
    Plain ''name'' (TArr (TInt I8 True) 512),
    Plain ''lnode'' st_list_head,
    Plain ''tnode'' st_latch_tree_node,
    Plain ''prog'' td_bool,
    Plain ''fp_start'' td_u32,
    Plain ''fp_end'' td_u32]"

definition st_bpf_func_state :: ty where
  "st_bpf_func_state = TStruct ''bpf_func_state'' False [
    Plain ''regs'' (TArr st_bpf_reg_state 11),
    Plain ''callsite'' (TInt I32 True),
    Plain ''frameno'' td_u32,
    Plain ''subprogno'' td_u32,
    Plain ''async_entry_cnt'' td_u32,
    Plain ''callback_ret_range'' st_bpf_retval_range,
    Plain ''in_callback_fn'' td_bool,
    Plain ''in_async_callback_fn'' td_bool,
    Plain ''in_exception_callback_fn'' td_bool,
    Plain ''callback_depth'' td_u32,
    Plain ''stack'' (TPtr ''struct bpf_stack_state''),
    Plain ''allocated_stack'' (TInt I32 True)]"

definition st_bpf_struct_ops_common_value :: ty where
  "st_bpf_struct_ops_common_value = TStruct ''bpf_struct_ops_common_value'' False [
    Plain ''refcnt'' td_refcount_t,
    Plain ''state'' (TEnum ''bpf_struct_ops_state'' I32)]"

definition st_bpf_verifier_env :: ty where
  "st_bpf_verifier_env = TStruct ''bpf_verifier_env'' False [
    Plain ''insn_idx'' td_u32,
    Plain ''prev_insn_idx'' td_u32,
    Plain ''prog'' (TPtr ''struct bpf_prog''),
    Plain ''ops'' (TPtr ''struct bpf_verifier_ops''),
    Plain ''attach_btf_mod'' (TPtr ''struct module''),
    Plain ''head'' (TPtr ''struct bpf_verifier_stack_elem''),
    Plain ''stack_size'' (TInt I32 True),
    Plain ''strict_alignment'' td_bool,
    Plain ''test_state_freq'' td_bool,
    Plain ''test_reg_invariants'' td_bool,
    Plain ''cur_state'' (TPtr ''struct bpf_verifier_state''),
    Plain ''explored_states'' (TPtr ''struct list_head''),
    Plain ''free_list'' st_list_head,
    Plain ''used_maps'' (TArr (TPtr ''struct bpf_map'') 64),
    Plain ''used_btfs'' (TArr st_btf_mod_pair 64),
    Plain ''insn_array_maps'' (TArr (TPtr ''struct bpf_map'') 64),
    Plain ''used_map_cnt'' td_u32,
    Plain ''used_btf_cnt'' td_u32,
    Plain ''insn_array_map_cnt'' td_u32,
    Plain ''id_gen'' td_u32,
    Plain ''hidden_subprog_cnt'' td_u32,
    Plain ''exception_callback_subprog'' (TInt I32 True),
    Plain ''explore_alu_limits'' td_bool,
    Plain ''allow_ptr_leaks'' td_bool,
    Plain ''allow_uninit_stack'' td_bool,
    Plain ''bpf_capable'' td_bool,
    Plain ''bypass_spec_v1'' td_bool,
    Plain ''bypass_spec_v4'' td_bool,
    Plain ''seen_direct_write'' td_bool,
    Plain ''seen_exception'' td_bool,
    Plain ''insn_aux_data'' (TPtr ''struct bpf_insn_aux_data''),
    Plain ''prev_linfo'' (TPtr ''struct bpf_line_info''),
    Plain ''log'' st_bpf_verifier_log,
    Plain ''subprog_info'' (TArr st_bpf_subprog_info 258),
    Plain '''' (TUnion '''' False [
      Plain ''idmap_scratch'' st_bpf_idmap,
      Plain ''idset_scratch'' st_bpf_idset]),
    Plain ''cfg'' (TStruct '''' False [
      Plain ''insn_state'' (TPtr ''int''),
      Plain ''insn_stack'' (TPtr ''int''),
      Plain ''insn_postorder'' (TPtr ''int''),
      Plain ''cur_stack'' (TInt I32 True),
      Plain ''cur_postorder'' (TInt I32 True)]),
    Plain ''bt'' st_backtrack_state,
    Plain ''cur_hist_ent'' (TPtr ''struct bpf_jmp_history_entry''),
    Plain ''pass_cnt'' td_u32,
    Plain ''subprog_cnt'' td_u32,
    Plain ''prev_insn_processed'' td_u32,
    Plain ''insn_processed'' td_u32,
    Plain ''prev_jmps_processed'' td_u32,
    Plain ''jmps_processed'' td_u32,
    Plain ''verification_time'' td_u64,
    Plain ''max_states_per_insn'' td_u32,
    Plain ''total_states'' td_u32,
    Plain ''peak_states'' td_u32,
    Plain ''longest_mark_read_walk'' td_u32,
    Plain ''free_list_size'' td_u32,
    Plain ''explored_states_size'' td_u32,
    Plain ''num_backedges'' td_u32,
    Plain ''fd_array'' td_bpfptr_t,
    Plain ''scratched_regs'' td_u32,
    Plain ''scratched_stack_slots'' td_u64,
    Plain ''prev_log_pos'' td_u64,
    Plain ''prev_insn_print_pos'' td_u64,
    Plain ''fake_reg'' (TArr st_bpf_reg_state 2),
    Plain ''tmp_str_buf'' (TArr (TInt I8 True) 320),
    Plain ''insn_buf'' (TArr st_bpf_insn 32),
    Plain ''epilogue_buf'' (TArr st_bpf_insn 32),
    Plain ''callchain_buf'' st_bpf_scc_callchain,
    Plain ''liveness'' (TPtr ''struct bpf_liveness''),
    Plain ''scc_info'' (TPtr ''struct bpf_scc_info *''),
    Plain ''scc_cnt'' td_u32,
    Plain ''succ'' (TPtr ''struct bpf_iarray''),
    Plain ''gotox_tmp_buf'' (TPtr ''struct bpf_iarray'')]"

definition st_btf :: ty where
  "st_btf = TStruct ''btf'' False [
    Plain ''data'' (TPtr ''void''),
    Plain ''types'' (TPtr ''struct btf_type *''),
    Plain ''resolved_ids'' (TPtr ''u32''),
    Plain ''resolved_sizes'' (TPtr ''u32''),
    Plain ''strings'' (TPtr ''char''),
    Plain ''nohdr_data'' (TPtr ''void''),
    Plain ''hdr'' st_btf_header,
    Plain ''nr_types'' td_u32,
    Plain ''named_start_id'' td_u32,
    Plain ''types_size'' td_u32,
    Plain ''data_size'' td_u32,
    Plain ''refcnt'' td_refcount_t,
    Plain ''id'' td_u32,
    Plain ''rcu'' st_callback_head,
    Plain ''kfunc_set_tab'' (TPtr ''struct btf_kfunc_set_tab''),
    Plain ''dtor_kfunc_tab'' (TPtr ''struct btf_id_dtor_kfunc_tab''),
    Plain ''struct_meta_tab'' (TPtr ''struct btf_struct_metas''),
    Plain ''struct_ops_tab'' (TPtr ''struct btf_struct_ops_tab''),
    Plain ''base_btf'' (TPtr ''struct btf''),
    Plain ''start_id'' td_u32,
    Plain ''start_str_off'' td_u32,
    Plain ''name'' (TArr (TInt I8 True) 56),
    Plain ''kernel_btf'' td_bool,
    Plain ''base_id_map'' (TPtr ''__u32'')]"

definition st_cacheinfo :: ty where
  "st_cacheinfo = TStruct ''cacheinfo'' False [
    Plain ''id'' (TInt I32 False),
    Plain ''type'' (TEnum ''cache_type'' I32),
    Plain ''level'' (TInt I32 False),
    Plain ''coherency_line_size'' (TInt I32 False),
    Plain ''number_of_sets'' (TInt I32 False),
    Plain ''ways_of_associativity'' (TInt I32 False),
    Plain ''physical_line_partition'' (TInt I32 False),
    Plain ''size'' (TInt I32 False),
    Plain ''shared_cpu_map'' td_cpumask_t,
    Plain ''attributes'' (TInt I32 False),
    Plain ''fw_token'' (TPtr ''void''),
    Plain ''disable_sysfs'' td_bool,
    Plain ''priv'' (TPtr ''void'')]"

definition st_cgroup_file :: ty where
  "st_cgroup_file = TStruct ''cgroup_file'' False [
    Plain ''kn'' (TPtr ''struct kernfs_node''),
    Plain ''notified_at'' (TInt I64 False),
    Plain ''notify_timer'' st_timer_list]"

definition st_cgroup_bpf :: ty where
  "st_cgroup_bpf = TStruct ''cgroup_bpf'' False [
    Plain ''effective'' (TArr (TPtr ''struct bpf_prog_array'') 38),
    Plain ''progs'' (TArr st_hlist_head 38),
    Plain ''flags'' (TArr td_u8 38),
    Plain ''revisions'' (TArr td_u64 38),
    Plain ''storages'' st_list_head,
    Plain ''inactive'' (TPtr ''struct bpf_prog_array''),
    Plain ''refcnt'' st_percpu_ref,
    Plain ''release_work'' st_work_struct]"

definition st_cgroup_file_ctx :: ty where
  "st_cgroup_file_ctx = TStruct ''cgroup_file_ctx'' False [
    Plain ''ns'' (TPtr ''struct cgroup_namespace''),
    Plain ''psi'' (TStruct '''' False [
      Plain ''trigger'' (TPtr ''void'')]),
    Plain ''procs'' (TStruct '''' False [
      Plain ''started'' td_bool,
      Plain ''iter'' st_css_task_iter]),
    Plain ''procs1'' (TStruct '''' False [
      Plain ''pidlist'' (TPtr ''struct cgroup_pidlist'')]),
    Plain ''peak'' st_cgroup_of_peak]"

definition st_ns_tree :: ty where
  "st_ns_tree = TStruct ''ns_tree'' False [
    Plain ''ns_id'' td_u64,
    Plain ''__ns_ref_active'' td_atomic_t,
    Plain ''ns_unified_node'' st_ns_tree_node,
    Plain ''ns_tree_node'' st_ns_tree_node,
    Plain ''ns_owner_node'' st_ns_tree_node,
    Plain ''ns_owner_root'' st_ns_tree_root]"

definition st_closure :: ty where
  "st_closure = TStruct ''closure'' False [
    Plain '''' (TUnion '''' False [
      Plain '''' (TStruct '''' False [
        Plain ''wq'' (TPtr ''struct workqueue_struct''),
        Plain ''s'' (TPtr ''struct closure_syncer''),
        Plain ''list'' st_llist_node,
        Plain ''fn'' (TPtr ''closure_fn'')]),
      Plain ''work'' st_work_struct]),
    Plain ''parent'' (TPtr ''struct closure''),
    Plain ''remaining'' td_atomic_t,
    Plain ''closure_get_happened'' td_bool]"

definition st_compat_siginfo :: ty where
  "st_compat_siginfo = TStruct ''compat_siginfo'' False [
    Plain ''si_signo'' (TInt I32 True),
    Plain ''si_errno'' (TInt I32 True),
    Plain ''si_code'' (TInt I32 True),
    Plain ''_sifields'' (TUnion '''' False [
      Plain ''_pad'' (TArr (TInt I32 True) 29),
      Plain ''_kill'' (TStruct '''' False [
        Plain ''_pid'' td_compat_pid_t,
        Plain ''_uid'' td___compat_uid32_t]),
      Plain ''_timer'' (TStruct '''' False [
        Plain ''_tid'' td_compat_timer_t,
        Plain ''_overrun'' (TInt I32 True),
        Plain ''_sigval'' td_compat_sigval_t]),
      Plain ''_rt'' (TStruct '''' False [
        Plain ''_pid'' td_compat_pid_t,
        Plain ''_uid'' td___compat_uid32_t,
        Plain ''_sigval'' td_compat_sigval_t]),
      Plain ''_sigchld'' (TStruct '''' False [
        Plain ''_pid'' td_compat_pid_t,
        Plain ''_uid'' td___compat_uid32_t,
        Plain ''_status'' (TInt I32 True),
        Plain ''_utime'' td_compat_clock_t,
        Plain ''_stime'' td_compat_clock_t]),
      Plain ''_sigfault'' (TStruct '''' False [
        Plain ''_addr'' td_compat_uptr_t,
        Plain '''' (TUnion '''' False [
          Plain ''_trapno'' (TInt I32 True),
          Plain ''_addr_lsb'' (TInt I16 True),
          Plain ''_addr_bnd'' (TStruct '''' False [
            Plain ''_dummy_bnd'' (TArr (TInt I8 True) 4),
            Plain ''_lower'' td_compat_uptr_t,
            Plain ''_upper'' td_compat_uptr_t]),
          Plain ''_addr_pkey'' (TStruct '''' False [
            Plain ''_dummy_pkey'' (TArr (TInt I8 True) 4),
            Plain ''_pkey'' td_u32]),
          Plain ''_perf'' (TStruct '''' False [
            Plain ''_data'' td_compat_ulong_t,
            Plain ''_type'' td_u32,
            Plain ''_flags'' td_u32])])]),
      Plain ''_sigpoll'' (TStruct '''' False [
        Plain ''_band'' td_compat_long_t,
        Plain ''_fd'' (TInt I32 True)]),
      Plain ''_sigsys'' (TStruct '''' False [
        Plain ''_call_addr'' td_compat_uptr_t,
        Plain ''_syscall'' (TInt I32 True),
        Plain ''_arch'' (TInt I32 False)])])]"

definition st_mls_range :: ty where
  "st_mls_range = TStruct ''mls_range'' False [
    Plain ''level'' (TArr st_mls_level 2)]"

definition st_cpa_data :: ty where
  "st_cpa_data = TStruct ''cpa_data'' False [
    Plain ''vaddr'' (TPtr ''long unsigned int''),
    Plain ''pgd'' (TPtr ''pgd_t''),
    Plain ''mask_set'' td_pgprot_t,
    Plain ''mask_clr'' td_pgprot_t,
    Plain ''numpages'' (TInt I64 False),
    Plain ''curpage'' (TInt I64 False),
    Plain ''pfn'' (TInt I64 False),
    Plain ''flags'' (TInt I32 False),
    Bits ''force_split'' (TInt I32 False) 1,
    Bits ''force_static_prot'' (TInt I32 False) 1,
    Bits ''force_flush_all'' (TInt I32 False) 1,
    Plain ''pages'' (TPtr ''struct page *'')]"

definition st_cpu_hw_events :: ty where
  "st_cpu_hw_events = TStruct ''cpu_hw_events'' False [
    Plain ''events'' (TArr (TPtr ''struct perf_event'') 64),
    Plain ''active_mask'' (TArr (TInt I64 False) 1),
    Plain ''dirty'' (TArr (TInt I64 False) 1),
    Plain ''enabled'' (TInt I32 True),
    Plain ''n_events'' (TInt I32 True),
    Plain ''n_added'' (TInt I32 True),
    Plain ''n_txn'' (TInt I32 True),
    Plain ''n_txn_pair'' (TInt I32 True),
    Plain ''n_txn_metric'' (TInt I32 True),
    Plain ''assign'' (TArr (TInt I32 True) 64),
    Plain ''tags'' (TArr td_u64 64),
    Plain ''event_list'' (TArr (TPtr ''struct perf_event'') 64),
    Plain ''event_constraint'' (TArr (TPtr ''struct event_constraint'') 64),
    Plain ''n_excl'' (TInt I32 True),
    Plain ''n_late_setup'' (TInt I32 True),
    Plain ''txn_flags'' (TInt I32 False),
    Plain ''is_fake'' (TInt I32 True),
    Plain ''ds'' (TPtr ''struct debug_store''),
    Plain ''ds_bts_vaddr'' (TPtr ''void''),
    Plain ''pebs_vaddr'' (TPtr ''void''),
    Plain ''pebs_enabled'' td_u64,
    Plain ''n_pebs'' (TInt I32 True),
    Plain ''n_large_pebs'' (TInt I32 True),
    Plain ''n_pebs_via_pt'' (TInt I32 True),
    Plain ''pebs_output'' (TInt I32 True),
    Plain ''pebs_data_cfg'' td_u64,
    Plain ''active_pebs_data_cfg'' td_u64,
    Plain ''pebs_record_size'' (TInt I32 True),
    Plain ''fixed_ctrl_val'' td_u64,
    Plain ''active_fixed_ctrl_val'' td_u64,
    Plain ''acr_cfg_b'' (TArr td_u64 64),
    Plain ''acr_cfg_c'' (TArr td_u64 64),
    Plain ''cfg_c_val'' (TArr td_u64 64),
    Plain ''lbr_users'' (TInt I32 True),
    Plain ''lbr_pebs_users'' (TInt I32 True),
    Plain ''lbr_stack'' st_perf_branch_stack,
    Plain ''lbr_entries'' (TArr st_perf_branch_entry 32),
    Plain ''lbr_counters'' (TArr td_u64 32),
    Plain '''' (TUnion '''' False [
      Plain ''lbr_sel'' (TPtr ''struct er_account''),
      Plain ''lbr_ctl'' (TPtr ''struct er_account'')]),
    Plain ''br_sel'' td_u64,
    Plain ''last_task_ctx'' (TPtr ''void''),
    Plain ''last_log_id'' (TInt I32 True),
    Plain ''lbr_select'' (TInt I32 True),
    Plain ''lbr_xsave'' (TPtr ''void''),
    Plain ''intel_ctrl_guest_mask'' td_u64,
    Plain ''intel_ctrl_host_mask'' td_u64,
    Plain ''guest_switch_msrs'' (TArr st_perf_guest_switch_msr 64),
    Plain ''intel_cp_status'' td_u64,
    Plain ''shared_regs'' (TPtr ''struct intel_shared_regs''),
    Plain ''constraint_list'' (TPtr ''struct event_constraint''),
    Plain ''excl_cntrs'' (TPtr ''struct intel_excl_cntrs''),
    Plain ''excl_thread_id'' (TInt I32 True),
    Plain ''tfa_shadow'' td_u64,
    Plain ''n_metric'' (TInt I32 True),
    Plain ''amd_nb'' (TPtr ''struct amd_nb''),
    Plain ''brs_active'' (TInt I32 True),
    Plain ''perf_ctr_virt_mask'' td_u64,
    Plain ''n_pair'' (TInt I32 True),
    Plain ''kfree_on_online'' (TArr (TPtr ''void'') 2),
    Plain ''pmu'' (TPtr ''struct pmu'')]"

definition st_cpu_timer :: ty where
  "st_cpu_timer = TStruct ''cpu_timer'' False [
    Plain ''node'' st_timerqueue_node,
    Plain ''head'' (TPtr ''struct timerqueue_head''),
    Plain ''pid'' (TPtr ''struct pid''),
    Plain ''elist'' st_list_head,
    Plain ''firing'' td_bool,
    Plain ''nanosleep'' td_bool,
    Plain ''handling'' (TPtr ''struct task_struct'')]"

definition st_pm_qos_constraints :: ty where
  "st_pm_qos_constraints = TStruct ''pm_qos_constraints'' False [
    Plain ''list'' st_plist_head,
    Plain ''target_value'' td_s32,
    Plain ''default_value'' td_s32,
    Plain ''no_constraint_value'' td_s32,
    Plain ''type'' (TEnum ''pm_qos_type'' I32),
    Plain ''notifiers'' (TPtr ''struct blocking_notifier_head'')]"

definition st_css_set :: ty where
  "st_css_set = TStruct ''css_set'' False [
    Plain ''subsys'' (TArr (TPtr ''struct cgroup_subsys_state'') 15),
    Plain ''refcount'' td_refcount_t,
    Plain ''dom_cset'' (TPtr ''struct css_set''),
    Plain ''dfl_cgrp'' (TPtr ''struct cgroup''),
    Plain ''nr_tasks'' (TInt I32 True),
    Plain ''tasks'' st_list_head,
    Plain ''mg_tasks'' st_list_head,
    Plain ''dying_tasks'' st_list_head,
    Plain ''task_iters'' st_list_head,
    Plain ''e_cset_node'' (TArr st_list_head 15),
    Plain ''threaded_csets'' st_list_head,
    Plain ''threaded_csets_node'' st_list_head,
    Plain ''hlist'' st_hlist_node,
    Plain ''cgrp_links'' st_list_head,
    Plain ''mg_src_preload_node'' st_list_head,
    Plain ''mg_dst_preload_node'' st_list_head,
    Plain ''mg_node'' st_list_head,
    Plain ''mg_src_cgrp'' (TPtr ''struct cgroup''),
    Plain ''mg_dst_cgrp'' (TPtr ''struct cgroup''),
    Plain ''mg_dst_cset'' (TPtr ''struct css_set''),
    Plain ''dead'' td_bool,
    Plain ''callback_head'' st_callback_head]"

definition st_ctl_dir :: ty where
  "st_ctl_dir = TStruct ''ctl_dir'' False [
    Plain ''header'' st_ctl_table_header,
    Plain ''root'' st_rb_root]"

definition st_cxl_event_dram :: ty where
  "st_cxl_event_dram = TStruct ''cxl_event_dram'' False [
    Plain ''media_hdr'' st_cxl_event_media_hdr,
    Plain ''nibble_mask'' (TArr td_u8 3),
    Plain ''bank_group'' td_u8,
    Plain ''bank'' td_u8,
    Plain ''row'' (TArr td_u8 3),
    Plain ''column'' (TArr td_u8 2),
    Plain ''correction_mask'' (TArr td_u8 32),
    Plain ''component_id'' (TArr td_u8 16),
    Plain ''sub_channel'' td_u8,
    Plain ''cme_threshold_ev_flags'' td_u8,
    Plain ''cvme_count'' (TArr td_u8 3),
    Plain ''sub_type'' td_u8,
    Plain ''reserved'' td_u8]"

definition st_detailed_timing :: ty where
  "st_detailed_timing = TStruct ''detailed_timing'' False [
    Plain ''pixel_clock'' td___le16,
    Plain ''data'' (TUnion '''' False [
      Plain ''pixel_data'' st_detailed_pixel_timing,
      Plain ''other_data'' st_detailed_non_pixel])]"

definition st_devlink_rate :: ty where
  "st_devlink_rate = TStruct ''devlink_rate'' False [
    Plain ''list'' st_list_head,
    Plain ''type'' (TEnum ''devlink_rate_type'' I32),
    Plain ''devlink'' (TPtr ''struct devlink''),
    Plain ''priv'' (TPtr ''void''),
    Plain ''tx_share'' td_u64,
    Plain ''tx_max'' td_u64,
    Plain ''parent'' (TPtr ''struct devlink_rate''),
    Plain '''' (TUnion '''' False [
      Plain ''devlink_port'' (TPtr ''struct devlink_port''),
      Plain '''' (TStruct '''' False [
        Plain ''name'' (TPtr ''char''),
        Plain ''refcnt'' td_refcount_t])]),
    Plain ''tx_priority'' td_u32,
    Plain ''tx_weight'' td_u32,
    Plain ''tc_bw'' (TArr td_u32 8)]"

definition st_dim :: ty where
  "st_dim = TStruct ''dim'' False [
    Plain ''state'' td_u8,
    Plain ''prev_stats'' st_dim_stats,
    Plain ''start_sample'' st_dim_sample,
    Plain ''measuring_sample'' st_dim_sample,
    Plain ''work'' st_work_struct,
    Plain ''priv'' (TPtr ''void''),
    Plain ''profile_ix'' td_u8,
    Plain ''mode'' td_u8,
    Plain ''tune_state'' td_u8,
    Plain ''steps_right'' td_u8,
    Plain ''steps_left'' td_u8,
    Plain ''tired'' td_u8]"

definition st_dl_rq :: ty where
  "st_dl_rq = TStruct ''dl_rq'' False [
    Plain ''root'' st_rb_root_cached,
    Plain ''dl_nr_running'' (TInt I32 False),
    Plain ''earliest_dl'' (TStruct '''' False [
      Plain ''curr'' td_u64,
      Plain ''next'' td_u64]),
    Plain ''overloaded'' td_bool,
    Plain ''pushable_dl_tasks_root'' st_rb_root_cached,
    Plain ''running_bw'' td_u64,
    Plain ''this_bw'' td_u64,
    Plain ''extra_bw'' td_u64,
    Plain ''max_bw'' td_u64,
    Plain ''bw_ratio'' td_u64]"

definition st_dm_stat :: ty where
  "st_dm_stat = TStruct ''dm_stat'' False [
    Plain ''list_entry'' st_list_head,
    Plain ''id'' (TInt I32 True),
    Plain ''stat_flags'' (TInt I32 False),
    Plain ''n_entries'' td_size_t,
    Plain ''start'' td_sector_t,
    Plain ''end'' td_sector_t,
    Plain ''step'' td_sector_t,
    Plain ''n_histogram_entries'' (TInt I32 False),
    Plain ''histogram_boundaries'' (TPtr ''long long unsigned int''),
    Plain ''program_id'' (TPtr ''char''),
    Plain ''aux_data'' (TPtr ''char''),
    Plain ''callback_head'' st_callback_head,
    Plain ''shared_alloc_size'' td_size_t,
    Plain ''percpu_alloc_size'' td_size_t,
    Plain ''histogram_alloc_size'' td_size_t,
    Plain ''stat_percpu'' (TArr (TPtr ''struct dm_stat_percpu'') 8192),
    Plain ''stat_shared'' (TArr st_dm_stat_shared 0)]"

definition st_dmem_cgroup_pool_state :: ty where
  "st_dmem_cgroup_pool_state = TStruct ''dmem_cgroup_pool_state'' False [
    Plain ''region'' (TPtr ''struct dmem_cgroup_region''),
    Plain ''cs'' (TPtr ''struct dmemcg_state''),
    Plain ''css_node'' st_list_head,
    Plain ''region_node'' st_list_head,
    Plain ''rcu'' st_callback_head,
    Plain ''cnt'' st_page_counter,
    Plain ''parent'' (TPtr ''struct dmem_cgroup_pool_state''),
    Plain ''ref'' td_refcount_t,
    Plain ''inited'' td_bool,
    Bits '''' (TInt I64 True) 64,
    Bits '''' (TInt I64 True) 64,
    Bits '''' (TInt I64 True) 64,
    Bits '''' (TInt I64 True) 64,
    Bits '''' (TInt I64 True) 64,
    Bits '''' (TInt I64 True) 64]"

definition st_drm_crtc_state :: ty where
  "st_drm_crtc_state = TStruct ''drm_crtc_state'' False [
    Plain ''crtc'' (TPtr ''struct drm_crtc''),
    Plain ''enable'' td_bool,
    Plain ''active'' td_bool,
    Bits ''planes_changed'' td_bool 1,
    Bits ''mode_changed'' td_bool 1,
    Bits ''active_changed'' td_bool 1,
    Bits ''connectors_changed'' td_bool 1,
    Bits ''zpos_changed'' td_bool 1,
    Bits ''color_mgmt_changed'' td_bool 1,
    Plain ''no_vblank'' td_bool,
    Plain ''plane_mask'' td_u32,
    Plain ''connector_mask'' td_u32,
    Plain ''encoder_mask'' td_u32,
    Plain ''adjusted_mode'' st_drm_display_mode,
    Plain ''mode'' st_drm_display_mode,
    Plain ''mode_blob'' (TPtr ''struct drm_property_blob''),
    Plain ''degamma_lut'' (TPtr ''struct drm_property_blob''),
    Plain ''ctm'' (TPtr ''struct drm_property_blob''),
    Plain ''gamma_lut'' (TPtr ''struct drm_property_blob''),
    Plain ''target_vblank'' td_u32,
    Plain ''async_flip'' td_bool,
    Plain ''vrr_enabled'' td_bool,
    Plain ''self_refresh_active'' td_bool,
    Plain ''scaling_filter'' (TEnum ''drm_scaling_filter'' I32),
    Plain ''sharpness_strength'' td_u8,
    Plain ''event'' (TPtr ''struct drm_pending_vblank_event''),
    Plain ''commit'' (TPtr ''struct drm_crtc_commit''),
    Plain ''state'' (TPtr ''struct drm_atomic_state'')]"

definition st_ehci_iso_stream :: ty where
  "st_ehci_iso_stream = TStruct ''ehci_iso_stream'' False [
    Plain ''hw'' (TPtr ''struct ehci_qh_hw''),
    Plain ''bEndpointAddress'' td_u8,
    Plain ''highspeed'' td_u8,
    Plain ''td_list'' st_list_head,
    Plain ''free_list'' st_list_head,
    Plain ''ps'' st_ehci_per_sched,
    Plain ''next_uframe'' (TInt I32 False),
    Plain ''splits'' td___le32,
    Plain ''uperiod'' td_u16,
    Plain ''maxp'' td_u16,
    Plain ''bandwidth'' (TInt I32 False),
    Plain ''buf0'' td___le32,
    Plain ''buf1'' td___le32,
    Plain ''buf2'' td___le32,
    Plain ''address'' td___le32]"

definition st_ehci_qh :: ty where
  "st_ehci_qh = TStruct ''ehci_qh'' False [
    Plain ''hw'' (TPtr ''struct ehci_qh_hw''),
    Plain ''qh_dma'' td_dma_addr_t,
    Plain ''qh_next'' un_ehci_shadow,
    Plain ''qtd_list'' st_list_head,
    Plain ''intr_node'' st_list_head,
    Plain ''dummy'' (TPtr ''struct ehci_qtd''),
    Plain ''unlink_node'' st_list_head,
    Plain ''ps'' st_ehci_per_sched,
    Plain ''unlink_cycle'' (TInt I32 False),
    Plain ''qh_state'' td_u8,
    Plain ''xacterrs'' td_u8,
    Plain ''unlink_reason'' td_u8,
    Plain ''gap_uf'' td_u8,
    Bits ''is_out'' (TInt I32 False) 1,
    Bits ''clearing_tt'' (TInt I32 False) 1,
    Bits ''dequeue_during_giveback'' (TInt I32 False) 1,
    Bits ''should_be_inactive'' (TInt I32 False) 1]"

definition st_fanotify_event :: ty where
  "st_fanotify_event = TStruct ''fanotify_event'' False [
    Plain ''fse'' st_fsnotify_event,
    Plain ''merge_list'' st_hlist_node,
    Plain ''mask'' td_u32,
    Plain '''' (TStruct '''' False [
      Bits ''type'' (TInt I32 False) 3,
      Bits ''hash'' (TInt I32 False) 29]),
    Plain ''pid'' (TPtr ''struct pid'')]"

definition st_fb_cursor :: ty where
  "st_fb_cursor = TStruct ''fb_cursor'' False [
    Plain ''set'' td___u16,
    Plain ''enable'' td___u16,
    Plain ''rop'' td___u16,
    Plain ''mask'' (TPtr ''char''),
    Plain ''hot'' st_fbcurpos,
    Plain ''image'' st_fb_image]"

definition st_fib_rule :: ty where
  "st_fib_rule = TStruct ''fib_rule'' False [
    Plain ''list'' st_list_head,
    Plain ''iifindex'' (TInt I32 True),
    Plain ''oifindex'' (TInt I32 True),
    Plain ''mark'' td_u32,
    Plain ''mark_mask'' td_u32,
    Plain ''flags'' td_u32,
    Plain ''table'' td_u32,
    Plain ''action'' td_u8,
    Plain ''l3mdev'' td_u8,
    Plain ''proto'' td_u8,
    Plain ''ip_proto'' td_u8,
    Plain ''target'' td_u32,
    Plain ''tun_id'' td___be64,
    Plain ''ctarget'' (TPtr ''struct fib_rule''),
    Plain ''fr_net'' (TPtr ''struct net''),
    Plain ''refcnt'' td_refcount_t,
    Plain ''pref'' td_u32,
    Plain ''suppress_ifgroup'' (TInt I32 True),
    Plain ''suppress_prefixlen'' (TInt I32 True),
    Plain ''iifname'' (TArr (TInt I8 True) 16),
    Plain ''oifname'' (TArr (TInt I8 True) 16),
    Plain ''uid_range'' st_fib_kuid_range,
    Plain ''sport_range'' st_fib_rule_port_range,
    Plain ''dport_range'' st_fib_rule_port_range,
    Plain ''sport_mask'' td_u16,
    Plain ''dport_mask'' td_u16,
    Plain ''iif_is_l3_master'' td_u8,
    Plain ''oif_is_l3_master'' td_u8,
    Plain ''rcu'' st_callback_head]"

definition st_fib6_nh :: ty where
  "st_fib6_nh = TStruct ''fib6_nh'' False [
    Plain ''nh_common'' st_fib_nh_common,
    Plain ''last_probe'' (TInt I64 False),
    Plain ''rt6i_pcpu'' (TPtr ''struct rt6_info *''),
    Plain ''rt6i_exception_bucket'' (TPtr ''struct rt6_exception_bucket'')]"

definition st_fib_nh :: ty where
  "st_fib_nh = TStruct ''fib_nh'' False [
    Plain ''nh_common'' st_fib_nh_common,
    Plain ''nh_hash'' st_hlist_node,
    Plain ''nh_parent'' (TPtr ''struct fib_info''),
    Plain ''nh_tclassid'' td___u32,
    Plain ''nh_saddr'' td___be32,
    Plain ''nh_saddr_genid'' (TInt I32 True)]"

definition st_flowi4 :: ty where
  "st_flowi4 = TStruct ''flowi4'' False [
    Plain ''__fl_common'' st_flowi_common,
    Plain ''saddr'' td___be32,
    Plain ''daddr'' td___be32,
    Plain ''uli'' un_flowi_uli]"

definition st_flowi6 :: ty where
  "st_flowi6 = TStruct ''flowi6'' False [
    Plain ''__fl_common'' st_flowi_common,
    Plain ''daddr'' st_in6_addr,
    Plain ''saddr'' st_in6_addr,
    Plain ''flowlabel'' td___be32,
    Plain ''uli'' un_flowi_uli,
    Plain ''mp_hash'' td___u32]"

definition st_folio :: ty where
  "st_folio = TStruct ''folio'' False [
    Plain '''' (TUnion '''' False [
      Plain '''' (TStruct '''' False [
        Plain ''flags'' td_memdesc_flags_t,
        Plain '''' (TUnion '''' False [
          Plain ''lru'' st_list_head,
          Plain '''' (TStruct '''' False [
            Plain ''__filler'' (TPtr ''void''),
            Plain ''mlock_count'' (TInt I32 False)]),
          Plain ''pgmap'' (TPtr ''struct dev_pagemap'')]),
        Plain ''mapping'' (TPtr ''struct address_space''),
        Plain '''' (TUnion '''' False [
          Plain ''index'' (TInt I64 False),
          Plain ''share'' (TInt I64 False)]),
        Plain '''' (TUnion '''' False [
          Plain ''private'' (TPtr ''void''),
          Plain ''swap'' td_swp_entry_t]),
        Plain ''_mapcount'' td_atomic_t,
        Plain ''_refcount'' td_atomic_t,
        Plain ''memcg_data'' (TInt I64 False)]),
      Plain ''page'' st_page]),
    Plain '''' (TUnion '''' False [
      Plain '''' (TStruct '''' False [
        Plain ''_flags_1'' (TInt I64 False),
        Plain ''_head_1'' (TInt I64 False),
        Plain '''' (TUnion '''' False [
          Plain '''' (TStruct '''' False [
            Plain ''_large_mapcount'' td_atomic_t,
            Plain ''_nr_pages_mapped'' td_atomic_t,
            Plain ''_entire_mapcount'' td_atomic_t,
            Plain ''_pincount'' td_atomic_t,
            Plain ''_mm_id_mapcount'' (TArr td_mm_id_mapcount_t 2),
            Plain '''' (TUnion '''' False [
              Plain ''_mm_id'' (TArr td_mm_id_t 2),
              Plain ''_mm_ids'' (TInt I64 False)])]),
          Plain ''_usable_1'' (TArr (TInt I64 False) 4)]),
        Plain ''_mapcount_1'' td_atomic_t,
        Plain ''_refcount_1'' td_atomic_t,
        Plain ''_nr_pages'' (TInt I32 False)]),
      Plain ''__page_1'' st_page]),
    Plain '''' (TUnion '''' False [
      Plain '''' (TStruct '''' False [
        Plain ''_flags_2'' (TInt I64 False),
        Plain ''_head_2'' (TInt I64 False),
        Plain ''_deferred_list'' st_list_head]),
      Plain ''__page_2'' st_page]),
    Plain '''' (TUnion '''' False [
      Plain '''' (TStruct '''' False [
        Plain ''_flags_3'' (TInt I64 False),
        Plain ''_head_3'' (TInt I64 False),
        Plain ''_hugetlb_subpool'' (TPtr ''void''),
        Plain ''_hugetlb_cgroup'' (TPtr ''void''),
        Plain ''_hugetlb_cgroup_rsvd'' (TPtr ''void''),
        Plain ''_hugetlb_hwpoison'' (TPtr ''void'')]),
      Plain ''__page_3'' st_page])]"

definition un_fpregs_state :: ty where
  "un_fpregs_state = TUnion ''fpregs_state'' False [
    Plain ''fsave'' st_fregs_state,
    Plain ''fxsave'' st_fxregs_state,
    Plain ''soft'' st_swregs_state,
    Plain ''xsave'' st_xregs_state,
    Plain ''__padding'' (TArr td_u8 4096)]"

definition st_futex_q :: ty where
  "st_futex_q = TStruct ''futex_q'' False [
    Plain ''list'' st_plist_node,
    Plain ''task'' (TPtr ''struct task_struct''),
    Plain ''lock_ptr'' (TPtr ''spinlock_t''),
    Plain ''wake'' (TPtr ''futex_wake_fn''),
    Plain ''wake_data'' (TPtr ''void''),
    Plain ''key'' un_futex_key,
    Plain ''pi_state'' (TPtr ''struct futex_pi_state''),
    Plain ''rt_waiter'' (TPtr ''struct rt_mutex_waiter''),
    Plain ''requeue_pi_key'' (TPtr ''union futex_key''),
    Plain ''bitset'' td_u32,
    Plain ''requeue_state'' td_atomic_t,
    Plain ''drop_hb_ref'' td_bool]"

definition st_generic_pm_domain_data :: ty where
  "st_generic_pm_domain_data = TStruct ''generic_pm_domain_data'' False [
    Plain ''base'' st_pm_domain_data,
    Plain ''td'' (TPtr ''struct gpd_timing_data''),
    Plain ''nb'' st_notifier_block,
    Plain ''power_nb'' (TPtr ''struct notifier_block''),
    Plain ''cpu'' (TInt I32 True),
    Plain ''performance_state'' (TInt I32 False),
    Plain ''default_pstate'' (TInt I32 False),
    Plain ''rpm_pstate'' (TInt I32 False),
    Plain ''opp_token'' (TInt I32 False),
    Plain ''hw_mode'' td_bool,
    Plain ''rpm_always_on'' td_bool,
    Plain ''data'' (TPtr ''void'')]"

definition st_ghes :: ty where
  "st_ghes = TStruct ''ghes'' False [
    Plain '''' (TUnion '''' False [
      Plain ''generic'' (TPtr ''struct acpi_hest_generic''),
      Plain ''generic_v2'' (TPtr ''struct acpi_hest_generic_v2'')]),
    Plain ''estatus'' (TPtr ''struct acpi_hest_generic_status''),
    Plain ''estatus_length'' (TInt I32 False),
    Plain ''flags'' (TInt I64 False),
    Plain '''' (TUnion '''' False [
      Plain ''list'' st_list_head,
      Plain ''timer'' st_timer_list,
      Plain ''irq'' (TInt I32 False)]),
    Plain ''dev'' (TPtr ''struct device''),
    Plain ''elist'' st_list_head,
    Plain ''error_status_vaddr'' (TPtr ''void'')]"

definition st_hmac_sha256_key :: ty where
  "st_hmac_sha256_key = TStruct ''hmac_sha256_key'' False [
    Plain ''key'' st___hmac_sha256_key]"

definition st_seqcount_raw_spinlock :: ty where
  "st_seqcount_raw_spinlock = TStruct ''seqcount_raw_spinlock'' False [
    Plain ''seqcount'' td_seqcount_t]"

definition st_htab_elem :: ty where
  "st_htab_elem = TStruct ''htab_elem'' False [
    Plain '''' (TUnion '''' False [
      Plain ''hash_node'' st_hlist_nulls_node,
      Plain '''' (TStruct '''' False [
        Plain ''padding'' (TPtr ''void''),
        Plain '''' (TUnion '''' False [
          Plain ''fnode'' st_pcpu_freelist_node,
          Plain ''batch_flink'' (TPtr ''struct htab_elem'')])])]),
    Plain '''' (TUnion '''' False [
      Plain ''ptr_to_pptr'' (TPtr ''void''),
      Plain ''lru_node'' st_bpf_lru_node]),
    Plain ''hash'' td_u32,
    Bits '''' (TInt I64 True) 0,
    Plain ''key'' (TArr (TInt I8 True) 0)]"

definition un_hv_ghcb :: ty where
  "un_hv_ghcb = TUnion ''hv_ghcb'' False [
    Plain ''ghcb'' st_ghcb,
    Plain ''hypercall'' (TStruct '''' False [
      Plain ''hypercalldata'' (TArr td_u64 509),
      Plain ''outputgpa'' td_u64,
      Plain '''' (TUnion '''' False [
        Plain ''hypercallinput'' (TUnion '''' False [
          Plain '''' (TStruct '''' False [
            Bits ''callcode'' td_u32 16,
            Bits ''isfast'' td_u32 1,
            Bits ''reserved1'' td_u32 14,
            Bits ''isnested'' td_u32 1,
            Bits ''countofelements'' td_u32 12,
            Bits ''reserved2'' td_u32 4,
            Bits ''repstartindex'' td_u32 12,
            Bits ''reserved3'' td_u32 4]),
          Plain ''asuint64'' td_u64]),
        Plain ''hypercalloutput'' (TUnion '''' False [
          Plain '''' (TStruct '''' False [
            Plain ''callstatus'' td_u16,
            Plain ''reserved1'' td_u16,
            Bits ''elementsprocessed'' td_u32 12,
            Bits ''reserved2'' td_u32 20]),
          Plain ''asunit64'' td_u64])]),
      Plain ''reserved2'' td_u64])]"

definition st_ipv6_devconf :: ty where
  "st_ipv6_devconf = TStruct ''ipv6_devconf'' False [
    Plain ''__cacheline_group_begin__ipv6_devconf_read_txrx'' (TArr td___u8 0),
    Plain ''disable_ipv6'' td___s32,
    Plain ''hop_limit'' td___s32,
    Plain ''mtu6'' td___s32,
    Plain ''forwarding'' td___s32,
    Plain ''force_forwarding'' td___s32,
    Plain ''disable_policy'' td___s32,
    Plain ''proxy_ndp'' td___s32,
    Plain ''__cacheline_group_end__ipv6_devconf_read_txrx'' (TArr td___u8 0),
    Plain ''accept_ra'' td___s32,
    Plain ''accept_redirects'' td___s32,
    Plain ''autoconf'' td___s32,
    Plain ''dad_transmits'' td___s32,
    Plain ''rtr_solicits'' td___s32,
    Plain ''rtr_solicit_interval'' td___s32,
    Plain ''rtr_solicit_max_interval'' td___s32,
    Plain ''rtr_solicit_delay'' td___s32,
    Plain ''force_mld_version'' td___s32,
    Plain ''mldv1_unsolicited_report_interval'' td___s32,
    Plain ''mldv2_unsolicited_report_interval'' td___s32,
    Plain ''use_tempaddr'' td___s32,
    Plain ''temp_valid_lft'' td___s32,
    Plain ''temp_prefered_lft'' td___s32,
    Plain ''regen_min_advance'' td___s32,
    Plain ''regen_max_retry'' td___s32,
    Plain ''max_desync_factor'' td___s32,
    Plain ''max_addresses'' td___s32,
    Plain ''accept_ra_defrtr'' td___s32,
    Plain ''ra_defrtr_metric'' td___u32,
    Plain ''accept_ra_min_hop_limit'' td___s32,
    Plain ''accept_ra_min_lft'' td___s32,
    Plain ''accept_ra_pinfo'' td___s32,
    Plain ''ignore_routes_with_linkdown'' td___s32,
    Plain ''accept_ra_rtr_pref'' td___s32,
    Plain ''rtr_probe_interval'' td___s32,
    Plain ''accept_ra_rt_info_min_plen'' td___s32,
    Plain ''accept_ra_rt_info_max_plen'' td___s32,
    Plain ''accept_source_route'' td___s32,
    Plain ''accept_ra_from_local'' td___s32,
    Plain ''optimistic_dad'' td___s32,
    Plain ''use_optimistic'' td___s32,
    Plain ''mc_forwarding'' td_atomic_t,
    Plain ''drop_unicast_in_l2_multicast'' td___s32,
    Plain ''accept_dad'' td___s32,
    Plain ''force_tllao'' td___s32,
    Plain ''ndisc_notify'' td___s32,
    Plain ''suppress_frag_ndisc'' td___s32,
    Plain ''accept_ra_mtu'' td___s32,
    Plain ''drop_unsolicited_na'' td___s32,
    Plain ''accept_untracked_na'' td___s32,
    Plain ''stable_secret'' st_ipv6_stable_secret,
    Plain ''use_oif_addrs_only'' td___s32,
    Plain ''keep_addr_on_down'' td___s32,
    Plain ''seg6_enabled'' td___s32,
    Plain ''seg6_require_hmac'' td___s32,
    Plain ''enhanced_dad'' td___u32,
    Plain ''addr_gen_mode'' td___u32,
    Plain ''ndisc_tclass'' td___s32,
    Plain ''rpl_seg_enabled'' td___s32,
    Plain ''ioam6_id'' td___u32,
    Plain ''ioam6_id_wide'' td___u32,
    Plain ''ioam6_enabled'' td___u8,
    Plain ''ndisc_evict_nocarrier'' td___u8,
    Plain ''ra_honor_pio_life'' td___u8,
    Plain ''ra_honor_pio_pflag'' td___u8,
    Plain ''sysctl_header'' (TPtr ''struct ctl_table_header'')]"

definition st_inet_peer :: ty where
  "st_inet_peer = TStruct ''inet_peer'' False [
    Plain ''rb_node'' st_rb_node,
    Plain ''daddr'' st_inetpeer_addr,
    Plain ''metrics'' (TArr td_u32 17),
    Plain ''rate_tokens'' td_u32,
    Plain ''n_redirects'' td_u32,
    Plain ''rate_last'' (TInt I64 False),
    Plain '''' (TUnion '''' False [
      Plain '''' (TStruct '''' False [
        Plain ''rid'' td_atomic_t]),
      Plain ''rcu'' st_callback_head]),
    Plain ''dtime'' td___u32,
    Plain ''refcnt'' td_refcount_t]"

definition st_inet_timewait_death_row :: ty where
  "st_inet_timewait_death_row = TStruct ''inet_timewait_death_row'' False [
    Plain ''tw_refcount'' td_refcount_t,
    Bits '''' (TInt I64 True) 64,
    Bits '''' (TInt I64 True) 64,
    Bits '''' (TInt I64 True) 64,
    Bits '''' (TInt I64 True) 64,
    Bits '''' (TInt I64 True) 64,
    Bits '''' (TInt I64 True) 64,
    Bits '''' (TInt I64 True) 64,
    Plain ''hashinfo'' (TPtr ''struct inet_hashinfo''),
    Plain ''sysctl_max_tw_buckets'' (TInt I32 True),
    Bits '''' (TInt I64 True) 64,
    Bits '''' (TInt I64 True) 64,
    Bits '''' (TInt I64 True) 64,
    Bits '''' (TInt I64 True) 64,
    Bits '''' (TInt I64 True) 64,
    Bits '''' (TInt I64 True) 64]"

definition st_msghdr :: ty where
  "st_msghdr = TStruct ''msghdr'' False [
    Plain ''msg_name'' (TPtr ''void''),
    Plain ''msg_namelen'' (TInt I32 True),
    Plain ''msg_inq'' (TInt I32 True),
    Plain ''msg_iter'' st_iov_iter,
    Plain '''' (TUnion '''' False [
      Plain ''msg_control'' (TPtr ''void''),
      Plain ''msg_control_user'' (TPtr ''void'')]),
    Bits ''msg_control_is_user'' td_bool 1,
    Bits ''msg_get_inq'' td_bool 1,
    Plain ''msg_flags'' (TInt I32 False),
    Plain ''msg_controllen'' td___kernel_size_t,
    Plain ''msg_iocb'' (TPtr ''struct kiocb''),
    Plain ''msg_ubuf'' (TPtr ''struct ubuf_info''),
    Plain ''sg_from_iter'' (TFun ''int (*)(struct sk_buff *, struct iov_iter *, size_t)'')]"

definition st_uio_meta :: ty where
  "st_uio_meta = TStruct ''uio_meta'' False [
    Plain ''flags'' td_uio_meta_flags_t,
    Plain ''app_tag'' td_u16,
    Plain ''seed'' td_u64,
    Plain ''iter'' st_iov_iter]"

definition st_io_kiocb :: ty where
  "st_io_kiocb = TStruct ''io_kiocb'' False [
    Plain '''' (TUnion '''' False [
      Plain ''file'' (TPtr ''struct file''),
      Plain ''cmd'' st_io_cmd_data]),
    Plain ''opcode'' td_u8,
    Plain ''iopoll_completed'' td_u8,
    Plain ''buf_index'' td_u16,
    Plain ''nr_tw'' (TInt I32 False),
    Plain ''flags'' td_io_req_flags_t,
    Plain ''cqe'' st_io_cqe,
    Plain ''ctx'' (TPtr ''struct io_ring_ctx''),
    Plain ''tctx'' (TPtr ''struct io_uring_task''),
    Plain '''' (TUnion '''' False [
      Plain ''kbuf'' (TPtr ''struct io_buffer''),
      Plain ''buf_node'' (TPtr ''struct io_rsrc_node'')]),
    Plain '''' (TUnion '''' False [
      Plain ''comp_list'' st_io_wq_work_node,
      Plain ''apoll_events'' td___poll_t]),
    Plain ''file_node'' (TPtr ''struct io_rsrc_node''),
    Plain ''refs'' td_atomic_t,
    Plain ''cancel_seq_set'' td_bool,
    Plain '''' (TUnion '''' False [
      Plain ''io_task_work'' st_io_task_work,
      Plain ''iopoll_start'' td_u64]),
    Plain '''' (TUnion '''' False [
      Plain ''hash_node'' st_hlist_node,
      Plain ''iopoll_node'' st_list_head,
      Plain ''callback_head'' st_callback_head]),
    Plain ''apoll'' (TPtr ''struct async_poll''),
    Plain ''async_data'' (TPtr ''void''),
    Plain ''poll_refs'' td_atomic_t,
    Plain ''link'' (TPtr ''struct io_kiocb''),
    Plain ''creds'' (TPtr ''struct cred''),
    Plain ''work'' st_io_wq_work,
    Plain ''big_cqe'' st_io_big_cqe]"

definition st_ubuf_info :: ty where
  "st_ubuf_info = TStruct ''ubuf_info'' False [
    Plain ''ops'' (TPtr ''struct ubuf_info_ops''),
    Plain ''refcnt'' td_refcount_t,
    Plain ''flags'' td_u8]"

definition st_io_submit_state :: ty where
  "st_io_submit_state = TStruct ''io_submit_state'' False [
    Plain ''free_list'' st_io_wq_work_node,
    Plain ''compl_reqs'' st_io_wq_work_list,
    Plain ''link'' st_io_submit_link,
    Plain ''plug_started'' td_bool,
    Plain ''need_plug'' td_bool,
    Plain ''cq_flush'' td_bool,
    Plain ''submit_nr'' (TInt I16 False),
    Plain ''plug'' st_blk_plug]"

definition st_iomap_dio :: ty where
  "st_iomap_dio = TStruct ''iomap_dio'' False [
    Plain ''iocb'' (TPtr ''struct kiocb''),
    Plain ''dops'' (TPtr ''struct iomap_dio_ops''),
    Plain ''i_size'' td_loff_t,
    Plain ''size'' td_loff_t,
    Plain ''ref'' td_atomic_t,
    Plain ''flags'' (TInt I32 False),
    Plain ''error'' (TInt I32 True),
    Plain ''done_before'' td_size_t,
    Plain ''wait_for_completion'' td_bool,
    Plain '''' (TUnion '''' False [
      Plain ''submit'' (TStruct '''' False [
        Plain ''iter'' (TPtr ''struct iov_iter''),
        Plain ''waiter'' (TPtr ''struct task_struct'')]),
      Plain ''aio'' (TStruct '''' False [
        Plain ''work'' st_work_struct])])]"

definition st_ip_tunnel :: ty where
  "st_ip_tunnel = TStruct ''ip_tunnel'' False [
    Plain ''next'' (TPtr ''struct ip_tunnel''),
    Plain ''hash_node'' st_hlist_node,
    Plain ''dev'' (TPtr ''struct net_device''),
    Plain ''dev_tracker'' td_netdevice_tracker,
    Plain ''net'' (TPtr ''struct net''),
    Plain ''err_time'' (TInt I64 False),
    Plain ''err_count'' (TInt I32 True),
    Plain ''i_seqno'' td_u32,
    Plain ''o_seqno'' td_atomic_t,
    Plain ''tun_hlen'' (TInt I32 True),
    Plain ''index'' td_u32,
    Plain ''erspan_ver'' td_u8,
    Plain ''dir'' td_u8,
    Plain ''hwid'' td_u16,
    Plain ''dst_cache'' st_dst_cache,
    Plain ''parms'' st_ip_tunnel_parm_kern,
    Plain ''mlink'' (TInt I32 True),
    Plain ''encap_hlen'' (TInt I32 True),
    Plain ''hlen'' (TInt I32 True),
    Plain ''encap'' st_ip_tunnel_encap,
    Plain ''ip6rd'' st_ip_tunnel_6rd_parm,
    Plain ''prl'' (TPtr ''struct ip_tunnel_prl_entry''),
    Plain ''prl_count'' (TInt I32 False),
    Plain ''fan'' st_ip_tunnel_fan,
    Plain ''ip_tnl_net_id'' (TInt I32 False),
    Plain ''gro_cells'' st_gro_cells,
    Plain ''fwmark'' td___u32,
    Plain ''collect_md'' td_bool,
    Plain ''ignore_df'' td_bool]"

definition st_ipv6_pinfo :: ty where
  "st_ipv6_pinfo = TStruct ''ipv6_pinfo'' False [
    Plain ''saddr'' st_in6_addr,
    Plain '''' (TUnion '''' False [
      Plain ''daddr'' st_in6_addr,
      Plain ''final'' st_in6_addr]),
    Plain ''flow_label'' td___be32,
    Plain ''dst_cookie'' td_u32,
    Plain ''opt'' (TPtr ''struct ipv6_txoptions''),
    Plain ''hop_limit'' td_s16,
    Plain ''pmtudisc'' td_u8,
    Plain ''tclass'' td_u8,
    Plain ''saddr_cache'' td_bool,
    Plain ''daddr_cache'' td_bool,
    Plain ''mcast_hops'' td_u8,
    Plain ''frag_size'' td_u32,
    Plain ''ucast_oif'' (TInt I32 True),
    Plain ''mcast_oif'' (TInt I32 True),
    Plain ''rxopt'' (TUnion '''' False [
      Plain ''bits'' (TStruct '''' False [
        Bits ''srcrt'' td_u16 1,
        Bits ''osrcrt'' td_u16 1,
        Bits ''rxinfo'' td_u16 1,
        Bits ''rxoinfo'' td_u16 1,
        Bits ''rxhlim'' td_u16 1,
        Bits ''rxohlim'' td_u16 1,
        Bits ''hopopts'' td_u16 1,
        Bits ''ohopopts'' td_u16 1,
        Bits ''dstopts'' td_u16 1,
        Bits ''odstopts'' td_u16 1,
        Bits ''rxflow'' td_u16 1,
        Bits ''rxtclass'' td_u16 1,
        Bits ''rxpmtu'' td_u16 1,
        Bits ''rxorigdstaddr'' td_u16 1,
        Bits ''recvfragsize'' td_u16 1]),
      Plain ''all'' td_u16]),
    Plain ''srcprefs'' td_u8,
    Plain ''min_hopcount'' td_u8,
    Plain ''rcv_flowinfo'' td___be32,
    Plain ''sticky_pktinfo'' st_in6_pktinfo,
    Plain ''pktoptions'' (TPtr ''struct sk_buff''),
    Plain ''rxpmtu'' (TPtr ''struct sk_buff''),
    Plain ''ipv6_mc_list'' (TPtr ''struct ipv6_mc_socklist''),
    Plain ''ipv6_ac_list'' (TPtr ''struct ipv6_ac_socklist'')]"

definition st_journal_superblock_s :: ty where
  "st_journal_superblock_s = TStruct ''journal_superblock_s'' False [
    Plain ''s_header'' td_journal_header_t,
    Plain ''s_blocksize'' td___be32,
    Plain ''s_maxlen'' td___be32,
    Plain ''s_first'' td___be32,
    Plain ''s_sequence'' td___be32,
    Plain ''s_start'' td___be32,
    Plain ''s_errno'' td___be32,
    Plain ''s_feature_compat'' td___be32,
    Plain ''s_feature_incompat'' td___be32,
    Plain ''s_feature_ro_compat'' td___be32,
    Plain ''s_uuid'' (TArr td___u8 16),
    Plain ''s_nr_users'' td___be32,
    Plain ''s_dynsuper'' td___be32,
    Plain ''s_max_transaction'' td___be32,
    Plain ''s_max_trans_data'' td___be32,
    Plain ''s_checksum_type'' td___u8,
    Plain ''s_padding2'' (TArr td___u8 3),
    Plain ''s_num_fc_blks'' td___be32,
    Plain ''s_head'' td___be32,
    Plain ''s_padding'' (TArr td___u32 40),
    Plain ''s_checksum'' td___be32,
    Plain ''s_users'' (TArr td___u8 768)]"

definition st_kernfs_node :: ty where
  "st_kernfs_node = TStruct ''kernfs_node'' False [
    Plain ''count'' td_atomic_t,
    Plain ''active'' td_atomic_t,
    Plain ''__parent'' (TPtr ''struct kernfs_node''),
    Plain ''name'' (TPtr ''char''),
    Plain ''rb'' st_rb_node,
    Plain ''ns'' (TPtr ''struct ns_common''),
    Plain ''hash'' (TInt I32 False),
    Plain ''flags'' (TInt I16 False),
    Plain ''mode'' td_umode_t,
    Plain '''' (TUnion '''' False [
      Plain ''dir'' st_kernfs_elem_dir,
      Plain ''symlink'' st_kernfs_elem_symlink,
      Plain ''attr'' st_kernfs_elem_attr]),
    Plain ''id'' td_u64,
    Plain ''priv'' (TPtr ''void''),
    Plain ''iattr'' (TPtr ''struct kernfs_iattrs''),
    Plain ''rcu'' st_callback_head]"

definition st_kvm_memory_slot :: ty where
  "st_kvm_memory_slot = TStruct ''kvm_memory_slot'' False [
    Plain ''id_node'' (TArr st_hlist_node 2),
    Plain ''hva_node'' (TArr st_interval_tree_node 2),
    Plain ''gfn_node'' (TArr st_rb_node 2),
    Plain ''base_gfn'' td_gfn_t,
    Plain ''npages'' (TInt I64 False),
    Plain ''dirty_bitmap'' (TPtr ''long unsigned int''),
    Plain ''arch'' st_kvm_arch_memory_slot,
    Plain ''userspace_addr'' (TInt I64 False),
    Plain ''flags'' td_u32,
    Plain ''id'' (TInt I16 True),
    Plain ''as_id'' td_u16,
    Plain ''gmem'' (TStruct '''' False [
      Plain ''file'' (TPtr ''struct file''),
      Plain ''pgoff'' (TInt I64 False)])]"

definition st_kvm_sync_regs :: ty where
  "st_kvm_sync_regs = TStruct ''kvm_sync_regs'' False [
    Plain ''regs'' st_kvm_regs,
    Plain ''sregs'' st_kvm_sregs,
    Plain ''events'' st_kvm_vcpu_events]"

definition st_maple_node :: ty where
  "st_maple_node = TStruct ''maple_node'' False [
    Plain '''' (TUnion '''' False [
      Plain '''' (TStruct '''' False [
        Plain ''parent'' (TPtr ''struct maple_pnode''),
        Plain ''slot'' (TArr (TPtr ''void'') 31)]),
      Plain '''' (TStruct '''' False [
        Plain ''pad'' (TPtr ''void''),
        Plain ''rcu'' st_callback_head,
        Plain ''piv_parent'' (TPtr ''struct maple_enode''),
        Plain ''parent_slot'' (TInt I8 False),
        Plain ''type'' (TEnum ''maple_type'' I32),
        Plain ''slot_len'' (TInt I8 False),
        Plain ''ma_flags'' (TInt I32 False)]),
      Plain ''mr64'' st_maple_range_64,
      Plain ''ma64'' st_maple_arange_64])]"

definition st_mctp_route :: ty where
  "st_mctp_route = TStruct ''mctp_route'' False [
    Plain ''min'' td_mctp_eid_t,
    Plain ''max'' td_mctp_eid_t,
    Plain ''type'' (TInt I8 False),
    Plain ''mtu'' (TInt I32 False),
    Plain ''dst_type'' (TEnum '''' I32),
    Plain '''' (TUnion '''' False [
      Plain ''dev'' (TPtr ''struct mctp_dev''),
      Plain ''gateway'' st_mctp_fq_addr]),
    Plain ''output'' (TFun ''int (*)(struct mctp_dst *, struct sk_buff *)''),
    Plain ''list'' st_list_head,
    Plain ''refs'' td_refcount_t,
    Plain ''rcu'' st_callback_head]"

definition st_mdp_superblock_s :: ty where
  "st_mdp_superblock_s = TStruct ''mdp_superblock_s'' False [
    Plain ''md_magic'' td___u32,
    Plain ''major_version'' td___u32,
    Plain ''minor_version'' td___u32,
    Plain ''patch_version'' td___u32,
    Plain ''gvalid_words'' td___u32,
    Plain ''set_uuid0'' td___u32,
    Plain ''ctime'' td___u32,
    Plain ''level'' td___u32,
    Plain ''size'' td___u32,
    Plain ''nr_disks'' td___u32,
    Plain ''raid_disks'' td___u32,
    Plain ''md_minor'' td___u32,
    Plain ''not_persistent'' td___u32,
    Plain ''set_uuid1'' td___u32,
    Plain ''set_uuid2'' td___u32,
    Plain ''set_uuid3'' td___u32,
    Plain ''gstate_creserved'' (TArr td___u32 16),
    Plain ''utime'' td___u32,
    Plain ''state'' td___u32,
    Plain ''active_disks'' td___u32,
    Plain ''working_disks'' td___u32,
    Plain ''failed_disks'' td___u32,
    Plain ''spare_disks'' td___u32,
    Plain ''sb_csum'' td___u32,
    Plain ''events_lo'' td___u32,
    Plain ''events_hi'' td___u32,
    Plain ''cp_events_lo'' td___u32,
    Plain ''cp_events_hi'' td___u32,
    Plain ''recovery_cp'' td___u32,
    Plain ''reshape_position'' td___u64,
    Plain ''new_level'' td___u32,
    Plain ''delta_disks'' td___u32,
    Plain ''new_layout'' td___u32,
    Plain ''new_chunk'' td___u32,
    Plain ''gstate_sreserved'' (TArr td___u32 14),
    Plain ''layout'' td___u32,
    Plain ''chunk_size'' td___u32,
    Plain ''root_pv'' td___u32,
    Plain ''root_block'' td___u32,
    Plain ''pstate_reserved'' (TArr td___u32 60),
    Plain ''disks'' (TArr td_mdp_disk_t 27),
    Plain ''reserved'' (TArr td___u32 0),
    Plain ''this_disk'' td_mdp_disk_t]"

definition st_mmap_action :: ty where
  "st_mmap_action = TStruct ''mmap_action'' False [
    Plain '''' (TUnion '''' False [
      Plain ''remap'' (TStruct '''' False [
        Plain ''start'' (TInt I64 False),
        Plain ''start_pfn'' (TInt I64 False),
        Plain ''size'' (TInt I64 False),
        Plain ''pgprot'' td_pgprot_t])]),
    Plain ''type'' (TEnum ''mmap_action_type'' I32),
    Plain ''success_hook'' (TFun ''int (*)(const struct vm_area_struct *)''),
    Plain ''error_hook'' (TFun ''int (*)(int)''),
    Bits ''hide_from_rmap_until_complete'' td_bool 1]"

definition st_mmc_supply :: ty where
  "st_mmc_supply = TStruct ''mmc_supply'' False [
    Plain ''vmmc'' (TPtr ''struct regulator''),
    Plain ''vqmmc'' (TPtr ''struct regulator''),
    Plain ''vqmmc2'' (TPtr ''struct regulator''),
    Plain ''vmmc_nb'' st_notifier_block,
    Plain ''uv_work'' st_work_struct]"

definition st_mptcp_options_received :: ty where
  "st_mptcp_options_received = TStruct ''mptcp_options_received'' False [
    Plain ''sndr_key'' td_u64,
    Plain ''rcvr_key'' td_u64,
    Plain ''data_ack'' td_u64,
    Plain ''data_seq'' td_u64,
    Plain ''subflow_seq'' td_u32,
    Plain ''data_len'' td_u16,
    Plain ''csum'' td___sum16,
    Plain '''' (TUnion '''' False [
      Plain '''' (TStruct '''' False [
        Plain ''suboptions'' td_u16,
        Bits ''use_map'' td_u16 1,
        Bits ''dsn64'' td_u16 1,
        Bits ''data_fin'' td_u16 1,
        Bits ''use_ack'' td_u16 1,
        Bits ''ack64'' td_u16 1,
        Bits ''mpc_map'' td_u16 1,
        Bits ''reset_reason'' td_u16 4,
        Bits ''reset_transient'' td_u16 1,
        Bits ''echo'' td_u16 1,
        Bits ''backup'' td_u16 1,
        Bits ''deny_join_id0'' td_u16 1,
        Bits ''__unused'' td_u16 2]),
      Plain ''status'' (TStruct '''' False [
        Plain ''suboptions'' td_u16,
        Bits ''use_map'' td_u16 1,
        Bits ''dsn64'' td_u16 1,
        Bits ''data_fin'' td_u16 1,
        Bits ''use_ack'' td_u16 1,
        Bits ''ack64'' td_u16 1,
        Bits ''mpc_map'' td_u16 1,
        Bits ''reset_reason'' td_u16 4,
        Bits ''reset_transient'' td_u16 1,
        Bits ''echo'' td_u16 1,
        Bits ''backup'' td_u16 1,
        Bits ''deny_join_id0'' td_u16 1,
        Bits ''__unused'' td_u16 2])]),
    Plain ''join_id'' td_u8,
    Plain ''token'' td_u32,
    Plain ''nonce'' td_u32,
    Plain ''thmac'' td_u64,
    Plain ''hmac'' (TArr td_u8 20),
    Plain ''addr'' st_mptcp_addr_info,
    Plain ''rm_list'' st_mptcp_rm_list,
    Plain ''ahmac'' td_u64,
    Plain ''fail_seq'' td_u64]"

definition st_mptcp_out_options :: ty where
  "st_mptcp_out_options = TStruct ''mptcp_out_options'' False [
    Plain ''suboptions'' td_u16,
    Plain ''rm_list'' st_mptcp_rm_list,
    Plain ''join_id'' td_u8,
    Plain ''backup'' td_u8,
    Bits ''reset_reason'' td_u8 4,
    Bits ''reset_transient'' td_u8 1,
    Bits ''csum_reqd'' td_u8 1,
    Bits ''allow_join_id0'' td_u8 1,
    Plain '''' (TUnion '''' False [
      Plain '''' (TStruct '''' False [
        Plain ''sndr_key'' td_u64,
        Plain ''rcvr_key'' td_u64,
        Plain ''data_seq'' td_u64,
        Plain ''subflow_seq'' td_u32,
        Plain ''data_len'' td_u16,
        Plain ''csum'' td___sum16]),
      Plain '''' (TStruct '''' False [
        Plain ''addr'' st_mptcp_addr_info,
        Plain ''ahmac'' td_u64]),
      Plain '''' (TStruct '''' False [
        Plain ''ext_copy'' st_mptcp_ext,
        Plain ''fail_seq'' td_u64]),
      Plain '''' (TStruct '''' False [
        Plain ''nonce'' td_u32,
        Plain ''token'' td_u32,
        Plain ''thmac'' td_u64,
        Plain ''hmac'' (TArr td_u8 20)])])]"

definition st_mptcp_subflow_addrs :: ty where
  "st_mptcp_subflow_addrs = TStruct ''mptcp_subflow_addrs'' False [
    Plain '''' (TUnion '''' False [
      Plain ''sa_family'' td___kernel_sa_family_t,
      Plain ''sa_local'' st_sockaddr,
      Plain ''sin_local'' st_sockaddr_in,
      Plain ''sin6_local'' st_sockaddr_in6,
      Plain ''ss_local'' st___kernel_sockaddr_storage]),
    Plain '''' (TUnion '''' False [
      Plain ''sa_remote'' st_sockaddr,
      Plain ''sin_remote'' st_sockaddr_in,
      Plain ''sin6_remote'' st_sockaddr_in6,
      Plain ''ss_remote'' st___kernel_sockaddr_storage])]"

definition st_nameidata :: ty where
  "st_nameidata = TStruct ''nameidata'' False [
    Plain ''path'' st_path,
    Plain ''last'' st_qstr,
    Plain ''root'' st_path,
    Plain ''inode'' (TPtr ''struct inode''),
    Plain ''flags'' (TInt I32 False),
    Plain ''state'' (TInt I32 False),
    Plain ''seq'' (TInt I32 False),
    Plain ''next_seq'' (TInt I32 False),
    Plain ''m_seq'' (TInt I32 False),
    Plain ''r_seq'' (TInt I32 False),
    Plain ''last_type'' (TInt I32 True),
    Plain ''depth'' (TInt I32 False),
    Plain ''total_link_count'' (TInt I32 True),
    Plain ''stack'' (TPtr ''struct saved''),
    Plain ''internal'' (TArr st_saved 2),
    Plain ''name'' (TPtr ''struct filename''),
    Plain ''pathname'' (TPtr ''char''),
    Plain ''saved'' (TPtr ''struct nameidata''),
    Plain ''root_seq'' (TInt I32 False),
    Plain ''dfd'' (TInt I32 True),
    Plain ''dir_vfsuid'' td_vfsuid_t,
    Plain ''dir_mode'' td_umode_t]"

definition st_ncsi_rsp_gc_pkt :: ty where
  "st_ncsi_rsp_gc_pkt = TStruct ''ncsi_rsp_gc_pkt'' False [
    Plain ''rsp'' st_ncsi_rsp_pkt_hdr,
    Plain ''cap'' td___be32,
    Plain ''bc_cap'' td___be32,
    Plain ''mc_cap'' td___be32,
    Plain ''buf_cap'' td___be32,
    Plain ''aen_cap'' td___be32,
    Plain ''vlan_cnt'' (TInt I8 False),
    Plain ''mixed_cnt'' (TInt I8 False),
    Plain ''mc_cnt'' (TInt I8 False),
    Plain ''uc_cnt'' (TInt I8 False),
    Plain ''reserved'' (TArr (TInt I8 False) 2),
    Plain ''vlan_mode'' (TInt I8 False),
    Plain ''channel_cnt'' (TInt I8 False),
    Plain ''checksum'' td___be32]"

definition st_ncsi_rsp_gcps_pkt :: ty where
  "st_ncsi_rsp_gcps_pkt = TStruct ''ncsi_rsp_gcps_pkt'' True [
    Plain ''rsp'' st_ncsi_rsp_pkt_hdr,
    Plain ''cnt'' td___be64,
    Plain ''rx_bytes'' td___be64,
    Plain ''tx_bytes'' td___be64,
    Plain ''rx_uc_pkts'' td___be64,
    Plain ''rx_mc_pkts'' td___be64,
    Plain ''rx_bc_pkts'' td___be64,
    Plain ''tx_uc_pkts'' td___be64,
    Plain ''tx_mc_pkts'' td___be64,
    Plain ''tx_bc_pkts'' td___be64,
    Plain ''fcs_err'' td___be32,
    Plain ''align_err'' td___be32,
    Plain ''false_carrier'' td___be32,
    Plain ''runt_pkts'' td___be32,
    Plain ''jabber_pkts'' td___be32,
    Plain ''rx_pause_xon'' td___be32,
    Plain ''rx_pause_xoff'' td___be32,
    Plain ''tx_pause_xon'' td___be32,
    Plain ''tx_pause_xoff'' td___be32,
    Plain ''tx_s_collision'' td___be32,
    Plain ''tx_m_collision'' td___be32,
    Plain ''l_collision'' td___be32,
    Plain ''e_collision'' td___be32,
    Plain ''rx_ctl_frames'' td___be32,
    Plain ''rx_64_frames'' td___be32,
    Plain ''rx_127_frames'' td___be32,
    Plain ''rx_255_frames'' td___be32,
    Plain ''rx_511_frames'' td___be32,
    Plain ''rx_1023_frames'' td___be32,
    Plain ''rx_1522_frames'' td___be32,
    Plain ''rx_9022_frames'' td___be32,
    Plain ''tx_64_frames'' td___be32,
    Plain ''tx_127_frames'' td___be32,
    Plain ''tx_255_frames'' td___be32,
    Plain ''tx_511_frames'' td___be32,
    Plain ''tx_1023_frames'' td___be32,
    Plain ''tx_1522_frames'' td___be32,
    Plain ''tx_9022_frames'' td___be32,
    Plain ''rx_valid_bytes'' td___be64,
    Plain ''rx_runt_pkts'' td___be32,
    Plain ''rx_jabber_pkts'' td___be32,
    Plain ''checksum'' td___be32]"

definition st_ncsi_rsp_gp_pkt :: ty where
  "st_ncsi_rsp_gp_pkt = TStruct ''ncsi_rsp_gp_pkt'' False [
    Plain ''rsp'' st_ncsi_rsp_pkt_hdr,
    Plain ''mac_cnt'' (TInt I8 False),
    Plain ''reserved'' (TArr (TInt I8 False) 2),
    Plain ''mac_enable'' (TInt I8 False),
    Plain ''vlan_cnt'' (TInt I8 False),
    Plain ''reserved1'' (TInt I8 False),
    Plain ''vlan_enable'' td___be16,
    Plain ''link_mode'' td___be32,
    Plain ''bc_mode'' td___be32,
    Plain ''valid_modes'' td___be32,
    Plain ''vlan_mode'' (TInt I8 False),
    Plain ''fc_mode'' (TInt I8 False),
    Plain ''reserved2'' (TArr (TInt I8 False) 2),
    Plain ''aen_mode'' td___be32,
    Plain ''mac'' (TArr (TInt I8 False) 6),
    Plain ''vlan'' td___be16,
    Plain ''checksum'' td___be32]"

definition st_ncsi_rsp_gvi_pkt :: ty where
  "st_ncsi_rsp_gvi_pkt = TStruct ''ncsi_rsp_gvi_pkt'' False [
    Plain ''rsp'' st_ncsi_rsp_pkt_hdr,
    Plain ''major'' (TInt I8 False),
    Plain ''minor'' (TInt I8 False),
    Plain ''update'' (TInt I8 False),
    Plain ''alpha1'' (TInt I8 False),
    Plain ''reserved'' (TArr (TInt I8 False) 3),
    Plain ''alpha2'' (TInt I8 False),
    Plain ''fw_name'' (TArr (TInt I8 False) 12),
    Plain ''fw_version'' td___be32,
    Plain ''pci_ids'' (TArr td___be16 4),
    Plain ''mf_id'' td___be32,
    Plain ''checksum'' td___be32]"

definition st_neigh_parms :: ty where
  "st_neigh_parms = TStruct ''neigh_parms'' False [
    Plain ''net'' td_possible_net_t,
    Plain ''dev'' (TPtr ''struct net_device''),
    Plain ''dev_tracker'' td_netdevice_tracker,
    Plain ''list'' st_list_head,
    Plain ''neigh_setup'' (TFun ''int (*)(struct neighbour *)''),
    Plain ''tbl'' (TPtr ''struct neigh_table''),
    Plain ''sysctl_table'' (TPtr ''void''),
    Plain ''dead'' (TInt I32 True),
    Plain ''refcnt'' td_refcount_t,
    Plain ''callback_head'' st_callback_head,
    Plain ''reachable_time'' (TInt I32 True),
    Plain ''qlen'' td_u32,
    Plain ''data'' (TArr (TInt I32 True) 14),
    Plain ''data_state'' (TArr (TInt I64 False) 1)]"

definition st_rtable :: ty where
  "st_rtable = TStruct ''rtable'' False [
    Plain ''dst'' st_dst_entry,
    Plain ''rt_genid'' (TInt I32 True),
    Plain ''rt_flags'' (TInt I32 False),
    Plain ''rt_type'' td___u16,
    Plain ''rt_is_input'' td___u8,
    Plain ''rt_uses_gateway'' td___u8,
    Plain ''rt_iif'' (TInt I32 True),
    Plain ''rt_gw_family'' td_u8,
    Plain '''' (TUnion '''' False [
      Plain ''rt_gw4'' td___be32,
      Plain ''rt_gw6'' st_in6_addr]),
    Bits ''rt_mtu_locked'' td_u32 1,
    Bits ''rt_pmtu'' td_u32 31]"

definition st_rt6_info :: ty where
  "st_rt6_info = TStruct ''rt6_info'' False [
    Plain ''dst'' st_dst_entry,
    Plain ''from'' (TPtr ''struct fib6_info''),
    Plain ''sernum'' (TInt I32 True),
    Plain ''rt6i_dst'' st_rt6key,
    Plain ''rt6i_src'' st_rt6key,
    Plain ''rt6i_gateway'' st_in6_addr,
    Plain ''rt6i_idev'' (TPtr ''struct inet6_dev''),
    Plain ''rt6i_flags'' td_u32,
    Plain ''rt6i_nfheader_len'' (TInt I16 False)]"

definition st_net_bridge_fdb_key :: ty where
  "st_net_bridge_fdb_key = TStruct ''net_bridge_fdb_key'' False [
    Plain ''addr'' td_mac_addr,
    Plain ''vlan_id'' td_u16]"

definition st_net_rate_estimator :: ty where
  "st_net_rate_estimator = TStruct ''net_rate_estimator'' False [
    Plain ''bstats'' (TPtr ''struct gnet_stats_basic_sync''),
    Plain ''stats_lock'' (TPtr ''spinlock_t''),
    Plain ''running'' td_bool,
    Plain ''cpu_bstats'' (TPtr ''struct gnet_stats_basic_sync''),
    Plain ''ewma_log'' td_u8,
    Plain ''intvl_log'' td_u8,
    Plain ''seq'' td_seqcount_t,
    Plain ''last_packets'' td_u64,
    Plain ''last_bytes'' td_u64,
    Plain ''avpps'' td_u64,
    Plain ''avbps'' td_u64,
    Plain ''next_jiffies'' (TInt I64 False),
    Plain ''timer'' st_timer_list,
    Plain ''rcu'' st_callback_head]"

definition st_nf_conntrack_man :: ty where
  "st_nf_conntrack_man = TStruct ''nf_conntrack_man'' False [
    Plain ''u3'' un_nf_inet_addr,
    Plain ''u'' un_nf_conntrack_man_proto,
    Plain ''l3num'' td_u_int16_t]"

definition st_nf_conntrack_tuple_mask :: ty where
  "st_nf_conntrack_tuple_mask = TStruct ''nf_conntrack_tuple_mask'' False [
    Plain ''src'' (TStruct '''' False [
      Plain ''u3'' un_nf_inet_addr,
      Plain ''u'' un_nf_conntrack_man_proto])]"

definition st_rpc_task :: ty where
  "st_rpc_task = TStruct ''rpc_task'' False [
    Plain ''tk_count'' td_atomic_t,
    Plain ''tk_status'' (TInt I32 True),
    Plain ''tk_task'' st_list_head,
    Plain ''tk_callback'' (TFun ''void (*)(struct rpc_task *)''),
    Plain ''tk_action'' (TFun ''void (*)(struct rpc_task *)''),
    Plain ''tk_timeout'' (TInt I64 False),
    Plain ''tk_runstate'' (TInt I64 False),
    Plain ''tk_waitqueue'' (TPtr ''struct rpc_wait_queue''),
    Plain ''u'' (TUnion '''' False [
      Plain ''tk_work'' st_work_struct,
      Plain ''tk_wait'' st_rpc_wait]),
    Plain ''tk_msg'' st_rpc_message,
    Plain ''tk_calldata'' (TPtr ''void''),
    Plain ''tk_ops'' (TPtr ''struct rpc_call_ops''),
    Plain ''tk_client'' (TPtr ''struct rpc_clnt''),
    Plain ''tk_xprt'' (TPtr ''struct rpc_xprt''),
    Plain ''tk_op_cred'' (TPtr ''struct rpc_cred''),
    Plain ''tk_rqstp'' (TPtr ''struct rpc_rqst''),
    Plain ''tk_workqueue'' (TPtr ''struct workqueue_struct''),
    Plain ''tk_start'' td_ktime_t,
    Plain ''tk_owner'' td_pid_t,
    Plain ''tk_rpc_status'' (TInt I32 True),
    Plain ''tk_flags'' (TInt I16 False),
    Plain ''tk_timeouts'' (TInt I16 False),
    Plain ''tk_pid'' (TInt I16 False),
    Bits ''tk_priority'' (TInt I8 False) 2,
    Bits ''tk_garb_retry'' (TInt I8 False) 2,
    Bits ''tk_cred_retry'' (TInt I8 False) 2]"

definition st_nfs_pgio_args :: ty where
  "st_nfs_pgio_args = TStruct ''nfs_pgio_args'' False [
    Plain ''seq_args'' st_nfs4_sequence_args,
    Plain ''fh'' (TPtr ''struct nfs_fh''),
    Plain ''context'' (TPtr ''struct nfs_open_context''),
    Plain ''lock_context'' (TPtr ''struct nfs_lock_context''),
    Plain ''stateid'' td_nfs4_stateid,
    Plain ''offset'' td___u64,
    Plain ''count'' td___u32,
    Plain ''pgbase'' (TInt I32 False),
    Plain ''pages'' (TPtr ''struct page *''),
    Plain '''' (TUnion '''' False [
      Plain ''replen'' (TInt I32 False),
      Plain '''' (TStruct '''' False [
        Plain ''bitmask'' (TPtr ''u32''),
        Plain ''bitmask_store'' (TArr td_u32 3),
        Plain ''stable'' (TEnum ''nfs3_stable_how'' I32)])])]"

definition st_pool_workqueue :: ty where
  "st_pool_workqueue = TStruct ''pool_workqueue'' False [
    Plain ''pool'' (TPtr ''struct worker_pool''),
    Plain ''wq'' (TPtr ''struct workqueue_struct''),
    Plain ''work_color'' (TInt I32 True),
    Plain ''flush_color'' (TInt I32 True),
    Plain ''refcnt'' (TInt I32 True),
    Plain ''nr_in_flight'' (TArr (TInt I32 True) 16),
    Plain ''plugged'' td_bool,
    Plain ''nr_active'' (TInt I32 True),
    Plain ''inactive_works'' st_list_head,
    Plain ''pending_node'' st_list_head,
    Plain ''pwqs_node'' st_list_head,
    Plain ''mayday_node'' st_list_head,
    Plain ''mayday_cursor'' st_work_struct,
    Plain ''stats'' (TArr td_u64 8),
    Plain ''release_work'' st_kthread_work,
    Plain ''rcu'' st_callback_head,
    Bits '''' (TInt I64 True) 64,
    Bits '''' (TInt I64 True) 64,
    Bits '''' (TInt I64 True) 64,
    Bits '''' (TInt I64 True) 64,
    Bits '''' (TInt I64 True) 64,
    Bits '''' (TInt I64 True) 64,
    Bits '''' (TInt I64 True) 64,
    Bits '''' (TInt I64 True) 64,
    Bits '''' (TInt I64 True) 64,
    Bits '''' (TInt I64 True) 64,
    Bits '''' (TInt I64 True) 64,
    Bits '''' (TInt I64 True) 64,
    Bits '''' (TInt I64 True) 64,
    Bits '''' (TInt I64 True) 64,
    Bits '''' (TInt I64 True) 64,
    Bits '''' (TInt I64 True) 64,
    Bits '''' (TInt I64 True) 64,
    Bits '''' (TInt I64 True) 64,
    Bits '''' (TInt I64 True) 64,
    Bits '''' (TInt I64 True) 64,
    Bits '''' (TInt I64 True) 64,
    Bits '''' (TInt I64 True) 64,
    Bits '''' (TInt I64 True) 64,
    Bits '''' (TInt I64 True) 64]"

definition st_psp_assoc :: ty where
  "st_psp_assoc = TStruct ''psp_assoc'' False [
    Plain ''psd'' (TPtr ''struct psp_dev''),
    Plain ''dev_id'' td_u16,
    Plain ''generation'' td_u8,
    Plain ''version'' td_u8,
    Plain ''peer_tx'' td_u8,
    Plain ''upgrade_seq'' td_u32,
    Plain ''tx'' st_psp_key_parsed,
    Plain ''rx'' st_psp_key_parsed,
    Plain ''refcnt'' td_refcount_t,
    Plain ''rcu'' st_callback_head,
    Plain ''work'' st_work_struct,
    Plain ''assocs_list'' st_list_head,
    Plain ''drv_data'' (TArr td_u8 0)]"

definition st_ptp_header :: ty where
  "st_ptp_header = TStruct ''ptp_header'' True [
    Plain ''tsmt'' td_u8,
    Plain ''ver'' td_u8,
    Plain ''message_length'' td___be16,
    Plain ''domain_number'' td_u8,
    Plain ''reserved1'' td_u8,
    Plain ''flag_field'' (TArr td_u8 2),
    Plain ''correction'' td___be64,
    Plain ''reserved2'' td___be32,
    Plain ''source_port_identity'' st_port_identity,
    Plain ''sequence_id'' td___be16,
    Plain ''control'' td_u8,
    Plain ''log_message_interval'' td_u8]"

definition st_rcu_exp_work :: ty where
  "st_rcu_exp_work = TStruct ''rcu_exp_work'' False [
    Plain ''rew_s'' (TInt I64 False),
    Plain ''rew_work'' st_kthread_work]"

definition st_remap_data :: ty where
  "st_remap_data = TStruct ''remap_data'' False [
    Plain ''fgfn'' (TPtr ''xen_pfn_t''),
    Plain ''nr_fgfn'' (TInt I32 True),
    Plain ''prot'' td_pgprot_t,
    Plain ''domid'' td_domid_t,
    Plain ''vma'' (TPtr ''struct vm_area_struct''),
    Plain ''index'' (TInt I32 True),
    Plain ''pages'' (TPtr ''struct page *''),
    Plain ''info'' (TPtr ''struct xen_remap_gfn_info''),
    Plain ''err_ptr'' (TPtr ''int''),
    Plain ''mapped'' (TInt I32 True),
    Plain ''h_errs'' (TArr (TInt I32 True) 1),
    Plain ''h_idxs'' (TArr td_xen_ulong_t 1),
    Plain ''h_gpfns'' (TArr td_xen_pfn_t 1),
    Plain ''h_iter'' (TInt I32 True)]"

definition st_rpc_rqst :: ty where
  "st_rpc_rqst = TStruct ''rpc_rqst'' False [
    Plain ''rq_xprt'' (TPtr ''struct rpc_xprt''),
    Plain ''rq_snd_buf'' st_xdr_buf,
    Plain ''rq_rcv_buf'' st_xdr_buf,
    Plain ''rq_task'' (TPtr ''struct rpc_task''),
    Plain ''rq_cred'' (TPtr ''struct rpc_cred''),
    Plain ''rq_xid'' td___be32,
    Plain ''rq_cong'' (TInt I32 True),
    Plain ''rq_seqnos'' (TArr td_u32 3),
    Plain ''rq_seqno_count'' (TInt I32 False),
    Plain ''rq_enc_pages_num'' (TInt I32 True),
    Plain ''rq_enc_pages'' (TPtr ''struct page *''),
    Plain ''rq_release_snd_buf'' (TFun ''void (*)(struct rpc_rqst *)''),
    Plain '''' (TUnion '''' False [
      Plain ''rq_list'' st_list_head,
      Plain ''rq_recv'' st_rb_node]),
    Plain ''rq_xmit'' st_list_head,
    Plain ''rq_xmit2'' st_list_head,
    Plain ''rq_buffer'' (TPtr ''void''),
    Plain ''rq_callsize'' td_size_t,
    Plain ''rq_rbuffer'' (TPtr ''void''),
    Plain ''rq_rcvsize'' td_size_t,
    Plain ''rq_xmit_bytes_sent'' td_size_t,
    Plain ''rq_reply_bytes_recvd'' td_size_t,
    Plain ''rq_private_buf'' st_xdr_buf,
    Plain ''rq_majortimeo'' (TInt I64 False),
    Plain ''rq_minortimeo'' (TInt I64 False),
    Plain ''rq_timeout'' (TInt I64 False),
    Plain ''rq_rtt'' td_ktime_t,
    Plain ''rq_retries'' (TInt I32 False),
    Plain ''rq_connect_cookie'' (TInt I32 False),
    Plain ''rq_pin'' td_atomic_t,
    Plain ''rq_bytes_sent'' td_u32,
    Plain ''rq_xtime'' td_ktime_t,
    Plain ''rq_ntrans'' (TInt I32 True),
    Plain ''rq_bc_list'' st_lwq_node,
    Plain ''rq_bc_pa_state'' (TInt I64 False),
    Plain ''rq_bc_pa_list'' st_list_head]"

definition st_rt_rq :: ty where
  "st_rt_rq = TStruct ''rt_rq'' False [
    Plain ''active'' st_rt_prio_array,
    Plain ''rt_nr_running'' (TInt I32 False),
    Plain ''rr_nr_running'' (TInt I32 False),
    Plain ''highest_prio'' (TStruct '''' False [
      Plain ''curr'' (TInt I32 True),
      Plain ''next'' (TInt I32 True)]),
    Plain ''overloaded'' td_bool,
    Plain ''pushable_tasks'' st_plist_head,
    Plain ''rt_queued'' (TInt I32 True),
    Plain ''tg'' (TPtr ''struct task_group'')]"

definition st_rtc_timer :: ty where
  "st_rtc_timer = TStruct ''rtc_timer'' False [
    Plain ''node'' st_timerqueue_node,
    Plain ''period'' td_ktime_t,
    Plain ''func'' (TFun ''void (*)(struct rtc_device *)''),
    Plain ''rtc'' (TPtr ''struct rtc_device''),
    Plain ''enabled'' (TInt I32 True)]"

definition st_saved_context :: ty where
  "st_saved_context = TStruct ''saved_context'' True [
    Plain ''regs'' st_pt_regs,
    Plain ''ds'' td_u16,
    Plain ''es'' td_u16,
    Plain ''fs'' td_u16,
    Plain ''gs'' td_u16,
    Plain ''kernelmode_gs_base'' (TInt I64 False),
    Plain ''usermode_gs_base'' (TInt I64 False),
    Plain ''fs_base'' (TInt I64 False),
    Plain ''cr0'' (TInt I64 False),
    Plain ''cr2'' (TInt I64 False),
    Plain ''cr3'' (TInt I64 False),
    Plain ''cr4'' (TInt I64 False),
    Plain ''misc_enable'' td_u64,
    Plain ''saved_msrs'' st_saved_msrs,
    Plain ''efer'' (TInt I64 False),
    Plain ''gdt_pad'' td_u16,
    Plain ''gdt_desc'' st_desc_ptr,
    Plain ''idt_pad'' td_u16,
    Plain ''idt'' st_desc_ptr,
    Plain ''ldt'' td_u16,
    Plain ''tss'' td_u16,
    Plain ''tr'' (TInt I64 False),
    Plain ''safety'' (TInt I64 False),
    Plain ''return_address'' (TInt I64 False),
    Plain ''misc_enable_saved'' td_bool]"

definition st_sched_ext_entity :: ty where
  "st_sched_ext_entity = TStruct ''sched_ext_entity'' False [
    Plain ''dsq'' (TPtr ''struct scx_dispatch_q''),
    Plain ''dsq_list'' st_scx_dsq_list_node,
    Plain ''dsq_priq'' st_rb_node,
    Plain ''dsq_seq'' td_u32,
    Plain ''dsq_flags'' td_u32,
    Plain ''flags'' td_u32,
    Plain ''weight'' td_u32,
    Plain ''sticky_cpu'' td_s32,
    Plain ''holding_cpu'' td_s32,
    Plain ''selected_cpu'' td_s32,
    Plain ''kf_mask'' td_u32,
    Plain ''kf_tasks'' (TArr (TPtr ''struct task_struct'') 2),
    Plain ''ops_state'' td_atomic_long_t,
    Plain ''runnable_node'' st_list_head,
    Plain ''runnable_at'' (TInt I64 False),
    Plain ''core_sched_at'' td_u64,
    Plain ''ddsp_dsq_id'' td_u64,
    Plain ''ddsp_enq_flags'' td_u64,
    Plain ''slice'' td_u64,
    Plain ''dsq_vtime'' td_u64,
    Plain ''disallow'' td_bool,
    Plain ''cgrp_moving_from'' (TPtr ''struct cgroup''),
    Plain ''tasks_node'' st_list_head]"

definition st_scsi_eh_save :: ty where
  "st_scsi_eh_save = TStruct ''scsi_eh_save'' False [
    Plain ''result'' (TInt I32 True),
    Plain ''resid_len'' (TInt I32 False),
    Plain ''eh_eflags'' (TInt I32 True),
    Plain ''data_direction'' (TEnum ''dma_data_direction'' I32),
    Plain ''underflow'' (TInt I32 False),
    Plain ''cmd_len'' (TInt I8 False),
    Plain ''prot_op'' (TInt I8 False),
    Plain ''cmnd'' (TArr (TInt I8 False) 32),
    Plain ''sdb'' st_scsi_data_buffer,
    Plain ''sense_sgl'' st_scatterlist,
    Plain ''rq_crypt_ctx'' (TPtr ''struct bio_crypt_ctx''),
    Plain ''rq_crypt_keyslot'' (TPtr ''struct blk_crypto_keyslot'')]"

definition un_sctp_addr :: ty where
  "un_sctp_addr = TUnion ''sctp_addr'' False [
    Plain ''sa'' st_sockaddr_inet,
    Plain ''v4'' st_sockaddr_in,
    Plain ''v6'' st_sockaddr_in6]"

definition st_sctp_inq :: ty where
  "st_sctp_inq = TStruct ''sctp_inq'' False [
    Plain ''in_chunk_list'' st_list_head,
    Plain ''in_progress'' (TPtr ''struct sctp_chunk''),
    Plain ''immediate'' st_work_struct]"

definition st_skb_shared_info :: ty where
  "st_skb_shared_info = TStruct ''skb_shared_info'' False [
    Plain ''flags'' td___u8,
    Plain ''meta_len'' td___u8,
    Plain ''nr_frags'' td___u8,
    Plain ''tx_flags'' td___u8,
    Plain ''gso_size'' (TInt I16 False),
    Plain ''gso_segs'' (TInt I16 False),
    Plain ''frag_list'' (TPtr ''struct sk_buff''),
    Plain '''' (TUnion '''' False [
      Plain ''hwtstamps'' st_skb_shared_hwtstamps,
      Plain ''xsk_meta'' st_xsk_tx_metadata_compl]),
    Plain ''gso_type'' (TInt I32 False),
    Plain ''tskey'' td_u32,
    Plain ''dataref'' td_atomic_t,
    Plain '''' (TUnion '''' False [
      Plain '''' (TStruct '''' False [
        Plain ''xdp_frags_size'' td_u32,
        Plain ''xdp_frags_truesize'' td_u32]),
      Plain ''destructor_arg'' (TPtr ''void'')]),
    Plain ''frags'' (TArr td_skb_frag_t 17)]"

definition st_stack_record :: ty where
  "st_stack_record = TStruct ''stack_record'' False [
    Plain ''hash_list'' st_list_head,
    Plain ''hash'' td_u32,
    Plain ''size'' td_u32,
    Plain ''handle'' un_handle_parts,
    Plain ''count'' td_refcount_t,
    Plain '''' (TUnion '''' False [
      Plain ''entries'' (TArr (TInt I64 False) 64),
      Plain '''' (TStruct '''' False [
        Plain ''free_list'' st_list_head,
        Plain ''rcu_state'' (TInt I64 False)])])]"

definition st_sun_disklabel :: ty where
  "st_sun_disklabel = TStruct ''sun_disklabel'' False [
    Plain ''info'' (TArr (TInt I8 False) 128),
    Plain ''vtoc'' st_sun_vtoc,
    Plain ''write_reinstruct'' td___be32,
    Plain ''read_reinstruct'' td___be32,
    Plain ''spare'' (TArr (TInt I8 False) 148),
    Plain ''rspeed'' td___be16,
    Plain ''pcylcount'' td___be16,
    Plain ''sparecyl'' td___be16,
    Plain ''obs1'' td___be16,
    Plain ''obs2'' td___be16,
    Plain ''ilfact'' td___be16,
    Plain ''ncyl'' td___be16,
    Plain ''nacyl'' td___be16,
    Plain ''ntrks'' td___be16,
    Plain ''nsect'' td___be16,
    Plain ''obs3'' td___be16,
    Plain ''obs4'' td___be16,
    Plain ''partitions'' (TArr st_sun_partition 8),
    Plain ''magic'' td___be16,
    Plain ''csum'' td___be16]"

definition st_svc_rqst :: ty where
  "st_svc_rqst = TStruct ''svc_rqst'' False [
    Plain ''rq_all'' st_list_head,
    Plain ''rq_idle'' st_llist_node,
    Plain ''rq_rcu_head'' st_callback_head,
    Plain ''rq_xprt'' (TPtr ''struct svc_xprt''),
    Plain ''rq_addr'' st___kernel_sockaddr_storage,
    Plain ''rq_addrlen'' td_size_t,
    Plain ''rq_daddr'' st___kernel_sockaddr_storage,
    Plain ''rq_daddrlen'' td_size_t,
    Plain ''rq_server'' (TPtr ''struct svc_serv''),
    Plain ''rq_pool'' (TPtr ''struct svc_pool''),
    Plain ''rq_procinfo'' (TPtr ''struct svc_procedure''),
    Plain ''rq_authop'' (TPtr ''struct auth_ops''),
    Plain ''rq_cred'' st_svc_cred,
    Plain ''rq_xprt_ctxt'' (TPtr ''void''),
    Plain ''rq_deferred'' (TPtr ''struct svc_deferred_req''),
    Plain ''rq_arg'' st_xdr_buf,
    Plain ''rq_arg_stream'' st_xdr_stream,
    Plain ''rq_res_stream'' st_xdr_stream,
    Plain ''rq_scratch_folio'' (TPtr ''struct folio''),
    Plain ''rq_res'' st_xdr_buf,
    Plain ''rq_maxpages'' (TInt I64 False),
    Plain ''rq_pages'' (TPtr ''struct page *''),
    Plain ''rq_respages'' (TPtr ''struct page *''),
    Plain ''rq_next_page'' (TPtr ''struct page *''),
    Plain ''rq_page_end'' (TPtr ''struct page *''),
    Plain ''rq_fbatch'' st_folio_batch,
    Plain ''rq_bvec'' (TPtr ''struct bio_vec''),
    Plain ''rq_xid'' td___be32,
    Plain ''rq_prog'' td_u32,
    Plain ''rq_vers'' td_u32,
    Plain ''rq_proc'' td_u32,
    Plain ''rq_prot'' td_u32,
    Plain ''rq_cachetype'' (TInt I32 True),
    Plain ''rq_flags'' (TInt I64 False),
    Plain ''rq_qtime'' td_ktime_t,
    Plain ''rq_argp'' (TPtr ''void''),
    Plain ''rq_resp'' (TPtr ''void''),
    Plain ''rq_accept_statp'' (TPtr ''__be32''),
    Plain ''rq_auth_data'' (TPtr ''void''),
    Plain ''rq_auth_stat'' td___be32,
    Plain ''rq_auth_slack'' (TInt I32 True),
    Plain ''rq_reserved'' (TInt I32 True),
    Plain ''rq_stime'' td_ktime_t,
    Plain ''rq_chandle'' st_cache_req,
    Plain ''rq_client'' (TPtr ''struct auth_domain''),
    Plain ''rq_gssclient'' (TPtr ''struct auth_domain''),
    Plain ''rq_task'' (TPtr ''struct task_struct''),
    Plain ''rq_bc_net'' (TPtr ''struct net''),
    Plain ''rq_err'' (TInt I32 True),
    Plain ''bc_to_initval'' (TInt I64 False),
    Plain ''bc_to_retries'' (TInt I32 False),
    Plain ''rq_status_counter'' (TInt I32 False),
    Plain ''rq_lease_breaker'' (TPtr ''void *'')]"

definition st_trace_event_call :: ty where
  "st_trace_event_call = TStruct ''trace_event_call'' False [
    Plain ''list'' st_list_head,
    Plain ''class'' (TPtr ''struct trace_event_class''),
    Plain '''' (TUnion '''' False [
      Plain ''name'' (TPtr ''char''),
      Plain ''tp'' (TPtr ''struct tracepoint'')]),
    Plain ''event'' st_trace_event,
    Plain ''print_fmt'' (TPtr ''char''),
    Plain '''' (TUnion '''' False [
      Plain ''module'' (TPtr ''void''),
      Plain ''refcnt'' td_atomic_t]),
    Plain ''data'' (TPtr ''void''),
    Plain ''flags'' (TInt I32 True),
    Plain ''perf_refcount'' (TInt I32 True),
    Plain ''perf_events'' (TPtr ''struct hlist_head''),
    Plain ''prog_array'' (TPtr ''struct bpf_prog_array''),
    Plain ''perf_perm'' (TFun ''int (*)(struct trace_event_call *, struct perf_event *)'')]"

definition st_sysrq_state :: ty where
  "st_sysrq_state = TStruct ''sysrq_state'' False [
    Plain ''handle'' st_input_handle,
    Plain ''reinject_work'' st_work_struct,
    Plain ''key_down'' (TArr (TInt I64 False) 12),
    Plain ''alt'' (TInt I32 False),
    Plain ''alt_use'' (TInt I32 False),
    Plain ''shift'' (TInt I32 False),
    Plain ''shift_use'' (TInt I32 False),
    Plain ''active'' td_bool,
    Plain ''need_reinject'' td_bool,
    Plain ''reinjecting'' td_bool,
    Plain ''reset_canceled'' td_bool,
    Plain ''reset_requested'' td_bool,
    Plain ''reset_keybit'' (TArr (TInt I64 False) 12),
    Plain ''reset_seq_len'' (TInt I32 True),
    Plain ''reset_seq_cnt'' (TInt I32 True),
    Plain ''reset_seq_version'' (TInt I32 True),
    Plain ''keyreset_timer'' st_timer_list]"

definition st_tcp_ao_info :: ty where
  "st_tcp_ao_info = TStruct ''tcp_ao_info'' False [
    Plain ''head'' st_hlist_head,
    Plain ''current_key'' (TPtr ''struct tcp_ao_key''),
    Plain ''rnext_key'' (TPtr ''struct tcp_ao_key''),
    Plain ''counters'' st_tcp_ao_counters,
    Bits ''ao_required'' td_u32 1,
    Bits ''accept_icmps'' td_u32 1,
    Bits ''__unused'' td_u32 30,
    Plain ''lisn'' td___be32,
    Plain ''risn'' td___be32,
    Plain ''snd_sne'' td_u32,
    Plain ''rcv_sne'' td_u32,
    Plain ''refcnt'' td_refcount_t]"

definition st_tcp_ao_key :: ty where
  "st_tcp_ao_key = TStruct ''tcp_ao_key'' False [
    Plain ''node'' st_hlist_node,
    Plain ''addr'' un_tcp_ao_addr,
    Plain ''key'' (TArr td_u8 80),
    Plain ''tcp_sigpool_id'' (TInt I32 False),
    Plain ''digest_size'' (TInt I32 False),
    Plain ''l3index'' (TInt I32 True),
    Plain ''prefixlen'' td_u8,
    Plain ''family'' td_u8,
    Plain ''keylen'' td_u8,
    Plain ''keyflags'' td_u8,
    Plain ''sndid'' td_u8,
    Plain ''rcvid'' td_u8,
    Plain ''maclen'' td_u8,
    Plain ''rcu'' st_callback_head,
    Plain ''pkt_good'' td_atomic64_t,
    Plain ''pkt_bad'' td_atomic64_t,
    Plain ''traffic_keys'' (TArr td_u8 0)]"

definition st_tcp_skb_cb :: ty where
  "st_tcp_skb_cb = TStruct ''tcp_skb_cb'' False [
    Plain ''seq'' td___u32,
    Plain ''end_seq'' td___u32,
    Plain '''' (TUnion '''' False [
      Plain '''' (TStruct '''' False [
        Plain ''tcp_gso_segs'' td_u16,
        Plain ''tcp_gso_size'' td_u16])]),
    Plain ''tcp_flags'' td___u16,
    Plain ''sacked'' td___u8,
    Plain ''ip_dsfield'' td___u8,
    Bits ''txstamp_ack'' td___u8 2,
    Bits ''eor'' td___u8 1,
    Bits ''has_rxtstamp'' td___u8 1,
    Bits ''unused'' td___u8 4,
    Plain ''ack_seq'' td___u32,
    Plain '''' (TUnion '''' False [
      Plain ''tx'' (TStruct '''' False [
        Bits ''is_app_limited'' td___u32 1,
        Bits ''delivered_ce'' td___u32 20,
        Bits ''unused'' td___u32 11,
        Plain ''delivered'' td___u32,
        Plain ''first_tx_mstamp'' td_u64,
        Plain ''delivered_mstamp'' td_u64]),
      Plain ''header'' (TUnion '''' False [
        Plain ''h4'' st_inet_skb_parm,
        Plain ''h6'' st_inet6_skb_parm])])]"

definition st_tpm2_auth :: ty where
  "st_tpm2_auth = TStruct ''tpm2_auth'' False [
    Plain ''handle'' td_u32,
    Plain ''session'' td_u32,
    Plain ''our_nonce'' (TArr td_u8 32),
    Plain ''tpm_nonce'' (TArr td_u8 32),
    Plain '''' (TUnion '''' False [
      Plain ''salt'' (TArr td_u8 32),
      Plain ''scratch'' (TArr td_u8 32)]),
    Plain ''session_key'' (TArr td_u8 32),
    Plain ''passphrase'' (TArr td_u8 32),
    Plain ''passphrase_len'' (TInt I32 True),
    Plain ''aes_key'' st_aes_enckey,
    Plain ''attrs'' td_u8,
    Plain ''ordinal'' td___be32,
    Plain ''name_h'' (TArr td_u32 3),
    Plain ''name'' (TArr td_u8 198)]"

definition st_unixware_disklabel :: ty where
  "st_unixware_disklabel = TStruct ''unixware_disklabel'' False [
    Plain ''d_type'' td___le32,
    Plain ''d_magic'' td___le32,
    Plain ''d_version'' td___le32,
    Plain ''d_serial'' (TArr (TInt I8 True) 12),
    Plain ''d_ncylinders'' td___le32,
    Plain ''d_ntracks'' td___le32,
    Plain ''d_nsectors'' td___le32,
    Plain ''d_secsize'' td___le32,
    Plain ''d_part_start'' td___le32,
    Plain ''d_unknown1'' (TArr td___le32 12),
    Plain ''d_alt_tbl'' td___le32,
    Plain ''d_alt_len'' td___le32,
    Plain ''d_phys_cyl'' td___le32,
    Plain ''d_phys_trk'' td___le32,
    Plain ''d_phys_sec'' td___le32,
    Plain ''d_phys_bytes'' td___le32,
    Plain ''d_unknown2'' td___le32,
    Plain ''d_unknown3'' td___le32,
    Plain ''d_pad'' (TArr td___le32 8),
    Plain ''vtoc'' st_unixware_vtoc]"

definition st_uprobe_task :: ty where
  "st_uprobe_task = TStruct ''uprobe_task'' False [
    Plain ''state'' (TEnum ''uprobe_task_state'' I32),
    Plain ''depth'' (TInt I32 False),
    Plain ''return_instances'' (TPtr ''struct return_instance''),
    Plain ''ri_pool'' (TPtr ''struct return_instance''),
    Plain ''ri_timer'' st_timer_list,
    Plain ''ri_seqcount'' td_seqcount_t,
    Plain '''' (TUnion '''' False [
      Plain '''' (TStruct '''' False [
        Plain ''autask'' st_arch_uprobe_task,
        Plain ''vaddr'' (TInt I64 False)]),
      Plain '''' (TStruct '''' False [
        Plain ''dup_xol_work'' st_callback_head,
        Plain ''dup_xol_addr'' (TInt I64 False)])]),
    Plain ''active_uprobe'' (TPtr ''struct uprobe''),
    Plain ''xol_vaddr'' (TInt I64 False),
    Plain ''signal_denied'' td_bool,
    Plain ''auprobe'' (TPtr ''struct arch_uprobe'')]"

definition st_vm_area_struct :: ty where
  "st_vm_area_struct = TStruct ''vm_area_struct'' False [
    Plain '''' (TUnion '''' False [
      Plain '''' (TStruct '''' False [
        Plain ''vm_start'' (TInt I64 False),
        Plain ''vm_end'' (TInt I64 False)]),
      Plain ''vm_freeptr'' td_freeptr_t]),
    Plain ''vm_mm'' (TPtr ''struct mm_struct''),
    Plain ''vm_page_prot'' td_pgprot_t,
    Plain '''' (TUnion '''' False [
      Plain ''vm_flags'' td_vm_flags_t,
      Plain ''flags'' td_vma_flags_t]),
    Plain ''vm_lock_seq'' (TInt I32 False),
    Plain ''anon_vma_chain'' st_list_head,
    Plain ''anon_vma'' (TPtr ''struct anon_vma''),
    Plain ''vm_ops'' (TPtr ''struct vm_operations_struct''),
    Plain ''vm_pgoff'' (TInt I64 False),
    Plain ''vm_file'' (TPtr ''struct file''),
    Plain ''vm_private_data'' (TPtr ''void''),
    Plain ''swap_readahead_info'' td_atomic_long_t,
    Plain ''vm_policy'' (TPtr ''struct mempolicy''),
    Plain ''numab_state'' (TPtr ''struct vma_numab_state''),
    Plain ''vm_refcnt'' td_refcount_t,
    Plain ''shared'' (TStruct '''' False [
      Plain ''rb'' st_rb_node,
      Plain ''rb_subtree_last'' (TInt I64 False)]),
    Plain ''anon_name'' (TPtr ''struct anon_vma_name''),
    Plain ''vm_userfaultfd_ctx'' st_vm_userfaultfd_ctx,
    Plain ''pfnmap_track_ctx'' (TPtr ''struct pfnmap_track_ctx'')]"

definition st_x86_perf_task_context_arch_lbr_xsave :: ty where
  "st_x86_perf_task_context_arch_lbr_xsave = TStruct ''x86_perf_task_context_arch_lbr_xsave'' False [
    Plain ''opt'' st_x86_perf_task_context_opt,
    Bits '''' (TInt I64 True) 64,
    Bits '''' (TInt I64 True) 64,
    Bits '''' (TInt I64 True) 64,
    Bits '''' (TInt I64 True) 64,
    Bits '''' (TInt I64 True) 64,
    Bits '''' (TInt I64 True) 64,
    Plain '''' (TUnion '''' False [
      Plain ''xsave'' st_xregs_state,
      Plain '''' (TStruct '''' False [
        Plain ''i387'' st_fxregs_state,
        Plain ''header'' st_xstate_header,
        Plain ''lbr'' st_arch_lbr_state,
        Bits '''' (TInt I64 True) 64,
        Bits '''' (TInt I64 True) 64,
        Bits '''' (TInt I64 True) 64])])]"

definition st_xdp_test_data :: ty where
  "st_xdp_test_data = TStruct ''xdp_test_data'' False [
    Plain ''orig_ctx'' (TPtr ''struct xdp_buff''),
    Bits '''' (TInt I64 True) 64,
    Bits '''' (TInt I64 True) 64,
    Bits '''' (TInt I64 True) 64,
    Bits '''' (TInt I64 True) 64,
    Bits '''' (TInt I64 True) 64,
    Bits '''' (TInt I64 True) 64,
    Bits '''' (TInt I64 True) 64,
    Plain ''rxq'' st_xdp_rxq_info,
    Plain ''dev'' (TPtr ''struct net_device''),
    Plain ''pp'' (TPtr ''struct page_pool''),
    Plain ''frames'' (TPtr ''struct xdp_frame *''),
    Plain ''skbs'' (TPtr ''struct sk_buff *''),
    Plain ''mem'' st_xdp_mem_info,
    Plain ''batch_size'' td_u32,
    Plain ''frame_cnt'' td_u32,
    Bits '''' (TInt I64 True) 64,
    Bits '''' (TInt I64 True) 64]"

definition st_xdp_umem :: ty where
  "st_xdp_umem = TStruct ''xdp_umem'' False [
    Plain ''addrs'' (TPtr ''void''),
    Plain ''size'' td_u64,
    Plain ''headroom'' td_u32,
    Plain ''chunk_size'' td_u32,
    Plain ''chunks'' td_u32,
    Plain ''npgs'' td_u32,
    Plain ''user'' (TPtr ''struct user_struct''),
    Plain ''users'' td_refcount_t,
    Plain ''flags'' td_u8,
    Plain ''tx_metadata_len'' td_u8,
    Plain ''zc'' td_bool,
    Plain ''pgs'' (TPtr ''struct page *''),
    Plain ''id'' (TInt I32 True),
    Plain ''xsk_dma_list'' st_list_head,
    Plain ''work'' st_work_struct]"

definition st_xfrm_id :: ty where
  "st_xfrm_id = TStruct ''xfrm_id'' False [
    Plain ''daddr'' td_xfrm_address_t,
    Plain ''spi'' td___be32,
    Plain ''proto'' td___u8]"

definition st_xfrm_selector :: ty where
  "st_xfrm_selector = TStruct ''xfrm_selector'' False [
    Plain ''daddr'' td_xfrm_address_t,
    Plain ''saddr'' td_xfrm_address_t,
    Plain ''dport'' td___be16,
    Plain ''dport_mask'' td___be16,
    Plain ''sport'' td___be16,
    Plain ''sport_mask'' td___be16,
    Plain ''family'' td___u16,
    Plain ''prefixlen_d'' td___u8,
    Plain ''prefixlen_s'' td___u8,
    Plain ''proto'' td___u8,
    Plain ''ifindex'' (TInt I32 True),
    Plain ''user'' td___kernel_uid32_t]"

definition st_xhci_virt_device :: ty where
  "st_xhci_virt_device = TStruct ''xhci_virt_device'' False [
    Plain ''slot_id'' (TInt I32 True),
    Plain ''udev'' (TPtr ''struct usb_device''),
    Plain ''out_ctx'' (TPtr ''struct xhci_container_ctx''),
    Plain ''in_ctx'' (TPtr ''struct xhci_container_ctx''),
    Plain ''eps'' (TArr st_xhci_virt_ep 31),
    Plain ''rhub_port'' (TPtr ''struct xhci_port''),
    Plain ''bw_table'' (TPtr ''struct xhci_interval_bw_table''),
    Plain ''tt_info'' (TPtr ''struct xhci_tt_bw_info''),
    Plain ''flags'' (TInt I64 False),
    Plain ''current_mel'' td_u16,
    Plain ''debugfs_private'' (TPtr ''void''),
    Plain ''sideband'' (TPtr ''struct xhci_sideband'')]"

end
