(* ===== verification/VmlinuxStruct8.thy ===== *)
theory VmlinuxStruct8
  imports VmlinuxStruct7
begin

text \<open>
  Structures and unions of \<open>src/internal/ebpf/vmlinux.h\<close> (aggregates nested 3 deep), in the
  order of the header: \<open>st_<tag>\<close>, \<open>un_<tag>\<close>, and \<open>td_<name>\<close> for an aggregate with a type name.
\<close>

definition td_raw_spinlock_t :: ty where
  "td_raw_spinlock_t = st_raw_spinlock"

definition st_spinlock :: ty where
  "st_spinlock = TStruct ''spinlock'' False [
    Plain '''' (TUnion '''' False [
      Plain ''rlock'' st_raw_spinlock])]"

definition st_kobject :: ty where
  "st_kobject = TStruct ''kobject'' False [
    Plain ''name'' (TPtr ''char''),
    Plain ''entry'' st_list_head,
    Plain ''parent'' (TPtr ''struct kobject''),
    Plain ''kset'' (TPtr ''struct kset''),
    Plain ''ktype'' (TPtr ''struct kobj_type''),
    Plain ''sd'' (TPtr ''struct kernfs_node''),
    Plain ''kref'' st_kref,
    Bits ''state_initialized'' (TInt I32 False) 1,
    Bits ''state_in_sysfs'' (TInt I32 False) 1,
    Bits ''state_add_uevent_sent'' (TInt I32 False) 1,
    Bits ''state_remove_uevent_sent'' (TInt I32 False) 1,
    Bits ''uevent_suppress'' (TInt I32 False) 1]"

definition td_call_single_data_t :: ty where
  "td_call_single_data_t = st___call_single_data"

definition st__thermal_state :: ty where
  "st__thermal_state = TStruct ''_thermal_state'' False [
    Plain ''next_check'' td_u64,
    Plain ''last_interrupt_time'' td_u64,
    Plain ''therm_work'' st_delayed_work,
    Plain ''count'' (TInt I64 False),
    Plain ''last_count'' (TInt I64 False),
    Plain ''max_time_ms'' (TInt I64 False),
    Plain ''total_time_ms'' (TInt I64 False),
    Plain ''rate_control_active'' td_bool,
    Plain ''new_event'' td_bool,
    Plain ''level'' td_u8,
    Plain ''sample_index'' td_u8,
    Plain ''sample_count'' td_u8,
    Plain ''average'' td_u8,
    Plain ''baseline_temp'' td_u8,
    Plain ''temp_samples'' (TArr td_u8 3)]"

definition st_aa_common_ref :: ty where
  "st_aa_common_ref = TStruct ''aa_common_ref'' False [
    Plain ''count'' st_kref,
    Plain ''reftype'' (TEnum ''reftype'' I32)]"

definition td_arch_rwlock_t :: ty where
  "td_arch_rwlock_t = st_qrwlock"

definition st_alarm :: ty where
  "st_alarm = TStruct ''alarm'' False [
    Plain ''node'' st_timerqueue_node,
    Plain ''timer'' st_hrtimer,
    Plain ''function'' (TFun ''void (*)(struct alarm *, ktime_t)''),
    Plain ''type'' (TEnum ''alarmtimer_type'' I32),
    Plain ''state'' (TInt I32 True),
    Plain ''data'' (TPtr ''void'')]"

definition st_audit_context :: ty where
  "st_audit_context = TStruct ''audit_context'' False [
    Plain ''dummy'' (TInt I32 True),
    Plain ''context'' (TEnum '''' I32),
    Plain ''state'' (TEnum ''audit_state'' I32),
    Plain ''current_state'' (TEnum ''audit_state'' I32),
    Plain ''stamp'' st_audit_stamp,
    Plain ''major'' (TInt I32 True),
    Plain ''uring_op'' (TInt I32 True),
    Plain ''argv'' (TArr (TInt I64 False) 4),
    Plain ''return_code'' (TInt I64 True),
    Plain ''prio'' td_u64,
    Plain ''return_valid'' (TInt I32 True),
    Plain ''preallocated_names'' (TArr st_audit_names 5),
    Plain ''name_count'' (TInt I32 True),
    Plain ''names_list'' st_list_head,
    Plain ''filterkey'' (TPtr ''char''),
    Plain ''pwd'' st_path,
    Plain ''aux'' (TPtr ''struct audit_aux_data''),
    Plain ''aux_pids'' (TPtr ''struct audit_aux_data''),
    Plain ''sockaddr'' (TPtr ''struct __kernel_sockaddr_storage''),
    Plain ''sockaddr_len'' td_size_t,
    Plain ''ppid'' td_pid_t,
    Plain ''uid'' td_kuid_t,
    Plain ''euid'' td_kuid_t,
    Plain ''suid'' td_kuid_t,
    Plain ''fsuid'' td_kuid_t,
    Plain ''gid'' td_kgid_t,
    Plain ''egid'' td_kgid_t,
    Plain ''sgid'' td_kgid_t,
    Plain ''fsgid'' td_kgid_t,
    Plain ''personality'' (TInt I64 False),
    Plain ''arch'' (TInt I32 True),
    Plain ''target_pid'' td_pid_t,
    Plain ''target_auid'' td_kuid_t,
    Plain ''target_uid'' td_kuid_t,
    Plain ''target_sessionid'' (TInt I32 False),
    Plain ''target_ref'' st_lsm_prop,
    Plain ''target_comm'' (TArr (TInt I8 True) 16),
    Plain ''trees'' (TPtr ''struct audit_tree_refs''),
    Plain ''first_trees'' (TPtr ''struct audit_tree_refs''),
    Plain ''killed_trees'' st_list_head,
    Plain ''tree_count'' (TInt I32 True),
    Plain ''type'' (TInt I32 True),
    Plain '''' (TUnion '''' False [
      Plain ''socketcall'' (TStruct '''' False [
        Plain ''nargs'' (TInt I32 True),
        Plain ''args'' (TArr (TInt I64 True) 6)]),
      Plain ''ipc'' (TStruct '''' False [
        Plain ''uid'' td_kuid_t,
        Plain ''gid'' td_kgid_t,
        Plain ''mode'' td_umode_t,
        Plain ''oprop'' st_lsm_prop,
        Plain ''has_perm'' (TInt I32 True),
        Plain ''perm_uid'' td_uid_t,
        Plain ''perm_gid'' td_gid_t,
        Plain ''perm_mode'' td_umode_t,
        Plain ''qbytes'' (TInt I64 False)]),
      Plain ''mq_getsetattr'' (TStruct '''' False [
        Plain ''mqdes'' td_mqd_t,
        Plain ''mqstat'' st_mq_attr]),
      Plain ''mq_notify'' (TStruct '''' False [
        Plain ''mqdes'' td_mqd_t,
        Plain ''sigev_signo'' (TInt I32 True)]),
      Plain ''mq_sendrecv'' (TStruct '''' False [
        Plain ''mqdes'' td_mqd_t,
        Plain ''msg_len'' td_size_t,
        Plain ''msg_prio'' (TInt I32 False),
        Plain ''abs_timeout'' st_timespec64]),
      Plain ''mq_open'' (TStruct '''' False [
        Plain ''oflag'' (TInt I32 True),
        Plain ''mode'' td_umode_t,
        Plain ''attr'' st_mq_attr]),
      Plain ''capset'' (TStruct '''' False [
        Plain ''pid'' td_pid_t,
        Plain ''cap'' st_audit_cap_data]),
      Plain ''mmap'' (TStruct '''' False [
        Plain ''fd'' (TInt I32 True),
        Plain ''flags'' (TInt I32 True)]),
      Plain ''openat2'' st_open_how,
      Plain ''execve'' (TStruct '''' False [
        Plain ''argc'' (TInt I32 True)]),
      Plain ''module'' (TStruct '''' False [
        Plain ''name'' (TPtr ''char'')]),
      Plain ''time'' (TStruct '''' False [
        Plain ''ntp_data'' st_audit_ntp_data,
        Plain ''tk_injoffset'' st_timespec64])]),
    Plain ''fds'' (TArr (TInt I32 True) 2),
    Plain ''proctitle'' st_audit_proctitle]"

definition td_seqcount_spinlock_t :: ty where
  "td_seqcount_spinlock_t = st_seqcount_spinlock"

definition st_cgroup_subsys_state :: ty where
  "st_cgroup_subsys_state = TStruct ''cgroup_subsys_state'' False [
    Plain ''cgroup'' (TPtr ''struct cgroup''),
    Plain ''ss'' (TPtr ''struct cgroup_subsys''),
    Plain ''refcnt'' st_percpu_ref,
    Plain ''rstat_cpu'' (TPtr ''struct css_rstat_cpu''),
    Plain ''sibling'' st_list_head,
    Plain ''children'' st_list_head,
    Plain ''id'' (TInt I32 True),
    Plain ''flags'' (TInt I32 False),
    Plain ''serial_nr'' td_u64,
    Plain ''online_cnt'' td_atomic_t,
    Plain ''destroy_work'' st_work_struct,
    Plain ''destroy_rwork'' st_rcu_work,
    Plain ''parent'' (TPtr ''struct cgroup_subsys_state''),
    Plain ''nr_descendants'' (TInt I32 True),
    Plain ''rstat_flush_next'' (TPtr ''struct cgroup_subsys_state'')]"

definition st_bpf_mem_cache :: ty where
  "st_bpf_mem_cache = TStruct ''bpf_mem_cache'' False [
    Plain ''free_llist'' st_llist_head,
    Plain ''active'' td_local_t,
    Plain ''free_llist_extra'' st_llist_head,
    Plain ''refill_work'' st_irq_work,
    Plain ''objcg'' (TPtr ''struct obj_cgroup''),
    Plain ''unit_size'' (TInt I32 True),
    Plain ''free_cnt'' (TInt I32 True),
    Plain ''low_watermark'' (TInt I32 True),
    Plain ''high_watermark'' (TInt I32 True),
    Plain ''batch'' (TInt I32 True),
    Plain ''percpu_size'' (TInt I32 True),
    Plain ''draining'' td_bool,
    Plain ''tgt'' (TPtr ''struct bpf_mem_cache''),
    Plain ''dtor'' (TFun ''void (*)(void *, void *)''),
    Plain ''dtor_ctx'' (TPtr ''void''),
    Plain ''free_by_rcu'' st_llist_head,
    Plain ''free_by_rcu_tail'' (TPtr ''struct llist_node''),
    Plain ''waiting_for_gp'' st_llist_head,
    Plain ''waiting_for_gp_tail'' (TPtr ''struct llist_node''),
    Plain ''rcu'' st_callback_head,
    Plain ''call_rcu_in_progress'' td_atomic_t,
    Plain ''free_llist_extra_rcu'' st_llist_head,
    Plain ''free_by_rcu_ttrace'' st_llist_head,
    Plain ''waiting_for_gp_ttrace'' st_llist_head,
    Plain ''rcu_ttrace'' st_callback_head,
    Plain ''call_rcu_ttrace_in_progress'' td_atomic_t]"

definition st_bpf_struct_ops_bpf_dummy_ops :: ty where
  "st_bpf_struct_ops_bpf_dummy_ops = TStruct ''bpf_struct_ops_bpf_dummy_ops'' False [
    Plain ''common'' st_bpf_struct_ops_common_value,
    Bits '''' (TInt I64 True) 64,
    Bits '''' (TInt I64 True) 64,
    Bits '''' (TInt I64 True) 64,
    Bits '''' (TInt I64 True) 64,
    Bits '''' (TInt I64 True) 64,
    Bits '''' (TInt I64 True) 64,
    Bits '''' (TInt I64 True) 64,
    Plain ''data'' st_bpf_dummy_ops,
    Bits '''' (TInt I64 True) 64,
    Bits '''' (TInt I64 True) 64,
    Bits '''' (TInt I64 True) 64,
    Bits '''' (TInt I64 True) 64,
    Bits '''' (TInt I64 True) 64]"

definition st_bpf_struct_ops_value :: ty where
  "st_bpf_struct_ops_value = TStruct ''bpf_struct_ops_value'' False [
    Plain ''common'' st_bpf_struct_ops_common_value,
    Bits '''' (TInt I64 True) 64,
    Bits '''' (TInt I64 True) 64,
    Bits '''' (TInt I64 True) 64,
    Bits '''' (TInt I64 True) 64,
    Bits '''' (TInt I64 True) 64,
    Bits '''' (TInt I64 True) 64,
    Bits '''' (TInt I64 True) 64,
    Plain ''data'' (TArr (TInt I8 True) 0)]"

definition st_bsg_job :: ty where
  "st_bsg_job = TStruct ''bsg_job'' False [
    Plain ''dev'' (TPtr ''struct device''),
    Plain ''kref'' st_kref,
    Plain ''timeout'' (TInt I32 False),
    Plain ''request'' (TPtr ''void''),
    Plain ''reply'' (TPtr ''void''),
    Plain ''request_len'' (TInt I32 False),
    Plain ''reply_len'' (TInt I32 False),
    Plain ''request_payload'' st_bsg_buffer,
    Plain ''reply_payload'' st_bsg_buffer,
    Plain ''result'' (TInt I32 True),
    Plain ''reply_payload_rcv_len'' (TInt I32 False),
    Plain ''bidi_rq'' (TPtr ''struct request''),
    Plain ''bidi_bio'' (TPtr ''struct bio''),
    Plain ''dd_data'' (TPtr ''void'')]"

definition st_ns_common :: ty where
  "st_ns_common = TStruct ''ns_common'' False [
    Plain '''' (TStruct '''' False [
      Plain ''__ns_ref'' td_refcount_t,
      Bits '''' (TInt I64 True) 64,
      Bits '''' (TInt I64 True) 64,
      Bits '''' (TInt I64 True) 64,
      Bits '''' (TInt I64 True) 64,
      Bits '''' (TInt I64 True) 64,
      Bits '''' (TInt I64 True) 64,
      Bits '''' (TInt I64 True) 64]),
    Plain ''ns_type'' td_u32,
    Plain ''stashed'' (TPtr ''struct dentry''),
    Plain ''ops'' (TPtr ''struct proc_ns_operations''),
    Plain ''inum'' (TInt I32 False),
    Plain '''' (TUnion '''' False [
      Plain '''' st_ns_tree,
      Plain ''ns_rcu'' st_callback_head])]"

definition st_clk_core :: ty where
  "st_clk_core = TStruct ''clk_core'' False [
    Plain ''name'' (TPtr ''char''),
    Plain ''ops'' (TPtr ''struct clk_ops''),
    Plain ''hw'' (TPtr ''struct clk_hw''),
    Plain ''owner'' (TPtr ''struct module''),
    Plain ''dev'' (TPtr ''struct device''),
    Plain ''rpm_node'' st_hlist_node,
    Plain ''of_node'' (TPtr ''struct device_node''),
    Plain ''parent'' (TPtr ''struct clk_core''),
    Plain ''parents'' (TPtr ''struct clk_parent_map''),
    Plain ''num_parents'' td_u8,
    Plain ''new_parent_index'' td_u8,
    Plain ''rate'' (TInt I64 False),
    Plain ''req_rate'' (TInt I64 False),
    Plain ''new_rate'' (TInt I64 False),
    Plain ''new_parent'' (TPtr ''struct clk_core''),
    Plain ''new_child'' (TPtr ''struct clk_core''),
    Plain ''flags'' (TInt I64 False),
    Plain ''orphan'' td_bool,
    Plain ''rpm_enabled'' td_bool,
    Plain ''enable_count'' (TInt I32 False),
    Plain ''prepare_count'' (TInt I32 False),
    Plain ''protect_count'' (TInt I32 False),
    Plain ''min_rate'' (TInt I64 False),
    Plain ''max_rate'' (TInt I64 False),
    Plain ''accuracy'' (TInt I64 False),
    Plain ''phase'' (TInt I32 True),
    Plain ''duty'' st_clk_duty,
    Plain ''children'' st_hlist_head,
    Plain ''child_node'' st_hlist_node,
    Plain ''hashtable_node'' st_hlist_node,
    Plain ''clks'' st_hlist_head,
    Plain ''notifier_count'' (TInt I32 False),
    Plain ''dentry'' (TPtr ''struct dentry''),
    Plain ''debug_node'' st_hlist_node,
    Plain ''ref'' st_kref]"

definition st_context___2 :: ty where
  "st_context___2 = TStruct ''context___2'' False [
    Plain ''user'' td_u32,
    Plain ''role'' td_u32,
    Plain ''type'' td_u32,
    Plain ''len'' td_u32,
    Plain ''range'' st_mls_range,
    Plain ''str'' (TPtr ''char'')]"

definition st_ctl_table_set :: ty where
  "st_ctl_table_set = TStruct ''ctl_table_set'' False [
    Plain ''is_seen'' (TFun ''int (*)(struct ctl_table_set *)''),
    Plain ''dir'' st_ctl_dir]"

definition st_dev_pm_opp :: ty where
  "st_dev_pm_opp = TStruct ''dev_pm_opp'' False [
    Plain ''node'' st_list_head,
    Plain ''kref'' st_kref,
    Plain ''available'' td_bool,
    Plain ''dynamic'' td_bool,
    Plain ''turbo'' td_bool,
    Plain ''suspend'' td_bool,
    Plain ''removed'' td_bool,
    Plain ''rates'' (TPtr ''long unsigned int''),
    Plain ''level'' (TInt I32 False),
    Plain ''supplies'' (TPtr ''struct dev_pm_opp_supply''),
    Plain ''bandwidth'' (TPtr ''struct dev_pm_opp_icc_bw''),
    Plain ''clock_latency_ns'' (TInt I64 False),
    Plain ''required_opps'' (TPtr ''struct dev_pm_opp *''),
    Plain ''opp_table'' (TPtr ''struct opp_table''),
    Plain ''np'' (TPtr ''struct device_node''),
    Plain ''dentry'' (TPtr ''struct dentry''),
    Plain ''of_name'' (TPtr ''char'')]"

definition st_dma_fence :: ty where
  "st_dma_fence = TStruct ''dma_fence'' False [
    Plain ''lock'' (TPtr ''spinlock_t''),
    Plain ''ops'' (TPtr ''struct dma_fence_ops''),
    Plain '''' (TUnion '''' False [
      Plain ''cb_list'' st_list_head,
      Plain ''timestamp'' td_ktime_t,
      Plain ''rcu'' st_callback_head]),
    Plain ''context'' td_u64,
    Plain ''seqno'' td_u64,
    Plain ''flags'' (TInt I64 False),
    Plain ''refcount'' st_kref,
    Plain ''error'' (TInt I32 True)]"

definition st_drm_mode_object :: ty where
  "st_drm_mode_object = TStruct ''drm_mode_object'' False [
    Plain ''id'' td_uint32_t,
    Plain ''type'' td_uint32_t,
    Plain ''properties'' (TPtr ''struct drm_object_properties''),
    Plain ''refcount'' st_kref,
    Plain ''free_cb'' (TFun ''void (*)(struct kref *)'')]"

definition st_drm_atomic_state :: ty where
  "st_drm_atomic_state = TStruct ''drm_atomic_state'' False [
    Plain ''ref'' st_kref,
    Plain ''dev'' (TPtr ''struct drm_device''),
    Bits ''allow_modeset'' td_bool 1,
    Bits ''legacy_cursor_update'' td_bool 1,
    Bits ''async_update'' td_bool 1,
    Bits ''duplicated'' td_bool 1,
    Bits ''checked'' td_bool 1,
    Bits ''plane_color_pipeline'' td_bool 1,
    Plain ''colorops'' (TPtr ''struct __drm_colorops_state''),
    Plain ''planes'' (TPtr ''struct __drm_planes_state''),
    Plain ''crtcs'' (TPtr ''struct __drm_crtcs_state''),
    Plain ''num_connector'' (TInt I32 True),
    Plain ''connectors'' (TPtr ''struct __drm_connnectors_state''),
    Plain ''num_private_objs'' (TInt I32 True),
    Plain ''private_objs'' (TPtr ''struct __drm_private_objs_state''),
    Plain ''acquire_ctx'' (TPtr ''struct drm_modeset_acquire_ctx''),
    Plain ''fake_commit'' (TPtr ''struct drm_crtc_commit''),
    Plain ''commit_work'' st_work_struct]"

definition st_drm_gpuvm_bo :: ty where
  "st_drm_gpuvm_bo = TStruct ''drm_gpuvm_bo'' False [
    Plain ''vm'' (TPtr ''struct drm_gpuvm''),
    Plain ''obj'' (TPtr ''struct drm_gem_object''),
    Plain ''evicted'' td_bool,
    Plain ''kref'' st_kref,
    Plain ''list'' (TStruct '''' False [
      Plain ''gpuva'' st_list_head,
      Plain ''entry'' (TStruct '''' False [
        Plain ''gem'' st_list_head,
        Plain ''extobj'' st_list_head,
        Plain ''evict'' st_list_head,
        Plain ''bo_defer'' st_llist_node])])]"

definition st_dsa_switch_tree :: ty where
  "st_dsa_switch_tree = TStruct ''dsa_switch_tree'' False [
    Plain ''list'' st_list_head,
    Plain ''ports'' st_list_head,
    Plain ''nh'' st_raw_notifier_head,
    Plain ''index'' (TInt I32 False),
    Plain ''refcount'' st_kref,
    Plain ''lags'' (TPtr ''struct dsa_lag *''),
    Plain ''tag_ops'' (TPtr ''struct dsa_device_ops''),
    Plain ''default_proto'' (TEnum ''dsa_tag_protocol'' I32),
    Plain ''setup'' td_bool,
    Plain ''pd'' (TPtr ''struct dsa_platform_data''),
    Plain ''rtable'' st_list_head,
    Plain ''lags_len'' (TInt I32 False),
    Plain ''last_switch'' (TInt I32 False)]"

definition st_dwc2_qh :: ty where
  "st_dwc2_qh = TStruct ''dwc2_qh'' False [
    Plain ''hsotg'' (TPtr ''struct dwc2_hsotg''),
    Plain ''ep_type'' td_u8,
    Plain ''ep_is_in'' td_u8,
    Plain ''maxp'' td_u16,
    Plain ''maxp_mult'' td_u16,
    Plain ''dev_speed'' td_u8,
    Plain ''data_toggle'' td_u8,
    Plain ''ping_state'' td_u8,
    Plain ''do_split'' td_u8,
    Plain ''td_first'' td_u8,
    Plain ''td_last'' td_u8,
    Plain ''host_us'' td_u16,
    Plain ''device_us'' td_u16,
    Plain ''host_interval'' td_u16,
    Plain ''device_interval'' td_u16,
    Plain ''next_active_frame'' td_u16,
    Plain ''start_active_frame'' td_u16,
    Plain ''num_hs_transfers'' td_s16,
    Plain ''hs_transfers'' (TArr st_dwc2_hs_transfer_time 8),
    Plain ''ls_start_schedule_slice'' td_u32,
    Plain ''ntd'' td_u16,
    Plain ''dw_align_buf'' (TPtr ''u8''),
    Plain ''dw_align_buf_dma'' td_dma_addr_t,
    Plain ''qtd_list'' st_list_head,
    Plain ''channel'' (TPtr ''struct dwc2_host_chan''),
    Plain ''qh_list_entry'' st_list_head,
    Plain ''desc_list'' (TPtr ''struct dwc2_dma_desc''),
    Plain ''desc_list_dma'' td_dma_addr_t,
    Plain ''desc_list_sz'' td_u32,
    Plain ''n_bytes'' (TPtr ''u32''),
    Plain ''unreserve_timer'' st_timer_list,
    Plain ''wait_timer'' st_hrtimer,
    Plain ''dwc_tt'' (TPtr ''struct dwc2_tt''),
    Plain ''ttport'' (TInt I32 True),
    Bits ''tt_buffer_dirty'' (TInt I32 False) 1,
    Bits ''unreserve_pending'' (TInt I32 False) 1,
    Bits ''schedule_low_speed'' (TInt I32 False) 1,
    Bits ''want_wait'' (TInt I32 False) 1,
    Bits ''wait_timer_cancel'' (TInt I32 False) 1]"

definition st_edid :: ty where
  "st_edid = TStruct ''edid'' False [
    Plain ''header'' (TArr td_u8 8),
    Plain '''' (TUnion '''' False [
      Plain ''product_id'' st_drm_edid_product_id,
      Plain '''' (TStruct '''' True [
        Plain ''mfg_id'' (TArr td_u8 2),
        Plain ''prod_code'' (TArr td_u8 2),
        Plain ''serial'' td_u32,
        Plain ''mfg_week'' td_u8,
        Plain ''mfg_year'' td_u8])]),
    Plain ''version'' td_u8,
    Plain ''revision'' td_u8,
    Plain ''input'' td_u8,
    Plain ''width_cm'' td_u8,
    Plain ''height_cm'' td_u8,
    Plain ''gamma'' td_u8,
    Plain ''features'' td_u8,
    Plain ''red_green_lo'' td_u8,
    Plain ''blue_white_lo'' td_u8,
    Plain ''red_x'' td_u8,
    Plain ''red_y'' td_u8,
    Plain ''green_x'' td_u8,
    Plain ''green_y'' td_u8,
    Plain ''blue_x'' td_u8,
    Plain ''blue_y'' td_u8,
    Plain ''white_x'' td_u8,
    Plain ''white_y'' td_u8,
    Plain ''established_timings'' st_est_timings,
    Plain ''standard_timings'' (TArr st_std_timing 8),
    Plain ''detailed_timings'' (TArr st_detailed_timing 4),
    Plain ''extensions'' td_u8,
    Plain ''checksum'' td_u8]"

definition st_eventfs_inode :: ty where
  "st_eventfs_inode = TStruct ''eventfs_inode'' False [
    Plain '''' (TUnion '''' False [
      Plain ''list'' st_list_head,
      Plain ''rcu'' st_callback_head]),
    Plain ''children'' st_list_head,
    Plain ''entries'' (TPtr ''struct eventfs_entry''),
    Plain ''name'' (TPtr ''char''),
    Plain ''entry_attrs'' (TPtr ''struct eventfs_attr''),
    Plain ''data'' (TPtr ''void''),
    Plain ''attr'' st_eventfs_attr,
    Plain ''kref'' st_kref,
    Bits ''is_freed'' (TInt I32 False) 1,
    Bits ''is_events'' (TInt I32 False) 1,
    Bits ''nr_entries'' (TInt I32 False) 30,
    Plain ''ino'' (TInt I32 False)]"

definition st_fanotify_perm_event :: ty where
  "st_fanotify_perm_event = TStruct ''fanotify_perm_event'' False [
    Plain ''fae'' st_fanotify_event,
    Plain ''path'' st_path,
    Plain ''ppos'' (TPtr ''loff_t''),
    Plain ''count'' td_size_t,
    Plain ''response'' td_u32,
    Plain ''state'' (TInt I16 False),
    Plain ''watchdog_cnt'' (TInt I16 False),
    Plain ''fd'' (TInt I32 True),
    Plain ''recv_pid'' td_pid_t,
    Plain '''' (TUnion '''' False [
      Plain ''hdr'' st_fanotify_response_info_header,
      Plain ''audit_rule'' st_fanotify_response_info_audit_rule])]"

definition st_fbcon_par :: ty where
  "st_fbcon_par = TStruct ''fbcon_par'' False [
    Plain ''var'' st_fb_var_screeninfo,
    Plain ''cursor_work'' st_delayed_work,
    Plain ''cursor_state'' st_fb_cursor,
    Plain ''p'' (TPtr ''struct fbcon_display''),
    Plain ''info'' (TPtr ''struct fb_info''),
    Plain ''currcon'' (TInt I32 True),
    Plain ''cur_blink_jiffies'' (TInt I32 True),
    Plain ''cursor_flash'' (TInt I32 True),
    Plain ''cursor_reset'' (TInt I32 True),
    Plain ''blank_state'' (TInt I32 True),
    Plain ''graphics'' (TInt I32 True),
    Plain ''initialized'' td_bool,
    Plain ''rotate'' (TInt I32 True),
    Plain ''cur_rotate'' (TInt I32 True),
    Plain ''cursor_data'' (TPtr ''char''),
    Plain ''fontbuffer'' (TPtr ''u8''),
    Plain ''fontdata'' (TPtr ''u8''),
    Plain ''cursor_src'' (TPtr ''u8''),
    Plain ''cursor_size'' td_u32,
    Plain ''fd_size'' td_u32,
    Plain ''bitops'' (TPtr ''struct fbcon_bitops'')]"

definition st_fib6_info :: ty where
  "st_fib6_info = TStruct ''fib6_info'' False [
    Plain ''fib6_table'' (TPtr ''struct fib6_table''),
    Plain ''fib6_next'' (TPtr ''struct fib6_info''),
    Plain ''fib6_node'' (TPtr ''struct fib6_node''),
    Plain '''' (TUnion '''' False [
      Plain ''fib6_siblings'' st_list_head,
      Plain ''nh_list'' st_list_head]),
    Plain ''fib6_nsiblings'' (TInt I32 False),
    Plain ''fib6_ref'' td_refcount_t,
    Plain ''expires'' (TInt I64 False),
    Plain ''gc_link'' st_hlist_node,
    Plain ''fib6_metrics'' (TPtr ''struct dst_metrics''),
    Plain ''fib6_dst'' st_rt6key,
    Plain ''fib6_flags'' td_u32,
    Plain ''fib6_src'' st_rt6key,
    Plain ''fib6_prefsrc'' st_rt6key,
    Plain ''fib6_metric'' td_u32,
    Plain ''fib6_protocol'' td_u8,
    Plain ''fib6_type'' td_u8,
    Plain ''offload'' td_u8,
    Plain ''trap'' td_u8,
    Plain ''offload_failed'' td_u8,
    Bits ''should_flush'' td_u8 1,
    Bits ''dst_nocount'' td_u8 1,
    Bits ''dst_nopolicy'' td_u8 1,
    Bits ''fib6_destroying'' td_u8 1,
    Bits ''unused'' td_u8 4,
    Plain ''purge_link'' st_list_head,
    Plain ''rcu'' st_callback_head,
    Plain ''nh'' (TPtr ''struct nexthop''),
    Plain ''fib6_nh'' (TArr st_fib6_nh 0)]"

definition st_fib_info :: ty where
  "st_fib_info = TStruct ''fib_info'' False [
    Plain ''fib_hash'' st_hlist_node,
    Plain ''fib_lhash'' st_hlist_node,
    Plain ''nh_list'' st_list_head,
    Plain ''fib_net'' (TPtr ''struct net''),
    Plain ''fib_treeref'' td_refcount_t,
    Plain ''fib_clntref'' td_refcount_t,
    Plain ''fib_flags'' (TInt I32 False),
    Plain ''fib_dead'' (TInt I8 False),
    Plain ''fib_protocol'' (TInt I8 False),
    Plain ''fib_scope'' (TInt I8 False),
    Plain ''fib_type'' (TInt I8 False),
    Plain ''fib_prefsrc'' td___be32,
    Plain ''fib_tb_id'' td_u32,
    Plain ''fib_priority'' td_u32,
    Plain ''fib_metrics'' (TPtr ''struct dst_metrics''),
    Plain ''fib_nhs'' (TInt I32 True),
    Plain ''fib_nh_is_v6'' td_bool,
    Plain ''nh_updated'' td_bool,
    Plain ''pfsrc_removed'' td_bool,
    Plain ''nh'' (TPtr ''struct nexthop''),
    Plain ''rcu'' st_callback_head,
    Plain ''fib_nh'' (TArr st_fib_nh 0)]"

definition st_flowi :: ty where
  "st_flowi = TStruct ''flowi'' False [
    Plain ''u'' (TUnion '''' False [
      Plain ''__fl_common'' st_flowi_common,
      Plain ''ip4'' st_flowi4,
      Plain ''ip6'' st_flowi6])]"

definition st_fpstate :: ty where
  "st_fpstate = TStruct ''fpstate'' False [
    Plain ''size'' (TInt I32 False),
    Plain ''user_size'' (TInt I32 False),
    Plain ''xfeatures'' td_u64,
    Plain ''user_xfeatures'' td_u64,
    Plain ''xfd'' td_u64,
    Bits ''is_valloc'' (TInt I32 False) 1,
    Bits ''is_guest'' (TInt I32 False) 1,
    Bits ''is_confidential'' (TInt I32 False) 1,
    Bits ''in_use'' (TInt I32 False) 1,
    Bits '''' (TInt I64 True) 64,
    Bits '''' (TInt I64 True) 64,
    Bits '''' (TInt I64 True) 64,
    Plain ''regs'' un_fpregs_state]"

definition td_seqcount_raw_spinlock_t :: ty where
  "td_seqcount_raw_spinlock_t = st_seqcount_raw_spinlock"

definition st_hw_perf_event :: ty where
  "st_hw_perf_event = TStruct ''hw_perf_event'' False [
    Plain '''' (TUnion '''' False [
      Plain '''' (TStruct '''' False [
        Plain ''config'' td_u64,
        Plain ''config1'' td_u64,
        Plain ''last_tag'' td_u64,
        Plain ''dyn_constraint'' td_u64,
        Plain ''config_base'' (TInt I64 False),
        Plain ''event_base'' (TInt I64 False),
        Plain ''event_base_rdpmc'' (TInt I32 True),
        Plain ''idx'' (TInt I32 True),
        Plain ''last_cpu'' (TInt I32 True),
        Plain ''flags'' (TInt I32 True),
        Plain ''extra_reg'' st_hw_perf_event_extra,
        Plain ''branch_reg'' st_hw_perf_event_extra]),
      Plain '''' (TStruct '''' False [
        Plain ''aux_config'' td_u64,
        Plain ''aux_paused'' (TInt I32 False)]),
      Plain '''' (TStruct '''' False [
        Plain ''hrtimer'' st_hrtimer]),
      Plain '''' (TStruct '''' False [
        Plain ''tp_list'' st_list_head]),
      Plain '''' (TStruct '''' False [
        Plain ''pwr_acc'' td_u64,
        Plain ''ptsc'' td_u64]),
      Plain '''' (TStruct '''' False [
        Plain ''info'' st_arch_hw_breakpoint,
        Plain ''bp_list'' st_rhlist_head]),
      Plain '''' (TStruct '''' False [
        Plain ''iommu_bank'' td_u8,
        Plain ''iommu_cntr'' td_u8,
        Plain ''padding'' td_u16,
        Plain ''conf'' td_u64,
        Plain ''conf1'' td_u64])]),
    Plain ''target'' (TPtr ''struct task_struct''),
    Plain ''addr_filters'' (TPtr ''void''),
    Plain ''addr_filters_gen'' (TInt I64 False),
    Plain ''state'' (TInt I32 True),
    Plain ''prev_count'' td_local64_t,
    Plain ''sample_period'' td_u64,
    Plain '''' (TUnion '''' False [
      Plain '''' (TStruct '''' False [
        Plain ''last_period'' td_u64,
        Plain ''period_left'' td_local64_t]),
      Plain '''' (TStruct '''' False [
        Plain ''saved_metric'' td_u64,
        Plain ''saved_slots'' td_u64])]),
    Plain ''interrupts_seq'' td_u64,
    Plain ''interrupts'' td_u64,
    Plain ''freq_time_stamp'' td_u64,
    Plain ''freq_count_stamp'' td_u64]"

definition st_ifmcaddr6 :: ty where
  "st_ifmcaddr6 = TStruct ''ifmcaddr6'' False [
    Plain ''mca_addr'' st_in6_addr,
    Plain ''idev'' (TPtr ''struct inet6_dev''),
    Plain ''next'' (TPtr ''struct ifmcaddr6''),
    Plain ''mca_sources'' (TPtr ''struct ip6_sf_list''),
    Plain ''mca_tomb'' (TPtr ''struct ip6_sf_list''),
    Plain ''mca_sfmode'' (TInt I32 False),
    Plain ''mca_crcount'' (TInt I8 False),
    Plain ''mca_sfcount'' (TArr (TInt I64 False) 2),
    Plain ''mca_work'' st_delayed_work,
    Plain ''mca_flags'' (TInt I32 False),
    Plain ''mca_users'' (TInt I32 True),
    Plain ''mca_refcnt'' td_refcount_t,
    Plain ''mca_cstamp'' (TInt I64 False),
    Plain ''mca_tstamp'' (TInt I64 False),
    Plain ''rcu'' st_callback_head]"

definition st_request_sock :: ty where
  "st_request_sock = TStruct ''request_sock'' False [
    Plain ''__req_common'' st_sock_common,
    Plain ''dl_next'' (TPtr ''struct request_sock''),
    Plain ''mss'' td_u16,
    Plain ''num_retrans'' td_u8,
    Bits ''syncookie'' td_u8 1,
    Bits ''num_timeout'' td_u8 7,
    Plain ''ts_recent'' td_u32,
    Plain ''rsk_timer'' st_timer_list,
    Plain ''rsk_ops'' (TPtr ''struct request_sock_ops''),
    Plain ''sk'' (TPtr ''struct sock''),
    Plain ''saved_syn'' (TPtr ''struct saved_syn''),
    Plain ''secid'' td_u32,
    Plain ''peer_secid'' td_u32,
    Plain ''timeout'' td_u32]"

definition st_inet_timewait_sock :: ty where
  "st_inet_timewait_sock = TStruct ''inet_timewait_sock'' False [
    Plain ''__tw_common'' st_sock_common,
    Plain ''tw_mark'' td___u32,
    Plain ''tw_substate'' (TInt I8 False),
    Plain ''tw_rcv_wscale'' (TInt I8 False),
    Plain ''tw_sport'' td___be16,
    Bits ''tw_transparent'' (TInt I32 False) 1,
    Bits ''tw_flowlabel'' (TInt I32 False) 20,
    Bits ''tw_usec_ts'' (TInt I32 False) 1,
    Bits ''tw_connect_bind'' (TInt I32 False) 1,
    Bits ''tw_pad'' (TInt I32 False) 1,
    Bits ''tw_tos'' (TInt I32 False) 8,
    Plain ''tw_txhash'' td_u32,
    Plain ''tw_priority'' td_u32,
    Plain ''tw_entry_stamp'' td_u32,
    Plain ''tw_timer'' st_timer_list,
    Plain ''tw_tb'' (TPtr ''struct inet_bind_bucket''),
    Plain ''tw_tb2'' (TPtr ''struct inet_bind2_bucket''),
    Plain ''psp_assoc'' (TPtr ''struct psp_assoc''),
    Plain ''tw_validate_xmit_skb''
      (TFun ''struct sk_buff * (*)(struct sock *, struct net_device *, struct sk_buff *)'')]"

definition st_io_async_msghdr :: ty where
  "st_io_async_msghdr = TStruct ''io_async_msghdr'' False [
    Plain ''vec'' st_iou_vec,
    Plain '''' (TUnion '''' False [
      Plain '''' (TStruct '''' False [
        Plain ''namelen'' (TInt I32 True),
        Plain ''fast_iov'' st_iovec,
        Plain ''controllen'' td___kernel_size_t,
        Plain ''payloadlen'' td___kernel_size_t,
        Plain ''uaddr'' (TPtr ''struct sockaddr''),
        Plain ''msg'' st_msghdr,
        Plain ''addr'' st___kernel_sockaddr_storage]),
      Plain ''clear'' (TStruct '''' False [
        Plain ''namelen'' (TInt I32 True),
        Plain ''fast_iov'' st_iovec,
        Plain ''controllen'' td___kernel_size_t,
        Plain ''payloadlen'' td___kernel_size_t,
        Plain ''uaddr'' (TPtr ''struct sockaddr''),
        Plain ''msg'' st_msghdr,
        Plain ''addr'' st___kernel_sockaddr_storage])])]"

definition st_wait_page_queue :: ty where
  "st_wait_page_queue = TStruct ''wait_page_queue'' False [
    Plain ''folio'' (TPtr ''struct folio''),
    Plain ''bit_nr'' (TInt I32 True),
    Plain ''wait'' td_wait_queue_entry_t]"

definition st_irq_redirect :: ty where
  "st_irq_redirect = TStruct ''irq_redirect'' False [
    Plain ''work'' st_irq_work,
    Plain ''target_cpu'' (TInt I32 False)]"

definition st_kernel_siginfo :: ty where
  "st_kernel_siginfo = TStruct ''kernel_siginfo'' False [
    Plain '''' (TStruct '''' False [
      Plain ''si_signo'' (TInt I32 True),
      Plain ''si_errno'' (TInt I32 True),
      Plain ''si_code'' (TInt I32 True),
      Plain ''_sifields'' un___sifields])]"

definition st_kfree_rcu_cpu_work :: ty where
  "st_kfree_rcu_cpu_work = TStruct ''kfree_rcu_cpu_work'' False [
    Plain ''rcu_work'' st_rcu_work,
    Plain ''head_free'' (TPtr ''struct callback_head''),
    Plain ''head_free_gp_snap'' st_rcu_gp_oldstate,
    Plain ''bulk_head_free'' (TArr st_list_head 2),
    Plain ''krcp'' (TPtr ''struct kfree_rcu_cpu'')]"

definition st_kvm_run :: ty where
  "st_kvm_run = TStruct ''kvm_run'' False [
    Plain ''request_interrupt_window'' td___u8,
    Plain ''immediate_exit__unsafe'' td___u8,
    Plain ''padding1'' (TArr td___u8 6),
    Plain ''exit_reason'' td___u32,
    Plain ''ready_for_interrupt_injection'' td___u8,
    Plain ''if_flag'' td___u8,
    Plain ''flags'' td___u16,
    Plain ''cr8'' td___u64,
    Plain ''apic_base'' td___u64,
    Plain '''' (TUnion '''' False [
      Plain ''hw'' (TStruct '''' False [
        Plain ''hardware_exit_reason'' td___u64]),
      Plain ''fail_entry'' (TStruct '''' False [
        Plain ''hardware_entry_failure_reason'' td___u64,
        Plain ''cpu'' td___u32]),
      Plain ''ex'' (TStruct '''' False [
        Plain ''exception'' td___u32,
        Plain ''error_code'' td___u32]),
      Plain ''io'' (TStruct '''' False [
        Plain ''direction'' td___u8,
        Plain ''size'' td___u8,
        Plain ''port'' td___u16,
        Plain ''count'' td___u32,
        Plain ''data_offset'' td___u64]),
      Plain ''debug'' (TStruct '''' False [
        Plain ''arch'' st_kvm_debug_exit_arch]),
      Plain ''mmio'' (TStruct '''' False [
        Plain ''phys_addr'' td___u64,
        Plain ''data'' (TArr td___u8 8),
        Plain ''len'' td___u32,
        Plain ''is_write'' td___u8]),
      Plain ''iocsr_io'' (TStruct '''' False [
        Plain ''phys_addr'' td___u64,
        Plain ''data'' (TArr td___u8 8),
        Plain ''len'' td___u32,
        Plain ''is_write'' td___u8]),
      Plain ''hypercall'' (TStruct '''' False [
        Plain ''nr'' td___u64,
        Plain ''args'' (TArr td___u64 6),
        Plain ''ret'' td___u64,
        Plain '''' (TUnion '''' False [
          Plain ''flags'' td___u64])]),
      Plain ''tpr_access'' (TStruct '''' False [
        Plain ''rip'' td___u64,
        Plain ''is_write'' td___u32,
        Plain ''pad'' td___u32]),
      Plain ''s390_sieic'' (TStruct '''' False [
        Plain ''icptcode'' td___u8,
        Plain ''ipa'' td___u16,
        Plain ''ipb'' td___u32]),
      Plain ''s390_reset_flags'' td___u64,
      Plain ''s390_ucontrol'' (TStruct '''' False [
        Plain ''trans_exc_code'' td___u64,
        Plain ''pgm_code'' td___u32]),
      Plain ''dcr'' (TStruct '''' False [
        Plain ''dcrn'' td___u32,
        Plain ''data'' td___u32,
        Plain ''is_write'' td___u8]),
      Plain ''internal'' (TStruct '''' False [
        Plain ''suberror'' td___u32,
        Plain ''ndata'' td___u32,
        Plain ''data'' (TArr td___u64 16)]),
      Plain ''emulation_failure'' (TStruct '''' False [
        Plain ''suberror'' td___u32,
        Plain ''ndata'' td___u32,
        Plain ''flags'' td___u64,
        Plain '''' (TUnion '''' False [
          Plain '''' (TStruct '''' False [
            Plain ''insn_size'' td___u8,
            Plain ''insn_bytes'' (TArr td___u8 15)])])]),
      Plain ''osi'' (TStruct '''' False [
        Plain ''gprs'' (TArr td___u64 32)]),
      Plain ''papr_hcall'' (TStruct '''' False [
        Plain ''nr'' td___u64,
        Plain ''ret'' td___u64,
        Plain ''args'' (TArr td___u64 9)]),
      Plain ''s390_tsch'' (TStruct '''' False [
        Plain ''subchannel_id'' td___u16,
        Plain ''subchannel_nr'' td___u16,
        Plain ''io_int_parm'' td___u32,
        Plain ''io_int_word'' td___u32,
        Plain ''ipb'' td___u32,
        Plain ''dequeued'' td___u8]),
      Plain ''epr'' (TStruct '''' False [
        Plain ''epr'' td___u32]),
      Plain ''system_event'' (TStruct '''' False [
        Plain ''type'' td___u32,
        Plain ''ndata'' td___u32,
        Plain '''' (TUnion '''' False [
          Plain ''data'' (TArr td___u64 16)])]),
      Plain ''s390_stsi'' (TStruct '''' False [
        Plain ''addr'' td___u64,
        Plain ''ar'' td___u8,
        Plain ''reserved'' td___u8,
        Plain ''fc'' td___u8,
        Plain ''sel1'' td___u8,
        Plain ''sel2'' td___u16]),
      Plain ''eoi'' (TStruct '''' False [
        Plain ''vector'' td___u8]),
      Plain ''hyperv'' st_kvm_hyperv_exit,
      Plain ''arm_nisv'' (TStruct '''' False [
        Plain ''esr_iss'' td___u64,
        Plain ''fault_ipa'' td___u64]),
      Plain ''msr'' (TStruct '''' False [
        Plain ''error'' td___u8,
        Plain ''pad'' (TArr td___u8 7),
        Plain ''reason'' td___u32,
        Plain ''index'' td___u32,
        Plain ''data'' td___u64]),
      Plain ''xen'' st_kvm_xen_exit,
      Plain ''riscv_sbi'' (TStruct '''' False [
        Plain ''extension_id'' (TInt I64 False),
        Plain ''function_id'' (TInt I64 False),
        Plain ''args'' (TArr (TInt I64 False) 6),
        Plain ''ret'' (TArr (TInt I64 False) 2)]),
      Plain ''riscv_csr'' (TStruct '''' False [
        Plain ''csr_num'' (TInt I64 False),
        Plain ''new_value'' (TInt I64 False),
        Plain ''write_mask'' (TInt I64 False),
        Plain ''ret_value'' (TInt I64 False)]),
      Plain ''notify'' (TStruct '''' False [
        Plain ''flags'' td___u32]),
      Plain ''memory_fault'' (TStruct '''' False [
        Plain ''flags'' td___u64,
        Plain ''gpa'' td___u64,
        Plain ''size'' td___u64]),
      Plain ''tdx'' (TStruct '''' False [
        Plain ''flags'' td___u64,
        Plain ''nr'' td___u64,
        Plain '''' (TUnion '''' False [
          Plain ''unknown'' (TStruct '''' False [
            Plain ''ret'' td___u64,
            Plain ''data'' (TArr td___u64 5)]),
          Plain ''get_quote'' (TStruct '''' False [
            Plain ''ret'' td___u64,
            Plain ''gpa'' td___u64,
            Plain ''size'' td___u64]),
          Plain ''get_tdvmcall_info'' (TStruct '''' False [
            Plain ''ret'' td___u64,
            Plain ''leaf'' td___u64,
            Plain ''r11'' td___u64,
            Plain ''r12'' td___u64,
            Plain ''r13'' td___u64,
            Plain ''r14'' td___u64]),
          Plain ''setup_event_notify'' (TStruct '''' False [
            Plain ''ret'' td___u64,
            Plain ''vector'' td___u64])])]),
      Plain ''arm_sea'' (TStruct '''' False [
        Plain ''flags'' td___u64,
        Plain ''esr'' td___u64,
        Plain ''gva'' td___u64,
        Plain ''gpa'' td___u64]),
      Plain ''snp_req_certs'' st_kvm_exit_snp_req_certs,
      Plain ''padding'' (TArr (TInt I8 True) 256)]),
    Plain ''kvm_valid_regs'' td___u64,
    Plain ''kvm_dirty_regs'' td___u64,
    Plain ''s'' (TUnion '''' False [
      Plain ''regs'' st_kvm_sync_regs,
      Plain ''padding'' (TArr (TInt I8 True) 2048)])]"

definition st_line :: ty where
  "st_line = TStruct ''line'' False [
    Plain ''desc'' (TPtr ''struct gpio_desc''),
    Plain ''req'' (TPtr ''struct linereq''),
    Plain ''irq'' (TInt I32 False),
    Plain ''edflags'' td_u64,
    Plain ''timestamp_ns'' td_u64,
    Plain ''req_seqno'' td_u32,
    Plain ''line_seqno'' td_u32,
    Plain ''work'' st_delayed_work,
    Plain ''sw_debounced'' (TInt I32 False),
    Plain ''level'' (TInt I32 False),
    Plain ''hdesc'' st_hte_ts_desc,
    Plain ''raw_level'' (TInt I32 True),
    Plain ''total_discard_seq'' td_u32,
    Plain ''last_seqno'' td_u32]"

definition st_net_bridge_fdb_entry :: ty where
  "st_net_bridge_fdb_entry = TStruct ''net_bridge_fdb_entry'' False [
    Plain ''rhnode'' st_rhash_head,
    Plain ''dst'' (TPtr ''struct net_bridge_port''),
    Plain ''key'' st_net_bridge_fdb_key,
    Plain ''fdb_node'' st_hlist_node,
    Plain ''flags'' (TInt I64 False),
    Bits '''' (TInt I64 True) 64,
    Bits '''' (TInt I64 True) 64,
    Plain ''updated'' (TInt I64 False),
    Plain ''used'' (TInt I64 False),
    Plain ''rcu'' st_callback_head,
    Bits '''' (TInt I64 True) 64,
    Bits '''' (TInt I64 True) 64,
    Bits '''' (TInt I64 True) 64,
    Bits '''' (TInt I64 True) 64]"

definition st_nf_conntrack_tuple :: ty where
  "st_nf_conntrack_tuple = TStruct ''nf_conntrack_tuple'' False [
    Plain ''src'' st_nf_conntrack_man,
    Plain ''dst'' (TStruct '''' False [
      Plain ''u3'' un_nf_inet_addr,
      Plain ''u'' (TUnion '''' False [
        Plain ''all'' td___be16,
        Plain ''tcp'' (TStruct '''' False [
          Plain ''port'' td___be16]),
        Plain ''udp'' (TStruct '''' False [
          Plain ''port'' td___be16]),
        Plain ''icmp'' (TStruct '''' False [
          Plain ''type'' td_u_int8_t,
          Plain ''code'' td_u_int8_t]),
        Plain ''dccp'' (TStruct '''' False [
          Plain ''port'' td___be16]),
        Plain ''sctp'' (TStruct '''' False [
          Plain ''port'' td___be16]),
        Plain ''gre'' (TStruct '''' False [
          Plain ''key'' td___be16])]),
      Plain ''protonum'' td_u_int8_t,
      Plain ''__nfct_hash_offsetend'' (TStruct '''' False []),
      Plain ''dir'' td_u_int8_t])]"

definition st_rpc_timer :: ty where
  "st_rpc_timer = TStruct ''rpc_timer'' False [
    Plain ''list'' st_list_head,
    Plain ''expires'' (TInt I64 False),
    Plain ''dwork'' st_delayed_work]"

definition st_nfs_pgio_header :: ty where
  "st_nfs_pgio_header = TStruct ''nfs_pgio_header'' False [
    Plain ''inode'' (TPtr ''struct inode''),
    Plain ''cred'' (TPtr ''struct cred''),
    Plain ''pages'' st_list_head,
    Plain ''req'' (TPtr ''struct nfs_page''),
    Plain ''verf'' st_nfs_writeverf,
    Plain ''rw_mode'' td_fmode_t,
    Plain ''lseg'' (TPtr ''struct pnfs_layout_segment''),
    Plain ''io_start'' td_loff_t,
    Plain ''mds_ops'' (TPtr ''struct rpc_call_ops''),
    Plain ''release'' (TFun ''void (*)(struct nfs_pgio_header *)''),
    Plain ''completion_ops'' (TPtr ''struct nfs_pgio_completion_ops''),
    Plain ''rw_ops'' (TPtr ''struct nfs_rw_ops''),
    Plain ''io_completion'' (TPtr ''struct nfs_io_completion''),
    Plain ''dreq'' (TPtr ''struct nfs_direct_req''),
    Plain ''netfs'' (TPtr ''void''),
    Plain ''retrans'' (TInt I16 False),
    Plain ''pnfs_error'' (TInt I32 True),
    Plain ''error'' (TInt I32 True),
    Plain ''good_bytes'' (TInt I32 False),
    Plain ''flags'' (TInt I64 False),
    Plain ''task'' st_rpc_task,
    Plain ''fattr'' st_nfs_fattr,
    Plain ''args'' st_nfs_pgio_args,
    Plain ''res'' st_nfs_pgio_res,
    Plain ''timestamp'' (TInt I64 False),
    Plain ''pgio_done_cb'' (TFun ''int (*)(struct rpc_task *, struct nfs_pgio_header *)''),
    Plain ''mds_offset'' td___u64,
    Plain ''page_array'' st_nfs_page_array,
    Plain ''ds_clp'' (TPtr ''struct nfs_client''),
    Plain ''ds_commit_idx'' td_u32,
    Plain ''pgio_mirror_idx'' td_u32]"

definition st_palmas_usb :: ty where
  "st_palmas_usb = TStruct ''palmas_usb'' False [
    Plain ''palmas'' (TPtr ''struct palmas''),
    Plain ''dev'' (TPtr ''struct device''),
    Plain ''edev'' (TPtr ''struct extcon_dev''),
    Plain ''id_otg_irq'' (TInt I32 True),
    Plain ''id_irq'' (TInt I32 True),
    Plain ''vbus_otg_irq'' (TInt I32 True),
    Plain ''vbus_irq'' (TInt I32 True),
    Plain ''gpio_id_irq'' (TInt I32 True),
    Plain ''gpio_vbus_irq'' (TInt I32 True),
    Plain ''id_gpiod'' (TPtr ''struct gpio_desc''),
    Plain ''vbus_gpiod'' (TPtr ''struct gpio_desc''),
    Plain ''sw_debounce_jiffies'' (TInt I64 False),
    Plain ''wq_detectid'' st_delayed_work,
    Plain ''linkstat'' (TEnum ''palmas_usb_state'' I32),
    Plain ''wakeup'' (TInt I32 True),
    Plain ''enable_vbus_detection'' td_bool,
    Plain ''enable_id_detection'' td_bool,
    Plain ''enable_gpio_id_detection'' td_bool,
    Plain ''enable_gpio_vbus_detection'' td_bool]"

definition st_posix_cputimer_base :: ty where
  "st_posix_cputimer_base = TStruct ''posix_cputimer_base'' False [
    Plain ''nextevt'' td_u64,
    Plain ''tqhead'' st_timerqueue_head]"

definition st_rchan :: ty where
  "st_rchan = TStruct ''rchan'' False [
    Plain ''version'' td_u32,
    Plain ''subbuf_size'' td_size_t,
    Plain ''n_subbufs'' td_size_t,
    Plain ''alloc_size'' td_size_t,
    Plain ''cb'' (TPtr ''struct rchan_callbacks''),
    Plain ''kref'' st_kref,
    Plain ''private_data'' (TPtr ''void''),
    Plain ''buf'' (TPtr ''struct rchan_buf *''),
    Plain ''is_global'' (TInt I32 True),
    Plain ''list'' st_list_head,
    Plain ''parent'' (TPtr ''struct dentry''),
    Plain ''has_base_filename'' (TInt I32 True),
    Plain ''base_filename'' (TArr (TInt I8 True) 255)]"

definition st_sched_dl_entity :: ty where
  "st_sched_dl_entity = TStruct ''sched_dl_entity'' False [
    Plain ''rb_node'' st_rb_node,
    Plain ''dl_runtime'' td_u64,
    Plain ''dl_deadline'' td_u64,
    Plain ''dl_period'' td_u64,
    Plain ''dl_bw'' td_u64,
    Plain ''dl_density'' td_u64,
    Plain ''runtime'' td_s64,
    Plain ''deadline'' td_u64,
    Plain ''flags'' (TInt I32 False),
    Bits ''dl_throttled'' (TInt I32 False) 1,
    Bits ''dl_yielded'' (TInt I32 False) 1,
    Bits ''dl_non_contending'' (TInt I32 False) 1,
    Bits ''dl_overrun'' (TInt I32 False) 1,
    Bits ''dl_server'' (TInt I32 False) 1,
    Bits ''dl_server_active'' (TInt I32 False) 1,
    Bits ''dl_defer'' (TInt I32 False) 1,
    Bits ''dl_defer_armed'' (TInt I32 False) 1,
    Bits ''dl_defer_running'' (TInt I32 False) 1,
    Bits ''dl_defer_idle'' (TInt I32 False) 1,
    Plain ''dl_timer'' st_hrtimer,
    Plain ''inactive_timer'' st_hrtimer,
    Plain ''rq'' (TPtr ''struct rq''),
    Plain ''server_pick_task'' td_dl_server_pick_f,
    Plain ''pi_se'' (TPtr ''struct sched_dl_entity'')]"

definition st_scsi_cmnd :: ty where
  "st_scsi_cmnd = TStruct ''scsi_cmnd'' False [
    Plain ''device'' (TPtr ''struct scsi_device''),
    Plain ''eh_entry'' st_list_head,
    Plain ''abort_work'' st_delayed_work,
    Plain ''rcu'' st_callback_head,
    Plain ''eh_eflags'' (TInt I32 True),
    Plain ''budget_token'' (TInt I32 True),
    Plain ''jiffies_at_alloc'' (TInt I64 False),
    Plain ''retries'' (TInt I32 True),
    Plain ''allowed'' (TInt I32 True),
    Plain ''prot_op'' (TInt I8 False),
    Plain ''prot_type'' (TInt I8 False),
    Plain ''prot_flags'' (TInt I8 False),
    Plain ''submitter'' (TEnum ''scsi_cmnd_submitter'' I8),
    Plain ''cmd_len'' (TInt I16 False),
    Plain ''sc_data_direction'' (TEnum ''dma_data_direction'' I32),
    Plain ''cmnd'' (TArr (TInt I8 False) 32),
    Plain ''sdb'' st_scsi_data_buffer,
    Plain ''prot_sdb'' (TPtr ''struct scsi_data_buffer''),
    Plain ''underflow'' (TInt I32 False),
    Plain ''transfersize'' (TInt I32 False),
    Plain ''resid_len'' (TInt I32 False),
    Plain ''sense_len'' (TInt I32 False),
    Plain ''sense_buffer'' (TPtr ''unsigned char''),
    Plain ''flags'' (TInt I32 True),
    Plain ''state'' (TInt I64 False),
    Plain ''extra_len'' (TInt I32 False),
    Plain ''host_scribble'' (TPtr ''unsigned char''),
    Plain ''result'' (TInt I32 True)]"

definition st_sctp_ep_common :: ty where
  "st_sctp_ep_common = TStruct ''sctp_ep_common'' False [
    Plain ''type'' (TEnum ''sctp_endpoint_type'' I32),
    Plain ''refcnt'' td_refcount_t,
    Plain ''dead'' td_bool,
    Plain ''sk'' (TPtr ''struct sock''),
    Plain ''net'' (TPtr ''struct net''),
    Plain ''inqueue'' st_sctp_inq,
    Plain ''bind_addr'' st_sctp_bind_addr]"

definition st_sctp_cookie :: ty where
  "st_sctp_cookie = TStruct ''sctp_cookie'' False [
    Plain ''my_vtag'' td___u32,
    Plain ''peer_vtag'' td___u32,
    Plain ''my_ttag'' td___u32,
    Plain ''peer_ttag'' td___u32,
    Plain ''expiration'' td_ktime_t,
    Plain ''sinit_num_ostreams'' td___u16,
    Plain ''sinit_max_instreams'' td___u16,
    Plain ''initial_tsn'' td___u32,
    Plain ''peer_addr'' un_sctp_addr,
    Plain ''my_port'' td___u16,
    Plain ''prsctp_capable'' td___u8,
    Plain ''padding'' td___u8,
    Plain ''adaptation_ind'' td___u32,
    Plain ''auth_random'' (TArr td___u8 36),
    Plain ''auth_hmacs'' (TArr td___u8 10),
    Plain ''auth_chunks'' (TArr td___u8 20),
    Plain ''raw_addr_list_len'' td___u32]"

definition st_sfp_bus :: ty where
  "st_sfp_bus = TStruct ''sfp_bus'' False [
    Plain ''kref'' st_kref,
    Plain ''node'' st_list_head,
    Plain ''fwnode'' (TPtr ''struct fwnode_handle''),
    Plain ''socket_ops'' (TPtr ''struct sfp_socket_ops''),
    Plain ''sfp_dev'' (TPtr ''struct device''),
    Plain ''sfp'' (TPtr ''struct sfp''),
    Plain ''upstream_ops'' (TPtr ''struct sfp_upstream_ops''),
    Plain ''upstream'' (TPtr ''void''),
    Plain ''phydev'' (TPtr ''struct phy_device''),
    Plain ''registered'' td_bool,
    Plain ''started'' td_bool,
    Plain ''caps'' st_sfp_module_caps]"

definition st_tcp_out_options :: ty where
  "st_tcp_out_options = TStruct ''tcp_out_options'' False [
    Plain ''options'' td_u16,
    Plain ''mss'' td_u16,
    Plain ''ws'' td_u8,
    Plain ''num_sack_blocks'' td_u8,
    Bits ''num_accecn_fields'' td_u8 7,
    Bits ''use_synack_ecn_bytes'' td_u8 1,
    Plain ''hash_size'' td_u8,
    Plain ''bpf_opt_len'' td_u8,
    Plain ''hash_location'' (TPtr ''__u8''),
    Plain ''tsval'' td___u32,
    Plain ''tsecr'' td___u32,
    Plain ''fastopen_cookie'' (TPtr ''struct tcp_fastopen_cookie''),
    Plain ''mptcp'' st_mptcp_out_options]"

definition st_tick_sched :: ty where
  "st_tick_sched = TStruct ''tick_sched'' False [
    Plain ''flags'' (TInt I64 False),
    Plain ''stalled_jiffies'' (TInt I32 False),
    Plain ''last_tick_jiffies'' (TInt I64 False),
    Plain ''sched_timer'' st_hrtimer,
    Plain ''last_tick'' td_ktime_t,
    Plain ''next_tick'' td_ktime_t,
    Plain ''idle_jiffies'' (TInt I64 False),
    Plain ''idle_waketime'' td_ktime_t,
    Plain ''got_idle_tick'' (TInt I32 False),
    Plain ''idle_sleeptime_seq'' td_seqcount_t,
    Plain ''idle_entrytime'' td_ktime_t,
    Plain ''last_jiffies'' (TInt I64 False),
    Plain ''timer_expires_base'' td_u64,
    Plain ''timer_expires'' td_u64,
    Plain ''next_timer'' td_u64,
    Plain ''idle_expires'' td_ktime_t,
    Plain ''idle_calls'' (TInt I64 False),
    Plain ''idle_sleeps'' (TInt I64 False),
    Plain ''idle_exittime'' td_ktime_t,
    Plain ''idle_sleeptime'' td_ktime_t,
    Plain ''iowait_sleeptime'' td_ktime_t,
    Plain ''tick_dep_mask'' td_atomic_t,
    Plain ''check_clocks'' (TInt I64 False)]"

definition st_tty_driver :: ty where
  "st_tty_driver = TStruct ''tty_driver'' False [
    Plain ''kref'' st_kref,
    Plain ''cdevs'' (TPtr ''struct cdev *''),
    Plain ''owner'' (TPtr ''struct module''),
    Plain ''driver_name'' (TPtr ''char''),
    Plain ''name'' (TPtr ''char''),
    Plain ''name_base'' (TInt I32 True),
    Plain ''major'' (TInt I32 True),
    Plain ''minor_start'' (TInt I32 True),
    Plain ''num'' (TInt I32 False),
    Plain ''type'' (TEnum ''tty_driver_type'' I32),
    Plain ''subtype'' (TEnum ''tty_driver_subtype'' I32),
    Plain ''init_termios'' st_ktermios,
    Plain ''flags'' (TInt I64 False),
    Plain ''proc_entry'' (TPtr ''struct proc_dir_entry''),
    Plain ''other'' (TPtr ''struct tty_driver''),
    Plain ''ttys'' (TPtr ''struct tty_struct *''),
    Plain ''ports'' (TPtr ''struct tty_port *''),
    Plain ''termios'' (TPtr ''struct ktermios *''),
    Plain ''driver_state'' (TPtr ''void''),
    Plain ''ops'' (TPtr ''struct tty_operations''),
    Plain ''tty_drivers'' st_list_head]"

definition st_ubuf_info_msgzc :: ty where
  "st_ubuf_info_msgzc = TStruct ''ubuf_info_msgzc'' False [
    Plain ''ubuf'' st_ubuf_info,
    Plain '''' (TUnion '''' False [
      Plain '''' (TStruct '''' False [
        Plain ''desc'' (TInt I64 False),
        Plain ''ctx'' (TPtr ''void'')]),
      Plain '''' (TStruct '''' False [
        Plain ''id'' td_u32,
        Plain ''len'' td_u16,
        Bits ''zerocopy'' td_u16 1,
        Plain ''bytelen'' td_u32])]),
    Plain ''mmp'' st_mmpin]"

definition st_urb :: ty where
  "st_urb = TStruct ''urb'' False [
    Plain ''kref'' st_kref,
    Plain ''unlinked'' (TInt I32 True),
    Plain ''hcpriv'' (TPtr ''void''),
    Plain ''use_count'' td_atomic_t,
    Plain ''reject'' td_atomic_t,
    Plain ''urb_list'' st_list_head,
    Plain ''anchor_list'' st_list_head,
    Plain ''anchor'' (TPtr ''struct usb_anchor''),
    Plain ''dev'' (TPtr ''struct usb_device''),
    Plain ''ep'' (TPtr ''struct usb_host_endpoint''),
    Plain ''pipe'' (TInt I32 False),
    Plain ''stream_id'' (TInt I32 False),
    Plain ''status'' (TInt I32 True),
    Plain ''transfer_flags'' (TInt I32 False),
    Plain ''transfer_buffer'' (TPtr ''void''),
    Plain ''transfer_dma'' td_dma_addr_t,
    Plain ''sg'' (TPtr ''struct scatterlist''),
    Plain ''sgt'' (TPtr ''struct sg_table''),
    Plain ''num_mapped_sgs'' (TInt I32 True),
    Plain ''num_sgs'' (TInt I32 True),
    Plain ''transfer_buffer_length'' td_u32,
    Plain ''actual_length'' td_u32,
    Plain ''setup_packet'' (TPtr ''unsigned char''),
    Plain ''setup_dma'' td_dma_addr_t,
    Plain ''start_frame'' (TInt I32 True),
    Plain ''number_of_packets'' (TInt I32 True),
    Plain ''interval'' (TInt I32 True),
    Plain ''error_count'' (TInt I32 True),
    Plain ''context'' (TPtr ''void''),
    Plain ''complete'' td_usb_complete_t,
    Plain ''iso_frame_desc'' (TArr st_usb_iso_packet_descriptor 0)]"

definition st_watch :: ty where
  "st_watch = TStruct ''watch'' False [
    Plain '''' (TUnion '''' False [
      Plain ''rcu'' st_callback_head,
      Plain ''info_id'' td_u32]),
    Plain ''queue'' (TPtr ''struct watch_queue''),
    Plain ''queue_node'' st_hlist_node,
    Plain ''watch_list'' (TPtr ''struct watch_list''),
    Plain ''list_node'' st_hlist_node,
    Plain ''cred'' (TPtr ''struct cred''),
    Plain ''private'' (TPtr ''void''),
    Plain ''id'' td_u64,
    Plain ''usage'' st_kref]"

definition st_xfrm_dst :: ty where
  "st_xfrm_dst = TStruct ''xfrm_dst'' False [
    Plain ''u'' (TUnion '''' False [
      Plain ''dst'' st_dst_entry,
      Plain ''rt'' st_rtable,
      Plain ''rt6'' st_rt6_info]),
    Plain ''route'' (TPtr ''struct dst_entry''),
    Plain ''child'' (TPtr ''struct dst_entry''),
    Plain ''path'' (TPtr ''struct dst_entry''),
    Plain ''pols'' (TArr (TPtr ''struct xfrm_policy'') 2),
    Plain ''num_pols'' (TInt I32 True),
    Plain ''num_xfrms'' (TInt I32 True),
    Plain ''xfrm_genid'' td_u32,
    Plain ''policy_genid'' td_u32,
    Plain ''route_mtu_cached'' td_u32,
    Plain ''child_mtu_cached'' td_u32,
    Plain ''route_cookie'' td_u32,
    Plain ''path_cookie'' td_u32]"

definition st_xfrm_tmpl :: ty where
  "st_xfrm_tmpl = TStruct ''xfrm_tmpl'' False [
    Plain ''id'' st_xfrm_id,
    Plain ''saddr'' td_xfrm_address_t,
    Plain ''encap_family'' (TInt I16 False),
    Plain ''reqid'' td_u32,
    Plain ''mode'' td_u8,
    Plain ''share'' td_u8,
    Plain ''optional'' td_u8,
    Plain ''allalgs'' td_u8,
    Plain ''aalgos'' td_u32,
    Plain ''ealgos'' td_u32,
    Plain ''calgos'' td_u32]"

end
