(* ===== verification/VmlinuxStruct9.thy ===== *)
theory VmlinuxStruct9
  imports VmlinuxStruct8
begin

text \<open>
  Structures and unions of \<open>src/internal/ebpf/vmlinux.h\<close> (aggregates nested 4 deep), in the
  order of the header: \<open>st_<tag>\<close>, \<open>un_<tag>\<close>, and \<open>td_<name>\<close> for an aggregate with a type name.
\<close>

definition td_spinlock_t :: ty where
  "td_spinlock_t = st_spinlock"

definition st_rw_semaphore :: ty where
  "st_rw_semaphore = TStruct ''rw_semaphore'' False [
    Plain ''count'' td_atomic_long_t,
    Plain ''owner'' td_atomic_long_t,
    Plain ''osq'' st_optimistic_spin_queue,
    Plain ''wait_lock'' td_raw_spinlock_t,
    Plain ''wait_list'' st_list_head]"

definition st_mutex :: ty where
  "st_mutex = TStruct ''mutex'' False [
    Plain ''owner'' td_atomic_long_t,
    Plain ''wait_lock'' td_raw_spinlock_t,
    Plain ''osq'' st_optimistic_spin_queue,
    Plain ''wait_list'' st_list_head]"

definition st_swait_queue_head :: ty where
  "st_swait_queue_head = TStruct ''swait_queue_head'' False [
    Plain ''lock'' td_raw_spinlock_t,
    Plain ''task_list'' st_list_head]"

definition st_aa_label :: ty where
  "st_aa_label = TStruct ''aa_label'' False [
    Plain ''count'' st_aa_common_ref,
    Plain ''node'' st_rb_node,
    Plain ''rcu'' st_callback_head,
    Plain ''proxy'' (TPtr ''struct aa_proxy''),
    Plain ''hname'' (TPtr ''char''),
    Plain ''flags'' (TInt I64 True),
    Plain ''secid'' td_u32,
    Plain ''size'' (TInt I32 True),
    Plain ''mediates'' td_u64,
    Plain '''' (TUnion '''' False [
      Plain '''' (TStruct '''' False [
        Plain ''profile'' (TArr (TPtr ''struct aa_profile'') 2),
        Plain '''' (TStruct '''' False [
          Plain ''__empty_rules'' (TStruct '''' False []),
          Plain ''rules'' (TArr (TPtr ''struct aa_ruleset'') 0)])]),
      Plain '''' (TStruct '''' False [
        Plain ''__empty_vec'' (TStruct '''' False []),
        Plain ''vec'' (TArr (TPtr ''struct aa_profile'') 0)])])]"

definition st_rwlock :: ty where
  "st_rwlock = TStruct ''rwlock'' False [
    Plain ''raw_lock'' td_arch_rwlock_t]"

definition st_aa_loaddata :: ty where
  "st_aa_loaddata = TStruct ''aa_loaddata'' False [
    Plain ''count'' st_aa_common_ref,
    Plain ''pcount'' st_kref,
    Plain ''list'' st_list_head,
    Plain ''work'' st_work_struct,
    Plain ''dents'' (TArr (TPtr ''struct dentry'') 6),
    Plain ''ns'' (TPtr ''struct aa_ns''),
    Plain ''name'' (TPtr ''char''),
    Plain ''size'' td_size_t,
    Plain ''compressed_size'' td_size_t,
    Plain ''revision'' (TInt I64 True),
    Plain ''abi'' (TInt I32 True),
    Plain ''hash'' (TPtr ''unsigned char''),
    Plain ''data'' (TPtr ''char'')]"

definition st_ratelimit_state :: ty where
  "st_ratelimit_state = TStruct ''ratelimit_state'' False [
    Plain ''lock'' td_raw_spinlock_t,
    Plain ''interval'' (TInt I32 True),
    Plain ''burst'' (TInt I32 True),
    Plain ''rs_n_left'' td_atomic_t,
    Plain ''missed'' td_atomic_t,
    Plain ''flags'' (TInt I32 False),
    Plain ''begin'' (TInt I64 False)]"

definition st_amd_iommu :: ty where
  "st_amd_iommu = TStruct ''amd_iommu'' False [
    Plain ''list'' st_list_head,
    Plain ''index'' (TInt I32 True),
    Plain ''lock'' td_raw_spinlock_t,
    Plain ''dev'' (TPtr ''struct pci_dev''),
    Plain ''root_pdev'' (TPtr ''struct pci_dev''),
    Plain ''mmio_phys'' td_u64,
    Plain ''mmio_phys_end'' td_u64,
    Plain ''mmio_base'' (TPtr ''u8''),
    Plain ''cap'' td_u32,
    Plain ''acpi_flags'' td_u8,
    Plain ''features'' td_u64,
    Plain ''features2'' td_u64,
    Plain ''devid'' td_u16,
    Plain ''cap_ptr'' td_u16,
    Plain ''pci_seg'' (TPtr ''struct amd_iommu_pci_seg''),
    Plain ''exclusion_start'' td_u64,
    Plain ''exclusion_length'' td_u64,
    Plain ''cmd_buf'' (TPtr ''u8''),
    Plain ''cmd_buf_head'' td_u32,
    Plain ''cmd_buf_tail'' td_u32,
    Plain ''evt_buf'' (TPtr ''u8''),
    Plain ''evt_irq_name'' (TArr (TInt I8 False) 16),
    Plain ''ppr_log'' (TPtr ''u8''),
    Plain ''ppr_irq_name'' (TArr (TInt I8 False) 16),
    Plain ''ga_log'' (TPtr ''u8''),
    Plain ''ga_irq_name'' (TArr (TInt I8 False) 16),
    Plain ''ga_log_tail'' (TPtr ''u8''),
    Plain ''int_enabled'' td_bool,
    Plain ''need_sync'' td_bool,
    Plain ''irtcachedis_enabled'' td_bool,
    Plain ''iommu'' st_iommu_device,
    Plain ''stored_addr_lo'' td_u32,
    Plain ''stored_addr_hi'' td_u32,
    Plain ''stored_l1'' (TArr td_u32 108),
    Plain ''stored_l2'' (TArr td_u32 131),
    Plain ''max_banks'' td_u8,
    Plain ''max_counters'' td_u8,
    Plain ''ir_domain'' (TPtr ''struct irq_domain''),
    Plain ''irte_ops'' (TPtr ''struct amd_irte_ops''),
    Plain ''flags'' td_u32,
    Plain ''cmd_sem'' (TPtr ''u64''),
    Plain ''cmd_sem_val'' td_u64,
    Plain ''cmd_sem_paddr'' td_u64,
    Plain ''iopf_queue'' (TPtr ''struct iopf_queue''),
    Plain ''iopfq_name'' (TArr (TInt I8 False) 32)]"

definition st_percpu_counter :: ty where
  "st_percpu_counter = TStruct ''percpu_counter'' False [
    Plain ''lock'' td_raw_spinlock_t,
    Plain ''count'' td_s64,
    Plain ''list'' st_list_head,
    Plain ''counters'' (TPtr ''s32'')]"

definition st_cdev :: ty where
  "st_cdev = TStruct ''cdev'' False [
    Plain ''kobj'' st_kobject,
    Plain ''owner'' (TPtr ''struct module''),
    Plain ''ops'' (TPtr ''struct file_operations''),
    Plain ''list'' st_list_head,
    Plain ''dev'' td_dev_t,
    Plain ''count'' (TInt I32 False)]"

definition st_cfs_bandwidth :: ty where
  "st_cfs_bandwidth = TStruct ''cfs_bandwidth'' False [
    Plain ''lock'' td_raw_spinlock_t,
    Plain ''period'' td_ktime_t,
    Plain ''quota'' td_u64,
    Plain ''runtime'' td_u64,
    Plain ''burst'' td_u64,
    Plain ''runtime_snap'' td_u64,
    Plain ''hierarchical_quota'' td_s64,
    Plain ''idle'' td_u8,
    Plain ''period_active'' td_u8,
    Plain ''slack_started'' td_u8,
    Plain ''period_timer'' st_hrtimer,
    Plain ''slack_timer'' st_hrtimer,
    Plain ''throttled_cfs_rq'' st_list_head,
    Plain ''nr_periods'' (TInt I32 True),
    Plain ''nr_throttled'' (TInt I32 True),
    Plain ''nr_burst'' (TInt I32 True),
    Plain ''throttled_time'' td_u64,
    Plain ''burst_time'' td_u64]"

definition st_cfs_rq :: ty where
  "st_cfs_rq = TStruct ''cfs_rq'' False [
    Plain ''load'' st_load_weight,
    Plain ''nr_queued'' (TInt I32 False),
    Plain ''h_nr_queued'' (TInt I32 False),
    Plain ''h_nr_runnable'' (TInt I32 False),
    Plain ''h_nr_idle'' (TInt I32 False),
    Plain ''sum_w_vruntime'' td_s64,
    Plain ''sum_weight'' td_u64,
    Plain ''zero_vruntime'' td_u64,
    Plain ''forceidle_seq'' (TInt I32 False),
    Plain ''zero_vruntime_fi'' td_u64,
    Plain ''tasks_timeline'' st_rb_root_cached,
    Plain ''curr'' (TPtr ''struct sched_entity''),
    Plain ''next'' (TPtr ''struct sched_entity''),
    Bits '''' (TInt I64 True) 64,
    Bits '''' (TInt I64 True) 64,
    Bits '''' (TInt I64 True) 64,
    Plain ''avg'' st_sched_avg,
    Plain ''removed'' (TStruct '''' False [
      Plain ''lock'' td_raw_spinlock_t,
      Plain ''nr'' (TInt I32 True),
      Plain ''load_avg'' (TInt I64 False),
      Plain ''util_avg'' (TInt I64 False),
      Plain ''runnable_avg'' (TInt I64 False),
      Bits '''' (TInt I64 True) 64,
      Bits '''' (TInt I64 True) 64,
      Bits '''' (TInt I64 True) 64,
      Bits '''' (TInt I64 True) 64]),
    Plain ''last_update_tg_load_avg'' td_u64,
    Plain ''tg_load_avg_contrib'' (TInt I64 False),
    Plain ''propagate'' (TInt I64 True),
    Plain ''prop_runnable_sum'' (TInt I64 True),
    Plain ''h_load'' (TInt I64 False),
    Plain ''last_h_load_update'' td_u64,
    Plain ''h_load_next'' (TPtr ''struct sched_entity''),
    Plain ''rq'' (TPtr ''struct rq''),
    Plain ''on_list'' (TInt I32 True),
    Plain ''leaf_cfs_rq_list'' st_list_head,
    Plain ''tg'' (TPtr ''struct task_group''),
    Plain ''idle'' (TInt I32 True),
    Plain ''runtime_enabled'' (TInt I32 True),
    Plain ''runtime_remaining'' td_s64,
    Plain ''throttled_pelt_idle'' td_u64,
    Plain ''throttled_clock'' td_u64,
    Plain ''throttled_clock_pelt'' td_u64,
    Plain ''throttled_clock_pelt_time'' td_u64,
    Plain ''throttled_clock_self'' td_u64,
    Plain ''throttled_clock_self_time'' td_u64,
    Bits ''throttled'' td_bool 1,
    Bits ''pelt_clock_throttled'' td_bool 1,
    Plain ''throttle_count'' (TInt I32 True),
    Plain ''throttled_list'' st_list_head,
    Plain ''throttled_csd_list'' st_list_head,
    Plain ''throttled_limbo_list'' st_list_head,
    Bits '''' (TInt I64 True) 64,
    Bits '''' (TInt I64 True) 64,
    Bits '''' (TInt I64 True) 64,
    Bits '''' (TInt I64 True) 64,
    Bits '''' (TInt I64 True) 64]"

definition st_prev_cputime :: ty where
  "st_prev_cputime = TStruct ''prev_cputime'' False [
    Plain ''utime'' td_u64,
    Plain ''stime'' td_u64,
    Plain ''lock'' td_raw_spinlock_t]"

definition st_cgroup_freezer_state :: ty where
  "st_cgroup_freezer_state = TStruct ''cgroup_freezer_state'' False [
    Plain ''freeze'' td_bool,
    Plain ''e_freeze'' td_bool,
    Plain ''nr_frozen_descendants'' (TInt I32 True),
    Plain ''nr_frozen_tasks'' (TInt I32 True),
    Plain ''freeze_seq'' td_seqcount_spinlock_t,
    Plain ''freeze_start_nsec'' td_u64,
    Plain ''frozen_nsec'' td_u64]"

definition td_kernel_siginfo_t :: ty where
  "td_kernel_siginfo_t = st_kernel_siginfo"

definition st_cpudl :: ty where
  "st_cpudl = TStruct ''cpudl'' False [
    Plain ''lock'' td_raw_spinlock_t,
    Plain ''size'' (TInt I32 True),
    Plain ''free_cpus'' td_cpumask_var_t,
    Plain ''elements'' (TPtr ''struct cpudl_item'')]"

definition st_cpuset :: ty where
  "st_cpuset = TStruct ''cpuset'' False [
    Plain ''css'' st_cgroup_subsys_state,
    Plain ''flags'' (TInt I64 False),
    Plain ''cpus_allowed'' td_cpumask_var_t,
    Plain ''mems_allowed'' td_nodemask_t,
    Plain ''effective_cpus'' td_cpumask_var_t,
    Plain ''effective_mems'' td_nodemask_t,
    Plain ''effective_xcpus'' td_cpumask_var_t,
    Plain ''exclusive_cpus'' td_cpumask_var_t,
    Plain ''old_mems_allowed'' td_nodemask_t,
    Plain ''attach_in_progress'' (TInt I32 True),
    Plain ''partition_root_state'' (TInt I32 True),
    Plain ''remote_partition'' td_bool,
    Plain ''nr_deadline_tasks'' (TInt I32 True),
    Plain ''nr_migrate_dl_tasks'' (TInt I32 True),
    Plain ''sum_migrate_dl_bw'' td_u64,
    Plain ''prs_err'' (TEnum ''prs_errcode'' I32),
    Plain ''partition_file'' st_cgroup_file]"

definition st_dl_bw :: ty where
  "st_dl_bw = TStruct ''dl_bw'' False [
    Plain ''lock'' td_raw_spinlock_t,
    Plain ''bw'' td_u64,
    Plain ''total_bw'' td_u64]"

definition st_drm_framebuffer :: ty where
  "st_drm_framebuffer = TStruct ''drm_framebuffer'' False [
    Plain ''dev'' (TPtr ''struct drm_device''),
    Plain ''head'' st_list_head,
    Plain ''base'' st_drm_mode_object,
    Plain ''comm'' (TArr (TInt I8 True) 16),
    Plain ''format'' (TPtr ''struct drm_format_info''),
    Plain ''funcs'' (TPtr ''struct drm_framebuffer_funcs''),
    Plain ''pitches'' (TArr (TInt I32 False) 4),
    Plain ''offsets'' (TArr (TInt I32 False) 4),
    Plain ''modifier'' td_uint64_t,
    Plain ''width'' (TInt I32 False),
    Plain ''height'' (TInt I32 False),
    Plain ''flags'' (TInt I32 True),
    Plain ''internal_flags'' (TInt I32 False),
    Plain ''filp_head'' st_list_head,
    Plain ''obj'' (TArr (TPtr ''struct drm_gem_object'') 4)]"

definition st_drm_encoder :: ty where
  "st_drm_encoder = TStruct ''drm_encoder'' False [
    Plain ''dev'' (TPtr ''struct drm_device''),
    Plain ''head'' st_list_head,
    Plain ''base'' st_drm_mode_object,
    Plain ''name'' (TPtr ''char''),
    Plain ''encoder_type'' (TInt I32 True),
    Plain ''index'' (TInt I32 False),
    Plain ''possible_crtcs'' td_uint32_t,
    Plain ''possible_clones'' td_uint32_t,
    Plain ''crtc'' (TPtr ''struct drm_crtc''),
    Plain ''bridge_chain'' st_list_head,
    Plain ''funcs'' (TPtr ''struct drm_encoder_funcs''),
    Plain ''helper_private'' (TPtr ''struct drm_encoder_helper_funcs''),
    Plain ''debugfs_entry'' (TPtr ''struct dentry'')]"

definition st_rt_mutex_base :: ty where
  "st_rt_mutex_base = TStruct ''rt_mutex_base'' False [
    Plain ''wait_lock'' td_raw_spinlock_t,
    Plain ''waiters'' st_rb_root_cached,
    Plain ''owner'' (TPtr ''struct task_struct'')]"

definition st_dw_pcie_rp :: ty where
  "st_dw_pcie_rp = TStruct ''dw_pcie_rp'' False [
    Bits ''use_imsi_rx'' td_bool 1,
    Bits ''cfg0_io_shared'' td_bool 1,
    Plain ''cfg0_base'' td_u64,
    Plain ''va_cfg0_base'' (TPtr ''void''),
    Plain ''cfg0_size'' td_u32,
    Plain ''io_base'' td_resource_size_t,
    Plain ''io_bus_addr'' td_phys_addr_t,
    Plain ''io_size'' td_u32,
    Plain ''irq'' (TInt I32 True),
    Plain ''ops'' (TPtr ''struct dw_pcie_host_ops''),
    Plain ''msi_irq'' (TArr (TInt I32 True) 8),
    Plain ''irq_domain'' (TPtr ''struct irq_domain''),
    Plain ''msi_data'' td_dma_addr_t,
    Plain ''msi_irq_chip'' (TPtr ''struct irq_chip''),
    Plain ''num_vectors'' td_u32,
    Plain ''irq_mask'' (TArr td_u32 8),
    Plain ''bridge'' (TPtr ''struct pci_host_bridge''),
    Plain ''lock'' td_raw_spinlock_t,
    Plain ''msi_irq_in_use'' (TArr (TInt I64 False) 4),
    Plain ''use_atu_msg'' td_bool,
    Plain ''msg_atu_index'' (TInt I32 True),
    Plain ''msg_res'' (TPtr ''struct resource''),
    Plain ''presets'' st_pci_eq_presets,
    Plain ''cfg'' (TPtr ''struct pci_config_window''),
    Plain ''ecam_enabled'' td_bool,
    Plain ''native_ecam'' td_bool,
    Plain ''skip_l23_ready'' td_bool]"

definition st_edac_device_ctl_info :: ty where
  "st_edac_device_ctl_info = TStruct ''edac_device_ctl_info'' False [
    Plain ''link'' st_list_head,
    Plain ''owner'' (TPtr ''struct module''),
    Plain ''dev_idx'' (TInt I32 True),
    Plain ''log_ue'' (TInt I32 True),
    Plain ''log_ce'' (TInt I32 True),
    Plain ''panic_on_ue'' (TInt I32 True),
    Plain ''poll_msec'' (TInt I32 False),
    Plain ''delay'' (TInt I64 False),
    Plain ''sysfs_attributes'' (TPtr ''struct edac_dev_sysfs_attribute''),
    Plain ''edac_subsys'' (TPtr ''struct bus_type''),
    Plain ''op_state'' (TInt I32 True),
    Plain ''work'' st_delayed_work,
    Plain ''edac_check'' (TFun ''void (*)(struct edac_device_ctl_info *)''),
    Plain ''dev'' (TPtr ''struct device''),
    Plain ''mod_name'' (TPtr ''char''),
    Plain ''ctl_name'' (TPtr ''char''),
    Plain ''dev_name'' (TPtr ''char''),
    Plain ''pvt_info'' (TPtr ''void''),
    Plain ''start_time'' (TInt I64 False),
    Plain ''name'' (TArr (TInt I8 True) 32),
    Plain ''nr_instances'' td_u32,
    Plain ''instances'' (TPtr ''struct edac_device_instance''),
    Plain ''blocks'' (TPtr ''struct edac_device_block''),
    Plain ''counters'' st_edac_device_counter,
    Plain ''kobj'' st_kobject]"

definition st_edac_pci_ctl_info :: ty where
  "st_edac_pci_ctl_info = TStruct ''edac_pci_ctl_info'' False [
    Plain ''link'' st_list_head,
    Plain ''pci_idx'' (TInt I32 True),
    Plain ''op_state'' (TInt I32 True),
    Plain ''work'' st_delayed_work,
    Plain ''edac_check'' (TFun ''void (*)(struct edac_pci_ctl_info *)''),
    Plain ''dev'' (TPtr ''struct device''),
    Plain ''mod_name'' (TPtr ''char''),
    Plain ''ctl_name'' (TPtr ''char''),
    Plain ''dev_name'' (TPtr ''char''),
    Plain ''pvt_info'' (TPtr ''void''),
    Plain ''start_time'' (TInt I64 False),
    Plain ''name'' (TArr (TInt I8 True) 32),
    Plain ''counters'' st_edac_pci_counter,
    Plain ''kobj'' st_kobject]"

definition st_semaphore :: ty where
  "st_semaphore = TStruct ''semaphore'' False [
    Plain ''lock'' td_raw_spinlock_t,
    Plain ''count'' (TInt I32 False),
    Plain ''wait_list'' st_list_head,
    Plain ''last_holder'' (TInt I64 False)]"

definition st_hrtimer_clock_base :: ty where
  "st_hrtimer_clock_base = TStruct ''hrtimer_clock_base'' False [
    Plain ''cpu_base'' (TPtr ''struct hrtimer_cpu_base''),
    Plain ''index'' (TInt I32 False),
    Plain ''clockid'' td_clockid_t,
    Plain ''seq'' td_seqcount_raw_spinlock_t,
    Plain ''running'' (TPtr ''struct hrtimer''),
    Plain ''active'' st_timerqueue_head,
    Plain ''offset'' td_ktime_t,
    Bits '''' (TInt I64 True) 64]"

definition st_hugetlb_cgroup :: ty where
  "st_hugetlb_cgroup = TStruct ''hugetlb_cgroup'' False [
    Plain ''css'' st_cgroup_subsys_state,
    Bits '''' (TInt I64 True) 64,
    Bits '''' (TInt I64 True) 64,
    Bits '''' (TInt I64 True) 64,
    Bits '''' (TInt I64 True) 64,
    Bits '''' (TInt I64 True) 64,
    Bits '''' (TInt I64 True) 64,
    Plain ''hugepage'' (TArr st_page_counter 2),
    Plain ''rsvd_hugepage'' (TArr st_page_counter 2),
    Plain ''events'' (TArr td_atomic_long_t 2),
    Plain ''events_local'' (TArr td_atomic_long_t 2),
    Plain ''events_file'' (TArr st_cgroup_file 2),
    Plain ''events_local_file'' (TArr st_cgroup_file 2),
    Plain ''nodeinfo'' (TArr (TPtr ''struct hugetlb_cgroup_per_node'') 0)]"

definition st_inet_cork_full :: ty where
  "st_inet_cork_full = TStruct ''inet_cork_full'' False [
    Plain ''base'' st_inet_cork,
    Plain ''fl'' st_flowi,
    Plain ''base6'' st_inet6_cork]"

definition st_inet_request_sock :: ty where
  "st_inet_request_sock = TStruct ''inet_request_sock'' False [
    Plain ''req'' st_request_sock,
    Bits ''snd_wscale'' td_u16 4,
    Bits ''rcv_wscale'' td_u16 4,
    Bits ''tstamp_ok'' td_u16 1,
    Bits ''sack_ok'' td_u16 1,
    Bits ''wscale_ok'' td_u16 1,
    Bits ''ecn_ok'' td_u16 1,
    Bits ''acked'' td_u16 1,
    Bits ''no_srccheck'' td_u16 1,
    Bits ''smc_ok'' td_u16 1,
    Plain ''ir_mark'' td_u32,
    Plain '''' (TUnion '''' False [
      Plain ''ireq_opt'' (TPtr ''struct ip_options_rcu''),
      Plain '''' (TStruct '''' False [
        Plain ''ipv6_opt'' (TPtr ''struct ipv6_txoptions''),
        Plain ''pktopts'' (TPtr ''struct sk_buff'')])])]"

definition st_intel_uncore_extra_reg :: ty where
  "st_intel_uncore_extra_reg = TStruct ''intel_uncore_extra_reg'' False [
    Plain ''lock'' td_raw_spinlock_t,
    Plain ''config'' td_u64,
    Plain ''config1'' td_u64,
    Plain ''config2'' td_u64,
    Plain ''ref'' td_atomic_t]"

definition st_io_async_rw :: ty where
  "st_io_async_rw = TStruct ''io_async_rw'' False [
    Plain ''vec'' st_iou_vec,
    Plain ''bytes_done'' td_size_t,
    Plain '''' (TUnion '''' False [
      Plain '''' (TStruct '''' False [
        Plain ''iter'' st_iov_iter,
        Plain ''iter_state'' st_iov_iter_state,
        Plain ''fast_iov'' st_iovec,
        Plain ''buf_group'' (TInt I32 False),
        Plain '''' (TUnion '''' False [
          Plain ''wpq'' st_wait_page_queue,
          Plain '''' (TStruct '''' False [
            Plain ''meta'' st_uio_meta,
            Plain ''meta_state'' st_io_meta_state])])]),
      Plain ''clear'' (TStruct '''' False [
        Plain ''iter'' st_iov_iter,
        Plain ''iter_state'' st_iov_iter_state,
        Plain ''fast_iov'' st_iovec,
        Plain ''buf_group'' (TInt I32 False),
        Plain '''' (TUnion '''' False [
          Plain ''wpq'' st_wait_page_queue,
          Plain '''' (TStruct '''' False [
            Plain ''meta'' st_uio_meta,
            Plain ''meta_state'' st_io_meta_state])])])])]"

definition st_ip6_tnl :: ty where
  "st_ip6_tnl = TStruct ''ip6_tnl'' False [
    Plain ''next'' (TPtr ''struct ip6_tnl''),
    Plain ''dev'' (TPtr ''struct net_device''),
    Plain ''dev_tracker'' td_netdevice_tracker,
    Plain ''net'' (TPtr ''struct net''),
    Plain ''parms'' st___ip6_tnl_parm,
    Plain ''fl'' st_flowi,
    Plain ''dst_cache'' st_dst_cache,
    Plain ''gro_cells'' st_gro_cells,
    Plain ''err_count'' (TInt I32 True),
    Plain ''err_time'' (TInt I64 False),
    Plain ''i_seqno'' td___u32,
    Plain ''o_seqno'' td_atomic_t,
    Plain ''hlen'' (TInt I32 True),
    Plain ''tun_hlen'' (TInt I32 True),
    Plain ''encap_hlen'' (TInt I32 True),
    Plain ''encap'' st_ip_tunnel_encap,
    Plain ''mlink'' (TInt I32 True)]"

definition st_irq_info___2 :: ty where
  "st_irq_info___2 = TStruct ''irq_info___2'' False [
    Plain ''list'' st_list_head,
    Plain ''eoi_list'' st_list_head,
    Plain ''rwork'' st_rcu_work,
    Plain ''refcnt'' (TInt I16 True),
    Plain ''spurious_cnt'' td_u8,
    Plain ''is_accounted'' td_u8,
    Plain ''type'' (TInt I16 True),
    Plain ''mask_reason'' td_u8,
    Plain ''is_active'' td_u8,
    Plain ''irq'' (TInt I32 False),
    Plain ''evtchn'' td_evtchn_port_t,
    Plain ''cpu'' (TInt I16 False),
    Plain ''eoi_cpu'' (TInt I16 False),
    Plain ''irq_epoch'' (TInt I32 False),
    Plain ''eoi_time'' td_u64,
    Plain ''lock'' td_raw_spinlock_t,
    Plain ''is_static'' td_bool,
    Plain ''u'' (TUnion '''' False [
      Plain ''virq'' (TInt I16 False),
      Plain ''ipi'' (TEnum ''ipi_vector'' I32),
      Plain ''pirq'' (TStruct '''' False [
        Plain ''pirq'' (TInt I16 False),
        Plain ''gsi'' (TInt I16 False),
        Plain ''vector'' (TInt I8 False),
        Plain ''flags'' (TInt I8 False),
        Plain ''domid'' td_uint16_t]),
      Plain ''interdomain'' (TPtr ''struct xenbus_device'')])]"

definition st_kfence_metadata :: ty where
  "st_kfence_metadata = TStruct ''kfence_metadata'' False [
    Plain ''list'' st_list_head,
    Plain ''callback_head'' st_callback_head,
    Plain ''lock'' td_raw_spinlock_t,
    Plain ''state'' (TEnum ''kfence_object_state'' I32),
    Plain ''addr'' (TInt I64 False),
    Plain ''size'' td_size_t,
    Plain ''cache'' (TPtr ''struct kmem_cache''),
    Plain ''unprotected_page'' (TInt I64 False),
    Plain ''alloc_track'' st_kfence_track,
    Plain ''free_track'' st_kfence_track,
    Plain ''alloc_stack_hash'' td_u32,
    Plain ''obj_exts'' st_slabobj_ext]"

definition st_kfree_rcu_cpu :: ty where
  "st_kfree_rcu_cpu = TStruct ''kfree_rcu_cpu'' False [
    Plain ''head'' (TPtr ''struct callback_head''),
    Plain ''head_gp_snap'' (TInt I64 False),
    Plain ''head_count'' td_atomic_t,
    Plain ''bulk_head'' (TArr st_list_head 2),
    Plain ''bulk_count'' (TArr td_atomic_t 2),
    Plain ''krw_arr'' (TArr st_kfree_rcu_cpu_work 2),
    Plain ''lock'' td_raw_spinlock_t,
    Plain ''monitor_work'' st_delayed_work,
    Plain ''initialized'' td_bool,
    Plain ''page_cache_work'' st_delayed_work,
    Plain ''backoff_page_cache_fill'' td_atomic_t,
    Plain ''work_in_progress'' td_atomic_t,
    Plain ''hrtimer'' st_hrtimer,
    Plain ''bkvcache'' st_llist_head,
    Plain ''nr_bkv_objs'' (TInt I32 True)]"

definition st_klp_func :: ty where
  "st_klp_func = TStruct ''klp_func'' False [
    Plain ''old_name'' (TPtr ''char''),
    Plain ''new_func'' (TPtr ''void''),
    Plain ''old_sympos'' (TInt I64 False),
    Plain ''old_func'' (TPtr ''void''),
    Plain ''kobj'' st_kobject,
    Plain ''node'' st_list_head,
    Plain ''stack_node'' st_list_head,
    Plain ''old_size'' (TInt I64 False),
    Plain ''new_size'' (TInt I64 False),
    Plain ''nop'' td_bool,
    Plain ''patched'' td_bool,
    Plain ''transition'' td_bool]"

definition st_kmem_cache :: ty where
  "st_kmem_cache = TStruct ''kmem_cache'' False [
    Plain ''cpu_sheaves'' (TPtr ''struct slub_percpu_sheaves''),
    Plain ''flags'' td_slab_flags_t,
    Plain ''min_partial'' (TInt I64 False),
    Plain ''size'' (TInt I32 False),
    Plain ''object_size'' (TInt I32 False),
    Plain ''reciprocal_size'' st_reciprocal_value,
    Plain ''offset'' (TInt I32 False),
    Plain ''sheaf_capacity'' (TInt I32 False),
    Plain ''oo'' st_kmem_cache_order_objects,
    Plain ''min'' st_kmem_cache_order_objects,
    Plain ''allocflags'' td_gfp_t,
    Plain ''refcount'' (TInt I32 True),
    Plain ''ctor'' (TFun ''void (*)(void *)''),
    Plain ''inuse'' (TInt I32 False),
    Plain ''align'' (TInt I32 False),
    Plain ''red_left_pad'' (TInt I32 False),
    Plain ''name'' (TPtr ''char''),
    Plain ''list'' st_list_head,
    Plain ''kobj'' st_kobject,
    Plain ''random'' (TInt I64 False),
    Plain ''remote_node_defrag_ratio'' (TInt I32 False),
    Plain ''random_seq'' (TPtr ''unsigned int''),
    Plain ''useroffset'' (TInt I32 False),
    Plain ''usersize'' (TInt I32 False),
    Plain ''node'' (TArr (TPtr ''struct kmem_cache_node'') 1024)]"

definition st_kthread_worker :: ty where
  "st_kthread_worker = TStruct ''kthread_worker'' False [
    Plain ''flags'' (TInt I32 False),
    Plain ''lock'' td_raw_spinlock_t,
    Plain ''work_list'' st_list_head,
    Plain ''delayed_work_list'' st_list_head,
    Plain ''task'' (TPtr ''struct task_struct''),
    Plain ''current_work'' (TPtr ''struct kthread_work'')]"

definition st_ld_semaphore :: ty where
  "st_ld_semaphore = TStruct ''ld_semaphore'' False [
    Plain ''count'' td_atomic_long_t,
    Plain ''wait_lock'' td_raw_spinlock_t,
    Plain ''wait_readers'' (TInt I32 False),
    Plain ''read_wait'' st_list_head,
    Plain ''write_wait'' st_list_head]"

definition st_memory_failure_cpu :: ty where
  "st_memory_failure_cpu = TStruct ''memory_failure_cpu'' False [
    Plain ''fifo'' (TStruct '''' False [
      Plain '''' (TUnion '''' False [
        Plain ''kfifo'' st___kfifo,
        Plain ''type'' (TPtr ''struct memory_failure_entry''),
        Plain ''const_type'' (TPtr ''struct memory_failure_entry''),
        Plain ''rectype'' (TPtr ''char (*rectype)[0]''),
        Plain ''ptr'' (TPtr ''struct memory_failure_entry''),
        Plain ''ptr_const'' (TPtr ''struct memory_failure_entry'')]),
      Plain ''buf'' (TArr st_memory_failure_entry 16)]),
    Plain ''lock'' td_raw_spinlock_t,
    Plain ''work'' st_work_struct]"

definition st_netdev_rx_queue :: ty where
  "st_netdev_rx_queue = TStruct ''netdev_rx_queue'' False [
    Plain ''xdp_rxq'' st_xdp_rxq_info,
    Plain ''rps_map'' (TPtr ''struct rps_map''),
    Plain ''rps_flow_table'' (TPtr ''struct rps_dev_flow_table''),
    Plain ''kobj'' st_kobject,
    Plain ''groups'' (TPtr ''struct attribute_group *''),
    Plain ''dev'' (TPtr ''struct net_device''),
    Plain ''dev_tracker'' td_netdevice_tracker,
    Plain ''pool'' (TPtr ''struct xsk_buff_pool''),
    Plain ''napi'' (TPtr ''struct napi_struct''),
    Plain ''qcfg'' st_netdev_queue_config,
    Plain ''mp_params'' st_pp_memory_provider_params,
    Bits '''' (TInt I64 True) 64,
    Bits '''' (TInt I64 True) 64,
    Bits '''' (TInt I64 True) 64,
    Bits '''' (TInt I64 True) 64,
    Bits '''' (TInt I64 True) 64,
    Bits '''' (TInt I64 True) 64]"

definition st_nf_conntrack_expect :: ty where
  "st_nf_conntrack_expect = TStruct ''nf_conntrack_expect'' False [
    Plain ''lnode'' st_hlist_node,
    Plain ''hnode'' st_hlist_node,
    Plain ''net'' td_possible_net_t,
    Plain ''tuple'' st_nf_conntrack_tuple,
    Plain ''mask'' st_nf_conntrack_tuple_mask,
    Plain ''zone'' st_nf_conntrack_zone,
    Plain ''use'' td_refcount_t,
    Plain ''flags'' (TInt I32 False),
    Plain ''class'' (TInt I32 False),
    Plain ''expectfn'' (TFun ''void (*)(struct nf_conn *, struct nf_conntrack_expect *)''),
    Plain ''helper'' (TPtr ''struct nf_conntrack_helper''),
    Plain ''master'' (TPtr ''struct nf_conn''),
    Plain ''timeout'' st_timer_list,
    Plain ''saved_addr'' un_nf_inet_addr,
    Plain ''saved_proto'' un_nf_conntrack_man_proto,
    Plain ''dir'' (TEnum ''ip_conntrack_dir'' I32),
    Plain ''rcu'' st_callback_head]"

definition st_ocontext :: ty where
  "st_ocontext = TStruct ''ocontext'' False [
    Plain ''u'' (TUnion '''' False [
      Plain ''name'' (TPtr ''char''),
      Plain ''port'' (TStruct '''' False [
        Plain ''protocol'' td_u8,
        Plain ''low_port'' td_u16,
        Plain ''high_port'' td_u16]),
      Plain ''node'' (TStruct '''' False [
        Plain ''addr'' td_u32,
        Plain ''mask'' td_u32]),
      Plain ''node6'' (TStruct '''' False [
        Plain ''addr'' (TArr td_u32 4),
        Plain ''mask'' (TArr td_u32 4)]),
      Plain ''ibpkey'' (TStruct '''' False [
        Plain ''subnet_prefix'' td_u64,
        Plain ''low_pkey'' td_u16,
        Plain ''high_pkey'' td_u16]),
      Plain ''ibendport'' (TStruct '''' False [
        Plain ''dev_name'' (TPtr ''char''),
        Plain ''port'' td_u8])]),
    Plain ''v'' (TUnion '''' False [
      Plain ''sclass'' td_u32,
      Plain ''behavior'' td_u32]),
    Plain ''context'' (TArr st_context___2 2),
    Plain ''sid'' (TArr td_u32 2),
    Plain ''next'' (TPtr ''struct ocontext'')]"

definition st_posix_cputimers :: ty where
  "st_posix_cputimers = TStruct ''posix_cputimers'' False [
    Plain ''bases'' (TArr st_posix_cputimer_base 3),
    Plain ''timers_active'' (TInt I32 False),
    Plain ''expiry_active'' (TInt I32 False)]"

definition st_rcu_tasks_percpu :: ty where
  "st_rcu_tasks_percpu = TStruct ''rcu_tasks_percpu'' False [
    Plain ''cblist'' st_rcu_segcblist,
    Plain ''lock'' td_raw_spinlock_t,
    Plain ''rtp_jiffies'' (TInt I64 False),
    Plain ''rtp_n_lock_retries'' (TInt I64 False),
    Plain ''lazy_timer'' st_timer_list,
    Plain ''urgent_gp'' (TInt I32 False),
    Plain ''rtp_work'' st_work_struct,
    Plain ''rtp_irq_work'' st_irq_work,
    Plain ''barrier_q_head'' st_callback_head,
    Plain ''rtp_blkd_tasks'' st_list_head,
    Plain ''rtp_exit_list'' st_list_head,
    Plain ''cpu'' (TInt I32 True),
    Plain ''index'' (TInt I32 True),
    Plain ''rtpp'' (TPtr ''struct rcu_tasks'')]"

definition st_scx_dispatch_q :: ty where
  "st_scx_dispatch_q = TStruct ''scx_dispatch_q'' False [
    Plain ''lock'' td_raw_spinlock_t,
    Plain ''first_task'' (TPtr ''struct task_struct''),
    Plain ''list'' st_list_head,
    Plain ''priq'' st_rb_root,
    Plain ''nr'' td_u32,
    Plain ''seq'' td_u32,
    Plain ''id'' td_u64,
    Plain ''hash_node'' st_rhash_head,
    Plain ''free_node'' st_llist_node,
    Plain ''rcu'' st_callback_head]"

definition st_sbitmap_word :: ty where
  "st_sbitmap_word = TStruct ''sbitmap_word'' False [
    Plain ''word'' (TInt I64 False),
    Bits '''' (TInt I64 True) 64,
    Bits '''' (TInt I64 True) 64,
    Bits '''' (TInt I64 True) 64,
    Bits '''' (TInt I64 True) 64,
    Bits '''' (TInt I64 True) 64,
    Bits '''' (TInt I64 True) 64,
    Bits '''' (TInt I64 True) 64,
    Plain ''cleared'' (TInt I64 False),
    Plain ''swap_lock'' td_raw_spinlock_t,
    Bits '''' (TInt I64 True) 64,
    Bits '''' (TInt I64 True) 64,
    Bits '''' (TInt I64 True) 64,
    Bits '''' (TInt I64 True) 64,
    Bits '''' (TInt I64 True) 64,
    Bits '''' (TInt I64 True) 64]"

definition st_sctp_endpoint :: ty where
  "st_sctp_endpoint = TStruct ''sctp_endpoint'' False [
    Plain ''base'' st_sctp_ep_common,
    Plain ''node'' st_hlist_node,
    Plain ''hashent'' (TInt I32 True),
    Plain ''asocs'' st_list_head,
    Plain ''cookie_auth_key'' st_hmac_sha256_key,
    Plain ''sndbuf_policy'' td___u32,
    Plain ''rcvbuf_policy'' td___u32,
    Plain ''auth_hmacs_list'' (TPtr ''struct sctp_hmac_algo_param''),
    Plain ''auth_chunk_list'' (TPtr ''struct sctp_chunks_param''),
    Plain ''endpoint_shared_keys'' st_list_head,
    Plain ''active_key_id'' td___u16,
    Bits ''ecn_enable'' td___u8 1,
    Bits ''auth_enable'' td___u8 1,
    Bits ''intl_enable'' td___u8 1,
    Bits ''prsctp_enable'' td___u8 1,
    Bits ''asconf_enable'' td___u8 1,
    Bits ''reconf_enable'' td___u8 1,
    Plain ''strreset_enable'' td___u8,
    Plain ''rcu'' st_callback_head]"

definition st_sctp_transport :: ty where
  "st_sctp_transport = TStruct ''sctp_transport'' False [
    Plain ''transports'' st_list_head,
    Plain ''node'' st_rhlist_head,
    Plain ''refcnt'' td_refcount_t,
    Bits ''dead'' td___u32 1,
    Bits ''rto_pending'' td___u32 1,
    Bits ''hb_sent'' td___u32 1,
    Bits ''pmtu_pending'' td___u32 1,
    Bits ''dst_pending_confirm'' td___u32 1,
    Bits ''sack_generation'' td___u32 1,
    Plain ''dst_cookie'' td_u32,
    Plain ''fl'' st_flowi,
    Plain ''ipaddr'' un_sctp_addr,
    Plain ''af_specific'' (TPtr ''struct sctp_af''),
    Plain ''asoc'' (TPtr ''struct sctp_association''),
    Plain ''rto'' (TInt I64 False),
    Plain ''rtt'' td___u32,
    Plain ''rttvar'' td___u32,
    Plain ''srtt'' td___u32,
    Plain ''cwnd'' td___u32,
    Plain ''ssthresh'' td___u32,
    Plain ''partial_bytes_acked'' td___u32,
    Plain ''flight_size'' td___u32,
    Plain ''burst_limited'' td___u32,
    Plain ''dst'' (TPtr ''struct dst_entry''),
    Plain ''saddr'' un_sctp_addr,
    Plain ''hbinterval'' (TInt I64 False),
    Plain ''probe_interval'' (TInt I64 False),
    Plain ''sackdelay'' (TInt I64 False),
    Plain ''sackfreq'' td___u32,
    Plain ''mtu_info'' td_atomic_t,
    Plain ''last_time_heard'' td_ktime_t,
    Plain ''last_time_sent'' (TInt I64 False),
    Plain ''last_time_ecne_reduced'' (TInt I64 False),
    Plain ''encap_port'' td___be16,
    Plain ''pathmaxrxt'' td___u16,
    Plain ''flowlabel'' td___u32,
    Plain ''dscp'' td___u8,
    Plain ''pf_retrans'' td___u16,
    Plain ''ps_retrans'' td___u16,
    Plain ''pathmtu'' td___u32,
    Plain ''param_flags'' td___u32,
    Plain ''init_sent_count'' (TInt I32 True),
    Plain ''state'' (TInt I32 True),
    Plain ''error_count'' (TInt I16 False),
    Plain ''T3_rtx_timer'' st_timer_list,
    Plain ''hb_timer'' st_timer_list,
    Plain ''proto_unreach_timer'' st_timer_list,
    Plain ''reconf_timer'' st_timer_list,
    Plain ''probe_timer'' st_timer_list,
    Plain ''transmitted'' st_list_head,
    Plain ''packet'' st_sctp_packet,
    Plain ''send_ready'' st_list_head,
    Plain ''cacc'' (TStruct '''' False [
      Plain ''next_tsn_at_change'' td___u32,
      Plain ''changeover_active'' (TInt I8 True),
      Plain ''cycling_changeover'' (TInt I8 True),
      Plain ''cacc_saw_newack'' (TInt I8 True)]),
    Plain ''pl'' (TStruct '''' False [
      Plain ''pmtu'' td___u16,
      Plain ''probe_size'' td___u16,
      Plain ''probe_high'' td___u16,
      Plain ''probe_count'' td___u8,
      Plain ''state'' td___u8]),
    Plain ''hb_nonce'' td___u64,
    Plain ''rcu'' st_callback_head]"

definition st_srcu_data :: ty where
  "st_srcu_data = TStruct ''srcu_data'' False [
    Plain ''srcu_ctrs'' (TArr st_srcu_ctr 2),
    Plain ''srcu_reader_flavor'' (TInt I32 True),
    Bits '''' (TInt I64 True) 64,
    Bits '''' (TInt I64 True) 64,
    Bits '''' (TInt I64 True) 64,
    Plain ''lock'' td_raw_spinlock_t,
    Plain ''srcu_cblist'' st_rcu_segcblist,
    Plain ''srcu_gp_seq_needed'' (TInt I64 False),
    Plain ''srcu_gp_seq_needed_exp'' (TInt I64 False),
    Plain ''srcu_cblist_invoking'' td_bool,
    Plain ''delay_work'' st_timer_list,
    Plain ''work'' st_work_struct,
    Plain ''srcu_barrier_head'' st_callback_head,
    Plain ''srcu_ec_head'' st_callback_head,
    Plain ''srcu_ec_state'' (TInt I32 True),
    Plain ''mynode'' (TPtr ''struct srcu_node''),
    Plain ''grpmask'' (TInt I64 False),
    Plain ''cpu'' (TInt I32 True),
    Plain ''ssp'' (TPtr ''struct srcu_struct''),
    Bits '''' (TInt I64 True) 64,
    Bits '''' (TInt I64 True) 64,
    Bits '''' (TInt I64 True) 64]"

definition st_task_delay_info :: ty where
  "st_task_delay_info = TStruct ''task_delay_info'' False [
    Plain ''lock'' td_raw_spinlock_t,
    Plain ''blkio_start'' td_u64,
    Plain ''blkio_delay_max'' td_u64,
    Plain ''blkio_delay_min'' td_u64,
    Plain ''blkio_delay'' td_u64,
    Plain ''swapin_start'' td_u64,
    Plain ''swapin_delay_max'' td_u64,
    Plain ''swapin_delay_min'' td_u64,
    Plain ''swapin_delay'' td_u64,
    Plain ''blkio_count'' td_u32,
    Plain ''swapin_count'' td_u32,
    Plain ''freepages_start'' td_u64,
    Plain ''freepages_delay_max'' td_u64,
    Plain ''freepages_delay_min'' td_u64,
    Plain ''freepages_delay'' td_u64,
    Plain ''thrashing_start'' td_u64,
    Plain ''thrashing_delay_max'' td_u64,
    Plain ''thrashing_delay_min'' td_u64,
    Plain ''thrashing_delay'' td_u64,
    Plain ''compact_start'' td_u64,
    Plain ''compact_delay_max'' td_u64,
    Plain ''compact_delay_min'' td_u64,
    Plain ''compact_delay'' td_u64,
    Plain ''wpcopy_start'' td_u64,
    Plain ''wpcopy_delay_max'' td_u64,
    Plain ''wpcopy_delay_min'' td_u64,
    Plain ''wpcopy_delay'' td_u64,
    Plain ''irq_delay_max'' td_u64,
    Plain ''irq_delay_min'' td_u64,
    Plain ''irq_delay'' td_u64,
    Plain ''freepages_count'' td_u32,
    Plain ''thrashing_count'' td_u32,
    Plain ''compact_count'' td_u32,
    Plain ''wpcopy_count'' td_u32,
    Plain ''irq_count'' td_u32,
    Plain ''blkio_delay_max_ts'' st_timespec64,
    Plain ''swapin_delay_max_ts'' st_timespec64,
    Plain ''freepages_delay_max_ts'' st_timespec64,
    Plain ''thrashing_delay_max_ts'' st_timespec64,
    Plain ''compact_delay_max_ts'' st_timespec64,
    Plain ''wpcopy_delay_max_ts'' st_timespec64,
    Plain ''irq_delay_max_ts'' st_timespec64]"

definition st_time_namespace :: ty where
  "st_time_namespace = TStruct ''time_namespace'' False [
    Plain ''user_ns'' (TPtr ''struct user_namespace''),
    Plain ''ucounts'' (TPtr ''struct ucounts''),
    Bits '''' (TInt I64 True) 64,
    Bits '''' (TInt I64 True) 64,
    Bits '''' (TInt I64 True) 64,
    Bits '''' (TInt I64 True) 64,
    Bits '''' (TInt I64 True) 64,
    Bits '''' (TInt I64 True) 64,
    Plain ''ns'' st_ns_common,
    Plain ''offsets'' st_timens_offsets,
    Plain ''vvar_page'' (TPtr ''struct page''),
    Plain ''frozen_offsets'' td_bool,
    Bits '''' (TInt I64 True) 64,
    Bits '''' (TInt I64 True) 64]"

definition st_timer_base :: ty where
  "st_timer_base = TStruct ''timer_base'' False [
    Plain ''lock'' td_raw_spinlock_t,
    Plain ''running_timer'' (TPtr ''struct timer_list''),
    Plain ''clk'' (TInt I64 False),
    Plain ''next_expiry'' (TInt I64 False),
    Plain ''cpu'' (TInt I32 False),
    Plain ''next_expiry_recalc'' td_bool,
    Plain ''is_idle'' td_bool,
    Plain ''timers_pending'' td_bool,
    Plain ''pending_map'' (TArr (TInt I64 False) 9),
    Plain ''vectors'' (TArr st_hlist_head 576),
    Bits '''' (TInt I64 True) 64,
    Bits '''' (TInt I64 True) 64]"

definition st_xdbc_state :: ty where
  "st_xdbc_state = TStruct ''xdbc_state'' False [
    Plain ''vendor'' td_u16,
    Plain ''device'' td_u16,
    Plain ''bus'' td_u32,
    Plain ''dev'' td_u32,
    Plain ''func'' td_u32,
    Plain ''xhci_base'' (TPtr ''void''),
    Plain ''xhci_start'' td_u64,
    Plain ''xhci_length'' td_size_t,
    Plain ''port_number'' (TInt I32 True),
    Plain ''xdbc_reg'' (TPtr ''struct xdbc_regs''),
    Plain ''table_dma'' td_dma_addr_t,
    Plain ''table_base'' (TPtr ''void''),
    Plain ''erst_dma'' td_dma_addr_t,
    Plain ''erst_size'' td_size_t,
    Plain ''erst_base'' (TPtr ''void''),
    Plain ''evt_ring'' st_xdbc_ring,
    Plain ''evt_seg'' st_xdbc_segment,
    Plain ''dbcc_dma'' td_dma_addr_t,
    Plain ''dbcc_size'' td_size_t,
    Plain ''dbcc_base'' (TPtr ''void''),
    Plain ''string_dma'' td_dma_addr_t,
    Plain ''string_size'' td_size_t,
    Plain ''string_base'' (TPtr ''void''),
    Plain ''out_ring'' st_xdbc_ring,
    Plain ''out_seg'' st_xdbc_segment,
    Plain ''out_buf'' (TPtr ''void''),
    Plain ''out_dma'' td_dma_addr_t,
    Plain ''in_ring'' st_xdbc_ring,
    Plain ''in_seg'' st_xdbc_segment,
    Plain ''in_buf'' (TPtr ''void''),
    Plain ''in_dma'' td_dma_addr_t,
    Plain ''flags'' td_u32,
    Plain ''lock'' td_raw_spinlock_t]"

end
