(* ===== verification/VmlinuxStruct10.thy ===== *)
theory VmlinuxStruct10
  imports VmlinuxStruct9
begin

text \<open>
  Structures and unions of \<open>src/internal/ebpf/vmlinux.h\<close> (aggregates nested 5 deep), in the
  order of the header: \<open>st_<tag>\<close>, \<open>un_<tag>\<close>, and \<open>td_<name>\<close> for an aggregate with a type name.
\<close>

definition td_rwlock_t :: ty where
  "td_rwlock_t = st_rwlock"

definition td_mm_context_t :: ty where
  "td_mm_context_t = TStruct '''' False [
    Plain ''ctx_id'' td_u64,
    Plain ''tlb_gen'' td_atomic64_t,
    Plain ''next_trim_cpumask'' (TInt I64 False),
    Plain ''ldt_usr_sem'' st_rw_semaphore,
    Plain ''ldt'' (TPtr ''struct ldt_struct''),
    Plain ''flags'' (TInt I64 False),
    Plain ''lock'' st_mutex,
    Plain ''vdso'' (TPtr ''void''),
    Plain ''vdso_image'' (TPtr ''struct vdso_image''),
    Plain ''perf_rdpmc_allowed'' td_atomic_t,
    Plain ''pkey_allocation_map'' td_u16,
    Plain ''execute_only_pkey'' td_s16,
    Plain ''global_asid'' td_u16,
    Plain ''asid_transition'' td_bool]"

definition st_wait_queue_head :: ty where
  "st_wait_queue_head = TStruct ''wait_queue_head'' False [
    Plain ''lock'' td_spinlock_t,
    Plain ''head'' st_list_head]"

definition st_sk_buff_head :: ty where
  "st_sk_buff_head = TStruct ''sk_buff_head'' False [
    Plain '''' (TUnion '''' False [
      Plain '''' (TStruct '''' False [
        Plain ''next'' (TPtr ''struct sk_buff''),
        Plain ''prev'' (TPtr ''struct sk_buff'')]),
      Plain ''list'' st_sk_buff_list]),
    Plain ''qlen'' td___u32,
    Plain ''lock'' td_spinlock_t]"

definition st_qdisc_skb_head :: ty where
  "st_qdisc_skb_head = TStruct ''qdisc_skb_head'' False [
    Plain ''head'' (TPtr ''struct sk_buff''),
    Plain ''tail'' (TPtr ''struct sk_buff''),
    Plain ''qlen'' td___u32,
    Plain ''lock'' td_spinlock_t]"

definition st_completion :: ty where
  "st_completion = TStruct ''completion'' False [
    Plain ''done'' (TInt I32 False),
    Plain ''wait'' st_swait_queue_head]"

definition st_blk_mq_tag_set :: ty where
  "st_blk_mq_tag_set = TStruct ''blk_mq_tag_set'' False [
    Plain ''ops'' (TPtr ''struct blk_mq_ops''),
    Plain ''map'' (TArr st_blk_mq_queue_map 3),
    Plain ''nr_maps'' (TInt I32 False),
    Plain ''nr_hw_queues'' (TInt I32 False),
    Plain ''queue_depth'' (TInt I32 False),
    Plain ''reserved_tags'' (TInt I32 False),
    Plain ''cmd_size'' (TInt I32 False),
    Plain ''numa_node'' (TInt I32 True),
    Plain ''timeout'' (TInt I32 False),
    Plain ''flags'' (TInt I32 False),
    Plain ''driver_data'' (TPtr ''void''),
    Plain ''tags'' (TPtr ''struct blk_mq_tags *''),
    Plain ''shared_tags'' (TPtr ''struct blk_mq_tags''),
    Plain ''tag_list_lock'' st_mutex,
    Plain ''tag_list'' st_list_head,
    Plain ''srcu'' (TPtr ''struct srcu_struct''),
    Plain ''tags_srcu'' st_srcu_struct,
    Plain ''update_nr_hwq_lock'' st_rw_semaphore]"

definition st_aa_audit_cache :: ty where
  "st_aa_audit_cache = TStruct ''aa_audit_cache'' False [
    Plain ''lock'' td_spinlock_t,
    Plain ''size'' (TInt I32 True),
    Plain ''head'' st_list_head]"

definition st_xarray :: ty where
  "st_xarray = TStruct ''xarray'' False [
    Plain ''xa_lock'' td_spinlock_t,
    Plain ''xa_flags'' td_gfp_t,
    Plain ''xa_head'' (TPtr ''void'')]"

definition st_blocking_notifier_head :: ty where
  "st_blocking_notifier_head = TStruct ''blocking_notifier_head'' False [
    Plain ''rwsem'' st_rw_semaphore,
    Plain ''head'' (TPtr ''struct notifier_block'')]"

definition st_agp_bridge_data :: ty where
  "st_agp_bridge_data = TStruct ''agp_bridge_data'' False [
    Plain ''version'' (TPtr ''struct agp_version''),
    Plain ''driver'' (TPtr ''struct agp_bridge_driver''),
    Plain ''vm_ops'' (TPtr ''struct vm_operations_struct''),
    Plain ''previous_size'' (TPtr ''void''),
    Plain ''current_size'' (TPtr ''void''),
    Plain ''dev_private_data'' (TPtr ''void''),
    Plain ''dev'' (TPtr ''struct pci_dev''),
    Plain ''gatt_table'' (TPtr ''u32''),
    Plain ''gatt_table_real'' (TPtr ''u32''),
    Plain ''scratch_page'' (TInt I64 False),
    Plain ''scratch_page_page'' (TPtr ''struct page''),
    Plain ''scratch_page_dma'' td_dma_addr_t,
    Plain ''gart_bus_addr'' (TInt I64 False),
    Plain ''gatt_bus_addr'' (TInt I64 False),
    Plain ''mode'' td_u32,
    Plain ''key_list'' (TPtr ''long unsigned int''),
    Plain ''current_memory_agp'' td_atomic_t,
    Plain ''agp_in_use'' td_atomic_t,
    Plain ''max_memory_agp'' (TInt I32 True),
    Plain ''aperture_size_idx'' (TInt I32 True),
    Plain ''capndx'' (TInt I32 True),
    Plain ''flags'' (TInt I32 True),
    Plain ''major_version'' (TInt I8 True),
    Plain ''minor_version'' (TInt I8 True),
    Plain ''list'' st_list_head,
    Plain ''apbase_config'' td_u32,
    Plain ''mapped_list'' st_list_head,
    Plain ''mapped_lock'' td_spinlock_t]"

definition st_ata_host :: ty where
  "st_ata_host = TStruct ''ata_host'' False [
    Plain ''lock'' td_spinlock_t,
    Plain ''dev'' (TPtr ''struct device''),
    Plain ''iomap'' (TPtr ''void *''),
    Plain ''n_ports'' (TInt I32 False),
    Plain ''n_tags'' (TInt I32 False),
    Plain ''private_data'' (TPtr ''void''),
    Plain ''ops'' (TPtr ''struct ata_port_operations''),
    Plain ''flags'' (TInt I64 False),
    Plain ''kref'' st_kref,
    Plain ''eh_mutex'' st_mutex,
    Plain ''eh_owner'' (TPtr ''struct task_struct''),
    Plain ''simplex_claimed'' (TPtr ''struct ata_port''),
    Plain ''ports'' (TArr (TPtr ''struct ata_port'') 0)]"

definition st_fprop_local_percpu :: ty where
  "st_fprop_local_percpu = TStruct ''fprop_local_percpu'' False [
    Plain ''events'' st_percpu_counter,
    Plain ''period'' (TInt I32 False),
    Plain ''lock'' td_raw_spinlock_t]"

definition st_file :: ty where
  "st_file = TStruct ''file'' False [
    Plain ''f_lock'' td_spinlock_t,
    Plain ''f_mode'' td_fmode_t,
    Plain ''f_op'' (TPtr ''struct file_operations''),
    Plain ''f_mapping'' (TPtr ''struct address_space''),
    Plain ''private_data'' (TPtr ''void''),
    Plain ''f_inode'' (TPtr ''struct inode''),
    Plain ''f_flags'' (TInt I32 False),
    Plain ''f_iocb_flags'' (TInt I32 False),
    Plain ''f_cred'' (TPtr ''struct cred''),
    Plain ''f_owner'' (TPtr ''struct fown_struct''),
    Plain '''' (TUnion '''' False [
      Plain ''f_path'' st_path,
      Plain ''__f_path'' st_path]),
    Plain '''' (TUnion '''' False [
      Plain ''f_pos_lock'' st_mutex,
      Plain ''f_pipe'' td_u64]),
    Plain ''f_pos'' td_loff_t,
    Plain ''f_security'' (TPtr ''void''),
    Plain ''f_wb_err'' td_errseq_t,
    Plain ''f_sb_err'' td_errseq_t,
    Plain ''f_ep'' (TPtr ''struct hlist_head''),
    Plain '''' (TUnion '''' False [
      Plain ''f_task_work'' st_callback_head,
      Plain ''f_llist'' st_llist_node,
      Plain ''f_ra'' st_file_ra_state,
      Plain ''f_freeptr'' td_freeptr_t]),
    Plain ''f_ref'' td_file_ref_t]"

definition st_seqlock :: ty where
  "st_seqlock = TStruct ''seqlock'' False [
    Plain ''seqcount'' td_seqcount_spinlock_t,
    Plain ''lock'' td_spinlock_t]"

definition st_blk_mq_ctx :: ty where
  "st_blk_mq_ctx = TStruct ''blk_mq_ctx'' False [
    Plain '''' (TStruct '''' False [
      Plain ''lock'' td_spinlock_t,
      Plain ''rq_lists'' (TArr st_list_head 3),
      Bits '''' (TInt I64 True) 64]),
    Plain ''cpu'' (TInt I32 False),
    Plain ''index_hw'' (TArr (TInt I16 False) 3),
    Plain ''hctxs'' (TArr (TPtr ''struct blk_mq_hw_ctx'') 3),
    Plain ''queue'' (TPtr ''struct request_queue''),
    Plain ''ctxs'' (TPtr ''struct blk_mq_ctxs''),
    Plain ''kobj'' st_kobject,
    Bits '''' (TInt I64 True) 64]"

definition st_blk_mq_hw_ctx :: ty where
  "st_blk_mq_hw_ctx = TStruct ''blk_mq_hw_ctx'' False [
    Plain '''' (TStruct '''' False [
      Plain ''lock'' td_spinlock_t,
      Plain ''dispatch'' st_list_head,
      Plain ''state'' (TInt I64 False),
      Bits '''' (TInt I64 True) 64,
      Bits '''' (TInt I64 True) 64,
      Bits '''' (TInt I64 True) 64,
      Bits '''' (TInt I64 True) 64]),
    Plain ''run_work'' st_delayed_work,
    Plain ''cpumask'' td_cpumask_var_t,
    Plain ''next_cpu'' (TInt I32 True),
    Plain ''next_cpu_batch'' (TInt I32 True),
    Plain ''flags'' (TInt I64 False),
    Plain ''sched_data'' (TPtr ''void''),
    Plain ''queue'' (TPtr ''struct request_queue''),
    Plain ''fq'' (TPtr ''struct blk_flush_queue''),
    Plain ''driver_data'' (TPtr ''void''),
    Plain ''ctx_map'' st_sbitmap,
    Plain ''dispatch_from'' (TPtr ''struct blk_mq_ctx''),
    Plain ''dispatch_busy'' (TInt I32 False),
    Plain ''type'' (TInt I16 False),
    Plain ''nr_ctx'' (TInt I16 False),
    Plain ''ctxs'' (TPtr ''struct blk_mq_ctx *''),
    Plain ''dispatch_wait_lock'' td_spinlock_t,
    Plain ''dispatch_wait'' td_wait_queue_entry_t,
    Plain ''wait_index'' td_atomic_t,
    Plain ''tags'' (TPtr ''struct blk_mq_tags''),
    Plain ''sched_tags'' (TPtr ''struct blk_mq_tags''),
    Plain ''numa_node'' (TInt I32 False),
    Plain ''queue_num'' (TInt I32 False),
    Plain ''nr_active'' td_atomic_t,
    Plain ''cpuhp_online'' st_hlist_node,
    Plain ''cpuhp_dead'' st_hlist_node,
    Plain ''kobj'' st_kobject,
    Plain ''debugfs_dir'' (TPtr ''struct dentry''),
    Plain ''sched_debugfs_dir'' (TPtr ''struct dentry''),
    Plain ''hctx_list'' st_list_head,
    Bits '''' (TInt I64 True) 64,
    Bits '''' (TInt I64 True) 64,
    Bits '''' (TInt I64 True) 64,
    Bits '''' (TInt I64 True) 64]"

definition st_blkcg_gq :: ty where
  "st_blkcg_gq = TStruct ''blkcg_gq'' False [
    Plain ''q'' (TPtr ''struct request_queue''),
    Plain ''q_node'' st_list_head,
    Plain ''blkcg_node'' st_hlist_node,
    Plain ''blkcg'' (TPtr ''struct blkcg''),
    Plain ''parent'' (TPtr ''struct blkcg_gq''),
    Plain ''refcnt'' st_percpu_ref,
    Plain ''online'' td_bool,
    Plain ''iostat_cpu'' (TPtr ''struct blkg_iostat_set''),
    Plain ''iostat'' st_blkg_iostat_set,
    Plain ''pd'' (TArr (TPtr ''struct blkg_policy_data'') 6),
    Plain ''async_bio_lock'' td_spinlock_t,
    Plain ''async_bios'' st_bio_list,
    Plain '''' (TUnion '''' False [
      Plain ''async_bio_work'' st_work_struct,
      Plain ''free_work'' st_work_struct]),
    Plain ''use_delay'' td_atomic_t,
    Plain ''delay_nsec'' td_atomic64_t,
    Plain ''delay_start'' td_atomic64_t,
    Plain ''last_delay'' td_u64,
    Plain ''last_use'' (TInt I32 True),
    Plain ''callback_head'' st_callback_head]"

definition st_bpf_map :: ty where
  "st_bpf_map = TStruct ''bpf_map'' False [
    Plain ''sha'' (TArr td_u8 32),
    Plain ''ops'' (TPtr ''struct bpf_map_ops''),
    Plain ''inner_map_meta'' (TPtr ''struct bpf_map''),
    Plain ''security'' (TPtr ''void''),
    Plain ''map_type'' (TEnum ''bpf_map_type'' I32),
    Plain ''key_size'' td_u32,
    Plain ''value_size'' td_u32,
    Plain ''max_entries'' td_u32,
    Plain ''map_extra'' td_u64,
    Plain ''map_flags'' td_u32,
    Plain ''id'' td_u32,
    Plain ''record'' (TPtr ''struct btf_record''),
    Plain ''numa_node'' (TInt I32 True),
    Plain ''btf_key_type_id'' td_u32,
    Plain ''btf_value_type_id'' td_u32,
    Plain ''btf_vmlinux_value_type_id'' td_u32,
    Plain ''btf'' (TPtr ''struct btf''),
    Plain ''objcg'' (TPtr ''struct obj_cgroup''),
    Plain ''name'' (TArr (TInt I8 True) 16),
    Plain ''freeze_mutex'' st_mutex,
    Plain ''refcnt'' td_atomic64_t,
    Plain ''usercnt'' td_atomic64_t,
    Plain '''' (TUnion '''' False [
      Plain ''work'' st_work_struct,
      Plain ''rcu'' st_callback_head]),
    Plain ''writecnt'' td_atomic64_t,
    Plain ''owner_lock'' td_spinlock_t,
    Plain ''owner'' (TPtr ''struct bpf_map_owner''),
    Plain ''bypass_spec_v1'' td_bool,
    Plain ''frozen'' td_bool,
    Plain ''free_after_mult_rcu_gp'' td_bool,
    Plain ''free_after_rcu_gp'' td_bool,
    Plain ''sleepable_refcnt'' td_atomic64_t,
    Plain ''elem_count'' (TPtr ''s64''),
    Plain ''cookie'' td_u64,
    Plain ''excl_prog_sha'' (TPtr ''char'')]"

definition st_bpf_stream :: ty where
  "st_bpf_stream = TStruct ''bpf_stream'' False [
    Plain ''capacity'' td_atomic_t,
    Plain ''log'' st_llist_head,
    Plain ''lock'' st_mutex,
    Plain ''backlog_head'' (TPtr ''struct llist_node''),
    Plain ''backlog_tail'' (TPtr ''struct llist_node'')]"

definition st_bpf_trampoline :: ty where
  "st_bpf_trampoline = TStruct ''bpf_trampoline'' False [
    Plain ''hlist_key'' st_hlist_node,
    Plain ''hlist_ip'' st_hlist_node,
    Plain ''fops'' (TPtr ''struct ftrace_ops''),
    Plain ''mutex'' st_mutex,
    Plain ''refcnt'' td_refcount_t,
    Plain ''flags'' td_u32,
    Plain ''key'' td_u64,
    Plain ''ip'' (TInt I64 False),
    Plain ''func'' (TStruct '''' False [
      Plain ''model'' st_btf_func_model,
      Plain ''addr'' (TPtr ''void''),
      Plain ''ftrace_managed'' td_bool]),
    Plain ''extension_prog'' (TPtr ''struct bpf_prog''),
    Plain ''progs_hlist'' (TArr st_hlist_head 3),
    Plain ''progs_cnt'' (TArr (TInt I32 True) 3),
    Plain ''cur_image'' (TPtr ''struct bpf_tramp_image'')]"

definition st_btt :: ty where
  "st_btt = TStruct ''btt'' False [
    Plain ''btt_disk'' (TPtr ''struct gendisk''),
    Plain ''arena_list'' st_list_head,
    Plain ''debugfs_dir'' (TPtr ''struct dentry''),
    Plain ''nd_btt'' (TPtr ''struct nd_btt''),
    Plain ''nlba'' td_u64,
    Plain ''rawsize'' (TInt I64 False),
    Plain ''lbasize'' td_u32,
    Plain ''sector_size'' td_u32,
    Plain ''nd_region'' (TPtr ''struct nd_region''),
    Plain ''init_lock'' st_mutex,
    Plain ''init_state'' (TInt I32 True),
    Plain ''num_arenas'' (TInt I32 True),
    Plain ''phys_bb'' (TPtr ''struct badblocks'')]"

definition st_buffer_head :: ty where
  "st_buffer_head = TStruct ''buffer_head'' False [
    Plain ''b_state'' (TInt I64 False),
    Plain ''b_this_page'' (TPtr ''struct buffer_head''),
    Plain '''' (TUnion '''' False [
      Plain ''b_page'' (TPtr ''struct page''),
      Plain ''b_folio'' (TPtr ''struct folio'')]),
    Plain ''b_blocknr'' td_sector_t,
    Plain ''b_size'' td_size_t,
    Plain ''b_data'' (TPtr ''char''),
    Plain ''b_bdev'' (TPtr ''struct block_device''),
    Plain ''b_end_io'' (TPtr ''bh_end_io_t''),
    Plain ''b_private'' (TPtr ''void''),
    Plain ''b_assoc_buffers'' st_list_head,
    Plain ''b_assoc_map'' (TPtr ''struct address_space''),
    Plain ''b_count'' td_atomic_t,
    Plain ''b_uptodate_lock'' td_spinlock_t]"

definition st_cma :: ty where
  "st_cma = TStruct ''cma'' False [
    Plain ''count'' (TInt I64 False),
    Plain ''available_count'' (TInt I64 False),
    Plain ''order_per_bit'' (TInt I32 False),
    Plain ''lock'' td_spinlock_t,
    Plain ''alloc_mutex'' st_mutex,
    Plain ''mem_head'' st_hlist_head,
    Plain ''mem_head_lock'' td_spinlock_t,
    Plain ''name'' (TArr (TInt I8 True) 64),
    Plain ''nranges'' (TInt I32 True),
    Plain ''ranges'' (TArr st_cma_memrange 8),
    Plain ''nr_pages_succeeded'' td_atomic64_t,
    Plain ''nr_pages_failed'' td_atomic64_t,
    Plain ''nr_pages_released'' td_atomic64_t,
    Plain ''cma_kobj'' (TPtr ''struct cma_kobject''),
    Plain ''flags'' (TInt I64 False),
    Plain ''nid'' (TInt I32 True)]"

definition st_configfs_buffer :: ty where
  "st_configfs_buffer = TStruct ''configfs_buffer'' False [
    Plain ''count'' td_size_t,
    Plain ''pos'' td_loff_t,
    Plain ''page'' (TPtr ''char''),
    Plain ''ops'' (TPtr ''struct configfs_item_operations''),
    Plain ''mutex'' st_mutex,
    Plain ''needs_read_fill'' (TInt I32 True),
    Plain ''read_in_progress'' td_bool,
    Plain ''write_in_progress'' td_bool,
    Plain ''bin_buffer'' (TPtr ''char''),
    Plain ''bin_buffer_size'' (TInt I32 True),
    Plain ''cb_max_size'' (TInt I32 True),
    Plain ''item'' (TPtr ''struct config_item''),
    Plain ''owner'' (TPtr ''struct module''),
    Plain '''' (TUnion '''' False [
      Plain ''attr'' (TPtr ''struct configfs_attribute''),
      Plain ''bin_attr'' (TPtr ''struct configfs_bin_attribute'')])]"

definition st_policy_dbs_info :: ty where
  "st_policy_dbs_info = TStruct ''policy_dbs_info'' False [
    Plain ''policy'' (TPtr ''struct cpufreq_policy''),
    Plain ''update_mutex'' st_mutex,
    Plain ''last_sample_time'' td_u64,
    Plain ''sample_delay_ns'' td_s64,
    Plain ''work_count'' td_atomic_t,
    Plain ''irq_work'' st_irq_work,
    Plain ''work'' st_work_struct,
    Plain ''dbs_data'' (TPtr ''struct dbs_data''),
    Plain ''list'' st_list_head,
    Plain ''rate_mult'' (TInt I32 False),
    Plain ''idle_periods'' (TInt I32 False),
    Plain ''is_shared'' td_bool,
    Plain ''work_in_progress'' td_bool]"

definition st_tty_bufhead :: ty where
  "st_tty_bufhead = TStruct ''tty_bufhead'' False [
    Plain ''head'' (TPtr ''struct tty_buffer''),
    Plain ''work'' st_work_struct,
    Plain ''lock'' st_mutex,
    Plain ''priority'' td_atomic_t,
    Plain ''sentinel'' st_tty_buffer,
    Plain ''free'' st_llist_head,
    Plain ''mem_used'' td_atomic_t,
    Plain ''mem_limit'' (TInt I32 True),
    Plain ''tail'' (TPtr ''struct tty_buffer'')]"

definition st_lockref :: ty where
  "st_lockref = TStruct ''lockref'' False [
    Plain '''' (TUnion '''' False [
      Plain ''lock_count'' td___u64,
      Plain '''' (TStruct '''' False [
        Plain ''lock'' td_spinlock_t,
        Plain ''count'' (TInt I32 True)])])]"

definition st_devlink_region :: ty where
  "st_devlink_region = TStruct ''devlink_region'' False [
    Plain ''devlink'' (TPtr ''struct devlink''),
    Plain ''port'' (TPtr ''struct devlink_port''),
    Plain ''list'' st_list_head,
    Plain '''' (TUnion '''' False [
      Plain ''ops'' (TPtr ''struct devlink_region_ops''),
      Plain ''port_ops'' (TPtr ''struct devlink_port_region_ops'')]),
    Plain ''snapshot_lock'' st_mutex,
    Plain ''snapshot_list'' st_list_head,
    Plain ''max_snapshots'' td_u32,
    Plain ''cur_snapshots'' td_u32,
    Plain ''size'' td_u64]"

definition st_dio :: ty where
  "st_dio = TStruct ''dio'' False [
    Plain ''flags'' (TInt I32 True),
    Plain ''opf'' td_blk_opf_t,
    Plain ''bio_disk'' (TPtr ''struct gendisk''),
    Plain ''inode'' (TPtr ''struct inode''),
    Plain ''i_size'' td_loff_t,
    Plain ''end_io'' (TPtr ''dio_iodone_t''),
    Plain ''is_pinned'' td_bool,
    Plain ''private'' (TPtr ''void''),
    Plain ''bio_lock'' td_spinlock_t,
    Plain ''page_errors'' (TInt I32 True),
    Plain ''is_async'' (TInt I32 True),
    Plain ''defer_completion'' td_bool,
    Plain ''should_dirty'' td_bool,
    Plain ''io_error'' (TInt I32 True),
    Plain ''refcount'' (TInt I64 False),
    Plain ''bio_list'' (TPtr ''struct bio''),
    Plain ''waiter'' (TPtr ''struct task_struct''),
    Plain ''iocb'' (TPtr ''struct kiocb''),
    Plain ''result'' td_ssize_t,
    Plain '''' (TUnion '''' False [
      Plain ''pages'' (TArr (TPtr ''struct page'') 64),
      Plain ''complete_work'' st_work_struct]),
    Bits '''' (TInt I64 True) 64]"

definition st_dm_stats :: ty where
  "st_dm_stats = TStruct ''dm_stats'' False [
    Plain ''mutex'' st_mutex,
    Plain ''list'' st_list_head,
    Plain ''last'' (TPtr ''struct dm_stats_last_position''),
    Plain ''precise_timestamps'' td_bool]"

definition st_dma_pool :: ty where
  "st_dma_pool = TStruct ''dma_pool'' False [
    Plain ''page_list'' st_list_head,
    Plain ''lock'' td_spinlock_t,
    Plain ''next_block'' (TPtr ''struct dma_block''),
    Plain ''nr_blocks'' td_size_t,
    Plain ''nr_active'' td_size_t,
    Plain ''nr_pages'' td_size_t,
    Plain ''dev'' (TPtr ''struct device''),
    Plain ''size'' (TInt I32 False),
    Plain ''allocation'' (TInt I32 False),
    Plain ''boundary'' (TInt I32 False),
    Plain ''node'' (TInt I32 True),
    Plain ''name'' (TArr (TInt I8 True) 32),
    Plain ''pools'' st_list_head]"

definition st_ww_mutex :: ty where
  "st_ww_mutex = TStruct ''ww_mutex'' False [
    Plain ''base'' st_mutex,
    Plain ''ctx'' (TPtr ''struct ww_acquire_ctx'')]"

definition st_drm_prime_file_private :: ty where
  "st_drm_prime_file_private = TStruct ''drm_prime_file_private'' False [
    Plain ''lock'' st_mutex,
    Plain ''dmabufs'' st_rb_root,
    Plain ''handles'' st_rb_root]"

definition st_drm_gpuvm :: ty where
  "st_drm_gpuvm = TStruct ''drm_gpuvm'' False [
    Plain ''name'' (TPtr ''char''),
    Plain ''flags'' (TEnum ''drm_gpuvm_flags'' I32),
    Plain ''drm'' (TPtr ''struct drm_device''),
    Plain ''mm_start'' td_u64,
    Plain ''mm_range'' td_u64,
    Plain ''rb'' (TStruct '''' False [
      Plain ''tree'' st_rb_root_cached,
      Plain ''list'' st_list_head]),
    Plain ''kref'' st_kref,
    Plain ''kernel_alloc_node'' st_drm_gpuva,
    Plain ''ops'' (TPtr ''struct drm_gpuvm_ops''),
    Plain ''r_obj'' (TPtr ''struct drm_gem_object''),
    Plain ''extobj'' (TStruct '''' False [
      Plain ''list'' st_list_head,
      Plain ''local_list'' (TPtr ''struct list_head''),
      Plain ''lock'' td_spinlock_t]),
    Plain ''evict'' (TStruct '''' False [
      Plain ''list'' st_list_head,
      Plain ''local_list'' (TPtr ''struct list_head''),
      Plain ''lock'' td_spinlock_t]),
    Plain ''bo_defer'' st_llist_head]"

definition st_drm_panel :: ty where
  "st_drm_panel = TStruct ''drm_panel'' False [
    Plain ''dev'' (TPtr ''struct device''),
    Plain ''backlight'' (TPtr ''struct backlight_device''),
    Plain ''funcs'' (TPtr ''struct drm_panel_funcs''),
    Plain ''connector_type'' (TInt I32 True),
    Plain ''list'' st_list_head,
    Plain ''followers'' st_list_head,
    Plain ''follower_lock'' st_mutex,
    Plain ''prepare_prev_first'' td_bool,
    Plain ''prepared'' td_bool,
    Plain ''enabled'' td_bool,
    Plain ''container'' (TPtr ''void''),
    Plain ''refcount'' st_kref]"

definition st_drm_vblank_crtc_timer :: ty where
  "st_drm_vblank_crtc_timer = TStruct ''drm_vblank_crtc_timer'' False [
    Plain ''timer'' st_hrtimer,
    Plain ''interval_lock'' td_spinlock_t,
    Plain ''interval'' td_ktime_t,
    Plain ''crtc'' (TPtr ''struct drm_crtc'')]"

definition st_rt_mutex :: ty where
  "st_rt_mutex = TStruct ''rt_mutex'' False [
    Plain ''rtmutex'' st_rt_mutex_base]"

definition st_dw_pcie :: ty where
  "st_dw_pcie = TStruct ''dw_pcie'' False [
    Plain ''dev'' (TPtr ''struct device''),
    Plain ''dbi_base'' (TPtr ''void''),
    Plain ''dbi_phys_addr'' td_resource_size_t,
    Plain ''dbi_base2'' (TPtr ''void''),
    Plain ''atu_base'' (TPtr ''void''),
    Plain ''elbi_base'' (TPtr ''void''),
    Plain ''atu_phys_addr'' td_resource_size_t,
    Plain ''atu_size'' td_size_t,
    Plain ''parent_bus_offset'' td_resource_size_t,
    Plain ''num_ib_windows'' td_u32,
    Plain ''num_ob_windows'' td_u32,
    Plain ''region_align'' td_u32,
    Plain ''region_limit'' td_u64,
    Plain ''pp'' st_dw_pcie_rp,
    Plain ''ep'' st_dw_pcie_ep,
    Plain ''ops'' (TPtr ''struct dw_pcie_ops''),
    Plain ''version'' td_u32,
    Plain ''type'' td_u32,
    Plain ''caps'' (TInt I64 False),
    Plain ''num_lanes'' (TInt I32 True),
    Plain ''max_link_speed'' (TInt I32 True),
    Plain ''n_fts'' (TArr td_u8 2),
    Plain ''edma'' st_dw_edma_chip,
    Plain ''l1ss_support'' td_bool,
    Plain ''app_clks'' (TArr st_clk_bulk_data 3),
    Plain ''core_clks'' (TArr st_clk_bulk_data 4),
    Plain ''app_rsts'' (TArr st_reset_control_bulk_data 3),
    Plain ''core_rsts'' (TArr st_reset_control_bulk_data 7),
    Plain ''pe_rst'' (TPtr ''struct gpio_desc''),
    Plain ''suspended'' td_bool,
    Plain ''debugfs'' (TPtr ''struct debugfs_info''),
    Plain ''mode'' (TEnum ''dw_pcie_device_mode'' I32),
    Plain ''ptm_vsec_offset'' td_u16,
    Plain ''ptm_debugfs'' (TPtr ''struct pci_ptm_debugfs''),
    Plain ''use_parent_dt_ranges'' td_bool]"

definition st_dwc2_hsotg :: ty where
  "st_dwc2_hsotg = TStruct ''dwc2_hsotg'' False [
    Plain ''dev'' (TPtr ''struct device''),
    Plain ''regs'' (TPtr ''void''),
    Plain ''hw_params'' st_dwc2_hw_params,
    Plain ''params'' st_dwc2_core_params,
    Plain ''op_state'' (TEnum ''usb_otg_state'' I32),
    Plain ''dr_mode'' (TEnum ''usb_dr_mode'' I32),
    Plain ''role_sw'' (TPtr ''struct usb_role_switch''),
    Plain ''role_sw_default_mode'' (TEnum ''usb_dr_mode'' I32),
    Bits ''hcd_enabled'' (TInt I32 False) 1,
    Bits ''gadget_enabled'' (TInt I32 False) 1,
    Bits ''ll_hw_enabled'' (TInt I32 False) 1,
    Bits ''hibernated'' (TInt I32 False) 1,
    Bits ''in_ppd'' (TInt I32 False) 1,
    Plain ''bus_suspended'' td_bool,
    Bits ''reset_phy_on_wake'' (TInt I32 False) 1,
    Bits ''need_phy_for_wake'' (TInt I32 False) 1,
    Bits ''phy_off_for_suspend'' (TInt I32 False) 1,
    Plain ''frame_number'' td_u16,
    Plain ''phy'' (TPtr ''struct phy''),
    Plain ''uphy'' (TPtr ''struct usb_phy''),
    Plain ''plat'' (TPtr ''struct dwc2_hsotg_plat''),
    Plain ''supplies'' (TArr st_regulator_bulk_data 2),
    Plain ''vbus_supply'' (TPtr ''struct regulator''),
    Plain ''usb33d'' (TPtr ''struct regulator''),
    Plain ''lock'' td_spinlock_t,
    Plain ''priv'' (TPtr ''void''),
    Plain ''irq'' (TInt I32 True),
    Plain ''clk'' (TPtr ''struct clk''),
    Plain ''utmi_clk'' (TPtr ''struct clk''),
    Plain ''reset'' (TPtr ''struct reset_control''),
    Plain ''reset_ecc'' (TPtr ''struct reset_control''),
    Bits ''queuing_high_bandwidth'' (TInt I32 False) 1,
    Bits ''srp_success'' (TInt I32 False) 1,
    Plain ''wq_otg'' (TPtr ''struct workqueue_struct''),
    Plain ''wf_otg'' st_work_struct,
    Plain ''wkp_timer'' st_timer_list,
    Plain ''lx_state'' (TEnum ''dwc2_lx_state'' I32),
    Plain ''gr_backup'' st_dwc2_gregs_backup,
    Plain ''dr_backup'' st_dwc2_dregs_backup,
    Plain ''hr_backup'' st_dwc2_hregs_backup,
    Plain ''debug_root'' (TPtr ''struct dentry''),
    Plain ''regset'' (TPtr ''struct debugfs_regset32''),
    Plain ''needs_byte_swap'' td_bool,
    Plain ''flags'' un_dwc2_hcd_internal_flags,
    Plain ''non_periodic_sched_inactive'' st_list_head,
    Plain ''non_periodic_sched_waiting'' st_list_head,
    Plain ''non_periodic_sched_active'' st_list_head,
    Plain ''non_periodic_qh_ptr'' (TPtr ''struct list_head''),
    Plain ''periodic_sched_inactive'' st_list_head,
    Plain ''periodic_sched_ready'' st_list_head,
    Plain ''periodic_sched_assigned'' st_list_head,
    Plain ''periodic_sched_queued'' st_list_head,
    Plain ''split_order'' st_list_head,
    Plain ''periodic_usecs'' td_u16,
    Plain ''hs_periodic_bitmap'' (TArr (TInt I64 False) 13),
    Plain ''periodic_qh_count'' td_u16,
    Plain ''new_connection'' td_bool,
    Plain ''last_frame_num'' td_u16,
    Plain ''free_hc_list'' st_list_head,
    Plain ''periodic_channels'' (TInt I32 True),
    Plain ''non_periodic_channels'' (TInt I32 True),
    Plain ''available_host_channels'' (TInt I32 True),
    Plain ''hc_ptr_array'' (TArr (TPtr ''struct dwc2_host_chan'') 16),
    Plain ''status_buf'' (TPtr ''u8''),
    Plain ''status_buf_dma'' td_dma_addr_t,
    Plain ''start_work'' st_delayed_work,
    Plain ''reset_work'' st_delayed_work,
    Plain ''phy_reset_work'' st_work_struct,
    Plain ''otg_port'' td_u8,
    Plain ''frame_list'' (TPtr ''u32''),
    Plain ''frame_list_dma'' td_dma_addr_t,
    Plain ''frame_list_sz'' td_u32,
    Plain ''desc_gen_cache'' (TPtr ''struct kmem_cache''),
    Plain ''desc_hsisoc_cache'' (TPtr ''struct kmem_cache''),
    Plain ''unaligned_cache'' (TPtr ''struct kmem_cache'')]"

definition st_ecryptfs_crypt_stat :: ty where
  "st_ecryptfs_crypt_stat = TStruct ''ecryptfs_crypt_stat'' False [
    Plain ''flags'' td_u32,
    Plain ''file_version'' (TInt I32 False),
    Plain ''iv_bytes'' td_size_t,
    Plain ''metadata_size'' td_size_t,
    Plain ''extent_size'' td_size_t,
    Plain ''key_size'' td_size_t,
    Plain ''extent_shift'' td_size_t,
    Plain ''extent_mask'' (TInt I32 False),
    Plain ''mount_crypt_stat'' (TPtr ''struct ecryptfs_mount_crypt_stat''),
    Plain ''tfm'' (TPtr ''struct crypto_skcipher''),
    Plain ''cipher'' (TArr (TInt I8 False) 32),
    Plain ''key'' (TArr (TInt I8 False) 64),
    Plain ''root_iv'' (TArr (TInt I8 False) 16),
    Plain ''keysig_list'' st_list_head,
    Plain ''keysig_list_mutex'' st_mutex,
    Plain ''cs_tfm_mutex'' st_mutex,
    Plain ''cs_mutex'' st_mutex]"

definition st_ehci_hcd :: ty where
  "st_ehci_hcd = TStruct ''ehci_hcd'' False [
    Plain ''next_hrtimer_event'' (TEnum ''ehci_hrtimer_event'' I32),
    Plain ''enabled_hrtimer_events'' (TInt I32 False),
    Plain ''hr_timeouts'' (TArr td_ktime_t 12),
    Plain ''hrtimer'' st_hrtimer,
    Plain ''PSS_poll_count'' (TInt I32 True),
    Plain ''ASS_poll_count'' (TInt I32 True),
    Plain ''died_poll_count'' (TInt I32 True),
    Plain ''caps'' (TPtr ''struct ehci_caps''),
    Plain ''regs'' (TPtr ''struct ehci_regs''),
    Plain ''debug'' (TPtr ''struct ehci_dbg_port''),
    Plain ''hcs_params'' td___u32,
    Plain ''lock'' td_spinlock_t,
    Plain ''rh_state'' (TEnum ''ehci_rh_state'' I32),
    Bits ''scanning'' td_bool 1,
    Bits ''need_rescan'' td_bool 1,
    Bits ''intr_unlinking'' td_bool 1,
    Bits ''iaa_in_progress'' td_bool 1,
    Bits ''async_unlinking'' td_bool 1,
    Bits ''shutdown'' td_bool 1,
    Plain ''qh_scan_next'' (TPtr ''struct ehci_qh''),
    Plain ''async'' (TPtr ''struct ehci_qh''),
    Plain ''dummy'' (TPtr ''struct ehci_qh''),
    Plain ''async_unlink'' st_list_head,
    Plain ''async_idle'' st_list_head,
    Plain ''async_unlink_cycle'' (TInt I32 False),
    Plain ''async_count'' (TInt I32 False),
    Plain ''old_current'' td___le32,
    Plain ''old_token'' td___le32,
    Plain ''periodic_size'' (TInt I32 False),
    Plain ''periodic'' (TPtr ''__le32''),
    Plain ''periodic_dma'' td_dma_addr_t,
    Plain ''intr_qh_list'' st_list_head,
    Plain ''i_thresh'' (TInt I32 False),
    Plain ''pshadow'' (TPtr ''union ehci_shadow''),
    Plain ''intr_unlink_wait'' st_list_head,
    Plain ''intr_unlink'' st_list_head,
    Plain ''intr_unlink_wait_cycle'' (TInt I32 False),
    Plain ''intr_unlink_cycle'' (TInt I32 False),
    Plain ''now_frame'' (TInt I32 False),
    Plain ''last_iso_frame'' (TInt I32 False),
    Plain ''intr_count'' (TInt I32 False),
    Plain ''isoc_count'' (TInt I32 False),
    Plain ''periodic_count'' (TInt I32 False),
    Plain ''uframe_periodic_max'' (TInt I32 False),
    Plain ''cached_itd_list'' st_list_head,
    Plain ''last_itd_to_free'' (TPtr ''struct ehci_itd''),
    Plain ''cached_sitd_list'' st_list_head,
    Plain ''last_sitd_to_free'' (TPtr ''struct ehci_sitd''),
    Plain ''reset_done'' (TArr (TInt I64 False) 15),
    Plain ''bus_suspended'' (TInt I64 False),
    Plain ''companion_ports'' (TInt I64 False),
    Plain ''owned_ports'' (TInt I64 False),
    Plain ''port_c_suspend'' (TInt I64 False),
    Plain ''suspended_ports'' (TInt I64 False),
    Plain ''resuming_ports'' (TInt I64 False),
    Plain ''qh_pool'' (TPtr ''struct dma_pool''),
    Plain ''qtd_pool'' (TPtr ''struct dma_pool''),
    Plain ''itd_pool'' (TPtr ''struct dma_pool''),
    Plain ''sitd_pool'' (TPtr ''struct dma_pool''),
    Plain ''random_frame'' (TInt I32 False),
    Plain ''next_statechange'' (TInt I64 False),
    Plain ''last_periodic_enable'' td_ktime_t,
    Plain ''command'' td_u32,
    Bits ''no_selective_suspend'' (TInt I32 False) 1,
    Bits ''has_fsl_port_bug'' (TInt I32 False) 1,
    Bits ''has_fsl_hs_errata'' (TInt I32 False) 1,
    Bits ''has_fsl_susp_errata'' (TInt I32 False) 1,
    Bits ''has_ci_pec_bug'' (TInt I32 False) 1,
    Bits ''big_endian_mmio'' (TInt I32 False) 1,
    Bits ''big_endian_desc'' (TInt I32 False) 1,
    Bits ''big_endian_capbase'' (TInt I32 False) 1,
    Bits ''has_amcc_usb23'' (TInt I32 False) 1,
    Bits ''need_io_watchdog'' (TInt I32 False) 1,
    Bits ''amd_pll_fix'' (TInt I32 False) 1,
    Bits ''use_dummy_qh'' (TInt I32 False) 1,
    Bits ''has_synopsys_hc_bug'' (TInt I32 False) 1,
    Bits ''frame_index_bug'' (TInt I32 False) 1,
    Bits ''need_oc_pp_cycle'' (TInt I32 False) 1,
    Bits ''imx28_write_fix'' (TInt I32 False) 1,
    Bits ''spurious_oc'' (TInt I32 False) 1,
    Bits ''is_aspeed'' (TInt I32 False) 1,
    Bits ''zx_wakeup_clear_needed'' (TInt I32 False) 1,
    Plain ''ohci_hcctrl_reg'' (TPtr ''__le32''),
    Bits ''has_hostpc'' (TInt I32 False) 1,
    Bits ''has_tdi_phy_lpm'' (TInt I32 False) 1,
    Bits ''has_ppcd'' (TInt I32 False) 1,
    Plain ''sbrn'' td_u8,
    Plain ''stats'' st_ehci_stats,
    Plain ''debug_dir'' (TPtr ''struct dentry''),
    Plain ''bandwidth'' (TArr td_u8 64),
    Plain ''tt_budget'' (TArr td_u8 64),
    Plain ''tt_list'' st_list_head,
    Plain ''priv'' (TArr (TInt I64 False) 0)]"

definition st_maple_tree :: ty where
  "st_maple_tree = TStruct ''maple_tree'' False [
    Plain '''' (TUnion '''' False [
      Plain ''ma_lock'' td_spinlock_t]),
    Plain ''ma_flags'' (TInt I32 False),
    Plain ''ma_root'' (TPtr ''void'')]"

definition st_ext4_prealloc_space :: ty where
  "st_ext4_prealloc_space = TStruct ''ext4_prealloc_space'' False [
    Plain ''pa_node'' (TUnion '''' False [
      Plain ''inode_node'' st_rb_node,
      Plain ''lg_list'' st_list_head]),
    Plain ''pa_group_list'' st_list_head,
    Plain ''u'' (TUnion '''' False [
      Plain ''pa_tmp_list'' st_list_head,
      Plain ''pa_rcu'' st_callback_head]),
    Plain ''pa_lock'' td_spinlock_t,
    Plain ''pa_count'' td_atomic_t,
    Plain ''pa_deleted'' (TInt I32 False),
    Plain ''pa_pstart'' td_ext4_fsblk_t,
    Plain ''pa_lstart'' td_ext4_lblk_t,
    Plain ''pa_len'' td_ext4_grpblk_t,
    Plain ''pa_free'' td_ext4_grpblk_t,
    Plain ''pa_type'' (TInt I16 False),
    Plain ''pa_node_lock'' (TUnion '''' False [
      Plain ''inode_lock'' (TPtr ''rwlock_t''),
      Plain ''lg_lock'' (TPtr ''spinlock_t'')]),
    Plain ''pa_inode'' (TPtr ''struct inode'')]"

definition st_fastopen_queue :: ty where
  "st_fastopen_queue = TStruct ''fastopen_queue'' False [
    Plain ''rskq_rst_head'' (TPtr ''struct request_sock''),
    Plain ''rskq_rst_tail'' (TPtr ''struct request_sock''),
    Plain ''lock'' td_spinlock_t,
    Plain ''qlen'' (TInt I32 True),
    Plain ''max_qlen'' (TInt I32 True),
    Plain ''ctx'' (TPtr ''struct tcp_fastopen_context'')]"

definition st_fb_info :: ty where
  "st_fb_info = TStruct ''fb_info'' False [
    Plain ''count'' td_refcount_t,
    Plain ''node'' (TInt I32 True),
    Plain ''flags'' (TInt I32 True),
    Plain ''fbcon_rotate_hint'' (TInt I32 True),
    Plain ''lock'' st_mutex,
    Plain ''mm_lock'' st_mutex,
    Plain ''var'' st_fb_var_screeninfo,
    Plain ''fix'' st_fb_fix_screeninfo,
    Plain ''monspecs'' st_fb_monspecs,
    Plain ''pixmap'' st_fb_pixmap,
    Plain ''sprite'' st_fb_pixmap,
    Plain ''cmap'' st_fb_cmap,
    Plain ''modelist'' st_list_head,
    Plain ''mode'' (TPtr ''struct fb_videomode''),
    Plain ''blank'' (TInt I32 True),
    Plain ''bl_dev'' (TPtr ''struct backlight_device''),
    Plain ''bl_curve_mutex'' st_mutex,
    Plain ''bl_curve'' (TArr td_u8 128),
    Plain ''lcd_dev'' (TPtr ''struct lcd_device''),
    Plain ''deferred_work'' st_delayed_work,
    Plain ''npagerefs'' (TInt I64 False),
    Plain ''pagerefs'' (TPtr ''struct fb_deferred_io_pageref''),
    Plain ''fbdefio'' (TPtr ''struct fb_deferred_io''),
    Plain ''fbdefio_state'' (TPtr ''struct fb_deferred_io_state''),
    Plain ''fbops'' (TPtr ''struct fb_ops''),
    Plain ''device'' (TPtr ''struct device''),
    Plain ''dev'' (TPtr ''struct device''),
    Plain ''tileops'' (TPtr ''struct fb_tile_ops''),
    Plain '''' (TUnion '''' False [
      Plain ''screen_base'' (TPtr ''char''),
      Plain ''screen_buffer'' (TPtr ''char'')]),
    Plain ''screen_size'' (TInt I64 False),
    Plain ''pseudo_palette'' (TPtr ''void''),
    Plain ''state'' td_u32,
    Plain ''fbcon_par'' (TPtr ''struct fbcon_par''),
    Plain ''par'' (TPtr ''void''),
    Plain ''skip_vt_switch'' td_bool,
    Plain ''skip_panic'' td_bool]"

definition st_inet_frag_queue :: ty where
  "st_inet_frag_queue = TStruct ''inet_frag_queue'' False [
    Plain ''node'' st_rhash_head,
    Plain ''key'' (TUnion '''' False [
      Plain ''v4'' st_frag_v4_compare_key,
      Plain ''v6'' st_frag_v6_compare_key]),
    Plain ''timer'' st_timer_list,
    Plain ''lock'' td_spinlock_t,
    Plain ''refcnt'' td_refcount_t,
    Plain ''rb_fragments'' st_rb_root,
    Plain ''fragments_tail'' (TPtr ''struct sk_buff''),
    Plain ''last_run_head'' (TPtr ''struct sk_buff''),
    Plain ''stamp'' td_ktime_t,
    Plain ''len'' (TInt I32 True),
    Plain ''meat'' (TInt I32 True),
    Plain ''tstamp_type'' td_u8,
    Plain ''flags'' td___u8,
    Plain ''max_size'' td_u16,
    Plain ''fqdir'' (TPtr ''struct fqdir''),
    Plain ''rcu'' st_callback_head]"

definition st_fs_context :: ty where
  "st_fs_context = TStruct ''fs_context'' False [
    Plain ''ops'' (TPtr ''struct fs_context_operations''),
    Plain ''uapi_mutex'' st_mutex,
    Plain ''fs_type'' (TPtr ''struct file_system_type''),
    Plain ''fs_private'' (TPtr ''void''),
    Plain ''sget_key'' (TPtr ''void''),
    Plain ''root'' (TPtr ''struct dentry''),
    Plain ''user_ns'' (TPtr ''struct user_namespace''),
    Plain ''net_ns'' (TPtr ''struct net''),
    Plain ''cred'' (TPtr ''struct cred''),
    Plain ''log'' st_p_log,
    Plain ''source'' (TPtr ''char''),
    Plain ''security'' (TPtr ''void''),
    Plain ''s_fs_info'' (TPtr ''void''),
    Plain ''sb_flags'' (TInt I32 False),
    Plain ''sb_flags_mask'' (TInt I32 False),
    Plain ''s_iflags'' (TInt I32 False),
    Bits ''purpose'' (TEnum ''fs_context_purpose'' I32) 8,
    Bits ''phase'' (TEnum ''fs_context_phase'' I32) 8,
    Bits ''need_free'' td_bool 1,
    Bits ''global'' td_bool 1,
    Bits ''oldapi'' td_bool 1,
    Bits ''exclusive'' td_bool 1]"

definition st_trace_iterator :: ty where
  "st_trace_iterator = TStruct ''trace_iterator'' False [
    Plain ''tr'' (TPtr ''struct trace_array''),
    Plain ''trace'' (TPtr ''struct tracer''),
    Plain ''array_buffer'' (TPtr ''struct array_buffer''),
    Plain ''private'' (TPtr ''void''),
    Plain ''cpu_file'' (TInt I32 True),
    Plain ''mutex'' st_mutex,
    Plain ''buffer_iter'' (TPtr ''struct ring_buffer_iter *''),
    Plain ''iter_flags'' (TInt I64 False),
    Plain ''temp'' (TPtr ''void''),
    Plain ''temp_size'' (TInt I32 False),
    Plain ''fmt'' (TPtr ''char''),
    Plain ''fmt_size'' (TInt I32 False),
    Plain ''wait_index'' td_atomic_t,
    Plain ''tmp_seq'' st_trace_seq,
    Plain ''started'' td_cpumask_var_t,
    Plain ''closed'' td_bool,
    Plain ''snapshot'' td_bool,
    Plain ''seq'' st_trace_seq,
    Plain ''ent'' (TPtr ''struct trace_entry''),
    Plain ''lost_events'' (TInt I64 False),
    Plain ''leftover'' (TInt I32 True),
    Plain ''ent_size'' (TInt I32 True),
    Plain ''cpu'' (TInt I32 True),
    Plain ''ts'' td_u64,
    Plain ''pos'' td_loff_t,
    Plain ''idx'' (TInt I64 True)]"

definition st_fuse_pqueue :: ty where
  "st_fuse_pqueue = TStruct ''fuse_pqueue'' False [
    Plain ''connected'' (TInt I32 False),
    Plain ''lock'' td_spinlock_t,
    Plain ''processing'' (TPtr ''struct list_head''),
    Plain ''io'' st_list_head]"

definition st_fuse_io_priv :: ty where
  "st_fuse_io_priv = TStruct ''fuse_io_priv'' False [
    Plain ''refcnt'' st_kref,
    Plain ''async'' (TInt I32 True),
    Plain ''lock'' td_spinlock_t,
    Plain ''reqs'' (TInt I32 False),
    Plain ''bytes'' td_ssize_t,
    Plain ''size'' td_size_t,
    Plain ''offset'' td___u64,
    Plain ''write'' td_bool,
    Plain ''should_dirty'' td_bool,
    Plain ''err'' (TInt I32 True),
    Plain ''iocb'' (TPtr ''struct kiocb''),
    Plain ''done'' (TPtr ''struct completion''),
    Plain ''blocking'' td_bool]"

definition st_giveback_urb_bh :: ty where
  "st_giveback_urb_bh = TStruct ''giveback_urb_bh'' False [
    Plain ''running'' td_bool,
    Plain ''high_prio'' td_bool,
    Plain ''lock'' td_spinlock_t,
    Plain ''head'' st_list_head,
    Plain ''bh'' st_work_struct,
    Plain ''completing_ep'' (TPtr ''struct usb_host_endpoint'')]"

definition st_hid_bpf :: ty where
  "st_hid_bpf = TStruct ''hid_bpf'' False [
    Plain ''device_data'' (TPtr ''u8''),
    Plain ''allocated_data'' td_u32,
    Plain ''destroyed'' td_bool,
    Plain ''rdesc_ops'' (TPtr ''struct hid_bpf_ops''),
    Plain ''prog_list'' st_list_head,
    Plain ''prog_list_lock'' st_mutex,
    Plain ''srcu'' st_srcu_struct]"

definition st_hrtimer_cpu_base :: ty where
  "st_hrtimer_cpu_base = TStruct ''hrtimer_cpu_base'' False [
    Plain ''lock'' td_raw_spinlock_t,
    Plain ''cpu'' (TInt I32 False),
    Plain ''active_bases'' (TInt I32 False),
    Plain ''clock_was_set_seq'' (TInt I32 False),
    Bits ''hres_active'' (TInt I32 False) 1,
    Bits ''in_hrtirq'' (TInt I32 False) 1,
    Bits ''hang_detected'' (TInt I32 False) 1,
    Bits ''softirq_activated'' (TInt I32 False) 1,
    Bits ''online'' (TInt I32 False) 1,
    Plain ''nr_events'' (TInt I32 False),
    Plain ''nr_retries'' (TInt I16 False),
    Plain ''nr_hangs'' (TInt I16 False),
    Plain ''max_hang_time'' (TInt I32 False),
    Plain ''expires_next'' td_ktime_t,
    Plain ''next_timer'' (TPtr ''struct hrtimer''),
    Plain ''softirq_expires_next'' td_ktime_t,
    Plain ''softirq_next_timer'' (TPtr ''struct hrtimer''),
    Plain ''clock_base'' (TArr st_hrtimer_clock_base 8),
    Plain ''csd'' td_call_single_data_t,
    Bits '''' (TInt I64 True) 64,
    Bits '''' (TInt I64 True) 64,
    Bits '''' (TInt I64 True) 64,
    Bits '''' (TInt I64 True) 64]"

definition st_hstate :: ty where
  "st_hstate = TStruct ''hstate'' False [
    Plain ''resize_lock'' st_mutex,
    Plain ''resize_key'' st_lock_class_key,
    Plain ''next_nid_to_alloc'' (TInt I32 True),
    Plain ''next_nid_to_free'' (TInt I32 True),
    Plain ''order'' (TInt I32 False),
    Plain ''demote_order'' (TInt I32 False),
    Plain ''mask'' (TInt I64 False),
    Plain ''max_huge_pages'' (TInt I64 False),
    Plain ''nr_huge_pages'' (TInt I64 False),
    Plain ''free_huge_pages'' (TInt I64 False),
    Plain ''resv_huge_pages'' (TInt I64 False),
    Plain ''surplus_huge_pages'' (TInt I64 False),
    Plain ''nr_overcommit_huge_pages'' (TInt I64 False),
    Plain ''hugepage_activelist'' st_list_head,
    Plain ''hugepage_freelists'' (TArr st_list_head 1024),
    Plain ''max_huge_pages_node'' (TArr (TInt I32 False) 1024),
    Plain ''nr_huge_pages_node'' (TArr (TInt I32 False) 1024),
    Plain ''free_huge_pages_node'' (TArr (TInt I32 False) 1024),
    Plain ''surplus_huge_pages_node'' (TArr (TInt I32 False) 1024),
    Plain ''name'' (TArr (TInt I8 True) 32)]"

definition st_virt_dma_chan :: ty where
  "st_virt_dma_chan = TStruct ''virt_dma_chan'' False [
    Plain ''chan'' st_dma_chan,
    Plain ''task'' st_tasklet_struct,
    Plain ''desc_free'' (TFun ''void (*)(struct virt_dma_desc *)''),
    Plain ''lock'' td_spinlock_t,
    Plain ''desc_allocated'' st_list_head,
    Plain ''desc_submitted'' st_list_head,
    Plain ''desc_issued'' st_list_head,
    Plain ''desc_completed'' st_list_head,
    Plain ''desc_terminated'' st_list_head,
    Plain ''cyclic'' (TPtr ''struct virt_dma_desc'')]"

definition st_hte_ts_info :: ty where
  "st_hte_ts_info = TStruct ''hte_ts_info'' False [
    Plain ''xlated_id'' td_u32,
    Plain ''flags'' (TInt I64 False),
    Plain ''hte_cb_flags'' (TInt I64 False),
    Plain ''seq'' td_u64,
    Plain ''line_name'' (TPtr ''char''),
    Plain ''free_attr_name'' td_bool,
    Plain ''cb'' td_hte_ts_cb_t,
    Plain ''tcb'' td_hte_ts_sec_cb_t,
    Plain ''dropped_ts'' td_atomic_t,
    Plain ''slock'' td_spinlock_t,
    Plain ''cb_work'' st_work_struct,
    Plain ''req_mlock'' st_mutex,
    Plain ''ts_dbg_root'' (TPtr ''struct dentry''),
    Plain ''gdev'' (TPtr ''struct hte_device''),
    Plain ''cl_data'' (TPtr ''void'')]"

definition st_in_device :: ty where
  "st_in_device = TStruct ''in_device'' False [
    Plain ''dev'' (TPtr ''struct net_device''),
    Plain ''dev_tracker'' td_netdevice_tracker,
    Plain ''refcnt'' td_refcount_t,
    Plain ''dead'' (TInt I32 True),
    Plain ''ifa_list'' (TPtr ''struct in_ifaddr''),
    Plain ''mc_list'' (TPtr ''struct ip_mc_list''),
    Plain ''mc_hash'' (TPtr ''struct ip_mc_list *''),
    Plain ''mc_count'' (TInt I32 True),
    Plain ''mc_tomb_lock'' td_spinlock_t,
    Plain ''mc_tomb'' (TPtr ''struct ip_mc_list''),
    Plain ''mr_v1_seen'' (TInt I64 False),
    Plain ''mr_v2_seen'' (TInt I64 False),
    Plain ''mr_qi'' (TInt I64 False),
    Plain ''mr_qri'' (TInt I64 False),
    Plain ''mr_qrv'' (TInt I8 False),
    Plain ''mr_gq_running'' (TInt I8 False),
    Plain ''mr_maxdelay'' td_u32,
    Plain ''mr_ifc_count'' td_u32,
    Plain ''mr_gq_timer'' st_timer_list,
    Plain ''mr_ifc_timer'' st_timer_list,
    Plain ''arp_parms'' (TPtr ''struct neigh_parms''),
    Plain ''cnf'' st_ipv4_devconf,
    Plain ''callback_head'' st_callback_head]"

definition st_inet6_ifaddr :: ty where
  "st_inet6_ifaddr = TStruct ''inet6_ifaddr'' False [
    Plain ''addr'' st_in6_addr,
    Plain ''prefix_len'' td___u32,
    Plain ''rt_priority'' td___u32,
    Plain ''valid_lft'' td___u32,
    Plain ''prefered_lft'' td___u32,
    Plain ''refcnt'' td_refcount_t,
    Plain ''lock'' td_spinlock_t,
    Plain ''state'' (TInt I32 True),
    Plain ''flags'' td___u32,
    Plain ''dad_probes'' td___u8,
    Plain ''stable_privacy_retry'' td___u8,
    Plain ''scope'' td___u16,
    Plain ''dad_nonce'' td___u64,
    Plain ''cstamp'' (TInt I64 False),
    Plain ''tstamp'' (TInt I64 False),
    Plain ''dad_work'' st_delayed_work,
    Plain ''idev'' (TPtr ''struct inet6_dev''),
    Plain ''rt'' (TPtr ''struct fib6_info''),
    Plain ''addr_lst'' st_hlist_node,
    Plain ''if_list'' st_list_head,
    Plain ''if_list_aux'' st_list_head,
    Plain ''tmp_list'' st_list_head,
    Plain ''ifpub'' (TPtr ''struct inet6_ifaddr''),
    Plain ''regen_count'' (TInt I32 True),
    Plain ''tokenized'' td_bool,
    Plain ''ifa_proto'' td_u8,
    Plain ''rcu'' st_callback_head,
    Plain ''peer_addr'' st_in6_addr]"

definition st_intel_uncore_box :: ty where
  "st_intel_uncore_box = TStruct ''intel_uncore_box'' False [
    Plain ''dieid'' (TInt I32 True),
    Plain ''n_active'' (TInt I32 True),
    Plain ''n_events'' (TInt I32 True),
    Plain ''cpu'' (TInt I32 True),
    Plain ''flags'' (TInt I64 False),
    Plain ''refcnt'' td_atomic_t,
    Plain ''events'' (TArr (TPtr ''struct perf_event'') 10),
    Plain ''event_list'' (TArr (TPtr ''struct perf_event'') 10),
    Plain ''event_constraint'' (TArr (TPtr ''struct event_constraint'') 10),
    Plain ''active_mask'' (TArr (TInt I64 False) 1),
    Plain ''tags'' (TArr td_u64 10),
    Plain ''pci_dev'' (TPtr ''struct pci_dev''),
    Plain ''pmu'' (TPtr ''struct intel_uncore_pmu''),
    Plain ''hrtimer_duration'' td_u64,
    Plain ''hrtimer'' st_hrtimer,
    Plain ''list'' st_list_head,
    Plain ''active_list'' st_list_head,
    Plain ''io_addr'' (TPtr ''void''),
    Plain ''shared_regs'' (TArr st_intel_uncore_extra_reg 0)]"

definition st_io_tlb_mem :: ty where
  "st_io_tlb_mem = TStruct ''io_tlb_mem'' False [
    Plain ''defpool'' st_io_tlb_pool,
    Plain ''nslabs'' (TInt I64 False),
    Plain ''debugfs'' (TPtr ''struct dentry''),
    Plain ''force_bounce'' td_bool,
    Plain ''for_alloc'' td_bool,
    Plain ''can_grow'' td_bool,
    Plain ''phys_limit'' td_u64,
    Plain ''lock'' td_spinlock_t,
    Plain ''pools'' st_list_head,
    Plain ''dyn_alloc'' st_work_struct,
    Plain ''total_used'' td_atomic_long_t,
    Plain ''used_hiwater'' td_atomic_long_t,
    Plain ''transient_nslabs'' td_atomic_long_t]"

definition st_io_zcrx_area :: ty where
  "st_io_zcrx_area = TStruct ''io_zcrx_area'' False [
    Plain ''nia'' st_net_iov_area,
    Plain ''ifq'' (TPtr ''struct io_zcrx_ifq''),
    Plain ''user_refs'' (TPtr ''atomic_t''),
    Plain ''is_mapped'' td_bool,
    Plain ''area_id'' td_u16,
    Bits '''' (TInt I64 True) 64,
    Bits '''' (TInt I64 True) 64,
    Plain ''freelist_lock'' td_spinlock_t,
    Plain ''free_count'' td_u32,
    Plain ''freelist'' (TPtr ''u32''),
    Plain ''mem'' st_io_zcrx_mem,
    Bits '''' (TInt I64 True) 64,
    Bits '''' (TInt I64 True) 64,
    Bits '''' (TInt I64 True) 64,
    Bits '''' (TInt I64 True) 64]"

definition st_io_zcrx_ifq :: ty where
  "st_io_zcrx_ifq = TStruct ''io_zcrx_ifq'' False [
    Plain ''area'' (TPtr ''struct io_zcrx_area''),
    Plain ''niov_shift'' (TInt I32 False),
    Plain ''user'' (TPtr ''struct user_struct''),
    Plain ''mm_account'' (TPtr ''struct mm_struct''),
    Bits '''' (TInt I64 True) 64,
    Bits '''' (TInt I64 True) 64,
    Bits '''' (TInt I64 True) 64,
    Bits '''' (TInt I64 True) 64,
    Plain ''rq_lock'' td_spinlock_t,
    Plain ''rq_ring'' (TPtr ''struct io_uring''),
    Plain ''rqes'' (TPtr ''struct io_uring_zcrx_rqe''),
    Plain ''cached_rq_head'' td_u32,
    Plain ''rq_entries'' td_u32,
    Plain ''if_rxq'' td_u32,
    Plain ''dev'' (TPtr ''struct device''),
    Plain ''netdev'' (TPtr ''struct net_device''),
    Plain ''netdev_tracker'' td_netdevice_tracker,
    Plain ''refs'' td_refcount_t,
    Plain ''user_refs'' td_refcount_t,
    Plain ''pp_lock'' st_mutex,
    Plain ''region'' st_io_mapped_region,
    Bits '''' (TInt I64 True) 64]"

definition st_ioc :: ty where
  "st_ioc = TStruct ''ioc'' False [
    Plain ''rqos'' st_rq_qos,
    Plain ''enabled'' td_bool,
    Plain ''params'' st_ioc_params,
    Plain ''margins'' st_ioc_margins,
    Plain ''period_us'' td_u32,
    Plain ''timer_slack_ns'' td_u32,
    Plain ''vrate_min'' td_u64,
    Plain ''vrate_max'' td_u64,
    Plain ''lock'' td_spinlock_t,
    Plain ''timer'' st_timer_list,
    Plain ''active_iocgs'' st_list_head,
    Plain ''pcpu_stat'' (TPtr ''struct ioc_pcpu_stat''),
    Plain ''running'' (TEnum ''ioc_running'' I32),
    Plain ''vtime_rate'' td_atomic64_t,
    Plain ''vtime_base_rate'' td_u64,
    Plain ''vtime_err'' td_s64,
    Plain ''period_seqcount'' td_seqcount_spinlock_t,
    Plain ''period_at'' td_u64,
    Plain ''period_at_vtime'' td_u64,
    Plain ''cur_period'' td_atomic64_t,
    Plain ''busy_level'' (TInt I32 True),
    Plain ''weights_updated'' td_bool,
    Plain ''hweight_gen'' td_atomic_t,
    Plain ''dfgv_period_at'' td_u64,
    Plain ''dfgv_period_rem'' td_u64,
    Plain ''dfgv_usage_us_sum'' td_u64,
    Plain ''autop_too_fast_at'' td_u64,
    Plain ''autop_too_slow_at'' td_u64,
    Plain ''autop_idx'' (TInt I32 True),
    Bits ''user_qos_params'' td_bool 1,
    Bits ''user_cost_model'' td_bool 1]"

definition st_iommu_dev_data :: ty where
  "st_iommu_dev_data = TStruct ''iommu_dev_data'' False [
    Plain ''mutex'' st_mutex,
    Plain ''dte_lock'' td_spinlock_t,
    Plain ''list'' st_list_head,
    Plain ''dev_data_list'' st_llist_node,
    Plain ''domain'' (TPtr ''struct protection_domain''),
    Plain ''gcr3_info'' st_gcr3_tbl_info,
    Plain ''dev'' (TPtr ''struct device''),
    Plain ''devid'' td_u16,
    Plain ''max_irqs'' (TInt I32 False),
    Plain ''max_pasids'' td_u32,
    Plain ''flags'' td_u32,
    Plain ''ats_qdep'' (TInt I32 True),
    Bits ''ats_enabled'' td_u8 1,
    Bits ''pri_enabled'' td_u8 1,
    Bits ''pasid_enabled'' td_u8 1,
    Bits ''pri_tlp'' td_u8 1,
    Bits ''ppr'' td_u8 1,
    Plain ''use_vapic'' td_bool,
    Plain ''defer_attach'' td_bool,
    Plain ''rs'' st_ratelimit_state]"

definition st_ip_mc_list :: ty where
  "st_ip_mc_list = TStruct ''ip_mc_list'' False [
    Plain ''interface'' (TPtr ''struct in_device''),
    Plain ''multiaddr'' td___be32,
    Plain ''sfmode'' (TInt I32 False),
    Plain ''sources'' (TPtr ''struct ip_sf_list''),
    Plain ''tomb'' (TPtr ''struct ip_sf_list''),
    Plain ''sfcount'' (TArr (TInt I64 False) 2),
    Plain '''' (TUnion '''' False [
      Plain ''next'' (TPtr ''struct ip_mc_list''),
      Plain ''next_rcu'' (TPtr ''struct ip_mc_list'')]),
    Plain ''next_hash'' (TPtr ''struct ip_mc_list''),
    Plain ''timer'' st_timer_list,
    Plain ''users'' (TInt I32 True),
    Plain ''refcnt'' td_refcount_t,
    Plain ''lock'' td_spinlock_t,
    Plain ''tm_running'' (TInt I8 True),
    Plain ''reporter'' (TInt I8 True),
    Plain ''unsolicit_count'' (TInt I8 True),
    Plain ''loaded'' (TInt I8 True),
    Plain ''gsquery'' (TInt I8 False),
    Plain ''crcount'' (TInt I8 False),
    Plain ''mca_cstamp'' (TInt I64 False),
    Plain ''mca_tstamp'' (TInt I64 False),
    Plain ''rcu'' st_callback_head]"

definition st_journal_head :: ty where
  "st_journal_head = TStruct ''journal_head'' False [
    Plain ''b_bh'' (TPtr ''struct buffer_head''),
    Plain ''b_state_lock'' td_spinlock_t,
    Plain ''b_jcount'' (TInt I32 True),
    Plain ''b_jlist'' (TInt I32 False),
    Plain ''b_modified'' (TInt I32 False),
    Plain ''b_frozen_data'' (TPtr ''char''),
    Plain ''b_committed_data'' (TPtr ''char''),
    Plain ''b_transaction'' (TPtr ''transaction_t''),
    Plain ''b_next_transaction'' (TPtr ''transaction_t''),
    Plain ''b_tnext'' (TPtr ''struct journal_head''),
    Plain ''b_tprev'' (TPtr ''struct journal_head''),
    Plain ''b_cp_transaction'' (TPtr ''transaction_t''),
    Plain ''b_cpnext'' (TPtr ''struct journal_head''),
    Plain ''b_cpprev'' (TPtr ''struct journal_head''),
    Plain ''b_triggers'' (TPtr ''struct jbd2_buffer_trigger_type''),
    Plain ''b_frozen_triggers'' (TPtr ''struct jbd2_buffer_trigger_type'')]"

definition st_sigqueue :: ty where
  "st_sigqueue = TStruct ''sigqueue'' False [
    Plain ''list'' st_list_head,
    Plain ''flags'' (TInt I32 True),
    Plain ''info'' td_kernel_siginfo_t,
    Plain ''ucounts'' (TPtr ''struct ucounts'')]"

definition st_led_trigger :: ty where
  "st_led_trigger = TStruct ''led_trigger'' False [
    Plain ''name'' (TPtr ''char''),
    Plain ''activate'' (TFun ''int (*)(struct led_classdev *)''),
    Plain ''deactivate'' (TFun ''void (*)(struct led_classdev *)''),
    Plain ''brightness'' (TEnum ''led_brightness'' I32),
    Plain ''trigger_type'' (TPtr ''struct led_hw_trigger_type''),
    Plain ''leddev_list_lock'' td_spinlock_t,
    Plain ''led_cdevs'' st_list_head,
    Plain ''next_trig'' st_list_head,
    Plain ''groups'' (TPtr ''struct attribute_group *'')]"

definition st_kcopyd_job :: ty where
  "st_kcopyd_job = TStruct ''kcopyd_job'' False [
    Plain ''kc'' (TPtr ''struct dm_kcopyd_client''),
    Plain ''list'' st_list_head,
    Plain ''flags'' (TInt I32 False),
    Plain ''read_err'' (TInt I32 True),
    Plain ''write_err'' (TInt I64 False),
    Plain ''op'' (TEnum ''req_op'' I32),
    Plain ''source'' st_dm_io_region,
    Plain ''num_dests'' (TInt I32 False),
    Plain ''dests'' (TArr st_dm_io_region 8),
    Plain ''pages'' (TPtr ''struct page_list''),
    Plain ''fn'' td_dm_kcopyd_notify_fn,
    Plain ''context'' (TPtr ''void''),
    Plain ''lock'' st_mutex,
    Plain ''sub_jobs'' td_atomic_t,
    Plain ''progress'' td_sector_t,
    Plain ''write_offset'' td_sector_t,
    Plain ''master_job'' (TPtr ''struct kcopyd_job'')]"

definition st_kern_ipc_perm :: ty where
  "st_kern_ipc_perm = TStruct ''kern_ipc_perm'' False [
    Plain ''lock'' td_spinlock_t,
    Plain ''deleted'' td_bool,
    Plain ''id'' (TInt I32 True),
    Plain ''key'' td_key_t,
    Plain ''uid'' td_kuid_t,
    Plain ''gid'' td_kgid_t,
    Plain ''cuid'' td_kuid_t,
    Plain ''cgid'' td_kgid_t,
    Plain ''mode'' td_umode_t,
    Plain ''seq'' (TInt I64 False),
    Plain ''security'' (TPtr ''void''),
    Plain ''khtnode'' st_rhash_head,
    Plain ''rcu'' st_callback_head,
    Plain ''refcount'' td_refcount_t,
    Bits '''' (TInt I64 True) 64,
    Bits '''' (TInt I64 True) 64,
    Bits '''' (TInt I64 True) 64,
    Bits '''' (TInt I64 True) 64,
    Bits '''' (TInt I64 True) 64]"

definition st_kernfs_open_file :: ty where
  "st_kernfs_open_file = TStruct ''kernfs_open_file'' False [
    Plain ''kn'' (TPtr ''struct kernfs_node''),
    Plain ''file'' (TPtr ''struct file''),
    Plain ''seq_file'' (TPtr ''struct seq_file''),
    Plain ''priv'' (TPtr ''void''),
    Plain ''mutex'' st_mutex,
    Plain ''prealloc_mutex'' st_mutex,
    Plain ''event'' (TInt I32 True),
    Plain ''list'' st_list_head,
    Plain ''prealloc_buf'' (TPtr ''char''),
    Plain ''atomic_write_len'' td_size_t,
    Bits ''mmapped'' td_bool 1,
    Bits ''released'' td_bool 1,
    Plain ''vm_ops'' (TPtr ''struct vm_operations_struct'')]"

definition st_key :: ty where
  "st_key = TStruct ''key'' False [
    Plain ''usage'' td_refcount_t,
    Plain ''serial'' td_key_serial_t,
    Plain '''' (TUnion '''' False [
      Plain ''graveyard_link'' st_list_head,
      Plain ''serial_node'' st_rb_node]),
    Plain ''watchers'' (TPtr ''struct watch_list''),
    Plain ''sem'' st_rw_semaphore,
    Plain ''user'' (TPtr ''struct key_user''),
    Plain ''security'' (TPtr ''void''),
    Plain '''' (TUnion '''' False [
      Plain ''expiry'' td_time64_t,
      Plain ''revoked_at'' td_time64_t]),
    Plain ''last_used_at'' td_time64_t,
    Plain ''uid'' td_kuid_t,
    Plain ''gid'' td_kgid_t,
    Plain ''perm'' td_key_perm_t,
    Plain ''quotalen'' (TInt I16 False),
    Plain ''datalen'' (TInt I16 False),
    Plain ''state'' (TInt I16 True),
    Plain ''flags'' (TInt I64 False),
    Plain '''' (TUnion '''' False [
      Plain ''index_key'' st_keyring_index_key,
      Plain '''' (TStruct '''' False [
        Plain ''hash'' (TInt I64 False),
        Plain ''len_desc'' (TInt I64 False),
        Plain ''type'' (TPtr ''struct key_type''),
        Plain ''domain_tag'' (TPtr ''struct key_tag''),
        Plain ''description'' (TPtr ''char'')])]),
    Plain '''' (TUnion '''' False [
      Plain ''payload'' un_key_payload,
      Plain '''' (TStruct '''' False [
        Plain ''name_link'' st_list_head,
        Plain ''keys'' st_assoc_array])]),
    Plain ''restrict_link'' (TPtr ''struct key_restriction'')]"

definition st_seq_file :: ty where
  "st_seq_file = TStruct ''seq_file'' False [
    Plain ''buf'' (TPtr ''char''),
    Plain ''size'' td_size_t,
    Plain ''from'' td_size_t,
    Plain ''count'' td_size_t,
    Plain ''pad_until'' td_size_t,
    Plain ''index'' td_loff_t,
    Plain ''read_pos'' td_loff_t,
    Plain ''lock'' st_mutex,
    Plain ''op'' (TPtr ''struct seq_operations''),
    Plain ''poll_event'' (TInt I32 True),
    Plain ''file'' (TPtr ''struct file''),
    Plain ''private'' (TPtr ''void'')]"

definition st_kvm_vcpu_hv_tlb_flush_fifo :: ty where
  "st_kvm_vcpu_hv_tlb_flush_fifo = TStruct ''kvm_vcpu_hv_tlb_flush_fifo'' False [
    Plain ''write_lock'' td_spinlock_t,
    Plain ''entries'' (TStruct '''' False [
      Plain '''' (TUnion '''' False [
        Plain ''kfifo'' st___kfifo,
        Plain ''type'' (TPtr ''u64''),
        Plain ''const_type'' (TPtr ''u64''),
        Plain ''rectype'' (TPtr ''char (*rectype)[0]''),
        Plain ''ptr'' (TPtr ''u64''),
        Plain ''ptr_const'' (TPtr ''u64'')]),
      Plain ''buf'' (TArr td_u64 16)])]"

definition st_landlock_ruleset :: ty where
  "st_landlock_ruleset = TStruct ''landlock_ruleset'' False [
    Plain ''root_inode'' st_rb_root,
    Plain ''root_net_port'' st_rb_root,
    Plain ''hierarchy'' (TPtr ''struct landlock_hierarchy''),
    Plain '''' (TUnion '''' False [
      Plain ''work_free'' st_work_struct,
      Plain '''' (TStruct '''' False [
        Plain ''lock'' st_mutex,
        Plain ''usage'' td_refcount_t,
        Plain ''num_rules'' td_u32,
        Plain ''num_layers'' td_u32,
        Plain ''access_masks'' (TArr st_access_masks 0)])])]"

definition st_lwq :: ty where
  "st_lwq = TStruct ''lwq'' False [
    Plain ''lock'' td_spinlock_t,
    Plain ''ready'' (TPtr ''struct llist_node''),
    Plain ''new'' st_llist_head]"

definition st_max8997_dev :: ty where
  "st_max8997_dev = TStruct ''max8997_dev'' False [
    Plain ''dev'' (TPtr ''struct device''),
    Plain ''pdata'' (TPtr ''struct max8997_platform_data''),
    Plain ''i2c'' (TPtr ''struct i2c_client''),
    Plain ''rtc'' (TPtr ''struct i2c_client''),
    Plain ''haptic'' (TPtr ''struct i2c_client''),
    Plain ''muic'' (TPtr ''struct i2c_client''),
    Plain ''iolock'' st_mutex,
    Plain ''type'' (TInt I64 False),
    Plain ''battery'' (TPtr ''struct platform_device''),
    Plain ''irq'' (TInt I32 True),
    Plain ''ono'' (TInt I32 True),
    Plain ''irq_domain'' (TPtr ''struct irq_domain''),
    Plain ''irqlock'' st_mutex,
    Plain ''irq_masks_cur'' (TArr (TInt I32 True) 11),
    Plain ''irq_masks_cache'' (TArr (TInt I32 True) 11),
    Plain ''reg_dump'' (TArr td_u8 187),
    Plain ''gpio_status'' (TArr td_bool 12)]"

definition st_max8998_dev :: ty where
  "st_max8998_dev = TStruct ''max8998_dev'' False [
    Plain ''dev'' (TPtr ''struct device''),
    Plain ''pdata'' (TPtr ''struct max8998_platform_data''),
    Plain ''i2c'' (TPtr ''struct i2c_client''),
    Plain ''rtc'' (TPtr ''struct i2c_client''),
    Plain ''iolock'' st_mutex,
    Plain ''irqlock'' st_mutex,
    Plain ''irq_base'' (TInt I32 False),
    Plain ''irq_domain'' (TPtr ''struct irq_domain''),
    Plain ''irq'' (TInt I32 True),
    Plain ''ono'' (TInt I32 True),
    Plain ''irq_masks_cur'' (TArr td_u8 4),
    Plain ''irq_masks_cache'' (TArr td_u8 4),
    Plain ''type'' (TInt I64 False),
    Plain ''wakeup'' td_bool]"

definition st_mctp_sk_key :: ty where
  "st_mctp_sk_key = TStruct ''mctp_sk_key'' False [
    Plain ''net'' (TInt I32 False),
    Plain ''peer_addr'' td_mctp_eid_t,
    Plain ''local_addr'' td_mctp_eid_t,
    Plain ''tag'' td___u8,
    Plain ''sk'' (TPtr ''struct sock''),
    Plain ''hlist'' st_hlist_node,
    Plain ''sklist'' st_hlist_node,
    Plain ''lock'' td_spinlock_t,
    Plain ''refs'' td_refcount_t,
    Plain ''reasm_head'' (TPtr ''struct sk_buff''),
    Plain ''reasm_tailp'' (TPtr ''struct sk_buff *''),
    Plain ''reasm_dead'' td_bool,
    Plain ''last_seq'' td_u8,
    Plain ''valid'' td_bool,
    Plain ''expiry'' (TInt I64 False),
    Plain ''dev_flow_state'' (TInt I64 False),
    Plain ''dev'' (TPtr ''struct mctp_dev''),
    Plain ''manual_alloc'' td_bool]"

definition st_mm_mm_cid :: ty where
  "st_mm_mm_cid = TStruct ''mm_mm_cid'' False [
    Plain ''pcpu'' (TPtr ''struct mm_cid_pcpu''),
    Plain ''mode'' (TInt I32 False),
    Plain ''max_cids'' (TInt I32 False),
    Plain ''irq_work'' st_irq_work,
    Plain ''work'' st_work_struct,
    Plain ''lock'' td_raw_spinlock_t,
    Plain ''mutex'' st_mutex,
    Plain ''user_list'' st_hlist_head,
    Plain ''nr_cpus_allowed'' (TInt I32 False),
    Plain ''users'' (TInt I32 False),
    Plain ''pcpu_thrs'' (TInt I32 False),
    Plain ''update_deferred'' (TInt I32 False),
    Bits '''' (TInt I64 True) 64,
    Bits '''' (TInt I64 True) 64,
    Bits '''' (TInt I64 True) 64,
    Bits '''' (TInt I64 True) 64,
    Bits '''' (TInt I64 True) 64,
    Bits '''' (TInt I64 True) 64]"

definition st_mousedev_client :: ty where
  "st_mousedev_client = TStruct ''mousedev_client'' False [
    Plain ''fasync'' (TPtr ''struct fasync_struct''),
    Plain ''mousedev'' (TPtr ''struct mousedev''),
    Plain ''node'' st_list_head,
    Plain ''packets'' (TArr st_mousedev_motion 16),
    Plain ''head'' (TInt I32 False),
    Plain ''tail'' (TInt I32 False),
    Plain ''packet_lock'' td_spinlock_t,
    Plain ''pos_x'' (TInt I32 True),
    Plain ''pos_y'' (TInt I32 True),
    Plain ''ps2'' (TArr td_u8 6),
    Plain ''ready'' (TInt I8 False),
    Plain ''buffer'' (TInt I8 False),
    Plain ''bufsiz'' (TInt I8 False),
    Plain ''imexseq'' (TInt I8 False),
    Plain ''impsseq'' (TInt I8 False),
    Plain ''mode'' (TEnum ''mousedev_emul'' I32),
    Plain ''last_buttons'' (TInt I64 False)]"

definition st_mptcp_pm_data :: ty where
  "st_mptcp_pm_data = TStruct ''mptcp_pm_data'' False [
    Plain ''local'' st_mptcp_addr_info,
    Plain ''remote'' st_mptcp_addr_info,
    Plain ''anno_list'' st_list_head,
    Plain ''userspace_pm_local_addr_list'' st_list_head,
    Plain ''lock'' td_spinlock_t,
    Plain '''' (TUnion '''' False [
      Plain '''' (TStruct '''' False [
        Plain ''addr_signal'' td_u8,
        Plain ''server_side'' td_bool,
        Plain ''work_pending'' td_bool,
        Plain ''accept_addr'' td_bool,
        Plain ''accept_subflow'' td_bool,
        Plain ''remote_deny_join_id0'' td_bool,
        Plain ''add_addr_signaled'' td_u8,
        Plain ''add_addr_accepted'' td_u8,
        Plain ''local_addr_used'' td_u8,
        Plain ''pm_type'' td_u8,
        Plain ''extra_subflows'' td_u8,
        Plain ''status'' td_u8]),
      Plain ''reset'' (TStruct '''' False [
        Plain ''addr_signal'' td_u8,
        Plain ''server_side'' td_bool,
        Plain ''work_pending'' td_bool,
        Plain ''accept_addr'' td_bool,
        Plain ''accept_subflow'' td_bool,
        Plain ''remote_deny_join_id0'' td_bool,
        Plain ''add_addr_signaled'' td_u8,
        Plain ''add_addr_accepted'' td_u8,
        Plain ''local_addr_used'' td_u8,
        Plain ''pm_type'' td_u8,
        Plain ''extra_subflows'' td_u8,
        Plain ''status'' td_u8])]),
    Plain ''id_avail_bitmap'' (TArr (TInt I64 False) 4),
    Plain ''rm_list_tx'' st_mptcp_rm_list,
    Plain ''rm_list_rx'' st_mptcp_rm_list]"

definition st_tcp_request_sock :: ty where
  "st_tcp_request_sock = TStruct ''tcp_request_sock'' False [
    Plain ''req'' st_inet_request_sock,
    Plain ''af_specific'' (TPtr ''struct tcp_request_sock_ops''),
    Plain ''snt_synack'' td_u64,
    Plain ''tfo_listener'' td_bool,
    Plain ''is_mptcp'' td_bool,
    Plain ''req_usec_ts'' td_bool,
    Plain ''drop_req'' td_bool,
    Plain ''txhash'' td_u32,
    Plain ''rcv_isn'' td_u32,
    Plain ''snt_isn'' td_u32,
    Plain ''ts_off'' td_u32,
    Plain ''snt_tsval_first'' td_u32,
    Plain ''snt_tsval_last'' td_u32,
    Plain ''last_oow_ack_time'' td_u32,
    Plain ''rcv_nxt'' td_u32,
    Plain ''syn_tos'' td_u8,
    Plain ''accecn_ok'' td_bool,
    Bits ''syn_ect_snt'' td_u8 2,
    Bits ''syn_ect_rcv'' td_u8 2,
    Bits ''accecn_fail_mode'' td_u8 4,
    Bits ''saw_accecn_opt'' td_u8 2,
    Plain ''ao_keyid'' td_u8,
    Plain ''ao_rcv_next'' td_u8,
    Plain ''used_tcp_ao'' td_bool]"

definition st_msdos_sb_info :: ty where
  "st_msdos_sb_info = TStruct ''msdos_sb_info'' False [
    Plain ''sec_per_clus'' (TInt I16 False),
    Plain ''cluster_bits'' (TInt I16 False),
    Plain ''cluster_size'' (TInt I32 False),
    Plain ''fats'' (TInt I8 False),
    Plain ''fat_bits'' (TInt I8 False),
    Plain ''fat_start'' (TInt I16 False),
    Plain ''fat_length'' (TInt I64 False),
    Plain ''dir_start'' (TInt I64 False),
    Plain ''dir_entries'' (TInt I16 False),
    Plain ''data_start'' (TInt I64 False),
    Plain ''max_cluster'' (TInt I64 False),
    Plain ''root_cluster'' (TInt I64 False),
    Plain ''fsinfo_sector'' (TInt I64 False),
    Plain ''fat_lock'' st_mutex,
    Plain ''nfs_build_inode_lock'' st_mutex,
    Plain ''s_lock'' st_mutex,
    Plain ''prev_free'' (TInt I32 False),
    Plain ''free_clusters'' (TInt I32 False),
    Plain ''free_clus_valid'' (TInt I32 False),
    Plain ''options'' st_fat_mount_options,
    Plain ''nls_disk'' (TPtr ''struct nls_table''),
    Plain ''nls_io'' (TPtr ''struct nls_table''),
    Plain ''dir_ops'' (TPtr ''void''),
    Plain ''dir_per_block'' (TInt I32 True),
    Plain ''dir_per_block_bits'' (TInt I32 True),
    Plain ''vol_id'' (TInt I32 False),
    Plain ''fatent_shift'' (TInt I32 True),
    Plain ''fatent_ops'' (TPtr ''struct fatent_operations''),
    Plain ''fat_inode'' (TPtr ''struct inode''),
    Plain ''fsinfo_inode'' (TPtr ''struct inode''),
    Plain ''ratelimit'' st_ratelimit_state,
    Plain ''inode_hash_lock'' td_spinlock_t,
    Plain ''inode_hashtable'' (TArr st_hlist_head 256),
    Plain ''dir_hash_lock'' td_spinlock_t,
    Plain ''dir_hashtable'' (TArr st_hlist_head 256),
    Plain ''dirty'' (TInt I32 False),
    Plain ''rcu'' st_callback_head]"

definition st_mt6397_chip :: ty where
  "st_mt6397_chip = TStruct ''mt6397_chip'' False [
    Plain ''dev'' (TPtr ''struct device''),
    Plain ''regmap'' (TPtr ''struct regmap''),
    Plain ''pm_nb'' st_notifier_block,
    Plain ''irq'' (TInt I32 True),
    Plain ''irq_domain'' (TPtr ''struct irq_domain''),
    Plain ''irqlock'' st_mutex,
    Plain ''wake_mask'' (TArr td_u16 3),
    Plain ''irq_masks_cur'' (TArr td_u16 3),
    Plain ''irq_masks_cache'' (TArr td_u16 3),
    Plain ''int_con'' (TArr td_u16 3),
    Plain ''int_status'' (TArr td_u16 3),
    Plain ''chip_id'' td_u16,
    Plain ''irq_data'' (TPtr ''void'')]"

definition st_n_tty_data :: ty where
  "st_n_tty_data = TStruct ''n_tty_data'' False [
    Plain ''read_head'' td_size_t,
    Plain ''commit_head'' td_size_t,
    Plain ''canon_head'' td_size_t,
    Plain ''echo_head'' td_size_t,
    Plain ''echo_commit'' td_size_t,
    Plain ''echo_mark'' td_size_t,
    Plain ''char_map'' (TArr (TInt I64 False) 4),
    Plain ''overrun_time'' (TInt I64 False),
    Plain ''num_overrun'' (TInt I32 False),
    Plain ''no_room'' td_bool,
    Bits ''lnext'' (TInt I8 False) 1,
    Bits ''erasing'' (TInt I8 False) 1,
    Bits ''raw'' (TInt I8 False) 1,
    Bits ''real_raw'' (TInt I8 False) 1,
    Bits ''icanon'' (TInt I8 False) 1,
    Bits ''push'' (TInt I8 False) 1,
    Plain ''read_buf'' (TArr td_u8 4096),
    Plain ''read_flags'' (TArr (TInt I64 False) 64),
    Plain ''echo_buf'' (TArr td_u8 4096),
    Plain ''read_tail'' td_size_t,
    Plain ''line_start'' td_size_t,
    Plain ''lookahead_count'' td_size_t,
    Plain ''column'' (TInt I32 False),
    Plain ''canon_column'' (TInt I32 False),
    Plain ''echo_tail'' td_size_t,
    Plain ''atomic_read_lock'' st_mutex,
    Plain ''output_lock'' st_mutex]"

definition st_nd_mapping :: ty where
  "st_nd_mapping = TStruct ''nd_mapping'' False [
    Plain ''nvdimm'' (TPtr ''struct nvdimm''),
    Plain ''start'' td_u64,
    Plain ''size'' td_u64,
    Plain ''position'' (TInt I32 True),
    Plain ''labels'' st_list_head,
    Plain ''lock'' st_mutex,
    Plain ''ndd'' (TPtr ''struct nvdimm_drvdata'')]"

definition st_netns_sctp :: ty where
  "st_netns_sctp = TStruct ''netns_sctp'' False [
    Plain ''sctp_statistics'' (TPtr ''struct sctp_mib''),
    Plain ''proc_net_sctp'' (TPtr ''struct proc_dir_entry''),
    Plain ''sysctl_header'' (TPtr ''struct ctl_table_header''),
    Plain ''ctl_sock'' (TPtr ''struct sock''),
    Plain ''udp4_sock'' (TPtr ''struct sock''),
    Plain ''udp6_sock'' (TPtr ''struct sock''),
    Plain ''udp_port'' (TInt I32 True),
    Plain ''encap_port'' (TInt I32 True),
    Plain ''local_addr_list'' st_list_head,
    Plain ''addr_waitq'' st_list_head,
    Plain ''addr_wq_timer'' st_timer_list,
    Plain ''auto_asconf_splist'' st_list_head,
    Plain ''addr_wq_lock'' td_spinlock_t,
    Plain ''local_addr_lock'' td_spinlock_t,
    Plain ''rto_initial'' (TInt I32 False),
    Plain ''rto_min'' (TInt I32 False),
    Plain ''rto_max'' (TInt I32 False),
    Plain ''rto_alpha'' (TInt I32 True),
    Plain ''rto_beta'' (TInt I32 True),
    Plain ''max_burst'' (TInt I32 True),
    Plain ''cookie_preserve_enable'' (TInt I32 True),
    Plain ''cookie_auth_enable'' (TInt I32 True),
    Plain ''valid_cookie_life'' (TInt I32 False),
    Plain ''sack_timeout'' (TInt I32 False),
    Plain ''hb_interval'' (TInt I32 False),
    Plain ''probe_interval'' (TInt I32 False),
    Plain ''max_retrans_association'' (TInt I32 True),
    Plain ''max_retrans_path'' (TInt I32 True),
    Plain ''max_retrans_init'' (TInt I32 True),
    Plain ''pf_retrans'' (TInt I32 True),
    Plain ''ps_retrans'' (TInt I32 True),
    Plain ''pf_enable'' (TInt I32 True),
    Plain ''pf_expose'' (TInt I32 True),
    Plain ''sndbuf_policy'' (TInt I32 True),
    Plain ''rcvbuf_policy'' (TInt I32 True),
    Plain ''default_auto_asconf'' (TInt I32 True),
    Plain ''addip_enable'' (TInt I32 True),
    Plain ''addip_noauth'' (TInt I32 True),
    Plain ''prsctp_enable'' (TInt I32 True),
    Plain ''reconf_enable'' (TInt I32 True),
    Plain ''auth_enable'' (TInt I32 True),
    Plain ''intl_enable'' (TInt I32 True),
    Plain ''ecn_enable'' (TInt I32 True),
    Plain ''scope_policy'' (TInt I32 True),
    Plain ''rwnd_upd_shift'' (TInt I32 True),
    Plain ''max_autoclose'' (TInt I64 False),
    Plain ''l3mdev_accept'' (TInt I32 True)]"

definition st_netns_smc :: ty where
  "st_netns_smc = TStruct ''netns_smc'' False [
    Plain ''smc_stats'' (TPtr ''struct smc_stats''),
    Plain ''mutex_fback_rsn'' st_mutex,
    Plain ''fback_rsn'' (TPtr ''struct smc_stats_rsn''),
    Plain ''limit_smc_hs'' td_bool,
    Plain ''smc_hdr'' (TPtr ''struct ctl_table_header''),
    Plain ''hs_ctrl'' (TPtr ''struct smc_hs_ctrl''),
    Plain ''sysctl_autocorking_size'' (TInt I32 False),
    Plain ''sysctl_smcr_buf_type'' (TInt I32 False),
    Plain ''sysctl_smcr_testlink_time'' (TInt I32 True),
    Plain ''sysctl_wmem'' (TInt I32 True),
    Plain ''sysctl_rmem'' (TInt I32 True),
    Plain ''sysctl_max_links_per_lgr'' (TInt I32 True),
    Plain ''sysctl_max_conns_per_lgr'' (TInt I32 True),
    Plain ''sysctl_smcr_max_send_wr'' (TInt I32 False),
    Plain ''sysctl_smcr_max_recv_wr'' (TInt I32 False)]"

definition st_netdev_queue :: ty where
  "st_netdev_queue = TStruct ''netdev_queue'' False [
    Plain ''dev'' (TPtr ''struct net_device''),
    Plain ''dev_tracker'' td_netdevice_tracker,
    Plain ''qdisc'' (TPtr ''struct Qdisc''),
    Plain ''qdisc_sleeping'' (TPtr ''struct Qdisc''),
    Plain ''kobj'' st_kobject,
    Plain ''groups'' (TPtr ''struct attribute_group *''),
    Plain ''tx_maxrate'' (TInt I64 False),
    Plain ''trans_timeout'' td_atomic_long_t,
    Plain ''sb_dev'' (TPtr ''struct net_device''),
    Plain ''pool'' (TPtr ''struct xsk_buff_pool''),
    Plain ''dql'' st_dql,
    Plain ''_xmit_lock'' td_spinlock_t,
    Plain ''xmit_lock_owner'' (TInt I32 True),
    Plain ''trans_start'' (TInt I64 False),
    Plain ''state'' (TInt I64 False),
    Plain ''napi'' (TPtr ''struct napi_struct''),
    Plain ''numa_node'' (TInt I32 True),
    Bits '''' (TInt I64 True) 64,
    Bits '''' (TInt I64 True) 64,
    Bits '''' (TInt I64 True) 64]"

definition st_nexthop :: ty where
  "st_nexthop = TStruct ''nexthop'' False [
    Plain ''rb_node'' st_rb_node,
    Plain ''fi_list'' st_list_head,
    Plain ''f6i_list'' st_list_head,
    Plain ''fdb_list'' st_list_head,
    Plain ''grp_list'' st_list_head,
    Plain ''net'' (TPtr ''struct net''),
    Plain ''id'' td_u32,
    Plain ''protocol'' td_u8,
    Plain ''nh_flags'' td_u8,
    Plain ''is_group'' td_bool,
    Plain ''dead'' td_bool,
    Plain ''lock'' td_spinlock_t,
    Plain ''refcnt'' td_refcount_t,
    Plain ''rcu'' st_callback_head,
    Plain '''' (TUnion '''' False [
      Plain ''nh_info'' (TPtr ''struct nh_info''),
      Plain ''nh_grp'' (TPtr ''struct nh_group'')])]"

definition st_rpc_wait_queue :: ty where
  "st_rpc_wait_queue = TStruct ''rpc_wait_queue'' False [
    Plain ''lock'' td_spinlock_t,
    Plain ''tasks'' (TArr st_list_head 4),
    Plain ''maxpriority'' (TInt I8 False),
    Plain ''priority'' (TInt I8 False),
    Plain ''nr'' (TInt I8 False),
    Plain ''qlen'' (TInt I32 False),
    Plain ''timer_list'' st_rpc_timer,
    Plain ''name'' (TPtr ''char'')]"

definition st_ohci_hcd :: ty where
  "st_ohci_hcd = TStruct ''ohci_hcd'' False [
    Plain ''lock'' td_spinlock_t,
    Plain ''regs'' (TPtr ''struct ohci_regs''),
    Plain ''hcca'' (TPtr ''struct ohci_hcca''),
    Plain ''hcca_dma'' td_dma_addr_t,
    Plain ''ed_rm_list'' (TPtr ''struct ed''),
    Plain ''ed_bulktail'' (TPtr ''struct ed''),
    Plain ''ed_controltail'' (TPtr ''struct ed''),
    Plain ''periodic'' (TArr (TPtr ''struct ed'') 32),
    Plain ''start_hnp'' (TFun ''void (*)(struct ohci_hcd *)''),
    Plain ''td_cache'' (TPtr ''struct dma_pool''),
    Plain ''ed_cache'' (TPtr ''struct dma_pool''),
    Plain ''td_hash'' (TArr (TPtr ''struct td'') 64),
    Plain ''dl_start'' (TPtr ''struct td''),
    Plain ''dl_end'' (TPtr ''struct td''),
    Plain ''pending'' st_list_head,
    Plain ''eds_in_use'' st_list_head,
    Plain ''rh_state'' (TEnum ''ohci_rh_state'' I32),
    Plain ''num_ports'' (TInt I32 True),
    Plain ''load'' (TArr (TInt I32 True) 32),
    Plain ''hc_control'' td_u32,
    Plain ''next_statechange'' (TInt I64 False),
    Plain ''fminterval'' td_u32,
    Bits ''autostop'' (TInt I32 False) 1,
    Bits ''working'' (TInt I32 False) 1,
    Bits ''restart_work'' (TInt I32 False) 1,
    Plain ''flags'' (TInt I64 False),
    Plain ''prev_frame_no'' (TInt I32 False),
    Plain ''wdh_cnt'' (TInt I32 False),
    Plain ''prev_wdh_cnt'' (TInt I32 False),
    Plain ''prev_donehead'' td_u32,
    Plain ''io_watchdog'' st_timer_list,
    Plain ''nec_work'' st_work_struct,
    Plain ''debug_dir'' (TPtr ''struct dentry''),
    Plain ''priv'' (TArr (TInt I64 False) 0)]"

definition st_opal_dev :: ty where
  "st_opal_dev = TStruct ''opal_dev'' False [
    Plain ''flags'' td_u32,
    Plain ''data'' (TPtr ''void''),
    Plain ''send_recv'' (TPtr ''sec_send_recv''),
    Plain ''dev_lock'' st_mutex,
    Plain ''comid'' td_u16,
    Plain ''hsn'' td_u32,
    Plain ''tsn'' td_u32,
    Plain ''align'' td_u64,
    Plain ''lowest_lba'' td_u64,
    Plain ''logical_block_size'' td_u32,
    Plain ''align_required'' td_u8,
    Plain ''pos'' td_size_t,
    Plain ''cmd'' (TPtr ''u8''),
    Plain ''resp'' (TPtr ''u8''),
    Plain ''parsed'' st_parsed_resp,
    Plain ''prev_d_len'' td_size_t,
    Plain ''prev_data'' (TPtr ''void''),
    Plain ''unlk_lst'' st_list_head]"

definition st_packet_fanout :: ty where
  "st_packet_fanout = TStruct ''packet_fanout'' False [
    Plain ''net'' td_possible_net_t,
    Plain ''num_members'' (TInt I32 False),
    Plain ''max_num_members'' td_u32,
    Plain ''id'' td_u16,
    Plain ''type'' td_u8,
    Plain ''flags'' td_u8,
    Plain '''' (TUnion '''' False [
      Plain ''rr_cur'' td_atomic_t,
      Plain ''bpf_prog'' (TPtr ''struct bpf_prog'')]),
    Plain ''list'' st_list_head,
    Plain ''lock'' td_spinlock_t,
    Plain ''sk_ref'' td_refcount_t,
    Bits '''' (TInt I64 True) 64,
    Plain ''prot_hook'' st_packet_type,
    Plain ''arr'' (TArr (TPtr ''struct sock'') 0),
    Bits '''' (TInt I64 True) 64,
    Bits '''' (TInt I64 True) 64,
    Bits '''' (TInt I64 True) 64,
    Bits '''' (TInt I64 True) 64,
    Bits '''' (TInt I64 True) 64,
    Bits '''' (TInt I64 True) 64,
    Bits '''' (TInt I64 True) 64]"

definition st_ptr_ring :: ty where
  "st_ptr_ring = TStruct ''ptr_ring'' False [
    Plain ''producer'' (TInt I32 True),
    Plain ''producer_lock'' td_spinlock_t,
    Bits '''' (TInt I64 True) 64,
    Bits '''' (TInt I64 True) 64,
    Bits '''' (TInt I64 True) 64,
    Bits '''' (TInt I64 True) 64,
    Bits '''' (TInt I64 True) 64,
    Bits '''' (TInt I64 True) 64,
    Bits '''' (TInt I64 True) 64,
    Plain ''consumer_head'' (TInt I32 True),
    Plain ''consumer_tail'' (TInt I32 True),
    Plain ''consumer_lock'' td_spinlock_t,
    Bits '''' (TInt I64 True) 64,
    Bits '''' (TInt I64 True) 64,
    Bits '''' (TInt I64 True) 64,
    Bits '''' (TInt I64 True) 64,
    Bits '''' (TInt I64 True) 64,
    Bits '''' (TInt I64 True) 64,
    Plain ''size'' (TInt I32 True),
    Plain ''batch'' (TInt I32 True),
    Plain ''queue'' (TPtr ''void *''),
    Bits '''' (TInt I64 True) 64,
    Bits '''' (TInt I64 True) 64,
    Bits '''' (TInt I64 True) 64,
    Bits '''' (TInt I64 True) 64,
    Bits '''' (TInt I64 True) 64,
    Bits '''' (TInt I64 True) 64]"

definition st_palmas :: ty where
  "st_palmas = TStruct ''palmas'' False [
    Plain ''dev'' (TPtr ''struct device''),
    Plain ''i2c_clients'' (TArr (TPtr ''struct i2c_client'') 3),
    Plain ''regmap'' (TArr (TPtr ''struct regmap'') 3),
    Plain ''id'' (TInt I32 True),
    Plain ''features'' (TInt I32 False),
    Plain ''irq'' (TInt I32 True),
    Plain ''irq_mask'' td_u32,
    Plain ''irq_lock'' st_mutex,
    Plain ''irq_data'' (TPtr ''struct regmap_irq_chip_data''),
    Plain ''pmic_ddata'' (TPtr ''struct palmas_pmic_driver_data''),
    Plain ''pmic'' (TPtr ''struct palmas_pmic''),
    Plain ''gpadc'' (TPtr ''struct palmas_gpadc''),
    Plain ''resource'' (TPtr ''struct palmas_resource''),
    Plain ''usb'' (TPtr ''struct palmas_usb''),
    Plain ''gpio_muxed'' td_u8,
    Plain ''led_muxed'' td_u8,
    Plain ''pwm_muxed'' td_u8]"

definition st_pcap_chip :: ty where
  "st_pcap_chip = TStruct ''pcap_chip'' False [
    Plain ''spi'' (TPtr ''struct spi_device''),
    Plain ''buf'' td_u32,
    Plain ''io_lock'' td_spinlock_t,
    Plain ''irq_base'' (TInt I32 False),
    Plain ''msr'' td_u32,
    Plain ''isr_work'' st_work_struct,
    Plain ''msr_work'' st_work_struct,
    Plain ''workqueue'' (TPtr ''struct workqueue_struct''),
    Plain ''adc_queue'' (TArr (TPtr ''struct pcap_adc_request'') 8),
    Plain ''adc_head'' td_u8,
    Plain ''adc_tail'' td_u8,
    Plain ''adc_lock'' td_spinlock_t]"

definition st_pci_vpd :: ty where
  "st_pci_vpd = TStruct ''pci_vpd'' False [
    Plain ''lock'' st_mutex,
    Plain ''len'' (TInt I32 False),
    Plain ''cap'' td_u8]"

definition st_perf_buffer :: ty where
  "st_perf_buffer = TStruct ''perf_buffer'' False [
    Plain ''refcount'' td_refcount_t,
    Plain ''callback_head'' st_callback_head,
    Plain ''nr_pages'' (TInt I32 True),
    Plain ''overwrite'' (TInt I32 True),
    Plain ''paused'' (TInt I32 True),
    Plain ''poll'' td_atomic_t,
    Plain ''head'' td_local_t,
    Plain ''nest'' (TInt I32 False),
    Plain ''events'' td_local_t,
    Plain ''wakeup'' td_local_t,
    Plain ''lost'' td_local_t,
    Plain ''watermark'' (TInt I64 True),
    Plain ''aux_watermark'' (TInt I64 True),
    Plain ''event_lock'' td_spinlock_t,
    Plain ''event_list'' st_list_head,
    Plain ''mmap_count'' td_refcount_t,
    Plain ''mmap_locked'' (TInt I64 False),
    Plain ''mmap_user'' (TPtr ''struct user_struct''),
    Plain ''aux_mutex'' st_mutex,
    Plain ''aux_head'' (TInt I64 True),
    Plain ''aux_nest'' (TInt I32 False),
    Plain ''aux_wakeup'' (TInt I64 True),
    Plain ''aux_pgoff'' (TInt I64 False),
    Plain ''aux_nr_pages'' (TInt I32 True),
    Plain ''aux_overwrite'' (TInt I32 True),
    Plain ''aux_mmap_count'' td_refcount_t,
    Plain ''aux_mmap_locked'' (TInt I64 False),
    Plain ''free_aux'' (TFun ''void (*)(void *)''),
    Plain ''aux_refcount'' td_refcount_t,
    Plain ''aux_in_sampling'' (TInt I32 True),
    Plain ''aux_in_pause_resume'' (TInt I32 True),
    Plain ''aux_pages'' (TPtr ''void *''),
    Plain ''aux_priv'' (TPtr ''void''),
    Plain ''user_page'' (TPtr ''struct perf_event_mmap_page''),
    Plain ''data_pages'' (TArr (TPtr ''void'') 0)]"

definition st_perf_event_context :: ty where
  "st_perf_event_context = TStruct ''perf_event_context'' False [
    Plain ''lock'' td_raw_spinlock_t,
    Plain ''mutex'' st_mutex,
    Plain ''pmu_ctx_list'' st_list_head,
    Plain ''pinned_groups'' st_perf_event_groups,
    Plain ''flexible_groups'' st_perf_event_groups,
    Plain ''event_list'' st_list_head,
    Plain ''nr_events'' (TInt I32 True),
    Plain ''nr_user'' (TInt I32 True),
    Plain ''is_active'' (TInt I32 True),
    Plain ''nr_stat'' (TInt I32 True),
    Plain ''nr_freq'' (TInt I32 True),
    Plain ''rotate_disable'' (TInt I32 True),
    Plain ''refcount'' td_refcount_t,
    Plain ''task'' (TPtr ''struct task_struct''),
    Plain ''time'' st_perf_time_ctx,
    Plain ''timeguest'' st_perf_time_ctx,
    Plain ''parent_ctx'' (TPtr ''struct perf_event_context''),
    Plain ''parent_gen'' td_u64,
    Plain ''generation'' td_u64,
    Plain ''pin_count'' (TInt I32 True),
    Plain ''nr_cgroups'' (TInt I32 True),
    Plain ''callback_head'' st_callback_head,
    Plain ''nr_no_switch_fast'' td_local_t]"

definition st_pm860x_chip :: ty where
  "st_pm860x_chip = TStruct ''pm860x_chip'' False [
    Plain ''dev'' (TPtr ''struct device''),
    Plain ''irq_lock'' st_mutex,
    Plain ''osc_lock'' st_mutex,
    Plain ''client'' (TPtr ''struct i2c_client''),
    Plain ''companion'' (TPtr ''struct i2c_client''),
    Plain ''regmap'' (TPtr ''struct regmap''),
    Plain ''regmap_companion'' (TPtr ''struct regmap''),
    Plain ''buck3_double'' (TInt I32 True),
    Plain ''companion_addr'' (TInt I32 True),
    Plain ''osc_vote'' (TInt I16 False),
    Plain ''id'' (TInt I32 True),
    Plain ''irq_mode'' (TInt I32 True),
    Plain ''irq_base'' (TInt I32 True),
    Plain ''core_irq'' (TInt I32 True),
    Plain ''chip_version'' (TInt I8 False),
    Plain ''osc_status'' (TInt I8 False),
    Plain ''wakeup_flag'' (TInt I32 False)]"

definition st_ports_device :: ty where
  "st_ports_device = TStruct ''ports_device'' False [
    Plain ''list'' st_list_head,
    Plain ''control_work'' st_work_struct,
    Plain ''config_work'' st_work_struct,
    Plain ''ports'' st_list_head,
    Plain ''ports_lock'' td_spinlock_t,
    Plain ''c_ivq_lock'' td_spinlock_t,
    Plain ''c_ovq_lock'' td_spinlock_t,
    Plain ''max_nr_ports'' td_u32,
    Plain ''vdev'' (TPtr ''struct virtio_device''),
    Plain ''c_ivq'' (TPtr ''struct virtqueue''),
    Plain ''c_ovq'' (TPtr ''struct virtqueue''),
    Plain ''cpkt'' st_virtio_console_control,
    Plain ''in_vqs'' (TPtr ''struct virtqueue *''),
    Plain ''out_vqs'' (TPtr ''struct virtqueue *''),
    Plain ''chr_major'' (TInt I32 True)]"

definition st_proc_dir_entry :: ty where
  "st_proc_dir_entry = TStruct ''proc_dir_entry'' False [
    Plain ''in_use'' td_atomic_t,
    Plain ''refcnt'' td_refcount_t,
    Plain ''pde_openers'' st_list_head,
    Plain ''pde_unload_lock'' td_spinlock_t,
    Plain ''pde_unload_completion'' (TPtr ''struct completion''),
    Plain ''proc_iops'' (TPtr ''struct inode_operations''),
    Plain '''' (TUnion '''' False [
      Plain ''proc_ops'' (TPtr ''struct proc_ops''),
      Plain ''proc_dir_ops'' (TPtr ''struct file_operations'')]),
    Plain '''' (TUnion '''' False [
      Plain ''seq_ops'' (TPtr ''struct seq_operations''),
      Plain ''single_show'' (TFun ''int (*)(struct seq_file *, void *)'')]),
    Plain ''write'' td_proc_write_t,
    Plain ''data'' (TPtr ''void''),
    Plain ''state_size'' (TInt I32 False),
    Plain ''low_ino'' (TInt I32 False),
    Plain ''nlink'' td_nlink_t,
    Plain ''uid'' td_kuid_t,
    Plain ''gid'' td_kgid_t,
    Plain ''size'' td_loff_t,
    Plain ''parent'' (TPtr ''struct proc_dir_entry''),
    Plain ''subdir'' st_rb_root,
    Plain ''subdir_node'' st_rb_node,
    Plain ''name'' (TPtr ''char''),
    Plain ''mode'' td_umode_t,
    Plain ''flags'' td_u8,
    Plain ''namelen'' td_u8,
    Plain ''inline_name'' (TArr (TInt I8 True) 0)]"

definition st_pse_controller_dev :: ty where
  "st_pse_controller_dev = TStruct ''pse_controller_dev'' False [
    Plain ''ops'' (TPtr ''struct pse_controller_ops''),
    Plain ''owner'' (TPtr ''struct module''),
    Plain ''list'' st_list_head,
    Plain ''pse_control_head'' st_list_head,
    Plain ''dev'' (TPtr ''struct device''),
    Plain ''of_pse_n_cells'' (TInt I32 True),
    Plain ''nr_lines'' (TInt I32 False),
    Plain ''lock'' st_mutex,
    Plain ''types'' (TEnum ''ethtool_pse_types'' I32),
    Plain ''pi'' (TPtr ''struct pse_pi''),
    Plain ''no_of_pse_pi'' td_bool,
    Plain ''irq'' (TInt I32 True),
    Plain ''pis_prio_max'' (TInt I32 False),
    Plain ''supp_budget_eval_strategies'' td_u32,
    Plain ''ntf_work'' st_work_struct,
    Plain ''ntf_fifo'' (TStruct '''' False [
      Plain '''' (TUnion '''' False [
        Plain ''kfifo'' st___kfifo,
        Plain ''type'' (TPtr ''struct pse_ntf''),
        Plain ''const_type'' (TPtr ''struct pse_ntf''),
        Plain ''rectype'' (TPtr ''char (*rectype)[0]''),
        Plain ''ptr'' (TPtr ''struct pse_ntf''),
        Plain ''ptr_const'' (TPtr ''struct pse_ntf'')]),
      Plain ''buf'' (TArr st_pse_ntf 0)]),
    Plain ''ntf_fifo_lock'' td_spinlock_t]"

definition st_psp_dev :: ty where
  "st_psp_dev = TStruct ''psp_dev'' False [
    Plain ''main_netdev'' (TPtr ''struct net_device''),
    Plain ''ops'' (TPtr ''struct psp_dev_ops''),
    Plain ''caps'' (TPtr ''struct psp_dev_caps''),
    Plain ''drv_priv'' (TPtr ''void''),
    Plain ''lock'' st_mutex,
    Plain ''refcnt'' td_refcount_t,
    Plain ''id'' td_u32,
    Plain ''generation'' td_u8,
    Plain ''config'' st_psp_dev_config,
    Plain ''active_assocs'' st_list_head,
    Plain ''prev_assocs'' st_list_head,
    Plain ''stale_assocs'' st_list_head,
    Plain ''stats'' (TStruct '''' False [
      Plain ''rotations'' (TInt I64 False),
      Plain ''stales'' (TInt I64 False)]),
    Plain ''rcu'' st_callback_head]"

definition st_pstore_info :: ty where
  "st_pstore_info = TStruct ''pstore_info'' False [
    Plain ''owner'' (TPtr ''struct module''),
    Plain ''name'' (TPtr ''char''),
    Plain ''buf_lock'' td_raw_spinlock_t,
    Plain ''buf'' (TPtr ''char''),
    Plain ''bufsize'' td_size_t,
    Plain ''read_mutex'' st_mutex,
    Plain ''flags'' (TInt I32 True),
    Plain ''max_reason'' (TInt I32 True),
    Plain ''data'' (TPtr ''void''),
    Plain ''open'' (TFun ''int (*)(struct pstore_info *)''),
    Plain ''close'' (TFun ''int (*)(struct pstore_info *)''),
    Plain ''read'' (TFun ''ssize_t (*)(struct pstore_record *)''),
    Plain ''write'' (TFun ''int (*)(struct pstore_record *)''),
    Plain ''write_user'' (TFun ''int (*)(struct pstore_record *, const char *)''),
    Plain ''erase'' (TFun ''int (*)(struct pstore_record *)'')]"

definition st_ptdesc :: ty where
  "st_ptdesc = TStruct ''ptdesc'' False [
    Plain ''pt_flags'' td_memdesc_flags_t,
    Plain '''' (TUnion '''' False [
      Plain ''pt_rcu_head'' st_callback_head,
      Plain ''pt_list'' st_list_head,
      Plain '''' (TStruct '''' False [
        Plain ''_pt_pad_1'' (TInt I64 False),
        Plain ''pmd_huge_pte'' td_pgtable_t])]),
    Plain ''__page_mapping'' (TInt I64 False),
    Plain '''' (TUnion '''' False [
      Plain ''pt_index'' (TInt I64 False),
      Plain ''pt_mm'' (TPtr ''struct mm_struct''),
      Plain ''pt_frag_refcount'' td_atomic_t,
      Plain ''pt_share_count'' td_atomic_t]),
    Plain '''' (TUnion '''' False [
      Plain ''_pt_pad_2'' (TInt I64 False),
      Plain ''ptl'' td_spinlock_t]),
    Plain ''__page_type'' (TInt I32 False),
    Plain ''__page_refcount'' td_atomic_t,
    Plain ''pt_memcg_data'' (TInt I64 False)]"

definition st_rcu_data :: ty where
  "st_rcu_data = TStruct ''rcu_data'' False [
    Plain ''gp_seq'' (TInt I64 False),
    Plain ''gp_seq_needed'' (TInt I64 False),
    Plain ''cpu_no_qs'' un_rcu_noqs,
    Plain ''core_needs_qs'' td_bool,
    Plain ''beenonline'' td_bool,
    Plain ''gpwrap'' td_bool,
    Plain ''gpwrap_count'' (TInt I32 False),
    Plain ''cpu_started'' td_bool,
    Plain ''mynode'' (TPtr ''struct rcu_node''),
    Plain ''grpmask'' (TInt I64 False),
    Plain ''ticks_this_gp'' (TInt I64 False),
    Plain ''defer_qs_iw'' st_irq_work,
    Plain ''defer_qs_pending'' (TInt I32 True),
    Plain ''strict_work'' st_work_struct,
    Plain ''cblist'' st_rcu_segcblist,
    Plain ''qlen_last_fqs_check'' (TInt I64 True),
    Plain ''n_cbs_invoked'' (TInt I64 False),
    Plain ''n_force_qs_snap'' (TInt I64 False),
    Plain ''blimit'' (TInt I64 True),
    Plain ''watching_snap'' (TInt I32 True),
    Plain ''rcu_need_heavy_qs'' td_bool,
    Plain ''rcu_urgent_qs'' td_bool,
    Plain ''rcu_forced_tick'' td_bool,
    Plain ''rcu_forced_tick_exp'' td_bool,
    Plain ''barrier_seq_snap'' (TInt I64 False),
    Plain ''barrier_head'' st_callback_head,
    Plain ''exp_watching_snap'' (TInt I32 True),
    Plain ''nocb_cb_wq'' st_swait_queue_head,
    Plain ''nocb_state_wq'' st_swait_queue_head,
    Plain ''nocb_gp_kthread'' (TPtr ''struct task_struct''),
    Plain ''nocb_lock'' td_raw_spinlock_t,
    Plain ''nocb_defer_wakeup'' (TInt I32 True),
    Plain ''nocb_timer'' st_timer_list,
    Plain ''nocb_gp_adv_time'' (TInt I64 False),
    Plain ''nocb_gp_kthread_mutex'' st_mutex,
    Bits '''' (TInt I64 True) 64,
    Bits '''' (TInt I64 True) 64,
    Bits '''' (TInt I64 True) 64,
    Bits '''' (TInt I64 True) 64,
    Bits '''' (TInt I64 True) 64,
    Bits '''' (TInt I64 True) 64,
    Plain ''nocb_bypass_lock'' td_raw_spinlock_t,
    Plain ''nocb_bypass'' st_rcu_cblist,
    Plain ''nocb_bypass_first'' (TInt I64 False),
    Plain ''nocb_nobypass_last'' (TInt I64 False),
    Plain ''nocb_nobypass_count'' (TInt I32 True),
    Bits '''' (TInt I64 True) 64,
    Plain ''nocb_gp_lock'' td_raw_spinlock_t,
    Plain ''nocb_gp_sleep'' td_u8,
    Plain ''nocb_gp_bypass'' td_u8,
    Plain ''nocb_gp_gp'' td_u8,
    Plain ''nocb_gp_seq'' (TInt I64 False),
    Plain ''nocb_gp_loops'' (TInt I64 False),
    Plain ''nocb_gp_wq'' st_swait_queue_head,
    Plain ''nocb_cb_sleep'' td_bool,
    Plain ''nocb_cb_kthread'' (TPtr ''struct task_struct''),
    Plain ''nocb_head_rdp'' st_list_head,
    Plain ''nocb_entry_rdp'' st_list_head,
    Plain ''nocb_toggling_rdp'' (TPtr ''struct rcu_data''),
    Bits '''' (TInt I64 True) 64,
    Bits '''' (TInt I64 True) 64,
    Bits '''' (TInt I64 True) 64,
    Plain ''nocb_gp_rdp'' (TPtr ''struct rcu_data''),
    Plain ''rcu_cpu_kthread_task'' (TPtr ''struct task_struct''),
    Plain ''rcu_cpu_kthread_status'' (TInt I32 False),
    Plain ''rcu_cpu_has_work'' (TInt I8 True),
    Plain ''rcuc_activity'' (TInt I64 False),
    Plain ''softirq_snap'' (TInt I32 False),
    Plain ''rcu_iw'' st_irq_work,
    Plain ''rcu_iw_pending'' td_bool,
    Plain ''rcu_iw_gp_seq'' (TInt I64 False),
    Plain ''rcu_ofl_gp_seq'' (TInt I64 False),
    Plain ''rcu_ofl_gp_state'' (TInt I16 True),
    Plain ''rcu_onl_gp_seq'' (TInt I64 False),
    Plain ''rcu_onl_gp_state'' (TInt I16 True),
    Plain ''last_fqs_resched'' (TInt I64 False),
    Plain ''last_sched_clock'' (TInt I64 False),
    Plain ''snap_record'' st_rcu_snap_record,
    Plain ''lazy_len'' (TInt I64 True),
    Plain ''cpu'' (TInt I32 True),
    Bits '''' (TInt I64 True) 64,
    Bits '''' (TInt I64 True) 64,
    Bits '''' (TInt I64 True) 64,
    Bits '''' (TInt I64 True) 64,
    Bits '''' (TInt I64 True) 64]"

definition st_rio_switch :: ty where
  "st_rio_switch = TStruct ''rio_switch'' False [
    Plain ''node'' st_list_head,
    Plain ''route_table'' (TPtr ''u8''),
    Plain ''port_ok'' td_u32,
    Plain ''ops'' (TPtr ''struct rio_switch_ops''),
    Plain ''lock'' td_spinlock_t,
    Plain ''nextdev'' (TArr (TPtr ''struct rio_dev'') 0)]"

definition st_root_domain :: ty where
  "st_root_domain = TStruct ''root_domain'' False [
    Plain ''refcount'' td_atomic_t,
    Plain ''rto_count'' td_atomic_t,
    Plain ''rcu'' st_callback_head,
    Plain ''span'' td_cpumask_var_t,
    Plain ''online'' td_cpumask_var_t,
    Plain ''overloaded'' td_bool,
    Plain ''overutilized'' td_bool,
    Plain ''dlo_mask'' td_cpumask_var_t,
    Plain ''dlo_count'' td_atomic_t,
    Plain ''dl_bw'' st_dl_bw,
    Plain ''cpudl'' st_cpudl,
    Plain ''visit_cookie'' td_u64,
    Plain ''rto_push_work'' st_irq_work,
    Plain ''rto_lock'' td_raw_spinlock_t,
    Plain ''rto_loop'' (TInt I32 True),
    Plain ''rto_cpu'' (TInt I32 True),
    Plain ''rto_loop_next'' td_atomic_t,
    Plain ''rto_loop_start'' td_atomic_t,
    Plain ''rto_mask'' td_cpumask_var_t,
    Plain ''cpupri'' st_cpupri,
    Plain ''pd'' (TPtr ''struct perf_domain'')]"

definition st_rpc_clnt :: ty where
  "st_rpc_clnt = TStruct ''rpc_clnt'' False [
    Plain ''cl_count'' td_refcount_t,
    Plain ''cl_clid'' (TInt I32 False),
    Plain ''cl_clients'' st_list_head,
    Plain ''cl_tasks'' st_list_head,
    Plain ''cl_pid'' td_atomic_t,
    Plain ''cl_lock'' td_spinlock_t,
    Plain ''cl_xprt'' (TPtr ''struct rpc_xprt''),
    Plain ''cl_procinfo'' (TPtr ''struct rpc_procinfo''),
    Plain ''cl_prog'' td_u32,
    Plain ''cl_vers'' td_u32,
    Plain ''cl_maxproc'' td_u32,
    Plain ''cl_auth'' (TPtr ''struct rpc_auth''),
    Plain ''cl_stats'' (TPtr ''struct rpc_stat''),
    Plain ''cl_metrics'' (TPtr ''struct rpc_iostats''),
    Bits ''cl_softrtry'' (TInt I32 False) 1,
    Bits ''cl_softerr'' (TInt I32 False) 1,
    Bits ''cl_discrtry'' (TInt I32 False) 1,
    Bits ''cl_noretranstimeo'' (TInt I32 False) 1,
    Bits ''cl_autobind'' (TInt I32 False) 1,
    Bits ''cl_chatty'' (TInt I32 False) 1,
    Bits ''cl_shutdown'' (TInt I32 False) 1,
    Bits ''cl_netunreach_fatal'' (TInt I32 False) 1,
    Plain ''cl_xprtsec'' st_xprtsec_parms,
    Plain ''cl_rtt'' (TPtr ''struct rpc_rtt''),
    Plain ''cl_timeout'' (TPtr ''struct rpc_timeout''),
    Plain ''cl_swapper'' td_atomic_t,
    Plain ''cl_nodelen'' (TInt I32 True),
    Plain ''cl_nodename'' (TArr (TInt I8 True) 65),
    Plain ''cl_pipedir_objects'' st_rpc_pipe_dir_head,
    Plain ''cl_parent'' (TPtr ''struct rpc_clnt''),
    Plain ''cl_rtt_default'' st_rpc_rtt,
    Plain ''cl_timeout_default'' st_rpc_timeout,
    Plain ''cl_program'' (TPtr ''struct rpc_program''),
    Plain ''cl_principal'' (TPtr ''char''),
    Plain ''cl_debugfs'' (TPtr ''struct dentry''),
    Plain ''cl_sysfs'' (TPtr ''struct rpc_sysfs_client''),
    Plain '''' (TUnion '''' False [
      Plain ''cl_xpi'' st_rpc_xprt_iter,
      Plain ''cl_work'' st_work_struct]),
    Plain ''cl_cred'' (TPtr ''struct cred''),
    Plain ''cl_max_connect'' (TInt I32 False),
    Plain ''pipefs_sb'' (TPtr ''struct super_block''),
    Plain ''cl_task_count'' td_atomic_t]"

definition st_rpc_xprt_switch :: ty where
  "st_rpc_xprt_switch = TStruct ''rpc_xprt_switch'' False [
    Plain ''xps_lock'' td_spinlock_t,
    Plain ''xps_kref'' st_kref,
    Plain ''xps_id'' (TInt I32 False),
    Plain ''xps_nxprts'' (TInt I32 False),
    Plain ''xps_nactive'' (TInt I32 False),
    Plain ''xps_nunique_destaddr_xprts'' (TInt I32 False),
    Plain ''xps_queuelen'' td_atomic_long_t,
    Plain ''xps_xprt_list'' st_list_head,
    Plain ''xps_net'' (TPtr ''struct net''),
    Plain ''xps_iter_ops'' (TPtr ''struct rpc_xprt_iter_ops''),
    Plain ''xps_sysfs'' (TPtr ''struct rpc_sysfs_xprt_switch''),
    Plain ''xps_rcu'' st_callback_head]"

definition st_scx_rq :: ty where
  "st_scx_rq = TStruct ''scx_rq'' False [
    Plain ''local_dsq'' st_scx_dispatch_q,
    Plain ''runnable_list'' st_list_head,
    Plain ''ddsp_deferred_locals'' st_list_head,
    Plain ''ops_qseq'' (TInt I64 False),
    Plain ''extra_enq_flags'' td_u64,
    Plain ''nr_running'' td_u32,
    Plain ''cpuperf_target'' td_u32,
    Plain ''cpu_released'' td_bool,
    Plain ''flags'' td_u32,
    Plain ''clock'' td_u64,
    Plain ''cpus_to_kick'' td_cpumask_var_t,
    Plain ''cpus_to_kick_if_idle'' td_cpumask_var_t,
    Plain ''cpus_to_preempt'' td_cpumask_var_t,
    Plain ''cpus_to_wait'' td_cpumask_var_t,
    Plain ''cpus_to_sync'' td_cpumask_var_t,
    Plain ''kick_sync_pending'' td_bool,
    Plain ''kick_sync'' (TInt I64 False),
    Plain ''reenq_local_deferred'' td_local_t,
    Plain ''deferred_bal_cb'' st_balance_callback,
    Plain ''kick_sync_bal_cb'' st_balance_callback,
    Plain ''deferred_irq_work'' st_irq_work,
    Plain ''kick_cpus_irq_work'' st_irq_work,
    Plain ''bypass_dsq'' st_scx_dispatch_q]"

definition st_scsi_cd :: ty where
  "st_scsi_cd = TStruct ''scsi_cd'' False [
    Plain ''capacity'' (TInt I32 False),
    Plain ''device'' (TPtr ''struct scsi_device''),
    Plain ''vendor'' (TInt I32 False),
    Plain ''ms_offset'' (TInt I64 False),
    Bits ''writeable'' (TInt I32 False) 1,
    Bits ''use'' (TInt I32 False) 1,
    Bits ''xa_flag'' (TInt I32 False) 1,
    Bits ''readcd_known'' (TInt I32 False) 1,
    Bits ''readcd_cdda'' (TInt I32 False) 1,
    Bits ''media_present'' (TInt I32 False) 1,
    Plain ''tur_mismatch'' (TInt I32 True),
    Bits ''tur_changed'' td_bool 1,
    Bits ''get_event_changed'' td_bool 1,
    Bits ''ignore_get_event'' td_bool 1,
    Plain ''cdi'' st_cdrom_device_info,
    Plain ''lock'' st_mutex,
    Plain ''disk'' (TPtr ''struct gendisk'')]"

definition st_sem :: ty where
  "st_sem = TStruct ''sem'' False [
    Plain ''semval'' (TInt I32 True),
    Plain ''sempid'' (TPtr ''struct pid''),
    Plain ''lock'' td_spinlock_t,
    Plain ''pending_alter'' st_list_head,
    Plain ''pending_const'' st_list_head,
    Plain ''sem_otime'' td_time64_t]"

definition st_shmem_sb_info :: ty where
  "st_shmem_sb_info = TStruct ''shmem_sb_info'' False [
    Plain ''max_blocks'' (TInt I64 False),
    Plain ''used_blocks'' st_percpu_counter,
    Plain ''max_inodes'' (TInt I64 False),
    Plain ''free_ispace'' (TInt I64 False),
    Plain ''stat_lock'' td_raw_spinlock_t,
    Plain ''mode'' td_umode_t,
    Plain ''huge'' (TInt I8 False),
    Plain ''uid'' td_kuid_t,
    Plain ''gid'' td_kgid_t,
    Plain ''full_inums'' td_bool,
    Plain ''noswap'' td_bool,
    Plain ''next_ino'' td_ino_t,
    Plain ''ino_batch'' (TPtr ''ino_t''),
    Plain ''mpol'' (TPtr ''struct mempolicy''),
    Plain ''shrinklist_lock'' td_spinlock_t,
    Plain ''shrinklist'' st_list_head,
    Plain ''shrinklist_len'' (TInt I64 False),
    Plain ''qlimits'' st_shmem_quota_limits]"

definition st_slot___2 :: ty where
  "st_slot___2 = TStruct ''slot___2'' False [
    Plain ''bus'' td_u8,
    Plain ''device'' td_u8,
    Plain ''status'' td_u16,
    Plain ''number'' td_u32,
    Plain ''is_a_board'' td_u8,
    Plain ''state'' td_u8,
    Plain ''attention_save'' td_u8,
    Plain ''presence_save'' td_u8,
    Plain ''latch_save'' td_u8,
    Plain ''pwr_save'' td_u8,
    Plain ''ctrl'' (TPtr ''struct controller___2''),
    Plain ''hotplug_slot'' st_hotplug_slot,
    Plain ''slot_list'' st_list_head,
    Plain ''work'' st_delayed_work,
    Plain ''lock'' st_mutex,
    Plain ''wq'' (TPtr ''struct workqueue_struct''),
    Plain ''hp_slot'' td_u8]"

definition st_squashfs_sb_info :: ty where
  "st_squashfs_sb_info = TStruct ''squashfs_sb_info'' False [
    Plain ''decompressor'' (TPtr ''struct squashfs_decompressor''),
    Plain ''devblksize'' (TInt I32 True),
    Plain ''devblksize_log2'' (TInt I32 True),
    Plain ''block_cache'' (TPtr ''struct squashfs_cache''),
    Plain ''fragment_cache'' (TPtr ''struct squashfs_cache''),
    Plain ''read_page'' (TPtr ''struct squashfs_cache''),
    Plain ''cache_mapping'' (TPtr ''struct address_space''),
    Plain ''next_meta_index'' (TInt I32 True),
    Plain ''id_table'' (TPtr ''__le64''),
    Plain ''fragment_index'' (TPtr ''__le64''),
    Plain ''xattr_id_table'' (TPtr ''__le64''),
    Plain ''meta_index_mutex'' st_mutex,
    Plain ''meta_index'' (TPtr ''struct meta_index''),
    Plain ''stream'' (TPtr ''void''),
    Plain ''inode_lookup_table'' (TPtr ''__le64''),
    Plain ''inode_table'' td_u64,
    Plain ''directory_table'' td_u64,
    Plain ''xattr_table'' td_u64,
    Plain ''block_size'' (TInt I32 False),
    Plain ''block_log'' (TInt I16 False),
    Plain ''bytes_used'' (TInt I64 True),
    Plain ''inodes'' (TInt I32 False),
    Plain ''fragments'' (TInt I32 False),
    Plain ''xattr_ids'' (TInt I32 False),
    Plain ''ids'' (TInt I32 False),
    Plain ''panic_on_errors'' td_bool,
    Plain ''thread_ops'' (TPtr ''struct squashfs_decompressor_thread_ops''),
    Plain ''max_thread_num'' (TInt I32 True)]"

definition st_sugov_policy :: ty where
  "st_sugov_policy = TStruct ''sugov_policy'' False [
    Plain ''policy'' (TPtr ''struct cpufreq_policy''),
    Plain ''tunables'' (TPtr ''struct sugov_tunables''),
    Plain ''tunables_hook'' st_list_head,
    Plain ''update_lock'' td_raw_spinlock_t,
    Plain ''last_freq_update_time'' td_u64,
    Plain ''freq_update_delay_ns'' td_s64,
    Plain ''next_freq'' (TInt I32 False),
    Plain ''cached_raw_freq'' (TInt I32 False),
    Plain ''irq_work'' st_irq_work,
    Plain ''work'' st_kthread_work,
    Plain ''work_lock'' st_mutex,
    Plain ''worker'' st_kthread_worker,
    Plain ''thread'' (TPtr ''struct task_struct''),
    Plain ''work_in_progress'' td_bool,
    Plain ''limits_changed'' td_bool,
    Plain ''need_freq_update'' td_bool]"

definition st_task_group :: ty where
  "st_task_group = TStruct ''task_group'' False [
    Plain ''css'' st_cgroup_subsys_state,
    Plain ''idle'' (TInt I32 True),
    Plain ''se'' (TPtr ''struct sched_entity *''),
    Plain ''cfs_rq'' (TPtr ''struct cfs_rq *''),
    Plain ''shares'' (TInt I64 False),
    Bits '''' (TInt I64 True) 64,
    Bits '''' (TInt I64 True) 64,
    Plain ''load_avg'' td_atomic_long_t,
    Plain ''scx'' st_scx_task_group,
    Plain ''rcu'' st_callback_head,
    Plain ''list'' st_list_head,
    Plain ''parent'' (TPtr ''struct task_group''),
    Plain ''siblings'' st_list_head,
    Plain ''children'' st_list_head,
    Plain ''autogroup'' (TPtr ''struct autogroup''),
    Plain ''cfs_bandwidth'' st_cfs_bandwidth,
    Plain ''uclamp_pct'' (TArr (TInt I32 False) 2),
    Plain ''uclamp_req'' (TArr st_uclamp_se 2),
    Plain ''uclamp'' (TArr st_uclamp_se 2),
    Bits '''' (TInt I64 True) 64,
    Bits '''' (TInt I64 True) 64,
    Bits '''' (TInt I64 True) 64,
    Bits '''' (TInt I64 True) 64,
    Bits '''' (TInt I64 True) 64,
    Bits '''' (TInt I64 True) 64,
    Bits '''' (TInt I64 True) 64]"

definition st_tc_action :: ty where
  "st_tc_action = TStruct ''tc_action'' False [
    Plain ''ops'' (TPtr ''struct tc_action_ops''),
    Plain ''type'' td___u32,
    Plain ''idrinfo'' (TPtr ''struct tcf_idrinfo''),
    Plain ''tcfa_index'' td_u32,
    Plain ''tcfa_refcnt'' td_refcount_t,
    Plain ''tcfa_bindcnt'' td_atomic_t,
    Plain ''tcfa_action'' (TInt I32 True),
    Plain ''tcfa_tm'' st_tcf_t,
    Bits '''' (TInt I64 True) 64,
    Plain ''tcfa_bstats'' st_gnet_stats_basic_sync,
    Plain ''tcfa_bstats_hw'' st_gnet_stats_basic_sync,
    Plain ''tcfa_drops'' td_atomic_t,
    Plain ''tcfa_overlimits'' td_atomic_t,
    Plain ''tcfa_rate_est'' (TPtr ''struct net_rate_estimator''),
    Plain ''tcfa_lock'' td_spinlock_t,
    Plain ''cpu_bstats'' (TPtr ''struct gnet_stats_basic_sync''),
    Plain ''cpu_bstats_hw'' (TPtr ''struct gnet_stats_basic_sync''),
    Plain ''cpu_qstats'' (TPtr ''struct gnet_stats_queue''),
    Plain ''user_cookie'' (TPtr ''struct tc_cookie''),
    Plain ''goto_chain'' (TPtr ''struct tcf_chain''),
    Plain ''tcfa_flags'' td_u32,
    Plain ''hw_stats'' td_u8,
    Plain ''used_hw_stats'' td_u8,
    Plain ''used_hw_stats_valid'' td_bool,
    Plain ''in_hw_count'' td_u32]"

definition st_tcf_chain :: ty where
  "st_tcf_chain = TStruct ''tcf_chain'' False [
    Plain ''filter_chain_lock'' st_mutex,
    Plain ''filter_chain'' (TPtr ''struct tcf_proto''),
    Plain ''list'' st_list_head,
    Plain ''block'' (TPtr ''struct tcf_block''),
    Plain ''index'' td_u32,
    Plain ''refcnt'' (TInt I32 False),
    Plain ''action_refcnt'' (TInt I32 False),
    Plain ''explicitly_created'' td_bool,
    Plain ''flushing'' td_bool,
    Plain ''tmplt_ops'' (TPtr ''struct tcf_proto_ops''),
    Plain ''tmplt_priv'' (TPtr ''void''),
    Plain ''rcu'' st_callback_head]"

definition st_tcf_proto :: ty where
  "st_tcf_proto = TStruct ''tcf_proto'' False [
    Plain ''next'' (TPtr ''struct tcf_proto''),
    Plain ''root'' (TPtr ''void''),
    Plain ''classify''
      (TFun ''int (*)(struct sk_buff *, const struct tcf_proto *, struct tcf_result *)''),
    Plain ''protocol'' td___be16,
    Plain ''prio'' td_u32,
    Plain ''data'' (TPtr ''void''),
    Plain ''ops'' (TPtr ''struct tcf_proto_ops''),
    Plain ''chain'' (TPtr ''struct tcf_chain''),
    Plain ''lock'' td_spinlock_t,
    Plain ''deleting'' td_bool,
    Plain ''counted'' td_bool,
    Plain ''usesw'' td_bool,
    Plain ''refcnt'' td_refcount_t,
    Plain ''rcu'' st_callback_head,
    Plain ''destroy_ht_node'' st_hlist_node]"

definition st_tomoyo_io_buffer :: ty where
  "st_tomoyo_io_buffer = TStruct ''tomoyo_io_buffer'' False [
    Plain ''read'' (TFun ''void (*)(struct tomoyo_io_buffer *)''),
    Plain ''write'' (TFun ''int (*)(struct tomoyo_io_buffer *)''),
    Plain ''poll'' (TFun ''__poll_t (*)(struct file *, poll_table *)''),
    Plain ''io_sem'' st_mutex,
    Plain ''read_user_buf'' (TPtr ''char''),
    Plain ''read_user_buf_avail'' td_size_t,
    Plain ''r'' (TStruct '''' False [
      Plain ''ns'' (TPtr ''struct list_head''),
      Plain ''domain'' (TPtr ''struct list_head''),
      Plain ''group'' (TPtr ''struct list_head''),
      Plain ''acl'' (TPtr ''struct list_head''),
      Plain ''avail'' td_size_t,
      Plain ''step'' (TInt I32 False),
      Plain ''query_index'' (TInt I32 False),
      Plain ''index'' td_u16,
      Plain ''cond_index'' td_u16,
      Plain ''acl_group_index'' td_u8,
      Plain ''cond_step'' td_u8,
      Plain ''bit'' td_u8,
      Plain ''w_pos'' td_u8,
      Plain ''eof'' td_bool,
      Plain ''print_this_domain_only'' td_bool,
      Plain ''print_transition_related_only'' td_bool,
      Plain ''print_cond_part'' td_bool,
      Plain ''w'' (TArr (TPtr ''char'') 64)]),
    Plain ''w'' (TStruct '''' False [
      Plain ''ns'' (TPtr ''struct tomoyo_policy_namespace''),
      Plain ''domain'' (TPtr ''struct tomoyo_domain_info''),
      Plain ''avail'' td_size_t,
      Plain ''is_delete'' td_bool]),
    Plain ''read_buf'' (TPtr ''char''),
    Plain ''readbuf_size'' td_size_t,
    Plain ''write_buf'' (TPtr ''char''),
    Plain ''writebuf_size'' td_size_t,
    Plain ''type'' (TEnum ''tomoyo_securityfs_interface_index'' I32),
    Plain ''users'' td_u8,
    Plain ''list'' st_list_head]"

definition st_trace_array :: ty where
  "st_trace_array = TStruct ''trace_array'' False [
    Plain ''list'' st_list_head,
    Plain ''name'' (TPtr ''char''),
    Plain ''array_buffer'' st_array_buffer,
    Plain ''snapshot_buffer'' st_array_buffer,
    Plain ''allocated_snapshot'' td_bool,
    Plain ''snapshot_trigger_lock'' td_spinlock_t,
    Plain ''snapshot'' (TInt I32 False),
    Plain ''max_latency'' (TInt I64 False),
    Plain ''d_max_latency'' (TPtr ''struct dentry''),
    Plain ''fsnotify_work'' st_work_struct,
    Plain ''fsnotify_irqwork'' st_irq_work,
    Plain ''mapped'' (TInt I32 False),
    Plain ''range_addr_start'' (TInt I64 False),
    Plain ''range_addr_size'' (TInt I64 False),
    Plain ''range_name'' (TPtr ''char''),
    Plain ''text_delta'' (TInt I64 True),
    Plain ''module_delta'' (TPtr ''struct trace_module_delta''),
    Plain ''scratch'' (TPtr ''void''),
    Plain ''scratch_size'' (TInt I32 True),
    Plain ''buffer_disabled'' (TInt I32 True),
    Plain ''filtered_pids'' (TPtr ''struct trace_pid_list''),
    Plain ''filtered_no_pids'' (TPtr ''struct trace_pid_list''),
    Plain ''max_lock'' td_arch_spinlock_t,
    Plain ''sys_refcount_enter'' (TInt I32 True),
    Plain ''sys_refcount_exit'' (TInt I32 True),
    Plain ''enter_syscall_files'' (TArr (TPtr ''struct trace_event_file'') 472),
    Plain ''exit_syscall_files'' (TArr (TPtr ''struct trace_event_file'') 472),
    Plain ''stop_count'' (TInt I32 True),
    Plain ''clock_id'' (TInt I32 True),
    Plain ''nr_topts'' (TInt I32 True),
    Plain ''clear_trace'' td_bool,
    Plain ''buffer_percent'' (TInt I32 True),
    Plain ''n_err_log_entries'' (TInt I32 False),
    Plain ''current_trace'' (TPtr ''struct tracer''),
    Plain ''current_trace_flags'' (TPtr ''struct tracer_flags''),
    Plain ''trace_flags'' td_u64,
    Plain ''trace_flags_index'' (TArr (TInt I8 False) 64),
    Plain ''flags'' (TInt I32 False),
    Plain ''start_lock'' td_raw_spinlock_t,
    Plain ''system_names'' (TPtr ''char''),
    Plain ''err_log'' st_list_head,
    Plain ''dir'' (TPtr ''struct dentry''),
    Plain ''options'' (TPtr ''struct dentry''),
    Plain ''percpu_dir'' (TPtr ''struct dentry''),
    Plain ''event_dir'' (TPtr ''struct eventfs_inode''),
    Plain ''topts'' (TPtr ''struct trace_options''),
    Plain ''systems'' st_list_head,
    Plain ''events'' st_list_head,
    Plain ''marker_list'' st_list_head,
    Plain ''tracers'' st_list_head,
    Plain ''trace_marker_file'' (TPtr ''struct trace_event_file''),
    Plain ''tracing_cpumask'' td_cpumask_var_t,
    Plain ''pipe_cpumask'' td_cpumask_var_t,
    Plain ''ref'' (TInt I32 True),
    Plain ''trace_ref'' (TInt I32 True),
    Plain ''mod_events'' st_list_head,
    Plain ''ops'' (TPtr ''struct ftrace_ops''),
    Plain ''function_pids'' (TPtr ''struct trace_pid_list''),
    Plain ''function_no_pids'' (TPtr ''struct trace_pid_list''),
    Plain ''gops'' (TPtr ''struct fgraph_ops''),
    Plain ''func_probes'' st_list_head,
    Plain ''mod_trace'' st_list_head,
    Plain ''mod_notrace'' st_list_head,
    Plain ''function_enabled'' (TInt I32 True),
    Plain ''no_filter_buffering_ref'' (TInt I32 True),
    Plain ''syscall_buf_sz'' (TInt I32 False),
    Plain ''hist_vars'' st_list_head,
    Plain ''cond_snapshot'' (TPtr ''struct cond_snapshot''),
    Plain ''last_func_repeats'' (TPtr ''struct trace_func_repeats''),
    Plain ''ring_buffer_expanded'' td_bool]"

definition st_tun_struct :: ty where
  "st_tun_struct = TStruct ''tun_struct'' False [
    Plain ''tfiles'' (TArr (TPtr ''struct tun_file'') 256),
    Plain ''numqueues'' (TInt I32 False),
    Plain ''flags'' (TInt I32 False),
    Plain ''owner'' td_kuid_t,
    Plain ''group'' td_kgid_t,
    Plain ''dev'' (TPtr ''struct net_device''),
    Plain ''set_features'' td_netdev_features_t,
    Plain ''align'' (TInt I32 True),
    Plain ''vnet_hdr_sz'' (TInt I32 True),
    Plain ''sndbuf'' (TInt I32 True),
    Plain ''txflt'' st_tap_filter,
    Plain ''fprog'' st_sock_fprog,
    Plain ''filter_attached'' td_bool,
    Plain ''msg_enable'' td_u32,
    Plain ''lock'' td_spinlock_t,
    Plain ''flows'' (TArr st_hlist_head 1024),
    Plain ''flow_gc_timer'' st_timer_list,
    Plain ''ageing_time'' (TInt I64 False),
    Plain ''numdisabled'' (TInt I32 False),
    Plain ''disabled'' st_list_head,
    Plain ''security'' (TPtr ''void''),
    Plain ''flow_count'' td_u32,
    Plain ''rx_batched'' td_u32,
    Plain ''rx_frame_errors'' td_atomic_long_t,
    Plain ''xdp_prog'' (TPtr ''struct bpf_prog''),
    Plain ''steering_prog'' (TPtr ''struct tun_prog''),
    Plain ''filter_prog'' (TPtr ''struct tun_prog''),
    Plain ''link_ksettings'' st_ethtool_link_ksettings,
    Plain ''file'' (TPtr ''struct file''),
    Plain ''ifr'' (TPtr ''struct ifreq'')]"

definition st_uprobe :: ty where
  "st_uprobe = TStruct ''uprobe'' False [
    Plain ''rb_node'' st_rb_node,
    Plain ''ref'' td_refcount_t,
    Plain ''register_rwsem'' st_rw_semaphore,
    Plain ''consumer_rwsem'' st_rw_semaphore,
    Plain ''pending_list'' st_list_head,
    Plain ''consumers'' st_list_head,
    Plain ''inode'' (TPtr ''struct inode''),
    Plain '''' (TUnion '''' False [
      Plain ''rcu'' st_callback_head,
      Plain ''work'' st_work_struct]),
    Plain ''offset'' td_loff_t,
    Plain ''ref_ctr_offset'' td_loff_t,
    Plain ''flags'' (TInt I64 False),
    Plain ''arch'' st_arch_uprobe]"

definition st_usb_bus :: ty where
  "st_usb_bus = TStruct ''usb_bus'' False [
    Plain ''controller'' (TPtr ''struct device''),
    Plain ''sysdev'' (TPtr ''struct device''),
    Plain ''busnum'' (TInt I32 True),
    Plain ''bus_name'' (TPtr ''char''),
    Plain ''uses_pio_for_control'' td_u8,
    Plain ''otg_port'' td_u8,
    Bits ''is_b_host'' (TInt I32 False) 1,
    Bits ''b_hnp_enable'' (TInt I32 False) 1,
    Bits ''no_stop_on_short'' (TInt I32 False) 1,
    Bits ''no_sg_constraint'' (TInt I32 False) 1,
    Plain ''sg_tablesize'' (TInt I32 False),
    Plain ''devnum_next'' (TInt I32 True),
    Plain ''devnum_next_mutex'' st_mutex,
    Plain ''devmap'' (TArr (TInt I64 False) 2),
    Plain ''root_hub'' (TPtr ''struct usb_device''),
    Plain ''hs_companion'' (TPtr ''struct usb_bus''),
    Plain ''bandwidth_allocated'' (TInt I32 True),
    Plain ''bandwidth_int_reqs'' (TInt I32 True),
    Plain ''bandwidth_isoc_reqs'' (TInt I32 True),
    Plain ''resuming_ports'' (TInt I32 False),
    Plain ''mon_bus'' (TPtr ''struct mon_bus''),
    Plain ''monitored'' (TInt I32 True)]"

definition st_usb_tt :: ty where
  "st_usb_tt = TStruct ''usb_tt'' False [
    Plain ''hub'' (TPtr ''struct usb_device''),
    Plain ''multi'' (TInt I32 True),
    Plain ''think_time'' (TInt I32 False),
    Plain ''hcpriv'' (TPtr ''void''),
    Plain ''lock'' td_spinlock_t,
    Plain ''clear_list'' st_list_head,
    Plain ''clear_work'' st_work_struct]"

definition st_user_namespace :: ty where
  "st_user_namespace = TStruct ''user_namespace'' False [
    Plain ''uid_map'' st_uid_gid_map,
    Plain ''gid_map'' st_uid_gid_map,
    Plain ''projid_map'' st_uid_gid_map,
    Plain ''parent'' (TPtr ''struct user_namespace''),
    Plain ''level'' (TInt I32 True),
    Plain ''owner'' td_kuid_t,
    Plain ''group'' td_kgid_t,
    Bits '''' (TInt I64 True) 64,
    Bits '''' (TInt I64 True) 64,
    Bits '''' (TInt I64 True) 64,
    Bits '''' (TInt I64 True) 64,
    Bits '''' (TInt I64 True) 64,
    Plain ''ns'' st_ns_common,
    Plain ''flags'' (TInt I64 False),
    Plain ''parent_could_setfcap'' td_bool,
    Plain ''keyring_name_list'' st_list_head,
    Plain ''user_keyring_register'' (TPtr ''struct key''),
    Plain ''keyring_sem'' st_rw_semaphore,
    Plain ''persistent_keyring_register'' (TPtr ''struct key''),
    Plain ''work'' st_work_struct,
    Plain ''set'' st_ctl_table_set,
    Plain ''sysctls'' (TPtr ''struct ctl_table_header''),
    Plain ''ucounts'' (TPtr ''struct ucounts''),
    Plain ''ucount_max'' (TArr (TInt I64 True) 12),
    Plain ''rlimit_max'' (TArr (TInt I64 True) 4),
    Plain ''binfmt_misc'' (TPtr ''struct binfmt_misc''),
    Bits '''' (TInt I64 True) 64]"

definition st_vcap_admin :: ty where
  "st_vcap_admin = TStruct ''vcap_admin'' False [
    Plain ''list'' st_list_head,
    Plain ''rules'' st_list_head,
    Plain ''enabled'' st_list_head,
    Plain ''lock'' st_mutex,
    Plain ''vtype'' (TEnum ''vcap_type'' I32),
    Plain ''vinst'' (TInt I32 True),
    Plain ''first_cid'' (TInt I32 True),
    Plain ''last_cid'' (TInt I32 True),
    Plain ''tgt_inst'' (TInt I32 True),
    Plain ''lookups'' (TInt I32 True),
    Plain ''lookups_per_instance'' (TInt I32 True),
    Plain ''last_valid_addr'' (TInt I32 True),
    Plain ''first_valid_addr'' (TInt I32 True),
    Plain ''last_used_addr'' (TInt I32 True),
    Plain ''w32be'' td_bool,
    Plain ''ingress'' td_bool,
    Plain ''cache'' st_vcap_cache_data]"

definition st_virtnet_info :: ty where
  "st_virtnet_info = TStruct ''virtnet_info'' False [
    Plain ''vdev'' (TPtr ''struct virtio_device''),
    Plain ''cvq'' (TPtr ''struct virtqueue''),
    Plain ''dev'' (TPtr ''struct net_device''),
    Plain ''sq'' (TPtr ''struct send_queue''),
    Plain ''rq'' (TPtr ''struct receive_queue''),
    Plain ''status'' (TInt I32 False),
    Plain ''max_queue_pairs'' td_u16,
    Plain ''curr_queue_pairs'' td_u16,
    Plain ''xdp_queue_pairs'' td_u16,
    Plain ''xdp_enabled'' td_bool,
    Plain ''big_packets'' td_bool,
    Plain ''big_packets_num_skbfrags'' (TInt I32 False),
    Plain ''mergeable_rx_bufs'' td_bool,
    Plain ''has_rss'' td_bool,
    Plain ''has_rss_hash_report'' td_bool,
    Plain ''rss_key_size'' td_u8,
    Plain ''rss_indir_table_size'' td_u16,
    Plain ''rss_hash_types_supported'' td_u32,
    Plain ''rss_hash_types_saved'' td_u32,
    Plain ''has_cvq'' td_bool,
    Plain ''cvq_lock'' st_mutex,
    Plain ''any_header_sg'' td_bool,
    Plain ''hdr_len'' td_u8,
    Plain ''tx_tnl'' td_bool,
    Plain ''rx_tnl'' td_bool,
    Plain ''rx_tnl_csum'' td_bool,
    Plain ''config_work'' st_work_struct,
    Plain ''rx_mode_work'' st_work_struct,
    Plain ''rx_mode_work_enabled'' td_bool,
    Plain ''affinity_hint_set'' td_bool,
    Plain ''node'' st_hlist_node,
    Plain ''node_dead'' st_hlist_node,
    Plain ''ctrl'' (TPtr ''struct control_buf''),
    Plain ''duplex'' td_u8,
    Plain ''speed'' td_u32,
    Plain ''rx_dim_enabled'' td_bool,
    Plain ''intr_coal_tx'' st_virtnet_interrupt_coalesce,
    Plain ''intr_coal_rx'' st_virtnet_interrupt_coalesce,
    Plain ''guest_offloads'' (TInt I64 False),
    Plain ''guest_offloads_capable'' (TInt I64 False),
    Plain ''failover'' (TPtr ''struct failover''),
    Plain ''device_stats_cap'' td_u64,
    Plain ''rss_hdr'' (TPtr ''struct virtio_net_rss_config_hdr''),
    Plain '''' (TUnion '''' False [
      Plain ''rss_trailer'' st_virtio_net_rss_config_trailer,
      Plain '''' (TStruct '''' False [
        Plain ''__offset_to_FAM'' (TArr (TInt I8 False) 3),
        Plain ''rss_hash_key_data'' (TArr td_u8 256)])])]"

definition st_wakeup_source :: ty where
  "st_wakeup_source = TStruct ''wakeup_source'' False [
    Plain ''name'' (TPtr ''char''),
    Plain ''id'' (TInt I32 True),
    Plain ''entry'' st_list_head,
    Plain ''lock'' td_spinlock_t,
    Plain ''wakeirq'' (TPtr ''struct wake_irq''),
    Plain ''timer'' st_timer_list,
    Plain ''timer_expires'' (TInt I64 False),
    Plain ''total_time'' td_ktime_t,
    Plain ''max_time'' td_ktime_t,
    Plain ''last_time'' td_ktime_t,
    Plain ''start_prevent_time'' td_ktime_t,
    Plain ''prevent_sleep_time'' td_ktime_t,
    Plain ''event_count'' (TInt I64 False),
    Plain ''active_count'' (TInt I64 False),
    Plain ''relax_count'' (TInt I64 False),
    Plain ''expire_count'' (TInt I64 False),
    Plain ''wakeup_count'' (TInt I64 False),
    Plain ''dev'' (TPtr ''struct device''),
    Bits ''active'' td_bool 1,
    Bits ''autosleep_enabled'' td_bool 1]"

definition st_workqueue_struct :: ty where
  "st_workqueue_struct = TStruct ''workqueue_struct'' False [
    Plain ''pwqs'' st_list_head,
    Plain ''list'' st_list_head,
    Plain ''mutex'' st_mutex,
    Plain ''work_color'' (TInt I32 True),
    Plain ''flush_color'' (TInt I32 True),
    Plain ''nr_pwqs_to_flush'' td_atomic_t,
    Plain ''first_flusher'' (TPtr ''struct wq_flusher''),
    Plain ''flusher_queue'' st_list_head,
    Plain ''flusher_overflow'' st_list_head,
    Plain ''maydays'' st_list_head,
    Plain ''rescuer'' (TPtr ''struct worker''),
    Plain ''nr_drainers'' (TInt I32 True),
    Plain ''max_active'' (TInt I32 True),
    Plain ''min_active'' (TInt I32 True),
    Plain ''saved_max_active'' (TInt I32 True),
    Plain ''saved_min_active'' (TInt I32 True),
    Plain ''unbound_attrs'' (TPtr ''struct workqueue_attrs''),
    Plain ''dfl_pwq'' (TPtr ''struct pool_workqueue''),
    Plain ''wq_dev'' (TPtr ''struct wq_device''),
    Plain ''name'' (TArr (TInt I8 True) 32),
    Plain ''rcu'' st_callback_head,
    Bits '''' (TInt I64 True) 64,
    Bits '''' (TInt I64 True) 64,
    Plain ''flags'' (TInt I32 False),
    Plain ''cpu_pwq'' (TPtr ''struct pool_workqueue *''),
    Plain ''node_nr_active'' (TArr (TPtr ''struct wq_node_nr_active'') 0),
    Bits '''' (TInt I64 True) 64,
    Bits '''' (TInt I64 True) 64,
    Bits '''' (TInt I64 True) 64,
    Bits '''' (TInt I64 True) 64,
    Bits '''' (TInt I64 True) 64,
    Bits '''' (TInt I64 True) 64]"

definition st_wpan_dev :: ty where
  "st_wpan_dev = TStruct ''wpan_dev'' False [
    Plain ''wpan_phy'' (TPtr ''struct wpan_phy''),
    Plain ''iftype'' (TInt I32 True),
    Plain ''list'' st_list_head,
    Plain ''netdev'' (TPtr ''struct net_device''),
    Plain ''header_ops'' (TPtr ''struct wpan_dev_header_ops''),
    Plain ''lowpan_dev'' (TPtr ''struct net_device''),
    Plain ''identifier'' td_u32,
    Plain ''pan_id'' td___le16,
    Plain ''short_addr'' td___le16,
    Plain ''extended_addr'' td___le64,
    Plain ''bsn'' td_atomic_t,
    Plain ''dsn'' td_atomic_t,
    Plain ''min_be'' td_u8,
    Plain ''max_be'' td_u8,
    Plain ''csma_retries'' td_u8,
    Plain ''frame_retries'' td_s8,
    Plain ''lbt'' td_bool,
    Plain ''ackreq'' td_bool,
    Plain ''association_lock'' st_mutex,
    Plain ''parent'' (TPtr ''struct ieee802154_pan_device''),
    Plain ''children'' st_list_head,
    Plain ''max_associations'' (TInt I32 False),
    Plain ''nchildren'' (TInt I32 False)]"

definition st_xfrm_state :: ty where
  "st_xfrm_state = TStruct ''xfrm_state'' False [
    Plain ''xs_net'' td_possible_net_t,
    Plain '''' (TUnion '''' False [
      Plain ''gclist'' st_hlist_node,
      Plain ''bydst'' st_hlist_node]),
    Plain '''' (TUnion '''' False [
      Plain ''dev_gclist'' st_hlist_node,
      Plain ''bysrc'' st_hlist_node]),
    Plain ''byspi'' st_hlist_node,
    Plain ''byseq'' st_hlist_node,
    Plain ''state_cache'' st_hlist_node,
    Plain ''state_cache_input'' st_hlist_node,
    Plain ''refcnt'' td_refcount_t,
    Plain ''lock'' td_spinlock_t,
    Plain ''pcpu_num'' td_u32,
    Plain ''id'' st_xfrm_id,
    Plain ''sel'' st_xfrm_selector,
    Plain ''mark'' st_xfrm_mark,
    Plain ''if_id'' td_u32,
    Plain ''tfcpad'' td_u32,
    Plain ''genid'' td_u32,
    Plain ''km'' st_xfrm_state_walk,
    Plain ''props'' (TStruct '''' False [
      Plain ''reqid'' td_u32,
      Plain ''mode'' td_u8,
      Plain ''replay_window'' td_u8,
      Plain ''aalgo'' td_u8,
      Plain ''ealgo'' td_u8,
      Plain ''calgo'' td_u8,
      Plain ''flags'' td_u8,
      Plain ''family'' td_u16,
      Plain ''saddr'' td_xfrm_address_t,
      Plain ''header_len'' (TInt I32 True),
      Plain ''enc_hdr_len'' (TInt I32 True),
      Plain ''trailer_len'' (TInt I32 True),
      Plain ''extra_flags'' td_u32,
      Plain ''smark'' st_xfrm_mark]),
    Plain ''lft'' st_xfrm_lifetime_cfg,
    Plain ''aalg'' (TPtr ''struct xfrm_algo_auth''),
    Plain ''ealg'' (TPtr ''struct xfrm_algo''),
    Plain ''calg'' (TPtr ''struct xfrm_algo''),
    Plain ''aead'' (TPtr ''struct xfrm_algo_aead''),
    Plain ''geniv'' (TPtr ''char''),
    Plain ''new_mapping_sport'' td___be16,
    Plain ''new_mapping'' td_u32,
    Plain ''mapping_maxage'' td_u32,
    Plain ''encap'' (TPtr ''struct xfrm_encap_tmpl''),
    Plain ''nat_keepalive_interval'' td_u32,
    Plain ''nat_keepalive_expiration'' td_time64_t,
    Plain ''coaddr'' (TPtr ''xfrm_address_t''),
    Plain ''tunnel'' (TPtr ''struct xfrm_state''),
    Plain ''tunnel_users'' td_atomic_t,
    Plain ''replay'' st_xfrm_replay_state,
    Plain ''replay_esn'' (TPtr ''struct xfrm_replay_state_esn''),
    Plain ''preplay'' st_xfrm_replay_state,
    Plain ''preplay_esn'' (TPtr ''struct xfrm_replay_state_esn''),
    Plain ''repl_mode'' (TEnum ''xfrm_replay_mode'' I32),
    Plain ''xflags'' td_u32,
    Plain ''replay_maxage'' td_u32,
    Plain ''replay_maxdiff'' td_u32,
    Plain ''rtimer'' st_timer_list,
    Plain ''stats'' st_xfrm_stats,
    Plain ''curlft'' st_xfrm_lifetime_cur,
    Plain ''mtimer'' st_hrtimer,
    Plain ''xso'' st_xfrm_dev_offload,
    Plain ''saved_tmo'' (TInt I64 True),
    Plain ''lastused'' td_time64_t,
    Plain ''xfrag'' st_page_frag,
    Plain ''type'' (TPtr ''struct xfrm_type''),
    Plain ''inner_mode'' st_xfrm_mode,
    Plain ''inner_mode_iaf'' st_xfrm_mode,
    Plain ''outer_mode'' st_xfrm_mode,
    Plain ''type_offload'' (TPtr ''struct xfrm_type_offload''),
    Plain ''security'' (TPtr ''struct xfrm_sec_ctx''),
    Plain ''data'' (TPtr ''void''),
    Plain ''dir'' td_u8,
    Plain ''mode_cbs'' (TPtr ''struct xfrm_mode_cbs''),
    Plain ''mode_data'' (TPtr ''void'')]"

definition st_xsk_buff_pool :: ty where
  "st_xsk_buff_pool = TStruct ''xsk_buff_pool'' False [
    Plain ''dev'' (TPtr ''struct device''),
    Plain ''netdev'' (TPtr ''struct net_device''),
    Plain ''xsk_tx_list'' st_list_head,
    Plain ''xsk_tx_list_lock'' td_spinlock_t,
    Plain ''users'' td_refcount_t,
    Plain ''umem'' (TPtr ''struct xdp_umem''),
    Plain ''work'' st_work_struct,
    Plain ''rx_lock'' td_spinlock_t,
    Plain ''free_list'' st_list_head,
    Plain ''xskb_list'' st_list_head,
    Plain ''heads_cnt'' td_u32,
    Plain ''queue_id'' td_u16,
    Plain ''fq'' (TPtr ''struct xsk_queue''),
    Plain ''cq'' (TPtr ''struct xsk_queue''),
    Plain ''dma_pages'' (TPtr ''dma_addr_t''),
    Plain ''heads'' (TPtr ''struct xdp_buff_xsk''),
    Plain ''tx_descs'' (TPtr ''struct xdp_desc''),
    Plain ''chunk_mask'' td_u64,
    Plain ''addrs_cnt'' td_u64,
    Plain ''free_list_cnt'' td_u32,
    Plain ''dma_pages_cnt'' td_u32,
    Plain ''free_heads_cnt'' td_u32,
    Plain ''headroom'' td_u32,
    Plain ''chunk_size'' td_u32,
    Plain ''chunk_shift'' td_u32,
    Plain ''frame_len'' td_u32,
    Plain ''xdp_zc_max_segs'' td_u32,
    Plain ''tx_metadata_len'' td_u8,
    Plain ''cached_need_wakeup'' td_u8,
    Plain ''uses_need_wakeup'' td_bool,
    Plain ''unaligned'' td_bool,
    Plain ''tx_sw_csum'' td_bool,
    Plain ''addrs'' (TPtr ''void''),
    Plain ''cq_prod_lock'' td_spinlock_t,
    Plain ''free_heads'' (TArr (TPtr ''struct xdp_buff_xsk'') 0),
    Bits '''' (TInt I64 True) 64,
    Bits '''' (TInt I64 True) 64]"

definition st_zspage_lock :: ty where
  "st_zspage_lock = TStruct ''zspage_lock'' False [
    Plain ''lock'' td_spinlock_t,
    Plain ''cnt'' (TInt I32 True),
    Plain ''dep_map'' st_lockdep_map]"

end
