(* ===== verification/VmlinuxStruct11.thy ===== *)
theory VmlinuxStruct11
  imports VmlinuxStruct10
begin

text \<open>
  Structures and unions of \<open>src/internal/ebpf/vmlinux.h\<close> (aggregates nested 6 deep), in the
  order of the header: \<open>st_<tag>\<close>, \<open>un_<tag>\<close>, and \<open>td_<name>\<close> for an aggregate with a type name.
\<close>

definition td_wait_queue_head_t :: ty where
  "td_wait_queue_head_t = st_wait_queue_head"

definition st_Qdisc :: ty where
  "st_Qdisc = TStruct ''Qdisc'' False [
    Plain ''enqueue'' (TFun ''int (*)(struct sk_buff *, struct Qdisc *, struct sk_buff **)''),
    Plain ''dequeue'' (TFun ''struct sk_buff * (*)(struct Qdisc *)''),
    Plain ''flags'' (TInt I32 False),
    Plain ''limit'' td_u32,
    Plain ''ops'' (TPtr ''struct Qdisc_ops''),
    Plain ''stab'' (TPtr ''struct qdisc_size_table''),
    Plain ''hash'' st_hlist_node,
    Plain ''handle'' td_u32,
    Plain ''parent'' td_u32,
    Plain ''dev_queue'' (TPtr ''struct netdev_queue''),
    Plain ''rate_est'' (TPtr ''struct net_rate_estimator''),
    Plain ''cpu_bstats'' (TPtr ''struct gnet_stats_basic_sync''),
    Plain ''cpu_qstats'' (TPtr ''struct gnet_stats_queue''),
    Plain ''pad'' (TInt I32 True),
    Plain ''refcnt'' td_refcount_t,
    Bits '''' (TInt I64 True) 64,
    Bits '''' (TInt I64 True) 64,
    Bits '''' (TInt I64 True) 64,
    Plain ''__cacheline_group_begin__Qdisc_read_mostly'' (TArr td___u8 0),
    Plain ''gso_skb'' st_sk_buff_head,
    Plain ''next_sched'' (TPtr ''struct Qdisc''),
    Plain ''skb_bad_txq'' st_sk_buff_head,
    Plain ''__cacheline_group_end__Qdisc_read_mostly'' (TArr td___u8 0),
    Bits '''' (TInt I64 True) 64,
    Plain ''__cacheline_group_begin__Qdisc_write'' (TArr td___u8 0),
    Plain ''q'' st_qdisc_skb_head,
    Plain ''state'' (TInt I64 False),
    Plain ''bstats'' st_gnet_stats_basic_sync,
    Plain ''running'' td_bool,
    Plain ''qstats'' st_gnet_stats_queue,
    Plain ''to_free'' (TPtr ''struct sk_buff''),
    Plain ''__cacheline_group_end__Qdisc_write'' (TArr td___u8 0),
    Bits '''' (TInt I64 True) 64,
    Bits '''' (TInt I64 True) 64,
    Bits '''' (TInt I64 True) 64,
    Bits '''' (TInt I64 True) 64,
    Bits '''' (TInt I64 True) 64,
    Bits '''' (TInt I64 True) 64,
    Plain ''defer_count'' td_atomic_long_t,
    Plain ''defer_list'' st_llist_head,
    Plain ''seqlock'' td_spinlock_t,
    Plain ''rcu'' st_callback_head,
    Plain ''dev_tracker'' td_netdevice_tracker,
    Plain ''root_lock_key'' st_lock_class_key,
    Bits '''' (TInt I64 True) 64,
    Bits '''' (TInt I64 True) 64,
    Bits '''' (TInt I64 True) 64,
    Plain ''privdata'' (TArr (TInt I64 True) 0)]"

definition st_aa_labelset :: ty where
  "st_aa_labelset = TStruct ''aa_labelset'' False [
    Plain ''lock'' td_rwlock_t,
    Plain ''root'' st_rb_root]"

definition st_aa_profile :: ty where
  "st_aa_profile = TStruct ''aa_profile'' False [
    Plain ''base'' st_aa_policy,
    Plain ''parent'' (TPtr ''struct aa_profile''),
    Plain ''ns'' (TPtr ''struct aa_ns''),
    Plain ''rename'' (TPtr ''char''),
    Plain ''audit'' (TEnum ''audit_mode'' I32),
    Plain ''mode'' (TInt I64 True),
    Plain ''path_flags'' td_u32,
    Plain ''signal'' (TInt I32 True),
    Plain ''disconnected'' (TPtr ''char''),
    Plain ''disconnected_ipc'' (TPtr ''char''),
    Plain ''attach'' st_aa_attachment,
    Plain ''net_compat'' (TPtr ''struct aa_net_compat''),
    Plain ''learning_cache'' st_aa_audit_cache,
    Plain ''rawdata'' (TPtr ''struct aa_loaddata''),
    Plain ''hash'' (TPtr ''unsigned char''),
    Plain ''dirname'' (TPtr ''char''),
    Plain ''dents'' (TArr (TPtr ''struct dentry'') 10),
    Plain ''data'' (TPtr ''struct rhashtable''),
    Plain ''n_rules'' (TInt I32 True),
    Plain ''label'' st_aa_label]"

definition st_ida :: ty where
  "st_ida = TStruct ''ida'' False [
    Plain ''xa'' st_xarray]"

definition st_address_space :: ty where
  "st_address_space = TStruct ''address_space'' False [
    Plain ''host'' (TPtr ''struct inode''),
    Plain ''i_pages'' st_xarray,
    Plain ''invalidate_lock'' st_rw_semaphore,
    Plain ''gfp_mask'' td_gfp_t,
    Plain ''i_mmap_writable'' td_atomic_t,
    Plain ''i_mmap'' st_rb_root_cached,
    Plain ''nrpages'' (TInt I64 False),
    Plain ''writeback_index'' (TInt I64 False),
    Plain ''a_ops'' (TPtr ''struct address_space_operations''),
    Plain ''flags'' (TInt I64 False),
    Plain ''wb_err'' td_errseq_t,
    Plain ''i_private_lock'' td_spinlock_t,
    Plain ''i_private_list'' st_list_head,
    Plain ''i_mmap_rwsem'' st_rw_semaphore,
    Plain ''i_private_data'' (TPtr ''void'')]"

definition st_bdi_writeback :: ty where
  "st_bdi_writeback = TStruct ''bdi_writeback'' False [
    Plain ''bdi'' (TPtr ''struct backing_dev_info''),
    Plain ''state'' (TInt I64 False),
    Plain ''last_old_flush'' (TInt I64 False),
    Plain ''b_dirty'' st_list_head,
    Plain ''b_io'' st_list_head,
    Plain ''b_more_io'' st_list_head,
    Plain ''b_dirty_time'' st_list_head,
    Plain ''list_lock'' td_spinlock_t,
    Plain ''writeback_inodes'' td_atomic_t,
    Plain ''stat'' (TArr st_percpu_counter 4),
    Plain ''bw_time_stamp'' (TInt I64 False),
    Plain ''dirtied_stamp'' (TInt I64 False),
    Plain ''written_stamp'' (TInt I64 False),
    Plain ''write_bandwidth'' (TInt I64 False),
    Plain ''avg_write_bandwidth'' (TInt I64 False),
    Plain ''dirty_ratelimit'' (TInt I64 False),
    Plain ''balanced_dirty_ratelimit'' (TInt I64 False),
    Plain ''completions'' st_fprop_local_percpu,
    Plain ''dirty_exceeded'' (TInt I32 True),
    Plain ''start_all_reason'' (TEnum ''wb_reason'' I32),
    Plain ''work_lock'' td_spinlock_t,
    Plain ''work_list'' st_list_head,
    Plain ''dwork'' st_delayed_work,
    Plain ''bw_dwork'' st_delayed_work,
    Plain ''bdi_node'' st_list_head,
    Plain ''refcnt'' st_percpu_ref,
    Plain ''memcg_completions'' st_fprop_local_percpu,
    Plain ''memcg_css'' (TPtr ''struct cgroup_subsys_state''),
    Plain ''blkcg_css'' (TPtr ''struct cgroup_subsys_state''),
    Plain ''memcg_node'' st_list_head,
    Plain ''blkcg_node'' st_list_head,
    Plain ''b_attached'' st_list_head,
    Plain ''offline_node'' st_list_head,
    Plain ''switch_work'' st_work_struct,
    Plain ''switch_wbs_ctxs'' st_llist_head,
    Plain '''' (TUnion '''' False [
      Plain ''release_work'' st_work_struct,
      Plain ''rcu'' st_callback_head])]"

definition td_seqlock_t :: ty where
  "td_seqlock_t = st_seqlock"

definition st_blkcg :: ty where
  "st_blkcg = TStruct ''blkcg'' False [
    Plain ''css'' st_cgroup_subsys_state,
    Plain ''lock'' td_spinlock_t,
    Plain ''online_pin'' td_refcount_t,
    Plain ''congestion_count'' td_atomic_t,
    Plain ''blkg_tree'' st_xarray,
    Plain ''blkg_hint'' (TPtr ''struct blkcg_gq''),
    Plain ''blkg_list'' st_hlist_head,
    Plain ''cpd'' (TArr (TPtr ''struct blkcg_policy_data'') 6),
    Plain ''all_blkcgs_node'' st_list_head,
    Plain ''lhead'' (TPtr ''struct llist_head''),
    Plain ''fc_app_id'' (TArr (TInt I8 True) 129),
    Plain ''cgwb_list'' st_list_head]"

definition st_blkfront_info :: ty where
  "st_blkfront_info = TStruct ''blkfront_info'' False [
    Plain ''mutex'' st_mutex,
    Plain ''xbdev'' (TPtr ''struct xenbus_device''),
    Plain ''gd'' (TPtr ''struct gendisk''),
    Plain ''sector_size'' td_u16,
    Plain ''physical_sector_size'' (TInt I32 False),
    Plain ''vdisk_info'' (TInt I64 False),
    Plain ''vdevice'' (TInt I32 True),
    Plain ''handle'' td_blkif_vdev_t,
    Plain ''connected'' (TEnum ''blkif_state'' I32),
    Plain ''nr_ring_pages'' (TInt I32 False),
    Plain ''rq'' (TPtr ''struct request_queue''),
    Bits ''feature_flush'' (TInt I32 False) 1,
    Bits ''feature_fua'' (TInt I32 False) 1,
    Bits ''feature_discard'' (TInt I32 False) 1,
    Bits ''feature_secdiscard'' (TInt I32 False) 1,
    Bits ''feature_persistent_parm'' (TInt I32 False) 1,
    Bits ''feature_persistent'' (TInt I32 False) 1,
    Bits ''bounce'' (TInt I32 False) 1,
    Plain ''discard_granularity'' (TInt I32 False),
    Plain ''discard_alignment'' (TInt I32 False),
    Plain ''max_indirect_segments'' (TInt I32 False),
    Plain ''is_ready'' (TInt I32 True),
    Plain ''tag_set'' st_blk_mq_tag_set,
    Plain ''rinfo'' (TPtr ''struct blkfront_ring_info''),
    Plain ''nr_rings'' (TInt I32 False),
    Plain ''rinfo_size'' (TInt I32 False),
    Plain ''requests'' st_list_head,
    Plain ''bio_list'' st_bio_list,
    Plain ''info_list'' st_list_head]"

definition st_bpf_array :: ty where
  "st_bpf_array = TStruct ''bpf_array'' False [
    Plain ''map'' st_bpf_map,
    Plain ''elem_size'' td_u32,
    Plain ''index_mask'' td_u32,
    Plain ''aux'' (TPtr ''struct bpf_array_aux''),
    Plain '''' (TUnion '''' False [
      Plain '''' (TStruct '''' False [
        Plain ''__empty_value'' (TStruct '''' False []),
        Plain ''value'' (TArr (TInt I8 True) 0)]),
      Plain '''' (TStruct '''' False [
        Plain ''__empty_ptrs'' (TStruct '''' False []),
        Plain ''ptrs'' (TArr (TPtr ''void'') 0)]),
      Plain '''' (TStruct '''' False [
        Plain ''__empty_pptrs'' (TStruct '''' False []),
        Plain ''pptrs'' (TArr (TPtr ''void'') 0)])])]"

definition st_bpf_prog_aux :: ty where
  "st_bpf_prog_aux = TStruct ''bpf_prog_aux'' False [
    Plain ''refcnt'' td_atomic64_t,
    Plain ''used_map_cnt'' td_u32,
    Plain ''used_btf_cnt'' td_u32,
    Plain ''max_ctx_offset'' td_u32,
    Plain ''max_pkt_offset'' td_u32,
    Plain ''max_tp_access'' td_u32,
    Plain ''stack_depth'' td_u32,
    Plain ''id'' td_u32,
    Plain ''func_cnt'' td_u32,
    Plain ''real_func_cnt'' td_u32,
    Plain ''func_idx'' td_u32,
    Plain ''attach_btf_id'' td_u32,
    Plain ''attach_st_ops_member_off'' td_u32,
    Plain ''ctx_arg_info_size'' td_u32,
    Plain ''max_rdonly_access'' td_u32,
    Plain ''max_rdwr_access'' td_u32,
    Plain ''subprog_start'' td_u32,
    Plain ''attach_btf'' (TPtr ''struct btf''),
    Plain ''ctx_arg_info'' (TPtr ''struct bpf_ctx_arg_aux''),
    Plain ''priv_stack_ptr'' (TPtr ''void''),
    Plain ''dst_mutex'' st_mutex,
    Plain ''dst_prog'' (TPtr ''struct bpf_prog''),
    Plain ''dst_trampoline'' (TPtr ''struct bpf_trampoline''),
    Plain ''saved_dst_prog_type'' (TEnum ''bpf_prog_type'' I32),
    Plain ''saved_dst_attach_type'' (TEnum ''bpf_attach_type'' I32),
    Plain ''verifier_zext'' td_bool,
    Plain ''dev_bound'' td_bool,
    Plain ''offload_requested'' td_bool,
    Plain ''attach_btf_trace'' td_bool,
    Plain ''attach_tracing_prog'' td_bool,
    Plain ''func_proto_unreliable'' td_bool,
    Plain ''tail_call_reachable'' td_bool,
    Plain ''xdp_has_frags'' td_bool,
    Plain ''exception_cb'' td_bool,
    Plain ''exception_boundary'' td_bool,
    Plain ''is_extended'' td_bool,
    Plain ''jits_use_priv_stack'' td_bool,
    Plain ''priv_stack_requested'' td_bool,
    Plain ''changes_pkt_data'' td_bool,
    Plain ''might_sleep'' td_bool,
    Plain ''kprobe_write_ctx'' td_bool,
    Plain ''prog_array_member_cnt'' td_u64,
    Plain ''ext_mutex'' st_mutex,
    Plain ''arena'' (TPtr ''struct bpf_arena''),
    Plain ''recursion_detected'' (TFun ''void (*)(struct bpf_prog *)''),
    Plain ''attach_func_proto'' (TPtr ''struct btf_type''),
    Plain ''attach_func_name'' (TPtr ''char''),
    Plain ''func'' (TPtr ''struct bpf_prog *''),
    Plain ''main_prog_aux'' (TPtr ''struct bpf_prog_aux''),
    Plain ''jit_data'' (TPtr ''void''),
    Plain ''poke_tab'' (TPtr ''struct bpf_jit_poke_descriptor''),
    Plain ''kfunc_tab'' (TPtr ''struct bpf_kfunc_desc_tab''),
    Plain ''kfunc_btf_tab'' (TPtr ''struct bpf_kfunc_btf_tab''),
    Plain ''size_poke_tab'' td_u32,
    Plain ''ksym'' st_bpf_ksym,
    Plain ''ops'' (TPtr ''struct bpf_prog_ops''),
    Plain ''st_ops'' (TPtr ''struct bpf_struct_ops''),
    Plain ''used_maps'' (TPtr ''struct bpf_map *''),
    Plain ''used_maps_mutex'' st_mutex,
    Plain ''used_btfs'' (TPtr ''struct btf_mod_pair''),
    Plain ''prog'' (TPtr ''struct bpf_prog''),
    Plain ''user'' (TPtr ''struct user_struct''),
    Plain ''load_time'' td_u64,
    Plain ''verified_insns'' td_u32,
    Plain ''cgroup_atype'' (TInt I32 True),
    Plain ''cgroup_storage'' (TArr (TPtr ''struct bpf_map'') 2),
    Plain ''name'' (TArr (TInt I8 True) 16),
    Plain ''bpf_exception_cb'' (TFun ''u64 (*)(u64, u64, u64, u64, u64)''),
    Plain ''security'' (TPtr ''void''),
    Plain ''token'' (TPtr ''struct bpf_token''),
    Plain ''offload'' (TPtr ''struct bpf_prog_offload''),
    Plain ''btf'' (TPtr ''struct btf''),
    Plain ''func_info'' (TPtr ''struct bpf_func_info''),
    Plain ''func_info_aux'' (TPtr ''struct bpf_func_info_aux''),
    Plain ''linfo'' (TPtr ''struct bpf_line_info''),
    Plain ''jited_linfo'' (TPtr ''void *''),
    Plain ''func_info_cnt'' td_u32,
    Plain ''nr_linfo'' td_u32,
    Plain ''linfo_idx'' td_u32,
    Plain ''mod'' (TPtr ''struct module''),
    Plain ''num_exentries'' td_u32,
    Plain ''extable'' (TPtr ''struct exception_table_entry''),
    Plain '''' (TUnion '''' False [
      Plain ''work'' st_work_struct,
      Plain ''rcu'' st_callback_head]),
    Plain ''stream'' (TArr st_bpf_stream 2),
    Plain ''st_ops_assoc_mutex'' st_mutex,
    Plain ''st_ops_assoc'' (TPtr ''struct bpf_map'')]"

definition st_bpf_struct_ops_map :: ty where
  "st_bpf_struct_ops_map = TStruct ''bpf_struct_ops_map'' False [
    Plain ''map'' st_bpf_map,
    Plain ''st_ops_desc'' (TPtr ''struct bpf_struct_ops_desc''),
    Plain ''lock'' st_mutex,
    Plain ''links'' (TPtr ''struct bpf_link *''),
    Plain ''ksyms'' (TPtr ''struct bpf_ksym *''),
    Plain ''funcs_cnt'' td_u32,
    Plain ''image_pages_cnt'' td_u32,
    Plain ''image_pages'' (TArr (TPtr ''void'') 8),
    Plain ''btf'' (TPtr ''struct btf''),
    Plain ''uvalue'' (TPtr ''struct bpf_struct_ops_value''),
    Bits '''' (TInt I64 True) 64,
    Bits '''' (TInt I64 True) 64,
    Plain ''kvalue'' st_bpf_struct_ops_value]"

definition st_idr :: ty where
  "st_idr = TStruct ''idr'' False [
    Plain ''idr_rt'' st_xarray,
    Plain ''idr_base'' (TInt I32 False),
    Plain ''idr_next'' (TInt I32 False)]"

definition st_srcu_usage :: ty where
  "st_srcu_usage = TStruct ''srcu_usage'' False [
    Plain ''node'' (TPtr ''struct srcu_node''),
    Plain ''level'' (TArr (TPtr ''struct srcu_node'') 4),
    Plain ''srcu_size_state'' (TInt I32 True),
    Plain ''srcu_cb_mutex'' st_mutex,
    Plain ''lock'' td_raw_spinlock_t,
    Plain ''srcu_gp_mutex'' st_mutex,
    Plain ''srcu_gp_seq'' (TInt I64 False),
    Plain ''srcu_gp_seq_needed'' (TInt I64 False),
    Plain ''srcu_gp_seq_needed_exp'' (TInt I64 False),
    Plain ''srcu_gp_start'' (TInt I64 False),
    Plain ''srcu_last_gp_end'' (TInt I64 False),
    Plain ''srcu_size_jiffies'' (TInt I64 False),
    Plain ''srcu_n_lock_retries'' (TInt I64 False),
    Plain ''srcu_n_exp_nodelay'' (TInt I64 False),
    Plain ''sda_is_static'' td_bool,
    Plain ''srcu_barrier_seq'' (TInt I64 False),
    Plain ''srcu_barrier_mutex'' st_mutex,
    Plain ''srcu_barrier_completion'' st_completion,
    Plain ''srcu_barrier_cpu_cnt'' td_atomic_t,
    Plain ''reschedule_jiffies'' (TInt I64 False),
    Plain ''reschedule_count'' (TInt I64 False),
    Plain ''work'' st_delayed_work,
    Plain ''irq_work'' st_irq_work,
    Plain ''srcu_ssp'' (TPtr ''struct srcu_struct'')]"

definition st_freq_constraints :: ty where
  "st_freq_constraints = TStruct ''freq_constraints'' False [
    Plain ''min_freq'' st_pm_qos_constraints,
    Plain ''min_freq_notifiers'' st_blocking_notifier_head,
    Plain ''max_freq'' st_pm_qos_constraints,
    Plain ''max_freq_notifiers'' st_blocking_notifier_head]"

definition st_cpuhp_cpu_state :: ty where
  "st_cpuhp_cpu_state = TStruct ''cpuhp_cpu_state'' False [
    Plain ''state'' (TEnum ''cpuhp_state'' I32),
    Plain ''target'' (TEnum ''cpuhp_state'' I32),
    Plain ''fail'' (TEnum ''cpuhp_state'' I32),
    Plain ''thread'' (TPtr ''struct task_struct''),
    Plain ''should_run'' td_bool,
    Plain ''rollback'' td_bool,
    Plain ''single'' td_bool,
    Plain ''bringup'' td_bool,
    Plain ''node'' (TPtr ''struct hlist_node''),
    Plain ''last'' (TPtr ''struct hlist_node''),
    Plain ''cb_state'' (TEnum ''cpuhp_state'' I32),
    Plain ''result'' (TInt I32 True),
    Plain ''ap_sync_state'' td_atomic_t,
    Plain ''done_up'' st_completion,
    Plain ''done_down'' st_completion]"

definition st_crypto_wait :: ty where
  "st_crypto_wait = TStruct ''crypto_wait'' False [
    Plain ''completion'' st_completion,
    Plain ''err'' (TInt I32 True)]"

definition st_dentry :: ty where
  "st_dentry = TStruct ''dentry'' False [
    Plain ''d_flags'' (TInt I32 False),
    Plain ''d_seq'' td_seqcount_spinlock_t,
    Plain ''d_hash'' st_hlist_bl_node,
    Plain ''d_parent'' (TPtr ''struct dentry''),
    Plain '''' (TUnion '''' False [
      Plain ''__d_name'' st_qstr,
      Plain ''d_name'' st_qstr]),
    Plain ''d_inode'' (TPtr ''struct inode''),
    Plain ''d_shortname'' un_shortname_store,
    Plain ''d_op'' (TPtr ''struct dentry_operations''),
    Plain ''d_sb'' (TPtr ''struct super_block''),
    Plain ''d_time'' (TInt I64 False),
    Plain ''d_fsdata'' (TPtr ''void''),
    Plain ''d_lockref'' st_lockref,
    Plain '''' (TUnion '''' False [
      Plain ''d_lru'' st_list_head,
      Plain ''d_wait'' (TPtr ''wait_queue_head_t'')]),
    Plain ''d_sib'' st_hlist_node,
    Plain ''d_children'' st_hlist_head,
    Plain ''d_u'' (TUnion '''' False [
      Plain ''d_alias'' st_hlist_node,
      Plain ''d_in_lookup_hash'' st_hlist_bl_node,
      Plain ''d_rcu'' st_callback_head])]"

definition st_dev_pagemap :: ty where
  "st_dev_pagemap = TStruct ''dev_pagemap'' False [
    Plain ''altmap'' st_vmem_altmap,
    Plain ''ref'' st_percpu_ref,
    Plain ''done'' st_completion,
    Plain ''type'' (TEnum ''memory_type'' I32),
    Plain ''flags'' (TInt I32 False),
    Plain ''vmemmap_shift'' (TInt I64 False),
    Plain ''ops'' (TPtr ''struct dev_pagemap_ops''),
    Plain ''owner'' (TPtr ''void''),
    Plain ''nr_range'' (TInt I32 True),
    Plain '''' (TUnion '''' False [
      Plain ''range'' st_range,
      Plain '''' (TStruct '''' False [
        Plain ''__empty_ranges'' (TStruct '''' False []),
        Plain ''ranges'' (TArr st_range 0)])])]"

definition st_devlink :: ty where
  "st_devlink = TStruct ''devlink'' False [
    Plain ''index'' td_u32,
    Plain ''ports'' st_xarray,
    Plain ''rate_list'' st_list_head,
    Plain ''sb_list'' st_list_head,
    Plain ''dpipe_table_list'' st_list_head,
    Plain ''resource_list'' st_list_head,
    Plain ''params'' st_xarray,
    Plain ''region_list'' st_list_head,
    Plain ''reporter_list'' st_list_head,
    Plain ''dpipe_headers'' (TPtr ''struct devlink_dpipe_headers''),
    Plain ''trap_list'' st_list_head,
    Plain ''trap_group_list'' st_list_head,
    Plain ''trap_policer_list'' st_list_head,
    Plain ''linecard_list'' st_list_head,
    Plain ''ops'' (TPtr ''struct devlink_ops''),
    Plain ''snapshot_ids'' st_xarray,
    Plain ''stats'' st_devlink_dev_stats,
    Plain ''dev'' (TPtr ''struct device''),
    Plain ''_net'' td_possible_net_t,
    Plain ''lock'' st_mutex,
    Plain ''lock_key'' st_lock_class_key,
    Bits ''reload_failed'' td_u8 1,
    Plain ''refcount'' td_refcount_t,
    Plain ''rwork'' st_rcu_work,
    Plain ''rel'' (TPtr ''struct devlink_rel''),
    Plain ''nested_rels'' st_xarray,
    Plain ''priv'' (TArr (TInt I8 True) 0)]"

definition st_dm_kobject_holder :: ty where
  "st_dm_kobject_holder = TStruct ''dm_kobject_holder'' False [
    Plain ''kobj'' st_kobject,
    Plain ''completion'' st_completion]"

definition st_dma_resv :: ty where
  "st_dma_resv = TStruct ''dma_resv'' False [
    Plain ''lock'' st_ww_mutex,
    Plain ''fences'' (TPtr ''struct dma_resv_list'')]"

definition st_drm_modeset_lock :: ty where
  "st_drm_modeset_lock = TStruct ''drm_modeset_lock'' False [
    Plain ''mutex'' st_ww_mutex,
    Plain ''head'' st_list_head]"

definition st_drm_vma_offset_node :: ty where
  "st_drm_vma_offset_node = TStruct ''drm_vma_offset_node'' False [
    Plain ''vm_lock'' td_rwlock_t,
    Plain ''vm_node'' st_drm_mm_node,
    Plain ''vm_files'' st_rb_root,
    Plain ''driver_private'' (TPtr ''void'')]"

definition st_elants_data :: ty where
  "st_elants_data = TStruct ''elants_data'' False [
    Plain ''client'' (TPtr ''struct i2c_client''),
    Plain ''input'' (TPtr ''struct input_dev''),
    Plain ''vcc33'' (TPtr ''struct regulator''),
    Plain ''vccio'' (TPtr ''struct regulator''),
    Plain ''reset_gpio'' (TPtr ''struct gpio_desc''),
    Plain ''fw_version'' td_u16,
    Plain ''test_version'' td_u8,
    Plain ''solution_version'' td_u8,
    Plain ''bc_version'' td_u8,
    Plain ''iap_version'' td_u8,
    Plain ''hw_version'' td_u16,
    Plain ''major_res'' td_u8,
    Plain ''x_res'' (TInt I32 False),
    Plain ''y_res'' (TInt I32 False),
    Plain ''x_max'' (TInt I32 False),
    Plain ''y_max'' (TInt I32 False),
    Plain ''phy_x'' (TInt I32 False),
    Plain ''phy_y'' (TInt I32 False),
    Plain ''prop'' st_touchscreen_properties,
    Plain ''state'' (TEnum ''elants_state'' I32),
    Plain ''chip_id'' (TEnum ''elants_chip_id'' I32),
    Plain ''iap_mode'' (TEnum ''elants_iap_mode'' I32),
    Plain ''sysfs_mutex'' st_mutex,
    Plain ''cmd_resp'' (TArr td_u8 4),
    Plain ''cmd_done'' st_completion,
    Plain ''keep_power_in_suspend'' td_bool,
    Bits '''' (TInt I64 True) 64,
    Plain ''buf'' (TArr td_u8 169),
    Bits '''' (TInt I64 True) 64,
    Bits '''' (TInt I64 True) 64]"

definition st_fuse_ring_queue :: ty where
  "st_fuse_ring_queue = TStruct ''fuse_ring_queue'' False [
    Plain ''ring'' (TPtr ''struct fuse_ring''),
    Plain ''qid'' (TInt I32 False),
    Plain ''lock'' td_spinlock_t,
    Plain ''ent_avail_queue'' st_list_head,
    Plain ''ent_w_req_queue'' st_list_head,
    Plain ''ent_commit_queue'' st_list_head,
    Plain ''ent_in_userspace'' st_list_head,
    Plain ''ent_released'' st_list_head,
    Plain ''fuse_req_queue'' st_list_head,
    Plain ''fuse_req_bg_queue'' st_list_head,
    Plain ''fpq'' st_fuse_pqueue,
    Plain ''active_background'' (TInt I32 False),
    Plain ''stopped'' td_bool]"

definition st_fw_state :: ty where
  "st_fw_state = TStruct ''fw_state'' False [
    Plain ''completion'' st_completion,
    Plain ''status'' (TEnum ''fw_status'' I32)]"

definition st_gfn_to_pfn_cache :: ty where
  "st_gfn_to_pfn_cache = TStruct ''gfn_to_pfn_cache'' False [
    Plain ''generation'' td_u64,
    Plain ''gpa'' td_gpa_t,
    Plain ''uhva'' (TInt I64 False),
    Plain ''memslot'' (TPtr ''struct kvm_memory_slot''),
    Plain ''kvm'' (TPtr ''struct kvm''),
    Plain ''list'' st_list_head,
    Plain ''lock'' td_rwlock_t,
    Plain ''refresh_lock'' st_mutex,
    Plain ''khva'' (TPtr ''void''),
    Plain ''pfn'' td_kvm_pfn_t,
    Plain ''active'' td_bool,
    Plain ''valid'' td_bool]"

definition st_hwrng :: ty where
  "st_hwrng = TStruct ''hwrng'' False [
    Plain ''name'' (TPtr ''char''),
    Plain ''init'' (TFun ''int (*)(struct hwrng *)''),
    Plain ''cleanup'' (TFun ''void (*)(struct hwrng *)''),
    Plain ''data_present'' (TFun ''int (*)(struct hwrng *, int)''),
    Plain ''data_read'' (TFun ''int (*)(struct hwrng *, u32 *)''),
    Plain ''read'' (TFun ''int (*)(struct hwrng *, void *, size_t, bool)''),
    Plain ''priv'' (TInt I64 False),
    Plain ''quality'' (TInt I16 False),
    Plain ''list'' st_list_head,
    Plain ''ref'' st_kref,
    Plain ''cleanup_work'' st_work_struct,
    Plain ''cleanup_done'' st_completion,
    Plain ''dying'' st_completion]"

definition st_rdma_restrack_entry :: ty where
  "st_rdma_restrack_entry = TStruct ''rdma_restrack_entry'' False [
    Plain ''valid'' td_bool,
    Bits ''no_track'' td_u8 1,
    Plain ''kref'' st_kref,
    Plain ''comp'' st_completion,
    Plain ''task'' (TPtr ''struct task_struct''),
    Plain ''kern_name'' (TPtr ''char''),
    Plain ''type'' (TEnum ''rdma_restrack_type'' I32),
    Plain ''user'' td_bool,
    Plain ''id'' td_u32]"

definition st_inet6_dev :: ty where
  "st_inet6_dev = TStruct ''inet6_dev'' False [
    Plain ''dev'' (TPtr ''struct net_device''),
    Plain ''dev_tracker'' td_netdevice_tracker,
    Plain ''addr_list'' st_list_head,
    Plain ''mc_list'' (TPtr ''struct ifmcaddr6''),
    Plain ''mc_tomb'' (TPtr ''struct ifmcaddr6''),
    Plain ''mc_qrv'' (TInt I8 False),
    Plain ''mc_gq_running'' (TInt I8 False),
    Plain ''mc_ifc_count'' (TInt I8 False),
    Plain ''mc_dad_count'' (TInt I8 False),
    Plain ''mc_v1_seen'' (TInt I64 False),
    Plain ''mc_qi'' (TInt I64 False),
    Plain ''mc_qri'' (TInt I64 False),
    Plain ''mc_maxdelay'' (TInt I64 False),
    Plain ''mc_gq_work'' st_delayed_work,
    Plain ''mc_ifc_work'' st_delayed_work,
    Plain ''mc_dad_work'' st_delayed_work,
    Plain ''mc_query_work'' st_delayed_work,
    Plain ''mc_report_work'' st_delayed_work,
    Plain ''mc_query_queue'' st_sk_buff_head,
    Plain ''mc_report_queue'' st_sk_buff_head,
    Plain ''mc_query_lock'' td_spinlock_t,
    Plain ''mc_report_lock'' td_spinlock_t,
    Plain ''mc_lock'' st_mutex,
    Plain ''ac_list'' (TPtr ''struct ifacaddr6''),
    Plain ''lock'' td_rwlock_t,
    Plain ''refcnt'' td_refcount_t,
    Plain ''if_flags'' td___u32,
    Plain ''dead'' (TInt I32 True),
    Plain ''desync_factor'' td_u32,
    Plain ''tempaddr_list'' st_list_head,
    Plain ''token'' st_in6_addr,
    Plain ''nd_parms'' (TPtr ''struct neigh_parms''),
    Plain ''cnf'' st_ipv6_devconf,
    Plain ''stats'' st_ipv6_devstat,
    Plain ''rs_timer'' st_timer_list,
    Plain ''rs_interval'' td___s32,
    Plain ''rs_probes'' td___u8,
    Plain ''tstamp'' (TInt I64 False),
    Plain ''rcu'' st_callback_head,
    Plain ''ra_mtu'' (TInt I32 False)]"

definition st_request_sock_queue :: ty where
  "st_request_sock_queue = TStruct ''request_sock_queue'' False [
    Plain ''rskq_lock'' td_spinlock_t,
    Plain ''rskq_defer_accept'' td_u8,
    Plain ''synflood_warned'' td_u8,
    Plain ''qlen'' td_atomic_t,
    Plain ''young'' td_atomic_t,
    Plain ''rskq_accept_head'' (TPtr ''struct request_sock''),
    Plain ''rskq_accept_tail'' (TPtr ''struct request_sock''),
    Plain ''fastopenq'' st_fastopen_queue]"

definition st_io_ring_ctx :: ty where
  "st_io_ring_ctx = TStruct ''io_ring_ctx'' False [
    Plain '''' (TStruct '''' False [
      Plain ''flags'' (TInt I32 False),
      Bits ''drain_next'' (TInt I32 False) 1,
      Bits ''op_restricted'' (TInt I32 False) 1,
      Bits ''reg_restricted'' (TInt I32 False) 1,
      Bits ''off_timeout_used'' (TInt I32 False) 1,
      Bits ''drain_active'' (TInt I32 False) 1,
      Bits ''has_evfd'' (TInt I32 False) 1,
      Bits ''task_complete'' (TInt I32 False) 1,
      Bits ''lockless_cq'' (TInt I32 False) 1,
      Bits ''syscall_iopoll'' (TInt I32 False) 1,
      Bits ''poll_activated'' (TInt I32 False) 1,
      Bits ''drain_disabled'' (TInt I32 False) 1,
      Bits ''compat'' (TInt I32 False) 1,
      Bits ''iowq_limits_set'' (TInt I32 False) 1,
      Plain ''submitter_task'' (TPtr ''struct task_struct''),
      Plain ''rings'' (TPtr ''struct io_rings''),
      Plain ''bpf_filters'' (TPtr ''struct io_bpf_filter *''),
      Plain ''refs'' st_percpu_ref,
      Plain ''clockid'' td_clockid_t,
      Plain ''clock_offset'' (TEnum ''tk_offsets'' I32),
      Plain ''notify_method'' (TEnum ''task_work_notify_mode'' I32),
      Plain ''sq_thread_idle'' (TInt I32 False)]),
    Plain '''' (TStruct '''' False [
      Plain ''uring_lock'' st_mutex,
      Plain ''sq_array'' (TPtr ''u32''),
      Plain ''sq_sqes'' (TPtr ''struct io_uring_sqe''),
      Plain ''cached_sq_head'' (TInt I32 False),
      Plain ''sq_entries'' (TInt I32 False),
      Plain ''cancel_seq'' td_atomic_t,
      Plain ''poll_multi_queue'' td_bool,
      Plain ''iopoll_list'' st_list_head,
      Plain ''file_table'' st_io_file_table,
      Plain ''buf_table'' st_io_rsrc_data,
      Plain ''node_cache'' st_io_alloc_cache,
      Plain ''imu_cache'' st_io_alloc_cache,
      Plain ''submit_state'' st_io_submit_state,
      Plain ''io_bl_xa'' st_xarray,
      Plain ''cancel_table'' st_io_hash_table,
      Plain ''apoll_cache'' st_io_alloc_cache,
      Plain ''netmsg_cache'' st_io_alloc_cache,
      Plain ''rw_cache'' st_io_alloc_cache,
      Plain ''cmd_cache'' st_io_alloc_cache,
      Plain ''cancelable_uring_cmd'' st_hlist_head,
      Plain ''hybrid_poll_time'' td_u64,
      Bits '''' (TInt I64 True) 64,
      Bits '''' (TInt I64 True) 64]),
    Plain '''' (TStruct '''' False [
      Plain ''cqe_cached'' (TPtr ''struct io_uring_cqe''),
      Plain ''cqe_sentinel'' (TPtr ''struct io_uring_cqe''),
      Plain ''cached_cq_tail'' (TInt I32 False),
      Plain ''cq_entries'' (TInt I32 False),
      Plain ''io_ev_fd'' (TPtr ''struct io_ev_fd''),
      Plain ''cq_wait_arg'' (TPtr ''void''),
      Plain ''cq_wait_size'' td_size_t,
      Bits '''' (TInt I64 True) 64,
      Bits '''' (TInt I64 True) 64]),
    Plain '''' (TStruct '''' False [
      Plain ''rings_rcu'' (TPtr ''struct io_rings''),
      Plain ''work_llist'' st_llist_head,
      Plain ''retry_llist'' st_llist_head,
      Plain ''check_cq'' (TInt I64 False),
      Plain ''cq_wait_nr'' td_atomic_t,
      Plain ''cq_timeouts'' td_atomic_t,
      Plain ''cq_wait'' st_wait_queue_head]),
    Plain '''' (TStruct '''' False [
      Plain ''timeout_lock'' td_raw_spinlock_t,
      Plain ''timeout_list'' st_list_head,
      Plain ''ltimeout_list'' st_list_head,
      Plain ''cq_last_tm_flush'' (TInt I32 False),
      Bits '''' (TInt I64 True) 64,
      Bits '''' (TInt I64 True) 64]),
    Plain ''completion_lock'' td_spinlock_t,
    Plain ''cq_overflow_list'' st_list_head,
    Plain ''waitid_list'' st_hlist_head,
    Plain ''futex_list'' st_hlist_head,
    Plain ''futex_cache'' st_io_alloc_cache,
    Plain ''sq_creds'' (TPtr ''struct cred''),
    Plain ''sq_data'' (TPtr ''struct io_sq_data''),
    Plain ''sqo_sq_wait'' st_wait_queue_head,
    Plain ''sqd_list'' st_list_head,
    Plain ''file_alloc_start'' (TInt I32 False),
    Plain ''file_alloc_end'' (TInt I32 False),
    Plain ''poll_wq'' st_wait_queue_head,
    Plain ''restrictions'' st_io_restriction,
    Plain ''zcrx_ctxs'' st_xarray,
    Plain ''pers_next'' td_u32,
    Plain ''personalities'' st_xarray,
    Plain ''hash_map'' (TPtr ''struct io_wq_hash''),
    Plain ''user'' (TPtr ''struct user_struct''),
    Plain ''mm_account'' (TPtr ''struct mm_struct''),
    Plain ''tctx_list'' st_list_head,
    Plain ''tctx_lock'' st_mutex,
    Plain ''fallback_llist'' st_llist_head,
    Plain ''fallback_work'' st_delayed_work,
    Plain ''exit_work'' st_work_struct,
    Plain ''ref_comp'' st_completion,
    Plain ''iowq_limits'' (TArr td_u32 2),
    Plain ''poll_wq_task_work'' st_callback_head,
    Plain ''defer_list'' st_list_head,
    Plain ''nr_drained'' (TInt I32 False),
    Plain ''nr_req_allocated'' (TInt I32 False),
    Plain ''napi_list'' st_list_head,
    Plain ''napi_lock'' td_spinlock_t,
    Plain ''napi_busy_poll_dt'' td_ktime_t,
    Plain ''napi_prefer_busy_poll'' td_bool,
    Plain ''napi_track_mode'' td_u8,
    Plain ''napi_ht'' (TArr st_hlist_head 16),
    Plain ''mmap_lock'' st_mutex,
    Plain ''sq_region'' st_io_mapped_region,
    Plain ''ring_region'' st_io_mapped_region,
    Plain ''param_region'' st_io_mapped_region,
    Bits '''' (TInt I64 True) 64,
    Bits '''' (TInt I64 True) 64,
    Bits '''' (TInt I64 True) 64,
    Bits '''' (TInt I64 True) 64,
    Bits '''' (TInt I64 True) 64,
    Bits '''' (TInt I64 True) 64]"

definition st_io_sq_data :: ty where
  "st_io_sq_data = TStruct ''io_sq_data'' False [
    Plain ''refs'' td_refcount_t,
    Plain ''park_pending'' td_atomic_t,
    Plain ''lock'' st_mutex,
    Plain ''ctx_list'' st_list_head,
    Plain ''thread'' (TPtr ''struct task_struct''),
    Plain ''wait'' st_wait_queue_head,
    Plain ''sq_thread_idle'' (TInt I32 False),
    Plain ''sq_cpu'' (TInt I32 True),
    Plain ''task_pid'' td_pid_t,
    Plain ''task_tgid'' td_pid_t,
    Plain ''work_time'' td_u64,
    Plain ''state'' (TInt I64 False),
    Plain ''exited'' st_completion]"

definition st_io_uring_task :: ty where
  "st_io_uring_task = TStruct ''io_uring_task'' False [
    Plain ''cached_refs'' (TInt I32 True),
    Plain ''last'' (TPtr ''struct io_ring_ctx''),
    Plain ''task'' (TPtr ''struct task_struct''),
    Plain ''io_wq'' (TPtr ''struct io_wq''),
    Plain ''registered_rings'' (TArr (TPtr ''struct file'') 16),
    Plain ''xa'' st_xarray,
    Plain ''wait'' st_wait_queue_head,
    Plain ''in_cancel'' td_atomic_t,
    Plain ''inflight_tracked'' td_atomic_t,
    Plain ''inflight'' st_percpu_counter,
    Bits '''' (TInt I64 True) 64,
    Plain '''' (TStruct '''' False [
      Plain ''task_list'' st_llist_head,
      Plain ''task_work'' st_callback_head,
      Bits '''' (TInt I64 True) 64,
      Bits '''' (TInt I64 True) 64,
      Bits '''' (TInt I64 True) 64,
      Bits '''' (TInt I64 True) 64,
      Bits '''' (TInt I64 True) 64])]"

definition st_io_worker :: ty where
  "st_io_worker = TStruct ''io_worker'' False [
    Plain ''ref'' td_refcount_t,
    Plain ''flags'' (TInt I64 False),
    Plain ''nulls_node'' st_hlist_nulls_node,
    Plain ''all_list'' st_list_head,
    Plain ''task'' (TPtr ''struct task_struct''),
    Plain ''wq'' (TPtr ''struct io_wq''),
    Plain ''acct'' (TPtr ''struct io_wq_acct''),
    Plain ''cur_work'' (TPtr ''struct io_wq_work''),
    Plain ''lock'' td_raw_spinlock_t,
    Plain ''ref_done'' st_completion,
    Plain ''create_state'' (TInt I64 False),
    Plain ''create_work'' st_callback_head,
    Plain ''init_retries'' (TInt I32 True),
    Plain '''' (TUnion '''' False [
      Plain ''rcu'' st_callback_head,
      Plain ''work'' st_delayed_work])]"

definition st_ioc_gq :: ty where
  "st_ioc_gq = TStruct ''ioc_gq'' False [
    Plain ''pd'' st_blkg_policy_data,
    Plain ''ioc'' (TPtr ''struct ioc''),
    Plain ''cfg_weight'' td_u32,
    Plain ''weight'' td_u32,
    Plain ''active'' td_u32,
    Plain ''inuse'' td_u32,
    Plain ''last_inuse'' td_u32,
    Plain ''saved_margin'' td_s64,
    Plain ''cursor'' td_sector_t,
    Plain ''vtime'' td_atomic64_t,
    Plain ''done_vtime'' td_atomic64_t,
    Plain ''abs_vdebt'' td_u64,
    Plain ''delay'' td_u64,
    Plain ''delay_at'' td_u64,
    Plain ''active_period'' td_atomic64_t,
    Plain ''active_list'' st_list_head,
    Plain ''child_active_sum'' td_u64,
    Plain ''child_inuse_sum'' td_u64,
    Plain ''child_adjusted_sum'' td_u64,
    Plain ''hweight_gen'' (TInt I32 True),
    Plain ''hweight_active'' td_u32,
    Plain ''hweight_inuse'' td_u32,
    Plain ''hweight_donating'' td_u32,
    Plain ''hweight_after_donation'' td_u32,
    Plain ''walk_list'' st_list_head,
    Plain ''surplus_list'' st_list_head,
    Plain ''waitq'' st_wait_queue_head,
    Plain ''waitq_timer'' st_hrtimer,
    Plain ''activated_at'' td_u64,
    Plain ''pcpu_stat'' (TPtr ''struct iocg_pcpu_stat''),
    Plain ''stat'' st_iocg_stat,
    Plain ''last_stat'' st_iocg_stat,
    Plain ''last_stat_abs_vusage'' td_u64,
    Plain ''usage_delta_us'' td_u64,
    Plain ''wait_since'' td_u64,
    Plain ''indebt_since'' td_u64,
    Plain ''indelay_since'' td_u64,
    Plain ''level'' (TInt I32 True),
    Plain ''ancestors'' (TArr (TPtr ''struct ioc_gq'') 0)]"

definition st_iommu_group :: ty where
  "st_iommu_group = TStruct ''iommu_group'' False [
    Plain ''kobj'' st_kobject,
    Plain ''devices_kobj'' (TPtr ''struct kobject''),
    Plain ''devices'' st_list_head,
    Plain ''pasid_array'' st_xarray,
    Plain ''mutex'' st_mutex,
    Plain ''iommu_data'' (TPtr ''void''),
    Plain ''iommu_data_release'' (TFun ''void (*)(void *)''),
    Plain ''name'' (TPtr ''char''),
    Plain ''id'' (TInt I32 True),
    Plain ''default_domain'' (TPtr ''struct iommu_domain''),
    Plain ''blocking_domain'' (TPtr ''struct iommu_domain''),
    Plain ''resetting_domain'' (TPtr ''struct iommu_domain''),
    Plain ''domain'' (TPtr ''struct iommu_domain''),
    Plain ''entry'' st_list_head,
    Plain ''owner_cnt'' (TInt I32 False),
    Plain ''owner'' (TPtr ''void'')]"

definition st_irq_domain :: ty where
  "st_irq_domain = TStruct ''irq_domain'' False [
    Plain ''link'' st_list_head,
    Plain ''name'' (TPtr ''char''),
    Plain ''ops'' (TPtr ''struct irq_domain_ops''),
    Plain ''host_data'' (TPtr ''void''),
    Plain ''flags'' (TInt I32 False),
    Plain ''mapcount'' (TInt I32 False),
    Plain ''mutex'' st_mutex,
    Plain ''root'' (TPtr ''struct irq_domain''),
    Plain ''fwnode'' (TPtr ''struct fwnode_handle''),
    Plain ''bus_token'' (TEnum ''irq_domain_bus_token'' I32),
    Plain ''gc'' (TPtr ''struct irq_domain_chip_generic''),
    Plain ''dev'' (TPtr ''struct device''),
    Plain ''pm_dev'' (TPtr ''struct device''),
    Plain ''parent'' (TPtr ''struct irq_domain''),
    Plain ''msi_parent_ops'' (TPtr ''struct msi_parent_ops''),
    Plain ''exit'' (TFun ''void (*)(struct irq_domain *)''),
    Plain ''hwirq_max'' td_irq_hw_number_t,
    Plain ''revmap_size'' (TInt I32 False),
    Plain ''revmap_tree'' st_xarray,
    Plain ''revmap'' (TArr (TPtr ''struct irq_data'') 0)]"

definition st_k_itimer :: ty where
  "st_k_itimer = TStruct ''k_itimer'' False [
    Plain ''t_hash'' st_hlist_node,
    Plain ''list'' st_hlist_node,
    Plain ''it_id'' td_timer_t,
    Plain ''it_clock'' td_clockid_t,
    Plain ''it_sigev_notify'' (TInt I32 True),
    Plain ''it_pid_type'' (TEnum ''pid_type'' I32),
    Plain ''it_signal'' (TPtr ''struct signal_struct''),
    Plain ''kclock'' (TPtr ''struct k_clock''),
    Plain ''it_lock'' td_spinlock_t,
    Plain ''it_status'' (TInt I32 True),
    Plain ''it_sig_periodic'' td_bool,
    Plain ''it_overrun'' td_s64,
    Plain ''it_overrun_last'' td_s64,
    Plain ''it_signal_seq'' (TInt I32 False),
    Plain ''it_sigqueue_seq'' (TInt I32 False),
    Plain ''it_interval'' td_ktime_t,
    Plain ''ignored_list'' st_hlist_node,
    Plain '''' (TUnion '''' False [
      Plain ''it_pid'' (TPtr ''struct pid''),
      Plain ''it_process'' (TPtr ''struct task_struct'')]),
    Plain ''sigq'' st_sigqueue,
    Plain ''rcuref'' td_rcuref_t,
    Plain ''it'' (TUnion '''' False [
      Plain ''real'' (TStruct '''' False [
        Plain ''timer'' st_hrtimer]),
      Plain ''cpu'' st_cpu_timer,
      Plain ''alarm'' (TStruct '''' False [
        Plain ''alarmtimer'' st_alarm])]),
    Plain ''rcu'' st_callback_head,
    Bits '''' (TInt I64 True) 64,
    Bits '''' (TInt I64 True) 64,
    Bits '''' (TInt I64 True) 64]"

definition st_simple_xattrs :: ty where
  "st_simple_xattrs = TStruct ''simple_xattrs'' False [
    Plain ''rb_root'' st_rb_root,
    Plain ''lock'' td_rwlock_t]"

definition st_kthread :: ty where
  "st_kthread = TStruct ''kthread'' False [
    Plain ''flags'' (TInt I64 False),
    Plain ''cpu'' (TInt I32 False),
    Plain ''node'' (TInt I32 False),
    Plain ''started'' (TInt I32 True),
    Plain ''result'' (TInt I32 True),
    Plain ''threadfn'' (TFun ''int (*)(void *)''),
    Plain ''data'' (TPtr ''void''),
    Plain ''parked'' st_completion,
    Plain ''exited'' st_completion,
    Plain ''blkcg_css'' (TPtr ''struct cgroup_subsys_state''),
    Plain ''full_name'' (TPtr ''char''),
    Plain ''task'' (TPtr ''struct task_struct''),
    Plain ''affinity_node'' st_list_head,
    Plain ''preferred_affinity'' (TPtr ''struct cpumask'')]"

definition st_ldma_chan :: ty where
  "st_ldma_chan = TStruct ''ldma_chan'' False [
    Plain ''vchan'' st_virt_dma_chan,
    Plain ''port'' (TPtr ''struct ldma_port''),
    Plain ''name'' (TArr (TInt I8 True) 8),
    Plain ''nr'' (TInt I32 True),
    Plain ''flags'' td_u32,
    Plain ''onoff'' (TEnum ''ldma_chan_on_off'' I32),
    Plain ''desc_phys'' td_dma_addr_t,
    Plain ''desc_base'' (TPtr ''void''),
    Plain ''desc_cnt'' td_u32,
    Plain ''rst'' (TInt I32 True),
    Plain ''hdrm_len'' td_u32,
    Plain ''hdrm_csum'' td_bool,
    Plain ''boff_len'' td_u32,
    Plain ''data_endian'' td_u32,
    Plain ''desc_endian'' td_u32,
    Plain ''pden'' td_bool,
    Plain ''desc_rx_np'' td_bool,
    Plain ''data_endian_en'' td_bool,
    Plain ''desc_endian_en'' td_bool,
    Plain ''abc_en'' td_bool,
    Plain ''desc_init'' td_bool,
    Plain ''desc_pool'' (TPtr ''struct dma_pool''),
    Plain ''desc_num'' td_u32,
    Plain ''ds'' (TPtr ''struct dw2_desc_sw''),
    Plain ''work'' st_work_struct,
    Plain ''config'' st_dma_slave_config]"

definition st_loop_device :: ty where
  "st_loop_device = TStruct ''loop_device'' False [
    Plain ''lo_number'' (TInt I32 True),
    Plain ''lo_offset'' td_loff_t,
    Plain ''lo_sizelimit'' td_loff_t,
    Plain ''lo_flags'' (TInt I32 True),
    Plain ''lo_file_name'' (TArr (TInt I8 True) 64),
    Plain ''lo_backing_file'' (TPtr ''struct file''),
    Plain ''lo_min_dio_size'' (TInt I32 False),
    Plain ''lo_device'' (TPtr ''struct block_device''),
    Plain ''old_gfp_mask'' td_gfp_t,
    Plain ''lo_lock'' td_spinlock_t,
    Plain ''lo_state'' (TInt I32 True),
    Plain ''lo_work_lock'' td_spinlock_t,
    Plain ''workqueue'' (TPtr ''struct workqueue_struct''),
    Plain ''rootcg_work'' st_work_struct,
    Plain ''rootcg_cmd_list'' st_list_head,
    Plain ''idle_worker_list'' st_list_head,
    Plain ''worker_tree'' st_rb_root,
    Plain ''timer'' st_timer_list,
    Plain ''sysfs_inited'' td_bool,
    Plain ''lo_queue'' (TPtr ''struct request_queue''),
    Plain ''tag_set'' st_blk_mq_tag_set,
    Plain ''lo_disk'' (TPtr ''struct gendisk''),
    Plain ''lo_mutex'' st_mutex,
    Plain ''idr_visible'' td_bool]"

definition st_mr_mfc :: ty where
  "st_mr_mfc = TStruct ''mr_mfc'' False [
    Plain ''mnode'' st_rhlist_head,
    Plain ''mfc_parent'' (TInt I16 False),
    Plain ''mfc_flags'' (TInt I32 True),
    Plain ''mfc_un'' (TUnion '''' False [
      Plain ''unres'' (TStruct '''' False [
        Plain ''expires'' (TInt I64 False),
        Plain ''unresolved'' st_sk_buff_head]),
      Plain ''res'' (TStruct '''' False [
        Plain ''last_assert'' (TInt I64 False),
        Plain ''minvif'' (TInt I32 True),
        Plain ''maxvif'' (TInt I32 True),
        Plain ''bytes'' td_atomic_long_t,
        Plain ''pkt'' td_atomic_long_t,
        Plain ''wrong_if'' td_atomic_long_t,
        Plain ''lastuse'' (TInt I64 False),
        Plain ''ttls'' (TArr (TInt I8 False) 32),
        Plain ''refcount'' td_refcount_t])]),
    Plain ''list'' st_list_head,
    Plain ''rcu'' st_callback_head,
    Plain ''free'' (TFun ''void (*)(struct callback_head *)'')]"

definition st_mm_struct :: ty where
  "st_mm_struct = TStruct ''mm_struct'' False [
    Plain '''' (TStruct '''' False [
      Plain '''' (TStruct '''' False [
        Plain ''mm_count'' td_atomic_t,
        Bits '''' (TInt I64 True) 64,
        Bits '''' (TInt I64 True) 64,
        Bits '''' (TInt I64 True) 64,
        Bits '''' (TInt I64 True) 64,
        Bits '''' (TInt I64 True) 64,
        Bits '''' (TInt I64 True) 64,
        Bits '''' (TInt I64 True) 64]),
      Plain ''mm_mt'' st_maple_tree,
      Plain ''mmap_base'' (TInt I64 False),
      Plain ''mmap_legacy_base'' (TInt I64 False),
      Plain ''mmap_compat_base'' (TInt I64 False),
      Plain ''mmap_compat_legacy_base'' (TInt I64 False),
      Plain ''task_size'' (TInt I64 False),
      Plain ''pgd'' (TPtr ''pgd_t''),
      Plain ''membarrier_state'' td_atomic_t,
      Plain ''mm_users'' td_atomic_t,
      Bits '''' (TInt I64 True) 64,
      Bits '''' (TInt I64 True) 64,
      Bits '''' (TInt I64 True) 64,
      Bits '''' (TInt I64 True) 64,
      Bits '''' (TInt I64 True) 64,
      Bits '''' (TInt I64 True) 64,
      Bits '''' (TInt I64 True) 64,
      Plain ''mm_cid'' st_mm_mm_cid,
      Plain ''pgtables_bytes'' td_atomic_long_t,
      Plain ''map_count'' (TInt I32 True),
      Plain ''page_table_lock'' td_spinlock_t,
      Plain ''mmap_lock'' st_rw_semaphore,
      Plain ''mmlist'' st_list_head,
      Plain ''vma_writer_wait'' st_rcuwait,
      Plain ''mm_lock_seq'' td_seqcount_t,
      Plain ''futex_hash_lock'' st_mutex,
      Plain ''futex_phash'' (TPtr ''struct futex_private_hash''),
      Plain ''futex_phash_new'' (TPtr ''struct futex_private_hash''),
      Plain ''futex_batches'' (TInt I64 False),
      Plain ''futex_rcu'' st_callback_head,
      Plain ''futex_atomic'' td_atomic_long_t,
      Plain ''futex_ref'' (TPtr ''unsigned int''),
      Plain ''hiwater_rss'' (TInt I64 False),
      Plain ''hiwater_vm'' (TInt I64 False),
      Plain ''total_vm'' (TInt I64 False),
      Plain ''locked_vm'' (TInt I64 False),
      Plain ''pinned_vm'' td_atomic64_t,
      Plain ''data_vm'' (TInt I64 False),
      Plain ''exec_vm'' (TInt I64 False),
      Plain ''stack_vm'' (TInt I64 False),
      Plain ''def_flags'' td_vm_flags_t,
      Plain ''write_protect_seq'' td_seqcount_t,
      Plain ''arg_lock'' td_spinlock_t,
      Plain ''start_code'' (TInt I64 False),
      Plain ''end_code'' (TInt I64 False),
      Plain ''start_data'' (TInt I64 False),
      Plain ''end_data'' (TInt I64 False),
      Plain ''start_brk'' (TInt I64 False),
      Plain ''brk'' (TInt I64 False),
      Plain ''start_stack'' (TInt I64 False),
      Plain ''arg_start'' (TInt I64 False),
      Plain ''arg_end'' (TInt I64 False),
      Plain ''env_start'' (TInt I64 False),
      Plain ''env_end'' (TInt I64 False),
      Plain ''saved_auxv'' (TArr (TInt I64 False) 56),
      Plain ''rss_stat'' (TArr st_percpu_counter 4),
      Plain ''binfmt'' (TPtr ''struct linux_binfmt''),
      Plain ''context'' td_mm_context_t,
      Plain ''flags'' td_mm_flags_t,
      Plain ''ioctx_lock'' td_spinlock_t,
      Plain ''ioctx_table'' (TPtr ''struct kioctx_table''),
      Plain ''owner'' (TPtr ''struct task_struct''),
      Plain ''user_ns'' (TPtr ''struct user_namespace''),
      Plain ''exe_file'' (TPtr ''struct file''),
      Plain ''notifier_subscriptions'' (TPtr ''struct mmu_notifier_subscriptions''),
      Plain ''numa_next_scan'' (TInt I64 False),
      Plain ''numa_scan_offset'' (TInt I64 False),
      Plain ''numa_scan_seq'' (TInt I32 True),
      Plain ''tlb_flush_pending'' td_atomic_t,
      Plain ''tlb_flush_batched'' td_atomic_t,
      Plain ''uprobes_state'' st_uprobes_state,
      Plain ''hugetlb_usage'' td_atomic_long_t,
      Plain ''async_put_work'' st_work_struct,
      Plain ''iommu_mm'' (TPtr ''struct iommu_mm_data''),
      Plain ''ksm_merging_pages'' (TInt I64 False),
      Plain ''ksm_rmap_items'' (TInt I64 False),
      Plain ''ksm_zero_pages'' td_atomic_long_t,
      Plain ''lru_gen'' (TStruct '''' False [
        Plain ''list'' st_list_head,
        Plain ''bitmap'' (TInt I64 False),
        Plain ''memcg'' (TPtr ''struct mem_cgroup'')]),
      Plain ''mm_id'' td_mm_id_t,
      Bits '''' (TInt I64 True) 64,
      Bits '''' (TInt I64 True) 64,
      Bits '''' (TInt I64 True) 64]),
    Plain ''flexible_array'' (TArr (TInt I8 True) 0)]"

definition st_mmap_state :: ty where
  "st_mmap_state = TStruct ''mmap_state'' False [
    Plain ''mm'' (TPtr ''struct mm_struct''),
    Plain ''vmi'' (TPtr ''struct vma_iterator''),
    Plain ''addr'' (TInt I64 False),
    Plain ''end'' (TInt I64 False),
    Plain ''pgoff'' (TInt I64 False),
    Plain ''pglen'' (TInt I64 False),
    Plain '''' (TUnion '''' False [
      Plain ''vm_flags'' td_vm_flags_t,
      Plain ''vma_flags'' td_vma_flags_t]),
    Plain ''file'' (TPtr ''struct file''),
    Plain ''page_prot'' td_pgprot_t,
    Plain ''vm_ops'' (TPtr ''struct vm_operations_struct''),
    Plain ''vm_private_data'' (TPtr ''void''),
    Plain ''charged'' (TInt I64 False),
    Plain ''prev'' (TPtr ''struct vm_area_struct''),
    Plain ''next'' (TPtr ''struct vm_area_struct''),
    Plain ''vms'' st_vma_munmap_struct,
    Plain ''mas_detach'' st_ma_state,
    Plain ''mt_detach'' st_maple_tree,
    Bits ''check_ksm_early'' td_bool 1,
    Bits ''hold_file_rmap_lock'' td_bool 1,
    Bits ''file_doesnt_need_get'' td_bool 1]"

definition st_mptcp_subflow_request_sock :: ty where
  "st_mptcp_subflow_request_sock = TStruct ''mptcp_subflow_request_sock'' False [
    Plain ''sk'' st_tcp_request_sock,
    Bits ''mp_capable'' td_u16 1,
    Bits ''mp_join'' td_u16 1,
    Bits ''backup'' td_u16 1,
    Bits ''request_bkup'' td_u16 1,
    Bits ''csum_reqd'' td_u16 1,
    Bits ''allow_join_id0'' td_u16 1,
    Plain ''local_id'' td_u8,
    Plain ''remote_id'' td_u8,
    Plain ''local_key'' td_u64,
    Plain ''idsn'' td_u64,
    Plain ''token'' td_u32,
    Plain ''ssn_offset'' td_u32,
    Plain ''thmac'' td_u64,
    Plain ''local_nonce'' td_u32,
    Plain ''remote_nonce'' td_u32,
    Plain ''msk'' (TPtr ''struct mptcp_sock''),
    Plain ''token_node'' st_hlist_nulls_node]"

definition st_msg_queue :: ty where
  "st_msg_queue = TStruct ''msg_queue'' False [
    Plain ''q_perm'' st_kern_ipc_perm,
    Plain ''q_stime'' td_time64_t,
    Plain ''q_rtime'' td_time64_t,
    Plain ''q_ctime'' td_time64_t,
    Plain ''q_cbytes'' (TInt I64 False),
    Plain ''q_qnum'' (TInt I64 False),
    Plain ''q_qbytes'' (TInt I64 False),
    Plain ''q_lspid'' (TPtr ''struct pid''),
    Plain ''q_lrpid'' (TPtr ''struct pid''),
    Plain ''q_messages'' st_list_head,
    Plain ''q_receivers'' st_list_head,
    Plain ''q_senders'' st_list_head,
    Bits '''' (TInt I64 True) 64,
    Bits '''' (TInt I64 True) 64]"

definition st_neigh_table :: ty where
  "st_neigh_table = TStruct ''neigh_table'' False [
    Plain ''family'' (TInt I32 True),
    Plain ''entry_size'' (TInt I32 False),
    Plain ''key_len'' (TInt I32 False),
    Plain ''protocol'' td___be16,
    Plain ''hash'' (TFun ''__u32 (*)(const void *, const struct net_device *, __u32 *)''),
    Plain ''key_eq'' (TFun ''bool (*)(const struct neighbour *, const void *)''),
    Plain ''constructor'' (TFun ''int (*)(struct neighbour *)''),
    Plain ''pconstructor'' (TFun ''int (*)(struct pneigh_entry *)''),
    Plain ''pdestructor'' (TFun ''void (*)(struct pneigh_entry *)''),
    Plain ''proxy_redo'' (TFun ''void (*)(struct sk_buff *)''),
    Plain ''is_multicast'' (TFun ''int (*)(const void *)''),
    Plain ''allow_add'' (TFun ''bool (*)(const struct net_device *, struct netlink_ext_ack *)''),
    Plain ''id'' (TPtr ''char''),
    Plain ''parms'' st_neigh_parms,
    Plain ''parms_list'' st_list_head,
    Plain ''gc_interval'' (TInt I32 True),
    Plain ''gc_thresh1'' (TInt I32 True),
    Plain ''gc_thresh2'' (TInt I32 True),
    Plain ''gc_thresh3'' (TInt I32 True),
    Plain ''last_flush'' (TInt I64 False),
    Plain ''gc_work'' st_delayed_work,
    Plain ''managed_work'' st_delayed_work,
    Plain ''proxy_timer'' st_timer_list,
    Plain ''proxy_queue'' st_sk_buff_head,
    Plain ''entries'' td_atomic_t,
    Plain ''gc_entries'' td_atomic_t,
    Plain ''gc_list'' st_list_head,
    Plain ''managed_list'' st_list_head,
    Plain ''lock'' td_spinlock_t,
    Plain ''last_rand'' (TInt I64 False),
    Plain ''stats'' (TPtr ''struct neigh_statistics''),
    Plain ''nht'' (TPtr ''struct neigh_hash_table''),
    Plain ''phash_lock'' st_mutex,
    Plain ''phash_buckets'' (TPtr ''struct pneigh_entry *'')]"

definition st_net_devmem_dmabuf_binding :: ty where
  "st_net_devmem_dmabuf_binding = TStruct ''net_devmem_dmabuf_binding'' False [
    Plain ''dmabuf'' (TPtr ''struct dma_buf''),
    Plain ''attachment'' (TPtr ''struct dma_buf_attachment''),
    Plain ''sgt'' (TPtr ''struct sg_table''),
    Plain ''dev'' (TPtr ''struct net_device''),
    Plain ''chunk_pool'' (TPtr ''struct gen_pool''),
    Plain ''lock'' st_mutex,
    Plain ''ref'' st_percpu_ref,
    Plain ''list'' st_list_head,
    Plain ''bound_rxqs'' st_xarray,
    Plain ''id'' td_u32,
    Plain ''direction'' (TEnum ''dma_data_direction'' I32),
    Plain ''tx_vec'' (TPtr ''struct net_iov *''),
    Plain ''unbind_w'' st_work_struct]"

definition st_netpoll :: ty where
  "st_netpoll = TStruct ''netpoll'' False [
    Plain ''dev'' (TPtr ''struct net_device''),
    Plain ''dev_tracker'' td_netdevice_tracker,
    Plain ''dev_name'' (TArr (TInt I8 True) 16),
    Plain ''dev_mac'' (TArr td_u8 6),
    Plain ''name'' (TPtr ''char''),
    Plain ''local_ip'' un_inet_addr,
    Plain ''remote_ip'' un_inet_addr,
    Plain ''ipv6'' td_bool,
    Plain ''local_port'' td_u16,
    Plain ''remote_port'' td_u16,
    Plain ''remote_mac'' (TArr td_u8 6),
    Plain ''skb_pool'' st_sk_buff_head,
    Plain ''refill_wq'' st_work_struct]"

definition st_offset_ctx :: ty where
  "st_offset_ctx = TStruct ''offset_ctx'' False [
    Plain ''mt'' st_maple_tree,
    Plain ''next_offset'' (TInt I64 False)]"

definition st_opp_table :: ty where
  "st_opp_table = TStruct ''opp_table'' False [
    Plain ''node'' st_list_head,
    Plain ''lazy'' st_list_head,
    Plain ''head'' st_blocking_notifier_head,
    Plain ''dev_list'' st_list_head,
    Plain ''opp_list'' st_list_head,
    Plain ''kref'' st_kref,
    Plain ''lock'' st_mutex,
    Plain ''np'' (TPtr ''struct device_node''),
    Plain ''clock_latency_ns_max'' (TInt I64 False),
    Plain ''voltage_tolerance_v1'' (TInt I32 False),
    Plain ''parsed_static_opps'' (TInt I32 False),
    Plain ''shared_opp'' (TEnum ''opp_table_access'' I32),
    Plain ''current_rate_single_clk'' (TInt I64 False),
    Plain ''current_opp'' (TPtr ''struct dev_pm_opp''),
    Plain ''suspend_opp'' (TPtr ''struct dev_pm_opp''),
    Plain ''required_opp_tables'' (TPtr ''struct opp_table *''),
    Plain ''required_devs'' (TPtr ''struct device *''),
    Plain ''required_opp_count'' (TInt I32 False),
    Plain ''supported_hw'' (TPtr ''unsigned int''),
    Plain ''supported_hw_count'' (TInt I32 False),
    Plain ''prop_name'' (TPtr ''char''),
    Plain ''config_clks'' td_config_clks_t,
    Plain ''clks'' (TPtr ''struct clk *''),
    Plain ''clk'' (TPtr ''struct clk''),
    Plain ''clk_count'' (TInt I32 True),
    Plain ''config_regulators'' td_config_regulators_t,
    Plain ''regulators'' (TPtr ''struct regulator *''),
    Plain ''regulator_count'' (TInt I32 True),
    Plain ''paths'' (TPtr ''struct icc_path *''),
    Plain ''path_count'' (TInt I32 False),
    Plain ''enabled'' td_bool,
    Plain ''is_genpd'' td_bool,
    Plain ''dentry'' (TPtr ''struct dentry''),
    Plain ''dentry_name'' (TArr (TInt I8 True) 255)]"

definition st_tpacket_kbdq_core :: ty where
  "st_tpacket_kbdq_core = TStruct ''tpacket_kbdq_core'' False [
    Plain ''pkbdq'' (TPtr ''struct pgv''),
    Plain ''feature_req_word'' (TInt I32 False),
    Plain ''hdrlen'' (TInt I32 False),
    Plain ''reset_pending_on_curr_blk'' (TInt I8 False),
    Plain ''kactive_blk_num'' (TInt I16 False),
    Plain ''blk_sizeof_priv'' (TInt I16 False),
    Plain ''version'' (TInt I16 False),
    Plain ''pkblk_start'' (TPtr ''char''),
    Plain ''pkblk_end'' (TPtr ''char''),
    Plain ''kblk_size'' (TInt I32 True),
    Plain ''max_frame_len'' (TInt I32 False),
    Plain ''knum_blocks'' (TInt I32 False),
    Plain ''knxt_seq_num'' td_uint64_t,
    Plain ''prev'' (TPtr ''char''),
    Plain ''nxt_offset'' (TPtr ''char''),
    Plain ''skb'' (TPtr ''struct sk_buff''),
    Plain ''blk_fill_in_prog_lock'' td_rwlock_t,
    Plain ''interval_ktime'' td_ktime_t,
    Plain ''retire_blk_timer'' st_hrtimer]"

definition st_page_pool :: ty where
  "st_page_pool = TStruct ''page_pool'' False [
    Plain ''p'' st_page_pool_params_fast,
    Plain ''cpuid'' (TInt I32 True),
    Plain ''pages_state_hold_cnt'' td_u32,
    Bits ''has_init_callback'' td_bool 1,
    Bits ''dma_map'' td_bool 1,
    Bits ''dma_sync'' td_bool 1,
    Bits ''dma_sync_for_cpu'' td_bool 1,
    Bits ''system'' td_bool 1,
    Bits '''' (TInt I64 True) 0,
    Plain ''__cacheline_group_begin__frag'' (TArr td___u8 0),
    Plain ''frag_users'' (TInt I64 True),
    Plain ''frag_page'' td_netmem_ref,
    Plain ''frag_offset'' (TInt I32 False),
    Bits '''' (TInt I64 True) 0,
    Plain ''__cacheline_group_end__frag'' (TArr td___u8 0),
    Bits '''' (TInt I64 True) 64,
    Plain ''__cacheline_group_pad__frag'' (TStruct '''' False []),
    Plain ''release_dw'' st_delayed_work,
    Plain ''disconnect'' (TFun ''void (*)(void *)''),
    Plain ''defer_start'' (TInt I64 False),
    Plain ''defer_warn'' (TInt I64 False),
    Plain ''alloc_stats'' st_page_pool_alloc_stats,
    Plain ''xdp_mem_id'' td_u32,
    Bits '''' (TInt I64 True) 64,
    Bits '''' (TInt I64 True) 64,
    Bits '''' (TInt I64 True) 64,
    Bits '''' (TInt I64 True) 64,
    Bits '''' (TInt I64 True) 64,
    Bits '''' (TInt I64 True) 64,
    Bits '''' (TInt I64 True) 64,
    Plain ''alloc'' st_pp_alloc_cache,
    Bits '''' (TInt I64 True) 64,
    Bits '''' (TInt I64 True) 64,
    Bits '''' (TInt I64 True) 64,
    Bits '''' (TInt I64 True) 64,
    Bits '''' (TInt I64 True) 64,
    Bits '''' (TInt I64 True) 64,
    Bits '''' (TInt I64 True) 64,
    Plain ''ring'' st_ptr_ring,
    Plain ''mp_priv'' (TPtr ''void''),
    Plain ''mp_ops'' (TPtr ''struct memory_provider_ops''),
    Plain ''dma_mapped'' st_xarray,
    Plain ''recycle_stats'' (TPtr ''struct page_pool_recycle_stats''),
    Plain ''pages_state_release_cnt'' td_atomic_t,
    Plain ''user_cnt'' td_refcount_t,
    Plain ''destroy_cnt'' td_u64,
    Plain ''slow'' st_page_pool_params_slow,
    Plain ''user'' (TStruct '''' False [
      Plain ''list'' st_hlist_node,
      Plain ''detach_time'' td_ktime_t,
      Plain ''id'' td_u32]),
    Bits '''' (TInt I64 True) 64]"

definition st_pinctrl_dev :: ty where
  "st_pinctrl_dev = TStruct ''pinctrl_dev'' False [
    Plain ''node'' st_list_head,
    Plain ''desc'' (TPtr ''struct pinctrl_desc''),
    Plain ''pin_desc_tree'' st_xarray,
    Plain ''pin_group_tree'' st_xarray,
    Plain ''num_groups'' (TInt I32 False),
    Plain ''pin_function_tree'' st_xarray,
    Plain ''num_functions'' (TInt I32 False),
    Plain ''gpio_ranges'' st_list_head,
    Plain ''dev'' (TPtr ''struct device''),
    Plain ''owner'' (TPtr ''struct module''),
    Plain ''driver_data'' (TPtr ''void''),
    Plain ''p'' (TPtr ''struct pinctrl''),
    Plain ''hog_default'' (TPtr ''struct pinctrl_state''),
    Plain ''hog_sleep'' (TPtr ''struct pinctrl_state''),
    Plain ''mutex'' st_mutex,
    Plain ''device_root'' (TPtr ''struct dentry'')]"

definition st_rpc_xprt :: ty where
  "st_rpc_xprt = TStruct ''rpc_xprt'' False [
    Plain ''kref'' st_kref,
    Plain ''ops'' (TPtr ''struct rpc_xprt_ops''),
    Plain ''id'' (TInt I32 False),
    Plain ''timeout'' (TPtr ''struct rpc_timeout''),
    Plain ''addr'' st___kernel_sockaddr_storage,
    Plain ''addrlen'' td_size_t,
    Plain ''prot'' (TInt I32 True),
    Plain ''cong'' (TInt I64 False),
    Plain ''cwnd'' (TInt I64 False),
    Plain ''max_payload'' td_size_t,
    Plain ''binding'' st_rpc_wait_queue,
    Plain ''sending'' st_rpc_wait_queue,
    Plain ''pending'' st_rpc_wait_queue,
    Plain ''backlog'' st_rpc_wait_queue,
    Plain ''free'' st_list_head,
    Plain ''max_reqs'' (TInt I32 False),
    Plain ''min_reqs'' (TInt I32 False),
    Plain ''num_reqs'' (TInt I32 False),
    Plain ''state'' (TInt I64 False),
    Bits ''resvport'' (TInt I8 False) 1,
    Bits ''reuseport'' (TInt I8 False) 1,
    Plain ''swapper'' td_atomic_t,
    Plain ''bind_index'' (TInt I32 False),
    Plain ''xprt_switch'' st_list_head,
    Plain ''bind_timeout'' (TInt I64 False),
    Plain ''reestablish_timeout'' (TInt I64 False),
    Plain ''xprtsec'' st_xprtsec_parms,
    Plain ''connect_cookie'' (TInt I32 False),
    Plain ''task_cleanup'' st_work_struct,
    Plain ''timer'' st_timer_list,
    Plain ''last_used'' (TInt I64 False),
    Plain ''idle_timeout'' (TInt I64 False),
    Plain ''connect_timeout'' (TInt I64 False),
    Plain ''max_reconnect_timeout'' (TInt I64 False),
    Plain ''queuelen'' td_atomic_long_t,
    Plain ''transport_lock'' td_spinlock_t,
    Plain ''reserve_lock'' td_spinlock_t,
    Plain ''queue_lock'' td_spinlock_t,
    Plain ''xid'' td_u32,
    Plain ''snd_task'' (TPtr ''struct rpc_task''),
    Plain ''xmit_queue'' st_list_head,
    Plain ''xmit_queuelen'' td_atomic_long_t,
    Plain ''bc_xprt'' (TPtr ''struct svc_xprt''),
    Plain ''bc_serv'' (TPtr ''struct svc_serv''),
    Plain ''bc_alloc_max'' (TInt I32 False),
    Plain ''bc_alloc_count'' (TInt I32 False),
    Plain ''bc_slot_count'' td_atomic_t,
    Plain ''bc_pa_lock'' td_spinlock_t,
    Plain ''bc_pa_list'' st_list_head,
    Plain ''recv_queue'' st_rb_root,
    Plain ''stat'' (TStruct '''' False [
      Plain ''bind_count'' (TInt I64 False),
      Plain ''connect_count'' (TInt I64 False),
      Plain ''connect_start'' (TInt I64 False),
      Plain ''connect_time'' (TInt I64 False),
      Plain ''sends'' (TInt I64 False),
      Plain ''recvs'' (TInt I64 False),
      Plain ''bad_xids'' (TInt I64 False),
      Plain ''max_slots'' (TInt I64 False),
      Plain ''req_u'' (TInt I64 False),
      Plain ''bklog_u'' (TInt I64 False),
      Plain ''sending_u'' (TInt I64 False),
      Plain ''pending_u'' (TInt I64 False)]),
    Plain ''xprt_net'' (TPtr ''struct net''),
    Plain ''ns_tracker'' td_netns_tracker,
    Plain ''servername'' (TPtr ''char''),
    Plain ''address_strings'' (TArr (TPtr ''char'') 6),
    Plain ''debugfs'' (TPtr ''struct dentry''),
    Plain ''rcu'' st_callback_head,
    Plain ''xprt_class'' (TPtr ''struct xprt_class''),
    Plain ''xprt_sysfs'' (TPtr ''struct rpc_sysfs_xprt''),
    Plain ''main'' td_bool]"

definition st_rq :: ty where
  "st_rq = TStruct ''rq'' False [
    Plain ''nr_running'' (TInt I32 False),
    Plain ''nr_numa_running'' (TInt I32 False),
    Plain ''nr_preferred_running'' (TInt I32 False),
    Plain ''ttwu_pending'' (TInt I32 False),
    Plain ''cpu_capacity'' (TInt I64 False),
    Plain '''' (TUnion '''' False [
      Plain ''donor'' (TPtr ''struct task_struct''),
      Plain ''curr'' (TPtr ''struct task_struct'')]),
    Plain ''idle'' (TPtr ''struct task_struct''),
    Bits '''' (TInt I64 True) 64,
    Bits '''' (TInt I64 True) 64,
    Bits '''' (TInt I64 True) 64,
    Plain ''nr_switches'' td_u64,
    Plain ''__lock'' td_raw_spinlock_t,
    Plain ''nohz_tick_stopped'' (TInt I32 False),
    Plain ''nohz_flags'' td_atomic_t,
    Plain ''has_blocked_load'' (TInt I32 False),
    Plain ''last_blocked_load_update_tick'' (TInt I64 False),
    Plain ''nohz_csd'' td_call_single_data_t,
    Plain ''uclamp'' (TArr st_uclamp_rq 2),
    Plain ''uclamp_flags'' (TInt I32 False),
    Bits '''' (TInt I64 True) 64,
    Bits '''' (TInt I64 True) 64,
    Bits '''' (TInt I64 True) 64,
    Plain ''cfs'' st_cfs_rq,
    Plain ''rt'' st_rt_rq,
    Plain ''dl'' st_dl_rq,
    Plain ''scx'' st_scx_rq,
    Plain ''ext_server'' st_sched_dl_entity,
    Plain ''fair_server'' st_sched_dl_entity,
    Plain ''leaf_cfs_rq_list'' st_list_head,
    Plain ''tmp_alone_branch'' (TPtr ''struct list_head''),
    Plain ''numa_migrate_on'' (TInt I32 False),
    Plain ''nr_uninterruptible'' (TInt I64 False),
    Plain ''dl_server'' (TPtr ''struct sched_dl_entity''),
    Plain ''stop'' (TPtr ''struct task_struct''),
    Plain ''next_class'' (TPtr ''struct sched_class''),
    Plain ''next_balance'' (TInt I64 False),
    Plain ''prev_mm'' (TPtr ''struct mm_struct''),
    Bits '''' (TInt I64 True) 64,
    Plain ''clock_task'' td_u64,
    Plain ''clock_pelt'' td_u64,
    Plain ''clock'' td_u64,
    Plain ''lost_idle_time'' (TInt I64 False),
    Plain ''clock_update_flags'' (TInt I32 False),
    Plain ''clock_pelt_idle'' td_u64,
    Plain ''clock_idle'' td_u64,
    Plain ''last_seen_need_resched_ns'' td_u64,
    Plain ''ticks_without_resched'' (TInt I32 True),
    Plain ''membarrier_state'' (TInt I32 True),
    Plain ''rd'' (TPtr ''struct root_domain''),
    Plain ''sd'' (TPtr ''struct sched_domain''),
    Plain ''balance_callback'' (TPtr ''struct balance_callback''),
    Plain ''nohz_idle_balance'' (TInt I8 False),
    Plain ''idle_balance'' (TInt I8 False),
    Plain ''misfit_task_load'' (TInt I64 False),
    Plain ''active_balance'' (TInt I32 True),
    Plain ''push_cpu'' (TInt I32 True),
    Plain ''active_balance_work'' st_cpu_stop_work,
    Plain ''cpu'' (TInt I32 True),
    Plain ''online'' (TInt I32 True),
    Plain ''cfs_tasks'' st_list_head,
    Plain ''avg_rt'' st_sched_avg,
    Plain ''avg_dl'' st_sched_avg,
    Plain ''idle_stamp'' td_u64,
    Plain ''avg_idle'' td_u64,
    Plain ''max_idle_balance_cost'' td_u64,
    Plain ''hotplug_wait'' st_rcuwait,
    Plain ''prev_steal_time'' td_u64,
    Plain ''calc_load_update'' (TInt I64 False),
    Plain ''calc_load_active'' (TInt I64 True),
    Bits '''' (TInt I64 True) 64,
    Plain ''hrtick_csd'' td_call_single_data_t,
    Plain ''hrtick_timer'' st_hrtimer,
    Plain ''hrtick_time'' td_ktime_t,
    Plain ''rq_sched_info'' st_sched_info,
    Plain ''rq_cpu_time'' (TInt I64 False),
    Plain ''yld_count'' (TInt I32 False),
    Plain ''sched_count'' (TInt I32 False),
    Plain ''sched_goidle'' (TInt I32 False),
    Plain ''ttwu_count'' (TInt I32 False),
    Plain ''ttwu_local'' (TInt I32 False),
    Plain ''idle_state'' (TPtr ''struct cpuidle_state''),
    Plain ''nr_pinned'' (TInt I32 False),
    Plain ''push_busy'' (TInt I32 False),
    Plain ''push_work'' st_cpu_stop_work,
    Plain ''core'' (TPtr ''struct rq''),
    Plain ''core_pick'' (TPtr ''struct task_struct''),
    Plain ''core_dl_server'' (TPtr ''struct sched_dl_entity''),
    Plain ''core_enabled'' (TInt I32 False),
    Plain ''core_sched_seq'' (TInt I32 False),
    Plain ''core_tree'' st_rb_root,
    Plain ''core_task_seq'' (TInt I32 False),
    Plain ''core_pick_seq'' (TInt I32 False),
    Plain ''core_cookie'' (TInt I64 False),
    Plain ''core_forceidle_count'' (TInt I32 False),
    Plain ''core_forceidle_seq'' (TInt I32 False),
    Plain ''core_forceidle_occupation'' (TInt I32 False),
    Plain ''core_forceidle_start'' td_u64,
    Plain ''scratch_mask'' td_cpumask_var_t,
    Plain ''cfsb_csd'' td_call_single_data_t,
    Plain ''cfsb_csd_list'' st_list_head,
    Plain ''nr_iowait'' td_atomic_t,
    Bits '''' (TInt I64 True) 64,
    Bits '''' (TInt I64 True) 64,
    Bits '''' (TInt I64 True) 64,
    Bits '''' (TInt I64 True) 64,
    Bits '''' (TInt I64 True) 64]"

definition st_sctp_ulpq :: ty where
  "st_sctp_ulpq = TStruct ''sctp_ulpq'' False [
    Plain ''pd_mode'' (TInt I8 True),
    Plain ''asoc'' (TPtr ''struct sctp_association''),
    Plain ''reasm'' st_sk_buff_head,
    Plain ''reasm_uo'' st_sk_buff_head,
    Plain ''lobby'' st_sk_buff_head]"

definition st_sem_array :: ty where
  "st_sem_array = TStruct ''sem_array'' False [
    Plain ''sem_perm'' st_kern_ipc_perm,
    Plain ''sem_ctime'' td_time64_t,
    Plain ''pending_alter'' st_list_head,
    Plain ''pending_const'' st_list_head,
    Plain ''list_id'' st_list_head,
    Plain ''sem_nsems'' (TInt I32 True),
    Plain ''complex_count'' (TInt I32 True),
    Plain ''use_global_lock'' (TInt I32 False),
    Bits '''' (TInt I64 True) 64,
    Bits '''' (TInt I64 True) 64,
    Bits '''' (TInt I64 True) 64,
    Bits '''' (TInt I64 True) 64,
    Bits '''' (TInt I64 True) 64,
    Bits '''' (TInt I64 True) 64,
    Bits '''' (TInt I64 True) 64,
    Plain ''sems'' (TArr st_sem 0)]"

definition st_sgx_encl :: ty where
  "st_sgx_encl = TStruct ''sgx_encl'' False [
    Plain ''base'' (TInt I64 False),
    Plain ''size'' (TInt I64 False),
    Plain ''flags'' (TInt I64 False),
    Plain ''page_cnt'' (TInt I32 False),
    Plain ''secs_child_cnt'' (TInt I32 False),
    Plain ''lock'' st_mutex,
    Plain ''page_array'' st_xarray,
    Plain ''secs'' st_sgx_encl_page,
    Plain ''attributes'' (TInt I64 False),
    Plain ''attributes_mask'' (TInt I64 False),
    Plain ''cpumask'' td_cpumask_t,
    Plain ''backing'' (TPtr ''struct file''),
    Plain ''refcount'' st_kref,
    Plain ''va_pages'' st_list_head,
    Plain ''mm_list_version'' (TInt I64 False),
    Plain ''mm_list'' st_list_head,
    Plain ''mm_lock'' td_spinlock_t,
    Plain ''srcu'' st_srcu_struct]"

definition st_shared_policy :: ty where
  "st_shared_policy = TStruct ''shared_policy'' False [
    Plain ''root'' st_rb_root,
    Plain ''lock'' td_rwlock_t]"

definition st_shmid_kernel :: ty where
  "st_shmid_kernel = TStruct ''shmid_kernel'' False [
    Plain ''shm_perm'' st_kern_ipc_perm,
    Plain ''shm_file'' (TPtr ''struct file''),
    Plain ''shm_nattch'' (TInt I64 False),
    Plain ''shm_segsz'' (TInt I64 False),
    Plain ''shm_atim'' td_time64_t,
    Plain ''shm_dtim'' td_time64_t,
    Plain ''shm_ctim'' td_time64_t,
    Plain ''shm_cprid'' (TPtr ''struct pid''),
    Plain ''shm_lprid'' (TPtr ''struct pid''),
    Plain ''mlock_ucounts'' (TPtr ''struct ucounts''),
    Plain ''shm_creator'' (TPtr ''struct task_struct''),
    Plain ''shm_clist'' st_list_head,
    Plain ''ns'' (TPtr ''struct ipc_namespace''),
    Bits '''' (TInt I64 True) 64,
    Bits '''' (TInt I64 True) 64,
    Bits '''' (TInt I64 True) 64]"

definition st_shrinker :: ty where
  "st_shrinker = TStruct ''shrinker'' False [
    Plain ''count_objects''
      (TFun ''long unsigned int (*)(struct shrinker *, struct shrink_control *)''),
    Plain ''scan_objects''
      (TFun ''long unsigned int (*)(struct shrinker *, struct shrink_control *)''),
    Plain ''batch'' (TInt I64 True),
    Plain ''seeks'' (TInt I32 True),
    Plain ''flags'' (TInt I32 False),
    Plain ''refcount'' td_refcount_t,
    Plain ''done'' st_completion,
    Plain ''rcu'' st_callback_head,
    Plain ''private_data'' (TPtr ''void''),
    Plain ''list'' st_list_head,
    Plain ''id'' (TInt I32 True),
    Plain ''nr_deferred'' (TPtr ''atomic_long_t'')]"

definition st_svc_serv :: ty where
  "st_svc_serv = TStruct ''svc_serv'' False [
    Plain ''sv_programs'' (TPtr ''struct svc_program''),
    Plain ''sv_stats'' (TPtr ''struct svc_stat''),
    Plain ''sv_lock'' td_spinlock_t,
    Plain ''sv_nprogs'' (TInt I32 False),
    Plain ''sv_nrthreads'' (TInt I32 False),
    Plain ''sv_max_payload'' (TInt I32 False),
    Plain ''sv_max_mesg'' (TInt I32 False),
    Plain ''sv_xdrsize'' (TInt I32 False),
    Plain ''sv_permsocks'' st_list_head,
    Plain ''sv_tempsocks'' st_list_head,
    Plain ''sv_tmpcnt'' (TInt I32 True),
    Plain ''sv_temptimer'' st_timer_list,
    Plain ''sv_name'' (TPtr ''char''),
    Plain ''sv_nrpools'' (TInt I32 False),
    Plain ''sv_is_pooled'' td_bool,
    Plain ''sv_pools'' (TPtr ''struct svc_pool''),
    Plain ''sv_threadfn'' (TFun ''int (*)(void *)''),
    Plain ''sv_cb_list'' st_lwq,
    Plain ''sv_bc_enabled'' td_bool]"

definition st_swap_info_struct :: ty where
  "st_swap_info_struct = TStruct ''swap_info_struct'' False [
    Plain ''users'' st_percpu_ref,
    Plain ''flags'' (TInt I64 False),
    Plain ''prio'' (TInt I16 True),
    Plain ''list'' st_plist_node,
    Plain ''type'' (TInt I8 True),
    Plain ''max'' (TInt I32 False),
    Plain ''swap_map'' (TPtr ''unsigned char''),
    Plain ''zeromap'' (TPtr ''long unsigned int''),
    Plain ''cluster_info'' (TPtr ''struct swap_cluster_info''),
    Plain ''free_clusters'' st_list_head,
    Plain ''full_clusters'' st_list_head,
    Plain ''nonfull_clusters'' (TArr st_list_head 10),
    Plain ''frag_clusters'' (TArr st_list_head 10),
    Plain ''pages'' (TInt I32 False),
    Plain ''inuse_pages'' td_atomic_long_t,
    Plain ''global_cluster'' (TPtr ''struct swap_sequential_cluster''),
    Plain ''global_cluster_lock'' td_spinlock_t,
    Plain ''swap_extent_root'' st_rb_root,
    Plain ''bdev'' (TPtr ''struct block_device''),
    Plain ''swap_file'' (TPtr ''struct file''),
    Plain ''comp'' st_completion,
    Plain ''lock'' td_spinlock_t,
    Plain ''cont_lock'' td_spinlock_t,
    Plain ''discard_work'' st_work_struct,
    Plain ''reclaim_work'' st_work_struct,
    Plain ''discard_clusters'' st_list_head,
    Plain ''avail_list'' st_plist_node]"

definition st_tcf_block :: ty where
  "st_tcf_block = TStruct ''tcf_block'' False [
    Plain ''ports'' st_xarray,
    Plain ''lock'' st_mutex,
    Plain ''chain_list'' st_list_head,
    Plain ''index'' td_u32,
    Plain ''classid'' td_u32,
    Plain ''refcnt'' td_refcount_t,
    Plain ''net'' (TPtr ''struct net''),
    Plain ''q'' (TPtr ''struct Qdisc''),
    Plain ''cb_lock'' st_rw_semaphore,
    Plain ''flow_block'' st_flow_block,
    Plain ''owner_list'' st_list_head,
    Plain ''keep_dst'' td_bool,
    Plain ''useswcnt'' td_atomic_t,
    Plain ''offloadcnt'' td_atomic_t,
    Plain ''nooffloaddevcnt'' (TInt I32 False),
    Plain ''lockeddevcnt'' (TInt I32 False),
    Plain ''chain0'' (TStruct '''' False [
      Plain ''chain'' (TPtr ''struct tcf_chain''),
      Plain ''filter_chain_list'' st_list_head]),
    Plain ''rcu'' st_callback_head,
    Plain ''proto_destroy_ht'' (TArr st_hlist_head 128),
    Plain ''proto_destroy_lock'' st_mutex]"

definition st_twl6040 :: ty where
  "st_twl6040 = TStruct ''twl6040'' False [
    Plain ''dev'' (TPtr ''struct device''),
    Plain ''regmap'' (TPtr ''struct regmap''),
    Plain ''irq_data'' (TPtr ''struct regmap_irq_chip_data''),
    Plain ''supplies'' (TArr st_regulator_bulk_data 2),
    Plain ''clk32k'' (TPtr ''struct clk''),
    Plain ''mclk'' (TPtr ''struct clk''),
    Plain ''mutex'' st_mutex,
    Plain ''irq_mutex'' st_mutex,
    Plain ''cells'' (TArr st_mfd_cell 4),
    Plain ''ready'' st_completion,
    Plain ''audpwron'' (TPtr ''struct gpio_desc''),
    Plain ''power_count'' (TInt I32 True),
    Plain ''rev'' (TInt I32 True),
    Plain ''pll'' (TInt I32 True),
    Plain ''sysclk_rate'' (TInt I32 False),
    Plain ''mclk_rate'' (TInt I32 False),
    Plain ''irq'' (TInt I32 False),
    Plain ''irq_ready'' (TInt I32 False),
    Plain ''irq_th'' (TInt I32 False)]"

definition st_usb_hcd :: ty where
  "st_usb_hcd = TStruct ''usb_hcd'' False [
    Plain ''self'' st_usb_bus,
    Plain ''kref'' st_kref,
    Plain ''product_desc'' (TPtr ''char''),
    Plain ''speed'' (TInt I32 True),
    Plain ''irq_descr'' (TArr (TInt I8 True) 24),
    Plain ''rh_timer'' st_timer_list,
    Plain ''status_urb'' (TPtr ''struct urb''),
    Plain ''wakeup_work'' st_work_struct,
    Plain ''died_work'' st_work_struct,
    Plain ''driver'' (TPtr ''struct hc_driver''),
    Plain ''usb_phy'' (TPtr ''struct usb_phy''),
    Plain ''phy_roothub'' (TPtr ''struct usb_phy_roothub''),
    Plain ''flags'' (TInt I64 False),
    Plain ''dev_policy'' (TEnum ''usb_dev_authorize_policy'' I32),
    Bits ''rh_registered'' (TInt I32 False) 1,
    Bits ''rh_pollable'' (TInt I32 False) 1,
    Bits ''msix_enabled'' (TInt I32 False) 1,
    Bits ''msi_enabled'' (TInt I32 False) 1,
    Bits ''skip_phy_initialization'' (TInt I32 False) 1,
    Bits ''uses_new_polling'' (TInt I32 False) 1,
    Bits ''has_tt'' (TInt I32 False) 1,
    Bits ''amd_resume_bug'' (TInt I32 False) 1,
    Bits ''can_do_streams'' (TInt I32 False) 1,
    Bits ''tpl_support'' (TInt I32 False) 1,
    Bits ''cant_recv_wakeups'' (TInt I32 False) 1,
    Plain ''irq'' (TInt I32 False),
    Plain ''regs'' (TPtr ''void''),
    Plain ''rsrc_start'' td_resource_size_t,
    Plain ''rsrc_len'' td_resource_size_t,
    Plain ''power_budget'' (TInt I32 False),
    Plain ''high_prio_bh'' st_giveback_urb_bh,
    Plain ''low_prio_bh'' st_giveback_urb_bh,
    Plain ''address0_mutex'' (TPtr ''struct mutex''),
    Plain ''bandwidth_mutex'' (TPtr ''struct mutex''),
    Plain ''shared_hcd'' (TPtr ''struct usb_hcd''),
    Plain ''primary_hcd'' (TPtr ''struct usb_hcd''),
    Plain ''pool'' (TArr (TPtr ''struct dma_pool'') 4),
    Plain ''state'' (TInt I32 True),
    Plain ''localmem_pool'' (TPtr ''struct gen_pool''),
    Plain ''hcd_priv'' (TArr (TInt I64 False) 0)]"

definition st_usb_hub :: ty where
  "st_usb_hub = TStruct ''usb_hub'' False [
    Plain ''intfdev'' (TPtr ''struct device''),
    Plain ''hdev'' (TPtr ''struct usb_device''),
    Plain ''kref'' st_kref,
    Plain ''urb'' (TPtr ''struct urb''),
    Plain ''buffer'' (TPtr ''u8 (*buffer)[8]''),
    Plain ''status'' (TPtr ''union {...}''),
    Plain ''status_mutex'' st_mutex,
    Plain ''error'' (TInt I32 True),
    Plain ''nerrors'' (TInt I32 True),
    Plain ''event_bits'' (TArr (TInt I64 False) 1),
    Plain ''change_bits'' (TArr (TInt I64 False) 1),
    Plain ''removed_bits'' (TArr (TInt I64 False) 1),
    Plain ''wakeup_bits'' (TArr (TInt I64 False) 1),
    Plain ''power_bits'' (TArr (TInt I64 False) 1),
    Plain ''child_usage_bits'' (TArr (TInt I64 False) 1),
    Plain ''warm_reset_bits'' (TArr (TInt I64 False) 1),
    Plain ''descriptor'' (TPtr ''struct usb_hub_descriptor''),
    Plain ''tt'' st_usb_tt,
    Plain ''mA_per_port'' (TInt I32 False),
    Plain ''wakeup_enabled_descendants'' (TInt I32 False),
    Bits ''limited_power'' (TInt I32 False) 1,
    Bits ''quiescing'' (TInt I32 False) 1,
    Bits ''disconnected'' (TInt I32 False) 1,
    Bits ''in_reset'' (TInt I32 False) 1,
    Bits ''quirk_disable_autosuspend'' (TInt I32 False) 1,
    Bits ''quirk_check_port_auto_suspend'' (TInt I32 False) 1,
    Bits ''has_indicators'' (TInt I32 False) 1,
    Plain ''indicator'' (TArr td_u8 31),
    Plain ''leds'' st_delayed_work,
    Plain ''init_work'' st_delayed_work,
    Plain ''post_resume_work'' st_delayed_work,
    Plain ''events'' st_work_struct,
    Plain ''irq_urb_lock'' td_spinlock_t,
    Plain ''irq_urb_retry'' st_timer_list,
    Plain ''ports'' (TPtr ''struct usb_port *''),
    Plain ''onboard_devs'' st_list_head]"

definition st_xfrm_policy_queue :: ty where
  "st_xfrm_policy_queue = TStruct ''xfrm_policy_queue'' False [
    Plain ''hold_queue'' st_sk_buff_head,
    Plain ''hold_timer'' st_timer_list,
    Plain ''timeout'' (TInt I64 False)]"

definition st_xhci_hcd :: ty where
  "st_xhci_hcd = TStruct ''xhci_hcd'' False [
    Plain ''main_hcd'' (TPtr ''struct usb_hcd''),
    Plain ''shared_hcd'' (TPtr ''struct usb_hcd''),
    Plain ''cap_regs'' (TPtr ''struct xhci_cap_regs''),
    Plain ''op_regs'' (TPtr ''struct xhci_op_regs''),
    Plain ''run_regs'' (TPtr ''struct xhci_run_regs''),
    Plain ''dba'' (TPtr ''struct xhci_doorbell_array''),
    Plain ''hcs_params2'' td___u32,
    Plain ''hcs_params3'' td___u32,
    Plain ''hcc_params'' td___u32,
    Plain ''hcc_params2'' td___u32,
    Plain ''lock'' td_spinlock_t,
    Plain ''hci_version'' td_u16,
    Plain ''max_interrupters'' td_u16,
    Plain ''max_slots'' td_u8,
    Plain ''max_ports'' td_u8,
    Plain ''imod_interval'' td_u32,
    Plain ''page_size'' td_u32,
    Plain ''nvecs'' (TInt I32 True),
    Plain ''clk'' (TPtr ''struct clk''),
    Plain ''reg_clk'' (TPtr ''struct clk''),
    Plain ''reset'' (TPtr ''struct reset_control''),
    Plain ''dcbaa'' (TPtr ''struct xhci_device_context_array''),
    Plain ''interrupters'' (TPtr ''struct xhci_interrupter *''),
    Plain ''cmd_ring'' (TPtr ''struct xhci_ring''),
    Plain ''cmd_ring_state'' (TInt I32 False),
    Plain ''cmd_list'' st_list_head,
    Plain ''cmd_ring_reserved_trbs'' (TInt I32 False),
    Plain ''cmd_timer'' st_delayed_work,
    Plain ''cmd_ring_stop_completion'' st_completion,
    Plain ''current_cmd'' (TPtr ''struct xhci_command''),
    Plain ''scratchpad'' (TPtr ''struct xhci_scratchpad''),
    Plain ''mutex'' st_mutex,
    Plain ''devs'' (TArr (TPtr ''struct xhci_virt_device'') 256),
    Plain ''rh_bw'' (TPtr ''struct xhci_root_port_bw_info''),
    Plain ''device_pool'' (TPtr ''struct dma_pool''),
    Plain ''segment_pool'' (TPtr ''struct dma_pool''),
    Plain ''small_streams_pool'' (TPtr ''struct dma_pool''),
    Plain ''port_bw_pool'' (TPtr ''struct dma_pool''),
    Plain ''medium_streams_pool'' (TPtr ''struct dma_pool''),
    Plain ''xhc_state'' (TInt I32 False),
    Plain ''run_graceperiod'' (TInt I64 False),
    Plain ''s3'' st_s3_save,
    Plain ''quirks'' (TInt I64 False),
    Plain ''num_active_eps'' (TInt I32 False),
    Plain ''limit_active_eps'' (TInt I32 False),
    Plain ''hw_ports'' (TPtr ''struct xhci_port''),
    Plain ''usb2_rhub'' st_xhci_hub,
    Plain ''usb3_rhub'' st_xhci_hub,
    Bits ''hw_lpm_support'' (TInt I32 False) 1,
    Bits ''broken_suspend'' (TInt I32 False) 1,
    Bits ''allow_single_roothub'' (TInt I32 False) 1,
    Plain ''port_caps'' (TPtr ''struct xhci_port_cap''),
    Plain ''num_port_caps'' (TInt I32 False),
    Plain ''comp_mode_recovery_timer'' st_timer_list,
    Plain ''port_status_u0'' td_u32,
    Plain ''test_mode'' td_u16,
    Plain ''debugfs_root'' (TPtr ''struct dentry''),
    Plain ''debugfs_slots'' (TPtr ''struct dentry''),
    Plain ''regset_list'' st_list_head,
    Plain ''dbc'' (TPtr ''void''),
    Plain ''priv'' (TArr (TInt I64 False) 0)]"

definition st_zspage :: ty where
  "st_zspage = TStruct ''zspage'' False [
    Plain '''' (TStruct '''' False [
      Bits ''huge'' (TInt I32 False) 1,
      Bits ''fullness'' (TInt I32 False) 4,
      Bits ''class'' (TInt I32 False) 9,
      Bits ''magic'' (TInt I32 False) 8]),
    Plain ''inuse'' (TInt I32 False),
    Plain ''freeobj'' (TInt I32 False),
    Plain ''first_zpdesc'' (TPtr ''struct zpdesc''),
    Plain ''list'' st_list_head,
    Plain ''pool'' (TPtr ''struct zs_pool''),
    Plain ''zsl'' st_zspage_lock]"

end
