(* ===== verification/VmlinuxStruct12.thy ===== *)
theory VmlinuxStruct12
  imports VmlinuxStruct11
begin

text \<open>
  Structures and unions of \<open>src/internal/ebpf/vmlinux.h\<close> (aggregates nested 7 deep), in the
  order of the header: \<open>st_<tag>\<close>, \<open>un_<tag>\<close>, and \<open>td_<name>\<close> for an aggregate with a type name.
\<close>

definition td_socket_lock_t :: ty where
  "td_socket_lock_t = TStruct '''' False [
    Plain ''slock'' td_spinlock_t,
    Plain ''owned'' (TInt I32 True),
    Plain ''wq'' td_wait_queue_head_t]"

definition st_dev_pm_info :: ty where
  "st_dev_pm_info = TStruct ''dev_pm_info'' False [
    Plain ''power_state'' td_pm_message_t,
    Bits ''can_wakeup'' td_bool 1,
    Bits ''async_suspend'' td_bool 1,
    Bits ''in_dpm_list'' td_bool 1,
    Bits ''is_prepared'' td_bool 1,
    Bits ''is_suspended'' td_bool 1,
    Bits ''is_noirq_suspended'' td_bool 1,
    Bits ''is_late_suspended'' td_bool 1,
    Bits ''no_pm'' td_bool 1,
    Bits ''early_init'' td_bool 1,
    Bits ''direct_complete'' td_bool 1,
    Plain ''driver_flags'' td_u32,
    Plain ''lock'' td_spinlock_t,
    Plain ''entry'' st_list_head,
    Plain ''completion'' st_completion,
    Plain ''wakeup'' (TPtr ''struct wakeup_source''),
    Plain ''work_in_progress'' td_bool,
    Bits ''wakeup_path'' td_bool 1,
    Bits ''syscore'' td_bool 1,
    Bits ''no_pm_callbacks'' td_bool 1,
    Bits ''smart_suspend'' td_bool 1,
    Bits ''must_resume'' td_bool 1,
    Bits ''may_skip_resume'' td_bool 1,
    Bits ''out_band_wakeup'' td_bool 1,
    Bits ''strict_midlayer'' td_bool 1,
    Plain ''suspend_timer'' st_hrtimer,
    Plain ''timer_expires'' td_u64,
    Plain ''work'' st_work_struct,
    Plain ''wait_queue'' td_wait_queue_head_t,
    Plain ''wakeirq'' (TPtr ''struct wake_irq''),
    Plain ''usage_count'' td_atomic_t,
    Plain ''child_count'' td_atomic_t,
    Bits ''disable_depth'' (TInt I32 False) 3,
    Bits ''idle_notification'' td_bool 1,
    Bits ''request_pending'' td_bool 1,
    Bits ''deferred_resume'' td_bool 1,
    Bits ''needs_force_resume'' td_bool 1,
    Bits ''runtime_auto'' td_bool 1,
    Bits ''ignore_children'' td_bool 1,
    Bits ''no_callbacks'' td_bool 1,
    Bits ''irq_safe'' td_bool 1,
    Bits ''use_autosuspend'' td_bool 1,
    Bits ''timer_autosuspends'' td_bool 1,
    Bits ''memalloc_noio'' td_bool 1,
    Plain ''links_count'' (TInt I32 False),
    Plain ''request'' (TEnum ''rpm_request'' I32),
    Plain ''runtime_status'' (TEnum ''rpm_status'' I32),
    Plain ''last_status'' (TEnum ''rpm_status'' I32),
    Plain ''runtime_error'' (TInt I32 True),
    Plain ''autosuspend_delay'' (TInt I32 True),
    Plain ''last_busy'' td_u64,
    Plain ''active_time'' td_u64,
    Plain ''suspended_time'' td_u64,
    Plain ''accounting_timestamp'' td_u64,
    Plain ''subsys_data'' (TPtr ''struct pm_subsys_data''),
    Plain ''set_latency_tolerance'' (TFun ''void (*)(struct device *, s32)''),
    Plain ''qos'' (TPtr ''struct dev_pm_qos''),
    Bits ''detach_power_off'' td_bool 1]"

definition st_aa_listener :: ty where
  "st_aa_listener = TStruct ''aa_listener'' False [
    Plain ''count'' st_kref,
    Plain ''lock'' td_spinlock_t,
    Plain ''wait'' td_wait_queue_head_t,
    Plain ''ns_proxies'' st_list_head,
    Plain ''notifications'' st_list_head,
    Plain ''pending'' st_list_head,
    Plain ''ns'' (TPtr ''struct aa_ns''),
    Plain ''filter'' (TPtr ''struct aa_dfa''),
    Plain ''label'' (TPtr ''struct aa_label''),
    Plain ''listener_id'' td_u64,
    Plain ''last_id'' td_u64,
    Plain ''mask'' td_u32,
    Plain ''flags'' td_u32,
    Plain ''version'' td_u16]"

definition st_aa_ns :: ty where
  "st_aa_ns = TStruct ''aa_ns'' False [
    Plain ''base'' st_aa_policy,
    Plain ''parent'' (TPtr ''struct aa_ns''),
    Plain ''lock'' st_mutex,
    Plain ''acct'' st_aa_ns_acct,
    Plain ''unconfined'' (TPtr ''struct aa_profile''),
    Plain ''sub_ns'' st_list_head,
    Plain ''uniq_null'' td_atomic_t,
    Plain ''uniq_id'' (TInt I64 True),
    Plain ''level'' (TInt I32 True),
    Plain ''revision'' (TInt I64 True),
    Plain ''wait'' td_wait_queue_head_t,
    Plain ''listener_lock'' td_spinlock_t,
    Plain ''listeners'' st_list_head,
    Plain ''labels'' st_aa_labelset,
    Plain ''rawdata_list'' st_list_head,
    Plain ''dents'' (TArr (TPtr ''struct dentry'') 13)]"

definition st_acpi_aml_io :: ty where
  "st_acpi_aml_io = TStruct ''acpi_aml_io'' False [
    Plain ''wait'' td_wait_queue_head_t,
    Plain ''flags'' (TInt I64 False),
    Plain ''users'' (TInt I64 False),
    Plain ''lock'' st_mutex,
    Plain ''thread'' (TPtr ''struct task_struct''),
    Plain ''out_buf'' (TArr (TInt I8 True) 4096),
    Plain ''out_crc'' st_circ_buf,
    Plain ''in_buf'' (TArr (TInt I8 True) 4096),
    Plain ''in_crc'' st_circ_buf,
    Plain ''function'' td_acpi_osd_exec_callback,
    Plain ''context'' (TPtr ''void''),
    Plain ''usages'' (TInt I64 False)]"

definition st_acpi_ec :: ty where
  "st_acpi_ec = TStruct ''acpi_ec'' False [
    Plain ''handle'' td_acpi_handle,
    Plain ''gpe'' (TInt I32 True),
    Plain ''irq'' (TInt I32 True),
    Plain ''command_addr'' (TInt I64 False),
    Plain ''data_addr'' (TInt I64 False),
    Plain ''global_lock'' td_bool,
    Plain ''flags'' (TInt I64 False),
    Plain ''reference_count'' (TInt I64 False),
    Plain ''mutex'' st_mutex,
    Plain ''wait'' td_wait_queue_head_t,
    Plain ''list'' st_list_head,
    Plain ''curr'' (TPtr ''struct transaction''),
    Plain ''lock'' td_spinlock_t,
    Plain ''work'' st_work_struct,
    Plain ''timestamp'' (TInt I64 False),
    Plain ''event_state'' (TEnum ''acpi_ec_event_state'' I32),
    Plain ''events_to_process'' (TInt I32 False),
    Plain ''events_in_progress'' (TInt I32 False),
    Plain ''queries_in_progress'' (TInt I32 False),
    Plain ''busy_polling'' td_bool,
    Plain ''polling_guard'' (TInt I32 False)]"

definition st_ps2dev :: ty where
  "st_ps2dev = TStruct ''ps2dev'' False [
    Plain ''serio'' (TPtr ''struct serio''),
    Plain ''cmd_mutex'' st_mutex,
    Plain ''wait'' td_wait_queue_head_t,
    Plain ''flags'' (TInt I64 False),
    Plain ''cmdbuf'' (TArr td_u8 8),
    Plain ''cmdcnt'' td_u8,
    Plain ''nak'' td_u8,
    Plain ''pre_receive_handler'' td_ps2_pre_receive_handler_t,
    Plain ''receive_handler'' td_ps2_receive_handler_t]"

definition st_backing_dev_info :: ty where
  "st_backing_dev_info = TStruct ''backing_dev_info'' False [
    Plain ''id'' td_u64,
    Plain ''rb_node'' st_rb_node,
    Plain ''bdi_list'' st_list_head,
    Plain ''ra_pages'' (TInt I64 False),
    Plain ''io_pages'' (TInt I64 False),
    Plain ''refcnt'' st_kref,
    Plain ''capabilities'' (TInt I32 False),
    Plain ''min_ratio'' (TInt I32 False),
    Plain ''max_ratio'' (TInt I32 False),
    Plain ''max_prop_frac'' (TInt I32 False),
    Plain ''tot_write_bandwidth'' td_atomic_long_t,
    Plain ''last_bdp_sleep'' (TInt I64 False),
    Plain ''wb'' st_bdi_writeback,
    Plain ''wb_list'' st_list_head,
    Plain ''cgwb_tree'' st_xarray,
    Plain ''cgwb_release_mutex'' st_mutex,
    Plain ''wb_switch_rwsem'' st_rw_semaphore,
    Plain ''wb_waitq'' td_wait_queue_head_t,
    Plain ''dev'' (TPtr ''struct device''),
    Plain ''dev_name'' (TArr (TInt I8 True) 64),
    Plain ''owner'' (TPtr ''struct device''),
    Plain ''debug_dir'' (TPtr ''struct dentry'')]"

definition st_badblocks :: ty where
  "st_badblocks = TStruct ''badblocks'' False [
    Plain ''dev'' (TPtr ''struct device''),
    Plain ''count'' (TInt I32 True),
    Plain ''unacked_exist'' (TInt I32 True),
    Plain ''shift'' (TInt I32 True),
    Plain ''page'' (TPtr ''u64''),
    Plain ''changed'' (TInt I32 True),
    Plain ''lock'' td_seqlock_t,
    Plain ''sector'' td_sector_t,
    Plain ''size'' td_sector_t]"

definition st_inode :: ty where
  "st_inode = TStruct ''inode'' False [
    Plain ''i_mode'' td_umode_t,
    Plain ''i_opflags'' (TInt I16 False),
    Plain ''i_flags'' (TInt I32 False),
    Plain ''i_acl'' (TPtr ''struct posix_acl''),
    Plain ''i_default_acl'' (TPtr ''struct posix_acl''),
    Plain ''i_uid'' td_kuid_t,
    Plain ''i_gid'' td_kgid_t,
    Plain ''i_op'' (TPtr ''struct inode_operations''),
    Plain ''i_sb'' (TPtr ''struct super_block''),
    Plain ''i_mapping'' (TPtr ''struct address_space''),
    Plain ''i_security'' (TPtr ''void''),
    Plain ''i_ino'' (TInt I64 False),
    Plain '''' (TUnion '''' False [
      Plain ''i_nlink'' (TInt I32 False),
      Plain ''__i_nlink'' (TInt I32 False)]),
    Plain ''i_rdev'' td_dev_t,
    Plain ''i_size'' td_loff_t,
    Plain ''i_atime_sec'' td_time64_t,
    Plain ''i_mtime_sec'' td_time64_t,
    Plain ''i_ctime_sec'' td_time64_t,
    Plain ''i_atime_nsec'' td_u32,
    Plain ''i_mtime_nsec'' td_u32,
    Plain ''i_ctime_nsec'' td_u32,
    Plain ''i_generation'' td_u32,
    Plain ''i_lock'' td_spinlock_t,
    Plain ''i_bytes'' (TInt I16 False),
    Plain ''i_blkbits'' td_u8,
    Plain ''i_write_hint'' (TEnum ''rw_hint'' I8),
    Plain ''i_blocks'' td_blkcnt_t,
    Plain ''i_state'' st_inode_state_flags,
    Plain ''i_rwsem'' st_rw_semaphore,
    Plain ''dirtied_when'' (TInt I64 False),
    Plain ''dirtied_time_when'' (TInt I64 False),
    Plain ''i_hash'' st_hlist_node,
    Plain ''i_io_list'' st_list_head,
    Plain ''i_wb'' (TPtr ''struct bdi_writeback''),
    Plain ''i_wb_frn_winner'' (TInt I32 True),
    Plain ''i_wb_frn_avg_time'' td_u16,
    Plain ''i_wb_frn_history'' td_u16,
    Plain ''i_lru'' st_list_head,
    Plain ''i_sb_list'' st_list_head,
    Plain ''i_wb_list'' st_list_head,
    Plain '''' (TUnion '''' False [
      Plain ''i_dentry'' st_hlist_head,
      Plain ''i_rcu'' st_callback_head]),
    Plain ''i_version'' td_atomic64_t,
    Plain ''i_sequence'' td_atomic64_t,
    Plain ''i_count'' td_atomic_t,
    Plain ''i_dio_count'' td_atomic_t,
    Plain ''i_writecount'' td_atomic_t,
    Plain ''i_readcount'' td_atomic_t,
    Plain '''' (TUnion '''' False [
      Plain ''i_fop'' (TPtr ''struct file_operations''),
      Plain ''free_inode'' (TFun ''void (*)(struct inode *)'')]),
    Plain ''i_flctx'' (TPtr ''struct file_lock_context''),
    Plain ''i_data'' st_address_space,
    Plain '''' (TUnion '''' False [
      Plain ''i_devices'' st_list_head,
      Plain ''i_linklen'' (TInt I32 True)]),
    Plain '''' (TUnion '''' False [
      Plain ''i_pipe'' (TPtr ''struct pipe_inode_info''),
      Plain ''i_cdev'' (TPtr ''struct cdev''),
      Plain ''i_link'' (TPtr ''char''),
      Plain ''i_dir_seq'' (TInt I32 False)]),
    Plain ''i_fsnotify_mask'' td___u32,
    Plain ''i_fsnotify_marks'' (TPtr ''struct fsnotify_mark_connector''),
    Plain ''i_private'' (TPtr ''void'')]"

definition st_mempool :: ty where
  "st_mempool = TStruct ''mempool'' False [
    Plain ''lock'' td_spinlock_t,
    Plain ''min_nr'' (TInt I32 True),
    Plain ''curr_nr'' (TInt I32 True),
    Plain ''elements'' (TPtr ''void *''),
    Plain ''pool_data'' (TPtr ''void''),
    Plain ''alloc'' (TPtr ''mempool_alloc_t''),
    Plain ''free'' (TPtr ''mempool_free_t''),
    Plain ''wait'' td_wait_queue_head_t]"

definition st_blk_crypto_profile :: ty where
  "st_blk_crypto_profile = TStruct ''blk_crypto_profile'' False [
    Plain ''ll_ops'' st_blk_crypto_ll_ops,
    Plain ''max_dun_bytes_supported'' (TInt I32 False),
    Plain ''key_types_supported'' (TInt I32 False),
    Plain ''modes_supported'' (TArr (TInt I32 False) 5),
    Plain ''dev'' (TPtr ''struct device''),
    Plain ''num_slots'' (TInt I32 False),
    Plain ''lock'' st_rw_semaphore,
    Plain ''lockdep_key'' st_lock_class_key,
    Plain ''idle_slots_wait_queue'' td_wait_queue_head_t,
    Plain ''idle_slots'' st_list_head,
    Plain ''idle_slots_lock'' td_spinlock_t,
    Plain ''slot_hashtable'' (TPtr ''struct hlist_head''),
    Plain ''log_slot_ht_size'' (TInt I32 False),
    Plain ''slots'' (TPtr ''struct blk_crypto_keyslot'')]"

definition st_fs_pin :: ty where
  "st_fs_pin = TStruct ''fs_pin'' False [
    Plain ''wait'' td_wait_queue_head_t,
    Plain ''done'' (TInt I32 True),
    Plain ''s_list'' st_hlist_node,
    Plain ''m_list'' st_hlist_node,
    Plain ''kill'' (TFun ''void (*)(struct fs_pin *)'')]"

definition st_cgroup :: ty where
  "st_cgroup = TStruct ''cgroup'' False [
    Plain ''self'' st_cgroup_subsys_state,
    Plain ''flags'' (TInt I64 False),
    Plain ''level'' (TInt I32 True),
    Plain ''max_depth'' (TInt I32 True),
    Plain ''nr_descendants'' (TInt I32 True),
    Plain ''nr_dying_descendants'' (TInt I32 True),
    Plain ''max_descendants'' (TInt I32 True),
    Plain ''nr_populated_csets'' (TInt I32 True),
    Plain ''nr_populated_domain_children'' (TInt I32 True),
    Plain ''nr_populated_threaded_children'' (TInt I32 True),
    Plain ''nr_threaded_children'' (TInt I32 True),
    Plain ''kill_seq'' (TInt I32 False),
    Plain ''kn'' (TPtr ''struct kernfs_node''),
    Plain ''procs_file'' st_cgroup_file,
    Plain ''events_file'' st_cgroup_file,
    Plain ''psi_files'' (TArr st_cgroup_file 3),
    Plain ''subtree_control'' td_u32,
    Plain ''subtree_ss_mask'' td_u32,
    Plain ''old_subtree_control'' td_u32,
    Plain ''old_subtree_ss_mask'' td_u32,
    Plain ''subsys'' (TArr (TPtr ''struct cgroup_subsys_state'') 15),
    Plain ''nr_dying_subsys'' (TArr (TInt I32 True) 15),
    Plain ''root'' (TPtr ''struct cgroup_root''),
    Plain ''cset_links'' st_list_head,
    Plain ''e_csets'' (TArr st_list_head 15),
    Plain ''dom_cgrp'' (TPtr ''struct cgroup''),
    Plain ''old_dom_cgrp'' (TPtr ''struct cgroup''),
    Plain ''rstat_base_cpu'' (TPtr ''struct cgroup_rstat_base_cpu''),
    Bits '''' (TInt I64 True) 64,
    Bits '''' (TInt I64 True) 64,
    Bits '''' (TInt I64 True) 64,
    Bits '''' (TInt I64 True) 64,
    Bits '''' (TInt I64 True) 64,
    Bits '''' (TInt I64 True) 64,
    Bits '''' (TInt I64 True) 64,
    Plain ''_pad_'' st_cacheline_padding,
    Plain ''last_bstat'' st_cgroup_base_stat,
    Plain ''bstat'' st_cgroup_base_stat,
    Plain ''prev_cputime'' st_prev_cputime,
    Plain ''pidlists'' st_list_head,
    Plain ''pidlist_mutex'' st_mutex,
    Plain ''offline_waitq'' td_wait_queue_head_t,
    Plain ''dying_populated_waitq'' td_wait_queue_head_t,
    Plain ''release_agent_work'' st_work_struct,
    Plain ''psi'' (TPtr ''struct psi_group''),
    Plain ''bpf'' st_cgroup_bpf,
    Plain ''freezer'' st_cgroup_freezer_state,
    Plain ''bpf_cgrp_storage'' (TPtr ''struct bpf_local_storage''),
    Plain '''' (TUnion '''' False [
      Plain '''' (TStruct '''' False [
        Plain ''__empty_ancestors'' (TStruct '''' False []),
        Plain ''ancestors'' (TArr (TPtr ''struct cgroup'') 0)]),
      Plain '''' (TStruct '''' False [
        Plain ''_root_ancestor'' (TPtr ''struct cgroup''),
        Plain '''' (TStruct '''' False [
          Plain ''__empty__low_ancestors'' (TStruct '''' False []),
          Plain ''_low_ancestors'' (TArr (TPtr ''struct cgroup'') 0)])])]),
    Bits '''' (TInt I64 True) 64,
    Bits '''' (TInt I64 True) 64,
    Bits '''' (TInt I64 True) 64,
    Bits '''' (TInt I64 True) 64]"

definition st_ppp_file :: ty where
  "st_ppp_file = TStruct ''ppp_file'' False [
    Plain ''kind'' (TEnum '''' I32),
    Plain ''xq'' st_sk_buff_head,
    Plain ''rq'' st_sk_buff_head,
    Plain ''rwait'' td_wait_queue_head_t,
    Plain ''refcnt'' td_refcount_t,
    Plain ''hdrlen'' (TInt I32 True),
    Plain ''index'' (TInt I32 True),
    Plain ''dead'' (TInt I32 True)]"

definition st_cmp_data :: ty where
  "st_cmp_data = TStruct ''cmp_data'' False [
    Plain ''thr'' (TPtr ''struct task_struct''),
    Plain ''cc'' (TPtr ''struct crypto_acomp''),
    Plain ''cr'' (TPtr ''struct acomp_req''),
    Plain ''ready'' td_atomic_t,
    Plain ''stop'' td_atomic_t,
    Plain ''ret'' (TInt I32 True),
    Plain ''go'' td_wait_queue_head_t,
    Plain ''done'' td_wait_queue_head_t,
    Plain ''unc_len'' td_size_t,
    Plain ''cmp_len'' td_size_t,
    Plain ''unc'' (TArr (TInt I8 False) 131072),
    Plain ''cmp'' (TArr (TInt I8 False) 143360)]"

definition st_controller :: ty where
  "st_controller = TStruct ''controller'' False [
    Plain ''pcie'' (TPtr ''struct pcie_device''),
    Plain ''dsn'' td_u64,
    Plain ''slot_cap'' td_u32,
    Bits ''inband_presence_disabled'' (TInt I32 False) 1,
    Plain ''slot_ctrl'' td_u16,
    Plain ''ctrl_lock'' st_mutex,
    Plain ''cmd_started'' (TInt I64 False),
    Bits ''cmd_busy'' (TInt I32 False) 1,
    Plain ''queue'' td_wait_queue_head_t,
    Plain ''pending_events'' td_atomic_t,
    Bits ''notification_enabled'' (TInt I32 False) 1,
    Plain ''power_fault_detected'' (TInt I32 False),
    Plain ''poll_thread'' (TPtr ''struct task_struct''),
    Plain ''state'' td_u8,
    Plain ''state_lock'' st_mutex,
    Plain ''button_work'' st_delayed_work,
    Plain ''hotplug_slot'' st_hotplug_slot,
    Plain ''reset_lock'' st_rw_semaphore,
    Plain ''depth'' (TInt I32 False),
    Plain ''ist_running'' (TInt I32 False),
    Plain ''request_result'' (TInt I32 True),
    Plain ''requester'' td_wait_queue_head_t]"

definition st_controller___2 :: ty where
  "st_controller___2 = TStruct ''controller___2'' False [
    Plain ''crit_sect'' st_mutex,
    Plain ''cmd_lock'' st_mutex,
    Plain ''num_slots'' (TInt I32 True),
    Plain ''slot_num_inc'' (TInt I32 True),
    Plain ''pci_dev'' (TPtr ''struct pci_dev''),
    Plain ''slot_list'' st_list_head,
    Plain ''queue'' td_wait_queue_head_t,
    Plain ''slot_device_offset'' td_u8,
    Plain ''pcix_misc2_reg'' td_u32,
    Plain ''first_slot'' td_u32,
    Plain ''cap_offset'' td_u32,
    Plain ''mmio_base'' (TInt I64 False),
    Plain ''mmio_size'' (TInt I64 False),
    Plain ''creg'' (TPtr ''void''),
    Plain ''poll_timer'' st_timer_list]"

definition st_cppc_pcc_data :: ty where
  "st_cppc_pcc_data = TStruct ''cppc_pcc_data'' False [
    Plain ''pcc_channel'' (TPtr ''struct pcc_mbox_chan''),
    Plain ''pcc_channel_acquired'' td_bool,
    Plain ''deadline_us'' (TInt I32 False),
    Plain ''pcc_mpar'' (TInt I32 False),
    Plain ''pcc_mrtt'' (TInt I32 False),
    Plain ''pcc_nominal'' (TInt I32 False),
    Plain ''pending_pcc_write_cmd'' td_bool,
    Plain ''platform_owns_pcc'' td_bool,
    Plain ''pcc_write_cnt'' (TInt I32 False),
    Plain ''pcc_lock'' st_rw_semaphore,
    Plain ''pcc_write_wait_q'' td_wait_queue_head_t,
    Plain ''last_cmd_cmpl_time'' td_ktime_t,
    Plain ''last_mpar_reset'' td_ktime_t,
    Plain ''mpar_count'' (TInt I32 True),
    Plain ''refcount'' (TInt I32 True)]"

definition st_cpufreq_policy :: ty where
  "st_cpufreq_policy = TStruct ''cpufreq_policy'' False [
    Plain ''cpus'' td_cpumask_var_t,
    Plain ''related_cpus'' td_cpumask_var_t,
    Plain ''real_cpus'' td_cpumask_var_t,
    Plain ''shared_type'' (TInt I32 False),
    Plain ''cpu'' (TInt I32 False),
    Plain ''clk'' (TPtr ''struct clk''),
    Plain ''cpuinfo'' st_cpufreq_cpuinfo,
    Plain ''min'' (TInt I32 False),
    Plain ''max'' (TInt I32 False),
    Plain ''cur'' (TInt I32 False),
    Plain ''suspend_freq'' (TInt I32 False),
    Plain ''policy'' (TInt I32 False),
    Plain ''last_policy'' (TInt I32 False),
    Plain ''governor'' (TPtr ''struct cpufreq_governor''),
    Plain ''governor_data'' (TPtr ''void''),
    Plain ''last_governor'' (TArr (TInt I8 True) 16),
    Plain ''update'' st_work_struct,
    Plain ''constraints'' st_freq_constraints,
    Plain ''min_freq_req'' (TPtr ''struct freq_qos_request''),
    Plain ''max_freq_req'' (TPtr ''struct freq_qos_request''),
    Plain ''freq_table'' (TPtr ''struct cpufreq_frequency_table''),
    Plain ''freq_table_sorted'' (TEnum ''cpufreq_table_sorting'' I32),
    Plain ''policy_list'' st_list_head,
    Plain ''kobj'' st_kobject,
    Plain ''kobj_unregister'' st_completion,
    Plain ''rwsem'' st_rw_semaphore,
    Plain ''fast_switch_possible'' td_bool,
    Plain ''fast_switch_enabled'' td_bool,
    Plain ''strict_target'' td_bool,
    Plain ''efficiencies_available'' td_bool,
    Plain ''transition_delay_us'' (TInt I32 False),
    Plain ''dvfs_possible_from_any_cpu'' td_bool,
    Plain ''boost_enabled'' td_bool,
    Plain ''boost_supported'' td_bool,
    Plain ''cached_target_freq'' (TInt I32 False),
    Plain ''cached_resolved_idx'' (TInt I32 False),
    Plain ''transition_ongoing'' td_bool,
    Plain ''transition_lock'' td_spinlock_t,
    Plain ''transition_wait'' td_wait_queue_head_t,
    Plain ''transition_task'' (TPtr ''struct task_struct''),
    Plain ''stats'' (TPtr ''struct cpufreq_stats''),
    Plain ''driver_data'' (TPtr ''void''),
    Plain ''cdev'' (TPtr ''struct thermal_cooling_device''),
    Plain ''nb_min'' st_notifier_block,
    Plain ''nb_max'' st_notifier_block]"

definition st_tty_port :: ty where
  "st_tty_port = TStruct ''tty_port'' False [
    Plain ''buf'' st_tty_bufhead,
    Plain ''tty'' (TPtr ''struct tty_struct''),
    Plain ''itty'' (TPtr ''struct tty_struct''),
    Plain ''ops'' (TPtr ''struct tty_port_operations''),
    Plain ''client_ops'' (TPtr ''struct tty_port_client_operations''),
    Plain ''lock'' td_spinlock_t,
    Plain ''blocked_open'' (TInt I32 True),
    Plain ''count'' (TInt I32 True),
    Plain ''open_wait'' td_wait_queue_head_t,
    Plain ''delta_msr_wait'' td_wait_queue_head_t,
    Plain ''flags'' (TInt I64 False),
    Plain ''iflags'' (TInt I64 False),
    Bits ''console'' (TInt I8 False) 1,
    Plain ''mutex'' st_mutex,
    Plain ''buf_mutex'' st_mutex,
    Plain ''xmit_buf'' (TPtr ''u8''),
    Plain ''xmit_fifo'' (TStruct '''' False [
      Plain '''' (TUnion '''' False [
        Plain ''kfifo'' st___kfifo,
        Plain ''type'' (TPtr ''u8''),
        Plain ''const_type'' (TPtr ''u8''),
        Plain ''rectype'' (TPtr ''char (*rectype)[0]''),
        Plain ''ptr'' (TPtr ''u8''),
        Plain ''ptr_const'' (TPtr ''u8'')]),
      Plain ''buf'' (TArr td_u8 0)]),
    Plain ''close_delay'' (TInt I32 False),
    Plain ''closing_wait'' (TInt I32 False),
    Plain ''drain_delay'' (TInt I32 True),
    Plain ''kref'' st_kref,
    Plain ''client_data'' (TPtr ''void'')]"

definition st_dec_data :: ty where
  "st_dec_data = TStruct ''dec_data'' False [
    Plain ''thr'' (TPtr ''struct task_struct''),
    Plain ''cc'' (TPtr ''struct crypto_acomp''),
    Plain ''cr'' (TPtr ''struct acomp_req''),
    Plain ''ready'' td_atomic_t,
    Plain ''stop'' td_atomic_t,
    Plain ''ret'' (TInt I32 True),
    Plain ''go'' td_wait_queue_head_t,
    Plain ''done'' td_wait_queue_head_t,
    Plain ''unc_len'' td_size_t,
    Plain ''cmp_len'' td_size_t,
    Plain ''unc'' (TArr (TInt I8 False) 131072),
    Plain ''cmp'' (TArr (TInt I8 False) 143360)]"

definition st_drbg_state :: ty where
  "st_drbg_state = TStruct ''drbg_state'' False [
    Plain ''drbg_mutex'' st_mutex,
    Plain ''V'' (TPtr ''unsigned char''),
    Plain ''Vbuf'' (TPtr ''unsigned char''),
    Plain ''C'' (TPtr ''unsigned char''),
    Plain ''Cbuf'' (TPtr ''unsigned char''),
    Plain ''reseed_ctr'' td_size_t,
    Plain ''reseed_threshold'' td_size_t,
    Plain ''scratchpad'' (TPtr ''unsigned char''),
    Plain ''scratchpadbuf'' (TPtr ''unsigned char''),
    Plain ''priv_data'' (TPtr ''void''),
    Plain ''ctr_handle'' (TPtr ''struct crypto_skcipher''),
    Plain ''ctr_req'' (TPtr ''struct skcipher_request''),
    Plain ''outscratchpadbuf'' (TPtr ''__u8''),
    Plain ''outscratchpad'' (TPtr ''__u8''),
    Plain ''ctr_wait'' st_crypto_wait,
    Plain ''sg_in'' st_scatterlist,
    Plain ''sg_out'' st_scatterlist,
    Plain ''seeded'' (TEnum ''drbg_seed_state'' I32),
    Plain ''last_seed_time'' (TInt I64 False),
    Plain ''pr'' td_bool,
    Plain ''fips_primed'' td_bool,
    Plain ''prev'' (TPtr ''unsigned char''),
    Plain ''jent'' (TPtr ''struct crypto_rng''),
    Plain ''d_ops'' (TPtr ''struct drbg_state_ops''),
    Plain ''core'' (TPtr ''struct drbg_core''),
    Plain ''test_data'' st_drbg_string]"

definition st_drm_private_obj :: ty where
  "st_drm_private_obj = TStruct ''drm_private_obj'' False [
    Plain ''dev'' (TPtr ''struct drm_device''),
    Plain ''head'' st_list_head,
    Plain ''lock'' st_drm_modeset_lock,
    Plain ''state'' (TPtr ''struct drm_private_state''),
    Plain ''funcs'' (TPtr ''struct drm_private_state_funcs'')]"

definition st_drm_crtc_crc :: ty where
  "st_drm_crtc_crc = TStruct ''drm_crtc_crc'' False [
    Plain ''lock'' td_spinlock_t,
    Plain ''source'' (TPtr ''char''),
    Plain ''opened'' td_bool,
    Plain ''overflow'' td_bool,
    Plain ''entries'' (TPtr ''struct drm_crtc_crc_entry''),
    Plain ''head'' (TInt I32 True),
    Plain ''tail'' (TInt I32 True),
    Plain ''values_cnt'' td_size_t,
    Plain ''wq'' td_wait_queue_head_t]"

definition st_drm_file :: ty where
  "st_drm_file = TStruct ''drm_file'' False [
    Plain ''authenticated'' td_bool,
    Plain ''stereo_allowed'' td_bool,
    Plain ''universal_planes'' td_bool,
    Plain ''atomic'' td_bool,
    Plain ''aspect_ratio_allowed'' td_bool,
    Plain ''writeback_connectors'' td_bool,
    Plain ''plane_color_pipeline'' td_bool,
    Plain ''was_master'' td_bool,
    Plain ''is_master'' td_bool,
    Plain ''supports_virtualized_cursor_plane'' td_bool,
    Plain ''master'' (TPtr ''struct drm_master''),
    Plain ''master_lookup_lock'' td_spinlock_t,
    Plain ''pid'' (TPtr ''struct pid''),
    Plain ''client_id'' td_u64,
    Plain ''magic'' td_drm_magic_t,
    Plain ''lhead'' st_list_head,
    Plain ''minor'' (TPtr ''struct drm_minor''),
    Plain ''object_idr'' st_idr,
    Plain ''table_lock'' td_spinlock_t,
    Plain ''syncobj_xa'' st_xarray,
    Plain ''filp'' (TPtr ''struct file''),
    Plain ''driver_priv'' (TPtr ''void''),
    Plain ''fbs'' st_list_head,
    Plain ''fbs_lock'' st_mutex,
    Plain ''blobs'' st_list_head,
    Plain ''event_wait'' td_wait_queue_head_t,
    Plain ''pending_event_list'' st_list_head,
    Plain ''event_list'' st_list_head,
    Plain ''event_space'' (TInt I32 True),
    Plain ''event_read_lock'' st_mutex,
    Plain ''prime'' st_drm_prime_file_private,
    Plain ''client_name'' (TPtr ''char''),
    Plain ''client_name_lock'' st_mutex,
    Plain ''debugfs_client'' (TPtr ''struct dentry'')]"

definition st_drm_gem_object :: ty where
  "st_drm_gem_object = TStruct ''drm_gem_object'' False [
    Plain ''refcount'' st_kref,
    Plain ''handle_count'' (TInt I32 False),
    Plain ''dev'' (TPtr ''struct drm_device''),
    Plain ''filp'' (TPtr ''struct file''),
    Plain ''vma_node'' st_drm_vma_offset_node,
    Plain ''size'' td_size_t,
    Plain ''name'' (TInt I32 True),
    Plain ''dma_buf'' (TPtr ''struct dma_buf''),
    Plain ''import_attach'' (TPtr ''struct dma_buf_attachment''),
    Plain ''resv'' (TPtr ''struct dma_resv''),
    Plain ''_resv'' st_dma_resv,
    Plain ''gpuva'' (TStruct '''' False [
      Plain ''list'' st_list_head,
      Plain ''lock'' st_mutex]),
    Plain ''funcs'' (TPtr ''struct drm_gem_object_funcs''),
    Plain ''lru_node'' st_list_head,
    Plain ''lru'' (TPtr ''struct drm_gem_lru'')]"

definition st_drm_master :: ty where
  "st_drm_master = TStruct ''drm_master'' False [
    Plain ''refcount'' st_kref,
    Plain ''dev'' (TPtr ''struct drm_device''),
    Plain ''unique'' (TPtr ''char''),
    Plain ''unique_len'' (TInt I32 True),
    Plain ''magic_map'' st_idr,
    Plain ''driver_priv'' (TPtr ''void''),
    Plain ''lessor'' (TPtr ''struct drm_master''),
    Plain ''lessee_id'' (TInt I32 True),
    Plain ''lessee_list'' st_list_head,
    Plain ''lessees'' st_list_head,
    Plain ''leases'' st_idr,
    Plain ''lessee_idr'' st_idr]"

definition st_drm_vblank_crtc :: ty where
  "st_drm_vblank_crtc = TStruct ''drm_vblank_crtc'' False [
    Plain ''dev'' (TPtr ''struct drm_device''),
    Plain ''queue'' td_wait_queue_head_t,
    Plain ''disable_timer'' st_timer_list,
    Plain ''seqlock'' td_seqlock_t,
    Plain ''count'' td_atomic64_t,
    Plain ''time'' td_ktime_t,
    Plain ''refcount'' td_atomic_t,
    Plain ''last'' td_u32,
    Plain ''max_vblank_count'' td_u32,
    Plain ''inmodeset'' (TInt I32 False),
    Plain ''pipe'' (TInt I32 False),
    Plain ''framedur_ns'' (TInt I32 True),
    Plain ''linedur_ns'' (TInt I32 True),
    Plain ''hwmode'' st_drm_display_mode,
    Plain ''config'' st_drm_vblank_crtc_config,
    Plain ''enabled'' td_bool,
    Plain ''worker'' (TPtr ''struct kthread_worker''),
    Plain ''pending_work'' st_list_head,
    Plain ''work_wait_queue'' td_wait_queue_head_t,
    Plain ''vblank_timer'' st_drm_vblank_crtc_timer]"

definition st_evdev_client :: ty where
  "st_evdev_client = TStruct ''evdev_client'' False [
    Plain ''head'' (TInt I32 False),
    Plain ''tail'' (TInt I32 False),
    Plain ''packet_head'' (TInt I32 False),
    Plain ''buffer_lock'' td_spinlock_t,
    Plain ''wait'' td_wait_queue_head_t,
    Plain ''fasync'' (TPtr ''struct fasync_struct''),
    Plain ''evdev'' (TPtr ''struct evdev''),
    Plain ''node'' st_list_head,
    Plain ''clk_type'' (TEnum ''input_clock_type'' I32),
    Plain ''revoked'' td_bool,
    Plain ''evmasks'' (TArr (TPtr ''long unsigned int'') 32),
    Plain ''bufsize'' (TInt I32 False),
    Plain ''buffer'' (TArr st_input_event 0)]"

definition st_eventpoll :: ty where
  "st_eventpoll = TStruct ''eventpoll'' False [
    Plain ''mtx'' st_mutex,
    Plain ''wq'' td_wait_queue_head_t,
    Plain ''poll_wait'' td_wait_queue_head_t,
    Plain ''rdllist'' st_list_head,
    Plain ''lock'' td_spinlock_t,
    Plain ''rbr'' st_rb_root_cached,
    Plain ''ovflist'' (TPtr ''struct epitem''),
    Plain ''ws'' (TPtr ''struct wakeup_source''),
    Plain ''user'' (TPtr ''struct user_struct''),
    Plain ''file'' (TPtr ''struct file''),
    Plain ''gen'' td_u64,
    Plain ''refs'' st_hlist_head,
    Plain ''loop_check_depth'' td_u8,
    Plain ''refcount'' td_refcount_t,
    Plain ''rcu'' st_callback_head,
    Plain ''napi_id'' (TInt I32 False),
    Plain ''busy_poll_usecs'' td_u32,
    Plain ''busy_poll_budget'' td_u16,
    Plain ''prefer_busy_poll'' td_bool]"

definition st_file_lock_core :: ty where
  "st_file_lock_core = TStruct ''file_lock_core'' False [
    Plain ''flc_blocker'' (TPtr ''struct file_lock_core''),
    Plain ''flc_list'' st_list_head,
    Plain ''flc_link'' st_hlist_node,
    Plain ''flc_blocked_requests'' st_list_head,
    Plain ''flc_blocked_member'' st_list_head,
    Plain ''flc_owner'' td_fl_owner_t,
    Plain ''flc_flags'' (TInt I32 False),
    Plain ''flc_type'' (TInt I8 False),
    Plain ''flc_pid'' td_pid_t,
    Plain ''flc_link_cpu'' (TInt I32 True),
    Plain ''flc_wait'' td_wait_queue_head_t,
    Plain ''flc_file'' (TPtr ''struct file'')]"

definition st_files_struct :: ty where
  "st_files_struct = TStruct ''files_struct'' False [
    Plain ''count'' td_atomic_t,
    Plain ''resize_in_progress'' td_bool,
    Plain ''resize_wait'' td_wait_queue_head_t,
    Plain ''fdt'' (TPtr ''struct fdtable''),
    Plain ''fdtab'' st_fdtable,
    Bits '''' (TInt I64 True) 64,
    Bits '''' (TInt I64 True) 64,
    Bits '''' (TInt I64 True) 64,
    Bits '''' (TInt I64 True) 64,
    Plain ''file_lock'' td_spinlock_t,
    Plain ''next_fd'' (TInt I32 False),
    Plain ''close_on_exec_init'' (TArr (TInt I64 False) 1),
    Plain ''open_fds_init'' (TArr (TInt I64 False) 1),
    Plain ''full_fds_bits_init'' (TArr (TInt I64 False) 1),
    Plain ''fd_array'' (TArr (TPtr ''struct file'') 64),
    Bits '''' (TInt I64 True) 64,
    Bits '''' (TInt I64 True) 64,
    Bits '''' (TInt I64 True) 64,
    Bits '''' (TInt I64 True) 64]"

definition st_inotify_group_private_data :: ty where
  "st_inotify_group_private_data = TStruct ''inotify_group_private_data'' False [
    Plain ''idr_lock'' td_spinlock_t,
    Plain ''idr'' st_idr,
    Plain ''ucounts'' (TPtr ''struct ucounts'')]"

definition st_fuse_iqueue :: ty where
  "st_fuse_iqueue = TStruct ''fuse_iqueue'' False [
    Plain ''connected'' (TInt I32 False),
    Plain ''lock'' td_spinlock_t,
    Plain ''waitq'' td_wait_queue_head_t,
    Plain ''reqctr'' td_u64,
    Plain ''pending'' st_list_head,
    Plain ''interrupts'' st_list_head,
    Plain ''forget_list_head'' st_fuse_forget_link,
    Plain ''forget_list_tail'' (TPtr ''struct fuse_forget_link''),
    Plain ''forget_batch'' (TInt I32 True),
    Plain ''fasync'' (TPtr ''struct fasync_struct''),
    Plain ''ops'' (TPtr ''struct fuse_iqueue_ops''),
    Plain ''priv'' (TPtr ''void'')]"

definition st_fuse_file :: ty where
  "st_fuse_file = TStruct ''fuse_file'' False [
    Plain ''fm'' (TPtr ''struct fuse_mount''),
    Plain ''args'' (TPtr ''union fuse_file_args''),
    Plain ''kh'' td_u64,
    Plain ''fh'' td_u64,
    Plain ''nodeid'' td_u64,
    Plain ''count'' td_refcount_t,
    Plain ''open_flags'' td_u32,
    Plain ''write_entry'' st_list_head,
    Plain ''readdir'' (TStruct '''' False [
      Plain ''pos'' td_loff_t,
      Plain ''cache_off'' td_loff_t,
      Plain ''version'' td_u64]),
    Plain ''polled_node'' st_rb_node,
    Plain ''poll_wait'' td_wait_queue_head_t,
    Plain ''iomode'' (TEnum '''' I32),
    Plain ''passthrough'' (TPtr ''struct file''),
    Plain ''cred'' (TPtr ''struct cred''),
    Bits ''flock'' td_bool 1]"

definition st_fuse_req :: ty where
  "st_fuse_req = TStruct ''fuse_req'' False [
    Plain ''list'' st_list_head,
    Plain ''intr_entry'' st_list_head,
    Plain ''args'' (TPtr ''struct fuse_args''),
    Plain ''count'' td_refcount_t,
    Plain ''flags'' (TInt I64 False),
    Plain ''in'' (TStruct '''' False [
      Plain ''h'' st_fuse_in_header]),
    Plain ''out'' (TStruct '''' False [
      Plain ''h'' st_fuse_out_header]),
    Plain ''waitq'' td_wait_queue_head_t,
    Plain ''argbuf'' (TPtr ''void''),
    Plain ''fm'' (TPtr ''struct fuse_mount''),
    Plain ''ring_entry'' (TPtr ''void''),
    Plain ''ring_queue'' (TPtr ''void''),
    Plain ''create_time'' (TInt I64 False)]"

definition st_fw_priv :: ty where
  "st_fw_priv = TStruct ''fw_priv'' False [
    Plain ''ref'' st_kref,
    Plain ''list'' st_list_head,
    Plain ''fwc'' (TPtr ''struct firmware_cache''),
    Plain ''fw_st'' st_fw_state,
    Plain ''data'' (TPtr ''void''),
    Plain ''size'' td_size_t,
    Plain ''allocated_size'' td_size_t,
    Plain ''offset'' td_size_t,
    Plain ''opt_flags'' td_u32,
    Plain ''is_paged_buf'' td_bool,
    Plain ''pages'' (TPtr ''struct page *''),
    Plain ''nr_pages'' (TInt I32 True),
    Plain ''page_array_size'' (TInt I32 True),
    Plain ''need_uevent'' td_bool,
    Plain ''pending_list'' st_list_head,
    Plain ''fw_name'' (TPtr ''char'')]"

definition st_hh_cache :: ty where
  "st_hh_cache = TStruct ''hh_cache'' False [
    Plain ''hh_len'' (TInt I32 False),
    Plain ''hh_lock'' td_seqlock_t,
    Plain ''hh_data'' (TArr (TInt I64 False) 16)]"

definition st_ib_cq :: ty where
  "st_ib_cq = TStruct ''ib_cq'' False [
    Plain ''device'' (TPtr ''struct ib_device''),
    Plain ''uobject'' (TPtr ''struct ib_ucq_object''),
    Plain ''comp_handler'' td_ib_comp_handler,
    Plain ''event_handler'' (TFun ''void (*)(struct ib_event *, void *)''),
    Plain ''cq_context'' (TPtr ''void''),
    Plain ''cqe'' (TInt I32 True),
    Plain ''cqe_used'' (TInt I32 False),
    Plain ''usecnt'' td_atomic_t,
    Plain ''poll_ctx'' (TEnum ''ib_poll_context'' I32),
    Plain ''wc'' (TPtr ''struct ib_wc''),
    Plain ''pool_entry'' st_list_head,
    Plain '''' (TUnion '''' False [
      Plain ''iop'' st_irq_poll,
      Plain ''work'' st_work_struct]),
    Plain ''comp_wq'' (TPtr ''struct workqueue_struct''),
    Plain ''dim'' (TPtr ''struct dim''),
    Plain ''timestamp'' td_ktime_t,
    Bits ''interrupt'' td_u8 1,
    Bits ''shared'' td_u8 1,
    Plain ''comp_vector'' (TInt I32 False),
    Plain ''res'' st_rdma_restrack_entry]"

definition st_ib_mr :: ty where
  "st_ib_mr = TStruct ''ib_mr'' False [
    Plain ''device'' (TPtr ''struct ib_device''),
    Plain ''pd'' (TPtr ''struct ib_pd''),
    Plain ''lkey'' td_u32,
    Plain ''rkey'' td_u32,
    Plain ''iova'' td_u64,
    Plain ''length'' td_u64,
    Plain ''page_size'' (TInt I32 False),
    Plain ''type'' (TEnum ''ib_mr_type'' I32),
    Plain ''need_inval'' td_bool,
    Plain '''' (TUnion '''' False [
      Plain ''uobject'' (TPtr ''struct ib_uobject''),
      Plain ''qp_entry'' st_list_head]),
    Plain ''dm'' (TPtr ''struct ib_dm''),
    Plain ''sig_attrs'' (TPtr ''struct ib_sig_attrs''),
    Plain ''dmah'' (TPtr ''struct ib_dmah''),
    Plain ''res'' st_rdma_restrack_entry]"

definition st_ib_qp :: ty where
  "st_ib_qp = TStruct ''ib_qp'' False [
    Plain ''device'' (TPtr ''struct ib_device''),
    Plain ''pd'' (TPtr ''struct ib_pd''),
    Plain ''send_cq'' (TPtr ''struct ib_cq''),
    Plain ''recv_cq'' (TPtr ''struct ib_cq''),
    Plain ''mr_lock'' td_spinlock_t,
    Plain ''mrs_used'' (TInt I32 True),
    Plain ''rdma_mrs'' st_list_head,
    Plain ''sig_mrs'' st_list_head,
    Plain ''srq'' (TPtr ''struct ib_srq''),
    Plain ''srq_completion'' st_completion,
    Plain ''xrcd'' (TPtr ''struct ib_xrcd''),
    Plain ''xrcd_list'' st_list_head,
    Plain ''usecnt'' td_atomic_t,
    Plain ''open_list'' st_list_head,
    Plain ''real_qp'' (TPtr ''struct ib_qp''),
    Plain ''uobject'' (TPtr ''struct ib_uqp_object''),
    Plain ''event_handler'' (TFun ''void (*)(struct ib_event *, void *)''),
    Plain ''registered_event_handler'' (TFun ''void (*)(struct ib_event *, void *)''),
    Plain ''qp_context'' (TPtr ''void''),
    Plain ''av_sgid_attr'' (TPtr ''struct ib_gid_attr''),
    Plain ''alt_path_sgid_attr'' (TPtr ''struct ib_gid_attr''),
    Plain ''qp_num'' td_u32,
    Plain ''max_write_sge'' td_u32,
    Plain ''max_read_sge'' td_u32,
    Plain ''qp_type'' (TEnum ''ib_qp_type'' I32),
    Plain ''rwq_ind_tbl'' (TPtr ''struct ib_rwq_ind_table''),
    Plain ''qp_sec'' (TPtr ''struct ib_qp_security''),
    Plain ''port'' td_u32,
    Plain ''integrity_en'' td_bool,
    Plain ''res'' st_rdma_restrack_entry,
    Plain ''counter'' (TPtr ''struct rdma_counter'')]"

definition st_ib_srq :: ty where
  "st_ib_srq = TStruct ''ib_srq'' False [
    Plain ''device'' (TPtr ''struct ib_device''),
    Plain ''pd'' (TPtr ''struct ib_pd''),
    Plain ''uobject'' (TPtr ''struct ib_usrq_object''),
    Plain ''event_handler'' (TFun ''void (*)(struct ib_event *, void *)''),
    Plain ''srq_context'' (TPtr ''void''),
    Plain ''srq_type'' (TEnum ''ib_srq_type'' I32),
    Plain ''usecnt'' td_atomic_t,
    Plain ''ext'' (TStruct '''' False [
      Plain ''cq'' (TPtr ''struct ib_cq''),
      Plain '''' (TUnion '''' False [
        Plain ''xrc'' (TStruct '''' False [
          Plain ''xrcd'' (TPtr ''struct ib_xrcd''),
          Plain ''srq_num'' td_u32])])]),
    Plain ''res'' st_rdma_restrack_entry]"

definition st_intel_iommu :: ty where
  "st_intel_iommu = TStruct ''intel_iommu'' False [
    Plain ''reg'' (TPtr ''void''),
    Plain ''reg_phys'' td_u64,
    Plain ''reg_size'' td_u64,
    Plain ''cap'' td_u64,
    Plain ''ecap'' td_u64,
    Plain ''vccap'' td_u64,
    Plain ''ecmdcap'' (TArr td_u64 4),
    Plain ''gcmd'' td_u32,
    Plain ''register_lock'' td_raw_spinlock_t,
    Plain ''seq_id'' (TInt I32 True),
    Plain ''agaw'' (TInt I32 True),
    Plain ''msagaw'' (TInt I32 True),
    Plain ''irq'' (TInt I32 False),
    Plain ''pr_irq'' (TInt I32 False),
    Plain ''perf_irq'' (TInt I32 False),
    Plain ''segment'' td_u16,
    Plain ''name'' (TArr (TInt I8 False) 16),
    Plain ''did_lock'' st_mutex,
    Plain ''domain_ida'' st_ida,
    Plain ''copied_tables'' (TPtr ''long unsigned int''),
    Plain ''lock'' td_spinlock_t,
    Plain ''root_entry'' (TPtr ''struct root_entry''),
    Plain ''flush'' st_iommu_flush,
    Plain ''prq'' (TPtr ''struct page_req_dsc''),
    Plain ''prq_name'' (TArr (TInt I8 False) 16),
    Plain ''prq_seq_number'' (TInt I64 False),
    Plain ''prq_complete'' st_completion,
    Plain ''iopf_queue'' (TPtr ''struct iopf_queue''),
    Plain ''iopfq_name'' (TArr (TInt I8 False) 16),
    Plain ''iopf_lock'' st_mutex,
    Plain ''qi'' (TPtr ''struct q_inval''),
    Plain ''iommu_state'' (TArr td_u32 4),
    Plain ''device_rbtree'' st_rb_root,
    Plain ''device_rbtree_lock'' td_spinlock_t,
    Plain ''ir_table'' (TPtr ''struct ir_table''),
    Plain ''ir_domain'' (TPtr ''struct irq_domain''),
    Plain ''iommu'' st_iommu_device,
    Plain ''node'' (TInt I32 True),
    Plain ''flags'' td_u32,
    Plain ''drhd'' (TPtr ''struct dmar_drhd_unit''),
    Plain ''perf_statistic'' (TPtr ''void''),
    Plain ''pmu'' (TPtr ''struct iommu_pmu'')]"

definition st_iommufd_ctx :: ty where
  "st_iommufd_ctx = TStruct ''iommufd_ctx'' False [
    Plain ''file'' (TPtr ''struct file''),
    Plain ''objects'' st_xarray,
    Plain ''groups'' st_xarray,
    Plain ''destroy_wait'' td_wait_queue_head_t,
    Plain ''ioas_creation_lock'' st_rw_semaphore,
    Plain ''mt_mmap'' st_maple_tree,
    Plain ''sw_msi_lock'' st_mutex,
    Plain ''sw_msi_list'' st_list_head,
    Plain ''sw_msi_id'' (TInt I32 False),
    Plain ''account_mode'' td_u8,
    Plain ''no_iommu_mode'' td_u8,
    Plain ''vfio_ioas'' (TPtr ''struct iommufd_ioas'')]"

definition st_irq_desc :: ty where
  "st_irq_desc = TStruct ''irq_desc'' False [
    Plain ''irq_common_data'' st_irq_common_data,
    Plain ''irq_data'' st_irq_data,
    Plain ''kstat_irqs'' (TPtr ''struct irqstat''),
    Plain ''handle_irq'' td_irq_flow_handler_t,
    Plain ''action'' (TPtr ''struct irqaction''),
    Plain ''status_use_accessors'' (TInt I32 False),
    Plain ''core_internal_state__do_not_mess_with_it'' (TInt I32 False),
    Plain ''depth'' (TInt I32 False),
    Plain ''wake_depth'' (TInt I32 False),
    Plain ''tot_count'' (TInt I32 False),
    Plain ''irq_count'' (TInt I32 False),
    Plain ''last_unhandled'' (TInt I64 False),
    Plain ''irqs_unhandled'' (TInt I32 False),
    Plain ''threads_handled'' td_atomic_t,
    Plain ''threads_handled_last'' (TInt I32 True),
    Plain ''lock'' td_raw_spinlock_t,
    Plain ''percpu_enabled'' (TPtr ''struct cpumask''),
    Plain ''redirect'' st_irq_redirect,
    Plain ''affinity_hint'' (TPtr ''struct cpumask''),
    Plain ''affinity_notify'' (TPtr ''struct irq_affinity_notify''),
    Plain ''pending_mask'' td_cpumask_var_t,
    Plain ''threads_oneshot'' (TInt I64 False),
    Plain ''threads_active'' td_atomic_t,
    Plain ''wait_for_threads'' td_wait_queue_head_t,
    Plain ''nr_actions'' (TInt I32 False),
    Plain ''no_suspend_depth'' (TInt I32 False),
    Plain ''cond_suspend_depth'' (TInt I32 False),
    Plain ''force_resume_depth'' (TInt I32 False),
    Plain ''dir'' (TPtr ''struct proc_dir_entry''),
    Plain ''rcu'' st_callback_head,
    Plain ''kobj'' st_kobject,
    Plain ''request_mutex'' st_mutex,
    Plain ''parent_irq'' (TInt I32 True),
    Plain ''owner'' (TPtr ''struct module''),
    Plain ''name'' (TPtr ''char''),
    Plain ''resend_node'' st_hlist_node,
    Bits '''' (TInt I64 True) 64,
    Bits '''' (TInt I64 True) 64,
    Bits '''' (TInt I64 True) 64,
    Bits '''' (TInt I64 True) 64,
    Bits '''' (TInt I64 True) 64,
    Bits '''' (TInt I64 True) 64,
    Bits '''' (TInt I64 True) 64]"

definition st_kernfs_root :: ty where
  "st_kernfs_root = TStruct ''kernfs_root'' False [
    Plain ''kn'' (TPtr ''struct kernfs_node''),
    Plain ''flags'' (TInt I32 False),
    Plain ''ino_idr'' st_idr,
    Plain ''kernfs_idr_lock'' td_spinlock_t,
    Plain ''last_id_lowbits'' td_u32,
    Plain ''id_highbits'' td_u32,
    Plain ''syscall_ops'' (TPtr ''struct kernfs_syscall_ops''),
    Plain ''supers'' st_list_head,
    Plain ''deactivate_waitq'' td_wait_queue_head_t,
    Plain ''kernfs_rwsem'' st_rw_semaphore,
    Plain ''kernfs_iattr_rwsem'' st_rw_semaphore,
    Plain ''kernfs_supers_rwsem'' st_rw_semaphore,
    Plain ''kernfs_rename_lock'' td_rwlock_t,
    Plain ''rcu'' st_callback_head]"

definition st_kioctx :: ty where
  "st_kioctx = TStruct ''kioctx'' False [
    Plain ''users'' st_percpu_ref,
    Plain ''dead'' td_atomic_t,
    Plain ''reqs'' st_percpu_ref,
    Plain ''user_id'' (TInt I64 False),
    Plain ''cpu'' (TPtr ''struct kioctx_cpu''),
    Plain ''req_batch'' (TInt I32 False),
    Plain ''max_reqs'' (TInt I32 False),
    Plain ''nr_events'' (TInt I32 False),
    Plain ''mmap_base'' (TInt I64 False),
    Plain ''mmap_size'' (TInt I64 False),
    Plain ''ring_folios'' (TPtr ''struct folio *''),
    Plain ''nr_pages'' (TInt I64 True),
    Plain ''free_rwork'' st_rcu_work,
    Plain ''rq_wait'' (TPtr ''struct ctx_rq_wait''),
    Bits '''' (TInt I64 True) 64,
    Bits '''' (TInt I64 True) 64,
    Bits '''' (TInt I64 True) 64,
    Plain '''' (TStruct '''' False [
      Plain ''reqs_available'' td_atomic_t,
      Bits '''' (TInt I64 True) 64,
      Bits '''' (TInt I64 True) 64,
      Bits '''' (TInt I64 True) 64,
      Bits '''' (TInt I64 True) 64,
      Bits '''' (TInt I64 True) 64,
      Bits '''' (TInt I64 True) 64,
      Bits '''' (TInt I64 True) 64]),
    Plain '''' (TStruct '''' False [
      Plain ''ctx_lock'' td_spinlock_t,
      Plain ''active_reqs'' st_list_head,
      Bits '''' (TInt I64 True) 64,
      Bits '''' (TInt I64 True) 64,
      Bits '''' (TInt I64 True) 64,
      Bits '''' (TInt I64 True) 64,
      Bits '''' (TInt I64 True) 64]),
    Plain '''' (TStruct '''' False [
      Plain ''ring_lock'' st_mutex,
      Plain ''wait'' td_wait_queue_head_t,
      Bits '''' (TInt I64 True) 64]),
    Plain '''' (TStruct '''' False [
      Plain ''tail'' (TInt I32 False),
      Plain ''completed_events'' (TInt I32 False),
      Plain ''completion_lock'' td_spinlock_t,
      Bits '''' (TInt I64 True) 64,
      Bits '''' (TInt I64 True) 64,
      Bits '''' (TInt I64 True) 64,
      Bits '''' (TInt I64 True) 64,
      Bits '''' (TInt I64 True) 64,
      Bits '''' (TInt I64 True) 64]),
    Plain ''internal_folios'' (TArr (TPtr ''struct folio'') 8),
    Plain ''aio_ring_file'' (TPtr ''struct file''),
    Plain ''id'' (TInt I32 False),
    Bits '''' (TInt I64 True) 64,
    Bits '''' (TInt I64 True) 64,
    Bits '''' (TInt I64 True) 64,
    Bits '''' (TInt I64 True) 64,
    Bits '''' (TInt I64 True) 64,
    Bits '''' (TInt I64 True) 64]"

definition st_kvm_vcpu_xen :: ty where
  "st_kvm_vcpu_xen = TStruct ''kvm_vcpu_xen'' False [
    Plain ''hypercall_rip'' td_u64,
    Plain ''current_runstate'' td_u32,
    Plain ''upcall_vector'' td_u8,
    Plain ''vcpu_info_cache'' st_gfn_to_pfn_cache,
    Plain ''vcpu_time_info_cache'' st_gfn_to_pfn_cache,
    Plain ''runstate_cache'' st_gfn_to_pfn_cache,
    Plain ''runstate2_cache'' st_gfn_to_pfn_cache,
    Plain ''last_steal'' td_u64,
    Plain ''runstate_entry_time'' td_u64,
    Plain ''runstate_times'' (TArr td_u64 4),
    Plain ''evtchn_pending_sel'' (TInt I64 False),
    Plain ''vcpu_id'' td_u32,
    Plain ''timer_virq'' td_u32,
    Plain ''timer_expires'' td_u64,
    Plain ''timer_pending'' td_atomic_t,
    Plain ''timer'' st_hrtimer,
    Plain ''poll_evtchn'' (TInt I32 True),
    Plain ''poll_timer'' st_timer_list,
    Plain ''cpuid'' st_kvm_hypervisor_cpuid]"

definition st_lineevent_state :: ty where
  "st_lineevent_state = TStruct ''lineevent_state'' False [
    Plain ''gdev'' (TPtr ''struct gpio_device''),
    Plain ''label'' (TPtr ''char''),
    Plain ''desc'' (TPtr ''struct gpio_desc''),
    Plain ''eflags'' td_u32,
    Plain ''irq'' (TInt I32 True),
    Plain ''wait'' td_wait_queue_head_t,
    Plain ''device_unregistered_nb'' st_notifier_block,
    Plain ''events'' (TStruct '''' False [
      Plain '''' (TUnion '''' False [
        Plain ''kfifo'' st___kfifo,
        Plain ''type'' (TPtr ''struct gpioevent_data''),
        Plain ''const_type'' (TPtr ''struct gpioevent_data''),
        Plain ''rectype'' (TPtr ''char (*rectype)[0]''),
        Plain ''ptr'' (TPtr ''struct gpioevent_data''),
        Plain ''ptr_const'' (TPtr ''struct gpioevent_data'')]),
      Plain ''buf'' (TArr st_gpioevent_data 16)]),
    Plain ''timestamp'' td_u64]"

definition st_linereq :: ty where
  "st_linereq = TStruct ''linereq'' False [
    Plain ''gdev'' (TPtr ''struct gpio_device''),
    Plain ''label'' (TPtr ''char''),
    Plain ''num_lines'' td_u32,
    Plain ''wait'' td_wait_queue_head_t,
    Plain ''device_unregistered_nb'' st_notifier_block,
    Plain ''event_buffer_size'' td_u32,
    Plain ''events'' (TStruct '''' False [
      Plain '''' (TUnion '''' False [
        Plain ''kfifo'' st___kfifo,
        Plain ''type'' (TPtr ''struct gpio_v2_line_event''),
        Plain ''const_type'' (TPtr ''struct gpio_v2_line_event''),
        Plain ''rectype'' (TPtr ''char (*rectype)[0]''),
        Plain ''ptr'' (TPtr ''struct gpio_v2_line_event''),
        Plain ''ptr_const'' (TPtr ''struct gpio_v2_line_event'')]),
      Plain ''buf'' (TArr st_gpio_v2_line_event 0)]),
    Plain ''seqno'' td_atomic_t,
    Plain ''config_mutex'' st_mutex,
    Plain ''lines'' (TArr st_line 0)]"

definition st_llbitmap :: ty where
  "st_llbitmap = TStruct ''llbitmap'' False [
    Plain ''mddev'' (TPtr ''struct mddev''),
    Plain ''pctl'' (TPtr ''struct llbitmap_page_ctl *''),
    Plain ''nr_pages'' (TInt I32 False),
    Plain ''io_size'' (TInt I32 False),
    Plain ''blocks_per_page'' (TInt I32 False),
    Plain ''chunkshift'' (TInt I64 False),
    Plain ''chunksize'' (TInt I64 False),
    Plain ''chunks'' (TInt I64 False),
    Plain ''last_end_sync'' (TInt I64 False),
    Plain ''barrier_idle'' (TInt I64 False),
    Plain ''pending_timer'' st_timer_list,
    Plain ''daemon_work'' st_work_struct,
    Plain ''flags'' (TInt I64 False),
    Plain ''events_cleared'' td___u64,
    Plain ''behind_writes'' td_atomic_t,
    Plain ''behind_wait'' td_wait_queue_head_t]"

definition st_mapped_device :: ty where
  "st_mapped_device = TStruct ''mapped_device'' False [
    Plain ''suspend_lock'' st_mutex,
    Plain ''table_devices_lock'' st_mutex,
    Plain ''table_devices'' st_list_head,
    Plain ''map'' (TPtr ''void''),
    Plain ''flags'' (TInt I64 False),
    Plain ''type_lock'' st_mutex,
    Plain ''type'' (TEnum ''dm_queue_mode'' I32),
    Plain ''numa_node_id'' (TInt I32 True),
    Plain ''queue'' (TPtr ''struct request_queue''),
    Plain ''holders'' td_atomic_t,
    Plain ''open_count'' td_atomic_t,
    Plain ''immutable_target'' (TPtr ''struct dm_target''),
    Plain ''immutable_target_type'' (TPtr ''struct target_type''),
    Plain ''name'' (TArr (TInt I8 True) 16),
    Plain ''disk'' (TPtr ''struct gendisk''),
    Plain ''dax_dev'' (TPtr ''struct dax_device''),
    Plain ''wait'' td_wait_queue_head_t,
    Plain ''pending_io'' (TPtr ''long unsigned int''),
    Plain ''geometry'' st_hd_geometry,
    Plain ''wq'' (TPtr ''struct workqueue_struct''),
    Plain ''work'' st_work_struct,
    Plain ''deferred_lock'' td_spinlock_t,
    Plain ''deferred'' st_bio_list,
    Plain ''requeue_work'' st_work_struct,
    Plain ''requeue_list'' (TPtr ''struct dm_io''),
    Plain ''interface_ptr'' (TPtr ''void''),
    Plain ''eventq'' td_wait_queue_head_t,
    Plain ''event_nr'' td_atomic_t,
    Plain ''uevent_seq'' td_atomic_t,
    Plain ''uevent_list'' st_list_head,
    Plain ''uevent_lock'' td_spinlock_t,
    Bits ''init_tio_pdu'' td_bool 1,
    Plain ''tag_set'' (TPtr ''struct blk_mq_tag_set''),
    Plain ''stats'' st_dm_stats,
    Plain ''internal_suspend_count'' (TInt I32 False),
    Plain ''swap_bios'' (TInt I32 True),
    Plain ''swap_bios_semaphore'' st_semaphore,
    Plain ''swap_bios_lock'' st_mutex,
    Plain ''mempools'' (TPtr ''struct dm_md_mempools''),
    Plain ''kobj_holder'' st_dm_kobject_holder,
    Plain ''io_barrier'' st_srcu_struct,
    Plain ''zone_revalidate_map'' (TPtr ''void''),
    Plain ''revalidate_map_task'' (TPtr ''struct task_struct''),
    Plain ''ima'' st_dm_ima_measurements]"

definition st_mnt_namespace :: ty where
  "st_mnt_namespace = TStruct ''mnt_namespace'' False [
    Plain ''ns'' st_ns_common,
    Plain ''root'' (TPtr ''struct mount''),
    Plain '''' (TStruct '''' False [
      Plain ''mounts'' st_rb_root,
      Plain ''mnt_last_node'' (TPtr ''struct rb_node''),
      Plain ''mnt_first_node'' (TPtr ''struct rb_node'')]),
    Plain ''user_ns'' (TPtr ''struct user_namespace''),
    Plain ''ucounts'' (TPtr ''struct ucounts''),
    Plain ''poll'' td_wait_queue_head_t,
    Plain ''seq_origin'' td_u64,
    Plain ''event'' td_u64,
    Plain ''n_fsnotify_mask'' td___u32,
    Plain ''n_fsnotify_marks'' (TPtr ''struct fsnotify_mark_connector''),
    Plain ''nr_mounts'' (TInt I32 False),
    Plain ''pending_mounts'' (TInt I32 False),
    Plain ''passive'' td_refcount_t,
    Plain ''is_anon'' td_bool,
    Bits '''' (TInt I64 True) 64]"

definition st_nfs4_state :: ty where
  "st_nfs4_state = TStruct ''nfs4_state'' False [
    Plain ''open_states'' st_list_head,
    Plain ''inode_states'' st_list_head,
    Plain ''lock_states'' st_list_head,
    Plain ''owner'' (TPtr ''struct nfs4_state_owner''),
    Plain ''inode'' (TPtr ''struct inode''),
    Plain ''flags'' (TInt I64 False),
    Plain ''state_lock'' td_spinlock_t,
    Plain ''seqlock'' td_seqlock_t,
    Plain ''stateid'' td_nfs4_stateid,
    Plain ''open_stateid'' td_nfs4_stateid,
    Plain ''n_rdonly'' (TInt I32 False),
    Plain ''n_wronly'' (TInt I32 False),
    Plain ''n_rdwr'' (TInt I32 False),
    Plain ''state'' td_fmode_t,
    Plain ''count'' td_refcount_t,
    Plain ''waitq'' td_wait_queue_head_t,
    Plain ''callback_head'' st_callback_head]"

definition st_nfs_client :: ty where
  "st_nfs_client = TStruct ''nfs_client'' False [
    Plain ''cl_count'' td_refcount_t,
    Plain ''cl_mds_count'' td_atomic_t,
    Plain ''cl_cons_state'' (TInt I32 True),
    Plain ''cl_res_state'' (TInt I64 False),
    Plain ''cl_flags'' (TInt I64 False),
    Plain ''cl_addr'' st___kernel_sockaddr_storage,
    Plain ''cl_addrlen'' td_size_t,
    Plain ''cl_hostname'' (TPtr ''char''),
    Plain ''cl_acceptor'' (TPtr ''char''),
    Plain ''cl_share_link'' st_list_head,
    Plain ''cl_superblocks'' st_list_head,
    Plain ''cl_rpcclient'' (TPtr ''struct rpc_clnt''),
    Plain ''rpc_ops'' (TPtr ''struct nfs_rpc_ops''),
    Plain ''cl_proto'' (TInt I32 True),
    Plain ''cl_nfs_mod'' (TPtr ''struct nfs_subversion''),
    Plain ''cl_minorversion'' td_u32,
    Plain ''cl_nconnect'' (TInt I32 False),
    Plain ''cl_max_connect'' (TInt I32 False),
    Plain ''cl_principal'' (TPtr ''char''),
    Plain ''cl_xprtsec'' st_xprtsec_parms,
    Plain ''cl_ds_clients'' st_list_head,
    Plain ''cl_clientid'' td_u64,
    Plain ''cl_confirm'' td_nfs4_verifier,
    Plain ''cl_state'' (TInt I64 False),
    Plain ''cl_lock'' td_spinlock_t,
    Plain ''cl_lease_time'' (TInt I64 False),
    Plain ''cl_last_renewal'' (TInt I64 False),
    Plain ''cl_renewd'' st_delayed_work,
    Plain ''cl_rpcwaitq'' st_rpc_wait_queue,
    Plain ''cl_idmap'' (TPtr ''struct idmap''),
    Plain ''cl_owner_id'' (TPtr ''char''),
    Plain ''cl_cb_ident'' td_u32,
    Plain ''cl_mvops'' (TPtr ''struct nfs4_minor_version_ops''),
    Plain ''cl_mig_gen'' (TInt I64 False),
    Plain ''cl_slot_tbl'' (TPtr ''struct nfs4_slot_table''),
    Plain ''cl_seqid'' td_u32,
    Plain ''cl_exchange_flags'' td_u32,
    Plain ''cl_session'' (TPtr ''struct nfs4_session''),
    Plain ''cl_preserve_clid'' td_bool,
    Plain ''cl_serverowner'' (TPtr ''struct nfs41_server_owner''),
    Plain ''cl_serverscope'' (TPtr ''struct nfs41_server_scope''),
    Plain ''cl_implid'' (TPtr ''struct nfs41_impl_id''),
    Plain ''cl_sp4_flags'' (TInt I64 False),
    Plain ''cl_lock_waitq'' td_wait_queue_head_t,
    Plain ''cl_ipaddr'' (TArr (TInt I8 True) 48),
    Plain ''cl_net'' (TPtr ''struct net''),
    Plain ''cl_ns_tracker'' td_netns_tracker,
    Plain ''pending_cb_stateids'' st_list_head,
    Plain ''rcu'' st_callback_head]"

definition st_nfs_server :: ty where
  "st_nfs_server = TStruct ''nfs_server'' False [
    Plain ''nfs_client'' (TPtr ''struct nfs_client''),
    Plain ''client_link'' st_list_head,
    Plain ''master_link'' st_list_head,
    Plain ''client'' (TPtr ''struct rpc_clnt''),
    Plain ''client_acl'' (TPtr ''struct rpc_clnt''),
    Plain ''nlm_host'' (TPtr ''struct nlm_host''),
    Plain ''io_stats'' (TPtr ''struct nfs_iostats''),
    Plain ''write_congestion_wait'' td_wait_queue_head_t,
    Plain ''writeback'' td_atomic_long_t,
    Plain ''write_congested'' (TInt I32 False),
    Plain ''flags'' (TInt I32 False),
    Plain ''automount_inherit'' (TInt I32 False),
    Plain ''caps'' (TInt I32 False),
    Plain ''fattr_valid'' td___u64,
    Plain ''rsize'' (TInt I32 False),
    Plain ''rpages'' (TInt I32 False),
    Plain ''wsize'' (TInt I32 False),
    Plain ''wtmult'' (TInt I32 False),
    Plain ''dtsize'' (TInt I32 False),
    Plain ''port'' (TInt I16 False),
    Plain ''bsize'' (TInt I32 False),
    Plain ''gxasize'' (TInt I32 False),
    Plain ''sxasize'' (TInt I32 False),
    Plain ''lxasize'' (TInt I32 False),
    Plain ''acregmin'' (TInt I32 False),
    Plain ''acregmax'' (TInt I32 False),
    Plain ''acdirmin'' (TInt I32 False),
    Plain ''acdirmax'' (TInt I32 False),
    Plain ''namelen'' (TInt I32 False),
    Plain ''options'' (TInt I32 False),
    Plain ''clone_blksize'' (TInt I32 False),
    Plain ''change_attr_type'' (TEnum ''nfs4_change_attr_type'' I32),
    Plain ''fsid'' st_nfs_fsid,
    Plain ''s_sysfs_id'' (TInt I32 True),
    Plain ''maxfilesize'' td___u64,
    Plain ''mount_time'' (TInt I64 False),
    Plain ''super'' (TPtr ''struct super_block''),
    Plain ''s_dev'' td_dev_t,
    Plain ''auth_info'' st_nfs_auth_info,
    Plain ''fscache'' (TPtr ''struct fscache_volume''),
    Plain ''fscache_uniq'' (TPtr ''char''),
    Plain ''fh_expire_type'' td_u32,
    Plain ''pnfs_blksize'' td_u32,
    Plain ''attr_bitmask'' (TArr td_u32 3),
    Plain ''attr_bitmask_nl'' (TArr td_u32 3),
    Plain ''exclcreat_bitmask'' (TArr td_u32 3),
    Plain ''cache_consistency_bitmask'' (TArr td_u32 3),
    Plain ''acl_bitmask'' td_u32,
    Plain ''pnfs_curr_ld'' (TPtr ''struct pnfs_layoutdriver_type''),
    Plain ''roc_rpcwaitq'' st_rpc_wait_queue,
    Plain ''state_owners'' st_rb_root,
    Plain ''owner_ctr'' td_atomic64_t,
    Plain ''state_owners_lru'' st_list_head,
    Plain ''layouts'' st_list_head,
    Plain ''delegations'' st_list_head,
    Plain ''delegations_lock'' td_spinlock_t,
    Plain ''delegations_return'' st_list_head,
    Plain ''delegations_lru'' st_list_head,
    Plain ''delegations_delayed'' st_list_head,
    Plain ''nr_active_delegations'' td_atomic_long_t,
    Plain ''delegation_hash_mask'' (TInt I32 False),
    Plain ''delegation_hash_table'' (TPtr ''struct hlist_head''),
    Plain ''ss_copies'' st_list_head,
    Plain ''ss_src_copies'' st_list_head,
    Plain ''delegation_flags'' (TInt I64 False),
    Plain ''delegation_gen'' (TInt I64 False),
    Plain ''mig_gen'' (TInt I64 False),
    Plain ''mig_status'' (TInt I64 False),
    Plain ''destroy'' (TFun ''void (*)(struct nfs_server *)''),
    Plain ''active'' td_atomic_t,
    Plain ''mountd_address'' st___kernel_sockaddr_storage,
    Plain ''mountd_addrlen'' td_size_t,
    Plain ''mountd_version'' td_u32,
    Plain ''mountd_port'' (TInt I16 False),
    Plain ''mountd_protocol'' (TInt I16 False),
    Plain ''uoc_rpcwaitq'' st_rpc_wait_queue,
    Plain ''read_hdrsize'' (TInt I32 False),
    Plain ''cred'' (TPtr ''struct cred''),
    Plain ''has_sec_mnt_opts'' td_bool,
    Plain ''kobj'' st_kobject,
    Plain ''rcu'' st_callback_head]"

definition st_packet_ring_buffer :: ty where
  "st_packet_ring_buffer = TStruct ''packet_ring_buffer'' False [
    Plain ''pg_vec'' (TPtr ''struct pgv''),
    Plain ''head'' (TInt I32 False),
    Plain ''frames_per_block'' (TInt I32 False),
    Plain ''frame_size'' (TInt I32 False),
    Plain ''frame_max'' (TInt I32 False),
    Plain ''pg_vec_order'' (TInt I32 False),
    Plain ''pg_vec_pages'' (TInt I32 False),
    Plain ''pg_vec_len'' (TInt I32 False),
    Plain ''pending_refcnt'' (TPtr ''unsigned int''),
    Plain '''' (TUnion '''' False [
      Plain ''rx_owner_map'' (TPtr ''long unsigned int''),
      Plain ''prb_bdqc'' st_tpacket_kbdq_core])]"

definition st_zone :: ty where
  "st_zone = TStruct ''zone'' False [
    Plain ''_watermark'' (TArr (TInt I64 False) 4),
    Plain ''watermark_boost'' (TInt I64 False),
    Plain ''nr_reserved_highatomic'' (TInt I64 False),
    Plain ''nr_free_highatomic'' (TInt I64 False),
    Plain ''lowmem_reserve'' (TArr (TInt I64 True) 5),
    Plain ''node'' (TInt I32 True),
    Plain ''zone_pgdat'' (TPtr ''struct pglist_data''),
    Plain ''per_cpu_pageset'' (TPtr ''struct per_cpu_pages''),
    Plain ''per_cpu_zonestats'' (TPtr ''struct per_cpu_zonestat''),
    Plain ''pageset_high_min'' (TInt I32 True),
    Plain ''pageset_high_max'' (TInt I32 True),
    Plain ''pageset_batch'' (TInt I32 True),
    Plain ''zone_start_pfn'' (TInt I64 False),
    Plain ''managed_pages'' td_atomic_long_t,
    Plain ''spanned_pages'' (TInt I64 False),
    Plain ''present_pages'' (TInt I64 False),
    Plain ''present_early_pages'' (TInt I64 False),
    Plain ''cma_pages'' (TInt I64 False),
    Plain ''name'' (TPtr ''char''),
    Plain ''nr_isolate_pageblock'' (TInt I64 False),
    Plain ''span_seqlock'' td_seqlock_t,
    Plain ''initialized'' (TInt I32 True),
    Bits '''' (TInt I64 True) 64,
    Bits '''' (TInt I64 True) 64,
    Bits '''' (TInt I64 True) 64,
    Bits '''' (TInt I64 True) 64,
    Plain ''_pad1_'' st_cacheline_padding,
    Plain ''free_area'' (TArr st_free_area 11),
    Plain ''unaccepted_pages'' st_list_head,
    Plain ''unaccepted_cleanup'' st_work_struct,
    Plain ''flags'' (TInt I64 False),
    Plain ''lock'' td_spinlock_t,
    Plain ''trylock_free_pages'' st_llist_head,
    Plain ''_pad2_'' st_cacheline_padding,
    Plain ''percpu_drift_mark'' (TInt I64 False),
    Plain ''compact_cached_free_pfn'' (TInt I64 False),
    Plain ''compact_cached_migrate_pfn'' (TArr (TInt I64 False) 2),
    Plain ''compact_init_migrate_pfn'' (TInt I64 False),
    Plain ''compact_init_free_pfn'' (TInt I64 False),
    Plain ''compact_considered'' (TInt I32 False),
    Plain ''compact_defer_shift'' (TInt I32 False),
    Plain ''compact_order_failed'' (TInt I32 True),
    Plain ''compact_blockskip_flush'' td_bool,
    Plain ''contiguous'' td_bool,
    Bits '''' (TInt I64 True) 0,
    Plain ''_pad3_'' st_cacheline_padding,
    Plain ''vm_stat'' (TArr td_atomic_long_t 12),
    Plain ''vm_numa_event'' (TArr td_atomic_long_t 6),
    Bits '''' (TInt I64 True) 64,
    Bits '''' (TInt I64 True) 64,
    Bits '''' (TInt I64 True) 64,
    Bits '''' (TInt I64 True) 64,
    Bits '''' (TInt I64 True) 64,
    Bits '''' (TInt I64 True) 64]"

definition st_pid :: ty where
  "st_pid = TStruct ''pid'' False [
    Plain ''count'' td_refcount_t,
    Plain ''level'' (TInt I32 False),
    Plain ''lock'' td_spinlock_t,
    Plain '''' (TStruct '''' False [
      Plain ''ino'' td_u64,
      Plain ''pidfs_hash'' st_rhash_head,
      Plain ''stashed'' (TPtr ''struct dentry''),
      Plain ''attr'' (TPtr ''struct pidfs_attr'')]),
    Plain ''tasks'' (TArr st_hlist_head 4),
    Plain ''inodes'' st_hlist_head,
    Plain ''wait_pidfd'' td_wait_queue_head_t,
    Plain ''rcu'' st_callback_head,
    Plain ''numbers'' (TArr st_upid 0)]"

definition st_pid_namespace :: ty where
  "st_pid_namespace = TStruct ''pid_namespace'' False [
    Plain ''idr'' st_idr,
    Plain ''rcu'' st_callback_head,
    Plain ''pid_allocated'' (TInt I32 False),
    Plain ''memfd_noexec_scope'' (TInt I32 True),
    Plain ''set'' st_ctl_table_set,
    Plain ''sysctls'' (TPtr ''struct ctl_table_header''),
    Plain ''child_reaper'' (TPtr ''struct task_struct''),
    Plain ''pid_cachep'' (TPtr ''struct kmem_cache''),
    Plain ''level'' (TInt I32 False),
    Plain ''pid_max'' (TInt I32 True),
    Plain ''parent'' (TPtr ''struct pid_namespace''),
    Plain ''bacct'' (TPtr ''struct fs_pin''),
    Plain ''user_ns'' (TPtr ''struct user_namespace''),
    Plain ''ucounts'' (TPtr ''struct ucounts''),
    Plain ''reboot'' (TInt I32 True),
    Bits '''' (TInt I64 True) 64,
    Bits '''' (TInt I64 True) 64,
    Bits '''' (TInt I64 True) 64,
    Bits '''' (TInt I64 True) 64,
    Plain ''ns'' st_ns_common,
    Plain ''work'' st_work_struct,
    Bits '''' (TInt I64 True) 64,
    Bits '''' (TInt I64 True) 64,
    Bits '''' (TInt I64 True) 64,
    Bits '''' (TInt I64 True) 64]"

definition st_pipe_inode_info :: ty where
  "st_pipe_inode_info = TStruct ''pipe_inode_info'' False [
    Plain ''mutex'' st_mutex,
    Plain ''rd_wait'' td_wait_queue_head_t,
    Plain ''wr_wait'' td_wait_queue_head_t,
    Plain '''' un_pipe_index,
    Plain ''max_usage'' (TInt I32 False),
    Plain ''ring_size'' (TInt I32 False),
    Plain ''nr_accounted'' (TInt I32 False),
    Plain ''readers'' (TInt I32 False),
    Plain ''writers'' (TInt I32 False),
    Plain ''files'' (TInt I32 False),
    Plain ''r_counter'' (TInt I32 False),
    Plain ''w_counter'' (TInt I32 False),
    Plain ''poll_usage'' td_bool,
    Plain ''note_loss'' td_bool,
    Plain ''tmp_page'' (TArr (TPtr ''struct page'') 2),
    Plain ''fasync_readers'' (TPtr ''struct fasync_struct''),
    Plain ''fasync_writers'' (TPtr ''struct fasync_struct''),
    Plain ''bufs'' (TPtr ''struct pipe_buffer''),
    Plain ''user'' (TPtr ''struct user_struct''),
    Plain ''watch_queue'' (TPtr ''struct watch_queue'')]"

definition st_port :: ty where
  "st_port = TStruct ''port'' False [
    Plain ''list'' st_list_head,
    Plain ''portdev'' (TPtr ''struct ports_device''),
    Plain ''inbuf'' (TPtr ''struct port_buffer''),
    Plain ''inbuf_lock'' td_spinlock_t,
    Plain ''outvq_lock'' td_spinlock_t,
    Plain ''in_vq'' (TPtr ''struct virtqueue''),
    Plain ''out_vq'' (TPtr ''struct virtqueue''),
    Plain ''debugfs_file'' (TPtr ''struct dentry''),
    Plain ''stats'' st_port_stats,
    Plain ''cons'' st_console___2,
    Plain ''cdev'' (TPtr ''struct cdev''),
    Plain ''dev'' (TPtr ''struct device''),
    Plain ''kref'' st_kref,
    Plain ''waitqueue'' td_wait_queue_head_t,
    Plain ''name'' (TPtr ''char''),
    Plain ''async_queue'' (TPtr ''struct fasync_struct''),
    Plain ''id'' td_u32,
    Plain ''outvq_full'' td_bool,
    Plain ''host_connected'' td_bool,
    Plain ''guest_connected'' td_bool]"

definition st_pseudo_lock_region :: ty where
  "st_pseudo_lock_region = TStruct ''pseudo_lock_region'' False [
    Plain ''s'' (TPtr ''struct resctrl_schema''),
    Plain ''closid'' td_u32,
    Plain ''d'' (TPtr ''struct rdt_ctrl_domain''),
    Plain ''cbm'' td_u32,
    Plain ''lock_thread_wq'' td_wait_queue_head_t,
    Plain ''thread_done'' (TInt I32 True),
    Plain ''cpu'' (TInt I32 True),
    Plain ''line_size'' (TInt I32 False),
    Plain ''size'' (TInt I32 False),
    Plain ''kmem'' (TPtr ''void''),
    Plain ''minor'' (TInt I32 False),
    Plain ''debugfs_dir'' (TPtr ''struct dentry''),
    Plain ''pm_reqs'' st_list_head]"

definition st_psi_group :: ty where
  "st_psi_group = TStruct ''psi_group'' False [
    Plain ''parent'' (TPtr ''struct psi_group''),
    Plain ''enabled'' td_bool,
    Plain ''avgs_lock'' st_mutex,
    Plain ''pcpu'' (TPtr ''struct psi_group_cpu''),
    Plain ''avg_total'' (TArr td_u64 6),
    Plain ''avg_last_update'' td_u64,
    Plain ''avg_next_update'' td_u64,
    Plain ''avgs_work'' st_delayed_work,
    Plain ''avg_triggers'' st_list_head,
    Plain ''avg_nr_triggers'' (TArr td_u32 6),
    Plain ''total'' (TArr td_u64 12),
    Plain ''avg'' (TArr (TInt I64 False) 18),
    Plain ''rtpoll_task'' (TPtr ''struct task_struct''),
    Plain ''rtpoll_timer'' st_timer_list,
    Plain ''rtpoll_wait'' td_wait_queue_head_t,
    Plain ''rtpoll_wakeup'' td_atomic_t,
    Plain ''rtpoll_scheduled'' td_atomic_t,
    Plain ''rtpoll_trigger_lock'' st_mutex,
    Plain ''rtpoll_triggers'' st_list_head,
    Plain ''rtpoll_nr_triggers'' (TArr td_u32 6),
    Plain ''rtpoll_states'' td_u32,
    Plain ''rtpoll_min_period'' td_u64,
    Plain ''rtpoll_total'' (TArr td_u64 6),
    Plain ''rtpoll_next_update'' td_u64,
    Plain ''rtpoll_until'' td_u64]"

definition st_rb_irq_work :: ty where
  "st_rb_irq_work = TStruct ''rb_irq_work'' False [
    Plain ''work'' st_irq_work,
    Plain ''waiters'' td_wait_queue_head_t,
    Plain ''full_waiters'' td_wait_queue_head_t,
    Plain ''seq'' td_atomic_t,
    Plain ''waiters_pending'' td_bool,
    Plain ''full_waiters_pending'' td_bool,
    Plain ''wakeup_full'' td_bool]"

definition st_rchan_buf :: ty where
  "st_rchan_buf = TStruct ''rchan_buf'' False [
    Plain ''start'' (TPtr ''void''),
    Plain ''data'' (TPtr ''void''),
    Plain ''offset'' td_size_t,
    Plain ''subbufs_produced'' td_size_t,
    Plain ''subbufs_consumed'' td_size_t,
    Plain ''chan'' (TPtr ''struct rchan''),
    Plain ''read_wait'' td_wait_queue_head_t,
    Plain ''wakeup_work'' st_irq_work,
    Plain ''dentry'' (TPtr ''struct dentry''),
    Plain ''kref'' st_kref,
    Plain ''stats'' st_rchan_buf_stats,
    Plain ''page_array'' (TPtr ''struct page *''),
    Plain ''page_count'' (TInt I32 False),
    Plain ''finalized'' (TInt I32 False),
    Plain ''padding'' (TPtr ''size_t''),
    Plain ''bytes_consumed'' td_size_t,
    Plain ''early_bytes'' td_size_t,
    Plain ''cpu'' (TInt I32 False),
    Bits '''' (TInt I64 True) 64,
    Bits '''' (TInt I64 True) 64]"

definition st_rcu_node :: ty where
  "st_rcu_node = TStruct ''rcu_node'' False [
    Plain ''lock'' td_raw_spinlock_t,
    Plain ''gp_seq'' (TInt I64 False),
    Plain ''gp_seq_needed'' (TInt I64 False),
    Plain ''completedqs'' (TInt I64 False),
    Plain ''qsmask'' (TInt I64 False),
    Plain ''rcu_gp_init_mask'' (TInt I64 False),
    Plain ''qsmaskinit'' (TInt I64 False),
    Plain ''qsmaskinitnext'' (TInt I64 False),
    Plain ''expmask'' (TInt I64 False),
    Plain ''expmaskinit'' (TInt I64 False),
    Plain ''expmaskinitnext'' (TInt I64 False),
    Plain ''exp_kworker'' (TPtr ''struct kthread_worker''),
    Plain ''cbovldmask'' (TInt I64 False),
    Plain ''ffmask'' (TInt I64 False),
    Plain ''grpmask'' (TInt I64 False),
    Plain ''grplo'' (TInt I32 True),
    Plain ''grphi'' (TInt I32 True),
    Plain ''grpnum'' td_u8,
    Plain ''level'' td_u8,
    Plain ''wait_blkd_tasks'' td_bool,
    Plain ''parent'' (TPtr ''struct rcu_node''),
    Plain ''blkd_tasks'' st_list_head,
    Plain ''gp_tasks'' (TPtr ''struct list_head''),
    Plain ''exp_tasks'' (TPtr ''struct list_head''),
    Plain ''boost_tasks'' (TPtr ''struct list_head''),
    Plain ''boost_mtx'' st_rt_mutex,
    Plain ''boost_time'' (TInt I64 False),
    Plain ''kthread_mutex'' st_mutex,
    Plain ''boost_kthread_task'' (TPtr ''struct task_struct''),
    Plain ''boost_kthread_status'' (TInt I32 False),
    Plain ''n_boosts'' (TInt I64 False),
    Plain ''nocb_gp_wq'' (TArr st_swait_queue_head 2),
    Bits '''' (TInt I64 True) 64,
    Bits '''' (TInt I64 True) 64,
    Bits '''' (TInt I64 True) 64,
    Bits '''' (TInt I64 True) 64,
    Bits '''' (TInt I64 True) 64,
    Bits '''' (TInt I64 True) 64,
    Bits '''' (TInt I64 True) 64,
    Plain ''fqslock'' td_raw_spinlock_t,
    Bits '''' (TInt I64 True) 64,
    Bits '''' (TInt I64 True) 64,
    Bits '''' (TInt I64 True) 64,
    Bits '''' (TInt I64 True) 64,
    Bits '''' (TInt I64 True) 64,
    Bits '''' (TInt I64 True) 64,
    Bits '''' (TInt I64 True) 64,
    Plain ''exp_lock'' td_spinlock_t,
    Plain ''exp_seq_rq'' (TInt I64 False),
    Plain ''exp_wq'' (TArr td_wait_queue_head_t 4),
    Plain ''rew'' st_rcu_exp_work,
    Plain ''exp_need_flush'' td_bool,
    Plain ''exp_poll_lock'' td_raw_spinlock_t,
    Plain ''exp_seq_poll_rq'' (TInt I64 False),
    Plain ''exp_poll_wq'' st_work_struct,
    Bits '''' (TInt I64 True) 64,
    Bits '''' (TInt I64 True) 64,
    Bits '''' (TInt I64 True) 64,
    Bits '''' (TInt I64 True) 64,
    Bits '''' (TInt I64 True) 64,
    Bits '''' (TInt I64 True) 64]"

definition st_request_queue :: ty where
  "st_request_queue = TStruct ''request_queue'' False [
    Plain ''queuedata'' (TPtr ''void''),
    Plain ''elevator'' (TPtr ''struct elevator_queue''),
    Plain ''mq_ops'' (TPtr ''struct blk_mq_ops''),
    Plain ''queue_ctx'' (TPtr ''struct blk_mq_ctx''),
    Plain ''queue_flags'' (TInt I64 False),
    Plain ''rq_timeout'' (TInt I32 False),
    Plain ''queue_depth'' (TInt I32 False),
    Plain ''refs'' td_refcount_t,
    Plain ''nr_hw_queues'' (TInt I32 False),
    Plain ''queue_hw_ctx'' (TPtr ''struct blk_mq_hw_ctx *''),
    Plain ''q_usage_counter'' st_percpu_ref,
    Plain ''io_lock_cls_key'' st_lock_class_key,
    Plain ''io_lockdep_map'' st_lockdep_map,
    Plain ''q_lock_cls_key'' st_lock_class_key,
    Plain ''q_lockdep_map'' st_lockdep_map,
    Plain ''last_merge'' (TPtr ''struct request''),
    Plain ''queue_lock'' td_spinlock_t,
    Plain ''quiesce_depth'' (TInt I32 True),
    Plain ''disk'' (TPtr ''struct gendisk''),
    Plain ''mq_kobj'' (TPtr ''struct kobject''),
    Plain ''limits'' st_queue_limits,
    Plain ''dev'' (TPtr ''struct device''),
    Plain ''rpm_status'' (TEnum ''rpm_status'' I32),
    Plain ''pm_only'' td_atomic_t,
    Plain ''stats'' (TPtr ''struct blk_queue_stats''),
    Plain ''rq_qos'' (TPtr ''struct rq_qos''),
    Plain ''rq_qos_mutex'' st_mutex,
    Plain ''id'' (TInt I32 True),
    Plain ''nr_requests'' (TInt I32 False),
    Plain ''async_depth'' (TInt I32 False),
    Plain ''crypto_profile'' (TPtr ''struct blk_crypto_profile''),
    Plain ''crypto_kobject'' (TPtr ''struct kobject''),
    Plain ''timeout'' st_timer_list,
    Plain ''timeout_work'' st_work_struct,
    Plain ''nr_active_requests_shared_tags'' td_atomic_t,
    Plain ''sched_shared_tags'' (TPtr ''struct blk_mq_tags''),
    Plain ''icq_list'' st_list_head,
    Plain ''blkcg_pols'' (TArr (TInt I64 False) 1),
    Plain ''root_blkg'' (TPtr ''struct blkcg_gq''),
    Plain ''blkg_list'' st_list_head,
    Plain ''blkcg_mutex'' st_mutex,
    Plain ''node'' (TInt I32 True),
    Plain ''requeue_lock'' td_spinlock_t,
    Plain ''requeue_list'' st_list_head,
    Plain ''requeue_work'' st_delayed_work,
    Plain ''blk_trace'' (TPtr ''struct blk_trace''),
    Plain ''fq'' (TPtr ''struct blk_flush_queue''),
    Plain ''flush_list'' st_list_head,
    Plain ''elevator_lock'' st_mutex,
    Plain ''sysfs_lock'' st_mutex,
    Plain ''limits_lock'' st_mutex,
    Plain ''unused_hctx_list'' st_list_head,
    Plain ''unused_hctx_lock'' td_spinlock_t,
    Plain ''mq_freeze_depth'' (TInt I32 True),
    Plain ''td'' (TPtr ''struct throtl_data''),
    Plain ''callback_head'' st_callback_head,
    Plain ''mq_freeze_wq'' td_wait_queue_head_t,
    Plain ''mq_freeze_lock'' st_mutex,
    Plain ''tag_set'' (TPtr ''struct blk_mq_tag_set''),
    Plain ''tag_set_list'' st_list_head,
    Plain ''debugfs_dir'' (TPtr ''struct dentry''),
    Plain ''sched_debugfs_dir'' (TPtr ''struct dentry''),
    Plain ''rqos_debugfs_dir'' (TPtr ''struct dentry''),
    Plain ''debugfs_mutex'' st_mutex]"

definition st_rq_wait :: ty where
  "st_rq_wait = TStruct ''rq_wait'' False [
    Plain ''wait'' td_wait_queue_head_t,
    Plain ''inflight'' td_atomic_t]"

definition st_sctp_association :: ty where
  "st_sctp_association = TStruct ''sctp_association'' False [
    Plain ''base'' st_sctp_ep_common,
    Plain ''asocs'' st_list_head,
    Plain ''assoc_id'' td_sctp_assoc_t,
    Plain ''ep'' (TPtr ''struct sctp_endpoint''),
    Plain ''c'' st_sctp_cookie,
    Plain ''peer'' (TStruct '''' False [
      Plain ''transport_addr_list'' st_list_head,
      Plain ''rwnd'' td___u32,
      Plain ''transport_count'' td___u16,
      Plain ''port'' td___u16,
      Plain ''primary_path'' (TPtr ''struct sctp_transport''),
      Plain ''primary_addr'' un_sctp_addr,
      Plain ''active_path'' (TPtr ''struct sctp_transport''),
      Plain ''retran_path'' (TPtr ''struct sctp_transport''),
      Plain ''last_sent_to'' (TPtr ''struct sctp_transport''),
      Plain ''last_data_from'' (TPtr ''struct sctp_transport''),
      Plain ''tsn_map'' st_sctp_tsnmap,
      Plain ''addip_disabled_mask'' td___be16,
      Bits ''ecn_capable'' td___u16 1,
      Bits ''ipv4_address'' td___u16 1,
      Bits ''ipv6_address'' td___u16 1,
      Bits ''asconf_capable'' td___u16 1,
      Bits ''prsctp_capable'' td___u16 1,
      Bits ''reconf_capable'' td___u16 1,
      Bits ''intl_capable'' td___u16 1,
      Bits ''auth_capable'' td___u16 1,
      Bits ''sack_needed'' td___u16 1,
      Bits ''sack_generation'' td___u16 1,
      Bits ''zero_window_announced'' td___u16 1,
      Plain ''sack_cnt'' td___u32,
      Plain ''adaptation_ind'' td___u32,
      Plain ''i'' st_sctp_inithdr_host,
      Plain ''cookie'' (TPtr ''void''),
      Plain ''cookie_len'' (TInt I32 True),
      Plain ''addip_serial'' td___u32,
      Plain ''peer_random'' (TPtr ''struct sctp_random_param''),
      Plain ''peer_chunks'' (TPtr ''struct sctp_chunks_param''),
      Plain ''peer_hmacs'' (TPtr ''struct sctp_hmac_algo_param'')]),
    Plain ''state'' (TEnum ''sctp_state'' I32),
    Plain ''overall_error_count'' (TInt I32 True),
    Plain ''cookie_life'' td_ktime_t,
    Plain ''rto_initial'' (TInt I64 False),
    Plain ''rto_max'' (TInt I64 False),
    Plain ''rto_min'' (TInt I64 False),
    Plain ''max_burst'' (TInt I32 True),
    Plain ''max_retrans'' (TInt I32 True),
    Plain ''pf_retrans'' td___u16,
    Plain ''ps_retrans'' td___u16,
    Plain ''max_init_attempts'' td___u16,
    Plain ''init_retries'' td___u16,
    Plain ''max_init_timeo'' (TInt I64 False),
    Plain ''hbinterval'' (TInt I64 False),
    Plain ''probe_interval'' (TInt I64 False),
    Plain ''encap_port'' td___be16,
    Plain ''pathmaxrxt'' td___u16,
    Plain ''flowlabel'' td___u32,
    Plain ''dscp'' td___u8,
    Plain ''pmtu_pending'' td___u8,
    Plain ''pathmtu'' td___u32,
    Plain ''param_flags'' td___u32,
    Plain ''sackfreq'' td___u32,
    Plain ''sackdelay'' (TInt I64 False),
    Plain ''timeouts'' (TArr (TInt I64 False) 12),
    Plain ''timers'' (TArr st_timer_list 12),
    Plain ''shutdown_last_sent_to'' (TPtr ''struct sctp_transport''),
    Plain ''init_last_sent_to'' (TPtr ''struct sctp_transport''),
    Plain ''shutdown_retries'' (TInt I32 True),
    Plain ''next_tsn'' td___u32,
    Plain ''ctsn_ack_point'' td___u32,
    Plain ''adv_peer_ack_point'' td___u32,
    Plain ''highest_sacked'' td___u32,
    Plain ''fast_recovery_exit'' td___u32,
    Plain ''fast_recovery'' td___u8,
    Plain ''unack_data'' td___u16,
    Plain ''rtx_data_chunks'' td___u32,
    Plain ''rwnd'' td___u32,
    Plain ''a_rwnd'' td___u32,
    Plain ''rwnd_over'' td___u32,
    Plain ''rwnd_press'' td___u32,
    Plain ''sndbuf_used'' (TInt I32 True),
    Plain ''rmem_alloc'' td_atomic_t,
    Plain ''wait'' td_wait_queue_head_t,
    Plain ''frag_point'' td___u32,
    Plain ''user_frag'' td___u32,
    Plain ''init_err_counter'' (TInt I32 True),
    Plain ''init_cycle'' (TInt I32 True),
    Plain ''default_stream'' td___u16,
    Plain ''default_flags'' td___u16,
    Plain ''default_ppid'' td___u32,
    Plain ''default_context'' td___u32,
    Plain ''default_timetolive'' td___u32,
    Plain ''default_rcv_context'' td___u32,
    Plain ''stream'' st_sctp_stream,
    Plain ''outqueue'' st_sctp_outq,
    Plain ''ulpq'' st_sctp_ulpq,
    Plain ''last_ecne_tsn'' td___u32,
    Plain ''last_cwr_tsn'' td___u32,
    Plain ''numduptsns'' (TInt I32 True),
    Plain ''addip_last_asconf'' (TPtr ''struct sctp_chunk''),
    Plain ''asconf_ack_list'' st_list_head,
    Plain ''addip_chunk_list'' st_list_head,
    Plain ''addip_serial'' td___u32,
    Plain ''src_out_of_asoc_ok'' (TInt I32 True),
    Plain ''asconf_addr_del_pending'' (TPtr ''union sctp_addr''),
    Plain ''new_transport'' (TPtr ''struct sctp_transport''),
    Plain ''endpoint_shared_keys'' st_list_head,
    Plain ''asoc_shared_key'' (TPtr ''struct sctp_auth_bytes''),
    Plain ''shkey'' (TPtr ''struct sctp_shared_key''),
    Plain ''default_hmac_id'' td___u16,
    Plain ''active_key_id'' td___u16,
    Bits ''need_ecne'' td___u8 1,
    Bits ''temp'' td___u8 1,
    Bits ''pf_expose'' td___u8 2,
    Bits ''force_delay'' td___u8 1,
    Plain ''strreset_enable'' td___u8,
    Plain ''strreset_outstanding'' td___u8,
    Plain ''strreset_outseq'' td___u32,
    Plain ''strreset_inseq'' td___u32,
    Plain ''strreset_result'' (TArr td___u32 2),
    Plain ''strreset_chunk'' (TPtr ''struct sctp_chunk''),
    Plain ''stats'' st_sctp_priv_assoc_stats,
    Plain ''sent_cnt_removable'' (TInt I32 True),
    Plain ''subscribe'' td___u16,
    Plain ''abandoned_unsent'' (TArr td___u64 3),
    Plain ''abandoned_sent'' (TArr td___u64 3),
    Plain ''secid'' td_u32,
    Plain ''peer_secid'' td_u32,
    Plain ''rcu'' st_callback_head]"

definition st_sg_device :: ty where
  "st_sg_device = TStruct ''sg_device'' False [
    Plain ''device'' (TPtr ''struct scsi_device''),
    Plain ''open_wait'' td_wait_queue_head_t,
    Plain ''open_rel_lock'' st_mutex,
    Plain ''sg_tablesize'' (TInt I32 True),
    Plain ''index'' td_u32,
    Plain ''sfds'' st_list_head,
    Plain ''sfd_lock'' td_rwlock_t,
    Plain ''detaching'' td_atomic_t,
    Plain ''exclude'' td_bool,
    Plain ''open_cnt'' (TInt I32 True),
    Plain ''sgdebug'' (TInt I8 True),
    Plain ''name'' (TArr (TInt I8 True) 32),
    Plain ''cdev'' (TPtr ''struct cdev''),
    Plain ''d_ref'' st_kref]"

definition st_signal_struct :: ty where
  "st_signal_struct = TStruct ''signal_struct'' False [
    Plain ''sigcnt'' td_refcount_t,
    Plain ''live'' td_atomic_t,
    Plain ''nr_threads'' (TInt I32 True),
    Plain ''quick_threads'' (TInt I32 True),
    Plain ''thread_head'' st_list_head,
    Plain ''wait_chldexit'' td_wait_queue_head_t,
    Plain ''curr_target'' (TPtr ''struct task_struct''),
    Plain ''shared_pending'' st_sigpending,
    Plain ''multiprocess'' st_hlist_head,
    Plain ''group_exit_code'' (TInt I32 True),
    Plain ''notify_count'' (TInt I32 True),
    Plain ''group_exec_task'' (TPtr ''struct task_struct''),
    Plain ''group_stop_count'' (TInt I32 True),
    Plain ''flags'' (TInt I32 False),
    Plain ''core_state'' (TPtr ''struct core_state''),
    Bits ''is_child_subreaper'' (TInt I32 False) 1,
    Bits ''has_child_subreaper'' (TInt I32 False) 1,
    Bits ''timer_create_restore_ids'' (TInt I32 False) 1,
    Plain ''next_posix_timer_id'' td_atomic_t,
    Plain ''posix_timers'' st_hlist_head,
    Plain ''ignored_posix_timers'' st_hlist_head,
    Plain ''real_timer'' st_hrtimer,
    Plain ''it_real_incr'' td_ktime_t,
    Plain ''it'' (TArr st_cpu_itimer 2),
    Plain ''cputimer'' st_thread_group_cputimer,
    Plain ''posix_cputimers'' st_posix_cputimers,
    Plain ''pids'' (TArr (TPtr ''struct pid'') 4),
    Plain ''tick_dep_mask'' td_atomic_t,
    Plain ''tty_old_pgrp'' (TPtr ''struct pid''),
    Plain ''leader'' (TInt I32 True),
    Plain ''tty'' (TPtr ''struct tty_struct''),
    Plain ''autogroup'' (TPtr ''struct autogroup''),
    Plain ''stats_lock'' td_seqlock_t,
    Plain ''utime'' td_u64,
    Plain ''stime'' td_u64,
    Plain ''cutime'' td_u64,
    Plain ''cstime'' td_u64,
    Plain ''gtime'' td_u64,
    Plain ''cgtime'' td_u64,
    Plain ''prev_cputime'' st_prev_cputime,
    Plain ''nvcsw'' (TInt I64 False),
    Plain ''nivcsw'' (TInt I64 False),
    Plain ''cnvcsw'' (TInt I64 False),
    Plain ''cnivcsw'' (TInt I64 False),
    Plain ''min_flt'' (TInt I64 False),
    Plain ''maj_flt'' (TInt I64 False),
    Plain ''cmin_flt'' (TInt I64 False),
    Plain ''cmaj_flt'' (TInt I64 False),
    Plain ''inblock'' (TInt I64 False),
    Plain ''oublock'' (TInt I64 False),
    Plain ''cinblock'' (TInt I64 False),
    Plain ''coublock'' (TInt I64 False),
    Plain ''maxrss'' (TInt I64 False),
    Plain ''cmaxrss'' (TInt I64 False),
    Plain ''ioac'' st_task_io_accounting,
    Plain ''sum_sched_runtime'' (TInt I64 False),
    Plain ''rlim'' (TArr st_rlimit 16),
    Plain ''pacct'' st_pacct_struct,
    Plain ''stats'' (TPtr ''struct taskstats''),
    Plain ''audit_tty'' (TInt I32 False),
    Plain ''tty_audit_buf'' (TPtr ''struct tty_audit_buf''),
    Plain ''cgroup_threadgroup_rwsem'' st_rw_semaphore,
    Plain ''oom_flag_origin'' td_bool,
    Plain ''oom_score_adj'' (TInt I16 True),
    Plain ''oom_score_adj_min'' (TInt I16 True),
    Plain ''oom_mm'' (TPtr ''struct mm_struct''),
    Plain ''cred_guard_mutex'' st_mutex,
    Plain ''exec_update_lock'' st_rw_semaphore]"

definition st_socket_wq :: ty where
  "st_socket_wq = TStruct ''socket_wq'' False [
    Plain ''wait'' td_wait_queue_head_t,
    Plain ''fasync_list'' (TPtr ''struct fasync_struct''),
    Plain ''flags'' (TInt I64 False),
    Plain ''rcu'' st_callback_head,
    Bits '''' (TInt I64 True) 64]"

definition st_timerfd_ctx :: ty where
  "st_timerfd_ctx = TStruct ''timerfd_ctx'' False [
    Plain ''t'' (TUnion '''' False [
      Plain ''tmr'' st_hrtimer,
      Plain ''alarm'' st_alarm]),
    Plain ''tintv'' td_ktime_t,
    Plain ''moffs'' td_ktime_t,
    Plain ''wqh'' td_wait_queue_head_t,
    Plain ''ticks'' td_u64,
    Plain ''clockid'' (TInt I32 True),
    Plain ''expired'' (TInt I16 False),
    Plain ''settime_flags'' (TInt I16 False),
    Plain ''rcu'' st_callback_head,
    Plain ''clist'' st_list_head,
    Plain ''cancel_lock'' td_spinlock_t,
    Plain ''might_cancel'' td_bool]"

definition st_tpm_tis_data :: ty where
  "st_tpm_tis_data = TStruct ''tpm_tis_data'' False [
    Plain ''chip'' (TPtr ''struct tpm_chip''),
    Plain ''manufacturer_id'' td_u16,
    Plain ''locality_count_mutex'' st_mutex,
    Plain ''locality_count'' (TInt I32 False),
    Plain ''locality'' (TInt I32 True),
    Plain ''irq'' (TInt I32 True),
    Plain ''free_irq_work'' st_work_struct,
    Plain ''last_unhandled_irq'' (TInt I64 False),
    Plain ''unhandled_irqs'' (TInt I32 False),
    Plain ''int_mask'' (TInt I32 False),
    Plain ''flags'' (TInt I64 False),
    Plain ''ilb_base_addr'' (TPtr ''void''),
    Plain ''clkrun_enabled'' td_u16,
    Plain ''int_queue'' td_wait_queue_head_t,
    Plain ''read_queue'' td_wait_queue_head_t,
    Plain ''phy_ops'' (TPtr ''struct tpm_tis_phy_ops''),
    Plain ''rng_quality'' (TInt I16 False),
    Plain ''timeout_min'' (TInt I32 False),
    Plain ''timeout_max'' (TInt I32 False)]"

definition st_tty_struct :: ty where
  "st_tty_struct = TStruct ''tty_struct'' False [
    Plain ''kref'' st_kref,
    Plain ''index'' (TInt I32 True),
    Plain ''dev'' (TPtr ''struct device''),
    Plain ''driver'' (TPtr ''struct tty_driver''),
    Plain ''port'' (TPtr ''struct tty_port''),
    Plain ''ops'' (TPtr ''struct tty_operations''),
    Plain ''ldisc'' (TPtr ''struct tty_ldisc''),
    Plain ''ldisc_sem'' st_ld_semaphore,
    Plain ''atomic_write_lock'' st_mutex,
    Plain ''legacy_mutex'' st_mutex,
    Plain ''throttle_mutex'' st_mutex,
    Plain ''termios_rwsem'' st_rw_semaphore,
    Plain ''winsize_mutex'' st_mutex,
    Plain ''termios'' st_ktermios,
    Plain ''termios_locked'' st_ktermios,
    Plain ''name'' (TArr (TInt I8 True) 64),
    Plain ''flags'' (TInt I64 False),
    Plain ''count'' (TInt I32 True),
    Plain ''receive_room'' (TInt I32 False),
    Plain ''winsize'' st_winsize,
    Plain ''flow'' (TStruct '''' False [
      Plain ''lock'' td_spinlock_t,
      Plain ''stopped'' td_bool,
      Plain ''tco_stopped'' td_bool]),
    Plain ''ctrl'' (TStruct '''' False [
      Plain ''pgrp'' (TPtr ''struct pid''),
      Plain ''session'' (TPtr ''struct pid''),
      Plain ''lock'' td_spinlock_t,
      Plain ''pktstatus'' (TInt I8 False),
      Plain ''packet'' td_bool]),
    Plain ''hw_stopped'' td_bool,
    Plain ''closing'' td_bool,
    Plain ''flow_change'' (TInt I32 True),
    Plain ''link'' (TPtr ''struct tty_struct''),
    Plain ''fasync'' (TPtr ''struct fasync_struct''),
    Plain ''write_wait'' td_wait_queue_head_t,
    Plain ''read_wait'' td_wait_queue_head_t,
    Plain ''hangup_work'' st_work_struct,
    Plain ''disc_data'' (TPtr ''void''),
    Plain ''driver_data'' (TPtr ''void''),
    Plain ''files_lock'' td_spinlock_t,
    Plain ''write_cnt'' (TInt I32 True),
    Plain ''write_buf'' (TPtr ''u8''),
    Plain ''tty_files'' st_list_head,
    Plain ''SAK_work'' st_work_struct]"

definition st_uhci_hcd :: ty where
  "st_uhci_hcd = TStruct ''uhci_hcd'' False [
    Plain ''io_addr'' (TInt I64 False),
    Plain ''regs'' (TPtr ''void''),
    Plain ''qh_pool'' (TPtr ''struct dma_pool''),
    Plain ''td_pool'' (TPtr ''struct dma_pool''),
    Plain ''term_td'' (TPtr ''struct uhci_td''),
    Plain ''skelqh'' (TArr (TPtr ''struct uhci_qh'') 11),
    Plain ''next_qh'' (TPtr ''struct uhci_qh''),
    Plain ''lock'' td_spinlock_t,
    Plain ''frame_dma_handle'' td_dma_addr_t,
    Plain ''frame'' (TPtr ''__le32''),
    Plain ''frame_cpu'' (TPtr ''void *''),
    Plain ''rh_state'' (TEnum ''uhci_rh_state'' I32),
    Plain ''auto_stop_time'' (TInt I64 False),
    Plain ''frame_number'' (TInt I32 False),
    Plain ''is_stopped'' (TInt I32 False),
    Plain ''last_iso_frame'' (TInt I32 False),
    Plain ''cur_iso_frame'' (TInt I32 False),
    Bits ''scan_in_progress'' (TInt I32 False) 1,
    Bits ''need_rescan'' (TInt I32 False) 1,
    Bits ''dead'' (TInt I32 False) 1,
    Bits ''RD_enable'' (TInt I32 False) 1,
    Bits ''is_initialized'' (TInt I32 False) 1,
    Bits ''fsbr_is_on'' (TInt I32 False) 1,
    Bits ''fsbr_is_wanted'' (TInt I32 False) 1,
    Bits ''fsbr_expiring'' (TInt I32 False) 1,
    Plain ''fsbr_timer'' st_timer_list,
    Bits ''oc_low'' (TInt I32 False) 1,
    Bits ''wait_for_hp'' (TInt I32 False) 1,
    Bits ''big_endian_mmio'' (TInt I32 False) 1,
    Bits ''big_endian_desc'' (TInt I32 False) 1,
    Bits ''is_aspeed'' (TInt I32 False) 1,
    Plain ''port_c_suspend'' (TInt I64 False),
    Plain ''resuming_ports'' (TInt I64 False),
    Plain ''ports_timeout'' (TInt I64 False),
    Plain ''idle_qh_list'' st_list_head,
    Plain ''rh_numports'' (TInt I32 True),
    Plain ''waitqh'' td_wait_queue_head_t,
    Plain ''num_waiting'' (TInt I32 True),
    Plain ''total_load'' (TInt I32 True),
    Plain ''load'' (TArr (TInt I16 True) 32),
    Plain ''clk'' (TPtr ''struct clk''),
    Plain ''rsts'' (TPtr ''struct reset_control''),
    Plain ''reset_hc'' (TFun ''void (*)(struct uhci_hcd *)''),
    Plain ''check_and_reset_hc'' (TFun ''int (*)(struct uhci_hcd *)''),
    Plain ''configure_hc'' (TFun ''void (*)(struct uhci_hcd *)''),
    Plain ''resume_detect_interrupts_are_broken'' (TFun ''int (*)(struct uhci_hcd *)''),
    Plain ''global_suspend_mode_is_broken'' (TFun ''int (*)(struct uhci_hcd *)'')]"

definition st_uinput_device :: ty where
  "st_uinput_device = TStruct ''uinput_device'' False [
    Plain ''dev'' (TPtr ''struct input_dev''),
    Plain ''mutex'' st_mutex,
    Plain ''state'' (TEnum ''uinput_state'' I32),
    Plain ''state_lock'' td_spinlock_t,
    Plain ''waitq'' td_wait_queue_head_t,
    Plain ''ready'' (TInt I8 False),
    Plain ''head'' (TInt I8 False),
    Plain ''tail'' (TInt I8 False),
    Plain ''buff'' (TArr st_input_event 16),
    Plain ''ff_effects_max'' (TInt I32 False),
    Plain ''requests'' (TArr (TPtr ''struct uinput_request'') 16),
    Plain ''requests_waitq'' td_wait_queue_head_t,
    Plain ''requests_lock'' td_spinlock_t]"

definition st_usb_dev_state :: ty where
  "st_usb_dev_state = TStruct ''usb_dev_state'' False [
    Plain ''list'' st_list_head,
    Plain ''dev'' (TPtr ''struct usb_device''),
    Plain ''file'' (TPtr ''struct file''),
    Plain ''lock'' td_spinlock_t,
    Plain ''async_pending'' st_list_head,
    Plain ''async_completed'' st_list_head,
    Plain ''memory_list'' st_list_head,
    Plain ''wait'' td_wait_queue_head_t,
    Plain ''wait_for_resume'' td_wait_queue_head_t,
    Plain ''discsignr'' (TInt I32 False),
    Plain ''disc_pid'' (TPtr ''struct pid''),
    Plain ''cred'' (TPtr ''struct cred''),
    Plain ''disccontext'' td_sigval_t,
    Plain ''ifclaimed'' (TInt I64 False),
    Plain ''disabled_bulk_eps'' td_u32,
    Plain ''interface_allowed_mask'' (TInt I64 False),
    Plain ''not_yet_resumed'' (TInt I32 True),
    Plain ''suspend_allowed'' td_bool,
    Plain ''privileges_dropped'' td_bool]"

definition st_userfaultfd_ctx :: ty where
  "st_userfaultfd_ctx = TStruct ''userfaultfd_ctx'' False [
    Plain ''fault_pending_wqh'' td_wait_queue_head_t,
    Plain ''fault_wqh'' td_wait_queue_head_t,
    Plain ''fd_wqh'' td_wait_queue_head_t,
    Plain ''event_wqh'' td_wait_queue_head_t,
    Plain ''refile_seq'' td_seqcount_spinlock_t,
    Plain ''refcount'' td_refcount_t,
    Plain ''flags'' (TInt I32 False),
    Plain ''features'' (TInt I32 False),
    Plain ''released'' td_bool,
    Plain ''map_changing_lock'' st_rw_semaphore,
    Plain ''mmap_changing'' td_atomic_t,
    Plain ''mm'' (TPtr ''struct mm_struct'')]"

definition st_viommu_dev :: ty where
  "st_viommu_dev = TStruct ''viommu_dev'' False [
    Plain ''iommu'' st_iommu_device,
    Plain ''dev'' (TPtr ''struct device''),
    Plain ''vdev'' (TPtr ''struct virtio_device''),
    Plain ''domain_ids'' st_ida,
    Plain ''vqs'' (TArr (TPtr ''struct virtqueue'') 2),
    Plain ''request_lock'' td_spinlock_t,
    Plain ''requests'' st_list_head,
    Plain ''evts'' (TPtr ''void''),
    Plain ''geometry'' st_iommu_domain_geometry,
    Plain ''pgsize_bitmap'' td_u64,
    Plain ''first_domain'' td_u32,
    Plain ''last_domain'' td_u32,
    Plain ''identity_domain_id'' td_u32,
    Plain ''map_flags'' td_u32,
    Plain ''probe_size'' td_u32]"

definition st_worker_pool :: ty where
  "st_worker_pool = TStruct ''worker_pool'' False [
    Plain ''lock'' td_raw_spinlock_t,
    Plain ''cpu'' (TInt I32 True),
    Plain ''node'' (TInt I32 True),
    Plain ''id'' (TInt I32 True),
    Plain ''flags'' (TInt I32 False),
    Plain ''last_progress_ts'' (TInt I64 False),
    Plain ''cpu_stall'' td_bool,
    Plain ''nr_running'' (TInt I32 True),
    Plain ''worklist'' st_list_head,
    Plain ''nr_workers'' (TInt I32 True),
    Plain ''nr_idle'' (TInt I32 True),
    Plain ''idle_list'' st_list_head,
    Plain ''idle_timer'' st_timer_list,
    Plain ''idle_cull_work'' st_work_struct,
    Plain ''mayday_timer'' st_timer_list,
    Plain ''busy_hash'' (TArr st_hlist_head 64),
    Plain ''manager'' (TPtr ''struct worker''),
    Plain ''workers'' st_list_head,
    Plain ''worker_ida'' st_ida,
    Plain ''attrs'' (TPtr ''struct workqueue_attrs''),
    Plain ''hash_node'' st_hlist_node,
    Plain ''refcnt'' (TInt I32 True),
    Plain ''rcu'' st_callback_head]"

definition st_xb_req_data :: ty where
  "st_xb_req_data = TStruct ''xb_req_data'' False [
    Plain ''list'' st_list_head,
    Plain ''wq'' td_wait_queue_head_t,
    Plain ''kref'' st_kref,
    Plain ''msg'' st_xsd_sockmsg,
    Plain ''caller_req_id'' td_uint32_t,
    Plain ''type'' (TEnum ''xsd_sockmsg_type'' I32),
    Plain ''body'' (TPtr ''char''),
    Plain ''vec'' (TPtr ''struct kvec''),
    Plain ''num_vecs'' (TInt I32 True),
    Plain ''err'' (TInt I32 True),
    Plain ''state'' (TEnum ''xb_req_state'' I32),
    Plain ''user_req'' td_bool,
    Plain ''cb'' (TFun ''void (*)(struct xb_req_data *)''),
    Plain ''par'' (TPtr ''void'')]"

definition st_xenbus_file_priv :: ty where
  "st_xenbus_file_priv = TStruct ''xenbus_file_priv'' False [
    Plain ''msgbuffer_mutex'' st_mutex,
    Plain ''transactions'' st_list_head,
    Plain ''watches'' st_list_head,
    Plain ''len'' (TInt I32 False),
    Plain ''u'' (TUnion '''' False [
      Plain ''msg'' st_xsd_sockmsg,
      Plain ''buffer'' (TArr (TInt I8 True) 4096)]),
    Plain ''reply_mutex'' st_mutex,
    Plain ''read_buffers'' st_list_head,
    Plain ''read_waitq'' td_wait_queue_head_t,
    Plain ''kref'' st_kref,
    Plain ''wq'' st_work_struct]"

definition st_xfrm_policy :: ty where
  "st_xfrm_policy = TStruct ''xfrm_policy'' False [
    Plain ''xp_net'' td_possible_net_t,
    Plain ''bydst'' st_hlist_node,
    Plain ''byidx'' st_hlist_node,
    Plain ''state_cache_list'' st_hlist_head,
    Plain ''lock'' td_rwlock_t,
    Plain ''refcnt'' td_refcount_t,
    Plain ''pos'' td_u32,
    Plain ''timer'' st_timer_list,
    Plain ''genid'' td_atomic_t,
    Plain ''priority'' td_u32,
    Plain ''index'' td_u32,
    Plain ''if_id'' td_u32,
    Plain ''mark'' st_xfrm_mark,
    Plain ''selector'' st_xfrm_selector,
    Plain ''lft'' st_xfrm_lifetime_cfg,
    Plain ''curlft'' st_xfrm_lifetime_cur,
    Plain ''walk'' st_xfrm_policy_walk_entry,
    Plain ''polq'' st_xfrm_policy_queue,
    Plain ''bydst_reinsert'' td_bool,
    Plain ''type'' td_u8,
    Plain ''action'' td_u8,
    Plain ''flags'' td_u8,
    Plain ''xfrm_nr'' td_u8,
    Plain ''family'' td_u16,
    Plain ''security'' (TPtr ''struct xfrm_sec_ctx''),
    Plain ''xfrm_vec'' (TArr st_xfrm_tmpl 6),
    Plain ''rcu'' st_callback_head,
    Plain ''xdo'' st_xfrm_dev_offload]"

end
