(* ===== verification/VmlinuxStruct13.thy ===== *)
theory VmlinuxStruct13
  imports VmlinuxStruct12
begin

text \<open>
  Structures and unions of \<open>src/internal/ebpf/vmlinux.h\<close> (aggregates nested 8 deep), in the
  order of the header: \<open>st_<tag>\<close>, \<open>un_<tag>\<close>, and \<open>td_<name>\<close> for an aggregate with a type name.
\<close>

definition st_device :: ty where
  "st_device = TStruct ''device'' False [
    Plain ''kobj'' st_kobject,
    Plain ''parent'' (TPtr ''struct device''),
    Plain ''p'' (TPtr ''struct device_private''),
    Plain ''init_name'' (TPtr ''char''),
    Plain ''type'' (TPtr ''struct device_type''),
    Plain ''bus'' (TPtr ''struct bus_type''),
    Plain ''driver'' (TPtr ''struct device_driver''),
    Plain ''platform_data'' (TPtr ''void''),
    Plain ''driver_data'' (TPtr ''void''),
    Plain ''driver_override'' (TStruct '''' False [
      Plain ''name'' (TPtr ''char''),
      Plain ''lock'' td_spinlock_t]),
    Plain ''mutex'' st_mutex,
    Plain ''links'' st_dev_links_info,
    Plain ''power'' st_dev_pm_info,
    Plain ''pm_domain'' (TPtr ''struct dev_pm_domain''),
    Plain ''em_pd'' (TPtr ''struct em_perf_domain''),
    Plain ''pins'' (TPtr ''struct dev_pin_info''),
    Plain ''msi'' st_dev_msi_info,
    Plain ''dma_ops'' (TPtr ''struct dma_map_ops''),
    Plain ''dma_mask'' (TPtr ''u64''),
    Plain ''coherent_dma_mask'' td_u64,
    Plain ''bus_dma_limit'' td_u64,
    Plain ''dma_range_map'' (TPtr ''struct bus_dma_region''),
    Plain ''dma_parms'' (TPtr ''struct device_dma_parameters''),
    Plain ''dma_pools'' st_list_head,
    Plain ''cma_area'' (TPtr ''struct cma''),
    Plain ''dma_io_tlb_mem'' (TPtr ''struct io_tlb_mem''),
    Plain ''dma_io_tlb_pools'' st_list_head,
    Plain ''dma_io_tlb_lock'' td_spinlock_t,
    Plain ''dma_uses_io_tlb'' td_bool,
    Plain ''archdata'' st_dev_archdata,
    Plain ''of_node'' (TPtr ''struct device_node''),
    Plain ''fwnode'' (TPtr ''struct fwnode_handle''),
    Plain ''numa_node'' (TInt I32 True),
    Plain ''devt'' td_dev_t,
    Plain ''id'' td_u32,
    Plain ''devres_lock'' td_spinlock_t,
    Plain ''devres_head'' st_list_head,
    Plain ''class'' (TPtr ''struct class''),
    Plain ''groups'' (TPtr ''struct attribute_group *''),
    Plain ''release'' (TFun ''void (*)(struct device *)''),
    Plain ''iommu_group'' (TPtr ''struct iommu_group''),
    Plain ''iommu'' (TPtr ''struct dev_iommu''),
    Plain ''physical_location'' (TPtr ''struct device_physical_location''),
    Plain ''removable'' (TEnum ''device_removable'' I32),
    Bits ''offline_disabled'' td_bool 1,
    Bits ''offline'' td_bool 1,
    Bits ''of_node_reused'' td_bool 1,
    Bits ''state_synced'' td_bool 1,
    Bits ''can_match'' td_bool 1,
    Bits ''dma_skip_sync'' td_bool 1,
    Bits ''dma_iommu'' td_bool 1,
    Plain ''flags'' (TArr (TInt I64 False) 1)]"

definition st_atkbd :: ty where
  "st_atkbd = TStruct ''atkbd'' False [
    Plain ''ps2dev'' st_ps2dev,
    Plain ''dev'' (TPtr ''struct input_dev''),
    Plain ''name'' (TArr (TInt I8 True) 64),
    Plain ''phys'' (TArr (TInt I8 True) 32),
    Plain ''id'' (TInt I16 False),
    Plain ''keycode'' (TArr (TInt I16 False) 512),
    Plain ''force_release_mask'' (TArr (TInt I64 False) 8),
    Plain ''set'' (TInt I8 False),
    Plain ''translated'' td_bool,
    Plain ''extra'' td_bool,
    Plain ''write'' td_bool,
    Plain ''softrepeat'' td_bool,
    Plain ''softraw'' td_bool,
    Plain ''scroll'' td_bool,
    Plain ''enabled'' td_bool,
    Plain ''emul'' (TInt I8 False),
    Plain ''resend'' td_bool,
    Plain ''release'' td_bool,
    Plain ''xl_bit'' (TInt I64 False),
    Plain ''last'' (TInt I32 False),
    Plain ''time'' (TInt I64 False),
    Plain ''err_count'' (TInt I64 False),
    Plain ''event_work'' st_delayed_work,
    Plain ''event_jiffies'' (TInt I64 False),
    Plain ''event_mask'' (TInt I64 False),
    Plain ''mutex'' st_mutex,
    Plain ''vdata'' st_vivaldi_data]"

definition td_mempool_t :: ty where
  "td_mempool_t = st_mempool"

definition st_sock :: ty where
  "st_sock = TStruct ''sock'' False [
    Plain ''__sk_common'' st_sock_common,
    Plain ''__cacheline_group_begin__sock_write_rx'' (TArr td___u8 0),
    Plain ''sk_drops'' td_atomic_t,
    Plain ''sk_peek_off'' td___s32,
    Plain ''sk_error_queue'' st_sk_buff_head,
    Plain ''sk_receive_queue'' st_sk_buff_head,
    Plain ''sk_backlog'' (TStruct '''' False [
      Plain ''rmem_alloc'' td_atomic_t,
      Plain ''len'' (TInt I32 True),
      Plain ''head'' (TPtr ''struct sk_buff''),
      Plain ''tail'' (TPtr ''struct sk_buff'')]),
    Plain ''__cacheline_group_end__sock_write_rx'' (TArr td___u8 0),
    Plain ''__cacheline_group_begin__sock_read_rx'' (TArr td___u8 0),
    Plain ''sk_rx_dst'' (TPtr ''struct dst_entry''),
    Plain ''sk_rx_dst_ifindex'' (TInt I32 True),
    Plain ''sk_rx_dst_cookie'' td_u32,
    Plain ''sk_ll_usec'' (TInt I32 False),
    Plain ''sk_napi_id'' (TInt I32 False),
    Plain ''sk_busy_poll_budget'' td_u16,
    Plain ''sk_prefer_busy_poll'' td_u8,
    Plain ''sk_userlocks'' td_u8,
    Plain ''sk_rcvbuf'' (TInt I32 True),
    Plain ''sk_filter'' (TPtr ''struct sk_filter''),
    Plain '''' (TUnion '''' False [
      Plain ''sk_wq'' (TPtr ''struct socket_wq''),
      Plain ''sk_wq_raw'' (TPtr ''struct socket_wq'')]),
    Plain ''sk_data_ready'' (TFun ''void (*)(struct sock *)''),
    Plain ''sk_rcvtimeo'' (TInt I64 True),
    Plain ''sk_rcvlowat'' (TInt I32 True),
    Plain ''__cacheline_group_end__sock_read_rx'' (TArr td___u8 0),
    Plain ''__cacheline_group_begin__sock_read_rxtx'' (TArr td___u8 0),
    Plain ''sk_err'' (TInt I32 True),
    Plain ''sk_socket'' (TPtr ''struct socket''),
    Plain ''sk_memcg'' (TPtr ''struct mem_cgroup''),
    Plain ''sk_policy'' (TArr (TPtr ''struct xfrm_policy'') 2),
    Plain ''psp_assoc'' (TPtr ''struct psp_assoc''),
    Plain ''__cacheline_group_end__sock_read_rxtx'' (TArr td___u8 0),
    Plain ''__cacheline_group_begin__sock_write_rxtx'' (TArr td___u8 0),
    Plain ''sk_lock'' td_socket_lock_t,
    Plain ''sk_reserved_mem'' td_u32,
    Plain ''sk_forward_alloc'' (TInt I32 True),
    Plain ''sk_tsflags'' td_u32,
    Plain ''__cacheline_group_end__sock_write_rxtx'' (TArr td___u8 0),
    Plain ''__cacheline_group_begin__sock_write_tx'' (TArr td___u8 0),
    Plain ''sk_write_pending'' (TInt I32 True),
    Plain ''sk_omem_alloc'' td_atomic_t,
    Plain ''sk_err_soft'' (TInt I32 True),
    Plain ''sk_wmem_queued'' (TInt I32 True),
    Plain ''sk_wmem_alloc'' td_refcount_t,
    Plain ''sk_tsq_flags'' (TInt I64 False),
    Plain '''' (TUnion '''' False [
      Plain ''sk_send_head'' (TPtr ''struct sk_buff''),
      Plain ''tcp_rtx_queue'' st_rb_root]),
    Plain ''sk_write_queue'' st_sk_buff_head,
    Plain ''sk_frag'' st_page_frag,
    Plain '''' (TUnion '''' False [
      Plain ''sk_timer'' st_timer_list,
      Plain ''tcp_retransmit_timer'' st_timer_list,
      Plain ''mptcp_retransmit_timer'' st_timer_list]),
    Plain ''sk_pacing_rate'' (TInt I64 False),
    Plain ''sk_zckey'' td_atomic_t,
    Plain ''sk_tskey'' td_atomic_t,
    Plain ''sk_tx_queue_mapping_jiffies'' (TInt I64 False),
    Plain ''__cacheline_group_end__sock_write_tx'' (TArr td___u8 0),
    Plain ''__cacheline_group_begin__sock_read_tx'' (TArr td___u8 0),
    Plain ''sk_dst_pending_confirm'' td_u32,
    Plain ''sk_pacing_status'' td_u32,
    Plain ''sk_max_pacing_rate'' (TInt I64 False),
    Plain ''sk_sndtimeo'' (TInt I64 True),
    Plain ''sk_priority'' td_u32,
    Plain ''sk_mark'' td_u32,
    Plain ''sk_uid'' td_kuid_t,
    Plain ''sk_protocol'' td_u16,
    Plain ''sk_type'' td_u16,
    Plain ''sk_dst_cache'' (TPtr ''struct dst_entry''),
    Plain ''sk_route_caps'' td_netdev_features_t,
    Plain ''sk_validate_xmit_skb''
      (TFun ''struct sk_buff * (*)(struct sock *, struct net_device *, struct sk_buff *)''),
    Plain ''sk_gso_type'' td_u16,
    Plain ''sk_gso_max_segs'' td_u16,
    Plain ''sk_gso_max_size'' (TInt I32 False),
    Plain ''sk_allocation'' td_gfp_t,
    Plain ''sk_txhash'' td_u32,
    Plain ''sk_sndbuf'' (TInt I32 True),
    Plain ''sk_pacing_shift'' td_u8,
    Plain ''sk_use_task_frag'' td_bool,
    Plain ''__cacheline_group_end__sock_read_tx'' (TArr td___u8 0),
    Bits ''sk_gso_disabled'' td_u8 1,
    Bits ''sk_kern_sock'' td_u8 1,
    Bits ''sk_no_check_tx'' td_u8 1,
    Bits ''sk_no_check_rx'' td_u8 1,
    Plain ''sk_shutdown'' td_u8,
    Plain ''sk_lingertime'' (TInt I64 False),
    Plain ''sk_prot_creator'' (TPtr ''struct proto''),
    Plain ''sk_callback_lock'' td_rwlock_t,
    Plain ''sk_ack_backlog'' td_u32,
    Plain ''sk_max_ack_backlog'' td_u32,
    Plain ''sk_ino'' (TInt I64 False),
    Plain ''sk_peer_lock'' td_spinlock_t,
    Plain ''sk_bind_phc'' (TInt I32 True),
    Plain ''sk_peer_pid'' (TPtr ''struct pid''),
    Plain ''sk_peer_cred'' (TPtr ''struct cred''),
    Plain ''sk_stamp'' td_ktime_t,
    Plain ''sk_disconnects'' (TInt I32 True),
    Plain '''' (TUnion '''' False [
      Plain ''sk_txrehash'' td_u8,
      Plain ''sk_scm_recv_flags'' td_u8,
      Plain '''' (TStruct '''' False [
        Bits ''sk_scm_credentials'' td_u8 1,
        Bits ''sk_scm_security'' td_u8 1,
        Bits ''sk_scm_pidfd'' td_u8 1,
        Bits ''sk_scm_rights'' td_u8 1,
        Bits ''sk_scm_unused'' td_u8 4])]),
    Plain ''sk_clockid'' td_u8,
    Bits ''sk_txtime_deadline_mode'' td_u8 1,
    Bits ''sk_txtime_report_errors'' td_u8 1,
    Bits ''sk_txtime_unused'' td_u8 6,
    Plain ''sk_bpf_cb_flags'' td_u8,
    Plain ''sk_user_data'' (TPtr ''void''),
    Plain ''sk_security'' (TPtr ''void''),
    Plain ''sk_cgrp_data'' st_sock_cgroup_data,
    Plain ''sk_state_change'' (TFun ''void (*)(struct sock *)''),
    Plain ''sk_write_space'' (TFun ''void (*)(struct sock *)''),
    Plain ''sk_error_report'' (TFun ''void (*)(struct sock *)''),
    Plain ''sk_backlog_rcv'' (TFun ''int (*)(struct sock *, struct sk_buff *)''),
    Plain ''sk_destruct'' (TFun ''void (*)(struct sock *)''),
    Plain ''sk_reuseport_cb'' (TPtr ''struct sock_reuseport''),
    Plain ''sk_bpf_storage'' (TPtr ''struct bpf_local_storage''),
    Plain ''sk_drop_counters'' (TPtr ''struct numa_drop_counters''),
    Plain '''' (TUnion '''' False [
      Plain ''sk_rcu'' st_callback_head,
      Plain ''sk_freeptr'' td_freeptr_t]),
    Plain ''ns_tracker'' td_netns_tracker,
    Plain ''sk_user_frags'' st_xarray]"

definition st_bsd_acct_struct :: ty where
  "st_bsd_acct_struct = TStruct ''bsd_acct_struct'' False [
    Plain ''pin'' st_fs_pin,
    Plain ''count'' td_atomic_long_t,
    Plain ''rcu'' st_callback_head,
    Plain ''lock'' st_mutex,
    Plain ''active'' td_bool,
    Plain ''check_space'' td_bool,
    Plain ''needcheck'' (TInt I64 False),
    Plain ''file'' (TPtr ''struct file''),
    Plain ''ns'' (TPtr ''struct pid_namespace''),
    Plain ''work'' st_work_struct,
    Plain ''done'' st_completion,
    Plain ''ac'' td_acct_t]"

definition st_channel :: ty where
  "st_channel = TStruct ''channel'' False [
    Plain ''file'' st_ppp_file,
    Plain ''list'' st_list_head,
    Plain ''chan'' (TPtr ''struct ppp_channel''),
    Plain ''chan_sem'' st_rw_semaphore,
    Plain ''downl'' td_spinlock_t,
    Plain ''ppp'' (TPtr ''struct ppp''),
    Plain ''chan_net'' (TPtr ''struct net''),
    Plain ''ns_tracker'' td_netns_tracker,
    Plain ''clist'' st_list_head,
    Plain ''upl'' td_spinlock_t,
    Plain ''bridge'' (TPtr ''struct channel''),
    Plain ''avail'' td_u8,
    Plain ''had_frag'' td_u8,
    Plain ''lastseq'' td_u32,
    Plain ''speed'' (TInt I32 True)]"

definition st_drm_bridge :: ty where
  "st_drm_bridge = TStruct ''drm_bridge'' False [
    Plain ''base'' st_drm_private_obj,
    Plain ''dev'' (TPtr ''struct drm_device''),
    Plain ''encoder'' (TPtr ''struct drm_encoder''),
    Plain ''chain_node'' st_list_head,
    Plain ''of_node'' (TPtr ''struct device_node''),
    Plain ''list'' st_list_head,
    Plain ''timings'' (TPtr ''struct drm_bridge_timings''),
    Plain ''funcs'' (TPtr ''struct drm_bridge_funcs''),
    Plain ''container'' (TPtr ''void''),
    Plain ''refcount'' st_kref,
    Plain ''unplugged'' td_bool,
    Plain ''driver_private'' (TPtr ''void''),
    Plain ''ops'' (TEnum ''drm_bridge_ops'' I32),
    Plain ''type'' (TInt I32 True),
    Plain ''interlace_allowed'' td_bool,
    Plain ''ycbcr_420_allowed'' td_bool,
    Plain ''pre_enable_prev_first'' td_bool,
    Plain ''support_hdcp'' td_bool,
    Plain ''ddc'' (TPtr ''struct i2c_adapter''),
    Plain ''vendor'' (TPtr ''char''),
    Plain ''product'' (TPtr ''char''),
    Plain ''supported_formats'' (TInt I32 False),
    Plain ''max_bpc'' (TInt I32 False),
    Plain ''hdmi_cec_dev'' (TPtr ''struct device''),
    Plain ''hdmi_audio_dev'' (TPtr ''struct device''),
    Plain ''hdmi_audio_max_i2s_playback_channels'' (TInt I32 True),
    Plain ''hdmi_audio_i2s_formats'' td_u64,
    Bits ''hdmi_audio_spdif_playback'' (TInt I32 False) 1,
    Plain ''hdmi_audio_dai_port'' (TInt I32 True),
    Plain ''hdmi_cec_adapter_name'' (TPtr ''char''),
    Plain ''hdmi_cec_available_las'' td_u8,
    Plain ''hpd_mutex'' st_mutex,
    Plain ''hpd_cb'' (TFun ''void (*)(void *, enum drm_connector_status)''),
    Plain ''hpd_data'' (TPtr ''void''),
    Plain ''next_bridge'' (TPtr ''struct drm_bridge'')]"

definition st_drm_crtc :: ty where
  "st_drm_crtc = TStruct ''drm_crtc'' False [
    Plain ''dev'' (TPtr ''struct drm_device''),
    Plain ''port'' (TPtr ''struct device_node''),
    Plain ''head'' st_list_head,
    Plain ''name'' (TPtr ''char''),
    Plain ''mutex'' st_drm_modeset_lock,
    Plain ''base'' st_drm_mode_object,
    Plain ''primary'' (TPtr ''struct drm_plane''),
    Plain ''cursor'' (TPtr ''struct drm_plane''),
    Plain ''index'' (TInt I32 False),
    Plain ''cursor_x'' (TInt I32 True),
    Plain ''cursor_y'' (TInt I32 True),
    Plain ''enabled'' td_bool,
    Plain ''mode'' st_drm_display_mode,
    Plain ''hwmode'' st_drm_display_mode,
    Plain ''x'' (TInt I32 True),
    Plain ''y'' (TInt I32 True),
    Plain ''funcs'' (TPtr ''struct drm_crtc_funcs''),
    Plain ''gamma_size'' td_uint32_t,
    Plain ''gamma_store'' (TPtr ''uint16_t''),
    Plain ''helper_private'' (TPtr ''struct drm_crtc_helper_funcs''),
    Plain ''properties'' st_drm_object_properties,
    Plain ''scaling_filter_property'' (TPtr ''struct drm_property''),
    Plain ''sharpness_strength_property'' (TPtr ''struct drm_property''),
    Plain ''state'' (TPtr ''struct drm_crtc_state''),
    Plain ''commit_list'' st_list_head,
    Plain ''commit_lock'' td_spinlock_t,
    Plain ''debugfs_entry'' (TPtr ''struct dentry''),
    Plain ''crc'' st_drm_crtc_crc,
    Plain ''fence_context'' (TInt I32 False),
    Plain ''fence_lock'' td_spinlock_t,
    Plain ''fence_seqno'' (TInt I64 False),
    Plain ''timeline_name'' (TArr (TInt I8 True) 32),
    Plain ''self_refresh_data'' (TPtr ''struct drm_self_refresh_data'')]"

definition st_drm_gem_shmem_object :: ty where
  "st_drm_gem_shmem_object = TStruct ''drm_gem_shmem_object'' False [
    Plain ''base'' st_drm_gem_object,
    Plain ''pages'' (TPtr ''struct page *''),
    Plain ''pages_use_count'' td_refcount_t,
    Plain ''pages_pin_count'' td_refcount_t,
    Plain ''madv'' (TInt I32 True),
    Plain ''madv_list'' st_list_head,
    Plain ''sgt'' (TPtr ''struct sg_table''),
    Plain ''vaddr'' (TPtr ''void''),
    Plain ''vmap_use_count'' td_refcount_t,
    Bits ''pages_mark_dirty_on_put'' td_bool 1,
    Bits ''pages_mark_accessed_on_put'' td_bool 1,
    Bits ''map_wc'' td_bool 1]"

definition st_ext4_inode_info :: ty where
  "st_ext4_inode_info = TStruct ''ext4_inode_info'' False [
    Plain ''i_data'' (TArr td___le32 15),
    Plain ''i_dtime'' td___u32,
    Plain ''i_file_acl'' td_ext4_fsblk_t,
    Plain ''i_block_group'' td_ext4_group_t,
    Plain ''i_dir_start_lookup'' td_ext4_lblk_t,
    Plain ''i_flags'' (TInt I64 False),
    Plain ''xattr_sem'' st_rw_semaphore,
    Plain '''' (TUnion '''' False [
      Plain ''i_orphan'' st_list_head,
      Plain ''i_orphan_idx'' (TInt I32 False)]),
    Plain ''i_fc_dilist'' st_list_head,
    Plain ''i_fc_list'' st_list_head,
    Plain ''i_fc_lblk_start'' td_ext4_lblk_t,
    Plain ''i_fc_lblk_len'' td_ext4_lblk_t,
    Plain ''i_raw_lock'' td_spinlock_t,
    Plain ''i_fc_wait'' td_wait_queue_head_t,
    Plain ''i_fc_lock'' td_spinlock_t,
    Plain ''i_disksize'' td_loff_t,
    Plain ''i_data_sem'' st_rw_semaphore,
    Plain ''vfs_inode'' st_inode,
    Plain ''jinode'' (TPtr ''struct jbd2_inode''),
    Plain ''i_crtime'' st_timespec64,
    Plain ''i_prealloc_active'' td_atomic_t,
    Plain ''i_reserved_data_blocks'' (TInt I32 False),
    Plain ''i_prealloc_node'' st_rb_root,
    Plain ''i_prealloc_lock'' td_rwlock_t,
    Plain ''i_es_tree'' st_ext4_es_tree,
    Plain ''i_es_lock'' td_rwlock_t,
    Plain ''i_es_list'' st_list_head,
    Plain ''i_es_all_nr'' (TInt I32 False),
    Plain ''i_es_shk_nr'' (TInt I32 False),
    Plain ''i_es_shrink_lblk'' td_ext4_lblk_t,
    Plain ''i_es_seq'' td_u64,
    Plain ''i_last_alloc_group'' td_ext4_group_t,
    Plain ''i_pending_tree'' st_ext4_pending_tree,
    Plain ''i_extra_isize'' td___u16,
    Plain ''i_inline_off'' td_u16,
    Plain ''i_inline_size'' td_u16,
    Plain ''i_reserved_quota'' td_qsize_t,
    Plain ''i_block_reservation_lock'' td_spinlock_t,
    Plain ''i_completed_io_lock'' td_spinlock_t,
    Plain ''i_rsv_conversion_list'' st_list_head,
    Plain ''i_rsv_conversion_work'' st_work_struct,
    Plain ''i_sync_tid'' td_tid_t,
    Plain ''i_datasync_tid'' td_tid_t,
    Plain ''i_dquot'' (TArr (TPtr ''struct dquot'') 3),
    Plain ''i_csum_seed'' td___u32,
    Plain ''i_projid'' td_kprojid_t,
    Plain ''i_crypt_info'' (TPtr ''struct fscrypt_inode_info'')]"

definition st_file_lock :: ty where
  "st_file_lock = TStruct ''file_lock'' False [
    Plain ''c'' st_file_lock_core,
    Plain ''fl_start'' td_loff_t,
    Plain ''fl_end'' td_loff_t,
    Plain ''fl_ops'' (TPtr ''struct file_lock_operations''),
    Plain ''fl_lmops'' (TPtr ''struct lock_manager_operations''),
    Plain ''fl_u'' (TUnion '''' False [
      Plain ''nfs_fl'' st_nfs_lock_info,
      Plain ''nfs4_fl'' st_nfs4_lock_info,
      Plain ''afs'' (TStruct '''' False [
        Plain ''link'' st_list_head,
        Plain ''state'' (TInt I32 True),
        Plain ''debug_id'' (TInt I32 False)]),
      Plain ''ceph'' (TStruct '''' False [
        Plain ''inode'' (TPtr ''struct inode'')])])]"

definition st_fuse_conn :: ty where
  "st_fuse_conn = TStruct ''fuse_conn'' False [
    Plain ''lock'' td_spinlock_t,
    Plain ''count'' td_refcount_t,
    Plain ''dev_count'' td_atomic_t,
    Plain ''epoch'' td_atomic_t,
    Plain ''epoch_work'' st_work_struct,
    Plain ''rcu'' st_callback_head,
    Plain ''user_id'' td_kuid_t,
    Plain ''group_id'' td_kgid_t,
    Plain ''pid_ns'' (TPtr ''struct pid_namespace''),
    Plain ''user_ns'' (TPtr ''struct user_namespace''),
    Plain ''max_read'' (TInt I32 False),
    Plain ''max_write'' (TInt I32 False),
    Plain ''max_pages'' (TInt I32 False),
    Plain ''max_pages_limit'' (TInt I32 False),
    Plain ''iq'' st_fuse_iqueue,
    Plain ''khctr'' td_atomic64_t,
    Plain ''polled_files'' st_rb_root,
    Plain ''max_background'' (TInt I32 False),
    Plain ''congestion_threshold'' (TInt I32 False),
    Plain ''num_background'' (TInt I32 False),
    Plain ''active_background'' (TInt I32 False),
    Plain ''bg_queue'' st_list_head,
    Plain ''bg_lock'' td_spinlock_t,
    Plain ''initialized'' (TInt I32 True),
    Plain ''blocked'' (TInt I32 True),
    Plain ''blocked_waitq'' td_wait_queue_head_t,
    Plain ''connected'' (TInt I32 False),
    Plain ''aborted'' td_bool,
    Bits ''conn_error'' (TInt I32 False) 1,
    Bits ''conn_init'' (TInt I32 False) 1,
    Bits ''async_read'' (TInt I32 False) 1,
    Bits ''abort_err'' (TInt I32 False) 1,
    Bits ''atomic_o_trunc'' (TInt I32 False) 1,
    Bits ''export_support'' (TInt I32 False) 1,
    Bits ''writeback_cache'' (TInt I32 False) 1,
    Bits ''parallel_dirops'' (TInt I32 False) 1,
    Bits ''handle_killpriv'' (TInt I32 False) 1,
    Bits ''cache_symlinks'' (TInt I32 False) 1,
    Bits ''legacy_opts_show'' (TInt I32 False) 1,
    Bits ''handle_killpriv_v2'' (TInt I32 False) 1,
    Bits ''no_open'' (TInt I32 False) 1,
    Bits ''no_opendir'' (TInt I32 False) 1,
    Bits ''no_fsync'' (TInt I32 False) 1,
    Bits ''no_fsyncdir'' (TInt I32 False) 1,
    Bits ''no_flush'' (TInt I32 False) 1,
    Bits ''no_setxattr'' (TInt I32 False) 1,
    Bits ''setxattr_ext'' (TInt I32 False) 1,
    Bits ''no_getxattr'' (TInt I32 False) 1,
    Bits ''no_listxattr'' (TInt I32 False) 1,
    Bits ''no_removexattr'' (TInt I32 False) 1,
    Bits ''no_lock'' (TInt I32 False) 1,
    Bits ''no_access'' (TInt I32 False) 1,
    Bits ''no_create'' (TInt I32 False) 1,
    Bits ''no_interrupt'' (TInt I32 False) 1,
    Bits ''no_bmap'' (TInt I32 False) 1,
    Bits ''no_poll'' (TInt I32 False) 1,
    Bits ''big_writes'' (TInt I32 False) 1,
    Bits ''dont_mask'' (TInt I32 False) 1,
    Bits ''no_flock'' (TInt I32 False) 1,
    Bits ''no_fallocate'' (TInt I32 False) 1,
    Bits ''no_rename2'' (TInt I32 False) 1,
    Bits ''auto_inval_data'' (TInt I32 False) 1,
    Bits ''explicit_inval_data'' (TInt I32 False) 1,
    Bits ''do_readdirplus'' (TInt I32 False) 1,
    Bits ''readdirplus_auto'' (TInt I32 False) 1,
    Bits ''async_dio'' (TInt I32 False) 1,
    Bits ''no_lseek'' (TInt I32 False) 1,
    Bits ''posix_acl'' (TInt I32 False) 1,
    Bits ''default_permissions'' (TInt I32 False) 1,
    Bits ''allow_other'' (TInt I32 False) 1,
    Bits ''no_copy_file_range'' (TInt I32 False) 1,
    Bits ''no_copy_file_range_64'' (TInt I32 False) 1,
    Bits ''destroy'' (TInt I32 False) 1,
    Bits ''delete_stale'' (TInt I32 False) 1,
    Bits ''no_control'' (TInt I32 False) 1,
    Bits ''no_force_umount'' (TInt I32 False) 1,
    Bits ''auto_submounts'' (TInt I32 False) 1,
    Bits ''sync_fs'' (TInt I32 False) 1,
    Bits ''init_security'' (TInt I32 False) 1,
    Bits ''create_supp_group'' (TInt I32 False) 1,
    Bits ''inode_dax'' (TInt I32 False) 1,
    Bits ''no_tmpfile'' (TInt I32 False) 1,
    Bits ''direct_io_allow_mmap'' (TInt I32 False) 1,
    Bits ''no_statx'' (TInt I32 False) 1,
    Bits ''passthrough'' (TInt I32 False) 1,
    Bits ''use_pages_for_kvec_io'' (TInt I32 False) 1,
    Bits ''no_link'' (TInt I32 False) 1,
    Bits ''sync_init'' (TInt I32 False) 1,
    Plain ''io_uring'' (TInt I32 False),
    Plain ''max_stack_depth'' (TInt I32 True),
    Plain ''num_waiting'' td_atomic_t,
    Plain ''minor'' (TInt I32 False),
    Plain ''entry'' st_list_head,
    Plain ''dev'' td_dev_t,
    Plain ''scramble_key'' (TArr td_u32 4),
    Plain ''attr_version'' td_atomic64_t,
    Plain ''evict_ctr'' td_atomic64_t,
    Plain ''name_max'' td_u32,
    Plain ''release'' (TFun ''void (*)(struct fuse_conn *)''),
    Plain ''killsb'' st_rw_semaphore,
    Plain ''devices'' st_list_head,
    Plain ''dax_mode'' (TEnum ''fuse_dax_mode'' I32),
    Plain ''dax'' (TPtr ''struct fuse_conn_dax''),
    Plain ''mounts'' st_list_head,
    Plain ''curr_bucket'' (TPtr ''struct fuse_sync_bucket''),
    Plain ''backing_files_map'' st_idr,
    Plain ''ring'' (TPtr ''struct fuse_ring''),
    Plain ''timeout'' (TStruct '''' False [
      Plain ''work'' st_delayed_work,
      Plain ''req_timeout'' (TInt I32 False)])]"

definition st_fuse_inode :: ty where
  "st_fuse_inode = TStruct ''fuse_inode'' False [
    Plain ''inode'' st_inode,
    Plain ''nodeid'' td_u64,
    Plain ''nlookup'' td_u64,
    Plain ''forget'' (TPtr ''struct fuse_forget_link''),
    Plain ''i_time'' td_u64,
    Plain ''inval_mask'' td_u32,
    Plain ''orig_i_mode'' td_umode_t,
    Plain ''i_btime'' st_timespec64,
    Plain ''orig_ino'' td_u64,
    Plain ''attr_version'' td_u64,
    Plain '''' (TUnion '''' False [
      Plain '''' (TStruct '''' False [
        Plain ''write_files'' st_list_head,
        Plain ''queued_writes'' st_list_head,
        Plain ''writectr'' (TInt I32 True),
        Plain ''iocachectr'' (TInt I32 True),
        Plain ''page_waitq'' td_wait_queue_head_t,
        Plain ''direct_io_waitq'' td_wait_queue_head_t]),
      Plain ''rdc'' (TStruct '''' False [
        Plain ''cached'' td_bool,
        Plain ''size'' td_loff_t,
        Plain ''pos'' td_loff_t,
        Plain ''version'' td_u64,
        Plain ''mtime'' st_timespec64,
        Plain ''iversion'' td_u64,
        Plain ''lock'' td_spinlock_t])]),
    Plain ''state'' (TInt I64 False),
    Plain ''mutex'' st_mutex,
    Plain ''lock'' td_spinlock_t,
    Plain ''dax'' (TPtr ''struct fuse_inode_dax''),
    Plain ''submount_lookup'' (TPtr ''struct fuse_submount_lookup''),
    Plain ''fb'' (TPtr ''struct fuse_backing''),
    Plain ''cached_i_blkbits'' td_u8]"

definition st_hvc_struct :: ty where
  "st_hvc_struct = TStruct ''hvc_struct'' False [
    Plain ''port'' st_tty_port,
    Plain ''lock'' td_spinlock_t,
    Plain ''index'' (TInt I32 True),
    Plain ''do_wakeup'' (TInt I32 True),
    Plain ''outbuf_size'' (TInt I32 True),
    Plain ''n_outbuf'' (TInt I32 True),
    Plain ''vtermno'' td_uint32_t,
    Plain ''ops'' (TPtr ''struct hv_ops''),
    Plain ''irq_requested'' (TInt I32 True),
    Plain ''data'' (TInt I32 True),
    Plain ''ws'' st_winsize,
    Plain ''tty_resize'' st_work_struct,
    Plain ''next'' st_list_head,
    Plain ''flags'' (TInt I64 False),
    Plain ''outbuf'' (TArr td_u8 0)]"

definition st_md_rdev :: ty where
  "st_md_rdev = TStruct ''md_rdev'' False [
    Plain ''same_set'' st_list_head,
    Plain ''sectors'' td_sector_t,
    Plain ''mddev'' (TPtr ''struct mddev''),
    Plain ''last_events'' (TInt I64 False),
    Plain ''meta_bdev'' (TPtr ''struct block_device''),
    Plain ''bdev'' (TPtr ''struct block_device''),
    Plain ''bdev_file'' (TPtr ''struct file''),
    Plain ''sb_page'' (TPtr ''struct page''),
    Plain ''bb_page'' (TPtr ''struct page''),
    Plain ''sb_loaded'' (TInt I32 True),
    Plain ''sb_events'' td___u64,
    Plain ''data_offset'' td_sector_t,
    Plain ''new_data_offset'' td_sector_t,
    Plain ''sb_start'' td_sector_t,
    Plain ''sb_size'' (TInt I32 True),
    Plain ''preferred_minor'' (TInt I32 True),
    Plain ''kobj'' st_kobject,
    Plain ''flags'' (TInt I64 False),
    Plain ''blocked_wait'' td_wait_queue_head_t,
    Plain ''desc_nr'' (TInt I32 True),
    Plain ''raid_disk'' (TInt I32 True),
    Plain ''new_raid_disk'' (TInt I32 True),
    Plain ''saved_raid_disk'' (TInt I32 True),
    Plain '''' (TUnion '''' False [
      Plain ''recovery_offset'' td_sector_t,
      Plain ''journal_tail'' td_sector_t]),
    Plain ''nr_pending'' td_atomic_t,
    Plain ''read_errors'' td_atomic_t,
    Plain ''last_read_error'' td_time64_t,
    Plain ''corrected_errors'' td_atomic_t,
    Plain ''serial'' (TPtr ''struct serial_in_rdev''),
    Plain ''sysfs_state'' (TPtr ''struct kernfs_node''),
    Plain ''sysfs_unack_badblocks'' (TPtr ''struct kernfs_node''),
    Plain ''sysfs_badblocks'' (TPtr ''struct kernfs_node''),
    Plain ''badblocks'' st_badblocks,
    Plain ''ppl'' (TStruct '''' False [
      Plain ''offset'' (TInt I16 True),
      Plain ''size'' (TInt I32 False),
      Plain ''sector'' td_sector_t])]"

definition st_msdos_inode_info :: ty where
  "st_msdos_inode_info = TStruct ''msdos_inode_info'' False [
    Plain ''cache_lru_lock'' td_spinlock_t,
    Plain ''cache_lru'' st_list_head,
    Plain ''nr_caches'' (TInt I32 True),
    Plain ''cache_valid_id'' (TInt I32 False),
    Plain ''mmu_private'' td_loff_t,
    Plain ''i_start'' (TInt I32 True),
    Plain ''i_logstart'' (TInt I32 True),
    Plain ''i_attrs'' (TInt I32 True),
    Plain ''i_pos'' td_loff_t,
    Plain ''i_fat_hash'' st_hlist_node,
    Plain ''i_dir_hash'' st_hlist_node,
    Plain ''truncate_lock'' st_rw_semaphore,
    Plain ''i_crtime'' st_timespec64,
    Plain ''vfs_inode'' st_inode]"

definition st_neighbour :: ty where
  "st_neighbour = TStruct ''neighbour'' False [
    Plain ''hash'' st_hlist_node,
    Plain ''dev_list'' st_hlist_node,
    Plain ''tbl'' (TPtr ''struct neigh_table''),
    Plain ''parms'' (TPtr ''struct neigh_parms''),
    Plain ''confirmed'' (TInt I64 False),
    Plain ''updated'' (TInt I64 False),
    Plain ''lock'' td_rwlock_t,
    Plain ''refcnt'' td_refcount_t,
    Plain ''arp_queue_len_bytes'' (TInt I32 False),
    Plain ''arp_queue'' st_sk_buff_head,
    Plain ''timer'' st_timer_list,
    Plain ''used'' (TInt I64 False),
    Plain ''probes'' td_atomic_t,
    Plain ''nud_state'' td_u8,
    Plain ''type'' td_u8,
    Plain ''dead'' td_u8,
    Plain ''protocol'' td_u8,
    Plain ''flags'' td_u32,
    Plain ''ha_lock'' td_seqlock_t,
    Bits '''' (TInt I64 True) 0,
    Plain ''ha'' (TArr (TInt I8 False) 32),
    Plain ''hh'' st_hh_cache,
    Plain ''output'' (TFun ''int (*)(struct neighbour *, struct sk_buff *)''),
    Plain ''ops'' (TPtr ''struct neigh_ops''),
    Plain ''gc_list'' st_list_head,
    Plain ''managed_list'' st_list_head,
    Plain ''rcu'' st_callback_head,
    Plain ''dev'' (TPtr ''struct net_device''),
    Plain ''dev_tracker'' td_netdevice_tracker,
    Plain ''primary_key'' (TArr td_u8 0)]"

definition st_ppp :: ty where
  "st_ppp = TStruct ''ppp'' False [
    Plain ''file'' st_ppp_file,
    Plain ''owner'' (TPtr ''struct file''),
    Plain ''channels'' st_list_head,
    Plain ''n_channels'' (TInt I32 True),
    Plain ''rlock'' td_spinlock_t,
    Plain ''wlock'' td_spinlock_t,
    Plain ''xmit_recursion'' (TPtr ''struct ppp_xmit_recursion''),
    Plain ''mru'' (TInt I32 True),
    Plain ''flags'' (TInt I32 False),
    Plain ''xstate'' (TInt I32 False),
    Plain ''rstate'' (TInt I32 False),
    Plain ''debug'' (TInt I32 True),
    Plain ''vj'' (TPtr ''struct slcompress''),
    Plain ''npmode'' (TArr (TEnum ''NPmode'' I32) 6),
    Plain ''xmit_pending'' (TPtr ''struct sk_buff''),
    Plain ''xcomp'' (TPtr ''struct compressor''),
    Plain ''xc_state'' (TPtr ''void''),
    Plain ''rcomp'' (TPtr ''struct compressor''),
    Plain ''rc_state'' (TPtr ''void''),
    Plain ''last_xmit'' (TInt I64 False),
    Plain ''last_recv'' (TInt I64 False),
    Plain ''dev'' (TPtr ''struct net_device''),
    Plain ''closing'' (TInt I32 True),
    Plain ''nxchan'' (TInt I32 True),
    Plain ''nxseq'' td_u32,
    Plain ''mrru'' (TInt I32 True),
    Plain ''nextseq'' td_u32,
    Plain ''minseq'' td_u32,
    Plain ''mrq'' st_sk_buff_head,
    Plain ''pass_filter'' (TPtr ''struct bpf_prog''),
    Plain ''active_filter'' (TPtr ''struct bpf_prog''),
    Plain ''ppp_net'' (TPtr ''struct net'')]"

definition st_rcu_state :: ty where
  "st_rcu_state = TStruct ''rcu_state'' False [
    Plain ''node'' (TArr st_rcu_node 521),
    Plain ''level'' (TArr (TPtr ''struct rcu_node'') 4),
    Plain ''ncpus'' (TInt I32 True),
    Plain ''n_online_cpus'' (TInt I32 True),
    Bits '''' (TInt I64 True) 64,
    Bits '''' (TInt I64 True) 64,
    Bits '''' (TInt I64 True) 64,
    Plain ''gp_seq'' (TInt I64 False),
    Plain ''gp_max'' (TInt I64 False),
    Plain ''gp_kthread'' (TPtr ''struct task_struct''),
    Plain ''gp_wq'' st_swait_queue_head,
    Plain ''gp_flags'' (TInt I16 True),
    Plain ''gp_state'' (TInt I16 True),
    Plain ''gp_wake_time'' (TInt I64 False),
    Plain ''gp_wake_seq'' (TInt I64 False),
    Plain ''gp_seq_polled'' (TInt I64 False),
    Plain ''gp_seq_polled_snap'' (TInt I64 False),
    Plain ''gp_seq_polled_exp_snap'' (TInt I64 False),
    Plain ''barrier_mutex'' st_mutex,
    Plain ''barrier_cpu_count'' td_atomic_t,
    Plain ''barrier_completion'' st_completion,
    Plain ''barrier_sequence'' (TInt I64 False),
    Plain ''barrier_lock'' td_raw_spinlock_t,
    Plain ''exp_mutex'' st_mutex,
    Plain ''exp_wake_mutex'' st_mutex,
    Plain ''expedited_sequence'' (TInt I64 False),
    Plain ''expedited_need_qs'' td_atomic_t,
    Plain ''expedited_wq'' st_swait_queue_head,
    Plain ''ncpus_snap'' (TInt I32 True),
    Plain ''cbovld'' td_u8,
    Plain ''cbovldnext'' td_u8,
    Plain ''jiffies_force_qs'' (TInt I64 False),
    Plain ''jiffies_kick_kthreads'' (TInt I64 False),
    Plain ''n_force_qs'' (TInt I64 False),
    Plain ''gp_start'' (TInt I64 False),
    Plain ''gp_end'' (TInt I64 False),
    Plain ''gp_activity'' (TInt I64 False),
    Plain ''gp_req_activity'' (TInt I64 False),
    Plain ''jiffies_stall'' (TInt I64 False),
    Plain ''nr_fqs_jiffies_stall'' (TInt I32 True),
    Plain ''jiffies_resched'' (TInt I64 False),
    Plain ''n_force_qs_gpstart'' (TInt I64 False),
    Plain ''name'' (TPtr ''char''),
    Plain ''abbr'' (TInt I8 True),
    Bits '''' (TInt I64 True) 64,
    Bits '''' (TInt I64 True) 64,
    Bits '''' (TInt I64 True) 64,
    Bits '''' (TInt I64 True) 64,
    Bits '''' (TInt I64 True) 64,
    Bits '''' (TInt I64 True) 64,
    Plain ''ofl_lock'' td_arch_spinlock_t,
    Plain ''srs_next'' st_llist_head,
    Plain ''srs_wait_tail'' (TPtr ''struct llist_node''),
    Plain ''srs_done_tail'' (TPtr ''struct llist_node''),
    Plain ''srs_wait_nodes'' (TArr st_sr_wait_node 5),
    Plain ''srs_cleanup_work'' st_work_struct,
    Plain ''srs_cleanups_pending'' td_atomic_t,
    Plain ''nocb_mutex'' st_mutex,
    Plain ''nocb_is_setup'' (TInt I32 True)]"

definition st_ring_buffer_per_cpu :: ty where
  "st_ring_buffer_per_cpu = TStruct ''ring_buffer_per_cpu'' False [
    Plain ''cpu'' (TInt I32 True),
    Plain ''record_disabled'' td_atomic_t,
    Plain ''resize_disabled'' td_atomic_t,
    Plain ''buffer'' (TPtr ''struct trace_buffer''),
    Plain ''reader_lock'' td_raw_spinlock_t,
    Plain ''lock'' td_arch_spinlock_t,
    Plain ''lock_key'' st_lock_class_key,
    Plain ''free_page'' (TPtr ''struct buffer_data_page''),
    Plain ''nr_pages'' (TInt I64 False),
    Plain ''current_context'' (TInt I32 False),
    Plain ''pages'' (TPtr ''struct list_head''),
    Plain ''cnt'' (TInt I64 False),
    Plain ''head_page'' (TPtr ''struct buffer_page''),
    Plain ''tail_page'' (TPtr ''struct buffer_page''),
    Plain ''commit_page'' (TPtr ''struct buffer_page''),
    Plain ''reader_page'' (TPtr ''struct buffer_page''),
    Plain ''lost_events'' (TInt I64 False),
    Plain ''last_overrun'' (TInt I64 False),
    Plain ''nest'' (TInt I64 False),
    Plain ''entries_bytes'' td_local_t,
    Plain ''entries'' td_local_t,
    Plain ''overrun'' td_local_t,
    Plain ''commit_overrun'' td_local_t,
    Plain ''dropped_events'' td_local_t,
    Plain ''committing'' td_local_t,
    Plain ''commits'' td_local_t,
    Plain ''pages_touched'' td_local_t,
    Plain ''pages_lost'' td_local_t,
    Plain ''pages_read'' td_local_t,
    Plain ''last_pages_touch'' (TInt I64 True),
    Plain ''shortest_full'' td_size_t,
    Plain ''read'' (TInt I64 False),
    Plain ''read_bytes'' (TInt I64 False),
    Plain ''write_stamp'' td_rb_time_t,
    Plain ''before_stamp'' td_rb_time_t,
    Plain ''event_stamp'' (TArr td_u64 5),
    Plain ''read_stamp'' td_u64,
    Plain ''pages_removed'' (TInt I64 False),
    Plain ''mapped'' (TInt I32 False),
    Plain ''user_mapped'' (TInt I32 False),
    Plain ''mapping_lock'' st_mutex,
    Plain ''subbuf_ids'' (TPtr ''long unsigned int''),
    Plain ''meta_page'' (TPtr ''struct trace_buffer_meta''),
    Plain ''ring_meta'' (TPtr ''struct ring_buffer_cpu_meta''),
    Plain ''nr_pages_to_update'' (TInt I64 True),
    Plain ''new_pages'' st_list_head,
    Plain ''update_pages_work'' st_work_struct,
    Plain ''update_done'' st_completion,
    Plain ''irq_work'' st_rb_irq_work]"

definition st_rq_wb :: ty where
  "st_rq_wb = TStruct ''rq_wb'' False [
    Plain ''wb_background'' (TInt I32 False),
    Plain ''wb_normal'' (TInt I32 False),
    Plain ''enable_state'' (TInt I16 True),
    Plain ''unknown_cnt'' (TInt I32 False),
    Plain ''win_nsec'' td_u64,
    Plain ''cur_win_nsec'' td_u64,
    Plain ''cb'' (TPtr ''struct blk_stat_callback''),
    Plain ''sync_issue'' td_u64,
    Plain ''sync_cookie'' (TPtr ''void''),
    Plain ''last_issue'' (TInt I64 False),
    Plain ''last_comp'' (TInt I64 False),
    Plain ''min_lat_nsec'' (TInt I64 False),
    Plain ''rqos'' st_rq_qos,
    Plain ''rq_wait'' (TArr st_rq_wait 3),
    Plain ''rq_depth'' st_rq_depth]"

definition st_shmem_inode_info :: ty where
  "st_shmem_inode_info = TStruct ''shmem_inode_info'' False [
    Plain ''lock'' td_spinlock_t,
    Plain ''seals'' (TInt I32 False),
    Plain ''flags'' (TInt I64 False),
    Plain ''alloced'' (TInt I64 False),
    Plain ''swapped'' (TInt I64 False),
    Plain '''' (TUnion '''' False [
      Plain ''dir_offsets'' st_offset_ctx,
      Plain '''' (TStruct '''' False [
        Plain ''shrinklist'' st_list_head,
        Plain ''swaplist'' st_list_head])]),
    Plain ''i_crtime'' st_timespec64,
    Plain ''policy'' st_shared_policy,
    Plain ''xattrs'' st_simple_xattrs,
    Plain ''fallocend'' (TInt I64 False),
    Plain ''fsflags'' (TInt I32 False),
    Plain ''stop_eviction'' td_atomic_t,
    Plain ''i_dquot'' (TArr (TPtr ''struct dquot'') 3),
    Plain ''vfs_inode'' st_inode]"

definition st_squashfs_inode_info :: ty where
  "st_squashfs_inode_info = TStruct ''squashfs_inode_info'' False [
    Plain ''start'' td_u64,
    Plain ''offset'' (TInt I32 True),
    Plain ''xattr'' td_u64,
    Plain ''xattr_size'' (TInt I32 False),
    Plain ''xattr_count'' (TInt I32 True),
    Plain ''parent'' (TInt I32 True),
    Plain '''' (TUnion '''' False [
      Plain '''' (TStruct '''' False [
        Plain ''fragment_block'' td_u64,
        Plain ''fragment_size'' (TInt I32 True),
        Plain ''fragment_offset'' (TInt I32 True),
        Plain ''block_list_start'' td_u64]),
      Plain '''' (TStruct '''' False [
        Plain ''dir_idx_start'' td_u64,
        Plain ''dir_idx_offset'' (TInt I32 True),
        Plain ''dir_idx_cnt'' (TInt I32 True)])]),
    Plain ''vfs_inode'' st_inode]"

definition st_trace_buffer :: ty where
  "st_trace_buffer = TStruct ''trace_buffer'' False [
    Plain ''flags'' (TInt I32 False),
    Plain ''cpus'' (TInt I32 True),
    Plain ''record_disabled'' td_atomic_t,
    Plain ''resizing'' td_atomic_t,
    Plain ''cpumask'' td_cpumask_var_t,
    Plain ''reader_lock_key'' (TPtr ''struct lock_class_key''),
    Plain ''mutex'' st_mutex,
    Plain ''buffers'' (TPtr ''struct ring_buffer_per_cpu *''),
    Plain ''node'' st_hlist_node,
    Plain ''clock'' (TFun ''u64 (*)(void)''),
    Plain ''irq_work'' st_rb_irq_work,
    Plain ''time_stamp_abs'' td_bool,
    Plain ''range_addr_start'' (TInt I64 False),
    Plain ''range_addr_end'' (TInt I64 False),
    Plain ''meta'' (TPtr ''struct ring_buffer_meta''),
    Plain ''subbuf_size'' (TInt I32 False),
    Plain ''subbuf_order'' (TInt I32 False),
    Plain ''max_data_size'' (TInt I32 False)]"

definition st_vc_data :: ty where
  "st_vc_data = TStruct ''vc_data'' False [
    Plain ''port'' st_tty_port,
    Plain ''state'' st_vc_state,
    Plain ''saved_state'' st_vc_state,
    Plain ''vc_num'' (TInt I16 False),
    Plain ''vc_cols'' (TInt I32 False),
    Plain ''vc_rows'' (TInt I32 False),
    Plain ''vc_size_row'' (TInt I32 False),
    Plain ''vc_scan_lines'' (TInt I32 False),
    Plain ''vc_cell_height'' (TInt I32 False),
    Plain ''vc_origin'' (TInt I64 False),
    Plain ''vc_scr_end'' (TInt I64 False),
    Plain ''vc_visible_origin'' (TInt I64 False),
    Plain ''vc_top'' (TInt I32 False),
    Plain ''vc_bottom'' (TInt I32 False),
    Plain ''vc_sw'' (TPtr ''struct consw''),
    Plain ''vc_screenbuf'' (TPtr ''short unsigned int''),
    Plain ''vc_screenbuf_size'' (TInt I32 False),
    Plain ''vc_mode'' (TInt I8 False),
    Plain ''vc_attr'' (TInt I8 False),
    Plain ''vc_def_color'' (TInt I8 False),
    Plain ''vc_ulcolor'' (TInt I8 False),
    Plain ''vc_itcolor'' (TInt I8 False),
    Plain ''vc_halfcolor'' (TInt I8 False),
    Plain ''vc_cursor_type'' (TInt I32 False),
    Plain ''vc_complement_mask'' (TInt I16 False),
    Plain ''vc_s_complement_mask'' (TInt I16 False),
    Plain ''vc_pos'' (TInt I64 False),
    Plain ''vc_hi_font_mask'' (TInt I16 False),
    Plain ''vc_font'' st_console_font,
    Plain ''vc_video_erase_char'' (TInt I16 False),
    Plain ''vc_state'' (TInt I32 False),
    Plain ''vc_npar'' (TInt I32 False),
    Plain ''vc_par'' (TArr (TInt I32 False) 16),
    Plain ''vt_mode'' st_vt_mode,
    Plain ''vt_pid'' (TPtr ''struct pid''),
    Plain ''vt_newvt'' (TInt I32 True),
    Plain ''paste_wait'' td_wait_queue_head_t,
    Bits ''vc_disp_ctrl'' (TInt I32 False) 1,
    Bits ''vc_toggle_meta'' (TInt I32 False) 1,
    Bits ''vc_decscnm'' (TInt I32 False) 1,
    Bits ''vc_decom'' (TInt I32 False) 1,
    Bits ''vc_decawm'' (TInt I32 False) 1,
    Bits ''vc_deccm'' (TInt I32 False) 1,
    Bits ''vc_decim'' (TInt I32 False) 1,
    Bits ''vc_priv'' (TInt I32 False) 3,
    Bits ''vc_need_wrap'' (TInt I32 False) 1,
    Bits ''vc_can_do_color'' (TInt I32 False) 1,
    Bits ''vc_report_mouse'' (TInt I32 False) 2,
    Bits ''vc_bracketed_paste'' (TInt I32 False) 1,
    Bits ''vc_utf'' (TInt I8 False) 1,
    Plain ''vc_utf_count'' (TInt I8 False),
    Plain ''vc_utf_char'' (TInt I32 True),
    Plain ''vc_tab_stop'' (TArr (TInt I64 False) 4),
    Plain ''vc_palette'' (TArr (TInt I8 False) 48),
    Plain ''vc_translate'' (TPtr ''short unsigned int''),
    Plain ''vc_bell_pitch'' (TInt I32 False),
    Plain ''vc_bell_duration'' (TInt I32 False),
    Plain ''vc_cur_blink_ms'' (TInt I16 False),
    Plain ''vc_display_fg'' (TPtr ''struct vc_data *''),
    Plain ''uni_pagedict'' (TPtr ''struct uni_pagedict''),
    Plain ''uni_pagedict_loc'' (TPtr ''struct uni_pagedict *''),
    Plain ''vc_uni_lines'' (TPtr ''u32 *''),
    Plain ''vc_saved_screen'' (TPtr ''u16''),
    Plain ''vc_saved_uni_lines'' (TPtr ''u32 *''),
    Plain ''vc_saved_cols'' (TInt I32 False),
    Plain ''vc_saved_rows'' (TInt I32 False)]"

end
