(* ===== verification/VmlinuxStruct14.thy ===== *)
theory VmlinuxStruct14
  imports VmlinuxStruct13
begin

text \<open>
  Structures and unions of \<open>src/internal/ebpf/vmlinux.h\<close> (aggregates nested 9 deep), in the
  order of the header: \<open>st_<tag>\<close>, \<open>un_<tag>\<close>, and \<open>td_<name>\<close> for an aggregate with a type name.
\<close>

definition st_Scsi_Host :: ty where
  "st_Scsi_Host = TStruct ''Scsi_Host'' False [
    Plain ''__devices'' st_list_head,
    Plain ''__targets'' st_list_head,
    Plain ''starved_list'' st_list_head,
    Plain ''default_lock'' td_spinlock_t,
    Plain ''host_lock'' (TPtr ''spinlock_t''),
    Plain ''scan_mutex'' st_mutex,
    Plain ''eh_abort_list'' st_list_head,
    Plain ''eh_cmd_q'' st_list_head,
    Plain ''ehandler'' (TPtr ''struct task_struct''),
    Plain ''eh_action'' (TPtr ''struct completion''),
    Plain ''host_wait'' td_wait_queue_head_t,
    Plain ''hostt'' (TPtr ''struct scsi_host_template''),
    Plain ''transportt'' (TPtr ''struct scsi_transport_template''),
    Plain ''tagset_refcnt'' st_kref,
    Plain ''tagset_freed'' st_completion,
    Plain ''tag_set'' st_blk_mq_tag_set,
    Plain ''host_blocked'' td_atomic_t,
    Plain ''host_failed'' (TInt I32 False),
    Plain ''host_eh_scheduled'' (TInt I32 False),
    Plain ''host_no'' (TInt I32 False),
    Plain ''eh_deadline'' (TInt I32 True),
    Plain ''last_reset'' (TInt I64 False),
    Plain ''max_channel'' (TInt I32 False),
    Plain ''max_id'' (TInt I32 False),
    Plain ''max_lun'' td_u64,
    Plain ''unique_id'' (TInt I32 False),
    Plain ''max_cmd_len'' (TInt I16 False),
    Plain ''this_id'' (TInt I32 True),
    Plain ''can_queue'' (TInt I32 True),
    Plain ''nr_reserved_cmds'' (TInt I32 False),
    Plain ''cmd_per_lun'' (TInt I16 True),
    Plain ''sg_tablesize'' (TInt I16 False),
    Plain ''sg_prot_tablesize'' (TInt I16 False),
    Plain ''max_sectors'' (TInt I32 False),
    Plain ''opt_sectors'' (TInt I32 False),
    Plain ''max_segment_size'' (TInt I32 False),
    Plain ''dma_alignment'' (TInt I32 False),
    Plain ''dma_boundary'' (TInt I64 False),
    Plain ''virt_boundary_mask'' (TInt I64 False),
    Plain ''nr_hw_queues'' (TInt I32 False),
    Plain ''nr_maps'' (TInt I32 False),
    Bits ''active_mode'' (TInt I32 False) 2,
    Bits ''host_self_blocked'' (TInt I32 False) 1,
    Bits ''reverse_ordering'' (TInt I32 False) 1,
    Bits ''tmf_in_progress'' (TInt I32 False) 1,
    Bits ''async_scan'' (TInt I32 False) 1,
    Bits ''eh_noresume'' (TInt I32 False) 1,
    Bits ''no_write_same'' (TInt I32 False) 1,
    Bits ''host_tagset'' (TInt I32 False) 1,
    Bits ''queuecommand_may_block'' (TInt I32 False) 1,
    Bits ''short_inquiry'' (TInt I32 False) 1,
    Bits ''no_scsi2_lun_in_cdb'' (TInt I32 False) 1,
    Plain ''work_q'' (TPtr ''struct workqueue_struct''),
    Plain ''tmf_work_q'' (TPtr ''struct workqueue_struct''),
    Plain ''max_host_blocked'' (TInt I32 False),
    Plain ''prot_capabilities'' (TInt I32 False),
    Plain ''prot_guard_type'' (TInt I8 False),
    Plain ''base'' (TInt I64 False),
    Plain ''io_port'' (TInt I64 False),
    Plain ''n_io_port'' (TInt I8 False),
    Plain ''dma_channel'' (TInt I8 False),
    Plain ''irq'' (TInt I32 False),
    Plain ''shost_state'' (TEnum ''scsi_host_state'' I32),
    Plain ''shost_gendev'' st_device,
    Plain ''shost_dev'' st_device,
    Plain ''pseudo_sdev'' (TPtr ''struct scsi_device''),
    Plain ''shost_data'' (TPtr ''void''),
    Plain ''dma_dev'' (TPtr ''struct device''),
    Plain ''rpm_autosuspend_delay'' (TInt I32 True),
    Plain ''hostdata'' (TArr (TInt I64 False) 0)]"

definition st_ata_device :: ty where
  "st_ata_device = TStruct ''ata_device'' False [
    Plain ''link'' (TPtr ''struct ata_link''),
    Plain ''devno'' (TInt I32 False),
    Plain ''quirks'' td_u64,
    Plain ''flags'' (TInt I64 False),
    Plain ''sdev'' (TPtr ''struct scsi_device''),
    Plain ''private_data'' (TPtr ''void''),
    Plain ''gtf_cache'' (TPtr ''union acpi_object''),
    Plain ''gtf_filter'' (TInt I32 False),
    Plain ''zpodd'' (TPtr ''void''),
    Plain ''tdev'' st_device,
    Plain ''n_sectors'' td_u64,
    Plain ''n_native_sectors'' td_u64,
    Plain ''class'' (TInt I32 False),
    Plain ''unpark_deadline'' (TInt I64 False),
    Plain ''pio_mode'' td_u8,
    Plain ''dma_mode'' td_u8,
    Plain ''xfer_mode'' td_u8,
    Plain ''xfer_shift'' (TInt I32 False),
    Plain ''multi_count'' (TInt I32 False),
    Plain ''max_sectors'' (TInt I32 False),
    Plain ''cdb_len'' (TInt I32 False),
    Plain ''pio_mask'' (TInt I32 False),
    Plain ''mwdma_mask'' (TInt I32 False),
    Plain ''udma_mask'' (TInt I32 False),
    Plain ''cylinders'' td_u16,
    Plain ''heads'' td_u16,
    Plain ''sectors'' td_u16,
    Bits '''' (TInt I64 True) 64,
    Plain '''' (TUnion '''' False [
      Plain ''id'' (TArr td_u16 256),
      Plain ''gscr'' (TArr td_u32 128)]),
    Plain ''gp_log_dir'' (TArr td_u8 512),
    Plain ''devslp_timing'' (TArr td_u8 8),
    Plain ''ncq_send_recv_cmds'' (TArr td_u8 20),
    Plain ''ncq_non_data_cmds'' (TArr td_u8 64),
    Plain ''zac_zoned_cap'' td_u32,
    Plain ''zac_zones_optimal_open'' td_u32,
    Plain ''zac_zones_optimal_nonseq'' td_u32,
    Plain ''zac_zones_max_open'' td_u32,
    Plain ''cpr_log'' (TPtr ''struct ata_cpr_log''),
    Plain ''cdl'' (TPtr ''struct ata_cdl''),
    Plain ''spdn_cnt'' (TInt I32 True),
    Plain ''ering'' st_ata_ering,
    Bits '''' (TInt I64 True) 64,
    Bits '''' (TInt I64 True) 64,
    Bits '''' (TInt I64 True) 64,
    Bits '''' (TInt I64 True) 64,
    Bits '''' (TInt I64 True) 64,
    Bits '''' (TInt I64 True) 64,
    Plain ''sector_buf'' (TArr td_u8 512)]"

definition st_block_device :: ty where
  "st_block_device = TStruct ''block_device'' False [
    Plain ''bd_start_sect'' td_sector_t,
    Plain ''bd_nr_sectors'' td_sector_t,
    Plain ''bd_disk'' (TPtr ''struct gendisk''),
    Plain ''bd_queue'' (TPtr ''struct request_queue''),
    Plain ''bd_stats'' (TPtr ''struct disk_stats''),
    Plain ''bd_stamp'' (TInt I64 False),
    Plain ''__bd_flags'' td_atomic_t,
    Plain ''bd_dev'' td_dev_t,
    Plain ''bd_mapping'' (TPtr ''struct address_space''),
    Plain ''bd_openers'' td_atomic_t,
    Plain ''bd_size_lock'' td_spinlock_t,
    Plain ''bd_claiming'' (TPtr ''void''),
    Plain ''bd_holder'' (TPtr ''void''),
    Plain ''bd_holder_ops'' (TPtr ''struct blk_holder_ops''),
    Plain ''bd_holder_lock'' st_mutex,
    Plain ''bd_holders'' (TInt I32 True),
    Plain ''bd_holder_dir'' (TPtr ''struct kobject''),
    Plain ''bd_fsfreeze_count'' td_atomic_t,
    Plain ''bd_fsfreeze_mutex'' st_mutex,
    Plain ''bd_meta_info'' (TPtr ''struct partition_meta_info''),
    Plain ''bd_writers'' (TInt I32 True),
    Plain ''bd_security'' (TPtr ''void''),
    Plain ''bd_device'' st_device]"

definition st_bio_set :: ty where
  "st_bio_set = TStruct ''bio_set'' False [
    Plain ''bio_slab'' (TPtr ''struct kmem_cache''),
    Plain ''front_pad'' (TInt I32 False),
    Plain ''cache'' (TPtr ''struct bio_alloc_cache''),
    Plain ''bio_pool'' td_mempool_t,
    Plain ''bvec_pool'' td_mempool_t,
    Plain ''back_pad'' (TInt I32 False),
    Plain ''rescue_lock'' td_spinlock_t,
    Plain ''rescue_list'' st_bio_list,
    Plain ''rescue_work'' st_work_struct,
    Plain ''rescue_workqueue'' (TPtr ''struct workqueue_struct''),
    Plain ''cpuhp_dead'' st_hlist_node]"

definition st_dev_dax :: ty where
  "st_dev_dax = TStruct ''dev_dax'' False [
    Plain ''region'' (TPtr ''struct dax_region''),
    Plain ''dax_dev'' (TPtr ''struct dax_device''),
    Plain ''align'' (TInt I32 False),
    Plain ''target_node'' (TInt I32 True),
    Plain ''dyn_id'' td_bool,
    Plain ''id'' (TInt I32 True),
    Plain ''ida'' st_ida,
    Plain ''dev'' st_device,
    Plain ''pgmap'' (TPtr ''struct dev_pagemap''),
    Plain ''memmap_on_memory'' td_bool,
    Plain ''nr_range'' (TInt I32 True),
    Plain ''ranges'' (TPtr ''struct dev_dax_range'')]"

definition st_dimm_info :: ty where
  "st_dimm_info = TStruct ''dimm_info'' False [
    Plain ''dev'' st_device,
    Plain ''label'' (TArr (TInt I8 True) 32),
    Plain ''location'' (TArr (TInt I32 False) 3),
    Plain ''mci'' (TPtr ''struct mem_ctl_info''),
    Plain ''idx'' (TInt I32 False),
    Plain ''grain'' td_u32,
    Plain ''dtype'' (TEnum ''dev_type'' I32),
    Plain ''mtype'' (TEnum ''mem_type'' I32),
    Plain ''edac_mode'' (TEnum ''edac_type'' I32),
    Plain ''nr_pages'' td_u32,
    Plain ''csrow'' (TInt I32 False),
    Plain ''cschannel'' (TInt I32 False),
    Plain ''smbios_handle'' td_u16,
    Plain ''ce_count'' td_u32,
    Plain ''ue_count'' td_u32]"

definition st_dm_kcopyd_client :: ty where
  "st_dm_kcopyd_client = TStruct ''dm_kcopyd_client'' False [
    Plain ''pages'' (TPtr ''struct page_list''),
    Plain ''nr_reserved_pages'' (TInt I32 False),
    Plain ''nr_free_pages'' (TInt I32 False),
    Plain ''sub_job_size'' (TInt I32 False),
    Plain ''io_client'' (TPtr ''struct dm_io_client''),
    Plain ''destroyq'' td_wait_queue_head_t,
    Plain ''job_pool'' td_mempool_t,
    Plain ''kcopyd_wq'' (TPtr ''struct workqueue_struct''),
    Plain ''kcopyd_work'' st_work_struct,
    Plain ''throttle'' (TPtr ''struct dm_kcopyd_throttle''),
    Plain ''nr_jobs'' td_atomic_t,
    Plain ''job_lock'' td_spinlock_t,
    Plain ''callback_jobs'' st_list_head,
    Plain ''complete_jobs'' st_list_head,
    Plain ''io_jobs'' st_list_head,
    Plain ''pages_jobs'' st_list_head]"

definition st_i2c_adapter :: ty where
  "st_i2c_adapter = TStruct ''i2c_adapter'' False [
    Plain ''owner'' (TPtr ''struct module''),
    Plain ''class'' (TInt I32 False),
    Plain ''algo'' (TPtr ''struct i2c_algorithm''),
    Plain ''algo_data'' (TPtr ''void''),
    Plain ''lock_ops'' (TPtr ''struct i2c_lock_operations''),
    Plain ''bus_lock'' st_rt_mutex,
    Plain ''mux_lock'' st_rt_mutex,
    Plain ''timeout'' (TInt I32 True),
    Plain ''retries'' (TInt I32 True),
    Plain ''dev'' st_device,
    Plain ''locked_flags'' (TInt I64 False),
    Plain ''nr'' (TInt I32 True),
    Plain ''name'' (TArr (TInt I8 True) 48),
    Plain ''dev_released'' st_completion,
    Plain ''userspace_clients_lock'' st_mutex,
    Plain ''userspace_clients'' st_list_head,
    Plain ''bus_recovery_info'' (TPtr ''struct i2c_bus_recovery_info''),
    Plain ''quirks'' (TPtr ''struct i2c_adapter_quirks''),
    Plain ''host_notify_domain'' (TPtr ''struct irq_domain''),
    Plain ''bus_regulator'' (TPtr ''struct regulator''),
    Plain ''debugfs'' (TPtr ''struct dentry''),
    Plain ''addrs_in_instantiation'' (TArr (TInt I64 False) 2)]"

definition st_fanotify_group_private_data :: ty where
  "st_fanotify_group_private_data = TStruct ''fanotify_group_private_data'' False [
    Plain ''merge_hash'' (TPtr ''struct hlist_head''),
    Plain ''access_list'' st_list_head,
    Plain ''access_waitq'' td_wait_queue_head_t,
    Plain ''flags'' (TInt I32 True),
    Plain ''f_flags'' (TInt I32 True),
    Plain ''ucounts'' (TPtr ''struct ucounts''),
    Plain ''error_events_pool'' td_mempool_t,
    Plain ''perm_grp_list'' st_list_head]"

definition st_fsl_mc_device :: ty where
  "st_fsl_mc_device = TStruct ''fsl_mc_device'' False [
    Plain ''dev'' st_device,
    Plain ''dma_mask'' td_u64,
    Plain ''flags'' td_u16,
    Plain ''icid'' td_u32,
    Plain ''mc_handle'' td_u16,
    Plain ''mc_io'' (TPtr ''struct fsl_mc_io''),
    Plain ''obj_desc'' st_fsl_mc_obj_desc,
    Plain ''regions'' (TPtr ''struct resource''),
    Plain ''irqs'' (TPtr ''struct fsl_mc_device_irq *''),
    Plain ''resource'' (TPtr ''struct fsl_mc_resource''),
    Plain ''consumer_link'' (TPtr ''struct device_link''),
    Plain ''driver_override'' (TPtr ''char'')]"

definition st_gpio_device :: ty where
  "st_gpio_device = TStruct ''gpio_device'' False [
    Plain ''dev'' st_device,
    Plain ''chrdev'' st_cdev,
    Plain ''id'' (TInt I32 True),
    Plain ''owner'' (TPtr ''struct module''),
    Plain ''chip'' (TPtr ''struct gpio_chip''),
    Plain ''descs'' (TPtr ''struct gpio_desc''),
    Plain ''valid_mask'' (TPtr ''long unsigned int''),
    Plain ''desc_srcu'' st_srcu_struct,
    Plain ''base'' (TInt I32 False),
    Plain ''ngpio'' td_u16,
    Plain ''can_sleep'' td_bool,
    Plain ''label'' (TPtr ''char''),
    Plain ''data'' (TPtr ''void''),
    Plain ''list'' st_list_head,
    Plain ''line_state_notifier'' st_raw_notifier_head,
    Plain ''line_state_lock'' td_rwlock_t,
    Plain ''line_state_wq'' (TPtr ''struct workqueue_struct''),
    Plain ''device_notifier'' st_blocking_notifier_head,
    Plain ''srcu'' st_srcu_struct,
    Plain ''pin_ranges'' st_list_head]"

definition st_hid_device :: ty where
  "st_hid_device = TStruct ''hid_device'' False [
    Plain ''dev_rdesc'' (TPtr ''__u8''),
    Plain ''bpf_rdesc'' (TPtr ''__u8''),
    Plain ''rdesc'' (TPtr ''__u8''),
    Plain ''dev_rsize'' (TInt I32 False),
    Plain ''bpf_rsize'' (TInt I32 False),
    Plain ''rsize'' (TInt I32 False),
    Plain ''collection_size'' (TInt I32 False),
    Plain ''collection'' (TPtr ''struct hid_collection''),
    Plain ''maxcollection'' (TInt I32 False),
    Plain ''maxapplication'' (TInt I32 False),
    Plain ''bus'' td___u16,
    Plain ''group'' td___u16,
    Plain ''vendor'' td___u32,
    Plain ''product'' td___u32,
    Plain ''version'' td___u32,
    Plain ''type'' (TEnum ''hid_type'' I32),
    Plain ''country'' (TInt I32 False),
    Plain ''report_enum'' (TArr st_hid_report_enum 3),
    Plain ''led_work'' st_work_struct,
    Plain ''driver_input_lock'' st_semaphore,
    Plain ''dev'' st_device,
    Plain ''driver'' (TPtr ''struct hid_driver''),
    Plain ''devres_group_id'' (TPtr ''void''),
    Plain ''ll_driver'' (TPtr ''struct hid_ll_driver''),
    Plain ''ll_open_lock'' st_mutex,
    Plain ''ll_open_count'' (TInt I32 False),
    Plain ''battery'' (TPtr ''struct power_supply''),
    Plain ''battery_capacity'' td___s32,
    Plain ''battery_min'' td___s32,
    Plain ''battery_max'' td___s32,
    Plain ''battery_report_type'' td___s32,
    Plain ''battery_report_id'' td___s32,
    Plain ''battery_charge_status'' td___s32,
    Plain ''battery_status'' (TEnum ''hid_battery_status'' I32),
    Plain ''battery_avoid_query'' td_bool,
    Plain ''battery_present'' td_bool,
    Plain ''battery_ratelimit_time'' td_ktime_t,
    Plain ''status'' (TInt I64 False),
    Plain ''claimed'' (TInt I32 False),
    Plain ''quirks'' (TInt I32 False),
    Plain ''initial_quirks'' (TInt I32 False),
    Plain ''io_started'' td_bool,
    Plain ''inputs'' st_list_head,
    Plain ''hiddev'' (TPtr ''void''),
    Plain ''hidraw'' (TPtr ''void''),
    Plain ''name'' (TArr (TInt I8 True) 128),
    Plain ''phys'' (TArr (TInt I8 True) 64),
    Plain ''uniq'' (TArr (TInt I8 True) 64),
    Plain ''driver_data'' (TPtr ''void''),
    Plain ''ff_init'' (TFun ''int (*)(struct hid_device *)''),
    Plain ''hiddev_connect'' (TFun ''int (*)(struct hid_device *, unsigned int)''),
    Plain ''hiddev_disconnect'' (TFun ''void (*)(struct hid_device *)''),
    Plain ''hiddev_hid_event''
      (TFun ''void (*)(struct hid_device *, struct hid_field *, struct hid_usage *, __s32)''),
    Plain ''hiddev_report_event'' (TFun ''void (*)(struct hid_device *, struct hid_report *)''),
    Plain ''debug'' (TInt I16 False),
    Plain ''debug_dir'' (TPtr ''struct dentry''),
    Plain ''debug_rdesc'' (TPtr ''struct dentry''),
    Plain ''debug_events'' (TPtr ''struct dentry''),
    Plain ''debug_list'' st_list_head,
    Plain ''debug_list_lock'' td_spinlock_t,
    Plain ''debug_wait'' td_wait_queue_head_t,
    Plain ''ref'' st_kref,
    Plain ''id'' (TInt I32 False),
    Plain ''bpf'' st_hid_bpf]"

definition st_inet_sock :: ty where
  "st_inet_sock = TStruct ''inet_sock'' False [
    Plain ''sk'' st_sock,
    Plain ''pinet6'' (TPtr ''struct ipv6_pinfo''),
    Plain ''ipv6_fl_list'' (TPtr ''struct ipv6_fl_socklist''),
    Plain ''inet_flags'' (TInt I64 False),
    Plain ''inet_saddr'' td___be32,
    Plain ''uc_ttl'' td___s16,
    Plain ''inet_sport'' td___be16,
    Plain ''inet_opt'' (TPtr ''struct ip_options_rcu''),
    Plain ''inet_id'' td_atomic_t,
    Plain ''tos'' td___u8,
    Plain ''min_ttl'' td___u8,
    Plain ''mc_ttl'' td___u8,
    Plain ''pmtudisc'' td___u8,
    Plain ''rcv_tos'' td___u8,
    Plain ''convert_csum'' td___u8,
    Plain ''uc_index'' (TInt I32 True),
    Plain ''mc_index'' (TInt I32 True),
    Plain ''mc_addr'' td___be32,
    Plain ''local_port_range'' td_u32,
    Plain ''mc_list'' (TPtr ''struct ip_mc_socklist''),
    Plain ''cork'' st_inet_cork_full]"

definition st_input_dev :: ty where
  "st_input_dev = TStruct ''input_dev'' False [
    Plain ''name'' (TPtr ''char''),
    Plain ''phys'' (TPtr ''char''),
    Plain ''uniq'' (TPtr ''char''),
    Plain ''id'' st_input_id,
    Plain ''propbit'' (TArr (TInt I64 False) 1),
    Plain ''evbit'' (TArr (TInt I64 False) 1),
    Plain ''keybit'' (TArr (TInt I64 False) 12),
    Plain ''relbit'' (TArr (TInt I64 False) 1),
    Plain ''absbit'' (TArr (TInt I64 False) 1),
    Plain ''mscbit'' (TArr (TInt I64 False) 1),
    Plain ''ledbit'' (TArr (TInt I64 False) 1),
    Plain ''sndbit'' (TArr (TInt I64 False) 1),
    Plain ''ffbit'' (TArr (TInt I64 False) 2),
    Plain ''swbit'' (TArr (TInt I64 False) 1),
    Plain ''hint_events_per_packet'' (TInt I32 False),
    Plain ''keycodemax'' (TInt I32 False),
    Plain ''keycodesize'' (TInt I32 False),
    Plain ''keycode'' (TPtr ''void''),
    Plain ''setkeycode''
      (TFun ''int (*)(struct input_dev *, const struct input_keymap_entry *, unsigned int *)''),
    Plain ''getkeycode'' (TFun ''int (*)(struct input_dev *, struct input_keymap_entry *)''),
    Plain ''ff'' (TPtr ''struct ff_device''),
    Plain ''poller'' (TPtr ''struct input_dev_poller''),
    Plain ''repeat_key'' (TInt I32 False),
    Plain ''timer'' st_timer_list,
    Plain ''rep'' (TArr (TInt I32 True) 2),
    Plain ''mt'' (TPtr ''struct input_mt''),
    Plain ''absinfo'' (TPtr ''struct input_absinfo''),
    Plain ''key'' (TArr (TInt I64 False) 12),
    Plain ''led'' (TArr (TInt I64 False) 1),
    Plain ''snd'' (TArr (TInt I64 False) 1),
    Plain ''sw'' (TArr (TInt I64 False) 1),
    Plain ''open'' (TFun ''int (*)(struct input_dev *)''),
    Plain ''close'' (TFun ''void (*)(struct input_dev *)''),
    Plain ''flush'' (TFun ''int (*)(struct input_dev *, struct file *)''),
    Plain ''event'' (TFun ''int (*)(struct input_dev *, unsigned int, unsigned int, int)''),
    Plain ''grab'' (TPtr ''struct input_handle''),
    Plain ''event_lock'' td_spinlock_t,
    Plain ''mutex'' st_mutex,
    Plain ''users'' (TInt I32 False),
    Plain ''going_away'' td_bool,
    Plain ''dev'' st_device,
    Plain ''h_list'' st_list_head,
    Plain ''node'' st_list_head,
    Plain ''num_vals'' (TInt I32 False),
    Plain ''max_vals'' (TInt I32 False),
    Plain ''vals'' (TPtr ''struct input_value''),
    Plain ''devres_managed'' td_bool,
    Plain ''timestamp'' (TArr td_ktime_t 3),
    Plain ''inhibited'' td_bool]"

definition st_mdio_device :: ty where
  "st_mdio_device = TStruct ''mdio_device'' False [
    Plain ''dev'' st_device,
    Plain ''bus'' (TPtr ''struct mii_bus''),
    Plain ''bus_match'' (TFun ''int (*)(struct device *, const struct device_driver *)''),
    Plain ''device_free'' (TFun ''void (*)(struct mdio_device *)''),
    Plain ''device_remove'' (TFun ''void (*)(struct mdio_device *)''),
    Plain ''addr'' (TInt I32 True),
    Plain ''flags'' (TInt I32 True),
    Plain ''reset_state'' (TInt I32 True),
    Plain ''reset_gpio'' (TPtr ''struct gpio_desc''),
    Plain ''reset_ctrl'' (TPtr ''struct reset_control''),
    Plain ''reset_assert_delay'' (TInt I32 False),
    Plain ''reset_deassert_delay'' (TInt I32 False)]"

definition st_mem_ctl_info :: ty where
  "st_mem_ctl_info = TStruct ''mem_ctl_info'' False [
    Plain ''dev'' st_device,
    Plain ''bus'' (TPtr ''struct bus_type''),
    Plain ''link'' st_list_head,
    Plain ''owner'' (TPtr ''struct module''),
    Plain ''mtype_cap'' (TInt I64 False),
    Plain ''edac_ctl_cap'' (TInt I64 False),
    Plain ''edac_cap'' (TInt I64 False),
    Plain ''scrub_cap'' (TInt I64 False),
    Plain ''scrub_mode'' (TEnum ''scrub_type'' I32),
    Plain ''set_sdram_scrub_rate'' (TFun ''int (*)(struct mem_ctl_info *, u32)''),
    Plain ''get_sdram_scrub_rate'' (TFun ''int (*)(struct mem_ctl_info *)''),
    Plain ''edac_check'' (TFun ''void (*)(struct mem_ctl_info *)''),
    Plain ''ctl_page_to_phys''
      (TFun ''long unsigned int (*)(struct mem_ctl_info *, long unsigned int)''),
    Plain ''mc_idx'' (TInt I32 True),
    Plain ''csrows'' (TPtr ''struct csrow_info *''),
    Plain ''nr_csrows'' (TInt I32 False),
    Plain ''num_cschannel'' (TInt I32 False),
    Plain ''n_layers'' (TInt I32 False),
    Plain ''layers'' (TPtr ''struct edac_mc_layer''),
    Plain ''csbased'' td_bool,
    Plain ''tot_dimms'' (TInt I32 False),
    Plain ''dimms'' (TPtr ''struct dimm_info *''),
    Plain ''pdev'' (TPtr ''struct device''),
    Plain ''mod_name'' (TPtr ''char''),
    Plain ''ctl_name'' (TPtr ''char''),
    Plain ''dev_name'' (TPtr ''char''),
    Plain ''pvt_info'' (TPtr ''void''),
    Plain ''start_time'' (TInt I64 False),
    Plain ''ce_noinfo_count'' td_u32,
    Plain ''ue_noinfo_count'' td_u32,
    Plain ''ue_mc'' td_u32,
    Plain ''ce_mc'' td_u32,
    Plain ''complete'' st_completion,
    Plain ''mc_driver_sysfs_attributes'' (TPtr ''struct mcidev_sysfs_attribute''),
    Plain ''work'' st_delayed_work,
    Plain ''error_desc'' st_edac_raw_error_desc,
    Plain ''op_state'' (TInt I32 True),
    Plain ''debugfs'' (TPtr ''struct dentry''),
    Plain ''fake_inject_layer'' (TArr td_u8 3),
    Plain ''fake_inject_ue'' td_bool,
    Plain ''fake_inject_count'' td_u16]"

definition st_mii_bus :: ty where
  "st_mii_bus = TStruct ''mii_bus'' False [
    Plain ''owner'' (TPtr ''struct module''),
    Plain ''name'' (TPtr ''char''),
    Plain ''id'' (TArr (TInt I8 True) 61),
    Plain ''priv'' (TPtr ''void''),
    Plain ''read'' (TFun ''int (*)(struct mii_bus *, int, int)''),
    Plain ''write'' (TFun ''int (*)(struct mii_bus *, int, int, u16)''),
    Plain ''read_c45'' (TFun ''int (*)(struct mii_bus *, int, int, int)''),
    Plain ''write_c45'' (TFun ''int (*)(struct mii_bus *, int, int, int, u16)''),
    Plain ''reset'' (TFun ''int (*)(struct mii_bus *)''),
    Plain ''stats'' (TArr st_mdio_bus_stats 32),
    Plain ''mdio_lock'' st_mutex,
    Plain ''parent'' (TPtr ''struct device''),
    Plain ''state'' (TEnum '''' I32),
    Plain ''dev'' st_device,
    Plain ''mdio_map'' (TArr (TPtr ''struct mdio_device'') 32),
    Plain ''phy_mask'' td_u32,
    Plain ''phy_ignore_ta_mask'' td_u32,
    Plain ''irq'' (TArr (TInt I32 True) 32),
    Plain ''reset_delay_us'' (TInt I32 True),
    Plain ''reset_post_delay_us'' (TInt I32 True),
    Plain ''reset_gpiod'' (TPtr ''struct gpio_desc''),
    Plain ''shared_lock'' st_mutex,
    Plain ''shared'' (TArr (TPtr ''struct phy_package_shared'') 32)]"

definition st_mmc_card :: ty where
  "st_mmc_card = TStruct ''mmc_card'' False [
    Plain ''host'' (TPtr ''struct mmc_host''),
    Plain ''dev'' st_device,
    Plain ''ocr'' td_u32,
    Plain ''rca'' (TInt I32 False),
    Plain ''type'' (TInt I32 False),
    Plain ''state'' (TInt I32 False),
    Plain ''quirks'' (TInt I32 False),
    Plain ''quirk_max_rate'' (TInt I32 False),
    Plain ''written_flag'' td_bool,
    Plain ''reenable_cmdq'' td_bool,
    Plain ''erase_size'' (TInt I32 False),
    Plain ''erase_shift'' (TInt I32 False),
    Plain ''pref_erase'' (TInt I32 False),
    Plain ''eg_boundary'' (TInt I32 False),
    Plain ''erase_arg'' (TInt I32 False),
    Plain ''erased_byte'' td_u8,
    Plain ''wp_grp_size'' (TInt I32 False),
    Plain ''raw_cid'' (TArr td_u32 4),
    Plain ''raw_csd'' (TArr td_u32 4),
    Plain ''raw_scr'' (TArr td_u32 2),
    Plain ''raw_ssr'' (TArr td_u32 16),
    Plain ''cid'' st_mmc_cid,
    Plain ''csd'' st_mmc_csd,
    Plain ''ext_csd'' st_mmc_ext_csd,
    Plain ''scr'' st_sd_scr,
    Plain ''ssr'' st_sd_ssr,
    Plain ''sw_caps'' st_sd_switch_caps,
    Plain ''ext_power'' st_sd_ext_reg,
    Plain ''ext_perf'' st_sd_ext_reg,
    Plain ''uhs2_config'' st_sd_uhs2_config,
    Plain ''sdio_funcs'' (TInt I32 False),
    Plain ''sdio_funcs_probed'' td_atomic_t,
    Plain ''cccr'' st_sdio_cccr,
    Plain ''cis'' st_sdio_cis,
    Plain ''sdio_func'' (TArr (TPtr ''struct sdio_func'') 7),
    Plain ''sdio_single_irq'' (TPtr ''struct sdio_func''),
    Plain ''major_rev'' td_u8,
    Plain ''minor_rev'' td_u8,
    Plain ''num_info'' (TInt I32 False),
    Plain ''info'' (TPtr ''char *''),
    Plain ''tuples'' (TPtr ''struct sdio_func_tuple''),
    Plain ''sd_bus_speed'' (TInt I32 False),
    Plain ''mmc_avail_type'' (TInt I32 False),
    Plain ''drive_strength'' (TInt I32 False),
    Plain ''debugfs_root'' (TPtr ''struct dentry''),
    Plain ''part'' (TArr st_mmc_part 7),
    Plain ''nr_parts'' (TInt I32 False),
    Plain ''complete_wq'' (TPtr ''struct workqueue_struct'')]"

definition st_mmc_host :: ty where
  "st_mmc_host = TStruct ''mmc_host'' False [
    Plain ''parent'' (TPtr ''struct device''),
    Plain ''class_dev'' st_device,
    Plain ''index'' (TInt I32 True),
    Plain ''ops'' (TPtr ''struct mmc_host_ops''),
    Plain ''pwrseq'' (TPtr ''struct mmc_pwrseq''),
    Plain ''f_min'' (TInt I32 False),
    Plain ''f_max'' (TInt I32 False),
    Plain ''f_init'' (TInt I32 False),
    Plain ''ocr_avail'' td_u32,
    Plain ''ocr_avail_sdio'' td_u32,
    Plain ''ocr_avail_sd'' td_u32,
    Plain ''ocr_avail_mmc'' td_u32,
    Plain ''ws'' (TPtr ''struct wakeup_source''),
    Plain ''max_current_330'' td_u32,
    Plain ''max_current_300'' td_u32,
    Plain ''max_current_180'' td_u32,
    Plain ''caps'' td_u32,
    Plain ''caps2'' td_u32,
    Plain ''uhs2_sd_tran'' td_bool,
    Plain ''uhs2_app_cmd'' td_bool,
    Plain ''uhs2_caps'' st_sd_uhs2_caps,
    Plain ''fixed_drv_type'' (TInt I32 True),
    Plain ''pm_caps'' td_mmc_pm_flag_t,
    Plain ''max_seg_size'' (TInt I32 False),
    Plain ''max_segs'' (TInt I16 False),
    Plain ''unused'' (TInt I16 False),
    Plain ''max_req_size'' (TInt I32 False),
    Plain ''max_blk_size'' (TInt I32 False),
    Plain ''max_blk_count'' (TInt I32 False),
    Plain ''max_busy_timeout'' (TInt I32 False),
    Plain ''lock'' td_spinlock_t,
    Plain ''ios'' st_mmc_ios,
    Plain ''claimed'' td_bool,
    Bits ''use_spi_crc'' (TInt I32 False) 1,
    Bits ''doing_init_tune'' (TInt I32 False) 1,
    Bits ''doing_retune'' (TInt I32 False) 1,
    Bits ''retune_crc_disable'' (TInt I32 False) 1,
    Bits ''can_dma_map_merge'' (TInt I32 False) 1,
    Bits ''vqmmc_enabled'' (TInt I32 False) 1,
    Bits ''undervoltage'' (TInt I32 False) 1,
    Plain ''rescan_disable'' (TInt I32 True),
    Plain ''rescan_entered'' (TInt I32 True),
    Plain ''can_retune'' td_bool,
    Plain ''retune_now'' td_bool,
    Plain ''retune_paused'' td_bool,
    Plain ''need_retune'' (TInt I32 True),
    Plain ''hold_retune'' (TInt I32 True),
    Plain ''retune_period'' (TInt I32 False),
    Plain ''retune_timer'' st_timer_list,
    Plain ''trigger_card_event'' td_bool,
    Plain ''card'' (TPtr ''struct mmc_card''),
    Plain ''wq'' td_wait_queue_head_t,
    Plain ''claimer'' (TPtr ''struct mmc_ctx''),
    Plain ''claim_cnt'' (TInt I32 True),
    Plain ''default_ctx'' st_mmc_ctx,
    Plain ''detect'' st_delayed_work,
    Plain ''detect_change'' (TInt I32 True),
    Plain ''slot'' st_mmc_slot,
    Plain ''bus_ops'' (TPtr ''struct mmc_bus_ops''),
    Plain ''sdio_irqs'' (TInt I32 False),
    Plain ''sdio_irq_thread'' (TPtr ''struct task_struct''),
    Plain ''sdio_irq_work'' st_work_struct,
    Plain ''sdio_irq_pending'' td_bool,
    Plain ''sdio_irq_thread_abort'' td_atomic_t,
    Plain ''pm_flags'' td_mmc_pm_flag_t,
    Plain ''led'' (TPtr ''struct led_trigger''),
    Plain ''regulator_enabled'' td_bool,
    Plain ''supply'' st_mmc_supply,
    Plain ''debugfs_root'' (TPtr ''struct dentry''),
    Plain ''ongoing_mrq'' (TPtr ''struct mmc_request''),
    Plain ''actual_clock'' (TInt I32 False),
    Plain ''slotno'' (TInt I32 False),
    Plain ''dsr_req'' (TInt I32 True),
    Plain ''dsr'' td_u32,
    Plain ''cqe_ops'' (TPtr ''struct mmc_cqe_ops''),
    Plain ''cqe_private'' (TPtr ''void''),
    Plain ''cqe_qdepth'' (TInt I32 True),
    Plain ''cqe_enabled'' td_bool,
    Plain ''cqe_on'' td_bool,
    Plain ''crypto_profile'' st_blk_crypto_profile,
    Plain ''hsq_enabled'' td_bool,
    Plain ''hsq_depth'' (TInt I32 True),
    Plain ''err_stats'' (TArr td_u32 15),
    Plain ''max_sd_hs_hz'' td_u32,
    Bits '''' (TInt I64 True) 64,
    Bits '''' (TInt I64 True) 64,
    Bits '''' (TInt I64 True) 64,
    Bits '''' (TInt I64 True) 64,
    Plain ''private'' (TArr (TInt I64 False) 0)]"

definition st_mousedev :: ty where
  "st_mousedev = TStruct ''mousedev'' False [
    Plain ''open'' (TInt I32 True),
    Plain ''handle'' st_input_handle,
    Plain ''wait'' td_wait_queue_head_t,
    Plain ''client_list'' st_list_head,
    Plain ''client_lock'' td_spinlock_t,
    Plain ''mutex'' st_mutex,
    Plain ''dev'' st_device,
    Plain ''cdev'' st_cdev,
    Plain ''exist'' td_bool,
    Plain ''mixdev_node'' st_list_head,
    Plain ''opened_by_mixdev'' td_bool,
    Plain ''packet'' st_mousedev_hw_data,
    Plain ''pkt_count'' (TInt I32 False),
    Plain ''old_x'' (TArr (TInt I32 True) 4),
    Plain ''old_y'' (TArr (TInt I32 True) 4),
    Plain ''frac_dx'' (TInt I32 True),
    Plain ''frac_dy'' (TInt I32 True),
    Plain ''touch'' (TInt I64 False),
    Plain ''open_device'' (TFun ''int (*)(struct mousedev *)''),
    Plain ''close_device'' (TFun ''void (*)(struct mousedev *)'')]"

definition st_nd_region :: ty where
  "st_nd_region = TStruct ''nd_region'' False [
    Plain ''dev'' st_device,
    Plain ''ns_ida'' st_ida,
    Plain ''btt_ida'' st_ida,
    Plain ''pfn_ida'' st_ida,
    Plain ''dax_ida'' st_ida,
    Plain ''flags'' (TInt I64 False),
    Plain ''ns_seed'' (TPtr ''struct device''),
    Plain ''btt_seed'' (TPtr ''struct device''),
    Plain ''pfn_seed'' (TPtr ''struct device''),
    Plain ''dax_seed'' (TPtr ''struct device''),
    Plain ''align'' (TInt I64 False),
    Plain ''ndr_mappings'' td_u16,
    Plain ''ndr_size'' td_u64,
    Plain ''ndr_start'' td_u64,
    Plain ''id'' (TInt I32 True),
    Plain ''num_lanes'' (TInt I32 True),
    Plain ''ro'' (TInt I32 True),
    Plain ''numa_node'' (TInt I32 True),
    Plain ''target_node'' (TInt I32 True),
    Plain ''provider_data'' (TPtr ''void''),
    Plain ''bb_state'' (TPtr ''struct kernfs_node''),
    Plain ''bb'' st_badblocks,
    Plain ''nd_set'' (TPtr ''struct nd_interleave_set''),
    Plain ''lane'' (TPtr ''struct nd_percpu_lane''),
    Plain ''flush'' (TFun ''int (*)(struct nd_region *, struct bio *)''),
    Plain ''mapping'' (TArr st_nd_mapping 0)]"

definition st_netlink_sock :: ty where
  "st_netlink_sock = TStruct ''netlink_sock'' False [
    Plain ''sk'' st_sock,
    Plain ''flags'' (TInt I64 False),
    Plain ''portid'' td_u32,
    Plain ''dst_portid'' td_u32,
    Plain ''dst_group'' td_u32,
    Plain ''subscriptions'' td_u32,
    Plain ''ngroups'' td_u32,
    Plain ''groups'' (TPtr ''long unsigned int''),
    Plain ''state'' (TInt I64 False),
    Plain ''max_recvmsg_len'' td_size_t,
    Plain ''wait'' td_wait_queue_head_t,
    Plain ''bound'' td_bool,
    Plain ''cb_running'' td_bool,
    Plain ''dump_done_errno'' (TInt I32 True),
    Plain ''cb'' st_netlink_callback,
    Plain ''nl_cb_mutex'' st_mutex,
    Plain ''netlink_rcv'' (TFun ''void (*)(struct sk_buff *)''),
    Plain ''netlink_bind'' (TFun ''int (*)(struct net *, int)''),
    Plain ''netlink_unbind'' (TFun ''void (*)(struct net *, int)''),
    Plain ''netlink_release'' (TFun ''void (*)(struct sock *, long unsigned int *)''),
    Plain ''module'' (TPtr ''struct module''),
    Plain ''node'' st_rhash_head,
    Plain ''rcu'' st_callback_head]"

definition st_nvdimm :: ty where
  "st_nvdimm = TStruct ''nvdimm'' False [
    Plain ''flags'' (TInt I64 False),
    Plain ''provider_data'' (TPtr ''void''),
    Plain ''cmd_mask'' (TInt I64 False),
    Plain ''dev'' st_device,
    Plain ''busy'' td_atomic_t,
    Plain ''id'' (TInt I32 True),
    Plain ''num_flush'' (TInt I32 True),
    Plain ''flush_wpq'' (TPtr ''struct resource''),
    Plain ''dimm_id'' (TPtr ''char''),
    Plain ''sec'' (TStruct '''' False [
      Plain ''ops'' (TPtr ''struct nvdimm_security_ops''),
      Plain ''flags'' (TInt I64 False),
      Plain ''ext_flags'' (TInt I64 False),
      Plain ''overwrite_tmo'' (TInt I32 False),
      Plain ''overwrite_state'' (TPtr ''struct kernfs_node'')]),
    Plain ''dwork'' st_delayed_work,
    Plain ''fw_ops'' (TPtr ''struct nvdimm_fw_ops'')]"

definition st_packet_sock :: ty where
  "st_packet_sock = TStruct ''packet_sock'' False [
    Plain ''sk'' st_sock,
    Plain ''fanout'' (TPtr ''struct packet_fanout''),
    Plain ''stats'' un_tpacket_stats_u,
    Plain ''rx_ring'' st_packet_ring_buffer,
    Plain ''tx_ring'' st_packet_ring_buffer,
    Plain ''copy_thresh'' (TInt I32 True),
    Plain ''bind_lock'' td_spinlock_t,
    Plain ''pg_vec_lock'' st_mutex,
    Plain ''flags'' (TInt I64 False),
    Plain ''ifindex'' (TInt I32 True),
    Plain ''vnet_hdr_sz'' td_u8,
    Plain ''num'' td___be16,
    Plain ''rollover'' (TPtr ''struct packet_rollover''),
    Plain ''mclist'' (TPtr ''struct packet_mclist''),
    Plain ''mapped'' td_atomic_long_t,
    Plain ''tp_version'' (TEnum ''tpacket_versions'' I32),
    Plain ''tp_hdrlen'' (TInt I32 False),
    Plain ''tp_reserve'' (TInt I32 False),
    Plain ''tp_tstamp'' (TInt I32 False),
    Plain ''skb_completion'' st_completion,
    Plain ''cached_dev'' (TPtr ''struct net_device''),
    Bits '''' (TInt I64 True) 64,
    Plain ''prot_hook'' st_packet_type,
    Bits '''' (TInt I64 True) 64,
    Bits '''' (TInt I64 True) 64,
    Bits '''' (TInt I64 True) 64,
    Bits '''' (TInt I64 True) 64,
    Bits '''' (TInt I64 True) 64,
    Bits '''' (TInt I64 True) 64,
    Bits '''' (TInt I64 True) 64,
    Plain ''tp_drops'' td_atomic_t,
    Bits '''' (TInt I64 True) 64,
    Bits '''' (TInt I64 True) 64,
    Bits '''' (TInt I64 True) 64,
    Bits '''' (TInt I64 True) 64,
    Bits '''' (TInt I64 True) 64,
    Bits '''' (TInt I64 True) 64,
    Bits '''' (TInt I64 True) 64]"

definition st_pci_bus :: ty where
  "st_pci_bus = TStruct ''pci_bus'' False [
    Plain ''node'' st_list_head,
    Plain ''parent'' (TPtr ''struct pci_bus''),
    Plain ''children'' st_list_head,
    Plain ''devices'' st_list_head,
    Plain ''self'' (TPtr ''struct pci_dev''),
    Plain ''slots'' st_list_head,
    Plain ''resource'' (TArr (TPtr ''struct resource'') 4),
    Plain ''resources'' st_list_head,
    Plain ''busn_res'' st_resource,
    Plain ''ops'' (TPtr ''struct pci_ops''),
    Plain ''sysdata'' (TPtr ''void''),
    Plain ''procdir'' (TPtr ''struct proc_dir_entry''),
    Plain ''number'' (TInt I8 False),
    Plain ''primary'' (TInt I8 False),
    Plain ''max_bus_speed'' (TInt I8 False),
    Plain ''cur_bus_speed'' (TInt I8 False),
    Plain ''name'' (TArr (TInt I8 True) 48),
    Plain ''bridge_ctl'' (TInt I16 False),
    Plain ''bus_flags'' td_pci_bus_flags_t,
    Plain ''bridge'' (TPtr ''struct device''),
    Plain ''dev'' st_device,
    Plain ''legacy_io'' (TPtr ''struct bin_attribute''),
    Plain ''legacy_mem'' (TPtr ''struct bin_attribute''),
    Bits ''is_added'' (TInt I32 False) 1,
    Bits ''unsafe_warn'' (TInt I32 False) 1,
    Bits ''flit_mode'' (TInt I32 False) 1]"

definition st_pci_dev :: ty where
  "st_pci_dev = TStruct ''pci_dev'' False [
    Plain ''bus_list'' st_list_head,
    Plain ''bus'' (TPtr ''struct pci_bus''),
    Plain ''subordinate'' (TPtr ''struct pci_bus''),
    Plain ''sysdata'' (TPtr ''void''),
    Plain ''procent'' (TPtr ''struct proc_dir_entry''),
    Plain ''slot'' (TPtr ''struct pci_slot''),
    Plain ''devfn'' (TInt I32 False),
    Plain ''vendor'' (TInt I16 False),
    Plain ''device'' (TInt I16 False),
    Plain ''subsystem_vendor'' (TInt I16 False),
    Plain ''subsystem_device'' (TInt I16 False),
    Plain ''class'' (TInt I32 False),
    Plain ''revision'' td_u8,
    Plain ''hdr_type'' td_u8,
    Plain ''aer_cap'' td_u16,
    Plain ''aer_info'' (TPtr ''struct aer_info''),
    Plain ''rcec_ea'' (TPtr ''struct rcec_ea''),
    Plain ''rcec'' (TPtr ''struct pci_dev''),
    Plain ''devcap'' td_u32,
    Plain ''rebar_cap'' td_u16,
    Plain ''pcie_cap'' td_u8,
    Plain ''msi_cap'' td_u8,
    Plain ''msix_cap'' td_u8,
    Bits ''pcie_mpss'' td_u8 3,
    Plain ''rom_base_reg'' td_u8,
    Plain ''pin'' td_u8,
    Plain ''pcie_flags_reg'' td_u16,
    Plain ''dma_alias_mask'' (TPtr ''long unsigned int''),
    Plain ''driver'' (TPtr ''struct pci_driver''),
    Plain ''dma_mask'' td_u64,
    Plain ''msi_addr_mask'' td_u64,
    Plain ''dma_parms'' st_device_dma_parameters,
    Plain ''current_state'' td_pci_power_t,
    Plain ''pm_cap'' td_u8,
    Bits ''pme_support'' (TInt I32 False) 5,
    Bits ''pme_poll'' (TInt I32 False) 1,
    Bits ''pinned'' (TInt I32 False) 1,
    Bits ''config_rrs_sv'' (TInt I32 False) 1,
    Bits ''imm_ready'' (TInt I32 False) 1,
    Bits ''d1_support'' (TInt I32 False) 1,
    Bits ''d2_support'' (TInt I32 False) 1,
    Bits ''no_d1d2'' (TInt I32 False) 1,
    Bits ''no_d3cold'' (TInt I32 False) 1,
    Bits ''bridge_d3'' (TInt I32 False) 1,
    Bits ''d3cold_allowed'' (TInt I32 False) 1,
    Bits ''mmio_always_on'' (TInt I32 False) 1,
    Bits ''wakeup_prepared'' (TInt I32 False) 1,
    Bits ''skip_bus_pm'' (TInt I32 False) 1,
    Bits ''ignore_hotplug'' (TInt I32 False) 1,
    Bits ''hotplug_user_indicators'' (TInt I32 False) 1,
    Bits ''clear_retrain_link'' (TInt I32 False) 1,
    Bits ''no_bw_notif'' (TInt I32 False) 1,
    Plain ''d3hot_delay'' (TInt I32 False),
    Plain ''d3cold_delay'' (TInt I32 False),
    Plain ''l1ss'' td_u16,
    Plain ''link_state'' (TPtr ''struct pcie_link_state''),
    Bits ''aspm_l0s_support'' (TInt I32 False) 1,
    Bits ''aspm_l1_support'' (TInt I32 False) 1,
    Bits ''ltr_path'' (TInt I32 False) 1,
    Bits ''pasid_no_tlp'' (TInt I32 False) 1,
    Bits ''eetlp_prefix_max'' (TInt I32 False) 3,
    Plain ''error_state'' td_pci_channel_state_t,
    Plain ''dev'' st_device,
    Plain ''cfg_size'' (TInt I32 True),
    Plain ''irq'' (TInt I32 False),
    Plain ''resource'' (TArr st_resource 17),
    Plain ''driver_exclusive_resource'' st_resource,
    Bits ''transparent'' (TInt I32 False) 1,
    Bits ''io_window'' (TInt I32 False) 1,
    Bits ''pref_window'' (TInt I32 False) 1,
    Bits ''pref_64_window'' (TInt I32 False) 1,
    Bits ''multifunction'' (TInt I32 False) 1,
    Bits ''is_busmaster'' (TInt I32 False) 1,
    Bits ''no_msi'' (TInt I32 False) 1,
    Bits ''block_cfg_access'' (TInt I32 False) 1,
    Bits ''broken_parity_status'' (TInt I32 False) 1,
    Bits ''irq_reroute_variant'' (TInt I32 False) 2,
    Bits ''msi_enabled'' (TInt I32 False) 1,
    Bits ''msix_enabled'' (TInt I32 False) 1,
    Bits ''ari_enabled'' (TInt I32 False) 1,
    Bits ''ats_enabled'' (TInt I32 False) 1,
    Bits ''pasid_enabled'' (TInt I32 False) 1,
    Bits ''pri_enabled'' (TInt I32 False) 1,
    Bits ''tph_enabled'' (TInt I32 False) 1,
    Bits ''fm_enabled'' (TInt I32 False) 1,
    Bits ''is_managed'' (TInt I32 False) 1,
    Bits ''is_msi_managed'' (TInt I32 False) 1,
    Bits ''needs_freset'' (TInt I32 False) 1,
    Bits ''state_saved'' (TInt I32 False) 1,
    Bits ''is_physfn'' (TInt I32 False) 1,
    Bits ''is_virtfn'' (TInt I32 False) 1,
    Bits ''is_hotplug_bridge'' (TInt I32 False) 1,
    Bits ''is_pciehp'' (TInt I32 False) 1,
    Bits ''shpc_managed'' (TInt I32 False) 1,
    Bits ''is_thunderbolt'' (TInt I32 False) 1,
    Bits ''is_cxl'' (TInt I32 False) 1,
    Bits ''untrusted'' (TInt I32 False) 1,
    Bits ''external_facing'' (TInt I32 False) 1,
    Bits ''broken_intx_masking'' (TInt I32 False) 1,
    Bits ''io_window_1k'' (TInt I32 False) 1,
    Bits ''irq_managed'' (TInt I32 False) 1,
    Bits ''non_compliant_bars'' (TInt I32 False) 1,
    Bits ''is_probed'' (TInt I32 False) 1,
    Bits ''link_active_reporting'' (TInt I32 False) 1,
    Bits ''no_vf_scan'' (TInt I32 False) 1,
    Bits ''no_command_memory'' (TInt I32 False) 1,
    Bits ''rom_bar_overlap'' (TInt I32 False) 1,
    Bits ''rom_attr_enabled'' (TInt I32 False) 1,
    Bits ''non_mappable_bars'' (TInt I32 False) 1,
    Bits ''aspm_os_control'' (TInt I32 False) 1,
    Plain ''dev_flags'' td_pci_dev_flags_t,
    Plain ''enable_cnt'' td_atomic_t,
    Plain ''pcie_cap_lock'' td_spinlock_t,
    Plain ''saved_config_space'' (TArr td_u32 16),
    Plain ''saved_cap_space'' st_hlist_head,
    Plain ''res_attr'' (TArr (TPtr ''struct bin_attribute'') 17),
    Plain ''res_attr_wc'' (TArr (TPtr ''struct bin_attribute'') 17),
    Bits ''broken_cmd_compl'' (TInt I32 False) 1,
    Plain ''ptm_cap'' td_u16,
    Bits ''ptm_root'' (TInt I32 False) 1,
    Bits ''ptm_responder'' (TInt I32 False) 1,
    Bits ''ptm_requester'' (TInt I32 False) 1,
    Bits ''ptm_enabled'' (TInt I32 False) 1,
    Plain ''ptm_granularity'' td_u8,
    Plain ''msix_base'' (TPtr ''void''),
    Plain ''msi_lock'' td_raw_spinlock_t,
    Plain ''vpd'' st_pci_vpd,
    Plain ''dpc_cap'' td_u16,
    Bits ''dpc_rp_extensions'' (TInt I32 False) 1,
    Plain ''dpc_rp_log_size'' td_u8,
    Plain ''link_bwctrl'' (TPtr ''struct pcie_bwctrl_data''),
    Plain '''' (TUnion '''' False [
      Plain ''sriov'' (TPtr ''struct pci_sriov''),
      Plain ''physfn'' (TPtr ''struct pci_dev'')]),
    Plain ''ats_cap'' td_u16,
    Plain ''ats_stu'' td_u8,
    Plain ''pri_cap'' td_u16,
    Plain ''pri_reqs_alloc'' td_u32,
    Bits ''pasid_required'' (TInt I32 False) 1,
    Plain ''pasid_cap'' td_u16,
    Plain ''pasid_features'' td_u16,
    Plain ''p2pdma'' (TPtr ''struct pci_p2pdma''),
    Plain ''doe_mbs'' st_xarray,
    Plain ''npem'' (TPtr ''struct npem''),
    Plain ''ide_cap'' td_u16,
    Plain ''nr_ide_mem'' td_u8,
    Plain ''nr_link_ide'' td_u8,
    Plain ''nr_sel_ide'' td_u16,
    Plain ''ide_stream_ida'' st_ida,
    Bits ''ide_cfg'' (TInt I32 False) 1,
    Bits ''ide_tee_limit'' (TInt I32 False) 1,
    Plain ''tsm'' (TPtr ''struct pci_tsm''),
    Plain ''acs_cap'' td_u16,
    Plain ''acs_capabilities'' td_u16,
    Plain ''supported_speeds'' td_u8,
    Plain ''rom'' td_phys_addr_t,
    Plain ''romlen'' td_size_t,
    Plain ''driver_override'' (TPtr ''char''),
    Plain ''priv_flags'' (TInt I64 False),
    Plain ''reset_methods'' (TArr td_u8 8),
    Plain ''tph_cap'' td_u16,
    Plain ''tph_mode'' td_u8,
    Plain ''tph_req_type'' td_u8]"

definition st_pci_epc :: ty where
  "st_pci_epc = TStruct ''pci_epc'' False [
    Plain ''dev'' st_device,
    Plain ''pci_epf'' st_list_head,
    Plain ''list_lock'' st_mutex,
    Plain ''ops'' (TPtr ''struct pci_epc_ops''),
    Plain ''windows'' (TPtr ''struct pci_epc_mem *''),
    Plain ''mem'' (TPtr ''struct pci_epc_mem''),
    Plain ''num_windows'' (TInt I32 False),
    Plain ''max_functions'' td_u8,
    Plain ''max_vfs'' (TPtr ''u8''),
    Plain ''group'' (TPtr ''struct config_group''),
    Plain ''lock'' st_mutex,
    Plain ''function_num_map'' (TInt I64 False),
    Plain ''domain_nr'' (TInt I32 True),
    Plain ''init_complete'' td_bool]"

definition st_pci_epf :: ty where
  "st_pci_epf = TStruct ''pci_epf'' False [
    Plain ''dev'' st_device,
    Plain ''name'' (TPtr ''char''),
    Plain ''header'' (TPtr ''struct pci_epf_header''),
    Plain ''bar'' (TArr st_pci_epf_bar 6),
    Plain ''msi_interrupts'' td_u8,
    Plain ''msix_interrupts'' td_u16,
    Plain ''func_no'' td_u8,
    Plain ''vfunc_no'' td_u8,
    Plain ''epc'' (TPtr ''struct pci_epc''),
    Plain ''epf_pf'' (TPtr ''struct pci_epf''),
    Plain ''driver'' (TPtr ''struct pci_epf_driver''),
    Plain ''id'' (TPtr ''struct pci_epf_device_id''),
    Plain ''list'' st_list_head,
    Plain ''lock'' st_mutex,
    Plain ''sec_epc'' (TPtr ''struct pci_epc''),
    Plain ''sec_epc_list'' st_list_head,
    Plain ''sec_epc_bar'' (TArr st_pci_epf_bar 6),
    Plain ''sec_epc_func_no'' td_u8,
    Plain ''group'' (TPtr ''struct config_group''),
    Plain ''is_bound'' (TInt I32 False),
    Plain ''is_vf'' (TInt I32 False),
    Plain ''vfunction_num_map'' (TInt I64 False),
    Plain ''pci_vepf'' st_list_head,
    Plain ''event_ops'' (TPtr ''struct pci_epc_event_ops''),
    Plain ''db_msg'' (TPtr ''struct pci_epf_doorbell_msg''),
    Plain ''num_db'' td_u16]"

definition st_pci_host_bridge :: ty where
  "st_pci_host_bridge = TStruct ''pci_host_bridge'' False [
    Plain ''dev'' st_device,
    Plain ''bus'' (TPtr ''struct pci_bus''),
    Plain ''ops'' (TPtr ''struct pci_ops''),
    Plain ''child_ops'' (TPtr ''struct pci_ops''),
    Plain ''sysdata'' (TPtr ''void''),
    Plain ''busnr'' (TInt I32 True),
    Plain ''domain_nr'' (TInt I32 True),
    Plain ''windows'' st_list_head,
    Plain ''dma_ranges'' st_list_head,
    Plain ''nr_ide_streams'' td_u16,
    Plain ''ide_stream_ida'' st_ida,
    Plain ''ide_stream_ids_ida'' st_ida,
    Plain ''swizzle_irq'' (TFun ''u8 (*)(struct pci_dev *, u8 *)''),
    Plain ''map_irq'' (TFun ''int (*)(const struct pci_dev *, u8, u8)''),
    Plain ''release_fn'' (TFun ''void (*)(struct pci_host_bridge *)''),
    Plain ''enable_device'' (TFun ''int (*)(struct pci_host_bridge *, struct pci_dev *)''),
    Plain ''disable_device'' (TFun ''void (*)(struct pci_host_bridge *, struct pci_dev *)''),
    Plain ''release_data'' (TPtr ''void''),
    Bits ''ignore_reset_delay'' (TInt I32 False) 1,
    Bits ''no_ext_tags'' (TInt I32 False) 1,
    Bits ''no_inc_mrrs'' (TInt I32 False) 1,
    Bits ''native_aer'' (TInt I32 False) 1,
    Bits ''native_pcie_hotplug'' (TInt I32 False) 1,
    Bits ''native_shpc_hotplug'' (TInt I32 False) 1,
    Bits ''native_pme'' (TInt I32 False) 1,
    Bits ''native_ltr'' (TInt I32 False) 1,
    Bits ''native_dpc'' (TInt I32 False) 1,
    Bits ''native_cxl_error'' (TInt I32 False) 1,
    Bits ''preserve_config'' (TInt I32 False) 1,
    Bits ''size_windows'' (TInt I32 False) 1,
    Bits ''msi_domain'' (TInt I32 False) 1,
    Plain ''align_resource''
      (TFun ''resource_size_t (*)(struct pci_dev *, const struct resource *, resource_size_t, resource_size_t, resource_size_t)''),
    Bits '''' (TInt I64 True) 64,
    Bits '''' (TInt I64 True) 64,
    Bits '''' (TInt I64 True) 64,
    Bits '''' (TInt I64 True) 64,
    Bits '''' (TInt I64 True) 64,
    Plain ''private'' (TArr (TInt I64 False) 0)]"

definition st_pnp_card :: ty where
  "st_pnp_card = TStruct ''pnp_card'' False [
    Plain ''dev'' st_device,
    Plain ''number'' (TInt I8 False),
    Plain ''global_list'' st_list_head,
    Plain ''protocol_list'' st_list_head,
    Plain ''devices'' st_list_head,
    Plain ''protocol'' (TPtr ''struct pnp_protocol''),
    Plain ''id'' (TPtr ''struct pnp_id''),
    Plain ''name'' (TArr (TInt I8 True) 50),
    Plain ''pnpver'' (TInt I8 False),
    Plain ''productver'' (TInt I8 False),
    Plain ''serial'' (TInt I32 False),
    Plain ''checksum'' (TInt I8 False),
    Plain ''procdir'' (TPtr ''struct proc_dir_entry'')]"

definition st_pnp_dev :: ty where
  "st_pnp_dev = TStruct ''pnp_dev'' False [
    Plain ''dev'' st_device,
    Plain ''dma_mask'' td_u64,
    Plain ''number'' (TInt I32 False),
    Plain ''status'' (TInt I32 True),
    Plain ''global_list'' st_list_head,
    Plain ''protocol_list'' st_list_head,
    Plain ''card_list'' st_list_head,
    Plain ''rdev_list'' st_list_head,
    Plain ''protocol'' (TPtr ''struct pnp_protocol''),
    Plain ''card'' (TPtr ''struct pnp_card''),
    Plain ''driver'' (TPtr ''struct pnp_driver''),
    Plain ''card_link'' (TPtr ''struct pnp_card_link''),
    Plain ''id'' (TPtr ''struct pnp_id''),
    Plain ''active'' (TInt I32 True),
    Plain ''capabilities'' (TInt I32 True),
    Plain ''num_dependent_sets'' (TInt I32 False),
    Plain ''resources'' st_list_head,
    Plain ''options'' st_list_head,
    Plain ''name'' (TArr (TInt I8 True) 50),
    Plain ''flags'' (TInt I32 True),
    Plain ''procent'' (TPtr ''struct proc_dir_entry''),
    Plain ''data'' (TPtr ''void'')]"

definition st_pnp_protocol :: ty where
  "st_pnp_protocol = TStruct ''pnp_protocol'' False [
    Plain ''protocol_list'' st_list_head,
    Plain ''name'' (TPtr ''char''),
    Plain ''get'' (TFun ''int (*)(struct pnp_dev *)''),
    Plain ''set'' (TFun ''int (*)(struct pnp_dev *)''),
    Plain ''disable'' (TFun ''int (*)(struct pnp_dev *)''),
    Plain ''can_wakeup'' (TFun ''bool (*)(struct pnp_dev *)''),
    Plain ''suspend'' (TFun ''int (*)(struct pnp_dev *, pm_message_t)''),
    Plain ''resume'' (TFun ''int (*)(struct pnp_dev *)''),
    Plain ''number'' (TInt I8 False),
    Plain ''dev'' st_device,
    Plain ''cards'' st_list_head,
    Plain ''devices'' st_list_head]"

definition st_power_supply :: ty where
  "st_power_supply = TStruct ''power_supply'' False [
    Plain ''desc'' (TPtr ''struct power_supply_desc''),
    Plain ''supplied_to'' (TPtr ''char *''),
    Plain ''num_supplicants'' td_size_t,
    Plain ''supplied_from'' (TPtr ''char *''),
    Plain ''num_supplies'' td_size_t,
    Plain ''drv_data'' (TPtr ''void''),
    Plain ''dev'' st_device,
    Plain ''changed_work'' st_work_struct,
    Plain ''deferred_register_work'' st_delayed_work,
    Plain ''changed_lock'' td_spinlock_t,
    Plain ''changed'' td_bool,
    Plain ''update_groups'' td_bool,
    Plain ''initialized'' td_bool,
    Plain ''removing'' td_bool,
    Plain ''use_cnt'' td_atomic_t,
    Plain ''battery_info'' (TPtr ''struct power_supply_battery_info''),
    Plain ''extensions_sem'' st_rw_semaphore,
    Plain ''extensions'' st_list_head,
    Plain ''tzd'' (TPtr ''struct thermal_zone_device''),
    Plain ''tcd'' (TPtr ''struct thermal_cooling_device''),
    Plain ''trig'' (TPtr ''struct led_trigger''),
    Plain ''charging_trig'' (TPtr ''struct led_trigger''),
    Plain ''full_trig'' (TPtr ''struct led_trigger''),
    Plain ''charging_blink_full_solid_trig'' (TPtr ''struct led_trigger''),
    Plain ''charging_orange_full_green_trig'' (TPtr ''struct led_trigger'')]"

definition st_regulator_dev :: ty where
  "st_regulator_dev = TStruct ''regulator_dev'' False [
    Plain ''desc'' (TPtr ''struct regulator_desc''),
    Plain ''exclusive'' (TInt I32 True),
    Plain ''use_count'' td_u32,
    Plain ''open_count'' td_u32,
    Plain ''bypass_count'' td_u32,
    Plain ''list'' st_list_head,
    Plain ''consumer_list'' st_list_head,
    Plain ''coupling_desc'' st_coupling_desc,
    Plain ''notifier'' st_blocking_notifier_head,
    Plain ''mutex'' st_ww_mutex,
    Plain ''mutex_owner'' (TPtr ''struct task_struct''),
    Plain ''ref_cnt'' (TInt I32 True),
    Plain ''owner'' (TPtr ''struct module''),
    Plain ''dev'' st_device,
    Plain ''bdev'' st_device,
    Plain ''constraints'' (TPtr ''struct regulation_constraints''),
    Plain ''supply'' (TPtr ''struct regulator''),
    Plain ''supply_name'' (TPtr ''char''),
    Plain ''regmap'' (TPtr ''struct regmap''),
    Plain ''disable_work'' st_delayed_work,
    Plain ''reg_data'' (TPtr ''void''),
    Plain ''debugfs'' (TPtr ''struct dentry''),
    Plain ''ena_pin'' (TPtr ''struct regulator_enable_gpio''),
    Bits ''ena_gpio_state'' (TInt I32 False) 1,
    Bits ''constraints_pending'' (TInt I32 False) 1,
    Bits ''is_switch'' (TInt I32 False) 1,
    Plain ''last_off'' td_ktime_t,
    Plain ''cached_err'' (TInt I32 True),
    Plain ''use_cached_err'' td_bool,
    Plain ''err_lock'' td_spinlock_t,
    Plain ''pw_requested_mW'' (TInt I32 True),
    Plain ''supply_fwd_nb'' st_notifier_block]"

definition st_rfkill :: ty where
  "st_rfkill = TStruct ''rfkill'' False [
    Plain ''lock'' td_spinlock_t,
    Plain ''type'' (TEnum ''rfkill_type'' I32),
    Plain ''state'' (TInt I64 False),
    Plain ''hard_block_reasons'' (TInt I64 False),
    Plain ''idx'' td_u32,
    Plain ''registered'' td_bool,
    Plain ''persistent'' td_bool,
    Plain ''polling_paused'' td_bool,
    Plain ''suspended'' td_bool,
    Plain ''need_sync'' td_bool,
    Plain ''ops'' (TPtr ''struct rfkill_ops''),
    Plain ''data'' (TPtr ''void''),
    Plain ''led_trigger'' st_led_trigger,
    Plain ''ledtrigname'' (TPtr ''char''),
    Plain ''dev'' st_device,
    Plain ''node'' st_list_head,
    Plain ''poll_work'' st_delayed_work,
    Plain ''uevent_work'' st_work_struct,
    Plain ''sync_work'' st_work_struct,
    Plain ''name'' (TArr (TInt I8 True) 0)]"

definition st_rio_dev :: ty where
  "st_rio_dev = TStruct ''rio_dev'' False [
    Plain ''global_list'' st_list_head,
    Plain ''net_list'' st_list_head,
    Plain ''net'' (TPtr ''struct rio_net''),
    Plain ''do_enum'' td_bool,
    Plain ''did'' td_u16,
    Plain ''vid'' td_u16,
    Plain ''device_rev'' td_u32,
    Plain ''asm_did'' td_u16,
    Plain ''asm_vid'' td_u16,
    Plain ''asm_rev'' td_u16,
    Plain ''efptr'' td_u16,
    Plain ''pef'' td_u32,
    Plain ''swpinfo'' td_u32,
    Plain ''src_ops'' td_u32,
    Plain ''dst_ops'' td_u32,
    Plain ''comp_tag'' td_u32,
    Plain ''phys_efptr'' td_u32,
    Plain ''phys_rmap'' td_u32,
    Plain ''em_efptr'' td_u32,
    Plain ''dma_mask'' td_u64,
    Plain ''driver'' (TPtr ''struct rio_driver''),
    Plain ''dev'' st_device,
    Plain ''riores'' (TArr st_resource 16),
    Plain ''pwcback'' (TFun ''int (*)(struct rio_dev *, union rio_pw_msg *, int)''),
    Plain ''destid'' td_u16,
    Plain ''hopcount'' td_u8,
    Plain ''prev'' (TPtr ''struct rio_dev''),
    Plain ''state'' td_atomic_t,
    Plain ''rswitch'' (TArr st_rio_switch 0)]"

definition st_rproc :: ty where
  "st_rproc = TStruct ''rproc'' False [
    Plain ''node'' st_list_head,
    Plain ''domain'' (TPtr ''struct iommu_domain''),
    Plain ''name'' (TPtr ''char''),
    Plain ''firmware'' (TPtr ''char''),
    Plain ''priv'' (TPtr ''void''),
    Plain ''ops'' (TPtr ''struct rproc_ops''),
    Plain ''dev'' st_device,
    Plain ''power'' td_atomic_t,
    Plain ''state'' (TInt I32 False),
    Plain ''dump_conf'' (TEnum ''rproc_dump_mechanism'' I32),
    Plain ''lock'' st_mutex,
    Plain ''dbg_dir'' (TPtr ''struct dentry''),
    Plain ''traces'' st_list_head,
    Plain ''num_traces'' (TInt I32 True),
    Plain ''carveouts'' st_list_head,
    Plain ''mappings'' st_list_head,
    Plain ''bootaddr'' td_u64,
    Plain ''rvdevs'' st_list_head,
    Plain ''subdevs'' st_list_head,
    Plain ''notifyids'' st_idr,
    Plain ''index'' (TInt I32 True),
    Plain ''crash_handler'' st_work_struct,
    Plain ''crash_cnt'' (TInt I32 False),
    Plain ''recovery_disabled'' td_bool,
    Plain ''max_notifyid'' (TInt I32 True),
    Plain ''table_ptr'' (TPtr ''struct resource_table''),
    Plain ''clean_table'' (TPtr ''struct resource_table''),
    Plain ''cached_table'' (TPtr ''struct resource_table''),
    Plain ''table_sz'' td_size_t,
    Plain ''has_iommu'' td_bool,
    Plain ''auto_boot'' td_bool,
    Plain ''sysfs_read_only'' td_bool,
    Plain ''dump_segments'' st_list_head,
    Plain ''nb_vdev'' (TInt I32 True),
    Plain ''elf_class'' td_u8,
    Plain ''elf_machine'' td_u16,
    Plain ''cdev'' st_cdev,
    Plain ''cdev_put_on_release'' td_bool,
    Plain ''features'' (TArr (TInt I64 False) 1)]"

definition st_rtc_device :: ty where
  "st_rtc_device = TStruct ''rtc_device'' False [
    Plain ''dev'' st_device,
    Plain ''owner'' (TPtr ''struct module''),
    Plain ''id'' (TInt I32 True),
    Plain ''ops'' (TPtr ''struct rtc_class_ops''),
    Plain ''ops_lock'' st_mutex,
    Plain ''char_dev'' st_cdev,
    Plain ''flags'' (TInt I64 False),
    Plain ''irq_data'' (TInt I64 False),
    Plain ''irq_lock'' td_spinlock_t,
    Plain ''irq_queue'' td_wait_queue_head_t,
    Plain ''async_queue'' (TPtr ''struct fasync_struct''),
    Plain ''irq_freq'' (TInt I32 True),
    Plain ''max_user_freq'' (TInt I32 True),
    Plain ''timerqueue'' st_timerqueue_head,
    Plain ''aie_timer'' st_rtc_timer,
    Plain ''uie_rtctimer'' st_rtc_timer,
    Plain ''pie_timer'' st_hrtimer,
    Plain ''pie_enabled'' (TInt I32 True),
    Plain ''irqwork'' st_work_struct,
    Plain ''set_offset_nsec'' (TInt I64 False),
    Plain ''features'' (TArr (TInt I64 False) 1),
    Plain ''range_min'' td_time64_t,
    Plain ''range_max'' td_timeu64_t,
    Plain ''alarm_offset_max'' td_timeu64_t,
    Plain ''start_secs'' td_time64_t,
    Plain ''offset_secs'' td_time64_t,
    Plain ''set_start_time'' td_bool]"

definition st_scsi_device :: ty where
  "st_scsi_device = TStruct ''scsi_device'' False [
    Plain ''host'' (TPtr ''struct Scsi_Host''),
    Plain ''request_queue'' (TPtr ''struct request_queue''),
    Plain ''siblings'' st_list_head,
    Plain ''same_target_siblings'' st_list_head,
    Plain ''budget_map'' st_sbitmap,
    Plain ''device_blocked'' td_atomic_t,
    Plain ''restarts'' td_atomic_t,
    Plain ''list_lock'' td_spinlock_t,
    Plain ''starved_entry'' st_list_head,
    Plain ''queue_depth'' (TInt I16 False),
    Plain ''max_queue_depth'' (TInt I16 False),
    Plain ''last_queue_full_depth'' (TInt I16 False),
    Plain ''last_queue_full_count'' (TInt I16 False),
    Plain ''last_queue_full_time'' (TInt I64 False),
    Plain ''queue_ramp_up_period'' (TInt I64 False),
    Plain ''last_queue_ramp_up'' (TInt I64 False),
    Plain ''id'' (TInt I32 False),
    Plain ''channel'' (TInt I32 False),
    Plain ''lun'' td_u64,
    Plain ''manufacturer'' (TInt I32 False),
    Plain ''sector_size'' (TInt I32 False),
    Plain ''hostdata'' (TPtr ''void''),
    Plain ''type'' (TInt I8 False),
    Plain ''scsi_level'' (TInt I8 True),
    Plain ''inq_periph_qual'' (TInt I8 True),
    Plain ''inquiry_mutex'' st_mutex,
    Plain ''inquiry_len'' (TInt I8 False),
    Plain ''inquiry'' (TPtr ''unsigned char''),
    Plain ''vendor'' (TPtr ''char''),
    Plain ''model'' (TPtr ''char''),
    Plain ''rev'' (TPtr ''char''),
    Plain ''vpd_pg0'' (TPtr ''struct scsi_vpd''),
    Plain ''vpd_pg83'' (TPtr ''struct scsi_vpd''),
    Plain ''vpd_pg80'' (TPtr ''struct scsi_vpd''),
    Plain ''vpd_pg89'' (TPtr ''struct scsi_vpd''),
    Plain ''vpd_pgb0'' (TPtr ''struct scsi_vpd''),
    Plain ''vpd_pgb1'' (TPtr ''struct scsi_vpd''),
    Plain ''vpd_pgb2'' (TPtr ''struct scsi_vpd''),
    Plain ''vpd_pgb7'' (TPtr ''struct scsi_vpd''),
    Plain ''sdev_target'' (TPtr ''struct scsi_target''),
    Plain ''sdev_bflags'' td_blist_flags_t,
    Plain ''eh_timeout'' (TInt I32 False),
    Bits ''manage_system_start_stop'' (TInt I32 False) 1,
    Bits ''manage_runtime_start_stop'' (TInt I32 False) 1,
    Bits ''manage_shutdown'' (TInt I32 False) 1,
    Bits ''manage_restart'' (TInt I32 False) 1,
    Bits ''force_runtime_start_on_system_start'' (TInt I32 False) 1,
    Bits ''is_ata'' (TInt I32 False) 1,
    Bits ''removable'' (TInt I32 False) 1,
    Bits ''changed'' (TInt I32 False) 1,
    Bits ''busy'' (TInt I32 False) 1,
    Bits ''lockable'' (TInt I32 False) 1,
    Bits ''locked'' (TInt I32 False) 1,
    Bits ''borken'' (TInt I32 False) 1,
    Bits ''disconnect'' (TInt I32 False) 1,
    Bits ''soft_reset'' (TInt I32 False) 1,
    Bits ''sdtr'' (TInt I32 False) 1,
    Bits ''wdtr'' (TInt I32 False) 1,
    Bits ''ppr'' (TInt I32 False) 1,
    Bits ''tagged_supported'' (TInt I32 False) 1,
    Bits ''simple_tags'' (TInt I32 False) 1,
    Bits ''was_reset'' (TInt I32 False) 1,
    Bits ''expecting_cc_ua'' (TInt I32 False) 1,
    Bits ''use_10_for_rw'' (TInt I32 False) 1,
    Bits ''use_10_for_ms'' (TInt I32 False) 1,
    Bits ''set_dbd_for_ms'' (TInt I32 False) 1,
    Bits ''read_before_ms'' (TInt I32 False) 1,
    Bits ''no_report_opcodes'' (TInt I32 False) 1,
    Bits ''no_write_same'' (TInt I32 False) 1,
    Bits ''use_16_for_rw'' (TInt I32 False) 1,
    Bits ''use_16_for_sync'' (TInt I32 False) 1,
    Bits ''skip_ms_page_8'' (TInt I32 False) 1,
    Bits ''skip_ms_page_3f'' (TInt I32 False) 1,
    Bits ''skip_vpd_pages'' (TInt I32 False) 1,
    Bits ''try_vpd_pages'' (TInt I32 False) 1,
    Bits ''use_192_bytes_for_3f'' (TInt I32 False) 1,
    Bits ''no_start_on_add'' (TInt I32 False) 1,
    Bits ''allow_restart'' (TInt I32 False) 1,
    Bits ''start_stop_pwr_cond'' (TInt I32 False) 1,
    Bits ''no_uld_attach'' (TInt I32 False) 1,
    Bits ''select_no_atn'' (TInt I32 False) 1,
    Bits ''fix_capacity'' (TInt I32 False) 1,
    Bits ''guess_capacity'' (TInt I32 False) 1,
    Bits ''retry_hwerror'' (TInt I32 False) 1,
    Bits ''last_sector_bug'' (TInt I32 False) 1,
    Bits ''no_read_disc_info'' (TInt I32 False) 1,
    Bits ''no_read_capacity_16'' (TInt I32 False) 1,
    Bits ''try_rc_10_first'' (TInt I32 False) 1,
    Bits ''security_supported'' (TInt I32 False) 1,
    Bits ''is_visible'' (TInt I32 False) 1,
    Bits ''wce_default_on'' (TInt I32 False) 1,
    Bits ''no_dif'' (TInt I32 False) 1,
    Bits ''broken_fua'' (TInt I32 False) 1,
    Bits ''lun_in_cdb'' (TInt I32 False) 1,
    Bits ''unmap_limit_for_ws'' (TInt I32 False) 1,
    Bits ''rpm_autosuspend'' (TInt I32 False) 1,
    Bits ''ignore_media_change'' (TInt I32 False) 1,
    Bits ''silence_suspend'' (TInt I32 False) 1,
    Bits ''no_vpd_size'' (TInt I32 False) 1,
    Bits ''cdl_supported'' (TInt I32 False) 1,
    Bits ''cdl_enable'' (TInt I32 False) 1,
    Plain ''queue_stopped'' (TInt I32 False),
    Plain ''offline_already'' td_bool,
    Plain ''ua_new_media_ctr'' td_atomic_t,
    Plain ''ua_por_ctr'' td_atomic_t,
    Plain ''disk_events_disable_depth'' td_atomic_t,
    Plain ''supported_events'' (TArr (TInt I64 False) 1),
    Plain ''pending_events'' (TArr (TInt I64 False) 1),
    Plain ''event_list'' st_list_head,
    Plain ''event_work'' st_work_struct,
    Plain ''max_device_blocked'' (TInt I32 False),
    Plain ''iorequest_cnt'' td_atomic_t,
    Plain ''iodone_cnt'' td_atomic_t,
    Plain ''ioerr_cnt'' td_atomic_t,
    Plain ''iotmo_cnt'' td_atomic_t,
    Plain ''sdev_gendev'' st_device,
    Plain ''sdev_dev'' st_device,
    Plain ''requeue_work'' st_work_struct,
    Plain ''handler'' (TPtr ''struct scsi_device_handler''),
    Plain ''handler_data'' (TPtr ''void''),
    Plain ''dma_drain_len'' td_size_t,
    Plain ''dma_drain_buf'' (TPtr ''void''),
    Plain ''sg_timeout'' (TInt I32 False),
    Plain ''sg_reserved_size'' (TInt I32 False),
    Plain ''bsg_dev'' (TPtr ''struct bsg_device''),
    Plain ''access_state'' (TInt I8 False),
    Plain ''state_mutex'' st_mutex,
    Plain ''sdev_state'' (TEnum ''scsi_device_state'' I32),
    Plain ''quiesced_by'' (TPtr ''struct task_struct''),
    Plain ''sdev_data'' (TArr (TInt I64 False) 0)]"

definition st_scsi_disk :: ty where
  "st_scsi_disk = TStruct ''scsi_disk'' False [
    Plain ''device'' (TPtr ''struct scsi_device''),
    Plain ''disk_dev'' st_device,
    Plain ''disk'' (TPtr ''struct gendisk''),
    Plain ''opal_dev'' (TPtr ''struct opal_dev''),
    Plain ''early_zone_info'' st_zoned_disk_info,
    Plain ''zone_info'' st_zoned_disk_info,
    Plain ''zones_optimal_open'' td_u32,
    Plain ''zones_optimal_nonseq'' td_u32,
    Plain ''zones_max_open'' td_u32,
    Plain ''zone_starting_lba_gran'' td_u32,
    Plain ''openers'' td_atomic_t,
    Plain ''capacity'' td_sector_t,
    Plain ''max_retries'' (TInt I32 True),
    Plain ''min_xfer_blocks'' td_u32,
    Plain ''max_xfer_blocks'' td_u32,
    Plain ''opt_xfer_blocks'' td_u32,
    Plain ''max_ws_blocks'' td_u32,
    Plain ''max_unmap_blocks'' td_u32,
    Plain ''unmap_granularity'' td_u32,
    Plain ''unmap_alignment'' td_u32,
    Plain ''max_atomic'' td_u32,
    Plain ''atomic_alignment'' td_u32,
    Plain ''atomic_granularity'' td_u32,
    Plain ''max_atomic_with_boundary'' td_u32,
    Plain ''max_atomic_boundary'' td_u32,
    Plain ''index'' td_u32,
    Plain ''physical_block_size'' (TInt I32 False),
    Plain ''max_medium_access_timeouts'' (TInt I32 False),
    Plain ''medium_access_timed_out'' (TInt I32 False),
    Plain ''permanent_stream_count'' td_u16,
    Plain ''media_present'' td_u8,
    Plain ''write_prot'' td_u8,
    Plain ''protection_type'' td_u8,
    Plain ''provisioning_mode'' td_u8,
    Plain ''zeroing_mode'' td_u8,
    Plain ''nr_actuators'' td_u8,
    Plain ''suspended'' td_bool,
    Bits ''ATO'' (TInt I32 False) 1,
    Bits ''cache_override'' (TInt I32 False) 1,
    Bits ''WCE'' (TInt I32 False) 1,
    Bits ''RCD'' (TInt I32 False) 1,
    Bits ''DPOFUA'' (TInt I32 False) 1,
    Bits ''first_scan'' (TInt I32 False) 1,
    Bits ''lbpme'' (TInt I32 False) 1,
    Bits ''lbprz'' (TInt I32 False) 1,
    Bits ''lbpu'' (TInt I32 False) 1,
    Bits ''lbpws'' (TInt I32 False) 1,
    Bits ''lbpws10'' (TInt I32 False) 1,
    Bits ''lbpvpd'' (TInt I32 False) 1,
    Bits ''ws10'' (TInt I32 False) 1,
    Bits ''ws16'' (TInt I32 False) 1,
    Bits ''rc_basis'' (TInt I32 False) 2,
    Bits ''zoned'' (TInt I32 False) 2,
    Bits ''urswrz'' (TInt I32 False) 1,
    Bits ''security'' (TInt I32 False) 1,
    Bits ''ignore_medium_access_errors'' (TInt I32 False) 1,
    Bits ''rscs'' (TInt I32 False) 1,
    Bits ''use_atomic_write_boundary'' (TInt I32 False) 1]"

definition st_scsi_target :: ty where
  "st_scsi_target = TStruct ''scsi_target'' False [
    Plain ''starget_sdev_user'' (TPtr ''struct scsi_device''),
    Plain ''siblings'' st_list_head,
    Plain ''devices'' st_list_head,
    Plain ''dev'' st_device,
    Plain ''reap_ref'' st_kref,
    Plain ''channel'' (TInt I32 False),
    Plain ''id'' (TInt I32 False),
    Bits ''create'' (TInt I32 False) 1,
    Bits ''single_lun'' (TInt I32 False) 1,
    Bits ''pdt_1f_for_no_lun'' (TInt I32 False) 1,
    Bits ''no_report_luns'' (TInt I32 False) 1,
    Bits ''expecting_lun_change'' (TInt I32 False) 1,
    Plain ''target_busy'' td_atomic_t,
    Plain ''target_blocked'' td_atomic_t,
    Plain ''can_queue'' (TInt I32 False),
    Plain ''max_target_blocked'' (TInt I32 False),
    Plain ''scsi_level'' (TInt I8 True),
    Plain ''state'' (TEnum ''scsi_target_state'' I32),
    Plain ''hostdata'' (TPtr ''void''),
    Plain ''starget_data'' (TArr (TInt I64 False) 0)]"

definition st_sdio_func :: ty where
  "st_sdio_func = TStruct ''sdio_func'' False [
    Plain ''card'' (TPtr ''struct mmc_card''),
    Plain ''dev'' st_device,
    Plain ''irq_handler'' (TPtr ''sdio_irq_handler_t''),
    Plain ''num'' (TInt I32 False),
    Plain ''class'' (TInt I8 False),
    Plain ''vendor'' (TInt I16 False),
    Plain ''device'' (TInt I16 False),
    Plain ''max_blksize'' (TInt I32 False),
    Plain ''cur_blksize'' (TInt I32 False),
    Plain ''enable_timeout'' (TInt I32 False),
    Plain ''state'' (TInt I32 False),
    Plain ''tmpbuf'' (TPtr ''u8''),
    Plain ''major_rev'' td_u8,
    Plain ''minor_rev'' td_u8,
    Plain ''num_info'' (TInt I32 False),
    Plain ''info'' (TPtr ''char *''),
    Plain ''tuples'' (TPtr ''struct sdio_func_tuple'')]"

definition st_serio :: ty where
  "st_serio = TStruct ''serio'' False [
    Plain ''port_data'' (TPtr ''void''),
    Plain ''name'' (TArr (TInt I8 True) 32),
    Plain ''phys'' (TArr (TInt I8 True) 32),
    Plain ''firmware_id'' (TArr (TInt I8 True) 128),
    Plain ''manual_bind'' td_bool,
    Plain ''id'' st_serio_device_id,
    Plain ''lock'' td_spinlock_t,
    Plain ''write'' (TFun ''int (*)(struct serio *, unsigned char)''),
    Plain ''open'' (TFun ''int (*)(struct serio *)''),
    Plain ''close'' (TFun ''void (*)(struct serio *)''),
    Plain ''start'' (TFun ''int (*)(struct serio *)''),
    Plain ''stop'' (TFun ''void (*)(struct serio *)''),
    Plain ''parent'' (TPtr ''struct serio''),
    Plain ''child_node'' st_list_head,
    Plain ''children'' st_list_head,
    Plain ''depth'' (TInt I32 False),
    Plain ''drv'' (TPtr ''struct serio_driver''),
    Plain ''drv_mutex'' st_mutex,
    Plain ''dev'' st_device,
    Plain ''node'' st_list_head,
    Plain ''ps2_cmd_mutex'' (TPtr ''struct mutex'')]"

definition st_spi_device :: ty where
  "st_spi_device = TStruct ''spi_device'' False [
    Plain ''dev'' st_device,
    Plain ''controller'' (TPtr ''struct spi_controller''),
    Plain ''max_speed_hz'' td_u32,
    Plain ''bits_per_word'' td_u8,
    Plain ''rt'' td_bool,
    Plain ''mode'' td_u32,
    Plain ''irq'' (TInt I32 True),
    Plain ''controller_state'' (TPtr ''void''),
    Plain ''controller_data'' (TPtr ''void''),
    Plain ''modalias'' (TArr (TInt I8 True) 32),
    Plain ''pcpu_statistics'' (TPtr ''struct spi_statistics''),
    Plain ''word_delay'' st_spi_delay,
    Plain ''cs_setup'' st_spi_delay,
    Plain ''cs_hold'' st_spi_delay,
    Plain ''cs_inactive'' st_spi_delay,
    Plain ''chip_select'' (TArr td_u8 4),
    Plain ''num_chipselect'' td_u8,
    Bits ''cs_index_mask'' td_u32 4,
    Plain ''cs_gpiod'' (TArr (TPtr ''struct gpio_desc'') 4),
    Plain ''tx_lane_map'' (TArr td_u8 8),
    Plain ''num_tx_lanes'' td_u8,
    Plain ''rx_lane_map'' (TArr td_u8 8),
    Plain ''num_rx_lanes'' td_u8]"

definition st_thermal_cooling_device :: ty where
  "st_thermal_cooling_device = TStruct ''thermal_cooling_device'' False [
    Plain ''id'' (TInt I32 True),
    Plain ''type'' (TPtr ''char''),
    Plain ''max_state'' (TInt I64 False),
    Plain ''device'' st_device,
    Plain ''np'' (TPtr ''struct device_node''),
    Plain ''devdata'' (TPtr ''void''),
    Plain ''stats'' (TPtr ''void''),
    Plain ''ops'' (TPtr ''struct thermal_cooling_device_ops''),
    Plain ''updated'' td_bool,
    Plain ''lock'' st_mutex,
    Plain ''thermal_instances'' st_list_head,
    Plain ''node'' st_list_head]"

definition st_tpm_chip :: ty where
  "st_tpm_chip = TStruct ''tpm_chip'' False [
    Plain ''dev'' st_device,
    Plain ''devs'' st_device,
    Plain ''cdev'' st_cdev,
    Plain ''cdevs'' st_cdev,
    Plain ''ops_sem'' st_rw_semaphore,
    Plain ''ops'' (TPtr ''struct tpm_class_ops''),
    Plain ''log'' st_tpm_bios_log,
    Plain ''bin_log_seqops'' st_tpm_chip_seqops,
    Plain ''ascii_log_seqops'' st_tpm_chip_seqops,
    Plain ''flags'' (TInt I32 False),
    Plain ''dev_num'' (TInt I32 True),
    Plain ''is_open'' (TInt I64 False),
    Plain ''hwrng_name'' (TArr (TInt I8 True) 64),
    Plain ''hwrng'' st_hwrng,
    Plain ''tpm_mutex'' st_mutex,
    Plain ''timeout_a'' (TInt I64 False),
    Plain ''timeout_b'' (TInt I64 False),
    Plain ''timeout_c'' (TInt I64 False),
    Plain ''timeout_d'' (TInt I64 False),
    Plain ''timeout_adjusted'' td_bool,
    Plain ''duration'' (TArr (TInt I64 False) 4),
    Plain ''duration_adjusted'' td_bool,
    Plain ''bios_dir'' (TPtr ''struct dentry''),
    Plain ''groups'' (TArr (TPtr ''struct attribute_group'') 8),
    Plain ''groups_cnt'' (TInt I32 False),
    Plain ''nr_allocated_banks'' td_u32,
    Plain ''allocated_banks'' (TArr st_tpm_bank_info 8),
    Plain ''acpi_dev_handle'' td_acpi_handle,
    Plain ''ppi_version'' (TArr (TInt I8 True) 4),
    Plain ''work_space'' st_tpm_space,
    Plain ''last_cc'' td_u32,
    Plain ''nr_commands'' td_u32,
    Plain ''cc_attrs_tbl'' (TPtr ''u32''),
    Plain ''locality'' (TInt I32 True)]"

definition st_unix_sock :: ty where
  "st_unix_sock = TStruct ''unix_sock'' False [
    Plain ''sk'' st_sock,
    Plain ''addr'' (TPtr ''struct unix_address''),
    Plain ''path'' st_path,
    Plain ''iolock'' st_mutex,
    Plain ''bindlock'' st_mutex,
    Plain ''peer'' (TPtr ''struct sock''),
    Plain ''listener'' (TPtr ''struct sock''),
    Plain ''vertex'' (TPtr ''struct unix_vertex''),
    Plain ''lock'' td_spinlock_t,
    Bits '''' (TInt I64 True) 64,
    Bits '''' (TInt I64 True) 64,
    Bits '''' (TInt I64 True) 64,
    Bits '''' (TInt I64 True) 64,
    Plain ''peer_wq'' st_socket_wq,
    Plain ''peer_wake'' td_wait_queue_entry_t,
    Plain ''scm_stat'' st_scm_stat,
    Plain ''inq_len'' (TInt I32 True),
    Plain ''recvmsg_inq'' td_bool,
    Plain ''oob_skb'' (TPtr ''struct sk_buff''),
    Bits '''' (TInt I64 True) 64,
    Bits '''' (TInt I64 True) 64,
    Bits '''' (TInt I64 True) 64,
    Bits '''' (TInt I64 True) 64,
    Bits '''' (TInt I64 True) 64,
    Bits '''' (TInt I64 True) 64,
    Bits '''' (TInt I64 True) 64]"

definition st_usb_device :: ty where
  "st_usb_device = TStruct ''usb_device'' False [
    Plain ''devnum'' (TInt I32 True),
    Plain ''devpath'' (TArr (TInt I8 True) 16),
    Plain ''route'' td_u32,
    Plain ''state'' (TEnum ''usb_device_state'' I32),
    Plain ''speed'' (TEnum ''usb_device_speed'' I32),
    Plain ''rx_lanes'' (TInt I32 False),
    Plain ''tx_lanes'' (TInt I32 False),
    Plain ''ssp_rate'' (TEnum ''usb_ssp_rate'' I32),
    Plain ''tt'' (TPtr ''struct usb_tt''),
    Plain ''ttport'' (TInt I32 True),
    Plain ''toggle'' (TArr (TInt I32 False) 2),
    Plain ''parent'' (TPtr ''struct usb_device''),
    Plain ''bus'' (TPtr ''struct usb_bus''),
    Plain ''ep0'' st_usb_host_endpoint,
    Plain ''dev'' st_device,
    Plain ''descriptor'' st_usb_device_descriptor,
    Plain ''bos'' (TPtr ''struct usb_host_bos''),
    Plain ''config'' (TPtr ''struct usb_host_config''),
    Plain ''actconfig'' (TPtr ''struct usb_host_config''),
    Plain ''ep_in'' (TArr (TPtr ''struct usb_host_endpoint'') 16),
    Plain ''ep_out'' (TArr (TPtr ''struct usb_host_endpoint'') 16),
    Plain ''rawdescriptors'' (TPtr ''char *''),
    Plain ''bus_mA'' (TInt I16 False),
    Plain ''portnum'' td_u8,
    Plain ''level'' td_u8,
    Plain ''devaddr'' td_u8,
    Bits ''can_submit'' (TInt I32 False) 1,
    Bits ''persist_enabled'' (TInt I32 False) 1,
    Bits ''reset_in_progress'' (TInt I32 False) 1,
    Bits ''have_langid'' (TInt I32 False) 1,
    Bits ''authorized'' (TInt I32 False) 1,
    Bits ''authenticated'' (TInt I32 False) 1,
    Bits ''lpm_capable'' (TInt I32 False) 1,
    Bits ''lpm_devinit_allow'' (TInt I32 False) 1,
    Bits ''usb2_hw_lpm_capable'' (TInt I32 False) 1,
    Bits ''usb2_hw_lpm_besl_capable'' (TInt I32 False) 1,
    Bits ''usb2_hw_lpm_enabled'' (TInt I32 False) 1,
    Bits ''usb2_hw_lpm_allowed'' (TInt I32 False) 1,
    Bits ''usb3_lpm_u1_enabled'' (TInt I32 False) 1,
    Bits ''usb3_lpm_u2_enabled'' (TInt I32 False) 1,
    Plain ''string_langid'' (TInt I32 True),
    Plain ''product'' (TPtr ''char''),
    Plain ''manufacturer'' (TPtr ''char''),
    Plain ''serial'' (TPtr ''char''),
    Plain ''filelist'' st_list_head,
    Plain ''maxchild'' (TInt I32 True),
    Plain ''quirks'' td_u32,
    Plain ''urbnum'' td_atomic_t,
    Plain ''active_duration'' (TInt I64 False),
    Plain ''connect_time'' (TInt I64 False),
    Bits ''do_remote_wakeup'' (TInt I32 False) 1,
    Bits ''reset_resume'' (TInt I32 False) 1,
    Bits ''port_is_suspended'' (TInt I32 False) 1,
    Bits ''offload_pm_locked'' (TInt I32 False) 1,
    Plain ''offload_usage'' (TInt I32 True),
    Plain ''offload_lock'' td_spinlock_t,
    Plain ''tunnel_mode'' (TEnum ''usb_link_tunnel_mode'' I32),
    Plain ''usb4_link'' (TPtr ''struct device_link''),
    Plain ''slot_id'' (TInt I32 True),
    Plain ''l1_params'' st_usb2_lpm_parameters,
    Plain ''u1_params'' st_usb3_lpm_parameters,
    Plain ''u2_params'' st_usb3_lpm_parameters,
    Plain ''lpm_disable_count'' (TInt I32 False),
    Plain ''hub_delay'' td_u16,
    Bits ''use_generic_driver'' (TInt I32 False) 1]"

definition st_usb_gadget :: ty where
  "st_usb_gadget = TStruct ''usb_gadget'' False [
    Plain ''work'' st_work_struct,
    Plain ''udc'' (TPtr ''struct usb_udc''),
    Plain ''ops'' (TPtr ''struct usb_gadget_ops''),
    Plain ''ep0'' (TPtr ''struct usb_ep''),
    Plain ''ep_list'' st_list_head,
    Plain ''speed'' (TEnum ''usb_device_speed'' I32),
    Plain ''max_speed'' (TEnum ''usb_device_speed'' I32),
    Plain ''ssp_rate'' (TEnum ''usb_ssp_rate'' I32),
    Plain ''max_ssp_rate'' (TEnum ''usb_ssp_rate'' I32),
    Plain ''state'' (TEnum ''usb_device_state'' I32),
    Plain ''state_lock'' td_spinlock_t,
    Plain ''teardown'' td_bool,
    Plain ''name'' (TPtr ''char''),
    Plain ''dev'' st_device,
    Plain ''isoch_delay'' (TInt I32 False),
    Plain ''out_epnum'' (TInt I32 False),
    Plain ''in_epnum'' (TInt I32 False),
    Plain ''mA'' (TInt I32 False),
    Plain ''otg_caps'' (TPtr ''struct usb_otg_caps''),
    Bits ''sg_supported'' (TInt I32 False) 1,
    Bits ''is_otg'' (TInt I32 False) 1,
    Bits ''is_a_peripheral'' (TInt I32 False) 1,
    Bits ''b_hnp_enable'' (TInt I32 False) 1,
    Bits ''a_hnp_support'' (TInt I32 False) 1,
    Bits ''a_alt_hnp_support'' (TInt I32 False) 1,
    Bits ''hnp_polling_support'' (TInt I32 False) 1,
    Bits ''host_request_flag'' (TInt I32 False) 1,
    Bits ''quirk_ep_out_aligned_size'' (TInt I32 False) 1,
    Bits ''quirk_altset_not_supp'' (TInt I32 False) 1,
    Bits ''quirk_stall_not_supp'' (TInt I32 False) 1,
    Bits ''quirk_zlp_not_supp'' (TInt I32 False) 1,
    Bits ''quirk_avoids_skb_reserve'' (TInt I32 False) 1,
    Bits ''is_selfpowered'' (TInt I32 False) 1,
    Bits ''deactivated'' (TInt I32 False) 1,
    Bits ''connected'' (TInt I32 False) 1,
    Bits ''lpm_capable'' (TInt I32 False) 1,
    Bits ''wakeup_capable'' (TInt I32 False) 1,
    Bits ''wakeup_armed'' (TInt I32 False) 1,
    Plain ''irq'' (TInt I32 True),
    Plain ''id_number'' (TInt I32 True)]"

definition st_usb_interface :: ty where
  "st_usb_interface = TStruct ''usb_interface'' False [
    Plain ''altsetting'' (TPtr ''struct usb_host_interface''),
    Plain ''cur_altsetting'' (TPtr ''struct usb_host_interface''),
    Plain ''num_altsetting'' (TInt I32 False),
    Plain ''intf_assoc'' (TPtr ''struct usb_interface_assoc_descriptor''),
    Plain ''minor'' (TInt I32 True),
    Plain ''condition'' (TEnum ''usb_interface_condition'' I32),
    Bits ''sysfs_files_created'' (TInt I32 False) 1,
    Bits ''ep_devs_created'' (TInt I32 False) 1,
    Bits ''unregistering'' (TInt I32 False) 1,
    Bits ''needs_remote_wakeup'' (TInt I32 False) 1,
    Bits ''needs_altsetting0'' (TInt I32 False) 1,
    Bits ''needs_binding'' (TInt I32 False) 1,
    Bits ''resetting_device'' (TInt I32 False) 1,
    Bits ''authorized'' (TInt I32 False) 1,
    Plain ''wireless_status'' (TEnum ''usb_wireless_status'' I32),
    Plain ''wireless_status_work'' st_work_struct,
    Plain ''dev'' st_device,
    Plain ''usb_dev'' (TPtr ''struct device''),
    Plain ''reset_ws'' st_work_struct]"

definition st_usb_port :: ty where
  "st_usb_port = TStruct ''usb_port'' False [
    Plain ''child'' (TPtr ''struct usb_device''),
    Plain ''dev'' st_device,
    Plain ''port_owner'' (TPtr ''struct usb_dev_state''),
    Plain ''peer'' (TPtr ''struct usb_port''),
    Plain ''connector'' (TPtr ''struct typec_connector''),
    Plain ''req'' (TPtr ''struct dev_pm_qos_request''),
    Plain ''connect_type'' (TEnum ''usb_port_connect_type'' I32),
    Plain ''state'' (TEnum ''usb_device_state'' I32),
    Plain ''state_kn'' (TPtr ''struct kernfs_node''),
    Plain ''location'' td_usb_port_location_t,
    Plain ''status_lock'' st_mutex,
    Plain ''over_current_count'' td_u32,
    Plain ''portnum'' td_u8,
    Plain ''quirks'' td_u32,
    Bits ''early_stop'' (TInt I32 False) 1,
    Bits ''ignore_event'' (TInt I32 False) 1,
    Bits ''is_superspeed'' (TInt I32 False) 1,
    Bits ''usb3_lpm_u1_permit'' (TInt I32 False) 1,
    Bits ''usb3_lpm_u2_permit'' (TInt I32 False) 1]"

definition st_virtio_device :: ty where
  "st_virtio_device = TStruct ''virtio_device'' False [
    Plain ''index'' (TInt I32 True),
    Plain ''failed'' td_bool,
    Plain ''config_core_enabled'' td_bool,
    Plain ''config_driver_disabled'' td_bool,
    Plain ''config_change_pending'' td_bool,
    Plain ''config_lock'' td_spinlock_t,
    Plain ''vqs_list_lock'' td_spinlock_t,
    Plain ''dev'' st_device,
    Plain ''id'' st_virtio_device_id,
    Plain ''config'' (TPtr ''struct virtio_config_ops''),
    Plain ''vringh_config'' (TPtr ''struct vringh_config_ops''),
    Plain ''map'' (TPtr ''struct virtio_map_ops''),
    Plain ''vqs'' st_list_head,
    Plain '''' (TUnion '''' False [
      Plain ''features'' td_u64,
      Plain ''features_array'' (TArr td_u64 2)]),
    Plain ''priv'' (TPtr ''void''),
    Plain ''vmap'' un_virtio_map]"

definition st_wiphy :: ty where
  "st_wiphy = TStruct ''wiphy'' False [
    Plain ''mtx'' st_mutex,
    Plain ''perm_addr'' (TArr td_u8 6),
    Plain ''addr_mask'' (TArr td_u8 6),
    Plain ''addresses'' (TPtr ''struct mac_address''),
    Plain ''mgmt_stypes'' (TPtr ''struct ieee80211_txrx_stypes''),
    Plain ''iface_combinations'' (TPtr ''struct ieee80211_iface_combination''),
    Plain ''n_iface_combinations'' (TInt I32 True),
    Plain ''software_iftypes'' td_u16,
    Plain ''n_addresses'' td_u16,
    Plain ''interface_modes'' td_u16,
    Plain ''max_acl_mac_addrs'' td_u16,
    Plain ''flags'' td_u32,
    Plain ''regulatory_flags'' td_u32,
    Plain ''features'' td_u32,
    Plain ''ext_features'' (TArr td_u8 9),
    Plain ''ap_sme_capa'' td_u32,
    Plain ''signal_type'' (TEnum ''cfg80211_signal_type'' I32),
    Plain ''bss_priv_size'' (TInt I32 True),
    Plain ''max_scan_ssids'' td_u8,
    Plain ''max_sched_scan_reqs'' td_u8,
    Plain ''max_sched_scan_ssids'' td_u8,
    Plain ''max_match_sets'' td_u8,
    Plain ''max_scan_ie_len'' td_u16,
    Plain ''max_sched_scan_ie_len'' td_u16,
    Plain ''max_sched_scan_plans'' td_u32,
    Plain ''max_sched_scan_plan_interval'' td_u32,
    Plain ''max_sched_scan_plan_iterations'' td_u32,
    Plain ''n_cipher_suites'' (TInt I32 True),
    Plain ''cipher_suites'' (TPtr ''u32''),
    Plain ''n_akm_suites'' (TInt I32 True),
    Plain ''akm_suites'' (TPtr ''u32''),
    Plain ''iftype_akm_suites'' (TPtr ''struct wiphy_iftype_akm_suites''),
    Plain ''num_iftype_akm_suites'' (TInt I32 False),
    Plain ''retry_short'' td_u8,
    Plain ''retry_long'' td_u8,
    Plain ''frag_threshold'' td_u32,
    Plain ''rts_threshold'' td_u32,
    Plain ''coverage_class'' td_u8,
    Plain ''fw_version'' (TArr (TInt I8 True) 32),
    Plain ''hw_version'' td_u32,
    Plain ''wowlan'' (TPtr ''struct wiphy_wowlan_support''),
    Plain ''wowlan_config'' (TPtr ''struct cfg80211_wowlan''),
    Plain ''max_remain_on_channel_duration'' td_u16,
    Plain ''max_num_pmkids'' td_u8,
    Plain ''available_antennas_tx'' td_u32,
    Plain ''available_antennas_rx'' td_u32,
    Plain ''probe_resp_offload'' td_u32,
    Plain ''extended_capabilities'' (TPtr ''u8''),
    Plain ''extended_capabilities_mask'' (TPtr ''u8''),
    Plain ''extended_capabilities_len'' td_u8,
    Plain ''iftype_ext_capab'' (TPtr ''struct wiphy_iftype_ext_capab''),
    Plain ''num_iftype_ext_capab'' (TInt I32 False),
    Plain ''privid'' (TPtr ''void''),
    Plain ''bands'' (TArr (TPtr ''struct ieee80211_supported_band'') 6),
    Plain ''reg_notifier'' (TFun ''void (*)(struct wiphy *, struct regulatory_request *)''),
    Plain ''radio_cfg'' (TPtr ''struct wiphy_radio_cfg''),
    Plain ''regd'' (TPtr ''struct ieee80211_regdomain''),
    Plain ''dev'' st_device,
    Plain ''registered'' td_bool,
    Plain ''debugfsdir'' (TPtr ''struct dentry''),
    Plain ''ht_capa_mod_mask'' (TPtr ''struct ieee80211_ht_cap''),
    Plain ''vht_capa_mod_mask'' (TPtr ''struct ieee80211_vht_cap''),
    Plain ''wdev_list'' st_list_head,
    Plain ''_net'' td_possible_net_t,
    Plain ''wext'' (TPtr ''struct iw_handler_def''),
    Plain ''coalesce'' (TPtr ''struct wiphy_coalesce_support''),
    Plain ''vendor_commands'' (TPtr ''struct wiphy_vendor_command''),
    Plain ''vendor_events'' (TPtr ''struct nl80211_vendor_cmd_info''),
    Plain ''n_vendor_commands'' (TInt I32 True),
    Plain ''n_vendor_events'' (TInt I32 True),
    Plain ''max_ap_assoc_sta'' td_u16,
    Plain ''max_num_csa_counters'' td_u8,
    Plain ''bss_param_support'' td_u32,
    Plain ''bss_select_support'' td_u32,
    Plain ''nan_supported_bands'' td_u8,
    Plain ''nan_capa'' st_wiphy_nan_capa,
    Plain ''txq_limit'' td_u32,
    Plain ''txq_memory_limit'' td_u32,
    Plain ''txq_quantum'' td_u32,
    Plain ''tx_queue_len'' (TInt I64 False),
    Bits ''support_mbssid'' td_u8 1,
    Bits ''support_only_he_mbssid'' td_u8 1,
    Plain ''pmsr_capa'' (TPtr ''struct cfg80211_pmsr_capabilities''),
    Plain ''tid_config_support'' (TStruct '''' False [
      Plain ''peer'' td_u64,
      Plain ''vif'' td_u64,
      Plain ''max_retry'' td_u8]),
    Plain ''max_data_retry_count'' td_u8,
    Plain ''sar_capa'' (TPtr ''struct cfg80211_sar_capa''),
    Plain ''rfkill'' (TPtr ''struct rfkill''),
    Plain ''mbssid_max_interfaces'' td_u8,
    Plain ''ema_max_profile_periodicity'' td_u8,
    Plain ''max_num_akm_suites'' td_u16,
    Plain ''hw_timestamp_max_peers'' td_u16,
    Plain ''n_radio'' (TInt I32 True),
    Plain ''radio'' (TPtr ''struct wiphy_radio''),
    Bits '''' (TInt I64 True) 64,
    Bits '''' (TInt I64 True) 64,
    Plain ''priv'' (TArr (TInt I8 True) 0)]"

definition st_wpan_phy :: ty where
  "st_wpan_phy = TStruct ''wpan_phy'' False [
    Plain ''privid'' (TPtr ''void''),
    Plain ''flags'' (TInt I64 False),
    Plain ''current_channel'' td_u8,
    Plain ''current_page'' td_u8,
    Plain ''supported'' st_wpan_phy_supported,
    Plain ''transmit_power'' td_s32,
    Plain ''cca'' st_wpan_phy_cca,
    Plain ''perm_extended_addr'' td___le64,
    Plain ''cca_ed_level'' td_s32,
    Plain ''symbol_duration'' td_u32,
    Plain ''lifs_period'' td_u16,
    Plain ''sifs_period'' td_u16,
    Plain ''dev'' st_device,
    Plain ''_net'' td_possible_net_t,
    Plain ''queue_lock'' td_spinlock_t,
    Plain ''ongoing_txs'' td_atomic_t,
    Plain ''hold_txs'' td_atomic_t,
    Plain ''sync_txq'' td_wait_queue_head_t,
    Plain ''filtering'' (TEnum ''ieee802154_filtering_level'' I32),
    Bits '''' (TInt I64 True) 64,
    Plain ''priv'' (TArr (TInt I8 True) 0)]"

definition st_xdp_sock :: ty where
  "st_xdp_sock = TStruct ''xdp_sock'' False [
    Plain ''sk'' st_sock,
    Bits '''' (TInt I64 True) 64,
    Bits '''' (TInt I64 True) 64,
    Bits '''' (TInt I64 True) 64,
    Plain ''rx'' (TPtr ''struct xsk_queue''),
    Plain ''dev'' (TPtr ''struct net_device''),
    Plain ''umem'' (TPtr ''struct xdp_umem''),
    Plain ''flush_node'' st_list_head,
    Plain ''pool'' (TPtr ''struct xsk_buff_pool''),
    Plain ''queue_id'' td_u16,
    Plain ''zc'' td_bool,
    Plain ''sg'' td_bool,
    Plain ''state'' (TEnum '''' I32),
    Bits '''' (TInt I64 True) 64,
    Plain ''tx'' (TPtr ''struct xsk_queue''),
    Plain ''tx_list'' st_list_head,
    Plain ''tx_budget_spent'' td_u32,
    Plain ''rx_dropped'' td_u64,
    Plain ''rx_queue_full'' td_u64,
    Plain ''skb'' (TPtr ''struct sk_buff''),
    Plain ''map_list'' st_list_head,
    Plain ''map_list_lock'' td_spinlock_t,
    Plain ''max_tx_budget'' td_u32,
    Plain ''mutex'' st_mutex,
    Plain ''fq_tmp'' (TPtr ''struct xsk_queue''),
    Plain ''cq_tmp'' (TPtr ''struct xsk_queue'')]"

definition st_xenbus_device :: ty where
  "st_xenbus_device = TStruct ''xenbus_device'' False [
    Plain ''devicetype'' (TPtr ''char''),
    Plain ''nodename'' (TPtr ''char''),
    Plain ''otherend'' (TPtr ''char''),
    Plain ''vanished'' td_bool,
    Plain ''otherend_id'' (TInt I32 True),
    Plain ''otherend_watch'' st_xenbus_watch,
    Plain ''dev'' st_device,
    Plain ''state'' (TEnum ''xenbus_state'' I32),
    Plain ''down'' st_completion,
    Plain ''work'' st_work_struct,
    Plain ''reclaim_sem'' st_semaphore,
    Plain ''event_channels'' td_atomic_t,
    Plain ''events'' td_atomic_t,
    Plain ''spurious_events'' td_atomic_t,
    Plain ''jiffies_eoi_delayed'' td_atomic_t,
    Plain ''spurious_threshold'' (TInt I32 False)]"

end
