(* ===== verification/VmlinuxStruct15.thy ===== *)
theory VmlinuxStruct15
  imports VmlinuxStruct14
begin

text \<open>
  Structures and unions of \<open>src/internal/ebpf/vmlinux.h\<close> (aggregates nested 10 and 11 deep), in the
  order of the header: \<open>st_<tag>\<close>, \<open>un_<tag>\<close>, and \<open>td_<name>\<close> for an aggregate with a type name.
\<close>

definition st_ata_link :: ty where
  "st_ata_link = TStruct ''ata_link'' False [
    Plain ''ap'' (TPtr ''struct ata_port''),
    Plain ''pmp'' (TInt I32 True),
    Plain ''tdev'' st_device,
    Plain ''active_tag'' (TInt I32 False),
    Plain ''sactive'' td_u32,
    Plain ''flags'' (TInt I32 False),
    Plain ''saved_scontrol'' td_u32,
    Plain ''hw_sata_spd_limit'' (TInt I32 False),
    Plain ''sata_spd_limit'' (TInt I32 False),
    Plain ''sata_spd'' (TInt I32 False),
    Plain ''lpm_policy'' (TEnum ''ata_lpm_policy'' I32),
    Plain ''eh_info'' st_ata_eh_info,
    Plain ''eh_context'' st_ata_eh_context,
    Bits '''' (TInt I64 True) 64,
    Bits '''' (TInt I64 True) 64,
    Plain ''device'' (TArr st_ata_device 2),
    Plain ''last_lpm_change'' (TInt I64 False),
    Bits '''' (TInt I64 True) 64,
    Bits '''' (TInt I64 True) 64,
    Bits '''' (TInt I64 True) 64,
    Bits '''' (TInt I64 True) 64,
    Bits '''' (TInt I64 True) 64,
    Bits '''' (TInt I64 True) 64,
    Bits '''' (TInt I64 True) 64]"

definition st_fsnotify_group :: ty where
  "st_fsnotify_group = TStruct ''fsnotify_group'' False [
    Plain ''ops'' (TPtr ''struct fsnotify_ops''),
    Plain ''refcnt'' td_refcount_t,
    Plain ''notification_lock'' td_spinlock_t,
    Plain ''notification_list'' st_list_head,
    Plain ''notification_waitq'' td_wait_queue_head_t,
    Plain ''q_len'' (TInt I32 False),
    Plain ''max_events'' (TInt I32 False),
    Plain ''priority'' (TEnum ''fsnotify_group_prio'' I32),
    Plain ''shutdown'' td_bool,
    Plain ''flags'' (TInt I32 True),
    Plain ''owner_flags'' (TInt I32 False),
    Plain ''mark_mutex'' st_mutex,
    Plain ''user_waits'' td_atomic_t,
    Plain ''marks_list'' st_list_head,
    Plain ''fsn_fa'' (TPtr ''struct fasync_struct''),
    Plain ''overflow_event'' (TPtr ''struct fsnotify_event''),
    Plain ''memcg'' (TPtr ''struct mem_cgroup''),
    Plain ''user_ns'' (TPtr ''struct user_namespace''),
    Plain '''' (TUnion '''' False [
      Plain ''private'' (TPtr ''void''),
      Plain ''inotify_data'' st_inotify_group_private_data,
      Plain ''fanotify_data'' st_fanotify_group_private_data])]"

definition st_gendisk :: ty where
  "st_gendisk = TStruct ''gendisk'' False [
    Plain ''major'' (TInt I32 True),
    Plain ''first_minor'' (TInt I32 True),
    Plain ''minors'' (TInt I32 True),
    Plain ''disk_name'' (TArr (TInt I8 True) 32),
    Plain ''events'' (TInt I16 False),
    Plain ''event_flags'' (TInt I16 False),
    Plain ''part_tbl'' st_xarray,
    Plain ''part0'' (TPtr ''struct block_device''),
    Plain ''fops'' (TPtr ''struct block_device_operations''),
    Plain ''queue'' (TPtr ''struct request_queue''),
    Plain ''private_data'' (TPtr ''void''),
    Plain ''bio_split'' st_bio_set,
    Plain ''flags'' (TInt I32 True),
    Plain ''state'' (TInt I64 False),
    Plain ''open_mutex'' st_mutex,
    Plain ''open_partitions'' (TInt I32 False),
    Plain ''bdi'' (TPtr ''struct backing_dev_info''),
    Plain ''queue_kobj'' st_kobject,
    Plain ''slave_dir'' (TPtr ''struct kobject''),
    Plain ''slave_bdevs'' st_list_head,
    Plain ''random'' (TPtr ''struct timer_rand_state''),
    Plain ''ev'' (TPtr ''struct disk_events''),
    Plain ''nr_zones'' (TInt I32 False),
    Plain ''zone_capacity'' (TInt I32 False),
    Plain ''last_zone_capacity'' (TInt I32 False),
    Plain ''zones_cond'' (TPtr ''u8''),
    Plain ''zone_wplugs_hash_bits'' (TInt I32 False),
    Plain ''nr_zone_wplugs'' td_atomic_t,
    Plain ''zone_wplugs_lock'' td_spinlock_t,
    Plain ''zone_wplugs_pool'' (TPtr ''struct mempool''),
    Plain ''zone_wplugs_hash'' (TPtr ''struct hlist_head''),
    Plain ''zone_wplugs_wq'' (TPtr ''struct workqueue_struct''),
    Plain ''cdi'' (TPtr ''struct cdrom_device_info''),
    Plain ''node_id'' (TInt I32 True),
    Plain ''bb'' (TPtr ''struct badblocks''),
    Plain ''lockdep_map'' st_lockdep_map,
    Plain ''diskseq'' td_u64,
    Plain ''open_mode'' td_blk_mode_t,
    Plain ''ia_ranges'' (TPtr ''struct blk_independent_access_ranges''),
    Plain ''rqos_state_mutex'' st_mutex]"

definition st_inet_connection_sock :: ty where
  "st_inet_connection_sock = TStruct ''inet_connection_sock'' False [
    Plain ''icsk_inet'' st_inet_sock,
    Plain ''icsk_accept_queue'' st_request_sock_queue,
    Plain ''icsk_bind_hash'' (TPtr ''struct inet_bind_bucket''),
    Plain ''icsk_bind2_hash'' (TPtr ''struct inet_bind2_bucket''),
    Plain ''icsk_delack_timer'' st_timer_list,
    Plain '''' (TUnion '''' False [
      Plain ''icsk_keepalive_timer'' st_timer_list,
      Plain ''mptcp_tout_timer'' st_timer_list]),
    Plain ''icsk_rto'' td___u32,
    Plain ''icsk_rto_min'' td___u32,
    Plain ''icsk_rto_max'' td_u32,
    Plain ''icsk_delack_max'' td___u32,
    Plain ''icsk_pmtu_cookie'' td___u32,
    Plain ''icsk_ca_ops'' (TPtr ''struct tcp_congestion_ops''),
    Plain ''icsk_af_ops'' (TPtr ''struct inet_connection_sock_af_ops''),
    Plain ''icsk_ulp_ops'' (TPtr ''struct tcp_ulp_ops''),
    Plain ''icsk_ulp_data'' (TPtr ''void''),
    Plain ''icsk_sync_mss'' (TFun ''unsigned int (*)(struct sock *, u32)''),
    Bits ''icsk_ca_state'' td___u8 5,
    Bits ''icsk_ca_initialized'' td___u8 1,
    Bits ''icsk_ca_setsockopt'' td___u8 1,
    Bits ''icsk_ca_dst_locked'' td___u8 1,
    Plain ''icsk_retransmits'' td___u8,
    Plain ''icsk_pending'' td___u8,
    Plain ''icsk_backoff'' td___u8,
    Plain ''icsk_syn_retries'' td___u8,
    Plain ''icsk_probes_out'' td___u8,
    Plain ''icsk_ext_hdr_len'' td___u16,
    Plain ''icsk_ack'' (TStruct '''' False [
      Plain ''pending'' td___u8,
      Plain ''quick'' td___u8,
      Plain ''pingpong'' td___u8,
      Plain ''retry'' td___u8,
      Bits ''ato'' td___u32 8,
      Bits ''lrcv_flowlabel'' td___u32 20,
      Bits ''dst_quick_ack'' td___u32 1,
      Bits ''unused'' td___u32 3,
      Plain ''lrcvtime'' td___u32,
      Plain ''last_seg_size'' td___u16,
      Plain ''rcv_mss'' td___u16]),
    Plain ''icsk_mtup'' (TStruct '''' False [
      Plain ''search_high'' (TInt I32 True),
      Plain ''search_low'' (TInt I32 True),
      Bits ''probe_size'' td_u32 31,
      Bits ''enabled'' td_u32 1,
      Plain ''probe_timestamp'' td_u32]),
    Plain ''icsk_probes_tstamp'' td_u32,
    Plain ''icsk_user_timeout'' td_u32,
    Plain ''icsk_ca_priv'' (TArr td_u64 13)]"

definition st_mddev :: ty where
  "st_mddev = TStruct ''mddev'' False [
    Plain ''private'' (TPtr ''void''),
    Plain ''pers'' (TPtr ''struct md_personality''),
    Plain ''unit'' td_dev_t,
    Plain ''md_minor'' (TInt I32 True),
    Plain ''disks'' st_list_head,
    Plain ''flags'' (TInt I64 False),
    Plain ''sb_flags'' (TInt I64 False),
    Plain ''suspended'' (TInt I32 True),
    Plain ''suspend_mutex'' st_mutex,
    Plain ''active_io'' st_percpu_ref,
    Plain ''ro'' (TInt I32 True),
    Plain ''sysfs_active'' (TInt I32 True),
    Plain ''gendisk'' (TPtr ''struct gendisk''),
    Plain ''dm_gendisk'' (TPtr ''struct gendisk''),
    Plain ''kobj'' st_kobject,
    Plain ''hold_active'' (TInt I32 True),
    Plain ''major_version'' (TInt I32 True),
    Plain ''minor_version'' (TInt I32 True),
    Plain ''patch_version'' (TInt I32 True),
    Plain ''persistent'' (TInt I32 True),
    Plain ''external'' (TInt I32 True),
    Plain ''metadata_type'' (TArr (TInt I8 True) 17),
    Plain ''chunk_sectors'' (TInt I32 True),
    Plain ''ctime'' td_time64_t,
    Plain ''utime'' td_time64_t,
    Plain ''level'' (TInt I32 True),
    Plain ''layout'' (TInt I32 True),
    Plain ''clevel'' (TArr (TInt I8 True) 16),
    Plain ''raid_disks'' (TInt I32 True),
    Plain ''max_disks'' (TInt I32 True),
    Plain ''dev_sectors'' td_sector_t,
    Plain ''array_sectors'' td_sector_t,
    Plain ''external_size'' (TInt I32 True),
    Plain ''logical_block_size'' (TInt I32 False),
    Plain ''events'' td___u64,
    Plain ''can_decrease_events'' (TInt I32 True),
    Plain ''uuid'' (TArr (TInt I8 True) 16),
    Plain ''reshape_position'' td_sector_t,
    Plain ''delta_disks'' (TInt I32 True),
    Plain ''new_level'' (TInt I32 True),
    Plain ''new_layout'' (TInt I32 True),
    Plain ''new_chunk_sectors'' (TInt I32 True),
    Plain ''reshape_backwards'' (TInt I32 True),
    Plain ''thread'' (TPtr ''struct md_thread''),
    Plain ''sync_thread'' (TPtr ''struct md_thread''),
    Plain ''last_sync_action'' (TEnum ''sync_action'' I32),
    Plain ''curr_resync'' td_sector_t,
    Plain ''curr_resync_completed'' td_sector_t,
    Plain ''resync_mark'' (TInt I64 False),
    Plain ''resync_mark_cnt'' td_sector_t,
    Plain ''curr_mark_cnt'' td_sector_t,
    Plain ''resync_max_sectors'' td_sector_t,
    Plain ''resync_mismatches'' td_atomic64_t,
    Plain ''suspend_lo'' td_sector_t,
    Plain ''suspend_hi'' td_sector_t,
    Plain ''sync_speed_min'' (TInt I32 True),
    Plain ''sync_speed_max'' (TInt I32 True),
    Plain ''sync_io_depth'' (TInt I32 True),
    Plain ''parallel_resync'' (TInt I32 True),
    Plain ''ok_start_degraded'' (TInt I32 True),
    Plain ''recovery'' (TInt I64 False),
    Plain ''in_sync'' (TInt I32 True),
    Plain ''open_mutex'' st_mutex,
    Plain ''reconfig_mutex'' st_mutex,
    Plain ''active'' td_atomic_t,
    Plain ''openers'' td_atomic_t,
    Plain ''changed'' (TInt I32 True),
    Plain ''degraded'' (TInt I32 True),
    Plain ''normal_io_events'' (TInt I64 False),
    Plain ''recovery_active'' td_atomic_t,
    Plain ''recovery_wait'' td_wait_queue_head_t,
    Plain ''resync_offset'' td_sector_t,
    Plain ''resync_min'' td_sector_t,
    Plain ''resync_max'' td_sector_t,
    Plain ''sysfs_state'' (TPtr ''struct kernfs_node''),
    Plain ''sysfs_action'' (TPtr ''struct kernfs_node''),
    Plain ''sysfs_completed'' (TPtr ''struct kernfs_node''),
    Plain ''sysfs_degraded'' (TPtr ''struct kernfs_node''),
    Plain ''sysfs_level'' (TPtr ''struct kernfs_node''),
    Plain ''del_work'' st_work_struct,
    Plain ''sync_work'' st_work_struct,
    Plain ''lock'' td_spinlock_t,
    Plain ''sb_wait'' td_wait_queue_head_t,
    Plain ''pending_writes'' td_atomic_t,
    Plain ''safemode'' (TInt I32 False),
    Plain ''safemode_delay'' (TInt I32 False),
    Plain ''safemode_timer'' st_timer_list,
    Plain ''writes_pending'' st_percpu_ref,
    Plain ''sync_checkers'' (TInt I32 True),
    Plain ''bitmap_id'' (TEnum ''md_submodule_id'' I32),
    Plain ''bitmap'' (TPtr ''void''),
    Plain ''bitmap_ops'' (TPtr ''struct bitmap_operations''),
    Plain ''bitmap_info'' (TStruct '''' False [
      Plain ''file'' (TPtr ''struct file''),
      Plain ''offset'' td_loff_t,
      Plain ''space'' (TInt I64 False),
      Plain ''default_offset'' td_loff_t,
      Plain ''default_space'' (TInt I64 False),
      Plain ''mutex'' st_mutex,
      Plain ''chunksize'' (TInt I64 False),
      Plain ''daemon_sleep'' (TInt I64 False),
      Plain ''max_write_behind'' (TInt I64 False),
      Plain ''external'' (TInt I32 True),
      Plain ''nodes'' (TInt I32 True),
      Plain ''cluster_name'' (TArr (TInt I8 True) 64)]),
    Plain ''max_corr_read_errors'' td_atomic_t,
    Plain ''all_mddevs'' st_list_head,
    Plain ''to_remove'' (TPtr ''struct attribute_group''),
    Plain ''bio_set'' st_bio_set,
    Plain ''sync_set'' st_bio_set,
    Plain ''io_clone_set'' st_bio_set,
    Plain ''event_work'' st_work_struct,
    Plain ''serial_info_pool'' (TPtr ''mempool_t''),
    Plain ''sync_super'' (TFun ''void (*)(struct mddev *, struct md_rdev *)''),
    Plain ''cluster_info'' (TPtr ''struct md_cluster_info''),
    Plain ''cluster_ops'' (TPtr ''struct md_cluster_operations''),
    Plain ''good_device_nr'' (TInt I32 False),
    Plain ''noio_flag'' (TInt I32 False),
    Plain ''deleting'' st_list_head,
    Plain ''sync_seq'' td_atomic_t]"

definition st_phy_device :: ty where
  "st_phy_device = TStruct ''phy_device'' False [
    Plain ''mdio'' st_mdio_device,
    Plain ''drv'' (TPtr ''struct phy_driver''),
    Plain ''devlink'' (TPtr ''struct device_link''),
    Plain ''phyindex'' td_u32,
    Plain ''phy_id'' td_u32,
    Plain ''c45_ids'' st_phy_c45_device_ids,
    Bits ''is_c45'' (TInt I32 False) 1,
    Bits ''is_internal'' (TInt I32 False) 1,
    Bits ''is_pseudo_fixed_link'' (TInt I32 False) 1,
    Bits ''is_gigabit_capable'' (TInt I32 False) 1,
    Bits ''has_fixups'' (TInt I32 False) 1,
    Bits ''suspended'' (TInt I32 False) 1,
    Bits ''suspended_by_mdio_bus'' (TInt I32 False) 1,
    Bits ''sysfs_links'' (TInt I32 False) 1,
    Bits ''loopback_enabled'' (TInt I32 False) 1,
    Bits ''downshifted_rate'' (TInt I32 False) 1,
    Bits ''is_on_sfp_module'' (TInt I32 False) 1,
    Bits ''mac_managed_pm'' (TInt I32 False) 1,
    Bits ''wol_enabled'' (TInt I32 False) 1,
    Bits ''is_genphy_driven'' (TInt I32 False) 1,
    Bits ''autoneg'' (TInt I32 False) 1,
    Bits ''link'' (TInt I32 False) 1,
    Bits ''autoneg_complete'' (TInt I32 False) 1,
    Bits ''pause'' td_bool 1,
    Bits ''asym_pause'' td_bool 1,
    Bits ''interrupts'' (TInt I32 False) 1,
    Bits ''irq_suspended'' (TInt I32 False) 1,
    Bits ''irq_rerun'' (TInt I32 False) 1,
    Bits ''default_timestamp'' (TInt I32 False) 1,
    Plain ''rate_matching'' (TInt I32 True),
    Plain ''state'' (TEnum ''phy_state'' I32),
    Plain ''dev_flags'' td_u32,
    Plain ''interface'' td_phy_interface_t,
    Plain ''possible_interfaces'' (TArr (TInt I64 False) 1),
    Plain ''speed'' (TInt I32 True),
    Plain ''duplex'' (TInt I32 True),
    Plain ''port'' (TInt I32 True),
    Plain ''master_slave_get'' td_u8,
    Plain ''master_slave_set'' td_u8,
    Plain ''master_slave_state'' td_u8,
    Plain ''supported'' (TArr (TInt I64 False) 2),
    Plain ''advertising'' (TArr (TInt I64 False) 2),
    Plain ''lp_advertising'' (TArr (TInt I64 False) 2),
    Plain ''adv_old'' (TArr (TInt I64 False) 2),
    Plain ''supported_eee'' (TArr (TInt I64 False) 2),
    Plain ''advertising_eee'' (TArr (TInt I64 False) 2),
    Plain ''eee_disabled_modes'' (TArr (TInt I64 False) 2),
    Plain ''enable_tx_lpi'' td_bool,
    Plain ''eee_active'' td_bool,
    Plain ''eee_cfg'' st_eee_config,
    Plain ''host_interfaces'' (TArr (TInt I64 False) 1),
    Plain ''phy_led_triggers'' (TPtr ''struct phy_led_trigger''),
    Plain ''phy_num_led_triggers'' (TInt I32 False),
    Plain ''last_triggered'' (TPtr ''struct phy_led_trigger''),
    Plain ''led_link_trigger'' (TPtr ''struct phy_led_trigger''),
    Plain ''leds'' st_list_head,
    Plain ''irq'' (TInt I32 True),
    Plain ''priv'' (TPtr ''void''),
    Plain ''shared'' (TPtr ''struct phy_package_shared''),
    Plain ''skb'' (TPtr ''struct sk_buff''),
    Plain ''ehdr'' (TPtr ''void''),
    Plain ''nest'' (TPtr ''struct nlattr''),
    Plain ''state_queue'' st_delayed_work,
    Plain ''lock'' st_mutex,
    Plain ''sfp_bus_attached'' td_bool,
    Plain ''sfp_bus'' (TPtr ''struct sfp_bus''),
    Plain ''phylink'' (TPtr ''struct phylink''),
    Plain ''attached_dev'' (TPtr ''struct net_device''),
    Plain ''mii_ts'' (TPtr ''struct mii_timestamper''),
    Plain ''psec'' (TPtr ''struct pse_control''),
    Plain ''ports'' st_list_head,
    Plain ''n_ports'' (TInt I32 True),
    Plain ''max_n_ports'' (TInt I32 True),
    Plain ''mdix'' td_u8,
    Plain ''mdix_ctrl'' td_u8,
    Plain ''pma_extable'' (TInt I32 True),
    Plain ''link_down_events'' (TInt I32 False),
    Plain ''phy_link_change'' (TFun ''void (*)(struct phy_device *, bool)''),
    Plain ''adjust_link'' (TFun ''void (*)(struct net_device *)''),
    Plain ''macsec_ops'' (TPtr ''struct macsec_ops''),
    Plain ''oatc14_sqi_capability'' st_phy_oatc14_sqi_capability]"

definition st_raw6_sock :: ty where
  "st_raw6_sock = TStruct ''raw6_sock'' False [
    Plain ''inet'' st_inet_sock,
    Plain ''checksum'' td___u32,
    Plain ''offset'' td___u32,
    Plain ''filter'' st_icmp6_filter,
    Plain ''ip6mr_table'' td___u32,
    Bits '''' (TInt I64 True) 64,
    Bits '''' (TInt I64 True) 64,
    Bits '''' (TInt I64 True) 64,
    Bits '''' (TInt I64 True) 64,
    Bits '''' (TInt I64 True) 64,
    Bits '''' (TInt I64 True) 64,
    Plain ''drop_counters'' st_numa_drop_counters,
    Plain ''inet6'' st_ipv6_pinfo]"

definition st_sctp_sock :: ty where
  "st_sctp_sock = TStruct ''sctp_sock'' False [
    Plain ''inet'' st_inet_sock,
    Plain ''type'' (TEnum ''sctp_socket_type'' I32),
    Plain ''pf'' (TPtr ''struct sctp_pf''),
    Plain ''ep'' (TPtr ''struct sctp_endpoint''),
    Plain ''bind_hash'' (TPtr ''struct sctp_bind_bucket''),
    Plain ''default_stream'' td___u16,
    Plain ''default_ppid'' td___u32,
    Plain ''default_flags'' td___u16,
    Plain ''default_context'' td___u32,
    Plain ''default_timetolive'' td___u32,
    Plain ''default_rcv_context'' td___u32,
    Plain ''max_burst'' (TInt I32 True),
    Plain ''hbinterval'' td___u32,
    Plain ''probe_interval'' td___u32,
    Plain ''udp_port'' td___be16,
    Plain ''encap_port'' td___be16,
    Plain ''pathmaxrxt'' td___u16,
    Plain ''flowlabel'' td___u32,
    Plain ''dscp'' td___u8,
    Plain ''pf_retrans'' td___u16,
    Plain ''ps_retrans'' td___u16,
    Plain ''pathmtu'' td___u32,
    Plain ''sackdelay'' td___u32,
    Plain ''sackfreq'' td___u32,
    Plain ''param_flags'' td___u32,
    Plain ''default_ss'' td___u32,
    Plain ''rtoinfo'' st_sctp_rtoinfo,
    Plain ''paddrparam'' st_sctp_paddrparams,
    Plain ''assocparams'' st_sctp_assocparams,
    Plain ''subscribe'' td___u16,
    Plain ''initmsg'' st_sctp_initmsg,
    Plain ''user_frag'' (TInt I32 True),
    Plain ''autoclose'' td___u32,
    Plain ''adaptation_ind'' td___u32,
    Plain ''pd_point'' td___u32,
    Bits ''nodelay'' td___u16 1,
    Bits ''pf_expose'' td___u16 2,
    Bits ''reuse'' td___u16 1,
    Bits ''disable_fragments'' td___u16 1,
    Bits ''v4mapped'' td___u16 1,
    Bits ''frag_interleave'' td___u16 1,
    Bits ''recvrcvinfo'' td___u16 1,
    Bits ''recvnxtinfo'' td___u16 1,
    Bits ''data_ready_signalled'' td___u16 1,
    Bits ''cookie_auth_enable'' td___u16 1,
    Plain ''pd_mode'' td_atomic_t,
    Plain ''pd_lobby'' st_sk_buff_head,
    Plain ''auto_asconf_list'' st_list_head,
    Plain ''do_auto_asconf'' (TInt I32 True)]"

definition st_ata_port :: ty where
  "st_ata_port = TStruct ''ata_port'' False [
    Plain ''scsi_host'' (TPtr ''struct Scsi_Host''),
    Plain ''ops'' (TPtr ''struct ata_port_operations''),
    Plain ''lock'' (TPtr ''spinlock_t''),
    Plain ''flags'' (TInt I64 False),
    Plain ''pflags'' (TInt I32 False),
    Plain ''print_id'' (TInt I32 False),
    Plain ''port_no'' (TInt I32 False),
    Plain ''ioaddr'' st_ata_ioports,
    Plain ''ctl'' td_u8,
    Plain ''last_ctl'' td_u8,
    Plain ''sff_pio_task_link'' (TPtr ''struct ata_link''),
    Plain ''sff_pio_task'' st_delayed_work,
    Plain ''bmdma_prd'' (TPtr ''struct ata_bmdma_prd''),
    Plain ''bmdma_prd_dma'' td_dma_addr_t,
    Plain ''pio_mask'' (TInt I32 False),
    Plain ''mwdma_mask'' (TInt I32 False),
    Plain ''udma_mask'' (TInt I32 False),
    Plain ''cbl'' (TInt I32 False),
    Plain ''qcmd'' (TArr st_ata_queued_cmd 33),
    Plain ''qc_active'' td_u64,
    Plain ''nr_active_links'' (TInt I32 True),
    Plain ''deferred_qc_work'' st_work_struct,
    Plain ''deferred_qc'' (TPtr ''struct ata_queued_cmd''),
    Bits '''' (TInt I64 True) 64,
    Bits '''' (TInt I64 True) 64,
    Bits '''' (TInt I64 True) 64,
    Bits '''' (TInt I64 True) 64,
    Bits '''' (TInt I64 True) 64,
    Plain ''link'' st_ata_link,
    Plain ''slave_link'' (TPtr ''struct ata_link''),
    Plain ''nr_pmp_links'' (TInt I32 True),
    Plain ''pmp_link'' (TPtr ''struct ata_link''),
    Plain ''excl_link'' (TPtr ''struct ata_link''),
    Plain ''stats'' st_ata_port_stats,
    Plain ''host'' (TPtr ''struct ata_host''),
    Plain ''dev'' (TPtr ''struct device''),
    Plain ''tdev'' st_device,
    Plain ''scsi_scan_mutex'' st_mutex,
    Plain ''hotplug_task'' st_delayed_work,
    Plain ''scsi_rescan_task'' st_delayed_work,
    Plain ''hsm_task_state'' (TInt I32 False),
    Plain ''eh_done_q'' st_list_head,
    Plain ''eh_wait_q'' td_wait_queue_head_t,
    Plain ''eh_tries'' (TInt I32 True),
    Plain ''park_req_pending'' st_completion,
    Plain ''pm_mesg'' td_pm_message_t,
    Plain ''target_lpm_policy'' (TEnum ''ata_lpm_policy'' I32),
    Plain ''fastdrain_timer'' st_timer_list,
    Plain ''fastdrain_cnt'' (TInt I32 False),
    Plain ''cookie'' td_async_cookie_t,
    Plain ''em_message_type'' (TInt I32 True),
    Plain ''private_data'' (TPtr ''void''),
    Plain ''__acpi_init_gtm'' st_ata_acpi_gtm]"

definition st_mptcp_sock :: ty where
  "st_mptcp_sock = TStruct ''mptcp_sock'' False [
    Plain ''sk'' st_inet_connection_sock,
    Plain ''local_key'' td_u64,
    Plain ''remote_key'' td_u64,
    Plain ''write_seq'' td_u64,
    Plain ''bytes_sent'' td_u64,
    Plain ''snd_nxt'' td_u64,
    Plain ''bytes_received'' td_u64,
    Plain ''ack_seq'' td_u64,
    Plain ''rcv_wnd_sent'' td_atomic64_t,
    Plain ''rcv_data_fin_seq'' td_u64,
    Plain ''bytes_retrans'' td_u64,
    Plain ''bytes_consumed'' td_u64,
    Plain ''snd_burst'' (TInt I32 True),
    Plain ''old_wspace'' (TInt I32 True),
    Plain ''recovery_snd_nxt'' td_u64,
    Plain ''bytes_acked'' td_u64,
    Plain ''snd_una'' td_u64,
    Plain ''wnd_end'' td_u64,
    Plain ''last_data_sent'' td_u32,
    Plain ''last_data_recv'' td_u32,
    Plain ''last_ack_recv'' td_u32,
    Plain ''timer_ival'' (TInt I64 False),
    Plain ''token'' td_u32,
    Plain ''flags'' (TInt I64 False),
    Plain ''cb_flags'' (TInt I64 False),
    Plain ''recovery'' td_bool,
    Plain ''can_ack'' td_bool,
    Plain ''fully_established'' td_bool,
    Plain ''rcv_data_fin'' td_bool,
    Plain ''snd_data_fin_enable'' td_bool,
    Plain ''rcv_fastclose'' td_bool,
    Plain ''use_64bit_ack'' td_bool,
    Plain ''csum_enabled'' td_bool,
    Plain ''allow_infinite_fallback'' td_bool,
    Plain ''pending_state'' td_u8,
    Plain ''mpc_endpoint_id'' td_u8,
    Bits ''recvmsg_inq'' td_u8 1,
    Bits ''cork'' td_u8 1,
    Bits ''nodelay'' td_u8 1,
    Bits ''fastopening'' td_u8 1,
    Bits ''in_accept_queue'' td_u8 1,
    Bits ''free_first'' td_u8 1,
    Bits ''rcvspace_init'' td_u8 1,
    Bits ''fastclosing'' td_u8 1,
    Plain ''notsent_lowat'' td_u32,
    Plain ''keepalive_cnt'' (TInt I32 True),
    Plain ''keepalive_idle'' (TInt I32 True),
    Plain ''keepalive_intvl'' (TInt I32 True),
    Plain ''maxseg'' (TInt I32 True),
    Plain ''work'' st_work_struct,
    Plain ''ooo_last_skb'' (TPtr ''struct sk_buff''),
    Plain ''out_of_order_queue'' st_rb_root,
    Plain ''conn_list'' st_list_head,
    Plain ''rtx_queue'' st_list_head,
    Plain ''first_pending'' (TPtr ''struct mptcp_data_frag''),
    Plain ''join_list'' st_list_head,
    Plain ''first'' (TPtr ''struct sock''),
    Plain ''pm'' st_mptcp_pm_data,
    Plain ''sched'' (TPtr ''struct mptcp_sched_ops''),
    Plain ''rcvq_space'' (TStruct '''' False [
      Plain ''space'' (TInt I32 True),
      Plain ''copied'' (TInt I32 True),
      Plain ''time'' td_u64,
      Plain ''rtt_us'' td_u64]),
    Plain ''scaling_ratio'' td_u8,
    Plain ''allow_subflows'' td_bool,
    Plain ''subflow_id'' td_u32,
    Plain ''setsockopt_seq'' td_u32,
    Plain ''ca_name'' (TArr (TInt I8 True) 16),
    Plain ''fallback_lock'' td_spinlock_t,
    Plain ''backlog_list'' st_list_head,
    Plain ''backlog_len'' td_u32,
    Plain ''backlog_unaccounted'' td_u32]"

definition st_tcp_sock :: ty where
  "st_tcp_sock = TStruct ''tcp_sock'' False [
    Plain ''inet_conn'' st_inet_connection_sock,
    Plain ''__cacheline_group_begin__tcp_sock_read_tx'' (TArr td___u8 0),
    Plain ''max_window'' td_u32,
    Plain ''rcv_ssthresh'' td_u32,
    Plain ''reordering'' td_u32,
    Plain ''notsent_lowat'' td_u32,
    Plain ''gso_segs'' td_u16,
    Plain ''retransmit_skb_hint'' (TPtr ''struct sk_buff''),
    Plain ''tcp_clean_acked'' (TFun ''void (*)(struct sock *, u32)''),
    Plain ''__cacheline_group_end__tcp_sock_read_tx'' (TArr td___u8 0),
    Plain ''__cacheline_group_begin__tcp_sock_read_txrx'' (TArr td___u8 0),
    Plain ''tsoffset'' td_u32,
    Plain ''snd_wnd'' td_u32,
    Plain ''mss_cache'' td_u32,
    Plain ''snd_cwnd'' td_u32,
    Plain ''prr_out'' td_u32,
    Plain ''lost_out'' td_u32,
    Plain ''sacked_out'' td_u32,
    Plain ''tcp_header_len'' td_u16,
    Plain ''scaling_ratio'' td_u8,
    Bits ''chrono_type'' td_u8 2,
    Bits ''repair'' td_u8 1,
    Bits ''tcp_usec_ts'' td_u8 1,
    Bits ''is_sack_reneg'' td_u8 1,
    Bits ''is_cwnd_limited'' td_u8 1,
    Bits ''recvmsg_inq'' td_u8 1,
    Plain ''__cacheline_group_end__tcp_sock_read_txrx'' (TArr td___u8 0),
    Plain ''__cacheline_group_begin__tcp_sock_read_rx'' (TArr td___u8 0),
    Plain ''copied_seq'' td_u32,
    Plain ''snd_wl1'' td_u32,
    Plain ''tlp_high_seq'' td_u32,
    Plain ''rttvar_us'' td_u32,
    Plain ''retrans_out'' td_u32,
    Plain ''advmss'' td_u16,
    Plain ''urg_data'' td_u16,
    Plain ''lost'' td_u32,
    Plain ''snd_ssthresh'' td_u32,
    Plain ''rtt_min'' st_minmax,
    Plain ''out_of_order_queue'' st_rb_root,
    Plain ''__cacheline_group_end__tcp_sock_read_rx'' (TArr td___u8 0),
    Bits '''' (TInt I64 True) 64,
    Bits '''' (TInt I64 True) 64,
    Bits '''' (TInt I64 True) 64,
    Plain ''__cacheline_group_begin__tcp_sock_write_tx'' (TArr td___u8 0),
    Plain ''segs_out'' td_u32,
    Plain ''data_segs_out'' td_u32,
    Plain ''bytes_sent'' td_u64,
    Plain ''snd_sml'' td_u32,
    Plain ''chrono_start'' td_u32,
    Plain ''chrono_stat'' (TArr td_u32 3),
    Plain ''write_seq'' td_u32,
    Plain ''pushed_seq'' td_u32,
    Plain ''lsndtime'' td_u32,
    Plain ''mdev_us'' td_u32,
    Plain ''rtt_seq'' td_u32,
    Plain ''tcp_wstamp_ns'' td_u64,
    Plain ''accecn_opt_tstamp'' td_u64,
    Plain ''tsorted_sent_queue'' st_list_head,
    Plain ''highest_sack'' (TPtr ''struct sk_buff''),
    Plain ''ecn_flags'' td_u8,
    Plain ''__cacheline_group_end__tcp_sock_write_tx'' (TArr td___u8 0),
    Plain ''__cacheline_group_begin__tcp_sock_write_txrx'' (TArr td___u8 0),
    Bits ''nonagle'' td_u8 4,
    Bits ''rate_app_limited'' td_u8 1,
    Bits '''' (TInt I16 True) 3,
    Bits ''received_ce_pending'' td_u8 4,
    Bits ''accecn_opt_sent_w_dsack'' td_u8 1,
    Bits ''unused2'' td_u8 3,
    Bits ''accecn_minlen'' td_u8 2,
    Bits ''est_ecnfield'' td_u8 2,
    Bits ''accecn_opt_demand'' td_u8 2,
    Bits ''prev_ecnfield'' td_u8 2,
    Plain ''pred_flags'' td___be32,
    Plain ''tcp_clock_cache'' td_u64,
    Plain ''tcp_mstamp'' td_u64,
    Plain ''rcv_nxt'' td_u32,
    Plain ''snd_nxt'' td_u32,
    Plain ''snd_una'' td_u32,
    Plain ''window_clamp'' td_u32,
    Plain ''srtt_us'' td_u32,
    Plain ''packets_out'' td_u32,
    Plain ''snd_up'' td_u32,
    Plain ''delivered'' td_u32,
    Plain ''delivered_ce'' td_u32,
    Plain ''received_ce'' td_u32,
    Plain ''received_ecn_bytes'' (TArr td_u32 3),
    Plain ''app_limited'' td_u32,
    Plain ''rcv_wnd'' td_u32,
    Plain ''rcv_tstamp'' td_u32,
    Plain ''rx_opt'' st_tcp_options_received,
    Plain ''__cacheline_group_end__tcp_sock_write_txrx'' (TArr td___u8 0),
    Plain ''__cacheline_group_begin__tcp_sock_write_rx'' (TArr td___u8 0),
    Plain ''bytes_received'' td_u64,
    Plain ''segs_in'' td_u32,
    Plain ''data_segs_in'' td_u32,
    Plain ''rcv_wup'' td_u32,
    Plain ''max_packets_out'' td_u32,
    Plain ''cwnd_usage_seq'' td_u32,
    Plain ''rate_delivered'' td_u32,
    Plain ''rate_interval_us'' td_u32,
    Plain ''rcv_rtt_last_tsecr'' td_u32,
    Plain ''delivered_ecn_bytes'' (TArr td_u32 3),
    Plain ''pkts_acked_ewma'' td_u16,
    Plain ''first_tx_mstamp'' td_u64,
    Plain ''delivered_mstamp'' td_u64,
    Plain ''bytes_acked'' td_u64,
    Plain ''rcv_rtt_est'' (TStruct '''' False [
      Plain ''rtt_us'' td_u32,
      Plain ''seq'' td_u32,
      Plain ''time'' td_u64]),
    Plain ''rcvq_space'' (TStruct '''' False [
      Plain ''space'' (TInt I32 True),
      Plain ''seq'' td_u32,
      Plain ''time'' td_u64]),
    Plain ''__cacheline_group_end__tcp_sock_write_rx'' (TArr td___u8 0),
    Plain ''dsack_dups'' td_u32,
    Plain ''compressed_ack_rcv_nxt'' td_u32,
    Plain ''tsq_node'' st_list_head,
    Plain ''rack'' st_tcp_rack,
    Plain ''compressed_ack'' td_u8,
    Bits ''dup_ack_counter'' td_u8 2,
    Bits ''tlp_retrans'' td_u8 1,
    Bits ''syn_ect_snt'' td_u8 2,
    Bits ''syn_ect_rcv'' td_u8 2,
    Bits ''thin_lto'' td_u8 1,
    Bits ''fastopen_connect'' td_u8 1,
    Bits ''fastopen_no_cookie'' td_u8 1,
    Bits ''fastopen_client_fail'' td_u8 2,
    Bits ''frto'' td_u8 1,
    Plain ''repair_queue'' td_u8,
    Bits ''save_syn'' td_u8 2,
    Bits ''syn_data'' td_u8 1,
    Bits ''syn_fastopen'' td_u8 1,
    Bits ''syn_fastopen_exp'' td_u8 1,
    Bits ''syn_fastopen_ch'' td_u8 1,
    Bits ''syn_data_acked'' td_u8 1,
    Bits ''syn_fastopen_child'' td_u8 1,
    Plain ''keepalive_probes'' td_u8,
    Bits ''accecn_fail_mode'' td_u8 4,
    Bits ''saw_accecn_opt'' td_u8 2,
    Plain ''tcp_tx_delay'' td_u32,
    Plain ''mdev_max_us'' td_u32,
    Plain ''reord_seen'' td_u32,
    Plain ''snd_cwnd_cnt'' td_u32,
    Plain ''snd_cwnd_clamp'' td_u32,
    Plain ''snd_cwnd_used'' td_u32,
    Plain ''snd_cwnd_stamp'' td_u32,
    Plain ''prior_cwnd'' td_u32,
    Plain ''prr_delivered'' td_u32,
    Plain ''last_oow_ack_time'' td_u32,
    Plain ''pacing_timer'' st_hrtimer,
    Plain ''compressed_ack_timer'' st_hrtimer,
    Plain ''ooo_last_skb'' (TPtr ''struct sk_buff''),
    Plain ''duplicate_sack'' (TArr st_tcp_sack_block 1),
    Plain ''selective_acks'' (TArr st_tcp_sack_block 4),
    Plain ''recv_sack_cache'' (TArr st_tcp_sack_block 4),
    Plain ''prior_ssthresh'' td_u32,
    Plain ''high_seq'' td_u32,
    Plain ''retrans_stamp'' td_u32,
    Plain ''undo_marker'' td_u32,
    Plain ''undo_retrans'' (TInt I32 True),
    Plain ''mtu_info'' td_u32,
    Plain ''bytes_retrans'' td_u64,
    Plain ''total_retrans'' td_u32,
    Plain ''rto_stamp'' td_u32,
    Plain ''total_rto'' td_u16,
    Plain ''total_rto_recoveries'' td_u16,
    Plain ''total_rto_time'' td_u32,
    Plain ''urg_seq'' td_u32,
    Plain ''keepalive_time'' (TInt I32 False),
    Plain ''keepalive_intvl'' (TInt I32 False),
    Plain ''linger2'' (TInt I32 True),
    Plain ''bpf_sock_ops_cb_flags'' td_u8,
    Bits ''bpf_chg_cc_inprogress'' td_u8 1,
    Plain ''timeout_rehash'' td_u16,
    Plain ''rcv_ooopack'' td_u32,
    Plain ''mtu_probe'' (TStruct '''' False [
      Plain ''probe_seq_start'' td_u32,
      Plain ''probe_seq_end'' td_u32]),
    Plain ''plb_rehash'' td_u32,
    Plain ''is_mptcp'' td_bool,
    Plain ''syn_smc'' td_bool,
    Plain ''smc_hs_congested'' (TFun ''bool (*)(const struct sock *)''),
    Plain ''af_specific'' (TPtr ''struct tcp_sock_af_ops''),
    Plain ''md5sig_info'' (TPtr ''struct tcp_md5sig_info''),
    Plain ''ao_info'' (TPtr ''struct tcp_ao_info''),
    Plain ''fastopen_req'' (TPtr ''struct tcp_fastopen_request''),
    Plain ''fastopen_rsk'' (TPtr ''struct request_sock''),
    Plain ''saved_syn'' (TPtr ''struct saved_syn'')]"

end
