(* ===== verification/VmlinuxStructs.thy ===== *)
theory VmlinuxStructs
  imports VmlinuxEvents VmlinuxStruct1 VmlinuxStruct2 VmlinuxStruct3 VmlinuxStruct4 VmlinuxStruct5 VmlinuxStruct6 VmlinuxStruct7 VmlinuxStruct8 VmlinuxStruct9 VmlinuxStruct10 VmlinuxStruct11 VmlinuxStruct12 VmlinuxStruct13 VmlinuxStruct14 VmlinuxStruct15
begin

text \<open>
  The structures and unions of \<open>src/internal/ebpf/vmlinux.h\<close> together: their layout is sound,
  and the sizes of some that a network protocol, a file format or the system call interface
  fixes are what those prescribe. The tracepoint contexts have the same layout in \<open>CLayout\<close>.
\<close>

section \<open>Sizes fixed elsewhere\<close>

text \<open>
  Headers of IPv4, IPv6, TCP and ICMP, of a tagged Ethernet frame, of ELF files, of the disk
  formats ext4, jbd2, squashfs and FAT, of ACPI tables; structures of the system call interface;
  and the page descriptor, which is a cache line.
\<close>

definition fixed_sizes :: "(ty \<times> nat) list" where
  "fixed_sizes =
     [(st_list_head, 16),
      (st_iphdr, 20),
      (st_ipv6hdr, 40),
      (st_tcphdr, 20),
      (st_icmphdr, 8),
      (st_vlan_ethhdr, 18),
      (st_elf64_hdr, 64),
      (st_stat, 144),
      (st_statfs, 120),
      (st_io_uring_sqe, 64),
      (st_io_uring_cqe, 16),
      (st_bpf_insn, 8),
      (st_fuse_in_header, 40),
      (st_ext4_super_block, 1024),
      (st_ext4_inode, 160),
      (st_ext4_group_desc, 64),
      (st_journal_superblock_s, 1024),
      (st_squashfs_super_block, 96),
      (st_msdos_dir_entry, 32),
      (st_acpi_table_header, 36),
      (st_acpi_table_fadt, 276),
      (st_sockaddr_in, 16),
      (st_page, 64)]"

lemma small_fixed_sizes:
  "ty_size st_list_head = 16"
  "ty_size st_iphdr = 20"
  "ty_size st_ipv6hdr = 40"
  "ty_size st_tcphdr = 20"
  "ty_size st_icmphdr = 8"
  "ty_size st_vlan_ethhdr = 18"
  "ty_size st_elf64_hdr = 64"
  "ty_size st_stat = 144"
  "ty_size st_statfs = 120"
  "ty_size st_io_uring_sqe = 64"
  "ty_size st_io_uring_cqe = 16"
  "ty_size st_bpf_insn = 8"
  "ty_size st_fuse_in_header = 40"
  "ty_size st_ext4_inode = 160"
  "ty_size st_ext4_group_desc = 64"
  "ty_size st_squashfs_super_block = 96"
  "ty_size st_msdos_dir_entry = 32"
  "ty_size st_acpi_table_header = 36"
  "ty_size st_sockaddr_in = 16"
  "ty_size st_page = 64"
  by code_simp+

lemma st_ext4_super_block_size: "ty_size st_ext4_super_block = 1024"
  by (simp add: align_up_def st_ext4_super_block_def td___le32_def td___u32_def td___le16_def
      td___u16_def td___u8_def td___le64_def td___u64_def)

lemma st_journal_superblock_s_size: "ty_size st_journal_superblock_s = 1024"
  by (simp add: align_up_def st_journal_superblock_s_def td_journal_header_t_def
      st_journal_header_s_def td___be32_def td___u32_def td___u8_def)

lemma st_acpi_table_fadt_size: "ty_size st_acpi_table_fadt = 276"
  by (simp add: align_up_def st_acpi_table_fadt_def st_acpi_table_header_def td_u32_def
      td___u32_def td_u8_def td___u8_def td_u16_def td___u16_def st_acpi_generic_address_def
      td_u64_def td___u64_def)

lemmas fixed_size_each =
  small_fixed_sizes st_ext4_super_block_size st_journal_superblock_s_size st_acpi_table_fadt_size

section \<open>Property\<close>

text \<open>
  The layout of every structure and union is sound: members in order without overlap,
  plain members aligned unless the type is packed, bit-fields within a storage unit, all inside
  the type, whose size is a multiple of its alignment, a power of two. The types whose sizes
  other specifications fix have these sizes, and the 692 tracepoint contexts have the sizes,
  alignments and offsets that \<open>CLayout\<close> gives them.
\<close>

lemma structures_laid_out:
  "layout_sound T \<and>
   list_all (\<lambda>(S, n). ty_size S = n) fixed_sizes \<and>
   list_all same_layout tracepoint_contexts"
proof (intro conjI)
  show "layout_sound T" by (rule layout_always_sound)
  show "list_all (\<lambda>(S, n). ty_size S = n) fixed_sizes"
    by (simp add: fixed_sizes_def fixed_size_each)
  show "list_all same_layout tracepoint_contexts"
    using tracepoint_contexts_ok layouts_agree by (auto simp: list_all_iff event_ok_def)
qed

end
