(* ===== verification/UnitTests.thy ===== *)
theory UnitTests
  imports CpuStats MemStats DiskStats NetStats
begin

text \<open>
  The unit tests of the collectors, \<open>src/internal/stats/cpu_test.go\<close>, \<open>mem_test.go\<close>,
  \<open>disk_test.go\<close> and \<open>net_test.go\<close>, with their fixtures under \<open>src/internal/stats/testdata/\<close>: each
  test function is a Boolean that is true when the test reports no error. That the model
  passes them is a check of the model against the expectations of the program's authors.
\<close>

declare of_nat_unat [simp del]

section \<open>Evaluation\<close>

text \<open>Evaluation of the string functions on ASCII input, without the table of encodings.\<close>

fun ascii :: "char \<Rightarrow> bool" where
  "ascii (Char b0 b1 b2 b3 b4 b5 b6 b7) \<longleftrightarrow> \<not> b7"

definition blanks :: "char list" where
  "blanks = [CHR '' '', CHR 0x09, CHR 0x0A, CHR 0x0B, CHR 0x0C, CHR 0x0D]"

definition ws_len_utf8 :: "gostring \<Rightarrow> nat" where
  "ws_len_utf8 s = (case find (has_prefix s) white_space of None \<Rightarrow> 0 | Some w \<Rightarrow> length w)"

lemma ascii_plain:
  assumes "ascii c" and "\<not> List.member blanks c"
  shows "plain c \<and> plain_end c"
proof -
  have "list_all (\<lambda>w. (List.member blanks (hd w) \<or> \<not> ascii (hd w)) \<and>
      (List.member blanks (last w) \<or> \<not> ascii (last w))) white_space" by code_simp
  then have all: "\<forall>w \<in> set white_space.
      (List.member blanks (hd w) \<or> \<not> ascii (hd w)) \<and>
      (List.member blanks (last w) \<or> \<not> ascii (last w))"
    unfolding list_all_iff .
  have "hd w \<noteq> c \<and> last w \<noteq> c" if "w \<in> set white_space" for w
    using bspec [OF all that] assms by (cases "hd w = c"; cases "last w = c") simp_all
  then show ?thesis unfolding plain_def plain_end_def image_iff by fastforce
qed

lemma ws_len_blank:
  assumes "List.member blanks c"
  shows "ws_len (c # cs) = 1 \<and> rev_ws_len (c # cs) = 1"
proof -
  from assms consider "c = CHR '' ''" | "c = CHR 0x09" | "c = CHR 0x0A" | "c = CHR 0x0B"
    | "c = CHR 0x0C" | "c = CHR 0x0D"
    by (auto simp: blanks_def)
  then show ?thesis
    by cases (simp_all add: ws_len_def rev_ws_len_def white_space_def has_prefix_def)
qed

lemma ws_len_Nil: "ws_len [] = 0" "rev_ws_len [] = 0"
  by (simp_all add: ws_len_def rev_ws_len_def white_space_def has_prefix_def)

lemma ws_len_code [code]:
  "ws_len s = (case s of [] \<Rightarrow> 0 | c # cs \<Rightarrow>
     if List.member blanks c then 1 else if ascii c then 0 else ws_len_utf8 s)"
proof (cases s)
  case (Cons c cs)
  then show ?thesis using ws_len_blank [of c cs] ascii_plain [of c] ws_len_plain [of c cs]
    by (cases "ascii c") (simp_all add: ws_len_utf8_def ws_len_def)
qed (simp add: ws_len_Nil)

definition rev_ws_len_utf8 :: "gostring \<Rightarrow> nat" where
  "rev_ws_len_utf8 s =
     (case find (\<lambda>w. has_prefix s (rev w)) white_space of None \<Rightarrow> 0 | Some w \<Rightarrow> length w)"

lemma rev_ws_len_code [code]:
  "rev_ws_len s = (case s of [] \<Rightarrow> 0 | c # cs \<Rightarrow>
     if List.member blanks c then 1 else if ascii c then 0 else rev_ws_len_utf8 s)"
proof (cases s)
  case (Cons c cs)
  then show ?thesis using ws_len_blank [of c cs] ascii_plain [of c] rev_ws_len_plain [of c cs]
    by (cases "ascii c") (simp_all add: rev_ws_len_utf8_def rev_ws_len_def)
qed (simp add: ws_len_Nil)

section \<open>Fixtures\<close>

definition fixture :: "gostring list \<Rightarrow> unit reader" where
  "fixture ls = \<lparr>content = unlines ls, read_error = None\<rparr>"

definition proc_stat_a :: "gostring list" where
  "proc_stat_a =
     [''cpu  1000 50 300 8000 100 20 10 0 0 0'',
      ''cpu0 250 12 75 2000 25 5 2 0 0 0'',
      ''cpu1 250 13 75 2000 25 5 3 0 0 0'',
      ''cpu2 250 12 75 2000 25 5 3 0 0 0'',
      ''cpu3 250 13 75 2000 25 5 2 0 0 0'',
      ''intr 12345 1 2 3'',
      ''ctxt 987654'',
      ''btime 1700000000'',
      ''processes 5000'',
      ''procs_running 3'',
      ''procs_blocked 0'']"

definition proc_stat_b :: "gostring list" where
  "proc_stat_b =
     [''cpu  1200 50 400 8200 100 30 15 0 0 0'',
      ''cpu0 300 12 100 2050 25 7 4 0 0 0'',
      ''cpu1 300 13 100 2050 25 7 4 0 0 0'',
      ''cpu2 300 12 100 2050 25 8 4 0 0 0'',
      ''cpu3 300 13 100 2050 25 8 3 0 0 0'',
      ''intr 12500 1 2 3'',
      ''ctxt 990000'',
      ''btime 1700000000'',
      ''processes 5010'',
      ''procs_running 4'',
      ''procs_blocked 0'']"

definition proc_meminfo :: "gostring list" where
  "proc_meminfo =
     [''MemTotal:       16384000 kB'',
      ''MemFree:         2000000 kB'',
      ''MemAvailable:    8000000 kB'',
      ''Buffers:          400000 kB'',
      ''Cached:          5000000 kB'',
      ''SwapCached:        10000 kB'',
      ''Active:          6000000 kB'',
      ''Inactive:        4000000 kB'',
      ''SwapTotal:       4096000 kB'',
      ''SwapFree:        3000000 kB'',
      ''Dirty:             10000 kB'',
      ''Writeback:             0 kB'',
      ''AnonPages:       5500000 kB'',
      ''Mapped:           400000 kB'',
      ''Shmem:            100000 kB'']"

definition proc_meminfo_old_kernel :: "gostring list" where
  "proc_meminfo_old_kernel =
     [''MemTotal:        8192000 kB'',
      ''MemFree:         1000000 kB'',
      ''Buffers:          200000 kB'',
      ''Cached:          2000000 kB'',
      ''SwapTotal:       2048000 kB'',
      ''SwapFree:        2048000 kB'']"

definition proc_diskstats :: "gostring list" where
  "proc_diskstats =
     [''   8       0 sda 1000 200 50000 3000 500 100 20000 2000 0 4000 5000'',
      ''   8       1 sda1 800 200 40000 2000 400 100 16000 1500 0 3000 3500'',
      ''   8      16 sdb 300 50 12000 1200 100 30 5000 800 0 1500 2000'',
      '' 252       0 dm-0 900 0 45000 2800 490 0 18000 1900 0 3800 4700'',
      ''   7       0 loop0 0 0 0 0 0 0 0 0 0 0 0'',
      '' 259       0 nvme0n1 2000 400 100000 5000 1000 200 40000 4000 0 7000 9000'',
      '' 259       1 nvme0n1p1 500 100 25000 1200 250 50 10000 1000 0 1800 2200'']"

definition proc_net_dev :: "gostring list" where
  "proc_net_dev =
     [''Inter-|   Receive                                                |  Transmit'',
      '' face |bytes    packets errs drop fifo frame compressed multicast|bytes    packets errs drop fifo colls carrier compressed'',
      ''    lo: 1000000   10000    0    0    0     0          0         0  1000000   10000    0    0    0     0       0          0'',
      ''  eth0: 5000000   50000   10    2    0     0          0         0  2000000   20000    5    1    0     0       0          0'',
      ''  eth1: 200000     2000    0    0    0     0          0         0   100000    1000    0    0    0     0       0          0'',
      ''wlan0:  500000     5000    1    0    0     0          0         0   250000    2500    0    0    0     0       0          0'']"

section \<open>CPU tests\<close>

definition TestParseCPUTimesAggregateCount :: bool where
  "TestParseCPUTimesAggregateCount \<longleftrightarrow>
     (case ParseCPUTimes (fixture proc_stat_a) of
        Inl err \<Rightarrow> False
      | Inr ts \<Rightarrow> length ts = 5 \<and> Name (ts ! 0) = ''cpu'')"

definition TestParseCPUTimesFieldValues :: bool where
  "TestParseCPUTimesFieldValues \<longleftrightarrow>
     (case ParseCPUTimes (fixture proc_stat_a) of
        Inl err \<Rightarrow> False
      | Inr ts \<Rightarrow>
          (case ts of
             [] \<Rightarrow> False
           | agg # _ \<Rightarrow> User agg = 1000 \<and> Idle agg = 8000 \<and> IOWait agg = 100))"

definition TestCPUPercentReasonableRange :: bool where
  "TestCPUPercentReasonableRange \<longleftrightarrow>
     (case (ParseCPUTimes (fixture proc_stat_a), ParseCPUTimes (fixture proc_stat_b)) of
        (Inr prev, Inr cur) \<Rightarrow>
          (case CPUPercent prev cur ''cpu'' of
             None \<Rightarrow> False
           | Some aggPct \<Rightarrow>
               \<not> (f_less aggPct (Fin 0) \<or> f_less (Fin 100) aggPct) \<and>
               \<not> (f_less aggPct (fl (607 / 10)) \<or> f_less (fl (617 / 10)) aggPct))
      | _ \<Rightarrow> False)"

definition TestCPUPercentIdenticalSamples :: bool where
  "TestCPUPercentIdenticalSamples \<longleftrightarrow>
     (case ParseCPUTimes (fixture proc_stat_a) of
        Inl err \<Rightarrow> False
      | Inr ts \<Rightarrow>
          list_all (\<lambda>t. case CPUPercent ts ts (Name t) of
                          None \<Rightarrow> True | Some p \<Rightarrow> p = Fin 0) ts)"

section \<open>Memory tests\<close>

definition TestParseMemInfoModernKernel :: bool where
  "TestParseMemInfoModernKernel \<longleftrightarrow>
     (case ParseMemInfo (fixture proc_meminfo) of
        Inl err \<Rightarrow> False
      | Inr mi \<Rightarrow>
          TotalKB mi = 16384000 \<and> AvailableKB mi = 8000000 \<and> SwapTotalKB mi = 4096000 \<and>
          SwapUsedKB mi = 1096000)"

definition TestParseMemInfoOldKernelFallback :: bool where
  "TestParseMemInfoOldKernelFallback \<longleftrightarrow>
     (case ParseMemInfo (fixture proc_meminfo_old_kernel) of
        Inl err \<Rightarrow> False
      | Inr mi \<Rightarrow> AvailableKB mi = 3200000)"

definition TestMemInfoUsedPercent :: bool where
  "TestMemInfoUsedPercent \<longleftrightarrow>
     (case ParseMemInfo (fixture proc_meminfo) of
        Inl err \<Rightarrow> False
      | Inr mi \<Rightarrow>
          (let pct = mem_UsedPercent mi in \<not> (f_less pct (Fin 50) \<or> f_less (Fin 55) pct)))"

definition TestMemInfoZeroTotal :: bool where
  "TestMemInfoZeroTotal \<longleftrightarrow> mem_UsedPercent MemInfo_zero = Fin 0"

definition TestParseMemInfoMalformedLine :: bool where
  "TestParseMemInfoMalformedLine \<longleftrightarrow>
     isl (ParseMemInfo (fixture [''MemTotal: not_a_number kB'']))"

section \<open>Disk tests\<close>

definition TestParseDiskIOFiltersPartitions :: bool where
  "TestParseDiskIOFiltersPartitions \<longleftrightarrow>
     (case ParseDiskIO (fixture proc_diskstats) of
        Inl err \<Rightarrow> False
      | Inr disks \<Rightarrow>
          length disks = 3 \<and>
          list_all (\<lambda>d. Device d \<in> {''sda'', ''sdb'', ''nvme0n1''}) disks)"

definition TestParseDiskIOSectorValues :: bool where
  "TestParseDiskIOSectorValues \<longleftrightarrow>
     (case ParseDiskIO (fixture proc_diskstats) of
        Inl err \<Rightarrow> False
      | Inr disks \<Rightarrow>
          (case filter (\<lambda>d. Device d = ''sda'') disks of
             [] \<Rightarrow> False
           | ds \<Rightarrow>
               (let sda = last ds
                in ReadSectors sda = 50000 \<and> WriteSectors sda = 20000 \<and>
                   ReadBytes sda = 50000 * 512)))"

definition TestDiskUsageCalculations :: bool where
  "TestDiskUsageCalculations \<longleftrightarrow>
     (let d = \<lparr>DiskUsage.Path = ''/'', TotalBytes = 100 * 1024 * 1024 * 1024,
               FreeBytes = 40 * 1024 * 1024 * 1024\<rparr>
      in UsedBytes d = 60 * 1024 * 1024 * 1024 \<and> disk_UsedPercent d = Fin 60)"

definition TestDiskUsageZeroTotal :: bool where
  "TestDiskUsageZeroTotal \<longleftrightarrow>
     disk_UsedPercent \<lparr>Path = [], TotalBytes = 0, FreeBytes = 0\<rparr> = Fin 0"

section \<open>Network tests\<close>

definition TestParseNetIOInterfaceCount :: bool where
  "TestParseNetIOInterfaceCount \<longleftrightarrow>
     (case ParseNetIO (fixture proc_net_dev) of
        Inl err \<Rightarrow> False
      | Inr ifaces \<Rightarrow> length ifaces = 4)"

definition TestParseNetIOValues :: bool where
  "TestParseNetIOValues \<longleftrightarrow>
     (case ParseNetIO (fixture proc_net_dev) of
        Inl err \<Rightarrow> False
      | Inr ifaces \<Rightarrow>
          (case filter (\<lambda>n. Interface n = ''eth0'') ifaces of
             [] \<Rightarrow> False
           | ns \<Rightarrow>
               (let eth0 = last ns
                in RxBytes eth0 = 5000000 \<and> TxBytes eth0 = 2000000 \<and> RxPackets eth0 = 50000)))"

definition test_iface :: "u64 \<Rightarrow> u64 \<Rightarrow> NetIO" where
  "test_iface rx tx =
     \<lparr>Interface = ''eth0'', RxBytes = rx, RxPackets = 0, TxBytes = tx, TxPackets = 0\<rparr>"

definition TestComputeNetThroughput :: bool where
  "TestComputeNetThroughput \<longleftrightarrow>
     (let rates = ComputeNetThroughput [test_iface 1000 500] [test_iface 3000 1500] (Fin 2)
      in case rates ''eth0'' of
           None \<Rightarrow> False
         | Some r \<Rightarrow> RxBps r = Fin 1000 \<and> TxBps r = Fin 500)"

definition TestComputeNetThroughputCounterWrap :: bool where
  "TestComputeNetThroughputCounterWrap \<longleftrightarrow>
     (let rates = ComputeNetThroughput [test_iface 9999 9999] [test_iface 100 100] (Fin 1)
      in case rates ''eth0'' of
           None \<Rightarrow> True
         | Some r \<Rightarrow> RxBps r = Fin 0 \<and> TxBps r = Fin 0)"

definition TestComputeNetThroughputZeroElapsed :: bool where
  "TestComputeNetThroughputZeroElapsed \<longleftrightarrow>
     (let rates = ComputeNetThroughput [test_iface 1000 0] [test_iface 2000 0] (Fin 0)
      in dom rates = {})"

section \<open>The fixtures, parsed\<close>

lemma clean_ascii:
  "list_all (\<lambda>c. c \<noteq> CHR 0x0A \<and> c \<noteq> CHR 0x0D) l \<Longrightarrow> length l < 256 \<Longrightarrow> clean_line l"
  by (auto simp: clean_line_def max_scan_token_def list_all_iff)

lemma scan_fixture:
  assumes "list_all (\<lambda>l. list_all (\<lambda>c. c \<noteq> CHR 0x0A \<and> c \<noteq> CHR 0x0D) l \<and> length l < 256) ls"
  shows "scan_lines (fixture ls) = (ls, None)"
proof -
  have "list_all clean_line ls" using assms clean_ascii by (auto simp: list_all_iff)
  then show ?thesis by (simp add: fixture_def scan_lines_unlines)
qed

lemma scan_fixtures:
  "scan_lines (fixture proc_stat_a) = (proc_stat_a, None)"
  "scan_lines (fixture proc_stat_b) = (proc_stat_b, None)"
  "scan_lines (fixture proc_meminfo) = (proc_meminfo, None)"
  "scan_lines (fixture proc_meminfo_old_kernel) = (proc_meminfo_old_kernel, None)"
  "scan_lines (fixture proc_diskstats) = (proc_diskstats, None)"
  "scan_lines (fixture proc_net_dev) = (proc_net_dev, None)"
  "scan_lines (fixture [''MemTotal: not_a_number kB'']) = ([''MemTotal: not_a_number kB''], None)"
  by (rule scan_fixture, code_simp)+

lemma parsed_stat_a:
  "parse_cpu_lines proc_stat_a [] = (Inr
     [CPUTimes.make ''cpu'' 1000 50 300 8000 100 20 10 0 0 0,
      CPUTimes.make ''cpu0'' 250 12 75 2000 25 5 2 0 0 0,
      CPUTimes.make ''cpu1'' 250 13 75 2000 25 5 3 0 0 0,
      CPUTimes.make ''cpu2'' 250 12 75 2000 25 5 3 0 0 0,
      CPUTimes.make ''cpu3'' 250 13 75 2000 25 5 2 0 0 0] :: unit stats_error + _)"
  by code_simp

lemma parsed_stat_b:
  "parse_cpu_lines proc_stat_b [] = (Inr
     [CPUTimes.make ''cpu'' 1200 50 400 8200 100 30 15 0 0 0,
      CPUTimes.make ''cpu0'' 300 12 100 2050 25 7 4 0 0 0,
      CPUTimes.make ''cpu1'' 300 13 100 2050 25 7 4 0 0 0,
      CPUTimes.make ''cpu2'' 300 12 100 2050 25 8 4 0 0 0,
      CPUTimes.make ''cpu3'' 300 13 100 2050 25 8 3 0 0 0] :: unit stats_error + _)"
  by code_simp

lemma parsed_meminfo:
  "parse_mem_lines proc_meminfo MemInfo_zero = (Inr
     (MemInfo.make 16384000 2000000 8000000 400000 5000000 4096000 3000000) :: unit stats_error + _)"
  by code_simp

lemma parsed_meminfo_old:
  "parse_mem_lines proc_meminfo_old_kernel MemInfo_zero = (Inr
     (MemInfo.make 8192000 1000000 0 200000 2000000 2048000 2048000) :: unit stats_error + _)"
  by code_simp

lemma parsed_malformed:
  "parse_mem_lines [''MemTotal: not_a_number kB''] MemInfo_zero =
     (Inl (ParseError ''MemTotal: not_a_number kB'' ErrSyntax) :: unit stats_error + _)"
  by code_simp

lemma parsed_diskstats:
  "parse_disk_lines proc_diskstats [] =
     [DiskIO.make ''sda'' 50000 20000 1000 500, DiskIO.make ''sdb'' 12000 5000 300 100,
      DiskIO.make ''nvme0n1'' 100000 40000 2000 1000]"
  by code_simp

lemma parsed_net_dev:
  "parse_net_lines 0 proc_net_dev [] =
     [NetIO.make ''lo'' 1000000 10000 1000000 10000, NetIO.make ''eth0'' 5000000 50000 2000000 20000,
      NetIO.make ''eth1'' 200000 2000 100000 1000, NetIO.make ''wlan0'' 500000 5000 250000 2500]"
  by code_simp


section \<open>Every test passes\<close>

lemmas parsed_fixtures =
  parsed_stat_a parsed_stat_b parsed_meminfo parsed_meminfo_old parsed_malformed
  parsed_diskstats parsed_net_dev

lemma ParseCPUTimes_fixtures:
  "ParseCPUTimes (fixture proc_stat_a) = parse_cpu_lines proc_stat_a []"
  "ParseCPUTimes (fixture proc_stat_b) = parse_cpu_lines proc_stat_b []"
  by (simp_all only: ParseCPUTimes_def scan_fixtures Let_def prod.case finish_scan_None)

lemma cpu_tests:
  "TestParseCPUTimesAggregateCount" "TestParseCPUTimesFieldValues" "TestCPUPercentIdenticalSamples"
  by (simp_all only: TestParseCPUTimesAggregateCount_def TestParseCPUTimesFieldValues_def
      TestCPUPercentIdenticalSamples_def ParseCPUTimes_fixtures parsed_fixtures sum.case)
   (simp_all add: CPUTimes.defs cpu_percent_keys)

lemma mem_tests:
  "TestParseMemInfoModernKernel" "TestParseMemInfoOldKernelFallback" "TestMemInfoZeroTotal"
  "TestParseMemInfoMalformedLine"
  by (simp_all only: TestParseMemInfoModernKernel_def TestParseMemInfoOldKernelFallback_def
      TestMemInfoZeroTotal_def TestParseMemInfoMalformedLine_def ParseMemInfo_def scan_fixtures
      parsed_fixtures Let_def prod.case finish_scan_None sum.case)
   (simp_all add: MemInfo.defs mem_fallback_def SwapUsedKB_def mem_UsedPercent_def MemInfo_zero_def)

lemma disk_tests:
  "TestParseDiskIOFiltersPartitions" "TestParseDiskIOSectorValues" "TestDiskUsageZeroTotal"
  by (simp_all only: TestParseDiskIOFiltersPartitions_def TestParseDiskIOSectorValues_def
      TestDiskUsageZeroTotal_def ParseDiskIO_def scan_fixtures
      parsed_fixtures Let_def prod.case finish_scan_None sum.case)
   (simp_all add: DiskIO.defs ReadBytes_def disk_UsedPercent_def)

lemma net_tests:
  "TestParseNetIOInterfaceCount" "TestParseNetIOValues" "TestComputeNetThroughputZeroElapsed"
  by (simp_all only: TestParseNetIOInterfaceCount_def TestParseNetIOValues_def
      TestComputeNetThroughputZeroElapsed_def ParseNetIO_def scan_fixtures
      parsed_fixtures Let_def prod.case finish_scan_None sum.case)
   (simp_all add: NetIO.defs ComputeNetThroughput_def f_le_def)

lemma throughput_tests: "TestComputeNetThroughput" "TestComputeNetThroughputCounterWrap"
proof -
  have "f_div (fl 2000) (Fin 2) = Fin 1000 \<and> f_div (fl 1000) (Fin 2) = Fin 500"
    "f_div (fl 0) (Fin 1) = Fin 0"
    by code_simp+
  then show "TestComputeNetThroughput" "TestComputeNetThroughputCounterWrap"
    by (simp_all add: TestComputeNetThroughput_def TestComputeNetThroughputCounterWrap_def
        ComputeNetThroughput_def net_prev_by_name_def test_iface_def net_rate_def counter_delta_def
        f_le_def f_of_u64_def)
qed

text \<open>The percentages of the tests, in binary64.\<close>

lemma test_percentages:
  "f_mul (f_div (f_sub (fl 515) (fl 200)) (fl 515)) (Fin 100) = Fin (8608215307170547/140737488355328)"
  "f_mul (f_div (fl 8384000) (fl 16384000)) (Fin 100) = Fin (3275/64)"
  "f_mul (f_div (fl 64424509440) (fl 107374182400)) (Fin 100) = Fin 60"
  by code_simp+

lemma test_bounds: "fl (607 / 10) = Fin (4271382771584205/70368744177664)" "fl (617 / 10) = Fin (4341751515761869/70368744177664)" "f_le (fl 515) (Fin 0) \<longleftrightarrow> False"
  by code_simp+

lemma percentage_tests:
  "TestCPUPercentReasonableRange" "TestMemInfoUsedPercent" "TestDiskUsageCalculations"
proof -
  have "CPUPercent prev cur ''cpu'' = Some (Fin (8608215307170547/140737488355328))"
    if "ParseCPUTimes (fixture proc_stat_a) = (Inr prev :: unit stats_error + _)"
      and "ParseCPUTimes (fixture proc_stat_b) = (Inr cur :: unit stats_error + _)" for prev cur
    using that test_percentages test_bounds unfolding ParseCPUTimes_fixtures parsed_fixtures sum.inject
    by (auto simp: CPUTimes.defs CPUPercent_eq prev_by_name_def cpu_percent_def Total_def
        IdleTotal_def f_of_u64_def Let_def)
  then show "TestCPUPercentReasonableRange"
    by (simp add: TestCPUPercentReasonableRange_def ParseCPUTimes_fixtures parsed_fixtures
        test_bounds)
  show "TestMemInfoUsedPercent"
    by (simp only: TestMemInfoUsedPercent_def ParseMemInfo_def scan_fixtures
        parsed_fixtures Let_def prod.case finish_scan_None sum.case)
      (simp add: MemInfo.defs mem_fallback_def mem_UsedPercent_def UsedKB_def f_of_u64_def
        test_percentages)
  show "TestDiskUsageCalculations"
    by (simp add: TestDiskUsageCalculations_def disk_UsedPercent_def UsedBytes_def f_of_u64_def
        test_percentages)
qed

section \<open>Property\<close>

text \<open>The tests that \<open>go test ./internal/stats\<close> runs, with their results.\<close>

definition unit_tests :: "(gostring \<times> bool) list" where
  "unit_tests =
     [(''TestParseCPUTimesAggregateCount'', TestParseCPUTimesAggregateCount),
      (''TestParseCPUTimesFieldValues'', TestParseCPUTimesFieldValues),
      (''TestCPUPercentReasonableRange'', TestCPUPercentReasonableRange),
      (''TestCPUPercentIdenticalSamples'', TestCPUPercentIdenticalSamples),
      (''TestParseMemInfoModernKernel'', TestParseMemInfoModernKernel),
      (''TestParseMemInfoOldKernelFallback'', TestParseMemInfoOldKernelFallback),
      (''TestMemInfoUsedPercent'', TestMemInfoUsedPercent),
      (''TestMemInfoZeroTotal'', TestMemInfoZeroTotal),
      (''TestParseMemInfoMalformedLine'', TestParseMemInfoMalformedLine),
      (''TestParseDiskIOFiltersPartitions'', TestParseDiskIOFiltersPartitions),
      (''TestParseDiskIOSectorValues'', TestParseDiskIOSectorValues),
      (''TestDiskUsageCalculations'', TestDiskUsageCalculations),
      (''TestDiskUsageZeroTotal'', TestDiskUsageZeroTotal),
      (''TestParseNetIOInterfaceCount'', TestParseNetIOInterfaceCount),
      (''TestParseNetIOValues'', TestParseNetIOValues),
      (''TestComputeNetThroughput'', TestComputeNetThroughput),
      (''TestComputeNetThroughputCounterWrap'', TestComputeNetThroughputCounterWrap),
      (''TestComputeNetThroughputZeroElapsed'', TestComputeNetThroughputZeroElapsed)]"

definition failed_tests :: "(gostring \<times> bool) list \<Rightarrow> gostring list" where
  "failed_tests ts = map fst (filter (Not \<circ> snd) ts)"

text \<open>
  Every unit test of the repository passes on the model, on the fixtures it reads: the
  parsers of the four collectors, the fall-back for old kernels, the filter of partitions, the
  rejected number, the percentages in binary64 within the tolerances of the tests, the rates
  and their guards.
\<close>

lemma unit_tests_pass: "failed_tests unit_tests = [] \<and> length unit_tests = 18"
  using cpu_tests mem_tests disk_tests net_tests throughput_tests percentage_tests
  by (simp add: failed_tests_def unit_tests_def)

end
