(* ===== verification/Spec2Isabelle.thy ===== *)
theory Spec2Isabelle
  imports Linearizable RawSessions Bindings Loops Messages Shutdown VmlinuxEnums VmlinuxStructs UnitTests
begin

text \<open>
  Verification library of \<open>sysmon\<close>, a terminal system monitor for Linux: a BPF program that
  measures block I/O latencies in the kernel, a loader that reads its histogram, collectors
  that parse \<open>/proc\<close>, and a program that samples, computes rates and renders a screen.

  \<^bold>\<open>How the program works\<close>

  On every tick \<open>run\<close> (\<open>src/cmd/sysmon/main.go\<close>) calls the collectors of \<open>src/internal/stats/\<close>,
  computes percentages and rates from this sample and the previous one, reads and resets the
  latency histogram through \<open>src/internal/ebpf/loader.go\<close>, and prints one screen. Meanwhile the
  two tracepoint handlers of \<open>src/internal/ebpf/block_latency.c\<close> run in the kernel on any CPU:
  the issue of a request stores its start time under a key, its completion looks the start time
  up, deletes it and adds one to the bucket of the elapsed microseconds. The two sides share
  only the BPF maps.

  \<^bold>\<open>The theories, bottom up\<close>

  \<open>Prelude\<close>: machine integers as \<open>w word\<close>, their transfer to natural numbers, byte strings.

  \<open>CLayout\<close>, \<open>VmlinuxTypes\<close>, \<open>VmlinuxTrace1\<close>--\<open>VmlinuxTrace7\<close>, \<open>VmlinuxEvents\<close>: the kernel
  types of \<open>src/internal/ebpf/vmlinux.h\<close>. \<open>CLayout\<close> is the C layout algorithm (alignment,
  offsets, packed structures, bytes in either order). The tables hold all 692 structures
  \<open>struct trace_event_raw_*\<close> of the header and the types they use, one definition each.
  \<open>VmlinuxEvents\<close> shows that every context is laid out soundly behind the common
  \<open>trace_entry\<close>, and what the loads \<open>ctx->dev\<close> and \<open>ctx->sector\<close> of both handlers read, in the
  layout of the header and in any other that relocation may meet.

  \<open>EnumDecl\<close>, \<open>VmlinuxEnum1\<close>--\<open>VmlinuxEnum20\<close>, \<open>VmlinuxEnumWide\<close>, \<open>VmlinuxEnums\<close>: all 2730
  enumerations of the header, \<open>enumdecl_<tag>\<close> or \<open>enumdecl_line_<n>\<close>, with the size the
  compiler gives them; those that members of contexts have are of four bytes, as \<open>CLayout\<close>
  assumes, and \<open>bpf_map_type\<close> gives the kinds of the maps.

  \<open>CStructs\<close>, \<open>VmlinuxTypedefs\<close>, \<open>VmlinuxStruct1\<close>--\<open>VmlinuxStruct15\<close>, \<open>VmlinuxStructs\<close>: structures
  and unions of the header outside the contexts. \<open>CStructs\<close> lays out any C aggregate (bit-fields,
  unions, anonymous and nested members, arrays, packed types) and proves that no layout is
  unsound; the tables hold 2304 aggregates, \<open>st_<tag>\<close> and \<open>un_<tag>\<close>, with the type names they
  use. The sizes that other specifications fix (IP, TCP and ELF headers, \<open>stat\<close>, \<open>bpf_insn\<close>,
  \<open>io_uring\<close> entries, the ext4 super block, ACPI tables) come out, and on the contexts the general
  layout agrees with \<open>CLayout\<close>.

  \<open>BpfMaps\<close>: the hash and the array map as interfaces (\<open>bpf_hash\<close>, \<open>bpf_array\<close>: the laws of
  lookup, update and delete, the bound on the entries) with a reference instance, which stands for
  the kernel's maps and is not a translation of code.

  \<open>BlockLatency\<close>: \<open>pack_key\<close>, \<open>bucket_for\<close>, \<open>trace_rq_issue\<close>, \<open>trace_rq_complete\<close> and the
  declarations of the two maps (10240 entries, 24 buckets), one definition per C function.

  \<open>BpfObject\<close>: what the C file declares besides code: the maps with kinds, sizes and C types,
  the programs with sections and context types, the licence. \<open>ByteMaps\<close>: a second reference
  instance, the maps as the bytes the kernel stores; views through an injective encoding obey the
  same laws (\<open>encoded_hash\<close>), and the handlers on bytes of either order follow the typed run.

  \<open>LatencyMonitor\<close>: an abstract monitor (pending start times, list of samples) as the
  specification; the handlers refine it over any maps that obey the laws (\<open>latency_maps\<close>).

  \<open>Loader\<close>, \<open>HistogramAccess\<close>, \<open>CollectorLifecycle\<close>: \<open>loader.go\<close> and the clean-up functions of
  \<open>blocklatency_bpfel.go\<close> over a parameter \<open>bpf_api\<close> for the library \<open>cilium/ebpf\<close>. What they rely
  on are the locales \<open>histogram_map\<close> (element accesses) and \<open>bpf_runtime\<close>, \<open>reliable_runtime\<close>
  (handles); \<open>kernel_api\<close> instantiates them on the maps of the BPF program, each call acting on the
  map its handle names and failing on any other. Shown: what
  \<open>ReadHistogram\<close> returns are the samples the handlers took, resetting starts a new interval,
  labels and bars are right, and \<open>NewCollector\<close> and \<open>Close\<close> leak no handle.

  \<open>Bindings\<close>: the tagged structures of the generated bindings, the calls of \<open>link.Tracepoint\<close>
  and the build constraints of the package, against the declarations of \<open>BpfObject\<close>.

  \<open>Concurrent\<close>: the handlers on several CPUs interleaved with reading and resetting, one
  helper or system call per step, as an inductive relation; an invariant accounts for every
  sample, and the sequential model is contained in it. Each step carries the agent that takes it,
  a CPU or the display; a handler is done after a fixed number of its own steps in any run.
  \<open>Linearizable\<close>: as long as no two handlers work on one key at a time, the interleaved run has
  the outcome of the abstract monitor on the committed events, in the order of their updates and
  deletions (\<open>committed\<close>).

  \<open>GoStrings\<close>, \<open>GoFloat\<close>, \<open>Terminal\<close>: what the Go sources use of their standard library
  (searching, fields and trimming of strings, \<open>ParseUint\<close>, \<open>bufio.Scanner\<close>, the verbs of \<open>fmt\<close>;
  binary64 arithmetic with its rounding; symbols, conversions, \<open>strings.Repeat\<close>).

  \<open>CpuStats\<close>, \<open>MemStats\<close>, \<open>DiskStats\<close>, \<open>NetStats\<close>: the four collectors, a record, a parser and
  the derived figures each. Shown: parsers invert the kernel's format and report malformed
  input as the code says, \<open>ParseDiskIO\<close> keeps exactly the whole disks among the device names of the
  common drivers, percentages are finite, within 0..100 and within \<open>2^-45\<close> of the exact quotient,
  rates never wrap; and what becomes of CPU counters that go backwards.

  \<open>Render\<close>: \<open>bar\<close>, \<open>humanBytes\<close>, \<open>render\<close>; no screen makes the program panic. \<open>Loops\<close>: the loop of
  \<open>humanBytes\<close> as a \<open>while\<close>, with its termination. \<open>SysmonRun\<close>: \<open>run\<close> with its error returns,
  deferred calls and signal exit as a state machine of start-up and ticks (\<open>proc_step\<close>,
  \<open>proc_reach\<close>) under the locale \<open>collector_runtime\<close>; every end restores cursor and handles.
  \<open>SysmonMain\<close>: the process, call by call also within a tick (\<open>main_step\<close>, \<open>tick_call\<close>), with the
  signal goroutine, the kernel at work in between and the exit codes (\<open>process_step\<close>); it has the
  runs of \<open>SysmonRun\<close> among its own. The signals that \<open>run\<close> does not ask for (\<open>other_signal\<close>: SIGHUP,
  SIGPIPE, SIGKILL, and SIGQUIT with the stack dump and code 2) end it at any time
  (\<open>process_ends\<close>). \<open>Messages\<close>: the text of the errors that \<open>main\<close> prints, with
  quoting as \<open>strconv.Quote\<close> does it; nothing quoted from a file can reach the terminal as a
  control character. \<open>Shutdown\<close>: on every fair schedule of \<open>main\<close>, goroutine and kernel a signal
  ends the process, with the cursor visible.

  \<open>Sessions\<close>: ticks alternating with events of the kernel, under the locale \<open>displayed_maps\<close>;
  the screens show exactly the samples of their intervals. \<open>RawSessions\<close>: the same from raw
  contexts on byte maps, the instance on which this theory joins the kernel side and the
  display.

  \<open>UnitTests\<close>: the 18 test functions of \<open>src/internal/stats/\<close> as Booleans over the model, on the
  files of \<open>testdata/\<close> as texts; all of them hold, which checks the model against the
  expectations of the program's authors.

  \<^bold>\<open>Conventions and bounds\<close>

  Counters are 64-bit words and wrap. A \<open>float64\<close> is \<open>Fin q\<close> with \<open>q\<close> the exact rational value,
  an infinity or \<open>NaN\<close>; every operation rounds the exact result, and the two zeros are one.
  Conversions of a float outside the range of the integer type are implementation-defined in
  Go and a parameter (\<open>oor\<close>, \<open>oor64\<close>). Clock readings are integers in nanoseconds, their difference
  saturates at 64 bits (\<open>time_sub\<close>). Errors are values of sum types, a panic is \<open>None\<close> or an
  exit status. Loops are structural recursions, or recursions with a measure (the bucket index
  counts up to 24; the loop of \<open>humanBytes\<close> divides a 64-bit value and takes five rounds at
  most); no fuel is used.

  \<^bold>\<open>Not modelled\<close>

  The kernel, the BPF verifier and JIT, the compiler and the library \<open>cilium/ebpf\<close> are parameters
  with stated laws. Of \<open>vmlinux.h\<close> the BTF data and the remaining aggregates are left out: the
  program uses none of them, the layout results hold for every type, and another table of the
  same form would add no behaviour. The texts of system errors and of panics are parameters,
  and so is which runes beyond ASCII are printable. The parsing of the command line is a
  library call whose result is an argument. Of the signals that \<open>run\<close> does
  not ask for, those that stop and continue the process and the faults of the processor are left
  out. Each call that \<open>run\<close> makes is a
  single step of the process; the system calls of reading and resetting the histogram are
  interleaved with the handlers in \<open>Concurrent\<close>. For the
  embedded object files stand the declarations of their source. The \<open>go:generate\<close> directive,
  packaging and documentation hold no code; where they contradict the code, the manifest says
  so.
\<close>

section \<open>The kernel side and the display\<close>

text \<open>
  C2. End to end: between ticks the kernel hands raw contexts to the handlers, laid out as in
  any kernel whose two types have the members (packed or not, in any order), with anything else
  in them, on either byte order; the handlers work on the maps as bytes; each tick reads and
  resets the histogram through the library and prints a screen. Whatever the numbers of ticks
  and events, if the collectors succeed the program is still running, has printed one screen per
  tick, and each screen ends with the latency section of exactly the samples completed since the
  screen before it (requests issued before it included); the samples of all screens together are
  those of an uninterrupted run of the abstract monitor, none shown twice and none lost.
\<close>

theorem screens_show_their_intervals:
  assumes "request_context T1" and "request_context T2"
    and "list_all (\<lambda>(evs, os). list_all (context_fits T1 T2) evs \<and> sources_ok mountPath os) ticks"
    and "bpfCol l = Some c" and "snd (lworld l) = byte_initial"
  shows "let uss = interval_samples start_times_max_entries (map (map snd \<circ> fst) ticks) empty_monitor
    in (\<exists>l' screens.
          session (byte_api e) oor oor64 mountPath (fire_raw e T1 T2) ticks l = Running l' \<and>
          lwrites l' = lwrites l @ map (Pair Stdout) screens \<and>
          list_all2 (shows_samples oor) uss screens) \<and>
       concat (rev uss) = samples (monitor_run start_times_max_entries
         (map snd (concat (map fst ticks))) empty_monitor)"
proof -
  let ?ess = "map (map snd \<circ> fst) ticks"
  have "\<exists>l' screens.
      session (byte_api e) oor oor64 mountPath (fire_raw e T1 T2) ticks l = Running l' \<and>
      lwrites l' = lwrites l @ map (Pair Stdout) screens \<and>
      list_all2 (shows_samples oor)
        (interval_samples start_times_max_entries ?ess empty_monitor) screens"
    using assms(3-5) fire_raw_maps [OF assms(1,2)] byte_display_start
    by (intro byte_display.session_shows [where m = empty_monitor]) (auto simp: list_all_iff)
  then show ?thesis
    using interval_samples_concat [of start_times_max_entries ?ess empty_monitor]
    by (simp add: map_concat)
qed

theorem screens_show_their_intervals_witness:
  "\<exists>l' screens.
    session (byte_api BigEndian) (\<lambda>_. 0) (\<lambda>_. 0) ''/'' (fire_raw BigEndian relocated_rq
      trace_event_raw_block_rq_completion) raw_ticks raw_loop = Running l' \<and>
    lwrites l' = lwrites raw_loop @ map (Pair Stdout) screens \<and>
    list_all2 (shows_samples (\<lambda>_. 0)) [[], [42]] screens"
proof -
  have run: "[[], [42]] = interval_samples start_times_max_entries
      (map (map snd \<circ> fst) raw_ticks) empty_monitor"
    by (simp add: raw_ticks_def monitor_run_def empty_monitor_def has_room_def latency_us_def
        start_times_max_entries_def)
  have quiet: "sources_ok ''/'' quiet_proc"
    by (simp add: sources_ok_def quiet_proc_def ReadCPUTimes_def ReadNetIO_def ReadMemInfo_def
        ReadDiskUsage_def ParseCPUTimes_def ParseNetIO_def ParseMemInfo_def scan_lines_def
        finish_scan_def)
  show ?thesis unfolding run
    by (rule screens_show_their_intervals [unfolded Let_def, THEN conjunct1])
      (simp_all add: block_rq_contexts quiet raw_ticks_def raw_loop_def)
qed

text \<open>
  On the typed maps, over two refreshes: what a tick reads are the samples taken so
  far, what the next tick reads are exactly the samples completed in between, requests that
  were pending at the first tick included; and the section is printed without a panic.
\<close>

lemma display_shows_new_activity:
  "let (bs1, w1) = read_and_reset kernel_api (Some c)
         (w\<lparr>kmaps := run_events kernel_helpers es1 initial_maps\<rparr>);
       (bs2, w2) = read_and_reset kernel_api (Some c)
         (w1\<lparr>kmaps := run_events kernel_helpers es2 (kmaps w1)\<rparr>);
       m1 = monitor_run start_times_max_entries es1 empty_monitor;
       m2 = monitor_run start_times_max_entries es2 (m1\<lparr>samples := []\<rparr>)
   in bs1 = histogram_of (samples m1) \<and> bs2 = histogram_of (samples m2) \<and>
      (\<exists>section. render_latency oor bs2 = Some section)"
proof -
  let ?w = "w\<lparr>kmaps := run_events kernel_helpers es1 initial_maps\<rparr>"
  obtain err w1 where r: "ResetHistogram kernel_api c ?w = (err, w1)" by (rule prod.exhaust)
  show ?thesis
    using read_counts [where c = c and w = w and es = es1]
      reset_starts_interval [where ?es1.0 = es1 and ?es2.0 = es2 and c = c and w = w]
      render_latency_total
    by (simp add: read_and_reset_def r Let_def histogram_of_def del: map_eq_conv)
qed

end
